(* ===== verification/Prelude.thy ===== *)
theory Prelude
  imports Complex_Main "HOL-Library.Word"
begin

text \<open>
  The vocabulary every theory of the development shares: the byte and tag types of the wire
  format, the exceptions a JavaScript computation can throw, and the error monad in which the
  translated functions are written. A function of the source that may throw returns
  \<open>js_error + 'a\<close>: \<^term>\<open>Inl e\<close> is a thrown exception, \<^term>\<open>Inr x\<close> a normal return.

  The combinators follow the statement forms of the source: \<open>bindE\<close> is the sequencing of two
  expressions, \<open>seqE\<close> a block of statements on one mutable object, \<open>whenE\<close> an \<open>if\<close> without
  \<open>else\<close>, \<open>someE\<close> an \<open>if (x !== undefined)\<close>, \<open>forE\<close> a \<open>for ... of\<close> loop, \<open>mapE\<close> an \<open>Array.map\<close> whose callback may throw.
\<close>

type_synonym byte = "8 word"
type_synonym bytes = "byte list"
type_synonym u32 = "32 word"

datatype js_error =
    TypeError string
  | RangeError string
  | Error string
  | InvalidCharacterError
  | LibraryError string
  | Diverges

type_synonym 'a result = "js_error + 'a"

named_theorems codec_rules \<open>rules that step through an encoder and the switch of its decoder\<close>
named_theorems fwd_rules \<open>rules that a reader operation only moves forward\<close>
named_theorems json_rules \<open>rules that read back a field of a JSON object\<close>
named_theorems range_rules \<open>rules for the values a decoder can put into a message\<close>


section \<open>Definitions\<close>

fun bindE :: "'a result \<Rightarrow> ('a \<Rightarrow> 'b result) \<Rightarrow> 'b result" where
  "bindE (Inl e) f = Inl e"
| "bindE (Inr x) f = f x"

fun seqE :: "('s \<Rightarrow> 's result) list \<Rightarrow> 's \<Rightarrow> 's result" where
  "seqE [] s = Inr s"
| "seqE (f # fs) s = bindE (f s) (seqE fs)"

definition whenE :: "bool \<Rightarrow> ('s \<Rightarrow> 's result) \<Rightarrow> 's \<Rightarrow> 's result" where
  "whenE c f s = (if c then f s else Inr s)"

fun forE :: "('a \<Rightarrow> 's \<Rightarrow> 's result) \<Rightarrow> 'a list \<Rightarrow> 's \<Rightarrow> 's result" where
  "forE f [] s = Inr s"
| "forE f (x # xs) s = bindE (f x s) (forE f xs)"

definition someE :: "'a option \<Rightarrow> ('a \<Rightarrow> 's \<Rightarrow> 's result) \<Rightarrow> 's \<Rightarrow> 's result" where
  "someE x f s = (case x of None \<Rightarrow> Inr s | Some v \<Rightarrow> f v s)"

fun mapE :: "('a \<Rightarrow> 'b result) \<Rightarrow> 'a list \<Rightarrow> 'b list result" where
  "mapE f [] = Inr []"
| "mapE f (x # xs) = bindE (f x) (\<lambda>y. bindE (mapE f xs) (\<lambda>ys. Inr (y # ys)))"

text \<open>The nullish coalescing operator \<open>v ?? d\<close>: \<^const>\<open>None\<close> stands for \<open>undefined\<close> and \<open>null\<close>.\<close>

fun nullish :: "'a option \<Rightarrow> 'a \<Rightarrow> 'a" where
  "nullish None d = d"
| "nullish (Some v) d = v"

text \<open>A \<open>switch\<close> over numbers whose cases do not fall through.\<close>

fun js_switch :: "'k \<Rightarrow> ('k \<times> 'a) list \<Rightarrow> 'a \<Rightarrow> 'a" where
  "js_switch k [] d = d"
| "js_switch k ((k', a) # cs) d = (if k = k' then a else js_switch k cs d)"


section \<open>Lemmas on the error monad\<close>

lemma bindE_Inr_conv: "bindE r f = Inr y \<longleftrightarrow> (\<exists>x. r = Inr x \<and> f x = Inr y)"
  by (cases r) auto

lemma bindE_Inl_conv: "bindE r f = Inl e \<longleftrightarrow> r = Inl e \<or> (\<exists>x. r = Inr x \<and> f x = Inl e)"
  by (cases r) auto

lemma bindE_assoc: "bindE (bindE r f) g = bindE r (\<lambda>x. bindE (f x) g)"
  by (cases r) auto

lemma bindE_Inr_right [simp]: "bindE r Inr = r"
  by (cases r) auto

lemma bindE_if_Inr: "bindE (if c then Inr x else Inr y) f = f (if c then x else y)"
  by simp

lemma bindE_cong_right: "(\<And>x. f x = g x) \<Longrightarrow> bindE r f = bindE r g"
  by (cases r) auto

lemma bindE_cong_when: "(\<And>x. r = Inr x \<Longrightarrow> f x = g x) \<Longrightarrow> bindE r f = bindE r g"
  by (cases r) auto

lemma seqE_append: "seqE (fs @ gs) s = bindE (seqE fs s) (seqE gs)"
  by (induction fs arbitrary: s) (auto simp: bindE_assoc intro: bindE_cong_right)

lemma seqE_fun: "seqE (f # fs) = (\<lambda>s. bindE (f s) (seqE fs))"
  by (simp add: fun_eq_iff)

lemma whenE_const: "whenE True f = f" "whenE False f = Inr"
  by (simp_all add: fun_eq_iff whenE_def)

lemma seqE_Nil [simp]: "seqE [] = Inr"
  by (rule ext) simp

lemma seqE_single [simp]: "seqE [f] = f"
  by (rule ext) simp

lemma forE_append: "forE f (xs @ ys) s = bindE (forE f xs s) (forE f ys)"
  by (induction xs arbitrary: s) (auto simp: bindE_assoc intro: bindE_cong_right)

lemma mapE_Inr: "(\<And>x. x \<in> set xs \<Longrightarrow> f x = Inr (g x)) \<Longrightarrow> mapE f xs = Inr (map g xs)"
  by (induction xs) auto

lemma mapE_map: "mapE f (map g xs) = mapE (\<lambda>x. f (g x)) xs"
  by (induction xs) auto

lemma mapE_length: "mapE f xs = Inr ys \<Longrightarrow> length ys = length xs"
  by (induction xs arbitrary: ys) (auto simp: bindE_Inr_conv)

lemma mapE_Inl: "mapE f xs = Inl e \<Longrightarrow> \<exists>x \<in> set xs. f x = Inl e"
  by (induction xs) (auto simp: bindE_Inl_conv)

lemma nullish_simps' [simp]:
  "nullish (map_option f x) (f d) = f (nullish x d)"
  by (cases x) auto

lemma js_switch_cases: "js_switch k cs d = d \<or> js_switch k cs d \<in> snd ` set cs"
  by (induction k cs d rule: js_switch.induct) auto

lemma js_switch_default: "k \<notin> fst ` set cs \<Longrightarrow> js_switch k cs d = d"
  by (induction k cs d rule: js_switch.induct) auto

lemma js_switch_P: "P d \<Longrightarrow> (\<And>a. a \<in> snd ` set cs \<Longrightarrow> P a) \<Longrightarrow> P (js_switch k cs d)"
  using js_switch_cases [of k cs d] by metis

end
