(* ===== verification/JsNumber.thy ===== *)
theory JsNumber
  imports Prelude "HOL-Library.Log_Nat"
begin

text \<open>
  JavaScript numbers and strings. A number is a double: \<open>NaN\<close>, an infinity, or a finite value,
  held here as the rational it denotes (the two zeros are one value: nothing in the modelled code
  tells them apart). Every arithmetic operation computes the exact rational and rounds it to the
  nearest double, ties to even (\<open>to_double\<close>). A string is the list of its UTF-16 code units.

  The lemmas show that integers up to \<open>2^53\<close> are doubles, that rounding an integer above
  \<open>Number.MAX_SAFE_INTEGER\<close> stays above it, how far rounding can move a value, and that the
  decimal rendering of an integer reads back as that integer. They are what \<open>longToNumber\<close> and the
  conversions between \<open>Date\<close> and \<open>Timestamp\<close> rest on.
\<close>

type_synonym jsstring = "16 word list"

datatype (plugins only: code size) number = NaN | PosInf | NegInf | Num rat


section \<open>Rounding to a double\<close>

definition flog2 :: "rat \<Rightarrow> int" where
  "flog2 q = (let (a, b) = quotient_of q; k = bitlen a - bitlen b
              in if 2 powi k \<le> q then k else k - 1)"

definition round_even :: "rat \<Rightarrow> int" where
  "round_even q = (let f = \<lfloor>q\<rfloor>; d = q - of_int f
                   in if d < 1 / 2 then f else if d > 1 / 2 then f + 1
                      else if even f then f else f + 1)"

definition double_exp :: "rat \<Rightarrow> int" where
  "double_exp q = max (- 1074) (flog2 \<bar>q\<bar> - 52)"

definition round53 :: "rat \<Rightarrow> rat" where
  "round53 q = of_int (round_even (\<bar>q\<bar> / 2 powi double_exp q)) * 2 powi double_exp q"

definition to_double :: "rat \<Rightarrow> number" where
  "to_double q =
     (if q = 0 then Num 0
      else if round53 q \<ge> 2 ^ 1024 then (if q > 0 then PosInf else NegInf)
      else Num (sgn q * round53 q))"

text \<open>The numbers that are doubles: those rounding leaves alone.\<close>

definition is_double :: "number \<Rightarrow> bool" where
  "is_double n = (case n of Num q \<Rightarrow> to_double q = Num q | _ \<Rightarrow> True)"

abbreviation num_of_int :: "int \<Rightarrow> number" where
  "num_of_int i \<equiv> Num (of_int i)"


section \<open>Arithmetic of numbers\<close>

definition MAX_SAFE_INTEGER :: int where
  "MAX_SAFE_INTEGER = 9007199254740991"

definition MIN_SAFE_INTEGER :: int where
  "MIN_SAFE_INTEGER = - 9007199254740991"

fun num_less :: "number \<Rightarrow> number \<Rightarrow> bool" where
  "num_less NaN _ = False"
| "num_less _ NaN = False"
| "num_less (Num a) (Num b) = (a < b)"
| "num_less NegInf b = (b \<noteq> NegInf)"
| "num_less a PosInf = (a \<noteq> PosInf)"
| "num_less _ _ = False"

fun num_neg :: "number \<Rightarrow> number" where
  "num_neg NaN = NaN"
| "num_neg PosInf = NegInf"
| "num_neg NegInf = PosInf"
| "num_neg (Num q) = Num (- q)"

fun num_add :: "number \<Rightarrow> number \<Rightarrow> number" where
  "num_add (Num a) (Num b) = to_double (a + b)"
| "num_add NaN _ = NaN"
| "num_add _ NaN = NaN"
| "num_add PosInf b = (if b = NegInf then NaN else PosInf)"
| "num_add NegInf b = (if b = PosInf then NaN else NegInf)"
| "num_add a b = b"

text \<open>Multiplication and division by a positive constant, the only forms the code uses.\<close>

fun num_scale :: "number \<Rightarrow> rat \<Rightarrow> number" where
  "num_scale (Num a) k = to_double (a * k)"
| "num_scale x k = x"

fun num_divide :: "number \<Rightarrow> rat \<Rightarrow> number" where
  "num_divide (Num a) k = to_double (a / k)"
| "num_divide x k = x"

definition rat_trunc :: "rat \<Rightarrow> int" where
  "rat_trunc q = (if 0 \<le> q then \<lfloor>q\<rfloor> else \<lceil>q\<rceil>)"

text \<open>\<open>a % k\<close> for a positive constant \<open>k\<close>: exact, with the sign of the dividend.\<close>

fun num_rem :: "number \<Rightarrow> rat \<Rightarrow> number" where
  "num_rem (Num a) k = Num (a - k * of_int (rat_trunc (a / k)))"
| "num_rem x k = NaN"

fun Math_trunc :: "number \<Rightarrow> number" where
  "Math_trunc (Num q) = num_of_int (rat_trunc q)"
| "Math_trunc x = x"

fun Math_round :: "number \<Rightarrow> number" where
  "Math_round (Num q) = num_of_int \<lfloor>q + 1 / 2\<rfloor>"
| "Math_round x = x"

text \<open>\<open>x || 0\<close>: \<open>NaN\<close> and zero are falsy.\<close>

definition num_or_zero :: "number \<Rightarrow> number" where
  "num_or_zero x = (if x = NaN then Num 0 else x)"


section \<open>Strings\<close>

text \<open>A string literal of the source as its code units.\<close>

definition js :: "string \<Rightarrow> jsstring" where
  "js = map (\<lambda>c. of_nat (of_char c))"

fun nat_digits :: "nat \<Rightarrow> jsstring" where
  "nat_digits n = (if n < 10 then [48 + of_nat n] else nat_digits (n div 10) @ [48 + of_nat (n mod 10)])"

declare nat_digits.simps [simp del]

definition int_to_string :: "int \<Rightarrow> jsstring" where
  "int_to_string i = (if i < 0 then 45 # nat_digits (nat (- i)) else nat_digits (nat i))"

definition is_digit :: "16 word \<Rightarrow> bool" where
  "is_digit c \<longleftrightarrow> 48 \<le> c \<and> c \<le> 57"

fun digits_val :: "nat \<Rightarrow> jsstring \<Rightarrow> nat" where
  "digits_val acc [] = acc"
| "digits_val acc (c # cs) = digits_val (10 * acc + unat (c - 48)) cs"

definition is_white :: "16 word \<Rightarrow> bool" where
  "is_white c \<longleftrightarrow> c \<in> {9, 10, 11, 12, 13, 32, 160, 5760, 8232, 8233, 8239, 8287, 12288, 65279}
     \<or> (8192 \<le> c \<and> c \<le> 8202)"

definition trim :: "jsstring \<Rightarrow> jsstring" where
  "trim s = rev (dropWhile is_white (rev (dropWhile is_white s)))"

text \<open>
  \<open>Number(s)\<close>. The empty string is 0 and a signed run of decimal digits is its value; any other
  literal (a fraction, an exponent, a hexadecimal literal, text that is no number) is left to the
  argument \<open>other\<close>, which no property depends on.
\<close>

definition unsigned_number :: "(jsstring \<Rightarrow> number) \<Rightarrow> jsstring \<Rightarrow> number" where
  "unsigned_number other ds =
     (if ds \<noteq> [] \<and> list_all is_digit ds then to_double (of_nat (digits_val 0 ds)) else other ds)"

definition string_to_number :: "(jsstring \<Rightarrow> number) \<Rightarrow> jsstring \<Rightarrow> number" where
  "string_to_number other s =
     (case trim s of
        [] \<Rightarrow> Num 0
      | c # ds \<Rightarrow>
          if c = 43 then unsigned_number other ds
          else if c = 45 then num_neg (unsigned_number other ds)
          else unsigned_number other (c # ds))"

text \<open>A string whose surrogates are paired: what UTF-8 can carry.\<close>

fun wf_utf16 :: "jsstring \<Rightarrow> bool" where
  "wf_utf16 [] = True"
| "wf_utf16 [c] = (c < 55296 \<or> 57343 < c)"
| "wf_utf16 (c # d # s) =
     (if 55296 \<le> c \<and> c < 56320 then 56320 \<le> d \<and> d \<le> 57343 \<and> wf_utf16 s
      else (c < 55296 \<or> 57343 < c) \<and> wf_utf16 (d # s))"


section \<open>Lemmas on rounding\<close>

lemma bitlen_bounds_rat:
  assumes "0 < a"
  shows "2 powi (bitlen a - 1) \<le> (of_int a :: rat)" "(of_int a :: rat) < 2 powi bitlen a"
proof -
  have nn: "0 < bitlen a"
    using assms zero_le_log_cancel_iff [of 2 "real_of_int a"] by (simp add: bitlen_alt_def)
  from bitlen_bounds [OF assms]
  have b: "2 ^ nat (bitlen a - 1) \<le> a" "a < 2 ^ nat (bitlen a)" by auto
  have "(of_int (2 ^ nat (bitlen a - 1)) :: rat) \<le> of_int a"
    using b(1) by (simp only: of_int_le_iff)
  then show "2 powi (bitlen a - 1) \<le> (of_int a :: rat)"
    using nn by (simp add: power_int_def)
  have "(of_int a :: rat) < of_int (2 ^ nat (bitlen a))"
    using b(2) by (simp only: of_int_less_iff)
  then show "(of_int a :: rat) < 2 powi bitlen a"
    using nn by (simp add: power_int_def)
qed

lemma flog2_bounds:
  assumes "0 < q"
  shows "2 powi flog2 q \<le> q" "q < 2 powi (flog2 q + 1)"
proof -
  obtain a b where ab: "quotient_of q = (a, b)" by (cases "quotient_of q")
  have q: "q = of_int a / of_int b" and b: "0 < b"
    using ab quotient_of_div quotient_of_denom_pos by auto
  have a: "0 < a" using q b assms by (simp add: zero_less_divide_iff)
  define k where "k = bitlen a - bitlen b"
  have bp: "(0::rat) < of_int b" using b by simp
  have up: "q < 2 powi (k + 1)"
  proof -
    have "q < 2 powi bitlen a / of_int b"
      using bitlen_bounds_rat(2) [OF a] bp by (simp add: q divide_strict_right_mono)
    also have "\<dots> \<le> 2 powi bitlen a / 2 powi (bitlen b - 1)"
      using bitlen_bounds_rat(1) [OF b] bp by (intro divide_left_mono mult_pos_pos) auto
    also have "\<dots> = 2 powi (bitlen a - (bitlen b - 1))"
      by (subst power_int_diff) simp_all
    also have "\<dots> = 2 powi (k + 1)"
      by (simp add: k_def algebra_simps)
    finally show ?thesis .
  qed
  have lo: "2 powi (k - 1) \<le> q"
  proof -
    have "(2::rat) powi (k - 1) = 2 powi ((bitlen a - 1) - bitlen b)"
      by (simp add: k_def algebra_simps)
    also have "\<dots> = 2 powi (bitlen a - 1) / 2 powi bitlen b"
      by (subst power_int_diff) simp_all
    also have "\<dots> \<le> of_int a / 2 powi bitlen b"
      using bitlen_bounds_rat(1) [OF a] by (intro divide_right_mono) auto
    also have "\<dots> \<le> of_int a / of_int b"
      using bitlen_bounds_rat(2) [OF b] bp a by (intro divide_left_mono mult_pos_pos) auto
    finally show ?thesis by (simp add: q)
  qed
  show "2 powi flog2 q \<le> q" "q < 2 powi (flog2 q + 1)"
    using up lo by (auto simp: flog2_def ab Let_def k_def [symmetric])
qed

lemma round_even_of_int [simp]: "round_even (of_int i) = i"
  by (simp add: round_even_def)

lemma round_even_near: "\<bar>of_int (round_even q) - q\<bar> \<le> 1 / 2"
proof -
  have "of_int \<lfloor>q\<rfloor> \<le> q" "q < of_int \<lfloor>q\<rfloor> + 1" by linarith+
  then show ?thesis by (auto simp: round_even_def Let_def abs_le_iff)
qed

lemma round_even_ge: "of_int i \<le> q \<Longrightarrow> i \<le> round_even q"
proof -
  assume "of_int i \<le> q"
  then have "i \<le> \<lfloor>q\<rfloor>" by (simp add: le_floor_iff)
  then show ?thesis by (auto simp: round_even_def Let_def)
qed

text \<open>Rounding moves a value by at most half a unit in the last place.\<close>

lemma round53_near: "\<bar>round53 q - \<bar>q\<bar>\<bar> \<le> 2 powi double_exp q / 2"
proof -
  let ?u = "(2::rat) powi double_exp q"
  have u: "0 < ?u" by simp
  have "round53 q - \<bar>q\<bar> = (of_int (round_even (\<bar>q\<bar> / ?u)) - \<bar>q\<bar> / ?u) * ?u"
    using u by (simp add: round53_def left_diff_distrib)
  then have "\<bar>round53 q - \<bar>q\<bar>\<bar> = \<bar>of_int (round_even (\<bar>q\<bar> / ?u)) - \<bar>q\<bar> / ?u\<bar> * ?u"
    using u by (simp only: abs_mult abs_of_pos)
  also have "\<dots> \<le> 1 / 2 * ?u"
    using round_even_near u by (intro mult_right_mono) auto
  finally show ?thesis by simp
qed

lemma power_int_2_le_iff: "(2::rat) powi a \<le> 2 powi b \<longleftrightarrow> a \<le> b"
  using power_int_strict_increasing [of b a "2::rat"] power_int_increasing [of a b "2::rat"]
  by (cases "a \<le> b") auto

lemma power_int_2_less_iff: "(2::rat) powi a < 2 powi b \<longleftrightarrow> a < b"
  using power_int_2_le_iff [of b a] by auto

lemma flog2_ge: "0 < q \<Longrightarrow> 2 powi k \<le> q \<Longrightarrow> k \<le> flog2 q"
proof -
  assume q: "0 < q" and "2 powi k \<le> q"
  then have "(2::rat) powi k < 2 powi (flog2 q + 1)"
    using flog2_bounds(2) [OF q] by linarith
  then show ?thesis by (simp only: power_int_2_less_iff)
qed

lemma flog2_less: "0 < q \<Longrightarrow> q < 2 powi k \<Longrightarrow> flog2 q < k"
proof -
  assume q: "0 < q" and "q < 2 powi k"
  then have "(2::rat) powi flog2 q < 2 powi k"
    using flog2_bounds(1) [OF q] by linarith
  then show ?thesis by (simp only: power_int_2_less_iff)
qed

text \<open>Integers up to \<open>2^53\<close> in magnitude are doubles.\<close>

lemma round53_exact: "\<bar>q\<bar> = of_int j * 2 powi double_exp q \<Longrightarrow> round53 q = \<bar>q\<bar>"
  by (simp add: round53_def)

lemma round53_int:
  assumes "i \<noteq> 0" and "\<bar>i\<bar> \<le> 2 ^ 53"
  shows "round53 (of_int i) = of_int \<bar>i\<bar>"
proof (cases "\<bar>i\<bar> = 2 ^ 53")
  case True
  have q: "\<bar>of_int i :: rat\<bar> = 2 powi 53"
    using True by (simp add: power_int_def flip: of_int_abs)
  have "flog2 (2 powi 53) = 53"
    using flog2_ge [of "2 powi 53" 53] flog2_less [of "2 powi 53" 54] by simp
  then have "double_exp (of_int i) = 1"
    by (simp add: double_exp_def q)
  then have "round53 (of_int i) = \<bar>of_int i\<bar>"
    by (intro round53_exact [of _ "2 ^ 52"]) (simp add: q)
  then show ?thesis by simp
next
  case False
  let ?q = "of_int \<bar>i\<bar> :: rat" and ?e = "double_exp (of_int i)"
  have q: "0 < ?q" using assms(1) by simp
  have "\<bar>i\<bar> < 2 ^ 53" using assms(2) False by linarith
  then have "?q < of_int (2 ^ 53)" by (simp only: of_int_less_iff)
  then have "flog2 ?q < 53" by (intro flog2_less [OF q]) simp
  then have e: "?e \<le> 0" by (simp add: double_exp_def)
  then have "2 powi ?e = inverse ((2::rat) ^ nat (- ?e))"
    by (auto simp: power_int_def field_simps)
  then have "\<bar>of_int i\<bar> = of_int (\<bar>i\<bar> * 2 ^ nat (- ?e)) * (2::rat) powi ?e"
    by simp
  then show ?thesis using round53_exact by (metis of_int_abs)
qed

lemma to_double_int [simp]: "\<bar>i\<bar> \<le> 2 ^ 53 \<Longrightarrow> to_double (of_int i) = num_of_int i"
proof (cases "i = 0")
  case False
  assume i: "\<bar>i\<bar> \<le> 2 ^ 53"
  have "(of_int \<bar>i\<bar> :: rat) \<le> of_int (2 ^ 53)" using i by (simp only: of_int_le_iff)
  also have "\<dots> < 2 ^ 1024" by simp
  finally have "round53 (of_int i) < 2 ^ 1024" using round53_int [OF False i] by simp
  moreover have "sgn (of_int i :: rat) * of_int \<bar>i\<bar> = of_int i"
    by (simp add: sgn_mult_abs)
  ultimately show ?thesis using round53_int [OF False i] False
    by (simp add: to_double_def)
qed (simp add: to_double_def)

text \<open>Rounding an integer beyond the safe range stays beyond it.\<close>

lemma round53_big:
  assumes "2 ^ 53 \<le> \<bar>i\<bar>"
  shows "2 ^ 53 \<le> round53 (of_int i)"
proof -
  let ?q = "\<bar>of_int i\<bar> :: rat" and ?e = "double_exp (of_int i)"
  have "(of_int (2 ^ 53) :: rat) \<le> of_int \<bar>i\<bar>" using assms by (simp only: of_int_le_iff)
  then have q53: "2 powi 53 \<le> ?q" by (simp add: power_int_def)
  then have q: "0 < ?q" by (simp add: power_int_def)
  have fl: "53 \<le> flog2 ?q" using flog2_ge [OF q q53] .
  then have e: "?e = flog2 ?q - 52" by (simp add: double_exp_def)
  have two: "(2::rat) powi flog2 ?q = 2 ^ 52 * 2 powi ?e"
    by (simp add: e power_int_diff)
  have "of_int (2 ^ 52) \<le> ?q / 2 powi ?e"
    using flog2_bounds(1) [OF q] two by (simp add: field_simps)
  then have "2 ^ 52 \<le> round_even (?q / 2 powi ?e)" by (rule round_even_ge)
  then have "(of_int (2 ^ 52) :: rat) \<le> of_int (round_even (?q / 2 powi ?e))"
    by (simp only: of_int_le_iff)
  then have "(2 ^ 52 :: rat) * 2 powi ?e \<le> round53 (of_int i)"
    unfolding round53_def by (intro mult_right_mono) simp_all
  moreover have "(2::rat) powi 53 \<le> 2 powi flog2 ?q"
    using fl by (simp only: power_int_2_le_iff)
  ultimately show ?thesis using two by (simp add: power_int_def)
qed

lemma to_double_above: "2 ^ 53 \<le> i \<Longrightarrow> num_less (num_of_int MAX_SAFE_INTEGER) (to_double (of_int i))"
  using round53_big [of i] by (auto simp: to_double_def MAX_SAFE_INTEGER_def)

lemma to_double_below: "i \<le> - (2 ^ 53) \<Longrightarrow> num_less (to_double (of_int i)) (num_of_int MIN_SAFE_INTEGER)"
  using round53_big [of i] by (auto simp: to_double_def MIN_SAFE_INTEGER_def sgn_if)


section \<open>Lemmas on strings\<close>

lemma inj_of_char16: "inj (\<lambda>c. of_nat (of_char c) :: 16 word)"
proof (rule injI)
  fix c d :: char
  assume "(of_nat (of_char c) :: 16 word) = of_nat (of_char d)"
  moreover have "unat (of_nat (of_char x) :: 16 word) = of_char x" for x :: char
  proof -
    have "(of_char x :: nat) < 65536" using nat_of_char_less_256 [of x] by linarith
    then show ?thesis by (simp only: unat_of_nat) simp
  qed
  ultimately have "(of_char c :: nat) = of_char d" by metis
  then show "c = d" by simp
qed

lemma js_eq_iff [simp]: "js a = js b \<longleftrightarrow> a = b"
  by (simp add: js_def inj_map_eq_map [OF inj_of_char16])

lemma js_Nil [simp]: "js [] = []"
  by (simp add: js_def)

lemma js_eq_Nil [simp]: "js a = [] \<longleftrightarrow> a = []"
  by (simp add: js_def)

lemma digit_char: "d < 10 \<Longrightarrow> is_digit (48 + of_nat d) \<and> unat ((48 + of_nat d :: 16 word) - 48) = d"
  by (auto simp: is_digit_def word_le_nat_alt unat_word_ariths unat_of_nat)

lemma digits_val_append: "digits_val acc (a @ b) = digits_val (digits_val acc a) b"
  by (induction acc a rule: digits_val.induct) auto

lemma nat_digits_all: "list_all is_digit (nat_digits n)"
proof (induction n rule: nat_digits.induct)
  case (1 n)
  then show ?case
    using digit_char [of n] digit_char [of "n mod 10"] by (subst nat_digits.simps) auto
qed

lemma nat_digits_val: "digits_val 0 (nat_digits n) = n"
proof (induction n rule: nat_digits.induct)
  case (1 n)
  then show ?case
    using digit_char [of n] digit_char [of "n mod 10"]
    by (subst nat_digits.simps) (auto simp: digits_val_append)
qed

lemma nat_digits_not_Nil: "nat_digits n \<noteq> []"
  by (subst nat_digits.simps) simp

lemma is_digit_not_white: "is_digit c \<Longrightarrow> \<not> is_white c \<and> c \<noteq> 43 \<and> c \<noteq> 45"
  by (auto simp: is_digit_def is_white_def word_le_nat_alt)

lemma trim_id: "s \<noteq> [] \<Longrightarrow> \<not> is_white (hd s) \<Longrightarrow> \<not> is_white (last s) \<Longrightarrow> trim s = s"
proof -
  have d: "t \<noteq> [] \<Longrightarrow> \<not> is_white (hd t) \<Longrightarrow> dropWhile is_white t = t" for t
    by (cases t) auto
  assume "s \<noteq> []" "\<not> is_white (hd s)" "\<not> is_white (last s)"
  then show ?thesis by (simp add: trim_def d hd_rev)
qed

lemma trim_int_to_string: "trim (int_to_string i) = int_to_string i"
proof -
  have d: "is_digit (hd (nat_digits n)) \<and> is_digit (last (nat_digits n))" for n
    using nat_digits_all [of n] nat_digits_not_Nil [of n]
    by (auto simp: list_all_iff)
  have "\<not> is_white 45" by (simp add: is_white_def)
  then show ?thesis
    using d is_digit_not_white nat_digits_not_Nil
    by (intro trim_id) (auto simp: int_to_string_def)
qed

lemma unsigned_number_digits: "unsigned_number f (nat_digits n) = to_double (of_nat n)"
  by (simp add: unsigned_number_def nat_digits_all nat_digits_val nat_digits_not_Nil)

lemma num_neg_to_double: "num_neg (to_double q) = to_double (- q)"
  by (auto simp: to_double_def round53_def double_exp_def sgn_if)

text \<open>\<open>Number(i.toString())\<close> is the double nearest to \<open>i\<close>.\<close>

lemma string_to_number_int: "string_to_number f (int_to_string i) = to_double (of_int i)"
proof (cases "i < 0")
  case True
  then show ?thesis
    using trim_int_to_string [of i]
    by (simp add: string_to_number_def int_to_string_def unsigned_number_digits num_neg_to_double)
next
  case False
  obtain c ds where cd: "nat_digits (nat i) = c # ds"
    using nat_digits_not_Nil by (cases "nat_digits (nat i)") auto
  then have "is_digit c" using nat_digits_all [of "nat i"] by simp
  then have "string_to_number f (int_to_string i) = unsigned_number f (nat_digits (nat i))"
    using False cd is_digit_not_white
    using trim_int_to_string [of i] by (simp add: string_to_number_def int_to_string_def)
  with False show ?thesis by (simp add: unsigned_number_digits)
qed

end
