(* ===== verification/JsValue.thy ===== *)
theory JsValue
  imports JsNumber
begin

text \<open>
  JavaScript values as \<open>fromJSON\<close> receives them and \<open>toJSON\<close> builds them, the conversions
  \<open>String\<close>, \<open>Number\<close> and \<open>Boolean\<close>, property access, and the two helpers every generated file
  repeats: \<open>isSet\<close> and \<open>longToNumber\<close>.

  What the language leaves to its host is a parameter, the record \<open>host\<close>: whether Node's \<open>Buffer\<close>
  exists and what it makes of arguments that are not base64 text, the rendering and parsing of
  numbers that are not integers, and the text forms of a \<open>Date\<close> that the language does not fix.

  The last section holds the rules by which a field written by \<open>toJSON\<close> is read back by \<open>fromJSON\<close>.
\<close>

datatype jsval =
    JUndefined
  | JNull
  | JBool bool
  | JNumber number
  | JString jsstring
  | JArray "jsval list"
  | JObject "(string \<times> jsval) list"
  | JDate number

record host =
  has_Buffer :: bool
  Buffer_from_other :: "jsval \<Rightarrow> bytes result"
  Buffer_lenient :: "jsstring \<Rightarrow> bytes"
  num_of_literal :: "jsstring \<Rightarrow> number"
  num_to_literal :: "rat \<Rightarrow> jsstring"
  Date_parse :: "jsstring \<Rightarrow> number"
  Date_toString :: "number \<Rightarrow> jsstring"


section \<open>Conversions and property access\<close>

definition isSet :: "jsval \<Rightarrow> bool" where
  "isSet value \<longleftrightarrow> value \<noteq> JNull \<and> value \<noteq> JUndefined"

text \<open>
  \<open>object.k\<close>: a \<open>TypeError\<close> on \<open>null\<close> and \<open>undefined\<close>, the property of an object, \<open>undefined\<close>
  on everything else (no message field is named like a property of the built-in prototypes).
\<close>

fun get_prop :: "jsval \<Rightarrow> string \<Rightarrow> jsval result" where
  "get_prop JUndefined k = Inl (TypeError k)"
| "get_prop JNull k = Inl (TypeError k)"
| "get_prop (JObject ps) k = Inr (case map_of ps k of None \<Rightarrow> JUndefined | Some v \<Rightarrow> v)"
| "get_prop _ k = Inr JUndefined"

text \<open>\<open>object?.k\<close>\<close>

definition get_prop_opt :: "jsval \<Rightarrow> string \<Rightarrow> jsval" where
  "get_prop_opt v k = (case get_prop v k of Inl _ \<Rightarrow> JUndefined | Inr x \<Rightarrow> x)"

definition number_to_string :: "host \<Rightarrow> number \<Rightarrow> jsstring" where
  "number_to_string h n =
     (case n of
        NaN \<Rightarrow> js ''NaN''
      | PosInf \<Rightarrow> js ''Infinity''
      | NegInf \<Rightarrow> js ''-Infinity''
      | Num q \<Rightarrow> if q = of_int \<lfloor>q\<rfloor> \<and> \<bar>q\<bar> < 10 ^ 21 then int_to_string \<lfloor>q\<rfloor> else num_to_literal h q)"

fun join_comma :: "jsstring list \<Rightarrow> jsstring" where
  "join_comma [] = []"
| "join_comma [s] = s"
| "join_comma (s # ss) = s @ 44 # join_comma ss"

fun js_String :: "host \<Rightarrow> jsval \<Rightarrow> jsstring" where
  "js_String h JUndefined = js ''undefined''"
| "js_String h JNull = js ''null''"
| "js_String h (JBool b) = (if b then js ''true'' else js ''false'')"
| "js_String h (JNumber n) = number_to_string h n"
| "js_String h (JString s) = s"
| "js_String h (JArray xs) =
     join_comma (map (\<lambda>x. if x = JNull \<or> x = JUndefined then [] else js_String h x) xs)"
| "js_String h (JObject ps) = js ''[object Object]''"
| "js_String h (JDate t) = Date_toString h t"

fun js_Number :: "host \<Rightarrow> jsval \<Rightarrow> number" where
  "js_Number h JUndefined = NaN"
| "js_Number h JNull = Num 0"
| "js_Number h (JBool b) = (if b then Num 1 else Num 0)"
| "js_Number h (JNumber n) = n"
| "js_Number h (JString s) = string_to_number (num_of_literal h) s"
| "js_Number h (JArray xs) = string_to_number (num_of_literal h) (js_String h (JArray xs))"
| "js_Number h (JObject ps) = NaN"
| "js_Number h (JDate t) = t"

fun js_Boolean :: "jsval \<Rightarrow> bool" where
  "js_Boolean JUndefined = False"
| "js_Boolean JNull = False"
| "js_Boolean (JBool b) = b"
| "js_Boolean (JNumber n) = (n \<noteq> NaN \<and> n \<noteq> Num 0)"
| "js_Boolean (JString s) = (s \<noteq> [])"
| "js_Boolean _ = True"

text \<open>
  \<open>longToNumber(int64)\<close> on the 64-bit integer the reader returned. The decimal text of an integer
  never reaches the branch of \<open>Number\<close> for other literals.
\<close>

definition longToNumber :: "int \<Rightarrow> number result" where
  "longToNumber int64 =
     (let num = string_to_number (\<lambda>_. NaN) (int_to_string int64)
      in if num_less (num_of_int MAX_SAFE_INTEGER) num
         then Inl (Error ''Value is larger than Number.MAX_SAFE_INTEGER'')
         else if num_less num (num_of_int MIN_SAFE_INTEGER)
         then Inl (Error ''Value is smaller than Number.MIN_SAFE_INTEGER'')
         else Inr num)"


section \<open>The expression forms of fromJSON, toJSON and fromPartial\<close>

text \<open>\<open>isSet(object.k) ? f(object.k) : d\<close>\<close>

definition fieldE :: "jsval \<Rightarrow> string \<Rightarrow> (jsval \<Rightarrow> 'a result) \<Rightarrow> 'a \<Rightarrow> 'a result" where
  "fieldE obj k f d = bindE (get_prop obj k) (\<lambda>v. if isSet v then f v else Inr d)"

text \<open>\<open>isSet(object.k) ? f(object.k) : undefined\<close>\<close>

definition optE :: "jsval \<Rightarrow> string \<Rightarrow> (jsval \<Rightarrow> 'a result) \<Rightarrow> 'a option result" where
  "optE obj k f = fieldE obj k (\<lambda>v. bindE (f v) (\<lambda>x. Inr (Some x))) None"

text \<open>\<open>Array.isArray(object?.k) ? object.k.map((e) => f(e)) : []\<close>\<close>

definition arrayE :: "jsval \<Rightarrow> string \<Rightarrow> (jsval \<Rightarrow> 'a result) \<Rightarrow> 'a list result" where
  "arrayE obj k f = (case get_prop_opt obj k of JArray xs \<Rightarrow> mapE f xs | _ \<Rightarrow> Inr [])"

definition stringE :: "host \<Rightarrow> jsval \<Rightarrow> jsstring result" where
  "stringE h v = Inr (js_String h v)"

definition numberE :: "host \<Rightarrow> jsval \<Rightarrow> number result" where
  "numberE h v = Inr (js_Number h v)"

definition booleanE :: "jsval \<Rightarrow> bool result" where
  "booleanE v = Inr (js_Boolean v)"

definition enumE :: "(jsval \<Rightarrow> number) \<Rightarrow> jsval \<Rightarrow> number result" where
  "enumE f v = Inr (f v)"

text \<open>\<open>const obj: any = {}; ... return obj;\<close>: each statement adds at most one property.\<close>

definition objE :: "(string \<times> jsval) list result list \<Rightarrow> jsval result" where
  "objE stmts = bindE (mapE (\<lambda>r. r) stmts) (\<lambda>ps. Inr (JObject (concat ps)))"

text \<open>\<open>if (c) { obj.k = v; }\<close>\<close>

definition jfieldE :: "bool \<Rightarrow> string \<Rightarrow> jsval result \<Rightarrow> (string \<times> jsval) list result" where
  "jfieldE c k v = (if c then bindE v (\<lambda>x. Inr [(k, x)]) else Inr [])"

text \<open>\<open>if (message.k !== undefined) { obj.k = f(message.k); }\<close>\<close>

definition joptE :: "string \<Rightarrow> ('a \<Rightarrow> jsval result) \<Rightarrow> 'a option \<Rightarrow> (string \<times> jsval) list result" where
  "joptE k f x = (case x of None \<Rightarrow> Inr [] | Some v \<Rightarrow> bindE (f v) (\<lambda>j. Inr [(k, j)]))"

text \<open>\<open>if (message.k?.length) { obj.k = message.k.map((e) => f(e)); }\<close>\<close>

definition jarrayE :: "string \<Rightarrow> ('a \<Rightarrow> jsval result) \<Rightarrow> 'a list \<Rightarrow> (string \<times> jsval) list result" where
  "jarrayE k f xs = (if xs \<noteq> [] then bindE (mapE f xs) (\<lambda>js. Inr [(k, JArray js)]) else Inr [])"

text \<open>\<open>object.k?.map((e) => f(e)) || []\<close>\<close>

definition partial_map :: "('a \<Rightarrow> 'b) \<Rightarrow> 'a list option \<Rightarrow> 'b list" where
  "partial_map f x = (case x of None \<Rightarrow> [] | Some xs \<Rightarrow> map f xs)"


section \<open>Numbers that hold integers\<close>

text \<open>What the numeric fields of a message hold when they are meant to be sent.\<close>

definition int_between :: "int \<Rightarrow> int \<Rightarrow> number \<Rightarrow> bool" where
  "int_between lo hi n = (case n of Num q \<Rightarrow> q = of_int \<lfloor>q\<rfloor> \<and> lo \<le> \<lfloor>q\<rfloor> \<and> \<lfloor>q\<rfloor> \<le> hi | _ \<Rightarrow> False)"

definition safe_int :: "number \<Rightarrow> bool" where
  "safe_int = int_between MIN_SAFE_INTEGER MAX_SAFE_INTEGER"

definition safe_uint :: "number \<Rightarrow> bool" where
  "safe_uint = int_between 0 MAX_SAFE_INTEGER"

definition int32_num :: "number \<Rightarrow> bool" where
  "int32_num = int_between (- (2 ^ 31)) (2 ^ 31 - 1)"

definition whole :: "number \<Rightarrow> bool" where
  "whole n \<longleftrightarrow> Math_round n = n"

lemma whole_round: "whole n \<Longrightarrow> Math_round n = n"
  by (simp add: whole_def)

lemma int_betweenE:
  assumes "int_between lo hi n"
  obtains i where "n = num_of_int i" "lo \<le> i" "i \<le> hi"
  using assms by (auto simp: int_between_def split: number.splits)

lemma int_between_num_of_int [simp]: "int_between lo hi (num_of_int i) \<longleftrightarrow> lo \<le> i \<and> i \<le> hi"
  by (simp add: int_between_def)

lemma int_between_0 [simp]: "int_between lo hi (Num 0) \<longleftrightarrow> lo \<le> 0 \<and> 0 \<le> hi"
  using int_between_num_of_int [of lo hi 0] by simp

lemma int_between_1 [simp]: "int_between lo hi (Num 1) \<longleftrightarrow> lo \<le> 1 \<and> 1 \<le> hi"
  using int_between_num_of_int [of lo hi 1] by simp

lemma int_between_numeral [simp]:
  "int_between lo hi (Num (numeral k)) \<longleftrightarrow> lo \<le> numeral k \<and> numeral k \<le> hi"
  using int_between_num_of_int [of lo hi "numeral k"] by simp

lemma int_between_neg_numeral [simp]:
  "int_between lo hi (Num (- numeral k)) \<longleftrightarrow> lo \<le> - numeral k \<and> - numeral k \<le> hi"
  using int_between_num_of_int [of lo hi "- numeral k"] by simp

lemma zero_ranges [simp]: "safe_int (Num 0)" "safe_uint (Num 0)" "int32_num (Num 0)"
  by (simp_all add: safe_int_def safe_uint_def int32_num_def MIN_SAFE_INTEGER_def MAX_SAFE_INTEGER_def)

lemma Math_round_int: "int_between lo hi n \<Longrightarrow> Math_round n = n"
proof (elim int_betweenE)
  fix i assume n: "n = num_of_int i"
  have "\<lfloor>of_int i + 1 / 2 :: rat\<rfloor> = i" by linarith
  with n show ?thesis by simp
qed

lemma wholeI: "int_between lo hi n \<Longrightarrow> whole n"
  unfolding whole_def by (rule Math_round_int)

lemma safe_int_whole: "safe_int n \<Longrightarrow> whole n"
  unfolding safe_int_def by (rule wholeI)

lemma safe_uint_whole: "safe_uint n \<Longrightarrow> whole n"
  unfolding safe_uint_def by (rule wholeI)

lemma int32_num_whole: "int32_num n \<Longrightarrow> whole n"
  unfolding int32_num_def by (rule wholeI)

text \<open>\<open>longToNumber\<close> is exact on the safe integers and throws on every other integer.\<close>

lemma longToNumber_safe:
  "MIN_SAFE_INTEGER \<le> i \<Longrightarrow> i \<le> MAX_SAFE_INTEGER \<Longrightarrow> longToNumber i = Inr (num_of_int i)"
proof -
  assume i: "MIN_SAFE_INTEGER \<le> i" "i \<le> MAX_SAFE_INTEGER"
  then have "\<bar>i\<bar> \<le> 2 ^ 53" by (simp add: MIN_SAFE_INTEGER_def MAX_SAFE_INTEGER_def)
  then have d: "to_double (of_int i) = num_of_int i" by (rule to_double_int)
  show ?thesis
    unfolding longToNumber_def string_to_number_int Let_def d
    using i by simp
qed

lemma longToNumber_large:
  "MAX_SAFE_INTEGER < i \<Longrightarrow>
   longToNumber i = Inl (Error ''Value is larger than Number.MAX_SAFE_INTEGER'')"
  using to_double_above [of i]
  by (simp add: longToNumber_def string_to_number_int MAX_SAFE_INTEGER_def)

lemma num_less_asym: "num_less a b \<Longrightarrow> num_less c a \<Longrightarrow> \<not> num_less b c"
  by (cases a; cases b; cases c) auto

lemma longToNumber_small:
  assumes "i < MIN_SAFE_INTEGER"
  shows "longToNumber i = Inl (Error ''Value is smaller than Number.MIN_SAFE_INTEGER'')"
proof -
  have b: "num_less (to_double (of_int i)) (num_of_int MIN_SAFE_INTEGER)"
    using assms to_double_below [of i] by (simp add: MIN_SAFE_INTEGER_def)
  moreover have "num_less (num_of_int MIN_SAFE_INTEGER) (num_of_int MAX_SAFE_INTEGER)"
    by (simp add: MIN_SAFE_INTEGER_def MAX_SAFE_INTEGER_def)
  ultimately have "\<not> num_less (num_of_int MAX_SAFE_INTEGER) (to_double (of_int i))"
    using num_less_asym by blast
  with b show ?thesis by (simp add: longToNumber_def string_to_number_int)
qed

text \<open>For evaluation: no rounding to a double is needed.\<close>

lemma longToNumber_eval [code]:
  "longToNumber i =
     (if MAX_SAFE_INTEGER < i then Inl (Error ''Value is larger than Number.MAX_SAFE_INTEGER'')
      else if i < MIN_SAFE_INTEGER then Inl (Error ''Value is smaller than Number.MIN_SAFE_INTEGER'')
      else Inr (num_of_int i))"
  using longToNumber_large [of i] longToNumber_small [of i] longToNumber_safe [of i] by simp


section \<open>Reading back the fields of an object\<close>

text \<open>The properties a statement of \<open>toJSON\<close> adds when nothing in it throws.\<close>

definition jfield :: "bool \<Rightarrow> string \<Rightarrow> jsval \<Rightarrow> (string \<times> jsval) list" where
  "jfield c k v = (if c then [(k, v)] else [])"

definition jopt :: "string \<Rightarrow> ('a \<Rightarrow> jsval) \<Rightarrow> 'a option \<Rightarrow> (string \<times> jsval) list" where
  "jopt k f x = (case x of None \<Rightarrow> [] | Some v \<Rightarrow> [(k, f v)])"

definition jarray :: "string \<Rightarrow> ('a \<Rightarrow> jsval) \<Rightarrow> 'a list \<Rightarrow> (string \<times> jsval) list" where
  "jarray k f xs = (if xs \<noteq> [] then [(k, JArray (map f xs))] else [])"

definition json_of :: "jsval result \<Rightarrow> jsval" where
  "json_of r = (case r of Inl _ \<Rightarrow> JUndefined | Inr j \<Rightarrow> j)"

lemma json_of_Inr [simp]: "json_of (Inr j) = j"
  by (simp add: json_of_def)

lemma jfieldE_Inr [json_rules]: "jfieldE c k (Inr v) = Inr (jfield c k v)"
  by (simp add: jfieldE_def jfield_def)

text \<open>A value that \<open>toJ\<close> renders as JSON and \<open>fromJ\<close> reads back.\<close>

definition json_rt :: "('a \<Rightarrow> jsval result) \<Rightarrow> (jsval \<Rightarrow> 'a result) \<Rightarrow> 'a \<Rightarrow> bool" where
  "json_rt toJ fromJ v \<longleftrightarrow> (\<exists>j. toJ v = Inr j \<and> isSet j \<and> fromJ j = Inr v)"

lemma json_rtD:
  "json_rt f g v \<Longrightarrow> f v = Inr (json_of (f v))"
  "json_rt f g v \<Longrightarrow> isSet (json_of (f v))"
  "json_rt f g v \<Longrightarrow> g (json_of (f v)) = Inr v"
  by (auto simp: json_rt_def)

lemma json_rt_bind: "json_rt f g v \<Longrightarrow> bindE (f v) g = Inr v"
  by (auto simp: json_rt_def)

lemma joptE_Inr:
  "pred_option (json_rt f g) x \<Longrightarrow> joptE k f x = Inr (jopt k (\<lambda>v. json_of (f v)) x)"
  by (cases x) (auto simp: joptE_def jopt_def json_rt_def)

lemma jarrayE_Inr:
  "list_all (json_rt f g) xs \<Longrightarrow> jarrayE k f xs = Inr (jarray k (\<lambda>v. json_of (f v)) xs)"
proof -
  assume "list_all (json_rt f g) xs"
  then have "mapE f xs = Inr (map (\<lambda>v. json_of (f v)) xs)"
    by (intro mapE_Inr) (auto simp: list_all_iff json_rt_def)
  then show ?thesis by (simp add: jarrayE_def jarray_def)
qed

lemma objE_rules [json_rules]:
  "objE [] = Inr (JObject [])"
  "s = Inr p \<Longrightarrow> objE ss = Inr (JObject ps) \<Longrightarrow> objE (s # ss) = Inr (JObject (p @ ps))"
  by (simp add: objE_def) (auto simp: objE_def bindE_Inr_conv)

definition lookE :: "jsval option \<Rightarrow> (jsval \<Rightarrow> 'a result) \<Rightarrow> 'a \<Rightarrow> 'a result" where
  "lookE x f d = (case x of None \<Rightarrow> Inr d | Some v \<Rightarrow> if isSet v then f v else Inr d)"

definition look_array :: "jsval option \<Rightarrow> (jsval \<Rightarrow> 'a result) \<Rightarrow> 'a list result" where
  "look_array x f = (case x of Some (JArray xs) \<Rightarrow> mapE f xs | _ \<Rightarrow> Inr [])"

text \<open>The property \<open>k\<close> of the object is the one the statement \<open>p\<close> wrote, since the keys differ.\<close>

definition written_at :: "(string \<times> jsval) list \<Rightarrow> string \<Rightarrow> (string \<times> jsval) list \<Rightarrow> bool" where
  "written_at ps k p \<longleftrightarrow> map_of ps k = map_of p k"

definition absent :: "(string \<times> jsval) list \<Rightarrow> string \<Rightarrow> bool" where
  "absent ps k \<longleftrightarrow> map_of ps k = None"

lemma absent_rules [json_rules]:
  "absent [] k"
  "k' \<noteq> k \<Longrightarrow> absent ps k \<Longrightarrow> absent (jfield c k' v @ ps) k"
  "k' \<noteq> k \<Longrightarrow> absent ps k \<Longrightarrow> absent (jopt k' f x @ ps) k"
  "k' \<noteq> k \<Longrightarrow> absent ps k \<Longrightarrow> absent (jarray k' g xs @ ps) k"
  by (simp_all add: absent_def jfield_def jopt_def jarray_def split: option.splits)

lemma written_rules [json_rules]:
  "absent ps k \<Longrightarrow> written_at (jfield c k v @ ps) k (jfield c k v)"
  "absent ps k \<Longrightarrow> written_at (jopt k f x @ ps) k (jopt k f x)"
  "absent ps k \<Longrightarrow> written_at (jarray k g xs @ ps) k (jarray k g xs)"
  "k' \<noteq> k \<Longrightarrow> written_at ps k p \<Longrightarrow> written_at (jfield c k' v @ ps) k p"
  "k' \<noteq> k \<Longrightarrow> written_at ps k p \<Longrightarrow> written_at (jopt k' f x @ ps) k p"
  "k' \<noteq> k \<Longrightarrow> written_at ps k p \<Longrightarrow> written_at (jarray k' g xs @ ps) k p"
  by (simp_all add: written_at_def absent_def jfield_def jopt_def jarray_def split: option.splits)

lemma fieldE_I [json_rules]:
  "written_at ps k p \<Longrightarrow> lookE (map_of p k) f d = Inr x \<Longrightarrow> fieldE (JObject ps) k f d = Inr x"
  by (cases "map_of p k") (auto simp: written_at_def fieldE_def lookE_def isSet_def)

lemma optE_I [json_rules]:
  "written_at ps k p \<Longrightarrow> lookE (map_of p k) (\<lambda>v. bindE (f v) (\<lambda>x. Inr (Some x))) None = Inr x \<Longrightarrow>
   optE (JObject ps) k f = Inr x"
  unfolding optE_def by (rule fieldE_I)

lemma arrayE_I [json_rules]:
  "written_at ps k p \<Longrightarrow> look_array (map_of p k) f = Inr xs \<Longrightarrow> arrayE (JObject ps) k f = Inr xs"
  by (simp add: written_at_def arrayE_def look_array_def get_prop_opt_def split: option.splits jsval.splits)

lemma bindE_I [json_rules]: "r = Inr x \<Longrightarrow> f x = Inr y \<Longrightarrow> bindE r f = Inr y"
  by simp

lemma json_rtI: "toJ v = Inr (JObject ps) \<Longrightarrow> fromJ (JObject ps) = Inr v \<Longrightarrow> json_rt toJ fromJ v"
  by (simp add: json_rt_def isSet_def)

lemma isSet_simps [simp]:
  "isSet (JBool b)" "isSet (JNumber n)" "isSet (JString s)" "isSet (JArray xs)" "isSet (JObject ps)"
  "isSet (JDate t)" "\<not> isSet JNull" "\<not> isSet JUndefined"
  by (simp_all add: isSet_def)

text \<open>What was written is read back.\<close>

lemma read_field:
  "f v = Inr x \<Longrightarrow> isSet v \<Longrightarrow> (\<not> c \<Longrightarrow> x = d) \<Longrightarrow> lookE (map_of (jfield c k v) k) f d = Inr x"
  by (simp add: lookE_def jfield_def)

lemma read_scalars [json_rules]:
  "lookE (map_of (jfield (s \<noteq> []) k (JString s)) k) (stringE h) [] = Inr s"
  "whole n \<Longrightarrow> lookE (map_of (jfield (n \<noteq> Num 0) k (JNumber (Math_round n))) k) (numberE h) (Num 0) = Inr n"
  "lookE (map_of (jfield (b \<noteq> False) k (JBool b)) k) booleanE False = Inr b"
  "enumE f (JString t) = Inr n \<Longrightarrow>
   lookE (map_of (jfield (n \<noteq> Num 0) k (JString t)) k) (enumE f) (Num 0) = Inr n"
  by (rule read_field; simp add: stringE_def numberE_def booleanE_def whole_def)+

lemma read_opt:
  "pred_option (json_rt f g) x \<Longrightarrow>
   lookE (map_of (jopt k (\<lambda>v. json_of (f v)) x) k) (\<lambda>j. bindE (g j) (\<lambda>y. Inr (Some y))) None = Inr x"
  by (cases x) (simp_all add: lookE_def jopt_def json_rtD(2,3))

lemma read_elements:
  "list_all (\<lambda>v. g (f v) = Inr v) xs \<Longrightarrow> look_array (map_of (jarray k f xs) k) g = Inr xs"
proof -
  assume "list_all (\<lambda>v. g (f v) = Inr v) xs"
  then have "mapE (\<lambda>v. g (f v)) xs = Inr (map (\<lambda>v. v) xs)"
    by (intro mapE_Inr) (auto simp: list_all_iff)
  then show ?thesis by (simp add: look_array_def jarray_def mapE_map)
qed

lemma read_array:
  "list_all (json_rt f g) xs \<Longrightarrow> look_array (map_of (jarray k (\<lambda>v. json_of (f v)) xs) k) g = Inr xs"
  by (rule read_elements) (auto simp: list_all_iff json_rtD(3))

text \<open>Arrays of scalars.\<close>

lemma jarrayE_pure: "jarrayE k (\<lambda>e. Inr (f e)) xs = Inr (jarray k f xs)"
  by (simp add: jarrayE_def jarray_def mapE_Inr)

lemma json_strings [json_rules]:
  "jarrayE k (\<lambda>e. Inr (JString e)) xs = Inr (jarray k JString xs)"
  "look_array (map_of (jarray k JString xs) k) (stringE h) = Inr xs"
  by (rule jarrayE_pure, rule read_elements) (simp add: list_all_iff stringE_def)

lemma json_bools [json_rules]:
  "jarrayE k (\<lambda>e. Inr (JBool e)) xs = Inr (jarray k JBool xs)"
  "look_array (map_of (jarray k JBool xs) k) booleanE = Inr xs"
  by (rule jarrayE_pure, rule read_elements) (simp add: list_all_iff booleanE_def)

lemma json_numbers [json_rules]:
  "jarrayE k (\<lambda>e. Inr (JNumber (Math_round e))) xs = Inr (jarray k (\<lambda>e. JNumber (Math_round e)) xs)"
  "list_all whole xs \<Longrightarrow>
   look_array (map_of (jarray k (\<lambda>e. JNumber (Math_round e)) xs) k) (numberE h) = Inr xs"
  by (rule jarrayE_pure, rule read_elements) (simp add: list_all_iff numberE_def whole_def)

end
