(* ===== verification/Wire.thy ===== *)
theory Wire
  imports JsValue
begin

unbundle bit_operations_syntax

text \<open>
  The interface to \<^verbatim>\<open>@bufbuild/protobuf/wire\<close>, the package whose \<open>BinaryWriter\<close> and \<open>BinaryReader\<close>
  the generated codecs drive. The package is not part of the repository, so it is a parameter:
  the record \<open>wire\<close> holds its operations over an abstract writer \<open>'w\<close> and reader \<open>'r\<close>, every
  codec takes such a record, and the locale \<open>wire_laws\<close> states what the codecs rely on.

  The laws are the documented behaviour of the package. A writer holds a stack of pending byte
  strings (\<open>out\<close>, innermost first): a scalar method appends the protobuf encoding of its argument,
  \<open>fork\<close> starts a new byte string, \<open>join\<close> appends the length and the bytes of the last fork to the
  one before it, \<open>finish\<close> returns what was written. A reader holds the unread bytes (\<open>inp\<close>): a
  scalar method reads back what the writer wrote, consumes a prefix of the input when it succeeds,
  and a tag takes at least one byte; \<open>skip\<close> drops the value of a field by its wire type. The
  integers a reader returns are in the range of their type. Every method returns or throws.

  Methods that check their argument (\<open>int32\<close>, \<open>int64\<close>, \<open>uint64\<close>, \<open>string\<close>) are constrained on
  the arguments they accept only.
\<close>

record ('w, 'r) wire =
  Writer_new :: 'w
  w_uint32 :: "u32 \<Rightarrow> 'w \<Rightarrow> 'w result"
  w_int32 :: "number \<Rightarrow> 'w \<Rightarrow> 'w result"
  w_int64 :: "number \<Rightarrow> 'w \<Rightarrow> 'w result"
  w_uint64 :: "number \<Rightarrow> 'w \<Rightarrow> 'w result"
  w_double :: "number \<Rightarrow> 'w \<Rightarrow> 'w result"
  w_bool :: "bool \<Rightarrow> 'w \<Rightarrow> 'w result"
  w_string :: "jsstring \<Rightarrow> 'w \<Rightarrow> 'w result"
  w_bytes :: "bytes \<Rightarrow> 'w \<Rightarrow> 'w result"
  w_fork :: "'w \<Rightarrow> 'w result"
  w_join :: "'w \<Rightarrow> 'w result"
  w_finish :: "'w \<Rightarrow> bytes"
  Reader_new :: "bytes \<Rightarrow> 'r"
  r_pos :: "'r \<Rightarrow> nat"
  r_len :: "'r \<Rightarrow> nat"
  r_uint32 :: "'r \<Rightarrow> (u32 \<times> 'r) result"
  r_int32 :: "'r \<Rightarrow> (int \<times> 'r) result"
  r_int64 :: "'r \<Rightarrow> (int \<times> 'r) result"
  r_uint64 :: "'r \<Rightarrow> (int \<times> 'r) result"
  r_double :: "'r \<Rightarrow> (number \<times> 'r) result"
  r_bool :: "'r \<Rightarrow> (bool \<times> 'r) result"
  r_string :: "'r \<Rightarrow> (jsstring \<times> 'r) result"
  r_bytes :: "'r \<Rightarrow> (bytes \<times> 'r) result"
  r_skip :: "u32 \<Rightarrow> 'r \<Rightarrow> 'r result"

text \<open>The encodings of the scalar types.\<close>

record wire_format =
  e_uint32 :: "u32 \<Rightarrow> bytes"
  e_int32 :: "int \<Rightarrow> bytes"
  e_int64 :: "int \<Rightarrow> bytes"
  e_uint64 :: "int \<Rightarrow> bytes"
  e_double :: "number \<Rightarrow> bytes"
  e_bool :: "bool \<Rightarrow> bytes"
  e_string :: "jsstring \<Rightarrow> bytes"
  e_bytes :: "bytes \<Rightarrow> bytes"

text \<open>The strings and byte arrays the package can carry: well-formed, and short enough for a 32-bit length.\<close>

definition wire_string :: "jsstring \<Rightarrow> bool" where
  "wire_string s \<longleftrightarrow> wf_utf16 s \<and> length s < 2 ^ 30"

definition wire_bytes :: "bytes \<Rightarrow> bool" where
  "wire_bytes b \<longleftrightarrow> length b < 2 ^ 32"

locale wire_laws =
  fixes L :: "('w, 'r) wire" and F :: wire_format
    and out :: "'w \<Rightarrow> bytes list" and inp :: "'r \<Rightarrow> bytes"
  assumes out_new: "out (Writer_new L) = [[]]"
    and out_finish: "out w = b # bs \<Longrightarrow> w_finish L w = b"
    and out_uint32: "out w = b # bs \<Longrightarrow>
      \<exists>w'. w_uint32 L n w = Inr w' \<and> out w' = (b @ e_uint32 F n) # bs"
    and out_int32: "out w = b # bs \<Longrightarrow> - (2 ^ 31) \<le> i \<Longrightarrow> i < 2 ^ 31 \<Longrightarrow>
      \<exists>w'. w_int32 L (num_of_int i) w = Inr w' \<and> out w' = (b @ e_int32 F i) # bs"
    and out_int64: "out w = b # bs \<Longrightarrow> - (2 ^ 63) \<le> i \<Longrightarrow> i < 2 ^ 63 \<Longrightarrow>
      \<exists>w'. w_int64 L (num_of_int i) w = Inr w' \<and> out w' = (b @ e_int64 F i) # bs"
    and out_uint64: "out w = b # bs \<Longrightarrow> 0 \<le> i \<Longrightarrow> i < 2 ^ 64 \<Longrightarrow>
      \<exists>w'. w_uint64 L (num_of_int i) w = Inr w' \<and> out w' = (b @ e_uint64 F i) # bs"
    and out_double: "out w = b # bs \<Longrightarrow> is_double x \<Longrightarrow>
      \<exists>w'. w_double L x w = Inr w' \<and> out w' = (b @ e_double F x) # bs"
    and out_bool: "out w = b # bs \<Longrightarrow>
      \<exists>w'. w_bool L v w = Inr w' \<and> out w' = (b @ e_bool F v) # bs"
    and out_string: "out w = b # bs \<Longrightarrow> wire_string s \<Longrightarrow>
      \<exists>w'. w_string L s w = Inr w' \<and> out w' = (b @ e_string F s) # bs"
    and out_bytes: "out w = b # bs \<Longrightarrow> wire_bytes d \<Longrightarrow>
      \<exists>w'. w_bytes L d w = Inr w' \<and> out w' = (b @ e_bytes F d) # bs"
    and out_fork: "\<exists>w'. w_fork L w = Inr w' \<and> out w' = [] # out w"
    and out_join: "out w = b # p # bs \<Longrightarrow> length b < 2 ^ 32 \<Longrightarrow>
      \<exists>w'. w_join L w = Inr w' \<and> out w' = (p @ e_uint32 F (of_nat (length b)) @ b) # bs"
    and inp_new: "inp (Reader_new L b) = b" "r_pos L (Reader_new L b) = 0"
    and inp_len: "r_len L r = r_pos L r + length (inp r)"
    and inp_uint32: "inp r = e_uint32 F n @ t \<Longrightarrow> \<exists>r'. r_uint32 L r = Inr (n, r') \<and> inp r' = t"
    and inp_int32: "inp r = e_int32 F i @ t \<Longrightarrow> - (2 ^ 31) \<le> i \<Longrightarrow> i < 2 ^ 31 \<Longrightarrow>
      \<exists>r'. r_int32 L r = Inr (i, r') \<and> inp r' = t"
    and inp_int64: "inp r = e_int64 F i @ t \<Longrightarrow> - (2 ^ 63) \<le> i \<Longrightarrow> i < 2 ^ 63 \<Longrightarrow>
      \<exists>r'. r_int64 L r = Inr (i, r') \<and> inp r' = t"
    and inp_uint64: "inp r = e_uint64 F i @ t \<Longrightarrow> 0 \<le> i \<Longrightarrow> i < 2 ^ 64 \<Longrightarrow>
      \<exists>r'. r_uint64 L r = Inr (i, r') \<and> inp r' = t"
    and inp_double: "inp r = e_double F x @ t \<Longrightarrow> is_double x \<Longrightarrow>
      \<exists>r'. r_double L r = Inr (x, r') \<and> inp r' = t"
    and inp_bool: "inp r = e_bool F v @ t \<Longrightarrow> \<exists>r'. r_bool L r = Inr (v, r') \<and> inp r' = t"
    and inp_string: "inp r = e_string F s @ t \<Longrightarrow> wire_string s \<Longrightarrow>
      \<exists>r'. r_string L r = Inr (s, r') \<and> inp r' = t"
    and inp_bytes: "inp r = e_bytes F b @ t \<Longrightarrow> wire_bytes b \<Longrightarrow>
      \<exists>r'. r_bytes L r = Inr (b, r') \<and> inp r' = t"
    and use_uint32: "r_uint32 L r = Inr (n, r') \<Longrightarrow>
      \<exists>bs. bs \<noteq> [] \<and> inp r = bs @ inp r' \<and> r_pos L r' = r_pos L r + length bs"
    and use_int32: "r_int32 L r = Inr (i, r') \<Longrightarrow>
      \<exists>bs. bs \<noteq> [] \<and> inp r = bs @ inp r' \<and> r_pos L r' = r_pos L r + length bs"
    and use_int64: "r_int64 L r = Inr (i, r') \<Longrightarrow>
      \<exists>bs. bs \<noteq> [] \<and> inp r = bs @ inp r' \<and> r_pos L r' = r_pos L r + length bs"
    and use_uint64: "r_uint64 L r = Inr (i, r') \<Longrightarrow>
      \<exists>bs. bs \<noteq> [] \<and> inp r = bs @ inp r' \<and> r_pos L r' = r_pos L r + length bs"
    and use_double: "r_double L r = Inr (x, r') \<Longrightarrow>
      \<exists>bs. inp r = bs @ inp r' \<and> r_pos L r' = r_pos L r + length bs"
    and use_bool: "r_bool L r = Inr (v, r') \<Longrightarrow>
      \<exists>bs. bs \<noteq> [] \<and> inp r = bs @ inp r' \<and> r_pos L r' = r_pos L r + length bs"
    and use_string: "r_string L r = Inr (s, r') \<Longrightarrow>
      \<exists>bs. inp r = bs @ inp r' \<and> r_pos L r' = r_pos L r + length bs"
    and use_bytes: "r_bytes L r = Inr (b, r') \<Longrightarrow>
      \<exists>bs. inp r = bs @ inp r' \<and> r_pos L r' = r_pos L r + length bs"
    and use_skip: "r_skip L wt r = Inr r' \<Longrightarrow>
      \<exists>bs. inp r = bs @ inp r' \<and> r_pos L r' = r_pos L r + length bs"
    and skip_varint: "inp r = e_uint64 F i @ t \<Longrightarrow> 0 \<le> i \<Longrightarrow> i < 2 ^ 64 \<Longrightarrow>
      \<exists>r'. r_skip L 0 r = Inr r' \<and> inp r' = t"
    and skip_bytes: "inp r = e_bytes F b @ t \<Longrightarrow> wire_bytes b \<Longrightarrow>
      \<exists>r'. r_skip L 2 r = Inr r' \<and> inp r' = t"
    and range_int32: "r_int32 L r = Inr (i, r') \<Longrightarrow> - (2 ^ 31) \<le> i \<and> i < 2 ^ 31"
    and range_uint64: "r_uint64 L r = Inr (i, r') \<Longrightarrow> 0 \<le> i \<and> i < 2 ^ 64"
    and returns_uint32: "r_uint32 L r \<noteq> Inl Diverges"
    and returns_int32: "r_int32 L r \<noteq> Inl Diverges"
    and returns_int64: "r_int64 L r \<noteq> Inl Diverges"
    and returns_uint64: "r_uint64 L r \<noteq> Inl Diverges"
    and returns_double: "r_double L r \<noteq> Inl Diverges"
    and returns_bool: "r_bool L r \<noteq> Inl Diverges"
    and returns_string: "r_string L r \<noteq> Inl Diverges"
    and returns_bytes: "r_bytes L r \<noteq> Inl Diverges"
    and returns_skip: "r_skip L wt r \<noteq> Inl Diverges"

end
