(* ===== verification/Base64.thy ===== *)
theory Base64
  imports JsValue
begin

text \<open>
  Base64 text of byte arrays: \<open>bytesFromBase64\<close> and \<open>base64FromBytes\<close>, which the generated files
  of the client repeat, over both hosts they test for (Node's \<open>Buffer\<close>, a browser's \<open>atob\<close> and
  \<open>btoa\<close>). \<open>atob\<close> is the forgiving decoder of the HTML standard: it drops ASCII white space and
  one or two padding characters, and throws on a wrong length or a foreign character. \<open>Buffer\<close>
  agrees with it wherever it succeeds and never throws on a string; what it returns elsewhere is
  a parameter of the host.

  The lemmas show that decoding inverts encoding on either host, in any combination of the two.
\<close>

section \<open>Definitions\<close>

text \<open>Three bytes are four groups of six bits; a shorter tail is padded with zero bits.\<close>

fun sextets :: "bytes \<Rightarrow> nat list" where
  "sextets [] = []"
| "sextets [a] = [unat a div 4, unat a mod 4 * 16]"
| "sextets [a, b] = [unat a div 4, unat a mod 4 * 16 + unat b div 16, unat b mod 16 * 4]"
| "sextets (a # b # c # bs) =
     unat a div 4 # (unat a mod 4 * 16 + unat b div 16) # (unat b mod 16 * 4 + unat c div 64) #
     (unat c mod 64) # sextets bs"

fun unsextets :: "nat list \<Rightarrow> bytes" where
  "unsextets (s # t # u # v # ss) =
     of_nat (s * 4 + t div 16) # of_nat (t mod 16 * 16 + u div 4) # of_nat (u mod 4 * 64 + v) #
     unsextets ss"
| "unsextets [s, t, u] = [of_nat (s * 4 + t div 16), of_nat (t mod 16 * 16 + u div 4)]"
| "unsextets [s, t] = [of_nat (s * 4 + t div 16)]"
| "unsextets _ = []"

definition b64_char :: "nat \<Rightarrow> 16 word" where
  "b64_char n = (if n < 26 then of_nat (65 + n) else if n < 52 then of_nat (71 + n)
     else if n < 62 then of_nat (n - 4) else if n = 62 then 43 else 47)"

definition b64_val :: "16 word \<Rightarrow> nat option" where
  "b64_val c = (let n = unat c in
     if 65 \<le> n \<and> n \<le> 90 then Some (n - 65) else if 97 \<le> n \<and> n \<le> 122 then Some (n - 71)
     else if 48 \<le> n \<and> n \<le> 57 then Some (n + 4) else if n = 43 then Some 62
     else if n = 47 then Some 63 else None)"

definition b64_pad :: "nat \<Rightarrow> jsstring" where
  "b64_pad n = (if n mod 3 = 1 then [61, 61] else if n mod 3 = 2 then [61] else [])"

definition b64_encode :: "bytes \<Rightarrow> jsstring" where
  "b64_encode bs = map b64_char (sextets bs) @ b64_pad (length bs)"

definition strip_pad :: "jsstring \<Rightarrow> jsstring" where
  "strip_pad s =
     (if length s mod 4 \<noteq> 0 then s
      else if length s \<ge> 2 \<and> drop (length s - 2) s = [61, 61] then take (length s - 2) s
      else if s \<noteq> [] \<and> last s = 61 then butlast s else s)"

definition b64_decode :: "jsstring \<Rightarrow> bytes option" where
  "b64_decode s =
     (let t = strip_pad (filter (\<lambda>c. c \<notin> {9, 10, 12, 13, 32}) s)
      in if length t mod 4 = 1 \<or> (\<exists>c \<in> set t. b64_val c = None) then None
         else Some (unsextets (map (\<lambda>c. the (b64_val c)) t)))"

definition atob :: "jsstring \<Rightarrow> jsstring result" where
  "atob s = (case b64_decode s of
       None \<Rightarrow> Inl InvalidCharacterError | Some bs \<Rightarrow> Inr (map (\<lambda>b. ucast b) bs))"

definition btoa :: "jsstring \<Rightarrow> jsstring result" where
  "btoa s = (if \<exists>c \<in> set s. 255 < c then Inl InvalidCharacterError
             else Inr (b64_encode (map (\<lambda>c. ucast c) s)))"

definition Buffer_from_base64 :: "host \<Rightarrow> jsval \<Rightarrow> bytes result" where
  "Buffer_from_base64 h v =
     (case v of
        JString s \<Rightarrow> Inr (case b64_decode s of Some bs \<Rightarrow> bs | None \<Rightarrow> Buffer_lenient h s)
      | _ \<Rightarrow> Buffer_from_other h v)"

text \<open>The argument comes from an untyped JSON object; \<open>atob\<close> converts it to a string.\<close>

definition bytesFromBase64 :: "host \<Rightarrow> jsval \<Rightarrow> bytes result" where
  "bytesFromBase64 h b64 =
     (if has_Buffer h then Buffer_from_base64 h b64
      else bindE (atob (js_String h b64)) (\<lambda>bin. Inr (map (\<lambda>c. ucast c) bin)))"

definition base64FromBytes :: "host \<Rightarrow> bytes \<Rightarrow> jsstring result" where
  "base64FromBytes h arr =
     (if has_Buffer h then Inr (b64_encode arr)
      else btoa (map (\<lambda>b. ucast b) arr))"


section \<open>Decoding inverts encoding\<close>

lemma sextets_less_64: "\<forall>n \<in> set (sextets bs). n < 64"
proof (induction bs rule: sextets.induct)
  case (4 a b c bs)
  have "unat a < 256" "unat b < 256" "unat c < 256"
    using unsigned_less [of a] unsigned_less [of b] unsigned_less [of c] by simp_all
  with 4 show ?case by auto
next
  case (3 a b)
  have "unat a < 256" "unat b < 256" using unsigned_less [of a] unsigned_less [of b] by simp_all
  then show ?case by auto
next
  case (2 a)
  have "unat a < 256" using unsigned_less [of a] by simp
  then show ?case by auto
qed simp

lemma regroup:
  fixes a b c :: nat
  assumes "b < 256" and "c < 256"
  shows "a div 4 * 4 + (a mod 4 * 16 + b div 16) div 16 = a"
    and "(a mod 4 * 16 + b div 16) mod 16 * 16 + (b mod 16 * 4 + c div 64) div 4 = b"
    and "(b mod 16 * 4 + c div 64) mod 4 * 64 + c mod 64 = c"
proof -
  have b: "b div 16 < 16" and c: "c div 64 < 4" using assms by auto
  have "(a mod 4 * 16 + b div 16) div 16 = a mod 4" using b by simp
  then show "a div 4 * 4 + (a mod 4 * 16 + b div 16) div 16 = a" by simp
  have "(a mod 4 * 16 + b div 16) mod 16 = b div 16" using b by simp
  moreover have "(b mod 16 * 4 + c div 64) div 4 = b mod 16" using c by simp
  ultimately show "(a mod 4 * 16 + b div 16) mod 16 * 16 + (b mod 16 * 4 + c div 64) div 4 = b" by simp
  have "(b mod 16 * 4 + c div 64) mod 4 = c div 64" using c by simp
  then show "(b mod 16 * 4 + c div 64) mod 4 * 64 + c mod 64 = c" by simp
qed

lemma unat_byte_less [simp]: "unat (a :: byte) < 256"
  using unsigned_less [of a] by simp

lemma regroup_byte:
  fixes a b c :: byte
  shows "of_nat (unat a div 4 * 4 + (unat a mod 4 * 16 + unat b div 16) div 16) = a"
    and "of_nat (unat a div 4 * 4 + (unat a mod 4 * 16) div 16) = a"
    and "of_nat ((unat a mod 4 * 16 + unat b div 16) mod 16 * 16 + (unat b mod 16 * 4 + unat c div 64) div 4) = b"
    and "of_nat ((unat a mod 4 * 16 + unat b div 16) mod 16 * 16 + (unat b mod 16 * 4) div 4) = b"
    and "of_nat ((unat b mod 16 * 4 + unat c div 64) mod 4 * 64 + unat c mod 64) = c"
proof -
  note r = regroup(1,2) [of "unat b" "unat c" "unat a"] regroup(3) [of "unat b" "unat c"]
    regroup(1) [of 0 0 "unat a"] regroup(2) [of "unat b" 0 "unat a"]
  have id: "of_nat (unat x) = x" for x :: byte by simp
  show "of_nat (unat a div 4 * 4 + (unat a mod 4 * 16 + unat b div 16) div 16) = a"
    using r(1) id by (metis unat_byte_less)
  show "of_nat (unat a div 4 * 4 + (unat a mod 4 * 16) div 16) = a"
    using r(4) id by (metis add_0_right div_0 zero_less_numeral)
  show "of_nat ((unat a mod 4 * 16 + unat b div 16) mod 16 * 16 + (unat b mod 16 * 4 + unat c div 64) div 4) = b"
    using r(2) id by (metis unat_byte_less)
  show "of_nat ((unat a mod 4 * 16 + unat b div 16) mod 16 * 16 + (unat b mod 16 * 4) div 4) = b"
    using r(5) id by (metis add_0_right div_0 unat_byte_less zero_less_numeral)
  show "of_nat ((unat b mod 16 * 4 + unat c div 64) mod 4 * 64 + unat c mod 64) = c"
    using r(3) id by (metis unat_byte_less)
qed

lemma unsextets_sextets: "unsextets (sextets bs) = bs"
  by (induction bs rule: sextets.induct) (simp_all only: sextets.simps unsextets.simps regroup_byte)

lemma b64_val_of_nat:
  "n < 65536 \<Longrightarrow> b64_val (of_nat n) =
     (if 65 \<le> n \<and> n \<le> 90 then Some (n - 65) else if 97 \<le> n \<and> n \<le> 122 then Some (n - 71)
      else if 48 \<le> n \<and> n \<le> 57 then Some (n + 4) else if n = 43 then Some 62
      else if n = 47 then Some 63 else None)"
  by (simp only: b64_val_def Let_def unat_of_nat) simp

lemma b64_char_of_nat:
  "b64_char n = of_nat (if n < 26 then 65 + n else if n < 52 then 71 + n
     else if n < 62 then n - 4 else if n = 62 then 43 else 47)"
  by (simp add: b64_char_def)

lemma b64_val_char: "n < 64 \<Longrightarrow> b64_val (b64_char n) = Some n"
  unfolding b64_char_of_nat by (subst b64_val_of_nat) auto

lemma b64_val_plain: "b64_val c = Some n \<Longrightarrow> c \<notin> {9, 10, 12, 13, 32, 61}"
  by (auto simp: b64_val_def)

lemma b64_char_plain: "n < 64 \<Longrightarrow> b64_char n \<notin> {9, 10, 12, 13, 32, 61}"
  by (rule b64_val_plain) (rule b64_val_char)

lemma b64_pad_Suc3 [simp]: "b64_pad (Suc (Suc (Suc n))) = b64_pad n"
proof -
  have "Suc (Suc (Suc n)) mod 3 = n mod 3" by presburger
  then show ?thesis by (simp only: b64_pad_def)
qed

lemma length_sextets: "(length (sextets bs) + length (b64_pad (length bs))) mod 4 = 0"
proof (induction bs rule: sextets.induct)
  case (4 a b c bs)
  then show ?case by (simp add: mod_Suc)
qed (simp_all add: b64_pad_def)

lemma length_sextets_mod: "length (sextets bs) mod 4 \<noteq> 1"
proof (induction bs rule: sextets.induct)
  case (4 a b c bs)
  then show ?case by (simp add: mod_Suc)
qed simp_all

lemma strip_pad_encode: "strip_pad (map b64_char (sextets bs) @ b64_pad (length bs)) = map b64_char (sextets bs)"
proof -
  let ?x = "map b64_char (sextets bs)" and ?p = "b64_pad (length bs)"
  have l: "length (?x @ ?p) mod 4 = 0" using length_sextets [of bs] by simp
  have n61: "61 \<notin> set ?x" using sextets_less_64 b64_char_plain by fastforce
  have last61: "?x \<noteq> [] \<Longrightarrow> last ?x \<noteq> 61" using n61 last_in_set [of ?x] by metis
  have d61: "drop (length y - 2) y = [61, 61] \<Longrightarrow> 61 \<in> set (butlast y)" for y :: jsstring
  proof -
    assume "drop (length y - 2) y = [61, 61]"
    then have "y = take (length y - 2) y @ [61, 61]" by (metis append_take_drop_id)
    then have "butlast y = take (length y - 2) y @ [61]" by (metis butlast_append butlast.simps(2) list.distinct(1))
    then show ?thesis by (metis in_set_conv_decomp)
  qed
  consider "?p = []" | "?p = [61]" | "?p = [61, 61]" unfolding b64_pad_def by metis
  then show ?thesis
  proof cases
    case 1
    have "drop (length ?x - 2) ?x \<noteq> [61, 61]"
      using n61 by (metis in_set_dropD list.set_intros(1))
    with 1 l last61 show ?thesis by (auto simp: strip_pad_def)
  next
    case 2
    have "drop (length (?x @ [61]) - 2) (?x @ [61]) \<noteq> [61, 61]" 
      using d61 [of "?x @ [61]"] n61 by auto
    with 2 l show ?thesis by (auto simp: strip_pad_def)
  next
    case 3
    with l show ?thesis by (simp add: strip_pad_def)
  qed
qed

theorem b64_decode_encode: "b64_decode (b64_encode bs) = Some bs"
proof -
  let ?x = "map b64_char (sextets bs)"
  have "c \<notin> {9, 10, 12, 13, 32}" if "c \<in> set (?x @ b64_pad (length bs))" for c
    using that sextets_less_64 b64_char_plain by (auto simp: b64_pad_def split: if_splits)
  then have f: "filter (\<lambda>c. c \<notin> {9, 10, 12, 13, 32}) (b64_encode bs) = b64_encode bs"
    unfolding b64_encode_def by (intro filter_True) blast
  have v: "map (\<lambda>c. the (b64_val c)) ?x = sextets bs"
    using sextets_less_64 [of bs] by (auto simp: b64_val_char intro!: map_idI)
  have n: "\<not> (\<exists>c \<in> set ?x. b64_val c = None)"
    using sextets_less_64 [of bs] by (auto simp: b64_val_char)
  show ?thesis
    unfolding b64_decode_def Let_def f
    using n v length_sextets_mod [of bs] by (simp add: b64_encode_def strip_pad_encode unsextets_sextets)
qed

lemma ucast_byte_roundtrip: "map ((\<lambda>c. ucast (c :: 16 word) :: byte) \<circ> (\<lambda>b. ucast b)) bs = bs"
  by (rule map_idI) (simp add: ucast_up_ucast_id is_up)

lemma base64FromBytes_eq: "base64FromBytes h bs = Inr (b64_encode bs)"
proof -
  have "\<not> 255 < (ucast b :: 16 word)" for b :: byte
  proof -
    have "unat b < 2 ^ 16" by (rule less_trans [OF unat_byte_less]) simp
    then have "take_bit 16 (unat b) = unat b" by (simp only: take_bit_nat_eq_self)
    moreover have "\<not> 255 < unat b" using unat_byte_less [of b] by linarith
    ultimately show ?thesis by (simp add: word_less_nat_alt unsigned_ucast_eq)
  qed
  then show ?thesis
    using ucast_byte_roundtrip [of bs] by (auto simp: base64FromBytes_def btoa_def)
qed

lemma bytesFromBase64_encode:
  "bytesFromBase64 h (JString (b64_encode bs)) = Inr bs"
  using ucast_byte_roundtrip [of bs]
  by (simp add: bytesFromBase64_def Buffer_from_base64_def atob_def b64_decode_encode)

text \<open>A byte array as a field, and an array of them.\<close>

definition base64E :: "host \<Rightarrow> bytes \<Rightarrow> jsval result" where
  "base64E h arr = bindE (base64FromBytes h arr) (\<lambda>s. Inr (JString s))"

lemma base64E_eq: "base64E h bs = Inr (JString (b64_encode bs))"
  by (simp add: base64E_def base64FromBytes_eq)

lemma json_bytes [json_rules]:
  "jfieldE c k (base64E h b) = Inr (jfield c k (JString (b64_encode b)))"
  "lookE (map_of (jfield (length b \<noteq> 0) k (JString (b64_encode b))) k) (bytesFromBase64 h) [] = Inr b"
  by (simp only: base64E_eq jfieldE_Inr)
    (rule read_field; simp add: bytesFromBase64_encode)

lemma json_bytes_list [json_rules]:
  "jarrayE k (base64E h) xs = Inr (jarray k (\<lambda>b. JString (b64_encode b)) xs)"
  "look_array (map_of (jarray k (\<lambda>b. JString (b64_encode b)) xs) k) (bytesFromBase64 h) = Inr xs"
  by (simp only: base64E_eq [abs_def] jarrayE_pure)
    (rule read_elements, simp add: list_all_iff bytesFromBase64_encode)

end
