(* ===== verification/Codec.thy ===== *)
theory Codec
  imports Wire Base64
begin

unbundle bit_operations_syntax

text \<open>
  The shape every generated codec shares, and what it guarantees.

  A \<open>decode\<close> of the source is a \<open>while\<close> loop over the tags of the input with a \<open>switch\<close> on the
  field number. The loop is \<open>decode_loop\<close>, given the switch of the message as a function: a case
  either consumes a value and updates the message (\<open>readf\<close>) or breaks out of the switch, after
  which an end-group tag or the tag 0 ends the loop and anything else is skipped. The loop recurses
  on fuel; \<open>decode_msg\<close> starts it with one unit per byte, and \<open>run_enough_fuel\<close> shows that more fuel never
  changes the result of a loop over a lawful reader, since each iteration reads a tag of at
  least one byte.

  In the context of \<open>wire_laws\<close> the relation \<open>codes\<close> links an encoder to the decoder loop: the
  bytes the encoder writes take the loop from one message to another. Its rules follow the
  statement forms of the encoders, so a message's round trip is one step per field. The locale
  \<open>message_codec\<close> is the contract of one message type (the binary half of \<open>MessageFns\<close>), with the
  lemmas its clients use: the round trip, its use as a field of another message, and that
  unknown fields are ignored. \<open>message_json\<close> is the JSON half.
\<close>

section \<open>Decoding\<close>

datatype 'r input = AReader 'r | ABuffer bytes

definition reader_of :: "('w, 'r) wire \<Rightarrow> 'r input \<Rightarrow> 'r" where
  "reader_of L input = (case input of AReader r \<Rightarrow> r | ABuffer b \<Rightarrow> Reader_new L b)"

type_synonym ('m, 'r) action = "'r \<Rightarrow> ('m \<times> 'r) option result"

definition break_out :: "('m, 'r) action" where
  "break_out r = Inr None"

text \<open>\<open>if (tag !== k) { break; } ... continue;\<close>\<close>

definition when_tag :: "u32 \<Rightarrow> u32 \<Rightarrow> ('m, 'r) action \<Rightarrow> ('m, 'r) action" where
  "when_tag tag k a = (if tag \<noteq> k then break_out else a)"

definition readf :: "('r \<Rightarrow> ('a \<times> 'r) result) \<Rightarrow> ('a \<Rightarrow> 'm) \<Rightarrow> ('m, 'r) action" where
  "readf op upd r = bindE (op r) (\<lambda>(v, r'). Inr (Some (upd v, r')))"

text \<open>\<open>reader.int32()\<close> as a number, \<open>longToNumber(reader.int64())\<close>, \<open>f(...)\<close> of a value read\<close>

definition num32 :: "('r \<Rightarrow> (int \<times> 'r) result) \<Rightarrow> 'r \<Rightarrow> (number \<times> 'r) result" where
  "num32 op r = bindE (op r) (\<lambda>(i, r'). Inr (num_of_int i, r'))"

definition num64 :: "('r \<Rightarrow> (int \<times> 'r) result) \<Rightarrow> 'r \<Rightarrow> (number \<times> 'r) result" where
  "num64 op r = bindE (op r) (\<lambda>(i, r'). bindE (longToNumber i) (\<lambda>n. Inr (n, r')))"

definition read_map :: "('a \<Rightarrow> 'b) \<Rightarrow> ('r \<Rightarrow> ('a \<times> 'r) result) \<Rightarrow> 'r \<Rightarrow> ('b \<times> 'r) result" where
  "read_map f op r = bindE (op r) (\<lambda>(v, r'). Inr (f v, r'))"

text \<open>\<open>M.decode(reader, reader.uint32())\<close>\<close>

definition submsg :: "('w, 'r) wire \<Rightarrow> ('r input \<Rightarrow> nat option \<Rightarrow> ('m \<times> 'r) result)
    \<Rightarrow> 'r \<Rightarrow> ('m \<times> 'r) result" where
  "submsg L dec r = bindE (r_uint32 L r) (\<lambda>(n, r'). dec (AReader r') (Some (unat n)))"

text \<open>
  \<open>const end2 = reader.uint32() + reader.pos; while (reader.pos < end2) { push(reader...()) }\<close>:
  the values of a packed field, in order.
\<close>

fun packed_loop :: "nat \<Rightarrow> ('w, 'r) wire \<Rightarrow> ('r \<Rightarrow> ('a \<times> 'r) result) \<Rightarrow> nat \<Rightarrow> 'a list \<Rightarrow> 'r
    \<Rightarrow> ('a list \<times> 'r) result" where
  "packed_loop fuel L op end2 acc r =
     (if r_pos L r < end2 then
        (case fuel of
           0 \<Rightarrow> Inl Diverges
         | Suc fuel' \<Rightarrow> bindE (op r) (\<lambda>(v, r'). packed_loop fuel' L op end2 (acc @ [v]) r'))
      else Inr (acc, r))"

declare packed_loop.simps [simp del]

definition packed :: "('w, 'r) wire \<Rightarrow> ('r \<Rightarrow> ('a \<times> 'r) result) \<Rightarrow> 'r \<Rightarrow> ('a list \<times> 'r) result" where
  "packed L op r = bindE (r_uint32 L r) (\<lambda>(n, r').
     packed_loop (unat n) L op (unat n + r_pos L r') [] r')"

fun decode_loop :: "nat \<Rightarrow> ('w, 'r) wire \<Rightarrow> (u32 \<Rightarrow> 'm \<Rightarrow> ('m, 'r) action) \<Rightarrow> nat \<Rightarrow> 'm \<Rightarrow> 'r
    \<Rightarrow> ('m \<times> 'r) result" where
  "decode_loop fuel L sw stop m r =
     (if r_pos L r < stop then
        (case fuel of
           0 \<Rightarrow> Inl Diverges
         | Suc fuel' \<Rightarrow>
             bindE (r_uint32 L r) (\<lambda>(tag, r1).
             bindE (sw tag m r1) (\<lambda>x.
               case x of
                 Some (m', r2) \<Rightarrow> decode_loop fuel' L sw stop m' r2
               | None \<Rightarrow>
                   if tag AND 7 = 4 \<or> tag = 0 then Inr (m, r1)
                   else bindE (r_skip L (tag AND 7) r1) (decode_loop fuel' L sw stop m))))
      else Inr (m, r))"

declare decode_loop.simps [simp del]

definition decode_msg :: "('w, 'r) wire \<Rightarrow> (u32 \<Rightarrow> 'm \<Rightarrow> ('m, 'r) action) \<Rightarrow> 'm
    \<Rightarrow> 'r input \<Rightarrow> nat option \<Rightarrow> ('m \<times> 'r) result" where
  "decode_msg L sw base input len =
     (let reader = reader_of L input;
          stop = (case len of None \<Rightarrow> r_len L reader | Some n \<Rightarrow> r_pos L reader + n)
      in decode_loop (stop - r_pos L reader) L sw stop base reader)"

text \<open>\<open>M.encode(message).finish()\<close>\<close>

definition encode_bytes :: "('w, 'r) wire \<Rightarrow> ('w \<Rightarrow> 'w result) \<Rightarrow> bytes result" where
  "encode_bytes L enc = bindE (enc (Writer_new L)) (\<lambda>w. Inr (w_finish L w))"

text \<open>\<open>M.decode(M.encode(message).finish())\<close> is \<open>message\<close> again, and all of the bytes are read.\<close>

definition roundtrips :: "('w, 'r) wire \<Rightarrow> ('r \<Rightarrow> bytes) \<Rightarrow> ('m \<Rightarrow> 'w \<Rightarrow> 'w result)
    \<Rightarrow> ('r input \<Rightarrow> nat option \<Rightarrow> ('m \<times> 'r) result) \<Rightarrow> 'm \<Rightarrow> bool" where
  "roundtrips L inp enc dec m \<longleftrightarrow> (\<exists>bs r. encode_bytes L (enc m) = Inr bs \<and>
     dec (ABuffer bs) None = Inr (m, r) \<and> inp r = [])"

lemma roundtrips_inj:
  "roundtrips L inp enc dec m \<Longrightarrow> roundtrips L inp enc dec m' \<Longrightarrow>
   encode_bytes L (enc m) = encode_bytes L (enc m') \<Longrightarrow> m = m'"
  by (auto simp: roundtrips_def)

text \<open>The encoding fits a 32-bit length, so that it can be a field of another message.\<close>

definition fits :: "('w, 'r) wire \<Rightarrow> ('w \<Rightarrow> 'w result) \<Rightarrow> bool" where
  "fits L enc = (case encode_bytes L enc of Inl _ \<Rightarrow> False | Inr b \<Rightarrow> length b < 2 ^ 32)"


section \<open>Readers move forward and loops end\<close>

context wire_laws
begin

definition fwd :: "'r \<Rightarrow> 'r \<Rightarrow> bool" where
  "fwd r r' \<longleftrightarrow> (\<exists>bs. inp r = bs @ inp r' \<and> r_pos L r' = r_pos L r + length bs)"

definition good_op :: "('r \<Rightarrow> ('v \<times> 'r) result) \<Rightarrow> bool" where
  "good_op op \<longleftrightarrow> (\<forall>r. op r \<noteq> Inl Diverges \<and> (\<forall>v r'. op r = Inr (v, r') \<longrightarrow> fwd r r'))"

definition good_act :: "('m, 'r) action \<Rightarrow> bool" where
  "good_act a \<longleftrightarrow> (\<forall>r. a r \<noteq> Inl Diverges \<and> (\<forall>m r'. a r = Inr (Some (m, r')) \<longrightarrow> fwd r r'))"

definition good_sw :: "(u32 \<Rightarrow> 'm \<Rightarrow> ('m, 'r) action) \<Rightarrow> bool" where
  "good_sw sw \<longleftrightarrow> (\<forall>tag m. good_act (sw tag m))"

lemma fwd_refl [simp]: "fwd r r"
  by (simp add: fwd_def)

lemma fwd_trans: "fwd a b \<Longrightarrow> fwd b c \<Longrightarrow> fwd a c"
  by (auto simp: fwd_def)

lemma fwd_pos: "fwd r r' \<Longrightarrow> r_pos L r \<le> r_pos L r'"
  by (auto simp: fwd_def)

lemma fwd_len: "fwd r r' \<Longrightarrow> r_len L r' = r_len L r"
  by (auto simp: fwd_def inp_len)

lemma fwd_pos_eq: "fwd r r' \<Longrightarrow> inp r = bs @ inp r' \<Longrightarrow> r_pos L r' = r_pos L r + length bs"
  by (auto simp: fwd_def)

lemma tag_progress: "r_uint32 L r = Inr (n, r') \<Longrightarrow> r_pos L r < r_pos L r'"
  using use_uint32 by fastforce

lemma good_ops [fwd_rules]:
  "good_op (r_uint32 L)" "good_op (r_int32 L)" "good_op (r_int64 L)" "good_op (r_uint64 L)"
  "good_op (r_bool L)" "good_op (r_string L)" "good_op (r_bytes L)" "good_op (r_double L)"
  unfolding good_op_def fwd_def
  using use_uint32 returns_uint32 use_int32 returns_int32 use_int64 returns_int64 use_uint64
    returns_uint64 use_bool returns_bool use_string returns_string use_bytes returns_bytes
    use_double returns_double
  by (fast | metis)+

lemma longToNumber_returns: "longToNumber i \<noteq> Inl Diverges"
  by (simp add: longToNumber_def Let_def)

lemma good_num32 [fwd_rules]: "good_op op \<Longrightarrow> good_op (num32 op)"
  by (fastforce simp: good_op_def num32_def bindE_Inr_conv bindE_Inl_conv)

lemma good_num64 [fwd_rules]: "good_op op \<Longrightarrow> good_op (num64 op)"
  using longToNumber_returns
  by (fastforce simp: good_op_def num64_def bindE_Inr_conv bindE_Inl_conv)

lemma good_read_map [fwd_rules]: "good_op op \<Longrightarrow> good_op (read_map f op)"
  by (fastforce simp: good_op_def read_map_def bindE_Inr_conv bindE_Inl_conv)

lemma good_break_out [fwd_rules]: "good_act break_out"
  by (simp add: good_act_def break_out_def)

lemma good_readf [fwd_rules]: "good_op op \<Longrightarrow> good_act (readf op upd)"
  by (fastforce simp: good_op_def good_act_def readf_def bindE_Inr_conv bindE_Inl_conv)

lemma good_when_tag [fwd_rules]: "good_act a \<Longrightarrow> good_act (when_tag tag k a)"
  by (simp add: when_tag_def good_break_out)

lemma good_if [fwd_rules]: "good_act a \<Longrightarrow> good_act b \<Longrightarrow> good_act (if c then a else b)"
  by simp

lemma good_switch [fwd_rules]:
  "good_act d \<Longrightarrow> good_act (js_switch k [] d)"
  "good_act a \<Longrightarrow> good_act (js_switch k cs d) \<Longrightarrow> good_act (js_switch k ((k', a) # cs) d)"
  by simp_all

lemma good_swI: "(\<And>tag m. good_act (sw tag m)) \<Longrightarrow> good_sw sw"
  by (simp add: good_sw_def)

lemma good_actD: "good_sw sw \<Longrightarrow> sw tag m r = Inr (Some (m', r')) \<Longrightarrow> fwd r r'"
  by (simp add: good_sw_def good_act_def)

lemma fwd_tag: "r_uint32 L r = Inr (n, r') \<Longrightarrow> fwd r r'"
  using use_uint32 by (fastforce simp: fwd_def)

lemma fwd_skip: "r_skip L wt r = Inr r' \<Longrightarrow> fwd r r'"
  using use_skip by (simp add: fwd_def)

text \<open>Fuel beyond one unit per byte changes nothing.\<close>

lemma decode_loop_fuel:
  assumes sw: "good_sw sw"
  shows "stop - r_pos L r \<le> f \<Longrightarrow> stop - r_pos L r \<le> g \<Longrightarrow>
    decode_loop f L sw stop m r = decode_loop g L sw stop m r"
proof (induction f arbitrary: g m r)
  case 0
  then show ?case by (simp add: decode_loop.simps)
next
  case (Suc f)
  show ?case
  proof (cases "r_pos L r < stop")
    case False
    then show ?thesis by (simp add: decode_loop.simps)
  next
    case True
    with Suc.prems obtain g' where g: "g = Suc g'" by (cases g) auto
    have step: "decode_loop f L sw stop m' r' = decode_loop g' L sw stop m' r'"
      if "r_pos L r < r_pos L r'" for m' r'
      using that True Suc.prems g by (intro Suc.IH) auto
    have "decode_loop f L sw stop m' r2 = decode_loop g' L sw stop m' r2"
      if "r_uint32 L r = Inr (tag, r1)" "fwd r1 r2" for tag r1 r2 m'
      using step tag_progress [OF that(1)] fwd_pos [OF that(2)] by simp
    then show ?thesis
      unfolding g decode_loop.simps [of "Suc f"] decode_loop.simps [of "Suc g'"]
      using good_actD [OF sw] fwd_skip
      by (auto split: option.splits sum.splits simp: True elim!: bindE.elims
          intro!: bindE_cong_when)
  qed
qed

definition run :: "(u32 \<Rightarrow> 'm \<Rightarrow> ('m, 'r) action) \<Rightarrow> nat \<Rightarrow> 'm \<Rightarrow> 'r \<Rightarrow> ('m \<times> 'r) result" where
  "run sw stop m r = decode_loop (stop - r_pos L r) L sw stop m r"

lemma run_enough_fuel: "good_sw sw \<Longrightarrow> stop - r_pos L r \<le> f \<Longrightarrow> decode_loop f L sw stop m r = run sw stop m r"
  unfolding run_def by (rule decode_loop_fuel) auto

lemma run_done: "stop \<le> r_pos L r \<Longrightarrow> run sw stop m r = Inr (m, r)"
  by (simp add: run_def decode_loop.simps)

text \<open>One iteration of the loop, with the fuel out of sight.\<close>

lemma run_step:
  assumes sw: "good_sw sw" and pos: "r_pos L r < stop"
  shows "run sw stop m r =
    bindE (r_uint32 L r) (\<lambda>(tag, r1). bindE (sw tag m r1) (\<lambda>x. case x of
        Some (m', r2) \<Rightarrow> run sw stop m' r2
      | None \<Rightarrow> if tag AND 7 = 4 \<or> tag = 0 then Inr (m, r1)
                else bindE (r_skip L (tag AND 7) r1) (run sw stop m)))"
proof -
  obtain f where f: "stop - r_pos L r = Suc f" using pos by (metis Suc_diff_Suc)
  have "decode_loop f L sw stop m' r2 = run sw stop m' r2"
    if "r_uint32 L r = Inr (tag, r1)" "fwd r1 r2" for tag r1 r2 m'
    using run_enough_fuel [OF sw] tag_progress [OF that(1)] fwd_pos [OF that(2)] f by simp
  then show ?thesis
    unfolding run_def [of sw stop m r] f decode_loop.simps [of "Suc f"]
    using good_actD [OF sw] fwd_skip
    by (auto split: option.splits simp: pos intro!: bindE_cong_when)
qed

lemma run_induct [consumes 1, case_names step]:
  assumes sw: "good_sw sw"
    and step: "\<And>m r. (\<And>m' r'. r_pos L r < stop \<Longrightarrow> r_pos L r < r_pos L r' \<Longrightarrow> P m' r') \<Longrightarrow> P m r"
  shows "P m r"
proof (induction "stop - r_pos L r" arbitrary: m r rule: less_induct)
  case less
  show ?case
  proof (rule step)
    fix m' r' assume "r_pos L r < stop" "r_pos L r < r_pos L r'"
    then show "P m' r'" by (intro less) linarith
  qed
qed

text \<open>The loop returns or throws, and leaves the reader further on.\<close>

definition ends :: "'r \<Rightarrow> ('v \<times> 'r) result \<Rightarrow> bool" where
  "ends r x \<longleftrightarrow> x \<noteq> Inl Diverges \<and> (\<forall>v r'. x = Inr (v, r') \<longrightarrow> fwd r r')"

lemma ends_bind: "y \<noteq> Inl Diverges \<Longrightarrow> (\<And>v. y = Inr v \<Longrightarrow> ends r (f v)) \<Longrightarrow> ends r (bindE y f)"
  by (cases y) (auto simp: ends_def)

lemma ends_trans: "fwd r r1 \<Longrightarrow> ends r1 x \<Longrightarrow> ends r x"
  using fwd_trans by (auto simp: ends_def)

lemma ends_after_uint32:
  "(\<And>n r1. ends r1 (f n r1)) \<Longrightarrow> ends r (bindE (r_uint32 L r) (\<lambda>(n, r1). f n r1))"
  by (rule ends_bind [OF returns_uint32]) (auto intro: ends_trans [OF fwd_tag])

lemma good_op_ends: "good_op op \<longleftrightarrow> (\<forall>r. ends r (op r))"
  by (auto simp: good_op_def ends_def)

lemma run_good:
  assumes sw: "good_sw sw"
  shows "ends r (run sw stop m r)"
  using sw
proof (induction m r rule: run_induct [of sw stop])
  case (step m r)
  show ?case
  proof (cases "r_pos L r < stop")
    case False
    then show ?thesis by (simp add: run_done ends_def)
  next
    case True
    have IH: "ends r (run sw stop m' r2)" if "r_uint32 L r = Inr (tag, r1)" "fwd r1 r2" for tag r1 r2 m'
      using step.IH [OF True, of r2 m'] tag_progress [OF that(1)] fwd_pos [OF that(2)]
      by (intro ends_trans [OF fwd_trans [OF fwd_tag [OF that(1)] that(2)]]) auto
    have "sw tag m r1 \<noteq> Inl Diverges" for tag r1
      using sw by (simp add: good_sw_def good_act_def)
    moreover have "ends r (Inr (m, r1))" if "r_uint32 L r = Inr (tag, r1)" for tag r1
      using fwd_tag [OF that] by (simp add: ends_def)
    ultimately show ?thesis
      unfolding run_step [OF sw True]
      using IH good_actD [OF sw] fwd_skip returns_uint32 returns_skip
      by (auto intro!: ends_bind split: option.splits)
  qed
qed

lemma decode_msg_run: "decode_msg L sw base input len =
    (let reader = reader_of L input
     in run sw (case len of None \<Rightarrow> r_len L reader | Some n \<Rightarrow> r_pos L reader + n) base reader)"
  by (simp add: decode_msg_def run_def Let_def)

lemma good_submsg [fwd_rules]:
  assumes sw: "good_sw sw"
  shows "good_op (submsg L (decode_msg L sw base))"
  unfolding good_op_ends submsg_def
  using run_good [OF sw] by (auto simp: decode_msg_run reader_of_def intro!: ends_after_uint32)

text \<open>A packed field: every element takes at least one byte.\<close>

definition eager_op :: "('r \<Rightarrow> ('v \<times> 'r) result) \<Rightarrow> bool" where
  "eager_op op \<longleftrightarrow> good_op op \<and> (\<forall>r v r'. op r = Inr (v, r') \<longrightarrow> r_pos L r < r_pos L r')"

lemma eager_ops [fwd_rules]:
  "eager_op (num64 (r_uint64 L))" "eager_op (num64 (r_int64 L))" "eager_op (r_bool L)"
  "eager_op (num32 (r_int32 L))"
  unfolding eager_op_def
  using good_ops good_num64 good_num32 use_uint64 use_int64 use_bool use_int32
  by (fastforce simp: num64_def num32_def bindE_Inr_conv)+

lemma packed_loop_good:
  assumes op: "eager_op op"
  shows "stop - r_pos L r \<le> f \<Longrightarrow> ends r (packed_loop f L op stop acc r)"
proof (induction f arbitrary: acc r)
  case 0
  then show ?case by (simp add: packed_loop.simps ends_def)
next
  case (Suc f)
  have "ends r (packed_loop f L op stop (acc @ [v]) r1)" if "op r = Inr (v, r1)" for v r1
  proof -
    have "r_pos L r < r_pos L r1" "fwd r r1" using op that by (auto simp: eager_op_def good_op_def)
    then show ?thesis using Suc.IH [of r1 "acc @ [v]"] Suc.prems ends_trans by fastforce
  qed
  moreover have "op r \<noteq> Inl Diverges" using op by (simp add: eager_op_def good_op_def)
  ultimately show ?case
    by (auto simp: packed_loop.simps [of "Suc f"] ends_def [of r "Inr _"] intro!: ends_bind)
qed

lemma good_packed [fwd_rules]: "eager_op op \<Longrightarrow> good_op (packed L op)"
  unfolding good_op_ends packed_def
  by (auto intro!: ends_after_uint32 packed_loop_good)



section \<open>Encoders and the decoder loop\<close>

text \<open>What a writer step appends, and what a run of bytes does to the decoder loop.\<close>

definition emits :: "('w \<Rightarrow> 'w result) \<Rightarrow> bytes \<Rightarrow> bool" where
  "emits f bs \<longleftrightarrow> (\<forall>w b rest. out w = b # rest \<longrightarrow> (\<exists>w'. f w = Inr w' \<and> out w' = (b @ bs) # rest))"

definition eats :: "(u32 \<Rightarrow> 'm \<Rightarrow> ('m, 'r) action) \<Rightarrow> 'm \<Rightarrow> bytes \<Rightarrow> 'm \<Rightarrow> bool" where
  "eats sw m bs m' \<longleftrightarrow> (\<forall>stop r t. inp r = bs @ t \<longrightarrow> r_pos L r + length bs \<le> stop \<longrightarrow>
     (\<exists>r'. inp r' = t \<and> fwd r r' \<and> run sw stop m r = run sw stop m' r'))"

definition codes :: "(u32 \<Rightarrow> 'm \<Rightarrow> ('m, 'r) action) \<Rightarrow> ('w \<Rightarrow> 'w result) \<Rightarrow> 'm \<Rightarrow> 'm \<Rightarrow> bool" where
  "codes sw f m m' \<longleftrightarrow> (\<exists>bs. emits f bs \<and> eats sw m bs m')"

definition carries :: "('w \<Rightarrow> 'w result) \<Rightarrow> ('r \<Rightarrow> ('v \<times> 'r) result) \<Rightarrow> 'v \<Rightarrow> bool" where
  "carries f op v \<longleftrightarrow> (\<exists>e. emits f e \<and>
     (\<forall>r t. inp r = e @ t \<longrightarrow> (\<exists>r'. op r = Inr (v, r') \<and> inp r' = t)))"

lemma emits_Nil: "emits Inr []"
  by (auto simp: emits_def)

lemma emits_bind: "emits f a \<Longrightarrow> emits g b \<Longrightarrow> emits (\<lambda>w. bindE (f w) g) (a @ b)"
  unfolding emits_def by (metis append_assoc bindE.simps(2))

lemma emits_seqE_Cons: "emits f a \<Longrightarrow> emits (seqE fs) b \<Longrightarrow> emits (seqE (f # fs)) (a @ b)"
  using emits_bind by (simp add: emits_def)

lemma emits_uint32: "emits (w_uint32 L n) (e_uint32 F n)"
  using out_uint32 by (simp add: emits_def)

lemma emits_delimited:
  assumes "emits f bs" and "length bs < 2 ^ 32"
  shows "emits (seqE [w_fork L, f, w_join L]) (e_uint32 F (of_nat (length bs)) @ bs)"
  unfolding emits_def
proof (intro allI impI)
  fix w b rest assume w: "out w = b # rest"
  obtain w1 where w1: "w_fork L w = Inr w1" "out w1 = [] # b # rest"
    using out_fork [of w] w by auto
  obtain w2 where w2: "f w1 = Inr w2" "out w2 = bs # b # rest"
    using assms(1) w1(2) by (fastforce simp: emits_def)
  obtain w3 where "w_join L w2 = Inr w3" "out w3 = (b @ e_uint32 F (of_nat (length bs)) @ bs) # rest"
    using out_join [OF w2(2) assms(2)] by auto
  with w1 w2 show "\<exists>w'. seqE [w_fork L, f, w_join L] w = Inr w' \<and>
      out w' = (b @ e_uint32 F (of_nat (length bs)) @ bs) # rest"
    by simp
qed

lemma encode_bytes_emits: "emits f bs \<Longrightarrow> encode_bytes L f = Inr bs"
proof -
  assume "emits f bs"
  then obtain w where "f (Writer_new L) = Inr w" "out w = ([] @ bs) # []"
    using out_new unfolding emits_def by blast
  then show ?thesis using out_finish [of w bs "[]"] by (simp add: encode_bytes_def)
qed

lemma fits_emits: "fits L f \<Longrightarrow> emits f bs \<Longrightarrow> length bs < 2 ^ 32"
  by (simp add: fits_def encode_bytes_emits)

lemma eatsD:
  assumes "eats sw m bs m'" and "inp r = bs @ t" and "r_pos L r + length bs \<le> stop"
  obtains r' where "inp r' = t" "fwd r r'" "r_pos L r' = r_pos L r + length bs"
    "run sw stop m r = run sw stop m' r'"
  using assms fwd_pos_eq unfolding eats_def by metis

lemma eats_Nil: "eats sw m [] m"
  unfolding eats_def using fwd_refl by fastforce

lemma eats_append:
  assumes "eats sw m a m1" and "eats sw m1 b m2"
  shows "eats sw m (a @ b) m2"
  unfolding eats_def
proof (intro allI impI)
  fix stop r t assume r: "inp r = (a @ b) @ t" and stop: "r_pos L r + length (a @ b) \<le> stop"
  obtain r1 where r1: "inp r1 = b @ t" "fwd r r1" "r_pos L r1 = r_pos L r + length a"
    "run sw stop m r = run sw stop m1 r1"
    using eatsD [OF assms(1), of r "b @ t" stop] r stop by auto
  obtain r2 where "inp r2 = t" "fwd r1 r2" "run sw stop m1 r1 = run sw stop m2 r2"
    using eatsD [OF assms(2) r1(1), of stop] r1(3) stop by auto
  with r1 show "\<exists>r'. inp r' = t \<and> fwd r r' \<and> run sw stop m r = run sw stop m2 r'"
    using fwd_trans by metis
qed

lemma tag_read:
  assumes "inp r = e_uint32 F n @ t"
  obtains r1 where "r_uint32 L r = Inr (n, r1)" "inp r1 = t" "fwd r r1"
    "r_pos L r < r_pos L r1" "r_pos L r1 = r_pos L r + length (e_uint32 F n)"
  using inp_uint32 [OF assms] assms fwd_tag tag_progress fwd_pos_eq by metis

lemma eats_field:
  assumes sw: "good_sw sw" and tag: "sw tag m = readf op upd"
    and op: "\<And>r t. inp r = e @ t \<Longrightarrow> \<exists>r'. op r = Inr (v, r') \<and> inp r' = t"
  shows "eats sw m (e_uint32 F tag @ e) (upd v)"
  unfolding eats_def
proof (intro allI impI)
  fix stop r t
  assume r: "inp r = (e_uint32 F tag @ e) @ t" and stop: "r_pos L r + length (e_uint32 F tag @ e) \<le> stop"
  obtain r1 where r1: "r_uint32 L r = Inr (tag, r1)" "inp r1 = e @ t" "fwd r r1"
    "r_pos L r < r_pos L r1" "r_pos L r1 = r_pos L r + length (e_uint32 F tag)"
    using tag_read [of r tag "e @ t"] r by auto
  obtain r2 where r2: "op r1 = Inr (v, r2)" "inp r2 = t" using op [OF r1(2)] by blast
  then have step: "sw tag m r1 = Inr (Some (upd v, r2))" by (simp add: tag readf_def)
  have "r_pos L r1 \<le> stop" using r1(5) stop by simp
  with r1(4) have "r_pos L r < stop" by linarith
  then have "run sw stop m r = run sw stop (upd v) r2"
    using r1(1) step by (simp add: run_step [OF sw])
  moreover have "fwd r r2" using fwd_trans [OF r1(3) good_actD [OF sw step]] .
  ultimately show "\<exists>r'. inp r' = t \<and> fwd r r' \<and> run sw stop m r = run sw stop (upd v) r'"
    using r2 by blast
qed

text \<open>A field the switch does not know is skipped.\<close>

lemma eats_unknown:
  assumes sw: "good_sw sw" and tag: "sw tag m = break_out" "tag AND 7 \<noteq> 4" "tag \<noteq> 0"
    and skip: "\<And>r t. inp r = e @ t \<Longrightarrow> \<exists>r'. r_skip L (tag AND 7) r = Inr r' \<and> inp r' = t"
  shows "eats sw m (e_uint32 F tag @ e) m"
  unfolding eats_def
proof (intro allI impI)
  fix stop r t
  assume r: "inp r = (e_uint32 F tag @ e) @ t" and stop: "r_pos L r + length (e_uint32 F tag @ e) \<le> stop"
  obtain r1 where r1: "r_uint32 L r = Inr (tag, r1)" "inp r1 = e @ t" "fwd r r1"
    "r_pos L r < r_pos L r1" "r_pos L r1 = r_pos L r + length (e_uint32 F tag)"
    using tag_read [of r tag "e @ t"] r by auto
  obtain r2 where r2: "r_skip L (tag AND 7) r1 = Inr r2" "inp r2 = t" using skip [OF r1(2)] by blast
  have "r_pos L r1 \<le> stop" using r1(5) stop by simp
  with r1(4) have "r_pos L r < stop" by linarith
  then have "run sw stop m r = run sw stop m r2"
    using r1(1) r2(1) tag by (simp add: run_step [OF sw] break_out_def)
  moreover have "fwd r r2" using fwd_trans [OF r1(3) fwd_skip [OF r2(1)]] .
  ultimately show "\<exists>r'. inp r' = t \<and> fwd r r' \<and> run sw stop m r = run sw stop m r'"
    using r2 by blast
qed

text \<open>The rules for the statements of an encoder.\<close>

lemma codesI: "emits f bs \<Longrightarrow> eats sw m bs m' \<Longrightarrow> codes sw f m m'"
  unfolding codes_def by blast

lemma carriesI:
  "emits f e \<Longrightarrow> (\<And>r t. inp r = e @ t \<Longrightarrow> \<exists>r'. op r = Inr (v, r') \<and> inp r' = t) \<Longrightarrow> carries f op v"
  unfolding carries_def by blast

lemma emitsI:
  "(\<And>w b rest. out w = b # rest \<Longrightarrow> \<exists>w'. f w = Inr w' \<and> out w' = (b @ bs) # rest) \<Longrightarrow> emits f bs"
  unfolding emits_def by blast

lemma codes_Nil: "m = m' \<Longrightarrow> codes sw (seqE []) m m'"
  unfolding seqE_Nil using codesI [OF emits_Nil eats_Nil] by simp

lemma codes_Cons:
  assumes "codes sw f m m1" and "codes sw (seqE fs) m1 m2"
  shows "codes sw (seqE (f # fs)) m m2"
proof -
  obtain a b where "emits f a" "eats sw m a m1" "emits (seqE fs) b" "eats sw m1 b m2"
    using assms unfolding codes_def by blast
  then show ?thesis by (intro codesI [OF emits_seqE_Cons eats_append])
qed

lemma codes_field:
  assumes sw: "good_sw sw" "sw tag m = readf op upd" and c: "carries (seqE fs) op v"
  shows "codes sw (seqE (w_uint32 L tag # fs)) m (upd v)"
proof -
  obtain e where "emits (seqE fs) e"
    and "\<And>r t. inp r = e @ t \<Longrightarrow> \<exists>r'. op r = Inr (v, r') \<and> inp r' = t"
    using c unfolding carries_def by blast
  then show ?thesis by (intro codesI [OF emits_seqE_Cons [OF emits_uint32] eats_field [OF sw]])
qed

text \<open>The updater \<open>u\<close> is the record update of the field.\<close>

lemma codes_when:
  assumes "good_sw sw" and "sw tag m = readf op (\<lambda>v. u (\<lambda>_. v) m)"
    and "carries (seqE fs) op v" and "\<not> c \<Longrightarrow> u (\<lambda>_. v) m = m"
  shows "codes sw (whenE c (seqE (w_uint32 L tag # fs))) m (u (\<lambda>_. v) m)"
  using codes_field [OF assms(1-3)] codes_Nil [of m "u (\<lambda>_. v) m" sw] assms(4)
  by (cases c) (simp_all add: whenE_def [abs_def] del: seqE.simps)

lemma codes_always:
  assumes "good_sw sw" and "sw tag m = readf op (\<lambda>v. u (\<lambda>_. v) m)" and "carries (seqE fs) op v"
  shows "codes sw (seqE (w_uint32 L tag # fs)) m (u (\<lambda>_. v) m)"
  by (rule codes_field [OF assms])

lemma codes_some:
  assumes "good_sw sw" and "sw tag m = readf op (\<lambda>v. u (\<lambda>_. Some v) m)" and "u (\<lambda>_. None) m = m"
    and "pred_option (\<lambda>v. carries (seqE (fs v)) op v) x"
  shows "codes sw (someE x (\<lambda>v. seqE (w_uint32 L tag # fs v))) m (u (\<lambda>_. x) m)"
proof (cases x)
  case None
  then show ?thesis using codes_Nil [of m m sw] assms(3) by (simp add: someE_def [abs_def])
next
  case (Some v)
  then show ?thesis using codes_field [OF assms(1,2), of "fs v" v] assms(4) by (simp add: someE_def [abs_def])
qed

lemma codes_for_list:
  assumes "\<And>ys v. v \<in> set xs \<Longrightarrow> codes sw (f v) (M ys) (M (ys @ [v]))"
  shows "codes sw (forE f xs) (M ys) (M (ys @ xs))"
  using assms
proof (induction xs arbitrary: ys)
  case Nil
  have "forE f [] = seqE []" by (rule ext) simp
  then show ?case using codes_Nil [of "M ys"] by simp
next
  case (Cons x xs)
  have "codes sw (forE f (x # xs)) = codes sw (seqE [f x, forE f xs])"
    by (rule arg_cong [where f = "codes sw"], rule ext) simp
  moreover have "codes sw (seqE [f x, forE f xs]) (M ys) (M ((ys @ [x]) @ xs))"
  proof (rule codes_Cons)
    show "codes sw (f x) (M ys) (M (ys @ [x]))" using Cons.prems by simp
    show "codes sw (seqE [forE f xs]) (M (ys @ [x])) (M ((ys @ [x]) @ xs))"
      unfolding seqE_single by (rule Cons.IH) (use Cons.prems in simp)
  qed
  ultimately show ?case by (simp del: seqE.simps forE.simps)
qed

lemma codes_for:
  assumes "good_sw sw" and "\<And>ys. sw tag (u (\<lambda>_. ys) m) = readf op (\<lambda>v. u (\<lambda>_. ys @ [v]) m)"
    and "u (\<lambda>_. []) m = m" and "list_all (\<lambda>v. carries (seqE (fs v)) op v) xs"
  shows "codes sw (forE (\<lambda>v. seqE (w_uint32 L tag # fs v)) xs) m (u (\<lambda>_. xs) m)"
proof -
  have "codes sw (seqE (w_uint32 L tag # fs v)) (u (\<lambda>_. ys) m) (u (\<lambda>_. ys @ [v]) m)"
    if "v \<in> set xs" for ys v
    using codes_field [OF assms(1,2)] assms(4) that by (simp add: list_all_iff)
  then have "codes sw (forE (\<lambda>v. seqE (w_uint32 L tag # fs v)) xs) (u (\<lambda>_. []) m) (u (\<lambda>_. [] @ xs) m)"
    by (rule codes_for_list [where M = "\<lambda>ys. u (\<lambda>_. ys) m"])
  then show ?thesis using assms(3) by simp
qed

text \<open>The scalar types.\<close>

lemma carries_string [codec_rules]: "wire_string s \<Longrightarrow> carries (seqE [w_string L s]) (r_string L) s"
  unfolding seqE_single
  by (rule carriesI [OF emitsI]) (erule out_string inp_string, assumption)+

lemma carries_bytes [codec_rules]: "wire_bytes b \<Longrightarrow> carries (seqE [w_bytes L b]) (r_bytes L) b"
  unfolding seqE_single
  by (rule carriesI [OF emitsI]) (erule out_bytes inp_bytes, assumption)+

lemma carries_bool [codec_rules]: "carries (seqE [w_bool L b]) (r_bool L) b"
  unfolding seqE_single
  by (rule carriesI [OF emitsI]) (erule out_bool inp_bool)+

lemma carries_double [codec_rules]: "is_double n \<Longrightarrow> carries (seqE [w_double L n]) (r_double L) n"
  unfolding seqE_single
  by (rule carriesI [OF emitsI]) (erule out_double inp_double, assumption)+

lemma carries_int32_raw: "int32_num n \<Longrightarrow> carries (w_int32 L n) (num32 (r_int32 L)) n"
proof -
  assume "int32_num n"
  then obtain i where i: "n = num_of_int i" "- (2 ^ 31) \<le> i" "i < 2 ^ 31"
    by (auto simp: int32_num_def elim!: int_betweenE)
  then have "emits (w_int32 L n) (e_int32 F i)" using out_int32 by (simp add: emits_def)
  moreover have "inp r = e_int32 F i @ t \<Longrightarrow> \<exists>r'. num32 (r_int32 L) r = Inr (n, r') \<and> inp r' = t" for r t
    using inp_int32 [of r i t] i by (auto simp: num32_def)
  ultimately show ?thesis by (auto simp: carries_def)
qed

lemma carries_int32 [codec_rules]: "int32_num n \<Longrightarrow> carries (seqE [w_int32 L n]) (num32 (r_int32 L)) n"
  using carries_int32_raw by simp

lemma carries_int64 [codec_rules]: "safe_int n \<Longrightarrow> carries (seqE [w_int64 L n]) (num64 (r_int64 L)) n"
proof -
  assume "safe_int n"
  then obtain i where i: "n = num_of_int i" "MIN_SAFE_INTEGER \<le> i" "i \<le> MAX_SAFE_INTEGER"
    by (auto simp: safe_int_def elim!: int_betweenE)
  then have b: "- (2 ^ 63) \<le> i" "i < 2 ^ 63" by (simp_all add: MIN_SAFE_INTEGER_def MAX_SAFE_INTEGER_def)
  then have "emits (w_int64 L n) (e_int64 F i)" using i(1) out_int64 by (simp add: emits_def)
  moreover have "inp r = e_int64 F i @ t \<Longrightarrow> \<exists>r'. num64 (r_int64 L) r = Inr (n, r') \<and> inp r' = t" for r t
    using inp_int64 [of r i t] b i longToNumber_safe by (auto simp: num64_def)
  ultimately show ?thesis by (auto simp: carries_def)
qed

lemma carries_uint64_raw: "safe_uint n \<Longrightarrow> carries (w_uint64 L n) (num64 (r_uint64 L)) n"
proof -
  assume "safe_uint n"
  then obtain i where i: "n = num_of_int i" "0 \<le> i" "i \<le> MAX_SAFE_INTEGER"
    by (auto simp: safe_uint_def elim!: int_betweenE)
  then have b: "i < 2 ^ 64" "MIN_SAFE_INTEGER \<le> i" by (simp_all add: MAX_SAFE_INTEGER_def MIN_SAFE_INTEGER_def)
  then have "emits (w_uint64 L n) (e_uint64 F i)" using i out_uint64 by (simp add: emits_def)
  moreover have "inp r = e_uint64 F i @ t \<Longrightarrow> \<exists>r'. num64 (r_uint64 L) r = Inr (n, r') \<and> inp r' = t" for r t
    using inp_uint64 [of r i t] b i longToNumber_safe by (auto simp: num64_def)
  ultimately show ?thesis by (auto simp: carries_def)
qed

lemma carries_uint64 [codec_rules]: "safe_uint n \<Longrightarrow> carries (seqE [w_uint64 L n]) (num64 (r_uint64 L)) n"
  using carries_uint64_raw by simp

text \<open>Repeated scalars.\<close>

lemma carries_strings [codec_rules]:
  "list_all wire_string xs \<Longrightarrow> list_all (\<lambda>v. carries (seqE [w_string L v]) (r_string L) v) xs"
  using carries_string by (auto simp: list_all_iff)

lemma carries_bytes_list [codec_rules]:
  "list_all wire_bytes xs \<Longrightarrow> list_all (\<lambda>v. carries (seqE [w_bytes L v]) (r_bytes L) v) xs"
  using carries_bytes by (auto simp: list_all_iff)

text \<open>A message as a length-delimited field.\<close>

lemma carries_sub:
  assumes sw: "good_sw sw" and enc: "codes sw enc base v" and fits: "fits L enc"
  shows "carries (seqE [w_fork L, enc, w_join L]) (submsg L (decode_msg L sw base)) v"
proof -
  obtain bs where bs: "emits enc bs" "eats sw base bs v" using enc by (auto simp: codes_def)
  have len: "length bs < 2 ^ 32" using fits_emits [OF fits bs(1)] .
  let ?n = "of_nat (length bs) :: u32"
  have un: "unat ?n = length bs" using len by (simp add: unat_of_nat)
  have "\<exists>r'. submsg L (decode_msg L sw base) r = Inr (v, r') \<and> inp r' = t"
    if r: "inp r = (e_uint32 F ?n @ bs) @ t" for r t
  proof -
    obtain r1 where r1: "r_uint32 L r = Inr (?n, r1)" "inp r1 = bs @ t"
      using tag_read [of r ?n "bs @ t"] r by auto
    obtain r2 where r2: "inp r2 = t" "r_pos L r2 = r_pos L r1 + length bs"
      "run sw (r_pos L r1 + length bs) base r1 = run sw (r_pos L r1 + length bs) v r2"
      using eatsD [OF bs(2) r1(2), of "r_pos L r1 + length bs"] by auto
    then show ?thesis
      using r1(1) by (simp add: submsg_def decode_msg_run reader_of_def un run_done)
  qed
  then show ?thesis using emits_delimited [OF bs(1) len] unfolding carries_def by blast
qed

text \<open>The elements of a packed field.\<close>

lemma packed_elements:
  assumes op: "eager_op op" and xs: "list_all (\<lambda>v. carries (wr v) op v) xs"
  obtains bs where "emits (forE wr xs) bs"
    and "\<And>acc r t f. inp r = bs @ t \<Longrightarrow> length bs \<le> f \<Longrightarrow>
      \<exists>r'. packed_loop f L op (r_pos L r + length bs) acc r = Inr (acc @ xs, r') \<and> inp r' = t"
  using xs
proof (induction xs arbitrary: thesis)
  case Nil
  have "forE wr [] = Inr" by (rule ext) simp
  then show ?case using Nil(1) [of "[]"] emits_Nil by (simp add: packed_loop.simps)
next
  case (Cons x xs)
  obtain e where e: "emits (wr x) e" "\<And>r t. inp r = e @ t \<Longrightarrow> \<exists>r'. op r = Inr (x, r') \<and> inp r' = t"
    using Cons.prems(2) unfolding carries_def by auto
  obtain bs where bs: "emits (forE wr xs) bs"
    and loop: "\<And>acc r t f. inp r = bs @ t \<Longrightarrow> length bs \<le> f \<Longrightarrow>
      \<exists>r'. packed_loop f L op (r_pos L r + length bs) acc r = Inr (acc @ xs, r') \<and> inp r' = t"
    using Cons.IH Cons.prems(2) by auto
  show ?case
  proof (rule Cons.prems(1))
    show "emits (forE wr (x # xs)) (e @ bs)"
      using emits_bind [OF e(1) bs] by (simp add: emits_def)
    fix acc r t f
    assume r: "inp r = (e @ bs) @ t" and f: "length (e @ bs) \<le> f"
    obtain r1 where r1: "op r = Inr (x, r1)" "inp r1 = bs @ t" using e(2) [of r "bs @ t"] r by auto
    have fw: "fwd r r1" "r_pos L r < r_pos L r1" using op r1(1) by (auto simp: eager_op_def good_op_def)
    have p1: "r_pos L r1 = r_pos L r + length e" using fwd_pos_eq [OF fw(1)] r r1(2) by simp
    have "0 < length e" using p1 fw(2) by linarith
    with f have "Suc (length bs) \<le> f" unfolding length_append by linarith
    then obtain f' where f': "f = Suc f'" "length bs \<le> f'" by (cases f) auto
    have "packed_loop f L op (r_pos L r + length (e @ bs)) acc r =
        packed_loop f' L op (r_pos L r1 + length bs) (acc @ [x]) r1"
      using r1(1) p1 fw(2) by (simp add: f'(1) packed_loop.simps [of "Suc f'"] add.assoc)
    then show "\<exists>r'. packed_loop f L op (r_pos L r + length (e @ bs)) acc r = Inr (acc @ x # xs, r') \<and> inp r' = t"
      using loop [OF r1(2) f'(2), of "acc @ [x]"] by simp
  qed
qed

lemma carries_packed:
  assumes op: "eager_op op" and xs: "list_all (\<lambda>v. carries (wr v) op v) xs" and fits: "fits L (forE wr xs)"
  shows "carries (seqE [w_fork L, forE wr xs, w_join L]) (packed L op) xs"
proof -
  obtain bs where bs: "emits (forE wr xs) bs"
    and loop: "\<And>acc r t f. inp r = bs @ t \<Longrightarrow> length bs \<le> f \<Longrightarrow>
      \<exists>r'. packed_loop f L op (r_pos L r + length bs) acc r = Inr (acc @ xs, r') \<and> inp r' = t"
    using packed_elements [OF op xs] by blast
  have len: "length bs < 2 ^ 32" using fits_emits [OF fits bs] .
  let ?n = "of_nat (length bs) :: u32"
  have un: "unat ?n = length bs" using len by (simp add: unat_of_nat)
  show ?thesis
  proof (rule carriesI [OF emits_delimited [OF bs len]])
    fix r t assume "inp r = (e_uint32 F ?n @ bs) @ t"
    then obtain r1 where r1: "r_uint32 L r = Inr (?n, r1)" "inp r1 = bs @ t"
      using tag_read [of r ?n "bs @ t"] by auto
    then show "\<exists>r'. packed L op r = Inr (xs, r') \<and> inp r' = t"
      using loop [OF r1(2), of "length bs" "[]"] by (simp add: packed_def un add.commute)
  qed
qed

lemma carries_packed_uint64 [codec_rules]:
  "list_all safe_uint xs \<and> fits L (forE (w_uint64 L) xs) \<Longrightarrow>
   carries (seqE [w_fork L, forE (w_uint64 L) xs, w_join L]) (packed L (num64 (r_uint64 L))) xs"
  using carries_uint64_raw by (intro carries_packed eager_ops) (auto simp: list_all_iff)

lemma carries_packed_int32 [codec_rules]:
  "list_all int32_num xs \<and> fits L (forE (w_int32 L) xs) \<Longrightarrow>
   carries (seqE [w_fork L, forE (w_int32 L) xs, w_join L]) (packed L (num32 (r_int32 L))) xs"
  using carries_int32_raw by (intro carries_packed eager_ops) (auto simp: list_all_iff)

lemma carries_packed_bool [codec_rules]:
  "fits L (forE (w_bool L) xs) \<Longrightarrow>
   carries (seqE [w_fork L, forE (w_bool L) xs, w_join L]) (packed L (r_bool L)) xs"
  using carries_bool by (intro carries_packed eager_ops) (auto simp: list_all_iff)

lemma carries_map:
  "carries f op v \<Longrightarrow> g v = x \<Longrightarrow> carries f (read_map g op) x"
  unfolding carries_def read_map_def by fastforce

text \<open>
  What a decoder can put into a message. \<open>yields op Q\<close>: the values \<open>op\<close> reads satisfy \<open>Q\<close>;
  \<open>keeps P a\<close>: the messages the case \<open>a\<close> of the switch produces satisfy \<open>P\<close>.
\<close>

definition yields :: "('r \<Rightarrow> ('v \<times> 'r) result) \<Rightarrow> ('v \<Rightarrow> bool) \<Rightarrow> bool" where
  "yields op Q \<longleftrightarrow> (\<forall>r v r'. op r = Inr (v, r') \<longrightarrow> Q v)"

definition keeps :: "('m \<Rightarrow> bool) \<Rightarrow> ('m, 'r) action \<Rightarrow> bool" where
  "keeps P a \<longleftrightarrow> (\<forall>r m r'. a r = Inr (Some (m, r')) \<longrightarrow> P m)"

lemma keeps_rules [range_rules]:
  "keeps P break_out"
  "keeps P a \<Longrightarrow> keeps P (when_tag tag k a)"
  "keeps P a \<Longrightarrow> keeps P b \<Longrightarrow> keeps P (if c then a else b)"
  "keeps P d \<Longrightarrow> keeps P (js_switch k [] d)"
  "keeps P a \<Longrightarrow> keeps P (js_switch k cs d) \<Longrightarrow> keeps P (js_switch k ((k', a) # cs) d)"
  "yields op Q \<Longrightarrow> (\<And>v. Q v \<Longrightarrow> P (upd v)) \<Longrightarrow> keeps P (readf op upd)"
  by (auto simp: keeps_def yields_def break_out_def when_tag_def readf_def bindE_Inr_conv)

lemma longToNumber_range: "longToNumber i = Inr n \<Longrightarrow> n = num_of_int i \<and> safe_int n"
  using longToNumber_large [of i] longToNumber_small [of i] longToNumber_safe [of i]
  by (cases "i < MIN_SAFE_INTEGER"; cases "MAX_SAFE_INTEGER < i") (auto simp: safe_int_def)

lemma yields_scalars [range_rules]:
  "yields (r_string L) (\<lambda>_. True)"
  "yields (r_bytes L) (\<lambda>_. True)"
  "yields (r_bool L) (\<lambda>_. True)"
  "yields (num32 (r_int32 L)) int32_num"
  "yields (num64 (r_int64 L)) safe_int"
  "yields (num64 (r_uint64 L)) safe_uint"
  using range_int32 range_uint64 longToNumber_range
  by (fastforce simp: yields_def num32_def num64_def int32_num_def safe_uint_def safe_int_def bindE_Inr_conv)+

lemma yields_map: "yields op Q \<Longrightarrow> (\<And>v. Q v \<Longrightarrow> Q' (f v)) \<Longrightarrow> yields (read_map f op) Q'"
  by (auto simp: yields_def read_map_def bindE_Inr_conv)

lemma packed_loop_yields:
  "yields op Q \<Longrightarrow> list_all Q acc \<Longrightarrow> packed_loop f L op stop acc r = Inr (vs, r') \<Longrightarrow> list_all Q vs"
proof (induction f arbitrary: acc r)
  case (Suc f)
  show ?case
  proof (cases "r_pos L r < stop")
    case True
    then obtain v r1 where "op r = Inr (v, r1)" "packed_loop f L op stop (acc @ [v]) r1 = Inr (vs, r')"
      using Suc.prems(3) by (auto simp: packed_loop.simps [of "Suc f"] bindE_Inr_conv)
    then show ?thesis using Suc.prems(1,2) by (intro Suc.IH [of "acc @ [v]" r1]) (auto simp: yields_def)
  qed (use Suc.prems in \<open>simp add: packed_loop.simps [of "Suc f"]\<close>)
qed (simp add: packed_loop.simps split: if_splits)

lemma yields_packed [range_rules]: "yields op Q \<Longrightarrow> yields (packed L op) (list_all Q)"
  unfolding yields_def [of "packed L op"]
  by (auto simp: packed_def bindE_Inr_conv intro: packed_loop_yields [of op Q "[]"])

lemma decode_loop_keeps:
  assumes sw: "\<And>tag m. P m \<Longrightarrow> keeps P (sw tag m)"
  shows "P m \<Longrightarrow> decode_loop f L sw stop m r = Inr (m', r') \<Longrightarrow> P m'"
proof (induction f arbitrary: m r)
  case (Suc f)
  then show ?case
    using sw [OF Suc.prems(1)]
    by (fastforce simp: decode_loop.simps [of "Suc f"] keeps_def bindE_Inr_conv
        split: if_splits option.splits)
qed (simp add: decode_loop.simps split: if_splits)

end


section \<open>The contract of a message type\<close>

text \<open>\<open>encode\<close> and \<open>decode\<close> of \<open>MessageFns\<close>, for the messages that satisfy \<open>wf\<close>.\<close>

locale message_codec = wire_laws L F out inp
  for L :: "('w, 'r) wire" and F out inp +
  fixes enc :: "'m \<Rightarrow> 'w \<Rightarrow> 'w result" and sw :: "u32 \<Rightarrow> 'm \<Rightarrow> ('m, 'r) action"
    and base :: 'm and wf :: "'m \<Rightarrow> bool"
  assumes sw_good: "good_sw sw"
    and enc_codes: "wf m \<Longrightarrow> codes sw (enc m) base m"
begin

lemma decode_returns: "decode_msg L sw base input len \<noteq> Inl Diverges"
  using run_good [OF sw_good] by (simp add: decode_msg_run ends_def Let_def)

lemma op_good: "good_op (submsg L (decode_msg L sw base))"
  by (rule good_submsg [OF sw_good])

lemma field_carries:
  "wf m \<Longrightarrow> fits L (enc m) \<Longrightarrow>
   carries (seqE [w_fork L, enc m, w_join L]) (submsg L (decode_msg L sw base)) m"
  by (rule carries_sub [OF sw_good enc_codes])

lemma opt_carries:
  "pred_option (\<lambda>v. wf v \<and> fits L (enc v)) x \<Longrightarrow>
   pred_option (\<lambda>v. carries (seqE [w_fork L, enc v, w_join L]) (submsg L (decode_msg L sw base)) v) x"
  by (cases x) (simp_all add: field_carries del: seqE.simps)

lemma list_carries:
  "list_all (\<lambda>v. wf v \<and> fits L (enc v)) xs \<Longrightarrow>
   list_all (\<lambda>v. carries (seqE [w_fork L, enc v, w_join L]) (submsg L (decode_msg L sw base)) v) xs"
  using field_carries by (auto simp: list_all_iff)

lemma decode_prefix:
  assumes "wf m"
  obtains bs where "encode_bytes L (enc m) = Inr bs"
    and "\<And>ext. eats sw m ext m' \<Longrightarrow>
      \<exists>r. decode_msg L sw base (ABuffer (bs @ ext)) None = Inr (m', r) \<and> inp r = []"
proof -
  obtain bs where bs: "emits (enc m) bs" "eats sw base bs m"
    using enc_codes [OF assms] unfolding codes_def by blast
  have "\<exists>r. decode_msg L sw base (ABuffer (bs @ ext)) None = Inr (m', r) \<and> inp r = []"
    if "eats sw m ext m'" for ext
  proof -
    let ?r = "Reader_new L (bs @ ext)"
    have "r_len L ?r = length (bs @ ext)" "inp ?r = (bs @ ext) @ []" "r_pos L ?r + length (bs @ ext) \<le> length (bs @ ext)"
      by (simp_all add: inp_new inp_len)
    then show ?thesis
      using eatsD [OF eats_append [OF bs(2) that], of ?r "[]" "length (bs @ ext)"] inp_new(2)
      by (fastforce simp: decode_msg_run reader_of_def run_done)
  qed
  then show ?thesis using that encode_bytes_emits [OF bs(1)] by blast
qed

text \<open>Decoding what was encoded gives the message back and reads all of the input.\<close>

lemma decode_encode:
  assumes "wf m"
  shows "\<exists>bs r. encode_bytes L (enc m) = Inr bs \<and>
    decode_msg L sw base (ABuffer bs) None = Inr (m, r) \<and> inp r = []"
  using decode_prefix [OF assms, of m] eats_Nil by (metis append_Nil2)

text \<open>One encoding after another: the second one updates the message the first one gave.\<close>

lemma decode_concat:
  assumes "wf a" and "codes sw (enc b) a m"
  shows "\<exists>x y r. encode_bytes L (enc a) = Inr x \<and> encode_bytes L (enc b) = Inr y \<and>
    decode_msg L sw base (ABuffer (x @ y)) None = Inr (m, r) \<and> inp r = []"
proof -
  obtain y where y: "emits (enc b) y" "eats sw a y m" using assms(2) unfolding codes_def by blast
  obtain x where x: "encode_bytes L (enc a) = Inr x"
    and dec: "\<And>ext. eats sw a ext m \<Longrightarrow>
      \<exists>r. decode_msg L sw base (ABuffer (x @ ext)) None = Inr (m, r) \<and> inp r = []"
    using decode_prefix [OF assms(1), of m] by blast
  then show ?thesis using encode_bytes_emits [OF y(1)] y(2) by blast
qed

text \<open>A 64-bit integer that is not a safe integer is refused, after the encoding of any message.\<close>

lemma decode_unsafe:
  assumes "wf m" and "sw tag m = readf (num64 (r_int64 L)) upd"
    and "- (2 ^ 63) \<le> i" and "i < 2 ^ 63" and "longToNumber i = Inl e" and "encode_bytes L (enc m) = Inr x"
  shows "decode_msg L sw base (ABuffer (x @ e_uint32 F tag @ e_int64 F i @ t)) None = Inl e"
proof -
  let ?bs = "e_uint32 F tag @ e_int64 F i @ t"
  let ?r = "Reader_new L (x @ ?bs)"
  have x: "eats sw base x m"
    using enc_codes [OF assms(1)] assms(6) encode_bytes_emits by (fastforce simp: codes_def)
  obtain r0 where r0: "inp r0 = ?bs" "fwd ?r r0" "run sw (r_len L ?r) base ?r = run sw (r_len L ?r) m r0"
    using eatsD [OF x, of ?r ?bs "r_len L ?r"] by (auto simp: inp_new inp_len)
  obtain r1 where r1: "r_uint32 L r0 = Inr (tag, r1)" "inp r1 = e_int64 F i @ t" "r_pos L r0 < r_pos L r1" "fwd r0 r1"
    using tag_read [OF r0(1)] by blast
  obtain r2 where "r_int64 L r1 = Inr (i, r2)" using inp_int64 [OF r1(2) assms(3,4)] by blast
  then have "sw tag m r1 = Inl e" by (simp add: assms(2,5) readf_def num64_def)
  moreover have "r_pos L r0 < r_len L ?r"
    using r1(3) fwd_len [OF fwd_trans [OF r0(2) r1(4)]] inp_len [of r1] by linarith
  ultimately show ?thesis
    using r1(1) r0(3) by (simp add: decode_msg_run reader_of_def run_step [OF sw_good])
qed

text \<open>A message of one field, inside a field whose length is announced too short.\<close>

lemma sub_overrun:
  assumes "sw tag base = readf op upd" and "0 < unat n" and "unat n \<le> length (e_uint32 F tag @ e)"
    and op: "\<And>r t. inp r = e @ t \<Longrightarrow> \<exists>r'. op r = Inr (v, r') \<and> inp r' = t"
    and r: "inp r = (e_uint32 F n @ e_uint32 F tag @ e) @ t"
  shows "\<exists>r'. submsg L (decode_msg L sw base) r = Inr (upd v, r') \<and> inp r' = t"
proof -
  obtain r1 where r1: "r_uint32 L r = Inr (n, r1)" "inp r1 = e_uint32 F tag @ e @ t"
    using tag_read [of r n "e_uint32 F tag @ e @ t"] r by auto
  obtain r2 where r2: "r_uint32 L r1 = Inr (tag, r2)" "inp r2 = e @ t" "fwd r1 r2"
    using tag_read [OF r1(2)] by blast
  obtain r3 where r3: "op r2 = Inr (v, r3)" "inp r3 = t" using op [OF r2(2)] by blast
  have sw: "sw tag base r2 = Inr (Some (upd v, r3))" by (simp add: assms(1) r3(1) readf_def)
  have "fwd r1 r3" using fwd_trans [OF r2(3) good_actD [OF sw_good sw]] .
  then have "r_pos L r3 = r_pos L r1 + length (e_uint32 F tag @ e)"
    using fwd_pos_eq [of r1 r3 "e_uint32 F tag @ e"] r1(2) r3(2) by simp
  then have "run sw (r_pos L r1 + unat n) base r1 = Inr (upd v, r3)"
    using assms(2,3) sw r2(1) by (simp add: run_step [OF sw_good] run_done)
  then show ?thesis using r1(1) r3(2) by (simp add: submsg_def decode_msg_run reader_of_def)
qed

lemma roundtrip: "wf m \<Longrightarrow> roundtrips L inp enc (decode_msg L sw base) m"
  unfolding roundtrips_def by (rule decode_encode)

text \<open>Fields of a later version of the schema, appended to a message, are ignored.\<close>

lemma decode_unknown_varint:
  assumes "wf m" and "sw tag m = break_out" and "tag AND 7 = 0" and "tag \<noteq> 0"
    and "0 \<le> i" and "i < 2 ^ 64"
  shows "\<exists>bs r. encode_bytes L (enc m) = Inr bs \<and>
    decode_msg L sw base (ABuffer (bs @ e_uint32 F tag @ e_uint64 F i)) None = Inr (m, r)"
proof -
  have "eats sw m (e_uint32 F tag @ e_uint64 F i) m"
    using assms skip_varint by (intro eats_unknown [OF sw_good]) auto
  then show ?thesis using decode_prefix [OF assms(1), of m] by metis
qed

lemma decode_unknown_bytes:
  assumes "wf m" and "sw tag m = break_out" and "tag AND 7 = 2" and "wire_bytes d"
  shows "\<exists>bs r. encode_bytes L (enc m) = Inr bs \<and>
    decode_msg L sw base (ABuffer (bs @ e_uint32 F tag @ e_bytes F d)) None = Inr (m, r)"
proof -
  have "eats sw m (e_uint32 F tag @ e_bytes F d) m"
    using assms skip_bytes by (intro eats_unknown [OF sw_good]) auto
  then show ?thesis using decode_prefix [OF assms(1), of m] by metis
qed

end

text \<open>The range of a decoder: whatever the input, a message that is returned satisfies \<open>ok\<close>.\<close>

locale message_range = wire_laws L F out inp
  for L :: "('w, 'r) wire" and F out inp +
  fixes sw :: "u32 \<Rightarrow> 'm \<Rightarrow> ('m, 'r) action" and base :: 'm and ok :: "'m \<Rightarrow> bool"
  assumes base_ok: "ok base"
    and sw_ok: "ok m \<Longrightarrow> keeps ok (sw tag m)"
begin

lemma decode_range: "decode_msg L sw base input len = Inr (m, r) \<Longrightarrow> ok m"
  using decode_loop_keeps [of ok sw, OF sw_ok base_ok] by (auto simp: decode_msg_def Let_def)

lemma sub_range: "yields (submsg L (decode_msg L sw base)) ok"
  by (auto simp: yields_def submsg_def bindE_Inr_conv dest: decode_range)

end

text \<open>\<open>toJSON\<close> and \<open>fromJSON\<close> of \<open>MessageFns\<close>, on every host.\<close>

locale message_json =
  fixes toJ :: "host \<Rightarrow> 'm \<Rightarrow> jsval result" and fromJ :: "host \<Rightarrow> jsval \<Rightarrow> 'm result"
    and wf :: "'m \<Rightarrow> bool"
  assumes json_back: "wf m \<Longrightarrow> json_rt (toJ h) (fromJ h) m"
begin

lemma json_roundtrip: "wf m \<Longrightarrow> bindE (toJ h m) (fromJ h) = Inr m"
  by (rule json_rt_bind) (rule json_back)

lemma json_opt: "pred_option wf x \<Longrightarrow> pred_option (json_rt (toJ h) (fromJ h)) x"
  by (cases x) (simp_all add: json_back)

lemma json_list: "list_all wf xs \<Longrightarrow> list_all (json_rt (toJ h) (fromJ h)) xs"
  by (auto simp: list_all_iff json_back)

text \<open>The four steps by which an enclosing message writes and reads such a field.\<close>

lemmas json_field_rules =
  joptE_Inr [OF json_opt] read_opt [OF json_opt] jarrayE_Inr [OF json_list] read_array [OF json_list]

end

end
