(* ===== verification/BaseMsgs.thy ===== *)
theory BaseMsgs
  imports Codec
begin

text \<open>
  The messages of the Cosmos SDK and of the protobuf library that the Arkeo messages contain:
  coins, pagination, durations and timestamps.
\<close>


section \<open>cosmos/base/v1beta1/coin.ts\<close>

subsection \<open>Coin\<close>

record Coin =
  denom :: jsstring
  amount :: jsstring

definition createBase_Coin :: Coin where
  "createBase_Coin = \<lparr>Coin.denom = [],
     Coin.amount = []\<rparr>"

definition encode_Coin :: "('w, 'r) wire \<Rightarrow> Coin \<Rightarrow> 'w \<Rightarrow> 'w result" where
  "encode_Coin L message = seqE
    [whenE (Coin.denom message \<noteq> []) (seqE [w_uint32 L 10, w_string L (Coin.denom message)]),
     whenE (Coin.amount message \<noteq> []) (seqE [w_uint32 L 18, w_string L (Coin.amount message)])]"

definition Coin_switch :: "('w, 'r) wire \<Rightarrow> u32 \<Rightarrow> Coin \<Rightarrow> (Coin, 'r) action" where
  "Coin_switch L tag message = js_switch (drop_bit 3 tag)
    [(1, when_tag tag 10 (readf (r_string L) (\<lambda>v. message\<lparr>Coin.denom := v\<rparr>))),
     (2, when_tag tag 18 (readf (r_string L) (\<lambda>v. message\<lparr>Coin.amount := v\<rparr>)))]
    break_out"

definition decode_Coin :: "('w, 'r) wire \<Rightarrow> 'r input \<Rightarrow> nat option \<Rightarrow> (Coin \<times> 'r) result" where
  "decode_Coin L = decode_msg L (Coin_switch L) createBase_Coin"

definition fromJSON_Coin :: "host \<Rightarrow> jsval \<Rightarrow> Coin result" where
  "fromJSON_Coin h object =
     bindE (fieldE object ''denom'' (stringE h) []) (\<lambda>v_denom.
     bindE (fieldE object ''amount'' (stringE h) []) (\<lambda>v_amount.
     Inr \<lparr>Coin.denom = v_denom, Coin.amount = v_amount\<rparr>))"

definition toJSON_Coin :: "host \<Rightarrow> Coin \<Rightarrow> jsval result" where
  "toJSON_Coin h message = objE
    [jfieldE (Coin.denom message \<noteq> []) ''denom'' (Inr (JString (Coin.denom message))),
     jfieldE (Coin.amount message \<noteq> []) ''amount'' (Inr (JString (Coin.amount message)))]"

record Coin_Partial =
  denom :: "jsstring option"
  amount :: "jsstring option"

definition Coin_empty :: Coin_Partial where
  "Coin_empty = \<lparr>Coin_Partial.denom = None, Coin_Partial.amount = None\<rparr>"

definition fromPartial_Coin :: "Coin_Partial \<Rightarrow> Coin" where
  "fromPartial_Coin object = createBase_Coin\<lparr>Coin.denom := nullish (Coin_Partial.denom object) [],
     Coin.amount := nullish (Coin_Partial.amount object) []\<rparr>"

definition create_Coin :: "Coin_Partial option \<Rightarrow> Coin" where
  "create_Coin base = fromPartial_Coin (nullish base Coin_empty)"

text \<open>A partial message that sets every field.\<close>

definition partial_of_Coin :: "Coin \<Rightarrow> Coin_Partial" where
  "partial_of_Coin m =
     \<lparr>Coin_Partial.denom = Some (Coin.denom m),
      Coin_Partial.amount = Some (Coin.amount m)\<rparr>"

definition ok_Coin :: "Coin \<Rightarrow> bool" where
  "ok_Coin m \<longleftrightarrow> True"

definition wf_Coin :: "('w, 'r) wire \<Rightarrow> Coin \<Rightarrow> bool" where
  "wf_Coin L m \<longleftrightarrow> wire_string (Coin.denom m)
     \<and> wire_string (Coin.amount m)"

definition wfj_Coin :: "Coin \<Rightarrow> bool" where
  "wfj_Coin m \<longleftrightarrow> True"

subsection \<open>DecCoin\<close>

record DecCoin =
  denom :: jsstring
  amount :: jsstring

definition createBase_DecCoin :: DecCoin where
  "createBase_DecCoin = \<lparr>DecCoin.denom = [],
     DecCoin.amount = []\<rparr>"

definition encode_DecCoin :: "('w, 'r) wire \<Rightarrow> DecCoin \<Rightarrow> 'w \<Rightarrow> 'w result" where
  "encode_DecCoin L message = seqE
    [whenE (DecCoin.denom message \<noteq> []) (seqE [w_uint32 L 10, w_string L (DecCoin.denom message)]),
     whenE (DecCoin.amount message \<noteq> []) (seqE [w_uint32 L 18, w_string L (DecCoin.amount message)])]"

definition DecCoin_switch :: "('w, 'r) wire \<Rightarrow> u32 \<Rightarrow> DecCoin \<Rightarrow> (DecCoin, 'r) action" where
  "DecCoin_switch L tag message = js_switch (drop_bit 3 tag)
    [(1, when_tag tag 10 (readf (r_string L) (\<lambda>v. message\<lparr>DecCoin.denom := v\<rparr>))),
     (2, when_tag tag 18 (readf (r_string L) (\<lambda>v. message\<lparr>DecCoin.amount := v\<rparr>)))]
    break_out"

definition decode_DecCoin :: "('w, 'r) wire \<Rightarrow> 'r input \<Rightarrow> nat option \<Rightarrow> (DecCoin \<times> 'r) result" where
  "decode_DecCoin L = decode_msg L (DecCoin_switch L) createBase_DecCoin"

definition fromJSON_DecCoin :: "host \<Rightarrow> jsval \<Rightarrow> DecCoin result" where
  "fromJSON_DecCoin h object =
     bindE (fieldE object ''denom'' (stringE h) []) (\<lambda>v_denom.
     bindE (fieldE object ''amount'' (stringE h) []) (\<lambda>v_amount.
     Inr \<lparr>DecCoin.denom = v_denom, DecCoin.amount = v_amount\<rparr>))"

definition toJSON_DecCoin :: "host \<Rightarrow> DecCoin \<Rightarrow> jsval result" where
  "toJSON_DecCoin h message = objE
    [jfieldE (DecCoin.denom message \<noteq> []) ''denom'' (Inr (JString (DecCoin.denom message))),
     jfieldE (DecCoin.amount message \<noteq> []) ''amount'' (Inr (JString (DecCoin.amount message)))]"

record DecCoin_Partial =
  denom :: "jsstring option"
  amount :: "jsstring option"

definition DecCoin_empty :: DecCoin_Partial where
  "DecCoin_empty = \<lparr>DecCoin_Partial.denom = None, DecCoin_Partial.amount = None\<rparr>"

definition fromPartial_DecCoin :: "DecCoin_Partial \<Rightarrow> DecCoin" where
  "fromPartial_DecCoin object = createBase_DecCoin\<lparr>DecCoin.denom := nullish (DecCoin_Partial.denom object) [],
     DecCoin.amount := nullish (DecCoin_Partial.amount object) []\<rparr>"

definition create_DecCoin :: "DecCoin_Partial option \<Rightarrow> DecCoin" where
  "create_DecCoin base = fromPartial_DecCoin (nullish base DecCoin_empty)"

text \<open>A partial message that sets every field.\<close>

definition partial_of_DecCoin :: "DecCoin \<Rightarrow> DecCoin_Partial" where
  "partial_of_DecCoin m =
     \<lparr>DecCoin_Partial.denom = Some (DecCoin.denom m),
      DecCoin_Partial.amount = Some (DecCoin.amount m)\<rparr>"

definition ok_DecCoin :: "DecCoin \<Rightarrow> bool" where
  "ok_DecCoin m \<longleftrightarrow> True"

definition wf_DecCoin :: "('w, 'r) wire \<Rightarrow> DecCoin \<Rightarrow> bool" where
  "wf_DecCoin L m \<longleftrightarrow> wire_string (DecCoin.denom m)
     \<and> wire_string (DecCoin.amount m)"

definition wfj_DecCoin :: "DecCoin \<Rightarrow> bool" where
  "wfj_DecCoin m \<longleftrightarrow> True"


section \<open>cosmos/base/query/v1beta1/pagination.ts\<close>

subsection \<open>PageRequest\<close>

record PageRequest =
  key :: bytes
  offset :: number
  limit :: number
  countTotal :: bool
  reverse :: bool

definition createBase_PageRequest :: PageRequest where
  "createBase_PageRequest = \<lparr>PageRequest.key = [],
     PageRequest.offset = Num 0,
     PageRequest.limit = Num 0,
     PageRequest.countTotal = False,
     PageRequest.reverse = False\<rparr>"

definition encode_PageRequest :: "('w, 'r) wire \<Rightarrow> PageRequest \<Rightarrow> 'w \<Rightarrow> 'w result" where
  "encode_PageRequest L message = seqE
    [whenE (length (PageRequest.key message) \<noteq> 0) (seqE [w_uint32 L 10, w_bytes L (PageRequest.key message)]),
     whenE (PageRequest.offset message \<noteq> Num 0) (seqE [w_uint32 L 16, w_uint64 L (PageRequest.offset message)]),
     whenE (PageRequest.limit message \<noteq> Num 0) (seqE [w_uint32 L 24, w_uint64 L (PageRequest.limit message)]),
     whenE (PageRequest.countTotal message \<noteq> False) (seqE [w_uint32 L 32, w_bool L (PageRequest.countTotal message)]),
     whenE (PageRequest.reverse message \<noteq> False) (seqE [w_uint32 L 40, w_bool L (PageRequest.reverse message)])]"

definition PageRequest_switch :: "('w, 'r) wire \<Rightarrow> u32 \<Rightarrow> PageRequest \<Rightarrow> (PageRequest, 'r) action" where
  "PageRequest_switch L tag message = js_switch (drop_bit 3 tag)
    [(1, when_tag tag 10 (readf (r_bytes L) (\<lambda>v. message\<lparr>PageRequest.key := v\<rparr>))),
     (2, when_tag tag 16 (readf (num64 (r_uint64 L)) (\<lambda>v. message\<lparr>PageRequest.offset := v\<rparr>))),
     (3, when_tag tag 24 (readf (num64 (r_uint64 L)) (\<lambda>v. message\<lparr>PageRequest.limit := v\<rparr>))),
     (4, when_tag tag 32 (readf (r_bool L) (\<lambda>v. message\<lparr>PageRequest.countTotal := v\<rparr>))),
     (5, when_tag tag 40 (readf (r_bool L) (\<lambda>v. message\<lparr>PageRequest.reverse := v\<rparr>)))]
    break_out"

definition decode_PageRequest :: "('w, 'r) wire \<Rightarrow> 'r input \<Rightarrow> nat option \<Rightarrow> (PageRequest \<times> 'r) result" where
  "decode_PageRequest L = decode_msg L (PageRequest_switch L) createBase_PageRequest"

definition fromJSON_PageRequest :: "host \<Rightarrow> jsval \<Rightarrow> PageRequest result" where
  "fromJSON_PageRequest h object =
     bindE (fieldE object ''key'' (bytesFromBase64 h) []) (\<lambda>v_key.
     bindE (fieldE object ''offset'' (numberE h) (Num 0)) (\<lambda>v_offset.
     bindE (fieldE object ''limit'' (numberE h) (Num 0)) (\<lambda>v_limit.
     bindE (fieldE object ''countTotal'' booleanE False) (\<lambda>v_countTotal.
     bindE (fieldE object ''reverse'' booleanE False) (\<lambda>v_reverse.
     Inr \<lparr>PageRequest.key = v_key, PageRequest.offset = v_offset, PageRequest.limit = v_limit, PageRequest.countTotal = v_countTotal, PageRequest.reverse = v_reverse\<rparr>)))))"

definition toJSON_PageRequest :: "host \<Rightarrow> PageRequest \<Rightarrow> jsval result" where
  "toJSON_PageRequest h message = objE
    [jfieldE (length (PageRequest.key message) \<noteq> 0) ''key'' (base64E h (PageRequest.key message)),
     jfieldE (PageRequest.offset message \<noteq> Num 0) ''offset'' (Inr (JNumber (Math_round (PageRequest.offset message)))),
     jfieldE (PageRequest.limit message \<noteq> Num 0) ''limit'' (Inr (JNumber (Math_round (PageRequest.limit message)))),
     jfieldE (PageRequest.countTotal message \<noteq> False) ''countTotal'' (Inr (JBool (PageRequest.countTotal message))),
     jfieldE (PageRequest.reverse message \<noteq> False) ''reverse'' (Inr (JBool (PageRequest.reverse message)))]"

record PageRequest_Partial =
  key :: "bytes option"
  offset :: "number option"
  limit :: "number option"
  countTotal :: "bool option"
  reverse :: "bool option"

definition PageRequest_empty :: PageRequest_Partial where
  "PageRequest_empty = \<lparr>PageRequest_Partial.key = None, PageRequest_Partial.offset = None, PageRequest_Partial.limit = None, PageRequest_Partial.countTotal = None, PageRequest_Partial.reverse = None\<rparr>"

definition fromPartial_PageRequest :: "PageRequest_Partial \<Rightarrow> PageRequest" where
  "fromPartial_PageRequest object = createBase_PageRequest\<lparr>PageRequest.key := nullish (PageRequest_Partial.key object) [],
     PageRequest.offset := nullish (PageRequest_Partial.offset object) (Num 0),
     PageRequest.limit := nullish (PageRequest_Partial.limit object) (Num 0),
     PageRequest.countTotal := nullish (PageRequest_Partial.countTotal object) False,
     PageRequest.reverse := nullish (PageRequest_Partial.reverse object) False\<rparr>"

definition create_PageRequest :: "PageRequest_Partial option \<Rightarrow> PageRequest" where
  "create_PageRequest base = fromPartial_PageRequest (nullish base PageRequest_empty)"

text \<open>A partial message that sets every field.\<close>

definition partial_of_PageRequest :: "PageRequest \<Rightarrow> PageRequest_Partial" where
  "partial_of_PageRequest m =
     \<lparr>PageRequest_Partial.key = Some (PageRequest.key m),
      PageRequest_Partial.offset = Some (PageRequest.offset m),
      PageRequest_Partial.limit = Some (PageRequest.limit m),
      PageRequest_Partial.countTotal = Some (PageRequest.countTotal m),
      PageRequest_Partial.reverse = Some (PageRequest.reverse m)\<rparr>"

definition ok_PageRequest :: "PageRequest \<Rightarrow> bool" where
  "ok_PageRequest m \<longleftrightarrow> safe_uint (PageRequest.offset m)
     \<and> safe_uint (PageRequest.limit m)"

definition wf_PageRequest :: "('w, 'r) wire \<Rightarrow> PageRequest \<Rightarrow> bool" where
  "wf_PageRequest L m \<longleftrightarrow> wire_bytes (PageRequest.key m)
     \<and> safe_uint (PageRequest.offset m)
     \<and> safe_uint (PageRequest.limit m)"

definition wfj_PageRequest :: "PageRequest \<Rightarrow> bool" where
  "wfj_PageRequest m \<longleftrightarrow> whole (PageRequest.offset m)
     \<and> whole (PageRequest.limit m)"

subsection \<open>PageResponse\<close>

record PageResponse =
  nextKey :: bytes
  total :: number

definition createBase_PageResponse :: PageResponse where
  "createBase_PageResponse = \<lparr>PageResponse.nextKey = [],
     PageResponse.total = Num 0\<rparr>"

definition encode_PageResponse :: "('w, 'r) wire \<Rightarrow> PageResponse \<Rightarrow> 'w \<Rightarrow> 'w result" where
  "encode_PageResponse L message = seqE
    [whenE (length (PageResponse.nextKey message) \<noteq> 0) (seqE [w_uint32 L 10, w_bytes L (PageResponse.nextKey message)]),
     whenE (PageResponse.total message \<noteq> Num 0) (seqE [w_uint32 L 16, w_uint64 L (PageResponse.total message)])]"

definition PageResponse_switch :: "('w, 'r) wire \<Rightarrow> u32 \<Rightarrow> PageResponse \<Rightarrow> (PageResponse, 'r) action" where
  "PageResponse_switch L tag message = js_switch (drop_bit 3 tag)
    [(1, when_tag tag 10 (readf (r_bytes L) (\<lambda>v. message\<lparr>PageResponse.nextKey := v\<rparr>))),
     (2, when_tag tag 16 (readf (num64 (r_uint64 L)) (\<lambda>v. message\<lparr>PageResponse.total := v\<rparr>)))]
    break_out"

definition decode_PageResponse :: "('w, 'r) wire \<Rightarrow> 'r input \<Rightarrow> nat option \<Rightarrow> (PageResponse \<times> 'r) result" where
  "decode_PageResponse L = decode_msg L (PageResponse_switch L) createBase_PageResponse"

definition fromJSON_PageResponse :: "host \<Rightarrow> jsval \<Rightarrow> PageResponse result" where
  "fromJSON_PageResponse h object =
     bindE (fieldE object ''nextKey'' (bytesFromBase64 h) []) (\<lambda>v_nextKey.
     bindE (fieldE object ''total'' (numberE h) (Num 0)) (\<lambda>v_total.
     Inr \<lparr>PageResponse.nextKey = v_nextKey, PageResponse.total = v_total\<rparr>))"

definition toJSON_PageResponse :: "host \<Rightarrow> PageResponse \<Rightarrow> jsval result" where
  "toJSON_PageResponse h message = objE
    [jfieldE (length (PageResponse.nextKey message) \<noteq> 0) ''nextKey'' (base64E h (PageResponse.nextKey message)),
     jfieldE (PageResponse.total message \<noteq> Num 0) ''total'' (Inr (JNumber (Math_round (PageResponse.total message))))]"

record PageResponse_Partial =
  nextKey :: "bytes option"
  total :: "number option"

definition PageResponse_empty :: PageResponse_Partial where
  "PageResponse_empty = \<lparr>PageResponse_Partial.nextKey = None, PageResponse_Partial.total = None\<rparr>"

definition fromPartial_PageResponse :: "PageResponse_Partial \<Rightarrow> PageResponse" where
  "fromPartial_PageResponse object = createBase_PageResponse\<lparr>PageResponse.nextKey := nullish (PageResponse_Partial.nextKey object) [],
     PageResponse.total := nullish (PageResponse_Partial.total object) (Num 0)\<rparr>"

definition create_PageResponse :: "PageResponse_Partial option \<Rightarrow> PageResponse" where
  "create_PageResponse base = fromPartial_PageResponse (nullish base PageResponse_empty)"

text \<open>A partial message that sets every field.\<close>

definition partial_of_PageResponse :: "PageResponse \<Rightarrow> PageResponse_Partial" where
  "partial_of_PageResponse m =
     \<lparr>PageResponse_Partial.nextKey = Some (PageResponse.nextKey m),
      PageResponse_Partial.total = Some (PageResponse.total m)\<rparr>"

definition ok_PageResponse :: "PageResponse \<Rightarrow> bool" where
  "ok_PageResponse m \<longleftrightarrow> safe_uint (PageResponse.total m)"

definition wf_PageResponse :: "('w, 'r) wire \<Rightarrow> PageResponse \<Rightarrow> bool" where
  "wf_PageResponse L m \<longleftrightarrow> wire_bytes (PageResponse.nextKey m)
     \<and> safe_uint (PageResponse.total m)"

definition wfj_PageResponse :: "PageResponse \<Rightarrow> bool" where
  "wfj_PageResponse m \<longleftrightarrow> whole (PageResponse.total m)"


section \<open>google/protobuf/duration.ts\<close>

subsection \<open>Duration\<close>

record Duration =
  seconds :: number
  nanos :: number

definition createBase_Duration :: Duration where
  "createBase_Duration = \<lparr>Duration.seconds = Num 0,
     Duration.nanos = Num 0\<rparr>"

definition encode_Duration :: "('w, 'r) wire \<Rightarrow> Duration \<Rightarrow> 'w \<Rightarrow> 'w result" where
  "encode_Duration L message = seqE
    [whenE (Duration.seconds message \<noteq> Num 0) (seqE [w_uint32 L 8, w_int64 L (Duration.seconds message)]),
     whenE (Duration.nanos message \<noteq> Num 0) (seqE [w_uint32 L 16, w_int32 L (Duration.nanos message)])]"

definition Duration_switch :: "('w, 'r) wire \<Rightarrow> u32 \<Rightarrow> Duration \<Rightarrow> (Duration, 'r) action" where
  "Duration_switch L tag message = js_switch (drop_bit 3 tag)
    [(1, when_tag tag 8 (readf (num64 (r_int64 L)) (\<lambda>v. message\<lparr>Duration.seconds := v\<rparr>))),
     (2, when_tag tag 16 (readf (num32 (r_int32 L)) (\<lambda>v. message\<lparr>Duration.nanos := v\<rparr>)))]
    break_out"

definition decode_Duration :: "('w, 'r) wire \<Rightarrow> 'r input \<Rightarrow> nat option \<Rightarrow> (Duration \<times> 'r) result" where
  "decode_Duration L = decode_msg L (Duration_switch L) createBase_Duration"

definition fromJSON_Duration :: "host \<Rightarrow> jsval \<Rightarrow> Duration result" where
  "fromJSON_Duration h object =
     bindE (fieldE object ''seconds'' (numberE h) (Num 0)) (\<lambda>v_seconds.
     bindE (fieldE object ''nanos'' (numberE h) (Num 0)) (\<lambda>v_nanos.
     Inr \<lparr>Duration.seconds = v_seconds, Duration.nanos = v_nanos\<rparr>))"

definition toJSON_Duration :: "host \<Rightarrow> Duration \<Rightarrow> jsval result" where
  "toJSON_Duration h message = objE
    [jfieldE (Duration.seconds message \<noteq> Num 0) ''seconds'' (Inr (JNumber (Math_round (Duration.seconds message)))),
     jfieldE (Duration.nanos message \<noteq> Num 0) ''nanos'' (Inr (JNumber (Math_round (Duration.nanos message))))]"

record Duration_Partial =
  seconds :: "number option"
  nanos :: "number option"

definition Duration_empty :: Duration_Partial where
  "Duration_empty = \<lparr>Duration_Partial.seconds = None, Duration_Partial.nanos = None\<rparr>"

definition fromPartial_Duration :: "Duration_Partial \<Rightarrow> Duration" where
  "fromPartial_Duration object = createBase_Duration\<lparr>Duration.seconds := nullish (Duration_Partial.seconds object) (Num 0),
     Duration.nanos := nullish (Duration_Partial.nanos object) (Num 0)\<rparr>"

definition create_Duration :: "Duration_Partial option \<Rightarrow> Duration" where
  "create_Duration base = fromPartial_Duration (nullish base Duration_empty)"

text \<open>A partial message that sets every field.\<close>

definition partial_of_Duration :: "Duration \<Rightarrow> Duration_Partial" where
  "partial_of_Duration m =
     \<lparr>Duration_Partial.seconds = Some (Duration.seconds m),
      Duration_Partial.nanos = Some (Duration.nanos m)\<rparr>"

definition ok_Duration :: "Duration \<Rightarrow> bool" where
  "ok_Duration m \<longleftrightarrow> safe_int (Duration.seconds m)
     \<and> int32_num (Duration.nanos m)"

definition wf_Duration :: "('w, 'r) wire \<Rightarrow> Duration \<Rightarrow> bool" where
  "wf_Duration L m \<longleftrightarrow> safe_int (Duration.seconds m)
     \<and> int32_num (Duration.nanos m)"

definition wfj_Duration :: "Duration \<Rightarrow> bool" where
  "wfj_Duration m \<longleftrightarrow> whole (Duration.seconds m)
     \<and> whole (Duration.nanos m)"


section \<open>google/protobuf/timestamp.ts\<close>

subsection \<open>Timestamp\<close>

record Timestamp =
  seconds :: number
  nanos :: number

definition createBase_Timestamp :: Timestamp where
  "createBase_Timestamp = \<lparr>Timestamp.seconds = Num 0,
     Timestamp.nanos = Num 0\<rparr>"

definition encode_Timestamp :: "('w, 'r) wire \<Rightarrow> Timestamp \<Rightarrow> 'w \<Rightarrow> 'w result" where
  "encode_Timestamp L message = seqE
    [whenE (Timestamp.seconds message \<noteq> Num 0) (seqE [w_uint32 L 8, w_int64 L (Timestamp.seconds message)]),
     whenE (Timestamp.nanos message \<noteq> Num 0) (seqE [w_uint32 L 16, w_int32 L (Timestamp.nanos message)])]"

definition Timestamp_switch :: "('w, 'r) wire \<Rightarrow> u32 \<Rightarrow> Timestamp \<Rightarrow> (Timestamp, 'r) action" where
  "Timestamp_switch L tag message = js_switch (drop_bit 3 tag)
    [(1, when_tag tag 8 (readf (num64 (r_int64 L)) (\<lambda>v. message\<lparr>Timestamp.seconds := v\<rparr>))),
     (2, when_tag tag 16 (readf (num32 (r_int32 L)) (\<lambda>v. message\<lparr>Timestamp.nanos := v\<rparr>)))]
    break_out"

definition decode_Timestamp :: "('w, 'r) wire \<Rightarrow> 'r input \<Rightarrow> nat option \<Rightarrow> (Timestamp \<times> 'r) result" where
  "decode_Timestamp L = decode_msg L (Timestamp_switch L) createBase_Timestamp"

definition fromJSON_Timestamp :: "host \<Rightarrow> jsval \<Rightarrow> Timestamp result" where
  "fromJSON_Timestamp h object =
     bindE (fieldE object ''seconds'' (numberE h) (Num 0)) (\<lambda>v_seconds.
     bindE (fieldE object ''nanos'' (numberE h) (Num 0)) (\<lambda>v_nanos.
     Inr \<lparr>Timestamp.seconds = v_seconds, Timestamp.nanos = v_nanos\<rparr>))"

definition toJSON_Timestamp :: "host \<Rightarrow> Timestamp \<Rightarrow> jsval result" where
  "toJSON_Timestamp h message = objE
    [jfieldE (Timestamp.seconds message \<noteq> Num 0) ''seconds'' (Inr (JNumber (Math_round (Timestamp.seconds message)))),
     jfieldE (Timestamp.nanos message \<noteq> Num 0) ''nanos'' (Inr (JNumber (Math_round (Timestamp.nanos message))))]"

record Timestamp_Partial =
  seconds :: "number option"
  nanos :: "number option"

definition Timestamp_empty :: Timestamp_Partial where
  "Timestamp_empty = \<lparr>Timestamp_Partial.seconds = None, Timestamp_Partial.nanos = None\<rparr>"

definition fromPartial_Timestamp :: "Timestamp_Partial \<Rightarrow> Timestamp" where
  "fromPartial_Timestamp object = createBase_Timestamp\<lparr>Timestamp.seconds := nullish (Timestamp_Partial.seconds object) (Num 0),
     Timestamp.nanos := nullish (Timestamp_Partial.nanos object) (Num 0)\<rparr>"

definition create_Timestamp :: "Timestamp_Partial option \<Rightarrow> Timestamp" where
  "create_Timestamp base = fromPartial_Timestamp (nullish base Timestamp_empty)"

text \<open>A partial message that sets every field.\<close>

definition partial_of_Timestamp :: "Timestamp \<Rightarrow> Timestamp_Partial" where
  "partial_of_Timestamp m =
     \<lparr>Timestamp_Partial.seconds = Some (Timestamp.seconds m),
      Timestamp_Partial.nanos = Some (Timestamp.nanos m)\<rparr>"

definition ok_Timestamp :: "Timestamp \<Rightarrow> bool" where
  "ok_Timestamp m \<longleftrightarrow> safe_int (Timestamp.seconds m)
     \<and> int32_num (Timestamp.nanos m)"

definition wf_Timestamp :: "('w, 'r) wire \<Rightarrow> Timestamp \<Rightarrow> bool" where
  "wf_Timestamp L m \<longleftrightarrow> safe_int (Timestamp.seconds m)
     \<and> int32_num (Timestamp.nanos m)"

definition wfj_Timestamp :: "Timestamp \<Rightarrow> bool" where
  "wfj_Timestamp m \<longleftrightarrow> whole (Timestamp.seconds m)
     \<and> whole (Timestamp.nanos m)"


section \<open>Encoding, decoding and JSON of these messages\<close>

lemma Coin_tags:
  "Coin_switch L 10 m = readf (r_string L) (\<lambda>v. m\<lparr>Coin.denom := v\<rparr>)"
  "Coin_switch L 18 m = readf (r_string L) (\<lambda>v. m\<lparr>Coin.amount := v\<rparr>)"
  by (simp_all add: Coin_switch_def when_tag_def)

lemma fromPartial_partial_of_Coin [simp]: "fromPartial_Coin (partial_of_Coin m) = m"
  by (simp add: fromPartial_Coin_def partial_of_Coin_def createBase_Coin_def partial_map_def option.map_comp o_def option.map_ident)

lemma create_Coin_None [simp]: "create_Coin None = createBase_Coin"
  by (simp add: create_Coin_def fromPartial_Coin_def Coin_empty_def createBase_Coin_def partial_map_def)

sublocale wire_laws \<subseteq> Coin_codec: message_codec L F out inp "encode_Coin L" "Coin_switch L" createBase_Coin "wf_Coin L"
proof unfold_locales
  show good: "good_sw (Coin_switch L)"
    unfolding Coin_switch_def by (intro good_swI fwd_rules)
  fix m assume "wf_Coin L m"
  then show "codes (Coin_switch L) (encode_Coin L m) createBase_Coin m"
    unfolding encode_Coin_def wf_Coin_def
    by (elim conjE)
      (rule codes_Cons codes_Nil [OF Coin.equality] codec_rules
        codes_when [where tag = 10 and u = Coin.denom_update and op = "r_string L", OF good]
        codes_when [where tag = 18 and u = Coin.amount_update and op = "r_string L", OF good]
      | assumption | (simp add: Coin_tags createBase_Coin_def; fail))+
qed

sublocale wire_laws \<subseteq> Coin_range: message_range L F out inp "Coin_switch L" createBase_Coin ok_Coin
proof unfold_locales
  show "ok_Coin createBase_Coin" by (simp add: ok_Coin_def createBase_Coin_def)
  fix m tag assume "ok_Coin m"
  then show "keeps ok_Coin (Coin_switch L tag m)"
    unfolding Coin_switch_def by - (rule range_rules | (simp add: ok_Coin_def; fail))+
qed

context wire_laws
begin

lemmas Coin_carries [codec_rules] =
  Coin_codec.opt_carries [folded decode_Coin_def] Coin_codec.list_carries [folded decode_Coin_def]

lemmas Coin_good [fwd_rules] = Coin_codec.op_good [folded decode_Coin_def]

lemmas Coin_yields [range_rules] = Coin_range.sub_range [folded decode_Coin_def]

lemmas Coin_roundtrip = Coin_codec.roundtrip [folded decode_Coin_def]

lemmas Coin_returns = Coin_codec.decode_returns [folded decode_Coin_def]

lemmas Coin_decoded = Coin_range.decode_range [folded decode_Coin_def]

end

interpretation Coin_json: message_json toJSON_Coin fromJSON_Coin wfj_Coin
proof unfold_locales
  fix h m
  assume "wfj_Coin m"
  then show "json_rt (toJSON_Coin h) (fromJSON_Coin h) m"
    unfolding toJSON_Coin_def fromJSON_Coin_def wfj_Coin_def
    by (-) (rule json_rtI json_rules | assumption | (simp; fail))+
qed

lemmas Coin_json_rules [json_rules] = Coin_json.json_field_rules

lemma DecCoin_tags:
  "DecCoin_switch L 10 m = readf (r_string L) (\<lambda>v. m\<lparr>DecCoin.denom := v\<rparr>)"
  "DecCoin_switch L 18 m = readf (r_string L) (\<lambda>v. m\<lparr>DecCoin.amount := v\<rparr>)"
  by (simp_all add: DecCoin_switch_def when_tag_def)

lemma fromPartial_partial_of_DecCoin [simp]: "fromPartial_DecCoin (partial_of_DecCoin m) = m"
  by (simp add: fromPartial_DecCoin_def partial_of_DecCoin_def createBase_DecCoin_def partial_map_def option.map_comp o_def option.map_ident)

lemma create_DecCoin_None [simp]: "create_DecCoin None = createBase_DecCoin"
  by (simp add: create_DecCoin_def fromPartial_DecCoin_def DecCoin_empty_def createBase_DecCoin_def partial_map_def)

sublocale wire_laws \<subseteq> DecCoin_codec: message_codec L F out inp "encode_DecCoin L" "DecCoin_switch L" createBase_DecCoin "wf_DecCoin L"
proof unfold_locales
  show good: "good_sw (DecCoin_switch L)"
    unfolding DecCoin_switch_def by (intro good_swI fwd_rules)
  fix m assume "wf_DecCoin L m"
  then show "codes (DecCoin_switch L) (encode_DecCoin L m) createBase_DecCoin m"
    unfolding encode_DecCoin_def wf_DecCoin_def
    by (elim conjE)
      (rule codes_Cons codes_Nil [OF DecCoin.equality] codec_rules
        codes_when [where tag = 10 and u = DecCoin.denom_update and op = "r_string L", OF good]
        codes_when [where tag = 18 and u = DecCoin.amount_update and op = "r_string L", OF good]
      | assumption | (simp add: DecCoin_tags createBase_DecCoin_def; fail))+
qed

sublocale wire_laws \<subseteq> DecCoin_range: message_range L F out inp "DecCoin_switch L" createBase_DecCoin ok_DecCoin
proof unfold_locales
  show "ok_DecCoin createBase_DecCoin" by (simp add: ok_DecCoin_def createBase_DecCoin_def)
  fix m tag assume "ok_DecCoin m"
  then show "keeps ok_DecCoin (DecCoin_switch L tag m)"
    unfolding DecCoin_switch_def by - (rule range_rules | (simp add: ok_DecCoin_def; fail))+
qed

context wire_laws
begin

lemmas DecCoin_carries [codec_rules] =
  DecCoin_codec.opt_carries [folded decode_DecCoin_def] DecCoin_codec.list_carries [folded decode_DecCoin_def]

lemmas DecCoin_good [fwd_rules] = DecCoin_codec.op_good [folded decode_DecCoin_def]

lemmas DecCoin_yields [range_rules] = DecCoin_range.sub_range [folded decode_DecCoin_def]

lemmas DecCoin_roundtrip = DecCoin_codec.roundtrip [folded decode_DecCoin_def]

lemmas DecCoin_returns = DecCoin_codec.decode_returns [folded decode_DecCoin_def]

lemmas DecCoin_decoded = DecCoin_range.decode_range [folded decode_DecCoin_def]

end

interpretation DecCoin_json: message_json toJSON_DecCoin fromJSON_DecCoin wfj_DecCoin
proof unfold_locales
  fix h m
  assume "wfj_DecCoin m"
  then show "json_rt (toJSON_DecCoin h) (fromJSON_DecCoin h) m"
    unfolding toJSON_DecCoin_def fromJSON_DecCoin_def wfj_DecCoin_def
    by (-) (rule json_rtI json_rules | assumption | (simp; fail))+
qed

lemmas DecCoin_json_rules [json_rules] = DecCoin_json.json_field_rules

lemma PageRequest_tags:
  "PageRequest_switch L 10 m = readf (r_bytes L) (\<lambda>v. m\<lparr>PageRequest.key := v\<rparr>)"
  "PageRequest_switch L 16 m = readf (num64 (r_uint64 L)) (\<lambda>v. m\<lparr>PageRequest.offset := v\<rparr>)"
  "PageRequest_switch L 24 m = readf (num64 (r_uint64 L)) (\<lambda>v. m\<lparr>PageRequest.limit := v\<rparr>)"
  "PageRequest_switch L 32 m = readf (r_bool L) (\<lambda>v. m\<lparr>PageRequest.countTotal := v\<rparr>)"
  "PageRequest_switch L 40 m = readf (r_bool L) (\<lambda>v. m\<lparr>PageRequest.reverse := v\<rparr>)"
  by (simp_all add: PageRequest_switch_def when_tag_def)

lemma fromPartial_partial_of_PageRequest [simp]: "fromPartial_PageRequest (partial_of_PageRequest m) = m"
  by (simp add: fromPartial_PageRequest_def partial_of_PageRequest_def createBase_PageRequest_def partial_map_def option.map_comp o_def option.map_ident)

lemma create_PageRequest_None [simp]: "create_PageRequest None = createBase_PageRequest"
  by (simp add: create_PageRequest_def fromPartial_PageRequest_def PageRequest_empty_def createBase_PageRequest_def partial_map_def)

sublocale wire_laws \<subseteq> PageRequest_codec: message_codec L F out inp "encode_PageRequest L" "PageRequest_switch L" createBase_PageRequest "wf_PageRequest L"
proof unfold_locales
  show good: "good_sw (PageRequest_switch L)"
    unfolding PageRequest_switch_def by (intro good_swI fwd_rules)
  fix m assume "wf_PageRequest L m"
  then show "codes (PageRequest_switch L) (encode_PageRequest L m) createBase_PageRequest m"
    unfolding encode_PageRequest_def wf_PageRequest_def
    by (elim conjE)
      (rule codes_Cons codes_Nil [OF PageRequest.equality] codec_rules
        codes_when [where tag = 10 and u = PageRequest.key_update and op = "r_bytes L", OF good]
        codes_when [where tag = 16 and u = PageRequest.offset_update and op = "num64 (r_uint64 L)", OF good]
        codes_when [where tag = 24 and u = PageRequest.limit_update and op = "num64 (r_uint64 L)", OF good]
        codes_when [where tag = 32 and u = PageRequest.countTotal_update and op = "r_bool L", OF good]
        codes_when [where tag = 40 and u = PageRequest.reverse_update and op = "r_bool L", OF good]
      | assumption | (simp add: PageRequest_tags createBase_PageRequest_def; fail))+
qed

sublocale wire_laws \<subseteq> PageRequest_range: message_range L F out inp "PageRequest_switch L" createBase_PageRequest ok_PageRequest
proof unfold_locales
  show "ok_PageRequest createBase_PageRequest" by (simp add: ok_PageRequest_def createBase_PageRequest_def)
  fix m tag assume "ok_PageRequest m"
  then show "keeps ok_PageRequest (PageRequest_switch L tag m)"
    unfolding PageRequest_switch_def by - (rule range_rules | (simp add: ok_PageRequest_def; fail))+
qed

context wire_laws
begin

lemmas PageRequest_carries [codec_rules] =
  PageRequest_codec.opt_carries [folded decode_PageRequest_def] PageRequest_codec.list_carries [folded decode_PageRequest_def]

lemmas PageRequest_good [fwd_rules] = PageRequest_codec.op_good [folded decode_PageRequest_def]

lemmas PageRequest_yields [range_rules] = PageRequest_range.sub_range [folded decode_PageRequest_def]

lemmas PageRequest_roundtrip = PageRequest_codec.roundtrip [folded decode_PageRequest_def]

lemmas PageRequest_returns = PageRequest_codec.decode_returns [folded decode_PageRequest_def]

lemmas PageRequest_decoded = PageRequest_range.decode_range [folded decode_PageRequest_def]

end

interpretation PageRequest_json: message_json toJSON_PageRequest fromJSON_PageRequest wfj_PageRequest
proof unfold_locales
  fix h m
  assume "wfj_PageRequest m"
  then show "json_rt (toJSON_PageRequest h) (fromJSON_PageRequest h) m"
    unfolding toJSON_PageRequest_def fromJSON_PageRequest_def wfj_PageRequest_def
    by (elim conjE) (rule json_rtI json_rules | assumption | (simp; fail))+
qed

lemmas PageRequest_json_rules [json_rules] = PageRequest_json.json_field_rules

lemma PageResponse_tags:
  "PageResponse_switch L 10 m = readf (r_bytes L) (\<lambda>v. m\<lparr>PageResponse.nextKey := v\<rparr>)"
  "PageResponse_switch L 16 m = readf (num64 (r_uint64 L)) (\<lambda>v. m\<lparr>PageResponse.total := v\<rparr>)"
  by (simp_all add: PageResponse_switch_def when_tag_def)

lemma fromPartial_partial_of_PageResponse [simp]: "fromPartial_PageResponse (partial_of_PageResponse m) = m"
  by (simp add: fromPartial_PageResponse_def partial_of_PageResponse_def createBase_PageResponse_def partial_map_def option.map_comp o_def option.map_ident)

lemma create_PageResponse_None [simp]: "create_PageResponse None = createBase_PageResponse"
  by (simp add: create_PageResponse_def fromPartial_PageResponse_def PageResponse_empty_def createBase_PageResponse_def partial_map_def)

sublocale wire_laws \<subseteq> PageResponse_codec: message_codec L F out inp "encode_PageResponse L" "PageResponse_switch L" createBase_PageResponse "wf_PageResponse L"
proof unfold_locales
  show good: "good_sw (PageResponse_switch L)"
    unfolding PageResponse_switch_def by (intro good_swI fwd_rules)
  fix m assume "wf_PageResponse L m"
  then show "codes (PageResponse_switch L) (encode_PageResponse L m) createBase_PageResponse m"
    unfolding encode_PageResponse_def wf_PageResponse_def
    by (elim conjE)
      (rule codes_Cons codes_Nil [OF PageResponse.equality] codec_rules
        codes_when [where tag = 10 and u = PageResponse.nextKey_update and op = "r_bytes L", OF good]
        codes_when [where tag = 16 and u = PageResponse.total_update and op = "num64 (r_uint64 L)", OF good]
      | assumption | (simp add: PageResponse_tags createBase_PageResponse_def; fail))+
qed

sublocale wire_laws \<subseteq> PageResponse_range: message_range L F out inp "PageResponse_switch L" createBase_PageResponse ok_PageResponse
proof unfold_locales
  show "ok_PageResponse createBase_PageResponse" by (simp add: ok_PageResponse_def createBase_PageResponse_def)
  fix m tag assume "ok_PageResponse m"
  then show "keeps ok_PageResponse (PageResponse_switch L tag m)"
    unfolding PageResponse_switch_def by - (rule range_rules | (simp add: ok_PageResponse_def; fail))+
qed

context wire_laws
begin

lemmas PageResponse_carries [codec_rules] =
  PageResponse_codec.opt_carries [folded decode_PageResponse_def] PageResponse_codec.list_carries [folded decode_PageResponse_def]

lemmas PageResponse_good [fwd_rules] = PageResponse_codec.op_good [folded decode_PageResponse_def]

lemmas PageResponse_yields [range_rules] = PageResponse_range.sub_range [folded decode_PageResponse_def]

lemmas PageResponse_roundtrip = PageResponse_codec.roundtrip [folded decode_PageResponse_def]

lemmas PageResponse_returns = PageResponse_codec.decode_returns [folded decode_PageResponse_def]

lemmas PageResponse_decoded = PageResponse_range.decode_range [folded decode_PageResponse_def]

end

interpretation PageResponse_json: message_json toJSON_PageResponse fromJSON_PageResponse wfj_PageResponse
proof unfold_locales
  fix h m
  assume "wfj_PageResponse m"
  then show "json_rt (toJSON_PageResponse h) (fromJSON_PageResponse h) m"
    unfolding toJSON_PageResponse_def fromJSON_PageResponse_def wfj_PageResponse_def
    by (-) (rule json_rtI json_rules | assumption | (simp; fail))+
qed

lemmas PageResponse_json_rules [json_rules] = PageResponse_json.json_field_rules

lemma Duration_tags:
  "Duration_switch L 8 m = readf (num64 (r_int64 L)) (\<lambda>v. m\<lparr>Duration.seconds := v\<rparr>)"
  "Duration_switch L 16 m = readf (num32 (r_int32 L)) (\<lambda>v. m\<lparr>Duration.nanos := v\<rparr>)"
  by (simp_all add: Duration_switch_def when_tag_def)

lemma fromPartial_partial_of_Duration [simp]: "fromPartial_Duration (partial_of_Duration m) = m"
  by (simp add: fromPartial_Duration_def partial_of_Duration_def createBase_Duration_def partial_map_def option.map_comp o_def option.map_ident)

lemma create_Duration_None [simp]: "create_Duration None = createBase_Duration"
  by (simp add: create_Duration_def fromPartial_Duration_def Duration_empty_def createBase_Duration_def partial_map_def)

sublocale wire_laws \<subseteq> Duration_codec: message_codec L F out inp "encode_Duration L" "Duration_switch L" createBase_Duration "wf_Duration L"
proof unfold_locales
  show good: "good_sw (Duration_switch L)"
    unfolding Duration_switch_def by (intro good_swI fwd_rules)
  fix m assume "wf_Duration L m"
  then show "codes (Duration_switch L) (encode_Duration L m) createBase_Duration m"
    unfolding encode_Duration_def wf_Duration_def
    by (elim conjE)
      (rule codes_Cons codes_Nil [OF Duration.equality] codec_rules
        codes_when [where tag = 8 and u = Duration.seconds_update and op = "num64 (r_int64 L)", OF good]
        codes_when [where tag = 16 and u = Duration.nanos_update and op = "num32 (r_int32 L)", OF good]
      | assumption | (simp add: Duration_tags createBase_Duration_def; fail))+
qed

sublocale wire_laws \<subseteq> Duration_range: message_range L F out inp "Duration_switch L" createBase_Duration ok_Duration
proof unfold_locales
  show "ok_Duration createBase_Duration" by (simp add: ok_Duration_def createBase_Duration_def)
  fix m tag assume "ok_Duration m"
  then show "keeps ok_Duration (Duration_switch L tag m)"
    unfolding Duration_switch_def by - (rule range_rules | (simp add: ok_Duration_def; fail))+
qed

context wire_laws
begin

lemmas Duration_carries [codec_rules] =
  Duration_codec.opt_carries [folded decode_Duration_def] Duration_codec.list_carries [folded decode_Duration_def]

lemmas Duration_good [fwd_rules] = Duration_codec.op_good [folded decode_Duration_def]

lemmas Duration_yields [range_rules] = Duration_range.sub_range [folded decode_Duration_def]

lemmas Duration_roundtrip = Duration_codec.roundtrip [folded decode_Duration_def]

lemmas Duration_returns = Duration_codec.decode_returns [folded decode_Duration_def]

lemmas Duration_decoded = Duration_range.decode_range [folded decode_Duration_def]

end

interpretation Duration_json: message_json toJSON_Duration fromJSON_Duration wfj_Duration
proof unfold_locales
  fix h m
  assume "wfj_Duration m"
  then show "json_rt (toJSON_Duration h) (fromJSON_Duration h) m"
    unfolding toJSON_Duration_def fromJSON_Duration_def wfj_Duration_def
    by (elim conjE) (rule json_rtI json_rules | assumption | (simp; fail))+
qed

lemmas Duration_json_rules [json_rules] = Duration_json.json_field_rules

lemma Timestamp_tags:
  "Timestamp_switch L 8 m = readf (num64 (r_int64 L)) (\<lambda>v. m\<lparr>Timestamp.seconds := v\<rparr>)"
  "Timestamp_switch L 16 m = readf (num32 (r_int32 L)) (\<lambda>v. m\<lparr>Timestamp.nanos := v\<rparr>)"
  by (simp_all add: Timestamp_switch_def when_tag_def)

lemma fromPartial_partial_of_Timestamp [simp]: "fromPartial_Timestamp (partial_of_Timestamp m) = m"
  by (simp add: fromPartial_Timestamp_def partial_of_Timestamp_def createBase_Timestamp_def partial_map_def option.map_comp o_def option.map_ident)

lemma create_Timestamp_None [simp]: "create_Timestamp None = createBase_Timestamp"
  by (simp add: create_Timestamp_def fromPartial_Timestamp_def Timestamp_empty_def createBase_Timestamp_def partial_map_def)

sublocale wire_laws \<subseteq> Timestamp_codec: message_codec L F out inp "encode_Timestamp L" "Timestamp_switch L" createBase_Timestamp "wf_Timestamp L"
proof unfold_locales
  show good: "good_sw (Timestamp_switch L)"
    unfolding Timestamp_switch_def by (intro good_swI fwd_rules)
  fix m assume "wf_Timestamp L m"
  then show "codes (Timestamp_switch L) (encode_Timestamp L m) createBase_Timestamp m"
    unfolding encode_Timestamp_def wf_Timestamp_def
    by (elim conjE)
      (rule codes_Cons codes_Nil [OF Timestamp.equality] codec_rules
        codes_when [where tag = 8 and u = Timestamp.seconds_update and op = "num64 (r_int64 L)", OF good]
        codes_when [where tag = 16 and u = Timestamp.nanos_update and op = "num32 (r_int32 L)", OF good]
      | assumption | (simp add: Timestamp_tags createBase_Timestamp_def; fail))+
qed

sublocale wire_laws \<subseteq> Timestamp_range: message_range L F out inp "Timestamp_switch L" createBase_Timestamp ok_Timestamp
proof unfold_locales
  show "ok_Timestamp createBase_Timestamp" by (simp add: ok_Timestamp_def createBase_Timestamp_def)
  fix m tag assume "ok_Timestamp m"
  then show "keeps ok_Timestamp (Timestamp_switch L tag m)"
    unfolding Timestamp_switch_def by - (rule range_rules | (simp add: ok_Timestamp_def; fail))+
qed

context wire_laws
begin

lemmas Timestamp_carries [codec_rules] =
  Timestamp_codec.opt_carries [folded decode_Timestamp_def] Timestamp_codec.list_carries [folded decode_Timestamp_def]

lemmas Timestamp_good [fwd_rules] = Timestamp_codec.op_good [folded decode_Timestamp_def]

lemmas Timestamp_yields [range_rules] = Timestamp_range.sub_range [folded decode_Timestamp_def]

lemmas Timestamp_roundtrip = Timestamp_codec.roundtrip [folded decode_Timestamp_def]

lemmas Timestamp_returns = Timestamp_codec.decode_returns [folded decode_Timestamp_def]

lemmas Timestamp_decoded = Timestamp_range.decode_range [folded decode_Timestamp_def]

end

interpretation Timestamp_json: message_json toJSON_Timestamp fromJSON_Timestamp wfj_Timestamp
proof unfold_locales
  fix h m
  assume "wfj_Timestamp m"
  then show "json_rt (toJSON_Timestamp h) (fromJSON_Timestamp h) m"
    unfolding toJSON_Timestamp_def fromJSON_Timestamp_def wfj_Timestamp_def
    by (elim conjE) (rule json_rtI json_rules | assumption | (simp; fail))+
qed

lemmas Timestamp_json_rules [json_rules] = Timestamp_json.json_field_rules


end
