(* ===== verification/KeeperMsgs.thy ===== *)
theory KeeperMsgs
  imports BaseMsgs
begin

text \<open>
  The objects the chain stores for providers, contracts and services (\<open>arkeo/arkeo/keeper.ts\<close>),
  with the enumerations of provider status, contract type and contract authorization.
\<close>


section \<open>arkeo/arkeo/keeper.ts\<close>

type_synonym ProviderStatus = number

definition ProviderStatus_OFFLINE :: ProviderStatus where
  "ProviderStatus_OFFLINE = Num 0"

definition ProviderStatus_ONLINE :: ProviderStatus where
  "ProviderStatus_ONLINE = Num 1"

definition ProviderStatus_UNRECOGNIZED :: ProviderStatus where
  "ProviderStatus_UNRECOGNIZED = Num (- 1)"

definition providerStatusFromJSON :: "jsval \<Rightarrow> ProviderStatus" where
  "providerStatusFromJSON object =
    (if object = JNumber (Num 0) \<or> object = JString (js ''OFFLINE'')
       then ProviderStatus_OFFLINE
     else if object = JNumber (Num 1) \<or> object = JString (js ''ONLINE'')
       then ProviderStatus_ONLINE
     else ProviderStatus_UNRECOGNIZED)"

definition providerStatusToJSON :: "ProviderStatus \<Rightarrow> jsstring" where
  "providerStatusToJSON object =
    (if object = ProviderStatus_OFFLINE then js ''OFFLINE''
     else if object = ProviderStatus_ONLINE then js ''ONLINE''
     else js ''UNRECOGNIZED'')"

text \<open>The values the schema names, and the one \<open>fromJSON\<close> maps the others to.\<close>

definition ProviderStatus_known :: "ProviderStatus \<Rightarrow> bool" where
  "ProviderStatus_known n \<longleftrightarrow> n \<in> {ProviderStatus_OFFLINE, ProviderStatus_ONLINE, ProviderStatus_UNRECOGNIZED}"

type_synonym ContractType = number

definition ContractType_SUBSCRIPTION :: ContractType where
  "ContractType_SUBSCRIPTION = Num 0"

definition ContractType_PAY_AS_YOU_GO :: ContractType where
  "ContractType_PAY_AS_YOU_GO = Num 1"

definition ContractType_UNRECOGNIZED :: ContractType where
  "ContractType_UNRECOGNIZED = Num (- 1)"

definition contractTypeFromJSON :: "jsval \<Rightarrow> ContractType" where
  "contractTypeFromJSON object =
    (if object = JNumber (Num 0) \<or> object = JString (js ''SUBSCRIPTION'')
       then ContractType_SUBSCRIPTION
     else if object = JNumber (Num 1) \<or> object = JString (js ''PAY_AS_YOU_GO'')
       then ContractType_PAY_AS_YOU_GO
     else ContractType_UNRECOGNIZED)"

definition contractTypeToJSON :: "ContractType \<Rightarrow> jsstring" where
  "contractTypeToJSON object =
    (if object = ContractType_SUBSCRIPTION then js ''SUBSCRIPTION''
     else if object = ContractType_PAY_AS_YOU_GO then js ''PAY_AS_YOU_GO''
     else js ''UNRECOGNIZED'')"

text \<open>The values the schema names, and the one \<open>fromJSON\<close> maps the others to.\<close>

definition ContractType_known :: "ContractType \<Rightarrow> bool" where
  "ContractType_known n \<longleftrightarrow> n \<in> {ContractType_SUBSCRIPTION, ContractType_PAY_AS_YOU_GO, ContractType_UNRECOGNIZED}"

type_synonym ContractAuthorization = number

definition ContractAuthorization_STRICT :: ContractAuthorization where
  "ContractAuthorization_STRICT = Num 0"

definition ContractAuthorization_OPEN :: ContractAuthorization where
  "ContractAuthorization_OPEN = Num 1"

definition ContractAuthorization_UNRECOGNIZED :: ContractAuthorization where
  "ContractAuthorization_UNRECOGNIZED = Num (- 1)"

definition contractAuthorizationFromJSON :: "jsval \<Rightarrow> ContractAuthorization" where
  "contractAuthorizationFromJSON object =
    (if object = JNumber (Num 0) \<or> object = JString (js ''STRICT'')
       then ContractAuthorization_STRICT
     else if object = JNumber (Num 1) \<or> object = JString (js ''OPEN'')
       then ContractAuthorization_OPEN
     else ContractAuthorization_UNRECOGNIZED)"

definition contractAuthorizationToJSON :: "ContractAuthorization \<Rightarrow> jsstring" where
  "contractAuthorizationToJSON object =
    (if object = ContractAuthorization_STRICT then js ''STRICT''
     else if object = ContractAuthorization_OPEN then js ''OPEN''
     else js ''UNRECOGNIZED'')"

text \<open>The values the schema names, and the one \<open>fromJSON\<close> maps the others to.\<close>

definition ContractAuthorization_known :: "ContractAuthorization \<Rightarrow> bool" where
  "ContractAuthorization_known n \<longleftrightarrow> n \<in> {ContractAuthorization_STRICT, ContractAuthorization_OPEN, ContractAuthorization_UNRECOGNIZED}"

subsection \<open>Provider\<close>

record Provider =
  pubKey :: bytes
  service :: number
  metadataUri :: jsstring
  metadataNonce :: number
  status :: ProviderStatus
  minContractDuration :: number
  maxContractDuration :: number
  subscriptionRate :: "Coin list"
  payAsYouGoRate :: "Coin list"
  bond :: jsstring
  lastUpdate :: number
  settlementDuration :: number

definition createBase_Provider :: Provider where
  "createBase_Provider = \<lparr>Provider.pubKey = [],
     Provider.service = Num 0,
     Provider.metadataUri = [],
     Provider.metadataNonce = Num 0,
     Provider.status = Num 0,
     Provider.minContractDuration = Num 0,
     Provider.maxContractDuration = Num 0,
     Provider.subscriptionRate = [],
     Provider.payAsYouGoRate = [],
     Provider.bond = [],
     Provider.lastUpdate = Num 0,
     Provider.settlementDuration = Num 0\<rparr>"

definition encode_Provider :: "('w, 'r) wire \<Rightarrow> Provider \<Rightarrow> 'w \<Rightarrow> 'w result" where
  "encode_Provider L message = seqE
    [whenE (length (Provider.pubKey message) \<noteq> 0) (seqE [w_uint32 L 10, w_bytes L (Provider.pubKey message)]),
     whenE (Provider.service message \<noteq> Num 0) (seqE [w_uint32 L 16, w_int32 L (Provider.service message)]),
     whenE (Provider.metadataUri message \<noteq> []) (seqE [w_uint32 L 26, w_string L (Provider.metadataUri message)]),
     whenE (Provider.metadataNonce message \<noteq> Num 0) (seqE [w_uint32 L 32, w_uint64 L (Provider.metadataNonce message)]),
     whenE (Provider.status message \<noteq> Num 0) (seqE [w_uint32 L 40, w_int32 L (Provider.status message)]),
     whenE (Provider.minContractDuration message \<noteq> Num 0) (seqE [w_uint32 L 48, w_int64 L (Provider.minContractDuration message)]),
     whenE (Provider.maxContractDuration message \<noteq> Num 0) (seqE [w_uint32 L 56, w_int64 L (Provider.maxContractDuration message)]),
     forE (\<lambda>v. seqE [w_uint32 L 66, w_fork L, encode_Coin L v, w_join L]) (Provider.subscriptionRate message),
     forE (\<lambda>v. seqE [w_uint32 L 74, w_fork L, encode_Coin L v, w_join L]) (Provider.payAsYouGoRate message),
     whenE (Provider.bond message \<noteq> []) (seqE [w_uint32 L 82, w_string L (Provider.bond message)]),
     whenE (Provider.lastUpdate message \<noteq> Num 0) (seqE [w_uint32 L 88, w_int64 L (Provider.lastUpdate message)]),
     whenE (Provider.settlementDuration message \<noteq> Num 0) (seqE [w_uint32 L 96, w_int64 L (Provider.settlementDuration message)])]"

definition Provider_switch :: "('w, 'r) wire \<Rightarrow> u32 \<Rightarrow> Provider \<Rightarrow> (Provider, 'r) action" where
  "Provider_switch L tag message = js_switch (drop_bit 3 tag)
    [(1, when_tag tag 10 (readf (r_bytes L) (\<lambda>v. message\<lparr>Provider.pubKey := v\<rparr>))),
     (2, when_tag tag 16 (readf (num32 (r_int32 L)) (\<lambda>v. message\<lparr>Provider.service := v\<rparr>))),
     (3, when_tag tag 26 (readf (r_string L) (\<lambda>v. message\<lparr>Provider.metadataUri := v\<rparr>))),
     (4, when_tag tag 32 (readf (num64 (r_uint64 L)) (\<lambda>v. message\<lparr>Provider.metadataNonce := v\<rparr>))),
     (5, when_tag tag 40 (readf (num32 (r_int32 L)) (\<lambda>v. message\<lparr>Provider.status := v\<rparr>))),
     (6, when_tag tag 48 (readf (num64 (r_int64 L)) (\<lambda>v. message\<lparr>Provider.minContractDuration := v\<rparr>))),
     (7, when_tag tag 56 (readf (num64 (r_int64 L)) (\<lambda>v. message\<lparr>Provider.maxContractDuration := v\<rparr>))),
     (8, when_tag tag 66 (readf (submsg L (decode_Coin L)) (\<lambda>v. message\<lparr>Provider.subscriptionRate := Provider.subscriptionRate message @ [v]\<rparr>))),
     (9, when_tag tag 74 (readf (submsg L (decode_Coin L)) (\<lambda>v. message\<lparr>Provider.payAsYouGoRate := Provider.payAsYouGoRate message @ [v]\<rparr>))),
     (10, when_tag tag 82 (readf (r_string L) (\<lambda>v. message\<lparr>Provider.bond := v\<rparr>))),
     (11, when_tag tag 88 (readf (num64 (r_int64 L)) (\<lambda>v. message\<lparr>Provider.lastUpdate := v\<rparr>))),
     (12, when_tag tag 96 (readf (num64 (r_int64 L)) (\<lambda>v. message\<lparr>Provider.settlementDuration := v\<rparr>)))]
    break_out"

definition decode_Provider :: "('w, 'r) wire \<Rightarrow> 'r input \<Rightarrow> nat option \<Rightarrow> (Provider \<times> 'r) result" where
  "decode_Provider L = decode_msg L (Provider_switch L) createBase_Provider"

definition fromJSON_Provider :: "host \<Rightarrow> jsval \<Rightarrow> Provider result" where
  "fromJSON_Provider h object =
     bindE (fieldE object ''pubKey'' (bytesFromBase64 h) []) (\<lambda>v_pubKey.
     bindE (fieldE object ''service'' (numberE h) (Num 0)) (\<lambda>v_service.
     bindE (fieldE object ''metadataUri'' (stringE h) []) (\<lambda>v_metadataUri.
     bindE (fieldE object ''metadataNonce'' (numberE h) (Num 0)) (\<lambda>v_metadataNonce.
     bindE (fieldE object ''status'' (enumE providerStatusFromJSON) (Num 0)) (\<lambda>v_status.
     bindE (fieldE object ''minContractDuration'' (numberE h) (Num 0)) (\<lambda>v_minContractDuration.
     bindE (fieldE object ''maxContractDuration'' (numberE h) (Num 0)) (\<lambda>v_maxContractDuration.
     bindE (arrayE object ''subscriptionRate'' (fromJSON_Coin h)) (\<lambda>v_subscriptionRate.
     bindE (arrayE object ''payAsYouGoRate'' (fromJSON_Coin h)) (\<lambda>v_payAsYouGoRate.
     bindE (fieldE object ''bond'' (stringE h) []) (\<lambda>v_bond.
     bindE (fieldE object ''lastUpdate'' (numberE h) (Num 0)) (\<lambda>v_lastUpdate.
     bindE (fieldE object ''settlementDuration'' (numberE h) (Num 0)) (\<lambda>v_settlementDuration.
     Inr \<lparr>Provider.pubKey = v_pubKey, Provider.service = v_service, Provider.metadataUri = v_metadataUri, Provider.metadataNonce = v_metadataNonce, Provider.status = v_status, Provider.minContractDuration = v_minContractDuration, Provider.maxContractDuration = v_maxContractDuration, Provider.subscriptionRate = v_subscriptionRate, Provider.payAsYouGoRate = v_payAsYouGoRate, Provider.bond = v_bond, Provider.lastUpdate = v_lastUpdate, Provider.settlementDuration = v_settlementDuration\<rparr>))))))))))))"

definition toJSON_Provider :: "host \<Rightarrow> Provider \<Rightarrow> jsval result" where
  "toJSON_Provider h message = objE
    [jfieldE (length (Provider.pubKey message) \<noteq> 0) ''pubKey'' (base64E h (Provider.pubKey message)),
     jfieldE (Provider.service message \<noteq> Num 0) ''service'' (Inr (JNumber (Math_round (Provider.service message)))),
     jfieldE (Provider.metadataUri message \<noteq> []) ''metadataUri'' (Inr (JString (Provider.metadataUri message))),
     jfieldE (Provider.metadataNonce message \<noteq> Num 0) ''metadataNonce'' (Inr (JNumber (Math_round (Provider.metadataNonce message)))),
     jfieldE (Provider.status message \<noteq> Num 0) ''status'' (Inr (JString (providerStatusToJSON (Provider.status message)))),
     jfieldE (Provider.minContractDuration message \<noteq> Num 0) ''minContractDuration'' (Inr (JNumber (Math_round (Provider.minContractDuration message)))),
     jfieldE (Provider.maxContractDuration message \<noteq> Num 0) ''maxContractDuration'' (Inr (JNumber (Math_round (Provider.maxContractDuration message)))),
     jarrayE ''subscriptionRate'' (toJSON_Coin h) (Provider.subscriptionRate message),
     jarrayE ''payAsYouGoRate'' (toJSON_Coin h) (Provider.payAsYouGoRate message),
     jfieldE (Provider.bond message \<noteq> []) ''bond'' (Inr (JString (Provider.bond message))),
     jfieldE (Provider.lastUpdate message \<noteq> Num 0) ''lastUpdate'' (Inr (JNumber (Math_round (Provider.lastUpdate message)))),
     jfieldE (Provider.settlementDuration message \<noteq> Num 0) ''settlementDuration'' (Inr (JNumber (Math_round (Provider.settlementDuration message))))]"

record Provider_Partial =
  pubKey :: "bytes option"
  service :: "number option"
  metadataUri :: "jsstring option"
  metadataNonce :: "number option"
  status :: "ProviderStatus option"
  minContractDuration :: "number option"
  maxContractDuration :: "number option"
  subscriptionRate :: "Coin_Partial list option"
  payAsYouGoRate :: "Coin_Partial list option"
  bond :: "jsstring option"
  lastUpdate :: "number option"
  settlementDuration :: "number option"

definition Provider_empty :: Provider_Partial where
  "Provider_empty = \<lparr>Provider_Partial.pubKey = None, Provider_Partial.service = None, Provider_Partial.metadataUri = None, Provider_Partial.metadataNonce = None, Provider_Partial.status = None, Provider_Partial.minContractDuration = None, Provider_Partial.maxContractDuration = None, Provider_Partial.subscriptionRate = None, Provider_Partial.payAsYouGoRate = None, Provider_Partial.bond = None, Provider_Partial.lastUpdate = None, Provider_Partial.settlementDuration = None\<rparr>"

definition fromPartial_Provider :: "Provider_Partial \<Rightarrow> Provider" where
  "fromPartial_Provider object = createBase_Provider\<lparr>Provider.pubKey := nullish (Provider_Partial.pubKey object) [],
     Provider.service := nullish (Provider_Partial.service object) (Num 0),
     Provider.metadataUri := nullish (Provider_Partial.metadataUri object) [],
     Provider.metadataNonce := nullish (Provider_Partial.metadataNonce object) (Num 0),
     Provider.status := nullish (Provider_Partial.status object) (Num 0),
     Provider.minContractDuration := nullish (Provider_Partial.minContractDuration object) (Num 0),
     Provider.maxContractDuration := nullish (Provider_Partial.maxContractDuration object) (Num 0),
     Provider.subscriptionRate := partial_map fromPartial_Coin (Provider_Partial.subscriptionRate object),
     Provider.payAsYouGoRate := partial_map fromPartial_Coin (Provider_Partial.payAsYouGoRate object),
     Provider.bond := nullish (Provider_Partial.bond object) [],
     Provider.lastUpdate := nullish (Provider_Partial.lastUpdate object) (Num 0),
     Provider.settlementDuration := nullish (Provider_Partial.settlementDuration object) (Num 0)\<rparr>"

definition create_Provider :: "Provider_Partial option \<Rightarrow> Provider" where
  "create_Provider base = fromPartial_Provider (nullish base Provider_empty)"

text \<open>A partial message that sets every field.\<close>

definition partial_of_Provider :: "Provider \<Rightarrow> Provider_Partial" where
  "partial_of_Provider m =
     \<lparr>Provider_Partial.pubKey = Some (Provider.pubKey m),
      Provider_Partial.service = Some (Provider.service m),
      Provider_Partial.metadataUri = Some (Provider.metadataUri m),
      Provider_Partial.metadataNonce = Some (Provider.metadataNonce m),
      Provider_Partial.status = Some (Provider.status m),
      Provider_Partial.minContractDuration = Some (Provider.minContractDuration m),
      Provider_Partial.maxContractDuration = Some (Provider.maxContractDuration m),
      Provider_Partial.subscriptionRate = Some (map partial_of_Coin (Provider.subscriptionRate m)),
      Provider_Partial.payAsYouGoRate = Some (map partial_of_Coin (Provider.payAsYouGoRate m)),
      Provider_Partial.bond = Some (Provider.bond m),
      Provider_Partial.lastUpdate = Some (Provider.lastUpdate m),
      Provider_Partial.settlementDuration = Some (Provider.settlementDuration m)\<rparr>"

definition ok_Provider :: "Provider \<Rightarrow> bool" where
  "ok_Provider m \<longleftrightarrow> int32_num (Provider.service m)
     \<and> safe_uint (Provider.metadataNonce m)
     \<and> int32_num (Provider.status m)
     \<and> safe_int (Provider.minContractDuration m)
     \<and> safe_int (Provider.maxContractDuration m)
     \<and> list_all ok_Coin (Provider.subscriptionRate m)
     \<and> list_all ok_Coin (Provider.payAsYouGoRate m)
     \<and> safe_int (Provider.lastUpdate m)
     \<and> safe_int (Provider.settlementDuration m)"

definition wf_Provider :: "('w, 'r) wire \<Rightarrow> Provider \<Rightarrow> bool" where
  "wf_Provider L m \<longleftrightarrow> wire_bytes (Provider.pubKey m)
     \<and> int32_num (Provider.service m)
     \<and> wire_string (Provider.metadataUri m)
     \<and> safe_uint (Provider.metadataNonce m)
     \<and> int32_num (Provider.status m)
     \<and> safe_int (Provider.minContractDuration m)
     \<and> safe_int (Provider.maxContractDuration m)
     \<and> list_all (\<lambda>v. wf_Coin L v \<and> fits L (encode_Coin L v)) (Provider.subscriptionRate m)
     \<and> list_all (\<lambda>v. wf_Coin L v \<and> fits L (encode_Coin L v)) (Provider.payAsYouGoRate m)
     \<and> wire_string (Provider.bond m)
     \<and> safe_int (Provider.lastUpdate m)
     \<and> safe_int (Provider.settlementDuration m)"

definition wfj_Provider :: "Provider \<Rightarrow> bool" where
  "wfj_Provider m \<longleftrightarrow> whole (Provider.service m)
     \<and> whole (Provider.metadataNonce m)
     \<and> ProviderStatus_known (Provider.status m)
     \<and> whole (Provider.minContractDuration m)
     \<and> whole (Provider.maxContractDuration m)
     \<and> list_all wfj_Coin (Provider.subscriptionRate m)
     \<and> list_all wfj_Coin (Provider.payAsYouGoRate m)
     \<and> whole (Provider.lastUpdate m)
     \<and> whole (Provider.settlementDuration m)"

subsection \<open>Contract\<close>

record Contract =
  provider :: bytes
  service :: number
  client :: bytes
  delegate :: bytes
  type' :: ContractType
  height :: number
  duration :: number
  rate :: "Coin option"
  deposit :: jsstring
  paid :: jsstring
  nonce :: number
  settlementHeight :: number
  id' :: number
  settlementDuration :: number
  authorization :: ContractAuthorization
  queriesPerMinute :: number

definition createBase_Contract :: Contract where
  "createBase_Contract = \<lparr>Contract.provider = [],
     Contract.service = Num 0,
     Contract.client = [],
     Contract.delegate = [],
     Contract.type' = Num 0,
     Contract.height = Num 0,
     Contract.duration = Num 0,
     Contract.rate = None,
     Contract.deposit = [],
     Contract.paid = [],
     Contract.nonce = Num 0,
     Contract.settlementHeight = Num 0,
     Contract.id' = Num 0,
     Contract.settlementDuration = Num 0,
     Contract.authorization = Num 0,
     Contract.queriesPerMinute = Num 0\<rparr>"

definition encode_Contract :: "('w, 'r) wire \<Rightarrow> Contract \<Rightarrow> 'w \<Rightarrow> 'w result" where
  "encode_Contract L message = seqE
    [whenE (length (Contract.provider message) \<noteq> 0) (seqE [w_uint32 L 10, w_bytes L (Contract.provider message)]),
     whenE (Contract.service message \<noteq> Num 0) (seqE [w_uint32 L 16, w_int32 L (Contract.service message)]),
     whenE (length (Contract.client message) \<noteq> 0) (seqE [w_uint32 L 26, w_bytes L (Contract.client message)]),
     whenE (length (Contract.delegate message) \<noteq> 0) (seqE [w_uint32 L 34, w_bytes L (Contract.delegate message)]),
     whenE (Contract.type' message \<noteq> Num 0) (seqE [w_uint32 L 40, w_int32 L (Contract.type' message)]),
     whenE (Contract.height message \<noteq> Num 0) (seqE [w_uint32 L 48, w_int64 L (Contract.height message)]),
     whenE (Contract.duration message \<noteq> Num 0) (seqE [w_uint32 L 56, w_int64 L (Contract.duration message)]),
     someE (Contract.rate message) (\<lambda>v. seqE [w_uint32 L 66, w_fork L, encode_Coin L v, w_join L]),
     whenE (Contract.deposit message \<noteq> []) (seqE [w_uint32 L 74, w_string L (Contract.deposit message)]),
     whenE (Contract.paid message \<noteq> []) (seqE [w_uint32 L 82, w_string L (Contract.paid message)]),
     whenE (Contract.nonce message \<noteq> Num 0) (seqE [w_uint32 L 88, w_int64 L (Contract.nonce message)]),
     whenE (Contract.settlementHeight message \<noteq> Num 0) (seqE [w_uint32 L 96, w_int64 L (Contract.settlementHeight message)]),
     whenE (Contract.id' message \<noteq> Num 0) (seqE [w_uint32 L 104, w_uint64 L (Contract.id' message)]),
     whenE (Contract.settlementDuration message \<noteq> Num 0) (seqE [w_uint32 L 112, w_int64 L (Contract.settlementDuration message)]),
     whenE (Contract.authorization message \<noteq> Num 0) (seqE [w_uint32 L 120, w_int32 L (Contract.authorization message)]),
     whenE (Contract.queriesPerMinute message \<noteq> Num 0) (seqE [w_uint32 L 128, w_int64 L (Contract.queriesPerMinute message)])]"

definition Contract_switch :: "('w, 'r) wire \<Rightarrow> u32 \<Rightarrow> Contract \<Rightarrow> (Contract, 'r) action" where
  "Contract_switch L tag message = js_switch (drop_bit 3 tag)
    [(1, when_tag tag 10 (readf (r_bytes L) (\<lambda>v. message\<lparr>Contract.provider := v\<rparr>))),
     (2, when_tag tag 16 (readf (num32 (r_int32 L)) (\<lambda>v. message\<lparr>Contract.service := v\<rparr>))),
     (3, when_tag tag 26 (readf (r_bytes L) (\<lambda>v. message\<lparr>Contract.client := v\<rparr>))),
     (4, when_tag tag 34 (readf (r_bytes L) (\<lambda>v. message\<lparr>Contract.delegate := v\<rparr>))),
     (5, when_tag tag 40 (readf (num32 (r_int32 L)) (\<lambda>v. message\<lparr>Contract.type' := v\<rparr>))),
     (6, when_tag tag 48 (readf (num64 (r_int64 L)) (\<lambda>v. message\<lparr>Contract.height := v\<rparr>))),
     (7, when_tag tag 56 (readf (num64 (r_int64 L)) (\<lambda>v. message\<lparr>Contract.duration := v\<rparr>))),
     (8, when_tag tag 66 (readf (submsg L (decode_Coin L)) (\<lambda>v. message\<lparr>Contract.rate := Some v\<rparr>))),
     (9, when_tag tag 74 (readf (r_string L) (\<lambda>v. message\<lparr>Contract.deposit := v\<rparr>))),
     (10, when_tag tag 82 (readf (r_string L) (\<lambda>v. message\<lparr>Contract.paid := v\<rparr>))),
     (11, when_tag tag 88 (readf (num64 (r_int64 L)) (\<lambda>v. message\<lparr>Contract.nonce := v\<rparr>))),
     (12, when_tag tag 96 (readf (num64 (r_int64 L)) (\<lambda>v. message\<lparr>Contract.settlementHeight := v\<rparr>))),
     (13, when_tag tag 104 (readf (num64 (r_uint64 L)) (\<lambda>v. message\<lparr>Contract.id' := v\<rparr>))),
     (14, when_tag tag 112 (readf (num64 (r_int64 L)) (\<lambda>v. message\<lparr>Contract.settlementDuration := v\<rparr>))),
     (15, when_tag tag 120 (readf (num32 (r_int32 L)) (\<lambda>v. message\<lparr>Contract.authorization := v\<rparr>))),
     (16, when_tag tag 128 (readf (num64 (r_int64 L)) (\<lambda>v. message\<lparr>Contract.queriesPerMinute := v\<rparr>)))]
    break_out"

definition decode_Contract :: "('w, 'r) wire \<Rightarrow> 'r input \<Rightarrow> nat option \<Rightarrow> (Contract \<times> 'r) result" where
  "decode_Contract L = decode_msg L (Contract_switch L) createBase_Contract"

definition fromJSON_Contract :: "host \<Rightarrow> jsval \<Rightarrow> Contract result" where
  "fromJSON_Contract h object =
     bindE (fieldE object ''provider'' (bytesFromBase64 h) []) (\<lambda>v_provider.
     bindE (fieldE object ''service'' (numberE h) (Num 0)) (\<lambda>v_service.
     bindE (fieldE object ''client'' (bytesFromBase64 h) []) (\<lambda>v_client.
     bindE (fieldE object ''delegate'' (bytesFromBase64 h) []) (\<lambda>v_delegate.
     bindE (fieldE object ''type'' (enumE contractTypeFromJSON) (Num 0)) (\<lambda>v_type.
     bindE (fieldE object ''height'' (numberE h) (Num 0)) (\<lambda>v_height.
     bindE (fieldE object ''duration'' (numberE h) (Num 0)) (\<lambda>v_duration.
     bindE (optE object ''rate'' (fromJSON_Coin h)) (\<lambda>v_rate.
     bindE (fieldE object ''deposit'' (stringE h) []) (\<lambda>v_deposit.
     bindE (fieldE object ''paid'' (stringE h) []) (\<lambda>v_paid.
     bindE (fieldE object ''nonce'' (numberE h) (Num 0)) (\<lambda>v_nonce.
     bindE (fieldE object ''settlementHeight'' (numberE h) (Num 0)) (\<lambda>v_settlementHeight.
     bindE (fieldE object ''id'' (numberE h) (Num 0)) (\<lambda>v_id.
     bindE (fieldE object ''settlementDuration'' (numberE h) (Num 0)) (\<lambda>v_settlementDuration.
     bindE (fieldE object ''authorization'' (enumE contractAuthorizationFromJSON) (Num 0)) (\<lambda>v_authorization.
     bindE (fieldE object ''queriesPerMinute'' (numberE h) (Num 0)) (\<lambda>v_queriesPerMinute.
     Inr \<lparr>Contract.provider = v_provider, Contract.service = v_service, Contract.client = v_client, Contract.delegate = v_delegate, Contract.type' = v_type, Contract.height = v_height, Contract.duration = v_duration, Contract.rate = v_rate, Contract.deposit = v_deposit, Contract.paid = v_paid, Contract.nonce = v_nonce, Contract.settlementHeight = v_settlementHeight, Contract.id' = v_id, Contract.settlementDuration = v_settlementDuration, Contract.authorization = v_authorization, Contract.queriesPerMinute = v_queriesPerMinute\<rparr>))))))))))))))))"

definition toJSON_Contract :: "host \<Rightarrow> Contract \<Rightarrow> jsval result" where
  "toJSON_Contract h message = objE
    [jfieldE (length (Contract.provider message) \<noteq> 0) ''provider'' (base64E h (Contract.provider message)),
     jfieldE (Contract.service message \<noteq> Num 0) ''service'' (Inr (JNumber (Math_round (Contract.service message)))),
     jfieldE (length (Contract.client message) \<noteq> 0) ''client'' (base64E h (Contract.client message)),
     jfieldE (length (Contract.delegate message) \<noteq> 0) ''delegate'' (base64E h (Contract.delegate message)),
     jfieldE (Contract.type' message \<noteq> Num 0) ''type'' (Inr (JString (contractTypeToJSON (Contract.type' message)))),
     jfieldE (Contract.height message \<noteq> Num 0) ''height'' (Inr (JNumber (Math_round (Contract.height message)))),
     jfieldE (Contract.duration message \<noteq> Num 0) ''duration'' (Inr (JNumber (Math_round (Contract.duration message)))),
     joptE ''rate'' (toJSON_Coin h) (Contract.rate message),
     jfieldE (Contract.deposit message \<noteq> []) ''deposit'' (Inr (JString (Contract.deposit message))),
     jfieldE (Contract.paid message \<noteq> []) ''paid'' (Inr (JString (Contract.paid message))),
     jfieldE (Contract.nonce message \<noteq> Num 0) ''nonce'' (Inr (JNumber (Math_round (Contract.nonce message)))),
     jfieldE (Contract.settlementHeight message \<noteq> Num 0) ''settlementHeight'' (Inr (JNumber (Math_round (Contract.settlementHeight message)))),
     jfieldE (Contract.id' message \<noteq> Num 0) ''id'' (Inr (JNumber (Math_round (Contract.id' message)))),
     jfieldE (Contract.settlementDuration message \<noteq> Num 0) ''settlementDuration'' (Inr (JNumber (Math_round (Contract.settlementDuration message)))),
     jfieldE (Contract.authorization message \<noteq> Num 0) ''authorization'' (Inr (JString (contractAuthorizationToJSON (Contract.authorization message)))),
     jfieldE (Contract.queriesPerMinute message \<noteq> Num 0) ''queriesPerMinute'' (Inr (JNumber (Math_round (Contract.queriesPerMinute message))))]"

record Contract_Partial =
  provider :: "bytes option"
  service :: "number option"
  client :: "bytes option"
  delegate :: "bytes option"
  type' :: "ContractType option"
  height :: "number option"
  duration :: "number option"
  rate :: "Coin_Partial option"
  deposit :: "jsstring option"
  paid :: "jsstring option"
  nonce :: "number option"
  settlementHeight :: "number option"
  id' :: "number option"
  settlementDuration :: "number option"
  authorization :: "ContractAuthorization option"
  queriesPerMinute :: "number option"

definition Contract_empty :: Contract_Partial where
  "Contract_empty = \<lparr>Contract_Partial.provider = None, Contract_Partial.service = None, Contract_Partial.client = None, Contract_Partial.delegate = None, Contract_Partial.type' = None, Contract_Partial.height = None, Contract_Partial.duration = None, Contract_Partial.rate = None, Contract_Partial.deposit = None, Contract_Partial.paid = None, Contract_Partial.nonce = None, Contract_Partial.settlementHeight = None, Contract_Partial.id' = None, Contract_Partial.settlementDuration = None, Contract_Partial.authorization = None, Contract_Partial.queriesPerMinute = None\<rparr>"

definition fromPartial_Contract :: "Contract_Partial \<Rightarrow> Contract" where
  "fromPartial_Contract object = createBase_Contract\<lparr>Contract.provider := nullish (Contract_Partial.provider object) [],
     Contract.service := nullish (Contract_Partial.service object) (Num 0),
     Contract.client := nullish (Contract_Partial.client object) [],
     Contract.delegate := nullish (Contract_Partial.delegate object) [],
     Contract.type' := nullish (Contract_Partial.type' object) (Num 0),
     Contract.height := nullish (Contract_Partial.height object) (Num 0),
     Contract.duration := nullish (Contract_Partial.duration object) (Num 0),
     Contract.rate := map_option fromPartial_Coin (Contract_Partial.rate object),
     Contract.deposit := nullish (Contract_Partial.deposit object) [],
     Contract.paid := nullish (Contract_Partial.paid object) [],
     Contract.nonce := nullish (Contract_Partial.nonce object) (Num 0),
     Contract.settlementHeight := nullish (Contract_Partial.settlementHeight object) (Num 0),
     Contract.id' := nullish (Contract_Partial.id' object) (Num 0),
     Contract.settlementDuration := nullish (Contract_Partial.settlementDuration object) (Num 0),
     Contract.authorization := nullish (Contract_Partial.authorization object) (Num 0),
     Contract.queriesPerMinute := nullish (Contract_Partial.queriesPerMinute object) (Num 0)\<rparr>"

definition create_Contract :: "Contract_Partial option \<Rightarrow> Contract" where
  "create_Contract base = fromPartial_Contract (nullish base Contract_empty)"

text \<open>A partial message that sets every field.\<close>

definition partial_of_Contract :: "Contract \<Rightarrow> Contract_Partial" where
  "partial_of_Contract m =
     \<lparr>Contract_Partial.provider = Some (Contract.provider m),
      Contract_Partial.service = Some (Contract.service m),
      Contract_Partial.client = Some (Contract.client m),
      Contract_Partial.delegate = Some (Contract.delegate m),
      Contract_Partial.type' = Some (Contract.type' m),
      Contract_Partial.height = Some (Contract.height m),
      Contract_Partial.duration = Some (Contract.duration m),
      Contract_Partial.rate = map_option partial_of_Coin (Contract.rate m),
      Contract_Partial.deposit = Some (Contract.deposit m),
      Contract_Partial.paid = Some (Contract.paid m),
      Contract_Partial.nonce = Some (Contract.nonce m),
      Contract_Partial.settlementHeight = Some (Contract.settlementHeight m),
      Contract_Partial.id' = Some (Contract.id' m),
      Contract_Partial.settlementDuration = Some (Contract.settlementDuration m),
      Contract_Partial.authorization = Some (Contract.authorization m),
      Contract_Partial.queriesPerMinute = Some (Contract.queriesPerMinute m)\<rparr>"

definition ok_Contract :: "Contract \<Rightarrow> bool" where
  "ok_Contract m \<longleftrightarrow> int32_num (Contract.service m)
     \<and> int32_num (Contract.type' m)
     \<and> safe_int (Contract.height m)
     \<and> safe_int (Contract.duration m)
     \<and> pred_option ok_Coin (Contract.rate m)
     \<and> safe_int (Contract.nonce m)
     \<and> safe_int (Contract.settlementHeight m)
     \<and> safe_uint (Contract.id' m)
     \<and> safe_int (Contract.settlementDuration m)
     \<and> int32_num (Contract.authorization m)
     \<and> safe_int (Contract.queriesPerMinute m)"

definition wf_Contract :: "('w, 'r) wire \<Rightarrow> Contract \<Rightarrow> bool" where
  "wf_Contract L m \<longleftrightarrow> wire_bytes (Contract.provider m)
     \<and> int32_num (Contract.service m)
     \<and> wire_bytes (Contract.client m)
     \<and> wire_bytes (Contract.delegate m)
     \<and> int32_num (Contract.type' m)
     \<and> safe_int (Contract.height m)
     \<and> safe_int (Contract.duration m)
     \<and> pred_option (\<lambda>v. wf_Coin L v \<and> fits L (encode_Coin L v)) (Contract.rate m)
     \<and> wire_string (Contract.deposit m)
     \<and> wire_string (Contract.paid m)
     \<and> safe_int (Contract.nonce m)
     \<and> safe_int (Contract.settlementHeight m)
     \<and> safe_uint (Contract.id' m)
     \<and> safe_int (Contract.settlementDuration m)
     \<and> int32_num (Contract.authorization m)
     \<and> safe_int (Contract.queriesPerMinute m)"

definition wfj_Contract :: "Contract \<Rightarrow> bool" where
  "wfj_Contract m \<longleftrightarrow> whole (Contract.service m)
     \<and> ContractType_known (Contract.type' m)
     \<and> whole (Contract.height m)
     \<and> whole (Contract.duration m)
     \<and> pred_option wfj_Coin (Contract.rate m)
     \<and> whole (Contract.nonce m)
     \<and> whole (Contract.settlementHeight m)
     \<and> whole (Contract.id' m)
     \<and> whole (Contract.settlementDuration m)
     \<and> ContractAuthorization_known (Contract.authorization m)
     \<and> whole (Contract.queriesPerMinute m)"

subsection \<open>ContractSet\<close>

record ContractSet =
  contractIds :: "number list"

definition createBase_ContractSet :: ContractSet where
  "createBase_ContractSet = \<lparr>ContractSet.contractIds = []\<rparr>"

definition encode_ContractSet :: "('w, 'r) wire \<Rightarrow> ContractSet \<Rightarrow> 'w \<Rightarrow> 'w result" where
  "encode_ContractSet L message = seqE
    [seqE [w_uint32 L 10, w_fork L, forE (w_uint64 L) (ContractSet.contractIds message), w_join L]]"

definition ContractSet_switch :: "('w, 'r) wire \<Rightarrow> u32 \<Rightarrow> ContractSet \<Rightarrow> (ContractSet, 'r) action" where
  "ContractSet_switch L tag message = js_switch (drop_bit 3 tag)
    [(1, if tag = 8 then readf (num64 (r_uint64 L)) (\<lambda>v. message\<lparr>ContractSet.contractIds := ContractSet.contractIds message @ [v]\<rparr>)
          else if tag = 10 then readf (packed L (num64 (r_uint64 L))) (\<lambda>v. message\<lparr>ContractSet.contractIds := ContractSet.contractIds message @ v\<rparr>)
          else break_out)]
    break_out"

definition decode_ContractSet :: "('w, 'r) wire \<Rightarrow> 'r input \<Rightarrow> nat option \<Rightarrow> (ContractSet \<times> 'r) result" where
  "decode_ContractSet L = decode_msg L (ContractSet_switch L) createBase_ContractSet"

definition fromJSON_ContractSet :: "host \<Rightarrow> jsval \<Rightarrow> ContractSet result" where
  "fromJSON_ContractSet h object =
     bindE (arrayE object ''contractIds'' (numberE h)) (\<lambda>v_contractIds.
     Inr \<lparr>ContractSet.contractIds = v_contractIds\<rparr>)"

definition toJSON_ContractSet :: "host \<Rightarrow> ContractSet \<Rightarrow> jsval result" where
  "toJSON_ContractSet h message = objE
    [jarrayE ''contractIds'' (\<lambda>e. Inr (JNumber (Math_round e))) (ContractSet.contractIds message)]"

record ContractSet_Partial =
  contractIds :: "number list option"

definition ContractSet_empty :: ContractSet_Partial where
  "ContractSet_empty = \<lparr>ContractSet_Partial.contractIds = None\<rparr>"

definition fromPartial_ContractSet :: "ContractSet_Partial \<Rightarrow> ContractSet" where
  "fromPartial_ContractSet object = createBase_ContractSet\<lparr>ContractSet.contractIds := partial_map (\<lambda>e. e) (ContractSet_Partial.contractIds object)\<rparr>"

definition create_ContractSet :: "ContractSet_Partial option \<Rightarrow> ContractSet" where
  "create_ContractSet base = fromPartial_ContractSet (nullish base ContractSet_empty)"

text \<open>A partial message that sets every field.\<close>

definition partial_of_ContractSet :: "ContractSet \<Rightarrow> ContractSet_Partial" where
  "partial_of_ContractSet m =
     \<lparr>ContractSet_Partial.contractIds = Some (ContractSet.contractIds m)\<rparr>"

definition ok_ContractSet :: "ContractSet \<Rightarrow> bool" where
  "ok_ContractSet m \<longleftrightarrow> list_all safe_uint (ContractSet.contractIds m)"

definition wf_ContractSet :: "('w, 'r) wire \<Rightarrow> ContractSet \<Rightarrow> bool" where
  "wf_ContractSet L m \<longleftrightarrow> (list_all safe_uint (ContractSet.contractIds m) \<and> fits L (forE (w_uint64 L) (ContractSet.contractIds m)))"

definition wfj_ContractSet :: "ContractSet \<Rightarrow> bool" where
  "wfj_ContractSet m \<longleftrightarrow> list_all whole (ContractSet.contractIds m)"

subsection \<open>ContractExpirationSet\<close>

record ContractExpirationSet =
  height :: number
  contractSet :: "ContractSet option"

definition createBase_ContractExpirationSet :: ContractExpirationSet where
  "createBase_ContractExpirationSet = \<lparr>ContractExpirationSet.height = Num 0,
     ContractExpirationSet.contractSet = None\<rparr>"

definition encode_ContractExpirationSet :: "('w, 'r) wire \<Rightarrow> ContractExpirationSet \<Rightarrow> 'w \<Rightarrow> 'w result" where
  "encode_ContractExpirationSet L message = seqE
    [whenE (ContractExpirationSet.height message \<noteq> Num 0) (seqE [w_uint32 L 8, w_int64 L (ContractExpirationSet.height message)]),
     someE (ContractExpirationSet.contractSet message) (\<lambda>v. seqE [w_uint32 L 18, w_fork L, encode_ContractSet L v, w_join L])]"

definition ContractExpirationSet_switch :: "('w, 'r) wire \<Rightarrow> u32 \<Rightarrow> ContractExpirationSet \<Rightarrow> (ContractExpirationSet, 'r) action" where
  "ContractExpirationSet_switch L tag message = js_switch (drop_bit 3 tag)
    [(1, when_tag tag 8 (readf (num64 (r_int64 L)) (\<lambda>v. message\<lparr>ContractExpirationSet.height := v\<rparr>))),
     (2, when_tag tag 18 (readf (submsg L (decode_ContractSet L)) (\<lambda>v. message\<lparr>ContractExpirationSet.contractSet := Some v\<rparr>)))]
    break_out"

definition decode_ContractExpirationSet :: "('w, 'r) wire \<Rightarrow> 'r input \<Rightarrow> nat option \<Rightarrow> (ContractExpirationSet \<times> 'r) result" where
  "decode_ContractExpirationSet L = decode_msg L (ContractExpirationSet_switch L) createBase_ContractExpirationSet"

definition fromJSON_ContractExpirationSet :: "host \<Rightarrow> jsval \<Rightarrow> ContractExpirationSet result" where
  "fromJSON_ContractExpirationSet h object =
     bindE (fieldE object ''height'' (numberE h) (Num 0)) (\<lambda>v_height.
     bindE (optE object ''contractSet'' (fromJSON_ContractSet h)) (\<lambda>v_contractSet.
     Inr \<lparr>ContractExpirationSet.height = v_height, ContractExpirationSet.contractSet = v_contractSet\<rparr>))"

definition toJSON_ContractExpirationSet :: "host \<Rightarrow> ContractExpirationSet \<Rightarrow> jsval result" where
  "toJSON_ContractExpirationSet h message = objE
    [jfieldE (ContractExpirationSet.height message \<noteq> Num 0) ''height'' (Inr (JNumber (Math_round (ContractExpirationSet.height message)))),
     joptE ''contractSet'' (toJSON_ContractSet h) (ContractExpirationSet.contractSet message)]"

record ContractExpirationSet_Partial =
  height :: "number option"
  contractSet :: "ContractSet_Partial option"

definition ContractExpirationSet_empty :: ContractExpirationSet_Partial where
  "ContractExpirationSet_empty = \<lparr>ContractExpirationSet_Partial.height = None, ContractExpirationSet_Partial.contractSet = None\<rparr>"

definition fromPartial_ContractExpirationSet :: "ContractExpirationSet_Partial \<Rightarrow> ContractExpirationSet" where
  "fromPartial_ContractExpirationSet object = createBase_ContractExpirationSet\<lparr>ContractExpirationSet.height := nullish (ContractExpirationSet_Partial.height object) (Num 0),
     ContractExpirationSet.contractSet := map_option fromPartial_ContractSet (ContractExpirationSet_Partial.contractSet object)\<rparr>"

definition create_ContractExpirationSet :: "ContractExpirationSet_Partial option \<Rightarrow> ContractExpirationSet" where
  "create_ContractExpirationSet base = fromPartial_ContractExpirationSet (nullish base ContractExpirationSet_empty)"

text \<open>A partial message that sets every field.\<close>

definition partial_of_ContractExpirationSet :: "ContractExpirationSet \<Rightarrow> ContractExpirationSet_Partial" where
  "partial_of_ContractExpirationSet m =
     \<lparr>ContractExpirationSet_Partial.height = Some (ContractExpirationSet.height m),
      ContractExpirationSet_Partial.contractSet = map_option partial_of_ContractSet (ContractExpirationSet.contractSet m)\<rparr>"

definition ok_ContractExpirationSet :: "ContractExpirationSet \<Rightarrow> bool" where
  "ok_ContractExpirationSet m \<longleftrightarrow> safe_int (ContractExpirationSet.height m)
     \<and> pred_option ok_ContractSet (ContractExpirationSet.contractSet m)"

definition wf_ContractExpirationSet :: "('w, 'r) wire \<Rightarrow> ContractExpirationSet \<Rightarrow> bool" where
  "wf_ContractExpirationSet L m \<longleftrightarrow> safe_int (ContractExpirationSet.height m)
     \<and> pred_option (\<lambda>v. wf_ContractSet L v \<and> fits L (encode_ContractSet L v)) (ContractExpirationSet.contractSet m)"

definition wfj_ContractExpirationSet :: "ContractExpirationSet \<Rightarrow> bool" where
  "wfj_ContractExpirationSet m \<longleftrightarrow> whole (ContractExpirationSet.height m)
     \<and> pred_option wfj_ContractSet (ContractExpirationSet.contractSet m)"

subsection \<open>UserContractSet\<close>

record UserContractSet =
  user :: bytes
  contractSet :: "ContractSet option"

definition createBase_UserContractSet :: UserContractSet where
  "createBase_UserContractSet = \<lparr>UserContractSet.user = [],
     UserContractSet.contractSet = None\<rparr>"

definition encode_UserContractSet :: "('w, 'r) wire \<Rightarrow> UserContractSet \<Rightarrow> 'w \<Rightarrow> 'w result" where
  "encode_UserContractSet L message = seqE
    [whenE (length (UserContractSet.user message) \<noteq> 0) (seqE [w_uint32 L 10, w_bytes L (UserContractSet.user message)]),
     someE (UserContractSet.contractSet message) (\<lambda>v. seqE [w_uint32 L 18, w_fork L, encode_ContractSet L v, w_join L])]"

definition UserContractSet_switch :: "('w, 'r) wire \<Rightarrow> u32 \<Rightarrow> UserContractSet \<Rightarrow> (UserContractSet, 'r) action" where
  "UserContractSet_switch L tag message = js_switch (drop_bit 3 tag)
    [(1, when_tag tag 10 (readf (r_bytes L) (\<lambda>v. message\<lparr>UserContractSet.user := v\<rparr>))),
     (2, when_tag tag 18 (readf (submsg L (decode_ContractSet L)) (\<lambda>v. message\<lparr>UserContractSet.contractSet := Some v\<rparr>)))]
    break_out"

definition decode_UserContractSet :: "('w, 'r) wire \<Rightarrow> 'r input \<Rightarrow> nat option \<Rightarrow> (UserContractSet \<times> 'r) result" where
  "decode_UserContractSet L = decode_msg L (UserContractSet_switch L) createBase_UserContractSet"

definition fromJSON_UserContractSet :: "host \<Rightarrow> jsval \<Rightarrow> UserContractSet result" where
  "fromJSON_UserContractSet h object =
     bindE (fieldE object ''user'' (bytesFromBase64 h) []) (\<lambda>v_user.
     bindE (optE object ''contractSet'' (fromJSON_ContractSet h)) (\<lambda>v_contractSet.
     Inr \<lparr>UserContractSet.user = v_user, UserContractSet.contractSet = v_contractSet\<rparr>))"

definition toJSON_UserContractSet :: "host \<Rightarrow> UserContractSet \<Rightarrow> jsval result" where
  "toJSON_UserContractSet h message = objE
    [jfieldE (length (UserContractSet.user message) \<noteq> 0) ''user'' (base64E h (UserContractSet.user message)),
     joptE ''contractSet'' (toJSON_ContractSet h) (UserContractSet.contractSet message)]"

record UserContractSet_Partial =
  user :: "bytes option"
  contractSet :: "ContractSet_Partial option"

definition UserContractSet_empty :: UserContractSet_Partial where
  "UserContractSet_empty = \<lparr>UserContractSet_Partial.user = None, UserContractSet_Partial.contractSet = None\<rparr>"

definition fromPartial_UserContractSet :: "UserContractSet_Partial \<Rightarrow> UserContractSet" where
  "fromPartial_UserContractSet object = createBase_UserContractSet\<lparr>UserContractSet.user := nullish (UserContractSet_Partial.user object) [],
     UserContractSet.contractSet := map_option fromPartial_ContractSet (UserContractSet_Partial.contractSet object)\<rparr>"

definition create_UserContractSet :: "UserContractSet_Partial option \<Rightarrow> UserContractSet" where
  "create_UserContractSet base = fromPartial_UserContractSet (nullish base UserContractSet_empty)"

text \<open>A partial message that sets every field.\<close>

definition partial_of_UserContractSet :: "UserContractSet \<Rightarrow> UserContractSet_Partial" where
  "partial_of_UserContractSet m =
     \<lparr>UserContractSet_Partial.user = Some (UserContractSet.user m),
      UserContractSet_Partial.contractSet = map_option partial_of_ContractSet (UserContractSet.contractSet m)\<rparr>"

definition ok_UserContractSet :: "UserContractSet \<Rightarrow> bool" where
  "ok_UserContractSet m \<longleftrightarrow> pred_option ok_ContractSet (UserContractSet.contractSet m)"

definition wf_UserContractSet :: "('w, 'r) wire \<Rightarrow> UserContractSet \<Rightarrow> bool" where
  "wf_UserContractSet L m \<longleftrightarrow> wire_bytes (UserContractSet.user m)
     \<and> pred_option (\<lambda>v. wf_ContractSet L v \<and> fits L (encode_ContractSet L v)) (UserContractSet.contractSet m)"

definition wfj_UserContractSet :: "UserContractSet \<Rightarrow> bool" where
  "wfj_UserContractSet m \<longleftrightarrow> pred_option wfj_ContractSet (UserContractSet.contractSet m)"

subsection \<open>Service\<close>

record Service =
  id' :: number
  name :: jsstring
  description :: jsstring
  serviceType :: jsstring

definition createBase_Service :: Service where
  "createBase_Service = \<lparr>Service.id' = Num 0,
     Service.name = [],
     Service.description = [],
     Service.serviceType = []\<rparr>"

definition encode_Service :: "('w, 'r) wire \<Rightarrow> Service \<Rightarrow> 'w \<Rightarrow> 'w result" where
  "encode_Service L message = seqE
    [whenE (Service.id' message \<noteq> Num 0) (seqE [w_uint32 L 8, w_uint64 L (Service.id' message)]),
     whenE (Service.name message \<noteq> []) (seqE [w_uint32 L 18, w_string L (Service.name message)]),
     whenE (Service.description message \<noteq> []) (seqE [w_uint32 L 26, w_string L (Service.description message)]),
     whenE (Service.serviceType message \<noteq> []) (seqE [w_uint32 L 34, w_string L (Service.serviceType message)])]"

definition Service_switch :: "('w, 'r) wire \<Rightarrow> u32 \<Rightarrow> Service \<Rightarrow> (Service, 'r) action" where
  "Service_switch L tag message = js_switch (drop_bit 3 tag)
    [(1, when_tag tag 8 (readf (num64 (r_uint64 L)) (\<lambda>v. message\<lparr>Service.id' := v\<rparr>))),
     (2, when_tag tag 18 (readf (r_string L) (\<lambda>v. message\<lparr>Service.name := v\<rparr>))),
     (3, when_tag tag 26 (readf (r_string L) (\<lambda>v. message\<lparr>Service.description := v\<rparr>))),
     (4, when_tag tag 34 (readf (r_string L) (\<lambda>v. message\<lparr>Service.serviceType := v\<rparr>)))]
    break_out"

definition decode_Service :: "('w, 'r) wire \<Rightarrow> 'r input \<Rightarrow> nat option \<Rightarrow> (Service \<times> 'r) result" where
  "decode_Service L = decode_msg L (Service_switch L) createBase_Service"

definition fromJSON_Service :: "host \<Rightarrow> jsval \<Rightarrow> Service result" where
  "fromJSON_Service h object =
     bindE (fieldE object ''id'' (numberE h) (Num 0)) (\<lambda>v_id.
     bindE (fieldE object ''name'' (stringE h) []) (\<lambda>v_name.
     bindE (fieldE object ''description'' (stringE h) []) (\<lambda>v_description.
     bindE (fieldE object ''serviceType'' (stringE h) []) (\<lambda>v_serviceType.
     Inr \<lparr>Service.id' = v_id, Service.name = v_name, Service.description = v_description, Service.serviceType = v_serviceType\<rparr>))))"

definition toJSON_Service :: "host \<Rightarrow> Service \<Rightarrow> jsval result" where
  "toJSON_Service h message = objE
    [jfieldE (Service.id' message \<noteq> Num 0) ''id'' (Inr (JNumber (Math_round (Service.id' message)))),
     jfieldE (Service.name message \<noteq> []) ''name'' (Inr (JString (Service.name message))),
     jfieldE (Service.description message \<noteq> []) ''description'' (Inr (JString (Service.description message))),
     jfieldE (Service.serviceType message \<noteq> []) ''serviceType'' (Inr (JString (Service.serviceType message)))]"

record Service_Partial =
  id' :: "number option"
  name :: "jsstring option"
  description :: "jsstring option"
  serviceType :: "jsstring option"

definition Service_empty :: Service_Partial where
  "Service_empty = \<lparr>Service_Partial.id' = None, Service_Partial.name = None, Service_Partial.description = None, Service_Partial.serviceType = None\<rparr>"

definition fromPartial_Service :: "Service_Partial \<Rightarrow> Service" where
  "fromPartial_Service object = createBase_Service\<lparr>Service.id' := nullish (Service_Partial.id' object) (Num 0),
     Service.name := nullish (Service_Partial.name object) [],
     Service.description := nullish (Service_Partial.description object) [],
     Service.serviceType := nullish (Service_Partial.serviceType object) []\<rparr>"

definition create_Service :: "Service_Partial option \<Rightarrow> Service" where
  "create_Service base = fromPartial_Service (nullish base Service_empty)"

text \<open>A partial message that sets every field.\<close>

definition partial_of_Service :: "Service \<Rightarrow> Service_Partial" where
  "partial_of_Service m =
     \<lparr>Service_Partial.id' = Some (Service.id' m),
      Service_Partial.name = Some (Service.name m),
      Service_Partial.description = Some (Service.description m),
      Service_Partial.serviceType = Some (Service.serviceType m)\<rparr>"

definition ok_Service :: "Service \<Rightarrow> bool" where
  "ok_Service m \<longleftrightarrow> safe_uint (Service.id' m)"

definition wf_Service :: "('w, 'r) wire \<Rightarrow> Service \<Rightarrow> bool" where
  "wf_Service L m \<longleftrightarrow> safe_uint (Service.id' m)
     \<and> wire_string (Service.name m)
     \<and> wire_string (Service.description m)
     \<and> wire_string (Service.serviceType m)"

definition wfj_Service :: "Service \<Rightarrow> bool" where
  "wfj_Service m \<longleftrightarrow> whole (Service.id' m)"


section \<open>Encoding, decoding and JSON of these messages\<close>

lemmas ProviderStatus_defs = ProviderStatus_OFFLINE_def ProviderStatus_ONLINE_def ProviderStatus_UNRECOGNIZED_def

lemma ProviderStatus_json [json_rules]:
  "ProviderStatus_known n \<Longrightarrow> enumE providerStatusFromJSON (JString (providerStatusToJSON n)) = Inr n"
  by (auto simp: ProviderStatus_known_def enumE_def providerStatusFromJSON_def providerStatusToJSON_def ProviderStatus_defs)

lemmas ContractType_defs = ContractType_SUBSCRIPTION_def ContractType_PAY_AS_YOU_GO_def ContractType_UNRECOGNIZED_def

lemma ContractType_json [json_rules]:
  "ContractType_known n \<Longrightarrow> enumE contractTypeFromJSON (JString (contractTypeToJSON n)) = Inr n"
  by (auto simp: ContractType_known_def enumE_def contractTypeFromJSON_def contractTypeToJSON_def ContractType_defs)

lemmas ContractAuthorization_defs = ContractAuthorization_STRICT_def ContractAuthorization_OPEN_def ContractAuthorization_UNRECOGNIZED_def

lemma ContractAuthorization_json [json_rules]:
  "ContractAuthorization_known n \<Longrightarrow> enumE contractAuthorizationFromJSON (JString (contractAuthorizationToJSON n)) = Inr n"
  by (auto simp: ContractAuthorization_known_def enumE_def contractAuthorizationFromJSON_def contractAuthorizationToJSON_def ContractAuthorization_defs)

lemma Provider_tags:
  "Provider_switch L 10 m = readf (r_bytes L) (\<lambda>v. m\<lparr>Provider.pubKey := v\<rparr>)"
  "Provider_switch L 16 m = readf (num32 (r_int32 L)) (\<lambda>v. m\<lparr>Provider.service := v\<rparr>)"
  "Provider_switch L 26 m = readf (r_string L) (\<lambda>v. m\<lparr>Provider.metadataUri := v\<rparr>)"
  "Provider_switch L 32 m = readf (num64 (r_uint64 L)) (\<lambda>v. m\<lparr>Provider.metadataNonce := v\<rparr>)"
  "Provider_switch L 40 m = readf (num32 (r_int32 L)) (\<lambda>v. m\<lparr>Provider.status := v\<rparr>)"
  "Provider_switch L 48 m = readf (num64 (r_int64 L)) (\<lambda>v. m\<lparr>Provider.minContractDuration := v\<rparr>)"
  "Provider_switch L 56 m = readf (num64 (r_int64 L)) (\<lambda>v. m\<lparr>Provider.maxContractDuration := v\<rparr>)"
  "Provider_switch L 66 m = readf (submsg L (decode_Coin L)) (\<lambda>v. m\<lparr>Provider.subscriptionRate := Provider.subscriptionRate m @ [v]\<rparr>)"
  "Provider_switch L 74 m = readf (submsg L (decode_Coin L)) (\<lambda>v. m\<lparr>Provider.payAsYouGoRate := Provider.payAsYouGoRate m @ [v]\<rparr>)"
  "Provider_switch L 82 m = readf (r_string L) (\<lambda>v. m\<lparr>Provider.bond := v\<rparr>)"
  "Provider_switch L 88 m = readf (num64 (r_int64 L)) (\<lambda>v. m\<lparr>Provider.lastUpdate := v\<rparr>)"
  "Provider_switch L 96 m = readf (num64 (r_int64 L)) (\<lambda>v. m\<lparr>Provider.settlementDuration := v\<rparr>)"
  by (simp_all add: Provider_switch_def when_tag_def)

lemma fromPartial_partial_of_Provider [simp]: "fromPartial_Provider (partial_of_Provider m) = m"
  by (simp add: fromPartial_Provider_def partial_of_Provider_def createBase_Provider_def partial_map_def option.map_comp o_def option.map_ident)

lemma create_Provider_None [simp]: "create_Provider None = createBase_Provider"
  by (simp add: create_Provider_def fromPartial_Provider_def Provider_empty_def createBase_Provider_def partial_map_def)

sublocale wire_laws \<subseteq> Provider_codec: message_codec L F out inp "encode_Provider L" "Provider_switch L" createBase_Provider "wf_Provider L"
proof unfold_locales
  show good: "good_sw (Provider_switch L)"
    unfolding Provider_switch_def by (intro good_swI fwd_rules)
  fix m assume "wf_Provider L m"
  then show "codes (Provider_switch L) (encode_Provider L m) createBase_Provider m"
    unfolding encode_Provider_def wf_Provider_def
    by (elim conjE)
      (rule codes_Cons codes_Nil [OF Provider.equality] codec_rules
        codes_when [where tag = 10 and u = Provider.pubKey_update and op = "r_bytes L", OF good]
        codes_when [where tag = 16 and u = Provider.service_update and op = "num32 (r_int32 L)", OF good]
        codes_when [where tag = 26 and u = Provider.metadataUri_update and op = "r_string L", OF good]
        codes_when [where tag = 32 and u = Provider.metadataNonce_update and op = "num64 (r_uint64 L)", OF good]
        codes_when [where tag = 40 and u = Provider.status_update and op = "num32 (r_int32 L)", OF good]
        codes_when [where tag = 48 and u = Provider.minContractDuration_update and op = "num64 (r_int64 L)", OF good]
        codes_when [where tag = 56 and u = Provider.maxContractDuration_update and op = "num64 (r_int64 L)", OF good]
        codes_for [where tag = 66 and u = Provider.subscriptionRate_update and op = "submsg L (decode_Coin L)", OF good]
        codes_for [where tag = 74 and u = Provider.payAsYouGoRate_update and op = "submsg L (decode_Coin L)", OF good]
        codes_when [where tag = 82 and u = Provider.bond_update and op = "r_string L", OF good]
        codes_when [where tag = 88 and u = Provider.lastUpdate_update and op = "num64 (r_int64 L)", OF good]
        codes_when [where tag = 96 and u = Provider.settlementDuration_update and op = "num64 (r_int64 L)", OF good]
      | assumption | (simp add: Provider_tags createBase_Provider_def; fail))+
qed

sublocale wire_laws \<subseteq> Provider_range: message_range L F out inp "Provider_switch L" createBase_Provider ok_Provider
proof unfold_locales
  show "ok_Provider createBase_Provider" by (simp add: ok_Provider_def createBase_Provider_def)
  fix m tag assume "ok_Provider m"
  then show "keeps ok_Provider (Provider_switch L tag m)"
    unfolding Provider_switch_def by - (rule range_rules | (simp add: ok_Provider_def; fail))+
qed

context wire_laws
begin

lemmas Provider_carries [codec_rules] =
  Provider_codec.opt_carries [folded decode_Provider_def] Provider_codec.list_carries [folded decode_Provider_def]

lemmas Provider_good [fwd_rules] = Provider_codec.op_good [folded decode_Provider_def]

lemmas Provider_yields [range_rules] = Provider_range.sub_range [folded decode_Provider_def]

lemmas Provider_roundtrip = Provider_codec.roundtrip [folded decode_Provider_def]

lemmas Provider_returns = Provider_codec.decode_returns [folded decode_Provider_def]

lemmas Provider_decoded = Provider_range.decode_range [folded decode_Provider_def]

end

interpretation Provider_json: message_json toJSON_Provider fromJSON_Provider wfj_Provider
proof unfold_locales
  fix h m
  assume "wfj_Provider m"
  then show "json_rt (toJSON_Provider h) (fromJSON_Provider h) m"
    unfolding toJSON_Provider_def fromJSON_Provider_def wfj_Provider_def
    by (elim conjE) (rule json_rtI json_rules | assumption | (simp; fail))+
qed

lemmas Provider_json_rules [json_rules] = Provider_json.json_field_rules

lemma Contract_tags:
  "Contract_switch L 10 m = readf (r_bytes L) (\<lambda>v. m\<lparr>Contract.provider := v\<rparr>)"
  "Contract_switch L 16 m = readf (num32 (r_int32 L)) (\<lambda>v. m\<lparr>Contract.service := v\<rparr>)"
  "Contract_switch L 26 m = readf (r_bytes L) (\<lambda>v. m\<lparr>Contract.client := v\<rparr>)"
  "Contract_switch L 34 m = readf (r_bytes L) (\<lambda>v. m\<lparr>Contract.delegate := v\<rparr>)"
  "Contract_switch L 40 m = readf (num32 (r_int32 L)) (\<lambda>v. m\<lparr>Contract.type' := v\<rparr>)"
  "Contract_switch L 48 m = readf (num64 (r_int64 L)) (\<lambda>v. m\<lparr>Contract.height := v\<rparr>)"
  "Contract_switch L 56 m = readf (num64 (r_int64 L)) (\<lambda>v. m\<lparr>Contract.duration := v\<rparr>)"
  "Contract_switch L 66 m = readf (submsg L (decode_Coin L)) (\<lambda>v. m\<lparr>Contract.rate := Some v\<rparr>)"
  "Contract_switch L 74 m = readf (r_string L) (\<lambda>v. m\<lparr>Contract.deposit := v\<rparr>)"
  "Contract_switch L 82 m = readf (r_string L) (\<lambda>v. m\<lparr>Contract.paid := v\<rparr>)"
  "Contract_switch L 88 m = readf (num64 (r_int64 L)) (\<lambda>v. m\<lparr>Contract.nonce := v\<rparr>)"
  "Contract_switch L 96 m = readf (num64 (r_int64 L)) (\<lambda>v. m\<lparr>Contract.settlementHeight := v\<rparr>)"
  "Contract_switch L 104 m = readf (num64 (r_uint64 L)) (\<lambda>v. m\<lparr>Contract.id' := v\<rparr>)"
  "Contract_switch L 112 m = readf (num64 (r_int64 L)) (\<lambda>v. m\<lparr>Contract.settlementDuration := v\<rparr>)"
  "Contract_switch L 120 m = readf (num32 (r_int32 L)) (\<lambda>v. m\<lparr>Contract.authorization := v\<rparr>)"
  "Contract_switch L 128 m = readf (num64 (r_int64 L)) (\<lambda>v. m\<lparr>Contract.queriesPerMinute := v\<rparr>)"
  by (simp_all add: Contract_switch_def when_tag_def)

lemma fromPartial_partial_of_Contract [simp]: "fromPartial_Contract (partial_of_Contract m) = m"
  by (simp add: fromPartial_Contract_def partial_of_Contract_def createBase_Contract_def partial_map_def option.map_comp o_def option.map_ident)

lemma create_Contract_None [simp]: "create_Contract None = createBase_Contract"
  by (simp add: create_Contract_def fromPartial_Contract_def Contract_empty_def createBase_Contract_def partial_map_def)

sublocale wire_laws \<subseteq> Contract_codec: message_codec L F out inp "encode_Contract L" "Contract_switch L" createBase_Contract "wf_Contract L"
proof unfold_locales
  show good: "good_sw (Contract_switch L)"
    unfolding Contract_switch_def by (intro good_swI fwd_rules)
  fix m assume "wf_Contract L m"
  then show "codes (Contract_switch L) (encode_Contract L m) createBase_Contract m"
    unfolding encode_Contract_def wf_Contract_def
    by (elim conjE)
      (rule codes_Cons codes_Nil [OF Contract.equality] codec_rules
        codes_when [where tag = 10 and u = Contract.provider_update and op = "r_bytes L", OF good]
        codes_when [where tag = 16 and u = Contract.service_update and op = "num32 (r_int32 L)", OF good]
        codes_when [where tag = 26 and u = Contract.client_update and op = "r_bytes L", OF good]
        codes_when [where tag = 34 and u = Contract.delegate_update and op = "r_bytes L", OF good]
        codes_when [where tag = 40 and u = Contract.type'_update and op = "num32 (r_int32 L)", OF good]
        codes_when [where tag = 48 and u = Contract.height_update and op = "num64 (r_int64 L)", OF good]
        codes_when [where tag = 56 and u = Contract.duration_update and op = "num64 (r_int64 L)", OF good]
        codes_some [where tag = 66 and u = Contract.rate_update and op = "submsg L (decode_Coin L)", OF good]
        codes_when [where tag = 74 and u = Contract.deposit_update and op = "r_string L", OF good]
        codes_when [where tag = 82 and u = Contract.paid_update and op = "r_string L", OF good]
        codes_when [where tag = 88 and u = Contract.nonce_update and op = "num64 (r_int64 L)", OF good]
        codes_when [where tag = 96 and u = Contract.settlementHeight_update and op = "num64 (r_int64 L)", OF good]
        codes_when [where tag = 104 and u = Contract.id'_update and op = "num64 (r_uint64 L)", OF good]
        codes_when [where tag = 112 and u = Contract.settlementDuration_update and op = "num64 (r_int64 L)", OF good]
        codes_when [where tag = 120 and u = Contract.authorization_update and op = "num32 (r_int32 L)", OF good]
        codes_when [where tag = 128 and u = Contract.queriesPerMinute_update and op = "num64 (r_int64 L)", OF good]
      | assumption | (simp add: Contract_tags createBase_Contract_def; fail))+
qed

sublocale wire_laws \<subseteq> Contract_range: message_range L F out inp "Contract_switch L" createBase_Contract ok_Contract
proof unfold_locales
  show "ok_Contract createBase_Contract" by (simp add: ok_Contract_def createBase_Contract_def)
  fix m tag assume "ok_Contract m"
  then show "keeps ok_Contract (Contract_switch L tag m)"
    unfolding Contract_switch_def by - (rule range_rules | (simp add: ok_Contract_def; fail))+
qed

context wire_laws
begin

lemmas Contract_carries [codec_rules] =
  Contract_codec.opt_carries [folded decode_Contract_def] Contract_codec.list_carries [folded decode_Contract_def]

lemmas Contract_good [fwd_rules] = Contract_codec.op_good [folded decode_Contract_def]

lemmas Contract_yields [range_rules] = Contract_range.sub_range [folded decode_Contract_def]

lemmas Contract_roundtrip = Contract_codec.roundtrip [folded decode_Contract_def]

lemmas Contract_returns = Contract_codec.decode_returns [folded decode_Contract_def]

lemmas Contract_decoded = Contract_range.decode_range [folded decode_Contract_def]

end

interpretation Contract_json: message_json toJSON_Contract fromJSON_Contract wfj_Contract
proof unfold_locales
  fix h m
  assume "wfj_Contract m"
  then show "json_rt (toJSON_Contract h) (fromJSON_Contract h) m"
    unfolding toJSON_Contract_def fromJSON_Contract_def wfj_Contract_def
    by (elim conjE) (rule json_rtI json_rules | assumption | (simp; fail))+
qed

lemmas Contract_json_rules [json_rules] = Contract_json.json_field_rules

lemma ContractSet_tags:
  "ContractSet_switch L 10 m = readf (packed L (num64 (r_uint64 L))) (\<lambda>v. m\<lparr>ContractSet.contractIds := ContractSet.contractIds m @ v\<rparr>)"
  by (simp_all add: ContractSet_switch_def when_tag_def)

lemma fromPartial_partial_of_ContractSet [simp]: "fromPartial_ContractSet (partial_of_ContractSet m) = m"
  by (simp add: fromPartial_ContractSet_def partial_of_ContractSet_def createBase_ContractSet_def partial_map_def option.map_comp o_def option.map_ident)

lemma create_ContractSet_None [simp]: "create_ContractSet None = createBase_ContractSet"
  by (simp add: create_ContractSet_def fromPartial_ContractSet_def ContractSet_empty_def createBase_ContractSet_def partial_map_def)

sublocale wire_laws \<subseteq> ContractSet_codec: message_codec L F out inp "encode_ContractSet L" "ContractSet_switch L" createBase_ContractSet "wf_ContractSet L"
proof unfold_locales
  show good: "good_sw (ContractSet_switch L)"
    unfolding ContractSet_switch_def by (intro good_swI fwd_rules)
  fix m assume "wf_ContractSet L m"
  then show "codes (ContractSet_switch L) (encode_ContractSet L m) createBase_ContractSet m"
    unfolding encode_ContractSet_def wf_ContractSet_def
    by (elim conjE)
      (rule codes_Cons codes_Nil [OF ContractSet.equality] codec_rules
        codes_always [where tag = 10 and u = ContractSet.contractIds_update and op = "packed L (num64 (r_uint64 L))", OF good]
      | assumption | (simp add: ContractSet_tags createBase_ContractSet_def; fail))+
qed

sublocale wire_laws \<subseteq> ContractSet_range: message_range L F out inp "ContractSet_switch L" createBase_ContractSet ok_ContractSet
proof unfold_locales
  show "ok_ContractSet createBase_ContractSet" by (simp add: ok_ContractSet_def createBase_ContractSet_def)
  fix m tag assume "ok_ContractSet m"
  then show "keeps ok_ContractSet (ContractSet_switch L tag m)"
    unfolding ContractSet_switch_def by - (rule range_rules | (simp add: ok_ContractSet_def; fail))+
qed

context wire_laws
begin

lemmas ContractSet_carries [codec_rules] =
  ContractSet_codec.opt_carries [folded decode_ContractSet_def] ContractSet_codec.list_carries [folded decode_ContractSet_def]

lemmas ContractSet_good [fwd_rules] = ContractSet_codec.op_good [folded decode_ContractSet_def]

lemmas ContractSet_yields [range_rules] = ContractSet_range.sub_range [folded decode_ContractSet_def]

lemmas ContractSet_roundtrip = ContractSet_codec.roundtrip [folded decode_ContractSet_def]

lemmas ContractSet_returns = ContractSet_codec.decode_returns [folded decode_ContractSet_def]

lemmas ContractSet_decoded = ContractSet_range.decode_range [folded decode_ContractSet_def]

end

interpretation ContractSet_json: message_json toJSON_ContractSet fromJSON_ContractSet wfj_ContractSet
proof unfold_locales
  fix h m
  assume "wfj_ContractSet m"
  then show "json_rt (toJSON_ContractSet h) (fromJSON_ContractSet h) m"
    unfolding toJSON_ContractSet_def fromJSON_ContractSet_def wfj_ContractSet_def
    by (-) (rule json_rtI json_rules | assumption | (simp; fail))+
qed

lemmas ContractSet_json_rules [json_rules] = ContractSet_json.json_field_rules

lemma ContractExpirationSet_tags:
  "ContractExpirationSet_switch L 8 m = readf (num64 (r_int64 L)) (\<lambda>v. m\<lparr>ContractExpirationSet.height := v\<rparr>)"
  "ContractExpirationSet_switch L 18 m = readf (submsg L (decode_ContractSet L)) (\<lambda>v. m\<lparr>ContractExpirationSet.contractSet := Some v\<rparr>)"
  by (simp_all add: ContractExpirationSet_switch_def when_tag_def)

lemma fromPartial_partial_of_ContractExpirationSet [simp]: "fromPartial_ContractExpirationSet (partial_of_ContractExpirationSet m) = m"
  by (simp add: fromPartial_ContractExpirationSet_def partial_of_ContractExpirationSet_def createBase_ContractExpirationSet_def partial_map_def option.map_comp o_def option.map_ident)

lemma create_ContractExpirationSet_None [simp]: "create_ContractExpirationSet None = createBase_ContractExpirationSet"
  by (simp add: create_ContractExpirationSet_def fromPartial_ContractExpirationSet_def ContractExpirationSet_empty_def createBase_ContractExpirationSet_def partial_map_def)

sublocale wire_laws \<subseteq> ContractExpirationSet_codec: message_codec L F out inp "encode_ContractExpirationSet L" "ContractExpirationSet_switch L" createBase_ContractExpirationSet "wf_ContractExpirationSet L"
proof unfold_locales
  show good: "good_sw (ContractExpirationSet_switch L)"
    unfolding ContractExpirationSet_switch_def by (intro good_swI fwd_rules)
  fix m assume "wf_ContractExpirationSet L m"
  then show "codes (ContractExpirationSet_switch L) (encode_ContractExpirationSet L m) createBase_ContractExpirationSet m"
    unfolding encode_ContractExpirationSet_def wf_ContractExpirationSet_def
    by (elim conjE)
      (rule codes_Cons codes_Nil [OF ContractExpirationSet.equality] codec_rules
        codes_when [where tag = 8 and u = ContractExpirationSet.height_update and op = "num64 (r_int64 L)", OF good]
        codes_some [where tag = 18 and u = ContractExpirationSet.contractSet_update and op = "submsg L (decode_ContractSet L)", OF good]
      | assumption | (simp add: ContractExpirationSet_tags createBase_ContractExpirationSet_def; fail))+
qed

sublocale wire_laws \<subseteq> ContractExpirationSet_range: message_range L F out inp "ContractExpirationSet_switch L" createBase_ContractExpirationSet ok_ContractExpirationSet
proof unfold_locales
  show "ok_ContractExpirationSet createBase_ContractExpirationSet" by (simp add: ok_ContractExpirationSet_def createBase_ContractExpirationSet_def)
  fix m tag assume "ok_ContractExpirationSet m"
  then show "keeps ok_ContractExpirationSet (ContractExpirationSet_switch L tag m)"
    unfolding ContractExpirationSet_switch_def by - (rule range_rules | (simp add: ok_ContractExpirationSet_def; fail))+
qed

context wire_laws
begin

lemmas ContractExpirationSet_carries [codec_rules] =
  ContractExpirationSet_codec.opt_carries [folded decode_ContractExpirationSet_def] ContractExpirationSet_codec.list_carries [folded decode_ContractExpirationSet_def]

lemmas ContractExpirationSet_good [fwd_rules] = ContractExpirationSet_codec.op_good [folded decode_ContractExpirationSet_def]

lemmas ContractExpirationSet_yields [range_rules] = ContractExpirationSet_range.sub_range [folded decode_ContractExpirationSet_def]

lemmas ContractExpirationSet_roundtrip = ContractExpirationSet_codec.roundtrip [folded decode_ContractExpirationSet_def]

lemmas ContractExpirationSet_returns = ContractExpirationSet_codec.decode_returns [folded decode_ContractExpirationSet_def]

lemmas ContractExpirationSet_decoded = ContractExpirationSet_range.decode_range [folded decode_ContractExpirationSet_def]

end

interpretation ContractExpirationSet_json: message_json toJSON_ContractExpirationSet fromJSON_ContractExpirationSet wfj_ContractExpirationSet
proof unfold_locales
  fix h m
  assume "wfj_ContractExpirationSet m"
  then show "json_rt (toJSON_ContractExpirationSet h) (fromJSON_ContractExpirationSet h) m"
    unfolding toJSON_ContractExpirationSet_def fromJSON_ContractExpirationSet_def wfj_ContractExpirationSet_def
    by (elim conjE) (rule json_rtI json_rules | assumption | (simp; fail))+
qed

lemmas ContractExpirationSet_json_rules [json_rules] = ContractExpirationSet_json.json_field_rules

lemma UserContractSet_tags:
  "UserContractSet_switch L 10 m = readf (r_bytes L) (\<lambda>v. m\<lparr>UserContractSet.user := v\<rparr>)"
  "UserContractSet_switch L 18 m = readf (submsg L (decode_ContractSet L)) (\<lambda>v. m\<lparr>UserContractSet.contractSet := Some v\<rparr>)"
  by (simp_all add: UserContractSet_switch_def when_tag_def)

lemma fromPartial_partial_of_UserContractSet [simp]: "fromPartial_UserContractSet (partial_of_UserContractSet m) = m"
  by (simp add: fromPartial_UserContractSet_def partial_of_UserContractSet_def createBase_UserContractSet_def partial_map_def option.map_comp o_def option.map_ident)

lemma create_UserContractSet_None [simp]: "create_UserContractSet None = createBase_UserContractSet"
  by (simp add: create_UserContractSet_def fromPartial_UserContractSet_def UserContractSet_empty_def createBase_UserContractSet_def partial_map_def)

sublocale wire_laws \<subseteq> UserContractSet_codec: message_codec L F out inp "encode_UserContractSet L" "UserContractSet_switch L" createBase_UserContractSet "wf_UserContractSet L"
proof unfold_locales
  show good: "good_sw (UserContractSet_switch L)"
    unfolding UserContractSet_switch_def by (intro good_swI fwd_rules)
  fix m assume "wf_UserContractSet L m"
  then show "codes (UserContractSet_switch L) (encode_UserContractSet L m) createBase_UserContractSet m"
    unfolding encode_UserContractSet_def wf_UserContractSet_def
    by (elim conjE)
      (rule codes_Cons codes_Nil [OF UserContractSet.equality] codec_rules
        codes_when [where tag = 10 and u = UserContractSet.user_update and op = "r_bytes L", OF good]
        codes_some [where tag = 18 and u = UserContractSet.contractSet_update and op = "submsg L (decode_ContractSet L)", OF good]
      | assumption | (simp add: UserContractSet_tags createBase_UserContractSet_def; fail))+
qed

sublocale wire_laws \<subseteq> UserContractSet_range: message_range L F out inp "UserContractSet_switch L" createBase_UserContractSet ok_UserContractSet
proof unfold_locales
  show "ok_UserContractSet createBase_UserContractSet" by (simp add: ok_UserContractSet_def createBase_UserContractSet_def)
  fix m tag assume "ok_UserContractSet m"
  then show "keeps ok_UserContractSet (UserContractSet_switch L tag m)"
    unfolding UserContractSet_switch_def by - (rule range_rules | (simp add: ok_UserContractSet_def; fail))+
qed

context wire_laws
begin

lemmas UserContractSet_carries [codec_rules] =
  UserContractSet_codec.opt_carries [folded decode_UserContractSet_def] UserContractSet_codec.list_carries [folded decode_UserContractSet_def]

lemmas UserContractSet_good [fwd_rules] = UserContractSet_codec.op_good [folded decode_UserContractSet_def]

lemmas UserContractSet_yields [range_rules] = UserContractSet_range.sub_range [folded decode_UserContractSet_def]

lemmas UserContractSet_roundtrip = UserContractSet_codec.roundtrip [folded decode_UserContractSet_def]

lemmas UserContractSet_returns = UserContractSet_codec.decode_returns [folded decode_UserContractSet_def]

lemmas UserContractSet_decoded = UserContractSet_range.decode_range [folded decode_UserContractSet_def]

end

interpretation UserContractSet_json: message_json toJSON_UserContractSet fromJSON_UserContractSet wfj_UserContractSet
proof unfold_locales
  fix h m
  assume "wfj_UserContractSet m"
  then show "json_rt (toJSON_UserContractSet h) (fromJSON_UserContractSet h) m"
    unfolding toJSON_UserContractSet_def fromJSON_UserContractSet_def wfj_UserContractSet_def
    by (-) (rule json_rtI json_rules | assumption | (simp; fail))+
qed

lemmas UserContractSet_json_rules [json_rules] = UserContractSet_json.json_field_rules

lemma Service_tags:
  "Service_switch L 8 m = readf (num64 (r_uint64 L)) (\<lambda>v. m\<lparr>Service.id' := v\<rparr>)"
  "Service_switch L 18 m = readf (r_string L) (\<lambda>v. m\<lparr>Service.name := v\<rparr>)"
  "Service_switch L 26 m = readf (r_string L) (\<lambda>v. m\<lparr>Service.description := v\<rparr>)"
  "Service_switch L 34 m = readf (r_string L) (\<lambda>v. m\<lparr>Service.serviceType := v\<rparr>)"
  by (simp_all add: Service_switch_def when_tag_def)

lemma fromPartial_partial_of_Service [simp]: "fromPartial_Service (partial_of_Service m) = m"
  by (simp add: fromPartial_Service_def partial_of_Service_def createBase_Service_def partial_map_def option.map_comp o_def option.map_ident)

lemma create_Service_None [simp]: "create_Service None = createBase_Service"
  by (simp add: create_Service_def fromPartial_Service_def Service_empty_def createBase_Service_def partial_map_def)

sublocale wire_laws \<subseteq> Service_codec: message_codec L F out inp "encode_Service L" "Service_switch L" createBase_Service "wf_Service L"
proof unfold_locales
  show good: "good_sw (Service_switch L)"
    unfolding Service_switch_def by (intro good_swI fwd_rules)
  fix m assume "wf_Service L m"
  then show "codes (Service_switch L) (encode_Service L m) createBase_Service m"
    unfolding encode_Service_def wf_Service_def
    by (elim conjE)
      (rule codes_Cons codes_Nil [OF Service.equality] codec_rules
        codes_when [where tag = 8 and u = Service.id'_update and op = "num64 (r_uint64 L)", OF good]
        codes_when [where tag = 18 and u = Service.name_update and op = "r_string L", OF good]
        codes_when [where tag = 26 and u = Service.description_update and op = "r_string L", OF good]
        codes_when [where tag = 34 and u = Service.serviceType_update and op = "r_string L", OF good]
      | assumption | (simp add: Service_tags createBase_Service_def; fail))+
qed

sublocale wire_laws \<subseteq> Service_range: message_range L F out inp "Service_switch L" createBase_Service ok_Service
proof unfold_locales
  show "ok_Service createBase_Service" by (simp add: ok_Service_def createBase_Service_def)
  fix m tag assume "ok_Service m"
  then show "keeps ok_Service (Service_switch L tag m)"
    unfolding Service_switch_def by - (rule range_rules | (simp add: ok_Service_def; fail))+
qed

context wire_laws
begin

lemmas Service_carries [codec_rules] =
  Service_codec.opt_carries [folded decode_Service_def] Service_codec.list_carries [folded decode_Service_def]

lemmas Service_good [fwd_rules] = Service_codec.op_good [folded decode_Service_def]

lemmas Service_yields [range_rules] = Service_range.sub_range [folded decode_Service_def]

lemmas Service_roundtrip = Service_codec.roundtrip [folded decode_Service_def]

lemmas Service_returns = Service_codec.decode_returns [folded decode_Service_def]

lemmas Service_decoded = Service_range.decode_range [folded decode_Service_def]

end

interpretation Service_json: message_json toJSON_Service fromJSON_Service wfj_Service
proof unfold_locales
  fix h m
  assume "wfj_Service m"
  then show "json_rt (toJSON_Service h) (fromJSON_Service h) m"
    unfolding toJSON_Service_def fromJSON_Service_def wfj_Service_def
    by (-) (rule json_rtI json_rules | assumption | (simp; fail))+
qed

lemmas Service_json_rules [json_rules] = Service_json.json_field_rules


end
