(* ===== verification/TxMsgs.thy ===== *)
theory TxMsgs
  imports KeeperMsgs
begin

text \<open>
  The transactions of the arkeo module and their responses (\<open>arkeo/arkeo/tx.ts\<close>).
\<close>


section \<open>arkeo/arkeo/tx.ts\<close>

subsection \<open>MsgBondProvider\<close>

record MsgBondProvider =
  creator :: jsstring
  provider :: jsstring
  service :: jsstring
  bond :: jsstring

definition createBase_MsgBondProvider :: MsgBondProvider where
  "createBase_MsgBondProvider = \<lparr>MsgBondProvider.creator = [],
     MsgBondProvider.provider = [],
     MsgBondProvider.service = [],
     MsgBondProvider.bond = []\<rparr>"

definition encode_MsgBondProvider :: "('w, 'r) wire \<Rightarrow> MsgBondProvider \<Rightarrow> 'w \<Rightarrow> 'w result" where
  "encode_MsgBondProvider L message = seqE
    [whenE (MsgBondProvider.creator message \<noteq> []) (seqE [w_uint32 L 10, w_string L (MsgBondProvider.creator message)]),
     whenE (MsgBondProvider.provider message \<noteq> []) (seqE [w_uint32 L 18, w_string L (MsgBondProvider.provider message)]),
     whenE (MsgBondProvider.service message \<noteq> []) (seqE [w_uint32 L 26, w_string L (MsgBondProvider.service message)]),
     whenE (MsgBondProvider.bond message \<noteq> []) (seqE [w_uint32 L 34, w_string L (MsgBondProvider.bond message)])]"

definition MsgBondProvider_switch :: "('w, 'r) wire \<Rightarrow> u32 \<Rightarrow> MsgBondProvider \<Rightarrow> (MsgBondProvider, 'r) action" where
  "MsgBondProvider_switch L tag message = js_switch (drop_bit 3 tag)
    [(1, when_tag tag 10 (readf (r_string L) (\<lambda>v. message\<lparr>MsgBondProvider.creator := v\<rparr>))),
     (2, when_tag tag 18 (readf (r_string L) (\<lambda>v. message\<lparr>MsgBondProvider.provider := v\<rparr>))),
     (3, when_tag tag 26 (readf (r_string L) (\<lambda>v. message\<lparr>MsgBondProvider.service := v\<rparr>))),
     (4, when_tag tag 34 (readf (r_string L) (\<lambda>v. message\<lparr>MsgBondProvider.bond := v\<rparr>)))]
    break_out"

definition decode_MsgBondProvider :: "('w, 'r) wire \<Rightarrow> 'r input \<Rightarrow> nat option \<Rightarrow> (MsgBondProvider \<times> 'r) result" where
  "decode_MsgBondProvider L = decode_msg L (MsgBondProvider_switch L) createBase_MsgBondProvider"

definition fromJSON_MsgBondProvider :: "host \<Rightarrow> jsval \<Rightarrow> MsgBondProvider result" where
  "fromJSON_MsgBondProvider h object =
     bindE (fieldE object ''creator'' (stringE h) []) (\<lambda>v_creator.
     bindE (fieldE object ''provider'' (stringE h) []) (\<lambda>v_provider.
     bindE (fieldE object ''service'' (stringE h) []) (\<lambda>v_service.
     bindE (fieldE object ''bond'' (stringE h) []) (\<lambda>v_bond.
     Inr \<lparr>MsgBondProvider.creator = v_creator, MsgBondProvider.provider = v_provider, MsgBondProvider.service = v_service, MsgBondProvider.bond = v_bond\<rparr>))))"

definition toJSON_MsgBondProvider :: "host \<Rightarrow> MsgBondProvider \<Rightarrow> jsval result" where
  "toJSON_MsgBondProvider h message = objE
    [jfieldE (MsgBondProvider.creator message \<noteq> []) ''creator'' (Inr (JString (MsgBondProvider.creator message))),
     jfieldE (MsgBondProvider.provider message \<noteq> []) ''provider'' (Inr (JString (MsgBondProvider.provider message))),
     jfieldE (MsgBondProvider.service message \<noteq> []) ''service'' (Inr (JString (MsgBondProvider.service message))),
     jfieldE (MsgBondProvider.bond message \<noteq> []) ''bond'' (Inr (JString (MsgBondProvider.bond message)))]"

record MsgBondProvider_Partial =
  creator :: "jsstring option"
  provider :: "jsstring option"
  service :: "jsstring option"
  bond :: "jsstring option"

definition MsgBondProvider_empty :: MsgBondProvider_Partial where
  "MsgBondProvider_empty = \<lparr>MsgBondProvider_Partial.creator = None, MsgBondProvider_Partial.provider = None, MsgBondProvider_Partial.service = None, MsgBondProvider_Partial.bond = None\<rparr>"

definition fromPartial_MsgBondProvider :: "MsgBondProvider_Partial \<Rightarrow> MsgBondProvider" where
  "fromPartial_MsgBondProvider object = createBase_MsgBondProvider\<lparr>MsgBondProvider.creator := nullish (MsgBondProvider_Partial.creator object) [],
     MsgBondProvider.provider := nullish (MsgBondProvider_Partial.provider object) [],
     MsgBondProvider.service := nullish (MsgBondProvider_Partial.service object) [],
     MsgBondProvider.bond := nullish (MsgBondProvider_Partial.bond object) []\<rparr>"

definition create_MsgBondProvider :: "MsgBondProvider_Partial option \<Rightarrow> MsgBondProvider" where
  "create_MsgBondProvider base = fromPartial_MsgBondProvider (nullish base MsgBondProvider_empty)"

text \<open>A partial message that sets every field.\<close>

definition partial_of_MsgBondProvider :: "MsgBondProvider \<Rightarrow> MsgBondProvider_Partial" where
  "partial_of_MsgBondProvider m =
     \<lparr>MsgBondProvider_Partial.creator = Some (MsgBondProvider.creator m),
      MsgBondProvider_Partial.provider = Some (MsgBondProvider.provider m),
      MsgBondProvider_Partial.service = Some (MsgBondProvider.service m),
      MsgBondProvider_Partial.bond = Some (MsgBondProvider.bond m)\<rparr>"

definition ok_MsgBondProvider :: "MsgBondProvider \<Rightarrow> bool" where
  "ok_MsgBondProvider m \<longleftrightarrow> True"

definition wf_MsgBondProvider :: "('w, 'r) wire \<Rightarrow> MsgBondProvider \<Rightarrow> bool" where
  "wf_MsgBondProvider L m \<longleftrightarrow> wire_string (MsgBondProvider.creator m)
     \<and> wire_string (MsgBondProvider.provider m)
     \<and> wire_string (MsgBondProvider.service m)
     \<and> wire_string (MsgBondProvider.bond m)"

definition wfj_MsgBondProvider :: "MsgBondProvider \<Rightarrow> bool" where
  "wfj_MsgBondProvider m \<longleftrightarrow> True"

subsection \<open>MsgBondProviderResponse\<close>

datatype MsgBondProviderResponse = MsgBondProviderResponse

definition createBase_MsgBondProviderResponse :: MsgBondProviderResponse where
  "createBase_MsgBondProviderResponse = MsgBondProviderResponse"

definition encode_MsgBondProviderResponse :: "('w, 'r) wire \<Rightarrow> MsgBondProviderResponse \<Rightarrow> 'w \<Rightarrow> 'w result" where
  "encode_MsgBondProviderResponse L message = seqE
    []"

definition MsgBondProviderResponse_switch :: "('w, 'r) wire \<Rightarrow> u32 \<Rightarrow> MsgBondProviderResponse \<Rightarrow> (MsgBondProviderResponse, 'r) action" where
  "MsgBondProviderResponse_switch L tag message = js_switch (drop_bit 3 tag)
    []
    break_out"

definition decode_MsgBondProviderResponse :: "('w, 'r) wire \<Rightarrow> 'r input \<Rightarrow> nat option \<Rightarrow> (MsgBondProviderResponse \<times> 'r) result" where
  "decode_MsgBondProviderResponse L = decode_msg L (MsgBondProviderResponse_switch L) createBase_MsgBondProviderResponse"

definition fromJSON_MsgBondProviderResponse :: "host \<Rightarrow> jsval \<Rightarrow> MsgBondProviderResponse result" where
  "fromJSON_MsgBondProviderResponse h object = Inr MsgBondProviderResponse"

definition toJSON_MsgBondProviderResponse :: "host \<Rightarrow> MsgBondProviderResponse \<Rightarrow> jsval result" where
  "toJSON_MsgBondProviderResponse h message = objE []"

text \<open>There is nothing to set: a partial message is the empty object too.\<close>

definition fromPartial_MsgBondProviderResponse :: "MsgBondProviderResponse \<Rightarrow> MsgBondProviderResponse" where
  "fromPartial_MsgBondProviderResponse object = createBase_MsgBondProviderResponse"

definition create_MsgBondProviderResponse :: "MsgBondProviderResponse option \<Rightarrow> MsgBondProviderResponse" where
  "create_MsgBondProviderResponse base = fromPartial_MsgBondProviderResponse (nullish base MsgBondProviderResponse)"

definition ok_MsgBondProviderResponse :: "MsgBondProviderResponse \<Rightarrow> bool" where
  "ok_MsgBondProviderResponse m \<longleftrightarrow> True"

definition wf_MsgBondProviderResponse :: "('w, 'r) wire \<Rightarrow> MsgBondProviderResponse \<Rightarrow> bool" where
  "wf_MsgBondProviderResponse L m \<longleftrightarrow> True"

definition wfj_MsgBondProviderResponse :: "MsgBondProviderResponse \<Rightarrow> bool" where
  "wfj_MsgBondProviderResponse m \<longleftrightarrow> True"

subsection \<open>MsgModProvider\<close>

record MsgModProvider =
  creator :: jsstring
  provider :: bytes
  service :: jsstring
  metadataUri :: jsstring
  metadataNonce :: number
  status :: ProviderStatus
  minContractDuration :: number
  maxContractDuration :: number
  subscriptionRate :: "Coin list"
  payAsYouGoRate :: "Coin list"
  settlementDuration :: number

definition createBase_MsgModProvider :: MsgModProvider where
  "createBase_MsgModProvider = \<lparr>MsgModProvider.creator = [],
     MsgModProvider.provider = [],
     MsgModProvider.service = [],
     MsgModProvider.metadataUri = [],
     MsgModProvider.metadataNonce = Num 0,
     MsgModProvider.status = Num 0,
     MsgModProvider.minContractDuration = Num 0,
     MsgModProvider.maxContractDuration = Num 0,
     MsgModProvider.subscriptionRate = [],
     MsgModProvider.payAsYouGoRate = [],
     MsgModProvider.settlementDuration = Num 0\<rparr>"

definition encode_MsgModProvider :: "('w, 'r) wire \<Rightarrow> MsgModProvider \<Rightarrow> 'w \<Rightarrow> 'w result" where
  "encode_MsgModProvider L message = seqE
    [whenE (MsgModProvider.creator message \<noteq> []) (seqE [w_uint32 L 10, w_string L (MsgModProvider.creator message)]),
     whenE (length (MsgModProvider.provider message) \<noteq> 0) (seqE [w_uint32 L 18, w_bytes L (MsgModProvider.provider message)]),
     whenE (MsgModProvider.service message \<noteq> []) (seqE [w_uint32 L 26, w_string L (MsgModProvider.service message)]),
     whenE (MsgModProvider.metadataUri message \<noteq> []) (seqE [w_uint32 L 34, w_string L (MsgModProvider.metadataUri message)]),
     whenE (MsgModProvider.metadataNonce message \<noteq> Num 0) (seqE [w_uint32 L 40, w_uint64 L (MsgModProvider.metadataNonce message)]),
     whenE (MsgModProvider.status message \<noteq> Num 0) (seqE [w_uint32 L 48, w_int32 L (MsgModProvider.status message)]),
     whenE (MsgModProvider.minContractDuration message \<noteq> Num 0) (seqE [w_uint32 L 56, w_int64 L (MsgModProvider.minContractDuration message)]),
     whenE (MsgModProvider.maxContractDuration message \<noteq> Num 0) (seqE [w_uint32 L 64, w_int64 L (MsgModProvider.maxContractDuration message)]),
     forE (\<lambda>v. seqE [w_uint32 L 74, w_fork L, encode_Coin L v, w_join L]) (MsgModProvider.subscriptionRate message),
     forE (\<lambda>v. seqE [w_uint32 L 82, w_fork L, encode_Coin L v, w_join L]) (MsgModProvider.payAsYouGoRate message),
     whenE (MsgModProvider.settlementDuration message \<noteq> Num 0) (seqE [w_uint32 L 88, w_int64 L (MsgModProvider.settlementDuration message)])]"

definition MsgModProvider_switch :: "('w, 'r) wire \<Rightarrow> u32 \<Rightarrow> MsgModProvider \<Rightarrow> (MsgModProvider, 'r) action" where
  "MsgModProvider_switch L tag message = js_switch (drop_bit 3 tag)
    [(1, when_tag tag 10 (readf (r_string L) (\<lambda>v. message\<lparr>MsgModProvider.creator := v\<rparr>))),
     (2, when_tag tag 18 (readf (r_bytes L) (\<lambda>v. message\<lparr>MsgModProvider.provider := v\<rparr>))),
     (3, when_tag tag 26 (readf (r_string L) (\<lambda>v. message\<lparr>MsgModProvider.service := v\<rparr>))),
     (4, when_tag tag 34 (readf (r_string L) (\<lambda>v. message\<lparr>MsgModProvider.metadataUri := v\<rparr>))),
     (5, when_tag tag 40 (readf (num64 (r_uint64 L)) (\<lambda>v. message\<lparr>MsgModProvider.metadataNonce := v\<rparr>))),
     (6, when_tag tag 48 (readf (num32 (r_int32 L)) (\<lambda>v. message\<lparr>MsgModProvider.status := v\<rparr>))),
     (7, when_tag tag 56 (readf (num64 (r_int64 L)) (\<lambda>v. message\<lparr>MsgModProvider.minContractDuration := v\<rparr>))),
     (8, when_tag tag 64 (readf (num64 (r_int64 L)) (\<lambda>v. message\<lparr>MsgModProvider.maxContractDuration := v\<rparr>))),
     (9, when_tag tag 74 (readf (submsg L (decode_Coin L)) (\<lambda>v. message\<lparr>MsgModProvider.subscriptionRate := MsgModProvider.subscriptionRate message @ [v]\<rparr>))),
     (10, when_tag tag 82 (readf (submsg L (decode_Coin L)) (\<lambda>v. message\<lparr>MsgModProvider.payAsYouGoRate := MsgModProvider.payAsYouGoRate message @ [v]\<rparr>))),
     (11, when_tag tag 88 (readf (num64 (r_int64 L)) (\<lambda>v. message\<lparr>MsgModProvider.settlementDuration := v\<rparr>)))]
    break_out"

definition decode_MsgModProvider :: "('w, 'r) wire \<Rightarrow> 'r input \<Rightarrow> nat option \<Rightarrow> (MsgModProvider \<times> 'r) result" where
  "decode_MsgModProvider L = decode_msg L (MsgModProvider_switch L) createBase_MsgModProvider"

definition fromJSON_MsgModProvider :: "host \<Rightarrow> jsval \<Rightarrow> MsgModProvider result" where
  "fromJSON_MsgModProvider h object =
     bindE (fieldE object ''creator'' (stringE h) []) (\<lambda>v_creator.
     bindE (fieldE object ''provider'' (bytesFromBase64 h) []) (\<lambda>v_provider.
     bindE (fieldE object ''service'' (stringE h) []) (\<lambda>v_service.
     bindE (fieldE object ''metadataUri'' (stringE h) []) (\<lambda>v_metadataUri.
     bindE (fieldE object ''metadataNonce'' (numberE h) (Num 0)) (\<lambda>v_metadataNonce.
     bindE (fieldE object ''status'' (enumE providerStatusFromJSON) (Num 0)) (\<lambda>v_status.
     bindE (fieldE object ''minContractDuration'' (numberE h) (Num 0)) (\<lambda>v_minContractDuration.
     bindE (fieldE object ''maxContractDuration'' (numberE h) (Num 0)) (\<lambda>v_maxContractDuration.
     bindE (arrayE object ''subscriptionRate'' (fromJSON_Coin h)) (\<lambda>v_subscriptionRate.
     bindE (arrayE object ''payAsYouGoRate'' (fromJSON_Coin h)) (\<lambda>v_payAsYouGoRate.
     bindE (fieldE object ''settlementDuration'' (numberE h) (Num 0)) (\<lambda>v_settlementDuration.
     Inr \<lparr>MsgModProvider.creator = v_creator, MsgModProvider.provider = v_provider, MsgModProvider.service = v_service, MsgModProvider.metadataUri = v_metadataUri, MsgModProvider.metadataNonce = v_metadataNonce, MsgModProvider.status = v_status, MsgModProvider.minContractDuration = v_minContractDuration, MsgModProvider.maxContractDuration = v_maxContractDuration, MsgModProvider.subscriptionRate = v_subscriptionRate, MsgModProvider.payAsYouGoRate = v_payAsYouGoRate, MsgModProvider.settlementDuration = v_settlementDuration\<rparr>)))))))))))"

definition toJSON_MsgModProvider :: "host \<Rightarrow> MsgModProvider \<Rightarrow> jsval result" where
  "toJSON_MsgModProvider h message = objE
    [jfieldE (MsgModProvider.creator message \<noteq> []) ''creator'' (Inr (JString (MsgModProvider.creator message))),
     jfieldE (length (MsgModProvider.provider message) \<noteq> 0) ''provider'' (base64E h (MsgModProvider.provider message)),
     jfieldE (MsgModProvider.service message \<noteq> []) ''service'' (Inr (JString (MsgModProvider.service message))),
     jfieldE (MsgModProvider.metadataUri message \<noteq> []) ''metadataUri'' (Inr (JString (MsgModProvider.metadataUri message))),
     jfieldE (MsgModProvider.metadataNonce message \<noteq> Num 0) ''metadataNonce'' (Inr (JNumber (Math_round (MsgModProvider.metadataNonce message)))),
     jfieldE (MsgModProvider.status message \<noteq> Num 0) ''status'' (Inr (JString (providerStatusToJSON (MsgModProvider.status message)))),
     jfieldE (MsgModProvider.minContractDuration message \<noteq> Num 0) ''minContractDuration'' (Inr (JNumber (Math_round (MsgModProvider.minContractDuration message)))),
     jfieldE (MsgModProvider.maxContractDuration message \<noteq> Num 0) ''maxContractDuration'' (Inr (JNumber (Math_round (MsgModProvider.maxContractDuration message)))),
     jarrayE ''subscriptionRate'' (toJSON_Coin h) (MsgModProvider.subscriptionRate message),
     jarrayE ''payAsYouGoRate'' (toJSON_Coin h) (MsgModProvider.payAsYouGoRate message),
     jfieldE (MsgModProvider.settlementDuration message \<noteq> Num 0) ''settlementDuration'' (Inr (JNumber (Math_round (MsgModProvider.settlementDuration message))))]"

record MsgModProvider_Partial =
  creator :: "jsstring option"
  provider :: "bytes option"
  service :: "jsstring option"
  metadataUri :: "jsstring option"
  metadataNonce :: "number option"
  status :: "ProviderStatus option"
  minContractDuration :: "number option"
  maxContractDuration :: "number option"
  subscriptionRate :: "Coin_Partial list option"
  payAsYouGoRate :: "Coin_Partial list option"
  settlementDuration :: "number option"

definition MsgModProvider_empty :: MsgModProvider_Partial where
  "MsgModProvider_empty = \<lparr>MsgModProvider_Partial.creator = None, MsgModProvider_Partial.provider = None, MsgModProvider_Partial.service = None, MsgModProvider_Partial.metadataUri = None, MsgModProvider_Partial.metadataNonce = None, MsgModProvider_Partial.status = None, MsgModProvider_Partial.minContractDuration = None, MsgModProvider_Partial.maxContractDuration = None, MsgModProvider_Partial.subscriptionRate = None, MsgModProvider_Partial.payAsYouGoRate = None, MsgModProvider_Partial.settlementDuration = None\<rparr>"

definition fromPartial_MsgModProvider :: "MsgModProvider_Partial \<Rightarrow> MsgModProvider" where
  "fromPartial_MsgModProvider object = createBase_MsgModProvider\<lparr>MsgModProvider.creator := nullish (MsgModProvider_Partial.creator object) [],
     MsgModProvider.provider := nullish (MsgModProvider_Partial.provider object) [],
     MsgModProvider.service := nullish (MsgModProvider_Partial.service object) [],
     MsgModProvider.metadataUri := nullish (MsgModProvider_Partial.metadataUri object) [],
     MsgModProvider.metadataNonce := nullish (MsgModProvider_Partial.metadataNonce object) (Num 0),
     MsgModProvider.status := nullish (MsgModProvider_Partial.status object) (Num 0),
     MsgModProvider.minContractDuration := nullish (MsgModProvider_Partial.minContractDuration object) (Num 0),
     MsgModProvider.maxContractDuration := nullish (MsgModProvider_Partial.maxContractDuration object) (Num 0),
     MsgModProvider.subscriptionRate := partial_map fromPartial_Coin (MsgModProvider_Partial.subscriptionRate object),
     MsgModProvider.payAsYouGoRate := partial_map fromPartial_Coin (MsgModProvider_Partial.payAsYouGoRate object),
     MsgModProvider.settlementDuration := nullish (MsgModProvider_Partial.settlementDuration object) (Num 0)\<rparr>"

definition create_MsgModProvider :: "MsgModProvider_Partial option \<Rightarrow> MsgModProvider" where
  "create_MsgModProvider base = fromPartial_MsgModProvider (nullish base MsgModProvider_empty)"

text \<open>A partial message that sets every field.\<close>

definition partial_of_MsgModProvider :: "MsgModProvider \<Rightarrow> MsgModProvider_Partial" where
  "partial_of_MsgModProvider m =
     \<lparr>MsgModProvider_Partial.creator = Some (MsgModProvider.creator m),
      MsgModProvider_Partial.provider = Some (MsgModProvider.provider m),
      MsgModProvider_Partial.service = Some (MsgModProvider.service m),
      MsgModProvider_Partial.metadataUri = Some (MsgModProvider.metadataUri m),
      MsgModProvider_Partial.metadataNonce = Some (MsgModProvider.metadataNonce m),
      MsgModProvider_Partial.status = Some (MsgModProvider.status m),
      MsgModProvider_Partial.minContractDuration = Some (MsgModProvider.minContractDuration m),
      MsgModProvider_Partial.maxContractDuration = Some (MsgModProvider.maxContractDuration m),
      MsgModProvider_Partial.subscriptionRate = Some (map partial_of_Coin (MsgModProvider.subscriptionRate m)),
      MsgModProvider_Partial.payAsYouGoRate = Some (map partial_of_Coin (MsgModProvider.payAsYouGoRate m)),
      MsgModProvider_Partial.settlementDuration = Some (MsgModProvider.settlementDuration m)\<rparr>"

definition ok_MsgModProvider :: "MsgModProvider \<Rightarrow> bool" where
  "ok_MsgModProvider m \<longleftrightarrow> safe_uint (MsgModProvider.metadataNonce m)
     \<and> int32_num (MsgModProvider.status m)
     \<and> safe_int (MsgModProvider.minContractDuration m)
     \<and> safe_int (MsgModProvider.maxContractDuration m)
     \<and> list_all ok_Coin (MsgModProvider.subscriptionRate m)
     \<and> list_all ok_Coin (MsgModProvider.payAsYouGoRate m)
     \<and> safe_int (MsgModProvider.settlementDuration m)"

definition wf_MsgModProvider :: "('w, 'r) wire \<Rightarrow> MsgModProvider \<Rightarrow> bool" where
  "wf_MsgModProvider L m \<longleftrightarrow> wire_string (MsgModProvider.creator m)
     \<and> wire_bytes (MsgModProvider.provider m)
     \<and> wire_string (MsgModProvider.service m)
     \<and> wire_string (MsgModProvider.metadataUri m)
     \<and> safe_uint (MsgModProvider.metadataNonce m)
     \<and> int32_num (MsgModProvider.status m)
     \<and> safe_int (MsgModProvider.minContractDuration m)
     \<and> safe_int (MsgModProvider.maxContractDuration m)
     \<and> list_all (\<lambda>v. wf_Coin L v \<and> fits L (encode_Coin L v)) (MsgModProvider.subscriptionRate m)
     \<and> list_all (\<lambda>v. wf_Coin L v \<and> fits L (encode_Coin L v)) (MsgModProvider.payAsYouGoRate m)
     \<and> safe_int (MsgModProvider.settlementDuration m)"

definition wfj_MsgModProvider :: "MsgModProvider \<Rightarrow> bool" where
  "wfj_MsgModProvider m \<longleftrightarrow> whole (MsgModProvider.metadataNonce m)
     \<and> ProviderStatus_known (MsgModProvider.status m)
     \<and> whole (MsgModProvider.minContractDuration m)
     \<and> whole (MsgModProvider.maxContractDuration m)
     \<and> list_all wfj_Coin (MsgModProvider.subscriptionRate m)
     \<and> list_all wfj_Coin (MsgModProvider.payAsYouGoRate m)
     \<and> whole (MsgModProvider.settlementDuration m)"

subsection \<open>MsgModProviderResponse\<close>

datatype MsgModProviderResponse = MsgModProviderResponse

definition createBase_MsgModProviderResponse :: MsgModProviderResponse where
  "createBase_MsgModProviderResponse = MsgModProviderResponse"

definition encode_MsgModProviderResponse :: "('w, 'r) wire \<Rightarrow> MsgModProviderResponse \<Rightarrow> 'w \<Rightarrow> 'w result" where
  "encode_MsgModProviderResponse L message = seqE
    []"

definition MsgModProviderResponse_switch :: "('w, 'r) wire \<Rightarrow> u32 \<Rightarrow> MsgModProviderResponse \<Rightarrow> (MsgModProviderResponse, 'r) action" where
  "MsgModProviderResponse_switch L tag message = js_switch (drop_bit 3 tag)
    []
    break_out"

definition decode_MsgModProviderResponse :: "('w, 'r) wire \<Rightarrow> 'r input \<Rightarrow> nat option \<Rightarrow> (MsgModProviderResponse \<times> 'r) result" where
  "decode_MsgModProviderResponse L = decode_msg L (MsgModProviderResponse_switch L) createBase_MsgModProviderResponse"

definition fromJSON_MsgModProviderResponse :: "host \<Rightarrow> jsval \<Rightarrow> MsgModProviderResponse result" where
  "fromJSON_MsgModProviderResponse h object = Inr MsgModProviderResponse"

definition toJSON_MsgModProviderResponse :: "host \<Rightarrow> MsgModProviderResponse \<Rightarrow> jsval result" where
  "toJSON_MsgModProviderResponse h message = objE []"

text \<open>There is nothing to set: a partial message is the empty object too.\<close>

definition fromPartial_MsgModProviderResponse :: "MsgModProviderResponse \<Rightarrow> MsgModProviderResponse" where
  "fromPartial_MsgModProviderResponse object = createBase_MsgModProviderResponse"

definition create_MsgModProviderResponse :: "MsgModProviderResponse option \<Rightarrow> MsgModProviderResponse" where
  "create_MsgModProviderResponse base = fromPartial_MsgModProviderResponse (nullish base MsgModProviderResponse)"

definition ok_MsgModProviderResponse :: "MsgModProviderResponse \<Rightarrow> bool" where
  "ok_MsgModProviderResponse m \<longleftrightarrow> True"

definition wf_MsgModProviderResponse :: "('w, 'r) wire \<Rightarrow> MsgModProviderResponse \<Rightarrow> bool" where
  "wf_MsgModProviderResponse L m \<longleftrightarrow> True"

definition wfj_MsgModProviderResponse :: "MsgModProviderResponse \<Rightarrow> bool" where
  "wfj_MsgModProviderResponse m \<longleftrightarrow> True"

subsection \<open>MsgOpenContract\<close>

record MsgOpenContract =
  creator :: jsstring
  provider :: jsstring
  service :: jsstring
  client :: jsstring
  delegate :: jsstring
  contractType :: ContractType
  duration :: number
  rate :: "Coin option"
  deposit :: jsstring
  settlementDuration :: number
  authorization :: ContractAuthorization
  queriesPerMinute :: number

definition createBase_MsgOpenContract :: MsgOpenContract where
  "createBase_MsgOpenContract = \<lparr>MsgOpenContract.creator = [],
     MsgOpenContract.provider = [],
     MsgOpenContract.service = [],
     MsgOpenContract.client = [],
     MsgOpenContract.delegate = [],
     MsgOpenContract.contractType = Num 0,
     MsgOpenContract.duration = Num 0,
     MsgOpenContract.rate = None,
     MsgOpenContract.deposit = [],
     MsgOpenContract.settlementDuration = Num 0,
     MsgOpenContract.authorization = Num 0,
     MsgOpenContract.queriesPerMinute = Num 0\<rparr>"

definition encode_MsgOpenContract :: "('w, 'r) wire \<Rightarrow> MsgOpenContract \<Rightarrow> 'w \<Rightarrow> 'w result" where
  "encode_MsgOpenContract L message = seqE
    [whenE (MsgOpenContract.creator message \<noteq> []) (seqE [w_uint32 L 10, w_string L (MsgOpenContract.creator message)]),
     whenE (MsgOpenContract.provider message \<noteq> []) (seqE [w_uint32 L 18, w_string L (MsgOpenContract.provider message)]),
     whenE (MsgOpenContract.service message \<noteq> []) (seqE [w_uint32 L 26, w_string L (MsgOpenContract.service message)]),
     whenE (MsgOpenContract.client message \<noteq> []) (seqE [w_uint32 L 34, w_string L (MsgOpenContract.client message)]),
     whenE (MsgOpenContract.delegate message \<noteq> []) (seqE [w_uint32 L 42, w_string L (MsgOpenContract.delegate message)]),
     whenE (MsgOpenContract.contractType message \<noteq> Num 0) (seqE [w_uint32 L 48, w_int32 L (MsgOpenContract.contractType message)]),
     whenE (MsgOpenContract.duration message \<noteq> Num 0) (seqE [w_uint32 L 56, w_int64 L (MsgOpenContract.duration message)]),
     someE (MsgOpenContract.rate message) (\<lambda>v. seqE [w_uint32 L 66, w_fork L, encode_Coin L v, w_join L]),
     whenE (MsgOpenContract.deposit message \<noteq> []) (seqE [w_uint32 L 74, w_string L (MsgOpenContract.deposit message)]),
     whenE (MsgOpenContract.settlementDuration message \<noteq> Num 0) (seqE [w_uint32 L 80, w_int64 L (MsgOpenContract.settlementDuration message)]),
     whenE (MsgOpenContract.authorization message \<noteq> Num 0) (seqE [w_uint32 L 88, w_int32 L (MsgOpenContract.authorization message)]),
     whenE (MsgOpenContract.queriesPerMinute message \<noteq> Num 0) (seqE [w_uint32 L 96, w_int64 L (MsgOpenContract.queriesPerMinute message)])]"

definition MsgOpenContract_switch :: "('w, 'r) wire \<Rightarrow> u32 \<Rightarrow> MsgOpenContract \<Rightarrow> (MsgOpenContract, 'r) action" where
  "MsgOpenContract_switch L tag message = js_switch (drop_bit 3 tag)
    [(1, when_tag tag 10 (readf (r_string L) (\<lambda>v. message\<lparr>MsgOpenContract.creator := v\<rparr>))),
     (2, when_tag tag 18 (readf (r_string L) (\<lambda>v. message\<lparr>MsgOpenContract.provider := v\<rparr>))),
     (3, when_tag tag 26 (readf (r_string L) (\<lambda>v. message\<lparr>MsgOpenContract.service := v\<rparr>))),
     (4, when_tag tag 34 (readf (r_string L) (\<lambda>v. message\<lparr>MsgOpenContract.client := v\<rparr>))),
     (5, when_tag tag 42 (readf (r_string L) (\<lambda>v. message\<lparr>MsgOpenContract.delegate := v\<rparr>))),
     (6, when_tag tag 48 (readf (num32 (r_int32 L)) (\<lambda>v. message\<lparr>MsgOpenContract.contractType := v\<rparr>))),
     (7, when_tag tag 56 (readf (num64 (r_int64 L)) (\<lambda>v. message\<lparr>MsgOpenContract.duration := v\<rparr>))),
     (8, when_tag tag 66 (readf (submsg L (decode_Coin L)) (\<lambda>v. message\<lparr>MsgOpenContract.rate := Some v\<rparr>))),
     (9, when_tag tag 74 (readf (r_string L) (\<lambda>v. message\<lparr>MsgOpenContract.deposit := v\<rparr>))),
     (10, when_tag tag 80 (readf (num64 (r_int64 L)) (\<lambda>v. message\<lparr>MsgOpenContract.settlementDuration := v\<rparr>))),
     (11, when_tag tag 88 (readf (num32 (r_int32 L)) (\<lambda>v. message\<lparr>MsgOpenContract.authorization := v\<rparr>))),
     (12, when_tag tag 96 (readf (num64 (r_int64 L)) (\<lambda>v. message\<lparr>MsgOpenContract.queriesPerMinute := v\<rparr>)))]
    break_out"

definition decode_MsgOpenContract :: "('w, 'r) wire \<Rightarrow> 'r input \<Rightarrow> nat option \<Rightarrow> (MsgOpenContract \<times> 'r) result" where
  "decode_MsgOpenContract L = decode_msg L (MsgOpenContract_switch L) createBase_MsgOpenContract"

definition fromJSON_MsgOpenContract :: "host \<Rightarrow> jsval \<Rightarrow> MsgOpenContract result" where
  "fromJSON_MsgOpenContract h object =
     bindE (fieldE object ''creator'' (stringE h) []) (\<lambda>v_creator.
     bindE (fieldE object ''provider'' (stringE h) []) (\<lambda>v_provider.
     bindE (fieldE object ''service'' (stringE h) []) (\<lambda>v_service.
     bindE (fieldE object ''client'' (stringE h) []) (\<lambda>v_client.
     bindE (fieldE object ''delegate'' (stringE h) []) (\<lambda>v_delegate.
     bindE (fieldE object ''contractType'' (enumE contractTypeFromJSON) (Num 0)) (\<lambda>v_contractType.
     bindE (fieldE object ''duration'' (numberE h) (Num 0)) (\<lambda>v_duration.
     bindE (optE object ''rate'' (fromJSON_Coin h)) (\<lambda>v_rate.
     bindE (fieldE object ''deposit'' (stringE h) []) (\<lambda>v_deposit.
     bindE (fieldE object ''settlementDuration'' (numberE h) (Num 0)) (\<lambda>v_settlementDuration.
     bindE (fieldE object ''authorization'' (enumE contractAuthorizationFromJSON) (Num 0)) (\<lambda>v_authorization.
     bindE (fieldE object ''queriesPerMinute'' (numberE h) (Num 0)) (\<lambda>v_queriesPerMinute.
     Inr \<lparr>MsgOpenContract.creator = v_creator, MsgOpenContract.provider = v_provider, MsgOpenContract.service = v_service, MsgOpenContract.client = v_client, MsgOpenContract.delegate = v_delegate, MsgOpenContract.contractType = v_contractType, MsgOpenContract.duration = v_duration, MsgOpenContract.rate = v_rate, MsgOpenContract.deposit = v_deposit, MsgOpenContract.settlementDuration = v_settlementDuration, MsgOpenContract.authorization = v_authorization, MsgOpenContract.queriesPerMinute = v_queriesPerMinute\<rparr>))))))))))))"

definition toJSON_MsgOpenContract :: "host \<Rightarrow> MsgOpenContract \<Rightarrow> jsval result" where
  "toJSON_MsgOpenContract h message = objE
    [jfieldE (MsgOpenContract.creator message \<noteq> []) ''creator'' (Inr (JString (MsgOpenContract.creator message))),
     jfieldE (MsgOpenContract.provider message \<noteq> []) ''provider'' (Inr (JString (MsgOpenContract.provider message))),
     jfieldE (MsgOpenContract.service message \<noteq> []) ''service'' (Inr (JString (MsgOpenContract.service message))),
     jfieldE (MsgOpenContract.client message \<noteq> []) ''client'' (Inr (JString (MsgOpenContract.client message))),
     jfieldE (MsgOpenContract.delegate message \<noteq> []) ''delegate'' (Inr (JString (MsgOpenContract.delegate message))),
     jfieldE (MsgOpenContract.contractType message \<noteq> Num 0) ''contractType'' (Inr (JString (contractTypeToJSON (MsgOpenContract.contractType message)))),
     jfieldE (MsgOpenContract.duration message \<noteq> Num 0) ''duration'' (Inr (JNumber (Math_round (MsgOpenContract.duration message)))),
     joptE ''rate'' (toJSON_Coin h) (MsgOpenContract.rate message),
     jfieldE (MsgOpenContract.deposit message \<noteq> []) ''deposit'' (Inr (JString (MsgOpenContract.deposit message))),
     jfieldE (MsgOpenContract.settlementDuration message \<noteq> Num 0) ''settlementDuration'' (Inr (JNumber (Math_round (MsgOpenContract.settlementDuration message)))),
     jfieldE (MsgOpenContract.authorization message \<noteq> Num 0) ''authorization'' (Inr (JString (contractAuthorizationToJSON (MsgOpenContract.authorization message)))),
     jfieldE (MsgOpenContract.queriesPerMinute message \<noteq> Num 0) ''queriesPerMinute'' (Inr (JNumber (Math_round (MsgOpenContract.queriesPerMinute message))))]"

record MsgOpenContract_Partial =
  creator :: "jsstring option"
  provider :: "jsstring option"
  service :: "jsstring option"
  client :: "jsstring option"
  delegate :: "jsstring option"
  contractType :: "ContractType option"
  duration :: "number option"
  rate :: "Coin_Partial option"
  deposit :: "jsstring option"
  settlementDuration :: "number option"
  authorization :: "ContractAuthorization option"
  queriesPerMinute :: "number option"

definition MsgOpenContract_empty :: MsgOpenContract_Partial where
  "MsgOpenContract_empty = \<lparr>MsgOpenContract_Partial.creator = None, MsgOpenContract_Partial.provider = None, MsgOpenContract_Partial.service = None, MsgOpenContract_Partial.client = None, MsgOpenContract_Partial.delegate = None, MsgOpenContract_Partial.contractType = None, MsgOpenContract_Partial.duration = None, MsgOpenContract_Partial.rate = None, MsgOpenContract_Partial.deposit = None, MsgOpenContract_Partial.settlementDuration = None, MsgOpenContract_Partial.authorization = None, MsgOpenContract_Partial.queriesPerMinute = None\<rparr>"

definition fromPartial_MsgOpenContract :: "MsgOpenContract_Partial \<Rightarrow> MsgOpenContract" where
  "fromPartial_MsgOpenContract object = createBase_MsgOpenContract\<lparr>MsgOpenContract.creator := nullish (MsgOpenContract_Partial.creator object) [],
     MsgOpenContract.provider := nullish (MsgOpenContract_Partial.provider object) [],
     MsgOpenContract.service := nullish (MsgOpenContract_Partial.service object) [],
     MsgOpenContract.client := nullish (MsgOpenContract_Partial.client object) [],
     MsgOpenContract.delegate := nullish (MsgOpenContract_Partial.delegate object) [],
     MsgOpenContract.contractType := nullish (MsgOpenContract_Partial.contractType object) (Num 0),
     MsgOpenContract.duration := nullish (MsgOpenContract_Partial.duration object) (Num 0),
     MsgOpenContract.rate := map_option fromPartial_Coin (MsgOpenContract_Partial.rate object),
     MsgOpenContract.deposit := nullish (MsgOpenContract_Partial.deposit object) [],
     MsgOpenContract.settlementDuration := nullish (MsgOpenContract_Partial.settlementDuration object) (Num 0),
     MsgOpenContract.authorization := nullish (MsgOpenContract_Partial.authorization object) (Num 0),
     MsgOpenContract.queriesPerMinute := nullish (MsgOpenContract_Partial.queriesPerMinute object) (Num 0)\<rparr>"

definition create_MsgOpenContract :: "MsgOpenContract_Partial option \<Rightarrow> MsgOpenContract" where
  "create_MsgOpenContract base = fromPartial_MsgOpenContract (nullish base MsgOpenContract_empty)"

text \<open>A partial message that sets every field.\<close>

definition partial_of_MsgOpenContract :: "MsgOpenContract \<Rightarrow> MsgOpenContract_Partial" where
  "partial_of_MsgOpenContract m =
     \<lparr>MsgOpenContract_Partial.creator = Some (MsgOpenContract.creator m),
      MsgOpenContract_Partial.provider = Some (MsgOpenContract.provider m),
      MsgOpenContract_Partial.service = Some (MsgOpenContract.service m),
      MsgOpenContract_Partial.client = Some (MsgOpenContract.client m),
      MsgOpenContract_Partial.delegate = Some (MsgOpenContract.delegate m),
      MsgOpenContract_Partial.contractType = Some (MsgOpenContract.contractType m),
      MsgOpenContract_Partial.duration = Some (MsgOpenContract.duration m),
      MsgOpenContract_Partial.rate = map_option partial_of_Coin (MsgOpenContract.rate m),
      MsgOpenContract_Partial.deposit = Some (MsgOpenContract.deposit m),
      MsgOpenContract_Partial.settlementDuration = Some (MsgOpenContract.settlementDuration m),
      MsgOpenContract_Partial.authorization = Some (MsgOpenContract.authorization m),
      MsgOpenContract_Partial.queriesPerMinute = Some (MsgOpenContract.queriesPerMinute m)\<rparr>"

definition ok_MsgOpenContract :: "MsgOpenContract \<Rightarrow> bool" where
  "ok_MsgOpenContract m \<longleftrightarrow> int32_num (MsgOpenContract.contractType m)
     \<and> safe_int (MsgOpenContract.duration m)
     \<and> pred_option ok_Coin (MsgOpenContract.rate m)
     \<and> safe_int (MsgOpenContract.settlementDuration m)
     \<and> int32_num (MsgOpenContract.authorization m)
     \<and> safe_int (MsgOpenContract.queriesPerMinute m)"

definition wf_MsgOpenContract :: "('w, 'r) wire \<Rightarrow> MsgOpenContract \<Rightarrow> bool" where
  "wf_MsgOpenContract L m \<longleftrightarrow> wire_string (MsgOpenContract.creator m)
     \<and> wire_string (MsgOpenContract.provider m)
     \<and> wire_string (MsgOpenContract.service m)
     \<and> wire_string (MsgOpenContract.client m)
     \<and> wire_string (MsgOpenContract.delegate m)
     \<and> int32_num (MsgOpenContract.contractType m)
     \<and> safe_int (MsgOpenContract.duration m)
     \<and> pred_option (\<lambda>v. wf_Coin L v \<and> fits L (encode_Coin L v)) (MsgOpenContract.rate m)
     \<and> wire_string (MsgOpenContract.deposit m)
     \<and> safe_int (MsgOpenContract.settlementDuration m)
     \<and> int32_num (MsgOpenContract.authorization m)
     \<and> safe_int (MsgOpenContract.queriesPerMinute m)"

definition wfj_MsgOpenContract :: "MsgOpenContract \<Rightarrow> bool" where
  "wfj_MsgOpenContract m \<longleftrightarrow> ContractType_known (MsgOpenContract.contractType m)
     \<and> whole (MsgOpenContract.duration m)
     \<and> pred_option wfj_Coin (MsgOpenContract.rate m)
     \<and> whole (MsgOpenContract.settlementDuration m)
     \<and> ContractAuthorization_known (MsgOpenContract.authorization m)
     \<and> whole (MsgOpenContract.queriesPerMinute m)"

subsection \<open>MsgOpenContractResponse\<close>

datatype MsgOpenContractResponse = MsgOpenContractResponse

definition createBase_MsgOpenContractResponse :: MsgOpenContractResponse where
  "createBase_MsgOpenContractResponse = MsgOpenContractResponse"

definition encode_MsgOpenContractResponse :: "('w, 'r) wire \<Rightarrow> MsgOpenContractResponse \<Rightarrow> 'w \<Rightarrow> 'w result" where
  "encode_MsgOpenContractResponse L message = seqE
    []"

definition MsgOpenContractResponse_switch :: "('w, 'r) wire \<Rightarrow> u32 \<Rightarrow> MsgOpenContractResponse \<Rightarrow> (MsgOpenContractResponse, 'r) action" where
  "MsgOpenContractResponse_switch L tag message = js_switch (drop_bit 3 tag)
    []
    break_out"

definition decode_MsgOpenContractResponse :: "('w, 'r) wire \<Rightarrow> 'r input \<Rightarrow> nat option \<Rightarrow> (MsgOpenContractResponse \<times> 'r) result" where
  "decode_MsgOpenContractResponse L = decode_msg L (MsgOpenContractResponse_switch L) createBase_MsgOpenContractResponse"

definition fromJSON_MsgOpenContractResponse :: "host \<Rightarrow> jsval \<Rightarrow> MsgOpenContractResponse result" where
  "fromJSON_MsgOpenContractResponse h object = Inr MsgOpenContractResponse"

definition toJSON_MsgOpenContractResponse :: "host \<Rightarrow> MsgOpenContractResponse \<Rightarrow> jsval result" where
  "toJSON_MsgOpenContractResponse h message = objE []"

text \<open>There is nothing to set: a partial message is the empty object too.\<close>

definition fromPartial_MsgOpenContractResponse :: "MsgOpenContractResponse \<Rightarrow> MsgOpenContractResponse" where
  "fromPartial_MsgOpenContractResponse object = createBase_MsgOpenContractResponse"

definition create_MsgOpenContractResponse :: "MsgOpenContractResponse option \<Rightarrow> MsgOpenContractResponse" where
  "create_MsgOpenContractResponse base = fromPartial_MsgOpenContractResponse (nullish base MsgOpenContractResponse)"

definition ok_MsgOpenContractResponse :: "MsgOpenContractResponse \<Rightarrow> bool" where
  "ok_MsgOpenContractResponse m \<longleftrightarrow> True"

definition wf_MsgOpenContractResponse :: "('w, 'r) wire \<Rightarrow> MsgOpenContractResponse \<Rightarrow> bool" where
  "wf_MsgOpenContractResponse L m \<longleftrightarrow> True"

definition wfj_MsgOpenContractResponse :: "MsgOpenContractResponse \<Rightarrow> bool" where
  "wfj_MsgOpenContractResponse m \<longleftrightarrow> True"

subsection \<open>MsgCloseContract\<close>

record MsgCloseContract =
  creator :: jsstring
  contractId :: number
  client :: bytes
  delegate :: bytes

definition createBase_MsgCloseContract :: MsgCloseContract where
  "createBase_MsgCloseContract = \<lparr>MsgCloseContract.creator = [],
     MsgCloseContract.contractId = Num 0,
     MsgCloseContract.client = [],
     MsgCloseContract.delegate = []\<rparr>"

definition encode_MsgCloseContract :: "('w, 'r) wire \<Rightarrow> MsgCloseContract \<Rightarrow> 'w \<Rightarrow> 'w result" where
  "encode_MsgCloseContract L message = seqE
    [whenE (MsgCloseContract.creator message \<noteq> []) (seqE [w_uint32 L 10, w_string L (MsgCloseContract.creator message)]),
     whenE (MsgCloseContract.contractId message \<noteq> Num 0) (seqE [w_uint32 L 16, w_uint64 L (MsgCloseContract.contractId message)]),
     whenE (length (MsgCloseContract.client message) \<noteq> 0) (seqE [w_uint32 L 26, w_bytes L (MsgCloseContract.client message)]),
     whenE (length (MsgCloseContract.delegate message) \<noteq> 0) (seqE [w_uint32 L 34, w_bytes L (MsgCloseContract.delegate message)])]"

definition MsgCloseContract_switch :: "('w, 'r) wire \<Rightarrow> u32 \<Rightarrow> MsgCloseContract \<Rightarrow> (MsgCloseContract, 'r) action" where
  "MsgCloseContract_switch L tag message = js_switch (drop_bit 3 tag)
    [(1, when_tag tag 10 (readf (r_string L) (\<lambda>v. message\<lparr>MsgCloseContract.creator := v\<rparr>))),
     (2, when_tag tag 16 (readf (num64 (r_uint64 L)) (\<lambda>v. message\<lparr>MsgCloseContract.contractId := v\<rparr>))),
     (3, when_tag tag 26 (readf (r_bytes L) (\<lambda>v. message\<lparr>MsgCloseContract.client := v\<rparr>))),
     (4, when_tag tag 34 (readf (r_bytes L) (\<lambda>v. message\<lparr>MsgCloseContract.delegate := v\<rparr>)))]
    break_out"

definition decode_MsgCloseContract :: "('w, 'r) wire \<Rightarrow> 'r input \<Rightarrow> nat option \<Rightarrow> (MsgCloseContract \<times> 'r) result" where
  "decode_MsgCloseContract L = decode_msg L (MsgCloseContract_switch L) createBase_MsgCloseContract"

definition fromJSON_MsgCloseContract :: "host \<Rightarrow> jsval \<Rightarrow> MsgCloseContract result" where
  "fromJSON_MsgCloseContract h object =
     bindE (fieldE object ''creator'' (stringE h) []) (\<lambda>v_creator.
     bindE (fieldE object ''contractId'' (numberE h) (Num 0)) (\<lambda>v_contractId.
     bindE (fieldE object ''client'' (bytesFromBase64 h) []) (\<lambda>v_client.
     bindE (fieldE object ''delegate'' (bytesFromBase64 h) []) (\<lambda>v_delegate.
     Inr \<lparr>MsgCloseContract.creator = v_creator, MsgCloseContract.contractId = v_contractId, MsgCloseContract.client = v_client, MsgCloseContract.delegate = v_delegate\<rparr>))))"

definition toJSON_MsgCloseContract :: "host \<Rightarrow> MsgCloseContract \<Rightarrow> jsval result" where
  "toJSON_MsgCloseContract h message = objE
    [jfieldE (MsgCloseContract.creator message \<noteq> []) ''creator'' (Inr (JString (MsgCloseContract.creator message))),
     jfieldE (MsgCloseContract.contractId message \<noteq> Num 0) ''contractId'' (Inr (JNumber (Math_round (MsgCloseContract.contractId message)))),
     jfieldE (length (MsgCloseContract.client message) \<noteq> 0) ''client'' (base64E h (MsgCloseContract.client message)),
     jfieldE (length (MsgCloseContract.delegate message) \<noteq> 0) ''delegate'' (base64E h (MsgCloseContract.delegate message))]"

record MsgCloseContract_Partial =
  creator :: "jsstring option"
  contractId :: "number option"
  client :: "bytes option"
  delegate :: "bytes option"

definition MsgCloseContract_empty :: MsgCloseContract_Partial where
  "MsgCloseContract_empty = \<lparr>MsgCloseContract_Partial.creator = None, MsgCloseContract_Partial.contractId = None, MsgCloseContract_Partial.client = None, MsgCloseContract_Partial.delegate = None\<rparr>"

definition fromPartial_MsgCloseContract :: "MsgCloseContract_Partial \<Rightarrow> MsgCloseContract" where
  "fromPartial_MsgCloseContract object = createBase_MsgCloseContract\<lparr>MsgCloseContract.creator := nullish (MsgCloseContract_Partial.creator object) [],
     MsgCloseContract.contractId := nullish (MsgCloseContract_Partial.contractId object) (Num 0),
     MsgCloseContract.client := nullish (MsgCloseContract_Partial.client object) [],
     MsgCloseContract.delegate := nullish (MsgCloseContract_Partial.delegate object) []\<rparr>"

definition create_MsgCloseContract :: "MsgCloseContract_Partial option \<Rightarrow> MsgCloseContract" where
  "create_MsgCloseContract base = fromPartial_MsgCloseContract (nullish base MsgCloseContract_empty)"

text \<open>A partial message that sets every field.\<close>

definition partial_of_MsgCloseContract :: "MsgCloseContract \<Rightarrow> MsgCloseContract_Partial" where
  "partial_of_MsgCloseContract m =
     \<lparr>MsgCloseContract_Partial.creator = Some (MsgCloseContract.creator m),
      MsgCloseContract_Partial.contractId = Some (MsgCloseContract.contractId m),
      MsgCloseContract_Partial.client = Some (MsgCloseContract.client m),
      MsgCloseContract_Partial.delegate = Some (MsgCloseContract.delegate m)\<rparr>"

definition ok_MsgCloseContract :: "MsgCloseContract \<Rightarrow> bool" where
  "ok_MsgCloseContract m \<longleftrightarrow> safe_uint (MsgCloseContract.contractId m)"

definition wf_MsgCloseContract :: "('w, 'r) wire \<Rightarrow> MsgCloseContract \<Rightarrow> bool" where
  "wf_MsgCloseContract L m \<longleftrightarrow> wire_string (MsgCloseContract.creator m)
     \<and> safe_uint (MsgCloseContract.contractId m)
     \<and> wire_bytes (MsgCloseContract.client m)
     \<and> wire_bytes (MsgCloseContract.delegate m)"

definition wfj_MsgCloseContract :: "MsgCloseContract \<Rightarrow> bool" where
  "wfj_MsgCloseContract m \<longleftrightarrow> whole (MsgCloseContract.contractId m)"

subsection \<open>MsgCloseContractResponse\<close>

datatype MsgCloseContractResponse = MsgCloseContractResponse

definition createBase_MsgCloseContractResponse :: MsgCloseContractResponse where
  "createBase_MsgCloseContractResponse = MsgCloseContractResponse"

definition encode_MsgCloseContractResponse :: "('w, 'r) wire \<Rightarrow> MsgCloseContractResponse \<Rightarrow> 'w \<Rightarrow> 'w result" where
  "encode_MsgCloseContractResponse L message = seqE
    []"

definition MsgCloseContractResponse_switch :: "('w, 'r) wire \<Rightarrow> u32 \<Rightarrow> MsgCloseContractResponse \<Rightarrow> (MsgCloseContractResponse, 'r) action" where
  "MsgCloseContractResponse_switch L tag message = js_switch (drop_bit 3 tag)
    []
    break_out"

definition decode_MsgCloseContractResponse :: "('w, 'r) wire \<Rightarrow> 'r input \<Rightarrow> nat option \<Rightarrow> (MsgCloseContractResponse \<times> 'r) result" where
  "decode_MsgCloseContractResponse L = decode_msg L (MsgCloseContractResponse_switch L) createBase_MsgCloseContractResponse"

definition fromJSON_MsgCloseContractResponse :: "host \<Rightarrow> jsval \<Rightarrow> MsgCloseContractResponse result" where
  "fromJSON_MsgCloseContractResponse h object = Inr MsgCloseContractResponse"

definition toJSON_MsgCloseContractResponse :: "host \<Rightarrow> MsgCloseContractResponse \<Rightarrow> jsval result" where
  "toJSON_MsgCloseContractResponse h message = objE []"

text \<open>There is nothing to set: a partial message is the empty object too.\<close>

definition fromPartial_MsgCloseContractResponse :: "MsgCloseContractResponse \<Rightarrow> MsgCloseContractResponse" where
  "fromPartial_MsgCloseContractResponse object = createBase_MsgCloseContractResponse"

definition create_MsgCloseContractResponse :: "MsgCloseContractResponse option \<Rightarrow> MsgCloseContractResponse" where
  "create_MsgCloseContractResponse base = fromPartial_MsgCloseContractResponse (nullish base MsgCloseContractResponse)"

definition ok_MsgCloseContractResponse :: "MsgCloseContractResponse \<Rightarrow> bool" where
  "ok_MsgCloseContractResponse m \<longleftrightarrow> True"

definition wf_MsgCloseContractResponse :: "('w, 'r) wire \<Rightarrow> MsgCloseContractResponse \<Rightarrow> bool" where
  "wf_MsgCloseContractResponse L m \<longleftrightarrow> True"

definition wfj_MsgCloseContractResponse :: "MsgCloseContractResponse \<Rightarrow> bool" where
  "wfj_MsgCloseContractResponse m \<longleftrightarrow> True"

subsection \<open>MsgClaimContractIncome\<close>

record MsgClaimContractIncome =
  creator :: jsstring
  contractId :: number
  signature :: bytes
  nonce :: number

definition createBase_MsgClaimContractIncome :: MsgClaimContractIncome where
  "createBase_MsgClaimContractIncome = \<lparr>MsgClaimContractIncome.creator = [],
     MsgClaimContractIncome.contractId = Num 0,
     MsgClaimContractIncome.signature = [],
     MsgClaimContractIncome.nonce = Num 0\<rparr>"

definition encode_MsgClaimContractIncome :: "('w, 'r) wire \<Rightarrow> MsgClaimContractIncome \<Rightarrow> 'w \<Rightarrow> 'w result" where
  "encode_MsgClaimContractIncome L message = seqE
    [whenE (MsgClaimContractIncome.creator message \<noteq> []) (seqE [w_uint32 L 10, w_string L (MsgClaimContractIncome.creator message)]),
     whenE (MsgClaimContractIncome.contractId message \<noteq> Num 0) (seqE [w_uint32 L 16, w_uint64 L (MsgClaimContractIncome.contractId message)]),
     whenE (length (MsgClaimContractIncome.signature message) \<noteq> 0) (seqE [w_uint32 L 34, w_bytes L (MsgClaimContractIncome.signature message)]),
     whenE (MsgClaimContractIncome.nonce message \<noteq> Num 0) (seqE [w_uint32 L 40, w_int64 L (MsgClaimContractIncome.nonce message)])]"

definition MsgClaimContractIncome_switch :: "('w, 'r) wire \<Rightarrow> u32 \<Rightarrow> MsgClaimContractIncome \<Rightarrow> (MsgClaimContractIncome, 'r) action" where
  "MsgClaimContractIncome_switch L tag message = js_switch (drop_bit 3 tag)
    [(1, when_tag tag 10 (readf (r_string L) (\<lambda>v. message\<lparr>MsgClaimContractIncome.creator := v\<rparr>))),
     (2, when_tag tag 16 (readf (num64 (r_uint64 L)) (\<lambda>v. message\<lparr>MsgClaimContractIncome.contractId := v\<rparr>))),
     (4, when_tag tag 34 (readf (r_bytes L) (\<lambda>v. message\<lparr>MsgClaimContractIncome.signature := v\<rparr>))),
     (5, when_tag tag 40 (readf (num64 (r_int64 L)) (\<lambda>v. message\<lparr>MsgClaimContractIncome.nonce := v\<rparr>)))]
    break_out"

definition decode_MsgClaimContractIncome :: "('w, 'r) wire \<Rightarrow> 'r input \<Rightarrow> nat option \<Rightarrow> (MsgClaimContractIncome \<times> 'r) result" where
  "decode_MsgClaimContractIncome L = decode_msg L (MsgClaimContractIncome_switch L) createBase_MsgClaimContractIncome"

definition fromJSON_MsgClaimContractIncome :: "host \<Rightarrow> jsval \<Rightarrow> MsgClaimContractIncome result" where
  "fromJSON_MsgClaimContractIncome h object =
     bindE (fieldE object ''creator'' (stringE h) []) (\<lambda>v_creator.
     bindE (fieldE object ''contractId'' (numberE h) (Num 0)) (\<lambda>v_contractId.
     bindE (fieldE object ''signature'' (bytesFromBase64 h) []) (\<lambda>v_signature.
     bindE (fieldE object ''nonce'' (numberE h) (Num 0)) (\<lambda>v_nonce.
     Inr \<lparr>MsgClaimContractIncome.creator = v_creator, MsgClaimContractIncome.contractId = v_contractId, MsgClaimContractIncome.signature = v_signature, MsgClaimContractIncome.nonce = v_nonce\<rparr>))))"

definition toJSON_MsgClaimContractIncome :: "host \<Rightarrow> MsgClaimContractIncome \<Rightarrow> jsval result" where
  "toJSON_MsgClaimContractIncome h message = objE
    [jfieldE (MsgClaimContractIncome.creator message \<noteq> []) ''creator'' (Inr (JString (MsgClaimContractIncome.creator message))),
     jfieldE (MsgClaimContractIncome.contractId message \<noteq> Num 0) ''contractId'' (Inr (JNumber (Math_round (MsgClaimContractIncome.contractId message)))),
     jfieldE (length (MsgClaimContractIncome.signature message) \<noteq> 0) ''signature'' (base64E h (MsgClaimContractIncome.signature message)),
     jfieldE (MsgClaimContractIncome.nonce message \<noteq> Num 0) ''nonce'' (Inr (JNumber (Math_round (MsgClaimContractIncome.nonce message))))]"

record MsgClaimContractIncome_Partial =
  creator :: "jsstring option"
  contractId :: "number option"
  signature :: "bytes option"
  nonce :: "number option"

definition MsgClaimContractIncome_empty :: MsgClaimContractIncome_Partial where
  "MsgClaimContractIncome_empty = \<lparr>MsgClaimContractIncome_Partial.creator = None, MsgClaimContractIncome_Partial.contractId = None, MsgClaimContractIncome_Partial.signature = None, MsgClaimContractIncome_Partial.nonce = None\<rparr>"

definition fromPartial_MsgClaimContractIncome :: "MsgClaimContractIncome_Partial \<Rightarrow> MsgClaimContractIncome" where
  "fromPartial_MsgClaimContractIncome object = createBase_MsgClaimContractIncome\<lparr>MsgClaimContractIncome.creator := nullish (MsgClaimContractIncome_Partial.creator object) [],
     MsgClaimContractIncome.contractId := nullish (MsgClaimContractIncome_Partial.contractId object) (Num 0),
     MsgClaimContractIncome.signature := nullish (MsgClaimContractIncome_Partial.signature object) [],
     MsgClaimContractIncome.nonce := nullish (MsgClaimContractIncome_Partial.nonce object) (Num 0)\<rparr>"

definition create_MsgClaimContractIncome :: "MsgClaimContractIncome_Partial option \<Rightarrow> MsgClaimContractIncome" where
  "create_MsgClaimContractIncome base = fromPartial_MsgClaimContractIncome (nullish base MsgClaimContractIncome_empty)"

text \<open>A partial message that sets every field.\<close>

definition partial_of_MsgClaimContractIncome :: "MsgClaimContractIncome \<Rightarrow> MsgClaimContractIncome_Partial" where
  "partial_of_MsgClaimContractIncome m =
     \<lparr>MsgClaimContractIncome_Partial.creator = Some (MsgClaimContractIncome.creator m),
      MsgClaimContractIncome_Partial.contractId = Some (MsgClaimContractIncome.contractId m),
      MsgClaimContractIncome_Partial.signature = Some (MsgClaimContractIncome.signature m),
      MsgClaimContractIncome_Partial.nonce = Some (MsgClaimContractIncome.nonce m)\<rparr>"

definition ok_MsgClaimContractIncome :: "MsgClaimContractIncome \<Rightarrow> bool" where
  "ok_MsgClaimContractIncome m \<longleftrightarrow> safe_uint (MsgClaimContractIncome.contractId m)
     \<and> safe_int (MsgClaimContractIncome.nonce m)"

definition wf_MsgClaimContractIncome :: "('w, 'r) wire \<Rightarrow> MsgClaimContractIncome \<Rightarrow> bool" where
  "wf_MsgClaimContractIncome L m \<longleftrightarrow> wire_string (MsgClaimContractIncome.creator m)
     \<and> safe_uint (MsgClaimContractIncome.contractId m)
     \<and> wire_bytes (MsgClaimContractIncome.signature m)
     \<and> safe_int (MsgClaimContractIncome.nonce m)"

definition wfj_MsgClaimContractIncome :: "MsgClaimContractIncome \<Rightarrow> bool" where
  "wfj_MsgClaimContractIncome m \<longleftrightarrow> whole (MsgClaimContractIncome.contractId m)
     \<and> whole (MsgClaimContractIncome.nonce m)"

subsection \<open>MsgClaimContractIncomeResponse\<close>

datatype MsgClaimContractIncomeResponse = MsgClaimContractIncomeResponse

definition createBase_MsgClaimContractIncomeResponse :: MsgClaimContractIncomeResponse where
  "createBase_MsgClaimContractIncomeResponse = MsgClaimContractIncomeResponse"

definition encode_MsgClaimContractIncomeResponse :: "('w, 'r) wire \<Rightarrow> MsgClaimContractIncomeResponse \<Rightarrow> 'w \<Rightarrow> 'w result" where
  "encode_MsgClaimContractIncomeResponse L message = seqE
    []"

definition MsgClaimContractIncomeResponse_switch :: "('w, 'r) wire \<Rightarrow> u32 \<Rightarrow> MsgClaimContractIncomeResponse \<Rightarrow> (MsgClaimContractIncomeResponse, 'r) action" where
  "MsgClaimContractIncomeResponse_switch L tag message = js_switch (drop_bit 3 tag)
    []
    break_out"

definition decode_MsgClaimContractIncomeResponse :: "('w, 'r) wire \<Rightarrow> 'r input \<Rightarrow> nat option \<Rightarrow> (MsgClaimContractIncomeResponse \<times> 'r) result" where
  "decode_MsgClaimContractIncomeResponse L = decode_msg L (MsgClaimContractIncomeResponse_switch L) createBase_MsgClaimContractIncomeResponse"

definition fromJSON_MsgClaimContractIncomeResponse :: "host \<Rightarrow> jsval \<Rightarrow> MsgClaimContractIncomeResponse result" where
  "fromJSON_MsgClaimContractIncomeResponse h object = Inr MsgClaimContractIncomeResponse"

definition toJSON_MsgClaimContractIncomeResponse :: "host \<Rightarrow> MsgClaimContractIncomeResponse \<Rightarrow> jsval result" where
  "toJSON_MsgClaimContractIncomeResponse h message = objE []"

text \<open>There is nothing to set: a partial message is the empty object too.\<close>

definition fromPartial_MsgClaimContractIncomeResponse :: "MsgClaimContractIncomeResponse \<Rightarrow> MsgClaimContractIncomeResponse" where
  "fromPartial_MsgClaimContractIncomeResponse object = createBase_MsgClaimContractIncomeResponse"

definition create_MsgClaimContractIncomeResponse :: "MsgClaimContractIncomeResponse option \<Rightarrow> MsgClaimContractIncomeResponse" where
  "create_MsgClaimContractIncomeResponse base = fromPartial_MsgClaimContractIncomeResponse (nullish base MsgClaimContractIncomeResponse)"

definition ok_MsgClaimContractIncomeResponse :: "MsgClaimContractIncomeResponse \<Rightarrow> bool" where
  "ok_MsgClaimContractIncomeResponse m \<longleftrightarrow> True"

definition wf_MsgClaimContractIncomeResponse :: "('w, 'r) wire \<Rightarrow> MsgClaimContractIncomeResponse \<Rightarrow> bool" where
  "wf_MsgClaimContractIncomeResponse L m \<longleftrightarrow> True"

definition wfj_MsgClaimContractIncomeResponse :: "MsgClaimContractIncomeResponse \<Rightarrow> bool" where
  "wfj_MsgClaimContractIncomeResponse m \<longleftrightarrow> True"

subsection \<open>MsgSetVersion\<close>

record MsgSetVersion =
  creator :: jsstring
  version :: number

definition createBase_MsgSetVersion :: MsgSetVersion where
  "createBase_MsgSetVersion = \<lparr>MsgSetVersion.creator = [],
     MsgSetVersion.version = Num 0\<rparr>"

definition encode_MsgSetVersion :: "('w, 'r) wire \<Rightarrow> MsgSetVersion \<Rightarrow> 'w \<Rightarrow> 'w result" where
  "encode_MsgSetVersion L message = seqE
    [whenE (MsgSetVersion.creator message \<noteq> []) (seqE [w_uint32 L 10, w_string L (MsgSetVersion.creator message)]),
     whenE (MsgSetVersion.version message \<noteq> Num 0) (seqE [w_uint32 L 16, w_int64 L (MsgSetVersion.version message)])]"

definition MsgSetVersion_switch :: "('w, 'r) wire \<Rightarrow> u32 \<Rightarrow> MsgSetVersion \<Rightarrow> (MsgSetVersion, 'r) action" where
  "MsgSetVersion_switch L tag message = js_switch (drop_bit 3 tag)
    [(1, when_tag tag 10 (readf (r_string L) (\<lambda>v. message\<lparr>MsgSetVersion.creator := v\<rparr>))),
     (2, when_tag tag 16 (readf (num64 (r_int64 L)) (\<lambda>v. message\<lparr>MsgSetVersion.version := v\<rparr>)))]
    break_out"

definition decode_MsgSetVersion :: "('w, 'r) wire \<Rightarrow> 'r input \<Rightarrow> nat option \<Rightarrow> (MsgSetVersion \<times> 'r) result" where
  "decode_MsgSetVersion L = decode_msg L (MsgSetVersion_switch L) createBase_MsgSetVersion"

definition fromJSON_MsgSetVersion :: "host \<Rightarrow> jsval \<Rightarrow> MsgSetVersion result" where
  "fromJSON_MsgSetVersion h object =
     bindE (fieldE object ''creator'' (stringE h) []) (\<lambda>v_creator.
     bindE (fieldE object ''version'' (numberE h) (Num 0)) (\<lambda>v_version.
     Inr \<lparr>MsgSetVersion.creator = v_creator, MsgSetVersion.version = v_version\<rparr>))"

definition toJSON_MsgSetVersion :: "host \<Rightarrow> MsgSetVersion \<Rightarrow> jsval result" where
  "toJSON_MsgSetVersion h message = objE
    [jfieldE (MsgSetVersion.creator message \<noteq> []) ''creator'' (Inr (JString (MsgSetVersion.creator message))),
     jfieldE (MsgSetVersion.version message \<noteq> Num 0) ''version'' (Inr (JNumber (Math_round (MsgSetVersion.version message))))]"

record MsgSetVersion_Partial =
  creator :: "jsstring option"
  version :: "number option"

definition MsgSetVersion_empty :: MsgSetVersion_Partial where
  "MsgSetVersion_empty = \<lparr>MsgSetVersion_Partial.creator = None, MsgSetVersion_Partial.version = None\<rparr>"

definition fromPartial_MsgSetVersion :: "MsgSetVersion_Partial \<Rightarrow> MsgSetVersion" where
  "fromPartial_MsgSetVersion object = createBase_MsgSetVersion\<lparr>MsgSetVersion.creator := nullish (MsgSetVersion_Partial.creator object) [],
     MsgSetVersion.version := nullish (MsgSetVersion_Partial.version object) (Num 0)\<rparr>"

definition create_MsgSetVersion :: "MsgSetVersion_Partial option \<Rightarrow> MsgSetVersion" where
  "create_MsgSetVersion base = fromPartial_MsgSetVersion (nullish base MsgSetVersion_empty)"

text \<open>A partial message that sets every field.\<close>

definition partial_of_MsgSetVersion :: "MsgSetVersion \<Rightarrow> MsgSetVersion_Partial" where
  "partial_of_MsgSetVersion m =
     \<lparr>MsgSetVersion_Partial.creator = Some (MsgSetVersion.creator m),
      MsgSetVersion_Partial.version = Some (MsgSetVersion.version m)\<rparr>"

definition ok_MsgSetVersion :: "MsgSetVersion \<Rightarrow> bool" where
  "ok_MsgSetVersion m \<longleftrightarrow> safe_int (MsgSetVersion.version m)"

definition wf_MsgSetVersion :: "('w, 'r) wire \<Rightarrow> MsgSetVersion \<Rightarrow> bool" where
  "wf_MsgSetVersion L m \<longleftrightarrow> wire_string (MsgSetVersion.creator m)
     \<and> safe_int (MsgSetVersion.version m)"

definition wfj_MsgSetVersion :: "MsgSetVersion \<Rightarrow> bool" where
  "wfj_MsgSetVersion m \<longleftrightarrow> whole (MsgSetVersion.version m)"

subsection \<open>MsgSetVersionResponse\<close>

datatype MsgSetVersionResponse = MsgSetVersionResponse

definition createBase_MsgSetVersionResponse :: MsgSetVersionResponse where
  "createBase_MsgSetVersionResponse = MsgSetVersionResponse"

definition encode_MsgSetVersionResponse :: "('w, 'r) wire \<Rightarrow> MsgSetVersionResponse \<Rightarrow> 'w \<Rightarrow> 'w result" where
  "encode_MsgSetVersionResponse L message = seqE
    []"

definition MsgSetVersionResponse_switch :: "('w, 'r) wire \<Rightarrow> u32 \<Rightarrow> MsgSetVersionResponse \<Rightarrow> (MsgSetVersionResponse, 'r) action" where
  "MsgSetVersionResponse_switch L tag message = js_switch (drop_bit 3 tag)
    []
    break_out"

definition decode_MsgSetVersionResponse :: "('w, 'r) wire \<Rightarrow> 'r input \<Rightarrow> nat option \<Rightarrow> (MsgSetVersionResponse \<times> 'r) result" where
  "decode_MsgSetVersionResponse L = decode_msg L (MsgSetVersionResponse_switch L) createBase_MsgSetVersionResponse"

definition fromJSON_MsgSetVersionResponse :: "host \<Rightarrow> jsval \<Rightarrow> MsgSetVersionResponse result" where
  "fromJSON_MsgSetVersionResponse h object = Inr MsgSetVersionResponse"

definition toJSON_MsgSetVersionResponse :: "host \<Rightarrow> MsgSetVersionResponse \<Rightarrow> jsval result" where
  "toJSON_MsgSetVersionResponse h message = objE []"

text \<open>There is nothing to set: a partial message is the empty object too.\<close>

definition fromPartial_MsgSetVersionResponse :: "MsgSetVersionResponse \<Rightarrow> MsgSetVersionResponse" where
  "fromPartial_MsgSetVersionResponse object = createBase_MsgSetVersionResponse"

definition create_MsgSetVersionResponse :: "MsgSetVersionResponse option \<Rightarrow> MsgSetVersionResponse" where
  "create_MsgSetVersionResponse base = fromPartial_MsgSetVersionResponse (nullish base MsgSetVersionResponse)"

definition ok_MsgSetVersionResponse :: "MsgSetVersionResponse \<Rightarrow> bool" where
  "ok_MsgSetVersionResponse m \<longleftrightarrow> True"

definition wf_MsgSetVersionResponse :: "('w, 'r) wire \<Rightarrow> MsgSetVersionResponse \<Rightarrow> bool" where
  "wf_MsgSetVersionResponse L m \<longleftrightarrow> True"

definition wfj_MsgSetVersionResponse :: "MsgSetVersionResponse \<Rightarrow> bool" where
  "wfj_MsgSetVersionResponse m \<longleftrightarrow> True"

subsection \<open>MsgRegisterService\<close>

record MsgRegisterService =
  creator :: jsstring
  id' :: number
  name :: jsstring
  description :: jsstring
  serviceType :: jsstring

definition createBase_MsgRegisterService :: MsgRegisterService where
  "createBase_MsgRegisterService = \<lparr>MsgRegisterService.creator = [],
     MsgRegisterService.id' = Num 0,
     MsgRegisterService.name = [],
     MsgRegisterService.description = [],
     MsgRegisterService.serviceType = []\<rparr>"

definition encode_MsgRegisterService :: "('w, 'r) wire \<Rightarrow> MsgRegisterService \<Rightarrow> 'w \<Rightarrow> 'w result" where
  "encode_MsgRegisterService L message = seqE
    [whenE (MsgRegisterService.creator message \<noteq> []) (seqE [w_uint32 L 10, w_string L (MsgRegisterService.creator message)]),
     whenE (MsgRegisterService.id' message \<noteq> Num 0) (seqE [w_uint32 L 16, w_uint64 L (MsgRegisterService.id' message)]),
     whenE (MsgRegisterService.name message \<noteq> []) (seqE [w_uint32 L 26, w_string L (MsgRegisterService.name message)]),
     whenE (MsgRegisterService.description message \<noteq> []) (seqE [w_uint32 L 34, w_string L (MsgRegisterService.description message)]),
     whenE (MsgRegisterService.serviceType message \<noteq> []) (seqE [w_uint32 L 42, w_string L (MsgRegisterService.serviceType message)])]"

definition MsgRegisterService_switch :: "('w, 'r) wire \<Rightarrow> u32 \<Rightarrow> MsgRegisterService \<Rightarrow> (MsgRegisterService, 'r) action" where
  "MsgRegisterService_switch L tag message = js_switch (drop_bit 3 tag)
    [(1, when_tag tag 10 (readf (r_string L) (\<lambda>v. message\<lparr>MsgRegisterService.creator := v\<rparr>))),
     (2, when_tag tag 16 (readf (num64 (r_uint64 L)) (\<lambda>v. message\<lparr>MsgRegisterService.id' := v\<rparr>))),
     (3, when_tag tag 26 (readf (r_string L) (\<lambda>v. message\<lparr>MsgRegisterService.name := v\<rparr>))),
     (4, when_tag tag 34 (readf (r_string L) (\<lambda>v. message\<lparr>MsgRegisterService.description := v\<rparr>))),
     (5, when_tag tag 42 (readf (r_string L) (\<lambda>v. message\<lparr>MsgRegisterService.serviceType := v\<rparr>)))]
    break_out"

definition decode_MsgRegisterService :: "('w, 'r) wire \<Rightarrow> 'r input \<Rightarrow> nat option \<Rightarrow> (MsgRegisterService \<times> 'r) result" where
  "decode_MsgRegisterService L = decode_msg L (MsgRegisterService_switch L) createBase_MsgRegisterService"

definition fromJSON_MsgRegisterService :: "host \<Rightarrow> jsval \<Rightarrow> MsgRegisterService result" where
  "fromJSON_MsgRegisterService h object =
     bindE (fieldE object ''creator'' (stringE h) []) (\<lambda>v_creator.
     bindE (fieldE object ''id'' (numberE h) (Num 0)) (\<lambda>v_id.
     bindE (fieldE object ''name'' (stringE h) []) (\<lambda>v_name.
     bindE (fieldE object ''description'' (stringE h) []) (\<lambda>v_description.
     bindE (fieldE object ''serviceType'' (stringE h) []) (\<lambda>v_serviceType.
     Inr \<lparr>MsgRegisterService.creator = v_creator, MsgRegisterService.id' = v_id, MsgRegisterService.name = v_name, MsgRegisterService.description = v_description, MsgRegisterService.serviceType = v_serviceType\<rparr>)))))"

definition toJSON_MsgRegisterService :: "host \<Rightarrow> MsgRegisterService \<Rightarrow> jsval result" where
  "toJSON_MsgRegisterService h message = objE
    [jfieldE (MsgRegisterService.creator message \<noteq> []) ''creator'' (Inr (JString (MsgRegisterService.creator message))),
     jfieldE (MsgRegisterService.id' message \<noteq> Num 0) ''id'' (Inr (JNumber (Math_round (MsgRegisterService.id' message)))),
     jfieldE (MsgRegisterService.name message \<noteq> []) ''name'' (Inr (JString (MsgRegisterService.name message))),
     jfieldE (MsgRegisterService.description message \<noteq> []) ''description'' (Inr (JString (MsgRegisterService.description message))),
     jfieldE (MsgRegisterService.serviceType message \<noteq> []) ''serviceType'' (Inr (JString (MsgRegisterService.serviceType message)))]"

record MsgRegisterService_Partial =
  creator :: "jsstring option"
  id' :: "number option"
  name :: "jsstring option"
  description :: "jsstring option"
  serviceType :: "jsstring option"

definition MsgRegisterService_empty :: MsgRegisterService_Partial where
  "MsgRegisterService_empty = \<lparr>MsgRegisterService_Partial.creator = None, MsgRegisterService_Partial.id' = None, MsgRegisterService_Partial.name = None, MsgRegisterService_Partial.description = None, MsgRegisterService_Partial.serviceType = None\<rparr>"

definition fromPartial_MsgRegisterService :: "MsgRegisterService_Partial \<Rightarrow> MsgRegisterService" where
  "fromPartial_MsgRegisterService object = createBase_MsgRegisterService\<lparr>MsgRegisterService.creator := nullish (MsgRegisterService_Partial.creator object) [],
     MsgRegisterService.id' := nullish (MsgRegisterService_Partial.id' object) (Num 0),
     MsgRegisterService.name := nullish (MsgRegisterService_Partial.name object) [],
     MsgRegisterService.description := nullish (MsgRegisterService_Partial.description object) [],
     MsgRegisterService.serviceType := nullish (MsgRegisterService_Partial.serviceType object) []\<rparr>"

definition create_MsgRegisterService :: "MsgRegisterService_Partial option \<Rightarrow> MsgRegisterService" where
  "create_MsgRegisterService base = fromPartial_MsgRegisterService (nullish base MsgRegisterService_empty)"

text \<open>A partial message that sets every field.\<close>

definition partial_of_MsgRegisterService :: "MsgRegisterService \<Rightarrow> MsgRegisterService_Partial" where
  "partial_of_MsgRegisterService m =
     \<lparr>MsgRegisterService_Partial.creator = Some (MsgRegisterService.creator m),
      MsgRegisterService_Partial.id' = Some (MsgRegisterService.id' m),
      MsgRegisterService_Partial.name = Some (MsgRegisterService.name m),
      MsgRegisterService_Partial.description = Some (MsgRegisterService.description m),
      MsgRegisterService_Partial.serviceType = Some (MsgRegisterService.serviceType m)\<rparr>"

definition ok_MsgRegisterService :: "MsgRegisterService \<Rightarrow> bool" where
  "ok_MsgRegisterService m \<longleftrightarrow> safe_uint (MsgRegisterService.id' m)"

definition wf_MsgRegisterService :: "('w, 'r) wire \<Rightarrow> MsgRegisterService \<Rightarrow> bool" where
  "wf_MsgRegisterService L m \<longleftrightarrow> wire_string (MsgRegisterService.creator m)
     \<and> safe_uint (MsgRegisterService.id' m)
     \<and> wire_string (MsgRegisterService.name m)
     \<and> wire_string (MsgRegisterService.description m)
     \<and> wire_string (MsgRegisterService.serviceType m)"

definition wfj_MsgRegisterService :: "MsgRegisterService \<Rightarrow> bool" where
  "wfj_MsgRegisterService m \<longleftrightarrow> whole (MsgRegisterService.id' m)"

subsection \<open>MsgRegisterServiceResponse\<close>

datatype MsgRegisterServiceResponse = MsgRegisterServiceResponse

definition createBase_MsgRegisterServiceResponse :: MsgRegisterServiceResponse where
  "createBase_MsgRegisterServiceResponse = MsgRegisterServiceResponse"

definition encode_MsgRegisterServiceResponse :: "('w, 'r) wire \<Rightarrow> MsgRegisterServiceResponse \<Rightarrow> 'w \<Rightarrow> 'w result" where
  "encode_MsgRegisterServiceResponse L message = seqE
    []"

definition MsgRegisterServiceResponse_switch :: "('w, 'r) wire \<Rightarrow> u32 \<Rightarrow> MsgRegisterServiceResponse \<Rightarrow> (MsgRegisterServiceResponse, 'r) action" where
  "MsgRegisterServiceResponse_switch L tag message = js_switch (drop_bit 3 tag)
    []
    break_out"

definition decode_MsgRegisterServiceResponse :: "('w, 'r) wire \<Rightarrow> 'r input \<Rightarrow> nat option \<Rightarrow> (MsgRegisterServiceResponse \<times> 'r) result" where
  "decode_MsgRegisterServiceResponse L = decode_msg L (MsgRegisterServiceResponse_switch L) createBase_MsgRegisterServiceResponse"

definition fromJSON_MsgRegisterServiceResponse :: "host \<Rightarrow> jsval \<Rightarrow> MsgRegisterServiceResponse result" where
  "fromJSON_MsgRegisterServiceResponse h object = Inr MsgRegisterServiceResponse"

definition toJSON_MsgRegisterServiceResponse :: "host \<Rightarrow> MsgRegisterServiceResponse \<Rightarrow> jsval result" where
  "toJSON_MsgRegisterServiceResponse h message = objE []"

text \<open>There is nothing to set: a partial message is the empty object too.\<close>

definition fromPartial_MsgRegisterServiceResponse :: "MsgRegisterServiceResponse \<Rightarrow> MsgRegisterServiceResponse" where
  "fromPartial_MsgRegisterServiceResponse object = createBase_MsgRegisterServiceResponse"

definition create_MsgRegisterServiceResponse :: "MsgRegisterServiceResponse option \<Rightarrow> MsgRegisterServiceResponse" where
  "create_MsgRegisterServiceResponse base = fromPartial_MsgRegisterServiceResponse (nullish base MsgRegisterServiceResponse)"

definition ok_MsgRegisterServiceResponse :: "MsgRegisterServiceResponse \<Rightarrow> bool" where
  "ok_MsgRegisterServiceResponse m \<longleftrightarrow> True"

definition wf_MsgRegisterServiceResponse :: "('w, 'r) wire \<Rightarrow> MsgRegisterServiceResponse \<Rightarrow> bool" where
  "wf_MsgRegisterServiceResponse L m \<longleftrightarrow> True"

definition wfj_MsgRegisterServiceResponse :: "MsgRegisterServiceResponse \<Rightarrow> bool" where
  "wfj_MsgRegisterServiceResponse m \<longleftrightarrow> True"

subsection \<open>MsgUpdateService\<close>

record MsgUpdateService =
  creator :: jsstring
  id' :: number
  name :: jsstring
  description :: jsstring
  serviceType :: jsstring

definition createBase_MsgUpdateService :: MsgUpdateService where
  "createBase_MsgUpdateService = \<lparr>MsgUpdateService.creator = [],
     MsgUpdateService.id' = Num 0,
     MsgUpdateService.name = [],
     MsgUpdateService.description = [],
     MsgUpdateService.serviceType = []\<rparr>"

definition encode_MsgUpdateService :: "('w, 'r) wire \<Rightarrow> MsgUpdateService \<Rightarrow> 'w \<Rightarrow> 'w result" where
  "encode_MsgUpdateService L message = seqE
    [whenE (MsgUpdateService.creator message \<noteq> []) (seqE [w_uint32 L 10, w_string L (MsgUpdateService.creator message)]),
     whenE (MsgUpdateService.id' message \<noteq> Num 0) (seqE [w_uint32 L 16, w_uint64 L (MsgUpdateService.id' message)]),
     whenE (MsgUpdateService.name message \<noteq> []) (seqE [w_uint32 L 26, w_string L (MsgUpdateService.name message)]),
     whenE (MsgUpdateService.description message \<noteq> []) (seqE [w_uint32 L 34, w_string L (MsgUpdateService.description message)]),
     whenE (MsgUpdateService.serviceType message \<noteq> []) (seqE [w_uint32 L 42, w_string L (MsgUpdateService.serviceType message)])]"

definition MsgUpdateService_switch :: "('w, 'r) wire \<Rightarrow> u32 \<Rightarrow> MsgUpdateService \<Rightarrow> (MsgUpdateService, 'r) action" where
  "MsgUpdateService_switch L tag message = js_switch (drop_bit 3 tag)
    [(1, when_tag tag 10 (readf (r_string L) (\<lambda>v. message\<lparr>MsgUpdateService.creator := v\<rparr>))),
     (2, when_tag tag 16 (readf (num64 (r_uint64 L)) (\<lambda>v. message\<lparr>MsgUpdateService.id' := v\<rparr>))),
     (3, when_tag tag 26 (readf (r_string L) (\<lambda>v. message\<lparr>MsgUpdateService.name := v\<rparr>))),
     (4, when_tag tag 34 (readf (r_string L) (\<lambda>v. message\<lparr>MsgUpdateService.description := v\<rparr>))),
     (5, when_tag tag 42 (readf (r_string L) (\<lambda>v. message\<lparr>MsgUpdateService.serviceType := v\<rparr>)))]
    break_out"

definition decode_MsgUpdateService :: "('w, 'r) wire \<Rightarrow> 'r input \<Rightarrow> nat option \<Rightarrow> (MsgUpdateService \<times> 'r) result" where
  "decode_MsgUpdateService L = decode_msg L (MsgUpdateService_switch L) createBase_MsgUpdateService"

definition fromJSON_MsgUpdateService :: "host \<Rightarrow> jsval \<Rightarrow> MsgUpdateService result" where
  "fromJSON_MsgUpdateService h object =
     bindE (fieldE object ''creator'' (stringE h) []) (\<lambda>v_creator.
     bindE (fieldE object ''id'' (numberE h) (Num 0)) (\<lambda>v_id.
     bindE (fieldE object ''name'' (stringE h) []) (\<lambda>v_name.
     bindE (fieldE object ''description'' (stringE h) []) (\<lambda>v_description.
     bindE (fieldE object ''serviceType'' (stringE h) []) (\<lambda>v_serviceType.
     Inr \<lparr>MsgUpdateService.creator = v_creator, MsgUpdateService.id' = v_id, MsgUpdateService.name = v_name, MsgUpdateService.description = v_description, MsgUpdateService.serviceType = v_serviceType\<rparr>)))))"

definition toJSON_MsgUpdateService :: "host \<Rightarrow> MsgUpdateService \<Rightarrow> jsval result" where
  "toJSON_MsgUpdateService h message = objE
    [jfieldE (MsgUpdateService.creator message \<noteq> []) ''creator'' (Inr (JString (MsgUpdateService.creator message))),
     jfieldE (MsgUpdateService.id' message \<noteq> Num 0) ''id'' (Inr (JNumber (Math_round (MsgUpdateService.id' message)))),
     jfieldE (MsgUpdateService.name message \<noteq> []) ''name'' (Inr (JString (MsgUpdateService.name message))),
     jfieldE (MsgUpdateService.description message \<noteq> []) ''description'' (Inr (JString (MsgUpdateService.description message))),
     jfieldE (MsgUpdateService.serviceType message \<noteq> []) ''serviceType'' (Inr (JString (MsgUpdateService.serviceType message)))]"

record MsgUpdateService_Partial =
  creator :: "jsstring option"
  id' :: "number option"
  name :: "jsstring option"
  description :: "jsstring option"
  serviceType :: "jsstring option"

definition MsgUpdateService_empty :: MsgUpdateService_Partial where
  "MsgUpdateService_empty = \<lparr>MsgUpdateService_Partial.creator = None, MsgUpdateService_Partial.id' = None, MsgUpdateService_Partial.name = None, MsgUpdateService_Partial.description = None, MsgUpdateService_Partial.serviceType = None\<rparr>"

definition fromPartial_MsgUpdateService :: "MsgUpdateService_Partial \<Rightarrow> MsgUpdateService" where
  "fromPartial_MsgUpdateService object = createBase_MsgUpdateService\<lparr>MsgUpdateService.creator := nullish (MsgUpdateService_Partial.creator object) [],
     MsgUpdateService.id' := nullish (MsgUpdateService_Partial.id' object) (Num 0),
     MsgUpdateService.name := nullish (MsgUpdateService_Partial.name object) [],
     MsgUpdateService.description := nullish (MsgUpdateService_Partial.description object) [],
     MsgUpdateService.serviceType := nullish (MsgUpdateService_Partial.serviceType object) []\<rparr>"

definition create_MsgUpdateService :: "MsgUpdateService_Partial option \<Rightarrow> MsgUpdateService" where
  "create_MsgUpdateService base = fromPartial_MsgUpdateService (nullish base MsgUpdateService_empty)"

text \<open>A partial message that sets every field.\<close>

definition partial_of_MsgUpdateService :: "MsgUpdateService \<Rightarrow> MsgUpdateService_Partial" where
  "partial_of_MsgUpdateService m =
     \<lparr>MsgUpdateService_Partial.creator = Some (MsgUpdateService.creator m),
      MsgUpdateService_Partial.id' = Some (MsgUpdateService.id' m),
      MsgUpdateService_Partial.name = Some (MsgUpdateService.name m),
      MsgUpdateService_Partial.description = Some (MsgUpdateService.description m),
      MsgUpdateService_Partial.serviceType = Some (MsgUpdateService.serviceType m)\<rparr>"

definition ok_MsgUpdateService :: "MsgUpdateService \<Rightarrow> bool" where
  "ok_MsgUpdateService m \<longleftrightarrow> safe_uint (MsgUpdateService.id' m)"

definition wf_MsgUpdateService :: "('w, 'r) wire \<Rightarrow> MsgUpdateService \<Rightarrow> bool" where
  "wf_MsgUpdateService L m \<longleftrightarrow> wire_string (MsgUpdateService.creator m)
     \<and> safe_uint (MsgUpdateService.id' m)
     \<and> wire_string (MsgUpdateService.name m)
     \<and> wire_string (MsgUpdateService.description m)
     \<and> wire_string (MsgUpdateService.serviceType m)"

definition wfj_MsgUpdateService :: "MsgUpdateService \<Rightarrow> bool" where
  "wfj_MsgUpdateService m \<longleftrightarrow> whole (MsgUpdateService.id' m)"

subsection \<open>MsgUpdateServiceResponse\<close>

datatype MsgUpdateServiceResponse = MsgUpdateServiceResponse

definition createBase_MsgUpdateServiceResponse :: MsgUpdateServiceResponse where
  "createBase_MsgUpdateServiceResponse = MsgUpdateServiceResponse"

definition encode_MsgUpdateServiceResponse :: "('w, 'r) wire \<Rightarrow> MsgUpdateServiceResponse \<Rightarrow> 'w \<Rightarrow> 'w result" where
  "encode_MsgUpdateServiceResponse L message = seqE
    []"

definition MsgUpdateServiceResponse_switch :: "('w, 'r) wire \<Rightarrow> u32 \<Rightarrow> MsgUpdateServiceResponse \<Rightarrow> (MsgUpdateServiceResponse, 'r) action" where
  "MsgUpdateServiceResponse_switch L tag message = js_switch (drop_bit 3 tag)
    []
    break_out"

definition decode_MsgUpdateServiceResponse :: "('w, 'r) wire \<Rightarrow> 'r input \<Rightarrow> nat option \<Rightarrow> (MsgUpdateServiceResponse \<times> 'r) result" where
  "decode_MsgUpdateServiceResponse L = decode_msg L (MsgUpdateServiceResponse_switch L) createBase_MsgUpdateServiceResponse"

definition fromJSON_MsgUpdateServiceResponse :: "host \<Rightarrow> jsval \<Rightarrow> MsgUpdateServiceResponse result" where
  "fromJSON_MsgUpdateServiceResponse h object = Inr MsgUpdateServiceResponse"

definition toJSON_MsgUpdateServiceResponse :: "host \<Rightarrow> MsgUpdateServiceResponse \<Rightarrow> jsval result" where
  "toJSON_MsgUpdateServiceResponse h message = objE []"

text \<open>There is nothing to set: a partial message is the empty object too.\<close>

definition fromPartial_MsgUpdateServiceResponse :: "MsgUpdateServiceResponse \<Rightarrow> MsgUpdateServiceResponse" where
  "fromPartial_MsgUpdateServiceResponse object = createBase_MsgUpdateServiceResponse"

definition create_MsgUpdateServiceResponse :: "MsgUpdateServiceResponse option \<Rightarrow> MsgUpdateServiceResponse" where
  "create_MsgUpdateServiceResponse base = fromPartial_MsgUpdateServiceResponse (nullish base MsgUpdateServiceResponse)"

definition ok_MsgUpdateServiceResponse :: "MsgUpdateServiceResponse \<Rightarrow> bool" where
  "ok_MsgUpdateServiceResponse m \<longleftrightarrow> True"

definition wf_MsgUpdateServiceResponse :: "('w, 'r) wire \<Rightarrow> MsgUpdateServiceResponse \<Rightarrow> bool" where
  "wf_MsgUpdateServiceResponse L m \<longleftrightarrow> True"

definition wfj_MsgUpdateServiceResponse :: "MsgUpdateServiceResponse \<Rightarrow> bool" where
  "wfj_MsgUpdateServiceResponse m \<longleftrightarrow> True"

subsection \<open>MsgRemoveService\<close>

record MsgRemoveService =
  creator :: jsstring
  name :: jsstring

definition createBase_MsgRemoveService :: MsgRemoveService where
  "createBase_MsgRemoveService = \<lparr>MsgRemoveService.creator = [],
     MsgRemoveService.name = []\<rparr>"

definition encode_MsgRemoveService :: "('w, 'r) wire \<Rightarrow> MsgRemoveService \<Rightarrow> 'w \<Rightarrow> 'w result" where
  "encode_MsgRemoveService L message = seqE
    [whenE (MsgRemoveService.creator message \<noteq> []) (seqE [w_uint32 L 10, w_string L (MsgRemoveService.creator message)]),
     whenE (MsgRemoveService.name message \<noteq> []) (seqE [w_uint32 L 18, w_string L (MsgRemoveService.name message)])]"

definition MsgRemoveService_switch :: "('w, 'r) wire \<Rightarrow> u32 \<Rightarrow> MsgRemoveService \<Rightarrow> (MsgRemoveService, 'r) action" where
  "MsgRemoveService_switch L tag message = js_switch (drop_bit 3 tag)
    [(1, when_tag tag 10 (readf (r_string L) (\<lambda>v. message\<lparr>MsgRemoveService.creator := v\<rparr>))),
     (2, when_tag tag 18 (readf (r_string L) (\<lambda>v. message\<lparr>MsgRemoveService.name := v\<rparr>)))]
    break_out"

definition decode_MsgRemoveService :: "('w, 'r) wire \<Rightarrow> 'r input \<Rightarrow> nat option \<Rightarrow> (MsgRemoveService \<times> 'r) result" where
  "decode_MsgRemoveService L = decode_msg L (MsgRemoveService_switch L) createBase_MsgRemoveService"

definition fromJSON_MsgRemoveService :: "host \<Rightarrow> jsval \<Rightarrow> MsgRemoveService result" where
  "fromJSON_MsgRemoveService h object =
     bindE (fieldE object ''creator'' (stringE h) []) (\<lambda>v_creator.
     bindE (fieldE object ''name'' (stringE h) []) (\<lambda>v_name.
     Inr \<lparr>MsgRemoveService.creator = v_creator, MsgRemoveService.name = v_name\<rparr>))"

definition toJSON_MsgRemoveService :: "host \<Rightarrow> MsgRemoveService \<Rightarrow> jsval result" where
  "toJSON_MsgRemoveService h message = objE
    [jfieldE (MsgRemoveService.creator message \<noteq> []) ''creator'' (Inr (JString (MsgRemoveService.creator message))),
     jfieldE (MsgRemoveService.name message \<noteq> []) ''name'' (Inr (JString (MsgRemoveService.name message)))]"

record MsgRemoveService_Partial =
  creator :: "jsstring option"
  name :: "jsstring option"

definition MsgRemoveService_empty :: MsgRemoveService_Partial where
  "MsgRemoveService_empty = \<lparr>MsgRemoveService_Partial.creator = None, MsgRemoveService_Partial.name = None\<rparr>"

definition fromPartial_MsgRemoveService :: "MsgRemoveService_Partial \<Rightarrow> MsgRemoveService" where
  "fromPartial_MsgRemoveService object = createBase_MsgRemoveService\<lparr>MsgRemoveService.creator := nullish (MsgRemoveService_Partial.creator object) [],
     MsgRemoveService.name := nullish (MsgRemoveService_Partial.name object) []\<rparr>"

definition create_MsgRemoveService :: "MsgRemoveService_Partial option \<Rightarrow> MsgRemoveService" where
  "create_MsgRemoveService base = fromPartial_MsgRemoveService (nullish base MsgRemoveService_empty)"

text \<open>A partial message that sets every field.\<close>

definition partial_of_MsgRemoveService :: "MsgRemoveService \<Rightarrow> MsgRemoveService_Partial" where
  "partial_of_MsgRemoveService m =
     \<lparr>MsgRemoveService_Partial.creator = Some (MsgRemoveService.creator m),
      MsgRemoveService_Partial.name = Some (MsgRemoveService.name m)\<rparr>"

definition ok_MsgRemoveService :: "MsgRemoveService \<Rightarrow> bool" where
  "ok_MsgRemoveService m \<longleftrightarrow> True"

definition wf_MsgRemoveService :: "('w, 'r) wire \<Rightarrow> MsgRemoveService \<Rightarrow> bool" where
  "wf_MsgRemoveService L m \<longleftrightarrow> wire_string (MsgRemoveService.creator m)
     \<and> wire_string (MsgRemoveService.name m)"

definition wfj_MsgRemoveService :: "MsgRemoveService \<Rightarrow> bool" where
  "wfj_MsgRemoveService m \<longleftrightarrow> True"

subsection \<open>MsgRemoveServiceResponse\<close>

datatype MsgRemoveServiceResponse = MsgRemoveServiceResponse

definition createBase_MsgRemoveServiceResponse :: MsgRemoveServiceResponse where
  "createBase_MsgRemoveServiceResponse = MsgRemoveServiceResponse"

definition encode_MsgRemoveServiceResponse :: "('w, 'r) wire \<Rightarrow> MsgRemoveServiceResponse \<Rightarrow> 'w \<Rightarrow> 'w result" where
  "encode_MsgRemoveServiceResponse L message = seqE
    []"

definition MsgRemoveServiceResponse_switch :: "('w, 'r) wire \<Rightarrow> u32 \<Rightarrow> MsgRemoveServiceResponse \<Rightarrow> (MsgRemoveServiceResponse, 'r) action" where
  "MsgRemoveServiceResponse_switch L tag message = js_switch (drop_bit 3 tag)
    []
    break_out"

definition decode_MsgRemoveServiceResponse :: "('w, 'r) wire \<Rightarrow> 'r input \<Rightarrow> nat option \<Rightarrow> (MsgRemoveServiceResponse \<times> 'r) result" where
  "decode_MsgRemoveServiceResponse L = decode_msg L (MsgRemoveServiceResponse_switch L) createBase_MsgRemoveServiceResponse"

definition fromJSON_MsgRemoveServiceResponse :: "host \<Rightarrow> jsval \<Rightarrow> MsgRemoveServiceResponse result" where
  "fromJSON_MsgRemoveServiceResponse h object = Inr MsgRemoveServiceResponse"

definition toJSON_MsgRemoveServiceResponse :: "host \<Rightarrow> MsgRemoveServiceResponse \<Rightarrow> jsval result" where
  "toJSON_MsgRemoveServiceResponse h message = objE []"

text \<open>There is nothing to set: a partial message is the empty object too.\<close>

definition fromPartial_MsgRemoveServiceResponse :: "MsgRemoveServiceResponse \<Rightarrow> MsgRemoveServiceResponse" where
  "fromPartial_MsgRemoveServiceResponse object = createBase_MsgRemoveServiceResponse"

definition create_MsgRemoveServiceResponse :: "MsgRemoveServiceResponse option \<Rightarrow> MsgRemoveServiceResponse" where
  "create_MsgRemoveServiceResponse base = fromPartial_MsgRemoveServiceResponse (nullish base MsgRemoveServiceResponse)"

definition ok_MsgRemoveServiceResponse :: "MsgRemoveServiceResponse \<Rightarrow> bool" where
  "ok_MsgRemoveServiceResponse m \<longleftrightarrow> True"

definition wf_MsgRemoveServiceResponse :: "('w, 'r) wire \<Rightarrow> MsgRemoveServiceResponse \<Rightarrow> bool" where
  "wf_MsgRemoveServiceResponse L m \<longleftrightarrow> True"

definition wfj_MsgRemoveServiceResponse :: "MsgRemoveServiceResponse \<Rightarrow> bool" where
  "wfj_MsgRemoveServiceResponse m \<longleftrightarrow> True"


section \<open>Encoding, decoding and JSON of these messages\<close>

lemma MsgBondProvider_tags:
  "MsgBondProvider_switch L 10 m = readf (r_string L) (\<lambda>v. m\<lparr>MsgBondProvider.creator := v\<rparr>)"
  "MsgBondProvider_switch L 18 m = readf (r_string L) (\<lambda>v. m\<lparr>MsgBondProvider.provider := v\<rparr>)"
  "MsgBondProvider_switch L 26 m = readf (r_string L) (\<lambda>v. m\<lparr>MsgBondProvider.service := v\<rparr>)"
  "MsgBondProvider_switch L 34 m = readf (r_string L) (\<lambda>v. m\<lparr>MsgBondProvider.bond := v\<rparr>)"
  by (simp_all add: MsgBondProvider_switch_def when_tag_def)

lemma fromPartial_partial_of_MsgBondProvider [simp]: "fromPartial_MsgBondProvider (partial_of_MsgBondProvider m) = m"
  by (simp add: fromPartial_MsgBondProvider_def partial_of_MsgBondProvider_def createBase_MsgBondProvider_def partial_map_def option.map_comp o_def option.map_ident)

lemma create_MsgBondProvider_None [simp]: "create_MsgBondProvider None = createBase_MsgBondProvider"
  by (simp add: create_MsgBondProvider_def fromPartial_MsgBondProvider_def MsgBondProvider_empty_def createBase_MsgBondProvider_def partial_map_def)

sublocale wire_laws \<subseteq> MsgBondProvider_codec: message_codec L F out inp "encode_MsgBondProvider L" "MsgBondProvider_switch L" createBase_MsgBondProvider "wf_MsgBondProvider L"
proof unfold_locales
  show good: "good_sw (MsgBondProvider_switch L)"
    unfolding MsgBondProvider_switch_def by (intro good_swI fwd_rules)
  fix m assume "wf_MsgBondProvider L m"
  then show "codes (MsgBondProvider_switch L) (encode_MsgBondProvider L m) createBase_MsgBondProvider m"
    unfolding encode_MsgBondProvider_def wf_MsgBondProvider_def
    by (elim conjE)
      (rule codes_Cons codes_Nil [OF MsgBondProvider.equality] codec_rules
        codes_when [where tag = 10 and u = MsgBondProvider.creator_update and op = "r_string L", OF good]
        codes_when [where tag = 18 and u = MsgBondProvider.provider_update and op = "r_string L", OF good]
        codes_when [where tag = 26 and u = MsgBondProvider.service_update and op = "r_string L", OF good]
        codes_when [where tag = 34 and u = MsgBondProvider.bond_update and op = "r_string L", OF good]
      | assumption | (simp add: MsgBondProvider_tags createBase_MsgBondProvider_def; fail))+
qed

sublocale wire_laws \<subseteq> MsgBondProvider_range: message_range L F out inp "MsgBondProvider_switch L" createBase_MsgBondProvider ok_MsgBondProvider
proof unfold_locales
  show "ok_MsgBondProvider createBase_MsgBondProvider" by (simp add: ok_MsgBondProvider_def createBase_MsgBondProvider_def)
  fix m tag assume "ok_MsgBondProvider m"
  then show "keeps ok_MsgBondProvider (MsgBondProvider_switch L tag m)"
    unfolding MsgBondProvider_switch_def by - (rule range_rules | (simp add: ok_MsgBondProvider_def; fail))+
qed

context wire_laws
begin

lemmas MsgBondProvider_carries [codec_rules] =
  MsgBondProvider_codec.opt_carries [folded decode_MsgBondProvider_def] MsgBondProvider_codec.list_carries [folded decode_MsgBondProvider_def]

lemmas MsgBondProvider_good [fwd_rules] = MsgBondProvider_codec.op_good [folded decode_MsgBondProvider_def]

lemmas MsgBondProvider_yields [range_rules] = MsgBondProvider_range.sub_range [folded decode_MsgBondProvider_def]

lemmas MsgBondProvider_roundtrip = MsgBondProvider_codec.roundtrip [folded decode_MsgBondProvider_def]

lemmas MsgBondProvider_returns = MsgBondProvider_codec.decode_returns [folded decode_MsgBondProvider_def]

lemmas MsgBondProvider_decoded = MsgBondProvider_range.decode_range [folded decode_MsgBondProvider_def]

end

interpretation MsgBondProvider_json: message_json toJSON_MsgBondProvider fromJSON_MsgBondProvider wfj_MsgBondProvider
proof unfold_locales
  fix h m
  assume "wfj_MsgBondProvider m"
  then show "json_rt (toJSON_MsgBondProvider h) (fromJSON_MsgBondProvider h) m"
    unfolding toJSON_MsgBondProvider_def fromJSON_MsgBondProvider_def wfj_MsgBondProvider_def
    by (-) (rule json_rtI json_rules | assumption | (simp; fail))+
qed

lemmas MsgBondProvider_json_rules [json_rules] = MsgBondProvider_json.json_field_rules

sublocale wire_laws \<subseteq> MsgBondProviderResponse_codec: message_codec L F out inp "encode_MsgBondProviderResponse L" "MsgBondProviderResponse_switch L" createBase_MsgBondProviderResponse "wf_MsgBondProviderResponse L"
proof unfold_locales
  show good: "good_sw (MsgBondProviderResponse_switch L)"
    unfolding MsgBondProviderResponse_switch_def by (intro good_swI fwd_rules)
  fix m assume "wf_MsgBondProviderResponse L m"
  then show "codes (MsgBondProviderResponse_switch L) (encode_MsgBondProviderResponse L m) createBase_MsgBondProviderResponse m"
    unfolding encode_MsgBondProviderResponse_def wf_MsgBondProviderResponse_def
    by (cases m) (simp add: createBase_MsgBondProviderResponse_def codes_Nil [simplified])
qed

sublocale wire_laws \<subseteq> MsgBondProviderResponse_range: message_range L F out inp "MsgBondProviderResponse_switch L" createBase_MsgBondProviderResponse ok_MsgBondProviderResponse
proof unfold_locales
  show "ok_MsgBondProviderResponse createBase_MsgBondProviderResponse" by (simp add: ok_MsgBondProviderResponse_def createBase_MsgBondProviderResponse_def)
  fix m tag assume "ok_MsgBondProviderResponse m"
  then show "keeps ok_MsgBondProviderResponse (MsgBondProviderResponse_switch L tag m)"
    unfolding MsgBondProviderResponse_switch_def by - (rule range_rules | (simp add: ok_MsgBondProviderResponse_def; fail))+
qed

context wire_laws
begin

lemmas MsgBondProviderResponse_carries [codec_rules] =
  MsgBondProviderResponse_codec.opt_carries [folded decode_MsgBondProviderResponse_def] MsgBondProviderResponse_codec.list_carries [folded decode_MsgBondProviderResponse_def]

lemmas MsgBondProviderResponse_good [fwd_rules] = MsgBondProviderResponse_codec.op_good [folded decode_MsgBondProviderResponse_def]

lemmas MsgBondProviderResponse_yields [range_rules] = MsgBondProviderResponse_range.sub_range [folded decode_MsgBondProviderResponse_def]

lemmas MsgBondProviderResponse_roundtrip = MsgBondProviderResponse_codec.roundtrip [folded decode_MsgBondProviderResponse_def]

lemmas MsgBondProviderResponse_returns = MsgBondProviderResponse_codec.decode_returns [folded decode_MsgBondProviderResponse_def]

lemmas MsgBondProviderResponse_decoded = MsgBondProviderResponse_range.decode_range [folded decode_MsgBondProviderResponse_def]

end

interpretation MsgBondProviderResponse_json: message_json toJSON_MsgBondProviderResponse fromJSON_MsgBondProviderResponse wfj_MsgBondProviderResponse
proof unfold_locales
  fix h m
  show "json_rt (toJSON_MsgBondProviderResponse h) (fromJSON_MsgBondProviderResponse h) m"
    by (cases m) (simp add: json_rt_def toJSON_MsgBondProviderResponse_def fromJSON_MsgBondProviderResponse_def objE_rules(1))
qed

lemmas MsgBondProviderResponse_json_rules [json_rules] = MsgBondProviderResponse_json.json_field_rules

lemma MsgModProvider_tags:
  "MsgModProvider_switch L 10 m = readf (r_string L) (\<lambda>v. m\<lparr>MsgModProvider.creator := v\<rparr>)"
  "MsgModProvider_switch L 18 m = readf (r_bytes L) (\<lambda>v. m\<lparr>MsgModProvider.provider := v\<rparr>)"
  "MsgModProvider_switch L 26 m = readf (r_string L) (\<lambda>v. m\<lparr>MsgModProvider.service := v\<rparr>)"
  "MsgModProvider_switch L 34 m = readf (r_string L) (\<lambda>v. m\<lparr>MsgModProvider.metadataUri := v\<rparr>)"
  "MsgModProvider_switch L 40 m = readf (num64 (r_uint64 L)) (\<lambda>v. m\<lparr>MsgModProvider.metadataNonce := v\<rparr>)"
  "MsgModProvider_switch L 48 m = readf (num32 (r_int32 L)) (\<lambda>v. m\<lparr>MsgModProvider.status := v\<rparr>)"
  "MsgModProvider_switch L 56 m = readf (num64 (r_int64 L)) (\<lambda>v. m\<lparr>MsgModProvider.minContractDuration := v\<rparr>)"
  "MsgModProvider_switch L 64 m = readf (num64 (r_int64 L)) (\<lambda>v. m\<lparr>MsgModProvider.maxContractDuration := v\<rparr>)"
  "MsgModProvider_switch L 74 m = readf (submsg L (decode_Coin L)) (\<lambda>v. m\<lparr>MsgModProvider.subscriptionRate := MsgModProvider.subscriptionRate m @ [v]\<rparr>)"
  "MsgModProvider_switch L 82 m = readf (submsg L (decode_Coin L)) (\<lambda>v. m\<lparr>MsgModProvider.payAsYouGoRate := MsgModProvider.payAsYouGoRate m @ [v]\<rparr>)"
  "MsgModProvider_switch L 88 m = readf (num64 (r_int64 L)) (\<lambda>v. m\<lparr>MsgModProvider.settlementDuration := v\<rparr>)"
  by (simp_all add: MsgModProvider_switch_def when_tag_def)

lemma fromPartial_partial_of_MsgModProvider [simp]: "fromPartial_MsgModProvider (partial_of_MsgModProvider m) = m"
  by (simp add: fromPartial_MsgModProvider_def partial_of_MsgModProvider_def createBase_MsgModProvider_def partial_map_def option.map_comp o_def option.map_ident)

lemma create_MsgModProvider_None [simp]: "create_MsgModProvider None = createBase_MsgModProvider"
  by (simp add: create_MsgModProvider_def fromPartial_MsgModProvider_def MsgModProvider_empty_def createBase_MsgModProvider_def partial_map_def)

sublocale wire_laws \<subseteq> MsgModProvider_codec: message_codec L F out inp "encode_MsgModProvider L" "MsgModProvider_switch L" createBase_MsgModProvider "wf_MsgModProvider L"
proof unfold_locales
  show good: "good_sw (MsgModProvider_switch L)"
    unfolding MsgModProvider_switch_def by (intro good_swI fwd_rules)
  fix m assume "wf_MsgModProvider L m"
  then show "codes (MsgModProvider_switch L) (encode_MsgModProvider L m) createBase_MsgModProvider m"
    unfolding encode_MsgModProvider_def wf_MsgModProvider_def
    by (elim conjE)
      (rule codes_Cons codes_Nil [OF MsgModProvider.equality] codec_rules
        codes_when [where tag = 10 and u = MsgModProvider.creator_update and op = "r_string L", OF good]
        codes_when [where tag = 18 and u = MsgModProvider.provider_update and op = "r_bytes L", OF good]
        codes_when [where tag = 26 and u = MsgModProvider.service_update and op = "r_string L", OF good]
        codes_when [where tag = 34 and u = MsgModProvider.metadataUri_update and op = "r_string L", OF good]
        codes_when [where tag = 40 and u = MsgModProvider.metadataNonce_update and op = "num64 (r_uint64 L)", OF good]
        codes_when [where tag = 48 and u = MsgModProvider.status_update and op = "num32 (r_int32 L)", OF good]
        codes_when [where tag = 56 and u = MsgModProvider.minContractDuration_update and op = "num64 (r_int64 L)", OF good]
        codes_when [where tag = 64 and u = MsgModProvider.maxContractDuration_update and op = "num64 (r_int64 L)", OF good]
        codes_for [where tag = 74 and u = MsgModProvider.subscriptionRate_update and op = "submsg L (decode_Coin L)", OF good]
        codes_for [where tag = 82 and u = MsgModProvider.payAsYouGoRate_update and op = "submsg L (decode_Coin L)", OF good]
        codes_when [where tag = 88 and u = MsgModProvider.settlementDuration_update and op = "num64 (r_int64 L)", OF good]
      | assumption | (simp add: MsgModProvider_tags createBase_MsgModProvider_def; fail))+
qed

sublocale wire_laws \<subseteq> MsgModProvider_range: message_range L F out inp "MsgModProvider_switch L" createBase_MsgModProvider ok_MsgModProvider
proof unfold_locales
  show "ok_MsgModProvider createBase_MsgModProvider" by (simp add: ok_MsgModProvider_def createBase_MsgModProvider_def)
  fix m tag assume "ok_MsgModProvider m"
  then show "keeps ok_MsgModProvider (MsgModProvider_switch L tag m)"
    unfolding MsgModProvider_switch_def by - (rule range_rules | (simp add: ok_MsgModProvider_def; fail))+
qed

context wire_laws
begin

lemmas MsgModProvider_carries [codec_rules] =
  MsgModProvider_codec.opt_carries [folded decode_MsgModProvider_def] MsgModProvider_codec.list_carries [folded decode_MsgModProvider_def]

lemmas MsgModProvider_good [fwd_rules] = MsgModProvider_codec.op_good [folded decode_MsgModProvider_def]

lemmas MsgModProvider_yields [range_rules] = MsgModProvider_range.sub_range [folded decode_MsgModProvider_def]

lemmas MsgModProvider_roundtrip = MsgModProvider_codec.roundtrip [folded decode_MsgModProvider_def]

lemmas MsgModProvider_returns = MsgModProvider_codec.decode_returns [folded decode_MsgModProvider_def]

lemmas MsgModProvider_decoded = MsgModProvider_range.decode_range [folded decode_MsgModProvider_def]

end

interpretation MsgModProvider_json: message_json toJSON_MsgModProvider fromJSON_MsgModProvider wfj_MsgModProvider
proof unfold_locales
  fix h m
  assume "wfj_MsgModProvider m"
  then show "json_rt (toJSON_MsgModProvider h) (fromJSON_MsgModProvider h) m"
    unfolding toJSON_MsgModProvider_def fromJSON_MsgModProvider_def wfj_MsgModProvider_def
    by (elim conjE) (rule json_rtI json_rules | assumption | (simp; fail))+
qed

lemmas MsgModProvider_json_rules [json_rules] = MsgModProvider_json.json_field_rules

sublocale wire_laws \<subseteq> MsgModProviderResponse_codec: message_codec L F out inp "encode_MsgModProviderResponse L" "MsgModProviderResponse_switch L" createBase_MsgModProviderResponse "wf_MsgModProviderResponse L"
proof unfold_locales
  show good: "good_sw (MsgModProviderResponse_switch L)"
    unfolding MsgModProviderResponse_switch_def by (intro good_swI fwd_rules)
  fix m assume "wf_MsgModProviderResponse L m"
  then show "codes (MsgModProviderResponse_switch L) (encode_MsgModProviderResponse L m) createBase_MsgModProviderResponse m"
    unfolding encode_MsgModProviderResponse_def wf_MsgModProviderResponse_def
    by (cases m) (simp add: createBase_MsgModProviderResponse_def codes_Nil [simplified])
qed

sublocale wire_laws \<subseteq> MsgModProviderResponse_range: message_range L F out inp "MsgModProviderResponse_switch L" createBase_MsgModProviderResponse ok_MsgModProviderResponse
proof unfold_locales
  show "ok_MsgModProviderResponse createBase_MsgModProviderResponse" by (simp add: ok_MsgModProviderResponse_def createBase_MsgModProviderResponse_def)
  fix m tag assume "ok_MsgModProviderResponse m"
  then show "keeps ok_MsgModProviderResponse (MsgModProviderResponse_switch L tag m)"
    unfolding MsgModProviderResponse_switch_def by - (rule range_rules | (simp add: ok_MsgModProviderResponse_def; fail))+
qed

context wire_laws
begin

lemmas MsgModProviderResponse_carries [codec_rules] =
  MsgModProviderResponse_codec.opt_carries [folded decode_MsgModProviderResponse_def] MsgModProviderResponse_codec.list_carries [folded decode_MsgModProviderResponse_def]

lemmas MsgModProviderResponse_good [fwd_rules] = MsgModProviderResponse_codec.op_good [folded decode_MsgModProviderResponse_def]

lemmas MsgModProviderResponse_yields [range_rules] = MsgModProviderResponse_range.sub_range [folded decode_MsgModProviderResponse_def]

lemmas MsgModProviderResponse_roundtrip = MsgModProviderResponse_codec.roundtrip [folded decode_MsgModProviderResponse_def]

lemmas MsgModProviderResponse_returns = MsgModProviderResponse_codec.decode_returns [folded decode_MsgModProviderResponse_def]

lemmas MsgModProviderResponse_decoded = MsgModProviderResponse_range.decode_range [folded decode_MsgModProviderResponse_def]

end

interpretation MsgModProviderResponse_json: message_json toJSON_MsgModProviderResponse fromJSON_MsgModProviderResponse wfj_MsgModProviderResponse
proof unfold_locales
  fix h m
  show "json_rt (toJSON_MsgModProviderResponse h) (fromJSON_MsgModProviderResponse h) m"
    by (cases m) (simp add: json_rt_def toJSON_MsgModProviderResponse_def fromJSON_MsgModProviderResponse_def objE_rules(1))
qed

lemmas MsgModProviderResponse_json_rules [json_rules] = MsgModProviderResponse_json.json_field_rules

lemma MsgOpenContract_tags:
  "MsgOpenContract_switch L 10 m = readf (r_string L) (\<lambda>v. m\<lparr>MsgOpenContract.creator := v\<rparr>)"
  "MsgOpenContract_switch L 18 m = readf (r_string L) (\<lambda>v. m\<lparr>MsgOpenContract.provider := v\<rparr>)"
  "MsgOpenContract_switch L 26 m = readf (r_string L) (\<lambda>v. m\<lparr>MsgOpenContract.service := v\<rparr>)"
  "MsgOpenContract_switch L 34 m = readf (r_string L) (\<lambda>v. m\<lparr>MsgOpenContract.client := v\<rparr>)"
  "MsgOpenContract_switch L 42 m = readf (r_string L) (\<lambda>v. m\<lparr>MsgOpenContract.delegate := v\<rparr>)"
  "MsgOpenContract_switch L 48 m = readf (num32 (r_int32 L)) (\<lambda>v. m\<lparr>MsgOpenContract.contractType := v\<rparr>)"
  "MsgOpenContract_switch L 56 m = readf (num64 (r_int64 L)) (\<lambda>v. m\<lparr>MsgOpenContract.duration := v\<rparr>)"
  "MsgOpenContract_switch L 66 m = readf (submsg L (decode_Coin L)) (\<lambda>v. m\<lparr>MsgOpenContract.rate := Some v\<rparr>)"
  "MsgOpenContract_switch L 74 m = readf (r_string L) (\<lambda>v. m\<lparr>MsgOpenContract.deposit := v\<rparr>)"
  "MsgOpenContract_switch L 80 m = readf (num64 (r_int64 L)) (\<lambda>v. m\<lparr>MsgOpenContract.settlementDuration := v\<rparr>)"
  "MsgOpenContract_switch L 88 m = readf (num32 (r_int32 L)) (\<lambda>v. m\<lparr>MsgOpenContract.authorization := v\<rparr>)"
  "MsgOpenContract_switch L 96 m = readf (num64 (r_int64 L)) (\<lambda>v. m\<lparr>MsgOpenContract.queriesPerMinute := v\<rparr>)"
  by (simp_all add: MsgOpenContract_switch_def when_tag_def)

lemma fromPartial_partial_of_MsgOpenContract [simp]: "fromPartial_MsgOpenContract (partial_of_MsgOpenContract m) = m"
  by (simp add: fromPartial_MsgOpenContract_def partial_of_MsgOpenContract_def createBase_MsgOpenContract_def partial_map_def option.map_comp o_def option.map_ident)

lemma create_MsgOpenContract_None [simp]: "create_MsgOpenContract None = createBase_MsgOpenContract"
  by (simp add: create_MsgOpenContract_def fromPartial_MsgOpenContract_def MsgOpenContract_empty_def createBase_MsgOpenContract_def partial_map_def)

sublocale wire_laws \<subseteq> MsgOpenContract_codec: message_codec L F out inp "encode_MsgOpenContract L" "MsgOpenContract_switch L" createBase_MsgOpenContract "wf_MsgOpenContract L"
proof unfold_locales
  show good: "good_sw (MsgOpenContract_switch L)"
    unfolding MsgOpenContract_switch_def by (intro good_swI fwd_rules)
  fix m assume "wf_MsgOpenContract L m"
  then show "codes (MsgOpenContract_switch L) (encode_MsgOpenContract L m) createBase_MsgOpenContract m"
    unfolding encode_MsgOpenContract_def wf_MsgOpenContract_def
    by (elim conjE)
      (rule codes_Cons codes_Nil [OF MsgOpenContract.equality] codec_rules
        codes_when [where tag = 10 and u = MsgOpenContract.creator_update and op = "r_string L", OF good]
        codes_when [where tag = 18 and u = MsgOpenContract.provider_update and op = "r_string L", OF good]
        codes_when [where tag = 26 and u = MsgOpenContract.service_update and op = "r_string L", OF good]
        codes_when [where tag = 34 and u = MsgOpenContract.client_update and op = "r_string L", OF good]
        codes_when [where tag = 42 and u = MsgOpenContract.delegate_update and op = "r_string L", OF good]
        codes_when [where tag = 48 and u = MsgOpenContract.contractType_update and op = "num32 (r_int32 L)", OF good]
        codes_when [where tag = 56 and u = MsgOpenContract.duration_update and op = "num64 (r_int64 L)", OF good]
        codes_some [where tag = 66 and u = MsgOpenContract.rate_update and op = "submsg L (decode_Coin L)", OF good]
        codes_when [where tag = 74 and u = MsgOpenContract.deposit_update and op = "r_string L", OF good]
        codes_when [where tag = 80 and u = MsgOpenContract.settlementDuration_update and op = "num64 (r_int64 L)", OF good]
        codes_when [where tag = 88 and u = MsgOpenContract.authorization_update and op = "num32 (r_int32 L)", OF good]
        codes_when [where tag = 96 and u = MsgOpenContract.queriesPerMinute_update and op = "num64 (r_int64 L)", OF good]
      | assumption | (simp add: MsgOpenContract_tags createBase_MsgOpenContract_def; fail))+
qed

sublocale wire_laws \<subseteq> MsgOpenContract_range: message_range L F out inp "MsgOpenContract_switch L" createBase_MsgOpenContract ok_MsgOpenContract
proof unfold_locales
  show "ok_MsgOpenContract createBase_MsgOpenContract" by (simp add: ok_MsgOpenContract_def createBase_MsgOpenContract_def)
  fix m tag assume "ok_MsgOpenContract m"
  then show "keeps ok_MsgOpenContract (MsgOpenContract_switch L tag m)"
    unfolding MsgOpenContract_switch_def by - (rule range_rules | (simp add: ok_MsgOpenContract_def; fail))+
qed

context wire_laws
begin

lemmas MsgOpenContract_carries [codec_rules] =
  MsgOpenContract_codec.opt_carries [folded decode_MsgOpenContract_def] MsgOpenContract_codec.list_carries [folded decode_MsgOpenContract_def]

lemmas MsgOpenContract_good [fwd_rules] = MsgOpenContract_codec.op_good [folded decode_MsgOpenContract_def]

lemmas MsgOpenContract_yields [range_rules] = MsgOpenContract_range.sub_range [folded decode_MsgOpenContract_def]

lemmas MsgOpenContract_roundtrip = MsgOpenContract_codec.roundtrip [folded decode_MsgOpenContract_def]

lemmas MsgOpenContract_returns = MsgOpenContract_codec.decode_returns [folded decode_MsgOpenContract_def]

lemmas MsgOpenContract_decoded = MsgOpenContract_range.decode_range [folded decode_MsgOpenContract_def]

end

interpretation MsgOpenContract_json: message_json toJSON_MsgOpenContract fromJSON_MsgOpenContract wfj_MsgOpenContract
proof unfold_locales
  fix h m
  assume "wfj_MsgOpenContract m"
  then show "json_rt (toJSON_MsgOpenContract h) (fromJSON_MsgOpenContract h) m"
    unfolding toJSON_MsgOpenContract_def fromJSON_MsgOpenContract_def wfj_MsgOpenContract_def
    by (elim conjE) (rule json_rtI json_rules | assumption | (simp; fail))+
qed

lemmas MsgOpenContract_json_rules [json_rules] = MsgOpenContract_json.json_field_rules

sublocale wire_laws \<subseteq> MsgOpenContractResponse_codec: message_codec L F out inp "encode_MsgOpenContractResponse L" "MsgOpenContractResponse_switch L" createBase_MsgOpenContractResponse "wf_MsgOpenContractResponse L"
proof unfold_locales
  show good: "good_sw (MsgOpenContractResponse_switch L)"
    unfolding MsgOpenContractResponse_switch_def by (intro good_swI fwd_rules)
  fix m assume "wf_MsgOpenContractResponse L m"
  then show "codes (MsgOpenContractResponse_switch L) (encode_MsgOpenContractResponse L m) createBase_MsgOpenContractResponse m"
    unfolding encode_MsgOpenContractResponse_def wf_MsgOpenContractResponse_def
    by (cases m) (simp add: createBase_MsgOpenContractResponse_def codes_Nil [simplified])
qed

sublocale wire_laws \<subseteq> MsgOpenContractResponse_range: message_range L F out inp "MsgOpenContractResponse_switch L" createBase_MsgOpenContractResponse ok_MsgOpenContractResponse
proof unfold_locales
  show "ok_MsgOpenContractResponse createBase_MsgOpenContractResponse" by (simp add: ok_MsgOpenContractResponse_def createBase_MsgOpenContractResponse_def)
  fix m tag assume "ok_MsgOpenContractResponse m"
  then show "keeps ok_MsgOpenContractResponse (MsgOpenContractResponse_switch L tag m)"
    unfolding MsgOpenContractResponse_switch_def by - (rule range_rules | (simp add: ok_MsgOpenContractResponse_def; fail))+
qed

context wire_laws
begin

lemmas MsgOpenContractResponse_carries [codec_rules] =
  MsgOpenContractResponse_codec.opt_carries [folded decode_MsgOpenContractResponse_def] MsgOpenContractResponse_codec.list_carries [folded decode_MsgOpenContractResponse_def]

lemmas MsgOpenContractResponse_good [fwd_rules] = MsgOpenContractResponse_codec.op_good [folded decode_MsgOpenContractResponse_def]

lemmas MsgOpenContractResponse_yields [range_rules] = MsgOpenContractResponse_range.sub_range [folded decode_MsgOpenContractResponse_def]

lemmas MsgOpenContractResponse_roundtrip = MsgOpenContractResponse_codec.roundtrip [folded decode_MsgOpenContractResponse_def]

lemmas MsgOpenContractResponse_returns = MsgOpenContractResponse_codec.decode_returns [folded decode_MsgOpenContractResponse_def]

lemmas MsgOpenContractResponse_decoded = MsgOpenContractResponse_range.decode_range [folded decode_MsgOpenContractResponse_def]

end

interpretation MsgOpenContractResponse_json: message_json toJSON_MsgOpenContractResponse fromJSON_MsgOpenContractResponse wfj_MsgOpenContractResponse
proof unfold_locales
  fix h m
  show "json_rt (toJSON_MsgOpenContractResponse h) (fromJSON_MsgOpenContractResponse h) m"
    by (cases m) (simp add: json_rt_def toJSON_MsgOpenContractResponse_def fromJSON_MsgOpenContractResponse_def objE_rules(1))
qed

lemmas MsgOpenContractResponse_json_rules [json_rules] = MsgOpenContractResponse_json.json_field_rules

lemma MsgCloseContract_tags:
  "MsgCloseContract_switch L 10 m = readf (r_string L) (\<lambda>v. m\<lparr>MsgCloseContract.creator := v\<rparr>)"
  "MsgCloseContract_switch L 16 m = readf (num64 (r_uint64 L)) (\<lambda>v. m\<lparr>MsgCloseContract.contractId := v\<rparr>)"
  "MsgCloseContract_switch L 26 m = readf (r_bytes L) (\<lambda>v. m\<lparr>MsgCloseContract.client := v\<rparr>)"
  "MsgCloseContract_switch L 34 m = readf (r_bytes L) (\<lambda>v. m\<lparr>MsgCloseContract.delegate := v\<rparr>)"
  by (simp_all add: MsgCloseContract_switch_def when_tag_def)

lemma fromPartial_partial_of_MsgCloseContract [simp]: "fromPartial_MsgCloseContract (partial_of_MsgCloseContract m) = m"
  by (simp add: fromPartial_MsgCloseContract_def partial_of_MsgCloseContract_def createBase_MsgCloseContract_def partial_map_def option.map_comp o_def option.map_ident)

lemma create_MsgCloseContract_None [simp]: "create_MsgCloseContract None = createBase_MsgCloseContract"
  by (simp add: create_MsgCloseContract_def fromPartial_MsgCloseContract_def MsgCloseContract_empty_def createBase_MsgCloseContract_def partial_map_def)

sublocale wire_laws \<subseteq> MsgCloseContract_codec: message_codec L F out inp "encode_MsgCloseContract L" "MsgCloseContract_switch L" createBase_MsgCloseContract "wf_MsgCloseContract L"
proof unfold_locales
  show good: "good_sw (MsgCloseContract_switch L)"
    unfolding MsgCloseContract_switch_def by (intro good_swI fwd_rules)
  fix m assume "wf_MsgCloseContract L m"
  then show "codes (MsgCloseContract_switch L) (encode_MsgCloseContract L m) createBase_MsgCloseContract m"
    unfolding encode_MsgCloseContract_def wf_MsgCloseContract_def
    by (elim conjE)
      (rule codes_Cons codes_Nil [OF MsgCloseContract.equality] codec_rules
        codes_when [where tag = 10 and u = MsgCloseContract.creator_update and op = "r_string L", OF good]
        codes_when [where tag = 16 and u = MsgCloseContract.contractId_update and op = "num64 (r_uint64 L)", OF good]
        codes_when [where tag = 26 and u = MsgCloseContract.client_update and op = "r_bytes L", OF good]
        codes_when [where tag = 34 and u = MsgCloseContract.delegate_update and op = "r_bytes L", OF good]
      | assumption | (simp add: MsgCloseContract_tags createBase_MsgCloseContract_def; fail))+
qed

sublocale wire_laws \<subseteq> MsgCloseContract_range: message_range L F out inp "MsgCloseContract_switch L" createBase_MsgCloseContract ok_MsgCloseContract
proof unfold_locales
  show "ok_MsgCloseContract createBase_MsgCloseContract" by (simp add: ok_MsgCloseContract_def createBase_MsgCloseContract_def)
  fix m tag assume "ok_MsgCloseContract m"
  then show "keeps ok_MsgCloseContract (MsgCloseContract_switch L tag m)"
    unfolding MsgCloseContract_switch_def by - (rule range_rules | (simp add: ok_MsgCloseContract_def; fail))+
qed

context wire_laws
begin

lemmas MsgCloseContract_carries [codec_rules] =
  MsgCloseContract_codec.opt_carries [folded decode_MsgCloseContract_def] MsgCloseContract_codec.list_carries [folded decode_MsgCloseContract_def]

lemmas MsgCloseContract_good [fwd_rules] = MsgCloseContract_codec.op_good [folded decode_MsgCloseContract_def]

lemmas MsgCloseContract_yields [range_rules] = MsgCloseContract_range.sub_range [folded decode_MsgCloseContract_def]

lemmas MsgCloseContract_roundtrip = MsgCloseContract_codec.roundtrip [folded decode_MsgCloseContract_def]

lemmas MsgCloseContract_returns = MsgCloseContract_codec.decode_returns [folded decode_MsgCloseContract_def]

lemmas MsgCloseContract_decoded = MsgCloseContract_range.decode_range [folded decode_MsgCloseContract_def]

end

interpretation MsgCloseContract_json: message_json toJSON_MsgCloseContract fromJSON_MsgCloseContract wfj_MsgCloseContract
proof unfold_locales
  fix h m
  assume "wfj_MsgCloseContract m"
  then show "json_rt (toJSON_MsgCloseContract h) (fromJSON_MsgCloseContract h) m"
    unfolding toJSON_MsgCloseContract_def fromJSON_MsgCloseContract_def wfj_MsgCloseContract_def
    by (-) (rule json_rtI json_rules | assumption | (simp; fail))+
qed

lemmas MsgCloseContract_json_rules [json_rules] = MsgCloseContract_json.json_field_rules

sublocale wire_laws \<subseteq> MsgCloseContractResponse_codec: message_codec L F out inp "encode_MsgCloseContractResponse L" "MsgCloseContractResponse_switch L" createBase_MsgCloseContractResponse "wf_MsgCloseContractResponse L"
proof unfold_locales
  show good: "good_sw (MsgCloseContractResponse_switch L)"
    unfolding MsgCloseContractResponse_switch_def by (intro good_swI fwd_rules)
  fix m assume "wf_MsgCloseContractResponse L m"
  then show "codes (MsgCloseContractResponse_switch L) (encode_MsgCloseContractResponse L m) createBase_MsgCloseContractResponse m"
    unfolding encode_MsgCloseContractResponse_def wf_MsgCloseContractResponse_def
    by (cases m) (simp add: createBase_MsgCloseContractResponse_def codes_Nil [simplified])
qed

sublocale wire_laws \<subseteq> MsgCloseContractResponse_range: message_range L F out inp "MsgCloseContractResponse_switch L" createBase_MsgCloseContractResponse ok_MsgCloseContractResponse
proof unfold_locales
  show "ok_MsgCloseContractResponse createBase_MsgCloseContractResponse" by (simp add: ok_MsgCloseContractResponse_def createBase_MsgCloseContractResponse_def)
  fix m tag assume "ok_MsgCloseContractResponse m"
  then show "keeps ok_MsgCloseContractResponse (MsgCloseContractResponse_switch L tag m)"
    unfolding MsgCloseContractResponse_switch_def by - (rule range_rules | (simp add: ok_MsgCloseContractResponse_def; fail))+
qed

context wire_laws
begin

lemmas MsgCloseContractResponse_carries [codec_rules] =
  MsgCloseContractResponse_codec.opt_carries [folded decode_MsgCloseContractResponse_def] MsgCloseContractResponse_codec.list_carries [folded decode_MsgCloseContractResponse_def]

lemmas MsgCloseContractResponse_good [fwd_rules] = MsgCloseContractResponse_codec.op_good [folded decode_MsgCloseContractResponse_def]

lemmas MsgCloseContractResponse_yields [range_rules] = MsgCloseContractResponse_range.sub_range [folded decode_MsgCloseContractResponse_def]

lemmas MsgCloseContractResponse_roundtrip = MsgCloseContractResponse_codec.roundtrip [folded decode_MsgCloseContractResponse_def]

lemmas MsgCloseContractResponse_returns = MsgCloseContractResponse_codec.decode_returns [folded decode_MsgCloseContractResponse_def]

lemmas MsgCloseContractResponse_decoded = MsgCloseContractResponse_range.decode_range [folded decode_MsgCloseContractResponse_def]

end

interpretation MsgCloseContractResponse_json: message_json toJSON_MsgCloseContractResponse fromJSON_MsgCloseContractResponse wfj_MsgCloseContractResponse
proof unfold_locales
  fix h m
  show "json_rt (toJSON_MsgCloseContractResponse h) (fromJSON_MsgCloseContractResponse h) m"
    by (cases m) (simp add: json_rt_def toJSON_MsgCloseContractResponse_def fromJSON_MsgCloseContractResponse_def objE_rules(1))
qed

lemmas MsgCloseContractResponse_json_rules [json_rules] = MsgCloseContractResponse_json.json_field_rules

lemma MsgClaimContractIncome_tags:
  "MsgClaimContractIncome_switch L 10 m = readf (r_string L) (\<lambda>v. m\<lparr>MsgClaimContractIncome.creator := v\<rparr>)"
  "MsgClaimContractIncome_switch L 16 m = readf (num64 (r_uint64 L)) (\<lambda>v. m\<lparr>MsgClaimContractIncome.contractId := v\<rparr>)"
  "MsgClaimContractIncome_switch L 34 m = readf (r_bytes L) (\<lambda>v. m\<lparr>MsgClaimContractIncome.signature := v\<rparr>)"
  "MsgClaimContractIncome_switch L 40 m = readf (num64 (r_int64 L)) (\<lambda>v. m\<lparr>MsgClaimContractIncome.nonce := v\<rparr>)"
  by (simp_all add: MsgClaimContractIncome_switch_def when_tag_def)

lemma fromPartial_partial_of_MsgClaimContractIncome [simp]: "fromPartial_MsgClaimContractIncome (partial_of_MsgClaimContractIncome m) = m"
  by (simp add: fromPartial_MsgClaimContractIncome_def partial_of_MsgClaimContractIncome_def createBase_MsgClaimContractIncome_def partial_map_def option.map_comp o_def option.map_ident)

lemma create_MsgClaimContractIncome_None [simp]: "create_MsgClaimContractIncome None = createBase_MsgClaimContractIncome"
  by (simp add: create_MsgClaimContractIncome_def fromPartial_MsgClaimContractIncome_def MsgClaimContractIncome_empty_def createBase_MsgClaimContractIncome_def partial_map_def)

sublocale wire_laws \<subseteq> MsgClaimContractIncome_codec: message_codec L F out inp "encode_MsgClaimContractIncome L" "MsgClaimContractIncome_switch L" createBase_MsgClaimContractIncome "wf_MsgClaimContractIncome L"
proof unfold_locales
  show good: "good_sw (MsgClaimContractIncome_switch L)"
    unfolding MsgClaimContractIncome_switch_def by (intro good_swI fwd_rules)
  fix m assume "wf_MsgClaimContractIncome L m"
  then show "codes (MsgClaimContractIncome_switch L) (encode_MsgClaimContractIncome L m) createBase_MsgClaimContractIncome m"
    unfolding encode_MsgClaimContractIncome_def wf_MsgClaimContractIncome_def
    by (elim conjE)
      (rule codes_Cons codes_Nil [OF MsgClaimContractIncome.equality] codec_rules
        codes_when [where tag = 10 and u = MsgClaimContractIncome.creator_update and op = "r_string L", OF good]
        codes_when [where tag = 16 and u = MsgClaimContractIncome.contractId_update and op = "num64 (r_uint64 L)", OF good]
        codes_when [where tag = 34 and u = MsgClaimContractIncome.signature_update and op = "r_bytes L", OF good]
        codes_when [where tag = 40 and u = MsgClaimContractIncome.nonce_update and op = "num64 (r_int64 L)", OF good]
      | assumption | (simp add: MsgClaimContractIncome_tags createBase_MsgClaimContractIncome_def; fail))+
qed

sublocale wire_laws \<subseteq> MsgClaimContractIncome_range: message_range L F out inp "MsgClaimContractIncome_switch L" createBase_MsgClaimContractIncome ok_MsgClaimContractIncome
proof unfold_locales
  show "ok_MsgClaimContractIncome createBase_MsgClaimContractIncome" by (simp add: ok_MsgClaimContractIncome_def createBase_MsgClaimContractIncome_def)
  fix m tag assume "ok_MsgClaimContractIncome m"
  then show "keeps ok_MsgClaimContractIncome (MsgClaimContractIncome_switch L tag m)"
    unfolding MsgClaimContractIncome_switch_def by - (rule range_rules | (simp add: ok_MsgClaimContractIncome_def; fail))+
qed

context wire_laws
begin

lemmas MsgClaimContractIncome_carries [codec_rules] =
  MsgClaimContractIncome_codec.opt_carries [folded decode_MsgClaimContractIncome_def] MsgClaimContractIncome_codec.list_carries [folded decode_MsgClaimContractIncome_def]

lemmas MsgClaimContractIncome_good [fwd_rules] = MsgClaimContractIncome_codec.op_good [folded decode_MsgClaimContractIncome_def]

lemmas MsgClaimContractIncome_yields [range_rules] = MsgClaimContractIncome_range.sub_range [folded decode_MsgClaimContractIncome_def]

lemmas MsgClaimContractIncome_roundtrip = MsgClaimContractIncome_codec.roundtrip [folded decode_MsgClaimContractIncome_def]

lemmas MsgClaimContractIncome_returns = MsgClaimContractIncome_codec.decode_returns [folded decode_MsgClaimContractIncome_def]

lemmas MsgClaimContractIncome_decoded = MsgClaimContractIncome_range.decode_range [folded decode_MsgClaimContractIncome_def]

end

interpretation MsgClaimContractIncome_json: message_json toJSON_MsgClaimContractIncome fromJSON_MsgClaimContractIncome wfj_MsgClaimContractIncome
proof unfold_locales
  fix h m
  assume "wfj_MsgClaimContractIncome m"
  then show "json_rt (toJSON_MsgClaimContractIncome h) (fromJSON_MsgClaimContractIncome h) m"
    unfolding toJSON_MsgClaimContractIncome_def fromJSON_MsgClaimContractIncome_def wfj_MsgClaimContractIncome_def
    by (elim conjE) (rule json_rtI json_rules | assumption | (simp; fail))+
qed

lemmas MsgClaimContractIncome_json_rules [json_rules] = MsgClaimContractIncome_json.json_field_rules

sublocale wire_laws \<subseteq> MsgClaimContractIncomeResponse_codec: message_codec L F out inp "encode_MsgClaimContractIncomeResponse L" "MsgClaimContractIncomeResponse_switch L" createBase_MsgClaimContractIncomeResponse "wf_MsgClaimContractIncomeResponse L"
proof unfold_locales
  show good: "good_sw (MsgClaimContractIncomeResponse_switch L)"
    unfolding MsgClaimContractIncomeResponse_switch_def by (intro good_swI fwd_rules)
  fix m assume "wf_MsgClaimContractIncomeResponse L m"
  then show "codes (MsgClaimContractIncomeResponse_switch L) (encode_MsgClaimContractIncomeResponse L m) createBase_MsgClaimContractIncomeResponse m"
    unfolding encode_MsgClaimContractIncomeResponse_def wf_MsgClaimContractIncomeResponse_def
    by (cases m) (simp add: createBase_MsgClaimContractIncomeResponse_def codes_Nil [simplified])
qed

sublocale wire_laws \<subseteq> MsgClaimContractIncomeResponse_range: message_range L F out inp "MsgClaimContractIncomeResponse_switch L" createBase_MsgClaimContractIncomeResponse ok_MsgClaimContractIncomeResponse
proof unfold_locales
  show "ok_MsgClaimContractIncomeResponse createBase_MsgClaimContractIncomeResponse" by (simp add: ok_MsgClaimContractIncomeResponse_def createBase_MsgClaimContractIncomeResponse_def)
  fix m tag assume "ok_MsgClaimContractIncomeResponse m"
  then show "keeps ok_MsgClaimContractIncomeResponse (MsgClaimContractIncomeResponse_switch L tag m)"
    unfolding MsgClaimContractIncomeResponse_switch_def by - (rule range_rules | (simp add: ok_MsgClaimContractIncomeResponse_def; fail))+
qed

context wire_laws
begin

lemmas MsgClaimContractIncomeResponse_carries [codec_rules] =
  MsgClaimContractIncomeResponse_codec.opt_carries [folded decode_MsgClaimContractIncomeResponse_def] MsgClaimContractIncomeResponse_codec.list_carries [folded decode_MsgClaimContractIncomeResponse_def]

lemmas MsgClaimContractIncomeResponse_good [fwd_rules] = MsgClaimContractIncomeResponse_codec.op_good [folded decode_MsgClaimContractIncomeResponse_def]

lemmas MsgClaimContractIncomeResponse_yields [range_rules] = MsgClaimContractIncomeResponse_range.sub_range [folded decode_MsgClaimContractIncomeResponse_def]

lemmas MsgClaimContractIncomeResponse_roundtrip = MsgClaimContractIncomeResponse_codec.roundtrip [folded decode_MsgClaimContractIncomeResponse_def]

lemmas MsgClaimContractIncomeResponse_returns = MsgClaimContractIncomeResponse_codec.decode_returns [folded decode_MsgClaimContractIncomeResponse_def]

lemmas MsgClaimContractIncomeResponse_decoded = MsgClaimContractIncomeResponse_range.decode_range [folded decode_MsgClaimContractIncomeResponse_def]

end

interpretation MsgClaimContractIncomeResponse_json: message_json toJSON_MsgClaimContractIncomeResponse fromJSON_MsgClaimContractIncomeResponse wfj_MsgClaimContractIncomeResponse
proof unfold_locales
  fix h m
  show "json_rt (toJSON_MsgClaimContractIncomeResponse h) (fromJSON_MsgClaimContractIncomeResponse h) m"
    by (cases m) (simp add: json_rt_def toJSON_MsgClaimContractIncomeResponse_def fromJSON_MsgClaimContractIncomeResponse_def objE_rules(1))
qed

lemmas MsgClaimContractIncomeResponse_json_rules [json_rules] = MsgClaimContractIncomeResponse_json.json_field_rules

lemma MsgSetVersion_tags:
  "MsgSetVersion_switch L 10 m = readf (r_string L) (\<lambda>v. m\<lparr>MsgSetVersion.creator := v\<rparr>)"
  "MsgSetVersion_switch L 16 m = readf (num64 (r_int64 L)) (\<lambda>v. m\<lparr>MsgSetVersion.version := v\<rparr>)"
  by (simp_all add: MsgSetVersion_switch_def when_tag_def)

lemma fromPartial_partial_of_MsgSetVersion [simp]: "fromPartial_MsgSetVersion (partial_of_MsgSetVersion m) = m"
  by (simp add: fromPartial_MsgSetVersion_def partial_of_MsgSetVersion_def createBase_MsgSetVersion_def partial_map_def option.map_comp o_def option.map_ident)

lemma create_MsgSetVersion_None [simp]: "create_MsgSetVersion None = createBase_MsgSetVersion"
  by (simp add: create_MsgSetVersion_def fromPartial_MsgSetVersion_def MsgSetVersion_empty_def createBase_MsgSetVersion_def partial_map_def)

sublocale wire_laws \<subseteq> MsgSetVersion_codec: message_codec L F out inp "encode_MsgSetVersion L" "MsgSetVersion_switch L" createBase_MsgSetVersion "wf_MsgSetVersion L"
proof unfold_locales
  show good: "good_sw (MsgSetVersion_switch L)"
    unfolding MsgSetVersion_switch_def by (intro good_swI fwd_rules)
  fix m assume "wf_MsgSetVersion L m"
  then show "codes (MsgSetVersion_switch L) (encode_MsgSetVersion L m) createBase_MsgSetVersion m"
    unfolding encode_MsgSetVersion_def wf_MsgSetVersion_def
    by (elim conjE)
      (rule codes_Cons codes_Nil [OF MsgSetVersion.equality] codec_rules
        codes_when [where tag = 10 and u = MsgSetVersion.creator_update and op = "r_string L", OF good]
        codes_when [where tag = 16 and u = MsgSetVersion.version_update and op = "num64 (r_int64 L)", OF good]
      | assumption | (simp add: MsgSetVersion_tags createBase_MsgSetVersion_def; fail))+
qed

sublocale wire_laws \<subseteq> MsgSetVersion_range: message_range L F out inp "MsgSetVersion_switch L" createBase_MsgSetVersion ok_MsgSetVersion
proof unfold_locales
  show "ok_MsgSetVersion createBase_MsgSetVersion" by (simp add: ok_MsgSetVersion_def createBase_MsgSetVersion_def)
  fix m tag assume "ok_MsgSetVersion m"
  then show "keeps ok_MsgSetVersion (MsgSetVersion_switch L tag m)"
    unfolding MsgSetVersion_switch_def by - (rule range_rules | (simp add: ok_MsgSetVersion_def; fail))+
qed

context wire_laws
begin

lemmas MsgSetVersion_carries [codec_rules] =
  MsgSetVersion_codec.opt_carries [folded decode_MsgSetVersion_def] MsgSetVersion_codec.list_carries [folded decode_MsgSetVersion_def]

lemmas MsgSetVersion_good [fwd_rules] = MsgSetVersion_codec.op_good [folded decode_MsgSetVersion_def]

lemmas MsgSetVersion_yields [range_rules] = MsgSetVersion_range.sub_range [folded decode_MsgSetVersion_def]

lemmas MsgSetVersion_roundtrip = MsgSetVersion_codec.roundtrip [folded decode_MsgSetVersion_def]

lemmas MsgSetVersion_returns = MsgSetVersion_codec.decode_returns [folded decode_MsgSetVersion_def]

lemmas MsgSetVersion_decoded = MsgSetVersion_range.decode_range [folded decode_MsgSetVersion_def]

end

interpretation MsgSetVersion_json: message_json toJSON_MsgSetVersion fromJSON_MsgSetVersion wfj_MsgSetVersion
proof unfold_locales
  fix h m
  assume "wfj_MsgSetVersion m"
  then show "json_rt (toJSON_MsgSetVersion h) (fromJSON_MsgSetVersion h) m"
    unfolding toJSON_MsgSetVersion_def fromJSON_MsgSetVersion_def wfj_MsgSetVersion_def
    by (-) (rule json_rtI json_rules | assumption | (simp; fail))+
qed

lemmas MsgSetVersion_json_rules [json_rules] = MsgSetVersion_json.json_field_rules

sublocale wire_laws \<subseteq> MsgSetVersionResponse_codec: message_codec L F out inp "encode_MsgSetVersionResponse L" "MsgSetVersionResponse_switch L" createBase_MsgSetVersionResponse "wf_MsgSetVersionResponse L"
proof unfold_locales
  show good: "good_sw (MsgSetVersionResponse_switch L)"
    unfolding MsgSetVersionResponse_switch_def by (intro good_swI fwd_rules)
  fix m assume "wf_MsgSetVersionResponse L m"
  then show "codes (MsgSetVersionResponse_switch L) (encode_MsgSetVersionResponse L m) createBase_MsgSetVersionResponse m"
    unfolding encode_MsgSetVersionResponse_def wf_MsgSetVersionResponse_def
    by (cases m) (simp add: createBase_MsgSetVersionResponse_def codes_Nil [simplified])
qed

sublocale wire_laws \<subseteq> MsgSetVersionResponse_range: message_range L F out inp "MsgSetVersionResponse_switch L" createBase_MsgSetVersionResponse ok_MsgSetVersionResponse
proof unfold_locales
  show "ok_MsgSetVersionResponse createBase_MsgSetVersionResponse" by (simp add: ok_MsgSetVersionResponse_def createBase_MsgSetVersionResponse_def)
  fix m tag assume "ok_MsgSetVersionResponse m"
  then show "keeps ok_MsgSetVersionResponse (MsgSetVersionResponse_switch L tag m)"
    unfolding MsgSetVersionResponse_switch_def by - (rule range_rules | (simp add: ok_MsgSetVersionResponse_def; fail))+
qed

context wire_laws
begin

lemmas MsgSetVersionResponse_carries [codec_rules] =
  MsgSetVersionResponse_codec.opt_carries [folded decode_MsgSetVersionResponse_def] MsgSetVersionResponse_codec.list_carries [folded decode_MsgSetVersionResponse_def]

lemmas MsgSetVersionResponse_good [fwd_rules] = MsgSetVersionResponse_codec.op_good [folded decode_MsgSetVersionResponse_def]

lemmas MsgSetVersionResponse_yields [range_rules] = MsgSetVersionResponse_range.sub_range [folded decode_MsgSetVersionResponse_def]

lemmas MsgSetVersionResponse_roundtrip = MsgSetVersionResponse_codec.roundtrip [folded decode_MsgSetVersionResponse_def]

lemmas MsgSetVersionResponse_returns = MsgSetVersionResponse_codec.decode_returns [folded decode_MsgSetVersionResponse_def]

lemmas MsgSetVersionResponse_decoded = MsgSetVersionResponse_range.decode_range [folded decode_MsgSetVersionResponse_def]

end

interpretation MsgSetVersionResponse_json: message_json toJSON_MsgSetVersionResponse fromJSON_MsgSetVersionResponse wfj_MsgSetVersionResponse
proof unfold_locales
  fix h m
  show "json_rt (toJSON_MsgSetVersionResponse h) (fromJSON_MsgSetVersionResponse h) m"
    by (cases m) (simp add: json_rt_def toJSON_MsgSetVersionResponse_def fromJSON_MsgSetVersionResponse_def objE_rules(1))
qed

lemmas MsgSetVersionResponse_json_rules [json_rules] = MsgSetVersionResponse_json.json_field_rules

lemma MsgRegisterService_tags:
  "MsgRegisterService_switch L 10 m = readf (r_string L) (\<lambda>v. m\<lparr>MsgRegisterService.creator := v\<rparr>)"
  "MsgRegisterService_switch L 16 m = readf (num64 (r_uint64 L)) (\<lambda>v. m\<lparr>MsgRegisterService.id' := v\<rparr>)"
  "MsgRegisterService_switch L 26 m = readf (r_string L) (\<lambda>v. m\<lparr>MsgRegisterService.name := v\<rparr>)"
  "MsgRegisterService_switch L 34 m = readf (r_string L) (\<lambda>v. m\<lparr>MsgRegisterService.description := v\<rparr>)"
  "MsgRegisterService_switch L 42 m = readf (r_string L) (\<lambda>v. m\<lparr>MsgRegisterService.serviceType := v\<rparr>)"
  by (simp_all add: MsgRegisterService_switch_def when_tag_def)

lemma fromPartial_partial_of_MsgRegisterService [simp]: "fromPartial_MsgRegisterService (partial_of_MsgRegisterService m) = m"
  by (simp add: fromPartial_MsgRegisterService_def partial_of_MsgRegisterService_def createBase_MsgRegisterService_def partial_map_def option.map_comp o_def option.map_ident)

lemma create_MsgRegisterService_None [simp]: "create_MsgRegisterService None = createBase_MsgRegisterService"
  by (simp add: create_MsgRegisterService_def fromPartial_MsgRegisterService_def MsgRegisterService_empty_def createBase_MsgRegisterService_def partial_map_def)

sublocale wire_laws \<subseteq> MsgRegisterService_codec: message_codec L F out inp "encode_MsgRegisterService L" "MsgRegisterService_switch L" createBase_MsgRegisterService "wf_MsgRegisterService L"
proof unfold_locales
  show good: "good_sw (MsgRegisterService_switch L)"
    unfolding MsgRegisterService_switch_def by (intro good_swI fwd_rules)
  fix m assume "wf_MsgRegisterService L m"
  then show "codes (MsgRegisterService_switch L) (encode_MsgRegisterService L m) createBase_MsgRegisterService m"
    unfolding encode_MsgRegisterService_def wf_MsgRegisterService_def
    by (elim conjE)
      (rule codes_Cons codes_Nil [OF MsgRegisterService.equality] codec_rules
        codes_when [where tag = 10 and u = MsgRegisterService.creator_update and op = "r_string L", OF good]
        codes_when [where tag = 16 and u = MsgRegisterService.id'_update and op = "num64 (r_uint64 L)", OF good]
        codes_when [where tag = 26 and u = MsgRegisterService.name_update and op = "r_string L", OF good]
        codes_when [where tag = 34 and u = MsgRegisterService.description_update and op = "r_string L", OF good]
        codes_when [where tag = 42 and u = MsgRegisterService.serviceType_update and op = "r_string L", OF good]
      | assumption | (simp add: MsgRegisterService_tags createBase_MsgRegisterService_def; fail))+
qed

sublocale wire_laws \<subseteq> MsgRegisterService_range: message_range L F out inp "MsgRegisterService_switch L" createBase_MsgRegisterService ok_MsgRegisterService
proof unfold_locales
  show "ok_MsgRegisterService createBase_MsgRegisterService" by (simp add: ok_MsgRegisterService_def createBase_MsgRegisterService_def)
  fix m tag assume "ok_MsgRegisterService m"
  then show "keeps ok_MsgRegisterService (MsgRegisterService_switch L tag m)"
    unfolding MsgRegisterService_switch_def by - (rule range_rules | (simp add: ok_MsgRegisterService_def; fail))+
qed

context wire_laws
begin

lemmas MsgRegisterService_carries [codec_rules] =
  MsgRegisterService_codec.opt_carries [folded decode_MsgRegisterService_def] MsgRegisterService_codec.list_carries [folded decode_MsgRegisterService_def]

lemmas MsgRegisterService_good [fwd_rules] = MsgRegisterService_codec.op_good [folded decode_MsgRegisterService_def]

lemmas MsgRegisterService_yields [range_rules] = MsgRegisterService_range.sub_range [folded decode_MsgRegisterService_def]

lemmas MsgRegisterService_roundtrip = MsgRegisterService_codec.roundtrip [folded decode_MsgRegisterService_def]

lemmas MsgRegisterService_returns = MsgRegisterService_codec.decode_returns [folded decode_MsgRegisterService_def]

lemmas MsgRegisterService_decoded = MsgRegisterService_range.decode_range [folded decode_MsgRegisterService_def]

end

interpretation MsgRegisterService_json: message_json toJSON_MsgRegisterService fromJSON_MsgRegisterService wfj_MsgRegisterService
proof unfold_locales
  fix h m
  assume "wfj_MsgRegisterService m"
  then show "json_rt (toJSON_MsgRegisterService h) (fromJSON_MsgRegisterService h) m"
    unfolding toJSON_MsgRegisterService_def fromJSON_MsgRegisterService_def wfj_MsgRegisterService_def
    by (-) (rule json_rtI json_rules | assumption | (simp; fail))+
qed

lemmas MsgRegisterService_json_rules [json_rules] = MsgRegisterService_json.json_field_rules

sublocale wire_laws \<subseteq> MsgRegisterServiceResponse_codec: message_codec L F out inp "encode_MsgRegisterServiceResponse L" "MsgRegisterServiceResponse_switch L" createBase_MsgRegisterServiceResponse "wf_MsgRegisterServiceResponse L"
proof unfold_locales
  show good: "good_sw (MsgRegisterServiceResponse_switch L)"
    unfolding MsgRegisterServiceResponse_switch_def by (intro good_swI fwd_rules)
  fix m assume "wf_MsgRegisterServiceResponse L m"
  then show "codes (MsgRegisterServiceResponse_switch L) (encode_MsgRegisterServiceResponse L m) createBase_MsgRegisterServiceResponse m"
    unfolding encode_MsgRegisterServiceResponse_def wf_MsgRegisterServiceResponse_def
    by (cases m) (simp add: createBase_MsgRegisterServiceResponse_def codes_Nil [simplified])
qed

sublocale wire_laws \<subseteq> MsgRegisterServiceResponse_range: message_range L F out inp "MsgRegisterServiceResponse_switch L" createBase_MsgRegisterServiceResponse ok_MsgRegisterServiceResponse
proof unfold_locales
  show "ok_MsgRegisterServiceResponse createBase_MsgRegisterServiceResponse" by (simp add: ok_MsgRegisterServiceResponse_def createBase_MsgRegisterServiceResponse_def)
  fix m tag assume "ok_MsgRegisterServiceResponse m"
  then show "keeps ok_MsgRegisterServiceResponse (MsgRegisterServiceResponse_switch L tag m)"
    unfolding MsgRegisterServiceResponse_switch_def by - (rule range_rules | (simp add: ok_MsgRegisterServiceResponse_def; fail))+
qed

context wire_laws
begin

lemmas MsgRegisterServiceResponse_carries [codec_rules] =
  MsgRegisterServiceResponse_codec.opt_carries [folded decode_MsgRegisterServiceResponse_def] MsgRegisterServiceResponse_codec.list_carries [folded decode_MsgRegisterServiceResponse_def]

lemmas MsgRegisterServiceResponse_good [fwd_rules] = MsgRegisterServiceResponse_codec.op_good [folded decode_MsgRegisterServiceResponse_def]

lemmas MsgRegisterServiceResponse_yields [range_rules] = MsgRegisterServiceResponse_range.sub_range [folded decode_MsgRegisterServiceResponse_def]

lemmas MsgRegisterServiceResponse_roundtrip = MsgRegisterServiceResponse_codec.roundtrip [folded decode_MsgRegisterServiceResponse_def]

lemmas MsgRegisterServiceResponse_returns = MsgRegisterServiceResponse_codec.decode_returns [folded decode_MsgRegisterServiceResponse_def]

lemmas MsgRegisterServiceResponse_decoded = MsgRegisterServiceResponse_range.decode_range [folded decode_MsgRegisterServiceResponse_def]

end

interpretation MsgRegisterServiceResponse_json: message_json toJSON_MsgRegisterServiceResponse fromJSON_MsgRegisterServiceResponse wfj_MsgRegisterServiceResponse
proof unfold_locales
  fix h m
  show "json_rt (toJSON_MsgRegisterServiceResponse h) (fromJSON_MsgRegisterServiceResponse h) m"
    by (cases m) (simp add: json_rt_def toJSON_MsgRegisterServiceResponse_def fromJSON_MsgRegisterServiceResponse_def objE_rules(1))
qed

lemmas MsgRegisterServiceResponse_json_rules [json_rules] = MsgRegisterServiceResponse_json.json_field_rules

lemma MsgUpdateService_tags:
  "MsgUpdateService_switch L 10 m = readf (r_string L) (\<lambda>v. m\<lparr>MsgUpdateService.creator := v\<rparr>)"
  "MsgUpdateService_switch L 16 m = readf (num64 (r_uint64 L)) (\<lambda>v. m\<lparr>MsgUpdateService.id' := v\<rparr>)"
  "MsgUpdateService_switch L 26 m = readf (r_string L) (\<lambda>v. m\<lparr>MsgUpdateService.name := v\<rparr>)"
  "MsgUpdateService_switch L 34 m = readf (r_string L) (\<lambda>v. m\<lparr>MsgUpdateService.description := v\<rparr>)"
  "MsgUpdateService_switch L 42 m = readf (r_string L) (\<lambda>v. m\<lparr>MsgUpdateService.serviceType := v\<rparr>)"
  by (simp_all add: MsgUpdateService_switch_def when_tag_def)

lemma fromPartial_partial_of_MsgUpdateService [simp]: "fromPartial_MsgUpdateService (partial_of_MsgUpdateService m) = m"
  by (simp add: fromPartial_MsgUpdateService_def partial_of_MsgUpdateService_def createBase_MsgUpdateService_def partial_map_def option.map_comp o_def option.map_ident)

lemma create_MsgUpdateService_None [simp]: "create_MsgUpdateService None = createBase_MsgUpdateService"
  by (simp add: create_MsgUpdateService_def fromPartial_MsgUpdateService_def MsgUpdateService_empty_def createBase_MsgUpdateService_def partial_map_def)

sublocale wire_laws \<subseteq> MsgUpdateService_codec: message_codec L F out inp "encode_MsgUpdateService L" "MsgUpdateService_switch L" createBase_MsgUpdateService "wf_MsgUpdateService L"
proof unfold_locales
  show good: "good_sw (MsgUpdateService_switch L)"
    unfolding MsgUpdateService_switch_def by (intro good_swI fwd_rules)
  fix m assume "wf_MsgUpdateService L m"
  then show "codes (MsgUpdateService_switch L) (encode_MsgUpdateService L m) createBase_MsgUpdateService m"
    unfolding encode_MsgUpdateService_def wf_MsgUpdateService_def
    by (elim conjE)
      (rule codes_Cons codes_Nil [OF MsgUpdateService.equality] codec_rules
        codes_when [where tag = 10 and u = MsgUpdateService.creator_update and op = "r_string L", OF good]
        codes_when [where tag = 16 and u = MsgUpdateService.id'_update and op = "num64 (r_uint64 L)", OF good]
        codes_when [where tag = 26 and u = MsgUpdateService.name_update and op = "r_string L", OF good]
        codes_when [where tag = 34 and u = MsgUpdateService.description_update and op = "r_string L", OF good]
        codes_when [where tag = 42 and u = MsgUpdateService.serviceType_update and op = "r_string L", OF good]
      | assumption | (simp add: MsgUpdateService_tags createBase_MsgUpdateService_def; fail))+
qed

sublocale wire_laws \<subseteq> MsgUpdateService_range: message_range L F out inp "MsgUpdateService_switch L" createBase_MsgUpdateService ok_MsgUpdateService
proof unfold_locales
  show "ok_MsgUpdateService createBase_MsgUpdateService" by (simp add: ok_MsgUpdateService_def createBase_MsgUpdateService_def)
  fix m tag assume "ok_MsgUpdateService m"
  then show "keeps ok_MsgUpdateService (MsgUpdateService_switch L tag m)"
    unfolding MsgUpdateService_switch_def by - (rule range_rules | (simp add: ok_MsgUpdateService_def; fail))+
qed

context wire_laws
begin

lemmas MsgUpdateService_carries [codec_rules] =
  MsgUpdateService_codec.opt_carries [folded decode_MsgUpdateService_def] MsgUpdateService_codec.list_carries [folded decode_MsgUpdateService_def]

lemmas MsgUpdateService_good [fwd_rules] = MsgUpdateService_codec.op_good [folded decode_MsgUpdateService_def]

lemmas MsgUpdateService_yields [range_rules] = MsgUpdateService_range.sub_range [folded decode_MsgUpdateService_def]

lemmas MsgUpdateService_roundtrip = MsgUpdateService_codec.roundtrip [folded decode_MsgUpdateService_def]

lemmas MsgUpdateService_returns = MsgUpdateService_codec.decode_returns [folded decode_MsgUpdateService_def]

lemmas MsgUpdateService_decoded = MsgUpdateService_range.decode_range [folded decode_MsgUpdateService_def]

end

interpretation MsgUpdateService_json: message_json toJSON_MsgUpdateService fromJSON_MsgUpdateService wfj_MsgUpdateService
proof unfold_locales
  fix h m
  assume "wfj_MsgUpdateService m"
  then show "json_rt (toJSON_MsgUpdateService h) (fromJSON_MsgUpdateService h) m"
    unfolding toJSON_MsgUpdateService_def fromJSON_MsgUpdateService_def wfj_MsgUpdateService_def
    by (-) (rule json_rtI json_rules | assumption | (simp; fail))+
qed

lemmas MsgUpdateService_json_rules [json_rules] = MsgUpdateService_json.json_field_rules

sublocale wire_laws \<subseteq> MsgUpdateServiceResponse_codec: message_codec L F out inp "encode_MsgUpdateServiceResponse L" "MsgUpdateServiceResponse_switch L" createBase_MsgUpdateServiceResponse "wf_MsgUpdateServiceResponse L"
proof unfold_locales
  show good: "good_sw (MsgUpdateServiceResponse_switch L)"
    unfolding MsgUpdateServiceResponse_switch_def by (intro good_swI fwd_rules)
  fix m assume "wf_MsgUpdateServiceResponse L m"
  then show "codes (MsgUpdateServiceResponse_switch L) (encode_MsgUpdateServiceResponse L m) createBase_MsgUpdateServiceResponse m"
    unfolding encode_MsgUpdateServiceResponse_def wf_MsgUpdateServiceResponse_def
    by (cases m) (simp add: createBase_MsgUpdateServiceResponse_def codes_Nil [simplified])
qed

sublocale wire_laws \<subseteq> MsgUpdateServiceResponse_range: message_range L F out inp "MsgUpdateServiceResponse_switch L" createBase_MsgUpdateServiceResponse ok_MsgUpdateServiceResponse
proof unfold_locales
  show "ok_MsgUpdateServiceResponse createBase_MsgUpdateServiceResponse" by (simp add: ok_MsgUpdateServiceResponse_def createBase_MsgUpdateServiceResponse_def)
  fix m tag assume "ok_MsgUpdateServiceResponse m"
  then show "keeps ok_MsgUpdateServiceResponse (MsgUpdateServiceResponse_switch L tag m)"
    unfolding MsgUpdateServiceResponse_switch_def by - (rule range_rules | (simp add: ok_MsgUpdateServiceResponse_def; fail))+
qed

context wire_laws
begin

lemmas MsgUpdateServiceResponse_carries [codec_rules] =
  MsgUpdateServiceResponse_codec.opt_carries [folded decode_MsgUpdateServiceResponse_def] MsgUpdateServiceResponse_codec.list_carries [folded decode_MsgUpdateServiceResponse_def]

lemmas MsgUpdateServiceResponse_good [fwd_rules] = MsgUpdateServiceResponse_codec.op_good [folded decode_MsgUpdateServiceResponse_def]

lemmas MsgUpdateServiceResponse_yields [range_rules] = MsgUpdateServiceResponse_range.sub_range [folded decode_MsgUpdateServiceResponse_def]

lemmas MsgUpdateServiceResponse_roundtrip = MsgUpdateServiceResponse_codec.roundtrip [folded decode_MsgUpdateServiceResponse_def]

lemmas MsgUpdateServiceResponse_returns = MsgUpdateServiceResponse_codec.decode_returns [folded decode_MsgUpdateServiceResponse_def]

lemmas MsgUpdateServiceResponse_decoded = MsgUpdateServiceResponse_range.decode_range [folded decode_MsgUpdateServiceResponse_def]

end

interpretation MsgUpdateServiceResponse_json: message_json toJSON_MsgUpdateServiceResponse fromJSON_MsgUpdateServiceResponse wfj_MsgUpdateServiceResponse
proof unfold_locales
  fix h m
  show "json_rt (toJSON_MsgUpdateServiceResponse h) (fromJSON_MsgUpdateServiceResponse h) m"
    by (cases m) (simp add: json_rt_def toJSON_MsgUpdateServiceResponse_def fromJSON_MsgUpdateServiceResponse_def objE_rules(1))
qed

lemmas MsgUpdateServiceResponse_json_rules [json_rules] = MsgUpdateServiceResponse_json.json_field_rules

lemma MsgRemoveService_tags:
  "MsgRemoveService_switch L 10 m = readf (r_string L) (\<lambda>v. m\<lparr>MsgRemoveService.creator := v\<rparr>)"
  "MsgRemoveService_switch L 18 m = readf (r_string L) (\<lambda>v. m\<lparr>MsgRemoveService.name := v\<rparr>)"
  by (simp_all add: MsgRemoveService_switch_def when_tag_def)

lemma fromPartial_partial_of_MsgRemoveService [simp]: "fromPartial_MsgRemoveService (partial_of_MsgRemoveService m) = m"
  by (simp add: fromPartial_MsgRemoveService_def partial_of_MsgRemoveService_def createBase_MsgRemoveService_def partial_map_def option.map_comp o_def option.map_ident)

lemma create_MsgRemoveService_None [simp]: "create_MsgRemoveService None = createBase_MsgRemoveService"
  by (simp add: create_MsgRemoveService_def fromPartial_MsgRemoveService_def MsgRemoveService_empty_def createBase_MsgRemoveService_def partial_map_def)

sublocale wire_laws \<subseteq> MsgRemoveService_codec: message_codec L F out inp "encode_MsgRemoveService L" "MsgRemoveService_switch L" createBase_MsgRemoveService "wf_MsgRemoveService L"
proof unfold_locales
  show good: "good_sw (MsgRemoveService_switch L)"
    unfolding MsgRemoveService_switch_def by (intro good_swI fwd_rules)
  fix m assume "wf_MsgRemoveService L m"
  then show "codes (MsgRemoveService_switch L) (encode_MsgRemoveService L m) createBase_MsgRemoveService m"
    unfolding encode_MsgRemoveService_def wf_MsgRemoveService_def
    by (elim conjE)
      (rule codes_Cons codes_Nil [OF MsgRemoveService.equality] codec_rules
        codes_when [where tag = 10 and u = MsgRemoveService.creator_update and op = "r_string L", OF good]
        codes_when [where tag = 18 and u = MsgRemoveService.name_update and op = "r_string L", OF good]
      | assumption | (simp add: MsgRemoveService_tags createBase_MsgRemoveService_def; fail))+
qed

sublocale wire_laws \<subseteq> MsgRemoveService_range: message_range L F out inp "MsgRemoveService_switch L" createBase_MsgRemoveService ok_MsgRemoveService
proof unfold_locales
  show "ok_MsgRemoveService createBase_MsgRemoveService" by (simp add: ok_MsgRemoveService_def createBase_MsgRemoveService_def)
  fix m tag assume "ok_MsgRemoveService m"
  then show "keeps ok_MsgRemoveService (MsgRemoveService_switch L tag m)"
    unfolding MsgRemoveService_switch_def by - (rule range_rules | (simp add: ok_MsgRemoveService_def; fail))+
qed

context wire_laws
begin

lemmas MsgRemoveService_carries [codec_rules] =
  MsgRemoveService_codec.opt_carries [folded decode_MsgRemoveService_def] MsgRemoveService_codec.list_carries [folded decode_MsgRemoveService_def]

lemmas MsgRemoveService_good [fwd_rules] = MsgRemoveService_codec.op_good [folded decode_MsgRemoveService_def]

lemmas MsgRemoveService_yields [range_rules] = MsgRemoveService_range.sub_range [folded decode_MsgRemoveService_def]

lemmas MsgRemoveService_roundtrip = MsgRemoveService_codec.roundtrip [folded decode_MsgRemoveService_def]

lemmas MsgRemoveService_returns = MsgRemoveService_codec.decode_returns [folded decode_MsgRemoveService_def]

lemmas MsgRemoveService_decoded = MsgRemoveService_range.decode_range [folded decode_MsgRemoveService_def]

end

interpretation MsgRemoveService_json: message_json toJSON_MsgRemoveService fromJSON_MsgRemoveService wfj_MsgRemoveService
proof unfold_locales
  fix h m
  assume "wfj_MsgRemoveService m"
  then show "json_rt (toJSON_MsgRemoveService h) (fromJSON_MsgRemoveService h) m"
    unfolding toJSON_MsgRemoveService_def fromJSON_MsgRemoveService_def wfj_MsgRemoveService_def
    by (-) (rule json_rtI json_rules | assumption | (simp; fail))+
qed

lemmas MsgRemoveService_json_rules [json_rules] = MsgRemoveService_json.json_field_rules

sublocale wire_laws \<subseteq> MsgRemoveServiceResponse_codec: message_codec L F out inp "encode_MsgRemoveServiceResponse L" "MsgRemoveServiceResponse_switch L" createBase_MsgRemoveServiceResponse "wf_MsgRemoveServiceResponse L"
proof unfold_locales
  show good: "good_sw (MsgRemoveServiceResponse_switch L)"
    unfolding MsgRemoveServiceResponse_switch_def by (intro good_swI fwd_rules)
  fix m assume "wf_MsgRemoveServiceResponse L m"
  then show "codes (MsgRemoveServiceResponse_switch L) (encode_MsgRemoveServiceResponse L m) createBase_MsgRemoveServiceResponse m"
    unfolding encode_MsgRemoveServiceResponse_def wf_MsgRemoveServiceResponse_def
    by (cases m) (simp add: createBase_MsgRemoveServiceResponse_def codes_Nil [simplified])
qed

sublocale wire_laws \<subseteq> MsgRemoveServiceResponse_range: message_range L F out inp "MsgRemoveServiceResponse_switch L" createBase_MsgRemoveServiceResponse ok_MsgRemoveServiceResponse
proof unfold_locales
  show "ok_MsgRemoveServiceResponse createBase_MsgRemoveServiceResponse" by (simp add: ok_MsgRemoveServiceResponse_def createBase_MsgRemoveServiceResponse_def)
  fix m tag assume "ok_MsgRemoveServiceResponse m"
  then show "keeps ok_MsgRemoveServiceResponse (MsgRemoveServiceResponse_switch L tag m)"
    unfolding MsgRemoveServiceResponse_switch_def by - (rule range_rules | (simp add: ok_MsgRemoveServiceResponse_def; fail))+
qed

context wire_laws
begin

lemmas MsgRemoveServiceResponse_carries [codec_rules] =
  MsgRemoveServiceResponse_codec.opt_carries [folded decode_MsgRemoveServiceResponse_def] MsgRemoveServiceResponse_codec.list_carries [folded decode_MsgRemoveServiceResponse_def]

lemmas MsgRemoveServiceResponse_good [fwd_rules] = MsgRemoveServiceResponse_codec.op_good [folded decode_MsgRemoveServiceResponse_def]

lemmas MsgRemoveServiceResponse_yields [range_rules] = MsgRemoveServiceResponse_range.sub_range [folded decode_MsgRemoveServiceResponse_def]

lemmas MsgRemoveServiceResponse_roundtrip = MsgRemoveServiceResponse_codec.roundtrip [folded decode_MsgRemoveServiceResponse_def]

lemmas MsgRemoveServiceResponse_returns = MsgRemoveServiceResponse_codec.decode_returns [folded decode_MsgRemoveServiceResponse_def]

lemmas MsgRemoveServiceResponse_decoded = MsgRemoveServiceResponse_range.decode_range [folded decode_MsgRemoveServiceResponse_def]

end

interpretation MsgRemoveServiceResponse_json: message_json toJSON_MsgRemoveServiceResponse fromJSON_MsgRemoveServiceResponse wfj_MsgRemoveServiceResponse
proof unfold_locales
  fix h m
  show "json_rt (toJSON_MsgRemoveServiceResponse h) (fromJSON_MsgRemoveServiceResponse h) m"
    by (cases m) (simp add: json_rt_def toJSON_MsgRemoveServiceResponse_def fromJSON_MsgRemoveServiceResponse_def objE_rules(1))
qed

lemmas MsgRemoveServiceResponse_json_rules [json_rules] = MsgRemoveServiceResponse_json.json_field_rules


end
