(* ===== verification/Evolution.thy ===== *)
theory Evolution
  imports KeeperMsgs TxMsgs
begin

text \<open>
  How the decoders treat input that no encoder of the same schema version wrote: fields they do not
  know or whose wire type they do not expect, and several encodings one after the other. A scalar
  field that occurs again replaces the value, elements of a repeated field accumulate, and a
  sub-message that occurs again replaces the earlier one (the protobuf specification merges them). A
  height that is not a safe integer is refused; the announced length of a sub-message is not enforced.
\<close>

text \<open>What the second of two expiration sets changes in the first.\<close>

definition overwrite :: "ContractExpirationSet \<Rightarrow> ContractExpirationSet \<Rightarrow> ContractExpirationSet" where
  "overwrite a b =
     \<lparr>ContractExpirationSet.height =
        (if ContractExpirationSet.height b \<noteq> Num 0 then ContractExpirationSet.height b
         else ContractExpirationSet.height a),
      ContractExpirationSet.contractSet =
        (case ContractExpirationSet.contractSet b of None \<Rightarrow> ContractExpirationSet.contractSet a | Some v \<Rightarrow> Some v)\<rparr>"


section \<open>Tags a decoder does not know\<close>

lemma Provider_unknown:
  "tag \<notin> {10, 16, 26, 32, 40, 48, 56, 66, 74, 82, 88, 96} \<Longrightarrow> Provider_switch L tag m = break_out"
  by (auto simp: Provider_switch_def when_tag_def)

lemma Contract_unknown:
  "tag \<notin> {10, 16, 26, 34, 40, 48, 56, 66, 74, 82, 88, 96, 104, 112, 120, 128} \<Longrightarrow>
   Contract_switch L tag m = break_out"
  by (auto simp: Contract_switch_def when_tag_def)

context wire_laws
begin

lemmas Provider_ignores_varint = Provider_codec.decode_unknown_varint [OF _ Provider_unknown, folded decode_Provider_def]

lemmas Provider_ignores_bytes = Provider_codec.decode_unknown_bytes [OF _ Provider_unknown, folded decode_Provider_def]

lemmas Contract_ignores_varint = Contract_codec.decode_unknown_varint [OF _ Contract_unknown, folded decode_Contract_def]

lemmas Contract_ignores_bytes = Contract_codec.decode_unknown_bytes [OF _ Contract_unknown, folded decode_Contract_def]


section \<open>Heights beyond the safe integers\<close>

text \<open>The encoding of a contract up to its height is the encoding of a contract.\<close>

lemma Contract_height_split:
  assumes wf: "wf_Contract L m" and h: "Contract.height m = num_of_int h" "h \<noteq> 0"
  obtains m5 x y where "wf_Contract L m5" and "encode_bytes L (encode_Contract L m5) = Inr x"
    and "encode_bytes L (encode_Contract L m) = Inr (x @ e_uint32 F 48 @ e_int64 F h @ y)"
proof -
  let ?m5 = "createBase_Contract\<lparr>Contract.provider := Contract.provider m, Contract.service := Contract.service m,
    Contract.client := Contract.client m, Contract.delegate := Contract.delegate m, Contract.type' := Contract.type' m\<rparr>"
  let ?m7 = "m\<lparr>Contract.provider := [], Contract.service := Num 0, Contract.client := [], Contract.delegate := [],
    Contract.type' := Num 0, Contract.height := Num 0\<rparr>"
  have wf5: "wf_Contract L ?m5" "wf_Contract L ?m7"
    using wf by (simp_all add: wf_Contract_def createBase_Contract_def int32_num_def safe_int_def safe_uint_def
        wire_string_def wire_bytes_def wf_utf16.simps MIN_SAFE_INTEGER_def MAX_SAFE_INTEGER_def)
  obtain x y where xy: "emits (encode_Contract L ?m5) x" "emits (encode_Contract L ?m7) y"
    using Contract_codec.enc_codes [OF wf5(1)] Contract_codec.enc_codes [OF wf5(2)] unfolding codes_def by blast
  have "safe_int (Contract.height m)" using wf by (simp add: wf_Contract_def)
  then have "- (2 ^ 63) \<le> h" "h < 2 ^ 63"
    by (simp_all add: h(1) safe_int_def MIN_SAFE_INTEGER_def MAX_SAFE_INTEGER_def)
  then have "emits (w_int64 L (num_of_int h)) (e_int64 F h)" using out_int64 by (simp add: emits_def)
  then have height: "emits (seqE [w_uint32 L 48, w_int64 L (num_of_int h)]) (e_uint32 F 48 @ e_int64 F h)"
    using emits_seqE_Cons [OF emits_uint32, of "[w_int64 L (num_of_int h)]"] by simp
  have "encode_Contract L m = (\<lambda>w. bindE (encode_Contract L ?m5 w)
      (\<lambda>w. bindE (seqE [w_uint32 L 48, w_int64 L (num_of_int h)] w) (encode_Contract L ?m7)))"
    using h unfolding encode_Contract_def createBase_Contract_def
    by (simp add: fun_eq_iff whenE_const seqE_fun someE_def bindE_assoc bindE_Inr_right)
  then have "emits (encode_Contract L m) (x @ (e_uint32 F 48 @ e_int64 F h) @ y)"
    using emits_bind [OF xy(1) emits_bind [OF height xy(2)]] by simp
  then have "encode_bytes L (encode_Contract L m) = Inr (x @ e_uint32 F 48 @ e_int64 F h @ y)"
    using encode_bytes_emits by simp
  then show ?thesis by (rule that [OF wf5(1) encode_bytes_emits [OF xy(1)]])
qed

lemma Contract_unsafe_height:
  assumes wf: "wf_Contract L m" and h: "Contract.height m = num_of_int h" "h \<noteq> 0"
  shows "\<exists>x y. encode_bytes L (encode_Contract L m) = Inr (x @ e_uint32 F 48 @ e_int64 F h @ y)
    \<and> (\<forall>i e t. - (2 ^ 63) \<le> i \<longrightarrow> i < 2 ^ 63 \<longrightarrow> longToNumber i = Inl e \<longrightarrow>
        decode_Contract L (ABuffer (x @ e_uint32 F 48 @ e_int64 F i @ t)) None = Inl e)"
proof -
  obtain m5 x y where m5: "wf_Contract L m5" "encode_bytes L (encode_Contract L m5) = Inr x"
    and m: "encode_bytes L (encode_Contract L m) = Inr (x @ e_uint32 F 48 @ e_int64 F h @ y)"
    using Contract_height_split [OF assms] .
  show ?thesis
    using m Contract_codec.decode_unsafe [OF m5(1) Contract_tags(6) _ _ _ m5(2), folded decode_Contract_def] by blast
qed


section \<open>Sub-messages that are announced too short\<close>

lemma ContractExpirationSet_overrun:
  assumes wf: "wf_ContractSet L cs" and bs: "encode_bytes L (encode_ContractSet L cs) = Inr bs"
    and n: "0 < unat n" "unat n \<le> length bs"
  shows "\<exists>r. decode_ContractExpirationSet L (ABuffer (e_uint32 F 18 @ e_uint32 F n @ bs)) None =
      Inr (createBase_ContractExpirationSet\<lparr>ContractExpirationSet.contractSet := Some cs\<rparr>, r) \<and> inp r = []"
proof -
  have "carries (seqE [w_fork L, forE (w_uint64 L) (ContractSet.contractIds cs), w_join L])
      (packed L (num64 (r_uint64 L))) (ContractSet.contractIds cs)"
    using wf by (intro carries_packed_uint64) (simp add: wf_ContractSet_def)
  then obtain e where e: "emits (seqE [w_fork L, forE (w_uint64 L) (ContractSet.contractIds cs), w_join L]) e"
    "\<And>r t. inp r = e @ t \<Longrightarrow> \<exists>r'. packed L (num64 (r_uint64 L)) r = Inr (ContractSet.contractIds cs, r') \<and> inp r' = t"
    unfolding carries_def by blast
  have "emits (encode_ContractSet L cs) (e_uint32 F 10 @ e)"
    using emits_seqE_Cons [OF emits_uint32 e(1)] by (simp add: encode_ContractSet_def del: seqE.simps)
  then have bs_e: "bs = e_uint32 F 10 @ e" using bs encode_bytes_emits by fastforce
  have cs: "createBase_ContractSet\<lparr>ContractSet.contractIds :=
      ContractSet.contractIds createBase_ContractSet @ ContractSet.contractIds cs\<rparr> = cs"
    by (simp add: createBase_ContractSet_def)
  have "\<exists>r'. submsg L (decode_ContractSet L) r = Inr (cs, r') \<and> inp r' = t" if "inp r = (e_uint32 F n @ bs) @ t" for r t
    using ContractSet_codec.sub_overrun [OF ContractSet_tags(1) n(1) _ e(2), of e r t] n(2) that cs
    by (simp add: bs_e decode_ContractSet_def)
  then have "eats (ContractExpirationSet_switch L) createBase_ContractExpirationSet (e_uint32 F 18 @ e_uint32 F n @ bs)
      (createBase_ContractExpirationSet\<lparr>ContractExpirationSet.contractSet := Some cs\<rparr>)"
    by (rule eats_field [OF ContractExpirationSet_codec.sw_good ContractExpirationSet_tags(2)])
  then show ?thesis
    using eatsD [of _ _ _ _ "Reader_new L (e_uint32 F 18 @ e_uint32 F n @ bs)" "[]"]
    by (fastforce simp: decode_ContractExpirationSet_def decode_msg_run reader_of_def inp_new inp_len run_done)
qed


section \<open>One encoding after another\<close>

lemma ContractSet_codes_from:
  assumes "wf_ContractSet L b"
  shows "codes (ContractSet_switch L) (encode_ContractSet L b) a
    \<lparr>ContractSet.contractIds = ContractSet.contractIds a @ ContractSet.contractIds b\<rparr>"
proof -
  have c: "carries (seqE [w_fork L, forE (w_uint64 L) (ContractSet.contractIds b), w_join L])
      (packed L (num64 (r_uint64 L))) (ContractSet.contractIds b)"
    using assms by (intro carries_packed_uint64) (simp add: wf_ContractSet_def)
  show ?thesis
    unfolding encode_ContractSet_def
    by (rule codes_Cons [OF codes_field [OF ContractSet_codec.sw_good ContractSet_tags(1) c] codes_Nil])
      (cases a, simp)
qed

lemmas ContractSet_concat =
  ContractSet_codec.decode_concat [OF _ ContractSet_codes_from, folded decode_ContractSet_def]

lemma codes_scalar_from:
  assumes "good_sw sw" and "sw tag m = readf op upd" and "carries (seqE fs) op v"
  shows "codes sw (whenE c (seqE (w_uint32 L tag # fs))) m (if c then upd v else m)"
  using codes_field [OF assms] codes_Nil [of m m sw]
  by (cases c) (simp_all add: whenE_def [abs_def] del: seqE.simps)

lemma codes_opt_from:
  assumes "good_sw sw" and "sw tag m = readf op upd" and "pred_option (\<lambda>v. carries (seqE (fs v)) op v) x"
  shows "codes sw (someE x (\<lambda>v. seqE (w_uint32 L tag # fs v))) m (case x of None \<Rightarrow> m | Some v \<Rightarrow> upd v)"
proof (cases x)
  case None
  then show ?thesis using codes_Nil [of m m sw] by (simp add: someE_def [abs_def])
next
  case (Some v)
  then show ?thesis using codes_field [OF assms(1,2), of "fs v" v] assms(3) by (simp add: someE_def [abs_def])
qed

lemma ContractExpirationSet_codes_from:
  assumes "wf_ContractExpirationSet L b"
  shows "codes (ContractExpirationSet_switch L) (encode_ContractExpirationSet L b) a (overwrite a b)"
proof -
  have wf: "safe_int (ContractExpirationSet.height b)"
    "pred_option (\<lambda>v. wf_ContractSet L v \<and> fits L (encode_ContractSet L v)) (ContractExpirationSet.contractSet b)"
    using assms by (simp_all add: wf_ContractExpirationSet_def)
  note h = carries_int64 [OF wf(1)] and s = ContractSet_carries(1) [OF wf(2)]
  note good = ContractExpirationSet_codec.sw_good
  show ?thesis
    unfolding encode_ContractExpirationSet_def
    by (rule codes_Cons [OF codes_scalar_from [OF good ContractExpirationSet_tags(1) h]
          codes_Cons [OF codes_opt_from [OF good ContractExpirationSet_tags(2) s] codes_Nil]])
      (auto simp: overwrite_def intro!: ContractExpirationSet.equality split: option.split)
qed

lemmas ContractExpirationSet_concat =
  ContractExpirationSet_codec.decode_concat [OF _ ContractExpirationSet_codes_from, folded decode_ContractExpirationSet_def]


section \<open>Default messages\<close>

lemma encode_nothing: "encode_bytes L (seqE []) = Inr []"
  by (rule encode_bytes_emits) (simp add: emits_Nil)

lemma Provider_default: "encode_bytes L (encode_Provider L createBase_Provider) = Inr []"
  using encode_nothing
  by (simp add: encode_bytes_def encode_Provider_def createBase_Provider_def whenE_def)

lemma Contract_default: "encode_bytes L (encode_Contract L createBase_Contract) = Inr []"
  using encode_nothing
  by (simp add: encode_bytes_def encode_Contract_def createBase_Contract_def whenE_def someE_def)

lemma MsgOpenContract_default: "encode_bytes L (encode_MsgOpenContract L createBase_MsgOpenContract) = Inr []"
  using encode_nothing
  by (simp add: encode_bytes_def encode_MsgOpenContract_def createBase_MsgOpenContract_def whenE_def someE_def)

lemma ContractSet_default:
  "encode_bytes L (encode_ContractSet L createBase_ContractSet) = Inr (e_uint32 F 10 @ e_uint32 F 0)"
proof -
  have "forE (w_uint64 L) [] = Inr" by (rule ext) simp
  then have "emits (seqE [w_uint32 L 10, w_fork L, forE (w_uint64 L) [], w_join L]) (e_uint32 F 10 @ e_uint32 F (of_nat 0) @ [])"
    using emits_seqE_Cons [OF emits_uint32 emits_delimited [OF emits_Nil], of 10] by (simp del: seqE.simps)
  then show ?thesis
    unfolding encode_ContractSet_def createBase_ContractSet_def
    by (intro encode_bytes_emits) simp
qed

text \<open>Encoding loses nothing.\<close>

lemma encoding_injective:
  "wf_Contract L c \<Longrightarrow> wf_Contract L c' \<Longrightarrow>
     encode_bytes L (encode_Contract L c) = encode_bytes L (encode_Contract L c') \<Longrightarrow> c = c'"
  "wf_MsgOpenContract L m \<Longrightarrow> wf_MsgOpenContract L m' \<Longrightarrow>
     encode_bytes L (encode_MsgOpenContract L m) = encode_bytes L (encode_MsgOpenContract L m') \<Longrightarrow> m = m'"
  using Contract_roundtrip MsgOpenContract_roundtrip roundtrips_inj by metis+

end

end
