(* ===== verification/Ieee.thy ===== *)
theory Ieee
  imports JsNumber
begin

text \<open>
  The 64 bits of a double (IEEE 754 binary64): the sign, eleven bits of exponent and 52 bits of
  fraction, and the eight bytes of such a word with the lowest first, as protobuf writes them. Every
  double is read back from its bits.
\<close>

section \<open>Definitions\<close>

text \<open>The exponent and the fraction of a finite double, next to each other.\<close>

definition double_magnitude :: "rat \<Rightarrow> int" where
  "double_magnitude q = (if q = 0 then 0 else (double_exp q + 1074) * 2 ^ 52 + \<lfloor>\<bar>q\<bar> / 2 powi double_exp q\<rfloor>)"

definition double_bits :: "number \<Rightarrow> nat" where
  "double_bits n =
     (case n of
        NaN \<Rightarrow> 2047 * 2 ^ 52 + 2 ^ 51
      | PosInf \<Rightarrow> 2047 * 2 ^ 52
      | NegInf \<Rightarrow> 2 ^ 63 + 2047 * 2 ^ 52
      | Num q \<Rightarrow> (if q < 0 then 2 ^ 63 else 0) + nat (double_magnitude q))"

definition double_of_magnitude :: "nat \<Rightarrow> rat" where
  "double_of_magnitude b =
     (let x = b div 2 ^ 52; f = b mod 2 ^ 52
      in if x = 0 then of_nat f * 2 powi (- 1074) else of_nat (2 ^ 52 + f) * 2 powi (int x - 1075))"

definition double_of_bits :: "nat \<Rightarrow> number" where
  "double_of_bits b =
     (let s = 2 ^ 63 \<le> b; m = b mod 2 ^ 63
      in if m div 2 ^ 52 = 2047 then (if m mod 2 ^ 52 \<noteq> 0 then NaN else if s then NegInf else PosInf)
         else Num (if s then - double_of_magnitude m else double_of_magnitude m))"

fun le_bytes :: "nat \<Rightarrow> nat \<Rightarrow> 8 word list" where
  "le_bytes 0 n = []"
| "le_bytes (Suc k) n = of_nat (n mod 256) # le_bytes k (n div 256)"

definition double_bytes :: "number \<Rightarrow> 8 word list" where
  "double_bytes n = le_bytes 8 (double_bits n)"

fun le_value :: "8 word list \<Rightarrow> nat" where
  "le_value [] = 0"
| "le_value (b # bs) = unat b + 256 * le_value bs"


section \<open>Reading back\<close>

lemma length_le_bytes [simp]: "length (le_bytes k n) = k"
  by (induction k arbitrary: n) auto

lemma le_value_bytes: "n < 256 ^ k \<Longrightarrow> le_value (le_bytes k n) = n"
proof (induction k arbitrary: n)
  case (Suc k)
  then have "n div 256 < 256 ^ k" by (simp add: less_mult_imp_div_less mult.commute)
  moreover have "unat (of_nat (n mod 256) :: 8 word) = n mod 256" by (simp add: unat_of_nat)
  ultimately show ?case using Suc.IH by simp
qed simp

lemma double_cases:
  assumes "to_double q = Num q" and "q \<noteq> 0"
  obtains m where "\<bar>q\<bar> = of_int m * 2 powi double_exp q" "0 \<le> m" "m < 2 ^ 53"
    "double_exp q > - 1074 \<longrightarrow> 2 ^ 52 \<le> m" "- 1074 \<le> double_exp q" "double_exp q \<le> 971"
proof -
  let ?e = "double_exp q" and ?k = "flog2 \<bar>q\<bar>"
  let ?m = "round_even (\<bar>q\<bar> / 2 powi ?e)"
  have q0: "0 < \<bar>q\<bar>" using assms(2) by simp
  have r: "round53 q < 2 ^ 1024" "round53 q = \<bar>q\<bar>"
    using assms by (auto simp: to_double_def sgn_if split: if_splits)
  then have eq: "\<bar>q\<bar> = of_int ?m * 2 powi ?e" by (simp add: round53_def)
  have m: "of_int ?m = \<bar>q\<bar> / 2 powi ?e" using eq by (simp add: field_simps)
  have e: "- 1074 \<le> ?e" "?k - 52 \<le> ?e" by (simp_all add: double_exp_def)
  have "\<bar>q\<bar> < 2 powi (?e + 53)"
  proof -
    have "(2::rat) powi (?k + 1) \<le> 2 powi (?e + 53)" using e(2) by (simp only: power_int_2_le_iff)
    then show ?thesis using flog2_bounds(2) [OF q0] by linarith
  qed
  then have lt: "(of_int ?m :: rat) < 2 powi 53" unfolding m by (simp add: field_simps power_int_add)
  have ge: "(2::rat) powi 52 \<le> of_int ?m" if "?e > - 1074"
  proof -
    have "?k = ?e + 52" using that by (simp add: double_exp_def)
    then have "2 powi (?e + 52) \<le> \<bar>q\<bar>" using flog2_bounds(1) [OF q0] by simp
    then show ?thesis unfolding m by (simp add: field_simps power_int_add)
  qed
  have k: "?k < 1024" using r by (intro flog2_less [OF q0]) simp
  show ?thesis
  proof (rule that [OF eq])
    have "(0::rat) \<le> of_int ?m" unfolding m by simp
    then show "0 \<le> ?m" by simp
    have "(of_int ?m :: rat) < of_int (2 ^ 53)" using lt by (simp add: power_int_def)
    then show "?m < 2 ^ 53" by (simp only: of_int_less_iff)
    have "(of_int (2 ^ 52) :: rat) \<le> of_int ?m" if "?e > - 1074" using ge [OF that] by (simp add: power_int_def)
    then show "?e > - 1074 \<longrightarrow> 2 ^ 52 \<le> ?m" by (simp only: of_int_le_iff) simp
    show "?e \<le> 971" using k by (simp add: double_exp_def)
  qed (rule e)
qed

lemma double_magnitude_back:
  assumes "to_double q = Num q"
  shows "0 \<le> double_magnitude q \<and> double_magnitude q < 2047 * 2 ^ 52 \<and> double_of_magnitude (nat (double_magnitude q)) = \<bar>q\<bar>"
proof (cases "q = 0")
  case False
  then obtain m where m: "\<bar>q\<bar> = of_int m * 2 powi double_exp q" "0 \<le> m" "m < 2 ^ 53"
    "double_exp q > - 1074 \<longrightarrow> 2 ^ 52 \<le> m" and e: "- 1074 \<le> double_exp q" "double_exp q \<le> 971"
    using double_cases [OF assms] by blast
  define n where "n = nat m"
  define x where "x = nat (double_exp q + 1074)"
  have n: "m = int n" "n < 2 ^ 53" "0 < x \<longrightarrow> 2 ^ 52 \<le> n" "x \<le> 2045" "double_exp q = int x - 1074"
    using m e by (auto simp: n_def x_def)
  have mag: "double_magnitude q = int (x * 2 ^ 52 + n)"
    using False m(1) n by (simp add: double_magnitude_def)
  have "double_of_magnitude (x * 2 ^ 52 + n) = of_nat n * 2 powi (int x - 1074)"
  proof (cases "2 ^ 52 \<le> n")
    case True
    define f where "f = n - 2 ^ 52"
    have f: "n = 2 ^ 52 + f" "f < 2 ^ 52" using True n(2) by (auto simp: f_def)
    have "x * 2 ^ 52 + n = (x + 1) * 2 ^ 52 + f" using f by simp
    then have "(x * 2 ^ 52 + n) div 2 ^ 52 = x + 1" "(x * 2 ^ 52 + n) mod 2 ^ 52 = f"
      using f(2) by (simp_all only: div_mult_self3 mod_mult_self3 div_less mod_less)
    then show ?thesis by (simp add: double_of_magnitude_def f(1))
  next
    case False
    with n have "x = 0" by auto
    then show ?thesis using False by (simp add: double_of_magnitude_def)
  qed
  then show ?thesis using n(2,4) m(1) unfolding mag n(1) n(5) by (simp add: nat_plus_as_int)
qed (simp add: double_magnitude_def double_of_magnitude_def)

lemma double_bits_less: "is_double n \<Longrightarrow> double_bits n < 2 ^ 64"
proof (cases n)
  case (Num q)
  moreover assume "is_double n"
  ultimately show ?thesis
    using double_magnitude_back [of q] by (simp add: is_double_def double_bits_def nat_less_iff)
qed (simp_all add: double_bits_def)

lemma double_of_bits_back: "is_double n \<Longrightarrow> double_of_bits (double_bits n) = n"
proof (cases n)
  case (Num q)
  assume "is_double n"
  then have b: "0 \<le> double_magnitude q" "double_magnitude q < 2047 * 2 ^ 52"
    "double_of_magnitude (nat (double_magnitude q)) = \<bar>q\<bar>"
    using double_magnitude_back [of q] Num by (simp_all add: is_double_def)
  define m where "m = nat (double_magnitude q)"
  have m: "m < 2047 * 2 ^ 52" "double_of_magnitude m = \<bar>q\<bar>" using b by (simp_all add: m_def)
  have d: "m div 2 ^ 52 \<noteq> 2047" using m(1) by (simp add: div_less_iff_less_mult neq_iff)
  have "m < 2 ^ 63" using m(1) by simp
  then show ?thesis
    using d m(2) by (simp add: Num double_of_bits_def double_bits_def Let_def flip: m_def)
qed (simp_all add: double_of_bits_def double_bits_def)

end
