(* ===== verification/PbWire.thy ===== *)
theory PbWire
  imports Codec Ieee
begin

text \<open>
  The protobuf wire format, as an instance of the interface of \<open>Wire\<close>: base-128 varints, negative
  integers as the 64-bit two's complement, doubles as eight bytes, strings as UTF-8, length-delimited fields. A writer is
  its stack of byte strings, a reader the number of bytes read and the bytes left. The codecs are
  proved over any implementation that satisfies \<open>wire_laws\<close>; this one shows that the laws can be
  satisfied, and lets concrete messages be encoded and decoded.
\<close>

section \<open>Scalars\<close>

fun varint :: "nat \<Rightarrow> bytes" where
  "varint n = (if n < 128 then [of_nat n] else of_nat (128 + n mod 128) # varint (n div 128))"

declare varint.simps [simp del]

text \<open>At most ten bytes; the first argument counts the continuation bytes still allowed.\<close>

fun get_varint :: "nat \<Rightarrow> bytes \<Rightarrow> (nat \<times> bytes) option" where
  "get_varint k [] = None"
| "get_varint k (b # bs) =
     (if unat b < 128 then Some (unat b, bs)
      else case k of
        0 \<Rightarrow> None
      | Suc k' \<Rightarrow> map_option (\<lambda>(v, r). (unat b - 128 + 128 * v, r)) (get_varint k' bs))"

definition to_signed :: "nat \<Rightarrow> int \<Rightarrow> int" where
  "to_signed w i = (let j = i mod 2 ^ w in if j < 2 ^ (w - 1) then j else j - 2 ^ w)"

fun utf8 :: "jsstring \<Rightarrow> bytes" where
  "utf8 [] = []"
| "utf8 (c # s) =
     (let n = unat c in
      if n < 128 then of_nat n # utf8 s
      else if n < 2048 then of_nat (192 + n div 64) # of_nat (128 + n mod 64) # utf8 s
      else if 55296 \<le> n \<and> n < 56320 then
        (case s of
           [] \<Rightarrow> []
         | d # s' \<Rightarrow>
             let p = 65536 + 1024 * (n - 55296) + (unat d - 56320)
             in of_nat (240 + p div 262144) # of_nat (128 + p div 4096 mod 64)
                # of_nat (128 + p div 64 mod 64) # of_nat (128 + p mod 64) # utf8 s')
      else of_nat (224 + n div 4096) # of_nat (128 + n div 64 mod 64) # of_nat (128 + n mod 64) # utf8 s)"

fun utf8_decode :: "bytes \<Rightarrow> jsstring option" where
  "utf8_decode [] = Some []"
| "utf8_decode (a # bs) =
     (let n = unat a in
      if n < 128 then map_option (Cons (of_nat n)) (utf8_decode bs)
      else if n < 224 then
        (case bs of
           b # r \<Rightarrow> map_option (Cons (of_nat (64 * (n - 192) + (unat b - 128)))) (utf8_decode r)
         | _ \<Rightarrow> None)
      else if n < 240 then
        (case bs of
           b # c # r \<Rightarrow>
             map_option (Cons (of_nat (4096 * (n - 224) + 64 * (unat b - 128) + (unat c - 128)))) (utf8_decode r)
         | _ \<Rightarrow> None)
      else
        (case bs of
           b # c # d # r \<Rightarrow>
             let p = 262144 * (n - 240) + 4096 * (unat b - 128) + 64 * (unat c - 128) + (unat d - 128) - 65536
             in map_option (\<lambda>s. of_nat (55296 + p div 1024) # of_nat (56320 + p mod 1024) # s) (utf8_decode r)
         | _ \<Rightarrow> None))"

definition delimited :: "bytes \<Rightarrow> bytes" where
  "delimited b = varint (length b) @ b"

definition pb_format :: wire_format where
  "pb_format =
     \<lparr>e_uint32 = \<lambda>n. varint (unat n),
      e_int32 = \<lambda>i. varint (nat (i mod 2 ^ 64)),
      e_int64 = \<lambda>i. varint (nat (i mod 2 ^ 64)),
      e_uint64 = \<lambda>i. varint (nat (i mod 2 ^ 64)),
      e_double = double_bytes,
      e_bool = \<lambda>b. [if b then 1 else 0],
      e_string = \<lambda>s. delimited (utf8 s),
      e_bytes = delimited\<rparr>"


section \<open>Writer and reader\<close>

type_synonym pb_writer = "bytes list"
type_synonym pb_reader = "nat \<times> bytes"

definition put :: "bytes \<Rightarrow> pb_writer \<Rightarrow> pb_writer result" where
  "put e w = (case w of [] \<Rightarrow> Inl (LibraryError ''no buffer'') | b # bs \<Rightarrow> Inr ((b @ e) # bs))"

definition put_double :: "number \<Rightarrow> pb_writer \<Rightarrow> pb_writer result" where
  "put_double n w = put (double_bytes n) w"

definition put_int :: "(number \<Rightarrow> bool) \<Rightarrow> (int \<Rightarrow> bytes) \<Rightarrow> number \<Rightarrow> pb_writer \<Rightarrow> pb_writer result" where
  "put_int ok e n w =
     (case n of Num q \<Rightarrow> if ok n then put (e \<lfloor>q\<rfloor>) w else Inl (LibraryError ''invalid number'')
      | _ \<Rightarrow> Inl (LibraryError ''invalid number''))"

definition pb_join :: "pb_writer \<Rightarrow> pb_writer result" where
  "pb_join w = (case w of b # p # bs \<Rightarrow> Inr ((p @ delimited b) # bs) | _ \<Rightarrow> Inl (LibraryError ''invalid state''))"

definition get :: "(nat \<Rightarrow> 'a) \<Rightarrow> pb_reader \<Rightarrow> ('a \<times> pb_reader) result" where
  "get f r =
     (case get_varint 9 (snd r) of
        None \<Rightarrow> Inl (LibraryError ''invalid varint'')
      | Some (v, t) \<Rightarrow> Inr (f v, (fst r + (length (snd r) - length t), t)))"

definition get_bytes :: "pb_reader \<Rightarrow> (bytes \<times> pb_reader) result" where
  "get_bytes r = bindE (get (\<lambda>v. v) r) (\<lambda>(n, (p, t)).
     if n \<le> length t then Inr (take n t, (p + n, drop n t)) else Inl (RangeError ''premature EOF''))"

definition get_string :: "pb_reader \<Rightarrow> (jsstring \<times> pb_reader) result" where
  "get_string r = bindE (get_bytes r) (\<lambda>(b, r').
     case utf8_decode b of None \<Rightarrow> Inl (TypeError ''invalid UTF-8'') | Some s \<Rightarrow> Inr (s, r'))"

definition get_double :: "pb_reader \<Rightarrow> (number \<times> pb_reader) result" where
  "get_double r =
     (if 8 \<le> length (snd r) then Inr (double_of_bits (le_value (take 8 (snd r))), (fst r + 8, drop 8 (snd r)))
      else Inl (RangeError ''premature EOF''))"

text \<open>Groups, which the schemas do not use, are refused.\<close>

definition pb_skip :: "u32 \<Rightarrow> pb_reader \<Rightarrow> pb_reader result" where
  "pb_skip wt r =
     (let fixed_width = (\<lambda>k. if k \<le> length (snd r) then Inr (fst r + k, drop k (snd r))
                             else Inl (RangeError ''premature EOF''))
      in if wt = 0 then bindE (get (\<lambda>v. v) r) (\<lambda>(_, r'). Inr r')
         else if wt = 1 then fixed_width 8
         else if wt = 2 then bindE (get_bytes r) (\<lambda>(_, r'). Inr r')
         else if wt = 5 then fixed_width 4
         else Inl (LibraryError ''invalid wire type''))"

definition pb_wire :: "(pb_writer, pb_reader) wire" where
  "pb_wire =
     \<lparr>Writer_new = [[]],
      w_uint32 = \<lambda>n. put (e_uint32 pb_format n),
      w_int32 = put_int (int_between (- (2 ^ 31)) (2 ^ 31 - 1)) (e_int32 pb_format),
      w_int64 = put_int (int_between (- (2 ^ 63)) (2 ^ 63 - 1)) (e_int64 pb_format),
      w_uint64 = put_int (int_between 0 (2 ^ 64 - 1)) (e_uint64 pb_format),
      w_double = put_double,
      w_bool = \<lambda>b. put (e_bool pb_format b),
      w_string = \<lambda>s. put (e_string pb_format s),
      w_bytes = \<lambda>b. put (e_bytes pb_format b),
      w_fork = \<lambda>w. Inr ([] # w),
      w_join = pb_join,
      w_finish = \<lambda>w. case w of [] \<Rightarrow> [] | b # _ \<Rightarrow> b,
      Reader_new = \<lambda>b. (0, b),
      r_pos = fst,
      r_len = \<lambda>r. fst r + length (snd r),
      r_uint32 = get of_nat,
      r_int32 = get (\<lambda>v. to_signed 32 (int v)),
      r_int64 = get (\<lambda>v. to_signed 64 (int v)),
      r_uint64 = get (\<lambda>v. int v mod 2 ^ 64),
      r_double = get_double,
      r_bool = get (\<lambda>v. v \<noteq> 0),
      r_string = get_string,
      r_bytes = get_bytes,
      r_skip = pb_skip\<rparr>"


section \<open>Reading back\<close>

lemma unat_of_nat_byte: "n < 256 \<Longrightarrow> unat (of_nat n :: byte) = n"
  by (simp add: unat_of_nat)

lemma get_varint_varint: "n < 128 ^ Suc k \<Longrightarrow> get_varint k (varint n @ t) = Some (n, t)"
proof (induction n arbitrary: k rule: varint.induct)
  case (1 n)
  show ?case
  proof (cases "n < 128")
    case True
    then show ?thesis by (subst varint.simps) (simp add: unat_of_nat_byte)
  next
    case False
    with 1(2) obtain k' where k: "k = Suc k'" by (cases k) auto
    have "n div 128 < 128 ^ Suc k'" using 1(2) by (simp add: k less_mult_imp_div_less mult.commute)
    then have "get_varint k' (varint (n div 128) @ t) = Some (n div 128, t)" by (rule 1(1) [OF False])
    moreover have "unat (of_nat (128 + n mod 128) :: byte) = 128 + n mod 128" by (rule unat_of_nat_byte) simp
    ultimately show ?thesis using False by (subst varint.simps) (simp add: k del: of_nat_add)
  qed
qed

lemma get_varint_uses: "get_varint k bs = Some (v, t) \<Longrightarrow> \<exists>p. p \<noteq> [] \<and> bs = p @ t"
proof (induction k bs arbitrary: v rule: get_varint.induct)
  case (2 k b bs)
  then show ?case by (fastforce split: if_splits nat.splits)
qed simp

lemma varint_not_Nil: "varint n \<noteq> []"
  by (subst varint.simps) simp

lemma get_varint_9: "n < 2 ^ 64 \<Longrightarrow> get_varint 9 (varint n @ t) = Some (n, t)"
  by (rule get_varint_varint) simp

lemma get_e: "n < 2 ^ 64 \<Longrightarrow> snd r = varint n @ t \<Longrightarrow> \<exists>r'. get f r = Inr (f n, r') \<and> snd r' = t"
  by (simp add: get_def get_varint_9)

lemma get_uses: "get f r = Inr (x, r') \<Longrightarrow>
  \<exists>bs. bs \<noteq> [] \<and> snd r = bs @ snd r' \<and> fst r' = fst r + length bs"
  by (auto simp: get_def split: option.splits dest: get_varint_uses)

lemma get_uses': "get f r = Inr (x, r') \<Longrightarrow> \<exists>bs. snd r = bs @ snd r' \<and> fst r' = fst r + length bs"
  using get_uses [of f r x r'] by blast

lemma get_returns: "get f r \<noteq> Inl Diverges"
  by (simp add: get_def split: option.splits)

lemma to_signed_id:
  assumes "0 < w" and "- (2 ^ (w - 1)) \<le> i" and "i < 2 ^ (w - 1)"
  shows "to_signed w i = i"
proof (cases "0 \<le> i")
  case True
  have "(2 :: int) ^ (w - 1) \<le> 2 ^ w" by (rule power_increasing) simp_all
  then have "i < 2 ^ w" using assms(3) by (rule less_le_trans [rotated])
  with True have "i mod 2 ^ w = i" by (intro mod_pos_pos_trivial)
  with assms show ?thesis by (simp add: to_signed_def)
next
  case False
  have w: "(2 :: int) ^ w = 2 * 2 ^ (w - 1)" using assms(1) by (metis Suc_diff_1 power_Suc)
  have "(i + 2 ^ w) mod 2 ^ w = i + 2 ^ w" using assms False w by (intro mod_pos_pos_trivial) simp_all
  then have "i mod 2 ^ w = i + 2 ^ w" by simp
  with assms False w show ?thesis by (simp add: to_signed_def Let_def)
qed

lemma to_signed_range:
  assumes "0 < w"
  shows "- (2 ^ (w - 1)) \<le> to_signed w i" and "to_signed w i < 2 ^ (w - 1)"
proof -
  have w: "(2 :: int) ^ w = 2 * 2 ^ (w - 1)" using assms by (metis Suc_diff_1 power_Suc)
  define j where "j = i mod 2 ^ w"
  have b: "0 \<le> j" "j < 2 ^ w" by (simp_all add: j_def)
  have pos: "(0 :: int) < 2 ^ (w - 1)" by simp
  have t: "to_signed w i = (if j < 2 ^ (w - 1) then j else j - 2 ^ w)" by (simp add: to_signed_def j_def Let_def)
  show "- (2 ^ (w - 1)) \<le> to_signed w i" using b pos w unfolding t by (split if_split) linarith
  show "to_signed w i < 2 ^ (w - 1)" using b pos w unfolding t by (split if_split) linarith
qed

lemma to_signed_64: "to_signed 64 (i mod 18446744073709551616) = to_signed 64 i"
  by (simp add: to_signed_def)

lemma to_signed_32: "to_signed 32 (i mod 18446744073709551616) = to_signed 32 i"
proof -
  have "(2 :: int) ^ 32 dvd 2 ^ 64" by (rule le_imp_power_dvd) simp
  then have "i mod 2 ^ 64 mod 2 ^ 32 = i mod 2 ^ 32" by (rule mod_mod_cancel)
  then show ?thesis by (simp add: to_signed_def)
qed

lemma nat_mod_64: "nat (i mod 2 ^ 64) < 2 ^ 64"
  by (simp add: nat_less_iff)

lemma get_bytes_delimited:
  "length b < 2 ^ 32 \<Longrightarrow> snd r = delimited b @ t \<Longrightarrow> \<exists>r'. get_bytes r = Inr (b, r') \<and> snd r' = t"
proof -
  assume b: "length b < 2 ^ 32" and r: "snd r = delimited b @ t"
  have "length b < 2 ^ 64" by (rule less_trans [OF b]) simp
  then obtain r' where "get (\<lambda>v. v) r = Inr (length b, r')" "snd r' = b @ t"
    using get_e [of "length b" r "b @ t" "\<lambda>v. v"] r by (auto simp: delimited_def)
  then show ?thesis by (cases r') (simp add: get_bytes_def)
qed

lemma get_bytes_uses:
  "get_bytes r = Inr (b, r') \<Longrightarrow> \<exists>bs. snd r = bs @ snd r' \<and> fst r' = fst r + length bs"
proof -
  assume "get_bytes r = Inr (b, r')"
  then obtain n p t where n: "get (\<lambda>v. v) r = Inr (n, (p, t))" "n \<le> length t" "r' = (p + n, drop n t)"
    by (auto simp: get_bytes_def bindE_Inr_conv split: if_splits)
  then obtain bs where "snd r = bs @ t" "p = fst r + length bs" using get_uses [OF n(1)] by auto
  then have "snd r = (bs @ take n t) @ snd r' \<and> fst r' = fst r + length (bs @ take n t)"
    using n by simp
  then show ?thesis by blast
qed

lemma get_bytes_returns: "get_bytes r \<noteq> Inl Diverges"
  using get_returns [of "\<lambda>v. v" r] by (auto simp: get_bytes_def bindE_Inl_conv split: if_splits)

text \<open>UTF-8\<close>

lemma utf8_units:
  "n < 128 \<Longrightarrow> utf8_decode (of_nat n # r) = map_option (Cons (of_nat n)) (utf8_decode r)"
  "128 \<le> n \<Longrightarrow> n < 2048 \<Longrightarrow> utf8_decode (of_nat (192 + n div 64) # of_nat (128 + n mod 64) # r) =
     map_option (Cons (of_nat n)) (utf8_decode r)"
  "2048 \<le> n \<Longrightarrow> n < 65536 \<Longrightarrow>
   utf8_decode (of_nat (224 + n div 4096) # of_nat (128 + n div 64 mod 64) # of_nat (128 + n mod 64) # r) =
     map_option (Cons (of_nat n)) (utf8_decode r)"
proof -
  show "n < 128 \<Longrightarrow> utf8_decode (of_nat n # r) = map_option (Cons (of_nat n)) (utf8_decode r)"
    by (simp add: unat_of_nat_byte)
  assume n: "128 \<le> n" "n < 2048"
  have "n div 64 < 32" using n by (simp add: less_mult_imp_div_less)
  moreover have "64 * (n div 64) + n mod 64 = n" by simp
  ultimately show "utf8_decode (of_nat (192 + n div 64) # of_nat (128 + n mod 64) # r) =
     map_option (Cons (of_nat n)) (utf8_decode r)"
    by (simp add: unat_of_nat_byte Let_def del: of_nat_add)
next
  assume n: "2048 \<le> n" "n < 65536"
  have "n div 4096 < 16" using n by (simp add: less_mult_imp_div_less)
  moreover have "4096 * (n div 4096) + 64 * (n div 64 mod 64) + n mod 64 = n"
  proof -
    have "n div 4096 = n div 64 div 64" by (simp add: div_mult2_eq [symmetric])
    then show ?thesis using mult_div_mod_eq [of 64 n] mult_div_mod_eq [of 64 "n div 64"] by linarith
  qed
  ultimately show "utf8_decode (of_nat (224 + n div 4096) # of_nat (128 + n div 64 mod 64) # of_nat (128 + n mod 64) # r) =
     map_option (Cons (of_nat n)) (utf8_decode r)"
    by (simp add: unat_of_nat_byte Let_def del: of_nat_add)
qed

lemma utf8_four:
  assumes "a < 8" "b < 64" "c < 64" "e < 64" and p: "262144 * a + 4096 * b + 64 * c + e - 65536 = 1024 * n + m"
    and m: "m < 1024"
  shows "utf8_decode (of_nat (240 + a) # of_nat (128 + b) # of_nat (128 + c) # of_nat (128 + e) # r) =
    map_option (\<lambda>s. of_nat (55296 + n) # of_nat (56320 + m) # s) (utf8_decode r)"
proof -
  have "(1024 * n + m) div 1024 = n" "(1024 * n + m) mod 1024 = m" using m by simp_all
  then show ?thesis using assms(1-4) by (simp add: unat_of_nat_byte Let_def p del: of_nat_add)
qed

lemma utf8_pair:
  assumes "n < 1024" and "m < 1024" and p: "p = 65536 + 1024 * n + m"
  shows "utf8_decode (of_nat (240 + p div 262144) # of_nat (128 + p div 4096 mod 64)
      # of_nat (128 + p div 64 mod 64) # of_nat (128 + p mod 64) # r) =
    map_option (\<lambda>s. of_nat (55296 + n) # of_nat (56320 + m) # s) (utf8_decode r)"
proof -
  have d: "p div 4096 = p div 64 div 64" "p div 262144 = p div 64 div 64 div 64"
    by (simp_all add: div_mult2_eq [symmetric])
  have sum: "262144 * (p div 262144) + 4096 * (p div 4096 mod 64) + 64 * (p div 64 mod 64) + p mod 64 = p"
  proof -
    have "262144 * a + 4096 * b + 64 * c + e = x" if "64 * a + b = y" "64 * y + c = z" "64 * z + e = x"
      for a b c e x y z :: nat using that by simp
    from this [OF mult_div_mod_eq mult_div_mod_eq mult_div_mod_eq] show ?thesis unfolding d .
  qed
  have "p div 262144 < 8" using assms by (simp add: less_mult_imp_div_less)
  then show ?thesis
    by (rule utf8_four) (simp_all add: sum, simp_all add: p assms(2))
qed

lemma utf8_pair_eq:
  "55296 \<le> unat c \<Longrightarrow> unat c < 56320 \<Longrightarrow>
   utf8 (c # d # s) =
     (let p = 65536 + 1024 * (unat c - 55296) + (unat d - 56320)
      in of_nat (240 + p div 262144) # of_nat (128 + p div 4096 mod 64)
         # of_nat (128 + p div 64 mod 64) # of_nat (128 + p mod 64) # utf8 s)"
  by (simp del: of_nat_add)

lemma utf8_single_decode:
  assumes "\<not> (55296 \<le> unat c \<and> unat c < 56320)"
  shows "utf8_decode (utf8 (c # s)) = map_option (Cons c) (utf8_decode (utf8 s))"
proof -
  have "unat c < 65536" using unsigned_less [of c, where 'a = nat] by simp
  moreover have "(if 55296 \<le> unat c \<and> unat c < 56320 then x else y) = y" for x y :: bytes
    using assms by (rule if_not_P)
  ultimately show ?thesis
    using utf8_units [of "unat c" "utf8 s"] by (simp add: Let_def del: of_nat_add utf8_decode.simps)
qed

lemma utf8_roundtrip: "wf_utf16 s \<Longrightarrow> utf8_decode (utf8 s) = Some s"
proof (induction s rule: wf_utf16.induct)
  case (2 c)
  then show ?case by (subst utf8_single_decode) (auto simp: word_less_nat_alt)
next
  case (3 c d s)
  show ?case
  proof (cases "55296 \<le> c \<and> c < 56320")
    case True
    then have c: "55296 \<le> unat c" "unat c < 56320" by (auto simp: word_le_nat_alt word_less_nat_alt)
    have d: "56320 \<le> unat d" "unat d \<le> 57343" and s: "utf8_decode (utf8 s) = Some s"
      using 3 True by (auto simp: word_le_nat_alt)
    have "(of_nat (55296 + (unat c - 55296)) :: 16 word) = c" "(of_nat (56320 + (unat d - 56320)) :: 16 word) = d"
      using c(1) d(1) by simp_all
    then show ?thesis
      unfolding utf8_pair_eq [OF c] Let_def
      using c d s by (subst utf8_pair [of "unat c - 55296" "unat d - 56320"]) (simp_all del: of_nat_add)
  next
    case False
    then show ?thesis
      using 3 by (subst utf8_single_decode) (auto simp: word_le_nat_alt word_less_nat_alt simp del: utf8.simps)
  qed
qed simp

lemma length_utf8: "length (utf8 s) \<le> 3 * length s"
proof (induction s rule: length_induct)
  case (1 s)
  show ?case
  proof (cases s)
    case (Cons c s')
    have "length (utf8 s') \<le> 3 * length s'" using 1 Cons by simp
    moreover have "length (utf8 (tl s')) \<le> 3 * length (tl s')" using 1 Cons by (cases s') auto
    ultimately show ?thesis by (cases s') (auto simp: Cons Let_def simp del: utf8.simps(2) simp: utf8.simps(2) [of c])
  qed simp
qed

lemma wire_string_utf8: "wire_string s \<Longrightarrow> length (utf8 s) < 2 ^ 32"
  using length_utf8 [of s] by (simp add: wire_string_def)


section \<open>The laws hold\<close>

definition pb_out :: "pb_writer \<Rightarrow> bytes list" where
  "pb_out w = w"

lemmas pb_simps = pb_wire_def pb_format_def pb_out_def put_def put_int_def put_double_def pb_join_def

lemma get_string_delimited:
  "wire_string s \<Longrightarrow> snd r = delimited (utf8 s) @ t \<Longrightarrow> \<exists>r'. get_string r = Inr (s, r') \<and> snd r' = t"
  using get_bytes_delimited [OF wire_string_utf8, of s r t] utf8_roundtrip [of s]
  by (auto simp: get_string_def wire_string_def)

lemma drop_uses: "k \<le> length b \<Longrightarrow> \<exists>bs. b = bs @ drop k b \<and> length bs = k"
  by (rule exI [of _ "take k b"]) simp

lemma pb_skip_uses: "pb_skip wt r = Inr r' \<Longrightarrow> \<exists>bs. snd r = bs @ snd r' \<and> fst r' = fst r + length bs"
  unfolding pb_skip_def Let_def
  by (auto simp: bindE_Inr_conv split: if_splits dest: get_uses get_bytes_uses intro: drop_uses)

lemma pb_skip_returns: "pb_skip wt r \<noteq> Inl Diverges"
  using get_returns [of "\<lambda>v. v" r] get_bytes_returns [of r]
  by (auto simp: pb_skip_def Let_def bindE_Inl_conv split: if_splits)

lemma get_string_uses:
  "get_string r = Inr (s, r') \<Longrightarrow> \<exists>bs. snd r = bs @ snd r' \<and> fst r' = fst r + length bs"
  by (auto simp: get_string_def bindE_Inr_conv split: option.splits dest: get_bytes_uses)

lemma get_string_returns: "get_string r \<noteq> Inl Diverges"
  using get_bytes_returns [of r] by (auto simp: get_string_def bindE_Inl_conv split: option.splits)

lemma get_double_back:
  "is_double n \<Longrightarrow> snd r = double_bytes n @ t \<Longrightarrow> \<exists>r'. get_double r = Inr (n, r') \<and> snd r' = t"
  using double_bits_less [of n] double_of_bits_back [of n] le_value_bytes [of "double_bits n" 8]
  by (simp add: get_double_def double_bytes_def)

lemma get_double_uses:
  "get_double r = Inr (n, r') \<Longrightarrow> \<exists>bs. snd r = bs @ snd r' \<and> fst r' = fst r + length bs"
  using drop_uses [of 8 "snd r"] by (auto simp: get_double_def split: if_splits)

lemma get_double_returns: "get_double r \<noteq> Inl Diverges"
  by (simp add: get_double_def)

interpretation pb: wire_laws pb_wire pb_format pb_out snd
proof unfold_locales
  fix r :: pb_reader and t :: bytes
  show "snd r = e_uint32 pb_format n @ t \<Longrightarrow> \<exists>r'. r_uint32 pb_wire r = Inr (n, r') \<and> snd r' = t" for n
    using get_e [of "unat n" r t "\<lambda>v. of_nat v :: u32"] unsigned_less [of n, where 'a = nat] by (simp add: pb_simps)
  show "snd r = e_int32 pb_format i @ t \<Longrightarrow> - (2 ^ 31) \<le> i \<Longrightarrow> i < 2 ^ 31 \<Longrightarrow>
      \<exists>r'. r_int32 pb_wire r = Inr (i, r') \<and> snd r' = t" for i
    using get_e [OF nat_mod_64, of r i t "\<lambda>v. to_signed 32 (int v)"] to_signed_id [of 32 i]
    by (simp add: pb_simps to_signed_32)
  show "snd r = e_int64 pb_format i @ t \<Longrightarrow> - (2 ^ 63) \<le> i \<Longrightarrow> i < 2 ^ 63 \<Longrightarrow>
      \<exists>r'. r_int64 pb_wire r = Inr (i, r') \<and> snd r' = t" for i
    using get_e [OF nat_mod_64, of r i t "\<lambda>v. to_signed 64 (int v)"] to_signed_id [of 64 i]
    by (simp add: pb_simps to_signed_64)
  show "snd r = e_uint64 pb_format i @ t \<Longrightarrow> 0 \<le> i \<Longrightarrow> i < 2 ^ 64 \<Longrightarrow>
      \<exists>r'. r_uint64 pb_wire r = Inr (i, r') \<and> snd r' = t" for i
    using get_e [OF nat_mod_64, of r i t "\<lambda>v. int v mod 2 ^ 64"] by (simp add: pb_simps)
  show "snd r = e_double pb_format n @ t \<Longrightarrow> is_double n \<Longrightarrow>
      \<exists>r'. r_double pb_wire r = Inr (n, r') \<and> snd r' = t" for n
    using get_double_back [of n r t] by (simp add: pb_simps)
  show "snd r = e_bool pb_format v @ t \<Longrightarrow> \<exists>r'. r_bool pb_wire r = Inr (v, r') \<and> snd r' = t" for v
    using get_e [of "if v then 1 else 0" r t "\<lambda>v. v \<noteq> 0"] by (simp add: pb_simps varint.simps split: if_splits)
  show "snd r = e_string pb_format s @ t \<Longrightarrow> wire_string s \<Longrightarrow>
      \<exists>r'. r_string pb_wire r = Inr (s, r') \<and> snd r' = t" for s
    using get_string_delimited [of s r t] by (simp add: pb_simps)
  show "snd r = e_bytes pb_format b @ t \<Longrightarrow> wire_bytes b \<Longrightarrow>
      \<exists>r'. r_bytes pb_wire r = Inr (b, r') \<and> snd r' = t" for b
    using get_bytes_delimited [of b r t] by (simp add: pb_simps wire_bytes_def)
  show "r_int32 pb_wire r = Inr (i, r') \<Longrightarrow> - (2 ^ 31) \<le> i \<and> i < 2 ^ 31" for i r'
    using to_signed_range [of 32] by (auto simp: pb_simps get_def split: option.splits)
  show "r_uint64 pb_wire r = Inr (i, r') \<Longrightarrow> 0 \<le> i \<and> i < 2 ^ 64" for i r'
    by (auto simp: pb_simps get_def split: option.splits)
  show "snd r = e_uint64 pb_format i @ t \<Longrightarrow> 0 \<le> i \<Longrightarrow> i < 2 ^ 64 \<Longrightarrow>
      \<exists>r'. r_skip pb_wire 0 r = Inr r' \<and> snd r' = t" for i
    using get_e [OF nat_mod_64, of r i t "\<lambda>v. v"] by (auto simp: pb_simps pb_skip_def)
  show "snd r = e_bytes pb_format b @ t \<Longrightarrow> wire_bytes b \<Longrightarrow>
      \<exists>r'. r_skip pb_wire 2 r = Inr r' \<and> snd r' = t" for b
    using get_bytes_delimited [of b r t] by (auto simp: pb_simps pb_skip_def wire_bytes_def)
qed (simp_all add: pb_simps delimited_def unat_of_nat get_uses get_uses' get_bytes_uses get_string_uses
    pb_skip_uses get_double_uses get_returns get_double_returns get_bytes_returns get_string_returns pb_skip_returns)

end
