(* ===== verification/JsDate.thy ===== *)
theory JsDate
  imports JsValue
begin

text \<open>
  The part of \<open>Date\<close> the code uses. A date is its time value, a whole number of milliseconds since
  1970-01-01T00:00:00Z within 8.64e15 of it, or \<open>NaN\<close>. \<open>new Date(ms)\<close> truncates and clips its
  argument; \<open>toISOString\<close> prints the proleptic Gregorian calendar date, or throws on \<open>NaN\<close>;
  \<open>new Date(s)\<close> reads such a text back. A text that \<open>toISOString\<close> does not print is left to the host.

  The calendar counts years from the first of March, so that the leap day comes last, in cycles of
  400 years (146097 days), centuries, four years and single years.
\<close>

section \<open>The calendar\<close>

definition civil_from_days :: "int \<Rightarrow> int \<times> int \<times> int" where
  "civil_from_days d =
     (let z = d + 719468; era = z div 146097; doe = z mod 146097;
          c = min 3 (doe div 36524); doc = doe - 36524 * c;
          q = doc div 1461; doq = doc mod 1461;
          a = min 3 (doq div 365); doy = doq - 365 * a;
          mp = (5 * doy + 2) div 153;
          day = doy - (153 * mp + 2) div 5 + 1;
          month = (if mp < 10 then mp + 3 else mp - 9);
          y = 400 * era + 100 * c + 4 * q + a
      in (if month \<le> 2 then y + 1 else y, month, day))"

definition days_from_civil :: "int \<Rightarrow> int \<Rightarrow> int \<Rightarrow> int" where
  "days_from_civil year month day =
     (let y = (if month \<le> 2 then year - 1 else year);
          mp = (if 2 < month then month - 3 else month + 9);
          era = y div 400; yoe = y mod 400
      in 146097 * era + 365 * yoe + yoe div 4 - yoe div 100 + (153 * mp + 2) div 5 + day - 1 - 719468)"

definition ms_per_day :: int where
  "ms_per_day = 86400000"

fun fixed :: "nat \<Rightarrow> nat \<Rightarrow> jsstring" where
  "fixed 0 v = []"
| "fixed (Suc k) v = fixed k (v div 10) @ [48 + of_nat (v mod 10)]"

definition iso_year :: "int \<Rightarrow> jsstring" where
  "iso_year y =
     (if 0 \<le> y \<and> y \<le> 9999 then fixed 4 (nat y)
      else if 0 \<le> y then 43 # fixed 6 (nat y) else 45 # fixed 6 (nat (- y)))"

definition iso_string :: "int \<Rightarrow> jsstring" where
  "iso_string t =
     (case civil_from_days (t div ms_per_day) of (year, month, day) \<Rightarrow>
      let ms = t mod ms_per_day
      in iso_year year
         @ [45] @ fixed 2 (nat month) @ [45] @ fixed 2 (nat day)
         @ [84] @ fixed 2 (nat (ms div 3600000)) @ [58] @ fixed 2 (nat (ms div 60000 mod 60))
         @ [58] @ fixed 2 (nat (ms div 1000 mod 60)) @ [46] @ fixed 3 (nat (ms mod 1000)) @ [90])"

text \<open>The fields of such a text, by position.\<close>

definition digits_at :: "nat \<Rightarrow> nat \<Rightarrow> jsstring \<Rightarrow> int" where
  "digits_at i k s = int (digits_val 0 (take k (drop i s)))"

definition iso_rest :: "int \<Rightarrow> jsstring \<Rightarrow> int" where
  "iso_rest year s =
     ms_per_day * days_from_civil year (digits_at 1 2 s) (digits_at 4 2 s)
     + 3600000 * digits_at 7 2 s + 60000 * digits_at 10 2 s + 1000 * digits_at 13 2 s + digits_at 16 3 s"

definition iso_value :: "jsstring \<Rightarrow> int" where
  "iso_value s =
     (if take 1 s = [43] then iso_rest (digits_at 1 6 s) (drop 7 s)
      else if take 1 s = [45] then iso_rest (- digits_at 1 6 s) (drop 7 s)
      else iso_rest (digits_at 0 4 s) (drop 4 s))"


section \<open>Dates\<close>

type_synonym Date = number

definition max_time :: int where
  "max_time = 8640000000000000"

definition date_valid :: "Date \<Rightarrow> bool" where
  "date_valid d \<longleftrightarrow> int_between (- max_time) max_time d"

text \<open>\<open>new Date(ms)\<close>, \<open>new Date(s)\<close> and \<open>d.toISOString()\<close>\<close>

definition Date_new :: "number \<Rightarrow> Date" where
  "Date_new n =
     (case n of Num q \<Rightarrow> if \<bar>q\<bar> \<le> of_int max_time then num_of_int (rat_trunc q) else NaN | _ \<Rightarrow> NaN)"

definition Date_of_string :: "host \<Rightarrow> jsstring \<Rightarrow> Date" where
  "Date_of_string h s =
     (let t = iso_value s in if \<bar>t\<bar> \<le> max_time \<and> iso_string t = s then num_of_int t else Date_parse h s)"

definition toISOString :: "Date \<Rightarrow> jsstring result" where
  "toISOString d =
     (case d of Num q \<Rightarrow> Inr (iso_string \<lfloor>q\<rfloor>) | _ \<Rightarrow> Inl (RangeError ''Invalid time value''))"


section \<open>Lemmas\<close>

lemma div_mod_parts:
  fixes k x r :: int
  assumes "0 \<le> r" and "r < k"
  shows "(k * x + r) div k = x" "(k * x + r) mod k = r"
  using assms by simp_all

lemma month_day:
  fixes doy :: int
  assumes mp: "mp = (5 * doy + 2) div 153" and doy: "0 \<le> doy" "doy \<le> 365"
  shows "0 \<le> mp" "mp \<le> 11" "1 \<le> doy - (153 * mp + 2) div 5 + 1" "doy - (153 * mp + 2) div 5 + 1 \<le> 31"
proof -
  have b: "153 * mp \<le> 5 * doy + 2" "5 * doy + 2 < 153 * mp + 153"
    using mult_div_mod_eq [of 153 "5 * doy + 2"] pos_mod_bound [of 153 "5 * doy + 2"]
      pos_mod_sign [of 153 "5 * doy + 2"] unfolding mp by linarith+
  then show "0 \<le> mp" "mp \<le> 11" using doy by linarith+
  then have "mp \<in> set [0..11]" by simp
  moreover have "set [0..11] = {0, 1, 2, 3, 4, 5, 6, 7, 8, 9, 10, 11 :: int}" by code_simp
  ultimately show "1 \<le> doy - (153 * mp + 2) div 5 + 1" "doy - (153 * mp + 2) div 5 + 1 \<le> 31"
    using b doy by auto
qed

lemma civil_parts:
  obtains era c q a mp y month doy where
    "civil_from_days d = (if month \<le> 2 then y + 1 else y, month, doy - (153 * mp + 2) div 5 + 1)"
    "d + 719468 = 146097 * era + 36524 * c + 1461 * q + 365 * a + doy"
    "y = 400 * era + 100 * c + 4 * q + a" "month = (if mp < 10 then mp + 3 else mp - 9)"
    "0 \<le> c" "c \<le> 3" "0 \<le> q" "q \<le> 24" "0 \<le> a" "a \<le> 3" "0 \<le> mp" "mp \<le> 11"
    "0 \<le> doy" "doy \<le> 365"
    "1 \<le> doy - (153 * mp + 2) div 5 + 1" "doy - (153 * mp + 2) div 5 + 1 \<le> 31"
proof -
  define z where "z = d + 719468"
  define era where "era = z div 146097"
  define doe where "doe = z mod 146097"
  define c where "c = min 3 (doe div 36524)"
  define doc where "doc = doe - 36524 * c"
  define q where "q = doc div 1461"
  define doq where "doq = doc mod 1461"
  define a where "a = min 3 (doq div 365)"
  define doy where "doy = doq - 365 * a"
  define mp where "mp = (5 * doy + 2) div 153"
  have z: "z = 146097 * era + doe" by (simp add: era_def doe_def)
  have doe: "0 \<le> doe" "doe < 146097" by (simp_all add: doe_def)
  have c: "0 \<le> c" "c \<le> 3" "0 \<le> doc" "doc \<le> 36524"
    using doe by (auto simp: c_def doc_def min_def)
  have q: "0 \<le> q" "q \<le> 24" "doc = 1461 * q + doq" using c by (auto simp: q_def doq_def)
  have doq: "0 \<le> doq" "doq \<le> 1460" by (auto simp: doq_def)
  have a: "0 \<le> a" "a \<le> 3" "0 \<le> doy" "doy \<le> 365"
    using doq by (auto simp: a_def doy_def min_def)
  note mp = month_day [OF mp_def a(3,4)]
  have d: "d + 719468 = 146097 * era + 36524 * c + 1461 * q + 365 * a + doy"
    using z q(3) by (simp add: z_def doc_def doy_def)
  have "civil_from_days d = (let month = (if mp < 10 then mp + 3 else mp - 9); y = 400 * era + 100 * c + 4 * q + a
      in (if month \<le> 2 then y + 1 else y, month, doy - (153 * mp + 2) div 5 + 1))"
    unfolding civil_from_days_def Let_def mp_def doy_def a_def doq_def q_def doc_def c_def doe_def era_def z_def ..
  then show thesis
    using that [OF _ d refl refl c(1,2) q(1,2) a(1,2) mp(1,2) a(3,4) mp(3,4)] by (simp only: Let_def)
qed

lemma days_from_civil_from_days:
  "civil_from_days d = (year, month, day) \<Longrightarrow> days_from_civil year month day = d"
proof (rule civil_parts [of d])
  fix era c q a mp y month' doy
  assume civ: "civil_from_days d = (if month' \<le> 2 then y + 1 else y, month', doy - (153 * mp + 2) div 5 + 1)"
    and d: "d + 719468 = 146097 * era + 36524 * c + 1461 * q + 365 * a + doy"
    and y: "y = 400 * era + 100 * c + 4 * q + a" and m: "month' = (if mp < 10 then mp + 3 else mp - 9)"
    and b: "0 \<le> c" "c \<le> 3" "0 \<le> q" "q \<le> 24" "0 \<le> a" "a \<le> 3" "0 \<le> mp" "mp \<le> 11"
  assume "civil_from_days d = (year, month, day)"
  with civ have v: "year = (if month' \<le> 2 then y + 1 else y)" "month = month'"
    "day = doy - (153 * mp + 2) div 5 + 1" by simp_all
  have "y div 400 = era" "y mod 400 = 100 * c + 4 * q + a"
    using div_mod_parts [of "100 * c + 4 * q + a" 400 era] b y by (simp_all add: add.assoc)
  moreover have "(100 * c + 4 * q + a) div 4 = 25 * c + q" "(100 * c + 4 * q + a) div 100 = c"
    using div_mod_parts [of a 4 "25 * c + q"] div_mod_parts [of "4 * q + a" 100 c] b
    by (simp_all add: add.assoc)
  moreover have "(if month \<le> 2 then year - 1 else year) = y" by (simp add: v)
  moreover have "(if 2 < month then month - 3 else month + 9) = mp" using b m by (auto simp: v)
  ultimately show "days_from_civil year month day = d"
    using d by (simp add: days_from_civil_def v(3))
qed

lemma civil_bounds:
  assumes "civil_from_days d = (year, month, day)" and "\<bar>d\<bar> \<le> 100000000"
  shows "\<bar>year\<bar> < 1000000" "1 \<le> month" "month \<le> 12" "1 \<le> day" "day \<le> 31"
proof -
  obtain era c q a mp y month' doy where
    civ: "civil_from_days d = (if month' \<le> 2 then y + 1 else y, month', doy - (153 * mp + 2) div 5 + 1)"
    and d: "d + 719468 = 146097 * era + 36524 * c + 1461 * q + 365 * a + doy"
    and y: "y = 400 * era + 100 * c + 4 * q + a" and m: "month' = (if mp < 10 then mp + 3 else mp - 9)"
    and b: "0 \<le> c" "c \<le> 3" "0 \<le> q" "q \<le> 24" "0 \<le> a" "a \<le> 3" "0 \<le> mp" "mp \<le> 11"
      "0 \<le> doy" "doy \<le> 365"
      "1 \<le> doy - (153 * mp + 2) div 5 + 1" "doy - (153 * mp + 2) div 5 + 1 \<le> 31"
    by (rule civil_parts)
  have v: "year = (if month' \<le> 2 then y + 1 else y)" "month = month'" "day = doy - (153 * mp + 2) div 5 + 1"
    using assms(1) unfolding civ prod.inject by auto
  have "\<bar>era\<bar> \<le> 700" using assms(2) d b by linarith
  then show "\<bar>year\<bar> < 1000000" using y b by (auto simp: v(1))
  show "1 \<le> month" "month \<le> 12" using b m by (auto simp: v(2))
  show "1 \<le> day" "day \<le> 31" using b by (simp_all add: v(3))
qed

lemma length_fixed [simp]: "length (fixed k v) = k"
  by (induction k arbitrary: v) auto

lemma digits_val_fixed: "v < 10 ^ k \<Longrightarrow> digits_val 0 (fixed k v) = v"
proof (induction k arbitrary: v)
  case (Suc k)
  then show ?case using digit_char [of "v mod 10"] by (simp add: digits_val_append)
qed simp

lemma digits_at_fixed:
  "length p = i \<Longrightarrow> v < 10 ^ k \<Longrightarrow> digits_at i k (p @ fixed k v @ s) = int v"
  by (simp add: digits_at_def digits_val_fixed)

lemma iso_rest_string:
  assumes "month < 100" "day < 100" "hh < 100" "mm < 100" "ss < 100" "ms < 1000"
  shows "iso_rest year ([45] @ fixed 2 month @ [45] @ fixed 2 day @ [84] @ fixed 2 hh @ [58] @ fixed 2 mm
      @ [58] @ fixed 2 ss @ [46] @ fixed 3 ms @ [90]) =
    ms_per_day * days_from_civil year (int month) (int day)
      + 3600000 * int hh + 60000 * int mm + 1000 * int ss + int ms"
  using assms by (simp add: iso_rest_def digits_at_def drop_Cons' digits_val_fixed)

lemma fixed_first:
  assumes "0 < k"
  obtains c cs where "fixed k v = c # cs" "is_digit c"
proof -
  have "list_all is_digit (fixed k v)" for v
  proof (induction k arbitrary: v)
    case (Suc k)
    then show ?case using digit_char [of "v mod 10"] by simp
  qed simp
  moreover have "fixed k v \<noteq> []" using assms by (metis length_fixed length_greater_0_conv)
  ultimately show thesis using that by (cases "fixed k v") (auto, metis list.pred_inject(2))
qed

lemma iso_value_year:
  assumes "\<bar>year\<bar> < 1000000"
  shows "iso_value (iso_year year @ rest) = iso_rest year rest"
proof -
  obtain c cs where "fixed 4 (nat year) = c # cs" "is_digit c" by (rule fixed_first [of 4]) simp_all
  then have "take 1 (fixed 4 (nat year) @ rest) = [c]" "c \<noteq> 43" "c \<noteq> 45"
    using is_digit_not_white by auto
  then have "iso_value (fixed 4 (nat year) @ rest) = iso_rest year rest" if "0 \<le> year" "year \<le> 9999"
    using that digits_val_fixed [of "nat year" 4] by (simp add: iso_value_def digits_at_def)
  then show ?thesis
    using assms digits_val_fixed [of _ 6] by (auto simp: iso_year_def iso_value_def [of "_ # _"] digits_at_def)
qed

lemma time_parts:
  fixes ms :: int
  shows "3600000 * (ms div 3600000) + 60000 * (ms div 60000 mod 60) + 1000 * (ms div 1000 mod 60) + ms mod 1000 = ms"
proof -
  have d: "ms div 60000 = ms div 1000 div 60" "ms div 3600000 = ms div 1000 div 60 div 60"
    using zdiv_zmult2_eq [of 60 ms 1000] zdiv_zmult2_eq [of 60 ms 60000] by simp_all
  have "3600000 * h + 60000 * m + 1000 * s + r = t"
    if "60 * h + m = a" "60 * a + s = b" "1000 * b + r = t" for h m s r a b t :: int
    using that by simp
  from this [OF mult_div_mod_eq mult_div_mod_eq mult_div_mod_eq] show ?thesis unfolding d .
qed

lemma iso_value_string:
  assumes "\<bar>t\<bar> \<le> max_time"
  shows "iso_value (iso_string t) = t"
proof -
  obtain year month day where c: "civil_from_days (t div ms_per_day) = (year, month, day)"
    using prod_cases3 by blast
  have "\<bar>t div ms_per_day\<bar> \<le> 100000000" 
    using assms zdiv_mono1 [of t max_time ms_per_day] zdiv_mono1 [of "- max_time" t ms_per_day]
    by (simp add: max_time_def ms_per_day_def abs_le_iff)
  note b = civil_bounds [OF c this]
  define ms where "ms = t mod ms_per_day"
  have ms: "0 \<le> ms" "ms < 86400000" by (simp_all add: ms_def ms_per_day_def)
  have hour: "0 \<le> ms div 3600000" "ms div 3600000 < 100" 
    using ms zdiv_mono1 [of ms 86399999 3600000] by (simp_all add: pos_imp_zdiv_nonneg_iff)
  define rest where "rest = [45] @ fixed 2 (nat month) @ [45] @ fixed 2 (nat day)
    @ [84] @ fixed 2 (nat (ms div 3600000)) @ [58] @ fixed 2 (nat (ms div 60000 mod 60))
    @ [58] @ fixed 2 (nat (ms div 1000 mod 60)) @ [46] @ fixed 3 (nat (ms mod 1000)) @ [90]"
  have s: "iso_string t = iso_year year @ rest" by (simp add: iso_string_def c Let_def rest_def ms_def)
  have "iso_value (iso_year year @ rest) = iso_rest year rest" by (rule iso_value_year [OF b(1)])
  also have "\<dots> = ms_per_day * days_from_civil year month day + (3600000 * (ms div 3600000)
      + 60000 * (ms div 60000 mod 60) + 1000 * (ms div 1000 mod 60) + ms mod 1000)"
    unfolding rest_def using b ms hour
    by (subst iso_rest_string) (simp_all add: nat_less_iff)
  also have "\<dots> = ms_per_day * days_from_civil year month day + ms"
    using time_parts [of ms] by simp
  finally show ?thesis
    using days_from_civil_from_days [OF c] by (simp add: s ms_def)
qed

lemma Date_of_iso_string:
  assumes "date_valid d"
  shows "\<exists>s. toISOString d = Inr s \<and> Date_of_string h s = d"
proof -
  obtain t where t: "d = num_of_int t" "\<bar>t\<bar> \<le> max_time"
    using assms by (auto simp: date_valid_def elim!: int_betweenE)
  then have "toISOString d = Inr (iso_string t)" by (simp add: toISOString_def)
  moreover have "Date_of_string h (iso_string t) = d"
    using t iso_value_string [OF t(2)] by (simp add: Date_of_string_def Let_def)
  ultimately show ?thesis by blast
qed

lemma Date_new_valid: "date_valid (Date_new n) \<or> Date_new n = NaN"
proof (cases n)
  case (Num q)
  have "\<bar>q\<bar> \<le> of_int max_time \<Longrightarrow> \<bar>rat_trunc q\<bar> \<le> max_time"
    unfolding rat_trunc_def abs_le_iff by (simp split: if_splits) linarith
  with Num show ?thesis by (auto simp: Date_new_def date_valid_def abs_le_iff)
qed (simp_all add: Date_new_def)

lemma Date_new_int: "\<bar>t\<bar> \<le> max_time \<Longrightarrow> Date_new (num_of_int t) = num_of_int t"
proof -
  assume "\<bar>t\<bar> \<le> max_time"
  then have "\<bar>of_int t\<bar> \<le> (of_int max_time :: rat)" by (metis of_int_abs of_int_le_iff)
  then show ?thesis by (simp add: Date_new_def rat_trunc_def)
qed

end
