(* ===== verification/Timestamps.thy ===== *)
theory Timestamps
  imports BaseMsgs JsDate
begin

text \<open>
  The conversions between a \<open>Date\<close> and a protobuf \<open>Timestamp\<close> of \<open>arkeo/claim/params.ts\<close>, in double
  arithmetic, and their use as a field of a message. The quotient by 1000 is rounded to a double;
  for a valid date the rounding error is below a thousandth, so it never reaches the next second.
\<close>

section \<open>Definitions\<close>

definition toTimestamp :: "Date \<Rightarrow> Timestamp" where
  "toTimestamp date =
     (let seconds = Math_trunc (num_divide date 1000);
          nanos = num_scale (num_rem date 1000) 1000000
      in \<lparr>Timestamp.seconds = seconds, Timestamp.nanos = nanos\<rparr>)"

definition fromTimestamp :: "Timestamp \<Rightarrow> Date" where
  "fromTimestamp t =
     (let millis = num_scale (num_or_zero (Timestamp.seconds t)) 1000;
          millis = num_add millis (num_divide (num_or_zero (Timestamp.nanos t)) 1000000)
      in Date_new millis)"

definition fromJsonTimestamp :: "host \<Rightarrow> jsval \<Rightarrow> Date result" where
  "fromJsonTimestamp h obj =
     (case obj of
        JDate t \<Rightarrow> Inr t
      | JString s \<Rightarrow> Inr (Date_of_string h s)
      | _ \<Rightarrow> bindE (fromJSON_Timestamp h obj) (\<lambda>t. Inr (fromTimestamp t)))"

text \<open>\<open>message.k.toISOString()\<close> as a JSON value\<close>

definition dateJSON :: "Date \<Rightarrow> jsval result" where
  "dateJSON d = bindE (toISOString d) (\<lambda>s. Inr (JString s))"


section \<open>Rounding of the quotient\<close>

lemma round53_near_2_43:
  assumes "\<bar>q\<bar> < 2 ^ 43" and "q \<noteq> 0"
  shows "\<bar>round53 q - \<bar>q\<bar>\<bar> \<le> 1 / 2048"
proof -
  have "flog2 \<bar>q\<bar> < 43" using assms by (intro flog2_less) simp_all
  then have "double_exp q \<le> - 10" by (simp add: double_exp_def)
  then have "2 powi double_exp q \<le> (2 powi (- 10) :: rat)" by (simp only: power_int_2_le_iff)
  moreover have "(2 :: rat) powi (- 10) = 1 / 1024" by (simp add: power_int_minus)
  ultimately show ?thesis using round53_near [of q] by linarith
qed

lemma rat_trunc_neg: "0 \<le> x \<Longrightarrow> rat_trunc (- x) = - \<lfloor>x\<rfloor>"
  by (simp add: rat_trunc_def ceiling_minus)

lemma rat_trunc_sgn:
  assumes "0 \<le> r" and "\<lfloor>r\<rfloor> = \<lfloor>\<bar>q\<bar>\<rfloor>"
  shows "rat_trunc (sgn q * r) = rat_trunc q"
proof (cases "0 < q")
  case True
  then show ?thesis using assms by (simp add: rat_trunc_def)
next
  case False
  then show ?thesis using assms rat_trunc_neg [of r] rat_trunc_neg [of "- q"]
    by (cases "q = 0") (simp_all add: rat_trunc_def sgn_if)
qed

lemma floor_thousandths:
  fixes n :: int and r :: rat
  assumes "\<bar>r - of_int n / 1000\<bar> \<le> 1 / 2048" and "n mod 1000 = 0 \<Longrightarrow> r = of_int n / 1000"
  shows "\<lfloor>r\<rfloor> = n div 1000"
proof -
  define k s where "k = n div 1000" and "s = n mod 1000"
  have "n = 1000 * k + s" by (simp add: k_def s_def)
  then have n: "of_int n / 1000 = (of_int k + of_int s / 1000 :: rat)" by simp
  have s: "0 \<le> s" "s < 1000" by (simp_all add: s_def)
  show ?thesis
  proof (cases "s = 0")
    case True
    then show ?thesis using assms(2) n by (simp add: s_def k_def)
  next
    case False
    then have "(1 :: rat) \<le> of_int s" "of_int s \<le> (999 :: rat)" using s by linarith+
    then have "of_int k \<le> r" "r < of_int k + 1" using assms(1) unfolding n by linarith+
    then show ?thesis by (simp add: floor_unique flip: k_def)
  qed
qed

lemma num_divide_1000:
  fixes t :: int
  assumes "\<bar>t\<bar> \<le> max_time"
  shows "Math_trunc (num_divide (num_of_int t) 1000) = num_of_int (rat_trunc (of_int t / 1000))"
proof -
  define q :: rat where "q = of_int t / 1000"
  define r where "r = round53 q"
  show ?thesis
  proof (cases "t = 0")
    case True
    then show ?thesis by (simp add: to_double_def rat_trunc_def)
  next
    case False
    have "\<bar>of_int t :: rat\<bar> \<le> of_int max_time" using assms by (metis of_int_abs of_int_le_iff)
    then have q: "\<bar>q\<bar> < 2 ^ 43" "q \<noteq> 0" using False by (simp_all add: q_def max_time_def)
    have near: "\<bar>r - \<bar>q\<bar>\<bar> \<le> 1 / 2048" unfolding r_def by (rule round53_near_2_43 [OF q])
    have "r < 2 ^ 1024"
    proof -
      have "r < 2 ^ 43 + 1" using near q(1) by linarith
      also have "(2 :: rat) ^ 43 + 1 \<le> 2 ^ 44" by simp
      also have "(2 :: rat) ^ 44 \<le> 2 ^ 1024" by (rule power_increasing) simp_all
      finally show ?thesis .
    qed
    then have d: "to_double q = Num (sgn q * r)" using q(2) by (simp add: to_double_def r_def)
    define n where "n = \<bar>t\<bar>"
    have absq: "\<bar>q\<bar> = of_int n / 1000" by (simp add: q_def n_def)
    have exact: "r = of_int n / 1000" if "n mod 1000 = 0"
    proof -
      obtain k where k: "t = 1000 * k" using \<open>n mod 1000 = 0\<close> by (auto simp: n_def mod_eq_0_iff_dvd)
      then have "q = of_int k" by (simp add: q_def)
      moreover have "\<bar>k\<bar> \<le> 2 ^ 53" "k \<noteq> 0" using assms k False by (auto simp: max_time_def)
      ultimately show ?thesis using round53_int [of k] absq by (simp add: r_def)
    qed
    have "\<lfloor>r\<rfloor> = \<lfloor>\<bar>q\<bar>\<rfloor>"
      using floor_thousandths [of r n] near exact by (simp add: absq floor_divide_of_int_eq [of n 1000, simplified])
    moreover have "0 \<le> r" unfolding r_def round53_def by (intro mult_nonneg_nonneg) (simp_all add: round_even_ge [of 0, simplified])
    ultimately have "rat_trunc (sgn q * r) = rat_trunc q" by (intro rat_trunc_sgn)
    then show ?thesis using d by (simp add: q_def)
  qed
qed


section \<open>A valid date survives the conversion\<close>

lemma rat_trunc_1000:
  fixes t :: int
  obtains k s where "t = 1000 * k + s" "\<bar>s\<bar> < 1000" "rat_trunc (of_int t / 1000) = k" "0 \<le> t * s"
proof (cases "0 \<le> t")
  case True
  then show ?thesis
    using that [of "t div 1000" "t mod 1000"] floor_divide_of_int_eq [of t 1000, where 'a = rat]
    by (simp add: rat_trunc_def)
next
  case False
  then show ?thesis
    using that [of "- (- t div 1000)" "- (- t mod 1000)"] floor_divide_of_int_eq [of "- t" 1000, where 'a = rat]
      rat_trunc_neg [of "of_int (- t) / 1000"] pos_mod_bound [of 1000 "- t"] pos_mod_sign [of 1000 "- t"]
      mult_div_mod_eq [of 1000 "- t"] by (simp add: mult_le_0_iff)
qed

lemma toTimestamp_parts:
  assumes "date_valid d"
  obtains t k s where "d = num_of_int t" "t = 1000 * k + s" "\<bar>s\<bar> < 1000" "0 \<le> t * s"
    "toTimestamp d = \<lparr>Timestamp.seconds = num_of_int k, Timestamp.nanos = num_of_int (1000000 * s)\<rparr>"
    "\<bar>t\<bar> \<le> max_time"
proof -
  obtain t where t: "d = num_of_int t" "\<bar>t\<bar> \<le> max_time"
    using assms by (auto simp: date_valid_def elim!: int_betweenE)
  obtain k s where k: "t = 1000 * k + s" "\<bar>s\<bar> < 1000" "rat_trunc (of_int t / 1000) = k" "0 \<le> t * s"
    by (rule rat_trunc_1000)
  have "num_rem d 1000 = num_of_int s" using k by (simp add: t(1))
  moreover have "num_scale (num_of_int s) 1000000 = num_of_int (1000000 * s)"
    using to_double_int [of "1000000 * s"] k(2) by (simp add: mult.commute)
  ultimately have "toTimestamp d = \<lparr>Timestamp.seconds = num_of_int k, Timestamp.nanos = num_of_int (1000000 * s)\<rparr>"
    using num_divide_1000 [OF t(2)] k(3) by (simp add: toTimestamp_def t(1) Let_def)
  then show thesis using that t k by blast
qed

lemma fromTimestamp_toTimestamp:
  assumes "date_valid d"
  shows "fromTimestamp (toTimestamp d) = d"
proof -
  obtain t k s where d: "d = num_of_int t" "t = 1000 * k + s" "\<bar>s\<bar> < 1000" "0 \<le> t * s"
    "toTimestamp d = \<lparr>Timestamp.seconds = num_of_int k, Timestamp.nanos = num_of_int (1000000 * s)\<rparr>"
    "\<bar>t\<bar> \<le> max_time"
    using toTimestamp_parts [OF assms] .
  have b: "\<bar>1000 * k\<bar> \<le> 2 ^ 53" "\<bar>t\<bar> \<le> 2 ^ 53" "\<bar>s\<bar> \<le> 2 ^ 53" using d by (auto simp: max_time_def)
  have "num_scale (num_of_int k) 1000 = num_of_int (1000 * k)"
    using to_double_int [OF b(1)] by (simp add: mult.commute)
  moreover have "num_divide (num_of_int (1000000 * s)) 1000000 = num_of_int s"
    using to_double_int [OF b(3)] by simp
  moreover have "num_add (num_of_int (1000 * k)) (num_of_int s) = num_of_int t"
    using to_double_int [OF b(2)] by (simp add: d(2))
  ultimately show ?thesis
    using Date_new_int [OF d(6)] d(1,5) by (simp add: fromTimestamp_def num_or_zero_def Let_def)
qed

lemma toTimestamp_sign:
  assumes "date_valid (num_of_int t)"
  shows "\<exists>k n. toTimestamp (num_of_int t) = \<lparr>Timestamp.seconds = num_of_int k, Timestamp.nanos = num_of_int n\<rparr>
    \<and> 1000000 * t = 1000000000 * k + n \<and> \<bar>n\<bar> < 1000000000
    \<and> (t < 0 \<longrightarrow> t mod 1000 \<noteq> 0 \<longrightarrow> n < 0) \<and> (0 \<le> t \<longrightarrow> 0 \<le> n)"
proof -
  obtain t' k s where "num_of_int t = num_of_int t'" and s: "t' = 1000 * k + s" "\<bar>s\<bar> < 1000" "0 \<le> t' * s"
    and ts: "toTimestamp (num_of_int t) = \<lparr>Timestamp.seconds = num_of_int k, Timestamp.nanos = num_of_int (1000000 * s)\<rparr>"
    using toTimestamp_parts [OF assms] .
  then have t: "t' = t" by simp
  have "s < 0" if "t < 0" "t mod 1000 \<noteq> 0"
  proof -
    have "s \<noteq> 0" using that(2) s(1) t by auto
    moreover have "s \<le> 0" using that(1) s(3) t by (simp add: zero_le_mult_iff)
    ultimately show ?thesis by simp
  qed
  moreover have "0 \<le> s" if "0 \<le> t"
  proof (cases "t = 0")
    case True
    then have s': "s = - (1000 * k)" using s(1) t by simp
    then have "\<bar>k\<bar> < 1" using s(2) by (simp add: abs_mult)
    then show ?thesis by (simp add: s')
  next
    case False
    with that s(3) t show ?thesis by (simp add: zero_le_mult_iff)
  qed
  ultimately show ?thesis using ts s(1,2) t by (intro exI [of _ k] exI [of _ "1000000 * s"]) simp
qed

lemma toTimestamp_wf: "date_valid d \<Longrightarrow> wf_Timestamp L (toTimestamp d)"
proof -
  assume "date_valid d"
  then obtain t k s where "t = 1000 * k + s" "\<bar>s\<bar> < 1000" "\<bar>t\<bar> \<le> max_time"
    "toTimestamp d = \<lparr>Timestamp.seconds = num_of_int k, Timestamp.nanos = num_of_int (1000000 * s)\<rparr>"
    by (rule toTimestamp_parts)
  then show ?thesis
    unfolding wf_Timestamp_def safe_int_def int32_num_def
    by (simp only: Timestamp.select_convs int_between_num_of_int)
      (auto simp: max_time_def MIN_SAFE_INTEGER_def MAX_SAFE_INTEGER_def)
qed

context wire_laws
begin

lemma date_carries [codec_rules]:
  assumes "pred_option (\<lambda>v. date_valid v \<and> fits L (encode_Timestamp L (toTimestamp v))) x"
  shows "pred_option (\<lambda>v. carries (seqE [w_fork L, encode_Timestamp L (toTimestamp v), w_join L])
    (read_map fromTimestamp (submsg L (decode_Timestamp L))) v) x"
proof (cases x)
  case (Some v)
  with assms show ?thesis
    using carries_map [where g = fromTimestamp, OF Timestamp_codec.field_carries [of "toTimestamp v"] fromTimestamp_toTimestamp [of v]]
    by (simp add: toTimestamp_wf decode_Timestamp_def del: seqE.simps)
qed simp

lemma date_yields [range_rules]:
  "yields (read_map fromTimestamp (submsg L (decode_Timestamp L))) (\<lambda>d. date_valid d \<or> d = NaN)"
  by (rule yields_map [OF Timestamp_yields]) (auto simp: fromTimestamp_def Let_def Date_new_valid)

end

lemma date_json_rt: "date_valid d \<Longrightarrow> json_rt dateJSON (fromJsonTimestamp h) d"
  using Date_of_iso_string [of d h] by (auto simp: json_rt_def dateJSON_def fromJsonTimestamp_def)

lemma date_json_opt: "pred_option date_valid x \<Longrightarrow> pred_option (json_rt dateJSON (fromJsonTimestamp h)) x"
  by (cases x) (simp_all add: date_json_rt)

lemmas date_json_rules [json_rules] = joptE_Inr [OF date_json_opt] read_opt [OF date_json_opt]

end
