(* ===== verification/LongCodec.thy ===== *)
theory LongCodec
  imports Codec Timestamps
begin

unbundle bit_operations_syntax

text \<open>
  What the codecs of \<open>ts-client\<close> do differently. They were generated by an older \<open>ts_proto\<close> over the
  package \<open>protobufjs\<close>, whose 64-bit integers are objects of the package \<open>long\<close>: both are parameters.
  The reader and writer have the interface of \<open>Wire\<close> (\<open>ldelim\<close> is \<open>join\<close>, \<open>skipType\<close> is \<open>skip\<close>);
  \<open>long_lib\<close> holds the two operations of \<open>Long\<close> that are used. A \<open>switch\<close> of these decoders selects by
  the field number alone, and its default case skips the field and goes on, so the loop of \<open>Codec\<close>
  never sees a case that breaks out. \<open>toJSON\<close> writes every field that is not \<open>undefined\<close>.
\<close>

section \<open>Definitions\<close>

record long_lib =
  long_gt :: "int \<Rightarrow> int \<Rightarrow> bool"
  long_toNumber :: "int \<Rightarrow> number"

text \<open>\<open>longToNumber(long)\<close> of \<open>ts-client\<close>: the lower bound is not checked.\<close>

definition longToNumber_long :: "long_lib \<Rightarrow> int \<Rightarrow> number result" where
  "longToNumber_long G long =
     (if long_gt G long MAX_SAFE_INTEGER then Inl (Error ''Value is larger than Number.MAX_SAFE_INTEGER'')
      else Inr (long_toNumber G long))"

definition num64l :: "long_lib \<Rightarrow> ('r \<Rightarrow> (int \<times> 'r) result) \<Rightarrow> 'r \<Rightarrow> (number \<times> 'r) result" where
  "num64l G op r = bindE (op r) (\<lambda>(i, r'). bindE (longToNumber_long G i) (\<lambda>n. Inr (n, r')))"

text \<open>\<open>default: reader.skipType(tag & 7); break;\<close>\<close>

definition skipType :: "('w, 'r) wire \<Rightarrow> u32 \<Rightarrow> 'm \<Rightarrow> ('m, 'r) action" where
  "skipType L tag message r = bindE (r_skip L (tag AND 7) r) (\<lambda>r'. Inr (Some (message, r')))"

text \<open>\<open>if (message.k) { obj.k = message.k.map((e) => f(e)); } else { obj.k = []; }\<close>\<close>

definition jlistE :: "string \<Rightarrow> ('a \<Rightarrow> jsval result) \<Rightarrow> 'a list \<Rightarrow> (string \<times> jsval) list result" where
  "jlistE k f xs = bindE (mapE f xs) (\<lambda>js. Inr [(k, JArray js)])"

text \<open>The conversions of dates of \<open>ts-client\<close>: the seconds keep their fraction.\<close>

definition toTimestamp_frac :: "Date \<Rightarrow> Timestamp" where
  "toTimestamp_frac date =
     (let seconds = num_divide date 1000;
          nanos = num_scale (num_rem date 1000) 1000000
      in \<lparr>Timestamp.seconds = seconds, Timestamp.nanos = nanos\<rparr>)"

definition fromTimestamp_frac :: "Timestamp \<Rightarrow> Date" where
  "fromTimestamp_frac t =
     (let millis = num_scale (Timestamp.seconds t) 1000;
          millis = num_add millis (num_divide (Timestamp.nanos t) 1000000)
      in Date_new millis)"

text \<open>The dates these conversions keep.\<close>

definition whole_seconds :: "Date \<Rightarrow> bool" where
  "whole_seconds d \<longleftrightarrow> date_valid d \<and> (case d of Num q \<Rightarrow> \<lfloor>q\<rfloor> mod 1000 = 0 | _ \<Rightarrow> False)"


text \<open>
  Two codecs of one message interoperate: the encoders are the same, and each decoder reads back what
  the encoder of the other writes for the messages \<open>P\<close>.
\<close>

definition interoperates :: "('w, 'r) wire \<Rightarrow> ('r \<Rightarrow> bytes) \<Rightarrow> ('m \<Rightarrow> bool)
    \<Rightarrow> ('m \<Rightarrow> 'w \<Rightarrow> 'w result) \<Rightarrow> ('r input \<Rightarrow> nat option \<Rightarrow> ('m \<times> 'r) result)
    \<Rightarrow> ('m \<Rightarrow> 'w \<Rightarrow> 'w result) \<Rightarrow> ('r input \<Rightarrow> nat option \<Rightarrow> ('m \<times> 'r) result) \<Rightarrow> bool" where
  "interoperates L inp P enc dec enc' dec' \<longleftrightarrow> enc' = enc \<and>
     (\<forall>m. P m \<longrightarrow> roundtrips L inp enc dec' m \<and> roundtrips L inp enc' dec m)"


section \<open>The laws of the packages\<close>

text \<open>
  \<open>Long\<close>: \<open>gt\<close> compares, \<open>toNumber\<close> gives the nearest double.
\<close>

locale long_laws =
  fixes G :: long_lib
  assumes long_gt: "long_gt G i j \<longleftrightarrow> j < i"
    and long_toNumber: "long_toNumber G i = to_double (of_int i)"
begin

lemma longToNumber_long_safe:
  "MIN_SAFE_INTEGER \<le> i \<Longrightarrow> i \<le> MAX_SAFE_INTEGER \<Longrightarrow> longToNumber_long G i = Inr (num_of_int i)"
  using to_double_int [of i]
  by (simp add: longToNumber_long_def long_gt long_toNumber MIN_SAFE_INTEGER_def MAX_SAFE_INTEGER_def)

lemma longToNumber_long_large:
  "MAX_SAFE_INTEGER < i \<Longrightarrow>
   longToNumber_long G i = Inl (Error ''Value is larger than Number.MAX_SAFE_INTEGER'')"
  by (simp add: longToNumber_long_def long_gt)

text \<open>Below the safe integers the value is rounded and returned.\<close>

lemma longToNumber_long_small:
  "i < MIN_SAFE_INTEGER \<Longrightarrow> longToNumber_long G i = Inr (to_double (of_int i))"
  by (simp add: longToNumber_long_def long_gt long_toNumber MIN_SAFE_INTEGER_def MAX_SAFE_INTEGER_def)

lemma longToNumber_long_returns: "longToNumber_long G i \<noteq> Inl Diverges"
  by (simp add: longToNumber_long_def)

end

lemma round53_example: "round53 (- 9007199254740993) = 9007199254740992"
  by code_simp

locale long_wire_laws = wire_laws L F out inp + long_laws G
  for L :: "('w, 'r) wire" and F out inp G
begin

lemma good_skipType [fwd_rules]: "good_act (skipType L tag m)"
  using fwd_skip returns_skip
  by (auto simp: good_act_def skipType_def bindE_Inr_conv bindE_Inl_conv)

lemma good_num64l [fwd_rules]: "good_op op \<Longrightarrow> good_op (num64l G op)"
  using longToNumber_long_returns
  by (fastforce simp: good_op_def num64l_def bindE_Inr_conv bindE_Inl_conv)

lemma eager_num64l [fwd_rules]: "eager_op (num64l G (r_uint64 L))"
  using good_num64l [OF good_ops(4)] use_uint64
  by (fastforce simp: eager_op_def num64l_def bindE_Inr_conv)

lemma carries_int64l [codec_rules]: "safe_int n \<Longrightarrow> carries (seqE [w_int64 L n]) (num64l G (r_int64 L)) n"
proof -
  assume "safe_int n"
  then obtain i where i: "n = num_of_int i" "MIN_SAFE_INTEGER \<le> i" "i \<le> MAX_SAFE_INTEGER"
    by (auto simp: safe_int_def elim!: int_betweenE)
  then have b: "- (2 ^ 63) \<le> i" "i < 2 ^ 63" by (simp_all add: MIN_SAFE_INTEGER_def MAX_SAFE_INTEGER_def)
  then have "emits (w_int64 L n) (e_int64 F i)" using i(1) out_int64 by (simp add: emits_def)
  moreover have "inp r = e_int64 F i @ t \<Longrightarrow> \<exists>r'. num64l G (r_int64 L) r = Inr (n, r') \<and> inp r' = t" for r t
    using inp_int64 [of r i t] b i longToNumber_long_safe by (auto simp: num64l_def)
  ultimately show ?thesis by (auto simp: carries_def)
qed

lemma carries_uint64l_raw: "safe_uint n \<Longrightarrow> carries (w_uint64 L n) (num64l G (r_uint64 L)) n"
proof -
  assume "safe_uint n"
  then obtain i where i: "n = num_of_int i" "0 \<le> i" "i \<le> MAX_SAFE_INTEGER"
    by (auto simp: safe_uint_def elim!: int_betweenE)
  then have b: "i < 2 ^ 64" "MIN_SAFE_INTEGER \<le> i" by (simp_all add: MAX_SAFE_INTEGER_def MIN_SAFE_INTEGER_def)
  then have "emits (w_uint64 L n) (e_uint64 F i)" using i out_uint64 by (simp add: emits_def)
  moreover have "inp r = e_uint64 F i @ t \<Longrightarrow> \<exists>r'. num64l G (r_uint64 L) r = Inr (n, r') \<and> inp r' = t" for r t
    using inp_uint64 [of r i t] b i longToNumber_long_safe by (auto simp: num64l_def)
  ultimately show ?thesis by (auto simp: carries_def)
qed

lemma carries_uint64l [codec_rules]: "safe_uint n \<Longrightarrow> carries (seqE [w_uint64 L n]) (num64l G (r_uint64 L)) n"
  using carries_uint64l_raw by simp

lemma carries_packed_uint64l [codec_rules]:
  "list_all safe_uint xs \<and> fits L (forE (w_uint64 L) xs) \<Longrightarrow>
   carries (seqE [w_fork L, forE (w_uint64 L) xs, w_join L]) (packed L (num64l G (r_uint64 L))) xs"
  using carries_uint64l_raw by (intro carries_packed eager_num64l) (auto simp: list_all_iff)

end


section \<open>JSON\<close>

text \<open>The property a \<open>jlistE\<close> writes when nothing in it throws.\<close>

definition jlist :: "string \<Rightarrow> ('a \<Rightarrow> jsval) \<Rightarrow> 'a list \<Rightarrow> (string \<times> jsval) list" where
  "jlist k f xs = [(k, JArray (map f xs))]"

lemma jlistE_pure: "jlistE k (\<lambda>e. Inr (f e)) xs = Inr (jlist k f xs)"
  by (simp add: jlistE_def jlist_def mapE_Inr)

lemma jlistE_Inr:
  "list_all (json_rt f g) xs \<Longrightarrow> jlistE k f xs = Inr (jlist k (\<lambda>v. json_of (f v)) xs)"
proof -
  assume "list_all (json_rt f g) xs"
  then have "mapE f xs = Inr (map (\<lambda>v. json_of (f v)) xs)"
    by (intro mapE_Inr) (auto simp: list_all_iff json_rt_def)
  then show ?thesis by (simp add: jlistE_def jlist_def)
qed

lemma jlist_rules [json_rules]:
  "k' \<noteq> k \<Longrightarrow> absent ps k \<Longrightarrow> absent (jlist k' g xs @ ps) k"
  "absent ps k \<Longrightarrow> written_at (jlist k g xs @ ps) k (jlist k g xs)"
  "k' \<noteq> k \<Longrightarrow> written_at ps k p \<Longrightarrow> written_at (jlist k' g xs @ ps) k p"
  by (simp_all add: absent_def written_at_def jlist_def)

lemma read_list_elements:
  "list_all (\<lambda>v. g (f v) = Inr v) xs \<Longrightarrow> look_array (map_of (jlist k f xs) k) g = Inr xs"
proof -
  assume "list_all (\<lambda>v. g (f v) = Inr v) xs"
  then have "mapE (\<lambda>v. g (f v)) xs = Inr (map (\<lambda>v. v) xs)"
    by (intro mapE_Inr) (auto simp: list_all_iff)
  then show ?thesis by (simp add: look_array_def jlist_def mapE_map)
qed

lemma read_list:
  "list_all (json_rt f g) xs \<Longrightarrow> look_array (map_of (jlist k (\<lambda>v. json_of (f v)) xs) k) g = Inr xs"
  by (rule read_list_elements) (auto simp: list_all_iff json_rtD(3))

lemma json_list_scalars [json_rules]:
  "jlistE k (\<lambda>e. Inr (JString e)) ss = Inr (jlist k JString ss)"
  "look_array (map_of (jlist k JString ss) k) (stringE h) = Inr ss"
  "jlistE k (\<lambda>e. Inr (JBool e)) bs = Inr (jlist k JBool bs)"
  "look_array (map_of (jlist k JBool bs) k) booleanE = Inr bs"
  "jlistE k (\<lambda>e. Inr (JNumber (Math_round e))) ns = Inr (jlist k (\<lambda>e. JNumber (Math_round e)) ns)"
  "list_all whole ns \<Longrightarrow>
   look_array (map_of (jlist k (\<lambda>e. JNumber (Math_round e)) ns) k) (numberE h) = Inr ns"
  "jlistE k (base64E h) xs = Inr (jlist k (\<lambda>b. JString (b64_encode b)) xs)"
  "look_array (map_of (jlist k (\<lambda>b. JString (b64_encode b)) xs) k) (bytesFromBase64 h) = Inr xs"
  by (simp_all only: base64E_eq [abs_def] jlistE_pure)
    (rule read_list_elements; simp add: list_all_iff stringE_def booleanE_def numberE_def whole_def
      bytesFromBase64_encode)+

text \<open>A field that is written whatever its value.\<close>

lemma read_always [json_rules]:
  "lookE (map_of (jfield True k (JString s)) k) (stringE h) [] = Inr s"
  "whole n \<Longrightarrow> lookE (map_of (jfield True k (JNumber (Math_round n))) k) (numberE h) (Num 0) = Inr n"
  "lookE (map_of (jfield True k (JBool b)) k) booleanE False = Inr b"
  "enumE f (JString t) = Inr n \<Longrightarrow> lookE (map_of (jfield True k (JString t)) k) (enumE f) (Num 0) = Inr n"
  "lookE (map_of (jfield True k (JString (b64_encode d))) k) (bytesFromBase64 h) [] = Inr d"
  by (rule read_field; simp add: stringE_def numberE_def booleanE_def whole_def bytesFromBase64_encode)+

context message_json
begin

lemmas json_list_rules =
  joptE_Inr [OF json_opt] read_opt [OF json_opt] jlistE_Inr [OF json_list] read_list [OF json_list]

end


section \<open>Dates with a fractional second\<close>

lemma whole_secondsE:
  assumes "whole_seconds d"
  obtains k where "d = num_of_int (1000 * k)" and "\<bar>1000 * k\<bar> \<le> max_time"
proof -
  obtain t where t: "d = num_of_int t" "\<bar>t\<bar> \<le> max_time"
    using assms by (auto simp: whole_seconds_def date_valid_def abs_le_iff elim!: int_betweenE)
  then have "t mod 1000 = 0" using assms by (simp add: whole_seconds_def)
  then obtain k where "t = 1000 * k" by (auto simp: mod_eq_0_iff_dvd)
  with t show ?thesis using that by blast
qed

lemma toTimestamp_frac_whole:
  assumes "\<bar>1000 * k\<bar> \<le> max_time"
  shows "toTimestamp_frac (num_of_int (1000 * k)) = \<lparr>Timestamp.seconds = num_of_int k, Timestamp.nanos = Num 0\<rparr>"
proof -
  have k: "\<bar>k\<bar> \<le> 2 ^ 53" using assms by (simp add: max_time_def)
  have "num_divide (num_of_int (1000 * k)) 1000 = num_of_int k" using to_double_int [OF k] by simp
  moreover have "num_rem (num_of_int (1000 * k)) 1000 = Num 0" by (simp add: rat_trunc_def)
  ultimately show ?thesis by (simp add: toTimestamp_frac_def Let_def to_double_def [of 0])
qed

text \<open>For whole seconds the two conversions to a timestamp agree, and the date comes back.\<close>

lemma toTimestamp_frac_eq: "whole_seconds d \<Longrightarrow> toTimestamp_frac d = toTimestamp d"
proof -
  assume d: "whole_seconds d"
  then obtain k where k: "d = num_of_int (1000 * k)" "\<bar>1000 * k\<bar> \<le> max_time" by (rule whole_secondsE)
  have v: "date_valid (num_of_int (1000 * k))" using d k(1) by (simp add: whole_seconds_def)
  obtain t k' s where t: "num_of_int (1000 * k) = num_of_int t" "t = 1000 * k' + s" "\<bar>s\<bar> < 1000"
    and ts: "toTimestamp (num_of_int (1000 * k)) = \<lparr>Timestamp.seconds = num_of_int k', Timestamp.nanos = num_of_int (1000000 * s)\<rparr>"
    using toTimestamp_parts [OF v] by metis
  have "1000 * k = 1000 * k' + s" using t(1,2) by simp
  then have "s = 1000 * (k - k')" by simp
  moreover then have "k - k' = 0" using t(3) by (simp add: abs_mult)
  ultimately show ?thesis using toTimestamp_frac_whole [OF k(2)] ts k(1) by simp
qed

lemma fromTimestamp_frac_whole: "whole_seconds d \<Longrightarrow> fromTimestamp_frac (toTimestamp_frac d) = d"
proof -
  assume "whole_seconds d"
  then obtain k where k: "d = num_of_int (1000 * k)" "\<bar>1000 * k\<bar> \<le> max_time" by (rule whole_secondsE)
  then have b: "\<bar>1000 * k\<bar> \<le> 2 ^ 53" by (simp add: max_time_def)
  have "num_scale (num_of_int k) 1000 = num_of_int (1000 * k)"
    using to_double_int [OF b] by (simp add: mult.commute)
  then show ?thesis
    unfolding k(1) toTimestamp_frac_whole [OF k(2)]
    using Date_new_int [OF k(2)] to_double_int [OF b]
    by (simp add: fromTimestamp_frac_def Let_def to_double_def [of 0])
qed

lemma toTimestamp_frac_wf: "whole_seconds d \<Longrightarrow> wf_Timestamp L (toTimestamp_frac d)"
  using toTimestamp_wf [of d L] toTimestamp_frac_eq [of d] by (simp add: whole_seconds_def)

end
