(* ===== verification/PbLong.thy ===== *)
theory PbLong
  imports PbWire LongCodec
begin

text \<open>
  The package \<open>long\<close> with its documented behaviour, together with the wire format of \<open>PbWire\<close>: an instance
  of what the codecs of \<open>ts-client\<close> rely on.
\<close>

definition pb_long :: long_lib where
  "pb_long = \<lparr>long_gt = (\<lambda>i j. j < i), long_toNumber = (\<lambda>i. to_double (of_int i))\<rparr>"

interpretation pbl: long_wire_laws pb_wire pb_format pb_out snd pb_long
  by unfold_locales (simp_all add: pb_long_def)

end
