(* ===== verification/MiscMsgs.thy ===== *)
theory MiscMsgs
  imports BaseMsgs
begin

text \<open>
  The wrappers of single values the chain stores (\<open>arkeo/arkeo/misc.ts\<close>) and the module parameters
  (\<open>arkeo/arkeo/params.ts\<close>).
\<close>


section \<open>arkeo/arkeo/misc.ts\<close>

subsection \<open>ProtoInt64\<close>

record ProtoInt64 =
  value' :: number

definition createBase_ProtoInt64 :: ProtoInt64 where
  "createBase_ProtoInt64 = \<lparr>ProtoInt64.value' = Num 0\<rparr>"

definition encode_ProtoInt64 :: "('w, 'r) wire \<Rightarrow> ProtoInt64 \<Rightarrow> 'w \<Rightarrow> 'w result" where
  "encode_ProtoInt64 L message = seqE
    [whenE (ProtoInt64.value' message \<noteq> Num 0) (seqE [w_uint32 L 8, w_int64 L (ProtoInt64.value' message)])]"

definition ProtoInt64_switch :: "('w, 'r) wire \<Rightarrow> u32 \<Rightarrow> ProtoInt64 \<Rightarrow> (ProtoInt64, 'r) action" where
  "ProtoInt64_switch L tag message = js_switch (drop_bit 3 tag)
    [(1, when_tag tag 8 (readf (num64 (r_int64 L)) (\<lambda>v. message\<lparr>ProtoInt64.value' := v\<rparr>)))]
    break_out"

definition decode_ProtoInt64 :: "('w, 'r) wire \<Rightarrow> 'r input \<Rightarrow> nat option \<Rightarrow> (ProtoInt64 \<times> 'r) result" where
  "decode_ProtoInt64 L = decode_msg L (ProtoInt64_switch L) createBase_ProtoInt64"

definition fromJSON_ProtoInt64 :: "host \<Rightarrow> jsval \<Rightarrow> ProtoInt64 result" where
  "fromJSON_ProtoInt64 h object =
     bindE (fieldE object ''value'' (numberE h) (Num 0)) (\<lambda>v_value.
     Inr \<lparr>ProtoInt64.value' = v_value\<rparr>)"

definition toJSON_ProtoInt64 :: "host \<Rightarrow> ProtoInt64 \<Rightarrow> jsval result" where
  "toJSON_ProtoInt64 h message = objE
    [jfieldE (ProtoInt64.value' message \<noteq> Num 0) ''value'' (Inr (JNumber (Math_round (ProtoInt64.value' message))))]"

record ProtoInt64_Partial =
  value' :: "number option"

definition ProtoInt64_empty :: ProtoInt64_Partial where
  "ProtoInt64_empty = \<lparr>ProtoInt64_Partial.value' = None\<rparr>"

definition fromPartial_ProtoInt64 :: "ProtoInt64_Partial \<Rightarrow> ProtoInt64" where
  "fromPartial_ProtoInt64 object = createBase_ProtoInt64\<lparr>ProtoInt64.value' := nullish (ProtoInt64_Partial.value' object) (Num 0)\<rparr>"

definition create_ProtoInt64 :: "ProtoInt64_Partial option \<Rightarrow> ProtoInt64" where
  "create_ProtoInt64 base = fromPartial_ProtoInt64 (nullish base ProtoInt64_empty)"

text \<open>A partial message that sets every field.\<close>

definition partial_of_ProtoInt64 :: "ProtoInt64 \<Rightarrow> ProtoInt64_Partial" where
  "partial_of_ProtoInt64 m =
     \<lparr>ProtoInt64_Partial.value' = Some (ProtoInt64.value' m)\<rparr>"

definition ok_ProtoInt64 :: "ProtoInt64 \<Rightarrow> bool" where
  "ok_ProtoInt64 m \<longleftrightarrow> safe_int (ProtoInt64.value' m)"

definition wf_ProtoInt64 :: "('w, 'r) wire \<Rightarrow> ProtoInt64 \<Rightarrow> bool" where
  "wf_ProtoInt64 L m \<longleftrightarrow> safe_int (ProtoInt64.value' m)"

definition wfj_ProtoInt64 :: "ProtoInt64 \<Rightarrow> bool" where
  "wfj_ProtoInt64 m \<longleftrightarrow> whole (ProtoInt64.value' m)"

subsection \<open>ProtoUint64\<close>

record ProtoUint64 =
  value' :: number

definition createBase_ProtoUint64 :: ProtoUint64 where
  "createBase_ProtoUint64 = \<lparr>ProtoUint64.value' = Num 0\<rparr>"

definition encode_ProtoUint64 :: "('w, 'r) wire \<Rightarrow> ProtoUint64 \<Rightarrow> 'w \<Rightarrow> 'w result" where
  "encode_ProtoUint64 L message = seqE
    [whenE (ProtoUint64.value' message \<noteq> Num 0) (seqE [w_uint32 L 8, w_uint64 L (ProtoUint64.value' message)])]"

definition ProtoUint64_switch :: "('w, 'r) wire \<Rightarrow> u32 \<Rightarrow> ProtoUint64 \<Rightarrow> (ProtoUint64, 'r) action" where
  "ProtoUint64_switch L tag message = js_switch (drop_bit 3 tag)
    [(1, when_tag tag 8 (readf (num64 (r_uint64 L)) (\<lambda>v. message\<lparr>ProtoUint64.value' := v\<rparr>)))]
    break_out"

definition decode_ProtoUint64 :: "('w, 'r) wire \<Rightarrow> 'r input \<Rightarrow> nat option \<Rightarrow> (ProtoUint64 \<times> 'r) result" where
  "decode_ProtoUint64 L = decode_msg L (ProtoUint64_switch L) createBase_ProtoUint64"

definition fromJSON_ProtoUint64 :: "host \<Rightarrow> jsval \<Rightarrow> ProtoUint64 result" where
  "fromJSON_ProtoUint64 h object =
     bindE (fieldE object ''value'' (numberE h) (Num 0)) (\<lambda>v_value.
     Inr \<lparr>ProtoUint64.value' = v_value\<rparr>)"

definition toJSON_ProtoUint64 :: "host \<Rightarrow> ProtoUint64 \<Rightarrow> jsval result" where
  "toJSON_ProtoUint64 h message = objE
    [jfieldE (ProtoUint64.value' message \<noteq> Num 0) ''value'' (Inr (JNumber (Math_round (ProtoUint64.value' message))))]"

record ProtoUint64_Partial =
  value' :: "number option"

definition ProtoUint64_empty :: ProtoUint64_Partial where
  "ProtoUint64_empty = \<lparr>ProtoUint64_Partial.value' = None\<rparr>"

definition fromPartial_ProtoUint64 :: "ProtoUint64_Partial \<Rightarrow> ProtoUint64" where
  "fromPartial_ProtoUint64 object = createBase_ProtoUint64\<lparr>ProtoUint64.value' := nullish (ProtoUint64_Partial.value' object) (Num 0)\<rparr>"

definition create_ProtoUint64 :: "ProtoUint64_Partial option \<Rightarrow> ProtoUint64" where
  "create_ProtoUint64 base = fromPartial_ProtoUint64 (nullish base ProtoUint64_empty)"

text \<open>A partial message that sets every field.\<close>

definition partial_of_ProtoUint64 :: "ProtoUint64 \<Rightarrow> ProtoUint64_Partial" where
  "partial_of_ProtoUint64 m =
     \<lparr>ProtoUint64_Partial.value' = Some (ProtoUint64.value' m)\<rparr>"

definition ok_ProtoUint64 :: "ProtoUint64 \<Rightarrow> bool" where
  "ok_ProtoUint64 m \<longleftrightarrow> safe_uint (ProtoUint64.value' m)"

definition wf_ProtoUint64 :: "('w, 'r) wire \<Rightarrow> ProtoUint64 \<Rightarrow> bool" where
  "wf_ProtoUint64 L m \<longleftrightarrow> safe_uint (ProtoUint64.value' m)"

definition wfj_ProtoUint64 :: "ProtoUint64 \<Rightarrow> bool" where
  "wfj_ProtoUint64 m \<longleftrightarrow> whole (ProtoUint64.value' m)"

subsection \<open>ProtoAccAddresses\<close>

record ProtoAccAddresses =
  value' :: "bytes list"

definition createBase_ProtoAccAddresses :: ProtoAccAddresses where
  "createBase_ProtoAccAddresses = \<lparr>ProtoAccAddresses.value' = []\<rparr>"

definition encode_ProtoAccAddresses :: "('w, 'r) wire \<Rightarrow> ProtoAccAddresses \<Rightarrow> 'w \<Rightarrow> 'w result" where
  "encode_ProtoAccAddresses L message = seqE
    [forE (\<lambda>v. seqE [w_uint32 L 10, w_bytes L v]) (ProtoAccAddresses.value' message)]"

definition ProtoAccAddresses_switch :: "('w, 'r) wire \<Rightarrow> u32 \<Rightarrow> ProtoAccAddresses \<Rightarrow> (ProtoAccAddresses, 'r) action" where
  "ProtoAccAddresses_switch L tag message = js_switch (drop_bit 3 tag)
    [(1, when_tag tag 10 (readf (r_bytes L) (\<lambda>v. message\<lparr>ProtoAccAddresses.value' := ProtoAccAddresses.value' message @ [v]\<rparr>)))]
    break_out"

definition decode_ProtoAccAddresses :: "('w, 'r) wire \<Rightarrow> 'r input \<Rightarrow> nat option \<Rightarrow> (ProtoAccAddresses \<times> 'r) result" where
  "decode_ProtoAccAddresses L = decode_msg L (ProtoAccAddresses_switch L) createBase_ProtoAccAddresses"

definition fromJSON_ProtoAccAddresses :: "host \<Rightarrow> jsval \<Rightarrow> ProtoAccAddresses result" where
  "fromJSON_ProtoAccAddresses h object =
     bindE (arrayE object ''value'' (bytesFromBase64 h)) (\<lambda>v_value.
     Inr \<lparr>ProtoAccAddresses.value' = v_value\<rparr>)"

definition toJSON_ProtoAccAddresses :: "host \<Rightarrow> ProtoAccAddresses \<Rightarrow> jsval result" where
  "toJSON_ProtoAccAddresses h message = objE
    [jarrayE ''value'' (base64E h) (ProtoAccAddresses.value' message)]"

record ProtoAccAddresses_Partial =
  value' :: "bytes list option"

definition ProtoAccAddresses_empty :: ProtoAccAddresses_Partial where
  "ProtoAccAddresses_empty = \<lparr>ProtoAccAddresses_Partial.value' = None\<rparr>"

definition fromPartial_ProtoAccAddresses :: "ProtoAccAddresses_Partial \<Rightarrow> ProtoAccAddresses" where
  "fromPartial_ProtoAccAddresses object = createBase_ProtoAccAddresses\<lparr>ProtoAccAddresses.value' := partial_map (\<lambda>e. e) (ProtoAccAddresses_Partial.value' object)\<rparr>"

definition create_ProtoAccAddresses :: "ProtoAccAddresses_Partial option \<Rightarrow> ProtoAccAddresses" where
  "create_ProtoAccAddresses base = fromPartial_ProtoAccAddresses (nullish base ProtoAccAddresses_empty)"

text \<open>A partial message that sets every field.\<close>

definition partial_of_ProtoAccAddresses :: "ProtoAccAddresses \<Rightarrow> ProtoAccAddresses_Partial" where
  "partial_of_ProtoAccAddresses m =
     \<lparr>ProtoAccAddresses_Partial.value' = Some (ProtoAccAddresses.value' m)\<rparr>"

definition ok_ProtoAccAddresses :: "ProtoAccAddresses \<Rightarrow> bool" where
  "ok_ProtoAccAddresses m \<longleftrightarrow> True"

definition wf_ProtoAccAddresses :: "('w, 'r) wire \<Rightarrow> ProtoAccAddresses \<Rightarrow> bool" where
  "wf_ProtoAccAddresses L m \<longleftrightarrow> list_all wire_bytes (ProtoAccAddresses.value' m)"

definition wfj_ProtoAccAddresses :: "ProtoAccAddresses \<Rightarrow> bool" where
  "wfj_ProtoAccAddresses m \<longleftrightarrow> True"

subsection \<open>ProtoStrings\<close>

record ProtoStrings =
  value' :: "jsstring list"

definition createBase_ProtoStrings :: ProtoStrings where
  "createBase_ProtoStrings = \<lparr>ProtoStrings.value' = []\<rparr>"

definition encode_ProtoStrings :: "('w, 'r) wire \<Rightarrow> ProtoStrings \<Rightarrow> 'w \<Rightarrow> 'w result" where
  "encode_ProtoStrings L message = seqE
    [forE (\<lambda>v. seqE [w_uint32 L 10, w_string L v]) (ProtoStrings.value' message)]"

definition ProtoStrings_switch :: "('w, 'r) wire \<Rightarrow> u32 \<Rightarrow> ProtoStrings \<Rightarrow> (ProtoStrings, 'r) action" where
  "ProtoStrings_switch L tag message = js_switch (drop_bit 3 tag)
    [(1, when_tag tag 10 (readf (r_string L) (\<lambda>v. message\<lparr>ProtoStrings.value' := ProtoStrings.value' message @ [v]\<rparr>)))]
    break_out"

definition decode_ProtoStrings :: "('w, 'r) wire \<Rightarrow> 'r input \<Rightarrow> nat option \<Rightarrow> (ProtoStrings \<times> 'r) result" where
  "decode_ProtoStrings L = decode_msg L (ProtoStrings_switch L) createBase_ProtoStrings"

definition fromJSON_ProtoStrings :: "host \<Rightarrow> jsval \<Rightarrow> ProtoStrings result" where
  "fromJSON_ProtoStrings h object =
     bindE (arrayE object ''value'' (stringE h)) (\<lambda>v_value.
     Inr \<lparr>ProtoStrings.value' = v_value\<rparr>)"

definition toJSON_ProtoStrings :: "host \<Rightarrow> ProtoStrings \<Rightarrow> jsval result" where
  "toJSON_ProtoStrings h message = objE
    [jarrayE ''value'' (\<lambda>e. Inr (JString e)) (ProtoStrings.value' message)]"

record ProtoStrings_Partial =
  value' :: "jsstring list option"

definition ProtoStrings_empty :: ProtoStrings_Partial where
  "ProtoStrings_empty = \<lparr>ProtoStrings_Partial.value' = None\<rparr>"

definition fromPartial_ProtoStrings :: "ProtoStrings_Partial \<Rightarrow> ProtoStrings" where
  "fromPartial_ProtoStrings object = createBase_ProtoStrings\<lparr>ProtoStrings.value' := partial_map (\<lambda>e. e) (ProtoStrings_Partial.value' object)\<rparr>"

definition create_ProtoStrings :: "ProtoStrings_Partial option \<Rightarrow> ProtoStrings" where
  "create_ProtoStrings base = fromPartial_ProtoStrings (nullish base ProtoStrings_empty)"

text \<open>A partial message that sets every field.\<close>

definition partial_of_ProtoStrings :: "ProtoStrings \<Rightarrow> ProtoStrings_Partial" where
  "partial_of_ProtoStrings m =
     \<lparr>ProtoStrings_Partial.value' = Some (ProtoStrings.value' m)\<rparr>"

definition ok_ProtoStrings :: "ProtoStrings \<Rightarrow> bool" where
  "ok_ProtoStrings m \<longleftrightarrow> True"

definition wf_ProtoStrings :: "('w, 'r) wire \<Rightarrow> ProtoStrings \<Rightarrow> bool" where
  "wf_ProtoStrings L m \<longleftrightarrow> list_all wire_string (ProtoStrings.value' m)"

definition wfj_ProtoStrings :: "ProtoStrings \<Rightarrow> bool" where
  "wfj_ProtoStrings m \<longleftrightarrow> True"

subsection \<open>ProtoBools\<close>

record ProtoBools =
  value' :: "bool list"

definition createBase_ProtoBools :: ProtoBools where
  "createBase_ProtoBools = \<lparr>ProtoBools.value' = []\<rparr>"

definition encode_ProtoBools :: "('w, 'r) wire \<Rightarrow> ProtoBools \<Rightarrow> 'w \<Rightarrow> 'w result" where
  "encode_ProtoBools L message = seqE
    [seqE [w_uint32 L 10, w_fork L, forE (w_bool L) (ProtoBools.value' message), w_join L]]"

definition ProtoBools_switch :: "('w, 'r) wire \<Rightarrow> u32 \<Rightarrow> ProtoBools \<Rightarrow> (ProtoBools, 'r) action" where
  "ProtoBools_switch L tag message = js_switch (drop_bit 3 tag)
    [(1, if tag = 8 then readf (r_bool L) (\<lambda>v. message\<lparr>ProtoBools.value' := ProtoBools.value' message @ [v]\<rparr>)
          else if tag = 10 then readf (packed L (r_bool L)) (\<lambda>v. message\<lparr>ProtoBools.value' := ProtoBools.value' message @ v\<rparr>)
          else break_out)]
    break_out"

definition decode_ProtoBools :: "('w, 'r) wire \<Rightarrow> 'r input \<Rightarrow> nat option \<Rightarrow> (ProtoBools \<times> 'r) result" where
  "decode_ProtoBools L = decode_msg L (ProtoBools_switch L) createBase_ProtoBools"

definition fromJSON_ProtoBools :: "host \<Rightarrow> jsval \<Rightarrow> ProtoBools result" where
  "fromJSON_ProtoBools h object =
     bindE (arrayE object ''value'' booleanE) (\<lambda>v_value.
     Inr \<lparr>ProtoBools.value' = v_value\<rparr>)"

definition toJSON_ProtoBools :: "host \<Rightarrow> ProtoBools \<Rightarrow> jsval result" where
  "toJSON_ProtoBools h message = objE
    [jarrayE ''value'' (\<lambda>e. Inr (JBool e)) (ProtoBools.value' message)]"

record ProtoBools_Partial =
  value' :: "bool list option"

definition ProtoBools_empty :: ProtoBools_Partial where
  "ProtoBools_empty = \<lparr>ProtoBools_Partial.value' = None\<rparr>"

definition fromPartial_ProtoBools :: "ProtoBools_Partial \<Rightarrow> ProtoBools" where
  "fromPartial_ProtoBools object = createBase_ProtoBools\<lparr>ProtoBools.value' := partial_map (\<lambda>e. e) (ProtoBools_Partial.value' object)\<rparr>"

definition create_ProtoBools :: "ProtoBools_Partial option \<Rightarrow> ProtoBools" where
  "create_ProtoBools base = fromPartial_ProtoBools (nullish base ProtoBools_empty)"

text \<open>A partial message that sets every field.\<close>

definition partial_of_ProtoBools :: "ProtoBools \<Rightarrow> ProtoBools_Partial" where
  "partial_of_ProtoBools m =
     \<lparr>ProtoBools_Partial.value' = Some (ProtoBools.value' m)\<rparr>"

definition ok_ProtoBools :: "ProtoBools \<Rightarrow> bool" where
  "ok_ProtoBools m \<longleftrightarrow> True"

definition wf_ProtoBools :: "('w, 'r) wire \<Rightarrow> ProtoBools \<Rightarrow> bool" where
  "wf_ProtoBools L m \<longleftrightarrow> fits L (forE (w_bool L) (ProtoBools.value' m))"

definition wfj_ProtoBools :: "ProtoBools \<Rightarrow> bool" where
  "wfj_ProtoBools m \<longleftrightarrow> True"


section \<open>arkeo/arkeo/params.ts\<close>

subsection \<open>Params\<close>

record Params =
  blockPerYear :: number
  emissionCurve :: number

definition createBase_Params :: Params where
  "createBase_Params = \<lparr>Params.blockPerYear = Num 0,
     Params.emissionCurve = Num 0\<rparr>"

definition encode_Params :: "('w, 'r) wire \<Rightarrow> Params \<Rightarrow> 'w \<Rightarrow> 'w result" where
  "encode_Params L message = seqE
    [whenE (Params.blockPerYear message \<noteq> Num 0) (seqE [w_uint32 L 64, w_uint64 L (Params.blockPerYear message)]),
     whenE (Params.emissionCurve message \<noteq> Num 0) (seqE [w_uint32 L 72, w_uint64 L (Params.emissionCurve message)])]"

definition Params_switch :: "('w, 'r) wire \<Rightarrow> u32 \<Rightarrow> Params \<Rightarrow> (Params, 'r) action" where
  "Params_switch L tag message = js_switch (drop_bit 3 tag)
    [(8, when_tag tag 64 (readf (num64 (r_uint64 L)) (\<lambda>v. message\<lparr>Params.blockPerYear := v\<rparr>))),
     (9, when_tag tag 72 (readf (num64 (r_uint64 L)) (\<lambda>v. message\<lparr>Params.emissionCurve := v\<rparr>)))]
    break_out"

definition decode_Params :: "('w, 'r) wire \<Rightarrow> 'r input \<Rightarrow> nat option \<Rightarrow> (Params \<times> 'r) result" where
  "decode_Params L = decode_msg L (Params_switch L) createBase_Params"

definition fromJSON_Params :: "host \<Rightarrow> jsval \<Rightarrow> Params result" where
  "fromJSON_Params h object =
     bindE (fieldE object ''blockPerYear'' (numberE h) (Num 0)) (\<lambda>v_blockPerYear.
     bindE (fieldE object ''emissionCurve'' (numberE h) (Num 0)) (\<lambda>v_emissionCurve.
     Inr \<lparr>Params.blockPerYear = v_blockPerYear, Params.emissionCurve = v_emissionCurve\<rparr>))"

definition toJSON_Params :: "host \<Rightarrow> Params \<Rightarrow> jsval result" where
  "toJSON_Params h message = objE
    [jfieldE (Params.blockPerYear message \<noteq> Num 0) ''blockPerYear'' (Inr (JNumber (Math_round (Params.blockPerYear message)))),
     jfieldE (Params.emissionCurve message \<noteq> Num 0) ''emissionCurve'' (Inr (JNumber (Math_round (Params.emissionCurve message))))]"

record Params_Partial =
  blockPerYear :: "number option"
  emissionCurve :: "number option"

definition Params_empty :: Params_Partial where
  "Params_empty = \<lparr>Params_Partial.blockPerYear = None, Params_Partial.emissionCurve = None\<rparr>"

definition fromPartial_Params :: "Params_Partial \<Rightarrow> Params" where
  "fromPartial_Params object = createBase_Params\<lparr>Params.blockPerYear := nullish (Params_Partial.blockPerYear object) (Num 0),
     Params.emissionCurve := nullish (Params_Partial.emissionCurve object) (Num 0)\<rparr>"

definition create_Params :: "Params_Partial option \<Rightarrow> Params" where
  "create_Params base = fromPartial_Params (nullish base Params_empty)"

text \<open>A partial message that sets every field.\<close>

definition partial_of_Params :: "Params \<Rightarrow> Params_Partial" where
  "partial_of_Params m =
     \<lparr>Params_Partial.blockPerYear = Some (Params.blockPerYear m),
      Params_Partial.emissionCurve = Some (Params.emissionCurve m)\<rparr>"

definition ok_Params :: "Params \<Rightarrow> bool" where
  "ok_Params m \<longleftrightarrow> safe_uint (Params.blockPerYear m)
     \<and> safe_uint (Params.emissionCurve m)"

definition wf_Params :: "('w, 'r) wire \<Rightarrow> Params \<Rightarrow> bool" where
  "wf_Params L m \<longleftrightarrow> safe_uint (Params.blockPerYear m)
     \<and> safe_uint (Params.emissionCurve m)"

definition wfj_Params :: "Params \<Rightarrow> bool" where
  "wfj_Params m \<longleftrightarrow> whole (Params.blockPerYear m)
     \<and> whole (Params.emissionCurve m)"


section \<open>Encoding, decoding and JSON of these messages\<close>

lemma ProtoInt64_tags:
  "ProtoInt64_switch L 8 m = readf (num64 (r_int64 L)) (\<lambda>v. m\<lparr>ProtoInt64.value' := v\<rparr>)"
  by (simp_all add: ProtoInt64_switch_def when_tag_def)

lemma fromPartial_partial_of_ProtoInt64 [simp]: "fromPartial_ProtoInt64 (partial_of_ProtoInt64 m) = m"
  by (simp add: fromPartial_ProtoInt64_def partial_of_ProtoInt64_def createBase_ProtoInt64_def partial_map_def option.map_comp o_def option.map_ident)

lemma create_ProtoInt64_None [simp]: "create_ProtoInt64 None = createBase_ProtoInt64"
  by (simp add: create_ProtoInt64_def fromPartial_ProtoInt64_def ProtoInt64_empty_def createBase_ProtoInt64_def partial_map_def)

sublocale wire_laws \<subseteq> ProtoInt64_codec: message_codec L F out inp "encode_ProtoInt64 L" "ProtoInt64_switch L" createBase_ProtoInt64 "wf_ProtoInt64 L"
proof unfold_locales
  show good: "good_sw (ProtoInt64_switch L)"
    unfolding ProtoInt64_switch_def by (intro good_swI fwd_rules)
  fix m assume "wf_ProtoInt64 L m"
  then show "codes (ProtoInt64_switch L) (encode_ProtoInt64 L m) createBase_ProtoInt64 m"
    unfolding encode_ProtoInt64_def wf_ProtoInt64_def
    by (-)
      (rule codes_Cons codes_Nil [OF ProtoInt64.equality] codec_rules
        codes_when [where tag = 8 and u = ProtoInt64.value'_update and op = "num64 (r_int64 L)", OF good]
      | assumption | (simp add: ProtoInt64_tags createBase_ProtoInt64_def; fail))+
qed

sublocale wire_laws \<subseteq> ProtoInt64_range: message_range L F out inp "ProtoInt64_switch L" createBase_ProtoInt64 ok_ProtoInt64
proof unfold_locales
  show "ok_ProtoInt64 createBase_ProtoInt64" by (simp add: ok_ProtoInt64_def createBase_ProtoInt64_def)
  fix m tag assume "ok_ProtoInt64 m"
  then show "keeps ok_ProtoInt64 (ProtoInt64_switch L tag m)"
    unfolding ProtoInt64_switch_def by - (rule range_rules | (simp add: ok_ProtoInt64_def; fail))+
qed

context wire_laws
begin

lemmas ProtoInt64_carries [codec_rules] =
  ProtoInt64_codec.opt_carries [folded decode_ProtoInt64_def] ProtoInt64_codec.list_carries [folded decode_ProtoInt64_def]

lemmas ProtoInt64_good [fwd_rules] = ProtoInt64_codec.op_good [folded decode_ProtoInt64_def]

lemmas ProtoInt64_yields [range_rules] = ProtoInt64_range.sub_range [folded decode_ProtoInt64_def]

lemmas ProtoInt64_roundtrip = ProtoInt64_codec.roundtrip [folded decode_ProtoInt64_def]

lemmas ProtoInt64_returns = ProtoInt64_codec.decode_returns [folded decode_ProtoInt64_def]

lemmas ProtoInt64_decoded = ProtoInt64_range.decode_range [folded decode_ProtoInt64_def]

end

interpretation ProtoInt64_json: message_json toJSON_ProtoInt64 fromJSON_ProtoInt64 wfj_ProtoInt64
proof unfold_locales
  fix h m
  assume "wfj_ProtoInt64 m"
  then show "json_rt (toJSON_ProtoInt64 h) (fromJSON_ProtoInt64 h) m"
    unfolding toJSON_ProtoInt64_def fromJSON_ProtoInt64_def wfj_ProtoInt64_def
    by (-) (rule json_rtI json_rules | assumption | (simp; fail))+
qed

lemmas ProtoInt64_json_rules [json_rules] = ProtoInt64_json.json_field_rules

lemma ProtoUint64_tags:
  "ProtoUint64_switch L 8 m = readf (num64 (r_uint64 L)) (\<lambda>v. m\<lparr>ProtoUint64.value' := v\<rparr>)"
  by (simp_all add: ProtoUint64_switch_def when_tag_def)

lemma fromPartial_partial_of_ProtoUint64 [simp]: "fromPartial_ProtoUint64 (partial_of_ProtoUint64 m) = m"
  by (simp add: fromPartial_ProtoUint64_def partial_of_ProtoUint64_def createBase_ProtoUint64_def partial_map_def option.map_comp o_def option.map_ident)

lemma create_ProtoUint64_None [simp]: "create_ProtoUint64 None = createBase_ProtoUint64"
  by (simp add: create_ProtoUint64_def fromPartial_ProtoUint64_def ProtoUint64_empty_def createBase_ProtoUint64_def partial_map_def)

sublocale wire_laws \<subseteq> ProtoUint64_codec: message_codec L F out inp "encode_ProtoUint64 L" "ProtoUint64_switch L" createBase_ProtoUint64 "wf_ProtoUint64 L"
proof unfold_locales
  show good: "good_sw (ProtoUint64_switch L)"
    unfolding ProtoUint64_switch_def by (intro good_swI fwd_rules)
  fix m assume "wf_ProtoUint64 L m"
  then show "codes (ProtoUint64_switch L) (encode_ProtoUint64 L m) createBase_ProtoUint64 m"
    unfolding encode_ProtoUint64_def wf_ProtoUint64_def
    by (-)
      (rule codes_Cons codes_Nil [OF ProtoUint64.equality] codec_rules
        codes_when [where tag = 8 and u = ProtoUint64.value'_update and op = "num64 (r_uint64 L)", OF good]
      | assumption | (simp add: ProtoUint64_tags createBase_ProtoUint64_def; fail))+
qed

sublocale wire_laws \<subseteq> ProtoUint64_range: message_range L F out inp "ProtoUint64_switch L" createBase_ProtoUint64 ok_ProtoUint64
proof unfold_locales
  show "ok_ProtoUint64 createBase_ProtoUint64" by (simp add: ok_ProtoUint64_def createBase_ProtoUint64_def)
  fix m tag assume "ok_ProtoUint64 m"
  then show "keeps ok_ProtoUint64 (ProtoUint64_switch L tag m)"
    unfolding ProtoUint64_switch_def by - (rule range_rules | (simp add: ok_ProtoUint64_def; fail))+
qed

context wire_laws
begin

lemmas ProtoUint64_carries [codec_rules] =
  ProtoUint64_codec.opt_carries [folded decode_ProtoUint64_def] ProtoUint64_codec.list_carries [folded decode_ProtoUint64_def]

lemmas ProtoUint64_good [fwd_rules] = ProtoUint64_codec.op_good [folded decode_ProtoUint64_def]

lemmas ProtoUint64_yields [range_rules] = ProtoUint64_range.sub_range [folded decode_ProtoUint64_def]

lemmas ProtoUint64_roundtrip = ProtoUint64_codec.roundtrip [folded decode_ProtoUint64_def]

lemmas ProtoUint64_returns = ProtoUint64_codec.decode_returns [folded decode_ProtoUint64_def]

lemmas ProtoUint64_decoded = ProtoUint64_range.decode_range [folded decode_ProtoUint64_def]

end

interpretation ProtoUint64_json: message_json toJSON_ProtoUint64 fromJSON_ProtoUint64 wfj_ProtoUint64
proof unfold_locales
  fix h m
  assume "wfj_ProtoUint64 m"
  then show "json_rt (toJSON_ProtoUint64 h) (fromJSON_ProtoUint64 h) m"
    unfolding toJSON_ProtoUint64_def fromJSON_ProtoUint64_def wfj_ProtoUint64_def
    by (-) (rule json_rtI json_rules | assumption | (simp; fail))+
qed

lemmas ProtoUint64_json_rules [json_rules] = ProtoUint64_json.json_field_rules

lemma ProtoAccAddresses_tags:
  "ProtoAccAddresses_switch L 10 m = readf (r_bytes L) (\<lambda>v. m\<lparr>ProtoAccAddresses.value' := ProtoAccAddresses.value' m @ [v]\<rparr>)"
  by (simp_all add: ProtoAccAddresses_switch_def when_tag_def)

lemma fromPartial_partial_of_ProtoAccAddresses [simp]: "fromPartial_ProtoAccAddresses (partial_of_ProtoAccAddresses m) = m"
  by (simp add: fromPartial_ProtoAccAddresses_def partial_of_ProtoAccAddresses_def createBase_ProtoAccAddresses_def partial_map_def option.map_comp o_def option.map_ident)

lemma create_ProtoAccAddresses_None [simp]: "create_ProtoAccAddresses None = createBase_ProtoAccAddresses"
  by (simp add: create_ProtoAccAddresses_def fromPartial_ProtoAccAddresses_def ProtoAccAddresses_empty_def createBase_ProtoAccAddresses_def partial_map_def)

sublocale wire_laws \<subseteq> ProtoAccAddresses_codec: message_codec L F out inp "encode_ProtoAccAddresses L" "ProtoAccAddresses_switch L" createBase_ProtoAccAddresses "wf_ProtoAccAddresses L"
proof unfold_locales
  show good: "good_sw (ProtoAccAddresses_switch L)"
    unfolding ProtoAccAddresses_switch_def by (intro good_swI fwd_rules)
  fix m assume "wf_ProtoAccAddresses L m"
  then show "codes (ProtoAccAddresses_switch L) (encode_ProtoAccAddresses L m) createBase_ProtoAccAddresses m"
    unfolding encode_ProtoAccAddresses_def wf_ProtoAccAddresses_def
    by (-)
      (rule codes_Cons codes_Nil [OF ProtoAccAddresses.equality] codec_rules
        codes_for [where tag = 10 and u = ProtoAccAddresses.value'_update and op = "r_bytes L", OF good]
      | assumption | (simp add: ProtoAccAddresses_tags createBase_ProtoAccAddresses_def; fail))+
qed

sublocale wire_laws \<subseteq> ProtoAccAddresses_range: message_range L F out inp "ProtoAccAddresses_switch L" createBase_ProtoAccAddresses ok_ProtoAccAddresses
proof unfold_locales
  show "ok_ProtoAccAddresses createBase_ProtoAccAddresses" by (simp add: ok_ProtoAccAddresses_def createBase_ProtoAccAddresses_def)
  fix m tag assume "ok_ProtoAccAddresses m"
  then show "keeps ok_ProtoAccAddresses (ProtoAccAddresses_switch L tag m)"
    unfolding ProtoAccAddresses_switch_def by - (rule range_rules | (simp add: ok_ProtoAccAddresses_def; fail))+
qed

context wire_laws
begin

lemmas ProtoAccAddresses_carries [codec_rules] =
  ProtoAccAddresses_codec.opt_carries [folded decode_ProtoAccAddresses_def] ProtoAccAddresses_codec.list_carries [folded decode_ProtoAccAddresses_def]

lemmas ProtoAccAddresses_good [fwd_rules] = ProtoAccAddresses_codec.op_good [folded decode_ProtoAccAddresses_def]

lemmas ProtoAccAddresses_yields [range_rules] = ProtoAccAddresses_range.sub_range [folded decode_ProtoAccAddresses_def]

lemmas ProtoAccAddresses_roundtrip = ProtoAccAddresses_codec.roundtrip [folded decode_ProtoAccAddresses_def]

lemmas ProtoAccAddresses_returns = ProtoAccAddresses_codec.decode_returns [folded decode_ProtoAccAddresses_def]

lemmas ProtoAccAddresses_decoded = ProtoAccAddresses_range.decode_range [folded decode_ProtoAccAddresses_def]

end

interpretation ProtoAccAddresses_json: message_json toJSON_ProtoAccAddresses fromJSON_ProtoAccAddresses wfj_ProtoAccAddresses
proof unfold_locales
  fix h m
  assume "wfj_ProtoAccAddresses m"
  then show "json_rt (toJSON_ProtoAccAddresses h) (fromJSON_ProtoAccAddresses h) m"
    unfolding toJSON_ProtoAccAddresses_def fromJSON_ProtoAccAddresses_def wfj_ProtoAccAddresses_def
    by (-) (rule json_rtI json_rules | assumption | (simp; fail))+
qed

lemmas ProtoAccAddresses_json_rules [json_rules] = ProtoAccAddresses_json.json_field_rules

lemma ProtoStrings_tags:
  "ProtoStrings_switch L 10 m = readf (r_string L) (\<lambda>v. m\<lparr>ProtoStrings.value' := ProtoStrings.value' m @ [v]\<rparr>)"
  by (simp_all add: ProtoStrings_switch_def when_tag_def)

lemma fromPartial_partial_of_ProtoStrings [simp]: "fromPartial_ProtoStrings (partial_of_ProtoStrings m) = m"
  by (simp add: fromPartial_ProtoStrings_def partial_of_ProtoStrings_def createBase_ProtoStrings_def partial_map_def option.map_comp o_def option.map_ident)

lemma create_ProtoStrings_None [simp]: "create_ProtoStrings None = createBase_ProtoStrings"
  by (simp add: create_ProtoStrings_def fromPartial_ProtoStrings_def ProtoStrings_empty_def createBase_ProtoStrings_def partial_map_def)

sublocale wire_laws \<subseteq> ProtoStrings_codec: message_codec L F out inp "encode_ProtoStrings L" "ProtoStrings_switch L" createBase_ProtoStrings "wf_ProtoStrings L"
proof unfold_locales
  show good: "good_sw (ProtoStrings_switch L)"
    unfolding ProtoStrings_switch_def by (intro good_swI fwd_rules)
  fix m assume "wf_ProtoStrings L m"
  then show "codes (ProtoStrings_switch L) (encode_ProtoStrings L m) createBase_ProtoStrings m"
    unfolding encode_ProtoStrings_def wf_ProtoStrings_def
    by (-)
      (rule codes_Cons codes_Nil [OF ProtoStrings.equality] codec_rules
        codes_for [where tag = 10 and u = ProtoStrings.value'_update and op = "r_string L", OF good]
      | assumption | (simp add: ProtoStrings_tags createBase_ProtoStrings_def; fail))+
qed

sublocale wire_laws \<subseteq> ProtoStrings_range: message_range L F out inp "ProtoStrings_switch L" createBase_ProtoStrings ok_ProtoStrings
proof unfold_locales
  show "ok_ProtoStrings createBase_ProtoStrings" by (simp add: ok_ProtoStrings_def createBase_ProtoStrings_def)
  fix m tag assume "ok_ProtoStrings m"
  then show "keeps ok_ProtoStrings (ProtoStrings_switch L tag m)"
    unfolding ProtoStrings_switch_def by - (rule range_rules | (simp add: ok_ProtoStrings_def; fail))+
qed

context wire_laws
begin

lemmas ProtoStrings_carries [codec_rules] =
  ProtoStrings_codec.opt_carries [folded decode_ProtoStrings_def] ProtoStrings_codec.list_carries [folded decode_ProtoStrings_def]

lemmas ProtoStrings_good [fwd_rules] = ProtoStrings_codec.op_good [folded decode_ProtoStrings_def]

lemmas ProtoStrings_yields [range_rules] = ProtoStrings_range.sub_range [folded decode_ProtoStrings_def]

lemmas ProtoStrings_roundtrip = ProtoStrings_codec.roundtrip [folded decode_ProtoStrings_def]

lemmas ProtoStrings_returns = ProtoStrings_codec.decode_returns [folded decode_ProtoStrings_def]

lemmas ProtoStrings_decoded = ProtoStrings_range.decode_range [folded decode_ProtoStrings_def]

end

interpretation ProtoStrings_json: message_json toJSON_ProtoStrings fromJSON_ProtoStrings wfj_ProtoStrings
proof unfold_locales
  fix h m
  assume "wfj_ProtoStrings m"
  then show "json_rt (toJSON_ProtoStrings h) (fromJSON_ProtoStrings h) m"
    unfolding toJSON_ProtoStrings_def fromJSON_ProtoStrings_def wfj_ProtoStrings_def
    by (-) (rule json_rtI json_rules | assumption | (simp; fail))+
qed

lemmas ProtoStrings_json_rules [json_rules] = ProtoStrings_json.json_field_rules

lemma ProtoBools_tags:
  "ProtoBools_switch L 10 m = readf (packed L (r_bool L)) (\<lambda>v. m\<lparr>ProtoBools.value' := ProtoBools.value' m @ v\<rparr>)"
  by (simp_all add: ProtoBools_switch_def when_tag_def)

lemma fromPartial_partial_of_ProtoBools [simp]: "fromPartial_ProtoBools (partial_of_ProtoBools m) = m"
  by (simp add: fromPartial_ProtoBools_def partial_of_ProtoBools_def createBase_ProtoBools_def partial_map_def option.map_comp o_def option.map_ident)

lemma create_ProtoBools_None [simp]: "create_ProtoBools None = createBase_ProtoBools"
  by (simp add: create_ProtoBools_def fromPartial_ProtoBools_def ProtoBools_empty_def createBase_ProtoBools_def partial_map_def)

sublocale wire_laws \<subseteq> ProtoBools_codec: message_codec L F out inp "encode_ProtoBools L" "ProtoBools_switch L" createBase_ProtoBools "wf_ProtoBools L"
proof unfold_locales
  show good: "good_sw (ProtoBools_switch L)"
    unfolding ProtoBools_switch_def by (intro good_swI fwd_rules)
  fix m assume "wf_ProtoBools L m"
  then show "codes (ProtoBools_switch L) (encode_ProtoBools L m) createBase_ProtoBools m"
    unfolding encode_ProtoBools_def wf_ProtoBools_def
    by (-)
      (rule codes_Cons codes_Nil [OF ProtoBools.equality] codec_rules
        codes_always [where tag = 10 and u = ProtoBools.value'_update and op = "packed L (r_bool L)", OF good]
      | assumption | (simp add: ProtoBools_tags createBase_ProtoBools_def; fail))+
qed

sublocale wire_laws \<subseteq> ProtoBools_range: message_range L F out inp "ProtoBools_switch L" createBase_ProtoBools ok_ProtoBools
proof unfold_locales
  show "ok_ProtoBools createBase_ProtoBools" by (simp add: ok_ProtoBools_def createBase_ProtoBools_def)
  fix m tag assume "ok_ProtoBools m"
  then show "keeps ok_ProtoBools (ProtoBools_switch L tag m)"
    unfolding ProtoBools_switch_def by - (rule range_rules | (simp add: ok_ProtoBools_def; fail))+
qed

context wire_laws
begin

lemmas ProtoBools_carries [codec_rules] =
  ProtoBools_codec.opt_carries [folded decode_ProtoBools_def] ProtoBools_codec.list_carries [folded decode_ProtoBools_def]

lemmas ProtoBools_good [fwd_rules] = ProtoBools_codec.op_good [folded decode_ProtoBools_def]

lemmas ProtoBools_yields [range_rules] = ProtoBools_range.sub_range [folded decode_ProtoBools_def]

lemmas ProtoBools_roundtrip = ProtoBools_codec.roundtrip [folded decode_ProtoBools_def]

lemmas ProtoBools_returns = ProtoBools_codec.decode_returns [folded decode_ProtoBools_def]

lemmas ProtoBools_decoded = ProtoBools_range.decode_range [folded decode_ProtoBools_def]

end

interpretation ProtoBools_json: message_json toJSON_ProtoBools fromJSON_ProtoBools wfj_ProtoBools
proof unfold_locales
  fix h m
  assume "wfj_ProtoBools m"
  then show "json_rt (toJSON_ProtoBools h) (fromJSON_ProtoBools h) m"
    unfolding toJSON_ProtoBools_def fromJSON_ProtoBools_def wfj_ProtoBools_def
    by (-) (rule json_rtI json_rules | assumption | (simp; fail))+
qed

lemmas ProtoBools_json_rules [json_rules] = ProtoBools_json.json_field_rules

lemma Params_tags:
  "Params_switch L 64 m = readf (num64 (r_uint64 L)) (\<lambda>v. m\<lparr>Params.blockPerYear := v\<rparr>)"
  "Params_switch L 72 m = readf (num64 (r_uint64 L)) (\<lambda>v. m\<lparr>Params.emissionCurve := v\<rparr>)"
  by (simp_all add: Params_switch_def when_tag_def)

lemma fromPartial_partial_of_Params [simp]: "fromPartial_Params (partial_of_Params m) = m"
  by (simp add: fromPartial_Params_def partial_of_Params_def createBase_Params_def partial_map_def option.map_comp o_def option.map_ident)

lemma create_Params_None [simp]: "create_Params None = createBase_Params"
  by (simp add: create_Params_def fromPartial_Params_def Params_empty_def createBase_Params_def partial_map_def)

sublocale wire_laws \<subseteq> Params_codec: message_codec L F out inp "encode_Params L" "Params_switch L" createBase_Params "wf_Params L"
proof unfold_locales
  show good: "good_sw (Params_switch L)"
    unfolding Params_switch_def by (intro good_swI fwd_rules)
  fix m assume "wf_Params L m"
  then show "codes (Params_switch L) (encode_Params L m) createBase_Params m"
    unfolding encode_Params_def wf_Params_def
    by (elim conjE)
      (rule codes_Cons codes_Nil [OF Params.equality] codec_rules
        codes_when [where tag = 64 and u = Params.blockPerYear_update and op = "num64 (r_uint64 L)", OF good]
        codes_when [where tag = 72 and u = Params.emissionCurve_update and op = "num64 (r_uint64 L)", OF good]
      | assumption | (simp add: Params_tags createBase_Params_def; fail))+
qed

sublocale wire_laws \<subseteq> Params_range: message_range L F out inp "Params_switch L" createBase_Params ok_Params
proof unfold_locales
  show "ok_Params createBase_Params" by (simp add: ok_Params_def createBase_Params_def)
  fix m tag assume "ok_Params m"
  then show "keeps ok_Params (Params_switch L tag m)"
    unfolding Params_switch_def by - (rule range_rules | (simp add: ok_Params_def; fail))+
qed

context wire_laws
begin

lemmas Params_carries [codec_rules] =
  Params_codec.opt_carries [folded decode_Params_def] Params_codec.list_carries [folded decode_Params_def]

lemmas Params_good [fwd_rules] = Params_codec.op_good [folded decode_Params_def]

lemmas Params_yields [range_rules] = Params_range.sub_range [folded decode_Params_def]

lemmas Params_roundtrip = Params_codec.roundtrip [folded decode_Params_def]

lemmas Params_returns = Params_codec.decode_returns [folded decode_Params_def]

lemmas Params_decoded = Params_range.decode_range [folded decode_Params_def]

end

interpretation Params_json: message_json toJSON_Params fromJSON_Params wfj_Params
proof unfold_locales
  fix h m
  assume "wfj_Params m"
  then show "json_rt (toJSON_Params h) (fromJSON_Params h) m"
    unfolding toJSON_Params_def fromJSON_Params_def wfj_Params_def
    by (elim conjE) (rule json_rtI json_rules | assumption | (simp; fail))+
qed

lemmas Params_json_rules [json_rules] = Params_json.json_field_rules


end
