(* ===== verification/QueryMsgs.thy ===== *)
theory QueryMsgs
  imports KeeperMsgs MiscMsgs
begin

text \<open>
  The queries of the arkeo module and their answers (\<open>arkeo/arkeo/query.ts\<close>).
\<close>


section \<open>arkeo/arkeo/query.ts\<close>

subsection \<open>QueryAllServicesRequest\<close>

datatype QueryAllServicesRequest = QueryAllServicesRequest

definition createBase_QueryAllServicesRequest :: QueryAllServicesRequest where
  "createBase_QueryAllServicesRequest = QueryAllServicesRequest"

definition encode_QueryAllServicesRequest :: "('w, 'r) wire \<Rightarrow> QueryAllServicesRequest \<Rightarrow> 'w \<Rightarrow> 'w result" where
  "encode_QueryAllServicesRequest L message = seqE
    []"

definition QueryAllServicesRequest_switch :: "('w, 'r) wire \<Rightarrow> u32 \<Rightarrow> QueryAllServicesRequest \<Rightarrow> (QueryAllServicesRequest, 'r) action" where
  "QueryAllServicesRequest_switch L tag message = js_switch (drop_bit 3 tag)
    []
    break_out"

definition decode_QueryAllServicesRequest :: "('w, 'r) wire \<Rightarrow> 'r input \<Rightarrow> nat option \<Rightarrow> (QueryAllServicesRequest \<times> 'r) result" where
  "decode_QueryAllServicesRequest L = decode_msg L (QueryAllServicesRequest_switch L) createBase_QueryAllServicesRequest"

definition fromJSON_QueryAllServicesRequest :: "host \<Rightarrow> jsval \<Rightarrow> QueryAllServicesRequest result" where
  "fromJSON_QueryAllServicesRequest h object = Inr QueryAllServicesRequest"

definition toJSON_QueryAllServicesRequest :: "host \<Rightarrow> QueryAllServicesRequest \<Rightarrow> jsval result" where
  "toJSON_QueryAllServicesRequest h message = objE []"

text \<open>There is nothing to set: a partial message is the empty object too.\<close>

definition fromPartial_QueryAllServicesRequest :: "QueryAllServicesRequest \<Rightarrow> QueryAllServicesRequest" where
  "fromPartial_QueryAllServicesRequest object = createBase_QueryAllServicesRequest"

definition create_QueryAllServicesRequest :: "QueryAllServicesRequest option \<Rightarrow> QueryAllServicesRequest" where
  "create_QueryAllServicesRequest base = fromPartial_QueryAllServicesRequest (nullish base QueryAllServicesRequest)"

definition ok_QueryAllServicesRequest :: "QueryAllServicesRequest \<Rightarrow> bool" where
  "ok_QueryAllServicesRequest m \<longleftrightarrow> True"

definition wf_QueryAllServicesRequest :: "('w, 'r) wire \<Rightarrow> QueryAllServicesRequest \<Rightarrow> bool" where
  "wf_QueryAllServicesRequest L m \<longleftrightarrow> True"

definition wfj_QueryAllServicesRequest :: "QueryAllServicesRequest \<Rightarrow> bool" where
  "wfj_QueryAllServicesRequest m \<longleftrightarrow> True"

subsection \<open>ServiceEnum\<close>

record ServiceEnum =
  serviceId :: number
  name :: jsstring
  description :: jsstring

definition createBase_ServiceEnum :: ServiceEnum where
  "createBase_ServiceEnum = \<lparr>ServiceEnum.serviceId = Num 0,
     ServiceEnum.name = [],
     ServiceEnum.description = []\<rparr>"

definition encode_ServiceEnum :: "('w, 'r) wire \<Rightarrow> ServiceEnum \<Rightarrow> 'w \<Rightarrow> 'w result" where
  "encode_ServiceEnum L message = seqE
    [whenE (ServiceEnum.serviceId message \<noteq> Num 0) (seqE [w_uint32 L 8, w_int32 L (ServiceEnum.serviceId message)]),
     whenE (ServiceEnum.name message \<noteq> []) (seqE [w_uint32 L 18, w_string L (ServiceEnum.name message)]),
     whenE (ServiceEnum.description message \<noteq> []) (seqE [w_uint32 L 26, w_string L (ServiceEnum.description message)])]"

definition ServiceEnum_switch :: "('w, 'r) wire \<Rightarrow> u32 \<Rightarrow> ServiceEnum \<Rightarrow> (ServiceEnum, 'r) action" where
  "ServiceEnum_switch L tag message = js_switch (drop_bit 3 tag)
    [(1, when_tag tag 8 (readf (num32 (r_int32 L)) (\<lambda>v. message\<lparr>ServiceEnum.serviceId := v\<rparr>))),
     (2, when_tag tag 18 (readf (r_string L) (\<lambda>v. message\<lparr>ServiceEnum.name := v\<rparr>))),
     (3, when_tag tag 26 (readf (r_string L) (\<lambda>v. message\<lparr>ServiceEnum.description := v\<rparr>)))]
    break_out"

definition decode_ServiceEnum :: "('w, 'r) wire \<Rightarrow> 'r input \<Rightarrow> nat option \<Rightarrow> (ServiceEnum \<times> 'r) result" where
  "decode_ServiceEnum L = decode_msg L (ServiceEnum_switch L) createBase_ServiceEnum"

definition fromJSON_ServiceEnum :: "host \<Rightarrow> jsval \<Rightarrow> ServiceEnum result" where
  "fromJSON_ServiceEnum h object =
     bindE (fieldE object ''serviceId'' (numberE h) (Num 0)) (\<lambda>v_serviceId.
     bindE (fieldE object ''name'' (stringE h) []) (\<lambda>v_name.
     bindE (fieldE object ''description'' (stringE h) []) (\<lambda>v_description.
     Inr \<lparr>ServiceEnum.serviceId = v_serviceId, ServiceEnum.name = v_name, ServiceEnum.description = v_description\<rparr>)))"

definition toJSON_ServiceEnum :: "host \<Rightarrow> ServiceEnum \<Rightarrow> jsval result" where
  "toJSON_ServiceEnum h message = objE
    [jfieldE (ServiceEnum.serviceId message \<noteq> Num 0) ''serviceId'' (Inr (JNumber (Math_round (ServiceEnum.serviceId message)))),
     jfieldE (ServiceEnum.name message \<noteq> []) ''name'' (Inr (JString (ServiceEnum.name message))),
     jfieldE (ServiceEnum.description message \<noteq> []) ''description'' (Inr (JString (ServiceEnum.description message)))]"

record ServiceEnum_Partial =
  serviceId :: "number option"
  name :: "jsstring option"
  description :: "jsstring option"

definition ServiceEnum_empty :: ServiceEnum_Partial where
  "ServiceEnum_empty = \<lparr>ServiceEnum_Partial.serviceId = None, ServiceEnum_Partial.name = None, ServiceEnum_Partial.description = None\<rparr>"

definition fromPartial_ServiceEnum :: "ServiceEnum_Partial \<Rightarrow> ServiceEnum" where
  "fromPartial_ServiceEnum object = createBase_ServiceEnum\<lparr>ServiceEnum.serviceId := nullish (ServiceEnum_Partial.serviceId object) (Num 0),
     ServiceEnum.name := nullish (ServiceEnum_Partial.name object) [],
     ServiceEnum.description := nullish (ServiceEnum_Partial.description object) []\<rparr>"

definition create_ServiceEnum :: "ServiceEnum_Partial option \<Rightarrow> ServiceEnum" where
  "create_ServiceEnum base = fromPartial_ServiceEnum (nullish base ServiceEnum_empty)"

text \<open>A partial message that sets every field.\<close>

definition partial_of_ServiceEnum :: "ServiceEnum \<Rightarrow> ServiceEnum_Partial" where
  "partial_of_ServiceEnum m =
     \<lparr>ServiceEnum_Partial.serviceId = Some (ServiceEnum.serviceId m),
      ServiceEnum_Partial.name = Some (ServiceEnum.name m),
      ServiceEnum_Partial.description = Some (ServiceEnum.description m)\<rparr>"

definition ok_ServiceEnum :: "ServiceEnum \<Rightarrow> bool" where
  "ok_ServiceEnum m \<longleftrightarrow> int32_num (ServiceEnum.serviceId m)"

definition wf_ServiceEnum :: "('w, 'r) wire \<Rightarrow> ServiceEnum \<Rightarrow> bool" where
  "wf_ServiceEnum L m \<longleftrightarrow> int32_num (ServiceEnum.serviceId m)
     \<and> wire_string (ServiceEnum.name m)
     \<and> wire_string (ServiceEnum.description m)"

definition wfj_ServiceEnum :: "ServiceEnum \<Rightarrow> bool" where
  "wfj_ServiceEnum m \<longleftrightarrow> whole (ServiceEnum.serviceId m)"

subsection \<open>QueryAllServicesResponse\<close>

record QueryAllServicesResponse =
  services :: "ServiceEnum list"

definition createBase_QueryAllServicesResponse :: QueryAllServicesResponse where
  "createBase_QueryAllServicesResponse = \<lparr>QueryAllServicesResponse.services = []\<rparr>"

definition encode_QueryAllServicesResponse :: "('w, 'r) wire \<Rightarrow> QueryAllServicesResponse \<Rightarrow> 'w \<Rightarrow> 'w result" where
  "encode_QueryAllServicesResponse L message = seqE
    [forE (\<lambda>v. seqE [w_uint32 L 10, w_fork L, encode_ServiceEnum L v, w_join L]) (QueryAllServicesResponse.services message)]"

definition QueryAllServicesResponse_switch :: "('w, 'r) wire \<Rightarrow> u32 \<Rightarrow> QueryAllServicesResponse \<Rightarrow> (QueryAllServicesResponse, 'r) action" where
  "QueryAllServicesResponse_switch L tag message = js_switch (drop_bit 3 tag)
    [(1, when_tag tag 10 (readf (submsg L (decode_ServiceEnum L)) (\<lambda>v. message\<lparr>QueryAllServicesResponse.services := QueryAllServicesResponse.services message @ [v]\<rparr>)))]
    break_out"

definition decode_QueryAllServicesResponse :: "('w, 'r) wire \<Rightarrow> 'r input \<Rightarrow> nat option \<Rightarrow> (QueryAllServicesResponse \<times> 'r) result" where
  "decode_QueryAllServicesResponse L = decode_msg L (QueryAllServicesResponse_switch L) createBase_QueryAllServicesResponse"

definition fromJSON_QueryAllServicesResponse :: "host \<Rightarrow> jsval \<Rightarrow> QueryAllServicesResponse result" where
  "fromJSON_QueryAllServicesResponse h object =
     bindE (arrayE object ''services'' (fromJSON_ServiceEnum h)) (\<lambda>v_services.
     Inr \<lparr>QueryAllServicesResponse.services = v_services\<rparr>)"

definition toJSON_QueryAllServicesResponse :: "host \<Rightarrow> QueryAllServicesResponse \<Rightarrow> jsval result" where
  "toJSON_QueryAllServicesResponse h message = objE
    [jarrayE ''services'' (toJSON_ServiceEnum h) (QueryAllServicesResponse.services message)]"

record QueryAllServicesResponse_Partial =
  services :: "ServiceEnum_Partial list option"

definition QueryAllServicesResponse_empty :: QueryAllServicesResponse_Partial where
  "QueryAllServicesResponse_empty = \<lparr>QueryAllServicesResponse_Partial.services = None\<rparr>"

definition fromPartial_QueryAllServicesResponse :: "QueryAllServicesResponse_Partial \<Rightarrow> QueryAllServicesResponse" where
  "fromPartial_QueryAllServicesResponse object = createBase_QueryAllServicesResponse\<lparr>QueryAllServicesResponse.services := partial_map fromPartial_ServiceEnum (QueryAllServicesResponse_Partial.services object)\<rparr>"

definition create_QueryAllServicesResponse :: "QueryAllServicesResponse_Partial option \<Rightarrow> QueryAllServicesResponse" where
  "create_QueryAllServicesResponse base = fromPartial_QueryAllServicesResponse (nullish base QueryAllServicesResponse_empty)"

text \<open>A partial message that sets every field.\<close>

definition partial_of_QueryAllServicesResponse :: "QueryAllServicesResponse \<Rightarrow> QueryAllServicesResponse_Partial" where
  "partial_of_QueryAllServicesResponse m =
     \<lparr>QueryAllServicesResponse_Partial.services = Some (map partial_of_ServiceEnum (QueryAllServicesResponse.services m))\<rparr>"

definition ok_QueryAllServicesResponse :: "QueryAllServicesResponse \<Rightarrow> bool" where
  "ok_QueryAllServicesResponse m \<longleftrightarrow> list_all ok_ServiceEnum (QueryAllServicesResponse.services m)"

definition wf_QueryAllServicesResponse :: "('w, 'r) wire \<Rightarrow> QueryAllServicesResponse \<Rightarrow> bool" where
  "wf_QueryAllServicesResponse L m \<longleftrightarrow> list_all (\<lambda>v. wf_ServiceEnum L v \<and> fits L (encode_ServiceEnum L v)) (QueryAllServicesResponse.services m)"

definition wfj_QueryAllServicesResponse :: "QueryAllServicesResponse \<Rightarrow> bool" where
  "wfj_QueryAllServicesResponse m \<longleftrightarrow> list_all wfj_ServiceEnum (QueryAllServicesResponse.services m)"

subsection \<open>QueryServiceRequest\<close>

record QueryServiceRequest =
  name :: jsstring
  id' :: number

definition createBase_QueryServiceRequest :: QueryServiceRequest where
  "createBase_QueryServiceRequest = \<lparr>QueryServiceRequest.name = [],
     QueryServiceRequest.id' = Num 0\<rparr>"

definition encode_QueryServiceRequest :: "('w, 'r) wire \<Rightarrow> QueryServiceRequest \<Rightarrow> 'w \<Rightarrow> 'w result" where
  "encode_QueryServiceRequest L message = seqE
    [whenE (QueryServiceRequest.name message \<noteq> []) (seqE [w_uint32 L 10, w_string L (QueryServiceRequest.name message)]),
     whenE (QueryServiceRequest.id' message \<noteq> Num 0) (seqE [w_uint32 L 16, w_uint64 L (QueryServiceRequest.id' message)])]"

definition QueryServiceRequest_switch :: "('w, 'r) wire \<Rightarrow> u32 \<Rightarrow> QueryServiceRequest \<Rightarrow> (QueryServiceRequest, 'r) action" where
  "QueryServiceRequest_switch L tag message = js_switch (drop_bit 3 tag)
    [(1, when_tag tag 10 (readf (r_string L) (\<lambda>v. message\<lparr>QueryServiceRequest.name := v\<rparr>))),
     (2, when_tag tag 16 (readf (num64 (r_uint64 L)) (\<lambda>v. message\<lparr>QueryServiceRequest.id' := v\<rparr>)))]
    break_out"

definition decode_QueryServiceRequest :: "('w, 'r) wire \<Rightarrow> 'r input \<Rightarrow> nat option \<Rightarrow> (QueryServiceRequest \<times> 'r) result" where
  "decode_QueryServiceRequest L = decode_msg L (QueryServiceRequest_switch L) createBase_QueryServiceRequest"

definition fromJSON_QueryServiceRequest :: "host \<Rightarrow> jsval \<Rightarrow> QueryServiceRequest result" where
  "fromJSON_QueryServiceRequest h object =
     bindE (fieldE object ''name'' (stringE h) []) (\<lambda>v_name.
     bindE (fieldE object ''id'' (numberE h) (Num 0)) (\<lambda>v_id.
     Inr \<lparr>QueryServiceRequest.name = v_name, QueryServiceRequest.id' = v_id\<rparr>))"

definition toJSON_QueryServiceRequest :: "host \<Rightarrow> QueryServiceRequest \<Rightarrow> jsval result" where
  "toJSON_QueryServiceRequest h message = objE
    [jfieldE (QueryServiceRequest.name message \<noteq> []) ''name'' (Inr (JString (QueryServiceRequest.name message))),
     jfieldE (QueryServiceRequest.id' message \<noteq> Num 0) ''id'' (Inr (JNumber (Math_round (QueryServiceRequest.id' message))))]"

record QueryServiceRequest_Partial =
  name :: "jsstring option"
  id' :: "number option"

definition QueryServiceRequest_empty :: QueryServiceRequest_Partial where
  "QueryServiceRequest_empty = \<lparr>QueryServiceRequest_Partial.name = None, QueryServiceRequest_Partial.id' = None\<rparr>"

definition fromPartial_QueryServiceRequest :: "QueryServiceRequest_Partial \<Rightarrow> QueryServiceRequest" where
  "fromPartial_QueryServiceRequest object = createBase_QueryServiceRequest\<lparr>QueryServiceRequest.name := nullish (QueryServiceRequest_Partial.name object) [],
     QueryServiceRequest.id' := nullish (QueryServiceRequest_Partial.id' object) (Num 0)\<rparr>"

definition create_QueryServiceRequest :: "QueryServiceRequest_Partial option \<Rightarrow> QueryServiceRequest" where
  "create_QueryServiceRequest base = fromPartial_QueryServiceRequest (nullish base QueryServiceRequest_empty)"

text \<open>A partial message that sets every field.\<close>

definition partial_of_QueryServiceRequest :: "QueryServiceRequest \<Rightarrow> QueryServiceRequest_Partial" where
  "partial_of_QueryServiceRequest m =
     \<lparr>QueryServiceRequest_Partial.name = Some (QueryServiceRequest.name m),
      QueryServiceRequest_Partial.id' = Some (QueryServiceRequest.id' m)\<rparr>"

definition ok_QueryServiceRequest :: "QueryServiceRequest \<Rightarrow> bool" where
  "ok_QueryServiceRequest m \<longleftrightarrow> safe_uint (QueryServiceRequest.id' m)"

definition wf_QueryServiceRequest :: "('w, 'r) wire \<Rightarrow> QueryServiceRequest \<Rightarrow> bool" where
  "wf_QueryServiceRequest L m \<longleftrightarrow> wire_string (QueryServiceRequest.name m)
     \<and> safe_uint (QueryServiceRequest.id' m)"

definition wfj_QueryServiceRequest :: "QueryServiceRequest \<Rightarrow> bool" where
  "wfj_QueryServiceRequest m \<longleftrightarrow> whole (QueryServiceRequest.id' m)"

subsection \<open>QueryServiceResponse\<close>

record QueryServiceResponse =
  service :: "Service option"

definition createBase_QueryServiceResponse :: QueryServiceResponse where
  "createBase_QueryServiceResponse = \<lparr>QueryServiceResponse.service = None\<rparr>"

definition encode_QueryServiceResponse :: "('w, 'r) wire \<Rightarrow> QueryServiceResponse \<Rightarrow> 'w \<Rightarrow> 'w result" where
  "encode_QueryServiceResponse L message = seqE
    [someE (QueryServiceResponse.service message) (\<lambda>v. seqE [w_uint32 L 10, w_fork L, encode_Service L v, w_join L])]"

definition QueryServiceResponse_switch :: "('w, 'r) wire \<Rightarrow> u32 \<Rightarrow> QueryServiceResponse \<Rightarrow> (QueryServiceResponse, 'r) action" where
  "QueryServiceResponse_switch L tag message = js_switch (drop_bit 3 tag)
    [(1, when_tag tag 10 (readf (submsg L (decode_Service L)) (\<lambda>v. message\<lparr>QueryServiceResponse.service := Some v\<rparr>)))]
    break_out"

definition decode_QueryServiceResponse :: "('w, 'r) wire \<Rightarrow> 'r input \<Rightarrow> nat option \<Rightarrow> (QueryServiceResponse \<times> 'r) result" where
  "decode_QueryServiceResponse L = decode_msg L (QueryServiceResponse_switch L) createBase_QueryServiceResponse"

definition fromJSON_QueryServiceResponse :: "host \<Rightarrow> jsval \<Rightarrow> QueryServiceResponse result" where
  "fromJSON_QueryServiceResponse h object =
     bindE (optE object ''service'' (fromJSON_Service h)) (\<lambda>v_service.
     Inr \<lparr>QueryServiceResponse.service = v_service\<rparr>)"

definition toJSON_QueryServiceResponse :: "host \<Rightarrow> QueryServiceResponse \<Rightarrow> jsval result" where
  "toJSON_QueryServiceResponse h message = objE
    [joptE ''service'' (toJSON_Service h) (QueryServiceResponse.service message)]"

record QueryServiceResponse_Partial =
  service :: "Service_Partial option"

definition QueryServiceResponse_empty :: QueryServiceResponse_Partial where
  "QueryServiceResponse_empty = \<lparr>QueryServiceResponse_Partial.service = None\<rparr>"

definition fromPartial_QueryServiceResponse :: "QueryServiceResponse_Partial \<Rightarrow> QueryServiceResponse" where
  "fromPartial_QueryServiceResponse object = createBase_QueryServiceResponse\<lparr>QueryServiceResponse.service := map_option fromPartial_Service (QueryServiceResponse_Partial.service object)\<rparr>"

definition create_QueryServiceResponse :: "QueryServiceResponse_Partial option \<Rightarrow> QueryServiceResponse" where
  "create_QueryServiceResponse base = fromPartial_QueryServiceResponse (nullish base QueryServiceResponse_empty)"

text \<open>A partial message that sets every field.\<close>

definition partial_of_QueryServiceResponse :: "QueryServiceResponse \<Rightarrow> QueryServiceResponse_Partial" where
  "partial_of_QueryServiceResponse m =
     \<lparr>QueryServiceResponse_Partial.service = map_option partial_of_Service (QueryServiceResponse.service m)\<rparr>"

definition ok_QueryServiceResponse :: "QueryServiceResponse \<Rightarrow> bool" where
  "ok_QueryServiceResponse m \<longleftrightarrow> pred_option ok_Service (QueryServiceResponse.service m)"

definition wf_QueryServiceResponse :: "('w, 'r) wire \<Rightarrow> QueryServiceResponse \<Rightarrow> bool" where
  "wf_QueryServiceResponse L m \<longleftrightarrow> pred_option (\<lambda>v. wf_Service L v \<and> fits L (encode_Service L v)) (QueryServiceResponse.service m)"

definition wfj_QueryServiceResponse :: "QueryServiceResponse \<Rightarrow> bool" where
  "wfj_QueryServiceResponse m \<longleftrightarrow> pred_option wfj_Service (QueryServiceResponse.service m)"

subsection \<open>QueryParamsRequest\<close>

datatype QueryParamsRequest = QueryParamsRequest

definition createBase_QueryParamsRequest :: QueryParamsRequest where
  "createBase_QueryParamsRequest = QueryParamsRequest"

definition encode_QueryParamsRequest :: "('w, 'r) wire \<Rightarrow> QueryParamsRequest \<Rightarrow> 'w \<Rightarrow> 'w result" where
  "encode_QueryParamsRequest L message = seqE
    []"

definition QueryParamsRequest_switch :: "('w, 'r) wire \<Rightarrow> u32 \<Rightarrow> QueryParamsRequest \<Rightarrow> (QueryParamsRequest, 'r) action" where
  "QueryParamsRequest_switch L tag message = js_switch (drop_bit 3 tag)
    []
    break_out"

definition decode_QueryParamsRequest :: "('w, 'r) wire \<Rightarrow> 'r input \<Rightarrow> nat option \<Rightarrow> (QueryParamsRequest \<times> 'r) result" where
  "decode_QueryParamsRequest L = decode_msg L (QueryParamsRequest_switch L) createBase_QueryParamsRequest"

definition fromJSON_QueryParamsRequest :: "host \<Rightarrow> jsval \<Rightarrow> QueryParamsRequest result" where
  "fromJSON_QueryParamsRequest h object = Inr QueryParamsRequest"

definition toJSON_QueryParamsRequest :: "host \<Rightarrow> QueryParamsRequest \<Rightarrow> jsval result" where
  "toJSON_QueryParamsRequest h message = objE []"

text \<open>There is nothing to set: a partial message is the empty object too.\<close>

definition fromPartial_QueryParamsRequest :: "QueryParamsRequest \<Rightarrow> QueryParamsRequest" where
  "fromPartial_QueryParamsRequest object = createBase_QueryParamsRequest"

definition create_QueryParamsRequest :: "QueryParamsRequest option \<Rightarrow> QueryParamsRequest" where
  "create_QueryParamsRequest base = fromPartial_QueryParamsRequest (nullish base QueryParamsRequest)"

definition ok_QueryParamsRequest :: "QueryParamsRequest \<Rightarrow> bool" where
  "ok_QueryParamsRequest m \<longleftrightarrow> True"

definition wf_QueryParamsRequest :: "('w, 'r) wire \<Rightarrow> QueryParamsRequest \<Rightarrow> bool" where
  "wf_QueryParamsRequest L m \<longleftrightarrow> True"

definition wfj_QueryParamsRequest :: "QueryParamsRequest \<Rightarrow> bool" where
  "wfj_QueryParamsRequest m \<longleftrightarrow> True"

subsection \<open>QueryParamsResponse\<close>

record QueryParamsResponse =
  params :: "Params option"

definition createBase_QueryParamsResponse :: QueryParamsResponse where
  "createBase_QueryParamsResponse = \<lparr>QueryParamsResponse.params = None\<rparr>"

definition encode_QueryParamsResponse :: "('w, 'r) wire \<Rightarrow> QueryParamsResponse \<Rightarrow> 'w \<Rightarrow> 'w result" where
  "encode_QueryParamsResponse L message = seqE
    [someE (QueryParamsResponse.params message) (\<lambda>v. seqE [w_uint32 L 10, w_fork L, encode_Params L v, w_join L])]"

definition QueryParamsResponse_switch :: "('w, 'r) wire \<Rightarrow> u32 \<Rightarrow> QueryParamsResponse \<Rightarrow> (QueryParamsResponse, 'r) action" where
  "QueryParamsResponse_switch L tag message = js_switch (drop_bit 3 tag)
    [(1, when_tag tag 10 (readf (submsg L (decode_Params L)) (\<lambda>v. message\<lparr>QueryParamsResponse.params := Some v\<rparr>)))]
    break_out"

definition decode_QueryParamsResponse :: "('w, 'r) wire \<Rightarrow> 'r input \<Rightarrow> nat option \<Rightarrow> (QueryParamsResponse \<times> 'r) result" where
  "decode_QueryParamsResponse L = decode_msg L (QueryParamsResponse_switch L) createBase_QueryParamsResponse"

definition fromJSON_QueryParamsResponse :: "host \<Rightarrow> jsval \<Rightarrow> QueryParamsResponse result" where
  "fromJSON_QueryParamsResponse h object =
     bindE (optE object ''params'' (fromJSON_Params h)) (\<lambda>v_params.
     Inr \<lparr>QueryParamsResponse.params = v_params\<rparr>)"

definition toJSON_QueryParamsResponse :: "host \<Rightarrow> QueryParamsResponse \<Rightarrow> jsval result" where
  "toJSON_QueryParamsResponse h message = objE
    [joptE ''params'' (toJSON_Params h) (QueryParamsResponse.params message)]"

record QueryParamsResponse_Partial =
  params :: "Params_Partial option"

definition QueryParamsResponse_empty :: QueryParamsResponse_Partial where
  "QueryParamsResponse_empty = \<lparr>QueryParamsResponse_Partial.params = None\<rparr>"

definition fromPartial_QueryParamsResponse :: "QueryParamsResponse_Partial \<Rightarrow> QueryParamsResponse" where
  "fromPartial_QueryParamsResponse object = createBase_QueryParamsResponse\<lparr>QueryParamsResponse.params := map_option fromPartial_Params (QueryParamsResponse_Partial.params object)\<rparr>"

definition create_QueryParamsResponse :: "QueryParamsResponse_Partial option \<Rightarrow> QueryParamsResponse" where
  "create_QueryParamsResponse base = fromPartial_QueryParamsResponse (nullish base QueryParamsResponse_empty)"

text \<open>A partial message that sets every field.\<close>

definition partial_of_QueryParamsResponse :: "QueryParamsResponse \<Rightarrow> QueryParamsResponse_Partial" where
  "partial_of_QueryParamsResponse m =
     \<lparr>QueryParamsResponse_Partial.params = map_option partial_of_Params (QueryParamsResponse.params m)\<rparr>"

definition ok_QueryParamsResponse :: "QueryParamsResponse \<Rightarrow> bool" where
  "ok_QueryParamsResponse m \<longleftrightarrow> pred_option ok_Params (QueryParamsResponse.params m)"

definition wf_QueryParamsResponse :: "('w, 'r) wire \<Rightarrow> QueryParamsResponse \<Rightarrow> bool" where
  "wf_QueryParamsResponse L m \<longleftrightarrow> pred_option (\<lambda>v. wf_Params L v \<and> fits L (encode_Params L v)) (QueryParamsResponse.params m)"

definition wfj_QueryParamsResponse :: "QueryParamsResponse \<Rightarrow> bool" where
  "wfj_QueryParamsResponse m \<longleftrightarrow> pred_option wfj_Params (QueryParamsResponse.params m)"

subsection \<open>QueryFetchProviderRequest\<close>

record QueryFetchProviderRequest =
  pubkey :: jsstring
  service :: jsstring

definition createBase_QueryFetchProviderRequest :: QueryFetchProviderRequest where
  "createBase_QueryFetchProviderRequest = \<lparr>QueryFetchProviderRequest.pubkey = [],
     QueryFetchProviderRequest.service = []\<rparr>"

definition encode_QueryFetchProviderRequest :: "('w, 'r) wire \<Rightarrow> QueryFetchProviderRequest \<Rightarrow> 'w \<Rightarrow> 'w result" where
  "encode_QueryFetchProviderRequest L message = seqE
    [whenE (QueryFetchProviderRequest.pubkey message \<noteq> []) (seqE [w_uint32 L 10, w_string L (QueryFetchProviderRequest.pubkey message)]),
     whenE (QueryFetchProviderRequest.service message \<noteq> []) (seqE [w_uint32 L 18, w_string L (QueryFetchProviderRequest.service message)])]"

definition QueryFetchProviderRequest_switch :: "('w, 'r) wire \<Rightarrow> u32 \<Rightarrow> QueryFetchProviderRequest \<Rightarrow> (QueryFetchProviderRequest, 'r) action" where
  "QueryFetchProviderRequest_switch L tag message = js_switch (drop_bit 3 tag)
    [(1, when_tag tag 10 (readf (r_string L) (\<lambda>v. message\<lparr>QueryFetchProviderRequest.pubkey := v\<rparr>))),
     (2, when_tag tag 18 (readf (r_string L) (\<lambda>v. message\<lparr>QueryFetchProviderRequest.service := v\<rparr>)))]
    break_out"

definition decode_QueryFetchProviderRequest :: "('w, 'r) wire \<Rightarrow> 'r input \<Rightarrow> nat option \<Rightarrow> (QueryFetchProviderRequest \<times> 'r) result" where
  "decode_QueryFetchProviderRequest L = decode_msg L (QueryFetchProviderRequest_switch L) createBase_QueryFetchProviderRequest"

definition fromJSON_QueryFetchProviderRequest :: "host \<Rightarrow> jsval \<Rightarrow> QueryFetchProviderRequest result" where
  "fromJSON_QueryFetchProviderRequest h object =
     bindE (fieldE object ''pubkey'' (stringE h) []) (\<lambda>v_pubkey.
     bindE (fieldE object ''service'' (stringE h) []) (\<lambda>v_service.
     Inr \<lparr>QueryFetchProviderRequest.pubkey = v_pubkey, QueryFetchProviderRequest.service = v_service\<rparr>))"

definition toJSON_QueryFetchProviderRequest :: "host \<Rightarrow> QueryFetchProviderRequest \<Rightarrow> jsval result" where
  "toJSON_QueryFetchProviderRequest h message = objE
    [jfieldE (QueryFetchProviderRequest.pubkey message \<noteq> []) ''pubkey'' (Inr (JString (QueryFetchProviderRequest.pubkey message))),
     jfieldE (QueryFetchProviderRequest.service message \<noteq> []) ''service'' (Inr (JString (QueryFetchProviderRequest.service message)))]"

record QueryFetchProviderRequest_Partial =
  pubkey :: "jsstring option"
  service :: "jsstring option"

definition QueryFetchProviderRequest_empty :: QueryFetchProviderRequest_Partial where
  "QueryFetchProviderRequest_empty = \<lparr>QueryFetchProviderRequest_Partial.pubkey = None, QueryFetchProviderRequest_Partial.service = None\<rparr>"

definition fromPartial_QueryFetchProviderRequest :: "QueryFetchProviderRequest_Partial \<Rightarrow> QueryFetchProviderRequest" where
  "fromPartial_QueryFetchProviderRequest object = createBase_QueryFetchProviderRequest\<lparr>QueryFetchProviderRequest.pubkey := nullish (QueryFetchProviderRequest_Partial.pubkey object) [],
     QueryFetchProviderRequest.service := nullish (QueryFetchProviderRequest_Partial.service object) []\<rparr>"

definition create_QueryFetchProviderRequest :: "QueryFetchProviderRequest_Partial option \<Rightarrow> QueryFetchProviderRequest" where
  "create_QueryFetchProviderRequest base = fromPartial_QueryFetchProviderRequest (nullish base QueryFetchProviderRequest_empty)"

text \<open>A partial message that sets every field.\<close>

definition partial_of_QueryFetchProviderRequest :: "QueryFetchProviderRequest \<Rightarrow> QueryFetchProviderRequest_Partial" where
  "partial_of_QueryFetchProviderRequest m =
     \<lparr>QueryFetchProviderRequest_Partial.pubkey = Some (QueryFetchProviderRequest.pubkey m),
      QueryFetchProviderRequest_Partial.service = Some (QueryFetchProviderRequest.service m)\<rparr>"

definition ok_QueryFetchProviderRequest :: "QueryFetchProviderRequest \<Rightarrow> bool" where
  "ok_QueryFetchProviderRequest m \<longleftrightarrow> True"

definition wf_QueryFetchProviderRequest :: "('w, 'r) wire \<Rightarrow> QueryFetchProviderRequest \<Rightarrow> bool" where
  "wf_QueryFetchProviderRequest L m \<longleftrightarrow> wire_string (QueryFetchProviderRequest.pubkey m)
     \<and> wire_string (QueryFetchProviderRequest.service m)"

definition wfj_QueryFetchProviderRequest :: "QueryFetchProviderRequest \<Rightarrow> bool" where
  "wfj_QueryFetchProviderRequest m \<longleftrightarrow> True"

subsection \<open>QueryFetchProviderResponse\<close>

record QueryFetchProviderResponse =
  provider :: "Provider option"

definition createBase_QueryFetchProviderResponse :: QueryFetchProviderResponse where
  "createBase_QueryFetchProviderResponse = \<lparr>QueryFetchProviderResponse.provider = None\<rparr>"

definition encode_QueryFetchProviderResponse :: "('w, 'r) wire \<Rightarrow> QueryFetchProviderResponse \<Rightarrow> 'w \<Rightarrow> 'w result" where
  "encode_QueryFetchProviderResponse L message = seqE
    [someE (QueryFetchProviderResponse.provider message) (\<lambda>v. seqE [w_uint32 L 10, w_fork L, encode_Provider L v, w_join L])]"

definition QueryFetchProviderResponse_switch :: "('w, 'r) wire \<Rightarrow> u32 \<Rightarrow> QueryFetchProviderResponse \<Rightarrow> (QueryFetchProviderResponse, 'r) action" where
  "QueryFetchProviderResponse_switch L tag message = js_switch (drop_bit 3 tag)
    [(1, when_tag tag 10 (readf (submsg L (decode_Provider L)) (\<lambda>v. message\<lparr>QueryFetchProviderResponse.provider := Some v\<rparr>)))]
    break_out"

definition decode_QueryFetchProviderResponse :: "('w, 'r) wire \<Rightarrow> 'r input \<Rightarrow> nat option \<Rightarrow> (QueryFetchProviderResponse \<times> 'r) result" where
  "decode_QueryFetchProviderResponse L = decode_msg L (QueryFetchProviderResponse_switch L) createBase_QueryFetchProviderResponse"

definition fromJSON_QueryFetchProviderResponse :: "host \<Rightarrow> jsval \<Rightarrow> QueryFetchProviderResponse result" where
  "fromJSON_QueryFetchProviderResponse h object =
     bindE (optE object ''provider'' (fromJSON_Provider h)) (\<lambda>v_provider.
     Inr \<lparr>QueryFetchProviderResponse.provider = v_provider\<rparr>)"

definition toJSON_QueryFetchProviderResponse :: "host \<Rightarrow> QueryFetchProviderResponse \<Rightarrow> jsval result" where
  "toJSON_QueryFetchProviderResponse h message = objE
    [joptE ''provider'' (toJSON_Provider h) (QueryFetchProviderResponse.provider message)]"

record QueryFetchProviderResponse_Partial =
  provider :: "Provider_Partial option"

definition QueryFetchProviderResponse_empty :: QueryFetchProviderResponse_Partial where
  "QueryFetchProviderResponse_empty = \<lparr>QueryFetchProviderResponse_Partial.provider = None\<rparr>"

definition fromPartial_QueryFetchProviderResponse :: "QueryFetchProviderResponse_Partial \<Rightarrow> QueryFetchProviderResponse" where
  "fromPartial_QueryFetchProviderResponse object = createBase_QueryFetchProviderResponse\<lparr>QueryFetchProviderResponse.provider := map_option fromPartial_Provider (QueryFetchProviderResponse_Partial.provider object)\<rparr>"

definition create_QueryFetchProviderResponse :: "QueryFetchProviderResponse_Partial option \<Rightarrow> QueryFetchProviderResponse" where
  "create_QueryFetchProviderResponse base = fromPartial_QueryFetchProviderResponse (nullish base QueryFetchProviderResponse_empty)"

text \<open>A partial message that sets every field.\<close>

definition partial_of_QueryFetchProviderResponse :: "QueryFetchProviderResponse \<Rightarrow> QueryFetchProviderResponse_Partial" where
  "partial_of_QueryFetchProviderResponse m =
     \<lparr>QueryFetchProviderResponse_Partial.provider = map_option partial_of_Provider (QueryFetchProviderResponse.provider m)\<rparr>"

definition ok_QueryFetchProviderResponse :: "QueryFetchProviderResponse \<Rightarrow> bool" where
  "ok_QueryFetchProviderResponse m \<longleftrightarrow> pred_option ok_Provider (QueryFetchProviderResponse.provider m)"

definition wf_QueryFetchProviderResponse :: "('w, 'r) wire \<Rightarrow> QueryFetchProviderResponse \<Rightarrow> bool" where
  "wf_QueryFetchProviderResponse L m \<longleftrightarrow> pred_option (\<lambda>v. wf_Provider L v \<and> fits L (encode_Provider L v)) (QueryFetchProviderResponse.provider m)"

definition wfj_QueryFetchProviderResponse :: "QueryFetchProviderResponse \<Rightarrow> bool" where
  "wfj_QueryFetchProviderResponse m \<longleftrightarrow> pred_option wfj_Provider (QueryFetchProviderResponse.provider m)"

subsection \<open>QueryAllProviderRequest\<close>

record QueryAllProviderRequest =
  pagination :: "PageRequest option"

definition createBase_QueryAllProviderRequest :: QueryAllProviderRequest where
  "createBase_QueryAllProviderRequest = \<lparr>QueryAllProviderRequest.pagination = None\<rparr>"

definition encode_QueryAllProviderRequest :: "('w, 'r) wire \<Rightarrow> QueryAllProviderRequest \<Rightarrow> 'w \<Rightarrow> 'w result" where
  "encode_QueryAllProviderRequest L message = seqE
    [someE (QueryAllProviderRequest.pagination message) (\<lambda>v. seqE [w_uint32 L 10, w_fork L, encode_PageRequest L v, w_join L])]"

definition QueryAllProviderRequest_switch :: "('w, 'r) wire \<Rightarrow> u32 \<Rightarrow> QueryAllProviderRequest \<Rightarrow> (QueryAllProviderRequest, 'r) action" where
  "QueryAllProviderRequest_switch L tag message = js_switch (drop_bit 3 tag)
    [(1, when_tag tag 10 (readf (submsg L (decode_PageRequest L)) (\<lambda>v. message\<lparr>QueryAllProviderRequest.pagination := Some v\<rparr>)))]
    break_out"

definition decode_QueryAllProviderRequest :: "('w, 'r) wire \<Rightarrow> 'r input \<Rightarrow> nat option \<Rightarrow> (QueryAllProviderRequest \<times> 'r) result" where
  "decode_QueryAllProviderRequest L = decode_msg L (QueryAllProviderRequest_switch L) createBase_QueryAllProviderRequest"

definition fromJSON_QueryAllProviderRequest :: "host \<Rightarrow> jsval \<Rightarrow> QueryAllProviderRequest result" where
  "fromJSON_QueryAllProviderRequest h object =
     bindE (optE object ''pagination'' (fromJSON_PageRequest h)) (\<lambda>v_pagination.
     Inr \<lparr>QueryAllProviderRequest.pagination = v_pagination\<rparr>)"

definition toJSON_QueryAllProviderRequest :: "host \<Rightarrow> QueryAllProviderRequest \<Rightarrow> jsval result" where
  "toJSON_QueryAllProviderRequest h message = objE
    [joptE ''pagination'' (toJSON_PageRequest h) (QueryAllProviderRequest.pagination message)]"

record QueryAllProviderRequest_Partial =
  pagination :: "PageRequest_Partial option"

definition QueryAllProviderRequest_empty :: QueryAllProviderRequest_Partial where
  "QueryAllProviderRequest_empty = \<lparr>QueryAllProviderRequest_Partial.pagination = None\<rparr>"

definition fromPartial_QueryAllProviderRequest :: "QueryAllProviderRequest_Partial \<Rightarrow> QueryAllProviderRequest" where
  "fromPartial_QueryAllProviderRequest object = createBase_QueryAllProviderRequest\<lparr>QueryAllProviderRequest.pagination := map_option fromPartial_PageRequest (QueryAllProviderRequest_Partial.pagination object)\<rparr>"

definition create_QueryAllProviderRequest :: "QueryAllProviderRequest_Partial option \<Rightarrow> QueryAllProviderRequest" where
  "create_QueryAllProviderRequest base = fromPartial_QueryAllProviderRequest (nullish base QueryAllProviderRequest_empty)"

text \<open>A partial message that sets every field.\<close>

definition partial_of_QueryAllProviderRequest :: "QueryAllProviderRequest \<Rightarrow> QueryAllProviderRequest_Partial" where
  "partial_of_QueryAllProviderRequest m =
     \<lparr>QueryAllProviderRequest_Partial.pagination = map_option partial_of_PageRequest (QueryAllProviderRequest.pagination m)\<rparr>"

definition ok_QueryAllProviderRequest :: "QueryAllProviderRequest \<Rightarrow> bool" where
  "ok_QueryAllProviderRequest m \<longleftrightarrow> pred_option ok_PageRequest (QueryAllProviderRequest.pagination m)"

definition wf_QueryAllProviderRequest :: "('w, 'r) wire \<Rightarrow> QueryAllProviderRequest \<Rightarrow> bool" where
  "wf_QueryAllProviderRequest L m \<longleftrightarrow> pred_option (\<lambda>v. wf_PageRequest L v \<and> fits L (encode_PageRequest L v)) (QueryAllProviderRequest.pagination m)"

definition wfj_QueryAllProviderRequest :: "QueryAllProviderRequest \<Rightarrow> bool" where
  "wfj_QueryAllProviderRequest m \<longleftrightarrow> pred_option wfj_PageRequest (QueryAllProviderRequest.pagination m)"

subsection \<open>QueryAllProviderResponse\<close>

record QueryAllProviderResponse =
  provider :: "Provider list"
  pagination :: "PageResponse option"

definition createBase_QueryAllProviderResponse :: QueryAllProviderResponse where
  "createBase_QueryAllProviderResponse = \<lparr>QueryAllProviderResponse.provider = [],
     QueryAllProviderResponse.pagination = None\<rparr>"

definition encode_QueryAllProviderResponse :: "('w, 'r) wire \<Rightarrow> QueryAllProviderResponse \<Rightarrow> 'w \<Rightarrow> 'w result" where
  "encode_QueryAllProviderResponse L message = seqE
    [forE (\<lambda>v. seqE [w_uint32 L 10, w_fork L, encode_Provider L v, w_join L]) (QueryAllProviderResponse.provider message),
     someE (QueryAllProviderResponse.pagination message) (\<lambda>v. seqE [w_uint32 L 18, w_fork L, encode_PageResponse L v, w_join L])]"

definition QueryAllProviderResponse_switch :: "('w, 'r) wire \<Rightarrow> u32 \<Rightarrow> QueryAllProviderResponse \<Rightarrow> (QueryAllProviderResponse, 'r) action" where
  "QueryAllProviderResponse_switch L tag message = js_switch (drop_bit 3 tag)
    [(1, when_tag tag 10 (readf (submsg L (decode_Provider L)) (\<lambda>v. message\<lparr>QueryAllProviderResponse.provider := QueryAllProviderResponse.provider message @ [v]\<rparr>))),
     (2, when_tag tag 18 (readf (submsg L (decode_PageResponse L)) (\<lambda>v. message\<lparr>QueryAllProviderResponse.pagination := Some v\<rparr>)))]
    break_out"

definition decode_QueryAllProviderResponse :: "('w, 'r) wire \<Rightarrow> 'r input \<Rightarrow> nat option \<Rightarrow> (QueryAllProviderResponse \<times> 'r) result" where
  "decode_QueryAllProviderResponse L = decode_msg L (QueryAllProviderResponse_switch L) createBase_QueryAllProviderResponse"

definition fromJSON_QueryAllProviderResponse :: "host \<Rightarrow> jsval \<Rightarrow> QueryAllProviderResponse result" where
  "fromJSON_QueryAllProviderResponse h object =
     bindE (arrayE object ''provider'' (fromJSON_Provider h)) (\<lambda>v_provider.
     bindE (optE object ''pagination'' (fromJSON_PageResponse h)) (\<lambda>v_pagination.
     Inr \<lparr>QueryAllProviderResponse.provider = v_provider, QueryAllProviderResponse.pagination = v_pagination\<rparr>))"

definition toJSON_QueryAllProviderResponse :: "host \<Rightarrow> QueryAllProviderResponse \<Rightarrow> jsval result" where
  "toJSON_QueryAllProviderResponse h message = objE
    [jarrayE ''provider'' (toJSON_Provider h) (QueryAllProviderResponse.provider message),
     joptE ''pagination'' (toJSON_PageResponse h) (QueryAllProviderResponse.pagination message)]"

record QueryAllProviderResponse_Partial =
  provider :: "Provider_Partial list option"
  pagination :: "PageResponse_Partial option"

definition QueryAllProviderResponse_empty :: QueryAllProviderResponse_Partial where
  "QueryAllProviderResponse_empty = \<lparr>QueryAllProviderResponse_Partial.provider = None, QueryAllProviderResponse_Partial.pagination = None\<rparr>"

definition fromPartial_QueryAllProviderResponse :: "QueryAllProviderResponse_Partial \<Rightarrow> QueryAllProviderResponse" where
  "fromPartial_QueryAllProviderResponse object = createBase_QueryAllProviderResponse\<lparr>QueryAllProviderResponse.provider := partial_map fromPartial_Provider (QueryAllProviderResponse_Partial.provider object),
     QueryAllProviderResponse.pagination := map_option fromPartial_PageResponse (QueryAllProviderResponse_Partial.pagination object)\<rparr>"

definition create_QueryAllProviderResponse :: "QueryAllProviderResponse_Partial option \<Rightarrow> QueryAllProviderResponse" where
  "create_QueryAllProviderResponse base = fromPartial_QueryAllProviderResponse (nullish base QueryAllProviderResponse_empty)"

text \<open>A partial message that sets every field.\<close>

definition partial_of_QueryAllProviderResponse :: "QueryAllProviderResponse \<Rightarrow> QueryAllProviderResponse_Partial" where
  "partial_of_QueryAllProviderResponse m =
     \<lparr>QueryAllProviderResponse_Partial.provider = Some (map partial_of_Provider (QueryAllProviderResponse.provider m)),
      QueryAllProviderResponse_Partial.pagination = map_option partial_of_PageResponse (QueryAllProviderResponse.pagination m)\<rparr>"

definition ok_QueryAllProviderResponse :: "QueryAllProviderResponse \<Rightarrow> bool" where
  "ok_QueryAllProviderResponse m \<longleftrightarrow> list_all ok_Provider (QueryAllProviderResponse.provider m)
     \<and> pred_option ok_PageResponse (QueryAllProviderResponse.pagination m)"

definition wf_QueryAllProviderResponse :: "('w, 'r) wire \<Rightarrow> QueryAllProviderResponse \<Rightarrow> bool" where
  "wf_QueryAllProviderResponse L m \<longleftrightarrow> list_all (\<lambda>v. wf_Provider L v \<and> fits L (encode_Provider L v)) (QueryAllProviderResponse.provider m)
     \<and> pred_option (\<lambda>v. wf_PageResponse L v \<and> fits L (encode_PageResponse L v)) (QueryAllProviderResponse.pagination m)"

definition wfj_QueryAllProviderResponse :: "QueryAllProviderResponse \<Rightarrow> bool" where
  "wfj_QueryAllProviderResponse m \<longleftrightarrow> list_all wfj_Provider (QueryAllProviderResponse.provider m)
     \<and> pred_option wfj_PageResponse (QueryAllProviderResponse.pagination m)"

subsection \<open>QueryFetchContractRequest\<close>

record QueryFetchContractRequest =
  contractId :: number

definition createBase_QueryFetchContractRequest :: QueryFetchContractRequest where
  "createBase_QueryFetchContractRequest = \<lparr>QueryFetchContractRequest.contractId = Num 0\<rparr>"

definition encode_QueryFetchContractRequest :: "('w, 'r) wire \<Rightarrow> QueryFetchContractRequest \<Rightarrow> 'w \<Rightarrow> 'w result" where
  "encode_QueryFetchContractRequest L message = seqE
    [whenE (QueryFetchContractRequest.contractId message \<noteq> Num 0) (seqE [w_uint32 L 8, w_uint64 L (QueryFetchContractRequest.contractId message)])]"

definition QueryFetchContractRequest_switch :: "('w, 'r) wire \<Rightarrow> u32 \<Rightarrow> QueryFetchContractRequest \<Rightarrow> (QueryFetchContractRequest, 'r) action" where
  "QueryFetchContractRequest_switch L tag message = js_switch (drop_bit 3 tag)
    [(1, when_tag tag 8 (readf (num64 (r_uint64 L)) (\<lambda>v. message\<lparr>QueryFetchContractRequest.contractId := v\<rparr>)))]
    break_out"

definition decode_QueryFetchContractRequest :: "('w, 'r) wire \<Rightarrow> 'r input \<Rightarrow> nat option \<Rightarrow> (QueryFetchContractRequest \<times> 'r) result" where
  "decode_QueryFetchContractRequest L = decode_msg L (QueryFetchContractRequest_switch L) createBase_QueryFetchContractRequest"

definition fromJSON_QueryFetchContractRequest :: "host \<Rightarrow> jsval \<Rightarrow> QueryFetchContractRequest result" where
  "fromJSON_QueryFetchContractRequest h object =
     bindE (fieldE object ''contractId'' (numberE h) (Num 0)) (\<lambda>v_contractId.
     Inr \<lparr>QueryFetchContractRequest.contractId = v_contractId\<rparr>)"

definition toJSON_QueryFetchContractRequest :: "host \<Rightarrow> QueryFetchContractRequest \<Rightarrow> jsval result" where
  "toJSON_QueryFetchContractRequest h message = objE
    [jfieldE (QueryFetchContractRequest.contractId message \<noteq> Num 0) ''contractId'' (Inr (JNumber (Math_round (QueryFetchContractRequest.contractId message))))]"

record QueryFetchContractRequest_Partial =
  contractId :: "number option"

definition QueryFetchContractRequest_empty :: QueryFetchContractRequest_Partial where
  "QueryFetchContractRequest_empty = \<lparr>QueryFetchContractRequest_Partial.contractId = None\<rparr>"

definition fromPartial_QueryFetchContractRequest :: "QueryFetchContractRequest_Partial \<Rightarrow> QueryFetchContractRequest" where
  "fromPartial_QueryFetchContractRequest object = createBase_QueryFetchContractRequest\<lparr>QueryFetchContractRequest.contractId := nullish (QueryFetchContractRequest_Partial.contractId object) (Num 0)\<rparr>"

definition create_QueryFetchContractRequest :: "QueryFetchContractRequest_Partial option \<Rightarrow> QueryFetchContractRequest" where
  "create_QueryFetchContractRequest base = fromPartial_QueryFetchContractRequest (nullish base QueryFetchContractRequest_empty)"

text \<open>A partial message that sets every field.\<close>

definition partial_of_QueryFetchContractRequest :: "QueryFetchContractRequest \<Rightarrow> QueryFetchContractRequest_Partial" where
  "partial_of_QueryFetchContractRequest m =
     \<lparr>QueryFetchContractRequest_Partial.contractId = Some (QueryFetchContractRequest.contractId m)\<rparr>"

definition ok_QueryFetchContractRequest :: "QueryFetchContractRequest \<Rightarrow> bool" where
  "ok_QueryFetchContractRequest m \<longleftrightarrow> safe_uint (QueryFetchContractRequest.contractId m)"

definition wf_QueryFetchContractRequest :: "('w, 'r) wire \<Rightarrow> QueryFetchContractRequest \<Rightarrow> bool" where
  "wf_QueryFetchContractRequest L m \<longleftrightarrow> safe_uint (QueryFetchContractRequest.contractId m)"

definition wfj_QueryFetchContractRequest :: "QueryFetchContractRequest \<Rightarrow> bool" where
  "wfj_QueryFetchContractRequest m \<longleftrightarrow> whole (QueryFetchContractRequest.contractId m)"

subsection \<open>QueryFetchContractResponse\<close>

record QueryFetchContractResponse =
  contract :: "Contract option"

definition createBase_QueryFetchContractResponse :: QueryFetchContractResponse where
  "createBase_QueryFetchContractResponse = \<lparr>QueryFetchContractResponse.contract = None\<rparr>"

definition encode_QueryFetchContractResponse :: "('w, 'r) wire \<Rightarrow> QueryFetchContractResponse \<Rightarrow> 'w \<Rightarrow> 'w result" where
  "encode_QueryFetchContractResponse L message = seqE
    [someE (QueryFetchContractResponse.contract message) (\<lambda>v. seqE [w_uint32 L 10, w_fork L, encode_Contract L v, w_join L])]"

definition QueryFetchContractResponse_switch :: "('w, 'r) wire \<Rightarrow> u32 \<Rightarrow> QueryFetchContractResponse \<Rightarrow> (QueryFetchContractResponse, 'r) action" where
  "QueryFetchContractResponse_switch L tag message = js_switch (drop_bit 3 tag)
    [(1, when_tag tag 10 (readf (submsg L (decode_Contract L)) (\<lambda>v. message\<lparr>QueryFetchContractResponse.contract := Some v\<rparr>)))]
    break_out"

definition decode_QueryFetchContractResponse :: "('w, 'r) wire \<Rightarrow> 'r input \<Rightarrow> nat option \<Rightarrow> (QueryFetchContractResponse \<times> 'r) result" where
  "decode_QueryFetchContractResponse L = decode_msg L (QueryFetchContractResponse_switch L) createBase_QueryFetchContractResponse"

definition fromJSON_QueryFetchContractResponse :: "host \<Rightarrow> jsval \<Rightarrow> QueryFetchContractResponse result" where
  "fromJSON_QueryFetchContractResponse h object =
     bindE (optE object ''contract'' (fromJSON_Contract h)) (\<lambda>v_contract.
     Inr \<lparr>QueryFetchContractResponse.contract = v_contract\<rparr>)"

definition toJSON_QueryFetchContractResponse :: "host \<Rightarrow> QueryFetchContractResponse \<Rightarrow> jsval result" where
  "toJSON_QueryFetchContractResponse h message = objE
    [joptE ''contract'' (toJSON_Contract h) (QueryFetchContractResponse.contract message)]"

record QueryFetchContractResponse_Partial =
  contract :: "Contract_Partial option"

definition QueryFetchContractResponse_empty :: QueryFetchContractResponse_Partial where
  "QueryFetchContractResponse_empty = \<lparr>QueryFetchContractResponse_Partial.contract = None\<rparr>"

definition fromPartial_QueryFetchContractResponse :: "QueryFetchContractResponse_Partial \<Rightarrow> QueryFetchContractResponse" where
  "fromPartial_QueryFetchContractResponse object = createBase_QueryFetchContractResponse\<lparr>QueryFetchContractResponse.contract := map_option fromPartial_Contract (QueryFetchContractResponse_Partial.contract object)\<rparr>"

definition create_QueryFetchContractResponse :: "QueryFetchContractResponse_Partial option \<Rightarrow> QueryFetchContractResponse" where
  "create_QueryFetchContractResponse base = fromPartial_QueryFetchContractResponse (nullish base QueryFetchContractResponse_empty)"

text \<open>A partial message that sets every field.\<close>

definition partial_of_QueryFetchContractResponse :: "QueryFetchContractResponse \<Rightarrow> QueryFetchContractResponse_Partial" where
  "partial_of_QueryFetchContractResponse m =
     \<lparr>QueryFetchContractResponse_Partial.contract = map_option partial_of_Contract (QueryFetchContractResponse.contract m)\<rparr>"

definition ok_QueryFetchContractResponse :: "QueryFetchContractResponse \<Rightarrow> bool" where
  "ok_QueryFetchContractResponse m \<longleftrightarrow> pred_option ok_Contract (QueryFetchContractResponse.contract m)"

definition wf_QueryFetchContractResponse :: "('w, 'r) wire \<Rightarrow> QueryFetchContractResponse \<Rightarrow> bool" where
  "wf_QueryFetchContractResponse L m \<longleftrightarrow> pred_option (\<lambda>v. wf_Contract L v \<and> fits L (encode_Contract L v)) (QueryFetchContractResponse.contract m)"

definition wfj_QueryFetchContractResponse :: "QueryFetchContractResponse \<Rightarrow> bool" where
  "wfj_QueryFetchContractResponse m \<longleftrightarrow> pred_option wfj_Contract (QueryFetchContractResponse.contract m)"

subsection \<open>QueryAllContractRequest\<close>

record QueryAllContractRequest =
  pagination :: "PageRequest option"

definition createBase_QueryAllContractRequest :: QueryAllContractRequest where
  "createBase_QueryAllContractRequest = \<lparr>QueryAllContractRequest.pagination = None\<rparr>"

definition encode_QueryAllContractRequest :: "('w, 'r) wire \<Rightarrow> QueryAllContractRequest \<Rightarrow> 'w \<Rightarrow> 'w result" where
  "encode_QueryAllContractRequest L message = seqE
    [someE (QueryAllContractRequest.pagination message) (\<lambda>v. seqE [w_uint32 L 10, w_fork L, encode_PageRequest L v, w_join L])]"

definition QueryAllContractRequest_switch :: "('w, 'r) wire \<Rightarrow> u32 \<Rightarrow> QueryAllContractRequest \<Rightarrow> (QueryAllContractRequest, 'r) action" where
  "QueryAllContractRequest_switch L tag message = js_switch (drop_bit 3 tag)
    [(1, when_tag tag 10 (readf (submsg L (decode_PageRequest L)) (\<lambda>v. message\<lparr>QueryAllContractRequest.pagination := Some v\<rparr>)))]
    break_out"

definition decode_QueryAllContractRequest :: "('w, 'r) wire \<Rightarrow> 'r input \<Rightarrow> nat option \<Rightarrow> (QueryAllContractRequest \<times> 'r) result" where
  "decode_QueryAllContractRequest L = decode_msg L (QueryAllContractRequest_switch L) createBase_QueryAllContractRequest"

definition fromJSON_QueryAllContractRequest :: "host \<Rightarrow> jsval \<Rightarrow> QueryAllContractRequest result" where
  "fromJSON_QueryAllContractRequest h object =
     bindE (optE object ''pagination'' (fromJSON_PageRequest h)) (\<lambda>v_pagination.
     Inr \<lparr>QueryAllContractRequest.pagination = v_pagination\<rparr>)"

definition toJSON_QueryAllContractRequest :: "host \<Rightarrow> QueryAllContractRequest \<Rightarrow> jsval result" where
  "toJSON_QueryAllContractRequest h message = objE
    [joptE ''pagination'' (toJSON_PageRequest h) (QueryAllContractRequest.pagination message)]"

record QueryAllContractRequest_Partial =
  pagination :: "PageRequest_Partial option"

definition QueryAllContractRequest_empty :: QueryAllContractRequest_Partial where
  "QueryAllContractRequest_empty = \<lparr>QueryAllContractRequest_Partial.pagination = None\<rparr>"

definition fromPartial_QueryAllContractRequest :: "QueryAllContractRequest_Partial \<Rightarrow> QueryAllContractRequest" where
  "fromPartial_QueryAllContractRequest object = createBase_QueryAllContractRequest\<lparr>QueryAllContractRequest.pagination := map_option fromPartial_PageRequest (QueryAllContractRequest_Partial.pagination object)\<rparr>"

definition create_QueryAllContractRequest :: "QueryAllContractRequest_Partial option \<Rightarrow> QueryAllContractRequest" where
  "create_QueryAllContractRequest base = fromPartial_QueryAllContractRequest (nullish base QueryAllContractRequest_empty)"

text \<open>A partial message that sets every field.\<close>

definition partial_of_QueryAllContractRequest :: "QueryAllContractRequest \<Rightarrow> QueryAllContractRequest_Partial" where
  "partial_of_QueryAllContractRequest m =
     \<lparr>QueryAllContractRequest_Partial.pagination = map_option partial_of_PageRequest (QueryAllContractRequest.pagination m)\<rparr>"

definition ok_QueryAllContractRequest :: "QueryAllContractRequest \<Rightarrow> bool" where
  "ok_QueryAllContractRequest m \<longleftrightarrow> pred_option ok_PageRequest (QueryAllContractRequest.pagination m)"

definition wf_QueryAllContractRequest :: "('w, 'r) wire \<Rightarrow> QueryAllContractRequest \<Rightarrow> bool" where
  "wf_QueryAllContractRequest L m \<longleftrightarrow> pred_option (\<lambda>v. wf_PageRequest L v \<and> fits L (encode_PageRequest L v)) (QueryAllContractRequest.pagination m)"

definition wfj_QueryAllContractRequest :: "QueryAllContractRequest \<Rightarrow> bool" where
  "wfj_QueryAllContractRequest m \<longleftrightarrow> pred_option wfj_PageRequest (QueryAllContractRequest.pagination m)"

subsection \<open>QueryAllContractResponse\<close>

record QueryAllContractResponse =
  contract :: "Contract list"
  pagination :: "PageResponse option"

definition createBase_QueryAllContractResponse :: QueryAllContractResponse where
  "createBase_QueryAllContractResponse = \<lparr>QueryAllContractResponse.contract = [],
     QueryAllContractResponse.pagination = None\<rparr>"

definition encode_QueryAllContractResponse :: "('w, 'r) wire \<Rightarrow> QueryAllContractResponse \<Rightarrow> 'w \<Rightarrow> 'w result" where
  "encode_QueryAllContractResponse L message = seqE
    [forE (\<lambda>v. seqE [w_uint32 L 10, w_fork L, encode_Contract L v, w_join L]) (QueryAllContractResponse.contract message),
     someE (QueryAllContractResponse.pagination message) (\<lambda>v. seqE [w_uint32 L 18, w_fork L, encode_PageResponse L v, w_join L])]"

definition QueryAllContractResponse_switch :: "('w, 'r) wire \<Rightarrow> u32 \<Rightarrow> QueryAllContractResponse \<Rightarrow> (QueryAllContractResponse, 'r) action" where
  "QueryAllContractResponse_switch L tag message = js_switch (drop_bit 3 tag)
    [(1, when_tag tag 10 (readf (submsg L (decode_Contract L)) (\<lambda>v. message\<lparr>QueryAllContractResponse.contract := QueryAllContractResponse.contract message @ [v]\<rparr>))),
     (2, when_tag tag 18 (readf (submsg L (decode_PageResponse L)) (\<lambda>v. message\<lparr>QueryAllContractResponse.pagination := Some v\<rparr>)))]
    break_out"

definition decode_QueryAllContractResponse :: "('w, 'r) wire \<Rightarrow> 'r input \<Rightarrow> nat option \<Rightarrow> (QueryAllContractResponse \<times> 'r) result" where
  "decode_QueryAllContractResponse L = decode_msg L (QueryAllContractResponse_switch L) createBase_QueryAllContractResponse"

definition fromJSON_QueryAllContractResponse :: "host \<Rightarrow> jsval \<Rightarrow> QueryAllContractResponse result" where
  "fromJSON_QueryAllContractResponse h object =
     bindE (arrayE object ''contract'' (fromJSON_Contract h)) (\<lambda>v_contract.
     bindE (optE object ''pagination'' (fromJSON_PageResponse h)) (\<lambda>v_pagination.
     Inr \<lparr>QueryAllContractResponse.contract = v_contract, QueryAllContractResponse.pagination = v_pagination\<rparr>))"

definition toJSON_QueryAllContractResponse :: "host \<Rightarrow> QueryAllContractResponse \<Rightarrow> jsval result" where
  "toJSON_QueryAllContractResponse h message = objE
    [jarrayE ''contract'' (toJSON_Contract h) (QueryAllContractResponse.contract message),
     joptE ''pagination'' (toJSON_PageResponse h) (QueryAllContractResponse.pagination message)]"

record QueryAllContractResponse_Partial =
  contract :: "Contract_Partial list option"
  pagination :: "PageResponse_Partial option"

definition QueryAllContractResponse_empty :: QueryAllContractResponse_Partial where
  "QueryAllContractResponse_empty = \<lparr>QueryAllContractResponse_Partial.contract = None, QueryAllContractResponse_Partial.pagination = None\<rparr>"

definition fromPartial_QueryAllContractResponse :: "QueryAllContractResponse_Partial \<Rightarrow> QueryAllContractResponse" where
  "fromPartial_QueryAllContractResponse object = createBase_QueryAllContractResponse\<lparr>QueryAllContractResponse.contract := partial_map fromPartial_Contract (QueryAllContractResponse_Partial.contract object),
     QueryAllContractResponse.pagination := map_option fromPartial_PageResponse (QueryAllContractResponse_Partial.pagination object)\<rparr>"

definition create_QueryAllContractResponse :: "QueryAllContractResponse_Partial option \<Rightarrow> QueryAllContractResponse" where
  "create_QueryAllContractResponse base = fromPartial_QueryAllContractResponse (nullish base QueryAllContractResponse_empty)"

text \<open>A partial message that sets every field.\<close>

definition partial_of_QueryAllContractResponse :: "QueryAllContractResponse \<Rightarrow> QueryAllContractResponse_Partial" where
  "partial_of_QueryAllContractResponse m =
     \<lparr>QueryAllContractResponse_Partial.contract = Some (map partial_of_Contract (QueryAllContractResponse.contract m)),
      QueryAllContractResponse_Partial.pagination = map_option partial_of_PageResponse (QueryAllContractResponse.pagination m)\<rparr>"

definition ok_QueryAllContractResponse :: "QueryAllContractResponse \<Rightarrow> bool" where
  "ok_QueryAllContractResponse m \<longleftrightarrow> list_all ok_Contract (QueryAllContractResponse.contract m)
     \<and> pred_option ok_PageResponse (QueryAllContractResponse.pagination m)"

definition wf_QueryAllContractResponse :: "('w, 'r) wire \<Rightarrow> QueryAllContractResponse \<Rightarrow> bool" where
  "wf_QueryAllContractResponse L m \<longleftrightarrow> list_all (\<lambda>v. wf_Contract L v \<and> fits L (encode_Contract L v)) (QueryAllContractResponse.contract m)
     \<and> pred_option (\<lambda>v. wf_PageResponse L v \<and> fits L (encode_PageResponse L v)) (QueryAllContractResponse.pagination m)"

definition wfj_QueryAllContractResponse :: "QueryAllContractResponse \<Rightarrow> bool" where
  "wfj_QueryAllContractResponse m \<longleftrightarrow> list_all wfj_Contract (QueryAllContractResponse.contract m)
     \<and> pred_option wfj_PageResponse (QueryAllContractResponse.pagination m)"

subsection \<open>QueryActiveContractRequest\<close>

record QueryActiveContractRequest =
  provider :: jsstring
  service :: jsstring
  spender :: jsstring

definition createBase_QueryActiveContractRequest :: QueryActiveContractRequest where
  "createBase_QueryActiveContractRequest = \<lparr>QueryActiveContractRequest.provider = [],
     QueryActiveContractRequest.service = [],
     QueryActiveContractRequest.spender = []\<rparr>"

definition encode_QueryActiveContractRequest :: "('w, 'r) wire \<Rightarrow> QueryActiveContractRequest \<Rightarrow> 'w \<Rightarrow> 'w result" where
  "encode_QueryActiveContractRequest L message = seqE
    [whenE (QueryActiveContractRequest.provider message \<noteq> []) (seqE [w_uint32 L 10, w_string L (QueryActiveContractRequest.provider message)]),
     whenE (QueryActiveContractRequest.service message \<noteq> []) (seqE [w_uint32 L 18, w_string L (QueryActiveContractRequest.service message)]),
     whenE (QueryActiveContractRequest.spender message \<noteq> []) (seqE [w_uint32 L 26, w_string L (QueryActiveContractRequest.spender message)])]"

definition QueryActiveContractRequest_switch :: "('w, 'r) wire \<Rightarrow> u32 \<Rightarrow> QueryActiveContractRequest \<Rightarrow> (QueryActiveContractRequest, 'r) action" where
  "QueryActiveContractRequest_switch L tag message = js_switch (drop_bit 3 tag)
    [(1, when_tag tag 10 (readf (r_string L) (\<lambda>v. message\<lparr>QueryActiveContractRequest.provider := v\<rparr>))),
     (2, when_tag tag 18 (readf (r_string L) (\<lambda>v. message\<lparr>QueryActiveContractRequest.service := v\<rparr>))),
     (3, when_tag tag 26 (readf (r_string L) (\<lambda>v. message\<lparr>QueryActiveContractRequest.spender := v\<rparr>)))]
    break_out"

definition decode_QueryActiveContractRequest :: "('w, 'r) wire \<Rightarrow> 'r input \<Rightarrow> nat option \<Rightarrow> (QueryActiveContractRequest \<times> 'r) result" where
  "decode_QueryActiveContractRequest L = decode_msg L (QueryActiveContractRequest_switch L) createBase_QueryActiveContractRequest"

definition fromJSON_QueryActiveContractRequest :: "host \<Rightarrow> jsval \<Rightarrow> QueryActiveContractRequest result" where
  "fromJSON_QueryActiveContractRequest h object =
     bindE (fieldE object ''provider'' (stringE h) []) (\<lambda>v_provider.
     bindE (fieldE object ''service'' (stringE h) []) (\<lambda>v_service.
     bindE (fieldE object ''spender'' (stringE h) []) (\<lambda>v_spender.
     Inr \<lparr>QueryActiveContractRequest.provider = v_provider, QueryActiveContractRequest.service = v_service, QueryActiveContractRequest.spender = v_spender\<rparr>)))"

definition toJSON_QueryActiveContractRequest :: "host \<Rightarrow> QueryActiveContractRequest \<Rightarrow> jsval result" where
  "toJSON_QueryActiveContractRequest h message = objE
    [jfieldE (QueryActiveContractRequest.provider message \<noteq> []) ''provider'' (Inr (JString (QueryActiveContractRequest.provider message))),
     jfieldE (QueryActiveContractRequest.service message \<noteq> []) ''service'' (Inr (JString (QueryActiveContractRequest.service message))),
     jfieldE (QueryActiveContractRequest.spender message \<noteq> []) ''spender'' (Inr (JString (QueryActiveContractRequest.spender message)))]"

record QueryActiveContractRequest_Partial =
  provider :: "jsstring option"
  service :: "jsstring option"
  spender :: "jsstring option"

definition QueryActiveContractRequest_empty :: QueryActiveContractRequest_Partial where
  "QueryActiveContractRequest_empty = \<lparr>QueryActiveContractRequest_Partial.provider = None, QueryActiveContractRequest_Partial.service = None, QueryActiveContractRequest_Partial.spender = None\<rparr>"

definition fromPartial_QueryActiveContractRequest :: "QueryActiveContractRequest_Partial \<Rightarrow> QueryActiveContractRequest" where
  "fromPartial_QueryActiveContractRequest object = createBase_QueryActiveContractRequest\<lparr>QueryActiveContractRequest.provider := nullish (QueryActiveContractRequest_Partial.provider object) [],
     QueryActiveContractRequest.service := nullish (QueryActiveContractRequest_Partial.service object) [],
     QueryActiveContractRequest.spender := nullish (QueryActiveContractRequest_Partial.spender object) []\<rparr>"

definition create_QueryActiveContractRequest :: "QueryActiveContractRequest_Partial option \<Rightarrow> QueryActiveContractRequest" where
  "create_QueryActiveContractRequest base = fromPartial_QueryActiveContractRequest (nullish base QueryActiveContractRequest_empty)"

text \<open>A partial message that sets every field.\<close>

definition partial_of_QueryActiveContractRequest :: "QueryActiveContractRequest \<Rightarrow> QueryActiveContractRequest_Partial" where
  "partial_of_QueryActiveContractRequest m =
     \<lparr>QueryActiveContractRequest_Partial.provider = Some (QueryActiveContractRequest.provider m),
      QueryActiveContractRequest_Partial.service = Some (QueryActiveContractRequest.service m),
      QueryActiveContractRequest_Partial.spender = Some (QueryActiveContractRequest.spender m)\<rparr>"

definition ok_QueryActiveContractRequest :: "QueryActiveContractRequest \<Rightarrow> bool" where
  "ok_QueryActiveContractRequest m \<longleftrightarrow> True"

definition wf_QueryActiveContractRequest :: "('w, 'r) wire \<Rightarrow> QueryActiveContractRequest \<Rightarrow> bool" where
  "wf_QueryActiveContractRequest L m \<longleftrightarrow> wire_string (QueryActiveContractRequest.provider m)
     \<and> wire_string (QueryActiveContractRequest.service m)
     \<and> wire_string (QueryActiveContractRequest.spender m)"

definition wfj_QueryActiveContractRequest :: "QueryActiveContractRequest \<Rightarrow> bool" where
  "wfj_QueryActiveContractRequest m \<longleftrightarrow> True"

subsection \<open>QueryActiveContractResponse\<close>

record QueryActiveContractResponse =
  contract :: "Contract option"

definition createBase_QueryActiveContractResponse :: QueryActiveContractResponse where
  "createBase_QueryActiveContractResponse = \<lparr>QueryActiveContractResponse.contract = None\<rparr>"

definition encode_QueryActiveContractResponse :: "('w, 'r) wire \<Rightarrow> QueryActiveContractResponse \<Rightarrow> 'w \<Rightarrow> 'w result" where
  "encode_QueryActiveContractResponse L message = seqE
    [someE (QueryActiveContractResponse.contract message) (\<lambda>v. seqE [w_uint32 L 10, w_fork L, encode_Contract L v, w_join L])]"

definition QueryActiveContractResponse_switch :: "('w, 'r) wire \<Rightarrow> u32 \<Rightarrow> QueryActiveContractResponse \<Rightarrow> (QueryActiveContractResponse, 'r) action" where
  "QueryActiveContractResponse_switch L tag message = js_switch (drop_bit 3 tag)
    [(1, when_tag tag 10 (readf (submsg L (decode_Contract L)) (\<lambda>v. message\<lparr>QueryActiveContractResponse.contract := Some v\<rparr>)))]
    break_out"

definition decode_QueryActiveContractResponse :: "('w, 'r) wire \<Rightarrow> 'r input \<Rightarrow> nat option \<Rightarrow> (QueryActiveContractResponse \<times> 'r) result" where
  "decode_QueryActiveContractResponse L = decode_msg L (QueryActiveContractResponse_switch L) createBase_QueryActiveContractResponse"

definition fromJSON_QueryActiveContractResponse :: "host \<Rightarrow> jsval \<Rightarrow> QueryActiveContractResponse result" where
  "fromJSON_QueryActiveContractResponse h object =
     bindE (optE object ''contract'' (fromJSON_Contract h)) (\<lambda>v_contract.
     Inr \<lparr>QueryActiveContractResponse.contract = v_contract\<rparr>)"

definition toJSON_QueryActiveContractResponse :: "host \<Rightarrow> QueryActiveContractResponse \<Rightarrow> jsval result" where
  "toJSON_QueryActiveContractResponse h message = objE
    [joptE ''contract'' (toJSON_Contract h) (QueryActiveContractResponse.contract message)]"

record QueryActiveContractResponse_Partial =
  contract :: "Contract_Partial option"

definition QueryActiveContractResponse_empty :: QueryActiveContractResponse_Partial where
  "QueryActiveContractResponse_empty = \<lparr>QueryActiveContractResponse_Partial.contract = None\<rparr>"

definition fromPartial_QueryActiveContractResponse :: "QueryActiveContractResponse_Partial \<Rightarrow> QueryActiveContractResponse" where
  "fromPartial_QueryActiveContractResponse object = createBase_QueryActiveContractResponse\<lparr>QueryActiveContractResponse.contract := map_option fromPartial_Contract (QueryActiveContractResponse_Partial.contract object)\<rparr>"

definition create_QueryActiveContractResponse :: "QueryActiveContractResponse_Partial option \<Rightarrow> QueryActiveContractResponse" where
  "create_QueryActiveContractResponse base = fromPartial_QueryActiveContractResponse (nullish base QueryActiveContractResponse_empty)"

text \<open>A partial message that sets every field.\<close>

definition partial_of_QueryActiveContractResponse :: "QueryActiveContractResponse \<Rightarrow> QueryActiveContractResponse_Partial" where
  "partial_of_QueryActiveContractResponse m =
     \<lparr>QueryActiveContractResponse_Partial.contract = map_option partial_of_Contract (QueryActiveContractResponse.contract m)\<rparr>"

definition ok_QueryActiveContractResponse :: "QueryActiveContractResponse \<Rightarrow> bool" where
  "ok_QueryActiveContractResponse m \<longleftrightarrow> pred_option ok_Contract (QueryActiveContractResponse.contract m)"

definition wf_QueryActiveContractResponse :: "('w, 'r) wire \<Rightarrow> QueryActiveContractResponse \<Rightarrow> bool" where
  "wf_QueryActiveContractResponse L m \<longleftrightarrow> pred_option (\<lambda>v. wf_Contract L v \<and> fits L (encode_Contract L v)) (QueryActiveContractResponse.contract m)"

definition wfj_QueryActiveContractResponse :: "QueryActiveContractResponse \<Rightarrow> bool" where
  "wfj_QueryActiveContractResponse m \<longleftrightarrow> pred_option wfj_Contract (QueryActiveContractResponse.contract m)"


section \<open>Encoding, decoding and JSON of these messages\<close>

sublocale wire_laws \<subseteq> QueryAllServicesRequest_codec: message_codec L F out inp "encode_QueryAllServicesRequest L" "QueryAllServicesRequest_switch L" createBase_QueryAllServicesRequest "wf_QueryAllServicesRequest L"
proof unfold_locales
  show good: "good_sw (QueryAllServicesRequest_switch L)"
    unfolding QueryAllServicesRequest_switch_def by (intro good_swI fwd_rules)
  fix m assume "wf_QueryAllServicesRequest L m"
  then show "codes (QueryAllServicesRequest_switch L) (encode_QueryAllServicesRequest L m) createBase_QueryAllServicesRequest m"
    unfolding encode_QueryAllServicesRequest_def wf_QueryAllServicesRequest_def
    by (cases m) (simp add: createBase_QueryAllServicesRequest_def codes_Nil [simplified])
qed

sublocale wire_laws \<subseteq> QueryAllServicesRequest_range: message_range L F out inp "QueryAllServicesRequest_switch L" createBase_QueryAllServicesRequest ok_QueryAllServicesRequest
proof unfold_locales
  show "ok_QueryAllServicesRequest createBase_QueryAllServicesRequest" by (simp add: ok_QueryAllServicesRequest_def createBase_QueryAllServicesRequest_def)
  fix m tag assume "ok_QueryAllServicesRequest m"
  then show "keeps ok_QueryAllServicesRequest (QueryAllServicesRequest_switch L tag m)"
    unfolding QueryAllServicesRequest_switch_def by - (rule range_rules | (simp add: ok_QueryAllServicesRequest_def; fail))+
qed

context wire_laws
begin

lemmas QueryAllServicesRequest_carries [codec_rules] =
  QueryAllServicesRequest_codec.opt_carries [folded decode_QueryAllServicesRequest_def] QueryAllServicesRequest_codec.list_carries [folded decode_QueryAllServicesRequest_def]

lemmas QueryAllServicesRequest_good [fwd_rules] = QueryAllServicesRequest_codec.op_good [folded decode_QueryAllServicesRequest_def]

lemmas QueryAllServicesRequest_yields [range_rules] = QueryAllServicesRequest_range.sub_range [folded decode_QueryAllServicesRequest_def]

lemmas QueryAllServicesRequest_roundtrip = QueryAllServicesRequest_codec.roundtrip [folded decode_QueryAllServicesRequest_def]

lemmas QueryAllServicesRequest_returns = QueryAllServicesRequest_codec.decode_returns [folded decode_QueryAllServicesRequest_def]

lemmas QueryAllServicesRequest_decoded = QueryAllServicesRequest_range.decode_range [folded decode_QueryAllServicesRequest_def]

end

interpretation QueryAllServicesRequest_json: message_json toJSON_QueryAllServicesRequest fromJSON_QueryAllServicesRequest wfj_QueryAllServicesRequest
proof unfold_locales
  fix h m
  show "json_rt (toJSON_QueryAllServicesRequest h) (fromJSON_QueryAllServicesRequest h) m"
    by (cases m) (simp add: json_rt_def toJSON_QueryAllServicesRequest_def fromJSON_QueryAllServicesRequest_def objE_rules(1))
qed

lemmas QueryAllServicesRequest_json_rules [json_rules] = QueryAllServicesRequest_json.json_field_rules

lemma ServiceEnum_tags:
  "ServiceEnum_switch L 8 m = readf (num32 (r_int32 L)) (\<lambda>v. m\<lparr>ServiceEnum.serviceId := v\<rparr>)"
  "ServiceEnum_switch L 18 m = readf (r_string L) (\<lambda>v. m\<lparr>ServiceEnum.name := v\<rparr>)"
  "ServiceEnum_switch L 26 m = readf (r_string L) (\<lambda>v. m\<lparr>ServiceEnum.description := v\<rparr>)"
  by (simp_all add: ServiceEnum_switch_def when_tag_def)

lemma fromPartial_partial_of_ServiceEnum [simp]: "fromPartial_ServiceEnum (partial_of_ServiceEnum m) = m"
  by (simp add: fromPartial_ServiceEnum_def partial_of_ServiceEnum_def createBase_ServiceEnum_def partial_map_def option.map_comp o_def option.map_ident)

lemma create_ServiceEnum_None [simp]: "create_ServiceEnum None = createBase_ServiceEnum"
  by (simp add: create_ServiceEnum_def fromPartial_ServiceEnum_def ServiceEnum_empty_def createBase_ServiceEnum_def partial_map_def)

sublocale wire_laws \<subseteq> ServiceEnum_codec: message_codec L F out inp "encode_ServiceEnum L" "ServiceEnum_switch L" createBase_ServiceEnum "wf_ServiceEnum L"
proof unfold_locales
  show good: "good_sw (ServiceEnum_switch L)"
    unfolding ServiceEnum_switch_def by (intro good_swI fwd_rules)
  fix m assume "wf_ServiceEnum L m"
  then show "codes (ServiceEnum_switch L) (encode_ServiceEnum L m) createBase_ServiceEnum m"
    unfolding encode_ServiceEnum_def wf_ServiceEnum_def
    by (elim conjE)
      (rule codes_Cons codes_Nil [OF ServiceEnum.equality] codec_rules
        codes_when [where tag = 8 and u = ServiceEnum.serviceId_update and op = "num32 (r_int32 L)", OF good]
        codes_when [where tag = 18 and u = ServiceEnum.name_update and op = "r_string L", OF good]
        codes_when [where tag = 26 and u = ServiceEnum.description_update and op = "r_string L", OF good]
      | assumption | (simp add: ServiceEnum_tags createBase_ServiceEnum_def; fail))+
qed

sublocale wire_laws \<subseteq> ServiceEnum_range: message_range L F out inp "ServiceEnum_switch L" createBase_ServiceEnum ok_ServiceEnum
proof unfold_locales
  show "ok_ServiceEnum createBase_ServiceEnum" by (simp add: ok_ServiceEnum_def createBase_ServiceEnum_def)
  fix m tag assume "ok_ServiceEnum m"
  then show "keeps ok_ServiceEnum (ServiceEnum_switch L tag m)"
    unfolding ServiceEnum_switch_def by - (rule range_rules | (simp add: ok_ServiceEnum_def; fail))+
qed

context wire_laws
begin

lemmas ServiceEnum_carries [codec_rules] =
  ServiceEnum_codec.opt_carries [folded decode_ServiceEnum_def] ServiceEnum_codec.list_carries [folded decode_ServiceEnum_def]

lemmas ServiceEnum_good [fwd_rules] = ServiceEnum_codec.op_good [folded decode_ServiceEnum_def]

lemmas ServiceEnum_yields [range_rules] = ServiceEnum_range.sub_range [folded decode_ServiceEnum_def]

lemmas ServiceEnum_roundtrip = ServiceEnum_codec.roundtrip [folded decode_ServiceEnum_def]

lemmas ServiceEnum_returns = ServiceEnum_codec.decode_returns [folded decode_ServiceEnum_def]

lemmas ServiceEnum_decoded = ServiceEnum_range.decode_range [folded decode_ServiceEnum_def]

end

interpretation ServiceEnum_json: message_json toJSON_ServiceEnum fromJSON_ServiceEnum wfj_ServiceEnum
proof unfold_locales
  fix h m
  assume "wfj_ServiceEnum m"
  then show "json_rt (toJSON_ServiceEnum h) (fromJSON_ServiceEnum h) m"
    unfolding toJSON_ServiceEnum_def fromJSON_ServiceEnum_def wfj_ServiceEnum_def
    by (-) (rule json_rtI json_rules | assumption | (simp; fail))+
qed

lemmas ServiceEnum_json_rules [json_rules] = ServiceEnum_json.json_field_rules

lemma QueryAllServicesResponse_tags:
  "QueryAllServicesResponse_switch L 10 m = readf (submsg L (decode_ServiceEnum L)) (\<lambda>v. m\<lparr>QueryAllServicesResponse.services := QueryAllServicesResponse.services m @ [v]\<rparr>)"
  by (simp_all add: QueryAllServicesResponse_switch_def when_tag_def)

lemma fromPartial_partial_of_QueryAllServicesResponse [simp]: "fromPartial_QueryAllServicesResponse (partial_of_QueryAllServicesResponse m) = m"
  by (simp add: fromPartial_QueryAllServicesResponse_def partial_of_QueryAllServicesResponse_def createBase_QueryAllServicesResponse_def partial_map_def option.map_comp o_def option.map_ident)

lemma create_QueryAllServicesResponse_None [simp]: "create_QueryAllServicesResponse None = createBase_QueryAllServicesResponse"
  by (simp add: create_QueryAllServicesResponse_def fromPartial_QueryAllServicesResponse_def QueryAllServicesResponse_empty_def createBase_QueryAllServicesResponse_def partial_map_def)

sublocale wire_laws \<subseteq> QueryAllServicesResponse_codec: message_codec L F out inp "encode_QueryAllServicesResponse L" "QueryAllServicesResponse_switch L" createBase_QueryAllServicesResponse "wf_QueryAllServicesResponse L"
proof unfold_locales
  show good: "good_sw (QueryAllServicesResponse_switch L)"
    unfolding QueryAllServicesResponse_switch_def by (intro good_swI fwd_rules)
  fix m assume "wf_QueryAllServicesResponse L m"
  then show "codes (QueryAllServicesResponse_switch L) (encode_QueryAllServicesResponse L m) createBase_QueryAllServicesResponse m"
    unfolding encode_QueryAllServicesResponse_def wf_QueryAllServicesResponse_def
    by (-)
      (rule codes_Cons codes_Nil [OF QueryAllServicesResponse.equality] codec_rules
        codes_for [where tag = 10 and u = QueryAllServicesResponse.services_update and op = "submsg L (decode_ServiceEnum L)", OF good]
      | assumption | (simp add: QueryAllServicesResponse_tags createBase_QueryAllServicesResponse_def; fail))+
qed

sublocale wire_laws \<subseteq> QueryAllServicesResponse_range: message_range L F out inp "QueryAllServicesResponse_switch L" createBase_QueryAllServicesResponse ok_QueryAllServicesResponse
proof unfold_locales
  show "ok_QueryAllServicesResponse createBase_QueryAllServicesResponse" by (simp add: ok_QueryAllServicesResponse_def createBase_QueryAllServicesResponse_def)
  fix m tag assume "ok_QueryAllServicesResponse m"
  then show "keeps ok_QueryAllServicesResponse (QueryAllServicesResponse_switch L tag m)"
    unfolding QueryAllServicesResponse_switch_def by - (rule range_rules | (simp add: ok_QueryAllServicesResponse_def; fail))+
qed

context wire_laws
begin

lemmas QueryAllServicesResponse_carries [codec_rules] =
  QueryAllServicesResponse_codec.opt_carries [folded decode_QueryAllServicesResponse_def] QueryAllServicesResponse_codec.list_carries [folded decode_QueryAllServicesResponse_def]

lemmas QueryAllServicesResponse_good [fwd_rules] = QueryAllServicesResponse_codec.op_good [folded decode_QueryAllServicesResponse_def]

lemmas QueryAllServicesResponse_yields [range_rules] = QueryAllServicesResponse_range.sub_range [folded decode_QueryAllServicesResponse_def]

lemmas QueryAllServicesResponse_roundtrip = QueryAllServicesResponse_codec.roundtrip [folded decode_QueryAllServicesResponse_def]

lemmas QueryAllServicesResponse_returns = QueryAllServicesResponse_codec.decode_returns [folded decode_QueryAllServicesResponse_def]

lemmas QueryAllServicesResponse_decoded = QueryAllServicesResponse_range.decode_range [folded decode_QueryAllServicesResponse_def]

end

interpretation QueryAllServicesResponse_json: message_json toJSON_QueryAllServicesResponse fromJSON_QueryAllServicesResponse wfj_QueryAllServicesResponse
proof unfold_locales
  fix h m
  assume "wfj_QueryAllServicesResponse m"
  then show "json_rt (toJSON_QueryAllServicesResponse h) (fromJSON_QueryAllServicesResponse h) m"
    unfolding toJSON_QueryAllServicesResponse_def fromJSON_QueryAllServicesResponse_def wfj_QueryAllServicesResponse_def
    by (-) (rule json_rtI json_rules | assumption | (simp; fail))+
qed

lemmas QueryAllServicesResponse_json_rules [json_rules] = QueryAllServicesResponse_json.json_field_rules

lemma QueryServiceRequest_tags:
  "QueryServiceRequest_switch L 10 m = readf (r_string L) (\<lambda>v. m\<lparr>QueryServiceRequest.name := v\<rparr>)"
  "QueryServiceRequest_switch L 16 m = readf (num64 (r_uint64 L)) (\<lambda>v. m\<lparr>QueryServiceRequest.id' := v\<rparr>)"
  by (simp_all add: QueryServiceRequest_switch_def when_tag_def)

lemma fromPartial_partial_of_QueryServiceRequest [simp]: "fromPartial_QueryServiceRequest (partial_of_QueryServiceRequest m) = m"
  by (simp add: fromPartial_QueryServiceRequest_def partial_of_QueryServiceRequest_def createBase_QueryServiceRequest_def partial_map_def option.map_comp o_def option.map_ident)

lemma create_QueryServiceRequest_None [simp]: "create_QueryServiceRequest None = createBase_QueryServiceRequest"
  by (simp add: create_QueryServiceRequest_def fromPartial_QueryServiceRequest_def QueryServiceRequest_empty_def createBase_QueryServiceRequest_def partial_map_def)

sublocale wire_laws \<subseteq> QueryServiceRequest_codec: message_codec L F out inp "encode_QueryServiceRequest L" "QueryServiceRequest_switch L" createBase_QueryServiceRequest "wf_QueryServiceRequest L"
proof unfold_locales
  show good: "good_sw (QueryServiceRequest_switch L)"
    unfolding QueryServiceRequest_switch_def by (intro good_swI fwd_rules)
  fix m assume "wf_QueryServiceRequest L m"
  then show "codes (QueryServiceRequest_switch L) (encode_QueryServiceRequest L m) createBase_QueryServiceRequest m"
    unfolding encode_QueryServiceRequest_def wf_QueryServiceRequest_def
    by (elim conjE)
      (rule codes_Cons codes_Nil [OF QueryServiceRequest.equality] codec_rules
        codes_when [where tag = 10 and u = QueryServiceRequest.name_update and op = "r_string L", OF good]
        codes_when [where tag = 16 and u = QueryServiceRequest.id'_update and op = "num64 (r_uint64 L)", OF good]
      | assumption | (simp add: QueryServiceRequest_tags createBase_QueryServiceRequest_def; fail))+
qed

sublocale wire_laws \<subseteq> QueryServiceRequest_range: message_range L F out inp "QueryServiceRequest_switch L" createBase_QueryServiceRequest ok_QueryServiceRequest
proof unfold_locales
  show "ok_QueryServiceRequest createBase_QueryServiceRequest" by (simp add: ok_QueryServiceRequest_def createBase_QueryServiceRequest_def)
  fix m tag assume "ok_QueryServiceRequest m"
  then show "keeps ok_QueryServiceRequest (QueryServiceRequest_switch L tag m)"
    unfolding QueryServiceRequest_switch_def by - (rule range_rules | (simp add: ok_QueryServiceRequest_def; fail))+
qed

context wire_laws
begin

lemmas QueryServiceRequest_carries [codec_rules] =
  QueryServiceRequest_codec.opt_carries [folded decode_QueryServiceRequest_def] QueryServiceRequest_codec.list_carries [folded decode_QueryServiceRequest_def]

lemmas QueryServiceRequest_good [fwd_rules] = QueryServiceRequest_codec.op_good [folded decode_QueryServiceRequest_def]

lemmas QueryServiceRequest_yields [range_rules] = QueryServiceRequest_range.sub_range [folded decode_QueryServiceRequest_def]

lemmas QueryServiceRequest_roundtrip = QueryServiceRequest_codec.roundtrip [folded decode_QueryServiceRequest_def]

lemmas QueryServiceRequest_returns = QueryServiceRequest_codec.decode_returns [folded decode_QueryServiceRequest_def]

lemmas QueryServiceRequest_decoded = QueryServiceRequest_range.decode_range [folded decode_QueryServiceRequest_def]

end

interpretation QueryServiceRequest_json: message_json toJSON_QueryServiceRequest fromJSON_QueryServiceRequest wfj_QueryServiceRequest
proof unfold_locales
  fix h m
  assume "wfj_QueryServiceRequest m"
  then show "json_rt (toJSON_QueryServiceRequest h) (fromJSON_QueryServiceRequest h) m"
    unfolding toJSON_QueryServiceRequest_def fromJSON_QueryServiceRequest_def wfj_QueryServiceRequest_def
    by (-) (rule json_rtI json_rules | assumption | (simp; fail))+
qed

lemmas QueryServiceRequest_json_rules [json_rules] = QueryServiceRequest_json.json_field_rules

lemma QueryServiceResponse_tags:
  "QueryServiceResponse_switch L 10 m = readf (submsg L (decode_Service L)) (\<lambda>v. m\<lparr>QueryServiceResponse.service := Some v\<rparr>)"
  by (simp_all add: QueryServiceResponse_switch_def when_tag_def)

lemma fromPartial_partial_of_QueryServiceResponse [simp]: "fromPartial_QueryServiceResponse (partial_of_QueryServiceResponse m) = m"
  by (simp add: fromPartial_QueryServiceResponse_def partial_of_QueryServiceResponse_def createBase_QueryServiceResponse_def partial_map_def option.map_comp o_def option.map_ident)

lemma create_QueryServiceResponse_None [simp]: "create_QueryServiceResponse None = createBase_QueryServiceResponse"
  by (simp add: create_QueryServiceResponse_def fromPartial_QueryServiceResponse_def QueryServiceResponse_empty_def createBase_QueryServiceResponse_def partial_map_def)

sublocale wire_laws \<subseteq> QueryServiceResponse_codec: message_codec L F out inp "encode_QueryServiceResponse L" "QueryServiceResponse_switch L" createBase_QueryServiceResponse "wf_QueryServiceResponse L"
proof unfold_locales
  show good: "good_sw (QueryServiceResponse_switch L)"
    unfolding QueryServiceResponse_switch_def by (intro good_swI fwd_rules)
  fix m assume "wf_QueryServiceResponse L m"
  then show "codes (QueryServiceResponse_switch L) (encode_QueryServiceResponse L m) createBase_QueryServiceResponse m"
    unfolding encode_QueryServiceResponse_def wf_QueryServiceResponse_def
    by (-)
      (rule codes_Cons codes_Nil [OF QueryServiceResponse.equality] codec_rules
        codes_some [where tag = 10 and u = QueryServiceResponse.service_update and op = "submsg L (decode_Service L)", OF good]
      | assumption | (simp add: QueryServiceResponse_tags createBase_QueryServiceResponse_def; fail))+
qed

sublocale wire_laws \<subseteq> QueryServiceResponse_range: message_range L F out inp "QueryServiceResponse_switch L" createBase_QueryServiceResponse ok_QueryServiceResponse
proof unfold_locales
  show "ok_QueryServiceResponse createBase_QueryServiceResponse" by (simp add: ok_QueryServiceResponse_def createBase_QueryServiceResponse_def)
  fix m tag assume "ok_QueryServiceResponse m"
  then show "keeps ok_QueryServiceResponse (QueryServiceResponse_switch L tag m)"
    unfolding QueryServiceResponse_switch_def by - (rule range_rules | (simp add: ok_QueryServiceResponse_def; fail))+
qed

context wire_laws
begin

lemmas QueryServiceResponse_carries [codec_rules] =
  QueryServiceResponse_codec.opt_carries [folded decode_QueryServiceResponse_def] QueryServiceResponse_codec.list_carries [folded decode_QueryServiceResponse_def]

lemmas QueryServiceResponse_good [fwd_rules] = QueryServiceResponse_codec.op_good [folded decode_QueryServiceResponse_def]

lemmas QueryServiceResponse_yields [range_rules] = QueryServiceResponse_range.sub_range [folded decode_QueryServiceResponse_def]

lemmas QueryServiceResponse_roundtrip = QueryServiceResponse_codec.roundtrip [folded decode_QueryServiceResponse_def]

lemmas QueryServiceResponse_returns = QueryServiceResponse_codec.decode_returns [folded decode_QueryServiceResponse_def]

lemmas QueryServiceResponse_decoded = QueryServiceResponse_range.decode_range [folded decode_QueryServiceResponse_def]

end

interpretation QueryServiceResponse_json: message_json toJSON_QueryServiceResponse fromJSON_QueryServiceResponse wfj_QueryServiceResponse
proof unfold_locales
  fix h m
  assume "wfj_QueryServiceResponse m"
  then show "json_rt (toJSON_QueryServiceResponse h) (fromJSON_QueryServiceResponse h) m"
    unfolding toJSON_QueryServiceResponse_def fromJSON_QueryServiceResponse_def wfj_QueryServiceResponse_def
    by (-) (rule json_rtI json_rules | assumption | (simp; fail))+
qed

lemmas QueryServiceResponse_json_rules [json_rules] = QueryServiceResponse_json.json_field_rules

sublocale wire_laws \<subseteq> QueryParamsRequest_codec: message_codec L F out inp "encode_QueryParamsRequest L" "QueryParamsRequest_switch L" createBase_QueryParamsRequest "wf_QueryParamsRequest L"
proof unfold_locales
  show good: "good_sw (QueryParamsRequest_switch L)"
    unfolding QueryParamsRequest_switch_def by (intro good_swI fwd_rules)
  fix m assume "wf_QueryParamsRequest L m"
  then show "codes (QueryParamsRequest_switch L) (encode_QueryParamsRequest L m) createBase_QueryParamsRequest m"
    unfolding encode_QueryParamsRequest_def wf_QueryParamsRequest_def
    by (cases m) (simp add: createBase_QueryParamsRequest_def codes_Nil [simplified])
qed

sublocale wire_laws \<subseteq> QueryParamsRequest_range: message_range L F out inp "QueryParamsRequest_switch L" createBase_QueryParamsRequest ok_QueryParamsRequest
proof unfold_locales
  show "ok_QueryParamsRequest createBase_QueryParamsRequest" by (simp add: ok_QueryParamsRequest_def createBase_QueryParamsRequest_def)
  fix m tag assume "ok_QueryParamsRequest m"
  then show "keeps ok_QueryParamsRequest (QueryParamsRequest_switch L tag m)"
    unfolding QueryParamsRequest_switch_def by - (rule range_rules | (simp add: ok_QueryParamsRequest_def; fail))+
qed

context wire_laws
begin

lemmas QueryParamsRequest_carries [codec_rules] =
  QueryParamsRequest_codec.opt_carries [folded decode_QueryParamsRequest_def] QueryParamsRequest_codec.list_carries [folded decode_QueryParamsRequest_def]

lemmas QueryParamsRequest_good [fwd_rules] = QueryParamsRequest_codec.op_good [folded decode_QueryParamsRequest_def]

lemmas QueryParamsRequest_yields [range_rules] = QueryParamsRequest_range.sub_range [folded decode_QueryParamsRequest_def]

lemmas QueryParamsRequest_roundtrip = QueryParamsRequest_codec.roundtrip [folded decode_QueryParamsRequest_def]

lemmas QueryParamsRequest_returns = QueryParamsRequest_codec.decode_returns [folded decode_QueryParamsRequest_def]

lemmas QueryParamsRequest_decoded = QueryParamsRequest_range.decode_range [folded decode_QueryParamsRequest_def]

end

interpretation QueryParamsRequest_json: message_json toJSON_QueryParamsRequest fromJSON_QueryParamsRequest wfj_QueryParamsRequest
proof unfold_locales
  fix h m
  show "json_rt (toJSON_QueryParamsRequest h) (fromJSON_QueryParamsRequest h) m"
    by (cases m) (simp add: json_rt_def toJSON_QueryParamsRequest_def fromJSON_QueryParamsRequest_def objE_rules(1))
qed

lemmas QueryParamsRequest_json_rules [json_rules] = QueryParamsRequest_json.json_field_rules

lemma QueryParamsResponse_tags:
  "QueryParamsResponse_switch L 10 m = readf (submsg L (decode_Params L)) (\<lambda>v. m\<lparr>QueryParamsResponse.params := Some v\<rparr>)"
  by (simp_all add: QueryParamsResponse_switch_def when_tag_def)

lemma fromPartial_partial_of_QueryParamsResponse [simp]: "fromPartial_QueryParamsResponse (partial_of_QueryParamsResponse m) = m"
  by (simp add: fromPartial_QueryParamsResponse_def partial_of_QueryParamsResponse_def createBase_QueryParamsResponse_def partial_map_def option.map_comp o_def option.map_ident)

lemma create_QueryParamsResponse_None [simp]: "create_QueryParamsResponse None = createBase_QueryParamsResponse"
  by (simp add: create_QueryParamsResponse_def fromPartial_QueryParamsResponse_def QueryParamsResponse_empty_def createBase_QueryParamsResponse_def partial_map_def)

sublocale wire_laws \<subseteq> QueryParamsResponse_codec: message_codec L F out inp "encode_QueryParamsResponse L" "QueryParamsResponse_switch L" createBase_QueryParamsResponse "wf_QueryParamsResponse L"
proof unfold_locales
  show good: "good_sw (QueryParamsResponse_switch L)"
    unfolding QueryParamsResponse_switch_def by (intro good_swI fwd_rules)
  fix m assume "wf_QueryParamsResponse L m"
  then show "codes (QueryParamsResponse_switch L) (encode_QueryParamsResponse L m) createBase_QueryParamsResponse m"
    unfolding encode_QueryParamsResponse_def wf_QueryParamsResponse_def
    by (-)
      (rule codes_Cons codes_Nil [OF QueryParamsResponse.equality] codec_rules
        codes_some [where tag = 10 and u = QueryParamsResponse.params_update and op = "submsg L (decode_Params L)", OF good]
      | assumption | (simp add: QueryParamsResponse_tags createBase_QueryParamsResponse_def; fail))+
qed

sublocale wire_laws \<subseteq> QueryParamsResponse_range: message_range L F out inp "QueryParamsResponse_switch L" createBase_QueryParamsResponse ok_QueryParamsResponse
proof unfold_locales
  show "ok_QueryParamsResponse createBase_QueryParamsResponse" by (simp add: ok_QueryParamsResponse_def createBase_QueryParamsResponse_def)
  fix m tag assume "ok_QueryParamsResponse m"
  then show "keeps ok_QueryParamsResponse (QueryParamsResponse_switch L tag m)"
    unfolding QueryParamsResponse_switch_def by - (rule range_rules | (simp add: ok_QueryParamsResponse_def; fail))+
qed

context wire_laws
begin

lemmas QueryParamsResponse_carries [codec_rules] =
  QueryParamsResponse_codec.opt_carries [folded decode_QueryParamsResponse_def] QueryParamsResponse_codec.list_carries [folded decode_QueryParamsResponse_def]

lemmas QueryParamsResponse_good [fwd_rules] = QueryParamsResponse_codec.op_good [folded decode_QueryParamsResponse_def]

lemmas QueryParamsResponse_yields [range_rules] = QueryParamsResponse_range.sub_range [folded decode_QueryParamsResponse_def]

lemmas QueryParamsResponse_roundtrip = QueryParamsResponse_codec.roundtrip [folded decode_QueryParamsResponse_def]

lemmas QueryParamsResponse_returns = QueryParamsResponse_codec.decode_returns [folded decode_QueryParamsResponse_def]

lemmas QueryParamsResponse_decoded = QueryParamsResponse_range.decode_range [folded decode_QueryParamsResponse_def]

end

interpretation QueryParamsResponse_json: message_json toJSON_QueryParamsResponse fromJSON_QueryParamsResponse wfj_QueryParamsResponse
proof unfold_locales
  fix h m
  assume "wfj_QueryParamsResponse m"
  then show "json_rt (toJSON_QueryParamsResponse h) (fromJSON_QueryParamsResponse h) m"
    unfolding toJSON_QueryParamsResponse_def fromJSON_QueryParamsResponse_def wfj_QueryParamsResponse_def
    by (-) (rule json_rtI json_rules | assumption | (simp; fail))+
qed

lemmas QueryParamsResponse_json_rules [json_rules] = QueryParamsResponse_json.json_field_rules

lemma QueryFetchProviderRequest_tags:
  "QueryFetchProviderRequest_switch L 10 m = readf (r_string L) (\<lambda>v. m\<lparr>QueryFetchProviderRequest.pubkey := v\<rparr>)"
  "QueryFetchProviderRequest_switch L 18 m = readf (r_string L) (\<lambda>v. m\<lparr>QueryFetchProviderRequest.service := v\<rparr>)"
  by (simp_all add: QueryFetchProviderRequest_switch_def when_tag_def)

lemma fromPartial_partial_of_QueryFetchProviderRequest [simp]: "fromPartial_QueryFetchProviderRequest (partial_of_QueryFetchProviderRequest m) = m"
  by (simp add: fromPartial_QueryFetchProviderRequest_def partial_of_QueryFetchProviderRequest_def createBase_QueryFetchProviderRequest_def partial_map_def option.map_comp o_def option.map_ident)

lemma create_QueryFetchProviderRequest_None [simp]: "create_QueryFetchProviderRequest None = createBase_QueryFetchProviderRequest"
  by (simp add: create_QueryFetchProviderRequest_def fromPartial_QueryFetchProviderRequest_def QueryFetchProviderRequest_empty_def createBase_QueryFetchProviderRequest_def partial_map_def)

sublocale wire_laws \<subseteq> QueryFetchProviderRequest_codec: message_codec L F out inp "encode_QueryFetchProviderRequest L" "QueryFetchProviderRequest_switch L" createBase_QueryFetchProviderRequest "wf_QueryFetchProviderRequest L"
proof unfold_locales
  show good: "good_sw (QueryFetchProviderRequest_switch L)"
    unfolding QueryFetchProviderRequest_switch_def by (intro good_swI fwd_rules)
  fix m assume "wf_QueryFetchProviderRequest L m"
  then show "codes (QueryFetchProviderRequest_switch L) (encode_QueryFetchProviderRequest L m) createBase_QueryFetchProviderRequest m"
    unfolding encode_QueryFetchProviderRequest_def wf_QueryFetchProviderRequest_def
    by (elim conjE)
      (rule codes_Cons codes_Nil [OF QueryFetchProviderRequest.equality] codec_rules
        codes_when [where tag = 10 and u = QueryFetchProviderRequest.pubkey_update and op = "r_string L", OF good]
        codes_when [where tag = 18 and u = QueryFetchProviderRequest.service_update and op = "r_string L", OF good]
      | assumption | (simp add: QueryFetchProviderRequest_tags createBase_QueryFetchProviderRequest_def; fail))+
qed

sublocale wire_laws \<subseteq> QueryFetchProviderRequest_range: message_range L F out inp "QueryFetchProviderRequest_switch L" createBase_QueryFetchProviderRequest ok_QueryFetchProviderRequest
proof unfold_locales
  show "ok_QueryFetchProviderRequest createBase_QueryFetchProviderRequest" by (simp add: ok_QueryFetchProviderRequest_def createBase_QueryFetchProviderRequest_def)
  fix m tag assume "ok_QueryFetchProviderRequest m"
  then show "keeps ok_QueryFetchProviderRequest (QueryFetchProviderRequest_switch L tag m)"
    unfolding QueryFetchProviderRequest_switch_def by - (rule range_rules | (simp add: ok_QueryFetchProviderRequest_def; fail))+
qed

context wire_laws
begin

lemmas QueryFetchProviderRequest_carries [codec_rules] =
  QueryFetchProviderRequest_codec.opt_carries [folded decode_QueryFetchProviderRequest_def] QueryFetchProviderRequest_codec.list_carries [folded decode_QueryFetchProviderRequest_def]

lemmas QueryFetchProviderRequest_good [fwd_rules] = QueryFetchProviderRequest_codec.op_good [folded decode_QueryFetchProviderRequest_def]

lemmas QueryFetchProviderRequest_yields [range_rules] = QueryFetchProviderRequest_range.sub_range [folded decode_QueryFetchProviderRequest_def]

lemmas QueryFetchProviderRequest_roundtrip = QueryFetchProviderRequest_codec.roundtrip [folded decode_QueryFetchProviderRequest_def]

lemmas QueryFetchProviderRequest_returns = QueryFetchProviderRequest_codec.decode_returns [folded decode_QueryFetchProviderRequest_def]

lemmas QueryFetchProviderRequest_decoded = QueryFetchProviderRequest_range.decode_range [folded decode_QueryFetchProviderRequest_def]

end

interpretation QueryFetchProviderRequest_json: message_json toJSON_QueryFetchProviderRequest fromJSON_QueryFetchProviderRequest wfj_QueryFetchProviderRequest
proof unfold_locales
  fix h m
  assume "wfj_QueryFetchProviderRequest m"
  then show "json_rt (toJSON_QueryFetchProviderRequest h) (fromJSON_QueryFetchProviderRequest h) m"
    unfolding toJSON_QueryFetchProviderRequest_def fromJSON_QueryFetchProviderRequest_def wfj_QueryFetchProviderRequest_def
    by (-) (rule json_rtI json_rules | assumption | (simp; fail))+
qed

lemmas QueryFetchProviderRequest_json_rules [json_rules] = QueryFetchProviderRequest_json.json_field_rules

lemma QueryFetchProviderResponse_tags:
  "QueryFetchProviderResponse_switch L 10 m = readf (submsg L (decode_Provider L)) (\<lambda>v. m\<lparr>QueryFetchProviderResponse.provider := Some v\<rparr>)"
  by (simp_all add: QueryFetchProviderResponse_switch_def when_tag_def)

lemma fromPartial_partial_of_QueryFetchProviderResponse [simp]: "fromPartial_QueryFetchProviderResponse (partial_of_QueryFetchProviderResponse m) = m"
  by (simp add: fromPartial_QueryFetchProviderResponse_def partial_of_QueryFetchProviderResponse_def createBase_QueryFetchProviderResponse_def partial_map_def option.map_comp o_def option.map_ident)

lemma create_QueryFetchProviderResponse_None [simp]: "create_QueryFetchProviderResponse None = createBase_QueryFetchProviderResponse"
  by (simp add: create_QueryFetchProviderResponse_def fromPartial_QueryFetchProviderResponse_def QueryFetchProviderResponse_empty_def createBase_QueryFetchProviderResponse_def partial_map_def)

sublocale wire_laws \<subseteq> QueryFetchProviderResponse_codec: message_codec L F out inp "encode_QueryFetchProviderResponse L" "QueryFetchProviderResponse_switch L" createBase_QueryFetchProviderResponse "wf_QueryFetchProviderResponse L"
proof unfold_locales
  show good: "good_sw (QueryFetchProviderResponse_switch L)"
    unfolding QueryFetchProviderResponse_switch_def by (intro good_swI fwd_rules)
  fix m assume "wf_QueryFetchProviderResponse L m"
  then show "codes (QueryFetchProviderResponse_switch L) (encode_QueryFetchProviderResponse L m) createBase_QueryFetchProviderResponse m"
    unfolding encode_QueryFetchProviderResponse_def wf_QueryFetchProviderResponse_def
    by (-)
      (rule codes_Cons codes_Nil [OF QueryFetchProviderResponse.equality] codec_rules
        codes_some [where tag = 10 and u = QueryFetchProviderResponse.provider_update and op = "submsg L (decode_Provider L)", OF good]
      | assumption | (simp add: QueryFetchProviderResponse_tags createBase_QueryFetchProviderResponse_def; fail))+
qed

sublocale wire_laws \<subseteq> QueryFetchProviderResponse_range: message_range L F out inp "QueryFetchProviderResponse_switch L" createBase_QueryFetchProviderResponse ok_QueryFetchProviderResponse
proof unfold_locales
  show "ok_QueryFetchProviderResponse createBase_QueryFetchProviderResponse" by (simp add: ok_QueryFetchProviderResponse_def createBase_QueryFetchProviderResponse_def)
  fix m tag assume "ok_QueryFetchProviderResponse m"
  then show "keeps ok_QueryFetchProviderResponse (QueryFetchProviderResponse_switch L tag m)"
    unfolding QueryFetchProviderResponse_switch_def by - (rule range_rules | (simp add: ok_QueryFetchProviderResponse_def; fail))+
qed

context wire_laws
begin

lemmas QueryFetchProviderResponse_carries [codec_rules] =
  QueryFetchProviderResponse_codec.opt_carries [folded decode_QueryFetchProviderResponse_def] QueryFetchProviderResponse_codec.list_carries [folded decode_QueryFetchProviderResponse_def]

lemmas QueryFetchProviderResponse_good [fwd_rules] = QueryFetchProviderResponse_codec.op_good [folded decode_QueryFetchProviderResponse_def]

lemmas QueryFetchProviderResponse_yields [range_rules] = QueryFetchProviderResponse_range.sub_range [folded decode_QueryFetchProviderResponse_def]

lemmas QueryFetchProviderResponse_roundtrip = QueryFetchProviderResponse_codec.roundtrip [folded decode_QueryFetchProviderResponse_def]

lemmas QueryFetchProviderResponse_returns = QueryFetchProviderResponse_codec.decode_returns [folded decode_QueryFetchProviderResponse_def]

lemmas QueryFetchProviderResponse_decoded = QueryFetchProviderResponse_range.decode_range [folded decode_QueryFetchProviderResponse_def]

end

interpretation QueryFetchProviderResponse_json: message_json toJSON_QueryFetchProviderResponse fromJSON_QueryFetchProviderResponse wfj_QueryFetchProviderResponse
proof unfold_locales
  fix h m
  assume "wfj_QueryFetchProviderResponse m"
  then show "json_rt (toJSON_QueryFetchProviderResponse h) (fromJSON_QueryFetchProviderResponse h) m"
    unfolding toJSON_QueryFetchProviderResponse_def fromJSON_QueryFetchProviderResponse_def wfj_QueryFetchProviderResponse_def
    by (-) (rule json_rtI json_rules | assumption | (simp; fail))+
qed

lemmas QueryFetchProviderResponse_json_rules [json_rules] = QueryFetchProviderResponse_json.json_field_rules

lemma QueryAllProviderRequest_tags:
  "QueryAllProviderRequest_switch L 10 m = readf (submsg L (decode_PageRequest L)) (\<lambda>v. m\<lparr>QueryAllProviderRequest.pagination := Some v\<rparr>)"
  by (simp_all add: QueryAllProviderRequest_switch_def when_tag_def)

lemma fromPartial_partial_of_QueryAllProviderRequest [simp]: "fromPartial_QueryAllProviderRequest (partial_of_QueryAllProviderRequest m) = m"
  by (simp add: fromPartial_QueryAllProviderRequest_def partial_of_QueryAllProviderRequest_def createBase_QueryAllProviderRequest_def partial_map_def option.map_comp o_def option.map_ident)

lemma create_QueryAllProviderRequest_None [simp]: "create_QueryAllProviderRequest None = createBase_QueryAllProviderRequest"
  by (simp add: create_QueryAllProviderRequest_def fromPartial_QueryAllProviderRequest_def QueryAllProviderRequest_empty_def createBase_QueryAllProviderRequest_def partial_map_def)

sublocale wire_laws \<subseteq> QueryAllProviderRequest_codec: message_codec L F out inp "encode_QueryAllProviderRequest L" "QueryAllProviderRequest_switch L" createBase_QueryAllProviderRequest "wf_QueryAllProviderRequest L"
proof unfold_locales
  show good: "good_sw (QueryAllProviderRequest_switch L)"
    unfolding QueryAllProviderRequest_switch_def by (intro good_swI fwd_rules)
  fix m assume "wf_QueryAllProviderRequest L m"
  then show "codes (QueryAllProviderRequest_switch L) (encode_QueryAllProviderRequest L m) createBase_QueryAllProviderRequest m"
    unfolding encode_QueryAllProviderRequest_def wf_QueryAllProviderRequest_def
    by (-)
      (rule codes_Cons codes_Nil [OF QueryAllProviderRequest.equality] codec_rules
        codes_some [where tag = 10 and u = QueryAllProviderRequest.pagination_update and op = "submsg L (decode_PageRequest L)", OF good]
      | assumption | (simp add: QueryAllProviderRequest_tags createBase_QueryAllProviderRequest_def; fail))+
qed

sublocale wire_laws \<subseteq> QueryAllProviderRequest_range: message_range L F out inp "QueryAllProviderRequest_switch L" createBase_QueryAllProviderRequest ok_QueryAllProviderRequest
proof unfold_locales
  show "ok_QueryAllProviderRequest createBase_QueryAllProviderRequest" by (simp add: ok_QueryAllProviderRequest_def createBase_QueryAllProviderRequest_def)
  fix m tag assume "ok_QueryAllProviderRequest m"
  then show "keeps ok_QueryAllProviderRequest (QueryAllProviderRequest_switch L tag m)"
    unfolding QueryAllProviderRequest_switch_def by - (rule range_rules | (simp add: ok_QueryAllProviderRequest_def; fail))+
qed

context wire_laws
begin

lemmas QueryAllProviderRequest_carries [codec_rules] =
  QueryAllProviderRequest_codec.opt_carries [folded decode_QueryAllProviderRequest_def] QueryAllProviderRequest_codec.list_carries [folded decode_QueryAllProviderRequest_def]

lemmas QueryAllProviderRequest_good [fwd_rules] = QueryAllProviderRequest_codec.op_good [folded decode_QueryAllProviderRequest_def]

lemmas QueryAllProviderRequest_yields [range_rules] = QueryAllProviderRequest_range.sub_range [folded decode_QueryAllProviderRequest_def]

lemmas QueryAllProviderRequest_roundtrip = QueryAllProviderRequest_codec.roundtrip [folded decode_QueryAllProviderRequest_def]

lemmas QueryAllProviderRequest_returns = QueryAllProviderRequest_codec.decode_returns [folded decode_QueryAllProviderRequest_def]

lemmas QueryAllProviderRequest_decoded = QueryAllProviderRequest_range.decode_range [folded decode_QueryAllProviderRequest_def]

end

interpretation QueryAllProviderRequest_json: message_json toJSON_QueryAllProviderRequest fromJSON_QueryAllProviderRequest wfj_QueryAllProviderRequest
proof unfold_locales
  fix h m
  assume "wfj_QueryAllProviderRequest m"
  then show "json_rt (toJSON_QueryAllProviderRequest h) (fromJSON_QueryAllProviderRequest h) m"
    unfolding toJSON_QueryAllProviderRequest_def fromJSON_QueryAllProviderRequest_def wfj_QueryAllProviderRequest_def
    by (-) (rule json_rtI json_rules | assumption | (simp; fail))+
qed

lemmas QueryAllProviderRequest_json_rules [json_rules] = QueryAllProviderRequest_json.json_field_rules

lemma QueryAllProviderResponse_tags:
  "QueryAllProviderResponse_switch L 10 m = readf (submsg L (decode_Provider L)) (\<lambda>v. m\<lparr>QueryAllProviderResponse.provider := QueryAllProviderResponse.provider m @ [v]\<rparr>)"
  "QueryAllProviderResponse_switch L 18 m = readf (submsg L (decode_PageResponse L)) (\<lambda>v. m\<lparr>QueryAllProviderResponse.pagination := Some v\<rparr>)"
  by (simp_all add: QueryAllProviderResponse_switch_def when_tag_def)

lemma fromPartial_partial_of_QueryAllProviderResponse [simp]: "fromPartial_QueryAllProviderResponse (partial_of_QueryAllProviderResponse m) = m"
  by (simp add: fromPartial_QueryAllProviderResponse_def partial_of_QueryAllProviderResponse_def createBase_QueryAllProviderResponse_def partial_map_def option.map_comp o_def option.map_ident)

lemma create_QueryAllProviderResponse_None [simp]: "create_QueryAllProviderResponse None = createBase_QueryAllProviderResponse"
  by (simp add: create_QueryAllProviderResponse_def fromPartial_QueryAllProviderResponse_def QueryAllProviderResponse_empty_def createBase_QueryAllProviderResponse_def partial_map_def)

sublocale wire_laws \<subseteq> QueryAllProviderResponse_codec: message_codec L F out inp "encode_QueryAllProviderResponse L" "QueryAllProviderResponse_switch L" createBase_QueryAllProviderResponse "wf_QueryAllProviderResponse L"
proof unfold_locales
  show good: "good_sw (QueryAllProviderResponse_switch L)"
    unfolding QueryAllProviderResponse_switch_def by (intro good_swI fwd_rules)
  fix m assume "wf_QueryAllProviderResponse L m"
  then show "codes (QueryAllProviderResponse_switch L) (encode_QueryAllProviderResponse L m) createBase_QueryAllProviderResponse m"
    unfolding encode_QueryAllProviderResponse_def wf_QueryAllProviderResponse_def
    by (elim conjE)
      (rule codes_Cons codes_Nil [OF QueryAllProviderResponse.equality] codec_rules
        codes_for [where tag = 10 and u = QueryAllProviderResponse.provider_update and op = "submsg L (decode_Provider L)", OF good]
        codes_some [where tag = 18 and u = QueryAllProviderResponse.pagination_update and op = "submsg L (decode_PageResponse L)", OF good]
      | assumption | (simp add: QueryAllProviderResponse_tags createBase_QueryAllProviderResponse_def; fail))+
qed

sublocale wire_laws \<subseteq> QueryAllProviderResponse_range: message_range L F out inp "QueryAllProviderResponse_switch L" createBase_QueryAllProviderResponse ok_QueryAllProviderResponse
proof unfold_locales
  show "ok_QueryAllProviderResponse createBase_QueryAllProviderResponse" by (simp add: ok_QueryAllProviderResponse_def createBase_QueryAllProviderResponse_def)
  fix m tag assume "ok_QueryAllProviderResponse m"
  then show "keeps ok_QueryAllProviderResponse (QueryAllProviderResponse_switch L tag m)"
    unfolding QueryAllProviderResponse_switch_def by - (rule range_rules | (simp add: ok_QueryAllProviderResponse_def; fail))+
qed

context wire_laws
begin

lemmas QueryAllProviderResponse_carries [codec_rules] =
  QueryAllProviderResponse_codec.opt_carries [folded decode_QueryAllProviderResponse_def] QueryAllProviderResponse_codec.list_carries [folded decode_QueryAllProviderResponse_def]

lemmas QueryAllProviderResponse_good [fwd_rules] = QueryAllProviderResponse_codec.op_good [folded decode_QueryAllProviderResponse_def]

lemmas QueryAllProviderResponse_yields [range_rules] = QueryAllProviderResponse_range.sub_range [folded decode_QueryAllProviderResponse_def]

lemmas QueryAllProviderResponse_roundtrip = QueryAllProviderResponse_codec.roundtrip [folded decode_QueryAllProviderResponse_def]

lemmas QueryAllProviderResponse_returns = QueryAllProviderResponse_codec.decode_returns [folded decode_QueryAllProviderResponse_def]

lemmas QueryAllProviderResponse_decoded = QueryAllProviderResponse_range.decode_range [folded decode_QueryAllProviderResponse_def]

end

interpretation QueryAllProviderResponse_json: message_json toJSON_QueryAllProviderResponse fromJSON_QueryAllProviderResponse wfj_QueryAllProviderResponse
proof unfold_locales
  fix h m
  assume "wfj_QueryAllProviderResponse m"
  then show "json_rt (toJSON_QueryAllProviderResponse h) (fromJSON_QueryAllProviderResponse h) m"
    unfolding toJSON_QueryAllProviderResponse_def fromJSON_QueryAllProviderResponse_def wfj_QueryAllProviderResponse_def
    by (elim conjE) (rule json_rtI json_rules | assumption | (simp; fail))+
qed

lemmas QueryAllProviderResponse_json_rules [json_rules] = QueryAllProviderResponse_json.json_field_rules

lemma QueryFetchContractRequest_tags:
  "QueryFetchContractRequest_switch L 8 m = readf (num64 (r_uint64 L)) (\<lambda>v. m\<lparr>QueryFetchContractRequest.contractId := v\<rparr>)"
  by (simp_all add: QueryFetchContractRequest_switch_def when_tag_def)

lemma fromPartial_partial_of_QueryFetchContractRequest [simp]: "fromPartial_QueryFetchContractRequest (partial_of_QueryFetchContractRequest m) = m"
  by (simp add: fromPartial_QueryFetchContractRequest_def partial_of_QueryFetchContractRequest_def createBase_QueryFetchContractRequest_def partial_map_def option.map_comp o_def option.map_ident)

lemma create_QueryFetchContractRequest_None [simp]: "create_QueryFetchContractRequest None = createBase_QueryFetchContractRequest"
  by (simp add: create_QueryFetchContractRequest_def fromPartial_QueryFetchContractRequest_def QueryFetchContractRequest_empty_def createBase_QueryFetchContractRequest_def partial_map_def)

sublocale wire_laws \<subseteq> QueryFetchContractRequest_codec: message_codec L F out inp "encode_QueryFetchContractRequest L" "QueryFetchContractRequest_switch L" createBase_QueryFetchContractRequest "wf_QueryFetchContractRequest L"
proof unfold_locales
  show good: "good_sw (QueryFetchContractRequest_switch L)"
    unfolding QueryFetchContractRequest_switch_def by (intro good_swI fwd_rules)
  fix m assume "wf_QueryFetchContractRequest L m"
  then show "codes (QueryFetchContractRequest_switch L) (encode_QueryFetchContractRequest L m) createBase_QueryFetchContractRequest m"
    unfolding encode_QueryFetchContractRequest_def wf_QueryFetchContractRequest_def
    by (-)
      (rule codes_Cons codes_Nil [OF QueryFetchContractRequest.equality] codec_rules
        codes_when [where tag = 8 and u = QueryFetchContractRequest.contractId_update and op = "num64 (r_uint64 L)", OF good]
      | assumption | (simp add: QueryFetchContractRequest_tags createBase_QueryFetchContractRequest_def; fail))+
qed

sublocale wire_laws \<subseteq> QueryFetchContractRequest_range: message_range L F out inp "QueryFetchContractRequest_switch L" createBase_QueryFetchContractRequest ok_QueryFetchContractRequest
proof unfold_locales
  show "ok_QueryFetchContractRequest createBase_QueryFetchContractRequest" by (simp add: ok_QueryFetchContractRequest_def createBase_QueryFetchContractRequest_def)
  fix m tag assume "ok_QueryFetchContractRequest m"
  then show "keeps ok_QueryFetchContractRequest (QueryFetchContractRequest_switch L tag m)"
    unfolding QueryFetchContractRequest_switch_def by - (rule range_rules | (simp add: ok_QueryFetchContractRequest_def; fail))+
qed

context wire_laws
begin

lemmas QueryFetchContractRequest_carries [codec_rules] =
  QueryFetchContractRequest_codec.opt_carries [folded decode_QueryFetchContractRequest_def] QueryFetchContractRequest_codec.list_carries [folded decode_QueryFetchContractRequest_def]

lemmas QueryFetchContractRequest_good [fwd_rules] = QueryFetchContractRequest_codec.op_good [folded decode_QueryFetchContractRequest_def]

lemmas QueryFetchContractRequest_yields [range_rules] = QueryFetchContractRequest_range.sub_range [folded decode_QueryFetchContractRequest_def]

lemmas QueryFetchContractRequest_roundtrip = QueryFetchContractRequest_codec.roundtrip [folded decode_QueryFetchContractRequest_def]

lemmas QueryFetchContractRequest_returns = QueryFetchContractRequest_codec.decode_returns [folded decode_QueryFetchContractRequest_def]

lemmas QueryFetchContractRequest_decoded = QueryFetchContractRequest_range.decode_range [folded decode_QueryFetchContractRequest_def]

end

interpretation QueryFetchContractRequest_json: message_json toJSON_QueryFetchContractRequest fromJSON_QueryFetchContractRequest wfj_QueryFetchContractRequest
proof unfold_locales
  fix h m
  assume "wfj_QueryFetchContractRequest m"
  then show "json_rt (toJSON_QueryFetchContractRequest h) (fromJSON_QueryFetchContractRequest h) m"
    unfolding toJSON_QueryFetchContractRequest_def fromJSON_QueryFetchContractRequest_def wfj_QueryFetchContractRequest_def
    by (-) (rule json_rtI json_rules | assumption | (simp; fail))+
qed

lemmas QueryFetchContractRequest_json_rules [json_rules] = QueryFetchContractRequest_json.json_field_rules

lemma QueryFetchContractResponse_tags:
  "QueryFetchContractResponse_switch L 10 m = readf (submsg L (decode_Contract L)) (\<lambda>v. m\<lparr>QueryFetchContractResponse.contract := Some v\<rparr>)"
  by (simp_all add: QueryFetchContractResponse_switch_def when_tag_def)

lemma fromPartial_partial_of_QueryFetchContractResponse [simp]: "fromPartial_QueryFetchContractResponse (partial_of_QueryFetchContractResponse m) = m"
  by (simp add: fromPartial_QueryFetchContractResponse_def partial_of_QueryFetchContractResponse_def createBase_QueryFetchContractResponse_def partial_map_def option.map_comp o_def option.map_ident)

lemma create_QueryFetchContractResponse_None [simp]: "create_QueryFetchContractResponse None = createBase_QueryFetchContractResponse"
  by (simp add: create_QueryFetchContractResponse_def fromPartial_QueryFetchContractResponse_def QueryFetchContractResponse_empty_def createBase_QueryFetchContractResponse_def partial_map_def)

sublocale wire_laws \<subseteq> QueryFetchContractResponse_codec: message_codec L F out inp "encode_QueryFetchContractResponse L" "QueryFetchContractResponse_switch L" createBase_QueryFetchContractResponse "wf_QueryFetchContractResponse L"
proof unfold_locales
  show good: "good_sw (QueryFetchContractResponse_switch L)"
    unfolding QueryFetchContractResponse_switch_def by (intro good_swI fwd_rules)
  fix m assume "wf_QueryFetchContractResponse L m"
  then show "codes (QueryFetchContractResponse_switch L) (encode_QueryFetchContractResponse L m) createBase_QueryFetchContractResponse m"
    unfolding encode_QueryFetchContractResponse_def wf_QueryFetchContractResponse_def
    by (-)
      (rule codes_Cons codes_Nil [OF QueryFetchContractResponse.equality] codec_rules
        codes_some [where tag = 10 and u = QueryFetchContractResponse.contract_update and op = "submsg L (decode_Contract L)", OF good]
      | assumption | (simp add: QueryFetchContractResponse_tags createBase_QueryFetchContractResponse_def; fail))+
qed

sublocale wire_laws \<subseteq> QueryFetchContractResponse_range: message_range L F out inp "QueryFetchContractResponse_switch L" createBase_QueryFetchContractResponse ok_QueryFetchContractResponse
proof unfold_locales
  show "ok_QueryFetchContractResponse createBase_QueryFetchContractResponse" by (simp add: ok_QueryFetchContractResponse_def createBase_QueryFetchContractResponse_def)
  fix m tag assume "ok_QueryFetchContractResponse m"
  then show "keeps ok_QueryFetchContractResponse (QueryFetchContractResponse_switch L tag m)"
    unfolding QueryFetchContractResponse_switch_def by - (rule range_rules | (simp add: ok_QueryFetchContractResponse_def; fail))+
qed

context wire_laws
begin

lemmas QueryFetchContractResponse_carries [codec_rules] =
  QueryFetchContractResponse_codec.opt_carries [folded decode_QueryFetchContractResponse_def] QueryFetchContractResponse_codec.list_carries [folded decode_QueryFetchContractResponse_def]

lemmas QueryFetchContractResponse_good [fwd_rules] = QueryFetchContractResponse_codec.op_good [folded decode_QueryFetchContractResponse_def]

lemmas QueryFetchContractResponse_yields [range_rules] = QueryFetchContractResponse_range.sub_range [folded decode_QueryFetchContractResponse_def]

lemmas QueryFetchContractResponse_roundtrip = QueryFetchContractResponse_codec.roundtrip [folded decode_QueryFetchContractResponse_def]

lemmas QueryFetchContractResponse_returns = QueryFetchContractResponse_codec.decode_returns [folded decode_QueryFetchContractResponse_def]

lemmas QueryFetchContractResponse_decoded = QueryFetchContractResponse_range.decode_range [folded decode_QueryFetchContractResponse_def]

end

interpretation QueryFetchContractResponse_json: message_json toJSON_QueryFetchContractResponse fromJSON_QueryFetchContractResponse wfj_QueryFetchContractResponse
proof unfold_locales
  fix h m
  assume "wfj_QueryFetchContractResponse m"
  then show "json_rt (toJSON_QueryFetchContractResponse h) (fromJSON_QueryFetchContractResponse h) m"
    unfolding toJSON_QueryFetchContractResponse_def fromJSON_QueryFetchContractResponse_def wfj_QueryFetchContractResponse_def
    by (-) (rule json_rtI json_rules | assumption | (simp; fail))+
qed

lemmas QueryFetchContractResponse_json_rules [json_rules] = QueryFetchContractResponse_json.json_field_rules

lemma QueryAllContractRequest_tags:
  "QueryAllContractRequest_switch L 10 m = readf (submsg L (decode_PageRequest L)) (\<lambda>v. m\<lparr>QueryAllContractRequest.pagination := Some v\<rparr>)"
  by (simp_all add: QueryAllContractRequest_switch_def when_tag_def)

lemma fromPartial_partial_of_QueryAllContractRequest [simp]: "fromPartial_QueryAllContractRequest (partial_of_QueryAllContractRequest m) = m"
  by (simp add: fromPartial_QueryAllContractRequest_def partial_of_QueryAllContractRequest_def createBase_QueryAllContractRequest_def partial_map_def option.map_comp o_def option.map_ident)

lemma create_QueryAllContractRequest_None [simp]: "create_QueryAllContractRequest None = createBase_QueryAllContractRequest"
  by (simp add: create_QueryAllContractRequest_def fromPartial_QueryAllContractRequest_def QueryAllContractRequest_empty_def createBase_QueryAllContractRequest_def partial_map_def)

sublocale wire_laws \<subseteq> QueryAllContractRequest_codec: message_codec L F out inp "encode_QueryAllContractRequest L" "QueryAllContractRequest_switch L" createBase_QueryAllContractRequest "wf_QueryAllContractRequest L"
proof unfold_locales
  show good: "good_sw (QueryAllContractRequest_switch L)"
    unfolding QueryAllContractRequest_switch_def by (intro good_swI fwd_rules)
  fix m assume "wf_QueryAllContractRequest L m"
  then show "codes (QueryAllContractRequest_switch L) (encode_QueryAllContractRequest L m) createBase_QueryAllContractRequest m"
    unfolding encode_QueryAllContractRequest_def wf_QueryAllContractRequest_def
    by (-)
      (rule codes_Cons codes_Nil [OF QueryAllContractRequest.equality] codec_rules
        codes_some [where tag = 10 and u = QueryAllContractRequest.pagination_update and op = "submsg L (decode_PageRequest L)", OF good]
      | assumption | (simp add: QueryAllContractRequest_tags createBase_QueryAllContractRequest_def; fail))+
qed

sublocale wire_laws \<subseteq> QueryAllContractRequest_range: message_range L F out inp "QueryAllContractRequest_switch L" createBase_QueryAllContractRequest ok_QueryAllContractRequest
proof unfold_locales
  show "ok_QueryAllContractRequest createBase_QueryAllContractRequest" by (simp add: ok_QueryAllContractRequest_def createBase_QueryAllContractRequest_def)
  fix m tag assume "ok_QueryAllContractRequest m"
  then show "keeps ok_QueryAllContractRequest (QueryAllContractRequest_switch L tag m)"
    unfolding QueryAllContractRequest_switch_def by - (rule range_rules | (simp add: ok_QueryAllContractRequest_def; fail))+
qed

context wire_laws
begin

lemmas QueryAllContractRequest_carries [codec_rules] =
  QueryAllContractRequest_codec.opt_carries [folded decode_QueryAllContractRequest_def] QueryAllContractRequest_codec.list_carries [folded decode_QueryAllContractRequest_def]

lemmas QueryAllContractRequest_good [fwd_rules] = QueryAllContractRequest_codec.op_good [folded decode_QueryAllContractRequest_def]

lemmas QueryAllContractRequest_yields [range_rules] = QueryAllContractRequest_range.sub_range [folded decode_QueryAllContractRequest_def]

lemmas QueryAllContractRequest_roundtrip = QueryAllContractRequest_codec.roundtrip [folded decode_QueryAllContractRequest_def]

lemmas QueryAllContractRequest_returns = QueryAllContractRequest_codec.decode_returns [folded decode_QueryAllContractRequest_def]

lemmas QueryAllContractRequest_decoded = QueryAllContractRequest_range.decode_range [folded decode_QueryAllContractRequest_def]

end

interpretation QueryAllContractRequest_json: message_json toJSON_QueryAllContractRequest fromJSON_QueryAllContractRequest wfj_QueryAllContractRequest
proof unfold_locales
  fix h m
  assume "wfj_QueryAllContractRequest m"
  then show "json_rt (toJSON_QueryAllContractRequest h) (fromJSON_QueryAllContractRequest h) m"
    unfolding toJSON_QueryAllContractRequest_def fromJSON_QueryAllContractRequest_def wfj_QueryAllContractRequest_def
    by (-) (rule json_rtI json_rules | assumption | (simp; fail))+
qed

lemmas QueryAllContractRequest_json_rules [json_rules] = QueryAllContractRequest_json.json_field_rules

lemma QueryAllContractResponse_tags:
  "QueryAllContractResponse_switch L 10 m = readf (submsg L (decode_Contract L)) (\<lambda>v. m\<lparr>QueryAllContractResponse.contract := QueryAllContractResponse.contract m @ [v]\<rparr>)"
  "QueryAllContractResponse_switch L 18 m = readf (submsg L (decode_PageResponse L)) (\<lambda>v. m\<lparr>QueryAllContractResponse.pagination := Some v\<rparr>)"
  by (simp_all add: QueryAllContractResponse_switch_def when_tag_def)

lemma fromPartial_partial_of_QueryAllContractResponse [simp]: "fromPartial_QueryAllContractResponse (partial_of_QueryAllContractResponse m) = m"
  by (simp add: fromPartial_QueryAllContractResponse_def partial_of_QueryAllContractResponse_def createBase_QueryAllContractResponse_def partial_map_def option.map_comp o_def option.map_ident)

lemma create_QueryAllContractResponse_None [simp]: "create_QueryAllContractResponse None = createBase_QueryAllContractResponse"
  by (simp add: create_QueryAllContractResponse_def fromPartial_QueryAllContractResponse_def QueryAllContractResponse_empty_def createBase_QueryAllContractResponse_def partial_map_def)

sublocale wire_laws \<subseteq> QueryAllContractResponse_codec: message_codec L F out inp "encode_QueryAllContractResponse L" "QueryAllContractResponse_switch L" createBase_QueryAllContractResponse "wf_QueryAllContractResponse L"
proof unfold_locales
  show good: "good_sw (QueryAllContractResponse_switch L)"
    unfolding QueryAllContractResponse_switch_def by (intro good_swI fwd_rules)
  fix m assume "wf_QueryAllContractResponse L m"
  then show "codes (QueryAllContractResponse_switch L) (encode_QueryAllContractResponse L m) createBase_QueryAllContractResponse m"
    unfolding encode_QueryAllContractResponse_def wf_QueryAllContractResponse_def
    by (elim conjE)
      (rule codes_Cons codes_Nil [OF QueryAllContractResponse.equality] codec_rules
        codes_for [where tag = 10 and u = QueryAllContractResponse.contract_update and op = "submsg L (decode_Contract L)", OF good]
        codes_some [where tag = 18 and u = QueryAllContractResponse.pagination_update and op = "submsg L (decode_PageResponse L)", OF good]
      | assumption | (simp add: QueryAllContractResponse_tags createBase_QueryAllContractResponse_def; fail))+
qed

sublocale wire_laws \<subseteq> QueryAllContractResponse_range: message_range L F out inp "QueryAllContractResponse_switch L" createBase_QueryAllContractResponse ok_QueryAllContractResponse
proof unfold_locales
  show "ok_QueryAllContractResponse createBase_QueryAllContractResponse" by (simp add: ok_QueryAllContractResponse_def createBase_QueryAllContractResponse_def)
  fix m tag assume "ok_QueryAllContractResponse m"
  then show "keeps ok_QueryAllContractResponse (QueryAllContractResponse_switch L tag m)"
    unfolding QueryAllContractResponse_switch_def by - (rule range_rules | (simp add: ok_QueryAllContractResponse_def; fail))+
qed

context wire_laws
begin

lemmas QueryAllContractResponse_carries [codec_rules] =
  QueryAllContractResponse_codec.opt_carries [folded decode_QueryAllContractResponse_def] QueryAllContractResponse_codec.list_carries [folded decode_QueryAllContractResponse_def]

lemmas QueryAllContractResponse_good [fwd_rules] = QueryAllContractResponse_codec.op_good [folded decode_QueryAllContractResponse_def]

lemmas QueryAllContractResponse_yields [range_rules] = QueryAllContractResponse_range.sub_range [folded decode_QueryAllContractResponse_def]

lemmas QueryAllContractResponse_roundtrip = QueryAllContractResponse_codec.roundtrip [folded decode_QueryAllContractResponse_def]

lemmas QueryAllContractResponse_returns = QueryAllContractResponse_codec.decode_returns [folded decode_QueryAllContractResponse_def]

lemmas QueryAllContractResponse_decoded = QueryAllContractResponse_range.decode_range [folded decode_QueryAllContractResponse_def]

end

interpretation QueryAllContractResponse_json: message_json toJSON_QueryAllContractResponse fromJSON_QueryAllContractResponse wfj_QueryAllContractResponse
proof unfold_locales
  fix h m
  assume "wfj_QueryAllContractResponse m"
  then show "json_rt (toJSON_QueryAllContractResponse h) (fromJSON_QueryAllContractResponse h) m"
    unfolding toJSON_QueryAllContractResponse_def fromJSON_QueryAllContractResponse_def wfj_QueryAllContractResponse_def
    by (elim conjE) (rule json_rtI json_rules | assumption | (simp; fail))+
qed

lemmas QueryAllContractResponse_json_rules [json_rules] = QueryAllContractResponse_json.json_field_rules

lemma QueryActiveContractRequest_tags:
  "QueryActiveContractRequest_switch L 10 m = readf (r_string L) (\<lambda>v. m\<lparr>QueryActiveContractRequest.provider := v\<rparr>)"
  "QueryActiveContractRequest_switch L 18 m = readf (r_string L) (\<lambda>v. m\<lparr>QueryActiveContractRequest.service := v\<rparr>)"
  "QueryActiveContractRequest_switch L 26 m = readf (r_string L) (\<lambda>v. m\<lparr>QueryActiveContractRequest.spender := v\<rparr>)"
  by (simp_all add: QueryActiveContractRequest_switch_def when_tag_def)

lemma fromPartial_partial_of_QueryActiveContractRequest [simp]: "fromPartial_QueryActiveContractRequest (partial_of_QueryActiveContractRequest m) = m"
  by (simp add: fromPartial_QueryActiveContractRequest_def partial_of_QueryActiveContractRequest_def createBase_QueryActiveContractRequest_def partial_map_def option.map_comp o_def option.map_ident)

lemma create_QueryActiveContractRequest_None [simp]: "create_QueryActiveContractRequest None = createBase_QueryActiveContractRequest"
  by (simp add: create_QueryActiveContractRequest_def fromPartial_QueryActiveContractRequest_def QueryActiveContractRequest_empty_def createBase_QueryActiveContractRequest_def partial_map_def)

sublocale wire_laws \<subseteq> QueryActiveContractRequest_codec: message_codec L F out inp "encode_QueryActiveContractRequest L" "QueryActiveContractRequest_switch L" createBase_QueryActiveContractRequest "wf_QueryActiveContractRequest L"
proof unfold_locales
  show good: "good_sw (QueryActiveContractRequest_switch L)"
    unfolding QueryActiveContractRequest_switch_def by (intro good_swI fwd_rules)
  fix m assume "wf_QueryActiveContractRequest L m"
  then show "codes (QueryActiveContractRequest_switch L) (encode_QueryActiveContractRequest L m) createBase_QueryActiveContractRequest m"
    unfolding encode_QueryActiveContractRequest_def wf_QueryActiveContractRequest_def
    by (elim conjE)
      (rule codes_Cons codes_Nil [OF QueryActiveContractRequest.equality] codec_rules
        codes_when [where tag = 10 and u = QueryActiveContractRequest.provider_update and op = "r_string L", OF good]
        codes_when [where tag = 18 and u = QueryActiveContractRequest.service_update and op = "r_string L", OF good]
        codes_when [where tag = 26 and u = QueryActiveContractRequest.spender_update and op = "r_string L", OF good]
      | assumption | (simp add: QueryActiveContractRequest_tags createBase_QueryActiveContractRequest_def; fail))+
qed

sublocale wire_laws \<subseteq> QueryActiveContractRequest_range: message_range L F out inp "QueryActiveContractRequest_switch L" createBase_QueryActiveContractRequest ok_QueryActiveContractRequest
proof unfold_locales
  show "ok_QueryActiveContractRequest createBase_QueryActiveContractRequest" by (simp add: ok_QueryActiveContractRequest_def createBase_QueryActiveContractRequest_def)
  fix m tag assume "ok_QueryActiveContractRequest m"
  then show "keeps ok_QueryActiveContractRequest (QueryActiveContractRequest_switch L tag m)"
    unfolding QueryActiveContractRequest_switch_def by - (rule range_rules | (simp add: ok_QueryActiveContractRequest_def; fail))+
qed

context wire_laws
begin

lemmas QueryActiveContractRequest_carries [codec_rules] =
  QueryActiveContractRequest_codec.opt_carries [folded decode_QueryActiveContractRequest_def] QueryActiveContractRequest_codec.list_carries [folded decode_QueryActiveContractRequest_def]

lemmas QueryActiveContractRequest_good [fwd_rules] = QueryActiveContractRequest_codec.op_good [folded decode_QueryActiveContractRequest_def]

lemmas QueryActiveContractRequest_yields [range_rules] = QueryActiveContractRequest_range.sub_range [folded decode_QueryActiveContractRequest_def]

lemmas QueryActiveContractRequest_roundtrip = QueryActiveContractRequest_codec.roundtrip [folded decode_QueryActiveContractRequest_def]

lemmas QueryActiveContractRequest_returns = QueryActiveContractRequest_codec.decode_returns [folded decode_QueryActiveContractRequest_def]

lemmas QueryActiveContractRequest_decoded = QueryActiveContractRequest_range.decode_range [folded decode_QueryActiveContractRequest_def]

end

interpretation QueryActiveContractRequest_json: message_json toJSON_QueryActiveContractRequest fromJSON_QueryActiveContractRequest wfj_QueryActiveContractRequest
proof unfold_locales
  fix h m
  assume "wfj_QueryActiveContractRequest m"
  then show "json_rt (toJSON_QueryActiveContractRequest h) (fromJSON_QueryActiveContractRequest h) m"
    unfolding toJSON_QueryActiveContractRequest_def fromJSON_QueryActiveContractRequest_def wfj_QueryActiveContractRequest_def
    by (-) (rule json_rtI json_rules | assumption | (simp; fail))+
qed

lemmas QueryActiveContractRequest_json_rules [json_rules] = QueryActiveContractRequest_json.json_field_rules

lemma QueryActiveContractResponse_tags:
  "QueryActiveContractResponse_switch L 10 m = readf (submsg L (decode_Contract L)) (\<lambda>v. m\<lparr>QueryActiveContractResponse.contract := Some v\<rparr>)"
  by (simp_all add: QueryActiveContractResponse_switch_def when_tag_def)

lemma fromPartial_partial_of_QueryActiveContractResponse [simp]: "fromPartial_QueryActiveContractResponse (partial_of_QueryActiveContractResponse m) = m"
  by (simp add: fromPartial_QueryActiveContractResponse_def partial_of_QueryActiveContractResponse_def createBase_QueryActiveContractResponse_def partial_map_def option.map_comp o_def option.map_ident)

lemma create_QueryActiveContractResponse_None [simp]: "create_QueryActiveContractResponse None = createBase_QueryActiveContractResponse"
  by (simp add: create_QueryActiveContractResponse_def fromPartial_QueryActiveContractResponse_def QueryActiveContractResponse_empty_def createBase_QueryActiveContractResponse_def partial_map_def)

sublocale wire_laws \<subseteq> QueryActiveContractResponse_codec: message_codec L F out inp "encode_QueryActiveContractResponse L" "QueryActiveContractResponse_switch L" createBase_QueryActiveContractResponse "wf_QueryActiveContractResponse L"
proof unfold_locales
  show good: "good_sw (QueryActiveContractResponse_switch L)"
    unfolding QueryActiveContractResponse_switch_def by (intro good_swI fwd_rules)
  fix m assume "wf_QueryActiveContractResponse L m"
  then show "codes (QueryActiveContractResponse_switch L) (encode_QueryActiveContractResponse L m) createBase_QueryActiveContractResponse m"
    unfolding encode_QueryActiveContractResponse_def wf_QueryActiveContractResponse_def
    by (-)
      (rule codes_Cons codes_Nil [OF QueryActiveContractResponse.equality] codec_rules
        codes_some [where tag = 10 and u = QueryActiveContractResponse.contract_update and op = "submsg L (decode_Contract L)", OF good]
      | assumption | (simp add: QueryActiveContractResponse_tags createBase_QueryActiveContractResponse_def; fail))+
qed

sublocale wire_laws \<subseteq> QueryActiveContractResponse_range: message_range L F out inp "QueryActiveContractResponse_switch L" createBase_QueryActiveContractResponse ok_QueryActiveContractResponse
proof unfold_locales
  show "ok_QueryActiveContractResponse createBase_QueryActiveContractResponse" by (simp add: ok_QueryActiveContractResponse_def createBase_QueryActiveContractResponse_def)
  fix m tag assume "ok_QueryActiveContractResponse m"
  then show "keeps ok_QueryActiveContractResponse (QueryActiveContractResponse_switch L tag m)"
    unfolding QueryActiveContractResponse_switch_def by - (rule range_rules | (simp add: ok_QueryActiveContractResponse_def; fail))+
qed

context wire_laws
begin

lemmas QueryActiveContractResponse_carries [codec_rules] =
  QueryActiveContractResponse_codec.opt_carries [folded decode_QueryActiveContractResponse_def] QueryActiveContractResponse_codec.list_carries [folded decode_QueryActiveContractResponse_def]

lemmas QueryActiveContractResponse_good [fwd_rules] = QueryActiveContractResponse_codec.op_good [folded decode_QueryActiveContractResponse_def]

lemmas QueryActiveContractResponse_yields [range_rules] = QueryActiveContractResponse_range.sub_range [folded decode_QueryActiveContractResponse_def]

lemmas QueryActiveContractResponse_roundtrip = QueryActiveContractResponse_codec.roundtrip [folded decode_QueryActiveContractResponse_def]

lemmas QueryActiveContractResponse_returns = QueryActiveContractResponse_codec.decode_returns [folded decode_QueryActiveContractResponse_def]

lemmas QueryActiveContractResponse_decoded = QueryActiveContractResponse_range.decode_range [folded decode_QueryActiveContractResponse_def]

end

interpretation QueryActiveContractResponse_json: message_json toJSON_QueryActiveContractResponse fromJSON_QueryActiveContractResponse wfj_QueryActiveContractResponse
proof unfold_locales
  fix h m
  assume "wfj_QueryActiveContractResponse m"
  then show "json_rt (toJSON_QueryActiveContractResponse h) (fromJSON_QueryActiveContractResponse h) m"
    unfolding toJSON_QueryActiveContractResponse_def fromJSON_QueryActiveContractResponse_def wfj_QueryActiveContractResponse_def
    by (-) (rule json_rtI json_rules | assumption | (simp; fail))+
qed

lemmas QueryActiveContractResponse_json_rules [json_rules] = QueryActiveContractResponse_json.json_field_rules


end
