(* ===== verification/ClaimMsgs.thy ===== *)
theory ClaimMsgs
  imports Timestamps
begin

text \<open>
  The records of the claim module: claim records with the enumerations of chains and actions
  (\<open>arkeo/claim/claim_record.ts\<close>), the module parameters with their start date (\<open>arkeo/claim/params.ts\<close>)
  and the genesis state (\<open>arkeo/claim/genesis.ts\<close>).
\<close>


section \<open>arkeo/claim/claim_record.ts\<close>

type_synonym Action = number

definition Action_ACTION_CLAIM :: Action where
  "Action_ACTION_CLAIM = Num 0"

definition Action_ACTION_VOTE :: Action where
  "Action_ACTION_VOTE = Num 1"

definition Action_ACTION_DELEGATE :: Action where
  "Action_ACTION_DELEGATE = Num 2"

definition Action_UNRECOGNIZED :: Action where
  "Action_UNRECOGNIZED = Num (- 1)"

definition actionFromJSON :: "jsval \<Rightarrow> Action" where
  "actionFromJSON object =
    (if object = JNumber (Num 0) \<or> object = JString (js ''ACTION_CLAIM'')
       then Action_ACTION_CLAIM
     else if object = JNumber (Num 1) \<or> object = JString (js ''ACTION_VOTE'')
       then Action_ACTION_VOTE
     else if object = JNumber (Num 2) \<or> object = JString (js ''ACTION_DELEGATE'')
       then Action_ACTION_DELEGATE
     else Action_UNRECOGNIZED)"

definition actionToJSON :: "Action \<Rightarrow> jsstring" where
  "actionToJSON object =
    (if object = Action_ACTION_CLAIM then js ''ACTION_CLAIM''
     else if object = Action_ACTION_VOTE then js ''ACTION_VOTE''
     else if object = Action_ACTION_DELEGATE then js ''ACTION_DELEGATE''
     else js ''UNRECOGNIZED'')"

text \<open>The values the schema names, and the one \<open>fromJSON\<close> maps the others to.\<close>

definition Action_known :: "Action \<Rightarrow> bool" where
  "Action_known n \<longleftrightarrow> n \<in> {Action_ACTION_CLAIM, Action_ACTION_VOTE, Action_ACTION_DELEGATE, Action_UNRECOGNIZED}"

type_synonym Chain = number

definition Chain_ARKEO :: Chain where
  "Chain_ARKEO = Num 0"

definition Chain_ETHEREUM :: Chain where
  "Chain_ETHEREUM = Num 1"

definition Chain_UNRECOGNIZED :: Chain where
  "Chain_UNRECOGNIZED = Num (- 1)"

definition chainFromJSON :: "jsval \<Rightarrow> Chain" where
  "chainFromJSON object =
    (if object = JNumber (Num 0) \<or> object = JString (js ''ARKEO'')
       then Chain_ARKEO
     else if object = JNumber (Num 1) \<or> object = JString (js ''ETHEREUM'')
       then Chain_ETHEREUM
     else Chain_UNRECOGNIZED)"

definition chainToJSON :: "Chain \<Rightarrow> jsstring" where
  "chainToJSON object =
    (if object = Chain_ARKEO then js ''ARKEO''
     else if object = Chain_ETHEREUM then js ''ETHEREUM''
     else js ''UNRECOGNIZED'')"

text \<open>The values the schema names, and the one \<open>fromJSON\<close> maps the others to.\<close>

definition Chain_known :: "Chain \<Rightarrow> bool" where
  "Chain_known n \<longleftrightarrow> n \<in> {Chain_ARKEO, Chain_ETHEREUM, Chain_UNRECOGNIZED}"

subsection \<open>ClaimRecord\<close>

record ClaimRecord =
  chain :: Chain
  address :: jsstring
  amountClaim :: "Coin option"
  amountVote :: "Coin option"
  amountDelegate :: "Coin option"
  isTransferable :: bool

definition createBase_ClaimRecord :: ClaimRecord where
  "createBase_ClaimRecord = \<lparr>ClaimRecord.chain = Num 0,
     ClaimRecord.address = [],
     ClaimRecord.amountClaim = None,
     ClaimRecord.amountVote = None,
     ClaimRecord.amountDelegate = None,
     ClaimRecord.isTransferable = False\<rparr>"

definition encode_ClaimRecord :: "('w, 'r) wire \<Rightarrow> ClaimRecord \<Rightarrow> 'w \<Rightarrow> 'w result" where
  "encode_ClaimRecord L message = seqE
    [whenE (ClaimRecord.chain message \<noteq> Num 0) (seqE [w_uint32 L 8, w_int32 L (ClaimRecord.chain message)]),
     whenE (ClaimRecord.address message \<noteq> []) (seqE [w_uint32 L 18, w_string L (ClaimRecord.address message)]),
     someE (ClaimRecord.amountClaim message) (\<lambda>v. seqE [w_uint32 L 26, w_fork L, encode_Coin L v, w_join L]),
     someE (ClaimRecord.amountVote message) (\<lambda>v. seqE [w_uint32 L 34, w_fork L, encode_Coin L v, w_join L]),
     someE (ClaimRecord.amountDelegate message) (\<lambda>v. seqE [w_uint32 L 42, w_fork L, encode_Coin L v, w_join L]),
     whenE (ClaimRecord.isTransferable message \<noteq> False) (seqE [w_uint32 L 48, w_bool L (ClaimRecord.isTransferable message)])]"

definition ClaimRecord_switch :: "('w, 'r) wire \<Rightarrow> u32 \<Rightarrow> ClaimRecord \<Rightarrow> (ClaimRecord, 'r) action" where
  "ClaimRecord_switch L tag message = js_switch (drop_bit 3 tag)
    [(1, when_tag tag 8 (readf (num32 (r_int32 L)) (\<lambda>v. message\<lparr>ClaimRecord.chain := v\<rparr>))),
     (2, when_tag tag 18 (readf (r_string L) (\<lambda>v. message\<lparr>ClaimRecord.address := v\<rparr>))),
     (3, when_tag tag 26 (readf (submsg L (decode_Coin L)) (\<lambda>v. message\<lparr>ClaimRecord.amountClaim := Some v\<rparr>))),
     (4, when_tag tag 34 (readf (submsg L (decode_Coin L)) (\<lambda>v. message\<lparr>ClaimRecord.amountVote := Some v\<rparr>))),
     (5, when_tag tag 42 (readf (submsg L (decode_Coin L)) (\<lambda>v. message\<lparr>ClaimRecord.amountDelegate := Some v\<rparr>))),
     (6, when_tag tag 48 (readf (r_bool L) (\<lambda>v. message\<lparr>ClaimRecord.isTransferable := v\<rparr>)))]
    break_out"

definition decode_ClaimRecord :: "('w, 'r) wire \<Rightarrow> 'r input \<Rightarrow> nat option \<Rightarrow> (ClaimRecord \<times> 'r) result" where
  "decode_ClaimRecord L = decode_msg L (ClaimRecord_switch L) createBase_ClaimRecord"

definition fromJSON_ClaimRecord :: "host \<Rightarrow> jsval \<Rightarrow> ClaimRecord result" where
  "fromJSON_ClaimRecord h object =
     bindE (fieldE object ''chain'' (enumE chainFromJSON) (Num 0)) (\<lambda>v_chain.
     bindE (fieldE object ''address'' (stringE h) []) (\<lambda>v_address.
     bindE (optE object ''amountClaim'' (fromJSON_Coin h)) (\<lambda>v_amountClaim.
     bindE (optE object ''amountVote'' (fromJSON_Coin h)) (\<lambda>v_amountVote.
     bindE (optE object ''amountDelegate'' (fromJSON_Coin h)) (\<lambda>v_amountDelegate.
     bindE (fieldE object ''isTransferable'' booleanE False) (\<lambda>v_isTransferable.
     Inr \<lparr>ClaimRecord.chain = v_chain, ClaimRecord.address = v_address, ClaimRecord.amountClaim = v_amountClaim, ClaimRecord.amountVote = v_amountVote, ClaimRecord.amountDelegate = v_amountDelegate, ClaimRecord.isTransferable = v_isTransferable\<rparr>))))))"

definition toJSON_ClaimRecord :: "host \<Rightarrow> ClaimRecord \<Rightarrow> jsval result" where
  "toJSON_ClaimRecord h message = objE
    [jfieldE (ClaimRecord.chain message \<noteq> Num 0) ''chain'' (Inr (JString (chainToJSON (ClaimRecord.chain message)))),
     jfieldE (ClaimRecord.address message \<noteq> []) ''address'' (Inr (JString (ClaimRecord.address message))),
     joptE ''amountClaim'' (toJSON_Coin h) (ClaimRecord.amountClaim message),
     joptE ''amountVote'' (toJSON_Coin h) (ClaimRecord.amountVote message),
     joptE ''amountDelegate'' (toJSON_Coin h) (ClaimRecord.amountDelegate message),
     jfieldE (ClaimRecord.isTransferable message \<noteq> False) ''isTransferable'' (Inr (JBool (ClaimRecord.isTransferable message)))]"

record ClaimRecord_Partial =
  chain :: "Chain option"
  address :: "jsstring option"
  amountClaim :: "Coin_Partial option"
  amountVote :: "Coin_Partial option"
  amountDelegate :: "Coin_Partial option"
  isTransferable :: "bool option"

definition ClaimRecord_empty :: ClaimRecord_Partial where
  "ClaimRecord_empty = \<lparr>ClaimRecord_Partial.chain = None, ClaimRecord_Partial.address = None, ClaimRecord_Partial.amountClaim = None, ClaimRecord_Partial.amountVote = None, ClaimRecord_Partial.amountDelegate = None, ClaimRecord_Partial.isTransferable = None\<rparr>"

definition fromPartial_ClaimRecord :: "ClaimRecord_Partial \<Rightarrow> ClaimRecord" where
  "fromPartial_ClaimRecord object = createBase_ClaimRecord\<lparr>ClaimRecord.chain := nullish (ClaimRecord_Partial.chain object) (Num 0),
     ClaimRecord.address := nullish (ClaimRecord_Partial.address object) [],
     ClaimRecord.amountClaim := map_option fromPartial_Coin (ClaimRecord_Partial.amountClaim object),
     ClaimRecord.amountVote := map_option fromPartial_Coin (ClaimRecord_Partial.amountVote object),
     ClaimRecord.amountDelegate := map_option fromPartial_Coin (ClaimRecord_Partial.amountDelegate object),
     ClaimRecord.isTransferable := nullish (ClaimRecord_Partial.isTransferable object) False\<rparr>"

definition create_ClaimRecord :: "ClaimRecord_Partial option \<Rightarrow> ClaimRecord" where
  "create_ClaimRecord base = fromPartial_ClaimRecord (nullish base ClaimRecord_empty)"

text \<open>A partial message that sets every field.\<close>

definition partial_of_ClaimRecord :: "ClaimRecord \<Rightarrow> ClaimRecord_Partial" where
  "partial_of_ClaimRecord m =
     \<lparr>ClaimRecord_Partial.chain = Some (ClaimRecord.chain m),
      ClaimRecord_Partial.address = Some (ClaimRecord.address m),
      ClaimRecord_Partial.amountClaim = map_option partial_of_Coin (ClaimRecord.amountClaim m),
      ClaimRecord_Partial.amountVote = map_option partial_of_Coin (ClaimRecord.amountVote m),
      ClaimRecord_Partial.amountDelegate = map_option partial_of_Coin (ClaimRecord.amountDelegate m),
      ClaimRecord_Partial.isTransferable = Some (ClaimRecord.isTransferable m)\<rparr>"

definition ok_ClaimRecord :: "ClaimRecord \<Rightarrow> bool" where
  "ok_ClaimRecord m \<longleftrightarrow> int32_num (ClaimRecord.chain m)
     \<and> pred_option ok_Coin (ClaimRecord.amountClaim m)
     \<and> pred_option ok_Coin (ClaimRecord.amountVote m)
     \<and> pred_option ok_Coin (ClaimRecord.amountDelegate m)"

definition wf_ClaimRecord :: "('w, 'r) wire \<Rightarrow> ClaimRecord \<Rightarrow> bool" where
  "wf_ClaimRecord L m \<longleftrightarrow> int32_num (ClaimRecord.chain m)
     \<and> wire_string (ClaimRecord.address m)
     \<and> pred_option (\<lambda>v. wf_Coin L v \<and> fits L (encode_Coin L v)) (ClaimRecord.amountClaim m)
     \<and> pred_option (\<lambda>v. wf_Coin L v \<and> fits L (encode_Coin L v)) (ClaimRecord.amountVote m)
     \<and> pred_option (\<lambda>v. wf_Coin L v \<and> fits L (encode_Coin L v)) (ClaimRecord.amountDelegate m)"

definition wfj_ClaimRecord :: "ClaimRecord \<Rightarrow> bool" where
  "wfj_ClaimRecord m \<longleftrightarrow> Chain_known (ClaimRecord.chain m)
     \<and> pred_option wfj_Coin (ClaimRecord.amountClaim m)
     \<and> pred_option wfj_Coin (ClaimRecord.amountVote m)
     \<and> pred_option wfj_Coin (ClaimRecord.amountDelegate m)"


section \<open>arkeo/claim/params.ts\<close>

subsection \<open>claim_Params\<close>

record claim_Params =
  airdropStartTime :: "number option"
  durationUntilDecay :: "Duration option"
  durationOfDecay :: "Duration option"
  claimDenom :: jsstring
  initialGasAmount :: "Coin option"

definition createBase_claim_Params :: claim_Params where
  "createBase_claim_Params = \<lparr>claim_Params.airdropStartTime = None,
     claim_Params.durationUntilDecay = None,
     claim_Params.durationOfDecay = None,
     claim_Params.claimDenom = [],
     claim_Params.initialGasAmount = None\<rparr>"

definition encode_claim_Params :: "('w, 'r) wire \<Rightarrow> claim_Params \<Rightarrow> 'w \<Rightarrow> 'w result" where
  "encode_claim_Params L message = seqE
    [someE (claim_Params.airdropStartTime message) (\<lambda>v. seqE [w_uint32 L 10, w_fork L, encode_Timestamp L (toTimestamp v), w_join L]),
     someE (claim_Params.durationUntilDecay message) (\<lambda>v. seqE [w_uint32 L 18, w_fork L, encode_Duration L v, w_join L]),
     someE (claim_Params.durationOfDecay message) (\<lambda>v. seqE [w_uint32 L 26, w_fork L, encode_Duration L v, w_join L]),
     whenE (claim_Params.claimDenom message \<noteq> []) (seqE [w_uint32 L 34, w_string L (claim_Params.claimDenom message)]),
     someE (claim_Params.initialGasAmount message) (\<lambda>v. seqE [w_uint32 L 42, w_fork L, encode_Coin L v, w_join L])]"

definition claim_Params_switch :: "('w, 'r) wire \<Rightarrow> u32 \<Rightarrow> claim_Params \<Rightarrow> (claim_Params, 'r) action" where
  "claim_Params_switch L tag message = js_switch (drop_bit 3 tag)
    [(1, when_tag tag 10 (readf (read_map fromTimestamp (submsg L (decode_Timestamp L))) (\<lambda>v. message\<lparr>claim_Params.airdropStartTime := Some v\<rparr>))),
     (2, when_tag tag 18 (readf (submsg L (decode_Duration L)) (\<lambda>v. message\<lparr>claim_Params.durationUntilDecay := Some v\<rparr>))),
     (3, when_tag tag 26 (readf (submsg L (decode_Duration L)) (\<lambda>v. message\<lparr>claim_Params.durationOfDecay := Some v\<rparr>))),
     (4, when_tag tag 34 (readf (r_string L) (\<lambda>v. message\<lparr>claim_Params.claimDenom := v\<rparr>))),
     (5, when_tag tag 42 (readf (submsg L (decode_Coin L)) (\<lambda>v. message\<lparr>claim_Params.initialGasAmount := Some v\<rparr>)))]
    break_out"

definition decode_claim_Params :: "('w, 'r) wire \<Rightarrow> 'r input \<Rightarrow> nat option \<Rightarrow> (claim_Params \<times> 'r) result" where
  "decode_claim_Params L = decode_msg L (claim_Params_switch L) createBase_claim_Params"

definition fromJSON_claim_Params :: "host \<Rightarrow> jsval \<Rightarrow> claim_Params result" where
  "fromJSON_claim_Params h object =
     bindE (optE object ''airdropStartTime'' (fromJsonTimestamp h)) (\<lambda>v_airdropStartTime.
     bindE (optE object ''durationUntilDecay'' (fromJSON_Duration h)) (\<lambda>v_durationUntilDecay.
     bindE (optE object ''durationOfDecay'' (fromJSON_Duration h)) (\<lambda>v_durationOfDecay.
     bindE (fieldE object ''claimDenom'' (stringE h) []) (\<lambda>v_claimDenom.
     bindE (optE object ''initialGasAmount'' (fromJSON_Coin h)) (\<lambda>v_initialGasAmount.
     Inr \<lparr>claim_Params.airdropStartTime = v_airdropStartTime, claim_Params.durationUntilDecay = v_durationUntilDecay, claim_Params.durationOfDecay = v_durationOfDecay, claim_Params.claimDenom = v_claimDenom, claim_Params.initialGasAmount = v_initialGasAmount\<rparr>)))))"

definition toJSON_claim_Params :: "host \<Rightarrow> claim_Params \<Rightarrow> jsval result" where
  "toJSON_claim_Params h message = objE
    [joptE ''airdropStartTime'' dateJSON (claim_Params.airdropStartTime message),
     joptE ''durationUntilDecay'' (toJSON_Duration h) (claim_Params.durationUntilDecay message),
     joptE ''durationOfDecay'' (toJSON_Duration h) (claim_Params.durationOfDecay message),
     jfieldE (claim_Params.claimDenom message \<noteq> []) ''claimDenom'' (Inr (JString (claim_Params.claimDenom message))),
     joptE ''initialGasAmount'' (toJSON_Coin h) (claim_Params.initialGasAmount message)]"

record claim_Params_Partial =
  airdropStartTime :: "number option"
  durationUntilDecay :: "Duration_Partial option"
  durationOfDecay :: "Duration_Partial option"
  claimDenom :: "jsstring option"
  initialGasAmount :: "Coin_Partial option"

definition claim_Params_empty :: claim_Params_Partial where
  "claim_Params_empty = \<lparr>claim_Params_Partial.airdropStartTime = None, claim_Params_Partial.durationUntilDecay = None, claim_Params_Partial.durationOfDecay = None, claim_Params_Partial.claimDenom = None, claim_Params_Partial.initialGasAmount = None\<rparr>"

definition fromPartial_claim_Params :: "claim_Params_Partial \<Rightarrow> claim_Params" where
  "fromPartial_claim_Params object = createBase_claim_Params\<lparr>claim_Params.airdropStartTime := claim_Params_Partial.airdropStartTime object,
     claim_Params.durationUntilDecay := map_option fromPartial_Duration (claim_Params_Partial.durationUntilDecay object),
     claim_Params.durationOfDecay := map_option fromPartial_Duration (claim_Params_Partial.durationOfDecay object),
     claim_Params.claimDenom := nullish (claim_Params_Partial.claimDenom object) [],
     claim_Params.initialGasAmount := map_option fromPartial_Coin (claim_Params_Partial.initialGasAmount object)\<rparr>"

definition create_claim_Params :: "claim_Params_Partial option \<Rightarrow> claim_Params" where
  "create_claim_Params base = fromPartial_claim_Params (nullish base claim_Params_empty)"

text \<open>A partial message that sets every field.\<close>

definition partial_of_claim_Params :: "claim_Params \<Rightarrow> claim_Params_Partial" where
  "partial_of_claim_Params m =
     \<lparr>claim_Params_Partial.airdropStartTime = claim_Params.airdropStartTime m,
      claim_Params_Partial.durationUntilDecay = map_option partial_of_Duration (claim_Params.durationUntilDecay m),
      claim_Params_Partial.durationOfDecay = map_option partial_of_Duration (claim_Params.durationOfDecay m),
      claim_Params_Partial.claimDenom = Some (claim_Params.claimDenom m),
      claim_Params_Partial.initialGasAmount = map_option partial_of_Coin (claim_Params.initialGasAmount m)\<rparr>"

definition ok_claim_Params :: "claim_Params \<Rightarrow> bool" where
  "ok_claim_Params m \<longleftrightarrow> pred_option (\<lambda>d. date_valid d \<or> d = NaN) (claim_Params.airdropStartTime m)
     \<and> pred_option ok_Duration (claim_Params.durationUntilDecay m)
     \<and> pred_option ok_Duration (claim_Params.durationOfDecay m)
     \<and> pred_option ok_Coin (claim_Params.initialGasAmount m)"

definition wf_claim_Params :: "('w, 'r) wire \<Rightarrow> claim_Params \<Rightarrow> bool" where
  "wf_claim_Params L m \<longleftrightarrow> pred_option (\<lambda>v. date_valid v \<and> fits L (encode_Timestamp L (toTimestamp v))) (claim_Params.airdropStartTime m)
     \<and> pred_option (\<lambda>v. wf_Duration L v \<and> fits L (encode_Duration L v)) (claim_Params.durationUntilDecay m)
     \<and> pred_option (\<lambda>v. wf_Duration L v \<and> fits L (encode_Duration L v)) (claim_Params.durationOfDecay m)
     \<and> wire_string (claim_Params.claimDenom m)
     \<and> pred_option (\<lambda>v. wf_Coin L v \<and> fits L (encode_Coin L v)) (claim_Params.initialGasAmount m)"

definition wfj_claim_Params :: "claim_Params \<Rightarrow> bool" where
  "wfj_claim_Params m \<longleftrightarrow> pred_option date_valid (claim_Params.airdropStartTime m)
     \<and> pred_option wfj_Duration (claim_Params.durationUntilDecay m)
     \<and> pred_option wfj_Duration (claim_Params.durationOfDecay m)
     \<and> pred_option wfj_Coin (claim_Params.initialGasAmount m)"


section \<open>arkeo/claim/genesis.ts\<close>

subsection \<open>claim_GenesisState\<close>

record claim_GenesisState =
  moduleAccountBalance :: "Coin option"
  params :: "claim_Params option"
  claimRecords :: "ClaimRecord list"

definition createBase_claim_GenesisState :: claim_GenesisState where
  "createBase_claim_GenesisState = \<lparr>claim_GenesisState.moduleAccountBalance = None,
     claim_GenesisState.params = None,
     claim_GenesisState.claimRecords = []\<rparr>"

definition encode_claim_GenesisState :: "('w, 'r) wire \<Rightarrow> claim_GenesisState \<Rightarrow> 'w \<Rightarrow> 'w result" where
  "encode_claim_GenesisState L message = seqE
    [someE (claim_GenesisState.moduleAccountBalance message) (\<lambda>v. seqE [w_uint32 L 10, w_fork L, encode_Coin L v, w_join L]),
     someE (claim_GenesisState.params message) (\<lambda>v. seqE [w_uint32 L 18, w_fork L, encode_claim_Params L v, w_join L]),
     forE (\<lambda>v. seqE [w_uint32 L 26, w_fork L, encode_ClaimRecord L v, w_join L]) (claim_GenesisState.claimRecords message)]"

definition claim_GenesisState_switch :: "('w, 'r) wire \<Rightarrow> u32 \<Rightarrow> claim_GenesisState \<Rightarrow> (claim_GenesisState, 'r) action" where
  "claim_GenesisState_switch L tag message = js_switch (drop_bit 3 tag)
    [(1, when_tag tag 10 (readf (submsg L (decode_Coin L)) (\<lambda>v. message\<lparr>claim_GenesisState.moduleAccountBalance := Some v\<rparr>))),
     (2, when_tag tag 18 (readf (submsg L (decode_claim_Params L)) (\<lambda>v. message\<lparr>claim_GenesisState.params := Some v\<rparr>))),
     (3, when_tag tag 26 (readf (submsg L (decode_ClaimRecord L)) (\<lambda>v. message\<lparr>claim_GenesisState.claimRecords := claim_GenesisState.claimRecords message @ [v]\<rparr>)))]
    break_out"

definition decode_claim_GenesisState :: "('w, 'r) wire \<Rightarrow> 'r input \<Rightarrow> nat option \<Rightarrow> (claim_GenesisState \<times> 'r) result" where
  "decode_claim_GenesisState L = decode_msg L (claim_GenesisState_switch L) createBase_claim_GenesisState"

definition fromJSON_claim_GenesisState :: "host \<Rightarrow> jsval \<Rightarrow> claim_GenesisState result" where
  "fromJSON_claim_GenesisState h object =
     bindE (optE object ''moduleAccountBalance'' (fromJSON_Coin h)) (\<lambda>v_moduleAccountBalance.
     bindE (optE object ''params'' (fromJSON_claim_Params h)) (\<lambda>v_params.
     bindE (arrayE object ''claimRecords'' (fromJSON_ClaimRecord h)) (\<lambda>v_claimRecords.
     Inr \<lparr>claim_GenesisState.moduleAccountBalance = v_moduleAccountBalance, claim_GenesisState.params = v_params, claim_GenesisState.claimRecords = v_claimRecords\<rparr>)))"

definition toJSON_claim_GenesisState :: "host \<Rightarrow> claim_GenesisState \<Rightarrow> jsval result" where
  "toJSON_claim_GenesisState h message = objE
    [joptE ''moduleAccountBalance'' (toJSON_Coin h) (claim_GenesisState.moduleAccountBalance message),
     joptE ''params'' (toJSON_claim_Params h) (claim_GenesisState.params message),
     jarrayE ''claimRecords'' (toJSON_ClaimRecord h) (claim_GenesisState.claimRecords message)]"

record claim_GenesisState_Partial =
  moduleAccountBalance :: "Coin_Partial option"
  params :: "claim_Params_Partial option"
  claimRecords :: "ClaimRecord_Partial list option"

definition claim_GenesisState_empty :: claim_GenesisState_Partial where
  "claim_GenesisState_empty = \<lparr>claim_GenesisState_Partial.moduleAccountBalance = None, claim_GenesisState_Partial.params = None, claim_GenesisState_Partial.claimRecords = None\<rparr>"

definition fromPartial_claim_GenesisState :: "claim_GenesisState_Partial \<Rightarrow> claim_GenesisState" where
  "fromPartial_claim_GenesisState object = createBase_claim_GenesisState\<lparr>claim_GenesisState.moduleAccountBalance := map_option fromPartial_Coin (claim_GenesisState_Partial.moduleAccountBalance object),
     claim_GenesisState.params := map_option fromPartial_claim_Params (claim_GenesisState_Partial.params object),
     claim_GenesisState.claimRecords := partial_map fromPartial_ClaimRecord (claim_GenesisState_Partial.claimRecords object)\<rparr>"

definition create_claim_GenesisState :: "claim_GenesisState_Partial option \<Rightarrow> claim_GenesisState" where
  "create_claim_GenesisState base = fromPartial_claim_GenesisState (nullish base claim_GenesisState_empty)"

text \<open>A partial message that sets every field.\<close>

definition partial_of_claim_GenesisState :: "claim_GenesisState \<Rightarrow> claim_GenesisState_Partial" where
  "partial_of_claim_GenesisState m =
     \<lparr>claim_GenesisState_Partial.moduleAccountBalance = map_option partial_of_Coin (claim_GenesisState.moduleAccountBalance m),
      claim_GenesisState_Partial.params = map_option partial_of_claim_Params (claim_GenesisState.params m),
      claim_GenesisState_Partial.claimRecords = Some (map partial_of_ClaimRecord (claim_GenesisState.claimRecords m))\<rparr>"

definition ok_claim_GenesisState :: "claim_GenesisState \<Rightarrow> bool" where
  "ok_claim_GenesisState m \<longleftrightarrow> pred_option ok_Coin (claim_GenesisState.moduleAccountBalance m)
     \<and> pred_option ok_claim_Params (claim_GenesisState.params m)
     \<and> list_all ok_ClaimRecord (claim_GenesisState.claimRecords m)"

definition wf_claim_GenesisState :: "('w, 'r) wire \<Rightarrow> claim_GenesisState \<Rightarrow> bool" where
  "wf_claim_GenesisState L m \<longleftrightarrow> pred_option (\<lambda>v. wf_Coin L v \<and> fits L (encode_Coin L v)) (claim_GenesisState.moduleAccountBalance m)
     \<and> pred_option (\<lambda>v. wf_claim_Params L v \<and> fits L (encode_claim_Params L v)) (claim_GenesisState.params m)
     \<and> list_all (\<lambda>v. wf_ClaimRecord L v \<and> fits L (encode_ClaimRecord L v)) (claim_GenesisState.claimRecords m)"

definition wfj_claim_GenesisState :: "claim_GenesisState \<Rightarrow> bool" where
  "wfj_claim_GenesisState m \<longleftrightarrow> pred_option wfj_Coin (claim_GenesisState.moduleAccountBalance m)
     \<and> pred_option wfj_claim_Params (claim_GenesisState.params m)
     \<and> list_all wfj_ClaimRecord (claim_GenesisState.claimRecords m)"


section \<open>Encoding, decoding and JSON of these messages\<close>

lemmas Action_defs = Action_ACTION_CLAIM_def Action_ACTION_VOTE_def Action_ACTION_DELEGATE_def Action_UNRECOGNIZED_def

lemma Action_json [json_rules]:
  "Action_known n \<Longrightarrow> enumE actionFromJSON (JString (actionToJSON n)) = Inr n"
  by (auto simp: Action_known_def enumE_def actionFromJSON_def actionToJSON_def Action_defs)

lemmas Chain_defs = Chain_ARKEO_def Chain_ETHEREUM_def Chain_UNRECOGNIZED_def

lemma Chain_json [json_rules]:
  "Chain_known n \<Longrightarrow> enumE chainFromJSON (JString (chainToJSON n)) = Inr n"
  by (auto simp: Chain_known_def enumE_def chainFromJSON_def chainToJSON_def Chain_defs)

lemma ClaimRecord_tags:
  "ClaimRecord_switch L 8 m = readf (num32 (r_int32 L)) (\<lambda>v. m\<lparr>ClaimRecord.chain := v\<rparr>)"
  "ClaimRecord_switch L 18 m = readf (r_string L) (\<lambda>v. m\<lparr>ClaimRecord.address := v\<rparr>)"
  "ClaimRecord_switch L 26 m = readf (submsg L (decode_Coin L)) (\<lambda>v. m\<lparr>ClaimRecord.amountClaim := Some v\<rparr>)"
  "ClaimRecord_switch L 34 m = readf (submsg L (decode_Coin L)) (\<lambda>v. m\<lparr>ClaimRecord.amountVote := Some v\<rparr>)"
  "ClaimRecord_switch L 42 m = readf (submsg L (decode_Coin L)) (\<lambda>v. m\<lparr>ClaimRecord.amountDelegate := Some v\<rparr>)"
  "ClaimRecord_switch L 48 m = readf (r_bool L) (\<lambda>v. m\<lparr>ClaimRecord.isTransferable := v\<rparr>)"
  by (simp_all add: ClaimRecord_switch_def when_tag_def)

lemma fromPartial_partial_of_ClaimRecord [simp]: "fromPartial_ClaimRecord (partial_of_ClaimRecord m) = m"
  by (simp add: fromPartial_ClaimRecord_def partial_of_ClaimRecord_def createBase_ClaimRecord_def partial_map_def option.map_comp o_def option.map_ident)

lemma create_ClaimRecord_None [simp]: "create_ClaimRecord None = createBase_ClaimRecord"
  by (simp add: create_ClaimRecord_def fromPartial_ClaimRecord_def ClaimRecord_empty_def createBase_ClaimRecord_def partial_map_def)

sublocale wire_laws \<subseteq> ClaimRecord_codec: message_codec L F out inp "encode_ClaimRecord L" "ClaimRecord_switch L" createBase_ClaimRecord "wf_ClaimRecord L"
proof unfold_locales
  show good: "good_sw (ClaimRecord_switch L)"
    unfolding ClaimRecord_switch_def by (intro good_swI fwd_rules)
  fix m assume "wf_ClaimRecord L m"
  then show "codes (ClaimRecord_switch L) (encode_ClaimRecord L m) createBase_ClaimRecord m"
    unfolding encode_ClaimRecord_def wf_ClaimRecord_def
    by (elim conjE)
      (rule codes_Cons codes_Nil [OF ClaimRecord.equality] codec_rules
        codes_when [where tag = 8 and u = ClaimRecord.chain_update and op = "num32 (r_int32 L)", OF good]
        codes_when [where tag = 18 and u = ClaimRecord.address_update and op = "r_string L", OF good]
        codes_some [where tag = 26 and u = ClaimRecord.amountClaim_update and op = "submsg L (decode_Coin L)", OF good]
        codes_some [where tag = 34 and u = ClaimRecord.amountVote_update and op = "submsg L (decode_Coin L)", OF good]
        codes_some [where tag = 42 and u = ClaimRecord.amountDelegate_update and op = "submsg L (decode_Coin L)", OF good]
        codes_when [where tag = 48 and u = ClaimRecord.isTransferable_update and op = "r_bool L", OF good]
      | assumption | (simp add: ClaimRecord_tags createBase_ClaimRecord_def; fail))+
qed

sublocale wire_laws \<subseteq> ClaimRecord_range: message_range L F out inp "ClaimRecord_switch L" createBase_ClaimRecord ok_ClaimRecord
proof unfold_locales
  show "ok_ClaimRecord createBase_ClaimRecord" by (simp add: ok_ClaimRecord_def createBase_ClaimRecord_def)
  fix m tag assume "ok_ClaimRecord m"
  then show "keeps ok_ClaimRecord (ClaimRecord_switch L tag m)"
    unfolding ClaimRecord_switch_def by - (rule range_rules | (simp add: ok_ClaimRecord_def; fail))+
qed

context wire_laws
begin

lemmas ClaimRecord_carries [codec_rules] =
  ClaimRecord_codec.opt_carries [folded decode_ClaimRecord_def] ClaimRecord_codec.list_carries [folded decode_ClaimRecord_def]

lemmas ClaimRecord_good [fwd_rules] = ClaimRecord_codec.op_good [folded decode_ClaimRecord_def]

lemmas ClaimRecord_yields [range_rules] = ClaimRecord_range.sub_range [folded decode_ClaimRecord_def]

lemmas ClaimRecord_roundtrip = ClaimRecord_codec.roundtrip [folded decode_ClaimRecord_def]

lemmas ClaimRecord_returns = ClaimRecord_codec.decode_returns [folded decode_ClaimRecord_def]

lemmas ClaimRecord_decoded = ClaimRecord_range.decode_range [folded decode_ClaimRecord_def]

end

interpretation ClaimRecord_json: message_json toJSON_ClaimRecord fromJSON_ClaimRecord wfj_ClaimRecord
proof unfold_locales
  fix h m
  assume "wfj_ClaimRecord m"
  then show "json_rt (toJSON_ClaimRecord h) (fromJSON_ClaimRecord h) m"
    unfolding toJSON_ClaimRecord_def fromJSON_ClaimRecord_def wfj_ClaimRecord_def
    by (elim conjE) (rule json_rtI json_rules | assumption | (simp; fail))+
qed

lemmas ClaimRecord_json_rules [json_rules] = ClaimRecord_json.json_field_rules

lemma claim_Params_tags:
  "claim_Params_switch L 10 m = readf (read_map fromTimestamp (submsg L (decode_Timestamp L))) (\<lambda>v. m\<lparr>claim_Params.airdropStartTime := Some v\<rparr>)"
  "claim_Params_switch L 18 m = readf (submsg L (decode_Duration L)) (\<lambda>v. m\<lparr>claim_Params.durationUntilDecay := Some v\<rparr>)"
  "claim_Params_switch L 26 m = readf (submsg L (decode_Duration L)) (\<lambda>v. m\<lparr>claim_Params.durationOfDecay := Some v\<rparr>)"
  "claim_Params_switch L 34 m = readf (r_string L) (\<lambda>v. m\<lparr>claim_Params.claimDenom := v\<rparr>)"
  "claim_Params_switch L 42 m = readf (submsg L (decode_Coin L)) (\<lambda>v. m\<lparr>claim_Params.initialGasAmount := Some v\<rparr>)"
  by (simp_all add: claim_Params_switch_def when_tag_def)

lemma fromPartial_partial_of_claim_Params [simp]: "fromPartial_claim_Params (partial_of_claim_Params m) = m"
  by (simp add: fromPartial_claim_Params_def partial_of_claim_Params_def createBase_claim_Params_def partial_map_def option.map_comp o_def option.map_ident)

lemma create_claim_Params_None [simp]: "create_claim_Params None = createBase_claim_Params"
  by (simp add: create_claim_Params_def fromPartial_claim_Params_def claim_Params_empty_def createBase_claim_Params_def partial_map_def)

sublocale wire_laws \<subseteq> claim_Params_codec: message_codec L F out inp "encode_claim_Params L" "claim_Params_switch L" createBase_claim_Params "wf_claim_Params L"
proof unfold_locales
  show good: "good_sw (claim_Params_switch L)"
    unfolding claim_Params_switch_def by (intro good_swI fwd_rules)
  fix m assume "wf_claim_Params L m"
  then show "codes (claim_Params_switch L) (encode_claim_Params L m) createBase_claim_Params m"
    unfolding encode_claim_Params_def wf_claim_Params_def
    by (elim conjE)
      (rule codes_Cons codes_Nil [OF claim_Params.equality] codec_rules
        codes_some [where tag = 10 and u = claim_Params.airdropStartTime_update and op = "read_map fromTimestamp (submsg L (decode_Timestamp L))", OF good]
        codes_some [where tag = 18 and u = claim_Params.durationUntilDecay_update and op = "submsg L (decode_Duration L)", OF good]
        codes_some [where tag = 26 and u = claim_Params.durationOfDecay_update and op = "submsg L (decode_Duration L)", OF good]
        codes_when [where tag = 34 and u = claim_Params.claimDenom_update and op = "r_string L", OF good]
        codes_some [where tag = 42 and u = claim_Params.initialGasAmount_update and op = "submsg L (decode_Coin L)", OF good]
      | assumption | (simp add: claim_Params_tags createBase_claim_Params_def; fail))+
qed

sublocale wire_laws \<subseteq> claim_Params_range: message_range L F out inp "claim_Params_switch L" createBase_claim_Params ok_claim_Params
proof unfold_locales
  show "ok_claim_Params createBase_claim_Params" by (simp add: ok_claim_Params_def createBase_claim_Params_def)
  fix m tag assume "ok_claim_Params m"
  then show "keeps ok_claim_Params (claim_Params_switch L tag m)"
    unfolding claim_Params_switch_def by - (rule range_rules | (simp add: ok_claim_Params_def; fail))+
qed

context wire_laws
begin

lemmas claim_Params_carries [codec_rules] =
  claim_Params_codec.opt_carries [folded decode_claim_Params_def] claim_Params_codec.list_carries [folded decode_claim_Params_def]

lemmas claim_Params_good [fwd_rules] = claim_Params_codec.op_good [folded decode_claim_Params_def]

lemmas claim_Params_yields [range_rules] = claim_Params_range.sub_range [folded decode_claim_Params_def]

lemmas claim_Params_roundtrip = claim_Params_codec.roundtrip [folded decode_claim_Params_def]

lemmas claim_Params_returns = claim_Params_codec.decode_returns [folded decode_claim_Params_def]

lemmas claim_Params_decoded = claim_Params_range.decode_range [folded decode_claim_Params_def]

end

interpretation claim_Params_json: message_json toJSON_claim_Params fromJSON_claim_Params wfj_claim_Params
proof unfold_locales
  fix h m
  assume "wfj_claim_Params m"
  then show "json_rt (toJSON_claim_Params h) (fromJSON_claim_Params h) m"
    unfolding toJSON_claim_Params_def fromJSON_claim_Params_def wfj_claim_Params_def
    by (elim conjE) (rule json_rtI json_rules | assumption | (simp; fail))+
qed

lemmas claim_Params_json_rules [json_rules] = claim_Params_json.json_field_rules

lemma claim_GenesisState_tags:
  "claim_GenesisState_switch L 10 m = readf (submsg L (decode_Coin L)) (\<lambda>v. m\<lparr>claim_GenesisState.moduleAccountBalance := Some v\<rparr>)"
  "claim_GenesisState_switch L 18 m = readf (submsg L (decode_claim_Params L)) (\<lambda>v. m\<lparr>claim_GenesisState.params := Some v\<rparr>)"
  "claim_GenesisState_switch L 26 m = readf (submsg L (decode_ClaimRecord L)) (\<lambda>v. m\<lparr>claim_GenesisState.claimRecords := claim_GenesisState.claimRecords m @ [v]\<rparr>)"
  by (simp_all add: claim_GenesisState_switch_def when_tag_def)

lemma fromPartial_partial_of_claim_GenesisState [simp]: "fromPartial_claim_GenesisState (partial_of_claim_GenesisState m) = m"
  by (simp add: fromPartial_claim_GenesisState_def partial_of_claim_GenesisState_def createBase_claim_GenesisState_def partial_map_def option.map_comp o_def option.map_ident)

lemma create_claim_GenesisState_None [simp]: "create_claim_GenesisState None = createBase_claim_GenesisState"
  by (simp add: create_claim_GenesisState_def fromPartial_claim_GenesisState_def claim_GenesisState_empty_def createBase_claim_GenesisState_def partial_map_def)

sublocale wire_laws \<subseteq> claim_GenesisState_codec: message_codec L F out inp "encode_claim_GenesisState L" "claim_GenesisState_switch L" createBase_claim_GenesisState "wf_claim_GenesisState L"
proof unfold_locales
  show good: "good_sw (claim_GenesisState_switch L)"
    unfolding claim_GenesisState_switch_def by (intro good_swI fwd_rules)
  fix m assume "wf_claim_GenesisState L m"
  then show "codes (claim_GenesisState_switch L) (encode_claim_GenesisState L m) createBase_claim_GenesisState m"
    unfolding encode_claim_GenesisState_def wf_claim_GenesisState_def
    by (elim conjE)
      (rule codes_Cons codes_Nil [OF claim_GenesisState.equality] codec_rules
        codes_some [where tag = 10 and u = claim_GenesisState.moduleAccountBalance_update and op = "submsg L (decode_Coin L)", OF good]
        codes_some [where tag = 18 and u = claim_GenesisState.params_update and op = "submsg L (decode_claim_Params L)", OF good]
        codes_for [where tag = 26 and u = claim_GenesisState.claimRecords_update and op = "submsg L (decode_ClaimRecord L)", OF good]
      | assumption | (simp add: claim_GenesisState_tags createBase_claim_GenesisState_def; fail))+
qed

sublocale wire_laws \<subseteq> claim_GenesisState_range: message_range L F out inp "claim_GenesisState_switch L" createBase_claim_GenesisState ok_claim_GenesisState
proof unfold_locales
  show "ok_claim_GenesisState createBase_claim_GenesisState" by (simp add: ok_claim_GenesisState_def createBase_claim_GenesisState_def)
  fix m tag assume "ok_claim_GenesisState m"
  then show "keeps ok_claim_GenesisState (claim_GenesisState_switch L tag m)"
    unfolding claim_GenesisState_switch_def by - (rule range_rules | (simp add: ok_claim_GenesisState_def; fail))+
qed

context wire_laws
begin

lemmas claim_GenesisState_carries [codec_rules] =
  claim_GenesisState_codec.opt_carries [folded decode_claim_GenesisState_def] claim_GenesisState_codec.list_carries [folded decode_claim_GenesisState_def]

lemmas claim_GenesisState_good [fwd_rules] = claim_GenesisState_codec.op_good [folded decode_claim_GenesisState_def]

lemmas claim_GenesisState_yields [range_rules] = claim_GenesisState_range.sub_range [folded decode_claim_GenesisState_def]

lemmas claim_GenesisState_roundtrip = claim_GenesisState_codec.roundtrip [folded decode_claim_GenesisState_def]

lemmas claim_GenesisState_returns = claim_GenesisState_codec.decode_returns [folded decode_claim_GenesisState_def]

lemmas claim_GenesisState_decoded = claim_GenesisState_range.decode_range [folded decode_claim_GenesisState_def]

end

interpretation claim_GenesisState_json: message_json toJSON_claim_GenesisState fromJSON_claim_GenesisState wfj_claim_GenesisState
proof unfold_locales
  fix h m
  assume "wfj_claim_GenesisState m"
  then show "json_rt (toJSON_claim_GenesisState h) (fromJSON_claim_GenesisState h) m"
    unfolding toJSON_claim_GenesisState_def fromJSON_claim_GenesisState_def wfj_claim_GenesisState_def
    by (elim conjE) (rule json_rtI json_rules | assumption | (simp; fail))+
qed

lemmas claim_GenesisState_json_rules [json_rules] = claim_GenesisState_json.json_field_rules


end
