(* ===== verification/ClaimTx.thy ===== *)
theory ClaimTx
  imports ClaimMsgs
begin

text \<open>
  The transactions of the claim module and their responses (\<open>arkeo/claim/tx.ts\<close>).
\<close>


section \<open>arkeo/claim/tx.ts\<close>

subsection \<open>MsgClaimEth\<close>

record MsgClaimEth =
  creator :: jsstring
  ethAddress :: jsstring
  signature :: jsstring

definition createBase_MsgClaimEth :: MsgClaimEth where
  "createBase_MsgClaimEth = \<lparr>MsgClaimEth.creator = [],
     MsgClaimEth.ethAddress = [],
     MsgClaimEth.signature = []\<rparr>"

definition encode_MsgClaimEth :: "('w, 'r) wire \<Rightarrow> MsgClaimEth \<Rightarrow> 'w \<Rightarrow> 'w result" where
  "encode_MsgClaimEth L message = seqE
    [whenE (MsgClaimEth.creator message \<noteq> []) (seqE [w_uint32 L 10, w_string L (MsgClaimEth.creator message)]),
     whenE (MsgClaimEth.ethAddress message \<noteq> []) (seqE [w_uint32 L 18, w_string L (MsgClaimEth.ethAddress message)]),
     whenE (MsgClaimEth.signature message \<noteq> []) (seqE [w_uint32 L 26, w_string L (MsgClaimEth.signature message)])]"

definition MsgClaimEth_switch :: "('w, 'r) wire \<Rightarrow> u32 \<Rightarrow> MsgClaimEth \<Rightarrow> (MsgClaimEth, 'r) action" where
  "MsgClaimEth_switch L tag message = js_switch (drop_bit 3 tag)
    [(1, when_tag tag 10 (readf (r_string L) (\<lambda>v. message\<lparr>MsgClaimEth.creator := v\<rparr>))),
     (2, when_tag tag 18 (readf (r_string L) (\<lambda>v. message\<lparr>MsgClaimEth.ethAddress := v\<rparr>))),
     (3, when_tag tag 26 (readf (r_string L) (\<lambda>v. message\<lparr>MsgClaimEth.signature := v\<rparr>)))]
    break_out"

definition decode_MsgClaimEth :: "('w, 'r) wire \<Rightarrow> 'r input \<Rightarrow> nat option \<Rightarrow> (MsgClaimEth \<times> 'r) result" where
  "decode_MsgClaimEth L = decode_msg L (MsgClaimEth_switch L) createBase_MsgClaimEth"

definition fromJSON_MsgClaimEth :: "host \<Rightarrow> jsval \<Rightarrow> MsgClaimEth result" where
  "fromJSON_MsgClaimEth h object =
     bindE (fieldE object ''creator'' (stringE h) []) (\<lambda>v_creator.
     bindE (fieldE object ''ethAddress'' (stringE h) []) (\<lambda>v_ethAddress.
     bindE (fieldE object ''signature'' (stringE h) []) (\<lambda>v_signature.
     Inr \<lparr>MsgClaimEth.creator = v_creator, MsgClaimEth.ethAddress = v_ethAddress, MsgClaimEth.signature = v_signature\<rparr>)))"

definition toJSON_MsgClaimEth :: "host \<Rightarrow> MsgClaimEth \<Rightarrow> jsval result" where
  "toJSON_MsgClaimEth h message = objE
    [jfieldE (MsgClaimEth.creator message \<noteq> []) ''creator'' (Inr (JString (MsgClaimEth.creator message))),
     jfieldE (MsgClaimEth.ethAddress message \<noteq> []) ''ethAddress'' (Inr (JString (MsgClaimEth.ethAddress message))),
     jfieldE (MsgClaimEth.signature message \<noteq> []) ''signature'' (Inr (JString (MsgClaimEth.signature message)))]"

record MsgClaimEth_Partial =
  creator :: "jsstring option"
  ethAddress :: "jsstring option"
  signature :: "jsstring option"

definition MsgClaimEth_empty :: MsgClaimEth_Partial where
  "MsgClaimEth_empty = \<lparr>MsgClaimEth_Partial.creator = None, MsgClaimEth_Partial.ethAddress = None, MsgClaimEth_Partial.signature = None\<rparr>"

definition fromPartial_MsgClaimEth :: "MsgClaimEth_Partial \<Rightarrow> MsgClaimEth" where
  "fromPartial_MsgClaimEth object = createBase_MsgClaimEth\<lparr>MsgClaimEth.creator := nullish (MsgClaimEth_Partial.creator object) [],
     MsgClaimEth.ethAddress := nullish (MsgClaimEth_Partial.ethAddress object) [],
     MsgClaimEth.signature := nullish (MsgClaimEth_Partial.signature object) []\<rparr>"

definition create_MsgClaimEth :: "MsgClaimEth_Partial option \<Rightarrow> MsgClaimEth" where
  "create_MsgClaimEth base = fromPartial_MsgClaimEth (nullish base MsgClaimEth_empty)"

text \<open>A partial message that sets every field.\<close>

definition partial_of_MsgClaimEth :: "MsgClaimEth \<Rightarrow> MsgClaimEth_Partial" where
  "partial_of_MsgClaimEth m =
     \<lparr>MsgClaimEth_Partial.creator = Some (MsgClaimEth.creator m),
      MsgClaimEth_Partial.ethAddress = Some (MsgClaimEth.ethAddress m),
      MsgClaimEth_Partial.signature = Some (MsgClaimEth.signature m)\<rparr>"

definition ok_MsgClaimEth :: "MsgClaimEth \<Rightarrow> bool" where
  "ok_MsgClaimEth m \<longleftrightarrow> True"

definition wf_MsgClaimEth :: "('w, 'r) wire \<Rightarrow> MsgClaimEth \<Rightarrow> bool" where
  "wf_MsgClaimEth L m \<longleftrightarrow> wire_string (MsgClaimEth.creator m)
     \<and> wire_string (MsgClaimEth.ethAddress m)
     \<and> wire_string (MsgClaimEth.signature m)"

definition wfj_MsgClaimEth :: "MsgClaimEth \<Rightarrow> bool" where
  "wfj_MsgClaimEth m \<longleftrightarrow> True"

subsection \<open>MsgClaimEthResponse\<close>

record MsgClaimEthResponse =
  ethAddress :: jsstring
  arkeoAddress :: jsstring
  ethClaimAmount :: number
  arkeoClaimAmount :: number

definition createBase_MsgClaimEthResponse :: MsgClaimEthResponse where
  "createBase_MsgClaimEthResponse = \<lparr>MsgClaimEthResponse.ethAddress = [],
     MsgClaimEthResponse.arkeoAddress = [],
     MsgClaimEthResponse.ethClaimAmount = Num 0,
     MsgClaimEthResponse.arkeoClaimAmount = Num 0\<rparr>"

definition encode_MsgClaimEthResponse :: "('w, 'r) wire \<Rightarrow> MsgClaimEthResponse \<Rightarrow> 'w \<Rightarrow> 'w result" where
  "encode_MsgClaimEthResponse L message = seqE
    [whenE (MsgClaimEthResponse.ethAddress message \<noteq> []) (seqE [w_uint32 L 10, w_string L (MsgClaimEthResponse.ethAddress message)]),
     whenE (MsgClaimEthResponse.arkeoAddress message \<noteq> []) (seqE [w_uint32 L 18, w_string L (MsgClaimEthResponse.arkeoAddress message)]),
     whenE (MsgClaimEthResponse.ethClaimAmount message \<noteq> Num 0) (seqE [w_uint32 L 24, w_int64 L (MsgClaimEthResponse.ethClaimAmount message)]),
     whenE (MsgClaimEthResponse.arkeoClaimAmount message \<noteq> Num 0) (seqE [w_uint32 L 32, w_int64 L (MsgClaimEthResponse.arkeoClaimAmount message)])]"

definition MsgClaimEthResponse_switch :: "('w, 'r) wire \<Rightarrow> u32 \<Rightarrow> MsgClaimEthResponse \<Rightarrow> (MsgClaimEthResponse, 'r) action" where
  "MsgClaimEthResponse_switch L tag message = js_switch (drop_bit 3 tag)
    [(1, when_tag tag 10 (readf (r_string L) (\<lambda>v. message\<lparr>MsgClaimEthResponse.ethAddress := v\<rparr>))),
     (2, when_tag tag 18 (readf (r_string L) (\<lambda>v. message\<lparr>MsgClaimEthResponse.arkeoAddress := v\<rparr>))),
     (3, when_tag tag 24 (readf (num64 (r_int64 L)) (\<lambda>v. message\<lparr>MsgClaimEthResponse.ethClaimAmount := v\<rparr>))),
     (4, when_tag tag 32 (readf (num64 (r_int64 L)) (\<lambda>v. message\<lparr>MsgClaimEthResponse.arkeoClaimAmount := v\<rparr>)))]
    break_out"

definition decode_MsgClaimEthResponse :: "('w, 'r) wire \<Rightarrow> 'r input \<Rightarrow> nat option \<Rightarrow> (MsgClaimEthResponse \<times> 'r) result" where
  "decode_MsgClaimEthResponse L = decode_msg L (MsgClaimEthResponse_switch L) createBase_MsgClaimEthResponse"

definition fromJSON_MsgClaimEthResponse :: "host \<Rightarrow> jsval \<Rightarrow> MsgClaimEthResponse result" where
  "fromJSON_MsgClaimEthResponse h object =
     bindE (fieldE object ''ethAddress'' (stringE h) []) (\<lambda>v_ethAddress.
     bindE (fieldE object ''arkeoAddress'' (stringE h) []) (\<lambda>v_arkeoAddress.
     bindE (fieldE object ''ethClaimAmount'' (numberE h) (Num 0)) (\<lambda>v_ethClaimAmount.
     bindE (fieldE object ''arkeoClaimAmount'' (numberE h) (Num 0)) (\<lambda>v_arkeoClaimAmount.
     Inr \<lparr>MsgClaimEthResponse.ethAddress = v_ethAddress, MsgClaimEthResponse.arkeoAddress = v_arkeoAddress, MsgClaimEthResponse.ethClaimAmount = v_ethClaimAmount, MsgClaimEthResponse.arkeoClaimAmount = v_arkeoClaimAmount\<rparr>))))"

definition toJSON_MsgClaimEthResponse :: "host \<Rightarrow> MsgClaimEthResponse \<Rightarrow> jsval result" where
  "toJSON_MsgClaimEthResponse h message = objE
    [jfieldE (MsgClaimEthResponse.ethAddress message \<noteq> []) ''ethAddress'' (Inr (JString (MsgClaimEthResponse.ethAddress message))),
     jfieldE (MsgClaimEthResponse.arkeoAddress message \<noteq> []) ''arkeoAddress'' (Inr (JString (MsgClaimEthResponse.arkeoAddress message))),
     jfieldE (MsgClaimEthResponse.ethClaimAmount message \<noteq> Num 0) ''ethClaimAmount'' (Inr (JNumber (Math_round (MsgClaimEthResponse.ethClaimAmount message)))),
     jfieldE (MsgClaimEthResponse.arkeoClaimAmount message \<noteq> Num 0) ''arkeoClaimAmount'' (Inr (JNumber (Math_round (MsgClaimEthResponse.arkeoClaimAmount message))))]"

record MsgClaimEthResponse_Partial =
  ethAddress :: "jsstring option"
  arkeoAddress :: "jsstring option"
  ethClaimAmount :: "number option"
  arkeoClaimAmount :: "number option"

definition MsgClaimEthResponse_empty :: MsgClaimEthResponse_Partial where
  "MsgClaimEthResponse_empty = \<lparr>MsgClaimEthResponse_Partial.ethAddress = None, MsgClaimEthResponse_Partial.arkeoAddress = None, MsgClaimEthResponse_Partial.ethClaimAmount = None, MsgClaimEthResponse_Partial.arkeoClaimAmount = None\<rparr>"

definition fromPartial_MsgClaimEthResponse :: "MsgClaimEthResponse_Partial \<Rightarrow> MsgClaimEthResponse" where
  "fromPartial_MsgClaimEthResponse object = createBase_MsgClaimEthResponse\<lparr>MsgClaimEthResponse.ethAddress := nullish (MsgClaimEthResponse_Partial.ethAddress object) [],
     MsgClaimEthResponse.arkeoAddress := nullish (MsgClaimEthResponse_Partial.arkeoAddress object) [],
     MsgClaimEthResponse.ethClaimAmount := nullish (MsgClaimEthResponse_Partial.ethClaimAmount object) (Num 0),
     MsgClaimEthResponse.arkeoClaimAmount := nullish (MsgClaimEthResponse_Partial.arkeoClaimAmount object) (Num 0)\<rparr>"

definition create_MsgClaimEthResponse :: "MsgClaimEthResponse_Partial option \<Rightarrow> MsgClaimEthResponse" where
  "create_MsgClaimEthResponse base = fromPartial_MsgClaimEthResponse (nullish base MsgClaimEthResponse_empty)"

text \<open>A partial message that sets every field.\<close>

definition partial_of_MsgClaimEthResponse :: "MsgClaimEthResponse \<Rightarrow> MsgClaimEthResponse_Partial" where
  "partial_of_MsgClaimEthResponse m =
     \<lparr>MsgClaimEthResponse_Partial.ethAddress = Some (MsgClaimEthResponse.ethAddress m),
      MsgClaimEthResponse_Partial.arkeoAddress = Some (MsgClaimEthResponse.arkeoAddress m),
      MsgClaimEthResponse_Partial.ethClaimAmount = Some (MsgClaimEthResponse.ethClaimAmount m),
      MsgClaimEthResponse_Partial.arkeoClaimAmount = Some (MsgClaimEthResponse.arkeoClaimAmount m)\<rparr>"

definition ok_MsgClaimEthResponse :: "MsgClaimEthResponse \<Rightarrow> bool" where
  "ok_MsgClaimEthResponse m \<longleftrightarrow> safe_int (MsgClaimEthResponse.ethClaimAmount m)
     \<and> safe_int (MsgClaimEthResponse.arkeoClaimAmount m)"

definition wf_MsgClaimEthResponse :: "('w, 'r) wire \<Rightarrow> MsgClaimEthResponse \<Rightarrow> bool" where
  "wf_MsgClaimEthResponse L m \<longleftrightarrow> wire_string (MsgClaimEthResponse.ethAddress m)
     \<and> wire_string (MsgClaimEthResponse.arkeoAddress m)
     \<and> safe_int (MsgClaimEthResponse.ethClaimAmount m)
     \<and> safe_int (MsgClaimEthResponse.arkeoClaimAmount m)"

definition wfj_MsgClaimEthResponse :: "MsgClaimEthResponse \<Rightarrow> bool" where
  "wfj_MsgClaimEthResponse m \<longleftrightarrow> whole (MsgClaimEthResponse.ethClaimAmount m)
     \<and> whole (MsgClaimEthResponse.arkeoClaimAmount m)"

subsection \<open>MsgClaimArkeo\<close>

record MsgClaimArkeo =
  creator :: jsstring

definition createBase_MsgClaimArkeo :: MsgClaimArkeo where
  "createBase_MsgClaimArkeo = \<lparr>MsgClaimArkeo.creator = []\<rparr>"

definition encode_MsgClaimArkeo :: "('w, 'r) wire \<Rightarrow> MsgClaimArkeo \<Rightarrow> 'w \<Rightarrow> 'w result" where
  "encode_MsgClaimArkeo L message = seqE
    [whenE (MsgClaimArkeo.creator message \<noteq> []) (seqE [w_uint32 L 10, w_string L (MsgClaimArkeo.creator message)])]"

definition MsgClaimArkeo_switch :: "('w, 'r) wire \<Rightarrow> u32 \<Rightarrow> MsgClaimArkeo \<Rightarrow> (MsgClaimArkeo, 'r) action" where
  "MsgClaimArkeo_switch L tag message = js_switch (drop_bit 3 tag)
    [(1, when_tag tag 10 (readf (r_string L) (\<lambda>v. message\<lparr>MsgClaimArkeo.creator := v\<rparr>)))]
    break_out"

definition decode_MsgClaimArkeo :: "('w, 'r) wire \<Rightarrow> 'r input \<Rightarrow> nat option \<Rightarrow> (MsgClaimArkeo \<times> 'r) result" where
  "decode_MsgClaimArkeo L = decode_msg L (MsgClaimArkeo_switch L) createBase_MsgClaimArkeo"

definition fromJSON_MsgClaimArkeo :: "host \<Rightarrow> jsval \<Rightarrow> MsgClaimArkeo result" where
  "fromJSON_MsgClaimArkeo h object =
     bindE (fieldE object ''creator'' (stringE h) []) (\<lambda>v_creator.
     Inr \<lparr>MsgClaimArkeo.creator = v_creator\<rparr>)"

definition toJSON_MsgClaimArkeo :: "host \<Rightarrow> MsgClaimArkeo \<Rightarrow> jsval result" where
  "toJSON_MsgClaimArkeo h message = objE
    [jfieldE (MsgClaimArkeo.creator message \<noteq> []) ''creator'' (Inr (JString (MsgClaimArkeo.creator message)))]"

record MsgClaimArkeo_Partial =
  creator :: "jsstring option"

definition MsgClaimArkeo_empty :: MsgClaimArkeo_Partial where
  "MsgClaimArkeo_empty = \<lparr>MsgClaimArkeo_Partial.creator = None\<rparr>"

definition fromPartial_MsgClaimArkeo :: "MsgClaimArkeo_Partial \<Rightarrow> MsgClaimArkeo" where
  "fromPartial_MsgClaimArkeo object = createBase_MsgClaimArkeo\<lparr>MsgClaimArkeo.creator := nullish (MsgClaimArkeo_Partial.creator object) []\<rparr>"

definition create_MsgClaimArkeo :: "MsgClaimArkeo_Partial option \<Rightarrow> MsgClaimArkeo" where
  "create_MsgClaimArkeo base = fromPartial_MsgClaimArkeo (nullish base MsgClaimArkeo_empty)"

text \<open>A partial message that sets every field.\<close>

definition partial_of_MsgClaimArkeo :: "MsgClaimArkeo \<Rightarrow> MsgClaimArkeo_Partial" where
  "partial_of_MsgClaimArkeo m =
     \<lparr>MsgClaimArkeo_Partial.creator = Some (MsgClaimArkeo.creator m)\<rparr>"

definition ok_MsgClaimArkeo :: "MsgClaimArkeo \<Rightarrow> bool" where
  "ok_MsgClaimArkeo m \<longleftrightarrow> True"

definition wf_MsgClaimArkeo :: "('w, 'r) wire \<Rightarrow> MsgClaimArkeo \<Rightarrow> bool" where
  "wf_MsgClaimArkeo L m \<longleftrightarrow> wire_string (MsgClaimArkeo.creator m)"

definition wfj_MsgClaimArkeo :: "MsgClaimArkeo \<Rightarrow> bool" where
  "wfj_MsgClaimArkeo m \<longleftrightarrow> True"

subsection \<open>MsgClaimArkeoResponse\<close>

record MsgClaimArkeoResponse =
  address :: jsstring
  amount :: number

definition createBase_MsgClaimArkeoResponse :: MsgClaimArkeoResponse where
  "createBase_MsgClaimArkeoResponse = \<lparr>MsgClaimArkeoResponse.address = [],
     MsgClaimArkeoResponse.amount = Num 0\<rparr>"

definition encode_MsgClaimArkeoResponse :: "('w, 'r) wire \<Rightarrow> MsgClaimArkeoResponse \<Rightarrow> 'w \<Rightarrow> 'w result" where
  "encode_MsgClaimArkeoResponse L message = seqE
    [whenE (MsgClaimArkeoResponse.address message \<noteq> []) (seqE [w_uint32 L 10, w_string L (MsgClaimArkeoResponse.address message)]),
     whenE (MsgClaimArkeoResponse.amount message \<noteq> Num 0) (seqE [w_uint32 L 16, w_int64 L (MsgClaimArkeoResponse.amount message)])]"

definition MsgClaimArkeoResponse_switch :: "('w, 'r) wire \<Rightarrow> u32 \<Rightarrow> MsgClaimArkeoResponse \<Rightarrow> (MsgClaimArkeoResponse, 'r) action" where
  "MsgClaimArkeoResponse_switch L tag message = js_switch (drop_bit 3 tag)
    [(1, when_tag tag 10 (readf (r_string L) (\<lambda>v. message\<lparr>MsgClaimArkeoResponse.address := v\<rparr>))),
     (2, when_tag tag 16 (readf (num64 (r_int64 L)) (\<lambda>v. message\<lparr>MsgClaimArkeoResponse.amount := v\<rparr>)))]
    break_out"

definition decode_MsgClaimArkeoResponse :: "('w, 'r) wire \<Rightarrow> 'r input \<Rightarrow> nat option \<Rightarrow> (MsgClaimArkeoResponse \<times> 'r) result" where
  "decode_MsgClaimArkeoResponse L = decode_msg L (MsgClaimArkeoResponse_switch L) createBase_MsgClaimArkeoResponse"

definition fromJSON_MsgClaimArkeoResponse :: "host \<Rightarrow> jsval \<Rightarrow> MsgClaimArkeoResponse result" where
  "fromJSON_MsgClaimArkeoResponse h object =
     bindE (fieldE object ''address'' (stringE h) []) (\<lambda>v_address.
     bindE (fieldE object ''amount'' (numberE h) (Num 0)) (\<lambda>v_amount.
     Inr \<lparr>MsgClaimArkeoResponse.address = v_address, MsgClaimArkeoResponse.amount = v_amount\<rparr>))"

definition toJSON_MsgClaimArkeoResponse :: "host \<Rightarrow> MsgClaimArkeoResponse \<Rightarrow> jsval result" where
  "toJSON_MsgClaimArkeoResponse h message = objE
    [jfieldE (MsgClaimArkeoResponse.address message \<noteq> []) ''address'' (Inr (JString (MsgClaimArkeoResponse.address message))),
     jfieldE (MsgClaimArkeoResponse.amount message \<noteq> Num 0) ''amount'' (Inr (JNumber (Math_round (MsgClaimArkeoResponse.amount message))))]"

record MsgClaimArkeoResponse_Partial =
  address :: "jsstring option"
  amount :: "number option"

definition MsgClaimArkeoResponse_empty :: MsgClaimArkeoResponse_Partial where
  "MsgClaimArkeoResponse_empty = \<lparr>MsgClaimArkeoResponse_Partial.address = None, MsgClaimArkeoResponse_Partial.amount = None\<rparr>"

definition fromPartial_MsgClaimArkeoResponse :: "MsgClaimArkeoResponse_Partial \<Rightarrow> MsgClaimArkeoResponse" where
  "fromPartial_MsgClaimArkeoResponse object = createBase_MsgClaimArkeoResponse\<lparr>MsgClaimArkeoResponse.address := nullish (MsgClaimArkeoResponse_Partial.address object) [],
     MsgClaimArkeoResponse.amount := nullish (MsgClaimArkeoResponse_Partial.amount object) (Num 0)\<rparr>"

definition create_MsgClaimArkeoResponse :: "MsgClaimArkeoResponse_Partial option \<Rightarrow> MsgClaimArkeoResponse" where
  "create_MsgClaimArkeoResponse base = fromPartial_MsgClaimArkeoResponse (nullish base MsgClaimArkeoResponse_empty)"

text \<open>A partial message that sets every field.\<close>

definition partial_of_MsgClaimArkeoResponse :: "MsgClaimArkeoResponse \<Rightarrow> MsgClaimArkeoResponse_Partial" where
  "partial_of_MsgClaimArkeoResponse m =
     \<lparr>MsgClaimArkeoResponse_Partial.address = Some (MsgClaimArkeoResponse.address m),
      MsgClaimArkeoResponse_Partial.amount = Some (MsgClaimArkeoResponse.amount m)\<rparr>"

definition ok_MsgClaimArkeoResponse :: "MsgClaimArkeoResponse \<Rightarrow> bool" where
  "ok_MsgClaimArkeoResponse m \<longleftrightarrow> safe_int (MsgClaimArkeoResponse.amount m)"

definition wf_MsgClaimArkeoResponse :: "('w, 'r) wire \<Rightarrow> MsgClaimArkeoResponse \<Rightarrow> bool" where
  "wf_MsgClaimArkeoResponse L m \<longleftrightarrow> wire_string (MsgClaimArkeoResponse.address m)
     \<and> safe_int (MsgClaimArkeoResponse.amount m)"

definition wfj_MsgClaimArkeoResponse :: "MsgClaimArkeoResponse \<Rightarrow> bool" where
  "wfj_MsgClaimArkeoResponse m \<longleftrightarrow> whole (MsgClaimArkeoResponse.amount m)"

subsection \<open>MsgTransferClaim\<close>

record MsgTransferClaim =
  creator :: jsstring
  toAddress :: jsstring

definition createBase_MsgTransferClaim :: MsgTransferClaim where
  "createBase_MsgTransferClaim = \<lparr>MsgTransferClaim.creator = [],
     MsgTransferClaim.toAddress = []\<rparr>"

definition encode_MsgTransferClaim :: "('w, 'r) wire \<Rightarrow> MsgTransferClaim \<Rightarrow> 'w \<Rightarrow> 'w result" where
  "encode_MsgTransferClaim L message = seqE
    [whenE (MsgTransferClaim.creator message \<noteq> []) (seqE [w_uint32 L 10, w_string L (MsgTransferClaim.creator message)]),
     whenE (MsgTransferClaim.toAddress message \<noteq> []) (seqE [w_uint32 L 18, w_string L (MsgTransferClaim.toAddress message)])]"

definition MsgTransferClaim_switch :: "('w, 'r) wire \<Rightarrow> u32 \<Rightarrow> MsgTransferClaim \<Rightarrow> (MsgTransferClaim, 'r) action" where
  "MsgTransferClaim_switch L tag message = js_switch (drop_bit 3 tag)
    [(1, when_tag tag 10 (readf (r_string L) (\<lambda>v. message\<lparr>MsgTransferClaim.creator := v\<rparr>))),
     (2, when_tag tag 18 (readf (r_string L) (\<lambda>v. message\<lparr>MsgTransferClaim.toAddress := v\<rparr>)))]
    break_out"

definition decode_MsgTransferClaim :: "('w, 'r) wire \<Rightarrow> 'r input \<Rightarrow> nat option \<Rightarrow> (MsgTransferClaim \<times> 'r) result" where
  "decode_MsgTransferClaim L = decode_msg L (MsgTransferClaim_switch L) createBase_MsgTransferClaim"

definition fromJSON_MsgTransferClaim :: "host \<Rightarrow> jsval \<Rightarrow> MsgTransferClaim result" where
  "fromJSON_MsgTransferClaim h object =
     bindE (fieldE object ''creator'' (stringE h) []) (\<lambda>v_creator.
     bindE (fieldE object ''toAddress'' (stringE h) []) (\<lambda>v_toAddress.
     Inr \<lparr>MsgTransferClaim.creator = v_creator, MsgTransferClaim.toAddress = v_toAddress\<rparr>))"

definition toJSON_MsgTransferClaim :: "host \<Rightarrow> MsgTransferClaim \<Rightarrow> jsval result" where
  "toJSON_MsgTransferClaim h message = objE
    [jfieldE (MsgTransferClaim.creator message \<noteq> []) ''creator'' (Inr (JString (MsgTransferClaim.creator message))),
     jfieldE (MsgTransferClaim.toAddress message \<noteq> []) ''toAddress'' (Inr (JString (MsgTransferClaim.toAddress message)))]"

record MsgTransferClaim_Partial =
  creator :: "jsstring option"
  toAddress :: "jsstring option"

definition MsgTransferClaim_empty :: MsgTransferClaim_Partial where
  "MsgTransferClaim_empty = \<lparr>MsgTransferClaim_Partial.creator = None, MsgTransferClaim_Partial.toAddress = None\<rparr>"

definition fromPartial_MsgTransferClaim :: "MsgTransferClaim_Partial \<Rightarrow> MsgTransferClaim" where
  "fromPartial_MsgTransferClaim object = createBase_MsgTransferClaim\<lparr>MsgTransferClaim.creator := nullish (MsgTransferClaim_Partial.creator object) [],
     MsgTransferClaim.toAddress := nullish (MsgTransferClaim_Partial.toAddress object) []\<rparr>"

definition create_MsgTransferClaim :: "MsgTransferClaim_Partial option \<Rightarrow> MsgTransferClaim" where
  "create_MsgTransferClaim base = fromPartial_MsgTransferClaim (nullish base MsgTransferClaim_empty)"

text \<open>A partial message that sets every field.\<close>

definition partial_of_MsgTransferClaim :: "MsgTransferClaim \<Rightarrow> MsgTransferClaim_Partial" where
  "partial_of_MsgTransferClaim m =
     \<lparr>MsgTransferClaim_Partial.creator = Some (MsgTransferClaim.creator m),
      MsgTransferClaim_Partial.toAddress = Some (MsgTransferClaim.toAddress m)\<rparr>"

definition ok_MsgTransferClaim :: "MsgTransferClaim \<Rightarrow> bool" where
  "ok_MsgTransferClaim m \<longleftrightarrow> True"

definition wf_MsgTransferClaim :: "('w, 'r) wire \<Rightarrow> MsgTransferClaim \<Rightarrow> bool" where
  "wf_MsgTransferClaim L m \<longleftrightarrow> wire_string (MsgTransferClaim.creator m)
     \<and> wire_string (MsgTransferClaim.toAddress m)"

definition wfj_MsgTransferClaim :: "MsgTransferClaim \<Rightarrow> bool" where
  "wfj_MsgTransferClaim m \<longleftrightarrow> True"

subsection \<open>MsgTransferClaimResponse\<close>

datatype MsgTransferClaimResponse = MsgTransferClaimResponse

definition createBase_MsgTransferClaimResponse :: MsgTransferClaimResponse where
  "createBase_MsgTransferClaimResponse = MsgTransferClaimResponse"

definition encode_MsgTransferClaimResponse :: "('w, 'r) wire \<Rightarrow> MsgTransferClaimResponse \<Rightarrow> 'w \<Rightarrow> 'w result" where
  "encode_MsgTransferClaimResponse L message = seqE
    []"

definition MsgTransferClaimResponse_switch :: "('w, 'r) wire \<Rightarrow> u32 \<Rightarrow> MsgTransferClaimResponse \<Rightarrow> (MsgTransferClaimResponse, 'r) action" where
  "MsgTransferClaimResponse_switch L tag message = js_switch (drop_bit 3 tag)
    []
    break_out"

definition decode_MsgTransferClaimResponse :: "('w, 'r) wire \<Rightarrow> 'r input \<Rightarrow> nat option \<Rightarrow> (MsgTransferClaimResponse \<times> 'r) result" where
  "decode_MsgTransferClaimResponse L = decode_msg L (MsgTransferClaimResponse_switch L) createBase_MsgTransferClaimResponse"

definition fromJSON_MsgTransferClaimResponse :: "host \<Rightarrow> jsval \<Rightarrow> MsgTransferClaimResponse result" where
  "fromJSON_MsgTransferClaimResponse h object = Inr MsgTransferClaimResponse"

definition toJSON_MsgTransferClaimResponse :: "host \<Rightarrow> MsgTransferClaimResponse \<Rightarrow> jsval result" where
  "toJSON_MsgTransferClaimResponse h message = objE []"

text \<open>There is nothing to set: a partial message is the empty object too.\<close>

definition fromPartial_MsgTransferClaimResponse :: "MsgTransferClaimResponse \<Rightarrow> MsgTransferClaimResponse" where
  "fromPartial_MsgTransferClaimResponse object = createBase_MsgTransferClaimResponse"

definition create_MsgTransferClaimResponse :: "MsgTransferClaimResponse option \<Rightarrow> MsgTransferClaimResponse" where
  "create_MsgTransferClaimResponse base = fromPartial_MsgTransferClaimResponse (nullish base MsgTransferClaimResponse)"

definition ok_MsgTransferClaimResponse :: "MsgTransferClaimResponse \<Rightarrow> bool" where
  "ok_MsgTransferClaimResponse m \<longleftrightarrow> True"

definition wf_MsgTransferClaimResponse :: "('w, 'r) wire \<Rightarrow> MsgTransferClaimResponse \<Rightarrow> bool" where
  "wf_MsgTransferClaimResponse L m \<longleftrightarrow> True"

definition wfj_MsgTransferClaimResponse :: "MsgTransferClaimResponse \<Rightarrow> bool" where
  "wfj_MsgTransferClaimResponse m \<longleftrightarrow> True"

subsection \<open>MsgAddClaim\<close>

record MsgAddClaim =
  creator :: jsstring
  chain :: Chain
  address :: jsstring
  amount :: number

definition createBase_MsgAddClaim :: MsgAddClaim where
  "createBase_MsgAddClaim = \<lparr>MsgAddClaim.creator = [],
     MsgAddClaim.chain = Num 0,
     MsgAddClaim.address = [],
     MsgAddClaim.amount = Num 0\<rparr>"

definition encode_MsgAddClaim :: "('w, 'r) wire \<Rightarrow> MsgAddClaim \<Rightarrow> 'w \<Rightarrow> 'w result" where
  "encode_MsgAddClaim L message = seqE
    [whenE (MsgAddClaim.creator message \<noteq> []) (seqE [w_uint32 L 10, w_string L (MsgAddClaim.creator message)]),
     whenE (MsgAddClaim.chain message \<noteq> Num 0) (seqE [w_uint32 L 16, w_int32 L (MsgAddClaim.chain message)]),
     whenE (MsgAddClaim.address message \<noteq> []) (seqE [w_uint32 L 26, w_string L (MsgAddClaim.address message)]),
     whenE (MsgAddClaim.amount message \<noteq> Num 0) (seqE [w_uint32 L 32, w_int64 L (MsgAddClaim.amount message)])]"

definition MsgAddClaim_switch :: "('w, 'r) wire \<Rightarrow> u32 \<Rightarrow> MsgAddClaim \<Rightarrow> (MsgAddClaim, 'r) action" where
  "MsgAddClaim_switch L tag message = js_switch (drop_bit 3 tag)
    [(1, when_tag tag 10 (readf (r_string L) (\<lambda>v. message\<lparr>MsgAddClaim.creator := v\<rparr>))),
     (2, when_tag tag 16 (readf (num32 (r_int32 L)) (\<lambda>v. message\<lparr>MsgAddClaim.chain := v\<rparr>))),
     (3, when_tag tag 26 (readf (r_string L) (\<lambda>v. message\<lparr>MsgAddClaim.address := v\<rparr>))),
     (4, when_tag tag 32 (readf (num64 (r_int64 L)) (\<lambda>v. message\<lparr>MsgAddClaim.amount := v\<rparr>)))]
    break_out"

definition decode_MsgAddClaim :: "('w, 'r) wire \<Rightarrow> 'r input \<Rightarrow> nat option \<Rightarrow> (MsgAddClaim \<times> 'r) result" where
  "decode_MsgAddClaim L = decode_msg L (MsgAddClaim_switch L) createBase_MsgAddClaim"

definition fromJSON_MsgAddClaim :: "host \<Rightarrow> jsval \<Rightarrow> MsgAddClaim result" where
  "fromJSON_MsgAddClaim h object =
     bindE (fieldE object ''creator'' (stringE h) []) (\<lambda>v_creator.
     bindE (fieldE object ''chain'' (enumE chainFromJSON) (Num 0)) (\<lambda>v_chain.
     bindE (fieldE object ''address'' (stringE h) []) (\<lambda>v_address.
     bindE (fieldE object ''amount'' (numberE h) (Num 0)) (\<lambda>v_amount.
     Inr \<lparr>MsgAddClaim.creator = v_creator, MsgAddClaim.chain = v_chain, MsgAddClaim.address = v_address, MsgAddClaim.amount = v_amount\<rparr>))))"

definition toJSON_MsgAddClaim :: "host \<Rightarrow> MsgAddClaim \<Rightarrow> jsval result" where
  "toJSON_MsgAddClaim h message = objE
    [jfieldE (MsgAddClaim.creator message \<noteq> []) ''creator'' (Inr (JString (MsgAddClaim.creator message))),
     jfieldE (MsgAddClaim.chain message \<noteq> Num 0) ''chain'' (Inr (JString (chainToJSON (MsgAddClaim.chain message)))),
     jfieldE (MsgAddClaim.address message \<noteq> []) ''address'' (Inr (JString (MsgAddClaim.address message))),
     jfieldE (MsgAddClaim.amount message \<noteq> Num 0) ''amount'' (Inr (JNumber (Math_round (MsgAddClaim.amount message))))]"

record MsgAddClaim_Partial =
  creator :: "jsstring option"
  chain :: "Chain option"
  address :: "jsstring option"
  amount :: "number option"

definition MsgAddClaim_empty :: MsgAddClaim_Partial where
  "MsgAddClaim_empty = \<lparr>MsgAddClaim_Partial.creator = None, MsgAddClaim_Partial.chain = None, MsgAddClaim_Partial.address = None, MsgAddClaim_Partial.amount = None\<rparr>"

definition fromPartial_MsgAddClaim :: "MsgAddClaim_Partial \<Rightarrow> MsgAddClaim" where
  "fromPartial_MsgAddClaim object = createBase_MsgAddClaim\<lparr>MsgAddClaim.creator := nullish (MsgAddClaim_Partial.creator object) [],
     MsgAddClaim.chain := nullish (MsgAddClaim_Partial.chain object) (Num 0),
     MsgAddClaim.address := nullish (MsgAddClaim_Partial.address object) [],
     MsgAddClaim.amount := nullish (MsgAddClaim_Partial.amount object) (Num 0)\<rparr>"

definition create_MsgAddClaim :: "MsgAddClaim_Partial option \<Rightarrow> MsgAddClaim" where
  "create_MsgAddClaim base = fromPartial_MsgAddClaim (nullish base MsgAddClaim_empty)"

text \<open>A partial message that sets every field.\<close>

definition partial_of_MsgAddClaim :: "MsgAddClaim \<Rightarrow> MsgAddClaim_Partial" where
  "partial_of_MsgAddClaim m =
     \<lparr>MsgAddClaim_Partial.creator = Some (MsgAddClaim.creator m),
      MsgAddClaim_Partial.chain = Some (MsgAddClaim.chain m),
      MsgAddClaim_Partial.address = Some (MsgAddClaim.address m),
      MsgAddClaim_Partial.amount = Some (MsgAddClaim.amount m)\<rparr>"

definition ok_MsgAddClaim :: "MsgAddClaim \<Rightarrow> bool" where
  "ok_MsgAddClaim m \<longleftrightarrow> int32_num (MsgAddClaim.chain m)
     \<and> safe_int (MsgAddClaim.amount m)"

definition wf_MsgAddClaim :: "('w, 'r) wire \<Rightarrow> MsgAddClaim \<Rightarrow> bool" where
  "wf_MsgAddClaim L m \<longleftrightarrow> wire_string (MsgAddClaim.creator m)
     \<and> int32_num (MsgAddClaim.chain m)
     \<and> wire_string (MsgAddClaim.address m)
     \<and> safe_int (MsgAddClaim.amount m)"

definition wfj_MsgAddClaim :: "MsgAddClaim \<Rightarrow> bool" where
  "wfj_MsgAddClaim m \<longleftrightarrow> Chain_known (MsgAddClaim.chain m)
     \<and> whole (MsgAddClaim.amount m)"

subsection \<open>MsgAddClaimResponse\<close>

datatype MsgAddClaimResponse = MsgAddClaimResponse

definition createBase_MsgAddClaimResponse :: MsgAddClaimResponse where
  "createBase_MsgAddClaimResponse = MsgAddClaimResponse"

definition encode_MsgAddClaimResponse :: "('w, 'r) wire \<Rightarrow> MsgAddClaimResponse \<Rightarrow> 'w \<Rightarrow> 'w result" where
  "encode_MsgAddClaimResponse L message = seqE
    []"

definition MsgAddClaimResponse_switch :: "('w, 'r) wire \<Rightarrow> u32 \<Rightarrow> MsgAddClaimResponse \<Rightarrow> (MsgAddClaimResponse, 'r) action" where
  "MsgAddClaimResponse_switch L tag message = js_switch (drop_bit 3 tag)
    []
    break_out"

definition decode_MsgAddClaimResponse :: "('w, 'r) wire \<Rightarrow> 'r input \<Rightarrow> nat option \<Rightarrow> (MsgAddClaimResponse \<times> 'r) result" where
  "decode_MsgAddClaimResponse L = decode_msg L (MsgAddClaimResponse_switch L) createBase_MsgAddClaimResponse"

definition fromJSON_MsgAddClaimResponse :: "host \<Rightarrow> jsval \<Rightarrow> MsgAddClaimResponse result" where
  "fromJSON_MsgAddClaimResponse h object = Inr MsgAddClaimResponse"

definition toJSON_MsgAddClaimResponse :: "host \<Rightarrow> MsgAddClaimResponse \<Rightarrow> jsval result" where
  "toJSON_MsgAddClaimResponse h message = objE []"

text \<open>There is nothing to set: a partial message is the empty object too.\<close>

definition fromPartial_MsgAddClaimResponse :: "MsgAddClaimResponse \<Rightarrow> MsgAddClaimResponse" where
  "fromPartial_MsgAddClaimResponse object = createBase_MsgAddClaimResponse"

definition create_MsgAddClaimResponse :: "MsgAddClaimResponse option \<Rightarrow> MsgAddClaimResponse" where
  "create_MsgAddClaimResponse base = fromPartial_MsgAddClaimResponse (nullish base MsgAddClaimResponse)"

definition ok_MsgAddClaimResponse :: "MsgAddClaimResponse \<Rightarrow> bool" where
  "ok_MsgAddClaimResponse m \<longleftrightarrow> True"

definition wf_MsgAddClaimResponse :: "('w, 'r) wire \<Rightarrow> MsgAddClaimResponse \<Rightarrow> bool" where
  "wf_MsgAddClaimResponse L m \<longleftrightarrow> True"

definition wfj_MsgAddClaimResponse :: "MsgAddClaimResponse \<Rightarrow> bool" where
  "wfj_MsgAddClaimResponse m \<longleftrightarrow> True"

subsection \<open>MsgClaimThorchain\<close>

record MsgClaimThorchain =
  creator :: jsstring
  fromAddress :: jsstring
  toAddress :: jsstring

definition createBase_MsgClaimThorchain :: MsgClaimThorchain where
  "createBase_MsgClaimThorchain = \<lparr>MsgClaimThorchain.creator = [],
     MsgClaimThorchain.fromAddress = [],
     MsgClaimThorchain.toAddress = []\<rparr>"

definition encode_MsgClaimThorchain :: "('w, 'r) wire \<Rightarrow> MsgClaimThorchain \<Rightarrow> 'w \<Rightarrow> 'w result" where
  "encode_MsgClaimThorchain L message = seqE
    [whenE (MsgClaimThorchain.creator message \<noteq> []) (seqE [w_uint32 L 10, w_string L (MsgClaimThorchain.creator message)]),
     whenE (MsgClaimThorchain.fromAddress message \<noteq> []) (seqE [w_uint32 L 18, w_string L (MsgClaimThorchain.fromAddress message)]),
     whenE (MsgClaimThorchain.toAddress message \<noteq> []) (seqE [w_uint32 L 26, w_string L (MsgClaimThorchain.toAddress message)])]"

definition MsgClaimThorchain_switch :: "('w, 'r) wire \<Rightarrow> u32 \<Rightarrow> MsgClaimThorchain \<Rightarrow> (MsgClaimThorchain, 'r) action" where
  "MsgClaimThorchain_switch L tag message = js_switch (drop_bit 3 tag)
    [(1, when_tag tag 10 (readf (r_string L) (\<lambda>v. message\<lparr>MsgClaimThorchain.creator := v\<rparr>))),
     (2, when_tag tag 18 (readf (r_string L) (\<lambda>v. message\<lparr>MsgClaimThorchain.fromAddress := v\<rparr>))),
     (3, when_tag tag 26 (readf (r_string L) (\<lambda>v. message\<lparr>MsgClaimThorchain.toAddress := v\<rparr>)))]
    break_out"

definition decode_MsgClaimThorchain :: "('w, 'r) wire \<Rightarrow> 'r input \<Rightarrow> nat option \<Rightarrow> (MsgClaimThorchain \<times> 'r) result" where
  "decode_MsgClaimThorchain L = decode_msg L (MsgClaimThorchain_switch L) createBase_MsgClaimThorchain"

definition fromJSON_MsgClaimThorchain :: "host \<Rightarrow> jsval \<Rightarrow> MsgClaimThorchain result" where
  "fromJSON_MsgClaimThorchain h object =
     bindE (fieldE object ''creator'' (stringE h) []) (\<lambda>v_creator.
     bindE (fieldE object ''fromAddress'' (stringE h) []) (\<lambda>v_fromAddress.
     bindE (fieldE object ''toAddress'' (stringE h) []) (\<lambda>v_toAddress.
     Inr \<lparr>MsgClaimThorchain.creator = v_creator, MsgClaimThorchain.fromAddress = v_fromAddress, MsgClaimThorchain.toAddress = v_toAddress\<rparr>)))"

definition toJSON_MsgClaimThorchain :: "host \<Rightarrow> MsgClaimThorchain \<Rightarrow> jsval result" where
  "toJSON_MsgClaimThorchain h message = objE
    [jfieldE (MsgClaimThorchain.creator message \<noteq> []) ''creator'' (Inr (JString (MsgClaimThorchain.creator message))),
     jfieldE (MsgClaimThorchain.fromAddress message \<noteq> []) ''fromAddress'' (Inr (JString (MsgClaimThorchain.fromAddress message))),
     jfieldE (MsgClaimThorchain.toAddress message \<noteq> []) ''toAddress'' (Inr (JString (MsgClaimThorchain.toAddress message)))]"

record MsgClaimThorchain_Partial =
  creator :: "jsstring option"
  fromAddress :: "jsstring option"
  toAddress :: "jsstring option"

definition MsgClaimThorchain_empty :: MsgClaimThorchain_Partial where
  "MsgClaimThorchain_empty = \<lparr>MsgClaimThorchain_Partial.creator = None, MsgClaimThorchain_Partial.fromAddress = None, MsgClaimThorchain_Partial.toAddress = None\<rparr>"

definition fromPartial_MsgClaimThorchain :: "MsgClaimThorchain_Partial \<Rightarrow> MsgClaimThorchain" where
  "fromPartial_MsgClaimThorchain object = createBase_MsgClaimThorchain\<lparr>MsgClaimThorchain.creator := nullish (MsgClaimThorchain_Partial.creator object) [],
     MsgClaimThorchain.fromAddress := nullish (MsgClaimThorchain_Partial.fromAddress object) [],
     MsgClaimThorchain.toAddress := nullish (MsgClaimThorchain_Partial.toAddress object) []\<rparr>"

definition create_MsgClaimThorchain :: "MsgClaimThorchain_Partial option \<Rightarrow> MsgClaimThorchain" where
  "create_MsgClaimThorchain base = fromPartial_MsgClaimThorchain (nullish base MsgClaimThorchain_empty)"

text \<open>A partial message that sets every field.\<close>

definition partial_of_MsgClaimThorchain :: "MsgClaimThorchain \<Rightarrow> MsgClaimThorchain_Partial" where
  "partial_of_MsgClaimThorchain m =
     \<lparr>MsgClaimThorchain_Partial.creator = Some (MsgClaimThorchain.creator m),
      MsgClaimThorchain_Partial.fromAddress = Some (MsgClaimThorchain.fromAddress m),
      MsgClaimThorchain_Partial.toAddress = Some (MsgClaimThorchain.toAddress m)\<rparr>"

definition ok_MsgClaimThorchain :: "MsgClaimThorchain \<Rightarrow> bool" where
  "ok_MsgClaimThorchain m \<longleftrightarrow> True"

definition wf_MsgClaimThorchain :: "('w, 'r) wire \<Rightarrow> MsgClaimThorchain \<Rightarrow> bool" where
  "wf_MsgClaimThorchain L m \<longleftrightarrow> wire_string (MsgClaimThorchain.creator m)
     \<and> wire_string (MsgClaimThorchain.fromAddress m)
     \<and> wire_string (MsgClaimThorchain.toAddress m)"

definition wfj_MsgClaimThorchain :: "MsgClaimThorchain \<Rightarrow> bool" where
  "wfj_MsgClaimThorchain m \<longleftrightarrow> True"

subsection \<open>MsgClaimThorchainResponse\<close>

record MsgClaimThorchainResponse =
  fromAddress :: jsstring
  toAddress :: jsstring

definition createBase_MsgClaimThorchainResponse :: MsgClaimThorchainResponse where
  "createBase_MsgClaimThorchainResponse = \<lparr>MsgClaimThorchainResponse.fromAddress = [],
     MsgClaimThorchainResponse.toAddress = []\<rparr>"

definition encode_MsgClaimThorchainResponse :: "('w, 'r) wire \<Rightarrow> MsgClaimThorchainResponse \<Rightarrow> 'w \<Rightarrow> 'w result" where
  "encode_MsgClaimThorchainResponse L message = seqE
    [whenE (MsgClaimThorchainResponse.fromAddress message \<noteq> []) (seqE [w_uint32 L 10, w_string L (MsgClaimThorchainResponse.fromAddress message)]),
     whenE (MsgClaimThorchainResponse.toAddress message \<noteq> []) (seqE [w_uint32 L 18, w_string L (MsgClaimThorchainResponse.toAddress message)])]"

definition MsgClaimThorchainResponse_switch :: "('w, 'r) wire \<Rightarrow> u32 \<Rightarrow> MsgClaimThorchainResponse \<Rightarrow> (MsgClaimThorchainResponse, 'r) action" where
  "MsgClaimThorchainResponse_switch L tag message = js_switch (drop_bit 3 tag)
    [(1, when_tag tag 10 (readf (r_string L) (\<lambda>v. message\<lparr>MsgClaimThorchainResponse.fromAddress := v\<rparr>))),
     (2, when_tag tag 18 (readf (r_string L) (\<lambda>v. message\<lparr>MsgClaimThorchainResponse.toAddress := v\<rparr>)))]
    break_out"

definition decode_MsgClaimThorchainResponse :: "('w, 'r) wire \<Rightarrow> 'r input \<Rightarrow> nat option \<Rightarrow> (MsgClaimThorchainResponse \<times> 'r) result" where
  "decode_MsgClaimThorchainResponse L = decode_msg L (MsgClaimThorchainResponse_switch L) createBase_MsgClaimThorchainResponse"

definition fromJSON_MsgClaimThorchainResponse :: "host \<Rightarrow> jsval \<Rightarrow> MsgClaimThorchainResponse result" where
  "fromJSON_MsgClaimThorchainResponse h object =
     bindE (fieldE object ''fromAddress'' (stringE h) []) (\<lambda>v_fromAddress.
     bindE (fieldE object ''toAddress'' (stringE h) []) (\<lambda>v_toAddress.
     Inr \<lparr>MsgClaimThorchainResponse.fromAddress = v_fromAddress, MsgClaimThorchainResponse.toAddress = v_toAddress\<rparr>))"

definition toJSON_MsgClaimThorchainResponse :: "host \<Rightarrow> MsgClaimThorchainResponse \<Rightarrow> jsval result" where
  "toJSON_MsgClaimThorchainResponse h message = objE
    [jfieldE (MsgClaimThorchainResponse.fromAddress message \<noteq> []) ''fromAddress'' (Inr (JString (MsgClaimThorchainResponse.fromAddress message))),
     jfieldE (MsgClaimThorchainResponse.toAddress message \<noteq> []) ''toAddress'' (Inr (JString (MsgClaimThorchainResponse.toAddress message)))]"

record MsgClaimThorchainResponse_Partial =
  fromAddress :: "jsstring option"
  toAddress :: "jsstring option"

definition MsgClaimThorchainResponse_empty :: MsgClaimThorchainResponse_Partial where
  "MsgClaimThorchainResponse_empty = \<lparr>MsgClaimThorchainResponse_Partial.fromAddress = None, MsgClaimThorchainResponse_Partial.toAddress = None\<rparr>"

definition fromPartial_MsgClaimThorchainResponse :: "MsgClaimThorchainResponse_Partial \<Rightarrow> MsgClaimThorchainResponse" where
  "fromPartial_MsgClaimThorchainResponse object = createBase_MsgClaimThorchainResponse\<lparr>MsgClaimThorchainResponse.fromAddress := nullish (MsgClaimThorchainResponse_Partial.fromAddress object) [],
     MsgClaimThorchainResponse.toAddress := nullish (MsgClaimThorchainResponse_Partial.toAddress object) []\<rparr>"

definition create_MsgClaimThorchainResponse :: "MsgClaimThorchainResponse_Partial option \<Rightarrow> MsgClaimThorchainResponse" where
  "create_MsgClaimThorchainResponse base = fromPartial_MsgClaimThorchainResponse (nullish base MsgClaimThorchainResponse_empty)"

text \<open>A partial message that sets every field.\<close>

definition partial_of_MsgClaimThorchainResponse :: "MsgClaimThorchainResponse \<Rightarrow> MsgClaimThorchainResponse_Partial" where
  "partial_of_MsgClaimThorchainResponse m =
     \<lparr>MsgClaimThorchainResponse_Partial.fromAddress = Some (MsgClaimThorchainResponse.fromAddress m),
      MsgClaimThorchainResponse_Partial.toAddress = Some (MsgClaimThorchainResponse.toAddress m)\<rparr>"

definition ok_MsgClaimThorchainResponse :: "MsgClaimThorchainResponse \<Rightarrow> bool" where
  "ok_MsgClaimThorchainResponse m \<longleftrightarrow> True"

definition wf_MsgClaimThorchainResponse :: "('w, 'r) wire \<Rightarrow> MsgClaimThorchainResponse \<Rightarrow> bool" where
  "wf_MsgClaimThorchainResponse L m \<longleftrightarrow> wire_string (MsgClaimThorchainResponse.fromAddress m)
     \<and> wire_string (MsgClaimThorchainResponse.toAddress m)"

definition wfj_MsgClaimThorchainResponse :: "MsgClaimThorchainResponse \<Rightarrow> bool" where
  "wfj_MsgClaimThorchainResponse m \<longleftrightarrow> True"


section \<open>Encoding, decoding and JSON of these messages\<close>

lemma MsgClaimEth_tags:
  "MsgClaimEth_switch L 10 m = readf (r_string L) (\<lambda>v. m\<lparr>MsgClaimEth.creator := v\<rparr>)"
  "MsgClaimEth_switch L 18 m = readf (r_string L) (\<lambda>v. m\<lparr>MsgClaimEth.ethAddress := v\<rparr>)"
  "MsgClaimEth_switch L 26 m = readf (r_string L) (\<lambda>v. m\<lparr>MsgClaimEth.signature := v\<rparr>)"
  by (simp_all add: MsgClaimEth_switch_def when_tag_def)

lemma fromPartial_partial_of_MsgClaimEth [simp]: "fromPartial_MsgClaimEth (partial_of_MsgClaimEth m) = m"
  by (simp add: fromPartial_MsgClaimEth_def partial_of_MsgClaimEth_def createBase_MsgClaimEth_def partial_map_def option.map_comp o_def option.map_ident)

lemma create_MsgClaimEth_None [simp]: "create_MsgClaimEth None = createBase_MsgClaimEth"
  by (simp add: create_MsgClaimEth_def fromPartial_MsgClaimEth_def MsgClaimEth_empty_def createBase_MsgClaimEth_def partial_map_def)

sublocale wire_laws \<subseteq> MsgClaimEth_codec: message_codec L F out inp "encode_MsgClaimEth L" "MsgClaimEth_switch L" createBase_MsgClaimEth "wf_MsgClaimEth L"
proof unfold_locales
  show good: "good_sw (MsgClaimEth_switch L)"
    unfolding MsgClaimEth_switch_def by (intro good_swI fwd_rules)
  fix m assume "wf_MsgClaimEth L m"
  then show "codes (MsgClaimEth_switch L) (encode_MsgClaimEth L m) createBase_MsgClaimEth m"
    unfolding encode_MsgClaimEth_def wf_MsgClaimEth_def
    by (elim conjE)
      (rule codes_Cons codes_Nil [OF MsgClaimEth.equality] codec_rules
        codes_when [where tag = 10 and u = MsgClaimEth.creator_update and op = "r_string L", OF good]
        codes_when [where tag = 18 and u = MsgClaimEth.ethAddress_update and op = "r_string L", OF good]
        codes_when [where tag = 26 and u = MsgClaimEth.signature_update and op = "r_string L", OF good]
      | assumption | (simp add: MsgClaimEth_tags createBase_MsgClaimEth_def; fail))+
qed

sublocale wire_laws \<subseteq> MsgClaimEth_range: message_range L F out inp "MsgClaimEth_switch L" createBase_MsgClaimEth ok_MsgClaimEth
proof unfold_locales
  show "ok_MsgClaimEth createBase_MsgClaimEth" by (simp add: ok_MsgClaimEth_def createBase_MsgClaimEth_def)
  fix m tag assume "ok_MsgClaimEth m"
  then show "keeps ok_MsgClaimEth (MsgClaimEth_switch L tag m)"
    unfolding MsgClaimEth_switch_def by - (rule range_rules | (simp add: ok_MsgClaimEth_def; fail))+
qed

context wire_laws
begin

lemmas MsgClaimEth_carries [codec_rules] =
  MsgClaimEth_codec.opt_carries [folded decode_MsgClaimEth_def] MsgClaimEth_codec.list_carries [folded decode_MsgClaimEth_def]

lemmas MsgClaimEth_good [fwd_rules] = MsgClaimEth_codec.op_good [folded decode_MsgClaimEth_def]

lemmas MsgClaimEth_yields [range_rules] = MsgClaimEth_range.sub_range [folded decode_MsgClaimEth_def]

lemmas MsgClaimEth_roundtrip = MsgClaimEth_codec.roundtrip [folded decode_MsgClaimEth_def]

lemmas MsgClaimEth_returns = MsgClaimEth_codec.decode_returns [folded decode_MsgClaimEth_def]

lemmas MsgClaimEth_decoded = MsgClaimEth_range.decode_range [folded decode_MsgClaimEth_def]

end

interpretation MsgClaimEth_json: message_json toJSON_MsgClaimEth fromJSON_MsgClaimEth wfj_MsgClaimEth
proof unfold_locales
  fix h m
  assume "wfj_MsgClaimEth m"
  then show "json_rt (toJSON_MsgClaimEth h) (fromJSON_MsgClaimEth h) m"
    unfolding toJSON_MsgClaimEth_def fromJSON_MsgClaimEth_def wfj_MsgClaimEth_def
    by (-) (rule json_rtI json_rules | assumption | (simp; fail))+
qed

lemmas MsgClaimEth_json_rules [json_rules] = MsgClaimEth_json.json_field_rules

lemma MsgClaimEthResponse_tags:
  "MsgClaimEthResponse_switch L 10 m = readf (r_string L) (\<lambda>v. m\<lparr>MsgClaimEthResponse.ethAddress := v\<rparr>)"
  "MsgClaimEthResponse_switch L 18 m = readf (r_string L) (\<lambda>v. m\<lparr>MsgClaimEthResponse.arkeoAddress := v\<rparr>)"
  "MsgClaimEthResponse_switch L 24 m = readf (num64 (r_int64 L)) (\<lambda>v. m\<lparr>MsgClaimEthResponse.ethClaimAmount := v\<rparr>)"
  "MsgClaimEthResponse_switch L 32 m = readf (num64 (r_int64 L)) (\<lambda>v. m\<lparr>MsgClaimEthResponse.arkeoClaimAmount := v\<rparr>)"
  by (simp_all add: MsgClaimEthResponse_switch_def when_tag_def)

lemma fromPartial_partial_of_MsgClaimEthResponse [simp]: "fromPartial_MsgClaimEthResponse (partial_of_MsgClaimEthResponse m) = m"
  by (simp add: fromPartial_MsgClaimEthResponse_def partial_of_MsgClaimEthResponse_def createBase_MsgClaimEthResponse_def partial_map_def option.map_comp o_def option.map_ident)

lemma create_MsgClaimEthResponse_None [simp]: "create_MsgClaimEthResponse None = createBase_MsgClaimEthResponse"
  by (simp add: create_MsgClaimEthResponse_def fromPartial_MsgClaimEthResponse_def MsgClaimEthResponse_empty_def createBase_MsgClaimEthResponse_def partial_map_def)

sublocale wire_laws \<subseteq> MsgClaimEthResponse_codec: message_codec L F out inp "encode_MsgClaimEthResponse L" "MsgClaimEthResponse_switch L" createBase_MsgClaimEthResponse "wf_MsgClaimEthResponse L"
proof unfold_locales
  show good: "good_sw (MsgClaimEthResponse_switch L)"
    unfolding MsgClaimEthResponse_switch_def by (intro good_swI fwd_rules)
  fix m assume "wf_MsgClaimEthResponse L m"
  then show "codes (MsgClaimEthResponse_switch L) (encode_MsgClaimEthResponse L m) createBase_MsgClaimEthResponse m"
    unfolding encode_MsgClaimEthResponse_def wf_MsgClaimEthResponse_def
    by (elim conjE)
      (rule codes_Cons codes_Nil [OF MsgClaimEthResponse.equality] codec_rules
        codes_when [where tag = 10 and u = MsgClaimEthResponse.ethAddress_update and op = "r_string L", OF good]
        codes_when [where tag = 18 and u = MsgClaimEthResponse.arkeoAddress_update and op = "r_string L", OF good]
        codes_when [where tag = 24 and u = MsgClaimEthResponse.ethClaimAmount_update and op = "num64 (r_int64 L)", OF good]
        codes_when [where tag = 32 and u = MsgClaimEthResponse.arkeoClaimAmount_update and op = "num64 (r_int64 L)", OF good]
      | assumption | (simp add: MsgClaimEthResponse_tags createBase_MsgClaimEthResponse_def; fail))+
qed

sublocale wire_laws \<subseteq> MsgClaimEthResponse_range: message_range L F out inp "MsgClaimEthResponse_switch L" createBase_MsgClaimEthResponse ok_MsgClaimEthResponse
proof unfold_locales
  show "ok_MsgClaimEthResponse createBase_MsgClaimEthResponse" by (simp add: ok_MsgClaimEthResponse_def createBase_MsgClaimEthResponse_def)
  fix m tag assume "ok_MsgClaimEthResponse m"
  then show "keeps ok_MsgClaimEthResponse (MsgClaimEthResponse_switch L tag m)"
    unfolding MsgClaimEthResponse_switch_def by - (rule range_rules | (simp add: ok_MsgClaimEthResponse_def; fail))+
qed

context wire_laws
begin

lemmas MsgClaimEthResponse_carries [codec_rules] =
  MsgClaimEthResponse_codec.opt_carries [folded decode_MsgClaimEthResponse_def] MsgClaimEthResponse_codec.list_carries [folded decode_MsgClaimEthResponse_def]

lemmas MsgClaimEthResponse_good [fwd_rules] = MsgClaimEthResponse_codec.op_good [folded decode_MsgClaimEthResponse_def]

lemmas MsgClaimEthResponse_yields [range_rules] = MsgClaimEthResponse_range.sub_range [folded decode_MsgClaimEthResponse_def]

lemmas MsgClaimEthResponse_roundtrip = MsgClaimEthResponse_codec.roundtrip [folded decode_MsgClaimEthResponse_def]

lemmas MsgClaimEthResponse_returns = MsgClaimEthResponse_codec.decode_returns [folded decode_MsgClaimEthResponse_def]

lemmas MsgClaimEthResponse_decoded = MsgClaimEthResponse_range.decode_range [folded decode_MsgClaimEthResponse_def]

end

interpretation MsgClaimEthResponse_json: message_json toJSON_MsgClaimEthResponse fromJSON_MsgClaimEthResponse wfj_MsgClaimEthResponse
proof unfold_locales
  fix h m
  assume "wfj_MsgClaimEthResponse m"
  then show "json_rt (toJSON_MsgClaimEthResponse h) (fromJSON_MsgClaimEthResponse h) m"
    unfolding toJSON_MsgClaimEthResponse_def fromJSON_MsgClaimEthResponse_def wfj_MsgClaimEthResponse_def
    by (elim conjE) (rule json_rtI json_rules | assumption | (simp; fail))+
qed

lemmas MsgClaimEthResponse_json_rules [json_rules] = MsgClaimEthResponse_json.json_field_rules

lemma MsgClaimArkeo_tags:
  "MsgClaimArkeo_switch L 10 m = readf (r_string L) (\<lambda>v. m\<lparr>MsgClaimArkeo.creator := v\<rparr>)"
  by (simp_all add: MsgClaimArkeo_switch_def when_tag_def)

lemma fromPartial_partial_of_MsgClaimArkeo [simp]: "fromPartial_MsgClaimArkeo (partial_of_MsgClaimArkeo m) = m"
  by (simp add: fromPartial_MsgClaimArkeo_def partial_of_MsgClaimArkeo_def createBase_MsgClaimArkeo_def partial_map_def option.map_comp o_def option.map_ident)

lemma create_MsgClaimArkeo_None [simp]: "create_MsgClaimArkeo None = createBase_MsgClaimArkeo"
  by (simp add: create_MsgClaimArkeo_def fromPartial_MsgClaimArkeo_def MsgClaimArkeo_empty_def createBase_MsgClaimArkeo_def partial_map_def)

sublocale wire_laws \<subseteq> MsgClaimArkeo_codec: message_codec L F out inp "encode_MsgClaimArkeo L" "MsgClaimArkeo_switch L" createBase_MsgClaimArkeo "wf_MsgClaimArkeo L"
proof unfold_locales
  show good: "good_sw (MsgClaimArkeo_switch L)"
    unfolding MsgClaimArkeo_switch_def by (intro good_swI fwd_rules)
  fix m assume "wf_MsgClaimArkeo L m"
  then show "codes (MsgClaimArkeo_switch L) (encode_MsgClaimArkeo L m) createBase_MsgClaimArkeo m"
    unfolding encode_MsgClaimArkeo_def wf_MsgClaimArkeo_def
    by (-)
      (rule codes_Cons codes_Nil [OF MsgClaimArkeo.equality] codec_rules
        codes_when [where tag = 10 and u = MsgClaimArkeo.creator_update and op = "r_string L", OF good]
      | assumption | (simp add: MsgClaimArkeo_tags createBase_MsgClaimArkeo_def; fail))+
qed

sublocale wire_laws \<subseteq> MsgClaimArkeo_range: message_range L F out inp "MsgClaimArkeo_switch L" createBase_MsgClaimArkeo ok_MsgClaimArkeo
proof unfold_locales
  show "ok_MsgClaimArkeo createBase_MsgClaimArkeo" by (simp add: ok_MsgClaimArkeo_def createBase_MsgClaimArkeo_def)
  fix m tag assume "ok_MsgClaimArkeo m"
  then show "keeps ok_MsgClaimArkeo (MsgClaimArkeo_switch L tag m)"
    unfolding MsgClaimArkeo_switch_def by - (rule range_rules | (simp add: ok_MsgClaimArkeo_def; fail))+
qed

context wire_laws
begin

lemmas MsgClaimArkeo_carries [codec_rules] =
  MsgClaimArkeo_codec.opt_carries [folded decode_MsgClaimArkeo_def] MsgClaimArkeo_codec.list_carries [folded decode_MsgClaimArkeo_def]

lemmas MsgClaimArkeo_good [fwd_rules] = MsgClaimArkeo_codec.op_good [folded decode_MsgClaimArkeo_def]

lemmas MsgClaimArkeo_yields [range_rules] = MsgClaimArkeo_range.sub_range [folded decode_MsgClaimArkeo_def]

lemmas MsgClaimArkeo_roundtrip = MsgClaimArkeo_codec.roundtrip [folded decode_MsgClaimArkeo_def]

lemmas MsgClaimArkeo_returns = MsgClaimArkeo_codec.decode_returns [folded decode_MsgClaimArkeo_def]

lemmas MsgClaimArkeo_decoded = MsgClaimArkeo_range.decode_range [folded decode_MsgClaimArkeo_def]

end

interpretation MsgClaimArkeo_json: message_json toJSON_MsgClaimArkeo fromJSON_MsgClaimArkeo wfj_MsgClaimArkeo
proof unfold_locales
  fix h m
  assume "wfj_MsgClaimArkeo m"
  then show "json_rt (toJSON_MsgClaimArkeo h) (fromJSON_MsgClaimArkeo h) m"
    unfolding toJSON_MsgClaimArkeo_def fromJSON_MsgClaimArkeo_def wfj_MsgClaimArkeo_def
    by (-) (rule json_rtI json_rules | assumption | (simp; fail))+
qed

lemmas MsgClaimArkeo_json_rules [json_rules] = MsgClaimArkeo_json.json_field_rules

lemma MsgClaimArkeoResponse_tags:
  "MsgClaimArkeoResponse_switch L 10 m = readf (r_string L) (\<lambda>v. m\<lparr>MsgClaimArkeoResponse.address := v\<rparr>)"
  "MsgClaimArkeoResponse_switch L 16 m = readf (num64 (r_int64 L)) (\<lambda>v. m\<lparr>MsgClaimArkeoResponse.amount := v\<rparr>)"
  by (simp_all add: MsgClaimArkeoResponse_switch_def when_tag_def)

lemma fromPartial_partial_of_MsgClaimArkeoResponse [simp]: "fromPartial_MsgClaimArkeoResponse (partial_of_MsgClaimArkeoResponse m) = m"
  by (simp add: fromPartial_MsgClaimArkeoResponse_def partial_of_MsgClaimArkeoResponse_def createBase_MsgClaimArkeoResponse_def partial_map_def option.map_comp o_def option.map_ident)

lemma create_MsgClaimArkeoResponse_None [simp]: "create_MsgClaimArkeoResponse None = createBase_MsgClaimArkeoResponse"
  by (simp add: create_MsgClaimArkeoResponse_def fromPartial_MsgClaimArkeoResponse_def MsgClaimArkeoResponse_empty_def createBase_MsgClaimArkeoResponse_def partial_map_def)

sublocale wire_laws \<subseteq> MsgClaimArkeoResponse_codec: message_codec L F out inp "encode_MsgClaimArkeoResponse L" "MsgClaimArkeoResponse_switch L" createBase_MsgClaimArkeoResponse "wf_MsgClaimArkeoResponse L"
proof unfold_locales
  show good: "good_sw (MsgClaimArkeoResponse_switch L)"
    unfolding MsgClaimArkeoResponse_switch_def by (intro good_swI fwd_rules)
  fix m assume "wf_MsgClaimArkeoResponse L m"
  then show "codes (MsgClaimArkeoResponse_switch L) (encode_MsgClaimArkeoResponse L m) createBase_MsgClaimArkeoResponse m"
    unfolding encode_MsgClaimArkeoResponse_def wf_MsgClaimArkeoResponse_def
    by (elim conjE)
      (rule codes_Cons codes_Nil [OF MsgClaimArkeoResponse.equality] codec_rules
        codes_when [where tag = 10 and u = MsgClaimArkeoResponse.address_update and op = "r_string L", OF good]
        codes_when [where tag = 16 and u = MsgClaimArkeoResponse.amount_update and op = "num64 (r_int64 L)", OF good]
      | assumption | (simp add: MsgClaimArkeoResponse_tags createBase_MsgClaimArkeoResponse_def; fail))+
qed

sublocale wire_laws \<subseteq> MsgClaimArkeoResponse_range: message_range L F out inp "MsgClaimArkeoResponse_switch L" createBase_MsgClaimArkeoResponse ok_MsgClaimArkeoResponse
proof unfold_locales
  show "ok_MsgClaimArkeoResponse createBase_MsgClaimArkeoResponse" by (simp add: ok_MsgClaimArkeoResponse_def createBase_MsgClaimArkeoResponse_def)
  fix m tag assume "ok_MsgClaimArkeoResponse m"
  then show "keeps ok_MsgClaimArkeoResponse (MsgClaimArkeoResponse_switch L tag m)"
    unfolding MsgClaimArkeoResponse_switch_def by - (rule range_rules | (simp add: ok_MsgClaimArkeoResponse_def; fail))+
qed

context wire_laws
begin

lemmas MsgClaimArkeoResponse_carries [codec_rules] =
  MsgClaimArkeoResponse_codec.opt_carries [folded decode_MsgClaimArkeoResponse_def] MsgClaimArkeoResponse_codec.list_carries [folded decode_MsgClaimArkeoResponse_def]

lemmas MsgClaimArkeoResponse_good [fwd_rules] = MsgClaimArkeoResponse_codec.op_good [folded decode_MsgClaimArkeoResponse_def]

lemmas MsgClaimArkeoResponse_yields [range_rules] = MsgClaimArkeoResponse_range.sub_range [folded decode_MsgClaimArkeoResponse_def]

lemmas MsgClaimArkeoResponse_roundtrip = MsgClaimArkeoResponse_codec.roundtrip [folded decode_MsgClaimArkeoResponse_def]

lemmas MsgClaimArkeoResponse_returns = MsgClaimArkeoResponse_codec.decode_returns [folded decode_MsgClaimArkeoResponse_def]

lemmas MsgClaimArkeoResponse_decoded = MsgClaimArkeoResponse_range.decode_range [folded decode_MsgClaimArkeoResponse_def]

end

interpretation MsgClaimArkeoResponse_json: message_json toJSON_MsgClaimArkeoResponse fromJSON_MsgClaimArkeoResponse wfj_MsgClaimArkeoResponse
proof unfold_locales
  fix h m
  assume "wfj_MsgClaimArkeoResponse m"
  then show "json_rt (toJSON_MsgClaimArkeoResponse h) (fromJSON_MsgClaimArkeoResponse h) m"
    unfolding toJSON_MsgClaimArkeoResponse_def fromJSON_MsgClaimArkeoResponse_def wfj_MsgClaimArkeoResponse_def
    by (-) (rule json_rtI json_rules | assumption | (simp; fail))+
qed

lemmas MsgClaimArkeoResponse_json_rules [json_rules] = MsgClaimArkeoResponse_json.json_field_rules

lemma MsgTransferClaim_tags:
  "MsgTransferClaim_switch L 10 m = readf (r_string L) (\<lambda>v. m\<lparr>MsgTransferClaim.creator := v\<rparr>)"
  "MsgTransferClaim_switch L 18 m = readf (r_string L) (\<lambda>v. m\<lparr>MsgTransferClaim.toAddress := v\<rparr>)"
  by (simp_all add: MsgTransferClaim_switch_def when_tag_def)

lemma fromPartial_partial_of_MsgTransferClaim [simp]: "fromPartial_MsgTransferClaim (partial_of_MsgTransferClaim m) = m"
  by (simp add: fromPartial_MsgTransferClaim_def partial_of_MsgTransferClaim_def createBase_MsgTransferClaim_def partial_map_def option.map_comp o_def option.map_ident)

lemma create_MsgTransferClaim_None [simp]: "create_MsgTransferClaim None = createBase_MsgTransferClaim"
  by (simp add: create_MsgTransferClaim_def fromPartial_MsgTransferClaim_def MsgTransferClaim_empty_def createBase_MsgTransferClaim_def partial_map_def)

sublocale wire_laws \<subseteq> MsgTransferClaim_codec: message_codec L F out inp "encode_MsgTransferClaim L" "MsgTransferClaim_switch L" createBase_MsgTransferClaim "wf_MsgTransferClaim L"
proof unfold_locales
  show good: "good_sw (MsgTransferClaim_switch L)"
    unfolding MsgTransferClaim_switch_def by (intro good_swI fwd_rules)
  fix m assume "wf_MsgTransferClaim L m"
  then show "codes (MsgTransferClaim_switch L) (encode_MsgTransferClaim L m) createBase_MsgTransferClaim m"
    unfolding encode_MsgTransferClaim_def wf_MsgTransferClaim_def
    by (elim conjE)
      (rule codes_Cons codes_Nil [OF MsgTransferClaim.equality] codec_rules
        codes_when [where tag = 10 and u = MsgTransferClaim.creator_update and op = "r_string L", OF good]
        codes_when [where tag = 18 and u = MsgTransferClaim.toAddress_update and op = "r_string L", OF good]
      | assumption | (simp add: MsgTransferClaim_tags createBase_MsgTransferClaim_def; fail))+
qed

sublocale wire_laws \<subseteq> MsgTransferClaim_range: message_range L F out inp "MsgTransferClaim_switch L" createBase_MsgTransferClaim ok_MsgTransferClaim
proof unfold_locales
  show "ok_MsgTransferClaim createBase_MsgTransferClaim" by (simp add: ok_MsgTransferClaim_def createBase_MsgTransferClaim_def)
  fix m tag assume "ok_MsgTransferClaim m"
  then show "keeps ok_MsgTransferClaim (MsgTransferClaim_switch L tag m)"
    unfolding MsgTransferClaim_switch_def by - (rule range_rules | (simp add: ok_MsgTransferClaim_def; fail))+
qed

context wire_laws
begin

lemmas MsgTransferClaim_carries [codec_rules] =
  MsgTransferClaim_codec.opt_carries [folded decode_MsgTransferClaim_def] MsgTransferClaim_codec.list_carries [folded decode_MsgTransferClaim_def]

lemmas MsgTransferClaim_good [fwd_rules] = MsgTransferClaim_codec.op_good [folded decode_MsgTransferClaim_def]

lemmas MsgTransferClaim_yields [range_rules] = MsgTransferClaim_range.sub_range [folded decode_MsgTransferClaim_def]

lemmas MsgTransferClaim_roundtrip = MsgTransferClaim_codec.roundtrip [folded decode_MsgTransferClaim_def]

lemmas MsgTransferClaim_returns = MsgTransferClaim_codec.decode_returns [folded decode_MsgTransferClaim_def]

lemmas MsgTransferClaim_decoded = MsgTransferClaim_range.decode_range [folded decode_MsgTransferClaim_def]

end

interpretation MsgTransferClaim_json: message_json toJSON_MsgTransferClaim fromJSON_MsgTransferClaim wfj_MsgTransferClaim
proof unfold_locales
  fix h m
  assume "wfj_MsgTransferClaim m"
  then show "json_rt (toJSON_MsgTransferClaim h) (fromJSON_MsgTransferClaim h) m"
    unfolding toJSON_MsgTransferClaim_def fromJSON_MsgTransferClaim_def wfj_MsgTransferClaim_def
    by (-) (rule json_rtI json_rules | assumption | (simp; fail))+
qed

lemmas MsgTransferClaim_json_rules [json_rules] = MsgTransferClaim_json.json_field_rules

sublocale wire_laws \<subseteq> MsgTransferClaimResponse_codec: message_codec L F out inp "encode_MsgTransferClaimResponse L" "MsgTransferClaimResponse_switch L" createBase_MsgTransferClaimResponse "wf_MsgTransferClaimResponse L"
proof unfold_locales
  show good: "good_sw (MsgTransferClaimResponse_switch L)"
    unfolding MsgTransferClaimResponse_switch_def by (intro good_swI fwd_rules)
  fix m assume "wf_MsgTransferClaimResponse L m"
  then show "codes (MsgTransferClaimResponse_switch L) (encode_MsgTransferClaimResponse L m) createBase_MsgTransferClaimResponse m"
    unfolding encode_MsgTransferClaimResponse_def wf_MsgTransferClaimResponse_def
    by (cases m) (simp add: createBase_MsgTransferClaimResponse_def codes_Nil [simplified])
qed

sublocale wire_laws \<subseteq> MsgTransferClaimResponse_range: message_range L F out inp "MsgTransferClaimResponse_switch L" createBase_MsgTransferClaimResponse ok_MsgTransferClaimResponse
proof unfold_locales
  show "ok_MsgTransferClaimResponse createBase_MsgTransferClaimResponse" by (simp add: ok_MsgTransferClaimResponse_def createBase_MsgTransferClaimResponse_def)
  fix m tag assume "ok_MsgTransferClaimResponse m"
  then show "keeps ok_MsgTransferClaimResponse (MsgTransferClaimResponse_switch L tag m)"
    unfolding MsgTransferClaimResponse_switch_def by - (rule range_rules | (simp add: ok_MsgTransferClaimResponse_def; fail))+
qed

context wire_laws
begin

lemmas MsgTransferClaimResponse_carries [codec_rules] =
  MsgTransferClaimResponse_codec.opt_carries [folded decode_MsgTransferClaimResponse_def] MsgTransferClaimResponse_codec.list_carries [folded decode_MsgTransferClaimResponse_def]

lemmas MsgTransferClaimResponse_good [fwd_rules] = MsgTransferClaimResponse_codec.op_good [folded decode_MsgTransferClaimResponse_def]

lemmas MsgTransferClaimResponse_yields [range_rules] = MsgTransferClaimResponse_range.sub_range [folded decode_MsgTransferClaimResponse_def]

lemmas MsgTransferClaimResponse_roundtrip = MsgTransferClaimResponse_codec.roundtrip [folded decode_MsgTransferClaimResponse_def]

lemmas MsgTransferClaimResponse_returns = MsgTransferClaimResponse_codec.decode_returns [folded decode_MsgTransferClaimResponse_def]

lemmas MsgTransferClaimResponse_decoded = MsgTransferClaimResponse_range.decode_range [folded decode_MsgTransferClaimResponse_def]

end

interpretation MsgTransferClaimResponse_json: message_json toJSON_MsgTransferClaimResponse fromJSON_MsgTransferClaimResponse wfj_MsgTransferClaimResponse
proof unfold_locales
  fix h m
  show "json_rt (toJSON_MsgTransferClaimResponse h) (fromJSON_MsgTransferClaimResponse h) m"
    by (cases m) (simp add: json_rt_def toJSON_MsgTransferClaimResponse_def fromJSON_MsgTransferClaimResponse_def objE_rules(1))
qed

lemmas MsgTransferClaimResponse_json_rules [json_rules] = MsgTransferClaimResponse_json.json_field_rules

lemma MsgAddClaim_tags:
  "MsgAddClaim_switch L 10 m = readf (r_string L) (\<lambda>v. m\<lparr>MsgAddClaim.creator := v\<rparr>)"
  "MsgAddClaim_switch L 16 m = readf (num32 (r_int32 L)) (\<lambda>v. m\<lparr>MsgAddClaim.chain := v\<rparr>)"
  "MsgAddClaim_switch L 26 m = readf (r_string L) (\<lambda>v. m\<lparr>MsgAddClaim.address := v\<rparr>)"
  "MsgAddClaim_switch L 32 m = readf (num64 (r_int64 L)) (\<lambda>v. m\<lparr>MsgAddClaim.amount := v\<rparr>)"
  by (simp_all add: MsgAddClaim_switch_def when_tag_def)

lemma fromPartial_partial_of_MsgAddClaim [simp]: "fromPartial_MsgAddClaim (partial_of_MsgAddClaim m) = m"
  by (simp add: fromPartial_MsgAddClaim_def partial_of_MsgAddClaim_def createBase_MsgAddClaim_def partial_map_def option.map_comp o_def option.map_ident)

lemma create_MsgAddClaim_None [simp]: "create_MsgAddClaim None = createBase_MsgAddClaim"
  by (simp add: create_MsgAddClaim_def fromPartial_MsgAddClaim_def MsgAddClaim_empty_def createBase_MsgAddClaim_def partial_map_def)

sublocale wire_laws \<subseteq> MsgAddClaim_codec: message_codec L F out inp "encode_MsgAddClaim L" "MsgAddClaim_switch L" createBase_MsgAddClaim "wf_MsgAddClaim L"
proof unfold_locales
  show good: "good_sw (MsgAddClaim_switch L)"
    unfolding MsgAddClaim_switch_def by (intro good_swI fwd_rules)
  fix m assume "wf_MsgAddClaim L m"
  then show "codes (MsgAddClaim_switch L) (encode_MsgAddClaim L m) createBase_MsgAddClaim m"
    unfolding encode_MsgAddClaim_def wf_MsgAddClaim_def
    by (elim conjE)
      (rule codes_Cons codes_Nil [OF MsgAddClaim.equality] codec_rules
        codes_when [where tag = 10 and u = MsgAddClaim.creator_update and op = "r_string L", OF good]
        codes_when [where tag = 16 and u = MsgAddClaim.chain_update and op = "num32 (r_int32 L)", OF good]
        codes_when [where tag = 26 and u = MsgAddClaim.address_update and op = "r_string L", OF good]
        codes_when [where tag = 32 and u = MsgAddClaim.amount_update and op = "num64 (r_int64 L)", OF good]
      | assumption | (simp add: MsgAddClaim_tags createBase_MsgAddClaim_def; fail))+
qed

sublocale wire_laws \<subseteq> MsgAddClaim_range: message_range L F out inp "MsgAddClaim_switch L" createBase_MsgAddClaim ok_MsgAddClaim
proof unfold_locales
  show "ok_MsgAddClaim createBase_MsgAddClaim" by (simp add: ok_MsgAddClaim_def createBase_MsgAddClaim_def)
  fix m tag assume "ok_MsgAddClaim m"
  then show "keeps ok_MsgAddClaim (MsgAddClaim_switch L tag m)"
    unfolding MsgAddClaim_switch_def by - (rule range_rules | (simp add: ok_MsgAddClaim_def; fail))+
qed

context wire_laws
begin

lemmas MsgAddClaim_carries [codec_rules] =
  MsgAddClaim_codec.opt_carries [folded decode_MsgAddClaim_def] MsgAddClaim_codec.list_carries [folded decode_MsgAddClaim_def]

lemmas MsgAddClaim_good [fwd_rules] = MsgAddClaim_codec.op_good [folded decode_MsgAddClaim_def]

lemmas MsgAddClaim_yields [range_rules] = MsgAddClaim_range.sub_range [folded decode_MsgAddClaim_def]

lemmas MsgAddClaim_roundtrip = MsgAddClaim_codec.roundtrip [folded decode_MsgAddClaim_def]

lemmas MsgAddClaim_returns = MsgAddClaim_codec.decode_returns [folded decode_MsgAddClaim_def]

lemmas MsgAddClaim_decoded = MsgAddClaim_range.decode_range [folded decode_MsgAddClaim_def]

end

interpretation MsgAddClaim_json: message_json toJSON_MsgAddClaim fromJSON_MsgAddClaim wfj_MsgAddClaim
proof unfold_locales
  fix h m
  assume "wfj_MsgAddClaim m"
  then show "json_rt (toJSON_MsgAddClaim h) (fromJSON_MsgAddClaim h) m"
    unfolding toJSON_MsgAddClaim_def fromJSON_MsgAddClaim_def wfj_MsgAddClaim_def
    by (elim conjE) (rule json_rtI json_rules | assumption | (simp; fail))+
qed

lemmas MsgAddClaim_json_rules [json_rules] = MsgAddClaim_json.json_field_rules

sublocale wire_laws \<subseteq> MsgAddClaimResponse_codec: message_codec L F out inp "encode_MsgAddClaimResponse L" "MsgAddClaimResponse_switch L" createBase_MsgAddClaimResponse "wf_MsgAddClaimResponse L"
proof unfold_locales
  show good: "good_sw (MsgAddClaimResponse_switch L)"
    unfolding MsgAddClaimResponse_switch_def by (intro good_swI fwd_rules)
  fix m assume "wf_MsgAddClaimResponse L m"
  then show "codes (MsgAddClaimResponse_switch L) (encode_MsgAddClaimResponse L m) createBase_MsgAddClaimResponse m"
    unfolding encode_MsgAddClaimResponse_def wf_MsgAddClaimResponse_def
    by (cases m) (simp add: createBase_MsgAddClaimResponse_def codes_Nil [simplified])
qed

sublocale wire_laws \<subseteq> MsgAddClaimResponse_range: message_range L F out inp "MsgAddClaimResponse_switch L" createBase_MsgAddClaimResponse ok_MsgAddClaimResponse
proof unfold_locales
  show "ok_MsgAddClaimResponse createBase_MsgAddClaimResponse" by (simp add: ok_MsgAddClaimResponse_def createBase_MsgAddClaimResponse_def)
  fix m tag assume "ok_MsgAddClaimResponse m"
  then show "keeps ok_MsgAddClaimResponse (MsgAddClaimResponse_switch L tag m)"
    unfolding MsgAddClaimResponse_switch_def by - (rule range_rules | (simp add: ok_MsgAddClaimResponse_def; fail))+
qed

context wire_laws
begin

lemmas MsgAddClaimResponse_carries [codec_rules] =
  MsgAddClaimResponse_codec.opt_carries [folded decode_MsgAddClaimResponse_def] MsgAddClaimResponse_codec.list_carries [folded decode_MsgAddClaimResponse_def]

lemmas MsgAddClaimResponse_good [fwd_rules] = MsgAddClaimResponse_codec.op_good [folded decode_MsgAddClaimResponse_def]

lemmas MsgAddClaimResponse_yields [range_rules] = MsgAddClaimResponse_range.sub_range [folded decode_MsgAddClaimResponse_def]

lemmas MsgAddClaimResponse_roundtrip = MsgAddClaimResponse_codec.roundtrip [folded decode_MsgAddClaimResponse_def]

lemmas MsgAddClaimResponse_returns = MsgAddClaimResponse_codec.decode_returns [folded decode_MsgAddClaimResponse_def]

lemmas MsgAddClaimResponse_decoded = MsgAddClaimResponse_range.decode_range [folded decode_MsgAddClaimResponse_def]

end

interpretation MsgAddClaimResponse_json: message_json toJSON_MsgAddClaimResponse fromJSON_MsgAddClaimResponse wfj_MsgAddClaimResponse
proof unfold_locales
  fix h m
  show "json_rt (toJSON_MsgAddClaimResponse h) (fromJSON_MsgAddClaimResponse h) m"
    by (cases m) (simp add: json_rt_def toJSON_MsgAddClaimResponse_def fromJSON_MsgAddClaimResponse_def objE_rules(1))
qed

lemmas MsgAddClaimResponse_json_rules [json_rules] = MsgAddClaimResponse_json.json_field_rules

lemma MsgClaimThorchain_tags:
  "MsgClaimThorchain_switch L 10 m = readf (r_string L) (\<lambda>v. m\<lparr>MsgClaimThorchain.creator := v\<rparr>)"
  "MsgClaimThorchain_switch L 18 m = readf (r_string L) (\<lambda>v. m\<lparr>MsgClaimThorchain.fromAddress := v\<rparr>)"
  "MsgClaimThorchain_switch L 26 m = readf (r_string L) (\<lambda>v. m\<lparr>MsgClaimThorchain.toAddress := v\<rparr>)"
  by (simp_all add: MsgClaimThorchain_switch_def when_tag_def)

lemma fromPartial_partial_of_MsgClaimThorchain [simp]: "fromPartial_MsgClaimThorchain (partial_of_MsgClaimThorchain m) = m"
  by (simp add: fromPartial_MsgClaimThorchain_def partial_of_MsgClaimThorchain_def createBase_MsgClaimThorchain_def partial_map_def option.map_comp o_def option.map_ident)

lemma create_MsgClaimThorchain_None [simp]: "create_MsgClaimThorchain None = createBase_MsgClaimThorchain"
  by (simp add: create_MsgClaimThorchain_def fromPartial_MsgClaimThorchain_def MsgClaimThorchain_empty_def createBase_MsgClaimThorchain_def partial_map_def)

sublocale wire_laws \<subseteq> MsgClaimThorchain_codec: message_codec L F out inp "encode_MsgClaimThorchain L" "MsgClaimThorchain_switch L" createBase_MsgClaimThorchain "wf_MsgClaimThorchain L"
proof unfold_locales
  show good: "good_sw (MsgClaimThorchain_switch L)"
    unfolding MsgClaimThorchain_switch_def by (intro good_swI fwd_rules)
  fix m assume "wf_MsgClaimThorchain L m"
  then show "codes (MsgClaimThorchain_switch L) (encode_MsgClaimThorchain L m) createBase_MsgClaimThorchain m"
    unfolding encode_MsgClaimThorchain_def wf_MsgClaimThorchain_def
    by (elim conjE)
      (rule codes_Cons codes_Nil [OF MsgClaimThorchain.equality] codec_rules
        codes_when [where tag = 10 and u = MsgClaimThorchain.creator_update and op = "r_string L", OF good]
        codes_when [where tag = 18 and u = MsgClaimThorchain.fromAddress_update and op = "r_string L", OF good]
        codes_when [where tag = 26 and u = MsgClaimThorchain.toAddress_update and op = "r_string L", OF good]
      | assumption | (simp add: MsgClaimThorchain_tags createBase_MsgClaimThorchain_def; fail))+
qed

sublocale wire_laws \<subseteq> MsgClaimThorchain_range: message_range L F out inp "MsgClaimThorchain_switch L" createBase_MsgClaimThorchain ok_MsgClaimThorchain
proof unfold_locales
  show "ok_MsgClaimThorchain createBase_MsgClaimThorchain" by (simp add: ok_MsgClaimThorchain_def createBase_MsgClaimThorchain_def)
  fix m tag assume "ok_MsgClaimThorchain m"
  then show "keeps ok_MsgClaimThorchain (MsgClaimThorchain_switch L tag m)"
    unfolding MsgClaimThorchain_switch_def by - (rule range_rules | (simp add: ok_MsgClaimThorchain_def; fail))+
qed

context wire_laws
begin

lemmas MsgClaimThorchain_carries [codec_rules] =
  MsgClaimThorchain_codec.opt_carries [folded decode_MsgClaimThorchain_def] MsgClaimThorchain_codec.list_carries [folded decode_MsgClaimThorchain_def]

lemmas MsgClaimThorchain_good [fwd_rules] = MsgClaimThorchain_codec.op_good [folded decode_MsgClaimThorchain_def]

lemmas MsgClaimThorchain_yields [range_rules] = MsgClaimThorchain_range.sub_range [folded decode_MsgClaimThorchain_def]

lemmas MsgClaimThorchain_roundtrip = MsgClaimThorchain_codec.roundtrip [folded decode_MsgClaimThorchain_def]

lemmas MsgClaimThorchain_returns = MsgClaimThorchain_codec.decode_returns [folded decode_MsgClaimThorchain_def]

lemmas MsgClaimThorchain_decoded = MsgClaimThorchain_range.decode_range [folded decode_MsgClaimThorchain_def]

end

interpretation MsgClaimThorchain_json: message_json toJSON_MsgClaimThorchain fromJSON_MsgClaimThorchain wfj_MsgClaimThorchain
proof unfold_locales
  fix h m
  assume "wfj_MsgClaimThorchain m"
  then show "json_rt (toJSON_MsgClaimThorchain h) (fromJSON_MsgClaimThorchain h) m"
    unfolding toJSON_MsgClaimThorchain_def fromJSON_MsgClaimThorchain_def wfj_MsgClaimThorchain_def
    by (-) (rule json_rtI json_rules | assumption | (simp; fail))+
qed

lemmas MsgClaimThorchain_json_rules [json_rules] = MsgClaimThorchain_json.json_field_rules

lemma MsgClaimThorchainResponse_tags:
  "MsgClaimThorchainResponse_switch L 10 m = readf (r_string L) (\<lambda>v. m\<lparr>MsgClaimThorchainResponse.fromAddress := v\<rparr>)"
  "MsgClaimThorchainResponse_switch L 18 m = readf (r_string L) (\<lambda>v. m\<lparr>MsgClaimThorchainResponse.toAddress := v\<rparr>)"
  by (simp_all add: MsgClaimThorchainResponse_switch_def when_tag_def)

lemma fromPartial_partial_of_MsgClaimThorchainResponse [simp]: "fromPartial_MsgClaimThorchainResponse (partial_of_MsgClaimThorchainResponse m) = m"
  by (simp add: fromPartial_MsgClaimThorchainResponse_def partial_of_MsgClaimThorchainResponse_def createBase_MsgClaimThorchainResponse_def partial_map_def option.map_comp o_def option.map_ident)

lemma create_MsgClaimThorchainResponse_None [simp]: "create_MsgClaimThorchainResponse None = createBase_MsgClaimThorchainResponse"
  by (simp add: create_MsgClaimThorchainResponse_def fromPartial_MsgClaimThorchainResponse_def MsgClaimThorchainResponse_empty_def createBase_MsgClaimThorchainResponse_def partial_map_def)

sublocale wire_laws \<subseteq> MsgClaimThorchainResponse_codec: message_codec L F out inp "encode_MsgClaimThorchainResponse L" "MsgClaimThorchainResponse_switch L" createBase_MsgClaimThorchainResponse "wf_MsgClaimThorchainResponse L"
proof unfold_locales
  show good: "good_sw (MsgClaimThorchainResponse_switch L)"
    unfolding MsgClaimThorchainResponse_switch_def by (intro good_swI fwd_rules)
  fix m assume "wf_MsgClaimThorchainResponse L m"
  then show "codes (MsgClaimThorchainResponse_switch L) (encode_MsgClaimThorchainResponse L m) createBase_MsgClaimThorchainResponse m"
    unfolding encode_MsgClaimThorchainResponse_def wf_MsgClaimThorchainResponse_def
    by (elim conjE)
      (rule codes_Cons codes_Nil [OF MsgClaimThorchainResponse.equality] codec_rules
        codes_when [where tag = 10 and u = MsgClaimThorchainResponse.fromAddress_update and op = "r_string L", OF good]
        codes_when [where tag = 18 and u = MsgClaimThorchainResponse.toAddress_update and op = "r_string L", OF good]
      | assumption | (simp add: MsgClaimThorchainResponse_tags createBase_MsgClaimThorchainResponse_def; fail))+
qed

sublocale wire_laws \<subseteq> MsgClaimThorchainResponse_range: message_range L F out inp "MsgClaimThorchainResponse_switch L" createBase_MsgClaimThorchainResponse ok_MsgClaimThorchainResponse
proof unfold_locales
  show "ok_MsgClaimThorchainResponse createBase_MsgClaimThorchainResponse" by (simp add: ok_MsgClaimThorchainResponse_def createBase_MsgClaimThorchainResponse_def)
  fix m tag assume "ok_MsgClaimThorchainResponse m"
  then show "keeps ok_MsgClaimThorchainResponse (MsgClaimThorchainResponse_switch L tag m)"
    unfolding MsgClaimThorchainResponse_switch_def by - (rule range_rules | (simp add: ok_MsgClaimThorchainResponse_def; fail))+
qed

context wire_laws
begin

lemmas MsgClaimThorchainResponse_carries [codec_rules] =
  MsgClaimThorchainResponse_codec.opt_carries [folded decode_MsgClaimThorchainResponse_def] MsgClaimThorchainResponse_codec.list_carries [folded decode_MsgClaimThorchainResponse_def]

lemmas MsgClaimThorchainResponse_good [fwd_rules] = MsgClaimThorchainResponse_codec.op_good [folded decode_MsgClaimThorchainResponse_def]

lemmas MsgClaimThorchainResponse_yields [range_rules] = MsgClaimThorchainResponse_range.sub_range [folded decode_MsgClaimThorchainResponse_def]

lemmas MsgClaimThorchainResponse_roundtrip = MsgClaimThorchainResponse_codec.roundtrip [folded decode_MsgClaimThorchainResponse_def]

lemmas MsgClaimThorchainResponse_returns = MsgClaimThorchainResponse_codec.decode_returns [folded decode_MsgClaimThorchainResponse_def]

lemmas MsgClaimThorchainResponse_decoded = MsgClaimThorchainResponse_range.decode_range [folded decode_MsgClaimThorchainResponse_def]

end

interpretation MsgClaimThorchainResponse_json: message_json toJSON_MsgClaimThorchainResponse fromJSON_MsgClaimThorchainResponse wfj_MsgClaimThorchainResponse
proof unfold_locales
  fix h m
  assume "wfj_MsgClaimThorchainResponse m"
  then show "json_rt (toJSON_MsgClaimThorchainResponse h) (fromJSON_MsgClaimThorchainResponse h) m"
    unfolding toJSON_MsgClaimThorchainResponse_def fromJSON_MsgClaimThorchainResponse_def wfj_MsgClaimThorchainResponse_def
    by (-) (rule json_rtI json_rules | assumption | (simp; fail))+
qed

lemmas MsgClaimThorchainResponse_json_rules [json_rules] = MsgClaimThorchainResponse_json.json_field_rules


end
