(* ===== verification/ClaimQuery.thy ===== *)
theory ClaimQuery
  imports ClaimMsgs
begin

text \<open>
  The queries of the claim module and their answers (\<open>arkeo/claim/query.ts\<close>).
\<close>


section \<open>arkeo/claim/query.ts\<close>

subsection \<open>claim_QueryParamsRequest\<close>

datatype claim_QueryParamsRequest = claim_QueryParamsRequest

definition createBase_claim_QueryParamsRequest :: claim_QueryParamsRequest where
  "createBase_claim_QueryParamsRequest = claim_QueryParamsRequest"

definition encode_claim_QueryParamsRequest :: "('w, 'r) wire \<Rightarrow> claim_QueryParamsRequest \<Rightarrow> 'w \<Rightarrow> 'w result" where
  "encode_claim_QueryParamsRequest L message = seqE
    []"

definition claim_QueryParamsRequest_switch :: "('w, 'r) wire \<Rightarrow> u32 \<Rightarrow> claim_QueryParamsRequest \<Rightarrow> (claim_QueryParamsRequest, 'r) action" where
  "claim_QueryParamsRequest_switch L tag message = js_switch (drop_bit 3 tag)
    []
    break_out"

definition decode_claim_QueryParamsRequest :: "('w, 'r) wire \<Rightarrow> 'r input \<Rightarrow> nat option \<Rightarrow> (claim_QueryParamsRequest \<times> 'r) result" where
  "decode_claim_QueryParamsRequest L = decode_msg L (claim_QueryParamsRequest_switch L) createBase_claim_QueryParamsRequest"

definition fromJSON_claim_QueryParamsRequest :: "host \<Rightarrow> jsval \<Rightarrow> claim_QueryParamsRequest result" where
  "fromJSON_claim_QueryParamsRequest h object = Inr claim_QueryParamsRequest"

definition toJSON_claim_QueryParamsRequest :: "host \<Rightarrow> claim_QueryParamsRequest \<Rightarrow> jsval result" where
  "toJSON_claim_QueryParamsRequest h message = objE []"

text \<open>There is nothing to set: a partial message is the empty object too.\<close>

definition fromPartial_claim_QueryParamsRequest :: "claim_QueryParamsRequest \<Rightarrow> claim_QueryParamsRequest" where
  "fromPartial_claim_QueryParamsRequest object = createBase_claim_QueryParamsRequest"

definition create_claim_QueryParamsRequest :: "claim_QueryParamsRequest option \<Rightarrow> claim_QueryParamsRequest" where
  "create_claim_QueryParamsRequest base = fromPartial_claim_QueryParamsRequest (nullish base claim_QueryParamsRequest)"

definition ok_claim_QueryParamsRequest :: "claim_QueryParamsRequest \<Rightarrow> bool" where
  "ok_claim_QueryParamsRequest m \<longleftrightarrow> True"

definition wf_claim_QueryParamsRequest :: "('w, 'r) wire \<Rightarrow> claim_QueryParamsRequest \<Rightarrow> bool" where
  "wf_claim_QueryParamsRequest L m \<longleftrightarrow> True"

definition wfj_claim_QueryParamsRequest :: "claim_QueryParamsRequest \<Rightarrow> bool" where
  "wfj_claim_QueryParamsRequest m \<longleftrightarrow> True"

subsection \<open>claim_QueryParamsResponse\<close>

record claim_QueryParamsResponse =
  params :: "claim_Params option"

definition createBase_claim_QueryParamsResponse :: claim_QueryParamsResponse where
  "createBase_claim_QueryParamsResponse = \<lparr>claim_QueryParamsResponse.params = None\<rparr>"

definition encode_claim_QueryParamsResponse :: "('w, 'r) wire \<Rightarrow> claim_QueryParamsResponse \<Rightarrow> 'w \<Rightarrow> 'w result" where
  "encode_claim_QueryParamsResponse L message = seqE
    [someE (claim_QueryParamsResponse.params message) (\<lambda>v. seqE [w_uint32 L 10, w_fork L, encode_claim_Params L v, w_join L])]"

definition claim_QueryParamsResponse_switch :: "('w, 'r) wire \<Rightarrow> u32 \<Rightarrow> claim_QueryParamsResponse \<Rightarrow> (claim_QueryParamsResponse, 'r) action" where
  "claim_QueryParamsResponse_switch L tag message = js_switch (drop_bit 3 tag)
    [(1, when_tag tag 10 (readf (submsg L (decode_claim_Params L)) (\<lambda>v. message\<lparr>claim_QueryParamsResponse.params := Some v\<rparr>)))]
    break_out"

definition decode_claim_QueryParamsResponse :: "('w, 'r) wire \<Rightarrow> 'r input \<Rightarrow> nat option \<Rightarrow> (claim_QueryParamsResponse \<times> 'r) result" where
  "decode_claim_QueryParamsResponse L = decode_msg L (claim_QueryParamsResponse_switch L) createBase_claim_QueryParamsResponse"

definition fromJSON_claim_QueryParamsResponse :: "host \<Rightarrow> jsval \<Rightarrow> claim_QueryParamsResponse result" where
  "fromJSON_claim_QueryParamsResponse h object =
     bindE (optE object ''params'' (fromJSON_claim_Params h)) (\<lambda>v_params.
     Inr \<lparr>claim_QueryParamsResponse.params = v_params\<rparr>)"

definition toJSON_claim_QueryParamsResponse :: "host \<Rightarrow> claim_QueryParamsResponse \<Rightarrow> jsval result" where
  "toJSON_claim_QueryParamsResponse h message = objE
    [joptE ''params'' (toJSON_claim_Params h) (claim_QueryParamsResponse.params message)]"

record claim_QueryParamsResponse_Partial =
  params :: "claim_Params_Partial option"

definition claim_QueryParamsResponse_empty :: claim_QueryParamsResponse_Partial where
  "claim_QueryParamsResponse_empty = \<lparr>claim_QueryParamsResponse_Partial.params = None\<rparr>"

definition fromPartial_claim_QueryParamsResponse :: "claim_QueryParamsResponse_Partial \<Rightarrow> claim_QueryParamsResponse" where
  "fromPartial_claim_QueryParamsResponse object = createBase_claim_QueryParamsResponse\<lparr>claim_QueryParamsResponse.params := map_option fromPartial_claim_Params (claim_QueryParamsResponse_Partial.params object)\<rparr>"

definition create_claim_QueryParamsResponse :: "claim_QueryParamsResponse_Partial option \<Rightarrow> claim_QueryParamsResponse" where
  "create_claim_QueryParamsResponse base = fromPartial_claim_QueryParamsResponse (nullish base claim_QueryParamsResponse_empty)"

text \<open>A partial message that sets every field.\<close>

definition partial_of_claim_QueryParamsResponse :: "claim_QueryParamsResponse \<Rightarrow> claim_QueryParamsResponse_Partial" where
  "partial_of_claim_QueryParamsResponse m =
     \<lparr>claim_QueryParamsResponse_Partial.params = map_option partial_of_claim_Params (claim_QueryParamsResponse.params m)\<rparr>"

definition ok_claim_QueryParamsResponse :: "claim_QueryParamsResponse \<Rightarrow> bool" where
  "ok_claim_QueryParamsResponse m \<longleftrightarrow> pred_option ok_claim_Params (claim_QueryParamsResponse.params m)"

definition wf_claim_QueryParamsResponse :: "('w, 'r) wire \<Rightarrow> claim_QueryParamsResponse \<Rightarrow> bool" where
  "wf_claim_QueryParamsResponse L m \<longleftrightarrow> pred_option (\<lambda>v. wf_claim_Params L v \<and> fits L (encode_claim_Params L v)) (claim_QueryParamsResponse.params m)"

definition wfj_claim_QueryParamsResponse :: "claim_QueryParamsResponse \<Rightarrow> bool" where
  "wfj_claim_QueryParamsResponse m \<longleftrightarrow> pred_option wfj_claim_Params (claim_QueryParamsResponse.params m)"

subsection \<open>QueryClaimRecordRequest\<close>

record QueryClaimRecordRequest =
  address :: jsstring
  chain :: Chain

definition createBase_QueryClaimRecordRequest :: QueryClaimRecordRequest where
  "createBase_QueryClaimRecordRequest = \<lparr>QueryClaimRecordRequest.address = [],
     QueryClaimRecordRequest.chain = Num 0\<rparr>"

definition encode_QueryClaimRecordRequest :: "('w, 'r) wire \<Rightarrow> QueryClaimRecordRequest \<Rightarrow> 'w \<Rightarrow> 'w result" where
  "encode_QueryClaimRecordRequest L message = seqE
    [whenE (QueryClaimRecordRequest.address message \<noteq> []) (seqE [w_uint32 L 10, w_string L (QueryClaimRecordRequest.address message)]),
     whenE (QueryClaimRecordRequest.chain message \<noteq> Num 0) (seqE [w_uint32 L 16, w_int32 L (QueryClaimRecordRequest.chain message)])]"

definition QueryClaimRecordRequest_switch :: "('w, 'r) wire \<Rightarrow> u32 \<Rightarrow> QueryClaimRecordRequest \<Rightarrow> (QueryClaimRecordRequest, 'r) action" where
  "QueryClaimRecordRequest_switch L tag message = js_switch (drop_bit 3 tag)
    [(1, when_tag tag 10 (readf (r_string L) (\<lambda>v. message\<lparr>QueryClaimRecordRequest.address := v\<rparr>))),
     (2, when_tag tag 16 (readf (num32 (r_int32 L)) (\<lambda>v. message\<lparr>QueryClaimRecordRequest.chain := v\<rparr>)))]
    break_out"

definition decode_QueryClaimRecordRequest :: "('w, 'r) wire \<Rightarrow> 'r input \<Rightarrow> nat option \<Rightarrow> (QueryClaimRecordRequest \<times> 'r) result" where
  "decode_QueryClaimRecordRequest L = decode_msg L (QueryClaimRecordRequest_switch L) createBase_QueryClaimRecordRequest"

definition fromJSON_QueryClaimRecordRequest :: "host \<Rightarrow> jsval \<Rightarrow> QueryClaimRecordRequest result" where
  "fromJSON_QueryClaimRecordRequest h object =
     bindE (fieldE object ''address'' (stringE h) []) (\<lambda>v_address.
     bindE (fieldE object ''chain'' (enumE chainFromJSON) (Num 0)) (\<lambda>v_chain.
     Inr \<lparr>QueryClaimRecordRequest.address = v_address, QueryClaimRecordRequest.chain = v_chain\<rparr>))"

definition toJSON_QueryClaimRecordRequest :: "host \<Rightarrow> QueryClaimRecordRequest \<Rightarrow> jsval result" where
  "toJSON_QueryClaimRecordRequest h message = objE
    [jfieldE (QueryClaimRecordRequest.address message \<noteq> []) ''address'' (Inr (JString (QueryClaimRecordRequest.address message))),
     jfieldE (QueryClaimRecordRequest.chain message \<noteq> Num 0) ''chain'' (Inr (JString (chainToJSON (QueryClaimRecordRequest.chain message))))]"

record QueryClaimRecordRequest_Partial =
  address :: "jsstring option"
  chain :: "Chain option"

definition QueryClaimRecordRequest_empty :: QueryClaimRecordRequest_Partial where
  "QueryClaimRecordRequest_empty = \<lparr>QueryClaimRecordRequest_Partial.address = None, QueryClaimRecordRequest_Partial.chain = None\<rparr>"

definition fromPartial_QueryClaimRecordRequest :: "QueryClaimRecordRequest_Partial \<Rightarrow> QueryClaimRecordRequest" where
  "fromPartial_QueryClaimRecordRequest object = createBase_QueryClaimRecordRequest\<lparr>QueryClaimRecordRequest.address := nullish (QueryClaimRecordRequest_Partial.address object) [],
     QueryClaimRecordRequest.chain := nullish (QueryClaimRecordRequest_Partial.chain object) (Num 0)\<rparr>"

definition create_QueryClaimRecordRequest :: "QueryClaimRecordRequest_Partial option \<Rightarrow> QueryClaimRecordRequest" where
  "create_QueryClaimRecordRequest base = fromPartial_QueryClaimRecordRequest (nullish base QueryClaimRecordRequest_empty)"

text \<open>A partial message that sets every field.\<close>

definition partial_of_QueryClaimRecordRequest :: "QueryClaimRecordRequest \<Rightarrow> QueryClaimRecordRequest_Partial" where
  "partial_of_QueryClaimRecordRequest m =
     \<lparr>QueryClaimRecordRequest_Partial.address = Some (QueryClaimRecordRequest.address m),
      QueryClaimRecordRequest_Partial.chain = Some (QueryClaimRecordRequest.chain m)\<rparr>"

definition ok_QueryClaimRecordRequest :: "QueryClaimRecordRequest \<Rightarrow> bool" where
  "ok_QueryClaimRecordRequest m \<longleftrightarrow> int32_num (QueryClaimRecordRequest.chain m)"

definition wf_QueryClaimRecordRequest :: "('w, 'r) wire \<Rightarrow> QueryClaimRecordRequest \<Rightarrow> bool" where
  "wf_QueryClaimRecordRequest L m \<longleftrightarrow> wire_string (QueryClaimRecordRequest.address m)
     \<and> int32_num (QueryClaimRecordRequest.chain m)"

definition wfj_QueryClaimRecordRequest :: "QueryClaimRecordRequest \<Rightarrow> bool" where
  "wfj_QueryClaimRecordRequest m \<longleftrightarrow> Chain_known (QueryClaimRecordRequest.chain m)"

subsection \<open>QueryClaimRecordResponse\<close>

record QueryClaimRecordResponse =
  claimRecord :: "ClaimRecord option"

definition createBase_QueryClaimRecordResponse :: QueryClaimRecordResponse where
  "createBase_QueryClaimRecordResponse = \<lparr>QueryClaimRecordResponse.claimRecord = None\<rparr>"

definition encode_QueryClaimRecordResponse :: "('w, 'r) wire \<Rightarrow> QueryClaimRecordResponse \<Rightarrow> 'w \<Rightarrow> 'w result" where
  "encode_QueryClaimRecordResponse L message = seqE
    [someE (QueryClaimRecordResponse.claimRecord message) (\<lambda>v. seqE [w_uint32 L 10, w_fork L, encode_ClaimRecord L v, w_join L])]"

definition QueryClaimRecordResponse_switch :: "('w, 'r) wire \<Rightarrow> u32 \<Rightarrow> QueryClaimRecordResponse \<Rightarrow> (QueryClaimRecordResponse, 'r) action" where
  "QueryClaimRecordResponse_switch L tag message = js_switch (drop_bit 3 tag)
    [(1, when_tag tag 10 (readf (submsg L (decode_ClaimRecord L)) (\<lambda>v. message\<lparr>QueryClaimRecordResponse.claimRecord := Some v\<rparr>)))]
    break_out"

definition decode_QueryClaimRecordResponse :: "('w, 'r) wire \<Rightarrow> 'r input \<Rightarrow> nat option \<Rightarrow> (QueryClaimRecordResponse \<times> 'r) result" where
  "decode_QueryClaimRecordResponse L = decode_msg L (QueryClaimRecordResponse_switch L) createBase_QueryClaimRecordResponse"

definition fromJSON_QueryClaimRecordResponse :: "host \<Rightarrow> jsval \<Rightarrow> QueryClaimRecordResponse result" where
  "fromJSON_QueryClaimRecordResponse h object =
     bindE (optE object ''claimRecord'' (fromJSON_ClaimRecord h)) (\<lambda>v_claimRecord.
     Inr \<lparr>QueryClaimRecordResponse.claimRecord = v_claimRecord\<rparr>)"

definition toJSON_QueryClaimRecordResponse :: "host \<Rightarrow> QueryClaimRecordResponse \<Rightarrow> jsval result" where
  "toJSON_QueryClaimRecordResponse h message = objE
    [joptE ''claimRecord'' (toJSON_ClaimRecord h) (QueryClaimRecordResponse.claimRecord message)]"

record QueryClaimRecordResponse_Partial =
  claimRecord :: "ClaimRecord_Partial option"

definition QueryClaimRecordResponse_empty :: QueryClaimRecordResponse_Partial where
  "QueryClaimRecordResponse_empty = \<lparr>QueryClaimRecordResponse_Partial.claimRecord = None\<rparr>"

definition fromPartial_QueryClaimRecordResponse :: "QueryClaimRecordResponse_Partial \<Rightarrow> QueryClaimRecordResponse" where
  "fromPartial_QueryClaimRecordResponse object = createBase_QueryClaimRecordResponse\<lparr>QueryClaimRecordResponse.claimRecord := map_option fromPartial_ClaimRecord (QueryClaimRecordResponse_Partial.claimRecord object)\<rparr>"

definition create_QueryClaimRecordResponse :: "QueryClaimRecordResponse_Partial option \<Rightarrow> QueryClaimRecordResponse" where
  "create_QueryClaimRecordResponse base = fromPartial_QueryClaimRecordResponse (nullish base QueryClaimRecordResponse_empty)"

text \<open>A partial message that sets every field.\<close>

definition partial_of_QueryClaimRecordResponse :: "QueryClaimRecordResponse \<Rightarrow> QueryClaimRecordResponse_Partial" where
  "partial_of_QueryClaimRecordResponse m =
     \<lparr>QueryClaimRecordResponse_Partial.claimRecord = map_option partial_of_ClaimRecord (QueryClaimRecordResponse.claimRecord m)\<rparr>"

definition ok_QueryClaimRecordResponse :: "QueryClaimRecordResponse \<Rightarrow> bool" where
  "ok_QueryClaimRecordResponse m \<longleftrightarrow> pred_option ok_ClaimRecord (QueryClaimRecordResponse.claimRecord m)"

definition wf_QueryClaimRecordResponse :: "('w, 'r) wire \<Rightarrow> QueryClaimRecordResponse \<Rightarrow> bool" where
  "wf_QueryClaimRecordResponse L m \<longleftrightarrow> pred_option (\<lambda>v. wf_ClaimRecord L v \<and> fits L (encode_ClaimRecord L v)) (QueryClaimRecordResponse.claimRecord m)"

definition wfj_QueryClaimRecordResponse :: "QueryClaimRecordResponse \<Rightarrow> bool" where
  "wfj_QueryClaimRecordResponse m \<longleftrightarrow> pred_option wfj_ClaimRecord (QueryClaimRecordResponse.claimRecord m)"

subsection \<open>QueryClaimableForActionRequest\<close>

record QueryClaimableForActionRequest =
  address :: jsstring
  action :: Action
  chain :: Chain

definition createBase_QueryClaimableForActionRequest :: QueryClaimableForActionRequest where
  "createBase_QueryClaimableForActionRequest = \<lparr>QueryClaimableForActionRequest.address = [],
     QueryClaimableForActionRequest.action = Num 0,
     QueryClaimableForActionRequest.chain = Num 0\<rparr>"

definition encode_QueryClaimableForActionRequest :: "('w, 'r) wire \<Rightarrow> QueryClaimableForActionRequest \<Rightarrow> 'w \<Rightarrow> 'w result" where
  "encode_QueryClaimableForActionRequest L message = seqE
    [whenE (QueryClaimableForActionRequest.address message \<noteq> []) (seqE [w_uint32 L 10, w_string L (QueryClaimableForActionRequest.address message)]),
     whenE (QueryClaimableForActionRequest.action message \<noteq> Num 0) (seqE [w_uint32 L 16, w_int32 L (QueryClaimableForActionRequest.action message)]),
     whenE (QueryClaimableForActionRequest.chain message \<noteq> Num 0) (seqE [w_uint32 L 24, w_int32 L (QueryClaimableForActionRequest.chain message)])]"

definition QueryClaimableForActionRequest_switch :: "('w, 'r) wire \<Rightarrow> u32 \<Rightarrow> QueryClaimableForActionRequest \<Rightarrow> (QueryClaimableForActionRequest, 'r) action" where
  "QueryClaimableForActionRequest_switch L tag message = js_switch (drop_bit 3 tag)
    [(1, when_tag tag 10 (readf (r_string L) (\<lambda>v. message\<lparr>QueryClaimableForActionRequest.address := v\<rparr>))),
     (2, when_tag tag 16 (readf (num32 (r_int32 L)) (\<lambda>v. message\<lparr>QueryClaimableForActionRequest.action := v\<rparr>))),
     (3, when_tag tag 24 (readf (num32 (r_int32 L)) (\<lambda>v. message\<lparr>QueryClaimableForActionRequest.chain := v\<rparr>)))]
    break_out"

definition decode_QueryClaimableForActionRequest :: "('w, 'r) wire \<Rightarrow> 'r input \<Rightarrow> nat option \<Rightarrow> (QueryClaimableForActionRequest \<times> 'r) result" where
  "decode_QueryClaimableForActionRequest L = decode_msg L (QueryClaimableForActionRequest_switch L) createBase_QueryClaimableForActionRequest"

definition fromJSON_QueryClaimableForActionRequest :: "host \<Rightarrow> jsval \<Rightarrow> QueryClaimableForActionRequest result" where
  "fromJSON_QueryClaimableForActionRequest h object =
     bindE (fieldE object ''address'' (stringE h) []) (\<lambda>v_address.
     bindE (fieldE object ''action'' (enumE actionFromJSON) (Num 0)) (\<lambda>v_action.
     bindE (fieldE object ''chain'' (enumE chainFromJSON) (Num 0)) (\<lambda>v_chain.
     Inr \<lparr>QueryClaimableForActionRequest.address = v_address, QueryClaimableForActionRequest.action = v_action, QueryClaimableForActionRequest.chain = v_chain\<rparr>)))"

definition toJSON_QueryClaimableForActionRequest :: "host \<Rightarrow> QueryClaimableForActionRequest \<Rightarrow> jsval result" where
  "toJSON_QueryClaimableForActionRequest h message = objE
    [jfieldE (QueryClaimableForActionRequest.address message \<noteq> []) ''address'' (Inr (JString (QueryClaimableForActionRequest.address message))),
     jfieldE (QueryClaimableForActionRequest.action message \<noteq> Num 0) ''action'' (Inr (JString (actionToJSON (QueryClaimableForActionRequest.action message)))),
     jfieldE (QueryClaimableForActionRequest.chain message \<noteq> Num 0) ''chain'' (Inr (JString (chainToJSON (QueryClaimableForActionRequest.chain message))))]"

record QueryClaimableForActionRequest_Partial =
  address :: "jsstring option"
  action :: "Action option"
  chain :: "Chain option"

definition QueryClaimableForActionRequest_empty :: QueryClaimableForActionRequest_Partial where
  "QueryClaimableForActionRequest_empty = \<lparr>QueryClaimableForActionRequest_Partial.address = None, QueryClaimableForActionRequest_Partial.action = None, QueryClaimableForActionRequest_Partial.chain = None\<rparr>"

definition fromPartial_QueryClaimableForActionRequest :: "QueryClaimableForActionRequest_Partial \<Rightarrow> QueryClaimableForActionRequest" where
  "fromPartial_QueryClaimableForActionRequest object = createBase_QueryClaimableForActionRequest\<lparr>QueryClaimableForActionRequest.address := nullish (QueryClaimableForActionRequest_Partial.address object) [],
     QueryClaimableForActionRequest.action := nullish (QueryClaimableForActionRequest_Partial.action object) (Num 0),
     QueryClaimableForActionRequest.chain := nullish (QueryClaimableForActionRequest_Partial.chain object) (Num 0)\<rparr>"

definition create_QueryClaimableForActionRequest :: "QueryClaimableForActionRequest_Partial option \<Rightarrow> QueryClaimableForActionRequest" where
  "create_QueryClaimableForActionRequest base = fromPartial_QueryClaimableForActionRequest (nullish base QueryClaimableForActionRequest_empty)"

text \<open>A partial message that sets every field.\<close>

definition partial_of_QueryClaimableForActionRequest :: "QueryClaimableForActionRequest \<Rightarrow> QueryClaimableForActionRequest_Partial" where
  "partial_of_QueryClaimableForActionRequest m =
     \<lparr>QueryClaimableForActionRequest_Partial.address = Some (QueryClaimableForActionRequest.address m),
      QueryClaimableForActionRequest_Partial.action = Some (QueryClaimableForActionRequest.action m),
      QueryClaimableForActionRequest_Partial.chain = Some (QueryClaimableForActionRequest.chain m)\<rparr>"

definition ok_QueryClaimableForActionRequest :: "QueryClaimableForActionRequest \<Rightarrow> bool" where
  "ok_QueryClaimableForActionRequest m \<longleftrightarrow> int32_num (QueryClaimableForActionRequest.action m)
     \<and> int32_num (QueryClaimableForActionRequest.chain m)"

definition wf_QueryClaimableForActionRequest :: "('w, 'r) wire \<Rightarrow> QueryClaimableForActionRequest \<Rightarrow> bool" where
  "wf_QueryClaimableForActionRequest L m \<longleftrightarrow> wire_string (QueryClaimableForActionRequest.address m)
     \<and> int32_num (QueryClaimableForActionRequest.action m)
     \<and> int32_num (QueryClaimableForActionRequest.chain m)"

definition wfj_QueryClaimableForActionRequest :: "QueryClaimableForActionRequest \<Rightarrow> bool" where
  "wfj_QueryClaimableForActionRequest m \<longleftrightarrow> Action_known (QueryClaimableForActionRequest.action m)
     \<and> Chain_known (QueryClaimableForActionRequest.chain m)"

subsection \<open>QueryClaimableForActionResponse\<close>

record QueryClaimableForActionResponse =
  amount :: "Coin option"

definition createBase_QueryClaimableForActionResponse :: QueryClaimableForActionResponse where
  "createBase_QueryClaimableForActionResponse = \<lparr>QueryClaimableForActionResponse.amount = None\<rparr>"

definition encode_QueryClaimableForActionResponse :: "('w, 'r) wire \<Rightarrow> QueryClaimableForActionResponse \<Rightarrow> 'w \<Rightarrow> 'w result" where
  "encode_QueryClaimableForActionResponse L message = seqE
    [someE (QueryClaimableForActionResponse.amount message) (\<lambda>v. seqE [w_uint32 L 10, w_fork L, encode_Coin L v, w_join L])]"

definition QueryClaimableForActionResponse_switch :: "('w, 'r) wire \<Rightarrow> u32 \<Rightarrow> QueryClaimableForActionResponse \<Rightarrow> (QueryClaimableForActionResponse, 'r) action" where
  "QueryClaimableForActionResponse_switch L tag message = js_switch (drop_bit 3 tag)
    [(1, when_tag tag 10 (readf (submsg L (decode_Coin L)) (\<lambda>v. message\<lparr>QueryClaimableForActionResponse.amount := Some v\<rparr>)))]
    break_out"

definition decode_QueryClaimableForActionResponse :: "('w, 'r) wire \<Rightarrow> 'r input \<Rightarrow> nat option \<Rightarrow> (QueryClaimableForActionResponse \<times> 'r) result" where
  "decode_QueryClaimableForActionResponse L = decode_msg L (QueryClaimableForActionResponse_switch L) createBase_QueryClaimableForActionResponse"

definition fromJSON_QueryClaimableForActionResponse :: "host \<Rightarrow> jsval \<Rightarrow> QueryClaimableForActionResponse result" where
  "fromJSON_QueryClaimableForActionResponse h object =
     bindE (optE object ''amount'' (fromJSON_Coin h)) (\<lambda>v_amount.
     Inr \<lparr>QueryClaimableForActionResponse.amount = v_amount\<rparr>)"

definition toJSON_QueryClaimableForActionResponse :: "host \<Rightarrow> QueryClaimableForActionResponse \<Rightarrow> jsval result" where
  "toJSON_QueryClaimableForActionResponse h message = objE
    [joptE ''amount'' (toJSON_Coin h) (QueryClaimableForActionResponse.amount message)]"

record QueryClaimableForActionResponse_Partial =
  amount :: "Coin_Partial option"

definition QueryClaimableForActionResponse_empty :: QueryClaimableForActionResponse_Partial where
  "QueryClaimableForActionResponse_empty = \<lparr>QueryClaimableForActionResponse_Partial.amount = None\<rparr>"

definition fromPartial_QueryClaimableForActionResponse :: "QueryClaimableForActionResponse_Partial \<Rightarrow> QueryClaimableForActionResponse" where
  "fromPartial_QueryClaimableForActionResponse object = createBase_QueryClaimableForActionResponse\<lparr>QueryClaimableForActionResponse.amount := map_option fromPartial_Coin (QueryClaimableForActionResponse_Partial.amount object)\<rparr>"

definition create_QueryClaimableForActionResponse :: "QueryClaimableForActionResponse_Partial option \<Rightarrow> QueryClaimableForActionResponse" where
  "create_QueryClaimableForActionResponse base = fromPartial_QueryClaimableForActionResponse (nullish base QueryClaimableForActionResponse_empty)"

text \<open>A partial message that sets every field.\<close>

definition partial_of_QueryClaimableForActionResponse :: "QueryClaimableForActionResponse \<Rightarrow> QueryClaimableForActionResponse_Partial" where
  "partial_of_QueryClaimableForActionResponse m =
     \<lparr>QueryClaimableForActionResponse_Partial.amount = map_option partial_of_Coin (QueryClaimableForActionResponse.amount m)\<rparr>"

definition ok_QueryClaimableForActionResponse :: "QueryClaimableForActionResponse \<Rightarrow> bool" where
  "ok_QueryClaimableForActionResponse m \<longleftrightarrow> pred_option ok_Coin (QueryClaimableForActionResponse.amount m)"

definition wf_QueryClaimableForActionResponse :: "('w, 'r) wire \<Rightarrow> QueryClaimableForActionResponse \<Rightarrow> bool" where
  "wf_QueryClaimableForActionResponse L m \<longleftrightarrow> pred_option (\<lambda>v. wf_Coin L v \<and> fits L (encode_Coin L v)) (QueryClaimableForActionResponse.amount m)"

definition wfj_QueryClaimableForActionResponse :: "QueryClaimableForActionResponse \<Rightarrow> bool" where
  "wfj_QueryClaimableForActionResponse m \<longleftrightarrow> pred_option wfj_Coin (QueryClaimableForActionResponse.amount m)"


section \<open>Encoding, decoding and JSON of these messages\<close>

sublocale wire_laws \<subseteq> claim_QueryParamsRequest_codec: message_codec L F out inp "encode_claim_QueryParamsRequest L" "claim_QueryParamsRequest_switch L" createBase_claim_QueryParamsRequest "wf_claim_QueryParamsRequest L"
proof unfold_locales
  show good: "good_sw (claim_QueryParamsRequest_switch L)"
    unfolding claim_QueryParamsRequest_switch_def by (intro good_swI fwd_rules)
  fix m assume "wf_claim_QueryParamsRequest L m"
  then show "codes (claim_QueryParamsRequest_switch L) (encode_claim_QueryParamsRequest L m) createBase_claim_QueryParamsRequest m"
    unfolding encode_claim_QueryParamsRequest_def wf_claim_QueryParamsRequest_def
    by (cases m) (simp add: createBase_claim_QueryParamsRequest_def codes_Nil [simplified])
qed

sublocale wire_laws \<subseteq> claim_QueryParamsRequest_range: message_range L F out inp "claim_QueryParamsRequest_switch L" createBase_claim_QueryParamsRequest ok_claim_QueryParamsRequest
proof unfold_locales
  show "ok_claim_QueryParamsRequest createBase_claim_QueryParamsRequest" by (simp add: ok_claim_QueryParamsRequest_def createBase_claim_QueryParamsRequest_def)
  fix m tag assume "ok_claim_QueryParamsRequest m"
  then show "keeps ok_claim_QueryParamsRequest (claim_QueryParamsRequest_switch L tag m)"
    unfolding claim_QueryParamsRequest_switch_def by - (rule range_rules | (simp add: ok_claim_QueryParamsRequest_def; fail))+
qed

context wire_laws
begin

lemmas claim_QueryParamsRequest_carries [codec_rules] =
  claim_QueryParamsRequest_codec.opt_carries [folded decode_claim_QueryParamsRequest_def] claim_QueryParamsRequest_codec.list_carries [folded decode_claim_QueryParamsRequest_def]

lemmas claim_QueryParamsRequest_good [fwd_rules] = claim_QueryParamsRequest_codec.op_good [folded decode_claim_QueryParamsRequest_def]

lemmas claim_QueryParamsRequest_yields [range_rules] = claim_QueryParamsRequest_range.sub_range [folded decode_claim_QueryParamsRequest_def]

lemmas claim_QueryParamsRequest_roundtrip = claim_QueryParamsRequest_codec.roundtrip [folded decode_claim_QueryParamsRequest_def]

lemmas claim_QueryParamsRequest_returns = claim_QueryParamsRequest_codec.decode_returns [folded decode_claim_QueryParamsRequest_def]

lemmas claim_QueryParamsRequest_decoded = claim_QueryParamsRequest_range.decode_range [folded decode_claim_QueryParamsRequest_def]

end

interpretation claim_QueryParamsRequest_json: message_json toJSON_claim_QueryParamsRequest fromJSON_claim_QueryParamsRequest wfj_claim_QueryParamsRequest
proof unfold_locales
  fix h m
  show "json_rt (toJSON_claim_QueryParamsRequest h) (fromJSON_claim_QueryParamsRequest h) m"
    by (cases m) (simp add: json_rt_def toJSON_claim_QueryParamsRequest_def fromJSON_claim_QueryParamsRequest_def objE_rules(1))
qed

lemmas claim_QueryParamsRequest_json_rules [json_rules] = claim_QueryParamsRequest_json.json_field_rules

lemma claim_QueryParamsResponse_tags:
  "claim_QueryParamsResponse_switch L 10 m = readf (submsg L (decode_claim_Params L)) (\<lambda>v. m\<lparr>claim_QueryParamsResponse.params := Some v\<rparr>)"
  by (simp_all add: claim_QueryParamsResponse_switch_def when_tag_def)

lemma fromPartial_partial_of_claim_QueryParamsResponse [simp]: "fromPartial_claim_QueryParamsResponse (partial_of_claim_QueryParamsResponse m) = m"
  by (simp add: fromPartial_claim_QueryParamsResponse_def partial_of_claim_QueryParamsResponse_def createBase_claim_QueryParamsResponse_def partial_map_def option.map_comp o_def option.map_ident)

lemma create_claim_QueryParamsResponse_None [simp]: "create_claim_QueryParamsResponse None = createBase_claim_QueryParamsResponse"
  by (simp add: create_claim_QueryParamsResponse_def fromPartial_claim_QueryParamsResponse_def claim_QueryParamsResponse_empty_def createBase_claim_QueryParamsResponse_def partial_map_def)

sublocale wire_laws \<subseteq> claim_QueryParamsResponse_codec: message_codec L F out inp "encode_claim_QueryParamsResponse L" "claim_QueryParamsResponse_switch L" createBase_claim_QueryParamsResponse "wf_claim_QueryParamsResponse L"
proof unfold_locales
  show good: "good_sw (claim_QueryParamsResponse_switch L)"
    unfolding claim_QueryParamsResponse_switch_def by (intro good_swI fwd_rules)
  fix m assume "wf_claim_QueryParamsResponse L m"
  then show "codes (claim_QueryParamsResponse_switch L) (encode_claim_QueryParamsResponse L m) createBase_claim_QueryParamsResponse m"
    unfolding encode_claim_QueryParamsResponse_def wf_claim_QueryParamsResponse_def
    by (-)
      (rule codes_Cons codes_Nil [OF claim_QueryParamsResponse.equality] codec_rules
        codes_some [where tag = 10 and u = claim_QueryParamsResponse.params_update and op = "submsg L (decode_claim_Params L)", OF good]
      | assumption | (simp add: claim_QueryParamsResponse_tags createBase_claim_QueryParamsResponse_def; fail))+
qed

sublocale wire_laws \<subseteq> claim_QueryParamsResponse_range: message_range L F out inp "claim_QueryParamsResponse_switch L" createBase_claim_QueryParamsResponse ok_claim_QueryParamsResponse
proof unfold_locales
  show "ok_claim_QueryParamsResponse createBase_claim_QueryParamsResponse" by (simp add: ok_claim_QueryParamsResponse_def createBase_claim_QueryParamsResponse_def)
  fix m tag assume "ok_claim_QueryParamsResponse m"
  then show "keeps ok_claim_QueryParamsResponse (claim_QueryParamsResponse_switch L tag m)"
    unfolding claim_QueryParamsResponse_switch_def by - (rule range_rules | (simp add: ok_claim_QueryParamsResponse_def; fail))+
qed

context wire_laws
begin

lemmas claim_QueryParamsResponse_carries [codec_rules] =
  claim_QueryParamsResponse_codec.opt_carries [folded decode_claim_QueryParamsResponse_def] claim_QueryParamsResponse_codec.list_carries [folded decode_claim_QueryParamsResponse_def]

lemmas claim_QueryParamsResponse_good [fwd_rules] = claim_QueryParamsResponse_codec.op_good [folded decode_claim_QueryParamsResponse_def]

lemmas claim_QueryParamsResponse_yields [range_rules] = claim_QueryParamsResponse_range.sub_range [folded decode_claim_QueryParamsResponse_def]

lemmas claim_QueryParamsResponse_roundtrip = claim_QueryParamsResponse_codec.roundtrip [folded decode_claim_QueryParamsResponse_def]

lemmas claim_QueryParamsResponse_returns = claim_QueryParamsResponse_codec.decode_returns [folded decode_claim_QueryParamsResponse_def]

lemmas claim_QueryParamsResponse_decoded = claim_QueryParamsResponse_range.decode_range [folded decode_claim_QueryParamsResponse_def]

end

interpretation claim_QueryParamsResponse_json: message_json toJSON_claim_QueryParamsResponse fromJSON_claim_QueryParamsResponse wfj_claim_QueryParamsResponse
proof unfold_locales
  fix h m
  assume "wfj_claim_QueryParamsResponse m"
  then show "json_rt (toJSON_claim_QueryParamsResponse h) (fromJSON_claim_QueryParamsResponse h) m"
    unfolding toJSON_claim_QueryParamsResponse_def fromJSON_claim_QueryParamsResponse_def wfj_claim_QueryParamsResponse_def
    by (-) (rule json_rtI json_rules | assumption | (simp; fail))+
qed

lemmas claim_QueryParamsResponse_json_rules [json_rules] = claim_QueryParamsResponse_json.json_field_rules

lemma QueryClaimRecordRequest_tags:
  "QueryClaimRecordRequest_switch L 10 m = readf (r_string L) (\<lambda>v. m\<lparr>QueryClaimRecordRequest.address := v\<rparr>)"
  "QueryClaimRecordRequest_switch L 16 m = readf (num32 (r_int32 L)) (\<lambda>v. m\<lparr>QueryClaimRecordRequest.chain := v\<rparr>)"
  by (simp_all add: QueryClaimRecordRequest_switch_def when_tag_def)

lemma fromPartial_partial_of_QueryClaimRecordRequest [simp]: "fromPartial_QueryClaimRecordRequest (partial_of_QueryClaimRecordRequest m) = m"
  by (simp add: fromPartial_QueryClaimRecordRequest_def partial_of_QueryClaimRecordRequest_def createBase_QueryClaimRecordRequest_def partial_map_def option.map_comp o_def option.map_ident)

lemma create_QueryClaimRecordRequest_None [simp]: "create_QueryClaimRecordRequest None = createBase_QueryClaimRecordRequest"
  by (simp add: create_QueryClaimRecordRequest_def fromPartial_QueryClaimRecordRequest_def QueryClaimRecordRequest_empty_def createBase_QueryClaimRecordRequest_def partial_map_def)

sublocale wire_laws \<subseteq> QueryClaimRecordRequest_codec: message_codec L F out inp "encode_QueryClaimRecordRequest L" "QueryClaimRecordRequest_switch L" createBase_QueryClaimRecordRequest "wf_QueryClaimRecordRequest L"
proof unfold_locales
  show good: "good_sw (QueryClaimRecordRequest_switch L)"
    unfolding QueryClaimRecordRequest_switch_def by (intro good_swI fwd_rules)
  fix m assume "wf_QueryClaimRecordRequest L m"
  then show "codes (QueryClaimRecordRequest_switch L) (encode_QueryClaimRecordRequest L m) createBase_QueryClaimRecordRequest m"
    unfolding encode_QueryClaimRecordRequest_def wf_QueryClaimRecordRequest_def
    by (elim conjE)
      (rule codes_Cons codes_Nil [OF QueryClaimRecordRequest.equality] codec_rules
        codes_when [where tag = 10 and u = QueryClaimRecordRequest.address_update and op = "r_string L", OF good]
        codes_when [where tag = 16 and u = QueryClaimRecordRequest.chain_update and op = "num32 (r_int32 L)", OF good]
      | assumption | (simp add: QueryClaimRecordRequest_tags createBase_QueryClaimRecordRequest_def; fail))+
qed

sublocale wire_laws \<subseteq> QueryClaimRecordRequest_range: message_range L F out inp "QueryClaimRecordRequest_switch L" createBase_QueryClaimRecordRequest ok_QueryClaimRecordRequest
proof unfold_locales
  show "ok_QueryClaimRecordRequest createBase_QueryClaimRecordRequest" by (simp add: ok_QueryClaimRecordRequest_def createBase_QueryClaimRecordRequest_def)
  fix m tag assume "ok_QueryClaimRecordRequest m"
  then show "keeps ok_QueryClaimRecordRequest (QueryClaimRecordRequest_switch L tag m)"
    unfolding QueryClaimRecordRequest_switch_def by - (rule range_rules | (simp add: ok_QueryClaimRecordRequest_def; fail))+
qed

context wire_laws
begin

lemmas QueryClaimRecordRequest_carries [codec_rules] =
  QueryClaimRecordRequest_codec.opt_carries [folded decode_QueryClaimRecordRequest_def] QueryClaimRecordRequest_codec.list_carries [folded decode_QueryClaimRecordRequest_def]

lemmas QueryClaimRecordRequest_good [fwd_rules] = QueryClaimRecordRequest_codec.op_good [folded decode_QueryClaimRecordRequest_def]

lemmas QueryClaimRecordRequest_yields [range_rules] = QueryClaimRecordRequest_range.sub_range [folded decode_QueryClaimRecordRequest_def]

lemmas QueryClaimRecordRequest_roundtrip = QueryClaimRecordRequest_codec.roundtrip [folded decode_QueryClaimRecordRequest_def]

lemmas QueryClaimRecordRequest_returns = QueryClaimRecordRequest_codec.decode_returns [folded decode_QueryClaimRecordRequest_def]

lemmas QueryClaimRecordRequest_decoded = QueryClaimRecordRequest_range.decode_range [folded decode_QueryClaimRecordRequest_def]

end

interpretation QueryClaimRecordRequest_json: message_json toJSON_QueryClaimRecordRequest fromJSON_QueryClaimRecordRequest wfj_QueryClaimRecordRequest
proof unfold_locales
  fix h m
  assume "wfj_QueryClaimRecordRequest m"
  then show "json_rt (toJSON_QueryClaimRecordRequest h) (fromJSON_QueryClaimRecordRequest h) m"
    unfolding toJSON_QueryClaimRecordRequest_def fromJSON_QueryClaimRecordRequest_def wfj_QueryClaimRecordRequest_def
    by (-) (rule json_rtI json_rules | assumption | (simp; fail))+
qed

lemmas QueryClaimRecordRequest_json_rules [json_rules] = QueryClaimRecordRequest_json.json_field_rules

lemma QueryClaimRecordResponse_tags:
  "QueryClaimRecordResponse_switch L 10 m = readf (submsg L (decode_ClaimRecord L)) (\<lambda>v. m\<lparr>QueryClaimRecordResponse.claimRecord := Some v\<rparr>)"
  by (simp_all add: QueryClaimRecordResponse_switch_def when_tag_def)

lemma fromPartial_partial_of_QueryClaimRecordResponse [simp]: "fromPartial_QueryClaimRecordResponse (partial_of_QueryClaimRecordResponse m) = m"
  by (simp add: fromPartial_QueryClaimRecordResponse_def partial_of_QueryClaimRecordResponse_def createBase_QueryClaimRecordResponse_def partial_map_def option.map_comp o_def option.map_ident)

lemma create_QueryClaimRecordResponse_None [simp]: "create_QueryClaimRecordResponse None = createBase_QueryClaimRecordResponse"
  by (simp add: create_QueryClaimRecordResponse_def fromPartial_QueryClaimRecordResponse_def QueryClaimRecordResponse_empty_def createBase_QueryClaimRecordResponse_def partial_map_def)

sublocale wire_laws \<subseteq> QueryClaimRecordResponse_codec: message_codec L F out inp "encode_QueryClaimRecordResponse L" "QueryClaimRecordResponse_switch L" createBase_QueryClaimRecordResponse "wf_QueryClaimRecordResponse L"
proof unfold_locales
  show good: "good_sw (QueryClaimRecordResponse_switch L)"
    unfolding QueryClaimRecordResponse_switch_def by (intro good_swI fwd_rules)
  fix m assume "wf_QueryClaimRecordResponse L m"
  then show "codes (QueryClaimRecordResponse_switch L) (encode_QueryClaimRecordResponse L m) createBase_QueryClaimRecordResponse m"
    unfolding encode_QueryClaimRecordResponse_def wf_QueryClaimRecordResponse_def
    by (-)
      (rule codes_Cons codes_Nil [OF QueryClaimRecordResponse.equality] codec_rules
        codes_some [where tag = 10 and u = QueryClaimRecordResponse.claimRecord_update and op = "submsg L (decode_ClaimRecord L)", OF good]
      | assumption | (simp add: QueryClaimRecordResponse_tags createBase_QueryClaimRecordResponse_def; fail))+
qed

sublocale wire_laws \<subseteq> QueryClaimRecordResponse_range: message_range L F out inp "QueryClaimRecordResponse_switch L" createBase_QueryClaimRecordResponse ok_QueryClaimRecordResponse
proof unfold_locales
  show "ok_QueryClaimRecordResponse createBase_QueryClaimRecordResponse" by (simp add: ok_QueryClaimRecordResponse_def createBase_QueryClaimRecordResponse_def)
  fix m tag assume "ok_QueryClaimRecordResponse m"
  then show "keeps ok_QueryClaimRecordResponse (QueryClaimRecordResponse_switch L tag m)"
    unfolding QueryClaimRecordResponse_switch_def by - (rule range_rules | (simp add: ok_QueryClaimRecordResponse_def; fail))+
qed

context wire_laws
begin

lemmas QueryClaimRecordResponse_carries [codec_rules] =
  QueryClaimRecordResponse_codec.opt_carries [folded decode_QueryClaimRecordResponse_def] QueryClaimRecordResponse_codec.list_carries [folded decode_QueryClaimRecordResponse_def]

lemmas QueryClaimRecordResponse_good [fwd_rules] = QueryClaimRecordResponse_codec.op_good [folded decode_QueryClaimRecordResponse_def]

lemmas QueryClaimRecordResponse_yields [range_rules] = QueryClaimRecordResponse_range.sub_range [folded decode_QueryClaimRecordResponse_def]

lemmas QueryClaimRecordResponse_roundtrip = QueryClaimRecordResponse_codec.roundtrip [folded decode_QueryClaimRecordResponse_def]

lemmas QueryClaimRecordResponse_returns = QueryClaimRecordResponse_codec.decode_returns [folded decode_QueryClaimRecordResponse_def]

lemmas QueryClaimRecordResponse_decoded = QueryClaimRecordResponse_range.decode_range [folded decode_QueryClaimRecordResponse_def]

end

interpretation QueryClaimRecordResponse_json: message_json toJSON_QueryClaimRecordResponse fromJSON_QueryClaimRecordResponse wfj_QueryClaimRecordResponse
proof unfold_locales
  fix h m
  assume "wfj_QueryClaimRecordResponse m"
  then show "json_rt (toJSON_QueryClaimRecordResponse h) (fromJSON_QueryClaimRecordResponse h) m"
    unfolding toJSON_QueryClaimRecordResponse_def fromJSON_QueryClaimRecordResponse_def wfj_QueryClaimRecordResponse_def
    by (-) (rule json_rtI json_rules | assumption | (simp; fail))+
qed

lemmas QueryClaimRecordResponse_json_rules [json_rules] = QueryClaimRecordResponse_json.json_field_rules

lemma QueryClaimableForActionRequest_tags:
  "QueryClaimableForActionRequest_switch L 10 m = readf (r_string L) (\<lambda>v. m\<lparr>QueryClaimableForActionRequest.address := v\<rparr>)"
  "QueryClaimableForActionRequest_switch L 16 m = readf (num32 (r_int32 L)) (\<lambda>v. m\<lparr>QueryClaimableForActionRequest.action := v\<rparr>)"
  "QueryClaimableForActionRequest_switch L 24 m = readf (num32 (r_int32 L)) (\<lambda>v. m\<lparr>QueryClaimableForActionRequest.chain := v\<rparr>)"
  by (simp_all add: QueryClaimableForActionRequest_switch_def when_tag_def)

lemma fromPartial_partial_of_QueryClaimableForActionRequest [simp]: "fromPartial_QueryClaimableForActionRequest (partial_of_QueryClaimableForActionRequest m) = m"
  by (simp add: fromPartial_QueryClaimableForActionRequest_def partial_of_QueryClaimableForActionRequest_def createBase_QueryClaimableForActionRequest_def partial_map_def option.map_comp o_def option.map_ident)

lemma create_QueryClaimableForActionRequest_None [simp]: "create_QueryClaimableForActionRequest None = createBase_QueryClaimableForActionRequest"
  by (simp add: create_QueryClaimableForActionRequest_def fromPartial_QueryClaimableForActionRequest_def QueryClaimableForActionRequest_empty_def createBase_QueryClaimableForActionRequest_def partial_map_def)

sublocale wire_laws \<subseteq> QueryClaimableForActionRequest_codec: message_codec L F out inp "encode_QueryClaimableForActionRequest L" "QueryClaimableForActionRequest_switch L" createBase_QueryClaimableForActionRequest "wf_QueryClaimableForActionRequest L"
proof unfold_locales
  show good: "good_sw (QueryClaimableForActionRequest_switch L)"
    unfolding QueryClaimableForActionRequest_switch_def by (intro good_swI fwd_rules)
  fix m assume "wf_QueryClaimableForActionRequest L m"
  then show "codes (QueryClaimableForActionRequest_switch L) (encode_QueryClaimableForActionRequest L m) createBase_QueryClaimableForActionRequest m"
    unfolding encode_QueryClaimableForActionRequest_def wf_QueryClaimableForActionRequest_def
    by (elim conjE)
      (rule codes_Cons codes_Nil [OF QueryClaimableForActionRequest.equality] codec_rules
        codes_when [where tag = 10 and u = QueryClaimableForActionRequest.address_update and op = "r_string L", OF good]
        codes_when [where tag = 16 and u = QueryClaimableForActionRequest.action_update and op = "num32 (r_int32 L)", OF good]
        codes_when [where tag = 24 and u = QueryClaimableForActionRequest.chain_update and op = "num32 (r_int32 L)", OF good]
      | assumption | (simp add: QueryClaimableForActionRequest_tags createBase_QueryClaimableForActionRequest_def; fail))+
qed

sublocale wire_laws \<subseteq> QueryClaimableForActionRequest_range: message_range L F out inp "QueryClaimableForActionRequest_switch L" createBase_QueryClaimableForActionRequest ok_QueryClaimableForActionRequest
proof unfold_locales
  show "ok_QueryClaimableForActionRequest createBase_QueryClaimableForActionRequest" by (simp add: ok_QueryClaimableForActionRequest_def createBase_QueryClaimableForActionRequest_def)
  fix m tag assume "ok_QueryClaimableForActionRequest m"
  then show "keeps ok_QueryClaimableForActionRequest (QueryClaimableForActionRequest_switch L tag m)"
    unfolding QueryClaimableForActionRequest_switch_def by - (rule range_rules | (simp add: ok_QueryClaimableForActionRequest_def; fail))+
qed

context wire_laws
begin

lemmas QueryClaimableForActionRequest_carries [codec_rules] =
  QueryClaimableForActionRequest_codec.opt_carries [folded decode_QueryClaimableForActionRequest_def] QueryClaimableForActionRequest_codec.list_carries [folded decode_QueryClaimableForActionRequest_def]

lemmas QueryClaimableForActionRequest_good [fwd_rules] = QueryClaimableForActionRequest_codec.op_good [folded decode_QueryClaimableForActionRequest_def]

lemmas QueryClaimableForActionRequest_yields [range_rules] = QueryClaimableForActionRequest_range.sub_range [folded decode_QueryClaimableForActionRequest_def]

lemmas QueryClaimableForActionRequest_roundtrip = QueryClaimableForActionRequest_codec.roundtrip [folded decode_QueryClaimableForActionRequest_def]

lemmas QueryClaimableForActionRequest_returns = QueryClaimableForActionRequest_codec.decode_returns [folded decode_QueryClaimableForActionRequest_def]

lemmas QueryClaimableForActionRequest_decoded = QueryClaimableForActionRequest_range.decode_range [folded decode_QueryClaimableForActionRequest_def]

end

interpretation QueryClaimableForActionRequest_json: message_json toJSON_QueryClaimableForActionRequest fromJSON_QueryClaimableForActionRequest wfj_QueryClaimableForActionRequest
proof unfold_locales
  fix h m
  assume "wfj_QueryClaimableForActionRequest m"
  then show "json_rt (toJSON_QueryClaimableForActionRequest h) (fromJSON_QueryClaimableForActionRequest h) m"
    unfolding toJSON_QueryClaimableForActionRequest_def fromJSON_QueryClaimableForActionRequest_def wfj_QueryClaimableForActionRequest_def
    by (elim conjE) (rule json_rtI json_rules | assumption | (simp; fail))+
qed

lemmas QueryClaimableForActionRequest_json_rules [json_rules] = QueryClaimableForActionRequest_json.json_field_rules

lemma QueryClaimableForActionResponse_tags:
  "QueryClaimableForActionResponse_switch L 10 m = readf (submsg L (decode_Coin L)) (\<lambda>v. m\<lparr>QueryClaimableForActionResponse.amount := Some v\<rparr>)"
  by (simp_all add: QueryClaimableForActionResponse_switch_def when_tag_def)

lemma fromPartial_partial_of_QueryClaimableForActionResponse [simp]: "fromPartial_QueryClaimableForActionResponse (partial_of_QueryClaimableForActionResponse m) = m"
  by (simp add: fromPartial_QueryClaimableForActionResponse_def partial_of_QueryClaimableForActionResponse_def createBase_QueryClaimableForActionResponse_def partial_map_def option.map_comp o_def option.map_ident)

lemma create_QueryClaimableForActionResponse_None [simp]: "create_QueryClaimableForActionResponse None = createBase_QueryClaimableForActionResponse"
  by (simp add: create_QueryClaimableForActionResponse_def fromPartial_QueryClaimableForActionResponse_def QueryClaimableForActionResponse_empty_def createBase_QueryClaimableForActionResponse_def partial_map_def)

sublocale wire_laws \<subseteq> QueryClaimableForActionResponse_codec: message_codec L F out inp "encode_QueryClaimableForActionResponse L" "QueryClaimableForActionResponse_switch L" createBase_QueryClaimableForActionResponse "wf_QueryClaimableForActionResponse L"
proof unfold_locales
  show good: "good_sw (QueryClaimableForActionResponse_switch L)"
    unfolding QueryClaimableForActionResponse_switch_def by (intro good_swI fwd_rules)
  fix m assume "wf_QueryClaimableForActionResponse L m"
  then show "codes (QueryClaimableForActionResponse_switch L) (encode_QueryClaimableForActionResponse L m) createBase_QueryClaimableForActionResponse m"
    unfolding encode_QueryClaimableForActionResponse_def wf_QueryClaimableForActionResponse_def
    by (-)
      (rule codes_Cons codes_Nil [OF QueryClaimableForActionResponse.equality] codec_rules
        codes_some [where tag = 10 and u = QueryClaimableForActionResponse.amount_update and op = "submsg L (decode_Coin L)", OF good]
      | assumption | (simp add: QueryClaimableForActionResponse_tags createBase_QueryClaimableForActionResponse_def; fail))+
qed

sublocale wire_laws \<subseteq> QueryClaimableForActionResponse_range: message_range L F out inp "QueryClaimableForActionResponse_switch L" createBase_QueryClaimableForActionResponse ok_QueryClaimableForActionResponse
proof unfold_locales
  show "ok_QueryClaimableForActionResponse createBase_QueryClaimableForActionResponse" by (simp add: ok_QueryClaimableForActionResponse_def createBase_QueryClaimableForActionResponse_def)
  fix m tag assume "ok_QueryClaimableForActionResponse m"
  then show "keeps ok_QueryClaimableForActionResponse (QueryClaimableForActionResponse_switch L tag m)"
    unfolding QueryClaimableForActionResponse_switch_def by - (rule range_rules | (simp add: ok_QueryClaimableForActionResponse_def; fail))+
qed

context wire_laws
begin

lemmas QueryClaimableForActionResponse_carries [codec_rules] =
  QueryClaimableForActionResponse_codec.opt_carries [folded decode_QueryClaimableForActionResponse_def] QueryClaimableForActionResponse_codec.list_carries [folded decode_QueryClaimableForActionResponse_def]

lemmas QueryClaimableForActionResponse_good [fwd_rules] = QueryClaimableForActionResponse_codec.op_good [folded decode_QueryClaimableForActionResponse_def]

lemmas QueryClaimableForActionResponse_yields [range_rules] = QueryClaimableForActionResponse_range.sub_range [folded decode_QueryClaimableForActionResponse_def]

lemmas QueryClaimableForActionResponse_roundtrip = QueryClaimableForActionResponse_codec.roundtrip [folded decode_QueryClaimableForActionResponse_def]

lemmas QueryClaimableForActionResponse_returns = QueryClaimableForActionResponse_codec.decode_returns [folded decode_QueryClaimableForActionResponse_def]

lemmas QueryClaimableForActionResponse_decoded = QueryClaimableForActionResponse_range.decode_range [folded decode_QueryClaimableForActionResponse_def]

end

interpretation QueryClaimableForActionResponse_json: message_json toJSON_QueryClaimableForActionResponse fromJSON_QueryClaimableForActionResponse wfj_QueryClaimableForActionResponse
proof unfold_locales
  fix h m
  assume "wfj_QueryClaimableForActionResponse m"
  then show "json_rt (toJSON_QueryClaimableForActionResponse h) (fromJSON_QueryClaimableForActionResponse h) m"
    unfolding toJSON_QueryClaimableForActionResponse_def fromJSON_QueryClaimableForActionResponse_def wfj_QueryClaimableForActionResponse_def
    by (-) (rule json_rtI json_rules | assumption | (simp; fail))+
qed

lemmas QueryClaimableForActionResponse_json_rules [json_rules] = QueryClaimableForActionResponse_json.json_field_rules


end
