(* ===== verification/RpcClient.thy ===== *)
theory RpcClient
  imports TxMsgs QueryMsgs ClaimTx ClaimQuery
begin

text \<open>
  The gRPC clients \<open>MsgClientImpl\<close> and \<open>QueryClientImpl\<close> of \<open>tx.ts\<close> and \<open>query.ts\<close>. The transport
  \<open>rpc.request\<close> is supplied by the caller of the constructor and may have effects, so it is a
  parameter: a function of the service, the method and the request bytes that changes a state of
  its own and answers with bytes or a rejection. A method may throw at once (when the request
  cannot be encoded, nothing is sent), return a promise that is rejected, or one that resolves.

  The specification of a service is its interface, \<open>Msg\<close> or \<open>Query\<close>, as a record of handlers; a
  remote end \<open>serve\<close>s such a record by decoding the request, running the handler and encoding
  the answer. The locale \<open>rpc_method\<close> is the contract of one method: over a transport whose remote
  end serves a handler, calling the method is calling the handler.
\<close>

section \<open>Promises and calls\<close>

datatype 'a outcome = Throws js_error | Rejects js_error | Resolves 'a

type_synonym 's rpc = "jsstring \<Rightarrow> jsstring \<Rightarrow> bytes \<Rightarrow> 's \<Rightarrow> bytes result \<times> 's"

record 's client_impl =
  rpc :: "'s rpc"
  service :: jsstring

text \<open>\<open>this.service = opts?.service || ...ServiceName; this.rpc = rpc;\<close>\<close>

definition new_client :: "jsstring \<Rightarrow> 's rpc \<Rightarrow> jsstring option option \<Rightarrow> 's client_impl" where
  "new_client svcName transport opts =
     \<lparr>client_impl.rpc = transport,
      client_impl.service = (case opts of Some (Some s) \<Rightarrow> if s = [] then svcName else s | _ \<Rightarrow> svcName)\<rparr>"

text \<open>
  \<open>const data = Req.encode(request).finish(); const promise = this.rpc.request(this.service, method, data);
  return promise.then((data) => Res.decode(new BinaryReader(data)));\<close>
\<close>

definition unary :: "('w, 'r) wire \<Rightarrow> 's client_impl \<Rightarrow> jsstring \<Rightarrow> ('q \<Rightarrow> 'w \<Rightarrow> 'w result)
    \<Rightarrow> ('r input \<Rightarrow> nat option \<Rightarrow> ('a \<times> 'r) result) \<Rightarrow> 'q \<Rightarrow> 's \<Rightarrow> 'a outcome \<times> 's" where
  "unary L this method enc dec request s =
     (case encode_bytes L (enc request) of
        Inl e \<Rightarrow> (Throws e, s)
      | Inr data \<Rightarrow>
          (case client_impl.rpc this (client_impl.service this) method data s of
             (Inl e, s') \<Rightarrow> (Rejects e, s')
           | (Inr data', s') \<Rightarrow>
               (case dec (AReader (Reader_new L data')) None of
                  Inl e \<Rightarrow> (Rejects e, s')
                | Inr (a, _) \<Rightarrow> (Resolves a, s'))))"

text \<open>The remote end of one method.\<close>

type_synonym ('q, 'a, 's) handler = "'q \<Rightarrow> 's \<Rightarrow> 'a result \<times> 's"

definition serve :: "('w, 'r) wire \<Rightarrow> ('r input \<Rightarrow> nat option \<Rightarrow> ('q \<times> 'r) result)
    \<Rightarrow> ('a \<Rightarrow> 'w \<Rightarrow> 'w result) \<Rightarrow> ('q, 'a, 's) handler \<Rightarrow> bytes \<Rightarrow> 's \<Rightarrow> bytes result \<times> 's" where
  "serve L dec enc handler data s =
     (case dec (ABuffer data) None of
        Inl e \<Rightarrow> (Inl e, s)
      | Inr (q, _) \<Rightarrow>
          (case handler q s of
             (Inl e, s') \<Rightarrow> (Inl e, s')
           | (Inr a, s') \<Rightarrow> (encode_bytes L (enc a), s')))"

text \<open>What a caller of the interface sees of a handler.\<close>

definition direct :: "('q, 'a, 's) handler \<Rightarrow> 'q \<Rightarrow> 's \<Rightarrow> 'a outcome \<times> 's" where
  "direct handler q s =
     (case handler q s of (Inl e, s') \<Rightarrow> (Rejects e, s') | (Inr a, s') \<Rightarrow> (Resolves a, s'))"


section \<open>arkeo/arkeo/tx.ts: Msg\<close>

record 's Msg_service =
  BondProvider :: "(MsgBondProvider, MsgBondProviderResponse, 's) handler"
  ModProvider :: "(MsgModProvider, MsgModProviderResponse, 's) handler"
  OpenContract :: "(MsgOpenContract, MsgOpenContractResponse, 's) handler"
  CloseContract :: "(MsgCloseContract, MsgCloseContractResponse, 's) handler"
  ClaimContractIncome :: "(MsgClaimContractIncome, MsgClaimContractIncomeResponse, 's) handler"
  SetVersion :: "(MsgSetVersion, MsgSetVersionResponse, 's) handler"
  RegisterService :: "(MsgRegisterService, MsgRegisterServiceResponse, 's) handler"
  UpdateService :: "(MsgUpdateService, MsgUpdateServiceResponse, 's) handler"
  RemoveService :: "(MsgRemoveService, MsgRemoveServiceResponse, 's) handler"

definition MsgServiceName :: jsstring where
  "MsgServiceName = js ''arkeo.arkeo.Msg''"

definition new_MsgClientImpl :: "'s rpc \<Rightarrow> jsstring option option \<Rightarrow> 's client_impl" where
  "new_MsgClientImpl = new_client MsgServiceName"

definition MsgClientImpl_BondProvider :: "('w, 'r) wire \<Rightarrow> 's client_impl \<Rightarrow> MsgBondProvider \<Rightarrow> 's \<Rightarrow> MsgBondProviderResponse outcome \<times> 's" where
  "MsgClientImpl_BondProvider L this = unary L this (js ''BondProvider'') (encode_MsgBondProvider L) (decode_MsgBondProviderResponse L)"

definition MsgClientImpl_ModProvider :: "('w, 'r) wire \<Rightarrow> 's client_impl \<Rightarrow> MsgModProvider \<Rightarrow> 's \<Rightarrow> MsgModProviderResponse outcome \<times> 's" where
  "MsgClientImpl_ModProvider L this = unary L this (js ''ModProvider'') (encode_MsgModProvider L) (decode_MsgModProviderResponse L)"

definition MsgClientImpl_OpenContract :: "('w, 'r) wire \<Rightarrow> 's client_impl \<Rightarrow> MsgOpenContract \<Rightarrow> 's \<Rightarrow> MsgOpenContractResponse outcome \<times> 's" where
  "MsgClientImpl_OpenContract L this = unary L this (js ''OpenContract'') (encode_MsgOpenContract L) (decode_MsgOpenContractResponse L)"

definition MsgClientImpl_CloseContract :: "('w, 'r) wire \<Rightarrow> 's client_impl \<Rightarrow> MsgCloseContract \<Rightarrow> 's \<Rightarrow> MsgCloseContractResponse outcome \<times> 's" where
  "MsgClientImpl_CloseContract L this = unary L this (js ''CloseContract'') (encode_MsgCloseContract L) (decode_MsgCloseContractResponse L)"

definition MsgClientImpl_ClaimContractIncome :: "('w, 'r) wire \<Rightarrow> 's client_impl \<Rightarrow> MsgClaimContractIncome \<Rightarrow> 's \<Rightarrow> MsgClaimContractIncomeResponse outcome \<times> 's" where
  "MsgClientImpl_ClaimContractIncome L this = unary L this (js ''ClaimContractIncome'') (encode_MsgClaimContractIncome L) (decode_MsgClaimContractIncomeResponse L)"

definition MsgClientImpl_SetVersion :: "('w, 'r) wire \<Rightarrow> 's client_impl \<Rightarrow> MsgSetVersion \<Rightarrow> 's \<Rightarrow> MsgSetVersionResponse outcome \<times> 's" where
  "MsgClientImpl_SetVersion L this = unary L this (js ''SetVersion'') (encode_MsgSetVersion L) (decode_MsgSetVersionResponse L)"

definition MsgClientImpl_RegisterService :: "('w, 'r) wire \<Rightarrow> 's client_impl \<Rightarrow> MsgRegisterService \<Rightarrow> 's \<Rightarrow> MsgRegisterServiceResponse outcome \<times> 's" where
  "MsgClientImpl_RegisterService L this = unary L this (js ''RegisterService'') (encode_MsgRegisterService L) (decode_MsgRegisterServiceResponse L)"

definition MsgClientImpl_UpdateService :: "('w, 'r) wire \<Rightarrow> 's client_impl \<Rightarrow> MsgUpdateService \<Rightarrow> 's \<Rightarrow> MsgUpdateServiceResponse outcome \<times> 's" where
  "MsgClientImpl_UpdateService L this = unary L this (js ''UpdateService'') (encode_MsgUpdateService L) (decode_MsgUpdateServiceResponse L)"

definition MsgClientImpl_RemoveService :: "('w, 'r) wire \<Rightarrow> 's client_impl \<Rightarrow> MsgRemoveService \<Rightarrow> 's \<Rightarrow> MsgRemoveServiceResponse outcome \<times> 's" where
  "MsgClientImpl_RemoveService L this = unary L this (js ''RemoveService'') (encode_MsgRemoveService L) (decode_MsgRemoveServiceResponse L)"

text \<open>A remote end that implements the interface.\<close>

definition Msg_served :: "('w, 'r) wire \<Rightarrow> 's client_impl \<Rightarrow> 's Msg_service \<Rightarrow> bool" where
  "Msg_served L this impl \<longleftrightarrow> (\<forall>data s.
     client_impl.rpc this (client_impl.service this) (js ''BondProvider'') data s =
       serve L (decode_MsgBondProvider L) (encode_MsgBondProviderResponse L) (Msg_service.BondProvider impl) data s
   \<and> client_impl.rpc this (client_impl.service this) (js ''ModProvider'') data s =
       serve L (decode_MsgModProvider L) (encode_MsgModProviderResponse L) (Msg_service.ModProvider impl) data s
   \<and> client_impl.rpc this (client_impl.service this) (js ''OpenContract'') data s =
       serve L (decode_MsgOpenContract L) (encode_MsgOpenContractResponse L) (Msg_service.OpenContract impl) data s
   \<and> client_impl.rpc this (client_impl.service this) (js ''CloseContract'') data s =
       serve L (decode_MsgCloseContract L) (encode_MsgCloseContractResponse L) (Msg_service.CloseContract impl) data s
   \<and> client_impl.rpc this (client_impl.service this) (js ''ClaimContractIncome'') data s =
       serve L (decode_MsgClaimContractIncome L) (encode_MsgClaimContractIncomeResponse L) (Msg_service.ClaimContractIncome impl) data s
   \<and> client_impl.rpc this (client_impl.service this) (js ''SetVersion'') data s =
       serve L (decode_MsgSetVersion L) (encode_MsgSetVersionResponse L) (Msg_service.SetVersion impl) data s
   \<and> client_impl.rpc this (client_impl.service this) (js ''RegisterService'') data s =
       serve L (decode_MsgRegisterService L) (encode_MsgRegisterServiceResponse L) (Msg_service.RegisterService impl) data s
   \<and> client_impl.rpc this (client_impl.service this) (js ''UpdateService'') data s =
       serve L (decode_MsgUpdateService L) (encode_MsgUpdateServiceResponse L) (Msg_service.UpdateService impl) data s
   \<and> client_impl.rpc this (client_impl.service this) (js ''RemoveService'') data s =
       serve L (decode_MsgRemoveService L) (encode_MsgRemoveServiceResponse L) (Msg_service.RemoveService impl) data s)"

definition Msg_dispatch :: "('w, 'r) wire \<Rightarrow> 's Msg_service \<Rightarrow> 's rpc" where
  "Msg_dispatch L impl svc method = js_switch method
    [(js ''BondProvider'', serve L (decode_MsgBondProvider L) (encode_MsgBondProviderResponse L) (Msg_service.BondProvider impl)),
     (js ''ModProvider'', serve L (decode_MsgModProvider L) (encode_MsgModProviderResponse L) (Msg_service.ModProvider impl)),
     (js ''OpenContract'', serve L (decode_MsgOpenContract L) (encode_MsgOpenContractResponse L) (Msg_service.OpenContract impl)),
     (js ''CloseContract'', serve L (decode_MsgCloseContract L) (encode_MsgCloseContractResponse L) (Msg_service.CloseContract impl)),
     (js ''ClaimContractIncome'', serve L (decode_MsgClaimContractIncome L) (encode_MsgClaimContractIncomeResponse L) (Msg_service.ClaimContractIncome impl)),
     (js ''SetVersion'', serve L (decode_MsgSetVersion L) (encode_MsgSetVersionResponse L) (Msg_service.SetVersion impl)),
     (js ''RegisterService'', serve L (decode_MsgRegisterService L) (encode_MsgRegisterServiceResponse L) (Msg_service.RegisterService impl)),
     (js ''UpdateService'', serve L (decode_MsgUpdateService L) (encode_MsgUpdateServiceResponse L) (Msg_service.UpdateService impl)),
     (js ''RemoveService'', serve L (decode_MsgRemoveService L) (encode_MsgRemoveServiceResponse L) (Msg_service.RemoveService impl))]
    (\<lambda>data s. (Inl (Error ''unimplemented''), s))"

section \<open>arkeo/arkeo/query.ts: Query\<close>

record 's Query_service =
  Params :: "(QueryParamsRequest, QueryParamsResponse, 's) handler"
  FetchProvider :: "(QueryFetchProviderRequest, QueryFetchProviderResponse, 's) handler"
  ProviderAll :: "(QueryAllProviderRequest, QueryAllProviderResponse, 's) handler"
  FetchContract :: "(QueryFetchContractRequest, QueryFetchContractResponse, 's) handler"
  ContractAll :: "(QueryAllContractRequest, QueryAllContractResponse, 's) handler"
  ActiveContract :: "(QueryActiveContractRequest, QueryActiveContractResponse, 's) handler"
  AllServices :: "(QueryAllServicesRequest, QueryAllServicesResponse, 's) handler"
  Service :: "(QueryServiceRequest, QueryServiceResponse, 's) handler"

definition QueryServiceName :: jsstring where
  "QueryServiceName = js ''arkeo.arkeo.Query''"

definition new_QueryClientImpl :: "'s rpc \<Rightarrow> jsstring option option \<Rightarrow> 's client_impl" where
  "new_QueryClientImpl = new_client QueryServiceName"

definition QueryClientImpl_Params :: "('w, 'r) wire \<Rightarrow> 's client_impl \<Rightarrow> QueryParamsRequest \<Rightarrow> 's \<Rightarrow> QueryParamsResponse outcome \<times> 's" where
  "QueryClientImpl_Params L this = unary L this (js ''Params'') (encode_QueryParamsRequest L) (decode_QueryParamsResponse L)"

definition QueryClientImpl_FetchProvider :: "('w, 'r) wire \<Rightarrow> 's client_impl \<Rightarrow> QueryFetchProviderRequest \<Rightarrow> 's \<Rightarrow> QueryFetchProviderResponse outcome \<times> 's" where
  "QueryClientImpl_FetchProvider L this = unary L this (js ''FetchProvider'') (encode_QueryFetchProviderRequest L) (decode_QueryFetchProviderResponse L)"

definition QueryClientImpl_ProviderAll :: "('w, 'r) wire \<Rightarrow> 's client_impl \<Rightarrow> QueryAllProviderRequest \<Rightarrow> 's \<Rightarrow> QueryAllProviderResponse outcome \<times> 's" where
  "QueryClientImpl_ProviderAll L this = unary L this (js ''ProviderAll'') (encode_QueryAllProviderRequest L) (decode_QueryAllProviderResponse L)"

definition QueryClientImpl_FetchContract :: "('w, 'r) wire \<Rightarrow> 's client_impl \<Rightarrow> QueryFetchContractRequest \<Rightarrow> 's \<Rightarrow> QueryFetchContractResponse outcome \<times> 's" where
  "QueryClientImpl_FetchContract L this = unary L this (js ''FetchContract'') (encode_QueryFetchContractRequest L) (decode_QueryFetchContractResponse L)"

definition QueryClientImpl_ContractAll :: "('w, 'r) wire \<Rightarrow> 's client_impl \<Rightarrow> QueryAllContractRequest \<Rightarrow> 's \<Rightarrow> QueryAllContractResponse outcome \<times> 's" where
  "QueryClientImpl_ContractAll L this = unary L this (js ''ContractAll'') (encode_QueryAllContractRequest L) (decode_QueryAllContractResponse L)"

definition QueryClientImpl_ActiveContract :: "('w, 'r) wire \<Rightarrow> 's client_impl \<Rightarrow> QueryActiveContractRequest \<Rightarrow> 's \<Rightarrow> QueryActiveContractResponse outcome \<times> 's" where
  "QueryClientImpl_ActiveContract L this = unary L this (js ''ActiveContract'') (encode_QueryActiveContractRequest L) (decode_QueryActiveContractResponse L)"

definition QueryClientImpl_AllServices :: "('w, 'r) wire \<Rightarrow> 's client_impl \<Rightarrow> QueryAllServicesRequest \<Rightarrow> 's \<Rightarrow> QueryAllServicesResponse outcome \<times> 's" where
  "QueryClientImpl_AllServices L this = unary L this (js ''AllServices'') (encode_QueryAllServicesRequest L) (decode_QueryAllServicesResponse L)"

definition QueryClientImpl_Service :: "('w, 'r) wire \<Rightarrow> 's client_impl \<Rightarrow> QueryServiceRequest \<Rightarrow> 's \<Rightarrow> QueryServiceResponse outcome \<times> 's" where
  "QueryClientImpl_Service L this = unary L this (js ''Service'') (encode_QueryServiceRequest L) (decode_QueryServiceResponse L)"

text \<open>A remote end that implements the interface.\<close>

definition Query_served :: "('w, 'r) wire \<Rightarrow> 's client_impl \<Rightarrow> 's Query_service \<Rightarrow> bool" where
  "Query_served L this impl \<longleftrightarrow> (\<forall>data s.
     client_impl.rpc this (client_impl.service this) (js ''Params'') data s =
       serve L (decode_QueryParamsRequest L) (encode_QueryParamsResponse L) (Query_service.Params impl) data s
   \<and> client_impl.rpc this (client_impl.service this) (js ''FetchProvider'') data s =
       serve L (decode_QueryFetchProviderRequest L) (encode_QueryFetchProviderResponse L) (Query_service.FetchProvider impl) data s
   \<and> client_impl.rpc this (client_impl.service this) (js ''ProviderAll'') data s =
       serve L (decode_QueryAllProviderRequest L) (encode_QueryAllProviderResponse L) (Query_service.ProviderAll impl) data s
   \<and> client_impl.rpc this (client_impl.service this) (js ''FetchContract'') data s =
       serve L (decode_QueryFetchContractRequest L) (encode_QueryFetchContractResponse L) (Query_service.FetchContract impl) data s
   \<and> client_impl.rpc this (client_impl.service this) (js ''ContractAll'') data s =
       serve L (decode_QueryAllContractRequest L) (encode_QueryAllContractResponse L) (Query_service.ContractAll impl) data s
   \<and> client_impl.rpc this (client_impl.service this) (js ''ActiveContract'') data s =
       serve L (decode_QueryActiveContractRequest L) (encode_QueryActiveContractResponse L) (Query_service.ActiveContract impl) data s
   \<and> client_impl.rpc this (client_impl.service this) (js ''AllServices'') data s =
       serve L (decode_QueryAllServicesRequest L) (encode_QueryAllServicesResponse L) (Query_service.AllServices impl) data s
   \<and> client_impl.rpc this (client_impl.service this) (js ''Service'') data s =
       serve L (decode_QueryServiceRequest L) (encode_QueryServiceResponse L) (Query_service.Service impl) data s)"

definition Query_dispatch :: "('w, 'r) wire \<Rightarrow> 's Query_service \<Rightarrow> 's rpc" where
  "Query_dispatch L impl svc method = js_switch method
    [(js ''Params'', serve L (decode_QueryParamsRequest L) (encode_QueryParamsResponse L) (Query_service.Params impl)),
     (js ''FetchProvider'', serve L (decode_QueryFetchProviderRequest L) (encode_QueryFetchProviderResponse L) (Query_service.FetchProvider impl)),
     (js ''ProviderAll'', serve L (decode_QueryAllProviderRequest L) (encode_QueryAllProviderResponse L) (Query_service.ProviderAll impl)),
     (js ''FetchContract'', serve L (decode_QueryFetchContractRequest L) (encode_QueryFetchContractResponse L) (Query_service.FetchContract impl)),
     (js ''ContractAll'', serve L (decode_QueryAllContractRequest L) (encode_QueryAllContractResponse L) (Query_service.ContractAll impl)),
     (js ''ActiveContract'', serve L (decode_QueryActiveContractRequest L) (encode_QueryActiveContractResponse L) (Query_service.ActiveContract impl)),
     (js ''AllServices'', serve L (decode_QueryAllServicesRequest L) (encode_QueryAllServicesResponse L) (Query_service.AllServices impl)),
     (js ''Service'', serve L (decode_QueryServiceRequest L) (encode_QueryServiceResponse L) (Query_service.Service impl))]
    (\<lambda>data s. (Inl (Error ''unimplemented''), s))"

section \<open>arkeo/claim/tx.ts: Msg\<close>

record 's claim_Msg_service =
  ClaimEth :: "(MsgClaimEth, MsgClaimEthResponse, 's) handler"
  ClaimArkeo :: "(MsgClaimArkeo, MsgClaimArkeoResponse, 's) handler"
  TransferClaim :: "(MsgTransferClaim, MsgTransferClaimResponse, 's) handler"
  AddClaim :: "(MsgAddClaim, MsgAddClaimResponse, 's) handler"
  ClaimThorchain :: "(MsgClaimThorchain, MsgClaimThorchainResponse, 's) handler"

definition claim_MsgServiceName :: jsstring where
  "claim_MsgServiceName = js ''arkeo.claim.Msg''"

definition new_claim_MsgClientImpl :: "'s rpc \<Rightarrow> jsstring option option \<Rightarrow> 's client_impl" where
  "new_claim_MsgClientImpl = new_client claim_MsgServiceName"

definition claim_MsgClientImpl_ClaimEth :: "('w, 'r) wire \<Rightarrow> 's client_impl \<Rightarrow> MsgClaimEth \<Rightarrow> 's \<Rightarrow> MsgClaimEthResponse outcome \<times> 's" where
  "claim_MsgClientImpl_ClaimEth L this = unary L this (js ''ClaimEth'') (encode_MsgClaimEth L) (decode_MsgClaimEthResponse L)"

definition claim_MsgClientImpl_ClaimArkeo :: "('w, 'r) wire \<Rightarrow> 's client_impl \<Rightarrow> MsgClaimArkeo \<Rightarrow> 's \<Rightarrow> MsgClaimArkeoResponse outcome \<times> 's" where
  "claim_MsgClientImpl_ClaimArkeo L this = unary L this (js ''ClaimArkeo'') (encode_MsgClaimArkeo L) (decode_MsgClaimArkeoResponse L)"

definition claim_MsgClientImpl_TransferClaim :: "('w, 'r) wire \<Rightarrow> 's client_impl \<Rightarrow> MsgTransferClaim \<Rightarrow> 's \<Rightarrow> MsgTransferClaimResponse outcome \<times> 's" where
  "claim_MsgClientImpl_TransferClaim L this = unary L this (js ''TransferClaim'') (encode_MsgTransferClaim L) (decode_MsgTransferClaimResponse L)"

definition claim_MsgClientImpl_AddClaim :: "('w, 'r) wire \<Rightarrow> 's client_impl \<Rightarrow> MsgAddClaim \<Rightarrow> 's \<Rightarrow> MsgAddClaimResponse outcome \<times> 's" where
  "claim_MsgClientImpl_AddClaim L this = unary L this (js ''AddClaim'') (encode_MsgAddClaim L) (decode_MsgAddClaimResponse L)"

definition claim_MsgClientImpl_ClaimThorchain :: "('w, 'r) wire \<Rightarrow> 's client_impl \<Rightarrow> MsgClaimThorchain \<Rightarrow> 's \<Rightarrow> MsgClaimThorchainResponse outcome \<times> 's" where
  "claim_MsgClientImpl_ClaimThorchain L this = unary L this (js ''ClaimThorchain'') (encode_MsgClaimThorchain L) (decode_MsgClaimThorchainResponse L)"

text \<open>A remote end that implements the interface.\<close>

definition claim_Msg_served :: "('w, 'r) wire \<Rightarrow> 's client_impl \<Rightarrow> 's claim_Msg_service \<Rightarrow> bool" where
  "claim_Msg_served L this impl \<longleftrightarrow> (\<forall>data s.
     client_impl.rpc this (client_impl.service this) (js ''ClaimEth'') data s =
       serve L (decode_MsgClaimEth L) (encode_MsgClaimEthResponse L) (claim_Msg_service.ClaimEth impl) data s
   \<and> client_impl.rpc this (client_impl.service this) (js ''ClaimArkeo'') data s =
       serve L (decode_MsgClaimArkeo L) (encode_MsgClaimArkeoResponse L) (claim_Msg_service.ClaimArkeo impl) data s
   \<and> client_impl.rpc this (client_impl.service this) (js ''TransferClaim'') data s =
       serve L (decode_MsgTransferClaim L) (encode_MsgTransferClaimResponse L) (claim_Msg_service.TransferClaim impl) data s
   \<and> client_impl.rpc this (client_impl.service this) (js ''AddClaim'') data s =
       serve L (decode_MsgAddClaim L) (encode_MsgAddClaimResponse L) (claim_Msg_service.AddClaim impl) data s
   \<and> client_impl.rpc this (client_impl.service this) (js ''ClaimThorchain'') data s =
       serve L (decode_MsgClaimThorchain L) (encode_MsgClaimThorchainResponse L) (claim_Msg_service.ClaimThorchain impl) data s)"

definition claim_Msg_dispatch :: "('w, 'r) wire \<Rightarrow> 's claim_Msg_service \<Rightarrow> 's rpc" where
  "claim_Msg_dispatch L impl svc method = js_switch method
    [(js ''ClaimEth'', serve L (decode_MsgClaimEth L) (encode_MsgClaimEthResponse L) (claim_Msg_service.ClaimEth impl)),
     (js ''ClaimArkeo'', serve L (decode_MsgClaimArkeo L) (encode_MsgClaimArkeoResponse L) (claim_Msg_service.ClaimArkeo impl)),
     (js ''TransferClaim'', serve L (decode_MsgTransferClaim L) (encode_MsgTransferClaimResponse L) (claim_Msg_service.TransferClaim impl)),
     (js ''AddClaim'', serve L (decode_MsgAddClaim L) (encode_MsgAddClaimResponse L) (claim_Msg_service.AddClaim impl)),
     (js ''ClaimThorchain'', serve L (decode_MsgClaimThorchain L) (encode_MsgClaimThorchainResponse L) (claim_Msg_service.ClaimThorchain impl))]
    (\<lambda>data s. (Inl (Error ''unimplemented''), s))"

section \<open>arkeo/claim/query.ts: Query\<close>

record 's claim_Query_service =
  Params :: "(claim_QueryParamsRequest, claim_QueryParamsResponse, 's) handler"
  ClaimRecord :: "(QueryClaimRecordRequest, QueryClaimRecordResponse, 's) handler"
  ClaimableForAction :: "(QueryClaimableForActionRequest, QueryClaimableForActionResponse, 's) handler"

definition claim_QueryServiceName :: jsstring where
  "claim_QueryServiceName = js ''arkeo.claim.Query''"

definition new_claim_QueryClientImpl :: "'s rpc \<Rightarrow> jsstring option option \<Rightarrow> 's client_impl" where
  "new_claim_QueryClientImpl = new_client claim_QueryServiceName"

definition claim_QueryClientImpl_Params :: "('w, 'r) wire \<Rightarrow> 's client_impl \<Rightarrow> claim_QueryParamsRequest \<Rightarrow> 's \<Rightarrow> claim_QueryParamsResponse outcome \<times> 's" where
  "claim_QueryClientImpl_Params L this = unary L this (js ''Params'') (encode_claim_QueryParamsRequest L) (decode_claim_QueryParamsResponse L)"

definition claim_QueryClientImpl_ClaimRecord :: "('w, 'r) wire \<Rightarrow> 's client_impl \<Rightarrow> QueryClaimRecordRequest \<Rightarrow> 's \<Rightarrow> QueryClaimRecordResponse outcome \<times> 's" where
  "claim_QueryClientImpl_ClaimRecord L this = unary L this (js ''ClaimRecord'') (encode_QueryClaimRecordRequest L) (decode_QueryClaimRecordResponse L)"

definition claim_QueryClientImpl_ClaimableForAction :: "('w, 'r) wire \<Rightarrow> 's client_impl \<Rightarrow> QueryClaimableForActionRequest \<Rightarrow> 's \<Rightarrow> QueryClaimableForActionResponse outcome \<times> 's" where
  "claim_QueryClientImpl_ClaimableForAction L this = unary L this (js ''ClaimableForAction'') (encode_QueryClaimableForActionRequest L) (decode_QueryClaimableForActionResponse L)"

text \<open>A remote end that implements the interface.\<close>

definition claim_Query_served :: "('w, 'r) wire \<Rightarrow> 's client_impl \<Rightarrow> 's claim_Query_service \<Rightarrow> bool" where
  "claim_Query_served L this impl \<longleftrightarrow> (\<forall>data s.
     client_impl.rpc this (client_impl.service this) (js ''Params'') data s =
       serve L (decode_claim_QueryParamsRequest L) (encode_claim_QueryParamsResponse L) (claim_Query_service.Params impl) data s
   \<and> client_impl.rpc this (client_impl.service this) (js ''ClaimRecord'') data s =
       serve L (decode_QueryClaimRecordRequest L) (encode_QueryClaimRecordResponse L) (claim_Query_service.ClaimRecord impl) data s
   \<and> client_impl.rpc this (client_impl.service this) (js ''ClaimableForAction'') data s =
       serve L (decode_QueryClaimableForActionRequest L) (encode_QueryClaimableForActionResponse L) (claim_Query_service.ClaimableForAction impl) data s)"

definition claim_Query_dispatch :: "('w, 'r) wire \<Rightarrow> 's claim_Query_service \<Rightarrow> 's rpc" where
  "claim_Query_dispatch L impl svc method = js_switch method
    [(js ''Params'', serve L (decode_claim_QueryParamsRequest L) (encode_claim_QueryParamsResponse L) (claim_Query_service.Params impl)),
     (js ''ClaimRecord'', serve L (decode_QueryClaimRecordRequest L) (encode_QueryClaimRecordResponse L) (claim_Query_service.ClaimRecord impl)),
     (js ''ClaimableForAction'', serve L (decode_QueryClaimableForActionRequest L) (encode_QueryClaimableForActionResponse L) (claim_Query_service.ClaimableForAction impl))]
    (\<lambda>data s. (Inl (Error ''unimplemented''), s))"


section \<open>The contract of a method\<close>

locale rpc_method =
  req: message_codec L F out inp enc_req sw_req base_req wf_req +
  res: message_codec L F out inp enc_res sw_res base_res wf_res
  for L :: "('w, 'r) wire" and F out inp
    and enc_req :: "'q \<Rightarrow> 'w \<Rightarrow> 'w result" and sw_req base_req wf_req
    and enc_res :: "'a \<Rightarrow> 'w \<Rightarrow> 'w result" and sw_res base_res wf_res
begin

lemma decode_reader: "decode_msg L sw base (AReader (Reader_new L b)) None = decode_msg L sw base (ABuffer b) None"
  by (simp add: decode_msg_def reader_of_def)

lemma call_served:
  assumes served: "\<And>data s. client_impl.rpc this (client_impl.service this) method data s =
      serve L (decode_msg L sw_req base_req) enc_res handler data s"
    and q: "wf_req q" and a: "\<And>a s'. handler q s = (Inr a, s') \<Longrightarrow> wf_res a"
  shows "unary L this method enc_req (decode_msg L sw_res base_res) q s = direct handler q s"
proof -
  obtain bs r where q': "encode_bytes L (enc_req q) = Inr bs" "decode_msg L sw_req base_req (ABuffer bs) None = Inr (q, r)"
    using req.decode_encode [OF q] by blast
  obtain x s' where h: "handler q s = (x, s')" by (cases "handler q s")
  show ?thesis
  proof (cases x)
    case (Inl e)
    with q' h show ?thesis by (simp add: unary_def served serve_def direct_def)
  next
    case (Inr v)
    then obtain bs' r' where "encode_bytes L (enc_res v) = Inr bs'"
      "decode_msg L sw_res base_res (ABuffer bs') None = Inr (v, r')"
      using res.decode_encode [OF a, of v s'] h by blast
    with q' h Inr show ?thesis by (simp add: unary_def served serve_def direct_def decode_reader)
  qed
qed

lemma call_throws:
  "encode_bytes L (enc_req q) = Inl e \<Longrightarrow>
   unary L this method enc_req (decode_msg L sw_res base_res) q s = (Throws e, s)"
  by (simp add: unary_def)

lemma call_returns:
  assumes "wf_req q" and "\<And>data. fst (client_impl.rpc this (client_impl.service this) method data s) \<noteq> Inl Diverges"
  shows "fst (unary L this method enc_req (decode_msg L sw_res base_res) q s) \<notin> {Throws Diverges, Rejects Diverges}"
proof -
  obtain bs where bs: "encode_bytes L (enc_req q) = Inr bs" using req.decode_encode [OF assms(1)] by blast
  obtain x s' where x: "client_impl.rpc this (client_impl.service this) method bs s = (x, s')" by fastforce
  show ?thesis
  proof (cases x)
    case (Inr d)
    then show ?thesis
      using bs x res.decode_returns [of "AReader (Reader_new L d)" None]
      by (cases "decode_msg L sw_res base_res (AReader (Reader_new L d)) None") (auto simp: unary_def)
  qed (use bs x assms(2) [of bs] in \<open>auto simp: unary_def\<close>)
qed

end

sublocale wire_laws \<subseteq> Msg_BondProvider: rpc_method L F out inp
  "encode_MsgBondProvider L" "MsgBondProvider_switch L" createBase_MsgBondProvider "wf_MsgBondProvider L"
  "encode_MsgBondProviderResponse L" "MsgBondProviderResponse_switch L" createBase_MsgBondProviderResponse "wf_MsgBondProviderResponse L" ..

sublocale wire_laws \<subseteq> Msg_ModProvider: rpc_method L F out inp
  "encode_MsgModProvider L" "MsgModProvider_switch L" createBase_MsgModProvider "wf_MsgModProvider L"
  "encode_MsgModProviderResponse L" "MsgModProviderResponse_switch L" createBase_MsgModProviderResponse "wf_MsgModProviderResponse L" ..

sublocale wire_laws \<subseteq> Msg_OpenContract: rpc_method L F out inp
  "encode_MsgOpenContract L" "MsgOpenContract_switch L" createBase_MsgOpenContract "wf_MsgOpenContract L"
  "encode_MsgOpenContractResponse L" "MsgOpenContractResponse_switch L" createBase_MsgOpenContractResponse "wf_MsgOpenContractResponse L" ..

sublocale wire_laws \<subseteq> Msg_CloseContract: rpc_method L F out inp
  "encode_MsgCloseContract L" "MsgCloseContract_switch L" createBase_MsgCloseContract "wf_MsgCloseContract L"
  "encode_MsgCloseContractResponse L" "MsgCloseContractResponse_switch L" createBase_MsgCloseContractResponse "wf_MsgCloseContractResponse L" ..

sublocale wire_laws \<subseteq> Msg_ClaimContractIncome: rpc_method L F out inp
  "encode_MsgClaimContractIncome L" "MsgClaimContractIncome_switch L" createBase_MsgClaimContractIncome "wf_MsgClaimContractIncome L"
  "encode_MsgClaimContractIncomeResponse L" "MsgClaimContractIncomeResponse_switch L" createBase_MsgClaimContractIncomeResponse "wf_MsgClaimContractIncomeResponse L" ..

sublocale wire_laws \<subseteq> Msg_SetVersion: rpc_method L F out inp
  "encode_MsgSetVersion L" "MsgSetVersion_switch L" createBase_MsgSetVersion "wf_MsgSetVersion L"
  "encode_MsgSetVersionResponse L" "MsgSetVersionResponse_switch L" createBase_MsgSetVersionResponse "wf_MsgSetVersionResponse L" ..

sublocale wire_laws \<subseteq> Msg_RegisterService: rpc_method L F out inp
  "encode_MsgRegisterService L" "MsgRegisterService_switch L" createBase_MsgRegisterService "wf_MsgRegisterService L"
  "encode_MsgRegisterServiceResponse L" "MsgRegisterServiceResponse_switch L" createBase_MsgRegisterServiceResponse "wf_MsgRegisterServiceResponse L" ..

sublocale wire_laws \<subseteq> Msg_UpdateService: rpc_method L F out inp
  "encode_MsgUpdateService L" "MsgUpdateService_switch L" createBase_MsgUpdateService "wf_MsgUpdateService L"
  "encode_MsgUpdateServiceResponse L" "MsgUpdateServiceResponse_switch L" createBase_MsgUpdateServiceResponse "wf_MsgUpdateServiceResponse L" ..

sublocale wire_laws \<subseteq> Msg_RemoveService: rpc_method L F out inp
  "encode_MsgRemoveService L" "MsgRemoveService_switch L" createBase_MsgRemoveService "wf_MsgRemoveService L"
  "encode_MsgRemoveServiceResponse L" "MsgRemoveServiceResponse_switch L" createBase_MsgRemoveServiceResponse "wf_MsgRemoveServiceResponse L" ..

lemma Msg_dispatch_served:
  "Msg_served L (new_MsgClientImpl (Msg_dispatch L impl) opts) impl"
  by (simp add: Msg_served_def new_MsgClientImpl_def new_client_def Msg_dispatch_def)

context wire_laws
begin

lemma Msg_BondProvider_call:
  "Msg_served L this impl \<Longrightarrow> wf_MsgBondProvider L q \<Longrightarrow> (\<And>a s'. Msg_service.BondProvider impl q s = (Inr a, s') \<Longrightarrow> wf_MsgBondProviderResponse L a) \<Longrightarrow>
   MsgClientImpl_BondProvider L this q s = direct (Msg_service.BondProvider impl) q s"
  unfolding MsgClientImpl_BondProvider_def decode_MsgBondProviderResponse_def
  by (rule Msg_BondProvider.call_served) (simp_all add: Msg_served_def decode_MsgBondProvider_def)

lemma Msg_ModProvider_call:
  "Msg_served L this impl \<Longrightarrow> wf_MsgModProvider L q \<Longrightarrow> (\<And>a s'. Msg_service.ModProvider impl q s = (Inr a, s') \<Longrightarrow> wf_MsgModProviderResponse L a) \<Longrightarrow>
   MsgClientImpl_ModProvider L this q s = direct (Msg_service.ModProvider impl) q s"
  unfolding MsgClientImpl_ModProvider_def decode_MsgModProviderResponse_def
  by (rule Msg_ModProvider.call_served) (simp_all add: Msg_served_def decode_MsgModProvider_def)

lemma Msg_OpenContract_call:
  "Msg_served L this impl \<Longrightarrow> wf_MsgOpenContract L q \<Longrightarrow> (\<And>a s'. Msg_service.OpenContract impl q s = (Inr a, s') \<Longrightarrow> wf_MsgOpenContractResponse L a) \<Longrightarrow>
   MsgClientImpl_OpenContract L this q s = direct (Msg_service.OpenContract impl) q s"
  unfolding MsgClientImpl_OpenContract_def decode_MsgOpenContractResponse_def
  by (rule Msg_OpenContract.call_served) (simp_all add: Msg_served_def decode_MsgOpenContract_def)

lemma Msg_CloseContract_call:
  "Msg_served L this impl \<Longrightarrow> wf_MsgCloseContract L q \<Longrightarrow> (\<And>a s'. Msg_service.CloseContract impl q s = (Inr a, s') \<Longrightarrow> wf_MsgCloseContractResponse L a) \<Longrightarrow>
   MsgClientImpl_CloseContract L this q s = direct (Msg_service.CloseContract impl) q s"
  unfolding MsgClientImpl_CloseContract_def decode_MsgCloseContractResponse_def
  by (rule Msg_CloseContract.call_served) (simp_all add: Msg_served_def decode_MsgCloseContract_def)

lemma Msg_ClaimContractIncome_call:
  "Msg_served L this impl \<Longrightarrow> wf_MsgClaimContractIncome L q \<Longrightarrow> (\<And>a s'. Msg_service.ClaimContractIncome impl q s = (Inr a, s') \<Longrightarrow> wf_MsgClaimContractIncomeResponse L a) \<Longrightarrow>
   MsgClientImpl_ClaimContractIncome L this q s = direct (Msg_service.ClaimContractIncome impl) q s"
  unfolding MsgClientImpl_ClaimContractIncome_def decode_MsgClaimContractIncomeResponse_def
  by (rule Msg_ClaimContractIncome.call_served) (simp_all add: Msg_served_def decode_MsgClaimContractIncome_def)

lemma Msg_SetVersion_call:
  "Msg_served L this impl \<Longrightarrow> wf_MsgSetVersion L q \<Longrightarrow> (\<And>a s'. Msg_service.SetVersion impl q s = (Inr a, s') \<Longrightarrow> wf_MsgSetVersionResponse L a) \<Longrightarrow>
   MsgClientImpl_SetVersion L this q s = direct (Msg_service.SetVersion impl) q s"
  unfolding MsgClientImpl_SetVersion_def decode_MsgSetVersionResponse_def
  by (rule Msg_SetVersion.call_served) (simp_all add: Msg_served_def decode_MsgSetVersion_def)

lemma Msg_RegisterService_call:
  "Msg_served L this impl \<Longrightarrow> wf_MsgRegisterService L q \<Longrightarrow> (\<And>a s'. Msg_service.RegisterService impl q s = (Inr a, s') \<Longrightarrow> wf_MsgRegisterServiceResponse L a) \<Longrightarrow>
   MsgClientImpl_RegisterService L this q s = direct (Msg_service.RegisterService impl) q s"
  unfolding MsgClientImpl_RegisterService_def decode_MsgRegisterServiceResponse_def
  by (rule Msg_RegisterService.call_served) (simp_all add: Msg_served_def decode_MsgRegisterService_def)

lemma Msg_UpdateService_call:
  "Msg_served L this impl \<Longrightarrow> wf_MsgUpdateService L q \<Longrightarrow> (\<And>a s'. Msg_service.UpdateService impl q s = (Inr a, s') \<Longrightarrow> wf_MsgUpdateServiceResponse L a) \<Longrightarrow>
   MsgClientImpl_UpdateService L this q s = direct (Msg_service.UpdateService impl) q s"
  unfolding MsgClientImpl_UpdateService_def decode_MsgUpdateServiceResponse_def
  by (rule Msg_UpdateService.call_served) (simp_all add: Msg_served_def decode_MsgUpdateService_def)

lemma Msg_RemoveService_call:
  "Msg_served L this impl \<Longrightarrow> wf_MsgRemoveService L q \<Longrightarrow> (\<And>a s'. Msg_service.RemoveService impl q s = (Inr a, s') \<Longrightarrow> wf_MsgRemoveServiceResponse L a) \<Longrightarrow>
   MsgClientImpl_RemoveService L this q s = direct (Msg_service.RemoveService impl) q s"
  unfolding MsgClientImpl_RemoveService_def decode_MsgRemoveServiceResponse_def
  by (rule Msg_RemoveService.call_served) (simp_all add: Msg_served_def decode_MsgRemoveService_def)

end

sublocale wire_laws \<subseteq> Query_Params: rpc_method L F out inp
  "encode_QueryParamsRequest L" "QueryParamsRequest_switch L" createBase_QueryParamsRequest "wf_QueryParamsRequest L"
  "encode_QueryParamsResponse L" "QueryParamsResponse_switch L" createBase_QueryParamsResponse "wf_QueryParamsResponse L" ..

sublocale wire_laws \<subseteq> Query_FetchProvider: rpc_method L F out inp
  "encode_QueryFetchProviderRequest L" "QueryFetchProviderRequest_switch L" createBase_QueryFetchProviderRequest "wf_QueryFetchProviderRequest L"
  "encode_QueryFetchProviderResponse L" "QueryFetchProviderResponse_switch L" createBase_QueryFetchProviderResponse "wf_QueryFetchProviderResponse L" ..

sublocale wire_laws \<subseteq> Query_ProviderAll: rpc_method L F out inp
  "encode_QueryAllProviderRequest L" "QueryAllProviderRequest_switch L" createBase_QueryAllProviderRequest "wf_QueryAllProviderRequest L"
  "encode_QueryAllProviderResponse L" "QueryAllProviderResponse_switch L" createBase_QueryAllProviderResponse "wf_QueryAllProviderResponse L" ..

sublocale wire_laws \<subseteq> Query_FetchContract: rpc_method L F out inp
  "encode_QueryFetchContractRequest L" "QueryFetchContractRequest_switch L" createBase_QueryFetchContractRequest "wf_QueryFetchContractRequest L"
  "encode_QueryFetchContractResponse L" "QueryFetchContractResponse_switch L" createBase_QueryFetchContractResponse "wf_QueryFetchContractResponse L" ..

sublocale wire_laws \<subseteq> Query_ContractAll: rpc_method L F out inp
  "encode_QueryAllContractRequest L" "QueryAllContractRequest_switch L" createBase_QueryAllContractRequest "wf_QueryAllContractRequest L"
  "encode_QueryAllContractResponse L" "QueryAllContractResponse_switch L" createBase_QueryAllContractResponse "wf_QueryAllContractResponse L" ..

sublocale wire_laws \<subseteq> Query_ActiveContract: rpc_method L F out inp
  "encode_QueryActiveContractRequest L" "QueryActiveContractRequest_switch L" createBase_QueryActiveContractRequest "wf_QueryActiveContractRequest L"
  "encode_QueryActiveContractResponse L" "QueryActiveContractResponse_switch L" createBase_QueryActiveContractResponse "wf_QueryActiveContractResponse L" ..

sublocale wire_laws \<subseteq> Query_AllServices: rpc_method L F out inp
  "encode_QueryAllServicesRequest L" "QueryAllServicesRequest_switch L" createBase_QueryAllServicesRequest "wf_QueryAllServicesRequest L"
  "encode_QueryAllServicesResponse L" "QueryAllServicesResponse_switch L" createBase_QueryAllServicesResponse "wf_QueryAllServicesResponse L" ..

sublocale wire_laws \<subseteq> Query_Service: rpc_method L F out inp
  "encode_QueryServiceRequest L" "QueryServiceRequest_switch L" createBase_QueryServiceRequest "wf_QueryServiceRequest L"
  "encode_QueryServiceResponse L" "QueryServiceResponse_switch L" createBase_QueryServiceResponse "wf_QueryServiceResponse L" ..

lemma Query_dispatch_served:
  "Query_served L (new_QueryClientImpl (Query_dispatch L impl) opts) impl"
  by (simp add: Query_served_def new_QueryClientImpl_def new_client_def Query_dispatch_def)

context wire_laws
begin

lemma Query_Params_call:
  "Query_served L this impl \<Longrightarrow> wf_QueryParamsRequest L q \<Longrightarrow> (\<And>a s'. Query_service.Params impl q s = (Inr a, s') \<Longrightarrow> wf_QueryParamsResponse L a) \<Longrightarrow>
   QueryClientImpl_Params L this q s = direct (Query_service.Params impl) q s"
  unfolding QueryClientImpl_Params_def decode_QueryParamsResponse_def
  by (rule Query_Params.call_served) (simp_all add: Query_served_def decode_QueryParamsRequest_def)

lemma Query_FetchProvider_call:
  "Query_served L this impl \<Longrightarrow> wf_QueryFetchProviderRequest L q \<Longrightarrow> (\<And>a s'. Query_service.FetchProvider impl q s = (Inr a, s') \<Longrightarrow> wf_QueryFetchProviderResponse L a) \<Longrightarrow>
   QueryClientImpl_FetchProvider L this q s = direct (Query_service.FetchProvider impl) q s"
  unfolding QueryClientImpl_FetchProvider_def decode_QueryFetchProviderResponse_def
  by (rule Query_FetchProvider.call_served) (simp_all add: Query_served_def decode_QueryFetchProviderRequest_def)

lemma Query_ProviderAll_call:
  "Query_served L this impl \<Longrightarrow> wf_QueryAllProviderRequest L q \<Longrightarrow> (\<And>a s'. Query_service.ProviderAll impl q s = (Inr a, s') \<Longrightarrow> wf_QueryAllProviderResponse L a) \<Longrightarrow>
   QueryClientImpl_ProviderAll L this q s = direct (Query_service.ProviderAll impl) q s"
  unfolding QueryClientImpl_ProviderAll_def decode_QueryAllProviderResponse_def
  by (rule Query_ProviderAll.call_served) (simp_all add: Query_served_def decode_QueryAllProviderRequest_def)

lemma Query_FetchContract_call:
  "Query_served L this impl \<Longrightarrow> wf_QueryFetchContractRequest L q \<Longrightarrow> (\<And>a s'. Query_service.FetchContract impl q s = (Inr a, s') \<Longrightarrow> wf_QueryFetchContractResponse L a) \<Longrightarrow>
   QueryClientImpl_FetchContract L this q s = direct (Query_service.FetchContract impl) q s"
  unfolding QueryClientImpl_FetchContract_def decode_QueryFetchContractResponse_def
  by (rule Query_FetchContract.call_served) (simp_all add: Query_served_def decode_QueryFetchContractRequest_def)

lemma Query_ContractAll_call:
  "Query_served L this impl \<Longrightarrow> wf_QueryAllContractRequest L q \<Longrightarrow> (\<And>a s'. Query_service.ContractAll impl q s = (Inr a, s') \<Longrightarrow> wf_QueryAllContractResponse L a) \<Longrightarrow>
   QueryClientImpl_ContractAll L this q s = direct (Query_service.ContractAll impl) q s"
  unfolding QueryClientImpl_ContractAll_def decode_QueryAllContractResponse_def
  by (rule Query_ContractAll.call_served) (simp_all add: Query_served_def decode_QueryAllContractRequest_def)

lemma Query_ActiveContract_call:
  "Query_served L this impl \<Longrightarrow> wf_QueryActiveContractRequest L q \<Longrightarrow> (\<And>a s'. Query_service.ActiveContract impl q s = (Inr a, s') \<Longrightarrow> wf_QueryActiveContractResponse L a) \<Longrightarrow>
   QueryClientImpl_ActiveContract L this q s = direct (Query_service.ActiveContract impl) q s"
  unfolding QueryClientImpl_ActiveContract_def decode_QueryActiveContractResponse_def
  by (rule Query_ActiveContract.call_served) (simp_all add: Query_served_def decode_QueryActiveContractRequest_def)

lemma Query_AllServices_call:
  "Query_served L this impl \<Longrightarrow> wf_QueryAllServicesRequest L q \<Longrightarrow> (\<And>a s'. Query_service.AllServices impl q s = (Inr a, s') \<Longrightarrow> wf_QueryAllServicesResponse L a) \<Longrightarrow>
   QueryClientImpl_AllServices L this q s = direct (Query_service.AllServices impl) q s"
  unfolding QueryClientImpl_AllServices_def decode_QueryAllServicesResponse_def
  by (rule Query_AllServices.call_served) (simp_all add: Query_served_def decode_QueryAllServicesRequest_def)

lemma Query_Service_call:
  "Query_served L this impl \<Longrightarrow> wf_QueryServiceRequest L q \<Longrightarrow> (\<And>a s'. Query_service.Service impl q s = (Inr a, s') \<Longrightarrow> wf_QueryServiceResponse L a) \<Longrightarrow>
   QueryClientImpl_Service L this q s = direct (Query_service.Service impl) q s"
  unfolding QueryClientImpl_Service_def decode_QueryServiceResponse_def
  by (rule Query_Service.call_served) (simp_all add: Query_served_def decode_QueryServiceRequest_def)

end

sublocale wire_laws \<subseteq> claim_Msg_ClaimEth: rpc_method L F out inp
  "encode_MsgClaimEth L" "MsgClaimEth_switch L" createBase_MsgClaimEth "wf_MsgClaimEth L"
  "encode_MsgClaimEthResponse L" "MsgClaimEthResponse_switch L" createBase_MsgClaimEthResponse "wf_MsgClaimEthResponse L" ..

sublocale wire_laws \<subseteq> claim_Msg_ClaimArkeo: rpc_method L F out inp
  "encode_MsgClaimArkeo L" "MsgClaimArkeo_switch L" createBase_MsgClaimArkeo "wf_MsgClaimArkeo L"
  "encode_MsgClaimArkeoResponse L" "MsgClaimArkeoResponse_switch L" createBase_MsgClaimArkeoResponse "wf_MsgClaimArkeoResponse L" ..

sublocale wire_laws \<subseteq> claim_Msg_TransferClaim: rpc_method L F out inp
  "encode_MsgTransferClaim L" "MsgTransferClaim_switch L" createBase_MsgTransferClaim "wf_MsgTransferClaim L"
  "encode_MsgTransferClaimResponse L" "MsgTransferClaimResponse_switch L" createBase_MsgTransferClaimResponse "wf_MsgTransferClaimResponse L" ..

sublocale wire_laws \<subseteq> claim_Msg_AddClaim: rpc_method L F out inp
  "encode_MsgAddClaim L" "MsgAddClaim_switch L" createBase_MsgAddClaim "wf_MsgAddClaim L"
  "encode_MsgAddClaimResponse L" "MsgAddClaimResponse_switch L" createBase_MsgAddClaimResponse "wf_MsgAddClaimResponse L" ..

sublocale wire_laws \<subseteq> claim_Msg_ClaimThorchain: rpc_method L F out inp
  "encode_MsgClaimThorchain L" "MsgClaimThorchain_switch L" createBase_MsgClaimThorchain "wf_MsgClaimThorchain L"
  "encode_MsgClaimThorchainResponse L" "MsgClaimThorchainResponse_switch L" createBase_MsgClaimThorchainResponse "wf_MsgClaimThorchainResponse L" ..

lemma claim_Msg_dispatch_served:
  "claim_Msg_served L (new_claim_MsgClientImpl (claim_Msg_dispatch L impl) opts) impl"
  by (simp add: claim_Msg_served_def new_claim_MsgClientImpl_def new_client_def claim_Msg_dispatch_def)

context wire_laws
begin

lemma claim_Msg_ClaimEth_call:
  "claim_Msg_served L this impl \<Longrightarrow> wf_MsgClaimEth L q \<Longrightarrow> (\<And>a s'. claim_Msg_service.ClaimEth impl q s = (Inr a, s') \<Longrightarrow> wf_MsgClaimEthResponse L a) \<Longrightarrow>
   claim_MsgClientImpl_ClaimEth L this q s = direct (claim_Msg_service.ClaimEth impl) q s"
  unfolding claim_MsgClientImpl_ClaimEth_def decode_MsgClaimEthResponse_def
  by (rule claim_Msg_ClaimEth.call_served) (simp_all add: claim_Msg_served_def decode_MsgClaimEth_def)

lemma claim_Msg_ClaimArkeo_call:
  "claim_Msg_served L this impl \<Longrightarrow> wf_MsgClaimArkeo L q \<Longrightarrow> (\<And>a s'. claim_Msg_service.ClaimArkeo impl q s = (Inr a, s') \<Longrightarrow> wf_MsgClaimArkeoResponse L a) \<Longrightarrow>
   claim_MsgClientImpl_ClaimArkeo L this q s = direct (claim_Msg_service.ClaimArkeo impl) q s"
  unfolding claim_MsgClientImpl_ClaimArkeo_def decode_MsgClaimArkeoResponse_def
  by (rule claim_Msg_ClaimArkeo.call_served) (simp_all add: claim_Msg_served_def decode_MsgClaimArkeo_def)

lemma claim_Msg_TransferClaim_call:
  "claim_Msg_served L this impl \<Longrightarrow> wf_MsgTransferClaim L q \<Longrightarrow> (\<And>a s'. claim_Msg_service.TransferClaim impl q s = (Inr a, s') \<Longrightarrow> wf_MsgTransferClaimResponse L a) \<Longrightarrow>
   claim_MsgClientImpl_TransferClaim L this q s = direct (claim_Msg_service.TransferClaim impl) q s"
  unfolding claim_MsgClientImpl_TransferClaim_def decode_MsgTransferClaimResponse_def
  by (rule claim_Msg_TransferClaim.call_served) (simp_all add: claim_Msg_served_def decode_MsgTransferClaim_def)

lemma claim_Msg_AddClaim_call:
  "claim_Msg_served L this impl \<Longrightarrow> wf_MsgAddClaim L q \<Longrightarrow> (\<And>a s'. claim_Msg_service.AddClaim impl q s = (Inr a, s') \<Longrightarrow> wf_MsgAddClaimResponse L a) \<Longrightarrow>
   claim_MsgClientImpl_AddClaim L this q s = direct (claim_Msg_service.AddClaim impl) q s"
  unfolding claim_MsgClientImpl_AddClaim_def decode_MsgAddClaimResponse_def
  by (rule claim_Msg_AddClaim.call_served) (simp_all add: claim_Msg_served_def decode_MsgAddClaim_def)

lemma claim_Msg_ClaimThorchain_call:
  "claim_Msg_served L this impl \<Longrightarrow> wf_MsgClaimThorchain L q \<Longrightarrow> (\<And>a s'. claim_Msg_service.ClaimThorchain impl q s = (Inr a, s') \<Longrightarrow> wf_MsgClaimThorchainResponse L a) \<Longrightarrow>
   claim_MsgClientImpl_ClaimThorchain L this q s = direct (claim_Msg_service.ClaimThorchain impl) q s"
  unfolding claim_MsgClientImpl_ClaimThorchain_def decode_MsgClaimThorchainResponse_def
  by (rule claim_Msg_ClaimThorchain.call_served) (simp_all add: claim_Msg_served_def decode_MsgClaimThorchain_def)

end

sublocale wire_laws \<subseteq> claim_Query_Params: rpc_method L F out inp
  "encode_claim_QueryParamsRequest L" "claim_QueryParamsRequest_switch L" createBase_claim_QueryParamsRequest "wf_claim_QueryParamsRequest L"
  "encode_claim_QueryParamsResponse L" "claim_QueryParamsResponse_switch L" createBase_claim_QueryParamsResponse "wf_claim_QueryParamsResponse L" ..

sublocale wire_laws \<subseteq> claim_Query_ClaimRecord: rpc_method L F out inp
  "encode_QueryClaimRecordRequest L" "QueryClaimRecordRequest_switch L" createBase_QueryClaimRecordRequest "wf_QueryClaimRecordRequest L"
  "encode_QueryClaimRecordResponse L" "QueryClaimRecordResponse_switch L" createBase_QueryClaimRecordResponse "wf_QueryClaimRecordResponse L" ..

sublocale wire_laws \<subseteq> claim_Query_ClaimableForAction: rpc_method L F out inp
  "encode_QueryClaimableForActionRequest L" "QueryClaimableForActionRequest_switch L" createBase_QueryClaimableForActionRequest "wf_QueryClaimableForActionRequest L"
  "encode_QueryClaimableForActionResponse L" "QueryClaimableForActionResponse_switch L" createBase_QueryClaimableForActionResponse "wf_QueryClaimableForActionResponse L" ..

lemma claim_Query_dispatch_served:
  "claim_Query_served L (new_claim_QueryClientImpl (claim_Query_dispatch L impl) opts) impl"
  by (simp add: claim_Query_served_def new_claim_QueryClientImpl_def new_client_def claim_Query_dispatch_def)

context wire_laws
begin

lemma claim_Query_Params_call:
  "claim_Query_served L this impl \<Longrightarrow> wf_claim_QueryParamsRequest L q \<Longrightarrow> (\<And>a s'. claim_Query_service.Params impl q s = (Inr a, s') \<Longrightarrow> wf_claim_QueryParamsResponse L a) \<Longrightarrow>
   claim_QueryClientImpl_Params L this q s = direct (claim_Query_service.Params impl) q s"
  unfolding claim_QueryClientImpl_Params_def decode_claim_QueryParamsResponse_def
  by (rule claim_Query_Params.call_served) (simp_all add: claim_Query_served_def decode_claim_QueryParamsRequest_def)

lemma claim_Query_ClaimRecord_call:
  "claim_Query_served L this impl \<Longrightarrow> wf_QueryClaimRecordRequest L q \<Longrightarrow> (\<And>a s'. claim_Query_service.ClaimRecord impl q s = (Inr a, s') \<Longrightarrow> wf_QueryClaimRecordResponse L a) \<Longrightarrow>
   claim_QueryClientImpl_ClaimRecord L this q s = direct (claim_Query_service.ClaimRecord impl) q s"
  unfolding claim_QueryClientImpl_ClaimRecord_def decode_QueryClaimRecordResponse_def
  by (rule claim_Query_ClaimRecord.call_served) (simp_all add: claim_Query_served_def decode_QueryClaimRecordRequest_def)

lemma claim_Query_ClaimableForAction_call:
  "claim_Query_served L this impl \<Longrightarrow> wf_QueryClaimableForActionRequest L q \<Longrightarrow> (\<And>a s'. claim_Query_service.ClaimableForAction impl q s = (Inr a, s') \<Longrightarrow> wf_QueryClaimableForActionResponse L a) \<Longrightarrow>
   claim_QueryClientImpl_ClaimableForAction L this q s = direct (claim_Query_service.ClaimableForAction impl) q s"
  unfolding claim_QueryClientImpl_ClaimableForAction_def decode_QueryClaimableForActionResponse_def
  by (rule claim_Query_ClaimableForAction.call_served) (simp_all add: claim_Query_served_def decode_QueryClaimableForActionRequest_def)

end

end
