(* ===== verification/EventMsgs.thy ===== *)
theory EventMsgs
  imports KeeperMsgs
begin

text \<open>
  The events the arkeo module emits (\<open>arkeo/arkeo/events.ts\<close>).
\<close>


section \<open>arkeo/arkeo/events.ts\<close>

subsection \<open>EventBondProvider\<close>

record EventBondProvider =
  provider :: bytes
  service :: jsstring
  bondRel :: jsstring
  bondAbs :: jsstring

definition createBase_EventBondProvider :: EventBondProvider where
  "createBase_EventBondProvider = \<lparr>EventBondProvider.provider = [],
     EventBondProvider.service = [],
     EventBondProvider.bondRel = [],
     EventBondProvider.bondAbs = []\<rparr>"

definition encode_EventBondProvider :: "('w, 'r) wire \<Rightarrow> EventBondProvider \<Rightarrow> 'w \<Rightarrow> 'w result" where
  "encode_EventBondProvider L message = seqE
    [whenE (length (EventBondProvider.provider message) \<noteq> 0) (seqE [w_uint32 L 10, w_bytes L (EventBondProvider.provider message)]),
     whenE (EventBondProvider.service message \<noteq> []) (seqE [w_uint32 L 18, w_string L (EventBondProvider.service message)]),
     whenE (EventBondProvider.bondRel message \<noteq> []) (seqE [w_uint32 L 26, w_string L (EventBondProvider.bondRel message)]),
     whenE (EventBondProvider.bondAbs message \<noteq> []) (seqE [w_uint32 L 34, w_string L (EventBondProvider.bondAbs message)])]"

definition EventBondProvider_switch :: "('w, 'r) wire \<Rightarrow> u32 \<Rightarrow> EventBondProvider \<Rightarrow> (EventBondProvider, 'r) action" where
  "EventBondProvider_switch L tag message = js_switch (drop_bit 3 tag)
    [(1, when_tag tag 10 (readf (r_bytes L) (\<lambda>v. message\<lparr>EventBondProvider.provider := v\<rparr>))),
     (2, when_tag tag 18 (readf (r_string L) (\<lambda>v. message\<lparr>EventBondProvider.service := v\<rparr>))),
     (3, when_tag tag 26 (readf (r_string L) (\<lambda>v. message\<lparr>EventBondProvider.bondRel := v\<rparr>))),
     (4, when_tag tag 34 (readf (r_string L) (\<lambda>v. message\<lparr>EventBondProvider.bondAbs := v\<rparr>)))]
    break_out"

definition decode_EventBondProvider :: "('w, 'r) wire \<Rightarrow> 'r input \<Rightarrow> nat option \<Rightarrow> (EventBondProvider \<times> 'r) result" where
  "decode_EventBondProvider L = decode_msg L (EventBondProvider_switch L) createBase_EventBondProvider"

definition fromJSON_EventBondProvider :: "host \<Rightarrow> jsval \<Rightarrow> EventBondProvider result" where
  "fromJSON_EventBondProvider h object =
     bindE (fieldE object ''provider'' (bytesFromBase64 h) []) (\<lambda>v_provider.
     bindE (fieldE object ''service'' (stringE h) []) (\<lambda>v_service.
     bindE (fieldE object ''bondRel'' (stringE h) []) (\<lambda>v_bondRel.
     bindE (fieldE object ''bondAbs'' (stringE h) []) (\<lambda>v_bondAbs.
     Inr \<lparr>EventBondProvider.provider = v_provider, EventBondProvider.service = v_service, EventBondProvider.bondRel = v_bondRel, EventBondProvider.bondAbs = v_bondAbs\<rparr>))))"

definition toJSON_EventBondProvider :: "host \<Rightarrow> EventBondProvider \<Rightarrow> jsval result" where
  "toJSON_EventBondProvider h message = objE
    [jfieldE (length (EventBondProvider.provider message) \<noteq> 0) ''provider'' (base64E h (EventBondProvider.provider message)),
     jfieldE (EventBondProvider.service message \<noteq> []) ''service'' (Inr (JString (EventBondProvider.service message))),
     jfieldE (EventBondProvider.bondRel message \<noteq> []) ''bondRel'' (Inr (JString (EventBondProvider.bondRel message))),
     jfieldE (EventBondProvider.bondAbs message \<noteq> []) ''bondAbs'' (Inr (JString (EventBondProvider.bondAbs message)))]"

record EventBondProvider_Partial =
  provider :: "bytes option"
  service :: "jsstring option"
  bondRel :: "jsstring option"
  bondAbs :: "jsstring option"

definition EventBondProvider_empty :: EventBondProvider_Partial where
  "EventBondProvider_empty = \<lparr>EventBondProvider_Partial.provider = None, EventBondProvider_Partial.service = None, EventBondProvider_Partial.bondRel = None, EventBondProvider_Partial.bondAbs = None\<rparr>"

definition fromPartial_EventBondProvider :: "EventBondProvider_Partial \<Rightarrow> EventBondProvider" where
  "fromPartial_EventBondProvider object = createBase_EventBondProvider\<lparr>EventBondProvider.provider := nullish (EventBondProvider_Partial.provider object) [],
     EventBondProvider.service := nullish (EventBondProvider_Partial.service object) [],
     EventBondProvider.bondRel := nullish (EventBondProvider_Partial.bondRel object) [],
     EventBondProvider.bondAbs := nullish (EventBondProvider_Partial.bondAbs object) []\<rparr>"

definition create_EventBondProvider :: "EventBondProvider_Partial option \<Rightarrow> EventBondProvider" where
  "create_EventBondProvider base = fromPartial_EventBondProvider (nullish base EventBondProvider_empty)"

text \<open>A partial message that sets every field.\<close>

definition partial_of_EventBondProvider :: "EventBondProvider \<Rightarrow> EventBondProvider_Partial" where
  "partial_of_EventBondProvider m =
     \<lparr>EventBondProvider_Partial.provider = Some (EventBondProvider.provider m),
      EventBondProvider_Partial.service = Some (EventBondProvider.service m),
      EventBondProvider_Partial.bondRel = Some (EventBondProvider.bondRel m),
      EventBondProvider_Partial.bondAbs = Some (EventBondProvider.bondAbs m)\<rparr>"

definition ok_EventBondProvider :: "EventBondProvider \<Rightarrow> bool" where
  "ok_EventBondProvider m \<longleftrightarrow> True"

definition wf_EventBondProvider :: "('w, 'r) wire \<Rightarrow> EventBondProvider \<Rightarrow> bool" where
  "wf_EventBondProvider L m \<longleftrightarrow> wire_bytes (EventBondProvider.provider m)
     \<and> wire_string (EventBondProvider.service m)
     \<and> wire_string (EventBondProvider.bondRel m)
     \<and> wire_string (EventBondProvider.bondAbs m)"

definition wfj_EventBondProvider :: "EventBondProvider \<Rightarrow> bool" where
  "wfj_EventBondProvider m \<longleftrightarrow> True"

subsection \<open>EventModProvider\<close>

record EventModProvider =
  creator :: bytes
  provider :: bytes
  service :: jsstring
  metadataUri :: jsstring
  metadataNonce :: number
  status :: ProviderStatus
  minContractDuration :: number
  maxContractDuration :: number
  subscriptionRate :: "Coin list"
  payAsYouGoRate :: "Coin list"
  bond :: jsstring
  settlementDuration :: number

definition createBase_EventModProvider :: EventModProvider where
  "createBase_EventModProvider = \<lparr>EventModProvider.creator = [],
     EventModProvider.provider = [],
     EventModProvider.service = [],
     EventModProvider.metadataUri = [],
     EventModProvider.metadataNonce = Num 0,
     EventModProvider.status = Num 0,
     EventModProvider.minContractDuration = Num 0,
     EventModProvider.maxContractDuration = Num 0,
     EventModProvider.subscriptionRate = [],
     EventModProvider.payAsYouGoRate = [],
     EventModProvider.bond = [],
     EventModProvider.settlementDuration = Num 0\<rparr>"

definition encode_EventModProvider :: "('w, 'r) wire \<Rightarrow> EventModProvider \<Rightarrow> 'w \<Rightarrow> 'w result" where
  "encode_EventModProvider L message = seqE
    [whenE (length (EventModProvider.creator message) \<noteq> 0) (seqE [w_uint32 L 10, w_bytes L (EventModProvider.creator message)]),
     whenE (length (EventModProvider.provider message) \<noteq> 0) (seqE [w_uint32 L 18, w_bytes L (EventModProvider.provider message)]),
     whenE (EventModProvider.service message \<noteq> []) (seqE [w_uint32 L 26, w_string L (EventModProvider.service message)]),
     whenE (EventModProvider.metadataUri message \<noteq> []) (seqE [w_uint32 L 34, w_string L (EventModProvider.metadataUri message)]),
     whenE (EventModProvider.metadataNonce message \<noteq> Num 0) (seqE [w_uint32 L 40, w_uint64 L (EventModProvider.metadataNonce message)]),
     whenE (EventModProvider.status message \<noteq> Num 0) (seqE [w_uint32 L 48, w_int32 L (EventModProvider.status message)]),
     whenE (EventModProvider.minContractDuration message \<noteq> Num 0) (seqE [w_uint32 L 56, w_int64 L (EventModProvider.minContractDuration message)]),
     whenE (EventModProvider.maxContractDuration message \<noteq> Num 0) (seqE [w_uint32 L 64, w_int64 L (EventModProvider.maxContractDuration message)]),
     forE (\<lambda>v. seqE [w_uint32 L 74, w_fork L, encode_Coin L v, w_join L]) (EventModProvider.subscriptionRate message),
     forE (\<lambda>v. seqE [w_uint32 L 82, w_fork L, encode_Coin L v, w_join L]) (EventModProvider.payAsYouGoRate message),
     whenE (EventModProvider.bond message \<noteq> []) (seqE [w_uint32 L 90, w_string L (EventModProvider.bond message)]),
     whenE (EventModProvider.settlementDuration message \<noteq> Num 0) (seqE [w_uint32 L 96, w_int64 L (EventModProvider.settlementDuration message)])]"

definition EventModProvider_switch :: "('w, 'r) wire \<Rightarrow> u32 \<Rightarrow> EventModProvider \<Rightarrow> (EventModProvider, 'r) action" where
  "EventModProvider_switch L tag message = js_switch (drop_bit 3 tag)
    [(1, when_tag tag 10 (readf (r_bytes L) (\<lambda>v. message\<lparr>EventModProvider.creator := v\<rparr>))),
     (2, when_tag tag 18 (readf (r_bytes L) (\<lambda>v. message\<lparr>EventModProvider.provider := v\<rparr>))),
     (3, when_tag tag 26 (readf (r_string L) (\<lambda>v. message\<lparr>EventModProvider.service := v\<rparr>))),
     (4, when_tag tag 34 (readf (r_string L) (\<lambda>v. message\<lparr>EventModProvider.metadataUri := v\<rparr>))),
     (5, when_tag tag 40 (readf (num64 (r_uint64 L)) (\<lambda>v. message\<lparr>EventModProvider.metadataNonce := v\<rparr>))),
     (6, when_tag tag 48 (readf (num32 (r_int32 L)) (\<lambda>v. message\<lparr>EventModProvider.status := v\<rparr>))),
     (7, when_tag tag 56 (readf (num64 (r_int64 L)) (\<lambda>v. message\<lparr>EventModProvider.minContractDuration := v\<rparr>))),
     (8, when_tag tag 64 (readf (num64 (r_int64 L)) (\<lambda>v. message\<lparr>EventModProvider.maxContractDuration := v\<rparr>))),
     (9, when_tag tag 74 (readf (submsg L (decode_Coin L)) (\<lambda>v. message\<lparr>EventModProvider.subscriptionRate := EventModProvider.subscriptionRate message @ [v]\<rparr>))),
     (10, when_tag tag 82 (readf (submsg L (decode_Coin L)) (\<lambda>v. message\<lparr>EventModProvider.payAsYouGoRate := EventModProvider.payAsYouGoRate message @ [v]\<rparr>))),
     (11, when_tag tag 90 (readf (r_string L) (\<lambda>v. message\<lparr>EventModProvider.bond := v\<rparr>))),
     (12, when_tag tag 96 (readf (num64 (r_int64 L)) (\<lambda>v. message\<lparr>EventModProvider.settlementDuration := v\<rparr>)))]
    break_out"

definition decode_EventModProvider :: "('w, 'r) wire \<Rightarrow> 'r input \<Rightarrow> nat option \<Rightarrow> (EventModProvider \<times> 'r) result" where
  "decode_EventModProvider L = decode_msg L (EventModProvider_switch L) createBase_EventModProvider"

definition fromJSON_EventModProvider :: "host \<Rightarrow> jsval \<Rightarrow> EventModProvider result" where
  "fromJSON_EventModProvider h object =
     bindE (fieldE object ''creator'' (bytesFromBase64 h) []) (\<lambda>v_creator.
     bindE (fieldE object ''provider'' (bytesFromBase64 h) []) (\<lambda>v_provider.
     bindE (fieldE object ''service'' (stringE h) []) (\<lambda>v_service.
     bindE (fieldE object ''metadataUri'' (stringE h) []) (\<lambda>v_metadataUri.
     bindE (fieldE object ''metadataNonce'' (numberE h) (Num 0)) (\<lambda>v_metadataNonce.
     bindE (fieldE object ''status'' (enumE providerStatusFromJSON) (Num 0)) (\<lambda>v_status.
     bindE (fieldE object ''minContractDuration'' (numberE h) (Num 0)) (\<lambda>v_minContractDuration.
     bindE (fieldE object ''maxContractDuration'' (numberE h) (Num 0)) (\<lambda>v_maxContractDuration.
     bindE (arrayE object ''subscriptionRate'' (fromJSON_Coin h)) (\<lambda>v_subscriptionRate.
     bindE (arrayE object ''payAsYouGoRate'' (fromJSON_Coin h)) (\<lambda>v_payAsYouGoRate.
     bindE (fieldE object ''bond'' (stringE h) []) (\<lambda>v_bond.
     bindE (fieldE object ''settlementDuration'' (numberE h) (Num 0)) (\<lambda>v_settlementDuration.
     Inr \<lparr>EventModProvider.creator = v_creator, EventModProvider.provider = v_provider, EventModProvider.service = v_service, EventModProvider.metadataUri = v_metadataUri, EventModProvider.metadataNonce = v_metadataNonce, EventModProvider.status = v_status, EventModProvider.minContractDuration = v_minContractDuration, EventModProvider.maxContractDuration = v_maxContractDuration, EventModProvider.subscriptionRate = v_subscriptionRate, EventModProvider.payAsYouGoRate = v_payAsYouGoRate, EventModProvider.bond = v_bond, EventModProvider.settlementDuration = v_settlementDuration\<rparr>))))))))))))"

definition toJSON_EventModProvider :: "host \<Rightarrow> EventModProvider \<Rightarrow> jsval result" where
  "toJSON_EventModProvider h message = objE
    [jfieldE (length (EventModProvider.creator message) \<noteq> 0) ''creator'' (base64E h (EventModProvider.creator message)),
     jfieldE (length (EventModProvider.provider message) \<noteq> 0) ''provider'' (base64E h (EventModProvider.provider message)),
     jfieldE (EventModProvider.service message \<noteq> []) ''service'' (Inr (JString (EventModProvider.service message))),
     jfieldE (EventModProvider.metadataUri message \<noteq> []) ''metadataUri'' (Inr (JString (EventModProvider.metadataUri message))),
     jfieldE (EventModProvider.metadataNonce message \<noteq> Num 0) ''metadataNonce'' (Inr (JNumber (Math_round (EventModProvider.metadataNonce message)))),
     jfieldE (EventModProvider.status message \<noteq> Num 0) ''status'' (Inr (JString (providerStatusToJSON (EventModProvider.status message)))),
     jfieldE (EventModProvider.minContractDuration message \<noteq> Num 0) ''minContractDuration'' (Inr (JNumber (Math_round (EventModProvider.minContractDuration message)))),
     jfieldE (EventModProvider.maxContractDuration message \<noteq> Num 0) ''maxContractDuration'' (Inr (JNumber (Math_round (EventModProvider.maxContractDuration message)))),
     jarrayE ''subscriptionRate'' (toJSON_Coin h) (EventModProvider.subscriptionRate message),
     jarrayE ''payAsYouGoRate'' (toJSON_Coin h) (EventModProvider.payAsYouGoRate message),
     jfieldE (EventModProvider.bond message \<noteq> []) ''bond'' (Inr (JString (EventModProvider.bond message))),
     jfieldE (EventModProvider.settlementDuration message \<noteq> Num 0) ''settlementDuration'' (Inr (JNumber (Math_round (EventModProvider.settlementDuration message))))]"

record EventModProvider_Partial =
  creator :: "bytes option"
  provider :: "bytes option"
  service :: "jsstring option"
  metadataUri :: "jsstring option"
  metadataNonce :: "number option"
  status :: "ProviderStatus option"
  minContractDuration :: "number option"
  maxContractDuration :: "number option"
  subscriptionRate :: "Coin_Partial list option"
  payAsYouGoRate :: "Coin_Partial list option"
  bond :: "jsstring option"
  settlementDuration :: "number option"

definition EventModProvider_empty :: EventModProvider_Partial where
  "EventModProvider_empty = \<lparr>EventModProvider_Partial.creator = None, EventModProvider_Partial.provider = None, EventModProvider_Partial.service = None, EventModProvider_Partial.metadataUri = None, EventModProvider_Partial.metadataNonce = None, EventModProvider_Partial.status = None, EventModProvider_Partial.minContractDuration = None, EventModProvider_Partial.maxContractDuration = None, EventModProvider_Partial.subscriptionRate = None, EventModProvider_Partial.payAsYouGoRate = None, EventModProvider_Partial.bond = None, EventModProvider_Partial.settlementDuration = None\<rparr>"

definition fromPartial_EventModProvider :: "EventModProvider_Partial \<Rightarrow> EventModProvider" where
  "fromPartial_EventModProvider object = createBase_EventModProvider\<lparr>EventModProvider.creator := nullish (EventModProvider_Partial.creator object) [],
     EventModProvider.provider := nullish (EventModProvider_Partial.provider object) [],
     EventModProvider.service := nullish (EventModProvider_Partial.service object) [],
     EventModProvider.metadataUri := nullish (EventModProvider_Partial.metadataUri object) [],
     EventModProvider.metadataNonce := nullish (EventModProvider_Partial.metadataNonce object) (Num 0),
     EventModProvider.status := nullish (EventModProvider_Partial.status object) (Num 0),
     EventModProvider.minContractDuration := nullish (EventModProvider_Partial.minContractDuration object) (Num 0),
     EventModProvider.maxContractDuration := nullish (EventModProvider_Partial.maxContractDuration object) (Num 0),
     EventModProvider.subscriptionRate := partial_map fromPartial_Coin (EventModProvider_Partial.subscriptionRate object),
     EventModProvider.payAsYouGoRate := partial_map fromPartial_Coin (EventModProvider_Partial.payAsYouGoRate object),
     EventModProvider.bond := nullish (EventModProvider_Partial.bond object) [],
     EventModProvider.settlementDuration := nullish (EventModProvider_Partial.settlementDuration object) (Num 0)\<rparr>"

definition create_EventModProvider :: "EventModProvider_Partial option \<Rightarrow> EventModProvider" where
  "create_EventModProvider base = fromPartial_EventModProvider (nullish base EventModProvider_empty)"

text \<open>A partial message that sets every field.\<close>

definition partial_of_EventModProvider :: "EventModProvider \<Rightarrow> EventModProvider_Partial" where
  "partial_of_EventModProvider m =
     \<lparr>EventModProvider_Partial.creator = Some (EventModProvider.creator m),
      EventModProvider_Partial.provider = Some (EventModProvider.provider m),
      EventModProvider_Partial.service = Some (EventModProvider.service m),
      EventModProvider_Partial.metadataUri = Some (EventModProvider.metadataUri m),
      EventModProvider_Partial.metadataNonce = Some (EventModProvider.metadataNonce m),
      EventModProvider_Partial.status = Some (EventModProvider.status m),
      EventModProvider_Partial.minContractDuration = Some (EventModProvider.minContractDuration m),
      EventModProvider_Partial.maxContractDuration = Some (EventModProvider.maxContractDuration m),
      EventModProvider_Partial.subscriptionRate = Some (map partial_of_Coin (EventModProvider.subscriptionRate m)),
      EventModProvider_Partial.payAsYouGoRate = Some (map partial_of_Coin (EventModProvider.payAsYouGoRate m)),
      EventModProvider_Partial.bond = Some (EventModProvider.bond m),
      EventModProvider_Partial.settlementDuration = Some (EventModProvider.settlementDuration m)\<rparr>"

definition ok_EventModProvider :: "EventModProvider \<Rightarrow> bool" where
  "ok_EventModProvider m \<longleftrightarrow> safe_uint (EventModProvider.metadataNonce m)
     \<and> int32_num (EventModProvider.status m)
     \<and> safe_int (EventModProvider.minContractDuration m)
     \<and> safe_int (EventModProvider.maxContractDuration m)
     \<and> list_all ok_Coin (EventModProvider.subscriptionRate m)
     \<and> list_all ok_Coin (EventModProvider.payAsYouGoRate m)
     \<and> safe_int (EventModProvider.settlementDuration m)"

definition wf_EventModProvider :: "('w, 'r) wire \<Rightarrow> EventModProvider \<Rightarrow> bool" where
  "wf_EventModProvider L m \<longleftrightarrow> wire_bytes (EventModProvider.creator m)
     \<and> wire_bytes (EventModProvider.provider m)
     \<and> wire_string (EventModProvider.service m)
     \<and> wire_string (EventModProvider.metadataUri m)
     \<and> safe_uint (EventModProvider.metadataNonce m)
     \<and> int32_num (EventModProvider.status m)
     \<and> safe_int (EventModProvider.minContractDuration m)
     \<and> safe_int (EventModProvider.maxContractDuration m)
     \<and> list_all (\<lambda>v. wf_Coin L v \<and> fits L (encode_Coin L v)) (EventModProvider.subscriptionRate m)
     \<and> list_all (\<lambda>v. wf_Coin L v \<and> fits L (encode_Coin L v)) (EventModProvider.payAsYouGoRate m)
     \<and> wire_string (EventModProvider.bond m)
     \<and> safe_int (EventModProvider.settlementDuration m)"

definition wfj_EventModProvider :: "EventModProvider \<Rightarrow> bool" where
  "wfj_EventModProvider m \<longleftrightarrow> whole (EventModProvider.metadataNonce m)
     \<and> ProviderStatus_known (EventModProvider.status m)
     \<and> whole (EventModProvider.minContractDuration m)
     \<and> whole (EventModProvider.maxContractDuration m)
     \<and> list_all wfj_Coin (EventModProvider.subscriptionRate m)
     \<and> list_all wfj_Coin (EventModProvider.payAsYouGoRate m)
     \<and> whole (EventModProvider.settlementDuration m)"

subsection \<open>EventOpenContract\<close>

record EventOpenContract =
  provider :: bytes
  contractId :: number
  service :: jsstring
  client :: bytes
  delegate :: bytes
  type' :: ContractType
  height :: number
  duration :: number
  rate :: "Coin option"
  openCost :: number
  deposit :: jsstring
  settlementDuration :: number
  authorization :: ContractAuthorization
  queriesPerMinute :: number
  settlementHeight :: number

definition createBase_EventOpenContract :: EventOpenContract where
  "createBase_EventOpenContract = \<lparr>EventOpenContract.provider = [],
     EventOpenContract.contractId = Num 0,
     EventOpenContract.service = [],
     EventOpenContract.client = [],
     EventOpenContract.delegate = [],
     EventOpenContract.type' = Num 0,
     EventOpenContract.height = Num 0,
     EventOpenContract.duration = Num 0,
     EventOpenContract.rate = None,
     EventOpenContract.openCost = Num 0,
     EventOpenContract.deposit = [],
     EventOpenContract.settlementDuration = Num 0,
     EventOpenContract.authorization = Num 0,
     EventOpenContract.queriesPerMinute = Num 0,
     EventOpenContract.settlementHeight = Num 0\<rparr>"

definition encode_EventOpenContract :: "('w, 'r) wire \<Rightarrow> EventOpenContract \<Rightarrow> 'w \<Rightarrow> 'w result" where
  "encode_EventOpenContract L message = seqE
    [whenE (length (EventOpenContract.provider message) \<noteq> 0) (seqE [w_uint32 L 10, w_bytes L (EventOpenContract.provider message)]),
     whenE (EventOpenContract.contractId message \<noteq> Num 0) (seqE [w_uint32 L 16, w_uint64 L (EventOpenContract.contractId message)]),
     whenE (EventOpenContract.service message \<noteq> []) (seqE [w_uint32 L 26, w_string L (EventOpenContract.service message)]),
     whenE (length (EventOpenContract.client message) \<noteq> 0) (seqE [w_uint32 L 34, w_bytes L (EventOpenContract.client message)]),
     whenE (length (EventOpenContract.delegate message) \<noteq> 0) (seqE [w_uint32 L 42, w_bytes L (EventOpenContract.delegate message)]),
     whenE (EventOpenContract.type' message \<noteq> Num 0) (seqE [w_uint32 L 48, w_int32 L (EventOpenContract.type' message)]),
     whenE (EventOpenContract.height message \<noteq> Num 0) (seqE [w_uint32 L 56, w_int64 L (EventOpenContract.height message)]),
     whenE (EventOpenContract.duration message \<noteq> Num 0) (seqE [w_uint32 L 64, w_int64 L (EventOpenContract.duration message)]),
     someE (EventOpenContract.rate message) (\<lambda>v. seqE [w_uint32 L 74, w_fork L, encode_Coin L v, w_join L]),
     whenE (EventOpenContract.openCost message \<noteq> Num 0) (seqE [w_uint32 L 80, w_int64 L (EventOpenContract.openCost message)]),
     whenE (EventOpenContract.deposit message \<noteq> []) (seqE [w_uint32 L 90, w_string L (EventOpenContract.deposit message)]),
     whenE (EventOpenContract.settlementDuration message \<noteq> Num 0) (seqE [w_uint32 L 96, w_int64 L (EventOpenContract.settlementDuration message)]),
     whenE (EventOpenContract.authorization message \<noteq> Num 0) (seqE [w_uint32 L 104, w_int32 L (EventOpenContract.authorization message)]),
     whenE (EventOpenContract.queriesPerMinute message \<noteq> Num 0) (seqE [w_uint32 L 112, w_int64 L (EventOpenContract.queriesPerMinute message)]),
     whenE (EventOpenContract.settlementHeight message \<noteq> Num 0) (seqE [w_uint32 L 120, w_int64 L (EventOpenContract.settlementHeight message)])]"

definition EventOpenContract_switch :: "('w, 'r) wire \<Rightarrow> u32 \<Rightarrow> EventOpenContract \<Rightarrow> (EventOpenContract, 'r) action" where
  "EventOpenContract_switch L tag message = js_switch (drop_bit 3 tag)
    [(1, when_tag tag 10 (readf (r_bytes L) (\<lambda>v. message\<lparr>EventOpenContract.provider := v\<rparr>))),
     (2, when_tag tag 16 (readf (num64 (r_uint64 L)) (\<lambda>v. message\<lparr>EventOpenContract.contractId := v\<rparr>))),
     (3, when_tag tag 26 (readf (r_string L) (\<lambda>v. message\<lparr>EventOpenContract.service := v\<rparr>))),
     (4, when_tag tag 34 (readf (r_bytes L) (\<lambda>v. message\<lparr>EventOpenContract.client := v\<rparr>))),
     (5, when_tag tag 42 (readf (r_bytes L) (\<lambda>v. message\<lparr>EventOpenContract.delegate := v\<rparr>))),
     (6, when_tag tag 48 (readf (num32 (r_int32 L)) (\<lambda>v. message\<lparr>EventOpenContract.type' := v\<rparr>))),
     (7, when_tag tag 56 (readf (num64 (r_int64 L)) (\<lambda>v. message\<lparr>EventOpenContract.height := v\<rparr>))),
     (8, when_tag tag 64 (readf (num64 (r_int64 L)) (\<lambda>v. message\<lparr>EventOpenContract.duration := v\<rparr>))),
     (9, when_tag tag 74 (readf (submsg L (decode_Coin L)) (\<lambda>v. message\<lparr>EventOpenContract.rate := Some v\<rparr>))),
     (10, when_tag tag 80 (readf (num64 (r_int64 L)) (\<lambda>v. message\<lparr>EventOpenContract.openCost := v\<rparr>))),
     (11, when_tag tag 90 (readf (r_string L) (\<lambda>v. message\<lparr>EventOpenContract.deposit := v\<rparr>))),
     (12, when_tag tag 96 (readf (num64 (r_int64 L)) (\<lambda>v. message\<lparr>EventOpenContract.settlementDuration := v\<rparr>))),
     (13, when_tag tag 104 (readf (num32 (r_int32 L)) (\<lambda>v. message\<lparr>EventOpenContract.authorization := v\<rparr>))),
     (14, when_tag tag 112 (readf (num64 (r_int64 L)) (\<lambda>v. message\<lparr>EventOpenContract.queriesPerMinute := v\<rparr>))),
     (15, when_tag tag 120 (readf (num64 (r_int64 L)) (\<lambda>v. message\<lparr>EventOpenContract.settlementHeight := v\<rparr>)))]
    break_out"

definition decode_EventOpenContract :: "('w, 'r) wire \<Rightarrow> 'r input \<Rightarrow> nat option \<Rightarrow> (EventOpenContract \<times> 'r) result" where
  "decode_EventOpenContract L = decode_msg L (EventOpenContract_switch L) createBase_EventOpenContract"

definition fromJSON_EventOpenContract :: "host \<Rightarrow> jsval \<Rightarrow> EventOpenContract result" where
  "fromJSON_EventOpenContract h object =
     bindE (fieldE object ''provider'' (bytesFromBase64 h) []) (\<lambda>v_provider.
     bindE (fieldE object ''contractId'' (numberE h) (Num 0)) (\<lambda>v_contractId.
     bindE (fieldE object ''service'' (stringE h) []) (\<lambda>v_service.
     bindE (fieldE object ''client'' (bytesFromBase64 h) []) (\<lambda>v_client.
     bindE (fieldE object ''delegate'' (bytesFromBase64 h) []) (\<lambda>v_delegate.
     bindE (fieldE object ''type'' (enumE contractTypeFromJSON) (Num 0)) (\<lambda>v_type.
     bindE (fieldE object ''height'' (numberE h) (Num 0)) (\<lambda>v_height.
     bindE (fieldE object ''duration'' (numberE h) (Num 0)) (\<lambda>v_duration.
     bindE (optE object ''rate'' (fromJSON_Coin h)) (\<lambda>v_rate.
     bindE (fieldE object ''openCost'' (numberE h) (Num 0)) (\<lambda>v_openCost.
     bindE (fieldE object ''deposit'' (stringE h) []) (\<lambda>v_deposit.
     bindE (fieldE object ''settlementDuration'' (numberE h) (Num 0)) (\<lambda>v_settlementDuration.
     bindE (fieldE object ''authorization'' (enumE contractAuthorizationFromJSON) (Num 0)) (\<lambda>v_authorization.
     bindE (fieldE object ''queriesPerMinute'' (numberE h) (Num 0)) (\<lambda>v_queriesPerMinute.
     bindE (fieldE object ''settlementHeight'' (numberE h) (Num 0)) (\<lambda>v_settlementHeight.
     Inr \<lparr>EventOpenContract.provider = v_provider, EventOpenContract.contractId = v_contractId, EventOpenContract.service = v_service, EventOpenContract.client = v_client, EventOpenContract.delegate = v_delegate, EventOpenContract.type' = v_type, EventOpenContract.height = v_height, EventOpenContract.duration = v_duration, EventOpenContract.rate = v_rate, EventOpenContract.openCost = v_openCost, EventOpenContract.deposit = v_deposit, EventOpenContract.settlementDuration = v_settlementDuration, EventOpenContract.authorization = v_authorization, EventOpenContract.queriesPerMinute = v_queriesPerMinute, EventOpenContract.settlementHeight = v_settlementHeight\<rparr>)))))))))))))))"

definition toJSON_EventOpenContract :: "host \<Rightarrow> EventOpenContract \<Rightarrow> jsval result" where
  "toJSON_EventOpenContract h message = objE
    [jfieldE (length (EventOpenContract.provider message) \<noteq> 0) ''provider'' (base64E h (EventOpenContract.provider message)),
     jfieldE (EventOpenContract.contractId message \<noteq> Num 0) ''contractId'' (Inr (JNumber (Math_round (EventOpenContract.contractId message)))),
     jfieldE (EventOpenContract.service message \<noteq> []) ''service'' (Inr (JString (EventOpenContract.service message))),
     jfieldE (length (EventOpenContract.client message) \<noteq> 0) ''client'' (base64E h (EventOpenContract.client message)),
     jfieldE (length (EventOpenContract.delegate message) \<noteq> 0) ''delegate'' (base64E h (EventOpenContract.delegate message)),
     jfieldE (EventOpenContract.type' message \<noteq> Num 0) ''type'' (Inr (JString (contractTypeToJSON (EventOpenContract.type' message)))),
     jfieldE (EventOpenContract.height message \<noteq> Num 0) ''height'' (Inr (JNumber (Math_round (EventOpenContract.height message)))),
     jfieldE (EventOpenContract.duration message \<noteq> Num 0) ''duration'' (Inr (JNumber (Math_round (EventOpenContract.duration message)))),
     joptE ''rate'' (toJSON_Coin h) (EventOpenContract.rate message),
     jfieldE (EventOpenContract.openCost message \<noteq> Num 0) ''openCost'' (Inr (JNumber (Math_round (EventOpenContract.openCost message)))),
     jfieldE (EventOpenContract.deposit message \<noteq> []) ''deposit'' (Inr (JString (EventOpenContract.deposit message))),
     jfieldE (EventOpenContract.settlementDuration message \<noteq> Num 0) ''settlementDuration'' (Inr (JNumber (Math_round (EventOpenContract.settlementDuration message)))),
     jfieldE (EventOpenContract.authorization message \<noteq> Num 0) ''authorization'' (Inr (JString (contractAuthorizationToJSON (EventOpenContract.authorization message)))),
     jfieldE (EventOpenContract.queriesPerMinute message \<noteq> Num 0) ''queriesPerMinute'' (Inr (JNumber (Math_round (EventOpenContract.queriesPerMinute message)))),
     jfieldE (EventOpenContract.settlementHeight message \<noteq> Num 0) ''settlementHeight'' (Inr (JNumber (Math_round (EventOpenContract.settlementHeight message))))]"

record EventOpenContract_Partial =
  provider :: "bytes option"
  contractId :: "number option"
  service :: "jsstring option"
  client :: "bytes option"
  delegate :: "bytes option"
  type' :: "ContractType option"
  height :: "number option"
  duration :: "number option"
  rate :: "Coin_Partial option"
  openCost :: "number option"
  deposit :: "jsstring option"
  settlementDuration :: "number option"
  authorization :: "ContractAuthorization option"
  queriesPerMinute :: "number option"
  settlementHeight :: "number option"

definition EventOpenContract_empty :: EventOpenContract_Partial where
  "EventOpenContract_empty = \<lparr>EventOpenContract_Partial.provider = None, EventOpenContract_Partial.contractId = None, EventOpenContract_Partial.service = None, EventOpenContract_Partial.client = None, EventOpenContract_Partial.delegate = None, EventOpenContract_Partial.type' = None, EventOpenContract_Partial.height = None, EventOpenContract_Partial.duration = None, EventOpenContract_Partial.rate = None, EventOpenContract_Partial.openCost = None, EventOpenContract_Partial.deposit = None, EventOpenContract_Partial.settlementDuration = None, EventOpenContract_Partial.authorization = None, EventOpenContract_Partial.queriesPerMinute = None, EventOpenContract_Partial.settlementHeight = None\<rparr>"

definition fromPartial_EventOpenContract :: "EventOpenContract_Partial \<Rightarrow> EventOpenContract" where
  "fromPartial_EventOpenContract object = createBase_EventOpenContract\<lparr>EventOpenContract.provider := nullish (EventOpenContract_Partial.provider object) [],
     EventOpenContract.contractId := nullish (EventOpenContract_Partial.contractId object) (Num 0),
     EventOpenContract.service := nullish (EventOpenContract_Partial.service object) [],
     EventOpenContract.client := nullish (EventOpenContract_Partial.client object) [],
     EventOpenContract.delegate := nullish (EventOpenContract_Partial.delegate object) [],
     EventOpenContract.type' := nullish (EventOpenContract_Partial.type' object) (Num 0),
     EventOpenContract.height := nullish (EventOpenContract_Partial.height object) (Num 0),
     EventOpenContract.duration := nullish (EventOpenContract_Partial.duration object) (Num 0),
     EventOpenContract.rate := map_option fromPartial_Coin (EventOpenContract_Partial.rate object),
     EventOpenContract.openCost := nullish (EventOpenContract_Partial.openCost object) (Num 0),
     EventOpenContract.deposit := nullish (EventOpenContract_Partial.deposit object) [],
     EventOpenContract.settlementDuration := nullish (EventOpenContract_Partial.settlementDuration object) (Num 0),
     EventOpenContract.authorization := nullish (EventOpenContract_Partial.authorization object) (Num 0),
     EventOpenContract.queriesPerMinute := nullish (EventOpenContract_Partial.queriesPerMinute object) (Num 0),
     EventOpenContract.settlementHeight := nullish (EventOpenContract_Partial.settlementHeight object) (Num 0)\<rparr>"

definition create_EventOpenContract :: "EventOpenContract_Partial option \<Rightarrow> EventOpenContract" where
  "create_EventOpenContract base = fromPartial_EventOpenContract (nullish base EventOpenContract_empty)"

text \<open>A partial message that sets every field.\<close>

definition partial_of_EventOpenContract :: "EventOpenContract \<Rightarrow> EventOpenContract_Partial" where
  "partial_of_EventOpenContract m =
     \<lparr>EventOpenContract_Partial.provider = Some (EventOpenContract.provider m),
      EventOpenContract_Partial.contractId = Some (EventOpenContract.contractId m),
      EventOpenContract_Partial.service = Some (EventOpenContract.service m),
      EventOpenContract_Partial.client = Some (EventOpenContract.client m),
      EventOpenContract_Partial.delegate = Some (EventOpenContract.delegate m),
      EventOpenContract_Partial.type' = Some (EventOpenContract.type' m),
      EventOpenContract_Partial.height = Some (EventOpenContract.height m),
      EventOpenContract_Partial.duration = Some (EventOpenContract.duration m),
      EventOpenContract_Partial.rate = map_option partial_of_Coin (EventOpenContract.rate m),
      EventOpenContract_Partial.openCost = Some (EventOpenContract.openCost m),
      EventOpenContract_Partial.deposit = Some (EventOpenContract.deposit m),
      EventOpenContract_Partial.settlementDuration = Some (EventOpenContract.settlementDuration m),
      EventOpenContract_Partial.authorization = Some (EventOpenContract.authorization m),
      EventOpenContract_Partial.queriesPerMinute = Some (EventOpenContract.queriesPerMinute m),
      EventOpenContract_Partial.settlementHeight = Some (EventOpenContract.settlementHeight m)\<rparr>"

definition ok_EventOpenContract :: "EventOpenContract \<Rightarrow> bool" where
  "ok_EventOpenContract m \<longleftrightarrow> safe_uint (EventOpenContract.contractId m)
     \<and> int32_num (EventOpenContract.type' m)
     \<and> safe_int (EventOpenContract.height m)
     \<and> safe_int (EventOpenContract.duration m)
     \<and> pred_option ok_Coin (EventOpenContract.rate m)
     \<and> safe_int (EventOpenContract.openCost m)
     \<and> safe_int (EventOpenContract.settlementDuration m)
     \<and> int32_num (EventOpenContract.authorization m)
     \<and> safe_int (EventOpenContract.queriesPerMinute m)
     \<and> safe_int (EventOpenContract.settlementHeight m)"

definition wf_EventOpenContract :: "('w, 'r) wire \<Rightarrow> EventOpenContract \<Rightarrow> bool" where
  "wf_EventOpenContract L m \<longleftrightarrow> wire_bytes (EventOpenContract.provider m)
     \<and> safe_uint (EventOpenContract.contractId m)
     \<and> wire_string (EventOpenContract.service m)
     \<and> wire_bytes (EventOpenContract.client m)
     \<and> wire_bytes (EventOpenContract.delegate m)
     \<and> int32_num (EventOpenContract.type' m)
     \<and> safe_int (EventOpenContract.height m)
     \<and> safe_int (EventOpenContract.duration m)
     \<and> pred_option (\<lambda>v. wf_Coin L v \<and> fits L (encode_Coin L v)) (EventOpenContract.rate m)
     \<and> safe_int (EventOpenContract.openCost m)
     \<and> wire_string (EventOpenContract.deposit m)
     \<and> safe_int (EventOpenContract.settlementDuration m)
     \<and> int32_num (EventOpenContract.authorization m)
     \<and> safe_int (EventOpenContract.queriesPerMinute m)
     \<and> safe_int (EventOpenContract.settlementHeight m)"

definition wfj_EventOpenContract :: "EventOpenContract \<Rightarrow> bool" where
  "wfj_EventOpenContract m \<longleftrightarrow> whole (EventOpenContract.contractId m)
     \<and> ContractType_known (EventOpenContract.type' m)
     \<and> whole (EventOpenContract.height m)
     \<and> whole (EventOpenContract.duration m)
     \<and> pred_option wfj_Coin (EventOpenContract.rate m)
     \<and> whole (EventOpenContract.openCost m)
     \<and> whole (EventOpenContract.settlementDuration m)
     \<and> ContractAuthorization_known (EventOpenContract.authorization m)
     \<and> whole (EventOpenContract.queriesPerMinute m)
     \<and> whole (EventOpenContract.settlementHeight m)"

subsection \<open>EventSettleContract\<close>

record EventSettleContract =
  provider :: bytes
  contractId :: number
  service :: jsstring
  client :: bytes
  delegate :: bytes
  type' :: ContractType
  nonce :: number
  height :: number
  paid :: jsstring
  reserve :: jsstring

definition createBase_EventSettleContract :: EventSettleContract where
  "createBase_EventSettleContract = \<lparr>EventSettleContract.provider = [],
     EventSettleContract.contractId = Num 0,
     EventSettleContract.service = [],
     EventSettleContract.client = [],
     EventSettleContract.delegate = [],
     EventSettleContract.type' = Num 0,
     EventSettleContract.nonce = Num 0,
     EventSettleContract.height = Num 0,
     EventSettleContract.paid = [],
     EventSettleContract.reserve = []\<rparr>"

definition encode_EventSettleContract :: "('w, 'r) wire \<Rightarrow> EventSettleContract \<Rightarrow> 'w \<Rightarrow> 'w result" where
  "encode_EventSettleContract L message = seqE
    [whenE (length (EventSettleContract.provider message) \<noteq> 0) (seqE [w_uint32 L 10, w_bytes L (EventSettleContract.provider message)]),
     whenE (EventSettleContract.contractId message \<noteq> Num 0) (seqE [w_uint32 L 16, w_uint64 L (EventSettleContract.contractId message)]),
     whenE (EventSettleContract.service message \<noteq> []) (seqE [w_uint32 L 26, w_string L (EventSettleContract.service message)]),
     whenE (length (EventSettleContract.client message) \<noteq> 0) (seqE [w_uint32 L 34, w_bytes L (EventSettleContract.client message)]),
     whenE (length (EventSettleContract.delegate message) \<noteq> 0) (seqE [w_uint32 L 42, w_bytes L (EventSettleContract.delegate message)]),
     whenE (EventSettleContract.type' message \<noteq> Num 0) (seqE [w_uint32 L 48, w_int32 L (EventSettleContract.type' message)]),
     whenE (EventSettleContract.nonce message \<noteq> Num 0) (seqE [w_uint32 L 56, w_int64 L (EventSettleContract.nonce message)]),
     whenE (EventSettleContract.height message \<noteq> Num 0) (seqE [w_uint32 L 64, w_int64 L (EventSettleContract.height message)]),
     whenE (EventSettleContract.paid message \<noteq> []) (seqE [w_uint32 L 74, w_string L (EventSettleContract.paid message)]),
     whenE (EventSettleContract.reserve message \<noteq> []) (seqE [w_uint32 L 82, w_string L (EventSettleContract.reserve message)])]"

definition EventSettleContract_switch :: "('w, 'r) wire \<Rightarrow> u32 \<Rightarrow> EventSettleContract \<Rightarrow> (EventSettleContract, 'r) action" where
  "EventSettleContract_switch L tag message = js_switch (drop_bit 3 tag)
    [(1, when_tag tag 10 (readf (r_bytes L) (\<lambda>v. message\<lparr>EventSettleContract.provider := v\<rparr>))),
     (2, when_tag tag 16 (readf (num64 (r_uint64 L)) (\<lambda>v. message\<lparr>EventSettleContract.contractId := v\<rparr>))),
     (3, when_tag tag 26 (readf (r_string L) (\<lambda>v. message\<lparr>EventSettleContract.service := v\<rparr>))),
     (4, when_tag tag 34 (readf (r_bytes L) (\<lambda>v. message\<lparr>EventSettleContract.client := v\<rparr>))),
     (5, when_tag tag 42 (readf (r_bytes L) (\<lambda>v. message\<lparr>EventSettleContract.delegate := v\<rparr>))),
     (6, when_tag tag 48 (readf (num32 (r_int32 L)) (\<lambda>v. message\<lparr>EventSettleContract.type' := v\<rparr>))),
     (7, when_tag tag 56 (readf (num64 (r_int64 L)) (\<lambda>v. message\<lparr>EventSettleContract.nonce := v\<rparr>))),
     (8, when_tag tag 64 (readf (num64 (r_int64 L)) (\<lambda>v. message\<lparr>EventSettleContract.height := v\<rparr>))),
     (9, when_tag tag 74 (readf (r_string L) (\<lambda>v. message\<lparr>EventSettleContract.paid := v\<rparr>))),
     (10, when_tag tag 82 (readf (r_string L) (\<lambda>v. message\<lparr>EventSettleContract.reserve := v\<rparr>)))]
    break_out"

definition decode_EventSettleContract :: "('w, 'r) wire \<Rightarrow> 'r input \<Rightarrow> nat option \<Rightarrow> (EventSettleContract \<times> 'r) result" where
  "decode_EventSettleContract L = decode_msg L (EventSettleContract_switch L) createBase_EventSettleContract"

definition fromJSON_EventSettleContract :: "host \<Rightarrow> jsval \<Rightarrow> EventSettleContract result" where
  "fromJSON_EventSettleContract h object =
     bindE (fieldE object ''provider'' (bytesFromBase64 h) []) (\<lambda>v_provider.
     bindE (fieldE object ''contractId'' (numberE h) (Num 0)) (\<lambda>v_contractId.
     bindE (fieldE object ''service'' (stringE h) []) (\<lambda>v_service.
     bindE (fieldE object ''client'' (bytesFromBase64 h) []) (\<lambda>v_client.
     bindE (fieldE object ''delegate'' (bytesFromBase64 h) []) (\<lambda>v_delegate.
     bindE (fieldE object ''type'' (enumE contractTypeFromJSON) (Num 0)) (\<lambda>v_type.
     bindE (fieldE object ''nonce'' (numberE h) (Num 0)) (\<lambda>v_nonce.
     bindE (fieldE object ''height'' (numberE h) (Num 0)) (\<lambda>v_height.
     bindE (fieldE object ''paid'' (stringE h) []) (\<lambda>v_paid.
     bindE (fieldE object ''reserve'' (stringE h) []) (\<lambda>v_reserve.
     Inr \<lparr>EventSettleContract.provider = v_provider, EventSettleContract.contractId = v_contractId, EventSettleContract.service = v_service, EventSettleContract.client = v_client, EventSettleContract.delegate = v_delegate, EventSettleContract.type' = v_type, EventSettleContract.nonce = v_nonce, EventSettleContract.height = v_height, EventSettleContract.paid = v_paid, EventSettleContract.reserve = v_reserve\<rparr>))))))))))"

definition toJSON_EventSettleContract :: "host \<Rightarrow> EventSettleContract \<Rightarrow> jsval result" where
  "toJSON_EventSettleContract h message = objE
    [jfieldE (length (EventSettleContract.provider message) \<noteq> 0) ''provider'' (base64E h (EventSettleContract.provider message)),
     jfieldE (EventSettleContract.contractId message \<noteq> Num 0) ''contractId'' (Inr (JNumber (Math_round (EventSettleContract.contractId message)))),
     jfieldE (EventSettleContract.service message \<noteq> []) ''service'' (Inr (JString (EventSettleContract.service message))),
     jfieldE (length (EventSettleContract.client message) \<noteq> 0) ''client'' (base64E h (EventSettleContract.client message)),
     jfieldE (length (EventSettleContract.delegate message) \<noteq> 0) ''delegate'' (base64E h (EventSettleContract.delegate message)),
     jfieldE (EventSettleContract.type' message \<noteq> Num 0) ''type'' (Inr (JString (contractTypeToJSON (EventSettleContract.type' message)))),
     jfieldE (EventSettleContract.nonce message \<noteq> Num 0) ''nonce'' (Inr (JNumber (Math_round (EventSettleContract.nonce message)))),
     jfieldE (EventSettleContract.height message \<noteq> Num 0) ''height'' (Inr (JNumber (Math_round (EventSettleContract.height message)))),
     jfieldE (EventSettleContract.paid message \<noteq> []) ''paid'' (Inr (JString (EventSettleContract.paid message))),
     jfieldE (EventSettleContract.reserve message \<noteq> []) ''reserve'' (Inr (JString (EventSettleContract.reserve message)))]"

record EventSettleContract_Partial =
  provider :: "bytes option"
  contractId :: "number option"
  service :: "jsstring option"
  client :: "bytes option"
  delegate :: "bytes option"
  type' :: "ContractType option"
  nonce :: "number option"
  height :: "number option"
  paid :: "jsstring option"
  reserve :: "jsstring option"

definition EventSettleContract_empty :: EventSettleContract_Partial where
  "EventSettleContract_empty = \<lparr>EventSettleContract_Partial.provider = None, EventSettleContract_Partial.contractId = None, EventSettleContract_Partial.service = None, EventSettleContract_Partial.client = None, EventSettleContract_Partial.delegate = None, EventSettleContract_Partial.type' = None, EventSettleContract_Partial.nonce = None, EventSettleContract_Partial.height = None, EventSettleContract_Partial.paid = None, EventSettleContract_Partial.reserve = None\<rparr>"

definition fromPartial_EventSettleContract :: "EventSettleContract_Partial \<Rightarrow> EventSettleContract" where
  "fromPartial_EventSettleContract object = createBase_EventSettleContract\<lparr>EventSettleContract.provider := nullish (EventSettleContract_Partial.provider object) [],
     EventSettleContract.contractId := nullish (EventSettleContract_Partial.contractId object) (Num 0),
     EventSettleContract.service := nullish (EventSettleContract_Partial.service object) [],
     EventSettleContract.client := nullish (EventSettleContract_Partial.client object) [],
     EventSettleContract.delegate := nullish (EventSettleContract_Partial.delegate object) [],
     EventSettleContract.type' := nullish (EventSettleContract_Partial.type' object) (Num 0),
     EventSettleContract.nonce := nullish (EventSettleContract_Partial.nonce object) (Num 0),
     EventSettleContract.height := nullish (EventSettleContract_Partial.height object) (Num 0),
     EventSettleContract.paid := nullish (EventSettleContract_Partial.paid object) [],
     EventSettleContract.reserve := nullish (EventSettleContract_Partial.reserve object) []\<rparr>"

definition create_EventSettleContract :: "EventSettleContract_Partial option \<Rightarrow> EventSettleContract" where
  "create_EventSettleContract base = fromPartial_EventSettleContract (nullish base EventSettleContract_empty)"

text \<open>A partial message that sets every field.\<close>

definition partial_of_EventSettleContract :: "EventSettleContract \<Rightarrow> EventSettleContract_Partial" where
  "partial_of_EventSettleContract m =
     \<lparr>EventSettleContract_Partial.provider = Some (EventSettleContract.provider m),
      EventSettleContract_Partial.contractId = Some (EventSettleContract.contractId m),
      EventSettleContract_Partial.service = Some (EventSettleContract.service m),
      EventSettleContract_Partial.client = Some (EventSettleContract.client m),
      EventSettleContract_Partial.delegate = Some (EventSettleContract.delegate m),
      EventSettleContract_Partial.type' = Some (EventSettleContract.type' m),
      EventSettleContract_Partial.nonce = Some (EventSettleContract.nonce m),
      EventSettleContract_Partial.height = Some (EventSettleContract.height m),
      EventSettleContract_Partial.paid = Some (EventSettleContract.paid m),
      EventSettleContract_Partial.reserve = Some (EventSettleContract.reserve m)\<rparr>"

definition ok_EventSettleContract :: "EventSettleContract \<Rightarrow> bool" where
  "ok_EventSettleContract m \<longleftrightarrow> safe_uint (EventSettleContract.contractId m)
     \<and> int32_num (EventSettleContract.type' m)
     \<and> safe_int (EventSettleContract.nonce m)
     \<and> safe_int (EventSettleContract.height m)"

definition wf_EventSettleContract :: "('w, 'r) wire \<Rightarrow> EventSettleContract \<Rightarrow> bool" where
  "wf_EventSettleContract L m \<longleftrightarrow> wire_bytes (EventSettleContract.provider m)
     \<and> safe_uint (EventSettleContract.contractId m)
     \<and> wire_string (EventSettleContract.service m)
     \<and> wire_bytes (EventSettleContract.client m)
     \<and> wire_bytes (EventSettleContract.delegate m)
     \<and> int32_num (EventSettleContract.type' m)
     \<and> safe_int (EventSettleContract.nonce m)
     \<and> safe_int (EventSettleContract.height m)
     \<and> wire_string (EventSettleContract.paid m)
     \<and> wire_string (EventSettleContract.reserve m)"

definition wfj_EventSettleContract :: "EventSettleContract \<Rightarrow> bool" where
  "wfj_EventSettleContract m \<longleftrightarrow> whole (EventSettleContract.contractId m)
     \<and> ContractType_known (EventSettleContract.type' m)
     \<and> whole (EventSettleContract.nonce m)
     \<and> whole (EventSettleContract.height m)"

subsection \<open>EventCloseContract\<close>

record EventCloseContract =
  contractId :: number
  provider :: bytes
  service :: jsstring
  client :: bytes
  delegate :: bytes

definition createBase_EventCloseContract :: EventCloseContract where
  "createBase_EventCloseContract = \<lparr>EventCloseContract.contractId = Num 0,
     EventCloseContract.provider = [],
     EventCloseContract.service = [],
     EventCloseContract.client = [],
     EventCloseContract.delegate = []\<rparr>"

definition encode_EventCloseContract :: "('w, 'r) wire \<Rightarrow> EventCloseContract \<Rightarrow> 'w \<Rightarrow> 'w result" where
  "encode_EventCloseContract L message = seqE
    [whenE (EventCloseContract.contractId message \<noteq> Num 0) (seqE [w_uint32 L 8, w_uint64 L (EventCloseContract.contractId message)]),
     whenE (length (EventCloseContract.provider message) \<noteq> 0) (seqE [w_uint32 L 18, w_bytes L (EventCloseContract.provider message)]),
     whenE (EventCloseContract.service message \<noteq> []) (seqE [w_uint32 L 26, w_string L (EventCloseContract.service message)]),
     whenE (length (EventCloseContract.client message) \<noteq> 0) (seqE [w_uint32 L 34, w_bytes L (EventCloseContract.client message)]),
     whenE (length (EventCloseContract.delegate message) \<noteq> 0) (seqE [w_uint32 L 42, w_bytes L (EventCloseContract.delegate message)])]"

definition EventCloseContract_switch :: "('w, 'r) wire \<Rightarrow> u32 \<Rightarrow> EventCloseContract \<Rightarrow> (EventCloseContract, 'r) action" where
  "EventCloseContract_switch L tag message = js_switch (drop_bit 3 tag)
    [(1, when_tag tag 8 (readf (num64 (r_uint64 L)) (\<lambda>v. message\<lparr>EventCloseContract.contractId := v\<rparr>))),
     (2, when_tag tag 18 (readf (r_bytes L) (\<lambda>v. message\<lparr>EventCloseContract.provider := v\<rparr>))),
     (3, when_tag tag 26 (readf (r_string L) (\<lambda>v. message\<lparr>EventCloseContract.service := v\<rparr>))),
     (4, when_tag tag 34 (readf (r_bytes L) (\<lambda>v. message\<lparr>EventCloseContract.client := v\<rparr>))),
     (5, when_tag tag 42 (readf (r_bytes L) (\<lambda>v. message\<lparr>EventCloseContract.delegate := v\<rparr>)))]
    break_out"

definition decode_EventCloseContract :: "('w, 'r) wire \<Rightarrow> 'r input \<Rightarrow> nat option \<Rightarrow> (EventCloseContract \<times> 'r) result" where
  "decode_EventCloseContract L = decode_msg L (EventCloseContract_switch L) createBase_EventCloseContract"

definition fromJSON_EventCloseContract :: "host \<Rightarrow> jsval \<Rightarrow> EventCloseContract result" where
  "fromJSON_EventCloseContract h object =
     bindE (fieldE object ''contractId'' (numberE h) (Num 0)) (\<lambda>v_contractId.
     bindE (fieldE object ''provider'' (bytesFromBase64 h) []) (\<lambda>v_provider.
     bindE (fieldE object ''service'' (stringE h) []) (\<lambda>v_service.
     bindE (fieldE object ''client'' (bytesFromBase64 h) []) (\<lambda>v_client.
     bindE (fieldE object ''delegate'' (bytesFromBase64 h) []) (\<lambda>v_delegate.
     Inr \<lparr>EventCloseContract.contractId = v_contractId, EventCloseContract.provider = v_provider, EventCloseContract.service = v_service, EventCloseContract.client = v_client, EventCloseContract.delegate = v_delegate\<rparr>)))))"

definition toJSON_EventCloseContract :: "host \<Rightarrow> EventCloseContract \<Rightarrow> jsval result" where
  "toJSON_EventCloseContract h message = objE
    [jfieldE (EventCloseContract.contractId message \<noteq> Num 0) ''contractId'' (Inr (JNumber (Math_round (EventCloseContract.contractId message)))),
     jfieldE (length (EventCloseContract.provider message) \<noteq> 0) ''provider'' (base64E h (EventCloseContract.provider message)),
     jfieldE (EventCloseContract.service message \<noteq> []) ''service'' (Inr (JString (EventCloseContract.service message))),
     jfieldE (length (EventCloseContract.client message) \<noteq> 0) ''client'' (base64E h (EventCloseContract.client message)),
     jfieldE (length (EventCloseContract.delegate message) \<noteq> 0) ''delegate'' (base64E h (EventCloseContract.delegate message))]"

record EventCloseContract_Partial =
  contractId :: "number option"
  provider :: "bytes option"
  service :: "jsstring option"
  client :: "bytes option"
  delegate :: "bytes option"

definition EventCloseContract_empty :: EventCloseContract_Partial where
  "EventCloseContract_empty = \<lparr>EventCloseContract_Partial.contractId = None, EventCloseContract_Partial.provider = None, EventCloseContract_Partial.service = None, EventCloseContract_Partial.client = None, EventCloseContract_Partial.delegate = None\<rparr>"

definition fromPartial_EventCloseContract :: "EventCloseContract_Partial \<Rightarrow> EventCloseContract" where
  "fromPartial_EventCloseContract object = createBase_EventCloseContract\<lparr>EventCloseContract.contractId := nullish (EventCloseContract_Partial.contractId object) (Num 0),
     EventCloseContract.provider := nullish (EventCloseContract_Partial.provider object) [],
     EventCloseContract.service := nullish (EventCloseContract_Partial.service object) [],
     EventCloseContract.client := nullish (EventCloseContract_Partial.client object) [],
     EventCloseContract.delegate := nullish (EventCloseContract_Partial.delegate object) []\<rparr>"

definition create_EventCloseContract :: "EventCloseContract_Partial option \<Rightarrow> EventCloseContract" where
  "create_EventCloseContract base = fromPartial_EventCloseContract (nullish base EventCloseContract_empty)"

text \<open>A partial message that sets every field.\<close>

definition partial_of_EventCloseContract :: "EventCloseContract \<Rightarrow> EventCloseContract_Partial" where
  "partial_of_EventCloseContract m =
     \<lparr>EventCloseContract_Partial.contractId = Some (EventCloseContract.contractId m),
      EventCloseContract_Partial.provider = Some (EventCloseContract.provider m),
      EventCloseContract_Partial.service = Some (EventCloseContract.service m),
      EventCloseContract_Partial.client = Some (EventCloseContract.client m),
      EventCloseContract_Partial.delegate = Some (EventCloseContract.delegate m)\<rparr>"

definition ok_EventCloseContract :: "EventCloseContract \<Rightarrow> bool" where
  "ok_EventCloseContract m \<longleftrightarrow> safe_uint (EventCloseContract.contractId m)"

definition wf_EventCloseContract :: "('w, 'r) wire \<Rightarrow> EventCloseContract \<Rightarrow> bool" where
  "wf_EventCloseContract L m \<longleftrightarrow> safe_uint (EventCloseContract.contractId m)
     \<and> wire_bytes (EventCloseContract.provider m)
     \<and> wire_string (EventCloseContract.service m)
     \<and> wire_bytes (EventCloseContract.client m)
     \<and> wire_bytes (EventCloseContract.delegate m)"

definition wfj_EventCloseContract :: "EventCloseContract \<Rightarrow> bool" where
  "wfj_EventCloseContract m \<longleftrightarrow> whole (EventCloseContract.contractId m)"

subsection \<open>EventValidatorPayout\<close>

record EventValidatorPayout =
  validator :: bytes
  reward :: jsstring

definition createBase_EventValidatorPayout :: EventValidatorPayout where
  "createBase_EventValidatorPayout = \<lparr>EventValidatorPayout.validator = [],
     EventValidatorPayout.reward = []\<rparr>"

definition encode_EventValidatorPayout :: "('w, 'r) wire \<Rightarrow> EventValidatorPayout \<Rightarrow> 'w \<Rightarrow> 'w result" where
  "encode_EventValidatorPayout L message = seqE
    [whenE (length (EventValidatorPayout.validator message) \<noteq> 0) (seqE [w_uint32 L 10, w_bytes L (EventValidatorPayout.validator message)]),
     whenE (EventValidatorPayout.reward message \<noteq> []) (seqE [w_uint32 L 18, w_string L (EventValidatorPayout.reward message)])]"

definition EventValidatorPayout_switch :: "('w, 'r) wire \<Rightarrow> u32 \<Rightarrow> EventValidatorPayout \<Rightarrow> (EventValidatorPayout, 'r) action" where
  "EventValidatorPayout_switch L tag message = js_switch (drop_bit 3 tag)
    [(1, when_tag tag 10 (readf (r_bytes L) (\<lambda>v. message\<lparr>EventValidatorPayout.validator := v\<rparr>))),
     (2, when_tag tag 18 (readf (r_string L) (\<lambda>v. message\<lparr>EventValidatorPayout.reward := v\<rparr>)))]
    break_out"

definition decode_EventValidatorPayout :: "('w, 'r) wire \<Rightarrow> 'r input \<Rightarrow> nat option \<Rightarrow> (EventValidatorPayout \<times> 'r) result" where
  "decode_EventValidatorPayout L = decode_msg L (EventValidatorPayout_switch L) createBase_EventValidatorPayout"

definition fromJSON_EventValidatorPayout :: "host \<Rightarrow> jsval \<Rightarrow> EventValidatorPayout result" where
  "fromJSON_EventValidatorPayout h object =
     bindE (fieldE object ''validator'' (bytesFromBase64 h) []) (\<lambda>v_validator.
     bindE (fieldE object ''reward'' (stringE h) []) (\<lambda>v_reward.
     Inr \<lparr>EventValidatorPayout.validator = v_validator, EventValidatorPayout.reward = v_reward\<rparr>))"

definition toJSON_EventValidatorPayout :: "host \<Rightarrow> EventValidatorPayout \<Rightarrow> jsval result" where
  "toJSON_EventValidatorPayout h message = objE
    [jfieldE (length (EventValidatorPayout.validator message) \<noteq> 0) ''validator'' (base64E h (EventValidatorPayout.validator message)),
     jfieldE (EventValidatorPayout.reward message \<noteq> []) ''reward'' (Inr (JString (EventValidatorPayout.reward message)))]"

record EventValidatorPayout_Partial =
  validator :: "bytes option"
  reward :: "jsstring option"

definition EventValidatorPayout_empty :: EventValidatorPayout_Partial where
  "EventValidatorPayout_empty = \<lparr>EventValidatorPayout_Partial.validator = None, EventValidatorPayout_Partial.reward = None\<rparr>"

definition fromPartial_EventValidatorPayout :: "EventValidatorPayout_Partial \<Rightarrow> EventValidatorPayout" where
  "fromPartial_EventValidatorPayout object = createBase_EventValidatorPayout\<lparr>EventValidatorPayout.validator := nullish (EventValidatorPayout_Partial.validator object) [],
     EventValidatorPayout.reward := nullish (EventValidatorPayout_Partial.reward object) []\<rparr>"

definition create_EventValidatorPayout :: "EventValidatorPayout_Partial option \<Rightarrow> EventValidatorPayout" where
  "create_EventValidatorPayout base = fromPartial_EventValidatorPayout (nullish base EventValidatorPayout_empty)"

text \<open>A partial message that sets every field.\<close>

definition partial_of_EventValidatorPayout :: "EventValidatorPayout \<Rightarrow> EventValidatorPayout_Partial" where
  "partial_of_EventValidatorPayout m =
     \<lparr>EventValidatorPayout_Partial.validator = Some (EventValidatorPayout.validator m),
      EventValidatorPayout_Partial.reward = Some (EventValidatorPayout.reward m)\<rparr>"

definition ok_EventValidatorPayout :: "EventValidatorPayout \<Rightarrow> bool" where
  "ok_EventValidatorPayout m \<longleftrightarrow> True"

definition wf_EventValidatorPayout :: "('w, 'r) wire \<Rightarrow> EventValidatorPayout \<Rightarrow> bool" where
  "wf_EventValidatorPayout L m \<longleftrightarrow> wire_bytes (EventValidatorPayout.validator m)
     \<and> wire_string (EventValidatorPayout.reward m)"

definition wfj_EventValidatorPayout :: "EventValidatorPayout \<Rightarrow> bool" where
  "wfj_EventValidatorPayout m \<longleftrightarrow> True"


section \<open>Encoding, decoding and JSON of these messages\<close>

lemma EventBondProvider_tags:
  "EventBondProvider_switch L 10 m = readf (r_bytes L) (\<lambda>v. m\<lparr>EventBondProvider.provider := v\<rparr>)"
  "EventBondProvider_switch L 18 m = readf (r_string L) (\<lambda>v. m\<lparr>EventBondProvider.service := v\<rparr>)"
  "EventBondProvider_switch L 26 m = readf (r_string L) (\<lambda>v. m\<lparr>EventBondProvider.bondRel := v\<rparr>)"
  "EventBondProvider_switch L 34 m = readf (r_string L) (\<lambda>v. m\<lparr>EventBondProvider.bondAbs := v\<rparr>)"
  by (simp_all add: EventBondProvider_switch_def when_tag_def)

lemma fromPartial_partial_of_EventBondProvider [simp]: "fromPartial_EventBondProvider (partial_of_EventBondProvider m) = m"
  by (simp add: fromPartial_EventBondProvider_def partial_of_EventBondProvider_def createBase_EventBondProvider_def partial_map_def option.map_comp o_def option.map_ident)

lemma create_EventBondProvider_None [simp]: "create_EventBondProvider None = createBase_EventBondProvider"
  by (simp add: create_EventBondProvider_def fromPartial_EventBondProvider_def EventBondProvider_empty_def createBase_EventBondProvider_def partial_map_def)

sublocale wire_laws \<subseteq> EventBondProvider_codec: message_codec L F out inp "encode_EventBondProvider L" "EventBondProvider_switch L" createBase_EventBondProvider "wf_EventBondProvider L"
proof unfold_locales
  show good: "good_sw (EventBondProvider_switch L)"
    unfolding EventBondProvider_switch_def by (intro good_swI fwd_rules)
  fix m assume "wf_EventBondProvider L m"
  then show "codes (EventBondProvider_switch L) (encode_EventBondProvider L m) createBase_EventBondProvider m"
    unfolding encode_EventBondProvider_def wf_EventBondProvider_def
    by (elim conjE)
      (rule codes_Cons codes_Nil [OF EventBondProvider.equality] codec_rules
        codes_when [where tag = 10 and u = EventBondProvider.provider_update and op = "r_bytes L", OF good]
        codes_when [where tag = 18 and u = EventBondProvider.service_update and op = "r_string L", OF good]
        codes_when [where tag = 26 and u = EventBondProvider.bondRel_update and op = "r_string L", OF good]
        codes_when [where tag = 34 and u = EventBondProvider.bondAbs_update and op = "r_string L", OF good]
      | assumption | (simp add: EventBondProvider_tags createBase_EventBondProvider_def; fail))+
qed

sublocale wire_laws \<subseteq> EventBondProvider_range: message_range L F out inp "EventBondProvider_switch L" createBase_EventBondProvider ok_EventBondProvider
proof unfold_locales
  show "ok_EventBondProvider createBase_EventBondProvider" by (simp add: ok_EventBondProvider_def createBase_EventBondProvider_def)
  fix m tag assume "ok_EventBondProvider m"
  then show "keeps ok_EventBondProvider (EventBondProvider_switch L tag m)"
    unfolding EventBondProvider_switch_def by - (rule range_rules | (simp add: ok_EventBondProvider_def; fail))+
qed

context wire_laws
begin

lemmas EventBondProvider_carries [codec_rules] =
  EventBondProvider_codec.opt_carries [folded decode_EventBondProvider_def] EventBondProvider_codec.list_carries [folded decode_EventBondProvider_def]

lemmas EventBondProvider_good [fwd_rules] = EventBondProvider_codec.op_good [folded decode_EventBondProvider_def]

lemmas EventBondProvider_yields [range_rules] = EventBondProvider_range.sub_range [folded decode_EventBondProvider_def]

lemmas EventBondProvider_roundtrip = EventBondProvider_codec.roundtrip [folded decode_EventBondProvider_def]

lemmas EventBondProvider_returns = EventBondProvider_codec.decode_returns [folded decode_EventBondProvider_def]

lemmas EventBondProvider_decoded = EventBondProvider_range.decode_range [folded decode_EventBondProvider_def]

end

interpretation EventBondProvider_json: message_json toJSON_EventBondProvider fromJSON_EventBondProvider wfj_EventBondProvider
proof unfold_locales
  fix h m
  assume "wfj_EventBondProvider m"
  then show "json_rt (toJSON_EventBondProvider h) (fromJSON_EventBondProvider h) m"
    unfolding toJSON_EventBondProvider_def fromJSON_EventBondProvider_def wfj_EventBondProvider_def
    by (-) (rule json_rtI json_rules | assumption | (simp; fail))+
qed

lemmas EventBondProvider_json_rules [json_rules] = EventBondProvider_json.json_field_rules

lemma EventModProvider_tags:
  "EventModProvider_switch L 10 m = readf (r_bytes L) (\<lambda>v. m\<lparr>EventModProvider.creator := v\<rparr>)"
  "EventModProvider_switch L 18 m = readf (r_bytes L) (\<lambda>v. m\<lparr>EventModProvider.provider := v\<rparr>)"
  "EventModProvider_switch L 26 m = readf (r_string L) (\<lambda>v. m\<lparr>EventModProvider.service := v\<rparr>)"
  "EventModProvider_switch L 34 m = readf (r_string L) (\<lambda>v. m\<lparr>EventModProvider.metadataUri := v\<rparr>)"
  "EventModProvider_switch L 40 m = readf (num64 (r_uint64 L)) (\<lambda>v. m\<lparr>EventModProvider.metadataNonce := v\<rparr>)"
  "EventModProvider_switch L 48 m = readf (num32 (r_int32 L)) (\<lambda>v. m\<lparr>EventModProvider.status := v\<rparr>)"
  "EventModProvider_switch L 56 m = readf (num64 (r_int64 L)) (\<lambda>v. m\<lparr>EventModProvider.minContractDuration := v\<rparr>)"
  "EventModProvider_switch L 64 m = readf (num64 (r_int64 L)) (\<lambda>v. m\<lparr>EventModProvider.maxContractDuration := v\<rparr>)"
  "EventModProvider_switch L 74 m = readf (submsg L (decode_Coin L)) (\<lambda>v. m\<lparr>EventModProvider.subscriptionRate := EventModProvider.subscriptionRate m @ [v]\<rparr>)"
  "EventModProvider_switch L 82 m = readf (submsg L (decode_Coin L)) (\<lambda>v. m\<lparr>EventModProvider.payAsYouGoRate := EventModProvider.payAsYouGoRate m @ [v]\<rparr>)"
  "EventModProvider_switch L 90 m = readf (r_string L) (\<lambda>v. m\<lparr>EventModProvider.bond := v\<rparr>)"
  "EventModProvider_switch L 96 m = readf (num64 (r_int64 L)) (\<lambda>v. m\<lparr>EventModProvider.settlementDuration := v\<rparr>)"
  by (simp_all add: EventModProvider_switch_def when_tag_def)

lemma fromPartial_partial_of_EventModProvider [simp]: "fromPartial_EventModProvider (partial_of_EventModProvider m) = m"
  by (simp add: fromPartial_EventModProvider_def partial_of_EventModProvider_def createBase_EventModProvider_def partial_map_def option.map_comp o_def option.map_ident)

lemma create_EventModProvider_None [simp]: "create_EventModProvider None = createBase_EventModProvider"
  by (simp add: create_EventModProvider_def fromPartial_EventModProvider_def EventModProvider_empty_def createBase_EventModProvider_def partial_map_def)

sublocale wire_laws \<subseteq> EventModProvider_codec: message_codec L F out inp "encode_EventModProvider L" "EventModProvider_switch L" createBase_EventModProvider "wf_EventModProvider L"
proof unfold_locales
  show good: "good_sw (EventModProvider_switch L)"
    unfolding EventModProvider_switch_def by (intro good_swI fwd_rules)
  fix m assume "wf_EventModProvider L m"
  then show "codes (EventModProvider_switch L) (encode_EventModProvider L m) createBase_EventModProvider m"
    unfolding encode_EventModProvider_def wf_EventModProvider_def
    by (elim conjE)
      (rule codes_Cons codes_Nil [OF EventModProvider.equality] codec_rules
        codes_when [where tag = 10 and u = EventModProvider.creator_update and op = "r_bytes L", OF good]
        codes_when [where tag = 18 and u = EventModProvider.provider_update and op = "r_bytes L", OF good]
        codes_when [where tag = 26 and u = EventModProvider.service_update and op = "r_string L", OF good]
        codes_when [where tag = 34 and u = EventModProvider.metadataUri_update and op = "r_string L", OF good]
        codes_when [where tag = 40 and u = EventModProvider.metadataNonce_update and op = "num64 (r_uint64 L)", OF good]
        codes_when [where tag = 48 and u = EventModProvider.status_update and op = "num32 (r_int32 L)", OF good]
        codes_when [where tag = 56 and u = EventModProvider.minContractDuration_update and op = "num64 (r_int64 L)", OF good]
        codes_when [where tag = 64 and u = EventModProvider.maxContractDuration_update and op = "num64 (r_int64 L)", OF good]
        codes_for [where tag = 74 and u = EventModProvider.subscriptionRate_update and op = "submsg L (decode_Coin L)", OF good]
        codes_for [where tag = 82 and u = EventModProvider.payAsYouGoRate_update and op = "submsg L (decode_Coin L)", OF good]
        codes_when [where tag = 90 and u = EventModProvider.bond_update and op = "r_string L", OF good]
        codes_when [where tag = 96 and u = EventModProvider.settlementDuration_update and op = "num64 (r_int64 L)", OF good]
      | assumption | (simp add: EventModProvider_tags createBase_EventModProvider_def; fail))+
qed

sublocale wire_laws \<subseteq> EventModProvider_range: message_range L F out inp "EventModProvider_switch L" createBase_EventModProvider ok_EventModProvider
proof unfold_locales
  show "ok_EventModProvider createBase_EventModProvider" by (simp add: ok_EventModProvider_def createBase_EventModProvider_def)
  fix m tag assume "ok_EventModProvider m"
  then show "keeps ok_EventModProvider (EventModProvider_switch L tag m)"
    unfolding EventModProvider_switch_def by - (rule range_rules | (simp add: ok_EventModProvider_def; fail))+
qed

context wire_laws
begin

lemmas EventModProvider_carries [codec_rules] =
  EventModProvider_codec.opt_carries [folded decode_EventModProvider_def] EventModProvider_codec.list_carries [folded decode_EventModProvider_def]

lemmas EventModProvider_good [fwd_rules] = EventModProvider_codec.op_good [folded decode_EventModProvider_def]

lemmas EventModProvider_yields [range_rules] = EventModProvider_range.sub_range [folded decode_EventModProvider_def]

lemmas EventModProvider_roundtrip = EventModProvider_codec.roundtrip [folded decode_EventModProvider_def]

lemmas EventModProvider_returns = EventModProvider_codec.decode_returns [folded decode_EventModProvider_def]

lemmas EventModProvider_decoded = EventModProvider_range.decode_range [folded decode_EventModProvider_def]

end

interpretation EventModProvider_json: message_json toJSON_EventModProvider fromJSON_EventModProvider wfj_EventModProvider
proof unfold_locales
  fix h m
  assume "wfj_EventModProvider m"
  then show "json_rt (toJSON_EventModProvider h) (fromJSON_EventModProvider h) m"
    unfolding toJSON_EventModProvider_def fromJSON_EventModProvider_def wfj_EventModProvider_def
    by (elim conjE) (rule json_rtI json_rules | assumption | (simp; fail))+
qed

lemmas EventModProvider_json_rules [json_rules] = EventModProvider_json.json_field_rules

lemma EventOpenContract_tags:
  "EventOpenContract_switch L 10 m = readf (r_bytes L) (\<lambda>v. m\<lparr>EventOpenContract.provider := v\<rparr>)"
  "EventOpenContract_switch L 16 m = readf (num64 (r_uint64 L)) (\<lambda>v. m\<lparr>EventOpenContract.contractId := v\<rparr>)"
  "EventOpenContract_switch L 26 m = readf (r_string L) (\<lambda>v. m\<lparr>EventOpenContract.service := v\<rparr>)"
  "EventOpenContract_switch L 34 m = readf (r_bytes L) (\<lambda>v. m\<lparr>EventOpenContract.client := v\<rparr>)"
  "EventOpenContract_switch L 42 m = readf (r_bytes L) (\<lambda>v. m\<lparr>EventOpenContract.delegate := v\<rparr>)"
  "EventOpenContract_switch L 48 m = readf (num32 (r_int32 L)) (\<lambda>v. m\<lparr>EventOpenContract.type' := v\<rparr>)"
  "EventOpenContract_switch L 56 m = readf (num64 (r_int64 L)) (\<lambda>v. m\<lparr>EventOpenContract.height := v\<rparr>)"
  "EventOpenContract_switch L 64 m = readf (num64 (r_int64 L)) (\<lambda>v. m\<lparr>EventOpenContract.duration := v\<rparr>)"
  "EventOpenContract_switch L 74 m = readf (submsg L (decode_Coin L)) (\<lambda>v. m\<lparr>EventOpenContract.rate := Some v\<rparr>)"
  "EventOpenContract_switch L 80 m = readf (num64 (r_int64 L)) (\<lambda>v. m\<lparr>EventOpenContract.openCost := v\<rparr>)"
  "EventOpenContract_switch L 90 m = readf (r_string L) (\<lambda>v. m\<lparr>EventOpenContract.deposit := v\<rparr>)"
  "EventOpenContract_switch L 96 m = readf (num64 (r_int64 L)) (\<lambda>v. m\<lparr>EventOpenContract.settlementDuration := v\<rparr>)"
  "EventOpenContract_switch L 104 m = readf (num32 (r_int32 L)) (\<lambda>v. m\<lparr>EventOpenContract.authorization := v\<rparr>)"
  "EventOpenContract_switch L 112 m = readf (num64 (r_int64 L)) (\<lambda>v. m\<lparr>EventOpenContract.queriesPerMinute := v\<rparr>)"
  "EventOpenContract_switch L 120 m = readf (num64 (r_int64 L)) (\<lambda>v. m\<lparr>EventOpenContract.settlementHeight := v\<rparr>)"
  by (simp_all add: EventOpenContract_switch_def when_tag_def)

lemma fromPartial_partial_of_EventOpenContract [simp]: "fromPartial_EventOpenContract (partial_of_EventOpenContract m) = m"
  by (simp add: fromPartial_EventOpenContract_def partial_of_EventOpenContract_def createBase_EventOpenContract_def partial_map_def option.map_comp o_def option.map_ident)

lemma create_EventOpenContract_None [simp]: "create_EventOpenContract None = createBase_EventOpenContract"
  by (simp add: create_EventOpenContract_def fromPartial_EventOpenContract_def EventOpenContract_empty_def createBase_EventOpenContract_def partial_map_def)

sublocale wire_laws \<subseteq> EventOpenContract_codec: message_codec L F out inp "encode_EventOpenContract L" "EventOpenContract_switch L" createBase_EventOpenContract "wf_EventOpenContract L"
proof unfold_locales
  show good: "good_sw (EventOpenContract_switch L)"
    unfolding EventOpenContract_switch_def by (intro good_swI fwd_rules)
  fix m assume "wf_EventOpenContract L m"
  then show "codes (EventOpenContract_switch L) (encode_EventOpenContract L m) createBase_EventOpenContract m"
    unfolding encode_EventOpenContract_def wf_EventOpenContract_def
    by (elim conjE)
      (rule codes_Cons codes_Nil [OF EventOpenContract.equality] codec_rules
        codes_when [where tag = 10 and u = EventOpenContract.provider_update and op = "r_bytes L", OF good]
        codes_when [where tag = 16 and u = EventOpenContract.contractId_update and op = "num64 (r_uint64 L)", OF good]
        codes_when [where tag = 26 and u = EventOpenContract.service_update and op = "r_string L", OF good]
        codes_when [where tag = 34 and u = EventOpenContract.client_update and op = "r_bytes L", OF good]
        codes_when [where tag = 42 and u = EventOpenContract.delegate_update and op = "r_bytes L", OF good]
        codes_when [where tag = 48 and u = EventOpenContract.type'_update and op = "num32 (r_int32 L)", OF good]
        codes_when [where tag = 56 and u = EventOpenContract.height_update and op = "num64 (r_int64 L)", OF good]
        codes_when [where tag = 64 and u = EventOpenContract.duration_update and op = "num64 (r_int64 L)", OF good]
        codes_some [where tag = 74 and u = EventOpenContract.rate_update and op = "submsg L (decode_Coin L)", OF good]
        codes_when [where tag = 80 and u = EventOpenContract.openCost_update and op = "num64 (r_int64 L)", OF good]
        codes_when [where tag = 90 and u = EventOpenContract.deposit_update and op = "r_string L", OF good]
        codes_when [where tag = 96 and u = EventOpenContract.settlementDuration_update and op = "num64 (r_int64 L)", OF good]
        codes_when [where tag = 104 and u = EventOpenContract.authorization_update and op = "num32 (r_int32 L)", OF good]
        codes_when [where tag = 112 and u = EventOpenContract.queriesPerMinute_update and op = "num64 (r_int64 L)", OF good]
        codes_when [where tag = 120 and u = EventOpenContract.settlementHeight_update and op = "num64 (r_int64 L)", OF good]
      | assumption | (simp add: EventOpenContract_tags createBase_EventOpenContract_def; fail))+
qed

sublocale wire_laws \<subseteq> EventOpenContract_range: message_range L F out inp "EventOpenContract_switch L" createBase_EventOpenContract ok_EventOpenContract
proof unfold_locales
  show "ok_EventOpenContract createBase_EventOpenContract" by (simp add: ok_EventOpenContract_def createBase_EventOpenContract_def)
  fix m tag assume "ok_EventOpenContract m"
  then show "keeps ok_EventOpenContract (EventOpenContract_switch L tag m)"
    unfolding EventOpenContract_switch_def by - (rule range_rules | (simp add: ok_EventOpenContract_def; fail))+
qed

context wire_laws
begin

lemmas EventOpenContract_carries [codec_rules] =
  EventOpenContract_codec.opt_carries [folded decode_EventOpenContract_def] EventOpenContract_codec.list_carries [folded decode_EventOpenContract_def]

lemmas EventOpenContract_good [fwd_rules] = EventOpenContract_codec.op_good [folded decode_EventOpenContract_def]

lemmas EventOpenContract_yields [range_rules] = EventOpenContract_range.sub_range [folded decode_EventOpenContract_def]

lemmas EventOpenContract_roundtrip = EventOpenContract_codec.roundtrip [folded decode_EventOpenContract_def]

lemmas EventOpenContract_returns = EventOpenContract_codec.decode_returns [folded decode_EventOpenContract_def]

lemmas EventOpenContract_decoded = EventOpenContract_range.decode_range [folded decode_EventOpenContract_def]

end

interpretation EventOpenContract_json: message_json toJSON_EventOpenContract fromJSON_EventOpenContract wfj_EventOpenContract
proof unfold_locales
  fix h m
  assume "wfj_EventOpenContract m"
  then show "json_rt (toJSON_EventOpenContract h) (fromJSON_EventOpenContract h) m"
    unfolding toJSON_EventOpenContract_def fromJSON_EventOpenContract_def wfj_EventOpenContract_def
    by (elim conjE) (rule json_rtI json_rules | assumption | (simp; fail))+
qed

lemmas EventOpenContract_json_rules [json_rules] = EventOpenContract_json.json_field_rules

lemma EventSettleContract_tags:
  "EventSettleContract_switch L 10 m = readf (r_bytes L) (\<lambda>v. m\<lparr>EventSettleContract.provider := v\<rparr>)"
  "EventSettleContract_switch L 16 m = readf (num64 (r_uint64 L)) (\<lambda>v. m\<lparr>EventSettleContract.contractId := v\<rparr>)"
  "EventSettleContract_switch L 26 m = readf (r_string L) (\<lambda>v. m\<lparr>EventSettleContract.service := v\<rparr>)"
  "EventSettleContract_switch L 34 m = readf (r_bytes L) (\<lambda>v. m\<lparr>EventSettleContract.client := v\<rparr>)"
  "EventSettleContract_switch L 42 m = readf (r_bytes L) (\<lambda>v. m\<lparr>EventSettleContract.delegate := v\<rparr>)"
  "EventSettleContract_switch L 48 m = readf (num32 (r_int32 L)) (\<lambda>v. m\<lparr>EventSettleContract.type' := v\<rparr>)"
  "EventSettleContract_switch L 56 m = readf (num64 (r_int64 L)) (\<lambda>v. m\<lparr>EventSettleContract.nonce := v\<rparr>)"
  "EventSettleContract_switch L 64 m = readf (num64 (r_int64 L)) (\<lambda>v. m\<lparr>EventSettleContract.height := v\<rparr>)"
  "EventSettleContract_switch L 74 m = readf (r_string L) (\<lambda>v. m\<lparr>EventSettleContract.paid := v\<rparr>)"
  "EventSettleContract_switch L 82 m = readf (r_string L) (\<lambda>v. m\<lparr>EventSettleContract.reserve := v\<rparr>)"
  by (simp_all add: EventSettleContract_switch_def when_tag_def)

lemma fromPartial_partial_of_EventSettleContract [simp]: "fromPartial_EventSettleContract (partial_of_EventSettleContract m) = m"
  by (simp add: fromPartial_EventSettleContract_def partial_of_EventSettleContract_def createBase_EventSettleContract_def partial_map_def option.map_comp o_def option.map_ident)

lemma create_EventSettleContract_None [simp]: "create_EventSettleContract None = createBase_EventSettleContract"
  by (simp add: create_EventSettleContract_def fromPartial_EventSettleContract_def EventSettleContract_empty_def createBase_EventSettleContract_def partial_map_def)

sublocale wire_laws \<subseteq> EventSettleContract_codec: message_codec L F out inp "encode_EventSettleContract L" "EventSettleContract_switch L" createBase_EventSettleContract "wf_EventSettleContract L"
proof unfold_locales
  show good: "good_sw (EventSettleContract_switch L)"
    unfolding EventSettleContract_switch_def by (intro good_swI fwd_rules)
  fix m assume "wf_EventSettleContract L m"
  then show "codes (EventSettleContract_switch L) (encode_EventSettleContract L m) createBase_EventSettleContract m"
    unfolding encode_EventSettleContract_def wf_EventSettleContract_def
    by (elim conjE)
      (rule codes_Cons codes_Nil [OF EventSettleContract.equality] codec_rules
        codes_when [where tag = 10 and u = EventSettleContract.provider_update and op = "r_bytes L", OF good]
        codes_when [where tag = 16 and u = EventSettleContract.contractId_update and op = "num64 (r_uint64 L)", OF good]
        codes_when [where tag = 26 and u = EventSettleContract.service_update and op = "r_string L", OF good]
        codes_when [where tag = 34 and u = EventSettleContract.client_update and op = "r_bytes L", OF good]
        codes_when [where tag = 42 and u = EventSettleContract.delegate_update and op = "r_bytes L", OF good]
        codes_when [where tag = 48 and u = EventSettleContract.type'_update and op = "num32 (r_int32 L)", OF good]
        codes_when [where tag = 56 and u = EventSettleContract.nonce_update and op = "num64 (r_int64 L)", OF good]
        codes_when [where tag = 64 and u = EventSettleContract.height_update and op = "num64 (r_int64 L)", OF good]
        codes_when [where tag = 74 and u = EventSettleContract.paid_update and op = "r_string L", OF good]
        codes_when [where tag = 82 and u = EventSettleContract.reserve_update and op = "r_string L", OF good]
      | assumption | (simp add: EventSettleContract_tags createBase_EventSettleContract_def; fail))+
qed

sublocale wire_laws \<subseteq> EventSettleContract_range: message_range L F out inp "EventSettleContract_switch L" createBase_EventSettleContract ok_EventSettleContract
proof unfold_locales
  show "ok_EventSettleContract createBase_EventSettleContract" by (simp add: ok_EventSettleContract_def createBase_EventSettleContract_def)
  fix m tag assume "ok_EventSettleContract m"
  then show "keeps ok_EventSettleContract (EventSettleContract_switch L tag m)"
    unfolding EventSettleContract_switch_def by - (rule range_rules | (simp add: ok_EventSettleContract_def; fail))+
qed

context wire_laws
begin

lemmas EventSettleContract_carries [codec_rules] =
  EventSettleContract_codec.opt_carries [folded decode_EventSettleContract_def] EventSettleContract_codec.list_carries [folded decode_EventSettleContract_def]

lemmas EventSettleContract_good [fwd_rules] = EventSettleContract_codec.op_good [folded decode_EventSettleContract_def]

lemmas EventSettleContract_yields [range_rules] = EventSettleContract_range.sub_range [folded decode_EventSettleContract_def]

lemmas EventSettleContract_roundtrip = EventSettleContract_codec.roundtrip [folded decode_EventSettleContract_def]

lemmas EventSettleContract_returns = EventSettleContract_codec.decode_returns [folded decode_EventSettleContract_def]

lemmas EventSettleContract_decoded = EventSettleContract_range.decode_range [folded decode_EventSettleContract_def]

end

interpretation EventSettleContract_json: message_json toJSON_EventSettleContract fromJSON_EventSettleContract wfj_EventSettleContract
proof unfold_locales
  fix h m
  assume "wfj_EventSettleContract m"
  then show "json_rt (toJSON_EventSettleContract h) (fromJSON_EventSettleContract h) m"
    unfolding toJSON_EventSettleContract_def fromJSON_EventSettleContract_def wfj_EventSettleContract_def
    by (elim conjE) (rule json_rtI json_rules | assumption | (simp; fail))+
qed

lemmas EventSettleContract_json_rules [json_rules] = EventSettleContract_json.json_field_rules

lemma EventCloseContract_tags:
  "EventCloseContract_switch L 8 m = readf (num64 (r_uint64 L)) (\<lambda>v. m\<lparr>EventCloseContract.contractId := v\<rparr>)"
  "EventCloseContract_switch L 18 m = readf (r_bytes L) (\<lambda>v. m\<lparr>EventCloseContract.provider := v\<rparr>)"
  "EventCloseContract_switch L 26 m = readf (r_string L) (\<lambda>v. m\<lparr>EventCloseContract.service := v\<rparr>)"
  "EventCloseContract_switch L 34 m = readf (r_bytes L) (\<lambda>v. m\<lparr>EventCloseContract.client := v\<rparr>)"
  "EventCloseContract_switch L 42 m = readf (r_bytes L) (\<lambda>v. m\<lparr>EventCloseContract.delegate := v\<rparr>)"
  by (simp_all add: EventCloseContract_switch_def when_tag_def)

lemma fromPartial_partial_of_EventCloseContract [simp]: "fromPartial_EventCloseContract (partial_of_EventCloseContract m) = m"
  by (simp add: fromPartial_EventCloseContract_def partial_of_EventCloseContract_def createBase_EventCloseContract_def partial_map_def option.map_comp o_def option.map_ident)

lemma create_EventCloseContract_None [simp]: "create_EventCloseContract None = createBase_EventCloseContract"
  by (simp add: create_EventCloseContract_def fromPartial_EventCloseContract_def EventCloseContract_empty_def createBase_EventCloseContract_def partial_map_def)

sublocale wire_laws \<subseteq> EventCloseContract_codec: message_codec L F out inp "encode_EventCloseContract L" "EventCloseContract_switch L" createBase_EventCloseContract "wf_EventCloseContract L"
proof unfold_locales
  show good: "good_sw (EventCloseContract_switch L)"
    unfolding EventCloseContract_switch_def by (intro good_swI fwd_rules)
  fix m assume "wf_EventCloseContract L m"
  then show "codes (EventCloseContract_switch L) (encode_EventCloseContract L m) createBase_EventCloseContract m"
    unfolding encode_EventCloseContract_def wf_EventCloseContract_def
    by (elim conjE)
      (rule codes_Cons codes_Nil [OF EventCloseContract.equality] codec_rules
        codes_when [where tag = 8 and u = EventCloseContract.contractId_update and op = "num64 (r_uint64 L)", OF good]
        codes_when [where tag = 18 and u = EventCloseContract.provider_update and op = "r_bytes L", OF good]
        codes_when [where tag = 26 and u = EventCloseContract.service_update and op = "r_string L", OF good]
        codes_when [where tag = 34 and u = EventCloseContract.client_update and op = "r_bytes L", OF good]
        codes_when [where tag = 42 and u = EventCloseContract.delegate_update and op = "r_bytes L", OF good]
      | assumption | (simp add: EventCloseContract_tags createBase_EventCloseContract_def; fail))+
qed

sublocale wire_laws \<subseteq> EventCloseContract_range: message_range L F out inp "EventCloseContract_switch L" createBase_EventCloseContract ok_EventCloseContract
proof unfold_locales
  show "ok_EventCloseContract createBase_EventCloseContract" by (simp add: ok_EventCloseContract_def createBase_EventCloseContract_def)
  fix m tag assume "ok_EventCloseContract m"
  then show "keeps ok_EventCloseContract (EventCloseContract_switch L tag m)"
    unfolding EventCloseContract_switch_def by - (rule range_rules | (simp add: ok_EventCloseContract_def; fail))+
qed

context wire_laws
begin

lemmas EventCloseContract_carries [codec_rules] =
  EventCloseContract_codec.opt_carries [folded decode_EventCloseContract_def] EventCloseContract_codec.list_carries [folded decode_EventCloseContract_def]

lemmas EventCloseContract_good [fwd_rules] = EventCloseContract_codec.op_good [folded decode_EventCloseContract_def]

lemmas EventCloseContract_yields [range_rules] = EventCloseContract_range.sub_range [folded decode_EventCloseContract_def]

lemmas EventCloseContract_roundtrip = EventCloseContract_codec.roundtrip [folded decode_EventCloseContract_def]

lemmas EventCloseContract_returns = EventCloseContract_codec.decode_returns [folded decode_EventCloseContract_def]

lemmas EventCloseContract_decoded = EventCloseContract_range.decode_range [folded decode_EventCloseContract_def]

end

interpretation EventCloseContract_json: message_json toJSON_EventCloseContract fromJSON_EventCloseContract wfj_EventCloseContract
proof unfold_locales
  fix h m
  assume "wfj_EventCloseContract m"
  then show "json_rt (toJSON_EventCloseContract h) (fromJSON_EventCloseContract h) m"
    unfolding toJSON_EventCloseContract_def fromJSON_EventCloseContract_def wfj_EventCloseContract_def
    by (-) (rule json_rtI json_rules | assumption | (simp; fail))+
qed

lemmas EventCloseContract_json_rules [json_rules] = EventCloseContract_json.json_field_rules

lemma EventValidatorPayout_tags:
  "EventValidatorPayout_switch L 10 m = readf (r_bytes L) (\<lambda>v. m\<lparr>EventValidatorPayout.validator := v\<rparr>)"
  "EventValidatorPayout_switch L 18 m = readf (r_string L) (\<lambda>v. m\<lparr>EventValidatorPayout.reward := v\<rparr>)"
  by (simp_all add: EventValidatorPayout_switch_def when_tag_def)

lemma fromPartial_partial_of_EventValidatorPayout [simp]: "fromPartial_EventValidatorPayout (partial_of_EventValidatorPayout m) = m"
  by (simp add: fromPartial_EventValidatorPayout_def partial_of_EventValidatorPayout_def createBase_EventValidatorPayout_def partial_map_def option.map_comp o_def option.map_ident)

lemma create_EventValidatorPayout_None [simp]: "create_EventValidatorPayout None = createBase_EventValidatorPayout"
  by (simp add: create_EventValidatorPayout_def fromPartial_EventValidatorPayout_def EventValidatorPayout_empty_def createBase_EventValidatorPayout_def partial_map_def)

sublocale wire_laws \<subseteq> EventValidatorPayout_codec: message_codec L F out inp "encode_EventValidatorPayout L" "EventValidatorPayout_switch L" createBase_EventValidatorPayout "wf_EventValidatorPayout L"
proof unfold_locales
  show good: "good_sw (EventValidatorPayout_switch L)"
    unfolding EventValidatorPayout_switch_def by (intro good_swI fwd_rules)
  fix m assume "wf_EventValidatorPayout L m"
  then show "codes (EventValidatorPayout_switch L) (encode_EventValidatorPayout L m) createBase_EventValidatorPayout m"
    unfolding encode_EventValidatorPayout_def wf_EventValidatorPayout_def
    by (elim conjE)
      (rule codes_Cons codes_Nil [OF EventValidatorPayout.equality] codec_rules
        codes_when [where tag = 10 and u = EventValidatorPayout.validator_update and op = "r_bytes L", OF good]
        codes_when [where tag = 18 and u = EventValidatorPayout.reward_update and op = "r_string L", OF good]
      | assumption | (simp add: EventValidatorPayout_tags createBase_EventValidatorPayout_def; fail))+
qed

sublocale wire_laws \<subseteq> EventValidatorPayout_range: message_range L F out inp "EventValidatorPayout_switch L" createBase_EventValidatorPayout ok_EventValidatorPayout
proof unfold_locales
  show "ok_EventValidatorPayout createBase_EventValidatorPayout" by (simp add: ok_EventValidatorPayout_def createBase_EventValidatorPayout_def)
  fix m tag assume "ok_EventValidatorPayout m"
  then show "keeps ok_EventValidatorPayout (EventValidatorPayout_switch L tag m)"
    unfolding EventValidatorPayout_switch_def by - (rule range_rules | (simp add: ok_EventValidatorPayout_def; fail))+
qed

context wire_laws
begin

lemmas EventValidatorPayout_carries [codec_rules] =
  EventValidatorPayout_codec.opt_carries [folded decode_EventValidatorPayout_def] EventValidatorPayout_codec.list_carries [folded decode_EventValidatorPayout_def]

lemmas EventValidatorPayout_good [fwd_rules] = EventValidatorPayout_codec.op_good [folded decode_EventValidatorPayout_def]

lemmas EventValidatorPayout_yields [range_rules] = EventValidatorPayout_range.sub_range [folded decode_EventValidatorPayout_def]

lemmas EventValidatorPayout_roundtrip = EventValidatorPayout_codec.roundtrip [folded decode_EventValidatorPayout_def]

lemmas EventValidatorPayout_returns = EventValidatorPayout_codec.decode_returns [folded decode_EventValidatorPayout_def]

lemmas EventValidatorPayout_decoded = EventValidatorPayout_range.decode_range [folded decode_EventValidatorPayout_def]

end

interpretation EventValidatorPayout_json: message_json toJSON_EventValidatorPayout fromJSON_EventValidatorPayout wfj_EventValidatorPayout
proof unfold_locales
  fix h m
  assume "wfj_EventValidatorPayout m"
  then show "json_rt (toJSON_EventValidatorPayout h) (fromJSON_EventValidatorPayout h) m"
    unfolding toJSON_EventValidatorPayout_def fromJSON_EventValidatorPayout_def wfj_EventValidatorPayout_def
    by (-) (rule json_rtI json_rules | assumption | (simp; fail))+
qed

lemmas EventValidatorPayout_json_rules [json_rules] = EventValidatorPayout_json.json_field_rules


end
