(* ===== verification/GenesisMsgs.thy ===== *)
theory GenesisMsgs
  imports KeeperMsgs MiscMsgs
begin

text \<open>
  The genesis state of the arkeo module (\<open>arkeo/arkeo/genesis.ts\<close>).
\<close>


section \<open>arkeo/arkeo/genesis.ts\<close>

subsection \<open>ValidatorVersion\<close>

record ValidatorVersion =
  validatorAddress :: jsstring
  version :: number

definition createBase_ValidatorVersion :: ValidatorVersion where
  "createBase_ValidatorVersion = \<lparr>ValidatorVersion.validatorAddress = [],
     ValidatorVersion.version = Num 0\<rparr>"

definition encode_ValidatorVersion :: "('w, 'r) wire \<Rightarrow> ValidatorVersion \<Rightarrow> 'w \<Rightarrow> 'w result" where
  "encode_ValidatorVersion L message = seqE
    [whenE (ValidatorVersion.validatorAddress message \<noteq> []) (seqE [w_uint32 L 10, w_string L (ValidatorVersion.validatorAddress message)]),
     whenE (ValidatorVersion.version message \<noteq> Num 0) (seqE [w_uint32 L 16, w_int64 L (ValidatorVersion.version message)])]"

definition ValidatorVersion_switch :: "('w, 'r) wire \<Rightarrow> u32 \<Rightarrow> ValidatorVersion \<Rightarrow> (ValidatorVersion, 'r) action" where
  "ValidatorVersion_switch L tag message = js_switch (drop_bit 3 tag)
    [(1, when_tag tag 10 (readf (r_string L) (\<lambda>v. message\<lparr>ValidatorVersion.validatorAddress := v\<rparr>))),
     (2, when_tag tag 16 (readf (num64 (r_int64 L)) (\<lambda>v. message\<lparr>ValidatorVersion.version := v\<rparr>)))]
    break_out"

definition decode_ValidatorVersion :: "('w, 'r) wire \<Rightarrow> 'r input \<Rightarrow> nat option \<Rightarrow> (ValidatorVersion \<times> 'r) result" where
  "decode_ValidatorVersion L = decode_msg L (ValidatorVersion_switch L) createBase_ValidatorVersion"

definition fromJSON_ValidatorVersion :: "host \<Rightarrow> jsval \<Rightarrow> ValidatorVersion result" where
  "fromJSON_ValidatorVersion h object =
     bindE (fieldE object ''validatorAddress'' (stringE h) []) (\<lambda>v_validatorAddress.
     bindE (fieldE object ''version'' (numberE h) (Num 0)) (\<lambda>v_version.
     Inr \<lparr>ValidatorVersion.validatorAddress = v_validatorAddress, ValidatorVersion.version = v_version\<rparr>))"

definition toJSON_ValidatorVersion :: "host \<Rightarrow> ValidatorVersion \<Rightarrow> jsval result" where
  "toJSON_ValidatorVersion h message = objE
    [jfieldE (ValidatorVersion.validatorAddress message \<noteq> []) ''validatorAddress'' (Inr (JString (ValidatorVersion.validatorAddress message))),
     jfieldE (ValidatorVersion.version message \<noteq> Num 0) ''version'' (Inr (JNumber (Math_round (ValidatorVersion.version message))))]"

record ValidatorVersion_Partial =
  validatorAddress :: "jsstring option"
  version :: "number option"

definition ValidatorVersion_empty :: ValidatorVersion_Partial where
  "ValidatorVersion_empty = \<lparr>ValidatorVersion_Partial.validatorAddress = None, ValidatorVersion_Partial.version = None\<rparr>"

definition fromPartial_ValidatorVersion :: "ValidatorVersion_Partial \<Rightarrow> ValidatorVersion" where
  "fromPartial_ValidatorVersion object = createBase_ValidatorVersion\<lparr>ValidatorVersion.validatorAddress := nullish (ValidatorVersion_Partial.validatorAddress object) [],
     ValidatorVersion.version := nullish (ValidatorVersion_Partial.version object) (Num 0)\<rparr>"

definition create_ValidatorVersion :: "ValidatorVersion_Partial option \<Rightarrow> ValidatorVersion" where
  "create_ValidatorVersion base = fromPartial_ValidatorVersion (nullish base ValidatorVersion_empty)"

text \<open>A partial message that sets every field.\<close>

definition partial_of_ValidatorVersion :: "ValidatorVersion \<Rightarrow> ValidatorVersion_Partial" where
  "partial_of_ValidatorVersion m =
     \<lparr>ValidatorVersion_Partial.validatorAddress = Some (ValidatorVersion.validatorAddress m),
      ValidatorVersion_Partial.version = Some (ValidatorVersion.version m)\<rparr>"

definition ok_ValidatorVersion :: "ValidatorVersion \<Rightarrow> bool" where
  "ok_ValidatorVersion m \<longleftrightarrow> safe_int (ValidatorVersion.version m)"

definition wf_ValidatorVersion :: "('w, 'r) wire \<Rightarrow> ValidatorVersion \<Rightarrow> bool" where
  "wf_ValidatorVersion L m \<longleftrightarrow> wire_string (ValidatorVersion.validatorAddress m)
     \<and> safe_int (ValidatorVersion.version m)"

definition wfj_ValidatorVersion :: "ValidatorVersion \<Rightarrow> bool" where
  "wfj_ValidatorVersion m \<longleftrightarrow> whole (ValidatorVersion.version m)"

subsection \<open>GenesisState\<close>

record GenesisState =
  params :: "Params option"
  providers :: "Provider list"
  contracts :: "Contract list"
  nextContractId :: number
  contractExpirationSets :: "ContractExpirationSet list"
  userContractSets :: "UserContractSet list"
  version :: number
  validatorVersions :: "ValidatorVersion list"
  services :: "Service list"

definition createBase_GenesisState :: GenesisState where
  "createBase_GenesisState = \<lparr>GenesisState.params = None,
     GenesisState.providers = [],
     GenesisState.contracts = [],
     GenesisState.nextContractId = Num 0,
     GenesisState.contractExpirationSets = [],
     GenesisState.userContractSets = [],
     GenesisState.version = Num 0,
     GenesisState.validatorVersions = [],
     GenesisState.services = []\<rparr>"

definition encode_GenesisState :: "('w, 'r) wire \<Rightarrow> GenesisState \<Rightarrow> 'w \<Rightarrow> 'w result" where
  "encode_GenesisState L message = seqE
    [someE (GenesisState.params message) (\<lambda>v. seqE [w_uint32 L 10, w_fork L, encode_Params L v, w_join L]),
     forE (\<lambda>v. seqE [w_uint32 L 18, w_fork L, encode_Provider L v, w_join L]) (GenesisState.providers message),
     forE (\<lambda>v. seqE [w_uint32 L 26, w_fork L, encode_Contract L v, w_join L]) (GenesisState.contracts message),
     whenE (GenesisState.nextContractId message \<noteq> Num 0) (seqE [w_uint32 L 32, w_uint64 L (GenesisState.nextContractId message)]),
     forE (\<lambda>v. seqE [w_uint32 L 42, w_fork L, encode_ContractExpirationSet L v, w_join L]) (GenesisState.contractExpirationSets message),
     forE (\<lambda>v. seqE [w_uint32 L 50, w_fork L, encode_UserContractSet L v, w_join L]) (GenesisState.userContractSets message),
     whenE (GenesisState.version message \<noteq> Num 0) (seqE [w_uint32 L 56, w_int64 L (GenesisState.version message)]),
     forE (\<lambda>v. seqE [w_uint32 L 66, w_fork L, encode_ValidatorVersion L v, w_join L]) (GenesisState.validatorVersions message),
     forE (\<lambda>v. seqE [w_uint32 L 74, w_fork L, encode_Service L v, w_join L]) (GenesisState.services message)]"

definition GenesisState_switch :: "('w, 'r) wire \<Rightarrow> u32 \<Rightarrow> GenesisState \<Rightarrow> (GenesisState, 'r) action" where
  "GenesisState_switch L tag message = js_switch (drop_bit 3 tag)
    [(1, when_tag tag 10 (readf (submsg L (decode_Params L)) (\<lambda>v. message\<lparr>GenesisState.params := Some v\<rparr>))),
     (2, when_tag tag 18 (readf (submsg L (decode_Provider L)) (\<lambda>v. message\<lparr>GenesisState.providers := GenesisState.providers message @ [v]\<rparr>))),
     (3, when_tag tag 26 (readf (submsg L (decode_Contract L)) (\<lambda>v. message\<lparr>GenesisState.contracts := GenesisState.contracts message @ [v]\<rparr>))),
     (4, when_tag tag 32 (readf (num64 (r_uint64 L)) (\<lambda>v. message\<lparr>GenesisState.nextContractId := v\<rparr>))),
     (5, when_tag tag 42 (readf (submsg L (decode_ContractExpirationSet L)) (\<lambda>v. message\<lparr>GenesisState.contractExpirationSets := GenesisState.contractExpirationSets message @ [v]\<rparr>))),
     (6, when_tag tag 50 (readf (submsg L (decode_UserContractSet L)) (\<lambda>v. message\<lparr>GenesisState.userContractSets := GenesisState.userContractSets message @ [v]\<rparr>))),
     (7, when_tag tag 56 (readf (num64 (r_int64 L)) (\<lambda>v. message\<lparr>GenesisState.version := v\<rparr>))),
     (8, when_tag tag 66 (readf (submsg L (decode_ValidatorVersion L)) (\<lambda>v. message\<lparr>GenesisState.validatorVersions := GenesisState.validatorVersions message @ [v]\<rparr>))),
     (9, when_tag tag 74 (readf (submsg L (decode_Service L)) (\<lambda>v. message\<lparr>GenesisState.services := GenesisState.services message @ [v]\<rparr>)))]
    break_out"

definition decode_GenesisState :: "('w, 'r) wire \<Rightarrow> 'r input \<Rightarrow> nat option \<Rightarrow> (GenesisState \<times> 'r) result" where
  "decode_GenesisState L = decode_msg L (GenesisState_switch L) createBase_GenesisState"

definition fromJSON_GenesisState :: "host \<Rightarrow> jsval \<Rightarrow> GenesisState result" where
  "fromJSON_GenesisState h object =
     bindE (optE object ''params'' (fromJSON_Params h)) (\<lambda>v_params.
     bindE (arrayE object ''providers'' (fromJSON_Provider h)) (\<lambda>v_providers.
     bindE (arrayE object ''contracts'' (fromJSON_Contract h)) (\<lambda>v_contracts.
     bindE (fieldE object ''nextContractId'' (numberE h) (Num 0)) (\<lambda>v_nextContractId.
     bindE (arrayE object ''contractExpirationSets'' (fromJSON_ContractExpirationSet h)) (\<lambda>v_contractExpirationSets.
     bindE (arrayE object ''userContractSets'' (fromJSON_UserContractSet h)) (\<lambda>v_userContractSets.
     bindE (fieldE object ''version'' (numberE h) (Num 0)) (\<lambda>v_version.
     bindE (arrayE object ''validatorVersions'' (fromJSON_ValidatorVersion h)) (\<lambda>v_validatorVersions.
     bindE (arrayE object ''services'' (fromJSON_Service h)) (\<lambda>v_services.
     Inr \<lparr>GenesisState.params = v_params, GenesisState.providers = v_providers, GenesisState.contracts = v_contracts, GenesisState.nextContractId = v_nextContractId, GenesisState.contractExpirationSets = v_contractExpirationSets, GenesisState.userContractSets = v_userContractSets, GenesisState.version = v_version, GenesisState.validatorVersions = v_validatorVersions, GenesisState.services = v_services\<rparr>)))))))))"

definition toJSON_GenesisState :: "host \<Rightarrow> GenesisState \<Rightarrow> jsval result" where
  "toJSON_GenesisState h message = objE
    [joptE ''params'' (toJSON_Params h) (GenesisState.params message),
     jarrayE ''providers'' (toJSON_Provider h) (GenesisState.providers message),
     jarrayE ''contracts'' (toJSON_Contract h) (GenesisState.contracts message),
     jfieldE (GenesisState.nextContractId message \<noteq> Num 0) ''nextContractId'' (Inr (JNumber (Math_round (GenesisState.nextContractId message)))),
     jarrayE ''contractExpirationSets'' (toJSON_ContractExpirationSet h) (GenesisState.contractExpirationSets message),
     jarrayE ''userContractSets'' (toJSON_UserContractSet h) (GenesisState.userContractSets message),
     jfieldE (GenesisState.version message \<noteq> Num 0) ''version'' (Inr (JNumber (Math_round (GenesisState.version message)))),
     jarrayE ''validatorVersions'' (toJSON_ValidatorVersion h) (GenesisState.validatorVersions message),
     jarrayE ''services'' (toJSON_Service h) (GenesisState.services message)]"

record GenesisState_Partial =
  params :: "Params_Partial option"
  providers :: "Provider_Partial list option"
  contracts :: "Contract_Partial list option"
  nextContractId :: "number option"
  contractExpirationSets :: "ContractExpirationSet_Partial list option"
  userContractSets :: "UserContractSet_Partial list option"
  version :: "number option"
  validatorVersions :: "ValidatorVersion_Partial list option"
  services :: "Service_Partial list option"

definition GenesisState_empty :: GenesisState_Partial where
  "GenesisState_empty = \<lparr>GenesisState_Partial.params = None, GenesisState_Partial.providers = None, GenesisState_Partial.contracts = None, GenesisState_Partial.nextContractId = None, GenesisState_Partial.contractExpirationSets = None, GenesisState_Partial.userContractSets = None, GenesisState_Partial.version = None, GenesisState_Partial.validatorVersions = None, GenesisState_Partial.services = None\<rparr>"

definition fromPartial_GenesisState :: "GenesisState_Partial \<Rightarrow> GenesisState" where
  "fromPartial_GenesisState object = createBase_GenesisState\<lparr>GenesisState.params := map_option fromPartial_Params (GenesisState_Partial.params object),
     GenesisState.providers := partial_map fromPartial_Provider (GenesisState_Partial.providers object),
     GenesisState.contracts := partial_map fromPartial_Contract (GenesisState_Partial.contracts object),
     GenesisState.nextContractId := nullish (GenesisState_Partial.nextContractId object) (Num 0),
     GenesisState.contractExpirationSets := partial_map fromPartial_ContractExpirationSet (GenesisState_Partial.contractExpirationSets object),
     GenesisState.userContractSets := partial_map fromPartial_UserContractSet (GenesisState_Partial.userContractSets object),
     GenesisState.version := nullish (GenesisState_Partial.version object) (Num 0),
     GenesisState.validatorVersions := partial_map fromPartial_ValidatorVersion (GenesisState_Partial.validatorVersions object),
     GenesisState.services := partial_map fromPartial_Service (GenesisState_Partial.services object)\<rparr>"

definition create_GenesisState :: "GenesisState_Partial option \<Rightarrow> GenesisState" where
  "create_GenesisState base = fromPartial_GenesisState (nullish base GenesisState_empty)"

text \<open>A partial message that sets every field.\<close>

definition partial_of_GenesisState :: "GenesisState \<Rightarrow> GenesisState_Partial" where
  "partial_of_GenesisState m =
     \<lparr>GenesisState_Partial.params = map_option partial_of_Params (GenesisState.params m),
      GenesisState_Partial.providers = Some (map partial_of_Provider (GenesisState.providers m)),
      GenesisState_Partial.contracts = Some (map partial_of_Contract (GenesisState.contracts m)),
      GenesisState_Partial.nextContractId = Some (GenesisState.nextContractId m),
      GenesisState_Partial.contractExpirationSets = Some (map partial_of_ContractExpirationSet (GenesisState.contractExpirationSets m)),
      GenesisState_Partial.userContractSets = Some (map partial_of_UserContractSet (GenesisState.userContractSets m)),
      GenesisState_Partial.version = Some (GenesisState.version m),
      GenesisState_Partial.validatorVersions = Some (map partial_of_ValidatorVersion (GenesisState.validatorVersions m)),
      GenesisState_Partial.services = Some (map partial_of_Service (GenesisState.services m))\<rparr>"

definition ok_GenesisState :: "GenesisState \<Rightarrow> bool" where
  "ok_GenesisState m \<longleftrightarrow> pred_option ok_Params (GenesisState.params m)
     \<and> list_all ok_Provider (GenesisState.providers m)
     \<and> list_all ok_Contract (GenesisState.contracts m)
     \<and> safe_uint (GenesisState.nextContractId m)
     \<and> list_all ok_ContractExpirationSet (GenesisState.contractExpirationSets m)
     \<and> list_all ok_UserContractSet (GenesisState.userContractSets m)
     \<and> safe_int (GenesisState.version m)
     \<and> list_all ok_ValidatorVersion (GenesisState.validatorVersions m)
     \<and> list_all ok_Service (GenesisState.services m)"

definition wf_GenesisState :: "('w, 'r) wire \<Rightarrow> GenesisState \<Rightarrow> bool" where
  "wf_GenesisState L m \<longleftrightarrow> pred_option (\<lambda>v. wf_Params L v \<and> fits L (encode_Params L v)) (GenesisState.params m)
     \<and> list_all (\<lambda>v. wf_Provider L v \<and> fits L (encode_Provider L v)) (GenesisState.providers m)
     \<and> list_all (\<lambda>v. wf_Contract L v \<and> fits L (encode_Contract L v)) (GenesisState.contracts m)
     \<and> safe_uint (GenesisState.nextContractId m)
     \<and> list_all (\<lambda>v. wf_ContractExpirationSet L v \<and> fits L (encode_ContractExpirationSet L v)) (GenesisState.contractExpirationSets m)
     \<and> list_all (\<lambda>v. wf_UserContractSet L v \<and> fits L (encode_UserContractSet L v)) (GenesisState.userContractSets m)
     \<and> safe_int (GenesisState.version m)
     \<and> list_all (\<lambda>v. wf_ValidatorVersion L v \<and> fits L (encode_ValidatorVersion L v)) (GenesisState.validatorVersions m)
     \<and> list_all (\<lambda>v. wf_Service L v \<and> fits L (encode_Service L v)) (GenesisState.services m)"

definition wfj_GenesisState :: "GenesisState \<Rightarrow> bool" where
  "wfj_GenesisState m \<longleftrightarrow> pred_option wfj_Params (GenesisState.params m)
     \<and> list_all wfj_Provider (GenesisState.providers m)
     \<and> list_all wfj_Contract (GenesisState.contracts m)
     \<and> whole (GenesisState.nextContractId m)
     \<and> list_all wfj_ContractExpirationSet (GenesisState.contractExpirationSets m)
     \<and> list_all wfj_UserContractSet (GenesisState.userContractSets m)
     \<and> whole (GenesisState.version m)
     \<and> list_all wfj_ValidatorVersion (GenesisState.validatorVersions m)
     \<and> list_all wfj_Service (GenesisState.services m)"


section \<open>Encoding, decoding and JSON of these messages\<close>

lemma ValidatorVersion_tags:
  "ValidatorVersion_switch L 10 m = readf (r_string L) (\<lambda>v. m\<lparr>ValidatorVersion.validatorAddress := v\<rparr>)"
  "ValidatorVersion_switch L 16 m = readf (num64 (r_int64 L)) (\<lambda>v. m\<lparr>ValidatorVersion.version := v\<rparr>)"
  by (simp_all add: ValidatorVersion_switch_def when_tag_def)

lemma fromPartial_partial_of_ValidatorVersion [simp]: "fromPartial_ValidatorVersion (partial_of_ValidatorVersion m) = m"
  by (simp add: fromPartial_ValidatorVersion_def partial_of_ValidatorVersion_def createBase_ValidatorVersion_def partial_map_def option.map_comp o_def option.map_ident)

lemma create_ValidatorVersion_None [simp]: "create_ValidatorVersion None = createBase_ValidatorVersion"
  by (simp add: create_ValidatorVersion_def fromPartial_ValidatorVersion_def ValidatorVersion_empty_def createBase_ValidatorVersion_def partial_map_def)

sublocale wire_laws \<subseteq> ValidatorVersion_codec: message_codec L F out inp "encode_ValidatorVersion L" "ValidatorVersion_switch L" createBase_ValidatorVersion "wf_ValidatorVersion L"
proof unfold_locales
  show good: "good_sw (ValidatorVersion_switch L)"
    unfolding ValidatorVersion_switch_def by (intro good_swI fwd_rules)
  fix m assume "wf_ValidatorVersion L m"
  then show "codes (ValidatorVersion_switch L) (encode_ValidatorVersion L m) createBase_ValidatorVersion m"
    unfolding encode_ValidatorVersion_def wf_ValidatorVersion_def
    by (elim conjE)
      (rule codes_Cons codes_Nil [OF ValidatorVersion.equality] codec_rules
        codes_when [where tag = 10 and u = ValidatorVersion.validatorAddress_update and op = "r_string L", OF good]
        codes_when [where tag = 16 and u = ValidatorVersion.version_update and op = "num64 (r_int64 L)", OF good]
      | assumption | (simp add: ValidatorVersion_tags createBase_ValidatorVersion_def; fail))+
qed

sublocale wire_laws \<subseteq> ValidatorVersion_range: message_range L F out inp "ValidatorVersion_switch L" createBase_ValidatorVersion ok_ValidatorVersion
proof unfold_locales
  show "ok_ValidatorVersion createBase_ValidatorVersion" by (simp add: ok_ValidatorVersion_def createBase_ValidatorVersion_def)
  fix m tag assume "ok_ValidatorVersion m"
  then show "keeps ok_ValidatorVersion (ValidatorVersion_switch L tag m)"
    unfolding ValidatorVersion_switch_def by - (rule range_rules | (simp add: ok_ValidatorVersion_def; fail))+
qed

context wire_laws
begin

lemmas ValidatorVersion_carries [codec_rules] =
  ValidatorVersion_codec.opt_carries [folded decode_ValidatorVersion_def] ValidatorVersion_codec.list_carries [folded decode_ValidatorVersion_def]

lemmas ValidatorVersion_good [fwd_rules] = ValidatorVersion_codec.op_good [folded decode_ValidatorVersion_def]

lemmas ValidatorVersion_yields [range_rules] = ValidatorVersion_range.sub_range [folded decode_ValidatorVersion_def]

lemmas ValidatorVersion_roundtrip = ValidatorVersion_codec.roundtrip [folded decode_ValidatorVersion_def]

lemmas ValidatorVersion_returns = ValidatorVersion_codec.decode_returns [folded decode_ValidatorVersion_def]

lemmas ValidatorVersion_decoded = ValidatorVersion_range.decode_range [folded decode_ValidatorVersion_def]

end

interpretation ValidatorVersion_json: message_json toJSON_ValidatorVersion fromJSON_ValidatorVersion wfj_ValidatorVersion
proof unfold_locales
  fix h m
  assume "wfj_ValidatorVersion m"
  then show "json_rt (toJSON_ValidatorVersion h) (fromJSON_ValidatorVersion h) m"
    unfolding toJSON_ValidatorVersion_def fromJSON_ValidatorVersion_def wfj_ValidatorVersion_def
    by (-) (rule json_rtI json_rules | assumption | (simp; fail))+
qed

lemmas ValidatorVersion_json_rules [json_rules] = ValidatorVersion_json.json_field_rules

lemma GenesisState_tags:
  "GenesisState_switch L 10 m = readf (submsg L (decode_Params L)) (\<lambda>v. m\<lparr>GenesisState.params := Some v\<rparr>)"
  "GenesisState_switch L 18 m = readf (submsg L (decode_Provider L)) (\<lambda>v. m\<lparr>GenesisState.providers := GenesisState.providers m @ [v]\<rparr>)"
  "GenesisState_switch L 26 m = readf (submsg L (decode_Contract L)) (\<lambda>v. m\<lparr>GenesisState.contracts := GenesisState.contracts m @ [v]\<rparr>)"
  "GenesisState_switch L 32 m = readf (num64 (r_uint64 L)) (\<lambda>v. m\<lparr>GenesisState.nextContractId := v\<rparr>)"
  "GenesisState_switch L 42 m = readf (submsg L (decode_ContractExpirationSet L)) (\<lambda>v. m\<lparr>GenesisState.contractExpirationSets := GenesisState.contractExpirationSets m @ [v]\<rparr>)"
  "GenesisState_switch L 50 m = readf (submsg L (decode_UserContractSet L)) (\<lambda>v. m\<lparr>GenesisState.userContractSets := GenesisState.userContractSets m @ [v]\<rparr>)"
  "GenesisState_switch L 56 m = readf (num64 (r_int64 L)) (\<lambda>v. m\<lparr>GenesisState.version := v\<rparr>)"
  "GenesisState_switch L 66 m = readf (submsg L (decode_ValidatorVersion L)) (\<lambda>v. m\<lparr>GenesisState.validatorVersions := GenesisState.validatorVersions m @ [v]\<rparr>)"
  "GenesisState_switch L 74 m = readf (submsg L (decode_Service L)) (\<lambda>v. m\<lparr>GenesisState.services := GenesisState.services m @ [v]\<rparr>)"
  by (simp_all add: GenesisState_switch_def when_tag_def)

lemma fromPartial_partial_of_GenesisState [simp]: "fromPartial_GenesisState (partial_of_GenesisState m) = m"
  by (simp add: fromPartial_GenesisState_def partial_of_GenesisState_def createBase_GenesisState_def partial_map_def option.map_comp o_def option.map_ident)

lemma create_GenesisState_None [simp]: "create_GenesisState None = createBase_GenesisState"
  by (simp add: create_GenesisState_def fromPartial_GenesisState_def GenesisState_empty_def createBase_GenesisState_def partial_map_def)

sublocale wire_laws \<subseteq> GenesisState_codec: message_codec L F out inp "encode_GenesisState L" "GenesisState_switch L" createBase_GenesisState "wf_GenesisState L"
proof unfold_locales
  show good: "good_sw (GenesisState_switch L)"
    unfolding GenesisState_switch_def by (intro good_swI fwd_rules)
  fix m assume "wf_GenesisState L m"
  then show "codes (GenesisState_switch L) (encode_GenesisState L m) createBase_GenesisState m"
    unfolding encode_GenesisState_def wf_GenesisState_def
    by (elim conjE)
      (rule codes_Cons codes_Nil [OF GenesisState.equality] codec_rules
        codes_some [where tag = 10 and u = GenesisState.params_update and op = "submsg L (decode_Params L)", OF good]
        codes_for [where tag = 18 and u = GenesisState.providers_update and op = "submsg L (decode_Provider L)", OF good]
        codes_for [where tag = 26 and u = GenesisState.contracts_update and op = "submsg L (decode_Contract L)", OF good]
        codes_when [where tag = 32 and u = GenesisState.nextContractId_update and op = "num64 (r_uint64 L)", OF good]
        codes_for [where tag = 42 and u = GenesisState.contractExpirationSets_update and op = "submsg L (decode_ContractExpirationSet L)", OF good]
        codes_for [where tag = 50 and u = GenesisState.userContractSets_update and op = "submsg L (decode_UserContractSet L)", OF good]
        codes_when [where tag = 56 and u = GenesisState.version_update and op = "num64 (r_int64 L)", OF good]
        codes_for [where tag = 66 and u = GenesisState.validatorVersions_update and op = "submsg L (decode_ValidatorVersion L)", OF good]
        codes_for [where tag = 74 and u = GenesisState.services_update and op = "submsg L (decode_Service L)", OF good]
      | assumption | (simp add: GenesisState_tags createBase_GenesisState_def; fail))+
qed

sublocale wire_laws \<subseteq> GenesisState_range: message_range L F out inp "GenesisState_switch L" createBase_GenesisState ok_GenesisState
proof unfold_locales
  show "ok_GenesisState createBase_GenesisState" by (simp add: ok_GenesisState_def createBase_GenesisState_def)
  fix m tag assume "ok_GenesisState m"
  then show "keeps ok_GenesisState (GenesisState_switch L tag m)"
    unfolding GenesisState_switch_def by - (rule range_rules | (simp add: ok_GenesisState_def; fail))+
qed

context wire_laws
begin

lemmas GenesisState_carries [codec_rules] =
  GenesisState_codec.opt_carries [folded decode_GenesisState_def] GenesisState_codec.list_carries [folded decode_GenesisState_def]

lemmas GenesisState_good [fwd_rules] = GenesisState_codec.op_good [folded decode_GenesisState_def]

lemmas GenesisState_yields [range_rules] = GenesisState_range.sub_range [folded decode_GenesisState_def]

lemmas GenesisState_roundtrip = GenesisState_codec.roundtrip [folded decode_GenesisState_def]

lemmas GenesisState_returns = GenesisState_codec.decode_returns [folded decode_GenesisState_def]

lemmas GenesisState_decoded = GenesisState_range.decode_range [folded decode_GenesisState_def]

end

interpretation GenesisState_json: message_json toJSON_GenesisState fromJSON_GenesisState wfj_GenesisState
proof unfold_locales
  fix h m
  assume "wfj_GenesisState m"
  then show "json_rt (toJSON_GenesisState h) (fromJSON_GenesisState h) m"
    unfolding toJSON_GenesisState_def fromJSON_GenesisState_def wfj_GenesisState_def
    by (elim conjE) (rule json_rtI json_rules | assumption | (simp; fail))+
qed

lemmas GenesisState_json_rules [json_rules] = GenesisState_json.json_field_rules


end
