(* ===== verification/Samples.thy ===== *)
theory Samples
  imports PbWire RpcClient EventMsgs GenesisMsgs
begin

text \<open>
  Concrete messages, one of each type the witnesses of the properties use, and that they are
  well-formed over the protobuf wire format of \<open>PbWire\<close>: their encodings are evaluated.
\<close>

section \<open>Evaluating the conditions\<close>

lemma wire_string_ascii:
  "list_all (\<lambda>c. of_char c < (128 :: nat)) s \<Longrightarrow> length s < 1000 \<Longrightarrow> wire_string (js s)"
proof -
  assume s: "list_all (\<lambda>c. of_char c < (128 :: nat)) s" "length s < 1000"
  have "(of_nat (of_char c) :: 16 word) < 55296" if "of_char c < (128 :: nat)" for c :: char
    using that by (simp add: word_less_nat_alt unat_of_nat)
  then have "list_all (\<lambda>c. c < 55296) (js s)" using s by (auto simp: js_def list_all_iff)
  moreover have "list_all (\<lambda>c. c < 55296) t \<Longrightarrow> wf_utf16 t" for t :: jsstring
    by (induction t rule: wf_utf16.induct) (auto simp: word_less_nat_alt word_le_nat_alt)
  ultimately show ?thesis using s by (simp add: wire_string_def js_def)
qed

lemma wire_string_Nil [simp]: "wire_string []"
  by (simp add: wire_string_def)

lemma whole_numeral: "whole (Num (numeral k))"
  using wholeI [of "numeral k" "numeral k" "Num (numeral k)"] by simp

lemma whole_one: "whole (Num 1)"
  using wholeI [of 1 1 "Num 1"] by simp

definition fits_small :: "('w, 'r) wire \<Rightarrow> ('w \<Rightarrow> 'w result) \<Rightarrow> bool" where
  "fits_small L enc = (case encode_bytes L enc of Inl _ \<Rightarrow> False | Inr b \<Rightarrow> length b < 1000)"

lemma fits_small: "fits_small L enc \<Longrightarrow> fits L enc"
  by (auto simp: fits_small_def fits_def split: sum.splits)

lemmas sample_simps = wire_string_ascii wire_bytes_def safe_int_def safe_uint_def int32_num_def
  MIN_SAFE_INTEGER_def MAX_SAFE_INTEGER_def date_valid_def max_time_def whole_numeral whole_one


text \<open>A host without \<open>Buffer\<close> (a browser).\<close>

definition sample_host :: host where
  "sample_host =
     \<lparr>has_Buffer = False, Buffer_from_other = (\<lambda>_. Inl (TypeError [])), Buffer_lenient = (\<lambda>_. []),
      num_of_literal = (\<lambda>_. NaN), num_to_literal = (\<lambda>_. []), Date_parse = (\<lambda>_. NaN), Date_toString = (\<lambda>_. [])\<rparr>"


section \<open>The messages\<close>

definition sample_Coin :: Coin where
  "sample_Coin =
     \<lparr>Coin.denom = js ''denom'',
      Coin.amount = js ''amount''\<rparr>"

lemma sample_Coin_wf [simp]: "wf_Coin pb_wire sample_Coin"
  by (simp add: wf_Coin_def sample_Coin_def sample_simps)

lemma sample_Coin_wfj [simp]: "wfj_Coin sample_Coin"
  by (simp add: wfj_Coin_def sample_Coin_def sample_simps)

lemma sample_Coin_fits [simp]: "fits pb_wire (encode_Coin pb_wire sample_Coin)"
  by (rule fits_small) code_simp

definition sample_MsgOpenContract :: MsgOpenContract where
  "sample_MsgOpenContract =
     \<lparr>MsgOpenContract.creator = js ''creator'',
      MsgOpenContract.provider = js ''provider'',
      MsgOpenContract.service = js ''service'',
      MsgOpenContract.client = js ''client'',
      MsgOpenContract.delegate = js ''delegate'',
      MsgOpenContract.contractType = ContractType_PAY_AS_YOU_GO,
      MsgOpenContract.duration = Num 9,
      MsgOpenContract.rate = Some sample_Coin,
      MsgOpenContract.deposit = js ''deposit'',
      MsgOpenContract.settlementDuration = Num 12,
      MsgOpenContract.authorization = ContractAuthorization_OPEN,
      MsgOpenContract.queriesPerMinute = Num 14\<rparr>"

lemma sample_MsgOpenContract_wf [simp]: "wf_MsgOpenContract pb_wire sample_MsgOpenContract"
  by (simp add: wf_MsgOpenContract_def sample_MsgOpenContract_def sample_simps ContractAuthorization_defs ContractType_defs)

lemma sample_MsgOpenContract_wfj [simp]: "wfj_MsgOpenContract sample_MsgOpenContract"
  by (simp add: wfj_MsgOpenContract_def sample_MsgOpenContract_def sample_simps ContractAuthorization_known_def ContractType_known_def)

definition sample_MsgModProvider :: MsgModProvider where
  "sample_MsgModProvider =
     \<lparr>MsgModProvider.creator = js ''creator'',
      MsgModProvider.provider = [2, 128, 255],
      MsgModProvider.service = js ''service'',
      MsgModProvider.metadataUri = js ''metadata'',
      MsgModProvider.metadataNonce = Num 7,
      MsgModProvider.status = ProviderStatus_ONLINE,
      MsgModProvider.minContractDuration = Num 9,
      MsgModProvider.maxContractDuration = Num 10,
      MsgModProvider.subscriptionRate = [sample_Coin],
      MsgModProvider.payAsYouGoRate = [sample_Coin],
      MsgModProvider.settlementDuration = Num 13\<rparr>"

lemma sample_MsgModProvider_wf [simp]: "wf_MsgModProvider pb_wire sample_MsgModProvider"
  by (simp add: wf_MsgModProvider_def sample_MsgModProvider_def sample_simps ProviderStatus_defs)

lemma sample_MsgModProvider_wfj [simp]: "wfj_MsgModProvider sample_MsgModProvider"
  by (simp add: wfj_MsgModProvider_def sample_MsgModProvider_def sample_simps ProviderStatus_known_def)

definition sample_MsgBondProvider :: MsgBondProvider where
  "sample_MsgBondProvider =
     \<lparr>MsgBondProvider.creator = js ''creator'',
      MsgBondProvider.provider = js ''provider'',
      MsgBondProvider.service = js ''service'',
      MsgBondProvider.bond = js ''bond''\<rparr>"

lemma sample_MsgBondProvider_wf [simp]: "wf_MsgBondProvider pb_wire sample_MsgBondProvider"
  by (simp add: wf_MsgBondProvider_def sample_MsgBondProvider_def sample_simps)

lemma sample_MsgBondProvider_wfj [simp]: "wfj_MsgBondProvider sample_MsgBondProvider"
  by (simp add: wfj_MsgBondProvider_def sample_MsgBondProvider_def sample_simps)

definition sample_Provider :: Provider where
  "sample_Provider =
     \<lparr>Provider.pubKey = [2, 128, 255],
      Provider.service = Num 4,
      Provider.metadataUri = js ''metadata'',
      Provider.metadataNonce = Num 6,
      Provider.status = ProviderStatus_ONLINE,
      Provider.minContractDuration = Num 8,
      Provider.maxContractDuration = Num 9,
      Provider.subscriptionRate = [sample_Coin],
      Provider.payAsYouGoRate = [sample_Coin],
      Provider.bond = js ''bond'',
      Provider.lastUpdate = Num 13,
      Provider.settlementDuration = Num 14\<rparr>"

lemma sample_Provider_wf [simp]: "wf_Provider pb_wire sample_Provider"
  by (simp add: wf_Provider_def sample_Provider_def sample_simps ProviderStatus_defs)

lemma sample_Provider_wfj [simp]: "wfj_Provider sample_Provider"
  by (simp add: wfj_Provider_def sample_Provider_def sample_simps ProviderStatus_known_def)

lemma sample_Provider_fits [simp]: "fits pb_wire (encode_Provider pb_wire sample_Provider)"
  by (rule fits_small) code_simp

definition sample_Contract :: Contract where
  "sample_Contract =
     \<lparr>Contract.provider = [2, 128, 255],
      Contract.service = Num 4,
      Contract.client = [2, 128, 255],
      Contract.delegate = [2, 128, 255],
      Contract.type' = ContractType_PAY_AS_YOU_GO,
      Contract.height = Num 8,
      Contract.duration = Num 9,
      Contract.rate = Some sample_Coin,
      Contract.deposit = js ''deposit'',
      Contract.paid = js ''paid'',
      Contract.nonce = Num 13,
      Contract.settlementHeight = Num 14,
      Contract.id' = Num 15,
      Contract.settlementDuration = Num 16,
      Contract.authorization = ContractAuthorization_OPEN,
      Contract.queriesPerMinute = Num 18\<rparr>"

lemma sample_Contract_wf [simp]: "wf_Contract pb_wire sample_Contract"
  by (simp add: wf_Contract_def sample_Contract_def sample_simps ContractAuthorization_defs ContractType_defs)

lemma sample_Contract_wfj [simp]: "wfj_Contract sample_Contract"
  by (simp add: wfj_Contract_def sample_Contract_def sample_simps ContractAuthorization_known_def ContractType_known_def)

lemma sample_Contract_fits [simp]: "fits pb_wire (encode_Contract pb_wire sample_Contract)"
  by (rule fits_small) code_simp

definition sample_ContractSet :: ContractSet where
  "sample_ContractSet =
     \<lparr>ContractSet.contractIds = [Num 1, Num 20]\<rparr>"

lemma sample_ContractSet_packed [simp]:
  "fits pb_wire (forE (w_uint64 pb_wire) (ContractSet.contractIds sample_ContractSet))"
  by (rule fits_small) code_simp

lemma sample_ContractSet_wf [simp]: "wf_ContractSet pb_wire sample_ContractSet"
  using sample_ContractSet_packed
  by (simp add: wf_ContractSet_def sample_ContractSet_def sample_simps)

lemma sample_ContractSet_wfj [simp]: "wfj_ContractSet sample_ContractSet"
  by (simp add: wfj_ContractSet_def sample_ContractSet_def sample_simps)

lemma sample_ContractSet_fits [simp]: "fits pb_wire (encode_ContractSet pb_wire sample_ContractSet)"
  by (rule fits_small) code_simp

definition sample_ContractExpirationSet :: ContractExpirationSet where
  "sample_ContractExpirationSet =
     \<lparr>ContractExpirationSet.height = Num 3,
      ContractExpirationSet.contractSet = Some sample_ContractSet\<rparr>"

lemma sample_ContractExpirationSet_wf [simp]: "wf_ContractExpirationSet pb_wire sample_ContractExpirationSet"
  by (simp add: wf_ContractExpirationSet_def sample_ContractExpirationSet_def sample_simps)

lemma sample_ContractExpirationSet_wfj [simp]: "wfj_ContractExpirationSet sample_ContractExpirationSet"
  by (simp add: wfj_ContractExpirationSet_def sample_ContractExpirationSet_def sample_simps)

lemma sample_ContractExpirationSet_fits [simp]: "fits pb_wire (encode_ContractExpirationSet pb_wire sample_ContractExpirationSet)"
  by (rule fits_small) code_simp

definition sample_UserContractSet :: UserContractSet where
  "sample_UserContractSet =
     \<lparr>UserContractSet.user = [2, 128, 255],
      UserContractSet.contractSet = Some sample_ContractSet\<rparr>"

lemma sample_UserContractSet_wf [simp]: "wf_UserContractSet pb_wire sample_UserContractSet"
  by (simp add: wf_UserContractSet_def sample_UserContractSet_def sample_simps)

lemma sample_UserContractSet_wfj [simp]: "wfj_UserContractSet sample_UserContractSet"
  by (simp add: wfj_UserContractSet_def sample_UserContractSet_def sample_simps)

lemma sample_UserContractSet_fits [simp]: "fits pb_wire (encode_UserContractSet pb_wire sample_UserContractSet)"
  by (rule fits_small) code_simp

definition sample_Service :: Service where
  "sample_Service =
     \<lparr>Service.id' = Num 3,
      Service.name = js ''name'',
      Service.description = js ''descript'',
      Service.serviceType = js ''servicet''\<rparr>"

lemma sample_Service_wf [simp]: "wf_Service pb_wire sample_Service"
  by (simp add: wf_Service_def sample_Service_def sample_simps)

lemma sample_Service_wfj [simp]: "wfj_Service sample_Service"
  by (simp add: wfj_Service_def sample_Service_def sample_simps)

lemma sample_Service_fits [simp]: "fits pb_wire (encode_Service pb_wire sample_Service)"
  by (rule fits_small) code_simp

definition sample_Params :: Params where
  "sample_Params =
     \<lparr>Params.blockPerYear = Num 3,
      Params.emissionCurve = Num 4\<rparr>"

lemma sample_Params_wf [simp]: "wf_Params pb_wire sample_Params"
  by (simp add: wf_Params_def sample_Params_def sample_simps)

lemma sample_Params_wfj [simp]: "wfj_Params sample_Params"
  by (simp add: wfj_Params_def sample_Params_def sample_simps)

lemma sample_Params_fits [simp]: "fits pb_wire (encode_Params pb_wire sample_Params)"
  by (rule fits_small) code_simp

definition sample_ValidatorVersion :: ValidatorVersion where
  "sample_ValidatorVersion =
     \<lparr>ValidatorVersion.validatorAddress = js ''validato'',
      ValidatorVersion.version = Num 4\<rparr>"

lemma sample_ValidatorVersion_wf [simp]: "wf_ValidatorVersion pb_wire sample_ValidatorVersion"
  by (simp add: wf_ValidatorVersion_def sample_ValidatorVersion_def sample_simps)

lemma sample_ValidatorVersion_wfj [simp]: "wfj_ValidatorVersion sample_ValidatorVersion"
  by (simp add: wfj_ValidatorVersion_def sample_ValidatorVersion_def sample_simps)

lemma sample_ValidatorVersion_fits [simp]: "fits pb_wire (encode_ValidatorVersion pb_wire sample_ValidatorVersion)"
  by (rule fits_small) code_simp

definition sample_GenesisState :: GenesisState where
  "sample_GenesisState =
     \<lparr>GenesisState.params = Some sample_Params,
      GenesisState.providers = [sample_Provider],
      GenesisState.contracts = [sample_Contract],
      GenesisState.nextContractId = Num 6,
      GenesisState.contractExpirationSets = [sample_ContractExpirationSet],
      GenesisState.userContractSets = [sample_UserContractSet],
      GenesisState.version = Num 9,
      GenesisState.validatorVersions = [sample_ValidatorVersion],
      GenesisState.services = [sample_Service]\<rparr>"

lemma sample_GenesisState_wf [simp]: "wf_GenesisState pb_wire sample_GenesisState"
  by (simp add: wf_GenesisState_def sample_GenesisState_def sample_simps)

lemma sample_GenesisState_wfj [simp]: "wfj_GenesisState sample_GenesisState"
  by (simp add: wfj_GenesisState_def sample_GenesisState_def sample_simps)

definition sample_PageResponse :: PageResponse where
  "sample_PageResponse =
     \<lparr>PageResponse.nextKey = [2, 128, 255],
      PageResponse.total = Num 4\<rparr>"

lemma sample_PageResponse_wf [simp]: "wf_PageResponse pb_wire sample_PageResponse"
  by (simp add: wf_PageResponse_def sample_PageResponse_def sample_simps)

lemma sample_PageResponse_wfj [simp]: "wfj_PageResponse sample_PageResponse"
  by (simp add: wfj_PageResponse_def sample_PageResponse_def sample_simps)

lemma sample_PageResponse_fits [simp]: "fits pb_wire (encode_PageResponse pb_wire sample_PageResponse)"
  by (rule fits_small) code_simp

definition sample_QueryAllProviderResponse :: QueryAllProviderResponse where
  "sample_QueryAllProviderResponse =
     \<lparr>QueryAllProviderResponse.provider = [sample_Provider],
      QueryAllProviderResponse.pagination = Some sample_PageResponse\<rparr>"

lemma sample_QueryAllProviderResponse_wf [simp]: "wf_QueryAllProviderResponse pb_wire sample_QueryAllProviderResponse"
  by (simp add: wf_QueryAllProviderResponse_def sample_QueryAllProviderResponse_def sample_simps)

lemma sample_QueryAllProviderResponse_wfj [simp]: "wfj_QueryAllProviderResponse sample_QueryAllProviderResponse"
  by (simp add: wfj_QueryAllProviderResponse_def sample_QueryAllProviderResponse_def sample_simps)

definition sample_QueryFetchContractRequest :: QueryFetchContractRequest where
  "sample_QueryFetchContractRequest =
     \<lparr>QueryFetchContractRequest.contractId = Num 3\<rparr>"

lemma sample_QueryFetchContractRequest_wf [simp]: "wf_QueryFetchContractRequest pb_wire sample_QueryFetchContractRequest"
  by (simp add: wf_QueryFetchContractRequest_def sample_QueryFetchContractRequest_def sample_simps)

lemma sample_QueryFetchContractRequest_wfj [simp]: "wfj_QueryFetchContractRequest sample_QueryFetchContractRequest"
  by (simp add: wfj_QueryFetchContractRequest_def sample_QueryFetchContractRequest_def sample_simps)

definition sample_QueryFetchContractResponse :: QueryFetchContractResponse where
  "sample_QueryFetchContractResponse =
     \<lparr>QueryFetchContractResponse.contract = Some sample_Contract\<rparr>"

lemma sample_QueryFetchContractResponse_wf [simp]: "wf_QueryFetchContractResponse pb_wire sample_QueryFetchContractResponse"
  by (simp add: wf_QueryFetchContractResponse_def sample_QueryFetchContractResponse_def sample_simps)

lemma sample_QueryFetchContractResponse_wfj [simp]: "wfj_QueryFetchContractResponse sample_QueryFetchContractResponse"
  by (simp add: wfj_QueryFetchContractResponse_def sample_QueryFetchContractResponse_def sample_simps)

definition sample_EventSettleContract :: EventSettleContract where
  "sample_EventSettleContract =
     \<lparr>EventSettleContract.provider = [2, 128, 255],
      EventSettleContract.contractId = Num 4,
      EventSettleContract.service = js ''service'',
      EventSettleContract.client = [2, 128, 255],
      EventSettleContract.delegate = [2, 128, 255],
      EventSettleContract.type' = ContractType_PAY_AS_YOU_GO,
      EventSettleContract.nonce = Num 9,
      EventSettleContract.height = Num 10,
      EventSettleContract.paid = js ''paid'',
      EventSettleContract.reserve = js ''reserve''\<rparr>"

lemma sample_EventSettleContract_wf [simp]: "wf_EventSettleContract pb_wire sample_EventSettleContract"
  by (simp add: wf_EventSettleContract_def sample_EventSettleContract_def sample_simps ContractType_defs)

lemma sample_EventSettleContract_wfj [simp]: "wfj_EventSettleContract sample_EventSettleContract"
  by (simp add: wfj_EventSettleContract_def sample_EventSettleContract_def sample_simps ContractType_known_def)

definition sample_ClaimRecord :: ClaimRecord where
  "sample_ClaimRecord =
     \<lparr>ClaimRecord.chain = Chain_ETHEREUM,
      ClaimRecord.address = js ''address'',
      ClaimRecord.amountClaim = Some sample_Coin,
      ClaimRecord.amountVote = Some sample_Coin,
      ClaimRecord.amountDelegate = Some sample_Coin,
      ClaimRecord.isTransferable = True\<rparr>"

lemma sample_ClaimRecord_wf [simp]: "wf_ClaimRecord pb_wire sample_ClaimRecord"
  by (simp add: wf_ClaimRecord_def sample_ClaimRecord_def sample_simps Chain_defs)

lemma sample_ClaimRecord_wfj [simp]: "wfj_ClaimRecord sample_ClaimRecord"
  by (simp add: wfj_ClaimRecord_def sample_ClaimRecord_def sample_simps Chain_known_def)

lemma sample_ClaimRecord_fits [simp]: "fits pb_wire (encode_ClaimRecord pb_wire sample_ClaimRecord)"
  by (rule fits_small) code_simp

definition sample_Duration :: Duration where
  "sample_Duration =
     \<lparr>Duration.seconds = Num 3,
      Duration.nanos = Num 4\<rparr>"

lemma sample_Duration_wf [simp]: "wf_Duration pb_wire sample_Duration"
  by (simp add: wf_Duration_def sample_Duration_def sample_simps)

lemma sample_Duration_wfj [simp]: "wfj_Duration sample_Duration"
  by (simp add: wfj_Duration_def sample_Duration_def sample_simps)

lemma sample_Duration_fits [simp]: "fits pb_wire (encode_Duration pb_wire sample_Duration)"
  by (rule fits_small) code_simp

definition sample_claim_Params :: claim_Params where
  "sample_claim_Params =
     \<lparr>claim_Params.airdropStartTime = Some (Num 0),
      claim_Params.durationUntilDecay = Some sample_Duration,
      claim_Params.durationOfDecay = Some sample_Duration,
      claim_Params.claimDenom = js ''claimden'',
      claim_Params.initialGasAmount = Some sample_Coin\<rparr>"

lemma sample_date [simp]:
  "fits pb_wire (encode_Timestamp pb_wire (toTimestamp (Num 0)))"
  by (rule fits_small) code_simp

lemma sample_claim_Params_wf [simp]: "wf_claim_Params pb_wire sample_claim_Params"
  by (simp add: wf_claim_Params_def sample_claim_Params_def sample_simps)

lemma sample_claim_Params_wfj [simp]: "wfj_claim_Params sample_claim_Params"
  by (simp add: wfj_claim_Params_def sample_claim_Params_def sample_simps)

lemma sample_claim_Params_fits [simp]: "fits pb_wire (encode_claim_Params pb_wire sample_claim_Params)"
  by (rule fits_small) code_simp

definition sample_claim_GenesisState :: claim_GenesisState where
  "sample_claim_GenesisState =
     \<lparr>claim_GenesisState.moduleAccountBalance = Some sample_Coin,
      claim_GenesisState.params = Some sample_claim_Params,
      claim_GenesisState.claimRecords = [sample_ClaimRecord]\<rparr>"

lemma sample_claim_GenesisState_wf [simp]: "wf_claim_GenesisState pb_wire sample_claim_GenesisState"
  by (simp add: wf_claim_GenesisState_def sample_claim_GenesisState_def sample_simps)

lemma sample_claim_GenesisState_wfj [simp]: "wfj_claim_GenesisState sample_claim_GenesisState"
  by (simp add: wfj_claim_GenesisState_def sample_claim_GenesisState_def sample_simps)

definition sample_MsgClaimEth :: MsgClaimEth where
  "sample_MsgClaimEth =
     \<lparr>MsgClaimEth.creator = js ''creator'',
      MsgClaimEth.ethAddress = js ''ethaddre'',
      MsgClaimEth.signature = js ''signatur''\<rparr>"

lemma sample_MsgClaimEth_wf [simp]: "wf_MsgClaimEth pb_wire sample_MsgClaimEth"
  by (simp add: wf_MsgClaimEth_def sample_MsgClaimEth_def sample_simps)

lemma sample_MsgClaimEth_wfj [simp]: "wfj_MsgClaimEth sample_MsgClaimEth"
  by (simp add: wfj_MsgClaimEth_def sample_MsgClaimEth_def sample_simps)

definition sample_MsgClaimEthResponse :: MsgClaimEthResponse where
  "sample_MsgClaimEthResponse =
     \<lparr>MsgClaimEthResponse.ethAddress = js ''ethaddre'',
      MsgClaimEthResponse.arkeoAddress = js ''arkeoadd'',
      MsgClaimEthResponse.ethClaimAmount = Num 5,
      MsgClaimEthResponse.arkeoClaimAmount = Num 6\<rparr>"

lemma sample_MsgClaimEthResponse_wf [simp]: "wf_MsgClaimEthResponse pb_wire sample_MsgClaimEthResponse"
  by (simp add: wf_MsgClaimEthResponse_def sample_MsgClaimEthResponse_def sample_simps)

lemma sample_MsgClaimEthResponse_wfj [simp]: "wfj_MsgClaimEthResponse sample_MsgClaimEthResponse"
  by (simp add: wfj_MsgClaimEthResponse_def sample_MsgClaimEthResponse_def sample_simps)

definition sample_QueryClaimRecordRequest :: QueryClaimRecordRequest where
  "sample_QueryClaimRecordRequest =
     \<lparr>QueryClaimRecordRequest.address = js ''address'',
      QueryClaimRecordRequest.chain = Chain_ETHEREUM\<rparr>"

lemma sample_QueryClaimRecordRequest_wf [simp]: "wf_QueryClaimRecordRequest pb_wire sample_QueryClaimRecordRequest"
  by (simp add: wf_QueryClaimRecordRequest_def sample_QueryClaimRecordRequest_def sample_simps Chain_defs)

lemma sample_QueryClaimRecordRequest_wfj [simp]: "wfj_QueryClaimRecordRequest sample_QueryClaimRecordRequest"
  by (simp add: wfj_QueryClaimRecordRequest_def sample_QueryClaimRecordRequest_def sample_simps Chain_known_def)

definition sample_QueryClaimRecordResponse :: QueryClaimRecordResponse where
  "sample_QueryClaimRecordResponse =
     \<lparr>QueryClaimRecordResponse.claimRecord = Some sample_ClaimRecord\<rparr>"

lemma sample_QueryClaimRecordResponse_wf [simp]: "wf_QueryClaimRecordResponse pb_wire sample_QueryClaimRecordResponse"
  by (simp add: wf_QueryClaimRecordResponse_def sample_QueryClaimRecordResponse_def sample_simps)

lemma sample_QueryClaimRecordResponse_wfj [simp]: "wfj_QueryClaimRecordResponse sample_QueryClaimRecordResponse"
  by (simp add: wfj_QueryClaimRecordResponse_def sample_QueryClaimRecordResponse_def sample_simps)

definition sample_PageRequest :: PageRequest where
  "sample_PageRequest =
     \<lparr>PageRequest.key = [2, 128, 255],
      PageRequest.offset = Num 4,
      PageRequest.limit = Num 5,
      PageRequest.countTotal = True,
      PageRequest.reverse = True\<rparr>"

lemma sample_PageRequest_wf [simp]: "wf_PageRequest pb_wire sample_PageRequest"
  by (simp add: wf_PageRequest_def sample_PageRequest_def sample_simps)

lemma sample_PageRequest_wfj [simp]: "wfj_PageRequest sample_PageRequest"
  by (simp add: wfj_PageRequest_def sample_PageRequest_def sample_simps)

section \<open>Servers\<close>

text \<open>A server of each interface whose state is a log of what it was asked.\<close>

definition sample_Msg :: "(MsgOpenContract list) Msg_service" where
  "sample_Msg =
     \<lparr>Msg_service.BondProvider = (\<lambda>q s. (Inr MsgBondProviderResponse, s)),
      Msg_service.ModProvider = (\<lambda>q s. (Inr MsgModProviderResponse, s)),
      Msg_service.OpenContract = (\<lambda>q s. (Inr MsgOpenContractResponse, s @ [q])),
      Msg_service.CloseContract = (\<lambda>q s. (Inr MsgCloseContractResponse, s)),
      Msg_service.ClaimContractIncome = (\<lambda>q s. (Inr MsgClaimContractIncomeResponse, s)),
      Msg_service.SetVersion = (\<lambda>q s. (Inr MsgSetVersionResponse, s)),
      Msg_service.RegisterService = (\<lambda>q s. (Inr MsgRegisterServiceResponse, s)),
      Msg_service.UpdateService = (\<lambda>q s. (Inr MsgUpdateServiceResponse, s)),
      Msg_service.RemoveService = (\<lambda>q s. (Inr MsgRemoveServiceResponse, s))\<rparr>"

definition sample_Msg_client :: "(MsgOpenContract list) client_impl" where
  "sample_Msg_client = new_MsgClientImpl (Msg_dispatch pb_wire sample_Msg) None"

lemma sample_Msg_served: "Msg_served pb_wire sample_Msg_client sample_Msg"
  unfolding sample_Msg_client_def by (rule Msg_dispatch_served)

definition sample_Query :: "(number list) Query_service" where
  "sample_Query =
     \<lparr>Query_service.Params = (\<lambda>q s. (Inl (Error ''unimplemented''), s)),
      Query_service.FetchProvider = (\<lambda>q s. (Inl (Error ''unimplemented''), s)),
      Query_service.ProviderAll = (\<lambda>q s. (Inl (Error ''unimplemented''), s)),
      Query_service.FetchContract = (\<lambda>q s. (Inr sample_QueryFetchContractResponse, s @ [QueryFetchContractRequest.contractId q])),
      Query_service.ContractAll = (\<lambda>q s. (Inl (Error ''unimplemented''), s)),
      Query_service.ActiveContract = (\<lambda>q s. (Inl (Error ''unimplemented''), s)),
      Query_service.AllServices = (\<lambda>q s. (Inl (Error ''unimplemented''), s)),
      Query_service.Service = (\<lambda>q s. (Inl (Error ''unimplemented''), s))\<rparr>"

definition sample_Query_client :: "(number list) client_impl" where
  "sample_Query_client = new_QueryClientImpl (Query_dispatch pb_wire sample_Query) None"

lemma sample_Query_served: "Query_served pb_wire sample_Query_client sample_Query"
  unfolding sample_Query_client_def by (rule Query_dispatch_served)

definition sample_claim_Msg :: "(MsgClaimEth list) claim_Msg_service" where
  "sample_claim_Msg =
     \<lparr>claim_Msg_service.ClaimEth = (\<lambda>q s. (Inr sample_MsgClaimEthResponse, s @ [q])),
      claim_Msg_service.ClaimArkeo = (\<lambda>q s. (Inl (Error ''unimplemented''), s)),
      claim_Msg_service.TransferClaim = (\<lambda>q s. (Inr MsgTransferClaimResponse, s)),
      claim_Msg_service.AddClaim = (\<lambda>q s. (Inr MsgAddClaimResponse, s)),
      claim_Msg_service.ClaimThorchain = (\<lambda>q s. (Inl (Error ''unimplemented''), s))\<rparr>"

definition sample_claim_Msg_client :: "(MsgClaimEth list) client_impl" where
  "sample_claim_Msg_client = new_claim_MsgClientImpl (claim_Msg_dispatch pb_wire sample_claim_Msg) None"

lemma sample_claim_Msg_served: "claim_Msg_served pb_wire sample_claim_Msg_client sample_claim_Msg"
  unfolding sample_claim_Msg_client_def by (rule claim_Msg_dispatch_served)

definition sample_claim_Query :: "(nat) claim_Query_service" where
  "sample_claim_Query =
     \<lparr>claim_Query_service.Params = (\<lambda>q s. (Inl (Error ''unimplemented''), s)),
      claim_Query_service.ClaimRecord = (\<lambda>q s. (Inr sample_QueryClaimRecordResponse, Suc s)),
      claim_Query_service.ClaimableForAction = (\<lambda>q s. (Inl (Error ''unimplemented''), s))\<rparr>"

definition sample_claim_Query_client :: "(nat) client_impl" where
  "sample_claim_Query_client = new_claim_QueryClientImpl (claim_Query_dispatch pb_wire sample_claim_Query) None"

lemma sample_claim_Query_served: "claim_Query_served pb_wire sample_claim_Query_client sample_claim_Query"
  unfolding sample_claim_Query_client_def by (rule claim_Query_dispatch_served)

end
