(* ===== verification/TcBase.thy ===== *)
theory TcBase
  imports LongCodec KeeperMsgs
begin

unbundle bit_operations_syntax

text \<open>
  The codecs of \<open>ts-client\<close> for coins, pagination and the stored objects of the arkeo module. A message
  whose interface is the one of \<open>arkeo/arkeo\<close> has the record of that message: the interfaces of
  TypeScript are structural.
\<close>


section \<open>ts-client/arkeo.arkeo/types/cosmos/base/v1beta1/coin.ts\<close>

subsection \<open>Coin\<close>

definition createBase_tc_Coin :: Coin where
  "createBase_tc_Coin = \<lparr>Coin.denom = [],
     Coin.amount = []\<rparr>"

definition encode_tc_Coin :: "('w, 'r) wire \<Rightarrow> Coin \<Rightarrow> 'w \<Rightarrow> 'w result" where
  "encode_tc_Coin L message = seqE
    [whenE (Coin.denom message \<noteq> []) (seqE [w_uint32 L 10, w_string L (Coin.denom message)]),
     whenE (Coin.amount message \<noteq> []) (seqE [w_uint32 L 18, w_string L (Coin.amount message)])]"

definition tc_Coin_switch :: "('w, 'r) wire \<Rightarrow> long_lib \<Rightarrow> u32 \<Rightarrow> Coin \<Rightarrow> (Coin, 'r) action" where
  "tc_Coin_switch L G tag message = js_switch (drop_bit 3 tag)
    [(1, readf (r_string L) (\<lambda>v. message\<lparr>Coin.denom := v\<rparr>)),
     (2, readf (r_string L) (\<lambda>v. message\<lparr>Coin.amount := v\<rparr>))]
    (skipType L tag message)"

definition decode_tc_Coin :: "('w, 'r) wire \<Rightarrow> long_lib \<Rightarrow> 'r input \<Rightarrow> nat option \<Rightarrow> (Coin \<times> 'r) result" where
  "decode_tc_Coin L G = decode_msg L (tc_Coin_switch L G) createBase_tc_Coin"

definition fromJSON_tc_Coin :: "host \<Rightarrow> jsval \<Rightarrow> Coin result" where
  "fromJSON_tc_Coin h object =
     bindE (fieldE object ''denom'' (stringE h) []) (\<lambda>v_denom.
     bindE (fieldE object ''amount'' (stringE h) []) (\<lambda>v_amount.
     Inr \<lparr>Coin.denom = v_denom, Coin.amount = v_amount\<rparr>))"

definition toJSON_tc_Coin :: "host \<Rightarrow> Coin \<Rightarrow> jsval result" where
  "toJSON_tc_Coin h message = objE
    [jfieldE True ''denom'' (Inr (JString (Coin.denom message))),
     jfieldE True ''amount'' (Inr (JString (Coin.amount message)))]"

definition fromPartial_tc_Coin :: "Coin_Partial \<Rightarrow> Coin" where
  "fromPartial_tc_Coin object = createBase_tc_Coin\<lparr>Coin.denom := nullish (Coin_Partial.denom object) [],
     Coin.amount := nullish (Coin_Partial.amount object) []\<rparr>"

subsection \<open>DecCoin\<close>

definition createBase_tc_DecCoin :: DecCoin where
  "createBase_tc_DecCoin = \<lparr>DecCoin.denom = [],
     DecCoin.amount = []\<rparr>"

definition encode_tc_DecCoin :: "('w, 'r) wire \<Rightarrow> DecCoin \<Rightarrow> 'w \<Rightarrow> 'w result" where
  "encode_tc_DecCoin L message = seqE
    [whenE (DecCoin.denom message \<noteq> []) (seqE [w_uint32 L 10, w_string L (DecCoin.denom message)]),
     whenE (DecCoin.amount message \<noteq> []) (seqE [w_uint32 L 18, w_string L (DecCoin.amount message)])]"

definition tc_DecCoin_switch :: "('w, 'r) wire \<Rightarrow> long_lib \<Rightarrow> u32 \<Rightarrow> DecCoin \<Rightarrow> (DecCoin, 'r) action" where
  "tc_DecCoin_switch L G tag message = js_switch (drop_bit 3 tag)
    [(1, readf (r_string L) (\<lambda>v. message\<lparr>DecCoin.denom := v\<rparr>)),
     (2, readf (r_string L) (\<lambda>v. message\<lparr>DecCoin.amount := v\<rparr>))]
    (skipType L tag message)"

definition decode_tc_DecCoin :: "('w, 'r) wire \<Rightarrow> long_lib \<Rightarrow> 'r input \<Rightarrow> nat option \<Rightarrow> (DecCoin \<times> 'r) result" where
  "decode_tc_DecCoin L G = decode_msg L (tc_DecCoin_switch L G) createBase_tc_DecCoin"

definition fromJSON_tc_DecCoin :: "host \<Rightarrow> jsval \<Rightarrow> DecCoin result" where
  "fromJSON_tc_DecCoin h object =
     bindE (fieldE object ''denom'' (stringE h) []) (\<lambda>v_denom.
     bindE (fieldE object ''amount'' (stringE h) []) (\<lambda>v_amount.
     Inr \<lparr>DecCoin.denom = v_denom, DecCoin.amount = v_amount\<rparr>))"

definition toJSON_tc_DecCoin :: "host \<Rightarrow> DecCoin \<Rightarrow> jsval result" where
  "toJSON_tc_DecCoin h message = objE
    [jfieldE True ''denom'' (Inr (JString (DecCoin.denom message))),
     jfieldE True ''amount'' (Inr (JString (DecCoin.amount message)))]"

definition fromPartial_tc_DecCoin :: "DecCoin_Partial \<Rightarrow> DecCoin" where
  "fromPartial_tc_DecCoin object = createBase_tc_DecCoin\<lparr>DecCoin.denom := nullish (DecCoin_Partial.denom object) [],
     DecCoin.amount := nullish (DecCoin_Partial.amount object) []\<rparr>"

subsection \<open>IntProto\<close>

record tc_IntProto =
  int' :: jsstring

definition createBase_tc_IntProto :: tc_IntProto where
  "createBase_tc_IntProto = \<lparr>tc_IntProto.int' = []\<rparr>"

definition encode_tc_IntProto :: "('w, 'r) wire \<Rightarrow> tc_IntProto \<Rightarrow> 'w \<Rightarrow> 'w result" where
  "encode_tc_IntProto L message = seqE
    [whenE (tc_IntProto.int' message \<noteq> []) (seqE [w_uint32 L 10, w_string L (tc_IntProto.int' message)])]"

definition tc_IntProto_switch :: "('w, 'r) wire \<Rightarrow> long_lib \<Rightarrow> u32 \<Rightarrow> tc_IntProto \<Rightarrow> (tc_IntProto, 'r) action" where
  "tc_IntProto_switch L G tag message = js_switch (drop_bit 3 tag)
    [(1, readf (r_string L) (\<lambda>v. message\<lparr>tc_IntProto.int' := v\<rparr>))]
    (skipType L tag message)"

definition decode_tc_IntProto :: "('w, 'r) wire \<Rightarrow> long_lib \<Rightarrow> 'r input \<Rightarrow> nat option \<Rightarrow> (tc_IntProto \<times> 'r) result" where
  "decode_tc_IntProto L G = decode_msg L (tc_IntProto_switch L G) createBase_tc_IntProto"

definition fromJSON_tc_IntProto :: "host \<Rightarrow> jsval \<Rightarrow> tc_IntProto result" where
  "fromJSON_tc_IntProto h object =
     bindE (fieldE object ''int'' (stringE h) []) (\<lambda>v_int.
     Inr \<lparr>tc_IntProto.int' = v_int\<rparr>)"

definition toJSON_tc_IntProto :: "host \<Rightarrow> tc_IntProto \<Rightarrow> jsval result" where
  "toJSON_tc_IntProto h message = objE
    [jfieldE True ''int'' (Inr (JString (tc_IntProto.int' message)))]"

record tc_IntProto_Partial =
  int' :: "jsstring option"

definition fromPartial_tc_IntProto :: "tc_IntProto_Partial \<Rightarrow> tc_IntProto" where
  "fromPartial_tc_IntProto object = createBase_tc_IntProto\<lparr>tc_IntProto.int' := nullish (tc_IntProto_Partial.int' object) []\<rparr>"

text \<open>A partial message that sets every field.\<close>

definition partial_of_tc_IntProto :: "tc_IntProto \<Rightarrow> tc_IntProto_Partial" where
  "partial_of_tc_IntProto m =
     \<lparr>tc_IntProto_Partial.int' = Some (tc_IntProto.int' m)\<rparr>"

definition wf_tc_IntProto :: "('w, 'r) wire \<Rightarrow> tc_IntProto \<Rightarrow> bool" where
  "wf_tc_IntProto L m \<longleftrightarrow> wire_string (tc_IntProto.int' m)"

definition wfj_tc_IntProto :: "tc_IntProto \<Rightarrow> bool" where
  "wfj_tc_IntProto m \<longleftrightarrow> True"

subsection \<open>DecProto\<close>

record tc_DecProto =
  dec' :: jsstring

definition createBase_tc_DecProto :: tc_DecProto where
  "createBase_tc_DecProto = \<lparr>tc_DecProto.dec' = []\<rparr>"

definition encode_tc_DecProto :: "('w, 'r) wire \<Rightarrow> tc_DecProto \<Rightarrow> 'w \<Rightarrow> 'w result" where
  "encode_tc_DecProto L message = seqE
    [whenE (tc_DecProto.dec' message \<noteq> []) (seqE [w_uint32 L 10, w_string L (tc_DecProto.dec' message)])]"

definition tc_DecProto_switch :: "('w, 'r) wire \<Rightarrow> long_lib \<Rightarrow> u32 \<Rightarrow> tc_DecProto \<Rightarrow> (tc_DecProto, 'r) action" where
  "tc_DecProto_switch L G tag message = js_switch (drop_bit 3 tag)
    [(1, readf (r_string L) (\<lambda>v. message\<lparr>tc_DecProto.dec' := v\<rparr>))]
    (skipType L tag message)"

definition decode_tc_DecProto :: "('w, 'r) wire \<Rightarrow> long_lib \<Rightarrow> 'r input \<Rightarrow> nat option \<Rightarrow> (tc_DecProto \<times> 'r) result" where
  "decode_tc_DecProto L G = decode_msg L (tc_DecProto_switch L G) createBase_tc_DecProto"

definition fromJSON_tc_DecProto :: "host \<Rightarrow> jsval \<Rightarrow> tc_DecProto result" where
  "fromJSON_tc_DecProto h object =
     bindE (fieldE object ''dec'' (stringE h) []) (\<lambda>v_dec.
     Inr \<lparr>tc_DecProto.dec' = v_dec\<rparr>)"

definition toJSON_tc_DecProto :: "host \<Rightarrow> tc_DecProto \<Rightarrow> jsval result" where
  "toJSON_tc_DecProto h message = objE
    [jfieldE True ''dec'' (Inr (JString (tc_DecProto.dec' message)))]"

record tc_DecProto_Partial =
  dec' :: "jsstring option"

definition fromPartial_tc_DecProto :: "tc_DecProto_Partial \<Rightarrow> tc_DecProto" where
  "fromPartial_tc_DecProto object = createBase_tc_DecProto\<lparr>tc_DecProto.dec' := nullish (tc_DecProto_Partial.dec' object) []\<rparr>"

text \<open>A partial message that sets every field.\<close>

definition partial_of_tc_DecProto :: "tc_DecProto \<Rightarrow> tc_DecProto_Partial" where
  "partial_of_tc_DecProto m =
     \<lparr>tc_DecProto_Partial.dec' = Some (tc_DecProto.dec' m)\<rparr>"

definition wf_tc_DecProto :: "('w, 'r) wire \<Rightarrow> tc_DecProto \<Rightarrow> bool" where
  "wf_tc_DecProto L m \<longleftrightarrow> wire_string (tc_DecProto.dec' m)"

definition wfj_tc_DecProto :: "tc_DecProto \<Rightarrow> bool" where
  "wfj_tc_DecProto m \<longleftrightarrow> True"


section \<open>ts-client/arkeo.arkeo/types/cosmos/base/query/v1beta1/pagination.ts\<close>

subsection \<open>PageRequest\<close>

definition createBase_tc_PageRequest :: PageRequest where
  "createBase_tc_PageRequest = \<lparr>PageRequest.key = [],
     PageRequest.offset = Num 0,
     PageRequest.limit = Num 0,
     PageRequest.countTotal = False,
     PageRequest.reverse = False\<rparr>"

definition encode_tc_PageRequest :: "('w, 'r) wire \<Rightarrow> PageRequest \<Rightarrow> 'w \<Rightarrow> 'w result" where
  "encode_tc_PageRequest L message = seqE
    [whenE (length (PageRequest.key message) \<noteq> 0) (seqE [w_uint32 L 10, w_bytes L (PageRequest.key message)]),
     whenE (PageRequest.offset message \<noteq> Num 0) (seqE [w_uint32 L 16, w_uint64 L (PageRequest.offset message)]),
     whenE (PageRequest.limit message \<noteq> Num 0) (seqE [w_uint32 L 24, w_uint64 L (PageRequest.limit message)]),
     whenE (PageRequest.countTotal message = True) (seqE [w_uint32 L 32, w_bool L (PageRequest.countTotal message)]),
     whenE (PageRequest.reverse message = True) (seqE [w_uint32 L 40, w_bool L (PageRequest.reverse message)])]"

definition tc_PageRequest_switch :: "('w, 'r) wire \<Rightarrow> long_lib \<Rightarrow> u32 \<Rightarrow> PageRequest \<Rightarrow> (PageRequest, 'r) action" where
  "tc_PageRequest_switch L G tag message = js_switch (drop_bit 3 tag)
    [(1, readf (r_bytes L) (\<lambda>v. message\<lparr>PageRequest.key := v\<rparr>)),
     (2, readf (num64l G (r_uint64 L)) (\<lambda>v. message\<lparr>PageRequest.offset := v\<rparr>)),
     (3, readf (num64l G (r_uint64 L)) (\<lambda>v. message\<lparr>PageRequest.limit := v\<rparr>)),
     (4, readf (r_bool L) (\<lambda>v. message\<lparr>PageRequest.countTotal := v\<rparr>)),
     (5, readf (r_bool L) (\<lambda>v. message\<lparr>PageRequest.reverse := v\<rparr>))]
    (skipType L tag message)"

definition decode_tc_PageRequest :: "('w, 'r) wire \<Rightarrow> long_lib \<Rightarrow> 'r input \<Rightarrow> nat option \<Rightarrow> (PageRequest \<times> 'r) result" where
  "decode_tc_PageRequest L G = decode_msg L (tc_PageRequest_switch L G) createBase_tc_PageRequest"

definition fromJSON_tc_PageRequest :: "host \<Rightarrow> jsval \<Rightarrow> PageRequest result" where
  "fromJSON_tc_PageRequest h object =
     bindE (fieldE object ''key'' (bytesFromBase64 h) []) (\<lambda>v_key.
     bindE (fieldE object ''offset'' (numberE h) (Num 0)) (\<lambda>v_offset.
     bindE (fieldE object ''limit'' (numberE h) (Num 0)) (\<lambda>v_limit.
     bindE (fieldE object ''countTotal'' booleanE False) (\<lambda>v_countTotal.
     bindE (fieldE object ''reverse'' booleanE False) (\<lambda>v_reverse.
     Inr \<lparr>PageRequest.key = v_key, PageRequest.offset = v_offset, PageRequest.limit = v_limit, PageRequest.countTotal = v_countTotal, PageRequest.reverse = v_reverse\<rparr>)))))"

definition toJSON_tc_PageRequest :: "host \<Rightarrow> PageRequest \<Rightarrow> jsval result" where
  "toJSON_tc_PageRequest h message = objE
    [jfieldE True ''key'' (base64E h (PageRequest.key message)),
     jfieldE True ''offset'' (Inr (JNumber (Math_round (PageRequest.offset message)))),
     jfieldE True ''limit'' (Inr (JNumber (Math_round (PageRequest.limit message)))),
     jfieldE True ''countTotal'' (Inr (JBool (PageRequest.countTotal message))),
     jfieldE True ''reverse'' (Inr (JBool (PageRequest.reverse message)))]"

definition fromPartial_tc_PageRequest :: "PageRequest_Partial \<Rightarrow> PageRequest" where
  "fromPartial_tc_PageRequest object = createBase_tc_PageRequest\<lparr>PageRequest.key := nullish (PageRequest_Partial.key object) [],
     PageRequest.offset := nullish (PageRequest_Partial.offset object) (Num 0),
     PageRequest.limit := nullish (PageRequest_Partial.limit object) (Num 0),
     PageRequest.countTotal := nullish (PageRequest_Partial.countTotal object) False,
     PageRequest.reverse := nullish (PageRequest_Partial.reverse object) False\<rparr>"

subsection \<open>PageResponse\<close>

definition createBase_tc_PageResponse :: PageResponse where
  "createBase_tc_PageResponse = \<lparr>PageResponse.nextKey = [],
     PageResponse.total = Num 0\<rparr>"

definition encode_tc_PageResponse :: "('w, 'r) wire \<Rightarrow> PageResponse \<Rightarrow> 'w \<Rightarrow> 'w result" where
  "encode_tc_PageResponse L message = seqE
    [whenE (length (PageResponse.nextKey message) \<noteq> 0) (seqE [w_uint32 L 10, w_bytes L (PageResponse.nextKey message)]),
     whenE (PageResponse.total message \<noteq> Num 0) (seqE [w_uint32 L 16, w_uint64 L (PageResponse.total message)])]"

definition tc_PageResponse_switch :: "('w, 'r) wire \<Rightarrow> long_lib \<Rightarrow> u32 \<Rightarrow> PageResponse \<Rightarrow> (PageResponse, 'r) action" where
  "tc_PageResponse_switch L G tag message = js_switch (drop_bit 3 tag)
    [(1, readf (r_bytes L) (\<lambda>v. message\<lparr>PageResponse.nextKey := v\<rparr>)),
     (2, readf (num64l G (r_uint64 L)) (\<lambda>v. message\<lparr>PageResponse.total := v\<rparr>))]
    (skipType L tag message)"

definition decode_tc_PageResponse :: "('w, 'r) wire \<Rightarrow> long_lib \<Rightarrow> 'r input \<Rightarrow> nat option \<Rightarrow> (PageResponse \<times> 'r) result" where
  "decode_tc_PageResponse L G = decode_msg L (tc_PageResponse_switch L G) createBase_tc_PageResponse"

definition fromJSON_tc_PageResponse :: "host \<Rightarrow> jsval \<Rightarrow> PageResponse result" where
  "fromJSON_tc_PageResponse h object =
     bindE (fieldE object ''nextKey'' (bytesFromBase64 h) []) (\<lambda>v_nextKey.
     bindE (fieldE object ''total'' (numberE h) (Num 0)) (\<lambda>v_total.
     Inr \<lparr>PageResponse.nextKey = v_nextKey, PageResponse.total = v_total\<rparr>))"

definition toJSON_tc_PageResponse :: "host \<Rightarrow> PageResponse \<Rightarrow> jsval result" where
  "toJSON_tc_PageResponse h message = objE
    [jfieldE True ''nextKey'' (base64E h (PageResponse.nextKey message)),
     jfieldE True ''total'' (Inr (JNumber (Math_round (PageResponse.total message))))]"

definition fromPartial_tc_PageResponse :: "PageResponse_Partial \<Rightarrow> PageResponse" where
  "fromPartial_tc_PageResponse object = createBase_tc_PageResponse\<lparr>PageResponse.nextKey := nullish (PageResponse_Partial.nextKey object) [],
     PageResponse.total := nullish (PageResponse_Partial.total object) (Num 0)\<rparr>"


section \<open>ts-client/arkeo.arkeo/types/arkeo/arkeo/keeper.ts\<close>

definition tc_ProviderStatus_OFFLINE :: ProviderStatus where
  "tc_ProviderStatus_OFFLINE = Num 0"

definition tc_ProviderStatus_ONLINE :: ProviderStatus where
  "tc_ProviderStatus_ONLINE = Num 1"

definition tc_ProviderStatus_UNRECOGNIZED :: ProviderStatus where
  "tc_ProviderStatus_UNRECOGNIZED = Num (- 1)"

definition tc_providerStatusFromJSON :: "jsval \<Rightarrow> ProviderStatus" where
  "tc_providerStatusFromJSON object =
    (if object = JNumber (Num 0) \<or> object = JString (js ''OFFLINE'')
       then tc_ProviderStatus_OFFLINE
     else if object = JNumber (Num 1) \<or> object = JString (js ''ONLINE'')
       then tc_ProviderStatus_ONLINE
     else tc_ProviderStatus_UNRECOGNIZED)"

definition tc_providerStatusToJSON :: "ProviderStatus \<Rightarrow> jsstring" where
  "tc_providerStatusToJSON object =
    (if object = tc_ProviderStatus_OFFLINE then js ''OFFLINE''
     else if object = tc_ProviderStatus_ONLINE then js ''ONLINE''
     else js ''UNRECOGNIZED'')"


definition tc_ContractType_SUBSCRIPTION :: ContractType where
  "tc_ContractType_SUBSCRIPTION = Num 0"

definition tc_ContractType_PAY_AS_YOU_GO :: ContractType where
  "tc_ContractType_PAY_AS_YOU_GO = Num 1"

definition tc_ContractType_UNRECOGNIZED :: ContractType where
  "tc_ContractType_UNRECOGNIZED = Num (- 1)"

definition tc_contractTypeFromJSON :: "jsval \<Rightarrow> ContractType" where
  "tc_contractTypeFromJSON object =
    (if object = JNumber (Num 0) \<or> object = JString (js ''SUBSCRIPTION'')
       then tc_ContractType_SUBSCRIPTION
     else if object = JNumber (Num 1) \<or> object = JString (js ''PAY_AS_YOU_GO'')
       then tc_ContractType_PAY_AS_YOU_GO
     else tc_ContractType_UNRECOGNIZED)"

definition tc_contractTypeToJSON :: "ContractType \<Rightarrow> jsstring" where
  "tc_contractTypeToJSON object =
    (if object = tc_ContractType_SUBSCRIPTION then js ''SUBSCRIPTION''
     else if object = tc_ContractType_PAY_AS_YOU_GO then js ''PAY_AS_YOU_GO''
     else js ''UNRECOGNIZED'')"


definition tc_ContractAuthorization_STRICT :: ContractAuthorization where
  "tc_ContractAuthorization_STRICT = Num 0"

definition tc_ContractAuthorization_OPEN :: ContractAuthorization where
  "tc_ContractAuthorization_OPEN = Num 1"

definition tc_ContractAuthorization_UNRECOGNIZED :: ContractAuthorization where
  "tc_ContractAuthorization_UNRECOGNIZED = Num (- 1)"

definition tc_contractAuthorizationFromJSON :: "jsval \<Rightarrow> ContractAuthorization" where
  "tc_contractAuthorizationFromJSON object =
    (if object = JNumber (Num 0) \<or> object = JString (js ''STRICT'')
       then tc_ContractAuthorization_STRICT
     else if object = JNumber (Num 1) \<or> object = JString (js ''OPEN'')
       then tc_ContractAuthorization_OPEN
     else tc_ContractAuthorization_UNRECOGNIZED)"

definition tc_contractAuthorizationToJSON :: "ContractAuthorization \<Rightarrow> jsstring" where
  "tc_contractAuthorizationToJSON object =
    (if object = tc_ContractAuthorization_STRICT then js ''STRICT''
     else if object = tc_ContractAuthorization_OPEN then js ''OPEN''
     else js ''UNRECOGNIZED'')"


subsection \<open>Provider\<close>

definition createBase_tc_Provider :: Provider where
  "createBase_tc_Provider = \<lparr>Provider.pubKey = [],
     Provider.service = Num 0,
     Provider.metadataUri = [],
     Provider.metadataNonce = Num 0,
     Provider.status = Num 0,
     Provider.minContractDuration = Num 0,
     Provider.maxContractDuration = Num 0,
     Provider.subscriptionRate = [],
     Provider.payAsYouGoRate = [],
     Provider.bond = [],
     Provider.lastUpdate = Num 0,
     Provider.settlementDuration = Num 0\<rparr>"

definition encode_tc_Provider :: "('w, 'r) wire \<Rightarrow> Provider \<Rightarrow> 'w \<Rightarrow> 'w result" where
  "encode_tc_Provider L message = seqE
    [whenE (length (Provider.pubKey message) \<noteq> 0) (seqE [w_uint32 L 10, w_bytes L (Provider.pubKey message)]),
     whenE (Provider.service message \<noteq> Num 0) (seqE [w_uint32 L 16, w_int32 L (Provider.service message)]),
     whenE (Provider.metadataUri message \<noteq> []) (seqE [w_uint32 L 26, w_string L (Provider.metadataUri message)]),
     whenE (Provider.metadataNonce message \<noteq> Num 0) (seqE [w_uint32 L 32, w_uint64 L (Provider.metadataNonce message)]),
     whenE (Provider.status message \<noteq> Num 0) (seqE [w_uint32 L 40, w_int32 L (Provider.status message)]),
     whenE (Provider.minContractDuration message \<noteq> Num 0) (seqE [w_uint32 L 48, w_int64 L (Provider.minContractDuration message)]),
     whenE (Provider.maxContractDuration message \<noteq> Num 0) (seqE [w_uint32 L 56, w_int64 L (Provider.maxContractDuration message)]),
     forE (\<lambda>v. seqE [w_uint32 L 66, w_fork L, encode_tc_Coin L v, w_join L]) (Provider.subscriptionRate message),
     forE (\<lambda>v. seqE [w_uint32 L 74, w_fork L, encode_tc_Coin L v, w_join L]) (Provider.payAsYouGoRate message),
     whenE (Provider.bond message \<noteq> []) (seqE [w_uint32 L 82, w_string L (Provider.bond message)]),
     whenE (Provider.lastUpdate message \<noteq> Num 0) (seqE [w_uint32 L 88, w_int64 L (Provider.lastUpdate message)]),
     whenE (Provider.settlementDuration message \<noteq> Num 0) (seqE [w_uint32 L 96, w_int64 L (Provider.settlementDuration message)])]"

definition tc_Provider_switch :: "('w, 'r) wire \<Rightarrow> long_lib \<Rightarrow> u32 \<Rightarrow> Provider \<Rightarrow> (Provider, 'r) action" where
  "tc_Provider_switch L G tag message = js_switch (drop_bit 3 tag)
    [(1, readf (r_bytes L) (\<lambda>v. message\<lparr>Provider.pubKey := v\<rparr>)),
     (2, readf (num32 (r_int32 L)) (\<lambda>v. message\<lparr>Provider.service := v\<rparr>)),
     (3, readf (r_string L) (\<lambda>v. message\<lparr>Provider.metadataUri := v\<rparr>)),
     (4, readf (num64l G (r_uint64 L)) (\<lambda>v. message\<lparr>Provider.metadataNonce := v\<rparr>)),
     (5, readf (num32 (r_int32 L)) (\<lambda>v. message\<lparr>Provider.status := v\<rparr>)),
     (6, readf (num64l G (r_int64 L)) (\<lambda>v. message\<lparr>Provider.minContractDuration := v\<rparr>)),
     (7, readf (num64l G (r_int64 L)) (\<lambda>v. message\<lparr>Provider.maxContractDuration := v\<rparr>)),
     (8, readf (submsg L (decode_tc_Coin L G)) (\<lambda>v. message\<lparr>Provider.subscriptionRate := Provider.subscriptionRate message @ [v]\<rparr>)),
     (9, readf (submsg L (decode_tc_Coin L G)) (\<lambda>v. message\<lparr>Provider.payAsYouGoRate := Provider.payAsYouGoRate message @ [v]\<rparr>)),
     (10, readf (r_string L) (\<lambda>v. message\<lparr>Provider.bond := v\<rparr>)),
     (11, readf (num64l G (r_int64 L)) (\<lambda>v. message\<lparr>Provider.lastUpdate := v\<rparr>)),
     (12, readf (num64l G (r_int64 L)) (\<lambda>v. message\<lparr>Provider.settlementDuration := v\<rparr>))]
    (skipType L tag message)"

definition decode_tc_Provider :: "('w, 'r) wire \<Rightarrow> long_lib \<Rightarrow> 'r input \<Rightarrow> nat option \<Rightarrow> (Provider \<times> 'r) result" where
  "decode_tc_Provider L G = decode_msg L (tc_Provider_switch L G) createBase_tc_Provider"

definition fromJSON_tc_Provider :: "host \<Rightarrow> jsval \<Rightarrow> Provider result" where
  "fromJSON_tc_Provider h object =
     bindE (fieldE object ''pubKey'' (bytesFromBase64 h) []) (\<lambda>v_pubKey.
     bindE (fieldE object ''service'' (numberE h) (Num 0)) (\<lambda>v_service.
     bindE (fieldE object ''metadataUri'' (stringE h) []) (\<lambda>v_metadataUri.
     bindE (fieldE object ''metadataNonce'' (numberE h) (Num 0)) (\<lambda>v_metadataNonce.
     bindE (fieldE object ''status'' (enumE tc_providerStatusFromJSON) (Num 0)) (\<lambda>v_status.
     bindE (fieldE object ''minContractDuration'' (numberE h) (Num 0)) (\<lambda>v_minContractDuration.
     bindE (fieldE object ''maxContractDuration'' (numberE h) (Num 0)) (\<lambda>v_maxContractDuration.
     bindE (arrayE object ''subscriptionRate'' (fromJSON_tc_Coin h)) (\<lambda>v_subscriptionRate.
     bindE (arrayE object ''payAsYouGoRate'' (fromJSON_tc_Coin h)) (\<lambda>v_payAsYouGoRate.
     bindE (fieldE object ''bond'' (stringE h) []) (\<lambda>v_bond.
     bindE (fieldE object ''lastUpdate'' (numberE h) (Num 0)) (\<lambda>v_lastUpdate.
     bindE (fieldE object ''settlementDuration'' (numberE h) (Num 0)) (\<lambda>v_settlementDuration.
     Inr \<lparr>Provider.pubKey = v_pubKey, Provider.service = v_service, Provider.metadataUri = v_metadataUri, Provider.metadataNonce = v_metadataNonce, Provider.status = v_status, Provider.minContractDuration = v_minContractDuration, Provider.maxContractDuration = v_maxContractDuration, Provider.subscriptionRate = v_subscriptionRate, Provider.payAsYouGoRate = v_payAsYouGoRate, Provider.bond = v_bond, Provider.lastUpdate = v_lastUpdate, Provider.settlementDuration = v_settlementDuration\<rparr>))))))))))))"

definition toJSON_tc_Provider :: "host \<Rightarrow> Provider \<Rightarrow> jsval result" where
  "toJSON_tc_Provider h message = objE
    [jfieldE True ''pubKey'' (base64E h (Provider.pubKey message)),
     jfieldE True ''service'' (Inr (JNumber (Math_round (Provider.service message)))),
     jfieldE True ''metadataUri'' (Inr (JString (Provider.metadataUri message))),
     jfieldE True ''metadataNonce'' (Inr (JNumber (Math_round (Provider.metadataNonce message)))),
     jfieldE True ''status'' (Inr (JString (tc_providerStatusToJSON (Provider.status message)))),
     jfieldE True ''minContractDuration'' (Inr (JNumber (Math_round (Provider.minContractDuration message)))),
     jfieldE True ''maxContractDuration'' (Inr (JNumber (Math_round (Provider.maxContractDuration message)))),
     jlistE ''subscriptionRate'' (toJSON_tc_Coin h) (Provider.subscriptionRate message),
     jlistE ''payAsYouGoRate'' (toJSON_tc_Coin h) (Provider.payAsYouGoRate message),
     jfieldE True ''bond'' (Inr (JString (Provider.bond message))),
     jfieldE True ''lastUpdate'' (Inr (JNumber (Math_round (Provider.lastUpdate message)))),
     jfieldE True ''settlementDuration'' (Inr (JNumber (Math_round (Provider.settlementDuration message))))]"

definition fromPartial_tc_Provider :: "Provider_Partial \<Rightarrow> Provider" where
  "fromPartial_tc_Provider object = createBase_tc_Provider\<lparr>Provider.pubKey := nullish (Provider_Partial.pubKey object) [],
     Provider.service := nullish (Provider_Partial.service object) (Num 0),
     Provider.metadataUri := nullish (Provider_Partial.metadataUri object) [],
     Provider.metadataNonce := nullish (Provider_Partial.metadataNonce object) (Num 0),
     Provider.status := nullish (Provider_Partial.status object) (Num 0),
     Provider.minContractDuration := nullish (Provider_Partial.minContractDuration object) (Num 0),
     Provider.maxContractDuration := nullish (Provider_Partial.maxContractDuration object) (Num 0),
     Provider.subscriptionRate := partial_map fromPartial_tc_Coin (Provider_Partial.subscriptionRate object),
     Provider.payAsYouGoRate := partial_map fromPartial_tc_Coin (Provider_Partial.payAsYouGoRate object),
     Provider.bond := nullish (Provider_Partial.bond object) [],
     Provider.lastUpdate := nullish (Provider_Partial.lastUpdate object) (Num 0),
     Provider.settlementDuration := nullish (Provider_Partial.settlementDuration object) (Num 0)\<rparr>"

subsection \<open>Contract\<close>

definition createBase_tc_Contract :: Contract where
  "createBase_tc_Contract = \<lparr>Contract.provider = [],
     Contract.service = Num 0,
     Contract.client = [],
     Contract.delegate = [],
     Contract.type' = Num 0,
     Contract.height = Num 0,
     Contract.duration = Num 0,
     Contract.rate = None,
     Contract.deposit = [],
     Contract.paid = [],
     Contract.nonce = Num 0,
     Contract.settlementHeight = Num 0,
     Contract.id' = Num 0,
     Contract.settlementDuration = Num 0,
     Contract.authorization = Num 0,
     Contract.queriesPerMinute = Num 0\<rparr>"

definition encode_tc_Contract :: "('w, 'r) wire \<Rightarrow> Contract \<Rightarrow> 'w \<Rightarrow> 'w result" where
  "encode_tc_Contract L message = seqE
    [whenE (length (Contract.provider message) \<noteq> 0) (seqE [w_uint32 L 10, w_bytes L (Contract.provider message)]),
     whenE (Contract.service message \<noteq> Num 0) (seqE [w_uint32 L 16, w_int32 L (Contract.service message)]),
     whenE (length (Contract.client message) \<noteq> 0) (seqE [w_uint32 L 26, w_bytes L (Contract.client message)]),
     whenE (length (Contract.delegate message) \<noteq> 0) (seqE [w_uint32 L 34, w_bytes L (Contract.delegate message)]),
     whenE (Contract.type' message \<noteq> Num 0) (seqE [w_uint32 L 40, w_int32 L (Contract.type' message)]),
     whenE (Contract.height message \<noteq> Num 0) (seqE [w_uint32 L 48, w_int64 L (Contract.height message)]),
     whenE (Contract.duration message \<noteq> Num 0) (seqE [w_uint32 L 56, w_int64 L (Contract.duration message)]),
     someE (Contract.rate message) (\<lambda>v. seqE [w_uint32 L 66, w_fork L, encode_tc_Coin L v, w_join L]),
     whenE (Contract.deposit message \<noteq> []) (seqE [w_uint32 L 74, w_string L (Contract.deposit message)]),
     whenE (Contract.paid message \<noteq> []) (seqE [w_uint32 L 82, w_string L (Contract.paid message)]),
     whenE (Contract.nonce message \<noteq> Num 0) (seqE [w_uint32 L 88, w_int64 L (Contract.nonce message)]),
     whenE (Contract.settlementHeight message \<noteq> Num 0) (seqE [w_uint32 L 96, w_int64 L (Contract.settlementHeight message)]),
     whenE (Contract.id' message \<noteq> Num 0) (seqE [w_uint32 L 104, w_uint64 L (Contract.id' message)]),
     whenE (Contract.settlementDuration message \<noteq> Num 0) (seqE [w_uint32 L 112, w_int64 L (Contract.settlementDuration message)]),
     whenE (Contract.authorization message \<noteq> Num 0) (seqE [w_uint32 L 120, w_int32 L (Contract.authorization message)]),
     whenE (Contract.queriesPerMinute message \<noteq> Num 0) (seqE [w_uint32 L 128, w_int64 L (Contract.queriesPerMinute message)])]"

definition tc_Contract_switch :: "('w, 'r) wire \<Rightarrow> long_lib \<Rightarrow> u32 \<Rightarrow> Contract \<Rightarrow> (Contract, 'r) action" where
  "tc_Contract_switch L G tag message = js_switch (drop_bit 3 tag)
    [(1, readf (r_bytes L) (\<lambda>v. message\<lparr>Contract.provider := v\<rparr>)),
     (2, readf (num32 (r_int32 L)) (\<lambda>v. message\<lparr>Contract.service := v\<rparr>)),
     (3, readf (r_bytes L) (\<lambda>v. message\<lparr>Contract.client := v\<rparr>)),
     (4, readf (r_bytes L) (\<lambda>v. message\<lparr>Contract.delegate := v\<rparr>)),
     (5, readf (num32 (r_int32 L)) (\<lambda>v. message\<lparr>Contract.type' := v\<rparr>)),
     (6, readf (num64l G (r_int64 L)) (\<lambda>v. message\<lparr>Contract.height := v\<rparr>)),
     (7, readf (num64l G (r_int64 L)) (\<lambda>v. message\<lparr>Contract.duration := v\<rparr>)),
     (8, readf (submsg L (decode_tc_Coin L G)) (\<lambda>v. message\<lparr>Contract.rate := Some v\<rparr>)),
     (9, readf (r_string L) (\<lambda>v. message\<lparr>Contract.deposit := v\<rparr>)),
     (10, readf (r_string L) (\<lambda>v. message\<lparr>Contract.paid := v\<rparr>)),
     (11, readf (num64l G (r_int64 L)) (\<lambda>v. message\<lparr>Contract.nonce := v\<rparr>)),
     (12, readf (num64l G (r_int64 L)) (\<lambda>v. message\<lparr>Contract.settlementHeight := v\<rparr>)),
     (13, readf (num64l G (r_uint64 L)) (\<lambda>v. message\<lparr>Contract.id' := v\<rparr>)),
     (14, readf (num64l G (r_int64 L)) (\<lambda>v. message\<lparr>Contract.settlementDuration := v\<rparr>)),
     (15, readf (num32 (r_int32 L)) (\<lambda>v. message\<lparr>Contract.authorization := v\<rparr>)),
     (16, readf (num64l G (r_int64 L)) (\<lambda>v. message\<lparr>Contract.queriesPerMinute := v\<rparr>))]
    (skipType L tag message)"

definition decode_tc_Contract :: "('w, 'r) wire \<Rightarrow> long_lib \<Rightarrow> 'r input \<Rightarrow> nat option \<Rightarrow> (Contract \<times> 'r) result" where
  "decode_tc_Contract L G = decode_msg L (tc_Contract_switch L G) createBase_tc_Contract"

definition fromJSON_tc_Contract :: "host \<Rightarrow> jsval \<Rightarrow> Contract result" where
  "fromJSON_tc_Contract h object =
     bindE (fieldE object ''provider'' (bytesFromBase64 h) []) (\<lambda>v_provider.
     bindE (fieldE object ''service'' (numberE h) (Num 0)) (\<lambda>v_service.
     bindE (fieldE object ''client'' (bytesFromBase64 h) []) (\<lambda>v_client.
     bindE (fieldE object ''delegate'' (bytesFromBase64 h) []) (\<lambda>v_delegate.
     bindE (fieldE object ''type'' (enumE tc_contractTypeFromJSON) (Num 0)) (\<lambda>v_type.
     bindE (fieldE object ''height'' (numberE h) (Num 0)) (\<lambda>v_height.
     bindE (fieldE object ''duration'' (numberE h) (Num 0)) (\<lambda>v_duration.
     bindE (optE object ''rate'' (fromJSON_tc_Coin h)) (\<lambda>v_rate.
     bindE (fieldE object ''deposit'' (stringE h) []) (\<lambda>v_deposit.
     bindE (fieldE object ''paid'' (stringE h) []) (\<lambda>v_paid.
     bindE (fieldE object ''nonce'' (numberE h) (Num 0)) (\<lambda>v_nonce.
     bindE (fieldE object ''settlementHeight'' (numberE h) (Num 0)) (\<lambda>v_settlementHeight.
     bindE (fieldE object ''id'' (numberE h) (Num 0)) (\<lambda>v_id.
     bindE (fieldE object ''settlementDuration'' (numberE h) (Num 0)) (\<lambda>v_settlementDuration.
     bindE (fieldE object ''authorization'' (enumE tc_contractAuthorizationFromJSON) (Num 0)) (\<lambda>v_authorization.
     bindE (fieldE object ''queriesPerMinute'' (numberE h) (Num 0)) (\<lambda>v_queriesPerMinute.
     Inr \<lparr>Contract.provider = v_provider, Contract.service = v_service, Contract.client = v_client, Contract.delegate = v_delegate, Contract.type' = v_type, Contract.height = v_height, Contract.duration = v_duration, Contract.rate = v_rate, Contract.deposit = v_deposit, Contract.paid = v_paid, Contract.nonce = v_nonce, Contract.settlementHeight = v_settlementHeight, Contract.id' = v_id, Contract.settlementDuration = v_settlementDuration, Contract.authorization = v_authorization, Contract.queriesPerMinute = v_queriesPerMinute\<rparr>))))))))))))))))"

definition toJSON_tc_Contract :: "host \<Rightarrow> Contract \<Rightarrow> jsval result" where
  "toJSON_tc_Contract h message = objE
    [jfieldE True ''provider'' (base64E h (Contract.provider message)),
     jfieldE True ''service'' (Inr (JNumber (Math_round (Contract.service message)))),
     jfieldE True ''client'' (base64E h (Contract.client message)),
     jfieldE True ''delegate'' (base64E h (Contract.delegate message)),
     jfieldE True ''type'' (Inr (JString (tc_contractTypeToJSON (Contract.type' message)))),
     jfieldE True ''height'' (Inr (JNumber (Math_round (Contract.height message)))),
     jfieldE True ''duration'' (Inr (JNumber (Math_round (Contract.duration message)))),
     joptE ''rate'' (toJSON_tc_Coin h) (Contract.rate message),
     jfieldE True ''deposit'' (Inr (JString (Contract.deposit message))),
     jfieldE True ''paid'' (Inr (JString (Contract.paid message))),
     jfieldE True ''nonce'' (Inr (JNumber (Math_round (Contract.nonce message)))),
     jfieldE True ''settlementHeight'' (Inr (JNumber (Math_round (Contract.settlementHeight message)))),
     jfieldE True ''id'' (Inr (JNumber (Math_round (Contract.id' message)))),
     jfieldE True ''settlementDuration'' (Inr (JNumber (Math_round (Contract.settlementDuration message)))),
     jfieldE True ''authorization'' (Inr (JString (tc_contractAuthorizationToJSON (Contract.authorization message)))),
     jfieldE True ''queriesPerMinute'' (Inr (JNumber (Math_round (Contract.queriesPerMinute message))))]"

definition fromPartial_tc_Contract :: "Contract_Partial \<Rightarrow> Contract" where
  "fromPartial_tc_Contract object = createBase_tc_Contract\<lparr>Contract.provider := nullish (Contract_Partial.provider object) [],
     Contract.service := nullish (Contract_Partial.service object) (Num 0),
     Contract.client := nullish (Contract_Partial.client object) [],
     Contract.delegate := nullish (Contract_Partial.delegate object) [],
     Contract.type' := nullish (Contract_Partial.type' object) (Num 0),
     Contract.height := nullish (Contract_Partial.height object) (Num 0),
     Contract.duration := nullish (Contract_Partial.duration object) (Num 0),
     Contract.rate := map_option fromPartial_tc_Coin (Contract_Partial.rate object),
     Contract.deposit := nullish (Contract_Partial.deposit object) [],
     Contract.paid := nullish (Contract_Partial.paid object) [],
     Contract.nonce := nullish (Contract_Partial.nonce object) (Num 0),
     Contract.settlementHeight := nullish (Contract_Partial.settlementHeight object) (Num 0),
     Contract.id' := nullish (Contract_Partial.id' object) (Num 0),
     Contract.settlementDuration := nullish (Contract_Partial.settlementDuration object) (Num 0),
     Contract.authorization := nullish (Contract_Partial.authorization object) (Num 0),
     Contract.queriesPerMinute := nullish (Contract_Partial.queriesPerMinute object) (Num 0)\<rparr>"

subsection \<open>ContractSet\<close>

definition createBase_tc_ContractSet :: ContractSet where
  "createBase_tc_ContractSet = \<lparr>ContractSet.contractIds = []\<rparr>"

definition encode_tc_ContractSet :: "('w, 'r) wire \<Rightarrow> ContractSet \<Rightarrow> 'w \<Rightarrow> 'w result" where
  "encode_tc_ContractSet L message = seqE
    [seqE [w_uint32 L 10, w_fork L, forE (w_uint64 L) (ContractSet.contractIds message), w_join L]]"

definition tc_ContractSet_switch :: "('w, 'r) wire \<Rightarrow> long_lib \<Rightarrow> u32 \<Rightarrow> ContractSet \<Rightarrow> (ContractSet, 'r) action" where
  "tc_ContractSet_switch L G tag message = js_switch (drop_bit 3 tag)
    [(1, if tag AND 7 = 2 then readf (packed L (num64l G (r_uint64 L))) (\<lambda>v. message\<lparr>ContractSet.contractIds := ContractSet.contractIds message @ v\<rparr>)
          else readf (num64l G (r_uint64 L)) (\<lambda>v. message\<lparr>ContractSet.contractIds := ContractSet.contractIds message @ [v]\<rparr>))]
    (skipType L tag message)"

definition decode_tc_ContractSet :: "('w, 'r) wire \<Rightarrow> long_lib \<Rightarrow> 'r input \<Rightarrow> nat option \<Rightarrow> (ContractSet \<times> 'r) result" where
  "decode_tc_ContractSet L G = decode_msg L (tc_ContractSet_switch L G) createBase_tc_ContractSet"

definition fromJSON_tc_ContractSet :: "host \<Rightarrow> jsval \<Rightarrow> ContractSet result" where
  "fromJSON_tc_ContractSet h object =
     bindE (arrayE object ''contractIds'' (numberE h)) (\<lambda>v_contractIds.
     Inr \<lparr>ContractSet.contractIds = v_contractIds\<rparr>)"

definition toJSON_tc_ContractSet :: "host \<Rightarrow> ContractSet \<Rightarrow> jsval result" where
  "toJSON_tc_ContractSet h message = objE
    [jlistE ''contractIds'' (\<lambda>e. Inr (JNumber (Math_round e))) (ContractSet.contractIds message)]"

definition fromPartial_tc_ContractSet :: "ContractSet_Partial \<Rightarrow> ContractSet" where
  "fromPartial_tc_ContractSet object = createBase_tc_ContractSet\<lparr>ContractSet.contractIds := partial_map (\<lambda>e. e) (ContractSet_Partial.contractIds object)\<rparr>"

subsection \<open>ContractExpirationSet\<close>

definition createBase_tc_ContractExpirationSet :: ContractExpirationSet where
  "createBase_tc_ContractExpirationSet = \<lparr>ContractExpirationSet.height = Num 0,
     ContractExpirationSet.contractSet = None\<rparr>"

definition encode_tc_ContractExpirationSet :: "('w, 'r) wire \<Rightarrow> ContractExpirationSet \<Rightarrow> 'w \<Rightarrow> 'w result" where
  "encode_tc_ContractExpirationSet L message = seqE
    [whenE (ContractExpirationSet.height message \<noteq> Num 0) (seqE [w_uint32 L 8, w_int64 L (ContractExpirationSet.height message)]),
     someE (ContractExpirationSet.contractSet message) (\<lambda>v. seqE [w_uint32 L 18, w_fork L, encode_tc_ContractSet L v, w_join L])]"

definition tc_ContractExpirationSet_switch :: "('w, 'r) wire \<Rightarrow> long_lib \<Rightarrow> u32 \<Rightarrow> ContractExpirationSet \<Rightarrow> (ContractExpirationSet, 'r) action" where
  "tc_ContractExpirationSet_switch L G tag message = js_switch (drop_bit 3 tag)
    [(1, readf (num64l G (r_int64 L)) (\<lambda>v. message\<lparr>ContractExpirationSet.height := v\<rparr>)),
     (2, readf (submsg L (decode_tc_ContractSet L G)) (\<lambda>v. message\<lparr>ContractExpirationSet.contractSet := Some v\<rparr>))]
    (skipType L tag message)"

definition decode_tc_ContractExpirationSet :: "('w, 'r) wire \<Rightarrow> long_lib \<Rightarrow> 'r input \<Rightarrow> nat option \<Rightarrow> (ContractExpirationSet \<times> 'r) result" where
  "decode_tc_ContractExpirationSet L G = decode_msg L (tc_ContractExpirationSet_switch L G) createBase_tc_ContractExpirationSet"

definition fromJSON_tc_ContractExpirationSet :: "host \<Rightarrow> jsval \<Rightarrow> ContractExpirationSet result" where
  "fromJSON_tc_ContractExpirationSet h object =
     bindE (fieldE object ''height'' (numberE h) (Num 0)) (\<lambda>v_height.
     bindE (optE object ''contractSet'' (fromJSON_tc_ContractSet h)) (\<lambda>v_contractSet.
     Inr \<lparr>ContractExpirationSet.height = v_height, ContractExpirationSet.contractSet = v_contractSet\<rparr>))"

definition toJSON_tc_ContractExpirationSet :: "host \<Rightarrow> ContractExpirationSet \<Rightarrow> jsval result" where
  "toJSON_tc_ContractExpirationSet h message = objE
    [jfieldE True ''height'' (Inr (JNumber (Math_round (ContractExpirationSet.height message)))),
     joptE ''contractSet'' (toJSON_tc_ContractSet h) (ContractExpirationSet.contractSet message)]"

definition fromPartial_tc_ContractExpirationSet :: "ContractExpirationSet_Partial \<Rightarrow> ContractExpirationSet" where
  "fromPartial_tc_ContractExpirationSet object = createBase_tc_ContractExpirationSet\<lparr>ContractExpirationSet.height := nullish (ContractExpirationSet_Partial.height object) (Num 0),
     ContractExpirationSet.contractSet := map_option fromPartial_tc_ContractSet (ContractExpirationSet_Partial.contractSet object)\<rparr>"

subsection \<open>UserContractSet\<close>

definition createBase_tc_UserContractSet :: UserContractSet where
  "createBase_tc_UserContractSet = \<lparr>UserContractSet.user = [],
     UserContractSet.contractSet = None\<rparr>"

definition encode_tc_UserContractSet :: "('w, 'r) wire \<Rightarrow> UserContractSet \<Rightarrow> 'w \<Rightarrow> 'w result" where
  "encode_tc_UserContractSet L message = seqE
    [whenE (length (UserContractSet.user message) \<noteq> 0) (seqE [w_uint32 L 10, w_bytes L (UserContractSet.user message)]),
     someE (UserContractSet.contractSet message) (\<lambda>v. seqE [w_uint32 L 18, w_fork L, encode_tc_ContractSet L v, w_join L])]"

definition tc_UserContractSet_switch :: "('w, 'r) wire \<Rightarrow> long_lib \<Rightarrow> u32 \<Rightarrow> UserContractSet \<Rightarrow> (UserContractSet, 'r) action" where
  "tc_UserContractSet_switch L G tag message = js_switch (drop_bit 3 tag)
    [(1, readf (r_bytes L) (\<lambda>v. message\<lparr>UserContractSet.user := v\<rparr>)),
     (2, readf (submsg L (decode_tc_ContractSet L G)) (\<lambda>v. message\<lparr>UserContractSet.contractSet := Some v\<rparr>))]
    (skipType L tag message)"

definition decode_tc_UserContractSet :: "('w, 'r) wire \<Rightarrow> long_lib \<Rightarrow> 'r input \<Rightarrow> nat option \<Rightarrow> (UserContractSet \<times> 'r) result" where
  "decode_tc_UserContractSet L G = decode_msg L (tc_UserContractSet_switch L G) createBase_tc_UserContractSet"

definition fromJSON_tc_UserContractSet :: "host \<Rightarrow> jsval \<Rightarrow> UserContractSet result" where
  "fromJSON_tc_UserContractSet h object =
     bindE (fieldE object ''user'' (bytesFromBase64 h) []) (\<lambda>v_user.
     bindE (optE object ''contractSet'' (fromJSON_tc_ContractSet h)) (\<lambda>v_contractSet.
     Inr \<lparr>UserContractSet.user = v_user, UserContractSet.contractSet = v_contractSet\<rparr>))"

definition toJSON_tc_UserContractSet :: "host \<Rightarrow> UserContractSet \<Rightarrow> jsval result" where
  "toJSON_tc_UserContractSet h message = objE
    [jfieldE True ''user'' (base64E h (UserContractSet.user message)),
     joptE ''contractSet'' (toJSON_tc_ContractSet h) (UserContractSet.contractSet message)]"

definition fromPartial_tc_UserContractSet :: "UserContractSet_Partial \<Rightarrow> UserContractSet" where
  "fromPartial_tc_UserContractSet object = createBase_tc_UserContractSet\<lparr>UserContractSet.user := nullish (UserContractSet_Partial.user object) [],
     UserContractSet.contractSet := map_option fromPartial_tc_ContractSet (UserContractSet_Partial.contractSet object)\<rparr>"


section \<open>Encoding, decoding and JSON of these messages\<close>

lemma tc_Coin_eqs:
  "createBase_tc_Coin = createBase_Coin"
  "encode_tc_Coin L = encode_Coin L"
  "fromJSON_tc_Coin h = fromJSON_Coin h"
  "fromPartial_tc_Coin = fromPartial_Coin"
  by (simp_all add: fun_eq_iff createBase_tc_Coin_def createBase_Coin_def
      encode_tc_Coin_def encode_Coin_def
      fromJSON_tc_Coin_def fromJSON_Coin_def
      fromPartial_tc_Coin_def fromPartial_Coin_def)

lemma tc_Coin_tags:
  "tc_Coin_switch L G 10 m = readf (r_string L) (\<lambda>v. m\<lparr>Coin.denom := v\<rparr>)"
  "tc_Coin_switch L G 18 m = readf (r_string L) (\<lambda>v. m\<lparr>Coin.amount := v\<rparr>)"
  by (simp_all add: tc_Coin_switch_def)

sublocale long_wire_laws \<subseteq> tc_Coin_codec: message_codec L F out inp "encode_Coin L" "tc_Coin_switch L G" createBase_Coin "wf_Coin L"
proof unfold_locales
  show good: "good_sw (tc_Coin_switch L G)"
    unfolding tc_Coin_switch_def by (intro good_swI fwd_rules)
  fix m assume "wf_Coin L m"
  then show "codes (tc_Coin_switch L G) (encode_Coin L m) createBase_Coin m"
    unfolding encode_Coin_def wf_Coin_def
    by (elim conjE)
      (rule codes_Cons codes_Nil [OF Coin.equality] codec_rules
        codes_when [where tag = 10 and u = Coin.denom_update and op = "r_string L", OF good]
        codes_when [where tag = 18 and u = Coin.amount_update and op = "r_string L", OF good]
      | assumption | (simp add: tc_Coin_tags createBase_Coin_def; fail))+
qed

context long_wire_laws
begin

lemmas tc_Coin_carries [codec_rules] =
  tc_Coin_codec.opt_carries [folded decode_tc_Coin_def [unfolded tc_Coin_eqs(1)]] tc_Coin_codec.list_carries [folded decode_tc_Coin_def [unfolded tc_Coin_eqs(1)]]

lemmas tc_Coin_good [fwd_rules] = tc_Coin_codec.op_good [folded decode_tc_Coin_def [unfolded tc_Coin_eqs(1)]]

lemmas tc_Coin_roundtrip = tc_Coin_codec.roundtrip [folded decode_tc_Coin_def [unfolded tc_Coin_eqs(1)]]

lemmas tc_Coin_returns = tc_Coin_codec.decode_returns [folded decode_tc_Coin_def [unfolded tc_Coin_eqs(1)]]

lemma tc_Coin_interop: "interoperates L inp (wf_Coin L) (encode_Coin L) (decode_Coin L) (encode_tc_Coin L) (decode_tc_Coin L G)"
  using Coin_roundtrip tc_Coin_roundtrip by (simp add: interoperates_def tc_Coin_eqs(2))

end

interpretation tc_Coin_json: message_json toJSON_tc_Coin fromJSON_tc_Coin wfj_Coin
proof unfold_locales
  fix h m
  assume "wfj_Coin m"
  then show "json_rt (toJSON_tc_Coin h) (fromJSON_tc_Coin h) m"
    unfolding toJSON_tc_Coin_def fromJSON_tc_Coin_def wfj_Coin_def
    by (-) (rule json_rtI json_rules | assumption | (simp; fail))+
qed

lemmas tc_Coin_json_rules [json_rules] = tc_Coin_json.json_list_rules

lemma tc_DecCoin_eqs:
  "createBase_tc_DecCoin = createBase_DecCoin"
  "encode_tc_DecCoin L = encode_DecCoin L"
  "fromJSON_tc_DecCoin h = fromJSON_DecCoin h"
  "fromPartial_tc_DecCoin = fromPartial_DecCoin"
  by (simp_all add: fun_eq_iff createBase_tc_DecCoin_def createBase_DecCoin_def
      encode_tc_DecCoin_def encode_DecCoin_def
      fromJSON_tc_DecCoin_def fromJSON_DecCoin_def
      fromPartial_tc_DecCoin_def fromPartial_DecCoin_def)

lemma tc_DecCoin_tags:
  "tc_DecCoin_switch L G 10 m = readf (r_string L) (\<lambda>v. m\<lparr>DecCoin.denom := v\<rparr>)"
  "tc_DecCoin_switch L G 18 m = readf (r_string L) (\<lambda>v. m\<lparr>DecCoin.amount := v\<rparr>)"
  by (simp_all add: tc_DecCoin_switch_def)

sublocale long_wire_laws \<subseteq> tc_DecCoin_codec: message_codec L F out inp "encode_DecCoin L" "tc_DecCoin_switch L G" createBase_DecCoin "wf_DecCoin L"
proof unfold_locales
  show good: "good_sw (tc_DecCoin_switch L G)"
    unfolding tc_DecCoin_switch_def by (intro good_swI fwd_rules)
  fix m assume "wf_DecCoin L m"
  then show "codes (tc_DecCoin_switch L G) (encode_DecCoin L m) createBase_DecCoin m"
    unfolding encode_DecCoin_def wf_DecCoin_def
    by (elim conjE)
      (rule codes_Cons codes_Nil [OF DecCoin.equality] codec_rules
        codes_when [where tag = 10 and u = DecCoin.denom_update and op = "r_string L", OF good]
        codes_when [where tag = 18 and u = DecCoin.amount_update and op = "r_string L", OF good]
      | assumption | (simp add: tc_DecCoin_tags createBase_DecCoin_def; fail))+
qed

context long_wire_laws
begin

lemmas tc_DecCoin_roundtrip = tc_DecCoin_codec.roundtrip [folded decode_tc_DecCoin_def [unfolded tc_DecCoin_eqs(1)]]

lemmas tc_DecCoin_returns = tc_DecCoin_codec.decode_returns [folded decode_tc_DecCoin_def [unfolded tc_DecCoin_eqs(1)]]

lemma tc_DecCoin_interop: "interoperates L inp (wf_DecCoin L) (encode_DecCoin L) (decode_DecCoin L) (encode_tc_DecCoin L) (decode_tc_DecCoin L G)"
  using DecCoin_roundtrip tc_DecCoin_roundtrip by (simp add: interoperates_def tc_DecCoin_eqs(2))

end

interpretation tc_DecCoin_json: message_json toJSON_tc_DecCoin fromJSON_tc_DecCoin wfj_DecCoin
proof unfold_locales
  fix h m
  assume "wfj_DecCoin m"
  then show "json_rt (toJSON_tc_DecCoin h) (fromJSON_tc_DecCoin h) m"
    unfolding toJSON_tc_DecCoin_def fromJSON_tc_DecCoin_def wfj_DecCoin_def
    by (-) (rule json_rtI json_rules | assumption | (simp; fail))+
qed

lemma fromPartial_partial_of_tc_IntProto [simp]: "fromPartial_tc_IntProto (partial_of_tc_IntProto m) = m"
  by (simp add: fromPartial_tc_IntProto_def partial_of_tc_IntProto_def createBase_tc_IntProto_def partial_map_def option.map_comp o_def option.map_ident)

lemma tc_IntProto_tags:
  "tc_IntProto_switch L G 10 m = readf (r_string L) (\<lambda>v. m\<lparr>tc_IntProto.int' := v\<rparr>)"
  by (simp_all add: tc_IntProto_switch_def)

sublocale long_wire_laws \<subseteq> tc_IntProto_codec: message_codec L F out inp "encode_tc_IntProto L" "tc_IntProto_switch L G" createBase_tc_IntProto "wf_tc_IntProto L"
proof unfold_locales
  show good: "good_sw (tc_IntProto_switch L G)"
    unfolding tc_IntProto_switch_def by (intro good_swI fwd_rules)
  fix m assume "wf_tc_IntProto L m"
  then show "codes (tc_IntProto_switch L G) (encode_tc_IntProto L m) createBase_tc_IntProto m"
    unfolding encode_tc_IntProto_def wf_tc_IntProto_def
    by (-)
      (rule codes_Cons codes_Nil [OF tc_IntProto.equality] codec_rules
        codes_when [where tag = 10 and u = tc_IntProto.int'_update and op = "r_string L", OF good]
      | assumption | (simp add: tc_IntProto_tags createBase_tc_IntProto_def; fail))+
qed

context long_wire_laws
begin

lemmas tc_IntProto_roundtrip = tc_IntProto_codec.roundtrip [folded decode_tc_IntProto_def]

lemmas tc_IntProto_returns = tc_IntProto_codec.decode_returns [folded decode_tc_IntProto_def]

end

interpretation tc_IntProto_json: message_json toJSON_tc_IntProto fromJSON_tc_IntProto wfj_tc_IntProto
proof unfold_locales
  fix h m
  assume "wfj_tc_IntProto m"
  then show "json_rt (toJSON_tc_IntProto h) (fromJSON_tc_IntProto h) m"
    unfolding toJSON_tc_IntProto_def fromJSON_tc_IntProto_def wfj_tc_IntProto_def
    by (-) (rule json_rtI json_rules | assumption | (simp; fail))+
qed

lemma fromPartial_partial_of_tc_DecProto [simp]: "fromPartial_tc_DecProto (partial_of_tc_DecProto m) = m"
  by (simp add: fromPartial_tc_DecProto_def partial_of_tc_DecProto_def createBase_tc_DecProto_def partial_map_def option.map_comp o_def option.map_ident)

lemma tc_DecProto_tags:
  "tc_DecProto_switch L G 10 m = readf (r_string L) (\<lambda>v. m\<lparr>tc_DecProto.dec' := v\<rparr>)"
  by (simp_all add: tc_DecProto_switch_def)

sublocale long_wire_laws \<subseteq> tc_DecProto_codec: message_codec L F out inp "encode_tc_DecProto L" "tc_DecProto_switch L G" createBase_tc_DecProto "wf_tc_DecProto L"
proof unfold_locales
  show good: "good_sw (tc_DecProto_switch L G)"
    unfolding tc_DecProto_switch_def by (intro good_swI fwd_rules)
  fix m assume "wf_tc_DecProto L m"
  then show "codes (tc_DecProto_switch L G) (encode_tc_DecProto L m) createBase_tc_DecProto m"
    unfolding encode_tc_DecProto_def wf_tc_DecProto_def
    by (-)
      (rule codes_Cons codes_Nil [OF tc_DecProto.equality] codec_rules
        codes_when [where tag = 10 and u = tc_DecProto.dec'_update and op = "r_string L", OF good]
      | assumption | (simp add: tc_DecProto_tags createBase_tc_DecProto_def; fail))+
qed

context long_wire_laws
begin

lemmas tc_DecProto_roundtrip = tc_DecProto_codec.roundtrip [folded decode_tc_DecProto_def]

lemmas tc_DecProto_returns = tc_DecProto_codec.decode_returns [folded decode_tc_DecProto_def]

end

interpretation tc_DecProto_json: message_json toJSON_tc_DecProto fromJSON_tc_DecProto wfj_tc_DecProto
proof unfold_locales
  fix h m
  assume "wfj_tc_DecProto m"
  then show "json_rt (toJSON_tc_DecProto h) (fromJSON_tc_DecProto h) m"
    unfolding toJSON_tc_DecProto_def fromJSON_tc_DecProto_def wfj_tc_DecProto_def
    by (-) (rule json_rtI json_rules | assumption | (simp; fail))+
qed

lemma tc_PageRequest_eqs:
  "createBase_tc_PageRequest = createBase_PageRequest"
  "encode_tc_PageRequest L = encode_PageRequest L"
  "fromJSON_tc_PageRequest h = fromJSON_PageRequest h"
  "fromPartial_tc_PageRequest = fromPartial_PageRequest"
  by (simp_all add: fun_eq_iff createBase_tc_PageRequest_def createBase_PageRequest_def
      encode_tc_PageRequest_def encode_PageRequest_def
      fromJSON_tc_PageRequest_def fromJSON_PageRequest_def
      fromPartial_tc_PageRequest_def fromPartial_PageRequest_def)

lemma tc_PageRequest_tags:
  "tc_PageRequest_switch L G 10 m = readf (r_bytes L) (\<lambda>v. m\<lparr>PageRequest.key := v\<rparr>)"
  "tc_PageRequest_switch L G 16 m = readf (num64l G (r_uint64 L)) (\<lambda>v. m\<lparr>PageRequest.offset := v\<rparr>)"
  "tc_PageRequest_switch L G 24 m = readf (num64l G (r_uint64 L)) (\<lambda>v. m\<lparr>PageRequest.limit := v\<rparr>)"
  "tc_PageRequest_switch L G 32 m = readf (r_bool L) (\<lambda>v. m\<lparr>PageRequest.countTotal := v\<rparr>)"
  "tc_PageRequest_switch L G 40 m = readf (r_bool L) (\<lambda>v. m\<lparr>PageRequest.reverse := v\<rparr>)"
  by (simp_all add: tc_PageRequest_switch_def)

sublocale long_wire_laws \<subseteq> tc_PageRequest_codec: message_codec L F out inp "encode_PageRequest L" "tc_PageRequest_switch L G" createBase_PageRequest "wf_PageRequest L"
proof unfold_locales
  show good: "good_sw (tc_PageRequest_switch L G)"
    unfolding tc_PageRequest_switch_def by (intro good_swI fwd_rules)
  fix m assume "wf_PageRequest L m"
  then show "codes (tc_PageRequest_switch L G) (encode_PageRequest L m) createBase_PageRequest m"
    unfolding encode_PageRequest_def wf_PageRequest_def
    by (elim conjE)
      (rule codes_Cons codes_Nil [OF PageRequest.equality] codec_rules
        codes_when [where tag = 10 and u = PageRequest.key_update and op = "r_bytes L", OF good]
        codes_when [where tag = 16 and u = PageRequest.offset_update and op = "num64l G (r_uint64 L)", OF good]
        codes_when [where tag = 24 and u = PageRequest.limit_update and op = "num64l G (r_uint64 L)", OF good]
        codes_when [where tag = 32 and u = PageRequest.countTotal_update and op = "r_bool L", OF good]
        codes_when [where tag = 40 and u = PageRequest.reverse_update and op = "r_bool L", OF good]
      | assumption | (simp add: tc_PageRequest_tags createBase_PageRequest_def; fail))+
qed

context long_wire_laws
begin

lemmas tc_PageRequest_carries [codec_rules] =
  tc_PageRequest_codec.opt_carries [folded decode_tc_PageRequest_def [unfolded tc_PageRequest_eqs(1)]] tc_PageRequest_codec.list_carries [folded decode_tc_PageRequest_def [unfolded tc_PageRequest_eqs(1)]]

lemmas tc_PageRequest_good [fwd_rules] = tc_PageRequest_codec.op_good [folded decode_tc_PageRequest_def [unfolded tc_PageRequest_eqs(1)]]

lemmas tc_PageRequest_roundtrip = tc_PageRequest_codec.roundtrip [folded decode_tc_PageRequest_def [unfolded tc_PageRequest_eqs(1)]]

lemmas tc_PageRequest_returns = tc_PageRequest_codec.decode_returns [folded decode_tc_PageRequest_def [unfolded tc_PageRequest_eqs(1)]]

lemma tc_PageRequest_interop: "interoperates L inp (wf_PageRequest L) (encode_PageRequest L) (decode_PageRequest L) (encode_tc_PageRequest L) (decode_tc_PageRequest L G)"
  using PageRequest_roundtrip tc_PageRequest_roundtrip by (simp add: interoperates_def tc_PageRequest_eqs(2))

end

interpretation tc_PageRequest_json: message_json toJSON_tc_PageRequest fromJSON_tc_PageRequest wfj_PageRequest
proof unfold_locales
  fix h m
  assume "wfj_PageRequest m"
  then show "json_rt (toJSON_tc_PageRequest h) (fromJSON_tc_PageRequest h) m"
    unfolding toJSON_tc_PageRequest_def fromJSON_tc_PageRequest_def wfj_PageRequest_def
    by (elim conjE) (rule json_rtI json_rules | assumption | (simp; fail))+
qed

lemmas tc_PageRequest_json_rules [json_rules] = tc_PageRequest_json.json_list_rules

lemma tc_PageResponse_eqs:
  "createBase_tc_PageResponse = createBase_PageResponse"
  "encode_tc_PageResponse L = encode_PageResponse L"
  "fromJSON_tc_PageResponse h = fromJSON_PageResponse h"
  "fromPartial_tc_PageResponse = fromPartial_PageResponse"
  by (simp_all add: fun_eq_iff createBase_tc_PageResponse_def createBase_PageResponse_def
      encode_tc_PageResponse_def encode_PageResponse_def
      fromJSON_tc_PageResponse_def fromJSON_PageResponse_def
      fromPartial_tc_PageResponse_def fromPartial_PageResponse_def)

lemma tc_PageResponse_tags:
  "tc_PageResponse_switch L G 10 m = readf (r_bytes L) (\<lambda>v. m\<lparr>PageResponse.nextKey := v\<rparr>)"
  "tc_PageResponse_switch L G 16 m = readf (num64l G (r_uint64 L)) (\<lambda>v. m\<lparr>PageResponse.total := v\<rparr>)"
  by (simp_all add: tc_PageResponse_switch_def)

sublocale long_wire_laws \<subseteq> tc_PageResponse_codec: message_codec L F out inp "encode_PageResponse L" "tc_PageResponse_switch L G" createBase_PageResponse "wf_PageResponse L"
proof unfold_locales
  show good: "good_sw (tc_PageResponse_switch L G)"
    unfolding tc_PageResponse_switch_def by (intro good_swI fwd_rules)
  fix m assume "wf_PageResponse L m"
  then show "codes (tc_PageResponse_switch L G) (encode_PageResponse L m) createBase_PageResponse m"
    unfolding encode_PageResponse_def wf_PageResponse_def
    by (elim conjE)
      (rule codes_Cons codes_Nil [OF PageResponse.equality] codec_rules
        codes_when [where tag = 10 and u = PageResponse.nextKey_update and op = "r_bytes L", OF good]
        codes_when [where tag = 16 and u = PageResponse.total_update and op = "num64l G (r_uint64 L)", OF good]
      | assumption | (simp add: tc_PageResponse_tags createBase_PageResponse_def; fail))+
qed

context long_wire_laws
begin

lemmas tc_PageResponse_carries [codec_rules] =
  tc_PageResponse_codec.opt_carries [folded decode_tc_PageResponse_def [unfolded tc_PageResponse_eqs(1)]] tc_PageResponse_codec.list_carries [folded decode_tc_PageResponse_def [unfolded tc_PageResponse_eqs(1)]]

lemmas tc_PageResponse_good [fwd_rules] = tc_PageResponse_codec.op_good [folded decode_tc_PageResponse_def [unfolded tc_PageResponse_eqs(1)]]

lemmas tc_PageResponse_roundtrip = tc_PageResponse_codec.roundtrip [folded decode_tc_PageResponse_def [unfolded tc_PageResponse_eqs(1)]]

lemmas tc_PageResponse_returns = tc_PageResponse_codec.decode_returns [folded decode_tc_PageResponse_def [unfolded tc_PageResponse_eqs(1)]]

lemma tc_PageResponse_interop: "interoperates L inp (wf_PageResponse L) (encode_PageResponse L) (decode_PageResponse L) (encode_tc_PageResponse L) (decode_tc_PageResponse L G)"
  using PageResponse_roundtrip tc_PageResponse_roundtrip by (simp add: interoperates_def tc_PageResponse_eqs(2))

end

interpretation tc_PageResponse_json: message_json toJSON_tc_PageResponse fromJSON_tc_PageResponse wfj_PageResponse
proof unfold_locales
  fix h m
  assume "wfj_PageResponse m"
  then show "json_rt (toJSON_tc_PageResponse h) (fromJSON_tc_PageResponse h) m"
    unfolding toJSON_tc_PageResponse_def fromJSON_tc_PageResponse_def wfj_PageResponse_def
    by (-) (rule json_rtI json_rules | assumption | (simp; fail))+
qed

lemmas tc_PageResponse_json_rules [json_rules] = tc_PageResponse_json.json_list_rules

lemmas tc_ProviderStatus_defs = tc_ProviderStatus_OFFLINE_def tc_ProviderStatus_ONLINE_def tc_ProviderStatus_UNRECOGNIZED_def

lemma tc_ProviderStatus_eqs: "tc_providerStatusFromJSON = providerStatusFromJSON" "tc_providerStatusToJSON = providerStatusToJSON"
  by (simp_all add: fun_eq_iff tc_providerStatusFromJSON_def providerStatusFromJSON_def tc_providerStatusToJSON_def providerStatusToJSON_def tc_ProviderStatus_defs ProviderStatus_defs)

lemmas tc_ProviderStatus_json [json_rules] = ProviderStatus_json [folded tc_ProviderStatus_eqs]

lemmas tc_ContractType_defs = tc_ContractType_SUBSCRIPTION_def tc_ContractType_PAY_AS_YOU_GO_def tc_ContractType_UNRECOGNIZED_def

lemma tc_ContractType_eqs: "tc_contractTypeFromJSON = contractTypeFromJSON" "tc_contractTypeToJSON = contractTypeToJSON"
  by (simp_all add: fun_eq_iff tc_contractTypeFromJSON_def contractTypeFromJSON_def tc_contractTypeToJSON_def contractTypeToJSON_def tc_ContractType_defs ContractType_defs)

lemmas tc_ContractType_json [json_rules] = ContractType_json [folded tc_ContractType_eqs]

lemmas tc_ContractAuthorization_defs = tc_ContractAuthorization_STRICT_def tc_ContractAuthorization_OPEN_def tc_ContractAuthorization_UNRECOGNIZED_def

lemma tc_ContractAuthorization_eqs: "tc_contractAuthorizationFromJSON = contractAuthorizationFromJSON" "tc_contractAuthorizationToJSON = contractAuthorizationToJSON"
  by (simp_all add: fun_eq_iff tc_contractAuthorizationFromJSON_def contractAuthorizationFromJSON_def tc_contractAuthorizationToJSON_def contractAuthorizationToJSON_def tc_ContractAuthorization_defs ContractAuthorization_defs)

lemmas tc_ContractAuthorization_json [json_rules] = ContractAuthorization_json [folded tc_ContractAuthorization_eqs]

lemma tc_Provider_eqs:
  "createBase_tc_Provider = createBase_Provider"
  "encode_tc_Provider L = encode_Provider L"
  "fromJSON_tc_Provider h = fromJSON_Provider h"
  "fromPartial_tc_Provider = fromPartial_Provider"
  by (simp_all add: fun_eq_iff createBase_tc_Provider_def createBase_Provider_def
      encode_tc_Provider_def encode_Provider_def
      fromJSON_tc_Provider_def fromJSON_Provider_def
      fromPartial_tc_Provider_def fromPartial_Provider_def tc_ProviderStatus_eqs tc_Coin_eqs)

lemma tc_Provider_tags:
  "tc_Provider_switch L G 10 m = readf (r_bytes L) (\<lambda>v. m\<lparr>Provider.pubKey := v\<rparr>)"
  "tc_Provider_switch L G 16 m = readf (num32 (r_int32 L)) (\<lambda>v. m\<lparr>Provider.service := v\<rparr>)"
  "tc_Provider_switch L G 26 m = readf (r_string L) (\<lambda>v. m\<lparr>Provider.metadataUri := v\<rparr>)"
  "tc_Provider_switch L G 32 m = readf (num64l G (r_uint64 L)) (\<lambda>v. m\<lparr>Provider.metadataNonce := v\<rparr>)"
  "tc_Provider_switch L G 40 m = readf (num32 (r_int32 L)) (\<lambda>v. m\<lparr>Provider.status := v\<rparr>)"
  "tc_Provider_switch L G 48 m = readf (num64l G (r_int64 L)) (\<lambda>v. m\<lparr>Provider.minContractDuration := v\<rparr>)"
  "tc_Provider_switch L G 56 m = readf (num64l G (r_int64 L)) (\<lambda>v. m\<lparr>Provider.maxContractDuration := v\<rparr>)"
  "tc_Provider_switch L G 66 m = readf (submsg L (decode_tc_Coin L G)) (\<lambda>v. m\<lparr>Provider.subscriptionRate := Provider.subscriptionRate m @ [v]\<rparr>)"
  "tc_Provider_switch L G 74 m = readf (submsg L (decode_tc_Coin L G)) (\<lambda>v. m\<lparr>Provider.payAsYouGoRate := Provider.payAsYouGoRate m @ [v]\<rparr>)"
  "tc_Provider_switch L G 82 m = readf (r_string L) (\<lambda>v. m\<lparr>Provider.bond := v\<rparr>)"
  "tc_Provider_switch L G 88 m = readf (num64l G (r_int64 L)) (\<lambda>v. m\<lparr>Provider.lastUpdate := v\<rparr>)"
  "tc_Provider_switch L G 96 m = readf (num64l G (r_int64 L)) (\<lambda>v. m\<lparr>Provider.settlementDuration := v\<rparr>)"
  by (simp_all add: tc_Provider_switch_def)

sublocale long_wire_laws \<subseteq> tc_Provider_codec: message_codec L F out inp "encode_Provider L" "tc_Provider_switch L G" createBase_Provider "wf_Provider L"
proof unfold_locales
  show good: "good_sw (tc_Provider_switch L G)"
    unfolding tc_Provider_switch_def by (intro good_swI fwd_rules)
  fix m assume "wf_Provider L m"
  then show "codes (tc_Provider_switch L G) (encode_Provider L m) createBase_Provider m"
    unfolding encode_Provider_def wf_Provider_def
    by (elim conjE)
      (rule codes_Cons codes_Nil [OF Provider.equality] codec_rules
        codes_when [where tag = 10 and u = Provider.pubKey_update and op = "r_bytes L", OF good]
        codes_when [where tag = 16 and u = Provider.service_update and op = "num32 (r_int32 L)", OF good]
        codes_when [where tag = 26 and u = Provider.metadataUri_update and op = "r_string L", OF good]
        codes_when [where tag = 32 and u = Provider.metadataNonce_update and op = "num64l G (r_uint64 L)", OF good]
        codes_when [where tag = 40 and u = Provider.status_update and op = "num32 (r_int32 L)", OF good]
        codes_when [where tag = 48 and u = Provider.minContractDuration_update and op = "num64l G (r_int64 L)", OF good]
        codes_when [where tag = 56 and u = Provider.maxContractDuration_update and op = "num64l G (r_int64 L)", OF good]
        codes_for [where tag = 66 and u = Provider.subscriptionRate_update and op = "submsg L (decode_tc_Coin L G)", OF good]
        codes_for [where tag = 74 and u = Provider.payAsYouGoRate_update and op = "submsg L (decode_tc_Coin L G)", OF good]
        codes_when [where tag = 82 and u = Provider.bond_update and op = "r_string L", OF good]
        codes_when [where tag = 88 and u = Provider.lastUpdate_update and op = "num64l G (r_int64 L)", OF good]
        codes_when [where tag = 96 and u = Provider.settlementDuration_update and op = "num64l G (r_int64 L)", OF good]
      | assumption | (simp add: tc_Provider_tags createBase_Provider_def; fail))+
qed

context long_wire_laws
begin

lemmas tc_Provider_carries [codec_rules] =
  tc_Provider_codec.opt_carries [folded decode_tc_Provider_def [unfolded tc_Provider_eqs(1)]] tc_Provider_codec.list_carries [folded decode_tc_Provider_def [unfolded tc_Provider_eqs(1)]]

lemmas tc_Provider_good [fwd_rules] = tc_Provider_codec.op_good [folded decode_tc_Provider_def [unfolded tc_Provider_eqs(1)]]

lemmas tc_Provider_roundtrip = tc_Provider_codec.roundtrip [folded decode_tc_Provider_def [unfolded tc_Provider_eqs(1)]]

lemmas tc_Provider_returns = tc_Provider_codec.decode_returns [folded decode_tc_Provider_def [unfolded tc_Provider_eqs(1)]]

lemma tc_Provider_interop: "interoperates L inp (wf_Provider L) (encode_Provider L) (decode_Provider L) (encode_tc_Provider L) (decode_tc_Provider L G)"
  using Provider_roundtrip tc_Provider_roundtrip by (simp add: interoperates_def tc_Provider_eqs(2))

end

interpretation tc_Provider_json: message_json toJSON_tc_Provider fromJSON_tc_Provider wfj_Provider
proof unfold_locales
  fix h m
  assume "wfj_Provider m"
  then show "json_rt (toJSON_tc_Provider h) (fromJSON_tc_Provider h) m"
    unfolding toJSON_tc_Provider_def fromJSON_tc_Provider_def wfj_Provider_def
    by (elim conjE) (rule json_rtI json_rules | assumption | (simp; fail))+
qed

lemmas tc_Provider_json_rules [json_rules] = tc_Provider_json.json_list_rules

lemma tc_Contract_eqs:
  "createBase_tc_Contract = createBase_Contract"
  "encode_tc_Contract L = encode_Contract L"
  "fromJSON_tc_Contract h = fromJSON_Contract h"
  "fromPartial_tc_Contract = fromPartial_Contract"
  by (simp_all add: fun_eq_iff createBase_tc_Contract_def createBase_Contract_def
      encode_tc_Contract_def encode_Contract_def
      fromJSON_tc_Contract_def fromJSON_Contract_def
      fromPartial_tc_Contract_def fromPartial_Contract_def tc_ContractAuthorization_eqs tc_ContractType_eqs tc_Coin_eqs)

lemma tc_Contract_tags:
  "tc_Contract_switch L G 10 m = readf (r_bytes L) (\<lambda>v. m\<lparr>Contract.provider := v\<rparr>)"
  "tc_Contract_switch L G 16 m = readf (num32 (r_int32 L)) (\<lambda>v. m\<lparr>Contract.service := v\<rparr>)"
  "tc_Contract_switch L G 26 m = readf (r_bytes L) (\<lambda>v. m\<lparr>Contract.client := v\<rparr>)"
  "tc_Contract_switch L G 34 m = readf (r_bytes L) (\<lambda>v. m\<lparr>Contract.delegate := v\<rparr>)"
  "tc_Contract_switch L G 40 m = readf (num32 (r_int32 L)) (\<lambda>v. m\<lparr>Contract.type' := v\<rparr>)"
  "tc_Contract_switch L G 48 m = readf (num64l G (r_int64 L)) (\<lambda>v. m\<lparr>Contract.height := v\<rparr>)"
  "tc_Contract_switch L G 56 m = readf (num64l G (r_int64 L)) (\<lambda>v. m\<lparr>Contract.duration := v\<rparr>)"
  "tc_Contract_switch L G 66 m = readf (submsg L (decode_tc_Coin L G)) (\<lambda>v. m\<lparr>Contract.rate := Some v\<rparr>)"
  "tc_Contract_switch L G 74 m = readf (r_string L) (\<lambda>v. m\<lparr>Contract.deposit := v\<rparr>)"
  "tc_Contract_switch L G 82 m = readf (r_string L) (\<lambda>v. m\<lparr>Contract.paid := v\<rparr>)"
  "tc_Contract_switch L G 88 m = readf (num64l G (r_int64 L)) (\<lambda>v. m\<lparr>Contract.nonce := v\<rparr>)"
  "tc_Contract_switch L G 96 m = readf (num64l G (r_int64 L)) (\<lambda>v. m\<lparr>Contract.settlementHeight := v\<rparr>)"
  "tc_Contract_switch L G 104 m = readf (num64l G (r_uint64 L)) (\<lambda>v. m\<lparr>Contract.id' := v\<rparr>)"
  "tc_Contract_switch L G 112 m = readf (num64l G (r_int64 L)) (\<lambda>v. m\<lparr>Contract.settlementDuration := v\<rparr>)"
  "tc_Contract_switch L G 120 m = readf (num32 (r_int32 L)) (\<lambda>v. m\<lparr>Contract.authorization := v\<rparr>)"
  "tc_Contract_switch L G 128 m = readf (num64l G (r_int64 L)) (\<lambda>v. m\<lparr>Contract.queriesPerMinute := v\<rparr>)"
  by (simp_all add: tc_Contract_switch_def)

sublocale long_wire_laws \<subseteq> tc_Contract_codec: message_codec L F out inp "encode_Contract L" "tc_Contract_switch L G" createBase_Contract "wf_Contract L"
proof unfold_locales
  show good: "good_sw (tc_Contract_switch L G)"
    unfolding tc_Contract_switch_def by (intro good_swI fwd_rules)
  fix m assume "wf_Contract L m"
  then show "codes (tc_Contract_switch L G) (encode_Contract L m) createBase_Contract m"
    unfolding encode_Contract_def wf_Contract_def
    by (elim conjE)
      (rule codes_Cons codes_Nil [OF Contract.equality] codec_rules
        codes_when [where tag = 10 and u = Contract.provider_update and op = "r_bytes L", OF good]
        codes_when [where tag = 16 and u = Contract.service_update and op = "num32 (r_int32 L)", OF good]
        codes_when [where tag = 26 and u = Contract.client_update and op = "r_bytes L", OF good]
        codes_when [where tag = 34 and u = Contract.delegate_update and op = "r_bytes L", OF good]
        codes_when [where tag = 40 and u = Contract.type'_update and op = "num32 (r_int32 L)", OF good]
        codes_when [where tag = 48 and u = Contract.height_update and op = "num64l G (r_int64 L)", OF good]
        codes_when [where tag = 56 and u = Contract.duration_update and op = "num64l G (r_int64 L)", OF good]
        codes_some [where tag = 66 and u = Contract.rate_update and op = "submsg L (decode_tc_Coin L G)", OF good]
        codes_when [where tag = 74 and u = Contract.deposit_update and op = "r_string L", OF good]
        codes_when [where tag = 82 and u = Contract.paid_update and op = "r_string L", OF good]
        codes_when [where tag = 88 and u = Contract.nonce_update and op = "num64l G (r_int64 L)", OF good]
        codes_when [where tag = 96 and u = Contract.settlementHeight_update and op = "num64l G (r_int64 L)", OF good]
        codes_when [where tag = 104 and u = Contract.id'_update and op = "num64l G (r_uint64 L)", OF good]
        codes_when [where tag = 112 and u = Contract.settlementDuration_update and op = "num64l G (r_int64 L)", OF good]
        codes_when [where tag = 120 and u = Contract.authorization_update and op = "num32 (r_int32 L)", OF good]
        codes_when [where tag = 128 and u = Contract.queriesPerMinute_update and op = "num64l G (r_int64 L)", OF good]
      | assumption | (simp add: tc_Contract_tags createBase_Contract_def; fail))+
qed

context long_wire_laws
begin

lemmas tc_Contract_carries [codec_rules] =
  tc_Contract_codec.opt_carries [folded decode_tc_Contract_def [unfolded tc_Contract_eqs(1)]] tc_Contract_codec.list_carries [folded decode_tc_Contract_def [unfolded tc_Contract_eqs(1)]]

lemmas tc_Contract_good [fwd_rules] = tc_Contract_codec.op_good [folded decode_tc_Contract_def [unfolded tc_Contract_eqs(1)]]

lemmas tc_Contract_roundtrip = tc_Contract_codec.roundtrip [folded decode_tc_Contract_def [unfolded tc_Contract_eqs(1)]]

lemmas tc_Contract_returns = tc_Contract_codec.decode_returns [folded decode_tc_Contract_def [unfolded tc_Contract_eqs(1)]]

lemma tc_Contract_interop: "interoperates L inp (wf_Contract L) (encode_Contract L) (decode_Contract L) (encode_tc_Contract L) (decode_tc_Contract L G)"
  using Contract_roundtrip tc_Contract_roundtrip by (simp add: interoperates_def tc_Contract_eqs(2))

end

interpretation tc_Contract_json: message_json toJSON_tc_Contract fromJSON_tc_Contract wfj_Contract
proof unfold_locales
  fix h m
  assume "wfj_Contract m"
  then show "json_rt (toJSON_tc_Contract h) (fromJSON_tc_Contract h) m"
    unfolding toJSON_tc_Contract_def fromJSON_tc_Contract_def wfj_Contract_def
    by (elim conjE) (rule json_rtI json_rules | assumption | (simp; fail))+
qed

lemmas tc_Contract_json_rules [json_rules] = tc_Contract_json.json_list_rules

lemma tc_ContractSet_eqs:
  "createBase_tc_ContractSet = createBase_ContractSet"
  "encode_tc_ContractSet L = encode_ContractSet L"
  "fromJSON_tc_ContractSet h = fromJSON_ContractSet h"
  "fromPartial_tc_ContractSet = fromPartial_ContractSet"
  by (simp_all add: fun_eq_iff createBase_tc_ContractSet_def createBase_ContractSet_def
      encode_tc_ContractSet_def encode_ContractSet_def
      fromJSON_tc_ContractSet_def fromJSON_ContractSet_def
      fromPartial_tc_ContractSet_def fromPartial_ContractSet_def)

lemma tc_ContractSet_tags:
  "tc_ContractSet_switch L G 10 m = readf (packed L (num64l G (r_uint64 L))) (\<lambda>v. m\<lparr>ContractSet.contractIds := ContractSet.contractIds m @ v\<rparr>)"
  by (simp_all add: tc_ContractSet_switch_def)

sublocale long_wire_laws \<subseteq> tc_ContractSet_codec: message_codec L F out inp "encode_ContractSet L" "tc_ContractSet_switch L G" createBase_ContractSet "wf_ContractSet L"
proof unfold_locales
  show good: "good_sw (tc_ContractSet_switch L G)"
    unfolding tc_ContractSet_switch_def by (intro good_swI fwd_rules)
  fix m assume "wf_ContractSet L m"
  then show "codes (tc_ContractSet_switch L G) (encode_ContractSet L m) createBase_ContractSet m"
    unfolding encode_ContractSet_def wf_ContractSet_def
    by (elim conjE)
      (rule codes_Cons codes_Nil [OF ContractSet.equality] codec_rules
        codes_always [where tag = 10 and u = ContractSet.contractIds_update and op = "packed L (num64l G (r_uint64 L))", OF good]
      | assumption | (simp add: tc_ContractSet_tags createBase_ContractSet_def; fail))+
qed

context long_wire_laws
begin

lemmas tc_ContractSet_carries [codec_rules] =
  tc_ContractSet_codec.opt_carries [folded decode_tc_ContractSet_def [unfolded tc_ContractSet_eqs(1)]] tc_ContractSet_codec.list_carries [folded decode_tc_ContractSet_def [unfolded tc_ContractSet_eqs(1)]]

lemmas tc_ContractSet_good [fwd_rules] = tc_ContractSet_codec.op_good [folded decode_tc_ContractSet_def [unfolded tc_ContractSet_eqs(1)]]

lemmas tc_ContractSet_roundtrip = tc_ContractSet_codec.roundtrip [folded decode_tc_ContractSet_def [unfolded tc_ContractSet_eqs(1)]]

lemmas tc_ContractSet_returns = tc_ContractSet_codec.decode_returns [folded decode_tc_ContractSet_def [unfolded tc_ContractSet_eqs(1)]]

lemma tc_ContractSet_interop: "interoperates L inp (wf_ContractSet L) (encode_ContractSet L) (decode_ContractSet L) (encode_tc_ContractSet L) (decode_tc_ContractSet L G)"
  using ContractSet_roundtrip tc_ContractSet_roundtrip by (simp add: interoperates_def tc_ContractSet_eqs(2))

end

interpretation tc_ContractSet_json: message_json toJSON_tc_ContractSet fromJSON_tc_ContractSet wfj_ContractSet
proof unfold_locales
  fix h m
  assume "wfj_ContractSet m"
  then show "json_rt (toJSON_tc_ContractSet h) (fromJSON_tc_ContractSet h) m"
    unfolding toJSON_tc_ContractSet_def fromJSON_tc_ContractSet_def wfj_ContractSet_def
    by (-) (rule json_rtI json_rules | assumption | (simp; fail))+
qed

lemmas tc_ContractSet_json_rules [json_rules] = tc_ContractSet_json.json_list_rules

lemma tc_ContractExpirationSet_eqs:
  "createBase_tc_ContractExpirationSet = createBase_ContractExpirationSet"
  "encode_tc_ContractExpirationSet L = encode_ContractExpirationSet L"
  "fromJSON_tc_ContractExpirationSet h = fromJSON_ContractExpirationSet h"
  "fromPartial_tc_ContractExpirationSet = fromPartial_ContractExpirationSet"
  by (simp_all add: fun_eq_iff createBase_tc_ContractExpirationSet_def createBase_ContractExpirationSet_def
      encode_tc_ContractExpirationSet_def encode_ContractExpirationSet_def
      fromJSON_tc_ContractExpirationSet_def fromJSON_ContractExpirationSet_def
      fromPartial_tc_ContractExpirationSet_def fromPartial_ContractExpirationSet_def tc_ContractSet_eqs)

lemma tc_ContractExpirationSet_tags:
  "tc_ContractExpirationSet_switch L G 8 m = readf (num64l G (r_int64 L)) (\<lambda>v. m\<lparr>ContractExpirationSet.height := v\<rparr>)"
  "tc_ContractExpirationSet_switch L G 18 m = readf (submsg L (decode_tc_ContractSet L G)) (\<lambda>v. m\<lparr>ContractExpirationSet.contractSet := Some v\<rparr>)"
  by (simp_all add: tc_ContractExpirationSet_switch_def)

sublocale long_wire_laws \<subseteq> tc_ContractExpirationSet_codec: message_codec L F out inp "encode_ContractExpirationSet L" "tc_ContractExpirationSet_switch L G" createBase_ContractExpirationSet "wf_ContractExpirationSet L"
proof unfold_locales
  show good: "good_sw (tc_ContractExpirationSet_switch L G)"
    unfolding tc_ContractExpirationSet_switch_def by (intro good_swI fwd_rules)
  fix m assume "wf_ContractExpirationSet L m"
  then show "codes (tc_ContractExpirationSet_switch L G) (encode_ContractExpirationSet L m) createBase_ContractExpirationSet m"
    unfolding encode_ContractExpirationSet_def wf_ContractExpirationSet_def
    by (elim conjE)
      (rule codes_Cons codes_Nil [OF ContractExpirationSet.equality] codec_rules
        codes_when [where tag = 8 and u = ContractExpirationSet.height_update and op = "num64l G (r_int64 L)", OF good]
        codes_some [where tag = 18 and u = ContractExpirationSet.contractSet_update and op = "submsg L (decode_tc_ContractSet L G)", OF good]
      | assumption | (simp add: tc_ContractExpirationSet_tags createBase_ContractExpirationSet_def; fail))+
qed

context long_wire_laws
begin

lemmas tc_ContractExpirationSet_carries [codec_rules] =
  tc_ContractExpirationSet_codec.opt_carries [folded decode_tc_ContractExpirationSet_def [unfolded tc_ContractExpirationSet_eqs(1)]] tc_ContractExpirationSet_codec.list_carries [folded decode_tc_ContractExpirationSet_def [unfolded tc_ContractExpirationSet_eqs(1)]]

lemmas tc_ContractExpirationSet_good [fwd_rules] = tc_ContractExpirationSet_codec.op_good [folded decode_tc_ContractExpirationSet_def [unfolded tc_ContractExpirationSet_eqs(1)]]

lemmas tc_ContractExpirationSet_roundtrip = tc_ContractExpirationSet_codec.roundtrip [folded decode_tc_ContractExpirationSet_def [unfolded tc_ContractExpirationSet_eqs(1)]]

lemmas tc_ContractExpirationSet_returns = tc_ContractExpirationSet_codec.decode_returns [folded decode_tc_ContractExpirationSet_def [unfolded tc_ContractExpirationSet_eqs(1)]]

lemma tc_ContractExpirationSet_interop: "interoperates L inp (wf_ContractExpirationSet L) (encode_ContractExpirationSet L) (decode_ContractExpirationSet L) (encode_tc_ContractExpirationSet L) (decode_tc_ContractExpirationSet L G)"
  using ContractExpirationSet_roundtrip tc_ContractExpirationSet_roundtrip by (simp add: interoperates_def tc_ContractExpirationSet_eqs(2))

end

interpretation tc_ContractExpirationSet_json: message_json toJSON_tc_ContractExpirationSet fromJSON_tc_ContractExpirationSet wfj_ContractExpirationSet
proof unfold_locales
  fix h m
  assume "wfj_ContractExpirationSet m"
  then show "json_rt (toJSON_tc_ContractExpirationSet h) (fromJSON_tc_ContractExpirationSet h) m"
    unfolding toJSON_tc_ContractExpirationSet_def fromJSON_tc_ContractExpirationSet_def wfj_ContractExpirationSet_def
    by (elim conjE) (rule json_rtI json_rules | assumption | (simp; fail))+
qed

lemmas tc_ContractExpirationSet_json_rules [json_rules] = tc_ContractExpirationSet_json.json_list_rules

lemma tc_UserContractSet_eqs:
  "createBase_tc_UserContractSet = createBase_UserContractSet"
  "encode_tc_UserContractSet L = encode_UserContractSet L"
  "fromJSON_tc_UserContractSet h = fromJSON_UserContractSet h"
  "fromPartial_tc_UserContractSet = fromPartial_UserContractSet"
  by (simp_all add: fun_eq_iff createBase_tc_UserContractSet_def createBase_UserContractSet_def
      encode_tc_UserContractSet_def encode_UserContractSet_def
      fromJSON_tc_UserContractSet_def fromJSON_UserContractSet_def
      fromPartial_tc_UserContractSet_def fromPartial_UserContractSet_def tc_ContractSet_eqs)

lemma tc_UserContractSet_tags:
  "tc_UserContractSet_switch L G 10 m = readf (r_bytes L) (\<lambda>v. m\<lparr>UserContractSet.user := v\<rparr>)"
  "tc_UserContractSet_switch L G 18 m = readf (submsg L (decode_tc_ContractSet L G)) (\<lambda>v. m\<lparr>UserContractSet.contractSet := Some v\<rparr>)"
  by (simp_all add: tc_UserContractSet_switch_def)

sublocale long_wire_laws \<subseteq> tc_UserContractSet_codec: message_codec L F out inp "encode_UserContractSet L" "tc_UserContractSet_switch L G" createBase_UserContractSet "wf_UserContractSet L"
proof unfold_locales
  show good: "good_sw (tc_UserContractSet_switch L G)"
    unfolding tc_UserContractSet_switch_def by (intro good_swI fwd_rules)
  fix m assume "wf_UserContractSet L m"
  then show "codes (tc_UserContractSet_switch L G) (encode_UserContractSet L m) createBase_UserContractSet m"
    unfolding encode_UserContractSet_def wf_UserContractSet_def
    by (elim conjE)
      (rule codes_Cons codes_Nil [OF UserContractSet.equality] codec_rules
        codes_when [where tag = 10 and u = UserContractSet.user_update and op = "r_bytes L", OF good]
        codes_some [where tag = 18 and u = UserContractSet.contractSet_update and op = "submsg L (decode_tc_ContractSet L G)", OF good]
      | assumption | (simp add: tc_UserContractSet_tags createBase_UserContractSet_def; fail))+
qed

context long_wire_laws
begin

lemmas tc_UserContractSet_carries [codec_rules] =
  tc_UserContractSet_codec.opt_carries [folded decode_tc_UserContractSet_def [unfolded tc_UserContractSet_eqs(1)]] tc_UserContractSet_codec.list_carries [folded decode_tc_UserContractSet_def [unfolded tc_UserContractSet_eqs(1)]]

lemmas tc_UserContractSet_good [fwd_rules] = tc_UserContractSet_codec.op_good [folded decode_tc_UserContractSet_def [unfolded tc_UserContractSet_eqs(1)]]

lemmas tc_UserContractSet_roundtrip = tc_UserContractSet_codec.roundtrip [folded decode_tc_UserContractSet_def [unfolded tc_UserContractSet_eqs(1)]]

lemmas tc_UserContractSet_returns = tc_UserContractSet_codec.decode_returns [folded decode_tc_UserContractSet_def [unfolded tc_UserContractSet_eqs(1)]]

lemma tc_UserContractSet_interop: "interoperates L inp (wf_UserContractSet L) (encode_UserContractSet L) (decode_UserContractSet L) (encode_tc_UserContractSet L) (decode_tc_UserContractSet L G)"
  using UserContractSet_roundtrip tc_UserContractSet_roundtrip by (simp add: interoperates_def tc_UserContractSet_eqs(2))

end

interpretation tc_UserContractSet_json: message_json toJSON_tc_UserContractSet fromJSON_tc_UserContractSet wfj_UserContractSet
proof unfold_locales
  fix h m
  assume "wfj_UserContractSet m"
  then show "json_rt (toJSON_tc_UserContractSet h) (fromJSON_tc_UserContractSet h) m"
    unfolding toJSON_tc_UserContractSet_def fromJSON_tc_UserContractSet_def wfj_UserContractSet_def
    by (-) (rule json_rtI json_rules | assumption | (simp; fail))+
qed

lemmas tc_UserContractSet_json_rules [json_rules] = tc_UserContractSet_json.json_list_rules

lemmas TcBase_eqs =
  tc_Coin_eqs(3,4) tc_DecCoin_eqs(3,4) tc_PageRequest_eqs(3,4) tc_PageResponse_eqs(3,4) tc_Provider_eqs(3,4) tc_Contract_eqs(3,4) tc_ContractSet_eqs(3,4) tc_ContractExpirationSet_eqs(3,4) tc_UserContractSet_eqs(3,4)

context long_wire_laws
begin

lemmas TcBase_interop =
  tc_Coin_interop tc_DecCoin_interop tc_PageRequest_interop tc_PageResponse_interop tc_Provider_interop tc_Contract_interop tc_ContractSet_interop tc_ContractExpirationSet_interop tc_UserContractSet_interop

end

end
