(* ===== verification/TcTx.thy ===== *)
theory TcTx
  imports TcBase TxMsgs
begin

unbundle bit_operations_syntax

text \<open>
  The transactions of the arkeo module in \<open>ts-client\<close>. Their accounts are bytes, where those of
  \<open>arkeo/arkeo/tx.ts\<close> are strings.
\<close>


section \<open>ts-client/arkeo.arkeo/types/arkeo/arkeo/tx.ts\<close>

subsection \<open>MsgBondProvider\<close>

record tc_MsgBondProvider =
  creator :: bytes
  provider :: bytes
  service :: jsstring
  bond :: jsstring

definition createBase_tc_MsgBondProvider :: tc_MsgBondProvider where
  "createBase_tc_MsgBondProvider = \<lparr>tc_MsgBondProvider.creator = [],
     tc_MsgBondProvider.provider = [],
     tc_MsgBondProvider.service = [],
     tc_MsgBondProvider.bond = []\<rparr>"

definition encode_tc_MsgBondProvider :: "('w, 'r) wire \<Rightarrow> tc_MsgBondProvider \<Rightarrow> 'w \<Rightarrow> 'w result" where
  "encode_tc_MsgBondProvider L message = seqE
    [whenE (length (tc_MsgBondProvider.creator message) \<noteq> 0) (seqE [w_uint32 L 10, w_bytes L (tc_MsgBondProvider.creator message)]),
     whenE (length (tc_MsgBondProvider.provider message) \<noteq> 0) (seqE [w_uint32 L 18, w_bytes L (tc_MsgBondProvider.provider message)]),
     whenE (tc_MsgBondProvider.service message \<noteq> []) (seqE [w_uint32 L 26, w_string L (tc_MsgBondProvider.service message)]),
     whenE (tc_MsgBondProvider.bond message \<noteq> []) (seqE [w_uint32 L 34, w_string L (tc_MsgBondProvider.bond message)])]"

definition tc_MsgBondProvider_switch :: "('w, 'r) wire \<Rightarrow> long_lib \<Rightarrow> u32 \<Rightarrow> tc_MsgBondProvider \<Rightarrow> (tc_MsgBondProvider, 'r) action" where
  "tc_MsgBondProvider_switch L G tag message = js_switch (drop_bit 3 tag)
    [(1, readf (r_bytes L) (\<lambda>v. message\<lparr>tc_MsgBondProvider.creator := v\<rparr>)),
     (2, readf (r_bytes L) (\<lambda>v. message\<lparr>tc_MsgBondProvider.provider := v\<rparr>)),
     (3, readf (r_string L) (\<lambda>v. message\<lparr>tc_MsgBondProvider.service := v\<rparr>)),
     (4, readf (r_string L) (\<lambda>v. message\<lparr>tc_MsgBondProvider.bond := v\<rparr>))]
    (skipType L tag message)"

definition decode_tc_MsgBondProvider :: "('w, 'r) wire \<Rightarrow> long_lib \<Rightarrow> 'r input \<Rightarrow> nat option \<Rightarrow> (tc_MsgBondProvider \<times> 'r) result" where
  "decode_tc_MsgBondProvider L G = decode_msg L (tc_MsgBondProvider_switch L G) createBase_tc_MsgBondProvider"

definition fromJSON_tc_MsgBondProvider :: "host \<Rightarrow> jsval \<Rightarrow> tc_MsgBondProvider result" where
  "fromJSON_tc_MsgBondProvider h object =
     bindE (fieldE object ''creator'' (bytesFromBase64 h) []) (\<lambda>v_creator.
     bindE (fieldE object ''provider'' (bytesFromBase64 h) []) (\<lambda>v_provider.
     bindE (fieldE object ''service'' (stringE h) []) (\<lambda>v_service.
     bindE (fieldE object ''bond'' (stringE h) []) (\<lambda>v_bond.
     Inr \<lparr>tc_MsgBondProvider.creator = v_creator, tc_MsgBondProvider.provider = v_provider, tc_MsgBondProvider.service = v_service, tc_MsgBondProvider.bond = v_bond\<rparr>))))"

definition toJSON_tc_MsgBondProvider :: "host \<Rightarrow> tc_MsgBondProvider \<Rightarrow> jsval result" where
  "toJSON_tc_MsgBondProvider h message = objE
    [jfieldE True ''creator'' (base64E h (tc_MsgBondProvider.creator message)),
     jfieldE True ''provider'' (base64E h (tc_MsgBondProvider.provider message)),
     jfieldE True ''service'' (Inr (JString (tc_MsgBondProvider.service message))),
     jfieldE True ''bond'' (Inr (JString (tc_MsgBondProvider.bond message)))]"

record tc_MsgBondProvider_Partial =
  creator :: "bytes option"
  provider :: "bytes option"
  service :: "jsstring option"
  bond :: "jsstring option"

definition fromPartial_tc_MsgBondProvider :: "tc_MsgBondProvider_Partial \<Rightarrow> tc_MsgBondProvider" where
  "fromPartial_tc_MsgBondProvider object = createBase_tc_MsgBondProvider\<lparr>tc_MsgBondProvider.creator := nullish (tc_MsgBondProvider_Partial.creator object) [],
     tc_MsgBondProvider.provider := nullish (tc_MsgBondProvider_Partial.provider object) [],
     tc_MsgBondProvider.service := nullish (tc_MsgBondProvider_Partial.service object) [],
     tc_MsgBondProvider.bond := nullish (tc_MsgBondProvider_Partial.bond object) []\<rparr>"

text \<open>A partial message that sets every field.\<close>

definition partial_of_tc_MsgBondProvider :: "tc_MsgBondProvider \<Rightarrow> tc_MsgBondProvider_Partial" where
  "partial_of_tc_MsgBondProvider m =
     \<lparr>tc_MsgBondProvider_Partial.creator = Some (tc_MsgBondProvider.creator m),
      tc_MsgBondProvider_Partial.provider = Some (tc_MsgBondProvider.provider m),
      tc_MsgBondProvider_Partial.service = Some (tc_MsgBondProvider.service m),
      tc_MsgBondProvider_Partial.bond = Some (tc_MsgBondProvider.bond m)\<rparr>"

definition wf_tc_MsgBondProvider :: "('w, 'r) wire \<Rightarrow> tc_MsgBondProvider \<Rightarrow> bool" where
  "wf_tc_MsgBondProvider L m \<longleftrightarrow> wire_bytes (tc_MsgBondProvider.creator m)
     \<and> wire_bytes (tc_MsgBondProvider.provider m)
     \<and> wire_string (tc_MsgBondProvider.service m)
     \<and> wire_string (tc_MsgBondProvider.bond m)"

definition wfj_tc_MsgBondProvider :: "tc_MsgBondProvider \<Rightarrow> bool" where
  "wfj_tc_MsgBondProvider m \<longleftrightarrow> True"

subsection \<open>MsgBondProviderResponse\<close>

definition createBase_tc_MsgBondProviderResponse :: MsgBondProviderResponse where
  "createBase_tc_MsgBondProviderResponse = MsgBondProviderResponse"

definition encode_tc_MsgBondProviderResponse :: "('w, 'r) wire \<Rightarrow> MsgBondProviderResponse \<Rightarrow> 'w \<Rightarrow> 'w result" where
  "encode_tc_MsgBondProviderResponse L message = seqE
    []"

definition tc_MsgBondProviderResponse_switch :: "('w, 'r) wire \<Rightarrow> long_lib \<Rightarrow> u32 \<Rightarrow> MsgBondProviderResponse \<Rightarrow> (MsgBondProviderResponse, 'r) action" where
  "tc_MsgBondProviderResponse_switch L G tag message = js_switch (drop_bit 3 tag)
    []
    (skipType L tag message)"

definition decode_tc_MsgBondProviderResponse :: "('w, 'r) wire \<Rightarrow> long_lib \<Rightarrow> 'r input \<Rightarrow> nat option \<Rightarrow> (MsgBondProviderResponse \<times> 'r) result" where
  "decode_tc_MsgBondProviderResponse L G = decode_msg L (tc_MsgBondProviderResponse_switch L G) createBase_tc_MsgBondProviderResponse"

definition fromJSON_tc_MsgBondProviderResponse :: "host \<Rightarrow> jsval \<Rightarrow> MsgBondProviderResponse result" where
  "fromJSON_tc_MsgBondProviderResponse h object =
     Inr MsgBondProviderResponse"

definition toJSON_tc_MsgBondProviderResponse :: "host \<Rightarrow> MsgBondProviderResponse \<Rightarrow> jsval result" where
  "toJSON_tc_MsgBondProviderResponse h message = objE
    []"

definition fromPartial_tc_MsgBondProviderResponse :: "MsgBondProviderResponse \<Rightarrow> MsgBondProviderResponse" where
  "fromPartial_tc_MsgBondProviderResponse object = createBase_tc_MsgBondProviderResponse"

subsection \<open>MsgModProvider\<close>

record tc_MsgModProvider =
  creator :: bytes
  provider :: bytes
  service :: jsstring
  metadataUri :: jsstring
  metadataNonce :: number
  status :: ProviderStatus
  minContractDuration :: number
  maxContractDuration :: number
  subscriptionRate :: "Coin list"
  payAsYouGoRate :: "Coin list"
  settlementDuration :: number

definition createBase_tc_MsgModProvider :: tc_MsgModProvider where
  "createBase_tc_MsgModProvider = \<lparr>tc_MsgModProvider.creator = [],
     tc_MsgModProvider.provider = [],
     tc_MsgModProvider.service = [],
     tc_MsgModProvider.metadataUri = [],
     tc_MsgModProvider.metadataNonce = Num 0,
     tc_MsgModProvider.status = Num 0,
     tc_MsgModProvider.minContractDuration = Num 0,
     tc_MsgModProvider.maxContractDuration = Num 0,
     tc_MsgModProvider.subscriptionRate = [],
     tc_MsgModProvider.payAsYouGoRate = [],
     tc_MsgModProvider.settlementDuration = Num 0\<rparr>"

definition encode_tc_MsgModProvider :: "('w, 'r) wire \<Rightarrow> tc_MsgModProvider \<Rightarrow> 'w \<Rightarrow> 'w result" where
  "encode_tc_MsgModProvider L message = seqE
    [whenE (length (tc_MsgModProvider.creator message) \<noteq> 0) (seqE [w_uint32 L 10, w_bytes L (tc_MsgModProvider.creator message)]),
     whenE (length (tc_MsgModProvider.provider message) \<noteq> 0) (seqE [w_uint32 L 18, w_bytes L (tc_MsgModProvider.provider message)]),
     whenE (tc_MsgModProvider.service message \<noteq> []) (seqE [w_uint32 L 26, w_string L (tc_MsgModProvider.service message)]),
     whenE (tc_MsgModProvider.metadataUri message \<noteq> []) (seqE [w_uint32 L 34, w_string L (tc_MsgModProvider.metadataUri message)]),
     whenE (tc_MsgModProvider.metadataNonce message \<noteq> Num 0) (seqE [w_uint32 L 40, w_uint64 L (tc_MsgModProvider.metadataNonce message)]),
     whenE (tc_MsgModProvider.status message \<noteq> Num 0) (seqE [w_uint32 L 48, w_int32 L (tc_MsgModProvider.status message)]),
     whenE (tc_MsgModProvider.minContractDuration message \<noteq> Num 0) (seqE [w_uint32 L 56, w_int64 L (tc_MsgModProvider.minContractDuration message)]),
     whenE (tc_MsgModProvider.maxContractDuration message \<noteq> Num 0) (seqE [w_uint32 L 64, w_int64 L (tc_MsgModProvider.maxContractDuration message)]),
     forE (\<lambda>v. seqE [w_uint32 L 74, w_fork L, encode_tc_Coin L v, w_join L]) (tc_MsgModProvider.subscriptionRate message),
     forE (\<lambda>v. seqE [w_uint32 L 82, w_fork L, encode_tc_Coin L v, w_join L]) (tc_MsgModProvider.payAsYouGoRate message),
     whenE (tc_MsgModProvider.settlementDuration message \<noteq> Num 0) (seqE [w_uint32 L 88, w_int64 L (tc_MsgModProvider.settlementDuration message)])]"

definition tc_MsgModProvider_switch :: "('w, 'r) wire \<Rightarrow> long_lib \<Rightarrow> u32 \<Rightarrow> tc_MsgModProvider \<Rightarrow> (tc_MsgModProvider, 'r) action" where
  "tc_MsgModProvider_switch L G tag message = js_switch (drop_bit 3 tag)
    [(1, readf (r_bytes L) (\<lambda>v. message\<lparr>tc_MsgModProvider.creator := v\<rparr>)),
     (2, readf (r_bytes L) (\<lambda>v. message\<lparr>tc_MsgModProvider.provider := v\<rparr>)),
     (3, readf (r_string L) (\<lambda>v. message\<lparr>tc_MsgModProvider.service := v\<rparr>)),
     (4, readf (r_string L) (\<lambda>v. message\<lparr>tc_MsgModProvider.metadataUri := v\<rparr>)),
     (5, readf (num64l G (r_uint64 L)) (\<lambda>v. message\<lparr>tc_MsgModProvider.metadataNonce := v\<rparr>)),
     (6, readf (num32 (r_int32 L)) (\<lambda>v. message\<lparr>tc_MsgModProvider.status := v\<rparr>)),
     (7, readf (num64l G (r_int64 L)) (\<lambda>v. message\<lparr>tc_MsgModProvider.minContractDuration := v\<rparr>)),
     (8, readf (num64l G (r_int64 L)) (\<lambda>v. message\<lparr>tc_MsgModProvider.maxContractDuration := v\<rparr>)),
     (9, readf (submsg L (decode_tc_Coin L G)) (\<lambda>v. message\<lparr>tc_MsgModProvider.subscriptionRate := tc_MsgModProvider.subscriptionRate message @ [v]\<rparr>)),
     (10, readf (submsg L (decode_tc_Coin L G)) (\<lambda>v. message\<lparr>tc_MsgModProvider.payAsYouGoRate := tc_MsgModProvider.payAsYouGoRate message @ [v]\<rparr>)),
     (11, readf (num64l G (r_int64 L)) (\<lambda>v. message\<lparr>tc_MsgModProvider.settlementDuration := v\<rparr>))]
    (skipType L tag message)"

definition decode_tc_MsgModProvider :: "('w, 'r) wire \<Rightarrow> long_lib \<Rightarrow> 'r input \<Rightarrow> nat option \<Rightarrow> (tc_MsgModProvider \<times> 'r) result" where
  "decode_tc_MsgModProvider L G = decode_msg L (tc_MsgModProvider_switch L G) createBase_tc_MsgModProvider"

definition fromJSON_tc_MsgModProvider :: "host \<Rightarrow> jsval \<Rightarrow> tc_MsgModProvider result" where
  "fromJSON_tc_MsgModProvider h object =
     bindE (fieldE object ''creator'' (bytesFromBase64 h) []) (\<lambda>v_creator.
     bindE (fieldE object ''provider'' (bytesFromBase64 h) []) (\<lambda>v_provider.
     bindE (fieldE object ''service'' (stringE h) []) (\<lambda>v_service.
     bindE (fieldE object ''metadataUri'' (stringE h) []) (\<lambda>v_metadataUri.
     bindE (fieldE object ''metadataNonce'' (numberE h) (Num 0)) (\<lambda>v_metadataNonce.
     bindE (fieldE object ''status'' (enumE tc_providerStatusFromJSON) (Num 0)) (\<lambda>v_status.
     bindE (fieldE object ''minContractDuration'' (numberE h) (Num 0)) (\<lambda>v_minContractDuration.
     bindE (fieldE object ''maxContractDuration'' (numberE h) (Num 0)) (\<lambda>v_maxContractDuration.
     bindE (arrayE object ''subscriptionRate'' (fromJSON_tc_Coin h)) (\<lambda>v_subscriptionRate.
     bindE (arrayE object ''payAsYouGoRate'' (fromJSON_tc_Coin h)) (\<lambda>v_payAsYouGoRate.
     bindE (fieldE object ''settlementDuration'' (numberE h) (Num 0)) (\<lambda>v_settlementDuration.
     Inr \<lparr>tc_MsgModProvider.creator = v_creator, tc_MsgModProvider.provider = v_provider, tc_MsgModProvider.service = v_service, tc_MsgModProvider.metadataUri = v_metadataUri, tc_MsgModProvider.metadataNonce = v_metadataNonce, tc_MsgModProvider.status = v_status, tc_MsgModProvider.minContractDuration = v_minContractDuration, tc_MsgModProvider.maxContractDuration = v_maxContractDuration, tc_MsgModProvider.subscriptionRate = v_subscriptionRate, tc_MsgModProvider.payAsYouGoRate = v_payAsYouGoRate, tc_MsgModProvider.settlementDuration = v_settlementDuration\<rparr>)))))))))))"

definition toJSON_tc_MsgModProvider :: "host \<Rightarrow> tc_MsgModProvider \<Rightarrow> jsval result" where
  "toJSON_tc_MsgModProvider h message = objE
    [jfieldE True ''creator'' (base64E h (tc_MsgModProvider.creator message)),
     jfieldE True ''provider'' (base64E h (tc_MsgModProvider.provider message)),
     jfieldE True ''service'' (Inr (JString (tc_MsgModProvider.service message))),
     jfieldE True ''metadataUri'' (Inr (JString (tc_MsgModProvider.metadataUri message))),
     jfieldE True ''metadataNonce'' (Inr (JNumber (Math_round (tc_MsgModProvider.metadataNonce message)))),
     jfieldE True ''status'' (Inr (JString (tc_providerStatusToJSON (tc_MsgModProvider.status message)))),
     jfieldE True ''minContractDuration'' (Inr (JNumber (Math_round (tc_MsgModProvider.minContractDuration message)))),
     jfieldE True ''maxContractDuration'' (Inr (JNumber (Math_round (tc_MsgModProvider.maxContractDuration message)))),
     jlistE ''subscriptionRate'' (toJSON_tc_Coin h) (tc_MsgModProvider.subscriptionRate message),
     jlistE ''payAsYouGoRate'' (toJSON_tc_Coin h) (tc_MsgModProvider.payAsYouGoRate message),
     jfieldE True ''settlementDuration'' (Inr (JNumber (Math_round (tc_MsgModProvider.settlementDuration message))))]"

record tc_MsgModProvider_Partial =
  creator :: "bytes option"
  provider :: "bytes option"
  service :: "jsstring option"
  metadataUri :: "jsstring option"
  metadataNonce :: "number option"
  status :: "ProviderStatus option"
  minContractDuration :: "number option"
  maxContractDuration :: "number option"
  subscriptionRate :: "Coin_Partial list option"
  payAsYouGoRate :: "Coin_Partial list option"
  settlementDuration :: "number option"

definition fromPartial_tc_MsgModProvider :: "tc_MsgModProvider_Partial \<Rightarrow> tc_MsgModProvider" where
  "fromPartial_tc_MsgModProvider object = createBase_tc_MsgModProvider\<lparr>tc_MsgModProvider.creator := nullish (tc_MsgModProvider_Partial.creator object) [],
     tc_MsgModProvider.provider := nullish (tc_MsgModProvider_Partial.provider object) [],
     tc_MsgModProvider.service := nullish (tc_MsgModProvider_Partial.service object) [],
     tc_MsgModProvider.metadataUri := nullish (tc_MsgModProvider_Partial.metadataUri object) [],
     tc_MsgModProvider.metadataNonce := nullish (tc_MsgModProvider_Partial.metadataNonce object) (Num 0),
     tc_MsgModProvider.status := nullish (tc_MsgModProvider_Partial.status object) (Num 0),
     tc_MsgModProvider.minContractDuration := nullish (tc_MsgModProvider_Partial.minContractDuration object) (Num 0),
     tc_MsgModProvider.maxContractDuration := nullish (tc_MsgModProvider_Partial.maxContractDuration object) (Num 0),
     tc_MsgModProvider.subscriptionRate := partial_map fromPartial_tc_Coin (tc_MsgModProvider_Partial.subscriptionRate object),
     tc_MsgModProvider.payAsYouGoRate := partial_map fromPartial_tc_Coin (tc_MsgModProvider_Partial.payAsYouGoRate object),
     tc_MsgModProvider.settlementDuration := nullish (tc_MsgModProvider_Partial.settlementDuration object) (Num 0)\<rparr>"

text \<open>A partial message that sets every field.\<close>

definition partial_of_tc_MsgModProvider :: "tc_MsgModProvider \<Rightarrow> tc_MsgModProvider_Partial" where
  "partial_of_tc_MsgModProvider m =
     \<lparr>tc_MsgModProvider_Partial.creator = Some (tc_MsgModProvider.creator m),
      tc_MsgModProvider_Partial.provider = Some (tc_MsgModProvider.provider m),
      tc_MsgModProvider_Partial.service = Some (tc_MsgModProvider.service m),
      tc_MsgModProvider_Partial.metadataUri = Some (tc_MsgModProvider.metadataUri m),
      tc_MsgModProvider_Partial.metadataNonce = Some (tc_MsgModProvider.metadataNonce m),
      tc_MsgModProvider_Partial.status = Some (tc_MsgModProvider.status m),
      tc_MsgModProvider_Partial.minContractDuration = Some (tc_MsgModProvider.minContractDuration m),
      tc_MsgModProvider_Partial.maxContractDuration = Some (tc_MsgModProvider.maxContractDuration m),
      tc_MsgModProvider_Partial.subscriptionRate = Some (map partial_of_Coin (tc_MsgModProvider.subscriptionRate m)),
      tc_MsgModProvider_Partial.payAsYouGoRate = Some (map partial_of_Coin (tc_MsgModProvider.payAsYouGoRate m)),
      tc_MsgModProvider_Partial.settlementDuration = Some (tc_MsgModProvider.settlementDuration m)\<rparr>"

definition wf_tc_MsgModProvider :: "('w, 'r) wire \<Rightarrow> tc_MsgModProvider \<Rightarrow> bool" where
  "wf_tc_MsgModProvider L m \<longleftrightarrow> wire_bytes (tc_MsgModProvider.creator m)
     \<and> wire_bytes (tc_MsgModProvider.provider m)
     \<and> wire_string (tc_MsgModProvider.service m)
     \<and> wire_string (tc_MsgModProvider.metadataUri m)
     \<and> safe_uint (tc_MsgModProvider.metadataNonce m)
     \<and> int32_num (tc_MsgModProvider.status m)
     \<and> safe_int (tc_MsgModProvider.minContractDuration m)
     \<and> safe_int (tc_MsgModProvider.maxContractDuration m)
     \<and> list_all (\<lambda>v. wf_Coin L v \<and> fits L (encode_Coin L v)) (tc_MsgModProvider.subscriptionRate m)
     \<and> list_all (\<lambda>v. wf_Coin L v \<and> fits L (encode_Coin L v)) (tc_MsgModProvider.payAsYouGoRate m)
     \<and> safe_int (tc_MsgModProvider.settlementDuration m)"

definition wfj_tc_MsgModProvider :: "tc_MsgModProvider \<Rightarrow> bool" where
  "wfj_tc_MsgModProvider m \<longleftrightarrow> whole (tc_MsgModProvider.metadataNonce m)
     \<and> ProviderStatus_known (tc_MsgModProvider.status m)
     \<and> whole (tc_MsgModProvider.minContractDuration m)
     \<and> whole (tc_MsgModProvider.maxContractDuration m)
     \<and> list_all wfj_Coin (tc_MsgModProvider.subscriptionRate m)
     \<and> list_all wfj_Coin (tc_MsgModProvider.payAsYouGoRate m)
     \<and> whole (tc_MsgModProvider.settlementDuration m)"

subsection \<open>MsgModProviderResponse\<close>

definition createBase_tc_MsgModProviderResponse :: MsgModProviderResponse where
  "createBase_tc_MsgModProviderResponse = MsgModProviderResponse"

definition encode_tc_MsgModProviderResponse :: "('w, 'r) wire \<Rightarrow> MsgModProviderResponse \<Rightarrow> 'w \<Rightarrow> 'w result" where
  "encode_tc_MsgModProviderResponse L message = seqE
    []"

definition tc_MsgModProviderResponse_switch :: "('w, 'r) wire \<Rightarrow> long_lib \<Rightarrow> u32 \<Rightarrow> MsgModProviderResponse \<Rightarrow> (MsgModProviderResponse, 'r) action" where
  "tc_MsgModProviderResponse_switch L G tag message = js_switch (drop_bit 3 tag)
    []
    (skipType L tag message)"

definition decode_tc_MsgModProviderResponse :: "('w, 'r) wire \<Rightarrow> long_lib \<Rightarrow> 'r input \<Rightarrow> nat option \<Rightarrow> (MsgModProviderResponse \<times> 'r) result" where
  "decode_tc_MsgModProviderResponse L G = decode_msg L (tc_MsgModProviderResponse_switch L G) createBase_tc_MsgModProviderResponse"

definition fromJSON_tc_MsgModProviderResponse :: "host \<Rightarrow> jsval \<Rightarrow> MsgModProviderResponse result" where
  "fromJSON_tc_MsgModProviderResponse h object =
     Inr MsgModProviderResponse"

definition toJSON_tc_MsgModProviderResponse :: "host \<Rightarrow> MsgModProviderResponse \<Rightarrow> jsval result" where
  "toJSON_tc_MsgModProviderResponse h message = objE
    []"

definition fromPartial_tc_MsgModProviderResponse :: "MsgModProviderResponse \<Rightarrow> MsgModProviderResponse" where
  "fromPartial_tc_MsgModProviderResponse object = createBase_tc_MsgModProviderResponse"

subsection \<open>MsgOpenContract\<close>

record tc_MsgOpenContract =
  creator :: bytes
  provider :: bytes
  service :: jsstring
  client :: bytes
  delegate :: bytes
  contractType :: ContractType
  duration :: number
  rate :: "Coin option"
  deposit :: jsstring
  settlementDuration :: number
  authorization :: ContractAuthorization
  queriesPerMinute :: number

definition createBase_tc_MsgOpenContract :: tc_MsgOpenContract where
  "createBase_tc_MsgOpenContract = \<lparr>tc_MsgOpenContract.creator = [],
     tc_MsgOpenContract.provider = [],
     tc_MsgOpenContract.service = [],
     tc_MsgOpenContract.client = [],
     tc_MsgOpenContract.delegate = [],
     tc_MsgOpenContract.contractType = Num 0,
     tc_MsgOpenContract.duration = Num 0,
     tc_MsgOpenContract.rate = None,
     tc_MsgOpenContract.deposit = [],
     tc_MsgOpenContract.settlementDuration = Num 0,
     tc_MsgOpenContract.authorization = Num 0,
     tc_MsgOpenContract.queriesPerMinute = Num 0\<rparr>"

definition encode_tc_MsgOpenContract :: "('w, 'r) wire \<Rightarrow> tc_MsgOpenContract \<Rightarrow> 'w \<Rightarrow> 'w result" where
  "encode_tc_MsgOpenContract L message = seqE
    [whenE (length (tc_MsgOpenContract.creator message) \<noteq> 0) (seqE [w_uint32 L 10, w_bytes L (tc_MsgOpenContract.creator message)]),
     whenE (length (tc_MsgOpenContract.provider message) \<noteq> 0) (seqE [w_uint32 L 18, w_bytes L (tc_MsgOpenContract.provider message)]),
     whenE (tc_MsgOpenContract.service message \<noteq> []) (seqE [w_uint32 L 26, w_string L (tc_MsgOpenContract.service message)]),
     whenE (length (tc_MsgOpenContract.client message) \<noteq> 0) (seqE [w_uint32 L 34, w_bytes L (tc_MsgOpenContract.client message)]),
     whenE (length (tc_MsgOpenContract.delegate message) \<noteq> 0) (seqE [w_uint32 L 42, w_bytes L (tc_MsgOpenContract.delegate message)]),
     whenE (tc_MsgOpenContract.contractType message \<noteq> Num 0) (seqE [w_uint32 L 48, w_int32 L (tc_MsgOpenContract.contractType message)]),
     whenE (tc_MsgOpenContract.duration message \<noteq> Num 0) (seqE [w_uint32 L 56, w_int64 L (tc_MsgOpenContract.duration message)]),
     someE (tc_MsgOpenContract.rate message) (\<lambda>v. seqE [w_uint32 L 66, w_fork L, encode_tc_Coin L v, w_join L]),
     whenE (tc_MsgOpenContract.deposit message \<noteq> []) (seqE [w_uint32 L 74, w_string L (tc_MsgOpenContract.deposit message)]),
     whenE (tc_MsgOpenContract.settlementDuration message \<noteq> Num 0) (seqE [w_uint32 L 80, w_int64 L (tc_MsgOpenContract.settlementDuration message)]),
     whenE (tc_MsgOpenContract.authorization message \<noteq> Num 0) (seqE [w_uint32 L 88, w_int32 L (tc_MsgOpenContract.authorization message)]),
     whenE (tc_MsgOpenContract.queriesPerMinute message \<noteq> Num 0) (seqE [w_uint32 L 96, w_int64 L (tc_MsgOpenContract.queriesPerMinute message)])]"

definition tc_MsgOpenContract_switch :: "('w, 'r) wire \<Rightarrow> long_lib \<Rightarrow> u32 \<Rightarrow> tc_MsgOpenContract \<Rightarrow> (tc_MsgOpenContract, 'r) action" where
  "tc_MsgOpenContract_switch L G tag message = js_switch (drop_bit 3 tag)
    [(1, readf (r_bytes L) (\<lambda>v. message\<lparr>tc_MsgOpenContract.creator := v\<rparr>)),
     (2, readf (r_bytes L) (\<lambda>v. message\<lparr>tc_MsgOpenContract.provider := v\<rparr>)),
     (3, readf (r_string L) (\<lambda>v. message\<lparr>tc_MsgOpenContract.service := v\<rparr>)),
     (4, readf (r_bytes L) (\<lambda>v. message\<lparr>tc_MsgOpenContract.client := v\<rparr>)),
     (5, readf (r_bytes L) (\<lambda>v. message\<lparr>tc_MsgOpenContract.delegate := v\<rparr>)),
     (6, readf (num32 (r_int32 L)) (\<lambda>v. message\<lparr>tc_MsgOpenContract.contractType := v\<rparr>)),
     (7, readf (num64l G (r_int64 L)) (\<lambda>v. message\<lparr>tc_MsgOpenContract.duration := v\<rparr>)),
     (8, readf (submsg L (decode_tc_Coin L G)) (\<lambda>v. message\<lparr>tc_MsgOpenContract.rate := Some v\<rparr>)),
     (9, readf (r_string L) (\<lambda>v. message\<lparr>tc_MsgOpenContract.deposit := v\<rparr>)),
     (10, readf (num64l G (r_int64 L)) (\<lambda>v. message\<lparr>tc_MsgOpenContract.settlementDuration := v\<rparr>)),
     (11, readf (num32 (r_int32 L)) (\<lambda>v. message\<lparr>tc_MsgOpenContract.authorization := v\<rparr>)),
     (12, readf (num64l G (r_int64 L)) (\<lambda>v. message\<lparr>tc_MsgOpenContract.queriesPerMinute := v\<rparr>))]
    (skipType L tag message)"

definition decode_tc_MsgOpenContract :: "('w, 'r) wire \<Rightarrow> long_lib \<Rightarrow> 'r input \<Rightarrow> nat option \<Rightarrow> (tc_MsgOpenContract \<times> 'r) result" where
  "decode_tc_MsgOpenContract L G = decode_msg L (tc_MsgOpenContract_switch L G) createBase_tc_MsgOpenContract"

definition fromJSON_tc_MsgOpenContract :: "host \<Rightarrow> jsval \<Rightarrow> tc_MsgOpenContract result" where
  "fromJSON_tc_MsgOpenContract h object =
     bindE (fieldE object ''creator'' (bytesFromBase64 h) []) (\<lambda>v_creator.
     bindE (fieldE object ''provider'' (bytesFromBase64 h) []) (\<lambda>v_provider.
     bindE (fieldE object ''service'' (stringE h) []) (\<lambda>v_service.
     bindE (fieldE object ''client'' (bytesFromBase64 h) []) (\<lambda>v_client.
     bindE (fieldE object ''delegate'' (bytesFromBase64 h) []) (\<lambda>v_delegate.
     bindE (fieldE object ''contractType'' (enumE tc_contractTypeFromJSON) (Num 0)) (\<lambda>v_contractType.
     bindE (fieldE object ''duration'' (numberE h) (Num 0)) (\<lambda>v_duration.
     bindE (optE object ''rate'' (fromJSON_tc_Coin h)) (\<lambda>v_rate.
     bindE (fieldE object ''deposit'' (stringE h) []) (\<lambda>v_deposit.
     bindE (fieldE object ''settlementDuration'' (numberE h) (Num 0)) (\<lambda>v_settlementDuration.
     bindE (fieldE object ''authorization'' (enumE tc_contractAuthorizationFromJSON) (Num 0)) (\<lambda>v_authorization.
     bindE (fieldE object ''queriesPerMinute'' (numberE h) (Num 0)) (\<lambda>v_queriesPerMinute.
     Inr \<lparr>tc_MsgOpenContract.creator = v_creator, tc_MsgOpenContract.provider = v_provider, tc_MsgOpenContract.service = v_service, tc_MsgOpenContract.client = v_client, tc_MsgOpenContract.delegate = v_delegate, tc_MsgOpenContract.contractType = v_contractType, tc_MsgOpenContract.duration = v_duration, tc_MsgOpenContract.rate = v_rate, tc_MsgOpenContract.deposit = v_deposit, tc_MsgOpenContract.settlementDuration = v_settlementDuration, tc_MsgOpenContract.authorization = v_authorization, tc_MsgOpenContract.queriesPerMinute = v_queriesPerMinute\<rparr>))))))))))))"

definition toJSON_tc_MsgOpenContract :: "host \<Rightarrow> tc_MsgOpenContract \<Rightarrow> jsval result" where
  "toJSON_tc_MsgOpenContract h message = objE
    [jfieldE True ''creator'' (base64E h (tc_MsgOpenContract.creator message)),
     jfieldE True ''provider'' (base64E h (tc_MsgOpenContract.provider message)),
     jfieldE True ''service'' (Inr (JString (tc_MsgOpenContract.service message))),
     jfieldE True ''client'' (base64E h (tc_MsgOpenContract.client message)),
     jfieldE True ''delegate'' (base64E h (tc_MsgOpenContract.delegate message)),
     jfieldE True ''contractType'' (Inr (JString (tc_contractTypeToJSON (tc_MsgOpenContract.contractType message)))),
     jfieldE True ''duration'' (Inr (JNumber (Math_round (tc_MsgOpenContract.duration message)))),
     joptE ''rate'' (toJSON_tc_Coin h) (tc_MsgOpenContract.rate message),
     jfieldE True ''deposit'' (Inr (JString (tc_MsgOpenContract.deposit message))),
     jfieldE True ''settlementDuration'' (Inr (JNumber (Math_round (tc_MsgOpenContract.settlementDuration message)))),
     jfieldE True ''authorization'' (Inr (JString (tc_contractAuthorizationToJSON (tc_MsgOpenContract.authorization message)))),
     jfieldE True ''queriesPerMinute'' (Inr (JNumber (Math_round (tc_MsgOpenContract.queriesPerMinute message))))]"

record tc_MsgOpenContract_Partial =
  creator :: "bytes option"
  provider :: "bytes option"
  service :: "jsstring option"
  client :: "bytes option"
  delegate :: "bytes option"
  contractType :: "ContractType option"
  duration :: "number option"
  rate :: "Coin_Partial option"
  deposit :: "jsstring option"
  settlementDuration :: "number option"
  authorization :: "ContractAuthorization option"
  queriesPerMinute :: "number option"

definition fromPartial_tc_MsgOpenContract :: "tc_MsgOpenContract_Partial \<Rightarrow> tc_MsgOpenContract" where
  "fromPartial_tc_MsgOpenContract object = createBase_tc_MsgOpenContract\<lparr>tc_MsgOpenContract.creator := nullish (tc_MsgOpenContract_Partial.creator object) [],
     tc_MsgOpenContract.provider := nullish (tc_MsgOpenContract_Partial.provider object) [],
     tc_MsgOpenContract.service := nullish (tc_MsgOpenContract_Partial.service object) [],
     tc_MsgOpenContract.client := nullish (tc_MsgOpenContract_Partial.client object) [],
     tc_MsgOpenContract.delegate := nullish (tc_MsgOpenContract_Partial.delegate object) [],
     tc_MsgOpenContract.contractType := nullish (tc_MsgOpenContract_Partial.contractType object) (Num 0),
     tc_MsgOpenContract.duration := nullish (tc_MsgOpenContract_Partial.duration object) (Num 0),
     tc_MsgOpenContract.rate := map_option fromPartial_tc_Coin (tc_MsgOpenContract_Partial.rate object),
     tc_MsgOpenContract.deposit := nullish (tc_MsgOpenContract_Partial.deposit object) [],
     tc_MsgOpenContract.settlementDuration := nullish (tc_MsgOpenContract_Partial.settlementDuration object) (Num 0),
     tc_MsgOpenContract.authorization := nullish (tc_MsgOpenContract_Partial.authorization object) (Num 0),
     tc_MsgOpenContract.queriesPerMinute := nullish (tc_MsgOpenContract_Partial.queriesPerMinute object) (Num 0)\<rparr>"

text \<open>A partial message that sets every field.\<close>

definition partial_of_tc_MsgOpenContract :: "tc_MsgOpenContract \<Rightarrow> tc_MsgOpenContract_Partial" where
  "partial_of_tc_MsgOpenContract m =
     \<lparr>tc_MsgOpenContract_Partial.creator = Some (tc_MsgOpenContract.creator m),
      tc_MsgOpenContract_Partial.provider = Some (tc_MsgOpenContract.provider m),
      tc_MsgOpenContract_Partial.service = Some (tc_MsgOpenContract.service m),
      tc_MsgOpenContract_Partial.client = Some (tc_MsgOpenContract.client m),
      tc_MsgOpenContract_Partial.delegate = Some (tc_MsgOpenContract.delegate m),
      tc_MsgOpenContract_Partial.contractType = Some (tc_MsgOpenContract.contractType m),
      tc_MsgOpenContract_Partial.duration = Some (tc_MsgOpenContract.duration m),
      tc_MsgOpenContract_Partial.rate = map_option partial_of_Coin (tc_MsgOpenContract.rate m),
      tc_MsgOpenContract_Partial.deposit = Some (tc_MsgOpenContract.deposit m),
      tc_MsgOpenContract_Partial.settlementDuration = Some (tc_MsgOpenContract.settlementDuration m),
      tc_MsgOpenContract_Partial.authorization = Some (tc_MsgOpenContract.authorization m),
      tc_MsgOpenContract_Partial.queriesPerMinute = Some (tc_MsgOpenContract.queriesPerMinute m)\<rparr>"

definition wf_tc_MsgOpenContract :: "('w, 'r) wire \<Rightarrow> tc_MsgOpenContract \<Rightarrow> bool" where
  "wf_tc_MsgOpenContract L m \<longleftrightarrow> wire_bytes (tc_MsgOpenContract.creator m)
     \<and> wire_bytes (tc_MsgOpenContract.provider m)
     \<and> wire_string (tc_MsgOpenContract.service m)
     \<and> wire_bytes (tc_MsgOpenContract.client m)
     \<and> wire_bytes (tc_MsgOpenContract.delegate m)
     \<and> int32_num (tc_MsgOpenContract.contractType m)
     \<and> safe_int (tc_MsgOpenContract.duration m)
     \<and> pred_option (\<lambda>v. wf_Coin L v \<and> fits L (encode_Coin L v)) (tc_MsgOpenContract.rate m)
     \<and> wire_string (tc_MsgOpenContract.deposit m)
     \<and> safe_int (tc_MsgOpenContract.settlementDuration m)
     \<and> int32_num (tc_MsgOpenContract.authorization m)
     \<and> safe_int (tc_MsgOpenContract.queriesPerMinute m)"

definition wfj_tc_MsgOpenContract :: "tc_MsgOpenContract \<Rightarrow> bool" where
  "wfj_tc_MsgOpenContract m \<longleftrightarrow> ContractType_known (tc_MsgOpenContract.contractType m)
     \<and> whole (tc_MsgOpenContract.duration m)
     \<and> pred_option wfj_Coin (tc_MsgOpenContract.rate m)
     \<and> whole (tc_MsgOpenContract.settlementDuration m)
     \<and> ContractAuthorization_known (tc_MsgOpenContract.authorization m)
     \<and> whole (tc_MsgOpenContract.queriesPerMinute m)"

subsection \<open>MsgOpenContractResponse\<close>

definition createBase_tc_MsgOpenContractResponse :: MsgOpenContractResponse where
  "createBase_tc_MsgOpenContractResponse = MsgOpenContractResponse"

definition encode_tc_MsgOpenContractResponse :: "('w, 'r) wire \<Rightarrow> MsgOpenContractResponse \<Rightarrow> 'w \<Rightarrow> 'w result" where
  "encode_tc_MsgOpenContractResponse L message = seqE
    []"

definition tc_MsgOpenContractResponse_switch :: "('w, 'r) wire \<Rightarrow> long_lib \<Rightarrow> u32 \<Rightarrow> MsgOpenContractResponse \<Rightarrow> (MsgOpenContractResponse, 'r) action" where
  "tc_MsgOpenContractResponse_switch L G tag message = js_switch (drop_bit 3 tag)
    []
    (skipType L tag message)"

definition decode_tc_MsgOpenContractResponse :: "('w, 'r) wire \<Rightarrow> long_lib \<Rightarrow> 'r input \<Rightarrow> nat option \<Rightarrow> (MsgOpenContractResponse \<times> 'r) result" where
  "decode_tc_MsgOpenContractResponse L G = decode_msg L (tc_MsgOpenContractResponse_switch L G) createBase_tc_MsgOpenContractResponse"

definition fromJSON_tc_MsgOpenContractResponse :: "host \<Rightarrow> jsval \<Rightarrow> MsgOpenContractResponse result" where
  "fromJSON_tc_MsgOpenContractResponse h object =
     Inr MsgOpenContractResponse"

definition toJSON_tc_MsgOpenContractResponse :: "host \<Rightarrow> MsgOpenContractResponse \<Rightarrow> jsval result" where
  "toJSON_tc_MsgOpenContractResponse h message = objE
    []"

definition fromPartial_tc_MsgOpenContractResponse :: "MsgOpenContractResponse \<Rightarrow> MsgOpenContractResponse" where
  "fromPartial_tc_MsgOpenContractResponse object = createBase_tc_MsgOpenContractResponse"

subsection \<open>MsgCloseContract\<close>

record tc_MsgCloseContract =
  creator :: bytes
  contractId :: number

definition createBase_tc_MsgCloseContract :: tc_MsgCloseContract where
  "createBase_tc_MsgCloseContract = \<lparr>tc_MsgCloseContract.creator = [],
     tc_MsgCloseContract.contractId = Num 0\<rparr>"

definition encode_tc_MsgCloseContract :: "('w, 'r) wire \<Rightarrow> tc_MsgCloseContract \<Rightarrow> 'w \<Rightarrow> 'w result" where
  "encode_tc_MsgCloseContract L message = seqE
    [whenE (length (tc_MsgCloseContract.creator message) \<noteq> 0) (seqE [w_uint32 L 10, w_bytes L (tc_MsgCloseContract.creator message)]),
     whenE (tc_MsgCloseContract.contractId message \<noteq> Num 0) (seqE [w_uint32 L 16, w_uint64 L (tc_MsgCloseContract.contractId message)])]"

definition tc_MsgCloseContract_switch :: "('w, 'r) wire \<Rightarrow> long_lib \<Rightarrow> u32 \<Rightarrow> tc_MsgCloseContract \<Rightarrow> (tc_MsgCloseContract, 'r) action" where
  "tc_MsgCloseContract_switch L G tag message = js_switch (drop_bit 3 tag)
    [(1, readf (r_bytes L) (\<lambda>v. message\<lparr>tc_MsgCloseContract.creator := v\<rparr>)),
     (2, readf (num64l G (r_uint64 L)) (\<lambda>v. message\<lparr>tc_MsgCloseContract.contractId := v\<rparr>))]
    (skipType L tag message)"

definition decode_tc_MsgCloseContract :: "('w, 'r) wire \<Rightarrow> long_lib \<Rightarrow> 'r input \<Rightarrow> nat option \<Rightarrow> (tc_MsgCloseContract \<times> 'r) result" where
  "decode_tc_MsgCloseContract L G = decode_msg L (tc_MsgCloseContract_switch L G) createBase_tc_MsgCloseContract"

definition fromJSON_tc_MsgCloseContract :: "host \<Rightarrow> jsval \<Rightarrow> tc_MsgCloseContract result" where
  "fromJSON_tc_MsgCloseContract h object =
     bindE (fieldE object ''creator'' (bytesFromBase64 h) []) (\<lambda>v_creator.
     bindE (fieldE object ''contractId'' (numberE h) (Num 0)) (\<lambda>v_contractId.
     Inr \<lparr>tc_MsgCloseContract.creator = v_creator, tc_MsgCloseContract.contractId = v_contractId\<rparr>))"

definition toJSON_tc_MsgCloseContract :: "host \<Rightarrow> tc_MsgCloseContract \<Rightarrow> jsval result" where
  "toJSON_tc_MsgCloseContract h message = objE
    [jfieldE True ''creator'' (base64E h (tc_MsgCloseContract.creator message)),
     jfieldE True ''contractId'' (Inr (JNumber (Math_round (tc_MsgCloseContract.contractId message))))]"

record tc_MsgCloseContract_Partial =
  creator :: "bytes option"
  contractId :: "number option"

definition fromPartial_tc_MsgCloseContract :: "tc_MsgCloseContract_Partial \<Rightarrow> tc_MsgCloseContract" where
  "fromPartial_tc_MsgCloseContract object = createBase_tc_MsgCloseContract\<lparr>tc_MsgCloseContract.creator := nullish (tc_MsgCloseContract_Partial.creator object) [],
     tc_MsgCloseContract.contractId := nullish (tc_MsgCloseContract_Partial.contractId object) (Num 0)\<rparr>"

text \<open>A partial message that sets every field.\<close>

definition partial_of_tc_MsgCloseContract :: "tc_MsgCloseContract \<Rightarrow> tc_MsgCloseContract_Partial" where
  "partial_of_tc_MsgCloseContract m =
     \<lparr>tc_MsgCloseContract_Partial.creator = Some (tc_MsgCloseContract.creator m),
      tc_MsgCloseContract_Partial.contractId = Some (tc_MsgCloseContract.contractId m)\<rparr>"

definition wf_tc_MsgCloseContract :: "('w, 'r) wire \<Rightarrow> tc_MsgCloseContract \<Rightarrow> bool" where
  "wf_tc_MsgCloseContract L m \<longleftrightarrow> wire_bytes (tc_MsgCloseContract.creator m)
     \<and> safe_uint (tc_MsgCloseContract.contractId m)"

definition wfj_tc_MsgCloseContract :: "tc_MsgCloseContract \<Rightarrow> bool" where
  "wfj_tc_MsgCloseContract m \<longleftrightarrow> whole (tc_MsgCloseContract.contractId m)"

subsection \<open>MsgCloseContractResponse\<close>

definition createBase_tc_MsgCloseContractResponse :: MsgCloseContractResponse where
  "createBase_tc_MsgCloseContractResponse = MsgCloseContractResponse"

definition encode_tc_MsgCloseContractResponse :: "('w, 'r) wire \<Rightarrow> MsgCloseContractResponse \<Rightarrow> 'w \<Rightarrow> 'w result" where
  "encode_tc_MsgCloseContractResponse L message = seqE
    []"

definition tc_MsgCloseContractResponse_switch :: "('w, 'r) wire \<Rightarrow> long_lib \<Rightarrow> u32 \<Rightarrow> MsgCloseContractResponse \<Rightarrow> (MsgCloseContractResponse, 'r) action" where
  "tc_MsgCloseContractResponse_switch L G tag message = js_switch (drop_bit 3 tag)
    []
    (skipType L tag message)"

definition decode_tc_MsgCloseContractResponse :: "('w, 'r) wire \<Rightarrow> long_lib \<Rightarrow> 'r input \<Rightarrow> nat option \<Rightarrow> (MsgCloseContractResponse \<times> 'r) result" where
  "decode_tc_MsgCloseContractResponse L G = decode_msg L (tc_MsgCloseContractResponse_switch L G) createBase_tc_MsgCloseContractResponse"

definition fromJSON_tc_MsgCloseContractResponse :: "host \<Rightarrow> jsval \<Rightarrow> MsgCloseContractResponse result" where
  "fromJSON_tc_MsgCloseContractResponse h object =
     Inr MsgCloseContractResponse"

definition toJSON_tc_MsgCloseContractResponse :: "host \<Rightarrow> MsgCloseContractResponse \<Rightarrow> jsval result" where
  "toJSON_tc_MsgCloseContractResponse h message = objE
    []"

definition fromPartial_tc_MsgCloseContractResponse :: "MsgCloseContractResponse \<Rightarrow> MsgCloseContractResponse" where
  "fromPartial_tc_MsgCloseContractResponse object = createBase_tc_MsgCloseContractResponse"

subsection \<open>MsgClaimContractIncome\<close>

record tc_MsgClaimContractIncome =
  creator :: bytes
  contractId :: number
  signature :: bytes
  nonce :: number

definition createBase_tc_MsgClaimContractIncome :: tc_MsgClaimContractIncome where
  "createBase_tc_MsgClaimContractIncome = \<lparr>tc_MsgClaimContractIncome.creator = [],
     tc_MsgClaimContractIncome.contractId = Num 0,
     tc_MsgClaimContractIncome.signature = [],
     tc_MsgClaimContractIncome.nonce = Num 0\<rparr>"

definition encode_tc_MsgClaimContractIncome :: "('w, 'r) wire \<Rightarrow> tc_MsgClaimContractIncome \<Rightarrow> 'w \<Rightarrow> 'w result" where
  "encode_tc_MsgClaimContractIncome L message = seqE
    [whenE (length (tc_MsgClaimContractIncome.creator message) \<noteq> 0) (seqE [w_uint32 L 10, w_bytes L (tc_MsgClaimContractIncome.creator message)]),
     whenE (tc_MsgClaimContractIncome.contractId message \<noteq> Num 0) (seqE [w_uint32 L 16, w_uint64 L (tc_MsgClaimContractIncome.contractId message)]),
     whenE (length (tc_MsgClaimContractIncome.signature message) \<noteq> 0) (seqE [w_uint32 L 34, w_bytes L (tc_MsgClaimContractIncome.signature message)]),
     whenE (tc_MsgClaimContractIncome.nonce message \<noteq> Num 0) (seqE [w_uint32 L 40, w_int64 L (tc_MsgClaimContractIncome.nonce message)])]"

definition tc_MsgClaimContractIncome_switch :: "('w, 'r) wire \<Rightarrow> long_lib \<Rightarrow> u32 \<Rightarrow> tc_MsgClaimContractIncome \<Rightarrow> (tc_MsgClaimContractIncome, 'r) action" where
  "tc_MsgClaimContractIncome_switch L G tag message = js_switch (drop_bit 3 tag)
    [(1, readf (r_bytes L) (\<lambda>v. message\<lparr>tc_MsgClaimContractIncome.creator := v\<rparr>)),
     (2, readf (num64l G (r_uint64 L)) (\<lambda>v. message\<lparr>tc_MsgClaimContractIncome.contractId := v\<rparr>)),
     (4, readf (r_bytes L) (\<lambda>v. message\<lparr>tc_MsgClaimContractIncome.signature := v\<rparr>)),
     (5, readf (num64l G (r_int64 L)) (\<lambda>v. message\<lparr>tc_MsgClaimContractIncome.nonce := v\<rparr>))]
    (skipType L tag message)"

definition decode_tc_MsgClaimContractIncome :: "('w, 'r) wire \<Rightarrow> long_lib \<Rightarrow> 'r input \<Rightarrow> nat option \<Rightarrow> (tc_MsgClaimContractIncome \<times> 'r) result" where
  "decode_tc_MsgClaimContractIncome L G = decode_msg L (tc_MsgClaimContractIncome_switch L G) createBase_tc_MsgClaimContractIncome"

definition fromJSON_tc_MsgClaimContractIncome :: "host \<Rightarrow> jsval \<Rightarrow> tc_MsgClaimContractIncome result" where
  "fromJSON_tc_MsgClaimContractIncome h object =
     bindE (fieldE object ''creator'' (bytesFromBase64 h) []) (\<lambda>v_creator.
     bindE (fieldE object ''contractId'' (numberE h) (Num 0)) (\<lambda>v_contractId.
     bindE (fieldE object ''signature'' (bytesFromBase64 h) []) (\<lambda>v_signature.
     bindE (fieldE object ''nonce'' (numberE h) (Num 0)) (\<lambda>v_nonce.
     Inr \<lparr>tc_MsgClaimContractIncome.creator = v_creator, tc_MsgClaimContractIncome.contractId = v_contractId, tc_MsgClaimContractIncome.signature = v_signature, tc_MsgClaimContractIncome.nonce = v_nonce\<rparr>))))"

definition toJSON_tc_MsgClaimContractIncome :: "host \<Rightarrow> tc_MsgClaimContractIncome \<Rightarrow> jsval result" where
  "toJSON_tc_MsgClaimContractIncome h message = objE
    [jfieldE True ''creator'' (base64E h (tc_MsgClaimContractIncome.creator message)),
     jfieldE True ''contractId'' (Inr (JNumber (Math_round (tc_MsgClaimContractIncome.contractId message)))),
     jfieldE True ''signature'' (base64E h (tc_MsgClaimContractIncome.signature message)),
     jfieldE True ''nonce'' (Inr (JNumber (Math_round (tc_MsgClaimContractIncome.nonce message))))]"

record tc_MsgClaimContractIncome_Partial =
  creator :: "bytes option"
  contractId :: "number option"
  signature :: "bytes option"
  nonce :: "number option"

definition fromPartial_tc_MsgClaimContractIncome :: "tc_MsgClaimContractIncome_Partial \<Rightarrow> tc_MsgClaimContractIncome" where
  "fromPartial_tc_MsgClaimContractIncome object = createBase_tc_MsgClaimContractIncome\<lparr>tc_MsgClaimContractIncome.creator := nullish (tc_MsgClaimContractIncome_Partial.creator object) [],
     tc_MsgClaimContractIncome.contractId := nullish (tc_MsgClaimContractIncome_Partial.contractId object) (Num 0),
     tc_MsgClaimContractIncome.signature := nullish (tc_MsgClaimContractIncome_Partial.signature object) [],
     tc_MsgClaimContractIncome.nonce := nullish (tc_MsgClaimContractIncome_Partial.nonce object) (Num 0)\<rparr>"

text \<open>A partial message that sets every field.\<close>

definition partial_of_tc_MsgClaimContractIncome :: "tc_MsgClaimContractIncome \<Rightarrow> tc_MsgClaimContractIncome_Partial" where
  "partial_of_tc_MsgClaimContractIncome m =
     \<lparr>tc_MsgClaimContractIncome_Partial.creator = Some (tc_MsgClaimContractIncome.creator m),
      tc_MsgClaimContractIncome_Partial.contractId = Some (tc_MsgClaimContractIncome.contractId m),
      tc_MsgClaimContractIncome_Partial.signature = Some (tc_MsgClaimContractIncome.signature m),
      tc_MsgClaimContractIncome_Partial.nonce = Some (tc_MsgClaimContractIncome.nonce m)\<rparr>"

definition wf_tc_MsgClaimContractIncome :: "('w, 'r) wire \<Rightarrow> tc_MsgClaimContractIncome \<Rightarrow> bool" where
  "wf_tc_MsgClaimContractIncome L m \<longleftrightarrow> wire_bytes (tc_MsgClaimContractIncome.creator m)
     \<and> safe_uint (tc_MsgClaimContractIncome.contractId m)
     \<and> wire_bytes (tc_MsgClaimContractIncome.signature m)
     \<and> safe_int (tc_MsgClaimContractIncome.nonce m)"

definition wfj_tc_MsgClaimContractIncome :: "tc_MsgClaimContractIncome \<Rightarrow> bool" where
  "wfj_tc_MsgClaimContractIncome m \<longleftrightarrow> whole (tc_MsgClaimContractIncome.contractId m)
     \<and> whole (tc_MsgClaimContractIncome.nonce m)"

subsection \<open>MsgClaimContractIncomeResponse\<close>

definition createBase_tc_MsgClaimContractIncomeResponse :: MsgClaimContractIncomeResponse where
  "createBase_tc_MsgClaimContractIncomeResponse = MsgClaimContractIncomeResponse"

definition encode_tc_MsgClaimContractIncomeResponse :: "('w, 'r) wire \<Rightarrow> MsgClaimContractIncomeResponse \<Rightarrow> 'w \<Rightarrow> 'w result" where
  "encode_tc_MsgClaimContractIncomeResponse L message = seqE
    []"

definition tc_MsgClaimContractIncomeResponse_switch :: "('w, 'r) wire \<Rightarrow> long_lib \<Rightarrow> u32 \<Rightarrow> MsgClaimContractIncomeResponse \<Rightarrow> (MsgClaimContractIncomeResponse, 'r) action" where
  "tc_MsgClaimContractIncomeResponse_switch L G tag message = js_switch (drop_bit 3 tag)
    []
    (skipType L tag message)"

definition decode_tc_MsgClaimContractIncomeResponse :: "('w, 'r) wire \<Rightarrow> long_lib \<Rightarrow> 'r input \<Rightarrow> nat option \<Rightarrow> (MsgClaimContractIncomeResponse \<times> 'r) result" where
  "decode_tc_MsgClaimContractIncomeResponse L G = decode_msg L (tc_MsgClaimContractIncomeResponse_switch L G) createBase_tc_MsgClaimContractIncomeResponse"

definition fromJSON_tc_MsgClaimContractIncomeResponse :: "host \<Rightarrow> jsval \<Rightarrow> MsgClaimContractIncomeResponse result" where
  "fromJSON_tc_MsgClaimContractIncomeResponse h object =
     Inr MsgClaimContractIncomeResponse"

definition toJSON_tc_MsgClaimContractIncomeResponse :: "host \<Rightarrow> MsgClaimContractIncomeResponse \<Rightarrow> jsval result" where
  "toJSON_tc_MsgClaimContractIncomeResponse h message = objE
    []"

definition fromPartial_tc_MsgClaimContractIncomeResponse :: "MsgClaimContractIncomeResponse \<Rightarrow> MsgClaimContractIncomeResponse" where
  "fromPartial_tc_MsgClaimContractIncomeResponse object = createBase_tc_MsgClaimContractIncomeResponse"

subsection \<open>MsgSetVersion\<close>

definition createBase_tc_MsgSetVersion :: MsgSetVersion where
  "createBase_tc_MsgSetVersion = \<lparr>MsgSetVersion.creator = [],
     MsgSetVersion.version = Num 0\<rparr>"

definition encode_tc_MsgSetVersion :: "('w, 'r) wire \<Rightarrow> MsgSetVersion \<Rightarrow> 'w \<Rightarrow> 'w result" where
  "encode_tc_MsgSetVersion L message = seqE
    [whenE (MsgSetVersion.creator message \<noteq> []) (seqE [w_uint32 L 10, w_string L (MsgSetVersion.creator message)]),
     whenE (MsgSetVersion.version message \<noteq> Num 0) (seqE [w_uint32 L 16, w_int32 L (MsgSetVersion.version message)])]"

definition tc_MsgSetVersion_switch :: "('w, 'r) wire \<Rightarrow> long_lib \<Rightarrow> u32 \<Rightarrow> MsgSetVersion \<Rightarrow> (MsgSetVersion, 'r) action" where
  "tc_MsgSetVersion_switch L G tag message = js_switch (drop_bit 3 tag)
    [(1, readf (r_string L) (\<lambda>v. message\<lparr>MsgSetVersion.creator := v\<rparr>)),
     (2, readf (num32 (r_int32 L)) (\<lambda>v. message\<lparr>MsgSetVersion.version := v\<rparr>))]
    (skipType L tag message)"

definition decode_tc_MsgSetVersion :: "('w, 'r) wire \<Rightarrow> long_lib \<Rightarrow> 'r input \<Rightarrow> nat option \<Rightarrow> (MsgSetVersion \<times> 'r) result" where
  "decode_tc_MsgSetVersion L G = decode_msg L (tc_MsgSetVersion_switch L G) createBase_tc_MsgSetVersion"

definition fromJSON_tc_MsgSetVersion :: "host \<Rightarrow> jsval \<Rightarrow> MsgSetVersion result" where
  "fromJSON_tc_MsgSetVersion h object =
     bindE (fieldE object ''creator'' (stringE h) []) (\<lambda>v_creator.
     bindE (fieldE object ''version'' (numberE h) (Num 0)) (\<lambda>v_version.
     Inr \<lparr>MsgSetVersion.creator = v_creator, MsgSetVersion.version = v_version\<rparr>))"

definition toJSON_tc_MsgSetVersion :: "host \<Rightarrow> MsgSetVersion \<Rightarrow> jsval result" where
  "toJSON_tc_MsgSetVersion h message = objE
    [jfieldE True ''creator'' (Inr (JString (MsgSetVersion.creator message))),
     jfieldE True ''version'' (Inr (JNumber (Math_round (MsgSetVersion.version message))))]"

definition fromPartial_tc_MsgSetVersion :: "MsgSetVersion_Partial \<Rightarrow> MsgSetVersion" where
  "fromPartial_tc_MsgSetVersion object = createBase_tc_MsgSetVersion\<lparr>MsgSetVersion.creator := nullish (MsgSetVersion_Partial.creator object) [],
     MsgSetVersion.version := nullish (MsgSetVersion_Partial.version object) (Num 0)\<rparr>"

definition wf_tc_MsgSetVersion :: "('w, 'r) wire \<Rightarrow> MsgSetVersion \<Rightarrow> bool" where
  "wf_tc_MsgSetVersion L m \<longleftrightarrow> wire_string (MsgSetVersion.creator m)
     \<and> int32_num (MsgSetVersion.version m)"

subsection \<open>MsgSetVersionResponse\<close>

definition createBase_tc_MsgSetVersionResponse :: MsgSetVersionResponse where
  "createBase_tc_MsgSetVersionResponse = MsgSetVersionResponse"

definition encode_tc_MsgSetVersionResponse :: "('w, 'r) wire \<Rightarrow> MsgSetVersionResponse \<Rightarrow> 'w \<Rightarrow> 'w result" where
  "encode_tc_MsgSetVersionResponse L message = seqE
    []"

definition tc_MsgSetVersionResponse_switch :: "('w, 'r) wire \<Rightarrow> long_lib \<Rightarrow> u32 \<Rightarrow> MsgSetVersionResponse \<Rightarrow> (MsgSetVersionResponse, 'r) action" where
  "tc_MsgSetVersionResponse_switch L G tag message = js_switch (drop_bit 3 tag)
    []
    (skipType L tag message)"

definition decode_tc_MsgSetVersionResponse :: "('w, 'r) wire \<Rightarrow> long_lib \<Rightarrow> 'r input \<Rightarrow> nat option \<Rightarrow> (MsgSetVersionResponse \<times> 'r) result" where
  "decode_tc_MsgSetVersionResponse L G = decode_msg L (tc_MsgSetVersionResponse_switch L G) createBase_tc_MsgSetVersionResponse"

definition fromJSON_tc_MsgSetVersionResponse :: "host \<Rightarrow> jsval \<Rightarrow> MsgSetVersionResponse result" where
  "fromJSON_tc_MsgSetVersionResponse h object =
     Inr MsgSetVersionResponse"

definition toJSON_tc_MsgSetVersionResponse :: "host \<Rightarrow> MsgSetVersionResponse \<Rightarrow> jsval result" where
  "toJSON_tc_MsgSetVersionResponse h message = objE
    []"

definition fromPartial_tc_MsgSetVersionResponse :: "MsgSetVersionResponse \<Rightarrow> MsgSetVersionResponse" where
  "fromPartial_tc_MsgSetVersionResponse object = createBase_tc_MsgSetVersionResponse"


section \<open>Encoding, decoding and JSON of these messages\<close>

lemma fromPartial_partial_of_tc_MsgBondProvider [simp]: "fromPartial_tc_MsgBondProvider (partial_of_tc_MsgBondProvider m) = m"
  by (simp add: fromPartial_tc_MsgBondProvider_def partial_of_tc_MsgBondProvider_def createBase_tc_MsgBondProvider_def partial_map_def option.map_comp o_def option.map_ident)

lemma tc_MsgBondProvider_tags:
  "tc_MsgBondProvider_switch L G 10 m = readf (r_bytes L) (\<lambda>v. m\<lparr>tc_MsgBondProvider.creator := v\<rparr>)"
  "tc_MsgBondProvider_switch L G 18 m = readf (r_bytes L) (\<lambda>v. m\<lparr>tc_MsgBondProvider.provider := v\<rparr>)"
  "tc_MsgBondProvider_switch L G 26 m = readf (r_string L) (\<lambda>v. m\<lparr>tc_MsgBondProvider.service := v\<rparr>)"
  "tc_MsgBondProvider_switch L G 34 m = readf (r_string L) (\<lambda>v. m\<lparr>tc_MsgBondProvider.bond := v\<rparr>)"
  by (simp_all add: tc_MsgBondProvider_switch_def)

sublocale long_wire_laws \<subseteq> tc_MsgBondProvider_codec: message_codec L F out inp "encode_tc_MsgBondProvider L" "tc_MsgBondProvider_switch L G" createBase_tc_MsgBondProvider "wf_tc_MsgBondProvider L"
proof unfold_locales
  show good: "good_sw (tc_MsgBondProvider_switch L G)"
    unfolding tc_MsgBondProvider_switch_def by (intro good_swI fwd_rules)
  fix m assume "wf_tc_MsgBondProvider L m"
  then show "codes (tc_MsgBondProvider_switch L G) (encode_tc_MsgBondProvider L m) createBase_tc_MsgBondProvider m"
    unfolding encode_tc_MsgBondProvider_def wf_tc_MsgBondProvider_def
    by (elim conjE)
      (rule codes_Cons codes_Nil [OF tc_MsgBondProvider.equality] codec_rules
        codes_when [where tag = 10 and u = tc_MsgBondProvider.creator_update and op = "r_bytes L", OF good]
        codes_when [where tag = 18 and u = tc_MsgBondProvider.provider_update and op = "r_bytes L", OF good]
        codes_when [where tag = 26 and u = tc_MsgBondProvider.service_update and op = "r_string L", OF good]
        codes_when [where tag = 34 and u = tc_MsgBondProvider.bond_update and op = "r_string L", OF good]
      | assumption | (simp add: tc_MsgBondProvider_tags createBase_tc_MsgBondProvider_def; fail))+
qed

context long_wire_laws
begin

lemmas tc_MsgBondProvider_roundtrip = tc_MsgBondProvider_codec.roundtrip [folded decode_tc_MsgBondProvider_def]

lemmas tc_MsgBondProvider_returns = tc_MsgBondProvider_codec.decode_returns [folded decode_tc_MsgBondProvider_def]

end

interpretation tc_MsgBondProvider_json: message_json toJSON_tc_MsgBondProvider fromJSON_tc_MsgBondProvider wfj_tc_MsgBondProvider
proof unfold_locales
  fix h m
  assume "wfj_tc_MsgBondProvider m"
  then show "json_rt (toJSON_tc_MsgBondProvider h) (fromJSON_tc_MsgBondProvider h) m"
    unfolding toJSON_tc_MsgBondProvider_def fromJSON_tc_MsgBondProvider_def wfj_tc_MsgBondProvider_def
    by (-) (rule json_rtI json_rules | assumption | (simp; fail))+
qed

lemma tc_MsgBondProviderResponse_eqs:
  "createBase_tc_MsgBondProviderResponse = createBase_MsgBondProviderResponse"
  "encode_tc_MsgBondProviderResponse L = encode_MsgBondProviderResponse L"
  "fromJSON_tc_MsgBondProviderResponse h = fromJSON_MsgBondProviderResponse h"
  "fromPartial_tc_MsgBondProviderResponse = fromPartial_MsgBondProviderResponse"
  by (simp_all add: fun_eq_iff createBase_tc_MsgBondProviderResponse_def createBase_MsgBondProviderResponse_def
      encode_tc_MsgBondProviderResponse_def encode_MsgBondProviderResponse_def
      fromJSON_tc_MsgBondProviderResponse_def fromJSON_MsgBondProviderResponse_def
      fromPartial_tc_MsgBondProviderResponse_def fromPartial_MsgBondProviderResponse_def)

sublocale long_wire_laws \<subseteq> tc_MsgBondProviderResponse_codec: message_codec L F out inp "encode_MsgBondProviderResponse L" "tc_MsgBondProviderResponse_switch L G" createBase_MsgBondProviderResponse "wf_MsgBondProviderResponse L"
proof unfold_locales
  show good: "good_sw (tc_MsgBondProviderResponse_switch L G)"
    unfolding tc_MsgBondProviderResponse_switch_def by (intro good_swI fwd_rules)
  fix m assume "wf_MsgBondProviderResponse L m"
  then show "codes (tc_MsgBondProviderResponse_switch L G) (encode_MsgBondProviderResponse L m) createBase_MsgBondProviderResponse m"
    unfolding encode_MsgBondProviderResponse_def wf_MsgBondProviderResponse_def
    by (cases m) (simp add: createBase_MsgBondProviderResponse_def codes_Nil [simplified])
qed

context long_wire_laws
begin

lemmas tc_MsgBondProviderResponse_roundtrip = tc_MsgBondProviderResponse_codec.roundtrip [folded decode_tc_MsgBondProviderResponse_def [unfolded tc_MsgBondProviderResponse_eqs(1)]]

lemmas tc_MsgBondProviderResponse_returns = tc_MsgBondProviderResponse_codec.decode_returns [folded decode_tc_MsgBondProviderResponse_def [unfolded tc_MsgBondProviderResponse_eqs(1)]]

end

interpretation tc_MsgBondProviderResponse_json: message_json toJSON_tc_MsgBondProviderResponse fromJSON_tc_MsgBondProviderResponse wfj_MsgBondProviderResponse
proof unfold_locales
  fix h m
  show "json_rt (toJSON_tc_MsgBondProviderResponse h) (fromJSON_tc_MsgBondProviderResponse h) m"
    by (cases m) (simp add: json_rt_def toJSON_tc_MsgBondProviderResponse_def fromJSON_tc_MsgBondProviderResponse_def objE_rules(1))
qed

lemma fromPartial_partial_of_tc_MsgModProvider [simp]: "fromPartial_tc_MsgModProvider (partial_of_tc_MsgModProvider m) = m"
  by (simp add: fromPartial_tc_MsgModProvider_def partial_of_tc_MsgModProvider_def createBase_tc_MsgModProvider_def partial_map_def option.map_comp o_def option.map_ident tc_Coin_eqs)

lemma tc_MsgModProvider_tags:
  "tc_MsgModProvider_switch L G 10 m = readf (r_bytes L) (\<lambda>v. m\<lparr>tc_MsgModProvider.creator := v\<rparr>)"
  "tc_MsgModProvider_switch L G 18 m = readf (r_bytes L) (\<lambda>v. m\<lparr>tc_MsgModProvider.provider := v\<rparr>)"
  "tc_MsgModProvider_switch L G 26 m = readf (r_string L) (\<lambda>v. m\<lparr>tc_MsgModProvider.service := v\<rparr>)"
  "tc_MsgModProvider_switch L G 34 m = readf (r_string L) (\<lambda>v. m\<lparr>tc_MsgModProvider.metadataUri := v\<rparr>)"
  "tc_MsgModProvider_switch L G 40 m = readf (num64l G (r_uint64 L)) (\<lambda>v. m\<lparr>tc_MsgModProvider.metadataNonce := v\<rparr>)"
  "tc_MsgModProvider_switch L G 48 m = readf (num32 (r_int32 L)) (\<lambda>v. m\<lparr>tc_MsgModProvider.status := v\<rparr>)"
  "tc_MsgModProvider_switch L G 56 m = readf (num64l G (r_int64 L)) (\<lambda>v. m\<lparr>tc_MsgModProvider.minContractDuration := v\<rparr>)"
  "tc_MsgModProvider_switch L G 64 m = readf (num64l G (r_int64 L)) (\<lambda>v. m\<lparr>tc_MsgModProvider.maxContractDuration := v\<rparr>)"
  "tc_MsgModProvider_switch L G 74 m = readf (submsg L (decode_tc_Coin L G)) (\<lambda>v. m\<lparr>tc_MsgModProvider.subscriptionRate := tc_MsgModProvider.subscriptionRate m @ [v]\<rparr>)"
  "tc_MsgModProvider_switch L G 82 m = readf (submsg L (decode_tc_Coin L G)) (\<lambda>v. m\<lparr>tc_MsgModProvider.payAsYouGoRate := tc_MsgModProvider.payAsYouGoRate m @ [v]\<rparr>)"
  "tc_MsgModProvider_switch L G 88 m = readf (num64l G (r_int64 L)) (\<lambda>v. m\<lparr>tc_MsgModProvider.settlementDuration := v\<rparr>)"
  by (simp_all add: tc_MsgModProvider_switch_def)

sublocale long_wire_laws \<subseteq> tc_MsgModProvider_codec: message_codec L F out inp "encode_tc_MsgModProvider L" "tc_MsgModProvider_switch L G" createBase_tc_MsgModProvider "wf_tc_MsgModProvider L"
proof unfold_locales
  show good: "good_sw (tc_MsgModProvider_switch L G)"
    unfolding tc_MsgModProvider_switch_def by (intro good_swI fwd_rules)
  fix m assume "wf_tc_MsgModProvider L m"
  then show "codes (tc_MsgModProvider_switch L G) (encode_tc_MsgModProvider L m) createBase_tc_MsgModProvider m"
    unfolding encode_tc_MsgModProvider_def wf_tc_MsgModProvider_def tc_Coin_eqs(2)
    by (elim conjE)
      (rule codes_Cons codes_Nil [OF tc_MsgModProvider.equality] codec_rules
        codes_when [where tag = 10 and u = tc_MsgModProvider.creator_update and op = "r_bytes L", OF good]
        codes_when [where tag = 18 and u = tc_MsgModProvider.provider_update and op = "r_bytes L", OF good]
        codes_when [where tag = 26 and u = tc_MsgModProvider.service_update and op = "r_string L", OF good]
        codes_when [where tag = 34 and u = tc_MsgModProvider.metadataUri_update and op = "r_string L", OF good]
        codes_when [where tag = 40 and u = tc_MsgModProvider.metadataNonce_update and op = "num64l G (r_uint64 L)", OF good]
        codes_when [where tag = 48 and u = tc_MsgModProvider.status_update and op = "num32 (r_int32 L)", OF good]
        codes_when [where tag = 56 and u = tc_MsgModProvider.minContractDuration_update and op = "num64l G (r_int64 L)", OF good]
        codes_when [where tag = 64 and u = tc_MsgModProvider.maxContractDuration_update and op = "num64l G (r_int64 L)", OF good]
        codes_for [where tag = 74 and u = tc_MsgModProvider.subscriptionRate_update and op = "submsg L (decode_tc_Coin L G)", OF good]
        codes_for [where tag = 82 and u = tc_MsgModProvider.payAsYouGoRate_update and op = "submsg L (decode_tc_Coin L G)", OF good]
        codes_when [where tag = 88 and u = tc_MsgModProvider.settlementDuration_update and op = "num64l G (r_int64 L)", OF good]
      | assumption | (simp add: tc_MsgModProvider_tags createBase_tc_MsgModProvider_def; fail))+
qed

context long_wire_laws
begin

lemmas tc_MsgModProvider_roundtrip = tc_MsgModProvider_codec.roundtrip [folded decode_tc_MsgModProvider_def]

lemmas tc_MsgModProvider_returns = tc_MsgModProvider_codec.decode_returns [folded decode_tc_MsgModProvider_def]

end

interpretation tc_MsgModProvider_json: message_json toJSON_tc_MsgModProvider fromJSON_tc_MsgModProvider wfj_tc_MsgModProvider
proof unfold_locales
  fix h m
  assume "wfj_tc_MsgModProvider m"
  then show "json_rt (toJSON_tc_MsgModProvider h) (fromJSON_tc_MsgModProvider h) m"
    unfolding toJSON_tc_MsgModProvider_def fromJSON_tc_MsgModProvider_def wfj_tc_MsgModProvider_def
    by (elim conjE) (rule json_rtI json_rules | assumption | (simp; fail))+
qed

lemma tc_MsgModProviderResponse_eqs:
  "createBase_tc_MsgModProviderResponse = createBase_MsgModProviderResponse"
  "encode_tc_MsgModProviderResponse L = encode_MsgModProviderResponse L"
  "fromJSON_tc_MsgModProviderResponse h = fromJSON_MsgModProviderResponse h"
  "fromPartial_tc_MsgModProviderResponse = fromPartial_MsgModProviderResponse"
  by (simp_all add: fun_eq_iff createBase_tc_MsgModProviderResponse_def createBase_MsgModProviderResponse_def
      encode_tc_MsgModProviderResponse_def encode_MsgModProviderResponse_def
      fromJSON_tc_MsgModProviderResponse_def fromJSON_MsgModProviderResponse_def
      fromPartial_tc_MsgModProviderResponse_def fromPartial_MsgModProviderResponse_def)

sublocale long_wire_laws \<subseteq> tc_MsgModProviderResponse_codec: message_codec L F out inp "encode_MsgModProviderResponse L" "tc_MsgModProviderResponse_switch L G" createBase_MsgModProviderResponse "wf_MsgModProviderResponse L"
proof unfold_locales
  show good: "good_sw (tc_MsgModProviderResponse_switch L G)"
    unfolding tc_MsgModProviderResponse_switch_def by (intro good_swI fwd_rules)
  fix m assume "wf_MsgModProviderResponse L m"
  then show "codes (tc_MsgModProviderResponse_switch L G) (encode_MsgModProviderResponse L m) createBase_MsgModProviderResponse m"
    unfolding encode_MsgModProviderResponse_def wf_MsgModProviderResponse_def
    by (cases m) (simp add: createBase_MsgModProviderResponse_def codes_Nil [simplified])
qed

context long_wire_laws
begin

lemmas tc_MsgModProviderResponse_roundtrip = tc_MsgModProviderResponse_codec.roundtrip [folded decode_tc_MsgModProviderResponse_def [unfolded tc_MsgModProviderResponse_eqs(1)]]

lemmas tc_MsgModProviderResponse_returns = tc_MsgModProviderResponse_codec.decode_returns [folded decode_tc_MsgModProviderResponse_def [unfolded tc_MsgModProviderResponse_eqs(1)]]

end

interpretation tc_MsgModProviderResponse_json: message_json toJSON_tc_MsgModProviderResponse fromJSON_tc_MsgModProviderResponse wfj_MsgModProviderResponse
proof unfold_locales
  fix h m
  show "json_rt (toJSON_tc_MsgModProviderResponse h) (fromJSON_tc_MsgModProviderResponse h) m"
    by (cases m) (simp add: json_rt_def toJSON_tc_MsgModProviderResponse_def fromJSON_tc_MsgModProviderResponse_def objE_rules(1))
qed

lemma fromPartial_partial_of_tc_MsgOpenContract [simp]: "fromPartial_tc_MsgOpenContract (partial_of_tc_MsgOpenContract m) = m"
  by (simp add: fromPartial_tc_MsgOpenContract_def partial_of_tc_MsgOpenContract_def createBase_tc_MsgOpenContract_def partial_map_def option.map_comp o_def option.map_ident tc_Coin_eqs)

lemma tc_MsgOpenContract_tags:
  "tc_MsgOpenContract_switch L G 10 m = readf (r_bytes L) (\<lambda>v. m\<lparr>tc_MsgOpenContract.creator := v\<rparr>)"
  "tc_MsgOpenContract_switch L G 18 m = readf (r_bytes L) (\<lambda>v. m\<lparr>tc_MsgOpenContract.provider := v\<rparr>)"
  "tc_MsgOpenContract_switch L G 26 m = readf (r_string L) (\<lambda>v. m\<lparr>tc_MsgOpenContract.service := v\<rparr>)"
  "tc_MsgOpenContract_switch L G 34 m = readf (r_bytes L) (\<lambda>v. m\<lparr>tc_MsgOpenContract.client := v\<rparr>)"
  "tc_MsgOpenContract_switch L G 42 m = readf (r_bytes L) (\<lambda>v. m\<lparr>tc_MsgOpenContract.delegate := v\<rparr>)"
  "tc_MsgOpenContract_switch L G 48 m = readf (num32 (r_int32 L)) (\<lambda>v. m\<lparr>tc_MsgOpenContract.contractType := v\<rparr>)"
  "tc_MsgOpenContract_switch L G 56 m = readf (num64l G (r_int64 L)) (\<lambda>v. m\<lparr>tc_MsgOpenContract.duration := v\<rparr>)"
  "tc_MsgOpenContract_switch L G 66 m = readf (submsg L (decode_tc_Coin L G)) (\<lambda>v. m\<lparr>tc_MsgOpenContract.rate := Some v\<rparr>)"
  "tc_MsgOpenContract_switch L G 74 m = readf (r_string L) (\<lambda>v. m\<lparr>tc_MsgOpenContract.deposit := v\<rparr>)"
  "tc_MsgOpenContract_switch L G 80 m = readf (num64l G (r_int64 L)) (\<lambda>v. m\<lparr>tc_MsgOpenContract.settlementDuration := v\<rparr>)"
  "tc_MsgOpenContract_switch L G 88 m = readf (num32 (r_int32 L)) (\<lambda>v. m\<lparr>tc_MsgOpenContract.authorization := v\<rparr>)"
  "tc_MsgOpenContract_switch L G 96 m = readf (num64l G (r_int64 L)) (\<lambda>v. m\<lparr>tc_MsgOpenContract.queriesPerMinute := v\<rparr>)"
  by (simp_all add: tc_MsgOpenContract_switch_def)

sublocale long_wire_laws \<subseteq> tc_MsgOpenContract_codec: message_codec L F out inp "encode_tc_MsgOpenContract L" "tc_MsgOpenContract_switch L G" createBase_tc_MsgOpenContract "wf_tc_MsgOpenContract L"
proof unfold_locales
  show good: "good_sw (tc_MsgOpenContract_switch L G)"
    unfolding tc_MsgOpenContract_switch_def by (intro good_swI fwd_rules)
  fix m assume "wf_tc_MsgOpenContract L m"
  then show "codes (tc_MsgOpenContract_switch L G) (encode_tc_MsgOpenContract L m) createBase_tc_MsgOpenContract m"
    unfolding encode_tc_MsgOpenContract_def wf_tc_MsgOpenContract_def tc_Coin_eqs(2)
    by (elim conjE)
      (rule codes_Cons codes_Nil [OF tc_MsgOpenContract.equality] codec_rules
        codes_when [where tag = 10 and u = tc_MsgOpenContract.creator_update and op = "r_bytes L", OF good]
        codes_when [where tag = 18 and u = tc_MsgOpenContract.provider_update and op = "r_bytes L", OF good]
        codes_when [where tag = 26 and u = tc_MsgOpenContract.service_update and op = "r_string L", OF good]
        codes_when [where tag = 34 and u = tc_MsgOpenContract.client_update and op = "r_bytes L", OF good]
        codes_when [where tag = 42 and u = tc_MsgOpenContract.delegate_update and op = "r_bytes L", OF good]
        codes_when [where tag = 48 and u = tc_MsgOpenContract.contractType_update and op = "num32 (r_int32 L)", OF good]
        codes_when [where tag = 56 and u = tc_MsgOpenContract.duration_update and op = "num64l G (r_int64 L)", OF good]
        codes_some [where tag = 66 and u = tc_MsgOpenContract.rate_update and op = "submsg L (decode_tc_Coin L G)", OF good]
        codes_when [where tag = 74 and u = tc_MsgOpenContract.deposit_update and op = "r_string L", OF good]
        codes_when [where tag = 80 and u = tc_MsgOpenContract.settlementDuration_update and op = "num64l G (r_int64 L)", OF good]
        codes_when [where tag = 88 and u = tc_MsgOpenContract.authorization_update and op = "num32 (r_int32 L)", OF good]
        codes_when [where tag = 96 and u = tc_MsgOpenContract.queriesPerMinute_update and op = "num64l G (r_int64 L)", OF good]
      | assumption | (simp add: tc_MsgOpenContract_tags createBase_tc_MsgOpenContract_def; fail))+
qed

context long_wire_laws
begin

lemmas tc_MsgOpenContract_roundtrip = tc_MsgOpenContract_codec.roundtrip [folded decode_tc_MsgOpenContract_def]

lemmas tc_MsgOpenContract_returns = tc_MsgOpenContract_codec.decode_returns [folded decode_tc_MsgOpenContract_def]

end

interpretation tc_MsgOpenContract_json: message_json toJSON_tc_MsgOpenContract fromJSON_tc_MsgOpenContract wfj_tc_MsgOpenContract
proof unfold_locales
  fix h m
  assume "wfj_tc_MsgOpenContract m"
  then show "json_rt (toJSON_tc_MsgOpenContract h) (fromJSON_tc_MsgOpenContract h) m"
    unfolding toJSON_tc_MsgOpenContract_def fromJSON_tc_MsgOpenContract_def wfj_tc_MsgOpenContract_def
    by (elim conjE) (rule json_rtI json_rules | assumption | (simp; fail))+
qed

lemma tc_MsgOpenContractResponse_eqs:
  "createBase_tc_MsgOpenContractResponse = createBase_MsgOpenContractResponse"
  "encode_tc_MsgOpenContractResponse L = encode_MsgOpenContractResponse L"
  "fromJSON_tc_MsgOpenContractResponse h = fromJSON_MsgOpenContractResponse h"
  "fromPartial_tc_MsgOpenContractResponse = fromPartial_MsgOpenContractResponse"
  by (simp_all add: fun_eq_iff createBase_tc_MsgOpenContractResponse_def createBase_MsgOpenContractResponse_def
      encode_tc_MsgOpenContractResponse_def encode_MsgOpenContractResponse_def
      fromJSON_tc_MsgOpenContractResponse_def fromJSON_MsgOpenContractResponse_def
      fromPartial_tc_MsgOpenContractResponse_def fromPartial_MsgOpenContractResponse_def)

sublocale long_wire_laws \<subseteq> tc_MsgOpenContractResponse_codec: message_codec L F out inp "encode_MsgOpenContractResponse L" "tc_MsgOpenContractResponse_switch L G" createBase_MsgOpenContractResponse "wf_MsgOpenContractResponse L"
proof unfold_locales
  show good: "good_sw (tc_MsgOpenContractResponse_switch L G)"
    unfolding tc_MsgOpenContractResponse_switch_def by (intro good_swI fwd_rules)
  fix m assume "wf_MsgOpenContractResponse L m"
  then show "codes (tc_MsgOpenContractResponse_switch L G) (encode_MsgOpenContractResponse L m) createBase_MsgOpenContractResponse m"
    unfolding encode_MsgOpenContractResponse_def wf_MsgOpenContractResponse_def
    by (cases m) (simp add: createBase_MsgOpenContractResponse_def codes_Nil [simplified])
qed

context long_wire_laws
begin

lemmas tc_MsgOpenContractResponse_roundtrip = tc_MsgOpenContractResponse_codec.roundtrip [folded decode_tc_MsgOpenContractResponse_def [unfolded tc_MsgOpenContractResponse_eqs(1)]]

lemmas tc_MsgOpenContractResponse_returns = tc_MsgOpenContractResponse_codec.decode_returns [folded decode_tc_MsgOpenContractResponse_def [unfolded tc_MsgOpenContractResponse_eqs(1)]]

end

interpretation tc_MsgOpenContractResponse_json: message_json toJSON_tc_MsgOpenContractResponse fromJSON_tc_MsgOpenContractResponse wfj_MsgOpenContractResponse
proof unfold_locales
  fix h m
  show "json_rt (toJSON_tc_MsgOpenContractResponse h) (fromJSON_tc_MsgOpenContractResponse h) m"
    by (cases m) (simp add: json_rt_def toJSON_tc_MsgOpenContractResponse_def fromJSON_tc_MsgOpenContractResponse_def objE_rules(1))
qed

lemma fromPartial_partial_of_tc_MsgCloseContract [simp]: "fromPartial_tc_MsgCloseContract (partial_of_tc_MsgCloseContract m) = m"
  by (simp add: fromPartial_tc_MsgCloseContract_def partial_of_tc_MsgCloseContract_def createBase_tc_MsgCloseContract_def partial_map_def option.map_comp o_def option.map_ident)

lemma tc_MsgCloseContract_tags:
  "tc_MsgCloseContract_switch L G 10 m = readf (r_bytes L) (\<lambda>v. m\<lparr>tc_MsgCloseContract.creator := v\<rparr>)"
  "tc_MsgCloseContract_switch L G 16 m = readf (num64l G (r_uint64 L)) (\<lambda>v. m\<lparr>tc_MsgCloseContract.contractId := v\<rparr>)"
  by (simp_all add: tc_MsgCloseContract_switch_def)

sublocale long_wire_laws \<subseteq> tc_MsgCloseContract_codec: message_codec L F out inp "encode_tc_MsgCloseContract L" "tc_MsgCloseContract_switch L G" createBase_tc_MsgCloseContract "wf_tc_MsgCloseContract L"
proof unfold_locales
  show good: "good_sw (tc_MsgCloseContract_switch L G)"
    unfolding tc_MsgCloseContract_switch_def by (intro good_swI fwd_rules)
  fix m assume "wf_tc_MsgCloseContract L m"
  then show "codes (tc_MsgCloseContract_switch L G) (encode_tc_MsgCloseContract L m) createBase_tc_MsgCloseContract m"
    unfolding encode_tc_MsgCloseContract_def wf_tc_MsgCloseContract_def
    by (elim conjE)
      (rule codes_Cons codes_Nil [OF tc_MsgCloseContract.equality] codec_rules
        codes_when [where tag = 10 and u = tc_MsgCloseContract.creator_update and op = "r_bytes L", OF good]
        codes_when [where tag = 16 and u = tc_MsgCloseContract.contractId_update and op = "num64l G (r_uint64 L)", OF good]
      | assumption | (simp add: tc_MsgCloseContract_tags createBase_tc_MsgCloseContract_def; fail))+
qed

context long_wire_laws
begin

lemmas tc_MsgCloseContract_roundtrip = tc_MsgCloseContract_codec.roundtrip [folded decode_tc_MsgCloseContract_def]

lemmas tc_MsgCloseContract_returns = tc_MsgCloseContract_codec.decode_returns [folded decode_tc_MsgCloseContract_def]

end

interpretation tc_MsgCloseContract_json: message_json toJSON_tc_MsgCloseContract fromJSON_tc_MsgCloseContract wfj_tc_MsgCloseContract
proof unfold_locales
  fix h m
  assume "wfj_tc_MsgCloseContract m"
  then show "json_rt (toJSON_tc_MsgCloseContract h) (fromJSON_tc_MsgCloseContract h) m"
    unfolding toJSON_tc_MsgCloseContract_def fromJSON_tc_MsgCloseContract_def wfj_tc_MsgCloseContract_def
    by (-) (rule json_rtI json_rules | assumption | (simp; fail))+
qed

lemma tc_MsgCloseContractResponse_eqs:
  "createBase_tc_MsgCloseContractResponse = createBase_MsgCloseContractResponse"
  "encode_tc_MsgCloseContractResponse L = encode_MsgCloseContractResponse L"
  "fromJSON_tc_MsgCloseContractResponse h = fromJSON_MsgCloseContractResponse h"
  "fromPartial_tc_MsgCloseContractResponse = fromPartial_MsgCloseContractResponse"
  by (simp_all add: fun_eq_iff createBase_tc_MsgCloseContractResponse_def createBase_MsgCloseContractResponse_def
      encode_tc_MsgCloseContractResponse_def encode_MsgCloseContractResponse_def
      fromJSON_tc_MsgCloseContractResponse_def fromJSON_MsgCloseContractResponse_def
      fromPartial_tc_MsgCloseContractResponse_def fromPartial_MsgCloseContractResponse_def)

sublocale long_wire_laws \<subseteq> tc_MsgCloseContractResponse_codec: message_codec L F out inp "encode_MsgCloseContractResponse L" "tc_MsgCloseContractResponse_switch L G" createBase_MsgCloseContractResponse "wf_MsgCloseContractResponse L"
proof unfold_locales
  show good: "good_sw (tc_MsgCloseContractResponse_switch L G)"
    unfolding tc_MsgCloseContractResponse_switch_def by (intro good_swI fwd_rules)
  fix m assume "wf_MsgCloseContractResponse L m"
  then show "codes (tc_MsgCloseContractResponse_switch L G) (encode_MsgCloseContractResponse L m) createBase_MsgCloseContractResponse m"
    unfolding encode_MsgCloseContractResponse_def wf_MsgCloseContractResponse_def
    by (cases m) (simp add: createBase_MsgCloseContractResponse_def codes_Nil [simplified])
qed

context long_wire_laws
begin

lemmas tc_MsgCloseContractResponse_roundtrip = tc_MsgCloseContractResponse_codec.roundtrip [folded decode_tc_MsgCloseContractResponse_def [unfolded tc_MsgCloseContractResponse_eqs(1)]]

lemmas tc_MsgCloseContractResponse_returns = tc_MsgCloseContractResponse_codec.decode_returns [folded decode_tc_MsgCloseContractResponse_def [unfolded tc_MsgCloseContractResponse_eqs(1)]]

end

interpretation tc_MsgCloseContractResponse_json: message_json toJSON_tc_MsgCloseContractResponse fromJSON_tc_MsgCloseContractResponse wfj_MsgCloseContractResponse
proof unfold_locales
  fix h m
  show "json_rt (toJSON_tc_MsgCloseContractResponse h) (fromJSON_tc_MsgCloseContractResponse h) m"
    by (cases m) (simp add: json_rt_def toJSON_tc_MsgCloseContractResponse_def fromJSON_tc_MsgCloseContractResponse_def objE_rules(1))
qed

lemma fromPartial_partial_of_tc_MsgClaimContractIncome [simp]: "fromPartial_tc_MsgClaimContractIncome (partial_of_tc_MsgClaimContractIncome m) = m"
  by (simp add: fromPartial_tc_MsgClaimContractIncome_def partial_of_tc_MsgClaimContractIncome_def createBase_tc_MsgClaimContractIncome_def partial_map_def option.map_comp o_def option.map_ident)

lemma tc_MsgClaimContractIncome_tags:
  "tc_MsgClaimContractIncome_switch L G 10 m = readf (r_bytes L) (\<lambda>v. m\<lparr>tc_MsgClaimContractIncome.creator := v\<rparr>)"
  "tc_MsgClaimContractIncome_switch L G 16 m = readf (num64l G (r_uint64 L)) (\<lambda>v. m\<lparr>tc_MsgClaimContractIncome.contractId := v\<rparr>)"
  "tc_MsgClaimContractIncome_switch L G 34 m = readf (r_bytes L) (\<lambda>v. m\<lparr>tc_MsgClaimContractIncome.signature := v\<rparr>)"
  "tc_MsgClaimContractIncome_switch L G 40 m = readf (num64l G (r_int64 L)) (\<lambda>v. m\<lparr>tc_MsgClaimContractIncome.nonce := v\<rparr>)"
  by (simp_all add: tc_MsgClaimContractIncome_switch_def)

sublocale long_wire_laws \<subseteq> tc_MsgClaimContractIncome_codec: message_codec L F out inp "encode_tc_MsgClaimContractIncome L" "tc_MsgClaimContractIncome_switch L G" createBase_tc_MsgClaimContractIncome "wf_tc_MsgClaimContractIncome L"
proof unfold_locales
  show good: "good_sw (tc_MsgClaimContractIncome_switch L G)"
    unfolding tc_MsgClaimContractIncome_switch_def by (intro good_swI fwd_rules)
  fix m assume "wf_tc_MsgClaimContractIncome L m"
  then show "codes (tc_MsgClaimContractIncome_switch L G) (encode_tc_MsgClaimContractIncome L m) createBase_tc_MsgClaimContractIncome m"
    unfolding encode_tc_MsgClaimContractIncome_def wf_tc_MsgClaimContractIncome_def
    by (elim conjE)
      (rule codes_Cons codes_Nil [OF tc_MsgClaimContractIncome.equality] codec_rules
        codes_when [where tag = 10 and u = tc_MsgClaimContractIncome.creator_update and op = "r_bytes L", OF good]
        codes_when [where tag = 16 and u = tc_MsgClaimContractIncome.contractId_update and op = "num64l G (r_uint64 L)", OF good]
        codes_when [where tag = 34 and u = tc_MsgClaimContractIncome.signature_update and op = "r_bytes L", OF good]
        codes_when [where tag = 40 and u = tc_MsgClaimContractIncome.nonce_update and op = "num64l G (r_int64 L)", OF good]
      | assumption | (simp add: tc_MsgClaimContractIncome_tags createBase_tc_MsgClaimContractIncome_def; fail))+
qed

context long_wire_laws
begin

lemmas tc_MsgClaimContractIncome_roundtrip = tc_MsgClaimContractIncome_codec.roundtrip [folded decode_tc_MsgClaimContractIncome_def]

lemmas tc_MsgClaimContractIncome_returns = tc_MsgClaimContractIncome_codec.decode_returns [folded decode_tc_MsgClaimContractIncome_def]

end

interpretation tc_MsgClaimContractIncome_json: message_json toJSON_tc_MsgClaimContractIncome fromJSON_tc_MsgClaimContractIncome wfj_tc_MsgClaimContractIncome
proof unfold_locales
  fix h m
  assume "wfj_tc_MsgClaimContractIncome m"
  then show "json_rt (toJSON_tc_MsgClaimContractIncome h) (fromJSON_tc_MsgClaimContractIncome h) m"
    unfolding toJSON_tc_MsgClaimContractIncome_def fromJSON_tc_MsgClaimContractIncome_def wfj_tc_MsgClaimContractIncome_def
    by (elim conjE) (rule json_rtI json_rules | assumption | (simp; fail))+
qed

lemma tc_MsgClaimContractIncomeResponse_eqs:
  "createBase_tc_MsgClaimContractIncomeResponse = createBase_MsgClaimContractIncomeResponse"
  "encode_tc_MsgClaimContractIncomeResponse L = encode_MsgClaimContractIncomeResponse L"
  "fromJSON_tc_MsgClaimContractIncomeResponse h = fromJSON_MsgClaimContractIncomeResponse h"
  "fromPartial_tc_MsgClaimContractIncomeResponse = fromPartial_MsgClaimContractIncomeResponse"
  by (simp_all add: fun_eq_iff createBase_tc_MsgClaimContractIncomeResponse_def createBase_MsgClaimContractIncomeResponse_def
      encode_tc_MsgClaimContractIncomeResponse_def encode_MsgClaimContractIncomeResponse_def
      fromJSON_tc_MsgClaimContractIncomeResponse_def fromJSON_MsgClaimContractIncomeResponse_def
      fromPartial_tc_MsgClaimContractIncomeResponse_def fromPartial_MsgClaimContractIncomeResponse_def)

sublocale long_wire_laws \<subseteq> tc_MsgClaimContractIncomeResponse_codec: message_codec L F out inp "encode_MsgClaimContractIncomeResponse L" "tc_MsgClaimContractIncomeResponse_switch L G" createBase_MsgClaimContractIncomeResponse "wf_MsgClaimContractIncomeResponse L"
proof unfold_locales
  show good: "good_sw (tc_MsgClaimContractIncomeResponse_switch L G)"
    unfolding tc_MsgClaimContractIncomeResponse_switch_def by (intro good_swI fwd_rules)
  fix m assume "wf_MsgClaimContractIncomeResponse L m"
  then show "codes (tc_MsgClaimContractIncomeResponse_switch L G) (encode_MsgClaimContractIncomeResponse L m) createBase_MsgClaimContractIncomeResponse m"
    unfolding encode_MsgClaimContractIncomeResponse_def wf_MsgClaimContractIncomeResponse_def
    by (cases m) (simp add: createBase_MsgClaimContractIncomeResponse_def codes_Nil [simplified])
qed

context long_wire_laws
begin

lemmas tc_MsgClaimContractIncomeResponse_roundtrip = tc_MsgClaimContractIncomeResponse_codec.roundtrip [folded decode_tc_MsgClaimContractIncomeResponse_def [unfolded tc_MsgClaimContractIncomeResponse_eqs(1)]]

lemmas tc_MsgClaimContractIncomeResponse_returns = tc_MsgClaimContractIncomeResponse_codec.decode_returns [folded decode_tc_MsgClaimContractIncomeResponse_def [unfolded tc_MsgClaimContractIncomeResponse_eqs(1)]]

end

interpretation tc_MsgClaimContractIncomeResponse_json: message_json toJSON_tc_MsgClaimContractIncomeResponse fromJSON_tc_MsgClaimContractIncomeResponse wfj_MsgClaimContractIncomeResponse
proof unfold_locales
  fix h m
  show "json_rt (toJSON_tc_MsgClaimContractIncomeResponse h) (fromJSON_tc_MsgClaimContractIncomeResponse h) m"
    by (cases m) (simp add: json_rt_def toJSON_tc_MsgClaimContractIncomeResponse_def fromJSON_tc_MsgClaimContractIncomeResponse_def objE_rules(1))
qed

lemma tc_MsgSetVersion_eqs:
  "createBase_tc_MsgSetVersion = createBase_MsgSetVersion"
  "fromJSON_tc_MsgSetVersion h = fromJSON_MsgSetVersion h"
  "fromPartial_tc_MsgSetVersion = fromPartial_MsgSetVersion"
  by (simp_all add: fun_eq_iff createBase_tc_MsgSetVersion_def createBase_MsgSetVersion_def
      fromJSON_tc_MsgSetVersion_def fromJSON_MsgSetVersion_def
      fromPartial_tc_MsgSetVersion_def fromPartial_MsgSetVersion_def)

lemma tc_MsgSetVersion_tags:
  "tc_MsgSetVersion_switch L G 10 m = readf (r_string L) (\<lambda>v. m\<lparr>MsgSetVersion.creator := v\<rparr>)"
  "tc_MsgSetVersion_switch L G 16 m = readf (num32 (r_int32 L)) (\<lambda>v. m\<lparr>MsgSetVersion.version := v\<rparr>)"
  by (simp_all add: tc_MsgSetVersion_switch_def)

sublocale long_wire_laws \<subseteq> tc_MsgSetVersion_codec: message_codec L F out inp "encode_tc_MsgSetVersion L" "tc_MsgSetVersion_switch L G" createBase_MsgSetVersion "wf_tc_MsgSetVersion L"
proof unfold_locales
  show good: "good_sw (tc_MsgSetVersion_switch L G)"
    unfolding tc_MsgSetVersion_switch_def by (intro good_swI fwd_rules)
  fix m assume "wf_tc_MsgSetVersion L m"
  then show "codes (tc_MsgSetVersion_switch L G) (encode_tc_MsgSetVersion L m) createBase_MsgSetVersion m"
    unfolding encode_tc_MsgSetVersion_def wf_tc_MsgSetVersion_def
    by (elim conjE)
      (rule codes_Cons codes_Nil [OF MsgSetVersion.equality] codec_rules
        codes_when [where tag = 10 and u = MsgSetVersion.creator_update and op = "r_string L", OF good]
        codes_when [where tag = 16 and u = MsgSetVersion.version_update and op = "num32 (r_int32 L)", OF good]
      | assumption | (simp add: tc_MsgSetVersion_tags createBase_MsgSetVersion_def; fail))+
qed

context long_wire_laws
begin

lemmas tc_MsgSetVersion_roundtrip = tc_MsgSetVersion_codec.roundtrip [folded decode_tc_MsgSetVersion_def [unfolded tc_MsgSetVersion_eqs(1)]]

lemmas tc_MsgSetVersion_returns = tc_MsgSetVersion_codec.decode_returns [folded decode_tc_MsgSetVersion_def [unfolded tc_MsgSetVersion_eqs(1)]]

end

interpretation tc_MsgSetVersion_json: message_json toJSON_tc_MsgSetVersion fromJSON_tc_MsgSetVersion wfj_MsgSetVersion
proof unfold_locales
  fix h m
  assume "wfj_MsgSetVersion m"
  then show "json_rt (toJSON_tc_MsgSetVersion h) (fromJSON_tc_MsgSetVersion h) m"
    unfolding toJSON_tc_MsgSetVersion_def fromJSON_tc_MsgSetVersion_def wfj_MsgSetVersion_def
    by (-) (rule json_rtI json_rules | assumption | (simp; fail))+
qed

lemma tc_MsgSetVersionResponse_eqs:
  "createBase_tc_MsgSetVersionResponse = createBase_MsgSetVersionResponse"
  "encode_tc_MsgSetVersionResponse L = encode_MsgSetVersionResponse L"
  "fromJSON_tc_MsgSetVersionResponse h = fromJSON_MsgSetVersionResponse h"
  "fromPartial_tc_MsgSetVersionResponse = fromPartial_MsgSetVersionResponse"
  by (simp_all add: fun_eq_iff createBase_tc_MsgSetVersionResponse_def createBase_MsgSetVersionResponse_def
      encode_tc_MsgSetVersionResponse_def encode_MsgSetVersionResponse_def
      fromJSON_tc_MsgSetVersionResponse_def fromJSON_MsgSetVersionResponse_def
      fromPartial_tc_MsgSetVersionResponse_def fromPartial_MsgSetVersionResponse_def)

sublocale long_wire_laws \<subseteq> tc_MsgSetVersionResponse_codec: message_codec L F out inp "encode_MsgSetVersionResponse L" "tc_MsgSetVersionResponse_switch L G" createBase_MsgSetVersionResponse "wf_MsgSetVersionResponse L"
proof unfold_locales
  show good: "good_sw (tc_MsgSetVersionResponse_switch L G)"
    unfolding tc_MsgSetVersionResponse_switch_def by (intro good_swI fwd_rules)
  fix m assume "wf_MsgSetVersionResponse L m"
  then show "codes (tc_MsgSetVersionResponse_switch L G) (encode_MsgSetVersionResponse L m) createBase_MsgSetVersionResponse m"
    unfolding encode_MsgSetVersionResponse_def wf_MsgSetVersionResponse_def
    by (cases m) (simp add: createBase_MsgSetVersionResponse_def codes_Nil [simplified])
qed

context long_wire_laws
begin

lemmas tc_MsgSetVersionResponse_roundtrip = tc_MsgSetVersionResponse_codec.roundtrip [folded decode_tc_MsgSetVersionResponse_def [unfolded tc_MsgSetVersionResponse_eqs(1)]]

lemmas tc_MsgSetVersionResponse_returns = tc_MsgSetVersionResponse_codec.decode_returns [folded decode_tc_MsgSetVersionResponse_def [unfolded tc_MsgSetVersionResponse_eqs(1)]]

end

interpretation tc_MsgSetVersionResponse_json: message_json toJSON_tc_MsgSetVersionResponse fromJSON_tc_MsgSetVersionResponse wfj_MsgSetVersionResponse
proof unfold_locales
  fix h m
  show "json_rt (toJSON_tc_MsgSetVersionResponse h) (fromJSON_tc_MsgSetVersionResponse h) m"
    by (cases m) (simp add: json_rt_def toJSON_tc_MsgSetVersionResponse_def fromJSON_tc_MsgSetVersionResponse_def objE_rules(1))
qed

end
