(* ===== verification/TcState.thy ===== *)
theory TcState
  imports TcBase GenesisMsgs
begin

unbundle bit_operations_syntax

text \<open>
  The wrappers, the parameters (which have no field here) and the genesis state of \<open>ts-client\<close>.
\<close>


section \<open>ts-client/arkeo.arkeo/types/arkeo/arkeo/misc.ts\<close>

subsection \<open>ProtoInt64\<close>

definition createBase_tc_ProtoInt64 :: ProtoInt64 where
  "createBase_tc_ProtoInt64 = \<lparr>ProtoInt64.value' = Num 0\<rparr>"

definition encode_tc_ProtoInt64 :: "('w, 'r) wire \<Rightarrow> ProtoInt64 \<Rightarrow> 'w \<Rightarrow> 'w result" where
  "encode_tc_ProtoInt64 L message = seqE
    [whenE (ProtoInt64.value' message \<noteq> Num 0) (seqE [w_uint32 L 8, w_int64 L (ProtoInt64.value' message)])]"

definition tc_ProtoInt64_switch :: "('w, 'r) wire \<Rightarrow> long_lib \<Rightarrow> u32 \<Rightarrow> ProtoInt64 \<Rightarrow> (ProtoInt64, 'r) action" where
  "tc_ProtoInt64_switch L G tag message = js_switch (drop_bit 3 tag)
    [(1, readf (num64l G (r_int64 L)) (\<lambda>v. message\<lparr>ProtoInt64.value' := v\<rparr>))]
    (skipType L tag message)"

definition decode_tc_ProtoInt64 :: "('w, 'r) wire \<Rightarrow> long_lib \<Rightarrow> 'r input \<Rightarrow> nat option \<Rightarrow> (ProtoInt64 \<times> 'r) result" where
  "decode_tc_ProtoInt64 L G = decode_msg L (tc_ProtoInt64_switch L G) createBase_tc_ProtoInt64"

definition fromJSON_tc_ProtoInt64 :: "host \<Rightarrow> jsval \<Rightarrow> ProtoInt64 result" where
  "fromJSON_tc_ProtoInt64 h object =
     bindE (fieldE object ''value'' (numberE h) (Num 0)) (\<lambda>v_value.
     Inr \<lparr>ProtoInt64.value' = v_value\<rparr>)"

definition toJSON_tc_ProtoInt64 :: "host \<Rightarrow> ProtoInt64 \<Rightarrow> jsval result" where
  "toJSON_tc_ProtoInt64 h message = objE
    [jfieldE True ''value'' (Inr (JNumber (Math_round (ProtoInt64.value' message))))]"

definition fromPartial_tc_ProtoInt64 :: "ProtoInt64_Partial \<Rightarrow> ProtoInt64" where
  "fromPartial_tc_ProtoInt64 object = createBase_tc_ProtoInt64\<lparr>ProtoInt64.value' := nullish (ProtoInt64_Partial.value' object) (Num 0)\<rparr>"

subsection \<open>ProtoUint64\<close>

definition createBase_tc_ProtoUint64 :: ProtoUint64 where
  "createBase_tc_ProtoUint64 = \<lparr>ProtoUint64.value' = Num 0\<rparr>"

definition encode_tc_ProtoUint64 :: "('w, 'r) wire \<Rightarrow> ProtoUint64 \<Rightarrow> 'w \<Rightarrow> 'w result" where
  "encode_tc_ProtoUint64 L message = seqE
    [whenE (ProtoUint64.value' message \<noteq> Num 0) (seqE [w_uint32 L 8, w_uint64 L (ProtoUint64.value' message)])]"

definition tc_ProtoUint64_switch :: "('w, 'r) wire \<Rightarrow> long_lib \<Rightarrow> u32 \<Rightarrow> ProtoUint64 \<Rightarrow> (ProtoUint64, 'r) action" where
  "tc_ProtoUint64_switch L G tag message = js_switch (drop_bit 3 tag)
    [(1, readf (num64l G (r_uint64 L)) (\<lambda>v. message\<lparr>ProtoUint64.value' := v\<rparr>))]
    (skipType L tag message)"

definition decode_tc_ProtoUint64 :: "('w, 'r) wire \<Rightarrow> long_lib \<Rightarrow> 'r input \<Rightarrow> nat option \<Rightarrow> (ProtoUint64 \<times> 'r) result" where
  "decode_tc_ProtoUint64 L G = decode_msg L (tc_ProtoUint64_switch L G) createBase_tc_ProtoUint64"

definition fromJSON_tc_ProtoUint64 :: "host \<Rightarrow> jsval \<Rightarrow> ProtoUint64 result" where
  "fromJSON_tc_ProtoUint64 h object =
     bindE (fieldE object ''value'' (numberE h) (Num 0)) (\<lambda>v_value.
     Inr \<lparr>ProtoUint64.value' = v_value\<rparr>)"

definition toJSON_tc_ProtoUint64 :: "host \<Rightarrow> ProtoUint64 \<Rightarrow> jsval result" where
  "toJSON_tc_ProtoUint64 h message = objE
    [jfieldE True ''value'' (Inr (JNumber (Math_round (ProtoUint64.value' message))))]"

definition fromPartial_tc_ProtoUint64 :: "ProtoUint64_Partial \<Rightarrow> ProtoUint64" where
  "fromPartial_tc_ProtoUint64 object = createBase_tc_ProtoUint64\<lparr>ProtoUint64.value' := nullish (ProtoUint64_Partial.value' object) (Num 0)\<rparr>"

subsection \<open>ProtoAccAddresses\<close>

definition createBase_tc_ProtoAccAddresses :: ProtoAccAddresses where
  "createBase_tc_ProtoAccAddresses = \<lparr>ProtoAccAddresses.value' = []\<rparr>"

definition encode_tc_ProtoAccAddresses :: "('w, 'r) wire \<Rightarrow> ProtoAccAddresses \<Rightarrow> 'w \<Rightarrow> 'w result" where
  "encode_tc_ProtoAccAddresses L message = seqE
    [forE (\<lambda>v. seqE [w_uint32 L 10, w_bytes L v]) (ProtoAccAddresses.value' message)]"

definition tc_ProtoAccAddresses_switch :: "('w, 'r) wire \<Rightarrow> long_lib \<Rightarrow> u32 \<Rightarrow> ProtoAccAddresses \<Rightarrow> (ProtoAccAddresses, 'r) action" where
  "tc_ProtoAccAddresses_switch L G tag message = js_switch (drop_bit 3 tag)
    [(1, readf (r_bytes L) (\<lambda>v. message\<lparr>ProtoAccAddresses.value' := ProtoAccAddresses.value' message @ [v]\<rparr>))]
    (skipType L tag message)"

definition decode_tc_ProtoAccAddresses :: "('w, 'r) wire \<Rightarrow> long_lib \<Rightarrow> 'r input \<Rightarrow> nat option \<Rightarrow> (ProtoAccAddresses \<times> 'r) result" where
  "decode_tc_ProtoAccAddresses L G = decode_msg L (tc_ProtoAccAddresses_switch L G) createBase_tc_ProtoAccAddresses"

definition fromJSON_tc_ProtoAccAddresses :: "host \<Rightarrow> jsval \<Rightarrow> ProtoAccAddresses result" where
  "fromJSON_tc_ProtoAccAddresses h object =
     bindE (arrayE object ''value'' (bytesFromBase64 h)) (\<lambda>v_value.
     Inr \<lparr>ProtoAccAddresses.value' = v_value\<rparr>)"

definition toJSON_tc_ProtoAccAddresses :: "host \<Rightarrow> ProtoAccAddresses \<Rightarrow> jsval result" where
  "toJSON_tc_ProtoAccAddresses h message = objE
    [jlistE ''value'' (base64E h) (ProtoAccAddresses.value' message)]"

definition fromPartial_tc_ProtoAccAddresses :: "ProtoAccAddresses_Partial \<Rightarrow> ProtoAccAddresses" where
  "fromPartial_tc_ProtoAccAddresses object = createBase_tc_ProtoAccAddresses\<lparr>ProtoAccAddresses.value' := partial_map (\<lambda>e. e) (ProtoAccAddresses_Partial.value' object)\<rparr>"

subsection \<open>ProtoStrings\<close>

definition createBase_tc_ProtoStrings :: ProtoStrings where
  "createBase_tc_ProtoStrings = \<lparr>ProtoStrings.value' = []\<rparr>"

definition encode_tc_ProtoStrings :: "('w, 'r) wire \<Rightarrow> ProtoStrings \<Rightarrow> 'w \<Rightarrow> 'w result" where
  "encode_tc_ProtoStrings L message = seqE
    [forE (\<lambda>v. seqE [w_uint32 L 10, w_string L v]) (ProtoStrings.value' message)]"

definition tc_ProtoStrings_switch :: "('w, 'r) wire \<Rightarrow> long_lib \<Rightarrow> u32 \<Rightarrow> ProtoStrings \<Rightarrow> (ProtoStrings, 'r) action" where
  "tc_ProtoStrings_switch L G tag message = js_switch (drop_bit 3 tag)
    [(1, readf (r_string L) (\<lambda>v. message\<lparr>ProtoStrings.value' := ProtoStrings.value' message @ [v]\<rparr>))]
    (skipType L tag message)"

definition decode_tc_ProtoStrings :: "('w, 'r) wire \<Rightarrow> long_lib \<Rightarrow> 'r input \<Rightarrow> nat option \<Rightarrow> (ProtoStrings \<times> 'r) result" where
  "decode_tc_ProtoStrings L G = decode_msg L (tc_ProtoStrings_switch L G) createBase_tc_ProtoStrings"

definition fromJSON_tc_ProtoStrings :: "host \<Rightarrow> jsval \<Rightarrow> ProtoStrings result" where
  "fromJSON_tc_ProtoStrings h object =
     bindE (arrayE object ''value'' (stringE h)) (\<lambda>v_value.
     Inr \<lparr>ProtoStrings.value' = v_value\<rparr>)"

definition toJSON_tc_ProtoStrings :: "host \<Rightarrow> ProtoStrings \<Rightarrow> jsval result" where
  "toJSON_tc_ProtoStrings h message = objE
    [jlistE ''value'' (\<lambda>e. Inr (JString e)) (ProtoStrings.value' message)]"

definition fromPartial_tc_ProtoStrings :: "ProtoStrings_Partial \<Rightarrow> ProtoStrings" where
  "fromPartial_tc_ProtoStrings object = createBase_tc_ProtoStrings\<lparr>ProtoStrings.value' := partial_map (\<lambda>e. e) (ProtoStrings_Partial.value' object)\<rparr>"

subsection \<open>ProtoBools\<close>

definition createBase_tc_ProtoBools :: ProtoBools where
  "createBase_tc_ProtoBools = \<lparr>ProtoBools.value' = []\<rparr>"

definition encode_tc_ProtoBools :: "('w, 'r) wire \<Rightarrow> ProtoBools \<Rightarrow> 'w \<Rightarrow> 'w result" where
  "encode_tc_ProtoBools L message = seqE
    [seqE [w_uint32 L 10, w_fork L, forE (w_bool L) (ProtoBools.value' message), w_join L]]"

definition tc_ProtoBools_switch :: "('w, 'r) wire \<Rightarrow> long_lib \<Rightarrow> u32 \<Rightarrow> ProtoBools \<Rightarrow> (ProtoBools, 'r) action" where
  "tc_ProtoBools_switch L G tag message = js_switch (drop_bit 3 tag)
    [(1, if tag AND 7 = 2 then readf (packed L (r_bool L)) (\<lambda>v. message\<lparr>ProtoBools.value' := ProtoBools.value' message @ v\<rparr>)
          else readf (r_bool L) (\<lambda>v. message\<lparr>ProtoBools.value' := ProtoBools.value' message @ [v]\<rparr>))]
    (skipType L tag message)"

definition decode_tc_ProtoBools :: "('w, 'r) wire \<Rightarrow> long_lib \<Rightarrow> 'r input \<Rightarrow> nat option \<Rightarrow> (ProtoBools \<times> 'r) result" where
  "decode_tc_ProtoBools L G = decode_msg L (tc_ProtoBools_switch L G) createBase_tc_ProtoBools"

definition fromJSON_tc_ProtoBools :: "host \<Rightarrow> jsval \<Rightarrow> ProtoBools result" where
  "fromJSON_tc_ProtoBools h object =
     bindE (arrayE object ''value'' booleanE) (\<lambda>v_value.
     Inr \<lparr>ProtoBools.value' = v_value\<rparr>)"

definition toJSON_tc_ProtoBools :: "host \<Rightarrow> ProtoBools \<Rightarrow> jsval result" where
  "toJSON_tc_ProtoBools h message = objE
    [jlistE ''value'' (\<lambda>e. Inr (JBool e)) (ProtoBools.value' message)]"

definition fromPartial_tc_ProtoBools :: "ProtoBools_Partial \<Rightarrow> ProtoBools" where
  "fromPartial_tc_ProtoBools object = createBase_tc_ProtoBools\<lparr>ProtoBools.value' := partial_map (\<lambda>e. e) (ProtoBools_Partial.value' object)\<rparr>"


section \<open>ts-client/arkeo.arkeo/types/arkeo/arkeo/params.ts\<close>

subsection \<open>Params\<close>

datatype tc_Params = tc_Params

definition createBase_tc_Params :: tc_Params where
  "createBase_tc_Params = tc_Params"

definition encode_tc_Params :: "('w, 'r) wire \<Rightarrow> tc_Params \<Rightarrow> 'w \<Rightarrow> 'w result" where
  "encode_tc_Params L message = seqE
    []"

definition tc_Params_switch :: "('w, 'r) wire \<Rightarrow> long_lib \<Rightarrow> u32 \<Rightarrow> tc_Params \<Rightarrow> (tc_Params, 'r) action" where
  "tc_Params_switch L G tag message = js_switch (drop_bit 3 tag)
    []
    (skipType L tag message)"

definition decode_tc_Params :: "('w, 'r) wire \<Rightarrow> long_lib \<Rightarrow> 'r input \<Rightarrow> nat option \<Rightarrow> (tc_Params \<times> 'r) result" where
  "decode_tc_Params L G = decode_msg L (tc_Params_switch L G) createBase_tc_Params"

definition fromJSON_tc_Params :: "host \<Rightarrow> jsval \<Rightarrow> tc_Params result" where
  "fromJSON_tc_Params h object =
     Inr tc_Params"

definition toJSON_tc_Params :: "host \<Rightarrow> tc_Params \<Rightarrow> jsval result" where
  "toJSON_tc_Params h message = objE
    []"

definition fromPartial_tc_Params :: "tc_Params \<Rightarrow> tc_Params" where
  "fromPartial_tc_Params object = createBase_tc_Params"

definition wf_tc_Params :: "('w, 'r) wire \<Rightarrow> tc_Params \<Rightarrow> bool" where
  "wf_tc_Params L m \<longleftrightarrow> True"

definition wfj_tc_Params :: "tc_Params \<Rightarrow> bool" where
  "wfj_tc_Params m \<longleftrightarrow> True"


section \<open>ts-client/arkeo.arkeo/types/arkeo/arkeo/genesis.ts\<close>

subsection \<open>GenesisState\<close>

record tc_GenesisState =
  params :: "tc_Params option"
  providers :: "Provider list"
  contracts :: "Contract list"
  nextContractId :: number
  contractExpirationSets :: "ContractExpirationSet list"
  userContractSets :: "UserContractSet list"

definition createBase_tc_GenesisState :: tc_GenesisState where
  "createBase_tc_GenesisState = \<lparr>tc_GenesisState.params = None,
     tc_GenesisState.providers = [],
     tc_GenesisState.contracts = [],
     tc_GenesisState.nextContractId = Num 0,
     tc_GenesisState.contractExpirationSets = [],
     tc_GenesisState.userContractSets = []\<rparr>"

definition encode_tc_GenesisState :: "('w, 'r) wire \<Rightarrow> tc_GenesisState \<Rightarrow> 'w \<Rightarrow> 'w result" where
  "encode_tc_GenesisState L message = seqE
    [someE (tc_GenesisState.params message) (\<lambda>v. seqE [w_uint32 L 10, w_fork L, encode_tc_Params L v, w_join L]),
     forE (\<lambda>v. seqE [w_uint32 L 18, w_fork L, encode_tc_Provider L v, w_join L]) (tc_GenesisState.providers message),
     forE (\<lambda>v. seqE [w_uint32 L 26, w_fork L, encode_tc_Contract L v, w_join L]) (tc_GenesisState.contracts message),
     whenE (tc_GenesisState.nextContractId message \<noteq> Num 0) (seqE [w_uint32 L 32, w_uint64 L (tc_GenesisState.nextContractId message)]),
     forE (\<lambda>v. seqE [w_uint32 L 42, w_fork L, encode_tc_ContractExpirationSet L v, w_join L]) (tc_GenesisState.contractExpirationSets message),
     forE (\<lambda>v. seqE [w_uint32 L 50, w_fork L, encode_tc_UserContractSet L v, w_join L]) (tc_GenesisState.userContractSets message)]"

definition tc_GenesisState_switch :: "('w, 'r) wire \<Rightarrow> long_lib \<Rightarrow> u32 \<Rightarrow> tc_GenesisState \<Rightarrow> (tc_GenesisState, 'r) action" where
  "tc_GenesisState_switch L G tag message = js_switch (drop_bit 3 tag)
    [(1, readf (submsg L (decode_tc_Params L G)) (\<lambda>v. message\<lparr>tc_GenesisState.params := Some v\<rparr>)),
     (2, readf (submsg L (decode_tc_Provider L G)) (\<lambda>v. message\<lparr>tc_GenesisState.providers := tc_GenesisState.providers message @ [v]\<rparr>)),
     (3, readf (submsg L (decode_tc_Contract L G)) (\<lambda>v. message\<lparr>tc_GenesisState.contracts := tc_GenesisState.contracts message @ [v]\<rparr>)),
     (4, readf (num64l G (r_uint64 L)) (\<lambda>v. message\<lparr>tc_GenesisState.nextContractId := v\<rparr>)),
     (5, readf (submsg L (decode_tc_ContractExpirationSet L G)) (\<lambda>v. message\<lparr>tc_GenesisState.contractExpirationSets := tc_GenesisState.contractExpirationSets message @ [v]\<rparr>)),
     (6, readf (submsg L (decode_tc_UserContractSet L G)) (\<lambda>v. message\<lparr>tc_GenesisState.userContractSets := tc_GenesisState.userContractSets message @ [v]\<rparr>))]
    (skipType L tag message)"

definition decode_tc_GenesisState :: "('w, 'r) wire \<Rightarrow> long_lib \<Rightarrow> 'r input \<Rightarrow> nat option \<Rightarrow> (tc_GenesisState \<times> 'r) result" where
  "decode_tc_GenesisState L G = decode_msg L (tc_GenesisState_switch L G) createBase_tc_GenesisState"

definition fromJSON_tc_GenesisState :: "host \<Rightarrow> jsval \<Rightarrow> tc_GenesisState result" where
  "fromJSON_tc_GenesisState h object =
     bindE (optE object ''params'' (fromJSON_tc_Params h)) (\<lambda>v_params.
     bindE (arrayE object ''providers'' (fromJSON_tc_Provider h)) (\<lambda>v_providers.
     bindE (arrayE object ''contracts'' (fromJSON_tc_Contract h)) (\<lambda>v_contracts.
     bindE (fieldE object ''nextContractId'' (numberE h) (Num 0)) (\<lambda>v_nextContractId.
     bindE (arrayE object ''contractExpirationSets'' (fromJSON_tc_ContractExpirationSet h)) (\<lambda>v_contractExpirationSets.
     bindE (arrayE object ''userContractSets'' (fromJSON_tc_UserContractSet h)) (\<lambda>v_userContractSets.
     Inr \<lparr>tc_GenesisState.params = v_params, tc_GenesisState.providers = v_providers, tc_GenesisState.contracts = v_contracts, tc_GenesisState.nextContractId = v_nextContractId, tc_GenesisState.contractExpirationSets = v_contractExpirationSets, tc_GenesisState.userContractSets = v_userContractSets\<rparr>))))))"

definition toJSON_tc_GenesisState :: "host \<Rightarrow> tc_GenesisState \<Rightarrow> jsval result" where
  "toJSON_tc_GenesisState h message = objE
    [joptE ''params'' (toJSON_tc_Params h) (tc_GenesisState.params message),
     jlistE ''providers'' (toJSON_tc_Provider h) (tc_GenesisState.providers message),
     jlistE ''contracts'' (toJSON_tc_Contract h) (tc_GenesisState.contracts message),
     jfieldE True ''nextContractId'' (Inr (JNumber (Math_round (tc_GenesisState.nextContractId message)))),
     jlistE ''contractExpirationSets'' (toJSON_tc_ContractExpirationSet h) (tc_GenesisState.contractExpirationSets message),
     jlistE ''userContractSets'' (toJSON_tc_UserContractSet h) (tc_GenesisState.userContractSets message)]"

record tc_GenesisState_Partial =
  params :: "tc_Params option"
  providers :: "Provider_Partial list option"
  contracts :: "Contract_Partial list option"
  nextContractId :: "number option"
  contractExpirationSets :: "ContractExpirationSet_Partial list option"
  userContractSets :: "UserContractSet_Partial list option"

definition fromPartial_tc_GenesisState :: "tc_GenesisState_Partial \<Rightarrow> tc_GenesisState" where
  "fromPartial_tc_GenesisState object = createBase_tc_GenesisState\<lparr>tc_GenesisState.params := map_option fromPartial_tc_Params (tc_GenesisState_Partial.params object),
     tc_GenesisState.providers := partial_map fromPartial_tc_Provider (tc_GenesisState_Partial.providers object),
     tc_GenesisState.contracts := partial_map fromPartial_tc_Contract (tc_GenesisState_Partial.contracts object),
     tc_GenesisState.nextContractId := nullish (tc_GenesisState_Partial.nextContractId object) (Num 0),
     tc_GenesisState.contractExpirationSets := partial_map fromPartial_tc_ContractExpirationSet (tc_GenesisState_Partial.contractExpirationSets object),
     tc_GenesisState.userContractSets := partial_map fromPartial_tc_UserContractSet (tc_GenesisState_Partial.userContractSets object)\<rparr>"

text \<open>A partial message that sets every field.\<close>

definition partial_of_tc_GenesisState :: "tc_GenesisState \<Rightarrow> tc_GenesisState_Partial" where
  "partial_of_tc_GenesisState m =
     \<lparr>tc_GenesisState_Partial.params = tc_GenesisState.params m,
      tc_GenesisState_Partial.providers = Some (map partial_of_Provider (tc_GenesisState.providers m)),
      tc_GenesisState_Partial.contracts = Some (map partial_of_Contract (tc_GenesisState.contracts m)),
      tc_GenesisState_Partial.nextContractId = Some (tc_GenesisState.nextContractId m),
      tc_GenesisState_Partial.contractExpirationSets = Some (map partial_of_ContractExpirationSet (tc_GenesisState.contractExpirationSets m)),
      tc_GenesisState_Partial.userContractSets = Some (map partial_of_UserContractSet (tc_GenesisState.userContractSets m))\<rparr>"

definition wf_tc_GenesisState :: "('w, 'r) wire \<Rightarrow> tc_GenesisState \<Rightarrow> bool" where
  "wf_tc_GenesisState L m \<longleftrightarrow> pred_option (\<lambda>v. wf_tc_Params L v \<and> fits L (encode_tc_Params L v)) (tc_GenesisState.params m)
     \<and> list_all (\<lambda>v. wf_Provider L v \<and> fits L (encode_Provider L v)) (tc_GenesisState.providers m)
     \<and> list_all (\<lambda>v. wf_Contract L v \<and> fits L (encode_Contract L v)) (tc_GenesisState.contracts m)
     \<and> safe_uint (tc_GenesisState.nextContractId m)
     \<and> list_all (\<lambda>v. wf_ContractExpirationSet L v \<and> fits L (encode_ContractExpirationSet L v)) (tc_GenesisState.contractExpirationSets m)
     \<and> list_all (\<lambda>v. wf_UserContractSet L v \<and> fits L (encode_UserContractSet L v)) (tc_GenesisState.userContractSets m)"

definition wfj_tc_GenesisState :: "tc_GenesisState \<Rightarrow> bool" where
  "wfj_tc_GenesisState m \<longleftrightarrow> pred_option wfj_tc_Params (tc_GenesisState.params m)
     \<and> list_all wfj_Provider (tc_GenesisState.providers m)
     \<and> list_all wfj_Contract (tc_GenesisState.contracts m)
     \<and> whole (tc_GenesisState.nextContractId m)
     \<and> list_all wfj_ContractExpirationSet (tc_GenesisState.contractExpirationSets m)
     \<and> list_all wfj_UserContractSet (tc_GenesisState.userContractSets m)"


section \<open>Encoding, decoding and JSON of these messages\<close>

lemma tc_ProtoInt64_eqs:
  "createBase_tc_ProtoInt64 = createBase_ProtoInt64"
  "encode_tc_ProtoInt64 L = encode_ProtoInt64 L"
  "fromJSON_tc_ProtoInt64 h = fromJSON_ProtoInt64 h"
  "fromPartial_tc_ProtoInt64 = fromPartial_ProtoInt64"
  by (simp_all add: fun_eq_iff createBase_tc_ProtoInt64_def createBase_ProtoInt64_def
      encode_tc_ProtoInt64_def encode_ProtoInt64_def
      fromJSON_tc_ProtoInt64_def fromJSON_ProtoInt64_def
      fromPartial_tc_ProtoInt64_def fromPartial_ProtoInt64_def)

lemma tc_ProtoInt64_tags:
  "tc_ProtoInt64_switch L G 8 m = readf (num64l G (r_int64 L)) (\<lambda>v. m\<lparr>ProtoInt64.value' := v\<rparr>)"
  by (simp_all add: tc_ProtoInt64_switch_def)

sublocale long_wire_laws \<subseteq> tc_ProtoInt64_codec: message_codec L F out inp "encode_ProtoInt64 L" "tc_ProtoInt64_switch L G" createBase_ProtoInt64 "wf_ProtoInt64 L"
proof unfold_locales
  show good: "good_sw (tc_ProtoInt64_switch L G)"
    unfolding tc_ProtoInt64_switch_def by (intro good_swI fwd_rules)
  fix m assume "wf_ProtoInt64 L m"
  then show "codes (tc_ProtoInt64_switch L G) (encode_ProtoInt64 L m) createBase_ProtoInt64 m"
    unfolding encode_ProtoInt64_def wf_ProtoInt64_def
    by (-)
      (rule codes_Cons codes_Nil [OF ProtoInt64.equality] codec_rules
        codes_when [where tag = 8 and u = ProtoInt64.value'_update and op = "num64l G (r_int64 L)", OF good]
      | assumption | (simp add: tc_ProtoInt64_tags createBase_ProtoInt64_def; fail))+
qed

context long_wire_laws
begin

lemmas tc_ProtoInt64_roundtrip = tc_ProtoInt64_codec.roundtrip [folded decode_tc_ProtoInt64_def [unfolded tc_ProtoInt64_eqs(1)]]

lemmas tc_ProtoInt64_returns = tc_ProtoInt64_codec.decode_returns [folded decode_tc_ProtoInt64_def [unfolded tc_ProtoInt64_eqs(1)]]

lemma tc_ProtoInt64_interop: "interoperates L inp (wf_ProtoInt64 L) (encode_ProtoInt64 L) (decode_ProtoInt64 L) (encode_tc_ProtoInt64 L) (decode_tc_ProtoInt64 L G)"
  using ProtoInt64_roundtrip tc_ProtoInt64_roundtrip by (simp add: interoperates_def tc_ProtoInt64_eqs(2))

end

interpretation tc_ProtoInt64_json: message_json toJSON_tc_ProtoInt64 fromJSON_tc_ProtoInt64 wfj_ProtoInt64
proof unfold_locales
  fix h m
  assume "wfj_ProtoInt64 m"
  then show "json_rt (toJSON_tc_ProtoInt64 h) (fromJSON_tc_ProtoInt64 h) m"
    unfolding toJSON_tc_ProtoInt64_def fromJSON_tc_ProtoInt64_def wfj_ProtoInt64_def
    by (-) (rule json_rtI json_rules | assumption | (simp; fail))+
qed

lemma tc_ProtoUint64_eqs:
  "createBase_tc_ProtoUint64 = createBase_ProtoUint64"
  "encode_tc_ProtoUint64 L = encode_ProtoUint64 L"
  "fromJSON_tc_ProtoUint64 h = fromJSON_ProtoUint64 h"
  "fromPartial_tc_ProtoUint64 = fromPartial_ProtoUint64"
  by (simp_all add: fun_eq_iff createBase_tc_ProtoUint64_def createBase_ProtoUint64_def
      encode_tc_ProtoUint64_def encode_ProtoUint64_def
      fromJSON_tc_ProtoUint64_def fromJSON_ProtoUint64_def
      fromPartial_tc_ProtoUint64_def fromPartial_ProtoUint64_def)

lemma tc_ProtoUint64_tags:
  "tc_ProtoUint64_switch L G 8 m = readf (num64l G (r_uint64 L)) (\<lambda>v. m\<lparr>ProtoUint64.value' := v\<rparr>)"
  by (simp_all add: tc_ProtoUint64_switch_def)

sublocale long_wire_laws \<subseteq> tc_ProtoUint64_codec: message_codec L F out inp "encode_ProtoUint64 L" "tc_ProtoUint64_switch L G" createBase_ProtoUint64 "wf_ProtoUint64 L"
proof unfold_locales
  show good: "good_sw (tc_ProtoUint64_switch L G)"
    unfolding tc_ProtoUint64_switch_def by (intro good_swI fwd_rules)
  fix m assume "wf_ProtoUint64 L m"
  then show "codes (tc_ProtoUint64_switch L G) (encode_ProtoUint64 L m) createBase_ProtoUint64 m"
    unfolding encode_ProtoUint64_def wf_ProtoUint64_def
    by (-)
      (rule codes_Cons codes_Nil [OF ProtoUint64.equality] codec_rules
        codes_when [where tag = 8 and u = ProtoUint64.value'_update and op = "num64l G (r_uint64 L)", OF good]
      | assumption | (simp add: tc_ProtoUint64_tags createBase_ProtoUint64_def; fail))+
qed

context long_wire_laws
begin

lemmas tc_ProtoUint64_roundtrip = tc_ProtoUint64_codec.roundtrip [folded decode_tc_ProtoUint64_def [unfolded tc_ProtoUint64_eqs(1)]]

lemmas tc_ProtoUint64_returns = tc_ProtoUint64_codec.decode_returns [folded decode_tc_ProtoUint64_def [unfolded tc_ProtoUint64_eqs(1)]]

lemma tc_ProtoUint64_interop: "interoperates L inp (wf_ProtoUint64 L) (encode_ProtoUint64 L) (decode_ProtoUint64 L) (encode_tc_ProtoUint64 L) (decode_tc_ProtoUint64 L G)"
  using ProtoUint64_roundtrip tc_ProtoUint64_roundtrip by (simp add: interoperates_def tc_ProtoUint64_eqs(2))

end

interpretation tc_ProtoUint64_json: message_json toJSON_tc_ProtoUint64 fromJSON_tc_ProtoUint64 wfj_ProtoUint64
proof unfold_locales
  fix h m
  assume "wfj_ProtoUint64 m"
  then show "json_rt (toJSON_tc_ProtoUint64 h) (fromJSON_tc_ProtoUint64 h) m"
    unfolding toJSON_tc_ProtoUint64_def fromJSON_tc_ProtoUint64_def wfj_ProtoUint64_def
    by (-) (rule json_rtI json_rules | assumption | (simp; fail))+
qed

lemma tc_ProtoAccAddresses_eqs:
  "createBase_tc_ProtoAccAddresses = createBase_ProtoAccAddresses"
  "encode_tc_ProtoAccAddresses L = encode_ProtoAccAddresses L"
  "fromJSON_tc_ProtoAccAddresses h = fromJSON_ProtoAccAddresses h"
  "fromPartial_tc_ProtoAccAddresses = fromPartial_ProtoAccAddresses"
  by (simp_all add: fun_eq_iff createBase_tc_ProtoAccAddresses_def createBase_ProtoAccAddresses_def
      encode_tc_ProtoAccAddresses_def encode_ProtoAccAddresses_def
      fromJSON_tc_ProtoAccAddresses_def fromJSON_ProtoAccAddresses_def
      fromPartial_tc_ProtoAccAddresses_def fromPartial_ProtoAccAddresses_def)

lemma tc_ProtoAccAddresses_tags:
  "tc_ProtoAccAddresses_switch L G 10 m = readf (r_bytes L) (\<lambda>v. m\<lparr>ProtoAccAddresses.value' := ProtoAccAddresses.value' m @ [v]\<rparr>)"
  by (simp_all add: tc_ProtoAccAddresses_switch_def)

sublocale long_wire_laws \<subseteq> tc_ProtoAccAddresses_codec: message_codec L F out inp "encode_ProtoAccAddresses L" "tc_ProtoAccAddresses_switch L G" createBase_ProtoAccAddresses "wf_ProtoAccAddresses L"
proof unfold_locales
  show good: "good_sw (tc_ProtoAccAddresses_switch L G)"
    unfolding tc_ProtoAccAddresses_switch_def by (intro good_swI fwd_rules)
  fix m assume "wf_ProtoAccAddresses L m"
  then show "codes (tc_ProtoAccAddresses_switch L G) (encode_ProtoAccAddresses L m) createBase_ProtoAccAddresses m"
    unfolding encode_ProtoAccAddresses_def wf_ProtoAccAddresses_def
    by (-)
      (rule codes_Cons codes_Nil [OF ProtoAccAddresses.equality] codec_rules
        codes_for [where tag = 10 and u = ProtoAccAddresses.value'_update and op = "r_bytes L", OF good]
      | assumption | (simp add: tc_ProtoAccAddresses_tags createBase_ProtoAccAddresses_def; fail))+
qed

context long_wire_laws
begin

lemmas tc_ProtoAccAddresses_roundtrip = tc_ProtoAccAddresses_codec.roundtrip [folded decode_tc_ProtoAccAddresses_def [unfolded tc_ProtoAccAddresses_eqs(1)]]

lemmas tc_ProtoAccAddresses_returns = tc_ProtoAccAddresses_codec.decode_returns [folded decode_tc_ProtoAccAddresses_def [unfolded tc_ProtoAccAddresses_eqs(1)]]

lemma tc_ProtoAccAddresses_interop: "interoperates L inp (wf_ProtoAccAddresses L) (encode_ProtoAccAddresses L) (decode_ProtoAccAddresses L) (encode_tc_ProtoAccAddresses L) (decode_tc_ProtoAccAddresses L G)"
  using ProtoAccAddresses_roundtrip tc_ProtoAccAddresses_roundtrip by (simp add: interoperates_def tc_ProtoAccAddresses_eqs(2))

end

interpretation tc_ProtoAccAddresses_json: message_json toJSON_tc_ProtoAccAddresses fromJSON_tc_ProtoAccAddresses wfj_ProtoAccAddresses
proof unfold_locales
  fix h m
  assume "wfj_ProtoAccAddresses m"
  then show "json_rt (toJSON_tc_ProtoAccAddresses h) (fromJSON_tc_ProtoAccAddresses h) m"
    unfolding toJSON_tc_ProtoAccAddresses_def fromJSON_tc_ProtoAccAddresses_def wfj_ProtoAccAddresses_def
    by (-) (rule json_rtI json_rules | assumption | (simp; fail))+
qed

lemma tc_ProtoStrings_eqs:
  "createBase_tc_ProtoStrings = createBase_ProtoStrings"
  "encode_tc_ProtoStrings L = encode_ProtoStrings L"
  "fromJSON_tc_ProtoStrings h = fromJSON_ProtoStrings h"
  "fromPartial_tc_ProtoStrings = fromPartial_ProtoStrings"
  by (simp_all add: fun_eq_iff createBase_tc_ProtoStrings_def createBase_ProtoStrings_def
      encode_tc_ProtoStrings_def encode_ProtoStrings_def
      fromJSON_tc_ProtoStrings_def fromJSON_ProtoStrings_def
      fromPartial_tc_ProtoStrings_def fromPartial_ProtoStrings_def)

lemma tc_ProtoStrings_tags:
  "tc_ProtoStrings_switch L G 10 m = readf (r_string L) (\<lambda>v. m\<lparr>ProtoStrings.value' := ProtoStrings.value' m @ [v]\<rparr>)"
  by (simp_all add: tc_ProtoStrings_switch_def)

sublocale long_wire_laws \<subseteq> tc_ProtoStrings_codec: message_codec L F out inp "encode_ProtoStrings L" "tc_ProtoStrings_switch L G" createBase_ProtoStrings "wf_ProtoStrings L"
proof unfold_locales
  show good: "good_sw (tc_ProtoStrings_switch L G)"
    unfolding tc_ProtoStrings_switch_def by (intro good_swI fwd_rules)
  fix m assume "wf_ProtoStrings L m"
  then show "codes (tc_ProtoStrings_switch L G) (encode_ProtoStrings L m) createBase_ProtoStrings m"
    unfolding encode_ProtoStrings_def wf_ProtoStrings_def
    by (-)
      (rule codes_Cons codes_Nil [OF ProtoStrings.equality] codec_rules
        codes_for [where tag = 10 and u = ProtoStrings.value'_update and op = "r_string L", OF good]
      | assumption | (simp add: tc_ProtoStrings_tags createBase_ProtoStrings_def; fail))+
qed

context long_wire_laws
begin

lemmas tc_ProtoStrings_roundtrip = tc_ProtoStrings_codec.roundtrip [folded decode_tc_ProtoStrings_def [unfolded tc_ProtoStrings_eqs(1)]]

lemmas tc_ProtoStrings_returns = tc_ProtoStrings_codec.decode_returns [folded decode_tc_ProtoStrings_def [unfolded tc_ProtoStrings_eqs(1)]]

lemma tc_ProtoStrings_interop: "interoperates L inp (wf_ProtoStrings L) (encode_ProtoStrings L) (decode_ProtoStrings L) (encode_tc_ProtoStrings L) (decode_tc_ProtoStrings L G)"
  using ProtoStrings_roundtrip tc_ProtoStrings_roundtrip by (simp add: interoperates_def tc_ProtoStrings_eqs(2))

end

interpretation tc_ProtoStrings_json: message_json toJSON_tc_ProtoStrings fromJSON_tc_ProtoStrings wfj_ProtoStrings
proof unfold_locales
  fix h m
  assume "wfj_ProtoStrings m"
  then show "json_rt (toJSON_tc_ProtoStrings h) (fromJSON_tc_ProtoStrings h) m"
    unfolding toJSON_tc_ProtoStrings_def fromJSON_tc_ProtoStrings_def wfj_ProtoStrings_def
    by (-) (rule json_rtI json_rules | assumption | (simp; fail))+
qed

lemma tc_ProtoBools_eqs:
  "createBase_tc_ProtoBools = createBase_ProtoBools"
  "encode_tc_ProtoBools L = encode_ProtoBools L"
  "fromJSON_tc_ProtoBools h = fromJSON_ProtoBools h"
  "fromPartial_tc_ProtoBools = fromPartial_ProtoBools"
  by (simp_all add: fun_eq_iff createBase_tc_ProtoBools_def createBase_ProtoBools_def
      encode_tc_ProtoBools_def encode_ProtoBools_def
      fromJSON_tc_ProtoBools_def fromJSON_ProtoBools_def
      fromPartial_tc_ProtoBools_def fromPartial_ProtoBools_def)

lemma tc_ProtoBools_tags:
  "tc_ProtoBools_switch L G 10 m = readf (packed L (r_bool L)) (\<lambda>v. m\<lparr>ProtoBools.value' := ProtoBools.value' m @ v\<rparr>)"
  by (simp_all add: tc_ProtoBools_switch_def)

sublocale long_wire_laws \<subseteq> tc_ProtoBools_codec: message_codec L F out inp "encode_ProtoBools L" "tc_ProtoBools_switch L G" createBase_ProtoBools "wf_ProtoBools L"
proof unfold_locales
  show good: "good_sw (tc_ProtoBools_switch L G)"
    unfolding tc_ProtoBools_switch_def by (intro good_swI fwd_rules)
  fix m assume "wf_ProtoBools L m"
  then show "codes (tc_ProtoBools_switch L G) (encode_ProtoBools L m) createBase_ProtoBools m"
    unfolding encode_ProtoBools_def wf_ProtoBools_def
    by (-)
      (rule codes_Cons codes_Nil [OF ProtoBools.equality] codec_rules
        codes_always [where tag = 10 and u = ProtoBools.value'_update and op = "packed L (r_bool L)", OF good]
      | assumption | (simp add: tc_ProtoBools_tags createBase_ProtoBools_def; fail))+
qed

context long_wire_laws
begin

lemmas tc_ProtoBools_roundtrip = tc_ProtoBools_codec.roundtrip [folded decode_tc_ProtoBools_def [unfolded tc_ProtoBools_eqs(1)]]

lemmas tc_ProtoBools_returns = tc_ProtoBools_codec.decode_returns [folded decode_tc_ProtoBools_def [unfolded tc_ProtoBools_eqs(1)]]

lemma tc_ProtoBools_interop: "interoperates L inp (wf_ProtoBools L) (encode_ProtoBools L) (decode_ProtoBools L) (encode_tc_ProtoBools L) (decode_tc_ProtoBools L G)"
  using ProtoBools_roundtrip tc_ProtoBools_roundtrip by (simp add: interoperates_def tc_ProtoBools_eqs(2))

end

interpretation tc_ProtoBools_json: message_json toJSON_tc_ProtoBools fromJSON_tc_ProtoBools wfj_ProtoBools
proof unfold_locales
  fix h m
  assume "wfj_ProtoBools m"
  then show "json_rt (toJSON_tc_ProtoBools h) (fromJSON_tc_ProtoBools h) m"
    unfolding toJSON_tc_ProtoBools_def fromJSON_tc_ProtoBools_def wfj_ProtoBools_def
    by (-) (rule json_rtI json_rules | assumption | (simp; fail))+
qed

lemma fromPartial_tc_Params_id [simp]: "fromPartial_tc_Params = (\<lambda>m. m)"
  by (rule ext, rename_tac m, case_tac m) (simp add: fromPartial_tc_Params_def createBase_tc_Params_def)

sublocale long_wire_laws \<subseteq> tc_Params_codec: message_codec L F out inp "encode_tc_Params L" "tc_Params_switch L G" createBase_tc_Params "wf_tc_Params L"
proof unfold_locales
  show good: "good_sw (tc_Params_switch L G)"
    unfolding tc_Params_switch_def by (intro good_swI fwd_rules)
  fix m assume "wf_tc_Params L m"
  then show "codes (tc_Params_switch L G) (encode_tc_Params L m) createBase_tc_Params m"
    unfolding encode_tc_Params_def wf_tc_Params_def
    by (cases m) (simp add: createBase_tc_Params_def codes_Nil [simplified])
qed

context long_wire_laws
begin

lemmas tc_Params_carries [codec_rules] =
  tc_Params_codec.opt_carries [folded decode_tc_Params_def] tc_Params_codec.list_carries [folded decode_tc_Params_def]

lemmas tc_Params_good [fwd_rules] = tc_Params_codec.op_good [folded decode_tc_Params_def]

lemmas tc_Params_roundtrip = tc_Params_codec.roundtrip [folded decode_tc_Params_def]

lemmas tc_Params_returns = tc_Params_codec.decode_returns [folded decode_tc_Params_def]

end

interpretation tc_Params_json: message_json toJSON_tc_Params fromJSON_tc_Params wfj_tc_Params
proof unfold_locales
  fix h m
  show "json_rt (toJSON_tc_Params h) (fromJSON_tc_Params h) m"
    by (cases m) (simp add: json_rt_def toJSON_tc_Params_def fromJSON_tc_Params_def objE_rules(1))
qed

lemmas tc_Params_json_rules [json_rules] = tc_Params_json.json_list_rules

lemma fromPartial_partial_of_tc_GenesisState [simp]: "fromPartial_tc_GenesisState (partial_of_tc_GenesisState m) = m"
  by (simp add: fromPartial_tc_GenesisState_def partial_of_tc_GenesisState_def createBase_tc_GenesisState_def partial_map_def option.map_comp o_def option.map_ident tc_Provider_eqs tc_Contract_eqs tc_ContractExpirationSet_eqs tc_UserContractSet_eqs)

lemma tc_GenesisState_tags:
  "tc_GenesisState_switch L G 10 m = readf (submsg L (decode_tc_Params L G)) (\<lambda>v. m\<lparr>tc_GenesisState.params := Some v\<rparr>)"
  "tc_GenesisState_switch L G 18 m = readf (submsg L (decode_tc_Provider L G)) (\<lambda>v. m\<lparr>tc_GenesisState.providers := tc_GenesisState.providers m @ [v]\<rparr>)"
  "tc_GenesisState_switch L G 26 m = readf (submsg L (decode_tc_Contract L G)) (\<lambda>v. m\<lparr>tc_GenesisState.contracts := tc_GenesisState.contracts m @ [v]\<rparr>)"
  "tc_GenesisState_switch L G 32 m = readf (num64l G (r_uint64 L)) (\<lambda>v. m\<lparr>tc_GenesisState.nextContractId := v\<rparr>)"
  "tc_GenesisState_switch L G 42 m = readf (submsg L (decode_tc_ContractExpirationSet L G)) (\<lambda>v. m\<lparr>tc_GenesisState.contractExpirationSets := tc_GenesisState.contractExpirationSets m @ [v]\<rparr>)"
  "tc_GenesisState_switch L G 50 m = readf (submsg L (decode_tc_UserContractSet L G)) (\<lambda>v. m\<lparr>tc_GenesisState.userContractSets := tc_GenesisState.userContractSets m @ [v]\<rparr>)"
  by (simp_all add: tc_GenesisState_switch_def)

sublocale long_wire_laws \<subseteq> tc_GenesisState_codec: message_codec L F out inp "encode_tc_GenesisState L" "tc_GenesisState_switch L G" createBase_tc_GenesisState "wf_tc_GenesisState L"
proof unfold_locales
  show good: "good_sw (tc_GenesisState_switch L G)"
    unfolding tc_GenesisState_switch_def by (intro good_swI fwd_rules)
  fix m assume "wf_tc_GenesisState L m"
  then show "codes (tc_GenesisState_switch L G) (encode_tc_GenesisState L m) createBase_tc_GenesisState m"
    unfolding encode_tc_GenesisState_def wf_tc_GenesisState_def tc_Provider_eqs(2) tc_Contract_eqs(2) tc_ContractExpirationSet_eqs(2) tc_UserContractSet_eqs(2)
    by (elim conjE)
      (rule codes_Cons codes_Nil [OF tc_GenesisState.equality] codec_rules
        codes_some [where tag = 10 and u = tc_GenesisState.params_update and op = "submsg L (decode_tc_Params L G)", OF good]
        codes_for [where tag = 18 and u = tc_GenesisState.providers_update and op = "submsg L (decode_tc_Provider L G)", OF good]
        codes_for [where tag = 26 and u = tc_GenesisState.contracts_update and op = "submsg L (decode_tc_Contract L G)", OF good]
        codes_when [where tag = 32 and u = tc_GenesisState.nextContractId_update and op = "num64l G (r_uint64 L)", OF good]
        codes_for [where tag = 42 and u = tc_GenesisState.contractExpirationSets_update and op = "submsg L (decode_tc_ContractExpirationSet L G)", OF good]
        codes_for [where tag = 50 and u = tc_GenesisState.userContractSets_update and op = "submsg L (decode_tc_UserContractSet L G)", OF good]
      | assumption | (simp add: tc_GenesisState_tags createBase_tc_GenesisState_def; fail))+
qed

context long_wire_laws
begin

lemmas tc_GenesisState_roundtrip = tc_GenesisState_codec.roundtrip [folded decode_tc_GenesisState_def]

lemmas tc_GenesisState_returns = tc_GenesisState_codec.decode_returns [folded decode_tc_GenesisState_def]

end

interpretation tc_GenesisState_json: message_json toJSON_tc_GenesisState fromJSON_tc_GenesisState wfj_tc_GenesisState
proof unfold_locales
  fix h m
  assume "wfj_tc_GenesisState m"
  then show "json_rt (toJSON_tc_GenesisState h) (fromJSON_tc_GenesisState h) m"
    unfolding toJSON_tc_GenesisState_def fromJSON_tc_GenesisState_def wfj_tc_GenesisState_def
    by (elim conjE) (rule json_rtI json_rules | assumption | (simp; fail))+
qed

lemmas TcState_eqs =
  tc_ProtoInt64_eqs(3,4) tc_ProtoUint64_eqs(3,4) tc_ProtoAccAddresses_eqs(3,4) tc_ProtoStrings_eqs(3,4) tc_ProtoBools_eqs(3,4)

context long_wire_laws
begin

lemmas TcState_interop =
  tc_ProtoInt64_interop tc_ProtoUint64_interop tc_ProtoAccAddresses_interop tc_ProtoStrings_interop tc_ProtoBools_interop

end

end
