(* ===== verification/TcQuery.thy ===== *)
theory TcQuery
  imports TcState QueryMsgs
begin

unbundle bit_operations_syntax

text \<open>
  The queries of the arkeo module in \<open>ts-client\<close> and their answers.
\<close>


section \<open>ts-client/arkeo.arkeo/types/arkeo/arkeo/query.ts\<close>

subsection \<open>QueryParamsRequest\<close>

definition createBase_tc_QueryParamsRequest :: QueryParamsRequest where
  "createBase_tc_QueryParamsRequest = QueryParamsRequest"

definition encode_tc_QueryParamsRequest :: "('w, 'r) wire \<Rightarrow> QueryParamsRequest \<Rightarrow> 'w \<Rightarrow> 'w result" where
  "encode_tc_QueryParamsRequest L message = seqE
    []"

definition tc_QueryParamsRequest_switch :: "('w, 'r) wire \<Rightarrow> long_lib \<Rightarrow> u32 \<Rightarrow> QueryParamsRequest \<Rightarrow> (QueryParamsRequest, 'r) action" where
  "tc_QueryParamsRequest_switch L G tag message = js_switch (drop_bit 3 tag)
    []
    (skipType L tag message)"

definition decode_tc_QueryParamsRequest :: "('w, 'r) wire \<Rightarrow> long_lib \<Rightarrow> 'r input \<Rightarrow> nat option \<Rightarrow> (QueryParamsRequest \<times> 'r) result" where
  "decode_tc_QueryParamsRequest L G = decode_msg L (tc_QueryParamsRequest_switch L G) createBase_tc_QueryParamsRequest"

definition fromJSON_tc_QueryParamsRequest :: "host \<Rightarrow> jsval \<Rightarrow> QueryParamsRequest result" where
  "fromJSON_tc_QueryParamsRequest h object =
     Inr QueryParamsRequest"

definition toJSON_tc_QueryParamsRequest :: "host \<Rightarrow> QueryParamsRequest \<Rightarrow> jsval result" where
  "toJSON_tc_QueryParamsRequest h message = objE
    []"

definition fromPartial_tc_QueryParamsRequest :: "QueryParamsRequest \<Rightarrow> QueryParamsRequest" where
  "fromPartial_tc_QueryParamsRequest object = createBase_tc_QueryParamsRequest"

subsection \<open>QueryParamsResponse\<close>

record tc_QueryParamsResponse =
  params :: "tc_Params option"

definition createBase_tc_QueryParamsResponse :: tc_QueryParamsResponse where
  "createBase_tc_QueryParamsResponse = \<lparr>tc_QueryParamsResponse.params = None\<rparr>"

definition encode_tc_QueryParamsResponse :: "('w, 'r) wire \<Rightarrow> tc_QueryParamsResponse \<Rightarrow> 'w \<Rightarrow> 'w result" where
  "encode_tc_QueryParamsResponse L message = seqE
    [someE (tc_QueryParamsResponse.params message) (\<lambda>v. seqE [w_uint32 L 10, w_fork L, encode_tc_Params L v, w_join L])]"

definition tc_QueryParamsResponse_switch :: "('w, 'r) wire \<Rightarrow> long_lib \<Rightarrow> u32 \<Rightarrow> tc_QueryParamsResponse \<Rightarrow> (tc_QueryParamsResponse, 'r) action" where
  "tc_QueryParamsResponse_switch L G tag message = js_switch (drop_bit 3 tag)
    [(1, readf (submsg L (decode_tc_Params L G)) (\<lambda>v. message\<lparr>tc_QueryParamsResponse.params := Some v\<rparr>))]
    (skipType L tag message)"

definition decode_tc_QueryParamsResponse :: "('w, 'r) wire \<Rightarrow> long_lib \<Rightarrow> 'r input \<Rightarrow> nat option \<Rightarrow> (tc_QueryParamsResponse \<times> 'r) result" where
  "decode_tc_QueryParamsResponse L G = decode_msg L (tc_QueryParamsResponse_switch L G) createBase_tc_QueryParamsResponse"

definition fromJSON_tc_QueryParamsResponse :: "host \<Rightarrow> jsval \<Rightarrow> tc_QueryParamsResponse result" where
  "fromJSON_tc_QueryParamsResponse h object =
     bindE (optE object ''params'' (fromJSON_tc_Params h)) (\<lambda>v_params.
     Inr \<lparr>tc_QueryParamsResponse.params = v_params\<rparr>)"

definition toJSON_tc_QueryParamsResponse :: "host \<Rightarrow> tc_QueryParamsResponse \<Rightarrow> jsval result" where
  "toJSON_tc_QueryParamsResponse h message = objE
    [joptE ''params'' (toJSON_tc_Params h) (tc_QueryParamsResponse.params message)]"

record tc_QueryParamsResponse_Partial =
  params :: "tc_Params option"

definition fromPartial_tc_QueryParamsResponse :: "tc_QueryParamsResponse_Partial \<Rightarrow> tc_QueryParamsResponse" where
  "fromPartial_tc_QueryParamsResponse object = createBase_tc_QueryParamsResponse\<lparr>tc_QueryParamsResponse.params := map_option fromPartial_tc_Params (tc_QueryParamsResponse_Partial.params object)\<rparr>"

text \<open>A partial message that sets every field.\<close>

definition partial_of_tc_QueryParamsResponse :: "tc_QueryParamsResponse \<Rightarrow> tc_QueryParamsResponse_Partial" where
  "partial_of_tc_QueryParamsResponse m =
     \<lparr>tc_QueryParamsResponse_Partial.params = tc_QueryParamsResponse.params m\<rparr>"

definition wf_tc_QueryParamsResponse :: "('w, 'r) wire \<Rightarrow> tc_QueryParamsResponse \<Rightarrow> bool" where
  "wf_tc_QueryParamsResponse L m \<longleftrightarrow> pred_option (\<lambda>v. wf_tc_Params L v \<and> fits L (encode_tc_Params L v)) (tc_QueryParamsResponse.params m)"

definition wfj_tc_QueryParamsResponse :: "tc_QueryParamsResponse \<Rightarrow> bool" where
  "wfj_tc_QueryParamsResponse m \<longleftrightarrow> pred_option wfj_tc_Params (tc_QueryParamsResponse.params m)"

subsection \<open>QueryFetchProviderRequest\<close>

definition createBase_tc_QueryFetchProviderRequest :: QueryFetchProviderRequest where
  "createBase_tc_QueryFetchProviderRequest = \<lparr>QueryFetchProviderRequest.pubkey = [],
     QueryFetchProviderRequest.service = []\<rparr>"

definition encode_tc_QueryFetchProviderRequest :: "('w, 'r) wire \<Rightarrow> QueryFetchProviderRequest \<Rightarrow> 'w \<Rightarrow> 'w result" where
  "encode_tc_QueryFetchProviderRequest L message = seqE
    [whenE (QueryFetchProviderRequest.pubkey message \<noteq> []) (seqE [w_uint32 L 10, w_string L (QueryFetchProviderRequest.pubkey message)]),
     whenE (QueryFetchProviderRequest.service message \<noteq> []) (seqE [w_uint32 L 18, w_string L (QueryFetchProviderRequest.service message)])]"

definition tc_QueryFetchProviderRequest_switch :: "('w, 'r) wire \<Rightarrow> long_lib \<Rightarrow> u32 \<Rightarrow> QueryFetchProviderRequest \<Rightarrow> (QueryFetchProviderRequest, 'r) action" where
  "tc_QueryFetchProviderRequest_switch L G tag message = js_switch (drop_bit 3 tag)
    [(1, readf (r_string L) (\<lambda>v. message\<lparr>QueryFetchProviderRequest.pubkey := v\<rparr>)),
     (2, readf (r_string L) (\<lambda>v. message\<lparr>QueryFetchProviderRequest.service := v\<rparr>))]
    (skipType L tag message)"

definition decode_tc_QueryFetchProviderRequest :: "('w, 'r) wire \<Rightarrow> long_lib \<Rightarrow> 'r input \<Rightarrow> nat option \<Rightarrow> (QueryFetchProviderRequest \<times> 'r) result" where
  "decode_tc_QueryFetchProviderRequest L G = decode_msg L (tc_QueryFetchProviderRequest_switch L G) createBase_tc_QueryFetchProviderRequest"

definition fromJSON_tc_QueryFetchProviderRequest :: "host \<Rightarrow> jsval \<Rightarrow> QueryFetchProviderRequest result" where
  "fromJSON_tc_QueryFetchProviderRequest h object =
     bindE (fieldE object ''pubkey'' (stringE h) []) (\<lambda>v_pubkey.
     bindE (fieldE object ''service'' (stringE h) []) (\<lambda>v_service.
     Inr \<lparr>QueryFetchProviderRequest.pubkey = v_pubkey, QueryFetchProviderRequest.service = v_service\<rparr>))"

definition toJSON_tc_QueryFetchProviderRequest :: "host \<Rightarrow> QueryFetchProviderRequest \<Rightarrow> jsval result" where
  "toJSON_tc_QueryFetchProviderRequest h message = objE
    [jfieldE True ''pubkey'' (Inr (JString (QueryFetchProviderRequest.pubkey message))),
     jfieldE True ''service'' (Inr (JString (QueryFetchProviderRequest.service message)))]"

definition fromPartial_tc_QueryFetchProviderRequest :: "QueryFetchProviderRequest_Partial \<Rightarrow> QueryFetchProviderRequest" where
  "fromPartial_tc_QueryFetchProviderRequest object = createBase_tc_QueryFetchProviderRequest\<lparr>QueryFetchProviderRequest.pubkey := nullish (QueryFetchProviderRequest_Partial.pubkey object) [],
     QueryFetchProviderRequest.service := nullish (QueryFetchProviderRequest_Partial.service object) []\<rparr>"

subsection \<open>QueryFetchProviderResponse\<close>

definition createBase_tc_QueryFetchProviderResponse :: QueryFetchProviderResponse where
  "createBase_tc_QueryFetchProviderResponse = \<lparr>QueryFetchProviderResponse.provider = None\<rparr>"

definition encode_tc_QueryFetchProviderResponse :: "('w, 'r) wire \<Rightarrow> QueryFetchProviderResponse \<Rightarrow> 'w \<Rightarrow> 'w result" where
  "encode_tc_QueryFetchProviderResponse L message = seqE
    [someE (QueryFetchProviderResponse.provider message) (\<lambda>v. seqE [w_uint32 L 10, w_fork L, encode_tc_Provider L v, w_join L])]"

definition tc_QueryFetchProviderResponse_switch :: "('w, 'r) wire \<Rightarrow> long_lib \<Rightarrow> u32 \<Rightarrow> QueryFetchProviderResponse \<Rightarrow> (QueryFetchProviderResponse, 'r) action" where
  "tc_QueryFetchProviderResponse_switch L G tag message = js_switch (drop_bit 3 tag)
    [(1, readf (submsg L (decode_tc_Provider L G)) (\<lambda>v. message\<lparr>QueryFetchProviderResponse.provider := Some v\<rparr>))]
    (skipType L tag message)"

definition decode_tc_QueryFetchProviderResponse :: "('w, 'r) wire \<Rightarrow> long_lib \<Rightarrow> 'r input \<Rightarrow> nat option \<Rightarrow> (QueryFetchProviderResponse \<times> 'r) result" where
  "decode_tc_QueryFetchProviderResponse L G = decode_msg L (tc_QueryFetchProviderResponse_switch L G) createBase_tc_QueryFetchProviderResponse"

definition fromJSON_tc_QueryFetchProviderResponse :: "host \<Rightarrow> jsval \<Rightarrow> QueryFetchProviderResponse result" where
  "fromJSON_tc_QueryFetchProviderResponse h object =
     bindE (optE object ''provider'' (fromJSON_tc_Provider h)) (\<lambda>v_provider.
     Inr \<lparr>QueryFetchProviderResponse.provider = v_provider\<rparr>)"

definition toJSON_tc_QueryFetchProviderResponse :: "host \<Rightarrow> QueryFetchProviderResponse \<Rightarrow> jsval result" where
  "toJSON_tc_QueryFetchProviderResponse h message = objE
    [joptE ''provider'' (toJSON_tc_Provider h) (QueryFetchProviderResponse.provider message)]"

definition fromPartial_tc_QueryFetchProviderResponse :: "QueryFetchProviderResponse_Partial \<Rightarrow> QueryFetchProviderResponse" where
  "fromPartial_tc_QueryFetchProviderResponse object = createBase_tc_QueryFetchProviderResponse\<lparr>QueryFetchProviderResponse.provider := map_option fromPartial_tc_Provider (QueryFetchProviderResponse_Partial.provider object)\<rparr>"

subsection \<open>QueryAllProviderRequest\<close>

definition createBase_tc_QueryAllProviderRequest :: QueryAllProviderRequest where
  "createBase_tc_QueryAllProviderRequest = \<lparr>QueryAllProviderRequest.pagination = None\<rparr>"

definition encode_tc_QueryAllProviderRequest :: "('w, 'r) wire \<Rightarrow> QueryAllProviderRequest \<Rightarrow> 'w \<Rightarrow> 'w result" where
  "encode_tc_QueryAllProviderRequest L message = seqE
    [someE (QueryAllProviderRequest.pagination message) (\<lambda>v. seqE [w_uint32 L 10, w_fork L, encode_tc_PageRequest L v, w_join L])]"

definition tc_QueryAllProviderRequest_switch :: "('w, 'r) wire \<Rightarrow> long_lib \<Rightarrow> u32 \<Rightarrow> QueryAllProviderRequest \<Rightarrow> (QueryAllProviderRequest, 'r) action" where
  "tc_QueryAllProviderRequest_switch L G tag message = js_switch (drop_bit 3 tag)
    [(1, readf (submsg L (decode_tc_PageRequest L G)) (\<lambda>v. message\<lparr>QueryAllProviderRequest.pagination := Some v\<rparr>))]
    (skipType L tag message)"

definition decode_tc_QueryAllProviderRequest :: "('w, 'r) wire \<Rightarrow> long_lib \<Rightarrow> 'r input \<Rightarrow> nat option \<Rightarrow> (QueryAllProviderRequest \<times> 'r) result" where
  "decode_tc_QueryAllProviderRequest L G = decode_msg L (tc_QueryAllProviderRequest_switch L G) createBase_tc_QueryAllProviderRequest"

definition fromJSON_tc_QueryAllProviderRequest :: "host \<Rightarrow> jsval \<Rightarrow> QueryAllProviderRequest result" where
  "fromJSON_tc_QueryAllProviderRequest h object =
     bindE (optE object ''pagination'' (fromJSON_tc_PageRequest h)) (\<lambda>v_pagination.
     Inr \<lparr>QueryAllProviderRequest.pagination = v_pagination\<rparr>)"

definition toJSON_tc_QueryAllProviderRequest :: "host \<Rightarrow> QueryAllProviderRequest \<Rightarrow> jsval result" where
  "toJSON_tc_QueryAllProviderRequest h message = objE
    [joptE ''pagination'' (toJSON_tc_PageRequest h) (QueryAllProviderRequest.pagination message)]"

definition fromPartial_tc_QueryAllProviderRequest :: "QueryAllProviderRequest_Partial \<Rightarrow> QueryAllProviderRequest" where
  "fromPartial_tc_QueryAllProviderRequest object = createBase_tc_QueryAllProviderRequest\<lparr>QueryAllProviderRequest.pagination := map_option fromPartial_tc_PageRequest (QueryAllProviderRequest_Partial.pagination object)\<rparr>"

subsection \<open>QueryAllProviderResponse\<close>

definition createBase_tc_QueryAllProviderResponse :: QueryAllProviderResponse where
  "createBase_tc_QueryAllProviderResponse = \<lparr>QueryAllProviderResponse.provider = [],
     QueryAllProviderResponse.pagination = None\<rparr>"

definition encode_tc_QueryAllProviderResponse :: "('w, 'r) wire \<Rightarrow> QueryAllProviderResponse \<Rightarrow> 'w \<Rightarrow> 'w result" where
  "encode_tc_QueryAllProviderResponse L message = seqE
    [forE (\<lambda>v. seqE [w_uint32 L 10, w_fork L, encode_tc_Provider L v, w_join L]) (QueryAllProviderResponse.provider message),
     someE (QueryAllProviderResponse.pagination message) (\<lambda>v. seqE [w_uint32 L 18, w_fork L, encode_tc_PageResponse L v, w_join L])]"

definition tc_QueryAllProviderResponse_switch :: "('w, 'r) wire \<Rightarrow> long_lib \<Rightarrow> u32 \<Rightarrow> QueryAllProviderResponse \<Rightarrow> (QueryAllProviderResponse, 'r) action" where
  "tc_QueryAllProviderResponse_switch L G tag message = js_switch (drop_bit 3 tag)
    [(1, readf (submsg L (decode_tc_Provider L G)) (\<lambda>v. message\<lparr>QueryAllProviderResponse.provider := QueryAllProviderResponse.provider message @ [v]\<rparr>)),
     (2, readf (submsg L (decode_tc_PageResponse L G)) (\<lambda>v. message\<lparr>QueryAllProviderResponse.pagination := Some v\<rparr>))]
    (skipType L tag message)"

definition decode_tc_QueryAllProviderResponse :: "('w, 'r) wire \<Rightarrow> long_lib \<Rightarrow> 'r input \<Rightarrow> nat option \<Rightarrow> (QueryAllProviderResponse \<times> 'r) result" where
  "decode_tc_QueryAllProviderResponse L G = decode_msg L (tc_QueryAllProviderResponse_switch L G) createBase_tc_QueryAllProviderResponse"

definition fromJSON_tc_QueryAllProviderResponse :: "host \<Rightarrow> jsval \<Rightarrow> QueryAllProviderResponse result" where
  "fromJSON_tc_QueryAllProviderResponse h object =
     bindE (arrayE object ''provider'' (fromJSON_tc_Provider h)) (\<lambda>v_provider.
     bindE (optE object ''pagination'' (fromJSON_tc_PageResponse h)) (\<lambda>v_pagination.
     Inr \<lparr>QueryAllProviderResponse.provider = v_provider, QueryAllProviderResponse.pagination = v_pagination\<rparr>))"

definition toJSON_tc_QueryAllProviderResponse :: "host \<Rightarrow> QueryAllProviderResponse \<Rightarrow> jsval result" where
  "toJSON_tc_QueryAllProviderResponse h message = objE
    [jlistE ''provider'' (toJSON_tc_Provider h) (QueryAllProviderResponse.provider message),
     joptE ''pagination'' (toJSON_tc_PageResponse h) (QueryAllProviderResponse.pagination message)]"

definition fromPartial_tc_QueryAllProviderResponse :: "QueryAllProviderResponse_Partial \<Rightarrow> QueryAllProviderResponse" where
  "fromPartial_tc_QueryAllProviderResponse object = createBase_tc_QueryAllProviderResponse\<lparr>QueryAllProviderResponse.provider := partial_map fromPartial_tc_Provider (QueryAllProviderResponse_Partial.provider object),
     QueryAllProviderResponse.pagination := map_option fromPartial_tc_PageResponse (QueryAllProviderResponse_Partial.pagination object)\<rparr>"

subsection \<open>QueryFetchContractRequest\<close>

definition createBase_tc_QueryFetchContractRequest :: QueryFetchContractRequest where
  "createBase_tc_QueryFetchContractRequest = \<lparr>QueryFetchContractRequest.contractId = Num 0\<rparr>"

definition encode_tc_QueryFetchContractRequest :: "('w, 'r) wire \<Rightarrow> QueryFetchContractRequest \<Rightarrow> 'w \<Rightarrow> 'w result" where
  "encode_tc_QueryFetchContractRequest L message = seqE
    [whenE (QueryFetchContractRequest.contractId message \<noteq> Num 0) (seqE [w_uint32 L 8, w_uint64 L (QueryFetchContractRequest.contractId message)])]"

definition tc_QueryFetchContractRequest_switch :: "('w, 'r) wire \<Rightarrow> long_lib \<Rightarrow> u32 \<Rightarrow> QueryFetchContractRequest \<Rightarrow> (QueryFetchContractRequest, 'r) action" where
  "tc_QueryFetchContractRequest_switch L G tag message = js_switch (drop_bit 3 tag)
    [(1, readf (num64l G (r_uint64 L)) (\<lambda>v. message\<lparr>QueryFetchContractRequest.contractId := v\<rparr>))]
    (skipType L tag message)"

definition decode_tc_QueryFetchContractRequest :: "('w, 'r) wire \<Rightarrow> long_lib \<Rightarrow> 'r input \<Rightarrow> nat option \<Rightarrow> (QueryFetchContractRequest \<times> 'r) result" where
  "decode_tc_QueryFetchContractRequest L G = decode_msg L (tc_QueryFetchContractRequest_switch L G) createBase_tc_QueryFetchContractRequest"

definition fromJSON_tc_QueryFetchContractRequest :: "host \<Rightarrow> jsval \<Rightarrow> QueryFetchContractRequest result" where
  "fromJSON_tc_QueryFetchContractRequest h object =
     bindE (fieldE object ''contractId'' (numberE h) (Num 0)) (\<lambda>v_contractId.
     Inr \<lparr>QueryFetchContractRequest.contractId = v_contractId\<rparr>)"

definition toJSON_tc_QueryFetchContractRequest :: "host \<Rightarrow> QueryFetchContractRequest \<Rightarrow> jsval result" where
  "toJSON_tc_QueryFetchContractRequest h message = objE
    [jfieldE True ''contractId'' (Inr (JNumber (Math_round (QueryFetchContractRequest.contractId message))))]"

definition fromPartial_tc_QueryFetchContractRequest :: "QueryFetchContractRequest_Partial \<Rightarrow> QueryFetchContractRequest" where
  "fromPartial_tc_QueryFetchContractRequest object = createBase_tc_QueryFetchContractRequest\<lparr>QueryFetchContractRequest.contractId := nullish (QueryFetchContractRequest_Partial.contractId object) (Num 0)\<rparr>"

subsection \<open>QueryFetchContractResponse\<close>

definition createBase_tc_QueryFetchContractResponse :: QueryFetchContractResponse where
  "createBase_tc_QueryFetchContractResponse = \<lparr>QueryFetchContractResponse.contract = None\<rparr>"

definition encode_tc_QueryFetchContractResponse :: "('w, 'r) wire \<Rightarrow> QueryFetchContractResponse \<Rightarrow> 'w \<Rightarrow> 'w result" where
  "encode_tc_QueryFetchContractResponse L message = seqE
    [someE (QueryFetchContractResponse.contract message) (\<lambda>v. seqE [w_uint32 L 10, w_fork L, encode_tc_Contract L v, w_join L])]"

definition tc_QueryFetchContractResponse_switch :: "('w, 'r) wire \<Rightarrow> long_lib \<Rightarrow> u32 \<Rightarrow> QueryFetchContractResponse \<Rightarrow> (QueryFetchContractResponse, 'r) action" where
  "tc_QueryFetchContractResponse_switch L G tag message = js_switch (drop_bit 3 tag)
    [(1, readf (submsg L (decode_tc_Contract L G)) (\<lambda>v. message\<lparr>QueryFetchContractResponse.contract := Some v\<rparr>))]
    (skipType L tag message)"

definition decode_tc_QueryFetchContractResponse :: "('w, 'r) wire \<Rightarrow> long_lib \<Rightarrow> 'r input \<Rightarrow> nat option \<Rightarrow> (QueryFetchContractResponse \<times> 'r) result" where
  "decode_tc_QueryFetchContractResponse L G = decode_msg L (tc_QueryFetchContractResponse_switch L G) createBase_tc_QueryFetchContractResponse"

definition fromJSON_tc_QueryFetchContractResponse :: "host \<Rightarrow> jsval \<Rightarrow> QueryFetchContractResponse result" where
  "fromJSON_tc_QueryFetchContractResponse h object =
     bindE (optE object ''contract'' (fromJSON_tc_Contract h)) (\<lambda>v_contract.
     Inr \<lparr>QueryFetchContractResponse.contract = v_contract\<rparr>)"

definition toJSON_tc_QueryFetchContractResponse :: "host \<Rightarrow> QueryFetchContractResponse \<Rightarrow> jsval result" where
  "toJSON_tc_QueryFetchContractResponse h message = objE
    [joptE ''contract'' (toJSON_tc_Contract h) (QueryFetchContractResponse.contract message)]"

definition fromPartial_tc_QueryFetchContractResponse :: "QueryFetchContractResponse_Partial \<Rightarrow> QueryFetchContractResponse" where
  "fromPartial_tc_QueryFetchContractResponse object = createBase_tc_QueryFetchContractResponse\<lparr>QueryFetchContractResponse.contract := map_option fromPartial_tc_Contract (QueryFetchContractResponse_Partial.contract object)\<rparr>"

subsection \<open>QueryAllContractRequest\<close>

definition createBase_tc_QueryAllContractRequest :: QueryAllContractRequest where
  "createBase_tc_QueryAllContractRequest = \<lparr>QueryAllContractRequest.pagination = None\<rparr>"

definition encode_tc_QueryAllContractRequest :: "('w, 'r) wire \<Rightarrow> QueryAllContractRequest \<Rightarrow> 'w \<Rightarrow> 'w result" where
  "encode_tc_QueryAllContractRequest L message = seqE
    [someE (QueryAllContractRequest.pagination message) (\<lambda>v. seqE [w_uint32 L 10, w_fork L, encode_tc_PageRequest L v, w_join L])]"

definition tc_QueryAllContractRequest_switch :: "('w, 'r) wire \<Rightarrow> long_lib \<Rightarrow> u32 \<Rightarrow> QueryAllContractRequest \<Rightarrow> (QueryAllContractRequest, 'r) action" where
  "tc_QueryAllContractRequest_switch L G tag message = js_switch (drop_bit 3 tag)
    [(1, readf (submsg L (decode_tc_PageRequest L G)) (\<lambda>v. message\<lparr>QueryAllContractRequest.pagination := Some v\<rparr>))]
    (skipType L tag message)"

definition decode_tc_QueryAllContractRequest :: "('w, 'r) wire \<Rightarrow> long_lib \<Rightarrow> 'r input \<Rightarrow> nat option \<Rightarrow> (QueryAllContractRequest \<times> 'r) result" where
  "decode_tc_QueryAllContractRequest L G = decode_msg L (tc_QueryAllContractRequest_switch L G) createBase_tc_QueryAllContractRequest"

definition fromJSON_tc_QueryAllContractRequest :: "host \<Rightarrow> jsval \<Rightarrow> QueryAllContractRequest result" where
  "fromJSON_tc_QueryAllContractRequest h object =
     bindE (optE object ''pagination'' (fromJSON_tc_PageRequest h)) (\<lambda>v_pagination.
     Inr \<lparr>QueryAllContractRequest.pagination = v_pagination\<rparr>)"

definition toJSON_tc_QueryAllContractRequest :: "host \<Rightarrow> QueryAllContractRequest \<Rightarrow> jsval result" where
  "toJSON_tc_QueryAllContractRequest h message = objE
    [joptE ''pagination'' (toJSON_tc_PageRequest h) (QueryAllContractRequest.pagination message)]"

definition fromPartial_tc_QueryAllContractRequest :: "QueryAllContractRequest_Partial \<Rightarrow> QueryAllContractRequest" where
  "fromPartial_tc_QueryAllContractRequest object = createBase_tc_QueryAllContractRequest\<lparr>QueryAllContractRequest.pagination := map_option fromPartial_tc_PageRequest (QueryAllContractRequest_Partial.pagination object)\<rparr>"

subsection \<open>QueryAllContractResponse\<close>

definition createBase_tc_QueryAllContractResponse :: QueryAllContractResponse where
  "createBase_tc_QueryAllContractResponse = \<lparr>QueryAllContractResponse.contract = [],
     QueryAllContractResponse.pagination = None\<rparr>"

definition encode_tc_QueryAllContractResponse :: "('w, 'r) wire \<Rightarrow> QueryAllContractResponse \<Rightarrow> 'w \<Rightarrow> 'w result" where
  "encode_tc_QueryAllContractResponse L message = seqE
    [forE (\<lambda>v. seqE [w_uint32 L 10, w_fork L, encode_tc_Contract L v, w_join L]) (QueryAllContractResponse.contract message),
     someE (QueryAllContractResponse.pagination message) (\<lambda>v. seqE [w_uint32 L 18, w_fork L, encode_tc_PageResponse L v, w_join L])]"

definition tc_QueryAllContractResponse_switch :: "('w, 'r) wire \<Rightarrow> long_lib \<Rightarrow> u32 \<Rightarrow> QueryAllContractResponse \<Rightarrow> (QueryAllContractResponse, 'r) action" where
  "tc_QueryAllContractResponse_switch L G tag message = js_switch (drop_bit 3 tag)
    [(1, readf (submsg L (decode_tc_Contract L G)) (\<lambda>v. message\<lparr>QueryAllContractResponse.contract := QueryAllContractResponse.contract message @ [v]\<rparr>)),
     (2, readf (submsg L (decode_tc_PageResponse L G)) (\<lambda>v. message\<lparr>QueryAllContractResponse.pagination := Some v\<rparr>))]
    (skipType L tag message)"

definition decode_tc_QueryAllContractResponse :: "('w, 'r) wire \<Rightarrow> long_lib \<Rightarrow> 'r input \<Rightarrow> nat option \<Rightarrow> (QueryAllContractResponse \<times> 'r) result" where
  "decode_tc_QueryAllContractResponse L G = decode_msg L (tc_QueryAllContractResponse_switch L G) createBase_tc_QueryAllContractResponse"

definition fromJSON_tc_QueryAllContractResponse :: "host \<Rightarrow> jsval \<Rightarrow> QueryAllContractResponse result" where
  "fromJSON_tc_QueryAllContractResponse h object =
     bindE (arrayE object ''contract'' (fromJSON_tc_Contract h)) (\<lambda>v_contract.
     bindE (optE object ''pagination'' (fromJSON_tc_PageResponse h)) (\<lambda>v_pagination.
     Inr \<lparr>QueryAllContractResponse.contract = v_contract, QueryAllContractResponse.pagination = v_pagination\<rparr>))"

definition toJSON_tc_QueryAllContractResponse :: "host \<Rightarrow> QueryAllContractResponse \<Rightarrow> jsval result" where
  "toJSON_tc_QueryAllContractResponse h message = objE
    [jlistE ''contract'' (toJSON_tc_Contract h) (QueryAllContractResponse.contract message),
     joptE ''pagination'' (toJSON_tc_PageResponse h) (QueryAllContractResponse.pagination message)]"

definition fromPartial_tc_QueryAllContractResponse :: "QueryAllContractResponse_Partial \<Rightarrow> QueryAllContractResponse" where
  "fromPartial_tc_QueryAllContractResponse object = createBase_tc_QueryAllContractResponse\<lparr>QueryAllContractResponse.contract := partial_map fromPartial_tc_Contract (QueryAllContractResponse_Partial.contract object),
     QueryAllContractResponse.pagination := map_option fromPartial_tc_PageResponse (QueryAllContractResponse_Partial.pagination object)\<rparr>"

subsection \<open>QueryActiveContractRequest\<close>

definition createBase_tc_QueryActiveContractRequest :: QueryActiveContractRequest where
  "createBase_tc_QueryActiveContractRequest = \<lparr>QueryActiveContractRequest.provider = [],
     QueryActiveContractRequest.service = [],
     QueryActiveContractRequest.spender = []\<rparr>"

definition encode_tc_QueryActiveContractRequest :: "('w, 'r) wire \<Rightarrow> QueryActiveContractRequest \<Rightarrow> 'w \<Rightarrow> 'w result" where
  "encode_tc_QueryActiveContractRequest L message = seqE
    [whenE (QueryActiveContractRequest.provider message \<noteq> []) (seqE [w_uint32 L 10, w_string L (QueryActiveContractRequest.provider message)]),
     whenE (QueryActiveContractRequest.service message \<noteq> []) (seqE [w_uint32 L 18, w_string L (QueryActiveContractRequest.service message)]),
     whenE (QueryActiveContractRequest.spender message \<noteq> []) (seqE [w_uint32 L 26, w_string L (QueryActiveContractRequest.spender message)])]"

definition tc_QueryActiveContractRequest_switch :: "('w, 'r) wire \<Rightarrow> long_lib \<Rightarrow> u32 \<Rightarrow> QueryActiveContractRequest \<Rightarrow> (QueryActiveContractRequest, 'r) action" where
  "tc_QueryActiveContractRequest_switch L G tag message = js_switch (drop_bit 3 tag)
    [(1, readf (r_string L) (\<lambda>v. message\<lparr>QueryActiveContractRequest.provider := v\<rparr>)),
     (2, readf (r_string L) (\<lambda>v. message\<lparr>QueryActiveContractRequest.service := v\<rparr>)),
     (3, readf (r_string L) (\<lambda>v. message\<lparr>QueryActiveContractRequest.spender := v\<rparr>))]
    (skipType L tag message)"

definition decode_tc_QueryActiveContractRequest :: "('w, 'r) wire \<Rightarrow> long_lib \<Rightarrow> 'r input \<Rightarrow> nat option \<Rightarrow> (QueryActiveContractRequest \<times> 'r) result" where
  "decode_tc_QueryActiveContractRequest L G = decode_msg L (tc_QueryActiveContractRequest_switch L G) createBase_tc_QueryActiveContractRequest"

definition fromJSON_tc_QueryActiveContractRequest :: "host \<Rightarrow> jsval \<Rightarrow> QueryActiveContractRequest result" where
  "fromJSON_tc_QueryActiveContractRequest h object =
     bindE (fieldE object ''provider'' (stringE h) []) (\<lambda>v_provider.
     bindE (fieldE object ''service'' (stringE h) []) (\<lambda>v_service.
     bindE (fieldE object ''spender'' (stringE h) []) (\<lambda>v_spender.
     Inr \<lparr>QueryActiveContractRequest.provider = v_provider, QueryActiveContractRequest.service = v_service, QueryActiveContractRequest.spender = v_spender\<rparr>)))"

definition toJSON_tc_QueryActiveContractRequest :: "host \<Rightarrow> QueryActiveContractRequest \<Rightarrow> jsval result" where
  "toJSON_tc_QueryActiveContractRequest h message = objE
    [jfieldE True ''provider'' (Inr (JString (QueryActiveContractRequest.provider message))),
     jfieldE True ''service'' (Inr (JString (QueryActiveContractRequest.service message))),
     jfieldE True ''spender'' (Inr (JString (QueryActiveContractRequest.spender message)))]"

definition fromPartial_tc_QueryActiveContractRequest :: "QueryActiveContractRequest_Partial \<Rightarrow> QueryActiveContractRequest" where
  "fromPartial_tc_QueryActiveContractRequest object = createBase_tc_QueryActiveContractRequest\<lparr>QueryActiveContractRequest.provider := nullish (QueryActiveContractRequest_Partial.provider object) [],
     QueryActiveContractRequest.service := nullish (QueryActiveContractRequest_Partial.service object) [],
     QueryActiveContractRequest.spender := nullish (QueryActiveContractRequest_Partial.spender object) []\<rparr>"

subsection \<open>QueryActiveContractResponse\<close>

definition createBase_tc_QueryActiveContractResponse :: QueryActiveContractResponse where
  "createBase_tc_QueryActiveContractResponse = \<lparr>QueryActiveContractResponse.contract = None\<rparr>"

definition encode_tc_QueryActiveContractResponse :: "('w, 'r) wire \<Rightarrow> QueryActiveContractResponse \<Rightarrow> 'w \<Rightarrow> 'w result" where
  "encode_tc_QueryActiveContractResponse L message = seqE
    [someE (QueryActiveContractResponse.contract message) (\<lambda>v. seqE [w_uint32 L 10, w_fork L, encode_tc_Contract L v, w_join L])]"

definition tc_QueryActiveContractResponse_switch :: "('w, 'r) wire \<Rightarrow> long_lib \<Rightarrow> u32 \<Rightarrow> QueryActiveContractResponse \<Rightarrow> (QueryActiveContractResponse, 'r) action" where
  "tc_QueryActiveContractResponse_switch L G tag message = js_switch (drop_bit 3 tag)
    [(1, readf (submsg L (decode_tc_Contract L G)) (\<lambda>v. message\<lparr>QueryActiveContractResponse.contract := Some v\<rparr>))]
    (skipType L tag message)"

definition decode_tc_QueryActiveContractResponse :: "('w, 'r) wire \<Rightarrow> long_lib \<Rightarrow> 'r input \<Rightarrow> nat option \<Rightarrow> (QueryActiveContractResponse \<times> 'r) result" where
  "decode_tc_QueryActiveContractResponse L G = decode_msg L (tc_QueryActiveContractResponse_switch L G) createBase_tc_QueryActiveContractResponse"

definition fromJSON_tc_QueryActiveContractResponse :: "host \<Rightarrow> jsval \<Rightarrow> QueryActiveContractResponse result" where
  "fromJSON_tc_QueryActiveContractResponse h object =
     bindE (optE object ''contract'' (fromJSON_tc_Contract h)) (\<lambda>v_contract.
     Inr \<lparr>QueryActiveContractResponse.contract = v_contract\<rparr>)"

definition toJSON_tc_QueryActiveContractResponse :: "host \<Rightarrow> QueryActiveContractResponse \<Rightarrow> jsval result" where
  "toJSON_tc_QueryActiveContractResponse h message = objE
    [joptE ''contract'' (toJSON_tc_Contract h) (QueryActiveContractResponse.contract message)]"

definition fromPartial_tc_QueryActiveContractResponse :: "QueryActiveContractResponse_Partial \<Rightarrow> QueryActiveContractResponse" where
  "fromPartial_tc_QueryActiveContractResponse object = createBase_tc_QueryActiveContractResponse\<lparr>QueryActiveContractResponse.contract := map_option fromPartial_tc_Contract (QueryActiveContractResponse_Partial.contract object)\<rparr>"


section \<open>Encoding, decoding and JSON of these messages\<close>

lemma tc_QueryParamsRequest_eqs:
  "createBase_tc_QueryParamsRequest = createBase_QueryParamsRequest"
  "encode_tc_QueryParamsRequest L = encode_QueryParamsRequest L"
  "fromJSON_tc_QueryParamsRequest h = fromJSON_QueryParamsRequest h"
  "fromPartial_tc_QueryParamsRequest = fromPartial_QueryParamsRequest"
  by (simp_all add: fun_eq_iff createBase_tc_QueryParamsRequest_def createBase_QueryParamsRequest_def
      encode_tc_QueryParamsRequest_def encode_QueryParamsRequest_def
      fromJSON_tc_QueryParamsRequest_def fromJSON_QueryParamsRequest_def
      fromPartial_tc_QueryParamsRequest_def fromPartial_QueryParamsRequest_def)

sublocale long_wire_laws \<subseteq> tc_QueryParamsRequest_codec: message_codec L F out inp "encode_QueryParamsRequest L" "tc_QueryParamsRequest_switch L G" createBase_QueryParamsRequest "wf_QueryParamsRequest L"
proof unfold_locales
  show good: "good_sw (tc_QueryParamsRequest_switch L G)"
    unfolding tc_QueryParamsRequest_switch_def by (intro good_swI fwd_rules)
  fix m assume "wf_QueryParamsRequest L m"
  then show "codes (tc_QueryParamsRequest_switch L G) (encode_QueryParamsRequest L m) createBase_QueryParamsRequest m"
    unfolding encode_QueryParamsRequest_def wf_QueryParamsRequest_def
    by (cases m) (simp add: createBase_QueryParamsRequest_def codes_Nil [simplified])
qed

context long_wire_laws
begin

lemmas tc_QueryParamsRequest_roundtrip = tc_QueryParamsRequest_codec.roundtrip [folded decode_tc_QueryParamsRequest_def [unfolded tc_QueryParamsRequest_eqs(1)]]

lemmas tc_QueryParamsRequest_returns = tc_QueryParamsRequest_codec.decode_returns [folded decode_tc_QueryParamsRequest_def [unfolded tc_QueryParamsRequest_eqs(1)]]

end

interpretation tc_QueryParamsRequest_json: message_json toJSON_tc_QueryParamsRequest fromJSON_tc_QueryParamsRequest wfj_QueryParamsRequest
proof unfold_locales
  fix h m
  show "json_rt (toJSON_tc_QueryParamsRequest h) (fromJSON_tc_QueryParamsRequest h) m"
    by (cases m) (simp add: json_rt_def toJSON_tc_QueryParamsRequest_def fromJSON_tc_QueryParamsRequest_def objE_rules(1))
qed

lemma fromPartial_partial_of_tc_QueryParamsResponse [simp]: "fromPartial_tc_QueryParamsResponse (partial_of_tc_QueryParamsResponse m) = m"
  by (simp add: fromPartial_tc_QueryParamsResponse_def partial_of_tc_QueryParamsResponse_def createBase_tc_QueryParamsResponse_def partial_map_def option.map_comp o_def option.map_ident)

lemma tc_QueryParamsResponse_tags:
  "tc_QueryParamsResponse_switch L G 10 m = readf (submsg L (decode_tc_Params L G)) (\<lambda>v. m\<lparr>tc_QueryParamsResponse.params := Some v\<rparr>)"
  by (simp_all add: tc_QueryParamsResponse_switch_def)

sublocale long_wire_laws \<subseteq> tc_QueryParamsResponse_codec: message_codec L F out inp "encode_tc_QueryParamsResponse L" "tc_QueryParamsResponse_switch L G" createBase_tc_QueryParamsResponse "wf_tc_QueryParamsResponse L"
proof unfold_locales
  show good: "good_sw (tc_QueryParamsResponse_switch L G)"
    unfolding tc_QueryParamsResponse_switch_def by (intro good_swI fwd_rules)
  fix m assume "wf_tc_QueryParamsResponse L m"
  then show "codes (tc_QueryParamsResponse_switch L G) (encode_tc_QueryParamsResponse L m) createBase_tc_QueryParamsResponse m"
    unfolding encode_tc_QueryParamsResponse_def wf_tc_QueryParamsResponse_def
    by (-)
      (rule codes_Cons codes_Nil [OF tc_QueryParamsResponse.equality] codec_rules
        codes_some [where tag = 10 and u = tc_QueryParamsResponse.params_update and op = "submsg L (decode_tc_Params L G)", OF good]
      | assumption | (simp add: tc_QueryParamsResponse_tags createBase_tc_QueryParamsResponse_def; fail))+
qed

context long_wire_laws
begin

lemmas tc_QueryParamsResponse_roundtrip = tc_QueryParamsResponse_codec.roundtrip [folded decode_tc_QueryParamsResponse_def]

lemmas tc_QueryParamsResponse_returns = tc_QueryParamsResponse_codec.decode_returns [folded decode_tc_QueryParamsResponse_def]

end

interpretation tc_QueryParamsResponse_json: message_json toJSON_tc_QueryParamsResponse fromJSON_tc_QueryParamsResponse wfj_tc_QueryParamsResponse
proof unfold_locales
  fix h m
  assume "wfj_tc_QueryParamsResponse m"
  then show "json_rt (toJSON_tc_QueryParamsResponse h) (fromJSON_tc_QueryParamsResponse h) m"
    unfolding toJSON_tc_QueryParamsResponse_def fromJSON_tc_QueryParamsResponse_def wfj_tc_QueryParamsResponse_def
    by (-) (rule json_rtI json_rules | assumption | (simp; fail))+
qed

lemma tc_QueryFetchProviderRequest_eqs:
  "createBase_tc_QueryFetchProviderRequest = createBase_QueryFetchProviderRequest"
  "encode_tc_QueryFetchProviderRequest L = encode_QueryFetchProviderRequest L"
  "fromJSON_tc_QueryFetchProviderRequest h = fromJSON_QueryFetchProviderRequest h"
  "fromPartial_tc_QueryFetchProviderRequest = fromPartial_QueryFetchProviderRequest"
  by (simp_all add: fun_eq_iff createBase_tc_QueryFetchProviderRequest_def createBase_QueryFetchProviderRequest_def
      encode_tc_QueryFetchProviderRequest_def encode_QueryFetchProviderRequest_def
      fromJSON_tc_QueryFetchProviderRequest_def fromJSON_QueryFetchProviderRequest_def
      fromPartial_tc_QueryFetchProviderRequest_def fromPartial_QueryFetchProviderRequest_def)

lemma tc_QueryFetchProviderRequest_tags:
  "tc_QueryFetchProviderRequest_switch L G 10 m = readf (r_string L) (\<lambda>v. m\<lparr>QueryFetchProviderRequest.pubkey := v\<rparr>)"
  "tc_QueryFetchProviderRequest_switch L G 18 m = readf (r_string L) (\<lambda>v. m\<lparr>QueryFetchProviderRequest.service := v\<rparr>)"
  by (simp_all add: tc_QueryFetchProviderRequest_switch_def)

sublocale long_wire_laws \<subseteq> tc_QueryFetchProviderRequest_codec: message_codec L F out inp "encode_QueryFetchProviderRequest L" "tc_QueryFetchProviderRequest_switch L G" createBase_QueryFetchProviderRequest "wf_QueryFetchProviderRequest L"
proof unfold_locales
  show good: "good_sw (tc_QueryFetchProviderRequest_switch L G)"
    unfolding tc_QueryFetchProviderRequest_switch_def by (intro good_swI fwd_rules)
  fix m assume "wf_QueryFetchProviderRequest L m"
  then show "codes (tc_QueryFetchProviderRequest_switch L G) (encode_QueryFetchProviderRequest L m) createBase_QueryFetchProviderRequest m"
    unfolding encode_QueryFetchProviderRequest_def wf_QueryFetchProviderRequest_def
    by (elim conjE)
      (rule codes_Cons codes_Nil [OF QueryFetchProviderRequest.equality] codec_rules
        codes_when [where tag = 10 and u = QueryFetchProviderRequest.pubkey_update and op = "r_string L", OF good]
        codes_when [where tag = 18 and u = QueryFetchProviderRequest.service_update and op = "r_string L", OF good]
      | assumption | (simp add: tc_QueryFetchProviderRequest_tags createBase_QueryFetchProviderRequest_def; fail))+
qed

context long_wire_laws
begin

lemmas tc_QueryFetchProviderRequest_roundtrip = tc_QueryFetchProviderRequest_codec.roundtrip [folded decode_tc_QueryFetchProviderRequest_def [unfolded tc_QueryFetchProviderRequest_eqs(1)]]

lemmas tc_QueryFetchProviderRequest_returns = tc_QueryFetchProviderRequest_codec.decode_returns [folded decode_tc_QueryFetchProviderRequest_def [unfolded tc_QueryFetchProviderRequest_eqs(1)]]

lemma tc_QueryFetchProviderRequest_interop: "interoperates L inp (wf_QueryFetchProviderRequest L) (encode_QueryFetchProviderRequest L) (decode_QueryFetchProviderRequest L) (encode_tc_QueryFetchProviderRequest L) (decode_tc_QueryFetchProviderRequest L G)"
  using QueryFetchProviderRequest_roundtrip tc_QueryFetchProviderRequest_roundtrip by (simp add: interoperates_def tc_QueryFetchProviderRequest_eqs(2))

end

interpretation tc_QueryFetchProviderRequest_json: message_json toJSON_tc_QueryFetchProviderRequest fromJSON_tc_QueryFetchProviderRequest wfj_QueryFetchProviderRequest
proof unfold_locales
  fix h m
  assume "wfj_QueryFetchProviderRequest m"
  then show "json_rt (toJSON_tc_QueryFetchProviderRequest h) (fromJSON_tc_QueryFetchProviderRequest h) m"
    unfolding toJSON_tc_QueryFetchProviderRequest_def fromJSON_tc_QueryFetchProviderRequest_def wfj_QueryFetchProviderRequest_def
    by (-) (rule json_rtI json_rules | assumption | (simp; fail))+
qed

lemma tc_QueryFetchProviderResponse_eqs:
  "createBase_tc_QueryFetchProviderResponse = createBase_QueryFetchProviderResponse"
  "encode_tc_QueryFetchProviderResponse L = encode_QueryFetchProviderResponse L"
  "fromJSON_tc_QueryFetchProviderResponse h = fromJSON_QueryFetchProviderResponse h"
  "fromPartial_tc_QueryFetchProviderResponse = fromPartial_QueryFetchProviderResponse"
  by (simp_all add: fun_eq_iff createBase_tc_QueryFetchProviderResponse_def createBase_QueryFetchProviderResponse_def
      encode_tc_QueryFetchProviderResponse_def encode_QueryFetchProviderResponse_def
      fromJSON_tc_QueryFetchProviderResponse_def fromJSON_QueryFetchProviderResponse_def
      fromPartial_tc_QueryFetchProviderResponse_def fromPartial_QueryFetchProviderResponse_def tc_Provider_eqs)

lemma tc_QueryFetchProviderResponse_tags:
  "tc_QueryFetchProviderResponse_switch L G 10 m = readf (submsg L (decode_tc_Provider L G)) (\<lambda>v. m\<lparr>QueryFetchProviderResponse.provider := Some v\<rparr>)"
  by (simp_all add: tc_QueryFetchProviderResponse_switch_def)

sublocale long_wire_laws \<subseteq> tc_QueryFetchProviderResponse_codec: message_codec L F out inp "encode_QueryFetchProviderResponse L" "tc_QueryFetchProviderResponse_switch L G" createBase_QueryFetchProviderResponse "wf_QueryFetchProviderResponse L"
proof unfold_locales
  show good: "good_sw (tc_QueryFetchProviderResponse_switch L G)"
    unfolding tc_QueryFetchProviderResponse_switch_def by (intro good_swI fwd_rules)
  fix m assume "wf_QueryFetchProviderResponse L m"
  then show "codes (tc_QueryFetchProviderResponse_switch L G) (encode_QueryFetchProviderResponse L m) createBase_QueryFetchProviderResponse m"
    unfolding encode_QueryFetchProviderResponse_def wf_QueryFetchProviderResponse_def
    by (-)
      (rule codes_Cons codes_Nil [OF QueryFetchProviderResponse.equality] codec_rules
        codes_some [where tag = 10 and u = QueryFetchProviderResponse.provider_update and op = "submsg L (decode_tc_Provider L G)", OF good]
      | assumption | (simp add: tc_QueryFetchProviderResponse_tags createBase_QueryFetchProviderResponse_def; fail))+
qed

context long_wire_laws
begin

lemmas tc_QueryFetchProviderResponse_roundtrip = tc_QueryFetchProviderResponse_codec.roundtrip [folded decode_tc_QueryFetchProviderResponse_def [unfolded tc_QueryFetchProviderResponse_eqs(1)]]

lemmas tc_QueryFetchProviderResponse_returns = tc_QueryFetchProviderResponse_codec.decode_returns [folded decode_tc_QueryFetchProviderResponse_def [unfolded tc_QueryFetchProviderResponse_eqs(1)]]

lemma tc_QueryFetchProviderResponse_interop: "interoperates L inp (wf_QueryFetchProviderResponse L) (encode_QueryFetchProviderResponse L) (decode_QueryFetchProviderResponse L) (encode_tc_QueryFetchProviderResponse L) (decode_tc_QueryFetchProviderResponse L G)"
  using QueryFetchProviderResponse_roundtrip tc_QueryFetchProviderResponse_roundtrip by (simp add: interoperates_def tc_QueryFetchProviderResponse_eqs(2))

end

interpretation tc_QueryFetchProviderResponse_json: message_json toJSON_tc_QueryFetchProviderResponse fromJSON_tc_QueryFetchProviderResponse wfj_QueryFetchProviderResponse
proof unfold_locales
  fix h m
  assume "wfj_QueryFetchProviderResponse m"
  then show "json_rt (toJSON_tc_QueryFetchProviderResponse h) (fromJSON_tc_QueryFetchProviderResponse h) m"
    unfolding toJSON_tc_QueryFetchProviderResponse_def fromJSON_tc_QueryFetchProviderResponse_def wfj_QueryFetchProviderResponse_def
    by (-) (rule json_rtI json_rules | assumption | (simp; fail))+
qed

lemma tc_QueryAllProviderRequest_eqs:
  "createBase_tc_QueryAllProviderRequest = createBase_QueryAllProviderRequest"
  "encode_tc_QueryAllProviderRequest L = encode_QueryAllProviderRequest L"
  "fromJSON_tc_QueryAllProviderRequest h = fromJSON_QueryAllProviderRequest h"
  "fromPartial_tc_QueryAllProviderRequest = fromPartial_QueryAllProviderRequest"
  by (simp_all add: fun_eq_iff createBase_tc_QueryAllProviderRequest_def createBase_QueryAllProviderRequest_def
      encode_tc_QueryAllProviderRequest_def encode_QueryAllProviderRequest_def
      fromJSON_tc_QueryAllProviderRequest_def fromJSON_QueryAllProviderRequest_def
      fromPartial_tc_QueryAllProviderRequest_def fromPartial_QueryAllProviderRequest_def tc_PageRequest_eqs)

lemma tc_QueryAllProviderRequest_tags:
  "tc_QueryAllProviderRequest_switch L G 10 m = readf (submsg L (decode_tc_PageRequest L G)) (\<lambda>v. m\<lparr>QueryAllProviderRequest.pagination := Some v\<rparr>)"
  by (simp_all add: tc_QueryAllProviderRequest_switch_def)

sublocale long_wire_laws \<subseteq> tc_QueryAllProviderRequest_codec: message_codec L F out inp "encode_QueryAllProviderRequest L" "tc_QueryAllProviderRequest_switch L G" createBase_QueryAllProviderRequest "wf_QueryAllProviderRequest L"
proof unfold_locales
  show good: "good_sw (tc_QueryAllProviderRequest_switch L G)"
    unfolding tc_QueryAllProviderRequest_switch_def by (intro good_swI fwd_rules)
  fix m assume "wf_QueryAllProviderRequest L m"
  then show "codes (tc_QueryAllProviderRequest_switch L G) (encode_QueryAllProviderRequest L m) createBase_QueryAllProviderRequest m"
    unfolding encode_QueryAllProviderRequest_def wf_QueryAllProviderRequest_def
    by (-)
      (rule codes_Cons codes_Nil [OF QueryAllProviderRequest.equality] codec_rules
        codes_some [where tag = 10 and u = QueryAllProviderRequest.pagination_update and op = "submsg L (decode_tc_PageRequest L G)", OF good]
      | assumption | (simp add: tc_QueryAllProviderRequest_tags createBase_QueryAllProviderRequest_def; fail))+
qed

context long_wire_laws
begin

lemmas tc_QueryAllProviderRequest_roundtrip = tc_QueryAllProviderRequest_codec.roundtrip [folded decode_tc_QueryAllProviderRequest_def [unfolded tc_QueryAllProviderRequest_eqs(1)]]

lemmas tc_QueryAllProviderRequest_returns = tc_QueryAllProviderRequest_codec.decode_returns [folded decode_tc_QueryAllProviderRequest_def [unfolded tc_QueryAllProviderRequest_eqs(1)]]

lemma tc_QueryAllProviderRequest_interop: "interoperates L inp (wf_QueryAllProviderRequest L) (encode_QueryAllProviderRequest L) (decode_QueryAllProviderRequest L) (encode_tc_QueryAllProviderRequest L) (decode_tc_QueryAllProviderRequest L G)"
  using QueryAllProviderRequest_roundtrip tc_QueryAllProviderRequest_roundtrip by (simp add: interoperates_def tc_QueryAllProviderRequest_eqs(2))

end

interpretation tc_QueryAllProviderRequest_json: message_json toJSON_tc_QueryAllProviderRequest fromJSON_tc_QueryAllProviderRequest wfj_QueryAllProviderRequest
proof unfold_locales
  fix h m
  assume "wfj_QueryAllProviderRequest m"
  then show "json_rt (toJSON_tc_QueryAllProviderRequest h) (fromJSON_tc_QueryAllProviderRequest h) m"
    unfolding toJSON_tc_QueryAllProviderRequest_def fromJSON_tc_QueryAllProviderRequest_def wfj_QueryAllProviderRequest_def
    by (-) (rule json_rtI json_rules | assumption | (simp; fail))+
qed

lemma tc_QueryAllProviderResponse_eqs:
  "createBase_tc_QueryAllProviderResponse = createBase_QueryAllProviderResponse"
  "encode_tc_QueryAllProviderResponse L = encode_QueryAllProviderResponse L"
  "fromJSON_tc_QueryAllProviderResponse h = fromJSON_QueryAllProviderResponse h"
  "fromPartial_tc_QueryAllProviderResponse = fromPartial_QueryAllProviderResponse"
  by (simp_all add: fun_eq_iff createBase_tc_QueryAllProviderResponse_def createBase_QueryAllProviderResponse_def
      encode_tc_QueryAllProviderResponse_def encode_QueryAllProviderResponse_def
      fromJSON_tc_QueryAllProviderResponse_def fromJSON_QueryAllProviderResponse_def
      fromPartial_tc_QueryAllProviderResponse_def fromPartial_QueryAllProviderResponse_def tc_PageResponse_eqs tc_Provider_eqs)

lemma tc_QueryAllProviderResponse_tags:
  "tc_QueryAllProviderResponse_switch L G 10 m = readf (submsg L (decode_tc_Provider L G)) (\<lambda>v. m\<lparr>QueryAllProviderResponse.provider := QueryAllProviderResponse.provider m @ [v]\<rparr>)"
  "tc_QueryAllProviderResponse_switch L G 18 m = readf (submsg L (decode_tc_PageResponse L G)) (\<lambda>v. m\<lparr>QueryAllProviderResponse.pagination := Some v\<rparr>)"
  by (simp_all add: tc_QueryAllProviderResponse_switch_def)

sublocale long_wire_laws \<subseteq> tc_QueryAllProviderResponse_codec: message_codec L F out inp "encode_QueryAllProviderResponse L" "tc_QueryAllProviderResponse_switch L G" createBase_QueryAllProviderResponse "wf_QueryAllProviderResponse L"
proof unfold_locales
  show good: "good_sw (tc_QueryAllProviderResponse_switch L G)"
    unfolding tc_QueryAllProviderResponse_switch_def by (intro good_swI fwd_rules)
  fix m assume "wf_QueryAllProviderResponse L m"
  then show "codes (tc_QueryAllProviderResponse_switch L G) (encode_QueryAllProviderResponse L m) createBase_QueryAllProviderResponse m"
    unfolding encode_QueryAllProviderResponse_def wf_QueryAllProviderResponse_def
    by (elim conjE)
      (rule codes_Cons codes_Nil [OF QueryAllProviderResponse.equality] codec_rules
        codes_for [where tag = 10 and u = QueryAllProviderResponse.provider_update and op = "submsg L (decode_tc_Provider L G)", OF good]
        codes_some [where tag = 18 and u = QueryAllProviderResponse.pagination_update and op = "submsg L (decode_tc_PageResponse L G)", OF good]
      | assumption | (simp add: tc_QueryAllProviderResponse_tags createBase_QueryAllProviderResponse_def; fail))+
qed

context long_wire_laws
begin

lemmas tc_QueryAllProviderResponse_roundtrip = tc_QueryAllProviderResponse_codec.roundtrip [folded decode_tc_QueryAllProviderResponse_def [unfolded tc_QueryAllProviderResponse_eqs(1)]]

lemmas tc_QueryAllProviderResponse_returns = tc_QueryAllProviderResponse_codec.decode_returns [folded decode_tc_QueryAllProviderResponse_def [unfolded tc_QueryAllProviderResponse_eqs(1)]]

lemma tc_QueryAllProviderResponse_interop: "interoperates L inp (wf_QueryAllProviderResponse L) (encode_QueryAllProviderResponse L) (decode_QueryAllProviderResponse L) (encode_tc_QueryAllProviderResponse L) (decode_tc_QueryAllProviderResponse L G)"
  using QueryAllProviderResponse_roundtrip tc_QueryAllProviderResponse_roundtrip by (simp add: interoperates_def tc_QueryAllProviderResponse_eqs(2))

end

interpretation tc_QueryAllProviderResponse_json: message_json toJSON_tc_QueryAllProviderResponse fromJSON_tc_QueryAllProviderResponse wfj_QueryAllProviderResponse
proof unfold_locales
  fix h m
  assume "wfj_QueryAllProviderResponse m"
  then show "json_rt (toJSON_tc_QueryAllProviderResponse h) (fromJSON_tc_QueryAllProviderResponse h) m"
    unfolding toJSON_tc_QueryAllProviderResponse_def fromJSON_tc_QueryAllProviderResponse_def wfj_QueryAllProviderResponse_def
    by (elim conjE) (rule json_rtI json_rules | assumption | (simp; fail))+
qed

lemma tc_QueryFetchContractRequest_eqs:
  "createBase_tc_QueryFetchContractRequest = createBase_QueryFetchContractRequest"
  "encode_tc_QueryFetchContractRequest L = encode_QueryFetchContractRequest L"
  "fromJSON_tc_QueryFetchContractRequest h = fromJSON_QueryFetchContractRequest h"
  "fromPartial_tc_QueryFetchContractRequest = fromPartial_QueryFetchContractRequest"
  by (simp_all add: fun_eq_iff createBase_tc_QueryFetchContractRequest_def createBase_QueryFetchContractRequest_def
      encode_tc_QueryFetchContractRequest_def encode_QueryFetchContractRequest_def
      fromJSON_tc_QueryFetchContractRequest_def fromJSON_QueryFetchContractRequest_def
      fromPartial_tc_QueryFetchContractRequest_def fromPartial_QueryFetchContractRequest_def)

lemma tc_QueryFetchContractRequest_tags:
  "tc_QueryFetchContractRequest_switch L G 8 m = readf (num64l G (r_uint64 L)) (\<lambda>v. m\<lparr>QueryFetchContractRequest.contractId := v\<rparr>)"
  by (simp_all add: tc_QueryFetchContractRequest_switch_def)

sublocale long_wire_laws \<subseteq> tc_QueryFetchContractRequest_codec: message_codec L F out inp "encode_QueryFetchContractRequest L" "tc_QueryFetchContractRequest_switch L G" createBase_QueryFetchContractRequest "wf_QueryFetchContractRequest L"
proof unfold_locales
  show good: "good_sw (tc_QueryFetchContractRequest_switch L G)"
    unfolding tc_QueryFetchContractRequest_switch_def by (intro good_swI fwd_rules)
  fix m assume "wf_QueryFetchContractRequest L m"
  then show "codes (tc_QueryFetchContractRequest_switch L G) (encode_QueryFetchContractRequest L m) createBase_QueryFetchContractRequest m"
    unfolding encode_QueryFetchContractRequest_def wf_QueryFetchContractRequest_def
    by (-)
      (rule codes_Cons codes_Nil [OF QueryFetchContractRequest.equality] codec_rules
        codes_when [where tag = 8 and u = QueryFetchContractRequest.contractId_update and op = "num64l G (r_uint64 L)", OF good]
      | assumption | (simp add: tc_QueryFetchContractRequest_tags createBase_QueryFetchContractRequest_def; fail))+
qed

context long_wire_laws
begin

lemmas tc_QueryFetchContractRequest_roundtrip = tc_QueryFetchContractRequest_codec.roundtrip [folded decode_tc_QueryFetchContractRequest_def [unfolded tc_QueryFetchContractRequest_eqs(1)]]

lemmas tc_QueryFetchContractRequest_returns = tc_QueryFetchContractRequest_codec.decode_returns [folded decode_tc_QueryFetchContractRequest_def [unfolded tc_QueryFetchContractRequest_eqs(1)]]

lemma tc_QueryFetchContractRequest_interop: "interoperates L inp (wf_QueryFetchContractRequest L) (encode_QueryFetchContractRequest L) (decode_QueryFetchContractRequest L) (encode_tc_QueryFetchContractRequest L) (decode_tc_QueryFetchContractRequest L G)"
  using QueryFetchContractRequest_roundtrip tc_QueryFetchContractRequest_roundtrip by (simp add: interoperates_def tc_QueryFetchContractRequest_eqs(2))

end

interpretation tc_QueryFetchContractRequest_json: message_json toJSON_tc_QueryFetchContractRequest fromJSON_tc_QueryFetchContractRequest wfj_QueryFetchContractRequest
proof unfold_locales
  fix h m
  assume "wfj_QueryFetchContractRequest m"
  then show "json_rt (toJSON_tc_QueryFetchContractRequest h) (fromJSON_tc_QueryFetchContractRequest h) m"
    unfolding toJSON_tc_QueryFetchContractRequest_def fromJSON_tc_QueryFetchContractRequest_def wfj_QueryFetchContractRequest_def
    by (-) (rule json_rtI json_rules | assumption | (simp; fail))+
qed

lemma tc_QueryFetchContractResponse_eqs:
  "createBase_tc_QueryFetchContractResponse = createBase_QueryFetchContractResponse"
  "encode_tc_QueryFetchContractResponse L = encode_QueryFetchContractResponse L"
  "fromJSON_tc_QueryFetchContractResponse h = fromJSON_QueryFetchContractResponse h"
  "fromPartial_tc_QueryFetchContractResponse = fromPartial_QueryFetchContractResponse"
  by (simp_all add: fun_eq_iff createBase_tc_QueryFetchContractResponse_def createBase_QueryFetchContractResponse_def
      encode_tc_QueryFetchContractResponse_def encode_QueryFetchContractResponse_def
      fromJSON_tc_QueryFetchContractResponse_def fromJSON_QueryFetchContractResponse_def
      fromPartial_tc_QueryFetchContractResponse_def fromPartial_QueryFetchContractResponse_def tc_Contract_eqs)

lemma tc_QueryFetchContractResponse_tags:
  "tc_QueryFetchContractResponse_switch L G 10 m = readf (submsg L (decode_tc_Contract L G)) (\<lambda>v. m\<lparr>QueryFetchContractResponse.contract := Some v\<rparr>)"
  by (simp_all add: tc_QueryFetchContractResponse_switch_def)

sublocale long_wire_laws \<subseteq> tc_QueryFetchContractResponse_codec: message_codec L F out inp "encode_QueryFetchContractResponse L" "tc_QueryFetchContractResponse_switch L G" createBase_QueryFetchContractResponse "wf_QueryFetchContractResponse L"
proof unfold_locales
  show good: "good_sw (tc_QueryFetchContractResponse_switch L G)"
    unfolding tc_QueryFetchContractResponse_switch_def by (intro good_swI fwd_rules)
  fix m assume "wf_QueryFetchContractResponse L m"
  then show "codes (tc_QueryFetchContractResponse_switch L G) (encode_QueryFetchContractResponse L m) createBase_QueryFetchContractResponse m"
    unfolding encode_QueryFetchContractResponse_def wf_QueryFetchContractResponse_def
    by (-)
      (rule codes_Cons codes_Nil [OF QueryFetchContractResponse.equality] codec_rules
        codes_some [where tag = 10 and u = QueryFetchContractResponse.contract_update and op = "submsg L (decode_tc_Contract L G)", OF good]
      | assumption | (simp add: tc_QueryFetchContractResponse_tags createBase_QueryFetchContractResponse_def; fail))+
qed

context long_wire_laws
begin

lemmas tc_QueryFetchContractResponse_roundtrip = tc_QueryFetchContractResponse_codec.roundtrip [folded decode_tc_QueryFetchContractResponse_def [unfolded tc_QueryFetchContractResponse_eqs(1)]]

lemmas tc_QueryFetchContractResponse_returns = tc_QueryFetchContractResponse_codec.decode_returns [folded decode_tc_QueryFetchContractResponse_def [unfolded tc_QueryFetchContractResponse_eqs(1)]]

lemma tc_QueryFetchContractResponse_interop: "interoperates L inp (wf_QueryFetchContractResponse L) (encode_QueryFetchContractResponse L) (decode_QueryFetchContractResponse L) (encode_tc_QueryFetchContractResponse L) (decode_tc_QueryFetchContractResponse L G)"
  using QueryFetchContractResponse_roundtrip tc_QueryFetchContractResponse_roundtrip by (simp add: interoperates_def tc_QueryFetchContractResponse_eqs(2))

end

interpretation tc_QueryFetchContractResponse_json: message_json toJSON_tc_QueryFetchContractResponse fromJSON_tc_QueryFetchContractResponse wfj_QueryFetchContractResponse
proof unfold_locales
  fix h m
  assume "wfj_QueryFetchContractResponse m"
  then show "json_rt (toJSON_tc_QueryFetchContractResponse h) (fromJSON_tc_QueryFetchContractResponse h) m"
    unfolding toJSON_tc_QueryFetchContractResponse_def fromJSON_tc_QueryFetchContractResponse_def wfj_QueryFetchContractResponse_def
    by (-) (rule json_rtI json_rules | assumption | (simp; fail))+
qed

lemma tc_QueryAllContractRequest_eqs:
  "createBase_tc_QueryAllContractRequest = createBase_QueryAllContractRequest"
  "encode_tc_QueryAllContractRequest L = encode_QueryAllContractRequest L"
  "fromJSON_tc_QueryAllContractRequest h = fromJSON_QueryAllContractRequest h"
  "fromPartial_tc_QueryAllContractRequest = fromPartial_QueryAllContractRequest"
  by (simp_all add: fun_eq_iff createBase_tc_QueryAllContractRequest_def createBase_QueryAllContractRequest_def
      encode_tc_QueryAllContractRequest_def encode_QueryAllContractRequest_def
      fromJSON_tc_QueryAllContractRequest_def fromJSON_QueryAllContractRequest_def
      fromPartial_tc_QueryAllContractRequest_def fromPartial_QueryAllContractRequest_def tc_PageRequest_eqs)

lemma tc_QueryAllContractRequest_tags:
  "tc_QueryAllContractRequest_switch L G 10 m = readf (submsg L (decode_tc_PageRequest L G)) (\<lambda>v. m\<lparr>QueryAllContractRequest.pagination := Some v\<rparr>)"
  by (simp_all add: tc_QueryAllContractRequest_switch_def)

sublocale long_wire_laws \<subseteq> tc_QueryAllContractRequest_codec: message_codec L F out inp "encode_QueryAllContractRequest L" "tc_QueryAllContractRequest_switch L G" createBase_QueryAllContractRequest "wf_QueryAllContractRequest L"
proof unfold_locales
  show good: "good_sw (tc_QueryAllContractRequest_switch L G)"
    unfolding tc_QueryAllContractRequest_switch_def by (intro good_swI fwd_rules)
  fix m assume "wf_QueryAllContractRequest L m"
  then show "codes (tc_QueryAllContractRequest_switch L G) (encode_QueryAllContractRequest L m) createBase_QueryAllContractRequest m"
    unfolding encode_QueryAllContractRequest_def wf_QueryAllContractRequest_def
    by (-)
      (rule codes_Cons codes_Nil [OF QueryAllContractRequest.equality] codec_rules
        codes_some [where tag = 10 and u = QueryAllContractRequest.pagination_update and op = "submsg L (decode_tc_PageRequest L G)", OF good]
      | assumption | (simp add: tc_QueryAllContractRequest_tags createBase_QueryAllContractRequest_def; fail))+
qed

context long_wire_laws
begin

lemmas tc_QueryAllContractRequest_roundtrip = tc_QueryAllContractRequest_codec.roundtrip [folded decode_tc_QueryAllContractRequest_def [unfolded tc_QueryAllContractRequest_eqs(1)]]

lemmas tc_QueryAllContractRequest_returns = tc_QueryAllContractRequest_codec.decode_returns [folded decode_tc_QueryAllContractRequest_def [unfolded tc_QueryAllContractRequest_eqs(1)]]

lemma tc_QueryAllContractRequest_interop: "interoperates L inp (wf_QueryAllContractRequest L) (encode_QueryAllContractRequest L) (decode_QueryAllContractRequest L) (encode_tc_QueryAllContractRequest L) (decode_tc_QueryAllContractRequest L G)"
  using QueryAllContractRequest_roundtrip tc_QueryAllContractRequest_roundtrip by (simp add: interoperates_def tc_QueryAllContractRequest_eqs(2))

end

interpretation tc_QueryAllContractRequest_json: message_json toJSON_tc_QueryAllContractRequest fromJSON_tc_QueryAllContractRequest wfj_QueryAllContractRequest
proof unfold_locales
  fix h m
  assume "wfj_QueryAllContractRequest m"
  then show "json_rt (toJSON_tc_QueryAllContractRequest h) (fromJSON_tc_QueryAllContractRequest h) m"
    unfolding toJSON_tc_QueryAllContractRequest_def fromJSON_tc_QueryAllContractRequest_def wfj_QueryAllContractRequest_def
    by (-) (rule json_rtI json_rules | assumption | (simp; fail))+
qed

lemma tc_QueryAllContractResponse_eqs:
  "createBase_tc_QueryAllContractResponse = createBase_QueryAllContractResponse"
  "encode_tc_QueryAllContractResponse L = encode_QueryAllContractResponse L"
  "fromJSON_tc_QueryAllContractResponse h = fromJSON_QueryAllContractResponse h"
  "fromPartial_tc_QueryAllContractResponse = fromPartial_QueryAllContractResponse"
  by (simp_all add: fun_eq_iff createBase_tc_QueryAllContractResponse_def createBase_QueryAllContractResponse_def
      encode_tc_QueryAllContractResponse_def encode_QueryAllContractResponse_def
      fromJSON_tc_QueryAllContractResponse_def fromJSON_QueryAllContractResponse_def
      fromPartial_tc_QueryAllContractResponse_def fromPartial_QueryAllContractResponse_def tc_Contract_eqs tc_PageResponse_eqs)

lemma tc_QueryAllContractResponse_tags:
  "tc_QueryAllContractResponse_switch L G 10 m = readf (submsg L (decode_tc_Contract L G)) (\<lambda>v. m\<lparr>QueryAllContractResponse.contract := QueryAllContractResponse.contract m @ [v]\<rparr>)"
  "tc_QueryAllContractResponse_switch L G 18 m = readf (submsg L (decode_tc_PageResponse L G)) (\<lambda>v. m\<lparr>QueryAllContractResponse.pagination := Some v\<rparr>)"
  by (simp_all add: tc_QueryAllContractResponse_switch_def)

sublocale long_wire_laws \<subseteq> tc_QueryAllContractResponse_codec: message_codec L F out inp "encode_QueryAllContractResponse L" "tc_QueryAllContractResponse_switch L G" createBase_QueryAllContractResponse "wf_QueryAllContractResponse L"
proof unfold_locales
  show good: "good_sw (tc_QueryAllContractResponse_switch L G)"
    unfolding tc_QueryAllContractResponse_switch_def by (intro good_swI fwd_rules)
  fix m assume "wf_QueryAllContractResponse L m"
  then show "codes (tc_QueryAllContractResponse_switch L G) (encode_QueryAllContractResponse L m) createBase_QueryAllContractResponse m"
    unfolding encode_QueryAllContractResponse_def wf_QueryAllContractResponse_def
    by (elim conjE)
      (rule codes_Cons codes_Nil [OF QueryAllContractResponse.equality] codec_rules
        codes_for [where tag = 10 and u = QueryAllContractResponse.contract_update and op = "submsg L (decode_tc_Contract L G)", OF good]
        codes_some [where tag = 18 and u = QueryAllContractResponse.pagination_update and op = "submsg L (decode_tc_PageResponse L G)", OF good]
      | assumption | (simp add: tc_QueryAllContractResponse_tags createBase_QueryAllContractResponse_def; fail))+
qed

context long_wire_laws
begin

lemmas tc_QueryAllContractResponse_roundtrip = tc_QueryAllContractResponse_codec.roundtrip [folded decode_tc_QueryAllContractResponse_def [unfolded tc_QueryAllContractResponse_eqs(1)]]

lemmas tc_QueryAllContractResponse_returns = tc_QueryAllContractResponse_codec.decode_returns [folded decode_tc_QueryAllContractResponse_def [unfolded tc_QueryAllContractResponse_eqs(1)]]

lemma tc_QueryAllContractResponse_interop: "interoperates L inp (wf_QueryAllContractResponse L) (encode_QueryAllContractResponse L) (decode_QueryAllContractResponse L) (encode_tc_QueryAllContractResponse L) (decode_tc_QueryAllContractResponse L G)"
  using QueryAllContractResponse_roundtrip tc_QueryAllContractResponse_roundtrip by (simp add: interoperates_def tc_QueryAllContractResponse_eqs(2))

end

interpretation tc_QueryAllContractResponse_json: message_json toJSON_tc_QueryAllContractResponse fromJSON_tc_QueryAllContractResponse wfj_QueryAllContractResponse
proof unfold_locales
  fix h m
  assume "wfj_QueryAllContractResponse m"
  then show "json_rt (toJSON_tc_QueryAllContractResponse h) (fromJSON_tc_QueryAllContractResponse h) m"
    unfolding toJSON_tc_QueryAllContractResponse_def fromJSON_tc_QueryAllContractResponse_def wfj_QueryAllContractResponse_def
    by (elim conjE) (rule json_rtI json_rules | assumption | (simp; fail))+
qed

lemma tc_QueryActiveContractRequest_eqs:
  "createBase_tc_QueryActiveContractRequest = createBase_QueryActiveContractRequest"
  "encode_tc_QueryActiveContractRequest L = encode_QueryActiveContractRequest L"
  "fromJSON_tc_QueryActiveContractRequest h = fromJSON_QueryActiveContractRequest h"
  "fromPartial_tc_QueryActiveContractRequest = fromPartial_QueryActiveContractRequest"
  by (simp_all add: fun_eq_iff createBase_tc_QueryActiveContractRequest_def createBase_QueryActiveContractRequest_def
      encode_tc_QueryActiveContractRequest_def encode_QueryActiveContractRequest_def
      fromJSON_tc_QueryActiveContractRequest_def fromJSON_QueryActiveContractRequest_def
      fromPartial_tc_QueryActiveContractRequest_def fromPartial_QueryActiveContractRequest_def)

lemma tc_QueryActiveContractRequest_tags:
  "tc_QueryActiveContractRequest_switch L G 10 m = readf (r_string L) (\<lambda>v. m\<lparr>QueryActiveContractRequest.provider := v\<rparr>)"
  "tc_QueryActiveContractRequest_switch L G 18 m = readf (r_string L) (\<lambda>v. m\<lparr>QueryActiveContractRequest.service := v\<rparr>)"
  "tc_QueryActiveContractRequest_switch L G 26 m = readf (r_string L) (\<lambda>v. m\<lparr>QueryActiveContractRequest.spender := v\<rparr>)"
  by (simp_all add: tc_QueryActiveContractRequest_switch_def)

sublocale long_wire_laws \<subseteq> tc_QueryActiveContractRequest_codec: message_codec L F out inp "encode_QueryActiveContractRequest L" "tc_QueryActiveContractRequest_switch L G" createBase_QueryActiveContractRequest "wf_QueryActiveContractRequest L"
proof unfold_locales
  show good: "good_sw (tc_QueryActiveContractRequest_switch L G)"
    unfolding tc_QueryActiveContractRequest_switch_def by (intro good_swI fwd_rules)
  fix m assume "wf_QueryActiveContractRequest L m"
  then show "codes (tc_QueryActiveContractRequest_switch L G) (encode_QueryActiveContractRequest L m) createBase_QueryActiveContractRequest m"
    unfolding encode_QueryActiveContractRequest_def wf_QueryActiveContractRequest_def
    by (elim conjE)
      (rule codes_Cons codes_Nil [OF QueryActiveContractRequest.equality] codec_rules
        codes_when [where tag = 10 and u = QueryActiveContractRequest.provider_update and op = "r_string L", OF good]
        codes_when [where tag = 18 and u = QueryActiveContractRequest.service_update and op = "r_string L", OF good]
        codes_when [where tag = 26 and u = QueryActiveContractRequest.spender_update and op = "r_string L", OF good]
      | assumption | (simp add: tc_QueryActiveContractRequest_tags createBase_QueryActiveContractRequest_def; fail))+
qed

context long_wire_laws
begin

lemmas tc_QueryActiveContractRequest_roundtrip = tc_QueryActiveContractRequest_codec.roundtrip [folded decode_tc_QueryActiveContractRequest_def [unfolded tc_QueryActiveContractRequest_eqs(1)]]

lemmas tc_QueryActiveContractRequest_returns = tc_QueryActiveContractRequest_codec.decode_returns [folded decode_tc_QueryActiveContractRequest_def [unfolded tc_QueryActiveContractRequest_eqs(1)]]

lemma tc_QueryActiveContractRequest_interop: "interoperates L inp (wf_QueryActiveContractRequest L) (encode_QueryActiveContractRequest L) (decode_QueryActiveContractRequest L) (encode_tc_QueryActiveContractRequest L) (decode_tc_QueryActiveContractRequest L G)"
  using QueryActiveContractRequest_roundtrip tc_QueryActiveContractRequest_roundtrip by (simp add: interoperates_def tc_QueryActiveContractRequest_eqs(2))

end

interpretation tc_QueryActiveContractRequest_json: message_json toJSON_tc_QueryActiveContractRequest fromJSON_tc_QueryActiveContractRequest wfj_QueryActiveContractRequest
proof unfold_locales
  fix h m
  assume "wfj_QueryActiveContractRequest m"
  then show "json_rt (toJSON_tc_QueryActiveContractRequest h) (fromJSON_tc_QueryActiveContractRequest h) m"
    unfolding toJSON_tc_QueryActiveContractRequest_def fromJSON_tc_QueryActiveContractRequest_def wfj_QueryActiveContractRequest_def
    by (-) (rule json_rtI json_rules | assumption | (simp; fail))+
qed

lemma tc_QueryActiveContractResponse_eqs:
  "createBase_tc_QueryActiveContractResponse = createBase_QueryActiveContractResponse"
  "encode_tc_QueryActiveContractResponse L = encode_QueryActiveContractResponse L"
  "fromJSON_tc_QueryActiveContractResponse h = fromJSON_QueryActiveContractResponse h"
  "fromPartial_tc_QueryActiveContractResponse = fromPartial_QueryActiveContractResponse"
  by (simp_all add: fun_eq_iff createBase_tc_QueryActiveContractResponse_def createBase_QueryActiveContractResponse_def
      encode_tc_QueryActiveContractResponse_def encode_QueryActiveContractResponse_def
      fromJSON_tc_QueryActiveContractResponse_def fromJSON_QueryActiveContractResponse_def
      fromPartial_tc_QueryActiveContractResponse_def fromPartial_QueryActiveContractResponse_def tc_Contract_eqs)

lemma tc_QueryActiveContractResponse_tags:
  "tc_QueryActiveContractResponse_switch L G 10 m = readf (submsg L (decode_tc_Contract L G)) (\<lambda>v. m\<lparr>QueryActiveContractResponse.contract := Some v\<rparr>)"
  by (simp_all add: tc_QueryActiveContractResponse_switch_def)

sublocale long_wire_laws \<subseteq> tc_QueryActiveContractResponse_codec: message_codec L F out inp "encode_QueryActiveContractResponse L" "tc_QueryActiveContractResponse_switch L G" createBase_QueryActiveContractResponse "wf_QueryActiveContractResponse L"
proof unfold_locales
  show good: "good_sw (tc_QueryActiveContractResponse_switch L G)"
    unfolding tc_QueryActiveContractResponse_switch_def by (intro good_swI fwd_rules)
  fix m assume "wf_QueryActiveContractResponse L m"
  then show "codes (tc_QueryActiveContractResponse_switch L G) (encode_QueryActiveContractResponse L m) createBase_QueryActiveContractResponse m"
    unfolding encode_QueryActiveContractResponse_def wf_QueryActiveContractResponse_def
    by (-)
      (rule codes_Cons codes_Nil [OF QueryActiveContractResponse.equality] codec_rules
        codes_some [where tag = 10 and u = QueryActiveContractResponse.contract_update and op = "submsg L (decode_tc_Contract L G)", OF good]
      | assumption | (simp add: tc_QueryActiveContractResponse_tags createBase_QueryActiveContractResponse_def; fail))+
qed

context long_wire_laws
begin

lemmas tc_QueryActiveContractResponse_roundtrip = tc_QueryActiveContractResponse_codec.roundtrip [folded decode_tc_QueryActiveContractResponse_def [unfolded tc_QueryActiveContractResponse_eqs(1)]]

lemmas tc_QueryActiveContractResponse_returns = tc_QueryActiveContractResponse_codec.decode_returns [folded decode_tc_QueryActiveContractResponse_def [unfolded tc_QueryActiveContractResponse_eqs(1)]]

lemma tc_QueryActiveContractResponse_interop: "interoperates L inp (wf_QueryActiveContractResponse L) (encode_QueryActiveContractResponse L) (decode_QueryActiveContractResponse L) (encode_tc_QueryActiveContractResponse L) (decode_tc_QueryActiveContractResponse L G)"
  using QueryActiveContractResponse_roundtrip tc_QueryActiveContractResponse_roundtrip by (simp add: interoperates_def tc_QueryActiveContractResponse_eqs(2))

end

interpretation tc_QueryActiveContractResponse_json: message_json toJSON_tc_QueryActiveContractResponse fromJSON_tc_QueryActiveContractResponse wfj_QueryActiveContractResponse
proof unfold_locales
  fix h m
  assume "wfj_QueryActiveContractResponse m"
  then show "json_rt (toJSON_tc_QueryActiveContractResponse h) (fromJSON_tc_QueryActiveContractResponse h) m"
    unfolding toJSON_tc_QueryActiveContractResponse_def fromJSON_tc_QueryActiveContractResponse_def wfj_QueryActiveContractResponse_def
    by (-) (rule json_rtI json_rules | assumption | (simp; fail))+
qed

lemmas TcQuery_eqs =
  tc_QueryFetchProviderRequest_eqs(3,4) tc_QueryFetchProviderResponse_eqs(3,4) tc_QueryAllProviderRequest_eqs(3,4) tc_QueryAllProviderResponse_eqs(3,4) tc_QueryFetchContractRequest_eqs(3,4) tc_QueryFetchContractResponse_eqs(3,4) tc_QueryAllContractRequest_eqs(3,4) tc_QueryAllContractResponse_eqs(3,4) tc_QueryActiveContractRequest_eqs(3,4) tc_QueryActiveContractResponse_eqs(3,4)

context long_wire_laws
begin

lemmas TcQuery_interop =
  tc_QueryFetchProviderRequest_interop tc_QueryFetchProviderResponse_interop tc_QueryAllProviderRequest_interop tc_QueryAllProviderResponse_interop tc_QueryFetchContractRequest_interop tc_QueryFetchContractResponse_interop tc_QueryAllContractRequest_interop tc_QueryAllContractResponse_interop tc_QueryActiveContractRequest_interop tc_QueryActiveContractResponse_interop

end

end
