(* ===== verification/TcClaim.thy ===== *)
theory TcClaim
  imports TcBase ClaimMsgs
begin

unbundle bit_operations_syntax

text \<open>
  The records, the parameters with their date, and the genesis state of the claim module in
  \<open>ts-client\<close>.
\<close>


section \<open>ts-client/arkeo.claim/types/google/protobuf/duration.ts\<close>

subsection \<open>Duration\<close>

definition createBase_tc_Duration :: Duration where
  "createBase_tc_Duration = \<lparr>Duration.seconds = Num 0,
     Duration.nanos = Num 0\<rparr>"

definition encode_tc_Duration :: "('w, 'r) wire \<Rightarrow> Duration \<Rightarrow> 'w \<Rightarrow> 'w result" where
  "encode_tc_Duration L message = seqE
    [whenE (Duration.seconds message \<noteq> Num 0) (seqE [w_uint32 L 8, w_int64 L (Duration.seconds message)]),
     whenE (Duration.nanos message \<noteq> Num 0) (seqE [w_uint32 L 16, w_int32 L (Duration.nanos message)])]"

definition tc_Duration_switch :: "('w, 'r) wire \<Rightarrow> long_lib \<Rightarrow> u32 \<Rightarrow> Duration \<Rightarrow> (Duration, 'r) action" where
  "tc_Duration_switch L G tag message = js_switch (drop_bit 3 tag)
    [(1, readf (num64l G (r_int64 L)) (\<lambda>v. message\<lparr>Duration.seconds := v\<rparr>)),
     (2, readf (num32 (r_int32 L)) (\<lambda>v. message\<lparr>Duration.nanos := v\<rparr>))]
    (skipType L tag message)"

definition decode_tc_Duration :: "('w, 'r) wire \<Rightarrow> long_lib \<Rightarrow> 'r input \<Rightarrow> nat option \<Rightarrow> (Duration \<times> 'r) result" where
  "decode_tc_Duration L G = decode_msg L (tc_Duration_switch L G) createBase_tc_Duration"

definition fromJSON_tc_Duration :: "host \<Rightarrow> jsval \<Rightarrow> Duration result" where
  "fromJSON_tc_Duration h object =
     bindE (fieldE object ''seconds'' (numberE h) (Num 0)) (\<lambda>v_seconds.
     bindE (fieldE object ''nanos'' (numberE h) (Num 0)) (\<lambda>v_nanos.
     Inr \<lparr>Duration.seconds = v_seconds, Duration.nanos = v_nanos\<rparr>))"

definition toJSON_tc_Duration :: "host \<Rightarrow> Duration \<Rightarrow> jsval result" where
  "toJSON_tc_Duration h message = objE
    [jfieldE True ''seconds'' (Inr (JNumber (Math_round (Duration.seconds message)))),
     jfieldE True ''nanos'' (Inr (JNumber (Math_round (Duration.nanos message))))]"

definition fromPartial_tc_Duration :: "Duration_Partial \<Rightarrow> Duration" where
  "fromPartial_tc_Duration object = createBase_tc_Duration\<lparr>Duration.seconds := nullish (Duration_Partial.seconds object) (Num 0),
     Duration.nanos := nullish (Duration_Partial.nanos object) (Num 0)\<rparr>"


section \<open>ts-client/arkeo.claim/types/google/protobuf/timestamp.ts\<close>

subsection \<open>Timestamp\<close>

definition createBase_tc_Timestamp :: Timestamp where
  "createBase_tc_Timestamp = \<lparr>Timestamp.seconds = Num 0,
     Timestamp.nanos = Num 0\<rparr>"

definition encode_tc_Timestamp :: "('w, 'r) wire \<Rightarrow> Timestamp \<Rightarrow> 'w \<Rightarrow> 'w result" where
  "encode_tc_Timestamp L message = seqE
    [whenE (Timestamp.seconds message \<noteq> Num 0) (seqE [w_uint32 L 8, w_int64 L (Timestamp.seconds message)]),
     whenE (Timestamp.nanos message \<noteq> Num 0) (seqE [w_uint32 L 16, w_int32 L (Timestamp.nanos message)])]"

definition tc_Timestamp_switch :: "('w, 'r) wire \<Rightarrow> long_lib \<Rightarrow> u32 \<Rightarrow> Timestamp \<Rightarrow> (Timestamp, 'r) action" where
  "tc_Timestamp_switch L G tag message = js_switch (drop_bit 3 tag)
    [(1, readf (num64l G (r_int64 L)) (\<lambda>v. message\<lparr>Timestamp.seconds := v\<rparr>)),
     (2, readf (num32 (r_int32 L)) (\<lambda>v. message\<lparr>Timestamp.nanos := v\<rparr>))]
    (skipType L tag message)"

definition decode_tc_Timestamp :: "('w, 'r) wire \<Rightarrow> long_lib \<Rightarrow> 'r input \<Rightarrow> nat option \<Rightarrow> (Timestamp \<times> 'r) result" where
  "decode_tc_Timestamp L G = decode_msg L (tc_Timestamp_switch L G) createBase_tc_Timestamp"

definition fromJSON_tc_Timestamp :: "host \<Rightarrow> jsval \<Rightarrow> Timestamp result" where
  "fromJSON_tc_Timestamp h object =
     bindE (fieldE object ''seconds'' (numberE h) (Num 0)) (\<lambda>v_seconds.
     bindE (fieldE object ''nanos'' (numberE h) (Num 0)) (\<lambda>v_nanos.
     Inr \<lparr>Timestamp.seconds = v_seconds, Timestamp.nanos = v_nanos\<rparr>))"

definition toJSON_tc_Timestamp :: "host \<Rightarrow> Timestamp \<Rightarrow> jsval result" where
  "toJSON_tc_Timestamp h message = objE
    [jfieldE True ''seconds'' (Inr (JNumber (Math_round (Timestamp.seconds message)))),
     jfieldE True ''nanos'' (Inr (JNumber (Math_round (Timestamp.nanos message))))]"

definition fromPartial_tc_Timestamp :: "Timestamp_Partial \<Rightarrow> Timestamp" where
  "fromPartial_tc_Timestamp object = createBase_tc_Timestamp\<lparr>Timestamp.seconds := nullish (Timestamp_Partial.seconds object) (Num 0),
     Timestamp.nanos := nullish (Timestamp_Partial.nanos object) (Num 0)\<rparr>"


section \<open>ts-client/arkeo.claim/types/arkeo/claim/claim_record.ts\<close>

definition tc_Action_ACTION_CLAIM :: Action where
  "tc_Action_ACTION_CLAIM = Num 0"

definition tc_Action_ACTION_VOTE :: Action where
  "tc_Action_ACTION_VOTE = Num 1"

definition tc_Action_ACTION_DELEGATE :: Action where
  "tc_Action_ACTION_DELEGATE = Num 2"

definition tc_Action_UNRECOGNIZED :: Action where
  "tc_Action_UNRECOGNIZED = Num (- 1)"

definition tc_actionFromJSON :: "jsval \<Rightarrow> Action" where
  "tc_actionFromJSON object =
    (if object = JNumber (Num 0) \<or> object = JString (js ''ACTION_CLAIM'')
       then tc_Action_ACTION_CLAIM
     else if object = JNumber (Num 1) \<or> object = JString (js ''ACTION_VOTE'')
       then tc_Action_ACTION_VOTE
     else if object = JNumber (Num 2) \<or> object = JString (js ''ACTION_DELEGATE'')
       then tc_Action_ACTION_DELEGATE
     else tc_Action_UNRECOGNIZED)"

definition tc_actionToJSON :: "Action \<Rightarrow> jsstring" where
  "tc_actionToJSON object =
    (if object = tc_Action_ACTION_CLAIM then js ''ACTION_CLAIM''
     else if object = tc_Action_ACTION_VOTE then js ''ACTION_VOTE''
     else if object = tc_Action_ACTION_DELEGATE then js ''ACTION_DELEGATE''
     else js ''UNRECOGNIZED'')"


definition tc_Chain_ARKEO :: Chain where
  "tc_Chain_ARKEO = Num 0"

definition tc_Chain_ETHEREUM :: Chain where
  "tc_Chain_ETHEREUM = Num 1"

definition tc_Chain_UNRECOGNIZED :: Chain where
  "tc_Chain_UNRECOGNIZED = Num (- 1)"

definition tc_chainFromJSON :: "jsval \<Rightarrow> Chain" where
  "tc_chainFromJSON object =
    (if object = JNumber (Num 0) \<or> object = JString (js ''ARKEO'')
       then tc_Chain_ARKEO
     else if object = JNumber (Num 1) \<or> object = JString (js ''ETHEREUM'')
       then tc_Chain_ETHEREUM
     else tc_Chain_UNRECOGNIZED)"

definition tc_chainToJSON :: "Chain \<Rightarrow> jsstring" where
  "tc_chainToJSON object =
    (if object = tc_Chain_ARKEO then js ''ARKEO''
     else if object = tc_Chain_ETHEREUM then js ''ETHEREUM''
     else js ''UNRECOGNIZED'')"


subsection \<open>ClaimRecord\<close>

definition createBase_tc_ClaimRecord :: ClaimRecord where
  "createBase_tc_ClaimRecord = \<lparr>ClaimRecord.chain = Num 0,
     ClaimRecord.address = [],
     ClaimRecord.amountClaim = None,
     ClaimRecord.amountVote = None,
     ClaimRecord.amountDelegate = None,
     ClaimRecord.isTransferable = False\<rparr>"

definition encode_tc_ClaimRecord :: "('w, 'r) wire \<Rightarrow> ClaimRecord \<Rightarrow> 'w \<Rightarrow> 'w result" where
  "encode_tc_ClaimRecord L message = seqE
    [whenE (ClaimRecord.chain message \<noteq> Num 0) (seqE [w_uint32 L 8, w_int32 L (ClaimRecord.chain message)]),
     whenE (ClaimRecord.address message \<noteq> []) (seqE [w_uint32 L 18, w_string L (ClaimRecord.address message)]),
     someE (ClaimRecord.amountClaim message) (\<lambda>v. seqE [w_uint32 L 26, w_fork L, encode_tc_Coin L v, w_join L]),
     someE (ClaimRecord.amountVote message) (\<lambda>v. seqE [w_uint32 L 34, w_fork L, encode_tc_Coin L v, w_join L]),
     someE (ClaimRecord.amountDelegate message) (\<lambda>v. seqE [w_uint32 L 42, w_fork L, encode_tc_Coin L v, w_join L]),
     whenE (ClaimRecord.isTransferable message = True) (seqE [w_uint32 L 48, w_bool L (ClaimRecord.isTransferable message)])]"

definition tc_ClaimRecord_switch :: "('w, 'r) wire \<Rightarrow> long_lib \<Rightarrow> u32 \<Rightarrow> ClaimRecord \<Rightarrow> (ClaimRecord, 'r) action" where
  "tc_ClaimRecord_switch L G tag message = js_switch (drop_bit 3 tag)
    [(1, readf (num32 (r_int32 L)) (\<lambda>v. message\<lparr>ClaimRecord.chain := v\<rparr>)),
     (2, readf (r_string L) (\<lambda>v. message\<lparr>ClaimRecord.address := v\<rparr>)),
     (3, readf (submsg L (decode_tc_Coin L G)) (\<lambda>v. message\<lparr>ClaimRecord.amountClaim := Some v\<rparr>)),
     (4, readf (submsg L (decode_tc_Coin L G)) (\<lambda>v. message\<lparr>ClaimRecord.amountVote := Some v\<rparr>)),
     (5, readf (submsg L (decode_tc_Coin L G)) (\<lambda>v. message\<lparr>ClaimRecord.amountDelegate := Some v\<rparr>)),
     (6, readf (r_bool L) (\<lambda>v. message\<lparr>ClaimRecord.isTransferable := v\<rparr>))]
    (skipType L tag message)"

definition decode_tc_ClaimRecord :: "('w, 'r) wire \<Rightarrow> long_lib \<Rightarrow> 'r input \<Rightarrow> nat option \<Rightarrow> (ClaimRecord \<times> 'r) result" where
  "decode_tc_ClaimRecord L G = decode_msg L (tc_ClaimRecord_switch L G) createBase_tc_ClaimRecord"

definition fromJSON_tc_ClaimRecord :: "host \<Rightarrow> jsval \<Rightarrow> ClaimRecord result" where
  "fromJSON_tc_ClaimRecord h object =
     bindE (fieldE object ''chain'' (enumE tc_chainFromJSON) (Num 0)) (\<lambda>v_chain.
     bindE (fieldE object ''address'' (stringE h) []) (\<lambda>v_address.
     bindE (optE object ''amountClaim'' (fromJSON_tc_Coin h)) (\<lambda>v_amountClaim.
     bindE (optE object ''amountVote'' (fromJSON_tc_Coin h)) (\<lambda>v_amountVote.
     bindE (optE object ''amountDelegate'' (fromJSON_tc_Coin h)) (\<lambda>v_amountDelegate.
     bindE (fieldE object ''isTransferable'' booleanE False) (\<lambda>v_isTransferable.
     Inr \<lparr>ClaimRecord.chain = v_chain, ClaimRecord.address = v_address, ClaimRecord.amountClaim = v_amountClaim, ClaimRecord.amountVote = v_amountVote, ClaimRecord.amountDelegate = v_amountDelegate, ClaimRecord.isTransferable = v_isTransferable\<rparr>))))))"

definition toJSON_tc_ClaimRecord :: "host \<Rightarrow> ClaimRecord \<Rightarrow> jsval result" where
  "toJSON_tc_ClaimRecord h message = objE
    [jfieldE True ''chain'' (Inr (JString (tc_chainToJSON (ClaimRecord.chain message)))),
     jfieldE True ''address'' (Inr (JString (ClaimRecord.address message))),
     joptE ''amountClaim'' (toJSON_tc_Coin h) (ClaimRecord.amountClaim message),
     joptE ''amountVote'' (toJSON_tc_Coin h) (ClaimRecord.amountVote message),
     joptE ''amountDelegate'' (toJSON_tc_Coin h) (ClaimRecord.amountDelegate message),
     jfieldE True ''isTransferable'' (Inr (JBool (ClaimRecord.isTransferable message)))]"

definition fromPartial_tc_ClaimRecord :: "ClaimRecord_Partial \<Rightarrow> ClaimRecord" where
  "fromPartial_tc_ClaimRecord object = createBase_tc_ClaimRecord\<lparr>ClaimRecord.chain := nullish (ClaimRecord_Partial.chain object) (Num 0),
     ClaimRecord.address := nullish (ClaimRecord_Partial.address object) [],
     ClaimRecord.amountClaim := map_option fromPartial_tc_Coin (ClaimRecord_Partial.amountClaim object),
     ClaimRecord.amountVote := map_option fromPartial_tc_Coin (ClaimRecord_Partial.amountVote object),
     ClaimRecord.amountDelegate := map_option fromPartial_tc_Coin (ClaimRecord_Partial.amountDelegate object),
     ClaimRecord.isTransferable := nullish (ClaimRecord_Partial.isTransferable object) False\<rparr>"


section \<open>ts-client/arkeo.claim/types/arkeo/claim/params.ts\<close>

definition fromJsonTimestamp_frac :: "host \<Rightarrow> jsval \<Rightarrow> Date result" where
  "fromJsonTimestamp_frac h obj =
     (case obj of
        JDate t \<Rightarrow> Inr t
      | JString s \<Rightarrow> Inr (Date_of_string h s)
      | _ \<Rightarrow> bindE (fromJSON_tc_Timestamp h obj) (\<lambda>t. Inr (fromTimestamp_frac t)))"

subsection \<open>Params\<close>

definition createBase_tc_claim_Params :: claim_Params where
  "createBase_tc_claim_Params = \<lparr>claim_Params.airdropStartTime = None,
     claim_Params.durationUntilDecay = None,
     claim_Params.durationOfDecay = None,
     claim_Params.claimDenom = [],
     claim_Params.initialGasAmount = None\<rparr>"

definition encode_tc_claim_Params :: "('w, 'r) wire \<Rightarrow> claim_Params \<Rightarrow> 'w \<Rightarrow> 'w result" where
  "encode_tc_claim_Params L message = seqE
    [someE (claim_Params.airdropStartTime message) (\<lambda>v. seqE [w_uint32 L 10, w_fork L, encode_tc_Timestamp L (toTimestamp_frac v), w_join L]),
     someE (claim_Params.durationUntilDecay message) (\<lambda>v. seqE [w_uint32 L 18, w_fork L, encode_tc_Duration L v, w_join L]),
     someE (claim_Params.durationOfDecay message) (\<lambda>v. seqE [w_uint32 L 26, w_fork L, encode_tc_Duration L v, w_join L]),
     whenE (claim_Params.claimDenom message \<noteq> []) (seqE [w_uint32 L 34, w_string L (claim_Params.claimDenom message)]),
     someE (claim_Params.initialGasAmount message) (\<lambda>v. seqE [w_uint32 L 42, w_fork L, encode_tc_Coin L v, w_join L])]"

definition tc_claim_Params_switch :: "('w, 'r) wire \<Rightarrow> long_lib \<Rightarrow> u32 \<Rightarrow> claim_Params \<Rightarrow> (claim_Params, 'r) action" where
  "tc_claim_Params_switch L G tag message = js_switch (drop_bit 3 tag)
    [(1, readf (read_map fromTimestamp_frac (submsg L (decode_tc_Timestamp L G))) (\<lambda>v. message\<lparr>claim_Params.airdropStartTime := Some v\<rparr>)),
     (2, readf (submsg L (decode_tc_Duration L G)) (\<lambda>v. message\<lparr>claim_Params.durationUntilDecay := Some v\<rparr>)),
     (3, readf (submsg L (decode_tc_Duration L G)) (\<lambda>v. message\<lparr>claim_Params.durationOfDecay := Some v\<rparr>)),
     (4, readf (r_string L) (\<lambda>v. message\<lparr>claim_Params.claimDenom := v\<rparr>)),
     (5, readf (submsg L (decode_tc_Coin L G)) (\<lambda>v. message\<lparr>claim_Params.initialGasAmount := Some v\<rparr>))]
    (skipType L tag message)"

definition decode_tc_claim_Params :: "('w, 'r) wire \<Rightarrow> long_lib \<Rightarrow> 'r input \<Rightarrow> nat option \<Rightarrow> (claim_Params \<times> 'r) result" where
  "decode_tc_claim_Params L G = decode_msg L (tc_claim_Params_switch L G) createBase_tc_claim_Params"

definition fromJSON_tc_claim_Params :: "host \<Rightarrow> jsval \<Rightarrow> claim_Params result" where
  "fromJSON_tc_claim_Params h object =
     bindE (optE object ''airdropStartTime'' (fromJsonTimestamp_frac h)) (\<lambda>v_airdropStartTime.
     bindE (optE object ''durationUntilDecay'' (fromJSON_tc_Duration h)) (\<lambda>v_durationUntilDecay.
     bindE (optE object ''durationOfDecay'' (fromJSON_tc_Duration h)) (\<lambda>v_durationOfDecay.
     bindE (fieldE object ''claimDenom'' (stringE h) []) (\<lambda>v_claimDenom.
     bindE (optE object ''initialGasAmount'' (fromJSON_tc_Coin h)) (\<lambda>v_initialGasAmount.
     Inr \<lparr>claim_Params.airdropStartTime = v_airdropStartTime, claim_Params.durationUntilDecay = v_durationUntilDecay, claim_Params.durationOfDecay = v_durationOfDecay, claim_Params.claimDenom = v_claimDenom, claim_Params.initialGasAmount = v_initialGasAmount\<rparr>)))))"

definition toJSON_tc_claim_Params :: "host \<Rightarrow> claim_Params \<Rightarrow> jsval result" where
  "toJSON_tc_claim_Params h message = objE
    [joptE ''airdropStartTime'' dateJSON (claim_Params.airdropStartTime message),
     joptE ''durationUntilDecay'' (toJSON_tc_Duration h) (claim_Params.durationUntilDecay message),
     joptE ''durationOfDecay'' (toJSON_tc_Duration h) (claim_Params.durationOfDecay message),
     jfieldE True ''claimDenom'' (Inr (JString (claim_Params.claimDenom message))),
     joptE ''initialGasAmount'' (toJSON_tc_Coin h) (claim_Params.initialGasAmount message)]"

definition fromPartial_tc_claim_Params :: "claim_Params_Partial \<Rightarrow> claim_Params" where
  "fromPartial_tc_claim_Params object = createBase_tc_claim_Params\<lparr>claim_Params.airdropStartTime := claim_Params_Partial.airdropStartTime object,
     claim_Params.durationUntilDecay := map_option fromPartial_tc_Duration (claim_Params_Partial.durationUntilDecay object),
     claim_Params.durationOfDecay := map_option fromPartial_tc_Duration (claim_Params_Partial.durationOfDecay object),
     claim_Params.claimDenom := nullish (claim_Params_Partial.claimDenom object) [],
     claim_Params.initialGasAmount := map_option fromPartial_tc_Coin (claim_Params_Partial.initialGasAmount object)\<rparr>"

definition wf_tc_claim_Params :: "('w, 'r) wire \<Rightarrow> claim_Params \<Rightarrow> bool" where
  "wf_tc_claim_Params L m \<longleftrightarrow> pred_option (\<lambda>v. whole_seconds v \<and> fits L (encode_Timestamp L (toTimestamp_frac v))) (claim_Params.airdropStartTime m)
     \<and> pred_option (\<lambda>v. wf_Duration L v \<and> fits L (encode_Duration L v)) (claim_Params.durationUntilDecay m)
     \<and> pred_option (\<lambda>v. wf_Duration L v \<and> fits L (encode_Duration L v)) (claim_Params.durationOfDecay m)
     \<and> wire_string (claim_Params.claimDenom m)
     \<and> pred_option (\<lambda>v. wf_Coin L v \<and> fits L (encode_Coin L v)) (claim_Params.initialGasAmount m)"


section \<open>ts-client/arkeo.claim/types/arkeo/claim/genesis.ts\<close>

subsection \<open>GenesisState\<close>

definition createBase_tc_claim_GenesisState :: claim_GenesisState where
  "createBase_tc_claim_GenesisState = \<lparr>claim_GenesisState.moduleAccountBalance = None,
     claim_GenesisState.params = None,
     claim_GenesisState.claimRecords = []\<rparr>"

definition encode_tc_claim_GenesisState :: "('w, 'r) wire \<Rightarrow> claim_GenesisState \<Rightarrow> 'w \<Rightarrow> 'w result" where
  "encode_tc_claim_GenesisState L message = seqE
    [someE (claim_GenesisState.moduleAccountBalance message) (\<lambda>v. seqE [w_uint32 L 10, w_fork L, encode_tc_Coin L v, w_join L]),
     someE (claim_GenesisState.params message) (\<lambda>v. seqE [w_uint32 L 18, w_fork L, encode_tc_claim_Params L v, w_join L]),
     forE (\<lambda>v. seqE [w_uint32 L 26, w_fork L, encode_tc_ClaimRecord L v, w_join L]) (claim_GenesisState.claimRecords message)]"

definition tc_claim_GenesisState_switch :: "('w, 'r) wire \<Rightarrow> long_lib \<Rightarrow> u32 \<Rightarrow> claim_GenesisState \<Rightarrow> (claim_GenesisState, 'r) action" where
  "tc_claim_GenesisState_switch L G tag message = js_switch (drop_bit 3 tag)
    [(1, readf (submsg L (decode_tc_Coin L G)) (\<lambda>v. message\<lparr>claim_GenesisState.moduleAccountBalance := Some v\<rparr>)),
     (2, readf (submsg L (decode_tc_claim_Params L G)) (\<lambda>v. message\<lparr>claim_GenesisState.params := Some v\<rparr>)),
     (3, readf (submsg L (decode_tc_ClaimRecord L G)) (\<lambda>v. message\<lparr>claim_GenesisState.claimRecords := claim_GenesisState.claimRecords message @ [v]\<rparr>))]
    (skipType L tag message)"

definition decode_tc_claim_GenesisState :: "('w, 'r) wire \<Rightarrow> long_lib \<Rightarrow> 'r input \<Rightarrow> nat option \<Rightarrow> (claim_GenesisState \<times> 'r) result" where
  "decode_tc_claim_GenesisState L G = decode_msg L (tc_claim_GenesisState_switch L G) createBase_tc_claim_GenesisState"

definition fromJSON_tc_claim_GenesisState :: "host \<Rightarrow> jsval \<Rightarrow> claim_GenesisState result" where
  "fromJSON_tc_claim_GenesisState h object =
     bindE (optE object ''moduleAccountBalance'' (fromJSON_tc_Coin h)) (\<lambda>v_moduleAccountBalance.
     bindE (optE object ''params'' (fromJSON_tc_claim_Params h)) (\<lambda>v_params.
     bindE (arrayE object ''claimRecords'' (fromJSON_tc_ClaimRecord h)) (\<lambda>v_claimRecords.
     Inr \<lparr>claim_GenesisState.moduleAccountBalance = v_moduleAccountBalance, claim_GenesisState.params = v_params, claim_GenesisState.claimRecords = v_claimRecords\<rparr>)))"

definition toJSON_tc_claim_GenesisState :: "host \<Rightarrow> claim_GenesisState \<Rightarrow> jsval result" where
  "toJSON_tc_claim_GenesisState h message = objE
    [joptE ''moduleAccountBalance'' (toJSON_tc_Coin h) (claim_GenesisState.moduleAccountBalance message),
     joptE ''params'' (toJSON_tc_claim_Params h) (claim_GenesisState.params message),
     jlistE ''claimRecords'' (toJSON_tc_ClaimRecord h) (claim_GenesisState.claimRecords message)]"

definition fromPartial_tc_claim_GenesisState :: "claim_GenesisState_Partial \<Rightarrow> claim_GenesisState" where
  "fromPartial_tc_claim_GenesisState object = createBase_tc_claim_GenesisState\<lparr>claim_GenesisState.moduleAccountBalance := map_option fromPartial_tc_Coin (claim_GenesisState_Partial.moduleAccountBalance object),
     claim_GenesisState.params := map_option fromPartial_tc_claim_Params (claim_GenesisState_Partial.params object),
     claim_GenesisState.claimRecords := partial_map fromPartial_tc_ClaimRecord (claim_GenesisState_Partial.claimRecords object)\<rparr>"

definition wf_tc_claim_GenesisState :: "('w, 'r) wire \<Rightarrow> claim_GenesisState \<Rightarrow> bool" where
  "wf_tc_claim_GenesisState L m \<longleftrightarrow> pred_option (\<lambda>v. wf_Coin L v \<and> fits L (encode_Coin L v)) (claim_GenesisState.moduleAccountBalance m)
     \<and> pred_option (\<lambda>v. wf_tc_claim_Params L v \<and> fits L (encode_tc_claim_Params L v)) (claim_GenesisState.params m)
     \<and> list_all (\<lambda>v. wf_ClaimRecord L v \<and> fits L (encode_ClaimRecord L v)) (claim_GenesisState.claimRecords m)"


section \<open>Encoding, decoding and JSON of these messages\<close>

lemma tc_Duration_eqs:
  "createBase_tc_Duration = createBase_Duration"
  "encode_tc_Duration L = encode_Duration L"
  "fromJSON_tc_Duration h = fromJSON_Duration h"
  "fromPartial_tc_Duration = fromPartial_Duration"
  by (simp_all add: fun_eq_iff createBase_tc_Duration_def createBase_Duration_def
      encode_tc_Duration_def encode_Duration_def
      fromJSON_tc_Duration_def fromJSON_Duration_def
      fromPartial_tc_Duration_def fromPartial_Duration_def)

lemma tc_Duration_tags:
  "tc_Duration_switch L G 8 m = readf (num64l G (r_int64 L)) (\<lambda>v. m\<lparr>Duration.seconds := v\<rparr>)"
  "tc_Duration_switch L G 16 m = readf (num32 (r_int32 L)) (\<lambda>v. m\<lparr>Duration.nanos := v\<rparr>)"
  by (simp_all add: tc_Duration_switch_def)

sublocale long_wire_laws \<subseteq> tc_Duration_codec: message_codec L F out inp "encode_Duration L" "tc_Duration_switch L G" createBase_Duration "wf_Duration L"
proof unfold_locales
  show good: "good_sw (tc_Duration_switch L G)"
    unfolding tc_Duration_switch_def by (intro good_swI fwd_rules)
  fix m assume "wf_Duration L m"
  then show "codes (tc_Duration_switch L G) (encode_Duration L m) createBase_Duration m"
    unfolding encode_Duration_def wf_Duration_def
    by (elim conjE)
      (rule codes_Cons codes_Nil [OF Duration.equality] codec_rules
        codes_when [where tag = 8 and u = Duration.seconds_update and op = "num64l G (r_int64 L)", OF good]
        codes_when [where tag = 16 and u = Duration.nanos_update and op = "num32 (r_int32 L)", OF good]
      | assumption | (simp add: tc_Duration_tags createBase_Duration_def; fail))+
qed

context long_wire_laws
begin

lemmas tc_Duration_carries [codec_rules] =
  tc_Duration_codec.opt_carries [folded decode_tc_Duration_def [unfolded tc_Duration_eqs(1)]] tc_Duration_codec.list_carries [folded decode_tc_Duration_def [unfolded tc_Duration_eqs(1)]]

lemmas tc_Duration_good [fwd_rules] = tc_Duration_codec.op_good [folded decode_tc_Duration_def [unfolded tc_Duration_eqs(1)]]

lemmas tc_Duration_roundtrip = tc_Duration_codec.roundtrip [folded decode_tc_Duration_def [unfolded tc_Duration_eqs(1)]]

lemmas tc_Duration_returns = tc_Duration_codec.decode_returns [folded decode_tc_Duration_def [unfolded tc_Duration_eqs(1)]]

lemma tc_Duration_interop: "interoperates L inp (wf_Duration L) (encode_Duration L) (decode_Duration L) (encode_tc_Duration L) (decode_tc_Duration L G)"
  using Duration_roundtrip tc_Duration_roundtrip by (simp add: interoperates_def tc_Duration_eqs(2))

end

interpretation tc_Duration_json: message_json toJSON_tc_Duration fromJSON_tc_Duration wfj_Duration
proof unfold_locales
  fix h m
  assume "wfj_Duration m"
  then show "json_rt (toJSON_tc_Duration h) (fromJSON_tc_Duration h) m"
    unfolding toJSON_tc_Duration_def fromJSON_tc_Duration_def wfj_Duration_def
    by (elim conjE) (rule json_rtI json_rules | assumption | (simp; fail))+
qed

lemmas tc_Duration_json_rules [json_rules] = tc_Duration_json.json_list_rules

lemma tc_Timestamp_eqs:
  "createBase_tc_Timestamp = createBase_Timestamp"
  "encode_tc_Timestamp L = encode_Timestamp L"
  "fromJSON_tc_Timestamp h = fromJSON_Timestamp h"
  "fromPartial_tc_Timestamp = fromPartial_Timestamp"
  by (simp_all add: fun_eq_iff createBase_tc_Timestamp_def createBase_Timestamp_def
      encode_tc_Timestamp_def encode_Timestamp_def
      fromJSON_tc_Timestamp_def fromJSON_Timestamp_def
      fromPartial_tc_Timestamp_def fromPartial_Timestamp_def)

lemma tc_Timestamp_tags:
  "tc_Timestamp_switch L G 8 m = readf (num64l G (r_int64 L)) (\<lambda>v. m\<lparr>Timestamp.seconds := v\<rparr>)"
  "tc_Timestamp_switch L G 16 m = readf (num32 (r_int32 L)) (\<lambda>v. m\<lparr>Timestamp.nanos := v\<rparr>)"
  by (simp_all add: tc_Timestamp_switch_def)

sublocale long_wire_laws \<subseteq> tc_Timestamp_codec: message_codec L F out inp "encode_Timestamp L" "tc_Timestamp_switch L G" createBase_Timestamp "wf_Timestamp L"
proof unfold_locales
  show good: "good_sw (tc_Timestamp_switch L G)"
    unfolding tc_Timestamp_switch_def by (intro good_swI fwd_rules)
  fix m assume "wf_Timestamp L m"
  then show "codes (tc_Timestamp_switch L G) (encode_Timestamp L m) createBase_Timestamp m"
    unfolding encode_Timestamp_def wf_Timestamp_def
    by (elim conjE)
      (rule codes_Cons codes_Nil [OF Timestamp.equality] codec_rules
        codes_when [where tag = 8 and u = Timestamp.seconds_update and op = "num64l G (r_int64 L)", OF good]
        codes_when [where tag = 16 and u = Timestamp.nanos_update and op = "num32 (r_int32 L)", OF good]
      | assumption | (simp add: tc_Timestamp_tags createBase_Timestamp_def; fail))+
qed

context long_wire_laws
begin

lemmas tc_Timestamp_carries [codec_rules] =
  tc_Timestamp_codec.opt_carries [folded decode_tc_Timestamp_def [unfolded tc_Timestamp_eqs(1)]] tc_Timestamp_codec.list_carries [folded decode_tc_Timestamp_def [unfolded tc_Timestamp_eqs(1)]]

lemmas tc_Timestamp_good [fwd_rules] = tc_Timestamp_codec.op_good [folded decode_tc_Timestamp_def [unfolded tc_Timestamp_eqs(1)]]

lemmas tc_Timestamp_roundtrip = tc_Timestamp_codec.roundtrip [folded decode_tc_Timestamp_def [unfolded tc_Timestamp_eqs(1)]]

lemmas tc_Timestamp_returns = tc_Timestamp_codec.decode_returns [folded decode_tc_Timestamp_def [unfolded tc_Timestamp_eqs(1)]]

end

interpretation tc_Timestamp_json: message_json toJSON_tc_Timestamp fromJSON_tc_Timestamp wfj_Timestamp
proof unfold_locales
  fix h m
  assume "wfj_Timestamp m"
  then show "json_rt (toJSON_tc_Timestamp h) (fromJSON_tc_Timestamp h) m"
    unfolding toJSON_tc_Timestamp_def fromJSON_tc_Timestamp_def wfj_Timestamp_def
    by (elim conjE) (rule json_rtI json_rules | assumption | (simp; fail))+
qed

lemmas tc_Timestamp_json_rules [json_rules] = tc_Timestamp_json.json_list_rules

lemmas tc_Action_defs = tc_Action_ACTION_CLAIM_def tc_Action_ACTION_VOTE_def tc_Action_ACTION_DELEGATE_def tc_Action_UNRECOGNIZED_def

lemma tc_Action_eqs: "tc_actionFromJSON = actionFromJSON" "tc_actionToJSON = actionToJSON"
  by (simp_all add: fun_eq_iff tc_actionFromJSON_def actionFromJSON_def tc_actionToJSON_def actionToJSON_def tc_Action_defs Action_defs)

lemmas tc_Action_json [json_rules] = Action_json [folded tc_Action_eqs]

lemmas tc_Chain_defs = tc_Chain_ARKEO_def tc_Chain_ETHEREUM_def tc_Chain_UNRECOGNIZED_def

lemma tc_Chain_eqs: "tc_chainFromJSON = chainFromJSON" "tc_chainToJSON = chainToJSON"
  by (simp_all add: fun_eq_iff tc_chainFromJSON_def chainFromJSON_def tc_chainToJSON_def chainToJSON_def tc_Chain_defs Chain_defs)

lemmas tc_Chain_json [json_rules] = Chain_json [folded tc_Chain_eqs]

lemma tc_ClaimRecord_eqs:
  "createBase_tc_ClaimRecord = createBase_ClaimRecord"
  "encode_tc_ClaimRecord L = encode_ClaimRecord L"
  "fromJSON_tc_ClaimRecord h = fromJSON_ClaimRecord h"
  "fromPartial_tc_ClaimRecord = fromPartial_ClaimRecord"
  by (simp_all add: fun_eq_iff createBase_tc_ClaimRecord_def createBase_ClaimRecord_def
      encode_tc_ClaimRecord_def encode_ClaimRecord_def
      fromJSON_tc_ClaimRecord_def fromJSON_ClaimRecord_def
      fromPartial_tc_ClaimRecord_def fromPartial_ClaimRecord_def tc_Chain_eqs tc_Coin_eqs)

lemma tc_ClaimRecord_tags:
  "tc_ClaimRecord_switch L G 8 m = readf (num32 (r_int32 L)) (\<lambda>v. m\<lparr>ClaimRecord.chain := v\<rparr>)"
  "tc_ClaimRecord_switch L G 18 m = readf (r_string L) (\<lambda>v. m\<lparr>ClaimRecord.address := v\<rparr>)"
  "tc_ClaimRecord_switch L G 26 m = readf (submsg L (decode_tc_Coin L G)) (\<lambda>v. m\<lparr>ClaimRecord.amountClaim := Some v\<rparr>)"
  "tc_ClaimRecord_switch L G 34 m = readf (submsg L (decode_tc_Coin L G)) (\<lambda>v. m\<lparr>ClaimRecord.amountVote := Some v\<rparr>)"
  "tc_ClaimRecord_switch L G 42 m = readf (submsg L (decode_tc_Coin L G)) (\<lambda>v. m\<lparr>ClaimRecord.amountDelegate := Some v\<rparr>)"
  "tc_ClaimRecord_switch L G 48 m = readf (r_bool L) (\<lambda>v. m\<lparr>ClaimRecord.isTransferable := v\<rparr>)"
  by (simp_all add: tc_ClaimRecord_switch_def)

sublocale long_wire_laws \<subseteq> tc_ClaimRecord_codec: message_codec L F out inp "encode_ClaimRecord L" "tc_ClaimRecord_switch L G" createBase_ClaimRecord "wf_ClaimRecord L"
proof unfold_locales
  show good: "good_sw (tc_ClaimRecord_switch L G)"
    unfolding tc_ClaimRecord_switch_def by (intro good_swI fwd_rules)
  fix m assume "wf_ClaimRecord L m"
  then show "codes (tc_ClaimRecord_switch L G) (encode_ClaimRecord L m) createBase_ClaimRecord m"
    unfolding encode_ClaimRecord_def wf_ClaimRecord_def
    by (elim conjE)
      (rule codes_Cons codes_Nil [OF ClaimRecord.equality] codec_rules
        codes_when [where tag = 8 and u = ClaimRecord.chain_update and op = "num32 (r_int32 L)", OF good]
        codes_when [where tag = 18 and u = ClaimRecord.address_update and op = "r_string L", OF good]
        codes_some [where tag = 26 and u = ClaimRecord.amountClaim_update and op = "submsg L (decode_tc_Coin L G)", OF good]
        codes_some [where tag = 34 and u = ClaimRecord.amountVote_update and op = "submsg L (decode_tc_Coin L G)", OF good]
        codes_some [where tag = 42 and u = ClaimRecord.amountDelegate_update and op = "submsg L (decode_tc_Coin L G)", OF good]
        codes_when [where tag = 48 and u = ClaimRecord.isTransferable_update and op = "r_bool L", OF good]
      | assumption | (simp add: tc_ClaimRecord_tags createBase_ClaimRecord_def; fail))+
qed

context long_wire_laws
begin

lemmas tc_ClaimRecord_carries [codec_rules] =
  tc_ClaimRecord_codec.opt_carries [folded decode_tc_ClaimRecord_def [unfolded tc_ClaimRecord_eqs(1)]] tc_ClaimRecord_codec.list_carries [folded decode_tc_ClaimRecord_def [unfolded tc_ClaimRecord_eqs(1)]]

lemmas tc_ClaimRecord_good [fwd_rules] = tc_ClaimRecord_codec.op_good [folded decode_tc_ClaimRecord_def [unfolded tc_ClaimRecord_eqs(1)]]

lemmas tc_ClaimRecord_roundtrip = tc_ClaimRecord_codec.roundtrip [folded decode_tc_ClaimRecord_def [unfolded tc_ClaimRecord_eqs(1)]]

lemmas tc_ClaimRecord_returns = tc_ClaimRecord_codec.decode_returns [folded decode_tc_ClaimRecord_def [unfolded tc_ClaimRecord_eqs(1)]]

lemma tc_ClaimRecord_interop: "interoperates L inp (wf_ClaimRecord L) (encode_ClaimRecord L) (decode_ClaimRecord L) (encode_tc_ClaimRecord L) (decode_tc_ClaimRecord L G)"
  using ClaimRecord_roundtrip tc_ClaimRecord_roundtrip by (simp add: interoperates_def tc_ClaimRecord_eqs(2))

end

interpretation tc_ClaimRecord_json: message_json toJSON_tc_ClaimRecord fromJSON_tc_ClaimRecord wfj_ClaimRecord
proof unfold_locales
  fix h m
  assume "wfj_ClaimRecord m"
  then show "json_rt (toJSON_tc_ClaimRecord h) (fromJSON_tc_ClaimRecord h) m"
    unfolding toJSON_tc_ClaimRecord_def fromJSON_tc_ClaimRecord_def wfj_ClaimRecord_def
    by (elim conjE) (rule json_rtI json_rules | assumption | (simp; fail))+
qed

lemmas tc_ClaimRecord_json_rules [json_rules] = tc_ClaimRecord_json.json_list_rules

context long_wire_laws
begin

lemma date_frac_carries [codec_rules]:
  assumes "pred_option (\<lambda>v. whole_seconds v \<and> fits L (encode_Timestamp L (toTimestamp_frac v))) x"
  shows "pred_option (\<lambda>v. carries (seqE [w_fork L, encode_Timestamp L (toTimestamp_frac v), w_join L])
    (read_map fromTimestamp_frac (submsg L (decode_tc_Timestamp L G))) v) x"
proof (cases x)
  case (Some v)
  with assms show ?thesis
    using carries_map [where g = fromTimestamp_frac, OF tc_Timestamp_codec.field_carries [of "toTimestamp_frac v"]
      fromTimestamp_frac_whole [of v]]
    by (simp add: toTimestamp_frac_wf decode_tc_Timestamp_def tc_Timestamp_eqs(1) del: seqE.simps)
qed simp

end

lemma date_frac_json_rt: "date_valid d \<Longrightarrow> json_rt dateJSON (fromJsonTimestamp_frac h) d"
  using Date_of_iso_string [of d h] by (auto simp: json_rt_def dateJSON_def fromJsonTimestamp_frac_def)

lemma date_frac_json_opt:
  "pred_option date_valid x \<Longrightarrow> pred_option (json_rt dateJSON (fromJsonTimestamp_frac h)) x"
  by (cases x) (simp_all add: date_frac_json_rt)

lemmas date_frac_json_rules [json_rules] = read_opt [OF date_frac_json_opt]

lemma tc_claim_Params_eqs:
  "createBase_tc_claim_Params = createBase_claim_Params"
  "fromPartial_tc_claim_Params = fromPartial_claim_Params"
  by (simp_all add: fun_eq_iff createBase_tc_claim_Params_def createBase_claim_Params_def
      fromPartial_tc_claim_Params_def fromPartial_claim_Params_def tc_Coin_eqs tc_Duration_eqs)

lemma tc_claim_Params_tags:
  "tc_claim_Params_switch L G 10 m = readf (read_map fromTimestamp_frac (submsg L (decode_tc_Timestamp L G))) (\<lambda>v. m\<lparr>claim_Params.airdropStartTime := Some v\<rparr>)"
  "tc_claim_Params_switch L G 18 m = readf (submsg L (decode_tc_Duration L G)) (\<lambda>v. m\<lparr>claim_Params.durationUntilDecay := Some v\<rparr>)"
  "tc_claim_Params_switch L G 26 m = readf (submsg L (decode_tc_Duration L G)) (\<lambda>v. m\<lparr>claim_Params.durationOfDecay := Some v\<rparr>)"
  "tc_claim_Params_switch L G 34 m = readf (r_string L) (\<lambda>v. m\<lparr>claim_Params.claimDenom := v\<rparr>)"
  "tc_claim_Params_switch L G 42 m = readf (submsg L (decode_tc_Coin L G)) (\<lambda>v. m\<lparr>claim_Params.initialGasAmount := Some v\<rparr>)"
  by (simp_all add: tc_claim_Params_switch_def)

sublocale long_wire_laws \<subseteq> tc_claim_Params_codec: message_codec L F out inp "encode_tc_claim_Params L" "tc_claim_Params_switch L G" createBase_claim_Params "wf_tc_claim_Params L"
proof unfold_locales
  show good: "good_sw (tc_claim_Params_switch L G)"
    unfolding tc_claim_Params_switch_def by (intro good_swI fwd_rules)
  fix m assume "wf_tc_claim_Params L m"
  then show "codes (tc_claim_Params_switch L G) (encode_tc_claim_Params L m) createBase_claim_Params m"
    unfolding encode_tc_claim_Params_def wf_tc_claim_Params_def tc_Duration_eqs(2) tc_Coin_eqs(2) tc_Timestamp_eqs(2)
    by (elim conjE)
      (rule codes_Cons codes_Nil [OF claim_Params.equality] codec_rules
        codes_some [where tag = 10 and u = claim_Params.airdropStartTime_update and op = "read_map fromTimestamp_frac (submsg L (decode_tc_Timestamp L G))", OF good]
        codes_some [where tag = 18 and u = claim_Params.durationUntilDecay_update and op = "submsg L (decode_tc_Duration L G)", OF good]
        codes_some [where tag = 26 and u = claim_Params.durationOfDecay_update and op = "submsg L (decode_tc_Duration L G)", OF good]
        codes_when [where tag = 34 and u = claim_Params.claimDenom_update and op = "r_string L", OF good]
        codes_some [where tag = 42 and u = claim_Params.initialGasAmount_update and op = "submsg L (decode_tc_Coin L G)", OF good]
      | assumption | (simp add: tc_claim_Params_tags createBase_claim_Params_def; fail))+
qed

context long_wire_laws
begin

lemmas tc_claim_Params_carries [codec_rules] =
  tc_claim_Params_codec.opt_carries [folded decode_tc_claim_Params_def [unfolded tc_claim_Params_eqs(1)]] tc_claim_Params_codec.list_carries [folded decode_tc_claim_Params_def [unfolded tc_claim_Params_eqs(1)]]

lemmas tc_claim_Params_good [fwd_rules] = tc_claim_Params_codec.op_good [folded decode_tc_claim_Params_def [unfolded tc_claim_Params_eqs(1)]]

lemmas tc_claim_Params_roundtrip = tc_claim_Params_codec.roundtrip [folded decode_tc_claim_Params_def [unfolded tc_claim_Params_eqs(1)]]

lemmas tc_claim_Params_returns = tc_claim_Params_codec.decode_returns [folded decode_tc_claim_Params_def [unfolded tc_claim_Params_eqs(1)]]

end

interpretation tc_claim_Params_json: message_json toJSON_tc_claim_Params fromJSON_tc_claim_Params wfj_claim_Params
proof unfold_locales
  fix h m
  assume "wfj_claim_Params m"
  then show "json_rt (toJSON_tc_claim_Params h) (fromJSON_tc_claim_Params h) m"
    unfolding toJSON_tc_claim_Params_def fromJSON_tc_claim_Params_def wfj_claim_Params_def
    by (elim conjE) (rule json_rtI json_rules | assumption | (simp; fail))+
qed

lemmas tc_claim_Params_json_rules [json_rules] = tc_claim_Params_json.json_list_rules

lemma tc_claim_GenesisState_eqs:
  "createBase_tc_claim_GenesisState = createBase_claim_GenesisState"
  "fromPartial_tc_claim_GenesisState = fromPartial_claim_GenesisState"
  by (simp_all add: fun_eq_iff createBase_tc_claim_GenesisState_def createBase_claim_GenesisState_def
      fromPartial_tc_claim_GenesisState_def fromPartial_claim_GenesisState_def tc_ClaimRecord_eqs tc_Coin_eqs tc_claim_Params_eqs)

lemma tc_claim_GenesisState_tags:
  "tc_claim_GenesisState_switch L G 10 m = readf (submsg L (decode_tc_Coin L G)) (\<lambda>v. m\<lparr>claim_GenesisState.moduleAccountBalance := Some v\<rparr>)"
  "tc_claim_GenesisState_switch L G 18 m = readf (submsg L (decode_tc_claim_Params L G)) (\<lambda>v. m\<lparr>claim_GenesisState.params := Some v\<rparr>)"
  "tc_claim_GenesisState_switch L G 26 m = readf (submsg L (decode_tc_ClaimRecord L G)) (\<lambda>v. m\<lparr>claim_GenesisState.claimRecords := claim_GenesisState.claimRecords m @ [v]\<rparr>)"
  by (simp_all add: tc_claim_GenesisState_switch_def)

sublocale long_wire_laws \<subseteq> tc_claim_GenesisState_codec: message_codec L F out inp "encode_tc_claim_GenesisState L" "tc_claim_GenesisState_switch L G" createBase_claim_GenesisState "wf_tc_claim_GenesisState L"
proof unfold_locales
  show good: "good_sw (tc_claim_GenesisState_switch L G)"
    unfolding tc_claim_GenesisState_switch_def by (intro good_swI fwd_rules)
  fix m assume "wf_tc_claim_GenesisState L m"
  then show "codes (tc_claim_GenesisState_switch L G) (encode_tc_claim_GenesisState L m) createBase_claim_GenesisState m"
    unfolding encode_tc_claim_GenesisState_def wf_tc_claim_GenesisState_def tc_Coin_eqs(2) tc_ClaimRecord_eqs(2)
    by (elim conjE)
      (rule codes_Cons codes_Nil [OF claim_GenesisState.equality] codec_rules
        codes_some [where tag = 10 and u = claim_GenesisState.moduleAccountBalance_update and op = "submsg L (decode_tc_Coin L G)", OF good]
        codes_some [where tag = 18 and u = claim_GenesisState.params_update and op = "submsg L (decode_tc_claim_Params L G)", OF good]
        codes_for [where tag = 26 and u = claim_GenesisState.claimRecords_update and op = "submsg L (decode_tc_ClaimRecord L G)", OF good]
      | assumption | (simp add: tc_claim_GenesisState_tags createBase_claim_GenesisState_def; fail))+
qed

context long_wire_laws
begin

lemmas tc_claim_GenesisState_roundtrip = tc_claim_GenesisState_codec.roundtrip [folded decode_tc_claim_GenesisState_def [unfolded tc_claim_GenesisState_eqs(1)]]

lemmas tc_claim_GenesisState_returns = tc_claim_GenesisState_codec.decode_returns [folded decode_tc_claim_GenesisState_def [unfolded tc_claim_GenesisState_eqs(1)]]

end

interpretation tc_claim_GenesisState_json: message_json toJSON_tc_claim_GenesisState fromJSON_tc_claim_GenesisState wfj_claim_GenesisState
proof unfold_locales
  fix h m
  assume "wfj_claim_GenesisState m"
  then show "json_rt (toJSON_tc_claim_GenesisState h) (fromJSON_tc_claim_GenesisState h) m"
    unfolding toJSON_tc_claim_GenesisState_def fromJSON_tc_claim_GenesisState_def wfj_claim_GenesisState_def
    by (elim conjE) (rule json_rtI json_rules | assumption | (simp; fail))+
qed

lemmas TcClaim_eqs =
  tc_Duration_eqs(3,4) tc_ClaimRecord_eqs(3,4)

context long_wire_laws
begin

lemmas TcClaim_interop =
  tc_Duration_interop tc_ClaimRecord_interop

end

end
