(* ===== verification/TcClaimTx.thy ===== *)
theory TcClaimTx
  imports TcClaim ClaimTx ClaimQuery
begin

unbundle bit_operations_syntax

text \<open>
  The transactions and queries of the claim module in \<open>ts-client\<close>.
\<close>


section \<open>ts-client/arkeo.claim/types/arkeo/claim/tx.ts\<close>

subsection \<open>MsgClaimEth\<close>

record tc_MsgClaimEth =
  creator :: bytes
  ethAddress :: jsstring
  signature :: jsstring

definition createBase_tc_MsgClaimEth :: tc_MsgClaimEth where
  "createBase_tc_MsgClaimEth = \<lparr>tc_MsgClaimEth.creator = [],
     tc_MsgClaimEth.ethAddress = [],
     tc_MsgClaimEth.signature = []\<rparr>"

definition encode_tc_MsgClaimEth :: "('w, 'r) wire \<Rightarrow> tc_MsgClaimEth \<Rightarrow> 'w \<Rightarrow> 'w result" where
  "encode_tc_MsgClaimEth L message = seqE
    [whenE (length (tc_MsgClaimEth.creator message) \<noteq> 0) (seqE [w_uint32 L 10, w_bytes L (tc_MsgClaimEth.creator message)]),
     whenE (tc_MsgClaimEth.ethAddress message \<noteq> []) (seqE [w_uint32 L 18, w_string L (tc_MsgClaimEth.ethAddress message)]),
     whenE (tc_MsgClaimEth.signature message \<noteq> []) (seqE [w_uint32 L 26, w_string L (tc_MsgClaimEth.signature message)])]"

definition tc_MsgClaimEth_switch :: "('w, 'r) wire \<Rightarrow> long_lib \<Rightarrow> u32 \<Rightarrow> tc_MsgClaimEth \<Rightarrow> (tc_MsgClaimEth, 'r) action" where
  "tc_MsgClaimEth_switch L G tag message = js_switch (drop_bit 3 tag)
    [(1, readf (r_bytes L) (\<lambda>v. message\<lparr>tc_MsgClaimEth.creator := v\<rparr>)),
     (2, readf (r_string L) (\<lambda>v. message\<lparr>tc_MsgClaimEth.ethAddress := v\<rparr>)),
     (3, readf (r_string L) (\<lambda>v. message\<lparr>tc_MsgClaimEth.signature := v\<rparr>))]
    (skipType L tag message)"

definition decode_tc_MsgClaimEth :: "('w, 'r) wire \<Rightarrow> long_lib \<Rightarrow> 'r input \<Rightarrow> nat option \<Rightarrow> (tc_MsgClaimEth \<times> 'r) result" where
  "decode_tc_MsgClaimEth L G = decode_msg L (tc_MsgClaimEth_switch L G) createBase_tc_MsgClaimEth"

definition fromJSON_tc_MsgClaimEth :: "host \<Rightarrow> jsval \<Rightarrow> tc_MsgClaimEth result" where
  "fromJSON_tc_MsgClaimEth h object =
     bindE (fieldE object ''creator'' (bytesFromBase64 h) []) (\<lambda>v_creator.
     bindE (fieldE object ''ethAddress'' (stringE h) []) (\<lambda>v_ethAddress.
     bindE (fieldE object ''signature'' (stringE h) []) (\<lambda>v_signature.
     Inr \<lparr>tc_MsgClaimEth.creator = v_creator, tc_MsgClaimEth.ethAddress = v_ethAddress, tc_MsgClaimEth.signature = v_signature\<rparr>)))"

definition toJSON_tc_MsgClaimEth :: "host \<Rightarrow> tc_MsgClaimEth \<Rightarrow> jsval result" where
  "toJSON_tc_MsgClaimEth h message = objE
    [jfieldE True ''creator'' (base64E h (tc_MsgClaimEth.creator message)),
     jfieldE True ''ethAddress'' (Inr (JString (tc_MsgClaimEth.ethAddress message))),
     jfieldE True ''signature'' (Inr (JString (tc_MsgClaimEth.signature message)))]"

record tc_MsgClaimEth_Partial =
  creator :: "bytes option"
  ethAddress :: "jsstring option"
  signature :: "jsstring option"

definition fromPartial_tc_MsgClaimEth :: "tc_MsgClaimEth_Partial \<Rightarrow> tc_MsgClaimEth" where
  "fromPartial_tc_MsgClaimEth object = createBase_tc_MsgClaimEth\<lparr>tc_MsgClaimEth.creator := nullish (tc_MsgClaimEth_Partial.creator object) [],
     tc_MsgClaimEth.ethAddress := nullish (tc_MsgClaimEth_Partial.ethAddress object) [],
     tc_MsgClaimEth.signature := nullish (tc_MsgClaimEth_Partial.signature object) []\<rparr>"

text \<open>A partial message that sets every field.\<close>

definition partial_of_tc_MsgClaimEth :: "tc_MsgClaimEth \<Rightarrow> tc_MsgClaimEth_Partial" where
  "partial_of_tc_MsgClaimEth m =
     \<lparr>tc_MsgClaimEth_Partial.creator = Some (tc_MsgClaimEth.creator m),
      tc_MsgClaimEth_Partial.ethAddress = Some (tc_MsgClaimEth.ethAddress m),
      tc_MsgClaimEth_Partial.signature = Some (tc_MsgClaimEth.signature m)\<rparr>"

definition wf_tc_MsgClaimEth :: "('w, 'r) wire \<Rightarrow> tc_MsgClaimEth \<Rightarrow> bool" where
  "wf_tc_MsgClaimEth L m \<longleftrightarrow> wire_bytes (tc_MsgClaimEth.creator m)
     \<and> wire_string (tc_MsgClaimEth.ethAddress m)
     \<and> wire_string (tc_MsgClaimEth.signature m)"

definition wfj_tc_MsgClaimEth :: "tc_MsgClaimEth \<Rightarrow> bool" where
  "wfj_tc_MsgClaimEth m \<longleftrightarrow> True"

subsection \<open>MsgClaimEthResponse\<close>

datatype tc_MsgClaimEthResponse = tc_MsgClaimEthResponse

definition createBase_tc_MsgClaimEthResponse :: tc_MsgClaimEthResponse where
  "createBase_tc_MsgClaimEthResponse = tc_MsgClaimEthResponse"

definition encode_tc_MsgClaimEthResponse :: "('w, 'r) wire \<Rightarrow> tc_MsgClaimEthResponse \<Rightarrow> 'w \<Rightarrow> 'w result" where
  "encode_tc_MsgClaimEthResponse L message = seqE
    []"

definition tc_MsgClaimEthResponse_switch :: "('w, 'r) wire \<Rightarrow> long_lib \<Rightarrow> u32 \<Rightarrow> tc_MsgClaimEthResponse \<Rightarrow> (tc_MsgClaimEthResponse, 'r) action" where
  "tc_MsgClaimEthResponse_switch L G tag message = js_switch (drop_bit 3 tag)
    []
    (skipType L tag message)"

definition decode_tc_MsgClaimEthResponse :: "('w, 'r) wire \<Rightarrow> long_lib \<Rightarrow> 'r input \<Rightarrow> nat option \<Rightarrow> (tc_MsgClaimEthResponse \<times> 'r) result" where
  "decode_tc_MsgClaimEthResponse L G = decode_msg L (tc_MsgClaimEthResponse_switch L G) createBase_tc_MsgClaimEthResponse"

definition fromJSON_tc_MsgClaimEthResponse :: "host \<Rightarrow> jsval \<Rightarrow> tc_MsgClaimEthResponse result" where
  "fromJSON_tc_MsgClaimEthResponse h object =
     Inr tc_MsgClaimEthResponse"

definition toJSON_tc_MsgClaimEthResponse :: "host \<Rightarrow> tc_MsgClaimEthResponse \<Rightarrow> jsval result" where
  "toJSON_tc_MsgClaimEthResponse h message = objE
    []"

definition fromPartial_tc_MsgClaimEthResponse :: "tc_MsgClaimEthResponse \<Rightarrow> tc_MsgClaimEthResponse" where
  "fromPartial_tc_MsgClaimEthResponse object = createBase_tc_MsgClaimEthResponse"

definition wf_tc_MsgClaimEthResponse :: "('w, 'r) wire \<Rightarrow> tc_MsgClaimEthResponse \<Rightarrow> bool" where
  "wf_tc_MsgClaimEthResponse L m \<longleftrightarrow> True"

definition wfj_tc_MsgClaimEthResponse :: "tc_MsgClaimEthResponse \<Rightarrow> bool" where
  "wfj_tc_MsgClaimEthResponse m \<longleftrightarrow> True"

subsection \<open>MsgClaimArkeo\<close>

record tc_MsgClaimArkeo =
  creator :: bytes

definition createBase_tc_MsgClaimArkeo :: tc_MsgClaimArkeo where
  "createBase_tc_MsgClaimArkeo = \<lparr>tc_MsgClaimArkeo.creator = []\<rparr>"

definition encode_tc_MsgClaimArkeo :: "('w, 'r) wire \<Rightarrow> tc_MsgClaimArkeo \<Rightarrow> 'w \<Rightarrow> 'w result" where
  "encode_tc_MsgClaimArkeo L message = seqE
    [whenE (length (tc_MsgClaimArkeo.creator message) \<noteq> 0) (seqE [w_uint32 L 10, w_bytes L (tc_MsgClaimArkeo.creator message)])]"

definition tc_MsgClaimArkeo_switch :: "('w, 'r) wire \<Rightarrow> long_lib \<Rightarrow> u32 \<Rightarrow> tc_MsgClaimArkeo \<Rightarrow> (tc_MsgClaimArkeo, 'r) action" where
  "tc_MsgClaimArkeo_switch L G tag message = js_switch (drop_bit 3 tag)
    [(1, readf (r_bytes L) (\<lambda>v. message\<lparr>tc_MsgClaimArkeo.creator := v\<rparr>))]
    (skipType L tag message)"

definition decode_tc_MsgClaimArkeo :: "('w, 'r) wire \<Rightarrow> long_lib \<Rightarrow> 'r input \<Rightarrow> nat option \<Rightarrow> (tc_MsgClaimArkeo \<times> 'r) result" where
  "decode_tc_MsgClaimArkeo L G = decode_msg L (tc_MsgClaimArkeo_switch L G) createBase_tc_MsgClaimArkeo"

definition fromJSON_tc_MsgClaimArkeo :: "host \<Rightarrow> jsval \<Rightarrow> tc_MsgClaimArkeo result" where
  "fromJSON_tc_MsgClaimArkeo h object =
     bindE (fieldE object ''creator'' (bytesFromBase64 h) []) (\<lambda>v_creator.
     Inr \<lparr>tc_MsgClaimArkeo.creator = v_creator\<rparr>)"

definition toJSON_tc_MsgClaimArkeo :: "host \<Rightarrow> tc_MsgClaimArkeo \<Rightarrow> jsval result" where
  "toJSON_tc_MsgClaimArkeo h message = objE
    [jfieldE True ''creator'' (base64E h (tc_MsgClaimArkeo.creator message))]"

record tc_MsgClaimArkeo_Partial =
  creator :: "bytes option"

definition fromPartial_tc_MsgClaimArkeo :: "tc_MsgClaimArkeo_Partial \<Rightarrow> tc_MsgClaimArkeo" where
  "fromPartial_tc_MsgClaimArkeo object = createBase_tc_MsgClaimArkeo\<lparr>tc_MsgClaimArkeo.creator := nullish (tc_MsgClaimArkeo_Partial.creator object) []\<rparr>"

text \<open>A partial message that sets every field.\<close>

definition partial_of_tc_MsgClaimArkeo :: "tc_MsgClaimArkeo \<Rightarrow> tc_MsgClaimArkeo_Partial" where
  "partial_of_tc_MsgClaimArkeo m =
     \<lparr>tc_MsgClaimArkeo_Partial.creator = Some (tc_MsgClaimArkeo.creator m)\<rparr>"

definition wf_tc_MsgClaimArkeo :: "('w, 'r) wire \<Rightarrow> tc_MsgClaimArkeo \<Rightarrow> bool" where
  "wf_tc_MsgClaimArkeo L m \<longleftrightarrow> wire_bytes (tc_MsgClaimArkeo.creator m)"

definition wfj_tc_MsgClaimArkeo :: "tc_MsgClaimArkeo \<Rightarrow> bool" where
  "wfj_tc_MsgClaimArkeo m \<longleftrightarrow> True"

subsection \<open>MsgClaimArkeoResponse\<close>

datatype tc_MsgClaimArkeoResponse = tc_MsgClaimArkeoResponse

definition createBase_tc_MsgClaimArkeoResponse :: tc_MsgClaimArkeoResponse where
  "createBase_tc_MsgClaimArkeoResponse = tc_MsgClaimArkeoResponse"

definition encode_tc_MsgClaimArkeoResponse :: "('w, 'r) wire \<Rightarrow> tc_MsgClaimArkeoResponse \<Rightarrow> 'w \<Rightarrow> 'w result" where
  "encode_tc_MsgClaimArkeoResponse L message = seqE
    []"

definition tc_MsgClaimArkeoResponse_switch :: "('w, 'r) wire \<Rightarrow> long_lib \<Rightarrow> u32 \<Rightarrow> tc_MsgClaimArkeoResponse \<Rightarrow> (tc_MsgClaimArkeoResponse, 'r) action" where
  "tc_MsgClaimArkeoResponse_switch L G tag message = js_switch (drop_bit 3 tag)
    []
    (skipType L tag message)"

definition decode_tc_MsgClaimArkeoResponse :: "('w, 'r) wire \<Rightarrow> long_lib \<Rightarrow> 'r input \<Rightarrow> nat option \<Rightarrow> (tc_MsgClaimArkeoResponse \<times> 'r) result" where
  "decode_tc_MsgClaimArkeoResponse L G = decode_msg L (tc_MsgClaimArkeoResponse_switch L G) createBase_tc_MsgClaimArkeoResponse"

definition fromJSON_tc_MsgClaimArkeoResponse :: "host \<Rightarrow> jsval \<Rightarrow> tc_MsgClaimArkeoResponse result" where
  "fromJSON_tc_MsgClaimArkeoResponse h object =
     Inr tc_MsgClaimArkeoResponse"

definition toJSON_tc_MsgClaimArkeoResponse :: "host \<Rightarrow> tc_MsgClaimArkeoResponse \<Rightarrow> jsval result" where
  "toJSON_tc_MsgClaimArkeoResponse h message = objE
    []"

definition fromPartial_tc_MsgClaimArkeoResponse :: "tc_MsgClaimArkeoResponse \<Rightarrow> tc_MsgClaimArkeoResponse" where
  "fromPartial_tc_MsgClaimArkeoResponse object = createBase_tc_MsgClaimArkeoResponse"

definition wf_tc_MsgClaimArkeoResponse :: "('w, 'r) wire \<Rightarrow> tc_MsgClaimArkeoResponse \<Rightarrow> bool" where
  "wf_tc_MsgClaimArkeoResponse L m \<longleftrightarrow> True"

definition wfj_tc_MsgClaimArkeoResponse :: "tc_MsgClaimArkeoResponse \<Rightarrow> bool" where
  "wfj_tc_MsgClaimArkeoResponse m \<longleftrightarrow> True"

subsection \<open>MsgTransferClaim\<close>

record tc_MsgTransferClaim =
  creator :: bytes
  toAddress :: bytes

definition createBase_tc_MsgTransferClaim :: tc_MsgTransferClaim where
  "createBase_tc_MsgTransferClaim = \<lparr>tc_MsgTransferClaim.creator = [],
     tc_MsgTransferClaim.toAddress = []\<rparr>"

definition encode_tc_MsgTransferClaim :: "('w, 'r) wire \<Rightarrow> tc_MsgTransferClaim \<Rightarrow> 'w \<Rightarrow> 'w result" where
  "encode_tc_MsgTransferClaim L message = seqE
    [whenE (length (tc_MsgTransferClaim.creator message) \<noteq> 0) (seqE [w_uint32 L 10, w_bytes L (tc_MsgTransferClaim.creator message)]),
     whenE (length (tc_MsgTransferClaim.toAddress message) \<noteq> 0) (seqE [w_uint32 L 18, w_bytes L (tc_MsgTransferClaim.toAddress message)])]"

definition tc_MsgTransferClaim_switch :: "('w, 'r) wire \<Rightarrow> long_lib \<Rightarrow> u32 \<Rightarrow> tc_MsgTransferClaim \<Rightarrow> (tc_MsgTransferClaim, 'r) action" where
  "tc_MsgTransferClaim_switch L G tag message = js_switch (drop_bit 3 tag)
    [(1, readf (r_bytes L) (\<lambda>v. message\<lparr>tc_MsgTransferClaim.creator := v\<rparr>)),
     (2, readf (r_bytes L) (\<lambda>v. message\<lparr>tc_MsgTransferClaim.toAddress := v\<rparr>))]
    (skipType L tag message)"

definition decode_tc_MsgTransferClaim :: "('w, 'r) wire \<Rightarrow> long_lib \<Rightarrow> 'r input \<Rightarrow> nat option \<Rightarrow> (tc_MsgTransferClaim \<times> 'r) result" where
  "decode_tc_MsgTransferClaim L G = decode_msg L (tc_MsgTransferClaim_switch L G) createBase_tc_MsgTransferClaim"

definition fromJSON_tc_MsgTransferClaim :: "host \<Rightarrow> jsval \<Rightarrow> tc_MsgTransferClaim result" where
  "fromJSON_tc_MsgTransferClaim h object =
     bindE (fieldE object ''creator'' (bytesFromBase64 h) []) (\<lambda>v_creator.
     bindE (fieldE object ''toAddress'' (bytesFromBase64 h) []) (\<lambda>v_toAddress.
     Inr \<lparr>tc_MsgTransferClaim.creator = v_creator, tc_MsgTransferClaim.toAddress = v_toAddress\<rparr>))"

definition toJSON_tc_MsgTransferClaim :: "host \<Rightarrow> tc_MsgTransferClaim \<Rightarrow> jsval result" where
  "toJSON_tc_MsgTransferClaim h message = objE
    [jfieldE True ''creator'' (base64E h (tc_MsgTransferClaim.creator message)),
     jfieldE True ''toAddress'' (base64E h (tc_MsgTransferClaim.toAddress message))]"

record tc_MsgTransferClaim_Partial =
  creator :: "bytes option"
  toAddress :: "bytes option"

definition fromPartial_tc_MsgTransferClaim :: "tc_MsgTransferClaim_Partial \<Rightarrow> tc_MsgTransferClaim" where
  "fromPartial_tc_MsgTransferClaim object = createBase_tc_MsgTransferClaim\<lparr>tc_MsgTransferClaim.creator := nullish (tc_MsgTransferClaim_Partial.creator object) [],
     tc_MsgTransferClaim.toAddress := nullish (tc_MsgTransferClaim_Partial.toAddress object) []\<rparr>"

text \<open>A partial message that sets every field.\<close>

definition partial_of_tc_MsgTransferClaim :: "tc_MsgTransferClaim \<Rightarrow> tc_MsgTransferClaim_Partial" where
  "partial_of_tc_MsgTransferClaim m =
     \<lparr>tc_MsgTransferClaim_Partial.creator = Some (tc_MsgTransferClaim.creator m),
      tc_MsgTransferClaim_Partial.toAddress = Some (tc_MsgTransferClaim.toAddress m)\<rparr>"

definition wf_tc_MsgTransferClaim :: "('w, 'r) wire \<Rightarrow> tc_MsgTransferClaim \<Rightarrow> bool" where
  "wf_tc_MsgTransferClaim L m \<longleftrightarrow> wire_bytes (tc_MsgTransferClaim.creator m)
     \<and> wire_bytes (tc_MsgTransferClaim.toAddress m)"

definition wfj_tc_MsgTransferClaim :: "tc_MsgTransferClaim \<Rightarrow> bool" where
  "wfj_tc_MsgTransferClaim m \<longleftrightarrow> True"

subsection \<open>MsgTransferClaimResponse\<close>

definition createBase_tc_MsgTransferClaimResponse :: MsgTransferClaimResponse where
  "createBase_tc_MsgTransferClaimResponse = MsgTransferClaimResponse"

definition encode_tc_MsgTransferClaimResponse :: "('w, 'r) wire \<Rightarrow> MsgTransferClaimResponse \<Rightarrow> 'w \<Rightarrow> 'w result" where
  "encode_tc_MsgTransferClaimResponse L message = seqE
    []"

definition tc_MsgTransferClaimResponse_switch :: "('w, 'r) wire \<Rightarrow> long_lib \<Rightarrow> u32 \<Rightarrow> MsgTransferClaimResponse \<Rightarrow> (MsgTransferClaimResponse, 'r) action" where
  "tc_MsgTransferClaimResponse_switch L G tag message = js_switch (drop_bit 3 tag)
    []
    (skipType L tag message)"

definition decode_tc_MsgTransferClaimResponse :: "('w, 'r) wire \<Rightarrow> long_lib \<Rightarrow> 'r input \<Rightarrow> nat option \<Rightarrow> (MsgTransferClaimResponse \<times> 'r) result" where
  "decode_tc_MsgTransferClaimResponse L G = decode_msg L (tc_MsgTransferClaimResponse_switch L G) createBase_tc_MsgTransferClaimResponse"

definition fromJSON_tc_MsgTransferClaimResponse :: "host \<Rightarrow> jsval \<Rightarrow> MsgTransferClaimResponse result" where
  "fromJSON_tc_MsgTransferClaimResponse h object =
     Inr MsgTransferClaimResponse"

definition toJSON_tc_MsgTransferClaimResponse :: "host \<Rightarrow> MsgTransferClaimResponse \<Rightarrow> jsval result" where
  "toJSON_tc_MsgTransferClaimResponse h message = objE
    []"

definition fromPartial_tc_MsgTransferClaimResponse :: "MsgTransferClaimResponse \<Rightarrow> MsgTransferClaimResponse" where
  "fromPartial_tc_MsgTransferClaimResponse object = createBase_tc_MsgTransferClaimResponse"

subsection \<open>MsgAddClaim\<close>

record tc_MsgAddClaim =
  creator :: bytes
  chain :: Chain
  address :: jsstring
  amount :: number

definition createBase_tc_MsgAddClaim :: tc_MsgAddClaim where
  "createBase_tc_MsgAddClaim = \<lparr>tc_MsgAddClaim.creator = [],
     tc_MsgAddClaim.chain = Num 0,
     tc_MsgAddClaim.address = [],
     tc_MsgAddClaim.amount = Num 0\<rparr>"

definition encode_tc_MsgAddClaim :: "('w, 'r) wire \<Rightarrow> tc_MsgAddClaim \<Rightarrow> 'w \<Rightarrow> 'w result" where
  "encode_tc_MsgAddClaim L message = seqE
    [whenE (length (tc_MsgAddClaim.creator message) \<noteq> 0) (seqE [w_uint32 L 10, w_bytes L (tc_MsgAddClaim.creator message)]),
     whenE (tc_MsgAddClaim.chain message \<noteq> Num 0) (seqE [w_uint32 L 16, w_int32 L (tc_MsgAddClaim.chain message)]),
     whenE (tc_MsgAddClaim.address message \<noteq> []) (seqE [w_uint32 L 26, w_string L (tc_MsgAddClaim.address message)]),
     whenE (tc_MsgAddClaim.amount message \<noteq> Num 0) (seqE [w_uint32 L 32, w_int64 L (tc_MsgAddClaim.amount message)])]"

definition tc_MsgAddClaim_switch :: "('w, 'r) wire \<Rightarrow> long_lib \<Rightarrow> u32 \<Rightarrow> tc_MsgAddClaim \<Rightarrow> (tc_MsgAddClaim, 'r) action" where
  "tc_MsgAddClaim_switch L G tag message = js_switch (drop_bit 3 tag)
    [(1, readf (r_bytes L) (\<lambda>v. message\<lparr>tc_MsgAddClaim.creator := v\<rparr>)),
     (2, readf (num32 (r_int32 L)) (\<lambda>v. message\<lparr>tc_MsgAddClaim.chain := v\<rparr>)),
     (3, readf (r_string L) (\<lambda>v. message\<lparr>tc_MsgAddClaim.address := v\<rparr>)),
     (4, readf (num64l G (r_int64 L)) (\<lambda>v. message\<lparr>tc_MsgAddClaim.amount := v\<rparr>))]
    (skipType L tag message)"

definition decode_tc_MsgAddClaim :: "('w, 'r) wire \<Rightarrow> long_lib \<Rightarrow> 'r input \<Rightarrow> nat option \<Rightarrow> (tc_MsgAddClaim \<times> 'r) result" where
  "decode_tc_MsgAddClaim L G = decode_msg L (tc_MsgAddClaim_switch L G) createBase_tc_MsgAddClaim"

definition fromJSON_tc_MsgAddClaim :: "host \<Rightarrow> jsval \<Rightarrow> tc_MsgAddClaim result" where
  "fromJSON_tc_MsgAddClaim h object =
     bindE (fieldE object ''creator'' (bytesFromBase64 h) []) (\<lambda>v_creator.
     bindE (fieldE object ''chain'' (enumE tc_chainFromJSON) (Num 0)) (\<lambda>v_chain.
     bindE (fieldE object ''address'' (stringE h) []) (\<lambda>v_address.
     bindE (fieldE object ''amount'' (numberE h) (Num 0)) (\<lambda>v_amount.
     Inr \<lparr>tc_MsgAddClaim.creator = v_creator, tc_MsgAddClaim.chain = v_chain, tc_MsgAddClaim.address = v_address, tc_MsgAddClaim.amount = v_amount\<rparr>))))"

definition toJSON_tc_MsgAddClaim :: "host \<Rightarrow> tc_MsgAddClaim \<Rightarrow> jsval result" where
  "toJSON_tc_MsgAddClaim h message = objE
    [jfieldE True ''creator'' (base64E h (tc_MsgAddClaim.creator message)),
     jfieldE True ''chain'' (Inr (JString (tc_chainToJSON (tc_MsgAddClaim.chain message)))),
     jfieldE True ''address'' (Inr (JString (tc_MsgAddClaim.address message))),
     jfieldE True ''amount'' (Inr (JNumber (Math_round (tc_MsgAddClaim.amount message))))]"

record tc_MsgAddClaim_Partial =
  creator :: "bytes option"
  chain :: "Chain option"
  address :: "jsstring option"
  amount :: "number option"

definition fromPartial_tc_MsgAddClaim :: "tc_MsgAddClaim_Partial \<Rightarrow> tc_MsgAddClaim" where
  "fromPartial_tc_MsgAddClaim object = createBase_tc_MsgAddClaim\<lparr>tc_MsgAddClaim.creator := nullish (tc_MsgAddClaim_Partial.creator object) [],
     tc_MsgAddClaim.chain := nullish (tc_MsgAddClaim_Partial.chain object) (Num 0),
     tc_MsgAddClaim.address := nullish (tc_MsgAddClaim_Partial.address object) [],
     tc_MsgAddClaim.amount := nullish (tc_MsgAddClaim_Partial.amount object) (Num 0)\<rparr>"

text \<open>A partial message that sets every field.\<close>

definition partial_of_tc_MsgAddClaim :: "tc_MsgAddClaim \<Rightarrow> tc_MsgAddClaim_Partial" where
  "partial_of_tc_MsgAddClaim m =
     \<lparr>tc_MsgAddClaim_Partial.creator = Some (tc_MsgAddClaim.creator m),
      tc_MsgAddClaim_Partial.chain = Some (tc_MsgAddClaim.chain m),
      tc_MsgAddClaim_Partial.address = Some (tc_MsgAddClaim.address m),
      tc_MsgAddClaim_Partial.amount = Some (tc_MsgAddClaim.amount m)\<rparr>"

definition wf_tc_MsgAddClaim :: "('w, 'r) wire \<Rightarrow> tc_MsgAddClaim \<Rightarrow> bool" where
  "wf_tc_MsgAddClaim L m \<longleftrightarrow> wire_bytes (tc_MsgAddClaim.creator m)
     \<and> int32_num (tc_MsgAddClaim.chain m)
     \<and> wire_string (tc_MsgAddClaim.address m)
     \<and> safe_int (tc_MsgAddClaim.amount m)"

definition wfj_tc_MsgAddClaim :: "tc_MsgAddClaim \<Rightarrow> bool" where
  "wfj_tc_MsgAddClaim m \<longleftrightarrow> Chain_known (tc_MsgAddClaim.chain m)
     \<and> whole (tc_MsgAddClaim.amount m)"

subsection \<open>MsgAddClaimResponse\<close>

definition createBase_tc_MsgAddClaimResponse :: MsgAddClaimResponse where
  "createBase_tc_MsgAddClaimResponse = MsgAddClaimResponse"

definition encode_tc_MsgAddClaimResponse :: "('w, 'r) wire \<Rightarrow> MsgAddClaimResponse \<Rightarrow> 'w \<Rightarrow> 'w result" where
  "encode_tc_MsgAddClaimResponse L message = seqE
    []"

definition tc_MsgAddClaimResponse_switch :: "('w, 'r) wire \<Rightarrow> long_lib \<Rightarrow> u32 \<Rightarrow> MsgAddClaimResponse \<Rightarrow> (MsgAddClaimResponse, 'r) action" where
  "tc_MsgAddClaimResponse_switch L G tag message = js_switch (drop_bit 3 tag)
    []
    (skipType L tag message)"

definition decode_tc_MsgAddClaimResponse :: "('w, 'r) wire \<Rightarrow> long_lib \<Rightarrow> 'r input \<Rightarrow> nat option \<Rightarrow> (MsgAddClaimResponse \<times> 'r) result" where
  "decode_tc_MsgAddClaimResponse L G = decode_msg L (tc_MsgAddClaimResponse_switch L G) createBase_tc_MsgAddClaimResponse"

definition fromJSON_tc_MsgAddClaimResponse :: "host \<Rightarrow> jsval \<Rightarrow> MsgAddClaimResponse result" where
  "fromJSON_tc_MsgAddClaimResponse h object =
     Inr MsgAddClaimResponse"

definition toJSON_tc_MsgAddClaimResponse :: "host \<Rightarrow> MsgAddClaimResponse \<Rightarrow> jsval result" where
  "toJSON_tc_MsgAddClaimResponse h message = objE
    []"

definition fromPartial_tc_MsgAddClaimResponse :: "MsgAddClaimResponse \<Rightarrow> MsgAddClaimResponse" where
  "fromPartial_tc_MsgAddClaimResponse object = createBase_tc_MsgAddClaimResponse"


section \<open>ts-client/arkeo.claim/types/arkeo/claim/query.ts\<close>

subsection \<open>QueryParamsRequest\<close>

definition createBase_tc_claim_QueryParamsRequest :: claim_QueryParamsRequest where
  "createBase_tc_claim_QueryParamsRequest = claim_QueryParamsRequest"

definition encode_tc_claim_QueryParamsRequest :: "('w, 'r) wire \<Rightarrow> claim_QueryParamsRequest \<Rightarrow> 'w \<Rightarrow> 'w result" where
  "encode_tc_claim_QueryParamsRequest L message = seqE
    []"

definition tc_claim_QueryParamsRequest_switch :: "('w, 'r) wire \<Rightarrow> long_lib \<Rightarrow> u32 \<Rightarrow> claim_QueryParamsRequest \<Rightarrow> (claim_QueryParamsRequest, 'r) action" where
  "tc_claim_QueryParamsRequest_switch L G tag message = js_switch (drop_bit 3 tag)
    []
    (skipType L tag message)"

definition decode_tc_claim_QueryParamsRequest :: "('w, 'r) wire \<Rightarrow> long_lib \<Rightarrow> 'r input \<Rightarrow> nat option \<Rightarrow> (claim_QueryParamsRequest \<times> 'r) result" where
  "decode_tc_claim_QueryParamsRequest L G = decode_msg L (tc_claim_QueryParamsRequest_switch L G) createBase_tc_claim_QueryParamsRequest"

definition fromJSON_tc_claim_QueryParamsRequest :: "host \<Rightarrow> jsval \<Rightarrow> claim_QueryParamsRequest result" where
  "fromJSON_tc_claim_QueryParamsRequest h object =
     Inr claim_QueryParamsRequest"

definition toJSON_tc_claim_QueryParamsRequest :: "host \<Rightarrow> claim_QueryParamsRequest \<Rightarrow> jsval result" where
  "toJSON_tc_claim_QueryParamsRequest h message = objE
    []"

definition fromPartial_tc_claim_QueryParamsRequest :: "claim_QueryParamsRequest \<Rightarrow> claim_QueryParamsRequest" where
  "fromPartial_tc_claim_QueryParamsRequest object = createBase_tc_claim_QueryParamsRequest"

subsection \<open>QueryParamsResponse\<close>

definition createBase_tc_claim_QueryParamsResponse :: claim_QueryParamsResponse where
  "createBase_tc_claim_QueryParamsResponse = \<lparr>claim_QueryParamsResponse.params = None\<rparr>"

definition encode_tc_claim_QueryParamsResponse :: "('w, 'r) wire \<Rightarrow> claim_QueryParamsResponse \<Rightarrow> 'w \<Rightarrow> 'w result" where
  "encode_tc_claim_QueryParamsResponse L message = seqE
    [someE (claim_QueryParamsResponse.params message) (\<lambda>v. seqE [w_uint32 L 10, w_fork L, encode_tc_claim_Params L v, w_join L])]"

definition tc_claim_QueryParamsResponse_switch :: "('w, 'r) wire \<Rightarrow> long_lib \<Rightarrow> u32 \<Rightarrow> claim_QueryParamsResponse \<Rightarrow> (claim_QueryParamsResponse, 'r) action" where
  "tc_claim_QueryParamsResponse_switch L G tag message = js_switch (drop_bit 3 tag)
    [(1, readf (submsg L (decode_tc_claim_Params L G)) (\<lambda>v. message\<lparr>claim_QueryParamsResponse.params := Some v\<rparr>))]
    (skipType L tag message)"

definition decode_tc_claim_QueryParamsResponse :: "('w, 'r) wire \<Rightarrow> long_lib \<Rightarrow> 'r input \<Rightarrow> nat option \<Rightarrow> (claim_QueryParamsResponse \<times> 'r) result" where
  "decode_tc_claim_QueryParamsResponse L G = decode_msg L (tc_claim_QueryParamsResponse_switch L G) createBase_tc_claim_QueryParamsResponse"

definition fromJSON_tc_claim_QueryParamsResponse :: "host \<Rightarrow> jsval \<Rightarrow> claim_QueryParamsResponse result" where
  "fromJSON_tc_claim_QueryParamsResponse h object =
     bindE (optE object ''params'' (fromJSON_tc_claim_Params h)) (\<lambda>v_params.
     Inr \<lparr>claim_QueryParamsResponse.params = v_params\<rparr>)"

definition toJSON_tc_claim_QueryParamsResponse :: "host \<Rightarrow> claim_QueryParamsResponse \<Rightarrow> jsval result" where
  "toJSON_tc_claim_QueryParamsResponse h message = objE
    [joptE ''params'' (toJSON_tc_claim_Params h) (claim_QueryParamsResponse.params message)]"

definition fromPartial_tc_claim_QueryParamsResponse :: "claim_QueryParamsResponse_Partial \<Rightarrow> claim_QueryParamsResponse" where
  "fromPartial_tc_claim_QueryParamsResponse object = createBase_tc_claim_QueryParamsResponse\<lparr>claim_QueryParamsResponse.params := map_option fromPartial_tc_claim_Params (claim_QueryParamsResponse_Partial.params object)\<rparr>"

definition wf_tc_claim_QueryParamsResponse :: "('w, 'r) wire \<Rightarrow> claim_QueryParamsResponse \<Rightarrow> bool" where
  "wf_tc_claim_QueryParamsResponse L m \<longleftrightarrow> pred_option (\<lambda>v. wf_tc_claim_Params L v \<and> fits L (encode_tc_claim_Params L v)) (claim_QueryParamsResponse.params m)"

subsection \<open>QueryClaimRecordRequest\<close>

definition createBase_tc_QueryClaimRecordRequest :: QueryClaimRecordRequest where
  "createBase_tc_QueryClaimRecordRequest = \<lparr>QueryClaimRecordRequest.address = [],
     QueryClaimRecordRequest.chain = Num 0\<rparr>"

definition encode_tc_QueryClaimRecordRequest :: "('w, 'r) wire \<Rightarrow> QueryClaimRecordRequest \<Rightarrow> 'w \<Rightarrow> 'w result" where
  "encode_tc_QueryClaimRecordRequest L message = seqE
    [whenE (QueryClaimRecordRequest.address message \<noteq> []) (seqE [w_uint32 L 10, w_string L (QueryClaimRecordRequest.address message)]),
     whenE (QueryClaimRecordRequest.chain message \<noteq> Num 0) (seqE [w_uint32 L 16, w_int32 L (QueryClaimRecordRequest.chain message)])]"

definition tc_QueryClaimRecordRequest_switch :: "('w, 'r) wire \<Rightarrow> long_lib \<Rightarrow> u32 \<Rightarrow> QueryClaimRecordRequest \<Rightarrow> (QueryClaimRecordRequest, 'r) action" where
  "tc_QueryClaimRecordRequest_switch L G tag message = js_switch (drop_bit 3 tag)
    [(1, readf (r_string L) (\<lambda>v. message\<lparr>QueryClaimRecordRequest.address := v\<rparr>)),
     (2, readf (num32 (r_int32 L)) (\<lambda>v. message\<lparr>QueryClaimRecordRequest.chain := v\<rparr>))]
    (skipType L tag message)"

definition decode_tc_QueryClaimRecordRequest :: "('w, 'r) wire \<Rightarrow> long_lib \<Rightarrow> 'r input \<Rightarrow> nat option \<Rightarrow> (QueryClaimRecordRequest \<times> 'r) result" where
  "decode_tc_QueryClaimRecordRequest L G = decode_msg L (tc_QueryClaimRecordRequest_switch L G) createBase_tc_QueryClaimRecordRequest"

definition fromJSON_tc_QueryClaimRecordRequest :: "host \<Rightarrow> jsval \<Rightarrow> QueryClaimRecordRequest result" where
  "fromJSON_tc_QueryClaimRecordRequest h object =
     bindE (fieldE object ''address'' (stringE h) []) (\<lambda>v_address.
     bindE (fieldE object ''chain'' (enumE tc_chainFromJSON) (Num 0)) (\<lambda>v_chain.
     Inr \<lparr>QueryClaimRecordRequest.address = v_address, QueryClaimRecordRequest.chain = v_chain\<rparr>))"

definition toJSON_tc_QueryClaimRecordRequest :: "host \<Rightarrow> QueryClaimRecordRequest \<Rightarrow> jsval result" where
  "toJSON_tc_QueryClaimRecordRequest h message = objE
    [jfieldE True ''address'' (Inr (JString (QueryClaimRecordRequest.address message))),
     jfieldE True ''chain'' (Inr (JString (tc_chainToJSON (QueryClaimRecordRequest.chain message))))]"

definition fromPartial_tc_QueryClaimRecordRequest :: "QueryClaimRecordRequest_Partial \<Rightarrow> QueryClaimRecordRequest" where
  "fromPartial_tc_QueryClaimRecordRequest object = createBase_tc_QueryClaimRecordRequest\<lparr>QueryClaimRecordRequest.address := nullish (QueryClaimRecordRequest_Partial.address object) [],
     QueryClaimRecordRequest.chain := nullish (QueryClaimRecordRequest_Partial.chain object) (Num 0)\<rparr>"

subsection \<open>QueryClaimRecordResponse\<close>

definition createBase_tc_QueryClaimRecordResponse :: QueryClaimRecordResponse where
  "createBase_tc_QueryClaimRecordResponse = \<lparr>QueryClaimRecordResponse.claimRecord = None\<rparr>"

definition encode_tc_QueryClaimRecordResponse :: "('w, 'r) wire \<Rightarrow> QueryClaimRecordResponse \<Rightarrow> 'w \<Rightarrow> 'w result" where
  "encode_tc_QueryClaimRecordResponse L message = seqE
    [someE (QueryClaimRecordResponse.claimRecord message) (\<lambda>v. seqE [w_uint32 L 10, w_fork L, encode_tc_ClaimRecord L v, w_join L])]"

definition tc_QueryClaimRecordResponse_switch :: "('w, 'r) wire \<Rightarrow> long_lib \<Rightarrow> u32 \<Rightarrow> QueryClaimRecordResponse \<Rightarrow> (QueryClaimRecordResponse, 'r) action" where
  "tc_QueryClaimRecordResponse_switch L G tag message = js_switch (drop_bit 3 tag)
    [(1, readf (submsg L (decode_tc_ClaimRecord L G)) (\<lambda>v. message\<lparr>QueryClaimRecordResponse.claimRecord := Some v\<rparr>))]
    (skipType L tag message)"

definition decode_tc_QueryClaimRecordResponse :: "('w, 'r) wire \<Rightarrow> long_lib \<Rightarrow> 'r input \<Rightarrow> nat option \<Rightarrow> (QueryClaimRecordResponse \<times> 'r) result" where
  "decode_tc_QueryClaimRecordResponse L G = decode_msg L (tc_QueryClaimRecordResponse_switch L G) createBase_tc_QueryClaimRecordResponse"

definition fromJSON_tc_QueryClaimRecordResponse :: "host \<Rightarrow> jsval \<Rightarrow> QueryClaimRecordResponse result" where
  "fromJSON_tc_QueryClaimRecordResponse h object =
     bindE (optE object ''claimRecord'' (fromJSON_tc_ClaimRecord h)) (\<lambda>v_claimRecord.
     Inr \<lparr>QueryClaimRecordResponse.claimRecord = v_claimRecord\<rparr>)"

definition toJSON_tc_QueryClaimRecordResponse :: "host \<Rightarrow> QueryClaimRecordResponse \<Rightarrow> jsval result" where
  "toJSON_tc_QueryClaimRecordResponse h message = objE
    [joptE ''claimRecord'' (toJSON_tc_ClaimRecord h) (QueryClaimRecordResponse.claimRecord message)]"

definition fromPartial_tc_QueryClaimRecordResponse :: "QueryClaimRecordResponse_Partial \<Rightarrow> QueryClaimRecordResponse" where
  "fromPartial_tc_QueryClaimRecordResponse object = createBase_tc_QueryClaimRecordResponse\<lparr>QueryClaimRecordResponse.claimRecord := map_option fromPartial_tc_ClaimRecord (QueryClaimRecordResponse_Partial.claimRecord object)\<rparr>"


section \<open>Encoding, decoding and JSON of these messages\<close>

lemma fromPartial_partial_of_tc_MsgClaimEth [simp]: "fromPartial_tc_MsgClaimEth (partial_of_tc_MsgClaimEth m) = m"
  by (simp add: fromPartial_tc_MsgClaimEth_def partial_of_tc_MsgClaimEth_def createBase_tc_MsgClaimEth_def partial_map_def option.map_comp o_def option.map_ident)

lemma tc_MsgClaimEth_tags:
  "tc_MsgClaimEth_switch L G 10 m = readf (r_bytes L) (\<lambda>v. m\<lparr>tc_MsgClaimEth.creator := v\<rparr>)"
  "tc_MsgClaimEth_switch L G 18 m = readf (r_string L) (\<lambda>v. m\<lparr>tc_MsgClaimEth.ethAddress := v\<rparr>)"
  "tc_MsgClaimEth_switch L G 26 m = readf (r_string L) (\<lambda>v. m\<lparr>tc_MsgClaimEth.signature := v\<rparr>)"
  by (simp_all add: tc_MsgClaimEth_switch_def)

sublocale long_wire_laws \<subseteq> tc_MsgClaimEth_codec: message_codec L F out inp "encode_tc_MsgClaimEth L" "tc_MsgClaimEth_switch L G" createBase_tc_MsgClaimEth "wf_tc_MsgClaimEth L"
proof unfold_locales
  show good: "good_sw (tc_MsgClaimEth_switch L G)"
    unfolding tc_MsgClaimEth_switch_def by (intro good_swI fwd_rules)
  fix m assume "wf_tc_MsgClaimEth L m"
  then show "codes (tc_MsgClaimEth_switch L G) (encode_tc_MsgClaimEth L m) createBase_tc_MsgClaimEth m"
    unfolding encode_tc_MsgClaimEth_def wf_tc_MsgClaimEth_def
    by (elim conjE)
      (rule codes_Cons codes_Nil [OF tc_MsgClaimEth.equality] codec_rules
        codes_when [where tag = 10 and u = tc_MsgClaimEth.creator_update and op = "r_bytes L", OF good]
        codes_when [where tag = 18 and u = tc_MsgClaimEth.ethAddress_update and op = "r_string L", OF good]
        codes_when [where tag = 26 and u = tc_MsgClaimEth.signature_update and op = "r_string L", OF good]
      | assumption | (simp add: tc_MsgClaimEth_tags createBase_tc_MsgClaimEth_def; fail))+
qed

context long_wire_laws
begin

lemmas tc_MsgClaimEth_roundtrip = tc_MsgClaimEth_codec.roundtrip [folded decode_tc_MsgClaimEth_def]

lemmas tc_MsgClaimEth_returns = tc_MsgClaimEth_codec.decode_returns [folded decode_tc_MsgClaimEth_def]

end

interpretation tc_MsgClaimEth_json: message_json toJSON_tc_MsgClaimEth fromJSON_tc_MsgClaimEth wfj_tc_MsgClaimEth
proof unfold_locales
  fix h m
  assume "wfj_tc_MsgClaimEth m"
  then show "json_rt (toJSON_tc_MsgClaimEth h) (fromJSON_tc_MsgClaimEth h) m"
    unfolding toJSON_tc_MsgClaimEth_def fromJSON_tc_MsgClaimEth_def wfj_tc_MsgClaimEth_def
    by (-) (rule json_rtI json_rules | assumption | (simp; fail))+
qed

lemma fromPartial_tc_MsgClaimEthResponse_id [simp]: "fromPartial_tc_MsgClaimEthResponse = (\<lambda>m. m)"
  by (rule ext, rename_tac m, case_tac m) (simp add: fromPartial_tc_MsgClaimEthResponse_def createBase_tc_MsgClaimEthResponse_def)

sublocale long_wire_laws \<subseteq> tc_MsgClaimEthResponse_codec: message_codec L F out inp "encode_tc_MsgClaimEthResponse L" "tc_MsgClaimEthResponse_switch L G" createBase_tc_MsgClaimEthResponse "wf_tc_MsgClaimEthResponse L"
proof unfold_locales
  show good: "good_sw (tc_MsgClaimEthResponse_switch L G)"
    unfolding tc_MsgClaimEthResponse_switch_def by (intro good_swI fwd_rules)
  fix m assume "wf_tc_MsgClaimEthResponse L m"
  then show "codes (tc_MsgClaimEthResponse_switch L G) (encode_tc_MsgClaimEthResponse L m) createBase_tc_MsgClaimEthResponse m"
    unfolding encode_tc_MsgClaimEthResponse_def wf_tc_MsgClaimEthResponse_def
    by (cases m) (simp add: createBase_tc_MsgClaimEthResponse_def codes_Nil [simplified])
qed

context long_wire_laws
begin

lemmas tc_MsgClaimEthResponse_roundtrip = tc_MsgClaimEthResponse_codec.roundtrip [folded decode_tc_MsgClaimEthResponse_def]

lemmas tc_MsgClaimEthResponse_returns = tc_MsgClaimEthResponse_codec.decode_returns [folded decode_tc_MsgClaimEthResponse_def]

end

interpretation tc_MsgClaimEthResponse_json: message_json toJSON_tc_MsgClaimEthResponse fromJSON_tc_MsgClaimEthResponse wfj_tc_MsgClaimEthResponse
proof unfold_locales
  fix h m
  show "json_rt (toJSON_tc_MsgClaimEthResponse h) (fromJSON_tc_MsgClaimEthResponse h) m"
    by (cases m) (simp add: json_rt_def toJSON_tc_MsgClaimEthResponse_def fromJSON_tc_MsgClaimEthResponse_def objE_rules(1))
qed

lemma fromPartial_partial_of_tc_MsgClaimArkeo [simp]: "fromPartial_tc_MsgClaimArkeo (partial_of_tc_MsgClaimArkeo m) = m"
  by (simp add: fromPartial_tc_MsgClaimArkeo_def partial_of_tc_MsgClaimArkeo_def createBase_tc_MsgClaimArkeo_def partial_map_def option.map_comp o_def option.map_ident)

lemma tc_MsgClaimArkeo_tags:
  "tc_MsgClaimArkeo_switch L G 10 m = readf (r_bytes L) (\<lambda>v. m\<lparr>tc_MsgClaimArkeo.creator := v\<rparr>)"
  by (simp_all add: tc_MsgClaimArkeo_switch_def)

sublocale long_wire_laws \<subseteq> tc_MsgClaimArkeo_codec: message_codec L F out inp "encode_tc_MsgClaimArkeo L" "tc_MsgClaimArkeo_switch L G" createBase_tc_MsgClaimArkeo "wf_tc_MsgClaimArkeo L"
proof unfold_locales
  show good: "good_sw (tc_MsgClaimArkeo_switch L G)"
    unfolding tc_MsgClaimArkeo_switch_def by (intro good_swI fwd_rules)
  fix m assume "wf_tc_MsgClaimArkeo L m"
  then show "codes (tc_MsgClaimArkeo_switch L G) (encode_tc_MsgClaimArkeo L m) createBase_tc_MsgClaimArkeo m"
    unfolding encode_tc_MsgClaimArkeo_def wf_tc_MsgClaimArkeo_def
    by (-)
      (rule codes_Cons codes_Nil [OF tc_MsgClaimArkeo.equality] codec_rules
        codes_when [where tag = 10 and u = tc_MsgClaimArkeo.creator_update and op = "r_bytes L", OF good]
      | assumption | (simp add: tc_MsgClaimArkeo_tags createBase_tc_MsgClaimArkeo_def; fail))+
qed

context long_wire_laws
begin

lemmas tc_MsgClaimArkeo_roundtrip = tc_MsgClaimArkeo_codec.roundtrip [folded decode_tc_MsgClaimArkeo_def]

lemmas tc_MsgClaimArkeo_returns = tc_MsgClaimArkeo_codec.decode_returns [folded decode_tc_MsgClaimArkeo_def]

end

interpretation tc_MsgClaimArkeo_json: message_json toJSON_tc_MsgClaimArkeo fromJSON_tc_MsgClaimArkeo wfj_tc_MsgClaimArkeo
proof unfold_locales
  fix h m
  assume "wfj_tc_MsgClaimArkeo m"
  then show "json_rt (toJSON_tc_MsgClaimArkeo h) (fromJSON_tc_MsgClaimArkeo h) m"
    unfolding toJSON_tc_MsgClaimArkeo_def fromJSON_tc_MsgClaimArkeo_def wfj_tc_MsgClaimArkeo_def
    by (-) (rule json_rtI json_rules | assumption | (simp; fail))+
qed

lemma fromPartial_tc_MsgClaimArkeoResponse_id [simp]: "fromPartial_tc_MsgClaimArkeoResponse = (\<lambda>m. m)"
  by (rule ext, rename_tac m, case_tac m) (simp add: fromPartial_tc_MsgClaimArkeoResponse_def createBase_tc_MsgClaimArkeoResponse_def)

sublocale long_wire_laws \<subseteq> tc_MsgClaimArkeoResponse_codec: message_codec L F out inp "encode_tc_MsgClaimArkeoResponse L" "tc_MsgClaimArkeoResponse_switch L G" createBase_tc_MsgClaimArkeoResponse "wf_tc_MsgClaimArkeoResponse L"
proof unfold_locales
  show good: "good_sw (tc_MsgClaimArkeoResponse_switch L G)"
    unfolding tc_MsgClaimArkeoResponse_switch_def by (intro good_swI fwd_rules)
  fix m assume "wf_tc_MsgClaimArkeoResponse L m"
  then show "codes (tc_MsgClaimArkeoResponse_switch L G) (encode_tc_MsgClaimArkeoResponse L m) createBase_tc_MsgClaimArkeoResponse m"
    unfolding encode_tc_MsgClaimArkeoResponse_def wf_tc_MsgClaimArkeoResponse_def
    by (cases m) (simp add: createBase_tc_MsgClaimArkeoResponse_def codes_Nil [simplified])
qed

context long_wire_laws
begin

lemmas tc_MsgClaimArkeoResponse_roundtrip = tc_MsgClaimArkeoResponse_codec.roundtrip [folded decode_tc_MsgClaimArkeoResponse_def]

lemmas tc_MsgClaimArkeoResponse_returns = tc_MsgClaimArkeoResponse_codec.decode_returns [folded decode_tc_MsgClaimArkeoResponse_def]

end

interpretation tc_MsgClaimArkeoResponse_json: message_json toJSON_tc_MsgClaimArkeoResponse fromJSON_tc_MsgClaimArkeoResponse wfj_tc_MsgClaimArkeoResponse
proof unfold_locales
  fix h m
  show "json_rt (toJSON_tc_MsgClaimArkeoResponse h) (fromJSON_tc_MsgClaimArkeoResponse h) m"
    by (cases m) (simp add: json_rt_def toJSON_tc_MsgClaimArkeoResponse_def fromJSON_tc_MsgClaimArkeoResponse_def objE_rules(1))
qed

lemma fromPartial_partial_of_tc_MsgTransferClaim [simp]: "fromPartial_tc_MsgTransferClaim (partial_of_tc_MsgTransferClaim m) = m"
  by (simp add: fromPartial_tc_MsgTransferClaim_def partial_of_tc_MsgTransferClaim_def createBase_tc_MsgTransferClaim_def partial_map_def option.map_comp o_def option.map_ident)

lemma tc_MsgTransferClaim_tags:
  "tc_MsgTransferClaim_switch L G 10 m = readf (r_bytes L) (\<lambda>v. m\<lparr>tc_MsgTransferClaim.creator := v\<rparr>)"
  "tc_MsgTransferClaim_switch L G 18 m = readf (r_bytes L) (\<lambda>v. m\<lparr>tc_MsgTransferClaim.toAddress := v\<rparr>)"
  by (simp_all add: tc_MsgTransferClaim_switch_def)

sublocale long_wire_laws \<subseteq> tc_MsgTransferClaim_codec: message_codec L F out inp "encode_tc_MsgTransferClaim L" "tc_MsgTransferClaim_switch L G" createBase_tc_MsgTransferClaim "wf_tc_MsgTransferClaim L"
proof unfold_locales
  show good: "good_sw (tc_MsgTransferClaim_switch L G)"
    unfolding tc_MsgTransferClaim_switch_def by (intro good_swI fwd_rules)
  fix m assume "wf_tc_MsgTransferClaim L m"
  then show "codes (tc_MsgTransferClaim_switch L G) (encode_tc_MsgTransferClaim L m) createBase_tc_MsgTransferClaim m"
    unfolding encode_tc_MsgTransferClaim_def wf_tc_MsgTransferClaim_def
    by (elim conjE)
      (rule codes_Cons codes_Nil [OF tc_MsgTransferClaim.equality] codec_rules
        codes_when [where tag = 10 and u = tc_MsgTransferClaim.creator_update and op = "r_bytes L", OF good]
        codes_when [where tag = 18 and u = tc_MsgTransferClaim.toAddress_update and op = "r_bytes L", OF good]
      | assumption | (simp add: tc_MsgTransferClaim_tags createBase_tc_MsgTransferClaim_def; fail))+
qed

context long_wire_laws
begin

lemmas tc_MsgTransferClaim_roundtrip = tc_MsgTransferClaim_codec.roundtrip [folded decode_tc_MsgTransferClaim_def]

lemmas tc_MsgTransferClaim_returns = tc_MsgTransferClaim_codec.decode_returns [folded decode_tc_MsgTransferClaim_def]

end

interpretation tc_MsgTransferClaim_json: message_json toJSON_tc_MsgTransferClaim fromJSON_tc_MsgTransferClaim wfj_tc_MsgTransferClaim
proof unfold_locales
  fix h m
  assume "wfj_tc_MsgTransferClaim m"
  then show "json_rt (toJSON_tc_MsgTransferClaim h) (fromJSON_tc_MsgTransferClaim h) m"
    unfolding toJSON_tc_MsgTransferClaim_def fromJSON_tc_MsgTransferClaim_def wfj_tc_MsgTransferClaim_def
    by (-) (rule json_rtI json_rules | assumption | (simp; fail))+
qed

lemma tc_MsgTransferClaimResponse_eqs:
  "createBase_tc_MsgTransferClaimResponse = createBase_MsgTransferClaimResponse"
  "encode_tc_MsgTransferClaimResponse L = encode_MsgTransferClaimResponse L"
  "fromJSON_tc_MsgTransferClaimResponse h = fromJSON_MsgTransferClaimResponse h"
  "fromPartial_tc_MsgTransferClaimResponse = fromPartial_MsgTransferClaimResponse"
  by (simp_all add: fun_eq_iff createBase_tc_MsgTransferClaimResponse_def createBase_MsgTransferClaimResponse_def
      encode_tc_MsgTransferClaimResponse_def encode_MsgTransferClaimResponse_def
      fromJSON_tc_MsgTransferClaimResponse_def fromJSON_MsgTransferClaimResponse_def
      fromPartial_tc_MsgTransferClaimResponse_def fromPartial_MsgTransferClaimResponse_def)

sublocale long_wire_laws \<subseteq> tc_MsgTransferClaimResponse_codec: message_codec L F out inp "encode_MsgTransferClaimResponse L" "tc_MsgTransferClaimResponse_switch L G" createBase_MsgTransferClaimResponse "wf_MsgTransferClaimResponse L"
proof unfold_locales
  show good: "good_sw (tc_MsgTransferClaimResponse_switch L G)"
    unfolding tc_MsgTransferClaimResponse_switch_def by (intro good_swI fwd_rules)
  fix m assume "wf_MsgTransferClaimResponse L m"
  then show "codes (tc_MsgTransferClaimResponse_switch L G) (encode_MsgTransferClaimResponse L m) createBase_MsgTransferClaimResponse m"
    unfolding encode_MsgTransferClaimResponse_def wf_MsgTransferClaimResponse_def
    by (cases m) (simp add: createBase_MsgTransferClaimResponse_def codes_Nil [simplified])
qed

context long_wire_laws
begin

lemmas tc_MsgTransferClaimResponse_roundtrip = tc_MsgTransferClaimResponse_codec.roundtrip [folded decode_tc_MsgTransferClaimResponse_def [unfolded tc_MsgTransferClaimResponse_eqs(1)]]

lemmas tc_MsgTransferClaimResponse_returns = tc_MsgTransferClaimResponse_codec.decode_returns [folded decode_tc_MsgTransferClaimResponse_def [unfolded tc_MsgTransferClaimResponse_eqs(1)]]

end

interpretation tc_MsgTransferClaimResponse_json: message_json toJSON_tc_MsgTransferClaimResponse fromJSON_tc_MsgTransferClaimResponse wfj_MsgTransferClaimResponse
proof unfold_locales
  fix h m
  show "json_rt (toJSON_tc_MsgTransferClaimResponse h) (fromJSON_tc_MsgTransferClaimResponse h) m"
    by (cases m) (simp add: json_rt_def toJSON_tc_MsgTransferClaimResponse_def fromJSON_tc_MsgTransferClaimResponse_def objE_rules(1))
qed

lemma fromPartial_partial_of_tc_MsgAddClaim [simp]: "fromPartial_tc_MsgAddClaim (partial_of_tc_MsgAddClaim m) = m"
  by (simp add: fromPartial_tc_MsgAddClaim_def partial_of_tc_MsgAddClaim_def createBase_tc_MsgAddClaim_def partial_map_def option.map_comp o_def option.map_ident)

lemma tc_MsgAddClaim_tags:
  "tc_MsgAddClaim_switch L G 10 m = readf (r_bytes L) (\<lambda>v. m\<lparr>tc_MsgAddClaim.creator := v\<rparr>)"
  "tc_MsgAddClaim_switch L G 16 m = readf (num32 (r_int32 L)) (\<lambda>v. m\<lparr>tc_MsgAddClaim.chain := v\<rparr>)"
  "tc_MsgAddClaim_switch L G 26 m = readf (r_string L) (\<lambda>v. m\<lparr>tc_MsgAddClaim.address := v\<rparr>)"
  "tc_MsgAddClaim_switch L G 32 m = readf (num64l G (r_int64 L)) (\<lambda>v. m\<lparr>tc_MsgAddClaim.amount := v\<rparr>)"
  by (simp_all add: tc_MsgAddClaim_switch_def)

sublocale long_wire_laws \<subseteq> tc_MsgAddClaim_codec: message_codec L F out inp "encode_tc_MsgAddClaim L" "tc_MsgAddClaim_switch L G" createBase_tc_MsgAddClaim "wf_tc_MsgAddClaim L"
proof unfold_locales
  show good: "good_sw (tc_MsgAddClaim_switch L G)"
    unfolding tc_MsgAddClaim_switch_def by (intro good_swI fwd_rules)
  fix m assume "wf_tc_MsgAddClaim L m"
  then show "codes (tc_MsgAddClaim_switch L G) (encode_tc_MsgAddClaim L m) createBase_tc_MsgAddClaim m"
    unfolding encode_tc_MsgAddClaim_def wf_tc_MsgAddClaim_def
    by (elim conjE)
      (rule codes_Cons codes_Nil [OF tc_MsgAddClaim.equality] codec_rules
        codes_when [where tag = 10 and u = tc_MsgAddClaim.creator_update and op = "r_bytes L", OF good]
        codes_when [where tag = 16 and u = tc_MsgAddClaim.chain_update and op = "num32 (r_int32 L)", OF good]
        codes_when [where tag = 26 and u = tc_MsgAddClaim.address_update and op = "r_string L", OF good]
        codes_when [where tag = 32 and u = tc_MsgAddClaim.amount_update and op = "num64l G (r_int64 L)", OF good]
      | assumption | (simp add: tc_MsgAddClaim_tags createBase_tc_MsgAddClaim_def; fail))+
qed

context long_wire_laws
begin

lemmas tc_MsgAddClaim_roundtrip = tc_MsgAddClaim_codec.roundtrip [folded decode_tc_MsgAddClaim_def]

lemmas tc_MsgAddClaim_returns = tc_MsgAddClaim_codec.decode_returns [folded decode_tc_MsgAddClaim_def]

end

interpretation tc_MsgAddClaim_json: message_json toJSON_tc_MsgAddClaim fromJSON_tc_MsgAddClaim wfj_tc_MsgAddClaim
proof unfold_locales
  fix h m
  assume "wfj_tc_MsgAddClaim m"
  then show "json_rt (toJSON_tc_MsgAddClaim h) (fromJSON_tc_MsgAddClaim h) m"
    unfolding toJSON_tc_MsgAddClaim_def fromJSON_tc_MsgAddClaim_def wfj_tc_MsgAddClaim_def
    by (elim conjE) (rule json_rtI json_rules | assumption | (simp; fail))+
qed

lemma tc_MsgAddClaimResponse_eqs:
  "createBase_tc_MsgAddClaimResponse = createBase_MsgAddClaimResponse"
  "encode_tc_MsgAddClaimResponse L = encode_MsgAddClaimResponse L"
  "fromJSON_tc_MsgAddClaimResponse h = fromJSON_MsgAddClaimResponse h"
  "fromPartial_tc_MsgAddClaimResponse = fromPartial_MsgAddClaimResponse"
  by (simp_all add: fun_eq_iff createBase_tc_MsgAddClaimResponse_def createBase_MsgAddClaimResponse_def
      encode_tc_MsgAddClaimResponse_def encode_MsgAddClaimResponse_def
      fromJSON_tc_MsgAddClaimResponse_def fromJSON_MsgAddClaimResponse_def
      fromPartial_tc_MsgAddClaimResponse_def fromPartial_MsgAddClaimResponse_def)

sublocale long_wire_laws \<subseteq> tc_MsgAddClaimResponse_codec: message_codec L F out inp "encode_MsgAddClaimResponse L" "tc_MsgAddClaimResponse_switch L G" createBase_MsgAddClaimResponse "wf_MsgAddClaimResponse L"
proof unfold_locales
  show good: "good_sw (tc_MsgAddClaimResponse_switch L G)"
    unfolding tc_MsgAddClaimResponse_switch_def by (intro good_swI fwd_rules)
  fix m assume "wf_MsgAddClaimResponse L m"
  then show "codes (tc_MsgAddClaimResponse_switch L G) (encode_MsgAddClaimResponse L m) createBase_MsgAddClaimResponse m"
    unfolding encode_MsgAddClaimResponse_def wf_MsgAddClaimResponse_def
    by (cases m) (simp add: createBase_MsgAddClaimResponse_def codes_Nil [simplified])
qed

context long_wire_laws
begin

lemmas tc_MsgAddClaimResponse_roundtrip = tc_MsgAddClaimResponse_codec.roundtrip [folded decode_tc_MsgAddClaimResponse_def [unfolded tc_MsgAddClaimResponse_eqs(1)]]

lemmas tc_MsgAddClaimResponse_returns = tc_MsgAddClaimResponse_codec.decode_returns [folded decode_tc_MsgAddClaimResponse_def [unfolded tc_MsgAddClaimResponse_eqs(1)]]

end

interpretation tc_MsgAddClaimResponse_json: message_json toJSON_tc_MsgAddClaimResponse fromJSON_tc_MsgAddClaimResponse wfj_MsgAddClaimResponse
proof unfold_locales
  fix h m
  show "json_rt (toJSON_tc_MsgAddClaimResponse h) (fromJSON_tc_MsgAddClaimResponse h) m"
    by (cases m) (simp add: json_rt_def toJSON_tc_MsgAddClaimResponse_def fromJSON_tc_MsgAddClaimResponse_def objE_rules(1))
qed

lemma tc_claim_QueryParamsRequest_eqs:
  "createBase_tc_claim_QueryParamsRequest = createBase_claim_QueryParamsRequest"
  "encode_tc_claim_QueryParamsRequest L = encode_claim_QueryParamsRequest L"
  "fromJSON_tc_claim_QueryParamsRequest h = fromJSON_claim_QueryParamsRequest h"
  "fromPartial_tc_claim_QueryParamsRequest = fromPartial_claim_QueryParamsRequest"
  by (simp_all add: fun_eq_iff createBase_tc_claim_QueryParamsRequest_def createBase_claim_QueryParamsRequest_def
      encode_tc_claim_QueryParamsRequest_def encode_claim_QueryParamsRequest_def
      fromJSON_tc_claim_QueryParamsRequest_def fromJSON_claim_QueryParamsRequest_def
      fromPartial_tc_claim_QueryParamsRequest_def fromPartial_claim_QueryParamsRequest_def)

sublocale long_wire_laws \<subseteq> tc_claim_QueryParamsRequest_codec: message_codec L F out inp "encode_claim_QueryParamsRequest L" "tc_claim_QueryParamsRequest_switch L G" createBase_claim_QueryParamsRequest "wf_claim_QueryParamsRequest L"
proof unfold_locales
  show good: "good_sw (tc_claim_QueryParamsRequest_switch L G)"
    unfolding tc_claim_QueryParamsRequest_switch_def by (intro good_swI fwd_rules)
  fix m assume "wf_claim_QueryParamsRequest L m"
  then show "codes (tc_claim_QueryParamsRequest_switch L G) (encode_claim_QueryParamsRequest L m) createBase_claim_QueryParamsRequest m"
    unfolding encode_claim_QueryParamsRequest_def wf_claim_QueryParamsRequest_def
    by (cases m) (simp add: createBase_claim_QueryParamsRequest_def codes_Nil [simplified])
qed

context long_wire_laws
begin

lemmas tc_claim_QueryParamsRequest_roundtrip = tc_claim_QueryParamsRequest_codec.roundtrip [folded decode_tc_claim_QueryParamsRequest_def [unfolded tc_claim_QueryParamsRequest_eqs(1)]]

lemmas tc_claim_QueryParamsRequest_returns = tc_claim_QueryParamsRequest_codec.decode_returns [folded decode_tc_claim_QueryParamsRequest_def [unfolded tc_claim_QueryParamsRequest_eqs(1)]]

end

interpretation tc_claim_QueryParamsRequest_json: message_json toJSON_tc_claim_QueryParamsRequest fromJSON_tc_claim_QueryParamsRequest wfj_claim_QueryParamsRequest
proof unfold_locales
  fix h m
  show "json_rt (toJSON_tc_claim_QueryParamsRequest h) (fromJSON_tc_claim_QueryParamsRequest h) m"
    by (cases m) (simp add: json_rt_def toJSON_tc_claim_QueryParamsRequest_def fromJSON_tc_claim_QueryParamsRequest_def objE_rules(1))
qed

lemma tc_claim_QueryParamsResponse_eqs:
  "createBase_tc_claim_QueryParamsResponse = createBase_claim_QueryParamsResponse"
  "fromPartial_tc_claim_QueryParamsResponse = fromPartial_claim_QueryParamsResponse"
  by (simp_all add: fun_eq_iff createBase_tc_claim_QueryParamsResponse_def createBase_claim_QueryParamsResponse_def
      fromPartial_tc_claim_QueryParamsResponse_def fromPartial_claim_QueryParamsResponse_def tc_claim_Params_eqs)

lemma tc_claim_QueryParamsResponse_tags:
  "tc_claim_QueryParamsResponse_switch L G 10 m = readf (submsg L (decode_tc_claim_Params L G)) (\<lambda>v. m\<lparr>claim_QueryParamsResponse.params := Some v\<rparr>)"
  by (simp_all add: tc_claim_QueryParamsResponse_switch_def)

sublocale long_wire_laws \<subseteq> tc_claim_QueryParamsResponse_codec: message_codec L F out inp "encode_tc_claim_QueryParamsResponse L" "tc_claim_QueryParamsResponse_switch L G" createBase_claim_QueryParamsResponse "wf_tc_claim_QueryParamsResponse L"
proof unfold_locales
  show good: "good_sw (tc_claim_QueryParamsResponse_switch L G)"
    unfolding tc_claim_QueryParamsResponse_switch_def by (intro good_swI fwd_rules)
  fix m assume "wf_tc_claim_QueryParamsResponse L m"
  then show "codes (tc_claim_QueryParamsResponse_switch L G) (encode_tc_claim_QueryParamsResponse L m) createBase_claim_QueryParamsResponse m"
    unfolding encode_tc_claim_QueryParamsResponse_def wf_tc_claim_QueryParamsResponse_def
    by (-)
      (rule codes_Cons codes_Nil [OF claim_QueryParamsResponse.equality] codec_rules
        codes_some [where tag = 10 and u = claim_QueryParamsResponse.params_update and op = "submsg L (decode_tc_claim_Params L G)", OF good]
      | assumption | (simp add: tc_claim_QueryParamsResponse_tags createBase_claim_QueryParamsResponse_def; fail))+
qed

context long_wire_laws
begin

lemmas tc_claim_QueryParamsResponse_roundtrip = tc_claim_QueryParamsResponse_codec.roundtrip [folded decode_tc_claim_QueryParamsResponse_def [unfolded tc_claim_QueryParamsResponse_eqs(1)]]

lemmas tc_claim_QueryParamsResponse_returns = tc_claim_QueryParamsResponse_codec.decode_returns [folded decode_tc_claim_QueryParamsResponse_def [unfolded tc_claim_QueryParamsResponse_eqs(1)]]

end

interpretation tc_claim_QueryParamsResponse_json: message_json toJSON_tc_claim_QueryParamsResponse fromJSON_tc_claim_QueryParamsResponse wfj_claim_QueryParamsResponse
proof unfold_locales
  fix h m
  assume "wfj_claim_QueryParamsResponse m"
  then show "json_rt (toJSON_tc_claim_QueryParamsResponse h) (fromJSON_tc_claim_QueryParamsResponse h) m"
    unfolding toJSON_tc_claim_QueryParamsResponse_def fromJSON_tc_claim_QueryParamsResponse_def wfj_claim_QueryParamsResponse_def
    by (-) (rule json_rtI json_rules | assumption | (simp; fail))+
qed

lemma tc_QueryClaimRecordRequest_eqs:
  "createBase_tc_QueryClaimRecordRequest = createBase_QueryClaimRecordRequest"
  "encode_tc_QueryClaimRecordRequest L = encode_QueryClaimRecordRequest L"
  "fromJSON_tc_QueryClaimRecordRequest h = fromJSON_QueryClaimRecordRequest h"
  "fromPartial_tc_QueryClaimRecordRequest = fromPartial_QueryClaimRecordRequest"
  by (simp_all add: fun_eq_iff createBase_tc_QueryClaimRecordRequest_def createBase_QueryClaimRecordRequest_def
      encode_tc_QueryClaimRecordRequest_def encode_QueryClaimRecordRequest_def
      fromJSON_tc_QueryClaimRecordRequest_def fromJSON_QueryClaimRecordRequest_def
      fromPartial_tc_QueryClaimRecordRequest_def fromPartial_QueryClaimRecordRequest_def tc_Chain_eqs)

lemma tc_QueryClaimRecordRequest_tags:
  "tc_QueryClaimRecordRequest_switch L G 10 m = readf (r_string L) (\<lambda>v. m\<lparr>QueryClaimRecordRequest.address := v\<rparr>)"
  "tc_QueryClaimRecordRequest_switch L G 16 m = readf (num32 (r_int32 L)) (\<lambda>v. m\<lparr>QueryClaimRecordRequest.chain := v\<rparr>)"
  by (simp_all add: tc_QueryClaimRecordRequest_switch_def)

sublocale long_wire_laws \<subseteq> tc_QueryClaimRecordRequest_codec: message_codec L F out inp "encode_QueryClaimRecordRequest L" "tc_QueryClaimRecordRequest_switch L G" createBase_QueryClaimRecordRequest "wf_QueryClaimRecordRequest L"
proof unfold_locales
  show good: "good_sw (tc_QueryClaimRecordRequest_switch L G)"
    unfolding tc_QueryClaimRecordRequest_switch_def by (intro good_swI fwd_rules)
  fix m assume "wf_QueryClaimRecordRequest L m"
  then show "codes (tc_QueryClaimRecordRequest_switch L G) (encode_QueryClaimRecordRequest L m) createBase_QueryClaimRecordRequest m"
    unfolding encode_QueryClaimRecordRequest_def wf_QueryClaimRecordRequest_def
    by (elim conjE)
      (rule codes_Cons codes_Nil [OF QueryClaimRecordRequest.equality] codec_rules
        codes_when [where tag = 10 and u = QueryClaimRecordRequest.address_update and op = "r_string L", OF good]
        codes_when [where tag = 16 and u = QueryClaimRecordRequest.chain_update and op = "num32 (r_int32 L)", OF good]
      | assumption | (simp add: tc_QueryClaimRecordRequest_tags createBase_QueryClaimRecordRequest_def; fail))+
qed

context long_wire_laws
begin

lemmas tc_QueryClaimRecordRequest_roundtrip = tc_QueryClaimRecordRequest_codec.roundtrip [folded decode_tc_QueryClaimRecordRequest_def [unfolded tc_QueryClaimRecordRequest_eqs(1)]]

lemmas tc_QueryClaimRecordRequest_returns = tc_QueryClaimRecordRequest_codec.decode_returns [folded decode_tc_QueryClaimRecordRequest_def [unfolded tc_QueryClaimRecordRequest_eqs(1)]]

lemma tc_QueryClaimRecordRequest_interop: "interoperates L inp (wf_QueryClaimRecordRequest L) (encode_QueryClaimRecordRequest L) (decode_QueryClaimRecordRequest L) (encode_tc_QueryClaimRecordRequest L) (decode_tc_QueryClaimRecordRequest L G)"
  using QueryClaimRecordRequest_roundtrip tc_QueryClaimRecordRequest_roundtrip by (simp add: interoperates_def tc_QueryClaimRecordRequest_eqs(2))

end

interpretation tc_QueryClaimRecordRequest_json: message_json toJSON_tc_QueryClaimRecordRequest fromJSON_tc_QueryClaimRecordRequest wfj_QueryClaimRecordRequest
proof unfold_locales
  fix h m
  assume "wfj_QueryClaimRecordRequest m"
  then show "json_rt (toJSON_tc_QueryClaimRecordRequest h) (fromJSON_tc_QueryClaimRecordRequest h) m"
    unfolding toJSON_tc_QueryClaimRecordRequest_def fromJSON_tc_QueryClaimRecordRequest_def wfj_QueryClaimRecordRequest_def
    by (-) (rule json_rtI json_rules | assumption | (simp; fail))+
qed

lemma tc_QueryClaimRecordResponse_eqs:
  "createBase_tc_QueryClaimRecordResponse = createBase_QueryClaimRecordResponse"
  "encode_tc_QueryClaimRecordResponse L = encode_QueryClaimRecordResponse L"
  "fromJSON_tc_QueryClaimRecordResponse h = fromJSON_QueryClaimRecordResponse h"
  "fromPartial_tc_QueryClaimRecordResponse = fromPartial_QueryClaimRecordResponse"
  by (simp_all add: fun_eq_iff createBase_tc_QueryClaimRecordResponse_def createBase_QueryClaimRecordResponse_def
      encode_tc_QueryClaimRecordResponse_def encode_QueryClaimRecordResponse_def
      fromJSON_tc_QueryClaimRecordResponse_def fromJSON_QueryClaimRecordResponse_def
      fromPartial_tc_QueryClaimRecordResponse_def fromPartial_QueryClaimRecordResponse_def tc_ClaimRecord_eqs)

lemma tc_QueryClaimRecordResponse_tags:
  "tc_QueryClaimRecordResponse_switch L G 10 m = readf (submsg L (decode_tc_ClaimRecord L G)) (\<lambda>v. m\<lparr>QueryClaimRecordResponse.claimRecord := Some v\<rparr>)"
  by (simp_all add: tc_QueryClaimRecordResponse_switch_def)

sublocale long_wire_laws \<subseteq> tc_QueryClaimRecordResponse_codec: message_codec L F out inp "encode_QueryClaimRecordResponse L" "tc_QueryClaimRecordResponse_switch L G" createBase_QueryClaimRecordResponse "wf_QueryClaimRecordResponse L"
proof unfold_locales
  show good: "good_sw (tc_QueryClaimRecordResponse_switch L G)"
    unfolding tc_QueryClaimRecordResponse_switch_def by (intro good_swI fwd_rules)
  fix m assume "wf_QueryClaimRecordResponse L m"
  then show "codes (tc_QueryClaimRecordResponse_switch L G) (encode_QueryClaimRecordResponse L m) createBase_QueryClaimRecordResponse m"
    unfolding encode_QueryClaimRecordResponse_def wf_QueryClaimRecordResponse_def
    by (-)
      (rule codes_Cons codes_Nil [OF QueryClaimRecordResponse.equality] codec_rules
        codes_some [where tag = 10 and u = QueryClaimRecordResponse.claimRecord_update and op = "submsg L (decode_tc_ClaimRecord L G)", OF good]
      | assumption | (simp add: tc_QueryClaimRecordResponse_tags createBase_QueryClaimRecordResponse_def; fail))+
qed

context long_wire_laws
begin

lemmas tc_QueryClaimRecordResponse_roundtrip = tc_QueryClaimRecordResponse_codec.roundtrip [folded decode_tc_QueryClaimRecordResponse_def [unfolded tc_QueryClaimRecordResponse_eqs(1)]]

lemmas tc_QueryClaimRecordResponse_returns = tc_QueryClaimRecordResponse_codec.decode_returns [folded decode_tc_QueryClaimRecordResponse_def [unfolded tc_QueryClaimRecordResponse_eqs(1)]]

lemma tc_QueryClaimRecordResponse_interop: "interoperates L inp (wf_QueryClaimRecordResponse L) (encode_QueryClaimRecordResponse L) (decode_QueryClaimRecordResponse L) (encode_tc_QueryClaimRecordResponse L) (decode_tc_QueryClaimRecordResponse L G)"
  using QueryClaimRecordResponse_roundtrip tc_QueryClaimRecordResponse_roundtrip by (simp add: interoperates_def tc_QueryClaimRecordResponse_eqs(2))

end

interpretation tc_QueryClaimRecordResponse_json: message_json toJSON_tc_QueryClaimRecordResponse fromJSON_tc_QueryClaimRecordResponse wfj_QueryClaimRecordResponse
proof unfold_locales
  fix h m
  assume "wfj_QueryClaimRecordResponse m"
  then show "json_rt (toJSON_tc_QueryClaimRecordResponse h) (fromJSON_tc_QueryClaimRecordResponse h) m"
    unfolding toJSON_tc_QueryClaimRecordResponse_def fromJSON_tc_QueryClaimRecordResponse_def wfj_QueryClaimRecordResponse_def
    by (-) (rule json_rtI json_rules | assumption | (simp; fail))+
qed

lemmas TcClaimTx_eqs =
  tc_QueryClaimRecordRequest_eqs(3,4) tc_QueryClaimRecordResponse_eqs(3,4)

context long_wire_laws
begin

lemmas TcClaimTx_interop =
  tc_QueryClaimRecordRequest_interop tc_QueryClaimRecordResponse_interop

end

end
