(* ===== verification/TcRpc.thy ===== *)
theory TcRpc
  imports RpcClient TcTx TcQuery TcClaimTx
begin

text \<open>
  The gRPC clients \<open>MsgClientImpl\<close> and \<open>QueryClientImpl\<close> of \<open>ts-client\<close>. They differ from those of \<open>RpcClient\<close> in the name
  of the service, which is fixed, and in their codecs. Where the messages of a method are those of the current
  schema, the remote end in the specification is one that uses the current codecs; where they have changed, it
  uses the codecs of \<open>ts-client\<close>.
\<close>

section \<open>Definitions\<close>

text \<open>
  \<open>const data = Req.encode(request).finish(); const promise = this.rpc.request(svc, method, data);
  return promise.then((data) => Res.decode(new _m0.Reader(data)));\<close>
\<close>

definition tc_unary :: "('w, 'r) wire \<Rightarrow> 's rpc \<Rightarrow> jsstring \<Rightarrow> jsstring \<Rightarrow> ('q \<Rightarrow> 'w \<Rightarrow> 'w result)
    \<Rightarrow> ('r input \<Rightarrow> nat option \<Rightarrow> ('a \<times> 'r) result) \<Rightarrow> 'q \<Rightarrow> 's \<Rightarrow> 'a outcome \<times> 's" where
  "tc_unary L transport svc method enc dec request s =
     (case encode_bytes L (enc request) of
        Inl e \<Rightarrow> (Throws e, s)
      | Inr data \<Rightarrow>
          (case transport svc method data s of
             (Inl e, s') \<Rightarrow> (Rejects e, s')
           | (Inr data', s') \<Rightarrow>
               (case dec (AReader (Reader_new L data')) None of
                  Inl e \<Rightarrow> (Rejects e, s')
                | Inr (a, _) \<Rightarrow> (Resolves a, s'))))"


subsection \<open>ts-client/arkeo.arkeo/types/arkeo/arkeo/tx.ts\<close>

record 's tc_Msg_service =
  BondProvider :: "(tc_MsgBondProvider, MsgBondProviderResponse, 's) handler"
  ModProvider :: "(tc_MsgModProvider, MsgModProviderResponse, 's) handler"
  OpenContract :: "(tc_MsgOpenContract, MsgOpenContractResponse, 's) handler"
  CloseContract :: "(tc_MsgCloseContract, MsgCloseContractResponse, 's) handler"
  ClaimContractIncome :: "(tc_MsgClaimContractIncome, MsgClaimContractIncomeResponse, 's) handler"
  SetVersion :: "(MsgSetVersion, MsgSetVersionResponse, 's) handler"

definition tc_MsgClientImpl_BondProvider :: "('w, 'r) wire \<Rightarrow> long_lib \<Rightarrow> 's rpc \<Rightarrow> tc_MsgBondProvider \<Rightarrow> 's \<Rightarrow> MsgBondProviderResponse outcome \<times> 's" where
  "tc_MsgClientImpl_BondProvider L G tr = tc_unary L tr (js ''arkeo.arkeo.Msg'') (js ''BondProvider'') (encode_tc_MsgBondProvider L) (decode_tc_MsgBondProviderResponse L G)"

definition tc_MsgClientImpl_ModProvider :: "('w, 'r) wire \<Rightarrow> long_lib \<Rightarrow> 's rpc \<Rightarrow> tc_MsgModProvider \<Rightarrow> 's \<Rightarrow> MsgModProviderResponse outcome \<times> 's" where
  "tc_MsgClientImpl_ModProvider L G tr = tc_unary L tr (js ''arkeo.arkeo.Msg'') (js ''ModProvider'') (encode_tc_MsgModProvider L) (decode_tc_MsgModProviderResponse L G)"

definition tc_MsgClientImpl_OpenContract :: "('w, 'r) wire \<Rightarrow> long_lib \<Rightarrow> 's rpc \<Rightarrow> tc_MsgOpenContract \<Rightarrow> 's \<Rightarrow> MsgOpenContractResponse outcome \<times> 's" where
  "tc_MsgClientImpl_OpenContract L G tr = tc_unary L tr (js ''arkeo.arkeo.Msg'') (js ''OpenContract'') (encode_tc_MsgOpenContract L) (decode_tc_MsgOpenContractResponse L G)"

definition tc_MsgClientImpl_CloseContract :: "('w, 'r) wire \<Rightarrow> long_lib \<Rightarrow> 's rpc \<Rightarrow> tc_MsgCloseContract \<Rightarrow> 's \<Rightarrow> MsgCloseContractResponse outcome \<times> 's" where
  "tc_MsgClientImpl_CloseContract L G tr = tc_unary L tr (js ''arkeo.arkeo.Msg'') (js ''CloseContract'') (encode_tc_MsgCloseContract L) (decode_tc_MsgCloseContractResponse L G)"

definition tc_MsgClientImpl_ClaimContractIncome :: "('w, 'r) wire \<Rightarrow> long_lib \<Rightarrow> 's rpc \<Rightarrow> tc_MsgClaimContractIncome \<Rightarrow> 's \<Rightarrow> MsgClaimContractIncomeResponse outcome \<times> 's" where
  "tc_MsgClientImpl_ClaimContractIncome L G tr = tc_unary L tr (js ''arkeo.arkeo.Msg'') (js ''ClaimContractIncome'') (encode_tc_MsgClaimContractIncome L) (decode_tc_MsgClaimContractIncomeResponse L G)"

definition tc_MsgClientImpl_SetVersion :: "('w, 'r) wire \<Rightarrow> long_lib \<Rightarrow> 's rpc \<Rightarrow> MsgSetVersion \<Rightarrow> 's \<Rightarrow> MsgSetVersionResponse outcome \<times> 's" where
  "tc_MsgClientImpl_SetVersion L G tr = tc_unary L tr (js ''arkeo.arkeo.Msg'') (js ''SetVersion'') (encode_tc_MsgSetVersion L) (decode_tc_MsgSetVersionResponse L G)"

text \<open>A remote end that implements the interface.\<close>

definition tc_Msg_served :: "('w, 'r) wire \<Rightarrow> long_lib \<Rightarrow> 's rpc \<Rightarrow> 's tc_Msg_service \<Rightarrow> bool" where
  "tc_Msg_served L G tr impl \<longleftrightarrow> (\<forall>data s.
     tr (js ''arkeo.arkeo.Msg'') (js ''BondProvider'') data s =
       serve L (decode_tc_MsgBondProvider L G) (encode_tc_MsgBondProviderResponse L) (tc_Msg_service.BondProvider impl) data s
   \<and> tr (js ''arkeo.arkeo.Msg'') (js ''ModProvider'') data s =
       serve L (decode_tc_MsgModProvider L G) (encode_tc_MsgModProviderResponse L) (tc_Msg_service.ModProvider impl) data s
   \<and> tr (js ''arkeo.arkeo.Msg'') (js ''OpenContract'') data s =
       serve L (decode_tc_MsgOpenContract L G) (encode_tc_MsgOpenContractResponse L) (tc_Msg_service.OpenContract impl) data s
   \<and> tr (js ''arkeo.arkeo.Msg'') (js ''CloseContract'') data s =
       serve L (decode_tc_MsgCloseContract L G) (encode_tc_MsgCloseContractResponse L) (tc_Msg_service.CloseContract impl) data s
   \<and> tr (js ''arkeo.arkeo.Msg'') (js ''ClaimContractIncome'') data s =
       serve L (decode_tc_MsgClaimContractIncome L G) (encode_tc_MsgClaimContractIncomeResponse L) (tc_Msg_service.ClaimContractIncome impl) data s
   \<and> tr (js ''arkeo.arkeo.Msg'') (js ''SetVersion'') data s =
       serve L (decode_tc_MsgSetVersion L G) (encode_tc_MsgSetVersionResponse L) (tc_Msg_service.SetVersion impl) data s)"

definition tc_Msg_dispatch :: "('w, 'r) wire \<Rightarrow> long_lib \<Rightarrow> 's tc_Msg_service \<Rightarrow> 's rpc" where
  "tc_Msg_dispatch L G impl svc method = js_switch method
    [(js ''BondProvider'', serve L (decode_tc_MsgBondProvider L G) (encode_tc_MsgBondProviderResponse L) (tc_Msg_service.BondProvider impl)),
     (js ''ModProvider'', serve L (decode_tc_MsgModProvider L G) (encode_tc_MsgModProviderResponse L) (tc_Msg_service.ModProvider impl)),
     (js ''OpenContract'', serve L (decode_tc_MsgOpenContract L G) (encode_tc_MsgOpenContractResponse L) (tc_Msg_service.OpenContract impl)),
     (js ''CloseContract'', serve L (decode_tc_MsgCloseContract L G) (encode_tc_MsgCloseContractResponse L) (tc_Msg_service.CloseContract impl)),
     (js ''ClaimContractIncome'', serve L (decode_tc_MsgClaimContractIncome L G) (encode_tc_MsgClaimContractIncomeResponse L) (tc_Msg_service.ClaimContractIncome impl)),
     (js ''SetVersion'', serve L (decode_tc_MsgSetVersion L G) (encode_tc_MsgSetVersionResponse L) (tc_Msg_service.SetVersion impl))]
    (\<lambda>data s. (Inl (Error ''unimplemented''), s))"


subsection \<open>ts-client/arkeo.arkeo/types/arkeo/arkeo/query.ts\<close>

record 's tc_Query_service =
  Params :: "(QueryParamsRequest, tc_QueryParamsResponse, 's) handler"
  FetchProvider :: "(QueryFetchProviderRequest, QueryFetchProviderResponse, 's) handler"
  ProviderAll :: "(QueryAllProviderRequest, QueryAllProviderResponse, 's) handler"
  FetchContract :: "(QueryFetchContractRequest, QueryFetchContractResponse, 's) handler"
  ContractAll :: "(QueryAllContractRequest, QueryAllContractResponse, 's) handler"
  ActiveContract :: "(QueryActiveContractRequest, QueryActiveContractResponse, 's) handler"

definition tc_QueryClientImpl_Params :: "('w, 'r) wire \<Rightarrow> long_lib \<Rightarrow> 's rpc \<Rightarrow> QueryParamsRequest \<Rightarrow> 's \<Rightarrow> tc_QueryParamsResponse outcome \<times> 's" where
  "tc_QueryClientImpl_Params L G tr = tc_unary L tr (js ''arkeo.arkeo.Query'') (js ''Params'') (encode_tc_QueryParamsRequest L) (decode_tc_QueryParamsResponse L G)"

definition tc_QueryClientImpl_FetchProvider :: "('w, 'r) wire \<Rightarrow> long_lib \<Rightarrow> 's rpc \<Rightarrow> QueryFetchProviderRequest \<Rightarrow> 's \<Rightarrow> QueryFetchProviderResponse outcome \<times> 's" where
  "tc_QueryClientImpl_FetchProvider L G tr = tc_unary L tr (js ''arkeo.arkeo.Query'') (js ''FetchProvider'') (encode_tc_QueryFetchProviderRequest L) (decode_tc_QueryFetchProviderResponse L G)"

definition tc_QueryClientImpl_ProviderAll :: "('w, 'r) wire \<Rightarrow> long_lib \<Rightarrow> 's rpc \<Rightarrow> QueryAllProviderRequest \<Rightarrow> 's \<Rightarrow> QueryAllProviderResponse outcome \<times> 's" where
  "tc_QueryClientImpl_ProviderAll L G tr = tc_unary L tr (js ''arkeo.arkeo.Query'') (js ''ProviderAll'') (encode_tc_QueryAllProviderRequest L) (decode_tc_QueryAllProviderResponse L G)"

definition tc_QueryClientImpl_FetchContract :: "('w, 'r) wire \<Rightarrow> long_lib \<Rightarrow> 's rpc \<Rightarrow> QueryFetchContractRequest \<Rightarrow> 's \<Rightarrow> QueryFetchContractResponse outcome \<times> 's" where
  "tc_QueryClientImpl_FetchContract L G tr = tc_unary L tr (js ''arkeo.arkeo.Query'') (js ''FetchContract'') (encode_tc_QueryFetchContractRequest L) (decode_tc_QueryFetchContractResponse L G)"

definition tc_QueryClientImpl_ContractAll :: "('w, 'r) wire \<Rightarrow> long_lib \<Rightarrow> 's rpc \<Rightarrow> QueryAllContractRequest \<Rightarrow> 's \<Rightarrow> QueryAllContractResponse outcome \<times> 's" where
  "tc_QueryClientImpl_ContractAll L G tr = tc_unary L tr (js ''arkeo.arkeo.Query'') (js ''ContractAll'') (encode_tc_QueryAllContractRequest L) (decode_tc_QueryAllContractResponse L G)"

definition tc_QueryClientImpl_ActiveContract :: "('w, 'r) wire \<Rightarrow> long_lib \<Rightarrow> 's rpc \<Rightarrow> QueryActiveContractRequest \<Rightarrow> 's \<Rightarrow> QueryActiveContractResponse outcome \<times> 's" where
  "tc_QueryClientImpl_ActiveContract L G tr = tc_unary L tr (js ''arkeo.arkeo.Query'') (js ''ActiveContract'') (encode_tc_QueryActiveContractRequest L) (decode_tc_QueryActiveContractResponse L G)"

text \<open>A remote end that implements the interface.\<close>

definition tc_Query_served :: "('w, 'r) wire \<Rightarrow> long_lib \<Rightarrow> 's rpc \<Rightarrow> 's tc_Query_service \<Rightarrow> bool" where
  "tc_Query_served L G tr impl \<longleftrightarrow> (\<forall>data s.
     tr (js ''arkeo.arkeo.Query'') (js ''Params'') data s =
       serve L (decode_tc_QueryParamsRequest L G) (encode_tc_QueryParamsResponse L) (tc_Query_service.Params impl) data s
   \<and> tr (js ''arkeo.arkeo.Query'') (js ''FetchProvider'') data s =
       serve L (decode_QueryFetchProviderRequest L) (encode_QueryFetchProviderResponse L) (tc_Query_service.FetchProvider impl) data s
   \<and> tr (js ''arkeo.arkeo.Query'') (js ''ProviderAll'') data s =
       serve L (decode_QueryAllProviderRequest L) (encode_QueryAllProviderResponse L) (tc_Query_service.ProviderAll impl) data s
   \<and> tr (js ''arkeo.arkeo.Query'') (js ''FetchContract'') data s =
       serve L (decode_QueryFetchContractRequest L) (encode_QueryFetchContractResponse L) (tc_Query_service.FetchContract impl) data s
   \<and> tr (js ''arkeo.arkeo.Query'') (js ''ContractAll'') data s =
       serve L (decode_QueryAllContractRequest L) (encode_QueryAllContractResponse L) (tc_Query_service.ContractAll impl) data s
   \<and> tr (js ''arkeo.arkeo.Query'') (js ''ActiveContract'') data s =
       serve L (decode_QueryActiveContractRequest L) (encode_QueryActiveContractResponse L) (tc_Query_service.ActiveContract impl) data s)"

definition tc_Query_dispatch :: "('w, 'r) wire \<Rightarrow> long_lib \<Rightarrow> 's tc_Query_service \<Rightarrow> 's rpc" where
  "tc_Query_dispatch L G impl svc method = js_switch method
    [(js ''Params'', serve L (decode_tc_QueryParamsRequest L G) (encode_tc_QueryParamsResponse L) (tc_Query_service.Params impl)),
     (js ''FetchProvider'', serve L (decode_QueryFetchProviderRequest L) (encode_QueryFetchProviderResponse L) (tc_Query_service.FetchProvider impl)),
     (js ''ProviderAll'', serve L (decode_QueryAllProviderRequest L) (encode_QueryAllProviderResponse L) (tc_Query_service.ProviderAll impl)),
     (js ''FetchContract'', serve L (decode_QueryFetchContractRequest L) (encode_QueryFetchContractResponse L) (tc_Query_service.FetchContract impl)),
     (js ''ContractAll'', serve L (decode_QueryAllContractRequest L) (encode_QueryAllContractResponse L) (tc_Query_service.ContractAll impl)),
     (js ''ActiveContract'', serve L (decode_QueryActiveContractRequest L) (encode_QueryActiveContractResponse L) (tc_Query_service.ActiveContract impl))]
    (\<lambda>data s. (Inl (Error ''unimplemented''), s))"


subsection \<open>ts-client/arkeo.claim/types/arkeo/claim/tx.ts\<close>

record 's tc_claim_Msg_service =
  ClaimEth :: "(tc_MsgClaimEth, tc_MsgClaimEthResponse, 's) handler"
  ClaimArkeo :: "(tc_MsgClaimArkeo, tc_MsgClaimArkeoResponse, 's) handler"
  TransferClaim :: "(tc_MsgTransferClaim, MsgTransferClaimResponse, 's) handler"
  AddClaim :: "(tc_MsgAddClaim, MsgAddClaimResponse, 's) handler"

definition tc_claim_MsgClientImpl_ClaimEth :: "('w, 'r) wire \<Rightarrow> long_lib \<Rightarrow> 's rpc \<Rightarrow> tc_MsgClaimEth \<Rightarrow> 's \<Rightarrow> tc_MsgClaimEthResponse outcome \<times> 's" where
  "tc_claim_MsgClientImpl_ClaimEth L G tr = tc_unary L tr (js ''arkeo.claim.Msg'') (js ''ClaimEth'') (encode_tc_MsgClaimEth L) (decode_tc_MsgClaimEthResponse L G)"

definition tc_claim_MsgClientImpl_ClaimArkeo :: "('w, 'r) wire \<Rightarrow> long_lib \<Rightarrow> 's rpc \<Rightarrow> tc_MsgClaimArkeo \<Rightarrow> 's \<Rightarrow> tc_MsgClaimArkeoResponse outcome \<times> 's" where
  "tc_claim_MsgClientImpl_ClaimArkeo L G tr = tc_unary L tr (js ''arkeo.claim.Msg'') (js ''ClaimArkeo'') (encode_tc_MsgClaimArkeo L) (decode_tc_MsgClaimArkeoResponse L G)"

definition tc_claim_MsgClientImpl_TransferClaim :: "('w, 'r) wire \<Rightarrow> long_lib \<Rightarrow> 's rpc \<Rightarrow> tc_MsgTransferClaim \<Rightarrow> 's \<Rightarrow> MsgTransferClaimResponse outcome \<times> 's" where
  "tc_claim_MsgClientImpl_TransferClaim L G tr = tc_unary L tr (js ''arkeo.claim.Msg'') (js ''TransferClaim'') (encode_tc_MsgTransferClaim L) (decode_tc_MsgTransferClaimResponse L G)"

definition tc_claim_MsgClientImpl_AddClaim :: "('w, 'r) wire \<Rightarrow> long_lib \<Rightarrow> 's rpc \<Rightarrow> tc_MsgAddClaim \<Rightarrow> 's \<Rightarrow> MsgAddClaimResponse outcome \<times> 's" where
  "tc_claim_MsgClientImpl_AddClaim L G tr = tc_unary L tr (js ''arkeo.claim.Msg'') (js ''AddClaim'') (encode_tc_MsgAddClaim L) (decode_tc_MsgAddClaimResponse L G)"

text \<open>A remote end that implements the interface.\<close>

definition tc_claim_Msg_served :: "('w, 'r) wire \<Rightarrow> long_lib \<Rightarrow> 's rpc \<Rightarrow> 's tc_claim_Msg_service \<Rightarrow> bool" where
  "tc_claim_Msg_served L G tr impl \<longleftrightarrow> (\<forall>data s.
     tr (js ''arkeo.claim.Msg'') (js ''ClaimEth'') data s =
       serve L (decode_tc_MsgClaimEth L G) (encode_tc_MsgClaimEthResponse L) (tc_claim_Msg_service.ClaimEth impl) data s
   \<and> tr (js ''arkeo.claim.Msg'') (js ''ClaimArkeo'') data s =
       serve L (decode_tc_MsgClaimArkeo L G) (encode_tc_MsgClaimArkeoResponse L) (tc_claim_Msg_service.ClaimArkeo impl) data s
   \<and> tr (js ''arkeo.claim.Msg'') (js ''TransferClaim'') data s =
       serve L (decode_tc_MsgTransferClaim L G) (encode_tc_MsgTransferClaimResponse L) (tc_claim_Msg_service.TransferClaim impl) data s
   \<and> tr (js ''arkeo.claim.Msg'') (js ''AddClaim'') data s =
       serve L (decode_tc_MsgAddClaim L G) (encode_tc_MsgAddClaimResponse L) (tc_claim_Msg_service.AddClaim impl) data s)"

definition tc_claim_Msg_dispatch :: "('w, 'r) wire \<Rightarrow> long_lib \<Rightarrow> 's tc_claim_Msg_service \<Rightarrow> 's rpc" where
  "tc_claim_Msg_dispatch L G impl svc method = js_switch method
    [(js ''ClaimEth'', serve L (decode_tc_MsgClaimEth L G) (encode_tc_MsgClaimEthResponse L) (tc_claim_Msg_service.ClaimEth impl)),
     (js ''ClaimArkeo'', serve L (decode_tc_MsgClaimArkeo L G) (encode_tc_MsgClaimArkeoResponse L) (tc_claim_Msg_service.ClaimArkeo impl)),
     (js ''TransferClaim'', serve L (decode_tc_MsgTransferClaim L G) (encode_tc_MsgTransferClaimResponse L) (tc_claim_Msg_service.TransferClaim impl)),
     (js ''AddClaim'', serve L (decode_tc_MsgAddClaim L G) (encode_tc_MsgAddClaimResponse L) (tc_claim_Msg_service.AddClaim impl))]
    (\<lambda>data s. (Inl (Error ''unimplemented''), s))"


subsection \<open>ts-client/arkeo.claim/types/arkeo/claim/query.ts\<close>

record 's tc_claim_Query_service =
  Params :: "(claim_QueryParamsRequest, claim_QueryParamsResponse, 's) handler"
  ClaimRecord :: "(QueryClaimRecordRequest, QueryClaimRecordResponse, 's) handler"

definition tc_claim_QueryClientImpl_Params :: "('w, 'r) wire \<Rightarrow> long_lib \<Rightarrow> 's rpc \<Rightarrow> claim_QueryParamsRequest \<Rightarrow> 's \<Rightarrow> claim_QueryParamsResponse outcome \<times> 's" where
  "tc_claim_QueryClientImpl_Params L G tr = tc_unary L tr (js ''arkeo.claim.Query'') (js ''Params'') (encode_tc_claim_QueryParamsRequest L) (decode_tc_claim_QueryParamsResponse L G)"

definition tc_claim_QueryClientImpl_ClaimRecord :: "('w, 'r) wire \<Rightarrow> long_lib \<Rightarrow> 's rpc \<Rightarrow> QueryClaimRecordRequest \<Rightarrow> 's \<Rightarrow> QueryClaimRecordResponse outcome \<times> 's" where
  "tc_claim_QueryClientImpl_ClaimRecord L G tr = tc_unary L tr (js ''arkeo.claim.Query'') (js ''ClaimRecord'') (encode_tc_QueryClaimRecordRequest L) (decode_tc_QueryClaimRecordResponse L G)"

text \<open>A remote end that implements the interface.\<close>

definition tc_claim_Query_served :: "('w, 'r) wire \<Rightarrow> long_lib \<Rightarrow> 's rpc \<Rightarrow> 's tc_claim_Query_service \<Rightarrow> bool" where
  "tc_claim_Query_served L G tr impl \<longleftrightarrow> (\<forall>data s.
     tr (js ''arkeo.claim.Query'') (js ''Params'') data s =
       serve L (decode_tc_claim_QueryParamsRequest L G) (encode_tc_claim_QueryParamsResponse L) (tc_claim_Query_service.Params impl) data s
   \<and> tr (js ''arkeo.claim.Query'') (js ''ClaimRecord'') data s =
       serve L (decode_QueryClaimRecordRequest L) (encode_QueryClaimRecordResponse L) (tc_claim_Query_service.ClaimRecord impl) data s)"

definition tc_claim_Query_dispatch :: "('w, 'r) wire \<Rightarrow> long_lib \<Rightarrow> 's tc_claim_Query_service \<Rightarrow> 's rpc" where
  "tc_claim_Query_dispatch L G impl svc method = js_switch method
    [(js ''Params'', serve L (decode_tc_claim_QueryParamsRequest L G) (encode_tc_claim_QueryParamsResponse L) (tc_claim_Query_service.Params impl)),
     (js ''ClaimRecord'', serve L (decode_QueryClaimRecordRequest L) (encode_QueryClaimRecordResponse L) (tc_claim_Query_service.ClaimRecord impl))]
    (\<lambda>data s. (Inl (Error ''unimplemented''), s))"


section \<open>Calls over a transport that is served\<close>

lemma tc_unary_eq:
  "tc_unary L transport svc method enc dec =
   unary L \<lparr>client_impl.rpc = transport, client_impl.service = svc\<rparr> method enc dec"
  by (intro ext) (simp add: tc_unary_def unary_def split: sum.split)

sublocale long_wire_laws \<subseteq> tc_Msg_BondProvider: rpc_method L F out inp
  "encode_tc_MsgBondProvider L" "tc_MsgBondProvider_switch L G" createBase_tc_MsgBondProvider "wf_tc_MsgBondProvider L"
  "encode_MsgBondProviderResponse L" "tc_MsgBondProviderResponse_switch L G" createBase_MsgBondProviderResponse "wf_MsgBondProviderResponse L" ..

sublocale long_wire_laws \<subseteq> tc_Msg_ModProvider: rpc_method L F out inp
  "encode_tc_MsgModProvider L" "tc_MsgModProvider_switch L G" createBase_tc_MsgModProvider "wf_tc_MsgModProvider L"
  "encode_MsgModProviderResponse L" "tc_MsgModProviderResponse_switch L G" createBase_MsgModProviderResponse "wf_MsgModProviderResponse L" ..

sublocale long_wire_laws \<subseteq> tc_Msg_OpenContract: rpc_method L F out inp
  "encode_tc_MsgOpenContract L" "tc_MsgOpenContract_switch L G" createBase_tc_MsgOpenContract "wf_tc_MsgOpenContract L"
  "encode_MsgOpenContractResponse L" "tc_MsgOpenContractResponse_switch L G" createBase_MsgOpenContractResponse "wf_MsgOpenContractResponse L" ..

sublocale long_wire_laws \<subseteq> tc_Msg_CloseContract: rpc_method L F out inp
  "encode_tc_MsgCloseContract L" "tc_MsgCloseContract_switch L G" createBase_tc_MsgCloseContract "wf_tc_MsgCloseContract L"
  "encode_MsgCloseContractResponse L" "tc_MsgCloseContractResponse_switch L G" createBase_MsgCloseContractResponse "wf_MsgCloseContractResponse L" ..

sublocale long_wire_laws \<subseteq> tc_Msg_ClaimContractIncome: rpc_method L F out inp
  "encode_tc_MsgClaimContractIncome L" "tc_MsgClaimContractIncome_switch L G" createBase_tc_MsgClaimContractIncome "wf_tc_MsgClaimContractIncome L"
  "encode_MsgClaimContractIncomeResponse L" "tc_MsgClaimContractIncomeResponse_switch L G" createBase_MsgClaimContractIncomeResponse "wf_MsgClaimContractIncomeResponse L" ..

sublocale long_wire_laws \<subseteq> tc_Msg_SetVersion: rpc_method L F out inp
  "encode_tc_MsgSetVersion L" "tc_MsgSetVersion_switch L G" createBase_MsgSetVersion "wf_tc_MsgSetVersion L"
  "encode_MsgSetVersionResponse L" "tc_MsgSetVersionResponse_switch L G" createBase_MsgSetVersionResponse "wf_MsgSetVersionResponse L" ..

lemma tc_Msg_dispatch_served: "tc_Msg_served L G (tc_Msg_dispatch L G impl) impl"
  by (simp add: tc_Msg_served_def tc_Msg_dispatch_def)

context long_wire_laws
begin

lemma tc_Msg_BondProvider_call:
  "tc_Msg_served L G tr impl \<Longrightarrow> wf_tc_MsgBondProvider L q \<Longrightarrow> (\<And>a s'. tc_Msg_service.BondProvider impl q s = (Inr a, s') \<Longrightarrow> wf_MsgBondProviderResponse L a) \<Longrightarrow>
   tc_MsgClientImpl_BondProvider L G tr q s = direct (tc_Msg_service.BondProvider impl) q s"
  unfolding tc_MsgClientImpl_BondProvider_def tc_unary_eq decode_tc_MsgBondProviderResponse_def tc_MsgBondProviderResponse_eqs(1)
  by (rule tc_Msg_BondProvider.call_served) (simp_all add: tc_Msg_served_def decode_tc_MsgBondProvider_def tc_MsgBondProviderResponse_eqs(2))

lemma tc_Msg_ModProvider_call:
  "tc_Msg_served L G tr impl \<Longrightarrow> wf_tc_MsgModProvider L q \<Longrightarrow> (\<And>a s'. tc_Msg_service.ModProvider impl q s = (Inr a, s') \<Longrightarrow> wf_MsgModProviderResponse L a) \<Longrightarrow>
   tc_MsgClientImpl_ModProvider L G tr q s = direct (tc_Msg_service.ModProvider impl) q s"
  unfolding tc_MsgClientImpl_ModProvider_def tc_unary_eq decode_tc_MsgModProviderResponse_def tc_MsgModProviderResponse_eqs(1)
  by (rule tc_Msg_ModProvider.call_served) (simp_all add: tc_Msg_served_def decode_tc_MsgModProvider_def tc_MsgModProviderResponse_eqs(2))

lemma tc_Msg_OpenContract_call:
  "tc_Msg_served L G tr impl \<Longrightarrow> wf_tc_MsgOpenContract L q \<Longrightarrow> (\<And>a s'. tc_Msg_service.OpenContract impl q s = (Inr a, s') \<Longrightarrow> wf_MsgOpenContractResponse L a) \<Longrightarrow>
   tc_MsgClientImpl_OpenContract L G tr q s = direct (tc_Msg_service.OpenContract impl) q s"
  unfolding tc_MsgClientImpl_OpenContract_def tc_unary_eq decode_tc_MsgOpenContractResponse_def tc_MsgOpenContractResponse_eqs(1)
  by (rule tc_Msg_OpenContract.call_served) (simp_all add: tc_Msg_served_def decode_tc_MsgOpenContract_def tc_MsgOpenContractResponse_eqs(2))

lemma tc_Msg_CloseContract_call:
  "tc_Msg_served L G tr impl \<Longrightarrow> wf_tc_MsgCloseContract L q \<Longrightarrow> (\<And>a s'. tc_Msg_service.CloseContract impl q s = (Inr a, s') \<Longrightarrow> wf_MsgCloseContractResponse L a) \<Longrightarrow>
   tc_MsgClientImpl_CloseContract L G tr q s = direct (tc_Msg_service.CloseContract impl) q s"
  unfolding tc_MsgClientImpl_CloseContract_def tc_unary_eq decode_tc_MsgCloseContractResponse_def tc_MsgCloseContractResponse_eqs(1)
  by (rule tc_Msg_CloseContract.call_served) (simp_all add: tc_Msg_served_def decode_tc_MsgCloseContract_def tc_MsgCloseContractResponse_eqs(2))

lemma tc_Msg_ClaimContractIncome_call:
  "tc_Msg_served L G tr impl \<Longrightarrow> wf_tc_MsgClaimContractIncome L q \<Longrightarrow> (\<And>a s'. tc_Msg_service.ClaimContractIncome impl q s = (Inr a, s') \<Longrightarrow> wf_MsgClaimContractIncomeResponse L a) \<Longrightarrow>
   tc_MsgClientImpl_ClaimContractIncome L G tr q s = direct (tc_Msg_service.ClaimContractIncome impl) q s"
  unfolding tc_MsgClientImpl_ClaimContractIncome_def tc_unary_eq decode_tc_MsgClaimContractIncomeResponse_def tc_MsgClaimContractIncomeResponse_eqs(1)
  by (rule tc_Msg_ClaimContractIncome.call_served) (simp_all add: tc_Msg_served_def decode_tc_MsgClaimContractIncome_def tc_MsgClaimContractIncomeResponse_eqs(2))

lemma tc_Msg_SetVersion_call:
  "tc_Msg_served L G tr impl \<Longrightarrow> wf_tc_MsgSetVersion L q \<Longrightarrow> (\<And>a s'. tc_Msg_service.SetVersion impl q s = (Inr a, s') \<Longrightarrow> wf_MsgSetVersionResponse L a) \<Longrightarrow>
   tc_MsgClientImpl_SetVersion L G tr q s = direct (tc_Msg_service.SetVersion impl) q s"
  unfolding tc_MsgClientImpl_SetVersion_def tc_unary_eq decode_tc_MsgSetVersionResponse_def tc_MsgSetVersionResponse_eqs(1)
  by (rule tc_Msg_SetVersion.call_served) (simp_all add: tc_Msg_served_def decode_tc_MsgSetVersion_def tc_MsgSetVersion_eqs(1) tc_MsgSetVersionResponse_eqs(2))

end

sublocale long_wire_laws \<subseteq> tc_Query_Params: rpc_method L F out inp
  "encode_QueryParamsRequest L" "tc_QueryParamsRequest_switch L G" createBase_QueryParamsRequest "wf_QueryParamsRequest L"
  "encode_tc_QueryParamsResponse L" "tc_QueryParamsResponse_switch L G" createBase_tc_QueryParamsResponse "wf_tc_QueryParamsResponse L" ..

sublocale long_wire_laws \<subseteq> tc_Query_FetchProvider: rpc_method L F out inp
  "encode_QueryFetchProviderRequest L" "QueryFetchProviderRequest_switch L" createBase_QueryFetchProviderRequest "wf_QueryFetchProviderRequest L"
  "encode_QueryFetchProviderResponse L" "tc_QueryFetchProviderResponse_switch L G" createBase_QueryFetchProviderResponse "wf_QueryFetchProviderResponse L" ..

sublocale long_wire_laws \<subseteq> tc_Query_ProviderAll: rpc_method L F out inp
  "encode_QueryAllProviderRequest L" "QueryAllProviderRequest_switch L" createBase_QueryAllProviderRequest "wf_QueryAllProviderRequest L"
  "encode_QueryAllProviderResponse L" "tc_QueryAllProviderResponse_switch L G" createBase_QueryAllProviderResponse "wf_QueryAllProviderResponse L" ..

sublocale long_wire_laws \<subseteq> tc_Query_FetchContract: rpc_method L F out inp
  "encode_QueryFetchContractRequest L" "QueryFetchContractRequest_switch L" createBase_QueryFetchContractRequest "wf_QueryFetchContractRequest L"
  "encode_QueryFetchContractResponse L" "tc_QueryFetchContractResponse_switch L G" createBase_QueryFetchContractResponse "wf_QueryFetchContractResponse L" ..

sublocale long_wire_laws \<subseteq> tc_Query_ContractAll: rpc_method L F out inp
  "encode_QueryAllContractRequest L" "QueryAllContractRequest_switch L" createBase_QueryAllContractRequest "wf_QueryAllContractRequest L"
  "encode_QueryAllContractResponse L" "tc_QueryAllContractResponse_switch L G" createBase_QueryAllContractResponse "wf_QueryAllContractResponse L" ..

sublocale long_wire_laws \<subseteq> tc_Query_ActiveContract: rpc_method L F out inp
  "encode_QueryActiveContractRequest L" "QueryActiveContractRequest_switch L" createBase_QueryActiveContractRequest "wf_QueryActiveContractRequest L"
  "encode_QueryActiveContractResponse L" "tc_QueryActiveContractResponse_switch L G" createBase_QueryActiveContractResponse "wf_QueryActiveContractResponse L" ..

lemma tc_Query_dispatch_served: "tc_Query_served L G (tc_Query_dispatch L G impl) impl"
  by (simp add: tc_Query_served_def tc_Query_dispatch_def)

context long_wire_laws
begin

lemma tc_Query_Params_call:
  "tc_Query_served L G tr impl \<Longrightarrow> wf_QueryParamsRequest L q \<Longrightarrow> (\<And>a s'. tc_Query_service.Params impl q s = (Inr a, s') \<Longrightarrow> wf_tc_QueryParamsResponse L a) \<Longrightarrow>
   tc_QueryClientImpl_Params L G tr q s = direct (tc_Query_service.Params impl) q s"
  unfolding tc_QueryClientImpl_Params_def tc_unary_eq decode_tc_QueryParamsResponse_def tc_QueryParamsRequest_eqs(2)
  by (rule tc_Query_Params.call_served) (simp_all add: tc_Query_served_def decode_tc_QueryParamsRequest_def tc_QueryParamsRequest_eqs(1))

lemma tc_Query_FetchProvider_call:
  "tc_Query_served L G tr impl \<Longrightarrow> wf_QueryFetchProviderRequest L q \<Longrightarrow> (\<And>a s'. tc_Query_service.FetchProvider impl q s = (Inr a, s') \<Longrightarrow> wf_QueryFetchProviderResponse L a) \<Longrightarrow>
   tc_QueryClientImpl_FetchProvider L G tr q s = direct (tc_Query_service.FetchProvider impl) q s"
  unfolding tc_QueryClientImpl_FetchProvider_def tc_unary_eq decode_tc_QueryFetchProviderResponse_def tc_QueryFetchProviderRequest_eqs(2) tc_QueryFetchProviderResponse_eqs(1)
  by (rule tc_Query_FetchProvider.call_served) (simp_all add: tc_Query_served_def decode_QueryFetchProviderRequest_def)

lemma tc_Query_ProviderAll_call:
  "tc_Query_served L G tr impl \<Longrightarrow> wf_QueryAllProviderRequest L q \<Longrightarrow> (\<And>a s'. tc_Query_service.ProviderAll impl q s = (Inr a, s') \<Longrightarrow> wf_QueryAllProviderResponse L a) \<Longrightarrow>
   tc_QueryClientImpl_ProviderAll L G tr q s = direct (tc_Query_service.ProviderAll impl) q s"
  unfolding tc_QueryClientImpl_ProviderAll_def tc_unary_eq decode_tc_QueryAllProviderResponse_def tc_QueryAllProviderRequest_eqs(2) tc_QueryAllProviderResponse_eqs(1)
  by (rule tc_Query_ProviderAll.call_served) (simp_all add: tc_Query_served_def decode_QueryAllProviderRequest_def)

lemma tc_Query_FetchContract_call:
  "tc_Query_served L G tr impl \<Longrightarrow> wf_QueryFetchContractRequest L q \<Longrightarrow> (\<And>a s'. tc_Query_service.FetchContract impl q s = (Inr a, s') \<Longrightarrow> wf_QueryFetchContractResponse L a) \<Longrightarrow>
   tc_QueryClientImpl_FetchContract L G tr q s = direct (tc_Query_service.FetchContract impl) q s"
  unfolding tc_QueryClientImpl_FetchContract_def tc_unary_eq decode_tc_QueryFetchContractResponse_def tc_QueryFetchContractRequest_eqs(2) tc_QueryFetchContractResponse_eqs(1)
  by (rule tc_Query_FetchContract.call_served) (simp_all add: tc_Query_served_def decode_QueryFetchContractRequest_def)

lemma tc_Query_ContractAll_call:
  "tc_Query_served L G tr impl \<Longrightarrow> wf_QueryAllContractRequest L q \<Longrightarrow> (\<And>a s'. tc_Query_service.ContractAll impl q s = (Inr a, s') \<Longrightarrow> wf_QueryAllContractResponse L a) \<Longrightarrow>
   tc_QueryClientImpl_ContractAll L G tr q s = direct (tc_Query_service.ContractAll impl) q s"
  unfolding tc_QueryClientImpl_ContractAll_def tc_unary_eq decode_tc_QueryAllContractResponse_def tc_QueryAllContractRequest_eqs(2) tc_QueryAllContractResponse_eqs(1)
  by (rule tc_Query_ContractAll.call_served) (simp_all add: tc_Query_served_def decode_QueryAllContractRequest_def)

lemma tc_Query_ActiveContract_call:
  "tc_Query_served L G tr impl \<Longrightarrow> wf_QueryActiveContractRequest L q \<Longrightarrow> (\<And>a s'. tc_Query_service.ActiveContract impl q s = (Inr a, s') \<Longrightarrow> wf_QueryActiveContractResponse L a) \<Longrightarrow>
   tc_QueryClientImpl_ActiveContract L G tr q s = direct (tc_Query_service.ActiveContract impl) q s"
  unfolding tc_QueryClientImpl_ActiveContract_def tc_unary_eq decode_tc_QueryActiveContractResponse_def tc_QueryActiveContractRequest_eqs(2) tc_QueryActiveContractResponse_eqs(1)
  by (rule tc_Query_ActiveContract.call_served) (simp_all add: tc_Query_served_def decode_QueryActiveContractRequest_def)

end

sublocale long_wire_laws \<subseteq> tc_claim_Msg_ClaimEth: rpc_method L F out inp
  "encode_tc_MsgClaimEth L" "tc_MsgClaimEth_switch L G" createBase_tc_MsgClaimEth "wf_tc_MsgClaimEth L"
  "encode_tc_MsgClaimEthResponse L" "tc_MsgClaimEthResponse_switch L G" createBase_tc_MsgClaimEthResponse "wf_tc_MsgClaimEthResponse L" ..

sublocale long_wire_laws \<subseteq> tc_claim_Msg_ClaimArkeo: rpc_method L F out inp
  "encode_tc_MsgClaimArkeo L" "tc_MsgClaimArkeo_switch L G" createBase_tc_MsgClaimArkeo "wf_tc_MsgClaimArkeo L"
  "encode_tc_MsgClaimArkeoResponse L" "tc_MsgClaimArkeoResponse_switch L G" createBase_tc_MsgClaimArkeoResponse "wf_tc_MsgClaimArkeoResponse L" ..

sublocale long_wire_laws \<subseteq> tc_claim_Msg_TransferClaim: rpc_method L F out inp
  "encode_tc_MsgTransferClaim L" "tc_MsgTransferClaim_switch L G" createBase_tc_MsgTransferClaim "wf_tc_MsgTransferClaim L"
  "encode_MsgTransferClaimResponse L" "tc_MsgTransferClaimResponse_switch L G" createBase_MsgTransferClaimResponse "wf_MsgTransferClaimResponse L" ..

sublocale long_wire_laws \<subseteq> tc_claim_Msg_AddClaim: rpc_method L F out inp
  "encode_tc_MsgAddClaim L" "tc_MsgAddClaim_switch L G" createBase_tc_MsgAddClaim "wf_tc_MsgAddClaim L"
  "encode_MsgAddClaimResponse L" "tc_MsgAddClaimResponse_switch L G" createBase_MsgAddClaimResponse "wf_MsgAddClaimResponse L" ..

lemma tc_claim_Msg_dispatch_served: "tc_claim_Msg_served L G (tc_claim_Msg_dispatch L G impl) impl"
  by (simp add: tc_claim_Msg_served_def tc_claim_Msg_dispatch_def)

context long_wire_laws
begin

lemma tc_claim_Msg_ClaimEth_call:
  "tc_claim_Msg_served L G tr impl \<Longrightarrow> wf_tc_MsgClaimEth L q \<Longrightarrow> (\<And>a s'. tc_claim_Msg_service.ClaimEth impl q s = (Inr a, s') \<Longrightarrow> wf_tc_MsgClaimEthResponse L a) \<Longrightarrow>
   tc_claim_MsgClientImpl_ClaimEth L G tr q s = direct (tc_claim_Msg_service.ClaimEth impl) q s"
  unfolding tc_claim_MsgClientImpl_ClaimEth_def tc_unary_eq decode_tc_MsgClaimEthResponse_def
  by (rule tc_claim_Msg_ClaimEth.call_served) (simp_all add: tc_claim_Msg_served_def decode_tc_MsgClaimEth_def)

lemma tc_claim_Msg_ClaimArkeo_call:
  "tc_claim_Msg_served L G tr impl \<Longrightarrow> wf_tc_MsgClaimArkeo L q \<Longrightarrow> (\<And>a s'. tc_claim_Msg_service.ClaimArkeo impl q s = (Inr a, s') \<Longrightarrow> wf_tc_MsgClaimArkeoResponse L a) \<Longrightarrow>
   tc_claim_MsgClientImpl_ClaimArkeo L G tr q s = direct (tc_claim_Msg_service.ClaimArkeo impl) q s"
  unfolding tc_claim_MsgClientImpl_ClaimArkeo_def tc_unary_eq decode_tc_MsgClaimArkeoResponse_def
  by (rule tc_claim_Msg_ClaimArkeo.call_served) (simp_all add: tc_claim_Msg_served_def decode_tc_MsgClaimArkeo_def)

lemma tc_claim_Msg_TransferClaim_call:
  "tc_claim_Msg_served L G tr impl \<Longrightarrow> wf_tc_MsgTransferClaim L q \<Longrightarrow> (\<And>a s'. tc_claim_Msg_service.TransferClaim impl q s = (Inr a, s') \<Longrightarrow> wf_MsgTransferClaimResponse L a) \<Longrightarrow>
   tc_claim_MsgClientImpl_TransferClaim L G tr q s = direct (tc_claim_Msg_service.TransferClaim impl) q s"
  unfolding tc_claim_MsgClientImpl_TransferClaim_def tc_unary_eq decode_tc_MsgTransferClaimResponse_def tc_MsgTransferClaimResponse_eqs(1)
  by (rule tc_claim_Msg_TransferClaim.call_served) (simp_all add: tc_claim_Msg_served_def decode_tc_MsgTransferClaim_def tc_MsgTransferClaimResponse_eqs(2))

lemma tc_claim_Msg_AddClaim_call:
  "tc_claim_Msg_served L G tr impl \<Longrightarrow> wf_tc_MsgAddClaim L q \<Longrightarrow> (\<And>a s'. tc_claim_Msg_service.AddClaim impl q s = (Inr a, s') \<Longrightarrow> wf_MsgAddClaimResponse L a) \<Longrightarrow>
   tc_claim_MsgClientImpl_AddClaim L G tr q s = direct (tc_claim_Msg_service.AddClaim impl) q s"
  unfolding tc_claim_MsgClientImpl_AddClaim_def tc_unary_eq decode_tc_MsgAddClaimResponse_def tc_MsgAddClaimResponse_eqs(1)
  by (rule tc_claim_Msg_AddClaim.call_served) (simp_all add: tc_claim_Msg_served_def decode_tc_MsgAddClaim_def tc_MsgAddClaimResponse_eqs(2))

end

sublocale long_wire_laws \<subseteq> tc_claim_Query_Params: rpc_method L F out inp
  "encode_claim_QueryParamsRequest L" "tc_claim_QueryParamsRequest_switch L G" createBase_claim_QueryParamsRequest "wf_claim_QueryParamsRequest L"
  "encode_tc_claim_QueryParamsResponse L" "tc_claim_QueryParamsResponse_switch L G" createBase_claim_QueryParamsResponse "wf_tc_claim_QueryParamsResponse L" ..

sublocale long_wire_laws \<subseteq> tc_claim_Query_ClaimRecord: rpc_method L F out inp
  "encode_QueryClaimRecordRequest L" "QueryClaimRecordRequest_switch L" createBase_QueryClaimRecordRequest "wf_QueryClaimRecordRequest L"
  "encode_QueryClaimRecordResponse L" "tc_QueryClaimRecordResponse_switch L G" createBase_QueryClaimRecordResponse "wf_QueryClaimRecordResponse L" ..

lemma tc_claim_Query_dispatch_served: "tc_claim_Query_served L G (tc_claim_Query_dispatch L G impl) impl"
  by (simp add: tc_claim_Query_served_def tc_claim_Query_dispatch_def)

context long_wire_laws
begin

lemma tc_claim_Query_Params_call:
  "tc_claim_Query_served L G tr impl \<Longrightarrow> wf_claim_QueryParamsRequest L q \<Longrightarrow> (\<And>a s'. tc_claim_Query_service.Params impl q s = (Inr a, s') \<Longrightarrow> wf_tc_claim_QueryParamsResponse L a) \<Longrightarrow>
   tc_claim_QueryClientImpl_Params L G tr q s = direct (tc_claim_Query_service.Params impl) q s"
  unfolding tc_claim_QueryClientImpl_Params_def tc_unary_eq decode_tc_claim_QueryParamsResponse_def tc_claim_QueryParamsRequest_eqs(2) tc_claim_QueryParamsResponse_eqs(1)
  by (rule tc_claim_Query_Params.call_served) (simp_all add: tc_claim_Query_served_def decode_tc_claim_QueryParamsRequest_def tc_claim_QueryParamsRequest_eqs(1))

lemma tc_claim_Query_ClaimRecord_call:
  "tc_claim_Query_served L G tr impl \<Longrightarrow> wf_QueryClaimRecordRequest L q \<Longrightarrow> (\<And>a s'. tc_claim_Query_service.ClaimRecord impl q s = (Inr a, s') \<Longrightarrow> wf_QueryClaimRecordResponse L a) \<Longrightarrow>
   tc_claim_QueryClientImpl_ClaimRecord L G tr q s = direct (tc_claim_Query_service.ClaimRecord impl) q s"
  unfolding tc_claim_QueryClientImpl_ClaimRecord_def tc_unary_eq decode_tc_QueryClaimRecordResponse_def tc_QueryClaimRecordRequest_eqs(2) tc_QueryClaimRecordResponse_eqs(1)
  by (rule tc_claim_Query_ClaimRecord.call_served) (simp_all add: tc_claim_Query_served_def decode_QueryClaimRecordRequest_def)

end

end
