(* ===== verification/CosmosRpc.thy ===== *)
theory CosmosRpc
  imports TcRpc
begin

text \<open>
  What the gRPC clients of the Cosmos modules have in common: a method of a client refines a
  handler when, over every transport whose remote end runs the handler behind the codecs of the
  method, a call has the outcome and the effect of the handler.
\<close>

definition refines_handler :: "('w, 'r) wire \<Rightarrow> ('r input \<Rightarrow> nat option \<Rightarrow> ('q \<times> 'r) result) \<Rightarrow> ('a \<Rightarrow> 'w \<Rightarrow> 'w result)
    \<Rightarrow> ('q \<Rightarrow> bool) \<Rightarrow> ('a \<Rightarrow> bool) \<Rightarrow> ('s rpc \<Rightarrow> 'q \<Rightarrow> 's \<Rightarrow> 'a outcome \<times> 's) \<Rightarrow> jsstring \<Rightarrow> jsstring \<Rightarrow> bool" where
  "refines_handler L dec enc P Q call svc method \<longleftrightarrow>
     (\<forall>tr handler q s. (\<forall>data s. tr svc method data s = serve L dec enc handler data s) \<longrightarrow>
        P q \<longrightarrow> (\<forall>a s'. handler q s = (Inr a, s') \<longrightarrow> Q a) \<longrightarrow> call tr q s = direct handler q s)"

lemma refines_handlerD:
  assumes "refines_handler L dec enc P Q call svc method"
    and "\<And>data s. tr svc method data s = serve L dec enc handler data s"
    and "P q" and "\<And>a s'. handler q s = (Inr a, s') \<Longrightarrow> Q a"
  shows "call tr q s = direct handler q s"
  using assms unfolding refines_handler_def by blast

context wire_laws
begin

lemma refines_unary:
  assumes q: "message_codec L F out inp eq swq bq P" and a: "message_codec L F out inp ea swa ba Q"
  shows "refines_handler L (decode_msg L swq bq) ea P Q
    (\<lambda>tr. tc_unary L tr svc method eq (decode_msg L swa ba)) svc method"
  unfolding refines_handler_def tc_unary_eq
  by (intro allI impI rpc_method.call_served [OF rpc_method.intro [OF q a]]) simp_all

end

end
