(* ===== verification/OptionalFields.thy ===== *)
theory OptionalFields
  imports Codec
begin

text \<open>
  What the messages that describe schemas (\<open>google/protobuf/descriptor.ts\<close>, \<open>google/api/http.ts\<close>)
  have and the others have not.

  A field of version 2 of the schema language may be \<open>undefined\<close> and has a default. It is written
  if it is set to something else, and both the decoder and \<open>fromJSON\<close> start from the default: an
  \<open>undefined\<close> field is read back as the default (\<open>reads_as\<close>). Such a field is an option, and
  \<open>present\<close> says that it is set.

  A message that contains messages of its own type is decoded by a recursive call for each level. The
  host runs out of stack at some depth and throws a \<open>RangeError\<close>; the depth it allows is a parameter
  of the functions of these messages, which recurse on it.
\<close>

section \<open>Definitions\<close>

definition stack_overflow :: js_error where
  "stack_overflow = RangeError ''Maximum call stack size exceeded''"

definition present :: "('a \<Rightarrow> bool) \<Rightarrow> 'a option \<Rightarrow> bool" where
  "present P x = (case x of None \<Rightarrow> False | Some v \<Rightarrow> P v)"

text \<open>\<open>if (message.k !== undefined && c(message.k)) { obj.k = f(message.k); }\<close>\<close>

definition jdefE :: "string \<Rightarrow> ('a \<Rightarrow> bool) \<Rightarrow> ('a \<Rightarrow> jsval result) \<Rightarrow> 'a option \<Rightarrow> (string \<times> jsval) list result" where
  "jdefE k c f x = (case x of None \<Rightarrow> Inr [] | Some v \<Rightarrow> jfieldE (c v) k (f v))"

text \<open>\<open>object.k?.map((e) => f(e)) || []\<close> for a function that may throw\<close>

definition partial_mapE :: "('a \<Rightarrow> 'b result) \<Rightarrow> 'a list option \<Rightarrow> 'b list result" where
  "partial_mapE f x = (case x of None \<Rightarrow> Inr [] | Some xs \<Rightarrow> mapE f xs)"

text \<open>What \<open>enc\<close> writes of \<open>m\<close>, \<open>dec\<close> reads as \<open>m'\<close>, and reads all of it.\<close>

definition reads_as :: "('w, 'r) wire \<Rightarrow> ('r \<Rightarrow> bytes) \<Rightarrow> ('m \<Rightarrow> 'w \<Rightarrow> 'w result)
    \<Rightarrow> ('r input \<Rightarrow> nat option \<Rightarrow> ('m \<times> 'r) result) \<Rightarrow> 'm \<Rightarrow> 'm \<Rightarrow> bool" where
  "reads_as L inp enc dec m m' \<longleftrightarrow> (\<exists>bs r. encode_bytes L (enc m) = Inr bs \<and>
     dec (ABuffer bs) None = Inr (m', r) \<and> inp r = [])"

definition jdef :: "string \<Rightarrow> ('a \<Rightarrow> bool) \<Rightarrow> ('a \<Rightarrow> jsval) \<Rightarrow> 'a option \<Rightarrow> (string \<times> jsval) list" where
  "jdef k c j x = (case x of None \<Rightarrow> [] | Some v \<Rightarrow> jfield (c v) k (j v))"


section \<open>Encoding\<close>

lemma reads_as_complete:
  "roundtrips L inp enc dec m' \<Longrightarrow> enc m' = enc m \<Longrightarrow> reads_as L inp enc dec m m'"
  by (simp add: roundtrips_def reads_as_def)

lemma present_Some [simp]: "present P (Some v) = P v"
  by (simp add: present_def)

lemma present_mono: "present P x \<Longrightarrow> (\<And>v. P v \<Longrightarrow> Q v) \<Longrightarrow> present Q x"
  by (cases x) (auto simp: present_def)

lemma pred_option_mono': "pred_option P x \<Longrightarrow> (\<And>v. P v \<Longrightarrow> Q v) \<Longrightarrow> pred_option Q x"
  by (cases x) auto

text \<open>Setting an \<open>undefined\<close> field to its default changes nothing that is written.\<close>

lemma someE_default [simp]:
  "someE (Some (nullish x d)) (\<lambda>v. whenE (v \<noteq> d) (f v)) = someE x (\<lambda>v. whenE (v \<noteq> d) (f v))"
  "someE (Some (nullish y [])) (\<lambda>v. whenE (length v \<noteq> 0) (g v)) = someE y (\<lambda>v. whenE (length v \<noteq> 0) (g v))"
  by (cases x; cases y; simp add: someE_def [abs_def] whenE_def [abs_def])+

lemma someE_bool_default [simp]:
  "someE (Some (nullish x True)) (\<lambda>v. whenE (\<not> v) (f v)) = someE x (\<lambda>v. whenE (\<not> v) (f v))"
  "someE (Some (nullish x False)) (\<lambda>v. whenE v (f v)) = someE x (\<lambda>v. whenE v (f v))"
  by (cases x; simp add: someE_def [abs_def] whenE_def [abs_def])+

lemma someE_map [simp]: "someE (map_option g x) f = someE x (\<lambda>v. f (g v))"
  by (cases x) (simp_all add: someE_def [abs_def])

text \<open>Statements that write nothing.\<close>

lemma skip_stmts: "forE f [] = Inr" "someE None f = Inr" "seqE (Inr # fs) = seqE fs"
  by (rule ext, simp add: someE_def)+

lemma forE_map [simp]: "forE f (map g xs) = forE (\<lambda>v. f (g v)) xs"
proof (induction xs)
  case (Cons x xs)
  show ?case by (rule ext) (simp add: Cons)
qed (rule ext, simp)

context wire_laws
begin

lemma codes_default:
  assumes "good_sw sw" and "sw tag m = readf op (\<lambda>v. u (\<lambda>_. Some v) m)"
    and "present (\<lambda>v. carries (seqE (fs v)) op v) x"
    and "\<And>v. x = Some v \<Longrightarrow> \<not> c v \<Longrightarrow> u (\<lambda>_. Some v) m = m"
  shows "codes sw (someE x (\<lambda>v. whenE (c v) (seqE (w_uint32 L tag # fs v)))) m (u (\<lambda>_. x) m)"
proof (cases x)
  case (Some v)
  then show ?thesis
    using codes_field [OF assms(1,2), of "fs v" v] codes_Nil [of m "u (\<lambda>_. Some v) m" sw] assms(3,4)
    by (cases "c v") (simp_all add: someE_def [abs_def] whenE_def [abs_def] del: seqE.simps)
qed (use assms(3) in \<open>simp add: present_def\<close>)

lemma present_carries [codec_rules]:
  "present wire_string x \<Longrightarrow> present (\<lambda>v. carries (seqE [w_string L v]) (r_string L) v) x"
  "present wire_bytes b \<Longrightarrow> present (\<lambda>v. carries (seqE [w_bytes L v]) (r_bytes L) v) b"
  "present int32_num n \<Longrightarrow> present (\<lambda>v. carries (seqE [w_int32 L v]) (num32 (r_int32 L)) v) n"
  "present safe_int n \<Longrightarrow> present (\<lambda>v. carries (seqE [w_int64 L v]) (num64 (r_int64 L)) v) n"
  "present safe_uint n \<Longrightarrow> present (\<lambda>v. carries (seqE [w_uint64 L v]) (num64 (r_uint64 L)) v) n"
  "present is_double n \<Longrightarrow> present (\<lambda>v. carries (seqE [w_double L v]) (r_double L) v) n"
  "present (\<lambda>_. True) c \<Longrightarrow> present (\<lambda>v. carries (seqE [w_bool L v]) (r_bool L) v) c"
  using carries_string carries_bytes carries_int32 carries_int64 carries_uint64 carries_double carries_bool
  by (auto elim: present_mono)

lemma option_carries [codec_rules]:
  "pred_option wire_string x \<Longrightarrow> pred_option (\<lambda>v. carries (seqE [w_string L v]) (r_string L) v) x"
  using carries_string by (auto elim: pred_option_mono')

lemma good_stack_overflow [fwd_rules]: "good_op (submsg L (\<lambda>_ _. Inl stack_overflow))"
  using returns_uint32
  by (auto simp: good_op_def submsg_def stack_overflow_def bindE_Inl_conv bindE_Inr_conv)

end


section \<open>JSON\<close>

lemma jdefE_rules [json_rules]:
  "jdefE k c (\<lambda>v. Inr (j v)) x = Inr (jdef k c j x)"
  "jdefE k c' (base64E h) b = Inr (jdef k c' (\<lambda>v. JString (b64_encode v)) b)"
  by (simp_all add: jdefE_def jdef_def base64E_eq jfieldE_Inr split: option.splits)

lemma jdef_at_rules [json_rules]:
  "k' \<noteq> k \<Longrightarrow> absent ps k \<Longrightarrow> absent (jdef k' c j x @ ps) k"
  "absent ps k \<Longrightarrow> written_at (jdef k c j x @ ps) k (jdef k c j x)"
  "k' \<noteq> k \<Longrightarrow> written_at ps k p \<Longrightarrow> written_at (jdef k' c j x @ ps) k p"
  by (simp_all add: written_at_def absent_def jdef_def jfield_def split: option.splits)

lemma read_default:
  "x \<noteq> None \<Longrightarrow> (\<And>v. x = Some v \<Longrightarrow> f (j v) = Inr v \<and> isSet (j v) \<and> (\<not> c v \<longrightarrow> v = d)) \<Longrightarrow>
   lookE (map_of (jdef k c j x) k) f d = Inr (the x)"
  using read_field [of f "j (the x)" "the x" "c (the x)" d k] by (auto simp: jdef_def)

lemma read_defaults [json_rules]:
  "x \<noteq> None \<Longrightarrow> lookE (map_of (jdef k (\<lambda>v. v \<noteq> []) JString x) k) (stringE h) [] = Inr (the x)"
  "n \<noteq> None \<Longrightarrow> whole (the n) \<Longrightarrow>
   lookE (map_of (jdef k (\<lambda>v. v \<noteq> d) (\<lambda>v. JNumber (Math_round v)) n) k) (numberE h) d = Inr (the n)"
  "n \<noteq> None \<Longrightarrow> lookE (map_of (jdef k (\<lambda>v. v \<noteq> d) JNumber n) k) (numberE h) d = Inr (the n)"
  "b \<noteq> None \<Longrightarrow> lookE (map_of (jdef k (\<lambda>v. v \<noteq> True) JBool b) k) booleanE True = Inr (the b)"
  "b \<noteq> None \<Longrightarrow> lookE (map_of (jdef k (\<lambda>v. v \<noteq> False) JBool b) k) booleanE False = Inr (the b)"
  "n \<noteq> None \<Longrightarrow> enumE f (JString (g (the n))) = Inr (the n) \<Longrightarrow>
   lookE (map_of (jdef k (\<lambda>v. v \<noteq> d) (\<lambda>v. JString (g v)) n) k) (enumE f) d = Inr (the n)"
  "y \<noteq> None \<Longrightarrow> lookE (map_of (jdef k (\<lambda>v. length v \<noteq> 0) (\<lambda>v. JString (b64_encode v)) y) k) (bytesFromBase64 h) [] = Inr (the y)"
  by (rule read_default; auto simp: stringE_def numberE_def booleanE_def whole_def bytesFromBase64_encode)+

lemma json_opt_string [json_rules]:
  "joptE k (\<lambda>v. Inr (JString v)) x = Inr (jopt k JString x)"
  "lookE (map_of (jopt k JString x) k) (\<lambda>v. bindE (stringE h v) (\<lambda>y. Inr (Some y))) None = Inr x"
  by (cases x; simp add: joptE_def jopt_def lookE_def stringE_def)+

lemma json_enums [json_rules]:
  "jarrayE k (\<lambda>e. Inr (JString (g e))) xs = Inr (jarray k (\<lambda>e. JString (g e)) xs)"
  "list_all (\<lambda>n. enumE f (JString (g n)) = Inr n) xs \<Longrightarrow>
   look_array (map_of (jarray k (\<lambda>e. JString (g e)) xs) k) (enumE f) = Inr xs"
  by (rule jarrayE_pure, erule read_elements)

end
