(* ===== verification/CosmosCodec.thy ===== *)
theory CosmosCodec
  imports CosmosRpc OptionalFields
begin

text \<open>
  What the messages of the Cosmos modules in \<open>ts-client\<close> need beyond those of arkeo: fields of type
  \<open>uint32\<close>. \<open>writer.uint32(x)\<close> takes a number, which it reads as an unsigned 32-bit integer the way
  \<open>x >>> 0\<close> does, and \<open>reader.uint32()\<close> gives a number. A member of a \<open>oneof\<close> is \<open>undefined\<close> unless it is set.
\<close>

section \<open>Definitions\<close>

text \<open>\<open>x >>> 0\<close>: the integral part modulo \<open>2 ^ 32\<close>; 0 for a number that is not finite.\<close>

fun ToUint32 :: "number \<Rightarrow> u32" where
  "ToUint32 (Num q) = of_int (rat_trunc q)"
| "ToUint32 _ = 0"

definition num_u32 :: "('r \<Rightarrow> (u32 \<times> 'r) result) \<Rightarrow> 'r \<Rightarrow> (number \<times> 'r) result" where
  "num_u32 op = read_map (\<lambda>w. num_of_int (uint w)) op"

definition uint32_num :: "number \<Rightarrow> bool" where
  "uint32_num = int_between 0 (2 ^ 32 - 1)"


section \<open>The numbers that come back\<close>

lemma ToUint32_roundtrip: "uint32_num n \<Longrightarrow> num_of_int (uint (ToUint32 n)) = n"
  unfolding uint32_num_def
  by (elim int_betweenE) (simp add: rat_trunc_def uint_word_of_int take_bit_int_eq_self)

lemma ToUint32_wraps: "ToUint32 (num_of_int (i + 2 ^ 32)) = ToUint32 (num_of_int i)"
  by (simp add: rat_trunc_def)

lemma uint32_num_whole: "uint32_num n \<Longrightarrow> whole n"
  unfolding uint32_num_def by (rule wholeI)

context wire_laws
begin

lemma good_num_u32 [fwd_rules]: "good_op (num_u32 (r_uint32 L))"
  unfolding num_u32_def by (rule good_read_map) (rule good_ops)

lemma carries_uint32 [codec_rules]:
  "uint32_num n \<Longrightarrow> carries (seqE [w_uint32 L (ToUint32 n)]) (num_u32 (r_uint32 L)) n"
proof -
  assume "uint32_num n"
  moreover have "carries (w_uint32 L (ToUint32 n)) (r_uint32 L) (ToUint32 n)"
    unfolding carries_def using emits_uint32 inp_uint32 by blast
  ultimately show ?thesis
    unfolding num_u32_def using carries_map [where g = "\<lambda>w. num_of_int (uint w)", OF _ ToUint32_roundtrip] by simp
qed

lemma option_carries_bytes [codec_rules]:
  "pred_option wire_bytes x \<Longrightarrow> pred_option (\<lambda>v. carries (seqE [w_bytes L v]) (r_bytes L) v) x"
  using carries_bytes by (auto elim: pred_option_mono')

end

lemma json_opt_bytes [json_rules]:
  "joptE k (base64E h) x = Inr (jopt k (\<lambda>v. JString (b64_encode v)) x)"
  "lookE (map_of (jopt k (\<lambda>v. JString (b64_encode v)) x) k) (\<lambda>v. bindE (bytesFromBase64 h v) (\<lambda>y. Inr (Some y))) None = Inr x"
  by (cases x; simp add: joptE_def jopt_def lookE_def base64E_eq bytesFromBase64_encode)+

end
