(* ===== verification/CosmosAny.thy ===== *)
theory CosmosAny
  imports CosmosCodec
begin

unbundle bit_operations_syntax

text \<open>
  The message that carries another message with its type (\<open>google/protobuf/any.ts\<close> of \<open>ts-client\<close>; the copies
  of the modules are the same file).
\<close>


section \<open>ts-client/cosmos.auth.v1beta1/types/google/protobuf/any.ts\<close>

subsection \<open>Any\<close>

record tc_Any =
  typeUrl :: jsstring
  value' :: bytes

definition createBase_tc_Any :: tc_Any where
  "createBase_tc_Any = \<lparr>tc_Any.typeUrl = [],
     tc_Any.value' = []\<rparr>"

definition encode_tc_Any :: "('w, 'r) wire \<Rightarrow> tc_Any \<Rightarrow> 'w \<Rightarrow> 'w result" where
  "encode_tc_Any L message = seqE
    [whenE (tc_Any.typeUrl message \<noteq> []) (seqE [w_uint32 L 10, w_string L (tc_Any.typeUrl message)]),
     whenE (length (tc_Any.value' message) \<noteq> 0) (seqE [w_uint32 L 18, w_bytes L (tc_Any.value' message)])]"

definition tc_Any_switch :: "('w, 'r) wire \<Rightarrow> long_lib \<Rightarrow> u32 \<Rightarrow> tc_Any \<Rightarrow> (tc_Any, 'r) action" where
  "tc_Any_switch L G tag message = js_switch (drop_bit 3 tag)
    [(1, readf (r_string L) (\<lambda>v. message\<lparr>tc_Any.typeUrl := v\<rparr>)),
     (2, readf (r_bytes L) (\<lambda>v. message\<lparr>tc_Any.value' := v\<rparr>))]
    (skipType L tag message)"

definition decode_tc_Any :: "('w, 'r) wire \<Rightarrow> long_lib \<Rightarrow> 'r input \<Rightarrow> nat option \<Rightarrow> (tc_Any \<times> 'r) result" where
  "decode_tc_Any L G = decode_msg L (tc_Any_switch L G) createBase_tc_Any"

definition fromJSON_tc_Any :: "host \<Rightarrow> jsval \<Rightarrow> tc_Any result" where
  "fromJSON_tc_Any h object =
     bindE (fieldE object ''typeUrl'' (stringE h) []) (\<lambda>v_typeUrl.
     bindE (fieldE object ''value'' (bytesFromBase64 h) []) (\<lambda>v_value.
     Inr \<lparr>tc_Any.typeUrl = v_typeUrl, tc_Any.value' = v_value\<rparr>))"

definition toJSON_tc_Any :: "host \<Rightarrow> tc_Any \<Rightarrow> jsval result" where
  "toJSON_tc_Any h message = objE
    [jfieldE True ''typeUrl'' (Inr (JString (tc_Any.typeUrl message))),
     jfieldE True ''value'' (base64E h (tc_Any.value' message))]"

type_synonym tc_Any_Partial = "jsstring option \<times> bytes option"

definition fromPartial_tc_Any :: "tc_Any_Partial \<Rightarrow> tc_Any" where
  "fromPartial_tc_Any object = (case object of (p_typeUrl, p_value) \<Rightarrow>
     createBase_tc_Any\<lparr>tc_Any.typeUrl := nullish (p_typeUrl) [],
       tc_Any.value' := nullish (p_value) []\<rparr>)"

text \<open>A partial message that sets every field.\<close>

definition partial_of_tc_Any :: "tc_Any \<Rightarrow> tc_Any_Partial" where
  "partial_of_tc_Any m =
     (Some (tc_Any.typeUrl m),
      Some (tc_Any.value' m))"

definition wf_tc_Any :: "('w, 'r) wire \<Rightarrow> tc_Any \<Rightarrow> bool" where
  "wf_tc_Any L m \<longleftrightarrow> wire_string (tc_Any.typeUrl m)
     \<and> wire_bytes (tc_Any.value' m)"

definition wfj_tc_Any :: "tc_Any \<Rightarrow> bool" where
  "wfj_tc_Any m \<longleftrightarrow> True"


section \<open>Encoding, decoding and JSON of these messages\<close>

context long_wire_laws
begin


end


lemma fromPartial_partial_of_tc_Any [simp]: "fromPartial_tc_Any (partial_of_tc_Any m) = m"
  by (simp add: fromPartial_tc_Any_def partial_of_tc_Any_def createBase_tc_Any_def partial_map_def option.map_comp o_def option.map_ident)

lemma tc_Any_tags:
  "tc_Any_switch L G 10 m = readf (r_string L) (\<lambda>v. m\<lparr>tc_Any.typeUrl := v\<rparr>)"
  "tc_Any_switch L G 18 m = readf (r_bytes L) (\<lambda>v. m\<lparr>tc_Any.value' := v\<rparr>)"
  by (simp_all add: tc_Any_switch_def)

context long_wire_laws
begin

lemma tc_Any_codec: "message_codec L F out inp (encode_tc_Any L) (tc_Any_switch L G) createBase_tc_Any (wf_tc_Any L)"
proof unfold_locales
  show good: "good_sw (tc_Any_switch L G)"
    unfolding tc_Any_switch_def by (intro good_swI fwd_rules)
  fix m assume "wf_tc_Any L m"
  then show "codes (tc_Any_switch L G) (encode_tc_Any L m) createBase_tc_Any m"
    unfolding encode_tc_Any_def wf_tc_Any_def
    by (elim conjE)
      (rule codes_Cons codes_Nil [OF tc_Any.equality] codec_rules
        codes_when [where tag = 10 and u = tc_Any.typeUrl_update and op = "r_string L", OF good]
        codes_when [where tag = 18 and u = tc_Any.value'_update and op = "r_bytes L", OF good]
      | assumption | (simp add: tc_Any_tags createBase_tc_Any_def; fail))+
qed

lemmas tc_Any_carries =
  message_codec.opt_carries [OF tc_Any_codec, folded decode_tc_Any_def]
  message_codec.list_carries [OF tc_Any_codec, folded decode_tc_Any_def]

lemmas tc_Any_good = message_codec.op_good [OF tc_Any_codec, folded decode_tc_Any_def]

lemmas tc_Any_roundtrip = message_codec.roundtrip [OF tc_Any_codec, folded decode_tc_Any_def]

lemmas tc_Any_returns = message_codec.decode_returns [OF tc_Any_codec, folded decode_tc_Any_def]

end

lemma tc_Any_json: "message_json toJSON_tc_Any fromJSON_tc_Any wfj_tc_Any"
proof unfold_locales
  fix h m
  assume "wfj_tc_Any m"
  then show "json_rt (toJSON_tc_Any h) (fromJSON_tc_Any h) m"
    unfolding toJSON_tc_Any_def fromJSON_tc_Any_def wfj_tc_Any_def
    by (-) (rule json_rtI json_rules | assumption | (simp; fail))+
qed

lemmas tc_Any_json_rules = message_json.json_list_rules [OF tc_Any_json]

end
