(* ===== verification/CosAuthz.thy ===== *)
theory CosAuthz
  imports CosmosAny
begin

unbundle bit_operations_syntax

text \<open>
  The messages of the authz module in \<open>ts-client/cosmos.authz.v1beta1\<close>.
\<close>


section \<open>ts-client/cosmos.authz.v1beta1/types/cosmos/authz/v1beta1/authz.ts\<close>

subsection \<open>GenericAuthorization\<close>

record tc_authz_GenericAuthorization =
  msg' :: jsstring

definition createBase_tc_authz_GenericAuthorization :: tc_authz_GenericAuthorization where
  "createBase_tc_authz_GenericAuthorization = \<lparr>tc_authz_GenericAuthorization.msg' = []\<rparr>"

definition encode_tc_authz_GenericAuthorization :: "('w, 'r) wire \<Rightarrow> tc_authz_GenericAuthorization \<Rightarrow> 'w \<Rightarrow> 'w result" where
  "encode_tc_authz_GenericAuthorization L message = seqE
    [whenE (tc_authz_GenericAuthorization.msg' message \<noteq> []) (seqE [w_uint32 L 10, w_string L (tc_authz_GenericAuthorization.msg' message)])]"

definition tc_authz_GenericAuthorization_switch :: "('w, 'r) wire \<Rightarrow> long_lib \<Rightarrow> u32 \<Rightarrow> tc_authz_GenericAuthorization \<Rightarrow> (tc_authz_GenericAuthorization, 'r) action" where
  "tc_authz_GenericAuthorization_switch L G tag message = js_switch (drop_bit 3 tag)
    [(1, readf (r_string L) (\<lambda>v. message\<lparr>tc_authz_GenericAuthorization.msg' := v\<rparr>))]
    (skipType L tag message)"

definition decode_tc_authz_GenericAuthorization :: "('w, 'r) wire \<Rightarrow> long_lib \<Rightarrow> 'r input \<Rightarrow> nat option \<Rightarrow> (tc_authz_GenericAuthorization \<times> 'r) result" where
  "decode_tc_authz_GenericAuthorization L G = decode_msg L (tc_authz_GenericAuthorization_switch L G) createBase_tc_authz_GenericAuthorization"

definition fromJSON_tc_authz_GenericAuthorization :: "host \<Rightarrow> jsval \<Rightarrow> tc_authz_GenericAuthorization result" where
  "fromJSON_tc_authz_GenericAuthorization h object =
     bindE (fieldE object ''msg'' (stringE h) []) (\<lambda>v_msg.
     Inr \<lparr>tc_authz_GenericAuthorization.msg' = v_msg\<rparr>)"

definition toJSON_tc_authz_GenericAuthorization :: "host \<Rightarrow> tc_authz_GenericAuthorization \<Rightarrow> jsval result" where
  "toJSON_tc_authz_GenericAuthorization h message = objE
    [jfieldE True ''msg'' (Inr (JString (tc_authz_GenericAuthorization.msg' message)))]"

type_synonym tc_authz_GenericAuthorization_Partial = "jsstring option"

definition fromPartial_tc_authz_GenericAuthorization :: "tc_authz_GenericAuthorization_Partial \<Rightarrow> tc_authz_GenericAuthorization" where
  "fromPartial_tc_authz_GenericAuthorization object = (case object of p_msg \<Rightarrow>
     createBase_tc_authz_GenericAuthorization\<lparr>tc_authz_GenericAuthorization.msg' := nullish (p_msg) []\<rparr>)"

text \<open>A partial message that sets every field.\<close>

definition partial_of_tc_authz_GenericAuthorization :: "tc_authz_GenericAuthorization \<Rightarrow> tc_authz_GenericAuthorization_Partial" where
  "partial_of_tc_authz_GenericAuthorization m =
     (Some (tc_authz_GenericAuthorization.msg' m))"

definition wf_tc_authz_GenericAuthorization :: "('w, 'r) wire \<Rightarrow> tc_authz_GenericAuthorization \<Rightarrow> bool" where
  "wf_tc_authz_GenericAuthorization L m \<longleftrightarrow> wire_string (tc_authz_GenericAuthorization.msg' m)"

definition wfj_tc_authz_GenericAuthorization :: "tc_authz_GenericAuthorization \<Rightarrow> bool" where
  "wfj_tc_authz_GenericAuthorization m \<longleftrightarrow> True"

subsection \<open>Grant\<close>

record tc_authz_Grant =
  authorization :: "tc_Any option"
  expiration :: "number option"

definition createBase_tc_authz_Grant :: tc_authz_Grant where
  "createBase_tc_authz_Grant = \<lparr>tc_authz_Grant.authorization = None,
     tc_authz_Grant.expiration = None\<rparr>"

definition encode_tc_authz_Grant :: "('w, 'r) wire \<Rightarrow> tc_authz_Grant \<Rightarrow> 'w \<Rightarrow> 'w result" where
  "encode_tc_authz_Grant L message = seqE
    [someE (tc_authz_Grant.authorization message) (\<lambda>v. seqE [w_uint32 L 10, w_fork L, encode_tc_Any L v, w_join L]),
     someE (tc_authz_Grant.expiration message) (\<lambda>v. seqE [w_uint32 L 18, w_fork L, encode_tc_Timestamp L (toTimestamp_frac v), w_join L])]"

definition tc_authz_Grant_switch :: "('w, 'r) wire \<Rightarrow> long_lib \<Rightarrow> u32 \<Rightarrow> tc_authz_Grant \<Rightarrow> (tc_authz_Grant, 'r) action" where
  "tc_authz_Grant_switch L G tag message = js_switch (drop_bit 3 tag)
    [(1, readf (submsg L (decode_tc_Any L G)) (\<lambda>v. message\<lparr>tc_authz_Grant.authorization := Some v\<rparr>)),
     (2, readf (read_map fromTimestamp_frac (submsg L (decode_tc_Timestamp L G))) (\<lambda>v. message\<lparr>tc_authz_Grant.expiration := Some v\<rparr>))]
    (skipType L tag message)"

definition decode_tc_authz_Grant :: "('w, 'r) wire \<Rightarrow> long_lib \<Rightarrow> 'r input \<Rightarrow> nat option \<Rightarrow> (tc_authz_Grant \<times> 'r) result" where
  "decode_tc_authz_Grant L G = decode_msg L (tc_authz_Grant_switch L G) createBase_tc_authz_Grant"

definition fromJSON_tc_authz_Grant :: "host \<Rightarrow> jsval \<Rightarrow> tc_authz_Grant result" where
  "fromJSON_tc_authz_Grant h object =
     bindE (optE object ''authorization'' (fromJSON_tc_Any h)) (\<lambda>v_authorization.
     bindE (optE object ''expiration'' (fromJsonTimestamp_frac h)) (\<lambda>v_expiration.
     Inr \<lparr>tc_authz_Grant.authorization = v_authorization, tc_authz_Grant.expiration = v_expiration\<rparr>))"

definition toJSON_tc_authz_Grant :: "host \<Rightarrow> tc_authz_Grant \<Rightarrow> jsval result" where
  "toJSON_tc_authz_Grant h message = objE
    [joptE ''authorization'' (toJSON_tc_Any h) (tc_authz_Grant.authorization message),
     joptE ''expiration'' dateJSON (tc_authz_Grant.expiration message)]"

type_synonym tc_authz_Grant_Partial = "tc_Any_Partial option \<times> number option"

definition fromPartial_tc_authz_Grant :: "tc_authz_Grant_Partial \<Rightarrow> tc_authz_Grant" where
  "fromPartial_tc_authz_Grant object = (case object of (p_authorization, p_expiration) \<Rightarrow>
     createBase_tc_authz_Grant\<lparr>tc_authz_Grant.authorization := map_option fromPartial_tc_Any (p_authorization),
       tc_authz_Grant.expiration := p_expiration\<rparr>)"

text \<open>A partial message that sets every field.\<close>

definition partial_of_tc_authz_Grant :: "tc_authz_Grant \<Rightarrow> tc_authz_Grant_Partial" where
  "partial_of_tc_authz_Grant m =
     (map_option partial_of_tc_Any (tc_authz_Grant.authorization m),
      tc_authz_Grant.expiration m)"

definition wf_tc_authz_Grant :: "('w, 'r) wire \<Rightarrow> tc_authz_Grant \<Rightarrow> bool" where
  "wf_tc_authz_Grant L m \<longleftrightarrow> pred_option (\<lambda>v. wf_tc_Any L v \<and> fits L (encode_tc_Any L v)) (tc_authz_Grant.authorization m)
     \<and> pred_option (\<lambda>v. whole_seconds v \<and> fits L (encode_Timestamp L (toTimestamp_frac v))) (tc_authz_Grant.expiration m)"

definition wfj_tc_authz_Grant :: "tc_authz_Grant \<Rightarrow> bool" where
  "wfj_tc_authz_Grant m \<longleftrightarrow> pred_option wfj_tc_Any (tc_authz_Grant.authorization m)
     \<and> pred_option date_valid (tc_authz_Grant.expiration m)"

subsection \<open>GrantAuthorization\<close>

record tc_authz_GrantAuthorization =
  granter :: jsstring
  grantee :: jsstring
  authorization :: "tc_Any option"
  expiration :: "number option"

definition createBase_tc_authz_GrantAuthorization :: tc_authz_GrantAuthorization where
  "createBase_tc_authz_GrantAuthorization = \<lparr>tc_authz_GrantAuthorization.granter = [],
     tc_authz_GrantAuthorization.grantee = [],
     tc_authz_GrantAuthorization.authorization = None,
     tc_authz_GrantAuthorization.expiration = None\<rparr>"

definition encode_tc_authz_GrantAuthorization :: "('w, 'r) wire \<Rightarrow> tc_authz_GrantAuthorization \<Rightarrow> 'w \<Rightarrow> 'w result" where
  "encode_tc_authz_GrantAuthorization L message = seqE
    [whenE (tc_authz_GrantAuthorization.granter message \<noteq> []) (seqE [w_uint32 L 10, w_string L (tc_authz_GrantAuthorization.granter message)]),
     whenE (tc_authz_GrantAuthorization.grantee message \<noteq> []) (seqE [w_uint32 L 18, w_string L (tc_authz_GrantAuthorization.grantee message)]),
     someE (tc_authz_GrantAuthorization.authorization message) (\<lambda>v. seqE [w_uint32 L 26, w_fork L, encode_tc_Any L v, w_join L]),
     someE (tc_authz_GrantAuthorization.expiration message) (\<lambda>v. seqE [w_uint32 L 34, w_fork L, encode_tc_Timestamp L (toTimestamp_frac v), w_join L])]"

definition tc_authz_GrantAuthorization_switch :: "('w, 'r) wire \<Rightarrow> long_lib \<Rightarrow> u32 \<Rightarrow> tc_authz_GrantAuthorization \<Rightarrow> (tc_authz_GrantAuthorization, 'r) action" where
  "tc_authz_GrantAuthorization_switch L G tag message = js_switch (drop_bit 3 tag)
    [(1, readf (r_string L) (\<lambda>v. message\<lparr>tc_authz_GrantAuthorization.granter := v\<rparr>)),
     (2, readf (r_string L) (\<lambda>v. message\<lparr>tc_authz_GrantAuthorization.grantee := v\<rparr>)),
     (3, readf (submsg L (decode_tc_Any L G)) (\<lambda>v. message\<lparr>tc_authz_GrantAuthorization.authorization := Some v\<rparr>)),
     (4, readf (read_map fromTimestamp_frac (submsg L (decode_tc_Timestamp L G))) (\<lambda>v. message\<lparr>tc_authz_GrantAuthorization.expiration := Some v\<rparr>))]
    (skipType L tag message)"

definition decode_tc_authz_GrantAuthorization :: "('w, 'r) wire \<Rightarrow> long_lib \<Rightarrow> 'r input \<Rightarrow> nat option \<Rightarrow> (tc_authz_GrantAuthorization \<times> 'r) result" where
  "decode_tc_authz_GrantAuthorization L G = decode_msg L (tc_authz_GrantAuthorization_switch L G) createBase_tc_authz_GrantAuthorization"

definition fromJSON_tc_authz_GrantAuthorization :: "host \<Rightarrow> jsval \<Rightarrow> tc_authz_GrantAuthorization result" where
  "fromJSON_tc_authz_GrantAuthorization h object =
     bindE (fieldE object ''granter'' (stringE h) []) (\<lambda>v_granter.
     bindE (fieldE object ''grantee'' (stringE h) []) (\<lambda>v_grantee.
     bindE (optE object ''authorization'' (fromJSON_tc_Any h)) (\<lambda>v_authorization.
     bindE (optE object ''expiration'' (fromJsonTimestamp_frac h)) (\<lambda>v_expiration.
     Inr \<lparr>tc_authz_GrantAuthorization.granter = v_granter, tc_authz_GrantAuthorization.grantee = v_grantee, tc_authz_GrantAuthorization.authorization = v_authorization, tc_authz_GrantAuthorization.expiration = v_expiration\<rparr>))))"

definition toJSON_tc_authz_GrantAuthorization :: "host \<Rightarrow> tc_authz_GrantAuthorization \<Rightarrow> jsval result" where
  "toJSON_tc_authz_GrantAuthorization h message = objE
    [jfieldE True ''granter'' (Inr (JString (tc_authz_GrantAuthorization.granter message))),
     jfieldE True ''grantee'' (Inr (JString (tc_authz_GrantAuthorization.grantee message))),
     joptE ''authorization'' (toJSON_tc_Any h) (tc_authz_GrantAuthorization.authorization message),
     joptE ''expiration'' dateJSON (tc_authz_GrantAuthorization.expiration message)]"

type_synonym tc_authz_GrantAuthorization_Partial = "jsstring option \<times> jsstring option \<times> tc_Any_Partial option \<times> number option"

definition fromPartial_tc_authz_GrantAuthorization :: "tc_authz_GrantAuthorization_Partial \<Rightarrow> tc_authz_GrantAuthorization" where
  "fromPartial_tc_authz_GrantAuthorization object = (case object of (p_granter, p_grantee, p_authorization, p_expiration) \<Rightarrow>
     createBase_tc_authz_GrantAuthorization\<lparr>tc_authz_GrantAuthorization.granter := nullish (p_granter) [],
       tc_authz_GrantAuthorization.grantee := nullish (p_grantee) [],
       tc_authz_GrantAuthorization.authorization := map_option fromPartial_tc_Any (p_authorization),
       tc_authz_GrantAuthorization.expiration := p_expiration\<rparr>)"

text \<open>A partial message that sets every field.\<close>

definition partial_of_tc_authz_GrantAuthorization :: "tc_authz_GrantAuthorization \<Rightarrow> tc_authz_GrantAuthorization_Partial" where
  "partial_of_tc_authz_GrantAuthorization m =
     (Some (tc_authz_GrantAuthorization.granter m),
      Some (tc_authz_GrantAuthorization.grantee m),
      map_option partial_of_tc_Any (tc_authz_GrantAuthorization.authorization m),
      tc_authz_GrantAuthorization.expiration m)"

definition wf_tc_authz_GrantAuthorization :: "('w, 'r) wire \<Rightarrow> tc_authz_GrantAuthorization \<Rightarrow> bool" where
  "wf_tc_authz_GrantAuthorization L m \<longleftrightarrow> wire_string (tc_authz_GrantAuthorization.granter m)
     \<and> wire_string (tc_authz_GrantAuthorization.grantee m)
     \<and> pred_option (\<lambda>v. wf_tc_Any L v \<and> fits L (encode_tc_Any L v)) (tc_authz_GrantAuthorization.authorization m)
     \<and> pred_option (\<lambda>v. whole_seconds v \<and> fits L (encode_Timestamp L (toTimestamp_frac v))) (tc_authz_GrantAuthorization.expiration m)"

definition wfj_tc_authz_GrantAuthorization :: "tc_authz_GrantAuthorization \<Rightarrow> bool" where
  "wfj_tc_authz_GrantAuthorization m \<longleftrightarrow> pred_option wfj_tc_Any (tc_authz_GrantAuthorization.authorization m)
     \<and> pred_option date_valid (tc_authz_GrantAuthorization.expiration m)"

subsection \<open>GrantQueueItem\<close>

record tc_authz_GrantQueueItem =
  msgTypeUrls :: "jsstring list"

definition createBase_tc_authz_GrantQueueItem :: tc_authz_GrantQueueItem where
  "createBase_tc_authz_GrantQueueItem = \<lparr>tc_authz_GrantQueueItem.msgTypeUrls = []\<rparr>"

definition encode_tc_authz_GrantQueueItem :: "('w, 'r) wire \<Rightarrow> tc_authz_GrantQueueItem \<Rightarrow> 'w \<Rightarrow> 'w result" where
  "encode_tc_authz_GrantQueueItem L message = seqE
    [forE (\<lambda>v. seqE [w_uint32 L 10, w_string L v]) (tc_authz_GrantQueueItem.msgTypeUrls message)]"

definition tc_authz_GrantQueueItem_switch :: "('w, 'r) wire \<Rightarrow> long_lib \<Rightarrow> u32 \<Rightarrow> tc_authz_GrantQueueItem \<Rightarrow> (tc_authz_GrantQueueItem, 'r) action" where
  "tc_authz_GrantQueueItem_switch L G tag message = js_switch (drop_bit 3 tag)
    [(1, readf (r_string L) (\<lambda>v. message\<lparr>tc_authz_GrantQueueItem.msgTypeUrls := tc_authz_GrantQueueItem.msgTypeUrls message @ [v]\<rparr>))]
    (skipType L tag message)"

definition decode_tc_authz_GrantQueueItem :: "('w, 'r) wire \<Rightarrow> long_lib \<Rightarrow> 'r input \<Rightarrow> nat option \<Rightarrow> (tc_authz_GrantQueueItem \<times> 'r) result" where
  "decode_tc_authz_GrantQueueItem L G = decode_msg L (tc_authz_GrantQueueItem_switch L G) createBase_tc_authz_GrantQueueItem"

definition fromJSON_tc_authz_GrantQueueItem :: "host \<Rightarrow> jsval \<Rightarrow> tc_authz_GrantQueueItem result" where
  "fromJSON_tc_authz_GrantQueueItem h object =
     bindE (arrayE object ''msgTypeUrls'' (stringE h)) (\<lambda>v_msgTypeUrls.
     Inr \<lparr>tc_authz_GrantQueueItem.msgTypeUrls = v_msgTypeUrls\<rparr>)"

definition toJSON_tc_authz_GrantQueueItem :: "host \<Rightarrow> tc_authz_GrantQueueItem \<Rightarrow> jsval result" where
  "toJSON_tc_authz_GrantQueueItem h message = objE
    [jlistE ''msgTypeUrls'' (\<lambda>e. Inr (JString e)) (tc_authz_GrantQueueItem.msgTypeUrls message)]"

type_synonym tc_authz_GrantQueueItem_Partial = "jsstring list option"

definition fromPartial_tc_authz_GrantQueueItem :: "tc_authz_GrantQueueItem_Partial \<Rightarrow> tc_authz_GrantQueueItem" where
  "fromPartial_tc_authz_GrantQueueItem object = (case object of p_msgTypeUrls \<Rightarrow>
     createBase_tc_authz_GrantQueueItem\<lparr>tc_authz_GrantQueueItem.msgTypeUrls := partial_map (\<lambda>e. e) (p_msgTypeUrls)\<rparr>)"

text \<open>A partial message that sets every field.\<close>

definition partial_of_tc_authz_GrantQueueItem :: "tc_authz_GrantQueueItem \<Rightarrow> tc_authz_GrantQueueItem_Partial" where
  "partial_of_tc_authz_GrantQueueItem m =
     (Some (tc_authz_GrantQueueItem.msgTypeUrls m))"

definition wf_tc_authz_GrantQueueItem :: "('w, 'r) wire \<Rightarrow> tc_authz_GrantQueueItem \<Rightarrow> bool" where
  "wf_tc_authz_GrantQueueItem L m \<longleftrightarrow> list_all wire_string (tc_authz_GrantQueueItem.msgTypeUrls m)"

definition wfj_tc_authz_GrantQueueItem :: "tc_authz_GrantQueueItem \<Rightarrow> bool" where
  "wfj_tc_authz_GrantQueueItem m \<longleftrightarrow> True"


section \<open>ts-client/cosmos.authz.v1beta1/types/cosmos/authz/v1beta1/event.ts\<close>

subsection \<open>EventGrant\<close>

record tc_authz_EventGrant =
  msgTypeUrl :: jsstring
  granter :: jsstring
  grantee :: jsstring

definition createBase_tc_authz_EventGrant :: tc_authz_EventGrant where
  "createBase_tc_authz_EventGrant = \<lparr>tc_authz_EventGrant.msgTypeUrl = [],
     tc_authz_EventGrant.granter = [],
     tc_authz_EventGrant.grantee = []\<rparr>"

definition encode_tc_authz_EventGrant :: "('w, 'r) wire \<Rightarrow> tc_authz_EventGrant \<Rightarrow> 'w \<Rightarrow> 'w result" where
  "encode_tc_authz_EventGrant L message = seqE
    [whenE (tc_authz_EventGrant.msgTypeUrl message \<noteq> []) (seqE [w_uint32 L 18, w_string L (tc_authz_EventGrant.msgTypeUrl message)]),
     whenE (tc_authz_EventGrant.granter message \<noteq> []) (seqE [w_uint32 L 26, w_string L (tc_authz_EventGrant.granter message)]),
     whenE (tc_authz_EventGrant.grantee message \<noteq> []) (seqE [w_uint32 L 34, w_string L (tc_authz_EventGrant.grantee message)])]"

definition tc_authz_EventGrant_switch :: "('w, 'r) wire \<Rightarrow> long_lib \<Rightarrow> u32 \<Rightarrow> tc_authz_EventGrant \<Rightarrow> (tc_authz_EventGrant, 'r) action" where
  "tc_authz_EventGrant_switch L G tag message = js_switch (drop_bit 3 tag)
    [(2, readf (r_string L) (\<lambda>v. message\<lparr>tc_authz_EventGrant.msgTypeUrl := v\<rparr>)),
     (3, readf (r_string L) (\<lambda>v. message\<lparr>tc_authz_EventGrant.granter := v\<rparr>)),
     (4, readf (r_string L) (\<lambda>v. message\<lparr>tc_authz_EventGrant.grantee := v\<rparr>))]
    (skipType L tag message)"

definition decode_tc_authz_EventGrant :: "('w, 'r) wire \<Rightarrow> long_lib \<Rightarrow> 'r input \<Rightarrow> nat option \<Rightarrow> (tc_authz_EventGrant \<times> 'r) result" where
  "decode_tc_authz_EventGrant L G = decode_msg L (tc_authz_EventGrant_switch L G) createBase_tc_authz_EventGrant"

definition fromJSON_tc_authz_EventGrant :: "host \<Rightarrow> jsval \<Rightarrow> tc_authz_EventGrant result" where
  "fromJSON_tc_authz_EventGrant h object =
     bindE (fieldE object ''msgTypeUrl'' (stringE h) []) (\<lambda>v_msgTypeUrl.
     bindE (fieldE object ''granter'' (stringE h) []) (\<lambda>v_granter.
     bindE (fieldE object ''grantee'' (stringE h) []) (\<lambda>v_grantee.
     Inr \<lparr>tc_authz_EventGrant.msgTypeUrl = v_msgTypeUrl, tc_authz_EventGrant.granter = v_granter, tc_authz_EventGrant.grantee = v_grantee\<rparr>)))"

definition toJSON_tc_authz_EventGrant :: "host \<Rightarrow> tc_authz_EventGrant \<Rightarrow> jsval result" where
  "toJSON_tc_authz_EventGrant h message = objE
    [jfieldE True ''msgTypeUrl'' (Inr (JString (tc_authz_EventGrant.msgTypeUrl message))),
     jfieldE True ''granter'' (Inr (JString (tc_authz_EventGrant.granter message))),
     jfieldE True ''grantee'' (Inr (JString (tc_authz_EventGrant.grantee message)))]"

type_synonym tc_authz_EventGrant_Partial = "jsstring option \<times> jsstring option \<times> jsstring option"

definition fromPartial_tc_authz_EventGrant :: "tc_authz_EventGrant_Partial \<Rightarrow> tc_authz_EventGrant" where
  "fromPartial_tc_authz_EventGrant object = (case object of (p_msgTypeUrl, p_granter, p_grantee) \<Rightarrow>
     createBase_tc_authz_EventGrant\<lparr>tc_authz_EventGrant.msgTypeUrl := nullish (p_msgTypeUrl) [],
       tc_authz_EventGrant.granter := nullish (p_granter) [],
       tc_authz_EventGrant.grantee := nullish (p_grantee) []\<rparr>)"

text \<open>A partial message that sets every field.\<close>

definition partial_of_tc_authz_EventGrant :: "tc_authz_EventGrant \<Rightarrow> tc_authz_EventGrant_Partial" where
  "partial_of_tc_authz_EventGrant m =
     (Some (tc_authz_EventGrant.msgTypeUrl m),
      Some (tc_authz_EventGrant.granter m),
      Some (tc_authz_EventGrant.grantee m))"

definition wf_tc_authz_EventGrant :: "('w, 'r) wire \<Rightarrow> tc_authz_EventGrant \<Rightarrow> bool" where
  "wf_tc_authz_EventGrant L m \<longleftrightarrow> wire_string (tc_authz_EventGrant.msgTypeUrl m)
     \<and> wire_string (tc_authz_EventGrant.granter m)
     \<and> wire_string (tc_authz_EventGrant.grantee m)"

definition wfj_tc_authz_EventGrant :: "tc_authz_EventGrant \<Rightarrow> bool" where
  "wfj_tc_authz_EventGrant m \<longleftrightarrow> True"

subsection \<open>EventRevoke\<close>

record tc_authz_EventRevoke =
  msgTypeUrl :: jsstring
  granter :: jsstring
  grantee :: jsstring

definition createBase_tc_authz_EventRevoke :: tc_authz_EventRevoke where
  "createBase_tc_authz_EventRevoke = \<lparr>tc_authz_EventRevoke.msgTypeUrl = [],
     tc_authz_EventRevoke.granter = [],
     tc_authz_EventRevoke.grantee = []\<rparr>"

definition encode_tc_authz_EventRevoke :: "('w, 'r) wire \<Rightarrow> tc_authz_EventRevoke \<Rightarrow> 'w \<Rightarrow> 'w result" where
  "encode_tc_authz_EventRevoke L message = seqE
    [whenE (tc_authz_EventRevoke.msgTypeUrl message \<noteq> []) (seqE [w_uint32 L 18, w_string L (tc_authz_EventRevoke.msgTypeUrl message)]),
     whenE (tc_authz_EventRevoke.granter message \<noteq> []) (seqE [w_uint32 L 26, w_string L (tc_authz_EventRevoke.granter message)]),
     whenE (tc_authz_EventRevoke.grantee message \<noteq> []) (seqE [w_uint32 L 34, w_string L (tc_authz_EventRevoke.grantee message)])]"

definition tc_authz_EventRevoke_switch :: "('w, 'r) wire \<Rightarrow> long_lib \<Rightarrow> u32 \<Rightarrow> tc_authz_EventRevoke \<Rightarrow> (tc_authz_EventRevoke, 'r) action" where
  "tc_authz_EventRevoke_switch L G tag message = js_switch (drop_bit 3 tag)
    [(2, readf (r_string L) (\<lambda>v. message\<lparr>tc_authz_EventRevoke.msgTypeUrl := v\<rparr>)),
     (3, readf (r_string L) (\<lambda>v. message\<lparr>tc_authz_EventRevoke.granter := v\<rparr>)),
     (4, readf (r_string L) (\<lambda>v. message\<lparr>tc_authz_EventRevoke.grantee := v\<rparr>))]
    (skipType L tag message)"

definition decode_tc_authz_EventRevoke :: "('w, 'r) wire \<Rightarrow> long_lib \<Rightarrow> 'r input \<Rightarrow> nat option \<Rightarrow> (tc_authz_EventRevoke \<times> 'r) result" where
  "decode_tc_authz_EventRevoke L G = decode_msg L (tc_authz_EventRevoke_switch L G) createBase_tc_authz_EventRevoke"

definition fromJSON_tc_authz_EventRevoke :: "host \<Rightarrow> jsval \<Rightarrow> tc_authz_EventRevoke result" where
  "fromJSON_tc_authz_EventRevoke h object =
     bindE (fieldE object ''msgTypeUrl'' (stringE h) []) (\<lambda>v_msgTypeUrl.
     bindE (fieldE object ''granter'' (stringE h) []) (\<lambda>v_granter.
     bindE (fieldE object ''grantee'' (stringE h) []) (\<lambda>v_grantee.
     Inr \<lparr>tc_authz_EventRevoke.msgTypeUrl = v_msgTypeUrl, tc_authz_EventRevoke.granter = v_granter, tc_authz_EventRevoke.grantee = v_grantee\<rparr>)))"

definition toJSON_tc_authz_EventRevoke :: "host \<Rightarrow> tc_authz_EventRevoke \<Rightarrow> jsval result" where
  "toJSON_tc_authz_EventRevoke h message = objE
    [jfieldE True ''msgTypeUrl'' (Inr (JString (tc_authz_EventRevoke.msgTypeUrl message))),
     jfieldE True ''granter'' (Inr (JString (tc_authz_EventRevoke.granter message))),
     jfieldE True ''grantee'' (Inr (JString (tc_authz_EventRevoke.grantee message)))]"

type_synonym tc_authz_EventRevoke_Partial = "jsstring option \<times> jsstring option \<times> jsstring option"

definition fromPartial_tc_authz_EventRevoke :: "tc_authz_EventRevoke_Partial \<Rightarrow> tc_authz_EventRevoke" where
  "fromPartial_tc_authz_EventRevoke object = (case object of (p_msgTypeUrl, p_granter, p_grantee) \<Rightarrow>
     createBase_tc_authz_EventRevoke\<lparr>tc_authz_EventRevoke.msgTypeUrl := nullish (p_msgTypeUrl) [],
       tc_authz_EventRevoke.granter := nullish (p_granter) [],
       tc_authz_EventRevoke.grantee := nullish (p_grantee) []\<rparr>)"

text \<open>A partial message that sets every field.\<close>

definition partial_of_tc_authz_EventRevoke :: "tc_authz_EventRevoke \<Rightarrow> tc_authz_EventRevoke_Partial" where
  "partial_of_tc_authz_EventRevoke m =
     (Some (tc_authz_EventRevoke.msgTypeUrl m),
      Some (tc_authz_EventRevoke.granter m),
      Some (tc_authz_EventRevoke.grantee m))"

definition wf_tc_authz_EventRevoke :: "('w, 'r) wire \<Rightarrow> tc_authz_EventRevoke \<Rightarrow> bool" where
  "wf_tc_authz_EventRevoke L m \<longleftrightarrow> wire_string (tc_authz_EventRevoke.msgTypeUrl m)
     \<and> wire_string (tc_authz_EventRevoke.granter m)
     \<and> wire_string (tc_authz_EventRevoke.grantee m)"

definition wfj_tc_authz_EventRevoke :: "tc_authz_EventRevoke \<Rightarrow> bool" where
  "wfj_tc_authz_EventRevoke m \<longleftrightarrow> True"


section \<open>ts-client/cosmos.authz.v1beta1/types/cosmos/authz/v1beta1/genesis.ts\<close>

subsection \<open>GenesisState\<close>

record tc_authz_GenesisState =
  authorization :: "tc_authz_GrantAuthorization list"

definition createBase_tc_authz_GenesisState :: tc_authz_GenesisState where
  "createBase_tc_authz_GenesisState = \<lparr>tc_authz_GenesisState.authorization = []\<rparr>"

definition encode_tc_authz_GenesisState :: "('w, 'r) wire \<Rightarrow> tc_authz_GenesisState \<Rightarrow> 'w \<Rightarrow> 'w result" where
  "encode_tc_authz_GenesisState L message = seqE
    [forE (\<lambda>v. seqE [w_uint32 L 10, w_fork L, encode_tc_authz_GrantAuthorization L v, w_join L]) (tc_authz_GenesisState.authorization message)]"

definition tc_authz_GenesisState_switch :: "('w, 'r) wire \<Rightarrow> long_lib \<Rightarrow> u32 \<Rightarrow> tc_authz_GenesisState \<Rightarrow> (tc_authz_GenesisState, 'r) action" where
  "tc_authz_GenesisState_switch L G tag message = js_switch (drop_bit 3 tag)
    [(1, readf (submsg L (decode_tc_authz_GrantAuthorization L G)) (\<lambda>v. message\<lparr>tc_authz_GenesisState.authorization := tc_authz_GenesisState.authorization message @ [v]\<rparr>))]
    (skipType L tag message)"

definition decode_tc_authz_GenesisState :: "('w, 'r) wire \<Rightarrow> long_lib \<Rightarrow> 'r input \<Rightarrow> nat option \<Rightarrow> (tc_authz_GenesisState \<times> 'r) result" where
  "decode_tc_authz_GenesisState L G = decode_msg L (tc_authz_GenesisState_switch L G) createBase_tc_authz_GenesisState"

definition fromJSON_tc_authz_GenesisState :: "host \<Rightarrow> jsval \<Rightarrow> tc_authz_GenesisState result" where
  "fromJSON_tc_authz_GenesisState h object =
     bindE (arrayE object ''authorization'' (fromJSON_tc_authz_GrantAuthorization h)) (\<lambda>v_authorization.
     Inr \<lparr>tc_authz_GenesisState.authorization = v_authorization\<rparr>)"

definition toJSON_tc_authz_GenesisState :: "host \<Rightarrow> tc_authz_GenesisState \<Rightarrow> jsval result" where
  "toJSON_tc_authz_GenesisState h message = objE
    [jlistE ''authorization'' (toJSON_tc_authz_GrantAuthorization h) (tc_authz_GenesisState.authorization message)]"

type_synonym tc_authz_GenesisState_Partial = "tc_authz_GrantAuthorization_Partial list option"

definition fromPartial_tc_authz_GenesisState :: "tc_authz_GenesisState_Partial \<Rightarrow> tc_authz_GenesisState" where
  "fromPartial_tc_authz_GenesisState object = (case object of p_authorization \<Rightarrow>
     createBase_tc_authz_GenesisState\<lparr>tc_authz_GenesisState.authorization := partial_map fromPartial_tc_authz_GrantAuthorization (p_authorization)\<rparr>)"

text \<open>A partial message that sets every field.\<close>

definition partial_of_tc_authz_GenesisState :: "tc_authz_GenesisState \<Rightarrow> tc_authz_GenesisState_Partial" where
  "partial_of_tc_authz_GenesisState m =
     (Some (map partial_of_tc_authz_GrantAuthorization (tc_authz_GenesisState.authorization m)))"

definition wf_tc_authz_GenesisState :: "('w, 'r) wire \<Rightarrow> tc_authz_GenesisState \<Rightarrow> bool" where
  "wf_tc_authz_GenesisState L m \<longleftrightarrow> list_all (\<lambda>v. wf_tc_authz_GrantAuthorization L v \<and> fits L (encode_tc_authz_GrantAuthorization L v)) (tc_authz_GenesisState.authorization m)"

definition wfj_tc_authz_GenesisState :: "tc_authz_GenesisState \<Rightarrow> bool" where
  "wfj_tc_authz_GenesisState m \<longleftrightarrow> list_all wfj_tc_authz_GrantAuthorization (tc_authz_GenesisState.authorization m)"


section \<open>ts-client/cosmos.authz.v1beta1/types/cosmos/authz/v1beta1/tx.ts\<close>

subsection \<open>MsgGrant\<close>

record tc_authz_MsgGrant =
  granter :: jsstring
  grantee :: jsstring
  grant :: "tc_authz_Grant option"

definition createBase_tc_authz_MsgGrant :: tc_authz_MsgGrant where
  "createBase_tc_authz_MsgGrant = \<lparr>tc_authz_MsgGrant.granter = [],
     tc_authz_MsgGrant.grantee = [],
     tc_authz_MsgGrant.grant = None\<rparr>"

definition encode_tc_authz_MsgGrant :: "('w, 'r) wire \<Rightarrow> tc_authz_MsgGrant \<Rightarrow> 'w \<Rightarrow> 'w result" where
  "encode_tc_authz_MsgGrant L message = seqE
    [whenE (tc_authz_MsgGrant.granter message \<noteq> []) (seqE [w_uint32 L 10, w_string L (tc_authz_MsgGrant.granter message)]),
     whenE (tc_authz_MsgGrant.grantee message \<noteq> []) (seqE [w_uint32 L 18, w_string L (tc_authz_MsgGrant.grantee message)]),
     someE (tc_authz_MsgGrant.grant message) (\<lambda>v. seqE [w_uint32 L 26, w_fork L, encode_tc_authz_Grant L v, w_join L])]"

definition tc_authz_MsgGrant_switch :: "('w, 'r) wire \<Rightarrow> long_lib \<Rightarrow> u32 \<Rightarrow> tc_authz_MsgGrant \<Rightarrow> (tc_authz_MsgGrant, 'r) action" where
  "tc_authz_MsgGrant_switch L G tag message = js_switch (drop_bit 3 tag)
    [(1, readf (r_string L) (\<lambda>v. message\<lparr>tc_authz_MsgGrant.granter := v\<rparr>)),
     (2, readf (r_string L) (\<lambda>v. message\<lparr>tc_authz_MsgGrant.grantee := v\<rparr>)),
     (3, readf (submsg L (decode_tc_authz_Grant L G)) (\<lambda>v. message\<lparr>tc_authz_MsgGrant.grant := Some v\<rparr>))]
    (skipType L tag message)"

definition decode_tc_authz_MsgGrant :: "('w, 'r) wire \<Rightarrow> long_lib \<Rightarrow> 'r input \<Rightarrow> nat option \<Rightarrow> (tc_authz_MsgGrant \<times> 'r) result" where
  "decode_tc_authz_MsgGrant L G = decode_msg L (tc_authz_MsgGrant_switch L G) createBase_tc_authz_MsgGrant"

definition fromJSON_tc_authz_MsgGrant :: "host \<Rightarrow> jsval \<Rightarrow> tc_authz_MsgGrant result" where
  "fromJSON_tc_authz_MsgGrant h object =
     bindE (fieldE object ''granter'' (stringE h) []) (\<lambda>v_granter.
     bindE (fieldE object ''grantee'' (stringE h) []) (\<lambda>v_grantee.
     bindE (optE object ''grant'' (fromJSON_tc_authz_Grant h)) (\<lambda>v_grant.
     Inr \<lparr>tc_authz_MsgGrant.granter = v_granter, tc_authz_MsgGrant.grantee = v_grantee, tc_authz_MsgGrant.grant = v_grant\<rparr>)))"

definition toJSON_tc_authz_MsgGrant :: "host \<Rightarrow> tc_authz_MsgGrant \<Rightarrow> jsval result" where
  "toJSON_tc_authz_MsgGrant h message = objE
    [jfieldE True ''granter'' (Inr (JString (tc_authz_MsgGrant.granter message))),
     jfieldE True ''grantee'' (Inr (JString (tc_authz_MsgGrant.grantee message))),
     joptE ''grant'' (toJSON_tc_authz_Grant h) (tc_authz_MsgGrant.grant message)]"

type_synonym tc_authz_MsgGrant_Partial = "jsstring option \<times> jsstring option \<times> tc_authz_Grant_Partial option"

definition fromPartial_tc_authz_MsgGrant :: "tc_authz_MsgGrant_Partial \<Rightarrow> tc_authz_MsgGrant" where
  "fromPartial_tc_authz_MsgGrant object = (case object of (p_granter, p_grantee, p_grant) \<Rightarrow>
     createBase_tc_authz_MsgGrant\<lparr>tc_authz_MsgGrant.granter := nullish (p_granter) [],
       tc_authz_MsgGrant.grantee := nullish (p_grantee) [],
       tc_authz_MsgGrant.grant := map_option fromPartial_tc_authz_Grant (p_grant)\<rparr>)"

text \<open>A partial message that sets every field.\<close>

definition partial_of_tc_authz_MsgGrant :: "tc_authz_MsgGrant \<Rightarrow> tc_authz_MsgGrant_Partial" where
  "partial_of_tc_authz_MsgGrant m =
     (Some (tc_authz_MsgGrant.granter m),
      Some (tc_authz_MsgGrant.grantee m),
      map_option partial_of_tc_authz_Grant (tc_authz_MsgGrant.grant m))"

definition wf_tc_authz_MsgGrant :: "('w, 'r) wire \<Rightarrow> tc_authz_MsgGrant \<Rightarrow> bool" where
  "wf_tc_authz_MsgGrant L m \<longleftrightarrow> wire_string (tc_authz_MsgGrant.granter m)
     \<and> wire_string (tc_authz_MsgGrant.grantee m)
     \<and> pred_option (\<lambda>v. wf_tc_authz_Grant L v \<and> fits L (encode_tc_authz_Grant L v)) (tc_authz_MsgGrant.grant m)"

definition wfj_tc_authz_MsgGrant :: "tc_authz_MsgGrant \<Rightarrow> bool" where
  "wfj_tc_authz_MsgGrant m \<longleftrightarrow> pred_option wfj_tc_authz_Grant (tc_authz_MsgGrant.grant m)"

subsection \<open>MsgExecResponse\<close>

record tc_authz_MsgExecResponse =
  results :: "bytes list"

definition createBase_tc_authz_MsgExecResponse :: tc_authz_MsgExecResponse where
  "createBase_tc_authz_MsgExecResponse = \<lparr>tc_authz_MsgExecResponse.results = []\<rparr>"

definition encode_tc_authz_MsgExecResponse :: "('w, 'r) wire \<Rightarrow> tc_authz_MsgExecResponse \<Rightarrow> 'w \<Rightarrow> 'w result" where
  "encode_tc_authz_MsgExecResponse L message = seqE
    [forE (\<lambda>v. seqE [w_uint32 L 10, w_bytes L v]) (tc_authz_MsgExecResponse.results message)]"

definition tc_authz_MsgExecResponse_switch :: "('w, 'r) wire \<Rightarrow> long_lib \<Rightarrow> u32 \<Rightarrow> tc_authz_MsgExecResponse \<Rightarrow> (tc_authz_MsgExecResponse, 'r) action" where
  "tc_authz_MsgExecResponse_switch L G tag message = js_switch (drop_bit 3 tag)
    [(1, readf (r_bytes L) (\<lambda>v. message\<lparr>tc_authz_MsgExecResponse.results := tc_authz_MsgExecResponse.results message @ [v]\<rparr>))]
    (skipType L tag message)"

definition decode_tc_authz_MsgExecResponse :: "('w, 'r) wire \<Rightarrow> long_lib \<Rightarrow> 'r input \<Rightarrow> nat option \<Rightarrow> (tc_authz_MsgExecResponse \<times> 'r) result" where
  "decode_tc_authz_MsgExecResponse L G = decode_msg L (tc_authz_MsgExecResponse_switch L G) createBase_tc_authz_MsgExecResponse"

definition fromJSON_tc_authz_MsgExecResponse :: "host \<Rightarrow> jsval \<Rightarrow> tc_authz_MsgExecResponse result" where
  "fromJSON_tc_authz_MsgExecResponse h object =
     bindE (arrayE object ''results'' (bytesFromBase64 h)) (\<lambda>v_results.
     Inr \<lparr>tc_authz_MsgExecResponse.results = v_results\<rparr>)"

definition toJSON_tc_authz_MsgExecResponse :: "host \<Rightarrow> tc_authz_MsgExecResponse \<Rightarrow> jsval result" where
  "toJSON_tc_authz_MsgExecResponse h message = objE
    [jlistE ''results'' (base64E h) (tc_authz_MsgExecResponse.results message)]"

type_synonym tc_authz_MsgExecResponse_Partial = "bytes list option"

definition fromPartial_tc_authz_MsgExecResponse :: "tc_authz_MsgExecResponse_Partial \<Rightarrow> tc_authz_MsgExecResponse" where
  "fromPartial_tc_authz_MsgExecResponse object = (case object of p_results \<Rightarrow>
     createBase_tc_authz_MsgExecResponse\<lparr>tc_authz_MsgExecResponse.results := partial_map (\<lambda>e. e) (p_results)\<rparr>)"

text \<open>A partial message that sets every field.\<close>

definition partial_of_tc_authz_MsgExecResponse :: "tc_authz_MsgExecResponse \<Rightarrow> tc_authz_MsgExecResponse_Partial" where
  "partial_of_tc_authz_MsgExecResponse m =
     (Some (tc_authz_MsgExecResponse.results m))"

definition wf_tc_authz_MsgExecResponse :: "('w, 'r) wire \<Rightarrow> tc_authz_MsgExecResponse \<Rightarrow> bool" where
  "wf_tc_authz_MsgExecResponse L m \<longleftrightarrow> list_all wire_bytes (tc_authz_MsgExecResponse.results m)"

definition wfj_tc_authz_MsgExecResponse :: "tc_authz_MsgExecResponse \<Rightarrow> bool" where
  "wfj_tc_authz_MsgExecResponse m \<longleftrightarrow> True"

subsection \<open>MsgExec\<close>

record tc_authz_MsgExec =
  grantee :: jsstring
  msgs' :: "tc_Any list"

definition createBase_tc_authz_MsgExec :: tc_authz_MsgExec where
  "createBase_tc_authz_MsgExec = \<lparr>tc_authz_MsgExec.grantee = [],
     tc_authz_MsgExec.msgs' = []\<rparr>"

definition encode_tc_authz_MsgExec :: "('w, 'r) wire \<Rightarrow> tc_authz_MsgExec \<Rightarrow> 'w \<Rightarrow> 'w result" where
  "encode_tc_authz_MsgExec L message = seqE
    [whenE (tc_authz_MsgExec.grantee message \<noteq> []) (seqE [w_uint32 L 10, w_string L (tc_authz_MsgExec.grantee message)]),
     forE (\<lambda>v. seqE [w_uint32 L 18, w_fork L, encode_tc_Any L v, w_join L]) (tc_authz_MsgExec.msgs' message)]"

definition tc_authz_MsgExec_switch :: "('w, 'r) wire \<Rightarrow> long_lib \<Rightarrow> u32 \<Rightarrow> tc_authz_MsgExec \<Rightarrow> (tc_authz_MsgExec, 'r) action" where
  "tc_authz_MsgExec_switch L G tag message = js_switch (drop_bit 3 tag)
    [(1, readf (r_string L) (\<lambda>v. message\<lparr>tc_authz_MsgExec.grantee := v\<rparr>)),
     (2, readf (submsg L (decode_tc_Any L G)) (\<lambda>v. message\<lparr>tc_authz_MsgExec.msgs' := tc_authz_MsgExec.msgs' message @ [v]\<rparr>))]
    (skipType L tag message)"

definition decode_tc_authz_MsgExec :: "('w, 'r) wire \<Rightarrow> long_lib \<Rightarrow> 'r input \<Rightarrow> nat option \<Rightarrow> (tc_authz_MsgExec \<times> 'r) result" where
  "decode_tc_authz_MsgExec L G = decode_msg L (tc_authz_MsgExec_switch L G) createBase_tc_authz_MsgExec"

definition fromJSON_tc_authz_MsgExec :: "host \<Rightarrow> jsval \<Rightarrow> tc_authz_MsgExec result" where
  "fromJSON_tc_authz_MsgExec h object =
     bindE (fieldE object ''grantee'' (stringE h) []) (\<lambda>v_grantee.
     bindE (arrayE object ''msgs'' (fromJSON_tc_Any h)) (\<lambda>v_msgs.
     Inr \<lparr>tc_authz_MsgExec.grantee = v_grantee, tc_authz_MsgExec.msgs' = v_msgs\<rparr>))"

definition toJSON_tc_authz_MsgExec :: "host \<Rightarrow> tc_authz_MsgExec \<Rightarrow> jsval result" where
  "toJSON_tc_authz_MsgExec h message = objE
    [jfieldE True ''grantee'' (Inr (JString (tc_authz_MsgExec.grantee message))),
     jlistE ''msgs'' (toJSON_tc_Any h) (tc_authz_MsgExec.msgs' message)]"

type_synonym tc_authz_MsgExec_Partial = "jsstring option \<times> tc_Any_Partial list option"

definition fromPartial_tc_authz_MsgExec :: "tc_authz_MsgExec_Partial \<Rightarrow> tc_authz_MsgExec" where
  "fromPartial_tc_authz_MsgExec object = (case object of (p_grantee, p_msgs) \<Rightarrow>
     createBase_tc_authz_MsgExec\<lparr>tc_authz_MsgExec.grantee := nullish (p_grantee) [],
       tc_authz_MsgExec.msgs' := partial_map fromPartial_tc_Any (p_msgs)\<rparr>)"

text \<open>A partial message that sets every field.\<close>

definition partial_of_tc_authz_MsgExec :: "tc_authz_MsgExec \<Rightarrow> tc_authz_MsgExec_Partial" where
  "partial_of_tc_authz_MsgExec m =
     (Some (tc_authz_MsgExec.grantee m),
      Some (map partial_of_tc_Any (tc_authz_MsgExec.msgs' m)))"

definition wf_tc_authz_MsgExec :: "('w, 'r) wire \<Rightarrow> tc_authz_MsgExec \<Rightarrow> bool" where
  "wf_tc_authz_MsgExec L m \<longleftrightarrow> wire_string (tc_authz_MsgExec.grantee m)
     \<and> list_all (\<lambda>v. wf_tc_Any L v \<and> fits L (encode_tc_Any L v)) (tc_authz_MsgExec.msgs' m)"

definition wfj_tc_authz_MsgExec :: "tc_authz_MsgExec \<Rightarrow> bool" where
  "wfj_tc_authz_MsgExec m \<longleftrightarrow> list_all wfj_tc_Any (tc_authz_MsgExec.msgs' m)"

subsection \<open>MsgGrantResponse\<close>

datatype tc_authz_MsgGrantResponse = tc_authz_MsgGrantResponse

definition createBase_tc_authz_MsgGrantResponse :: tc_authz_MsgGrantResponse where
  "createBase_tc_authz_MsgGrantResponse = tc_authz_MsgGrantResponse"

definition encode_tc_authz_MsgGrantResponse :: "('w, 'r) wire \<Rightarrow> tc_authz_MsgGrantResponse \<Rightarrow> 'w \<Rightarrow> 'w result" where
  "encode_tc_authz_MsgGrantResponse L message = seqE
    []"

definition tc_authz_MsgGrantResponse_switch :: "('w, 'r) wire \<Rightarrow> long_lib \<Rightarrow> u32 \<Rightarrow> tc_authz_MsgGrantResponse \<Rightarrow> (tc_authz_MsgGrantResponse, 'r) action" where
  "tc_authz_MsgGrantResponse_switch L G tag message = js_switch (drop_bit 3 tag)
    []
    (skipType L tag message)"

definition decode_tc_authz_MsgGrantResponse :: "('w, 'r) wire \<Rightarrow> long_lib \<Rightarrow> 'r input \<Rightarrow> nat option \<Rightarrow> (tc_authz_MsgGrantResponse \<times> 'r) result" where
  "decode_tc_authz_MsgGrantResponse L G = decode_msg L (tc_authz_MsgGrantResponse_switch L G) createBase_tc_authz_MsgGrantResponse"

definition fromJSON_tc_authz_MsgGrantResponse :: "host \<Rightarrow> jsval \<Rightarrow> tc_authz_MsgGrantResponse result" where
  "fromJSON_tc_authz_MsgGrantResponse h object =
     Inr tc_authz_MsgGrantResponse"

definition toJSON_tc_authz_MsgGrantResponse :: "host \<Rightarrow> tc_authz_MsgGrantResponse \<Rightarrow> jsval result" where
  "toJSON_tc_authz_MsgGrantResponse h message = objE
    []"

definition fromPartial_tc_authz_MsgGrantResponse :: "tc_authz_MsgGrantResponse \<Rightarrow> tc_authz_MsgGrantResponse" where
  "fromPartial_tc_authz_MsgGrantResponse object = createBase_tc_authz_MsgGrantResponse"

definition wf_tc_authz_MsgGrantResponse :: "('w, 'r) wire \<Rightarrow> tc_authz_MsgGrantResponse \<Rightarrow> bool" where
  "wf_tc_authz_MsgGrantResponse L m \<longleftrightarrow> True"

definition wfj_tc_authz_MsgGrantResponse :: "tc_authz_MsgGrantResponse \<Rightarrow> bool" where
  "wfj_tc_authz_MsgGrantResponse m \<longleftrightarrow> True"

subsection \<open>MsgRevoke\<close>

record tc_authz_MsgRevoke =
  granter :: jsstring
  grantee :: jsstring
  msgTypeUrl :: jsstring

definition createBase_tc_authz_MsgRevoke :: tc_authz_MsgRevoke where
  "createBase_tc_authz_MsgRevoke = \<lparr>tc_authz_MsgRevoke.granter = [],
     tc_authz_MsgRevoke.grantee = [],
     tc_authz_MsgRevoke.msgTypeUrl = []\<rparr>"

definition encode_tc_authz_MsgRevoke :: "('w, 'r) wire \<Rightarrow> tc_authz_MsgRevoke \<Rightarrow> 'w \<Rightarrow> 'w result" where
  "encode_tc_authz_MsgRevoke L message = seqE
    [whenE (tc_authz_MsgRevoke.granter message \<noteq> []) (seqE [w_uint32 L 10, w_string L (tc_authz_MsgRevoke.granter message)]),
     whenE (tc_authz_MsgRevoke.grantee message \<noteq> []) (seqE [w_uint32 L 18, w_string L (tc_authz_MsgRevoke.grantee message)]),
     whenE (tc_authz_MsgRevoke.msgTypeUrl message \<noteq> []) (seqE [w_uint32 L 26, w_string L (tc_authz_MsgRevoke.msgTypeUrl message)])]"

definition tc_authz_MsgRevoke_switch :: "('w, 'r) wire \<Rightarrow> long_lib \<Rightarrow> u32 \<Rightarrow> tc_authz_MsgRevoke \<Rightarrow> (tc_authz_MsgRevoke, 'r) action" where
  "tc_authz_MsgRevoke_switch L G tag message = js_switch (drop_bit 3 tag)
    [(1, readf (r_string L) (\<lambda>v. message\<lparr>tc_authz_MsgRevoke.granter := v\<rparr>)),
     (2, readf (r_string L) (\<lambda>v. message\<lparr>tc_authz_MsgRevoke.grantee := v\<rparr>)),
     (3, readf (r_string L) (\<lambda>v. message\<lparr>tc_authz_MsgRevoke.msgTypeUrl := v\<rparr>))]
    (skipType L tag message)"

definition decode_tc_authz_MsgRevoke :: "('w, 'r) wire \<Rightarrow> long_lib \<Rightarrow> 'r input \<Rightarrow> nat option \<Rightarrow> (tc_authz_MsgRevoke \<times> 'r) result" where
  "decode_tc_authz_MsgRevoke L G = decode_msg L (tc_authz_MsgRevoke_switch L G) createBase_tc_authz_MsgRevoke"

definition fromJSON_tc_authz_MsgRevoke :: "host \<Rightarrow> jsval \<Rightarrow> tc_authz_MsgRevoke result" where
  "fromJSON_tc_authz_MsgRevoke h object =
     bindE (fieldE object ''granter'' (stringE h) []) (\<lambda>v_granter.
     bindE (fieldE object ''grantee'' (stringE h) []) (\<lambda>v_grantee.
     bindE (fieldE object ''msgTypeUrl'' (stringE h) []) (\<lambda>v_msgTypeUrl.
     Inr \<lparr>tc_authz_MsgRevoke.granter = v_granter, tc_authz_MsgRevoke.grantee = v_grantee, tc_authz_MsgRevoke.msgTypeUrl = v_msgTypeUrl\<rparr>)))"

definition toJSON_tc_authz_MsgRevoke :: "host \<Rightarrow> tc_authz_MsgRevoke \<Rightarrow> jsval result" where
  "toJSON_tc_authz_MsgRevoke h message = objE
    [jfieldE True ''granter'' (Inr (JString (tc_authz_MsgRevoke.granter message))),
     jfieldE True ''grantee'' (Inr (JString (tc_authz_MsgRevoke.grantee message))),
     jfieldE True ''msgTypeUrl'' (Inr (JString (tc_authz_MsgRevoke.msgTypeUrl message)))]"

type_synonym tc_authz_MsgRevoke_Partial = "jsstring option \<times> jsstring option \<times> jsstring option"

definition fromPartial_tc_authz_MsgRevoke :: "tc_authz_MsgRevoke_Partial \<Rightarrow> tc_authz_MsgRevoke" where
  "fromPartial_tc_authz_MsgRevoke object = (case object of (p_granter, p_grantee, p_msgTypeUrl) \<Rightarrow>
     createBase_tc_authz_MsgRevoke\<lparr>tc_authz_MsgRevoke.granter := nullish (p_granter) [],
       tc_authz_MsgRevoke.grantee := nullish (p_grantee) [],
       tc_authz_MsgRevoke.msgTypeUrl := nullish (p_msgTypeUrl) []\<rparr>)"

text \<open>A partial message that sets every field.\<close>

definition partial_of_tc_authz_MsgRevoke :: "tc_authz_MsgRevoke \<Rightarrow> tc_authz_MsgRevoke_Partial" where
  "partial_of_tc_authz_MsgRevoke m =
     (Some (tc_authz_MsgRevoke.granter m),
      Some (tc_authz_MsgRevoke.grantee m),
      Some (tc_authz_MsgRevoke.msgTypeUrl m))"

definition wf_tc_authz_MsgRevoke :: "('w, 'r) wire \<Rightarrow> tc_authz_MsgRevoke \<Rightarrow> bool" where
  "wf_tc_authz_MsgRevoke L m \<longleftrightarrow> wire_string (tc_authz_MsgRevoke.granter m)
     \<and> wire_string (tc_authz_MsgRevoke.grantee m)
     \<and> wire_string (tc_authz_MsgRevoke.msgTypeUrl m)"

definition wfj_tc_authz_MsgRevoke :: "tc_authz_MsgRevoke \<Rightarrow> bool" where
  "wfj_tc_authz_MsgRevoke m \<longleftrightarrow> True"

subsection \<open>MsgRevokeResponse\<close>

datatype tc_authz_MsgRevokeResponse = tc_authz_MsgRevokeResponse

definition createBase_tc_authz_MsgRevokeResponse :: tc_authz_MsgRevokeResponse where
  "createBase_tc_authz_MsgRevokeResponse = tc_authz_MsgRevokeResponse"

definition encode_tc_authz_MsgRevokeResponse :: "('w, 'r) wire \<Rightarrow> tc_authz_MsgRevokeResponse \<Rightarrow> 'w \<Rightarrow> 'w result" where
  "encode_tc_authz_MsgRevokeResponse L message = seqE
    []"

definition tc_authz_MsgRevokeResponse_switch :: "('w, 'r) wire \<Rightarrow> long_lib \<Rightarrow> u32 \<Rightarrow> tc_authz_MsgRevokeResponse \<Rightarrow> (tc_authz_MsgRevokeResponse, 'r) action" where
  "tc_authz_MsgRevokeResponse_switch L G tag message = js_switch (drop_bit 3 tag)
    []
    (skipType L tag message)"

definition decode_tc_authz_MsgRevokeResponse :: "('w, 'r) wire \<Rightarrow> long_lib \<Rightarrow> 'r input \<Rightarrow> nat option \<Rightarrow> (tc_authz_MsgRevokeResponse \<times> 'r) result" where
  "decode_tc_authz_MsgRevokeResponse L G = decode_msg L (tc_authz_MsgRevokeResponse_switch L G) createBase_tc_authz_MsgRevokeResponse"

definition fromJSON_tc_authz_MsgRevokeResponse :: "host \<Rightarrow> jsval \<Rightarrow> tc_authz_MsgRevokeResponse result" where
  "fromJSON_tc_authz_MsgRevokeResponse h object =
     Inr tc_authz_MsgRevokeResponse"

definition toJSON_tc_authz_MsgRevokeResponse :: "host \<Rightarrow> tc_authz_MsgRevokeResponse \<Rightarrow> jsval result" where
  "toJSON_tc_authz_MsgRevokeResponse h message = objE
    []"

definition fromPartial_tc_authz_MsgRevokeResponse :: "tc_authz_MsgRevokeResponse \<Rightarrow> tc_authz_MsgRevokeResponse" where
  "fromPartial_tc_authz_MsgRevokeResponse object = createBase_tc_authz_MsgRevokeResponse"

definition wf_tc_authz_MsgRevokeResponse :: "('w, 'r) wire \<Rightarrow> tc_authz_MsgRevokeResponse \<Rightarrow> bool" where
  "wf_tc_authz_MsgRevokeResponse L m \<longleftrightarrow> True"

definition wfj_tc_authz_MsgRevokeResponse :: "tc_authz_MsgRevokeResponse \<Rightarrow> bool" where
  "wfj_tc_authz_MsgRevokeResponse m \<longleftrightarrow> True"


section \<open>ts-client/cosmos.authz.v1beta1/types/cosmos/authz/v1beta1/query.ts\<close>

subsection \<open>QueryGrantsRequest\<close>

record tc_authz_QueryGrantsRequest =
  granter :: jsstring
  grantee :: jsstring
  msgTypeUrl :: jsstring
  pagination :: "PageRequest option"

definition createBase_tc_authz_QueryGrantsRequest :: tc_authz_QueryGrantsRequest where
  "createBase_tc_authz_QueryGrantsRequest = \<lparr>tc_authz_QueryGrantsRequest.granter = [],
     tc_authz_QueryGrantsRequest.grantee = [],
     tc_authz_QueryGrantsRequest.msgTypeUrl = [],
     tc_authz_QueryGrantsRequest.pagination = None\<rparr>"

definition encode_tc_authz_QueryGrantsRequest :: "('w, 'r) wire \<Rightarrow> tc_authz_QueryGrantsRequest \<Rightarrow> 'w \<Rightarrow> 'w result" where
  "encode_tc_authz_QueryGrantsRequest L message = seqE
    [whenE (tc_authz_QueryGrantsRequest.granter message \<noteq> []) (seqE [w_uint32 L 10, w_string L (tc_authz_QueryGrantsRequest.granter message)]),
     whenE (tc_authz_QueryGrantsRequest.grantee message \<noteq> []) (seqE [w_uint32 L 18, w_string L (tc_authz_QueryGrantsRequest.grantee message)]),
     whenE (tc_authz_QueryGrantsRequest.msgTypeUrl message \<noteq> []) (seqE [w_uint32 L 26, w_string L (tc_authz_QueryGrantsRequest.msgTypeUrl message)]),
     someE (tc_authz_QueryGrantsRequest.pagination message) (\<lambda>v. seqE [w_uint32 L 34, w_fork L, encode_tc_PageRequest L v, w_join L])]"

definition tc_authz_QueryGrantsRequest_switch :: "('w, 'r) wire \<Rightarrow> long_lib \<Rightarrow> u32 \<Rightarrow> tc_authz_QueryGrantsRequest \<Rightarrow> (tc_authz_QueryGrantsRequest, 'r) action" where
  "tc_authz_QueryGrantsRequest_switch L G tag message = js_switch (drop_bit 3 tag)
    [(1, readf (r_string L) (\<lambda>v. message\<lparr>tc_authz_QueryGrantsRequest.granter := v\<rparr>)),
     (2, readf (r_string L) (\<lambda>v. message\<lparr>tc_authz_QueryGrantsRequest.grantee := v\<rparr>)),
     (3, readf (r_string L) (\<lambda>v. message\<lparr>tc_authz_QueryGrantsRequest.msgTypeUrl := v\<rparr>)),
     (4, readf (submsg L (decode_tc_PageRequest L G)) (\<lambda>v. message\<lparr>tc_authz_QueryGrantsRequest.pagination := Some v\<rparr>))]
    (skipType L tag message)"

definition decode_tc_authz_QueryGrantsRequest :: "('w, 'r) wire \<Rightarrow> long_lib \<Rightarrow> 'r input \<Rightarrow> nat option \<Rightarrow> (tc_authz_QueryGrantsRequest \<times> 'r) result" where
  "decode_tc_authz_QueryGrantsRequest L G = decode_msg L (tc_authz_QueryGrantsRequest_switch L G) createBase_tc_authz_QueryGrantsRequest"

definition fromJSON_tc_authz_QueryGrantsRequest :: "host \<Rightarrow> jsval \<Rightarrow> tc_authz_QueryGrantsRequest result" where
  "fromJSON_tc_authz_QueryGrantsRequest h object =
     bindE (fieldE object ''granter'' (stringE h) []) (\<lambda>v_granter.
     bindE (fieldE object ''grantee'' (stringE h) []) (\<lambda>v_grantee.
     bindE (fieldE object ''msgTypeUrl'' (stringE h) []) (\<lambda>v_msgTypeUrl.
     bindE (optE object ''pagination'' (fromJSON_tc_PageRequest h)) (\<lambda>v_pagination.
     Inr \<lparr>tc_authz_QueryGrantsRequest.granter = v_granter, tc_authz_QueryGrantsRequest.grantee = v_grantee, tc_authz_QueryGrantsRequest.msgTypeUrl = v_msgTypeUrl, tc_authz_QueryGrantsRequest.pagination = v_pagination\<rparr>))))"

definition toJSON_tc_authz_QueryGrantsRequest :: "host \<Rightarrow> tc_authz_QueryGrantsRequest \<Rightarrow> jsval result" where
  "toJSON_tc_authz_QueryGrantsRequest h message = objE
    [jfieldE True ''granter'' (Inr (JString (tc_authz_QueryGrantsRequest.granter message))),
     jfieldE True ''grantee'' (Inr (JString (tc_authz_QueryGrantsRequest.grantee message))),
     jfieldE True ''msgTypeUrl'' (Inr (JString (tc_authz_QueryGrantsRequest.msgTypeUrl message))),
     joptE ''pagination'' (toJSON_tc_PageRequest h) (tc_authz_QueryGrantsRequest.pagination message)]"

type_synonym tc_authz_QueryGrantsRequest_Partial = "jsstring option \<times> jsstring option \<times> jsstring option \<times> PageRequest_Partial option"

definition fromPartial_tc_authz_QueryGrantsRequest :: "tc_authz_QueryGrantsRequest_Partial \<Rightarrow> tc_authz_QueryGrantsRequest" where
  "fromPartial_tc_authz_QueryGrantsRequest object = (case object of (p_granter, p_grantee, p_msgTypeUrl, p_pagination) \<Rightarrow>
     createBase_tc_authz_QueryGrantsRequest\<lparr>tc_authz_QueryGrantsRequest.granter := nullish (p_granter) [],
       tc_authz_QueryGrantsRequest.grantee := nullish (p_grantee) [],
       tc_authz_QueryGrantsRequest.msgTypeUrl := nullish (p_msgTypeUrl) [],
       tc_authz_QueryGrantsRequest.pagination := map_option fromPartial_tc_PageRequest (p_pagination)\<rparr>)"

text \<open>A partial message that sets every field.\<close>

definition partial_of_tc_authz_QueryGrantsRequest :: "tc_authz_QueryGrantsRequest \<Rightarrow> tc_authz_QueryGrantsRequest_Partial" where
  "partial_of_tc_authz_QueryGrantsRequest m =
     (Some (tc_authz_QueryGrantsRequest.granter m),
      Some (tc_authz_QueryGrantsRequest.grantee m),
      Some (tc_authz_QueryGrantsRequest.msgTypeUrl m),
      map_option partial_of_PageRequest (tc_authz_QueryGrantsRequest.pagination m))"

definition wf_tc_authz_QueryGrantsRequest :: "('w, 'r) wire \<Rightarrow> tc_authz_QueryGrantsRequest \<Rightarrow> bool" where
  "wf_tc_authz_QueryGrantsRequest L m \<longleftrightarrow> wire_string (tc_authz_QueryGrantsRequest.granter m)
     \<and> wire_string (tc_authz_QueryGrantsRequest.grantee m)
     \<and> wire_string (tc_authz_QueryGrantsRequest.msgTypeUrl m)
     \<and> pred_option (\<lambda>v. wf_PageRequest L v \<and> fits L (encode_PageRequest L v)) (tc_authz_QueryGrantsRequest.pagination m)"

definition wfj_tc_authz_QueryGrantsRequest :: "tc_authz_QueryGrantsRequest \<Rightarrow> bool" where
  "wfj_tc_authz_QueryGrantsRequest m \<longleftrightarrow> pred_option wfj_PageRequest (tc_authz_QueryGrantsRequest.pagination m)"

subsection \<open>QueryGrantsResponse\<close>

record tc_authz_QueryGrantsResponse =
  grants :: "tc_authz_Grant list"
  pagination :: "PageResponse option"

definition createBase_tc_authz_QueryGrantsResponse :: tc_authz_QueryGrantsResponse where
  "createBase_tc_authz_QueryGrantsResponse = \<lparr>tc_authz_QueryGrantsResponse.grants = [],
     tc_authz_QueryGrantsResponse.pagination = None\<rparr>"

definition encode_tc_authz_QueryGrantsResponse :: "('w, 'r) wire \<Rightarrow> tc_authz_QueryGrantsResponse \<Rightarrow> 'w \<Rightarrow> 'w result" where
  "encode_tc_authz_QueryGrantsResponse L message = seqE
    [forE (\<lambda>v. seqE [w_uint32 L 10, w_fork L, encode_tc_authz_Grant L v, w_join L]) (tc_authz_QueryGrantsResponse.grants message),
     someE (tc_authz_QueryGrantsResponse.pagination message) (\<lambda>v. seqE [w_uint32 L 18, w_fork L, encode_tc_PageResponse L v, w_join L])]"

definition tc_authz_QueryGrantsResponse_switch :: "('w, 'r) wire \<Rightarrow> long_lib \<Rightarrow> u32 \<Rightarrow> tc_authz_QueryGrantsResponse \<Rightarrow> (tc_authz_QueryGrantsResponse, 'r) action" where
  "tc_authz_QueryGrantsResponse_switch L G tag message = js_switch (drop_bit 3 tag)
    [(1, readf (submsg L (decode_tc_authz_Grant L G)) (\<lambda>v. message\<lparr>tc_authz_QueryGrantsResponse.grants := tc_authz_QueryGrantsResponse.grants message @ [v]\<rparr>)),
     (2, readf (submsg L (decode_tc_PageResponse L G)) (\<lambda>v. message\<lparr>tc_authz_QueryGrantsResponse.pagination := Some v\<rparr>))]
    (skipType L tag message)"

definition decode_tc_authz_QueryGrantsResponse :: "('w, 'r) wire \<Rightarrow> long_lib \<Rightarrow> 'r input \<Rightarrow> nat option \<Rightarrow> (tc_authz_QueryGrantsResponse \<times> 'r) result" where
  "decode_tc_authz_QueryGrantsResponse L G = decode_msg L (tc_authz_QueryGrantsResponse_switch L G) createBase_tc_authz_QueryGrantsResponse"

definition fromJSON_tc_authz_QueryGrantsResponse :: "host \<Rightarrow> jsval \<Rightarrow> tc_authz_QueryGrantsResponse result" where
  "fromJSON_tc_authz_QueryGrantsResponse h object =
     bindE (arrayE object ''grants'' (fromJSON_tc_authz_Grant h)) (\<lambda>v_grants.
     bindE (optE object ''pagination'' (fromJSON_tc_PageResponse h)) (\<lambda>v_pagination.
     Inr \<lparr>tc_authz_QueryGrantsResponse.grants = v_grants, tc_authz_QueryGrantsResponse.pagination = v_pagination\<rparr>))"

definition toJSON_tc_authz_QueryGrantsResponse :: "host \<Rightarrow> tc_authz_QueryGrantsResponse \<Rightarrow> jsval result" where
  "toJSON_tc_authz_QueryGrantsResponse h message = objE
    [jlistE ''grants'' (toJSON_tc_authz_Grant h) (tc_authz_QueryGrantsResponse.grants message),
     joptE ''pagination'' (toJSON_tc_PageResponse h) (tc_authz_QueryGrantsResponse.pagination message)]"

type_synonym tc_authz_QueryGrantsResponse_Partial = "tc_authz_Grant_Partial list option \<times> PageResponse_Partial option"

definition fromPartial_tc_authz_QueryGrantsResponse :: "tc_authz_QueryGrantsResponse_Partial \<Rightarrow> tc_authz_QueryGrantsResponse" where
  "fromPartial_tc_authz_QueryGrantsResponse object = (case object of (p_grants, p_pagination) \<Rightarrow>
     createBase_tc_authz_QueryGrantsResponse\<lparr>tc_authz_QueryGrantsResponse.grants := partial_map fromPartial_tc_authz_Grant (p_grants),
       tc_authz_QueryGrantsResponse.pagination := map_option fromPartial_tc_PageResponse (p_pagination)\<rparr>)"

text \<open>A partial message that sets every field.\<close>

definition partial_of_tc_authz_QueryGrantsResponse :: "tc_authz_QueryGrantsResponse \<Rightarrow> tc_authz_QueryGrantsResponse_Partial" where
  "partial_of_tc_authz_QueryGrantsResponse m =
     (Some (map partial_of_tc_authz_Grant (tc_authz_QueryGrantsResponse.grants m)),
      map_option partial_of_PageResponse (tc_authz_QueryGrantsResponse.pagination m))"

definition wf_tc_authz_QueryGrantsResponse :: "('w, 'r) wire \<Rightarrow> tc_authz_QueryGrantsResponse \<Rightarrow> bool" where
  "wf_tc_authz_QueryGrantsResponse L m \<longleftrightarrow> list_all (\<lambda>v. wf_tc_authz_Grant L v \<and> fits L (encode_tc_authz_Grant L v)) (tc_authz_QueryGrantsResponse.grants m)
     \<and> pred_option (\<lambda>v. wf_PageResponse L v \<and> fits L (encode_PageResponse L v)) (tc_authz_QueryGrantsResponse.pagination m)"

definition wfj_tc_authz_QueryGrantsResponse :: "tc_authz_QueryGrantsResponse \<Rightarrow> bool" where
  "wfj_tc_authz_QueryGrantsResponse m \<longleftrightarrow> list_all wfj_tc_authz_Grant (tc_authz_QueryGrantsResponse.grants m)
     \<and> pred_option wfj_PageResponse (tc_authz_QueryGrantsResponse.pagination m)"

subsection \<open>QueryGranterGrantsRequest\<close>

record tc_authz_QueryGranterGrantsRequest =
  granter :: jsstring
  pagination :: "PageRequest option"

definition createBase_tc_authz_QueryGranterGrantsRequest :: tc_authz_QueryGranterGrantsRequest where
  "createBase_tc_authz_QueryGranterGrantsRequest = \<lparr>tc_authz_QueryGranterGrantsRequest.granter = [],
     tc_authz_QueryGranterGrantsRequest.pagination = None\<rparr>"

definition encode_tc_authz_QueryGranterGrantsRequest :: "('w, 'r) wire \<Rightarrow> tc_authz_QueryGranterGrantsRequest \<Rightarrow> 'w \<Rightarrow> 'w result" where
  "encode_tc_authz_QueryGranterGrantsRequest L message = seqE
    [whenE (tc_authz_QueryGranterGrantsRequest.granter message \<noteq> []) (seqE [w_uint32 L 10, w_string L (tc_authz_QueryGranterGrantsRequest.granter message)]),
     someE (tc_authz_QueryGranterGrantsRequest.pagination message) (\<lambda>v. seqE [w_uint32 L 18, w_fork L, encode_tc_PageRequest L v, w_join L])]"

definition tc_authz_QueryGranterGrantsRequest_switch :: "('w, 'r) wire \<Rightarrow> long_lib \<Rightarrow> u32 \<Rightarrow> tc_authz_QueryGranterGrantsRequest \<Rightarrow> (tc_authz_QueryGranterGrantsRequest, 'r) action" where
  "tc_authz_QueryGranterGrantsRequest_switch L G tag message = js_switch (drop_bit 3 tag)
    [(1, readf (r_string L) (\<lambda>v. message\<lparr>tc_authz_QueryGranterGrantsRequest.granter := v\<rparr>)),
     (2, readf (submsg L (decode_tc_PageRequest L G)) (\<lambda>v. message\<lparr>tc_authz_QueryGranterGrantsRequest.pagination := Some v\<rparr>))]
    (skipType L tag message)"

definition decode_tc_authz_QueryGranterGrantsRequest :: "('w, 'r) wire \<Rightarrow> long_lib \<Rightarrow> 'r input \<Rightarrow> nat option \<Rightarrow> (tc_authz_QueryGranterGrantsRequest \<times> 'r) result" where
  "decode_tc_authz_QueryGranterGrantsRequest L G = decode_msg L (tc_authz_QueryGranterGrantsRequest_switch L G) createBase_tc_authz_QueryGranterGrantsRequest"

definition fromJSON_tc_authz_QueryGranterGrantsRequest :: "host \<Rightarrow> jsval \<Rightarrow> tc_authz_QueryGranterGrantsRequest result" where
  "fromJSON_tc_authz_QueryGranterGrantsRequest h object =
     bindE (fieldE object ''granter'' (stringE h) []) (\<lambda>v_granter.
     bindE (optE object ''pagination'' (fromJSON_tc_PageRequest h)) (\<lambda>v_pagination.
     Inr \<lparr>tc_authz_QueryGranterGrantsRequest.granter = v_granter, tc_authz_QueryGranterGrantsRequest.pagination = v_pagination\<rparr>))"

definition toJSON_tc_authz_QueryGranterGrantsRequest :: "host \<Rightarrow> tc_authz_QueryGranterGrantsRequest \<Rightarrow> jsval result" where
  "toJSON_tc_authz_QueryGranterGrantsRequest h message = objE
    [jfieldE True ''granter'' (Inr (JString (tc_authz_QueryGranterGrantsRequest.granter message))),
     joptE ''pagination'' (toJSON_tc_PageRequest h) (tc_authz_QueryGranterGrantsRequest.pagination message)]"

type_synonym tc_authz_QueryGranterGrantsRequest_Partial = "jsstring option \<times> PageRequest_Partial option"

definition fromPartial_tc_authz_QueryGranterGrantsRequest :: "tc_authz_QueryGranterGrantsRequest_Partial \<Rightarrow> tc_authz_QueryGranterGrantsRequest" where
  "fromPartial_tc_authz_QueryGranterGrantsRequest object = (case object of (p_granter, p_pagination) \<Rightarrow>
     createBase_tc_authz_QueryGranterGrantsRequest\<lparr>tc_authz_QueryGranterGrantsRequest.granter := nullish (p_granter) [],
       tc_authz_QueryGranterGrantsRequest.pagination := map_option fromPartial_tc_PageRequest (p_pagination)\<rparr>)"

text \<open>A partial message that sets every field.\<close>

definition partial_of_tc_authz_QueryGranterGrantsRequest :: "tc_authz_QueryGranterGrantsRequest \<Rightarrow> tc_authz_QueryGranterGrantsRequest_Partial" where
  "partial_of_tc_authz_QueryGranterGrantsRequest m =
     (Some (tc_authz_QueryGranterGrantsRequest.granter m),
      map_option partial_of_PageRequest (tc_authz_QueryGranterGrantsRequest.pagination m))"

definition wf_tc_authz_QueryGranterGrantsRequest :: "('w, 'r) wire \<Rightarrow> tc_authz_QueryGranterGrantsRequest \<Rightarrow> bool" where
  "wf_tc_authz_QueryGranterGrantsRequest L m \<longleftrightarrow> wire_string (tc_authz_QueryGranterGrantsRequest.granter m)
     \<and> pred_option (\<lambda>v. wf_PageRequest L v \<and> fits L (encode_PageRequest L v)) (tc_authz_QueryGranterGrantsRequest.pagination m)"

definition wfj_tc_authz_QueryGranterGrantsRequest :: "tc_authz_QueryGranterGrantsRequest \<Rightarrow> bool" where
  "wfj_tc_authz_QueryGranterGrantsRequest m \<longleftrightarrow> pred_option wfj_PageRequest (tc_authz_QueryGranterGrantsRequest.pagination m)"

subsection \<open>QueryGranterGrantsResponse\<close>

record tc_authz_QueryGranterGrantsResponse =
  grants :: "tc_authz_GrantAuthorization list"
  pagination :: "PageResponse option"

definition createBase_tc_authz_QueryGranterGrantsResponse :: tc_authz_QueryGranterGrantsResponse where
  "createBase_tc_authz_QueryGranterGrantsResponse = \<lparr>tc_authz_QueryGranterGrantsResponse.grants = [],
     tc_authz_QueryGranterGrantsResponse.pagination = None\<rparr>"

definition encode_tc_authz_QueryGranterGrantsResponse :: "('w, 'r) wire \<Rightarrow> tc_authz_QueryGranterGrantsResponse \<Rightarrow> 'w \<Rightarrow> 'w result" where
  "encode_tc_authz_QueryGranterGrantsResponse L message = seqE
    [forE (\<lambda>v. seqE [w_uint32 L 10, w_fork L, encode_tc_authz_GrantAuthorization L v, w_join L]) (tc_authz_QueryGranterGrantsResponse.grants message),
     someE (tc_authz_QueryGranterGrantsResponse.pagination message) (\<lambda>v. seqE [w_uint32 L 18, w_fork L, encode_tc_PageResponse L v, w_join L])]"

definition tc_authz_QueryGranterGrantsResponse_switch :: "('w, 'r) wire \<Rightarrow> long_lib \<Rightarrow> u32 \<Rightarrow> tc_authz_QueryGranterGrantsResponse \<Rightarrow> (tc_authz_QueryGranterGrantsResponse, 'r) action" where
  "tc_authz_QueryGranterGrantsResponse_switch L G tag message = js_switch (drop_bit 3 tag)
    [(1, readf (submsg L (decode_tc_authz_GrantAuthorization L G)) (\<lambda>v. message\<lparr>tc_authz_QueryGranterGrantsResponse.grants := tc_authz_QueryGranterGrantsResponse.grants message @ [v]\<rparr>)),
     (2, readf (submsg L (decode_tc_PageResponse L G)) (\<lambda>v. message\<lparr>tc_authz_QueryGranterGrantsResponse.pagination := Some v\<rparr>))]
    (skipType L tag message)"

definition decode_tc_authz_QueryGranterGrantsResponse :: "('w, 'r) wire \<Rightarrow> long_lib \<Rightarrow> 'r input \<Rightarrow> nat option \<Rightarrow> (tc_authz_QueryGranterGrantsResponse \<times> 'r) result" where
  "decode_tc_authz_QueryGranterGrantsResponse L G = decode_msg L (tc_authz_QueryGranterGrantsResponse_switch L G) createBase_tc_authz_QueryGranterGrantsResponse"

definition fromJSON_tc_authz_QueryGranterGrantsResponse :: "host \<Rightarrow> jsval \<Rightarrow> tc_authz_QueryGranterGrantsResponse result" where
  "fromJSON_tc_authz_QueryGranterGrantsResponse h object =
     bindE (arrayE object ''grants'' (fromJSON_tc_authz_GrantAuthorization h)) (\<lambda>v_grants.
     bindE (optE object ''pagination'' (fromJSON_tc_PageResponse h)) (\<lambda>v_pagination.
     Inr \<lparr>tc_authz_QueryGranterGrantsResponse.grants = v_grants, tc_authz_QueryGranterGrantsResponse.pagination = v_pagination\<rparr>))"

definition toJSON_tc_authz_QueryGranterGrantsResponse :: "host \<Rightarrow> tc_authz_QueryGranterGrantsResponse \<Rightarrow> jsval result" where
  "toJSON_tc_authz_QueryGranterGrantsResponse h message = objE
    [jlistE ''grants'' (toJSON_tc_authz_GrantAuthorization h) (tc_authz_QueryGranterGrantsResponse.grants message),
     joptE ''pagination'' (toJSON_tc_PageResponse h) (tc_authz_QueryGranterGrantsResponse.pagination message)]"

type_synonym tc_authz_QueryGranterGrantsResponse_Partial = "tc_authz_GrantAuthorization_Partial list option \<times> PageResponse_Partial option"

definition fromPartial_tc_authz_QueryGranterGrantsResponse :: "tc_authz_QueryGranterGrantsResponse_Partial \<Rightarrow> tc_authz_QueryGranterGrantsResponse" where
  "fromPartial_tc_authz_QueryGranterGrantsResponse object = (case object of (p_grants, p_pagination) \<Rightarrow>
     createBase_tc_authz_QueryGranterGrantsResponse\<lparr>tc_authz_QueryGranterGrantsResponse.grants := partial_map fromPartial_tc_authz_GrantAuthorization (p_grants),
       tc_authz_QueryGranterGrantsResponse.pagination := map_option fromPartial_tc_PageResponse (p_pagination)\<rparr>)"

text \<open>A partial message that sets every field.\<close>

definition partial_of_tc_authz_QueryGranterGrantsResponse :: "tc_authz_QueryGranterGrantsResponse \<Rightarrow> tc_authz_QueryGranterGrantsResponse_Partial" where
  "partial_of_tc_authz_QueryGranterGrantsResponse m =
     (Some (map partial_of_tc_authz_GrantAuthorization (tc_authz_QueryGranterGrantsResponse.grants m)),
      map_option partial_of_PageResponse (tc_authz_QueryGranterGrantsResponse.pagination m))"

definition wf_tc_authz_QueryGranterGrantsResponse :: "('w, 'r) wire \<Rightarrow> tc_authz_QueryGranterGrantsResponse \<Rightarrow> bool" where
  "wf_tc_authz_QueryGranterGrantsResponse L m \<longleftrightarrow> list_all (\<lambda>v. wf_tc_authz_GrantAuthorization L v \<and> fits L (encode_tc_authz_GrantAuthorization L v)) (tc_authz_QueryGranterGrantsResponse.grants m)
     \<and> pred_option (\<lambda>v. wf_PageResponse L v \<and> fits L (encode_PageResponse L v)) (tc_authz_QueryGranterGrantsResponse.pagination m)"

definition wfj_tc_authz_QueryGranterGrantsResponse :: "tc_authz_QueryGranterGrantsResponse \<Rightarrow> bool" where
  "wfj_tc_authz_QueryGranterGrantsResponse m \<longleftrightarrow> list_all wfj_tc_authz_GrantAuthorization (tc_authz_QueryGranterGrantsResponse.grants m)
     \<and> pred_option wfj_PageResponse (tc_authz_QueryGranterGrantsResponse.pagination m)"

subsection \<open>QueryGranteeGrantsRequest\<close>

record tc_authz_QueryGranteeGrantsRequest =
  grantee :: jsstring
  pagination :: "PageRequest option"

definition createBase_tc_authz_QueryGranteeGrantsRequest :: tc_authz_QueryGranteeGrantsRequest where
  "createBase_tc_authz_QueryGranteeGrantsRequest = \<lparr>tc_authz_QueryGranteeGrantsRequest.grantee = [],
     tc_authz_QueryGranteeGrantsRequest.pagination = None\<rparr>"

definition encode_tc_authz_QueryGranteeGrantsRequest :: "('w, 'r) wire \<Rightarrow> tc_authz_QueryGranteeGrantsRequest \<Rightarrow> 'w \<Rightarrow> 'w result" where
  "encode_tc_authz_QueryGranteeGrantsRequest L message = seqE
    [whenE (tc_authz_QueryGranteeGrantsRequest.grantee message \<noteq> []) (seqE [w_uint32 L 10, w_string L (tc_authz_QueryGranteeGrantsRequest.grantee message)]),
     someE (tc_authz_QueryGranteeGrantsRequest.pagination message) (\<lambda>v. seqE [w_uint32 L 18, w_fork L, encode_tc_PageRequest L v, w_join L])]"

definition tc_authz_QueryGranteeGrantsRequest_switch :: "('w, 'r) wire \<Rightarrow> long_lib \<Rightarrow> u32 \<Rightarrow> tc_authz_QueryGranteeGrantsRequest \<Rightarrow> (tc_authz_QueryGranteeGrantsRequest, 'r) action" where
  "tc_authz_QueryGranteeGrantsRequest_switch L G tag message = js_switch (drop_bit 3 tag)
    [(1, readf (r_string L) (\<lambda>v. message\<lparr>tc_authz_QueryGranteeGrantsRequest.grantee := v\<rparr>)),
     (2, readf (submsg L (decode_tc_PageRequest L G)) (\<lambda>v. message\<lparr>tc_authz_QueryGranteeGrantsRequest.pagination := Some v\<rparr>))]
    (skipType L tag message)"

definition decode_tc_authz_QueryGranteeGrantsRequest :: "('w, 'r) wire \<Rightarrow> long_lib \<Rightarrow> 'r input \<Rightarrow> nat option \<Rightarrow> (tc_authz_QueryGranteeGrantsRequest \<times> 'r) result" where
  "decode_tc_authz_QueryGranteeGrantsRequest L G = decode_msg L (tc_authz_QueryGranteeGrantsRequest_switch L G) createBase_tc_authz_QueryGranteeGrantsRequest"

definition fromJSON_tc_authz_QueryGranteeGrantsRequest :: "host \<Rightarrow> jsval \<Rightarrow> tc_authz_QueryGranteeGrantsRequest result" where
  "fromJSON_tc_authz_QueryGranteeGrantsRequest h object =
     bindE (fieldE object ''grantee'' (stringE h) []) (\<lambda>v_grantee.
     bindE (optE object ''pagination'' (fromJSON_tc_PageRequest h)) (\<lambda>v_pagination.
     Inr \<lparr>tc_authz_QueryGranteeGrantsRequest.grantee = v_grantee, tc_authz_QueryGranteeGrantsRequest.pagination = v_pagination\<rparr>))"

definition toJSON_tc_authz_QueryGranteeGrantsRequest :: "host \<Rightarrow> tc_authz_QueryGranteeGrantsRequest \<Rightarrow> jsval result" where
  "toJSON_tc_authz_QueryGranteeGrantsRequest h message = objE
    [jfieldE True ''grantee'' (Inr (JString (tc_authz_QueryGranteeGrantsRequest.grantee message))),
     joptE ''pagination'' (toJSON_tc_PageRequest h) (tc_authz_QueryGranteeGrantsRequest.pagination message)]"

type_synonym tc_authz_QueryGranteeGrantsRequest_Partial = "jsstring option \<times> PageRequest_Partial option"

definition fromPartial_tc_authz_QueryGranteeGrantsRequest :: "tc_authz_QueryGranteeGrantsRequest_Partial \<Rightarrow> tc_authz_QueryGranteeGrantsRequest" where
  "fromPartial_tc_authz_QueryGranteeGrantsRequest object = (case object of (p_grantee, p_pagination) \<Rightarrow>
     createBase_tc_authz_QueryGranteeGrantsRequest\<lparr>tc_authz_QueryGranteeGrantsRequest.grantee := nullish (p_grantee) [],
       tc_authz_QueryGranteeGrantsRequest.pagination := map_option fromPartial_tc_PageRequest (p_pagination)\<rparr>)"

text \<open>A partial message that sets every field.\<close>

definition partial_of_tc_authz_QueryGranteeGrantsRequest :: "tc_authz_QueryGranteeGrantsRequest \<Rightarrow> tc_authz_QueryGranteeGrantsRequest_Partial" where
  "partial_of_tc_authz_QueryGranteeGrantsRequest m =
     (Some (tc_authz_QueryGranteeGrantsRequest.grantee m),
      map_option partial_of_PageRequest (tc_authz_QueryGranteeGrantsRequest.pagination m))"

definition wf_tc_authz_QueryGranteeGrantsRequest :: "('w, 'r) wire \<Rightarrow> tc_authz_QueryGranteeGrantsRequest \<Rightarrow> bool" where
  "wf_tc_authz_QueryGranteeGrantsRequest L m \<longleftrightarrow> wire_string (tc_authz_QueryGranteeGrantsRequest.grantee m)
     \<and> pred_option (\<lambda>v. wf_PageRequest L v \<and> fits L (encode_PageRequest L v)) (tc_authz_QueryGranteeGrantsRequest.pagination m)"

definition wfj_tc_authz_QueryGranteeGrantsRequest :: "tc_authz_QueryGranteeGrantsRequest \<Rightarrow> bool" where
  "wfj_tc_authz_QueryGranteeGrantsRequest m \<longleftrightarrow> pred_option wfj_PageRequest (tc_authz_QueryGranteeGrantsRequest.pagination m)"

subsection \<open>QueryGranteeGrantsResponse\<close>

record tc_authz_QueryGranteeGrantsResponse =
  grants :: "tc_authz_GrantAuthorization list"
  pagination :: "PageResponse option"

definition createBase_tc_authz_QueryGranteeGrantsResponse :: tc_authz_QueryGranteeGrantsResponse where
  "createBase_tc_authz_QueryGranteeGrantsResponse = \<lparr>tc_authz_QueryGranteeGrantsResponse.grants = [],
     tc_authz_QueryGranteeGrantsResponse.pagination = None\<rparr>"

definition encode_tc_authz_QueryGranteeGrantsResponse :: "('w, 'r) wire \<Rightarrow> tc_authz_QueryGranteeGrantsResponse \<Rightarrow> 'w \<Rightarrow> 'w result" where
  "encode_tc_authz_QueryGranteeGrantsResponse L message = seqE
    [forE (\<lambda>v. seqE [w_uint32 L 10, w_fork L, encode_tc_authz_GrantAuthorization L v, w_join L]) (tc_authz_QueryGranteeGrantsResponse.grants message),
     someE (tc_authz_QueryGranteeGrantsResponse.pagination message) (\<lambda>v. seqE [w_uint32 L 18, w_fork L, encode_tc_PageResponse L v, w_join L])]"

definition tc_authz_QueryGranteeGrantsResponse_switch :: "('w, 'r) wire \<Rightarrow> long_lib \<Rightarrow> u32 \<Rightarrow> tc_authz_QueryGranteeGrantsResponse \<Rightarrow> (tc_authz_QueryGranteeGrantsResponse, 'r) action" where
  "tc_authz_QueryGranteeGrantsResponse_switch L G tag message = js_switch (drop_bit 3 tag)
    [(1, readf (submsg L (decode_tc_authz_GrantAuthorization L G)) (\<lambda>v. message\<lparr>tc_authz_QueryGranteeGrantsResponse.grants := tc_authz_QueryGranteeGrantsResponse.grants message @ [v]\<rparr>)),
     (2, readf (submsg L (decode_tc_PageResponse L G)) (\<lambda>v. message\<lparr>tc_authz_QueryGranteeGrantsResponse.pagination := Some v\<rparr>))]
    (skipType L tag message)"

definition decode_tc_authz_QueryGranteeGrantsResponse :: "('w, 'r) wire \<Rightarrow> long_lib \<Rightarrow> 'r input \<Rightarrow> nat option \<Rightarrow> (tc_authz_QueryGranteeGrantsResponse \<times> 'r) result" where
  "decode_tc_authz_QueryGranteeGrantsResponse L G = decode_msg L (tc_authz_QueryGranteeGrantsResponse_switch L G) createBase_tc_authz_QueryGranteeGrantsResponse"

definition fromJSON_tc_authz_QueryGranteeGrantsResponse :: "host \<Rightarrow> jsval \<Rightarrow> tc_authz_QueryGranteeGrantsResponse result" where
  "fromJSON_tc_authz_QueryGranteeGrantsResponse h object =
     bindE (arrayE object ''grants'' (fromJSON_tc_authz_GrantAuthorization h)) (\<lambda>v_grants.
     bindE (optE object ''pagination'' (fromJSON_tc_PageResponse h)) (\<lambda>v_pagination.
     Inr \<lparr>tc_authz_QueryGranteeGrantsResponse.grants = v_grants, tc_authz_QueryGranteeGrantsResponse.pagination = v_pagination\<rparr>))"

definition toJSON_tc_authz_QueryGranteeGrantsResponse :: "host \<Rightarrow> tc_authz_QueryGranteeGrantsResponse \<Rightarrow> jsval result" where
  "toJSON_tc_authz_QueryGranteeGrantsResponse h message = objE
    [jlistE ''grants'' (toJSON_tc_authz_GrantAuthorization h) (tc_authz_QueryGranteeGrantsResponse.grants message),
     joptE ''pagination'' (toJSON_tc_PageResponse h) (tc_authz_QueryGranteeGrantsResponse.pagination message)]"

type_synonym tc_authz_QueryGranteeGrantsResponse_Partial = "tc_authz_GrantAuthorization_Partial list option \<times> PageResponse_Partial option"

definition fromPartial_tc_authz_QueryGranteeGrantsResponse :: "tc_authz_QueryGranteeGrantsResponse_Partial \<Rightarrow> tc_authz_QueryGranteeGrantsResponse" where
  "fromPartial_tc_authz_QueryGranteeGrantsResponse object = (case object of (p_grants, p_pagination) \<Rightarrow>
     createBase_tc_authz_QueryGranteeGrantsResponse\<lparr>tc_authz_QueryGranteeGrantsResponse.grants := partial_map fromPartial_tc_authz_GrantAuthorization (p_grants),
       tc_authz_QueryGranteeGrantsResponse.pagination := map_option fromPartial_tc_PageResponse (p_pagination)\<rparr>)"

text \<open>A partial message that sets every field.\<close>

definition partial_of_tc_authz_QueryGranteeGrantsResponse :: "tc_authz_QueryGranteeGrantsResponse \<Rightarrow> tc_authz_QueryGranteeGrantsResponse_Partial" where
  "partial_of_tc_authz_QueryGranteeGrantsResponse m =
     (Some (map partial_of_tc_authz_GrantAuthorization (tc_authz_QueryGranteeGrantsResponse.grants m)),
      map_option partial_of_PageResponse (tc_authz_QueryGranteeGrantsResponse.pagination m))"

definition wf_tc_authz_QueryGranteeGrantsResponse :: "('w, 'r) wire \<Rightarrow> tc_authz_QueryGranteeGrantsResponse \<Rightarrow> bool" where
  "wf_tc_authz_QueryGranteeGrantsResponse L m \<longleftrightarrow> list_all (\<lambda>v. wf_tc_authz_GrantAuthorization L v \<and> fits L (encode_tc_authz_GrantAuthorization L v)) (tc_authz_QueryGranteeGrantsResponse.grants m)
     \<and> pred_option (\<lambda>v. wf_PageResponse L v \<and> fits L (encode_PageResponse L v)) (tc_authz_QueryGranteeGrantsResponse.pagination m)"

definition wfj_tc_authz_QueryGranteeGrantsResponse :: "tc_authz_QueryGranteeGrantsResponse \<Rightarrow> bool" where
  "wfj_tc_authz_QueryGranteeGrantsResponse m \<longleftrightarrow> list_all wfj_tc_authz_GrantAuthorization (tc_authz_QueryGranteeGrantsResponse.grants m)
     \<and> pred_option wfj_PageResponse (tc_authz_QueryGranteeGrantsResponse.pagination m)"


subsection \<open>The gRPC client\<close>

definition tc_authz_MsgClientImpl_Grant :: "('w, 'r) wire \<Rightarrow> long_lib \<Rightarrow> 's rpc \<Rightarrow> tc_authz_MsgGrant \<Rightarrow> 's \<Rightarrow> tc_authz_MsgGrantResponse outcome \<times> 's" where
  "tc_authz_MsgClientImpl_Grant L G tr = tc_unary L tr (js ''cosmos.authz.v1beta1.Msg'') (js ''Grant'') (encode_tc_authz_MsgGrant L) (decode_tc_authz_MsgGrantResponse L G)"

definition tc_authz_MsgClientImpl_Exec :: "('w, 'r) wire \<Rightarrow> long_lib \<Rightarrow> 's rpc \<Rightarrow> tc_authz_MsgExec \<Rightarrow> 's \<Rightarrow> tc_authz_MsgExecResponse outcome \<times> 's" where
  "tc_authz_MsgClientImpl_Exec L G tr = tc_unary L tr (js ''cosmos.authz.v1beta1.Msg'') (js ''Exec'') (encode_tc_authz_MsgExec L) (decode_tc_authz_MsgExecResponse L G)"

definition tc_authz_MsgClientImpl_Revoke :: "('w, 'r) wire \<Rightarrow> long_lib \<Rightarrow> 's rpc \<Rightarrow> tc_authz_MsgRevoke \<Rightarrow> 's \<Rightarrow> tc_authz_MsgRevokeResponse outcome \<times> 's" where
  "tc_authz_MsgClientImpl_Revoke L G tr = tc_unary L tr (js ''cosmos.authz.v1beta1.Msg'') (js ''Revoke'') (encode_tc_authz_MsgRevoke L) (decode_tc_authz_MsgRevokeResponse L G)"

definition tc_authz_QueryClientImpl_Grants :: "('w, 'r) wire \<Rightarrow> long_lib \<Rightarrow> 's rpc \<Rightarrow> tc_authz_QueryGrantsRequest \<Rightarrow> 's \<Rightarrow> tc_authz_QueryGrantsResponse outcome \<times> 's" where
  "tc_authz_QueryClientImpl_Grants L G tr = tc_unary L tr (js ''cosmos.authz.v1beta1.Query'') (js ''Grants'') (encode_tc_authz_QueryGrantsRequest L) (decode_tc_authz_QueryGrantsResponse L G)"

definition tc_authz_QueryClientImpl_GranterGrants :: "('w, 'r) wire \<Rightarrow> long_lib \<Rightarrow> 's rpc \<Rightarrow> tc_authz_QueryGranterGrantsRequest \<Rightarrow> 's \<Rightarrow> tc_authz_QueryGranterGrantsResponse outcome \<times> 's" where
  "tc_authz_QueryClientImpl_GranterGrants L G tr = tc_unary L tr (js ''cosmos.authz.v1beta1.Query'') (js ''GranterGrants'') (encode_tc_authz_QueryGranterGrantsRequest L) (decode_tc_authz_QueryGranterGrantsResponse L G)"

definition tc_authz_QueryClientImpl_GranteeGrants :: "('w, 'r) wire \<Rightarrow> long_lib \<Rightarrow> 's rpc \<Rightarrow> tc_authz_QueryGranteeGrantsRequest \<Rightarrow> 's \<Rightarrow> tc_authz_QueryGranteeGrantsResponse outcome \<times> 's" where
  "tc_authz_QueryClientImpl_GranteeGrants L G tr = tc_unary L tr (js ''cosmos.authz.v1beta1.Query'') (js ''GranteeGrants'') (encode_tc_authz_QueryGranteeGrantsRequest L) (decode_tc_authz_QueryGranteeGrantsResponse L G)"


section \<open>Encoding, decoding and JSON of these messages\<close>

lemma fromPartial_partial_of_tc_authz_GenericAuthorization [simp]: "fromPartial_tc_authz_GenericAuthorization (partial_of_tc_authz_GenericAuthorization m) = m"
  by (simp add: fromPartial_tc_authz_GenericAuthorization_def partial_of_tc_authz_GenericAuthorization_def createBase_tc_authz_GenericAuthorization_def partial_map_def option.map_comp o_def option.map_ident)

lemma tc_authz_GenericAuthorization_tags:
  "tc_authz_GenericAuthorization_switch L G 10 m = readf (r_string L) (\<lambda>v. m\<lparr>tc_authz_GenericAuthorization.msg' := v\<rparr>)"
  by (simp_all add: tc_authz_GenericAuthorization_switch_def)

lemma fromPartial_partial_of_tc_authz_Grant [simp]: "fromPartial_tc_authz_Grant (partial_of_tc_authz_Grant m) = m"
  by (simp add: fromPartial_tc_authz_Grant_def partial_of_tc_authz_Grant_def createBase_tc_authz_Grant_def partial_map_def option.map_comp o_def option.map_ident)

lemma tc_authz_Grant_tags:
  "tc_authz_Grant_switch L G 10 m = readf (submsg L (decode_tc_Any L G)) (\<lambda>v. m\<lparr>tc_authz_Grant.authorization := Some v\<rparr>)"
  "tc_authz_Grant_switch L G 18 m = readf (read_map fromTimestamp_frac (submsg L (decode_tc_Timestamp L G))) (\<lambda>v. m\<lparr>tc_authz_Grant.expiration := Some v\<rparr>)"
  by (simp_all add: tc_authz_Grant_switch_def)

lemma fromPartial_partial_of_tc_authz_GrantAuthorization [simp]: "fromPartial_tc_authz_GrantAuthorization (partial_of_tc_authz_GrantAuthorization m) = m"
  by (simp add: fromPartial_tc_authz_GrantAuthorization_def partial_of_tc_authz_GrantAuthorization_def createBase_tc_authz_GrantAuthorization_def partial_map_def option.map_comp o_def option.map_ident)

lemma tc_authz_GrantAuthorization_tags:
  "tc_authz_GrantAuthorization_switch L G 10 m = readf (r_string L) (\<lambda>v. m\<lparr>tc_authz_GrantAuthorization.granter := v\<rparr>)"
  "tc_authz_GrantAuthorization_switch L G 18 m = readf (r_string L) (\<lambda>v. m\<lparr>tc_authz_GrantAuthorization.grantee := v\<rparr>)"
  "tc_authz_GrantAuthorization_switch L G 26 m = readf (submsg L (decode_tc_Any L G)) (\<lambda>v. m\<lparr>tc_authz_GrantAuthorization.authorization := Some v\<rparr>)"
  "tc_authz_GrantAuthorization_switch L G 34 m = readf (read_map fromTimestamp_frac (submsg L (decode_tc_Timestamp L G))) (\<lambda>v. m\<lparr>tc_authz_GrantAuthorization.expiration := Some v\<rparr>)"
  by (simp_all add: tc_authz_GrantAuthorization_switch_def)

lemma fromPartial_partial_of_tc_authz_GrantQueueItem [simp]: "fromPartial_tc_authz_GrantQueueItem (partial_of_tc_authz_GrantQueueItem m) = m"
  by (simp add: fromPartial_tc_authz_GrantQueueItem_def partial_of_tc_authz_GrantQueueItem_def createBase_tc_authz_GrantQueueItem_def partial_map_def option.map_comp o_def option.map_ident)

lemma tc_authz_GrantQueueItem_tags:
  "tc_authz_GrantQueueItem_switch L G 10 m = readf (r_string L) (\<lambda>v. m\<lparr>tc_authz_GrantQueueItem.msgTypeUrls := tc_authz_GrantQueueItem.msgTypeUrls m @ [v]\<rparr>)"
  by (simp_all add: tc_authz_GrantQueueItem_switch_def)

context long_wire_laws
begin

lemma tc_authz_GenericAuthorization_codec: "message_codec L F out inp (encode_tc_authz_GenericAuthorization L) (tc_authz_GenericAuthorization_switch L G) createBase_tc_authz_GenericAuthorization (wf_tc_authz_GenericAuthorization L)"
proof unfold_locales
  show good: "good_sw (tc_authz_GenericAuthorization_switch L G)"
    unfolding tc_authz_GenericAuthorization_switch_def by (intro good_swI fwd_rules)
  fix m assume "wf_tc_authz_GenericAuthorization L m"
  then show "codes (tc_authz_GenericAuthorization_switch L G) (encode_tc_authz_GenericAuthorization L m) createBase_tc_authz_GenericAuthorization m"
    unfolding encode_tc_authz_GenericAuthorization_def wf_tc_authz_GenericAuthorization_def
    by (-)
      (rule codes_Cons codes_Nil [OF tc_authz_GenericAuthorization.equality] codec_rules
        codes_when [where tag = 10 and u = tc_authz_GenericAuthorization.msg'_update and op = "r_string L", OF good]
      | assumption | (simp add: tc_authz_GenericAuthorization_tags createBase_tc_authz_GenericAuthorization_def; fail))+
qed

lemmas tc_authz_GenericAuthorization_roundtrip = message_codec.roundtrip [OF tc_authz_GenericAuthorization_codec, folded decode_tc_authz_GenericAuthorization_def]

lemmas tc_authz_GenericAuthorization_returns = message_codec.decode_returns [OF tc_authz_GenericAuthorization_codec, folded decode_tc_authz_GenericAuthorization_def]

lemma tc_authz_Grant_codec: "message_codec L F out inp (encode_tc_authz_Grant L) (tc_authz_Grant_switch L G) createBase_tc_authz_Grant (wf_tc_authz_Grant L)"
proof unfold_locales
  show good: "good_sw (tc_authz_Grant_switch L G)"
    unfolding tc_authz_Grant_switch_def by (intro good_swI fwd_rules tc_Any_good)
  fix m assume "wf_tc_authz_Grant L m"
  then show "codes (tc_authz_Grant_switch L G) (encode_tc_authz_Grant L m) createBase_tc_authz_Grant m"
    unfolding encode_tc_authz_Grant_def wf_tc_authz_Grant_def tc_Timestamp_eqs(2)
    by (elim conjE)
      (rule codes_Cons codes_Nil [OF tc_authz_Grant.equality] codec_rules tc_Any_carries
        codes_some [where tag = 10 and u = tc_authz_Grant.authorization_update and op = "submsg L (decode_tc_Any L G)", OF good]
        codes_some [where tag = 18 and u = tc_authz_Grant.expiration_update and op = "read_map fromTimestamp_frac (submsg L (decode_tc_Timestamp L G))", OF good]
      | assumption | (simp add: tc_authz_Grant_tags createBase_tc_authz_Grant_def; fail))+
qed

lemmas tc_authz_Grant_carries =
  message_codec.opt_carries [OF tc_authz_Grant_codec, folded decode_tc_authz_Grant_def]
  message_codec.list_carries [OF tc_authz_Grant_codec, folded decode_tc_authz_Grant_def]

lemmas tc_authz_Grant_good = message_codec.op_good [OF tc_authz_Grant_codec, folded decode_tc_authz_Grant_def]

lemmas tc_authz_Grant_roundtrip = message_codec.roundtrip [OF tc_authz_Grant_codec, folded decode_tc_authz_Grant_def]

lemmas tc_authz_Grant_returns = message_codec.decode_returns [OF tc_authz_Grant_codec, folded decode_tc_authz_Grant_def]

lemma tc_authz_GrantAuthorization_codec: "message_codec L F out inp (encode_tc_authz_GrantAuthorization L) (tc_authz_GrantAuthorization_switch L G) createBase_tc_authz_GrantAuthorization (wf_tc_authz_GrantAuthorization L)"
proof unfold_locales
  show good: "good_sw (tc_authz_GrantAuthorization_switch L G)"
    unfolding tc_authz_GrantAuthorization_switch_def by (intro good_swI fwd_rules tc_Any_good)
  fix m assume "wf_tc_authz_GrantAuthorization L m"
  then show "codes (tc_authz_GrantAuthorization_switch L G) (encode_tc_authz_GrantAuthorization L m) createBase_tc_authz_GrantAuthorization m"
    unfolding encode_tc_authz_GrantAuthorization_def wf_tc_authz_GrantAuthorization_def tc_Timestamp_eqs(2)
    by (elim conjE)
      (rule codes_Cons codes_Nil [OF tc_authz_GrantAuthorization.equality] codec_rules tc_Any_carries
        codes_when [where tag = 10 and u = tc_authz_GrantAuthorization.granter_update and op = "r_string L", OF good]
        codes_when [where tag = 18 and u = tc_authz_GrantAuthorization.grantee_update and op = "r_string L", OF good]
        codes_some [where tag = 26 and u = tc_authz_GrantAuthorization.authorization_update and op = "submsg L (decode_tc_Any L G)", OF good]
        codes_some [where tag = 34 and u = tc_authz_GrantAuthorization.expiration_update and op = "read_map fromTimestamp_frac (submsg L (decode_tc_Timestamp L G))", OF good]
      | assumption | (simp add: tc_authz_GrantAuthorization_tags createBase_tc_authz_GrantAuthorization_def; fail))+
qed

lemmas tc_authz_GrantAuthorization_carries =
  message_codec.opt_carries [OF tc_authz_GrantAuthorization_codec, folded decode_tc_authz_GrantAuthorization_def]
  message_codec.list_carries [OF tc_authz_GrantAuthorization_codec, folded decode_tc_authz_GrantAuthorization_def]

lemmas tc_authz_GrantAuthorization_good = message_codec.op_good [OF tc_authz_GrantAuthorization_codec, folded decode_tc_authz_GrantAuthorization_def]

lemmas tc_authz_GrantAuthorization_roundtrip = message_codec.roundtrip [OF tc_authz_GrantAuthorization_codec, folded decode_tc_authz_GrantAuthorization_def]

lemmas tc_authz_GrantAuthorization_returns = message_codec.decode_returns [OF tc_authz_GrantAuthorization_codec, folded decode_tc_authz_GrantAuthorization_def]

lemma tc_authz_GrantQueueItem_codec: "message_codec L F out inp (encode_tc_authz_GrantQueueItem L) (tc_authz_GrantQueueItem_switch L G) createBase_tc_authz_GrantQueueItem (wf_tc_authz_GrantQueueItem L)"
proof unfold_locales
  show good: "good_sw (tc_authz_GrantQueueItem_switch L G)"
    unfolding tc_authz_GrantQueueItem_switch_def by (intro good_swI fwd_rules)
  fix m assume "wf_tc_authz_GrantQueueItem L m"
  then show "codes (tc_authz_GrantQueueItem_switch L G) (encode_tc_authz_GrantQueueItem L m) createBase_tc_authz_GrantQueueItem m"
    unfolding encode_tc_authz_GrantQueueItem_def wf_tc_authz_GrantQueueItem_def
    by (-)
      (rule codes_Cons codes_Nil [OF tc_authz_GrantQueueItem.equality] codec_rules
        codes_for [where tag = 10 and u = tc_authz_GrantQueueItem.msgTypeUrls_update and op = "r_string L", OF good]
      | assumption | (simp add: tc_authz_GrantQueueItem_tags createBase_tc_authz_GrantQueueItem_def; fail))+
qed

lemmas tc_authz_GrantQueueItem_roundtrip = message_codec.roundtrip [OF tc_authz_GrantQueueItem_codec, folded decode_tc_authz_GrantQueueItem_def]

lemmas tc_authz_GrantQueueItem_returns = message_codec.decode_returns [OF tc_authz_GrantQueueItem_codec, folded decode_tc_authz_GrantQueueItem_def]

end

lemma tc_authz_GenericAuthorization_json: "message_json toJSON_tc_authz_GenericAuthorization fromJSON_tc_authz_GenericAuthorization wfj_tc_authz_GenericAuthorization"
proof unfold_locales
  fix h m
  assume "wfj_tc_authz_GenericAuthorization m"
  then show "json_rt (toJSON_tc_authz_GenericAuthorization h) (fromJSON_tc_authz_GenericAuthorization h) m"
    unfolding toJSON_tc_authz_GenericAuthorization_def fromJSON_tc_authz_GenericAuthorization_def wfj_tc_authz_GenericAuthorization_def
    by (-) (rule json_rtI json_rules | assumption | (simp; fail))+
qed

lemma tc_authz_Grant_json: "message_json toJSON_tc_authz_Grant fromJSON_tc_authz_Grant wfj_tc_authz_Grant"
proof unfold_locales
  fix h m
  assume "wfj_tc_authz_Grant m"
  then show "json_rt (toJSON_tc_authz_Grant h) (fromJSON_tc_authz_Grant h) m"
    unfolding toJSON_tc_authz_Grant_def fromJSON_tc_authz_Grant_def wfj_tc_authz_Grant_def
    by (elim conjE) (rule json_rtI json_rules tc_Any_json_rules | assumption | (simp; fail))+
qed

lemmas tc_authz_Grant_json_rules = message_json.json_list_rules [OF tc_authz_Grant_json]

lemma tc_authz_GrantAuthorization_json: "message_json toJSON_tc_authz_GrantAuthorization fromJSON_tc_authz_GrantAuthorization wfj_tc_authz_GrantAuthorization"
proof unfold_locales
  fix h m
  assume "wfj_tc_authz_GrantAuthorization m"
  then show "json_rt (toJSON_tc_authz_GrantAuthorization h) (fromJSON_tc_authz_GrantAuthorization h) m"
    unfolding toJSON_tc_authz_GrantAuthorization_def fromJSON_tc_authz_GrantAuthorization_def wfj_tc_authz_GrantAuthorization_def
    by (elim conjE) (rule json_rtI json_rules tc_Any_json_rules | assumption | (simp; fail))+
qed

lemmas tc_authz_GrantAuthorization_json_rules = message_json.json_list_rules [OF tc_authz_GrantAuthorization_json]

lemma tc_authz_GrantQueueItem_json: "message_json toJSON_tc_authz_GrantQueueItem fromJSON_tc_authz_GrantQueueItem wfj_tc_authz_GrantQueueItem"
proof unfold_locales
  fix h m
  assume "wfj_tc_authz_GrantQueueItem m"
  then show "json_rt (toJSON_tc_authz_GrantQueueItem h) (fromJSON_tc_authz_GrantQueueItem h) m"
    unfolding toJSON_tc_authz_GrantQueueItem_def fromJSON_tc_authz_GrantQueueItem_def wfj_tc_authz_GrantQueueItem_def
    by (-) (rule json_rtI json_rules | assumption | (simp; fail))+
qed

lemma fromPartial_partial_of_tc_authz_EventGrant [simp]: "fromPartial_tc_authz_EventGrant (partial_of_tc_authz_EventGrant m) = m"
  by (simp add: fromPartial_tc_authz_EventGrant_def partial_of_tc_authz_EventGrant_def createBase_tc_authz_EventGrant_def partial_map_def option.map_comp o_def option.map_ident)

lemma tc_authz_EventGrant_tags:
  "tc_authz_EventGrant_switch L G 18 m = readf (r_string L) (\<lambda>v. m\<lparr>tc_authz_EventGrant.msgTypeUrl := v\<rparr>)"
  "tc_authz_EventGrant_switch L G 26 m = readf (r_string L) (\<lambda>v. m\<lparr>tc_authz_EventGrant.granter := v\<rparr>)"
  "tc_authz_EventGrant_switch L G 34 m = readf (r_string L) (\<lambda>v. m\<lparr>tc_authz_EventGrant.grantee := v\<rparr>)"
  by (simp_all add: tc_authz_EventGrant_switch_def)

lemma fromPartial_partial_of_tc_authz_EventRevoke [simp]: "fromPartial_tc_authz_EventRevoke (partial_of_tc_authz_EventRevoke m) = m"
  by (simp add: fromPartial_tc_authz_EventRevoke_def partial_of_tc_authz_EventRevoke_def createBase_tc_authz_EventRevoke_def partial_map_def option.map_comp o_def option.map_ident)

lemma tc_authz_EventRevoke_tags:
  "tc_authz_EventRevoke_switch L G 18 m = readf (r_string L) (\<lambda>v. m\<lparr>tc_authz_EventRevoke.msgTypeUrl := v\<rparr>)"
  "tc_authz_EventRevoke_switch L G 26 m = readf (r_string L) (\<lambda>v. m\<lparr>tc_authz_EventRevoke.granter := v\<rparr>)"
  "tc_authz_EventRevoke_switch L G 34 m = readf (r_string L) (\<lambda>v. m\<lparr>tc_authz_EventRevoke.grantee := v\<rparr>)"
  by (simp_all add: tc_authz_EventRevoke_switch_def)

context long_wire_laws
begin

lemma tc_authz_EventGrant_codec: "message_codec L F out inp (encode_tc_authz_EventGrant L) (tc_authz_EventGrant_switch L G) createBase_tc_authz_EventGrant (wf_tc_authz_EventGrant L)"
proof unfold_locales
  show good: "good_sw (tc_authz_EventGrant_switch L G)"
    unfolding tc_authz_EventGrant_switch_def by (intro good_swI fwd_rules)
  fix m assume "wf_tc_authz_EventGrant L m"
  then show "codes (tc_authz_EventGrant_switch L G) (encode_tc_authz_EventGrant L m) createBase_tc_authz_EventGrant m"
    unfolding encode_tc_authz_EventGrant_def wf_tc_authz_EventGrant_def
    by (elim conjE)
      (rule codes_Cons codes_Nil [OF tc_authz_EventGrant.equality] codec_rules
        codes_when [where tag = 18 and u = tc_authz_EventGrant.msgTypeUrl_update and op = "r_string L", OF good]
        codes_when [where tag = 26 and u = tc_authz_EventGrant.granter_update and op = "r_string L", OF good]
        codes_when [where tag = 34 and u = tc_authz_EventGrant.grantee_update and op = "r_string L", OF good]
      | assumption | (simp add: tc_authz_EventGrant_tags createBase_tc_authz_EventGrant_def; fail))+
qed

lemmas tc_authz_EventGrant_roundtrip = message_codec.roundtrip [OF tc_authz_EventGrant_codec, folded decode_tc_authz_EventGrant_def]

lemmas tc_authz_EventGrant_returns = message_codec.decode_returns [OF tc_authz_EventGrant_codec, folded decode_tc_authz_EventGrant_def]

lemma tc_authz_EventRevoke_codec: "message_codec L F out inp (encode_tc_authz_EventRevoke L) (tc_authz_EventRevoke_switch L G) createBase_tc_authz_EventRevoke (wf_tc_authz_EventRevoke L)"
proof unfold_locales
  show good: "good_sw (tc_authz_EventRevoke_switch L G)"
    unfolding tc_authz_EventRevoke_switch_def by (intro good_swI fwd_rules)
  fix m assume "wf_tc_authz_EventRevoke L m"
  then show "codes (tc_authz_EventRevoke_switch L G) (encode_tc_authz_EventRevoke L m) createBase_tc_authz_EventRevoke m"
    unfolding encode_tc_authz_EventRevoke_def wf_tc_authz_EventRevoke_def
    by (elim conjE)
      (rule codes_Cons codes_Nil [OF tc_authz_EventRevoke.equality] codec_rules
        codes_when [where tag = 18 and u = tc_authz_EventRevoke.msgTypeUrl_update and op = "r_string L", OF good]
        codes_when [where tag = 26 and u = tc_authz_EventRevoke.granter_update and op = "r_string L", OF good]
        codes_when [where tag = 34 and u = tc_authz_EventRevoke.grantee_update and op = "r_string L", OF good]
      | assumption | (simp add: tc_authz_EventRevoke_tags createBase_tc_authz_EventRevoke_def; fail))+
qed

lemmas tc_authz_EventRevoke_roundtrip = message_codec.roundtrip [OF tc_authz_EventRevoke_codec, folded decode_tc_authz_EventRevoke_def]

lemmas tc_authz_EventRevoke_returns = message_codec.decode_returns [OF tc_authz_EventRevoke_codec, folded decode_tc_authz_EventRevoke_def]

end

lemma tc_authz_EventGrant_json: "message_json toJSON_tc_authz_EventGrant fromJSON_tc_authz_EventGrant wfj_tc_authz_EventGrant"
proof unfold_locales
  fix h m
  assume "wfj_tc_authz_EventGrant m"
  then show "json_rt (toJSON_tc_authz_EventGrant h) (fromJSON_tc_authz_EventGrant h) m"
    unfolding toJSON_tc_authz_EventGrant_def fromJSON_tc_authz_EventGrant_def wfj_tc_authz_EventGrant_def
    by (-) (rule json_rtI json_rules | assumption | (simp; fail))+
qed

lemma tc_authz_EventRevoke_json: "message_json toJSON_tc_authz_EventRevoke fromJSON_tc_authz_EventRevoke wfj_tc_authz_EventRevoke"
proof unfold_locales
  fix h m
  assume "wfj_tc_authz_EventRevoke m"
  then show "json_rt (toJSON_tc_authz_EventRevoke h) (fromJSON_tc_authz_EventRevoke h) m"
    unfolding toJSON_tc_authz_EventRevoke_def fromJSON_tc_authz_EventRevoke_def wfj_tc_authz_EventRevoke_def
    by (-) (rule json_rtI json_rules | assumption | (simp; fail))+
qed

lemma fromPartial_partial_of_tc_authz_GenesisState [simp]: "fromPartial_tc_authz_GenesisState (partial_of_tc_authz_GenesisState m) = m"
  by (simp add: fromPartial_tc_authz_GenesisState_def partial_of_tc_authz_GenesisState_def createBase_tc_authz_GenesisState_def partial_map_def option.map_comp o_def option.map_ident)

lemma tc_authz_GenesisState_tags:
  "tc_authz_GenesisState_switch L G 10 m = readf (submsg L (decode_tc_authz_GrantAuthorization L G)) (\<lambda>v. m\<lparr>tc_authz_GenesisState.authorization := tc_authz_GenesisState.authorization m @ [v]\<rparr>)"
  by (simp_all add: tc_authz_GenesisState_switch_def)

context long_wire_laws
begin

lemma tc_authz_GenesisState_codec: "message_codec L F out inp (encode_tc_authz_GenesisState L) (tc_authz_GenesisState_switch L G) createBase_tc_authz_GenesisState (wf_tc_authz_GenesisState L)"
proof unfold_locales
  show good: "good_sw (tc_authz_GenesisState_switch L G)"
    unfolding tc_authz_GenesisState_switch_def by (intro good_swI fwd_rules tc_authz_GrantAuthorization_good)
  fix m assume "wf_tc_authz_GenesisState L m"
  then show "codes (tc_authz_GenesisState_switch L G) (encode_tc_authz_GenesisState L m) createBase_tc_authz_GenesisState m"
    unfolding encode_tc_authz_GenesisState_def wf_tc_authz_GenesisState_def
    by (-)
      (rule codes_Cons codes_Nil [OF tc_authz_GenesisState.equality] codec_rules tc_authz_GrantAuthorization_carries
        codes_for [where tag = 10 and u = tc_authz_GenesisState.authorization_update and op = "submsg L (decode_tc_authz_GrantAuthorization L G)", OF good]
      | assumption | (simp add: tc_authz_GenesisState_tags createBase_tc_authz_GenesisState_def; fail))+
qed

lemmas tc_authz_GenesisState_roundtrip = message_codec.roundtrip [OF tc_authz_GenesisState_codec, folded decode_tc_authz_GenesisState_def]

lemmas tc_authz_GenesisState_returns = message_codec.decode_returns [OF tc_authz_GenesisState_codec, folded decode_tc_authz_GenesisState_def]

end

lemma tc_authz_GenesisState_json: "message_json toJSON_tc_authz_GenesisState fromJSON_tc_authz_GenesisState wfj_tc_authz_GenesisState"
proof unfold_locales
  fix h m
  assume "wfj_tc_authz_GenesisState m"
  then show "json_rt (toJSON_tc_authz_GenesisState h) (fromJSON_tc_authz_GenesisState h) m"
    unfolding toJSON_tc_authz_GenesisState_def fromJSON_tc_authz_GenesisState_def wfj_tc_authz_GenesisState_def
    by (-) (rule json_rtI json_rules tc_authz_GrantAuthorization_json_rules | assumption | (simp; fail))+
qed

lemma fromPartial_partial_of_tc_authz_MsgGrant [simp]: "fromPartial_tc_authz_MsgGrant (partial_of_tc_authz_MsgGrant m) = m"
  by (simp add: fromPartial_tc_authz_MsgGrant_def partial_of_tc_authz_MsgGrant_def createBase_tc_authz_MsgGrant_def partial_map_def option.map_comp o_def option.map_ident)

lemma tc_authz_MsgGrant_tags:
  "tc_authz_MsgGrant_switch L G 10 m = readf (r_string L) (\<lambda>v. m\<lparr>tc_authz_MsgGrant.granter := v\<rparr>)"
  "tc_authz_MsgGrant_switch L G 18 m = readf (r_string L) (\<lambda>v. m\<lparr>tc_authz_MsgGrant.grantee := v\<rparr>)"
  "tc_authz_MsgGrant_switch L G 26 m = readf (submsg L (decode_tc_authz_Grant L G)) (\<lambda>v. m\<lparr>tc_authz_MsgGrant.grant := Some v\<rparr>)"
  by (simp_all add: tc_authz_MsgGrant_switch_def)

lemma fromPartial_partial_of_tc_authz_MsgExecResponse [simp]: "fromPartial_tc_authz_MsgExecResponse (partial_of_tc_authz_MsgExecResponse m) = m"
  by (simp add: fromPartial_tc_authz_MsgExecResponse_def partial_of_tc_authz_MsgExecResponse_def createBase_tc_authz_MsgExecResponse_def partial_map_def option.map_comp o_def option.map_ident)

lemma tc_authz_MsgExecResponse_tags:
  "tc_authz_MsgExecResponse_switch L G 10 m = readf (r_bytes L) (\<lambda>v. m\<lparr>tc_authz_MsgExecResponse.results := tc_authz_MsgExecResponse.results m @ [v]\<rparr>)"
  by (simp_all add: tc_authz_MsgExecResponse_switch_def)

lemma fromPartial_partial_of_tc_authz_MsgExec [simp]: "fromPartial_tc_authz_MsgExec (partial_of_tc_authz_MsgExec m) = m"
  by (simp add: fromPartial_tc_authz_MsgExec_def partial_of_tc_authz_MsgExec_def createBase_tc_authz_MsgExec_def partial_map_def option.map_comp o_def option.map_ident)

lemma tc_authz_MsgExec_tags:
  "tc_authz_MsgExec_switch L G 10 m = readf (r_string L) (\<lambda>v. m\<lparr>tc_authz_MsgExec.grantee := v\<rparr>)"
  "tc_authz_MsgExec_switch L G 18 m = readf (submsg L (decode_tc_Any L G)) (\<lambda>v. m\<lparr>tc_authz_MsgExec.msgs' := tc_authz_MsgExec.msgs' m @ [v]\<rparr>)"
  by (simp_all add: tc_authz_MsgExec_switch_def)

lemma fromPartial_tc_authz_MsgGrantResponse_id [simp]: "fromPartial_tc_authz_MsgGrantResponse = (\<lambda>m. m)"
  by (rule ext, rename_tac m, case_tac m) (simp add: fromPartial_tc_authz_MsgGrantResponse_def createBase_tc_authz_MsgGrantResponse_def)

lemma fromPartial_partial_of_tc_authz_MsgRevoke [simp]: "fromPartial_tc_authz_MsgRevoke (partial_of_tc_authz_MsgRevoke m) = m"
  by (simp add: fromPartial_tc_authz_MsgRevoke_def partial_of_tc_authz_MsgRevoke_def createBase_tc_authz_MsgRevoke_def partial_map_def option.map_comp o_def option.map_ident)

lemma tc_authz_MsgRevoke_tags:
  "tc_authz_MsgRevoke_switch L G 10 m = readf (r_string L) (\<lambda>v. m\<lparr>tc_authz_MsgRevoke.granter := v\<rparr>)"
  "tc_authz_MsgRevoke_switch L G 18 m = readf (r_string L) (\<lambda>v. m\<lparr>tc_authz_MsgRevoke.grantee := v\<rparr>)"
  "tc_authz_MsgRevoke_switch L G 26 m = readf (r_string L) (\<lambda>v. m\<lparr>tc_authz_MsgRevoke.msgTypeUrl := v\<rparr>)"
  by (simp_all add: tc_authz_MsgRevoke_switch_def)

lemma fromPartial_tc_authz_MsgRevokeResponse_id [simp]: "fromPartial_tc_authz_MsgRevokeResponse = (\<lambda>m. m)"
  by (rule ext, rename_tac m, case_tac m) (simp add: fromPartial_tc_authz_MsgRevokeResponse_def createBase_tc_authz_MsgRevokeResponse_def)

context long_wire_laws
begin

lemma tc_authz_MsgGrant_codec: "message_codec L F out inp (encode_tc_authz_MsgGrant L) (tc_authz_MsgGrant_switch L G) createBase_tc_authz_MsgGrant (wf_tc_authz_MsgGrant L)"
proof unfold_locales
  show good: "good_sw (tc_authz_MsgGrant_switch L G)"
    unfolding tc_authz_MsgGrant_switch_def by (intro good_swI fwd_rules tc_authz_Grant_good)
  fix m assume "wf_tc_authz_MsgGrant L m"
  then show "codes (tc_authz_MsgGrant_switch L G) (encode_tc_authz_MsgGrant L m) createBase_tc_authz_MsgGrant m"
    unfolding encode_tc_authz_MsgGrant_def wf_tc_authz_MsgGrant_def
    by (elim conjE)
      (rule codes_Cons codes_Nil [OF tc_authz_MsgGrant.equality] codec_rules tc_authz_Grant_carries
        codes_when [where tag = 10 and u = tc_authz_MsgGrant.granter_update and op = "r_string L", OF good]
        codes_when [where tag = 18 and u = tc_authz_MsgGrant.grantee_update and op = "r_string L", OF good]
        codes_some [where tag = 26 and u = tc_authz_MsgGrant.grant_update and op = "submsg L (decode_tc_authz_Grant L G)", OF good]
      | assumption | (simp add: tc_authz_MsgGrant_tags createBase_tc_authz_MsgGrant_def; fail))+
qed

lemmas tc_authz_MsgGrant_roundtrip = message_codec.roundtrip [OF tc_authz_MsgGrant_codec, folded decode_tc_authz_MsgGrant_def]

lemmas tc_authz_MsgGrant_returns = message_codec.decode_returns [OF tc_authz_MsgGrant_codec, folded decode_tc_authz_MsgGrant_def]

lemma tc_authz_MsgExecResponse_codec: "message_codec L F out inp (encode_tc_authz_MsgExecResponse L) (tc_authz_MsgExecResponse_switch L G) createBase_tc_authz_MsgExecResponse (wf_tc_authz_MsgExecResponse L)"
proof unfold_locales
  show good: "good_sw (tc_authz_MsgExecResponse_switch L G)"
    unfolding tc_authz_MsgExecResponse_switch_def by (intro good_swI fwd_rules)
  fix m assume "wf_tc_authz_MsgExecResponse L m"
  then show "codes (tc_authz_MsgExecResponse_switch L G) (encode_tc_authz_MsgExecResponse L m) createBase_tc_authz_MsgExecResponse m"
    unfolding encode_tc_authz_MsgExecResponse_def wf_tc_authz_MsgExecResponse_def
    by (-)
      (rule codes_Cons codes_Nil [OF tc_authz_MsgExecResponse.equality] codec_rules
        codes_for [where tag = 10 and u = tc_authz_MsgExecResponse.results_update and op = "r_bytes L", OF good]
      | assumption | (simp add: tc_authz_MsgExecResponse_tags createBase_tc_authz_MsgExecResponse_def; fail))+
qed

lemmas tc_authz_MsgExecResponse_roundtrip = message_codec.roundtrip [OF tc_authz_MsgExecResponse_codec, folded decode_tc_authz_MsgExecResponse_def]

lemmas tc_authz_MsgExecResponse_returns = message_codec.decode_returns [OF tc_authz_MsgExecResponse_codec, folded decode_tc_authz_MsgExecResponse_def]

lemma tc_authz_MsgExec_codec: "message_codec L F out inp (encode_tc_authz_MsgExec L) (tc_authz_MsgExec_switch L G) createBase_tc_authz_MsgExec (wf_tc_authz_MsgExec L)"
proof unfold_locales
  show good: "good_sw (tc_authz_MsgExec_switch L G)"
    unfolding tc_authz_MsgExec_switch_def by (intro good_swI fwd_rules tc_Any_good)
  fix m assume "wf_tc_authz_MsgExec L m"
  then show "codes (tc_authz_MsgExec_switch L G) (encode_tc_authz_MsgExec L m) createBase_tc_authz_MsgExec m"
    unfolding encode_tc_authz_MsgExec_def wf_tc_authz_MsgExec_def
    by (elim conjE)
      (rule codes_Cons codes_Nil [OF tc_authz_MsgExec.equality] codec_rules tc_Any_carries
        codes_when [where tag = 10 and u = tc_authz_MsgExec.grantee_update and op = "r_string L", OF good]
        codes_for [where tag = 18 and u = tc_authz_MsgExec.msgs'_update and op = "submsg L (decode_tc_Any L G)", OF good]
      | assumption | (simp add: tc_authz_MsgExec_tags createBase_tc_authz_MsgExec_def; fail))+
qed

lemmas tc_authz_MsgExec_roundtrip = message_codec.roundtrip [OF tc_authz_MsgExec_codec, folded decode_tc_authz_MsgExec_def]

lemmas tc_authz_MsgExec_returns = message_codec.decode_returns [OF tc_authz_MsgExec_codec, folded decode_tc_authz_MsgExec_def]

lemma tc_authz_MsgGrantResponse_codec: "message_codec L F out inp (encode_tc_authz_MsgGrantResponse L) (tc_authz_MsgGrantResponse_switch L G) createBase_tc_authz_MsgGrantResponse (wf_tc_authz_MsgGrantResponse L)"
proof unfold_locales
  show good: "good_sw (tc_authz_MsgGrantResponse_switch L G)"
    unfolding tc_authz_MsgGrantResponse_switch_def by (intro good_swI fwd_rules)
  fix m assume "wf_tc_authz_MsgGrantResponse L m"
  then show "codes (tc_authz_MsgGrantResponse_switch L G) (encode_tc_authz_MsgGrantResponse L m) createBase_tc_authz_MsgGrantResponse m"
    unfolding encode_tc_authz_MsgGrantResponse_def wf_tc_authz_MsgGrantResponse_def
    by (cases m) (simp add: createBase_tc_authz_MsgGrantResponse_def codes_Nil [simplified])
qed

lemmas tc_authz_MsgGrantResponse_roundtrip = message_codec.roundtrip [OF tc_authz_MsgGrantResponse_codec, folded decode_tc_authz_MsgGrantResponse_def]

lemmas tc_authz_MsgGrantResponse_returns = message_codec.decode_returns [OF tc_authz_MsgGrantResponse_codec, folded decode_tc_authz_MsgGrantResponse_def]

lemma tc_authz_MsgRevoke_codec: "message_codec L F out inp (encode_tc_authz_MsgRevoke L) (tc_authz_MsgRevoke_switch L G) createBase_tc_authz_MsgRevoke (wf_tc_authz_MsgRevoke L)"
proof unfold_locales
  show good: "good_sw (tc_authz_MsgRevoke_switch L G)"
    unfolding tc_authz_MsgRevoke_switch_def by (intro good_swI fwd_rules)
  fix m assume "wf_tc_authz_MsgRevoke L m"
  then show "codes (tc_authz_MsgRevoke_switch L G) (encode_tc_authz_MsgRevoke L m) createBase_tc_authz_MsgRevoke m"
    unfolding encode_tc_authz_MsgRevoke_def wf_tc_authz_MsgRevoke_def
    by (elim conjE)
      (rule codes_Cons codes_Nil [OF tc_authz_MsgRevoke.equality] codec_rules
        codes_when [where tag = 10 and u = tc_authz_MsgRevoke.granter_update and op = "r_string L", OF good]
        codes_when [where tag = 18 and u = tc_authz_MsgRevoke.grantee_update and op = "r_string L", OF good]
        codes_when [where tag = 26 and u = tc_authz_MsgRevoke.msgTypeUrl_update and op = "r_string L", OF good]
      | assumption | (simp add: tc_authz_MsgRevoke_tags createBase_tc_authz_MsgRevoke_def; fail))+
qed

lemmas tc_authz_MsgRevoke_roundtrip = message_codec.roundtrip [OF tc_authz_MsgRevoke_codec, folded decode_tc_authz_MsgRevoke_def]

lemmas tc_authz_MsgRevoke_returns = message_codec.decode_returns [OF tc_authz_MsgRevoke_codec, folded decode_tc_authz_MsgRevoke_def]

lemma tc_authz_MsgRevokeResponse_codec: "message_codec L F out inp (encode_tc_authz_MsgRevokeResponse L) (tc_authz_MsgRevokeResponse_switch L G) createBase_tc_authz_MsgRevokeResponse (wf_tc_authz_MsgRevokeResponse L)"
proof unfold_locales
  show good: "good_sw (tc_authz_MsgRevokeResponse_switch L G)"
    unfolding tc_authz_MsgRevokeResponse_switch_def by (intro good_swI fwd_rules)
  fix m assume "wf_tc_authz_MsgRevokeResponse L m"
  then show "codes (tc_authz_MsgRevokeResponse_switch L G) (encode_tc_authz_MsgRevokeResponse L m) createBase_tc_authz_MsgRevokeResponse m"
    unfolding encode_tc_authz_MsgRevokeResponse_def wf_tc_authz_MsgRevokeResponse_def
    by (cases m) (simp add: createBase_tc_authz_MsgRevokeResponse_def codes_Nil [simplified])
qed

lemmas tc_authz_MsgRevokeResponse_roundtrip = message_codec.roundtrip [OF tc_authz_MsgRevokeResponse_codec, folded decode_tc_authz_MsgRevokeResponse_def]

lemmas tc_authz_MsgRevokeResponse_returns = message_codec.decode_returns [OF tc_authz_MsgRevokeResponse_codec, folded decode_tc_authz_MsgRevokeResponse_def]

end

lemma tc_authz_MsgGrant_json: "message_json toJSON_tc_authz_MsgGrant fromJSON_tc_authz_MsgGrant wfj_tc_authz_MsgGrant"
proof unfold_locales
  fix h m
  assume "wfj_tc_authz_MsgGrant m"
  then show "json_rt (toJSON_tc_authz_MsgGrant h) (fromJSON_tc_authz_MsgGrant h) m"
    unfolding toJSON_tc_authz_MsgGrant_def fromJSON_tc_authz_MsgGrant_def wfj_tc_authz_MsgGrant_def
    by (-) (rule json_rtI json_rules tc_authz_Grant_json_rules | assumption | (simp; fail))+
qed

lemma tc_authz_MsgExecResponse_json: "message_json toJSON_tc_authz_MsgExecResponse fromJSON_tc_authz_MsgExecResponse wfj_tc_authz_MsgExecResponse"
proof unfold_locales
  fix h m
  assume "wfj_tc_authz_MsgExecResponse m"
  then show "json_rt (toJSON_tc_authz_MsgExecResponse h) (fromJSON_tc_authz_MsgExecResponse h) m"
    unfolding toJSON_tc_authz_MsgExecResponse_def fromJSON_tc_authz_MsgExecResponse_def wfj_tc_authz_MsgExecResponse_def
    by (-) (rule json_rtI json_rules | assumption | (simp; fail))+
qed

lemma tc_authz_MsgExec_json: "message_json toJSON_tc_authz_MsgExec fromJSON_tc_authz_MsgExec wfj_tc_authz_MsgExec"
proof unfold_locales
  fix h m
  assume "wfj_tc_authz_MsgExec m"
  then show "json_rt (toJSON_tc_authz_MsgExec h) (fromJSON_tc_authz_MsgExec h) m"
    unfolding toJSON_tc_authz_MsgExec_def fromJSON_tc_authz_MsgExec_def wfj_tc_authz_MsgExec_def
    by (-) (rule json_rtI json_rules tc_Any_json_rules | assumption | (simp; fail))+
qed

lemma tc_authz_MsgGrantResponse_json: "message_json toJSON_tc_authz_MsgGrantResponse fromJSON_tc_authz_MsgGrantResponse wfj_tc_authz_MsgGrantResponse"
proof unfold_locales
  fix h m
  show "json_rt (toJSON_tc_authz_MsgGrantResponse h) (fromJSON_tc_authz_MsgGrantResponse h) m"
    by (cases m) (simp add: json_rt_def toJSON_tc_authz_MsgGrantResponse_def fromJSON_tc_authz_MsgGrantResponse_def objE_rules(1))
qed

lemma tc_authz_MsgRevoke_json: "message_json toJSON_tc_authz_MsgRevoke fromJSON_tc_authz_MsgRevoke wfj_tc_authz_MsgRevoke"
proof unfold_locales
  fix h m
  assume "wfj_tc_authz_MsgRevoke m"
  then show "json_rt (toJSON_tc_authz_MsgRevoke h) (fromJSON_tc_authz_MsgRevoke h) m"
    unfolding toJSON_tc_authz_MsgRevoke_def fromJSON_tc_authz_MsgRevoke_def wfj_tc_authz_MsgRevoke_def
    by (-) (rule json_rtI json_rules | assumption | (simp; fail))+
qed

lemma tc_authz_MsgRevokeResponse_json: "message_json toJSON_tc_authz_MsgRevokeResponse fromJSON_tc_authz_MsgRevokeResponse wfj_tc_authz_MsgRevokeResponse"
proof unfold_locales
  fix h m
  show "json_rt (toJSON_tc_authz_MsgRevokeResponse h) (fromJSON_tc_authz_MsgRevokeResponse h) m"
    by (cases m) (simp add: json_rt_def toJSON_tc_authz_MsgRevokeResponse_def fromJSON_tc_authz_MsgRevokeResponse_def objE_rules(1))
qed

lemma fromPartial_partial_of_tc_authz_QueryGrantsRequest [simp]: "fromPartial_tc_authz_QueryGrantsRequest (partial_of_tc_authz_QueryGrantsRequest m) = m"
  by (simp add: fromPartial_tc_authz_QueryGrantsRequest_def partial_of_tc_authz_QueryGrantsRequest_def createBase_tc_authz_QueryGrantsRequest_def partial_map_def option.map_comp o_def option.map_ident tc_PageRequest_eqs)

lemma tc_authz_QueryGrantsRequest_tags:
  "tc_authz_QueryGrantsRequest_switch L G 10 m = readf (r_string L) (\<lambda>v. m\<lparr>tc_authz_QueryGrantsRequest.granter := v\<rparr>)"
  "tc_authz_QueryGrantsRequest_switch L G 18 m = readf (r_string L) (\<lambda>v. m\<lparr>tc_authz_QueryGrantsRequest.grantee := v\<rparr>)"
  "tc_authz_QueryGrantsRequest_switch L G 26 m = readf (r_string L) (\<lambda>v. m\<lparr>tc_authz_QueryGrantsRequest.msgTypeUrl := v\<rparr>)"
  "tc_authz_QueryGrantsRequest_switch L G 34 m = readf (submsg L (decode_tc_PageRequest L G)) (\<lambda>v. m\<lparr>tc_authz_QueryGrantsRequest.pagination := Some v\<rparr>)"
  by (simp_all add: tc_authz_QueryGrantsRequest_switch_def)

lemma fromPartial_partial_of_tc_authz_QueryGrantsResponse [simp]: "fromPartial_tc_authz_QueryGrantsResponse (partial_of_tc_authz_QueryGrantsResponse m) = m"
  by (simp add: fromPartial_tc_authz_QueryGrantsResponse_def partial_of_tc_authz_QueryGrantsResponse_def createBase_tc_authz_QueryGrantsResponse_def partial_map_def option.map_comp o_def option.map_ident tc_PageResponse_eqs)

lemma tc_authz_QueryGrantsResponse_tags:
  "tc_authz_QueryGrantsResponse_switch L G 10 m = readf (submsg L (decode_tc_authz_Grant L G)) (\<lambda>v. m\<lparr>tc_authz_QueryGrantsResponse.grants := tc_authz_QueryGrantsResponse.grants m @ [v]\<rparr>)"
  "tc_authz_QueryGrantsResponse_switch L G 18 m = readf (submsg L (decode_tc_PageResponse L G)) (\<lambda>v. m\<lparr>tc_authz_QueryGrantsResponse.pagination := Some v\<rparr>)"
  by (simp_all add: tc_authz_QueryGrantsResponse_switch_def)

lemma fromPartial_partial_of_tc_authz_QueryGranterGrantsRequest [simp]: "fromPartial_tc_authz_QueryGranterGrantsRequest (partial_of_tc_authz_QueryGranterGrantsRequest m) = m"
  by (simp add: fromPartial_tc_authz_QueryGranterGrantsRequest_def partial_of_tc_authz_QueryGranterGrantsRequest_def createBase_tc_authz_QueryGranterGrantsRequest_def partial_map_def option.map_comp o_def option.map_ident tc_PageRequest_eqs)

lemma tc_authz_QueryGranterGrantsRequest_tags:
  "tc_authz_QueryGranterGrantsRequest_switch L G 10 m = readf (r_string L) (\<lambda>v. m\<lparr>tc_authz_QueryGranterGrantsRequest.granter := v\<rparr>)"
  "tc_authz_QueryGranterGrantsRequest_switch L G 18 m = readf (submsg L (decode_tc_PageRequest L G)) (\<lambda>v. m\<lparr>tc_authz_QueryGranterGrantsRequest.pagination := Some v\<rparr>)"
  by (simp_all add: tc_authz_QueryGranterGrantsRequest_switch_def)

lemma fromPartial_partial_of_tc_authz_QueryGranterGrantsResponse [simp]: "fromPartial_tc_authz_QueryGranterGrantsResponse (partial_of_tc_authz_QueryGranterGrantsResponse m) = m"
  by (simp add: fromPartial_tc_authz_QueryGranterGrantsResponse_def partial_of_tc_authz_QueryGranterGrantsResponse_def createBase_tc_authz_QueryGranterGrantsResponse_def partial_map_def option.map_comp o_def option.map_ident tc_PageResponse_eqs)

lemma tc_authz_QueryGranterGrantsResponse_tags:
  "tc_authz_QueryGranterGrantsResponse_switch L G 10 m = readf (submsg L (decode_tc_authz_GrantAuthorization L G)) (\<lambda>v. m\<lparr>tc_authz_QueryGranterGrantsResponse.grants := tc_authz_QueryGranterGrantsResponse.grants m @ [v]\<rparr>)"
  "tc_authz_QueryGranterGrantsResponse_switch L G 18 m = readf (submsg L (decode_tc_PageResponse L G)) (\<lambda>v. m\<lparr>tc_authz_QueryGranterGrantsResponse.pagination := Some v\<rparr>)"
  by (simp_all add: tc_authz_QueryGranterGrantsResponse_switch_def)

lemma fromPartial_partial_of_tc_authz_QueryGranteeGrantsRequest [simp]: "fromPartial_tc_authz_QueryGranteeGrantsRequest (partial_of_tc_authz_QueryGranteeGrantsRequest m) = m"
  by (simp add: fromPartial_tc_authz_QueryGranteeGrantsRequest_def partial_of_tc_authz_QueryGranteeGrantsRequest_def createBase_tc_authz_QueryGranteeGrantsRequest_def partial_map_def option.map_comp o_def option.map_ident tc_PageRequest_eqs)

lemma tc_authz_QueryGranteeGrantsRequest_tags:
  "tc_authz_QueryGranteeGrantsRequest_switch L G 10 m = readf (r_string L) (\<lambda>v. m\<lparr>tc_authz_QueryGranteeGrantsRequest.grantee := v\<rparr>)"
  "tc_authz_QueryGranteeGrantsRequest_switch L G 18 m = readf (submsg L (decode_tc_PageRequest L G)) (\<lambda>v. m\<lparr>tc_authz_QueryGranteeGrantsRequest.pagination := Some v\<rparr>)"
  by (simp_all add: tc_authz_QueryGranteeGrantsRequest_switch_def)

lemma fromPartial_partial_of_tc_authz_QueryGranteeGrantsResponse [simp]: "fromPartial_tc_authz_QueryGranteeGrantsResponse (partial_of_tc_authz_QueryGranteeGrantsResponse m) = m"
  by (simp add: fromPartial_tc_authz_QueryGranteeGrantsResponse_def partial_of_tc_authz_QueryGranteeGrantsResponse_def createBase_tc_authz_QueryGranteeGrantsResponse_def partial_map_def option.map_comp o_def option.map_ident tc_PageResponse_eqs)

lemma tc_authz_QueryGranteeGrantsResponse_tags:
  "tc_authz_QueryGranteeGrantsResponse_switch L G 10 m = readf (submsg L (decode_tc_authz_GrantAuthorization L G)) (\<lambda>v. m\<lparr>tc_authz_QueryGranteeGrantsResponse.grants := tc_authz_QueryGranteeGrantsResponse.grants m @ [v]\<rparr>)"
  "tc_authz_QueryGranteeGrantsResponse_switch L G 18 m = readf (submsg L (decode_tc_PageResponse L G)) (\<lambda>v. m\<lparr>tc_authz_QueryGranteeGrantsResponse.pagination := Some v\<rparr>)"
  by (simp_all add: tc_authz_QueryGranteeGrantsResponse_switch_def)

context long_wire_laws
begin

lemma tc_authz_QueryGrantsRequest_codec: "message_codec L F out inp (encode_tc_authz_QueryGrantsRequest L) (tc_authz_QueryGrantsRequest_switch L G) createBase_tc_authz_QueryGrantsRequest (wf_tc_authz_QueryGrantsRequest L)"
proof unfold_locales
  show good: "good_sw (tc_authz_QueryGrantsRequest_switch L G)"
    unfolding tc_authz_QueryGrantsRequest_switch_def by (intro good_swI fwd_rules)
  fix m assume "wf_tc_authz_QueryGrantsRequest L m"
  then show "codes (tc_authz_QueryGrantsRequest_switch L G) (encode_tc_authz_QueryGrantsRequest L m) createBase_tc_authz_QueryGrantsRequest m"
    unfolding encode_tc_authz_QueryGrantsRequest_def wf_tc_authz_QueryGrantsRequest_def tc_PageRequest_eqs(2)
    by (elim conjE)
      (rule codes_Cons codes_Nil [OF tc_authz_QueryGrantsRequest.equality] codec_rules
        codes_when [where tag = 10 and u = tc_authz_QueryGrantsRequest.granter_update and op = "r_string L", OF good]
        codes_when [where tag = 18 and u = tc_authz_QueryGrantsRequest.grantee_update and op = "r_string L", OF good]
        codes_when [where tag = 26 and u = tc_authz_QueryGrantsRequest.msgTypeUrl_update and op = "r_string L", OF good]
        codes_some [where tag = 34 and u = tc_authz_QueryGrantsRequest.pagination_update and op = "submsg L (decode_tc_PageRequest L G)", OF good]
      | assumption | (simp add: tc_authz_QueryGrantsRequest_tags createBase_tc_authz_QueryGrantsRequest_def; fail))+
qed

lemmas tc_authz_QueryGrantsRequest_roundtrip = message_codec.roundtrip [OF tc_authz_QueryGrantsRequest_codec, folded decode_tc_authz_QueryGrantsRequest_def]

lemmas tc_authz_QueryGrantsRequest_returns = message_codec.decode_returns [OF tc_authz_QueryGrantsRequest_codec, folded decode_tc_authz_QueryGrantsRequest_def]

lemma tc_authz_QueryGrantsResponse_codec: "message_codec L F out inp (encode_tc_authz_QueryGrantsResponse L) (tc_authz_QueryGrantsResponse_switch L G) createBase_tc_authz_QueryGrantsResponse (wf_tc_authz_QueryGrantsResponse L)"
proof unfold_locales
  show good: "good_sw (tc_authz_QueryGrantsResponse_switch L G)"
    unfolding tc_authz_QueryGrantsResponse_switch_def by (intro good_swI fwd_rules tc_authz_Grant_good)
  fix m assume "wf_tc_authz_QueryGrantsResponse L m"
  then show "codes (tc_authz_QueryGrantsResponse_switch L G) (encode_tc_authz_QueryGrantsResponse L m) createBase_tc_authz_QueryGrantsResponse m"
    unfolding encode_tc_authz_QueryGrantsResponse_def wf_tc_authz_QueryGrantsResponse_def tc_PageResponse_eqs(2)
    by (elim conjE)
      (rule codes_Cons codes_Nil [OF tc_authz_QueryGrantsResponse.equality] codec_rules tc_authz_Grant_carries
        codes_for [where tag = 10 and u = tc_authz_QueryGrantsResponse.grants_update and op = "submsg L (decode_tc_authz_Grant L G)", OF good]
        codes_some [where tag = 18 and u = tc_authz_QueryGrantsResponse.pagination_update and op = "submsg L (decode_tc_PageResponse L G)", OF good]
      | assumption | (simp add: tc_authz_QueryGrantsResponse_tags createBase_tc_authz_QueryGrantsResponse_def; fail))+
qed

lemmas tc_authz_QueryGrantsResponse_roundtrip = message_codec.roundtrip [OF tc_authz_QueryGrantsResponse_codec, folded decode_tc_authz_QueryGrantsResponse_def]

lemmas tc_authz_QueryGrantsResponse_returns = message_codec.decode_returns [OF tc_authz_QueryGrantsResponse_codec, folded decode_tc_authz_QueryGrantsResponse_def]

lemma tc_authz_QueryGranterGrantsRequest_codec: "message_codec L F out inp (encode_tc_authz_QueryGranterGrantsRequest L) (tc_authz_QueryGranterGrantsRequest_switch L G) createBase_tc_authz_QueryGranterGrantsRequest (wf_tc_authz_QueryGranterGrantsRequest L)"
proof unfold_locales
  show good: "good_sw (tc_authz_QueryGranterGrantsRequest_switch L G)"
    unfolding tc_authz_QueryGranterGrantsRequest_switch_def by (intro good_swI fwd_rules)
  fix m assume "wf_tc_authz_QueryGranterGrantsRequest L m"
  then show "codes (tc_authz_QueryGranterGrantsRequest_switch L G) (encode_tc_authz_QueryGranterGrantsRequest L m) createBase_tc_authz_QueryGranterGrantsRequest m"
    unfolding encode_tc_authz_QueryGranterGrantsRequest_def wf_tc_authz_QueryGranterGrantsRequest_def tc_PageRequest_eqs(2)
    by (elim conjE)
      (rule codes_Cons codes_Nil [OF tc_authz_QueryGranterGrantsRequest.equality] codec_rules
        codes_when [where tag = 10 and u = tc_authz_QueryGranterGrantsRequest.granter_update and op = "r_string L", OF good]
        codes_some [where tag = 18 and u = tc_authz_QueryGranterGrantsRequest.pagination_update and op = "submsg L (decode_tc_PageRequest L G)", OF good]
      | assumption | (simp add: tc_authz_QueryGranterGrantsRequest_tags createBase_tc_authz_QueryGranterGrantsRequest_def; fail))+
qed

lemmas tc_authz_QueryGranterGrantsRequest_roundtrip = message_codec.roundtrip [OF tc_authz_QueryGranterGrantsRequest_codec, folded decode_tc_authz_QueryGranterGrantsRequest_def]

lemmas tc_authz_QueryGranterGrantsRequest_returns = message_codec.decode_returns [OF tc_authz_QueryGranterGrantsRequest_codec, folded decode_tc_authz_QueryGranterGrantsRequest_def]

lemma tc_authz_QueryGranterGrantsResponse_codec: "message_codec L F out inp (encode_tc_authz_QueryGranterGrantsResponse L) (tc_authz_QueryGranterGrantsResponse_switch L G) createBase_tc_authz_QueryGranterGrantsResponse (wf_tc_authz_QueryGranterGrantsResponse L)"
proof unfold_locales
  show good: "good_sw (tc_authz_QueryGranterGrantsResponse_switch L G)"
    unfolding tc_authz_QueryGranterGrantsResponse_switch_def by (intro good_swI fwd_rules tc_authz_GrantAuthorization_good)
  fix m assume "wf_tc_authz_QueryGranterGrantsResponse L m"
  then show "codes (tc_authz_QueryGranterGrantsResponse_switch L G) (encode_tc_authz_QueryGranterGrantsResponse L m) createBase_tc_authz_QueryGranterGrantsResponse m"
    unfolding encode_tc_authz_QueryGranterGrantsResponse_def wf_tc_authz_QueryGranterGrantsResponse_def tc_PageResponse_eqs(2)
    by (elim conjE)
      (rule codes_Cons codes_Nil [OF tc_authz_QueryGranterGrantsResponse.equality] codec_rules tc_authz_GrantAuthorization_carries
        codes_for [where tag = 10 and u = tc_authz_QueryGranterGrantsResponse.grants_update and op = "submsg L (decode_tc_authz_GrantAuthorization L G)", OF good]
        codes_some [where tag = 18 and u = tc_authz_QueryGranterGrantsResponse.pagination_update and op = "submsg L (decode_tc_PageResponse L G)", OF good]
      | assumption | (simp add: tc_authz_QueryGranterGrantsResponse_tags createBase_tc_authz_QueryGranterGrantsResponse_def; fail))+
qed

lemmas tc_authz_QueryGranterGrantsResponse_roundtrip = message_codec.roundtrip [OF tc_authz_QueryGranterGrantsResponse_codec, folded decode_tc_authz_QueryGranterGrantsResponse_def]

lemmas tc_authz_QueryGranterGrantsResponse_returns = message_codec.decode_returns [OF tc_authz_QueryGranterGrantsResponse_codec, folded decode_tc_authz_QueryGranterGrantsResponse_def]

lemma tc_authz_QueryGranteeGrantsRequest_codec: "message_codec L F out inp (encode_tc_authz_QueryGranteeGrantsRequest L) (tc_authz_QueryGranteeGrantsRequest_switch L G) createBase_tc_authz_QueryGranteeGrantsRequest (wf_tc_authz_QueryGranteeGrantsRequest L)"
proof unfold_locales
  show good: "good_sw (tc_authz_QueryGranteeGrantsRequest_switch L G)"
    unfolding tc_authz_QueryGranteeGrantsRequest_switch_def by (intro good_swI fwd_rules)
  fix m assume "wf_tc_authz_QueryGranteeGrantsRequest L m"
  then show "codes (tc_authz_QueryGranteeGrantsRequest_switch L G) (encode_tc_authz_QueryGranteeGrantsRequest L m) createBase_tc_authz_QueryGranteeGrantsRequest m"
    unfolding encode_tc_authz_QueryGranteeGrantsRequest_def wf_tc_authz_QueryGranteeGrantsRequest_def tc_PageRequest_eqs(2)
    by (elim conjE)
      (rule codes_Cons codes_Nil [OF tc_authz_QueryGranteeGrantsRequest.equality] codec_rules
        codes_when [where tag = 10 and u = tc_authz_QueryGranteeGrantsRequest.grantee_update and op = "r_string L", OF good]
        codes_some [where tag = 18 and u = tc_authz_QueryGranteeGrantsRequest.pagination_update and op = "submsg L (decode_tc_PageRequest L G)", OF good]
      | assumption | (simp add: tc_authz_QueryGranteeGrantsRequest_tags createBase_tc_authz_QueryGranteeGrantsRequest_def; fail))+
qed

lemmas tc_authz_QueryGranteeGrantsRequest_roundtrip = message_codec.roundtrip [OF tc_authz_QueryGranteeGrantsRequest_codec, folded decode_tc_authz_QueryGranteeGrantsRequest_def]

lemmas tc_authz_QueryGranteeGrantsRequest_returns = message_codec.decode_returns [OF tc_authz_QueryGranteeGrantsRequest_codec, folded decode_tc_authz_QueryGranteeGrantsRequest_def]

lemma tc_authz_QueryGranteeGrantsResponse_codec: "message_codec L F out inp (encode_tc_authz_QueryGranteeGrantsResponse L) (tc_authz_QueryGranteeGrantsResponse_switch L G) createBase_tc_authz_QueryGranteeGrantsResponse (wf_tc_authz_QueryGranteeGrantsResponse L)"
proof unfold_locales
  show good: "good_sw (tc_authz_QueryGranteeGrantsResponse_switch L G)"
    unfolding tc_authz_QueryGranteeGrantsResponse_switch_def by (intro good_swI fwd_rules tc_authz_GrantAuthorization_good)
  fix m assume "wf_tc_authz_QueryGranteeGrantsResponse L m"
  then show "codes (tc_authz_QueryGranteeGrantsResponse_switch L G) (encode_tc_authz_QueryGranteeGrantsResponse L m) createBase_tc_authz_QueryGranteeGrantsResponse m"
    unfolding encode_tc_authz_QueryGranteeGrantsResponse_def wf_tc_authz_QueryGranteeGrantsResponse_def tc_PageResponse_eqs(2)
    by (elim conjE)
      (rule codes_Cons codes_Nil [OF tc_authz_QueryGranteeGrantsResponse.equality] codec_rules tc_authz_GrantAuthorization_carries
        codes_for [where tag = 10 and u = tc_authz_QueryGranteeGrantsResponse.grants_update and op = "submsg L (decode_tc_authz_GrantAuthorization L G)", OF good]
        codes_some [where tag = 18 and u = tc_authz_QueryGranteeGrantsResponse.pagination_update and op = "submsg L (decode_tc_PageResponse L G)", OF good]
      | assumption | (simp add: tc_authz_QueryGranteeGrantsResponse_tags createBase_tc_authz_QueryGranteeGrantsResponse_def; fail))+
qed

lemmas tc_authz_QueryGranteeGrantsResponse_roundtrip = message_codec.roundtrip [OF tc_authz_QueryGranteeGrantsResponse_codec, folded decode_tc_authz_QueryGranteeGrantsResponse_def]

lemmas tc_authz_QueryGranteeGrantsResponse_returns = message_codec.decode_returns [OF tc_authz_QueryGranteeGrantsResponse_codec, folded decode_tc_authz_QueryGranteeGrantsResponse_def]

end

lemma tc_authz_QueryGrantsRequest_json: "message_json toJSON_tc_authz_QueryGrantsRequest fromJSON_tc_authz_QueryGrantsRequest wfj_tc_authz_QueryGrantsRequest"
proof unfold_locales
  fix h m
  assume "wfj_tc_authz_QueryGrantsRequest m"
  then show "json_rt (toJSON_tc_authz_QueryGrantsRequest h) (fromJSON_tc_authz_QueryGrantsRequest h) m"
    unfolding toJSON_tc_authz_QueryGrantsRequest_def fromJSON_tc_authz_QueryGrantsRequest_def wfj_tc_authz_QueryGrantsRequest_def
    by (-) (rule json_rtI json_rules | assumption | (simp; fail))+
qed

lemma tc_authz_QueryGrantsResponse_json: "message_json toJSON_tc_authz_QueryGrantsResponse fromJSON_tc_authz_QueryGrantsResponse wfj_tc_authz_QueryGrantsResponse"
proof unfold_locales
  fix h m
  assume "wfj_tc_authz_QueryGrantsResponse m"
  then show "json_rt (toJSON_tc_authz_QueryGrantsResponse h) (fromJSON_tc_authz_QueryGrantsResponse h) m"
    unfolding toJSON_tc_authz_QueryGrantsResponse_def fromJSON_tc_authz_QueryGrantsResponse_def wfj_tc_authz_QueryGrantsResponse_def
    by (elim conjE) (rule json_rtI json_rules tc_authz_Grant_json_rules | assumption | (simp; fail))+
qed

lemma tc_authz_QueryGranterGrantsRequest_json: "message_json toJSON_tc_authz_QueryGranterGrantsRequest fromJSON_tc_authz_QueryGranterGrantsRequest wfj_tc_authz_QueryGranterGrantsRequest"
proof unfold_locales
  fix h m
  assume "wfj_tc_authz_QueryGranterGrantsRequest m"
  then show "json_rt (toJSON_tc_authz_QueryGranterGrantsRequest h) (fromJSON_tc_authz_QueryGranterGrantsRequest h) m"
    unfolding toJSON_tc_authz_QueryGranterGrantsRequest_def fromJSON_tc_authz_QueryGranterGrantsRequest_def wfj_tc_authz_QueryGranterGrantsRequest_def
    by (-) (rule json_rtI json_rules | assumption | (simp; fail))+
qed

lemma tc_authz_QueryGranterGrantsResponse_json: "message_json toJSON_tc_authz_QueryGranterGrantsResponse fromJSON_tc_authz_QueryGranterGrantsResponse wfj_tc_authz_QueryGranterGrantsResponse"
proof unfold_locales
  fix h m
  assume "wfj_tc_authz_QueryGranterGrantsResponse m"
  then show "json_rt (toJSON_tc_authz_QueryGranterGrantsResponse h) (fromJSON_tc_authz_QueryGranterGrantsResponse h) m"
    unfolding toJSON_tc_authz_QueryGranterGrantsResponse_def fromJSON_tc_authz_QueryGranterGrantsResponse_def wfj_tc_authz_QueryGranterGrantsResponse_def
    by (elim conjE) (rule json_rtI json_rules tc_authz_GrantAuthorization_json_rules | assumption | (simp; fail))+
qed

lemma tc_authz_QueryGranteeGrantsRequest_json: "message_json toJSON_tc_authz_QueryGranteeGrantsRequest fromJSON_tc_authz_QueryGranteeGrantsRequest wfj_tc_authz_QueryGranteeGrantsRequest"
proof unfold_locales
  fix h m
  assume "wfj_tc_authz_QueryGranteeGrantsRequest m"
  then show "json_rt (toJSON_tc_authz_QueryGranteeGrantsRequest h) (fromJSON_tc_authz_QueryGranteeGrantsRequest h) m"
    unfolding toJSON_tc_authz_QueryGranteeGrantsRequest_def fromJSON_tc_authz_QueryGranteeGrantsRequest_def wfj_tc_authz_QueryGranteeGrantsRequest_def
    by (-) (rule json_rtI json_rules | assumption | (simp; fail))+
qed

lemma tc_authz_QueryGranteeGrantsResponse_json: "message_json toJSON_tc_authz_QueryGranteeGrantsResponse fromJSON_tc_authz_QueryGranteeGrantsResponse wfj_tc_authz_QueryGranteeGrantsResponse"
proof unfold_locales
  fix h m
  assume "wfj_tc_authz_QueryGranteeGrantsResponse m"
  then show "json_rt (toJSON_tc_authz_QueryGranteeGrantsResponse h) (fromJSON_tc_authz_QueryGranteeGrantsResponse h) m"
    unfolding toJSON_tc_authz_QueryGranteeGrantsResponse_def fromJSON_tc_authz_QueryGranteeGrantsResponse_def wfj_tc_authz_QueryGranteeGrantsResponse_def
    by (elim conjE) (rule json_rtI json_rules tc_authz_GrantAuthorization_json_rules | assumption | (simp; fail))+
qed


section \<open>Calls over a transport that is served\<close>

context long_wire_laws
begin

lemma tc_authz_MsgClientImpl_Grant_refines:
  "refines_handler L (decode_tc_authz_MsgGrant L G) (encode_tc_authz_MsgGrantResponse L) (wf_tc_authz_MsgGrant L) (wf_tc_authz_MsgGrantResponse L)
     (tc_authz_MsgClientImpl_Grant L G) (js ''cosmos.authz.v1beta1.Msg'') (js ''Grant'')"
  unfolding tc_authz_MsgClientImpl_Grant_def [abs_def] decode_tc_authz_MsgGrant_def decode_tc_authz_MsgGrantResponse_def
  by (rule refines_unary [OF tc_authz_MsgGrant_codec tc_authz_MsgGrantResponse_codec])

lemma tc_authz_MsgClientImpl_Exec_refines:
  "refines_handler L (decode_tc_authz_MsgExec L G) (encode_tc_authz_MsgExecResponse L) (wf_tc_authz_MsgExec L) (wf_tc_authz_MsgExecResponse L)
     (tc_authz_MsgClientImpl_Exec L G) (js ''cosmos.authz.v1beta1.Msg'') (js ''Exec'')"
  unfolding tc_authz_MsgClientImpl_Exec_def [abs_def] decode_tc_authz_MsgExec_def decode_tc_authz_MsgExecResponse_def
  by (rule refines_unary [OF tc_authz_MsgExec_codec tc_authz_MsgExecResponse_codec])

lemma tc_authz_MsgClientImpl_Revoke_refines:
  "refines_handler L (decode_tc_authz_MsgRevoke L G) (encode_tc_authz_MsgRevokeResponse L) (wf_tc_authz_MsgRevoke L) (wf_tc_authz_MsgRevokeResponse L)
     (tc_authz_MsgClientImpl_Revoke L G) (js ''cosmos.authz.v1beta1.Msg'') (js ''Revoke'')"
  unfolding tc_authz_MsgClientImpl_Revoke_def [abs_def] decode_tc_authz_MsgRevoke_def decode_tc_authz_MsgRevokeResponse_def
  by (rule refines_unary [OF tc_authz_MsgRevoke_codec tc_authz_MsgRevokeResponse_codec])

lemma tc_authz_QueryClientImpl_Grants_refines:
  "refines_handler L (decode_tc_authz_QueryGrantsRequest L G) (encode_tc_authz_QueryGrantsResponse L) (wf_tc_authz_QueryGrantsRequest L) (wf_tc_authz_QueryGrantsResponse L)
     (tc_authz_QueryClientImpl_Grants L G) (js ''cosmos.authz.v1beta1.Query'') (js ''Grants'')"
  unfolding tc_authz_QueryClientImpl_Grants_def [abs_def] decode_tc_authz_QueryGrantsRequest_def decode_tc_authz_QueryGrantsResponse_def
  by (rule refines_unary [OF tc_authz_QueryGrantsRequest_codec tc_authz_QueryGrantsResponse_codec])

lemma tc_authz_QueryClientImpl_GranterGrants_refines:
  "refines_handler L (decode_tc_authz_QueryGranterGrantsRequest L G) (encode_tc_authz_QueryGranterGrantsResponse L) (wf_tc_authz_QueryGranterGrantsRequest L) (wf_tc_authz_QueryGranterGrantsResponse L)
     (tc_authz_QueryClientImpl_GranterGrants L G) (js ''cosmos.authz.v1beta1.Query'') (js ''GranterGrants'')"
  unfolding tc_authz_QueryClientImpl_GranterGrants_def [abs_def] decode_tc_authz_QueryGranterGrantsRequest_def decode_tc_authz_QueryGranterGrantsResponse_def
  by (rule refines_unary [OF tc_authz_QueryGranterGrantsRequest_codec tc_authz_QueryGranterGrantsResponse_codec])

lemma tc_authz_QueryClientImpl_GranteeGrants_refines:
  "refines_handler L (decode_tc_authz_QueryGranteeGrantsRequest L G) (encode_tc_authz_QueryGranteeGrantsResponse L) (wf_tc_authz_QueryGranteeGrantsRequest L) (wf_tc_authz_QueryGranteeGrantsResponse L)
     (tc_authz_QueryClientImpl_GranteeGrants L G) (js ''cosmos.authz.v1beta1.Query'') (js ''GranteeGrants'')"
  unfolding tc_authz_QueryClientImpl_GranteeGrants_def [abs_def] decode_tc_authz_QueryGranteeGrantsRequest_def decode_tc_authz_QueryGranteeGrantsResponse_def
  by (rule refines_unary [OF tc_authz_QueryGranteeGrantsRequest_codec tc_authz_QueryGranteeGrantsResponse_codec])

end

end
