(* ===== verification/CosBank.thy ===== *)
theory CosBank
  imports CosmosAny
begin

unbundle bit_operations_syntax

text \<open>
  The messages of the bank module in \<open>ts-client/cosmos.bank.v1beta1\<close>.
\<close>


section \<open>ts-client/cosmos.bank.v1beta1/types/cosmos/bank/v1beta1/bank.ts\<close>

subsection \<open>SendEnabled\<close>

record tc_bank_SendEnabled =
  denom :: jsstring
  enabled :: bool

definition createBase_tc_bank_SendEnabled :: tc_bank_SendEnabled where
  "createBase_tc_bank_SendEnabled = \<lparr>tc_bank_SendEnabled.denom = [],
     tc_bank_SendEnabled.enabled = False\<rparr>"

definition encode_tc_bank_SendEnabled :: "('w, 'r) wire \<Rightarrow> tc_bank_SendEnabled \<Rightarrow> 'w \<Rightarrow> 'w result" where
  "encode_tc_bank_SendEnabled L message = seqE
    [whenE (tc_bank_SendEnabled.denom message \<noteq> []) (seqE [w_uint32 L 10, w_string L (tc_bank_SendEnabled.denom message)]),
     whenE (tc_bank_SendEnabled.enabled message = True) (seqE [w_uint32 L 16, w_bool L (tc_bank_SendEnabled.enabled message)])]"

definition tc_bank_SendEnabled_switch :: "('w, 'r) wire \<Rightarrow> long_lib \<Rightarrow> u32 \<Rightarrow> tc_bank_SendEnabled \<Rightarrow> (tc_bank_SendEnabled, 'r) action" where
  "tc_bank_SendEnabled_switch L G tag message = js_switch (drop_bit 3 tag)
    [(1, readf (r_string L) (\<lambda>v. message\<lparr>tc_bank_SendEnabled.denom := v\<rparr>)),
     (2, readf (r_bool L) (\<lambda>v. message\<lparr>tc_bank_SendEnabled.enabled := v\<rparr>))]
    (skipType L tag message)"

definition decode_tc_bank_SendEnabled :: "('w, 'r) wire \<Rightarrow> long_lib \<Rightarrow> 'r input \<Rightarrow> nat option \<Rightarrow> (tc_bank_SendEnabled \<times> 'r) result" where
  "decode_tc_bank_SendEnabled L G = decode_msg L (tc_bank_SendEnabled_switch L G) createBase_tc_bank_SendEnabled"

definition fromJSON_tc_bank_SendEnabled :: "host \<Rightarrow> jsval \<Rightarrow> tc_bank_SendEnabled result" where
  "fromJSON_tc_bank_SendEnabled h object =
     bindE (fieldE object ''denom'' (stringE h) []) (\<lambda>v_denom.
     bindE (fieldE object ''enabled'' booleanE False) (\<lambda>v_enabled.
     Inr \<lparr>tc_bank_SendEnabled.denom = v_denom, tc_bank_SendEnabled.enabled = v_enabled\<rparr>))"

definition toJSON_tc_bank_SendEnabled :: "host \<Rightarrow> tc_bank_SendEnabled \<Rightarrow> jsval result" where
  "toJSON_tc_bank_SendEnabled h message = objE
    [jfieldE True ''denom'' (Inr (JString (tc_bank_SendEnabled.denom message))),
     jfieldE True ''enabled'' (Inr (JBool (tc_bank_SendEnabled.enabled message)))]"

type_synonym tc_bank_SendEnabled_Partial = "jsstring option \<times> bool option"

definition fromPartial_tc_bank_SendEnabled :: "tc_bank_SendEnabled_Partial \<Rightarrow> tc_bank_SendEnabled" where
  "fromPartial_tc_bank_SendEnabled object = (case object of (p_denom, p_enabled) \<Rightarrow>
     createBase_tc_bank_SendEnabled\<lparr>tc_bank_SendEnabled.denom := nullish (p_denom) [],
       tc_bank_SendEnabled.enabled := nullish (p_enabled) False\<rparr>)"

text \<open>A partial message that sets every field.\<close>

definition partial_of_tc_bank_SendEnabled :: "tc_bank_SendEnabled \<Rightarrow> tc_bank_SendEnabled_Partial" where
  "partial_of_tc_bank_SendEnabled m =
     (Some (tc_bank_SendEnabled.denom m),
      Some (tc_bank_SendEnabled.enabled m))"

definition wf_tc_bank_SendEnabled :: "('w, 'r) wire \<Rightarrow> tc_bank_SendEnabled \<Rightarrow> bool" where
  "wf_tc_bank_SendEnabled L m \<longleftrightarrow> wire_string (tc_bank_SendEnabled.denom m)"

definition wfj_tc_bank_SendEnabled :: "tc_bank_SendEnabled \<Rightarrow> bool" where
  "wfj_tc_bank_SendEnabled m \<longleftrightarrow> True"

subsection \<open>Params\<close>

record tc_bank_Params =
  sendEnabled :: "tc_bank_SendEnabled list"
  defaultSendEnabled :: bool

definition createBase_tc_bank_Params :: tc_bank_Params where
  "createBase_tc_bank_Params = \<lparr>tc_bank_Params.sendEnabled = [],
     tc_bank_Params.defaultSendEnabled = False\<rparr>"

definition encode_tc_bank_Params :: "('w, 'r) wire \<Rightarrow> tc_bank_Params \<Rightarrow> 'w \<Rightarrow> 'w result" where
  "encode_tc_bank_Params L message = seqE
    [forE (\<lambda>v. seqE [w_uint32 L 10, w_fork L, encode_tc_bank_SendEnabled L v, w_join L]) (tc_bank_Params.sendEnabled message),
     whenE (tc_bank_Params.defaultSendEnabled message = True) (seqE [w_uint32 L 16, w_bool L (tc_bank_Params.defaultSendEnabled message)])]"

definition tc_bank_Params_switch :: "('w, 'r) wire \<Rightarrow> long_lib \<Rightarrow> u32 \<Rightarrow> tc_bank_Params \<Rightarrow> (tc_bank_Params, 'r) action" where
  "tc_bank_Params_switch L G tag message = js_switch (drop_bit 3 tag)
    [(1, readf (submsg L (decode_tc_bank_SendEnabled L G)) (\<lambda>v. message\<lparr>tc_bank_Params.sendEnabled := tc_bank_Params.sendEnabled message @ [v]\<rparr>)),
     (2, readf (r_bool L) (\<lambda>v. message\<lparr>tc_bank_Params.defaultSendEnabled := v\<rparr>))]
    (skipType L tag message)"

definition decode_tc_bank_Params :: "('w, 'r) wire \<Rightarrow> long_lib \<Rightarrow> 'r input \<Rightarrow> nat option \<Rightarrow> (tc_bank_Params \<times> 'r) result" where
  "decode_tc_bank_Params L G = decode_msg L (tc_bank_Params_switch L G) createBase_tc_bank_Params"

definition fromJSON_tc_bank_Params :: "host \<Rightarrow> jsval \<Rightarrow> tc_bank_Params result" where
  "fromJSON_tc_bank_Params h object =
     bindE (arrayE object ''sendEnabled'' (fromJSON_tc_bank_SendEnabled h)) (\<lambda>v_sendEnabled.
     bindE (fieldE object ''defaultSendEnabled'' booleanE False) (\<lambda>v_defaultSendEnabled.
     Inr \<lparr>tc_bank_Params.sendEnabled = v_sendEnabled, tc_bank_Params.defaultSendEnabled = v_defaultSendEnabled\<rparr>))"

definition toJSON_tc_bank_Params :: "host \<Rightarrow> tc_bank_Params \<Rightarrow> jsval result" where
  "toJSON_tc_bank_Params h message = objE
    [jlistE ''sendEnabled'' (toJSON_tc_bank_SendEnabled h) (tc_bank_Params.sendEnabled message),
     jfieldE True ''defaultSendEnabled'' (Inr (JBool (tc_bank_Params.defaultSendEnabled message)))]"

type_synonym tc_bank_Params_Partial = "tc_bank_SendEnabled_Partial list option \<times> bool option"

definition fromPartial_tc_bank_Params :: "tc_bank_Params_Partial \<Rightarrow> tc_bank_Params" where
  "fromPartial_tc_bank_Params object = (case object of (p_sendEnabled, p_defaultSendEnabled) \<Rightarrow>
     createBase_tc_bank_Params\<lparr>tc_bank_Params.sendEnabled := partial_map fromPartial_tc_bank_SendEnabled (p_sendEnabled),
       tc_bank_Params.defaultSendEnabled := nullish (p_defaultSendEnabled) False\<rparr>)"

text \<open>A partial message that sets every field.\<close>

definition partial_of_tc_bank_Params :: "tc_bank_Params \<Rightarrow> tc_bank_Params_Partial" where
  "partial_of_tc_bank_Params m =
     (Some (map partial_of_tc_bank_SendEnabled (tc_bank_Params.sendEnabled m)),
      Some (tc_bank_Params.defaultSendEnabled m))"

definition wf_tc_bank_Params :: "('w, 'r) wire \<Rightarrow> tc_bank_Params \<Rightarrow> bool" where
  "wf_tc_bank_Params L m \<longleftrightarrow> list_all (\<lambda>v. wf_tc_bank_SendEnabled L v \<and> fits L (encode_tc_bank_SendEnabled L v)) (tc_bank_Params.sendEnabled m)"

definition wfj_tc_bank_Params :: "tc_bank_Params \<Rightarrow> bool" where
  "wfj_tc_bank_Params m \<longleftrightarrow> list_all wfj_tc_bank_SendEnabled (tc_bank_Params.sendEnabled m)"

subsection \<open>Input\<close>

record tc_bank_Input =
  address' :: jsstring
  coins :: "Coin list"

definition createBase_tc_bank_Input :: tc_bank_Input where
  "createBase_tc_bank_Input = \<lparr>tc_bank_Input.address' = [],
     tc_bank_Input.coins = []\<rparr>"

definition encode_tc_bank_Input :: "('w, 'r) wire \<Rightarrow> tc_bank_Input \<Rightarrow> 'w \<Rightarrow> 'w result" where
  "encode_tc_bank_Input L message = seqE
    [whenE (tc_bank_Input.address' message \<noteq> []) (seqE [w_uint32 L 10, w_string L (tc_bank_Input.address' message)]),
     forE (\<lambda>v. seqE [w_uint32 L 18, w_fork L, encode_tc_Coin L v, w_join L]) (tc_bank_Input.coins message)]"

definition tc_bank_Input_switch :: "('w, 'r) wire \<Rightarrow> long_lib \<Rightarrow> u32 \<Rightarrow> tc_bank_Input \<Rightarrow> (tc_bank_Input, 'r) action" where
  "tc_bank_Input_switch L G tag message = js_switch (drop_bit 3 tag)
    [(1, readf (r_string L) (\<lambda>v. message\<lparr>tc_bank_Input.address' := v\<rparr>)),
     (2, readf (submsg L (decode_tc_Coin L G)) (\<lambda>v. message\<lparr>tc_bank_Input.coins := tc_bank_Input.coins message @ [v]\<rparr>))]
    (skipType L tag message)"

definition decode_tc_bank_Input :: "('w, 'r) wire \<Rightarrow> long_lib \<Rightarrow> 'r input \<Rightarrow> nat option \<Rightarrow> (tc_bank_Input \<times> 'r) result" where
  "decode_tc_bank_Input L G = decode_msg L (tc_bank_Input_switch L G) createBase_tc_bank_Input"

definition fromJSON_tc_bank_Input :: "host \<Rightarrow> jsval \<Rightarrow> tc_bank_Input result" where
  "fromJSON_tc_bank_Input h object =
     bindE (fieldE object ''address'' (stringE h) []) (\<lambda>v_address.
     bindE (arrayE object ''coins'' (fromJSON_tc_Coin h)) (\<lambda>v_coins.
     Inr \<lparr>tc_bank_Input.address' = v_address, tc_bank_Input.coins = v_coins\<rparr>))"

definition toJSON_tc_bank_Input :: "host \<Rightarrow> tc_bank_Input \<Rightarrow> jsval result" where
  "toJSON_tc_bank_Input h message = objE
    [jfieldE True ''address'' (Inr (JString (tc_bank_Input.address' message))),
     jlistE ''coins'' (toJSON_tc_Coin h) (tc_bank_Input.coins message)]"

type_synonym tc_bank_Input_Partial = "jsstring option \<times> Coin_Partial list option"

definition fromPartial_tc_bank_Input :: "tc_bank_Input_Partial \<Rightarrow> tc_bank_Input" where
  "fromPartial_tc_bank_Input object = (case object of (p_address, p_coins) \<Rightarrow>
     createBase_tc_bank_Input\<lparr>tc_bank_Input.address' := nullish (p_address) [],
       tc_bank_Input.coins := partial_map fromPartial_tc_Coin (p_coins)\<rparr>)"

text \<open>A partial message that sets every field.\<close>

definition partial_of_tc_bank_Input :: "tc_bank_Input \<Rightarrow> tc_bank_Input_Partial" where
  "partial_of_tc_bank_Input m =
     (Some (tc_bank_Input.address' m),
      Some (map partial_of_Coin (tc_bank_Input.coins m)))"

definition wf_tc_bank_Input :: "('w, 'r) wire \<Rightarrow> tc_bank_Input \<Rightarrow> bool" where
  "wf_tc_bank_Input L m \<longleftrightarrow> wire_string (tc_bank_Input.address' m)
     \<and> list_all (\<lambda>v. wf_Coin L v \<and> fits L (encode_Coin L v)) (tc_bank_Input.coins m)"

definition wfj_tc_bank_Input :: "tc_bank_Input \<Rightarrow> bool" where
  "wfj_tc_bank_Input m \<longleftrightarrow> list_all wfj_Coin (tc_bank_Input.coins m)"

subsection \<open>Output\<close>

record tc_bank_Output =
  address' :: jsstring
  coins :: "Coin list"

definition createBase_tc_bank_Output :: tc_bank_Output where
  "createBase_tc_bank_Output = \<lparr>tc_bank_Output.address' = [],
     tc_bank_Output.coins = []\<rparr>"

definition encode_tc_bank_Output :: "('w, 'r) wire \<Rightarrow> tc_bank_Output \<Rightarrow> 'w \<Rightarrow> 'w result" where
  "encode_tc_bank_Output L message = seqE
    [whenE (tc_bank_Output.address' message \<noteq> []) (seqE [w_uint32 L 10, w_string L (tc_bank_Output.address' message)]),
     forE (\<lambda>v. seqE [w_uint32 L 18, w_fork L, encode_tc_Coin L v, w_join L]) (tc_bank_Output.coins message)]"

definition tc_bank_Output_switch :: "('w, 'r) wire \<Rightarrow> long_lib \<Rightarrow> u32 \<Rightarrow> tc_bank_Output \<Rightarrow> (tc_bank_Output, 'r) action" where
  "tc_bank_Output_switch L G tag message = js_switch (drop_bit 3 tag)
    [(1, readf (r_string L) (\<lambda>v. message\<lparr>tc_bank_Output.address' := v\<rparr>)),
     (2, readf (submsg L (decode_tc_Coin L G)) (\<lambda>v. message\<lparr>tc_bank_Output.coins := tc_bank_Output.coins message @ [v]\<rparr>))]
    (skipType L tag message)"

definition decode_tc_bank_Output :: "('w, 'r) wire \<Rightarrow> long_lib \<Rightarrow> 'r input \<Rightarrow> nat option \<Rightarrow> (tc_bank_Output \<times> 'r) result" where
  "decode_tc_bank_Output L G = decode_msg L (tc_bank_Output_switch L G) createBase_tc_bank_Output"

definition fromJSON_tc_bank_Output :: "host \<Rightarrow> jsval \<Rightarrow> tc_bank_Output result" where
  "fromJSON_tc_bank_Output h object =
     bindE (fieldE object ''address'' (stringE h) []) (\<lambda>v_address.
     bindE (arrayE object ''coins'' (fromJSON_tc_Coin h)) (\<lambda>v_coins.
     Inr \<lparr>tc_bank_Output.address' = v_address, tc_bank_Output.coins = v_coins\<rparr>))"

definition toJSON_tc_bank_Output :: "host \<Rightarrow> tc_bank_Output \<Rightarrow> jsval result" where
  "toJSON_tc_bank_Output h message = objE
    [jfieldE True ''address'' (Inr (JString (tc_bank_Output.address' message))),
     jlistE ''coins'' (toJSON_tc_Coin h) (tc_bank_Output.coins message)]"

type_synonym tc_bank_Output_Partial = "jsstring option \<times> Coin_Partial list option"

definition fromPartial_tc_bank_Output :: "tc_bank_Output_Partial \<Rightarrow> tc_bank_Output" where
  "fromPartial_tc_bank_Output object = (case object of (p_address, p_coins) \<Rightarrow>
     createBase_tc_bank_Output\<lparr>tc_bank_Output.address' := nullish (p_address) [],
       tc_bank_Output.coins := partial_map fromPartial_tc_Coin (p_coins)\<rparr>)"

text \<open>A partial message that sets every field.\<close>

definition partial_of_tc_bank_Output :: "tc_bank_Output \<Rightarrow> tc_bank_Output_Partial" where
  "partial_of_tc_bank_Output m =
     (Some (tc_bank_Output.address' m),
      Some (map partial_of_Coin (tc_bank_Output.coins m)))"

definition wf_tc_bank_Output :: "('w, 'r) wire \<Rightarrow> tc_bank_Output \<Rightarrow> bool" where
  "wf_tc_bank_Output L m \<longleftrightarrow> wire_string (tc_bank_Output.address' m)
     \<and> list_all (\<lambda>v. wf_Coin L v \<and> fits L (encode_Coin L v)) (tc_bank_Output.coins m)"

definition wfj_tc_bank_Output :: "tc_bank_Output \<Rightarrow> bool" where
  "wfj_tc_bank_Output m \<longleftrightarrow> list_all wfj_Coin (tc_bank_Output.coins m)"

subsection \<open>Supply\<close>

record tc_bank_Supply =
  total :: "Coin list"

definition createBase_tc_bank_Supply :: tc_bank_Supply where
  "createBase_tc_bank_Supply = \<lparr>tc_bank_Supply.total = []\<rparr>"

definition encode_tc_bank_Supply :: "('w, 'r) wire \<Rightarrow> tc_bank_Supply \<Rightarrow> 'w \<Rightarrow> 'w result" where
  "encode_tc_bank_Supply L message = seqE
    [forE (\<lambda>v. seqE [w_uint32 L 10, w_fork L, encode_tc_Coin L v, w_join L]) (tc_bank_Supply.total message)]"

definition tc_bank_Supply_switch :: "('w, 'r) wire \<Rightarrow> long_lib \<Rightarrow> u32 \<Rightarrow> tc_bank_Supply \<Rightarrow> (tc_bank_Supply, 'r) action" where
  "tc_bank_Supply_switch L G tag message = js_switch (drop_bit 3 tag)
    [(1, readf (submsg L (decode_tc_Coin L G)) (\<lambda>v. message\<lparr>tc_bank_Supply.total := tc_bank_Supply.total message @ [v]\<rparr>))]
    (skipType L tag message)"

definition decode_tc_bank_Supply :: "('w, 'r) wire \<Rightarrow> long_lib \<Rightarrow> 'r input \<Rightarrow> nat option \<Rightarrow> (tc_bank_Supply \<times> 'r) result" where
  "decode_tc_bank_Supply L G = decode_msg L (tc_bank_Supply_switch L G) createBase_tc_bank_Supply"

definition fromJSON_tc_bank_Supply :: "host \<Rightarrow> jsval \<Rightarrow> tc_bank_Supply result" where
  "fromJSON_tc_bank_Supply h object =
     bindE (arrayE object ''total'' (fromJSON_tc_Coin h)) (\<lambda>v_total.
     Inr \<lparr>tc_bank_Supply.total = v_total\<rparr>)"

definition toJSON_tc_bank_Supply :: "host \<Rightarrow> tc_bank_Supply \<Rightarrow> jsval result" where
  "toJSON_tc_bank_Supply h message = objE
    [jlistE ''total'' (toJSON_tc_Coin h) (tc_bank_Supply.total message)]"

type_synonym tc_bank_Supply_Partial = "Coin_Partial list option"

definition fromPartial_tc_bank_Supply :: "tc_bank_Supply_Partial \<Rightarrow> tc_bank_Supply" where
  "fromPartial_tc_bank_Supply object = (case object of p_total \<Rightarrow>
     createBase_tc_bank_Supply\<lparr>tc_bank_Supply.total := partial_map fromPartial_tc_Coin (p_total)\<rparr>)"

text \<open>A partial message that sets every field.\<close>

definition partial_of_tc_bank_Supply :: "tc_bank_Supply \<Rightarrow> tc_bank_Supply_Partial" where
  "partial_of_tc_bank_Supply m =
     (Some (map partial_of_Coin (tc_bank_Supply.total m)))"

definition wf_tc_bank_Supply :: "('w, 'r) wire \<Rightarrow> tc_bank_Supply \<Rightarrow> bool" where
  "wf_tc_bank_Supply L m \<longleftrightarrow> list_all (\<lambda>v. wf_Coin L v \<and> fits L (encode_Coin L v)) (tc_bank_Supply.total m)"

definition wfj_tc_bank_Supply :: "tc_bank_Supply \<Rightarrow> bool" where
  "wfj_tc_bank_Supply m \<longleftrightarrow> list_all wfj_Coin (tc_bank_Supply.total m)"

subsection \<open>DenomUnit\<close>

record tc_bank_DenomUnit =
  denom :: jsstring
  exponent :: number
  aliases :: "jsstring list"

definition createBase_tc_bank_DenomUnit :: tc_bank_DenomUnit where
  "createBase_tc_bank_DenomUnit = \<lparr>tc_bank_DenomUnit.denom = [],
     tc_bank_DenomUnit.exponent = Num 0,
     tc_bank_DenomUnit.aliases = []\<rparr>"

definition encode_tc_bank_DenomUnit :: "('w, 'r) wire \<Rightarrow> tc_bank_DenomUnit \<Rightarrow> 'w \<Rightarrow> 'w result" where
  "encode_tc_bank_DenomUnit L message = seqE
    [whenE (tc_bank_DenomUnit.denom message \<noteq> []) (seqE [w_uint32 L 10, w_string L (tc_bank_DenomUnit.denom message)]),
     whenE (tc_bank_DenomUnit.exponent message \<noteq> Num 0) (seqE [w_uint32 L 16, w_uint32 L (ToUint32 (tc_bank_DenomUnit.exponent message))]),
     forE (\<lambda>v. seqE [w_uint32 L 26, w_string L v]) (tc_bank_DenomUnit.aliases message)]"

definition tc_bank_DenomUnit_switch :: "('w, 'r) wire \<Rightarrow> long_lib \<Rightarrow> u32 \<Rightarrow> tc_bank_DenomUnit \<Rightarrow> (tc_bank_DenomUnit, 'r) action" where
  "tc_bank_DenomUnit_switch L G tag message = js_switch (drop_bit 3 tag)
    [(1, readf (r_string L) (\<lambda>v. message\<lparr>tc_bank_DenomUnit.denom := v\<rparr>)),
     (2, readf (num_u32 (r_uint32 L)) (\<lambda>v. message\<lparr>tc_bank_DenomUnit.exponent := v\<rparr>)),
     (3, readf (r_string L) (\<lambda>v. message\<lparr>tc_bank_DenomUnit.aliases := tc_bank_DenomUnit.aliases message @ [v]\<rparr>))]
    (skipType L tag message)"

definition decode_tc_bank_DenomUnit :: "('w, 'r) wire \<Rightarrow> long_lib \<Rightarrow> 'r input \<Rightarrow> nat option \<Rightarrow> (tc_bank_DenomUnit \<times> 'r) result" where
  "decode_tc_bank_DenomUnit L G = decode_msg L (tc_bank_DenomUnit_switch L G) createBase_tc_bank_DenomUnit"

definition fromJSON_tc_bank_DenomUnit :: "host \<Rightarrow> jsval \<Rightarrow> tc_bank_DenomUnit result" where
  "fromJSON_tc_bank_DenomUnit h object =
     bindE (fieldE object ''denom'' (stringE h) []) (\<lambda>v_denom.
     bindE (fieldE object ''exponent'' (numberE h) (Num 0)) (\<lambda>v_exponent.
     bindE (arrayE object ''aliases'' (stringE h)) (\<lambda>v_aliases.
     Inr \<lparr>tc_bank_DenomUnit.denom = v_denom, tc_bank_DenomUnit.exponent = v_exponent, tc_bank_DenomUnit.aliases = v_aliases\<rparr>)))"

definition toJSON_tc_bank_DenomUnit :: "host \<Rightarrow> tc_bank_DenomUnit \<Rightarrow> jsval result" where
  "toJSON_tc_bank_DenomUnit h message = objE
    [jfieldE True ''denom'' (Inr (JString (tc_bank_DenomUnit.denom message))),
     jfieldE True ''exponent'' (Inr (JNumber (Math_round (tc_bank_DenomUnit.exponent message)))),
     jlistE ''aliases'' (\<lambda>e. Inr (JString e)) (tc_bank_DenomUnit.aliases message)]"

type_synonym tc_bank_DenomUnit_Partial = "jsstring option \<times> number option \<times> jsstring list option"

definition fromPartial_tc_bank_DenomUnit :: "tc_bank_DenomUnit_Partial \<Rightarrow> tc_bank_DenomUnit" where
  "fromPartial_tc_bank_DenomUnit object = (case object of (p_denom, p_exponent, p_aliases) \<Rightarrow>
     createBase_tc_bank_DenomUnit\<lparr>tc_bank_DenomUnit.denom := nullish (p_denom) [],
       tc_bank_DenomUnit.exponent := nullish (p_exponent) (Num 0),
       tc_bank_DenomUnit.aliases := partial_map (\<lambda>e. e) (p_aliases)\<rparr>)"

text \<open>A partial message that sets every field.\<close>

definition partial_of_tc_bank_DenomUnit :: "tc_bank_DenomUnit \<Rightarrow> tc_bank_DenomUnit_Partial" where
  "partial_of_tc_bank_DenomUnit m =
     (Some (tc_bank_DenomUnit.denom m),
      Some (tc_bank_DenomUnit.exponent m),
      Some (tc_bank_DenomUnit.aliases m))"

definition wf_tc_bank_DenomUnit :: "('w, 'r) wire \<Rightarrow> tc_bank_DenomUnit \<Rightarrow> bool" where
  "wf_tc_bank_DenomUnit L m \<longleftrightarrow> wire_string (tc_bank_DenomUnit.denom m)
     \<and> uint32_num (tc_bank_DenomUnit.exponent m)
     \<and> list_all wire_string (tc_bank_DenomUnit.aliases m)"

definition wfj_tc_bank_DenomUnit :: "tc_bank_DenomUnit \<Rightarrow> bool" where
  "wfj_tc_bank_DenomUnit m \<longleftrightarrow> whole (tc_bank_DenomUnit.exponent m)"

subsection \<open>Metadata\<close>

record tc_bank_Metadata =
  description :: jsstring
  denomUnits :: "tc_bank_DenomUnit list"
  base :: jsstring
  display :: jsstring
  name' :: jsstring
  symbol :: jsstring
  uri :: jsstring
  uriHash :: jsstring

definition createBase_tc_bank_Metadata :: tc_bank_Metadata where
  "createBase_tc_bank_Metadata = \<lparr>tc_bank_Metadata.description = [],
     tc_bank_Metadata.denomUnits = [],
     tc_bank_Metadata.base = [],
     tc_bank_Metadata.display = [],
     tc_bank_Metadata.name' = [],
     tc_bank_Metadata.symbol = [],
     tc_bank_Metadata.uri = [],
     tc_bank_Metadata.uriHash = []\<rparr>"

definition encode_tc_bank_Metadata :: "('w, 'r) wire \<Rightarrow> tc_bank_Metadata \<Rightarrow> 'w \<Rightarrow> 'w result" where
  "encode_tc_bank_Metadata L message = seqE
    [whenE (tc_bank_Metadata.description message \<noteq> []) (seqE [w_uint32 L 10, w_string L (tc_bank_Metadata.description message)]),
     forE (\<lambda>v. seqE [w_uint32 L 18, w_fork L, encode_tc_bank_DenomUnit L v, w_join L]) (tc_bank_Metadata.denomUnits message),
     whenE (tc_bank_Metadata.base message \<noteq> []) (seqE [w_uint32 L 26, w_string L (tc_bank_Metadata.base message)]),
     whenE (tc_bank_Metadata.display message \<noteq> []) (seqE [w_uint32 L 34, w_string L (tc_bank_Metadata.display message)]),
     whenE (tc_bank_Metadata.name' message \<noteq> []) (seqE [w_uint32 L 42, w_string L (tc_bank_Metadata.name' message)]),
     whenE (tc_bank_Metadata.symbol message \<noteq> []) (seqE [w_uint32 L 50, w_string L (tc_bank_Metadata.symbol message)]),
     whenE (tc_bank_Metadata.uri message \<noteq> []) (seqE [w_uint32 L 58, w_string L (tc_bank_Metadata.uri message)]),
     whenE (tc_bank_Metadata.uriHash message \<noteq> []) (seqE [w_uint32 L 66, w_string L (tc_bank_Metadata.uriHash message)])]"

definition tc_bank_Metadata_switch :: "('w, 'r) wire \<Rightarrow> long_lib \<Rightarrow> u32 \<Rightarrow> tc_bank_Metadata \<Rightarrow> (tc_bank_Metadata, 'r) action" where
  "tc_bank_Metadata_switch L G tag message = js_switch (drop_bit 3 tag)
    [(1, readf (r_string L) (\<lambda>v. message\<lparr>tc_bank_Metadata.description := v\<rparr>)),
     (2, readf (submsg L (decode_tc_bank_DenomUnit L G)) (\<lambda>v. message\<lparr>tc_bank_Metadata.denomUnits := tc_bank_Metadata.denomUnits message @ [v]\<rparr>)),
     (3, readf (r_string L) (\<lambda>v. message\<lparr>tc_bank_Metadata.base := v\<rparr>)),
     (4, readf (r_string L) (\<lambda>v. message\<lparr>tc_bank_Metadata.display := v\<rparr>)),
     (5, readf (r_string L) (\<lambda>v. message\<lparr>tc_bank_Metadata.name' := v\<rparr>)),
     (6, readf (r_string L) (\<lambda>v. message\<lparr>tc_bank_Metadata.symbol := v\<rparr>)),
     (7, readf (r_string L) (\<lambda>v. message\<lparr>tc_bank_Metadata.uri := v\<rparr>)),
     (8, readf (r_string L) (\<lambda>v. message\<lparr>tc_bank_Metadata.uriHash := v\<rparr>))]
    (skipType L tag message)"

definition decode_tc_bank_Metadata :: "('w, 'r) wire \<Rightarrow> long_lib \<Rightarrow> 'r input \<Rightarrow> nat option \<Rightarrow> (tc_bank_Metadata \<times> 'r) result" where
  "decode_tc_bank_Metadata L G = decode_msg L (tc_bank_Metadata_switch L G) createBase_tc_bank_Metadata"

definition fromJSON_tc_bank_Metadata :: "host \<Rightarrow> jsval \<Rightarrow> tc_bank_Metadata result" where
  "fromJSON_tc_bank_Metadata h object =
     bindE (fieldE object ''description'' (stringE h) []) (\<lambda>v_description.
     bindE (arrayE object ''denomUnits'' (fromJSON_tc_bank_DenomUnit h)) (\<lambda>v_denomUnits.
     bindE (fieldE object ''base'' (stringE h) []) (\<lambda>v_base.
     bindE (fieldE object ''display'' (stringE h) []) (\<lambda>v_display.
     bindE (fieldE object ''name'' (stringE h) []) (\<lambda>v_name.
     bindE (fieldE object ''symbol'' (stringE h) []) (\<lambda>v_symbol.
     bindE (fieldE object ''uri'' (stringE h) []) (\<lambda>v_uri.
     bindE (fieldE object ''uriHash'' (stringE h) []) (\<lambda>v_uriHash.
     Inr \<lparr>tc_bank_Metadata.description = v_description, tc_bank_Metadata.denomUnits = v_denomUnits, tc_bank_Metadata.base = v_base, tc_bank_Metadata.display = v_display, tc_bank_Metadata.name' = v_name, tc_bank_Metadata.symbol = v_symbol, tc_bank_Metadata.uri = v_uri, tc_bank_Metadata.uriHash = v_uriHash\<rparr>))))))))"

definition toJSON_tc_bank_Metadata :: "host \<Rightarrow> tc_bank_Metadata \<Rightarrow> jsval result" where
  "toJSON_tc_bank_Metadata h message = objE
    [jfieldE True ''description'' (Inr (JString (tc_bank_Metadata.description message))),
     jlistE ''denomUnits'' (toJSON_tc_bank_DenomUnit h) (tc_bank_Metadata.denomUnits message),
     jfieldE True ''base'' (Inr (JString (tc_bank_Metadata.base message))),
     jfieldE True ''display'' (Inr (JString (tc_bank_Metadata.display message))),
     jfieldE True ''name'' (Inr (JString (tc_bank_Metadata.name' message))),
     jfieldE True ''symbol'' (Inr (JString (tc_bank_Metadata.symbol message))),
     jfieldE True ''uri'' (Inr (JString (tc_bank_Metadata.uri message))),
     jfieldE True ''uriHash'' (Inr (JString (tc_bank_Metadata.uriHash message)))]"

type_synonym tc_bank_Metadata_Partial = "jsstring option \<times> tc_bank_DenomUnit_Partial list option \<times> jsstring option \<times> jsstring option \<times> jsstring option \<times> jsstring option \<times> jsstring option \<times> jsstring option"

definition fromPartial_tc_bank_Metadata :: "tc_bank_Metadata_Partial \<Rightarrow> tc_bank_Metadata" where
  "fromPartial_tc_bank_Metadata object = (case object of (p_description, p_denomUnits, p_base, p_display, p_name, p_symbol, p_uri, p_uriHash) \<Rightarrow>
     createBase_tc_bank_Metadata\<lparr>tc_bank_Metadata.description := nullish (p_description) [],
       tc_bank_Metadata.denomUnits := partial_map fromPartial_tc_bank_DenomUnit (p_denomUnits),
       tc_bank_Metadata.base := nullish (p_base) [],
       tc_bank_Metadata.display := nullish (p_display) [],
       tc_bank_Metadata.name' := nullish (p_name) [],
       tc_bank_Metadata.symbol := nullish (p_symbol) [],
       tc_bank_Metadata.uri := nullish (p_uri) [],
       tc_bank_Metadata.uriHash := nullish (p_uriHash) []\<rparr>)"

text \<open>A partial message that sets every field.\<close>

definition partial_of_tc_bank_Metadata :: "tc_bank_Metadata \<Rightarrow> tc_bank_Metadata_Partial" where
  "partial_of_tc_bank_Metadata m =
     (Some (tc_bank_Metadata.description m),
      Some (map partial_of_tc_bank_DenomUnit (tc_bank_Metadata.denomUnits m)),
      Some (tc_bank_Metadata.base m),
      Some (tc_bank_Metadata.display m),
      Some (tc_bank_Metadata.name' m),
      Some (tc_bank_Metadata.symbol m),
      Some (tc_bank_Metadata.uri m),
      Some (tc_bank_Metadata.uriHash m))"

definition wf_tc_bank_Metadata :: "('w, 'r) wire \<Rightarrow> tc_bank_Metadata \<Rightarrow> bool" where
  "wf_tc_bank_Metadata L m \<longleftrightarrow> wire_string (tc_bank_Metadata.description m)
     \<and> list_all (\<lambda>v. wf_tc_bank_DenomUnit L v \<and> fits L (encode_tc_bank_DenomUnit L v)) (tc_bank_Metadata.denomUnits m)
     \<and> wire_string (tc_bank_Metadata.base m)
     \<and> wire_string (tc_bank_Metadata.display m)
     \<and> wire_string (tc_bank_Metadata.name' m)
     \<and> wire_string (tc_bank_Metadata.symbol m)
     \<and> wire_string (tc_bank_Metadata.uri m)
     \<and> wire_string (tc_bank_Metadata.uriHash m)"

definition wfj_tc_bank_Metadata :: "tc_bank_Metadata \<Rightarrow> bool" where
  "wfj_tc_bank_Metadata m \<longleftrightarrow> list_all wfj_tc_bank_DenomUnit (tc_bank_Metadata.denomUnits m)"


section \<open>ts-client/cosmos.bank.v1beta1/types/cosmos/bank/v1beta1/authz.ts\<close>

subsection \<open>SendAuthorization\<close>

record tc_bank_SendAuthorization =
  spendLimit :: "Coin list"

definition createBase_tc_bank_SendAuthorization :: tc_bank_SendAuthorization where
  "createBase_tc_bank_SendAuthorization = \<lparr>tc_bank_SendAuthorization.spendLimit = []\<rparr>"

definition encode_tc_bank_SendAuthorization :: "('w, 'r) wire \<Rightarrow> tc_bank_SendAuthorization \<Rightarrow> 'w \<Rightarrow> 'w result" where
  "encode_tc_bank_SendAuthorization L message = seqE
    [forE (\<lambda>v. seqE [w_uint32 L 10, w_fork L, encode_tc_Coin L v, w_join L]) (tc_bank_SendAuthorization.spendLimit message)]"

definition tc_bank_SendAuthorization_switch :: "('w, 'r) wire \<Rightarrow> long_lib \<Rightarrow> u32 \<Rightarrow> tc_bank_SendAuthorization \<Rightarrow> (tc_bank_SendAuthorization, 'r) action" where
  "tc_bank_SendAuthorization_switch L G tag message = js_switch (drop_bit 3 tag)
    [(1, readf (submsg L (decode_tc_Coin L G)) (\<lambda>v. message\<lparr>tc_bank_SendAuthorization.spendLimit := tc_bank_SendAuthorization.spendLimit message @ [v]\<rparr>))]
    (skipType L tag message)"

definition decode_tc_bank_SendAuthorization :: "('w, 'r) wire \<Rightarrow> long_lib \<Rightarrow> 'r input \<Rightarrow> nat option \<Rightarrow> (tc_bank_SendAuthorization \<times> 'r) result" where
  "decode_tc_bank_SendAuthorization L G = decode_msg L (tc_bank_SendAuthorization_switch L G) createBase_tc_bank_SendAuthorization"

definition fromJSON_tc_bank_SendAuthorization :: "host \<Rightarrow> jsval \<Rightarrow> tc_bank_SendAuthorization result" where
  "fromJSON_tc_bank_SendAuthorization h object =
     bindE (arrayE object ''spendLimit'' (fromJSON_tc_Coin h)) (\<lambda>v_spendLimit.
     Inr \<lparr>tc_bank_SendAuthorization.spendLimit = v_spendLimit\<rparr>)"

definition toJSON_tc_bank_SendAuthorization :: "host \<Rightarrow> tc_bank_SendAuthorization \<Rightarrow> jsval result" where
  "toJSON_tc_bank_SendAuthorization h message = objE
    [jlistE ''spendLimit'' (toJSON_tc_Coin h) (tc_bank_SendAuthorization.spendLimit message)]"

type_synonym tc_bank_SendAuthorization_Partial = "Coin_Partial list option"

definition fromPartial_tc_bank_SendAuthorization :: "tc_bank_SendAuthorization_Partial \<Rightarrow> tc_bank_SendAuthorization" where
  "fromPartial_tc_bank_SendAuthorization object = (case object of p_spendLimit \<Rightarrow>
     createBase_tc_bank_SendAuthorization\<lparr>tc_bank_SendAuthorization.spendLimit := partial_map fromPartial_tc_Coin (p_spendLimit)\<rparr>)"

text \<open>A partial message that sets every field.\<close>

definition partial_of_tc_bank_SendAuthorization :: "tc_bank_SendAuthorization \<Rightarrow> tc_bank_SendAuthorization_Partial" where
  "partial_of_tc_bank_SendAuthorization m =
     (Some (map partial_of_Coin (tc_bank_SendAuthorization.spendLimit m)))"

definition wf_tc_bank_SendAuthorization :: "('w, 'r) wire \<Rightarrow> tc_bank_SendAuthorization \<Rightarrow> bool" where
  "wf_tc_bank_SendAuthorization L m \<longleftrightarrow> list_all (\<lambda>v. wf_Coin L v \<and> fits L (encode_Coin L v)) (tc_bank_SendAuthorization.spendLimit m)"

definition wfj_tc_bank_SendAuthorization :: "tc_bank_SendAuthorization \<Rightarrow> bool" where
  "wfj_tc_bank_SendAuthorization m \<longleftrightarrow> list_all wfj_Coin (tc_bank_SendAuthorization.spendLimit m)"


section \<open>ts-client/cosmos.bank.v1beta1/types/cosmos/bank/v1beta1/genesis.ts\<close>

subsection \<open>Balance\<close>

record tc_bank_Balance =
  address' :: jsstring
  coins :: "Coin list"

definition createBase_tc_bank_Balance :: tc_bank_Balance where
  "createBase_tc_bank_Balance = \<lparr>tc_bank_Balance.address' = [],
     tc_bank_Balance.coins = []\<rparr>"

definition encode_tc_bank_Balance :: "('w, 'r) wire \<Rightarrow> tc_bank_Balance \<Rightarrow> 'w \<Rightarrow> 'w result" where
  "encode_tc_bank_Balance L message = seqE
    [whenE (tc_bank_Balance.address' message \<noteq> []) (seqE [w_uint32 L 10, w_string L (tc_bank_Balance.address' message)]),
     forE (\<lambda>v. seqE [w_uint32 L 18, w_fork L, encode_tc_Coin L v, w_join L]) (tc_bank_Balance.coins message)]"

definition tc_bank_Balance_switch :: "('w, 'r) wire \<Rightarrow> long_lib \<Rightarrow> u32 \<Rightarrow> tc_bank_Balance \<Rightarrow> (tc_bank_Balance, 'r) action" where
  "tc_bank_Balance_switch L G tag message = js_switch (drop_bit 3 tag)
    [(1, readf (r_string L) (\<lambda>v. message\<lparr>tc_bank_Balance.address' := v\<rparr>)),
     (2, readf (submsg L (decode_tc_Coin L G)) (\<lambda>v. message\<lparr>tc_bank_Balance.coins := tc_bank_Balance.coins message @ [v]\<rparr>))]
    (skipType L tag message)"

definition decode_tc_bank_Balance :: "('w, 'r) wire \<Rightarrow> long_lib \<Rightarrow> 'r input \<Rightarrow> nat option \<Rightarrow> (tc_bank_Balance \<times> 'r) result" where
  "decode_tc_bank_Balance L G = decode_msg L (tc_bank_Balance_switch L G) createBase_tc_bank_Balance"

definition fromJSON_tc_bank_Balance :: "host \<Rightarrow> jsval \<Rightarrow> tc_bank_Balance result" where
  "fromJSON_tc_bank_Balance h object =
     bindE (fieldE object ''address'' (stringE h) []) (\<lambda>v_address.
     bindE (arrayE object ''coins'' (fromJSON_tc_Coin h)) (\<lambda>v_coins.
     Inr \<lparr>tc_bank_Balance.address' = v_address, tc_bank_Balance.coins = v_coins\<rparr>))"

definition toJSON_tc_bank_Balance :: "host \<Rightarrow> tc_bank_Balance \<Rightarrow> jsval result" where
  "toJSON_tc_bank_Balance h message = objE
    [jfieldE True ''address'' (Inr (JString (tc_bank_Balance.address' message))),
     jlistE ''coins'' (toJSON_tc_Coin h) (tc_bank_Balance.coins message)]"

type_synonym tc_bank_Balance_Partial = "jsstring option \<times> Coin_Partial list option"

definition fromPartial_tc_bank_Balance :: "tc_bank_Balance_Partial \<Rightarrow> tc_bank_Balance" where
  "fromPartial_tc_bank_Balance object = (case object of (p_address, p_coins) \<Rightarrow>
     createBase_tc_bank_Balance\<lparr>tc_bank_Balance.address' := nullish (p_address) [],
       tc_bank_Balance.coins := partial_map fromPartial_tc_Coin (p_coins)\<rparr>)"

text \<open>A partial message that sets every field.\<close>

definition partial_of_tc_bank_Balance :: "tc_bank_Balance \<Rightarrow> tc_bank_Balance_Partial" where
  "partial_of_tc_bank_Balance m =
     (Some (tc_bank_Balance.address' m),
      Some (map partial_of_Coin (tc_bank_Balance.coins m)))"

definition wf_tc_bank_Balance :: "('w, 'r) wire \<Rightarrow> tc_bank_Balance \<Rightarrow> bool" where
  "wf_tc_bank_Balance L m \<longleftrightarrow> wire_string (tc_bank_Balance.address' m)
     \<and> list_all (\<lambda>v. wf_Coin L v \<and> fits L (encode_Coin L v)) (tc_bank_Balance.coins m)"

definition wfj_tc_bank_Balance :: "tc_bank_Balance \<Rightarrow> bool" where
  "wfj_tc_bank_Balance m \<longleftrightarrow> list_all wfj_Coin (tc_bank_Balance.coins m)"

subsection \<open>GenesisState\<close>

record tc_bank_GenesisState =
  params :: "tc_bank_Params option"
  balances :: "tc_bank_Balance list"
  supply' :: "Coin list"
  denomMetadata :: "tc_bank_Metadata list"

definition createBase_tc_bank_GenesisState :: tc_bank_GenesisState where
  "createBase_tc_bank_GenesisState = \<lparr>tc_bank_GenesisState.params = None,
     tc_bank_GenesisState.balances = [],
     tc_bank_GenesisState.supply' = [],
     tc_bank_GenesisState.denomMetadata = []\<rparr>"

definition encode_tc_bank_GenesisState :: "('w, 'r) wire \<Rightarrow> tc_bank_GenesisState \<Rightarrow> 'w \<Rightarrow> 'w result" where
  "encode_tc_bank_GenesisState L message = seqE
    [someE (tc_bank_GenesisState.params message) (\<lambda>v. seqE [w_uint32 L 10, w_fork L, encode_tc_bank_Params L v, w_join L]),
     forE (\<lambda>v. seqE [w_uint32 L 18, w_fork L, encode_tc_bank_Balance L v, w_join L]) (tc_bank_GenesisState.balances message),
     forE (\<lambda>v. seqE [w_uint32 L 26, w_fork L, encode_tc_Coin L v, w_join L]) (tc_bank_GenesisState.supply' message),
     forE (\<lambda>v. seqE [w_uint32 L 34, w_fork L, encode_tc_bank_Metadata L v, w_join L]) (tc_bank_GenesisState.denomMetadata message)]"

definition tc_bank_GenesisState_switch :: "('w, 'r) wire \<Rightarrow> long_lib \<Rightarrow> u32 \<Rightarrow> tc_bank_GenesisState \<Rightarrow> (tc_bank_GenesisState, 'r) action" where
  "tc_bank_GenesisState_switch L G tag message = js_switch (drop_bit 3 tag)
    [(1, readf (submsg L (decode_tc_bank_Params L G)) (\<lambda>v. message\<lparr>tc_bank_GenesisState.params := Some v\<rparr>)),
     (2, readf (submsg L (decode_tc_bank_Balance L G)) (\<lambda>v. message\<lparr>tc_bank_GenesisState.balances := tc_bank_GenesisState.balances message @ [v]\<rparr>)),
     (3, readf (submsg L (decode_tc_Coin L G)) (\<lambda>v. message\<lparr>tc_bank_GenesisState.supply' := tc_bank_GenesisState.supply' message @ [v]\<rparr>)),
     (4, readf (submsg L (decode_tc_bank_Metadata L G)) (\<lambda>v. message\<lparr>tc_bank_GenesisState.denomMetadata := tc_bank_GenesisState.denomMetadata message @ [v]\<rparr>))]
    (skipType L tag message)"

definition decode_tc_bank_GenesisState :: "('w, 'r) wire \<Rightarrow> long_lib \<Rightarrow> 'r input \<Rightarrow> nat option \<Rightarrow> (tc_bank_GenesisState \<times> 'r) result" where
  "decode_tc_bank_GenesisState L G = decode_msg L (tc_bank_GenesisState_switch L G) createBase_tc_bank_GenesisState"

definition fromJSON_tc_bank_GenesisState :: "host \<Rightarrow> jsval \<Rightarrow> tc_bank_GenesisState result" where
  "fromJSON_tc_bank_GenesisState h object =
     bindE (optE object ''params'' (fromJSON_tc_bank_Params h)) (\<lambda>v_params.
     bindE (arrayE object ''balances'' (fromJSON_tc_bank_Balance h)) (\<lambda>v_balances.
     bindE (arrayE object ''supply'' (fromJSON_tc_Coin h)) (\<lambda>v_supply.
     bindE (arrayE object ''denomMetadata'' (fromJSON_tc_bank_Metadata h)) (\<lambda>v_denomMetadata.
     Inr \<lparr>tc_bank_GenesisState.params = v_params, tc_bank_GenesisState.balances = v_balances, tc_bank_GenesisState.supply' = v_supply, tc_bank_GenesisState.denomMetadata = v_denomMetadata\<rparr>))))"

definition toJSON_tc_bank_GenesisState :: "host \<Rightarrow> tc_bank_GenesisState \<Rightarrow> jsval result" where
  "toJSON_tc_bank_GenesisState h message = objE
    [joptE ''params'' (toJSON_tc_bank_Params h) (tc_bank_GenesisState.params message),
     jlistE ''balances'' (toJSON_tc_bank_Balance h) (tc_bank_GenesisState.balances message),
     jlistE ''supply'' (toJSON_tc_Coin h) (tc_bank_GenesisState.supply' message),
     jlistE ''denomMetadata'' (toJSON_tc_bank_Metadata h) (tc_bank_GenesisState.denomMetadata message)]"

type_synonym tc_bank_GenesisState_Partial = "tc_bank_Params_Partial option \<times> tc_bank_Balance_Partial list option \<times> Coin_Partial list option \<times> tc_bank_Metadata_Partial list option"

definition fromPartial_tc_bank_GenesisState :: "tc_bank_GenesisState_Partial \<Rightarrow> tc_bank_GenesisState" where
  "fromPartial_tc_bank_GenesisState object = (case object of (p_params, p_balances, p_supply, p_denomMetadata) \<Rightarrow>
     createBase_tc_bank_GenesisState\<lparr>tc_bank_GenesisState.params := map_option fromPartial_tc_bank_Params (p_params),
       tc_bank_GenesisState.balances := partial_map fromPartial_tc_bank_Balance (p_balances),
       tc_bank_GenesisState.supply' := partial_map fromPartial_tc_Coin (p_supply),
       tc_bank_GenesisState.denomMetadata := partial_map fromPartial_tc_bank_Metadata (p_denomMetadata)\<rparr>)"

text \<open>A partial message that sets every field.\<close>

definition partial_of_tc_bank_GenesisState :: "tc_bank_GenesisState \<Rightarrow> tc_bank_GenesisState_Partial" where
  "partial_of_tc_bank_GenesisState m =
     (map_option partial_of_tc_bank_Params (tc_bank_GenesisState.params m),
      Some (map partial_of_tc_bank_Balance (tc_bank_GenesisState.balances m)),
      Some (map partial_of_Coin (tc_bank_GenesisState.supply' m)),
      Some (map partial_of_tc_bank_Metadata (tc_bank_GenesisState.denomMetadata m)))"

definition wf_tc_bank_GenesisState :: "('w, 'r) wire \<Rightarrow> tc_bank_GenesisState \<Rightarrow> bool" where
  "wf_tc_bank_GenesisState L m \<longleftrightarrow> pred_option (\<lambda>v. wf_tc_bank_Params L v \<and> fits L (encode_tc_bank_Params L v)) (tc_bank_GenesisState.params m)
     \<and> list_all (\<lambda>v. wf_tc_bank_Balance L v \<and> fits L (encode_tc_bank_Balance L v)) (tc_bank_GenesisState.balances m)
     \<and> list_all (\<lambda>v. wf_Coin L v \<and> fits L (encode_Coin L v)) (tc_bank_GenesisState.supply' m)
     \<and> list_all (\<lambda>v. wf_tc_bank_Metadata L v \<and> fits L (encode_tc_bank_Metadata L v)) (tc_bank_GenesisState.denomMetadata m)"

definition wfj_tc_bank_GenesisState :: "tc_bank_GenesisState \<Rightarrow> bool" where
  "wfj_tc_bank_GenesisState m \<longleftrightarrow> pred_option wfj_tc_bank_Params (tc_bank_GenesisState.params m)
     \<and> list_all wfj_tc_bank_Balance (tc_bank_GenesisState.balances m)
     \<and> list_all wfj_Coin (tc_bank_GenesisState.supply' m)
     \<and> list_all wfj_tc_bank_Metadata (tc_bank_GenesisState.denomMetadata m)"


section \<open>Encoding, decoding and JSON of these messages\<close>

lemma fromPartial_partial_of_tc_bank_SendEnabled [simp]: "fromPartial_tc_bank_SendEnabled (partial_of_tc_bank_SendEnabled m) = m"
  by (simp add: fromPartial_tc_bank_SendEnabled_def partial_of_tc_bank_SendEnabled_def createBase_tc_bank_SendEnabled_def partial_map_def option.map_comp o_def option.map_ident)

lemma tc_bank_SendEnabled_tags:
  "tc_bank_SendEnabled_switch L G 10 m = readf (r_string L) (\<lambda>v. m\<lparr>tc_bank_SendEnabled.denom := v\<rparr>)"
  "tc_bank_SendEnabled_switch L G 16 m = readf (r_bool L) (\<lambda>v. m\<lparr>tc_bank_SendEnabled.enabled := v\<rparr>)"
  by (simp_all add: tc_bank_SendEnabled_switch_def)

lemma fromPartial_partial_of_tc_bank_Params [simp]: "fromPartial_tc_bank_Params (partial_of_tc_bank_Params m) = m"
  by (simp add: fromPartial_tc_bank_Params_def partial_of_tc_bank_Params_def createBase_tc_bank_Params_def partial_map_def option.map_comp o_def option.map_ident)

lemma tc_bank_Params_tags:
  "tc_bank_Params_switch L G 10 m = readf (submsg L (decode_tc_bank_SendEnabled L G)) (\<lambda>v. m\<lparr>tc_bank_Params.sendEnabled := tc_bank_Params.sendEnabled m @ [v]\<rparr>)"
  "tc_bank_Params_switch L G 16 m = readf (r_bool L) (\<lambda>v. m\<lparr>tc_bank_Params.defaultSendEnabled := v\<rparr>)"
  by (simp_all add: tc_bank_Params_switch_def)

lemma fromPartial_partial_of_tc_bank_Input [simp]: "fromPartial_tc_bank_Input (partial_of_tc_bank_Input m) = m"
  by (simp add: fromPartial_tc_bank_Input_def partial_of_tc_bank_Input_def createBase_tc_bank_Input_def partial_map_def option.map_comp o_def option.map_ident tc_Coin_eqs)

lemma tc_bank_Input_tags:
  "tc_bank_Input_switch L G 10 m = readf (r_string L) (\<lambda>v. m\<lparr>tc_bank_Input.address' := v\<rparr>)"
  "tc_bank_Input_switch L G 18 m = readf (submsg L (decode_tc_Coin L G)) (\<lambda>v. m\<lparr>tc_bank_Input.coins := tc_bank_Input.coins m @ [v]\<rparr>)"
  by (simp_all add: tc_bank_Input_switch_def)

lemma fromPartial_partial_of_tc_bank_Output [simp]: "fromPartial_tc_bank_Output (partial_of_tc_bank_Output m) = m"
  by (simp add: fromPartial_tc_bank_Output_def partial_of_tc_bank_Output_def createBase_tc_bank_Output_def partial_map_def option.map_comp o_def option.map_ident tc_Coin_eqs)

lemma tc_bank_Output_tags:
  "tc_bank_Output_switch L G 10 m = readf (r_string L) (\<lambda>v. m\<lparr>tc_bank_Output.address' := v\<rparr>)"
  "tc_bank_Output_switch L G 18 m = readf (submsg L (decode_tc_Coin L G)) (\<lambda>v. m\<lparr>tc_bank_Output.coins := tc_bank_Output.coins m @ [v]\<rparr>)"
  by (simp_all add: tc_bank_Output_switch_def)

lemma fromPartial_partial_of_tc_bank_Supply [simp]: "fromPartial_tc_bank_Supply (partial_of_tc_bank_Supply m) = m"
  by (simp add: fromPartial_tc_bank_Supply_def partial_of_tc_bank_Supply_def createBase_tc_bank_Supply_def partial_map_def option.map_comp o_def option.map_ident tc_Coin_eqs)

lemma tc_bank_Supply_tags:
  "tc_bank_Supply_switch L G 10 m = readf (submsg L (decode_tc_Coin L G)) (\<lambda>v. m\<lparr>tc_bank_Supply.total := tc_bank_Supply.total m @ [v]\<rparr>)"
  by (simp_all add: tc_bank_Supply_switch_def)

lemma fromPartial_partial_of_tc_bank_DenomUnit [simp]: "fromPartial_tc_bank_DenomUnit (partial_of_tc_bank_DenomUnit m) = m"
  by (simp add: fromPartial_tc_bank_DenomUnit_def partial_of_tc_bank_DenomUnit_def createBase_tc_bank_DenomUnit_def partial_map_def option.map_comp o_def option.map_ident)

lemma tc_bank_DenomUnit_tags:
  "tc_bank_DenomUnit_switch L G 10 m = readf (r_string L) (\<lambda>v. m\<lparr>tc_bank_DenomUnit.denom := v\<rparr>)"
  "tc_bank_DenomUnit_switch L G 16 m = readf (num_u32 (r_uint32 L)) (\<lambda>v. m\<lparr>tc_bank_DenomUnit.exponent := v\<rparr>)"
  "tc_bank_DenomUnit_switch L G 26 m = readf (r_string L) (\<lambda>v. m\<lparr>tc_bank_DenomUnit.aliases := tc_bank_DenomUnit.aliases m @ [v]\<rparr>)"
  by (simp_all add: tc_bank_DenomUnit_switch_def)

lemma fromPartial_partial_of_tc_bank_Metadata [simp]: "fromPartial_tc_bank_Metadata (partial_of_tc_bank_Metadata m) = m"
  by (simp add: fromPartial_tc_bank_Metadata_def partial_of_tc_bank_Metadata_def createBase_tc_bank_Metadata_def partial_map_def option.map_comp o_def option.map_ident)

lemma tc_bank_Metadata_tags:
  "tc_bank_Metadata_switch L G 10 m = readf (r_string L) (\<lambda>v. m\<lparr>tc_bank_Metadata.description := v\<rparr>)"
  "tc_bank_Metadata_switch L G 18 m = readf (submsg L (decode_tc_bank_DenomUnit L G)) (\<lambda>v. m\<lparr>tc_bank_Metadata.denomUnits := tc_bank_Metadata.denomUnits m @ [v]\<rparr>)"
  "tc_bank_Metadata_switch L G 26 m = readf (r_string L) (\<lambda>v. m\<lparr>tc_bank_Metadata.base := v\<rparr>)"
  "tc_bank_Metadata_switch L G 34 m = readf (r_string L) (\<lambda>v. m\<lparr>tc_bank_Metadata.display := v\<rparr>)"
  "tc_bank_Metadata_switch L G 42 m = readf (r_string L) (\<lambda>v. m\<lparr>tc_bank_Metadata.name' := v\<rparr>)"
  "tc_bank_Metadata_switch L G 50 m = readf (r_string L) (\<lambda>v. m\<lparr>tc_bank_Metadata.symbol := v\<rparr>)"
  "tc_bank_Metadata_switch L G 58 m = readf (r_string L) (\<lambda>v. m\<lparr>tc_bank_Metadata.uri := v\<rparr>)"
  "tc_bank_Metadata_switch L G 66 m = readf (r_string L) (\<lambda>v. m\<lparr>tc_bank_Metadata.uriHash := v\<rparr>)"
  by (simp_all add: tc_bank_Metadata_switch_def)

context long_wire_laws
begin

lemma tc_bank_SendEnabled_codec: "message_codec L F out inp (encode_tc_bank_SendEnabled L) (tc_bank_SendEnabled_switch L G) createBase_tc_bank_SendEnabled (wf_tc_bank_SendEnabled L)"
proof unfold_locales
  show good: "good_sw (tc_bank_SendEnabled_switch L G)"
    unfolding tc_bank_SendEnabled_switch_def by (intro good_swI fwd_rules)
  fix m assume "wf_tc_bank_SendEnabled L m"
  then show "codes (tc_bank_SendEnabled_switch L G) (encode_tc_bank_SendEnabled L m) createBase_tc_bank_SendEnabled m"
    unfolding encode_tc_bank_SendEnabled_def wf_tc_bank_SendEnabled_def
    by (-)
      (rule codes_Cons codes_Nil [OF tc_bank_SendEnabled.equality] codec_rules
        codes_when [where tag = 10 and u = tc_bank_SendEnabled.denom_update and op = "r_string L", OF good]
        codes_when [where tag = 16 and u = tc_bank_SendEnabled.enabled_update and op = "r_bool L", OF good]
      | assumption | (simp add: tc_bank_SendEnabled_tags createBase_tc_bank_SendEnabled_def; fail))+
qed

lemmas tc_bank_SendEnabled_carries =
  message_codec.opt_carries [OF tc_bank_SendEnabled_codec, folded decode_tc_bank_SendEnabled_def]
  message_codec.list_carries [OF tc_bank_SendEnabled_codec, folded decode_tc_bank_SendEnabled_def]

lemmas tc_bank_SendEnabled_good = message_codec.op_good [OF tc_bank_SendEnabled_codec, folded decode_tc_bank_SendEnabled_def]

lemmas tc_bank_SendEnabled_roundtrip = message_codec.roundtrip [OF tc_bank_SendEnabled_codec, folded decode_tc_bank_SendEnabled_def]

lemmas tc_bank_SendEnabled_returns = message_codec.decode_returns [OF tc_bank_SendEnabled_codec, folded decode_tc_bank_SendEnabled_def]

lemma tc_bank_Params_codec: "message_codec L F out inp (encode_tc_bank_Params L) (tc_bank_Params_switch L G) createBase_tc_bank_Params (wf_tc_bank_Params L)"
proof unfold_locales
  show good: "good_sw (tc_bank_Params_switch L G)"
    unfolding tc_bank_Params_switch_def by (intro good_swI fwd_rules tc_bank_SendEnabled_good)
  fix m assume "wf_tc_bank_Params L m"
  then show "codes (tc_bank_Params_switch L G) (encode_tc_bank_Params L m) createBase_tc_bank_Params m"
    unfolding encode_tc_bank_Params_def wf_tc_bank_Params_def
    by (-)
      (rule codes_Cons codes_Nil [OF tc_bank_Params.equality] codec_rules tc_bank_SendEnabled_carries
        codes_for [where tag = 10 and u = tc_bank_Params.sendEnabled_update and op = "submsg L (decode_tc_bank_SendEnabled L G)", OF good]
        codes_when [where tag = 16 and u = tc_bank_Params.defaultSendEnabled_update and op = "r_bool L", OF good]
      | assumption | (simp add: tc_bank_Params_tags createBase_tc_bank_Params_def; fail))+
qed

lemmas tc_bank_Params_carries =
  message_codec.opt_carries [OF tc_bank_Params_codec, folded decode_tc_bank_Params_def]
  message_codec.list_carries [OF tc_bank_Params_codec, folded decode_tc_bank_Params_def]

lemmas tc_bank_Params_good = message_codec.op_good [OF tc_bank_Params_codec, folded decode_tc_bank_Params_def]

lemmas tc_bank_Params_roundtrip = message_codec.roundtrip [OF tc_bank_Params_codec, folded decode_tc_bank_Params_def]

lemmas tc_bank_Params_returns = message_codec.decode_returns [OF tc_bank_Params_codec, folded decode_tc_bank_Params_def]

lemma tc_bank_Input_codec: "message_codec L F out inp (encode_tc_bank_Input L) (tc_bank_Input_switch L G) createBase_tc_bank_Input (wf_tc_bank_Input L)"
proof unfold_locales
  show good: "good_sw (tc_bank_Input_switch L G)"
    unfolding tc_bank_Input_switch_def by (intro good_swI fwd_rules)
  fix m assume "wf_tc_bank_Input L m"
  then show "codes (tc_bank_Input_switch L G) (encode_tc_bank_Input L m) createBase_tc_bank_Input m"
    unfolding encode_tc_bank_Input_def wf_tc_bank_Input_def tc_Coin_eqs(2)
    by (elim conjE)
      (rule codes_Cons codes_Nil [OF tc_bank_Input.equality] codec_rules
        codes_when [where tag = 10 and u = tc_bank_Input.address'_update and op = "r_string L", OF good]
        codes_for [where tag = 18 and u = tc_bank_Input.coins_update and op = "submsg L (decode_tc_Coin L G)", OF good]
      | assumption | (simp add: tc_bank_Input_tags createBase_tc_bank_Input_def; fail))+
qed

lemmas tc_bank_Input_carries =
  message_codec.opt_carries [OF tc_bank_Input_codec, folded decode_tc_bank_Input_def]
  message_codec.list_carries [OF tc_bank_Input_codec, folded decode_tc_bank_Input_def]

lemmas tc_bank_Input_good = message_codec.op_good [OF tc_bank_Input_codec, folded decode_tc_bank_Input_def]

lemmas tc_bank_Input_roundtrip = message_codec.roundtrip [OF tc_bank_Input_codec, folded decode_tc_bank_Input_def]

lemmas tc_bank_Input_returns = message_codec.decode_returns [OF tc_bank_Input_codec, folded decode_tc_bank_Input_def]

lemma tc_bank_Output_codec: "message_codec L F out inp (encode_tc_bank_Output L) (tc_bank_Output_switch L G) createBase_tc_bank_Output (wf_tc_bank_Output L)"
proof unfold_locales
  show good: "good_sw (tc_bank_Output_switch L G)"
    unfolding tc_bank_Output_switch_def by (intro good_swI fwd_rules)
  fix m assume "wf_tc_bank_Output L m"
  then show "codes (tc_bank_Output_switch L G) (encode_tc_bank_Output L m) createBase_tc_bank_Output m"
    unfolding encode_tc_bank_Output_def wf_tc_bank_Output_def tc_Coin_eqs(2)
    by (elim conjE)
      (rule codes_Cons codes_Nil [OF tc_bank_Output.equality] codec_rules
        codes_when [where tag = 10 and u = tc_bank_Output.address'_update and op = "r_string L", OF good]
        codes_for [where tag = 18 and u = tc_bank_Output.coins_update and op = "submsg L (decode_tc_Coin L G)", OF good]
      | assumption | (simp add: tc_bank_Output_tags createBase_tc_bank_Output_def; fail))+
qed

lemmas tc_bank_Output_carries =
  message_codec.opt_carries [OF tc_bank_Output_codec, folded decode_tc_bank_Output_def]
  message_codec.list_carries [OF tc_bank_Output_codec, folded decode_tc_bank_Output_def]

lemmas tc_bank_Output_good = message_codec.op_good [OF tc_bank_Output_codec, folded decode_tc_bank_Output_def]

lemmas tc_bank_Output_roundtrip = message_codec.roundtrip [OF tc_bank_Output_codec, folded decode_tc_bank_Output_def]

lemmas tc_bank_Output_returns = message_codec.decode_returns [OF tc_bank_Output_codec, folded decode_tc_bank_Output_def]

lemma tc_bank_Supply_codec: "message_codec L F out inp (encode_tc_bank_Supply L) (tc_bank_Supply_switch L G) createBase_tc_bank_Supply (wf_tc_bank_Supply L)"
proof unfold_locales
  show good: "good_sw (tc_bank_Supply_switch L G)"
    unfolding tc_bank_Supply_switch_def by (intro good_swI fwd_rules)
  fix m assume "wf_tc_bank_Supply L m"
  then show "codes (tc_bank_Supply_switch L G) (encode_tc_bank_Supply L m) createBase_tc_bank_Supply m"
    unfolding encode_tc_bank_Supply_def wf_tc_bank_Supply_def tc_Coin_eqs(2)
    by (-)
      (rule codes_Cons codes_Nil [OF tc_bank_Supply.equality] codec_rules
        codes_for [where tag = 10 and u = tc_bank_Supply.total_update and op = "submsg L (decode_tc_Coin L G)", OF good]
      | assumption | (simp add: tc_bank_Supply_tags createBase_tc_bank_Supply_def; fail))+
qed

lemmas tc_bank_Supply_roundtrip = message_codec.roundtrip [OF tc_bank_Supply_codec, folded decode_tc_bank_Supply_def]

lemmas tc_bank_Supply_returns = message_codec.decode_returns [OF tc_bank_Supply_codec, folded decode_tc_bank_Supply_def]

lemma tc_bank_DenomUnit_codec: "message_codec L F out inp (encode_tc_bank_DenomUnit L) (tc_bank_DenomUnit_switch L G) createBase_tc_bank_DenomUnit (wf_tc_bank_DenomUnit L)"
proof unfold_locales
  show good: "good_sw (tc_bank_DenomUnit_switch L G)"
    unfolding tc_bank_DenomUnit_switch_def by (intro good_swI fwd_rules)
  fix m assume "wf_tc_bank_DenomUnit L m"
  then show "codes (tc_bank_DenomUnit_switch L G) (encode_tc_bank_DenomUnit L m) createBase_tc_bank_DenomUnit m"
    unfolding encode_tc_bank_DenomUnit_def wf_tc_bank_DenomUnit_def
    by (elim conjE)
      (rule codes_Cons codes_Nil [OF tc_bank_DenomUnit.equality] codec_rules
        codes_when [where tag = 10 and u = tc_bank_DenomUnit.denom_update and op = "r_string L", OF good]
        codes_when [where tag = 16 and u = tc_bank_DenomUnit.exponent_update and op = "num_u32 (r_uint32 L)", OF good]
        codes_for [where tag = 26 and u = tc_bank_DenomUnit.aliases_update and op = "r_string L", OF good]
      | assumption | (simp add: tc_bank_DenomUnit_tags createBase_tc_bank_DenomUnit_def; fail))+
qed

lemmas tc_bank_DenomUnit_carries =
  message_codec.opt_carries [OF tc_bank_DenomUnit_codec, folded decode_tc_bank_DenomUnit_def]
  message_codec.list_carries [OF tc_bank_DenomUnit_codec, folded decode_tc_bank_DenomUnit_def]

lemmas tc_bank_DenomUnit_good = message_codec.op_good [OF tc_bank_DenomUnit_codec, folded decode_tc_bank_DenomUnit_def]

lemmas tc_bank_DenomUnit_roundtrip = message_codec.roundtrip [OF tc_bank_DenomUnit_codec, folded decode_tc_bank_DenomUnit_def]

lemmas tc_bank_DenomUnit_returns = message_codec.decode_returns [OF tc_bank_DenomUnit_codec, folded decode_tc_bank_DenomUnit_def]

lemma tc_bank_Metadata_codec: "message_codec L F out inp (encode_tc_bank_Metadata L) (tc_bank_Metadata_switch L G) createBase_tc_bank_Metadata (wf_tc_bank_Metadata L)"
proof unfold_locales
  show good: "good_sw (tc_bank_Metadata_switch L G)"
    unfolding tc_bank_Metadata_switch_def by (intro good_swI fwd_rules tc_bank_DenomUnit_good)
  fix m assume "wf_tc_bank_Metadata L m"
  then show "codes (tc_bank_Metadata_switch L G) (encode_tc_bank_Metadata L m) createBase_tc_bank_Metadata m"
    unfolding encode_tc_bank_Metadata_def wf_tc_bank_Metadata_def
    by (elim conjE)
      (rule codes_Cons codes_Nil [OF tc_bank_Metadata.equality] codec_rules tc_bank_DenomUnit_carries
        codes_when [where tag = 10 and u = tc_bank_Metadata.description_update and op = "r_string L", OF good]
        codes_for [where tag = 18 and u = tc_bank_Metadata.denomUnits_update and op = "submsg L (decode_tc_bank_DenomUnit L G)", OF good]
        codes_when [where tag = 26 and u = tc_bank_Metadata.base_update and op = "r_string L", OF good]
        codes_when [where tag = 34 and u = tc_bank_Metadata.display_update and op = "r_string L", OF good]
        codes_when [where tag = 42 and u = tc_bank_Metadata.name'_update and op = "r_string L", OF good]
        codes_when [where tag = 50 and u = tc_bank_Metadata.symbol_update and op = "r_string L", OF good]
        codes_when [where tag = 58 and u = tc_bank_Metadata.uri_update and op = "r_string L", OF good]
        codes_when [where tag = 66 and u = tc_bank_Metadata.uriHash_update and op = "r_string L", OF good]
      | assumption | (simp add: tc_bank_Metadata_tags createBase_tc_bank_Metadata_def; fail))+
qed

lemmas tc_bank_Metadata_carries =
  message_codec.opt_carries [OF tc_bank_Metadata_codec, folded decode_tc_bank_Metadata_def]
  message_codec.list_carries [OF tc_bank_Metadata_codec, folded decode_tc_bank_Metadata_def]

lemmas tc_bank_Metadata_good = message_codec.op_good [OF tc_bank_Metadata_codec, folded decode_tc_bank_Metadata_def]

lemmas tc_bank_Metadata_roundtrip = message_codec.roundtrip [OF tc_bank_Metadata_codec, folded decode_tc_bank_Metadata_def]

lemmas tc_bank_Metadata_returns = message_codec.decode_returns [OF tc_bank_Metadata_codec, folded decode_tc_bank_Metadata_def]

end

lemma tc_bank_SendEnabled_json: "message_json toJSON_tc_bank_SendEnabled fromJSON_tc_bank_SendEnabled wfj_tc_bank_SendEnabled"
proof unfold_locales
  fix h m
  assume "wfj_tc_bank_SendEnabled m"
  then show "json_rt (toJSON_tc_bank_SendEnabled h) (fromJSON_tc_bank_SendEnabled h) m"
    unfolding toJSON_tc_bank_SendEnabled_def fromJSON_tc_bank_SendEnabled_def wfj_tc_bank_SendEnabled_def
    by (-) (rule json_rtI json_rules | assumption | (simp; fail))+
qed

lemmas tc_bank_SendEnabled_json_rules = message_json.json_list_rules [OF tc_bank_SendEnabled_json]

lemma tc_bank_Params_json: "message_json toJSON_tc_bank_Params fromJSON_tc_bank_Params wfj_tc_bank_Params"
proof unfold_locales
  fix h m
  assume "wfj_tc_bank_Params m"
  then show "json_rt (toJSON_tc_bank_Params h) (fromJSON_tc_bank_Params h) m"
    unfolding toJSON_tc_bank_Params_def fromJSON_tc_bank_Params_def wfj_tc_bank_Params_def
    by (-) (rule json_rtI json_rules tc_bank_SendEnabled_json_rules | assumption | (simp; fail))+
qed

lemmas tc_bank_Params_json_rules = message_json.json_list_rules [OF tc_bank_Params_json]

lemma tc_bank_Input_json: "message_json toJSON_tc_bank_Input fromJSON_tc_bank_Input wfj_tc_bank_Input"
proof unfold_locales
  fix h m
  assume "wfj_tc_bank_Input m"
  then show "json_rt (toJSON_tc_bank_Input h) (fromJSON_tc_bank_Input h) m"
    unfolding toJSON_tc_bank_Input_def fromJSON_tc_bank_Input_def wfj_tc_bank_Input_def
    by (-) (rule json_rtI json_rules | assumption | (simp; fail))+
qed

lemmas tc_bank_Input_json_rules = message_json.json_list_rules [OF tc_bank_Input_json]

lemma tc_bank_Output_json: "message_json toJSON_tc_bank_Output fromJSON_tc_bank_Output wfj_tc_bank_Output"
proof unfold_locales
  fix h m
  assume "wfj_tc_bank_Output m"
  then show "json_rt (toJSON_tc_bank_Output h) (fromJSON_tc_bank_Output h) m"
    unfolding toJSON_tc_bank_Output_def fromJSON_tc_bank_Output_def wfj_tc_bank_Output_def
    by (-) (rule json_rtI json_rules | assumption | (simp; fail))+
qed

lemmas tc_bank_Output_json_rules = message_json.json_list_rules [OF tc_bank_Output_json]

lemma tc_bank_Supply_json: "message_json toJSON_tc_bank_Supply fromJSON_tc_bank_Supply wfj_tc_bank_Supply"
proof unfold_locales
  fix h m
  assume "wfj_tc_bank_Supply m"
  then show "json_rt (toJSON_tc_bank_Supply h) (fromJSON_tc_bank_Supply h) m"
    unfolding toJSON_tc_bank_Supply_def fromJSON_tc_bank_Supply_def wfj_tc_bank_Supply_def
    by (-) (rule json_rtI json_rules | assumption | (simp; fail))+
qed

lemma tc_bank_DenomUnit_json: "message_json toJSON_tc_bank_DenomUnit fromJSON_tc_bank_DenomUnit wfj_tc_bank_DenomUnit"
proof unfold_locales
  fix h m
  assume "wfj_tc_bank_DenomUnit m"
  then show "json_rt (toJSON_tc_bank_DenomUnit h) (fromJSON_tc_bank_DenomUnit h) m"
    unfolding toJSON_tc_bank_DenomUnit_def fromJSON_tc_bank_DenomUnit_def wfj_tc_bank_DenomUnit_def
    by (-) (rule json_rtI json_rules | assumption | (simp; fail))+
qed

lemmas tc_bank_DenomUnit_json_rules = message_json.json_list_rules [OF tc_bank_DenomUnit_json]

lemma tc_bank_Metadata_json: "message_json toJSON_tc_bank_Metadata fromJSON_tc_bank_Metadata wfj_tc_bank_Metadata"
proof unfold_locales
  fix h m
  assume "wfj_tc_bank_Metadata m"
  then show "json_rt (toJSON_tc_bank_Metadata h) (fromJSON_tc_bank_Metadata h) m"
    unfolding toJSON_tc_bank_Metadata_def fromJSON_tc_bank_Metadata_def wfj_tc_bank_Metadata_def
    by (-) (rule json_rtI json_rules tc_bank_DenomUnit_json_rules | assumption | (simp; fail))+
qed

lemmas tc_bank_Metadata_json_rules = message_json.json_list_rules [OF tc_bank_Metadata_json]

lemma fromPartial_partial_of_tc_bank_SendAuthorization [simp]: "fromPartial_tc_bank_SendAuthorization (partial_of_tc_bank_SendAuthorization m) = m"
  by (simp add: fromPartial_tc_bank_SendAuthorization_def partial_of_tc_bank_SendAuthorization_def createBase_tc_bank_SendAuthorization_def partial_map_def option.map_comp o_def option.map_ident tc_Coin_eqs)

lemma tc_bank_SendAuthorization_tags:
  "tc_bank_SendAuthorization_switch L G 10 m = readf (submsg L (decode_tc_Coin L G)) (\<lambda>v. m\<lparr>tc_bank_SendAuthorization.spendLimit := tc_bank_SendAuthorization.spendLimit m @ [v]\<rparr>)"
  by (simp_all add: tc_bank_SendAuthorization_switch_def)

context long_wire_laws
begin

lemma tc_bank_SendAuthorization_codec: "message_codec L F out inp (encode_tc_bank_SendAuthorization L) (tc_bank_SendAuthorization_switch L G) createBase_tc_bank_SendAuthorization (wf_tc_bank_SendAuthorization L)"
proof unfold_locales
  show good: "good_sw (tc_bank_SendAuthorization_switch L G)"
    unfolding tc_bank_SendAuthorization_switch_def by (intro good_swI fwd_rules)
  fix m assume "wf_tc_bank_SendAuthorization L m"
  then show "codes (tc_bank_SendAuthorization_switch L G) (encode_tc_bank_SendAuthorization L m) createBase_tc_bank_SendAuthorization m"
    unfolding encode_tc_bank_SendAuthorization_def wf_tc_bank_SendAuthorization_def tc_Coin_eqs(2)
    by (-)
      (rule codes_Cons codes_Nil [OF tc_bank_SendAuthorization.equality] codec_rules
        codes_for [where tag = 10 and u = tc_bank_SendAuthorization.spendLimit_update and op = "submsg L (decode_tc_Coin L G)", OF good]
      | assumption | (simp add: tc_bank_SendAuthorization_tags createBase_tc_bank_SendAuthorization_def; fail))+
qed

lemmas tc_bank_SendAuthorization_roundtrip = message_codec.roundtrip [OF tc_bank_SendAuthorization_codec, folded decode_tc_bank_SendAuthorization_def]

lemmas tc_bank_SendAuthorization_returns = message_codec.decode_returns [OF tc_bank_SendAuthorization_codec, folded decode_tc_bank_SendAuthorization_def]

end

lemma tc_bank_SendAuthorization_json: "message_json toJSON_tc_bank_SendAuthorization fromJSON_tc_bank_SendAuthorization wfj_tc_bank_SendAuthorization"
proof unfold_locales
  fix h m
  assume "wfj_tc_bank_SendAuthorization m"
  then show "json_rt (toJSON_tc_bank_SendAuthorization h) (fromJSON_tc_bank_SendAuthorization h) m"
    unfolding toJSON_tc_bank_SendAuthorization_def fromJSON_tc_bank_SendAuthorization_def wfj_tc_bank_SendAuthorization_def
    by (-) (rule json_rtI json_rules | assumption | (simp; fail))+
qed

lemma fromPartial_partial_of_tc_bank_Balance [simp]: "fromPartial_tc_bank_Balance (partial_of_tc_bank_Balance m) = m"
  by (simp add: fromPartial_tc_bank_Balance_def partial_of_tc_bank_Balance_def createBase_tc_bank_Balance_def partial_map_def option.map_comp o_def option.map_ident tc_Coin_eqs)

lemma tc_bank_Balance_tags:
  "tc_bank_Balance_switch L G 10 m = readf (r_string L) (\<lambda>v. m\<lparr>tc_bank_Balance.address' := v\<rparr>)"
  "tc_bank_Balance_switch L G 18 m = readf (submsg L (decode_tc_Coin L G)) (\<lambda>v. m\<lparr>tc_bank_Balance.coins := tc_bank_Balance.coins m @ [v]\<rparr>)"
  by (simp_all add: tc_bank_Balance_switch_def)

lemma fromPartial_partial_of_tc_bank_GenesisState [simp]: "fromPartial_tc_bank_GenesisState (partial_of_tc_bank_GenesisState m) = m"
  by (simp add: fromPartial_tc_bank_GenesisState_def partial_of_tc_bank_GenesisState_def createBase_tc_bank_GenesisState_def partial_map_def option.map_comp o_def option.map_ident tc_Coin_eqs)

lemma tc_bank_GenesisState_tags:
  "tc_bank_GenesisState_switch L G 10 m = readf (submsg L (decode_tc_bank_Params L G)) (\<lambda>v. m\<lparr>tc_bank_GenesisState.params := Some v\<rparr>)"
  "tc_bank_GenesisState_switch L G 18 m = readf (submsg L (decode_tc_bank_Balance L G)) (\<lambda>v. m\<lparr>tc_bank_GenesisState.balances := tc_bank_GenesisState.balances m @ [v]\<rparr>)"
  "tc_bank_GenesisState_switch L G 26 m = readf (submsg L (decode_tc_Coin L G)) (\<lambda>v. m\<lparr>tc_bank_GenesisState.supply' := tc_bank_GenesisState.supply' m @ [v]\<rparr>)"
  "tc_bank_GenesisState_switch L G 34 m = readf (submsg L (decode_tc_bank_Metadata L G)) (\<lambda>v. m\<lparr>tc_bank_GenesisState.denomMetadata := tc_bank_GenesisState.denomMetadata m @ [v]\<rparr>)"
  by (simp_all add: tc_bank_GenesisState_switch_def)

context long_wire_laws
begin

lemma tc_bank_Balance_codec: "message_codec L F out inp (encode_tc_bank_Balance L) (tc_bank_Balance_switch L G) createBase_tc_bank_Balance (wf_tc_bank_Balance L)"
proof unfold_locales
  show good: "good_sw (tc_bank_Balance_switch L G)"
    unfolding tc_bank_Balance_switch_def by (intro good_swI fwd_rules)
  fix m assume "wf_tc_bank_Balance L m"
  then show "codes (tc_bank_Balance_switch L G) (encode_tc_bank_Balance L m) createBase_tc_bank_Balance m"
    unfolding encode_tc_bank_Balance_def wf_tc_bank_Balance_def tc_Coin_eqs(2)
    by (elim conjE)
      (rule codes_Cons codes_Nil [OF tc_bank_Balance.equality] codec_rules
        codes_when [where tag = 10 and u = tc_bank_Balance.address'_update and op = "r_string L", OF good]
        codes_for [where tag = 18 and u = tc_bank_Balance.coins_update and op = "submsg L (decode_tc_Coin L G)", OF good]
      | assumption | (simp add: tc_bank_Balance_tags createBase_tc_bank_Balance_def; fail))+
qed

lemmas tc_bank_Balance_carries =
  message_codec.opt_carries [OF tc_bank_Balance_codec, folded decode_tc_bank_Balance_def]
  message_codec.list_carries [OF tc_bank_Balance_codec, folded decode_tc_bank_Balance_def]

lemmas tc_bank_Balance_good = message_codec.op_good [OF tc_bank_Balance_codec, folded decode_tc_bank_Balance_def]

lemmas tc_bank_Balance_roundtrip = message_codec.roundtrip [OF tc_bank_Balance_codec, folded decode_tc_bank_Balance_def]

lemmas tc_bank_Balance_returns = message_codec.decode_returns [OF tc_bank_Balance_codec, folded decode_tc_bank_Balance_def]

lemma tc_bank_GenesisState_codec: "message_codec L F out inp (encode_tc_bank_GenesisState L) (tc_bank_GenesisState_switch L G) createBase_tc_bank_GenesisState (wf_tc_bank_GenesisState L)"
proof unfold_locales
  show good: "good_sw (tc_bank_GenesisState_switch L G)"
    unfolding tc_bank_GenesisState_switch_def by (intro good_swI fwd_rules tc_bank_Balance_good tc_bank_Metadata_good tc_bank_Params_good)
  fix m assume "wf_tc_bank_GenesisState L m"
  then show "codes (tc_bank_GenesisState_switch L G) (encode_tc_bank_GenesisState L m) createBase_tc_bank_GenesisState m"
    unfolding encode_tc_bank_GenesisState_def wf_tc_bank_GenesisState_def tc_Coin_eqs(2)
    by (elim conjE)
      (rule codes_Cons codes_Nil [OF tc_bank_GenesisState.equality] codec_rules tc_bank_Balance_carries tc_bank_Metadata_carries tc_bank_Params_carries
        codes_some [where tag = 10 and u = tc_bank_GenesisState.params_update and op = "submsg L (decode_tc_bank_Params L G)", OF good]
        codes_for [where tag = 18 and u = tc_bank_GenesisState.balances_update and op = "submsg L (decode_tc_bank_Balance L G)", OF good]
        codes_for [where tag = 26 and u = tc_bank_GenesisState.supply'_update and op = "submsg L (decode_tc_Coin L G)", OF good]
        codes_for [where tag = 34 and u = tc_bank_GenesisState.denomMetadata_update and op = "submsg L (decode_tc_bank_Metadata L G)", OF good]
      | assumption | (simp add: tc_bank_GenesisState_tags createBase_tc_bank_GenesisState_def; fail))+
qed

lemmas tc_bank_GenesisState_roundtrip = message_codec.roundtrip [OF tc_bank_GenesisState_codec, folded decode_tc_bank_GenesisState_def]

lemmas tc_bank_GenesisState_returns = message_codec.decode_returns [OF tc_bank_GenesisState_codec, folded decode_tc_bank_GenesisState_def]

end

lemma tc_bank_Balance_json: "message_json toJSON_tc_bank_Balance fromJSON_tc_bank_Balance wfj_tc_bank_Balance"
proof unfold_locales
  fix h m
  assume "wfj_tc_bank_Balance m"
  then show "json_rt (toJSON_tc_bank_Balance h) (fromJSON_tc_bank_Balance h) m"
    unfolding toJSON_tc_bank_Balance_def fromJSON_tc_bank_Balance_def wfj_tc_bank_Balance_def
    by (-) (rule json_rtI json_rules | assumption | (simp; fail))+
qed

lemmas tc_bank_Balance_json_rules = message_json.json_list_rules [OF tc_bank_Balance_json]

lemma tc_bank_GenesisState_json: "message_json toJSON_tc_bank_GenesisState fromJSON_tc_bank_GenesisState wfj_tc_bank_GenesisState"
proof unfold_locales
  fix h m
  assume "wfj_tc_bank_GenesisState m"
  then show "json_rt (toJSON_tc_bank_GenesisState h) (fromJSON_tc_bank_GenesisState h) m"
    unfolding toJSON_tc_bank_GenesisState_def fromJSON_tc_bank_GenesisState_def wfj_tc_bank_GenesisState_def
    by (elim conjE) (rule json_rtI json_rules tc_bank_Balance_json_rules tc_bank_Metadata_json_rules tc_bank_Params_json_rules | assumption | (simp; fail))+
qed

end
