(* ===== verification/CosBankTx.thy ===== *)
theory CosBankTx
  imports CosBank
begin

unbundle bit_operations_syntax

text \<open>
  The transactions of the bank module in \<open>ts-client/cosmos.bank.v1beta1\<close>.
\<close>


section \<open>ts-client/cosmos.bank.v1beta1/types/cosmos/bank/v1beta1/tx.ts\<close>

subsection \<open>MsgSend\<close>

record tc_bank_MsgSend =
  fromAddress :: jsstring
  toAddress :: jsstring
  amount :: "Coin list"

definition createBase_tc_bank_MsgSend :: tc_bank_MsgSend where
  "createBase_tc_bank_MsgSend = \<lparr>tc_bank_MsgSend.fromAddress = [],
     tc_bank_MsgSend.toAddress = [],
     tc_bank_MsgSend.amount = []\<rparr>"

definition encode_tc_bank_MsgSend :: "('w, 'r) wire \<Rightarrow> tc_bank_MsgSend \<Rightarrow> 'w \<Rightarrow> 'w result" where
  "encode_tc_bank_MsgSend L message = seqE
    [whenE (tc_bank_MsgSend.fromAddress message \<noteq> []) (seqE [w_uint32 L 10, w_string L (tc_bank_MsgSend.fromAddress message)]),
     whenE (tc_bank_MsgSend.toAddress message \<noteq> []) (seqE [w_uint32 L 18, w_string L (tc_bank_MsgSend.toAddress message)]),
     forE (\<lambda>v. seqE [w_uint32 L 26, w_fork L, encode_tc_Coin L v, w_join L]) (tc_bank_MsgSend.amount message)]"

definition tc_bank_MsgSend_switch :: "('w, 'r) wire \<Rightarrow> long_lib \<Rightarrow> u32 \<Rightarrow> tc_bank_MsgSend \<Rightarrow> (tc_bank_MsgSend, 'r) action" where
  "tc_bank_MsgSend_switch L G tag message = js_switch (drop_bit 3 tag)
    [(1, readf (r_string L) (\<lambda>v. message\<lparr>tc_bank_MsgSend.fromAddress := v\<rparr>)),
     (2, readf (r_string L) (\<lambda>v. message\<lparr>tc_bank_MsgSend.toAddress := v\<rparr>)),
     (3, readf (submsg L (decode_tc_Coin L G)) (\<lambda>v. message\<lparr>tc_bank_MsgSend.amount := tc_bank_MsgSend.amount message @ [v]\<rparr>))]
    (skipType L tag message)"

definition decode_tc_bank_MsgSend :: "('w, 'r) wire \<Rightarrow> long_lib \<Rightarrow> 'r input \<Rightarrow> nat option \<Rightarrow> (tc_bank_MsgSend \<times> 'r) result" where
  "decode_tc_bank_MsgSend L G = decode_msg L (tc_bank_MsgSend_switch L G) createBase_tc_bank_MsgSend"

definition fromJSON_tc_bank_MsgSend :: "host \<Rightarrow> jsval \<Rightarrow> tc_bank_MsgSend result" where
  "fromJSON_tc_bank_MsgSend h object =
     bindE (fieldE object ''fromAddress'' (stringE h) []) (\<lambda>v_fromAddress.
     bindE (fieldE object ''toAddress'' (stringE h) []) (\<lambda>v_toAddress.
     bindE (arrayE object ''amount'' (fromJSON_tc_Coin h)) (\<lambda>v_amount.
     Inr \<lparr>tc_bank_MsgSend.fromAddress = v_fromAddress, tc_bank_MsgSend.toAddress = v_toAddress, tc_bank_MsgSend.amount = v_amount\<rparr>)))"

definition toJSON_tc_bank_MsgSend :: "host \<Rightarrow> tc_bank_MsgSend \<Rightarrow> jsval result" where
  "toJSON_tc_bank_MsgSend h message = objE
    [jfieldE True ''fromAddress'' (Inr (JString (tc_bank_MsgSend.fromAddress message))),
     jfieldE True ''toAddress'' (Inr (JString (tc_bank_MsgSend.toAddress message))),
     jlistE ''amount'' (toJSON_tc_Coin h) (tc_bank_MsgSend.amount message)]"

type_synonym tc_bank_MsgSend_Partial = "jsstring option \<times> jsstring option \<times> Coin_Partial list option"

definition fromPartial_tc_bank_MsgSend :: "tc_bank_MsgSend_Partial \<Rightarrow> tc_bank_MsgSend" where
  "fromPartial_tc_bank_MsgSend object = (case object of (p_fromAddress, p_toAddress, p_amount) \<Rightarrow>
     createBase_tc_bank_MsgSend\<lparr>tc_bank_MsgSend.fromAddress := nullish (p_fromAddress) [],
       tc_bank_MsgSend.toAddress := nullish (p_toAddress) [],
       tc_bank_MsgSend.amount := partial_map fromPartial_tc_Coin (p_amount)\<rparr>)"

text \<open>A partial message that sets every field.\<close>

definition partial_of_tc_bank_MsgSend :: "tc_bank_MsgSend \<Rightarrow> tc_bank_MsgSend_Partial" where
  "partial_of_tc_bank_MsgSend m =
     (Some (tc_bank_MsgSend.fromAddress m),
      Some (tc_bank_MsgSend.toAddress m),
      Some (map partial_of_Coin (tc_bank_MsgSend.amount m)))"

definition wf_tc_bank_MsgSend :: "('w, 'r) wire \<Rightarrow> tc_bank_MsgSend \<Rightarrow> bool" where
  "wf_tc_bank_MsgSend L m \<longleftrightarrow> wire_string (tc_bank_MsgSend.fromAddress m)
     \<and> wire_string (tc_bank_MsgSend.toAddress m)
     \<and> list_all (\<lambda>v. wf_Coin L v \<and> fits L (encode_Coin L v)) (tc_bank_MsgSend.amount m)"

definition wfj_tc_bank_MsgSend :: "tc_bank_MsgSend \<Rightarrow> bool" where
  "wfj_tc_bank_MsgSend m \<longleftrightarrow> list_all wfj_Coin (tc_bank_MsgSend.amount m)"

subsection \<open>MsgSendResponse\<close>

datatype tc_bank_MsgSendResponse = tc_bank_MsgSendResponse

definition createBase_tc_bank_MsgSendResponse :: tc_bank_MsgSendResponse where
  "createBase_tc_bank_MsgSendResponse = tc_bank_MsgSendResponse"

definition encode_tc_bank_MsgSendResponse :: "('w, 'r) wire \<Rightarrow> tc_bank_MsgSendResponse \<Rightarrow> 'w \<Rightarrow> 'w result" where
  "encode_tc_bank_MsgSendResponse L message = seqE
    []"

definition tc_bank_MsgSendResponse_switch :: "('w, 'r) wire \<Rightarrow> long_lib \<Rightarrow> u32 \<Rightarrow> tc_bank_MsgSendResponse \<Rightarrow> (tc_bank_MsgSendResponse, 'r) action" where
  "tc_bank_MsgSendResponse_switch L G tag message = js_switch (drop_bit 3 tag)
    []
    (skipType L tag message)"

definition decode_tc_bank_MsgSendResponse :: "('w, 'r) wire \<Rightarrow> long_lib \<Rightarrow> 'r input \<Rightarrow> nat option \<Rightarrow> (tc_bank_MsgSendResponse \<times> 'r) result" where
  "decode_tc_bank_MsgSendResponse L G = decode_msg L (tc_bank_MsgSendResponse_switch L G) createBase_tc_bank_MsgSendResponse"

definition fromJSON_tc_bank_MsgSendResponse :: "host \<Rightarrow> jsval \<Rightarrow> tc_bank_MsgSendResponse result" where
  "fromJSON_tc_bank_MsgSendResponse h object =
     Inr tc_bank_MsgSendResponse"

definition toJSON_tc_bank_MsgSendResponse :: "host \<Rightarrow> tc_bank_MsgSendResponse \<Rightarrow> jsval result" where
  "toJSON_tc_bank_MsgSendResponse h message = objE
    []"

definition fromPartial_tc_bank_MsgSendResponse :: "tc_bank_MsgSendResponse \<Rightarrow> tc_bank_MsgSendResponse" where
  "fromPartial_tc_bank_MsgSendResponse object = createBase_tc_bank_MsgSendResponse"

definition wf_tc_bank_MsgSendResponse :: "('w, 'r) wire \<Rightarrow> tc_bank_MsgSendResponse \<Rightarrow> bool" where
  "wf_tc_bank_MsgSendResponse L m \<longleftrightarrow> True"

definition wfj_tc_bank_MsgSendResponse :: "tc_bank_MsgSendResponse \<Rightarrow> bool" where
  "wfj_tc_bank_MsgSendResponse m \<longleftrightarrow> True"

subsection \<open>MsgMultiSend\<close>

record tc_bank_MsgMultiSend =
  inputs :: "tc_bank_Input list"
  outputs :: "tc_bank_Output list"

definition createBase_tc_bank_MsgMultiSend :: tc_bank_MsgMultiSend where
  "createBase_tc_bank_MsgMultiSend = \<lparr>tc_bank_MsgMultiSend.inputs = [],
     tc_bank_MsgMultiSend.outputs = []\<rparr>"

definition encode_tc_bank_MsgMultiSend :: "('w, 'r) wire \<Rightarrow> tc_bank_MsgMultiSend \<Rightarrow> 'w \<Rightarrow> 'w result" where
  "encode_tc_bank_MsgMultiSend L message = seqE
    [forE (\<lambda>v. seqE [w_uint32 L 10, w_fork L, encode_tc_bank_Input L v, w_join L]) (tc_bank_MsgMultiSend.inputs message),
     forE (\<lambda>v. seqE [w_uint32 L 18, w_fork L, encode_tc_bank_Output L v, w_join L]) (tc_bank_MsgMultiSend.outputs message)]"

definition tc_bank_MsgMultiSend_switch :: "('w, 'r) wire \<Rightarrow> long_lib \<Rightarrow> u32 \<Rightarrow> tc_bank_MsgMultiSend \<Rightarrow> (tc_bank_MsgMultiSend, 'r) action" where
  "tc_bank_MsgMultiSend_switch L G tag message = js_switch (drop_bit 3 tag)
    [(1, readf (submsg L (decode_tc_bank_Input L G)) (\<lambda>v. message\<lparr>tc_bank_MsgMultiSend.inputs := tc_bank_MsgMultiSend.inputs message @ [v]\<rparr>)),
     (2, readf (submsg L (decode_tc_bank_Output L G)) (\<lambda>v. message\<lparr>tc_bank_MsgMultiSend.outputs := tc_bank_MsgMultiSend.outputs message @ [v]\<rparr>))]
    (skipType L tag message)"

definition decode_tc_bank_MsgMultiSend :: "('w, 'r) wire \<Rightarrow> long_lib \<Rightarrow> 'r input \<Rightarrow> nat option \<Rightarrow> (tc_bank_MsgMultiSend \<times> 'r) result" where
  "decode_tc_bank_MsgMultiSend L G = decode_msg L (tc_bank_MsgMultiSend_switch L G) createBase_tc_bank_MsgMultiSend"

definition fromJSON_tc_bank_MsgMultiSend :: "host \<Rightarrow> jsval \<Rightarrow> tc_bank_MsgMultiSend result" where
  "fromJSON_tc_bank_MsgMultiSend h object =
     bindE (arrayE object ''inputs'' (fromJSON_tc_bank_Input h)) (\<lambda>v_inputs.
     bindE (arrayE object ''outputs'' (fromJSON_tc_bank_Output h)) (\<lambda>v_outputs.
     Inr \<lparr>tc_bank_MsgMultiSend.inputs = v_inputs, tc_bank_MsgMultiSend.outputs = v_outputs\<rparr>))"

definition toJSON_tc_bank_MsgMultiSend :: "host \<Rightarrow> tc_bank_MsgMultiSend \<Rightarrow> jsval result" where
  "toJSON_tc_bank_MsgMultiSend h message = objE
    [jlistE ''inputs'' (toJSON_tc_bank_Input h) (tc_bank_MsgMultiSend.inputs message),
     jlistE ''outputs'' (toJSON_tc_bank_Output h) (tc_bank_MsgMultiSend.outputs message)]"

type_synonym tc_bank_MsgMultiSend_Partial = "tc_bank_Input_Partial list option \<times> tc_bank_Output_Partial list option"

definition fromPartial_tc_bank_MsgMultiSend :: "tc_bank_MsgMultiSend_Partial \<Rightarrow> tc_bank_MsgMultiSend" where
  "fromPartial_tc_bank_MsgMultiSend object = (case object of (p_inputs, p_outputs) \<Rightarrow>
     createBase_tc_bank_MsgMultiSend\<lparr>tc_bank_MsgMultiSend.inputs := partial_map fromPartial_tc_bank_Input (p_inputs),
       tc_bank_MsgMultiSend.outputs := partial_map fromPartial_tc_bank_Output (p_outputs)\<rparr>)"

text \<open>A partial message that sets every field.\<close>

definition partial_of_tc_bank_MsgMultiSend :: "tc_bank_MsgMultiSend \<Rightarrow> tc_bank_MsgMultiSend_Partial" where
  "partial_of_tc_bank_MsgMultiSend m =
     (Some (map partial_of_tc_bank_Input (tc_bank_MsgMultiSend.inputs m)),
      Some (map partial_of_tc_bank_Output (tc_bank_MsgMultiSend.outputs m)))"

definition wf_tc_bank_MsgMultiSend :: "('w, 'r) wire \<Rightarrow> tc_bank_MsgMultiSend \<Rightarrow> bool" where
  "wf_tc_bank_MsgMultiSend L m \<longleftrightarrow> list_all (\<lambda>v. wf_tc_bank_Input L v \<and> fits L (encode_tc_bank_Input L v)) (tc_bank_MsgMultiSend.inputs m)
     \<and> list_all (\<lambda>v. wf_tc_bank_Output L v \<and> fits L (encode_tc_bank_Output L v)) (tc_bank_MsgMultiSend.outputs m)"

definition wfj_tc_bank_MsgMultiSend :: "tc_bank_MsgMultiSend \<Rightarrow> bool" where
  "wfj_tc_bank_MsgMultiSend m \<longleftrightarrow> list_all wfj_tc_bank_Input (tc_bank_MsgMultiSend.inputs m)
     \<and> list_all wfj_tc_bank_Output (tc_bank_MsgMultiSend.outputs m)"

subsection \<open>MsgMultiSendResponse\<close>

datatype tc_bank_MsgMultiSendResponse = tc_bank_MsgMultiSendResponse

definition createBase_tc_bank_MsgMultiSendResponse :: tc_bank_MsgMultiSendResponse where
  "createBase_tc_bank_MsgMultiSendResponse = tc_bank_MsgMultiSendResponse"

definition encode_tc_bank_MsgMultiSendResponse :: "('w, 'r) wire \<Rightarrow> tc_bank_MsgMultiSendResponse \<Rightarrow> 'w \<Rightarrow> 'w result" where
  "encode_tc_bank_MsgMultiSendResponse L message = seqE
    []"

definition tc_bank_MsgMultiSendResponse_switch :: "('w, 'r) wire \<Rightarrow> long_lib \<Rightarrow> u32 \<Rightarrow> tc_bank_MsgMultiSendResponse \<Rightarrow> (tc_bank_MsgMultiSendResponse, 'r) action" where
  "tc_bank_MsgMultiSendResponse_switch L G tag message = js_switch (drop_bit 3 tag)
    []
    (skipType L tag message)"

definition decode_tc_bank_MsgMultiSendResponse :: "('w, 'r) wire \<Rightarrow> long_lib \<Rightarrow> 'r input \<Rightarrow> nat option \<Rightarrow> (tc_bank_MsgMultiSendResponse \<times> 'r) result" where
  "decode_tc_bank_MsgMultiSendResponse L G = decode_msg L (tc_bank_MsgMultiSendResponse_switch L G) createBase_tc_bank_MsgMultiSendResponse"

definition fromJSON_tc_bank_MsgMultiSendResponse :: "host \<Rightarrow> jsval \<Rightarrow> tc_bank_MsgMultiSendResponse result" where
  "fromJSON_tc_bank_MsgMultiSendResponse h object =
     Inr tc_bank_MsgMultiSendResponse"

definition toJSON_tc_bank_MsgMultiSendResponse :: "host \<Rightarrow> tc_bank_MsgMultiSendResponse \<Rightarrow> jsval result" where
  "toJSON_tc_bank_MsgMultiSendResponse h message = objE
    []"

definition fromPartial_tc_bank_MsgMultiSendResponse :: "tc_bank_MsgMultiSendResponse \<Rightarrow> tc_bank_MsgMultiSendResponse" where
  "fromPartial_tc_bank_MsgMultiSendResponse object = createBase_tc_bank_MsgMultiSendResponse"

definition wf_tc_bank_MsgMultiSendResponse :: "('w, 'r) wire \<Rightarrow> tc_bank_MsgMultiSendResponse \<Rightarrow> bool" where
  "wf_tc_bank_MsgMultiSendResponse L m \<longleftrightarrow> True"

definition wfj_tc_bank_MsgMultiSendResponse :: "tc_bank_MsgMultiSendResponse \<Rightarrow> bool" where
  "wfj_tc_bank_MsgMultiSendResponse m \<longleftrightarrow> True"


subsection \<open>The gRPC client\<close>

definition tc_bank_MsgClientImpl_Send :: "('w, 'r) wire \<Rightarrow> long_lib \<Rightarrow> 's rpc \<Rightarrow> tc_bank_MsgSend \<Rightarrow> 's \<Rightarrow> tc_bank_MsgSendResponse outcome \<times> 's" where
  "tc_bank_MsgClientImpl_Send L G tr = tc_unary L tr (js ''cosmos.bank.v1beta1.Msg'') (js ''Send'') (encode_tc_bank_MsgSend L) (decode_tc_bank_MsgSendResponse L G)"

definition tc_bank_MsgClientImpl_MultiSend :: "('w, 'r) wire \<Rightarrow> long_lib \<Rightarrow> 's rpc \<Rightarrow> tc_bank_MsgMultiSend \<Rightarrow> 's \<Rightarrow> tc_bank_MsgMultiSendResponse outcome \<times> 's" where
  "tc_bank_MsgClientImpl_MultiSend L G tr = tc_unary L tr (js ''cosmos.bank.v1beta1.Msg'') (js ''MultiSend'') (encode_tc_bank_MsgMultiSend L) (decode_tc_bank_MsgMultiSendResponse L G)"


section \<open>Encoding, decoding and JSON of these messages\<close>

lemma fromPartial_partial_of_tc_bank_MsgSend [simp]: "fromPartial_tc_bank_MsgSend (partial_of_tc_bank_MsgSend m) = m"
  by (simp add: fromPartial_tc_bank_MsgSend_def partial_of_tc_bank_MsgSend_def createBase_tc_bank_MsgSend_def partial_map_def option.map_comp o_def option.map_ident tc_Coin_eqs)

lemma tc_bank_MsgSend_tags:
  "tc_bank_MsgSend_switch L G 10 m = readf (r_string L) (\<lambda>v. m\<lparr>tc_bank_MsgSend.fromAddress := v\<rparr>)"
  "tc_bank_MsgSend_switch L G 18 m = readf (r_string L) (\<lambda>v. m\<lparr>tc_bank_MsgSend.toAddress := v\<rparr>)"
  "tc_bank_MsgSend_switch L G 26 m = readf (submsg L (decode_tc_Coin L G)) (\<lambda>v. m\<lparr>tc_bank_MsgSend.amount := tc_bank_MsgSend.amount m @ [v]\<rparr>)"
  by (simp_all add: tc_bank_MsgSend_switch_def)

lemma fromPartial_tc_bank_MsgSendResponse_id [simp]: "fromPartial_tc_bank_MsgSendResponse = (\<lambda>m. m)"
  by (rule ext, rename_tac m, case_tac m) (simp add: fromPartial_tc_bank_MsgSendResponse_def createBase_tc_bank_MsgSendResponse_def)

lemma fromPartial_partial_of_tc_bank_MsgMultiSend [simp]: "fromPartial_tc_bank_MsgMultiSend (partial_of_tc_bank_MsgMultiSend m) = m"
  by (simp add: fromPartial_tc_bank_MsgMultiSend_def partial_of_tc_bank_MsgMultiSend_def createBase_tc_bank_MsgMultiSend_def partial_map_def option.map_comp o_def option.map_ident)

lemma tc_bank_MsgMultiSend_tags:
  "tc_bank_MsgMultiSend_switch L G 10 m = readf (submsg L (decode_tc_bank_Input L G)) (\<lambda>v. m\<lparr>tc_bank_MsgMultiSend.inputs := tc_bank_MsgMultiSend.inputs m @ [v]\<rparr>)"
  "tc_bank_MsgMultiSend_switch L G 18 m = readf (submsg L (decode_tc_bank_Output L G)) (\<lambda>v. m\<lparr>tc_bank_MsgMultiSend.outputs := tc_bank_MsgMultiSend.outputs m @ [v]\<rparr>)"
  by (simp_all add: tc_bank_MsgMultiSend_switch_def)

lemma fromPartial_tc_bank_MsgMultiSendResponse_id [simp]: "fromPartial_tc_bank_MsgMultiSendResponse = (\<lambda>m. m)"
  by (rule ext, rename_tac m, case_tac m) (simp add: fromPartial_tc_bank_MsgMultiSendResponse_def createBase_tc_bank_MsgMultiSendResponse_def)

context long_wire_laws
begin

lemma tc_bank_MsgSend_codec: "message_codec L F out inp (encode_tc_bank_MsgSend L) (tc_bank_MsgSend_switch L G) createBase_tc_bank_MsgSend (wf_tc_bank_MsgSend L)"
proof unfold_locales
  show good: "good_sw (tc_bank_MsgSend_switch L G)"
    unfolding tc_bank_MsgSend_switch_def by (intro good_swI fwd_rules)
  fix m assume "wf_tc_bank_MsgSend L m"
  then show "codes (tc_bank_MsgSend_switch L G) (encode_tc_bank_MsgSend L m) createBase_tc_bank_MsgSend m"
    unfolding encode_tc_bank_MsgSend_def wf_tc_bank_MsgSend_def tc_Coin_eqs(2)
    by (elim conjE)
      (rule codes_Cons codes_Nil [OF tc_bank_MsgSend.equality] codec_rules
        codes_when [where tag = 10 and u = tc_bank_MsgSend.fromAddress_update and op = "r_string L", OF good]
        codes_when [where tag = 18 and u = tc_bank_MsgSend.toAddress_update and op = "r_string L", OF good]
        codes_for [where tag = 26 and u = tc_bank_MsgSend.amount_update and op = "submsg L (decode_tc_Coin L G)", OF good]
      | assumption | (simp add: tc_bank_MsgSend_tags createBase_tc_bank_MsgSend_def; fail))+
qed

lemmas tc_bank_MsgSend_roundtrip = message_codec.roundtrip [OF tc_bank_MsgSend_codec, folded decode_tc_bank_MsgSend_def]

lemmas tc_bank_MsgSend_returns = message_codec.decode_returns [OF tc_bank_MsgSend_codec, folded decode_tc_bank_MsgSend_def]

lemma tc_bank_MsgSendResponse_codec: "message_codec L F out inp (encode_tc_bank_MsgSendResponse L) (tc_bank_MsgSendResponse_switch L G) createBase_tc_bank_MsgSendResponse (wf_tc_bank_MsgSendResponse L)"
proof unfold_locales
  show good: "good_sw (tc_bank_MsgSendResponse_switch L G)"
    unfolding tc_bank_MsgSendResponse_switch_def by (intro good_swI fwd_rules)
  fix m assume "wf_tc_bank_MsgSendResponse L m"
  then show "codes (tc_bank_MsgSendResponse_switch L G) (encode_tc_bank_MsgSendResponse L m) createBase_tc_bank_MsgSendResponse m"
    unfolding encode_tc_bank_MsgSendResponse_def wf_tc_bank_MsgSendResponse_def
    by (cases m) (simp add: createBase_tc_bank_MsgSendResponse_def codes_Nil [simplified])
qed

lemmas tc_bank_MsgSendResponse_roundtrip = message_codec.roundtrip [OF tc_bank_MsgSendResponse_codec, folded decode_tc_bank_MsgSendResponse_def]

lemmas tc_bank_MsgSendResponse_returns = message_codec.decode_returns [OF tc_bank_MsgSendResponse_codec, folded decode_tc_bank_MsgSendResponse_def]

lemma tc_bank_MsgMultiSend_codec: "message_codec L F out inp (encode_tc_bank_MsgMultiSend L) (tc_bank_MsgMultiSend_switch L G) createBase_tc_bank_MsgMultiSend (wf_tc_bank_MsgMultiSend L)"
proof unfold_locales
  show good: "good_sw (tc_bank_MsgMultiSend_switch L G)"
    unfolding tc_bank_MsgMultiSend_switch_def by (intro good_swI fwd_rules tc_bank_Input_good tc_bank_Output_good)
  fix m assume "wf_tc_bank_MsgMultiSend L m"
  then show "codes (tc_bank_MsgMultiSend_switch L G) (encode_tc_bank_MsgMultiSend L m) createBase_tc_bank_MsgMultiSend m"
    unfolding encode_tc_bank_MsgMultiSend_def wf_tc_bank_MsgMultiSend_def
    by (elim conjE)
      (rule codes_Cons codes_Nil [OF tc_bank_MsgMultiSend.equality] codec_rules tc_bank_Input_carries tc_bank_Output_carries
        codes_for [where tag = 10 and u = tc_bank_MsgMultiSend.inputs_update and op = "submsg L (decode_tc_bank_Input L G)", OF good]
        codes_for [where tag = 18 and u = tc_bank_MsgMultiSend.outputs_update and op = "submsg L (decode_tc_bank_Output L G)", OF good]
      | assumption | (simp add: tc_bank_MsgMultiSend_tags createBase_tc_bank_MsgMultiSend_def; fail))+
qed

lemmas tc_bank_MsgMultiSend_roundtrip = message_codec.roundtrip [OF tc_bank_MsgMultiSend_codec, folded decode_tc_bank_MsgMultiSend_def]

lemmas tc_bank_MsgMultiSend_returns = message_codec.decode_returns [OF tc_bank_MsgMultiSend_codec, folded decode_tc_bank_MsgMultiSend_def]

lemma tc_bank_MsgMultiSendResponse_codec: "message_codec L F out inp (encode_tc_bank_MsgMultiSendResponse L) (tc_bank_MsgMultiSendResponse_switch L G) createBase_tc_bank_MsgMultiSendResponse (wf_tc_bank_MsgMultiSendResponse L)"
proof unfold_locales
  show good: "good_sw (tc_bank_MsgMultiSendResponse_switch L G)"
    unfolding tc_bank_MsgMultiSendResponse_switch_def by (intro good_swI fwd_rules)
  fix m assume "wf_tc_bank_MsgMultiSendResponse L m"
  then show "codes (tc_bank_MsgMultiSendResponse_switch L G) (encode_tc_bank_MsgMultiSendResponse L m) createBase_tc_bank_MsgMultiSendResponse m"
    unfolding encode_tc_bank_MsgMultiSendResponse_def wf_tc_bank_MsgMultiSendResponse_def
    by (cases m) (simp add: createBase_tc_bank_MsgMultiSendResponse_def codes_Nil [simplified])
qed

lemmas tc_bank_MsgMultiSendResponse_roundtrip = message_codec.roundtrip [OF tc_bank_MsgMultiSendResponse_codec, folded decode_tc_bank_MsgMultiSendResponse_def]

lemmas tc_bank_MsgMultiSendResponse_returns = message_codec.decode_returns [OF tc_bank_MsgMultiSendResponse_codec, folded decode_tc_bank_MsgMultiSendResponse_def]

end

lemma tc_bank_MsgSend_json: "message_json toJSON_tc_bank_MsgSend fromJSON_tc_bank_MsgSend wfj_tc_bank_MsgSend"
proof unfold_locales
  fix h m
  assume "wfj_tc_bank_MsgSend m"
  then show "json_rt (toJSON_tc_bank_MsgSend h) (fromJSON_tc_bank_MsgSend h) m"
    unfolding toJSON_tc_bank_MsgSend_def fromJSON_tc_bank_MsgSend_def wfj_tc_bank_MsgSend_def
    by (-) (rule json_rtI json_rules | assumption | (simp; fail))+
qed

lemma tc_bank_MsgSendResponse_json: "message_json toJSON_tc_bank_MsgSendResponse fromJSON_tc_bank_MsgSendResponse wfj_tc_bank_MsgSendResponse"
proof unfold_locales
  fix h m
  show "json_rt (toJSON_tc_bank_MsgSendResponse h) (fromJSON_tc_bank_MsgSendResponse h) m"
    by (cases m) (simp add: json_rt_def toJSON_tc_bank_MsgSendResponse_def fromJSON_tc_bank_MsgSendResponse_def objE_rules(1))
qed

lemma tc_bank_MsgMultiSend_json: "message_json toJSON_tc_bank_MsgMultiSend fromJSON_tc_bank_MsgMultiSend wfj_tc_bank_MsgMultiSend"
proof unfold_locales
  fix h m
  assume "wfj_tc_bank_MsgMultiSend m"
  then show "json_rt (toJSON_tc_bank_MsgMultiSend h) (fromJSON_tc_bank_MsgMultiSend h) m"
    unfolding toJSON_tc_bank_MsgMultiSend_def fromJSON_tc_bank_MsgMultiSend_def wfj_tc_bank_MsgMultiSend_def
    by (elim conjE) (rule json_rtI json_rules tc_bank_Input_json_rules tc_bank_Output_json_rules | assumption | (simp; fail))+
qed

lemma tc_bank_MsgMultiSendResponse_json: "message_json toJSON_tc_bank_MsgMultiSendResponse fromJSON_tc_bank_MsgMultiSendResponse wfj_tc_bank_MsgMultiSendResponse"
proof unfold_locales
  fix h m
  show "json_rt (toJSON_tc_bank_MsgMultiSendResponse h) (fromJSON_tc_bank_MsgMultiSendResponse h) m"
    by (cases m) (simp add: json_rt_def toJSON_tc_bank_MsgMultiSendResponse_def fromJSON_tc_bank_MsgMultiSendResponse_def objE_rules(1))
qed


section \<open>Calls over a transport that is served\<close>

context long_wire_laws
begin

lemma tc_bank_MsgClientImpl_Send_refines:
  "refines_handler L (decode_tc_bank_MsgSend L G) (encode_tc_bank_MsgSendResponse L) (wf_tc_bank_MsgSend L) (wf_tc_bank_MsgSendResponse L)
     (tc_bank_MsgClientImpl_Send L G) (js ''cosmos.bank.v1beta1.Msg'') (js ''Send'')"
  unfolding tc_bank_MsgClientImpl_Send_def [abs_def] decode_tc_bank_MsgSend_def decode_tc_bank_MsgSendResponse_def
  by (rule refines_unary [OF tc_bank_MsgSend_codec tc_bank_MsgSendResponse_codec])

lemma tc_bank_MsgClientImpl_MultiSend_refines:
  "refines_handler L (decode_tc_bank_MsgMultiSend L G) (encode_tc_bank_MsgMultiSendResponse L) (wf_tc_bank_MsgMultiSend L) (wf_tc_bank_MsgMultiSendResponse L)
     (tc_bank_MsgClientImpl_MultiSend L G) (js ''cosmos.bank.v1beta1.Msg'') (js ''MultiSend'')"
  unfolding tc_bank_MsgClientImpl_MultiSend_def [abs_def] decode_tc_bank_MsgMultiSend_def decode_tc_bank_MsgMultiSendResponse_def
  by (rule refines_unary [OF tc_bank_MsgMultiSend_codec tc_bank_MsgMultiSendResponse_codec])

end

end
