(* ===== verification/CosCrisis.thy ===== *)
theory CosCrisis
  imports CosmosAny
begin

unbundle bit_operations_syntax

text \<open>
  The messages of the crisis module in \<open>ts-client/cosmos.crisis.v1beta1\<close>.
\<close>


section \<open>ts-client/cosmos.crisis.v1beta1/types/cosmos/crisis/v1beta1/genesis.ts\<close>

subsection \<open>GenesisState\<close>

record tc_crisis_GenesisState =
  constantFee :: "Coin option"

definition createBase_tc_crisis_GenesisState :: tc_crisis_GenesisState where
  "createBase_tc_crisis_GenesisState = \<lparr>tc_crisis_GenesisState.constantFee = None\<rparr>"

definition encode_tc_crisis_GenesisState :: "('w, 'r) wire \<Rightarrow> tc_crisis_GenesisState \<Rightarrow> 'w \<Rightarrow> 'w result" where
  "encode_tc_crisis_GenesisState L message = seqE
    [someE (tc_crisis_GenesisState.constantFee message) (\<lambda>v. seqE [w_uint32 L 26, w_fork L, encode_tc_Coin L v, w_join L])]"

definition tc_crisis_GenesisState_switch :: "('w, 'r) wire \<Rightarrow> long_lib \<Rightarrow> u32 \<Rightarrow> tc_crisis_GenesisState \<Rightarrow> (tc_crisis_GenesisState, 'r) action" where
  "tc_crisis_GenesisState_switch L G tag message = js_switch (drop_bit 3 tag)
    [(3, readf (submsg L (decode_tc_Coin L G)) (\<lambda>v. message\<lparr>tc_crisis_GenesisState.constantFee := Some v\<rparr>))]
    (skipType L tag message)"

definition decode_tc_crisis_GenesisState :: "('w, 'r) wire \<Rightarrow> long_lib \<Rightarrow> 'r input \<Rightarrow> nat option \<Rightarrow> (tc_crisis_GenesisState \<times> 'r) result" where
  "decode_tc_crisis_GenesisState L G = decode_msg L (tc_crisis_GenesisState_switch L G) createBase_tc_crisis_GenesisState"

definition fromJSON_tc_crisis_GenesisState :: "host \<Rightarrow> jsval \<Rightarrow> tc_crisis_GenesisState result" where
  "fromJSON_tc_crisis_GenesisState h object =
     bindE (optE object ''constantFee'' (fromJSON_tc_Coin h)) (\<lambda>v_constantFee.
     Inr \<lparr>tc_crisis_GenesisState.constantFee = v_constantFee\<rparr>)"

definition toJSON_tc_crisis_GenesisState :: "host \<Rightarrow> tc_crisis_GenesisState \<Rightarrow> jsval result" where
  "toJSON_tc_crisis_GenesisState h message = objE
    [joptE ''constantFee'' (toJSON_tc_Coin h) (tc_crisis_GenesisState.constantFee message)]"

type_synonym tc_crisis_GenesisState_Partial = "Coin_Partial option"

definition fromPartial_tc_crisis_GenesisState :: "tc_crisis_GenesisState_Partial \<Rightarrow> tc_crisis_GenesisState" where
  "fromPartial_tc_crisis_GenesisState object = (case object of p_constantFee \<Rightarrow>
     createBase_tc_crisis_GenesisState\<lparr>tc_crisis_GenesisState.constantFee := map_option fromPartial_tc_Coin (p_constantFee)\<rparr>)"

text \<open>A partial message that sets every field.\<close>

definition partial_of_tc_crisis_GenesisState :: "tc_crisis_GenesisState \<Rightarrow> tc_crisis_GenesisState_Partial" where
  "partial_of_tc_crisis_GenesisState m =
     (map_option partial_of_Coin (tc_crisis_GenesisState.constantFee m))"

definition wf_tc_crisis_GenesisState :: "('w, 'r) wire \<Rightarrow> tc_crisis_GenesisState \<Rightarrow> bool" where
  "wf_tc_crisis_GenesisState L m \<longleftrightarrow> pred_option (\<lambda>v. wf_Coin L v \<and> fits L (encode_Coin L v)) (tc_crisis_GenesisState.constantFee m)"

definition wfj_tc_crisis_GenesisState :: "tc_crisis_GenesisState \<Rightarrow> bool" where
  "wfj_tc_crisis_GenesisState m \<longleftrightarrow> pred_option wfj_Coin (tc_crisis_GenesisState.constantFee m)"


section \<open>ts-client/cosmos.crisis.v1beta1/types/cosmos/crisis/v1beta1/tx.ts\<close>

subsection \<open>MsgVerifyInvariant\<close>

record tc_crisis_MsgVerifyInvariant =
  sender :: jsstring
  invariantModuleName :: jsstring
  invariantRoute :: jsstring

definition createBase_tc_crisis_MsgVerifyInvariant :: tc_crisis_MsgVerifyInvariant where
  "createBase_tc_crisis_MsgVerifyInvariant = \<lparr>tc_crisis_MsgVerifyInvariant.sender = [],
     tc_crisis_MsgVerifyInvariant.invariantModuleName = [],
     tc_crisis_MsgVerifyInvariant.invariantRoute = []\<rparr>"

definition encode_tc_crisis_MsgVerifyInvariant :: "('w, 'r) wire \<Rightarrow> tc_crisis_MsgVerifyInvariant \<Rightarrow> 'w \<Rightarrow> 'w result" where
  "encode_tc_crisis_MsgVerifyInvariant L message = seqE
    [whenE (tc_crisis_MsgVerifyInvariant.sender message \<noteq> []) (seqE [w_uint32 L 10, w_string L (tc_crisis_MsgVerifyInvariant.sender message)]),
     whenE (tc_crisis_MsgVerifyInvariant.invariantModuleName message \<noteq> []) (seqE [w_uint32 L 18, w_string L (tc_crisis_MsgVerifyInvariant.invariantModuleName message)]),
     whenE (tc_crisis_MsgVerifyInvariant.invariantRoute message \<noteq> []) (seqE [w_uint32 L 26, w_string L (tc_crisis_MsgVerifyInvariant.invariantRoute message)])]"

definition tc_crisis_MsgVerifyInvariant_switch :: "('w, 'r) wire \<Rightarrow> long_lib \<Rightarrow> u32 \<Rightarrow> tc_crisis_MsgVerifyInvariant \<Rightarrow> (tc_crisis_MsgVerifyInvariant, 'r) action" where
  "tc_crisis_MsgVerifyInvariant_switch L G tag message = js_switch (drop_bit 3 tag)
    [(1, readf (r_string L) (\<lambda>v. message\<lparr>tc_crisis_MsgVerifyInvariant.sender := v\<rparr>)),
     (2, readf (r_string L) (\<lambda>v. message\<lparr>tc_crisis_MsgVerifyInvariant.invariantModuleName := v\<rparr>)),
     (3, readf (r_string L) (\<lambda>v. message\<lparr>tc_crisis_MsgVerifyInvariant.invariantRoute := v\<rparr>))]
    (skipType L tag message)"

definition decode_tc_crisis_MsgVerifyInvariant :: "('w, 'r) wire \<Rightarrow> long_lib \<Rightarrow> 'r input \<Rightarrow> nat option \<Rightarrow> (tc_crisis_MsgVerifyInvariant \<times> 'r) result" where
  "decode_tc_crisis_MsgVerifyInvariant L G = decode_msg L (tc_crisis_MsgVerifyInvariant_switch L G) createBase_tc_crisis_MsgVerifyInvariant"

definition fromJSON_tc_crisis_MsgVerifyInvariant :: "host \<Rightarrow> jsval \<Rightarrow> tc_crisis_MsgVerifyInvariant result" where
  "fromJSON_tc_crisis_MsgVerifyInvariant h object =
     bindE (fieldE object ''sender'' (stringE h) []) (\<lambda>v_sender.
     bindE (fieldE object ''invariantModuleName'' (stringE h) []) (\<lambda>v_invariantModuleName.
     bindE (fieldE object ''invariantRoute'' (stringE h) []) (\<lambda>v_invariantRoute.
     Inr \<lparr>tc_crisis_MsgVerifyInvariant.sender = v_sender, tc_crisis_MsgVerifyInvariant.invariantModuleName = v_invariantModuleName, tc_crisis_MsgVerifyInvariant.invariantRoute = v_invariantRoute\<rparr>)))"

definition toJSON_tc_crisis_MsgVerifyInvariant :: "host \<Rightarrow> tc_crisis_MsgVerifyInvariant \<Rightarrow> jsval result" where
  "toJSON_tc_crisis_MsgVerifyInvariant h message = objE
    [jfieldE True ''sender'' (Inr (JString (tc_crisis_MsgVerifyInvariant.sender message))),
     jfieldE True ''invariantModuleName'' (Inr (JString (tc_crisis_MsgVerifyInvariant.invariantModuleName message))),
     jfieldE True ''invariantRoute'' (Inr (JString (tc_crisis_MsgVerifyInvariant.invariantRoute message)))]"

type_synonym tc_crisis_MsgVerifyInvariant_Partial = "jsstring option \<times> jsstring option \<times> jsstring option"

definition fromPartial_tc_crisis_MsgVerifyInvariant :: "tc_crisis_MsgVerifyInvariant_Partial \<Rightarrow> tc_crisis_MsgVerifyInvariant" where
  "fromPartial_tc_crisis_MsgVerifyInvariant object = (case object of (p_sender, p_invariantModuleName, p_invariantRoute) \<Rightarrow>
     createBase_tc_crisis_MsgVerifyInvariant\<lparr>tc_crisis_MsgVerifyInvariant.sender := nullish (p_sender) [],
       tc_crisis_MsgVerifyInvariant.invariantModuleName := nullish (p_invariantModuleName) [],
       tc_crisis_MsgVerifyInvariant.invariantRoute := nullish (p_invariantRoute) []\<rparr>)"

text \<open>A partial message that sets every field.\<close>

definition partial_of_tc_crisis_MsgVerifyInvariant :: "tc_crisis_MsgVerifyInvariant \<Rightarrow> tc_crisis_MsgVerifyInvariant_Partial" where
  "partial_of_tc_crisis_MsgVerifyInvariant m =
     (Some (tc_crisis_MsgVerifyInvariant.sender m),
      Some (tc_crisis_MsgVerifyInvariant.invariantModuleName m),
      Some (tc_crisis_MsgVerifyInvariant.invariantRoute m))"

definition wf_tc_crisis_MsgVerifyInvariant :: "('w, 'r) wire \<Rightarrow> tc_crisis_MsgVerifyInvariant \<Rightarrow> bool" where
  "wf_tc_crisis_MsgVerifyInvariant L m \<longleftrightarrow> wire_string (tc_crisis_MsgVerifyInvariant.sender m)
     \<and> wire_string (tc_crisis_MsgVerifyInvariant.invariantModuleName m)
     \<and> wire_string (tc_crisis_MsgVerifyInvariant.invariantRoute m)"

definition wfj_tc_crisis_MsgVerifyInvariant :: "tc_crisis_MsgVerifyInvariant \<Rightarrow> bool" where
  "wfj_tc_crisis_MsgVerifyInvariant m \<longleftrightarrow> True"

subsection \<open>MsgVerifyInvariantResponse\<close>

datatype tc_crisis_MsgVerifyInvariantResponse = tc_crisis_MsgVerifyInvariantResponse

definition createBase_tc_crisis_MsgVerifyInvariantResponse :: tc_crisis_MsgVerifyInvariantResponse where
  "createBase_tc_crisis_MsgVerifyInvariantResponse = tc_crisis_MsgVerifyInvariantResponse"

definition encode_tc_crisis_MsgVerifyInvariantResponse :: "('w, 'r) wire \<Rightarrow> tc_crisis_MsgVerifyInvariantResponse \<Rightarrow> 'w \<Rightarrow> 'w result" where
  "encode_tc_crisis_MsgVerifyInvariantResponse L message = seqE
    []"

definition tc_crisis_MsgVerifyInvariantResponse_switch :: "('w, 'r) wire \<Rightarrow> long_lib \<Rightarrow> u32 \<Rightarrow> tc_crisis_MsgVerifyInvariantResponse \<Rightarrow> (tc_crisis_MsgVerifyInvariantResponse, 'r) action" where
  "tc_crisis_MsgVerifyInvariantResponse_switch L G tag message = js_switch (drop_bit 3 tag)
    []
    (skipType L tag message)"

definition decode_tc_crisis_MsgVerifyInvariantResponse :: "('w, 'r) wire \<Rightarrow> long_lib \<Rightarrow> 'r input \<Rightarrow> nat option \<Rightarrow> (tc_crisis_MsgVerifyInvariantResponse \<times> 'r) result" where
  "decode_tc_crisis_MsgVerifyInvariantResponse L G = decode_msg L (tc_crisis_MsgVerifyInvariantResponse_switch L G) createBase_tc_crisis_MsgVerifyInvariantResponse"

definition fromJSON_tc_crisis_MsgVerifyInvariantResponse :: "host \<Rightarrow> jsval \<Rightarrow> tc_crisis_MsgVerifyInvariantResponse result" where
  "fromJSON_tc_crisis_MsgVerifyInvariantResponse h object =
     Inr tc_crisis_MsgVerifyInvariantResponse"

definition toJSON_tc_crisis_MsgVerifyInvariantResponse :: "host \<Rightarrow> tc_crisis_MsgVerifyInvariantResponse \<Rightarrow> jsval result" where
  "toJSON_tc_crisis_MsgVerifyInvariantResponse h message = objE
    []"

definition fromPartial_tc_crisis_MsgVerifyInvariantResponse :: "tc_crisis_MsgVerifyInvariantResponse \<Rightarrow> tc_crisis_MsgVerifyInvariantResponse" where
  "fromPartial_tc_crisis_MsgVerifyInvariantResponse object = createBase_tc_crisis_MsgVerifyInvariantResponse"

definition wf_tc_crisis_MsgVerifyInvariantResponse :: "('w, 'r) wire \<Rightarrow> tc_crisis_MsgVerifyInvariantResponse \<Rightarrow> bool" where
  "wf_tc_crisis_MsgVerifyInvariantResponse L m \<longleftrightarrow> True"

definition wfj_tc_crisis_MsgVerifyInvariantResponse :: "tc_crisis_MsgVerifyInvariantResponse \<Rightarrow> bool" where
  "wfj_tc_crisis_MsgVerifyInvariantResponse m \<longleftrightarrow> True"


subsection \<open>The gRPC client\<close>

definition tc_crisis_MsgClientImpl_VerifyInvariant :: "('w, 'r) wire \<Rightarrow> long_lib \<Rightarrow> 's rpc \<Rightarrow> tc_crisis_MsgVerifyInvariant \<Rightarrow> 's \<Rightarrow> tc_crisis_MsgVerifyInvariantResponse outcome \<times> 's" where
  "tc_crisis_MsgClientImpl_VerifyInvariant L G tr = tc_unary L tr (js ''cosmos.crisis.v1beta1.Msg'') (js ''VerifyInvariant'') (encode_tc_crisis_MsgVerifyInvariant L) (decode_tc_crisis_MsgVerifyInvariantResponse L G)"


section \<open>Encoding, decoding and JSON of these messages\<close>

lemma fromPartial_partial_of_tc_crisis_GenesisState [simp]: "fromPartial_tc_crisis_GenesisState (partial_of_tc_crisis_GenesisState m) = m"
  by (simp add: fromPartial_tc_crisis_GenesisState_def partial_of_tc_crisis_GenesisState_def createBase_tc_crisis_GenesisState_def partial_map_def option.map_comp o_def option.map_ident tc_Coin_eqs)

lemma tc_crisis_GenesisState_tags:
  "tc_crisis_GenesisState_switch L G 26 m = readf (submsg L (decode_tc_Coin L G)) (\<lambda>v. m\<lparr>tc_crisis_GenesisState.constantFee := Some v\<rparr>)"
  by (simp_all add: tc_crisis_GenesisState_switch_def)

context long_wire_laws
begin

lemma tc_crisis_GenesisState_codec: "message_codec L F out inp (encode_tc_crisis_GenesisState L) (tc_crisis_GenesisState_switch L G) createBase_tc_crisis_GenesisState (wf_tc_crisis_GenesisState L)"
proof unfold_locales
  show good: "good_sw (tc_crisis_GenesisState_switch L G)"
    unfolding tc_crisis_GenesisState_switch_def by (intro good_swI fwd_rules)
  fix m assume "wf_tc_crisis_GenesisState L m"
  then show "codes (tc_crisis_GenesisState_switch L G) (encode_tc_crisis_GenesisState L m) createBase_tc_crisis_GenesisState m"
    unfolding encode_tc_crisis_GenesisState_def wf_tc_crisis_GenesisState_def tc_Coin_eqs(2)
    by (-)
      (rule codes_Cons codes_Nil [OF tc_crisis_GenesisState.equality] codec_rules
        codes_some [where tag = 26 and u = tc_crisis_GenesisState.constantFee_update and op = "submsg L (decode_tc_Coin L G)", OF good]
      | assumption | (simp add: tc_crisis_GenesisState_tags createBase_tc_crisis_GenesisState_def; fail))+
qed

lemmas tc_crisis_GenesisState_roundtrip = message_codec.roundtrip [OF tc_crisis_GenesisState_codec, folded decode_tc_crisis_GenesisState_def]

lemmas tc_crisis_GenesisState_returns = message_codec.decode_returns [OF tc_crisis_GenesisState_codec, folded decode_tc_crisis_GenesisState_def]

end

lemma tc_crisis_GenesisState_json: "message_json toJSON_tc_crisis_GenesisState fromJSON_tc_crisis_GenesisState wfj_tc_crisis_GenesisState"
proof unfold_locales
  fix h m
  assume "wfj_tc_crisis_GenesisState m"
  then show "json_rt (toJSON_tc_crisis_GenesisState h) (fromJSON_tc_crisis_GenesisState h) m"
    unfolding toJSON_tc_crisis_GenesisState_def fromJSON_tc_crisis_GenesisState_def wfj_tc_crisis_GenesisState_def
    by (-) (rule json_rtI json_rules | assumption | (simp; fail))+
qed

lemma fromPartial_partial_of_tc_crisis_MsgVerifyInvariant [simp]: "fromPartial_tc_crisis_MsgVerifyInvariant (partial_of_tc_crisis_MsgVerifyInvariant m) = m"
  by (simp add: fromPartial_tc_crisis_MsgVerifyInvariant_def partial_of_tc_crisis_MsgVerifyInvariant_def createBase_tc_crisis_MsgVerifyInvariant_def partial_map_def option.map_comp o_def option.map_ident)

lemma tc_crisis_MsgVerifyInvariant_tags:
  "tc_crisis_MsgVerifyInvariant_switch L G 10 m = readf (r_string L) (\<lambda>v. m\<lparr>tc_crisis_MsgVerifyInvariant.sender := v\<rparr>)"
  "tc_crisis_MsgVerifyInvariant_switch L G 18 m = readf (r_string L) (\<lambda>v. m\<lparr>tc_crisis_MsgVerifyInvariant.invariantModuleName := v\<rparr>)"
  "tc_crisis_MsgVerifyInvariant_switch L G 26 m = readf (r_string L) (\<lambda>v. m\<lparr>tc_crisis_MsgVerifyInvariant.invariantRoute := v\<rparr>)"
  by (simp_all add: tc_crisis_MsgVerifyInvariant_switch_def)

lemma fromPartial_tc_crisis_MsgVerifyInvariantResponse_id [simp]: "fromPartial_tc_crisis_MsgVerifyInvariantResponse = (\<lambda>m. m)"
  by (rule ext, rename_tac m, case_tac m) (simp add: fromPartial_tc_crisis_MsgVerifyInvariantResponse_def createBase_tc_crisis_MsgVerifyInvariantResponse_def)

context long_wire_laws
begin

lemma tc_crisis_MsgVerifyInvariant_codec: "message_codec L F out inp (encode_tc_crisis_MsgVerifyInvariant L) (tc_crisis_MsgVerifyInvariant_switch L G) createBase_tc_crisis_MsgVerifyInvariant (wf_tc_crisis_MsgVerifyInvariant L)"
proof unfold_locales
  show good: "good_sw (tc_crisis_MsgVerifyInvariant_switch L G)"
    unfolding tc_crisis_MsgVerifyInvariant_switch_def by (intro good_swI fwd_rules)
  fix m assume "wf_tc_crisis_MsgVerifyInvariant L m"
  then show "codes (tc_crisis_MsgVerifyInvariant_switch L G) (encode_tc_crisis_MsgVerifyInvariant L m) createBase_tc_crisis_MsgVerifyInvariant m"
    unfolding encode_tc_crisis_MsgVerifyInvariant_def wf_tc_crisis_MsgVerifyInvariant_def
    by (elim conjE)
      (rule codes_Cons codes_Nil [OF tc_crisis_MsgVerifyInvariant.equality] codec_rules
        codes_when [where tag = 10 and u = tc_crisis_MsgVerifyInvariant.sender_update and op = "r_string L", OF good]
        codes_when [where tag = 18 and u = tc_crisis_MsgVerifyInvariant.invariantModuleName_update and op = "r_string L", OF good]
        codes_when [where tag = 26 and u = tc_crisis_MsgVerifyInvariant.invariantRoute_update and op = "r_string L", OF good]
      | assumption | (simp add: tc_crisis_MsgVerifyInvariant_tags createBase_tc_crisis_MsgVerifyInvariant_def; fail))+
qed

lemmas tc_crisis_MsgVerifyInvariant_roundtrip = message_codec.roundtrip [OF tc_crisis_MsgVerifyInvariant_codec, folded decode_tc_crisis_MsgVerifyInvariant_def]

lemmas tc_crisis_MsgVerifyInvariant_returns = message_codec.decode_returns [OF tc_crisis_MsgVerifyInvariant_codec, folded decode_tc_crisis_MsgVerifyInvariant_def]

lemma tc_crisis_MsgVerifyInvariantResponse_codec: "message_codec L F out inp (encode_tc_crisis_MsgVerifyInvariantResponse L) (tc_crisis_MsgVerifyInvariantResponse_switch L G) createBase_tc_crisis_MsgVerifyInvariantResponse (wf_tc_crisis_MsgVerifyInvariantResponse L)"
proof unfold_locales
  show good: "good_sw (tc_crisis_MsgVerifyInvariantResponse_switch L G)"
    unfolding tc_crisis_MsgVerifyInvariantResponse_switch_def by (intro good_swI fwd_rules)
  fix m assume "wf_tc_crisis_MsgVerifyInvariantResponse L m"
  then show "codes (tc_crisis_MsgVerifyInvariantResponse_switch L G) (encode_tc_crisis_MsgVerifyInvariantResponse L m) createBase_tc_crisis_MsgVerifyInvariantResponse m"
    unfolding encode_tc_crisis_MsgVerifyInvariantResponse_def wf_tc_crisis_MsgVerifyInvariantResponse_def
    by (cases m) (simp add: createBase_tc_crisis_MsgVerifyInvariantResponse_def codes_Nil [simplified])
qed

lemmas tc_crisis_MsgVerifyInvariantResponse_roundtrip = message_codec.roundtrip [OF tc_crisis_MsgVerifyInvariantResponse_codec, folded decode_tc_crisis_MsgVerifyInvariantResponse_def]

lemmas tc_crisis_MsgVerifyInvariantResponse_returns = message_codec.decode_returns [OF tc_crisis_MsgVerifyInvariantResponse_codec, folded decode_tc_crisis_MsgVerifyInvariantResponse_def]

end

lemma tc_crisis_MsgVerifyInvariant_json: "message_json toJSON_tc_crisis_MsgVerifyInvariant fromJSON_tc_crisis_MsgVerifyInvariant wfj_tc_crisis_MsgVerifyInvariant"
proof unfold_locales
  fix h m
  assume "wfj_tc_crisis_MsgVerifyInvariant m"
  then show "json_rt (toJSON_tc_crisis_MsgVerifyInvariant h) (fromJSON_tc_crisis_MsgVerifyInvariant h) m"
    unfolding toJSON_tc_crisis_MsgVerifyInvariant_def fromJSON_tc_crisis_MsgVerifyInvariant_def wfj_tc_crisis_MsgVerifyInvariant_def
    by (-) (rule json_rtI json_rules | assumption | (simp; fail))+
qed

lemma tc_crisis_MsgVerifyInvariantResponse_json: "message_json toJSON_tc_crisis_MsgVerifyInvariantResponse fromJSON_tc_crisis_MsgVerifyInvariantResponse wfj_tc_crisis_MsgVerifyInvariantResponse"
proof unfold_locales
  fix h m
  show "json_rt (toJSON_tc_crisis_MsgVerifyInvariantResponse h) (fromJSON_tc_crisis_MsgVerifyInvariantResponse h) m"
    by (cases m) (simp add: json_rt_def toJSON_tc_crisis_MsgVerifyInvariantResponse_def fromJSON_tc_crisis_MsgVerifyInvariantResponse_def objE_rules(1))
qed


section \<open>Calls over a transport that is served\<close>

context long_wire_laws
begin

lemma tc_crisis_MsgClientImpl_VerifyInvariant_refines:
  "refines_handler L (decode_tc_crisis_MsgVerifyInvariant L G) (encode_tc_crisis_MsgVerifyInvariantResponse L) (wf_tc_crisis_MsgVerifyInvariant L) (wf_tc_crisis_MsgVerifyInvariantResponse L)
     (tc_crisis_MsgClientImpl_VerifyInvariant L G) (js ''cosmos.crisis.v1beta1.Msg'') (js ''VerifyInvariant'')"
  unfolding tc_crisis_MsgClientImpl_VerifyInvariant_def [abs_def] decode_tc_crisis_MsgVerifyInvariant_def decode_tc_crisis_MsgVerifyInvariantResponse_def
  by (rule refines_unary [OF tc_crisis_MsgVerifyInvariant_codec tc_crisis_MsgVerifyInvariantResponse_codec])

end

end
