(* ===== verification/CosGov.thy ===== *)
theory CosGov
  imports CosmosAny
begin

unbundle bit_operations_syntax

text \<open>
  The messages of the governance module in \<open>ts-client/cosmos.gov.v1beta1\<close>.
\<close>


section \<open>ts-client/cosmos.gov.v1beta1/types/cosmos/gov/v1beta1/gov.ts\<close>

definition tc_gov_VoteOption_VOTE_OPTION_UNSPECIFIED :: number where
  "tc_gov_VoteOption_VOTE_OPTION_UNSPECIFIED = Num 0"

definition tc_gov_VoteOption_VOTE_OPTION_YES :: number where
  "tc_gov_VoteOption_VOTE_OPTION_YES = Num 1"

definition tc_gov_VoteOption_VOTE_OPTION_ABSTAIN :: number where
  "tc_gov_VoteOption_VOTE_OPTION_ABSTAIN = Num 2"

definition tc_gov_VoteOption_VOTE_OPTION_NO :: number where
  "tc_gov_VoteOption_VOTE_OPTION_NO = Num 3"

definition tc_gov_VoteOption_VOTE_OPTION_NO_WITH_VETO :: number where
  "tc_gov_VoteOption_VOTE_OPTION_NO_WITH_VETO = Num 4"

definition tc_gov_VoteOption_UNRECOGNIZED :: number where
  "tc_gov_VoteOption_UNRECOGNIZED = Num (- 1)"

definition tc_gov_voteOptionFromJSON :: "jsval \<Rightarrow> number" where
  "tc_gov_voteOptionFromJSON object =
    (if object = JNumber (Num 0) \<or> object = JString (js ''VOTE_OPTION_UNSPECIFIED'')
       then tc_gov_VoteOption_VOTE_OPTION_UNSPECIFIED
     else if object = JNumber (Num 1) \<or> object = JString (js ''VOTE_OPTION_YES'')
       then tc_gov_VoteOption_VOTE_OPTION_YES
     else if object = JNumber (Num 2) \<or> object = JString (js ''VOTE_OPTION_ABSTAIN'')
       then tc_gov_VoteOption_VOTE_OPTION_ABSTAIN
     else if object = JNumber (Num 3) \<or> object = JString (js ''VOTE_OPTION_NO'')
       then tc_gov_VoteOption_VOTE_OPTION_NO
     else if object = JNumber (Num 4) \<or> object = JString (js ''VOTE_OPTION_NO_WITH_VETO'')
       then tc_gov_VoteOption_VOTE_OPTION_NO_WITH_VETO
     else tc_gov_VoteOption_UNRECOGNIZED)"

definition tc_gov_voteOptionToJSON :: "number \<Rightarrow> jsstring" where
  "tc_gov_voteOptionToJSON object =
    (if object = tc_gov_VoteOption_VOTE_OPTION_UNSPECIFIED then js ''VOTE_OPTION_UNSPECIFIED''
     else if object = tc_gov_VoteOption_VOTE_OPTION_YES then js ''VOTE_OPTION_YES''
     else if object = tc_gov_VoteOption_VOTE_OPTION_ABSTAIN then js ''VOTE_OPTION_ABSTAIN''
     else if object = tc_gov_VoteOption_VOTE_OPTION_NO then js ''VOTE_OPTION_NO''
     else if object = tc_gov_VoteOption_VOTE_OPTION_NO_WITH_VETO then js ''VOTE_OPTION_NO_WITH_VETO''
     else js ''UNRECOGNIZED'')"

text \<open>The values the schema names, and the one \<open>fromJSON\<close> maps the others to.\<close>

definition tc_gov_VoteOption_known :: "number \<Rightarrow> bool" where
  "tc_gov_VoteOption_known n \<longleftrightarrow> n \<in> {tc_gov_VoteOption_VOTE_OPTION_UNSPECIFIED, tc_gov_VoteOption_VOTE_OPTION_YES, tc_gov_VoteOption_VOTE_OPTION_ABSTAIN, tc_gov_VoteOption_VOTE_OPTION_NO, tc_gov_VoteOption_VOTE_OPTION_NO_WITH_VETO, tc_gov_VoteOption_UNRECOGNIZED}"

definition tc_gov_ProposalStatus_PROPOSAL_STATUS_UNSPECIFIED :: number where
  "tc_gov_ProposalStatus_PROPOSAL_STATUS_UNSPECIFIED = Num 0"

definition tc_gov_ProposalStatus_PROPOSAL_STATUS_DEPOSIT_PERIOD :: number where
  "tc_gov_ProposalStatus_PROPOSAL_STATUS_DEPOSIT_PERIOD = Num 1"

definition tc_gov_ProposalStatus_PROPOSAL_STATUS_VOTING_PERIOD :: number where
  "tc_gov_ProposalStatus_PROPOSAL_STATUS_VOTING_PERIOD = Num 2"

definition tc_gov_ProposalStatus_PROPOSAL_STATUS_PASSED :: number where
  "tc_gov_ProposalStatus_PROPOSAL_STATUS_PASSED = Num 3"

definition tc_gov_ProposalStatus_PROPOSAL_STATUS_REJECTED :: number where
  "tc_gov_ProposalStatus_PROPOSAL_STATUS_REJECTED = Num 4"

definition tc_gov_ProposalStatus_PROPOSAL_STATUS_FAILED :: number where
  "tc_gov_ProposalStatus_PROPOSAL_STATUS_FAILED = Num 5"

definition tc_gov_ProposalStatus_UNRECOGNIZED :: number where
  "tc_gov_ProposalStatus_UNRECOGNIZED = Num (- 1)"

definition tc_gov_proposalStatusFromJSON :: "jsval \<Rightarrow> number" where
  "tc_gov_proposalStatusFromJSON object =
    (if object = JNumber (Num 0) \<or> object = JString (js ''PROPOSAL_STATUS_UNSPECIFIED'')
       then tc_gov_ProposalStatus_PROPOSAL_STATUS_UNSPECIFIED
     else if object = JNumber (Num 1) \<or> object = JString (js ''PROPOSAL_STATUS_DEPOSIT_PERIOD'')
       then tc_gov_ProposalStatus_PROPOSAL_STATUS_DEPOSIT_PERIOD
     else if object = JNumber (Num 2) \<or> object = JString (js ''PROPOSAL_STATUS_VOTING_PERIOD'')
       then tc_gov_ProposalStatus_PROPOSAL_STATUS_VOTING_PERIOD
     else if object = JNumber (Num 3) \<or> object = JString (js ''PROPOSAL_STATUS_PASSED'')
       then tc_gov_ProposalStatus_PROPOSAL_STATUS_PASSED
     else if object = JNumber (Num 4) \<or> object = JString (js ''PROPOSAL_STATUS_REJECTED'')
       then tc_gov_ProposalStatus_PROPOSAL_STATUS_REJECTED
     else if object = JNumber (Num 5) \<or> object = JString (js ''PROPOSAL_STATUS_FAILED'')
       then tc_gov_ProposalStatus_PROPOSAL_STATUS_FAILED
     else tc_gov_ProposalStatus_UNRECOGNIZED)"

definition tc_gov_proposalStatusToJSON :: "number \<Rightarrow> jsstring" where
  "tc_gov_proposalStatusToJSON object =
    (if object = tc_gov_ProposalStatus_PROPOSAL_STATUS_UNSPECIFIED then js ''PROPOSAL_STATUS_UNSPECIFIED''
     else if object = tc_gov_ProposalStatus_PROPOSAL_STATUS_DEPOSIT_PERIOD then js ''PROPOSAL_STATUS_DEPOSIT_PERIOD''
     else if object = tc_gov_ProposalStatus_PROPOSAL_STATUS_VOTING_PERIOD then js ''PROPOSAL_STATUS_VOTING_PERIOD''
     else if object = tc_gov_ProposalStatus_PROPOSAL_STATUS_PASSED then js ''PROPOSAL_STATUS_PASSED''
     else if object = tc_gov_ProposalStatus_PROPOSAL_STATUS_REJECTED then js ''PROPOSAL_STATUS_REJECTED''
     else if object = tc_gov_ProposalStatus_PROPOSAL_STATUS_FAILED then js ''PROPOSAL_STATUS_FAILED''
     else js ''UNRECOGNIZED'')"

text \<open>The values the schema names, and the one \<open>fromJSON\<close> maps the others to.\<close>

definition tc_gov_ProposalStatus_known :: "number \<Rightarrow> bool" where
  "tc_gov_ProposalStatus_known n \<longleftrightarrow> n \<in> {tc_gov_ProposalStatus_PROPOSAL_STATUS_UNSPECIFIED, tc_gov_ProposalStatus_PROPOSAL_STATUS_DEPOSIT_PERIOD, tc_gov_ProposalStatus_PROPOSAL_STATUS_VOTING_PERIOD, tc_gov_ProposalStatus_PROPOSAL_STATUS_PASSED, tc_gov_ProposalStatus_PROPOSAL_STATUS_REJECTED, tc_gov_ProposalStatus_PROPOSAL_STATUS_FAILED, tc_gov_ProposalStatus_UNRECOGNIZED}"

subsection \<open>WeightedVoteOption\<close>

record tc_gov_WeightedVoteOption =
  option :: number
  weight :: jsstring

definition createBase_tc_gov_WeightedVoteOption :: tc_gov_WeightedVoteOption where
  "createBase_tc_gov_WeightedVoteOption = \<lparr>tc_gov_WeightedVoteOption.option = Num 0,
     tc_gov_WeightedVoteOption.weight = []\<rparr>"

definition encode_tc_gov_WeightedVoteOption :: "('w, 'r) wire \<Rightarrow> tc_gov_WeightedVoteOption \<Rightarrow> 'w \<Rightarrow> 'w result" where
  "encode_tc_gov_WeightedVoteOption L message = seqE
    [whenE (tc_gov_WeightedVoteOption.option message \<noteq> Num 0) (seqE [w_uint32 L 8, w_int32 L (tc_gov_WeightedVoteOption.option message)]),
     whenE (tc_gov_WeightedVoteOption.weight message \<noteq> []) (seqE [w_uint32 L 18, w_string L (tc_gov_WeightedVoteOption.weight message)])]"

definition tc_gov_WeightedVoteOption_switch :: "('w, 'r) wire \<Rightarrow> long_lib \<Rightarrow> u32 \<Rightarrow> tc_gov_WeightedVoteOption \<Rightarrow> (tc_gov_WeightedVoteOption, 'r) action" where
  "tc_gov_WeightedVoteOption_switch L G tag message = js_switch (drop_bit 3 tag)
    [(1, readf (num32 (r_int32 L)) (\<lambda>v. message\<lparr>tc_gov_WeightedVoteOption.option := v\<rparr>)),
     (2, readf (r_string L) (\<lambda>v. message\<lparr>tc_gov_WeightedVoteOption.weight := v\<rparr>))]
    (skipType L tag message)"

definition decode_tc_gov_WeightedVoteOption :: "('w, 'r) wire \<Rightarrow> long_lib \<Rightarrow> 'r input \<Rightarrow> nat option \<Rightarrow> (tc_gov_WeightedVoteOption \<times> 'r) result" where
  "decode_tc_gov_WeightedVoteOption L G = decode_msg L (tc_gov_WeightedVoteOption_switch L G) createBase_tc_gov_WeightedVoteOption"

definition fromJSON_tc_gov_WeightedVoteOption :: "host \<Rightarrow> jsval \<Rightarrow> tc_gov_WeightedVoteOption result" where
  "fromJSON_tc_gov_WeightedVoteOption h object =
     bindE (fieldE object ''option'' (enumE tc_gov_voteOptionFromJSON) (Num 0)) (\<lambda>v_option.
     bindE (fieldE object ''weight'' (stringE h) []) (\<lambda>v_weight.
     Inr \<lparr>tc_gov_WeightedVoteOption.option = v_option, tc_gov_WeightedVoteOption.weight = v_weight\<rparr>))"

definition toJSON_tc_gov_WeightedVoteOption :: "host \<Rightarrow> tc_gov_WeightedVoteOption \<Rightarrow> jsval result" where
  "toJSON_tc_gov_WeightedVoteOption h message = objE
    [jfieldE True ''option'' (Inr (JString (tc_gov_voteOptionToJSON (tc_gov_WeightedVoteOption.option message)))),
     jfieldE True ''weight'' (Inr (JString (tc_gov_WeightedVoteOption.weight message)))]"

type_synonym tc_gov_WeightedVoteOption_Partial = "number option \<times> jsstring option"

definition fromPartial_tc_gov_WeightedVoteOption :: "tc_gov_WeightedVoteOption_Partial \<Rightarrow> tc_gov_WeightedVoteOption" where
  "fromPartial_tc_gov_WeightedVoteOption object = (case object of (p_option, p_weight) \<Rightarrow>
     createBase_tc_gov_WeightedVoteOption\<lparr>tc_gov_WeightedVoteOption.option := nullish (p_option) (Num 0),
       tc_gov_WeightedVoteOption.weight := nullish (p_weight) []\<rparr>)"

text \<open>A partial message that sets every field.\<close>

definition partial_of_tc_gov_WeightedVoteOption :: "tc_gov_WeightedVoteOption \<Rightarrow> tc_gov_WeightedVoteOption_Partial" where
  "partial_of_tc_gov_WeightedVoteOption m =
     (Some (tc_gov_WeightedVoteOption.option m),
      Some (tc_gov_WeightedVoteOption.weight m))"

definition wf_tc_gov_WeightedVoteOption :: "('w, 'r) wire \<Rightarrow> tc_gov_WeightedVoteOption \<Rightarrow> bool" where
  "wf_tc_gov_WeightedVoteOption L m \<longleftrightarrow> int32_num (tc_gov_WeightedVoteOption.option m)
     \<and> wire_string (tc_gov_WeightedVoteOption.weight m)"

definition wfj_tc_gov_WeightedVoteOption :: "tc_gov_WeightedVoteOption \<Rightarrow> bool" where
  "wfj_tc_gov_WeightedVoteOption m \<longleftrightarrow> tc_gov_VoteOption_known (tc_gov_WeightedVoteOption.option m)"

subsection \<open>TextProposal\<close>

record tc_gov_TextProposal =
  title :: jsstring
  description :: jsstring

definition createBase_tc_gov_TextProposal :: tc_gov_TextProposal where
  "createBase_tc_gov_TextProposal = \<lparr>tc_gov_TextProposal.title = [],
     tc_gov_TextProposal.description = []\<rparr>"

definition encode_tc_gov_TextProposal :: "('w, 'r) wire \<Rightarrow> tc_gov_TextProposal \<Rightarrow> 'w \<Rightarrow> 'w result" where
  "encode_tc_gov_TextProposal L message = seqE
    [whenE (tc_gov_TextProposal.title message \<noteq> []) (seqE [w_uint32 L 10, w_string L (tc_gov_TextProposal.title message)]),
     whenE (tc_gov_TextProposal.description message \<noteq> []) (seqE [w_uint32 L 18, w_string L (tc_gov_TextProposal.description message)])]"

definition tc_gov_TextProposal_switch :: "('w, 'r) wire \<Rightarrow> long_lib \<Rightarrow> u32 \<Rightarrow> tc_gov_TextProposal \<Rightarrow> (tc_gov_TextProposal, 'r) action" where
  "tc_gov_TextProposal_switch L G tag message = js_switch (drop_bit 3 tag)
    [(1, readf (r_string L) (\<lambda>v. message\<lparr>tc_gov_TextProposal.title := v\<rparr>)),
     (2, readf (r_string L) (\<lambda>v. message\<lparr>tc_gov_TextProposal.description := v\<rparr>))]
    (skipType L tag message)"

definition decode_tc_gov_TextProposal :: "('w, 'r) wire \<Rightarrow> long_lib \<Rightarrow> 'r input \<Rightarrow> nat option \<Rightarrow> (tc_gov_TextProposal \<times> 'r) result" where
  "decode_tc_gov_TextProposal L G = decode_msg L (tc_gov_TextProposal_switch L G) createBase_tc_gov_TextProposal"

definition fromJSON_tc_gov_TextProposal :: "host \<Rightarrow> jsval \<Rightarrow> tc_gov_TextProposal result" where
  "fromJSON_tc_gov_TextProposal h object =
     bindE (fieldE object ''title'' (stringE h) []) (\<lambda>v_title.
     bindE (fieldE object ''description'' (stringE h) []) (\<lambda>v_description.
     Inr \<lparr>tc_gov_TextProposal.title = v_title, tc_gov_TextProposal.description = v_description\<rparr>))"

definition toJSON_tc_gov_TextProposal :: "host \<Rightarrow> tc_gov_TextProposal \<Rightarrow> jsval result" where
  "toJSON_tc_gov_TextProposal h message = objE
    [jfieldE True ''title'' (Inr (JString (tc_gov_TextProposal.title message))),
     jfieldE True ''description'' (Inr (JString (tc_gov_TextProposal.description message)))]"

type_synonym tc_gov_TextProposal_Partial = "jsstring option \<times> jsstring option"

definition fromPartial_tc_gov_TextProposal :: "tc_gov_TextProposal_Partial \<Rightarrow> tc_gov_TextProposal" where
  "fromPartial_tc_gov_TextProposal object = (case object of (p_title, p_description) \<Rightarrow>
     createBase_tc_gov_TextProposal\<lparr>tc_gov_TextProposal.title := nullish (p_title) [],
       tc_gov_TextProposal.description := nullish (p_description) []\<rparr>)"

text \<open>A partial message that sets every field.\<close>

definition partial_of_tc_gov_TextProposal :: "tc_gov_TextProposal \<Rightarrow> tc_gov_TextProposal_Partial" where
  "partial_of_tc_gov_TextProposal m =
     (Some (tc_gov_TextProposal.title m),
      Some (tc_gov_TextProposal.description m))"

definition wf_tc_gov_TextProposal :: "('w, 'r) wire \<Rightarrow> tc_gov_TextProposal \<Rightarrow> bool" where
  "wf_tc_gov_TextProposal L m \<longleftrightarrow> wire_string (tc_gov_TextProposal.title m)
     \<and> wire_string (tc_gov_TextProposal.description m)"

definition wfj_tc_gov_TextProposal :: "tc_gov_TextProposal \<Rightarrow> bool" where
  "wfj_tc_gov_TextProposal m \<longleftrightarrow> True"

subsection \<open>Deposit\<close>

record tc_gov_Deposit =
  proposalId :: number
  depositor :: jsstring
  amount :: "Coin list"

definition createBase_tc_gov_Deposit :: tc_gov_Deposit where
  "createBase_tc_gov_Deposit = \<lparr>tc_gov_Deposit.proposalId = Num 0,
     tc_gov_Deposit.depositor = [],
     tc_gov_Deposit.amount = []\<rparr>"

definition encode_tc_gov_Deposit :: "('w, 'r) wire \<Rightarrow> tc_gov_Deposit \<Rightarrow> 'w \<Rightarrow> 'w result" where
  "encode_tc_gov_Deposit L message = seqE
    [whenE (tc_gov_Deposit.proposalId message \<noteq> Num 0) (seqE [w_uint32 L 8, w_uint64 L (tc_gov_Deposit.proposalId message)]),
     whenE (tc_gov_Deposit.depositor message \<noteq> []) (seqE [w_uint32 L 18, w_string L (tc_gov_Deposit.depositor message)]),
     forE (\<lambda>v. seqE [w_uint32 L 26, w_fork L, encode_tc_Coin L v, w_join L]) (tc_gov_Deposit.amount message)]"

definition tc_gov_Deposit_switch :: "('w, 'r) wire \<Rightarrow> long_lib \<Rightarrow> u32 \<Rightarrow> tc_gov_Deposit \<Rightarrow> (tc_gov_Deposit, 'r) action" where
  "tc_gov_Deposit_switch L G tag message = js_switch (drop_bit 3 tag)
    [(1, readf (num64l G (r_uint64 L)) (\<lambda>v. message\<lparr>tc_gov_Deposit.proposalId := v\<rparr>)),
     (2, readf (r_string L) (\<lambda>v. message\<lparr>tc_gov_Deposit.depositor := v\<rparr>)),
     (3, readf (submsg L (decode_tc_Coin L G)) (\<lambda>v. message\<lparr>tc_gov_Deposit.amount := tc_gov_Deposit.amount message @ [v]\<rparr>))]
    (skipType L tag message)"

definition decode_tc_gov_Deposit :: "('w, 'r) wire \<Rightarrow> long_lib \<Rightarrow> 'r input \<Rightarrow> nat option \<Rightarrow> (tc_gov_Deposit \<times> 'r) result" where
  "decode_tc_gov_Deposit L G = decode_msg L (tc_gov_Deposit_switch L G) createBase_tc_gov_Deposit"

definition fromJSON_tc_gov_Deposit :: "host \<Rightarrow> jsval \<Rightarrow> tc_gov_Deposit result" where
  "fromJSON_tc_gov_Deposit h object =
     bindE (fieldE object ''proposalId'' (numberE h) (Num 0)) (\<lambda>v_proposalId.
     bindE (fieldE object ''depositor'' (stringE h) []) (\<lambda>v_depositor.
     bindE (arrayE object ''amount'' (fromJSON_tc_Coin h)) (\<lambda>v_amount.
     Inr \<lparr>tc_gov_Deposit.proposalId = v_proposalId, tc_gov_Deposit.depositor = v_depositor, tc_gov_Deposit.amount = v_amount\<rparr>)))"

definition toJSON_tc_gov_Deposit :: "host \<Rightarrow> tc_gov_Deposit \<Rightarrow> jsval result" where
  "toJSON_tc_gov_Deposit h message = objE
    [jfieldE True ''proposalId'' (Inr (JNumber (Math_round (tc_gov_Deposit.proposalId message)))),
     jfieldE True ''depositor'' (Inr (JString (tc_gov_Deposit.depositor message))),
     jlistE ''amount'' (toJSON_tc_Coin h) (tc_gov_Deposit.amount message)]"

type_synonym tc_gov_Deposit_Partial = "number option \<times> jsstring option \<times> Coin_Partial list option"

definition fromPartial_tc_gov_Deposit :: "tc_gov_Deposit_Partial \<Rightarrow> tc_gov_Deposit" where
  "fromPartial_tc_gov_Deposit object = (case object of (p_proposalId, p_depositor, p_amount) \<Rightarrow>
     createBase_tc_gov_Deposit\<lparr>tc_gov_Deposit.proposalId := nullish (p_proposalId) (Num 0),
       tc_gov_Deposit.depositor := nullish (p_depositor) [],
       tc_gov_Deposit.amount := partial_map fromPartial_tc_Coin (p_amount)\<rparr>)"

text \<open>A partial message that sets every field.\<close>

definition partial_of_tc_gov_Deposit :: "tc_gov_Deposit \<Rightarrow> tc_gov_Deposit_Partial" where
  "partial_of_tc_gov_Deposit m =
     (Some (tc_gov_Deposit.proposalId m),
      Some (tc_gov_Deposit.depositor m),
      Some (map partial_of_Coin (tc_gov_Deposit.amount m)))"

definition wf_tc_gov_Deposit :: "('w, 'r) wire \<Rightarrow> tc_gov_Deposit \<Rightarrow> bool" where
  "wf_tc_gov_Deposit L m \<longleftrightarrow> safe_uint (tc_gov_Deposit.proposalId m)
     \<and> wire_string (tc_gov_Deposit.depositor m)
     \<and> list_all (\<lambda>v. wf_Coin L v \<and> fits L (encode_Coin L v)) (tc_gov_Deposit.amount m)"

definition wfj_tc_gov_Deposit :: "tc_gov_Deposit \<Rightarrow> bool" where
  "wfj_tc_gov_Deposit m \<longleftrightarrow> whole (tc_gov_Deposit.proposalId m)
     \<and> list_all wfj_Coin (tc_gov_Deposit.amount m)"

subsection \<open>TallyResult\<close>

record tc_gov_TallyResult =
  yes :: jsstring
  abstain :: jsstring
  no :: jsstring
  noWithVeto :: jsstring

definition createBase_tc_gov_TallyResult :: tc_gov_TallyResult where
  "createBase_tc_gov_TallyResult = \<lparr>tc_gov_TallyResult.yes = [],
     tc_gov_TallyResult.abstain = [],
     tc_gov_TallyResult.no = [],
     tc_gov_TallyResult.noWithVeto = []\<rparr>"

definition encode_tc_gov_TallyResult :: "('w, 'r) wire \<Rightarrow> tc_gov_TallyResult \<Rightarrow> 'w \<Rightarrow> 'w result" where
  "encode_tc_gov_TallyResult L message = seqE
    [whenE (tc_gov_TallyResult.yes message \<noteq> []) (seqE [w_uint32 L 10, w_string L (tc_gov_TallyResult.yes message)]),
     whenE (tc_gov_TallyResult.abstain message \<noteq> []) (seqE [w_uint32 L 18, w_string L (tc_gov_TallyResult.abstain message)]),
     whenE (tc_gov_TallyResult.no message \<noteq> []) (seqE [w_uint32 L 26, w_string L (tc_gov_TallyResult.no message)]),
     whenE (tc_gov_TallyResult.noWithVeto message \<noteq> []) (seqE [w_uint32 L 34, w_string L (tc_gov_TallyResult.noWithVeto message)])]"

definition tc_gov_TallyResult_switch :: "('w, 'r) wire \<Rightarrow> long_lib \<Rightarrow> u32 \<Rightarrow> tc_gov_TallyResult \<Rightarrow> (tc_gov_TallyResult, 'r) action" where
  "tc_gov_TallyResult_switch L G tag message = js_switch (drop_bit 3 tag)
    [(1, readf (r_string L) (\<lambda>v. message\<lparr>tc_gov_TallyResult.yes := v\<rparr>)),
     (2, readf (r_string L) (\<lambda>v. message\<lparr>tc_gov_TallyResult.abstain := v\<rparr>)),
     (3, readf (r_string L) (\<lambda>v. message\<lparr>tc_gov_TallyResult.no := v\<rparr>)),
     (4, readf (r_string L) (\<lambda>v. message\<lparr>tc_gov_TallyResult.noWithVeto := v\<rparr>))]
    (skipType L tag message)"

definition decode_tc_gov_TallyResult :: "('w, 'r) wire \<Rightarrow> long_lib \<Rightarrow> 'r input \<Rightarrow> nat option \<Rightarrow> (tc_gov_TallyResult \<times> 'r) result" where
  "decode_tc_gov_TallyResult L G = decode_msg L (tc_gov_TallyResult_switch L G) createBase_tc_gov_TallyResult"

definition fromJSON_tc_gov_TallyResult :: "host \<Rightarrow> jsval \<Rightarrow> tc_gov_TallyResult result" where
  "fromJSON_tc_gov_TallyResult h object =
     bindE (fieldE object ''yes'' (stringE h) []) (\<lambda>v_yes.
     bindE (fieldE object ''abstain'' (stringE h) []) (\<lambda>v_abstain.
     bindE (fieldE object ''no'' (stringE h) []) (\<lambda>v_no.
     bindE (fieldE object ''noWithVeto'' (stringE h) []) (\<lambda>v_noWithVeto.
     Inr \<lparr>tc_gov_TallyResult.yes = v_yes, tc_gov_TallyResult.abstain = v_abstain, tc_gov_TallyResult.no = v_no, tc_gov_TallyResult.noWithVeto = v_noWithVeto\<rparr>))))"

definition toJSON_tc_gov_TallyResult :: "host \<Rightarrow> tc_gov_TallyResult \<Rightarrow> jsval result" where
  "toJSON_tc_gov_TallyResult h message = objE
    [jfieldE True ''yes'' (Inr (JString (tc_gov_TallyResult.yes message))),
     jfieldE True ''abstain'' (Inr (JString (tc_gov_TallyResult.abstain message))),
     jfieldE True ''no'' (Inr (JString (tc_gov_TallyResult.no message))),
     jfieldE True ''noWithVeto'' (Inr (JString (tc_gov_TallyResult.noWithVeto message)))]"

type_synonym tc_gov_TallyResult_Partial = "jsstring option \<times> jsstring option \<times> jsstring option \<times> jsstring option"

definition fromPartial_tc_gov_TallyResult :: "tc_gov_TallyResult_Partial \<Rightarrow> tc_gov_TallyResult" where
  "fromPartial_tc_gov_TallyResult object = (case object of (p_yes, p_abstain, p_no, p_noWithVeto) \<Rightarrow>
     createBase_tc_gov_TallyResult\<lparr>tc_gov_TallyResult.yes := nullish (p_yes) [],
       tc_gov_TallyResult.abstain := nullish (p_abstain) [],
       tc_gov_TallyResult.no := nullish (p_no) [],
       tc_gov_TallyResult.noWithVeto := nullish (p_noWithVeto) []\<rparr>)"

text \<open>A partial message that sets every field.\<close>

definition partial_of_tc_gov_TallyResult :: "tc_gov_TallyResult \<Rightarrow> tc_gov_TallyResult_Partial" where
  "partial_of_tc_gov_TallyResult m =
     (Some (tc_gov_TallyResult.yes m),
      Some (tc_gov_TallyResult.abstain m),
      Some (tc_gov_TallyResult.no m),
      Some (tc_gov_TallyResult.noWithVeto m))"

definition wf_tc_gov_TallyResult :: "('w, 'r) wire \<Rightarrow> tc_gov_TallyResult \<Rightarrow> bool" where
  "wf_tc_gov_TallyResult L m \<longleftrightarrow> wire_string (tc_gov_TallyResult.yes m)
     \<and> wire_string (tc_gov_TallyResult.abstain m)
     \<and> wire_string (tc_gov_TallyResult.no m)
     \<and> wire_string (tc_gov_TallyResult.noWithVeto m)"

definition wfj_tc_gov_TallyResult :: "tc_gov_TallyResult \<Rightarrow> bool" where
  "wfj_tc_gov_TallyResult m \<longleftrightarrow> True"

subsection \<open>Proposal\<close>

record tc_gov_Proposal =
  proposalId :: number
  content :: "tc_Any option"
  status :: number
  finalTallyResult :: "tc_gov_TallyResult option"
  submitTime :: "number option"
  depositEndTime :: "number option"
  totalDeposit :: "Coin list"
  votingStartTime :: "number option"
  votingEndTime :: "number option"

definition createBase_tc_gov_Proposal :: tc_gov_Proposal where
  "createBase_tc_gov_Proposal = \<lparr>tc_gov_Proposal.proposalId = Num 0,
     tc_gov_Proposal.content = None,
     tc_gov_Proposal.status = Num 0,
     tc_gov_Proposal.finalTallyResult = None,
     tc_gov_Proposal.submitTime = None,
     tc_gov_Proposal.depositEndTime = None,
     tc_gov_Proposal.totalDeposit = [],
     tc_gov_Proposal.votingStartTime = None,
     tc_gov_Proposal.votingEndTime = None\<rparr>"

definition encode_tc_gov_Proposal :: "('w, 'r) wire \<Rightarrow> tc_gov_Proposal \<Rightarrow> 'w \<Rightarrow> 'w result" where
  "encode_tc_gov_Proposal L message = seqE
    [whenE (tc_gov_Proposal.proposalId message \<noteq> Num 0) (seqE [w_uint32 L 8, w_uint64 L (tc_gov_Proposal.proposalId message)]),
     someE (tc_gov_Proposal.content message) (\<lambda>v. seqE [w_uint32 L 18, w_fork L, encode_tc_Any L v, w_join L]),
     whenE (tc_gov_Proposal.status message \<noteq> Num 0) (seqE [w_uint32 L 24, w_int32 L (tc_gov_Proposal.status message)]),
     someE (tc_gov_Proposal.finalTallyResult message) (\<lambda>v. seqE [w_uint32 L 34, w_fork L, encode_tc_gov_TallyResult L v, w_join L]),
     someE (tc_gov_Proposal.submitTime message) (\<lambda>v. seqE [w_uint32 L 42, w_fork L, encode_tc_Timestamp L (toTimestamp_frac v), w_join L]),
     someE (tc_gov_Proposal.depositEndTime message) (\<lambda>v. seqE [w_uint32 L 50, w_fork L, encode_tc_Timestamp L (toTimestamp_frac v), w_join L]),
     forE (\<lambda>v. seqE [w_uint32 L 58, w_fork L, encode_tc_Coin L v, w_join L]) (tc_gov_Proposal.totalDeposit message),
     someE (tc_gov_Proposal.votingStartTime message) (\<lambda>v. seqE [w_uint32 L 66, w_fork L, encode_tc_Timestamp L (toTimestamp_frac v), w_join L]),
     someE (tc_gov_Proposal.votingEndTime message) (\<lambda>v. seqE [w_uint32 L 74, w_fork L, encode_tc_Timestamp L (toTimestamp_frac v), w_join L])]"

definition tc_gov_Proposal_switch :: "('w, 'r) wire \<Rightarrow> long_lib \<Rightarrow> u32 \<Rightarrow> tc_gov_Proposal \<Rightarrow> (tc_gov_Proposal, 'r) action" where
  "tc_gov_Proposal_switch L G tag message = js_switch (drop_bit 3 tag)
    [(1, readf (num64l G (r_uint64 L)) (\<lambda>v. message\<lparr>tc_gov_Proposal.proposalId := v\<rparr>)),
     (2, readf (submsg L (decode_tc_Any L G)) (\<lambda>v. message\<lparr>tc_gov_Proposal.content := Some v\<rparr>)),
     (3, readf (num32 (r_int32 L)) (\<lambda>v. message\<lparr>tc_gov_Proposal.status := v\<rparr>)),
     (4, readf (submsg L (decode_tc_gov_TallyResult L G)) (\<lambda>v. message\<lparr>tc_gov_Proposal.finalTallyResult := Some v\<rparr>)),
     (5, readf (read_map fromTimestamp_frac (submsg L (decode_tc_Timestamp L G))) (\<lambda>v. message\<lparr>tc_gov_Proposal.submitTime := Some v\<rparr>)),
     (6, readf (read_map fromTimestamp_frac (submsg L (decode_tc_Timestamp L G))) (\<lambda>v. message\<lparr>tc_gov_Proposal.depositEndTime := Some v\<rparr>)),
     (7, readf (submsg L (decode_tc_Coin L G)) (\<lambda>v. message\<lparr>tc_gov_Proposal.totalDeposit := tc_gov_Proposal.totalDeposit message @ [v]\<rparr>)),
     (8, readf (read_map fromTimestamp_frac (submsg L (decode_tc_Timestamp L G))) (\<lambda>v. message\<lparr>tc_gov_Proposal.votingStartTime := Some v\<rparr>)),
     (9, readf (read_map fromTimestamp_frac (submsg L (decode_tc_Timestamp L G))) (\<lambda>v. message\<lparr>tc_gov_Proposal.votingEndTime := Some v\<rparr>))]
    (skipType L tag message)"

definition decode_tc_gov_Proposal :: "('w, 'r) wire \<Rightarrow> long_lib \<Rightarrow> 'r input \<Rightarrow> nat option \<Rightarrow> (tc_gov_Proposal \<times> 'r) result" where
  "decode_tc_gov_Proposal L G = decode_msg L (tc_gov_Proposal_switch L G) createBase_tc_gov_Proposal"

definition fromJSON_tc_gov_Proposal :: "host \<Rightarrow> jsval \<Rightarrow> tc_gov_Proposal result" where
  "fromJSON_tc_gov_Proposal h object =
     bindE (fieldE object ''proposalId'' (numberE h) (Num 0)) (\<lambda>v_proposalId.
     bindE (optE object ''content'' (fromJSON_tc_Any h)) (\<lambda>v_content.
     bindE (fieldE object ''status'' (enumE tc_gov_proposalStatusFromJSON) (Num 0)) (\<lambda>v_status.
     bindE (optE object ''finalTallyResult'' (fromJSON_tc_gov_TallyResult h)) (\<lambda>v_finalTallyResult.
     bindE (optE object ''submitTime'' (fromJsonTimestamp_frac h)) (\<lambda>v_submitTime.
     bindE (optE object ''depositEndTime'' (fromJsonTimestamp_frac h)) (\<lambda>v_depositEndTime.
     bindE (arrayE object ''totalDeposit'' (fromJSON_tc_Coin h)) (\<lambda>v_totalDeposit.
     bindE (optE object ''votingStartTime'' (fromJsonTimestamp_frac h)) (\<lambda>v_votingStartTime.
     bindE (optE object ''votingEndTime'' (fromJsonTimestamp_frac h)) (\<lambda>v_votingEndTime.
     Inr \<lparr>tc_gov_Proposal.proposalId = v_proposalId, tc_gov_Proposal.content = v_content, tc_gov_Proposal.status = v_status, tc_gov_Proposal.finalTallyResult = v_finalTallyResult, tc_gov_Proposal.submitTime = v_submitTime, tc_gov_Proposal.depositEndTime = v_depositEndTime, tc_gov_Proposal.totalDeposit = v_totalDeposit, tc_gov_Proposal.votingStartTime = v_votingStartTime, tc_gov_Proposal.votingEndTime = v_votingEndTime\<rparr>)))))))))"

definition toJSON_tc_gov_Proposal :: "host \<Rightarrow> tc_gov_Proposal \<Rightarrow> jsval result" where
  "toJSON_tc_gov_Proposal h message = objE
    [jfieldE True ''proposalId'' (Inr (JNumber (Math_round (tc_gov_Proposal.proposalId message)))),
     joptE ''content'' (toJSON_tc_Any h) (tc_gov_Proposal.content message),
     jfieldE True ''status'' (Inr (JString (tc_gov_proposalStatusToJSON (tc_gov_Proposal.status message)))),
     joptE ''finalTallyResult'' (toJSON_tc_gov_TallyResult h) (tc_gov_Proposal.finalTallyResult message),
     joptE ''submitTime'' dateJSON (tc_gov_Proposal.submitTime message),
     joptE ''depositEndTime'' dateJSON (tc_gov_Proposal.depositEndTime message),
     jlistE ''totalDeposit'' (toJSON_tc_Coin h) (tc_gov_Proposal.totalDeposit message),
     joptE ''votingStartTime'' dateJSON (tc_gov_Proposal.votingStartTime message),
     joptE ''votingEndTime'' dateJSON (tc_gov_Proposal.votingEndTime message)]"

type_synonym tc_gov_Proposal_Partial = "number option \<times> tc_Any_Partial option \<times> number option \<times> tc_gov_TallyResult_Partial option \<times> number option \<times> number option \<times> Coin_Partial list option \<times> number option \<times> number option"

definition fromPartial_tc_gov_Proposal :: "tc_gov_Proposal_Partial \<Rightarrow> tc_gov_Proposal" where
  "fromPartial_tc_gov_Proposal object = (case object of (p_proposalId, p_content, p_status, p_finalTallyResult, p_submitTime, p_depositEndTime, p_totalDeposit, p_votingStartTime, p_votingEndTime) \<Rightarrow>
     createBase_tc_gov_Proposal\<lparr>tc_gov_Proposal.proposalId := nullish (p_proposalId) (Num 0),
       tc_gov_Proposal.content := map_option fromPartial_tc_Any (p_content),
       tc_gov_Proposal.status := nullish (p_status) (Num 0),
       tc_gov_Proposal.finalTallyResult := map_option fromPartial_tc_gov_TallyResult (p_finalTallyResult),
       tc_gov_Proposal.submitTime := p_submitTime,
       tc_gov_Proposal.depositEndTime := p_depositEndTime,
       tc_gov_Proposal.totalDeposit := partial_map fromPartial_tc_Coin (p_totalDeposit),
       tc_gov_Proposal.votingStartTime := p_votingStartTime,
       tc_gov_Proposal.votingEndTime := p_votingEndTime\<rparr>)"

text \<open>A partial message that sets every field.\<close>

definition partial_of_tc_gov_Proposal :: "tc_gov_Proposal \<Rightarrow> tc_gov_Proposal_Partial" where
  "partial_of_tc_gov_Proposal m =
     (Some (tc_gov_Proposal.proposalId m),
      map_option partial_of_tc_Any (tc_gov_Proposal.content m),
      Some (tc_gov_Proposal.status m),
      map_option partial_of_tc_gov_TallyResult (tc_gov_Proposal.finalTallyResult m),
      tc_gov_Proposal.submitTime m,
      tc_gov_Proposal.depositEndTime m,
      Some (map partial_of_Coin (tc_gov_Proposal.totalDeposit m)),
      tc_gov_Proposal.votingStartTime m,
      tc_gov_Proposal.votingEndTime m)"

definition wf_tc_gov_Proposal :: "('w, 'r) wire \<Rightarrow> tc_gov_Proposal \<Rightarrow> bool" where
  "wf_tc_gov_Proposal L m \<longleftrightarrow> safe_uint (tc_gov_Proposal.proposalId m)
     \<and> pred_option (\<lambda>v. wf_tc_Any L v \<and> fits L (encode_tc_Any L v)) (tc_gov_Proposal.content m)
     \<and> int32_num (tc_gov_Proposal.status m)
     \<and> pred_option (\<lambda>v. wf_tc_gov_TallyResult L v \<and> fits L (encode_tc_gov_TallyResult L v)) (tc_gov_Proposal.finalTallyResult m)
     \<and> pred_option (\<lambda>v. whole_seconds v \<and> fits L (encode_Timestamp L (toTimestamp_frac v))) (tc_gov_Proposal.submitTime m)
     \<and> pred_option (\<lambda>v. whole_seconds v \<and> fits L (encode_Timestamp L (toTimestamp_frac v))) (tc_gov_Proposal.depositEndTime m)
     \<and> list_all (\<lambda>v. wf_Coin L v \<and> fits L (encode_Coin L v)) (tc_gov_Proposal.totalDeposit m)
     \<and> pred_option (\<lambda>v. whole_seconds v \<and> fits L (encode_Timestamp L (toTimestamp_frac v))) (tc_gov_Proposal.votingStartTime m)
     \<and> pred_option (\<lambda>v. whole_seconds v \<and> fits L (encode_Timestamp L (toTimestamp_frac v))) (tc_gov_Proposal.votingEndTime m)"

definition wfj_tc_gov_Proposal :: "tc_gov_Proposal \<Rightarrow> bool" where
  "wfj_tc_gov_Proposal m \<longleftrightarrow> whole (tc_gov_Proposal.proposalId m)
     \<and> pred_option wfj_tc_Any (tc_gov_Proposal.content m)
     \<and> tc_gov_ProposalStatus_known (tc_gov_Proposal.status m)
     \<and> pred_option wfj_tc_gov_TallyResult (tc_gov_Proposal.finalTallyResult m)
     \<and> pred_option date_valid (tc_gov_Proposal.submitTime m)
     \<and> pred_option date_valid (tc_gov_Proposal.depositEndTime m)
     \<and> list_all wfj_Coin (tc_gov_Proposal.totalDeposit m)
     \<and> pred_option date_valid (tc_gov_Proposal.votingStartTime m)
     \<and> pred_option date_valid (tc_gov_Proposal.votingEndTime m)"

subsection \<open>Vote\<close>

record tc_gov_Vote =
  proposalId :: number
  voter :: jsstring
  option :: number
  options :: "tc_gov_WeightedVoteOption list"

definition createBase_tc_gov_Vote :: tc_gov_Vote where
  "createBase_tc_gov_Vote = \<lparr>tc_gov_Vote.proposalId = Num 0,
     tc_gov_Vote.voter = [],
     tc_gov_Vote.option = Num 0,
     tc_gov_Vote.options = []\<rparr>"

definition encode_tc_gov_Vote :: "('w, 'r) wire \<Rightarrow> tc_gov_Vote \<Rightarrow> 'w \<Rightarrow> 'w result" where
  "encode_tc_gov_Vote L message = seqE
    [whenE (tc_gov_Vote.proposalId message \<noteq> Num 0) (seqE [w_uint32 L 8, w_uint64 L (tc_gov_Vote.proposalId message)]),
     whenE (tc_gov_Vote.voter message \<noteq> []) (seqE [w_uint32 L 18, w_string L (tc_gov_Vote.voter message)]),
     whenE (tc_gov_Vote.option message \<noteq> Num 0) (seqE [w_uint32 L 24, w_int32 L (tc_gov_Vote.option message)]),
     forE (\<lambda>v. seqE [w_uint32 L 34, w_fork L, encode_tc_gov_WeightedVoteOption L v, w_join L]) (tc_gov_Vote.options message)]"

definition tc_gov_Vote_switch :: "('w, 'r) wire \<Rightarrow> long_lib \<Rightarrow> u32 \<Rightarrow> tc_gov_Vote \<Rightarrow> (tc_gov_Vote, 'r) action" where
  "tc_gov_Vote_switch L G tag message = js_switch (drop_bit 3 tag)
    [(1, readf (num64l G (r_uint64 L)) (\<lambda>v. message\<lparr>tc_gov_Vote.proposalId := v\<rparr>)),
     (2, readf (r_string L) (\<lambda>v. message\<lparr>tc_gov_Vote.voter := v\<rparr>)),
     (3, readf (num32 (r_int32 L)) (\<lambda>v. message\<lparr>tc_gov_Vote.option := v\<rparr>)),
     (4, readf (submsg L (decode_tc_gov_WeightedVoteOption L G)) (\<lambda>v. message\<lparr>tc_gov_Vote.options := tc_gov_Vote.options message @ [v]\<rparr>))]
    (skipType L tag message)"

definition decode_tc_gov_Vote :: "('w, 'r) wire \<Rightarrow> long_lib \<Rightarrow> 'r input \<Rightarrow> nat option \<Rightarrow> (tc_gov_Vote \<times> 'r) result" where
  "decode_tc_gov_Vote L G = decode_msg L (tc_gov_Vote_switch L G) createBase_tc_gov_Vote"

definition fromJSON_tc_gov_Vote :: "host \<Rightarrow> jsval \<Rightarrow> tc_gov_Vote result" where
  "fromJSON_tc_gov_Vote h object =
     bindE (fieldE object ''proposalId'' (numberE h) (Num 0)) (\<lambda>v_proposalId.
     bindE (fieldE object ''voter'' (stringE h) []) (\<lambda>v_voter.
     bindE (fieldE object ''option'' (enumE tc_gov_voteOptionFromJSON) (Num 0)) (\<lambda>v_option.
     bindE (arrayE object ''options'' (fromJSON_tc_gov_WeightedVoteOption h)) (\<lambda>v_options.
     Inr \<lparr>tc_gov_Vote.proposalId = v_proposalId, tc_gov_Vote.voter = v_voter, tc_gov_Vote.option = v_option, tc_gov_Vote.options = v_options\<rparr>))))"

definition toJSON_tc_gov_Vote :: "host \<Rightarrow> tc_gov_Vote \<Rightarrow> jsval result" where
  "toJSON_tc_gov_Vote h message = objE
    [jfieldE True ''proposalId'' (Inr (JNumber (Math_round (tc_gov_Vote.proposalId message)))),
     jfieldE True ''voter'' (Inr (JString (tc_gov_Vote.voter message))),
     jfieldE True ''option'' (Inr (JString (tc_gov_voteOptionToJSON (tc_gov_Vote.option message)))),
     jlistE ''options'' (toJSON_tc_gov_WeightedVoteOption h) (tc_gov_Vote.options message)]"

type_synonym tc_gov_Vote_Partial = "number option \<times> jsstring option \<times> number option \<times> tc_gov_WeightedVoteOption_Partial list option"

definition fromPartial_tc_gov_Vote :: "tc_gov_Vote_Partial \<Rightarrow> tc_gov_Vote" where
  "fromPartial_tc_gov_Vote object = (case object of (p_proposalId, p_voter, p_option, p_options) \<Rightarrow>
     createBase_tc_gov_Vote\<lparr>tc_gov_Vote.proposalId := nullish (p_proposalId) (Num 0),
       tc_gov_Vote.voter := nullish (p_voter) [],
       tc_gov_Vote.option := nullish (p_option) (Num 0),
       tc_gov_Vote.options := partial_map fromPartial_tc_gov_WeightedVoteOption (p_options)\<rparr>)"

text \<open>A partial message that sets every field.\<close>

definition partial_of_tc_gov_Vote :: "tc_gov_Vote \<Rightarrow> tc_gov_Vote_Partial" where
  "partial_of_tc_gov_Vote m =
     (Some (tc_gov_Vote.proposalId m),
      Some (tc_gov_Vote.voter m),
      Some (tc_gov_Vote.option m),
      Some (map partial_of_tc_gov_WeightedVoteOption (tc_gov_Vote.options m)))"

definition wf_tc_gov_Vote :: "('w, 'r) wire \<Rightarrow> tc_gov_Vote \<Rightarrow> bool" where
  "wf_tc_gov_Vote L m \<longleftrightarrow> safe_uint (tc_gov_Vote.proposalId m)
     \<and> wire_string (tc_gov_Vote.voter m)
     \<and> int32_num (tc_gov_Vote.option m)
     \<and> list_all (\<lambda>v. wf_tc_gov_WeightedVoteOption L v \<and> fits L (encode_tc_gov_WeightedVoteOption L v)) (tc_gov_Vote.options m)"

definition wfj_tc_gov_Vote :: "tc_gov_Vote \<Rightarrow> bool" where
  "wfj_tc_gov_Vote m \<longleftrightarrow> whole (tc_gov_Vote.proposalId m)
     \<and> tc_gov_VoteOption_known (tc_gov_Vote.option m)
     \<and> list_all wfj_tc_gov_WeightedVoteOption (tc_gov_Vote.options m)"

subsection \<open>DepositParams\<close>

record tc_gov_DepositParams =
  minDeposit :: "Coin list"
  maxDepositPeriod :: "Duration option"

definition createBase_tc_gov_DepositParams :: tc_gov_DepositParams where
  "createBase_tc_gov_DepositParams = \<lparr>tc_gov_DepositParams.minDeposit = [],
     tc_gov_DepositParams.maxDepositPeriod = None\<rparr>"

definition encode_tc_gov_DepositParams :: "('w, 'r) wire \<Rightarrow> tc_gov_DepositParams \<Rightarrow> 'w \<Rightarrow> 'w result" where
  "encode_tc_gov_DepositParams L message = seqE
    [forE (\<lambda>v. seqE [w_uint32 L 10, w_fork L, encode_tc_Coin L v, w_join L]) (tc_gov_DepositParams.minDeposit message),
     someE (tc_gov_DepositParams.maxDepositPeriod message) (\<lambda>v. seqE [w_uint32 L 18, w_fork L, encode_tc_Duration L v, w_join L])]"

definition tc_gov_DepositParams_switch :: "('w, 'r) wire \<Rightarrow> long_lib \<Rightarrow> u32 \<Rightarrow> tc_gov_DepositParams \<Rightarrow> (tc_gov_DepositParams, 'r) action" where
  "tc_gov_DepositParams_switch L G tag message = js_switch (drop_bit 3 tag)
    [(1, readf (submsg L (decode_tc_Coin L G)) (\<lambda>v. message\<lparr>tc_gov_DepositParams.minDeposit := tc_gov_DepositParams.minDeposit message @ [v]\<rparr>)),
     (2, readf (submsg L (decode_tc_Duration L G)) (\<lambda>v. message\<lparr>tc_gov_DepositParams.maxDepositPeriod := Some v\<rparr>))]
    (skipType L tag message)"

definition decode_tc_gov_DepositParams :: "('w, 'r) wire \<Rightarrow> long_lib \<Rightarrow> 'r input \<Rightarrow> nat option \<Rightarrow> (tc_gov_DepositParams \<times> 'r) result" where
  "decode_tc_gov_DepositParams L G = decode_msg L (tc_gov_DepositParams_switch L G) createBase_tc_gov_DepositParams"

definition fromJSON_tc_gov_DepositParams :: "host \<Rightarrow> jsval \<Rightarrow> tc_gov_DepositParams result" where
  "fromJSON_tc_gov_DepositParams h object =
     bindE (arrayE object ''minDeposit'' (fromJSON_tc_Coin h)) (\<lambda>v_minDeposit.
     bindE (optE object ''maxDepositPeriod'' (fromJSON_tc_Duration h)) (\<lambda>v_maxDepositPeriod.
     Inr \<lparr>tc_gov_DepositParams.minDeposit = v_minDeposit, tc_gov_DepositParams.maxDepositPeriod = v_maxDepositPeriod\<rparr>))"

definition toJSON_tc_gov_DepositParams :: "host \<Rightarrow> tc_gov_DepositParams \<Rightarrow> jsval result" where
  "toJSON_tc_gov_DepositParams h message = objE
    [jlistE ''minDeposit'' (toJSON_tc_Coin h) (tc_gov_DepositParams.minDeposit message),
     joptE ''maxDepositPeriod'' (toJSON_tc_Duration h) (tc_gov_DepositParams.maxDepositPeriod message)]"

type_synonym tc_gov_DepositParams_Partial = "Coin_Partial list option \<times> Duration_Partial option"

definition fromPartial_tc_gov_DepositParams :: "tc_gov_DepositParams_Partial \<Rightarrow> tc_gov_DepositParams" where
  "fromPartial_tc_gov_DepositParams object = (case object of (p_minDeposit, p_maxDepositPeriod) \<Rightarrow>
     createBase_tc_gov_DepositParams\<lparr>tc_gov_DepositParams.minDeposit := partial_map fromPartial_tc_Coin (p_minDeposit),
       tc_gov_DepositParams.maxDepositPeriod := map_option fromPartial_tc_Duration (p_maxDepositPeriod)\<rparr>)"

text \<open>A partial message that sets every field.\<close>

definition partial_of_tc_gov_DepositParams :: "tc_gov_DepositParams \<Rightarrow> tc_gov_DepositParams_Partial" where
  "partial_of_tc_gov_DepositParams m =
     (Some (map partial_of_Coin (tc_gov_DepositParams.minDeposit m)),
      map_option partial_of_Duration (tc_gov_DepositParams.maxDepositPeriod m))"

definition wf_tc_gov_DepositParams :: "('w, 'r) wire \<Rightarrow> tc_gov_DepositParams \<Rightarrow> bool" where
  "wf_tc_gov_DepositParams L m \<longleftrightarrow> list_all (\<lambda>v. wf_Coin L v \<and> fits L (encode_Coin L v)) (tc_gov_DepositParams.minDeposit m)
     \<and> pred_option (\<lambda>v. wf_Duration L v \<and> fits L (encode_Duration L v)) (tc_gov_DepositParams.maxDepositPeriod m)"

definition wfj_tc_gov_DepositParams :: "tc_gov_DepositParams \<Rightarrow> bool" where
  "wfj_tc_gov_DepositParams m \<longleftrightarrow> list_all wfj_Coin (tc_gov_DepositParams.minDeposit m)
     \<and> pred_option wfj_Duration (tc_gov_DepositParams.maxDepositPeriod m)"

subsection \<open>VotingParams\<close>

record tc_gov_VotingParams =
  votingPeriod :: "Duration option"

definition createBase_tc_gov_VotingParams :: tc_gov_VotingParams where
  "createBase_tc_gov_VotingParams = \<lparr>tc_gov_VotingParams.votingPeriod = None\<rparr>"

definition encode_tc_gov_VotingParams :: "('w, 'r) wire \<Rightarrow> tc_gov_VotingParams \<Rightarrow> 'w \<Rightarrow> 'w result" where
  "encode_tc_gov_VotingParams L message = seqE
    [someE (tc_gov_VotingParams.votingPeriod message) (\<lambda>v. seqE [w_uint32 L 10, w_fork L, encode_tc_Duration L v, w_join L])]"

definition tc_gov_VotingParams_switch :: "('w, 'r) wire \<Rightarrow> long_lib \<Rightarrow> u32 \<Rightarrow> tc_gov_VotingParams \<Rightarrow> (tc_gov_VotingParams, 'r) action" where
  "tc_gov_VotingParams_switch L G tag message = js_switch (drop_bit 3 tag)
    [(1, readf (submsg L (decode_tc_Duration L G)) (\<lambda>v. message\<lparr>tc_gov_VotingParams.votingPeriod := Some v\<rparr>))]
    (skipType L tag message)"

definition decode_tc_gov_VotingParams :: "('w, 'r) wire \<Rightarrow> long_lib \<Rightarrow> 'r input \<Rightarrow> nat option \<Rightarrow> (tc_gov_VotingParams \<times> 'r) result" where
  "decode_tc_gov_VotingParams L G = decode_msg L (tc_gov_VotingParams_switch L G) createBase_tc_gov_VotingParams"

definition fromJSON_tc_gov_VotingParams :: "host \<Rightarrow> jsval \<Rightarrow> tc_gov_VotingParams result" where
  "fromJSON_tc_gov_VotingParams h object =
     bindE (optE object ''votingPeriod'' (fromJSON_tc_Duration h)) (\<lambda>v_votingPeriod.
     Inr \<lparr>tc_gov_VotingParams.votingPeriod = v_votingPeriod\<rparr>)"

definition toJSON_tc_gov_VotingParams :: "host \<Rightarrow> tc_gov_VotingParams \<Rightarrow> jsval result" where
  "toJSON_tc_gov_VotingParams h message = objE
    [joptE ''votingPeriod'' (toJSON_tc_Duration h) (tc_gov_VotingParams.votingPeriod message)]"

type_synonym tc_gov_VotingParams_Partial = "Duration_Partial option"

definition fromPartial_tc_gov_VotingParams :: "tc_gov_VotingParams_Partial \<Rightarrow> tc_gov_VotingParams" where
  "fromPartial_tc_gov_VotingParams object = (case object of p_votingPeriod \<Rightarrow>
     createBase_tc_gov_VotingParams\<lparr>tc_gov_VotingParams.votingPeriod := map_option fromPartial_tc_Duration (p_votingPeriod)\<rparr>)"

text \<open>A partial message that sets every field.\<close>

definition partial_of_tc_gov_VotingParams :: "tc_gov_VotingParams \<Rightarrow> tc_gov_VotingParams_Partial" where
  "partial_of_tc_gov_VotingParams m =
     (map_option partial_of_Duration (tc_gov_VotingParams.votingPeriod m))"

definition wf_tc_gov_VotingParams :: "('w, 'r) wire \<Rightarrow> tc_gov_VotingParams \<Rightarrow> bool" where
  "wf_tc_gov_VotingParams L m \<longleftrightarrow> pred_option (\<lambda>v. wf_Duration L v \<and> fits L (encode_Duration L v)) (tc_gov_VotingParams.votingPeriod m)"

definition wfj_tc_gov_VotingParams :: "tc_gov_VotingParams \<Rightarrow> bool" where
  "wfj_tc_gov_VotingParams m \<longleftrightarrow> pred_option wfj_Duration (tc_gov_VotingParams.votingPeriod m)"

subsection \<open>TallyParams\<close>

record tc_gov_TallyParams =
  quorum :: bytes
  threshold :: bytes
  vetoThreshold :: bytes

definition createBase_tc_gov_TallyParams :: tc_gov_TallyParams where
  "createBase_tc_gov_TallyParams = \<lparr>tc_gov_TallyParams.quorum = [],
     tc_gov_TallyParams.threshold = [],
     tc_gov_TallyParams.vetoThreshold = []\<rparr>"

definition encode_tc_gov_TallyParams :: "('w, 'r) wire \<Rightarrow> tc_gov_TallyParams \<Rightarrow> 'w \<Rightarrow> 'w result" where
  "encode_tc_gov_TallyParams L message = seqE
    [whenE (length (tc_gov_TallyParams.quorum message) \<noteq> 0) (seqE [w_uint32 L 10, w_bytes L (tc_gov_TallyParams.quorum message)]),
     whenE (length (tc_gov_TallyParams.threshold message) \<noteq> 0) (seqE [w_uint32 L 18, w_bytes L (tc_gov_TallyParams.threshold message)]),
     whenE (length (tc_gov_TallyParams.vetoThreshold message) \<noteq> 0) (seqE [w_uint32 L 26, w_bytes L (tc_gov_TallyParams.vetoThreshold message)])]"

definition tc_gov_TallyParams_switch :: "('w, 'r) wire \<Rightarrow> long_lib \<Rightarrow> u32 \<Rightarrow> tc_gov_TallyParams \<Rightarrow> (tc_gov_TallyParams, 'r) action" where
  "tc_gov_TallyParams_switch L G tag message = js_switch (drop_bit 3 tag)
    [(1, readf (r_bytes L) (\<lambda>v. message\<lparr>tc_gov_TallyParams.quorum := v\<rparr>)),
     (2, readf (r_bytes L) (\<lambda>v. message\<lparr>tc_gov_TallyParams.threshold := v\<rparr>)),
     (3, readf (r_bytes L) (\<lambda>v. message\<lparr>tc_gov_TallyParams.vetoThreshold := v\<rparr>))]
    (skipType L tag message)"

definition decode_tc_gov_TallyParams :: "('w, 'r) wire \<Rightarrow> long_lib \<Rightarrow> 'r input \<Rightarrow> nat option \<Rightarrow> (tc_gov_TallyParams \<times> 'r) result" where
  "decode_tc_gov_TallyParams L G = decode_msg L (tc_gov_TallyParams_switch L G) createBase_tc_gov_TallyParams"

definition fromJSON_tc_gov_TallyParams :: "host \<Rightarrow> jsval \<Rightarrow> tc_gov_TallyParams result" where
  "fromJSON_tc_gov_TallyParams h object =
     bindE (fieldE object ''quorum'' (bytesFromBase64 h) []) (\<lambda>v_quorum.
     bindE (fieldE object ''threshold'' (bytesFromBase64 h) []) (\<lambda>v_threshold.
     bindE (fieldE object ''vetoThreshold'' (bytesFromBase64 h) []) (\<lambda>v_vetoThreshold.
     Inr \<lparr>tc_gov_TallyParams.quorum = v_quorum, tc_gov_TallyParams.threshold = v_threshold, tc_gov_TallyParams.vetoThreshold = v_vetoThreshold\<rparr>)))"

definition toJSON_tc_gov_TallyParams :: "host \<Rightarrow> tc_gov_TallyParams \<Rightarrow> jsval result" where
  "toJSON_tc_gov_TallyParams h message = objE
    [jfieldE True ''quorum'' (base64E h (tc_gov_TallyParams.quorum message)),
     jfieldE True ''threshold'' (base64E h (tc_gov_TallyParams.threshold message)),
     jfieldE True ''vetoThreshold'' (base64E h (tc_gov_TallyParams.vetoThreshold message))]"

type_synonym tc_gov_TallyParams_Partial = "bytes option \<times> bytes option \<times> bytes option"

definition fromPartial_tc_gov_TallyParams :: "tc_gov_TallyParams_Partial \<Rightarrow> tc_gov_TallyParams" where
  "fromPartial_tc_gov_TallyParams object = (case object of (p_quorum, p_threshold, p_vetoThreshold) \<Rightarrow>
     createBase_tc_gov_TallyParams\<lparr>tc_gov_TallyParams.quorum := nullish (p_quorum) [],
       tc_gov_TallyParams.threshold := nullish (p_threshold) [],
       tc_gov_TallyParams.vetoThreshold := nullish (p_vetoThreshold) []\<rparr>)"

text \<open>A partial message that sets every field.\<close>

definition partial_of_tc_gov_TallyParams :: "tc_gov_TallyParams \<Rightarrow> tc_gov_TallyParams_Partial" where
  "partial_of_tc_gov_TallyParams m =
     (Some (tc_gov_TallyParams.quorum m),
      Some (tc_gov_TallyParams.threshold m),
      Some (tc_gov_TallyParams.vetoThreshold m))"

definition wf_tc_gov_TallyParams :: "('w, 'r) wire \<Rightarrow> tc_gov_TallyParams \<Rightarrow> bool" where
  "wf_tc_gov_TallyParams L m \<longleftrightarrow> wire_bytes (tc_gov_TallyParams.quorum m)
     \<and> wire_bytes (tc_gov_TallyParams.threshold m)
     \<and> wire_bytes (tc_gov_TallyParams.vetoThreshold m)"

definition wfj_tc_gov_TallyParams :: "tc_gov_TallyParams \<Rightarrow> bool" where
  "wfj_tc_gov_TallyParams m \<longleftrightarrow> True"


section \<open>ts-client/cosmos.gov.v1beta1/types/cosmos/gov/v1beta1/genesis.ts\<close>

subsection \<open>GenesisState\<close>

record tc_gov_GenesisState =
  startingProposalId :: number
  deposits :: "tc_gov_Deposit list"
  votes :: "tc_gov_Vote list"
  proposals :: "tc_gov_Proposal list"
  depositParams :: "tc_gov_DepositParams option"
  votingParams :: "tc_gov_VotingParams option"
  tallyParams :: "tc_gov_TallyParams option"

definition createBase_tc_gov_GenesisState :: tc_gov_GenesisState where
  "createBase_tc_gov_GenesisState = \<lparr>tc_gov_GenesisState.startingProposalId = Num 0,
     tc_gov_GenesisState.deposits = [],
     tc_gov_GenesisState.votes = [],
     tc_gov_GenesisState.proposals = [],
     tc_gov_GenesisState.depositParams = None,
     tc_gov_GenesisState.votingParams = None,
     tc_gov_GenesisState.tallyParams = None\<rparr>"

definition encode_tc_gov_GenesisState :: "('w, 'r) wire \<Rightarrow> tc_gov_GenesisState \<Rightarrow> 'w \<Rightarrow> 'w result" where
  "encode_tc_gov_GenesisState L message = seqE
    [whenE (tc_gov_GenesisState.startingProposalId message \<noteq> Num 0) (seqE [w_uint32 L 8, w_uint64 L (tc_gov_GenesisState.startingProposalId message)]),
     forE (\<lambda>v. seqE [w_uint32 L 18, w_fork L, encode_tc_gov_Deposit L v, w_join L]) (tc_gov_GenesisState.deposits message),
     forE (\<lambda>v. seqE [w_uint32 L 26, w_fork L, encode_tc_gov_Vote L v, w_join L]) (tc_gov_GenesisState.votes message),
     forE (\<lambda>v. seqE [w_uint32 L 34, w_fork L, encode_tc_gov_Proposal L v, w_join L]) (tc_gov_GenesisState.proposals message),
     someE (tc_gov_GenesisState.depositParams message) (\<lambda>v. seqE [w_uint32 L 42, w_fork L, encode_tc_gov_DepositParams L v, w_join L]),
     someE (tc_gov_GenesisState.votingParams message) (\<lambda>v. seqE [w_uint32 L 50, w_fork L, encode_tc_gov_VotingParams L v, w_join L]),
     someE (tc_gov_GenesisState.tallyParams message) (\<lambda>v. seqE [w_uint32 L 58, w_fork L, encode_tc_gov_TallyParams L v, w_join L])]"

definition tc_gov_GenesisState_switch :: "('w, 'r) wire \<Rightarrow> long_lib \<Rightarrow> u32 \<Rightarrow> tc_gov_GenesisState \<Rightarrow> (tc_gov_GenesisState, 'r) action" where
  "tc_gov_GenesisState_switch L G tag message = js_switch (drop_bit 3 tag)
    [(1, readf (num64l G (r_uint64 L)) (\<lambda>v. message\<lparr>tc_gov_GenesisState.startingProposalId := v\<rparr>)),
     (2, readf (submsg L (decode_tc_gov_Deposit L G)) (\<lambda>v. message\<lparr>tc_gov_GenesisState.deposits := tc_gov_GenesisState.deposits message @ [v]\<rparr>)),
     (3, readf (submsg L (decode_tc_gov_Vote L G)) (\<lambda>v. message\<lparr>tc_gov_GenesisState.votes := tc_gov_GenesisState.votes message @ [v]\<rparr>)),
     (4, readf (submsg L (decode_tc_gov_Proposal L G)) (\<lambda>v. message\<lparr>tc_gov_GenesisState.proposals := tc_gov_GenesisState.proposals message @ [v]\<rparr>)),
     (5, readf (submsg L (decode_tc_gov_DepositParams L G)) (\<lambda>v. message\<lparr>tc_gov_GenesisState.depositParams := Some v\<rparr>)),
     (6, readf (submsg L (decode_tc_gov_VotingParams L G)) (\<lambda>v. message\<lparr>tc_gov_GenesisState.votingParams := Some v\<rparr>)),
     (7, readf (submsg L (decode_tc_gov_TallyParams L G)) (\<lambda>v. message\<lparr>tc_gov_GenesisState.tallyParams := Some v\<rparr>))]
    (skipType L tag message)"

definition decode_tc_gov_GenesisState :: "('w, 'r) wire \<Rightarrow> long_lib \<Rightarrow> 'r input \<Rightarrow> nat option \<Rightarrow> (tc_gov_GenesisState \<times> 'r) result" where
  "decode_tc_gov_GenesisState L G = decode_msg L (tc_gov_GenesisState_switch L G) createBase_tc_gov_GenesisState"

definition fromJSON_tc_gov_GenesisState :: "host \<Rightarrow> jsval \<Rightarrow> tc_gov_GenesisState result" where
  "fromJSON_tc_gov_GenesisState h object =
     bindE (fieldE object ''startingProposalId'' (numberE h) (Num 0)) (\<lambda>v_startingProposalId.
     bindE (arrayE object ''deposits'' (fromJSON_tc_gov_Deposit h)) (\<lambda>v_deposits.
     bindE (arrayE object ''votes'' (fromJSON_tc_gov_Vote h)) (\<lambda>v_votes.
     bindE (arrayE object ''proposals'' (fromJSON_tc_gov_Proposal h)) (\<lambda>v_proposals.
     bindE (optE object ''depositParams'' (fromJSON_tc_gov_DepositParams h)) (\<lambda>v_depositParams.
     bindE (optE object ''votingParams'' (fromJSON_tc_gov_VotingParams h)) (\<lambda>v_votingParams.
     bindE (optE object ''tallyParams'' (fromJSON_tc_gov_TallyParams h)) (\<lambda>v_tallyParams.
     Inr \<lparr>tc_gov_GenesisState.startingProposalId = v_startingProposalId, tc_gov_GenesisState.deposits = v_deposits, tc_gov_GenesisState.votes = v_votes, tc_gov_GenesisState.proposals = v_proposals, tc_gov_GenesisState.depositParams = v_depositParams, tc_gov_GenesisState.votingParams = v_votingParams, tc_gov_GenesisState.tallyParams = v_tallyParams\<rparr>)))))))"

definition toJSON_tc_gov_GenesisState :: "host \<Rightarrow> tc_gov_GenesisState \<Rightarrow> jsval result" where
  "toJSON_tc_gov_GenesisState h message = objE
    [jfieldE True ''startingProposalId'' (Inr (JNumber (Math_round (tc_gov_GenesisState.startingProposalId message)))),
     jlistE ''deposits'' (toJSON_tc_gov_Deposit h) (tc_gov_GenesisState.deposits message),
     jlistE ''votes'' (toJSON_tc_gov_Vote h) (tc_gov_GenesisState.votes message),
     jlistE ''proposals'' (toJSON_tc_gov_Proposal h) (tc_gov_GenesisState.proposals message),
     joptE ''depositParams'' (toJSON_tc_gov_DepositParams h) (tc_gov_GenesisState.depositParams message),
     joptE ''votingParams'' (toJSON_tc_gov_VotingParams h) (tc_gov_GenesisState.votingParams message),
     joptE ''tallyParams'' (toJSON_tc_gov_TallyParams h) (tc_gov_GenesisState.tallyParams message)]"

type_synonym tc_gov_GenesisState_Partial = "number option \<times> tc_gov_Deposit_Partial list option \<times> tc_gov_Vote_Partial list option \<times> tc_gov_Proposal_Partial list option \<times> tc_gov_DepositParams_Partial option \<times> tc_gov_VotingParams_Partial option \<times> tc_gov_TallyParams_Partial option"

definition fromPartial_tc_gov_GenesisState :: "tc_gov_GenesisState_Partial \<Rightarrow> tc_gov_GenesisState" where
  "fromPartial_tc_gov_GenesisState object = (case object of (p_startingProposalId, p_deposits, p_votes, p_proposals, p_depositParams, p_votingParams, p_tallyParams) \<Rightarrow>
     createBase_tc_gov_GenesisState\<lparr>tc_gov_GenesisState.startingProposalId := nullish (p_startingProposalId) (Num 0),
       tc_gov_GenesisState.deposits := partial_map fromPartial_tc_gov_Deposit (p_deposits),
       tc_gov_GenesisState.votes := partial_map fromPartial_tc_gov_Vote (p_votes),
       tc_gov_GenesisState.proposals := partial_map fromPartial_tc_gov_Proposal (p_proposals),
       tc_gov_GenesisState.depositParams := map_option fromPartial_tc_gov_DepositParams (p_depositParams),
       tc_gov_GenesisState.votingParams := map_option fromPartial_tc_gov_VotingParams (p_votingParams),
       tc_gov_GenesisState.tallyParams := map_option fromPartial_tc_gov_TallyParams (p_tallyParams)\<rparr>)"

text \<open>A partial message that sets every field.\<close>

definition partial_of_tc_gov_GenesisState :: "tc_gov_GenesisState \<Rightarrow> tc_gov_GenesisState_Partial" where
  "partial_of_tc_gov_GenesisState m =
     (Some (tc_gov_GenesisState.startingProposalId m),
      Some (map partial_of_tc_gov_Deposit (tc_gov_GenesisState.deposits m)),
      Some (map partial_of_tc_gov_Vote (tc_gov_GenesisState.votes m)),
      Some (map partial_of_tc_gov_Proposal (tc_gov_GenesisState.proposals m)),
      map_option partial_of_tc_gov_DepositParams (tc_gov_GenesisState.depositParams m),
      map_option partial_of_tc_gov_VotingParams (tc_gov_GenesisState.votingParams m),
      map_option partial_of_tc_gov_TallyParams (tc_gov_GenesisState.tallyParams m))"

definition wf_tc_gov_GenesisState :: "('w, 'r) wire \<Rightarrow> tc_gov_GenesisState \<Rightarrow> bool" where
  "wf_tc_gov_GenesisState L m \<longleftrightarrow> safe_uint (tc_gov_GenesisState.startingProposalId m)
     \<and> list_all (\<lambda>v. wf_tc_gov_Deposit L v \<and> fits L (encode_tc_gov_Deposit L v)) (tc_gov_GenesisState.deposits m)
     \<and> list_all (\<lambda>v. wf_tc_gov_Vote L v \<and> fits L (encode_tc_gov_Vote L v)) (tc_gov_GenesisState.votes m)
     \<and> list_all (\<lambda>v. wf_tc_gov_Proposal L v \<and> fits L (encode_tc_gov_Proposal L v)) (tc_gov_GenesisState.proposals m)
     \<and> pred_option (\<lambda>v. wf_tc_gov_DepositParams L v \<and> fits L (encode_tc_gov_DepositParams L v)) (tc_gov_GenesisState.depositParams m)
     \<and> pred_option (\<lambda>v. wf_tc_gov_VotingParams L v \<and> fits L (encode_tc_gov_VotingParams L v)) (tc_gov_GenesisState.votingParams m)
     \<and> pred_option (\<lambda>v. wf_tc_gov_TallyParams L v \<and> fits L (encode_tc_gov_TallyParams L v)) (tc_gov_GenesisState.tallyParams m)"

definition wfj_tc_gov_GenesisState :: "tc_gov_GenesisState \<Rightarrow> bool" where
  "wfj_tc_gov_GenesisState m \<longleftrightarrow> whole (tc_gov_GenesisState.startingProposalId m)
     \<and> list_all wfj_tc_gov_Deposit (tc_gov_GenesisState.deposits m)
     \<and> list_all wfj_tc_gov_Vote (tc_gov_GenesisState.votes m)
     \<and> list_all wfj_tc_gov_Proposal (tc_gov_GenesisState.proposals m)
     \<and> pred_option wfj_tc_gov_DepositParams (tc_gov_GenesisState.depositParams m)
     \<and> pred_option wfj_tc_gov_VotingParams (tc_gov_GenesisState.votingParams m)
     \<and> pred_option wfj_tc_gov_TallyParams (tc_gov_GenesisState.tallyParams m)"


section \<open>Encoding, decoding and JSON of these messages\<close>

lemmas tc_gov_VoteOption_defs = tc_gov_VoteOption_VOTE_OPTION_UNSPECIFIED_def tc_gov_VoteOption_VOTE_OPTION_YES_def tc_gov_VoteOption_VOTE_OPTION_ABSTAIN_def tc_gov_VoteOption_VOTE_OPTION_NO_def tc_gov_VoteOption_VOTE_OPTION_NO_WITH_VETO_def tc_gov_VoteOption_UNRECOGNIZED_def

lemma tc_gov_VoteOption_json [json_rules]:
  "tc_gov_VoteOption_known n \<Longrightarrow> enumE tc_gov_voteOptionFromJSON (JString (tc_gov_voteOptionToJSON n)) = Inr n"
  by (auto simp: tc_gov_VoteOption_known_def enumE_def tc_gov_voteOptionFromJSON_def tc_gov_voteOptionToJSON_def tc_gov_VoteOption_defs)

lemmas tc_gov_ProposalStatus_defs = tc_gov_ProposalStatus_PROPOSAL_STATUS_UNSPECIFIED_def tc_gov_ProposalStatus_PROPOSAL_STATUS_DEPOSIT_PERIOD_def tc_gov_ProposalStatus_PROPOSAL_STATUS_VOTING_PERIOD_def tc_gov_ProposalStatus_PROPOSAL_STATUS_PASSED_def tc_gov_ProposalStatus_PROPOSAL_STATUS_REJECTED_def tc_gov_ProposalStatus_PROPOSAL_STATUS_FAILED_def tc_gov_ProposalStatus_UNRECOGNIZED_def

lemma tc_gov_ProposalStatus_json [json_rules]:
  "tc_gov_ProposalStatus_known n \<Longrightarrow> enumE tc_gov_proposalStatusFromJSON (JString (tc_gov_proposalStatusToJSON n)) = Inr n"
  by (auto simp: tc_gov_ProposalStatus_known_def enumE_def tc_gov_proposalStatusFromJSON_def tc_gov_proposalStatusToJSON_def tc_gov_ProposalStatus_defs)

lemma fromPartial_partial_of_tc_gov_WeightedVoteOption [simp]: "fromPartial_tc_gov_WeightedVoteOption (partial_of_tc_gov_WeightedVoteOption m) = m"
  by (simp add: fromPartial_tc_gov_WeightedVoteOption_def partial_of_tc_gov_WeightedVoteOption_def createBase_tc_gov_WeightedVoteOption_def partial_map_def option.map_comp o_def option.map_ident)

lemma tc_gov_WeightedVoteOption_tags:
  "tc_gov_WeightedVoteOption_switch L G 8 m = readf (num32 (r_int32 L)) (\<lambda>v. m\<lparr>tc_gov_WeightedVoteOption.option := v\<rparr>)"
  "tc_gov_WeightedVoteOption_switch L G 18 m = readf (r_string L) (\<lambda>v. m\<lparr>tc_gov_WeightedVoteOption.weight := v\<rparr>)"
  by (simp_all add: tc_gov_WeightedVoteOption_switch_def)

lemma fromPartial_partial_of_tc_gov_TextProposal [simp]: "fromPartial_tc_gov_TextProposal (partial_of_tc_gov_TextProposal m) = m"
  by (simp add: fromPartial_tc_gov_TextProposal_def partial_of_tc_gov_TextProposal_def createBase_tc_gov_TextProposal_def partial_map_def option.map_comp o_def option.map_ident)

lemma tc_gov_TextProposal_tags:
  "tc_gov_TextProposal_switch L G 10 m = readf (r_string L) (\<lambda>v. m\<lparr>tc_gov_TextProposal.title := v\<rparr>)"
  "tc_gov_TextProposal_switch L G 18 m = readf (r_string L) (\<lambda>v. m\<lparr>tc_gov_TextProposal.description := v\<rparr>)"
  by (simp_all add: tc_gov_TextProposal_switch_def)

lemma fromPartial_partial_of_tc_gov_Deposit [simp]: "fromPartial_tc_gov_Deposit (partial_of_tc_gov_Deposit m) = m"
  by (simp add: fromPartial_tc_gov_Deposit_def partial_of_tc_gov_Deposit_def createBase_tc_gov_Deposit_def partial_map_def option.map_comp o_def option.map_ident tc_Coin_eqs)

lemma tc_gov_Deposit_tags:
  "tc_gov_Deposit_switch L G 8 m = readf (num64l G (r_uint64 L)) (\<lambda>v. m\<lparr>tc_gov_Deposit.proposalId := v\<rparr>)"
  "tc_gov_Deposit_switch L G 18 m = readf (r_string L) (\<lambda>v. m\<lparr>tc_gov_Deposit.depositor := v\<rparr>)"
  "tc_gov_Deposit_switch L G 26 m = readf (submsg L (decode_tc_Coin L G)) (\<lambda>v. m\<lparr>tc_gov_Deposit.amount := tc_gov_Deposit.amount m @ [v]\<rparr>)"
  by (simp_all add: tc_gov_Deposit_switch_def)

lemma fromPartial_partial_of_tc_gov_TallyResult [simp]: "fromPartial_tc_gov_TallyResult (partial_of_tc_gov_TallyResult m) = m"
  by (simp add: fromPartial_tc_gov_TallyResult_def partial_of_tc_gov_TallyResult_def createBase_tc_gov_TallyResult_def partial_map_def option.map_comp o_def option.map_ident)

lemma tc_gov_TallyResult_tags:
  "tc_gov_TallyResult_switch L G 10 m = readf (r_string L) (\<lambda>v. m\<lparr>tc_gov_TallyResult.yes := v\<rparr>)"
  "tc_gov_TallyResult_switch L G 18 m = readf (r_string L) (\<lambda>v. m\<lparr>tc_gov_TallyResult.abstain := v\<rparr>)"
  "tc_gov_TallyResult_switch L G 26 m = readf (r_string L) (\<lambda>v. m\<lparr>tc_gov_TallyResult.no := v\<rparr>)"
  "tc_gov_TallyResult_switch L G 34 m = readf (r_string L) (\<lambda>v. m\<lparr>tc_gov_TallyResult.noWithVeto := v\<rparr>)"
  by (simp_all add: tc_gov_TallyResult_switch_def)

lemma fromPartial_partial_of_tc_gov_Proposal [simp]: "fromPartial_tc_gov_Proposal (partial_of_tc_gov_Proposal m) = m"
  by (simp add: fromPartial_tc_gov_Proposal_def partial_of_tc_gov_Proposal_def createBase_tc_gov_Proposal_def partial_map_def option.map_comp o_def option.map_ident tc_Coin_eqs)

lemma tc_gov_Proposal_tags:
  "tc_gov_Proposal_switch L G 8 m = readf (num64l G (r_uint64 L)) (\<lambda>v. m\<lparr>tc_gov_Proposal.proposalId := v\<rparr>)"
  "tc_gov_Proposal_switch L G 18 m = readf (submsg L (decode_tc_Any L G)) (\<lambda>v. m\<lparr>tc_gov_Proposal.content := Some v\<rparr>)"
  "tc_gov_Proposal_switch L G 24 m = readf (num32 (r_int32 L)) (\<lambda>v. m\<lparr>tc_gov_Proposal.status := v\<rparr>)"
  "tc_gov_Proposal_switch L G 34 m = readf (submsg L (decode_tc_gov_TallyResult L G)) (\<lambda>v. m\<lparr>tc_gov_Proposal.finalTallyResult := Some v\<rparr>)"
  "tc_gov_Proposal_switch L G 42 m = readf (read_map fromTimestamp_frac (submsg L (decode_tc_Timestamp L G))) (\<lambda>v. m\<lparr>tc_gov_Proposal.submitTime := Some v\<rparr>)"
  "tc_gov_Proposal_switch L G 50 m = readf (read_map fromTimestamp_frac (submsg L (decode_tc_Timestamp L G))) (\<lambda>v. m\<lparr>tc_gov_Proposal.depositEndTime := Some v\<rparr>)"
  "tc_gov_Proposal_switch L G 58 m = readf (submsg L (decode_tc_Coin L G)) (\<lambda>v. m\<lparr>tc_gov_Proposal.totalDeposit := tc_gov_Proposal.totalDeposit m @ [v]\<rparr>)"
  "tc_gov_Proposal_switch L G 66 m = readf (read_map fromTimestamp_frac (submsg L (decode_tc_Timestamp L G))) (\<lambda>v. m\<lparr>tc_gov_Proposal.votingStartTime := Some v\<rparr>)"
  "tc_gov_Proposal_switch L G 74 m = readf (read_map fromTimestamp_frac (submsg L (decode_tc_Timestamp L G))) (\<lambda>v. m\<lparr>tc_gov_Proposal.votingEndTime := Some v\<rparr>)"
  by (simp_all add: tc_gov_Proposal_switch_def)

lemma fromPartial_partial_of_tc_gov_Vote [simp]: "fromPartial_tc_gov_Vote (partial_of_tc_gov_Vote m) = m"
  by (simp add: fromPartial_tc_gov_Vote_def partial_of_tc_gov_Vote_def createBase_tc_gov_Vote_def partial_map_def option.map_comp o_def option.map_ident)

lemma tc_gov_Vote_tags:
  "tc_gov_Vote_switch L G 8 m = readf (num64l G (r_uint64 L)) (\<lambda>v. m\<lparr>tc_gov_Vote.proposalId := v\<rparr>)"
  "tc_gov_Vote_switch L G 18 m = readf (r_string L) (\<lambda>v. m\<lparr>tc_gov_Vote.voter := v\<rparr>)"
  "tc_gov_Vote_switch L G 24 m = readf (num32 (r_int32 L)) (\<lambda>v. m\<lparr>tc_gov_Vote.option := v\<rparr>)"
  "tc_gov_Vote_switch L G 34 m = readf (submsg L (decode_tc_gov_WeightedVoteOption L G)) (\<lambda>v. m\<lparr>tc_gov_Vote.options := tc_gov_Vote.options m @ [v]\<rparr>)"
  by (simp_all add: tc_gov_Vote_switch_def)

lemma fromPartial_partial_of_tc_gov_DepositParams [simp]: "fromPartial_tc_gov_DepositParams (partial_of_tc_gov_DepositParams m) = m"
  by (simp add: fromPartial_tc_gov_DepositParams_def partial_of_tc_gov_DepositParams_def createBase_tc_gov_DepositParams_def partial_map_def option.map_comp o_def option.map_ident tc_Coin_eqs tc_Duration_eqs)

lemma tc_gov_DepositParams_tags:
  "tc_gov_DepositParams_switch L G 10 m = readf (submsg L (decode_tc_Coin L G)) (\<lambda>v. m\<lparr>tc_gov_DepositParams.minDeposit := tc_gov_DepositParams.minDeposit m @ [v]\<rparr>)"
  "tc_gov_DepositParams_switch L G 18 m = readf (submsg L (decode_tc_Duration L G)) (\<lambda>v. m\<lparr>tc_gov_DepositParams.maxDepositPeriod := Some v\<rparr>)"
  by (simp_all add: tc_gov_DepositParams_switch_def)

lemma fromPartial_partial_of_tc_gov_VotingParams [simp]: "fromPartial_tc_gov_VotingParams (partial_of_tc_gov_VotingParams m) = m"
  by (simp add: fromPartial_tc_gov_VotingParams_def partial_of_tc_gov_VotingParams_def createBase_tc_gov_VotingParams_def partial_map_def option.map_comp o_def option.map_ident tc_Duration_eqs)

lemma tc_gov_VotingParams_tags:
  "tc_gov_VotingParams_switch L G 10 m = readf (submsg L (decode_tc_Duration L G)) (\<lambda>v. m\<lparr>tc_gov_VotingParams.votingPeriod := Some v\<rparr>)"
  by (simp_all add: tc_gov_VotingParams_switch_def)

lemma fromPartial_partial_of_tc_gov_TallyParams [simp]: "fromPartial_tc_gov_TallyParams (partial_of_tc_gov_TallyParams m) = m"
  by (simp add: fromPartial_tc_gov_TallyParams_def partial_of_tc_gov_TallyParams_def createBase_tc_gov_TallyParams_def partial_map_def option.map_comp o_def option.map_ident)

lemma tc_gov_TallyParams_tags:
  "tc_gov_TallyParams_switch L G 10 m = readf (r_bytes L) (\<lambda>v. m\<lparr>tc_gov_TallyParams.quorum := v\<rparr>)"
  "tc_gov_TallyParams_switch L G 18 m = readf (r_bytes L) (\<lambda>v. m\<lparr>tc_gov_TallyParams.threshold := v\<rparr>)"
  "tc_gov_TallyParams_switch L G 26 m = readf (r_bytes L) (\<lambda>v. m\<lparr>tc_gov_TallyParams.vetoThreshold := v\<rparr>)"
  by (simp_all add: tc_gov_TallyParams_switch_def)

context long_wire_laws
begin

lemma tc_gov_WeightedVoteOption_codec: "message_codec L F out inp (encode_tc_gov_WeightedVoteOption L) (tc_gov_WeightedVoteOption_switch L G) createBase_tc_gov_WeightedVoteOption (wf_tc_gov_WeightedVoteOption L)"
proof unfold_locales
  show good: "good_sw (tc_gov_WeightedVoteOption_switch L G)"
    unfolding tc_gov_WeightedVoteOption_switch_def by (intro good_swI fwd_rules)
  fix m assume "wf_tc_gov_WeightedVoteOption L m"
  then show "codes (tc_gov_WeightedVoteOption_switch L G) (encode_tc_gov_WeightedVoteOption L m) createBase_tc_gov_WeightedVoteOption m"
    unfolding encode_tc_gov_WeightedVoteOption_def wf_tc_gov_WeightedVoteOption_def
    by (elim conjE)
      (rule codes_Cons codes_Nil [OF tc_gov_WeightedVoteOption.equality] codec_rules
        codes_when [where tag = 8 and u = tc_gov_WeightedVoteOption.option_update and op = "num32 (r_int32 L)", OF good]
        codes_when [where tag = 18 and u = tc_gov_WeightedVoteOption.weight_update and op = "r_string L", OF good]
      | assumption | (simp add: tc_gov_WeightedVoteOption_tags createBase_tc_gov_WeightedVoteOption_def; fail))+
qed

lemmas tc_gov_WeightedVoteOption_carries =
  message_codec.opt_carries [OF tc_gov_WeightedVoteOption_codec, folded decode_tc_gov_WeightedVoteOption_def]
  message_codec.list_carries [OF tc_gov_WeightedVoteOption_codec, folded decode_tc_gov_WeightedVoteOption_def]

lemmas tc_gov_WeightedVoteOption_good = message_codec.op_good [OF tc_gov_WeightedVoteOption_codec, folded decode_tc_gov_WeightedVoteOption_def]

lemmas tc_gov_WeightedVoteOption_roundtrip = message_codec.roundtrip [OF tc_gov_WeightedVoteOption_codec, folded decode_tc_gov_WeightedVoteOption_def]

lemmas tc_gov_WeightedVoteOption_returns = message_codec.decode_returns [OF tc_gov_WeightedVoteOption_codec, folded decode_tc_gov_WeightedVoteOption_def]

lemma tc_gov_TextProposal_codec: "message_codec L F out inp (encode_tc_gov_TextProposal L) (tc_gov_TextProposal_switch L G) createBase_tc_gov_TextProposal (wf_tc_gov_TextProposal L)"
proof unfold_locales
  show good: "good_sw (tc_gov_TextProposal_switch L G)"
    unfolding tc_gov_TextProposal_switch_def by (intro good_swI fwd_rules)
  fix m assume "wf_tc_gov_TextProposal L m"
  then show "codes (tc_gov_TextProposal_switch L G) (encode_tc_gov_TextProposal L m) createBase_tc_gov_TextProposal m"
    unfolding encode_tc_gov_TextProposal_def wf_tc_gov_TextProposal_def
    by (elim conjE)
      (rule codes_Cons codes_Nil [OF tc_gov_TextProposal.equality] codec_rules
        codes_when [where tag = 10 and u = tc_gov_TextProposal.title_update and op = "r_string L", OF good]
        codes_when [where tag = 18 and u = tc_gov_TextProposal.description_update and op = "r_string L", OF good]
      | assumption | (simp add: tc_gov_TextProposal_tags createBase_tc_gov_TextProposal_def; fail))+
qed

lemmas tc_gov_TextProposal_roundtrip = message_codec.roundtrip [OF tc_gov_TextProposal_codec, folded decode_tc_gov_TextProposal_def]

lemmas tc_gov_TextProposal_returns = message_codec.decode_returns [OF tc_gov_TextProposal_codec, folded decode_tc_gov_TextProposal_def]

lemma tc_gov_Deposit_codec: "message_codec L F out inp (encode_tc_gov_Deposit L) (tc_gov_Deposit_switch L G) createBase_tc_gov_Deposit (wf_tc_gov_Deposit L)"
proof unfold_locales
  show good: "good_sw (tc_gov_Deposit_switch L G)"
    unfolding tc_gov_Deposit_switch_def by (intro good_swI fwd_rules)
  fix m assume "wf_tc_gov_Deposit L m"
  then show "codes (tc_gov_Deposit_switch L G) (encode_tc_gov_Deposit L m) createBase_tc_gov_Deposit m"
    unfolding encode_tc_gov_Deposit_def wf_tc_gov_Deposit_def tc_Coin_eqs(2)
    by (elim conjE)
      (rule codes_Cons codes_Nil [OF tc_gov_Deposit.equality] codec_rules
        codes_when [where tag = 8 and u = tc_gov_Deposit.proposalId_update and op = "num64l G (r_uint64 L)", OF good]
        codes_when [where tag = 18 and u = tc_gov_Deposit.depositor_update and op = "r_string L", OF good]
        codes_for [where tag = 26 and u = tc_gov_Deposit.amount_update and op = "submsg L (decode_tc_Coin L G)", OF good]
      | assumption | (simp add: tc_gov_Deposit_tags createBase_tc_gov_Deposit_def; fail))+
qed

lemmas tc_gov_Deposit_carries =
  message_codec.opt_carries [OF tc_gov_Deposit_codec, folded decode_tc_gov_Deposit_def]
  message_codec.list_carries [OF tc_gov_Deposit_codec, folded decode_tc_gov_Deposit_def]

lemmas tc_gov_Deposit_good = message_codec.op_good [OF tc_gov_Deposit_codec, folded decode_tc_gov_Deposit_def]

lemmas tc_gov_Deposit_roundtrip = message_codec.roundtrip [OF tc_gov_Deposit_codec, folded decode_tc_gov_Deposit_def]

lemmas tc_gov_Deposit_returns = message_codec.decode_returns [OF tc_gov_Deposit_codec, folded decode_tc_gov_Deposit_def]

lemma tc_gov_TallyResult_codec: "message_codec L F out inp (encode_tc_gov_TallyResult L) (tc_gov_TallyResult_switch L G) createBase_tc_gov_TallyResult (wf_tc_gov_TallyResult L)"
proof unfold_locales
  show good: "good_sw (tc_gov_TallyResult_switch L G)"
    unfolding tc_gov_TallyResult_switch_def by (intro good_swI fwd_rules)
  fix m assume "wf_tc_gov_TallyResult L m"
  then show "codes (tc_gov_TallyResult_switch L G) (encode_tc_gov_TallyResult L m) createBase_tc_gov_TallyResult m"
    unfolding encode_tc_gov_TallyResult_def wf_tc_gov_TallyResult_def
    by (elim conjE)
      (rule codes_Cons codes_Nil [OF tc_gov_TallyResult.equality] codec_rules
        codes_when [where tag = 10 and u = tc_gov_TallyResult.yes_update and op = "r_string L", OF good]
        codes_when [where tag = 18 and u = tc_gov_TallyResult.abstain_update and op = "r_string L", OF good]
        codes_when [where tag = 26 and u = tc_gov_TallyResult.no_update and op = "r_string L", OF good]
        codes_when [where tag = 34 and u = tc_gov_TallyResult.noWithVeto_update and op = "r_string L", OF good]
      | assumption | (simp add: tc_gov_TallyResult_tags createBase_tc_gov_TallyResult_def; fail))+
qed

lemmas tc_gov_TallyResult_carries =
  message_codec.opt_carries [OF tc_gov_TallyResult_codec, folded decode_tc_gov_TallyResult_def]
  message_codec.list_carries [OF tc_gov_TallyResult_codec, folded decode_tc_gov_TallyResult_def]

lemmas tc_gov_TallyResult_good = message_codec.op_good [OF tc_gov_TallyResult_codec, folded decode_tc_gov_TallyResult_def]

lemmas tc_gov_TallyResult_roundtrip = message_codec.roundtrip [OF tc_gov_TallyResult_codec, folded decode_tc_gov_TallyResult_def]

lemmas tc_gov_TallyResult_returns = message_codec.decode_returns [OF tc_gov_TallyResult_codec, folded decode_tc_gov_TallyResult_def]

lemma tc_gov_Proposal_codec: "message_codec L F out inp (encode_tc_gov_Proposal L) (tc_gov_Proposal_switch L G) createBase_tc_gov_Proposal (wf_tc_gov_Proposal L)"
proof unfold_locales
  show good: "good_sw (tc_gov_Proposal_switch L G)"
    unfolding tc_gov_Proposal_switch_def by (intro good_swI fwd_rules tc_Any_good tc_gov_TallyResult_good)
  fix m assume "wf_tc_gov_Proposal L m"
  then show "codes (tc_gov_Proposal_switch L G) (encode_tc_gov_Proposal L m) createBase_tc_gov_Proposal m"
    unfolding encode_tc_gov_Proposal_def wf_tc_gov_Proposal_def tc_Coin_eqs(2) tc_Timestamp_eqs(2)
    by (elim conjE)
      (rule codes_Cons codes_Nil [OF tc_gov_Proposal.equality] codec_rules tc_Any_carries tc_gov_TallyResult_carries
        codes_when [where tag = 8 and u = tc_gov_Proposal.proposalId_update and op = "num64l G (r_uint64 L)", OF good]
        codes_some [where tag = 18 and u = tc_gov_Proposal.content_update and op = "submsg L (decode_tc_Any L G)", OF good]
        codes_when [where tag = 24 and u = tc_gov_Proposal.status_update and op = "num32 (r_int32 L)", OF good]
        codes_some [where tag = 34 and u = tc_gov_Proposal.finalTallyResult_update and op = "submsg L (decode_tc_gov_TallyResult L G)", OF good]
        codes_some [where tag = 42 and u = tc_gov_Proposal.submitTime_update and op = "read_map fromTimestamp_frac (submsg L (decode_tc_Timestamp L G))", OF good]
        codes_some [where tag = 50 and u = tc_gov_Proposal.depositEndTime_update and op = "read_map fromTimestamp_frac (submsg L (decode_tc_Timestamp L G))", OF good]
        codes_for [where tag = 58 and u = tc_gov_Proposal.totalDeposit_update and op = "submsg L (decode_tc_Coin L G)", OF good]
        codes_some [where tag = 66 and u = tc_gov_Proposal.votingStartTime_update and op = "read_map fromTimestamp_frac (submsg L (decode_tc_Timestamp L G))", OF good]
        codes_some [where tag = 74 and u = tc_gov_Proposal.votingEndTime_update and op = "read_map fromTimestamp_frac (submsg L (decode_tc_Timestamp L G))", OF good]
      | assumption | (simp add: tc_gov_Proposal_tags createBase_tc_gov_Proposal_def; fail))+
qed

lemmas tc_gov_Proposal_carries =
  message_codec.opt_carries [OF tc_gov_Proposal_codec, folded decode_tc_gov_Proposal_def]
  message_codec.list_carries [OF tc_gov_Proposal_codec, folded decode_tc_gov_Proposal_def]

lemmas tc_gov_Proposal_good = message_codec.op_good [OF tc_gov_Proposal_codec, folded decode_tc_gov_Proposal_def]

lemmas tc_gov_Proposal_roundtrip = message_codec.roundtrip [OF tc_gov_Proposal_codec, folded decode_tc_gov_Proposal_def]

lemmas tc_gov_Proposal_returns = message_codec.decode_returns [OF tc_gov_Proposal_codec, folded decode_tc_gov_Proposal_def]

lemma tc_gov_Vote_codec: "message_codec L F out inp (encode_tc_gov_Vote L) (tc_gov_Vote_switch L G) createBase_tc_gov_Vote (wf_tc_gov_Vote L)"
proof unfold_locales
  show good: "good_sw (tc_gov_Vote_switch L G)"
    unfolding tc_gov_Vote_switch_def by (intro good_swI fwd_rules tc_gov_WeightedVoteOption_good)
  fix m assume "wf_tc_gov_Vote L m"
  then show "codes (tc_gov_Vote_switch L G) (encode_tc_gov_Vote L m) createBase_tc_gov_Vote m"
    unfolding encode_tc_gov_Vote_def wf_tc_gov_Vote_def
    by (elim conjE)
      (rule codes_Cons codes_Nil [OF tc_gov_Vote.equality] codec_rules tc_gov_WeightedVoteOption_carries
        codes_when [where tag = 8 and u = tc_gov_Vote.proposalId_update and op = "num64l G (r_uint64 L)", OF good]
        codes_when [where tag = 18 and u = tc_gov_Vote.voter_update and op = "r_string L", OF good]
        codes_when [where tag = 24 and u = tc_gov_Vote.option_update and op = "num32 (r_int32 L)", OF good]
        codes_for [where tag = 34 and u = tc_gov_Vote.options_update and op = "submsg L (decode_tc_gov_WeightedVoteOption L G)", OF good]
      | assumption | (simp add: tc_gov_Vote_tags createBase_tc_gov_Vote_def; fail))+
qed

lemmas tc_gov_Vote_carries =
  message_codec.opt_carries [OF tc_gov_Vote_codec, folded decode_tc_gov_Vote_def]
  message_codec.list_carries [OF tc_gov_Vote_codec, folded decode_tc_gov_Vote_def]

lemmas tc_gov_Vote_good = message_codec.op_good [OF tc_gov_Vote_codec, folded decode_tc_gov_Vote_def]

lemmas tc_gov_Vote_roundtrip = message_codec.roundtrip [OF tc_gov_Vote_codec, folded decode_tc_gov_Vote_def]

lemmas tc_gov_Vote_returns = message_codec.decode_returns [OF tc_gov_Vote_codec, folded decode_tc_gov_Vote_def]

lemma tc_gov_DepositParams_codec: "message_codec L F out inp (encode_tc_gov_DepositParams L) (tc_gov_DepositParams_switch L G) createBase_tc_gov_DepositParams (wf_tc_gov_DepositParams L)"
proof unfold_locales
  show good: "good_sw (tc_gov_DepositParams_switch L G)"
    unfolding tc_gov_DepositParams_switch_def by (intro good_swI fwd_rules)
  fix m assume "wf_tc_gov_DepositParams L m"
  then show "codes (tc_gov_DepositParams_switch L G) (encode_tc_gov_DepositParams L m) createBase_tc_gov_DepositParams m"
    unfolding encode_tc_gov_DepositParams_def wf_tc_gov_DepositParams_def tc_Coin_eqs(2) tc_Duration_eqs(2)
    by (elim conjE)
      (rule codes_Cons codes_Nil [OF tc_gov_DepositParams.equality] codec_rules
        codes_for [where tag = 10 and u = tc_gov_DepositParams.minDeposit_update and op = "submsg L (decode_tc_Coin L G)", OF good]
        codes_some [where tag = 18 and u = tc_gov_DepositParams.maxDepositPeriod_update and op = "submsg L (decode_tc_Duration L G)", OF good]
      | assumption | (simp add: tc_gov_DepositParams_tags createBase_tc_gov_DepositParams_def; fail))+
qed

lemmas tc_gov_DepositParams_carries =
  message_codec.opt_carries [OF tc_gov_DepositParams_codec, folded decode_tc_gov_DepositParams_def]
  message_codec.list_carries [OF tc_gov_DepositParams_codec, folded decode_tc_gov_DepositParams_def]

lemmas tc_gov_DepositParams_good = message_codec.op_good [OF tc_gov_DepositParams_codec, folded decode_tc_gov_DepositParams_def]

lemmas tc_gov_DepositParams_roundtrip = message_codec.roundtrip [OF tc_gov_DepositParams_codec, folded decode_tc_gov_DepositParams_def]

lemmas tc_gov_DepositParams_returns = message_codec.decode_returns [OF tc_gov_DepositParams_codec, folded decode_tc_gov_DepositParams_def]

lemma tc_gov_VotingParams_codec: "message_codec L F out inp (encode_tc_gov_VotingParams L) (tc_gov_VotingParams_switch L G) createBase_tc_gov_VotingParams (wf_tc_gov_VotingParams L)"
proof unfold_locales
  show good: "good_sw (tc_gov_VotingParams_switch L G)"
    unfolding tc_gov_VotingParams_switch_def by (intro good_swI fwd_rules)
  fix m assume "wf_tc_gov_VotingParams L m"
  then show "codes (tc_gov_VotingParams_switch L G) (encode_tc_gov_VotingParams L m) createBase_tc_gov_VotingParams m"
    unfolding encode_tc_gov_VotingParams_def wf_tc_gov_VotingParams_def tc_Duration_eqs(2)
    by (-)
      (rule codes_Cons codes_Nil [OF tc_gov_VotingParams.equality] codec_rules
        codes_some [where tag = 10 and u = tc_gov_VotingParams.votingPeriod_update and op = "submsg L (decode_tc_Duration L G)", OF good]
      | assumption | (simp add: tc_gov_VotingParams_tags createBase_tc_gov_VotingParams_def; fail))+
qed

lemmas tc_gov_VotingParams_carries =
  message_codec.opt_carries [OF tc_gov_VotingParams_codec, folded decode_tc_gov_VotingParams_def]
  message_codec.list_carries [OF tc_gov_VotingParams_codec, folded decode_tc_gov_VotingParams_def]

lemmas tc_gov_VotingParams_good = message_codec.op_good [OF tc_gov_VotingParams_codec, folded decode_tc_gov_VotingParams_def]

lemmas tc_gov_VotingParams_roundtrip = message_codec.roundtrip [OF tc_gov_VotingParams_codec, folded decode_tc_gov_VotingParams_def]

lemmas tc_gov_VotingParams_returns = message_codec.decode_returns [OF tc_gov_VotingParams_codec, folded decode_tc_gov_VotingParams_def]

lemma tc_gov_TallyParams_codec: "message_codec L F out inp (encode_tc_gov_TallyParams L) (tc_gov_TallyParams_switch L G) createBase_tc_gov_TallyParams (wf_tc_gov_TallyParams L)"
proof unfold_locales
  show good: "good_sw (tc_gov_TallyParams_switch L G)"
    unfolding tc_gov_TallyParams_switch_def by (intro good_swI fwd_rules)
  fix m assume "wf_tc_gov_TallyParams L m"
  then show "codes (tc_gov_TallyParams_switch L G) (encode_tc_gov_TallyParams L m) createBase_tc_gov_TallyParams m"
    unfolding encode_tc_gov_TallyParams_def wf_tc_gov_TallyParams_def
    by (elim conjE)
      (rule codes_Cons codes_Nil [OF tc_gov_TallyParams.equality] codec_rules
        codes_when [where tag = 10 and u = tc_gov_TallyParams.quorum_update and op = "r_bytes L", OF good]
        codes_when [where tag = 18 and u = tc_gov_TallyParams.threshold_update and op = "r_bytes L", OF good]
        codes_when [where tag = 26 and u = tc_gov_TallyParams.vetoThreshold_update and op = "r_bytes L", OF good]
      | assumption | (simp add: tc_gov_TallyParams_tags createBase_tc_gov_TallyParams_def; fail))+
qed

lemmas tc_gov_TallyParams_carries =
  message_codec.opt_carries [OF tc_gov_TallyParams_codec, folded decode_tc_gov_TallyParams_def]
  message_codec.list_carries [OF tc_gov_TallyParams_codec, folded decode_tc_gov_TallyParams_def]

lemmas tc_gov_TallyParams_good = message_codec.op_good [OF tc_gov_TallyParams_codec, folded decode_tc_gov_TallyParams_def]

lemmas tc_gov_TallyParams_roundtrip = message_codec.roundtrip [OF tc_gov_TallyParams_codec, folded decode_tc_gov_TallyParams_def]

lemmas tc_gov_TallyParams_returns = message_codec.decode_returns [OF tc_gov_TallyParams_codec, folded decode_tc_gov_TallyParams_def]

end

lemma tc_gov_WeightedVoteOption_json: "message_json toJSON_tc_gov_WeightedVoteOption fromJSON_tc_gov_WeightedVoteOption wfj_tc_gov_WeightedVoteOption"
proof unfold_locales
  fix h m
  assume "wfj_tc_gov_WeightedVoteOption m"
  then show "json_rt (toJSON_tc_gov_WeightedVoteOption h) (fromJSON_tc_gov_WeightedVoteOption h) m"
    unfolding toJSON_tc_gov_WeightedVoteOption_def fromJSON_tc_gov_WeightedVoteOption_def wfj_tc_gov_WeightedVoteOption_def
    by (-) (rule json_rtI json_rules | assumption | (simp; fail))+
qed

lemmas tc_gov_WeightedVoteOption_json_rules = message_json.json_list_rules [OF tc_gov_WeightedVoteOption_json]

lemma tc_gov_TextProposal_json: "message_json toJSON_tc_gov_TextProposal fromJSON_tc_gov_TextProposal wfj_tc_gov_TextProposal"
proof unfold_locales
  fix h m
  assume "wfj_tc_gov_TextProposal m"
  then show "json_rt (toJSON_tc_gov_TextProposal h) (fromJSON_tc_gov_TextProposal h) m"
    unfolding toJSON_tc_gov_TextProposal_def fromJSON_tc_gov_TextProposal_def wfj_tc_gov_TextProposal_def
    by (-) (rule json_rtI json_rules | assumption | (simp; fail))+
qed

lemma tc_gov_Deposit_json: "message_json toJSON_tc_gov_Deposit fromJSON_tc_gov_Deposit wfj_tc_gov_Deposit"
proof unfold_locales
  fix h m
  assume "wfj_tc_gov_Deposit m"
  then show "json_rt (toJSON_tc_gov_Deposit h) (fromJSON_tc_gov_Deposit h) m"
    unfolding toJSON_tc_gov_Deposit_def fromJSON_tc_gov_Deposit_def wfj_tc_gov_Deposit_def
    by (elim conjE) (rule json_rtI json_rules | assumption | (simp; fail))+
qed

lemmas tc_gov_Deposit_json_rules = message_json.json_list_rules [OF tc_gov_Deposit_json]

lemma tc_gov_TallyResult_json: "message_json toJSON_tc_gov_TallyResult fromJSON_tc_gov_TallyResult wfj_tc_gov_TallyResult"
proof unfold_locales
  fix h m
  assume "wfj_tc_gov_TallyResult m"
  then show "json_rt (toJSON_tc_gov_TallyResult h) (fromJSON_tc_gov_TallyResult h) m"
    unfolding toJSON_tc_gov_TallyResult_def fromJSON_tc_gov_TallyResult_def wfj_tc_gov_TallyResult_def
    by (-) (rule json_rtI json_rules | assumption | (simp; fail))+
qed

lemmas tc_gov_TallyResult_json_rules = message_json.json_list_rules [OF tc_gov_TallyResult_json]

lemma tc_gov_Proposal_json: "message_json toJSON_tc_gov_Proposal fromJSON_tc_gov_Proposal wfj_tc_gov_Proposal"
proof unfold_locales
  fix h m
  assume "wfj_tc_gov_Proposal m"
  then show "json_rt (toJSON_tc_gov_Proposal h) (fromJSON_tc_gov_Proposal h) m"
    unfolding toJSON_tc_gov_Proposal_def fromJSON_tc_gov_Proposal_def wfj_tc_gov_Proposal_def
    by (elim conjE) (rule json_rtI json_rules tc_Any_json_rules tc_gov_TallyResult_json_rules | assumption | (simp; fail))+
qed

lemmas tc_gov_Proposal_json_rules = message_json.json_list_rules [OF tc_gov_Proposal_json]

lemma tc_gov_Vote_json: "message_json toJSON_tc_gov_Vote fromJSON_tc_gov_Vote wfj_tc_gov_Vote"
proof unfold_locales
  fix h m
  assume "wfj_tc_gov_Vote m"
  then show "json_rt (toJSON_tc_gov_Vote h) (fromJSON_tc_gov_Vote h) m"
    unfolding toJSON_tc_gov_Vote_def fromJSON_tc_gov_Vote_def wfj_tc_gov_Vote_def
    by (elim conjE) (rule json_rtI json_rules tc_gov_WeightedVoteOption_json_rules | assumption | (simp; fail))+
qed

lemmas tc_gov_Vote_json_rules = message_json.json_list_rules [OF tc_gov_Vote_json]

lemma tc_gov_DepositParams_json: "message_json toJSON_tc_gov_DepositParams fromJSON_tc_gov_DepositParams wfj_tc_gov_DepositParams"
proof unfold_locales
  fix h m
  assume "wfj_tc_gov_DepositParams m"
  then show "json_rt (toJSON_tc_gov_DepositParams h) (fromJSON_tc_gov_DepositParams h) m"
    unfolding toJSON_tc_gov_DepositParams_def fromJSON_tc_gov_DepositParams_def wfj_tc_gov_DepositParams_def
    by (elim conjE) (rule json_rtI json_rules | assumption | (simp; fail))+
qed

lemmas tc_gov_DepositParams_json_rules = message_json.json_list_rules [OF tc_gov_DepositParams_json]

lemma tc_gov_VotingParams_json: "message_json toJSON_tc_gov_VotingParams fromJSON_tc_gov_VotingParams wfj_tc_gov_VotingParams"
proof unfold_locales
  fix h m
  assume "wfj_tc_gov_VotingParams m"
  then show "json_rt (toJSON_tc_gov_VotingParams h) (fromJSON_tc_gov_VotingParams h) m"
    unfolding toJSON_tc_gov_VotingParams_def fromJSON_tc_gov_VotingParams_def wfj_tc_gov_VotingParams_def
    by (-) (rule json_rtI json_rules | assumption | (simp; fail))+
qed

lemmas tc_gov_VotingParams_json_rules = message_json.json_list_rules [OF tc_gov_VotingParams_json]

lemma tc_gov_TallyParams_json: "message_json toJSON_tc_gov_TallyParams fromJSON_tc_gov_TallyParams wfj_tc_gov_TallyParams"
proof unfold_locales
  fix h m
  assume "wfj_tc_gov_TallyParams m"
  then show "json_rt (toJSON_tc_gov_TallyParams h) (fromJSON_tc_gov_TallyParams h) m"
    unfolding toJSON_tc_gov_TallyParams_def fromJSON_tc_gov_TallyParams_def wfj_tc_gov_TallyParams_def
    by (-) (rule json_rtI json_rules | assumption | (simp; fail))+
qed

lemmas tc_gov_TallyParams_json_rules = message_json.json_list_rules [OF tc_gov_TallyParams_json]

lemma fromPartial_partial_of_tc_gov_GenesisState [simp]: "fromPartial_tc_gov_GenesisState (partial_of_tc_gov_GenesisState m) = m"
  by (simp add: fromPartial_tc_gov_GenesisState_def partial_of_tc_gov_GenesisState_def createBase_tc_gov_GenesisState_def partial_map_def option.map_comp o_def option.map_ident)

lemma tc_gov_GenesisState_tags:
  "tc_gov_GenesisState_switch L G 8 m = readf (num64l G (r_uint64 L)) (\<lambda>v. m\<lparr>tc_gov_GenesisState.startingProposalId := v\<rparr>)"
  "tc_gov_GenesisState_switch L G 18 m = readf (submsg L (decode_tc_gov_Deposit L G)) (\<lambda>v. m\<lparr>tc_gov_GenesisState.deposits := tc_gov_GenesisState.deposits m @ [v]\<rparr>)"
  "tc_gov_GenesisState_switch L G 26 m = readf (submsg L (decode_tc_gov_Vote L G)) (\<lambda>v. m\<lparr>tc_gov_GenesisState.votes := tc_gov_GenesisState.votes m @ [v]\<rparr>)"
  "tc_gov_GenesisState_switch L G 34 m = readf (submsg L (decode_tc_gov_Proposal L G)) (\<lambda>v. m\<lparr>tc_gov_GenesisState.proposals := tc_gov_GenesisState.proposals m @ [v]\<rparr>)"
  "tc_gov_GenesisState_switch L G 42 m = readf (submsg L (decode_tc_gov_DepositParams L G)) (\<lambda>v. m\<lparr>tc_gov_GenesisState.depositParams := Some v\<rparr>)"
  "tc_gov_GenesisState_switch L G 50 m = readf (submsg L (decode_tc_gov_VotingParams L G)) (\<lambda>v. m\<lparr>tc_gov_GenesisState.votingParams := Some v\<rparr>)"
  "tc_gov_GenesisState_switch L G 58 m = readf (submsg L (decode_tc_gov_TallyParams L G)) (\<lambda>v. m\<lparr>tc_gov_GenesisState.tallyParams := Some v\<rparr>)"
  by (simp_all add: tc_gov_GenesisState_switch_def)

context long_wire_laws
begin

lemma tc_gov_GenesisState_codec: "message_codec L F out inp (encode_tc_gov_GenesisState L) (tc_gov_GenesisState_switch L G) createBase_tc_gov_GenesisState (wf_tc_gov_GenesisState L)"
proof unfold_locales
  show good: "good_sw (tc_gov_GenesisState_switch L G)"
    unfolding tc_gov_GenesisState_switch_def by (intro good_swI fwd_rules tc_gov_Deposit_good tc_gov_DepositParams_good tc_gov_Proposal_good tc_gov_TallyParams_good tc_gov_Vote_good tc_gov_VotingParams_good)
  fix m assume "wf_tc_gov_GenesisState L m"
  then show "codes (tc_gov_GenesisState_switch L G) (encode_tc_gov_GenesisState L m) createBase_tc_gov_GenesisState m"
    unfolding encode_tc_gov_GenesisState_def wf_tc_gov_GenesisState_def
    by (elim conjE)
      (rule codes_Cons codes_Nil [OF tc_gov_GenesisState.equality] codec_rules tc_gov_Deposit_carries tc_gov_DepositParams_carries tc_gov_Proposal_carries tc_gov_TallyParams_carries tc_gov_Vote_carries tc_gov_VotingParams_carries
        codes_when [where tag = 8 and u = tc_gov_GenesisState.startingProposalId_update and op = "num64l G (r_uint64 L)", OF good]
        codes_for [where tag = 18 and u = tc_gov_GenesisState.deposits_update and op = "submsg L (decode_tc_gov_Deposit L G)", OF good]
        codes_for [where tag = 26 and u = tc_gov_GenesisState.votes_update and op = "submsg L (decode_tc_gov_Vote L G)", OF good]
        codes_for [where tag = 34 and u = tc_gov_GenesisState.proposals_update and op = "submsg L (decode_tc_gov_Proposal L G)", OF good]
        codes_some [where tag = 42 and u = tc_gov_GenesisState.depositParams_update and op = "submsg L (decode_tc_gov_DepositParams L G)", OF good]
        codes_some [where tag = 50 and u = tc_gov_GenesisState.votingParams_update and op = "submsg L (decode_tc_gov_VotingParams L G)", OF good]
        codes_some [where tag = 58 and u = tc_gov_GenesisState.tallyParams_update and op = "submsg L (decode_tc_gov_TallyParams L G)", OF good]
      | assumption | (simp add: tc_gov_GenesisState_tags createBase_tc_gov_GenesisState_def; fail))+
qed

lemmas tc_gov_GenesisState_roundtrip = message_codec.roundtrip [OF tc_gov_GenesisState_codec, folded decode_tc_gov_GenesisState_def]

lemmas tc_gov_GenesisState_returns = message_codec.decode_returns [OF tc_gov_GenesisState_codec, folded decode_tc_gov_GenesisState_def]

end

lemma tc_gov_GenesisState_json: "message_json toJSON_tc_gov_GenesisState fromJSON_tc_gov_GenesisState wfj_tc_gov_GenesisState"
proof unfold_locales
  fix h m
  assume "wfj_tc_gov_GenesisState m"
  then show "json_rt (toJSON_tc_gov_GenesisState h) (fromJSON_tc_gov_GenesisState h) m"
    unfolding toJSON_tc_gov_GenesisState_def fromJSON_tc_gov_GenesisState_def wfj_tc_gov_GenesisState_def
    by (elim conjE) (rule json_rtI json_rules tc_gov_Deposit_json_rules tc_gov_DepositParams_json_rules tc_gov_Proposal_json_rules tc_gov_TallyParams_json_rules tc_gov_Vote_json_rules tc_gov_VotingParams_json_rules | assumption | (simp; fail))+
qed

end
