(* ===== verification/CosGovTx.thy ===== *)
theory CosGovTx
  imports CosGov
begin

unbundle bit_operations_syntax

text \<open>
  The transactions of the governance module in \<open>ts-client/cosmos.gov.v1beta1\<close>.
\<close>


section \<open>ts-client/cosmos.gov.v1beta1/types/cosmos/gov/v1beta1/tx.ts\<close>

subsection \<open>MsgSubmitProposal\<close>

record tc_gov_MsgSubmitProposal =
  content :: "tc_Any option"
  initialDeposit :: "Coin list"
  proposer :: jsstring

definition createBase_tc_gov_MsgSubmitProposal :: tc_gov_MsgSubmitProposal where
  "createBase_tc_gov_MsgSubmitProposal = \<lparr>tc_gov_MsgSubmitProposal.content = None,
     tc_gov_MsgSubmitProposal.initialDeposit = [],
     tc_gov_MsgSubmitProposal.proposer = []\<rparr>"

definition encode_tc_gov_MsgSubmitProposal :: "('w, 'r) wire \<Rightarrow> tc_gov_MsgSubmitProposal \<Rightarrow> 'w \<Rightarrow> 'w result" where
  "encode_tc_gov_MsgSubmitProposal L message = seqE
    [someE (tc_gov_MsgSubmitProposal.content message) (\<lambda>v. seqE [w_uint32 L 10, w_fork L, encode_tc_Any L v, w_join L]),
     forE (\<lambda>v. seqE [w_uint32 L 18, w_fork L, encode_tc_Coin L v, w_join L]) (tc_gov_MsgSubmitProposal.initialDeposit message),
     whenE (tc_gov_MsgSubmitProposal.proposer message \<noteq> []) (seqE [w_uint32 L 26, w_string L (tc_gov_MsgSubmitProposal.proposer message)])]"

definition tc_gov_MsgSubmitProposal_switch :: "('w, 'r) wire \<Rightarrow> long_lib \<Rightarrow> u32 \<Rightarrow> tc_gov_MsgSubmitProposal \<Rightarrow> (tc_gov_MsgSubmitProposal, 'r) action" where
  "tc_gov_MsgSubmitProposal_switch L G tag message = js_switch (drop_bit 3 tag)
    [(1, readf (submsg L (decode_tc_Any L G)) (\<lambda>v. message\<lparr>tc_gov_MsgSubmitProposal.content := Some v\<rparr>)),
     (2, readf (submsg L (decode_tc_Coin L G)) (\<lambda>v. message\<lparr>tc_gov_MsgSubmitProposal.initialDeposit := tc_gov_MsgSubmitProposal.initialDeposit message @ [v]\<rparr>)),
     (3, readf (r_string L) (\<lambda>v. message\<lparr>tc_gov_MsgSubmitProposal.proposer := v\<rparr>))]
    (skipType L tag message)"

definition decode_tc_gov_MsgSubmitProposal :: "('w, 'r) wire \<Rightarrow> long_lib \<Rightarrow> 'r input \<Rightarrow> nat option \<Rightarrow> (tc_gov_MsgSubmitProposal \<times> 'r) result" where
  "decode_tc_gov_MsgSubmitProposal L G = decode_msg L (tc_gov_MsgSubmitProposal_switch L G) createBase_tc_gov_MsgSubmitProposal"

definition fromJSON_tc_gov_MsgSubmitProposal :: "host \<Rightarrow> jsval \<Rightarrow> tc_gov_MsgSubmitProposal result" where
  "fromJSON_tc_gov_MsgSubmitProposal h object =
     bindE (optE object ''content'' (fromJSON_tc_Any h)) (\<lambda>v_content.
     bindE (arrayE object ''initialDeposit'' (fromJSON_tc_Coin h)) (\<lambda>v_initialDeposit.
     bindE (fieldE object ''proposer'' (stringE h) []) (\<lambda>v_proposer.
     Inr \<lparr>tc_gov_MsgSubmitProposal.content = v_content, tc_gov_MsgSubmitProposal.initialDeposit = v_initialDeposit, tc_gov_MsgSubmitProposal.proposer = v_proposer\<rparr>)))"

definition toJSON_tc_gov_MsgSubmitProposal :: "host \<Rightarrow> tc_gov_MsgSubmitProposal \<Rightarrow> jsval result" where
  "toJSON_tc_gov_MsgSubmitProposal h message = objE
    [joptE ''content'' (toJSON_tc_Any h) (tc_gov_MsgSubmitProposal.content message),
     jlistE ''initialDeposit'' (toJSON_tc_Coin h) (tc_gov_MsgSubmitProposal.initialDeposit message),
     jfieldE True ''proposer'' (Inr (JString (tc_gov_MsgSubmitProposal.proposer message)))]"

type_synonym tc_gov_MsgSubmitProposal_Partial = "tc_Any_Partial option \<times> Coin_Partial list option \<times> jsstring option"

definition fromPartial_tc_gov_MsgSubmitProposal :: "tc_gov_MsgSubmitProposal_Partial \<Rightarrow> tc_gov_MsgSubmitProposal" where
  "fromPartial_tc_gov_MsgSubmitProposal object = (case object of (p_content, p_initialDeposit, p_proposer) \<Rightarrow>
     createBase_tc_gov_MsgSubmitProposal\<lparr>tc_gov_MsgSubmitProposal.content := map_option fromPartial_tc_Any (p_content),
       tc_gov_MsgSubmitProposal.initialDeposit := partial_map fromPartial_tc_Coin (p_initialDeposit),
       tc_gov_MsgSubmitProposal.proposer := nullish (p_proposer) []\<rparr>)"

text \<open>A partial message that sets every field.\<close>

definition partial_of_tc_gov_MsgSubmitProposal :: "tc_gov_MsgSubmitProposal \<Rightarrow> tc_gov_MsgSubmitProposal_Partial" where
  "partial_of_tc_gov_MsgSubmitProposal m =
     (map_option partial_of_tc_Any (tc_gov_MsgSubmitProposal.content m),
      Some (map partial_of_Coin (tc_gov_MsgSubmitProposal.initialDeposit m)),
      Some (tc_gov_MsgSubmitProposal.proposer m))"

definition wf_tc_gov_MsgSubmitProposal :: "('w, 'r) wire \<Rightarrow> tc_gov_MsgSubmitProposal \<Rightarrow> bool" where
  "wf_tc_gov_MsgSubmitProposal L m \<longleftrightarrow> pred_option (\<lambda>v. wf_tc_Any L v \<and> fits L (encode_tc_Any L v)) (tc_gov_MsgSubmitProposal.content m)
     \<and> list_all (\<lambda>v. wf_Coin L v \<and> fits L (encode_Coin L v)) (tc_gov_MsgSubmitProposal.initialDeposit m)
     \<and> wire_string (tc_gov_MsgSubmitProposal.proposer m)"

definition wfj_tc_gov_MsgSubmitProposal :: "tc_gov_MsgSubmitProposal \<Rightarrow> bool" where
  "wfj_tc_gov_MsgSubmitProposal m \<longleftrightarrow> pred_option wfj_tc_Any (tc_gov_MsgSubmitProposal.content m)
     \<and> list_all wfj_Coin (tc_gov_MsgSubmitProposal.initialDeposit m)"

subsection \<open>MsgSubmitProposalResponse\<close>

record tc_gov_MsgSubmitProposalResponse =
  proposalId :: number

definition createBase_tc_gov_MsgSubmitProposalResponse :: tc_gov_MsgSubmitProposalResponse where
  "createBase_tc_gov_MsgSubmitProposalResponse = \<lparr>tc_gov_MsgSubmitProposalResponse.proposalId = Num 0\<rparr>"

definition encode_tc_gov_MsgSubmitProposalResponse :: "('w, 'r) wire \<Rightarrow> tc_gov_MsgSubmitProposalResponse \<Rightarrow> 'w \<Rightarrow> 'w result" where
  "encode_tc_gov_MsgSubmitProposalResponse L message = seqE
    [whenE (tc_gov_MsgSubmitProposalResponse.proposalId message \<noteq> Num 0) (seqE [w_uint32 L 8, w_uint64 L (tc_gov_MsgSubmitProposalResponse.proposalId message)])]"

definition tc_gov_MsgSubmitProposalResponse_switch :: "('w, 'r) wire \<Rightarrow> long_lib \<Rightarrow> u32 \<Rightarrow> tc_gov_MsgSubmitProposalResponse \<Rightarrow> (tc_gov_MsgSubmitProposalResponse, 'r) action" where
  "tc_gov_MsgSubmitProposalResponse_switch L G tag message = js_switch (drop_bit 3 tag)
    [(1, readf (num64l G (r_uint64 L)) (\<lambda>v. message\<lparr>tc_gov_MsgSubmitProposalResponse.proposalId := v\<rparr>))]
    (skipType L tag message)"

definition decode_tc_gov_MsgSubmitProposalResponse :: "('w, 'r) wire \<Rightarrow> long_lib \<Rightarrow> 'r input \<Rightarrow> nat option \<Rightarrow> (tc_gov_MsgSubmitProposalResponse \<times> 'r) result" where
  "decode_tc_gov_MsgSubmitProposalResponse L G = decode_msg L (tc_gov_MsgSubmitProposalResponse_switch L G) createBase_tc_gov_MsgSubmitProposalResponse"

definition fromJSON_tc_gov_MsgSubmitProposalResponse :: "host \<Rightarrow> jsval \<Rightarrow> tc_gov_MsgSubmitProposalResponse result" where
  "fromJSON_tc_gov_MsgSubmitProposalResponse h object =
     bindE (fieldE object ''proposalId'' (numberE h) (Num 0)) (\<lambda>v_proposalId.
     Inr \<lparr>tc_gov_MsgSubmitProposalResponse.proposalId = v_proposalId\<rparr>)"

definition toJSON_tc_gov_MsgSubmitProposalResponse :: "host \<Rightarrow> tc_gov_MsgSubmitProposalResponse \<Rightarrow> jsval result" where
  "toJSON_tc_gov_MsgSubmitProposalResponse h message = objE
    [jfieldE True ''proposalId'' (Inr (JNumber (Math_round (tc_gov_MsgSubmitProposalResponse.proposalId message))))]"

type_synonym tc_gov_MsgSubmitProposalResponse_Partial = "number option"

definition fromPartial_tc_gov_MsgSubmitProposalResponse :: "tc_gov_MsgSubmitProposalResponse_Partial \<Rightarrow> tc_gov_MsgSubmitProposalResponse" where
  "fromPartial_tc_gov_MsgSubmitProposalResponse object = (case object of p_proposalId \<Rightarrow>
     createBase_tc_gov_MsgSubmitProposalResponse\<lparr>tc_gov_MsgSubmitProposalResponse.proposalId := nullish (p_proposalId) (Num 0)\<rparr>)"

text \<open>A partial message that sets every field.\<close>

definition partial_of_tc_gov_MsgSubmitProposalResponse :: "tc_gov_MsgSubmitProposalResponse \<Rightarrow> tc_gov_MsgSubmitProposalResponse_Partial" where
  "partial_of_tc_gov_MsgSubmitProposalResponse m =
     (Some (tc_gov_MsgSubmitProposalResponse.proposalId m))"

definition wf_tc_gov_MsgSubmitProposalResponse :: "('w, 'r) wire \<Rightarrow> tc_gov_MsgSubmitProposalResponse \<Rightarrow> bool" where
  "wf_tc_gov_MsgSubmitProposalResponse L m \<longleftrightarrow> safe_uint (tc_gov_MsgSubmitProposalResponse.proposalId m)"

definition wfj_tc_gov_MsgSubmitProposalResponse :: "tc_gov_MsgSubmitProposalResponse \<Rightarrow> bool" where
  "wfj_tc_gov_MsgSubmitProposalResponse m \<longleftrightarrow> whole (tc_gov_MsgSubmitProposalResponse.proposalId m)"

subsection \<open>MsgVote\<close>

record tc_gov_MsgVote =
  proposalId :: number
  voter :: jsstring
  option :: number

definition createBase_tc_gov_MsgVote :: tc_gov_MsgVote where
  "createBase_tc_gov_MsgVote = \<lparr>tc_gov_MsgVote.proposalId = Num 0,
     tc_gov_MsgVote.voter = [],
     tc_gov_MsgVote.option = Num 0\<rparr>"

definition encode_tc_gov_MsgVote :: "('w, 'r) wire \<Rightarrow> tc_gov_MsgVote \<Rightarrow> 'w \<Rightarrow> 'w result" where
  "encode_tc_gov_MsgVote L message = seqE
    [whenE (tc_gov_MsgVote.proposalId message \<noteq> Num 0) (seqE [w_uint32 L 8, w_uint64 L (tc_gov_MsgVote.proposalId message)]),
     whenE (tc_gov_MsgVote.voter message \<noteq> []) (seqE [w_uint32 L 18, w_string L (tc_gov_MsgVote.voter message)]),
     whenE (tc_gov_MsgVote.option message \<noteq> Num 0) (seqE [w_uint32 L 24, w_int32 L (tc_gov_MsgVote.option message)])]"

definition tc_gov_MsgVote_switch :: "('w, 'r) wire \<Rightarrow> long_lib \<Rightarrow> u32 \<Rightarrow> tc_gov_MsgVote \<Rightarrow> (tc_gov_MsgVote, 'r) action" where
  "tc_gov_MsgVote_switch L G tag message = js_switch (drop_bit 3 tag)
    [(1, readf (num64l G (r_uint64 L)) (\<lambda>v. message\<lparr>tc_gov_MsgVote.proposalId := v\<rparr>)),
     (2, readf (r_string L) (\<lambda>v. message\<lparr>tc_gov_MsgVote.voter := v\<rparr>)),
     (3, readf (num32 (r_int32 L)) (\<lambda>v. message\<lparr>tc_gov_MsgVote.option := v\<rparr>))]
    (skipType L tag message)"

definition decode_tc_gov_MsgVote :: "('w, 'r) wire \<Rightarrow> long_lib \<Rightarrow> 'r input \<Rightarrow> nat option \<Rightarrow> (tc_gov_MsgVote \<times> 'r) result" where
  "decode_tc_gov_MsgVote L G = decode_msg L (tc_gov_MsgVote_switch L G) createBase_tc_gov_MsgVote"

definition fromJSON_tc_gov_MsgVote :: "host \<Rightarrow> jsval \<Rightarrow> tc_gov_MsgVote result" where
  "fromJSON_tc_gov_MsgVote h object =
     bindE (fieldE object ''proposalId'' (numberE h) (Num 0)) (\<lambda>v_proposalId.
     bindE (fieldE object ''voter'' (stringE h) []) (\<lambda>v_voter.
     bindE (fieldE object ''option'' (enumE tc_gov_voteOptionFromJSON) (Num 0)) (\<lambda>v_option.
     Inr \<lparr>tc_gov_MsgVote.proposalId = v_proposalId, tc_gov_MsgVote.voter = v_voter, tc_gov_MsgVote.option = v_option\<rparr>)))"

definition toJSON_tc_gov_MsgVote :: "host \<Rightarrow> tc_gov_MsgVote \<Rightarrow> jsval result" where
  "toJSON_tc_gov_MsgVote h message = objE
    [jfieldE True ''proposalId'' (Inr (JNumber (Math_round (tc_gov_MsgVote.proposalId message)))),
     jfieldE True ''voter'' (Inr (JString (tc_gov_MsgVote.voter message))),
     jfieldE True ''option'' (Inr (JString (tc_gov_voteOptionToJSON (tc_gov_MsgVote.option message))))]"

type_synonym tc_gov_MsgVote_Partial = "number option \<times> jsstring option \<times> number option"

definition fromPartial_tc_gov_MsgVote :: "tc_gov_MsgVote_Partial \<Rightarrow> tc_gov_MsgVote" where
  "fromPartial_tc_gov_MsgVote object = (case object of (p_proposalId, p_voter, p_option) \<Rightarrow>
     createBase_tc_gov_MsgVote\<lparr>tc_gov_MsgVote.proposalId := nullish (p_proposalId) (Num 0),
       tc_gov_MsgVote.voter := nullish (p_voter) [],
       tc_gov_MsgVote.option := nullish (p_option) (Num 0)\<rparr>)"

text \<open>A partial message that sets every field.\<close>

definition partial_of_tc_gov_MsgVote :: "tc_gov_MsgVote \<Rightarrow> tc_gov_MsgVote_Partial" where
  "partial_of_tc_gov_MsgVote m =
     (Some (tc_gov_MsgVote.proposalId m),
      Some (tc_gov_MsgVote.voter m),
      Some (tc_gov_MsgVote.option m))"

definition wf_tc_gov_MsgVote :: "('w, 'r) wire \<Rightarrow> tc_gov_MsgVote \<Rightarrow> bool" where
  "wf_tc_gov_MsgVote L m \<longleftrightarrow> safe_uint (tc_gov_MsgVote.proposalId m)
     \<and> wire_string (tc_gov_MsgVote.voter m)
     \<and> int32_num (tc_gov_MsgVote.option m)"

definition wfj_tc_gov_MsgVote :: "tc_gov_MsgVote \<Rightarrow> bool" where
  "wfj_tc_gov_MsgVote m \<longleftrightarrow> whole (tc_gov_MsgVote.proposalId m)
     \<and> tc_gov_VoteOption_known (tc_gov_MsgVote.option m)"

subsection \<open>MsgVoteResponse\<close>

datatype tc_gov_MsgVoteResponse = tc_gov_MsgVoteResponse

definition createBase_tc_gov_MsgVoteResponse :: tc_gov_MsgVoteResponse where
  "createBase_tc_gov_MsgVoteResponse = tc_gov_MsgVoteResponse"

definition encode_tc_gov_MsgVoteResponse :: "('w, 'r) wire \<Rightarrow> tc_gov_MsgVoteResponse \<Rightarrow> 'w \<Rightarrow> 'w result" where
  "encode_tc_gov_MsgVoteResponse L message = seqE
    []"

definition tc_gov_MsgVoteResponse_switch :: "('w, 'r) wire \<Rightarrow> long_lib \<Rightarrow> u32 \<Rightarrow> tc_gov_MsgVoteResponse \<Rightarrow> (tc_gov_MsgVoteResponse, 'r) action" where
  "tc_gov_MsgVoteResponse_switch L G tag message = js_switch (drop_bit 3 tag)
    []
    (skipType L tag message)"

definition decode_tc_gov_MsgVoteResponse :: "('w, 'r) wire \<Rightarrow> long_lib \<Rightarrow> 'r input \<Rightarrow> nat option \<Rightarrow> (tc_gov_MsgVoteResponse \<times> 'r) result" where
  "decode_tc_gov_MsgVoteResponse L G = decode_msg L (tc_gov_MsgVoteResponse_switch L G) createBase_tc_gov_MsgVoteResponse"

definition fromJSON_tc_gov_MsgVoteResponse :: "host \<Rightarrow> jsval \<Rightarrow> tc_gov_MsgVoteResponse result" where
  "fromJSON_tc_gov_MsgVoteResponse h object =
     Inr tc_gov_MsgVoteResponse"

definition toJSON_tc_gov_MsgVoteResponse :: "host \<Rightarrow> tc_gov_MsgVoteResponse \<Rightarrow> jsval result" where
  "toJSON_tc_gov_MsgVoteResponse h message = objE
    []"

definition fromPartial_tc_gov_MsgVoteResponse :: "tc_gov_MsgVoteResponse \<Rightarrow> tc_gov_MsgVoteResponse" where
  "fromPartial_tc_gov_MsgVoteResponse object = createBase_tc_gov_MsgVoteResponse"

definition wf_tc_gov_MsgVoteResponse :: "('w, 'r) wire \<Rightarrow> tc_gov_MsgVoteResponse \<Rightarrow> bool" where
  "wf_tc_gov_MsgVoteResponse L m \<longleftrightarrow> True"

definition wfj_tc_gov_MsgVoteResponse :: "tc_gov_MsgVoteResponse \<Rightarrow> bool" where
  "wfj_tc_gov_MsgVoteResponse m \<longleftrightarrow> True"

subsection \<open>MsgVoteWeighted\<close>

record tc_gov_MsgVoteWeighted =
  proposalId :: number
  voter :: jsstring
  options :: "tc_gov_WeightedVoteOption list"

definition createBase_tc_gov_MsgVoteWeighted :: tc_gov_MsgVoteWeighted where
  "createBase_tc_gov_MsgVoteWeighted = \<lparr>tc_gov_MsgVoteWeighted.proposalId = Num 0,
     tc_gov_MsgVoteWeighted.voter = [],
     tc_gov_MsgVoteWeighted.options = []\<rparr>"

definition encode_tc_gov_MsgVoteWeighted :: "('w, 'r) wire \<Rightarrow> tc_gov_MsgVoteWeighted \<Rightarrow> 'w \<Rightarrow> 'w result" where
  "encode_tc_gov_MsgVoteWeighted L message = seqE
    [whenE (tc_gov_MsgVoteWeighted.proposalId message \<noteq> Num 0) (seqE [w_uint32 L 8, w_uint64 L (tc_gov_MsgVoteWeighted.proposalId message)]),
     whenE (tc_gov_MsgVoteWeighted.voter message \<noteq> []) (seqE [w_uint32 L 18, w_string L (tc_gov_MsgVoteWeighted.voter message)]),
     forE (\<lambda>v. seqE [w_uint32 L 26, w_fork L, encode_tc_gov_WeightedVoteOption L v, w_join L]) (tc_gov_MsgVoteWeighted.options message)]"

definition tc_gov_MsgVoteWeighted_switch :: "('w, 'r) wire \<Rightarrow> long_lib \<Rightarrow> u32 \<Rightarrow> tc_gov_MsgVoteWeighted \<Rightarrow> (tc_gov_MsgVoteWeighted, 'r) action" where
  "tc_gov_MsgVoteWeighted_switch L G tag message = js_switch (drop_bit 3 tag)
    [(1, readf (num64l G (r_uint64 L)) (\<lambda>v. message\<lparr>tc_gov_MsgVoteWeighted.proposalId := v\<rparr>)),
     (2, readf (r_string L) (\<lambda>v. message\<lparr>tc_gov_MsgVoteWeighted.voter := v\<rparr>)),
     (3, readf (submsg L (decode_tc_gov_WeightedVoteOption L G)) (\<lambda>v. message\<lparr>tc_gov_MsgVoteWeighted.options := tc_gov_MsgVoteWeighted.options message @ [v]\<rparr>))]
    (skipType L tag message)"

definition decode_tc_gov_MsgVoteWeighted :: "('w, 'r) wire \<Rightarrow> long_lib \<Rightarrow> 'r input \<Rightarrow> nat option \<Rightarrow> (tc_gov_MsgVoteWeighted \<times> 'r) result" where
  "decode_tc_gov_MsgVoteWeighted L G = decode_msg L (tc_gov_MsgVoteWeighted_switch L G) createBase_tc_gov_MsgVoteWeighted"

definition fromJSON_tc_gov_MsgVoteWeighted :: "host \<Rightarrow> jsval \<Rightarrow> tc_gov_MsgVoteWeighted result" where
  "fromJSON_tc_gov_MsgVoteWeighted h object =
     bindE (fieldE object ''proposalId'' (numberE h) (Num 0)) (\<lambda>v_proposalId.
     bindE (fieldE object ''voter'' (stringE h) []) (\<lambda>v_voter.
     bindE (arrayE object ''options'' (fromJSON_tc_gov_WeightedVoteOption h)) (\<lambda>v_options.
     Inr \<lparr>tc_gov_MsgVoteWeighted.proposalId = v_proposalId, tc_gov_MsgVoteWeighted.voter = v_voter, tc_gov_MsgVoteWeighted.options = v_options\<rparr>)))"

definition toJSON_tc_gov_MsgVoteWeighted :: "host \<Rightarrow> tc_gov_MsgVoteWeighted \<Rightarrow> jsval result" where
  "toJSON_tc_gov_MsgVoteWeighted h message = objE
    [jfieldE True ''proposalId'' (Inr (JNumber (Math_round (tc_gov_MsgVoteWeighted.proposalId message)))),
     jfieldE True ''voter'' (Inr (JString (tc_gov_MsgVoteWeighted.voter message))),
     jlistE ''options'' (toJSON_tc_gov_WeightedVoteOption h) (tc_gov_MsgVoteWeighted.options message)]"

type_synonym tc_gov_MsgVoteWeighted_Partial = "number option \<times> jsstring option \<times> tc_gov_WeightedVoteOption_Partial list option"

definition fromPartial_tc_gov_MsgVoteWeighted :: "tc_gov_MsgVoteWeighted_Partial \<Rightarrow> tc_gov_MsgVoteWeighted" where
  "fromPartial_tc_gov_MsgVoteWeighted object = (case object of (p_proposalId, p_voter, p_options) \<Rightarrow>
     createBase_tc_gov_MsgVoteWeighted\<lparr>tc_gov_MsgVoteWeighted.proposalId := nullish (p_proposalId) (Num 0),
       tc_gov_MsgVoteWeighted.voter := nullish (p_voter) [],
       tc_gov_MsgVoteWeighted.options := partial_map fromPartial_tc_gov_WeightedVoteOption (p_options)\<rparr>)"

text \<open>A partial message that sets every field.\<close>

definition partial_of_tc_gov_MsgVoteWeighted :: "tc_gov_MsgVoteWeighted \<Rightarrow> tc_gov_MsgVoteWeighted_Partial" where
  "partial_of_tc_gov_MsgVoteWeighted m =
     (Some (tc_gov_MsgVoteWeighted.proposalId m),
      Some (tc_gov_MsgVoteWeighted.voter m),
      Some (map partial_of_tc_gov_WeightedVoteOption (tc_gov_MsgVoteWeighted.options m)))"

definition wf_tc_gov_MsgVoteWeighted :: "('w, 'r) wire \<Rightarrow> tc_gov_MsgVoteWeighted \<Rightarrow> bool" where
  "wf_tc_gov_MsgVoteWeighted L m \<longleftrightarrow> safe_uint (tc_gov_MsgVoteWeighted.proposalId m)
     \<and> wire_string (tc_gov_MsgVoteWeighted.voter m)
     \<and> list_all (\<lambda>v. wf_tc_gov_WeightedVoteOption L v \<and> fits L (encode_tc_gov_WeightedVoteOption L v)) (tc_gov_MsgVoteWeighted.options m)"

definition wfj_tc_gov_MsgVoteWeighted :: "tc_gov_MsgVoteWeighted \<Rightarrow> bool" where
  "wfj_tc_gov_MsgVoteWeighted m \<longleftrightarrow> whole (tc_gov_MsgVoteWeighted.proposalId m)
     \<and> list_all wfj_tc_gov_WeightedVoteOption (tc_gov_MsgVoteWeighted.options m)"

subsection \<open>MsgVoteWeightedResponse\<close>

datatype tc_gov_MsgVoteWeightedResponse = tc_gov_MsgVoteWeightedResponse

definition createBase_tc_gov_MsgVoteWeightedResponse :: tc_gov_MsgVoteWeightedResponse where
  "createBase_tc_gov_MsgVoteWeightedResponse = tc_gov_MsgVoteWeightedResponse"

definition encode_tc_gov_MsgVoteWeightedResponse :: "('w, 'r) wire \<Rightarrow> tc_gov_MsgVoteWeightedResponse \<Rightarrow> 'w \<Rightarrow> 'w result" where
  "encode_tc_gov_MsgVoteWeightedResponse L message = seqE
    []"

definition tc_gov_MsgVoteWeightedResponse_switch :: "('w, 'r) wire \<Rightarrow> long_lib \<Rightarrow> u32 \<Rightarrow> tc_gov_MsgVoteWeightedResponse \<Rightarrow> (tc_gov_MsgVoteWeightedResponse, 'r) action" where
  "tc_gov_MsgVoteWeightedResponse_switch L G tag message = js_switch (drop_bit 3 tag)
    []
    (skipType L tag message)"

definition decode_tc_gov_MsgVoteWeightedResponse :: "('w, 'r) wire \<Rightarrow> long_lib \<Rightarrow> 'r input \<Rightarrow> nat option \<Rightarrow> (tc_gov_MsgVoteWeightedResponse \<times> 'r) result" where
  "decode_tc_gov_MsgVoteWeightedResponse L G = decode_msg L (tc_gov_MsgVoteWeightedResponse_switch L G) createBase_tc_gov_MsgVoteWeightedResponse"

definition fromJSON_tc_gov_MsgVoteWeightedResponse :: "host \<Rightarrow> jsval \<Rightarrow> tc_gov_MsgVoteWeightedResponse result" where
  "fromJSON_tc_gov_MsgVoteWeightedResponse h object =
     Inr tc_gov_MsgVoteWeightedResponse"

definition toJSON_tc_gov_MsgVoteWeightedResponse :: "host \<Rightarrow> tc_gov_MsgVoteWeightedResponse \<Rightarrow> jsval result" where
  "toJSON_tc_gov_MsgVoteWeightedResponse h message = objE
    []"

definition fromPartial_tc_gov_MsgVoteWeightedResponse :: "tc_gov_MsgVoteWeightedResponse \<Rightarrow> tc_gov_MsgVoteWeightedResponse" where
  "fromPartial_tc_gov_MsgVoteWeightedResponse object = createBase_tc_gov_MsgVoteWeightedResponse"

definition wf_tc_gov_MsgVoteWeightedResponse :: "('w, 'r) wire \<Rightarrow> tc_gov_MsgVoteWeightedResponse \<Rightarrow> bool" where
  "wf_tc_gov_MsgVoteWeightedResponse L m \<longleftrightarrow> True"

definition wfj_tc_gov_MsgVoteWeightedResponse :: "tc_gov_MsgVoteWeightedResponse \<Rightarrow> bool" where
  "wfj_tc_gov_MsgVoteWeightedResponse m \<longleftrightarrow> True"

subsection \<open>MsgDeposit\<close>

record tc_gov_MsgDeposit =
  proposalId :: number
  depositor :: jsstring
  amount :: "Coin list"

definition createBase_tc_gov_MsgDeposit :: tc_gov_MsgDeposit where
  "createBase_tc_gov_MsgDeposit = \<lparr>tc_gov_MsgDeposit.proposalId = Num 0,
     tc_gov_MsgDeposit.depositor = [],
     tc_gov_MsgDeposit.amount = []\<rparr>"

definition encode_tc_gov_MsgDeposit :: "('w, 'r) wire \<Rightarrow> tc_gov_MsgDeposit \<Rightarrow> 'w \<Rightarrow> 'w result" where
  "encode_tc_gov_MsgDeposit L message = seqE
    [whenE (tc_gov_MsgDeposit.proposalId message \<noteq> Num 0) (seqE [w_uint32 L 8, w_uint64 L (tc_gov_MsgDeposit.proposalId message)]),
     whenE (tc_gov_MsgDeposit.depositor message \<noteq> []) (seqE [w_uint32 L 18, w_string L (tc_gov_MsgDeposit.depositor message)]),
     forE (\<lambda>v. seqE [w_uint32 L 26, w_fork L, encode_tc_Coin L v, w_join L]) (tc_gov_MsgDeposit.amount message)]"

definition tc_gov_MsgDeposit_switch :: "('w, 'r) wire \<Rightarrow> long_lib \<Rightarrow> u32 \<Rightarrow> tc_gov_MsgDeposit \<Rightarrow> (tc_gov_MsgDeposit, 'r) action" where
  "tc_gov_MsgDeposit_switch L G tag message = js_switch (drop_bit 3 tag)
    [(1, readf (num64l G (r_uint64 L)) (\<lambda>v. message\<lparr>tc_gov_MsgDeposit.proposalId := v\<rparr>)),
     (2, readf (r_string L) (\<lambda>v. message\<lparr>tc_gov_MsgDeposit.depositor := v\<rparr>)),
     (3, readf (submsg L (decode_tc_Coin L G)) (\<lambda>v. message\<lparr>tc_gov_MsgDeposit.amount := tc_gov_MsgDeposit.amount message @ [v]\<rparr>))]
    (skipType L tag message)"

definition decode_tc_gov_MsgDeposit :: "('w, 'r) wire \<Rightarrow> long_lib \<Rightarrow> 'r input \<Rightarrow> nat option \<Rightarrow> (tc_gov_MsgDeposit \<times> 'r) result" where
  "decode_tc_gov_MsgDeposit L G = decode_msg L (tc_gov_MsgDeposit_switch L G) createBase_tc_gov_MsgDeposit"

definition fromJSON_tc_gov_MsgDeposit :: "host \<Rightarrow> jsval \<Rightarrow> tc_gov_MsgDeposit result" where
  "fromJSON_tc_gov_MsgDeposit h object =
     bindE (fieldE object ''proposalId'' (numberE h) (Num 0)) (\<lambda>v_proposalId.
     bindE (fieldE object ''depositor'' (stringE h) []) (\<lambda>v_depositor.
     bindE (arrayE object ''amount'' (fromJSON_tc_Coin h)) (\<lambda>v_amount.
     Inr \<lparr>tc_gov_MsgDeposit.proposalId = v_proposalId, tc_gov_MsgDeposit.depositor = v_depositor, tc_gov_MsgDeposit.amount = v_amount\<rparr>)))"

definition toJSON_tc_gov_MsgDeposit :: "host \<Rightarrow> tc_gov_MsgDeposit \<Rightarrow> jsval result" where
  "toJSON_tc_gov_MsgDeposit h message = objE
    [jfieldE True ''proposalId'' (Inr (JNumber (Math_round (tc_gov_MsgDeposit.proposalId message)))),
     jfieldE True ''depositor'' (Inr (JString (tc_gov_MsgDeposit.depositor message))),
     jlistE ''amount'' (toJSON_tc_Coin h) (tc_gov_MsgDeposit.amount message)]"

type_synonym tc_gov_MsgDeposit_Partial = "number option \<times> jsstring option \<times> Coin_Partial list option"

definition fromPartial_tc_gov_MsgDeposit :: "tc_gov_MsgDeposit_Partial \<Rightarrow> tc_gov_MsgDeposit" where
  "fromPartial_tc_gov_MsgDeposit object = (case object of (p_proposalId, p_depositor, p_amount) \<Rightarrow>
     createBase_tc_gov_MsgDeposit\<lparr>tc_gov_MsgDeposit.proposalId := nullish (p_proposalId) (Num 0),
       tc_gov_MsgDeposit.depositor := nullish (p_depositor) [],
       tc_gov_MsgDeposit.amount := partial_map fromPartial_tc_Coin (p_amount)\<rparr>)"

text \<open>A partial message that sets every field.\<close>

definition partial_of_tc_gov_MsgDeposit :: "tc_gov_MsgDeposit \<Rightarrow> tc_gov_MsgDeposit_Partial" where
  "partial_of_tc_gov_MsgDeposit m =
     (Some (tc_gov_MsgDeposit.proposalId m),
      Some (tc_gov_MsgDeposit.depositor m),
      Some (map partial_of_Coin (tc_gov_MsgDeposit.amount m)))"

definition wf_tc_gov_MsgDeposit :: "('w, 'r) wire \<Rightarrow> tc_gov_MsgDeposit \<Rightarrow> bool" where
  "wf_tc_gov_MsgDeposit L m \<longleftrightarrow> safe_uint (tc_gov_MsgDeposit.proposalId m)
     \<and> wire_string (tc_gov_MsgDeposit.depositor m)
     \<and> list_all (\<lambda>v. wf_Coin L v \<and> fits L (encode_Coin L v)) (tc_gov_MsgDeposit.amount m)"

definition wfj_tc_gov_MsgDeposit :: "tc_gov_MsgDeposit \<Rightarrow> bool" where
  "wfj_tc_gov_MsgDeposit m \<longleftrightarrow> whole (tc_gov_MsgDeposit.proposalId m)
     \<and> list_all wfj_Coin (tc_gov_MsgDeposit.amount m)"

subsection \<open>MsgDepositResponse\<close>

datatype tc_gov_MsgDepositResponse = tc_gov_MsgDepositResponse

definition createBase_tc_gov_MsgDepositResponse :: tc_gov_MsgDepositResponse where
  "createBase_tc_gov_MsgDepositResponse = tc_gov_MsgDepositResponse"

definition encode_tc_gov_MsgDepositResponse :: "('w, 'r) wire \<Rightarrow> tc_gov_MsgDepositResponse \<Rightarrow> 'w \<Rightarrow> 'w result" where
  "encode_tc_gov_MsgDepositResponse L message = seqE
    []"

definition tc_gov_MsgDepositResponse_switch :: "('w, 'r) wire \<Rightarrow> long_lib \<Rightarrow> u32 \<Rightarrow> tc_gov_MsgDepositResponse \<Rightarrow> (tc_gov_MsgDepositResponse, 'r) action" where
  "tc_gov_MsgDepositResponse_switch L G tag message = js_switch (drop_bit 3 tag)
    []
    (skipType L tag message)"

definition decode_tc_gov_MsgDepositResponse :: "('w, 'r) wire \<Rightarrow> long_lib \<Rightarrow> 'r input \<Rightarrow> nat option \<Rightarrow> (tc_gov_MsgDepositResponse \<times> 'r) result" where
  "decode_tc_gov_MsgDepositResponse L G = decode_msg L (tc_gov_MsgDepositResponse_switch L G) createBase_tc_gov_MsgDepositResponse"

definition fromJSON_tc_gov_MsgDepositResponse :: "host \<Rightarrow> jsval \<Rightarrow> tc_gov_MsgDepositResponse result" where
  "fromJSON_tc_gov_MsgDepositResponse h object =
     Inr tc_gov_MsgDepositResponse"

definition toJSON_tc_gov_MsgDepositResponse :: "host \<Rightarrow> tc_gov_MsgDepositResponse \<Rightarrow> jsval result" where
  "toJSON_tc_gov_MsgDepositResponse h message = objE
    []"

definition fromPartial_tc_gov_MsgDepositResponse :: "tc_gov_MsgDepositResponse \<Rightarrow> tc_gov_MsgDepositResponse" where
  "fromPartial_tc_gov_MsgDepositResponse object = createBase_tc_gov_MsgDepositResponse"

definition wf_tc_gov_MsgDepositResponse :: "('w, 'r) wire \<Rightarrow> tc_gov_MsgDepositResponse \<Rightarrow> bool" where
  "wf_tc_gov_MsgDepositResponse L m \<longleftrightarrow> True"

definition wfj_tc_gov_MsgDepositResponse :: "tc_gov_MsgDepositResponse \<Rightarrow> bool" where
  "wfj_tc_gov_MsgDepositResponse m \<longleftrightarrow> True"


subsection \<open>The gRPC client\<close>

definition tc_gov_MsgClientImpl_SubmitProposal :: "('w, 'r) wire \<Rightarrow> long_lib \<Rightarrow> 's rpc \<Rightarrow> tc_gov_MsgSubmitProposal \<Rightarrow> 's \<Rightarrow> tc_gov_MsgSubmitProposalResponse outcome \<times> 's" where
  "tc_gov_MsgClientImpl_SubmitProposal L G tr = tc_unary L tr (js ''cosmos.gov.v1beta1.Msg'') (js ''SubmitProposal'') (encode_tc_gov_MsgSubmitProposal L) (decode_tc_gov_MsgSubmitProposalResponse L G)"

definition tc_gov_MsgClientImpl_Vote :: "('w, 'r) wire \<Rightarrow> long_lib \<Rightarrow> 's rpc \<Rightarrow> tc_gov_MsgVote \<Rightarrow> 's \<Rightarrow> tc_gov_MsgVoteResponse outcome \<times> 's" where
  "tc_gov_MsgClientImpl_Vote L G tr = tc_unary L tr (js ''cosmos.gov.v1beta1.Msg'') (js ''Vote'') (encode_tc_gov_MsgVote L) (decode_tc_gov_MsgVoteResponse L G)"

definition tc_gov_MsgClientImpl_VoteWeighted :: "('w, 'r) wire \<Rightarrow> long_lib \<Rightarrow> 's rpc \<Rightarrow> tc_gov_MsgVoteWeighted \<Rightarrow> 's \<Rightarrow> tc_gov_MsgVoteWeightedResponse outcome \<times> 's" where
  "tc_gov_MsgClientImpl_VoteWeighted L G tr = tc_unary L tr (js ''cosmos.gov.v1beta1.Msg'') (js ''VoteWeighted'') (encode_tc_gov_MsgVoteWeighted L) (decode_tc_gov_MsgVoteWeightedResponse L G)"

definition tc_gov_MsgClientImpl_Deposit :: "('w, 'r) wire \<Rightarrow> long_lib \<Rightarrow> 's rpc \<Rightarrow> tc_gov_MsgDeposit \<Rightarrow> 's \<Rightarrow> tc_gov_MsgDepositResponse outcome \<times> 's" where
  "tc_gov_MsgClientImpl_Deposit L G tr = tc_unary L tr (js ''cosmos.gov.v1beta1.Msg'') (js ''Deposit'') (encode_tc_gov_MsgDeposit L) (decode_tc_gov_MsgDepositResponse L G)"


section \<open>Encoding, decoding and JSON of these messages\<close>

lemma fromPartial_partial_of_tc_gov_MsgSubmitProposal [simp]: "fromPartial_tc_gov_MsgSubmitProposal (partial_of_tc_gov_MsgSubmitProposal m) = m"
  by (simp add: fromPartial_tc_gov_MsgSubmitProposal_def partial_of_tc_gov_MsgSubmitProposal_def createBase_tc_gov_MsgSubmitProposal_def partial_map_def option.map_comp o_def option.map_ident tc_Coin_eqs)

lemma tc_gov_MsgSubmitProposal_tags:
  "tc_gov_MsgSubmitProposal_switch L G 10 m = readf (submsg L (decode_tc_Any L G)) (\<lambda>v. m\<lparr>tc_gov_MsgSubmitProposal.content := Some v\<rparr>)"
  "tc_gov_MsgSubmitProposal_switch L G 18 m = readf (submsg L (decode_tc_Coin L G)) (\<lambda>v. m\<lparr>tc_gov_MsgSubmitProposal.initialDeposit := tc_gov_MsgSubmitProposal.initialDeposit m @ [v]\<rparr>)"
  "tc_gov_MsgSubmitProposal_switch L G 26 m = readf (r_string L) (\<lambda>v. m\<lparr>tc_gov_MsgSubmitProposal.proposer := v\<rparr>)"
  by (simp_all add: tc_gov_MsgSubmitProposal_switch_def)

lemma fromPartial_partial_of_tc_gov_MsgSubmitProposalResponse [simp]: "fromPartial_tc_gov_MsgSubmitProposalResponse (partial_of_tc_gov_MsgSubmitProposalResponse m) = m"
  by (simp add: fromPartial_tc_gov_MsgSubmitProposalResponse_def partial_of_tc_gov_MsgSubmitProposalResponse_def createBase_tc_gov_MsgSubmitProposalResponse_def partial_map_def option.map_comp o_def option.map_ident)

lemma tc_gov_MsgSubmitProposalResponse_tags:
  "tc_gov_MsgSubmitProposalResponse_switch L G 8 m = readf (num64l G (r_uint64 L)) (\<lambda>v. m\<lparr>tc_gov_MsgSubmitProposalResponse.proposalId := v\<rparr>)"
  by (simp_all add: tc_gov_MsgSubmitProposalResponse_switch_def)

lemma fromPartial_partial_of_tc_gov_MsgVote [simp]: "fromPartial_tc_gov_MsgVote (partial_of_tc_gov_MsgVote m) = m"
  by (simp add: fromPartial_tc_gov_MsgVote_def partial_of_tc_gov_MsgVote_def createBase_tc_gov_MsgVote_def partial_map_def option.map_comp o_def option.map_ident)

lemma tc_gov_MsgVote_tags:
  "tc_gov_MsgVote_switch L G 8 m = readf (num64l G (r_uint64 L)) (\<lambda>v. m\<lparr>tc_gov_MsgVote.proposalId := v\<rparr>)"
  "tc_gov_MsgVote_switch L G 18 m = readf (r_string L) (\<lambda>v. m\<lparr>tc_gov_MsgVote.voter := v\<rparr>)"
  "tc_gov_MsgVote_switch L G 24 m = readf (num32 (r_int32 L)) (\<lambda>v. m\<lparr>tc_gov_MsgVote.option := v\<rparr>)"
  by (simp_all add: tc_gov_MsgVote_switch_def)

lemma fromPartial_tc_gov_MsgVoteResponse_id [simp]: "fromPartial_tc_gov_MsgVoteResponse = (\<lambda>m. m)"
  by (rule ext, rename_tac m, case_tac m) (simp add: fromPartial_tc_gov_MsgVoteResponse_def createBase_tc_gov_MsgVoteResponse_def)

lemma fromPartial_partial_of_tc_gov_MsgVoteWeighted [simp]: "fromPartial_tc_gov_MsgVoteWeighted (partial_of_tc_gov_MsgVoteWeighted m) = m"
  by (simp add: fromPartial_tc_gov_MsgVoteWeighted_def partial_of_tc_gov_MsgVoteWeighted_def createBase_tc_gov_MsgVoteWeighted_def partial_map_def option.map_comp o_def option.map_ident)

lemma tc_gov_MsgVoteWeighted_tags:
  "tc_gov_MsgVoteWeighted_switch L G 8 m = readf (num64l G (r_uint64 L)) (\<lambda>v. m\<lparr>tc_gov_MsgVoteWeighted.proposalId := v\<rparr>)"
  "tc_gov_MsgVoteWeighted_switch L G 18 m = readf (r_string L) (\<lambda>v. m\<lparr>tc_gov_MsgVoteWeighted.voter := v\<rparr>)"
  "tc_gov_MsgVoteWeighted_switch L G 26 m = readf (submsg L (decode_tc_gov_WeightedVoteOption L G)) (\<lambda>v. m\<lparr>tc_gov_MsgVoteWeighted.options := tc_gov_MsgVoteWeighted.options m @ [v]\<rparr>)"
  by (simp_all add: tc_gov_MsgVoteWeighted_switch_def)

lemma fromPartial_tc_gov_MsgVoteWeightedResponse_id [simp]: "fromPartial_tc_gov_MsgVoteWeightedResponse = (\<lambda>m. m)"
  by (rule ext, rename_tac m, case_tac m) (simp add: fromPartial_tc_gov_MsgVoteWeightedResponse_def createBase_tc_gov_MsgVoteWeightedResponse_def)

lemma fromPartial_partial_of_tc_gov_MsgDeposit [simp]: "fromPartial_tc_gov_MsgDeposit (partial_of_tc_gov_MsgDeposit m) = m"
  by (simp add: fromPartial_tc_gov_MsgDeposit_def partial_of_tc_gov_MsgDeposit_def createBase_tc_gov_MsgDeposit_def partial_map_def option.map_comp o_def option.map_ident tc_Coin_eqs)

lemma tc_gov_MsgDeposit_tags:
  "tc_gov_MsgDeposit_switch L G 8 m = readf (num64l G (r_uint64 L)) (\<lambda>v. m\<lparr>tc_gov_MsgDeposit.proposalId := v\<rparr>)"
  "tc_gov_MsgDeposit_switch L G 18 m = readf (r_string L) (\<lambda>v. m\<lparr>tc_gov_MsgDeposit.depositor := v\<rparr>)"
  "tc_gov_MsgDeposit_switch L G 26 m = readf (submsg L (decode_tc_Coin L G)) (\<lambda>v. m\<lparr>tc_gov_MsgDeposit.amount := tc_gov_MsgDeposit.amount m @ [v]\<rparr>)"
  by (simp_all add: tc_gov_MsgDeposit_switch_def)

lemma fromPartial_tc_gov_MsgDepositResponse_id [simp]: "fromPartial_tc_gov_MsgDepositResponse = (\<lambda>m. m)"
  by (rule ext, rename_tac m, case_tac m) (simp add: fromPartial_tc_gov_MsgDepositResponse_def createBase_tc_gov_MsgDepositResponse_def)

context long_wire_laws
begin

lemma tc_gov_MsgSubmitProposal_codec: "message_codec L F out inp (encode_tc_gov_MsgSubmitProposal L) (tc_gov_MsgSubmitProposal_switch L G) createBase_tc_gov_MsgSubmitProposal (wf_tc_gov_MsgSubmitProposal L)"
proof unfold_locales
  show good: "good_sw (tc_gov_MsgSubmitProposal_switch L G)"
    unfolding tc_gov_MsgSubmitProposal_switch_def by (intro good_swI fwd_rules tc_Any_good)
  fix m assume "wf_tc_gov_MsgSubmitProposal L m"
  then show "codes (tc_gov_MsgSubmitProposal_switch L G) (encode_tc_gov_MsgSubmitProposal L m) createBase_tc_gov_MsgSubmitProposal m"
    unfolding encode_tc_gov_MsgSubmitProposal_def wf_tc_gov_MsgSubmitProposal_def tc_Coin_eqs(2)
    by (elim conjE)
      (rule codes_Cons codes_Nil [OF tc_gov_MsgSubmitProposal.equality] codec_rules tc_Any_carries
        codes_some [where tag = 10 and u = tc_gov_MsgSubmitProposal.content_update and op = "submsg L (decode_tc_Any L G)", OF good]
        codes_for [where tag = 18 and u = tc_gov_MsgSubmitProposal.initialDeposit_update and op = "submsg L (decode_tc_Coin L G)", OF good]
        codes_when [where tag = 26 and u = tc_gov_MsgSubmitProposal.proposer_update and op = "r_string L", OF good]
      | assumption | (simp add: tc_gov_MsgSubmitProposal_tags createBase_tc_gov_MsgSubmitProposal_def; fail))+
qed

lemmas tc_gov_MsgSubmitProposal_roundtrip = message_codec.roundtrip [OF tc_gov_MsgSubmitProposal_codec, folded decode_tc_gov_MsgSubmitProposal_def]

lemmas tc_gov_MsgSubmitProposal_returns = message_codec.decode_returns [OF tc_gov_MsgSubmitProposal_codec, folded decode_tc_gov_MsgSubmitProposal_def]

lemma tc_gov_MsgSubmitProposalResponse_codec: "message_codec L F out inp (encode_tc_gov_MsgSubmitProposalResponse L) (tc_gov_MsgSubmitProposalResponse_switch L G) createBase_tc_gov_MsgSubmitProposalResponse (wf_tc_gov_MsgSubmitProposalResponse L)"
proof unfold_locales
  show good: "good_sw (tc_gov_MsgSubmitProposalResponse_switch L G)"
    unfolding tc_gov_MsgSubmitProposalResponse_switch_def by (intro good_swI fwd_rules)
  fix m assume "wf_tc_gov_MsgSubmitProposalResponse L m"
  then show "codes (tc_gov_MsgSubmitProposalResponse_switch L G) (encode_tc_gov_MsgSubmitProposalResponse L m) createBase_tc_gov_MsgSubmitProposalResponse m"
    unfolding encode_tc_gov_MsgSubmitProposalResponse_def wf_tc_gov_MsgSubmitProposalResponse_def
    by (-)
      (rule codes_Cons codes_Nil [OF tc_gov_MsgSubmitProposalResponse.equality] codec_rules
        codes_when [where tag = 8 and u = tc_gov_MsgSubmitProposalResponse.proposalId_update and op = "num64l G (r_uint64 L)", OF good]
      | assumption | (simp add: tc_gov_MsgSubmitProposalResponse_tags createBase_tc_gov_MsgSubmitProposalResponse_def; fail))+
qed

lemmas tc_gov_MsgSubmitProposalResponse_roundtrip = message_codec.roundtrip [OF tc_gov_MsgSubmitProposalResponse_codec, folded decode_tc_gov_MsgSubmitProposalResponse_def]

lemmas tc_gov_MsgSubmitProposalResponse_returns = message_codec.decode_returns [OF tc_gov_MsgSubmitProposalResponse_codec, folded decode_tc_gov_MsgSubmitProposalResponse_def]

lemma tc_gov_MsgVote_codec: "message_codec L F out inp (encode_tc_gov_MsgVote L) (tc_gov_MsgVote_switch L G) createBase_tc_gov_MsgVote (wf_tc_gov_MsgVote L)"
proof unfold_locales
  show good: "good_sw (tc_gov_MsgVote_switch L G)"
    unfolding tc_gov_MsgVote_switch_def by (intro good_swI fwd_rules)
  fix m assume "wf_tc_gov_MsgVote L m"
  then show "codes (tc_gov_MsgVote_switch L G) (encode_tc_gov_MsgVote L m) createBase_tc_gov_MsgVote m"
    unfolding encode_tc_gov_MsgVote_def wf_tc_gov_MsgVote_def
    by (elim conjE)
      (rule codes_Cons codes_Nil [OF tc_gov_MsgVote.equality] codec_rules
        codes_when [where tag = 8 and u = tc_gov_MsgVote.proposalId_update and op = "num64l G (r_uint64 L)", OF good]
        codes_when [where tag = 18 and u = tc_gov_MsgVote.voter_update and op = "r_string L", OF good]
        codes_when [where tag = 24 and u = tc_gov_MsgVote.option_update and op = "num32 (r_int32 L)", OF good]
      | assumption | (simp add: tc_gov_MsgVote_tags createBase_tc_gov_MsgVote_def; fail))+
qed

lemmas tc_gov_MsgVote_roundtrip = message_codec.roundtrip [OF tc_gov_MsgVote_codec, folded decode_tc_gov_MsgVote_def]

lemmas tc_gov_MsgVote_returns = message_codec.decode_returns [OF tc_gov_MsgVote_codec, folded decode_tc_gov_MsgVote_def]

lemma tc_gov_MsgVoteResponse_codec: "message_codec L F out inp (encode_tc_gov_MsgVoteResponse L) (tc_gov_MsgVoteResponse_switch L G) createBase_tc_gov_MsgVoteResponse (wf_tc_gov_MsgVoteResponse L)"
proof unfold_locales
  show good: "good_sw (tc_gov_MsgVoteResponse_switch L G)"
    unfolding tc_gov_MsgVoteResponse_switch_def by (intro good_swI fwd_rules)
  fix m assume "wf_tc_gov_MsgVoteResponse L m"
  then show "codes (tc_gov_MsgVoteResponse_switch L G) (encode_tc_gov_MsgVoteResponse L m) createBase_tc_gov_MsgVoteResponse m"
    unfolding encode_tc_gov_MsgVoteResponse_def wf_tc_gov_MsgVoteResponse_def
    by (cases m) (simp add: createBase_tc_gov_MsgVoteResponse_def codes_Nil [simplified])
qed

lemmas tc_gov_MsgVoteResponse_roundtrip = message_codec.roundtrip [OF tc_gov_MsgVoteResponse_codec, folded decode_tc_gov_MsgVoteResponse_def]

lemmas tc_gov_MsgVoteResponse_returns = message_codec.decode_returns [OF tc_gov_MsgVoteResponse_codec, folded decode_tc_gov_MsgVoteResponse_def]

lemma tc_gov_MsgVoteWeighted_codec: "message_codec L F out inp (encode_tc_gov_MsgVoteWeighted L) (tc_gov_MsgVoteWeighted_switch L G) createBase_tc_gov_MsgVoteWeighted (wf_tc_gov_MsgVoteWeighted L)"
proof unfold_locales
  show good: "good_sw (tc_gov_MsgVoteWeighted_switch L G)"
    unfolding tc_gov_MsgVoteWeighted_switch_def by (intro good_swI fwd_rules tc_gov_WeightedVoteOption_good)
  fix m assume "wf_tc_gov_MsgVoteWeighted L m"
  then show "codes (tc_gov_MsgVoteWeighted_switch L G) (encode_tc_gov_MsgVoteWeighted L m) createBase_tc_gov_MsgVoteWeighted m"
    unfolding encode_tc_gov_MsgVoteWeighted_def wf_tc_gov_MsgVoteWeighted_def
    by (elim conjE)
      (rule codes_Cons codes_Nil [OF tc_gov_MsgVoteWeighted.equality] codec_rules tc_gov_WeightedVoteOption_carries
        codes_when [where tag = 8 and u = tc_gov_MsgVoteWeighted.proposalId_update and op = "num64l G (r_uint64 L)", OF good]
        codes_when [where tag = 18 and u = tc_gov_MsgVoteWeighted.voter_update and op = "r_string L", OF good]
        codes_for [where tag = 26 and u = tc_gov_MsgVoteWeighted.options_update and op = "submsg L (decode_tc_gov_WeightedVoteOption L G)", OF good]
      | assumption | (simp add: tc_gov_MsgVoteWeighted_tags createBase_tc_gov_MsgVoteWeighted_def; fail))+
qed

lemmas tc_gov_MsgVoteWeighted_roundtrip = message_codec.roundtrip [OF tc_gov_MsgVoteWeighted_codec, folded decode_tc_gov_MsgVoteWeighted_def]

lemmas tc_gov_MsgVoteWeighted_returns = message_codec.decode_returns [OF tc_gov_MsgVoteWeighted_codec, folded decode_tc_gov_MsgVoteWeighted_def]

lemma tc_gov_MsgVoteWeightedResponse_codec: "message_codec L F out inp (encode_tc_gov_MsgVoteWeightedResponse L) (tc_gov_MsgVoteWeightedResponse_switch L G) createBase_tc_gov_MsgVoteWeightedResponse (wf_tc_gov_MsgVoteWeightedResponse L)"
proof unfold_locales
  show good: "good_sw (tc_gov_MsgVoteWeightedResponse_switch L G)"
    unfolding tc_gov_MsgVoteWeightedResponse_switch_def by (intro good_swI fwd_rules)
  fix m assume "wf_tc_gov_MsgVoteWeightedResponse L m"
  then show "codes (tc_gov_MsgVoteWeightedResponse_switch L G) (encode_tc_gov_MsgVoteWeightedResponse L m) createBase_tc_gov_MsgVoteWeightedResponse m"
    unfolding encode_tc_gov_MsgVoteWeightedResponse_def wf_tc_gov_MsgVoteWeightedResponse_def
    by (cases m) (simp add: createBase_tc_gov_MsgVoteWeightedResponse_def codes_Nil [simplified])
qed

lemmas tc_gov_MsgVoteWeightedResponse_roundtrip = message_codec.roundtrip [OF tc_gov_MsgVoteWeightedResponse_codec, folded decode_tc_gov_MsgVoteWeightedResponse_def]

lemmas tc_gov_MsgVoteWeightedResponse_returns = message_codec.decode_returns [OF tc_gov_MsgVoteWeightedResponse_codec, folded decode_tc_gov_MsgVoteWeightedResponse_def]

lemma tc_gov_MsgDeposit_codec: "message_codec L F out inp (encode_tc_gov_MsgDeposit L) (tc_gov_MsgDeposit_switch L G) createBase_tc_gov_MsgDeposit (wf_tc_gov_MsgDeposit L)"
proof unfold_locales
  show good: "good_sw (tc_gov_MsgDeposit_switch L G)"
    unfolding tc_gov_MsgDeposit_switch_def by (intro good_swI fwd_rules)
  fix m assume "wf_tc_gov_MsgDeposit L m"
  then show "codes (tc_gov_MsgDeposit_switch L G) (encode_tc_gov_MsgDeposit L m) createBase_tc_gov_MsgDeposit m"
    unfolding encode_tc_gov_MsgDeposit_def wf_tc_gov_MsgDeposit_def tc_Coin_eqs(2)
    by (elim conjE)
      (rule codes_Cons codes_Nil [OF tc_gov_MsgDeposit.equality] codec_rules
        codes_when [where tag = 8 and u = tc_gov_MsgDeposit.proposalId_update and op = "num64l G (r_uint64 L)", OF good]
        codes_when [where tag = 18 and u = tc_gov_MsgDeposit.depositor_update and op = "r_string L", OF good]
        codes_for [where tag = 26 and u = tc_gov_MsgDeposit.amount_update and op = "submsg L (decode_tc_Coin L G)", OF good]
      | assumption | (simp add: tc_gov_MsgDeposit_tags createBase_tc_gov_MsgDeposit_def; fail))+
qed

lemmas tc_gov_MsgDeposit_roundtrip = message_codec.roundtrip [OF tc_gov_MsgDeposit_codec, folded decode_tc_gov_MsgDeposit_def]

lemmas tc_gov_MsgDeposit_returns = message_codec.decode_returns [OF tc_gov_MsgDeposit_codec, folded decode_tc_gov_MsgDeposit_def]

lemma tc_gov_MsgDepositResponse_codec: "message_codec L F out inp (encode_tc_gov_MsgDepositResponse L) (tc_gov_MsgDepositResponse_switch L G) createBase_tc_gov_MsgDepositResponse (wf_tc_gov_MsgDepositResponse L)"
proof unfold_locales
  show good: "good_sw (tc_gov_MsgDepositResponse_switch L G)"
    unfolding tc_gov_MsgDepositResponse_switch_def by (intro good_swI fwd_rules)
  fix m assume "wf_tc_gov_MsgDepositResponse L m"
  then show "codes (tc_gov_MsgDepositResponse_switch L G) (encode_tc_gov_MsgDepositResponse L m) createBase_tc_gov_MsgDepositResponse m"
    unfolding encode_tc_gov_MsgDepositResponse_def wf_tc_gov_MsgDepositResponse_def
    by (cases m) (simp add: createBase_tc_gov_MsgDepositResponse_def codes_Nil [simplified])
qed

lemmas tc_gov_MsgDepositResponse_roundtrip = message_codec.roundtrip [OF tc_gov_MsgDepositResponse_codec, folded decode_tc_gov_MsgDepositResponse_def]

lemmas tc_gov_MsgDepositResponse_returns = message_codec.decode_returns [OF tc_gov_MsgDepositResponse_codec, folded decode_tc_gov_MsgDepositResponse_def]

end

lemma tc_gov_MsgSubmitProposal_json: "message_json toJSON_tc_gov_MsgSubmitProposal fromJSON_tc_gov_MsgSubmitProposal wfj_tc_gov_MsgSubmitProposal"
proof unfold_locales
  fix h m
  assume "wfj_tc_gov_MsgSubmitProposal m"
  then show "json_rt (toJSON_tc_gov_MsgSubmitProposal h) (fromJSON_tc_gov_MsgSubmitProposal h) m"
    unfolding toJSON_tc_gov_MsgSubmitProposal_def fromJSON_tc_gov_MsgSubmitProposal_def wfj_tc_gov_MsgSubmitProposal_def
    by (elim conjE) (rule json_rtI json_rules tc_Any_json_rules | assumption | (simp; fail))+
qed

lemma tc_gov_MsgSubmitProposalResponse_json: "message_json toJSON_tc_gov_MsgSubmitProposalResponse fromJSON_tc_gov_MsgSubmitProposalResponse wfj_tc_gov_MsgSubmitProposalResponse"
proof unfold_locales
  fix h m
  assume "wfj_tc_gov_MsgSubmitProposalResponse m"
  then show "json_rt (toJSON_tc_gov_MsgSubmitProposalResponse h) (fromJSON_tc_gov_MsgSubmitProposalResponse h) m"
    unfolding toJSON_tc_gov_MsgSubmitProposalResponse_def fromJSON_tc_gov_MsgSubmitProposalResponse_def wfj_tc_gov_MsgSubmitProposalResponse_def
    by (-) (rule json_rtI json_rules | assumption | (simp; fail))+
qed

lemma tc_gov_MsgVote_json: "message_json toJSON_tc_gov_MsgVote fromJSON_tc_gov_MsgVote wfj_tc_gov_MsgVote"
proof unfold_locales
  fix h m
  assume "wfj_tc_gov_MsgVote m"
  then show "json_rt (toJSON_tc_gov_MsgVote h) (fromJSON_tc_gov_MsgVote h) m"
    unfolding toJSON_tc_gov_MsgVote_def fromJSON_tc_gov_MsgVote_def wfj_tc_gov_MsgVote_def
    by (elim conjE) (rule json_rtI json_rules | assumption | (simp; fail))+
qed

lemma tc_gov_MsgVoteResponse_json: "message_json toJSON_tc_gov_MsgVoteResponse fromJSON_tc_gov_MsgVoteResponse wfj_tc_gov_MsgVoteResponse"
proof unfold_locales
  fix h m
  show "json_rt (toJSON_tc_gov_MsgVoteResponse h) (fromJSON_tc_gov_MsgVoteResponse h) m"
    by (cases m) (simp add: json_rt_def toJSON_tc_gov_MsgVoteResponse_def fromJSON_tc_gov_MsgVoteResponse_def objE_rules(1))
qed

lemma tc_gov_MsgVoteWeighted_json: "message_json toJSON_tc_gov_MsgVoteWeighted fromJSON_tc_gov_MsgVoteWeighted wfj_tc_gov_MsgVoteWeighted"
proof unfold_locales
  fix h m
  assume "wfj_tc_gov_MsgVoteWeighted m"
  then show "json_rt (toJSON_tc_gov_MsgVoteWeighted h) (fromJSON_tc_gov_MsgVoteWeighted h) m"
    unfolding toJSON_tc_gov_MsgVoteWeighted_def fromJSON_tc_gov_MsgVoteWeighted_def wfj_tc_gov_MsgVoteWeighted_def
    by (elim conjE) (rule json_rtI json_rules tc_gov_WeightedVoteOption_json_rules | assumption | (simp; fail))+
qed

lemma tc_gov_MsgVoteWeightedResponse_json: "message_json toJSON_tc_gov_MsgVoteWeightedResponse fromJSON_tc_gov_MsgVoteWeightedResponse wfj_tc_gov_MsgVoteWeightedResponse"
proof unfold_locales
  fix h m
  show "json_rt (toJSON_tc_gov_MsgVoteWeightedResponse h) (fromJSON_tc_gov_MsgVoteWeightedResponse h) m"
    by (cases m) (simp add: json_rt_def toJSON_tc_gov_MsgVoteWeightedResponse_def fromJSON_tc_gov_MsgVoteWeightedResponse_def objE_rules(1))
qed

lemma tc_gov_MsgDeposit_json: "message_json toJSON_tc_gov_MsgDeposit fromJSON_tc_gov_MsgDeposit wfj_tc_gov_MsgDeposit"
proof unfold_locales
  fix h m
  assume "wfj_tc_gov_MsgDeposit m"
  then show "json_rt (toJSON_tc_gov_MsgDeposit h) (fromJSON_tc_gov_MsgDeposit h) m"
    unfolding toJSON_tc_gov_MsgDeposit_def fromJSON_tc_gov_MsgDeposit_def wfj_tc_gov_MsgDeposit_def
    by (elim conjE) (rule json_rtI json_rules | assumption | (simp; fail))+
qed

lemma tc_gov_MsgDepositResponse_json: "message_json toJSON_tc_gov_MsgDepositResponse fromJSON_tc_gov_MsgDepositResponse wfj_tc_gov_MsgDepositResponse"
proof unfold_locales
  fix h m
  show "json_rt (toJSON_tc_gov_MsgDepositResponse h) (fromJSON_tc_gov_MsgDepositResponse h) m"
    by (cases m) (simp add: json_rt_def toJSON_tc_gov_MsgDepositResponse_def fromJSON_tc_gov_MsgDepositResponse_def objE_rules(1))
qed


section \<open>Calls over a transport that is served\<close>

context long_wire_laws
begin

lemma tc_gov_MsgClientImpl_SubmitProposal_refines:
  "refines_handler L (decode_tc_gov_MsgSubmitProposal L G) (encode_tc_gov_MsgSubmitProposalResponse L) (wf_tc_gov_MsgSubmitProposal L) (wf_tc_gov_MsgSubmitProposalResponse L)
     (tc_gov_MsgClientImpl_SubmitProposal L G) (js ''cosmos.gov.v1beta1.Msg'') (js ''SubmitProposal'')"
  unfolding tc_gov_MsgClientImpl_SubmitProposal_def [abs_def] decode_tc_gov_MsgSubmitProposal_def decode_tc_gov_MsgSubmitProposalResponse_def
  by (rule refines_unary [OF tc_gov_MsgSubmitProposal_codec tc_gov_MsgSubmitProposalResponse_codec])

lemma tc_gov_MsgClientImpl_Vote_refines:
  "refines_handler L (decode_tc_gov_MsgVote L G) (encode_tc_gov_MsgVoteResponse L) (wf_tc_gov_MsgVote L) (wf_tc_gov_MsgVoteResponse L)
     (tc_gov_MsgClientImpl_Vote L G) (js ''cosmos.gov.v1beta1.Msg'') (js ''Vote'')"
  unfolding tc_gov_MsgClientImpl_Vote_def [abs_def] decode_tc_gov_MsgVote_def decode_tc_gov_MsgVoteResponse_def
  by (rule refines_unary [OF tc_gov_MsgVote_codec tc_gov_MsgVoteResponse_codec])

lemma tc_gov_MsgClientImpl_VoteWeighted_refines:
  "refines_handler L (decode_tc_gov_MsgVoteWeighted L G) (encode_tc_gov_MsgVoteWeightedResponse L) (wf_tc_gov_MsgVoteWeighted L) (wf_tc_gov_MsgVoteWeightedResponse L)
     (tc_gov_MsgClientImpl_VoteWeighted L G) (js ''cosmos.gov.v1beta1.Msg'') (js ''VoteWeighted'')"
  unfolding tc_gov_MsgClientImpl_VoteWeighted_def [abs_def] decode_tc_gov_MsgVoteWeighted_def decode_tc_gov_MsgVoteWeightedResponse_def
  by (rule refines_unary [OF tc_gov_MsgVoteWeighted_codec tc_gov_MsgVoteWeightedResponse_codec])

lemma tc_gov_MsgClientImpl_Deposit_refines:
  "refines_handler L (decode_tc_gov_MsgDeposit L G) (encode_tc_gov_MsgDepositResponse L) (wf_tc_gov_MsgDeposit L) (wf_tc_gov_MsgDepositResponse L)
     (tc_gov_MsgClientImpl_Deposit L G) (js ''cosmos.gov.v1beta1.Msg'') (js ''Deposit'')"
  unfolding tc_gov_MsgClientImpl_Deposit_def [abs_def] decode_tc_gov_MsgDeposit_def decode_tc_gov_MsgDepositResponse_def
  by (rule refines_unary [OF tc_gov_MsgDeposit_codec tc_gov_MsgDepositResponse_codec])

end

end
