(* ===== verification/CosmosValue.thy ===== *)
theory CosmosValue
  imports CosAuthz
    CosBankTx
    CosCrisis
    CosGovTx
begin

text \<open>
  The messages the transaction clients of the Cosmos modules in \<open>ts-client\<close> send, with the names of their
  codecs.
\<close>

datatype (plugins only: code size) cosmos_msg =
    C_bank_MsgMultiSend tc_bank_MsgMultiSend
  | C_bank_MsgSend tc_bank_MsgSend
  | C_authz_MsgGrant tc_authz_MsgGrant
  | C_authz_MsgExec tc_authz_MsgExec
  | C_authz_MsgRevoke tc_authz_MsgRevoke
  | C_gov_MsgVote tc_gov_MsgVote
  | C_gov_MsgVoteWeighted tc_gov_MsgVoteWeighted
  | C_gov_MsgDeposit tc_gov_MsgDeposit
  | C_gov_MsgSubmitProposal tc_gov_MsgSubmitProposal
  | C_crisis_MsgVerifyInvariant tc_crisis_MsgVerifyInvariant

definition cosmos_type :: "cosmos_msg \<Rightarrow> jsstring" where
  "cosmos_type m = (case m of
      C_bank_MsgMultiSend _ \<Rightarrow> js ''cosmos.bank.v1beta1.MsgMultiSend''
    | C_bank_MsgSend _ \<Rightarrow> js ''cosmos.bank.v1beta1.MsgSend''
    | C_authz_MsgGrant _ \<Rightarrow> js ''cosmos.authz.v1beta1.MsgGrant''
    | C_authz_MsgExec _ \<Rightarrow> js ''cosmos.authz.v1beta1.MsgExec''
    | C_authz_MsgRevoke _ \<Rightarrow> js ''cosmos.authz.v1beta1.MsgRevoke''
    | C_gov_MsgVote _ \<Rightarrow> js ''cosmos.gov.v1beta1.MsgVote''
    | C_gov_MsgVoteWeighted _ \<Rightarrow> js ''cosmos.gov.v1beta1.MsgVoteWeighted''
    | C_gov_MsgDeposit _ \<Rightarrow> js ''cosmos.gov.v1beta1.MsgDeposit''
    | C_gov_MsgSubmitProposal _ \<Rightarrow> js ''cosmos.gov.v1beta1.MsgSubmitProposal''
    | C_crisis_MsgVerifyInvariant _ \<Rightarrow> js ''cosmos.crisis.v1beta1.MsgVerifyInvariant'')"

end
