(* ===== verification/TxClient.thy ===== *)
theory TxClient
  imports CosmosValue
begin

text \<open>
  The transaction clients of \<open>ts-client\<close>: \<open>txClient\<close> of \<open>arkeo.arkeo/module.ts\<close> and \<open>arkeo.claim/module.ts\<close>,
  and the message types of the two \<open>registry.ts\<close>. Signing and broadcasting are done by the package \<open>@cosmjs\<close>, which
  is a parameter: an \<open>async\<close> method is the tree of what it awaits from that package, each node with the call it
  makes and the rest of the method as a function of the answer. The rest also gets the state shared with
  the other code of the program at the moment the method goes on, because other code runs while a
  method waits. \<open>run\<close> executes a method with no other code in between and returns its result and the
  calls it made.
\<close>

section \<open>Messages, types and fees\<close>

datatype msg_value =
    V_MsgBondProvider tc_MsgBondProvider
  | V_MsgSetVersion MsgSetVersion
  | V_MsgClaimContractIncome tc_MsgClaimContractIncome
  | V_MsgModProvider tc_MsgModProvider
  | V_MsgOpenContract tc_MsgOpenContract
  | V_MsgCloseContract tc_MsgCloseContract
  | V_MsgTransferClaim tc_MsgTransferClaim
  | V_MsgAddClaim tc_MsgAddClaim
  | V_MsgClaimArkeo tc_MsgClaimArkeo
  | V_MsgClaimEth tc_MsgClaimEth
  | V_Cosmos cosmos_msg
  | V_Other jsval

text \<open>The codec objects a registry holds, by name.\<close>

datatype GeneratedType =
    GT_MsgBondProvider
  | GT_MsgSetVersion
  | GT_MsgClaimContractIncome
  | GT_MsgModProvider
  | GT_MsgOpenContract
  | GT_MsgCloseContract
  | GT_MsgTransferClaim
  | GT_MsgAddClaim
  | GT_MsgClaimArkeo
  | GT_MsgClaimEth
  | GT_Other jsstring

type_synonym registry = "(jsstring \<times> GeneratedType) list"

record EncodeObject =
  typeUrl :: jsstring
  value' :: msg_value

record StdFee =
  amount :: "Coin list"
  gas :: jsstring

definition defaultFee :: StdFee where
  "defaultFee = \<lparr>StdFee.amount = [], StdFee.gas = js ''200000''\<rparr>"

text \<open>The codec a value belongs to.\<close>

fun type_of_value :: "msg_value \<Rightarrow> GeneratedType" where
  "type_of_value (V_MsgBondProvider m) = GT_MsgBondProvider"
| "type_of_value (V_MsgSetVersion m) = GT_MsgSetVersion"
| "type_of_value (V_MsgClaimContractIncome m) = GT_MsgClaimContractIncome"
| "type_of_value (V_MsgModProvider m) = GT_MsgModProvider"
| "type_of_value (V_MsgOpenContract m) = GT_MsgOpenContract"
| "type_of_value (V_MsgCloseContract m) = GT_MsgCloseContract"
| "type_of_value (V_MsgTransferClaim m) = GT_MsgTransferClaim"
| "type_of_value (V_MsgAddClaim m) = GT_MsgAddClaim"
| "type_of_value (V_MsgClaimArkeo m) = GT_MsgClaimArkeo"
| "type_of_value (V_MsgClaimEth m) = GT_MsgClaimEth"
| "type_of_value (V_Cosmos m) = GT_Other (cosmos_type m)"
| "type_of_value (V_Other m) = GT_Other (js ''other'')"

definition msgTypes :: registry where
  "msgTypes =
    [(js ''/arkeo.arkeo.MsgBondProvider'', GT_MsgBondProvider),
     (js ''/arkeo.arkeo.MsgSetVersion'', GT_MsgSetVersion),
     (js ''/arkeo.arkeo.MsgClaimContractIncome'', GT_MsgClaimContractIncome),
     (js ''/arkeo.arkeo.MsgModProvider'', GT_MsgModProvider),
     (js ''/arkeo.arkeo.MsgOpenContract'', GT_MsgOpenContract),
     (js ''/arkeo.arkeo.MsgCloseContract'', GT_MsgCloseContract)]"

definition claim_msgTypes :: registry where
  "claim_msgTypes =
    [(js ''/arkeo.claim.MsgTransferClaim'', GT_MsgTransferClaim),
     (js ''/arkeo.claim.MsgAddClaim'', GT_MsgAddClaim),
     (js ''/arkeo.claim.MsgClaimArkeo'', GT_MsgClaimArkeo),
     (js ''/arkeo.claim.MsgClaimEth'', GT_MsgClaimEth)]"


section \<open>Asynchronous methods\<close>

datatype ('g, 'c, 'd, 'st) async =
    Done "'d result"
  | GetAccounts 'g "'st \<Rightarrow> jsstring list result \<Rightarrow> ('g, 'c, 'd, 'st) async"
  | ConnectWithSigner jsstring "'g option" registry "jsstring option" "'st \<Rightarrow> 'c result \<Rightarrow> ('g, 'c, 'd, 'st) async"
  | SignAndBroadcast 'c jsstring "EncodeObject list" StdFee "jsstring option" "'st \<Rightarrow> 'd result \<Rightarrow> ('g, 'c, 'd, 'st) async"

text \<open>The package, with the state of the chain and the wallet in \<open>'s\<close>.\<close>

record ('g, 'c, 'd, 's) cosmjs =
  getAccounts :: "'g \<Rightarrow> 's \<Rightarrow> jsstring list result \<times> 's"
  connectWithSigner :: "jsstring \<Rightarrow> 'g option \<Rightarrow> registry \<Rightarrow> jsstring option \<Rightarrow> 's \<Rightarrow> 'c result \<times> 's"
  signAndBroadcast :: "'c \<Rightarrow> jsstring \<Rightarrow> EncodeObject list \<Rightarrow> StdFee \<Rightarrow> jsstring option \<Rightarrow> 's \<Rightarrow> 'd result \<times> 's"

datatype ('g, 'c) call =
    EvAccounts 'g
  | EvConnect jsstring "'g option" registry "jsstring option"
  | EvBroadcast 'c jsstring "EncodeObject list" StdFee "jsstring option"

primrec run :: "('g, 'c, 'd, 's) cosmjs \<Rightarrow> 'st \<Rightarrow> ('g, 'c, 'd, 'st) async \<Rightarrow> 's \<Rightarrow> 'd result \<times> ('g, 'c) call list \<times> 's" where
  "run C st (Done x) s = (x, [], s)"
| "run C st (GetAccounts g k) s =
     (case getAccounts C g s of (r, s') \<Rightarrow>
      (case run C st (k st r) s' of (x, l, s'') \<Rightarrow> (x, EvAccounts g # l, s'')))"
| "run C st (ConnectWithSigner u g reg p k) s =
     (case connectWithSigner C u g reg p s of (r, s') \<Rightarrow>
      (case run C st (k st r) s' of (x, l, s'') \<Rightarrow> (x, EvConnect u g reg p # l, s'')))"
| "run C st (SignAndBroadcast c a ms fee memo k) s =
     (case signAndBroadcast C c a ms fee memo s of (r, s') \<Rightarrow>
      (case run C st (k st r) s' of (x, l, s'') \<Rightarrow> (x, EvBroadcast c a ms fee memo # l, s'')))"

text \<open>\<open>try { ... } catch (e) { throw handler(e) }\<close> around a method\<close>

primrec catchE :: "(js_error \<Rightarrow> js_error) \<Rightarrow> ('g, 'c, 'd, 'st) async \<Rightarrow> ('g, 'c, 'd, 'st) async" where
  "catchE h (Done x) = Done (case x of Inl e \<Rightarrow> Inl (h e) | Inr d \<Rightarrow> Inr d)"
| "catchE h (GetAccounts g k) = GetAccounts g (\<lambda>st r. catchE h (k st r))"
| "catchE h (ConnectWithSigner u g reg p k) = ConnectWithSigner u g reg p (\<lambda>st r. catchE h (k st r))"
| "catchE h (SignAndBroadcast c a ms fee memo k) = SignAndBroadcast c a ms fee memo (\<lambda>st r. catchE h (k st r))"

text \<open>\<open>(await x)\<close> inside a method: an answer that is a rejection leaves the method.\<close>

definition awaitE :: "('a \<Rightarrow> ('g, 'c, 'd, 'st) async) \<Rightarrow> 'a result \<Rightarrow> ('g, 'c, 'd, 'st) async" where
  "awaitE k r = (case r of Inl e \<Rightarrow> Done (Inl e) | Inr x \<Rightarrow> k x)"

text \<open>\<open>const { address } = accounts[0]\<close>\<close>

definition first_address :: "jsstring list \<Rightarrow> jsstring result" where
  "first_address accs = (case accs of [] \<Rightarrow> Inl (TypeError ''address'') | a # _ \<Rightarrow> Inr a)"


section \<open>txClient\<close>

record 'g TxClientOptions =
  addr :: jsstring
  prefix :: jsstring
  signer :: "'g option"

text \<open>
  \<open>X.fromPartial(value)\<close>: reading a field of a value that is missing throws. \<open>err_msg\<close> gives the text
  \<open>e.message\<close> of an exception.
\<close>

definition fromPartialE :: "('p \<Rightarrow> 'm) \<Rightarrow> 'p option \<Rightarrow> 'm result" where
  "fromPartialE f v = (case v of None \<Rightarrow> Inl (TypeError ''value'') | Some p \<Rightarrow> Inr (f p))"

definition tryE :: "(js_error \<Rightarrow> js_error) \<Rightarrow> 'a result \<Rightarrow> 'a result" where
  "tryE h r = (case r of Inl e \<Rightarrow> Inl (h e) | Inr x \<Rightarrow> Inr x)"

text \<open>
  The body the \<open>sendMsg\<close> methods share, with the name of the method, the registry of the module and the
  construction of the message.
\<close>

definition sendTx :: "string \<Rightarrow> registry \<Rightarrow> (js_error \<Rightarrow> string) \<Rightarrow> 'g TxClientOptions \<Rightarrow> EncodeObject result
    \<Rightarrow> StdFee option \<Rightarrow> jsstring option \<Rightarrow> ('g, 'c, 'd, 'st) async" where
  "sendTx nm reg err_msg opts mk fee memo =
     (case signer opts of
        None \<Rightarrow> Done (Inl (Error (''TxClient:'' @ nm @ '': Unable to sign Tx. Signer is not present.'')))
      | Some g \<Rightarrow>
          catchE (\<lambda>e. Error (''TxClient:'' @ nm @ '': Could not broadcast Tx: '' @ err_msg e))
            (GetAccounts g (\<lambda>_. awaitE (\<lambda>accounts. awaitE (\<lambda>address.
               ConnectWithSigner (addr opts) (Some g) reg (Some (prefix opts)) (\<lambda>_. awaitE (\<lambda>signingClient.
                 awaitE (\<lambda>msg.
                   SignAndBroadcast signingClient address [msg] (nullish fee defaultFee) memo (\<lambda>_. Done))
                 mk)))
               (first_address accounts)))))"


subsection \<open>ts-client/arkeo.arkeo/module.ts\<close>

definition msgBondProvider :: "(js_error \<Rightarrow> string) \<Rightarrow> tc_MsgBondProvider_Partial option \<Rightarrow> EncodeObject result" where
  "msgBondProvider err_msg v =
     tryE (\<lambda>e. Error (''TxClient:MsgBondProvider: Could not create message: '' @ err_msg e))
       (bindE (fromPartialE fromPartial_tc_MsgBondProvider v) (\<lambda>m.
        Inr \<lparr>EncodeObject.typeUrl = js ''/arkeo.arkeo.MsgBondProvider'', EncodeObject.value' = V_MsgBondProvider m\<rparr>))"

definition sendMsgBondProvider :: "(js_error \<Rightarrow> string) \<Rightarrow> 'g TxClientOptions \<Rightarrow> tc_MsgBondProvider_Partial option \<Rightarrow> StdFee option \<Rightarrow> jsstring option
    \<Rightarrow> ('g, 'c, 'd, 'st) async" where
  "sendMsgBondProvider err_msg opts v =
     sendTx ''sendMsgBondProvider'' msgTypes err_msg opts
       (bindE (fromPartialE fromPartial_tc_MsgBondProvider v) (\<lambda>m. msgBondProvider err_msg (Some (partial_of_tc_MsgBondProvider m))))"

definition msgSetVersion :: "(js_error \<Rightarrow> string) \<Rightarrow> MsgSetVersion_Partial option \<Rightarrow> EncodeObject result" where
  "msgSetVersion err_msg v =
     tryE (\<lambda>e. Error (''TxClient:MsgSetVersion: Could not create message: '' @ err_msg e))
       (bindE (fromPartialE fromPartial_tc_MsgSetVersion v) (\<lambda>m.
        Inr \<lparr>EncodeObject.typeUrl = js ''/arkeo.arkeo.MsgSetVersion'', EncodeObject.value' = V_MsgSetVersion m\<rparr>))"

definition sendMsgSetVersion :: "(js_error \<Rightarrow> string) \<Rightarrow> 'g TxClientOptions \<Rightarrow> MsgSetVersion_Partial option \<Rightarrow> StdFee option \<Rightarrow> jsstring option
    \<Rightarrow> ('g, 'c, 'd, 'st) async" where
  "sendMsgSetVersion err_msg opts v =
     sendTx ''sendMsgSetVersion'' msgTypes err_msg opts
       (bindE (fromPartialE fromPartial_tc_MsgSetVersion v) (\<lambda>m. msgSetVersion err_msg (Some (partial_of_MsgSetVersion m))))"

definition msgClaimContractIncome :: "(js_error \<Rightarrow> string) \<Rightarrow> tc_MsgClaimContractIncome_Partial option \<Rightarrow> EncodeObject result" where
  "msgClaimContractIncome err_msg v =
     tryE (\<lambda>e. Error (''TxClient:MsgClaimContractIncome: Could not create message: '' @ err_msg e))
       (bindE (fromPartialE fromPartial_tc_MsgClaimContractIncome v) (\<lambda>m.
        Inr \<lparr>EncodeObject.typeUrl = js ''/arkeo.arkeo.MsgClaimContractIncome'', EncodeObject.value' = V_MsgClaimContractIncome m\<rparr>))"

definition sendMsgClaimContractIncome :: "(js_error \<Rightarrow> string) \<Rightarrow> 'g TxClientOptions \<Rightarrow> tc_MsgClaimContractIncome_Partial option \<Rightarrow> StdFee option \<Rightarrow> jsstring option
    \<Rightarrow> ('g, 'c, 'd, 'st) async" where
  "sendMsgClaimContractIncome err_msg opts v =
     sendTx ''sendMsgClaimContractIncome'' msgTypes err_msg opts
       (bindE (fromPartialE fromPartial_tc_MsgClaimContractIncome v) (\<lambda>m. msgClaimContractIncome err_msg (Some (partial_of_tc_MsgClaimContractIncome m))))"

definition msgModProvider :: "(js_error \<Rightarrow> string) \<Rightarrow> tc_MsgModProvider_Partial option \<Rightarrow> EncodeObject result" where
  "msgModProvider err_msg v =
     tryE (\<lambda>e. Error (''TxClient:MsgModProvider: Could not create message: '' @ err_msg e))
       (bindE (fromPartialE fromPartial_tc_MsgModProvider v) (\<lambda>m.
        Inr \<lparr>EncodeObject.typeUrl = js ''/arkeo.arkeo.MsgModProvider'', EncodeObject.value' = V_MsgModProvider m\<rparr>))"

definition sendMsgModProvider :: "(js_error \<Rightarrow> string) \<Rightarrow> 'g TxClientOptions \<Rightarrow> tc_MsgModProvider_Partial option \<Rightarrow> StdFee option \<Rightarrow> jsstring option
    \<Rightarrow> ('g, 'c, 'd, 'st) async" where
  "sendMsgModProvider err_msg opts v =
     sendTx ''sendMsgModProvider'' msgTypes err_msg opts
       (bindE (fromPartialE fromPartial_tc_MsgModProvider v) (\<lambda>m. msgModProvider err_msg (Some (partial_of_tc_MsgModProvider m))))"

definition msgOpenContract :: "(js_error \<Rightarrow> string) \<Rightarrow> tc_MsgOpenContract_Partial option \<Rightarrow> EncodeObject result" where
  "msgOpenContract err_msg v =
     tryE (\<lambda>e. Error (''TxClient:MsgOpenContract: Could not create message: '' @ err_msg e))
       (bindE (fromPartialE fromPartial_tc_MsgOpenContract v) (\<lambda>m.
        Inr \<lparr>EncodeObject.typeUrl = js ''/arkeo.arkeo.MsgOpenContract'', EncodeObject.value' = V_MsgOpenContract m\<rparr>))"

definition sendMsgOpenContract :: "(js_error \<Rightarrow> string) \<Rightarrow> 'g TxClientOptions \<Rightarrow> tc_MsgOpenContract_Partial option \<Rightarrow> StdFee option \<Rightarrow> jsstring option
    \<Rightarrow> ('g, 'c, 'd, 'st) async" where
  "sendMsgOpenContract err_msg opts v =
     sendTx ''sendMsgOpenContract'' msgTypes err_msg opts
       (bindE (fromPartialE fromPartial_tc_MsgOpenContract v) (\<lambda>m. msgOpenContract err_msg (Some (partial_of_tc_MsgOpenContract m))))"

definition msgCloseContract :: "(js_error \<Rightarrow> string) \<Rightarrow> tc_MsgCloseContract_Partial option \<Rightarrow> EncodeObject result" where
  "msgCloseContract err_msg v =
     tryE (\<lambda>e. Error (''TxClient:MsgCloseContract: Could not create message: '' @ err_msg e))
       (bindE (fromPartialE fromPartial_tc_MsgCloseContract v) (\<lambda>m.
        Inr \<lparr>EncodeObject.typeUrl = js ''/arkeo.arkeo.MsgCloseContract'', EncodeObject.value' = V_MsgCloseContract m\<rparr>))"

definition sendMsgCloseContract :: "(js_error \<Rightarrow> string) \<Rightarrow> 'g TxClientOptions \<Rightarrow> tc_MsgCloseContract_Partial option \<Rightarrow> StdFee option \<Rightarrow> jsstring option
    \<Rightarrow> ('g, 'c, 'd, 'st) async" where
  "sendMsgCloseContract err_msg opts v =
     sendTx ''sendMsgCloseContract'' msgTypes err_msg opts
       (bindE (fromPartialE fromPartial_tc_MsgCloseContract v) (\<lambda>m. msgCloseContract err_msg (Some (partial_of_tc_MsgCloseContract m))))"


subsection \<open>ts-client/arkeo.claim/module.ts\<close>

definition msgTransferClaim :: "(js_error \<Rightarrow> string) \<Rightarrow> tc_MsgTransferClaim_Partial option \<Rightarrow> EncodeObject result" where
  "msgTransferClaim err_msg v =
     tryE (\<lambda>e. Error (''TxClient:MsgTransferClaim: Could not create message: '' @ err_msg e))
       (bindE (fromPartialE fromPartial_tc_MsgTransferClaim v) (\<lambda>m.
        Inr \<lparr>EncodeObject.typeUrl = js ''/arkeo.claim.MsgTransferClaim'', EncodeObject.value' = V_MsgTransferClaim m\<rparr>))"

definition sendMsgTransferClaim :: "(js_error \<Rightarrow> string) \<Rightarrow> 'g TxClientOptions \<Rightarrow> tc_MsgTransferClaim_Partial option \<Rightarrow> StdFee option \<Rightarrow> jsstring option
    \<Rightarrow> ('g, 'c, 'd, 'st) async" where
  "sendMsgTransferClaim err_msg opts v =
     sendTx ''sendMsgTransferClaim'' claim_msgTypes err_msg opts
       (bindE (fromPartialE fromPartial_tc_MsgTransferClaim v) (\<lambda>m. msgTransferClaim err_msg (Some (partial_of_tc_MsgTransferClaim m))))"

definition msgAddClaim :: "(js_error \<Rightarrow> string) \<Rightarrow> tc_MsgAddClaim_Partial option \<Rightarrow> EncodeObject result" where
  "msgAddClaim err_msg v =
     tryE (\<lambda>e. Error (''TxClient:MsgAddClaim: Could not create message: '' @ err_msg e))
       (bindE (fromPartialE fromPartial_tc_MsgAddClaim v) (\<lambda>m.
        Inr \<lparr>EncodeObject.typeUrl = js ''/arkeo.claim.MsgAddClaim'', EncodeObject.value' = V_MsgAddClaim m\<rparr>))"

definition sendMsgAddClaim :: "(js_error \<Rightarrow> string) \<Rightarrow> 'g TxClientOptions \<Rightarrow> tc_MsgAddClaim_Partial option \<Rightarrow> StdFee option \<Rightarrow> jsstring option
    \<Rightarrow> ('g, 'c, 'd, 'st) async" where
  "sendMsgAddClaim err_msg opts v =
     sendTx ''sendMsgAddClaim'' claim_msgTypes err_msg opts
       (bindE (fromPartialE fromPartial_tc_MsgAddClaim v) (\<lambda>m. msgAddClaim err_msg (Some (partial_of_tc_MsgAddClaim m))))"

definition msgClaimArkeo :: "(js_error \<Rightarrow> string) \<Rightarrow> tc_MsgClaimArkeo_Partial option \<Rightarrow> EncodeObject result" where
  "msgClaimArkeo err_msg v =
     tryE (\<lambda>e. Error (''TxClient:MsgClaimArkeo: Could not create message: '' @ err_msg e))
       (bindE (fromPartialE fromPartial_tc_MsgClaimArkeo v) (\<lambda>m.
        Inr \<lparr>EncodeObject.typeUrl = js ''/arkeo.claim.MsgClaimArkeo'', EncodeObject.value' = V_MsgClaimArkeo m\<rparr>))"

definition sendMsgClaimArkeo :: "(js_error \<Rightarrow> string) \<Rightarrow> 'g TxClientOptions \<Rightarrow> tc_MsgClaimArkeo_Partial option \<Rightarrow> StdFee option \<Rightarrow> jsstring option
    \<Rightarrow> ('g, 'c, 'd, 'st) async" where
  "sendMsgClaimArkeo err_msg opts v =
     sendTx ''sendMsgClaimArkeo'' claim_msgTypes err_msg opts
       (bindE (fromPartialE fromPartial_tc_MsgClaimArkeo v) (\<lambda>m. msgClaimArkeo err_msg (Some (partial_of_tc_MsgClaimArkeo m))))"

definition msgClaimEth :: "(js_error \<Rightarrow> string) \<Rightarrow> tc_MsgClaimEth_Partial option \<Rightarrow> EncodeObject result" where
  "msgClaimEth err_msg v =
     tryE (\<lambda>e. Error (''TxClient:MsgClaimEth: Could not create message: '' @ err_msg e))
       (bindE (fromPartialE fromPartial_tc_MsgClaimEth v) (\<lambda>m.
        Inr \<lparr>EncodeObject.typeUrl = js ''/arkeo.claim.MsgClaimEth'', EncodeObject.value' = V_MsgClaimEth m\<rparr>))"

definition sendMsgClaimEth :: "(js_error \<Rightarrow> string) \<Rightarrow> 'g TxClientOptions \<Rightarrow> tc_MsgClaimEth_Partial option \<Rightarrow> StdFee option \<Rightarrow> jsstring option
    \<Rightarrow> ('g, 'c, 'd, 'st) async" where
  "sendMsgClaimEth err_msg opts v =
     sendTx ''sendMsgClaimEth'' claim_msgTypes err_msg opts
       (bindE (fromPartialE fromPartial_tc_MsgClaimEth v) (\<lambda>m. msgClaimEth err_msg (Some (partial_of_tc_MsgClaimEth m))))"


section \<open>What a send does\<close>

lemma run_catchE:
  "run C st (catchE h t) s = (case run C st t s of (x, l, s') \<Rightarrow> (case x of Inl e \<Rightarrow> Inl (h e) | Inr d \<Rightarrow> Inr d, l, s'))"
proof (induction t arbitrary: s)
  case (GetAccounts g k)
  show ?case by (simp add: GetAccounts.IH [OF rangeI rangeI] split: prod.split)
next
  case (ConnectWithSigner u g reg p k)
  show ?case by (simp add: ConnectWithSigner.IH [OF rangeI rangeI] split: prod.split)
next
  case (SignAndBroadcast c a ms fee memo k)
  show ?case by (simp add: SignAndBroadcast.IH [OF rangeI rangeI] split: prod.split)
qed simp

text \<open>The calls of a send: a prefix of these three, the broadcast included exactly when the earlier ones succeed.\<close>

definition send_calls :: "registry \<Rightarrow> 'g TxClientOptions \<Rightarrow> 'g \<Rightarrow> 'c \<Rightarrow> jsstring \<Rightarrow> EncodeObject \<Rightarrow> StdFee option \<Rightarrow> jsstring option
    \<Rightarrow> ('g, 'c) call list" where
  "send_calls reg opts g c a msg fee memo =
     [EvAccounts g, EvConnect (addr opts) (Some g) reg (Some (prefix opts)),
      EvBroadcast c a [msg] (nullish fee defaultFee) memo]"

fun is_broadcast :: "('g, 'c) call \<Rightarrow> bool" where
  "is_broadcast (EvBroadcast _ _ _ _ _) = True"
| "is_broadcast _ = False"

definition broadcasts :: "('g, 'c) call list \<Rightarrow> ('g, 'c) call list" where
  "broadcasts l = filter is_broadcast l"

text \<open>
  A send broadcasts at most one transaction. If it does, it had a signer, asked it for its accounts and connected
  with the registry, and the transaction has the one message made from the argument.
\<close>

definition broadcasts_once :: "('g, 'c, 'd, 's) cosmjs \<Rightarrow> 'st \<Rightarrow> registry
    \<Rightarrow> ((js_error \<Rightarrow> string) \<Rightarrow> 'g TxClientOptions \<Rightarrow> 'p option \<Rightarrow> StdFee option \<Rightarrow> jsstring option \<Rightarrow> ('g, 'c, 'd, 'st) async)
    \<Rightarrow> ('p \<Rightarrow> EncodeObject) \<Rightarrow> bool" where
  "broadcasts_once C st reg send obj \<longleftrightarrow> (\<forall>err_msg opts v fee memo s x l s'.
     run C st (send err_msg opts v fee memo) s = (x, l, s') \<longrightarrow> broadcasts l = [] \<or>
     (\<exists>g p c a. signer opts = Some g \<and> v = Some p \<and> l = send_calls reg opts g c a (obj p) fee memo
        \<and> broadcasts l = [EvBroadcast c a [obj p] (nullish fee defaultFee) memo]))"

text \<open>
  How a send can fail: the signer has no accounts to give or none at all, the connection fails, the argument
  is missing, the broadcast fails. \<open>e\<close> is the exception, \<open>l\<close> the calls made until then.
\<close>

definition send_fails :: "('g, 'c, 'd, 's) cosmjs \<Rightarrow> registry \<Rightarrow> 'g TxClientOptions \<Rightarrow> 'g \<Rightarrow> EncodeObject option
    \<Rightarrow> StdFee option \<Rightarrow> jsstring option \<Rightarrow> 's \<Rightarrow> js_error \<Rightarrow> ('g, 'c) call list \<Rightarrow> 's \<Rightarrow> bool" where
  "send_fails C reg opts g msg fee memo s e l s' \<longleftrightarrow>
     (getAccounts C g s = (Inl e, s') \<and> l = [EvAccounts g])
   \<or> (getAccounts C g s = (Inr [], s') \<and> e = TypeError ''address'' \<and> l = [EvAccounts g])
   \<or> (\<exists>a as s1. getAccounts C g s = (Inr (a # as), s1)
        \<and> connectWithSigner C (addr opts) (Some g) reg (Some (prefix opts)) s1 = (Inl e, s')
        \<and> l = [EvAccounts g, EvConnect (addr opts) (Some g) reg (Some (prefix opts))])
   \<or> (\<exists>a as s1 c. getAccounts C g s = (Inr (a # as), s1)
        \<and> connectWithSigner C (addr opts) (Some g) reg (Some (prefix opts)) s1 = (Inr c, s')
        \<and> msg = None \<and> e = TypeError ''value''
        \<and> l = [EvAccounts g, EvConnect (addr opts) (Some g) reg (Some (prefix opts))])
   \<or> (\<exists>a as s1 c s2 m. getAccounts C g s = (Inr (a # as), s1)
        \<and> connectWithSigner C (addr opts) (Some g) reg (Some (prefix opts)) s1 = (Inr c, s2)
        \<and> msg = Some m \<and> signAndBroadcast C c a [m] (nullish fee defaultFee) memo s2 = (Inl e, s')
        \<and> l = send_calls reg opts g c a m fee memo)"

text \<open>
  A send with a signer resolves exactly when its three calls succeed one after the other, with the answer of the last; it
  is rejected exactly when one of its steps fails, with an error that names the method and carries the text of that failure.
\<close>

definition settles_with_cause :: "('g, 'c, 'd, 's) cosmjs \<Rightarrow> 'st \<Rightarrow> string \<Rightarrow> registry
    \<Rightarrow> ((js_error \<Rightarrow> string) \<Rightarrow> 'g TxClientOptions \<Rightarrow> 'p option \<Rightarrow> StdFee option \<Rightarrow> jsstring option \<Rightarrow> ('g, 'c, 'd, 'st) async)
    \<Rightarrow> ('p \<Rightarrow> EncodeObject) \<Rightarrow> bool" where
  "settles_with_cause C st nm reg send obj \<longleftrightarrow> (\<forall>err_msg opts g v fee memo s. signer opts = Some g \<longrightarrow>
     (\<forall>d l s'. run C st (send err_msg opts v fee memo) s = (Inr d, l, s') \<longleftrightarrow>
        (\<exists>p a as c s1 s2. v = Some p \<and> getAccounts C g s = (Inr (a # as), s1)
           \<and> connectWithSigner C (addr opts) (Some g) reg (Some (prefix opts)) s1 = (Inr c, s2)
           \<and> signAndBroadcast C c a [obj p] (nullish fee defaultFee) memo s2 = (Inr d, s')
           \<and> l = send_calls reg opts g c a (obj p) fee memo))
   \<and> (\<forall>err l s'. run C st (send err_msg opts v fee memo) s = (Inl err, l, s') \<longleftrightarrow>
        (\<exists>e. err = Error (''TxClient:'' @ nm @ '': Could not broadcast Tx: '' @ err_msg e)
           \<and> send_fails C reg opts g (map_option obj v) fee memo s e l s')))"

text \<open>A registry with exactly one entry for a type URL.\<close>

definition registers :: "registry \<Rightarrow> jsstring \<Rightarrow> GeneratedType \<Rightarrow> bool" where
  "registers reg url gt \<longleftrightarrow> filter (\<lambda>p. fst p = url) reg = [(url, gt)]"

lemma registers_append:
  "registers reg url gt \<Longrightarrow> url \<notin> fst ` set reg' \<Longrightarrow> registers (reg @ reg') url gt \<and> registers (reg' @ reg) url gt"
  by (auto simp: registers_def filter_empty_conv)

text \<open>The registry has one entry for what a \<open>msg\<close> method makes of an argument, and it is the codec of the message.\<close>

definition makes_registered :: "registry \<Rightarrow> ((js_error \<Rightarrow> string) \<Rightarrow> 'p option \<Rightarrow> EncodeObject result) \<Rightarrow> bool" where
  "makes_registered reg mk \<longleftrightarrow> (\<forall>err_msg p. \<exists>m. mk err_msg (Some p) = Inr m
     \<and> registers reg (typeUrl m) (type_of_value (value' m)))"

locale tx_method =
  fixes nm :: string and reg :: registry and url :: jsstring and mk :: "(js_error \<Rightarrow> string) \<Rightarrow> 'p option \<Rightarrow> EncodeObject result"
    and send :: "(js_error \<Rightarrow> string) \<Rightarrow> 'g TxClientOptions \<Rightarrow> 'p option \<Rightarrow> StdFee option \<Rightarrow> jsstring option \<Rightarrow> ('g, 'c, 'd, 'st) async"
    and obj :: "'p \<Rightarrow> EncodeObject" and gt :: GeneratedType
  assumes mk_obj: "mk err_msg (Some p) = Inr (obj p)"
    and obj_url: "typeUrl (obj p) = url" and obj_type: "type_of_value (value' (obj p)) = gt"
    and registered: "registers reg url gt"
    and send_some: "send err_msg opts (Some p) fee memo = sendTx nm reg err_msg opts (Inr (obj p)) fee memo"
    and send_none: "send err_msg opts None fee memo = sendTx nm reg err_msg opts (Inl (TypeError ''value'')) fee memo"
begin

lemma send_is_sendTx: "\<exists>r. send err_msg opts v fee memo = sendTx nm reg err_msg opts r fee memo"
  by (cases v) (auto simp: send_some send_none)

lemma made_registered: "(\<And>u gt. registers reg u gt \<Longrightarrow> registers all u gt) \<Longrightarrow> makes_registered all mk"
  using registered by (simp add: makes_registered_def mk_obj obj_url obj_type)

lemma no_signer:
  "signer opts = None \<Longrightarrow>
   run C st (send err_msg opts v fee memo) s =
     (Inl (Error (''TxClient:'' @ nm @ '': Unable to sign Tx. Signer is not present.'')), [], s)"
  using send_is_sendTx [of err_msg opts v fee memo] by (auto simp: sendTx_def)

text \<open>A send resolves exactly when its three calls do, with the answer of the last.\<close>

lemma resolves_iff:
  assumes g: "signer opts = Some g"
  shows "run C st (send err_msg opts (Some p) fee memo) s = (Inr d, l, s') \<longleftrightarrow>
    (\<exists>a as c s1 s2. getAccounts C g s = (Inr (a # as), s1)
       \<and> connectWithSigner C (addr opts) (Some g) reg (Some (prefix opts)) s1 = (Inr c, s2)
       \<and> signAndBroadcast C c a [obj p] (nullish fee defaultFee) memo s2 = (Inr d, s')
       \<and> l = send_calls reg opts g c a (obj p) fee memo)"
  by (auto simp: send_some sendTx_def g run_catchE awaitE_def first_address_def send_calls_def
      split: prod.splits sum.splits list.splits)

text \<open>It is rejected exactly when one of its steps fails, and the error has the text of that failure.\<close>

lemma rejects_iff:
  assumes g: "signer opts = Some g"
  shows "run C st (send err_msg opts v fee memo) s = (Inl err, l, s') \<longleftrightarrow>
    (\<exists>e. err = Error (''TxClient:'' @ nm @ '': Could not broadcast Tx: '' @ err_msg e)
       \<and> send_fails C reg opts g (map_option obj v) fee memo s e l s')"
  by (cases v)
    (auto simp: send_some send_none send_fails_def sendTx_def g run_catchE awaitE_def first_address_def send_calls_def
      split: prod.splits sum.splits list.splits)

lemma settles: "settles_with_cause C st nm reg send obj"
  unfolding settles_with_cause_def
proof (intro allI impI conjI)
  fix err_msg fee memo s d l s' and opts :: "'g TxClientOptions" and g v
  assume g: "signer opts = Some g"
  show "run C st (send err_msg opts v fee memo) s = (Inr d, l, s') \<longleftrightarrow>
    (\<exists>p a as c s1 s2. v = Some p \<and> getAccounts C g s = (Inr (a # as), s1)
       \<and> connectWithSigner C (addr opts) (Some g) reg (Some (prefix opts)) s1 = (Inr c, s2)
       \<and> signAndBroadcast C c a [obj p] (nullish fee defaultFee) memo s2 = (Inr d, s')
       \<and> l = send_calls reg opts g c a (obj p) fee memo)"
  proof (cases v)
    case None
    then show ?thesis
      by (auto simp: send_none sendTx_def g run_catchE awaitE_def first_address_def split: prod.splits sum.splits list.splits)
  qed (simp add: resolves_iff [OF g])
qed (rule rejects_iff)

lemma broadcast_once: "broadcasts_once C st reg send obj"
  unfolding broadcasts_once_def
proof (intro allI impI)
  fix err_msg opts v fee memo s x l s'
  assume "run C st (send err_msg opts v fee memo) s = (x, l, s')"
  then show "broadcasts l = [] \<or>
    (\<exists>g p c a. signer opts = Some g \<and> v = Some p \<and> l = send_calls reg opts g c a (obj p) fee memo
       \<and> broadcasts l = [EvBroadcast c a [obj p] (nullish fee defaultFee) memo])"
    by (cases v; cases "signer opts")
      (auto simp: send_some send_none sendTx_def run_catchE awaitE_def first_address_def send_calls_def broadcasts_def
        split: prod.splits sum.splits list.splits)
qed

end

definition obj_MsgBondProvider :: "tc_MsgBondProvider_Partial \<Rightarrow> EncodeObject" where
  "obj_MsgBondProvider p = \<lparr>EncodeObject.typeUrl = js ''/arkeo.arkeo.MsgBondProvider'', EncodeObject.value' = V_MsgBondProvider (fromPartial_tc_MsgBondProvider p)\<rparr>"

definition obj_MsgSetVersion :: "MsgSetVersion_Partial \<Rightarrow> EncodeObject" where
  "obj_MsgSetVersion p = \<lparr>EncodeObject.typeUrl = js ''/arkeo.arkeo.MsgSetVersion'', EncodeObject.value' = V_MsgSetVersion (fromPartial_tc_MsgSetVersion p)\<rparr>"

definition obj_MsgClaimContractIncome :: "tc_MsgClaimContractIncome_Partial \<Rightarrow> EncodeObject" where
  "obj_MsgClaimContractIncome p = \<lparr>EncodeObject.typeUrl = js ''/arkeo.arkeo.MsgClaimContractIncome'', EncodeObject.value' = V_MsgClaimContractIncome (fromPartial_tc_MsgClaimContractIncome p)\<rparr>"

definition obj_MsgModProvider :: "tc_MsgModProvider_Partial \<Rightarrow> EncodeObject" where
  "obj_MsgModProvider p = \<lparr>EncodeObject.typeUrl = js ''/arkeo.arkeo.MsgModProvider'', EncodeObject.value' = V_MsgModProvider (fromPartial_tc_MsgModProvider p)\<rparr>"

definition obj_MsgOpenContract :: "tc_MsgOpenContract_Partial \<Rightarrow> EncodeObject" where
  "obj_MsgOpenContract p = \<lparr>EncodeObject.typeUrl = js ''/arkeo.arkeo.MsgOpenContract'', EncodeObject.value' = V_MsgOpenContract (fromPartial_tc_MsgOpenContract p)\<rparr>"

definition obj_MsgCloseContract :: "tc_MsgCloseContract_Partial \<Rightarrow> EncodeObject" where
  "obj_MsgCloseContract p = \<lparr>EncodeObject.typeUrl = js ''/arkeo.arkeo.MsgCloseContract'', EncodeObject.value' = V_MsgCloseContract (fromPartial_tc_MsgCloseContract p)\<rparr>"

definition obj_MsgTransferClaim :: "tc_MsgTransferClaim_Partial \<Rightarrow> EncodeObject" where
  "obj_MsgTransferClaim p = \<lparr>EncodeObject.typeUrl = js ''/arkeo.claim.MsgTransferClaim'', EncodeObject.value' = V_MsgTransferClaim (fromPartial_tc_MsgTransferClaim p)\<rparr>"

definition obj_MsgAddClaim :: "tc_MsgAddClaim_Partial \<Rightarrow> EncodeObject" where
  "obj_MsgAddClaim p = \<lparr>EncodeObject.typeUrl = js ''/arkeo.claim.MsgAddClaim'', EncodeObject.value' = V_MsgAddClaim (fromPartial_tc_MsgAddClaim p)\<rparr>"

definition obj_MsgClaimArkeo :: "tc_MsgClaimArkeo_Partial \<Rightarrow> EncodeObject" where
  "obj_MsgClaimArkeo p = \<lparr>EncodeObject.typeUrl = js ''/arkeo.claim.MsgClaimArkeo'', EncodeObject.value' = V_MsgClaimArkeo (fromPartial_tc_MsgClaimArkeo p)\<rparr>"

definition obj_MsgClaimEth :: "tc_MsgClaimEth_Partial \<Rightarrow> EncodeObject" where
  "obj_MsgClaimEth p = \<lparr>EncodeObject.typeUrl = js ''/arkeo.claim.MsgClaimEth'', EncodeObject.value' = V_MsgClaimEth (fromPartial_tc_MsgClaimEth p)\<rparr>"

interpretation tx_MsgBondProvider: tx_method "''sendMsgBondProvider''" msgTypes "js ''/arkeo.arkeo.MsgBondProvider''" msgBondProvider sendMsgBondProvider obj_MsgBondProvider GT_MsgBondProvider
  by unfold_locales (simp_all add: msgBondProvider_def sendMsgBondProvider_def obj_MsgBondProvider_def fromPartialE_def tryE_def registers_def msgTypes_def)

interpretation tx_MsgSetVersion: tx_method "''sendMsgSetVersion''" msgTypes "js ''/arkeo.arkeo.MsgSetVersion''" msgSetVersion sendMsgSetVersion obj_MsgSetVersion GT_MsgSetVersion
  by unfold_locales (simp_all add: msgSetVersion_def sendMsgSetVersion_def obj_MsgSetVersion_def fromPartialE_def tryE_def registers_def msgTypes_def tc_MsgSetVersion_eqs)

interpretation tx_MsgClaimContractIncome: tx_method "''sendMsgClaimContractIncome''" msgTypes "js ''/arkeo.arkeo.MsgClaimContractIncome''" msgClaimContractIncome sendMsgClaimContractIncome obj_MsgClaimContractIncome GT_MsgClaimContractIncome
  by unfold_locales (simp_all add: msgClaimContractIncome_def sendMsgClaimContractIncome_def obj_MsgClaimContractIncome_def fromPartialE_def tryE_def registers_def msgTypes_def)

interpretation tx_MsgModProvider: tx_method "''sendMsgModProvider''" msgTypes "js ''/arkeo.arkeo.MsgModProvider''" msgModProvider sendMsgModProvider obj_MsgModProvider GT_MsgModProvider
  by unfold_locales (simp_all add: msgModProvider_def sendMsgModProvider_def obj_MsgModProvider_def fromPartialE_def tryE_def registers_def msgTypes_def)

interpretation tx_MsgOpenContract: tx_method "''sendMsgOpenContract''" msgTypes "js ''/arkeo.arkeo.MsgOpenContract''" msgOpenContract sendMsgOpenContract obj_MsgOpenContract GT_MsgOpenContract
  by unfold_locales (simp_all add: msgOpenContract_def sendMsgOpenContract_def obj_MsgOpenContract_def fromPartialE_def tryE_def registers_def msgTypes_def)

interpretation tx_MsgCloseContract: tx_method "''sendMsgCloseContract''" msgTypes "js ''/arkeo.arkeo.MsgCloseContract''" msgCloseContract sendMsgCloseContract obj_MsgCloseContract GT_MsgCloseContract
  by unfold_locales (simp_all add: msgCloseContract_def sendMsgCloseContract_def obj_MsgCloseContract_def fromPartialE_def tryE_def registers_def msgTypes_def)

interpretation tx_MsgTransferClaim: tx_method "''sendMsgTransferClaim''" claim_msgTypes "js ''/arkeo.claim.MsgTransferClaim''" msgTransferClaim sendMsgTransferClaim obj_MsgTransferClaim GT_MsgTransferClaim
  by unfold_locales (simp_all add: msgTransferClaim_def sendMsgTransferClaim_def obj_MsgTransferClaim_def fromPartialE_def tryE_def registers_def claim_msgTypes_def)

interpretation tx_MsgAddClaim: tx_method "''sendMsgAddClaim''" claim_msgTypes "js ''/arkeo.claim.MsgAddClaim''" msgAddClaim sendMsgAddClaim obj_MsgAddClaim GT_MsgAddClaim
  by unfold_locales (simp_all add: msgAddClaim_def sendMsgAddClaim_def obj_MsgAddClaim_def fromPartialE_def tryE_def registers_def claim_msgTypes_def)

interpretation tx_MsgClaimArkeo: tx_method "''sendMsgClaimArkeo''" claim_msgTypes "js ''/arkeo.claim.MsgClaimArkeo''" msgClaimArkeo sendMsgClaimArkeo obj_MsgClaimArkeo GT_MsgClaimArkeo
  by unfold_locales (simp_all add: msgClaimArkeo_def sendMsgClaimArkeo_def obj_MsgClaimArkeo_def fromPartialE_def tryE_def registers_def claim_msgTypes_def)

interpretation tx_MsgClaimEth: tx_method "''sendMsgClaimEth''" claim_msgTypes "js ''/arkeo.claim.MsgClaimEth''" msgClaimEth sendMsgClaimEth obj_MsgClaimEth GT_MsgClaimEth
  by unfold_locales (simp_all add: msgClaimEth_def sendMsgClaimEth_def obj_MsgClaimEth_def fromPartialE_def tryE_def registers_def claim_msgTypes_def)

end
