(* ===== verification/CosmosTx.thy ===== *)
theory CosmosTx
  imports TxClient
begin

text \<open>
  The transaction clients of the Cosmos modules in \<open>ts-client\<close>: the registries and the \<open>msg\<close> and \<open>sendMsg\<close>
  methods of \<open>module.ts\<close>. They have the shape of those of the arkeo module, so each is a \<open>tx_method\<close>.
\<close>


subsection \<open>ts-client/cosmos.bank.v1beta1\<close>

definition bank_msgTypes :: registry where
  "bank_msgTypes =
    [(js ''/cosmos.bank.v1beta1.MsgMultiSend'', GT_Other (js ''cosmos.bank.v1beta1.MsgMultiSend'')),
     (js ''/cosmos.bank.v1beta1.MsgSend'', GT_Other (js ''cosmos.bank.v1beta1.MsgSend''))]"

definition bank_msgMultiSend :: "(js_error \<Rightarrow> string) \<Rightarrow> tc_bank_MsgMultiSend_Partial option \<Rightarrow> EncodeObject result" where
  "bank_msgMultiSend err_msg v =
     tryE (\<lambda>e. Error (''TxClient:MsgMultiSend: Could not create message: '' @ err_msg e))
       (bindE (fromPartialE fromPartial_tc_bank_MsgMultiSend v) (\<lambda>m.
        Inr \<lparr>EncodeObject.typeUrl = js ''/cosmos.bank.v1beta1.MsgMultiSend'', EncodeObject.value' = V_Cosmos (C_bank_MsgMultiSend m)\<rparr>))"

definition bank_sendMsgMultiSend :: "(js_error \<Rightarrow> string) \<Rightarrow> 'g TxClientOptions \<Rightarrow> tc_bank_MsgMultiSend_Partial option \<Rightarrow> StdFee option \<Rightarrow> jsstring option
    \<Rightarrow> ('g, 'c, 'd, 'st) async" where
  "bank_sendMsgMultiSend err_msg opts v =
     sendTx ''sendMsgMultiSend'' bank_msgTypes err_msg opts
       (bindE (fromPartialE fromPartial_tc_bank_MsgMultiSend v) (\<lambda>m. bank_msgMultiSend err_msg (Some (partial_of_tc_bank_MsgMultiSend m))))"

definition bank_msgSend :: "(js_error \<Rightarrow> string) \<Rightarrow> tc_bank_MsgSend_Partial option \<Rightarrow> EncodeObject result" where
  "bank_msgSend err_msg v =
     tryE (\<lambda>e. Error (''TxClient:MsgSend: Could not create message: '' @ err_msg e))
       (bindE (fromPartialE fromPartial_tc_bank_MsgSend v) (\<lambda>m.
        Inr \<lparr>EncodeObject.typeUrl = js ''/cosmos.bank.v1beta1.MsgSend'', EncodeObject.value' = V_Cosmos (C_bank_MsgSend m)\<rparr>))"

definition bank_sendMsgSend :: "(js_error \<Rightarrow> string) \<Rightarrow> 'g TxClientOptions \<Rightarrow> tc_bank_MsgSend_Partial option \<Rightarrow> StdFee option \<Rightarrow> jsstring option
    \<Rightarrow> ('g, 'c, 'd, 'st) async" where
  "bank_sendMsgSend err_msg opts v =
     sendTx ''sendMsgSend'' bank_msgTypes err_msg opts
       (bindE (fromPartialE fromPartial_tc_bank_MsgSend v) (\<lambda>m. bank_msgSend err_msg (Some (partial_of_tc_bank_MsgSend m))))"


subsection \<open>ts-client/cosmos.authz.v1beta1\<close>

definition authz_msgTypes :: registry where
  "authz_msgTypes =
    [(js ''/cosmos.authz.v1beta1.MsgGrant'', GT_Other (js ''cosmos.authz.v1beta1.MsgGrant'')),
     (js ''/cosmos.authz.v1beta1.MsgExec'', GT_Other (js ''cosmos.authz.v1beta1.MsgExec'')),
     (js ''/cosmos.authz.v1beta1.MsgRevoke'', GT_Other (js ''cosmos.authz.v1beta1.MsgRevoke''))]"

definition authz_msgGrant :: "(js_error \<Rightarrow> string) \<Rightarrow> tc_authz_MsgGrant_Partial option \<Rightarrow> EncodeObject result" where
  "authz_msgGrant err_msg v =
     tryE (\<lambda>e. Error (''TxClient:MsgGrant: Could not create message: '' @ err_msg e))
       (bindE (fromPartialE fromPartial_tc_authz_MsgGrant v) (\<lambda>m.
        Inr \<lparr>EncodeObject.typeUrl = js ''/cosmos.authz.v1beta1.MsgGrant'', EncodeObject.value' = V_Cosmos (C_authz_MsgGrant m)\<rparr>))"

definition authz_sendMsgGrant :: "(js_error \<Rightarrow> string) \<Rightarrow> 'g TxClientOptions \<Rightarrow> tc_authz_MsgGrant_Partial option \<Rightarrow> StdFee option \<Rightarrow> jsstring option
    \<Rightarrow> ('g, 'c, 'd, 'st) async" where
  "authz_sendMsgGrant err_msg opts v =
     sendTx ''sendMsgGrant'' authz_msgTypes err_msg opts
       (bindE (fromPartialE fromPartial_tc_authz_MsgGrant v) (\<lambda>m. authz_msgGrant err_msg (Some (partial_of_tc_authz_MsgGrant m))))"

definition authz_msgExec :: "(js_error \<Rightarrow> string) \<Rightarrow> tc_authz_MsgExec_Partial option \<Rightarrow> EncodeObject result" where
  "authz_msgExec err_msg v =
     tryE (\<lambda>e. Error (''TxClient:MsgExec: Could not create message: '' @ err_msg e))
       (bindE (fromPartialE fromPartial_tc_authz_MsgExec v) (\<lambda>m.
        Inr \<lparr>EncodeObject.typeUrl = js ''/cosmos.authz.v1beta1.MsgExec'', EncodeObject.value' = V_Cosmos (C_authz_MsgExec m)\<rparr>))"

definition authz_sendMsgExec :: "(js_error \<Rightarrow> string) \<Rightarrow> 'g TxClientOptions \<Rightarrow> tc_authz_MsgExec_Partial option \<Rightarrow> StdFee option \<Rightarrow> jsstring option
    \<Rightarrow> ('g, 'c, 'd, 'st) async" where
  "authz_sendMsgExec err_msg opts v =
     sendTx ''sendMsgExec'' authz_msgTypes err_msg opts
       (bindE (fromPartialE fromPartial_tc_authz_MsgExec v) (\<lambda>m. authz_msgExec err_msg (Some (partial_of_tc_authz_MsgExec m))))"

definition authz_msgRevoke :: "(js_error \<Rightarrow> string) \<Rightarrow> tc_authz_MsgRevoke_Partial option \<Rightarrow> EncodeObject result" where
  "authz_msgRevoke err_msg v =
     tryE (\<lambda>e. Error (''TxClient:MsgRevoke: Could not create message: '' @ err_msg e))
       (bindE (fromPartialE fromPartial_tc_authz_MsgRevoke v) (\<lambda>m.
        Inr \<lparr>EncodeObject.typeUrl = js ''/cosmos.authz.v1beta1.MsgRevoke'', EncodeObject.value' = V_Cosmos (C_authz_MsgRevoke m)\<rparr>))"

definition authz_sendMsgRevoke :: "(js_error \<Rightarrow> string) \<Rightarrow> 'g TxClientOptions \<Rightarrow> tc_authz_MsgRevoke_Partial option \<Rightarrow> StdFee option \<Rightarrow> jsstring option
    \<Rightarrow> ('g, 'c, 'd, 'st) async" where
  "authz_sendMsgRevoke err_msg opts v =
     sendTx ''sendMsgRevoke'' authz_msgTypes err_msg opts
       (bindE (fromPartialE fromPartial_tc_authz_MsgRevoke v) (\<lambda>m. authz_msgRevoke err_msg (Some (partial_of_tc_authz_MsgRevoke m))))"


subsection \<open>ts-client/cosmos.gov.v1beta1\<close>

definition gov_msgTypes :: registry where
  "gov_msgTypes =
    [(js ''/cosmos.gov.v1beta1.MsgVote'', GT_Other (js ''cosmos.gov.v1beta1.MsgVote'')),
     (js ''/cosmos.gov.v1beta1.MsgVoteWeighted'', GT_Other (js ''cosmos.gov.v1beta1.MsgVoteWeighted'')),
     (js ''/cosmos.gov.v1beta1.MsgDeposit'', GT_Other (js ''cosmos.gov.v1beta1.MsgDeposit'')),
     (js ''/cosmos.gov.v1beta1.MsgSubmitProposal'', GT_Other (js ''cosmos.gov.v1beta1.MsgSubmitProposal''))]"

definition gov_msgVote :: "(js_error \<Rightarrow> string) \<Rightarrow> tc_gov_MsgVote_Partial option \<Rightarrow> EncodeObject result" where
  "gov_msgVote err_msg v =
     tryE (\<lambda>e. Error (''TxClient:MsgVote: Could not create message: '' @ err_msg e))
       (bindE (fromPartialE fromPartial_tc_gov_MsgVote v) (\<lambda>m.
        Inr \<lparr>EncodeObject.typeUrl = js ''/cosmos.gov.v1beta1.MsgVote'', EncodeObject.value' = V_Cosmos (C_gov_MsgVote m)\<rparr>))"

definition gov_sendMsgVote :: "(js_error \<Rightarrow> string) \<Rightarrow> 'g TxClientOptions \<Rightarrow> tc_gov_MsgVote_Partial option \<Rightarrow> StdFee option \<Rightarrow> jsstring option
    \<Rightarrow> ('g, 'c, 'd, 'st) async" where
  "gov_sendMsgVote err_msg opts v =
     sendTx ''sendMsgVote'' gov_msgTypes err_msg opts
       (bindE (fromPartialE fromPartial_tc_gov_MsgVote v) (\<lambda>m. gov_msgVote err_msg (Some (partial_of_tc_gov_MsgVote m))))"

definition gov_msgVoteWeighted :: "(js_error \<Rightarrow> string) \<Rightarrow> tc_gov_MsgVoteWeighted_Partial option \<Rightarrow> EncodeObject result" where
  "gov_msgVoteWeighted err_msg v =
     tryE (\<lambda>e. Error (''TxClient:MsgVoteWeighted: Could not create message: '' @ err_msg e))
       (bindE (fromPartialE fromPartial_tc_gov_MsgVoteWeighted v) (\<lambda>m.
        Inr \<lparr>EncodeObject.typeUrl = js ''/cosmos.gov.v1beta1.MsgVoteWeighted'', EncodeObject.value' = V_Cosmos (C_gov_MsgVoteWeighted m)\<rparr>))"

definition gov_sendMsgVoteWeighted :: "(js_error \<Rightarrow> string) \<Rightarrow> 'g TxClientOptions \<Rightarrow> tc_gov_MsgVoteWeighted_Partial option \<Rightarrow> StdFee option \<Rightarrow> jsstring option
    \<Rightarrow> ('g, 'c, 'd, 'st) async" where
  "gov_sendMsgVoteWeighted err_msg opts v =
     sendTx ''sendMsgVoteWeighted'' gov_msgTypes err_msg opts
       (bindE (fromPartialE fromPartial_tc_gov_MsgVoteWeighted v) (\<lambda>m. gov_msgVoteWeighted err_msg (Some (partial_of_tc_gov_MsgVoteWeighted m))))"

definition gov_msgDeposit :: "(js_error \<Rightarrow> string) \<Rightarrow> tc_gov_MsgDeposit_Partial option \<Rightarrow> EncodeObject result" where
  "gov_msgDeposit err_msg v =
     tryE (\<lambda>e. Error (''TxClient:MsgDeposit: Could not create message: '' @ err_msg e))
       (bindE (fromPartialE fromPartial_tc_gov_MsgDeposit v) (\<lambda>m.
        Inr \<lparr>EncodeObject.typeUrl = js ''/cosmos.gov.v1beta1.MsgDeposit'', EncodeObject.value' = V_Cosmos (C_gov_MsgDeposit m)\<rparr>))"

definition gov_sendMsgDeposit :: "(js_error \<Rightarrow> string) \<Rightarrow> 'g TxClientOptions \<Rightarrow> tc_gov_MsgDeposit_Partial option \<Rightarrow> StdFee option \<Rightarrow> jsstring option
    \<Rightarrow> ('g, 'c, 'd, 'st) async" where
  "gov_sendMsgDeposit err_msg opts v =
     sendTx ''sendMsgDeposit'' gov_msgTypes err_msg opts
       (bindE (fromPartialE fromPartial_tc_gov_MsgDeposit v) (\<lambda>m. gov_msgDeposit err_msg (Some (partial_of_tc_gov_MsgDeposit m))))"

definition gov_msgSubmitProposal :: "(js_error \<Rightarrow> string) \<Rightarrow> tc_gov_MsgSubmitProposal_Partial option \<Rightarrow> EncodeObject result" where
  "gov_msgSubmitProposal err_msg v =
     tryE (\<lambda>e. Error (''TxClient:MsgSubmitProposal: Could not create message: '' @ err_msg e))
       (bindE (fromPartialE fromPartial_tc_gov_MsgSubmitProposal v) (\<lambda>m.
        Inr \<lparr>EncodeObject.typeUrl = js ''/cosmos.gov.v1beta1.MsgSubmitProposal'', EncodeObject.value' = V_Cosmos (C_gov_MsgSubmitProposal m)\<rparr>))"

definition gov_sendMsgSubmitProposal :: "(js_error \<Rightarrow> string) \<Rightarrow> 'g TxClientOptions \<Rightarrow> tc_gov_MsgSubmitProposal_Partial option \<Rightarrow> StdFee option \<Rightarrow> jsstring option
    \<Rightarrow> ('g, 'c, 'd, 'st) async" where
  "gov_sendMsgSubmitProposal err_msg opts v =
     sendTx ''sendMsgSubmitProposal'' gov_msgTypes err_msg opts
       (bindE (fromPartialE fromPartial_tc_gov_MsgSubmitProposal v) (\<lambda>m. gov_msgSubmitProposal err_msg (Some (partial_of_tc_gov_MsgSubmitProposal m))))"


subsection \<open>ts-client/cosmos.crisis.v1beta1\<close>

definition crisis_msgTypes :: registry where
  "crisis_msgTypes =
    [(js ''/cosmos.crisis.v1beta1.MsgVerifyInvariant'', GT_Other (js ''cosmos.crisis.v1beta1.MsgVerifyInvariant''))]"

definition crisis_msgVerifyInvariant :: "(js_error \<Rightarrow> string) \<Rightarrow> tc_crisis_MsgVerifyInvariant_Partial option \<Rightarrow> EncodeObject result" where
  "crisis_msgVerifyInvariant err_msg v =
     tryE (\<lambda>e. Error (''TxClient:MsgVerifyInvariant: Could not create message: '' @ err_msg e))
       (bindE (fromPartialE fromPartial_tc_crisis_MsgVerifyInvariant v) (\<lambda>m.
        Inr \<lparr>EncodeObject.typeUrl = js ''/cosmos.crisis.v1beta1.MsgVerifyInvariant'', EncodeObject.value' = V_Cosmos (C_crisis_MsgVerifyInvariant m)\<rparr>))"

definition crisis_sendMsgVerifyInvariant :: "(js_error \<Rightarrow> string) \<Rightarrow> 'g TxClientOptions \<Rightarrow> tc_crisis_MsgVerifyInvariant_Partial option \<Rightarrow> StdFee option \<Rightarrow> jsstring option
    \<Rightarrow> ('g, 'c, 'd, 'st) async" where
  "crisis_sendMsgVerifyInvariant err_msg opts v =
     sendTx ''sendMsgVerifyInvariant'' crisis_msgTypes err_msg opts
       (bindE (fromPartialE fromPartial_tc_crisis_MsgVerifyInvariant v) (\<lambda>m. crisis_msgVerifyInvariant err_msg (Some (partial_of_tc_crisis_MsgVerifyInvariant m))))"


section \<open>The message a call makes\<close>

definition bank_obj_MsgMultiSend :: "tc_bank_MsgMultiSend_Partial \<Rightarrow> EncodeObject" where
  "bank_obj_MsgMultiSend p = \<lparr>EncodeObject.typeUrl = js ''/cosmos.bank.v1beta1.MsgMultiSend'', EncodeObject.value' = V_Cosmos (C_bank_MsgMultiSend (fromPartial_tc_bank_MsgMultiSend p))\<rparr>"

definition bank_obj_MsgSend :: "tc_bank_MsgSend_Partial \<Rightarrow> EncodeObject" where
  "bank_obj_MsgSend p = \<lparr>EncodeObject.typeUrl = js ''/cosmos.bank.v1beta1.MsgSend'', EncodeObject.value' = V_Cosmos (C_bank_MsgSend (fromPartial_tc_bank_MsgSend p))\<rparr>"

definition authz_obj_MsgGrant :: "tc_authz_MsgGrant_Partial \<Rightarrow> EncodeObject" where
  "authz_obj_MsgGrant p = \<lparr>EncodeObject.typeUrl = js ''/cosmos.authz.v1beta1.MsgGrant'', EncodeObject.value' = V_Cosmos (C_authz_MsgGrant (fromPartial_tc_authz_MsgGrant p))\<rparr>"

definition authz_obj_MsgExec :: "tc_authz_MsgExec_Partial \<Rightarrow> EncodeObject" where
  "authz_obj_MsgExec p = \<lparr>EncodeObject.typeUrl = js ''/cosmos.authz.v1beta1.MsgExec'', EncodeObject.value' = V_Cosmos (C_authz_MsgExec (fromPartial_tc_authz_MsgExec p))\<rparr>"

definition authz_obj_MsgRevoke :: "tc_authz_MsgRevoke_Partial \<Rightarrow> EncodeObject" where
  "authz_obj_MsgRevoke p = \<lparr>EncodeObject.typeUrl = js ''/cosmos.authz.v1beta1.MsgRevoke'', EncodeObject.value' = V_Cosmos (C_authz_MsgRevoke (fromPartial_tc_authz_MsgRevoke p))\<rparr>"

definition gov_obj_MsgVote :: "tc_gov_MsgVote_Partial \<Rightarrow> EncodeObject" where
  "gov_obj_MsgVote p = \<lparr>EncodeObject.typeUrl = js ''/cosmos.gov.v1beta1.MsgVote'', EncodeObject.value' = V_Cosmos (C_gov_MsgVote (fromPartial_tc_gov_MsgVote p))\<rparr>"

definition gov_obj_MsgVoteWeighted :: "tc_gov_MsgVoteWeighted_Partial \<Rightarrow> EncodeObject" where
  "gov_obj_MsgVoteWeighted p = \<lparr>EncodeObject.typeUrl = js ''/cosmos.gov.v1beta1.MsgVoteWeighted'', EncodeObject.value' = V_Cosmos (C_gov_MsgVoteWeighted (fromPartial_tc_gov_MsgVoteWeighted p))\<rparr>"

definition gov_obj_MsgDeposit :: "tc_gov_MsgDeposit_Partial \<Rightarrow> EncodeObject" where
  "gov_obj_MsgDeposit p = \<lparr>EncodeObject.typeUrl = js ''/cosmos.gov.v1beta1.MsgDeposit'', EncodeObject.value' = V_Cosmos (C_gov_MsgDeposit (fromPartial_tc_gov_MsgDeposit p))\<rparr>"

definition gov_obj_MsgSubmitProposal :: "tc_gov_MsgSubmitProposal_Partial \<Rightarrow> EncodeObject" where
  "gov_obj_MsgSubmitProposal p = \<lparr>EncodeObject.typeUrl = js ''/cosmos.gov.v1beta1.MsgSubmitProposal'', EncodeObject.value' = V_Cosmos (C_gov_MsgSubmitProposal (fromPartial_tc_gov_MsgSubmitProposal p))\<rparr>"

definition crisis_obj_MsgVerifyInvariant :: "tc_crisis_MsgVerifyInvariant_Partial \<Rightarrow> EncodeObject" where
  "crisis_obj_MsgVerifyInvariant p = \<lparr>EncodeObject.typeUrl = js ''/cosmos.crisis.v1beta1.MsgVerifyInvariant'', EncodeObject.value' = V_Cosmos (C_crisis_MsgVerifyInvariant (fromPartial_tc_crisis_MsgVerifyInvariant p))\<rparr>"


section \<open>The methods of the transaction clients\<close>

lemma bank_tx_MsgMultiSend:
  "tx_method ''sendMsgMultiSend'' bank_msgTypes (js ''/cosmos.bank.v1beta1.MsgMultiSend'') bank_msgMultiSend bank_sendMsgMultiSend bank_obj_MsgMultiSend (GT_Other (js ''cosmos.bank.v1beta1.MsgMultiSend''))"
  by unfold_locales
    (simp_all add: bank_msgMultiSend_def bank_sendMsgMultiSend_def bank_obj_MsgMultiSend_def cosmos_type_def fromPartialE_def tryE_def registers_def bank_msgTypes_def)

lemma bank_tx_MsgSend:
  "tx_method ''sendMsgSend'' bank_msgTypes (js ''/cosmos.bank.v1beta1.MsgSend'') bank_msgSend bank_sendMsgSend bank_obj_MsgSend (GT_Other (js ''cosmos.bank.v1beta1.MsgSend''))"
  by unfold_locales
    (simp_all add: bank_msgSend_def bank_sendMsgSend_def bank_obj_MsgSend_def cosmos_type_def fromPartialE_def tryE_def registers_def bank_msgTypes_def)

lemma authz_tx_MsgGrant:
  "tx_method ''sendMsgGrant'' authz_msgTypes (js ''/cosmos.authz.v1beta1.MsgGrant'') authz_msgGrant authz_sendMsgGrant authz_obj_MsgGrant (GT_Other (js ''cosmos.authz.v1beta1.MsgGrant''))"
  by unfold_locales
    (simp_all add: authz_msgGrant_def authz_sendMsgGrant_def authz_obj_MsgGrant_def cosmos_type_def fromPartialE_def tryE_def registers_def authz_msgTypes_def)

lemma authz_tx_MsgExec:
  "tx_method ''sendMsgExec'' authz_msgTypes (js ''/cosmos.authz.v1beta1.MsgExec'') authz_msgExec authz_sendMsgExec authz_obj_MsgExec (GT_Other (js ''cosmos.authz.v1beta1.MsgExec''))"
  by unfold_locales
    (simp_all add: authz_msgExec_def authz_sendMsgExec_def authz_obj_MsgExec_def cosmos_type_def fromPartialE_def tryE_def registers_def authz_msgTypes_def)

lemma authz_tx_MsgRevoke:
  "tx_method ''sendMsgRevoke'' authz_msgTypes (js ''/cosmos.authz.v1beta1.MsgRevoke'') authz_msgRevoke authz_sendMsgRevoke authz_obj_MsgRevoke (GT_Other (js ''cosmos.authz.v1beta1.MsgRevoke''))"
  by unfold_locales
    (simp_all add: authz_msgRevoke_def authz_sendMsgRevoke_def authz_obj_MsgRevoke_def cosmos_type_def fromPartialE_def tryE_def registers_def authz_msgTypes_def)

lemma gov_tx_MsgVote:
  "tx_method ''sendMsgVote'' gov_msgTypes (js ''/cosmos.gov.v1beta1.MsgVote'') gov_msgVote gov_sendMsgVote gov_obj_MsgVote (GT_Other (js ''cosmos.gov.v1beta1.MsgVote''))"
  by unfold_locales
    (simp_all add: gov_msgVote_def gov_sendMsgVote_def gov_obj_MsgVote_def cosmos_type_def fromPartialE_def tryE_def registers_def gov_msgTypes_def)

lemma gov_tx_MsgVoteWeighted:
  "tx_method ''sendMsgVoteWeighted'' gov_msgTypes (js ''/cosmos.gov.v1beta1.MsgVoteWeighted'') gov_msgVoteWeighted gov_sendMsgVoteWeighted gov_obj_MsgVoteWeighted (GT_Other (js ''cosmos.gov.v1beta1.MsgVoteWeighted''))"
  by unfold_locales
    (simp_all add: gov_msgVoteWeighted_def gov_sendMsgVoteWeighted_def gov_obj_MsgVoteWeighted_def cosmos_type_def fromPartialE_def tryE_def registers_def gov_msgTypes_def)

lemma gov_tx_MsgDeposit:
  "tx_method ''sendMsgDeposit'' gov_msgTypes (js ''/cosmos.gov.v1beta1.MsgDeposit'') gov_msgDeposit gov_sendMsgDeposit gov_obj_MsgDeposit (GT_Other (js ''cosmos.gov.v1beta1.MsgDeposit''))"
  by unfold_locales
    (simp_all add: gov_msgDeposit_def gov_sendMsgDeposit_def gov_obj_MsgDeposit_def cosmos_type_def fromPartialE_def tryE_def registers_def gov_msgTypes_def)

lemma gov_tx_MsgSubmitProposal:
  "tx_method ''sendMsgSubmitProposal'' gov_msgTypes (js ''/cosmos.gov.v1beta1.MsgSubmitProposal'') gov_msgSubmitProposal gov_sendMsgSubmitProposal gov_obj_MsgSubmitProposal (GT_Other (js ''cosmos.gov.v1beta1.MsgSubmitProposal''))"
  by unfold_locales
    (simp_all add: gov_msgSubmitProposal_def gov_sendMsgSubmitProposal_def gov_obj_MsgSubmitProposal_def cosmos_type_def fromPartialE_def tryE_def registers_def gov_msgTypes_def)

lemma crisis_tx_MsgVerifyInvariant:
  "tx_method ''sendMsgVerifyInvariant'' crisis_msgTypes (js ''/cosmos.crisis.v1beta1.MsgVerifyInvariant'') crisis_msgVerifyInvariant crisis_sendMsgVerifyInvariant crisis_obj_MsgVerifyInvariant (GT_Other (js ''cosmos.crisis.v1beta1.MsgVerifyInvariant''))"
  by unfold_locales
    (simp_all add: crisis_msgVerifyInvariant_def crisis_sendMsgVerifyInvariant_def crisis_obj_MsgVerifyInvariant_def cosmos_type_def fromPartialE_def tryE_def registers_def crisis_msgTypes_def)

end
