(* ===== verification/Registries.thy ===== *)
theory Registries
  imports CosmosTx
begin

text \<open>
  The message types of the remaining modules of \<open>ts-client\<close>, from their \<open>registry.ts\<close>: the type URLs with the names
  of the codecs, which are not modelled. A module without transactions has none.
\<close>

definition auth_msgTypes :: registry where
  "auth_msgTypes = []"

definition tendermint_msgTypes :: registry where
  "tendermint_msgTypes = []"

definition distribution_msgTypes :: registry where
  "distribution_msgTypes = [(js ''/cosmos.distribution.v1beta1.MsgFundCommunityPool'', GT_Other (js ''cosmos.distribution.v1beta1.MsgFundCommunityPool'')),
     (js ''/cosmos.distribution.v1beta1.MsgWithdrawDelegatorReward'', GT_Other (js ''cosmos.distribution.v1beta1.MsgWithdrawDelegatorReward'')),
     (js ''/cosmos.distribution.v1beta1.MsgSetWithdrawAddress'', GT_Other (js ''cosmos.distribution.v1beta1.MsgSetWithdrawAddress'')),
     (js ''/cosmos.distribution.v1beta1.MsgWithdrawValidatorCommission'', GT_Other (js ''cosmos.distribution.v1beta1.MsgWithdrawValidatorCommission''))]"

definition evidence_msgTypes :: registry where
  "evidence_msgTypes = [(js ''/cosmos.evidence.v1beta1.MsgSubmitEvidence'', GT_Other (js ''cosmos.evidence.v1beta1.MsgSubmitEvidence''))]"

definition feegrant_msgTypes :: registry where
  "feegrant_msgTypes = [(js ''/cosmos.feegrant.v1beta1.MsgGrantAllowance'', GT_Other (js ''cosmos.feegrant.v1beta1.MsgGrantAllowance'')),
     (js ''/cosmos.feegrant.v1beta1.MsgRevokeAllowance'', GT_Other (js ''cosmos.feegrant.v1beta1.MsgRevokeAllowance''))]"

definition gov_v1_msgTypes :: registry where
  "gov_v1_msgTypes = [(js ''/cosmos.gov.v1.MsgVoteWeighted'', GT_Other (js ''cosmos.gov.v1.MsgVoteWeighted'')),
     (js ''/cosmos.gov.v1.MsgVote'', GT_Other (js ''cosmos.gov.v1.MsgVote'')),
     (js ''/cosmos.gov.v1.MsgSubmitProposal'', GT_Other (js ''cosmos.gov.v1.MsgSubmitProposal'')),
     (js ''/cosmos.gov.v1.MsgDeposit'', GT_Other (js ''cosmos.gov.v1.MsgDeposit''))]"

definition group_msgTypes :: registry where
  "group_msgTypes = [(js ''/cosmos.group.v1.MsgCreateGroupWithPolicy'', GT_Other (js ''cosmos.group.v1.MsgCreateGroupWithPolicy'')),
     (js ''/cosmos.group.v1.MsgUpdateGroupPolicyAdmin'', GT_Other (js ''cosmos.group.v1.MsgUpdateGroupPolicyAdmin'')),
     (js ''/cosmos.group.v1.MsgUpdateGroupAdmin'', GT_Other (js ''cosmos.group.v1.MsgUpdateGroupAdmin'')),
     (js ''/cosmos.group.v1.MsgCreateGroupPolicy'', GT_Other (js ''cosmos.group.v1.MsgCreateGroupPolicy'')),
     (js ''/cosmos.group.v1.MsgVote'', GT_Other (js ''cosmos.group.v1.MsgVote'')),
     (js ''/cosmos.group.v1.MsgWithdrawProposal'', GT_Other (js ''cosmos.group.v1.MsgWithdrawProposal'')),
     (js ''/cosmos.group.v1.MsgUpdateGroupMetadata'', GT_Other (js ''cosmos.group.v1.MsgUpdateGroupMetadata'')),
     (js ''/cosmos.group.v1.MsgUpdateGroupPolicyMetadata'', GT_Other (js ''cosmos.group.v1.MsgUpdateGroupPolicyMetadata'')),
     (js ''/cosmos.group.v1.MsgCreateGroup'', GT_Other (js ''cosmos.group.v1.MsgCreateGroup'')),
     (js ''/cosmos.group.v1.MsgExec'', GT_Other (js ''cosmos.group.v1.MsgExec'')),
     (js ''/cosmos.group.v1.MsgSubmitProposal'', GT_Other (js ''cosmos.group.v1.MsgSubmitProposal'')),
     (js ''/cosmos.group.v1.MsgLeaveGroup'', GT_Other (js ''cosmos.group.v1.MsgLeaveGroup'')),
     (js ''/cosmos.group.v1.MsgUpdateGroupMembers'', GT_Other (js ''cosmos.group.v1.MsgUpdateGroupMembers'')),
     (js ''/cosmos.group.v1.MsgUpdateGroupPolicyDecisionPolicy'', GT_Other (js ''cosmos.group.v1.MsgUpdateGroupPolicyDecisionPolicy''))]"

definition mint_msgTypes :: registry where
  "mint_msgTypes = []"

definition nft_msgTypes :: registry where
  "nft_msgTypes = []"

definition params_msgTypes :: registry where
  "params_msgTypes = []"

definition slashing_msgTypes :: registry where
  "slashing_msgTypes = [(js ''/cosmos.slashing.v1beta1.MsgUnjail'', GT_Other (js ''cosmos.slashing.v1beta1.MsgUnjail''))]"

definition staking_msgTypes :: registry where
  "staking_msgTypes = [(js ''/cosmos.staking.v1beta1.MsgUndelegate'', GT_Other (js ''cosmos.staking.v1beta1.MsgUndelegate'')),
     (js ''/cosmos.staking.v1beta1.MsgCancelUnbondingDelegation'', GT_Other (js ''cosmos.staking.v1beta1.MsgCancelUnbondingDelegation'')),
     (js ''/cosmos.staking.v1beta1.MsgCreateValidator'', GT_Other (js ''cosmos.staking.v1beta1.MsgCreateValidator'')),
     (js ''/cosmos.staking.v1beta1.MsgBeginRedelegate'', GT_Other (js ''cosmos.staking.v1beta1.MsgBeginRedelegate'')),
     (js ''/cosmos.staking.v1beta1.MsgEditValidator'', GT_Other (js ''cosmos.staking.v1beta1.MsgEditValidator'')),
     (js ''/cosmos.staking.v1beta1.MsgDelegate'', GT_Other (js ''cosmos.staking.v1beta1.MsgDelegate''))]"

definition tx_msgTypes :: registry where
  "tx_msgTypes = []"

definition upgrade_msgTypes :: registry where
  "upgrade_msgTypes = [(js ''/cosmos.upgrade.v1beta1.MsgSoftwareUpgrade'', GT_Other (js ''cosmos.upgrade.v1beta1.MsgSoftwareUpgrade'')),
     (js ''/cosmos.upgrade.v1beta1.MsgCancelUpgrade'', GT_Other (js ''cosmos.upgrade.v1beta1.MsgCancelUpgrade''))]"

definition vesting_msgTypes :: registry where
  "vesting_msgTypes = [(js ''/cosmos.vesting.v1beta1.MsgCreateVestingAccount'', GT_Other (js ''cosmos.vesting.v1beta1.MsgCreateVestingAccount'')),
     (js ''/cosmos.vesting.v1beta1.MsgCreatePermanentLockedAccount'', GT_Other (js ''cosmos.vesting.v1beta1.MsgCreatePermanentLockedAccount'')),
     (js ''/cosmos.vesting.v1beta1.MsgCreatePeriodicVestingAccount'', GT_Other (js ''cosmos.vesting.v1beta1.MsgCreatePeriodicVestingAccount''))]"

definition ibc_controller_msgTypes :: registry where
  "ibc_controller_msgTypes = []"

definition ibc_host_msgTypes :: registry where
  "ibc_host_msgTypes = []"

definition ibc_transfer_msgTypes :: registry where
  "ibc_transfer_msgTypes = [(js ''/ibc.applications.transfer.v1.MsgTransfer'', GT_Other (js ''ibc.applications.transfer.v1.MsgTransfer''))]"

definition ibc_channel_msgTypes :: registry where
  "ibc_channel_msgTypes = []"

definition ibc_client_msgTypes :: registry where
  "ibc_client_msgTypes = []"

definition ibc_connection_msgTypes :: registry where
  "ibc_connection_msgTypes = []"

lemmas other_msgTypes_defs =
  auth_msgTypes_def tendermint_msgTypes_def distribution_msgTypes_def evidence_msgTypes_def
  feegrant_msgTypes_def gov_v1_msgTypes_def group_msgTypes_def mint_msgTypes_def
  nft_msgTypes_def params_msgTypes_def slashing_msgTypes_def staking_msgTypes_def
  tx_msgTypes_def upgrade_msgTypes_def vesting_msgTypes_def ibc_controller_msgTypes_def
  ibc_host_msgTypes_def ibc_transfer_msgTypes_def ibc_channel_msgTypes_def ibc_client_msgTypes_def
  ibc_connection_msgTypes_def

end
