(* ===== verification/TcEvents.thy ===== *)
theory TcEvents
  imports TcBase EventMsgs
begin

unbundle bit_operations_syntax

text \<open>
  The events of the arkeo module in \<open>ts-client\<close>.
\<close>


section \<open>ts-client/arkeo.arkeo/types/arkeo/arkeo/events.ts\<close>

subsection \<open>EventBondProvider\<close>

definition createBase_tc_EventBondProvider :: EventBondProvider where
  "createBase_tc_EventBondProvider = \<lparr>EventBondProvider.provider = [],
     EventBondProvider.service = [],
     EventBondProvider.bondRel = [],
     EventBondProvider.bondAbs = []\<rparr>"

definition encode_tc_EventBondProvider :: "('w, 'r) wire \<Rightarrow> EventBondProvider \<Rightarrow> 'w \<Rightarrow> 'w result" where
  "encode_tc_EventBondProvider L message = seqE
    [whenE (length (EventBondProvider.provider message) \<noteq> 0) (seqE [w_uint32 L 10, w_bytes L (EventBondProvider.provider message)]),
     whenE (EventBondProvider.service message \<noteq> []) (seqE [w_uint32 L 18, w_string L (EventBondProvider.service message)]),
     whenE (EventBondProvider.bondRel message \<noteq> []) (seqE [w_uint32 L 26, w_string L (EventBondProvider.bondRel message)]),
     whenE (EventBondProvider.bondAbs message \<noteq> []) (seqE [w_uint32 L 34, w_string L (EventBondProvider.bondAbs message)])]"

definition tc_EventBondProvider_switch :: "('w, 'r) wire \<Rightarrow> long_lib \<Rightarrow> u32 \<Rightarrow> EventBondProvider \<Rightarrow> (EventBondProvider, 'r) action" where
  "tc_EventBondProvider_switch L G tag message = js_switch (drop_bit 3 tag)
    [(1, readf (r_bytes L) (\<lambda>v. message\<lparr>EventBondProvider.provider := v\<rparr>)),
     (2, readf (r_string L) (\<lambda>v. message\<lparr>EventBondProvider.service := v\<rparr>)),
     (3, readf (r_string L) (\<lambda>v. message\<lparr>EventBondProvider.bondRel := v\<rparr>)),
     (4, readf (r_string L) (\<lambda>v. message\<lparr>EventBondProvider.bondAbs := v\<rparr>))]
    (skipType L tag message)"

definition decode_tc_EventBondProvider :: "('w, 'r) wire \<Rightarrow> long_lib \<Rightarrow> 'r input \<Rightarrow> nat option \<Rightarrow> (EventBondProvider \<times> 'r) result" where
  "decode_tc_EventBondProvider L G = decode_msg L (tc_EventBondProvider_switch L G) createBase_tc_EventBondProvider"

definition fromJSON_tc_EventBondProvider :: "host \<Rightarrow> jsval \<Rightarrow> EventBondProvider result" where
  "fromJSON_tc_EventBondProvider h object =
     bindE (fieldE object ''provider'' (bytesFromBase64 h) []) (\<lambda>v_provider.
     bindE (fieldE object ''service'' (stringE h) []) (\<lambda>v_service.
     bindE (fieldE object ''bondRel'' (stringE h) []) (\<lambda>v_bondRel.
     bindE (fieldE object ''bondAbs'' (stringE h) []) (\<lambda>v_bondAbs.
     Inr \<lparr>EventBondProvider.provider = v_provider, EventBondProvider.service = v_service, EventBondProvider.bondRel = v_bondRel, EventBondProvider.bondAbs = v_bondAbs\<rparr>))))"

definition toJSON_tc_EventBondProvider :: "host \<Rightarrow> EventBondProvider \<Rightarrow> jsval result" where
  "toJSON_tc_EventBondProvider h message = objE
    [jfieldE True ''provider'' (base64E h (EventBondProvider.provider message)),
     jfieldE True ''service'' (Inr (JString (EventBondProvider.service message))),
     jfieldE True ''bondRel'' (Inr (JString (EventBondProvider.bondRel message))),
     jfieldE True ''bondAbs'' (Inr (JString (EventBondProvider.bondAbs message)))]"

definition fromPartial_tc_EventBondProvider :: "EventBondProvider_Partial \<Rightarrow> EventBondProvider" where
  "fromPartial_tc_EventBondProvider object = createBase_tc_EventBondProvider\<lparr>EventBondProvider.provider := nullish (EventBondProvider_Partial.provider object) [],
     EventBondProvider.service := nullish (EventBondProvider_Partial.service object) [],
     EventBondProvider.bondRel := nullish (EventBondProvider_Partial.bondRel object) [],
     EventBondProvider.bondAbs := nullish (EventBondProvider_Partial.bondAbs object) []\<rparr>"

subsection \<open>EventModProvider\<close>

definition createBase_tc_EventModProvider :: EventModProvider where
  "createBase_tc_EventModProvider = \<lparr>EventModProvider.creator = [],
     EventModProvider.provider = [],
     EventModProvider.service = [],
     EventModProvider.metadataUri = [],
     EventModProvider.metadataNonce = Num 0,
     EventModProvider.status = Num 0,
     EventModProvider.minContractDuration = Num 0,
     EventModProvider.maxContractDuration = Num 0,
     EventModProvider.subscriptionRate = [],
     EventModProvider.payAsYouGoRate = [],
     EventModProvider.bond = [],
     EventModProvider.settlementDuration = Num 0\<rparr>"

definition encode_tc_EventModProvider :: "('w, 'r) wire \<Rightarrow> EventModProvider \<Rightarrow> 'w \<Rightarrow> 'w result" where
  "encode_tc_EventModProvider L message = seqE
    [whenE (length (EventModProvider.creator message) \<noteq> 0) (seqE [w_uint32 L 10, w_bytes L (EventModProvider.creator message)]),
     whenE (length (EventModProvider.provider message) \<noteq> 0) (seqE [w_uint32 L 18, w_bytes L (EventModProvider.provider message)]),
     whenE (EventModProvider.service message \<noteq> []) (seqE [w_uint32 L 26, w_string L (EventModProvider.service message)]),
     whenE (EventModProvider.metadataUri message \<noteq> []) (seqE [w_uint32 L 34, w_string L (EventModProvider.metadataUri message)]),
     whenE (EventModProvider.metadataNonce message \<noteq> Num 0) (seqE [w_uint32 L 40, w_uint64 L (EventModProvider.metadataNonce message)]),
     whenE (EventModProvider.status message \<noteq> Num 0) (seqE [w_uint32 L 48, w_int32 L (EventModProvider.status message)]),
     whenE (EventModProvider.minContractDuration message \<noteq> Num 0) (seqE [w_uint32 L 56, w_int64 L (EventModProvider.minContractDuration message)]),
     whenE (EventModProvider.maxContractDuration message \<noteq> Num 0) (seqE [w_uint32 L 64, w_int64 L (EventModProvider.maxContractDuration message)]),
     forE (\<lambda>v. seqE [w_uint32 L 74, w_fork L, encode_tc_Coin L v, w_join L]) (EventModProvider.subscriptionRate message),
     forE (\<lambda>v. seqE [w_uint32 L 82, w_fork L, encode_tc_Coin L v, w_join L]) (EventModProvider.payAsYouGoRate message),
     whenE (EventModProvider.bond message \<noteq> []) (seqE [w_uint32 L 90, w_string L (EventModProvider.bond message)]),
     whenE (EventModProvider.settlementDuration message \<noteq> Num 0) (seqE [w_uint32 L 96, w_int64 L (EventModProvider.settlementDuration message)])]"

definition tc_EventModProvider_switch :: "('w, 'r) wire \<Rightarrow> long_lib \<Rightarrow> u32 \<Rightarrow> EventModProvider \<Rightarrow> (EventModProvider, 'r) action" where
  "tc_EventModProvider_switch L G tag message = js_switch (drop_bit 3 tag)
    [(1, readf (r_bytes L) (\<lambda>v. message\<lparr>EventModProvider.creator := v\<rparr>)),
     (2, readf (r_bytes L) (\<lambda>v. message\<lparr>EventModProvider.provider := v\<rparr>)),
     (3, readf (r_string L) (\<lambda>v. message\<lparr>EventModProvider.service := v\<rparr>)),
     (4, readf (r_string L) (\<lambda>v. message\<lparr>EventModProvider.metadataUri := v\<rparr>)),
     (5, readf (num64l G (r_uint64 L)) (\<lambda>v. message\<lparr>EventModProvider.metadataNonce := v\<rparr>)),
     (6, readf (num32 (r_int32 L)) (\<lambda>v. message\<lparr>EventModProvider.status := v\<rparr>)),
     (7, readf (num64l G (r_int64 L)) (\<lambda>v. message\<lparr>EventModProvider.minContractDuration := v\<rparr>)),
     (8, readf (num64l G (r_int64 L)) (\<lambda>v. message\<lparr>EventModProvider.maxContractDuration := v\<rparr>)),
     (9, readf (submsg L (decode_tc_Coin L G)) (\<lambda>v. message\<lparr>EventModProvider.subscriptionRate := EventModProvider.subscriptionRate message @ [v]\<rparr>)),
     (10, readf (submsg L (decode_tc_Coin L G)) (\<lambda>v. message\<lparr>EventModProvider.payAsYouGoRate := EventModProvider.payAsYouGoRate message @ [v]\<rparr>)),
     (11, readf (r_string L) (\<lambda>v. message\<lparr>EventModProvider.bond := v\<rparr>)),
     (12, readf (num64l G (r_int64 L)) (\<lambda>v. message\<lparr>EventModProvider.settlementDuration := v\<rparr>))]
    (skipType L tag message)"

definition decode_tc_EventModProvider :: "('w, 'r) wire \<Rightarrow> long_lib \<Rightarrow> 'r input \<Rightarrow> nat option \<Rightarrow> (EventModProvider \<times> 'r) result" where
  "decode_tc_EventModProvider L G = decode_msg L (tc_EventModProvider_switch L G) createBase_tc_EventModProvider"

definition fromJSON_tc_EventModProvider :: "host \<Rightarrow> jsval \<Rightarrow> EventModProvider result" where
  "fromJSON_tc_EventModProvider h object =
     bindE (fieldE object ''creator'' (bytesFromBase64 h) []) (\<lambda>v_creator.
     bindE (fieldE object ''provider'' (bytesFromBase64 h) []) (\<lambda>v_provider.
     bindE (fieldE object ''service'' (stringE h) []) (\<lambda>v_service.
     bindE (fieldE object ''metadataUri'' (stringE h) []) (\<lambda>v_metadataUri.
     bindE (fieldE object ''metadataNonce'' (numberE h) (Num 0)) (\<lambda>v_metadataNonce.
     bindE (fieldE object ''status'' (enumE tc_providerStatusFromJSON) (Num 0)) (\<lambda>v_status.
     bindE (fieldE object ''minContractDuration'' (numberE h) (Num 0)) (\<lambda>v_minContractDuration.
     bindE (fieldE object ''maxContractDuration'' (numberE h) (Num 0)) (\<lambda>v_maxContractDuration.
     bindE (arrayE object ''subscriptionRate'' (fromJSON_tc_Coin h)) (\<lambda>v_subscriptionRate.
     bindE (arrayE object ''payAsYouGoRate'' (fromJSON_tc_Coin h)) (\<lambda>v_payAsYouGoRate.
     bindE (fieldE object ''bond'' (stringE h) []) (\<lambda>v_bond.
     bindE (fieldE object ''settlementDuration'' (numberE h) (Num 0)) (\<lambda>v_settlementDuration.
     Inr \<lparr>EventModProvider.creator = v_creator, EventModProvider.provider = v_provider, EventModProvider.service = v_service, EventModProvider.metadataUri = v_metadataUri, EventModProvider.metadataNonce = v_metadataNonce, EventModProvider.status = v_status, EventModProvider.minContractDuration = v_minContractDuration, EventModProvider.maxContractDuration = v_maxContractDuration, EventModProvider.subscriptionRate = v_subscriptionRate, EventModProvider.payAsYouGoRate = v_payAsYouGoRate, EventModProvider.bond = v_bond, EventModProvider.settlementDuration = v_settlementDuration\<rparr>))))))))))))"

definition toJSON_tc_EventModProvider :: "host \<Rightarrow> EventModProvider \<Rightarrow> jsval result" where
  "toJSON_tc_EventModProvider h message = objE
    [jfieldE True ''creator'' (base64E h (EventModProvider.creator message)),
     jfieldE True ''provider'' (base64E h (EventModProvider.provider message)),
     jfieldE True ''service'' (Inr (JString (EventModProvider.service message))),
     jfieldE True ''metadataUri'' (Inr (JString (EventModProvider.metadataUri message))),
     jfieldE True ''metadataNonce'' (Inr (JNumber (Math_round (EventModProvider.metadataNonce message)))),
     jfieldE True ''status'' (Inr (JString (tc_providerStatusToJSON (EventModProvider.status message)))),
     jfieldE True ''minContractDuration'' (Inr (JNumber (Math_round (EventModProvider.minContractDuration message)))),
     jfieldE True ''maxContractDuration'' (Inr (JNumber (Math_round (EventModProvider.maxContractDuration message)))),
     jlistE ''subscriptionRate'' (toJSON_tc_Coin h) (EventModProvider.subscriptionRate message),
     jlistE ''payAsYouGoRate'' (toJSON_tc_Coin h) (EventModProvider.payAsYouGoRate message),
     jfieldE True ''bond'' (Inr (JString (EventModProvider.bond message))),
     jfieldE True ''settlementDuration'' (Inr (JNumber (Math_round (EventModProvider.settlementDuration message))))]"

definition fromPartial_tc_EventModProvider :: "EventModProvider_Partial \<Rightarrow> EventModProvider" where
  "fromPartial_tc_EventModProvider object = createBase_tc_EventModProvider\<lparr>EventModProvider.creator := nullish (EventModProvider_Partial.creator object) [],
     EventModProvider.provider := nullish (EventModProvider_Partial.provider object) [],
     EventModProvider.service := nullish (EventModProvider_Partial.service object) [],
     EventModProvider.metadataUri := nullish (EventModProvider_Partial.metadataUri object) [],
     EventModProvider.metadataNonce := nullish (EventModProvider_Partial.metadataNonce object) (Num 0),
     EventModProvider.status := nullish (EventModProvider_Partial.status object) (Num 0),
     EventModProvider.minContractDuration := nullish (EventModProvider_Partial.minContractDuration object) (Num 0),
     EventModProvider.maxContractDuration := nullish (EventModProvider_Partial.maxContractDuration object) (Num 0),
     EventModProvider.subscriptionRate := partial_map fromPartial_tc_Coin (EventModProvider_Partial.subscriptionRate object),
     EventModProvider.payAsYouGoRate := partial_map fromPartial_tc_Coin (EventModProvider_Partial.payAsYouGoRate object),
     EventModProvider.bond := nullish (EventModProvider_Partial.bond object) [],
     EventModProvider.settlementDuration := nullish (EventModProvider_Partial.settlementDuration object) (Num 0)\<rparr>"

subsection \<open>EventOpenContract\<close>

record tc_EventOpenContract =
  provider :: bytes
  contractId :: number
  service :: jsstring
  client :: bytes
  delegate :: bytes
  type' :: ContractType
  height :: number
  duration :: number
  rate :: "Coin option"
  openCost :: number
  deposit :: jsstring
  settlementDuration :: number
  authorization :: ContractAuthorization
  queriesPerMinute :: number

definition createBase_tc_EventOpenContract :: tc_EventOpenContract where
  "createBase_tc_EventOpenContract = \<lparr>tc_EventOpenContract.provider = [],
     tc_EventOpenContract.contractId = Num 0,
     tc_EventOpenContract.service = [],
     tc_EventOpenContract.client = [],
     tc_EventOpenContract.delegate = [],
     tc_EventOpenContract.type' = Num 0,
     tc_EventOpenContract.height = Num 0,
     tc_EventOpenContract.duration = Num 0,
     tc_EventOpenContract.rate = None,
     tc_EventOpenContract.openCost = Num 0,
     tc_EventOpenContract.deposit = [],
     tc_EventOpenContract.settlementDuration = Num 0,
     tc_EventOpenContract.authorization = Num 0,
     tc_EventOpenContract.queriesPerMinute = Num 0\<rparr>"

definition encode_tc_EventOpenContract :: "('w, 'r) wire \<Rightarrow> tc_EventOpenContract \<Rightarrow> 'w \<Rightarrow> 'w result" where
  "encode_tc_EventOpenContract L message = seqE
    [whenE (length (tc_EventOpenContract.provider message) \<noteq> 0) (seqE [w_uint32 L 10, w_bytes L (tc_EventOpenContract.provider message)]),
     whenE (tc_EventOpenContract.contractId message \<noteq> Num 0) (seqE [w_uint32 L 16, w_uint64 L (tc_EventOpenContract.contractId message)]),
     whenE (tc_EventOpenContract.service message \<noteq> []) (seqE [w_uint32 L 26, w_string L (tc_EventOpenContract.service message)]),
     whenE (length (tc_EventOpenContract.client message) \<noteq> 0) (seqE [w_uint32 L 34, w_bytes L (tc_EventOpenContract.client message)]),
     whenE (length (tc_EventOpenContract.delegate message) \<noteq> 0) (seqE [w_uint32 L 42, w_bytes L (tc_EventOpenContract.delegate message)]),
     whenE (tc_EventOpenContract.type' message \<noteq> Num 0) (seqE [w_uint32 L 48, w_int32 L (tc_EventOpenContract.type' message)]),
     whenE (tc_EventOpenContract.height message \<noteq> Num 0) (seqE [w_uint32 L 56, w_int64 L (tc_EventOpenContract.height message)]),
     whenE (tc_EventOpenContract.duration message \<noteq> Num 0) (seqE [w_uint32 L 64, w_int64 L (tc_EventOpenContract.duration message)]),
     someE (tc_EventOpenContract.rate message) (\<lambda>v. seqE [w_uint32 L 74, w_fork L, encode_tc_Coin L v, w_join L]),
     whenE (tc_EventOpenContract.openCost message \<noteq> Num 0) (seqE [w_uint32 L 80, w_int64 L (tc_EventOpenContract.openCost message)]),
     whenE (tc_EventOpenContract.deposit message \<noteq> []) (seqE [w_uint32 L 90, w_string L (tc_EventOpenContract.deposit message)]),
     whenE (tc_EventOpenContract.settlementDuration message \<noteq> Num 0) (seqE [w_uint32 L 96, w_int64 L (tc_EventOpenContract.settlementDuration message)]),
     whenE (tc_EventOpenContract.authorization message \<noteq> Num 0) (seqE [w_uint32 L 104, w_int32 L (tc_EventOpenContract.authorization message)]),
     whenE (tc_EventOpenContract.queriesPerMinute message \<noteq> Num 0) (seqE [w_uint32 L 112, w_int64 L (tc_EventOpenContract.queriesPerMinute message)])]"

definition tc_EventOpenContract_switch :: "('w, 'r) wire \<Rightarrow> long_lib \<Rightarrow> u32 \<Rightarrow> tc_EventOpenContract \<Rightarrow> (tc_EventOpenContract, 'r) action" where
  "tc_EventOpenContract_switch L G tag message = js_switch (drop_bit 3 tag)
    [(1, readf (r_bytes L) (\<lambda>v. message\<lparr>tc_EventOpenContract.provider := v\<rparr>)),
     (2, readf (num64l G (r_uint64 L)) (\<lambda>v. message\<lparr>tc_EventOpenContract.contractId := v\<rparr>)),
     (3, readf (r_string L) (\<lambda>v. message\<lparr>tc_EventOpenContract.service := v\<rparr>)),
     (4, readf (r_bytes L) (\<lambda>v. message\<lparr>tc_EventOpenContract.client := v\<rparr>)),
     (5, readf (r_bytes L) (\<lambda>v. message\<lparr>tc_EventOpenContract.delegate := v\<rparr>)),
     (6, readf (num32 (r_int32 L)) (\<lambda>v. message\<lparr>tc_EventOpenContract.type' := v\<rparr>)),
     (7, readf (num64l G (r_int64 L)) (\<lambda>v. message\<lparr>tc_EventOpenContract.height := v\<rparr>)),
     (8, readf (num64l G (r_int64 L)) (\<lambda>v. message\<lparr>tc_EventOpenContract.duration := v\<rparr>)),
     (9, readf (submsg L (decode_tc_Coin L G)) (\<lambda>v. message\<lparr>tc_EventOpenContract.rate := Some v\<rparr>)),
     (10, readf (num64l G (r_int64 L)) (\<lambda>v. message\<lparr>tc_EventOpenContract.openCost := v\<rparr>)),
     (11, readf (r_string L) (\<lambda>v. message\<lparr>tc_EventOpenContract.deposit := v\<rparr>)),
     (12, readf (num64l G (r_int64 L)) (\<lambda>v. message\<lparr>tc_EventOpenContract.settlementDuration := v\<rparr>)),
     (13, readf (num32 (r_int32 L)) (\<lambda>v. message\<lparr>tc_EventOpenContract.authorization := v\<rparr>)),
     (14, readf (num64l G (r_int64 L)) (\<lambda>v. message\<lparr>tc_EventOpenContract.queriesPerMinute := v\<rparr>))]
    (skipType L tag message)"

definition decode_tc_EventOpenContract :: "('w, 'r) wire \<Rightarrow> long_lib \<Rightarrow> 'r input \<Rightarrow> nat option \<Rightarrow> (tc_EventOpenContract \<times> 'r) result" where
  "decode_tc_EventOpenContract L G = decode_msg L (tc_EventOpenContract_switch L G) createBase_tc_EventOpenContract"

definition fromJSON_tc_EventOpenContract :: "host \<Rightarrow> jsval \<Rightarrow> tc_EventOpenContract result" where
  "fromJSON_tc_EventOpenContract h object =
     bindE (fieldE object ''provider'' (bytesFromBase64 h) []) (\<lambda>v_provider.
     bindE (fieldE object ''contractId'' (numberE h) (Num 0)) (\<lambda>v_contractId.
     bindE (fieldE object ''service'' (stringE h) []) (\<lambda>v_service.
     bindE (fieldE object ''client'' (bytesFromBase64 h) []) (\<lambda>v_client.
     bindE (fieldE object ''delegate'' (bytesFromBase64 h) []) (\<lambda>v_delegate.
     bindE (fieldE object ''type'' (enumE tc_contractTypeFromJSON) (Num 0)) (\<lambda>v_type.
     bindE (fieldE object ''height'' (numberE h) (Num 0)) (\<lambda>v_height.
     bindE (fieldE object ''duration'' (numberE h) (Num 0)) (\<lambda>v_duration.
     bindE (optE object ''rate'' (fromJSON_tc_Coin h)) (\<lambda>v_rate.
     bindE (fieldE object ''openCost'' (numberE h) (Num 0)) (\<lambda>v_openCost.
     bindE (fieldE object ''deposit'' (stringE h) []) (\<lambda>v_deposit.
     bindE (fieldE object ''settlementDuration'' (numberE h) (Num 0)) (\<lambda>v_settlementDuration.
     bindE (fieldE object ''authorization'' (enumE tc_contractAuthorizationFromJSON) (Num 0)) (\<lambda>v_authorization.
     bindE (fieldE object ''queriesPerMinute'' (numberE h) (Num 0)) (\<lambda>v_queriesPerMinute.
     Inr \<lparr>tc_EventOpenContract.provider = v_provider, tc_EventOpenContract.contractId = v_contractId, tc_EventOpenContract.service = v_service, tc_EventOpenContract.client = v_client, tc_EventOpenContract.delegate = v_delegate, tc_EventOpenContract.type' = v_type, tc_EventOpenContract.height = v_height, tc_EventOpenContract.duration = v_duration, tc_EventOpenContract.rate = v_rate, tc_EventOpenContract.openCost = v_openCost, tc_EventOpenContract.deposit = v_deposit, tc_EventOpenContract.settlementDuration = v_settlementDuration, tc_EventOpenContract.authorization = v_authorization, tc_EventOpenContract.queriesPerMinute = v_queriesPerMinute\<rparr>))))))))))))))"

definition toJSON_tc_EventOpenContract :: "host \<Rightarrow> tc_EventOpenContract \<Rightarrow> jsval result" where
  "toJSON_tc_EventOpenContract h message = objE
    [jfieldE True ''provider'' (base64E h (tc_EventOpenContract.provider message)),
     jfieldE True ''contractId'' (Inr (JNumber (Math_round (tc_EventOpenContract.contractId message)))),
     jfieldE True ''service'' (Inr (JString (tc_EventOpenContract.service message))),
     jfieldE True ''client'' (base64E h (tc_EventOpenContract.client message)),
     jfieldE True ''delegate'' (base64E h (tc_EventOpenContract.delegate message)),
     jfieldE True ''type'' (Inr (JString (tc_contractTypeToJSON (tc_EventOpenContract.type' message)))),
     jfieldE True ''height'' (Inr (JNumber (Math_round (tc_EventOpenContract.height message)))),
     jfieldE True ''duration'' (Inr (JNumber (Math_round (tc_EventOpenContract.duration message)))),
     joptE ''rate'' (toJSON_tc_Coin h) (tc_EventOpenContract.rate message),
     jfieldE True ''openCost'' (Inr (JNumber (Math_round (tc_EventOpenContract.openCost message)))),
     jfieldE True ''deposit'' (Inr (JString (tc_EventOpenContract.deposit message))),
     jfieldE True ''settlementDuration'' (Inr (JNumber (Math_round (tc_EventOpenContract.settlementDuration message)))),
     jfieldE True ''authorization'' (Inr (JString (tc_contractAuthorizationToJSON (tc_EventOpenContract.authorization message)))),
     jfieldE True ''queriesPerMinute'' (Inr (JNumber (Math_round (tc_EventOpenContract.queriesPerMinute message))))]"

record tc_EventOpenContract_Partial =
  provider :: "bytes option"
  contractId :: "number option"
  service :: "jsstring option"
  client :: "bytes option"
  delegate :: "bytes option"
  type' :: "ContractType option"
  height :: "number option"
  duration :: "number option"
  rate :: "Coin_Partial option"
  openCost :: "number option"
  deposit :: "jsstring option"
  settlementDuration :: "number option"
  authorization :: "ContractAuthorization option"
  queriesPerMinute :: "number option"

definition fromPartial_tc_EventOpenContract :: "tc_EventOpenContract_Partial \<Rightarrow> tc_EventOpenContract" where
  "fromPartial_tc_EventOpenContract object = createBase_tc_EventOpenContract\<lparr>tc_EventOpenContract.provider := nullish (tc_EventOpenContract_Partial.provider object) [],
     tc_EventOpenContract.contractId := nullish (tc_EventOpenContract_Partial.contractId object) (Num 0),
     tc_EventOpenContract.service := nullish (tc_EventOpenContract_Partial.service object) [],
     tc_EventOpenContract.client := nullish (tc_EventOpenContract_Partial.client object) [],
     tc_EventOpenContract.delegate := nullish (tc_EventOpenContract_Partial.delegate object) [],
     tc_EventOpenContract.type' := nullish (tc_EventOpenContract_Partial.type' object) (Num 0),
     tc_EventOpenContract.height := nullish (tc_EventOpenContract_Partial.height object) (Num 0),
     tc_EventOpenContract.duration := nullish (tc_EventOpenContract_Partial.duration object) (Num 0),
     tc_EventOpenContract.rate := map_option fromPartial_tc_Coin (tc_EventOpenContract_Partial.rate object),
     tc_EventOpenContract.openCost := nullish (tc_EventOpenContract_Partial.openCost object) (Num 0),
     tc_EventOpenContract.deposit := nullish (tc_EventOpenContract_Partial.deposit object) [],
     tc_EventOpenContract.settlementDuration := nullish (tc_EventOpenContract_Partial.settlementDuration object) (Num 0),
     tc_EventOpenContract.authorization := nullish (tc_EventOpenContract_Partial.authorization object) (Num 0),
     tc_EventOpenContract.queriesPerMinute := nullish (tc_EventOpenContract_Partial.queriesPerMinute object) (Num 0)\<rparr>"

text \<open>A partial message that sets every field.\<close>

definition partial_of_tc_EventOpenContract :: "tc_EventOpenContract \<Rightarrow> tc_EventOpenContract_Partial" where
  "partial_of_tc_EventOpenContract m =
     \<lparr>tc_EventOpenContract_Partial.provider = Some (tc_EventOpenContract.provider m),
      tc_EventOpenContract_Partial.contractId = Some (tc_EventOpenContract.contractId m),
      tc_EventOpenContract_Partial.service = Some (tc_EventOpenContract.service m),
      tc_EventOpenContract_Partial.client = Some (tc_EventOpenContract.client m),
      tc_EventOpenContract_Partial.delegate = Some (tc_EventOpenContract.delegate m),
      tc_EventOpenContract_Partial.type' = Some (tc_EventOpenContract.type' m),
      tc_EventOpenContract_Partial.height = Some (tc_EventOpenContract.height m),
      tc_EventOpenContract_Partial.duration = Some (tc_EventOpenContract.duration m),
      tc_EventOpenContract_Partial.rate = map_option partial_of_Coin (tc_EventOpenContract.rate m),
      tc_EventOpenContract_Partial.openCost = Some (tc_EventOpenContract.openCost m),
      tc_EventOpenContract_Partial.deposit = Some (tc_EventOpenContract.deposit m),
      tc_EventOpenContract_Partial.settlementDuration = Some (tc_EventOpenContract.settlementDuration m),
      tc_EventOpenContract_Partial.authorization = Some (tc_EventOpenContract.authorization m),
      tc_EventOpenContract_Partial.queriesPerMinute = Some (tc_EventOpenContract.queriesPerMinute m)\<rparr>"

definition wf_tc_EventOpenContract :: "('w, 'r) wire \<Rightarrow> tc_EventOpenContract \<Rightarrow> bool" where
  "wf_tc_EventOpenContract L m \<longleftrightarrow> wire_bytes (tc_EventOpenContract.provider m)
     \<and> safe_uint (tc_EventOpenContract.contractId m)
     \<and> wire_string (tc_EventOpenContract.service m)
     \<and> wire_bytes (tc_EventOpenContract.client m)
     \<and> wire_bytes (tc_EventOpenContract.delegate m)
     \<and> int32_num (tc_EventOpenContract.type' m)
     \<and> safe_int (tc_EventOpenContract.height m)
     \<and> safe_int (tc_EventOpenContract.duration m)
     \<and> pred_option (\<lambda>v. wf_Coin L v \<and> fits L (encode_Coin L v)) (tc_EventOpenContract.rate m)
     \<and> safe_int (tc_EventOpenContract.openCost m)
     \<and> wire_string (tc_EventOpenContract.deposit m)
     \<and> safe_int (tc_EventOpenContract.settlementDuration m)
     \<and> int32_num (tc_EventOpenContract.authorization m)
     \<and> safe_int (tc_EventOpenContract.queriesPerMinute m)"

definition wfj_tc_EventOpenContract :: "tc_EventOpenContract \<Rightarrow> bool" where
  "wfj_tc_EventOpenContract m \<longleftrightarrow> whole (tc_EventOpenContract.contractId m)
     \<and> ContractType_known (tc_EventOpenContract.type' m)
     \<and> whole (tc_EventOpenContract.height m)
     \<and> whole (tc_EventOpenContract.duration m)
     \<and> pred_option wfj_Coin (tc_EventOpenContract.rate m)
     \<and> whole (tc_EventOpenContract.openCost m)
     \<and> whole (tc_EventOpenContract.settlementDuration m)
     \<and> ContractAuthorization_known (tc_EventOpenContract.authorization m)
     \<and> whole (tc_EventOpenContract.queriesPerMinute m)"

subsection \<open>EventSettleContract\<close>

definition createBase_tc_EventSettleContract :: EventSettleContract where
  "createBase_tc_EventSettleContract = \<lparr>EventSettleContract.provider = [],
     EventSettleContract.contractId = Num 0,
     EventSettleContract.service = [],
     EventSettleContract.client = [],
     EventSettleContract.delegate = [],
     EventSettleContract.type' = Num 0,
     EventSettleContract.nonce = Num 0,
     EventSettleContract.height = Num 0,
     EventSettleContract.paid = [],
     EventSettleContract.reserve = []\<rparr>"

definition encode_tc_EventSettleContract :: "('w, 'r) wire \<Rightarrow> EventSettleContract \<Rightarrow> 'w \<Rightarrow> 'w result" where
  "encode_tc_EventSettleContract L message = seqE
    [whenE (length (EventSettleContract.provider message) \<noteq> 0) (seqE [w_uint32 L 10, w_bytes L (EventSettleContract.provider message)]),
     whenE (EventSettleContract.contractId message \<noteq> Num 0) (seqE [w_uint32 L 16, w_uint64 L (EventSettleContract.contractId message)]),
     whenE (EventSettleContract.service message \<noteq> []) (seqE [w_uint32 L 26, w_string L (EventSettleContract.service message)]),
     whenE (length (EventSettleContract.client message) \<noteq> 0) (seqE [w_uint32 L 34, w_bytes L (EventSettleContract.client message)]),
     whenE (length (EventSettleContract.delegate message) \<noteq> 0) (seqE [w_uint32 L 42, w_bytes L (EventSettleContract.delegate message)]),
     whenE (EventSettleContract.type' message \<noteq> Num 0) (seqE [w_uint32 L 48, w_int32 L (EventSettleContract.type' message)]),
     whenE (EventSettleContract.nonce message \<noteq> Num 0) (seqE [w_uint32 L 56, w_int64 L (EventSettleContract.nonce message)]),
     whenE (EventSettleContract.height message \<noteq> Num 0) (seqE [w_uint32 L 64, w_int64 L (EventSettleContract.height message)]),
     whenE (EventSettleContract.paid message \<noteq> []) (seqE [w_uint32 L 74, w_string L (EventSettleContract.paid message)]),
     whenE (EventSettleContract.reserve message \<noteq> []) (seqE [w_uint32 L 82, w_string L (EventSettleContract.reserve message)])]"

definition tc_EventSettleContract_switch :: "('w, 'r) wire \<Rightarrow> long_lib \<Rightarrow> u32 \<Rightarrow> EventSettleContract \<Rightarrow> (EventSettleContract, 'r) action" where
  "tc_EventSettleContract_switch L G tag message = js_switch (drop_bit 3 tag)
    [(1, readf (r_bytes L) (\<lambda>v. message\<lparr>EventSettleContract.provider := v\<rparr>)),
     (2, readf (num64l G (r_uint64 L)) (\<lambda>v. message\<lparr>EventSettleContract.contractId := v\<rparr>)),
     (3, readf (r_string L) (\<lambda>v. message\<lparr>EventSettleContract.service := v\<rparr>)),
     (4, readf (r_bytes L) (\<lambda>v. message\<lparr>EventSettleContract.client := v\<rparr>)),
     (5, readf (r_bytes L) (\<lambda>v. message\<lparr>EventSettleContract.delegate := v\<rparr>)),
     (6, readf (num32 (r_int32 L)) (\<lambda>v. message\<lparr>EventSettleContract.type' := v\<rparr>)),
     (7, readf (num64l G (r_int64 L)) (\<lambda>v. message\<lparr>EventSettleContract.nonce := v\<rparr>)),
     (8, readf (num64l G (r_int64 L)) (\<lambda>v. message\<lparr>EventSettleContract.height := v\<rparr>)),
     (9, readf (r_string L) (\<lambda>v. message\<lparr>EventSettleContract.paid := v\<rparr>)),
     (10, readf (r_string L) (\<lambda>v. message\<lparr>EventSettleContract.reserve := v\<rparr>))]
    (skipType L tag message)"

definition decode_tc_EventSettleContract :: "('w, 'r) wire \<Rightarrow> long_lib \<Rightarrow> 'r input \<Rightarrow> nat option \<Rightarrow> (EventSettleContract \<times> 'r) result" where
  "decode_tc_EventSettleContract L G = decode_msg L (tc_EventSettleContract_switch L G) createBase_tc_EventSettleContract"

definition fromJSON_tc_EventSettleContract :: "host \<Rightarrow> jsval \<Rightarrow> EventSettleContract result" where
  "fromJSON_tc_EventSettleContract h object =
     bindE (fieldE object ''provider'' (bytesFromBase64 h) []) (\<lambda>v_provider.
     bindE (fieldE object ''contractId'' (numberE h) (Num 0)) (\<lambda>v_contractId.
     bindE (fieldE object ''service'' (stringE h) []) (\<lambda>v_service.
     bindE (fieldE object ''client'' (bytesFromBase64 h) []) (\<lambda>v_client.
     bindE (fieldE object ''delegate'' (bytesFromBase64 h) []) (\<lambda>v_delegate.
     bindE (fieldE object ''type'' (enumE tc_contractTypeFromJSON) (Num 0)) (\<lambda>v_type.
     bindE (fieldE object ''nonce'' (numberE h) (Num 0)) (\<lambda>v_nonce.
     bindE (fieldE object ''height'' (numberE h) (Num 0)) (\<lambda>v_height.
     bindE (fieldE object ''paid'' (stringE h) []) (\<lambda>v_paid.
     bindE (fieldE object ''reserve'' (stringE h) []) (\<lambda>v_reserve.
     Inr \<lparr>EventSettleContract.provider = v_provider, EventSettleContract.contractId = v_contractId, EventSettleContract.service = v_service, EventSettleContract.client = v_client, EventSettleContract.delegate = v_delegate, EventSettleContract.type' = v_type, EventSettleContract.nonce = v_nonce, EventSettleContract.height = v_height, EventSettleContract.paid = v_paid, EventSettleContract.reserve = v_reserve\<rparr>))))))))))"

definition toJSON_tc_EventSettleContract :: "host \<Rightarrow> EventSettleContract \<Rightarrow> jsval result" where
  "toJSON_tc_EventSettleContract h message = objE
    [jfieldE True ''provider'' (base64E h (EventSettleContract.provider message)),
     jfieldE True ''contractId'' (Inr (JNumber (Math_round (EventSettleContract.contractId message)))),
     jfieldE True ''service'' (Inr (JString (EventSettleContract.service message))),
     jfieldE True ''client'' (base64E h (EventSettleContract.client message)),
     jfieldE True ''delegate'' (base64E h (EventSettleContract.delegate message)),
     jfieldE True ''type'' (Inr (JString (tc_contractTypeToJSON (EventSettleContract.type' message)))),
     jfieldE True ''nonce'' (Inr (JNumber (Math_round (EventSettleContract.nonce message)))),
     jfieldE True ''height'' (Inr (JNumber (Math_round (EventSettleContract.height message)))),
     jfieldE True ''paid'' (Inr (JString (EventSettleContract.paid message))),
     jfieldE True ''reserve'' (Inr (JString (EventSettleContract.reserve message)))]"

definition fromPartial_tc_EventSettleContract :: "EventSettleContract_Partial \<Rightarrow> EventSettleContract" where
  "fromPartial_tc_EventSettleContract object = createBase_tc_EventSettleContract\<lparr>EventSettleContract.provider := nullish (EventSettleContract_Partial.provider object) [],
     EventSettleContract.contractId := nullish (EventSettleContract_Partial.contractId object) (Num 0),
     EventSettleContract.service := nullish (EventSettleContract_Partial.service object) [],
     EventSettleContract.client := nullish (EventSettleContract_Partial.client object) [],
     EventSettleContract.delegate := nullish (EventSettleContract_Partial.delegate object) [],
     EventSettleContract.type' := nullish (EventSettleContract_Partial.type' object) (Num 0),
     EventSettleContract.nonce := nullish (EventSettleContract_Partial.nonce object) (Num 0),
     EventSettleContract.height := nullish (EventSettleContract_Partial.height object) (Num 0),
     EventSettleContract.paid := nullish (EventSettleContract_Partial.paid object) [],
     EventSettleContract.reserve := nullish (EventSettleContract_Partial.reserve object) []\<rparr>"

subsection \<open>EventCloseContract\<close>

definition createBase_tc_EventCloseContract :: EventCloseContract where
  "createBase_tc_EventCloseContract = \<lparr>EventCloseContract.contractId = Num 0,
     EventCloseContract.provider = [],
     EventCloseContract.service = [],
     EventCloseContract.client = [],
     EventCloseContract.delegate = []\<rparr>"

definition encode_tc_EventCloseContract :: "('w, 'r) wire \<Rightarrow> EventCloseContract \<Rightarrow> 'w \<Rightarrow> 'w result" where
  "encode_tc_EventCloseContract L message = seqE
    [whenE (EventCloseContract.contractId message \<noteq> Num 0) (seqE [w_uint32 L 8, w_uint64 L (EventCloseContract.contractId message)]),
     whenE (length (EventCloseContract.provider message) \<noteq> 0) (seqE [w_uint32 L 18, w_bytes L (EventCloseContract.provider message)]),
     whenE (EventCloseContract.service message \<noteq> []) (seqE [w_uint32 L 26, w_string L (EventCloseContract.service message)]),
     whenE (length (EventCloseContract.client message) \<noteq> 0) (seqE [w_uint32 L 34, w_bytes L (EventCloseContract.client message)]),
     whenE (length (EventCloseContract.delegate message) \<noteq> 0) (seqE [w_uint32 L 42, w_bytes L (EventCloseContract.delegate message)])]"

definition tc_EventCloseContract_switch :: "('w, 'r) wire \<Rightarrow> long_lib \<Rightarrow> u32 \<Rightarrow> EventCloseContract \<Rightarrow> (EventCloseContract, 'r) action" where
  "tc_EventCloseContract_switch L G tag message = js_switch (drop_bit 3 tag)
    [(1, readf (num64l G (r_uint64 L)) (\<lambda>v. message\<lparr>EventCloseContract.contractId := v\<rparr>)),
     (2, readf (r_bytes L) (\<lambda>v. message\<lparr>EventCloseContract.provider := v\<rparr>)),
     (3, readf (r_string L) (\<lambda>v. message\<lparr>EventCloseContract.service := v\<rparr>)),
     (4, readf (r_bytes L) (\<lambda>v. message\<lparr>EventCloseContract.client := v\<rparr>)),
     (5, readf (r_bytes L) (\<lambda>v. message\<lparr>EventCloseContract.delegate := v\<rparr>))]
    (skipType L tag message)"

definition decode_tc_EventCloseContract :: "('w, 'r) wire \<Rightarrow> long_lib \<Rightarrow> 'r input \<Rightarrow> nat option \<Rightarrow> (EventCloseContract \<times> 'r) result" where
  "decode_tc_EventCloseContract L G = decode_msg L (tc_EventCloseContract_switch L G) createBase_tc_EventCloseContract"

definition fromJSON_tc_EventCloseContract :: "host \<Rightarrow> jsval \<Rightarrow> EventCloseContract result" where
  "fromJSON_tc_EventCloseContract h object =
     bindE (fieldE object ''contractId'' (numberE h) (Num 0)) (\<lambda>v_contractId.
     bindE (fieldE object ''provider'' (bytesFromBase64 h) []) (\<lambda>v_provider.
     bindE (fieldE object ''service'' (stringE h) []) (\<lambda>v_service.
     bindE (fieldE object ''client'' (bytesFromBase64 h) []) (\<lambda>v_client.
     bindE (fieldE object ''delegate'' (bytesFromBase64 h) []) (\<lambda>v_delegate.
     Inr \<lparr>EventCloseContract.contractId = v_contractId, EventCloseContract.provider = v_provider, EventCloseContract.service = v_service, EventCloseContract.client = v_client, EventCloseContract.delegate = v_delegate\<rparr>)))))"

definition toJSON_tc_EventCloseContract :: "host \<Rightarrow> EventCloseContract \<Rightarrow> jsval result" where
  "toJSON_tc_EventCloseContract h message = objE
    [jfieldE True ''contractId'' (Inr (JNumber (Math_round (EventCloseContract.contractId message)))),
     jfieldE True ''provider'' (base64E h (EventCloseContract.provider message)),
     jfieldE True ''service'' (Inr (JString (EventCloseContract.service message))),
     jfieldE True ''client'' (base64E h (EventCloseContract.client message)),
     jfieldE True ''delegate'' (base64E h (EventCloseContract.delegate message))]"

definition fromPartial_tc_EventCloseContract :: "EventCloseContract_Partial \<Rightarrow> EventCloseContract" where
  "fromPartial_tc_EventCloseContract object = createBase_tc_EventCloseContract\<lparr>EventCloseContract.contractId := nullish (EventCloseContract_Partial.contractId object) (Num 0),
     EventCloseContract.provider := nullish (EventCloseContract_Partial.provider object) [],
     EventCloseContract.service := nullish (EventCloseContract_Partial.service object) [],
     EventCloseContract.client := nullish (EventCloseContract_Partial.client object) [],
     EventCloseContract.delegate := nullish (EventCloseContract_Partial.delegate object) []\<rparr>"

subsection \<open>EventValidatorPayout\<close>

definition createBase_tc_EventValidatorPayout :: EventValidatorPayout where
  "createBase_tc_EventValidatorPayout = \<lparr>EventValidatorPayout.validator = [],
     EventValidatorPayout.reward = []\<rparr>"

definition encode_tc_EventValidatorPayout :: "('w, 'r) wire \<Rightarrow> EventValidatorPayout \<Rightarrow> 'w \<Rightarrow> 'w result" where
  "encode_tc_EventValidatorPayout L message = seqE
    [whenE (length (EventValidatorPayout.validator message) \<noteq> 0) (seqE [w_uint32 L 10, w_bytes L (EventValidatorPayout.validator message)]),
     whenE (EventValidatorPayout.reward message \<noteq> []) (seqE [w_uint32 L 18, w_string L (EventValidatorPayout.reward message)])]"

definition tc_EventValidatorPayout_switch :: "('w, 'r) wire \<Rightarrow> long_lib \<Rightarrow> u32 \<Rightarrow> EventValidatorPayout \<Rightarrow> (EventValidatorPayout, 'r) action" where
  "tc_EventValidatorPayout_switch L G tag message = js_switch (drop_bit 3 tag)
    [(1, readf (r_bytes L) (\<lambda>v. message\<lparr>EventValidatorPayout.validator := v\<rparr>)),
     (2, readf (r_string L) (\<lambda>v. message\<lparr>EventValidatorPayout.reward := v\<rparr>))]
    (skipType L tag message)"

definition decode_tc_EventValidatorPayout :: "('w, 'r) wire \<Rightarrow> long_lib \<Rightarrow> 'r input \<Rightarrow> nat option \<Rightarrow> (EventValidatorPayout \<times> 'r) result" where
  "decode_tc_EventValidatorPayout L G = decode_msg L (tc_EventValidatorPayout_switch L G) createBase_tc_EventValidatorPayout"

definition fromJSON_tc_EventValidatorPayout :: "host \<Rightarrow> jsval \<Rightarrow> EventValidatorPayout result" where
  "fromJSON_tc_EventValidatorPayout h object =
     bindE (fieldE object ''validator'' (bytesFromBase64 h) []) (\<lambda>v_validator.
     bindE (fieldE object ''reward'' (stringE h) []) (\<lambda>v_reward.
     Inr \<lparr>EventValidatorPayout.validator = v_validator, EventValidatorPayout.reward = v_reward\<rparr>))"

definition toJSON_tc_EventValidatorPayout :: "host \<Rightarrow> EventValidatorPayout \<Rightarrow> jsval result" where
  "toJSON_tc_EventValidatorPayout h message = objE
    [jfieldE True ''validator'' (base64E h (EventValidatorPayout.validator message)),
     jfieldE True ''reward'' (Inr (JString (EventValidatorPayout.reward message)))]"

definition fromPartial_tc_EventValidatorPayout :: "EventValidatorPayout_Partial \<Rightarrow> EventValidatorPayout" where
  "fromPartial_tc_EventValidatorPayout object = createBase_tc_EventValidatorPayout\<lparr>EventValidatorPayout.validator := nullish (EventValidatorPayout_Partial.validator object) [],
     EventValidatorPayout.reward := nullish (EventValidatorPayout_Partial.reward object) []\<rparr>"


section \<open>Encoding, decoding and JSON of these messages\<close>

lemma tc_EventBondProvider_eqs:
  "createBase_tc_EventBondProvider = createBase_EventBondProvider"
  "encode_tc_EventBondProvider L = encode_EventBondProvider L"
  "fromJSON_tc_EventBondProvider h = fromJSON_EventBondProvider h"
  "fromPartial_tc_EventBondProvider = fromPartial_EventBondProvider"
  by (simp_all add: fun_eq_iff createBase_tc_EventBondProvider_def createBase_EventBondProvider_def
      encode_tc_EventBondProvider_def encode_EventBondProvider_def
      fromJSON_tc_EventBondProvider_def fromJSON_EventBondProvider_def
      fromPartial_tc_EventBondProvider_def fromPartial_EventBondProvider_def)

lemma tc_EventBondProvider_tags:
  "tc_EventBondProvider_switch L G 10 m = readf (r_bytes L) (\<lambda>v. m\<lparr>EventBondProvider.provider := v\<rparr>)"
  "tc_EventBondProvider_switch L G 18 m = readf (r_string L) (\<lambda>v. m\<lparr>EventBondProvider.service := v\<rparr>)"
  "tc_EventBondProvider_switch L G 26 m = readf (r_string L) (\<lambda>v. m\<lparr>EventBondProvider.bondRel := v\<rparr>)"
  "tc_EventBondProvider_switch L G 34 m = readf (r_string L) (\<lambda>v. m\<lparr>EventBondProvider.bondAbs := v\<rparr>)"
  by (simp_all add: tc_EventBondProvider_switch_def)

sublocale long_wire_laws \<subseteq> tc_EventBondProvider_codec: message_codec L F out inp "encode_EventBondProvider L" "tc_EventBondProvider_switch L G" createBase_EventBondProvider "wf_EventBondProvider L"
proof unfold_locales
  show good: "good_sw (tc_EventBondProvider_switch L G)"
    unfolding tc_EventBondProvider_switch_def by (intro good_swI fwd_rules)
  fix m assume "wf_EventBondProvider L m"
  then show "codes (tc_EventBondProvider_switch L G) (encode_EventBondProvider L m) createBase_EventBondProvider m"
    unfolding encode_EventBondProvider_def wf_EventBondProvider_def
    by (elim conjE)
      (rule codes_Cons codes_Nil [OF EventBondProvider.equality] codec_rules
        codes_when [where tag = 10 and u = EventBondProvider.provider_update and op = "r_bytes L", OF good]
        codes_when [where tag = 18 and u = EventBondProvider.service_update and op = "r_string L", OF good]
        codes_when [where tag = 26 and u = EventBondProvider.bondRel_update and op = "r_string L", OF good]
        codes_when [where tag = 34 and u = EventBondProvider.bondAbs_update and op = "r_string L", OF good]
      | assumption | (simp add: tc_EventBondProvider_tags createBase_EventBondProvider_def; fail))+
qed

context long_wire_laws
begin

lemmas tc_EventBondProvider_roundtrip = tc_EventBondProvider_codec.roundtrip [folded decode_tc_EventBondProvider_def [unfolded tc_EventBondProvider_eqs(1)]]

lemmas tc_EventBondProvider_returns = tc_EventBondProvider_codec.decode_returns [folded decode_tc_EventBondProvider_def [unfolded tc_EventBondProvider_eqs(1)]]

lemma tc_EventBondProvider_interop: "interoperates L inp (wf_EventBondProvider L) (encode_EventBondProvider L) (decode_EventBondProvider L) (encode_tc_EventBondProvider L) (decode_tc_EventBondProvider L G)"
  using EventBondProvider_roundtrip tc_EventBondProvider_roundtrip by (simp add: interoperates_def tc_EventBondProvider_eqs(2))

end

interpretation tc_EventBondProvider_json: message_json toJSON_tc_EventBondProvider fromJSON_tc_EventBondProvider wfj_EventBondProvider
proof unfold_locales
  fix h m
  assume "wfj_EventBondProvider m"
  then show "json_rt (toJSON_tc_EventBondProvider h) (fromJSON_tc_EventBondProvider h) m"
    unfolding toJSON_tc_EventBondProvider_def fromJSON_tc_EventBondProvider_def wfj_EventBondProvider_def
    by (-) (rule json_rtI json_rules | assumption | (simp; fail))+
qed

lemma tc_EventModProvider_eqs:
  "createBase_tc_EventModProvider = createBase_EventModProvider"
  "encode_tc_EventModProvider L = encode_EventModProvider L"
  "fromJSON_tc_EventModProvider h = fromJSON_EventModProvider h"
  "fromPartial_tc_EventModProvider = fromPartial_EventModProvider"
  by (simp_all add: fun_eq_iff createBase_tc_EventModProvider_def createBase_EventModProvider_def
      encode_tc_EventModProvider_def encode_EventModProvider_def
      fromJSON_tc_EventModProvider_def fromJSON_EventModProvider_def
      fromPartial_tc_EventModProvider_def fromPartial_EventModProvider_def tc_ProviderStatus_eqs tc_Coin_eqs)

lemma tc_EventModProvider_tags:
  "tc_EventModProvider_switch L G 10 m = readf (r_bytes L) (\<lambda>v. m\<lparr>EventModProvider.creator := v\<rparr>)"
  "tc_EventModProvider_switch L G 18 m = readf (r_bytes L) (\<lambda>v. m\<lparr>EventModProvider.provider := v\<rparr>)"
  "tc_EventModProvider_switch L G 26 m = readf (r_string L) (\<lambda>v. m\<lparr>EventModProvider.service := v\<rparr>)"
  "tc_EventModProvider_switch L G 34 m = readf (r_string L) (\<lambda>v. m\<lparr>EventModProvider.metadataUri := v\<rparr>)"
  "tc_EventModProvider_switch L G 40 m = readf (num64l G (r_uint64 L)) (\<lambda>v. m\<lparr>EventModProvider.metadataNonce := v\<rparr>)"
  "tc_EventModProvider_switch L G 48 m = readf (num32 (r_int32 L)) (\<lambda>v. m\<lparr>EventModProvider.status := v\<rparr>)"
  "tc_EventModProvider_switch L G 56 m = readf (num64l G (r_int64 L)) (\<lambda>v. m\<lparr>EventModProvider.minContractDuration := v\<rparr>)"
  "tc_EventModProvider_switch L G 64 m = readf (num64l G (r_int64 L)) (\<lambda>v. m\<lparr>EventModProvider.maxContractDuration := v\<rparr>)"
  "tc_EventModProvider_switch L G 74 m = readf (submsg L (decode_tc_Coin L G)) (\<lambda>v. m\<lparr>EventModProvider.subscriptionRate := EventModProvider.subscriptionRate m @ [v]\<rparr>)"
  "tc_EventModProvider_switch L G 82 m = readf (submsg L (decode_tc_Coin L G)) (\<lambda>v. m\<lparr>EventModProvider.payAsYouGoRate := EventModProvider.payAsYouGoRate m @ [v]\<rparr>)"
  "tc_EventModProvider_switch L G 90 m = readf (r_string L) (\<lambda>v. m\<lparr>EventModProvider.bond := v\<rparr>)"
  "tc_EventModProvider_switch L G 96 m = readf (num64l G (r_int64 L)) (\<lambda>v. m\<lparr>EventModProvider.settlementDuration := v\<rparr>)"
  by (simp_all add: tc_EventModProvider_switch_def)

sublocale long_wire_laws \<subseteq> tc_EventModProvider_codec: message_codec L F out inp "encode_EventModProvider L" "tc_EventModProvider_switch L G" createBase_EventModProvider "wf_EventModProvider L"
proof unfold_locales
  show good: "good_sw (tc_EventModProvider_switch L G)"
    unfolding tc_EventModProvider_switch_def by (intro good_swI fwd_rules)
  fix m assume "wf_EventModProvider L m"
  then show "codes (tc_EventModProvider_switch L G) (encode_EventModProvider L m) createBase_EventModProvider m"
    unfolding encode_EventModProvider_def wf_EventModProvider_def
    by (elim conjE)
      (rule codes_Cons codes_Nil [OF EventModProvider.equality] codec_rules
        codes_when [where tag = 10 and u = EventModProvider.creator_update and op = "r_bytes L", OF good]
        codes_when [where tag = 18 and u = EventModProvider.provider_update and op = "r_bytes L", OF good]
        codes_when [where tag = 26 and u = EventModProvider.service_update and op = "r_string L", OF good]
        codes_when [where tag = 34 and u = EventModProvider.metadataUri_update and op = "r_string L", OF good]
        codes_when [where tag = 40 and u = EventModProvider.metadataNonce_update and op = "num64l G (r_uint64 L)", OF good]
        codes_when [where tag = 48 and u = EventModProvider.status_update and op = "num32 (r_int32 L)", OF good]
        codes_when [where tag = 56 and u = EventModProvider.minContractDuration_update and op = "num64l G (r_int64 L)", OF good]
        codes_when [where tag = 64 and u = EventModProvider.maxContractDuration_update and op = "num64l G (r_int64 L)", OF good]
        codes_for [where tag = 74 and u = EventModProvider.subscriptionRate_update and op = "submsg L (decode_tc_Coin L G)", OF good]
        codes_for [where tag = 82 and u = EventModProvider.payAsYouGoRate_update and op = "submsg L (decode_tc_Coin L G)", OF good]
        codes_when [where tag = 90 and u = EventModProvider.bond_update and op = "r_string L", OF good]
        codes_when [where tag = 96 and u = EventModProvider.settlementDuration_update and op = "num64l G (r_int64 L)", OF good]
      | assumption | (simp add: tc_EventModProvider_tags createBase_EventModProvider_def; fail))+
qed

context long_wire_laws
begin

lemmas tc_EventModProvider_roundtrip = tc_EventModProvider_codec.roundtrip [folded decode_tc_EventModProvider_def [unfolded tc_EventModProvider_eqs(1)]]

lemmas tc_EventModProvider_returns = tc_EventModProvider_codec.decode_returns [folded decode_tc_EventModProvider_def [unfolded tc_EventModProvider_eqs(1)]]

lemma tc_EventModProvider_interop: "interoperates L inp (wf_EventModProvider L) (encode_EventModProvider L) (decode_EventModProvider L) (encode_tc_EventModProvider L) (decode_tc_EventModProvider L G)"
  using EventModProvider_roundtrip tc_EventModProvider_roundtrip by (simp add: interoperates_def tc_EventModProvider_eqs(2))

end

interpretation tc_EventModProvider_json: message_json toJSON_tc_EventModProvider fromJSON_tc_EventModProvider wfj_EventModProvider
proof unfold_locales
  fix h m
  assume "wfj_EventModProvider m"
  then show "json_rt (toJSON_tc_EventModProvider h) (fromJSON_tc_EventModProvider h) m"
    unfolding toJSON_tc_EventModProvider_def fromJSON_tc_EventModProvider_def wfj_EventModProvider_def
    by (elim conjE) (rule json_rtI json_rules | assumption | (simp; fail))+
qed

lemma fromPartial_partial_of_tc_EventOpenContract [simp]: "fromPartial_tc_EventOpenContract (partial_of_tc_EventOpenContract m) = m"
  by (simp add: fromPartial_tc_EventOpenContract_def partial_of_tc_EventOpenContract_def createBase_tc_EventOpenContract_def partial_map_def option.map_comp o_def option.map_ident tc_Coin_eqs)

lemma tc_EventOpenContract_tags:
  "tc_EventOpenContract_switch L G 10 m = readf (r_bytes L) (\<lambda>v. m\<lparr>tc_EventOpenContract.provider := v\<rparr>)"
  "tc_EventOpenContract_switch L G 16 m = readf (num64l G (r_uint64 L)) (\<lambda>v. m\<lparr>tc_EventOpenContract.contractId := v\<rparr>)"
  "tc_EventOpenContract_switch L G 26 m = readf (r_string L) (\<lambda>v. m\<lparr>tc_EventOpenContract.service := v\<rparr>)"
  "tc_EventOpenContract_switch L G 34 m = readf (r_bytes L) (\<lambda>v. m\<lparr>tc_EventOpenContract.client := v\<rparr>)"
  "tc_EventOpenContract_switch L G 42 m = readf (r_bytes L) (\<lambda>v. m\<lparr>tc_EventOpenContract.delegate := v\<rparr>)"
  "tc_EventOpenContract_switch L G 48 m = readf (num32 (r_int32 L)) (\<lambda>v. m\<lparr>tc_EventOpenContract.type' := v\<rparr>)"
  "tc_EventOpenContract_switch L G 56 m = readf (num64l G (r_int64 L)) (\<lambda>v. m\<lparr>tc_EventOpenContract.height := v\<rparr>)"
  "tc_EventOpenContract_switch L G 64 m = readf (num64l G (r_int64 L)) (\<lambda>v. m\<lparr>tc_EventOpenContract.duration := v\<rparr>)"
  "tc_EventOpenContract_switch L G 74 m = readf (submsg L (decode_tc_Coin L G)) (\<lambda>v. m\<lparr>tc_EventOpenContract.rate := Some v\<rparr>)"
  "tc_EventOpenContract_switch L G 80 m = readf (num64l G (r_int64 L)) (\<lambda>v. m\<lparr>tc_EventOpenContract.openCost := v\<rparr>)"
  "tc_EventOpenContract_switch L G 90 m = readf (r_string L) (\<lambda>v. m\<lparr>tc_EventOpenContract.deposit := v\<rparr>)"
  "tc_EventOpenContract_switch L G 96 m = readf (num64l G (r_int64 L)) (\<lambda>v. m\<lparr>tc_EventOpenContract.settlementDuration := v\<rparr>)"
  "tc_EventOpenContract_switch L G 104 m = readf (num32 (r_int32 L)) (\<lambda>v. m\<lparr>tc_EventOpenContract.authorization := v\<rparr>)"
  "tc_EventOpenContract_switch L G 112 m = readf (num64l G (r_int64 L)) (\<lambda>v. m\<lparr>tc_EventOpenContract.queriesPerMinute := v\<rparr>)"
  by (simp_all add: tc_EventOpenContract_switch_def)

sublocale long_wire_laws \<subseteq> tc_EventOpenContract_codec: message_codec L F out inp "encode_tc_EventOpenContract L" "tc_EventOpenContract_switch L G" createBase_tc_EventOpenContract "wf_tc_EventOpenContract L"
proof unfold_locales
  show good: "good_sw (tc_EventOpenContract_switch L G)"
    unfolding tc_EventOpenContract_switch_def by (intro good_swI fwd_rules)
  fix m assume "wf_tc_EventOpenContract L m"
  then show "codes (tc_EventOpenContract_switch L G) (encode_tc_EventOpenContract L m) createBase_tc_EventOpenContract m"
    unfolding encode_tc_EventOpenContract_def wf_tc_EventOpenContract_def tc_Coin_eqs(2)
    by (elim conjE)
      (rule codes_Cons codes_Nil [OF tc_EventOpenContract.equality] codec_rules
        codes_when [where tag = 10 and u = tc_EventOpenContract.provider_update and op = "r_bytes L", OF good]
        codes_when [where tag = 16 and u = tc_EventOpenContract.contractId_update and op = "num64l G (r_uint64 L)", OF good]
        codes_when [where tag = 26 and u = tc_EventOpenContract.service_update and op = "r_string L", OF good]
        codes_when [where tag = 34 and u = tc_EventOpenContract.client_update and op = "r_bytes L", OF good]
        codes_when [where tag = 42 and u = tc_EventOpenContract.delegate_update and op = "r_bytes L", OF good]
        codes_when [where tag = 48 and u = tc_EventOpenContract.type'_update and op = "num32 (r_int32 L)", OF good]
        codes_when [where tag = 56 and u = tc_EventOpenContract.height_update and op = "num64l G (r_int64 L)", OF good]
        codes_when [where tag = 64 and u = tc_EventOpenContract.duration_update and op = "num64l G (r_int64 L)", OF good]
        codes_some [where tag = 74 and u = tc_EventOpenContract.rate_update and op = "submsg L (decode_tc_Coin L G)", OF good]
        codes_when [where tag = 80 and u = tc_EventOpenContract.openCost_update and op = "num64l G (r_int64 L)", OF good]
        codes_when [where tag = 90 and u = tc_EventOpenContract.deposit_update and op = "r_string L", OF good]
        codes_when [where tag = 96 and u = tc_EventOpenContract.settlementDuration_update and op = "num64l G (r_int64 L)", OF good]
        codes_when [where tag = 104 and u = tc_EventOpenContract.authorization_update and op = "num32 (r_int32 L)", OF good]
        codes_when [where tag = 112 and u = tc_EventOpenContract.queriesPerMinute_update and op = "num64l G (r_int64 L)", OF good]
      | assumption | (simp add: tc_EventOpenContract_tags createBase_tc_EventOpenContract_def; fail))+
qed

context long_wire_laws
begin

lemmas tc_EventOpenContract_roundtrip = tc_EventOpenContract_codec.roundtrip [folded decode_tc_EventOpenContract_def]

lemmas tc_EventOpenContract_returns = tc_EventOpenContract_codec.decode_returns [folded decode_tc_EventOpenContract_def]

end

interpretation tc_EventOpenContract_json: message_json toJSON_tc_EventOpenContract fromJSON_tc_EventOpenContract wfj_tc_EventOpenContract
proof unfold_locales
  fix h m
  assume "wfj_tc_EventOpenContract m"
  then show "json_rt (toJSON_tc_EventOpenContract h) (fromJSON_tc_EventOpenContract h) m"
    unfolding toJSON_tc_EventOpenContract_def fromJSON_tc_EventOpenContract_def wfj_tc_EventOpenContract_def
    by (elim conjE) (rule json_rtI json_rules | assumption | (simp; fail))+
qed

lemma tc_EventSettleContract_eqs:
  "createBase_tc_EventSettleContract = createBase_EventSettleContract"
  "encode_tc_EventSettleContract L = encode_EventSettleContract L"
  "fromJSON_tc_EventSettleContract h = fromJSON_EventSettleContract h"
  "fromPartial_tc_EventSettleContract = fromPartial_EventSettleContract"
  by (simp_all add: fun_eq_iff createBase_tc_EventSettleContract_def createBase_EventSettleContract_def
      encode_tc_EventSettleContract_def encode_EventSettleContract_def
      fromJSON_tc_EventSettleContract_def fromJSON_EventSettleContract_def
      fromPartial_tc_EventSettleContract_def fromPartial_EventSettleContract_def tc_ContractType_eqs)

lemma tc_EventSettleContract_tags:
  "tc_EventSettleContract_switch L G 10 m = readf (r_bytes L) (\<lambda>v. m\<lparr>EventSettleContract.provider := v\<rparr>)"
  "tc_EventSettleContract_switch L G 16 m = readf (num64l G (r_uint64 L)) (\<lambda>v. m\<lparr>EventSettleContract.contractId := v\<rparr>)"
  "tc_EventSettleContract_switch L G 26 m = readf (r_string L) (\<lambda>v. m\<lparr>EventSettleContract.service := v\<rparr>)"
  "tc_EventSettleContract_switch L G 34 m = readf (r_bytes L) (\<lambda>v. m\<lparr>EventSettleContract.client := v\<rparr>)"
  "tc_EventSettleContract_switch L G 42 m = readf (r_bytes L) (\<lambda>v. m\<lparr>EventSettleContract.delegate := v\<rparr>)"
  "tc_EventSettleContract_switch L G 48 m = readf (num32 (r_int32 L)) (\<lambda>v. m\<lparr>EventSettleContract.type' := v\<rparr>)"
  "tc_EventSettleContract_switch L G 56 m = readf (num64l G (r_int64 L)) (\<lambda>v. m\<lparr>EventSettleContract.nonce := v\<rparr>)"
  "tc_EventSettleContract_switch L G 64 m = readf (num64l G (r_int64 L)) (\<lambda>v. m\<lparr>EventSettleContract.height := v\<rparr>)"
  "tc_EventSettleContract_switch L G 74 m = readf (r_string L) (\<lambda>v. m\<lparr>EventSettleContract.paid := v\<rparr>)"
  "tc_EventSettleContract_switch L G 82 m = readf (r_string L) (\<lambda>v. m\<lparr>EventSettleContract.reserve := v\<rparr>)"
  by (simp_all add: tc_EventSettleContract_switch_def)

sublocale long_wire_laws \<subseteq> tc_EventSettleContract_codec: message_codec L F out inp "encode_EventSettleContract L" "tc_EventSettleContract_switch L G" createBase_EventSettleContract "wf_EventSettleContract L"
proof unfold_locales
  show good: "good_sw (tc_EventSettleContract_switch L G)"
    unfolding tc_EventSettleContract_switch_def by (intro good_swI fwd_rules)
  fix m assume "wf_EventSettleContract L m"
  then show "codes (tc_EventSettleContract_switch L G) (encode_EventSettleContract L m) createBase_EventSettleContract m"
    unfolding encode_EventSettleContract_def wf_EventSettleContract_def
    by (elim conjE)
      (rule codes_Cons codes_Nil [OF EventSettleContract.equality] codec_rules
        codes_when [where tag = 10 and u = EventSettleContract.provider_update and op = "r_bytes L", OF good]
        codes_when [where tag = 16 and u = EventSettleContract.contractId_update and op = "num64l G (r_uint64 L)", OF good]
        codes_when [where tag = 26 and u = EventSettleContract.service_update and op = "r_string L", OF good]
        codes_when [where tag = 34 and u = EventSettleContract.client_update and op = "r_bytes L", OF good]
        codes_when [where tag = 42 and u = EventSettleContract.delegate_update and op = "r_bytes L", OF good]
        codes_when [where tag = 48 and u = EventSettleContract.type'_update and op = "num32 (r_int32 L)", OF good]
        codes_when [where tag = 56 and u = EventSettleContract.nonce_update and op = "num64l G (r_int64 L)", OF good]
        codes_when [where tag = 64 and u = EventSettleContract.height_update and op = "num64l G (r_int64 L)", OF good]
        codes_when [where tag = 74 and u = EventSettleContract.paid_update and op = "r_string L", OF good]
        codes_when [where tag = 82 and u = EventSettleContract.reserve_update and op = "r_string L", OF good]
      | assumption | (simp add: tc_EventSettleContract_tags createBase_EventSettleContract_def; fail))+
qed

context long_wire_laws
begin

lemmas tc_EventSettleContract_roundtrip = tc_EventSettleContract_codec.roundtrip [folded decode_tc_EventSettleContract_def [unfolded tc_EventSettleContract_eqs(1)]]

lemmas tc_EventSettleContract_returns = tc_EventSettleContract_codec.decode_returns [folded decode_tc_EventSettleContract_def [unfolded tc_EventSettleContract_eqs(1)]]

lemma tc_EventSettleContract_interop: "interoperates L inp (wf_EventSettleContract L) (encode_EventSettleContract L) (decode_EventSettleContract L) (encode_tc_EventSettleContract L) (decode_tc_EventSettleContract L G)"
  using EventSettleContract_roundtrip tc_EventSettleContract_roundtrip by (simp add: interoperates_def tc_EventSettleContract_eqs(2))

end

interpretation tc_EventSettleContract_json: message_json toJSON_tc_EventSettleContract fromJSON_tc_EventSettleContract wfj_EventSettleContract
proof unfold_locales
  fix h m
  assume "wfj_EventSettleContract m"
  then show "json_rt (toJSON_tc_EventSettleContract h) (fromJSON_tc_EventSettleContract h) m"
    unfolding toJSON_tc_EventSettleContract_def fromJSON_tc_EventSettleContract_def wfj_EventSettleContract_def
    by (elim conjE) (rule json_rtI json_rules | assumption | (simp; fail))+
qed

lemma tc_EventCloseContract_eqs:
  "createBase_tc_EventCloseContract = createBase_EventCloseContract"
  "encode_tc_EventCloseContract L = encode_EventCloseContract L"
  "fromJSON_tc_EventCloseContract h = fromJSON_EventCloseContract h"
  "fromPartial_tc_EventCloseContract = fromPartial_EventCloseContract"
  by (simp_all add: fun_eq_iff createBase_tc_EventCloseContract_def createBase_EventCloseContract_def
      encode_tc_EventCloseContract_def encode_EventCloseContract_def
      fromJSON_tc_EventCloseContract_def fromJSON_EventCloseContract_def
      fromPartial_tc_EventCloseContract_def fromPartial_EventCloseContract_def)

lemma tc_EventCloseContract_tags:
  "tc_EventCloseContract_switch L G 8 m = readf (num64l G (r_uint64 L)) (\<lambda>v. m\<lparr>EventCloseContract.contractId := v\<rparr>)"
  "tc_EventCloseContract_switch L G 18 m = readf (r_bytes L) (\<lambda>v. m\<lparr>EventCloseContract.provider := v\<rparr>)"
  "tc_EventCloseContract_switch L G 26 m = readf (r_string L) (\<lambda>v. m\<lparr>EventCloseContract.service := v\<rparr>)"
  "tc_EventCloseContract_switch L G 34 m = readf (r_bytes L) (\<lambda>v. m\<lparr>EventCloseContract.client := v\<rparr>)"
  "tc_EventCloseContract_switch L G 42 m = readf (r_bytes L) (\<lambda>v. m\<lparr>EventCloseContract.delegate := v\<rparr>)"
  by (simp_all add: tc_EventCloseContract_switch_def)

sublocale long_wire_laws \<subseteq> tc_EventCloseContract_codec: message_codec L F out inp "encode_EventCloseContract L" "tc_EventCloseContract_switch L G" createBase_EventCloseContract "wf_EventCloseContract L"
proof unfold_locales
  show good: "good_sw (tc_EventCloseContract_switch L G)"
    unfolding tc_EventCloseContract_switch_def by (intro good_swI fwd_rules)
  fix m assume "wf_EventCloseContract L m"
  then show "codes (tc_EventCloseContract_switch L G) (encode_EventCloseContract L m) createBase_EventCloseContract m"
    unfolding encode_EventCloseContract_def wf_EventCloseContract_def
    by (elim conjE)
      (rule codes_Cons codes_Nil [OF EventCloseContract.equality] codec_rules
        codes_when [where tag = 8 and u = EventCloseContract.contractId_update and op = "num64l G (r_uint64 L)", OF good]
        codes_when [where tag = 18 and u = EventCloseContract.provider_update and op = "r_bytes L", OF good]
        codes_when [where tag = 26 and u = EventCloseContract.service_update and op = "r_string L", OF good]
        codes_when [where tag = 34 and u = EventCloseContract.client_update and op = "r_bytes L", OF good]
        codes_when [where tag = 42 and u = EventCloseContract.delegate_update and op = "r_bytes L", OF good]
      | assumption | (simp add: tc_EventCloseContract_tags createBase_EventCloseContract_def; fail))+
qed

context long_wire_laws
begin

lemmas tc_EventCloseContract_roundtrip = tc_EventCloseContract_codec.roundtrip [folded decode_tc_EventCloseContract_def [unfolded tc_EventCloseContract_eqs(1)]]

lemmas tc_EventCloseContract_returns = tc_EventCloseContract_codec.decode_returns [folded decode_tc_EventCloseContract_def [unfolded tc_EventCloseContract_eqs(1)]]

lemma tc_EventCloseContract_interop: "interoperates L inp (wf_EventCloseContract L) (encode_EventCloseContract L) (decode_EventCloseContract L) (encode_tc_EventCloseContract L) (decode_tc_EventCloseContract L G)"
  using EventCloseContract_roundtrip tc_EventCloseContract_roundtrip by (simp add: interoperates_def tc_EventCloseContract_eqs(2))

end

interpretation tc_EventCloseContract_json: message_json toJSON_tc_EventCloseContract fromJSON_tc_EventCloseContract wfj_EventCloseContract
proof unfold_locales
  fix h m
  assume "wfj_EventCloseContract m"
  then show "json_rt (toJSON_tc_EventCloseContract h) (fromJSON_tc_EventCloseContract h) m"
    unfolding toJSON_tc_EventCloseContract_def fromJSON_tc_EventCloseContract_def wfj_EventCloseContract_def
    by (-) (rule json_rtI json_rules | assumption | (simp; fail))+
qed

lemma tc_EventValidatorPayout_eqs:
  "createBase_tc_EventValidatorPayout = createBase_EventValidatorPayout"
  "encode_tc_EventValidatorPayout L = encode_EventValidatorPayout L"
  "fromJSON_tc_EventValidatorPayout h = fromJSON_EventValidatorPayout h"
  "fromPartial_tc_EventValidatorPayout = fromPartial_EventValidatorPayout"
  by (simp_all add: fun_eq_iff createBase_tc_EventValidatorPayout_def createBase_EventValidatorPayout_def
      encode_tc_EventValidatorPayout_def encode_EventValidatorPayout_def
      fromJSON_tc_EventValidatorPayout_def fromJSON_EventValidatorPayout_def
      fromPartial_tc_EventValidatorPayout_def fromPartial_EventValidatorPayout_def)

lemma tc_EventValidatorPayout_tags:
  "tc_EventValidatorPayout_switch L G 10 m = readf (r_bytes L) (\<lambda>v. m\<lparr>EventValidatorPayout.validator := v\<rparr>)"
  "tc_EventValidatorPayout_switch L G 18 m = readf (r_string L) (\<lambda>v. m\<lparr>EventValidatorPayout.reward := v\<rparr>)"
  by (simp_all add: tc_EventValidatorPayout_switch_def)

sublocale long_wire_laws \<subseteq> tc_EventValidatorPayout_codec: message_codec L F out inp "encode_EventValidatorPayout L" "tc_EventValidatorPayout_switch L G" createBase_EventValidatorPayout "wf_EventValidatorPayout L"
proof unfold_locales
  show good: "good_sw (tc_EventValidatorPayout_switch L G)"
    unfolding tc_EventValidatorPayout_switch_def by (intro good_swI fwd_rules)
  fix m assume "wf_EventValidatorPayout L m"
  then show "codes (tc_EventValidatorPayout_switch L G) (encode_EventValidatorPayout L m) createBase_EventValidatorPayout m"
    unfolding encode_EventValidatorPayout_def wf_EventValidatorPayout_def
    by (elim conjE)
      (rule codes_Cons codes_Nil [OF EventValidatorPayout.equality] codec_rules
        codes_when [where tag = 10 and u = EventValidatorPayout.validator_update and op = "r_bytes L", OF good]
        codes_when [where tag = 18 and u = EventValidatorPayout.reward_update and op = "r_string L", OF good]
      | assumption | (simp add: tc_EventValidatorPayout_tags createBase_EventValidatorPayout_def; fail))+
qed

context long_wire_laws
begin

lemmas tc_EventValidatorPayout_roundtrip = tc_EventValidatorPayout_codec.roundtrip [folded decode_tc_EventValidatorPayout_def [unfolded tc_EventValidatorPayout_eqs(1)]]

lemmas tc_EventValidatorPayout_returns = tc_EventValidatorPayout_codec.decode_returns [folded decode_tc_EventValidatorPayout_def [unfolded tc_EventValidatorPayout_eqs(1)]]

lemma tc_EventValidatorPayout_interop: "interoperates L inp (wf_EventValidatorPayout L) (encode_EventValidatorPayout L) (decode_EventValidatorPayout L) (encode_tc_EventValidatorPayout L) (decode_tc_EventValidatorPayout L G)"
  using EventValidatorPayout_roundtrip tc_EventValidatorPayout_roundtrip by (simp add: interoperates_def tc_EventValidatorPayout_eqs(2))

end

interpretation tc_EventValidatorPayout_json: message_json toJSON_tc_EventValidatorPayout fromJSON_tc_EventValidatorPayout wfj_EventValidatorPayout
proof unfold_locales
  fix h m
  assume "wfj_EventValidatorPayout m"
  then show "json_rt (toJSON_tc_EventValidatorPayout h) (fromJSON_tc_EventValidatorPayout h) m"
    unfolding toJSON_tc_EventValidatorPayout_def fromJSON_tc_EventValidatorPayout_def wfj_EventValidatorPayout_def
    by (-) (rule json_rtI json_rules | assumption | (simp; fail))+
qed

lemmas TcEvents_eqs =
  tc_EventBondProvider_eqs(3,4) tc_EventModProvider_eqs(3,4) tc_EventSettleContract_eqs(3,4) tc_EventCloseContract_eqs(3,4) tc_EventValidatorPayout_eqs(3,4)

context long_wire_laws
begin

lemmas TcEvents_interop =
  tc_EventBondProvider_interop tc_EventModProvider_interop tc_EventSettleContract_interop tc_EventCloseContract_interop tc_EventValidatorPayout_interop

end

end
