(* ===== verification/TsClient.thy ===== *)
theory TsClient
  imports Registries TcEvents TcState
begin

text \<open>
  The client class of \<open>ts-client\<close>: \<open>client.ts\<close>, the class \<open>SDKModule\<close> of the modules and the client of \<open>index.ts\<close>.
  A module object is a cell of the client's heap, because the listener it registers holds the same object as the
  property the client gets. \<open>emit\<close> calls the listeners in the order of registration, before it returns.

  The last sections are the concurrency of the program: calls of the client and of its modules, changes of
  the signer and answers of the packages interleave at every \<open>await\<close>. \<open>step\<close> is one such action, \<open>reachable\<close> the
  configurations a client can get into.
\<close>

section \<open>State\<close>

record Env =
  apiURL :: jsstring
  rpcURL :: jsstring
  prefix :: "jsstring option"

text \<open>What \<open>typeof\<close> tells of the value of a field, and the fields of a type as \<open>getStructure\<close> lists them.\<close>

datatype js_kind = Undefined | Number | String | Boolean | Object

record Field =
  field_name :: string
  field_type :: string

type_synonym structures = "(string \<times> Field list) list"

text \<open>
  The query client of a module has no state but the address it is made for: \<open>query\<close> is that address, and the
  function \<open>queryClient\<close> of the theory \<open>RestClient\<close> makes the client.
\<close>

record 'g SDKModule =
  query :: jsstring
  tx :: "'g TxClientOptions"
  structure_of :: structures
  registry :: registry

text \<open>A plugin: the property it adds, its message types and the structure of its types.\<close>

record plugin =
  key :: string
  msg_types :: registry
  template :: structures

record 'g IgniteClient =
  env :: Env
  signer :: "'g option"
  registry :: registry
  heap :: "'g SDKModule list"
  props :: "string \<rightharpoonup> nat"
  listeners :: "(string \<times> nat) list"

record IgniteClient_class =
  plugins :: "plugin list"


section \<open>Modules and events\<close>

fun js_typeof :: "js_kind \<Rightarrow> string" where
  "js_typeof Undefined = ''undefined''"
| "js_typeof Number = ''number''"
| "js_typeof String = ''string''"
| "js_typeof Boolean = ''boolean''"
| "js_typeof Object = ''object''"

text \<open>\<open>for (let [key, value] of Object.entries(template)) structure.fields.push({ name: key, type: typeof value })\<close>\<close>

definition getStructure :: "(string \<times> js_kind) list \<Rightarrow> Field list" where
  "getStructure entries = map (\<lambda>(k, v). \<lparr>field_name = k, field_type = js_typeof v\<rparr>) entries"

text \<open>\<open>txClient({ signer: client.signer, addr: client.env.rpcURL, prefix: client.env.prefix ?? "cosmos" })\<close>\<close>

definition tx_options :: "'g IgniteClient \<Rightarrow> 'g TxClientOptions" where
  "tx_options cl =
     \<lparr>TxClientOptions.addr = rpcURL (env cl),
      TxClientOptions.prefix = nullish (Env.prefix (env cl)) (js ''cosmos''),
      TxClientOptions.signer = IgniteClient.signer cl\<rparr>"

definition updateTX :: "nat \<Rightarrow> 'g IgniteClient \<Rightarrow> 'g IgniteClient" where
  "updateTX i cl = cl\<lparr>heap := (heap cl)[i := (heap cl ! i)\<lparr>tx := tx_options cl\<rparr>]\<rparr>"

definition on :: "string \<Rightarrow> nat \<Rightarrow> 'g IgniteClient \<Rightarrow> 'g IgniteClient" where
  "on ev i cl = cl\<lparr>listeners := listeners cl @ [(ev, i)]\<rparr>"

definition emit :: "string \<Rightarrow> 'g IgniteClient \<Rightarrow> 'g IgniteClient" where
  "emit ev cl = fold (\<lambda>(e, i) c. if e = ev then updateTX i c else c) (listeners cl) cl"

text \<open>The constructor of \<open>SDKModule\<close>: the new object is the last cell of the heap.\<close>

definition new_SDKModule :: "plugin \<Rightarrow> 'g IgniteClient \<Rightarrow> 'g IgniteClient" where
  "new_SDKModule pl cl =
     on ''signer-changed'' (length (heap cl))
       (cl\<lparr>heap := heap cl @ [\<lparr>SDKModule.query = apiURL (env cl), SDKModule.tx = tx_options cl,
          SDKModule.structure_of = template pl, SDKModule.registry = []\<rparr>]\<rparr>)"


section \<open>client.ts\<close>

definition plugin_static :: "IgniteClient_class \<Rightarrow> plugin list \<Rightarrow> IgniteClient_class" where
  "plugin_static this ps = \<lparr>plugins = plugins this @ ps\<rparr>"

text \<open>One iteration of the constructor over the plugins.\<close>

definition install :: "plugin \<Rightarrow> 'g IgniteClient \<Rightarrow> 'g IgniteClient" where
  "install pl cl =
     (let i = length (heap cl); cl' = new_SDKModule pl cl
      in cl'\<lparr>props := (props cl')(key pl \<mapsto> i), registry := IgniteClient.registry cl' @ msg_types pl\<rparr>)"

definition new_IgniteClient :: "IgniteClient_class \<Rightarrow> Env \<Rightarrow> 'g option \<Rightarrow> 'g IgniteClient" where
  "new_IgniteClient cls e sg =
     fold install (plugins cls)
       \<lparr>IgniteClient.env = e, IgniteClient.signer = sg, IgniteClient.registry = [], IgniteClient.heap = [],
        IgniteClient.props = Map.empty, IgniteClient.listeners = []\<rparr>"

definition useSigner :: "'g \<Rightarrow> 'g IgniteClient \<Rightarrow> 'g IgniteClient" where
  "useSigner g cl = emit ''signer-changed'' (cl\<lparr>signer := Some g\<rparr>)"

definition removeSigner :: "'g IgniteClient \<Rightarrow> 'g IgniteClient" where
  "removeSigner cl = emit ''signer-changed'' (cl\<lparr>signer := None\<rparr>)"

text \<open>
  The signer, the registry and the environment are read again after the first \<open>await\<close>, from the client as it is then.
\<close>

definition signAndBroadcast :: "'g IgniteClient \<Rightarrow> EncodeObject list \<Rightarrow> StdFee option \<Rightarrow> jsstring
    \<Rightarrow> ('g, 'c, 'd, 'g IgniteClient) async" where
  "signAndBroadcast this msgs fee memo =
     (case IgniteClient.signer this of
        None \<Rightarrow> Done (Inl (Error '' Signer is not present.''))
      | Some g \<Rightarrow>
          GetAccounts g (\<lambda>this'. awaitE (\<lambda>accounts. awaitE (\<lambda>a.
            ConnectWithSigner (rpcURL (env this')) (IgniteClient.signer this') (IgniteClient.registry this')
                (Env.prefix (env this')) (\<lambda>_. awaitE (\<lambda>signingClient.
              SignAndBroadcast signingClient a msgs (nullish fee defaultFee) (Some memo) (\<lambda>_. Done))))
            (first_address accounts))))"


section \<open>useKeplr\<close>

record Currency =
  coinDenom :: jsstring
  coinMinimalDenom :: jsstring
  coinDecimals :: number

record Bech32Config =
  bech32PrefixAccAddr :: jsstring
  bech32PrefixAccPub :: jsstring
  bech32PrefixValAddr :: jsstring
  bech32PrefixValPub :: jsstring
  bech32PrefixConsAddr :: jsstring
  bech32PrefixConsPub :: jsstring

record ChainInfo =
  chainId :: jsstring
  chainName :: jsstring
  rpcUrl :: jsstring
  restUrl :: jsstring
  stakeCurrency :: Currency
  bip44 :: number
  bech32Config :: Bech32Config
  currencies :: "Currency list"
  feeCurrencies :: "Currency list"
  coinType :: number

text \<open>
  What \<open>useKeplr\<close> does, as a tree: the calls it awaits (three imports, three queries of the chain, the suggestion of the
  chain to the wallet and the permission of the wallet), each with the rest of the method as a function of the
  answer, and what it does without waiting (setting the options of the wallet, asking it for the signer,
  setting the signer of the client). A query answers with the one property of its answer that is read,
  \<^const>\<open>None\<close> where it is missing.
\<close>

datatype 'g keplr_async =
    KDone "unit result"
  | Import string "unit result \<Rightarrow> 'g keplr_async"
  | ServiceGetNodeInfo jsstring "jsstring option result \<Rightarrow> 'g keplr_async"
  | QueryStakingParams jsstring "jsstring option result \<Rightarrow> 'g keplr_async"
  | QueryTotalSupply jsstring "jsstring option list option result \<Rightarrow> 'g keplr_async"
  | ExperimentalSuggestChain ChainInfo "unit result \<Rightarrow> 'g keplr_async"
  | SetDefaultOptions "'g keplr_async"
  | Enable jsstring "unit result \<Rightarrow> 'g keplr_async"
  | GetOfflineSigner jsstring "'g result \<Rightarrow> 'g keplr_async"
  | SetSigner 'g "'g keplr_async"

datatype keplr_call =
    EvImport string
  | EvNodeInfo jsstring
  | EvStakingParams jsstring
  | EvTotalSupply jsstring
  | EvSuggestChain ChainInfo
  | EvDefaultOptions
  | EvEnable jsstring
  | EvOfflineSigner jsstring

definition awaitK :: "('a \<Rightarrow> 'g keplr_async) \<Rightarrow> 'a result \<Rightarrow> 'g keplr_async" where
  "awaitK k r = (case r of Inl e \<Rightarrow> KDone (Inl e) | Inr x \<Rightarrow> k x)"

text \<open>\<open>try { ... } catch (e) { throw handler(e) }\<close>\<close>

primrec catchK :: "(js_error \<Rightarrow> js_error) \<Rightarrow> 'g keplr_async \<Rightarrow> 'g keplr_async" where
  "catchK h (KDone x) = KDone (case x of Inl e \<Rightarrow> Inl (h e) | Inr d \<Rightarrow> Inr d)"
| "catchK h (Import p k) = Import p (\<lambda>r. catchK h (k r))"
| "catchK h (ServiceGetNodeInfo u k) = ServiceGetNodeInfo u (\<lambda>r. catchK h (k r))"
| "catchK h (QueryStakingParams u k) = QueryStakingParams u (\<lambda>r. catchK h (k r))"
| "catchK h (QueryTotalSupply u k) = QueryTotalSupply u (\<lambda>r. catchK h (k r))"
| "catchK h (ExperimentalSuggestChain i k) = ExperimentalSuggestChain i (\<lambda>r. catchK h (k r))"
| "catchK h (SetDefaultOptions t) = SetDefaultOptions (catchK h t)"
| "catchK h (Enable c k) = Enable c (\<lambda>r. catchK h (k r))"
| "catchK h (GetOfflineSigner c k) = GetOfflineSigner c (\<lambda>r. catchK h (k r))"
| "catchK h (SetSigner g t) = SetSigner g (catchK h t)"

text \<open>\<open>{ coinDenom: x.denom?.toUpperCase() ?? "", coinMinimalDenom: x.denom ?? "", coinDecimals: 0 }\<close>\<close>

definition currency :: "(jsstring \<Rightarrow> jsstring) \<Rightarrow> jsstring option \<Rightarrow> Currency" where
  "currency upper d =
     \<lparr>coinDenom = nullish (map_option upper d) [], coinMinimalDenom = nullish d [], coinDecimals = Num 0\<rparr>"

definition bech32_config :: "jsstring \<Rightarrow> Bech32Config" where
  "bech32_config p =
     \<lparr>bech32PrefixAccAddr = p, bech32PrefixAccPub = p @ js ''pub'',
      bech32PrefixValAddr = p @ js ''valoper'', bech32PrefixValPub = p @ js ''valoperpub'',
      bech32PrefixConsAddr = p @ js ''valcons'', bech32PrefixConsPub = p @ js ''valconspub''\<rparr>"

text \<open>\<open>suggestOptions\<close>; the spread of the argument at its end is the function \<open>override\<close>.\<close>

definition suggest_options :: "(jsstring \<Rightarrow> jsstring) \<Rightarrow> (ChainInfo \<Rightarrow> ChainInfo) \<Rightarrow> Env \<Rightarrow> jsstring
    \<Rightarrow> jsstring option \<Rightarrow> jsstring option list option \<Rightarrow> ChainInfo" where
  "suggest_options upper override e network denom_opt supply =
     override
       \<lparr>chainId = network, chainName = upper network @ js '' Network'', rpcUrl = rpcURL e, restUrl = apiURL e,
        stakeCurrency = currency upper denom_opt, bip44 = Num 118,
        bech32Config = bech32_config (nullish (Env.prefix e) (js ''cosmos'')),
        currencies = nullish (map_option (map (currency upper)) supply) [],
        feeCurrencies = nullish (map_option (map (currency upper)) supply) [],
        coinType = Num 118\<rparr>"

text \<open>
  The method. The three \<open>await (await x).data\<close> wait for the query and then for a value that is already there.
  \<open>upper\<close> is \<open>toUpperCase\<close>.
\<close>

definition keplr_error :: js_error where
  "keplr_error = Error ''Could not load tendermint, staking and bank modules. Please ensure your client loads them to use useKeplr()''"

definition useKeplr :: "(jsstring \<Rightarrow> jsstring) \<Rightarrow> (ChainInfo \<Rightarrow> ChainInfo) \<Rightarrow> Env \<Rightarrow> 'g keplr_async" where
  "useKeplr upper override e =
     catchK (\<lambda>_. keplr_error)
       (Import ''./cosmos.base.tendermint.v1beta1/module'' (awaitK (\<lambda>_.
        Import ''./cosmos.staking.v1beta1/module'' (awaitK (\<lambda>_.
        Import ''./cosmos.bank.v1beta1/module'' (awaitK (\<lambda>_.
        ServiceGetNodeInfo (apiURL e) (awaitK (\<lambda>network. let chain = nullish network [] in
        QueryStakingParams (apiURL e) (awaitK (\<lambda>denom_opt.
        QueryTotalSupply (apiURL e) (awaitK (\<lambda>supply.
          let finish = Enable chain (awaitK (\<lambda>_.
                GetOfflineSigner chain (awaitK (\<lambda>g. SetSigner g (KDone (Inr ()))))))
          in if chain \<noteq> []
             then ExperimentalSuggestChain (suggest_options upper override e chain denom_opt supply)
                    (awaitK (\<lambda>_. SetDefaultOptions finish))
             else finish)))))))))))))"

text \<open>\<open>this.signer = ...; this.emit("signer-changed", this.signer)\<close>\<close>

definition keplr_setSigner :: "'g \<Rightarrow> 'g IgniteClient \<Rightarrow> 'g IgniteClient" where
  "keplr_setSigner g cl = emit ''signer-changed'' (cl\<lparr>signer := Some g\<rparr>)"

text \<open>The modules, the chain and the wallet, with their state in \<open>'s\<close>.\<close>

record ('g, 's) keplr =
  import_module :: "string \<Rightarrow> 's \<Rightarrow> unit result \<times> 's"
  serviceGetNodeInfo :: "jsstring \<Rightarrow> 's \<Rightarrow> jsstring option result \<times> 's"
  queryStakingParams :: "jsstring \<Rightarrow> 's \<Rightarrow> jsstring option result \<times> 's"
  queryTotalSupply :: "jsstring \<Rightarrow> 's \<Rightarrow> jsstring option list option result \<times> 's"
  experimentalSuggestChain :: "ChainInfo \<Rightarrow> 's \<Rightarrow> unit result \<times> 's"
  set_defaultOptions :: "'s \<Rightarrow> 's"
  enable :: "jsstring \<Rightarrow> 's \<Rightarrow> unit result \<times> 's"
  getOfflineSigner :: "jsstring \<Rightarrow> 's \<Rightarrow> 'g result \<times> 's"

text \<open>Execution with no other code in between: the result, the client, the calls made and the state of the others.\<close>

definition logged :: "keplr_call \<Rightarrow> 'x \<times> 'cl \<times> keplr_call list \<times> 's \<Rightarrow> 'x \<times> 'cl \<times> keplr_call list \<times> 's" where
  "logged ev y = (case y of (x, cl, l, s) \<Rightarrow> (x, cl, ev # l, s))"

primrec run_keplr :: "('g, 's) keplr \<Rightarrow> 'g keplr_async \<Rightarrow> 'g IgniteClient \<Rightarrow> 's
    \<Rightarrow> unit result \<times> 'g IgniteClient \<times> keplr_call list \<times> 's" where
  "run_keplr K (KDone x) cl s = (x, cl, [], s)"
| "run_keplr K (Import p k) cl s =
     (case import_module K p s of (r, s') \<Rightarrow> logged (EvImport p) (run_keplr K (k r) cl s'))"
| "run_keplr K (ServiceGetNodeInfo u k) cl s =
     (case serviceGetNodeInfo K u s of (r, s') \<Rightarrow> logged (EvNodeInfo u) (run_keplr K (k r) cl s'))"
| "run_keplr K (QueryStakingParams u k) cl s =
     (case queryStakingParams K u s of (r, s') \<Rightarrow> logged (EvStakingParams u) (run_keplr K (k r) cl s'))"
| "run_keplr K (QueryTotalSupply u k) cl s =
     (case queryTotalSupply K u s of (r, s') \<Rightarrow> logged (EvTotalSupply u) (run_keplr K (k r) cl s'))"
| "run_keplr K (ExperimentalSuggestChain i k) cl s =
     (case experimentalSuggestChain K i s of (r, s') \<Rightarrow> logged (EvSuggestChain i) (run_keplr K (k r) cl s'))"
| "run_keplr K (SetDefaultOptions t) cl s = logged EvDefaultOptions (run_keplr K t cl (set_defaultOptions K s))"
| "run_keplr K (Enable c k) cl s =
     (case enable K c s of (r, s') \<Rightarrow> logged (EvEnable c) (run_keplr K (k r) cl s'))"
| "run_keplr K (GetOfflineSigner c k) cl s =
     (case getOfflineSigner K c s of (r, s') \<Rightarrow> logged (EvOfflineSigner c) (run_keplr K (k r) cl s'))"
| "run_keplr K (SetSigner g t) cl s = run_keplr K t (keplr_setSigner g cl) s"

text \<open>
  Execution among other code: between two awaits a method runs to the next one, on the client as it is then, with
  whatever the wallet answers to \<open>getOfflineSigner\<close>.
\<close>

primrec proceed :: "(jsstring \<Rightarrow> 'g result) \<Rightarrow> 'g keplr_async \<Rightarrow> 'g IgniteClient \<Rightarrow> 'g keplr_async \<times> 'g IgniteClient" where
  "proceed w (KDone x) cl = (KDone x, cl)"
| "proceed w (Import p k) cl = (Import p k, cl)"
| "proceed w (ServiceGetNodeInfo u k) cl = (ServiceGetNodeInfo u k, cl)"
| "proceed w (QueryStakingParams u k) cl = (QueryStakingParams u k, cl)"
| "proceed w (QueryTotalSupply u k) cl = (QueryTotalSupply u k, cl)"
| "proceed w (ExperimentalSuggestChain i k) cl = (ExperimentalSuggestChain i k, cl)"
| "proceed w (SetDefaultOptions t) cl = proceed w t cl"
| "proceed w (Enable c k) cl = (Enable c k, cl)"
| "proceed w (GetOfflineSigner c k) cl = proceed w (k (w c)) cl"
| "proceed w (SetSigner g t) cl = proceed w t (keplr_setSigner g cl)"



section \<open>The structures of the modules\<close>

text \<open>\<open>Object.entries\<close> of a message, each value by its \<open>typeof\<close>.\<close>

definition kind_opt :: "'a option \<Rightarrow> js_kind" where
  "kind_opt v = (case v of None \<Rightarrow> Undefined | Some _ \<Rightarrow> Object)"

definition entries_tc_EventBondProvider :: "EventBondProvider \<Rightarrow> (string \<times> js_kind) list" where
  "entries_tc_EventBondProvider m =
    [(''provider'', Object),
     (''service'', String),
     (''bondRel'', String),
     (''bondAbs'', String)]"

definition entries_tc_EventModProvider :: "EventModProvider \<Rightarrow> (string \<times> js_kind) list" where
  "entries_tc_EventModProvider m =
    [(''creator'', Object),
     (''provider'', Object),
     (''service'', String),
     (''metadataUri'', String),
     (''metadataNonce'', Number),
     (''status'', Number),
     (''minContractDuration'', Number),
     (''maxContractDuration'', Number),
     (''subscriptionRate'', Object),
     (''payAsYouGoRate'', Object),
     (''bond'', String),
     (''settlementDuration'', Number)]"

definition entries_tc_EventOpenContract :: "tc_EventOpenContract \<Rightarrow> (string \<times> js_kind) list" where
  "entries_tc_EventOpenContract m =
    [(''provider'', Object),
     (''contractId'', Number),
     (''service'', String),
     (''client'', Object),
     (''delegate'', Object),
     (''type'', Number),
     (''height'', Number),
     (''duration'', Number),
     (''rate'', kind_opt (tc_EventOpenContract.rate m)),
     (''openCost'', Number),
     (''deposit'', String),
     (''settlementDuration'', Number),
     (''authorization'', Number),
     (''queriesPerMinute'', Number)]"

definition entries_tc_EventSettleContract :: "EventSettleContract \<Rightarrow> (string \<times> js_kind) list" where
  "entries_tc_EventSettleContract m =
    [(''provider'', Object),
     (''contractId'', Number),
     (''service'', String),
     (''client'', Object),
     (''delegate'', Object),
     (''type'', Number),
     (''nonce'', Number),
     (''height'', Number),
     (''paid'', String),
     (''reserve'', String)]"

definition entries_tc_EventCloseContract :: "EventCloseContract \<Rightarrow> (string \<times> js_kind) list" where
  "entries_tc_EventCloseContract m =
    [(''contractId'', Number),
     (''provider'', Object),
     (''service'', String),
     (''client'', Object),
     (''delegate'', Object)]"

definition entries_tc_EventValidatorPayout :: "EventValidatorPayout \<Rightarrow> (string \<times> js_kind) list" where
  "entries_tc_EventValidatorPayout m =
    [(''validator'', Object),
     (''reward'', String)]"

definition entries_tc_Provider :: "Provider \<Rightarrow> (string \<times> js_kind) list" where
  "entries_tc_Provider m =
    [(''pubKey'', Object),
     (''service'', Number),
     (''metadataUri'', String),
     (''metadataNonce'', Number),
     (''status'', Number),
     (''minContractDuration'', Number),
     (''maxContractDuration'', Number),
     (''subscriptionRate'', Object),
     (''payAsYouGoRate'', Object),
     (''bond'', String),
     (''lastUpdate'', Number),
     (''settlementDuration'', Number)]"

definition entries_tc_Contract :: "Contract \<Rightarrow> (string \<times> js_kind) list" where
  "entries_tc_Contract m =
    [(''provider'', Object),
     (''service'', Number),
     (''client'', Object),
     (''delegate'', Object),
     (''type'', Number),
     (''height'', Number),
     (''duration'', Number),
     (''rate'', kind_opt (Contract.rate m)),
     (''deposit'', String),
     (''paid'', String),
     (''nonce'', Number),
     (''settlementHeight'', Number),
     (''id'', Number),
     (''settlementDuration'', Number),
     (''authorization'', Number),
     (''queriesPerMinute'', Number)]"

definition entries_tc_ContractSet :: "ContractSet \<Rightarrow> (string \<times> js_kind) list" where
  "entries_tc_ContractSet m =
    [(''contractIds'', Object)]"

definition entries_tc_ContractExpirationSet :: "ContractExpirationSet \<Rightarrow> (string \<times> js_kind) list" where
  "entries_tc_ContractExpirationSet m =
    [(''height'', Number),
     (''contractSet'', kind_opt (ContractExpirationSet.contractSet m))]"

definition entries_tc_UserContractSet :: "UserContractSet \<Rightarrow> (string \<times> js_kind) list" where
  "entries_tc_UserContractSet m =
    [(''user'', Object),
     (''contractSet'', kind_opt (UserContractSet.contractSet m))]"

definition entries_tc_ProtoInt64 :: "ProtoInt64 \<Rightarrow> (string \<times> js_kind) list" where
  "entries_tc_ProtoInt64 m =
    [(''value'', Number)]"

definition entries_tc_ProtoUint64 :: "ProtoUint64 \<Rightarrow> (string \<times> js_kind) list" where
  "entries_tc_ProtoUint64 m =
    [(''value'', Number)]"

definition entries_tc_ProtoAccAddresses :: "ProtoAccAddresses \<Rightarrow> (string \<times> js_kind) list" where
  "entries_tc_ProtoAccAddresses m =
    [(''value'', Object)]"

definition entries_tc_ProtoStrings :: "ProtoStrings \<Rightarrow> (string \<times> js_kind) list" where
  "entries_tc_ProtoStrings m =
    [(''value'', Object)]"

definition entries_tc_ProtoBools :: "ProtoBools \<Rightarrow> (string \<times> js_kind) list" where
  "entries_tc_ProtoBools m =
    [(''value'', Object)]"

definition entries_tc_Params :: "tc_Params \<Rightarrow> (string \<times> js_kind) list" where
  "entries_tc_Params m =
    []"

definition ArkeoArkeo_structure :: structures where
  "ArkeoArkeo_structure =
    [(''EventBondProvider'', getStructure (entries_tc_EventBondProvider (fromPartial_tc_EventBondProvider \<lparr>EventBondProvider_Partial.provider = None, EventBondProvider_Partial.service = None, EventBondProvider_Partial.bondRel = None, EventBondProvider_Partial.bondAbs = None\<rparr>))),
     (''EventModProvider'', getStructure (entries_tc_EventModProvider (fromPartial_tc_EventModProvider \<lparr>EventModProvider_Partial.creator = None, EventModProvider_Partial.provider = None, EventModProvider_Partial.service = None, EventModProvider_Partial.metadataUri = None, EventModProvider_Partial.metadataNonce = None, EventModProvider_Partial.status = None, EventModProvider_Partial.minContractDuration = None, EventModProvider_Partial.maxContractDuration = None, EventModProvider_Partial.subscriptionRate = None, EventModProvider_Partial.payAsYouGoRate = None, EventModProvider_Partial.bond = None, EventModProvider_Partial.settlementDuration = None\<rparr>))),
     (''EventOpenContract'', getStructure (entries_tc_EventOpenContract (fromPartial_tc_EventOpenContract \<lparr>tc_EventOpenContract_Partial.provider = None, tc_EventOpenContract_Partial.contractId = None, tc_EventOpenContract_Partial.service = None, tc_EventOpenContract_Partial.client = None, tc_EventOpenContract_Partial.delegate = None, tc_EventOpenContract_Partial.type' = None, tc_EventOpenContract_Partial.height = None, tc_EventOpenContract_Partial.duration = None, tc_EventOpenContract_Partial.rate = None, tc_EventOpenContract_Partial.openCost = None, tc_EventOpenContract_Partial.deposit = None, tc_EventOpenContract_Partial.settlementDuration = None, tc_EventOpenContract_Partial.authorization = None, tc_EventOpenContract_Partial.queriesPerMinute = None\<rparr>))),
     (''EventSettleContract'', getStructure (entries_tc_EventSettleContract (fromPartial_tc_EventSettleContract \<lparr>EventSettleContract_Partial.provider = None, EventSettleContract_Partial.contractId = None, EventSettleContract_Partial.service = None, EventSettleContract_Partial.client = None, EventSettleContract_Partial.delegate = None, EventSettleContract_Partial.type' = None, EventSettleContract_Partial.nonce = None, EventSettleContract_Partial.height = None, EventSettleContract_Partial.paid = None, EventSettleContract_Partial.reserve = None\<rparr>))),
     (''EventCloseContract'', getStructure (entries_tc_EventCloseContract (fromPartial_tc_EventCloseContract \<lparr>EventCloseContract_Partial.contractId = None, EventCloseContract_Partial.provider = None, EventCloseContract_Partial.service = None, EventCloseContract_Partial.client = None, EventCloseContract_Partial.delegate = None\<rparr>))),
     (''EventValidatorPayout'', getStructure (entries_tc_EventValidatorPayout (fromPartial_tc_EventValidatorPayout \<lparr>EventValidatorPayout_Partial.validator = None, EventValidatorPayout_Partial.reward = None\<rparr>))),
     (''Provider'', getStructure (entries_tc_Provider (fromPartial_tc_Provider \<lparr>Provider_Partial.pubKey = None, Provider_Partial.service = None, Provider_Partial.metadataUri = None, Provider_Partial.metadataNonce = None, Provider_Partial.status = None, Provider_Partial.minContractDuration = None, Provider_Partial.maxContractDuration = None, Provider_Partial.subscriptionRate = None, Provider_Partial.payAsYouGoRate = None, Provider_Partial.bond = None, Provider_Partial.lastUpdate = None, Provider_Partial.settlementDuration = None\<rparr>))),
     (''Contract'', getStructure (entries_tc_Contract (fromPartial_tc_Contract \<lparr>Contract_Partial.provider = None, Contract_Partial.service = None, Contract_Partial.client = None, Contract_Partial.delegate = None, Contract_Partial.type' = None, Contract_Partial.height = None, Contract_Partial.duration = None, Contract_Partial.rate = None, Contract_Partial.deposit = None, Contract_Partial.paid = None, Contract_Partial.nonce = None, Contract_Partial.settlementHeight = None, Contract_Partial.id' = None, Contract_Partial.settlementDuration = None, Contract_Partial.authorization = None, Contract_Partial.queriesPerMinute = None\<rparr>))),
     (''ContractSet'', getStructure (entries_tc_ContractSet (fromPartial_tc_ContractSet \<lparr>ContractSet_Partial.contractIds = None\<rparr>))),
     (''ContractExpirationSet'', getStructure (entries_tc_ContractExpirationSet (fromPartial_tc_ContractExpirationSet \<lparr>ContractExpirationSet_Partial.height = None, ContractExpirationSet_Partial.contractSet = None\<rparr>))),
     (''UserContractSet'', getStructure (entries_tc_UserContractSet (fromPartial_tc_UserContractSet \<lparr>UserContractSet_Partial.user = None, UserContractSet_Partial.contractSet = None\<rparr>))),
     (''ProtoInt64'', getStructure (entries_tc_ProtoInt64 (fromPartial_tc_ProtoInt64 \<lparr>ProtoInt64_Partial.value' = None\<rparr>))),
     (''ProtoUint64'', getStructure (entries_tc_ProtoUint64 (fromPartial_tc_ProtoUint64 \<lparr>ProtoUint64_Partial.value' = None\<rparr>))),
     (''ProtoAccAddresses'', getStructure (entries_tc_ProtoAccAddresses (fromPartial_tc_ProtoAccAddresses \<lparr>ProtoAccAddresses_Partial.value' = None\<rparr>))),
     (''ProtoStrings'', getStructure (entries_tc_ProtoStrings (fromPartial_tc_ProtoStrings \<lparr>ProtoStrings_Partial.value' = None\<rparr>))),
     (''ProtoBools'', getStructure (entries_tc_ProtoBools (fromPartial_tc_ProtoBools \<lparr>ProtoBools_Partial.value' = None\<rparr>))),
     (''Params'', getStructure (entries_tc_Params (fromPartial_tc_Params tc_Params)))]"

definition ArkeoArkeo :: plugin where
  "ArkeoArkeo = \<lparr>key = ''ArkeoArkeo'', msg_types = msgTypes, template = ArkeoArkeo_structure\<rparr>"

definition entries_tc_ClaimRecord :: "ClaimRecord \<Rightarrow> (string \<times> js_kind) list" where
  "entries_tc_ClaimRecord m =
    [(''chain'', Number),
     (''address'', String),
     (''amountClaim'', kind_opt (ClaimRecord.amountClaim m)),
     (''amountVote'', kind_opt (ClaimRecord.amountVote m)),
     (''amountDelegate'', kind_opt (ClaimRecord.amountDelegate m)),
     (''isTransferable'', Boolean)]"

definition entries_tc_claim_Params :: "claim_Params \<Rightarrow> (string \<times> js_kind) list" where
  "entries_tc_claim_Params m =
    [(''airdropStartTime'', kind_opt (claim_Params.airdropStartTime m)),
     (''durationUntilDecay'', kind_opt (claim_Params.durationUntilDecay m)),
     (''durationOfDecay'', kind_opt (claim_Params.durationOfDecay m)),
     (''claimDenom'', String),
     (''initialGasAmount'', kind_opt (claim_Params.initialGasAmount m))]"

definition ArkeoClaim_structure :: structures where
  "ArkeoClaim_structure =
    [(''ClaimRecord'', getStructure (entries_tc_ClaimRecord (fromPartial_tc_ClaimRecord \<lparr>ClaimRecord_Partial.chain = None, ClaimRecord_Partial.address = None, ClaimRecord_Partial.amountClaim = None, ClaimRecord_Partial.amountVote = None, ClaimRecord_Partial.amountDelegate = None, ClaimRecord_Partial.isTransferable = None\<rparr>))),
     (''Params'', getStructure (entries_tc_claim_Params (fromPartial_tc_claim_Params \<lparr>claim_Params_Partial.airdropStartTime = None, claim_Params_Partial.durationUntilDecay = None, claim_Params_Partial.durationOfDecay = None, claim_Params_Partial.claimDenom = None, claim_Params_Partial.initialGasAmount = None\<rparr>)))]"

definition ArkeoClaim :: plugin where
  "ArkeoClaim = \<lparr>key = ''ArkeoClaim'', msg_types = claim_msgTypes, template = ArkeoClaim_structure\<rparr>"


section \<open>index.ts\<close>

text \<open>
  The plugins of all the modules. The structures of the types of the Cosmos and IBC modules are the argument.
\<close>

definition other_plugin :: "(string \<Rightarrow> structures) \<Rightarrow> string \<Rightarrow> registry \<Rightarrow> plugin" where
  "other_plugin S k reg = \<lparr>key = k, msg_types = reg, template = S k\<rparr>"

definition Client :: "(string \<Rightarrow> structures) \<Rightarrow> IgniteClient_class" where
  "Client S = plugin_static \<lparr>plugins = []\<rparr>
    [ArkeoArkeo,
     ArkeoClaim,
     other_plugin S ''CosmosAuthV1Beta1'' auth_msgTypes,
     other_plugin S ''CosmosAuthzV1Beta1'' authz_msgTypes,
     other_plugin S ''CosmosBankV1Beta1'' bank_msgTypes,
     other_plugin S ''CosmosBaseTendermintV1Beta1'' tendermint_msgTypes,
     other_plugin S ''CosmosCrisisV1Beta1'' crisis_msgTypes,
     other_plugin S ''CosmosDistributionV1Beta1'' distribution_msgTypes,
     other_plugin S ''CosmosEvidenceV1Beta1'' evidence_msgTypes,
     other_plugin S ''CosmosFeegrantV1Beta1'' feegrant_msgTypes,
     other_plugin S ''CosmosGovV1'' gov_v1_msgTypes,
     other_plugin S ''CosmosGovV1Beta1'' gov_msgTypes,
     other_plugin S ''CosmosGroupV1'' group_msgTypes,
     other_plugin S ''CosmosMintV1Beta1'' mint_msgTypes,
     other_plugin S ''CosmosNftV1Beta1'' nft_msgTypes,
     other_plugin S ''CosmosParamsV1Beta1'' params_msgTypes,
     other_plugin S ''CosmosSlashingV1Beta1'' slashing_msgTypes,
     other_plugin S ''CosmosStakingV1Beta1'' staking_msgTypes,
     other_plugin S ''CosmosTxV1Beta1'' tx_msgTypes,
     other_plugin S ''CosmosUpgradeV1Beta1'' upgrade_msgTypes,
     other_plugin S ''CosmosVestingV1Beta1'' vesting_msgTypes,
     other_plugin S ''IbcApplicationsInterchainAccountsControllerV1'' ibc_controller_msgTypes,
     other_plugin S ''IbcApplicationsInterchainAccountsHostV1'' ibc_host_msgTypes,
     other_plugin S ''IbcApplicationsTransferV1'' ibc_transfer_msgTypes,
     other_plugin S ''IbcCoreChannelV1'' ibc_channel_msgTypes,
     other_plugin S ''IbcCoreClientV1'' ibc_client_msgTypes,
     other_plugin S ''IbcCoreConnectionV1'' ibc_connection_msgTypes]"

definition index_registry :: registry where
  "index_registry =
    msgTypes @ claim_msgTypes @ auth_msgTypes @ authz_msgTypes @
    bank_msgTypes @ tendermint_msgTypes @ crisis_msgTypes @ distribution_msgTypes @
    evidence_msgTypes @ feegrant_msgTypes @ gov_v1_msgTypes @ gov_msgTypes @
    group_msgTypes @ mint_msgTypes @ nft_msgTypes @ params_msgTypes @
    slashing_msgTypes @ staking_msgTypes @ tx_msgTypes @ upgrade_msgTypes @
    vesting_msgTypes @ ibc_controller_msgTypes @ ibc_host_msgTypes @ ibc_transfer_msgTypes @
    ibc_channel_msgTypes @ ibc_client_msgTypes @ ibc_connection_msgTypes"


section \<open>The signer of the modules\<close>

definition synced :: "'g IgniteClient \<Rightarrow> bool" where
  "synced cl \<longleftrightarrow> (\<forall>m \<in> set (heap cl). tx m = tx_options cl)"

definition listening :: "'g IgniteClient \<Rightarrow> bool" where
  "listening cl \<longleftrightarrow> listeners cl = map (Pair ''signer-changed'') [0..<length (heap cl)]"

lemma updateTX_select [simp]:
  "env (updateTX i cl) = env cl" "IgniteClient.signer (updateTX i cl) = IgniteClient.signer cl"
  "IgniteClient.registry (updateTX i cl) = IgniteClient.registry cl" "listeners (updateTX i cl) = listeners cl"
  "props (updateTX i cl) = props cl" "length (heap (updateTX i cl)) = length (heap cl)"
  "tx_options (updateTX i cl) = tx_options cl"
  by (simp_all add: updateTX_def tx_options_def)

abbreviation call_listeners :: "string \<Rightarrow> (string \<times> nat) list \<Rightarrow> 'g IgniteClient \<Rightarrow> 'g IgniteClient" where
  "call_listeners ev \<equiv> fold (\<lambda>(e, i) c. if e = ev then updateTX i c else c)"

lemma call_listeners_select [simp]:
  "env (call_listeners ev ls cl) = env cl" "IgniteClient.signer (call_listeners ev ls cl) = IgniteClient.signer cl"
  "IgniteClient.registry (call_listeners ev ls cl) = IgniteClient.registry cl"
  "listeners (call_listeners ev ls cl) = listeners cl" "props (call_listeners ev ls cl) = props cl"
  "length (heap (call_listeners ev ls cl)) = length (heap cl)" "tx_options (call_listeners ev ls cl) = tx_options cl"
  by (induction ls arbitrary: cl) auto

text \<open>Calling the listeners of some modules updates those modules and no other.\<close>

lemma call_listeners_heap:
  "j < length (heap cl) \<Longrightarrow> heap (call_listeners ev ls cl) ! j =
     (if (ev, j) \<in> set ls then (heap cl ! j)\<lparr>tx := tx_options cl\<rparr> else heap cl ! j)"
proof (induction ls arbitrary: cl)
  case (Cons l ls)
  obtain e i where l: "l = (e, i)" by (cases l)
  have "heap (updateTX i cl) ! j = (if i = j then (heap cl ! j)\<lparr>tx := tx_options cl\<rparr> else heap cl ! j)"
    using Cons.prems by (simp add: updateTX_def)
  then show ?case using Cons.prems Cons.IH [of "updateTX i cl"] Cons.IH [of cl] by (auto simp: l)
qed simp

lemmas emit_select [simp] = call_listeners_select [of ev "listeners cl" cl for ev cl, folded emit_def]

lemma emit_synced: "listening cl \<Longrightarrow> synced (emit ''signer-changed'' cl) \<and> listening (emit ''signer-changed'' cl)"
  by (auto simp: synced_def listening_def in_set_conv_nth emit_def call_listeners_heap)

lemma useSigner_inv: "listening cl \<Longrightarrow> synced (useSigner g cl) \<and> listening (useSigner g cl)"
  unfolding useSigner_def by (rule emit_synced) (simp add: listening_def)

lemma removeSigner_inv: "listening cl \<Longrightarrow> synced (removeSigner cl) \<and> listening (removeSigner cl)"
  unfolding removeSigner_def by (rule emit_synced) (simp add: listening_def)

lemma keplr_setSigner_inv: "listening cl \<Longrightarrow> synced (keplr_setSigner g cl) \<and> listening (keplr_setSigner g cl)"
  unfolding keplr_setSigner_def by (rule emit_synced) (simp add: listening_def)

text \<open>The address of the query clients.\<close>

definition queries_api :: "'g IgniteClient \<Rightarrow> bool" where
  "queries_api cl \<longleftrightarrow> (\<forall>m \<in> set (heap cl). query m = apiURL (env cl))"

lemma emit_queries_api [simp]: "queries_api (emit ev cl) = queries_api cl"
proof -
  have "query (heap (emit ev cl) ! j) = query (heap cl ! j)" if "j < length (heap cl)" for j
    using that by (simp add: emit_def call_listeners_heap)
  then show ?thesis by (simp add: queries_api_def all_set_conv_all_nth)
qed

lemma signer_update_queries_api [simp]: "queries_api (cl\<lparr>signer := x\<rparr>) = queries_api cl"
  by (simp add: queries_api_def)

lemma install_queries_api: "queries_api cl \<Longrightarrow> queries_api (install pl cl)"
  by (auto simp: queries_api_def install_def new_SDKModule_def on_def Let_def)

lemma new_IgniteClient_queries_api: "queries_api (new_IgniteClient cls e sg)"
proof -
  have "queries_api (fold install ps cl)" if "queries_api cl" for ps and cl :: "'a IgniteClient"
    using that by (induction ps arbitrary: cl) (simp_all add: install_queries_api)
  then show ?thesis by (simp add: new_IgniteClient_def queries_api_def [of "\<lparr>env = _, signer = _, registry = _, heap = [], props = _, listeners = _\<rparr>"])
qed

text \<open>What every method of the client keeps.\<close>

definition client_inv :: "'g IgniteClient \<Rightarrow> bool" where
  "client_inv cl \<longleftrightarrow> synced cl \<and> listening cl \<and> queries_api cl"

lemma proceed_inv: "client_inv cl \<Longrightarrow> client_inv (snd (proceed w t cl))"
proof (induction t arbitrary: cl)
  case (SetSigner g t)
  then have "client_inv (keplr_setSigner g cl)"
    using keplr_setSigner_inv [of cl g] by (simp add: client_inv_def) (simp add: keplr_setSigner_def)
  then show ?case using SetSigner.IH by simp
qed auto

lemma proceed_select:
  "env (snd (proceed w t cl)) = env cl \<and> IgniteClient.registry (snd (proceed w t cl)) = IgniteClient.registry cl"
  by (induction t arbitrary: cl) (auto simp: keplr_setSigner_def)

lemma install_select [simp]:
  "env (install pl cl) = env cl" "IgniteClient.signer (install pl cl) = IgniteClient.signer cl"
  "IgniteClient.registry (install pl cl) = IgniteClient.registry cl @ msg_types pl"
  "length (heap (install pl cl)) = Suc (length (heap cl))" "tx_options (install pl cl) = tx_options cl"
  by (simp_all add: install_def new_SDKModule_def on_def Let_def tx_options_def)

lemma install_inv: "synced cl \<and> listening cl \<Longrightarrow> synced (install pl cl) \<and> listening (install pl cl)"
  by (auto simp: synced_def listening_def install_def new_SDKModule_def on_def Let_def tx_options_def)

lemma fold_install:
  assumes "synced cl" and "listening cl"
  shows "synced (fold install ps cl) \<and> listening (fold install ps cl)
    \<and> env (fold install ps cl) = env cl \<and> IgniteClient.signer (fold install ps cl) = IgniteClient.signer cl
    \<and> IgniteClient.registry (fold install ps cl) = IgniteClient.registry cl @ concat (map msg_types ps)
    \<and> length (heap (fold install ps cl)) = length (heap cl) + length ps"
  using assms
proof (induction ps arbitrary: cl)
  case (Cons pl ps)
  then show ?case using Cons.IH [of "install pl cl"] install_inv [of cl pl] by simp
qed simp

lemma new_IgniteClient_inv:
  "synced (new_IgniteClient cls e sg)" "listening (new_IgniteClient cls e sg)"
  "env (new_IgniteClient cls e sg) = e" "IgniteClient.signer (new_IgniteClient cls e sg) = sg"
  "IgniteClient.registry (new_IgniteClient cls e sg) = concat (map msg_types (plugins cls))"
  "length (heap (new_IgniteClient cls e sg)) = length (plugins cls)"
proof -
  let ?c = "\<lparr>IgniteClient.env = e, IgniteClient.signer = sg, IgniteClient.registry = [], IgniteClient.heap = [],
        IgniteClient.props = Map.empty, IgniteClient.listeners = []\<rparr>"
  have "synced ?c" "listening ?c" by (simp_all add: synced_def listening_def)
  from fold_install [OF this, of "plugins cls"]
  show "synced (new_IgniteClient cls e sg)" "listening (new_IgniteClient cls e sg)"
    "env (new_IgniteClient cls e sg) = e" "IgniteClient.signer (new_IgniteClient cls e sg) = sg"
    "IgniteClient.registry (new_IgniteClient cls e sg) = concat (map msg_types (plugins cls))"
    "length (heap (new_IgniteClient cls e sg)) = length (plugins cls)"
    by (simp_all add: new_IgniteClient_def)
qed

lemma Client_registry: "concat (map msg_types (plugins (Client S))) = index_registry"
  by (simp add: Client_def plugin_static_def other_plugin_def ArkeoArkeo_def ArkeoClaim_def index_registry_def)

text \<open>No type URL is registered twice, so an entry of a module is the only one for its URL.\<close>

definition index_urls :: "string list" where
  "index_urls =
    [''/arkeo.arkeo.MsgBondProvider'',
     ''/arkeo.arkeo.MsgSetVersion'',
     ''/arkeo.arkeo.MsgClaimContractIncome'',
     ''/arkeo.arkeo.MsgModProvider'',
     ''/arkeo.arkeo.MsgOpenContract'',
     ''/arkeo.arkeo.MsgCloseContract'',
     ''/arkeo.claim.MsgTransferClaim'',
     ''/arkeo.claim.MsgAddClaim'',
     ''/arkeo.claim.MsgClaimArkeo'',
     ''/arkeo.claim.MsgClaimEth'',
     ''/cosmos.authz.v1beta1.MsgGrant'',
     ''/cosmos.authz.v1beta1.MsgExec'',
     ''/cosmos.authz.v1beta1.MsgRevoke'',
     ''/cosmos.bank.v1beta1.MsgMultiSend'',
     ''/cosmos.bank.v1beta1.MsgSend'',
     ''/cosmos.crisis.v1beta1.MsgVerifyInvariant'',
     ''/cosmos.distribution.v1beta1.MsgFundCommunityPool'',
     ''/cosmos.distribution.v1beta1.MsgWithdrawDelegatorReward'',
     ''/cosmos.distribution.v1beta1.MsgSetWithdrawAddress'',
     ''/cosmos.distribution.v1beta1.MsgWithdrawValidatorCommission'',
     ''/cosmos.evidence.v1beta1.MsgSubmitEvidence'',
     ''/cosmos.feegrant.v1beta1.MsgGrantAllowance'',
     ''/cosmos.feegrant.v1beta1.MsgRevokeAllowance'',
     ''/cosmos.gov.v1.MsgVoteWeighted'',
     ''/cosmos.gov.v1.MsgVote'',
     ''/cosmos.gov.v1.MsgSubmitProposal'',
     ''/cosmos.gov.v1.MsgDeposit'',
     ''/cosmos.gov.v1beta1.MsgVote'',
     ''/cosmos.gov.v1beta1.MsgVoteWeighted'',
     ''/cosmos.gov.v1beta1.MsgDeposit'',
     ''/cosmos.gov.v1beta1.MsgSubmitProposal'',
     ''/cosmos.group.v1.MsgCreateGroupWithPolicy'',
     ''/cosmos.group.v1.MsgUpdateGroupPolicyAdmin'',
     ''/cosmos.group.v1.MsgUpdateGroupAdmin'',
     ''/cosmos.group.v1.MsgCreateGroupPolicy'',
     ''/cosmos.group.v1.MsgVote'',
     ''/cosmos.group.v1.MsgWithdrawProposal'',
     ''/cosmos.group.v1.MsgUpdateGroupMetadata'',
     ''/cosmos.group.v1.MsgUpdateGroupPolicyMetadata'',
     ''/cosmos.group.v1.MsgCreateGroup'',
     ''/cosmos.group.v1.MsgExec'',
     ''/cosmos.group.v1.MsgSubmitProposal'',
     ''/cosmos.group.v1.MsgLeaveGroup'',
     ''/cosmos.group.v1.MsgUpdateGroupMembers'',
     ''/cosmos.group.v1.MsgUpdateGroupPolicyDecisionPolicy'',
     ''/cosmos.slashing.v1beta1.MsgUnjail'',
     ''/cosmos.staking.v1beta1.MsgUndelegate'',
     ''/cosmos.staking.v1beta1.MsgCancelUnbondingDelegation'',
     ''/cosmos.staking.v1beta1.MsgCreateValidator'',
     ''/cosmos.staking.v1beta1.MsgBeginRedelegate'',
     ''/cosmos.staking.v1beta1.MsgEditValidator'',
     ''/cosmos.staking.v1beta1.MsgDelegate'',
     ''/cosmos.upgrade.v1beta1.MsgSoftwareUpgrade'',
     ''/cosmos.upgrade.v1beta1.MsgCancelUpgrade'',
     ''/cosmos.vesting.v1beta1.MsgCreateVestingAccount'',
     ''/cosmos.vesting.v1beta1.MsgCreatePermanentLockedAccount'',
     ''/cosmos.vesting.v1beta1.MsgCreatePeriodicVestingAccount'',
     ''/ibc.applications.transfer.v1.MsgTransfer'']"

lemma index_registry_urls: "map fst index_registry = map js index_urls"
  unfolding index_registry_def index_urls_def
  by (simp add: msgTypes_def claim_msgTypes_def bank_msgTypes_def authz_msgTypes_def gov_msgTypes_def crisis_msgTypes_def
      other_msgTypes_defs)

text \<open>The comparison of two URLs ends soonest at their ends.\<close>

lemma index_urls_distinct: "distinct index_urls"
proof -
  have "distinct (map rev index_urls)" by code_simp
  then show ?thesis by (simp add: distinct_map)
qed

lemma index_registry_distinct: "distinct (map fst index_registry)"
  unfolding index_registry_urls using index_urls_distinct by (simp add: distinct_map inj_on_def)

lemma registers_distinct:
  "distinct (map fst reg) \<Longrightarrow> (u, gt) \<in> set reg \<Longrightarrow> registers reg u gt"
proof (induction reg)
  case (Cons x reg)
  have "filter (\<lambda>p. fst p = fst x) reg = []" using Cons.prems(1) by (auto simp: filter_empty_conv image_iff)
  then show ?case using Cons by (cases x) (force simp: registers_def)
qed simp

lemma registers_mem: "registers reg u gt \<Longrightarrow> (u, gt) \<in> set reg"
  using filter_is_subset [of "\<lambda>p. fst p = u" reg] by (simp add: registers_def)

lemma index_registry_subsets:
  "set msgTypes \<subseteq> set index_registry" "set claim_msgTypes \<subseteq> set index_registry"
  "set bank_msgTypes \<subseteq> set index_registry" "set authz_msgTypes \<subseteq> set index_registry"
  "set gov_msgTypes \<subseteq> set index_registry" "set crisis_msgTypes \<subseteq> set index_registry"
  unfolding index_registry_def by auto

lemma index_registers: "set reg \<subseteq> set index_registry \<Longrightarrow> registers reg u gt \<Longrightarrow> registers index_registry u gt"
  using registers_distinct [OF index_registry_distinct] registers_mem by blast


section \<open>useKeplr on its own\<close>

text \<open>Every call succeeds, one after the other, and the last gives the signer \<open>g\<close>; \<open>l\<close> are the calls.\<close>

definition keplr_succeeds :: "('g, 's) keplr \<Rightarrow> (jsstring \<Rightarrow> jsstring) \<Rightarrow> (ChainInfo \<Rightarrow> ChainInfo) \<Rightarrow> Env \<Rightarrow> 's
    \<Rightarrow> 'g \<Rightarrow> keplr_call list \<Rightarrow> 's \<Rightarrow> bool" where
  "keplr_succeeds K upper override e s g l s' \<longleftrightarrow>
     (\<exists>network denom_opt supply chain s1 s2 s3 s4 s5 s6 s7 s8 s9.
        import_module K ''./cosmos.base.tendermint.v1beta1/module'' s = (Inr (), s1)
      \<and> import_module K ''./cosmos.staking.v1beta1/module'' s1 = (Inr (), s2)
      \<and> import_module K ''./cosmos.bank.v1beta1/module'' s2 = (Inr (), s3)
      \<and> serviceGetNodeInfo K (apiURL e) s3 = (Inr network, s4) \<and> chain = nullish network []
      \<and> queryStakingParams K (apiURL e) s4 = (Inr denom_opt, s5)
      \<and> queryTotalSupply K (apiURL e) s5 = (Inr supply, s6)
      \<and> (if chain = [] then s8 = s6
         else experimentalSuggestChain K (suggest_options upper override e chain denom_opt supply) s6 = (Inr (), s7)
            \<and> s8 = set_defaultOptions K s7)
      \<and> enable K chain s8 = (Inr (), s9)
      \<and> getOfflineSigner K chain s9 = (Inr g, s')
      \<and> l = [EvImport ''./cosmos.base.tendermint.v1beta1/module'', EvImport ''./cosmos.staking.v1beta1/module'',
             EvImport ''./cosmos.bank.v1beta1/module'', EvNodeInfo (apiURL e), EvStakingParams (apiURL e), EvTotalSupply (apiURL e)]
            @ (if chain = [] then []
               else [EvSuggestChain (suggest_options upper override e chain denom_opt supply), EvDefaultOptions])
            @ [EvEnable chain, EvOfflineSigner chain])"

lemma run_catchK:
  "run_keplr K (catchK h t) cl s =
     (case run_keplr K t cl s of (x, cl', l, s') \<Rightarrow> (case x of Inl e \<Rightarrow> Inl (h e) | Inr d \<Rightarrow> Inr d, cl', l, s'))"
  by (induction t arbitrary: cl s) (auto simp: logged_def split: prod.split)

text \<open>A call that is awaited: the method resolves only if the call succeeds and the rest resolves.\<close>

lemma run_await_resolves:
  "run_keplr K (Import p (awaitK k1)) cl s = (Inr (), cl', l, s') \<longleftrightarrow> (\<exists>s1 l'. import_module K p s = (Inr (), s1)
     \<and> run_keplr K (k1 ()) cl s1 = (Inr (), cl', l', s') \<and> l = EvImport p # l')"
  "run_keplr K (ServiceGetNodeInfo u (awaitK k2)) cl s = (Inr (), cl', l, s') \<longleftrightarrow> (\<exists>x s1 l'. serviceGetNodeInfo K u s = (Inr x, s1)
     \<and> run_keplr K (k2 x) cl s1 = (Inr (), cl', l', s') \<and> l = EvNodeInfo u # l')"
  "run_keplr K (QueryStakingParams u (awaitK k2)) cl s = (Inr (), cl', l, s') \<longleftrightarrow> (\<exists>x s1 l'. queryStakingParams K u s = (Inr x, s1)
     \<and> run_keplr K (k2 x) cl s1 = (Inr (), cl', l', s') \<and> l = EvStakingParams u # l')"
  "run_keplr K (QueryTotalSupply u (awaitK k3)) cl s = (Inr (), cl', l, s') \<longleftrightarrow> (\<exists>x s1 l'. queryTotalSupply K u s = (Inr x, s1)
     \<and> run_keplr K (k3 x) cl s1 = (Inr (), cl', l', s') \<and> l = EvTotalSupply u # l')"
  "run_keplr K (ExperimentalSuggestChain i (awaitK k1)) cl s = (Inr (), cl', l, s') \<longleftrightarrow> (\<exists>s1 l'. experimentalSuggestChain K i s = (Inr (), s1)
     \<and> run_keplr K (k1 ()) cl s1 = (Inr (), cl', l', s') \<and> l = EvSuggestChain i # l')"
  "run_keplr K (Enable c (awaitK k1)) cl s = (Inr (), cl', l, s') \<longleftrightarrow> (\<exists>s1 l'. enable K c s = (Inr (), s1)
     \<and> run_keplr K (k1 ()) cl s1 = (Inr (), cl', l', s') \<and> l = EvEnable c # l')"
  "run_keplr K (GetOfflineSigner c (awaitK k4)) cl s = (Inr (), cl', l, s') \<longleftrightarrow> (\<exists>x s1 l'. getOfflineSigner K c s = (Inr x, s1)
     \<and> run_keplr K (k4 x) cl s1 = (Inr (), cl', l', s') \<and> l = EvOfflineSigner c # l')"
  by (auto simp: awaitK_def logged_def split: prod.splits sum.splits)

lemma run_sync_resolves:
  "run_keplr K (SetDefaultOptions t) cl s = (Inr (), cl', l, s') \<longleftrightarrow>
     (\<exists>l'. run_keplr K t cl (set_defaultOptions K s) = (Inr (), cl', l', s') \<and> l = EvDefaultOptions # l')"
  "run_keplr K (catchK h t) cl s = (Inr (), cl', l, s') \<longleftrightarrow> run_keplr K t cl s = (Inr (), cl', l, s')"
  "run_keplr K (if b then t else t') cl s = (if b then run_keplr K t cl s else run_keplr K t' cl s)"
  by (auto simp: logged_def run_catchK split: prod.splits sum.splits)

lemma run_finish_resolves:
  "run_keplr K (if ch \<noteq> []
       then ExperimentalSuggestChain i (awaitK (\<lambda>_. SetDefaultOptions (Enable ch (awaitK (\<lambda>_.
              GetOfflineSigner ch (awaitK (\<lambda>g. SetSigner g (KDone (Inr ())))))))))
       else Enable ch (awaitK (\<lambda>_. GetOfflineSigner ch (awaitK (\<lambda>g. SetSigner g (KDone (Inr ()))))))) cl s =
     (Inr (), cl', l, s') \<longleftrightarrow>
   (\<exists>g s7 s8 s9. (if ch = [] then s8 = s else experimentalSuggestChain K i s = (Inr (), s7) \<and> s8 = set_defaultOptions K s7)
      \<and> enable K ch s8 = (Inr (), s9) \<and> getOfflineSigner K ch s9 = (Inr g, s') \<and> cl' = keplr_setSigner g cl
      \<and> l = (if ch = [] then [] else [EvSuggestChain i, EvDefaultOptions]) @ [EvEnable ch, EvOfflineSigner ch])"
  by (cases "ch = []") (auto simp: run_await_resolves run_sync_resolves simp del: run_keplr.simps(2-9))

lemma useKeplr_resolves:
  "run_keplr K (useKeplr upper override e) cl s = (Inr (), cl', l, s') \<longleftrightarrow>
     (\<exists>g. cl' = keplr_setSigner g cl \<and> keplr_succeeds K upper override e s g l s')" (is "?run \<longleftrightarrow> ?all")
proof
  assume ?run
  then show ?all
    unfolding useKeplr_def Let_def run_sync_resolves(2) run_await_resolves(1-4) run_finish_resolves keplr_succeeds_def
    by (elim exE conjE) (intro exI conjI, (assumption | rule refl | simp)+)
next
  assume ?all
  then show ?run
    unfolding useKeplr_def Let_def run_sync_resolves(2) run_await_resolves(1-4) run_finish_resolves keplr_succeeds_def
    by (elim exE conjE) (hypsubst, simp only: append_Cons append_Nil, intro exI conjI, (assumption | rule refl)+)
qed

text \<open>A method that fails leaves the client alone.\<close>

definition keeps_client :: "('g, 's) keplr \<Rightarrow> 'g keplr_async \<Rightarrow> bool" where
  "keeps_client K t \<longleftrightarrow> (\<forall>cl s err cl' l s'. run_keplr K t cl s = (Inl err, cl', l, s') \<longrightarrow> cl' = cl)"

lemma keeps_client_rules:
  "keeps_client K (KDone x)"
  "(\<And>x. keeps_client K (k1 x)) \<Longrightarrow> keeps_client K (Import p (awaitK k1))"
  "(\<And>x. keeps_client K (k2 x)) \<Longrightarrow> keeps_client K (ServiceGetNodeInfo u (awaitK k2))"
  "(\<And>x. keeps_client K (k2 x)) \<Longrightarrow> keeps_client K (QueryStakingParams u (awaitK k2))"
  "(\<And>x. keeps_client K (k3 x)) \<Longrightarrow> keeps_client K (QueryTotalSupply u (awaitK k3))"
  "(\<And>x. keeps_client K (k1 x)) \<Longrightarrow> keeps_client K (ExperimentalSuggestChain i (awaitK k1))"
  "(\<And>x. keeps_client K (k1 x)) \<Longrightarrow> keeps_client K (Enable c (awaitK k1))"
  "(\<And>x. keeps_client K (k4 x)) \<Longrightarrow> keeps_client K (GetOfflineSigner c (awaitK k4))"
  "keeps_client K t \<Longrightarrow> keeps_client K (SetDefaultOptions t)"
  "keeps_client K (SetSigner g (KDone (Inr ())))"
  "keeps_client K t \<Longrightarrow> keeps_client K t' \<Longrightarrow> keeps_client K (if b then t else t')"
  by (fastforce simp: keeps_client_def awaitK_def logged_def split: prod.splits sum.splits)+

lemma useKeplr_rejects:
  assumes "run_keplr K (useKeplr upper override e) cl s = (Inl err, cl', l, s')"
  shows "err = keplr_error \<and> cl' = cl"
proof -
  have caught: "run_keplr K (catchK (\<lambda>_. keplr_error) t) cl s = (Inl err, cl', l, s') \<Longrightarrow> keeps_client K t \<Longrightarrow>
      err = keplr_error \<and> cl' = cl" for t
    by (auto simp: keeps_client_def run_catchK split: prod.splits sum.splits) blast
  show ?thesis
    by (rule caught [OF assms [unfolded useKeplr_def Let_def]]) (intro keeps_client_rules)
qed


section \<open>Interleaving\<close>

text \<open>Who started a method: a module, with the signer it had then, or the client itself.\<close>

datatype 'g owner = ByModule "'g option" | ByClient

record ('g, 'c, 'd) config =
  client :: "'g IgniteClient"
  tasks :: "('g owner \<times> ('g, 'c, 'd, 'g IgniteClient) async) list"
  keplr_tasks :: "'g keplr_async list"

datatype ('g, 'c) action =
    UseSigner 'g
  | RemoveSigner
  | Start
  | Answer nat "('g, 'c) call"
  | KeplrStart
  | KeplrAnswer nat keplr_call

definition set_task :: "nat \<Rightarrow> ('g, 'c, 'd, 'g IgniteClient) async \<Rightarrow> ('g, 'c, 'd) config \<Rightarrow> ('g, 'c, 'd) config" where
  "set_task i t c = c\<lparr>tasks := (tasks c)[i := (fst (tasks c ! i), t)]\<rparr>"

definition add_task :: "'g owner \<Rightarrow> ('g, 'c, 'd, 'g IgniteClient) async \<Rightarrow> ('g, 'c, 'd) config \<Rightarrow> ('g, 'c, 'd) config" where
  "add_task w t c = c\<lparr>tasks := tasks c @ [(w, t)]\<rparr>"

text \<open>An awaited call of \<open>useKeplr\<close> and how the method goes on with some answer to it.\<close>

inductive answered :: "'g keplr_async \<Rightarrow> keplr_call \<Rightarrow> 'g keplr_async \<Rightarrow> bool" where
  "answered (Import p k) (EvImport p) (k r)"
| "answered (ServiceGetNodeInfo u k) (EvNodeInfo u) (k r')"
| "answered (QueryStakingParams u k) (EvStakingParams u) (k r')"
| "answered (QueryTotalSupply u k) (EvTotalSupply u) (k r'')"
| "answered (ExperimentalSuggestChain i k) (EvSuggestChain i) (k r)"
| "answered (Enable ch k) (EvEnable ch) (k r)"

definition resume :: "nat \<Rightarrow> (jsstring \<Rightarrow> 'g result) \<Rightarrow> 'g keplr_async \<Rightarrow> ('g, 'c, 'd) config \<Rightarrow> ('g, 'c, 'd) config" where
  "resume i w t c =
     (let p = proceed w t (client c) in c\<lparr>client := snd p, keplr_tasks := (keplr_tasks c)[i := fst p]\<rparr>)"

inductive step :: "('g, 'c, 'd) config \<Rightarrow> ('g, 'c) action \<Rightarrow> ('g, 'c, 'd) config \<Rightarrow> bool" where
  use: "step c (UseSigner g) (c\<lparr>client := useSigner g (client c)\<rparr>)"
| remove: "step c RemoveSigner (c\<lparr>client := removeSigner (client c)\<rparr>)"
| keplr_call: "step c KeplrStart (c\<lparr>keplr_tasks := keplr_tasks c @ [useKeplr upper override (env (client c))]\<rparr>)"
| keplr_answer: "step c (KeplrAnswer i ev) (resume i w t c)"
    if "i < length (keplr_tasks c)" "answered (keplr_tasks c ! i) ev t"
| client_call: "step c Start (add_task ByClient (signAndBroadcast (client c) msgs fee memo) c)"
| module_call: "step c Start
    (add_task (ByModule (TxClientOptions.signer (tx (heap (client c) ! j))))
      (sendTx nm reg err_msg (tx (heap (client c) ! j)) mk fee (memo :: jsstring option)) c)"
    if "j < length (heap (client c))"
| accounts: "step c (Answer i (EvAccounts g)) (set_task i (k (client c) r) c)"
    if "i < length (tasks c)" "snd (tasks c ! i) = GetAccounts g k"
| connected: "step c (Answer i (EvConnect u g reg p)) (set_task i (k (client c) r) c)"
    if "i < length (tasks c)" "snd (tasks c ! i) = ConnectWithSigner u g reg p k"
| broadcast: "step c (Answer i (EvBroadcast sc a ms fee memo)) (set_task i (k (client c) r) c)"
    if "i < length (tasks c)" "snd (tasks c ! i) = SignAndBroadcast sc a ms fee memo k"

inductive reachable :: "IgniteClient_class \<Rightarrow> Env \<Rightarrow> ('g, 'c) action list \<Rightarrow> ('g, 'c, 'd) config \<Rightarrow> bool"
  for cls :: IgniteClient_class and e :: Env where
  start: "reachable cls e [] \<lparr>client = new_IgniteClient cls e sg, tasks = [], keplr_tasks = []\<rparr>"
| more: "reachable cls e (acts @ [a]) c'" if "reachable cls e acts c" "step c a c'"

inductive_cases step_ConnectE: "step c (Answer i (EvConnect u g reg p)) c'"
inductive_cases step_AccountsE: "step c (Answer i (EvAccounts g)) c'"
inductive_cases step_BroadcastE: "step c (Answer i (EvBroadcast sc a ms fee memo)) c'"

lemmas step_simps = set_task_def add_task_def resume_def Let_def

lemma step_client_inv: "step c a c' \<Longrightarrow> client_inv (client c) \<Longrightarrow> client_inv (client c')"
proof (induction rule: step.induct)
  case (use c g)
  then show ?case using useSigner_inv [of "client c" g] by (simp add: client_inv_def) (simp add: useSigner_def)
next
  case (remove c)
  then show ?case using removeSigner_inv [of "client c"] by (simp add: client_inv_def) (simp add: removeSigner_def)
next
  case (keplr_answer i c ev t w)
  then show ?case using proceed_inv [of "client c" w t] by (simp add: resume_def Let_def)
qed (simp_all add: set_task_def add_task_def)

lemma step_select:
  "step c a c' \<Longrightarrow> env (client c') = env (client c) \<and> IgniteClient.registry (client c') = IgniteClient.registry (client c)"
proof (induction rule: step.induct)
  case (keplr_answer i c ev t w)
  then show ?case using proceed_select [of w t "client c"] by (simp add: resume_def Let_def)
qed (simp_all add: useSigner_def removeSigner_def set_task_def add_task_def)

lemma reachable_client:
  "reachable cls e acts c \<Longrightarrow> client_inv (client c) \<and> env (client c) = e
    \<and> IgniteClient.registry (client c) = concat (map msg_types (plugins cls))"
proof (induction rule: reachable.induct)
  case (start sg)
  show ?case by (simp add: new_IgniteClient_inv client_inv_def new_IgniteClient_queries_api)
next
  case (more acts c a c')
  then show ?case using step_client_inv [of c a c'] step_select [of c a c'] by simp
qed

text \<open>The methods all of whose calls, whatever the answers and the state, are made with one signer.\<close>

primrec uses :: "'g option \<Rightarrow> ('g, 'c, 'd, 'st) async \<Rightarrow> bool" where
  "uses sg (Done x) \<longleftrightarrow> True"
| "uses sg (GetAccounts g k) \<longleftrightarrow> sg = Some g \<and> (\<forall>st r. uses sg (k st r))"
| "uses sg (ConnectWithSigner u g reg p k) \<longleftrightarrow> g = sg \<and> (\<forall>st r. uses sg (k st r))"
| "uses sg (SignAndBroadcast sc a ms fee memo k) \<longleftrightarrow> (\<forall>st r. uses sg (k st r))"

lemma uses_catchE: "uses sg t \<Longrightarrow> uses sg (catchE h t)"
  by (induction t) auto

lemma uses_sendTx: "uses (TxClientOptions.signer opts) (sendTx nm reg err_msg opts mk fee memo)"
  by (cases "TxClientOptions.signer opts"; cases mk)
    (auto simp: sendTx_def awaitE_def first_address_def simp del: catchE.simps intro!: uses_catchE split: sum.split list.split)

definition tasks_ok :: "('g owner \<times> ('g, 'c, 'd, 'g IgniteClient) async) list \<Rightarrow> bool" where
  "tasks_ok ts \<longleftrightarrow> (\<forall>(w, t) \<in> set ts. case w of ByModule sg \<Rightarrow> uses sg t | ByClient \<Rightarrow> True)"

lemma tasks_ok_nth: "tasks_ok ts \<Longrightarrow> i < length ts \<Longrightarrow> fst (ts ! i) = ByModule sg \<Longrightarrow> uses sg (snd (ts ! i))"
  by (cases "ts ! i") (auto simp: tasks_ok_def dest!: nth_mem)

lemma tasks_ok_set:
  "tasks_ok ts \<Longrightarrow> i < length ts \<Longrightarrow> (\<And>sg. uses sg (snd (ts ! i)) \<Longrightarrow> uses sg t) \<Longrightarrow>
   tasks_ok (ts[i := (fst (ts ! i), t)])"
  using tasks_ok_nth [of ts i]
  by (auto simp: tasks_ok_def split: owner.split dest!: set_update_subset_insert [THEN subsetD])

lemma step_tasks_ok: "step c a c' \<Longrightarrow> tasks_ok (tasks c) \<Longrightarrow> tasks_ok (tasks c')"
proof (induction rule: step.induct)
  case (module_call j c nm reg err_msg mk fee memo)
  then show ?case using uses_sendTx by (auto simp: tasks_ok_def add_task_def)
qed (auto simp: step_simps intro!: tasks_ok_set, auto simp: tasks_ok_def)

lemma reachable_tasks_ok: "reachable cls e acts c \<Longrightarrow> tasks_ok (tasks c)"
  by (induction rule: reachable.induct) (auto simp: tasks_ok_def [of "[]"] intro: step_tasks_ok)


text \<open>
  The calls a method can still make. Every await of these methods is answered at most once, so a task is done after
  that many answers; until then the answer to its next call is a step that is possible.
\<close>

fun ends_within :: "nat \<Rightarrow> ('g, 'c, 'd, 'st) async \<Rightarrow> bool" where
  "ends_within n (Done x) \<longleftrightarrow> True"
| "ends_within 0 t \<longleftrightarrow> False"
| "ends_within (Suc n) (GetAccounts g k) \<longleftrightarrow> (\<forall>st r. ends_within n (k st r))"
| "ends_within (Suc n) (ConnectWithSigner u g reg p k) \<longleftrightarrow> (\<forall>st r. ends_within n (k st r))"
| "ends_within (Suc n) (SignAndBroadcast sc a ms fee memo k) \<longleftrightarrow> (\<forall>st r. ends_within n (k st r))"

fun is_done :: "('g, 'c, 'd, 'st) async \<Rightarrow> bool" where
  "is_done (Done x) = True"
| "is_done _ = False"

lemma ends_within_mono: "ends_within n t \<Longrightarrow> ends_within (Suc n) t"
  by (induction n t rule: ends_within.induct) auto

lemma ends_within_catchE: "ends_within n t \<Longrightarrow> ends_within n (catchE h t)"
  by (induction n t rule: ends_within.induct) auto

lemma ends_within_sendTx: "ends_within 3 (sendTx nm reg err_msg opts mk fee memo)"
  by (auto simp: sendTx_def awaitE_def first_address_def numeral_3_eq_3 simp del: catchE.simps
      intro!: ends_within_catchE split: option.split sum.split list.split)

lemma ends_within_signAndBroadcast: "ends_within 3 (signAndBroadcast cl msgs fee memo)"
  by (auto simp: signAndBroadcast_def awaitE_def first_address_def numeral_3_eq_3 split: option.split sum.split list.split)

lemma answer_possible:
  assumes "i < length (tasks c)" and "\<not> is_done (snd (tasks c ! i))"
  shows "\<exists>a c'. step c (Answer i a) c'"
proof (cases "snd (tasks c ! i)")
  case (GetAccounts g k)
  then show ?thesis using step.accounts [OF assms(1)] by blast
next
  case (ConnectWithSigner u g reg p k)
  then show ?thesis using step.connected [OF assms(1)] by blast
next
  case (SignAndBroadcast sc a ms fee memo k)
  then show ?thesis using step.broadcast [OF assms(1)] by blast
qed (use assms(2) in simp)

lemma step_within:
  assumes "step c (Answer i a) c'" and "ends_within n (snd (tasks c ! i))"
  shows "i < length (tasks c') \<and> 0 < n \<and> ends_within (n - 1) (snd (tasks c' ! i))"
  using assms by cases (cases n; auto simp: set_task_def)+

text \<open>The same for \<open>useKeplr\<close>, whose awaits are counted.\<close>

primrec awaits_within :: "'g keplr_async \<Rightarrow> nat \<Rightarrow> bool" where
  "awaits_within (KDone x) n \<longleftrightarrow> True"
| "awaits_within (Import p k) n \<longleftrightarrow> 0 < n \<and> (\<forall>r. awaits_within (k r) (n - 1))"
| "awaits_within (ServiceGetNodeInfo u k) n \<longleftrightarrow> 0 < n \<and> (\<forall>r. awaits_within (k r) (n - 1))"
| "awaits_within (QueryStakingParams u k) n \<longleftrightarrow> 0 < n \<and> (\<forall>r. awaits_within (k r) (n - 1))"
| "awaits_within (QueryTotalSupply u k) n \<longleftrightarrow> 0 < n \<and> (\<forall>r. awaits_within (k r) (n - 1))"
| "awaits_within (ExperimentalSuggestChain i k) n \<longleftrightarrow> 0 < n \<and> (\<forall>r. awaits_within (k r) (n - 1))"
| "awaits_within (SetDefaultOptions t) n \<longleftrightarrow> awaits_within t n"
| "awaits_within (Enable c k) n \<longleftrightarrow> 0 < n \<and> (\<forall>r. awaits_within (k r) (n - 1))"
| "awaits_within (GetOfflineSigner c k) n \<longleftrightarrow> (\<forall>r. awaits_within (k r) n)"
| "awaits_within (SetSigner g t) n \<longleftrightarrow> awaits_within t n"

text \<open>A method between two steps is over or awaits something.\<close>

fun is_settled :: "'g keplr_async \<Rightarrow> bool" where
  "is_settled (KDone x) = True"
| "is_settled _ = False"

definition awaiting :: "'g keplr_async \<Rightarrow> bool" where
  "awaiting t \<longleftrightarrow> is_settled t \<or> (\<exists>ev t'. answered t ev t')"

lemma awaits_within_catchK: "awaits_within t n \<Longrightarrow> awaits_within (catchK h t) n"
  by (induction t arbitrary: n) auto

lemma awaits_within_useKeplr: "awaits_within (useKeplr upper override e) 8"
  unfolding useKeplr_def
  by (rule awaits_within_catchK) (auto simp: awaitK_def Let_def split: sum.split)

lemma awaiting_useKeplr: "awaiting (useKeplr upper override e)"
  by (auto simp: useKeplr_def awaiting_def intro: answered.intros)

lemma proceed_awaits: "awaits_within t n \<Longrightarrow> awaits_within (fst (proceed w t cl)) n"
  by (induction t arbitrary: cl) auto

lemma proceed_awaiting: "awaiting (fst (proceed w t cl))"
  by (induction t arbitrary: cl) (auto simp: awaiting_def intro: answered.intros)

lemma answered_within: "answered t ev t' \<Longrightarrow> awaits_within t n \<Longrightarrow> 0 < n \<and> awaits_within t' (n - 1)"
  by (induction rule: answered.induct) auto

lemma awaiting_none_left: "awaiting t \<Longrightarrow> awaits_within t 0 \<Longrightarrow> is_settled t"
  by (auto simp: awaiting_def dest: answered_within)

text \<open>How many answers a method has had.\<close>

definition answers :: "nat \<Rightarrow> ('g, 'c) action list \<Rightarrow> nat" where
  "answers i acts = length (filter (\<lambda>a. case a of Answer j _ \<Rightarrow> j = i | _ \<Rightarrow> False) acts)"

definition keplr_answers :: "nat \<Rightarrow> ('g, 'c) action list \<Rightarrow> nat" where
  "keplr_answers i acts = length (filter (\<lambda>a. case a of KeplrAnswer j _ \<Rightarrow> j = i | _ \<Rightarrow> False) acts)"

lemma answers_snoc:
  "answers i (acts @ [a]) = answers i acts + (case a of Answer j _ \<Rightarrow> if j = i then 1 else 0 | _ \<Rightarrow> 0)"
  "keplr_answers i (acts @ [a]) = keplr_answers i acts + (case a of KeplrAnswer j _ \<Rightarrow> if j = i then 1 else 0 | _ \<Rightarrow> 0)"
  by (simp_all add: answers_def keplr_answers_def split: action.split)

definition tx_counted :: "('g, 'c) action list \<Rightarrow> ('g, 'c, 'd) config \<Rightarrow> nat \<Rightarrow> bool" where
  "tx_counted acts c i \<longleftrightarrow>
     (if i < length (tasks c) then answers i acts \<le> 3 \<and> ends_within (3 - answers i acts) (snd (tasks c ! i))
      else answers i acts = 0)"

definition keplr_counted :: "('g, 'c) action list \<Rightarrow> ('g, 'c, 'd) config \<Rightarrow> nat \<Rightarrow> bool" where
  "keplr_counted acts c i \<longleftrightarrow>
     (if i < length (keplr_tasks c)
      then keplr_answers i acts \<le> 8 \<and> awaits_within (keplr_tasks c ! i) (8 - keplr_answers i acts) \<and> awaiting (keplr_tasks c ! i)
      else keplr_answers i acts = 0)"

lemma ends_within_cases:
  "ends_within n (GetAccounts g k) \<Longrightarrow> 0 < n \<and> ends_within (n - 1) (k st r)"
  "ends_within n (ConnectWithSigner u sg reg p kc) \<Longrightarrow> 0 < n \<and> ends_within (n - 1) (kc st rc)"
  "ends_within n (SignAndBroadcast sc a ms fee memo kb) \<Longrightarrow> 0 < n \<and> ends_within (n - 1) (kb st rb)"
  by (cases n; simp)+

lemma step_tx_counted:
  assumes "step c a c'" and "tx_counted acts c i"
  shows "tx_counted (acts @ [a]) c' i"
  using assms
proof (induction rule: step.induct)
  case (client_call c msgs fee memo)
  then show ?case by (auto simp: tx_counted_def answers_snoc add_task_def nth_append ends_within_signAndBroadcast)
next
  case (module_call j c nm reg err_msg mk fee memo)
  then show ?case by (auto simp: tx_counted_def answers_snoc add_task_def nth_append ends_within_sendTx)
next
  case (accounts j c g k r)
  then show ?case
    by (cases "j = i") (auto simp: tx_counted_def answers_snoc set_task_def dest!: ends_within_cases(1) [where st = "client c" and r = r])
next
  case (connected j c u g reg p k r)
  then show ?case
    by (cases "j = i") (auto simp: tx_counted_def answers_snoc set_task_def dest!: ends_within_cases(2) [where st = "client c" and rc = r])
next
  case (broadcast j c sc a ms fee memo k r)
  then show ?case
    by (cases "j = i") (auto simp: tx_counted_def answers_snoc set_task_def dest!: ends_within_cases(3) [where st = "client c" and rb = r])
qed (simp_all add: tx_counted_def answers_snoc resume_def Let_def)

lemma step_keplr_counted:
  assumes "step c a c'" and "keplr_counted acts c i"
  shows "keplr_counted (acts @ [a]) c' i"
  using assms
proof (induction rule: step.induct)
  case (keplr_call c upper override)
  then show ?case
    by (auto simp: keplr_counted_def answers_snoc nth_append awaits_within_useKeplr awaiting_useKeplr)
next
  case (keplr_answer j c ev t w)
  show ?case
  proof (cases "j = i")
    case True
    then have "0 < 8 - keplr_answers i acts \<and> awaits_within t (8 - keplr_answers i acts - 1)"
      using keplr_answer by (intro answered_within) (auto simp: keplr_counted_def)
    then show ?thesis
      using keplr_answer True proceed_awaits [of t _ w "client c"] proceed_awaiting [of w t "client c"]
      by (auto simp: keplr_counted_def answers_snoc resume_def Let_def)
  next
    case False
    then show ?thesis using keplr_answer by (simp add: keplr_counted_def answers_snoc resume_def Let_def)
  qed
qed (simp_all add: keplr_counted_def answers_snoc set_task_def add_task_def)

lemma reachable_counted: "reachable cls e acts c \<Longrightarrow> tx_counted acts c i \<and> keplr_counted acts c i"
proof (induction rule: reachable.induct)
  case (start sg)
  show ?case by (simp add: tx_counted_def keplr_counted_def answers_def keplr_answers_def)
next
  case (more acts c a c')
  then show ?case using step_tx_counted step_keplr_counted by blast
qed

lemma keplr_answer_possible:
  "i < length (keplr_tasks c) \<Longrightarrow> awaiting (keplr_tasks c ! i) \<Longrightarrow> \<not> is_settled (keplr_tasks c ! i) \<Longrightarrow>
   \<exists>ev c'. step c (KeplrAnswer i ev) c'"
  unfolding awaiting_def using step.keplr_answer by blast

lemma ends_within_0: "ends_within 0 t \<Longrightarrow> is_done t"
  by (cases t) simp_all

text \<open>
  Between the two reads of \<open>this.signer\<close> in \<open>signAndBroadcast\<close> another signer can be set: the accounts come from the
  one, the signing client from the other.
\<close>

lemma signAndBroadcast_calls:
  "IgniteClient.signer this = Some g \<Longrightarrow>
   \<exists>k k2 k3. signAndBroadcast this msgs fee memo = GetAccounts g k
     \<and> (\<forall>cl. k cl (Inr [a]) = ConnectWithSigner (rpcURL (env cl)) (IgniteClient.signer cl) (IgniteClient.registry cl)
          (Env.prefix (env cl)) k2)
     \<and> (\<forall>cl. k2 cl (Inr sc) = SignAndBroadcast sc a msgs (nullish fee defaultFee) (Some memo) k3)"
  by (simp add: signAndBroadcast_def awaitE_def first_address_def)

lemma signer_race:
  fixes A B :: 'g and sc :: 'c
  shows "\<exists>c :: ('g, 'c, 'd) config. reachable cls e
    [Start, UseSigner B, Answer 0 (EvAccounts A),
     Answer 0 (EvConnect (rpcURL e) (Some B) (concat (map msg_types (plugins cls))) (Env.prefix e)),
     Answer 0 (EvBroadcast sc a msgs (nullish fee defaultFee) (Some memo))] c"
proof -
  let ?cl = "new_IgniteClient cls e (Some A)"
  let ?c0 = "\<lparr>client = ?cl, tasks = [], keplr_tasks = []\<rparr> :: ('g, 'c, 'd) config"
  let ?c1 = "add_task ByClient (signAndBroadcast ?cl msgs fee memo) ?c0"
  let ?c2 = "?c1\<lparr>client := useSigner B ?cl\<rparr>"
  obtain k :: "'g IgniteClient \<Rightarrow> jsstring list result \<Rightarrow> ('g, 'c, 'd, 'g IgniteClient) async" and k2 k3 where k: "signAndBroadcast ?cl msgs fee memo = GetAccounts A k"
    "\<And>cl. k cl (Inr [a]) = ConnectWithSigner (rpcURL (env cl)) (IgniteClient.signer cl) (IgniteClient.registry cl)
       (Env.prefix (env cl)) k2"
    "\<And>cl. k2 cl (Inr sc) = SignAndBroadcast sc a msgs (nullish fee defaultFee) (Some memo) k3"
    using signAndBroadcast_calls [of ?cl A msgs fee memo a sc] by (auto simp: new_IgniteClient_inv(4))
  let ?c3 = "set_task 0 (k (client ?c2) (Inr [a])) ?c2"
  let ?c4 = "set_task 0 (k2 (client ?c3) (Inr sc)) ?c3"
  have cl: "env (useSigner B ?cl) = e" "IgniteClient.signer (useSigner B ?cl) = Some B"
    "IgniteClient.registry (useSigner B ?cl) = concat (map msg_types (plugins cls))"
    by (simp_all add: useSigner_def new_IgniteClient_inv)
  have "step ?c0 Start ?c1" using step.client_call [of ?c0 msgs fee memo] by simp
  moreover have "step ?c1 (UseSigner B) ?c2" using step.use [of ?c1 B] by (simp add: add_task_def)
  moreover have "step ?c2 (Answer 0 (EvAccounts A)) ?c3"
    by (rule step.accounts) (simp_all add: add_task_def k(1))
  moreover have "step ?c3 (Answer 0 (EvConnect (rpcURL e) (Some B) (concat (map msg_types (plugins cls))) (Env.prefix e))) ?c4"
    by (rule step.connected) (simp_all add: set_task_def add_task_def k(2) cl)
  moreover have "step ?c4 (Answer 0 (EvBroadcast sc a msgs (nullish fee defaultFee) (Some memo)))
      (set_task 0 (k3 (client ?c4) (Inl (Error []))) ?c4)"
    by (rule step.broadcast) (simp_all add: set_task_def add_task_def k(3))
  ultimately show ?thesis
    using reachable.more [OF reachable.more [OF reachable.more [OF reachable.more [OF reachable.more [OF reachable.start]]]]]
    by fastforce
qed

end
