(* ===== verification/RestClient.thy ===== *)
theory RestClient
  imports JsValue
begin

text \<open>
  The REST client of \<open>ts-client\<close> (\<open>rest.ts\<close> of the two modules): the class \<open>HttpClient\<close> and the queries of its
  subclass \<open>Api\<close>. The HTTP package \<open>axios\<close> is a parameter. Its configurations are JavaScript objects:
  lists of properties in the order of insertion, which \<open>{ ...a, ...b }\<close> merges.
\<close>

section \<open>Objects\<close>

type_synonym js_object = "(string \<times> jsval) list"

fun obj_set :: "string \<Rightarrow> jsval \<Rightarrow> js_object \<Rightarrow> js_object" where
  "obj_set k v [] = [(k, v)]"
| "obj_set k v ((k', v') # ps) = (if k = k' then (k, v) # ps else (k', v') # obj_set k v ps)"

text \<open>\<open>{ ...target, ...source }\<close>\<close>

fun spread :: "js_object \<Rightarrow> js_object \<Rightarrow> js_object" where
  "spread target [] = target"
| "spread target ((k, v) # ps) = spread (obj_set k v target) ps"

text \<open>\<open>(params.headers || {})\<close>, where \<open>headers\<close> is an object if it is set\<close>

definition headers_of :: "js_object \<Rightarrow> js_object" where
  "headers_of ps = (case map_of ps ''headers'' of Some (JObject hs) \<Rightarrow> hs | _ \<Rightarrow> [])"


section \<open>HttpClient\<close>

datatype ContentType = Json | FormData | UrlEncoded

fun content_type :: "ContentType \<Rightarrow> jsstring" where
  "content_type Json = js ''application/json''"
| "content_type FormData = js ''multipart/form-data''"
| "content_type UrlEncoded = js ''application/x-www-form-urlencoded''"

text \<open>The parts of the host that \<open>createFormData\<close> uses.\<close>

record form_host =
  is_Blob :: "jsval \<Rightarrow> bool"
  JSON_stringify :: "jsval \<Rightarrow> jsstring"
  base_host :: host

datatype form_value = Blob jsval | Text jsstring

datatype request_body = Plain jsval | Form "(string \<times> form_value) list"

record axios_request =
  settings :: js_object
  data :: request_body

record 's axios =
  create :: "js_object \<Rightarrow> js_object"
  perform :: "js_object \<Rightarrow> axios_request \<Rightarrow> 's \<Rightarrow> jsval result \<times> 's"

record 's HttpClient =
  defaults :: js_object
  securityData :: jsval
  securityWorker :: "(jsval \<Rightarrow> 's \<Rightarrow> js_object option result \<times> 's) option"
  secure :: "bool option"
  format :: "jsstring option"

record FullRequestParams =
  secure_arg :: "bool option"
  path :: jsstring
  type_arg :: "ContentType option"
  query_arg :: jsval
  format_arg :: "jsstring option"
  body :: jsval
  params :: js_object

text \<open>\<open>axios.create({ ...axiosConfig, baseURL: axiosConfig.baseURL || "" })\<close>\<close>

definition new_HttpClient :: "'s axios \<Rightarrow> (jsval \<Rightarrow> 's \<Rightarrow> js_object option result \<times> 's) option \<Rightarrow> bool option
    \<Rightarrow> jsstring option \<Rightarrow> js_object \<Rightarrow> 's HttpClient" where
  "new_HttpClient ax worker sec fmt axiosConfig =
     \<lparr>defaults = create ax (obj_set ''baseURL''
        (case map_of axiosConfig ''baseURL'' of Some v \<Rightarrow> if js_Boolean v then v else JString [] | None \<Rightarrow> JString [])
        (spread [] axiosConfig)),
      securityData = JNull, securityWorker = worker, secure = sec, format = fmt\<rparr>"

text \<open>\<open>queryClient({ addr })\<close> of \<open>module.ts\<close>: \<open>new Api({ baseURL: addr })\<close>\<close>

definition queryClient :: "'s axios \<Rightarrow> jsstring \<Rightarrow> 's HttpClient" where
  "queryClient ax addr = new_HttpClient ax None None None [(''baseURL'', JString addr)]"

definition setSecurityData :: "jsval \<Rightarrow> 's HttpClient \<Rightarrow> 's HttpClient" where
  "setSecurityData d this = this\<lparr>securityData := d\<rparr>"

definition mergeRequestParams :: "js_object \<Rightarrow> js_object \<Rightarrow> js_object \<Rightarrow> js_object" where
  "mergeRequestParams dflt params1 params2 =
     obj_set ''headers''
       (JObject (spread (spread (spread [] (headers_of dflt)) (headers_of params1)) (headers_of params2)))
       (spread (spread (spread [] dflt) params1) params2)"

definition form_value_of :: "form_host \<Rightarrow> jsval \<Rightarrow> form_value" where
  "form_value_of fh property =
     (if is_Blob fh property then Blob property
      else case property of
        JObject _ \<Rightarrow> Text (JSON_stringify fh property)
      | JArray _ \<Rightarrow> Text (JSON_stringify fh property)
      | JDate _ \<Rightarrow> Text (JSON_stringify fh property)
      | _ \<Rightarrow> Text (js_String (base_host fh) property))"

definition createFormData :: "form_host \<Rightarrow> js_object \<Rightarrow> (string \<times> form_value) list" where
  "createFormData fh input = map (\<lambda>(k, v). (k, form_value_of fh v)) input"

text \<open>
  \<open>((typeof secure === "boolean" ? secure : this.secure) && this.securityWorker
    && (await this.securityWorker(this.securityData))) || {}\<close>
\<close>

definition secure_params :: "'s HttpClient \<Rightarrow> bool option \<Rightarrow> 's \<Rightarrow> js_object result \<times> 's" where
  "secure_params this sec s =
     (if (case sec of Some b \<Rightarrow> b | None \<Rightarrow> secure this = Some True)
      then (case securityWorker this of
              None \<Rightarrow> (Inr [], s)
            | Some worker \<Rightarrow>
                (case worker (securityData this) s of
                   (Inl e, s') \<Rightarrow> (Inl e, s')
                 | (Inr r, s') \<Rightarrow> (Inr (nullish r []), s')))
      else (Inr [], s))"

text \<open>\<open>(format && this.format) || void 0\<close>: an empty string counts as missing.\<close>

definition response_format :: "jsstring option \<Rightarrow> jsstring option \<Rightarrow> jsval" where
  "response_format fmt own =
     (case fmt of
        None \<Rightarrow> JUndefined
      | Some f \<Rightarrow> if f = [] then JUndefined
                  else (case own of None \<Rightarrow> JUndefined | Some g \<Rightarrow> if g = [] then JUndefined else JString g))"

text \<open>Whether the body is sent as form data.\<close>

definition sends_form :: "ContentType option \<Rightarrow> jsval \<Rightarrow> bool" where
  "sends_form ty b \<longleftrightarrow> ty = Some FormData \<and> (case b of JObject _ \<Rightarrow> True | JArray _ \<Rightarrow> True | JDate _ \<Rightarrow> True | _ \<Rightarrow> False)"

text \<open>The properties \<open>Object.keys\<close> goes over.\<close>

definition own_props :: "jsval \<Rightarrow> js_object" where
  "own_props b = (case b of JObject ps \<Rightarrow> ps | JArray xs \<Rightarrow> map (\<lambda>(i, x). (map (\<lambda>u. char_of (unat u)) (int_to_string (int i)), x)) (enumerate 0 xs) | _ \<Rightarrow> [])"

definition axios_request_of :: "form_host \<Rightarrow> 's HttpClient \<Rightarrow> FullRequestParams \<Rightarrow> js_object \<Rightarrow> axios_request" where
  "axios_request_of fh this args secureParams =
     (let requestParams = mergeRequestParams (defaults this) (params args) secureParams;
          form = sends_form (type_arg args) (body args);
          hs = headers_of requestParams;
          hs = (if form then obj_set ''put'' (JObject []) (obj_set ''post'' (JObject [])
                  (obj_set ''common'' (JObject [(''Accept'', JString (js ''*/*''))]) hs)) else hs);
          ct = (case type_arg args of
                  None \<Rightarrow> [] | Some t \<Rightarrow> if t \<noteq> FormData then [(''Content-Type'', JString (content_type t))] else [])
      in \<lparr>settings =
            obj_set ''url'' (JString (path args)) (obj_set ''responseType'' (response_format (format_arg args) (format this))
              (obj_set ''params'' (query_arg args) (obj_set ''headers'' (JObject (spread ct hs)) (spread [] requestParams)))),
          data = (if form then Form (createFormData fh (own_props (body args))) else Plain (body args))\<rparr>)"

definition request :: "'s axios \<Rightarrow> form_host \<Rightarrow> 's HttpClient \<Rightarrow> FullRequestParams \<Rightarrow> 's \<Rightarrow> jsval result \<times> 's" where
  "request ax fh this args s =
     (case secure_params this (secure_arg args) s of
        (Inl e, s') \<Rightarrow> (Inl e, s')
      | (Inr secureParams, s') \<Rightarrow> perform ax (defaults this) (axios_request_of fh this args secureParams) s')"


section \<open>Api\<close>

text \<open>The optional last argument of the queries: it may set everything but the path, the method, the query and the body.\<close>

record RequestParams =
  rp_secure :: "bool option"
  rp_type :: "ContentType option"
  rp_format :: "jsstring option option"
  rp_rest :: js_object

definition no_params :: RequestParams where
  "no_params = \<lparr>rp_secure = None, rp_type = None, rp_format = None, rp_rest = []\<rparr>"

text \<open>\<open>{ path: p, method: "GET", query: q, format: "json", ...params }\<close>\<close>

definition get_params :: "jsstring \<Rightarrow> jsval \<Rightarrow> RequestParams \<Rightarrow> FullRequestParams" where
  "get_params p q rp =
     \<lparr>secure_arg = rp_secure rp, path = p, type_arg = rp_type rp, query_arg = q,
      format_arg = nullish (rp_format rp) (Some (js ''json'')), body = JUndefined,
      params = spread [(''method'', JString (js ''GET''))] (rp_rest rp)\<rparr>"

subsection \<open>ts-client/arkeo.arkeo/rest.ts\<close>

definition queryActiveContract :: "'s axios \<Rightarrow> form_host \<Rightarrow> 's HttpClient \<Rightarrow> jsstring \<Rightarrow> jsstring \<Rightarrow> jsstring \<Rightarrow> RequestParams \<Rightarrow> 's \<Rightarrow> jsval result \<times> 's" where
  "queryActiveContract ax fh this v_provider v_service v_spender rp = request ax fh this (get_params (js ''/arkeo/active-contract/'' @ v_provider @ js ''/'' @ v_service @ js ''/'' @ v_spender) JUndefined rp)"

definition queryFetchContract :: "'s axios \<Rightarrow> form_host \<Rightarrow> 's HttpClient \<Rightarrow> jsstring \<Rightarrow> RequestParams \<Rightarrow> 's \<Rightarrow> jsval result \<times> 's" where
  "queryFetchContract ax fh this v_contractId rp = request ax fh this (get_params (js ''/arkeo/contract/'' @ v_contractId) JUndefined rp)"

definition queryContractAll :: "'s axios \<Rightarrow> form_host \<Rightarrow> 's HttpClient \<Rightarrow> jsval \<Rightarrow> RequestParams \<Rightarrow> 's \<Rightarrow> jsval result \<times> 's" where
  "queryContractAll ax fh this q rp = request ax fh this (get_params (js ''/arkeo/contracts'') q rp)"

definition queryParams :: "'s axios \<Rightarrow> form_host \<Rightarrow> 's HttpClient \<Rightarrow> RequestParams \<Rightarrow> 's \<Rightarrow> jsval result \<times> 's" where
  "queryParams ax fh this rp = request ax fh this (get_params (js ''/arkeo/params'') JUndefined rp)"

definition queryFetchProvider :: "'s axios \<Rightarrow> form_host \<Rightarrow> 's HttpClient \<Rightarrow> jsstring \<Rightarrow> jsstring \<Rightarrow> RequestParams \<Rightarrow> 's \<Rightarrow> jsval result \<times> 's" where
  "queryFetchProvider ax fh this v_pubkey v_service rp = request ax fh this (get_params (js ''/arkeo/provider/'' @ v_pubkey @ js ''/'' @ v_service) JUndefined rp)"

definition queryProviderAll :: "'s axios \<Rightarrow> form_host \<Rightarrow> 's HttpClient \<Rightarrow> jsval \<Rightarrow> RequestParams \<Rightarrow> 's \<Rightarrow> jsval result \<times> 's" where
  "queryProviderAll ax fh this q rp = request ax fh this (get_params (js ''/arkeo/providers'') q rp)"

subsection \<open>ts-client/arkeo.claim/rest.ts\<close>

definition claim_queryClaimRecord :: "'s axios \<Rightarrow> form_host \<Rightarrow> 's HttpClient \<Rightarrow> jsstring \<Rightarrow> jsval \<Rightarrow> RequestParams \<Rightarrow> 's \<Rightarrow> jsval result \<times> 's" where
  "claim_queryClaimRecord ax fh this v_address q rp = request ax fh this (get_params (js ''/arkeo/claim/claimrecord/'' @ v_address) q rp)"

definition claim_queryParams :: "'s axios \<Rightarrow> form_host \<Rightarrow> 's HttpClient \<Rightarrow> RequestParams \<Rightarrow> 's \<Rightarrow> jsval result \<times> 's" where
  "claim_queryParams ax fh this rp = request ax fh this (get_params (js ''/arkeo/claim/params'') JUndefined rp)"


section \<open>What a request carries\<close>

lemma obj_set_lookup [simp]: "map_of (obj_set k v ps) k' = (if k' = k then Some v else map_of ps k')"
  by (induction ps) auto

text \<open>The last of several sources wins, and in a source the last property of a name.\<close>

lemma spread_lookup: "map_of (spread t ps) k = (case map_of (rev ps) k of Some v \<Rightarrow> Some v | None \<Rightarrow> map_of t k)"
proof (induction ps arbitrary: t)
  case (Cons p ps)
  obtain k' v where p: "p = (k', v)" by (cases p)
  show ?case using Cons.IH [of "obj_set k' v t"]
    by (auto simp: p map_add_def split: option.split)
qed simp

lemma merge_lookup:
  "k \<noteq> ''headers'' \<Longrightarrow> map_of (mergeRequestParams d p1 p2) k =
     (case map_of (rev p2) k of
        Some v \<Rightarrow> Some v
      | None \<Rightarrow> (case map_of (rev p1) k of Some v \<Rightarrow> Some v | None \<Rightarrow> map_of (rev d) k))"
  by (simp add: mergeRequestParams_def spread_lookup split: option.split)

lemma headers_of_merge:
  "map_of (headers_of (mergeRequestParams d p1 p2)) k =
     (case map_of (rev (headers_of p2)) k of
        Some v \<Rightarrow> Some v
      | None \<Rightarrow> (case map_of (rev (headers_of p1)) k of
          Some v \<Rightarrow> Some v | None \<Rightarrow> map_of (rev (headers_of d)) k))"
proof -
  have "headers_of (mergeRequestParams d p1 p2) =
    spread (spread (spread [] (headers_of d)) (headers_of p1)) (headers_of p2)"
    by (subst headers_of_def) (simp add: mergeRequestParams_def)
  then show ?thesis by (simp add: spread_lookup split: option.split)
qed

lemma axios_request_lookup:
  "map_of (settings (axios_request_of fh this args sp)) ''url'' = Some (JString (path args))"
  "map_of (settings (axios_request_of fh this args sp)) ''params'' = Some (query_arg args)"
  "map_of (settings (axios_request_of fh this args sp)) ''responseType'' = Some (response_format (format_arg args) (format this))"
  "k \<notin> {''url'', ''params'', ''responseType'', ''headers''} \<Longrightarrow>
   map_of (settings (axios_request_of fh this args sp)) k = map_of (rev (mergeRequestParams (defaults this) (params args) sp)) k"
  by (simp_all add: axios_request_of_def Let_def spread_lookup split: option.split)

text \<open>The objects built here never repeat a property.\<close>

lemma obj_set_keys: "fst ` set (obj_set k v ps) = insert k (fst ` set ps)"
  by (induction k v ps rule: obj_set.induct) auto

lemma obj_set_distinct: "distinct (map fst ps) \<Longrightarrow> distinct (map fst (obj_set k v ps))"
  by (induction k v ps rule: obj_set.induct) (auto simp: obj_set_keys)

lemma spread_distinct: "distinct (map fst t) \<Longrightarrow> distinct (map fst (spread t ps))"
  by (induction t ps rule: spread.induct) (simp_all add: obj_set_distinct)

lemma merge_distinct: "distinct (map fst (mergeRequestParams d p1 p2))"
  unfolding mergeRequestParams_def by (intro obj_set_distinct spread_distinct) simp

lemma map_of_rev_distinct: "distinct (map fst ps) \<Longrightarrow> map_of (rev ps) = map_of ps"
proof (induction ps)
  case (Cons p ps)
  then have "map_of ps (fst p) = None" by (simp add: map_of_eq_None_iff)
  with Cons show ?case by (cases p) (auto simp: fun_eq_iff map_add_def split: option.split)
qed simp

text \<open>
  A GET request of a path with a query. Its response type is not set: \<open>response_format\<close> takes the format of the
  request only when the client has one of its own.
\<close>

definition gets :: "axios_request \<Rightarrow> jsstring \<Rightarrow> jsval \<Rightarrow> bool" where
  "gets req p q \<longleftrightarrow>
     map_of (settings req) ''url'' = Some (JString p) \<and> map_of (settings req) ''method'' = Some (JString (js ''GET''))
   \<and> map_of (settings req) ''params'' = Some q \<and> map_of (settings req) ''responseType'' = Some JUndefined
   \<and> data req = Plain JUndefined"

lemma request_get:
  assumes "securityWorker this = None" and "format this = None"
  shows "\<exists>req. request ax fh this (get_params p q no_params) s = perform ax (defaults this) req s \<and> gets req p q"
proof (intro exI conjI)
  let ?req = "axios_request_of fh this (get_params p q no_params) []"
  show "request ax fh this (get_params p q no_params) s = perform ax (defaults this) ?req s"
    using assms(1) by (simp add: request_def secure_params_def)
  have "map_of (settings ?req) ''method'' = Some (JString (js ''GET''))"
    by (simp add: axios_request_lookup(4) map_of_rev_distinct [OF merge_distinct] merge_lookup get_params_def no_params_def)
  then show "gets ?req p q"
    using assms(2)
    by (simp add: gets_def axios_request_lookup get_params_def no_params_def response_format_def)
      (simp add: axios_request_of_def Let_def sends_form_def)
qed

lemma queryClient_get:
  "\<exists>req. request ax fh (queryClient ax addr) (get_params p q no_params) s =
      perform ax (create ax [(''baseURL'', JString addr)]) req s \<and> gets req p q"
proof -
  have "defaults (queryClient ax addr) = create ax [(''baseURL'', JString addr)]"
    by (cases addr) (simp_all add: queryClient_def new_HttpClient_def)
  then show ?thesis
    using request_get [of "queryClient ax addr" ax fh p q s] by (simp add: queryClient_def new_HttpClient_def)
qed

end
