(* ===== verification/TcSamples.thy ===== *)
theory TcSamples
  imports PbLong Samples TcRpc TsClient RestClient
begin

text \<open>
  Concrete arguments for the properties of \<open>ts-client\<close>: messages over the protobuf
  wire format, a server, a chain with one account and a browser.
\<close>

section \<open>Messages\<close>

definition sample_tc_MsgOpenContract :: tc_MsgOpenContract where
  "sample_tc_MsgOpenContract =
     \<lparr>tc_MsgOpenContract.creator = [2, 128, 255],
      tc_MsgOpenContract.provider = [2, 128, 255],
      tc_MsgOpenContract.service = js ''service'',
      tc_MsgOpenContract.client = [2, 128, 255],
      tc_MsgOpenContract.delegate = [2, 128, 255],
      tc_MsgOpenContract.contractType = tc_ContractType_PAY_AS_YOU_GO,
      tc_MsgOpenContract.duration = Num 9,
      tc_MsgOpenContract.rate = Some sample_Coin,
      tc_MsgOpenContract.deposit = js ''deposit'',
      tc_MsgOpenContract.settlementDuration = Num 12,
      tc_MsgOpenContract.authorization = tc_ContractAuthorization_OPEN,
      tc_MsgOpenContract.queriesPerMinute = Num 14\<rparr>"

lemma sample_tc_MsgOpenContract_wf [simp]: "wf_tc_MsgOpenContract pb_wire sample_tc_MsgOpenContract"
  by (simp add: wf_tc_MsgOpenContract_def sample_tc_MsgOpenContract_def sample_simps tc_ContractAuthorization_defs tc_ContractType_defs)

definition sample_tc_MsgModProvider :: tc_MsgModProvider where
  "sample_tc_MsgModProvider =
     \<lparr>tc_MsgModProvider.creator = [2, 128, 255],
      tc_MsgModProvider.provider = [2, 128, 255],
      tc_MsgModProvider.service = js ''service'',
      tc_MsgModProvider.metadataUri = js ''metadata'',
      tc_MsgModProvider.metadataNonce = Num 7,
      tc_MsgModProvider.status = tc_ProviderStatus_ONLINE,
      tc_MsgModProvider.minContractDuration = Num 9,
      tc_MsgModProvider.maxContractDuration = Num 10,
      tc_MsgModProvider.subscriptionRate = [sample_Coin],
      tc_MsgModProvider.payAsYouGoRate = [sample_Coin],
      tc_MsgModProvider.settlementDuration = Num 13\<rparr>"

lemma sample_tc_MsgModProvider_wf [simp]: "wf_tc_MsgModProvider pb_wire sample_tc_MsgModProvider"
  by (simp add: wf_tc_MsgModProvider_def sample_tc_MsgModProvider_def sample_simps tc_ProviderStatus_defs)

definition sample_tc_MsgClaimEth :: tc_MsgClaimEth where
  "sample_tc_MsgClaimEth =
     \<lparr>tc_MsgClaimEth.creator = [2, 128, 255],
      tc_MsgClaimEth.ethAddress = js ''ethaddre'',
      tc_MsgClaimEth.signature = js ''signatur''\<rparr>"

lemma sample_tc_MsgClaimEth_wf [simp]: "wf_tc_MsgClaimEth pb_wire sample_tc_MsgClaimEth"
  by (simp add: wf_tc_MsgClaimEth_def sample_tc_MsgClaimEth_def sample_simps )


section \<open>Services\<close>

text \<open>A server of the queries that has one contract and counts the calls, and one of the transactions.\<close>

definition sample_tc_Query :: "nat tc_Query_service" where
  "sample_tc_Query =
     \<lparr>tc_Query_service.Params = (\<lambda>q s. (Inl (Error ''unimplemented''), s)),
      tc_Query_service.FetchProvider = (\<lambda>q s. (Inl (Error ''unimplemented''), s)),
      tc_Query_service.ProviderAll = (\<lambda>q s. (Inl (Error ''unimplemented''), s)),
      tc_Query_service.FetchContract = (\<lambda>q s. (Inr sample_QueryFetchContractResponse, Suc s)),
      tc_Query_service.ContractAll = (\<lambda>q s. (Inl (Error ''unimplemented''), s)),
      tc_Query_service.ActiveContract = (\<lambda>q s. (Inl (Error ''unimplemented''), s))\<rparr>"

definition sample_tc_Msg :: "nat tc_Msg_service" where
  "sample_tc_Msg =
     \<lparr>tc_Msg_service.BondProvider = (\<lambda>q s. (Inr MsgBondProviderResponse, Suc s)),
      tc_Msg_service.ModProvider = (\<lambda>q s. (Inr MsgModProviderResponse, Suc s)),
      tc_Msg_service.OpenContract = (\<lambda>q s. (Inr MsgOpenContractResponse, Suc s)),
      tc_Msg_service.CloseContract = (\<lambda>q s. (Inr MsgCloseContractResponse, Suc s)),
      tc_Msg_service.ClaimContractIncome = (\<lambda>q s. (Inr MsgClaimContractIncomeResponse, Suc s)),
      tc_Msg_service.SetVersion = (\<lambda>q s. (Inr MsgSetVersionResponse, Suc s))\<rparr>"

text \<open>A chain with one account, whose signers are numbers and whose state counts the transactions.\<close>

definition sample_cosmjs :: "(nat, unit, nat, nat) cosmjs" where
  "sample_cosmjs =
     \<lparr>cosmjs.getAccounts = (\<lambda>g s. (Inr [js ''arkeo1''], s)),
      cosmjs.connectWithSigner = (\<lambda>u g reg p s. (Inr (), s)),
      cosmjs.signAndBroadcast = (\<lambda>c a ms fee memo s. (Inr s, Suc s))\<rparr>"

definition sample_tc_claim_Msg :: "nat tc_claim_Msg_service" where
  "sample_tc_claim_Msg =
     \<lparr>tc_claim_Msg_service.ClaimEth = (\<lambda>q s. (Inl (Error []), s)), tc_claim_Msg_service.ClaimArkeo = (\<lambda>q s. (Inl (Error []), s)),
      tc_claim_Msg_service.TransferClaim = (\<lambda>q s. (Inl (Error []), s)), tc_claim_Msg_service.AddClaim = (\<lambda>q s. (Inl (Error []), s))\<rparr>"

definition sample_tc_claim_Query :: "nat tc_claim_Query_service" where
  "sample_tc_claim_Query =
     \<lparr>tc_claim_Query_service.Params = (\<lambda>q s. (Inl (Error []), s)),
      tc_claim_Query_service.ClaimRecord = (\<lambda>q s. (Inr sample_QueryClaimRecordResponse, Suc s))\<rparr>"

definition sample_opts :: "nat TxClientOptions" where
  "sample_opts = \<lparr>TxClientOptions.addr = js ''rpc'', TxClientOptions.prefix = js ''arkeo'', TxClientOptions.signer = Some 7\<rparr>"

definition sample_env :: Env where
  "sample_env = \<lparr>Env.apiURL = js ''api'', Env.rpcURL = js ''rpc'', Env.prefix = Some (js ''arkeo'')\<rparr>"

definition sample_axios :: "nat axios" where
  "sample_axios = \<lparr>axios.create = (\<lambda>c. c), axios.perform = (\<lambda>d r s. (Inr JNull, Suc s))\<rparr>"

text \<open>A wallet that refuses to be enabled, and one that has a signer.\<close>

definition sample_keplr :: "js_error + nat \<Rightarrow> (nat, nat) keplr" where
  "sample_keplr r =
     \<lparr>keplr.import_module = (\<lambda>p s. (Inr (), s)), keplr.serviceGetNodeInfo = (\<lambda>u s. (Inr (Some (js ''arkeo'')), s)),
      keplr.queryStakingParams = (\<lambda>u s. (Inr None, s)), keplr.queryTotalSupply = (\<lambda>u s. (Inr None, s)),
      keplr.experimentalSuggestChain = (\<lambda>i s. (Inr (), Suc s)), keplr.set_defaultOptions = (\<lambda>s. s),
      keplr.enable = (\<lambda>c s. (case r of Inl e \<Rightarrow> Inl e | Inr _ \<Rightarrow> Inr (), s)),
      keplr.getOfflineSigner = (\<lambda>c s. (r, s))\<rparr>"

end
