(* ===== verification/Recursion.thy ===== *)
theory Recursion
  imports OptionalFields
begin

text \<open>
  Decoders that call themselves. The contract \<open>recursive_decoder\<close> of such a decoder: one level of it is
  the decoding loop with a switch that may call the decoder with one level of stack less, on the
  reader it has at that moment. Its lemmas: the decoder returns or throws whatever the stack; a stack
  with more levels than the input has bytes is as good as any larger one, since each level reads at
  least a byte; and two bytes of input per level are enough to use up the stack, since a length is not
  compared with what is left of the input.
\<close>

context wire_laws
begin

lemma run_agree:
  assumes sw: "good_sw sw" "good_sw sw'"
    and agree: "\<And>tag m r. length (inp r) < N \<Longrightarrow> sw tag m r = sw' tag m r"
  shows "length (inp r) \<le> N \<Longrightarrow> run sw stop m r = run sw' stop m r"
  using sw(1)
proof (induction m r rule: run_induct [of sw stop])
  case (step m r)
  show ?case
  proof (cases "r_pos L r < stop")
    case False
    then show ?thesis by (simp add: run_done)
  next
    case True
    have len: "length (inp r1) < N" "r_pos L r < r_pos L r1" if "r_uint32 L r = Inr (tag, r1)" for tag r1
      using step.prems use_uint32 [OF that] by (auto simp: neq_Nil_conv)
    have IH: "run sw stop m' r2 = run sw' stop m' r2" if "r_uint32 L r = Inr (tag, r1)" "fwd r1 r2" for tag r1 r2 m'
      using len [OF that(1)] that(2) by (intro step.IH [OF True]) (auto simp: fwd_def)
    show ?thesis
      unfolding run_step [OF sw(1) True] run_step [OF sw(2) True]
      using IH good_actD [OF sw(2)] fwd_skip agree [OF len(1)]
      by (auto intro!: bindE_cong_when split: option.splits)
  qed
qed

end

locale recursive_decoder = wire_laws L F out inp
  for L :: "('w, 'r) wire" and F out inp +
  fixes dec :: "nat \<Rightarrow> 'r input \<Rightarrow> nat option \<Rightarrow> ('m \<times> 'r) result"
    and sw :: "('r input \<Rightarrow> nat option \<Rightarrow> ('m \<times> 'r) result) \<Rightarrow> u32 \<Rightarrow> 'm \<Rightarrow> ('m, 'r) action"
    and base :: 'm and tag :: u32 and push :: "'m \<Rightarrow> 'm"
  assumes dec_0: "dec 0 input len = Inl stack_overflow"
    and dec_Suc: "dec (Suc n) input len = decode_msg L (sw (dec n)) base input len"
    and sw_good: "good_op (submsg L d) \<Longrightarrow> good_sw (sw d)"
    and sw_calls: "submsg L d r = submsg L d' r \<Longrightarrow> sw d t m r = sw d' t m r"
    and sw_tag: "sw d tag base = readf (submsg L d) push"
begin

lemma sub_good: "good_op (submsg L (dec n))"
proof (induction n)
  case 0
  have "dec 0 = (\<lambda>_ _. Inl stack_overflow)" by (intro ext dec_0)
  then show ?case by (simp add: good_stack_overflow)
next
  case (Suc n)
  have "dec (Suc n) = decode_msg L (sw (dec n)) base" by (intro ext dec_Suc)
  then show ?case using good_submsg [OF sw_good [OF Suc]] by simp
qed

lemma level_good: "good_sw (sw (dec n))"
  by (rule sw_good [OF sub_good])

lemma returns: "dec n input len \<noteq> Inl Diverges"
proof (cases n)
  case (Suc k)
  then show ?thesis using run_good [OF level_good] by (simp add: dec_Suc decode_msg_run ends_def Let_def)
qed (simp add: dec_0 stack_overflow_def)

text \<open>More stack than bytes is enough.\<close>

lemma enough_stack:
  "length (inp (reader_of L input)) < n \<Longrightarrow> n \<le> n' \<Longrightarrow> dec n' input len = dec n input len"
proof (induction n arbitrary: n' input len)
  case (Suc n)
  then obtain k where k: "n' = Suc k" "n \<le> k" by (cases n') auto
  let ?r = "reader_of L input"
  have sub: "submsg L (dec k) r = submsg L (dec n) r" if "length (inp r) < length (inp ?r)" for r
  proof -
    have "dec k (AReader r1) len' = dec n (AReader r1) len'" if "r_uint32 L r = Inr (l, r1)" for l r1 len'
    proof (rule Suc.IH [OF _ k(2)])
      have "length (inp r1) \<le> length (inp r)" using use_uint32 [OF that] by auto
      then show "length (inp (reader_of L (AReader r1))) < n"
        using \<open>length (inp r) < length (inp ?r)\<close> Suc.prems(1) by (simp add: reader_of_def)
    qed
    then show ?thesis by (auto simp: submsg_def intro!: bindE_cong_when)
  qed
  show ?case
    unfolding k(1) dec_Suc decode_msg_run Let_def
    by (rule run_agree [OF level_good level_good, of "length (inp ?r)"]) (auto intro: sw_calls sub)
qed simp

text \<open>Two bytes for each level use it up.\<close>

definition nested :: "nat \<Rightarrow> bytes" where
  "nested n = concat (replicate n (e_uint32 F tag @ e_uint32 F 1))"

lemma level_exhausted:
  assumes r: "inp r = e_uint32 F tag @ e_uint32 F 1 @ t" and stop: "r_pos L r < stop"
    and dec: "\<And>r2. inp r2 = t \<Longrightarrow> dec n (AReader r2) (Some 1) = Inl e"
  shows "run (sw (dec n)) stop base r = Inl e"
proof -
  obtain r1 where r1: "r_uint32 L r = Inr (tag, r1)" "inp r1 = e_uint32 F 1 @ t"
    using tag_read [OF r] by blast
  obtain r2 where "r_uint32 L r1 = Inr (1, r2)" "inp r2 = t" using tag_read [OF r1(2)] by blast
  then have "sw (dec n) tag base r1 = Inl e"
    using dec [of r2] by (simp add: sw_tag readf_def submsg_def)
  then show ?thesis using r1(1) by (simp add: run_step [OF level_good stop])
qed

lemma nested_sub: "inp r = nested n \<Longrightarrow> dec n (AReader r) (Some 1) = Inl stack_overflow"
proof (induction n arbitrary: r)
  case (Suc n)
  then show ?case
    unfolding dec_Suc decode_msg_run by (auto simp: reader_of_def nested_def intro!: level_exhausted)
qed (rule dec_0)

lemma stack_exhausted: "dec n (ABuffer (nested n)) None = Inl stack_overflow"
proof (cases n)
  case (Suc k)
  let ?r = "Reader_new L (nested n)"
  have r: "inp ?r = e_uint32 F tag @ e_uint32 F 1 @ nested k" by (simp add: inp_new Suc nested_def)
  then obtain r1 where "r_uint32 L ?r = Inr (tag, r1)" using tag_read [OF r] by blast
  then have "r_pos L ?r < r_len L ?r"
    using tag_progress [of ?r tag r1] fwd_len [OF fwd_tag, of ?r tag r1] inp_len [of r1] by simp
  then show ?thesis
    unfolding Suc dec_Suc decode_msg_run
    using level_exhausted [OF r _ nested_sub] by (simp add: reader_of_def Suc)
qed (simp add: dec_0)

end

end
