(* ===== verification/HttpMsgs.thy ===== *)
theory HttpMsgs
  imports Recursion
begin

text \<open>
  The rules that map methods to HTTP (\<open>google/api/http.ts\<close>), which nest, and the descriptions of
  interfaces and scalars (\<open>cosmos_proto/cosmos.ts\<close>).
\<close>


section \<open>google/api/http.ts\<close>

subsection \<open>CustomHttpPattern\<close>

record CustomHttpPattern =
  kind :: jsstring
  path :: jsstring

definition createBase_CustomHttpPattern :: CustomHttpPattern where
  "createBase_CustomHttpPattern = \<lparr>CustomHttpPattern.kind = [],
     CustomHttpPattern.path = []\<rparr>"

definition encode_CustomHttpPattern :: "('w, 'r) wire \<Rightarrow> CustomHttpPattern \<Rightarrow> 'w \<Rightarrow> 'w result" where
  "encode_CustomHttpPattern L message = seqE
    [whenE (CustomHttpPattern.kind message \<noteq> []) (seqE [w_uint32 L 10, w_string L (CustomHttpPattern.kind message)]),
     whenE (CustomHttpPattern.path message \<noteq> []) (seqE [w_uint32 L 18, w_string L (CustomHttpPattern.path message)])]"

definition CustomHttpPattern_switch :: "('w, 'r) wire \<Rightarrow> u32 \<Rightarrow> CustomHttpPattern \<Rightarrow> (CustomHttpPattern, 'r) action" where
  "CustomHttpPattern_switch L tag message = js_switch (drop_bit 3 tag)
    [(1, when_tag tag 10 (readf (r_string L) (\<lambda>v. message\<lparr>CustomHttpPattern.kind := v\<rparr>))),
     (2, when_tag tag 18 (readf (r_string L) (\<lambda>v. message\<lparr>CustomHttpPattern.path := v\<rparr>)))]
    break_out"

definition decode_CustomHttpPattern :: "('w, 'r) wire \<Rightarrow> 'r input \<Rightarrow> nat option \<Rightarrow> (CustomHttpPattern \<times> 'r) result" where
  "decode_CustomHttpPattern L = decode_msg L (CustomHttpPattern_switch L) createBase_CustomHttpPattern"

definition fromJSON_CustomHttpPattern :: "host \<Rightarrow> jsval \<Rightarrow> CustomHttpPattern result" where
  "fromJSON_CustomHttpPattern h object =
     bindE (fieldE object ''kind'' (stringE h) []) (\<lambda>v_kind.
     bindE (fieldE object ''path'' (stringE h) []) (\<lambda>v_path.
     Inr \<lparr>CustomHttpPattern.kind = v_kind, CustomHttpPattern.path = v_path\<rparr>))"

definition toJSON_CustomHttpPattern :: "host \<Rightarrow> CustomHttpPattern \<Rightarrow> jsval result" where
  "toJSON_CustomHttpPattern h message = objE
    [jfieldE (CustomHttpPattern.kind message \<noteq> []) ''kind'' (Inr (JString (CustomHttpPattern.kind message))),
     jfieldE (CustomHttpPattern.path message \<noteq> []) ''path'' (Inr (JString (CustomHttpPattern.path message)))]"

record CustomHttpPattern_Partial =
  kind :: "jsstring option"
  path :: "jsstring option"

definition CustomHttpPattern_empty :: CustomHttpPattern_Partial where
  "CustomHttpPattern_empty = \<lparr>CustomHttpPattern_Partial.kind = None, CustomHttpPattern_Partial.path = None\<rparr>"

definition fromPartial_CustomHttpPattern :: "CustomHttpPattern_Partial \<Rightarrow> CustomHttpPattern" where
  "fromPartial_CustomHttpPattern object = createBase_CustomHttpPattern\<lparr>CustomHttpPattern.kind := nullish (CustomHttpPattern_Partial.kind object) [],
     CustomHttpPattern.path := nullish (CustomHttpPattern_Partial.path object) []\<rparr>"

definition create_CustomHttpPattern :: "CustomHttpPattern_Partial option \<Rightarrow> CustomHttpPattern" where
  "create_CustomHttpPattern base = fromPartial_CustomHttpPattern (nullish base CustomHttpPattern_empty)"

text \<open>A message as a partial message.\<close>

definition partial_of_CustomHttpPattern :: "CustomHttpPattern \<Rightarrow> CustomHttpPattern_Partial" where
  "partial_of_CustomHttpPattern m =
     \<lparr>CustomHttpPattern_Partial.kind = Some (CustomHttpPattern.kind m),
      CustomHttpPattern_Partial.path = Some (CustomHttpPattern.path m)\<rparr>"

definition wf_CustomHttpPattern :: "('w, 'r) wire \<Rightarrow> CustomHttpPattern \<Rightarrow> bool" where
  "wf_CustomHttpPattern L m \<longleftrightarrow> wire_string (CustomHttpPattern.kind m)
     \<and> wire_string (CustomHttpPattern.path m)"

definition wfj_CustomHttpPattern :: "CustomHttpPattern \<Rightarrow> bool" where
  "wfj_CustomHttpPattern m \<longleftrightarrow> True"

subsection \<open>HttpRule\<close>

datatype HttpRule = HttpRule
  (selector: "jsstring")
  (get': "jsstring option")
  (put': "jsstring option")
  (post: "jsstring option")
  (delete: "jsstring option")
  (patch: "jsstring option")
  (custom: "CustomHttpPattern option")
  (body: "jsstring")
  (responseBody: "jsstring")
  (additionalBindings: "HttpRule list")

primrec HttpRule_selector_update :: "(jsstring \<Rightarrow> jsstring) \<Rightarrow> HttpRule \<Rightarrow> HttpRule" where
  "HttpRule_selector_update f (HttpRule a0 a1 a2 a3 a4 a5 a6 a7 a8 a9) = HttpRule (f a0) a1 a2 a3 a4 a5 a6 a7 a8 a9"

primrec HttpRule_get'_update :: "(jsstring option \<Rightarrow> jsstring option) \<Rightarrow> HttpRule \<Rightarrow> HttpRule" where
  "HttpRule_get'_update f (HttpRule a0 a1 a2 a3 a4 a5 a6 a7 a8 a9) = HttpRule a0 (f a1) a2 a3 a4 a5 a6 a7 a8 a9"

primrec HttpRule_put'_update :: "(jsstring option \<Rightarrow> jsstring option) \<Rightarrow> HttpRule \<Rightarrow> HttpRule" where
  "HttpRule_put'_update f (HttpRule a0 a1 a2 a3 a4 a5 a6 a7 a8 a9) = HttpRule a0 a1 (f a2) a3 a4 a5 a6 a7 a8 a9"

primrec HttpRule_post_update :: "(jsstring option \<Rightarrow> jsstring option) \<Rightarrow> HttpRule \<Rightarrow> HttpRule" where
  "HttpRule_post_update f (HttpRule a0 a1 a2 a3 a4 a5 a6 a7 a8 a9) = HttpRule a0 a1 a2 (f a3) a4 a5 a6 a7 a8 a9"

primrec HttpRule_delete_update :: "(jsstring option \<Rightarrow> jsstring option) \<Rightarrow> HttpRule \<Rightarrow> HttpRule" where
  "HttpRule_delete_update f (HttpRule a0 a1 a2 a3 a4 a5 a6 a7 a8 a9) = HttpRule a0 a1 a2 a3 (f a4) a5 a6 a7 a8 a9"

primrec HttpRule_patch_update :: "(jsstring option \<Rightarrow> jsstring option) \<Rightarrow> HttpRule \<Rightarrow> HttpRule" where
  "HttpRule_patch_update f (HttpRule a0 a1 a2 a3 a4 a5 a6 a7 a8 a9) = HttpRule a0 a1 a2 a3 a4 (f a5) a6 a7 a8 a9"

primrec HttpRule_custom_update :: "(CustomHttpPattern option \<Rightarrow> CustomHttpPattern option) \<Rightarrow> HttpRule \<Rightarrow> HttpRule" where
  "HttpRule_custom_update f (HttpRule a0 a1 a2 a3 a4 a5 a6 a7 a8 a9) = HttpRule a0 a1 a2 a3 a4 a5 (f a6) a7 a8 a9"

primrec HttpRule_body_update :: "(jsstring \<Rightarrow> jsstring) \<Rightarrow> HttpRule \<Rightarrow> HttpRule" where
  "HttpRule_body_update f (HttpRule a0 a1 a2 a3 a4 a5 a6 a7 a8 a9) = HttpRule a0 a1 a2 a3 a4 a5 a6 (f a7) a8 a9"

primrec HttpRule_responseBody_update :: "(jsstring \<Rightarrow> jsstring) \<Rightarrow> HttpRule \<Rightarrow> HttpRule" where
  "HttpRule_responseBody_update f (HttpRule a0 a1 a2 a3 a4 a5 a6 a7 a8 a9) = HttpRule a0 a1 a2 a3 a4 a5 a6 a7 (f a8) a9"

primrec HttpRule_additionalBindings_update :: "(HttpRule list \<Rightarrow> HttpRule list) \<Rightarrow> HttpRule \<Rightarrow> HttpRule" where
  "HttpRule_additionalBindings_update f (HttpRule a0 a1 a2 a3 a4 a5 a6 a7 a8 a9) = HttpRule a0 a1 a2 a3 a4 a5 a6 a7 a8 (f a9)"

definition createBase_HttpRule :: HttpRule where
  "createBase_HttpRule = HttpRule [] None None None None None None [] [] []"

primrec encode_HttpRule :: "('w, 'r) wire \<Rightarrow> nat \<Rightarrow> HttpRule \<Rightarrow> 'w \<Rightarrow> 'w result" where
  "encode_HttpRule L 0 message = (\<lambda>_. Inl stack_overflow)"
| "encode_HttpRule L (Suc n) message = seqE
    [whenE (HttpRule.selector message \<noteq> []) (seqE [w_uint32 L 10, w_string L (HttpRule.selector message)]),
     someE (HttpRule.get' message) (\<lambda>v. seqE [w_uint32 L 18, w_string L v]),
     someE (HttpRule.put' message) (\<lambda>v. seqE [w_uint32 L 26, w_string L v]),
     someE (HttpRule.post message) (\<lambda>v. seqE [w_uint32 L 34, w_string L v]),
     someE (HttpRule.delete message) (\<lambda>v. seqE [w_uint32 L 42, w_string L v]),
     someE (HttpRule.patch message) (\<lambda>v. seqE [w_uint32 L 50, w_string L v]),
     someE (HttpRule.custom message) (\<lambda>v. seqE [w_uint32 L 66, w_fork L, encode_CustomHttpPattern L v, w_join L]),
     whenE (HttpRule.body message \<noteq> []) (seqE [w_uint32 L 58, w_string L (HttpRule.body message)]),
     whenE (HttpRule.responseBody message \<noteq> []) (seqE [w_uint32 L 98, w_string L (HttpRule.responseBody message)]),
     forE (\<lambda>v. seqE [w_uint32 L 90, w_fork L, encode_HttpRule L n v, w_join L]) (HttpRule.additionalBindings message)]"

definition HttpRule_switch :: "('w, 'r) wire \<Rightarrow> ('r input \<Rightarrow> nat option \<Rightarrow> (HttpRule \<times> 'r) result) \<Rightarrow> u32 \<Rightarrow> HttpRule \<Rightarrow> (HttpRule, 'r) action" where
  "HttpRule_switch L dec tag message = js_switch (drop_bit 3 tag)
    [(1, when_tag tag 10 (readf (r_string L) (\<lambda>v. HttpRule_selector_update (\<lambda>_. v) message))),
     (2, when_tag tag 18 (readf (r_string L) (\<lambda>v. HttpRule_get'_update (\<lambda>_. Some v) message))),
     (3, when_tag tag 26 (readf (r_string L) (\<lambda>v. HttpRule_put'_update (\<lambda>_. Some v) message))),
     (4, when_tag tag 34 (readf (r_string L) (\<lambda>v. HttpRule_post_update (\<lambda>_. Some v) message))),
     (5, when_tag tag 42 (readf (r_string L) (\<lambda>v. HttpRule_delete_update (\<lambda>_. Some v) message))),
     (6, when_tag tag 50 (readf (r_string L) (\<lambda>v. HttpRule_patch_update (\<lambda>_. Some v) message))),
     (8, when_tag tag 66 (readf (submsg L (decode_CustomHttpPattern L)) (\<lambda>v. HttpRule_custom_update (\<lambda>_. Some v) message))),
     (7, when_tag tag 58 (readf (r_string L) (\<lambda>v. HttpRule_body_update (\<lambda>_. v) message))),
     (12, when_tag tag 98 (readf (r_string L) (\<lambda>v. HttpRule_responseBody_update (\<lambda>_. v) message))),
     (11, when_tag tag 90 (readf (submsg L dec) (\<lambda>v. HttpRule_additionalBindings_update (\<lambda>_. HttpRule.additionalBindings message @ [v]) message)))]
    break_out"

primrec decode_HttpRule :: "('w, 'r) wire \<Rightarrow> nat \<Rightarrow> 'r input \<Rightarrow> nat option \<Rightarrow> (HttpRule \<times> 'r) result" where
  "decode_HttpRule L 0 = (\<lambda>_ _. Inl stack_overflow)"
| "decode_HttpRule L (Suc n) = decode_msg L (HttpRule_switch L (decode_HttpRule L n)) createBase_HttpRule"

primrec fromJSON_HttpRule :: "host \<Rightarrow> nat \<Rightarrow> jsval \<Rightarrow> HttpRule result" where
  "fromJSON_HttpRule h 0 object = Inl stack_overflow"
| "fromJSON_HttpRule h (Suc n) object = bindE (fieldE object ''selector'' (stringE h) []) (\<lambda>v_selector.
     bindE (optE object ''get'' (stringE h)) (\<lambda>v_get.
     bindE (optE object ''put'' (stringE h)) (\<lambda>v_put.
     bindE (optE object ''post'' (stringE h)) (\<lambda>v_post.
     bindE (optE object ''delete'' (stringE h)) (\<lambda>v_delete.
     bindE (optE object ''patch'' (stringE h)) (\<lambda>v_patch.
     bindE (optE object ''custom'' (fromJSON_CustomHttpPattern h)) (\<lambda>v_custom.
     bindE (fieldE object ''body'' (stringE h) []) (\<lambda>v_body.
     bindE (fieldE object ''responseBody'' (stringE h) []) (\<lambda>v_responseBody.
     bindE (arrayE object ''additionalBindings'' (fromJSON_HttpRule h n)) (\<lambda>v_additionalBindings.
     Inr (HttpRule v_selector v_get v_put v_post v_delete v_patch v_custom v_body v_responseBody v_additionalBindings)))))))))))"

primrec toJSON_HttpRule :: "host \<Rightarrow> nat \<Rightarrow> HttpRule \<Rightarrow> jsval result" where
  "toJSON_HttpRule h 0 message = Inl stack_overflow"
| "toJSON_HttpRule h (Suc n) message = objE
    [jfieldE (HttpRule.selector message \<noteq> []) ''selector'' (Inr (JString (HttpRule.selector message))),
     joptE ''get'' (\<lambda>v. Inr (JString v)) (HttpRule.get' message),
     joptE ''put'' (\<lambda>v. Inr (JString v)) (HttpRule.put' message),
     joptE ''post'' (\<lambda>v. Inr (JString v)) (HttpRule.post message),
     joptE ''delete'' (\<lambda>v. Inr (JString v)) (HttpRule.delete message),
     joptE ''patch'' (\<lambda>v. Inr (JString v)) (HttpRule.patch message),
     joptE ''custom'' (toJSON_CustomHttpPattern h) (HttpRule.custom message),
     jfieldE (HttpRule.body message \<noteq> []) ''body'' (Inr (JString (HttpRule.body message))),
     jfieldE (HttpRule.responseBody message \<noteq> []) ''responseBody'' (Inr (JString (HttpRule.responseBody message))),
     jarrayE ''additionalBindings'' (toJSON_HttpRule h n) (HttpRule.additionalBindings message)]"

datatype HttpRule_Partial = HttpRule_Partial
  (selector: "jsstring option")
  (get': "jsstring option")
  (put': "jsstring option")
  (post: "jsstring option")
  (delete: "jsstring option")
  (patch: "jsstring option")
  (custom: "CustomHttpPattern_Partial option")
  (body: "jsstring option")
  (responseBody: "jsstring option")
  (additionalBindings: "HttpRule_Partial list option")

definition HttpRule_empty :: HttpRule_Partial where
  "HttpRule_empty = HttpRule_Partial None None None None None None None None None None"

primrec fromPartial_HttpRule :: "nat \<Rightarrow> HttpRule_Partial \<Rightarrow> HttpRule result" where
  "fromPartial_HttpRule 0 object = Inl stack_overflow"
| "fromPartial_HttpRule (Suc n) object = 
     bindE (partial_mapE (fromPartial_HttpRule n) (HttpRule_Partial.additionalBindings object)) (\<lambda>v_additionalBindings.
     Inr (HttpRule
       (nullish (HttpRule_Partial.selector object) [])
       (HttpRule_Partial.get' object)
       (HttpRule_Partial.put' object)
       (HttpRule_Partial.post object)
       (HttpRule_Partial.delete object)
       (HttpRule_Partial.patch object)
       (map_option fromPartial_CustomHttpPattern (HttpRule_Partial.custom object))
       (nullish (HttpRule_Partial.body object) [])
       (nullish (HttpRule_Partial.responseBody object) [])
       v_additionalBindings))"

definition create_HttpRule :: "nat \<Rightarrow> HttpRule_Partial option \<Rightarrow> HttpRule result" where
  "create_HttpRule n base = fromPartial_HttpRule n (nullish base HttpRule_empty)"

primrec wf_HttpRule :: "('w, 'r) wire \<Rightarrow> nat \<Rightarrow> HttpRule \<Rightarrow> bool" where
  "wf_HttpRule L 0 m = False"
| "wf_HttpRule L (Suc n) m = (wire_string (HttpRule.selector m)
     \<and> pred_option wire_string (HttpRule.get' m)
     \<and> pred_option wire_string (HttpRule.put' m)
     \<and> pred_option wire_string (HttpRule.post m)
     \<and> pred_option wire_string (HttpRule.delete m)
     \<and> pred_option wire_string (HttpRule.patch m)
     \<and> pred_option (\<lambda>v. wf_CustomHttpPattern L v \<and> fits L (encode_CustomHttpPattern L v)) (HttpRule.custom m)
     \<and> wire_string (HttpRule.body m)
     \<and> wire_string (HttpRule.responseBody m)
     \<and> list_all (\<lambda>v. wf_HttpRule L n v \<and> fits L (encode_HttpRule L n v)) (HttpRule.additionalBindings m))"

primrec wfj_HttpRule :: "nat \<Rightarrow> HttpRule \<Rightarrow> bool" where
  "wfj_HttpRule 0 m = False"
| "wfj_HttpRule (Suc n) m = (pred_option wfj_CustomHttpPattern (HttpRule.custom m)
     \<and> list_all (wfj_HttpRule n) (HttpRule.additionalBindings m))"

subsection \<open>Http\<close>

record Http =
  rules :: "HttpRule list"
  fullyDecodeReservedExpansion :: bool

definition createBase_Http :: Http where
  "createBase_Http = \<lparr>Http.rules = [],
     Http.fullyDecodeReservedExpansion = False\<rparr>"

definition encode_Http :: "('w, 'r) wire \<Rightarrow> nat \<Rightarrow> Http \<Rightarrow> 'w \<Rightarrow> 'w result" where
  "encode_Http L n message = seqE
    [forE (\<lambda>v. seqE [w_uint32 L 10, w_fork L, encode_HttpRule L n v, w_join L]) (Http.rules message),
     whenE (Http.fullyDecodeReservedExpansion message \<noteq> False) (seqE [w_uint32 L 16, w_bool L (Http.fullyDecodeReservedExpansion message)])]"

definition Http_switch :: "('w, 'r) wire \<Rightarrow> nat \<Rightarrow> u32 \<Rightarrow> Http \<Rightarrow> (Http, 'r) action" where
  "Http_switch L n tag message = js_switch (drop_bit 3 tag)
    [(1, when_tag tag 10 (readf (submsg L (decode_HttpRule L n)) (\<lambda>v. message\<lparr>Http.rules := Http.rules message @ [v]\<rparr>))),
     (2, when_tag tag 16 (readf (r_bool L) (\<lambda>v. message\<lparr>Http.fullyDecodeReservedExpansion := v\<rparr>)))]
    break_out"

definition decode_Http :: "('w, 'r) wire \<Rightarrow> nat \<Rightarrow> 'r input \<Rightarrow> nat option \<Rightarrow> (Http \<times> 'r) result" where
  "decode_Http L n = decode_msg L (Http_switch L n) createBase_Http"

definition fromJSON_Http :: "host \<Rightarrow> nat \<Rightarrow> jsval \<Rightarrow> Http result" where
  "fromJSON_Http h n object =
     bindE (arrayE object ''rules'' (fromJSON_HttpRule h n)) (\<lambda>v_rules.
     bindE (fieldE object ''fullyDecodeReservedExpansion'' booleanE False) (\<lambda>v_fullyDecodeReservedExpansion.
     Inr \<lparr>Http.rules = v_rules, Http.fullyDecodeReservedExpansion = v_fullyDecodeReservedExpansion\<rparr>))"

definition toJSON_Http :: "host \<Rightarrow> nat \<Rightarrow> Http \<Rightarrow> jsval result" where
  "toJSON_Http h n message = objE
    [jarrayE ''rules'' (toJSON_HttpRule h n) (Http.rules message),
     jfieldE (Http.fullyDecodeReservedExpansion message \<noteq> False) ''fullyDecodeReservedExpansion'' (Inr (JBool (Http.fullyDecodeReservedExpansion message)))]"

record Http_Partial =
  rules :: "HttpRule_Partial list option"
  fullyDecodeReservedExpansion :: "bool option"

definition Http_empty :: Http_Partial where
  "Http_empty = \<lparr>Http_Partial.rules = None, Http_Partial.fullyDecodeReservedExpansion = None\<rparr>"

definition fromPartial_Http :: "nat \<Rightarrow> Http_Partial \<Rightarrow> Http result" where
  "fromPartial_Http n object =
     bindE (partial_mapE (fromPartial_HttpRule n) (Http_Partial.rules object)) (\<lambda>v_rules.
     Inr (createBase_Http\<lparr>Http.rules := v_rules,
     Http.fullyDecodeReservedExpansion := nullish (Http_Partial.fullyDecodeReservedExpansion object) False\<rparr>))"

definition create_Http :: "nat \<Rightarrow> Http_Partial option \<Rightarrow> Http result" where
  "create_Http n base = fromPartial_Http n (nullish base Http_empty)"

definition wf_Http :: "('w, 'r) wire \<Rightarrow> nat \<Rightarrow> Http \<Rightarrow> bool" where
  "wf_Http L n m \<longleftrightarrow> list_all (\<lambda>v. wf_HttpRule L n v \<and> fits L (encode_HttpRule L n v)) (Http.rules m)"

definition wfj_Http :: "nat \<Rightarrow> Http \<Rightarrow> bool" where
  "wfj_Http n m \<longleftrightarrow> list_all (wfj_HttpRule n) (Http.rules m)"


section \<open>cosmos_proto/cosmos.ts\<close>

type_synonym ScalarType = number

definition ScalarType_SCALAR_TYPE_UNSPECIFIED :: ScalarType where
  "ScalarType_SCALAR_TYPE_UNSPECIFIED = Num 0"

definition ScalarType_SCALAR_TYPE_STRING :: ScalarType where
  "ScalarType_SCALAR_TYPE_STRING = Num 1"

definition ScalarType_SCALAR_TYPE_BYTES :: ScalarType where
  "ScalarType_SCALAR_TYPE_BYTES = Num 2"

definition ScalarType_UNRECOGNIZED :: ScalarType where
  "ScalarType_UNRECOGNIZED = Num (- 1)"

definition scalarTypeFromJSON :: "jsval \<Rightarrow> ScalarType" where
  "scalarTypeFromJSON object =
    (if object = JNumber (Num 0) \<or> object = JString (js ''SCALAR_TYPE_UNSPECIFIED'')
       then ScalarType_SCALAR_TYPE_UNSPECIFIED
     else if object = JNumber (Num 1) \<or> object = JString (js ''SCALAR_TYPE_STRING'')
       then ScalarType_SCALAR_TYPE_STRING
     else if object = JNumber (Num 2) \<or> object = JString (js ''SCALAR_TYPE_BYTES'')
       then ScalarType_SCALAR_TYPE_BYTES
     else ScalarType_UNRECOGNIZED)"

definition scalarTypeToJSON :: "ScalarType \<Rightarrow> jsstring" where
  "scalarTypeToJSON object =
    (if object = ScalarType_SCALAR_TYPE_UNSPECIFIED then js ''SCALAR_TYPE_UNSPECIFIED''
     else if object = ScalarType_SCALAR_TYPE_STRING then js ''SCALAR_TYPE_STRING''
     else if object = ScalarType_SCALAR_TYPE_BYTES then js ''SCALAR_TYPE_BYTES''
     else js ''UNRECOGNIZED'')"

text \<open>The values the schema names, and the one \<open>fromJSON\<close> maps the others to.\<close>

definition ScalarType_known :: "ScalarType \<Rightarrow> bool" where
  "ScalarType_known n \<longleftrightarrow> n \<in> {ScalarType_SCALAR_TYPE_UNSPECIFIED, ScalarType_SCALAR_TYPE_STRING, ScalarType_SCALAR_TYPE_BYTES, ScalarType_UNRECOGNIZED}"

subsection \<open>InterfaceDescriptor\<close>

record InterfaceDescriptor =
  name :: jsstring
  description :: jsstring

definition createBase_InterfaceDescriptor :: InterfaceDescriptor where
  "createBase_InterfaceDescriptor = \<lparr>InterfaceDescriptor.name = [],
     InterfaceDescriptor.description = []\<rparr>"

definition encode_InterfaceDescriptor :: "('w, 'r) wire \<Rightarrow> InterfaceDescriptor \<Rightarrow> 'w \<Rightarrow> 'w result" where
  "encode_InterfaceDescriptor L message = seqE
    [whenE (InterfaceDescriptor.name message \<noteq> []) (seqE [w_uint32 L 10, w_string L (InterfaceDescriptor.name message)]),
     whenE (InterfaceDescriptor.description message \<noteq> []) (seqE [w_uint32 L 18, w_string L (InterfaceDescriptor.description message)])]"

definition InterfaceDescriptor_switch :: "('w, 'r) wire \<Rightarrow> u32 \<Rightarrow> InterfaceDescriptor \<Rightarrow> (InterfaceDescriptor, 'r) action" where
  "InterfaceDescriptor_switch L tag message = js_switch (drop_bit 3 tag)
    [(1, when_tag tag 10 (readf (r_string L) (\<lambda>v. message\<lparr>InterfaceDescriptor.name := v\<rparr>))),
     (2, when_tag tag 18 (readf (r_string L) (\<lambda>v. message\<lparr>InterfaceDescriptor.description := v\<rparr>)))]
    break_out"

definition decode_InterfaceDescriptor :: "('w, 'r) wire \<Rightarrow> 'r input \<Rightarrow> nat option \<Rightarrow> (InterfaceDescriptor \<times> 'r) result" where
  "decode_InterfaceDescriptor L = decode_msg L (InterfaceDescriptor_switch L) createBase_InterfaceDescriptor"

definition fromJSON_InterfaceDescriptor :: "host \<Rightarrow> jsval \<Rightarrow> InterfaceDescriptor result" where
  "fromJSON_InterfaceDescriptor h object =
     bindE (fieldE object ''name'' (stringE h) []) (\<lambda>v_name.
     bindE (fieldE object ''description'' (stringE h) []) (\<lambda>v_description.
     Inr \<lparr>InterfaceDescriptor.name = v_name, InterfaceDescriptor.description = v_description\<rparr>))"

definition toJSON_InterfaceDescriptor :: "host \<Rightarrow> InterfaceDescriptor \<Rightarrow> jsval result" where
  "toJSON_InterfaceDescriptor h message = objE
    [jfieldE (InterfaceDescriptor.name message \<noteq> []) ''name'' (Inr (JString (InterfaceDescriptor.name message))),
     jfieldE (InterfaceDescriptor.description message \<noteq> []) ''description'' (Inr (JString (InterfaceDescriptor.description message)))]"

record InterfaceDescriptor_Partial =
  name :: "jsstring option"
  description :: "jsstring option"

definition InterfaceDescriptor_empty :: InterfaceDescriptor_Partial where
  "InterfaceDescriptor_empty = \<lparr>InterfaceDescriptor_Partial.name = None, InterfaceDescriptor_Partial.description = None\<rparr>"

definition fromPartial_InterfaceDescriptor :: "InterfaceDescriptor_Partial \<Rightarrow> InterfaceDescriptor" where
  "fromPartial_InterfaceDescriptor object = createBase_InterfaceDescriptor\<lparr>InterfaceDescriptor.name := nullish (InterfaceDescriptor_Partial.name object) [],
     InterfaceDescriptor.description := nullish (InterfaceDescriptor_Partial.description object) []\<rparr>"

definition create_InterfaceDescriptor :: "InterfaceDescriptor_Partial option \<Rightarrow> InterfaceDescriptor" where
  "create_InterfaceDescriptor base = fromPartial_InterfaceDescriptor (nullish base InterfaceDescriptor_empty)"

text \<open>A message as a partial message.\<close>

definition partial_of_InterfaceDescriptor :: "InterfaceDescriptor \<Rightarrow> InterfaceDescriptor_Partial" where
  "partial_of_InterfaceDescriptor m =
     \<lparr>InterfaceDescriptor_Partial.name = Some (InterfaceDescriptor.name m),
      InterfaceDescriptor_Partial.description = Some (InterfaceDescriptor.description m)\<rparr>"

definition wf_InterfaceDescriptor :: "('w, 'r) wire \<Rightarrow> InterfaceDescriptor \<Rightarrow> bool" where
  "wf_InterfaceDescriptor L m \<longleftrightarrow> wire_string (InterfaceDescriptor.name m)
     \<and> wire_string (InterfaceDescriptor.description m)"

definition wfj_InterfaceDescriptor :: "InterfaceDescriptor \<Rightarrow> bool" where
  "wfj_InterfaceDescriptor m \<longleftrightarrow> True"

subsection \<open>ScalarDescriptor\<close>

record ScalarDescriptor =
  name :: jsstring
  description :: jsstring
  fieldType :: "ScalarType list"

definition createBase_ScalarDescriptor :: ScalarDescriptor where
  "createBase_ScalarDescriptor = \<lparr>ScalarDescriptor.name = [],
     ScalarDescriptor.description = [],
     ScalarDescriptor.fieldType = []\<rparr>"

definition encode_ScalarDescriptor :: "('w, 'r) wire \<Rightarrow> ScalarDescriptor \<Rightarrow> 'w \<Rightarrow> 'w result" where
  "encode_ScalarDescriptor L message = seqE
    [whenE (ScalarDescriptor.name message \<noteq> []) (seqE [w_uint32 L 10, w_string L (ScalarDescriptor.name message)]),
     whenE (ScalarDescriptor.description message \<noteq> []) (seqE [w_uint32 L 18, w_string L (ScalarDescriptor.description message)]),
     seqE [w_uint32 L 26, w_fork L, forE (w_int32 L) (ScalarDescriptor.fieldType message), w_join L]]"

definition ScalarDescriptor_switch :: "('w, 'r) wire \<Rightarrow> u32 \<Rightarrow> ScalarDescriptor \<Rightarrow> (ScalarDescriptor, 'r) action" where
  "ScalarDescriptor_switch L tag message = js_switch (drop_bit 3 tag)
    [(1, when_tag tag 10 (readf (r_string L) (\<lambda>v. message\<lparr>ScalarDescriptor.name := v\<rparr>))),
     (2, when_tag tag 18 (readf (r_string L) (\<lambda>v. message\<lparr>ScalarDescriptor.description := v\<rparr>))),
     (3, if tag = 24 then readf (num32 (r_int32 L)) (\<lambda>v. message\<lparr>ScalarDescriptor.fieldType := ScalarDescriptor.fieldType message @ [v]\<rparr>)
          else if tag = 26 then readf (packed L (num32 (r_int32 L))) (\<lambda>v. message\<lparr>ScalarDescriptor.fieldType := ScalarDescriptor.fieldType message @ v\<rparr>)
          else break_out)]
    break_out"

definition decode_ScalarDescriptor :: "('w, 'r) wire \<Rightarrow> 'r input \<Rightarrow> nat option \<Rightarrow> (ScalarDescriptor \<times> 'r) result" where
  "decode_ScalarDescriptor L = decode_msg L (ScalarDescriptor_switch L) createBase_ScalarDescriptor"

definition fromJSON_ScalarDescriptor :: "host \<Rightarrow> jsval \<Rightarrow> ScalarDescriptor result" where
  "fromJSON_ScalarDescriptor h object =
     bindE (fieldE object ''name'' (stringE h) []) (\<lambda>v_name.
     bindE (fieldE object ''description'' (stringE h) []) (\<lambda>v_description.
     bindE (arrayE object ''fieldType'' (enumE scalarTypeFromJSON)) (\<lambda>v_fieldType.
     Inr \<lparr>ScalarDescriptor.name = v_name, ScalarDescriptor.description = v_description, ScalarDescriptor.fieldType = v_fieldType\<rparr>)))"

definition toJSON_ScalarDescriptor :: "host \<Rightarrow> ScalarDescriptor \<Rightarrow> jsval result" where
  "toJSON_ScalarDescriptor h message = objE
    [jfieldE (ScalarDescriptor.name message \<noteq> []) ''name'' (Inr (JString (ScalarDescriptor.name message))),
     jfieldE (ScalarDescriptor.description message \<noteq> []) ''description'' (Inr (JString (ScalarDescriptor.description message))),
     jarrayE ''fieldType'' (\<lambda>e. Inr (JString (scalarTypeToJSON e))) (ScalarDescriptor.fieldType message)]"

record ScalarDescriptor_Partial =
  name :: "jsstring option"
  description :: "jsstring option"
  fieldType :: "ScalarType list option"

definition ScalarDescriptor_empty :: ScalarDescriptor_Partial where
  "ScalarDescriptor_empty = \<lparr>ScalarDescriptor_Partial.name = None, ScalarDescriptor_Partial.description = None, ScalarDescriptor_Partial.fieldType = None\<rparr>"

definition fromPartial_ScalarDescriptor :: "ScalarDescriptor_Partial \<Rightarrow> ScalarDescriptor" where
  "fromPartial_ScalarDescriptor object = createBase_ScalarDescriptor\<lparr>ScalarDescriptor.name := nullish (ScalarDescriptor_Partial.name object) [],
     ScalarDescriptor.description := nullish (ScalarDescriptor_Partial.description object) [],
     ScalarDescriptor.fieldType := partial_map (\<lambda>e. e) (ScalarDescriptor_Partial.fieldType object)\<rparr>"

definition create_ScalarDescriptor :: "ScalarDescriptor_Partial option \<Rightarrow> ScalarDescriptor" where
  "create_ScalarDescriptor base = fromPartial_ScalarDescriptor (nullish base ScalarDescriptor_empty)"

text \<open>A message as a partial message.\<close>

definition partial_of_ScalarDescriptor :: "ScalarDescriptor \<Rightarrow> ScalarDescriptor_Partial" where
  "partial_of_ScalarDescriptor m =
     \<lparr>ScalarDescriptor_Partial.name = Some (ScalarDescriptor.name m),
      ScalarDescriptor_Partial.description = Some (ScalarDescriptor.description m),
      ScalarDescriptor_Partial.fieldType = Some (ScalarDescriptor.fieldType m)\<rparr>"

definition wf_ScalarDescriptor :: "('w, 'r) wire \<Rightarrow> ScalarDescriptor \<Rightarrow> bool" where
  "wf_ScalarDescriptor L m \<longleftrightarrow> wire_string (ScalarDescriptor.name m)
     \<and> wire_string (ScalarDescriptor.description m)
     \<and> (list_all int32_num (ScalarDescriptor.fieldType m) \<and> fits L (forE (w_int32 L) (ScalarDescriptor.fieldType m)))"

definition wfj_ScalarDescriptor :: "ScalarDescriptor \<Rightarrow> bool" where
  "wfj_ScalarDescriptor m \<longleftrightarrow> list_all ScalarType_known (ScalarDescriptor.fieldType m)"


section \<open>Encoding, decoding and JSON of these messages\<close>

lemma CustomHttpPattern_tags:
  "CustomHttpPattern_switch L 10 m = readf (r_string L) (\<lambda>v. m\<lparr>CustomHttpPattern.kind := v\<rparr>)"
  "CustomHttpPattern_switch L 18 m = readf (r_string L) (\<lambda>v. m\<lparr>CustomHttpPattern.path := v\<rparr>)"
  by (simp_all add: CustomHttpPattern_switch_def when_tag_def)

lemma create_CustomHttpPattern_None: "create_CustomHttpPattern None = createBase_CustomHttpPattern"
  by (simp add: create_CustomHttpPattern_def fromPartial_CustomHttpPattern_def CustomHttpPattern_empty_def createBase_CustomHttpPattern_def partial_map_def)

lemma complete_CustomHttpPattern [simp]:
  "encode_CustomHttpPattern L (fromPartial_CustomHttpPattern (partial_of_CustomHttpPattern m)) = encode_CustomHttpPattern L m"
  by (simp add: encode_CustomHttpPattern_def fromPartial_CustomHttpPattern_def partial_of_CustomHttpPattern_def createBase_CustomHttpPattern_def partial_map_def option.map_comp o_def del: seqE.simps)

context wire_laws
begin

lemma CustomHttpPattern_codec:
  shows "message_codec L F out inp (encode_CustomHttpPattern L) (CustomHttpPattern_switch L) createBase_CustomHttpPattern (wf_CustomHttpPattern L)"
proof unfold_locales
  show good: "good_sw (CustomHttpPattern_switch L)"
    unfolding CustomHttpPattern_switch_def by (intro good_swI fwd_rules)
  fix m assume "wf_CustomHttpPattern L m"
  then show "codes (CustomHttpPattern_switch L) (encode_CustomHttpPattern L m) createBase_CustomHttpPattern m"
    unfolding encode_CustomHttpPattern_def wf_CustomHttpPattern_def
    by (elim conjE)
      (rule codes_Cons codes_Nil [OF CustomHttpPattern.equality] codec_rules
        codes_when [where tag = 10 and u = "CustomHttpPattern.kind_update" and op = "r_string L", OF good]
        codes_when [where tag = 18 and u = "CustomHttpPattern.path_update" and op = "r_string L", OF good]
      | assumption | (simp add: CustomHttpPattern_tags createBase_CustomHttpPattern_def; fail))+
qed

lemmas CustomHttpPattern_carries [codec_rules] =
  message_codec.opt_carries [OF CustomHttpPattern_codec, folded decode_CustomHttpPattern_def] message_codec.list_carries [OF CustomHttpPattern_codec, folded decode_CustomHttpPattern_def]

lemmas CustomHttpPattern_good [fwd_rules] = message_codec.op_good [OF CustomHttpPattern_codec, folded decode_CustomHttpPattern_def]

lemmas CustomHttpPattern_roundtrip = message_codec.roundtrip [OF CustomHttpPattern_codec, folded decode_CustomHttpPattern_def]

lemmas CustomHttpPattern_returns = message_codec.decode_returns [OF CustomHttpPattern_codec, folded decode_CustomHttpPattern_def]

end

interpretation CustomHttpPattern_json: message_json toJSON_CustomHttpPattern fromJSON_CustomHttpPattern wfj_CustomHttpPattern
proof unfold_locales
  fix h m
  assume "wfj_CustomHttpPattern m"
  then show "json_rt (toJSON_CustomHttpPattern h) (fromJSON_CustomHttpPattern h) m"
    unfolding toJSON_CustomHttpPattern_def fromJSON_CustomHttpPattern_def wfj_CustomHttpPattern_def
    by (-) (rule json_rtI json_rules | assumption | (simp; fail))+
qed

lemmas CustomHttpPattern_json_rules [json_rules] = CustomHttpPattern_json.json_field_rules

lemma HttpRule_tags:
  "HttpRule_switch L dec 10 m = readf (r_string L) (\<lambda>v. HttpRule_selector_update (\<lambda>_. v) m)"
  "HttpRule_switch L dec 18 m = readf (r_string L) (\<lambda>v. HttpRule_get'_update (\<lambda>_. Some v) m)"
  "HttpRule_switch L dec 26 m = readf (r_string L) (\<lambda>v. HttpRule_put'_update (\<lambda>_. Some v) m)"
  "HttpRule_switch L dec 34 m = readf (r_string L) (\<lambda>v. HttpRule_post_update (\<lambda>_. Some v) m)"
  "HttpRule_switch L dec 42 m = readf (r_string L) (\<lambda>v. HttpRule_delete_update (\<lambda>_. Some v) m)"
  "HttpRule_switch L dec 50 m = readf (r_string L) (\<lambda>v. HttpRule_patch_update (\<lambda>_. Some v) m)"
  "HttpRule_switch L dec 66 m = readf (submsg L (decode_CustomHttpPattern L)) (\<lambda>v. HttpRule_custom_update (\<lambda>_. Some v) m)"
  "HttpRule_switch L dec 58 m = readf (r_string L) (\<lambda>v. HttpRule_body_update (\<lambda>_. v) m)"
  "HttpRule_switch L dec 98 m = readf (r_string L) (\<lambda>v. HttpRule_responseBody_update (\<lambda>_. v) m)"
  "HttpRule_switch L dec 90 m = readf (submsg L dec) (\<lambda>v. HttpRule_additionalBindings_update (\<lambda>_. HttpRule.additionalBindings m @ [v]) m)"
  by (simp_all add: HttpRule_switch_def when_tag_def)

lemma HttpRule_eqI: "HttpRule.selector a = HttpRule.selector b \<Longrightarrow> HttpRule.get' a = HttpRule.get' b \<Longrightarrow> HttpRule.put' a = HttpRule.put' b \<Longrightarrow> HttpRule.post a = HttpRule.post b \<Longrightarrow> HttpRule.delete a = HttpRule.delete b \<Longrightarrow> HttpRule.patch a = HttpRule.patch b \<Longrightarrow> HttpRule.custom a = HttpRule.custom b \<Longrightarrow> HttpRule.body a = HttpRule.body b \<Longrightarrow> HttpRule.responseBody a = HttpRule.responseBody b \<Longrightarrow> HttpRule.additionalBindings a = HttpRule.additionalBindings b \<Longrightarrow> a = b"
  by (cases a; cases b) simp

lemma create_HttpRule_None: "create_HttpRule (Suc n) None = Inr createBase_HttpRule"
  by (simp add: create_HttpRule_def HttpRule_empty_def createBase_HttpRule_def partial_map_def partial_mapE_def)

sublocale wire_laws \<subseteq> HttpRule_rec: recursive_decoder L F out inp "decode_HttpRule L" "HttpRule_switch L" createBase_HttpRule 90
    "\<lambda>v. HttpRule_additionalBindings_update (\<lambda>_. HttpRule.additionalBindings createBase_HttpRule @ [v]) createBase_HttpRule"
proof unfold_locales
  show "good_sw (HttpRule_switch L d)" if "good_op (submsg L d)" for d
    unfolding HttpRule_switch_def by (intro good_swI fwd_rules that)
  show "HttpRule_switch L d t m r = HttpRule_switch L d' t m r" if "submsg L d r = submsg L d' r" for d d' t m r
    using that by (simp add: HttpRule_switch_def when_tag_def readf_def)
qed (simp_all add: HttpRule_tags)

context wire_laws
begin

lemma HttpRule_codec_step:
  assumes carr: "\<And>xs. list_all (\<lambda>v. wf_HttpRule L n v \<and> fits L (encode_HttpRule L n v)) xs \<Longrightarrow>
      list_all (\<lambda>v. carries (seqE [w_fork L, encode_HttpRule L n v, w_join L]) (submsg L (decode_HttpRule L n)) v) xs"
  shows "message_codec L F out inp (encode_HttpRule L (Suc n)) (HttpRule_switch L (decode_HttpRule L n)) createBase_HttpRule (wf_HttpRule L (Suc n))"
proof unfold_locales
  show good: "good_sw (HttpRule_switch L (decode_HttpRule L n))"
    by (rule HttpRule_rec.level_good)
  fix m assume "wf_HttpRule L (Suc n) m"
  then show "codes (HttpRule_switch L (decode_HttpRule L n)) (encode_HttpRule L (Suc n) m) createBase_HttpRule m"
    unfolding encode_HttpRule.simps wf_HttpRule.simps
    by (elim conjE)
      (rule codes_Cons codes_Nil [OF HttpRule_eqI] codec_rules carr
        codes_when [where tag = 10 and u = "HttpRule_selector_update" and op = "r_string L", OF good]
        codes_some [where tag = 18 and u = "HttpRule_get'_update" and op = "r_string L", OF good]
        codes_some [where tag = 26 and u = "HttpRule_put'_update" and op = "r_string L", OF good]
        codes_some [where tag = 34 and u = "HttpRule_post_update" and op = "r_string L", OF good]
        codes_some [where tag = 42 and u = "HttpRule_delete_update" and op = "r_string L", OF good]
        codes_some [where tag = 50 and u = "HttpRule_patch_update" and op = "r_string L", OF good]
        codes_some [where tag = 66 and u = "HttpRule_custom_update" and op = "submsg L (decode_CustomHttpPattern L)", OF good]
        codes_when [where tag = 58 and u = "HttpRule_body_update" and op = "r_string L", OF good]
        codes_when [where tag = 98 and u = "HttpRule_responseBody_update" and op = "r_string L", OF good]
        codes_for [where tag = 90 and u = "HttpRule_additionalBindings_update" and op = "submsg L (decode_HttpRule L n)", OF good]
      | assumption | (simp add: HttpRule_tags createBase_HttpRule_def; fail))+
qed

lemma HttpRule_carries [codec_rules]: "list_all (\<lambda>v. wf_HttpRule L n v \<and> fits L (encode_HttpRule L n v)) xs \<Longrightarrow>
      list_all (\<lambda>v. carries (seqE [w_fork L, encode_HttpRule L n v, w_join L]) (submsg L (decode_HttpRule L n)) v) xs"
proof (induction n arbitrary: xs)
  case 0
  then show ?case by (cases xs) simp_all
next
  case (Suc n)
  then show ?case
    using message_codec.list_carries [OF HttpRule_codec_step [OF Suc.IH], of xs] by (simp del: wf_HttpRule.simps encode_HttpRule.simps seqE.simps)
qed

lemmas HttpRule_codec = HttpRule_codec_step [OF HttpRule_carries]

lemmas HttpRule_good [fwd_rules] = HttpRule_rec.sub_good

lemma HttpRule_roundtrip: "wf_HttpRule L n m \<Longrightarrow> roundtrips L inp (encode_HttpRule L n) (decode_HttpRule L n) m"
proof (cases n)
  case (Suc k)
  assume "wf_HttpRule L n m"
  then show ?thesis using message_codec.roundtrip [OF HttpRule_codec, of k m] by (simp only: Suc decode_HttpRule.simps)
qed simp

lemmas HttpRule_returns = HttpRule_rec.returns

lemma HttpRule_stack:
  "length b < n \<Longrightarrow> n \<le> n' \<Longrightarrow> decode_HttpRule L n' (ABuffer b) None = decode_HttpRule L n (ABuffer b) None"
  "decode_HttpRule L n (ABuffer (concat (replicate n (e_uint32 F 90 @ e_uint32 F 1)))) None = Inl stack_overflow"
  using HttpRule_rec.enough_stack [of "ABuffer b" n n' None] HttpRule_rec.stack_exhausted [of n]
  by (simp_all add: reader_of_def inp_new HttpRule_rec.nested_def)

end

lemma HttpRule_json_step:
  assumes carr: "\<And>h xs. list_all (wfj_HttpRule n) xs \<Longrightarrow> list_all (json_rt (toJSON_HttpRule h n) (fromJSON_HttpRule h n)) xs"
  shows "message_json (\<lambda>h. toJSON_HttpRule h (Suc n)) (\<lambda>h. fromJSON_HttpRule h (Suc n)) (wfj_HttpRule (Suc n))"
proof unfold_locales
  fix h m
  assume "wfj_HttpRule (Suc n) m"
  then show "json_rt (toJSON_HttpRule h (Suc n)) (fromJSON_HttpRule h (Suc n)) m"
    unfolding wfj_HttpRule.simps
    by (elim conjE, intro json_rtI, unfold toJSON_HttpRule.simps fromJSON_HttpRule.simps)
      (rule json_rules jarrayE_Inr [OF carr] read_array [OF carr] | assumption | (simp; fail))+
qed

lemma HttpRule_json_list: "list_all (wfj_HttpRule n) xs \<Longrightarrow> list_all (json_rt (toJSON_HttpRule h n) (fromJSON_HttpRule h n)) xs"
proof (induction n arbitrary: h xs)
  case 0
  then show ?case by (cases xs) simp_all
next
  case (Suc n)
  then show ?case using message_json.json_list [OF HttpRule_json_step [OF Suc.IH]] by blast
qed

lemmas HttpRule_json = HttpRule_json_step [OF HttpRule_json_list]

lemma HttpRule_json_roundtrip: "wfj_HttpRule n m \<Longrightarrow> bindE (toJSON_HttpRule h n m) (fromJSON_HttpRule h n) = Inr m"
  using HttpRule_json_list [of n "[m]" h] by (simp add: json_rt_bind)

lemmas HttpRule_json_rules [json_rules] = jarrayE_Inr [OF HttpRule_json_list] read_array [OF HttpRule_json_list]

lemma Http_tags:
  "Http_switch L n 10 m = readf (submsg L (decode_HttpRule L n)) (\<lambda>v. m\<lparr>Http.rules := Http.rules m @ [v]\<rparr>)"
  "Http_switch L n 16 m = readf (r_bool L) (\<lambda>v. m\<lparr>Http.fullyDecodeReservedExpansion := v\<rparr>)"
  by (simp_all add: Http_switch_def when_tag_def)

lemma create_Http_None: "create_Http n None = Inr createBase_Http"
  by (simp add: create_Http_def fromPartial_Http_def Http_empty_def createBase_Http_def partial_map_def partial_mapE_def)

context wire_laws
begin

lemma Http_codec:
  shows "message_codec L F out inp (encode_Http L n) (Http_switch L n) createBase_Http (wf_Http L n)"
proof unfold_locales
  show good: "good_sw (Http_switch L n)"
    unfolding Http_switch_def by (intro good_swI fwd_rules)
  fix m assume "wf_Http L n m"
  then show "codes (Http_switch L n) (encode_Http L n m) createBase_Http m"
    unfolding encode_Http_def wf_Http_def
    by (-)
      (rule codes_Cons codes_Nil [OF Http.equality] codec_rules
        codes_for [where tag = 10 and u = "Http.rules_update" and op = "submsg L (decode_HttpRule L n)", OF good]
        codes_when [where tag = 16 and u = "Http.fullyDecodeReservedExpansion_update" and op = "r_bool L", OF good]
      | assumption | (simp add: Http_tags createBase_Http_def; fail))+
qed

lemmas Http_roundtrip = message_codec.roundtrip [OF Http_codec, folded decode_Http_def]

lemmas Http_returns = message_codec.decode_returns [OF Http_codec, folded decode_Http_def]

end

lemma Http_json: "message_json (\<lambda>h. toJSON_Http h n) (\<lambda>h. fromJSON_Http h n) (wfj_Http n)"
proof unfold_locales
  fix h m
  assume "wfj_Http n m"
  then show "json_rt (toJSON_Http h n) (fromJSON_Http h n) m"
    unfolding toJSON_Http_def fromJSON_Http_def wfj_Http_def
    by (-) (rule json_rtI json_rules | assumption | (simp; fail))+
qed

lemmas Http_json_roundtrip = message_json.json_roundtrip [OF Http_json]

lemmas ScalarType_defs = ScalarType_SCALAR_TYPE_UNSPECIFIED_def ScalarType_SCALAR_TYPE_STRING_def ScalarType_SCALAR_TYPE_BYTES_def ScalarType_UNRECOGNIZED_def

lemma ScalarType_json [json_rules]:
  "ScalarType_known n \<Longrightarrow> enumE scalarTypeFromJSON (JString (scalarTypeToJSON n)) = Inr n"
  unfolding ScalarType_known_def
  by (elim insertE emptyE; simp only:; simp add: enumE_def scalarTypeFromJSON_def scalarTypeToJSON_def ScalarType_defs)

lemmas ScalarType_json_list [json_rules] = list.pred_mono_strong [of ScalarType_known _ "\<lambda>n. enumE scalarTypeFromJSON (JString (scalarTypeToJSON n)) = Inr n", OF _ ScalarType_json]

lemma InterfaceDescriptor_tags:
  "InterfaceDescriptor_switch L 10 m = readf (r_string L) (\<lambda>v. m\<lparr>InterfaceDescriptor.name := v\<rparr>)"
  "InterfaceDescriptor_switch L 18 m = readf (r_string L) (\<lambda>v. m\<lparr>InterfaceDescriptor.description := v\<rparr>)"
  by (simp_all add: InterfaceDescriptor_switch_def when_tag_def)

lemma create_InterfaceDescriptor_None: "create_InterfaceDescriptor None = createBase_InterfaceDescriptor"
  by (simp add: create_InterfaceDescriptor_def fromPartial_InterfaceDescriptor_def InterfaceDescriptor_empty_def createBase_InterfaceDescriptor_def partial_map_def)

lemma complete_InterfaceDescriptor [simp]:
  "encode_InterfaceDescriptor L (fromPartial_InterfaceDescriptor (partial_of_InterfaceDescriptor m)) = encode_InterfaceDescriptor L m"
  by (simp add: encode_InterfaceDescriptor_def fromPartial_InterfaceDescriptor_def partial_of_InterfaceDescriptor_def createBase_InterfaceDescriptor_def partial_map_def option.map_comp o_def del: seqE.simps)

context wire_laws
begin

lemma InterfaceDescriptor_codec:
  shows "message_codec L F out inp (encode_InterfaceDescriptor L) (InterfaceDescriptor_switch L) createBase_InterfaceDescriptor (wf_InterfaceDescriptor L)"
proof unfold_locales
  show good: "good_sw (InterfaceDescriptor_switch L)"
    unfolding InterfaceDescriptor_switch_def by (intro good_swI fwd_rules)
  fix m assume "wf_InterfaceDescriptor L m"
  then show "codes (InterfaceDescriptor_switch L) (encode_InterfaceDescriptor L m) createBase_InterfaceDescriptor m"
    unfolding encode_InterfaceDescriptor_def wf_InterfaceDescriptor_def
    by (elim conjE)
      (rule codes_Cons codes_Nil [OF InterfaceDescriptor.equality] codec_rules
        codes_when [where tag = 10 and u = "InterfaceDescriptor.name_update" and op = "r_string L", OF good]
        codes_when [where tag = 18 and u = "InterfaceDescriptor.description_update" and op = "r_string L", OF good]
      | assumption | (simp add: InterfaceDescriptor_tags createBase_InterfaceDescriptor_def; fail))+
qed

lemmas InterfaceDescriptor_roundtrip = message_codec.roundtrip [OF InterfaceDescriptor_codec, folded decode_InterfaceDescriptor_def]

lemmas InterfaceDescriptor_returns = message_codec.decode_returns [OF InterfaceDescriptor_codec, folded decode_InterfaceDescriptor_def]

end

interpretation InterfaceDescriptor_json: message_json toJSON_InterfaceDescriptor fromJSON_InterfaceDescriptor wfj_InterfaceDescriptor
proof unfold_locales
  fix h m
  assume "wfj_InterfaceDescriptor m"
  then show "json_rt (toJSON_InterfaceDescriptor h) (fromJSON_InterfaceDescriptor h) m"
    unfolding toJSON_InterfaceDescriptor_def fromJSON_InterfaceDescriptor_def wfj_InterfaceDescriptor_def
    by (-) (rule json_rtI json_rules | assumption | (simp; fail))+
qed

lemma ScalarDescriptor_tags:
  "ScalarDescriptor_switch L 10 m = readf (r_string L) (\<lambda>v. m\<lparr>ScalarDescriptor.name := v\<rparr>)"
  "ScalarDescriptor_switch L 18 m = readf (r_string L) (\<lambda>v. m\<lparr>ScalarDescriptor.description := v\<rparr>)"
  "ScalarDescriptor_switch L 26 m = readf (packed L (num32 (r_int32 L))) (\<lambda>v. m\<lparr>ScalarDescriptor.fieldType := ScalarDescriptor.fieldType m @ v\<rparr>)"
  by (simp_all add: ScalarDescriptor_switch_def when_tag_def)

lemma create_ScalarDescriptor_None: "create_ScalarDescriptor None = createBase_ScalarDescriptor"
  by (simp add: create_ScalarDescriptor_def fromPartial_ScalarDescriptor_def ScalarDescriptor_empty_def createBase_ScalarDescriptor_def partial_map_def)

lemma complete_ScalarDescriptor [simp]:
  "encode_ScalarDescriptor L (fromPartial_ScalarDescriptor (partial_of_ScalarDescriptor m)) = encode_ScalarDescriptor L m"
  by (simp add: encode_ScalarDescriptor_def fromPartial_ScalarDescriptor_def partial_of_ScalarDescriptor_def createBase_ScalarDescriptor_def partial_map_def option.map_comp o_def del: seqE.simps)

context wire_laws
begin

lemma ScalarDescriptor_codec:
  shows "message_codec L F out inp (encode_ScalarDescriptor L) (ScalarDescriptor_switch L) createBase_ScalarDescriptor (wf_ScalarDescriptor L)"
proof unfold_locales
  show good: "good_sw (ScalarDescriptor_switch L)"
    unfolding ScalarDescriptor_switch_def by (intro good_swI fwd_rules)
  fix m assume "wf_ScalarDescriptor L m"
  then show "codes (ScalarDescriptor_switch L) (encode_ScalarDescriptor L m) createBase_ScalarDescriptor m"
    unfolding encode_ScalarDescriptor_def wf_ScalarDescriptor_def
    by (elim conjE)
      (rule codes_Cons codes_Nil [OF ScalarDescriptor.equality] codec_rules
        codes_when [where tag = 10 and u = "ScalarDescriptor.name_update" and op = "r_string L", OF good]
        codes_when [where tag = 18 and u = "ScalarDescriptor.description_update" and op = "r_string L", OF good]
        codes_always [where tag = 26 and u = "ScalarDescriptor.fieldType_update" and op = "packed L (num32 (r_int32 L))", OF good]
      | assumption | (simp add: ScalarDescriptor_tags createBase_ScalarDescriptor_def; fail))+
qed

lemmas ScalarDescriptor_roundtrip = message_codec.roundtrip [OF ScalarDescriptor_codec, folded decode_ScalarDescriptor_def]

lemmas ScalarDescriptor_returns = message_codec.decode_returns [OF ScalarDescriptor_codec, folded decode_ScalarDescriptor_def]

end

interpretation ScalarDescriptor_json: message_json toJSON_ScalarDescriptor fromJSON_ScalarDescriptor wfj_ScalarDescriptor
proof unfold_locales
  fix h m
  assume "wfj_ScalarDescriptor m"
  then show "json_rt (toJSON_ScalarDescriptor h) (fromJSON_ScalarDescriptor h) m"
    unfolding toJSON_ScalarDescriptor_def fromJSON_ScalarDescriptor_def wfj_ScalarDescriptor_def
    by (-) (rule json_rtI json_rules | assumption | (simp; fail))+
qed

lemmas HttpMsgs_jsons =
  CustomHttpPattern_json.json_roundtrip
  HttpRule_json_roundtrip
  Http_json_roundtrip
  InterfaceDescriptor_json.json_roundtrip
  ScalarDescriptor_json.json_roundtrip

context wire_laws
begin

lemmas HttpMsgs_roundtrips =
  CustomHttpPattern_roundtrip
  HttpRule_roundtrip
  Http_roundtrip
  InterfaceDescriptor_roundtrip
  ScalarDescriptor_roundtrip

end

end
