(* ===== verification/DescOptions.thy ===== *)
theory DescOptions
  imports OptionalFields
begin

text \<open>
  The options of a schema (\<open>google/protobuf/descriptor.ts\<close>): those of files, messages, fields, enumerations
  and services, and the feature sets.
\<close>


section \<open>google/protobuf/descriptor.ts\<close>

type_synonym Edition = number

definition Edition_EDITION_UNKNOWN :: Edition where
  "Edition_EDITION_UNKNOWN = Num 0"

definition Edition_EDITION_LEGACY :: Edition where
  "Edition_EDITION_LEGACY = Num 900"

definition Edition_EDITION_PROTO2 :: Edition where
  "Edition_EDITION_PROTO2 = Num 998"

definition Edition_EDITION_PROTO3 :: Edition where
  "Edition_EDITION_PROTO3 = Num 999"

definition Edition_EDITION_2023 :: Edition where
  "Edition_EDITION_2023 = Num 1000"

definition Edition_EDITION_2024 :: Edition where
  "Edition_EDITION_2024 = Num 1001"

definition Edition_EDITION_1_TEST_ONLY :: Edition where
  "Edition_EDITION_1_TEST_ONLY = Num 1"

definition Edition_EDITION_2_TEST_ONLY :: Edition where
  "Edition_EDITION_2_TEST_ONLY = Num 2"

definition Edition_EDITION_99997_TEST_ONLY :: Edition where
  "Edition_EDITION_99997_TEST_ONLY = Num 99997"

definition Edition_EDITION_99998_TEST_ONLY :: Edition where
  "Edition_EDITION_99998_TEST_ONLY = Num 99998"

definition Edition_EDITION_99999_TEST_ONLY :: Edition where
  "Edition_EDITION_99999_TEST_ONLY = Num 99999"

definition Edition_EDITION_MAX :: Edition where
  "Edition_EDITION_MAX = Num 2147483647"

definition Edition_UNRECOGNIZED :: Edition where
  "Edition_UNRECOGNIZED = Num (- 1)"

definition editionFromJSON :: "jsval \<Rightarrow> Edition" where
  "editionFromJSON object =
    (if object = JNumber (Num 0) \<or> object = JString (js ''EDITION_UNKNOWN'')
       then Edition_EDITION_UNKNOWN
     else if object = JNumber (Num 900) \<or> object = JString (js ''EDITION_LEGACY'')
       then Edition_EDITION_LEGACY
     else if object = JNumber (Num 998) \<or> object = JString (js ''EDITION_PROTO2'')
       then Edition_EDITION_PROTO2
     else if object = JNumber (Num 999) \<or> object = JString (js ''EDITION_PROTO3'')
       then Edition_EDITION_PROTO3
     else if object = JNumber (Num 1000) \<or> object = JString (js ''EDITION_2023'')
       then Edition_EDITION_2023
     else if object = JNumber (Num 1001) \<or> object = JString (js ''EDITION_2024'')
       then Edition_EDITION_2024
     else if object = JNumber (Num 1) \<or> object = JString (js ''EDITION_1_TEST_ONLY'')
       then Edition_EDITION_1_TEST_ONLY
     else if object = JNumber (Num 2) \<or> object = JString (js ''EDITION_2_TEST_ONLY'')
       then Edition_EDITION_2_TEST_ONLY
     else if object = JNumber (Num 99997) \<or> object = JString (js ''EDITION_99997_TEST_ONLY'')
       then Edition_EDITION_99997_TEST_ONLY
     else if object = JNumber (Num 99998) \<or> object = JString (js ''EDITION_99998_TEST_ONLY'')
       then Edition_EDITION_99998_TEST_ONLY
     else if object = JNumber (Num 99999) \<or> object = JString (js ''EDITION_99999_TEST_ONLY'')
       then Edition_EDITION_99999_TEST_ONLY
     else if object = JNumber (Num 2147483647) \<or> object = JString (js ''EDITION_MAX'')
       then Edition_EDITION_MAX
     else Edition_UNRECOGNIZED)"

definition editionToJSON :: "Edition \<Rightarrow> jsstring" where
  "editionToJSON object =
    (if object = Edition_EDITION_UNKNOWN then js ''EDITION_UNKNOWN''
     else if object = Edition_EDITION_LEGACY then js ''EDITION_LEGACY''
     else if object = Edition_EDITION_PROTO2 then js ''EDITION_PROTO2''
     else if object = Edition_EDITION_PROTO3 then js ''EDITION_PROTO3''
     else if object = Edition_EDITION_2023 then js ''EDITION_2023''
     else if object = Edition_EDITION_2024 then js ''EDITION_2024''
     else if object = Edition_EDITION_1_TEST_ONLY then js ''EDITION_1_TEST_ONLY''
     else if object = Edition_EDITION_2_TEST_ONLY then js ''EDITION_2_TEST_ONLY''
     else if object = Edition_EDITION_99997_TEST_ONLY then js ''EDITION_99997_TEST_ONLY''
     else if object = Edition_EDITION_99998_TEST_ONLY then js ''EDITION_99998_TEST_ONLY''
     else if object = Edition_EDITION_99999_TEST_ONLY then js ''EDITION_99999_TEST_ONLY''
     else if object = Edition_EDITION_MAX then js ''EDITION_MAX''
     else js ''UNRECOGNIZED'')"

text \<open>The values the schema names, and the one \<open>fromJSON\<close> maps the others to.\<close>

definition Edition_known :: "Edition \<Rightarrow> bool" where
  "Edition_known n \<longleftrightarrow> n \<in> {Edition_EDITION_UNKNOWN, Edition_EDITION_LEGACY, Edition_EDITION_PROTO2, Edition_EDITION_PROTO3, Edition_EDITION_2023, Edition_EDITION_2024, Edition_EDITION_1_TEST_ONLY, Edition_EDITION_2_TEST_ONLY, Edition_EDITION_99997_TEST_ONLY, Edition_EDITION_99998_TEST_ONLY, Edition_EDITION_99999_TEST_ONLY, Edition_EDITION_MAX, Edition_UNRECOGNIZED}"

type_synonym ExtensionRangeOptions_VerificationState = number

definition ExtensionRangeOptions_VerificationState_DECLARATION :: ExtensionRangeOptions_VerificationState where
  "ExtensionRangeOptions_VerificationState_DECLARATION = Num 0"

definition ExtensionRangeOptions_VerificationState_UNVERIFIED :: ExtensionRangeOptions_VerificationState where
  "ExtensionRangeOptions_VerificationState_UNVERIFIED = Num 1"

definition ExtensionRangeOptions_VerificationState_UNRECOGNIZED :: ExtensionRangeOptions_VerificationState where
  "ExtensionRangeOptions_VerificationState_UNRECOGNIZED = Num (- 1)"

definition extensionRangeOptions_VerificationStateFromJSON :: "jsval \<Rightarrow> ExtensionRangeOptions_VerificationState" where
  "extensionRangeOptions_VerificationStateFromJSON object =
    (if object = JNumber (Num 0) \<or> object = JString (js ''DECLARATION'')
       then ExtensionRangeOptions_VerificationState_DECLARATION
     else if object = JNumber (Num 1) \<or> object = JString (js ''UNVERIFIED'')
       then ExtensionRangeOptions_VerificationState_UNVERIFIED
     else ExtensionRangeOptions_VerificationState_UNRECOGNIZED)"

definition extensionRangeOptions_VerificationStateToJSON :: "ExtensionRangeOptions_VerificationState \<Rightarrow> jsstring" where
  "extensionRangeOptions_VerificationStateToJSON object =
    (if object = ExtensionRangeOptions_VerificationState_DECLARATION then js ''DECLARATION''
     else if object = ExtensionRangeOptions_VerificationState_UNVERIFIED then js ''UNVERIFIED''
     else js ''UNRECOGNIZED'')"

text \<open>The values the schema names, and the one \<open>fromJSON\<close> maps the others to.\<close>

definition ExtensionRangeOptions_VerificationState_known :: "ExtensionRangeOptions_VerificationState \<Rightarrow> bool" where
  "ExtensionRangeOptions_VerificationState_known n \<longleftrightarrow> n \<in> {ExtensionRangeOptions_VerificationState_DECLARATION, ExtensionRangeOptions_VerificationState_UNVERIFIED, ExtensionRangeOptions_VerificationState_UNRECOGNIZED}"

type_synonym FileOptions_OptimizeMode = number

definition FileOptions_OptimizeMode_SPEED :: FileOptions_OptimizeMode where
  "FileOptions_OptimizeMode_SPEED = Num 1"

definition FileOptions_OptimizeMode_CODE_SIZE :: FileOptions_OptimizeMode where
  "FileOptions_OptimizeMode_CODE_SIZE = Num 2"

definition FileOptions_OptimizeMode_LITE_RUNTIME :: FileOptions_OptimizeMode where
  "FileOptions_OptimizeMode_LITE_RUNTIME = Num 3"

definition FileOptions_OptimizeMode_UNRECOGNIZED :: FileOptions_OptimizeMode where
  "FileOptions_OptimizeMode_UNRECOGNIZED = Num (- 1)"

definition fileOptions_OptimizeModeFromJSON :: "jsval \<Rightarrow> FileOptions_OptimizeMode" where
  "fileOptions_OptimizeModeFromJSON object =
    (if object = JNumber (Num 1) \<or> object = JString (js ''SPEED'')
       then FileOptions_OptimizeMode_SPEED
     else if object = JNumber (Num 2) \<or> object = JString (js ''CODE_SIZE'')
       then FileOptions_OptimizeMode_CODE_SIZE
     else if object = JNumber (Num 3) \<or> object = JString (js ''LITE_RUNTIME'')
       then FileOptions_OptimizeMode_LITE_RUNTIME
     else FileOptions_OptimizeMode_UNRECOGNIZED)"

definition fileOptions_OptimizeModeToJSON :: "FileOptions_OptimizeMode \<Rightarrow> jsstring" where
  "fileOptions_OptimizeModeToJSON object =
    (if object = FileOptions_OptimizeMode_SPEED then js ''SPEED''
     else if object = FileOptions_OptimizeMode_CODE_SIZE then js ''CODE_SIZE''
     else if object = FileOptions_OptimizeMode_LITE_RUNTIME then js ''LITE_RUNTIME''
     else js ''UNRECOGNIZED'')"

text \<open>The values the schema names, and the one \<open>fromJSON\<close> maps the others to.\<close>

definition FileOptions_OptimizeMode_known :: "FileOptions_OptimizeMode \<Rightarrow> bool" where
  "FileOptions_OptimizeMode_known n \<longleftrightarrow> n \<in> {FileOptions_OptimizeMode_SPEED, FileOptions_OptimizeMode_CODE_SIZE, FileOptions_OptimizeMode_LITE_RUNTIME, FileOptions_OptimizeMode_UNRECOGNIZED}"

type_synonym FieldOptions_CType = number

definition FieldOptions_CType_STRING :: FieldOptions_CType where
  "FieldOptions_CType_STRING = Num 0"

definition FieldOptions_CType_CORD :: FieldOptions_CType where
  "FieldOptions_CType_CORD = Num 1"

definition FieldOptions_CType_STRING_PIECE :: FieldOptions_CType where
  "FieldOptions_CType_STRING_PIECE = Num 2"

definition FieldOptions_CType_UNRECOGNIZED :: FieldOptions_CType where
  "FieldOptions_CType_UNRECOGNIZED = Num (- 1)"

definition fieldOptions_CTypeFromJSON :: "jsval \<Rightarrow> FieldOptions_CType" where
  "fieldOptions_CTypeFromJSON object =
    (if object = JNumber (Num 0) \<or> object = JString (js ''STRING'')
       then FieldOptions_CType_STRING
     else if object = JNumber (Num 1) \<or> object = JString (js ''CORD'')
       then FieldOptions_CType_CORD
     else if object = JNumber (Num 2) \<or> object = JString (js ''STRING_PIECE'')
       then FieldOptions_CType_STRING_PIECE
     else FieldOptions_CType_UNRECOGNIZED)"

definition fieldOptions_CTypeToJSON :: "FieldOptions_CType \<Rightarrow> jsstring" where
  "fieldOptions_CTypeToJSON object =
    (if object = FieldOptions_CType_STRING then js ''STRING''
     else if object = FieldOptions_CType_CORD then js ''CORD''
     else if object = FieldOptions_CType_STRING_PIECE then js ''STRING_PIECE''
     else js ''UNRECOGNIZED'')"

text \<open>The values the schema names, and the one \<open>fromJSON\<close> maps the others to.\<close>

definition FieldOptions_CType_known :: "FieldOptions_CType \<Rightarrow> bool" where
  "FieldOptions_CType_known n \<longleftrightarrow> n \<in> {FieldOptions_CType_STRING, FieldOptions_CType_CORD, FieldOptions_CType_STRING_PIECE, FieldOptions_CType_UNRECOGNIZED}"

type_synonym FieldOptions_JSType = number

definition FieldOptions_JSType_JS_NORMAL :: FieldOptions_JSType where
  "FieldOptions_JSType_JS_NORMAL = Num 0"

definition FieldOptions_JSType_JS_STRING :: FieldOptions_JSType where
  "FieldOptions_JSType_JS_STRING = Num 1"

definition FieldOptions_JSType_JS_NUMBER :: FieldOptions_JSType where
  "FieldOptions_JSType_JS_NUMBER = Num 2"

definition FieldOptions_JSType_UNRECOGNIZED :: FieldOptions_JSType where
  "FieldOptions_JSType_UNRECOGNIZED = Num (- 1)"

definition fieldOptions_JSTypeFromJSON :: "jsval \<Rightarrow> FieldOptions_JSType" where
  "fieldOptions_JSTypeFromJSON object =
    (if object = JNumber (Num 0) \<or> object = JString (js ''JS_NORMAL'')
       then FieldOptions_JSType_JS_NORMAL
     else if object = JNumber (Num 1) \<or> object = JString (js ''JS_STRING'')
       then FieldOptions_JSType_JS_STRING
     else if object = JNumber (Num 2) \<or> object = JString (js ''JS_NUMBER'')
       then FieldOptions_JSType_JS_NUMBER
     else FieldOptions_JSType_UNRECOGNIZED)"

definition fieldOptions_JSTypeToJSON :: "FieldOptions_JSType \<Rightarrow> jsstring" where
  "fieldOptions_JSTypeToJSON object =
    (if object = FieldOptions_JSType_JS_NORMAL then js ''JS_NORMAL''
     else if object = FieldOptions_JSType_JS_STRING then js ''JS_STRING''
     else if object = FieldOptions_JSType_JS_NUMBER then js ''JS_NUMBER''
     else js ''UNRECOGNIZED'')"

text \<open>The values the schema names, and the one \<open>fromJSON\<close> maps the others to.\<close>

definition FieldOptions_JSType_known :: "FieldOptions_JSType \<Rightarrow> bool" where
  "FieldOptions_JSType_known n \<longleftrightarrow> n \<in> {FieldOptions_JSType_JS_NORMAL, FieldOptions_JSType_JS_STRING, FieldOptions_JSType_JS_NUMBER, FieldOptions_JSType_UNRECOGNIZED}"

type_synonym FieldOptions_OptionRetention = number

definition FieldOptions_OptionRetention_RETENTION_UNKNOWN :: FieldOptions_OptionRetention where
  "FieldOptions_OptionRetention_RETENTION_UNKNOWN = Num 0"

definition FieldOptions_OptionRetention_RETENTION_RUNTIME :: FieldOptions_OptionRetention where
  "FieldOptions_OptionRetention_RETENTION_RUNTIME = Num 1"

definition FieldOptions_OptionRetention_RETENTION_SOURCE :: FieldOptions_OptionRetention where
  "FieldOptions_OptionRetention_RETENTION_SOURCE = Num 2"

definition FieldOptions_OptionRetention_UNRECOGNIZED :: FieldOptions_OptionRetention where
  "FieldOptions_OptionRetention_UNRECOGNIZED = Num (- 1)"

definition fieldOptions_OptionRetentionFromJSON :: "jsval \<Rightarrow> FieldOptions_OptionRetention" where
  "fieldOptions_OptionRetentionFromJSON object =
    (if object = JNumber (Num 0) \<or> object = JString (js ''RETENTION_UNKNOWN'')
       then FieldOptions_OptionRetention_RETENTION_UNKNOWN
     else if object = JNumber (Num 1) \<or> object = JString (js ''RETENTION_RUNTIME'')
       then FieldOptions_OptionRetention_RETENTION_RUNTIME
     else if object = JNumber (Num 2) \<or> object = JString (js ''RETENTION_SOURCE'')
       then FieldOptions_OptionRetention_RETENTION_SOURCE
     else FieldOptions_OptionRetention_UNRECOGNIZED)"

definition fieldOptions_OptionRetentionToJSON :: "FieldOptions_OptionRetention \<Rightarrow> jsstring" where
  "fieldOptions_OptionRetentionToJSON object =
    (if object = FieldOptions_OptionRetention_RETENTION_UNKNOWN then js ''RETENTION_UNKNOWN''
     else if object = FieldOptions_OptionRetention_RETENTION_RUNTIME then js ''RETENTION_RUNTIME''
     else if object = FieldOptions_OptionRetention_RETENTION_SOURCE then js ''RETENTION_SOURCE''
     else js ''UNRECOGNIZED'')"

text \<open>The values the schema names, and the one \<open>fromJSON\<close> maps the others to.\<close>

definition FieldOptions_OptionRetention_known :: "FieldOptions_OptionRetention \<Rightarrow> bool" where
  "FieldOptions_OptionRetention_known n \<longleftrightarrow> n \<in> {FieldOptions_OptionRetention_RETENTION_UNKNOWN, FieldOptions_OptionRetention_RETENTION_RUNTIME, FieldOptions_OptionRetention_RETENTION_SOURCE, FieldOptions_OptionRetention_UNRECOGNIZED}"

type_synonym FieldOptions_OptionTargetType = number

definition FieldOptions_OptionTargetType_TARGET_TYPE_UNKNOWN :: FieldOptions_OptionTargetType where
  "FieldOptions_OptionTargetType_TARGET_TYPE_UNKNOWN = Num 0"

definition FieldOptions_OptionTargetType_TARGET_TYPE_FILE :: FieldOptions_OptionTargetType where
  "FieldOptions_OptionTargetType_TARGET_TYPE_FILE = Num 1"

definition FieldOptions_OptionTargetType_TARGET_TYPE_EXTENSION_RANGE :: FieldOptions_OptionTargetType where
  "FieldOptions_OptionTargetType_TARGET_TYPE_EXTENSION_RANGE = Num 2"

definition FieldOptions_OptionTargetType_TARGET_TYPE_MESSAGE :: FieldOptions_OptionTargetType where
  "FieldOptions_OptionTargetType_TARGET_TYPE_MESSAGE = Num 3"

definition FieldOptions_OptionTargetType_TARGET_TYPE_FIELD :: FieldOptions_OptionTargetType where
  "FieldOptions_OptionTargetType_TARGET_TYPE_FIELD = Num 4"

definition FieldOptions_OptionTargetType_TARGET_TYPE_ONEOF :: FieldOptions_OptionTargetType where
  "FieldOptions_OptionTargetType_TARGET_TYPE_ONEOF = Num 5"

definition FieldOptions_OptionTargetType_TARGET_TYPE_ENUM :: FieldOptions_OptionTargetType where
  "FieldOptions_OptionTargetType_TARGET_TYPE_ENUM = Num 6"

definition FieldOptions_OptionTargetType_TARGET_TYPE_ENUM_ENTRY :: FieldOptions_OptionTargetType where
  "FieldOptions_OptionTargetType_TARGET_TYPE_ENUM_ENTRY = Num 7"

definition FieldOptions_OptionTargetType_TARGET_TYPE_SERVICE :: FieldOptions_OptionTargetType where
  "FieldOptions_OptionTargetType_TARGET_TYPE_SERVICE = Num 8"

definition FieldOptions_OptionTargetType_TARGET_TYPE_METHOD :: FieldOptions_OptionTargetType where
  "FieldOptions_OptionTargetType_TARGET_TYPE_METHOD = Num 9"

definition FieldOptions_OptionTargetType_UNRECOGNIZED :: FieldOptions_OptionTargetType where
  "FieldOptions_OptionTargetType_UNRECOGNIZED = Num (- 1)"

definition fieldOptions_OptionTargetTypeFromJSON :: "jsval \<Rightarrow> FieldOptions_OptionTargetType" where
  "fieldOptions_OptionTargetTypeFromJSON object =
    (if object = JNumber (Num 0) \<or> object = JString (js ''TARGET_TYPE_UNKNOWN'')
       then FieldOptions_OptionTargetType_TARGET_TYPE_UNKNOWN
     else if object = JNumber (Num 1) \<or> object = JString (js ''TARGET_TYPE_FILE'')
       then FieldOptions_OptionTargetType_TARGET_TYPE_FILE
     else if object = JNumber (Num 2) \<or> object = JString (js ''TARGET_TYPE_EXTENSION_RANGE'')
       then FieldOptions_OptionTargetType_TARGET_TYPE_EXTENSION_RANGE
     else if object = JNumber (Num 3) \<or> object = JString (js ''TARGET_TYPE_MESSAGE'')
       then FieldOptions_OptionTargetType_TARGET_TYPE_MESSAGE
     else if object = JNumber (Num 4) \<or> object = JString (js ''TARGET_TYPE_FIELD'')
       then FieldOptions_OptionTargetType_TARGET_TYPE_FIELD
     else if object = JNumber (Num 5) \<or> object = JString (js ''TARGET_TYPE_ONEOF'')
       then FieldOptions_OptionTargetType_TARGET_TYPE_ONEOF
     else if object = JNumber (Num 6) \<or> object = JString (js ''TARGET_TYPE_ENUM'')
       then FieldOptions_OptionTargetType_TARGET_TYPE_ENUM
     else if object = JNumber (Num 7) \<or> object = JString (js ''TARGET_TYPE_ENUM_ENTRY'')
       then FieldOptions_OptionTargetType_TARGET_TYPE_ENUM_ENTRY
     else if object = JNumber (Num 8) \<or> object = JString (js ''TARGET_TYPE_SERVICE'')
       then FieldOptions_OptionTargetType_TARGET_TYPE_SERVICE
     else if object = JNumber (Num 9) \<or> object = JString (js ''TARGET_TYPE_METHOD'')
       then FieldOptions_OptionTargetType_TARGET_TYPE_METHOD
     else FieldOptions_OptionTargetType_UNRECOGNIZED)"

definition fieldOptions_OptionTargetTypeToJSON :: "FieldOptions_OptionTargetType \<Rightarrow> jsstring" where
  "fieldOptions_OptionTargetTypeToJSON object =
    (if object = FieldOptions_OptionTargetType_TARGET_TYPE_UNKNOWN then js ''TARGET_TYPE_UNKNOWN''
     else if object = FieldOptions_OptionTargetType_TARGET_TYPE_FILE then js ''TARGET_TYPE_FILE''
     else if object = FieldOptions_OptionTargetType_TARGET_TYPE_EXTENSION_RANGE then js ''TARGET_TYPE_EXTENSION_RANGE''
     else if object = FieldOptions_OptionTargetType_TARGET_TYPE_MESSAGE then js ''TARGET_TYPE_MESSAGE''
     else if object = FieldOptions_OptionTargetType_TARGET_TYPE_FIELD then js ''TARGET_TYPE_FIELD''
     else if object = FieldOptions_OptionTargetType_TARGET_TYPE_ONEOF then js ''TARGET_TYPE_ONEOF''
     else if object = FieldOptions_OptionTargetType_TARGET_TYPE_ENUM then js ''TARGET_TYPE_ENUM''
     else if object = FieldOptions_OptionTargetType_TARGET_TYPE_ENUM_ENTRY then js ''TARGET_TYPE_ENUM_ENTRY''
     else if object = FieldOptions_OptionTargetType_TARGET_TYPE_SERVICE then js ''TARGET_TYPE_SERVICE''
     else if object = FieldOptions_OptionTargetType_TARGET_TYPE_METHOD then js ''TARGET_TYPE_METHOD''
     else js ''UNRECOGNIZED'')"

text \<open>The values the schema names, and the one \<open>fromJSON\<close> maps the others to.\<close>

definition FieldOptions_OptionTargetType_known :: "FieldOptions_OptionTargetType \<Rightarrow> bool" where
  "FieldOptions_OptionTargetType_known n \<longleftrightarrow> n \<in> {FieldOptions_OptionTargetType_TARGET_TYPE_UNKNOWN, FieldOptions_OptionTargetType_TARGET_TYPE_FILE, FieldOptions_OptionTargetType_TARGET_TYPE_EXTENSION_RANGE, FieldOptions_OptionTargetType_TARGET_TYPE_MESSAGE, FieldOptions_OptionTargetType_TARGET_TYPE_FIELD, FieldOptions_OptionTargetType_TARGET_TYPE_ONEOF, FieldOptions_OptionTargetType_TARGET_TYPE_ENUM, FieldOptions_OptionTargetType_TARGET_TYPE_ENUM_ENTRY, FieldOptions_OptionTargetType_TARGET_TYPE_SERVICE, FieldOptions_OptionTargetType_TARGET_TYPE_METHOD, FieldOptions_OptionTargetType_UNRECOGNIZED}"

type_synonym MethodOptions_IdempotencyLevel = number

definition MethodOptions_IdempotencyLevel_IDEMPOTENCY_UNKNOWN :: MethodOptions_IdempotencyLevel where
  "MethodOptions_IdempotencyLevel_IDEMPOTENCY_UNKNOWN = Num 0"

definition MethodOptions_IdempotencyLevel_NO_SIDE_EFFECTS :: MethodOptions_IdempotencyLevel where
  "MethodOptions_IdempotencyLevel_NO_SIDE_EFFECTS = Num 1"

definition MethodOptions_IdempotencyLevel_IDEMPOTENT :: MethodOptions_IdempotencyLevel where
  "MethodOptions_IdempotencyLevel_IDEMPOTENT = Num 2"

definition MethodOptions_IdempotencyLevel_UNRECOGNIZED :: MethodOptions_IdempotencyLevel where
  "MethodOptions_IdempotencyLevel_UNRECOGNIZED = Num (- 1)"

definition methodOptions_IdempotencyLevelFromJSON :: "jsval \<Rightarrow> MethodOptions_IdempotencyLevel" where
  "methodOptions_IdempotencyLevelFromJSON object =
    (if object = JNumber (Num 0) \<or> object = JString (js ''IDEMPOTENCY_UNKNOWN'')
       then MethodOptions_IdempotencyLevel_IDEMPOTENCY_UNKNOWN
     else if object = JNumber (Num 1) \<or> object = JString (js ''NO_SIDE_EFFECTS'')
       then MethodOptions_IdempotencyLevel_NO_SIDE_EFFECTS
     else if object = JNumber (Num 2) \<or> object = JString (js ''IDEMPOTENT'')
       then MethodOptions_IdempotencyLevel_IDEMPOTENT
     else MethodOptions_IdempotencyLevel_UNRECOGNIZED)"

definition methodOptions_IdempotencyLevelToJSON :: "MethodOptions_IdempotencyLevel \<Rightarrow> jsstring" where
  "methodOptions_IdempotencyLevelToJSON object =
    (if object = MethodOptions_IdempotencyLevel_IDEMPOTENCY_UNKNOWN then js ''IDEMPOTENCY_UNKNOWN''
     else if object = MethodOptions_IdempotencyLevel_NO_SIDE_EFFECTS then js ''NO_SIDE_EFFECTS''
     else if object = MethodOptions_IdempotencyLevel_IDEMPOTENT then js ''IDEMPOTENT''
     else js ''UNRECOGNIZED'')"

text \<open>The values the schema names, and the one \<open>fromJSON\<close> maps the others to.\<close>

definition MethodOptions_IdempotencyLevel_known :: "MethodOptions_IdempotencyLevel \<Rightarrow> bool" where
  "MethodOptions_IdempotencyLevel_known n \<longleftrightarrow> n \<in> {MethodOptions_IdempotencyLevel_IDEMPOTENCY_UNKNOWN, MethodOptions_IdempotencyLevel_NO_SIDE_EFFECTS, MethodOptions_IdempotencyLevel_IDEMPOTENT, MethodOptions_IdempotencyLevel_UNRECOGNIZED}"

type_synonym FeatureSet_FieldPresence = number

definition FeatureSet_FieldPresence_FIELD_PRESENCE_UNKNOWN :: FeatureSet_FieldPresence where
  "FeatureSet_FieldPresence_FIELD_PRESENCE_UNKNOWN = Num 0"

definition FeatureSet_FieldPresence_EXPLICIT :: FeatureSet_FieldPresence where
  "FeatureSet_FieldPresence_EXPLICIT = Num 1"

definition FeatureSet_FieldPresence_IMPLICIT :: FeatureSet_FieldPresence where
  "FeatureSet_FieldPresence_IMPLICIT = Num 2"

definition FeatureSet_FieldPresence_LEGACY_REQUIRED :: FeatureSet_FieldPresence where
  "FeatureSet_FieldPresence_LEGACY_REQUIRED = Num 3"

definition FeatureSet_FieldPresence_UNRECOGNIZED :: FeatureSet_FieldPresence where
  "FeatureSet_FieldPresence_UNRECOGNIZED = Num (- 1)"

definition featureSet_FieldPresenceFromJSON :: "jsval \<Rightarrow> FeatureSet_FieldPresence" where
  "featureSet_FieldPresenceFromJSON object =
    (if object = JNumber (Num 0) \<or> object = JString (js ''FIELD_PRESENCE_UNKNOWN'')
       then FeatureSet_FieldPresence_FIELD_PRESENCE_UNKNOWN
     else if object = JNumber (Num 1) \<or> object = JString (js ''EXPLICIT'')
       then FeatureSet_FieldPresence_EXPLICIT
     else if object = JNumber (Num 2) \<or> object = JString (js ''IMPLICIT'')
       then FeatureSet_FieldPresence_IMPLICIT
     else if object = JNumber (Num 3) \<or> object = JString (js ''LEGACY_REQUIRED'')
       then FeatureSet_FieldPresence_LEGACY_REQUIRED
     else FeatureSet_FieldPresence_UNRECOGNIZED)"

definition featureSet_FieldPresenceToJSON :: "FeatureSet_FieldPresence \<Rightarrow> jsstring" where
  "featureSet_FieldPresenceToJSON object =
    (if object = FeatureSet_FieldPresence_FIELD_PRESENCE_UNKNOWN then js ''FIELD_PRESENCE_UNKNOWN''
     else if object = FeatureSet_FieldPresence_EXPLICIT then js ''EXPLICIT''
     else if object = FeatureSet_FieldPresence_IMPLICIT then js ''IMPLICIT''
     else if object = FeatureSet_FieldPresence_LEGACY_REQUIRED then js ''LEGACY_REQUIRED''
     else js ''UNRECOGNIZED'')"

text \<open>The values the schema names, and the one \<open>fromJSON\<close> maps the others to.\<close>

definition FeatureSet_FieldPresence_known :: "FeatureSet_FieldPresence \<Rightarrow> bool" where
  "FeatureSet_FieldPresence_known n \<longleftrightarrow> n \<in> {FeatureSet_FieldPresence_FIELD_PRESENCE_UNKNOWN, FeatureSet_FieldPresence_EXPLICIT, FeatureSet_FieldPresence_IMPLICIT, FeatureSet_FieldPresence_LEGACY_REQUIRED, FeatureSet_FieldPresence_UNRECOGNIZED}"

type_synonym FeatureSet_EnumType = number

definition FeatureSet_EnumType_ENUM_TYPE_UNKNOWN :: FeatureSet_EnumType where
  "FeatureSet_EnumType_ENUM_TYPE_UNKNOWN = Num 0"

definition FeatureSet_EnumType_OPEN :: FeatureSet_EnumType where
  "FeatureSet_EnumType_OPEN = Num 1"

definition FeatureSet_EnumType_CLOSED :: FeatureSet_EnumType where
  "FeatureSet_EnumType_CLOSED = Num 2"

definition FeatureSet_EnumType_UNRECOGNIZED :: FeatureSet_EnumType where
  "FeatureSet_EnumType_UNRECOGNIZED = Num (- 1)"

definition featureSet_EnumTypeFromJSON :: "jsval \<Rightarrow> FeatureSet_EnumType" where
  "featureSet_EnumTypeFromJSON object =
    (if object = JNumber (Num 0) \<or> object = JString (js ''ENUM_TYPE_UNKNOWN'')
       then FeatureSet_EnumType_ENUM_TYPE_UNKNOWN
     else if object = JNumber (Num 1) \<or> object = JString (js ''OPEN'')
       then FeatureSet_EnumType_OPEN
     else if object = JNumber (Num 2) \<or> object = JString (js ''CLOSED'')
       then FeatureSet_EnumType_CLOSED
     else FeatureSet_EnumType_UNRECOGNIZED)"

definition featureSet_EnumTypeToJSON :: "FeatureSet_EnumType \<Rightarrow> jsstring" where
  "featureSet_EnumTypeToJSON object =
    (if object = FeatureSet_EnumType_ENUM_TYPE_UNKNOWN then js ''ENUM_TYPE_UNKNOWN''
     else if object = FeatureSet_EnumType_OPEN then js ''OPEN''
     else if object = FeatureSet_EnumType_CLOSED then js ''CLOSED''
     else js ''UNRECOGNIZED'')"

text \<open>The values the schema names, and the one \<open>fromJSON\<close> maps the others to.\<close>

definition FeatureSet_EnumType_known :: "FeatureSet_EnumType \<Rightarrow> bool" where
  "FeatureSet_EnumType_known n \<longleftrightarrow> n \<in> {FeatureSet_EnumType_ENUM_TYPE_UNKNOWN, FeatureSet_EnumType_OPEN, FeatureSet_EnumType_CLOSED, FeatureSet_EnumType_UNRECOGNIZED}"

type_synonym FeatureSet_RepeatedFieldEncoding = number

definition FeatureSet_RepeatedFieldEncoding_REPEATED_FIELD_ENCODING_UNKNOWN :: FeatureSet_RepeatedFieldEncoding where
  "FeatureSet_RepeatedFieldEncoding_REPEATED_FIELD_ENCODING_UNKNOWN = Num 0"

definition FeatureSet_RepeatedFieldEncoding_PACKED :: FeatureSet_RepeatedFieldEncoding where
  "FeatureSet_RepeatedFieldEncoding_PACKED = Num 1"

definition FeatureSet_RepeatedFieldEncoding_EXPANDED :: FeatureSet_RepeatedFieldEncoding where
  "FeatureSet_RepeatedFieldEncoding_EXPANDED = Num 2"

definition FeatureSet_RepeatedFieldEncoding_UNRECOGNIZED :: FeatureSet_RepeatedFieldEncoding where
  "FeatureSet_RepeatedFieldEncoding_UNRECOGNIZED = Num (- 1)"

definition featureSet_RepeatedFieldEncodingFromJSON :: "jsval \<Rightarrow> FeatureSet_RepeatedFieldEncoding" where
  "featureSet_RepeatedFieldEncodingFromJSON object =
    (if object = JNumber (Num 0) \<or> object = JString (js ''REPEATED_FIELD_ENCODING_UNKNOWN'')
       then FeatureSet_RepeatedFieldEncoding_REPEATED_FIELD_ENCODING_UNKNOWN
     else if object = JNumber (Num 1) \<or> object = JString (js ''PACKED'')
       then FeatureSet_RepeatedFieldEncoding_PACKED
     else if object = JNumber (Num 2) \<or> object = JString (js ''EXPANDED'')
       then FeatureSet_RepeatedFieldEncoding_EXPANDED
     else FeatureSet_RepeatedFieldEncoding_UNRECOGNIZED)"

definition featureSet_RepeatedFieldEncodingToJSON :: "FeatureSet_RepeatedFieldEncoding \<Rightarrow> jsstring" where
  "featureSet_RepeatedFieldEncodingToJSON object =
    (if object = FeatureSet_RepeatedFieldEncoding_REPEATED_FIELD_ENCODING_UNKNOWN then js ''REPEATED_FIELD_ENCODING_UNKNOWN''
     else if object = FeatureSet_RepeatedFieldEncoding_PACKED then js ''PACKED''
     else if object = FeatureSet_RepeatedFieldEncoding_EXPANDED then js ''EXPANDED''
     else js ''UNRECOGNIZED'')"

text \<open>The values the schema names, and the one \<open>fromJSON\<close> maps the others to.\<close>

definition FeatureSet_RepeatedFieldEncoding_known :: "FeatureSet_RepeatedFieldEncoding \<Rightarrow> bool" where
  "FeatureSet_RepeatedFieldEncoding_known n \<longleftrightarrow> n \<in> {FeatureSet_RepeatedFieldEncoding_REPEATED_FIELD_ENCODING_UNKNOWN, FeatureSet_RepeatedFieldEncoding_PACKED, FeatureSet_RepeatedFieldEncoding_EXPANDED, FeatureSet_RepeatedFieldEncoding_UNRECOGNIZED}"

type_synonym FeatureSet_Utf8Validation = number

definition FeatureSet_Utf8Validation_UTF8_VALIDATION_UNKNOWN :: FeatureSet_Utf8Validation where
  "FeatureSet_Utf8Validation_UTF8_VALIDATION_UNKNOWN = Num 0"

definition FeatureSet_Utf8Validation_VERIFY :: FeatureSet_Utf8Validation where
  "FeatureSet_Utf8Validation_VERIFY = Num 2"

definition FeatureSet_Utf8Validation_NONE :: FeatureSet_Utf8Validation where
  "FeatureSet_Utf8Validation_NONE = Num 3"

definition FeatureSet_Utf8Validation_UNRECOGNIZED :: FeatureSet_Utf8Validation where
  "FeatureSet_Utf8Validation_UNRECOGNIZED = Num (- 1)"

definition featureSet_Utf8ValidationFromJSON :: "jsval \<Rightarrow> FeatureSet_Utf8Validation" where
  "featureSet_Utf8ValidationFromJSON object =
    (if object = JNumber (Num 0) \<or> object = JString (js ''UTF8_VALIDATION_UNKNOWN'')
       then FeatureSet_Utf8Validation_UTF8_VALIDATION_UNKNOWN
     else if object = JNumber (Num 2) \<or> object = JString (js ''VERIFY'')
       then FeatureSet_Utf8Validation_VERIFY
     else if object = JNumber (Num 3) \<or> object = JString (js ''NONE'')
       then FeatureSet_Utf8Validation_NONE
     else FeatureSet_Utf8Validation_UNRECOGNIZED)"

definition featureSet_Utf8ValidationToJSON :: "FeatureSet_Utf8Validation \<Rightarrow> jsstring" where
  "featureSet_Utf8ValidationToJSON object =
    (if object = FeatureSet_Utf8Validation_UTF8_VALIDATION_UNKNOWN then js ''UTF8_VALIDATION_UNKNOWN''
     else if object = FeatureSet_Utf8Validation_VERIFY then js ''VERIFY''
     else if object = FeatureSet_Utf8Validation_NONE then js ''NONE''
     else js ''UNRECOGNIZED'')"

text \<open>The values the schema names, and the one \<open>fromJSON\<close> maps the others to.\<close>

definition FeatureSet_Utf8Validation_known :: "FeatureSet_Utf8Validation \<Rightarrow> bool" where
  "FeatureSet_Utf8Validation_known n \<longleftrightarrow> n \<in> {FeatureSet_Utf8Validation_UTF8_VALIDATION_UNKNOWN, FeatureSet_Utf8Validation_VERIFY, FeatureSet_Utf8Validation_NONE, FeatureSet_Utf8Validation_UNRECOGNIZED}"

type_synonym FeatureSet_MessageEncoding = number

definition FeatureSet_MessageEncoding_MESSAGE_ENCODING_UNKNOWN :: FeatureSet_MessageEncoding where
  "FeatureSet_MessageEncoding_MESSAGE_ENCODING_UNKNOWN = Num 0"

definition FeatureSet_MessageEncoding_LENGTH_PREFIXED :: FeatureSet_MessageEncoding where
  "FeatureSet_MessageEncoding_LENGTH_PREFIXED = Num 1"

definition FeatureSet_MessageEncoding_DELIMITED :: FeatureSet_MessageEncoding where
  "FeatureSet_MessageEncoding_DELIMITED = Num 2"

definition FeatureSet_MessageEncoding_UNRECOGNIZED :: FeatureSet_MessageEncoding where
  "FeatureSet_MessageEncoding_UNRECOGNIZED = Num (- 1)"

definition featureSet_MessageEncodingFromJSON :: "jsval \<Rightarrow> FeatureSet_MessageEncoding" where
  "featureSet_MessageEncodingFromJSON object =
    (if object = JNumber (Num 0) \<or> object = JString (js ''MESSAGE_ENCODING_UNKNOWN'')
       then FeatureSet_MessageEncoding_MESSAGE_ENCODING_UNKNOWN
     else if object = JNumber (Num 1) \<or> object = JString (js ''LENGTH_PREFIXED'')
       then FeatureSet_MessageEncoding_LENGTH_PREFIXED
     else if object = JNumber (Num 2) \<or> object = JString (js ''DELIMITED'')
       then FeatureSet_MessageEncoding_DELIMITED
     else FeatureSet_MessageEncoding_UNRECOGNIZED)"

definition featureSet_MessageEncodingToJSON :: "FeatureSet_MessageEncoding \<Rightarrow> jsstring" where
  "featureSet_MessageEncodingToJSON object =
    (if object = FeatureSet_MessageEncoding_MESSAGE_ENCODING_UNKNOWN then js ''MESSAGE_ENCODING_UNKNOWN''
     else if object = FeatureSet_MessageEncoding_LENGTH_PREFIXED then js ''LENGTH_PREFIXED''
     else if object = FeatureSet_MessageEncoding_DELIMITED then js ''DELIMITED''
     else js ''UNRECOGNIZED'')"

text \<open>The values the schema names, and the one \<open>fromJSON\<close> maps the others to.\<close>

definition FeatureSet_MessageEncoding_known :: "FeatureSet_MessageEncoding \<Rightarrow> bool" where
  "FeatureSet_MessageEncoding_known n \<longleftrightarrow> n \<in> {FeatureSet_MessageEncoding_MESSAGE_ENCODING_UNKNOWN, FeatureSet_MessageEncoding_LENGTH_PREFIXED, FeatureSet_MessageEncoding_DELIMITED, FeatureSet_MessageEncoding_UNRECOGNIZED}"

type_synonym FeatureSet_JsonFormat = number

definition FeatureSet_JsonFormat_JSON_FORMAT_UNKNOWN :: FeatureSet_JsonFormat where
  "FeatureSet_JsonFormat_JSON_FORMAT_UNKNOWN = Num 0"

definition FeatureSet_JsonFormat_ALLOW :: FeatureSet_JsonFormat where
  "FeatureSet_JsonFormat_ALLOW = Num 1"

definition FeatureSet_JsonFormat_LEGACY_BEST_EFFORT :: FeatureSet_JsonFormat where
  "FeatureSet_JsonFormat_LEGACY_BEST_EFFORT = Num 2"

definition FeatureSet_JsonFormat_UNRECOGNIZED :: FeatureSet_JsonFormat where
  "FeatureSet_JsonFormat_UNRECOGNIZED = Num (- 1)"

definition featureSet_JsonFormatFromJSON :: "jsval \<Rightarrow> FeatureSet_JsonFormat" where
  "featureSet_JsonFormatFromJSON object =
    (if object = JNumber (Num 0) \<or> object = JString (js ''JSON_FORMAT_UNKNOWN'')
       then FeatureSet_JsonFormat_JSON_FORMAT_UNKNOWN
     else if object = JNumber (Num 1) \<or> object = JString (js ''ALLOW'')
       then FeatureSet_JsonFormat_ALLOW
     else if object = JNumber (Num 2) \<or> object = JString (js ''LEGACY_BEST_EFFORT'')
       then FeatureSet_JsonFormat_LEGACY_BEST_EFFORT
     else FeatureSet_JsonFormat_UNRECOGNIZED)"

definition featureSet_JsonFormatToJSON :: "FeatureSet_JsonFormat \<Rightarrow> jsstring" where
  "featureSet_JsonFormatToJSON object =
    (if object = FeatureSet_JsonFormat_JSON_FORMAT_UNKNOWN then js ''JSON_FORMAT_UNKNOWN''
     else if object = FeatureSet_JsonFormat_ALLOW then js ''ALLOW''
     else if object = FeatureSet_JsonFormat_LEGACY_BEST_EFFORT then js ''LEGACY_BEST_EFFORT''
     else js ''UNRECOGNIZED'')"

text \<open>The values the schema names, and the one \<open>fromJSON\<close> maps the others to.\<close>

definition FeatureSet_JsonFormat_known :: "FeatureSet_JsonFormat \<Rightarrow> bool" where
  "FeatureSet_JsonFormat_known n \<longleftrightarrow> n \<in> {FeatureSet_JsonFormat_JSON_FORMAT_UNKNOWN, FeatureSet_JsonFormat_ALLOW, FeatureSet_JsonFormat_LEGACY_BEST_EFFORT, FeatureSet_JsonFormat_UNRECOGNIZED}"

subsection \<open>FieldOptions_EditionDefault\<close>

record FieldOptions_EditionDefault =
  edition :: "Edition option"
  value' :: "jsstring option"

definition createBase_FieldOptions_EditionDefault :: FieldOptions_EditionDefault where
  "createBase_FieldOptions_EditionDefault = \<lparr>FieldOptions_EditionDefault.edition = Some (Num 0),
     FieldOptions_EditionDefault.value' = Some []\<rparr>"

definition encode_FieldOptions_EditionDefault :: "('w, 'r) wire \<Rightarrow> FieldOptions_EditionDefault \<Rightarrow> 'w \<Rightarrow> 'w result" where
  "encode_FieldOptions_EditionDefault L message = seqE
    [someE (FieldOptions_EditionDefault.edition message) (\<lambda>v. whenE (v \<noteq> Num 0) (seqE [w_uint32 L 24, w_int32 L v])),
     someE (FieldOptions_EditionDefault.value' message) (\<lambda>v. whenE (v \<noteq> []) (seqE [w_uint32 L 18, w_string L v]))]"

definition FieldOptions_EditionDefault_switch :: "('w, 'r) wire \<Rightarrow> u32 \<Rightarrow> FieldOptions_EditionDefault \<Rightarrow> (FieldOptions_EditionDefault, 'r) action" where
  "FieldOptions_EditionDefault_switch L tag message = js_switch (drop_bit 3 tag)
    [(3, when_tag tag 24 (readf (num32 (r_int32 L)) (\<lambda>v. message\<lparr>FieldOptions_EditionDefault.edition := Some v\<rparr>))),
     (2, when_tag tag 18 (readf (r_string L) (\<lambda>v. message\<lparr>FieldOptions_EditionDefault.value' := Some v\<rparr>)))]
    break_out"

definition decode_FieldOptions_EditionDefault :: "('w, 'r) wire \<Rightarrow> 'r input \<Rightarrow> nat option \<Rightarrow> (FieldOptions_EditionDefault \<times> 'r) result" where
  "decode_FieldOptions_EditionDefault L = decode_msg L (FieldOptions_EditionDefault_switch L) createBase_FieldOptions_EditionDefault"

definition fromJSON_FieldOptions_EditionDefault :: "host \<Rightarrow> jsval \<Rightarrow> FieldOptions_EditionDefault result" where
  "fromJSON_FieldOptions_EditionDefault h object =
     bindE (fieldE object ''edition'' (enumE editionFromJSON) (Num 0)) (\<lambda>v_edition.
     bindE (fieldE object ''value'' (stringE h) []) (\<lambda>v_value.
     Inr \<lparr>FieldOptions_EditionDefault.edition = Some v_edition, FieldOptions_EditionDefault.value' = Some v_value\<rparr>))"

definition toJSON_FieldOptions_EditionDefault :: "host \<Rightarrow> FieldOptions_EditionDefault \<Rightarrow> jsval result" where
  "toJSON_FieldOptions_EditionDefault h message = objE
    [jdefE ''edition'' (\<lambda>v. v \<noteq> Num 0) (\<lambda>v. Inr (JString (editionToJSON v))) (FieldOptions_EditionDefault.edition message),
     jdefE ''value'' (\<lambda>v. v \<noteq> []) (\<lambda>v. Inr (JString v)) (FieldOptions_EditionDefault.value' message)]"

record FieldOptions_EditionDefault_Partial =
  edition :: "Edition option"
  value' :: "jsstring option"

definition FieldOptions_EditionDefault_empty :: FieldOptions_EditionDefault_Partial where
  "FieldOptions_EditionDefault_empty = \<lparr>FieldOptions_EditionDefault_Partial.edition = None, FieldOptions_EditionDefault_Partial.value' = None\<rparr>"

definition fromPartial_FieldOptions_EditionDefault :: "FieldOptions_EditionDefault_Partial \<Rightarrow> FieldOptions_EditionDefault" where
  "fromPartial_FieldOptions_EditionDefault object = createBase_FieldOptions_EditionDefault\<lparr>FieldOptions_EditionDefault.edition := Some (nullish (FieldOptions_EditionDefault_Partial.edition object) (Num 0)),
     FieldOptions_EditionDefault.value' := Some (nullish (FieldOptions_EditionDefault_Partial.value' object) [])\<rparr>"

definition create_FieldOptions_EditionDefault :: "FieldOptions_EditionDefault_Partial option \<Rightarrow> FieldOptions_EditionDefault" where
  "create_FieldOptions_EditionDefault base = fromPartial_FieldOptions_EditionDefault (nullish base FieldOptions_EditionDefault_empty)"

text \<open>A message as a partial message.\<close>

definition partial_of_FieldOptions_EditionDefault :: "FieldOptions_EditionDefault \<Rightarrow> FieldOptions_EditionDefault_Partial" where
  "partial_of_FieldOptions_EditionDefault m =
     \<lparr>FieldOptions_EditionDefault_Partial.edition = FieldOptions_EditionDefault.edition m,
      FieldOptions_EditionDefault_Partial.value' = FieldOptions_EditionDefault.value' m\<rparr>"

definition wf_FieldOptions_EditionDefault :: "('w, 'r) wire \<Rightarrow> FieldOptions_EditionDefault \<Rightarrow> bool" where
  "wf_FieldOptions_EditionDefault L m \<longleftrightarrow> present int32_num (FieldOptions_EditionDefault.edition m)
     \<and> present wire_string (FieldOptions_EditionDefault.value' m)"

definition wfj_FieldOptions_EditionDefault :: "FieldOptions_EditionDefault \<Rightarrow> bool" where
  "wfj_FieldOptions_EditionDefault m \<longleftrightarrow> FieldOptions_EditionDefault.edition m \<noteq> None
     \<and> Edition_known (the (FieldOptions_EditionDefault.edition m))
     \<and> FieldOptions_EditionDefault.value' m \<noteq> None"

subsection \<open>FeatureSet\<close>

record FeatureSet =
  fieldPresence :: "FeatureSet_FieldPresence option"
  enumType :: "FeatureSet_EnumType option"
  repeatedFieldEncoding :: "FeatureSet_RepeatedFieldEncoding option"
  utf8Validation :: "FeatureSet_Utf8Validation option"
  messageEncoding :: "FeatureSet_MessageEncoding option"
  jsonFormat :: "FeatureSet_JsonFormat option"

definition createBase_FeatureSet :: FeatureSet where
  "createBase_FeatureSet = \<lparr>FeatureSet.fieldPresence = Some (Num 0),
     FeatureSet.enumType = Some (Num 0),
     FeatureSet.repeatedFieldEncoding = Some (Num 0),
     FeatureSet.utf8Validation = Some (Num 0),
     FeatureSet.messageEncoding = Some (Num 0),
     FeatureSet.jsonFormat = Some (Num 0)\<rparr>"

definition encode_FeatureSet :: "('w, 'r) wire \<Rightarrow> FeatureSet \<Rightarrow> 'w \<Rightarrow> 'w result" where
  "encode_FeatureSet L message = seqE
    [someE (FeatureSet.fieldPresence message) (\<lambda>v. whenE (v \<noteq> Num 0) (seqE [w_uint32 L 8, w_int32 L v])),
     someE (FeatureSet.enumType message) (\<lambda>v. whenE (v \<noteq> Num 0) (seqE [w_uint32 L 16, w_int32 L v])),
     someE (FeatureSet.repeatedFieldEncoding message) (\<lambda>v. whenE (v \<noteq> Num 0) (seqE [w_uint32 L 24, w_int32 L v])),
     someE (FeatureSet.utf8Validation message) (\<lambda>v. whenE (v \<noteq> Num 0) (seqE [w_uint32 L 32, w_int32 L v])),
     someE (FeatureSet.messageEncoding message) (\<lambda>v. whenE (v \<noteq> Num 0) (seqE [w_uint32 L 40, w_int32 L v])),
     someE (FeatureSet.jsonFormat message) (\<lambda>v. whenE (v \<noteq> Num 0) (seqE [w_uint32 L 48, w_int32 L v]))]"

definition FeatureSet_switch :: "('w, 'r) wire \<Rightarrow> u32 \<Rightarrow> FeatureSet \<Rightarrow> (FeatureSet, 'r) action" where
  "FeatureSet_switch L tag message = js_switch (drop_bit 3 tag)
    [(1, when_tag tag 8 (readf (num32 (r_int32 L)) (\<lambda>v. message\<lparr>FeatureSet.fieldPresence := Some v\<rparr>))),
     (2, when_tag tag 16 (readf (num32 (r_int32 L)) (\<lambda>v. message\<lparr>FeatureSet.enumType := Some v\<rparr>))),
     (3, when_tag tag 24 (readf (num32 (r_int32 L)) (\<lambda>v. message\<lparr>FeatureSet.repeatedFieldEncoding := Some v\<rparr>))),
     (4, when_tag tag 32 (readf (num32 (r_int32 L)) (\<lambda>v. message\<lparr>FeatureSet.utf8Validation := Some v\<rparr>))),
     (5, when_tag tag 40 (readf (num32 (r_int32 L)) (\<lambda>v. message\<lparr>FeatureSet.messageEncoding := Some v\<rparr>))),
     (6, when_tag tag 48 (readf (num32 (r_int32 L)) (\<lambda>v. message\<lparr>FeatureSet.jsonFormat := Some v\<rparr>)))]
    break_out"

definition decode_FeatureSet :: "('w, 'r) wire \<Rightarrow> 'r input \<Rightarrow> nat option \<Rightarrow> (FeatureSet \<times> 'r) result" where
  "decode_FeatureSet L = decode_msg L (FeatureSet_switch L) createBase_FeatureSet"

definition fromJSON_FeatureSet :: "host \<Rightarrow> jsval \<Rightarrow> FeatureSet result" where
  "fromJSON_FeatureSet h object =
     bindE (fieldE object ''fieldPresence'' (enumE featureSet_FieldPresenceFromJSON) (Num 0)) (\<lambda>v_fieldPresence.
     bindE (fieldE object ''enumType'' (enumE featureSet_EnumTypeFromJSON) (Num 0)) (\<lambda>v_enumType.
     bindE (fieldE object ''repeatedFieldEncoding'' (enumE featureSet_RepeatedFieldEncodingFromJSON) (Num 0)) (\<lambda>v_repeatedFieldEncoding.
     bindE (fieldE object ''utf8Validation'' (enumE featureSet_Utf8ValidationFromJSON) (Num 0)) (\<lambda>v_utf8Validation.
     bindE (fieldE object ''messageEncoding'' (enumE featureSet_MessageEncodingFromJSON) (Num 0)) (\<lambda>v_messageEncoding.
     bindE (fieldE object ''jsonFormat'' (enumE featureSet_JsonFormatFromJSON) (Num 0)) (\<lambda>v_jsonFormat.
     Inr \<lparr>FeatureSet.fieldPresence = Some v_fieldPresence, FeatureSet.enumType = Some v_enumType, FeatureSet.repeatedFieldEncoding = Some v_repeatedFieldEncoding, FeatureSet.utf8Validation = Some v_utf8Validation, FeatureSet.messageEncoding = Some v_messageEncoding, FeatureSet.jsonFormat = Some v_jsonFormat\<rparr>))))))"

definition toJSON_FeatureSet :: "host \<Rightarrow> FeatureSet \<Rightarrow> jsval result" where
  "toJSON_FeatureSet h message = objE
    [jdefE ''fieldPresence'' (\<lambda>v. v \<noteq> Num 0) (\<lambda>v. Inr (JString (featureSet_FieldPresenceToJSON v))) (FeatureSet.fieldPresence message),
     jdefE ''enumType'' (\<lambda>v. v \<noteq> Num 0) (\<lambda>v. Inr (JString (featureSet_EnumTypeToJSON v))) (FeatureSet.enumType message),
     jdefE ''repeatedFieldEncoding'' (\<lambda>v. v \<noteq> Num 0) (\<lambda>v. Inr (JString (featureSet_RepeatedFieldEncodingToJSON v))) (FeatureSet.repeatedFieldEncoding message),
     jdefE ''utf8Validation'' (\<lambda>v. v \<noteq> Num 0) (\<lambda>v. Inr (JString (featureSet_Utf8ValidationToJSON v))) (FeatureSet.utf8Validation message),
     jdefE ''messageEncoding'' (\<lambda>v. v \<noteq> Num 0) (\<lambda>v. Inr (JString (featureSet_MessageEncodingToJSON v))) (FeatureSet.messageEncoding message),
     jdefE ''jsonFormat'' (\<lambda>v. v \<noteq> Num 0) (\<lambda>v. Inr (JString (featureSet_JsonFormatToJSON v))) (FeatureSet.jsonFormat message)]"

record FeatureSet_Partial =
  fieldPresence :: "FeatureSet_FieldPresence option"
  enumType :: "FeatureSet_EnumType option"
  repeatedFieldEncoding :: "FeatureSet_RepeatedFieldEncoding option"
  utf8Validation :: "FeatureSet_Utf8Validation option"
  messageEncoding :: "FeatureSet_MessageEncoding option"
  jsonFormat :: "FeatureSet_JsonFormat option"

definition FeatureSet_empty :: FeatureSet_Partial where
  "FeatureSet_empty = \<lparr>FeatureSet_Partial.fieldPresence = None, FeatureSet_Partial.enumType = None, FeatureSet_Partial.repeatedFieldEncoding = None, FeatureSet_Partial.utf8Validation = None, FeatureSet_Partial.messageEncoding = None, FeatureSet_Partial.jsonFormat = None\<rparr>"

definition fromPartial_FeatureSet :: "FeatureSet_Partial \<Rightarrow> FeatureSet" where
  "fromPartial_FeatureSet object = createBase_FeatureSet\<lparr>FeatureSet.fieldPresence := Some (nullish (FeatureSet_Partial.fieldPresence object) (Num 0)),
     FeatureSet.enumType := Some (nullish (FeatureSet_Partial.enumType object) (Num 0)),
     FeatureSet.repeatedFieldEncoding := Some (nullish (FeatureSet_Partial.repeatedFieldEncoding object) (Num 0)),
     FeatureSet.utf8Validation := Some (nullish (FeatureSet_Partial.utf8Validation object) (Num 0)),
     FeatureSet.messageEncoding := Some (nullish (FeatureSet_Partial.messageEncoding object) (Num 0)),
     FeatureSet.jsonFormat := Some (nullish (FeatureSet_Partial.jsonFormat object) (Num 0))\<rparr>"

definition create_FeatureSet :: "FeatureSet_Partial option \<Rightarrow> FeatureSet" where
  "create_FeatureSet base = fromPartial_FeatureSet (nullish base FeatureSet_empty)"

text \<open>A message as a partial message.\<close>

definition partial_of_FeatureSet :: "FeatureSet \<Rightarrow> FeatureSet_Partial" where
  "partial_of_FeatureSet m =
     \<lparr>FeatureSet_Partial.fieldPresence = FeatureSet.fieldPresence m,
      FeatureSet_Partial.enumType = FeatureSet.enumType m,
      FeatureSet_Partial.repeatedFieldEncoding = FeatureSet.repeatedFieldEncoding m,
      FeatureSet_Partial.utf8Validation = FeatureSet.utf8Validation m,
      FeatureSet_Partial.messageEncoding = FeatureSet.messageEncoding m,
      FeatureSet_Partial.jsonFormat = FeatureSet.jsonFormat m\<rparr>"

definition wf_FeatureSet :: "('w, 'r) wire \<Rightarrow> FeatureSet \<Rightarrow> bool" where
  "wf_FeatureSet L m \<longleftrightarrow> present int32_num (FeatureSet.fieldPresence m)
     \<and> present int32_num (FeatureSet.enumType m)
     \<and> present int32_num (FeatureSet.repeatedFieldEncoding m)
     \<and> present int32_num (FeatureSet.utf8Validation m)
     \<and> present int32_num (FeatureSet.messageEncoding m)
     \<and> present int32_num (FeatureSet.jsonFormat m)"

definition wfj_FeatureSet :: "FeatureSet \<Rightarrow> bool" where
  "wfj_FeatureSet m \<longleftrightarrow> FeatureSet.fieldPresence m \<noteq> None
     \<and> FeatureSet_FieldPresence_known (the (FeatureSet.fieldPresence m))
     \<and> FeatureSet.enumType m \<noteq> None
     \<and> FeatureSet_EnumType_known (the (FeatureSet.enumType m))
     \<and> FeatureSet.repeatedFieldEncoding m \<noteq> None
     \<and> FeatureSet_RepeatedFieldEncoding_known (the (FeatureSet.repeatedFieldEncoding m))
     \<and> FeatureSet.utf8Validation m \<noteq> None
     \<and> FeatureSet_Utf8Validation_known (the (FeatureSet.utf8Validation m))
     \<and> FeatureSet.messageEncoding m \<noteq> None
     \<and> FeatureSet_MessageEncoding_known (the (FeatureSet.messageEncoding m))
     \<and> FeatureSet.jsonFormat m \<noteq> None
     \<and> FeatureSet_JsonFormat_known (the (FeatureSet.jsonFormat m))"

subsection \<open>FieldOptions_FeatureSupport\<close>

record FieldOptions_FeatureSupport =
  editionIntroduced :: "Edition option"
  editionDeprecated :: "Edition option"
  deprecationWarning :: "jsstring option"
  editionRemoved :: "Edition option"

definition createBase_FieldOptions_FeatureSupport :: FieldOptions_FeatureSupport where
  "createBase_FieldOptions_FeatureSupport = \<lparr>FieldOptions_FeatureSupport.editionIntroduced = Some (Num 0),
     FieldOptions_FeatureSupport.editionDeprecated = Some (Num 0),
     FieldOptions_FeatureSupport.deprecationWarning = Some [],
     FieldOptions_FeatureSupport.editionRemoved = Some (Num 0)\<rparr>"

definition encode_FieldOptions_FeatureSupport :: "('w, 'r) wire \<Rightarrow> FieldOptions_FeatureSupport \<Rightarrow> 'w \<Rightarrow> 'w result" where
  "encode_FieldOptions_FeatureSupport L message = seqE
    [someE (FieldOptions_FeatureSupport.editionIntroduced message) (\<lambda>v. whenE (v \<noteq> Num 0) (seqE [w_uint32 L 8, w_int32 L v])),
     someE (FieldOptions_FeatureSupport.editionDeprecated message) (\<lambda>v. whenE (v \<noteq> Num 0) (seqE [w_uint32 L 16, w_int32 L v])),
     someE (FieldOptions_FeatureSupport.deprecationWarning message) (\<lambda>v. whenE (v \<noteq> []) (seqE [w_uint32 L 26, w_string L v])),
     someE (FieldOptions_FeatureSupport.editionRemoved message) (\<lambda>v. whenE (v \<noteq> Num 0) (seqE [w_uint32 L 32, w_int32 L v]))]"

definition FieldOptions_FeatureSupport_switch :: "('w, 'r) wire \<Rightarrow> u32 \<Rightarrow> FieldOptions_FeatureSupport \<Rightarrow> (FieldOptions_FeatureSupport, 'r) action" where
  "FieldOptions_FeatureSupport_switch L tag message = js_switch (drop_bit 3 tag)
    [(1, when_tag tag 8 (readf (num32 (r_int32 L)) (\<lambda>v. message\<lparr>FieldOptions_FeatureSupport.editionIntroduced := Some v\<rparr>))),
     (2, when_tag tag 16 (readf (num32 (r_int32 L)) (\<lambda>v. message\<lparr>FieldOptions_FeatureSupport.editionDeprecated := Some v\<rparr>))),
     (3, when_tag tag 26 (readf (r_string L) (\<lambda>v. message\<lparr>FieldOptions_FeatureSupport.deprecationWarning := Some v\<rparr>))),
     (4, when_tag tag 32 (readf (num32 (r_int32 L)) (\<lambda>v. message\<lparr>FieldOptions_FeatureSupport.editionRemoved := Some v\<rparr>)))]
    break_out"

definition decode_FieldOptions_FeatureSupport :: "('w, 'r) wire \<Rightarrow> 'r input \<Rightarrow> nat option \<Rightarrow> (FieldOptions_FeatureSupport \<times> 'r) result" where
  "decode_FieldOptions_FeatureSupport L = decode_msg L (FieldOptions_FeatureSupport_switch L) createBase_FieldOptions_FeatureSupport"

definition fromJSON_FieldOptions_FeatureSupport :: "host \<Rightarrow> jsval \<Rightarrow> FieldOptions_FeatureSupport result" where
  "fromJSON_FieldOptions_FeatureSupport h object =
     bindE (fieldE object ''editionIntroduced'' (enumE editionFromJSON) (Num 0)) (\<lambda>v_editionIntroduced.
     bindE (fieldE object ''editionDeprecated'' (enumE editionFromJSON) (Num 0)) (\<lambda>v_editionDeprecated.
     bindE (fieldE object ''deprecationWarning'' (stringE h) []) (\<lambda>v_deprecationWarning.
     bindE (fieldE object ''editionRemoved'' (enumE editionFromJSON) (Num 0)) (\<lambda>v_editionRemoved.
     Inr \<lparr>FieldOptions_FeatureSupport.editionIntroduced = Some v_editionIntroduced, FieldOptions_FeatureSupport.editionDeprecated = Some v_editionDeprecated, FieldOptions_FeatureSupport.deprecationWarning = Some v_deprecationWarning, FieldOptions_FeatureSupport.editionRemoved = Some v_editionRemoved\<rparr>))))"

definition toJSON_FieldOptions_FeatureSupport :: "host \<Rightarrow> FieldOptions_FeatureSupport \<Rightarrow> jsval result" where
  "toJSON_FieldOptions_FeatureSupport h message = objE
    [jdefE ''editionIntroduced'' (\<lambda>v. v \<noteq> Num 0) (\<lambda>v. Inr (JString (editionToJSON v))) (FieldOptions_FeatureSupport.editionIntroduced message),
     jdefE ''editionDeprecated'' (\<lambda>v. v \<noteq> Num 0) (\<lambda>v. Inr (JString (editionToJSON v))) (FieldOptions_FeatureSupport.editionDeprecated message),
     jdefE ''deprecationWarning'' (\<lambda>v. v \<noteq> []) (\<lambda>v. Inr (JString v)) (FieldOptions_FeatureSupport.deprecationWarning message),
     jdefE ''editionRemoved'' (\<lambda>v. v \<noteq> Num 0) (\<lambda>v. Inr (JString (editionToJSON v))) (FieldOptions_FeatureSupport.editionRemoved message)]"

record FieldOptions_FeatureSupport_Partial =
  editionIntroduced :: "Edition option"
  editionDeprecated :: "Edition option"
  deprecationWarning :: "jsstring option"
  editionRemoved :: "Edition option"

definition FieldOptions_FeatureSupport_empty :: FieldOptions_FeatureSupport_Partial where
  "FieldOptions_FeatureSupport_empty = \<lparr>FieldOptions_FeatureSupport_Partial.editionIntroduced = None, FieldOptions_FeatureSupport_Partial.editionDeprecated = None, FieldOptions_FeatureSupport_Partial.deprecationWarning = None, FieldOptions_FeatureSupport_Partial.editionRemoved = None\<rparr>"

definition fromPartial_FieldOptions_FeatureSupport :: "FieldOptions_FeatureSupport_Partial \<Rightarrow> FieldOptions_FeatureSupport" where
  "fromPartial_FieldOptions_FeatureSupport object = createBase_FieldOptions_FeatureSupport\<lparr>FieldOptions_FeatureSupport.editionIntroduced := Some (nullish (FieldOptions_FeatureSupport_Partial.editionIntroduced object) (Num 0)),
     FieldOptions_FeatureSupport.editionDeprecated := Some (nullish (FieldOptions_FeatureSupport_Partial.editionDeprecated object) (Num 0)),
     FieldOptions_FeatureSupport.deprecationWarning := Some (nullish (FieldOptions_FeatureSupport_Partial.deprecationWarning object) []),
     FieldOptions_FeatureSupport.editionRemoved := Some (nullish (FieldOptions_FeatureSupport_Partial.editionRemoved object) (Num 0))\<rparr>"

definition create_FieldOptions_FeatureSupport :: "FieldOptions_FeatureSupport_Partial option \<Rightarrow> FieldOptions_FeatureSupport" where
  "create_FieldOptions_FeatureSupport base = fromPartial_FieldOptions_FeatureSupport (nullish base FieldOptions_FeatureSupport_empty)"

text \<open>A message as a partial message.\<close>

definition partial_of_FieldOptions_FeatureSupport :: "FieldOptions_FeatureSupport \<Rightarrow> FieldOptions_FeatureSupport_Partial" where
  "partial_of_FieldOptions_FeatureSupport m =
     \<lparr>FieldOptions_FeatureSupport_Partial.editionIntroduced = FieldOptions_FeatureSupport.editionIntroduced m,
      FieldOptions_FeatureSupport_Partial.editionDeprecated = FieldOptions_FeatureSupport.editionDeprecated m,
      FieldOptions_FeatureSupport_Partial.deprecationWarning = FieldOptions_FeatureSupport.deprecationWarning m,
      FieldOptions_FeatureSupport_Partial.editionRemoved = FieldOptions_FeatureSupport.editionRemoved m\<rparr>"

definition wf_FieldOptions_FeatureSupport :: "('w, 'r) wire \<Rightarrow> FieldOptions_FeatureSupport \<Rightarrow> bool" where
  "wf_FieldOptions_FeatureSupport L m \<longleftrightarrow> present int32_num (FieldOptions_FeatureSupport.editionIntroduced m)
     \<and> present int32_num (FieldOptions_FeatureSupport.editionDeprecated m)
     \<and> present wire_string (FieldOptions_FeatureSupport.deprecationWarning m)
     \<and> present int32_num (FieldOptions_FeatureSupport.editionRemoved m)"

definition wfj_FieldOptions_FeatureSupport :: "FieldOptions_FeatureSupport \<Rightarrow> bool" where
  "wfj_FieldOptions_FeatureSupport m \<longleftrightarrow> FieldOptions_FeatureSupport.editionIntroduced m \<noteq> None
     \<and> Edition_known (the (FieldOptions_FeatureSupport.editionIntroduced m))
     \<and> FieldOptions_FeatureSupport.editionDeprecated m \<noteq> None
     \<and> Edition_known (the (FieldOptions_FeatureSupport.editionDeprecated m))
     \<and> FieldOptions_FeatureSupport.deprecationWarning m \<noteq> None
     \<and> FieldOptions_FeatureSupport.editionRemoved m \<noteq> None
     \<and> Edition_known (the (FieldOptions_FeatureSupport.editionRemoved m))"

subsection \<open>UninterpretedOption_NamePart\<close>

record UninterpretedOption_NamePart =
  namePart :: jsstring
  isExtension :: bool

definition createBase_UninterpretedOption_NamePart :: UninterpretedOption_NamePart where
  "createBase_UninterpretedOption_NamePart = \<lparr>UninterpretedOption_NamePart.namePart = [],
     UninterpretedOption_NamePart.isExtension = False\<rparr>"

definition encode_UninterpretedOption_NamePart :: "('w, 'r) wire \<Rightarrow> UninterpretedOption_NamePart \<Rightarrow> 'w \<Rightarrow> 'w result" where
  "encode_UninterpretedOption_NamePart L message = seqE
    [whenE (UninterpretedOption_NamePart.namePart message \<noteq> []) (seqE [w_uint32 L 10, w_string L (UninterpretedOption_NamePart.namePart message)]),
     whenE (UninterpretedOption_NamePart.isExtension message \<noteq> False) (seqE [w_uint32 L 16, w_bool L (UninterpretedOption_NamePart.isExtension message)])]"

definition UninterpretedOption_NamePart_switch :: "('w, 'r) wire \<Rightarrow> u32 \<Rightarrow> UninterpretedOption_NamePart \<Rightarrow> (UninterpretedOption_NamePart, 'r) action" where
  "UninterpretedOption_NamePart_switch L tag message = js_switch (drop_bit 3 tag)
    [(1, when_tag tag 10 (readf (r_string L) (\<lambda>v. message\<lparr>UninterpretedOption_NamePart.namePart := v\<rparr>))),
     (2, when_tag tag 16 (readf (r_bool L) (\<lambda>v. message\<lparr>UninterpretedOption_NamePart.isExtension := v\<rparr>)))]
    break_out"

definition decode_UninterpretedOption_NamePart :: "('w, 'r) wire \<Rightarrow> 'r input \<Rightarrow> nat option \<Rightarrow> (UninterpretedOption_NamePart \<times> 'r) result" where
  "decode_UninterpretedOption_NamePart L = decode_msg L (UninterpretedOption_NamePart_switch L) createBase_UninterpretedOption_NamePart"

definition fromJSON_UninterpretedOption_NamePart :: "host \<Rightarrow> jsval \<Rightarrow> UninterpretedOption_NamePart result" where
  "fromJSON_UninterpretedOption_NamePart h object =
     bindE (fieldE object ''namePart'' (stringE h) []) (\<lambda>v_namePart.
     bindE (fieldE object ''isExtension'' booleanE False) (\<lambda>v_isExtension.
     Inr \<lparr>UninterpretedOption_NamePart.namePart = v_namePart, UninterpretedOption_NamePart.isExtension = v_isExtension\<rparr>))"

definition toJSON_UninterpretedOption_NamePart :: "host \<Rightarrow> UninterpretedOption_NamePart \<Rightarrow> jsval result" where
  "toJSON_UninterpretedOption_NamePart h message = objE
    [jfieldE (UninterpretedOption_NamePart.namePart message \<noteq> []) ''namePart'' (Inr (JString (UninterpretedOption_NamePart.namePart message))),
     jfieldE (UninterpretedOption_NamePart.isExtension message \<noteq> False) ''isExtension'' (Inr (JBool (UninterpretedOption_NamePart.isExtension message)))]"

record UninterpretedOption_NamePart_Partial =
  namePart :: "jsstring option"
  isExtension :: "bool option"

definition UninterpretedOption_NamePart_empty :: UninterpretedOption_NamePart_Partial where
  "UninterpretedOption_NamePart_empty = \<lparr>UninterpretedOption_NamePart_Partial.namePart = None, UninterpretedOption_NamePart_Partial.isExtension = None\<rparr>"

definition fromPartial_UninterpretedOption_NamePart :: "UninterpretedOption_NamePart_Partial \<Rightarrow> UninterpretedOption_NamePart" where
  "fromPartial_UninterpretedOption_NamePart object = createBase_UninterpretedOption_NamePart\<lparr>UninterpretedOption_NamePart.namePart := nullish (UninterpretedOption_NamePart_Partial.namePart object) [],
     UninterpretedOption_NamePart.isExtension := nullish (UninterpretedOption_NamePart_Partial.isExtension object) False\<rparr>"

definition create_UninterpretedOption_NamePart :: "UninterpretedOption_NamePart_Partial option \<Rightarrow> UninterpretedOption_NamePart" where
  "create_UninterpretedOption_NamePart base = fromPartial_UninterpretedOption_NamePart (nullish base UninterpretedOption_NamePart_empty)"

text \<open>A message as a partial message.\<close>

definition partial_of_UninterpretedOption_NamePart :: "UninterpretedOption_NamePart \<Rightarrow> UninterpretedOption_NamePart_Partial" where
  "partial_of_UninterpretedOption_NamePart m =
     \<lparr>UninterpretedOption_NamePart_Partial.namePart = Some (UninterpretedOption_NamePart.namePart m),
      UninterpretedOption_NamePart_Partial.isExtension = Some (UninterpretedOption_NamePart.isExtension m)\<rparr>"

definition wf_UninterpretedOption_NamePart :: "('w, 'r) wire \<Rightarrow> UninterpretedOption_NamePart \<Rightarrow> bool" where
  "wf_UninterpretedOption_NamePart L m \<longleftrightarrow> wire_string (UninterpretedOption_NamePart.namePart m)"

definition wfj_UninterpretedOption_NamePart :: "UninterpretedOption_NamePart \<Rightarrow> bool" where
  "wfj_UninterpretedOption_NamePart m \<longleftrightarrow> True"

subsection \<open>UninterpretedOption\<close>

record UninterpretedOption =
  name :: "UninterpretedOption_NamePart list"
  identifierValue :: "jsstring option"
  positiveIntValue :: "number option"
  negativeIntValue :: "number option"
  doubleValue :: "number option"
  stringValue :: "bytes option"
  aggregateValue :: "jsstring option"

definition createBase_UninterpretedOption :: UninterpretedOption where
  "createBase_UninterpretedOption = \<lparr>UninterpretedOption.name = [],
     UninterpretedOption.identifierValue = Some [],
     UninterpretedOption.positiveIntValue = Some (Num 0),
     UninterpretedOption.negativeIntValue = Some (Num 0),
     UninterpretedOption.doubleValue = Some (Num 0),
     UninterpretedOption.stringValue = Some [],
     UninterpretedOption.aggregateValue = Some []\<rparr>"

definition encode_UninterpretedOption :: "('w, 'r) wire \<Rightarrow> UninterpretedOption \<Rightarrow> 'w \<Rightarrow> 'w result" where
  "encode_UninterpretedOption L message = seqE
    [forE (\<lambda>v. seqE [w_uint32 L 18, w_fork L, encode_UninterpretedOption_NamePart L v, w_join L]) (UninterpretedOption.name message),
     someE (UninterpretedOption.identifierValue message) (\<lambda>v. whenE (v \<noteq> []) (seqE [w_uint32 L 26, w_string L v])),
     someE (UninterpretedOption.positiveIntValue message) (\<lambda>v. whenE (v \<noteq> Num 0) (seqE [w_uint32 L 32, w_uint64 L v])),
     someE (UninterpretedOption.negativeIntValue message) (\<lambda>v. whenE (v \<noteq> Num 0) (seqE [w_uint32 L 40, w_int64 L v])),
     someE (UninterpretedOption.doubleValue message) (\<lambda>v. whenE (v \<noteq> Num 0) (seqE [w_uint32 L 49, w_double L v])),
     someE (UninterpretedOption.stringValue message) (\<lambda>v. whenE (length v \<noteq> 0) (seqE [w_uint32 L 58, w_bytes L v])),
     someE (UninterpretedOption.aggregateValue message) (\<lambda>v. whenE (v \<noteq> []) (seqE [w_uint32 L 66, w_string L v]))]"

definition UninterpretedOption_switch :: "('w, 'r) wire \<Rightarrow> u32 \<Rightarrow> UninterpretedOption \<Rightarrow> (UninterpretedOption, 'r) action" where
  "UninterpretedOption_switch L tag message = js_switch (drop_bit 3 tag)
    [(2, when_tag tag 18 (readf (submsg L (decode_UninterpretedOption_NamePart L)) (\<lambda>v. message\<lparr>UninterpretedOption.name := UninterpretedOption.name message @ [v]\<rparr>))),
     (3, when_tag tag 26 (readf (r_string L) (\<lambda>v. message\<lparr>UninterpretedOption.identifierValue := Some v\<rparr>))),
     (4, when_tag tag 32 (readf (num64 (r_uint64 L)) (\<lambda>v. message\<lparr>UninterpretedOption.positiveIntValue := Some v\<rparr>))),
     (5, when_tag tag 40 (readf (num64 (r_int64 L)) (\<lambda>v. message\<lparr>UninterpretedOption.negativeIntValue := Some v\<rparr>))),
     (6, when_tag tag 49 (readf (r_double L) (\<lambda>v. message\<lparr>UninterpretedOption.doubleValue := Some v\<rparr>))),
     (7, when_tag tag 58 (readf (r_bytes L) (\<lambda>v. message\<lparr>UninterpretedOption.stringValue := Some v\<rparr>))),
     (8, when_tag tag 66 (readf (r_string L) (\<lambda>v. message\<lparr>UninterpretedOption.aggregateValue := Some v\<rparr>)))]
    break_out"

definition decode_UninterpretedOption :: "('w, 'r) wire \<Rightarrow> 'r input \<Rightarrow> nat option \<Rightarrow> (UninterpretedOption \<times> 'r) result" where
  "decode_UninterpretedOption L = decode_msg L (UninterpretedOption_switch L) createBase_UninterpretedOption"

definition fromJSON_UninterpretedOption :: "host \<Rightarrow> jsval \<Rightarrow> UninterpretedOption result" where
  "fromJSON_UninterpretedOption h object =
     bindE (arrayE object ''name'' (fromJSON_UninterpretedOption_NamePart h)) (\<lambda>v_name.
     bindE (fieldE object ''identifierValue'' (stringE h) []) (\<lambda>v_identifierValue.
     bindE (fieldE object ''positiveIntValue'' (numberE h) (Num 0)) (\<lambda>v_positiveIntValue.
     bindE (fieldE object ''negativeIntValue'' (numberE h) (Num 0)) (\<lambda>v_negativeIntValue.
     bindE (fieldE object ''doubleValue'' (numberE h) (Num 0)) (\<lambda>v_doubleValue.
     bindE (fieldE object ''stringValue'' (bytesFromBase64 h) []) (\<lambda>v_stringValue.
     bindE (fieldE object ''aggregateValue'' (stringE h) []) (\<lambda>v_aggregateValue.
     Inr \<lparr>UninterpretedOption.name = v_name, UninterpretedOption.identifierValue = Some v_identifierValue, UninterpretedOption.positiveIntValue = Some v_positiveIntValue, UninterpretedOption.negativeIntValue = Some v_negativeIntValue, UninterpretedOption.doubleValue = Some v_doubleValue, UninterpretedOption.stringValue = Some v_stringValue, UninterpretedOption.aggregateValue = Some v_aggregateValue\<rparr>)))))))"

definition toJSON_UninterpretedOption :: "host \<Rightarrow> UninterpretedOption \<Rightarrow> jsval result" where
  "toJSON_UninterpretedOption h message = objE
    [jarrayE ''name'' (toJSON_UninterpretedOption_NamePart h) (UninterpretedOption.name message),
     jdefE ''identifierValue'' (\<lambda>v. v \<noteq> []) (\<lambda>v. Inr (JString v)) (UninterpretedOption.identifierValue message),
     jdefE ''positiveIntValue'' (\<lambda>v. v \<noteq> Num 0) (\<lambda>v. Inr (JNumber (Math_round v))) (UninterpretedOption.positiveIntValue message),
     jdefE ''negativeIntValue'' (\<lambda>v. v \<noteq> Num 0) (\<lambda>v. Inr (JNumber (Math_round v))) (UninterpretedOption.negativeIntValue message),
     jdefE ''doubleValue'' (\<lambda>v. v \<noteq> Num 0) (\<lambda>v. Inr (JNumber v)) (UninterpretedOption.doubleValue message),
     jdefE ''stringValue'' (\<lambda>v. length v \<noteq> 0) (base64E h) (UninterpretedOption.stringValue message),
     jdefE ''aggregateValue'' (\<lambda>v. v \<noteq> []) (\<lambda>v. Inr (JString v)) (UninterpretedOption.aggregateValue message)]"

record UninterpretedOption_Partial =
  name :: "UninterpretedOption_NamePart_Partial list option"
  identifierValue :: "jsstring option"
  positiveIntValue :: "number option"
  negativeIntValue :: "number option"
  doubleValue :: "number option"
  stringValue :: "bytes option"
  aggregateValue :: "jsstring option"

definition UninterpretedOption_empty :: UninterpretedOption_Partial where
  "UninterpretedOption_empty = \<lparr>UninterpretedOption_Partial.name = None, UninterpretedOption_Partial.identifierValue = None, UninterpretedOption_Partial.positiveIntValue = None, UninterpretedOption_Partial.negativeIntValue = None, UninterpretedOption_Partial.doubleValue = None, UninterpretedOption_Partial.stringValue = None, UninterpretedOption_Partial.aggregateValue = None\<rparr>"

definition fromPartial_UninterpretedOption :: "UninterpretedOption_Partial \<Rightarrow> UninterpretedOption" where
  "fromPartial_UninterpretedOption object = createBase_UninterpretedOption\<lparr>UninterpretedOption.name := partial_map fromPartial_UninterpretedOption_NamePart (UninterpretedOption_Partial.name object),
     UninterpretedOption.identifierValue := Some (nullish (UninterpretedOption_Partial.identifierValue object) []),
     UninterpretedOption.positiveIntValue := Some (nullish (UninterpretedOption_Partial.positiveIntValue object) (Num 0)),
     UninterpretedOption.negativeIntValue := Some (nullish (UninterpretedOption_Partial.negativeIntValue object) (Num 0)),
     UninterpretedOption.doubleValue := Some (nullish (UninterpretedOption_Partial.doubleValue object) (Num 0)),
     UninterpretedOption.stringValue := Some (nullish (UninterpretedOption_Partial.stringValue object) []),
     UninterpretedOption.aggregateValue := Some (nullish (UninterpretedOption_Partial.aggregateValue object) [])\<rparr>"

definition create_UninterpretedOption :: "UninterpretedOption_Partial option \<Rightarrow> UninterpretedOption" where
  "create_UninterpretedOption base = fromPartial_UninterpretedOption (nullish base UninterpretedOption_empty)"

text \<open>A message as a partial message.\<close>

definition partial_of_UninterpretedOption :: "UninterpretedOption \<Rightarrow> UninterpretedOption_Partial" where
  "partial_of_UninterpretedOption m =
     \<lparr>UninterpretedOption_Partial.name = Some (map partial_of_UninterpretedOption_NamePart (UninterpretedOption.name m)),
      UninterpretedOption_Partial.identifierValue = UninterpretedOption.identifierValue m,
      UninterpretedOption_Partial.positiveIntValue = UninterpretedOption.positiveIntValue m,
      UninterpretedOption_Partial.negativeIntValue = UninterpretedOption.negativeIntValue m,
      UninterpretedOption_Partial.doubleValue = UninterpretedOption.doubleValue m,
      UninterpretedOption_Partial.stringValue = UninterpretedOption.stringValue m,
      UninterpretedOption_Partial.aggregateValue = UninterpretedOption.aggregateValue m\<rparr>"

definition wf_UninterpretedOption :: "('w, 'r) wire \<Rightarrow> UninterpretedOption \<Rightarrow> bool" where
  "wf_UninterpretedOption L m \<longleftrightarrow> list_all (\<lambda>v. wf_UninterpretedOption_NamePart L v \<and> fits L (encode_UninterpretedOption_NamePart L v)) (UninterpretedOption.name m)
     \<and> present wire_string (UninterpretedOption.identifierValue m)
     \<and> present safe_uint (UninterpretedOption.positiveIntValue m)
     \<and> present safe_int (UninterpretedOption.negativeIntValue m)
     \<and> present is_double (UninterpretedOption.doubleValue m)
     \<and> present wire_bytes (UninterpretedOption.stringValue m)
     \<and> present wire_string (UninterpretedOption.aggregateValue m)"

definition wfj_UninterpretedOption :: "UninterpretedOption \<Rightarrow> bool" where
  "wfj_UninterpretedOption m \<longleftrightarrow> list_all wfj_UninterpretedOption_NamePart (UninterpretedOption.name m)
     \<and> UninterpretedOption.identifierValue m \<noteq> None
     \<and> UninterpretedOption.positiveIntValue m \<noteq> None
     \<and> whole (the (UninterpretedOption.positiveIntValue m))
     \<and> UninterpretedOption.negativeIntValue m \<noteq> None
     \<and> whole (the (UninterpretedOption.negativeIntValue m))
     \<and> UninterpretedOption.doubleValue m \<noteq> None
     \<and> UninterpretedOption.stringValue m \<noteq> None
     \<and> UninterpretedOption.aggregateValue m \<noteq> None"

subsection \<open>FieldOptions\<close>

record FieldOptions =
  ctype :: "FieldOptions_CType option"
  packed' :: "bool option"
  jstype :: "FieldOptions_JSType option"
  lazy :: "bool option"
  unverifiedLazy :: "bool option"
  deprecated :: "bool option"
  weak :: "bool option"
  debugRedact :: "bool option"
  retention :: "FieldOptions_OptionRetention option"
  targets :: "FieldOptions_OptionTargetType list"
  editionDefaults :: "FieldOptions_EditionDefault list"
  features :: "FeatureSet option"
  featureSupport :: "FieldOptions_FeatureSupport option"
  uninterpretedOption :: "UninterpretedOption list"

definition createBase_FieldOptions :: FieldOptions where
  "createBase_FieldOptions = \<lparr>FieldOptions.ctype = Some (Num 0),
     FieldOptions.packed' = Some False,
     FieldOptions.jstype = Some (Num 0),
     FieldOptions.lazy = Some False,
     FieldOptions.unverifiedLazy = Some False,
     FieldOptions.deprecated = Some False,
     FieldOptions.weak = Some False,
     FieldOptions.debugRedact = Some False,
     FieldOptions.retention = Some (Num 0),
     FieldOptions.targets = [],
     FieldOptions.editionDefaults = [],
     FieldOptions.features = None,
     FieldOptions.featureSupport = None,
     FieldOptions.uninterpretedOption = []\<rparr>"

definition encode_FieldOptions :: "('w, 'r) wire \<Rightarrow> FieldOptions \<Rightarrow> 'w \<Rightarrow> 'w result" where
  "encode_FieldOptions L message = seqE
    [someE (FieldOptions.ctype message) (\<lambda>v. whenE (v \<noteq> Num 0) (seqE [w_uint32 L 8, w_int32 L v])),
     someE (FieldOptions.packed' message) (\<lambda>v. whenE (v \<noteq> False) (seqE [w_uint32 L 16, w_bool L v])),
     someE (FieldOptions.jstype message) (\<lambda>v. whenE (v \<noteq> Num 0) (seqE [w_uint32 L 48, w_int32 L v])),
     someE (FieldOptions.lazy message) (\<lambda>v. whenE (v \<noteq> False) (seqE [w_uint32 L 40, w_bool L v])),
     someE (FieldOptions.unverifiedLazy message) (\<lambda>v. whenE (v \<noteq> False) (seqE [w_uint32 L 120, w_bool L v])),
     someE (FieldOptions.deprecated message) (\<lambda>v. whenE (v \<noteq> False) (seqE [w_uint32 L 24, w_bool L v])),
     someE (FieldOptions.weak message) (\<lambda>v. whenE (v \<noteq> False) (seqE [w_uint32 L 80, w_bool L v])),
     someE (FieldOptions.debugRedact message) (\<lambda>v. whenE (v \<noteq> False) (seqE [w_uint32 L 128, w_bool L v])),
     someE (FieldOptions.retention message) (\<lambda>v. whenE (v \<noteq> Num 0) (seqE [w_uint32 L 136, w_int32 L v])),
     seqE [w_uint32 L 154, w_fork L, forE (w_int32 L) (FieldOptions.targets message), w_join L],
     forE (\<lambda>v. seqE [w_uint32 L 162, w_fork L, encode_FieldOptions_EditionDefault L v, w_join L]) (FieldOptions.editionDefaults message),
     someE (FieldOptions.features message) (\<lambda>v. seqE [w_uint32 L 170, w_fork L, encode_FeatureSet L v, w_join L]),
     someE (FieldOptions.featureSupport message) (\<lambda>v. seqE [w_uint32 L 178, w_fork L, encode_FieldOptions_FeatureSupport L v, w_join L]),
     forE (\<lambda>v. seqE [w_uint32 L 7994, w_fork L, encode_UninterpretedOption L v, w_join L]) (FieldOptions.uninterpretedOption message)]"

definition FieldOptions_switch :: "('w, 'r) wire \<Rightarrow> u32 \<Rightarrow> FieldOptions \<Rightarrow> (FieldOptions, 'r) action" where
  "FieldOptions_switch L tag message = js_switch (drop_bit 3 tag)
    [(1, when_tag tag 8 (readf (num32 (r_int32 L)) (\<lambda>v. message\<lparr>FieldOptions.ctype := Some v\<rparr>))),
     (2, when_tag tag 16 (readf (r_bool L) (\<lambda>v. message\<lparr>FieldOptions.packed' := Some v\<rparr>))),
     (6, when_tag tag 48 (readf (num32 (r_int32 L)) (\<lambda>v. message\<lparr>FieldOptions.jstype := Some v\<rparr>))),
     (5, when_tag tag 40 (readf (r_bool L) (\<lambda>v. message\<lparr>FieldOptions.lazy := Some v\<rparr>))),
     (15, when_tag tag 120 (readf (r_bool L) (\<lambda>v. message\<lparr>FieldOptions.unverifiedLazy := Some v\<rparr>))),
     (3, when_tag tag 24 (readf (r_bool L) (\<lambda>v. message\<lparr>FieldOptions.deprecated := Some v\<rparr>))),
     (10, when_tag tag 80 (readf (r_bool L) (\<lambda>v. message\<lparr>FieldOptions.weak := Some v\<rparr>))),
     (16, when_tag tag 128 (readf (r_bool L) (\<lambda>v. message\<lparr>FieldOptions.debugRedact := Some v\<rparr>))),
     (17, when_tag tag 136 (readf (num32 (r_int32 L)) (\<lambda>v. message\<lparr>FieldOptions.retention := Some v\<rparr>))),
     (19, if tag = 152 then readf (num32 (r_int32 L)) (\<lambda>v. message\<lparr>FieldOptions.targets := FieldOptions.targets message @ [v]\<rparr>)
          else if tag = 154 then readf (packed L (num32 (r_int32 L))) (\<lambda>v. message\<lparr>FieldOptions.targets := FieldOptions.targets message @ v\<rparr>)
          else break_out),
     (20, when_tag tag 162 (readf (submsg L (decode_FieldOptions_EditionDefault L)) (\<lambda>v. message\<lparr>FieldOptions.editionDefaults := FieldOptions.editionDefaults message @ [v]\<rparr>))),
     (21, when_tag tag 170 (readf (submsg L (decode_FeatureSet L)) (\<lambda>v. message\<lparr>FieldOptions.features := Some v\<rparr>))),
     (22, when_tag tag 178 (readf (submsg L (decode_FieldOptions_FeatureSupport L)) (\<lambda>v. message\<lparr>FieldOptions.featureSupport := Some v\<rparr>))),
     (999, when_tag tag 7994 (readf (submsg L (decode_UninterpretedOption L)) (\<lambda>v. message\<lparr>FieldOptions.uninterpretedOption := FieldOptions.uninterpretedOption message @ [v]\<rparr>)))]
    break_out"

definition decode_FieldOptions :: "('w, 'r) wire \<Rightarrow> 'r input \<Rightarrow> nat option \<Rightarrow> (FieldOptions \<times> 'r) result" where
  "decode_FieldOptions L = decode_msg L (FieldOptions_switch L) createBase_FieldOptions"

definition fromJSON_FieldOptions :: "host \<Rightarrow> jsval \<Rightarrow> FieldOptions result" where
  "fromJSON_FieldOptions h object =
     bindE (fieldE object ''ctype'' (enumE fieldOptions_CTypeFromJSON) (Num 0)) (\<lambda>v_ctype.
     bindE (fieldE object ''packed'' booleanE False) (\<lambda>v_packed.
     bindE (fieldE object ''jstype'' (enumE fieldOptions_JSTypeFromJSON) (Num 0)) (\<lambda>v_jstype.
     bindE (fieldE object ''lazy'' booleanE False) (\<lambda>v_lazy.
     bindE (fieldE object ''unverifiedLazy'' booleanE False) (\<lambda>v_unverifiedLazy.
     bindE (fieldE object ''deprecated'' booleanE False) (\<lambda>v_deprecated.
     bindE (fieldE object ''weak'' booleanE False) (\<lambda>v_weak.
     bindE (fieldE object ''debugRedact'' booleanE False) (\<lambda>v_debugRedact.
     bindE (fieldE object ''retention'' (enumE fieldOptions_OptionRetentionFromJSON) (Num 0)) (\<lambda>v_retention.
     bindE (arrayE object ''targets'' (enumE fieldOptions_OptionTargetTypeFromJSON)) (\<lambda>v_targets.
     bindE (arrayE object ''editionDefaults'' (fromJSON_FieldOptions_EditionDefault h)) (\<lambda>v_editionDefaults.
     bindE (optE object ''features'' (fromJSON_FeatureSet h)) (\<lambda>v_features.
     bindE (optE object ''featureSupport'' (fromJSON_FieldOptions_FeatureSupport h)) (\<lambda>v_featureSupport.
     bindE (arrayE object ''uninterpretedOption'' (fromJSON_UninterpretedOption h)) (\<lambda>v_uninterpretedOption.
     Inr \<lparr>FieldOptions.ctype = Some v_ctype, FieldOptions.packed' = Some v_packed, FieldOptions.jstype = Some v_jstype, FieldOptions.lazy = Some v_lazy, FieldOptions.unverifiedLazy = Some v_unverifiedLazy, FieldOptions.deprecated = Some v_deprecated, FieldOptions.weak = Some v_weak, FieldOptions.debugRedact = Some v_debugRedact, FieldOptions.retention = Some v_retention, FieldOptions.targets = v_targets, FieldOptions.editionDefaults = v_editionDefaults, FieldOptions.features = v_features, FieldOptions.featureSupport = v_featureSupport, FieldOptions.uninterpretedOption = v_uninterpretedOption\<rparr>))))))))))))))"

definition toJSON_FieldOptions :: "host \<Rightarrow> FieldOptions \<Rightarrow> jsval result" where
  "toJSON_FieldOptions h message = objE
    [jdefE ''ctype'' (\<lambda>v. v \<noteq> Num 0) (\<lambda>v. Inr (JString (fieldOptions_CTypeToJSON v))) (FieldOptions.ctype message),
     jdefE ''packed'' (\<lambda>v. v \<noteq> False) (\<lambda>v. Inr (JBool v)) (FieldOptions.packed' message),
     jdefE ''jstype'' (\<lambda>v. v \<noteq> Num 0) (\<lambda>v. Inr (JString (fieldOptions_JSTypeToJSON v))) (FieldOptions.jstype message),
     jdefE ''lazy'' (\<lambda>v. v \<noteq> False) (\<lambda>v. Inr (JBool v)) (FieldOptions.lazy message),
     jdefE ''unverifiedLazy'' (\<lambda>v. v \<noteq> False) (\<lambda>v. Inr (JBool v)) (FieldOptions.unverifiedLazy message),
     jdefE ''deprecated'' (\<lambda>v. v \<noteq> False) (\<lambda>v. Inr (JBool v)) (FieldOptions.deprecated message),
     jdefE ''weak'' (\<lambda>v. v \<noteq> False) (\<lambda>v. Inr (JBool v)) (FieldOptions.weak message),
     jdefE ''debugRedact'' (\<lambda>v. v \<noteq> False) (\<lambda>v. Inr (JBool v)) (FieldOptions.debugRedact message),
     jdefE ''retention'' (\<lambda>v. v \<noteq> Num 0) (\<lambda>v. Inr (JString (fieldOptions_OptionRetentionToJSON v))) (FieldOptions.retention message),
     jarrayE ''targets'' (\<lambda>e. Inr (JString (fieldOptions_OptionTargetTypeToJSON e))) (FieldOptions.targets message),
     jarrayE ''editionDefaults'' (toJSON_FieldOptions_EditionDefault h) (FieldOptions.editionDefaults message),
     joptE ''features'' (toJSON_FeatureSet h) (FieldOptions.features message),
     joptE ''featureSupport'' (toJSON_FieldOptions_FeatureSupport h) (FieldOptions.featureSupport message),
     jarrayE ''uninterpretedOption'' (toJSON_UninterpretedOption h) (FieldOptions.uninterpretedOption message)]"

record FieldOptions_Partial =
  ctype :: "FieldOptions_CType option"
  packed' :: "bool option"
  jstype :: "FieldOptions_JSType option"
  lazy :: "bool option"
  unverifiedLazy :: "bool option"
  deprecated :: "bool option"
  weak :: "bool option"
  debugRedact :: "bool option"
  retention :: "FieldOptions_OptionRetention option"
  targets :: "FieldOptions_OptionTargetType list option"
  editionDefaults :: "FieldOptions_EditionDefault_Partial list option"
  features :: "FeatureSet_Partial option"
  featureSupport :: "FieldOptions_FeatureSupport_Partial option"
  uninterpretedOption :: "UninterpretedOption_Partial list option"

definition FieldOptions_empty :: FieldOptions_Partial where
  "FieldOptions_empty = \<lparr>FieldOptions_Partial.ctype = None, FieldOptions_Partial.packed' = None, FieldOptions_Partial.jstype = None, FieldOptions_Partial.lazy = None, FieldOptions_Partial.unverifiedLazy = None, FieldOptions_Partial.deprecated = None, FieldOptions_Partial.weak = None, FieldOptions_Partial.debugRedact = None, FieldOptions_Partial.retention = None, FieldOptions_Partial.targets = None, FieldOptions_Partial.editionDefaults = None, FieldOptions_Partial.features = None, FieldOptions_Partial.featureSupport = None, FieldOptions_Partial.uninterpretedOption = None\<rparr>"

definition fromPartial_FieldOptions :: "FieldOptions_Partial \<Rightarrow> FieldOptions" where
  "fromPartial_FieldOptions object = createBase_FieldOptions\<lparr>FieldOptions.ctype := Some (nullish (FieldOptions_Partial.ctype object) (Num 0)),
     FieldOptions.packed' := Some (nullish (FieldOptions_Partial.packed' object) False),
     FieldOptions.jstype := Some (nullish (FieldOptions_Partial.jstype object) (Num 0)),
     FieldOptions.lazy := Some (nullish (FieldOptions_Partial.lazy object) False),
     FieldOptions.unverifiedLazy := Some (nullish (FieldOptions_Partial.unverifiedLazy object) False),
     FieldOptions.deprecated := Some (nullish (FieldOptions_Partial.deprecated object) False),
     FieldOptions.weak := Some (nullish (FieldOptions_Partial.weak object) False),
     FieldOptions.debugRedact := Some (nullish (FieldOptions_Partial.debugRedact object) False),
     FieldOptions.retention := Some (nullish (FieldOptions_Partial.retention object) (Num 0)),
     FieldOptions.targets := partial_map (\<lambda>e. e) (FieldOptions_Partial.targets object),
     FieldOptions.editionDefaults := partial_map fromPartial_FieldOptions_EditionDefault (FieldOptions_Partial.editionDefaults object),
     FieldOptions.features := map_option fromPartial_FeatureSet (FieldOptions_Partial.features object),
     FieldOptions.featureSupport := map_option fromPartial_FieldOptions_FeatureSupport (FieldOptions_Partial.featureSupport object),
     FieldOptions.uninterpretedOption := partial_map fromPartial_UninterpretedOption (FieldOptions_Partial.uninterpretedOption object)\<rparr>"

definition create_FieldOptions :: "FieldOptions_Partial option \<Rightarrow> FieldOptions" where
  "create_FieldOptions base = fromPartial_FieldOptions (nullish base FieldOptions_empty)"

text \<open>A message as a partial message.\<close>

definition partial_of_FieldOptions :: "FieldOptions \<Rightarrow> FieldOptions_Partial" where
  "partial_of_FieldOptions m =
     \<lparr>FieldOptions_Partial.ctype = FieldOptions.ctype m,
      FieldOptions_Partial.packed' = FieldOptions.packed' m,
      FieldOptions_Partial.jstype = FieldOptions.jstype m,
      FieldOptions_Partial.lazy = FieldOptions.lazy m,
      FieldOptions_Partial.unverifiedLazy = FieldOptions.unverifiedLazy m,
      FieldOptions_Partial.deprecated = FieldOptions.deprecated m,
      FieldOptions_Partial.weak = FieldOptions.weak m,
      FieldOptions_Partial.debugRedact = FieldOptions.debugRedact m,
      FieldOptions_Partial.retention = FieldOptions.retention m,
      FieldOptions_Partial.targets = Some (FieldOptions.targets m),
      FieldOptions_Partial.editionDefaults = Some (map partial_of_FieldOptions_EditionDefault (FieldOptions.editionDefaults m)),
      FieldOptions_Partial.features = map_option partial_of_FeatureSet (FieldOptions.features m),
      FieldOptions_Partial.featureSupport = map_option partial_of_FieldOptions_FeatureSupport (FieldOptions.featureSupport m),
      FieldOptions_Partial.uninterpretedOption = Some (map partial_of_UninterpretedOption (FieldOptions.uninterpretedOption m))\<rparr>"

definition wf_FieldOptions :: "('w, 'r) wire \<Rightarrow> FieldOptions \<Rightarrow> bool" where
  "wf_FieldOptions L m \<longleftrightarrow> present int32_num (FieldOptions.ctype m)
     \<and> present (\<lambda>_. True) (FieldOptions.packed' m)
     \<and> present int32_num (FieldOptions.jstype m)
     \<and> present (\<lambda>_. True) (FieldOptions.lazy m)
     \<and> present (\<lambda>_. True) (FieldOptions.unverifiedLazy m)
     \<and> present (\<lambda>_. True) (FieldOptions.deprecated m)
     \<and> present (\<lambda>_. True) (FieldOptions.weak m)
     \<and> present (\<lambda>_. True) (FieldOptions.debugRedact m)
     \<and> present int32_num (FieldOptions.retention m)
     \<and> (list_all int32_num (FieldOptions.targets m) \<and> fits L (forE (w_int32 L) (FieldOptions.targets m)))
     \<and> list_all (\<lambda>v. wf_FieldOptions_EditionDefault L v \<and> fits L (encode_FieldOptions_EditionDefault L v)) (FieldOptions.editionDefaults m)
     \<and> pred_option (\<lambda>v. wf_FeatureSet L v \<and> fits L (encode_FeatureSet L v)) (FieldOptions.features m)
     \<and> pred_option (\<lambda>v. wf_FieldOptions_FeatureSupport L v \<and> fits L (encode_FieldOptions_FeatureSupport L v)) (FieldOptions.featureSupport m)
     \<and> list_all (\<lambda>v. wf_UninterpretedOption L v \<and> fits L (encode_UninterpretedOption L v)) (FieldOptions.uninterpretedOption m)"

definition wfj_FieldOptions :: "FieldOptions \<Rightarrow> bool" where
  "wfj_FieldOptions m \<longleftrightarrow> FieldOptions.ctype m \<noteq> None
     \<and> FieldOptions_CType_known (the (FieldOptions.ctype m))
     \<and> FieldOptions.packed' m \<noteq> None
     \<and> FieldOptions.jstype m \<noteq> None
     \<and> FieldOptions_JSType_known (the (FieldOptions.jstype m))
     \<and> FieldOptions.lazy m \<noteq> None
     \<and> FieldOptions.unverifiedLazy m \<noteq> None
     \<and> FieldOptions.deprecated m \<noteq> None
     \<and> FieldOptions.weak m \<noteq> None
     \<and> FieldOptions.debugRedact m \<noteq> None
     \<and> FieldOptions.retention m \<noteq> None
     \<and> FieldOptions_OptionRetention_known (the (FieldOptions.retention m))
     \<and> list_all FieldOptions_OptionTargetType_known (FieldOptions.targets m)
     \<and> list_all wfj_FieldOptions_EditionDefault (FieldOptions.editionDefaults m)
     \<and> pred_option wfj_FeatureSet (FieldOptions.features m)
     \<and> pred_option wfj_FieldOptions_FeatureSupport (FieldOptions.featureSupport m)
     \<and> list_all wfj_UninterpretedOption (FieldOptions.uninterpretedOption m)"

subsection \<open>EnumValueOptions\<close>

record EnumValueOptions =
  deprecated :: "bool option"
  features :: "FeatureSet option"
  debugRedact :: "bool option"
  featureSupport :: "FieldOptions_FeatureSupport option"
  uninterpretedOption :: "UninterpretedOption list"

definition createBase_EnumValueOptions :: EnumValueOptions where
  "createBase_EnumValueOptions = \<lparr>EnumValueOptions.deprecated = Some False,
     EnumValueOptions.features = None,
     EnumValueOptions.debugRedact = Some False,
     EnumValueOptions.featureSupport = None,
     EnumValueOptions.uninterpretedOption = []\<rparr>"

definition encode_EnumValueOptions :: "('w, 'r) wire \<Rightarrow> EnumValueOptions \<Rightarrow> 'w \<Rightarrow> 'w result" where
  "encode_EnumValueOptions L message = seqE
    [someE (EnumValueOptions.deprecated message) (\<lambda>v. whenE (v \<noteq> False) (seqE [w_uint32 L 8, w_bool L v])),
     someE (EnumValueOptions.features message) (\<lambda>v. seqE [w_uint32 L 18, w_fork L, encode_FeatureSet L v, w_join L]),
     someE (EnumValueOptions.debugRedact message) (\<lambda>v. whenE (v \<noteq> False) (seqE [w_uint32 L 24, w_bool L v])),
     someE (EnumValueOptions.featureSupport message) (\<lambda>v. seqE [w_uint32 L 34, w_fork L, encode_FieldOptions_FeatureSupport L v, w_join L]),
     forE (\<lambda>v. seqE [w_uint32 L 7994, w_fork L, encode_UninterpretedOption L v, w_join L]) (EnumValueOptions.uninterpretedOption message)]"

definition EnumValueOptions_switch :: "('w, 'r) wire \<Rightarrow> u32 \<Rightarrow> EnumValueOptions \<Rightarrow> (EnumValueOptions, 'r) action" where
  "EnumValueOptions_switch L tag message = js_switch (drop_bit 3 tag)
    [(1, when_tag tag 8 (readf (r_bool L) (\<lambda>v. message\<lparr>EnumValueOptions.deprecated := Some v\<rparr>))),
     (2, when_tag tag 18 (readf (submsg L (decode_FeatureSet L)) (\<lambda>v. message\<lparr>EnumValueOptions.features := Some v\<rparr>))),
     (3, when_tag tag 24 (readf (r_bool L) (\<lambda>v. message\<lparr>EnumValueOptions.debugRedact := Some v\<rparr>))),
     (4, when_tag tag 34 (readf (submsg L (decode_FieldOptions_FeatureSupport L)) (\<lambda>v. message\<lparr>EnumValueOptions.featureSupport := Some v\<rparr>))),
     (999, when_tag tag 7994 (readf (submsg L (decode_UninterpretedOption L)) (\<lambda>v. message\<lparr>EnumValueOptions.uninterpretedOption := EnumValueOptions.uninterpretedOption message @ [v]\<rparr>)))]
    break_out"

definition decode_EnumValueOptions :: "('w, 'r) wire \<Rightarrow> 'r input \<Rightarrow> nat option \<Rightarrow> (EnumValueOptions \<times> 'r) result" where
  "decode_EnumValueOptions L = decode_msg L (EnumValueOptions_switch L) createBase_EnumValueOptions"

definition fromJSON_EnumValueOptions :: "host \<Rightarrow> jsval \<Rightarrow> EnumValueOptions result" where
  "fromJSON_EnumValueOptions h object =
     bindE (fieldE object ''deprecated'' booleanE False) (\<lambda>v_deprecated.
     bindE (optE object ''features'' (fromJSON_FeatureSet h)) (\<lambda>v_features.
     bindE (fieldE object ''debugRedact'' booleanE False) (\<lambda>v_debugRedact.
     bindE (optE object ''featureSupport'' (fromJSON_FieldOptions_FeatureSupport h)) (\<lambda>v_featureSupport.
     bindE (arrayE object ''uninterpretedOption'' (fromJSON_UninterpretedOption h)) (\<lambda>v_uninterpretedOption.
     Inr \<lparr>EnumValueOptions.deprecated = Some v_deprecated, EnumValueOptions.features = v_features, EnumValueOptions.debugRedact = Some v_debugRedact, EnumValueOptions.featureSupport = v_featureSupport, EnumValueOptions.uninterpretedOption = v_uninterpretedOption\<rparr>)))))"

definition toJSON_EnumValueOptions :: "host \<Rightarrow> EnumValueOptions \<Rightarrow> jsval result" where
  "toJSON_EnumValueOptions h message = objE
    [jdefE ''deprecated'' (\<lambda>v. v \<noteq> False) (\<lambda>v. Inr (JBool v)) (EnumValueOptions.deprecated message),
     joptE ''features'' (toJSON_FeatureSet h) (EnumValueOptions.features message),
     jdefE ''debugRedact'' (\<lambda>v. v \<noteq> False) (\<lambda>v. Inr (JBool v)) (EnumValueOptions.debugRedact message),
     joptE ''featureSupport'' (toJSON_FieldOptions_FeatureSupport h) (EnumValueOptions.featureSupport message),
     jarrayE ''uninterpretedOption'' (toJSON_UninterpretedOption h) (EnumValueOptions.uninterpretedOption message)]"

record EnumValueOptions_Partial =
  deprecated :: "bool option"
  features :: "FeatureSet_Partial option"
  debugRedact :: "bool option"
  featureSupport :: "FieldOptions_FeatureSupport_Partial option"
  uninterpretedOption :: "UninterpretedOption_Partial list option"

definition EnumValueOptions_empty :: EnumValueOptions_Partial where
  "EnumValueOptions_empty = \<lparr>EnumValueOptions_Partial.deprecated = None, EnumValueOptions_Partial.features = None, EnumValueOptions_Partial.debugRedact = None, EnumValueOptions_Partial.featureSupport = None, EnumValueOptions_Partial.uninterpretedOption = None\<rparr>"

definition fromPartial_EnumValueOptions :: "EnumValueOptions_Partial \<Rightarrow> EnumValueOptions" where
  "fromPartial_EnumValueOptions object = createBase_EnumValueOptions\<lparr>EnumValueOptions.deprecated := Some (nullish (EnumValueOptions_Partial.deprecated object) False),
     EnumValueOptions.features := map_option fromPartial_FeatureSet (EnumValueOptions_Partial.features object),
     EnumValueOptions.debugRedact := Some (nullish (EnumValueOptions_Partial.debugRedact object) False),
     EnumValueOptions.featureSupport := map_option fromPartial_FieldOptions_FeatureSupport (EnumValueOptions_Partial.featureSupport object),
     EnumValueOptions.uninterpretedOption := partial_map fromPartial_UninterpretedOption (EnumValueOptions_Partial.uninterpretedOption object)\<rparr>"

definition create_EnumValueOptions :: "EnumValueOptions_Partial option \<Rightarrow> EnumValueOptions" where
  "create_EnumValueOptions base = fromPartial_EnumValueOptions (nullish base EnumValueOptions_empty)"

text \<open>A message as a partial message.\<close>

definition partial_of_EnumValueOptions :: "EnumValueOptions \<Rightarrow> EnumValueOptions_Partial" where
  "partial_of_EnumValueOptions m =
     \<lparr>EnumValueOptions_Partial.deprecated = EnumValueOptions.deprecated m,
      EnumValueOptions_Partial.features = map_option partial_of_FeatureSet (EnumValueOptions.features m),
      EnumValueOptions_Partial.debugRedact = EnumValueOptions.debugRedact m,
      EnumValueOptions_Partial.featureSupport = map_option partial_of_FieldOptions_FeatureSupport (EnumValueOptions.featureSupport m),
      EnumValueOptions_Partial.uninterpretedOption = Some (map partial_of_UninterpretedOption (EnumValueOptions.uninterpretedOption m))\<rparr>"

definition wf_EnumValueOptions :: "('w, 'r) wire \<Rightarrow> EnumValueOptions \<Rightarrow> bool" where
  "wf_EnumValueOptions L m \<longleftrightarrow> present (\<lambda>_. True) (EnumValueOptions.deprecated m)
     \<and> pred_option (\<lambda>v. wf_FeatureSet L v \<and> fits L (encode_FeatureSet L v)) (EnumValueOptions.features m)
     \<and> present (\<lambda>_. True) (EnumValueOptions.debugRedact m)
     \<and> pred_option (\<lambda>v. wf_FieldOptions_FeatureSupport L v \<and> fits L (encode_FieldOptions_FeatureSupport L v)) (EnumValueOptions.featureSupport m)
     \<and> list_all (\<lambda>v. wf_UninterpretedOption L v \<and> fits L (encode_UninterpretedOption L v)) (EnumValueOptions.uninterpretedOption m)"

definition wfj_EnumValueOptions :: "EnumValueOptions \<Rightarrow> bool" where
  "wfj_EnumValueOptions m \<longleftrightarrow> EnumValueOptions.deprecated m \<noteq> None
     \<and> pred_option wfj_FeatureSet (EnumValueOptions.features m)
     \<and> EnumValueOptions.debugRedact m \<noteq> None
     \<and> pred_option wfj_FieldOptions_FeatureSupport (EnumValueOptions.featureSupport m)
     \<and> list_all wfj_UninterpretedOption (EnumValueOptions.uninterpretedOption m)"

subsection \<open>EnumOptions\<close>

record EnumOptions =
  allowAlias :: "bool option"
  deprecated :: "bool option"
  deprecatedLegacyJsonFieldConflicts :: "bool option"
  features :: "FeatureSet option"
  uninterpretedOption :: "UninterpretedOption list"

definition createBase_EnumOptions :: EnumOptions where
  "createBase_EnumOptions = \<lparr>EnumOptions.allowAlias = Some False,
     EnumOptions.deprecated = Some False,
     EnumOptions.deprecatedLegacyJsonFieldConflicts = Some False,
     EnumOptions.features = None,
     EnumOptions.uninterpretedOption = []\<rparr>"

definition encode_EnumOptions :: "('w, 'r) wire \<Rightarrow> EnumOptions \<Rightarrow> 'w \<Rightarrow> 'w result" where
  "encode_EnumOptions L message = seqE
    [someE (EnumOptions.allowAlias message) (\<lambda>v. whenE (v \<noteq> False) (seqE [w_uint32 L 16, w_bool L v])),
     someE (EnumOptions.deprecated message) (\<lambda>v. whenE (v \<noteq> False) (seqE [w_uint32 L 24, w_bool L v])),
     someE (EnumOptions.deprecatedLegacyJsonFieldConflicts message) (\<lambda>v. whenE (v \<noteq> False) (seqE [w_uint32 L 48, w_bool L v])),
     someE (EnumOptions.features message) (\<lambda>v. seqE [w_uint32 L 58, w_fork L, encode_FeatureSet L v, w_join L]),
     forE (\<lambda>v. seqE [w_uint32 L 7994, w_fork L, encode_UninterpretedOption L v, w_join L]) (EnumOptions.uninterpretedOption message)]"

definition EnumOptions_switch :: "('w, 'r) wire \<Rightarrow> u32 \<Rightarrow> EnumOptions \<Rightarrow> (EnumOptions, 'r) action" where
  "EnumOptions_switch L tag message = js_switch (drop_bit 3 tag)
    [(2, when_tag tag 16 (readf (r_bool L) (\<lambda>v. message\<lparr>EnumOptions.allowAlias := Some v\<rparr>))),
     (3, when_tag tag 24 (readf (r_bool L) (\<lambda>v. message\<lparr>EnumOptions.deprecated := Some v\<rparr>))),
     (6, when_tag tag 48 (readf (r_bool L) (\<lambda>v. message\<lparr>EnumOptions.deprecatedLegacyJsonFieldConflicts := Some v\<rparr>))),
     (7, when_tag tag 58 (readf (submsg L (decode_FeatureSet L)) (\<lambda>v. message\<lparr>EnumOptions.features := Some v\<rparr>))),
     (999, when_tag tag 7994 (readf (submsg L (decode_UninterpretedOption L)) (\<lambda>v. message\<lparr>EnumOptions.uninterpretedOption := EnumOptions.uninterpretedOption message @ [v]\<rparr>)))]
    break_out"

definition decode_EnumOptions :: "('w, 'r) wire \<Rightarrow> 'r input \<Rightarrow> nat option \<Rightarrow> (EnumOptions \<times> 'r) result" where
  "decode_EnumOptions L = decode_msg L (EnumOptions_switch L) createBase_EnumOptions"

definition fromJSON_EnumOptions :: "host \<Rightarrow> jsval \<Rightarrow> EnumOptions result" where
  "fromJSON_EnumOptions h object =
     bindE (fieldE object ''allowAlias'' booleanE False) (\<lambda>v_allowAlias.
     bindE (fieldE object ''deprecated'' booleanE False) (\<lambda>v_deprecated.
     bindE (fieldE object ''deprecatedLegacyJsonFieldConflicts'' booleanE False) (\<lambda>v_deprecatedLegacyJsonFieldConflicts.
     bindE (optE object ''features'' (fromJSON_FeatureSet h)) (\<lambda>v_features.
     bindE (arrayE object ''uninterpretedOption'' (fromJSON_UninterpretedOption h)) (\<lambda>v_uninterpretedOption.
     Inr \<lparr>EnumOptions.allowAlias = Some v_allowAlias, EnumOptions.deprecated = Some v_deprecated, EnumOptions.deprecatedLegacyJsonFieldConflicts = Some v_deprecatedLegacyJsonFieldConflicts, EnumOptions.features = v_features, EnumOptions.uninterpretedOption = v_uninterpretedOption\<rparr>)))))"

definition toJSON_EnumOptions :: "host \<Rightarrow> EnumOptions \<Rightarrow> jsval result" where
  "toJSON_EnumOptions h message = objE
    [jdefE ''allowAlias'' (\<lambda>v. v \<noteq> False) (\<lambda>v. Inr (JBool v)) (EnumOptions.allowAlias message),
     jdefE ''deprecated'' (\<lambda>v. v \<noteq> False) (\<lambda>v. Inr (JBool v)) (EnumOptions.deprecated message),
     jdefE ''deprecatedLegacyJsonFieldConflicts'' (\<lambda>v. v \<noteq> False) (\<lambda>v. Inr (JBool v)) (EnumOptions.deprecatedLegacyJsonFieldConflicts message),
     joptE ''features'' (toJSON_FeatureSet h) (EnumOptions.features message),
     jarrayE ''uninterpretedOption'' (toJSON_UninterpretedOption h) (EnumOptions.uninterpretedOption message)]"

record EnumOptions_Partial =
  allowAlias :: "bool option"
  deprecated :: "bool option"
  deprecatedLegacyJsonFieldConflicts :: "bool option"
  features :: "FeatureSet_Partial option"
  uninterpretedOption :: "UninterpretedOption_Partial list option"

definition EnumOptions_empty :: EnumOptions_Partial where
  "EnumOptions_empty = \<lparr>EnumOptions_Partial.allowAlias = None, EnumOptions_Partial.deprecated = None, EnumOptions_Partial.deprecatedLegacyJsonFieldConflicts = None, EnumOptions_Partial.features = None, EnumOptions_Partial.uninterpretedOption = None\<rparr>"

definition fromPartial_EnumOptions :: "EnumOptions_Partial \<Rightarrow> EnumOptions" where
  "fromPartial_EnumOptions object = createBase_EnumOptions\<lparr>EnumOptions.allowAlias := Some (nullish (EnumOptions_Partial.allowAlias object) False),
     EnumOptions.deprecated := Some (nullish (EnumOptions_Partial.deprecated object) False),
     EnumOptions.deprecatedLegacyJsonFieldConflicts := Some (nullish (EnumOptions_Partial.deprecatedLegacyJsonFieldConflicts object) False),
     EnumOptions.features := map_option fromPartial_FeatureSet (EnumOptions_Partial.features object),
     EnumOptions.uninterpretedOption := partial_map fromPartial_UninterpretedOption (EnumOptions_Partial.uninterpretedOption object)\<rparr>"

definition create_EnumOptions :: "EnumOptions_Partial option \<Rightarrow> EnumOptions" where
  "create_EnumOptions base = fromPartial_EnumOptions (nullish base EnumOptions_empty)"

text \<open>A message as a partial message.\<close>

definition partial_of_EnumOptions :: "EnumOptions \<Rightarrow> EnumOptions_Partial" where
  "partial_of_EnumOptions m =
     \<lparr>EnumOptions_Partial.allowAlias = EnumOptions.allowAlias m,
      EnumOptions_Partial.deprecated = EnumOptions.deprecated m,
      EnumOptions_Partial.deprecatedLegacyJsonFieldConflicts = EnumOptions.deprecatedLegacyJsonFieldConflicts m,
      EnumOptions_Partial.features = map_option partial_of_FeatureSet (EnumOptions.features m),
      EnumOptions_Partial.uninterpretedOption = Some (map partial_of_UninterpretedOption (EnumOptions.uninterpretedOption m))\<rparr>"

definition wf_EnumOptions :: "('w, 'r) wire \<Rightarrow> EnumOptions \<Rightarrow> bool" where
  "wf_EnumOptions L m \<longleftrightarrow> present (\<lambda>_. True) (EnumOptions.allowAlias m)
     \<and> present (\<lambda>_. True) (EnumOptions.deprecated m)
     \<and> present (\<lambda>_. True) (EnumOptions.deprecatedLegacyJsonFieldConflicts m)
     \<and> pred_option (\<lambda>v. wf_FeatureSet L v \<and> fits L (encode_FeatureSet L v)) (EnumOptions.features m)
     \<and> list_all (\<lambda>v. wf_UninterpretedOption L v \<and> fits L (encode_UninterpretedOption L v)) (EnumOptions.uninterpretedOption m)"

definition wfj_EnumOptions :: "EnumOptions \<Rightarrow> bool" where
  "wfj_EnumOptions m \<longleftrightarrow> EnumOptions.allowAlias m \<noteq> None
     \<and> EnumOptions.deprecated m \<noteq> None
     \<and> EnumOptions.deprecatedLegacyJsonFieldConflicts m \<noteq> None
     \<and> pred_option wfj_FeatureSet (EnumOptions.features m)
     \<and> list_all wfj_UninterpretedOption (EnumOptions.uninterpretedOption m)"

subsection \<open>ExtensionRangeOptions_Declaration\<close>

record ExtensionRangeOptions_Declaration =
  number :: "number option"
  fullName :: "jsstring option"
  type' :: "jsstring option"
  reserved :: "bool option"
  repeated :: "bool option"

definition createBase_ExtensionRangeOptions_Declaration :: ExtensionRangeOptions_Declaration where
  "createBase_ExtensionRangeOptions_Declaration = \<lparr>ExtensionRangeOptions_Declaration.number = Some (Num 0),
     ExtensionRangeOptions_Declaration.fullName = Some [],
     ExtensionRangeOptions_Declaration.type' = Some [],
     ExtensionRangeOptions_Declaration.reserved = Some False,
     ExtensionRangeOptions_Declaration.repeated = Some False\<rparr>"

definition encode_ExtensionRangeOptions_Declaration :: "('w, 'r) wire \<Rightarrow> ExtensionRangeOptions_Declaration \<Rightarrow> 'w \<Rightarrow> 'w result" where
  "encode_ExtensionRangeOptions_Declaration L message = seqE
    [someE (ExtensionRangeOptions_Declaration.number message) (\<lambda>v. whenE (v \<noteq> Num 0) (seqE [w_uint32 L 8, w_int32 L v])),
     someE (ExtensionRangeOptions_Declaration.fullName message) (\<lambda>v. whenE (v \<noteq> []) (seqE [w_uint32 L 18, w_string L v])),
     someE (ExtensionRangeOptions_Declaration.type' message) (\<lambda>v. whenE (v \<noteq> []) (seqE [w_uint32 L 26, w_string L v])),
     someE (ExtensionRangeOptions_Declaration.reserved message) (\<lambda>v. whenE (v \<noteq> False) (seqE [w_uint32 L 40, w_bool L v])),
     someE (ExtensionRangeOptions_Declaration.repeated message) (\<lambda>v. whenE (v \<noteq> False) (seqE [w_uint32 L 48, w_bool L v]))]"

definition ExtensionRangeOptions_Declaration_switch :: "('w, 'r) wire \<Rightarrow> u32 \<Rightarrow> ExtensionRangeOptions_Declaration \<Rightarrow> (ExtensionRangeOptions_Declaration, 'r) action" where
  "ExtensionRangeOptions_Declaration_switch L tag message = js_switch (drop_bit 3 tag)
    [(1, when_tag tag 8 (readf (num32 (r_int32 L)) (\<lambda>v. message\<lparr>ExtensionRangeOptions_Declaration.number := Some v\<rparr>))),
     (2, when_tag tag 18 (readf (r_string L) (\<lambda>v. message\<lparr>ExtensionRangeOptions_Declaration.fullName := Some v\<rparr>))),
     (3, when_tag tag 26 (readf (r_string L) (\<lambda>v. message\<lparr>ExtensionRangeOptions_Declaration.type' := Some v\<rparr>))),
     (5, when_tag tag 40 (readf (r_bool L) (\<lambda>v. message\<lparr>ExtensionRangeOptions_Declaration.reserved := Some v\<rparr>))),
     (6, when_tag tag 48 (readf (r_bool L) (\<lambda>v. message\<lparr>ExtensionRangeOptions_Declaration.repeated := Some v\<rparr>)))]
    break_out"

definition decode_ExtensionRangeOptions_Declaration :: "('w, 'r) wire \<Rightarrow> 'r input \<Rightarrow> nat option \<Rightarrow> (ExtensionRangeOptions_Declaration \<times> 'r) result" where
  "decode_ExtensionRangeOptions_Declaration L = decode_msg L (ExtensionRangeOptions_Declaration_switch L) createBase_ExtensionRangeOptions_Declaration"

definition fromJSON_ExtensionRangeOptions_Declaration :: "host \<Rightarrow> jsval \<Rightarrow> ExtensionRangeOptions_Declaration result" where
  "fromJSON_ExtensionRangeOptions_Declaration h object =
     bindE (fieldE object ''number'' (numberE h) (Num 0)) (\<lambda>v_number.
     bindE (fieldE object ''fullName'' (stringE h) []) (\<lambda>v_fullName.
     bindE (fieldE object ''type'' (stringE h) []) (\<lambda>v_type.
     bindE (fieldE object ''reserved'' booleanE False) (\<lambda>v_reserved.
     bindE (fieldE object ''repeated'' booleanE False) (\<lambda>v_repeated.
     Inr \<lparr>ExtensionRangeOptions_Declaration.number = Some v_number, ExtensionRangeOptions_Declaration.fullName = Some v_fullName, ExtensionRangeOptions_Declaration.type' = Some v_type, ExtensionRangeOptions_Declaration.reserved = Some v_reserved, ExtensionRangeOptions_Declaration.repeated = Some v_repeated\<rparr>)))))"

definition toJSON_ExtensionRangeOptions_Declaration :: "host \<Rightarrow> ExtensionRangeOptions_Declaration \<Rightarrow> jsval result" where
  "toJSON_ExtensionRangeOptions_Declaration h message = objE
    [jdefE ''number'' (\<lambda>v. v \<noteq> Num 0) (\<lambda>v. Inr (JNumber (Math_round v))) (ExtensionRangeOptions_Declaration.number message),
     jdefE ''fullName'' (\<lambda>v. v \<noteq> []) (\<lambda>v. Inr (JString v)) (ExtensionRangeOptions_Declaration.fullName message),
     jdefE ''type'' (\<lambda>v. v \<noteq> []) (\<lambda>v. Inr (JString v)) (ExtensionRangeOptions_Declaration.type' message),
     jdefE ''reserved'' (\<lambda>v. v \<noteq> False) (\<lambda>v. Inr (JBool v)) (ExtensionRangeOptions_Declaration.reserved message),
     jdefE ''repeated'' (\<lambda>v. v \<noteq> False) (\<lambda>v. Inr (JBool v)) (ExtensionRangeOptions_Declaration.repeated message)]"

record ExtensionRangeOptions_Declaration_Partial =
  number :: "number option"
  fullName :: "jsstring option"
  type' :: "jsstring option"
  reserved :: "bool option"
  repeated :: "bool option"

definition ExtensionRangeOptions_Declaration_empty :: ExtensionRangeOptions_Declaration_Partial where
  "ExtensionRangeOptions_Declaration_empty = \<lparr>ExtensionRangeOptions_Declaration_Partial.number = None, ExtensionRangeOptions_Declaration_Partial.fullName = None, ExtensionRangeOptions_Declaration_Partial.type' = None, ExtensionRangeOptions_Declaration_Partial.reserved = None, ExtensionRangeOptions_Declaration_Partial.repeated = None\<rparr>"

definition fromPartial_ExtensionRangeOptions_Declaration :: "ExtensionRangeOptions_Declaration_Partial \<Rightarrow> ExtensionRangeOptions_Declaration" where
  "fromPartial_ExtensionRangeOptions_Declaration object = createBase_ExtensionRangeOptions_Declaration\<lparr>ExtensionRangeOptions_Declaration.number := Some (nullish (ExtensionRangeOptions_Declaration_Partial.number object) (Num 0)),
     ExtensionRangeOptions_Declaration.fullName := Some (nullish (ExtensionRangeOptions_Declaration_Partial.fullName object) []),
     ExtensionRangeOptions_Declaration.type' := Some (nullish (ExtensionRangeOptions_Declaration_Partial.type' object) []),
     ExtensionRangeOptions_Declaration.reserved := Some (nullish (ExtensionRangeOptions_Declaration_Partial.reserved object) False),
     ExtensionRangeOptions_Declaration.repeated := Some (nullish (ExtensionRangeOptions_Declaration_Partial.repeated object) False)\<rparr>"

definition create_ExtensionRangeOptions_Declaration :: "ExtensionRangeOptions_Declaration_Partial option \<Rightarrow> ExtensionRangeOptions_Declaration" where
  "create_ExtensionRangeOptions_Declaration base = fromPartial_ExtensionRangeOptions_Declaration (nullish base ExtensionRangeOptions_Declaration_empty)"

text \<open>A message as a partial message.\<close>

definition partial_of_ExtensionRangeOptions_Declaration :: "ExtensionRangeOptions_Declaration \<Rightarrow> ExtensionRangeOptions_Declaration_Partial" where
  "partial_of_ExtensionRangeOptions_Declaration m =
     \<lparr>ExtensionRangeOptions_Declaration_Partial.number = ExtensionRangeOptions_Declaration.number m,
      ExtensionRangeOptions_Declaration_Partial.fullName = ExtensionRangeOptions_Declaration.fullName m,
      ExtensionRangeOptions_Declaration_Partial.type' = ExtensionRangeOptions_Declaration.type' m,
      ExtensionRangeOptions_Declaration_Partial.reserved = ExtensionRangeOptions_Declaration.reserved m,
      ExtensionRangeOptions_Declaration_Partial.repeated = ExtensionRangeOptions_Declaration.repeated m\<rparr>"

definition wf_ExtensionRangeOptions_Declaration :: "('w, 'r) wire \<Rightarrow> ExtensionRangeOptions_Declaration \<Rightarrow> bool" where
  "wf_ExtensionRangeOptions_Declaration L m \<longleftrightarrow> present int32_num (ExtensionRangeOptions_Declaration.number m)
     \<and> present wire_string (ExtensionRangeOptions_Declaration.fullName m)
     \<and> present wire_string (ExtensionRangeOptions_Declaration.type' m)
     \<and> present (\<lambda>_. True) (ExtensionRangeOptions_Declaration.reserved m)
     \<and> present (\<lambda>_. True) (ExtensionRangeOptions_Declaration.repeated m)"

definition wfj_ExtensionRangeOptions_Declaration :: "ExtensionRangeOptions_Declaration \<Rightarrow> bool" where
  "wfj_ExtensionRangeOptions_Declaration m \<longleftrightarrow> ExtensionRangeOptions_Declaration.number m \<noteq> None
     \<and> whole (the (ExtensionRangeOptions_Declaration.number m))
     \<and> ExtensionRangeOptions_Declaration.fullName m \<noteq> None
     \<and> ExtensionRangeOptions_Declaration.type' m \<noteq> None
     \<and> ExtensionRangeOptions_Declaration.reserved m \<noteq> None
     \<and> ExtensionRangeOptions_Declaration.repeated m \<noteq> None"

subsection \<open>ExtensionRangeOptions\<close>

record ExtensionRangeOptions =
  uninterpretedOption :: "UninterpretedOption list"
  declaration' :: "ExtensionRangeOptions_Declaration list"
  features :: "FeatureSet option"
  verification :: "ExtensionRangeOptions_VerificationState option"

definition createBase_ExtensionRangeOptions :: ExtensionRangeOptions where
  "createBase_ExtensionRangeOptions = \<lparr>ExtensionRangeOptions.uninterpretedOption = [],
     ExtensionRangeOptions.declaration' = [],
     ExtensionRangeOptions.features = None,
     ExtensionRangeOptions.verification = Some (Num 1)\<rparr>"

definition encode_ExtensionRangeOptions :: "('w, 'r) wire \<Rightarrow> ExtensionRangeOptions \<Rightarrow> 'w \<Rightarrow> 'w result" where
  "encode_ExtensionRangeOptions L message = seqE
    [forE (\<lambda>v. seqE [w_uint32 L 7994, w_fork L, encode_UninterpretedOption L v, w_join L]) (ExtensionRangeOptions.uninterpretedOption message),
     forE (\<lambda>v. seqE [w_uint32 L 18, w_fork L, encode_ExtensionRangeOptions_Declaration L v, w_join L]) (ExtensionRangeOptions.declaration' message),
     someE (ExtensionRangeOptions.features message) (\<lambda>v. seqE [w_uint32 L 402, w_fork L, encode_FeatureSet L v, w_join L]),
     someE (ExtensionRangeOptions.verification message) (\<lambda>v. whenE (v \<noteq> Num 1) (seqE [w_uint32 L 24, w_int32 L v]))]"

definition ExtensionRangeOptions_switch :: "('w, 'r) wire \<Rightarrow> u32 \<Rightarrow> ExtensionRangeOptions \<Rightarrow> (ExtensionRangeOptions, 'r) action" where
  "ExtensionRangeOptions_switch L tag message = js_switch (drop_bit 3 tag)
    [(999, when_tag tag 7994 (readf (submsg L (decode_UninterpretedOption L)) (\<lambda>v. message\<lparr>ExtensionRangeOptions.uninterpretedOption := ExtensionRangeOptions.uninterpretedOption message @ [v]\<rparr>))),
     (2, when_tag tag 18 (readf (submsg L (decode_ExtensionRangeOptions_Declaration L)) (\<lambda>v. message\<lparr>ExtensionRangeOptions.declaration' := ExtensionRangeOptions.declaration' message @ [v]\<rparr>))),
     (50, when_tag tag 402 (readf (submsg L (decode_FeatureSet L)) (\<lambda>v. message\<lparr>ExtensionRangeOptions.features := Some v\<rparr>))),
     (3, when_tag tag 24 (readf (num32 (r_int32 L)) (\<lambda>v. message\<lparr>ExtensionRangeOptions.verification := Some v\<rparr>)))]
    break_out"

definition decode_ExtensionRangeOptions :: "('w, 'r) wire \<Rightarrow> 'r input \<Rightarrow> nat option \<Rightarrow> (ExtensionRangeOptions \<times> 'r) result" where
  "decode_ExtensionRangeOptions L = decode_msg L (ExtensionRangeOptions_switch L) createBase_ExtensionRangeOptions"

definition fromJSON_ExtensionRangeOptions :: "host \<Rightarrow> jsval \<Rightarrow> ExtensionRangeOptions result" where
  "fromJSON_ExtensionRangeOptions h object =
     bindE (arrayE object ''uninterpretedOption'' (fromJSON_UninterpretedOption h)) (\<lambda>v_uninterpretedOption.
     bindE (arrayE object ''declaration'' (fromJSON_ExtensionRangeOptions_Declaration h)) (\<lambda>v_declaration.
     bindE (optE object ''features'' (fromJSON_FeatureSet h)) (\<lambda>v_features.
     bindE (fieldE object ''verification'' (enumE extensionRangeOptions_VerificationStateFromJSON) (Num 1)) (\<lambda>v_verification.
     Inr \<lparr>ExtensionRangeOptions.uninterpretedOption = v_uninterpretedOption, ExtensionRangeOptions.declaration' = v_declaration, ExtensionRangeOptions.features = v_features, ExtensionRangeOptions.verification = Some v_verification\<rparr>))))"

definition toJSON_ExtensionRangeOptions :: "host \<Rightarrow> ExtensionRangeOptions \<Rightarrow> jsval result" where
  "toJSON_ExtensionRangeOptions h message = objE
    [jarrayE ''uninterpretedOption'' (toJSON_UninterpretedOption h) (ExtensionRangeOptions.uninterpretedOption message),
     jarrayE ''declaration'' (toJSON_ExtensionRangeOptions_Declaration h) (ExtensionRangeOptions.declaration' message),
     joptE ''features'' (toJSON_FeatureSet h) (ExtensionRangeOptions.features message),
     jdefE ''verification'' (\<lambda>v. v \<noteq> Num 1) (\<lambda>v. Inr (JString (extensionRangeOptions_VerificationStateToJSON v))) (ExtensionRangeOptions.verification message)]"

record ExtensionRangeOptions_Partial =
  uninterpretedOption :: "UninterpretedOption_Partial list option"
  declaration' :: "ExtensionRangeOptions_Declaration_Partial list option"
  features :: "FeatureSet_Partial option"
  verification :: "ExtensionRangeOptions_VerificationState option"

definition ExtensionRangeOptions_empty :: ExtensionRangeOptions_Partial where
  "ExtensionRangeOptions_empty = \<lparr>ExtensionRangeOptions_Partial.uninterpretedOption = None, ExtensionRangeOptions_Partial.declaration' = None, ExtensionRangeOptions_Partial.features = None, ExtensionRangeOptions_Partial.verification = None\<rparr>"

definition fromPartial_ExtensionRangeOptions :: "ExtensionRangeOptions_Partial \<Rightarrow> ExtensionRangeOptions" where
  "fromPartial_ExtensionRangeOptions object = createBase_ExtensionRangeOptions\<lparr>ExtensionRangeOptions.uninterpretedOption := partial_map fromPartial_UninterpretedOption (ExtensionRangeOptions_Partial.uninterpretedOption object),
     ExtensionRangeOptions.declaration' := partial_map fromPartial_ExtensionRangeOptions_Declaration (ExtensionRangeOptions_Partial.declaration' object),
     ExtensionRangeOptions.features := map_option fromPartial_FeatureSet (ExtensionRangeOptions_Partial.features object),
     ExtensionRangeOptions.verification := Some (nullish (ExtensionRangeOptions_Partial.verification object) (Num 1))\<rparr>"

definition create_ExtensionRangeOptions :: "ExtensionRangeOptions_Partial option \<Rightarrow> ExtensionRangeOptions" where
  "create_ExtensionRangeOptions base = fromPartial_ExtensionRangeOptions (nullish base ExtensionRangeOptions_empty)"

text \<open>A message as a partial message.\<close>

definition partial_of_ExtensionRangeOptions :: "ExtensionRangeOptions \<Rightarrow> ExtensionRangeOptions_Partial" where
  "partial_of_ExtensionRangeOptions m =
     \<lparr>ExtensionRangeOptions_Partial.uninterpretedOption = Some (map partial_of_UninterpretedOption (ExtensionRangeOptions.uninterpretedOption m)),
      ExtensionRangeOptions_Partial.declaration' = Some (map partial_of_ExtensionRangeOptions_Declaration (ExtensionRangeOptions.declaration' m)),
      ExtensionRangeOptions_Partial.features = map_option partial_of_FeatureSet (ExtensionRangeOptions.features m),
      ExtensionRangeOptions_Partial.verification = ExtensionRangeOptions.verification m\<rparr>"

definition wf_ExtensionRangeOptions :: "('w, 'r) wire \<Rightarrow> ExtensionRangeOptions \<Rightarrow> bool" where
  "wf_ExtensionRangeOptions L m \<longleftrightarrow> list_all (\<lambda>v. wf_UninterpretedOption L v \<and> fits L (encode_UninterpretedOption L v)) (ExtensionRangeOptions.uninterpretedOption m)
     \<and> list_all (\<lambda>v. wf_ExtensionRangeOptions_Declaration L v \<and> fits L (encode_ExtensionRangeOptions_Declaration L v)) (ExtensionRangeOptions.declaration' m)
     \<and> pred_option (\<lambda>v. wf_FeatureSet L v \<and> fits L (encode_FeatureSet L v)) (ExtensionRangeOptions.features m)
     \<and> present int32_num (ExtensionRangeOptions.verification m)"

definition wfj_ExtensionRangeOptions :: "ExtensionRangeOptions \<Rightarrow> bool" where
  "wfj_ExtensionRangeOptions m \<longleftrightarrow> list_all wfj_UninterpretedOption (ExtensionRangeOptions.uninterpretedOption m)
     \<and> list_all wfj_ExtensionRangeOptions_Declaration (ExtensionRangeOptions.declaration' m)
     \<and> pred_option wfj_FeatureSet (ExtensionRangeOptions.features m)
     \<and> ExtensionRangeOptions.verification m \<noteq> None
     \<and> ExtensionRangeOptions_VerificationState_known (the (ExtensionRangeOptions.verification m))"

subsection \<open>OneofOptions\<close>

record OneofOptions =
  features :: "FeatureSet option"
  uninterpretedOption :: "UninterpretedOption list"

definition createBase_OneofOptions :: OneofOptions where
  "createBase_OneofOptions = \<lparr>OneofOptions.features = None,
     OneofOptions.uninterpretedOption = []\<rparr>"

definition encode_OneofOptions :: "('w, 'r) wire \<Rightarrow> OneofOptions \<Rightarrow> 'w \<Rightarrow> 'w result" where
  "encode_OneofOptions L message = seqE
    [someE (OneofOptions.features message) (\<lambda>v. seqE [w_uint32 L 10, w_fork L, encode_FeatureSet L v, w_join L]),
     forE (\<lambda>v. seqE [w_uint32 L 7994, w_fork L, encode_UninterpretedOption L v, w_join L]) (OneofOptions.uninterpretedOption message)]"

definition OneofOptions_switch :: "('w, 'r) wire \<Rightarrow> u32 \<Rightarrow> OneofOptions \<Rightarrow> (OneofOptions, 'r) action" where
  "OneofOptions_switch L tag message = js_switch (drop_bit 3 tag)
    [(1, when_tag tag 10 (readf (submsg L (decode_FeatureSet L)) (\<lambda>v. message\<lparr>OneofOptions.features := Some v\<rparr>))),
     (999, when_tag tag 7994 (readf (submsg L (decode_UninterpretedOption L)) (\<lambda>v. message\<lparr>OneofOptions.uninterpretedOption := OneofOptions.uninterpretedOption message @ [v]\<rparr>)))]
    break_out"

definition decode_OneofOptions :: "('w, 'r) wire \<Rightarrow> 'r input \<Rightarrow> nat option \<Rightarrow> (OneofOptions \<times> 'r) result" where
  "decode_OneofOptions L = decode_msg L (OneofOptions_switch L) createBase_OneofOptions"

definition fromJSON_OneofOptions :: "host \<Rightarrow> jsval \<Rightarrow> OneofOptions result" where
  "fromJSON_OneofOptions h object =
     bindE (optE object ''features'' (fromJSON_FeatureSet h)) (\<lambda>v_features.
     bindE (arrayE object ''uninterpretedOption'' (fromJSON_UninterpretedOption h)) (\<lambda>v_uninterpretedOption.
     Inr \<lparr>OneofOptions.features = v_features, OneofOptions.uninterpretedOption = v_uninterpretedOption\<rparr>))"

definition toJSON_OneofOptions :: "host \<Rightarrow> OneofOptions \<Rightarrow> jsval result" where
  "toJSON_OneofOptions h message = objE
    [joptE ''features'' (toJSON_FeatureSet h) (OneofOptions.features message),
     jarrayE ''uninterpretedOption'' (toJSON_UninterpretedOption h) (OneofOptions.uninterpretedOption message)]"

record OneofOptions_Partial =
  features :: "FeatureSet_Partial option"
  uninterpretedOption :: "UninterpretedOption_Partial list option"

definition OneofOptions_empty :: OneofOptions_Partial where
  "OneofOptions_empty = \<lparr>OneofOptions_Partial.features = None, OneofOptions_Partial.uninterpretedOption = None\<rparr>"

definition fromPartial_OneofOptions :: "OneofOptions_Partial \<Rightarrow> OneofOptions" where
  "fromPartial_OneofOptions object = createBase_OneofOptions\<lparr>OneofOptions.features := map_option fromPartial_FeatureSet (OneofOptions_Partial.features object),
     OneofOptions.uninterpretedOption := partial_map fromPartial_UninterpretedOption (OneofOptions_Partial.uninterpretedOption object)\<rparr>"

definition create_OneofOptions :: "OneofOptions_Partial option \<Rightarrow> OneofOptions" where
  "create_OneofOptions base = fromPartial_OneofOptions (nullish base OneofOptions_empty)"

text \<open>A message as a partial message.\<close>

definition partial_of_OneofOptions :: "OneofOptions \<Rightarrow> OneofOptions_Partial" where
  "partial_of_OneofOptions m =
     \<lparr>OneofOptions_Partial.features = map_option partial_of_FeatureSet (OneofOptions.features m),
      OneofOptions_Partial.uninterpretedOption = Some (map partial_of_UninterpretedOption (OneofOptions.uninterpretedOption m))\<rparr>"

definition wf_OneofOptions :: "('w, 'r) wire \<Rightarrow> OneofOptions \<Rightarrow> bool" where
  "wf_OneofOptions L m \<longleftrightarrow> pred_option (\<lambda>v. wf_FeatureSet L v \<and> fits L (encode_FeatureSet L v)) (OneofOptions.features m)
     \<and> list_all (\<lambda>v. wf_UninterpretedOption L v \<and> fits L (encode_UninterpretedOption L v)) (OneofOptions.uninterpretedOption m)"

definition wfj_OneofOptions :: "OneofOptions \<Rightarrow> bool" where
  "wfj_OneofOptions m \<longleftrightarrow> pred_option wfj_FeatureSet (OneofOptions.features m)
     \<and> list_all wfj_UninterpretedOption (OneofOptions.uninterpretedOption m)"

subsection \<open>MessageOptions\<close>

record MessageOptions =
  messageSetWireFormat :: "bool option"
  noStandardDescriptorAccessor :: "bool option"
  deprecated :: "bool option"
  mapEntry :: "bool option"
  deprecatedLegacyJsonFieldConflicts :: "bool option"
  features :: "FeatureSet option"
  uninterpretedOption :: "UninterpretedOption list"

definition createBase_MessageOptions :: MessageOptions where
  "createBase_MessageOptions = \<lparr>MessageOptions.messageSetWireFormat = Some False,
     MessageOptions.noStandardDescriptorAccessor = Some False,
     MessageOptions.deprecated = Some False,
     MessageOptions.mapEntry = Some False,
     MessageOptions.deprecatedLegacyJsonFieldConflicts = Some False,
     MessageOptions.features = None,
     MessageOptions.uninterpretedOption = []\<rparr>"

definition encode_MessageOptions :: "('w, 'r) wire \<Rightarrow> MessageOptions \<Rightarrow> 'w \<Rightarrow> 'w result" where
  "encode_MessageOptions L message = seqE
    [someE (MessageOptions.messageSetWireFormat message) (\<lambda>v. whenE (v \<noteq> False) (seqE [w_uint32 L 8, w_bool L v])),
     someE (MessageOptions.noStandardDescriptorAccessor message) (\<lambda>v. whenE (v \<noteq> False) (seqE [w_uint32 L 16, w_bool L v])),
     someE (MessageOptions.deprecated message) (\<lambda>v. whenE (v \<noteq> False) (seqE [w_uint32 L 24, w_bool L v])),
     someE (MessageOptions.mapEntry message) (\<lambda>v. whenE (v \<noteq> False) (seqE [w_uint32 L 56, w_bool L v])),
     someE (MessageOptions.deprecatedLegacyJsonFieldConflicts message) (\<lambda>v. whenE (v \<noteq> False) (seqE [w_uint32 L 88, w_bool L v])),
     someE (MessageOptions.features message) (\<lambda>v. seqE [w_uint32 L 98, w_fork L, encode_FeatureSet L v, w_join L]),
     forE (\<lambda>v. seqE [w_uint32 L 7994, w_fork L, encode_UninterpretedOption L v, w_join L]) (MessageOptions.uninterpretedOption message)]"

definition MessageOptions_switch :: "('w, 'r) wire \<Rightarrow> u32 \<Rightarrow> MessageOptions \<Rightarrow> (MessageOptions, 'r) action" where
  "MessageOptions_switch L tag message = js_switch (drop_bit 3 tag)
    [(1, when_tag tag 8 (readf (r_bool L) (\<lambda>v. message\<lparr>MessageOptions.messageSetWireFormat := Some v\<rparr>))),
     (2, when_tag tag 16 (readf (r_bool L) (\<lambda>v. message\<lparr>MessageOptions.noStandardDescriptorAccessor := Some v\<rparr>))),
     (3, when_tag tag 24 (readf (r_bool L) (\<lambda>v. message\<lparr>MessageOptions.deprecated := Some v\<rparr>))),
     (7, when_tag tag 56 (readf (r_bool L) (\<lambda>v. message\<lparr>MessageOptions.mapEntry := Some v\<rparr>))),
     (11, when_tag tag 88 (readf (r_bool L) (\<lambda>v. message\<lparr>MessageOptions.deprecatedLegacyJsonFieldConflicts := Some v\<rparr>))),
     (12, when_tag tag 98 (readf (submsg L (decode_FeatureSet L)) (\<lambda>v. message\<lparr>MessageOptions.features := Some v\<rparr>))),
     (999, when_tag tag 7994 (readf (submsg L (decode_UninterpretedOption L)) (\<lambda>v. message\<lparr>MessageOptions.uninterpretedOption := MessageOptions.uninterpretedOption message @ [v]\<rparr>)))]
    break_out"

definition decode_MessageOptions :: "('w, 'r) wire \<Rightarrow> 'r input \<Rightarrow> nat option \<Rightarrow> (MessageOptions \<times> 'r) result" where
  "decode_MessageOptions L = decode_msg L (MessageOptions_switch L) createBase_MessageOptions"

definition fromJSON_MessageOptions :: "host \<Rightarrow> jsval \<Rightarrow> MessageOptions result" where
  "fromJSON_MessageOptions h object =
     bindE (fieldE object ''messageSetWireFormat'' booleanE False) (\<lambda>v_messageSetWireFormat.
     bindE (fieldE object ''noStandardDescriptorAccessor'' booleanE False) (\<lambda>v_noStandardDescriptorAccessor.
     bindE (fieldE object ''deprecated'' booleanE False) (\<lambda>v_deprecated.
     bindE (fieldE object ''mapEntry'' booleanE False) (\<lambda>v_mapEntry.
     bindE (fieldE object ''deprecatedLegacyJsonFieldConflicts'' booleanE False) (\<lambda>v_deprecatedLegacyJsonFieldConflicts.
     bindE (optE object ''features'' (fromJSON_FeatureSet h)) (\<lambda>v_features.
     bindE (arrayE object ''uninterpretedOption'' (fromJSON_UninterpretedOption h)) (\<lambda>v_uninterpretedOption.
     Inr \<lparr>MessageOptions.messageSetWireFormat = Some v_messageSetWireFormat, MessageOptions.noStandardDescriptorAccessor = Some v_noStandardDescriptorAccessor, MessageOptions.deprecated = Some v_deprecated, MessageOptions.mapEntry = Some v_mapEntry, MessageOptions.deprecatedLegacyJsonFieldConflicts = Some v_deprecatedLegacyJsonFieldConflicts, MessageOptions.features = v_features, MessageOptions.uninterpretedOption = v_uninterpretedOption\<rparr>)))))))"

definition toJSON_MessageOptions :: "host \<Rightarrow> MessageOptions \<Rightarrow> jsval result" where
  "toJSON_MessageOptions h message = objE
    [jdefE ''messageSetWireFormat'' (\<lambda>v. v \<noteq> False) (\<lambda>v. Inr (JBool v)) (MessageOptions.messageSetWireFormat message),
     jdefE ''noStandardDescriptorAccessor'' (\<lambda>v. v \<noteq> False) (\<lambda>v. Inr (JBool v)) (MessageOptions.noStandardDescriptorAccessor message),
     jdefE ''deprecated'' (\<lambda>v. v \<noteq> False) (\<lambda>v. Inr (JBool v)) (MessageOptions.deprecated message),
     jdefE ''mapEntry'' (\<lambda>v. v \<noteq> False) (\<lambda>v. Inr (JBool v)) (MessageOptions.mapEntry message),
     jdefE ''deprecatedLegacyJsonFieldConflicts'' (\<lambda>v. v \<noteq> False) (\<lambda>v. Inr (JBool v)) (MessageOptions.deprecatedLegacyJsonFieldConflicts message),
     joptE ''features'' (toJSON_FeatureSet h) (MessageOptions.features message),
     jarrayE ''uninterpretedOption'' (toJSON_UninterpretedOption h) (MessageOptions.uninterpretedOption message)]"

record MessageOptions_Partial =
  messageSetWireFormat :: "bool option"
  noStandardDescriptorAccessor :: "bool option"
  deprecated :: "bool option"
  mapEntry :: "bool option"
  deprecatedLegacyJsonFieldConflicts :: "bool option"
  features :: "FeatureSet_Partial option"
  uninterpretedOption :: "UninterpretedOption_Partial list option"

definition MessageOptions_empty :: MessageOptions_Partial where
  "MessageOptions_empty = \<lparr>MessageOptions_Partial.messageSetWireFormat = None, MessageOptions_Partial.noStandardDescriptorAccessor = None, MessageOptions_Partial.deprecated = None, MessageOptions_Partial.mapEntry = None, MessageOptions_Partial.deprecatedLegacyJsonFieldConflicts = None, MessageOptions_Partial.features = None, MessageOptions_Partial.uninterpretedOption = None\<rparr>"

definition fromPartial_MessageOptions :: "MessageOptions_Partial \<Rightarrow> MessageOptions" where
  "fromPartial_MessageOptions object = createBase_MessageOptions\<lparr>MessageOptions.messageSetWireFormat := Some (nullish (MessageOptions_Partial.messageSetWireFormat object) False),
     MessageOptions.noStandardDescriptorAccessor := Some (nullish (MessageOptions_Partial.noStandardDescriptorAccessor object) False),
     MessageOptions.deprecated := Some (nullish (MessageOptions_Partial.deprecated object) False),
     MessageOptions.mapEntry := Some (nullish (MessageOptions_Partial.mapEntry object) False),
     MessageOptions.deprecatedLegacyJsonFieldConflicts := Some (nullish (MessageOptions_Partial.deprecatedLegacyJsonFieldConflicts object) False),
     MessageOptions.features := map_option fromPartial_FeatureSet (MessageOptions_Partial.features object),
     MessageOptions.uninterpretedOption := partial_map fromPartial_UninterpretedOption (MessageOptions_Partial.uninterpretedOption object)\<rparr>"

definition create_MessageOptions :: "MessageOptions_Partial option \<Rightarrow> MessageOptions" where
  "create_MessageOptions base = fromPartial_MessageOptions (nullish base MessageOptions_empty)"

text \<open>A message as a partial message.\<close>

definition partial_of_MessageOptions :: "MessageOptions \<Rightarrow> MessageOptions_Partial" where
  "partial_of_MessageOptions m =
     \<lparr>MessageOptions_Partial.messageSetWireFormat = MessageOptions.messageSetWireFormat m,
      MessageOptions_Partial.noStandardDescriptorAccessor = MessageOptions.noStandardDescriptorAccessor m,
      MessageOptions_Partial.deprecated = MessageOptions.deprecated m,
      MessageOptions_Partial.mapEntry = MessageOptions.mapEntry m,
      MessageOptions_Partial.deprecatedLegacyJsonFieldConflicts = MessageOptions.deprecatedLegacyJsonFieldConflicts m,
      MessageOptions_Partial.features = map_option partial_of_FeatureSet (MessageOptions.features m),
      MessageOptions_Partial.uninterpretedOption = Some (map partial_of_UninterpretedOption (MessageOptions.uninterpretedOption m))\<rparr>"

definition wf_MessageOptions :: "('w, 'r) wire \<Rightarrow> MessageOptions \<Rightarrow> bool" where
  "wf_MessageOptions L m \<longleftrightarrow> present (\<lambda>_. True) (MessageOptions.messageSetWireFormat m)
     \<and> present (\<lambda>_. True) (MessageOptions.noStandardDescriptorAccessor m)
     \<and> present (\<lambda>_. True) (MessageOptions.deprecated m)
     \<and> present (\<lambda>_. True) (MessageOptions.mapEntry m)
     \<and> present (\<lambda>_. True) (MessageOptions.deprecatedLegacyJsonFieldConflicts m)
     \<and> pred_option (\<lambda>v. wf_FeatureSet L v \<and> fits L (encode_FeatureSet L v)) (MessageOptions.features m)
     \<and> list_all (\<lambda>v. wf_UninterpretedOption L v \<and> fits L (encode_UninterpretedOption L v)) (MessageOptions.uninterpretedOption m)"

definition wfj_MessageOptions :: "MessageOptions \<Rightarrow> bool" where
  "wfj_MessageOptions m \<longleftrightarrow> MessageOptions.messageSetWireFormat m \<noteq> None
     \<and> MessageOptions.noStandardDescriptorAccessor m \<noteq> None
     \<and> MessageOptions.deprecated m \<noteq> None
     \<and> MessageOptions.mapEntry m \<noteq> None
     \<and> MessageOptions.deprecatedLegacyJsonFieldConflicts m \<noteq> None
     \<and> pred_option wfj_FeatureSet (MessageOptions.features m)
     \<and> list_all wfj_UninterpretedOption (MessageOptions.uninterpretedOption m)"

subsection \<open>MethodOptions\<close>

record MethodOptions =
  deprecated :: "bool option"
  idempotencyLevel :: "MethodOptions_IdempotencyLevel option"
  features :: "FeatureSet option"
  uninterpretedOption :: "UninterpretedOption list"

definition createBase_MethodOptions :: MethodOptions where
  "createBase_MethodOptions = \<lparr>MethodOptions.deprecated = Some False,
     MethodOptions.idempotencyLevel = Some (Num 0),
     MethodOptions.features = None,
     MethodOptions.uninterpretedOption = []\<rparr>"

definition encode_MethodOptions :: "('w, 'r) wire \<Rightarrow> MethodOptions \<Rightarrow> 'w \<Rightarrow> 'w result" where
  "encode_MethodOptions L message = seqE
    [someE (MethodOptions.deprecated message) (\<lambda>v. whenE (v \<noteq> False) (seqE [w_uint32 L 264, w_bool L v])),
     someE (MethodOptions.idempotencyLevel message) (\<lambda>v. whenE (v \<noteq> Num 0) (seqE [w_uint32 L 272, w_int32 L v])),
     someE (MethodOptions.features message) (\<lambda>v. seqE [w_uint32 L 282, w_fork L, encode_FeatureSet L v, w_join L]),
     forE (\<lambda>v. seqE [w_uint32 L 7994, w_fork L, encode_UninterpretedOption L v, w_join L]) (MethodOptions.uninterpretedOption message)]"

definition MethodOptions_switch :: "('w, 'r) wire \<Rightarrow> u32 \<Rightarrow> MethodOptions \<Rightarrow> (MethodOptions, 'r) action" where
  "MethodOptions_switch L tag message = js_switch (drop_bit 3 tag)
    [(33, when_tag tag 264 (readf (r_bool L) (\<lambda>v. message\<lparr>MethodOptions.deprecated := Some v\<rparr>))),
     (34, when_tag tag 272 (readf (num32 (r_int32 L)) (\<lambda>v. message\<lparr>MethodOptions.idempotencyLevel := Some v\<rparr>))),
     (35, when_tag tag 282 (readf (submsg L (decode_FeatureSet L)) (\<lambda>v. message\<lparr>MethodOptions.features := Some v\<rparr>))),
     (999, when_tag tag 7994 (readf (submsg L (decode_UninterpretedOption L)) (\<lambda>v. message\<lparr>MethodOptions.uninterpretedOption := MethodOptions.uninterpretedOption message @ [v]\<rparr>)))]
    break_out"

definition decode_MethodOptions :: "('w, 'r) wire \<Rightarrow> 'r input \<Rightarrow> nat option \<Rightarrow> (MethodOptions \<times> 'r) result" where
  "decode_MethodOptions L = decode_msg L (MethodOptions_switch L) createBase_MethodOptions"

definition fromJSON_MethodOptions :: "host \<Rightarrow> jsval \<Rightarrow> MethodOptions result" where
  "fromJSON_MethodOptions h object =
     bindE (fieldE object ''deprecated'' booleanE False) (\<lambda>v_deprecated.
     bindE (fieldE object ''idempotencyLevel'' (enumE methodOptions_IdempotencyLevelFromJSON) (Num 0)) (\<lambda>v_idempotencyLevel.
     bindE (optE object ''features'' (fromJSON_FeatureSet h)) (\<lambda>v_features.
     bindE (arrayE object ''uninterpretedOption'' (fromJSON_UninterpretedOption h)) (\<lambda>v_uninterpretedOption.
     Inr \<lparr>MethodOptions.deprecated = Some v_deprecated, MethodOptions.idempotencyLevel = Some v_idempotencyLevel, MethodOptions.features = v_features, MethodOptions.uninterpretedOption = v_uninterpretedOption\<rparr>))))"

definition toJSON_MethodOptions :: "host \<Rightarrow> MethodOptions \<Rightarrow> jsval result" where
  "toJSON_MethodOptions h message = objE
    [jdefE ''deprecated'' (\<lambda>v. v \<noteq> False) (\<lambda>v. Inr (JBool v)) (MethodOptions.deprecated message),
     jdefE ''idempotencyLevel'' (\<lambda>v. v \<noteq> Num 0) (\<lambda>v. Inr (JString (methodOptions_IdempotencyLevelToJSON v))) (MethodOptions.idempotencyLevel message),
     joptE ''features'' (toJSON_FeatureSet h) (MethodOptions.features message),
     jarrayE ''uninterpretedOption'' (toJSON_UninterpretedOption h) (MethodOptions.uninterpretedOption message)]"

record MethodOptions_Partial =
  deprecated :: "bool option"
  idempotencyLevel :: "MethodOptions_IdempotencyLevel option"
  features :: "FeatureSet_Partial option"
  uninterpretedOption :: "UninterpretedOption_Partial list option"

definition MethodOptions_empty :: MethodOptions_Partial where
  "MethodOptions_empty = \<lparr>MethodOptions_Partial.deprecated = None, MethodOptions_Partial.idempotencyLevel = None, MethodOptions_Partial.features = None, MethodOptions_Partial.uninterpretedOption = None\<rparr>"

definition fromPartial_MethodOptions :: "MethodOptions_Partial \<Rightarrow> MethodOptions" where
  "fromPartial_MethodOptions object = createBase_MethodOptions\<lparr>MethodOptions.deprecated := Some (nullish (MethodOptions_Partial.deprecated object) False),
     MethodOptions.idempotencyLevel := Some (nullish (MethodOptions_Partial.idempotencyLevel object) (Num 0)),
     MethodOptions.features := map_option fromPartial_FeatureSet (MethodOptions_Partial.features object),
     MethodOptions.uninterpretedOption := partial_map fromPartial_UninterpretedOption (MethodOptions_Partial.uninterpretedOption object)\<rparr>"

definition create_MethodOptions :: "MethodOptions_Partial option \<Rightarrow> MethodOptions" where
  "create_MethodOptions base = fromPartial_MethodOptions (nullish base MethodOptions_empty)"

text \<open>A message as a partial message.\<close>

definition partial_of_MethodOptions :: "MethodOptions \<Rightarrow> MethodOptions_Partial" where
  "partial_of_MethodOptions m =
     \<lparr>MethodOptions_Partial.deprecated = MethodOptions.deprecated m,
      MethodOptions_Partial.idempotencyLevel = MethodOptions.idempotencyLevel m,
      MethodOptions_Partial.features = map_option partial_of_FeatureSet (MethodOptions.features m),
      MethodOptions_Partial.uninterpretedOption = Some (map partial_of_UninterpretedOption (MethodOptions.uninterpretedOption m))\<rparr>"

definition wf_MethodOptions :: "('w, 'r) wire \<Rightarrow> MethodOptions \<Rightarrow> bool" where
  "wf_MethodOptions L m \<longleftrightarrow> present (\<lambda>_. True) (MethodOptions.deprecated m)
     \<and> present int32_num (MethodOptions.idempotencyLevel m)
     \<and> pred_option (\<lambda>v. wf_FeatureSet L v \<and> fits L (encode_FeatureSet L v)) (MethodOptions.features m)
     \<and> list_all (\<lambda>v. wf_UninterpretedOption L v \<and> fits L (encode_UninterpretedOption L v)) (MethodOptions.uninterpretedOption m)"

definition wfj_MethodOptions :: "MethodOptions \<Rightarrow> bool" where
  "wfj_MethodOptions m \<longleftrightarrow> MethodOptions.deprecated m \<noteq> None
     \<and> MethodOptions.idempotencyLevel m \<noteq> None
     \<and> MethodOptions_IdempotencyLevel_known (the (MethodOptions.idempotencyLevel m))
     \<and> pred_option wfj_FeatureSet (MethodOptions.features m)
     \<and> list_all wfj_UninterpretedOption (MethodOptions.uninterpretedOption m)"

subsection \<open>ServiceOptions\<close>

record ServiceOptions =
  features :: "FeatureSet option"
  deprecated :: "bool option"
  uninterpretedOption :: "UninterpretedOption list"

definition createBase_ServiceOptions :: ServiceOptions where
  "createBase_ServiceOptions = \<lparr>ServiceOptions.features = None,
     ServiceOptions.deprecated = Some False,
     ServiceOptions.uninterpretedOption = []\<rparr>"

definition encode_ServiceOptions :: "('w, 'r) wire \<Rightarrow> ServiceOptions \<Rightarrow> 'w \<Rightarrow> 'w result" where
  "encode_ServiceOptions L message = seqE
    [someE (ServiceOptions.features message) (\<lambda>v. seqE [w_uint32 L 274, w_fork L, encode_FeatureSet L v, w_join L]),
     someE (ServiceOptions.deprecated message) (\<lambda>v. whenE (v \<noteq> False) (seqE [w_uint32 L 264, w_bool L v])),
     forE (\<lambda>v. seqE [w_uint32 L 7994, w_fork L, encode_UninterpretedOption L v, w_join L]) (ServiceOptions.uninterpretedOption message)]"

definition ServiceOptions_switch :: "('w, 'r) wire \<Rightarrow> u32 \<Rightarrow> ServiceOptions \<Rightarrow> (ServiceOptions, 'r) action" where
  "ServiceOptions_switch L tag message = js_switch (drop_bit 3 tag)
    [(34, when_tag tag 274 (readf (submsg L (decode_FeatureSet L)) (\<lambda>v. message\<lparr>ServiceOptions.features := Some v\<rparr>))),
     (33, when_tag tag 264 (readf (r_bool L) (\<lambda>v. message\<lparr>ServiceOptions.deprecated := Some v\<rparr>))),
     (999, when_tag tag 7994 (readf (submsg L (decode_UninterpretedOption L)) (\<lambda>v. message\<lparr>ServiceOptions.uninterpretedOption := ServiceOptions.uninterpretedOption message @ [v]\<rparr>)))]
    break_out"

definition decode_ServiceOptions :: "('w, 'r) wire \<Rightarrow> 'r input \<Rightarrow> nat option \<Rightarrow> (ServiceOptions \<times> 'r) result" where
  "decode_ServiceOptions L = decode_msg L (ServiceOptions_switch L) createBase_ServiceOptions"

definition fromJSON_ServiceOptions :: "host \<Rightarrow> jsval \<Rightarrow> ServiceOptions result" where
  "fromJSON_ServiceOptions h object =
     bindE (optE object ''features'' (fromJSON_FeatureSet h)) (\<lambda>v_features.
     bindE (fieldE object ''deprecated'' booleanE False) (\<lambda>v_deprecated.
     bindE (arrayE object ''uninterpretedOption'' (fromJSON_UninterpretedOption h)) (\<lambda>v_uninterpretedOption.
     Inr \<lparr>ServiceOptions.features = v_features, ServiceOptions.deprecated = Some v_deprecated, ServiceOptions.uninterpretedOption = v_uninterpretedOption\<rparr>)))"

definition toJSON_ServiceOptions :: "host \<Rightarrow> ServiceOptions \<Rightarrow> jsval result" where
  "toJSON_ServiceOptions h message = objE
    [joptE ''features'' (toJSON_FeatureSet h) (ServiceOptions.features message),
     jdefE ''deprecated'' (\<lambda>v. v \<noteq> False) (\<lambda>v. Inr (JBool v)) (ServiceOptions.deprecated message),
     jarrayE ''uninterpretedOption'' (toJSON_UninterpretedOption h) (ServiceOptions.uninterpretedOption message)]"

record ServiceOptions_Partial =
  features :: "FeatureSet_Partial option"
  deprecated :: "bool option"
  uninterpretedOption :: "UninterpretedOption_Partial list option"

definition ServiceOptions_empty :: ServiceOptions_Partial where
  "ServiceOptions_empty = \<lparr>ServiceOptions_Partial.features = None, ServiceOptions_Partial.deprecated = None, ServiceOptions_Partial.uninterpretedOption = None\<rparr>"

definition fromPartial_ServiceOptions :: "ServiceOptions_Partial \<Rightarrow> ServiceOptions" where
  "fromPartial_ServiceOptions object = createBase_ServiceOptions\<lparr>ServiceOptions.features := map_option fromPartial_FeatureSet (ServiceOptions_Partial.features object),
     ServiceOptions.deprecated := Some (nullish (ServiceOptions_Partial.deprecated object) False),
     ServiceOptions.uninterpretedOption := partial_map fromPartial_UninterpretedOption (ServiceOptions_Partial.uninterpretedOption object)\<rparr>"

definition create_ServiceOptions :: "ServiceOptions_Partial option \<Rightarrow> ServiceOptions" where
  "create_ServiceOptions base = fromPartial_ServiceOptions (nullish base ServiceOptions_empty)"

text \<open>A message as a partial message.\<close>

definition partial_of_ServiceOptions :: "ServiceOptions \<Rightarrow> ServiceOptions_Partial" where
  "partial_of_ServiceOptions m =
     \<lparr>ServiceOptions_Partial.features = map_option partial_of_FeatureSet (ServiceOptions.features m),
      ServiceOptions_Partial.deprecated = ServiceOptions.deprecated m,
      ServiceOptions_Partial.uninterpretedOption = Some (map partial_of_UninterpretedOption (ServiceOptions.uninterpretedOption m))\<rparr>"

definition wf_ServiceOptions :: "('w, 'r) wire \<Rightarrow> ServiceOptions \<Rightarrow> bool" where
  "wf_ServiceOptions L m \<longleftrightarrow> pred_option (\<lambda>v. wf_FeatureSet L v \<and> fits L (encode_FeatureSet L v)) (ServiceOptions.features m)
     \<and> present (\<lambda>_. True) (ServiceOptions.deprecated m)
     \<and> list_all (\<lambda>v. wf_UninterpretedOption L v \<and> fits L (encode_UninterpretedOption L v)) (ServiceOptions.uninterpretedOption m)"

definition wfj_ServiceOptions :: "ServiceOptions \<Rightarrow> bool" where
  "wfj_ServiceOptions m \<longleftrightarrow> pred_option wfj_FeatureSet (ServiceOptions.features m)
     \<and> ServiceOptions.deprecated m \<noteq> None
     \<and> list_all wfj_UninterpretedOption (ServiceOptions.uninterpretedOption m)"

subsection \<open>FileOptions\<close>

record FileOptions =
  javaPackage :: "jsstring option"
  javaOuterClassname :: "jsstring option"
  javaMultipleFiles :: "bool option"
  javaGenerateEqualsAndHash :: "bool option"
  javaStringCheckUtf8 :: "bool option"
  optimizeFor :: "FileOptions_OptimizeMode option"
  goPackage :: "jsstring option"
  ccGenericServices :: "bool option"
  javaGenericServices :: "bool option"
  pyGenericServices :: "bool option"
  deprecated :: "bool option"
  ccEnableArenas :: "bool option"
  objcClassPrefix :: "jsstring option"
  csharpNamespace :: "jsstring option"
  swiftPrefix :: "jsstring option"
  phpClassPrefix :: "jsstring option"
  phpNamespace :: "jsstring option"
  phpMetadataNamespace :: "jsstring option"
  rubyPackage :: "jsstring option"
  features :: "FeatureSet option"
  uninterpretedOption :: "UninterpretedOption list"

definition createBase_FileOptions :: FileOptions where
  "createBase_FileOptions = \<lparr>FileOptions.javaPackage = Some [],
     FileOptions.javaOuterClassname = Some [],
     FileOptions.javaMultipleFiles = Some False,
     FileOptions.javaGenerateEqualsAndHash = Some False,
     FileOptions.javaStringCheckUtf8 = Some False,
     FileOptions.optimizeFor = Some (Num 1),
     FileOptions.goPackage = Some [],
     FileOptions.ccGenericServices = Some False,
     FileOptions.javaGenericServices = Some False,
     FileOptions.pyGenericServices = Some False,
     FileOptions.deprecated = Some False,
     FileOptions.ccEnableArenas = Some True,
     FileOptions.objcClassPrefix = Some [],
     FileOptions.csharpNamespace = Some [],
     FileOptions.swiftPrefix = Some [],
     FileOptions.phpClassPrefix = Some [],
     FileOptions.phpNamespace = Some [],
     FileOptions.phpMetadataNamespace = Some [],
     FileOptions.rubyPackage = Some [],
     FileOptions.features = None,
     FileOptions.uninterpretedOption = []\<rparr>"

definition encode_FileOptions :: "('w, 'r) wire \<Rightarrow> FileOptions \<Rightarrow> 'w \<Rightarrow> 'w result" where
  "encode_FileOptions L message = seqE
    [someE (FileOptions.javaPackage message) (\<lambda>v. whenE (v \<noteq> []) (seqE [w_uint32 L 10, w_string L v])),
     someE (FileOptions.javaOuterClassname message) (\<lambda>v. whenE (v \<noteq> []) (seqE [w_uint32 L 66, w_string L v])),
     someE (FileOptions.javaMultipleFiles message) (\<lambda>v. whenE (v \<noteq> False) (seqE [w_uint32 L 80, w_bool L v])),
     someE (FileOptions.javaGenerateEqualsAndHash message) (\<lambda>v. whenE (v \<noteq> False) (seqE [w_uint32 L 160, w_bool L v])),
     someE (FileOptions.javaStringCheckUtf8 message) (\<lambda>v. whenE (v \<noteq> False) (seqE [w_uint32 L 216, w_bool L v])),
     someE (FileOptions.optimizeFor message) (\<lambda>v. whenE (v \<noteq> Num 1) (seqE [w_uint32 L 72, w_int32 L v])),
     someE (FileOptions.goPackage message) (\<lambda>v. whenE (v \<noteq> []) (seqE [w_uint32 L 90, w_string L v])),
     someE (FileOptions.ccGenericServices message) (\<lambda>v. whenE (v \<noteq> False) (seqE [w_uint32 L 128, w_bool L v])),
     someE (FileOptions.javaGenericServices message) (\<lambda>v. whenE (v \<noteq> False) (seqE [w_uint32 L 136, w_bool L v])),
     someE (FileOptions.pyGenericServices message) (\<lambda>v. whenE (v \<noteq> False) (seqE [w_uint32 L 144, w_bool L v])),
     someE (FileOptions.deprecated message) (\<lambda>v. whenE (v \<noteq> False) (seqE [w_uint32 L 184, w_bool L v])),
     someE (FileOptions.ccEnableArenas message) (\<lambda>v. whenE (v \<noteq> True) (seqE [w_uint32 L 248, w_bool L v])),
     someE (FileOptions.objcClassPrefix message) (\<lambda>v. whenE (v \<noteq> []) (seqE [w_uint32 L 290, w_string L v])),
     someE (FileOptions.csharpNamespace message) (\<lambda>v. whenE (v \<noteq> []) (seqE [w_uint32 L 298, w_string L v])),
     someE (FileOptions.swiftPrefix message) (\<lambda>v. whenE (v \<noteq> []) (seqE [w_uint32 L 314, w_string L v])),
     someE (FileOptions.phpClassPrefix message) (\<lambda>v. whenE (v \<noteq> []) (seqE [w_uint32 L 322, w_string L v])),
     someE (FileOptions.phpNamespace message) (\<lambda>v. whenE (v \<noteq> []) (seqE [w_uint32 L 330, w_string L v])),
     someE (FileOptions.phpMetadataNamespace message) (\<lambda>v. whenE (v \<noteq> []) (seqE [w_uint32 L 354, w_string L v])),
     someE (FileOptions.rubyPackage message) (\<lambda>v. whenE (v \<noteq> []) (seqE [w_uint32 L 362, w_string L v])),
     someE (FileOptions.features message) (\<lambda>v. seqE [w_uint32 L 402, w_fork L, encode_FeatureSet L v, w_join L]),
     forE (\<lambda>v. seqE [w_uint32 L 7994, w_fork L, encode_UninterpretedOption L v, w_join L]) (FileOptions.uninterpretedOption message)]"

definition FileOptions_switch :: "('w, 'r) wire \<Rightarrow> u32 \<Rightarrow> FileOptions \<Rightarrow> (FileOptions, 'r) action" where
  "FileOptions_switch L tag message = js_switch (drop_bit 3 tag)
    [(1, when_tag tag 10 (readf (r_string L) (\<lambda>v. message\<lparr>FileOptions.javaPackage := Some v\<rparr>))),
     (8, when_tag tag 66 (readf (r_string L) (\<lambda>v. message\<lparr>FileOptions.javaOuterClassname := Some v\<rparr>))),
     (10, when_tag tag 80 (readf (r_bool L) (\<lambda>v. message\<lparr>FileOptions.javaMultipleFiles := Some v\<rparr>))),
     (20, when_tag tag 160 (readf (r_bool L) (\<lambda>v. message\<lparr>FileOptions.javaGenerateEqualsAndHash := Some v\<rparr>))),
     (27, when_tag tag 216 (readf (r_bool L) (\<lambda>v. message\<lparr>FileOptions.javaStringCheckUtf8 := Some v\<rparr>))),
     (9, when_tag tag 72 (readf (num32 (r_int32 L)) (\<lambda>v. message\<lparr>FileOptions.optimizeFor := Some v\<rparr>))),
     (11, when_tag tag 90 (readf (r_string L) (\<lambda>v. message\<lparr>FileOptions.goPackage := Some v\<rparr>))),
     (16, when_tag tag 128 (readf (r_bool L) (\<lambda>v. message\<lparr>FileOptions.ccGenericServices := Some v\<rparr>))),
     (17, when_tag tag 136 (readf (r_bool L) (\<lambda>v. message\<lparr>FileOptions.javaGenericServices := Some v\<rparr>))),
     (18, when_tag tag 144 (readf (r_bool L) (\<lambda>v. message\<lparr>FileOptions.pyGenericServices := Some v\<rparr>))),
     (23, when_tag tag 184 (readf (r_bool L) (\<lambda>v. message\<lparr>FileOptions.deprecated := Some v\<rparr>))),
     (31, when_tag tag 248 (readf (r_bool L) (\<lambda>v. message\<lparr>FileOptions.ccEnableArenas := Some v\<rparr>))),
     (36, when_tag tag 290 (readf (r_string L) (\<lambda>v. message\<lparr>FileOptions.objcClassPrefix := Some v\<rparr>))),
     (37, when_tag tag 298 (readf (r_string L) (\<lambda>v. message\<lparr>FileOptions.csharpNamespace := Some v\<rparr>))),
     (39, when_tag tag 314 (readf (r_string L) (\<lambda>v. message\<lparr>FileOptions.swiftPrefix := Some v\<rparr>))),
     (40, when_tag tag 322 (readf (r_string L) (\<lambda>v. message\<lparr>FileOptions.phpClassPrefix := Some v\<rparr>))),
     (41, when_tag tag 330 (readf (r_string L) (\<lambda>v. message\<lparr>FileOptions.phpNamespace := Some v\<rparr>))),
     (44, when_tag tag 354 (readf (r_string L) (\<lambda>v. message\<lparr>FileOptions.phpMetadataNamespace := Some v\<rparr>))),
     (45, when_tag tag 362 (readf (r_string L) (\<lambda>v. message\<lparr>FileOptions.rubyPackage := Some v\<rparr>))),
     (50, when_tag tag 402 (readf (submsg L (decode_FeatureSet L)) (\<lambda>v. message\<lparr>FileOptions.features := Some v\<rparr>))),
     (999, when_tag tag 7994 (readf (submsg L (decode_UninterpretedOption L)) (\<lambda>v. message\<lparr>FileOptions.uninterpretedOption := FileOptions.uninterpretedOption message @ [v]\<rparr>)))]
    break_out"

definition decode_FileOptions :: "('w, 'r) wire \<Rightarrow> 'r input \<Rightarrow> nat option \<Rightarrow> (FileOptions \<times> 'r) result" where
  "decode_FileOptions L = decode_msg L (FileOptions_switch L) createBase_FileOptions"

definition fromJSON_FileOptions :: "host \<Rightarrow> jsval \<Rightarrow> FileOptions result" where
  "fromJSON_FileOptions h object =
     bindE (fieldE object ''javaPackage'' (stringE h) []) (\<lambda>v_javaPackage.
     bindE (fieldE object ''javaOuterClassname'' (stringE h) []) (\<lambda>v_javaOuterClassname.
     bindE (fieldE object ''javaMultipleFiles'' booleanE False) (\<lambda>v_javaMultipleFiles.
     bindE (fieldE object ''javaGenerateEqualsAndHash'' booleanE False) (\<lambda>v_javaGenerateEqualsAndHash.
     bindE (fieldE object ''javaStringCheckUtf8'' booleanE False) (\<lambda>v_javaStringCheckUtf8.
     bindE (fieldE object ''optimizeFor'' (enumE fileOptions_OptimizeModeFromJSON) (Num 1)) (\<lambda>v_optimizeFor.
     bindE (fieldE object ''goPackage'' (stringE h) []) (\<lambda>v_goPackage.
     bindE (fieldE object ''ccGenericServices'' booleanE False) (\<lambda>v_ccGenericServices.
     bindE (fieldE object ''javaGenericServices'' booleanE False) (\<lambda>v_javaGenericServices.
     bindE (fieldE object ''pyGenericServices'' booleanE False) (\<lambda>v_pyGenericServices.
     bindE (fieldE object ''deprecated'' booleanE False) (\<lambda>v_deprecated.
     bindE (fieldE object ''ccEnableArenas'' booleanE True) (\<lambda>v_ccEnableArenas.
     bindE (fieldE object ''objcClassPrefix'' (stringE h) []) (\<lambda>v_objcClassPrefix.
     bindE (fieldE object ''csharpNamespace'' (stringE h) []) (\<lambda>v_csharpNamespace.
     bindE (fieldE object ''swiftPrefix'' (stringE h) []) (\<lambda>v_swiftPrefix.
     bindE (fieldE object ''phpClassPrefix'' (stringE h) []) (\<lambda>v_phpClassPrefix.
     bindE (fieldE object ''phpNamespace'' (stringE h) []) (\<lambda>v_phpNamespace.
     bindE (fieldE object ''phpMetadataNamespace'' (stringE h) []) (\<lambda>v_phpMetadataNamespace.
     bindE (fieldE object ''rubyPackage'' (stringE h) []) (\<lambda>v_rubyPackage.
     bindE (optE object ''features'' (fromJSON_FeatureSet h)) (\<lambda>v_features.
     bindE (arrayE object ''uninterpretedOption'' (fromJSON_UninterpretedOption h)) (\<lambda>v_uninterpretedOption.
     Inr \<lparr>FileOptions.javaPackage = Some v_javaPackage, FileOptions.javaOuterClassname = Some v_javaOuterClassname, FileOptions.javaMultipleFiles = Some v_javaMultipleFiles, FileOptions.javaGenerateEqualsAndHash = Some v_javaGenerateEqualsAndHash, FileOptions.javaStringCheckUtf8 = Some v_javaStringCheckUtf8, FileOptions.optimizeFor = Some v_optimizeFor, FileOptions.goPackage = Some v_goPackage, FileOptions.ccGenericServices = Some v_ccGenericServices, FileOptions.javaGenericServices = Some v_javaGenericServices, FileOptions.pyGenericServices = Some v_pyGenericServices, FileOptions.deprecated = Some v_deprecated, FileOptions.ccEnableArenas = Some v_ccEnableArenas, FileOptions.objcClassPrefix = Some v_objcClassPrefix, FileOptions.csharpNamespace = Some v_csharpNamespace, FileOptions.swiftPrefix = Some v_swiftPrefix, FileOptions.phpClassPrefix = Some v_phpClassPrefix, FileOptions.phpNamespace = Some v_phpNamespace, FileOptions.phpMetadataNamespace = Some v_phpMetadataNamespace, FileOptions.rubyPackage = Some v_rubyPackage, FileOptions.features = v_features, FileOptions.uninterpretedOption = v_uninterpretedOption\<rparr>)))))))))))))))))))))"

definition toJSON_FileOptions :: "host \<Rightarrow> FileOptions \<Rightarrow> jsval result" where
  "toJSON_FileOptions h message = objE
    [jdefE ''javaPackage'' (\<lambda>v. v \<noteq> []) (\<lambda>v. Inr (JString v)) (FileOptions.javaPackage message),
     jdefE ''javaOuterClassname'' (\<lambda>v. v \<noteq> []) (\<lambda>v. Inr (JString v)) (FileOptions.javaOuterClassname message),
     jdefE ''javaMultipleFiles'' (\<lambda>v. v \<noteq> False) (\<lambda>v. Inr (JBool v)) (FileOptions.javaMultipleFiles message),
     jdefE ''javaGenerateEqualsAndHash'' (\<lambda>v. v \<noteq> False) (\<lambda>v. Inr (JBool v)) (FileOptions.javaGenerateEqualsAndHash message),
     jdefE ''javaStringCheckUtf8'' (\<lambda>v. v \<noteq> False) (\<lambda>v. Inr (JBool v)) (FileOptions.javaStringCheckUtf8 message),
     jdefE ''optimizeFor'' (\<lambda>v. v \<noteq> Num 1) (\<lambda>v. Inr (JString (fileOptions_OptimizeModeToJSON v))) (FileOptions.optimizeFor message),
     jdefE ''goPackage'' (\<lambda>v. v \<noteq> []) (\<lambda>v. Inr (JString v)) (FileOptions.goPackage message),
     jdefE ''ccGenericServices'' (\<lambda>v. v \<noteq> False) (\<lambda>v. Inr (JBool v)) (FileOptions.ccGenericServices message),
     jdefE ''javaGenericServices'' (\<lambda>v. v \<noteq> False) (\<lambda>v. Inr (JBool v)) (FileOptions.javaGenericServices message),
     jdefE ''pyGenericServices'' (\<lambda>v. v \<noteq> False) (\<lambda>v. Inr (JBool v)) (FileOptions.pyGenericServices message),
     jdefE ''deprecated'' (\<lambda>v. v \<noteq> False) (\<lambda>v. Inr (JBool v)) (FileOptions.deprecated message),
     jdefE ''ccEnableArenas'' (\<lambda>v. v \<noteq> True) (\<lambda>v. Inr (JBool v)) (FileOptions.ccEnableArenas message),
     jdefE ''objcClassPrefix'' (\<lambda>v. v \<noteq> []) (\<lambda>v. Inr (JString v)) (FileOptions.objcClassPrefix message),
     jdefE ''csharpNamespace'' (\<lambda>v. v \<noteq> []) (\<lambda>v. Inr (JString v)) (FileOptions.csharpNamespace message),
     jdefE ''swiftPrefix'' (\<lambda>v. v \<noteq> []) (\<lambda>v. Inr (JString v)) (FileOptions.swiftPrefix message),
     jdefE ''phpClassPrefix'' (\<lambda>v. v \<noteq> []) (\<lambda>v. Inr (JString v)) (FileOptions.phpClassPrefix message),
     jdefE ''phpNamespace'' (\<lambda>v. v \<noteq> []) (\<lambda>v. Inr (JString v)) (FileOptions.phpNamespace message),
     jdefE ''phpMetadataNamespace'' (\<lambda>v. v \<noteq> []) (\<lambda>v. Inr (JString v)) (FileOptions.phpMetadataNamespace message),
     jdefE ''rubyPackage'' (\<lambda>v. v \<noteq> []) (\<lambda>v. Inr (JString v)) (FileOptions.rubyPackage message),
     joptE ''features'' (toJSON_FeatureSet h) (FileOptions.features message),
     jarrayE ''uninterpretedOption'' (toJSON_UninterpretedOption h) (FileOptions.uninterpretedOption message)]"

record FileOptions_Partial =
  javaPackage :: "jsstring option"
  javaOuterClassname :: "jsstring option"
  javaMultipleFiles :: "bool option"
  javaGenerateEqualsAndHash :: "bool option"
  javaStringCheckUtf8 :: "bool option"
  optimizeFor :: "FileOptions_OptimizeMode option"
  goPackage :: "jsstring option"
  ccGenericServices :: "bool option"
  javaGenericServices :: "bool option"
  pyGenericServices :: "bool option"
  deprecated :: "bool option"
  ccEnableArenas :: "bool option"
  objcClassPrefix :: "jsstring option"
  csharpNamespace :: "jsstring option"
  swiftPrefix :: "jsstring option"
  phpClassPrefix :: "jsstring option"
  phpNamespace :: "jsstring option"
  phpMetadataNamespace :: "jsstring option"
  rubyPackage :: "jsstring option"
  features :: "FeatureSet_Partial option"
  uninterpretedOption :: "UninterpretedOption_Partial list option"

definition FileOptions_empty :: FileOptions_Partial where
  "FileOptions_empty = \<lparr>FileOptions_Partial.javaPackage = None, FileOptions_Partial.javaOuterClassname = None, FileOptions_Partial.javaMultipleFiles = None, FileOptions_Partial.javaGenerateEqualsAndHash = None, FileOptions_Partial.javaStringCheckUtf8 = None, FileOptions_Partial.optimizeFor = None, FileOptions_Partial.goPackage = None, FileOptions_Partial.ccGenericServices = None, FileOptions_Partial.javaGenericServices = None, FileOptions_Partial.pyGenericServices = None, FileOptions_Partial.deprecated = None, FileOptions_Partial.ccEnableArenas = None, FileOptions_Partial.objcClassPrefix = None, FileOptions_Partial.csharpNamespace = None, FileOptions_Partial.swiftPrefix = None, FileOptions_Partial.phpClassPrefix = None, FileOptions_Partial.phpNamespace = None, FileOptions_Partial.phpMetadataNamespace = None, FileOptions_Partial.rubyPackage = None, FileOptions_Partial.features = None, FileOptions_Partial.uninterpretedOption = None\<rparr>"

definition fromPartial_FileOptions :: "FileOptions_Partial \<Rightarrow> FileOptions" where
  "fromPartial_FileOptions object = createBase_FileOptions\<lparr>FileOptions.javaPackage := Some (nullish (FileOptions_Partial.javaPackage object) []),
     FileOptions.javaOuterClassname := Some (nullish (FileOptions_Partial.javaOuterClassname object) []),
     FileOptions.javaMultipleFiles := Some (nullish (FileOptions_Partial.javaMultipleFiles object) False),
     FileOptions.javaGenerateEqualsAndHash := Some (nullish (FileOptions_Partial.javaGenerateEqualsAndHash object) False),
     FileOptions.javaStringCheckUtf8 := Some (nullish (FileOptions_Partial.javaStringCheckUtf8 object) False),
     FileOptions.optimizeFor := Some (nullish (FileOptions_Partial.optimizeFor object) (Num 1)),
     FileOptions.goPackage := Some (nullish (FileOptions_Partial.goPackage object) []),
     FileOptions.ccGenericServices := Some (nullish (FileOptions_Partial.ccGenericServices object) False),
     FileOptions.javaGenericServices := Some (nullish (FileOptions_Partial.javaGenericServices object) False),
     FileOptions.pyGenericServices := Some (nullish (FileOptions_Partial.pyGenericServices object) False),
     FileOptions.deprecated := Some (nullish (FileOptions_Partial.deprecated object) False),
     FileOptions.ccEnableArenas := Some (nullish (FileOptions_Partial.ccEnableArenas object) True),
     FileOptions.objcClassPrefix := Some (nullish (FileOptions_Partial.objcClassPrefix object) []),
     FileOptions.csharpNamespace := Some (nullish (FileOptions_Partial.csharpNamespace object) []),
     FileOptions.swiftPrefix := Some (nullish (FileOptions_Partial.swiftPrefix object) []),
     FileOptions.phpClassPrefix := Some (nullish (FileOptions_Partial.phpClassPrefix object) []),
     FileOptions.phpNamespace := Some (nullish (FileOptions_Partial.phpNamespace object) []),
     FileOptions.phpMetadataNamespace := Some (nullish (FileOptions_Partial.phpMetadataNamespace object) []),
     FileOptions.rubyPackage := Some (nullish (FileOptions_Partial.rubyPackage object) []),
     FileOptions.features := map_option fromPartial_FeatureSet (FileOptions_Partial.features object),
     FileOptions.uninterpretedOption := partial_map fromPartial_UninterpretedOption (FileOptions_Partial.uninterpretedOption object)\<rparr>"

definition create_FileOptions :: "FileOptions_Partial option \<Rightarrow> FileOptions" where
  "create_FileOptions base = fromPartial_FileOptions (nullish base FileOptions_empty)"

text \<open>A message as a partial message.\<close>

definition partial_of_FileOptions :: "FileOptions \<Rightarrow> FileOptions_Partial" where
  "partial_of_FileOptions m =
     \<lparr>FileOptions_Partial.javaPackage = FileOptions.javaPackage m,
      FileOptions_Partial.javaOuterClassname = FileOptions.javaOuterClassname m,
      FileOptions_Partial.javaMultipleFiles = FileOptions.javaMultipleFiles m,
      FileOptions_Partial.javaGenerateEqualsAndHash = FileOptions.javaGenerateEqualsAndHash m,
      FileOptions_Partial.javaStringCheckUtf8 = FileOptions.javaStringCheckUtf8 m,
      FileOptions_Partial.optimizeFor = FileOptions.optimizeFor m,
      FileOptions_Partial.goPackage = FileOptions.goPackage m,
      FileOptions_Partial.ccGenericServices = FileOptions.ccGenericServices m,
      FileOptions_Partial.javaGenericServices = FileOptions.javaGenericServices m,
      FileOptions_Partial.pyGenericServices = FileOptions.pyGenericServices m,
      FileOptions_Partial.deprecated = FileOptions.deprecated m,
      FileOptions_Partial.ccEnableArenas = FileOptions.ccEnableArenas m,
      FileOptions_Partial.objcClassPrefix = FileOptions.objcClassPrefix m,
      FileOptions_Partial.csharpNamespace = FileOptions.csharpNamespace m,
      FileOptions_Partial.swiftPrefix = FileOptions.swiftPrefix m,
      FileOptions_Partial.phpClassPrefix = FileOptions.phpClassPrefix m,
      FileOptions_Partial.phpNamespace = FileOptions.phpNamespace m,
      FileOptions_Partial.phpMetadataNamespace = FileOptions.phpMetadataNamespace m,
      FileOptions_Partial.rubyPackage = FileOptions.rubyPackage m,
      FileOptions_Partial.features = map_option partial_of_FeatureSet (FileOptions.features m),
      FileOptions_Partial.uninterpretedOption = Some (map partial_of_UninterpretedOption (FileOptions.uninterpretedOption m))\<rparr>"

definition wf_FileOptions :: "('w, 'r) wire \<Rightarrow> FileOptions \<Rightarrow> bool" where
  "wf_FileOptions L m \<longleftrightarrow> present wire_string (FileOptions.javaPackage m)
     \<and> present wire_string (FileOptions.javaOuterClassname m)
     \<and> present (\<lambda>_. True) (FileOptions.javaMultipleFiles m)
     \<and> present (\<lambda>_. True) (FileOptions.javaGenerateEqualsAndHash m)
     \<and> present (\<lambda>_. True) (FileOptions.javaStringCheckUtf8 m)
     \<and> present int32_num (FileOptions.optimizeFor m)
     \<and> present wire_string (FileOptions.goPackage m)
     \<and> present (\<lambda>_. True) (FileOptions.ccGenericServices m)
     \<and> present (\<lambda>_. True) (FileOptions.javaGenericServices m)
     \<and> present (\<lambda>_. True) (FileOptions.pyGenericServices m)
     \<and> present (\<lambda>_. True) (FileOptions.deprecated m)
     \<and> present (\<lambda>_. True) (FileOptions.ccEnableArenas m)
     \<and> present wire_string (FileOptions.objcClassPrefix m)
     \<and> present wire_string (FileOptions.csharpNamespace m)
     \<and> present wire_string (FileOptions.swiftPrefix m)
     \<and> present wire_string (FileOptions.phpClassPrefix m)
     \<and> present wire_string (FileOptions.phpNamespace m)
     \<and> present wire_string (FileOptions.phpMetadataNamespace m)
     \<and> present wire_string (FileOptions.rubyPackage m)
     \<and> pred_option (\<lambda>v. wf_FeatureSet L v \<and> fits L (encode_FeatureSet L v)) (FileOptions.features m)
     \<and> list_all (\<lambda>v. wf_UninterpretedOption L v \<and> fits L (encode_UninterpretedOption L v)) (FileOptions.uninterpretedOption m)"

definition wfj_FileOptions :: "FileOptions \<Rightarrow> bool" where
  "wfj_FileOptions m \<longleftrightarrow> FileOptions.javaPackage m \<noteq> None
     \<and> FileOptions.javaOuterClassname m \<noteq> None
     \<and> FileOptions.javaMultipleFiles m \<noteq> None
     \<and> FileOptions.javaGenerateEqualsAndHash m \<noteq> None
     \<and> FileOptions.javaStringCheckUtf8 m \<noteq> None
     \<and> FileOptions.optimizeFor m \<noteq> None
     \<and> FileOptions_OptimizeMode_known (the (FileOptions.optimizeFor m))
     \<and> FileOptions.goPackage m \<noteq> None
     \<and> FileOptions.ccGenericServices m \<noteq> None
     \<and> FileOptions.javaGenericServices m \<noteq> None
     \<and> FileOptions.pyGenericServices m \<noteq> None
     \<and> FileOptions.deprecated m \<noteq> None
     \<and> FileOptions.ccEnableArenas m \<noteq> None
     \<and> FileOptions.objcClassPrefix m \<noteq> None
     \<and> FileOptions.csharpNamespace m \<noteq> None
     \<and> FileOptions.swiftPrefix m \<noteq> None
     \<and> FileOptions.phpClassPrefix m \<noteq> None
     \<and> FileOptions.phpNamespace m \<noteq> None
     \<and> FileOptions.phpMetadataNamespace m \<noteq> None
     \<and> FileOptions.rubyPackage m \<noteq> None
     \<and> pred_option wfj_FeatureSet (FileOptions.features m)
     \<and> list_all wfj_UninterpretedOption (FileOptions.uninterpretedOption m)"

subsection \<open>FeatureSetDefaults_FeatureSetEditionDefault\<close>

record FeatureSetDefaults_FeatureSetEditionDefault =
  edition :: "Edition option"
  overridableFeatures :: "FeatureSet option"
  fixedFeatures :: "FeatureSet option"

definition createBase_FeatureSetDefaults_FeatureSetEditionDefault :: FeatureSetDefaults_FeatureSetEditionDefault where
  "createBase_FeatureSetDefaults_FeatureSetEditionDefault = \<lparr>FeatureSetDefaults_FeatureSetEditionDefault.edition = Some (Num 0),
     FeatureSetDefaults_FeatureSetEditionDefault.overridableFeatures = None,
     FeatureSetDefaults_FeatureSetEditionDefault.fixedFeatures = None\<rparr>"

definition encode_FeatureSetDefaults_FeatureSetEditionDefault :: "('w, 'r) wire \<Rightarrow> FeatureSetDefaults_FeatureSetEditionDefault \<Rightarrow> 'w \<Rightarrow> 'w result" where
  "encode_FeatureSetDefaults_FeatureSetEditionDefault L message = seqE
    [someE (FeatureSetDefaults_FeatureSetEditionDefault.edition message) (\<lambda>v. whenE (v \<noteq> Num 0) (seqE [w_uint32 L 24, w_int32 L v])),
     someE (FeatureSetDefaults_FeatureSetEditionDefault.overridableFeatures message) (\<lambda>v. seqE [w_uint32 L 34, w_fork L, encode_FeatureSet L v, w_join L]),
     someE (FeatureSetDefaults_FeatureSetEditionDefault.fixedFeatures message) (\<lambda>v. seqE [w_uint32 L 42, w_fork L, encode_FeatureSet L v, w_join L])]"

definition FeatureSetDefaults_FeatureSetEditionDefault_switch :: "('w, 'r) wire \<Rightarrow> u32 \<Rightarrow> FeatureSetDefaults_FeatureSetEditionDefault \<Rightarrow> (FeatureSetDefaults_FeatureSetEditionDefault, 'r) action" where
  "FeatureSetDefaults_FeatureSetEditionDefault_switch L tag message = js_switch (drop_bit 3 tag)
    [(3, when_tag tag 24 (readf (num32 (r_int32 L)) (\<lambda>v. message\<lparr>FeatureSetDefaults_FeatureSetEditionDefault.edition := Some v\<rparr>))),
     (4, when_tag tag 34 (readf (submsg L (decode_FeatureSet L)) (\<lambda>v. message\<lparr>FeatureSetDefaults_FeatureSetEditionDefault.overridableFeatures := Some v\<rparr>))),
     (5, when_tag tag 42 (readf (submsg L (decode_FeatureSet L)) (\<lambda>v. message\<lparr>FeatureSetDefaults_FeatureSetEditionDefault.fixedFeatures := Some v\<rparr>)))]
    break_out"

definition decode_FeatureSetDefaults_FeatureSetEditionDefault :: "('w, 'r) wire \<Rightarrow> 'r input \<Rightarrow> nat option \<Rightarrow> (FeatureSetDefaults_FeatureSetEditionDefault \<times> 'r) result" where
  "decode_FeatureSetDefaults_FeatureSetEditionDefault L = decode_msg L (FeatureSetDefaults_FeatureSetEditionDefault_switch L) createBase_FeatureSetDefaults_FeatureSetEditionDefault"

definition fromJSON_FeatureSetDefaults_FeatureSetEditionDefault :: "host \<Rightarrow> jsval \<Rightarrow> FeatureSetDefaults_FeatureSetEditionDefault result" where
  "fromJSON_FeatureSetDefaults_FeatureSetEditionDefault h object =
     bindE (fieldE object ''edition'' (enumE editionFromJSON) (Num 0)) (\<lambda>v_edition.
     bindE (optE object ''overridableFeatures'' (fromJSON_FeatureSet h)) (\<lambda>v_overridableFeatures.
     bindE (optE object ''fixedFeatures'' (fromJSON_FeatureSet h)) (\<lambda>v_fixedFeatures.
     Inr \<lparr>FeatureSetDefaults_FeatureSetEditionDefault.edition = Some v_edition, FeatureSetDefaults_FeatureSetEditionDefault.overridableFeatures = v_overridableFeatures, FeatureSetDefaults_FeatureSetEditionDefault.fixedFeatures = v_fixedFeatures\<rparr>)))"

definition toJSON_FeatureSetDefaults_FeatureSetEditionDefault :: "host \<Rightarrow> FeatureSetDefaults_FeatureSetEditionDefault \<Rightarrow> jsval result" where
  "toJSON_FeatureSetDefaults_FeatureSetEditionDefault h message = objE
    [jdefE ''edition'' (\<lambda>v. v \<noteq> Num 0) (\<lambda>v. Inr (JString (editionToJSON v))) (FeatureSetDefaults_FeatureSetEditionDefault.edition message),
     joptE ''overridableFeatures'' (toJSON_FeatureSet h) (FeatureSetDefaults_FeatureSetEditionDefault.overridableFeatures message),
     joptE ''fixedFeatures'' (toJSON_FeatureSet h) (FeatureSetDefaults_FeatureSetEditionDefault.fixedFeatures message)]"

record FeatureSetDefaults_FeatureSetEditionDefault_Partial =
  edition :: "Edition option"
  overridableFeatures :: "FeatureSet_Partial option"
  fixedFeatures :: "FeatureSet_Partial option"

definition FeatureSetDefaults_FeatureSetEditionDefault_empty :: FeatureSetDefaults_FeatureSetEditionDefault_Partial where
  "FeatureSetDefaults_FeatureSetEditionDefault_empty = \<lparr>FeatureSetDefaults_FeatureSetEditionDefault_Partial.edition = None, FeatureSetDefaults_FeatureSetEditionDefault_Partial.overridableFeatures = None, FeatureSetDefaults_FeatureSetEditionDefault_Partial.fixedFeatures = None\<rparr>"

definition fromPartial_FeatureSetDefaults_FeatureSetEditionDefault :: "FeatureSetDefaults_FeatureSetEditionDefault_Partial \<Rightarrow> FeatureSetDefaults_FeatureSetEditionDefault" where
  "fromPartial_FeatureSetDefaults_FeatureSetEditionDefault object = createBase_FeatureSetDefaults_FeatureSetEditionDefault\<lparr>FeatureSetDefaults_FeatureSetEditionDefault.edition := Some (nullish (FeatureSetDefaults_FeatureSetEditionDefault_Partial.edition object) (Num 0)),
     FeatureSetDefaults_FeatureSetEditionDefault.overridableFeatures := map_option fromPartial_FeatureSet (FeatureSetDefaults_FeatureSetEditionDefault_Partial.overridableFeatures object),
     FeatureSetDefaults_FeatureSetEditionDefault.fixedFeatures := map_option fromPartial_FeatureSet (FeatureSetDefaults_FeatureSetEditionDefault_Partial.fixedFeatures object)\<rparr>"

definition create_FeatureSetDefaults_FeatureSetEditionDefault :: "FeatureSetDefaults_FeatureSetEditionDefault_Partial option \<Rightarrow> FeatureSetDefaults_FeatureSetEditionDefault" where
  "create_FeatureSetDefaults_FeatureSetEditionDefault base = fromPartial_FeatureSetDefaults_FeatureSetEditionDefault (nullish base FeatureSetDefaults_FeatureSetEditionDefault_empty)"

text \<open>A message as a partial message.\<close>

definition partial_of_FeatureSetDefaults_FeatureSetEditionDefault :: "FeatureSetDefaults_FeatureSetEditionDefault \<Rightarrow> FeatureSetDefaults_FeatureSetEditionDefault_Partial" where
  "partial_of_FeatureSetDefaults_FeatureSetEditionDefault m =
     \<lparr>FeatureSetDefaults_FeatureSetEditionDefault_Partial.edition = FeatureSetDefaults_FeatureSetEditionDefault.edition m,
      FeatureSetDefaults_FeatureSetEditionDefault_Partial.overridableFeatures = map_option partial_of_FeatureSet (FeatureSetDefaults_FeatureSetEditionDefault.overridableFeatures m),
      FeatureSetDefaults_FeatureSetEditionDefault_Partial.fixedFeatures = map_option partial_of_FeatureSet (FeatureSetDefaults_FeatureSetEditionDefault.fixedFeatures m)\<rparr>"

definition wf_FeatureSetDefaults_FeatureSetEditionDefault :: "('w, 'r) wire \<Rightarrow> FeatureSetDefaults_FeatureSetEditionDefault \<Rightarrow> bool" where
  "wf_FeatureSetDefaults_FeatureSetEditionDefault L m \<longleftrightarrow> present int32_num (FeatureSetDefaults_FeatureSetEditionDefault.edition m)
     \<and> pred_option (\<lambda>v. wf_FeatureSet L v \<and> fits L (encode_FeatureSet L v)) (FeatureSetDefaults_FeatureSetEditionDefault.overridableFeatures m)
     \<and> pred_option (\<lambda>v. wf_FeatureSet L v \<and> fits L (encode_FeatureSet L v)) (FeatureSetDefaults_FeatureSetEditionDefault.fixedFeatures m)"

definition wfj_FeatureSetDefaults_FeatureSetEditionDefault :: "FeatureSetDefaults_FeatureSetEditionDefault \<Rightarrow> bool" where
  "wfj_FeatureSetDefaults_FeatureSetEditionDefault m \<longleftrightarrow> FeatureSetDefaults_FeatureSetEditionDefault.edition m \<noteq> None
     \<and> Edition_known (the (FeatureSetDefaults_FeatureSetEditionDefault.edition m))
     \<and> pred_option wfj_FeatureSet (FeatureSetDefaults_FeatureSetEditionDefault.overridableFeatures m)
     \<and> pred_option wfj_FeatureSet (FeatureSetDefaults_FeatureSetEditionDefault.fixedFeatures m)"

subsection \<open>FeatureSetDefaults\<close>

record FeatureSetDefaults =
  defaults' :: "FeatureSetDefaults_FeatureSetEditionDefault list"
  minimumEdition :: "Edition option"
  maximumEdition :: "Edition option"

definition createBase_FeatureSetDefaults :: FeatureSetDefaults where
  "createBase_FeatureSetDefaults = \<lparr>FeatureSetDefaults.defaults' = [],
     FeatureSetDefaults.minimumEdition = Some (Num 0),
     FeatureSetDefaults.maximumEdition = Some (Num 0)\<rparr>"

definition encode_FeatureSetDefaults :: "('w, 'r) wire \<Rightarrow> FeatureSetDefaults \<Rightarrow> 'w \<Rightarrow> 'w result" where
  "encode_FeatureSetDefaults L message = seqE
    [forE (\<lambda>v. seqE [w_uint32 L 10, w_fork L, encode_FeatureSetDefaults_FeatureSetEditionDefault L v, w_join L]) (FeatureSetDefaults.defaults' message),
     someE (FeatureSetDefaults.minimumEdition message) (\<lambda>v. whenE (v \<noteq> Num 0) (seqE [w_uint32 L 32, w_int32 L v])),
     someE (FeatureSetDefaults.maximumEdition message) (\<lambda>v. whenE (v \<noteq> Num 0) (seqE [w_uint32 L 40, w_int32 L v]))]"

definition FeatureSetDefaults_switch :: "('w, 'r) wire \<Rightarrow> u32 \<Rightarrow> FeatureSetDefaults \<Rightarrow> (FeatureSetDefaults, 'r) action" where
  "FeatureSetDefaults_switch L tag message = js_switch (drop_bit 3 tag)
    [(1, when_tag tag 10 (readf (submsg L (decode_FeatureSetDefaults_FeatureSetEditionDefault L)) (\<lambda>v. message\<lparr>FeatureSetDefaults.defaults' := FeatureSetDefaults.defaults' message @ [v]\<rparr>))),
     (4, when_tag tag 32 (readf (num32 (r_int32 L)) (\<lambda>v. message\<lparr>FeatureSetDefaults.minimumEdition := Some v\<rparr>))),
     (5, when_tag tag 40 (readf (num32 (r_int32 L)) (\<lambda>v. message\<lparr>FeatureSetDefaults.maximumEdition := Some v\<rparr>)))]
    break_out"

definition decode_FeatureSetDefaults :: "('w, 'r) wire \<Rightarrow> 'r input \<Rightarrow> nat option \<Rightarrow> (FeatureSetDefaults \<times> 'r) result" where
  "decode_FeatureSetDefaults L = decode_msg L (FeatureSetDefaults_switch L) createBase_FeatureSetDefaults"

definition fromJSON_FeatureSetDefaults :: "host \<Rightarrow> jsval \<Rightarrow> FeatureSetDefaults result" where
  "fromJSON_FeatureSetDefaults h object =
     bindE (arrayE object ''defaults'' (fromJSON_FeatureSetDefaults_FeatureSetEditionDefault h)) (\<lambda>v_defaults.
     bindE (fieldE object ''minimumEdition'' (enumE editionFromJSON) (Num 0)) (\<lambda>v_minimumEdition.
     bindE (fieldE object ''maximumEdition'' (enumE editionFromJSON) (Num 0)) (\<lambda>v_maximumEdition.
     Inr \<lparr>FeatureSetDefaults.defaults' = v_defaults, FeatureSetDefaults.minimumEdition = Some v_minimumEdition, FeatureSetDefaults.maximumEdition = Some v_maximumEdition\<rparr>)))"

definition toJSON_FeatureSetDefaults :: "host \<Rightarrow> FeatureSetDefaults \<Rightarrow> jsval result" where
  "toJSON_FeatureSetDefaults h message = objE
    [jarrayE ''defaults'' (toJSON_FeatureSetDefaults_FeatureSetEditionDefault h) (FeatureSetDefaults.defaults' message),
     jdefE ''minimumEdition'' (\<lambda>v. v \<noteq> Num 0) (\<lambda>v. Inr (JString (editionToJSON v))) (FeatureSetDefaults.minimumEdition message),
     jdefE ''maximumEdition'' (\<lambda>v. v \<noteq> Num 0) (\<lambda>v. Inr (JString (editionToJSON v))) (FeatureSetDefaults.maximumEdition message)]"

record FeatureSetDefaults_Partial =
  defaults' :: "FeatureSetDefaults_FeatureSetEditionDefault_Partial list option"
  minimumEdition :: "Edition option"
  maximumEdition :: "Edition option"

definition FeatureSetDefaults_empty :: FeatureSetDefaults_Partial where
  "FeatureSetDefaults_empty = \<lparr>FeatureSetDefaults_Partial.defaults' = None, FeatureSetDefaults_Partial.minimumEdition = None, FeatureSetDefaults_Partial.maximumEdition = None\<rparr>"

definition fromPartial_FeatureSetDefaults :: "FeatureSetDefaults_Partial \<Rightarrow> FeatureSetDefaults" where
  "fromPartial_FeatureSetDefaults object = createBase_FeatureSetDefaults\<lparr>FeatureSetDefaults.defaults' := partial_map fromPartial_FeatureSetDefaults_FeatureSetEditionDefault (FeatureSetDefaults_Partial.defaults' object),
     FeatureSetDefaults.minimumEdition := Some (nullish (FeatureSetDefaults_Partial.minimumEdition object) (Num 0)),
     FeatureSetDefaults.maximumEdition := Some (nullish (FeatureSetDefaults_Partial.maximumEdition object) (Num 0))\<rparr>"

definition create_FeatureSetDefaults :: "FeatureSetDefaults_Partial option \<Rightarrow> FeatureSetDefaults" where
  "create_FeatureSetDefaults base = fromPartial_FeatureSetDefaults (nullish base FeatureSetDefaults_empty)"

text \<open>A message as a partial message.\<close>

definition partial_of_FeatureSetDefaults :: "FeatureSetDefaults \<Rightarrow> FeatureSetDefaults_Partial" where
  "partial_of_FeatureSetDefaults m =
     \<lparr>FeatureSetDefaults_Partial.defaults' = Some (map partial_of_FeatureSetDefaults_FeatureSetEditionDefault (FeatureSetDefaults.defaults' m)),
      FeatureSetDefaults_Partial.minimumEdition = FeatureSetDefaults.minimumEdition m,
      FeatureSetDefaults_Partial.maximumEdition = FeatureSetDefaults.maximumEdition m\<rparr>"

definition wf_FeatureSetDefaults :: "('w, 'r) wire \<Rightarrow> FeatureSetDefaults \<Rightarrow> bool" where
  "wf_FeatureSetDefaults L m \<longleftrightarrow> list_all (\<lambda>v. wf_FeatureSetDefaults_FeatureSetEditionDefault L v \<and> fits L (encode_FeatureSetDefaults_FeatureSetEditionDefault L v)) (FeatureSetDefaults.defaults' m)
     \<and> present int32_num (FeatureSetDefaults.minimumEdition m)
     \<and> present int32_num (FeatureSetDefaults.maximumEdition m)"

definition wfj_FeatureSetDefaults :: "FeatureSetDefaults \<Rightarrow> bool" where
  "wfj_FeatureSetDefaults m \<longleftrightarrow> list_all wfj_FeatureSetDefaults_FeatureSetEditionDefault (FeatureSetDefaults.defaults' m)
     \<and> FeatureSetDefaults.minimumEdition m \<noteq> None
     \<and> Edition_known (the (FeatureSetDefaults.minimumEdition m))
     \<and> FeatureSetDefaults.maximumEdition m \<noteq> None
     \<and> Edition_known (the (FeatureSetDefaults.maximumEdition m))"


section \<open>Encoding, decoding and JSON of these messages\<close>

lemmas Edition_defs = Edition_EDITION_UNKNOWN_def Edition_EDITION_LEGACY_def Edition_EDITION_PROTO2_def Edition_EDITION_PROTO3_def Edition_EDITION_2023_def Edition_EDITION_2024_def Edition_EDITION_1_TEST_ONLY_def Edition_EDITION_2_TEST_ONLY_def Edition_EDITION_99997_TEST_ONLY_def Edition_EDITION_99998_TEST_ONLY_def Edition_EDITION_99999_TEST_ONLY_def Edition_EDITION_MAX_def Edition_UNRECOGNIZED_def

lemma Edition_json [json_rules]:
  "Edition_known n \<Longrightarrow> enumE editionFromJSON (JString (editionToJSON n)) = Inr n"
  unfolding Edition_known_def
  by (elim insertE emptyE; simp only:; simp add: enumE_def editionFromJSON_def editionToJSON_def Edition_defs)

lemmas Edition_json_list [json_rules] = list.pred_mono_strong [of Edition_known _ "\<lambda>n. enumE editionFromJSON (JString (editionToJSON n)) = Inr n", OF _ Edition_json]

lemmas ExtensionRangeOptions_VerificationState_defs = ExtensionRangeOptions_VerificationState_DECLARATION_def ExtensionRangeOptions_VerificationState_UNVERIFIED_def ExtensionRangeOptions_VerificationState_UNRECOGNIZED_def

lemma ExtensionRangeOptions_VerificationState_json [json_rules]:
  "ExtensionRangeOptions_VerificationState_known n \<Longrightarrow> enumE extensionRangeOptions_VerificationStateFromJSON (JString (extensionRangeOptions_VerificationStateToJSON n)) = Inr n"
  unfolding ExtensionRangeOptions_VerificationState_known_def
  by (elim insertE emptyE; simp only:; simp add: enumE_def extensionRangeOptions_VerificationStateFromJSON_def extensionRangeOptions_VerificationStateToJSON_def ExtensionRangeOptions_VerificationState_defs)

lemmas ExtensionRangeOptions_VerificationState_json_list [json_rules] = list.pred_mono_strong [of ExtensionRangeOptions_VerificationState_known _ "\<lambda>n. enumE extensionRangeOptions_VerificationStateFromJSON (JString (extensionRangeOptions_VerificationStateToJSON n)) = Inr n", OF _ ExtensionRangeOptions_VerificationState_json]

lemmas FileOptions_OptimizeMode_defs = FileOptions_OptimizeMode_SPEED_def FileOptions_OptimizeMode_CODE_SIZE_def FileOptions_OptimizeMode_LITE_RUNTIME_def FileOptions_OptimizeMode_UNRECOGNIZED_def

lemma FileOptions_OptimizeMode_json [json_rules]:
  "FileOptions_OptimizeMode_known n \<Longrightarrow> enumE fileOptions_OptimizeModeFromJSON (JString (fileOptions_OptimizeModeToJSON n)) = Inr n"
  unfolding FileOptions_OptimizeMode_known_def
  by (elim insertE emptyE; simp only:; simp add: enumE_def fileOptions_OptimizeModeFromJSON_def fileOptions_OptimizeModeToJSON_def FileOptions_OptimizeMode_defs)

lemmas FileOptions_OptimizeMode_json_list [json_rules] = list.pred_mono_strong [of FileOptions_OptimizeMode_known _ "\<lambda>n. enumE fileOptions_OptimizeModeFromJSON (JString (fileOptions_OptimizeModeToJSON n)) = Inr n", OF _ FileOptions_OptimizeMode_json]

lemmas FieldOptions_CType_defs = FieldOptions_CType_STRING_def FieldOptions_CType_CORD_def FieldOptions_CType_STRING_PIECE_def FieldOptions_CType_UNRECOGNIZED_def

lemma FieldOptions_CType_json [json_rules]:
  "FieldOptions_CType_known n \<Longrightarrow> enumE fieldOptions_CTypeFromJSON (JString (fieldOptions_CTypeToJSON n)) = Inr n"
  unfolding FieldOptions_CType_known_def
  by (elim insertE emptyE; simp only:; simp add: enumE_def fieldOptions_CTypeFromJSON_def fieldOptions_CTypeToJSON_def FieldOptions_CType_defs)

lemmas FieldOptions_CType_json_list [json_rules] = list.pred_mono_strong [of FieldOptions_CType_known _ "\<lambda>n. enumE fieldOptions_CTypeFromJSON (JString (fieldOptions_CTypeToJSON n)) = Inr n", OF _ FieldOptions_CType_json]

lemmas FieldOptions_JSType_defs = FieldOptions_JSType_JS_NORMAL_def FieldOptions_JSType_JS_STRING_def FieldOptions_JSType_JS_NUMBER_def FieldOptions_JSType_UNRECOGNIZED_def

lemma FieldOptions_JSType_json [json_rules]:
  "FieldOptions_JSType_known n \<Longrightarrow> enumE fieldOptions_JSTypeFromJSON (JString (fieldOptions_JSTypeToJSON n)) = Inr n"
  unfolding FieldOptions_JSType_known_def
  by (elim insertE emptyE; simp only:; simp add: enumE_def fieldOptions_JSTypeFromJSON_def fieldOptions_JSTypeToJSON_def FieldOptions_JSType_defs)

lemmas FieldOptions_JSType_json_list [json_rules] = list.pred_mono_strong [of FieldOptions_JSType_known _ "\<lambda>n. enumE fieldOptions_JSTypeFromJSON (JString (fieldOptions_JSTypeToJSON n)) = Inr n", OF _ FieldOptions_JSType_json]

lemmas FieldOptions_OptionRetention_defs = FieldOptions_OptionRetention_RETENTION_UNKNOWN_def FieldOptions_OptionRetention_RETENTION_RUNTIME_def FieldOptions_OptionRetention_RETENTION_SOURCE_def FieldOptions_OptionRetention_UNRECOGNIZED_def

lemma FieldOptions_OptionRetention_json [json_rules]:
  "FieldOptions_OptionRetention_known n \<Longrightarrow> enumE fieldOptions_OptionRetentionFromJSON (JString (fieldOptions_OptionRetentionToJSON n)) = Inr n"
  unfolding FieldOptions_OptionRetention_known_def
  by (elim insertE emptyE; simp only:; simp add: enumE_def fieldOptions_OptionRetentionFromJSON_def fieldOptions_OptionRetentionToJSON_def FieldOptions_OptionRetention_defs)

lemmas FieldOptions_OptionRetention_json_list [json_rules] = list.pred_mono_strong [of FieldOptions_OptionRetention_known _ "\<lambda>n. enumE fieldOptions_OptionRetentionFromJSON (JString (fieldOptions_OptionRetentionToJSON n)) = Inr n", OF _ FieldOptions_OptionRetention_json]

lemmas FieldOptions_OptionTargetType_defs = FieldOptions_OptionTargetType_TARGET_TYPE_UNKNOWN_def FieldOptions_OptionTargetType_TARGET_TYPE_FILE_def FieldOptions_OptionTargetType_TARGET_TYPE_EXTENSION_RANGE_def FieldOptions_OptionTargetType_TARGET_TYPE_MESSAGE_def FieldOptions_OptionTargetType_TARGET_TYPE_FIELD_def FieldOptions_OptionTargetType_TARGET_TYPE_ONEOF_def FieldOptions_OptionTargetType_TARGET_TYPE_ENUM_def FieldOptions_OptionTargetType_TARGET_TYPE_ENUM_ENTRY_def FieldOptions_OptionTargetType_TARGET_TYPE_SERVICE_def FieldOptions_OptionTargetType_TARGET_TYPE_METHOD_def FieldOptions_OptionTargetType_UNRECOGNIZED_def

lemma FieldOptions_OptionTargetType_json [json_rules]:
  "FieldOptions_OptionTargetType_known n \<Longrightarrow> enumE fieldOptions_OptionTargetTypeFromJSON (JString (fieldOptions_OptionTargetTypeToJSON n)) = Inr n"
  unfolding FieldOptions_OptionTargetType_known_def
  by (elim insertE emptyE; simp only:; simp add: enumE_def fieldOptions_OptionTargetTypeFromJSON_def fieldOptions_OptionTargetTypeToJSON_def FieldOptions_OptionTargetType_defs)

lemmas FieldOptions_OptionTargetType_json_list [json_rules] = list.pred_mono_strong [of FieldOptions_OptionTargetType_known _ "\<lambda>n. enumE fieldOptions_OptionTargetTypeFromJSON (JString (fieldOptions_OptionTargetTypeToJSON n)) = Inr n", OF _ FieldOptions_OptionTargetType_json]

lemmas MethodOptions_IdempotencyLevel_defs = MethodOptions_IdempotencyLevel_IDEMPOTENCY_UNKNOWN_def MethodOptions_IdempotencyLevel_NO_SIDE_EFFECTS_def MethodOptions_IdempotencyLevel_IDEMPOTENT_def MethodOptions_IdempotencyLevel_UNRECOGNIZED_def

lemma MethodOptions_IdempotencyLevel_json [json_rules]:
  "MethodOptions_IdempotencyLevel_known n \<Longrightarrow> enumE methodOptions_IdempotencyLevelFromJSON (JString (methodOptions_IdempotencyLevelToJSON n)) = Inr n"
  unfolding MethodOptions_IdempotencyLevel_known_def
  by (elim insertE emptyE; simp only:; simp add: enumE_def methodOptions_IdempotencyLevelFromJSON_def methodOptions_IdempotencyLevelToJSON_def MethodOptions_IdempotencyLevel_defs)

lemmas MethodOptions_IdempotencyLevel_json_list [json_rules] = list.pred_mono_strong [of MethodOptions_IdempotencyLevel_known _ "\<lambda>n. enumE methodOptions_IdempotencyLevelFromJSON (JString (methodOptions_IdempotencyLevelToJSON n)) = Inr n", OF _ MethodOptions_IdempotencyLevel_json]

lemmas FeatureSet_FieldPresence_defs = FeatureSet_FieldPresence_FIELD_PRESENCE_UNKNOWN_def FeatureSet_FieldPresence_EXPLICIT_def FeatureSet_FieldPresence_IMPLICIT_def FeatureSet_FieldPresence_LEGACY_REQUIRED_def FeatureSet_FieldPresence_UNRECOGNIZED_def

lemma FeatureSet_FieldPresence_json [json_rules]:
  "FeatureSet_FieldPresence_known n \<Longrightarrow> enumE featureSet_FieldPresenceFromJSON (JString (featureSet_FieldPresenceToJSON n)) = Inr n"
  unfolding FeatureSet_FieldPresence_known_def
  by (elim insertE emptyE; simp only:; simp add: enumE_def featureSet_FieldPresenceFromJSON_def featureSet_FieldPresenceToJSON_def FeatureSet_FieldPresence_defs)

lemmas FeatureSet_FieldPresence_json_list [json_rules] = list.pred_mono_strong [of FeatureSet_FieldPresence_known _ "\<lambda>n. enumE featureSet_FieldPresenceFromJSON (JString (featureSet_FieldPresenceToJSON n)) = Inr n", OF _ FeatureSet_FieldPresence_json]

lemmas FeatureSet_EnumType_defs = FeatureSet_EnumType_ENUM_TYPE_UNKNOWN_def FeatureSet_EnumType_OPEN_def FeatureSet_EnumType_CLOSED_def FeatureSet_EnumType_UNRECOGNIZED_def

lemma FeatureSet_EnumType_json [json_rules]:
  "FeatureSet_EnumType_known n \<Longrightarrow> enumE featureSet_EnumTypeFromJSON (JString (featureSet_EnumTypeToJSON n)) = Inr n"
  unfolding FeatureSet_EnumType_known_def
  by (elim insertE emptyE; simp only:; simp add: enumE_def featureSet_EnumTypeFromJSON_def featureSet_EnumTypeToJSON_def FeatureSet_EnumType_defs)

lemmas FeatureSet_EnumType_json_list [json_rules] = list.pred_mono_strong [of FeatureSet_EnumType_known _ "\<lambda>n. enumE featureSet_EnumTypeFromJSON (JString (featureSet_EnumTypeToJSON n)) = Inr n", OF _ FeatureSet_EnumType_json]

lemmas FeatureSet_RepeatedFieldEncoding_defs = FeatureSet_RepeatedFieldEncoding_REPEATED_FIELD_ENCODING_UNKNOWN_def FeatureSet_RepeatedFieldEncoding_PACKED_def FeatureSet_RepeatedFieldEncoding_EXPANDED_def FeatureSet_RepeatedFieldEncoding_UNRECOGNIZED_def

lemma FeatureSet_RepeatedFieldEncoding_json [json_rules]:
  "FeatureSet_RepeatedFieldEncoding_known n \<Longrightarrow> enumE featureSet_RepeatedFieldEncodingFromJSON (JString (featureSet_RepeatedFieldEncodingToJSON n)) = Inr n"
  unfolding FeatureSet_RepeatedFieldEncoding_known_def
  by (elim insertE emptyE; simp only:; simp add: enumE_def featureSet_RepeatedFieldEncodingFromJSON_def featureSet_RepeatedFieldEncodingToJSON_def FeatureSet_RepeatedFieldEncoding_defs)

lemmas FeatureSet_RepeatedFieldEncoding_json_list [json_rules] = list.pred_mono_strong [of FeatureSet_RepeatedFieldEncoding_known _ "\<lambda>n. enumE featureSet_RepeatedFieldEncodingFromJSON (JString (featureSet_RepeatedFieldEncodingToJSON n)) = Inr n", OF _ FeatureSet_RepeatedFieldEncoding_json]

lemmas FeatureSet_Utf8Validation_defs = FeatureSet_Utf8Validation_UTF8_VALIDATION_UNKNOWN_def FeatureSet_Utf8Validation_VERIFY_def FeatureSet_Utf8Validation_NONE_def FeatureSet_Utf8Validation_UNRECOGNIZED_def

lemma FeatureSet_Utf8Validation_json [json_rules]:
  "FeatureSet_Utf8Validation_known n \<Longrightarrow> enumE featureSet_Utf8ValidationFromJSON (JString (featureSet_Utf8ValidationToJSON n)) = Inr n"
  unfolding FeatureSet_Utf8Validation_known_def
  by (elim insertE emptyE; simp only:; simp add: enumE_def featureSet_Utf8ValidationFromJSON_def featureSet_Utf8ValidationToJSON_def FeatureSet_Utf8Validation_defs)

lemmas FeatureSet_Utf8Validation_json_list [json_rules] = list.pred_mono_strong [of FeatureSet_Utf8Validation_known _ "\<lambda>n. enumE featureSet_Utf8ValidationFromJSON (JString (featureSet_Utf8ValidationToJSON n)) = Inr n", OF _ FeatureSet_Utf8Validation_json]

lemmas FeatureSet_MessageEncoding_defs = FeatureSet_MessageEncoding_MESSAGE_ENCODING_UNKNOWN_def FeatureSet_MessageEncoding_LENGTH_PREFIXED_def FeatureSet_MessageEncoding_DELIMITED_def FeatureSet_MessageEncoding_UNRECOGNIZED_def

lemma FeatureSet_MessageEncoding_json [json_rules]:
  "FeatureSet_MessageEncoding_known n \<Longrightarrow> enumE featureSet_MessageEncodingFromJSON (JString (featureSet_MessageEncodingToJSON n)) = Inr n"
  unfolding FeatureSet_MessageEncoding_known_def
  by (elim insertE emptyE; simp only:; simp add: enumE_def featureSet_MessageEncodingFromJSON_def featureSet_MessageEncodingToJSON_def FeatureSet_MessageEncoding_defs)

lemmas FeatureSet_MessageEncoding_json_list [json_rules] = list.pred_mono_strong [of FeatureSet_MessageEncoding_known _ "\<lambda>n. enumE featureSet_MessageEncodingFromJSON (JString (featureSet_MessageEncodingToJSON n)) = Inr n", OF _ FeatureSet_MessageEncoding_json]

lemmas FeatureSet_JsonFormat_defs = FeatureSet_JsonFormat_JSON_FORMAT_UNKNOWN_def FeatureSet_JsonFormat_ALLOW_def FeatureSet_JsonFormat_LEGACY_BEST_EFFORT_def FeatureSet_JsonFormat_UNRECOGNIZED_def

lemma FeatureSet_JsonFormat_json [json_rules]:
  "FeatureSet_JsonFormat_known n \<Longrightarrow> enumE featureSet_JsonFormatFromJSON (JString (featureSet_JsonFormatToJSON n)) = Inr n"
  unfolding FeatureSet_JsonFormat_known_def
  by (elim insertE emptyE; simp only:; simp add: enumE_def featureSet_JsonFormatFromJSON_def featureSet_JsonFormatToJSON_def FeatureSet_JsonFormat_defs)

lemmas FeatureSet_JsonFormat_json_list [json_rules] = list.pred_mono_strong [of FeatureSet_JsonFormat_known _ "\<lambda>n. enumE featureSet_JsonFormatFromJSON (JString (featureSet_JsonFormatToJSON n)) = Inr n", OF _ FeatureSet_JsonFormat_json]

lemma FieldOptions_EditionDefault_tags:
  "FieldOptions_EditionDefault_switch L 24 m = readf (num32 (r_int32 L)) (\<lambda>v. m\<lparr>FieldOptions_EditionDefault.edition := Some v\<rparr>)"
  "FieldOptions_EditionDefault_switch L 18 m = readf (r_string L) (\<lambda>v. m\<lparr>FieldOptions_EditionDefault.value' := Some v\<rparr>)"
  by (simp_all add: FieldOptions_EditionDefault_switch_def when_tag_def)

lemma create_FieldOptions_EditionDefault_None: "create_FieldOptions_EditionDefault None = createBase_FieldOptions_EditionDefault"
  by (simp add: create_FieldOptions_EditionDefault_def fromPartial_FieldOptions_EditionDefault_def FieldOptions_EditionDefault_empty_def createBase_FieldOptions_EditionDefault_def partial_map_def)

lemma complete_FieldOptions_EditionDefault [simp]:
  "encode_FieldOptions_EditionDefault L (fromPartial_FieldOptions_EditionDefault (partial_of_FieldOptions_EditionDefault m)) = encode_FieldOptions_EditionDefault L m"
  by (simp add: encode_FieldOptions_EditionDefault_def fromPartial_FieldOptions_EditionDefault_def partial_of_FieldOptions_EditionDefault_def createBase_FieldOptions_EditionDefault_def partial_map_def option.map_comp o_def del: seqE.simps)

context wire_laws
begin

lemma FieldOptions_EditionDefault_codec:
  shows "message_codec L F out inp (encode_FieldOptions_EditionDefault L) (FieldOptions_EditionDefault_switch L) createBase_FieldOptions_EditionDefault (wf_FieldOptions_EditionDefault L)"
proof unfold_locales
  show good: "good_sw (FieldOptions_EditionDefault_switch L)"
    unfolding FieldOptions_EditionDefault_switch_def by (intro good_swI fwd_rules)
  fix m assume "wf_FieldOptions_EditionDefault L m"
  then show "codes (FieldOptions_EditionDefault_switch L) (encode_FieldOptions_EditionDefault L m) createBase_FieldOptions_EditionDefault m"
    unfolding encode_FieldOptions_EditionDefault_def wf_FieldOptions_EditionDefault_def
    by (elim conjE)
      (rule codes_Cons codes_Nil [OF FieldOptions_EditionDefault.equality] codec_rules
        codes_default [where tag = 24 and u = "FieldOptions_EditionDefault.edition_update" and op = "num32 (r_int32 L)", OF good]
        codes_default [where tag = 18 and u = "FieldOptions_EditionDefault.value'_update" and op = "r_string L", OF good]
      | assumption | (simp add: FieldOptions_EditionDefault_tags createBase_FieldOptions_EditionDefault_def; fail))+
qed

lemmas FieldOptions_EditionDefault_carries [codec_rules] =
  message_codec.opt_carries [OF FieldOptions_EditionDefault_codec, folded decode_FieldOptions_EditionDefault_def] message_codec.list_carries [OF FieldOptions_EditionDefault_codec, folded decode_FieldOptions_EditionDefault_def]

lemmas FieldOptions_EditionDefault_good [fwd_rules] = message_codec.op_good [OF FieldOptions_EditionDefault_codec, folded decode_FieldOptions_EditionDefault_def]

lemmas FieldOptions_EditionDefault_roundtrip = message_codec.roundtrip [OF FieldOptions_EditionDefault_codec, folded decode_FieldOptions_EditionDefault_def]

lemmas FieldOptions_EditionDefault_returns = message_codec.decode_returns [OF FieldOptions_EditionDefault_codec, folded decode_FieldOptions_EditionDefault_def]

lemmas FieldOptions_EditionDefault_reads = reads_as_complete [OF FieldOptions_EditionDefault_roundtrip complete_FieldOptions_EditionDefault]

end

interpretation FieldOptions_EditionDefault_json: message_json toJSON_FieldOptions_EditionDefault fromJSON_FieldOptions_EditionDefault wfj_FieldOptions_EditionDefault
proof unfold_locales
  fix h m
  assume "wfj_FieldOptions_EditionDefault m"
  then show "json_rt (toJSON_FieldOptions_EditionDefault h) (fromJSON_FieldOptions_EditionDefault h) m"
    unfolding toJSON_FieldOptions_EditionDefault_def fromJSON_FieldOptions_EditionDefault_def wfj_FieldOptions_EditionDefault_def
    by (elim conjE) (rule json_rtI json_rules | assumption | (simp; fail))+
qed

lemmas FieldOptions_EditionDefault_json_rules [json_rules] = FieldOptions_EditionDefault_json.json_field_rules

lemma FeatureSet_tags:
  "FeatureSet_switch L 8 m = readf (num32 (r_int32 L)) (\<lambda>v. m\<lparr>FeatureSet.fieldPresence := Some v\<rparr>)"
  "FeatureSet_switch L 16 m = readf (num32 (r_int32 L)) (\<lambda>v. m\<lparr>FeatureSet.enumType := Some v\<rparr>)"
  "FeatureSet_switch L 24 m = readf (num32 (r_int32 L)) (\<lambda>v. m\<lparr>FeatureSet.repeatedFieldEncoding := Some v\<rparr>)"
  "FeatureSet_switch L 32 m = readf (num32 (r_int32 L)) (\<lambda>v. m\<lparr>FeatureSet.utf8Validation := Some v\<rparr>)"
  "FeatureSet_switch L 40 m = readf (num32 (r_int32 L)) (\<lambda>v. m\<lparr>FeatureSet.messageEncoding := Some v\<rparr>)"
  "FeatureSet_switch L 48 m = readf (num32 (r_int32 L)) (\<lambda>v. m\<lparr>FeatureSet.jsonFormat := Some v\<rparr>)"
  by (simp_all add: FeatureSet_switch_def when_tag_def)

lemma create_FeatureSet_None: "create_FeatureSet None = createBase_FeatureSet"
  by (simp add: create_FeatureSet_def fromPartial_FeatureSet_def FeatureSet_empty_def createBase_FeatureSet_def partial_map_def)

lemma complete_FeatureSet [simp]:
  "encode_FeatureSet L (fromPartial_FeatureSet (partial_of_FeatureSet m)) = encode_FeatureSet L m"
  by (simp add: encode_FeatureSet_def fromPartial_FeatureSet_def partial_of_FeatureSet_def createBase_FeatureSet_def partial_map_def option.map_comp o_def del: seqE.simps)

context wire_laws
begin

lemma FeatureSet_codec:
  shows "message_codec L F out inp (encode_FeatureSet L) (FeatureSet_switch L) createBase_FeatureSet (wf_FeatureSet L)"
proof unfold_locales
  show good: "good_sw (FeatureSet_switch L)"
    unfolding FeatureSet_switch_def by (intro good_swI fwd_rules)
  fix m assume "wf_FeatureSet L m"
  then show "codes (FeatureSet_switch L) (encode_FeatureSet L m) createBase_FeatureSet m"
    unfolding encode_FeatureSet_def wf_FeatureSet_def
    by (elim conjE)
      (rule codes_Cons codes_Nil [OF FeatureSet.equality] codec_rules
        codes_default [where tag = 8 and u = "FeatureSet.fieldPresence_update" and op = "num32 (r_int32 L)", OF good]
        codes_default [where tag = 16 and u = "FeatureSet.enumType_update" and op = "num32 (r_int32 L)", OF good]
        codes_default [where tag = 24 and u = "FeatureSet.repeatedFieldEncoding_update" and op = "num32 (r_int32 L)", OF good]
        codes_default [where tag = 32 and u = "FeatureSet.utf8Validation_update" and op = "num32 (r_int32 L)", OF good]
        codes_default [where tag = 40 and u = "FeatureSet.messageEncoding_update" and op = "num32 (r_int32 L)", OF good]
        codes_default [where tag = 48 and u = "FeatureSet.jsonFormat_update" and op = "num32 (r_int32 L)", OF good]
      | assumption | (simp add: FeatureSet_tags createBase_FeatureSet_def; fail))+
qed

lemmas FeatureSet_carries [codec_rules] =
  message_codec.opt_carries [OF FeatureSet_codec, folded decode_FeatureSet_def] message_codec.list_carries [OF FeatureSet_codec, folded decode_FeatureSet_def]

lemmas FeatureSet_good [fwd_rules] = message_codec.op_good [OF FeatureSet_codec, folded decode_FeatureSet_def]

lemmas FeatureSet_roundtrip = message_codec.roundtrip [OF FeatureSet_codec, folded decode_FeatureSet_def]

lemmas FeatureSet_returns = message_codec.decode_returns [OF FeatureSet_codec, folded decode_FeatureSet_def]

lemmas FeatureSet_reads = reads_as_complete [OF FeatureSet_roundtrip complete_FeatureSet]

end

interpretation FeatureSet_json: message_json toJSON_FeatureSet fromJSON_FeatureSet wfj_FeatureSet
proof unfold_locales
  fix h m
  assume "wfj_FeatureSet m"
  then show "json_rt (toJSON_FeatureSet h) (fromJSON_FeatureSet h) m"
    unfolding toJSON_FeatureSet_def fromJSON_FeatureSet_def wfj_FeatureSet_def
    by (elim conjE) (rule json_rtI json_rules | assumption | (simp; fail))+
qed

lemmas FeatureSet_json_rules [json_rules] = FeatureSet_json.json_field_rules

lemma FieldOptions_FeatureSupport_tags:
  "FieldOptions_FeatureSupport_switch L 8 m = readf (num32 (r_int32 L)) (\<lambda>v. m\<lparr>FieldOptions_FeatureSupport.editionIntroduced := Some v\<rparr>)"
  "FieldOptions_FeatureSupport_switch L 16 m = readf (num32 (r_int32 L)) (\<lambda>v. m\<lparr>FieldOptions_FeatureSupport.editionDeprecated := Some v\<rparr>)"
  "FieldOptions_FeatureSupport_switch L 26 m = readf (r_string L) (\<lambda>v. m\<lparr>FieldOptions_FeatureSupport.deprecationWarning := Some v\<rparr>)"
  "FieldOptions_FeatureSupport_switch L 32 m = readf (num32 (r_int32 L)) (\<lambda>v. m\<lparr>FieldOptions_FeatureSupport.editionRemoved := Some v\<rparr>)"
  by (simp_all add: FieldOptions_FeatureSupport_switch_def when_tag_def)

lemma create_FieldOptions_FeatureSupport_None: "create_FieldOptions_FeatureSupport None = createBase_FieldOptions_FeatureSupport"
  by (simp add: create_FieldOptions_FeatureSupport_def fromPartial_FieldOptions_FeatureSupport_def FieldOptions_FeatureSupport_empty_def createBase_FieldOptions_FeatureSupport_def partial_map_def)

lemma complete_FieldOptions_FeatureSupport [simp]:
  "encode_FieldOptions_FeatureSupport L (fromPartial_FieldOptions_FeatureSupport (partial_of_FieldOptions_FeatureSupport m)) = encode_FieldOptions_FeatureSupport L m"
  by (simp add: encode_FieldOptions_FeatureSupport_def fromPartial_FieldOptions_FeatureSupport_def partial_of_FieldOptions_FeatureSupport_def createBase_FieldOptions_FeatureSupport_def partial_map_def option.map_comp o_def del: seqE.simps)

context wire_laws
begin

lemma FieldOptions_FeatureSupport_codec:
  shows "message_codec L F out inp (encode_FieldOptions_FeatureSupport L) (FieldOptions_FeatureSupport_switch L) createBase_FieldOptions_FeatureSupport (wf_FieldOptions_FeatureSupport L)"
proof unfold_locales
  show good: "good_sw (FieldOptions_FeatureSupport_switch L)"
    unfolding FieldOptions_FeatureSupport_switch_def by (intro good_swI fwd_rules)
  fix m assume "wf_FieldOptions_FeatureSupport L m"
  then show "codes (FieldOptions_FeatureSupport_switch L) (encode_FieldOptions_FeatureSupport L m) createBase_FieldOptions_FeatureSupport m"
    unfolding encode_FieldOptions_FeatureSupport_def wf_FieldOptions_FeatureSupport_def
    by (elim conjE)
      (rule codes_Cons codes_Nil [OF FieldOptions_FeatureSupport.equality] codec_rules
        codes_default [where tag = 8 and u = "FieldOptions_FeatureSupport.editionIntroduced_update" and op = "num32 (r_int32 L)", OF good]
        codes_default [where tag = 16 and u = "FieldOptions_FeatureSupport.editionDeprecated_update" and op = "num32 (r_int32 L)", OF good]
        codes_default [where tag = 26 and u = "FieldOptions_FeatureSupport.deprecationWarning_update" and op = "r_string L", OF good]
        codes_default [where tag = 32 and u = "FieldOptions_FeatureSupport.editionRemoved_update" and op = "num32 (r_int32 L)", OF good]
      | assumption | (simp add: FieldOptions_FeatureSupport_tags createBase_FieldOptions_FeatureSupport_def; fail))+
qed

lemmas FieldOptions_FeatureSupport_carries [codec_rules] =
  message_codec.opt_carries [OF FieldOptions_FeatureSupport_codec, folded decode_FieldOptions_FeatureSupport_def] message_codec.list_carries [OF FieldOptions_FeatureSupport_codec, folded decode_FieldOptions_FeatureSupport_def]

lemmas FieldOptions_FeatureSupport_good [fwd_rules] = message_codec.op_good [OF FieldOptions_FeatureSupport_codec, folded decode_FieldOptions_FeatureSupport_def]

lemmas FieldOptions_FeatureSupport_roundtrip = message_codec.roundtrip [OF FieldOptions_FeatureSupport_codec, folded decode_FieldOptions_FeatureSupport_def]

lemmas FieldOptions_FeatureSupport_returns = message_codec.decode_returns [OF FieldOptions_FeatureSupport_codec, folded decode_FieldOptions_FeatureSupport_def]

lemmas FieldOptions_FeatureSupport_reads = reads_as_complete [OF FieldOptions_FeatureSupport_roundtrip complete_FieldOptions_FeatureSupport]

end

interpretation FieldOptions_FeatureSupport_json: message_json toJSON_FieldOptions_FeatureSupport fromJSON_FieldOptions_FeatureSupport wfj_FieldOptions_FeatureSupport
proof unfold_locales
  fix h m
  assume "wfj_FieldOptions_FeatureSupport m"
  then show "json_rt (toJSON_FieldOptions_FeatureSupport h) (fromJSON_FieldOptions_FeatureSupport h) m"
    unfolding toJSON_FieldOptions_FeatureSupport_def fromJSON_FieldOptions_FeatureSupport_def wfj_FieldOptions_FeatureSupport_def
    by (elim conjE) (rule json_rtI json_rules | assumption | (simp; fail))+
qed

lemmas FieldOptions_FeatureSupport_json_rules [json_rules] = FieldOptions_FeatureSupport_json.json_field_rules

lemma UninterpretedOption_NamePart_tags:
  "UninterpretedOption_NamePart_switch L 10 m = readf (r_string L) (\<lambda>v. m\<lparr>UninterpretedOption_NamePart.namePart := v\<rparr>)"
  "UninterpretedOption_NamePart_switch L 16 m = readf (r_bool L) (\<lambda>v. m\<lparr>UninterpretedOption_NamePart.isExtension := v\<rparr>)"
  by (simp_all add: UninterpretedOption_NamePart_switch_def when_tag_def)

lemma create_UninterpretedOption_NamePart_None: "create_UninterpretedOption_NamePart None = createBase_UninterpretedOption_NamePart"
  by (simp add: create_UninterpretedOption_NamePart_def fromPartial_UninterpretedOption_NamePart_def UninterpretedOption_NamePart_empty_def createBase_UninterpretedOption_NamePart_def partial_map_def)

lemma complete_UninterpretedOption_NamePart [simp]:
  "encode_UninterpretedOption_NamePart L (fromPartial_UninterpretedOption_NamePart (partial_of_UninterpretedOption_NamePart m)) = encode_UninterpretedOption_NamePart L m"
  by (simp add: encode_UninterpretedOption_NamePart_def fromPartial_UninterpretedOption_NamePart_def partial_of_UninterpretedOption_NamePart_def createBase_UninterpretedOption_NamePart_def partial_map_def option.map_comp o_def del: seqE.simps)

context wire_laws
begin

lemma UninterpretedOption_NamePart_codec:
  shows "message_codec L F out inp (encode_UninterpretedOption_NamePart L) (UninterpretedOption_NamePart_switch L) createBase_UninterpretedOption_NamePart (wf_UninterpretedOption_NamePart L)"
proof unfold_locales
  show good: "good_sw (UninterpretedOption_NamePart_switch L)"
    unfolding UninterpretedOption_NamePart_switch_def by (intro good_swI fwd_rules)
  fix m assume "wf_UninterpretedOption_NamePart L m"
  then show "codes (UninterpretedOption_NamePart_switch L) (encode_UninterpretedOption_NamePart L m) createBase_UninterpretedOption_NamePart m"
    unfolding encode_UninterpretedOption_NamePart_def wf_UninterpretedOption_NamePart_def
    by (-)
      (rule codes_Cons codes_Nil [OF UninterpretedOption_NamePart.equality] codec_rules
        codes_when [where tag = 10 and u = "UninterpretedOption_NamePart.namePart_update" and op = "r_string L", OF good]
        codes_when [where tag = 16 and u = "UninterpretedOption_NamePart.isExtension_update" and op = "r_bool L", OF good]
      | assumption | (simp add: UninterpretedOption_NamePart_tags createBase_UninterpretedOption_NamePart_def; fail))+
qed

lemmas UninterpretedOption_NamePart_carries [codec_rules] =
  message_codec.opt_carries [OF UninterpretedOption_NamePart_codec, folded decode_UninterpretedOption_NamePart_def] message_codec.list_carries [OF UninterpretedOption_NamePart_codec, folded decode_UninterpretedOption_NamePart_def]

lemmas UninterpretedOption_NamePart_good [fwd_rules] = message_codec.op_good [OF UninterpretedOption_NamePart_codec, folded decode_UninterpretedOption_NamePart_def]

lemmas UninterpretedOption_NamePart_roundtrip = message_codec.roundtrip [OF UninterpretedOption_NamePart_codec, folded decode_UninterpretedOption_NamePart_def]

lemmas UninterpretedOption_NamePart_returns = message_codec.decode_returns [OF UninterpretedOption_NamePart_codec, folded decode_UninterpretedOption_NamePart_def]

end

interpretation UninterpretedOption_NamePart_json: message_json toJSON_UninterpretedOption_NamePart fromJSON_UninterpretedOption_NamePart wfj_UninterpretedOption_NamePart
proof unfold_locales
  fix h m
  assume "wfj_UninterpretedOption_NamePart m"
  then show "json_rt (toJSON_UninterpretedOption_NamePart h) (fromJSON_UninterpretedOption_NamePart h) m"
    unfolding toJSON_UninterpretedOption_NamePart_def fromJSON_UninterpretedOption_NamePart_def wfj_UninterpretedOption_NamePart_def
    by (-) (rule json_rtI json_rules | assumption | (simp; fail))+
qed

lemmas UninterpretedOption_NamePart_json_rules [json_rules] = UninterpretedOption_NamePart_json.json_field_rules

lemma UninterpretedOption_tags:
  "UninterpretedOption_switch L 18 m = readf (submsg L (decode_UninterpretedOption_NamePart L)) (\<lambda>v. m\<lparr>UninterpretedOption.name := UninterpretedOption.name m @ [v]\<rparr>)"
  "UninterpretedOption_switch L 26 m = readf (r_string L) (\<lambda>v. m\<lparr>UninterpretedOption.identifierValue := Some v\<rparr>)"
  "UninterpretedOption_switch L 32 m = readf (num64 (r_uint64 L)) (\<lambda>v. m\<lparr>UninterpretedOption.positiveIntValue := Some v\<rparr>)"
  "UninterpretedOption_switch L 40 m = readf (num64 (r_int64 L)) (\<lambda>v. m\<lparr>UninterpretedOption.negativeIntValue := Some v\<rparr>)"
  "UninterpretedOption_switch L 49 m = readf (r_double L) (\<lambda>v. m\<lparr>UninterpretedOption.doubleValue := Some v\<rparr>)"
  "UninterpretedOption_switch L 58 m = readf (r_bytes L) (\<lambda>v. m\<lparr>UninterpretedOption.stringValue := Some v\<rparr>)"
  "UninterpretedOption_switch L 66 m = readf (r_string L) (\<lambda>v. m\<lparr>UninterpretedOption.aggregateValue := Some v\<rparr>)"
  by (simp_all add: UninterpretedOption_switch_def when_tag_def)

lemma create_UninterpretedOption_None: "create_UninterpretedOption None = createBase_UninterpretedOption"
  by (simp add: create_UninterpretedOption_def fromPartial_UninterpretedOption_def UninterpretedOption_empty_def createBase_UninterpretedOption_def partial_map_def)

lemma complete_UninterpretedOption [simp]:
  "encode_UninterpretedOption L (fromPartial_UninterpretedOption (partial_of_UninterpretedOption m)) = encode_UninterpretedOption L m"
  by (simp add: encode_UninterpretedOption_def fromPartial_UninterpretedOption_def partial_of_UninterpretedOption_def createBase_UninterpretedOption_def partial_map_def option.map_comp o_def del: seqE.simps)

context wire_laws
begin

lemma UninterpretedOption_codec:
  shows "message_codec L F out inp (encode_UninterpretedOption L) (UninterpretedOption_switch L) createBase_UninterpretedOption (wf_UninterpretedOption L)"
proof unfold_locales
  show good: "good_sw (UninterpretedOption_switch L)"
    unfolding UninterpretedOption_switch_def by (intro good_swI fwd_rules)
  fix m assume "wf_UninterpretedOption L m"
  then show "codes (UninterpretedOption_switch L) (encode_UninterpretedOption L m) createBase_UninterpretedOption m"
    unfolding encode_UninterpretedOption_def wf_UninterpretedOption_def
    by (elim conjE)
      (rule codes_Cons codes_Nil [OF UninterpretedOption.equality] codec_rules
        codes_for [where tag = 18 and u = "UninterpretedOption.name_update" and op = "submsg L (decode_UninterpretedOption_NamePart L)", OF good]
        codes_default [where tag = 26 and u = "UninterpretedOption.identifierValue_update" and op = "r_string L", OF good]
        codes_default [where tag = 32 and u = "UninterpretedOption.positiveIntValue_update" and op = "num64 (r_uint64 L)", OF good]
        codes_default [where tag = 40 and u = "UninterpretedOption.negativeIntValue_update" and op = "num64 (r_int64 L)", OF good]
        codes_default [where tag = 49 and u = "UninterpretedOption.doubleValue_update" and op = "r_double L", OF good]
        codes_default [where tag = 58 and u = "UninterpretedOption.stringValue_update" and op = "r_bytes L", OF good]
        codes_default [where tag = 66 and u = "UninterpretedOption.aggregateValue_update" and op = "r_string L", OF good]
      | assumption | (simp add: UninterpretedOption_tags createBase_UninterpretedOption_def; fail))+
qed

lemmas UninterpretedOption_carries [codec_rules] =
  message_codec.opt_carries [OF UninterpretedOption_codec, folded decode_UninterpretedOption_def] message_codec.list_carries [OF UninterpretedOption_codec, folded decode_UninterpretedOption_def]

lemmas UninterpretedOption_good [fwd_rules] = message_codec.op_good [OF UninterpretedOption_codec, folded decode_UninterpretedOption_def]

lemmas UninterpretedOption_roundtrip = message_codec.roundtrip [OF UninterpretedOption_codec, folded decode_UninterpretedOption_def]

lemmas UninterpretedOption_returns = message_codec.decode_returns [OF UninterpretedOption_codec, folded decode_UninterpretedOption_def]

lemmas UninterpretedOption_reads = reads_as_complete [OF UninterpretedOption_roundtrip complete_UninterpretedOption]

end

interpretation UninterpretedOption_json: message_json toJSON_UninterpretedOption fromJSON_UninterpretedOption wfj_UninterpretedOption
proof unfold_locales
  fix h m
  assume "wfj_UninterpretedOption m"
  then show "json_rt (toJSON_UninterpretedOption h) (fromJSON_UninterpretedOption h) m"
    unfolding toJSON_UninterpretedOption_def fromJSON_UninterpretedOption_def wfj_UninterpretedOption_def
    by (elim conjE) (rule json_rtI json_rules | assumption | (simp; fail))+
qed

lemmas UninterpretedOption_json_rules [json_rules] = UninterpretedOption_json.json_field_rules

lemma FieldOptions_tags:
  "FieldOptions_switch L 8 m = readf (num32 (r_int32 L)) (\<lambda>v. m\<lparr>FieldOptions.ctype := Some v\<rparr>)"
  "FieldOptions_switch L 16 m = readf (r_bool L) (\<lambda>v. m\<lparr>FieldOptions.packed' := Some v\<rparr>)"
  "FieldOptions_switch L 48 m = readf (num32 (r_int32 L)) (\<lambda>v. m\<lparr>FieldOptions.jstype := Some v\<rparr>)"
  "FieldOptions_switch L 40 m = readf (r_bool L) (\<lambda>v. m\<lparr>FieldOptions.lazy := Some v\<rparr>)"
  "FieldOptions_switch L 120 m = readf (r_bool L) (\<lambda>v. m\<lparr>FieldOptions.unverifiedLazy := Some v\<rparr>)"
  "FieldOptions_switch L 24 m = readf (r_bool L) (\<lambda>v. m\<lparr>FieldOptions.deprecated := Some v\<rparr>)"
  "FieldOptions_switch L 80 m = readf (r_bool L) (\<lambda>v. m\<lparr>FieldOptions.weak := Some v\<rparr>)"
  "FieldOptions_switch L 128 m = readf (r_bool L) (\<lambda>v. m\<lparr>FieldOptions.debugRedact := Some v\<rparr>)"
  "FieldOptions_switch L 136 m = readf (num32 (r_int32 L)) (\<lambda>v. m\<lparr>FieldOptions.retention := Some v\<rparr>)"
  "FieldOptions_switch L 154 m = readf (packed L (num32 (r_int32 L))) (\<lambda>v. m\<lparr>FieldOptions.targets := FieldOptions.targets m @ v\<rparr>)"
  "FieldOptions_switch L 162 m = readf (submsg L (decode_FieldOptions_EditionDefault L)) (\<lambda>v. m\<lparr>FieldOptions.editionDefaults := FieldOptions.editionDefaults m @ [v]\<rparr>)"
  "FieldOptions_switch L 170 m = readf (submsg L (decode_FeatureSet L)) (\<lambda>v. m\<lparr>FieldOptions.features := Some v\<rparr>)"
  "FieldOptions_switch L 178 m = readf (submsg L (decode_FieldOptions_FeatureSupport L)) (\<lambda>v. m\<lparr>FieldOptions.featureSupport := Some v\<rparr>)"
  "FieldOptions_switch L 7994 m = readf (submsg L (decode_UninterpretedOption L)) (\<lambda>v. m\<lparr>FieldOptions.uninterpretedOption := FieldOptions.uninterpretedOption m @ [v]\<rparr>)"
  by (simp_all add: FieldOptions_switch_def when_tag_def)

lemma create_FieldOptions_None: "create_FieldOptions None = createBase_FieldOptions"
  by (simp add: create_FieldOptions_def fromPartial_FieldOptions_def FieldOptions_empty_def createBase_FieldOptions_def partial_map_def)

lemma complete_FieldOptions [simp]:
  "encode_FieldOptions L (fromPartial_FieldOptions (partial_of_FieldOptions m)) = encode_FieldOptions L m"
  by (simp add: encode_FieldOptions_def fromPartial_FieldOptions_def partial_of_FieldOptions_def createBase_FieldOptions_def partial_map_def option.map_comp o_def del: seqE.simps)

context wire_laws
begin

lemma FieldOptions_codec:
  shows "message_codec L F out inp (encode_FieldOptions L) (FieldOptions_switch L) createBase_FieldOptions (wf_FieldOptions L)"
proof unfold_locales
  show good: "good_sw (FieldOptions_switch L)"
    unfolding FieldOptions_switch_def by (intro good_swI fwd_rules)
  fix m assume "wf_FieldOptions L m"
  then show "codes (FieldOptions_switch L) (encode_FieldOptions L m) createBase_FieldOptions m"
    unfolding encode_FieldOptions_def wf_FieldOptions_def
    by (elim conjE)
      (rule codes_Cons codes_Nil [OF FieldOptions.equality] codec_rules
        codes_default [where tag = 8 and u = "FieldOptions.ctype_update" and op = "num32 (r_int32 L)", OF good]
        codes_default [where tag = 16 and u = "FieldOptions.packed'_update" and op = "r_bool L", OF good]
        codes_default [where tag = 48 and u = "FieldOptions.jstype_update" and op = "num32 (r_int32 L)", OF good]
        codes_default [where tag = 40 and u = "FieldOptions.lazy_update" and op = "r_bool L", OF good]
        codes_default [where tag = 120 and u = "FieldOptions.unverifiedLazy_update" and op = "r_bool L", OF good]
        codes_default [where tag = 24 and u = "FieldOptions.deprecated_update" and op = "r_bool L", OF good]
        codes_default [where tag = 80 and u = "FieldOptions.weak_update" and op = "r_bool L", OF good]
        codes_default [where tag = 128 and u = "FieldOptions.debugRedact_update" and op = "r_bool L", OF good]
        codes_default [where tag = 136 and u = "FieldOptions.retention_update" and op = "num32 (r_int32 L)", OF good]
        codes_always [where tag = 154 and u = "FieldOptions.targets_update" and op = "packed L (num32 (r_int32 L))", OF good]
        codes_for [where tag = 162 and u = "FieldOptions.editionDefaults_update" and op = "submsg L (decode_FieldOptions_EditionDefault L)", OF good]
        codes_some [where tag = 170 and u = "FieldOptions.features_update" and op = "submsg L (decode_FeatureSet L)", OF good]
        codes_some [where tag = 178 and u = "FieldOptions.featureSupport_update" and op = "submsg L (decode_FieldOptions_FeatureSupport L)", OF good]
        codes_for [where tag = 7994 and u = "FieldOptions.uninterpretedOption_update" and op = "submsg L (decode_UninterpretedOption L)", OF good]
      | assumption | (simp add: FieldOptions_tags createBase_FieldOptions_def; fail))+
qed

lemmas FieldOptions_carries [codec_rules] =
  message_codec.opt_carries [OF FieldOptions_codec, folded decode_FieldOptions_def] message_codec.list_carries [OF FieldOptions_codec, folded decode_FieldOptions_def]

lemmas FieldOptions_good [fwd_rules] = message_codec.op_good [OF FieldOptions_codec, folded decode_FieldOptions_def]

lemmas FieldOptions_roundtrip = message_codec.roundtrip [OF FieldOptions_codec, folded decode_FieldOptions_def]

lemmas FieldOptions_returns = message_codec.decode_returns [OF FieldOptions_codec, folded decode_FieldOptions_def]

lemmas FieldOptions_reads = reads_as_complete [OF FieldOptions_roundtrip complete_FieldOptions]

end

interpretation FieldOptions_json: message_json toJSON_FieldOptions fromJSON_FieldOptions wfj_FieldOptions
proof unfold_locales
  fix h m
  assume "wfj_FieldOptions m"
  then show "json_rt (toJSON_FieldOptions h) (fromJSON_FieldOptions h) m"
    unfolding toJSON_FieldOptions_def fromJSON_FieldOptions_def wfj_FieldOptions_def
    by (elim conjE) (rule json_rtI json_rules | assumption | (simp; fail))+
qed

lemmas FieldOptions_json_rules [json_rules] = FieldOptions_json.json_field_rules

lemma EnumValueOptions_tags:
  "EnumValueOptions_switch L 8 m = readf (r_bool L) (\<lambda>v. m\<lparr>EnumValueOptions.deprecated := Some v\<rparr>)"
  "EnumValueOptions_switch L 18 m = readf (submsg L (decode_FeatureSet L)) (\<lambda>v. m\<lparr>EnumValueOptions.features := Some v\<rparr>)"
  "EnumValueOptions_switch L 24 m = readf (r_bool L) (\<lambda>v. m\<lparr>EnumValueOptions.debugRedact := Some v\<rparr>)"
  "EnumValueOptions_switch L 34 m = readf (submsg L (decode_FieldOptions_FeatureSupport L)) (\<lambda>v. m\<lparr>EnumValueOptions.featureSupport := Some v\<rparr>)"
  "EnumValueOptions_switch L 7994 m = readf (submsg L (decode_UninterpretedOption L)) (\<lambda>v. m\<lparr>EnumValueOptions.uninterpretedOption := EnumValueOptions.uninterpretedOption m @ [v]\<rparr>)"
  by (simp_all add: EnumValueOptions_switch_def when_tag_def)

lemma create_EnumValueOptions_None: "create_EnumValueOptions None = createBase_EnumValueOptions"
  by (simp add: create_EnumValueOptions_def fromPartial_EnumValueOptions_def EnumValueOptions_empty_def createBase_EnumValueOptions_def partial_map_def)

lemma complete_EnumValueOptions [simp]:
  "encode_EnumValueOptions L (fromPartial_EnumValueOptions (partial_of_EnumValueOptions m)) = encode_EnumValueOptions L m"
  by (simp add: encode_EnumValueOptions_def fromPartial_EnumValueOptions_def partial_of_EnumValueOptions_def createBase_EnumValueOptions_def partial_map_def option.map_comp o_def del: seqE.simps)

context wire_laws
begin

lemma EnumValueOptions_codec:
  shows "message_codec L F out inp (encode_EnumValueOptions L) (EnumValueOptions_switch L) createBase_EnumValueOptions (wf_EnumValueOptions L)"
proof unfold_locales
  show good: "good_sw (EnumValueOptions_switch L)"
    unfolding EnumValueOptions_switch_def by (intro good_swI fwd_rules)
  fix m assume "wf_EnumValueOptions L m"
  then show "codes (EnumValueOptions_switch L) (encode_EnumValueOptions L m) createBase_EnumValueOptions m"
    unfolding encode_EnumValueOptions_def wf_EnumValueOptions_def
    by (elim conjE)
      (rule codes_Cons codes_Nil [OF EnumValueOptions.equality] codec_rules
        codes_default [where tag = 8 and u = "EnumValueOptions.deprecated_update" and op = "r_bool L", OF good]
        codes_some [where tag = 18 and u = "EnumValueOptions.features_update" and op = "submsg L (decode_FeatureSet L)", OF good]
        codes_default [where tag = 24 and u = "EnumValueOptions.debugRedact_update" and op = "r_bool L", OF good]
        codes_some [where tag = 34 and u = "EnumValueOptions.featureSupport_update" and op = "submsg L (decode_FieldOptions_FeatureSupport L)", OF good]
        codes_for [where tag = 7994 and u = "EnumValueOptions.uninterpretedOption_update" and op = "submsg L (decode_UninterpretedOption L)", OF good]
      | assumption | (simp add: EnumValueOptions_tags createBase_EnumValueOptions_def; fail))+
qed

lemmas EnumValueOptions_carries [codec_rules] =
  message_codec.opt_carries [OF EnumValueOptions_codec, folded decode_EnumValueOptions_def] message_codec.list_carries [OF EnumValueOptions_codec, folded decode_EnumValueOptions_def]

lemmas EnumValueOptions_good [fwd_rules] = message_codec.op_good [OF EnumValueOptions_codec, folded decode_EnumValueOptions_def]

lemmas EnumValueOptions_roundtrip = message_codec.roundtrip [OF EnumValueOptions_codec, folded decode_EnumValueOptions_def]

lemmas EnumValueOptions_returns = message_codec.decode_returns [OF EnumValueOptions_codec, folded decode_EnumValueOptions_def]

lemmas EnumValueOptions_reads = reads_as_complete [OF EnumValueOptions_roundtrip complete_EnumValueOptions]

end

interpretation EnumValueOptions_json: message_json toJSON_EnumValueOptions fromJSON_EnumValueOptions wfj_EnumValueOptions
proof unfold_locales
  fix h m
  assume "wfj_EnumValueOptions m"
  then show "json_rt (toJSON_EnumValueOptions h) (fromJSON_EnumValueOptions h) m"
    unfolding toJSON_EnumValueOptions_def fromJSON_EnumValueOptions_def wfj_EnumValueOptions_def
    by (elim conjE) (rule json_rtI json_rules | assumption | (simp; fail))+
qed

lemmas EnumValueOptions_json_rules [json_rules] = EnumValueOptions_json.json_field_rules

lemma EnumOptions_tags:
  "EnumOptions_switch L 16 m = readf (r_bool L) (\<lambda>v. m\<lparr>EnumOptions.allowAlias := Some v\<rparr>)"
  "EnumOptions_switch L 24 m = readf (r_bool L) (\<lambda>v. m\<lparr>EnumOptions.deprecated := Some v\<rparr>)"
  "EnumOptions_switch L 48 m = readf (r_bool L) (\<lambda>v. m\<lparr>EnumOptions.deprecatedLegacyJsonFieldConflicts := Some v\<rparr>)"
  "EnumOptions_switch L 58 m = readf (submsg L (decode_FeatureSet L)) (\<lambda>v. m\<lparr>EnumOptions.features := Some v\<rparr>)"
  "EnumOptions_switch L 7994 m = readf (submsg L (decode_UninterpretedOption L)) (\<lambda>v. m\<lparr>EnumOptions.uninterpretedOption := EnumOptions.uninterpretedOption m @ [v]\<rparr>)"
  by (simp_all add: EnumOptions_switch_def when_tag_def)

lemma create_EnumOptions_None: "create_EnumOptions None = createBase_EnumOptions"
  by (simp add: create_EnumOptions_def fromPartial_EnumOptions_def EnumOptions_empty_def createBase_EnumOptions_def partial_map_def)

lemma complete_EnumOptions [simp]:
  "encode_EnumOptions L (fromPartial_EnumOptions (partial_of_EnumOptions m)) = encode_EnumOptions L m"
  by (simp add: encode_EnumOptions_def fromPartial_EnumOptions_def partial_of_EnumOptions_def createBase_EnumOptions_def partial_map_def option.map_comp o_def del: seqE.simps)

context wire_laws
begin

lemma EnumOptions_codec:
  shows "message_codec L F out inp (encode_EnumOptions L) (EnumOptions_switch L) createBase_EnumOptions (wf_EnumOptions L)"
proof unfold_locales
  show good: "good_sw (EnumOptions_switch L)"
    unfolding EnumOptions_switch_def by (intro good_swI fwd_rules)
  fix m assume "wf_EnumOptions L m"
  then show "codes (EnumOptions_switch L) (encode_EnumOptions L m) createBase_EnumOptions m"
    unfolding encode_EnumOptions_def wf_EnumOptions_def
    by (elim conjE)
      (rule codes_Cons codes_Nil [OF EnumOptions.equality] codec_rules
        codes_default [where tag = 16 and u = "EnumOptions.allowAlias_update" and op = "r_bool L", OF good]
        codes_default [where tag = 24 and u = "EnumOptions.deprecated_update" and op = "r_bool L", OF good]
        codes_default [where tag = 48 and u = "EnumOptions.deprecatedLegacyJsonFieldConflicts_update" and op = "r_bool L", OF good]
        codes_some [where tag = 58 and u = "EnumOptions.features_update" and op = "submsg L (decode_FeatureSet L)", OF good]
        codes_for [where tag = 7994 and u = "EnumOptions.uninterpretedOption_update" and op = "submsg L (decode_UninterpretedOption L)", OF good]
      | assumption | (simp add: EnumOptions_tags createBase_EnumOptions_def; fail))+
qed

lemmas EnumOptions_carries [codec_rules] =
  message_codec.opt_carries [OF EnumOptions_codec, folded decode_EnumOptions_def] message_codec.list_carries [OF EnumOptions_codec, folded decode_EnumOptions_def]

lemmas EnumOptions_good [fwd_rules] = message_codec.op_good [OF EnumOptions_codec, folded decode_EnumOptions_def]

lemmas EnumOptions_roundtrip = message_codec.roundtrip [OF EnumOptions_codec, folded decode_EnumOptions_def]

lemmas EnumOptions_returns = message_codec.decode_returns [OF EnumOptions_codec, folded decode_EnumOptions_def]

lemmas EnumOptions_reads = reads_as_complete [OF EnumOptions_roundtrip complete_EnumOptions]

end

interpretation EnumOptions_json: message_json toJSON_EnumOptions fromJSON_EnumOptions wfj_EnumOptions
proof unfold_locales
  fix h m
  assume "wfj_EnumOptions m"
  then show "json_rt (toJSON_EnumOptions h) (fromJSON_EnumOptions h) m"
    unfolding toJSON_EnumOptions_def fromJSON_EnumOptions_def wfj_EnumOptions_def
    by (elim conjE) (rule json_rtI json_rules | assumption | (simp; fail))+
qed

lemmas EnumOptions_json_rules [json_rules] = EnumOptions_json.json_field_rules

lemma ExtensionRangeOptions_Declaration_tags:
  "ExtensionRangeOptions_Declaration_switch L 8 m = readf (num32 (r_int32 L)) (\<lambda>v. m\<lparr>ExtensionRangeOptions_Declaration.number := Some v\<rparr>)"
  "ExtensionRangeOptions_Declaration_switch L 18 m = readf (r_string L) (\<lambda>v. m\<lparr>ExtensionRangeOptions_Declaration.fullName := Some v\<rparr>)"
  "ExtensionRangeOptions_Declaration_switch L 26 m = readf (r_string L) (\<lambda>v. m\<lparr>ExtensionRangeOptions_Declaration.type' := Some v\<rparr>)"
  "ExtensionRangeOptions_Declaration_switch L 40 m = readf (r_bool L) (\<lambda>v. m\<lparr>ExtensionRangeOptions_Declaration.reserved := Some v\<rparr>)"
  "ExtensionRangeOptions_Declaration_switch L 48 m = readf (r_bool L) (\<lambda>v. m\<lparr>ExtensionRangeOptions_Declaration.repeated := Some v\<rparr>)"
  by (simp_all add: ExtensionRangeOptions_Declaration_switch_def when_tag_def)

lemma create_ExtensionRangeOptions_Declaration_None: "create_ExtensionRangeOptions_Declaration None = createBase_ExtensionRangeOptions_Declaration"
  by (simp add: create_ExtensionRangeOptions_Declaration_def fromPartial_ExtensionRangeOptions_Declaration_def ExtensionRangeOptions_Declaration_empty_def createBase_ExtensionRangeOptions_Declaration_def partial_map_def)

lemma complete_ExtensionRangeOptions_Declaration [simp]:
  "encode_ExtensionRangeOptions_Declaration L (fromPartial_ExtensionRangeOptions_Declaration (partial_of_ExtensionRangeOptions_Declaration m)) = encode_ExtensionRangeOptions_Declaration L m"
  by (simp add: encode_ExtensionRangeOptions_Declaration_def fromPartial_ExtensionRangeOptions_Declaration_def partial_of_ExtensionRangeOptions_Declaration_def createBase_ExtensionRangeOptions_Declaration_def partial_map_def option.map_comp o_def del: seqE.simps)

context wire_laws
begin

lemma ExtensionRangeOptions_Declaration_codec:
  shows "message_codec L F out inp (encode_ExtensionRangeOptions_Declaration L) (ExtensionRangeOptions_Declaration_switch L) createBase_ExtensionRangeOptions_Declaration (wf_ExtensionRangeOptions_Declaration L)"
proof unfold_locales
  show good: "good_sw (ExtensionRangeOptions_Declaration_switch L)"
    unfolding ExtensionRangeOptions_Declaration_switch_def by (intro good_swI fwd_rules)
  fix m assume "wf_ExtensionRangeOptions_Declaration L m"
  then show "codes (ExtensionRangeOptions_Declaration_switch L) (encode_ExtensionRangeOptions_Declaration L m) createBase_ExtensionRangeOptions_Declaration m"
    unfolding encode_ExtensionRangeOptions_Declaration_def wf_ExtensionRangeOptions_Declaration_def
    by (elim conjE)
      (rule codes_Cons codes_Nil [OF ExtensionRangeOptions_Declaration.equality] codec_rules
        codes_default [where tag = 8 and u = "ExtensionRangeOptions_Declaration.number_update" and op = "num32 (r_int32 L)", OF good]
        codes_default [where tag = 18 and u = "ExtensionRangeOptions_Declaration.fullName_update" and op = "r_string L", OF good]
        codes_default [where tag = 26 and u = "ExtensionRangeOptions_Declaration.type'_update" and op = "r_string L", OF good]
        codes_default [where tag = 40 and u = "ExtensionRangeOptions_Declaration.reserved_update" and op = "r_bool L", OF good]
        codes_default [where tag = 48 and u = "ExtensionRangeOptions_Declaration.repeated_update" and op = "r_bool L", OF good]
      | assumption | (simp add: ExtensionRangeOptions_Declaration_tags createBase_ExtensionRangeOptions_Declaration_def; fail))+
qed

lemmas ExtensionRangeOptions_Declaration_carries [codec_rules] =
  message_codec.opt_carries [OF ExtensionRangeOptions_Declaration_codec, folded decode_ExtensionRangeOptions_Declaration_def] message_codec.list_carries [OF ExtensionRangeOptions_Declaration_codec, folded decode_ExtensionRangeOptions_Declaration_def]

lemmas ExtensionRangeOptions_Declaration_good [fwd_rules] = message_codec.op_good [OF ExtensionRangeOptions_Declaration_codec, folded decode_ExtensionRangeOptions_Declaration_def]

lemmas ExtensionRangeOptions_Declaration_roundtrip = message_codec.roundtrip [OF ExtensionRangeOptions_Declaration_codec, folded decode_ExtensionRangeOptions_Declaration_def]

lemmas ExtensionRangeOptions_Declaration_returns = message_codec.decode_returns [OF ExtensionRangeOptions_Declaration_codec, folded decode_ExtensionRangeOptions_Declaration_def]

lemmas ExtensionRangeOptions_Declaration_reads = reads_as_complete [OF ExtensionRangeOptions_Declaration_roundtrip complete_ExtensionRangeOptions_Declaration]

end

interpretation ExtensionRangeOptions_Declaration_json: message_json toJSON_ExtensionRangeOptions_Declaration fromJSON_ExtensionRangeOptions_Declaration wfj_ExtensionRangeOptions_Declaration
proof unfold_locales
  fix h m
  assume "wfj_ExtensionRangeOptions_Declaration m"
  then show "json_rt (toJSON_ExtensionRangeOptions_Declaration h) (fromJSON_ExtensionRangeOptions_Declaration h) m"
    unfolding toJSON_ExtensionRangeOptions_Declaration_def fromJSON_ExtensionRangeOptions_Declaration_def wfj_ExtensionRangeOptions_Declaration_def
    by (elim conjE) (rule json_rtI json_rules | assumption | (simp; fail))+
qed

lemmas ExtensionRangeOptions_Declaration_json_rules [json_rules] = ExtensionRangeOptions_Declaration_json.json_field_rules

lemma ExtensionRangeOptions_tags:
  "ExtensionRangeOptions_switch L 7994 m = readf (submsg L (decode_UninterpretedOption L)) (\<lambda>v. m\<lparr>ExtensionRangeOptions.uninterpretedOption := ExtensionRangeOptions.uninterpretedOption m @ [v]\<rparr>)"
  "ExtensionRangeOptions_switch L 18 m = readf (submsg L (decode_ExtensionRangeOptions_Declaration L)) (\<lambda>v. m\<lparr>ExtensionRangeOptions.declaration' := ExtensionRangeOptions.declaration' m @ [v]\<rparr>)"
  "ExtensionRangeOptions_switch L 402 m = readf (submsg L (decode_FeatureSet L)) (\<lambda>v. m\<lparr>ExtensionRangeOptions.features := Some v\<rparr>)"
  "ExtensionRangeOptions_switch L 24 m = readf (num32 (r_int32 L)) (\<lambda>v. m\<lparr>ExtensionRangeOptions.verification := Some v\<rparr>)"
  by (simp_all add: ExtensionRangeOptions_switch_def when_tag_def)

lemma create_ExtensionRangeOptions_None: "create_ExtensionRangeOptions None = createBase_ExtensionRangeOptions"
  by (simp add: create_ExtensionRangeOptions_def fromPartial_ExtensionRangeOptions_def ExtensionRangeOptions_empty_def createBase_ExtensionRangeOptions_def partial_map_def)

lemma complete_ExtensionRangeOptions [simp]:
  "encode_ExtensionRangeOptions L (fromPartial_ExtensionRangeOptions (partial_of_ExtensionRangeOptions m)) = encode_ExtensionRangeOptions L m"
  by (simp add: encode_ExtensionRangeOptions_def fromPartial_ExtensionRangeOptions_def partial_of_ExtensionRangeOptions_def createBase_ExtensionRangeOptions_def partial_map_def option.map_comp o_def del: seqE.simps)

context wire_laws
begin

lemma ExtensionRangeOptions_codec:
  shows "message_codec L F out inp (encode_ExtensionRangeOptions L) (ExtensionRangeOptions_switch L) createBase_ExtensionRangeOptions (wf_ExtensionRangeOptions L)"
proof unfold_locales
  show good: "good_sw (ExtensionRangeOptions_switch L)"
    unfolding ExtensionRangeOptions_switch_def by (intro good_swI fwd_rules)
  fix m assume "wf_ExtensionRangeOptions L m"
  then show "codes (ExtensionRangeOptions_switch L) (encode_ExtensionRangeOptions L m) createBase_ExtensionRangeOptions m"
    unfolding encode_ExtensionRangeOptions_def wf_ExtensionRangeOptions_def
    by (elim conjE)
      (rule codes_Cons codes_Nil [OF ExtensionRangeOptions.equality] codec_rules
        codes_for [where tag = 7994 and u = "ExtensionRangeOptions.uninterpretedOption_update" and op = "submsg L (decode_UninterpretedOption L)", OF good]
        codes_for [where tag = 18 and u = "ExtensionRangeOptions.declaration'_update" and op = "submsg L (decode_ExtensionRangeOptions_Declaration L)", OF good]
        codes_some [where tag = 402 and u = "ExtensionRangeOptions.features_update" and op = "submsg L (decode_FeatureSet L)", OF good]
        codes_default [where tag = 24 and u = "ExtensionRangeOptions.verification_update" and op = "num32 (r_int32 L)", OF good]
      | assumption | (simp add: ExtensionRangeOptions_tags createBase_ExtensionRangeOptions_def; fail))+
qed

lemmas ExtensionRangeOptions_carries [codec_rules] =
  message_codec.opt_carries [OF ExtensionRangeOptions_codec, folded decode_ExtensionRangeOptions_def] message_codec.list_carries [OF ExtensionRangeOptions_codec, folded decode_ExtensionRangeOptions_def]

lemmas ExtensionRangeOptions_good [fwd_rules] = message_codec.op_good [OF ExtensionRangeOptions_codec, folded decode_ExtensionRangeOptions_def]

lemmas ExtensionRangeOptions_roundtrip = message_codec.roundtrip [OF ExtensionRangeOptions_codec, folded decode_ExtensionRangeOptions_def]

lemmas ExtensionRangeOptions_returns = message_codec.decode_returns [OF ExtensionRangeOptions_codec, folded decode_ExtensionRangeOptions_def]

lemmas ExtensionRangeOptions_reads = reads_as_complete [OF ExtensionRangeOptions_roundtrip complete_ExtensionRangeOptions]

end

interpretation ExtensionRangeOptions_json: message_json toJSON_ExtensionRangeOptions fromJSON_ExtensionRangeOptions wfj_ExtensionRangeOptions
proof unfold_locales
  fix h m
  assume "wfj_ExtensionRangeOptions m"
  then show "json_rt (toJSON_ExtensionRangeOptions h) (fromJSON_ExtensionRangeOptions h) m"
    unfolding toJSON_ExtensionRangeOptions_def fromJSON_ExtensionRangeOptions_def wfj_ExtensionRangeOptions_def
    by (elim conjE) (rule json_rtI json_rules | assumption | (simp; fail))+
qed

lemmas ExtensionRangeOptions_json_rules [json_rules] = ExtensionRangeOptions_json.json_field_rules

lemma OneofOptions_tags:
  "OneofOptions_switch L 10 m = readf (submsg L (decode_FeatureSet L)) (\<lambda>v. m\<lparr>OneofOptions.features := Some v\<rparr>)"
  "OneofOptions_switch L 7994 m = readf (submsg L (decode_UninterpretedOption L)) (\<lambda>v. m\<lparr>OneofOptions.uninterpretedOption := OneofOptions.uninterpretedOption m @ [v]\<rparr>)"
  by (simp_all add: OneofOptions_switch_def when_tag_def)

lemma create_OneofOptions_None: "create_OneofOptions None = createBase_OneofOptions"
  by (simp add: create_OneofOptions_def fromPartial_OneofOptions_def OneofOptions_empty_def createBase_OneofOptions_def partial_map_def)

lemma complete_OneofOptions [simp]:
  "encode_OneofOptions L (fromPartial_OneofOptions (partial_of_OneofOptions m)) = encode_OneofOptions L m"
  by (simp add: encode_OneofOptions_def fromPartial_OneofOptions_def partial_of_OneofOptions_def createBase_OneofOptions_def partial_map_def option.map_comp o_def del: seqE.simps)

context wire_laws
begin

lemma OneofOptions_codec:
  shows "message_codec L F out inp (encode_OneofOptions L) (OneofOptions_switch L) createBase_OneofOptions (wf_OneofOptions L)"
proof unfold_locales
  show good: "good_sw (OneofOptions_switch L)"
    unfolding OneofOptions_switch_def by (intro good_swI fwd_rules)
  fix m assume "wf_OneofOptions L m"
  then show "codes (OneofOptions_switch L) (encode_OneofOptions L m) createBase_OneofOptions m"
    unfolding encode_OneofOptions_def wf_OneofOptions_def
    by (elim conjE)
      (rule codes_Cons codes_Nil [OF OneofOptions.equality] codec_rules
        codes_some [where tag = 10 and u = "OneofOptions.features_update" and op = "submsg L (decode_FeatureSet L)", OF good]
        codes_for [where tag = 7994 and u = "OneofOptions.uninterpretedOption_update" and op = "submsg L (decode_UninterpretedOption L)", OF good]
      | assumption | (simp add: OneofOptions_tags createBase_OneofOptions_def; fail))+
qed

lemmas OneofOptions_carries [codec_rules] =
  message_codec.opt_carries [OF OneofOptions_codec, folded decode_OneofOptions_def] message_codec.list_carries [OF OneofOptions_codec, folded decode_OneofOptions_def]

lemmas OneofOptions_good [fwd_rules] = message_codec.op_good [OF OneofOptions_codec, folded decode_OneofOptions_def]

lemmas OneofOptions_roundtrip = message_codec.roundtrip [OF OneofOptions_codec, folded decode_OneofOptions_def]

lemmas OneofOptions_returns = message_codec.decode_returns [OF OneofOptions_codec, folded decode_OneofOptions_def]

end

interpretation OneofOptions_json: message_json toJSON_OneofOptions fromJSON_OneofOptions wfj_OneofOptions
proof unfold_locales
  fix h m
  assume "wfj_OneofOptions m"
  then show "json_rt (toJSON_OneofOptions h) (fromJSON_OneofOptions h) m"
    unfolding toJSON_OneofOptions_def fromJSON_OneofOptions_def wfj_OneofOptions_def
    by (elim conjE) (rule json_rtI json_rules | assumption | (simp; fail))+
qed

lemmas OneofOptions_json_rules [json_rules] = OneofOptions_json.json_field_rules

lemma MessageOptions_tags:
  "MessageOptions_switch L 8 m = readf (r_bool L) (\<lambda>v. m\<lparr>MessageOptions.messageSetWireFormat := Some v\<rparr>)"
  "MessageOptions_switch L 16 m = readf (r_bool L) (\<lambda>v. m\<lparr>MessageOptions.noStandardDescriptorAccessor := Some v\<rparr>)"
  "MessageOptions_switch L 24 m = readf (r_bool L) (\<lambda>v. m\<lparr>MessageOptions.deprecated := Some v\<rparr>)"
  "MessageOptions_switch L 56 m = readf (r_bool L) (\<lambda>v. m\<lparr>MessageOptions.mapEntry := Some v\<rparr>)"
  "MessageOptions_switch L 88 m = readf (r_bool L) (\<lambda>v. m\<lparr>MessageOptions.deprecatedLegacyJsonFieldConflicts := Some v\<rparr>)"
  "MessageOptions_switch L 98 m = readf (submsg L (decode_FeatureSet L)) (\<lambda>v. m\<lparr>MessageOptions.features := Some v\<rparr>)"
  "MessageOptions_switch L 7994 m = readf (submsg L (decode_UninterpretedOption L)) (\<lambda>v. m\<lparr>MessageOptions.uninterpretedOption := MessageOptions.uninterpretedOption m @ [v]\<rparr>)"
  by (simp_all add: MessageOptions_switch_def when_tag_def)

lemma create_MessageOptions_None: "create_MessageOptions None = createBase_MessageOptions"
  by (simp add: create_MessageOptions_def fromPartial_MessageOptions_def MessageOptions_empty_def createBase_MessageOptions_def partial_map_def)

lemma complete_MessageOptions [simp]:
  "encode_MessageOptions L (fromPartial_MessageOptions (partial_of_MessageOptions m)) = encode_MessageOptions L m"
  by (simp add: encode_MessageOptions_def fromPartial_MessageOptions_def partial_of_MessageOptions_def createBase_MessageOptions_def partial_map_def option.map_comp o_def del: seqE.simps)

context wire_laws
begin

lemma MessageOptions_codec:
  shows "message_codec L F out inp (encode_MessageOptions L) (MessageOptions_switch L) createBase_MessageOptions (wf_MessageOptions L)"
proof unfold_locales
  show good: "good_sw (MessageOptions_switch L)"
    unfolding MessageOptions_switch_def by (intro good_swI fwd_rules)
  fix m assume "wf_MessageOptions L m"
  then show "codes (MessageOptions_switch L) (encode_MessageOptions L m) createBase_MessageOptions m"
    unfolding encode_MessageOptions_def wf_MessageOptions_def
    by (elim conjE)
      (rule codes_Cons codes_Nil [OF MessageOptions.equality] codec_rules
        codes_default [where tag = 8 and u = "MessageOptions.messageSetWireFormat_update" and op = "r_bool L", OF good]
        codes_default [where tag = 16 and u = "MessageOptions.noStandardDescriptorAccessor_update" and op = "r_bool L", OF good]
        codes_default [where tag = 24 and u = "MessageOptions.deprecated_update" and op = "r_bool L", OF good]
        codes_default [where tag = 56 and u = "MessageOptions.mapEntry_update" and op = "r_bool L", OF good]
        codes_default [where tag = 88 and u = "MessageOptions.deprecatedLegacyJsonFieldConflicts_update" and op = "r_bool L", OF good]
        codes_some [where tag = 98 and u = "MessageOptions.features_update" and op = "submsg L (decode_FeatureSet L)", OF good]
        codes_for [where tag = 7994 and u = "MessageOptions.uninterpretedOption_update" and op = "submsg L (decode_UninterpretedOption L)", OF good]
      | assumption | (simp add: MessageOptions_tags createBase_MessageOptions_def; fail))+
qed

lemmas MessageOptions_carries [codec_rules] =
  message_codec.opt_carries [OF MessageOptions_codec, folded decode_MessageOptions_def] message_codec.list_carries [OF MessageOptions_codec, folded decode_MessageOptions_def]

lemmas MessageOptions_good [fwd_rules] = message_codec.op_good [OF MessageOptions_codec, folded decode_MessageOptions_def]

lemmas MessageOptions_roundtrip = message_codec.roundtrip [OF MessageOptions_codec, folded decode_MessageOptions_def]

lemmas MessageOptions_returns = message_codec.decode_returns [OF MessageOptions_codec, folded decode_MessageOptions_def]

lemmas MessageOptions_reads = reads_as_complete [OF MessageOptions_roundtrip complete_MessageOptions]

end

interpretation MessageOptions_json: message_json toJSON_MessageOptions fromJSON_MessageOptions wfj_MessageOptions
proof unfold_locales
  fix h m
  assume "wfj_MessageOptions m"
  then show "json_rt (toJSON_MessageOptions h) (fromJSON_MessageOptions h) m"
    unfolding toJSON_MessageOptions_def fromJSON_MessageOptions_def wfj_MessageOptions_def
    by (elim conjE) (rule json_rtI json_rules | assumption | (simp; fail))+
qed

lemmas MessageOptions_json_rules [json_rules] = MessageOptions_json.json_field_rules

lemma MethodOptions_tags:
  "MethodOptions_switch L 264 m = readf (r_bool L) (\<lambda>v. m\<lparr>MethodOptions.deprecated := Some v\<rparr>)"
  "MethodOptions_switch L 272 m = readf (num32 (r_int32 L)) (\<lambda>v. m\<lparr>MethodOptions.idempotencyLevel := Some v\<rparr>)"
  "MethodOptions_switch L 282 m = readf (submsg L (decode_FeatureSet L)) (\<lambda>v. m\<lparr>MethodOptions.features := Some v\<rparr>)"
  "MethodOptions_switch L 7994 m = readf (submsg L (decode_UninterpretedOption L)) (\<lambda>v. m\<lparr>MethodOptions.uninterpretedOption := MethodOptions.uninterpretedOption m @ [v]\<rparr>)"
  by (simp_all add: MethodOptions_switch_def when_tag_def)

lemma create_MethodOptions_None: "create_MethodOptions None = createBase_MethodOptions"
  by (simp add: create_MethodOptions_def fromPartial_MethodOptions_def MethodOptions_empty_def createBase_MethodOptions_def partial_map_def)

lemma complete_MethodOptions [simp]:
  "encode_MethodOptions L (fromPartial_MethodOptions (partial_of_MethodOptions m)) = encode_MethodOptions L m"
  by (simp add: encode_MethodOptions_def fromPartial_MethodOptions_def partial_of_MethodOptions_def createBase_MethodOptions_def partial_map_def option.map_comp o_def del: seqE.simps)

context wire_laws
begin

lemma MethodOptions_codec:
  shows "message_codec L F out inp (encode_MethodOptions L) (MethodOptions_switch L) createBase_MethodOptions (wf_MethodOptions L)"
proof unfold_locales
  show good: "good_sw (MethodOptions_switch L)"
    unfolding MethodOptions_switch_def by (intro good_swI fwd_rules)
  fix m assume "wf_MethodOptions L m"
  then show "codes (MethodOptions_switch L) (encode_MethodOptions L m) createBase_MethodOptions m"
    unfolding encode_MethodOptions_def wf_MethodOptions_def
    by (elim conjE)
      (rule codes_Cons codes_Nil [OF MethodOptions.equality] codec_rules
        codes_default [where tag = 264 and u = "MethodOptions.deprecated_update" and op = "r_bool L", OF good]
        codes_default [where tag = 272 and u = "MethodOptions.idempotencyLevel_update" and op = "num32 (r_int32 L)", OF good]
        codes_some [where tag = 282 and u = "MethodOptions.features_update" and op = "submsg L (decode_FeatureSet L)", OF good]
        codes_for [where tag = 7994 and u = "MethodOptions.uninterpretedOption_update" and op = "submsg L (decode_UninterpretedOption L)", OF good]
      | assumption | (simp add: MethodOptions_tags createBase_MethodOptions_def; fail))+
qed

lemmas MethodOptions_carries [codec_rules] =
  message_codec.opt_carries [OF MethodOptions_codec, folded decode_MethodOptions_def] message_codec.list_carries [OF MethodOptions_codec, folded decode_MethodOptions_def]

lemmas MethodOptions_good [fwd_rules] = message_codec.op_good [OF MethodOptions_codec, folded decode_MethodOptions_def]

lemmas MethodOptions_roundtrip = message_codec.roundtrip [OF MethodOptions_codec, folded decode_MethodOptions_def]

lemmas MethodOptions_returns = message_codec.decode_returns [OF MethodOptions_codec, folded decode_MethodOptions_def]

lemmas MethodOptions_reads = reads_as_complete [OF MethodOptions_roundtrip complete_MethodOptions]

end

interpretation MethodOptions_json: message_json toJSON_MethodOptions fromJSON_MethodOptions wfj_MethodOptions
proof unfold_locales
  fix h m
  assume "wfj_MethodOptions m"
  then show "json_rt (toJSON_MethodOptions h) (fromJSON_MethodOptions h) m"
    unfolding toJSON_MethodOptions_def fromJSON_MethodOptions_def wfj_MethodOptions_def
    by (elim conjE) (rule json_rtI json_rules | assumption | (simp; fail))+
qed

lemmas MethodOptions_json_rules [json_rules] = MethodOptions_json.json_field_rules

lemma ServiceOptions_tags:
  "ServiceOptions_switch L 274 m = readf (submsg L (decode_FeatureSet L)) (\<lambda>v. m\<lparr>ServiceOptions.features := Some v\<rparr>)"
  "ServiceOptions_switch L 264 m = readf (r_bool L) (\<lambda>v. m\<lparr>ServiceOptions.deprecated := Some v\<rparr>)"
  "ServiceOptions_switch L 7994 m = readf (submsg L (decode_UninterpretedOption L)) (\<lambda>v. m\<lparr>ServiceOptions.uninterpretedOption := ServiceOptions.uninterpretedOption m @ [v]\<rparr>)"
  by (simp_all add: ServiceOptions_switch_def when_tag_def)

lemma create_ServiceOptions_None: "create_ServiceOptions None = createBase_ServiceOptions"
  by (simp add: create_ServiceOptions_def fromPartial_ServiceOptions_def ServiceOptions_empty_def createBase_ServiceOptions_def partial_map_def)

lemma complete_ServiceOptions [simp]:
  "encode_ServiceOptions L (fromPartial_ServiceOptions (partial_of_ServiceOptions m)) = encode_ServiceOptions L m"
  by (simp add: encode_ServiceOptions_def fromPartial_ServiceOptions_def partial_of_ServiceOptions_def createBase_ServiceOptions_def partial_map_def option.map_comp o_def del: seqE.simps)

context wire_laws
begin

lemma ServiceOptions_codec:
  shows "message_codec L F out inp (encode_ServiceOptions L) (ServiceOptions_switch L) createBase_ServiceOptions (wf_ServiceOptions L)"
proof unfold_locales
  show good: "good_sw (ServiceOptions_switch L)"
    unfolding ServiceOptions_switch_def by (intro good_swI fwd_rules)
  fix m assume "wf_ServiceOptions L m"
  then show "codes (ServiceOptions_switch L) (encode_ServiceOptions L m) createBase_ServiceOptions m"
    unfolding encode_ServiceOptions_def wf_ServiceOptions_def
    by (elim conjE)
      (rule codes_Cons codes_Nil [OF ServiceOptions.equality] codec_rules
        codes_some [where tag = 274 and u = "ServiceOptions.features_update" and op = "submsg L (decode_FeatureSet L)", OF good]
        codes_default [where tag = 264 and u = "ServiceOptions.deprecated_update" and op = "r_bool L", OF good]
        codes_for [where tag = 7994 and u = "ServiceOptions.uninterpretedOption_update" and op = "submsg L (decode_UninterpretedOption L)", OF good]
      | assumption | (simp add: ServiceOptions_tags createBase_ServiceOptions_def; fail))+
qed

lemmas ServiceOptions_carries [codec_rules] =
  message_codec.opt_carries [OF ServiceOptions_codec, folded decode_ServiceOptions_def] message_codec.list_carries [OF ServiceOptions_codec, folded decode_ServiceOptions_def]

lemmas ServiceOptions_good [fwd_rules] = message_codec.op_good [OF ServiceOptions_codec, folded decode_ServiceOptions_def]

lemmas ServiceOptions_roundtrip = message_codec.roundtrip [OF ServiceOptions_codec, folded decode_ServiceOptions_def]

lemmas ServiceOptions_returns = message_codec.decode_returns [OF ServiceOptions_codec, folded decode_ServiceOptions_def]

lemmas ServiceOptions_reads = reads_as_complete [OF ServiceOptions_roundtrip complete_ServiceOptions]

end

interpretation ServiceOptions_json: message_json toJSON_ServiceOptions fromJSON_ServiceOptions wfj_ServiceOptions
proof unfold_locales
  fix h m
  assume "wfj_ServiceOptions m"
  then show "json_rt (toJSON_ServiceOptions h) (fromJSON_ServiceOptions h) m"
    unfolding toJSON_ServiceOptions_def fromJSON_ServiceOptions_def wfj_ServiceOptions_def
    by (elim conjE) (rule json_rtI json_rules | assumption | (simp; fail))+
qed

lemmas ServiceOptions_json_rules [json_rules] = ServiceOptions_json.json_field_rules

lemma FileOptions_tags:
  "FileOptions_switch L 10 m = readf (r_string L) (\<lambda>v. m\<lparr>FileOptions.javaPackage := Some v\<rparr>)"
  "FileOptions_switch L 66 m = readf (r_string L) (\<lambda>v. m\<lparr>FileOptions.javaOuterClassname := Some v\<rparr>)"
  "FileOptions_switch L 80 m = readf (r_bool L) (\<lambda>v. m\<lparr>FileOptions.javaMultipleFiles := Some v\<rparr>)"
  "FileOptions_switch L 160 m = readf (r_bool L) (\<lambda>v. m\<lparr>FileOptions.javaGenerateEqualsAndHash := Some v\<rparr>)"
  "FileOptions_switch L 216 m = readf (r_bool L) (\<lambda>v. m\<lparr>FileOptions.javaStringCheckUtf8 := Some v\<rparr>)"
  "FileOptions_switch L 72 m = readf (num32 (r_int32 L)) (\<lambda>v. m\<lparr>FileOptions.optimizeFor := Some v\<rparr>)"
  "FileOptions_switch L 90 m = readf (r_string L) (\<lambda>v. m\<lparr>FileOptions.goPackage := Some v\<rparr>)"
  "FileOptions_switch L 128 m = readf (r_bool L) (\<lambda>v. m\<lparr>FileOptions.ccGenericServices := Some v\<rparr>)"
  "FileOptions_switch L 136 m = readf (r_bool L) (\<lambda>v. m\<lparr>FileOptions.javaGenericServices := Some v\<rparr>)"
  "FileOptions_switch L 144 m = readf (r_bool L) (\<lambda>v. m\<lparr>FileOptions.pyGenericServices := Some v\<rparr>)"
  "FileOptions_switch L 184 m = readf (r_bool L) (\<lambda>v. m\<lparr>FileOptions.deprecated := Some v\<rparr>)"
  "FileOptions_switch L 248 m = readf (r_bool L) (\<lambda>v. m\<lparr>FileOptions.ccEnableArenas := Some v\<rparr>)"
  "FileOptions_switch L 290 m = readf (r_string L) (\<lambda>v. m\<lparr>FileOptions.objcClassPrefix := Some v\<rparr>)"
  "FileOptions_switch L 298 m = readf (r_string L) (\<lambda>v. m\<lparr>FileOptions.csharpNamespace := Some v\<rparr>)"
  "FileOptions_switch L 314 m = readf (r_string L) (\<lambda>v. m\<lparr>FileOptions.swiftPrefix := Some v\<rparr>)"
  "FileOptions_switch L 322 m = readf (r_string L) (\<lambda>v. m\<lparr>FileOptions.phpClassPrefix := Some v\<rparr>)"
  "FileOptions_switch L 330 m = readf (r_string L) (\<lambda>v. m\<lparr>FileOptions.phpNamespace := Some v\<rparr>)"
  "FileOptions_switch L 354 m = readf (r_string L) (\<lambda>v. m\<lparr>FileOptions.phpMetadataNamespace := Some v\<rparr>)"
  "FileOptions_switch L 362 m = readf (r_string L) (\<lambda>v. m\<lparr>FileOptions.rubyPackage := Some v\<rparr>)"
  "FileOptions_switch L 402 m = readf (submsg L (decode_FeatureSet L)) (\<lambda>v. m\<lparr>FileOptions.features := Some v\<rparr>)"
  "FileOptions_switch L 7994 m = readf (submsg L (decode_UninterpretedOption L)) (\<lambda>v. m\<lparr>FileOptions.uninterpretedOption := FileOptions.uninterpretedOption m @ [v]\<rparr>)"
  by (simp_all add: FileOptions_switch_def when_tag_def)

lemma create_FileOptions_None: "create_FileOptions None = createBase_FileOptions"
  by (simp add: create_FileOptions_def fromPartial_FileOptions_def FileOptions_empty_def createBase_FileOptions_def partial_map_def)

lemma complete_FileOptions [simp]:
  "encode_FileOptions L (fromPartial_FileOptions (partial_of_FileOptions m)) = encode_FileOptions L m"
  by (simp add: encode_FileOptions_def fromPartial_FileOptions_def partial_of_FileOptions_def createBase_FileOptions_def partial_map_def option.map_comp o_def del: seqE.simps)

context wire_laws
begin

lemma FileOptions_codec:
  shows "message_codec L F out inp (encode_FileOptions L) (FileOptions_switch L) createBase_FileOptions (wf_FileOptions L)"
proof unfold_locales
  show good: "good_sw (FileOptions_switch L)"
    unfolding FileOptions_switch_def by (intro good_swI fwd_rules)
  fix m assume "wf_FileOptions L m"
  then show "codes (FileOptions_switch L) (encode_FileOptions L m) createBase_FileOptions m"
    unfolding encode_FileOptions_def wf_FileOptions_def
    by (elim conjE)
      (rule codes_Cons codes_Nil [OF FileOptions.equality] codec_rules
        codes_default [where tag = 10 and u = "FileOptions.javaPackage_update" and op = "r_string L", OF good]
        codes_default [where tag = 66 and u = "FileOptions.javaOuterClassname_update" and op = "r_string L", OF good]
        codes_default [where tag = 80 and u = "FileOptions.javaMultipleFiles_update" and op = "r_bool L", OF good]
        codes_default [where tag = 160 and u = "FileOptions.javaGenerateEqualsAndHash_update" and op = "r_bool L", OF good]
        codes_default [where tag = 216 and u = "FileOptions.javaStringCheckUtf8_update" and op = "r_bool L", OF good]
        codes_default [where tag = 72 and u = "FileOptions.optimizeFor_update" and op = "num32 (r_int32 L)", OF good]
        codes_default [where tag = 90 and u = "FileOptions.goPackage_update" and op = "r_string L", OF good]
        codes_default [where tag = 128 and u = "FileOptions.ccGenericServices_update" and op = "r_bool L", OF good]
        codes_default [where tag = 136 and u = "FileOptions.javaGenericServices_update" and op = "r_bool L", OF good]
        codes_default [where tag = 144 and u = "FileOptions.pyGenericServices_update" and op = "r_bool L", OF good]
        codes_default [where tag = 184 and u = "FileOptions.deprecated_update" and op = "r_bool L", OF good]
        codes_default [where tag = 248 and u = "FileOptions.ccEnableArenas_update" and op = "r_bool L", OF good]
        codes_default [where tag = 290 and u = "FileOptions.objcClassPrefix_update" and op = "r_string L", OF good]
        codes_default [where tag = 298 and u = "FileOptions.csharpNamespace_update" and op = "r_string L", OF good]
        codes_default [where tag = 314 and u = "FileOptions.swiftPrefix_update" and op = "r_string L", OF good]
        codes_default [where tag = 322 and u = "FileOptions.phpClassPrefix_update" and op = "r_string L", OF good]
        codes_default [where tag = 330 and u = "FileOptions.phpNamespace_update" and op = "r_string L", OF good]
        codes_default [where tag = 354 and u = "FileOptions.phpMetadataNamespace_update" and op = "r_string L", OF good]
        codes_default [where tag = 362 and u = "FileOptions.rubyPackage_update" and op = "r_string L", OF good]
        codes_some [where tag = 402 and u = "FileOptions.features_update" and op = "submsg L (decode_FeatureSet L)", OF good]
        codes_for [where tag = 7994 and u = "FileOptions.uninterpretedOption_update" and op = "submsg L (decode_UninterpretedOption L)", OF good]
      | assumption | (simp add: FileOptions_tags createBase_FileOptions_def; fail))+
qed

lemmas FileOptions_carries [codec_rules] =
  message_codec.opt_carries [OF FileOptions_codec, folded decode_FileOptions_def] message_codec.list_carries [OF FileOptions_codec, folded decode_FileOptions_def]

lemmas FileOptions_good [fwd_rules] = message_codec.op_good [OF FileOptions_codec, folded decode_FileOptions_def]

lemmas FileOptions_roundtrip = message_codec.roundtrip [OF FileOptions_codec, folded decode_FileOptions_def]

lemmas FileOptions_returns = message_codec.decode_returns [OF FileOptions_codec, folded decode_FileOptions_def]

lemmas FileOptions_reads = reads_as_complete [OF FileOptions_roundtrip complete_FileOptions]

end

interpretation FileOptions_json: message_json toJSON_FileOptions fromJSON_FileOptions wfj_FileOptions
proof unfold_locales
  fix h m
  assume "wfj_FileOptions m"
  then show "json_rt (toJSON_FileOptions h) (fromJSON_FileOptions h) m"
    unfolding toJSON_FileOptions_def fromJSON_FileOptions_def wfj_FileOptions_def
    by (elim conjE) (rule json_rtI json_rules | assumption | (simp; fail))+
qed

lemmas FileOptions_json_rules [json_rules] = FileOptions_json.json_field_rules

lemma FeatureSetDefaults_FeatureSetEditionDefault_tags:
  "FeatureSetDefaults_FeatureSetEditionDefault_switch L 24 m = readf (num32 (r_int32 L)) (\<lambda>v. m\<lparr>FeatureSetDefaults_FeatureSetEditionDefault.edition := Some v\<rparr>)"
  "FeatureSetDefaults_FeatureSetEditionDefault_switch L 34 m = readf (submsg L (decode_FeatureSet L)) (\<lambda>v. m\<lparr>FeatureSetDefaults_FeatureSetEditionDefault.overridableFeatures := Some v\<rparr>)"
  "FeatureSetDefaults_FeatureSetEditionDefault_switch L 42 m = readf (submsg L (decode_FeatureSet L)) (\<lambda>v. m\<lparr>FeatureSetDefaults_FeatureSetEditionDefault.fixedFeatures := Some v\<rparr>)"
  by (simp_all add: FeatureSetDefaults_FeatureSetEditionDefault_switch_def when_tag_def)

lemma create_FeatureSetDefaults_FeatureSetEditionDefault_None: "create_FeatureSetDefaults_FeatureSetEditionDefault None = createBase_FeatureSetDefaults_FeatureSetEditionDefault"
  by (simp add: create_FeatureSetDefaults_FeatureSetEditionDefault_def fromPartial_FeatureSetDefaults_FeatureSetEditionDefault_def FeatureSetDefaults_FeatureSetEditionDefault_empty_def createBase_FeatureSetDefaults_FeatureSetEditionDefault_def partial_map_def)

lemma complete_FeatureSetDefaults_FeatureSetEditionDefault [simp]:
  "encode_FeatureSetDefaults_FeatureSetEditionDefault L (fromPartial_FeatureSetDefaults_FeatureSetEditionDefault (partial_of_FeatureSetDefaults_FeatureSetEditionDefault m)) = encode_FeatureSetDefaults_FeatureSetEditionDefault L m"
  by (simp add: encode_FeatureSetDefaults_FeatureSetEditionDefault_def fromPartial_FeatureSetDefaults_FeatureSetEditionDefault_def partial_of_FeatureSetDefaults_FeatureSetEditionDefault_def createBase_FeatureSetDefaults_FeatureSetEditionDefault_def partial_map_def option.map_comp o_def del: seqE.simps)

context wire_laws
begin

lemma FeatureSetDefaults_FeatureSetEditionDefault_codec:
  shows "message_codec L F out inp (encode_FeatureSetDefaults_FeatureSetEditionDefault L) (FeatureSetDefaults_FeatureSetEditionDefault_switch L) createBase_FeatureSetDefaults_FeatureSetEditionDefault (wf_FeatureSetDefaults_FeatureSetEditionDefault L)"
proof unfold_locales
  show good: "good_sw (FeatureSetDefaults_FeatureSetEditionDefault_switch L)"
    unfolding FeatureSetDefaults_FeatureSetEditionDefault_switch_def by (intro good_swI fwd_rules)
  fix m assume "wf_FeatureSetDefaults_FeatureSetEditionDefault L m"
  then show "codes (FeatureSetDefaults_FeatureSetEditionDefault_switch L) (encode_FeatureSetDefaults_FeatureSetEditionDefault L m) createBase_FeatureSetDefaults_FeatureSetEditionDefault m"
    unfolding encode_FeatureSetDefaults_FeatureSetEditionDefault_def wf_FeatureSetDefaults_FeatureSetEditionDefault_def
    by (elim conjE)
      (rule codes_Cons codes_Nil [OF FeatureSetDefaults_FeatureSetEditionDefault.equality] codec_rules
        codes_default [where tag = 24 and u = "FeatureSetDefaults_FeatureSetEditionDefault.edition_update" and op = "num32 (r_int32 L)", OF good]
        codes_some [where tag = 34 and u = "FeatureSetDefaults_FeatureSetEditionDefault.overridableFeatures_update" and op = "submsg L (decode_FeatureSet L)", OF good]
        codes_some [where tag = 42 and u = "FeatureSetDefaults_FeatureSetEditionDefault.fixedFeatures_update" and op = "submsg L (decode_FeatureSet L)", OF good]
      | assumption | (simp add: FeatureSetDefaults_FeatureSetEditionDefault_tags createBase_FeatureSetDefaults_FeatureSetEditionDefault_def; fail))+
qed

lemmas FeatureSetDefaults_FeatureSetEditionDefault_carries [codec_rules] =
  message_codec.opt_carries [OF FeatureSetDefaults_FeatureSetEditionDefault_codec, folded decode_FeatureSetDefaults_FeatureSetEditionDefault_def] message_codec.list_carries [OF FeatureSetDefaults_FeatureSetEditionDefault_codec, folded decode_FeatureSetDefaults_FeatureSetEditionDefault_def]

lemmas FeatureSetDefaults_FeatureSetEditionDefault_good [fwd_rules] = message_codec.op_good [OF FeatureSetDefaults_FeatureSetEditionDefault_codec, folded decode_FeatureSetDefaults_FeatureSetEditionDefault_def]

lemmas FeatureSetDefaults_FeatureSetEditionDefault_roundtrip = message_codec.roundtrip [OF FeatureSetDefaults_FeatureSetEditionDefault_codec, folded decode_FeatureSetDefaults_FeatureSetEditionDefault_def]

lemmas FeatureSetDefaults_FeatureSetEditionDefault_returns = message_codec.decode_returns [OF FeatureSetDefaults_FeatureSetEditionDefault_codec, folded decode_FeatureSetDefaults_FeatureSetEditionDefault_def]

lemmas FeatureSetDefaults_FeatureSetEditionDefault_reads = reads_as_complete [OF FeatureSetDefaults_FeatureSetEditionDefault_roundtrip complete_FeatureSetDefaults_FeatureSetEditionDefault]

end

interpretation FeatureSetDefaults_FeatureSetEditionDefault_json: message_json toJSON_FeatureSetDefaults_FeatureSetEditionDefault fromJSON_FeatureSetDefaults_FeatureSetEditionDefault wfj_FeatureSetDefaults_FeatureSetEditionDefault
proof unfold_locales
  fix h m
  assume "wfj_FeatureSetDefaults_FeatureSetEditionDefault m"
  then show "json_rt (toJSON_FeatureSetDefaults_FeatureSetEditionDefault h) (fromJSON_FeatureSetDefaults_FeatureSetEditionDefault h) m"
    unfolding toJSON_FeatureSetDefaults_FeatureSetEditionDefault_def fromJSON_FeatureSetDefaults_FeatureSetEditionDefault_def wfj_FeatureSetDefaults_FeatureSetEditionDefault_def
    by (elim conjE) (rule json_rtI json_rules | assumption | (simp; fail))+
qed

lemmas FeatureSetDefaults_FeatureSetEditionDefault_json_rules [json_rules] = FeatureSetDefaults_FeatureSetEditionDefault_json.json_field_rules

lemma FeatureSetDefaults_tags:
  "FeatureSetDefaults_switch L 10 m = readf (submsg L (decode_FeatureSetDefaults_FeatureSetEditionDefault L)) (\<lambda>v. m\<lparr>FeatureSetDefaults.defaults' := FeatureSetDefaults.defaults' m @ [v]\<rparr>)"
  "FeatureSetDefaults_switch L 32 m = readf (num32 (r_int32 L)) (\<lambda>v. m\<lparr>FeatureSetDefaults.minimumEdition := Some v\<rparr>)"
  "FeatureSetDefaults_switch L 40 m = readf (num32 (r_int32 L)) (\<lambda>v. m\<lparr>FeatureSetDefaults.maximumEdition := Some v\<rparr>)"
  by (simp_all add: FeatureSetDefaults_switch_def when_tag_def)

lemma create_FeatureSetDefaults_None: "create_FeatureSetDefaults None = createBase_FeatureSetDefaults"
  by (simp add: create_FeatureSetDefaults_def fromPartial_FeatureSetDefaults_def FeatureSetDefaults_empty_def createBase_FeatureSetDefaults_def partial_map_def)

lemma complete_FeatureSetDefaults [simp]:
  "encode_FeatureSetDefaults L (fromPartial_FeatureSetDefaults (partial_of_FeatureSetDefaults m)) = encode_FeatureSetDefaults L m"
  by (simp add: encode_FeatureSetDefaults_def fromPartial_FeatureSetDefaults_def partial_of_FeatureSetDefaults_def createBase_FeatureSetDefaults_def partial_map_def option.map_comp o_def del: seqE.simps)

context wire_laws
begin

lemma FeatureSetDefaults_codec:
  shows "message_codec L F out inp (encode_FeatureSetDefaults L) (FeatureSetDefaults_switch L) createBase_FeatureSetDefaults (wf_FeatureSetDefaults L)"
proof unfold_locales
  show good: "good_sw (FeatureSetDefaults_switch L)"
    unfolding FeatureSetDefaults_switch_def by (intro good_swI fwd_rules)
  fix m assume "wf_FeatureSetDefaults L m"
  then show "codes (FeatureSetDefaults_switch L) (encode_FeatureSetDefaults L m) createBase_FeatureSetDefaults m"
    unfolding encode_FeatureSetDefaults_def wf_FeatureSetDefaults_def
    by (elim conjE)
      (rule codes_Cons codes_Nil [OF FeatureSetDefaults.equality] codec_rules
        codes_for [where tag = 10 and u = "FeatureSetDefaults.defaults'_update" and op = "submsg L (decode_FeatureSetDefaults_FeatureSetEditionDefault L)", OF good]
        codes_default [where tag = 32 and u = "FeatureSetDefaults.minimumEdition_update" and op = "num32 (r_int32 L)", OF good]
        codes_default [where tag = 40 and u = "FeatureSetDefaults.maximumEdition_update" and op = "num32 (r_int32 L)", OF good]
      | assumption | (simp add: FeatureSetDefaults_tags createBase_FeatureSetDefaults_def; fail))+
qed

lemmas FeatureSetDefaults_roundtrip = message_codec.roundtrip [OF FeatureSetDefaults_codec, folded decode_FeatureSetDefaults_def]

lemmas FeatureSetDefaults_returns = message_codec.decode_returns [OF FeatureSetDefaults_codec, folded decode_FeatureSetDefaults_def]

lemmas FeatureSetDefaults_reads = reads_as_complete [OF FeatureSetDefaults_roundtrip complete_FeatureSetDefaults]

end

interpretation FeatureSetDefaults_json: message_json toJSON_FeatureSetDefaults fromJSON_FeatureSetDefaults wfj_FeatureSetDefaults
proof unfold_locales
  fix h m
  assume "wfj_FeatureSetDefaults m"
  then show "json_rt (toJSON_FeatureSetDefaults h) (fromJSON_FeatureSetDefaults h) m"
    unfolding toJSON_FeatureSetDefaults_def fromJSON_FeatureSetDefaults_def wfj_FeatureSetDefaults_def
    by (elim conjE) (rule json_rtI json_rules | assumption | (simp; fail))+
qed

lemmas DescOptions_jsons =
  FieldOptions_EditionDefault_json.json_roundtrip
  FeatureSet_json.json_roundtrip
  FieldOptions_FeatureSupport_json.json_roundtrip
  UninterpretedOption_NamePart_json.json_roundtrip
  UninterpretedOption_json.json_roundtrip
  FieldOptions_json.json_roundtrip
  EnumValueOptions_json.json_roundtrip
  EnumOptions_json.json_roundtrip
  ExtensionRangeOptions_Declaration_json.json_roundtrip
  ExtensionRangeOptions_json.json_roundtrip
  OneofOptions_json.json_roundtrip
  MessageOptions_json.json_roundtrip
  MethodOptions_json.json_roundtrip
  ServiceOptions_json.json_roundtrip
  FileOptions_json.json_roundtrip
  FeatureSetDefaults_FeatureSetEditionDefault_json.json_roundtrip
  FeatureSetDefaults_json.json_roundtrip

context wire_laws
begin

lemmas DescOptions_roundtrips =
  FieldOptions_EditionDefault_roundtrip
  FeatureSet_roundtrip
  FieldOptions_FeatureSupport_roundtrip
  UninterpretedOption_NamePart_roundtrip
  UninterpretedOption_roundtrip
  FieldOptions_roundtrip
  EnumValueOptions_roundtrip
  EnumOptions_roundtrip
  ExtensionRangeOptions_Declaration_roundtrip
  ExtensionRangeOptions_roundtrip
  OneofOptions_roundtrip
  MessageOptions_roundtrip
  MethodOptions_roundtrip
  ServiceOptions_roundtrip
  FileOptions_roundtrip
  FeatureSetDefaults_FeatureSetEditionDefault_roundtrip
  FeatureSetDefaults_roundtrip

lemmas DescOptions_reads =
  FieldOptions_EditionDefault_reads
  FeatureSet_reads
  FieldOptions_FeatureSupport_reads
  UninterpretedOption_reads
  FieldOptions_reads
  EnumValueOptions_reads
  EnumOptions_reads
  ExtensionRangeOptions_Declaration_reads
  ExtensionRangeOptions_reads
  MessageOptions_reads
  MethodOptions_reads
  ServiceOptions_reads
  FileOptions_reads
  FeatureSetDefaults_FeatureSetEditionDefault_reads
  FeatureSetDefaults_reads

end

end
