(* ===== verification/DescMsgs.thy ===== *)
theory DescMsgs
  imports DescOptions Recursion
begin

text \<open>
  The descriptors of a schema (\<open>google/protobuf/descriptor.ts\<close>): fields, enumerations, services, message
  types, which nest, and files.
\<close>


section \<open>google/protobuf/descriptor.ts\<close>

type_synonym FieldDescriptorProto_Type = number

definition FieldDescriptorProto_Type_TYPE_DOUBLE :: FieldDescriptorProto_Type where
  "FieldDescriptorProto_Type_TYPE_DOUBLE = Num 1"

definition FieldDescriptorProto_Type_TYPE_FLOAT :: FieldDescriptorProto_Type where
  "FieldDescriptorProto_Type_TYPE_FLOAT = Num 2"

definition FieldDescriptorProto_Type_TYPE_INT64 :: FieldDescriptorProto_Type where
  "FieldDescriptorProto_Type_TYPE_INT64 = Num 3"

definition FieldDescriptorProto_Type_TYPE_UINT64 :: FieldDescriptorProto_Type where
  "FieldDescriptorProto_Type_TYPE_UINT64 = Num 4"

definition FieldDescriptorProto_Type_TYPE_INT32 :: FieldDescriptorProto_Type where
  "FieldDescriptorProto_Type_TYPE_INT32 = Num 5"

definition FieldDescriptorProto_Type_TYPE_FIXED64 :: FieldDescriptorProto_Type where
  "FieldDescriptorProto_Type_TYPE_FIXED64 = Num 6"

definition FieldDescriptorProto_Type_TYPE_FIXED32 :: FieldDescriptorProto_Type where
  "FieldDescriptorProto_Type_TYPE_FIXED32 = Num 7"

definition FieldDescriptorProto_Type_TYPE_BOOL :: FieldDescriptorProto_Type where
  "FieldDescriptorProto_Type_TYPE_BOOL = Num 8"

definition FieldDescriptorProto_Type_TYPE_STRING :: FieldDescriptorProto_Type where
  "FieldDescriptorProto_Type_TYPE_STRING = Num 9"

definition FieldDescriptorProto_Type_TYPE_GROUP :: FieldDescriptorProto_Type where
  "FieldDescriptorProto_Type_TYPE_GROUP = Num 10"

definition FieldDescriptorProto_Type_TYPE_MESSAGE :: FieldDescriptorProto_Type where
  "FieldDescriptorProto_Type_TYPE_MESSAGE = Num 11"

definition FieldDescriptorProto_Type_TYPE_BYTES :: FieldDescriptorProto_Type where
  "FieldDescriptorProto_Type_TYPE_BYTES = Num 12"

definition FieldDescriptorProto_Type_TYPE_UINT32 :: FieldDescriptorProto_Type where
  "FieldDescriptorProto_Type_TYPE_UINT32 = Num 13"

definition FieldDescriptorProto_Type_TYPE_ENUM :: FieldDescriptorProto_Type where
  "FieldDescriptorProto_Type_TYPE_ENUM = Num 14"

definition FieldDescriptorProto_Type_TYPE_SFIXED32 :: FieldDescriptorProto_Type where
  "FieldDescriptorProto_Type_TYPE_SFIXED32 = Num 15"

definition FieldDescriptorProto_Type_TYPE_SFIXED64 :: FieldDescriptorProto_Type where
  "FieldDescriptorProto_Type_TYPE_SFIXED64 = Num 16"

definition FieldDescriptorProto_Type_TYPE_SINT32 :: FieldDescriptorProto_Type where
  "FieldDescriptorProto_Type_TYPE_SINT32 = Num 17"

definition FieldDescriptorProto_Type_TYPE_SINT64 :: FieldDescriptorProto_Type where
  "FieldDescriptorProto_Type_TYPE_SINT64 = Num 18"

definition FieldDescriptorProto_Type_UNRECOGNIZED :: FieldDescriptorProto_Type where
  "FieldDescriptorProto_Type_UNRECOGNIZED = Num (- 1)"

definition fieldDescriptorProto_TypeFromJSON :: "jsval \<Rightarrow> FieldDescriptorProto_Type" where
  "fieldDescriptorProto_TypeFromJSON object =
    (if object = JNumber (Num 1) \<or> object = JString (js ''TYPE_DOUBLE'')
       then FieldDescriptorProto_Type_TYPE_DOUBLE
     else if object = JNumber (Num 2) \<or> object = JString (js ''TYPE_FLOAT'')
       then FieldDescriptorProto_Type_TYPE_FLOAT
     else if object = JNumber (Num 3) \<or> object = JString (js ''TYPE_INT64'')
       then FieldDescriptorProto_Type_TYPE_INT64
     else if object = JNumber (Num 4) \<or> object = JString (js ''TYPE_UINT64'')
       then FieldDescriptorProto_Type_TYPE_UINT64
     else if object = JNumber (Num 5) \<or> object = JString (js ''TYPE_INT32'')
       then FieldDescriptorProto_Type_TYPE_INT32
     else if object = JNumber (Num 6) \<or> object = JString (js ''TYPE_FIXED64'')
       then FieldDescriptorProto_Type_TYPE_FIXED64
     else if object = JNumber (Num 7) \<or> object = JString (js ''TYPE_FIXED32'')
       then FieldDescriptorProto_Type_TYPE_FIXED32
     else if object = JNumber (Num 8) \<or> object = JString (js ''TYPE_BOOL'')
       then FieldDescriptorProto_Type_TYPE_BOOL
     else if object = JNumber (Num 9) \<or> object = JString (js ''TYPE_STRING'')
       then FieldDescriptorProto_Type_TYPE_STRING
     else if object = JNumber (Num 10) \<or> object = JString (js ''TYPE_GROUP'')
       then FieldDescriptorProto_Type_TYPE_GROUP
     else if object = JNumber (Num 11) \<or> object = JString (js ''TYPE_MESSAGE'')
       then FieldDescriptorProto_Type_TYPE_MESSAGE
     else if object = JNumber (Num 12) \<or> object = JString (js ''TYPE_BYTES'')
       then FieldDescriptorProto_Type_TYPE_BYTES
     else if object = JNumber (Num 13) \<or> object = JString (js ''TYPE_UINT32'')
       then FieldDescriptorProto_Type_TYPE_UINT32
     else if object = JNumber (Num 14) \<or> object = JString (js ''TYPE_ENUM'')
       then FieldDescriptorProto_Type_TYPE_ENUM
     else if object = JNumber (Num 15) \<or> object = JString (js ''TYPE_SFIXED32'')
       then FieldDescriptorProto_Type_TYPE_SFIXED32
     else if object = JNumber (Num 16) \<or> object = JString (js ''TYPE_SFIXED64'')
       then FieldDescriptorProto_Type_TYPE_SFIXED64
     else if object = JNumber (Num 17) \<or> object = JString (js ''TYPE_SINT32'')
       then FieldDescriptorProto_Type_TYPE_SINT32
     else if object = JNumber (Num 18) \<or> object = JString (js ''TYPE_SINT64'')
       then FieldDescriptorProto_Type_TYPE_SINT64
     else FieldDescriptorProto_Type_UNRECOGNIZED)"

definition fieldDescriptorProto_TypeToJSON :: "FieldDescriptorProto_Type \<Rightarrow> jsstring" where
  "fieldDescriptorProto_TypeToJSON object =
    (if object = FieldDescriptorProto_Type_TYPE_DOUBLE then js ''TYPE_DOUBLE''
     else if object = FieldDescriptorProto_Type_TYPE_FLOAT then js ''TYPE_FLOAT''
     else if object = FieldDescriptorProto_Type_TYPE_INT64 then js ''TYPE_INT64''
     else if object = FieldDescriptorProto_Type_TYPE_UINT64 then js ''TYPE_UINT64''
     else if object = FieldDescriptorProto_Type_TYPE_INT32 then js ''TYPE_INT32''
     else if object = FieldDescriptorProto_Type_TYPE_FIXED64 then js ''TYPE_FIXED64''
     else if object = FieldDescriptorProto_Type_TYPE_FIXED32 then js ''TYPE_FIXED32''
     else if object = FieldDescriptorProto_Type_TYPE_BOOL then js ''TYPE_BOOL''
     else if object = FieldDescriptorProto_Type_TYPE_STRING then js ''TYPE_STRING''
     else if object = FieldDescriptorProto_Type_TYPE_GROUP then js ''TYPE_GROUP''
     else if object = FieldDescriptorProto_Type_TYPE_MESSAGE then js ''TYPE_MESSAGE''
     else if object = FieldDescriptorProto_Type_TYPE_BYTES then js ''TYPE_BYTES''
     else if object = FieldDescriptorProto_Type_TYPE_UINT32 then js ''TYPE_UINT32''
     else if object = FieldDescriptorProto_Type_TYPE_ENUM then js ''TYPE_ENUM''
     else if object = FieldDescriptorProto_Type_TYPE_SFIXED32 then js ''TYPE_SFIXED32''
     else if object = FieldDescriptorProto_Type_TYPE_SFIXED64 then js ''TYPE_SFIXED64''
     else if object = FieldDescriptorProto_Type_TYPE_SINT32 then js ''TYPE_SINT32''
     else if object = FieldDescriptorProto_Type_TYPE_SINT64 then js ''TYPE_SINT64''
     else js ''UNRECOGNIZED'')"

text \<open>The values the schema names, and the one \<open>fromJSON\<close> maps the others to.\<close>

definition FieldDescriptorProto_Type_known :: "FieldDescriptorProto_Type \<Rightarrow> bool" where
  "FieldDescriptorProto_Type_known n \<longleftrightarrow> n \<in> {FieldDescriptorProto_Type_TYPE_DOUBLE, FieldDescriptorProto_Type_TYPE_FLOAT, FieldDescriptorProto_Type_TYPE_INT64, FieldDescriptorProto_Type_TYPE_UINT64, FieldDescriptorProto_Type_TYPE_INT32, FieldDescriptorProto_Type_TYPE_FIXED64, FieldDescriptorProto_Type_TYPE_FIXED32, FieldDescriptorProto_Type_TYPE_BOOL, FieldDescriptorProto_Type_TYPE_STRING, FieldDescriptorProto_Type_TYPE_GROUP, FieldDescriptorProto_Type_TYPE_MESSAGE, FieldDescriptorProto_Type_TYPE_BYTES, FieldDescriptorProto_Type_TYPE_UINT32, FieldDescriptorProto_Type_TYPE_ENUM, FieldDescriptorProto_Type_TYPE_SFIXED32, FieldDescriptorProto_Type_TYPE_SFIXED64, FieldDescriptorProto_Type_TYPE_SINT32, FieldDescriptorProto_Type_TYPE_SINT64, FieldDescriptorProto_Type_UNRECOGNIZED}"

type_synonym FieldDescriptorProto_Label = number

definition FieldDescriptorProto_Label_LABEL_OPTIONAL :: FieldDescriptorProto_Label where
  "FieldDescriptorProto_Label_LABEL_OPTIONAL = Num 1"

definition FieldDescriptorProto_Label_LABEL_REPEATED :: FieldDescriptorProto_Label where
  "FieldDescriptorProto_Label_LABEL_REPEATED = Num 3"

definition FieldDescriptorProto_Label_LABEL_REQUIRED :: FieldDescriptorProto_Label where
  "FieldDescriptorProto_Label_LABEL_REQUIRED = Num 2"

definition FieldDescriptorProto_Label_UNRECOGNIZED :: FieldDescriptorProto_Label where
  "FieldDescriptorProto_Label_UNRECOGNIZED = Num (- 1)"

definition fieldDescriptorProto_LabelFromJSON :: "jsval \<Rightarrow> FieldDescriptorProto_Label" where
  "fieldDescriptorProto_LabelFromJSON object =
    (if object = JNumber (Num 1) \<or> object = JString (js ''LABEL_OPTIONAL'')
       then FieldDescriptorProto_Label_LABEL_OPTIONAL
     else if object = JNumber (Num 3) \<or> object = JString (js ''LABEL_REPEATED'')
       then FieldDescriptorProto_Label_LABEL_REPEATED
     else if object = JNumber (Num 2) \<or> object = JString (js ''LABEL_REQUIRED'')
       then FieldDescriptorProto_Label_LABEL_REQUIRED
     else FieldDescriptorProto_Label_UNRECOGNIZED)"

definition fieldDescriptorProto_LabelToJSON :: "FieldDescriptorProto_Label \<Rightarrow> jsstring" where
  "fieldDescriptorProto_LabelToJSON object =
    (if object = FieldDescriptorProto_Label_LABEL_OPTIONAL then js ''LABEL_OPTIONAL''
     else if object = FieldDescriptorProto_Label_LABEL_REPEATED then js ''LABEL_REPEATED''
     else if object = FieldDescriptorProto_Label_LABEL_REQUIRED then js ''LABEL_REQUIRED''
     else js ''UNRECOGNIZED'')"

text \<open>The values the schema names, and the one \<open>fromJSON\<close> maps the others to.\<close>

definition FieldDescriptorProto_Label_known :: "FieldDescriptorProto_Label \<Rightarrow> bool" where
  "FieldDescriptorProto_Label_known n \<longleftrightarrow> n \<in> {FieldDescriptorProto_Label_LABEL_OPTIONAL, FieldDescriptorProto_Label_LABEL_REPEATED, FieldDescriptorProto_Label_LABEL_REQUIRED, FieldDescriptorProto_Label_UNRECOGNIZED}"

type_synonym GeneratedCodeInfo_Annotation_Semantic = number

definition GeneratedCodeInfo_Annotation_Semantic_NONE :: GeneratedCodeInfo_Annotation_Semantic where
  "GeneratedCodeInfo_Annotation_Semantic_NONE = Num 0"

definition GeneratedCodeInfo_Annotation_Semantic_SET :: GeneratedCodeInfo_Annotation_Semantic where
  "GeneratedCodeInfo_Annotation_Semantic_SET = Num 1"

definition GeneratedCodeInfo_Annotation_Semantic_ALIAS :: GeneratedCodeInfo_Annotation_Semantic where
  "GeneratedCodeInfo_Annotation_Semantic_ALIAS = Num 2"

definition GeneratedCodeInfo_Annotation_Semantic_UNRECOGNIZED :: GeneratedCodeInfo_Annotation_Semantic where
  "GeneratedCodeInfo_Annotation_Semantic_UNRECOGNIZED = Num (- 1)"

definition generatedCodeInfo_Annotation_SemanticFromJSON :: "jsval \<Rightarrow> GeneratedCodeInfo_Annotation_Semantic" where
  "generatedCodeInfo_Annotation_SemanticFromJSON object =
    (if object = JNumber (Num 0) \<or> object = JString (js ''NONE'')
       then GeneratedCodeInfo_Annotation_Semantic_NONE
     else if object = JNumber (Num 1) \<or> object = JString (js ''SET'')
       then GeneratedCodeInfo_Annotation_Semantic_SET
     else if object = JNumber (Num 2) \<or> object = JString (js ''ALIAS'')
       then GeneratedCodeInfo_Annotation_Semantic_ALIAS
     else GeneratedCodeInfo_Annotation_Semantic_UNRECOGNIZED)"

definition generatedCodeInfo_Annotation_SemanticToJSON :: "GeneratedCodeInfo_Annotation_Semantic \<Rightarrow> jsstring" where
  "generatedCodeInfo_Annotation_SemanticToJSON object =
    (if object = GeneratedCodeInfo_Annotation_Semantic_NONE then js ''NONE''
     else if object = GeneratedCodeInfo_Annotation_Semantic_SET then js ''SET''
     else if object = GeneratedCodeInfo_Annotation_Semantic_ALIAS then js ''ALIAS''
     else js ''UNRECOGNIZED'')"

text \<open>The values the schema names, and the one \<open>fromJSON\<close> maps the others to.\<close>

definition GeneratedCodeInfo_Annotation_Semantic_known :: "GeneratedCodeInfo_Annotation_Semantic \<Rightarrow> bool" where
  "GeneratedCodeInfo_Annotation_Semantic_known n \<longleftrightarrow> n \<in> {GeneratedCodeInfo_Annotation_Semantic_NONE, GeneratedCodeInfo_Annotation_Semantic_SET, GeneratedCodeInfo_Annotation_Semantic_ALIAS, GeneratedCodeInfo_Annotation_Semantic_UNRECOGNIZED}"

subsection \<open>FieldDescriptorProto\<close>

record FieldDescriptorProto =
  name :: "jsstring option"
  number :: "number option"
  label :: "FieldDescriptorProto_Label option"
  type' :: "FieldDescriptorProto_Type option"
  typeName :: "jsstring option"
  extendee :: "jsstring option"
  defaultValue :: "jsstring option"
  oneofIndex :: "number option"
  jsonName :: "jsstring option"
  options :: "FieldOptions option"
  proto3Optional :: "bool option"

definition createBase_FieldDescriptorProto :: FieldDescriptorProto where
  "createBase_FieldDescriptorProto = \<lparr>FieldDescriptorProto.name = Some [],
     FieldDescriptorProto.number = Some (Num 0),
     FieldDescriptorProto.label = Some (Num 1),
     FieldDescriptorProto.type' = Some (Num 1),
     FieldDescriptorProto.typeName = Some [],
     FieldDescriptorProto.extendee = Some [],
     FieldDescriptorProto.defaultValue = Some [],
     FieldDescriptorProto.oneofIndex = Some (Num 0),
     FieldDescriptorProto.jsonName = Some [],
     FieldDescriptorProto.options = None,
     FieldDescriptorProto.proto3Optional = Some False\<rparr>"

definition encode_FieldDescriptorProto :: "('w, 'r) wire \<Rightarrow> FieldDescriptorProto \<Rightarrow> 'w \<Rightarrow> 'w result" where
  "encode_FieldDescriptorProto L message = seqE
    [someE (FieldDescriptorProto.name message) (\<lambda>v. whenE (v \<noteq> []) (seqE [w_uint32 L 10, w_string L v])),
     someE (FieldDescriptorProto.number message) (\<lambda>v. whenE (v \<noteq> Num 0) (seqE [w_uint32 L 24, w_int32 L v])),
     someE (FieldDescriptorProto.label message) (\<lambda>v. whenE (v \<noteq> Num 1) (seqE [w_uint32 L 32, w_int32 L v])),
     someE (FieldDescriptorProto.type' message) (\<lambda>v. whenE (v \<noteq> Num 1) (seqE [w_uint32 L 40, w_int32 L v])),
     someE (FieldDescriptorProto.typeName message) (\<lambda>v. whenE (v \<noteq> []) (seqE [w_uint32 L 50, w_string L v])),
     someE (FieldDescriptorProto.extendee message) (\<lambda>v. whenE (v \<noteq> []) (seqE [w_uint32 L 18, w_string L v])),
     someE (FieldDescriptorProto.defaultValue message) (\<lambda>v. whenE (v \<noteq> []) (seqE [w_uint32 L 58, w_string L v])),
     someE (FieldDescriptorProto.oneofIndex message) (\<lambda>v. whenE (v \<noteq> Num 0) (seqE [w_uint32 L 72, w_int32 L v])),
     someE (FieldDescriptorProto.jsonName message) (\<lambda>v. whenE (v \<noteq> []) (seqE [w_uint32 L 82, w_string L v])),
     someE (FieldDescriptorProto.options message) (\<lambda>v. seqE [w_uint32 L 66, w_fork L, encode_FieldOptions L v, w_join L]),
     someE (FieldDescriptorProto.proto3Optional message) (\<lambda>v. whenE (v \<noteq> False) (seqE [w_uint32 L 136, w_bool L v]))]"

definition FieldDescriptorProto_switch :: "('w, 'r) wire \<Rightarrow> u32 \<Rightarrow> FieldDescriptorProto \<Rightarrow> (FieldDescriptorProto, 'r) action" where
  "FieldDescriptorProto_switch L tag message = js_switch (drop_bit 3 tag)
    [(1, when_tag tag 10 (readf (r_string L) (\<lambda>v. message\<lparr>FieldDescriptorProto.name := Some v\<rparr>))),
     (3, when_tag tag 24 (readf (num32 (r_int32 L)) (\<lambda>v. message\<lparr>FieldDescriptorProto.number := Some v\<rparr>))),
     (4, when_tag tag 32 (readf (num32 (r_int32 L)) (\<lambda>v. message\<lparr>FieldDescriptorProto.label := Some v\<rparr>))),
     (5, when_tag tag 40 (readf (num32 (r_int32 L)) (\<lambda>v. message\<lparr>FieldDescriptorProto.type' := Some v\<rparr>))),
     (6, when_tag tag 50 (readf (r_string L) (\<lambda>v. message\<lparr>FieldDescriptorProto.typeName := Some v\<rparr>))),
     (2, when_tag tag 18 (readf (r_string L) (\<lambda>v. message\<lparr>FieldDescriptorProto.extendee := Some v\<rparr>))),
     (7, when_tag tag 58 (readf (r_string L) (\<lambda>v. message\<lparr>FieldDescriptorProto.defaultValue := Some v\<rparr>))),
     (9, when_tag tag 72 (readf (num32 (r_int32 L)) (\<lambda>v. message\<lparr>FieldDescriptorProto.oneofIndex := Some v\<rparr>))),
     (10, when_tag tag 82 (readf (r_string L) (\<lambda>v. message\<lparr>FieldDescriptorProto.jsonName := Some v\<rparr>))),
     (8, when_tag tag 66 (readf (submsg L (decode_FieldOptions L)) (\<lambda>v. message\<lparr>FieldDescriptorProto.options := Some v\<rparr>))),
     (17, when_tag tag 136 (readf (r_bool L) (\<lambda>v. message\<lparr>FieldDescriptorProto.proto3Optional := Some v\<rparr>)))]
    break_out"

definition decode_FieldDescriptorProto :: "('w, 'r) wire \<Rightarrow> 'r input \<Rightarrow> nat option \<Rightarrow> (FieldDescriptorProto \<times> 'r) result" where
  "decode_FieldDescriptorProto L = decode_msg L (FieldDescriptorProto_switch L) createBase_FieldDescriptorProto"

definition fromJSON_FieldDescriptorProto :: "host \<Rightarrow> jsval \<Rightarrow> FieldDescriptorProto result" where
  "fromJSON_FieldDescriptorProto h object =
     bindE (fieldE object ''name'' (stringE h) []) (\<lambda>v_name.
     bindE (fieldE object ''number'' (numberE h) (Num 0)) (\<lambda>v_number.
     bindE (fieldE object ''label'' (enumE fieldDescriptorProto_LabelFromJSON) (Num 1)) (\<lambda>v_label.
     bindE (fieldE object ''type'' (enumE fieldDescriptorProto_TypeFromJSON) (Num 1)) (\<lambda>v_type.
     bindE (fieldE object ''typeName'' (stringE h) []) (\<lambda>v_typeName.
     bindE (fieldE object ''extendee'' (stringE h) []) (\<lambda>v_extendee.
     bindE (fieldE object ''defaultValue'' (stringE h) []) (\<lambda>v_defaultValue.
     bindE (fieldE object ''oneofIndex'' (numberE h) (Num 0)) (\<lambda>v_oneofIndex.
     bindE (fieldE object ''jsonName'' (stringE h) []) (\<lambda>v_jsonName.
     bindE (optE object ''options'' (fromJSON_FieldOptions h)) (\<lambda>v_options.
     bindE (fieldE object ''proto3Optional'' booleanE False) (\<lambda>v_proto3Optional.
     Inr \<lparr>FieldDescriptorProto.name = Some v_name, FieldDescriptorProto.number = Some v_number, FieldDescriptorProto.label = Some v_label, FieldDescriptorProto.type' = Some v_type, FieldDescriptorProto.typeName = Some v_typeName, FieldDescriptorProto.extendee = Some v_extendee, FieldDescriptorProto.defaultValue = Some v_defaultValue, FieldDescriptorProto.oneofIndex = Some v_oneofIndex, FieldDescriptorProto.jsonName = Some v_jsonName, FieldDescriptorProto.options = v_options, FieldDescriptorProto.proto3Optional = Some v_proto3Optional\<rparr>)))))))))))"

definition toJSON_FieldDescriptorProto :: "host \<Rightarrow> FieldDescriptorProto \<Rightarrow> jsval result" where
  "toJSON_FieldDescriptorProto h message = objE
    [jdefE ''name'' (\<lambda>v. v \<noteq> []) (\<lambda>v. Inr (JString v)) (FieldDescriptorProto.name message),
     jdefE ''number'' (\<lambda>v. v \<noteq> Num 0) (\<lambda>v. Inr (JNumber (Math_round v))) (FieldDescriptorProto.number message),
     jdefE ''label'' (\<lambda>v. v \<noteq> Num 1) (\<lambda>v. Inr (JString (fieldDescriptorProto_LabelToJSON v))) (FieldDescriptorProto.label message),
     jdefE ''type'' (\<lambda>v. v \<noteq> Num 1) (\<lambda>v. Inr (JString (fieldDescriptorProto_TypeToJSON v))) (FieldDescriptorProto.type' message),
     jdefE ''typeName'' (\<lambda>v. v \<noteq> []) (\<lambda>v. Inr (JString v)) (FieldDescriptorProto.typeName message),
     jdefE ''extendee'' (\<lambda>v. v \<noteq> []) (\<lambda>v. Inr (JString v)) (FieldDescriptorProto.extendee message),
     jdefE ''defaultValue'' (\<lambda>v. v \<noteq> []) (\<lambda>v. Inr (JString v)) (FieldDescriptorProto.defaultValue message),
     jdefE ''oneofIndex'' (\<lambda>v. v \<noteq> Num 0) (\<lambda>v. Inr (JNumber (Math_round v))) (FieldDescriptorProto.oneofIndex message),
     jdefE ''jsonName'' (\<lambda>v. v \<noteq> []) (\<lambda>v. Inr (JString v)) (FieldDescriptorProto.jsonName message),
     joptE ''options'' (toJSON_FieldOptions h) (FieldDescriptorProto.options message),
     jdefE ''proto3Optional'' (\<lambda>v. v \<noteq> False) (\<lambda>v. Inr (JBool v)) (FieldDescriptorProto.proto3Optional message)]"

record FieldDescriptorProto_Partial =
  name :: "jsstring option"
  number :: "number option"
  label :: "FieldDescriptorProto_Label option"
  type' :: "FieldDescriptorProto_Type option"
  typeName :: "jsstring option"
  extendee :: "jsstring option"
  defaultValue :: "jsstring option"
  oneofIndex :: "number option"
  jsonName :: "jsstring option"
  options :: "FieldOptions_Partial option"
  proto3Optional :: "bool option"

definition FieldDescriptorProto_empty :: FieldDescriptorProto_Partial where
  "FieldDescriptorProto_empty = \<lparr>FieldDescriptorProto_Partial.name = None, FieldDescriptorProto_Partial.number = None, FieldDescriptorProto_Partial.label = None, FieldDescriptorProto_Partial.type' = None, FieldDescriptorProto_Partial.typeName = None, FieldDescriptorProto_Partial.extendee = None, FieldDescriptorProto_Partial.defaultValue = None, FieldDescriptorProto_Partial.oneofIndex = None, FieldDescriptorProto_Partial.jsonName = None, FieldDescriptorProto_Partial.options = None, FieldDescriptorProto_Partial.proto3Optional = None\<rparr>"

definition fromPartial_FieldDescriptorProto :: "FieldDescriptorProto_Partial \<Rightarrow> FieldDescriptorProto" where
  "fromPartial_FieldDescriptorProto object = createBase_FieldDescriptorProto\<lparr>FieldDescriptorProto.name := Some (nullish (FieldDescriptorProto_Partial.name object) []),
     FieldDescriptorProto.number := Some (nullish (FieldDescriptorProto_Partial.number object) (Num 0)),
     FieldDescriptorProto.label := Some (nullish (FieldDescriptorProto_Partial.label object) (Num 1)),
     FieldDescriptorProto.type' := Some (nullish (FieldDescriptorProto_Partial.type' object) (Num 1)),
     FieldDescriptorProto.typeName := Some (nullish (FieldDescriptorProto_Partial.typeName object) []),
     FieldDescriptorProto.extendee := Some (nullish (FieldDescriptorProto_Partial.extendee object) []),
     FieldDescriptorProto.defaultValue := Some (nullish (FieldDescriptorProto_Partial.defaultValue object) []),
     FieldDescriptorProto.oneofIndex := Some (nullish (FieldDescriptorProto_Partial.oneofIndex object) (Num 0)),
     FieldDescriptorProto.jsonName := Some (nullish (FieldDescriptorProto_Partial.jsonName object) []),
     FieldDescriptorProto.options := map_option fromPartial_FieldOptions (FieldDescriptorProto_Partial.options object),
     FieldDescriptorProto.proto3Optional := Some (nullish (FieldDescriptorProto_Partial.proto3Optional object) False)\<rparr>"

definition create_FieldDescriptorProto :: "FieldDescriptorProto_Partial option \<Rightarrow> FieldDescriptorProto" where
  "create_FieldDescriptorProto base = fromPartial_FieldDescriptorProto (nullish base FieldDescriptorProto_empty)"

text \<open>A message as a partial message.\<close>

definition partial_of_FieldDescriptorProto :: "FieldDescriptorProto \<Rightarrow> FieldDescriptorProto_Partial" where
  "partial_of_FieldDescriptorProto m =
     \<lparr>FieldDescriptorProto_Partial.name = FieldDescriptorProto.name m,
      FieldDescriptorProto_Partial.number = FieldDescriptorProto.number m,
      FieldDescriptorProto_Partial.label = FieldDescriptorProto.label m,
      FieldDescriptorProto_Partial.type' = FieldDescriptorProto.type' m,
      FieldDescriptorProto_Partial.typeName = FieldDescriptorProto.typeName m,
      FieldDescriptorProto_Partial.extendee = FieldDescriptorProto.extendee m,
      FieldDescriptorProto_Partial.defaultValue = FieldDescriptorProto.defaultValue m,
      FieldDescriptorProto_Partial.oneofIndex = FieldDescriptorProto.oneofIndex m,
      FieldDescriptorProto_Partial.jsonName = FieldDescriptorProto.jsonName m,
      FieldDescriptorProto_Partial.options = map_option partial_of_FieldOptions (FieldDescriptorProto.options m),
      FieldDescriptorProto_Partial.proto3Optional = FieldDescriptorProto.proto3Optional m\<rparr>"

definition wf_FieldDescriptorProto :: "('w, 'r) wire \<Rightarrow> FieldDescriptorProto \<Rightarrow> bool" where
  "wf_FieldDescriptorProto L m \<longleftrightarrow> present wire_string (FieldDescriptorProto.name m)
     \<and> present int32_num (FieldDescriptorProto.number m)
     \<and> present int32_num (FieldDescriptorProto.label m)
     \<and> present int32_num (FieldDescriptorProto.type' m)
     \<and> present wire_string (FieldDescriptorProto.typeName m)
     \<and> present wire_string (FieldDescriptorProto.extendee m)
     \<and> present wire_string (FieldDescriptorProto.defaultValue m)
     \<and> present int32_num (FieldDescriptorProto.oneofIndex m)
     \<and> present wire_string (FieldDescriptorProto.jsonName m)
     \<and> pred_option (\<lambda>v. wf_FieldOptions L v \<and> fits L (encode_FieldOptions L v)) (FieldDescriptorProto.options m)
     \<and> present (\<lambda>_. True) (FieldDescriptorProto.proto3Optional m)"

definition wfj_FieldDescriptorProto :: "FieldDescriptorProto \<Rightarrow> bool" where
  "wfj_FieldDescriptorProto m \<longleftrightarrow> FieldDescriptorProto.name m \<noteq> None
     \<and> FieldDescriptorProto.number m \<noteq> None
     \<and> whole (the (FieldDescriptorProto.number m))
     \<and> FieldDescriptorProto.label m \<noteq> None
     \<and> FieldDescriptorProto_Label_known (the (FieldDescriptorProto.label m))
     \<and> FieldDescriptorProto.type' m \<noteq> None
     \<and> FieldDescriptorProto_Type_known (the (FieldDescriptorProto.type' m))
     \<and> FieldDescriptorProto.typeName m \<noteq> None
     \<and> FieldDescriptorProto.extendee m \<noteq> None
     \<and> FieldDescriptorProto.defaultValue m \<noteq> None
     \<and> FieldDescriptorProto.oneofIndex m \<noteq> None
     \<and> whole (the (FieldDescriptorProto.oneofIndex m))
     \<and> FieldDescriptorProto.jsonName m \<noteq> None
     \<and> pred_option wfj_FieldOptions (FieldDescriptorProto.options m)
     \<and> FieldDescriptorProto.proto3Optional m \<noteq> None"

subsection \<open>EnumValueDescriptorProto\<close>

record EnumValueDescriptorProto =
  name :: "jsstring option"
  number :: "number option"
  options :: "EnumValueOptions option"

definition createBase_EnumValueDescriptorProto :: EnumValueDescriptorProto where
  "createBase_EnumValueDescriptorProto = \<lparr>EnumValueDescriptorProto.name = Some [],
     EnumValueDescriptorProto.number = Some (Num 0),
     EnumValueDescriptorProto.options = None\<rparr>"

definition encode_EnumValueDescriptorProto :: "('w, 'r) wire \<Rightarrow> EnumValueDescriptorProto \<Rightarrow> 'w \<Rightarrow> 'w result" where
  "encode_EnumValueDescriptorProto L message = seqE
    [someE (EnumValueDescriptorProto.name message) (\<lambda>v. whenE (v \<noteq> []) (seqE [w_uint32 L 10, w_string L v])),
     someE (EnumValueDescriptorProto.number message) (\<lambda>v. whenE (v \<noteq> Num 0) (seqE [w_uint32 L 16, w_int32 L v])),
     someE (EnumValueDescriptorProto.options message) (\<lambda>v. seqE [w_uint32 L 26, w_fork L, encode_EnumValueOptions L v, w_join L])]"

definition EnumValueDescriptorProto_switch :: "('w, 'r) wire \<Rightarrow> u32 \<Rightarrow> EnumValueDescriptorProto \<Rightarrow> (EnumValueDescriptorProto, 'r) action" where
  "EnumValueDescriptorProto_switch L tag message = js_switch (drop_bit 3 tag)
    [(1, when_tag tag 10 (readf (r_string L) (\<lambda>v. message\<lparr>EnumValueDescriptorProto.name := Some v\<rparr>))),
     (2, when_tag tag 16 (readf (num32 (r_int32 L)) (\<lambda>v. message\<lparr>EnumValueDescriptorProto.number := Some v\<rparr>))),
     (3, when_tag tag 26 (readf (submsg L (decode_EnumValueOptions L)) (\<lambda>v. message\<lparr>EnumValueDescriptorProto.options := Some v\<rparr>)))]
    break_out"

definition decode_EnumValueDescriptorProto :: "('w, 'r) wire \<Rightarrow> 'r input \<Rightarrow> nat option \<Rightarrow> (EnumValueDescriptorProto \<times> 'r) result" where
  "decode_EnumValueDescriptorProto L = decode_msg L (EnumValueDescriptorProto_switch L) createBase_EnumValueDescriptorProto"

definition fromJSON_EnumValueDescriptorProto :: "host \<Rightarrow> jsval \<Rightarrow> EnumValueDescriptorProto result" where
  "fromJSON_EnumValueDescriptorProto h object =
     bindE (fieldE object ''name'' (stringE h) []) (\<lambda>v_name.
     bindE (fieldE object ''number'' (numberE h) (Num 0)) (\<lambda>v_number.
     bindE (optE object ''options'' (fromJSON_EnumValueOptions h)) (\<lambda>v_options.
     Inr \<lparr>EnumValueDescriptorProto.name = Some v_name, EnumValueDescriptorProto.number = Some v_number, EnumValueDescriptorProto.options = v_options\<rparr>)))"

definition toJSON_EnumValueDescriptorProto :: "host \<Rightarrow> EnumValueDescriptorProto \<Rightarrow> jsval result" where
  "toJSON_EnumValueDescriptorProto h message = objE
    [jdefE ''name'' (\<lambda>v. v \<noteq> []) (\<lambda>v. Inr (JString v)) (EnumValueDescriptorProto.name message),
     jdefE ''number'' (\<lambda>v. v \<noteq> Num 0) (\<lambda>v. Inr (JNumber (Math_round v))) (EnumValueDescriptorProto.number message),
     joptE ''options'' (toJSON_EnumValueOptions h) (EnumValueDescriptorProto.options message)]"

record EnumValueDescriptorProto_Partial =
  name :: "jsstring option"
  number :: "number option"
  options :: "EnumValueOptions_Partial option"

definition EnumValueDescriptorProto_empty :: EnumValueDescriptorProto_Partial where
  "EnumValueDescriptorProto_empty = \<lparr>EnumValueDescriptorProto_Partial.name = None, EnumValueDescriptorProto_Partial.number = None, EnumValueDescriptorProto_Partial.options = None\<rparr>"

definition fromPartial_EnumValueDescriptorProto :: "EnumValueDescriptorProto_Partial \<Rightarrow> EnumValueDescriptorProto" where
  "fromPartial_EnumValueDescriptorProto object = createBase_EnumValueDescriptorProto\<lparr>EnumValueDescriptorProto.name := Some (nullish (EnumValueDescriptorProto_Partial.name object) []),
     EnumValueDescriptorProto.number := Some (nullish (EnumValueDescriptorProto_Partial.number object) (Num 0)),
     EnumValueDescriptorProto.options := map_option fromPartial_EnumValueOptions (EnumValueDescriptorProto_Partial.options object)\<rparr>"

definition create_EnumValueDescriptorProto :: "EnumValueDescriptorProto_Partial option \<Rightarrow> EnumValueDescriptorProto" where
  "create_EnumValueDescriptorProto base = fromPartial_EnumValueDescriptorProto (nullish base EnumValueDescriptorProto_empty)"

text \<open>A message as a partial message.\<close>

definition partial_of_EnumValueDescriptorProto :: "EnumValueDescriptorProto \<Rightarrow> EnumValueDescriptorProto_Partial" where
  "partial_of_EnumValueDescriptorProto m =
     \<lparr>EnumValueDescriptorProto_Partial.name = EnumValueDescriptorProto.name m,
      EnumValueDescriptorProto_Partial.number = EnumValueDescriptorProto.number m,
      EnumValueDescriptorProto_Partial.options = map_option partial_of_EnumValueOptions (EnumValueDescriptorProto.options m)\<rparr>"

definition wf_EnumValueDescriptorProto :: "('w, 'r) wire \<Rightarrow> EnumValueDescriptorProto \<Rightarrow> bool" where
  "wf_EnumValueDescriptorProto L m \<longleftrightarrow> present wire_string (EnumValueDescriptorProto.name m)
     \<and> present int32_num (EnumValueDescriptorProto.number m)
     \<and> pred_option (\<lambda>v. wf_EnumValueOptions L v \<and> fits L (encode_EnumValueOptions L v)) (EnumValueDescriptorProto.options m)"

definition wfj_EnumValueDescriptorProto :: "EnumValueDescriptorProto \<Rightarrow> bool" where
  "wfj_EnumValueDescriptorProto m \<longleftrightarrow> EnumValueDescriptorProto.name m \<noteq> None
     \<and> EnumValueDescriptorProto.number m \<noteq> None
     \<and> whole (the (EnumValueDescriptorProto.number m))
     \<and> pred_option wfj_EnumValueOptions (EnumValueDescriptorProto.options m)"

subsection \<open>EnumDescriptorProto_EnumReservedRange\<close>

record EnumDescriptorProto_EnumReservedRange =
  start :: "number option"
  end' :: "number option"

definition createBase_EnumDescriptorProto_EnumReservedRange :: EnumDescriptorProto_EnumReservedRange where
  "createBase_EnumDescriptorProto_EnumReservedRange = \<lparr>EnumDescriptorProto_EnumReservedRange.start = Some (Num 0),
     EnumDescriptorProto_EnumReservedRange.end' = Some (Num 0)\<rparr>"

definition encode_EnumDescriptorProto_EnumReservedRange :: "('w, 'r) wire \<Rightarrow> EnumDescriptorProto_EnumReservedRange \<Rightarrow> 'w \<Rightarrow> 'w result" where
  "encode_EnumDescriptorProto_EnumReservedRange L message = seqE
    [someE (EnumDescriptorProto_EnumReservedRange.start message) (\<lambda>v. whenE (v \<noteq> Num 0) (seqE [w_uint32 L 8, w_int32 L v])),
     someE (EnumDescriptorProto_EnumReservedRange.end' message) (\<lambda>v. whenE (v \<noteq> Num 0) (seqE [w_uint32 L 16, w_int32 L v]))]"

definition EnumDescriptorProto_EnumReservedRange_switch :: "('w, 'r) wire \<Rightarrow> u32 \<Rightarrow> EnumDescriptorProto_EnumReservedRange \<Rightarrow> (EnumDescriptorProto_EnumReservedRange, 'r) action" where
  "EnumDescriptorProto_EnumReservedRange_switch L tag message = js_switch (drop_bit 3 tag)
    [(1, when_tag tag 8 (readf (num32 (r_int32 L)) (\<lambda>v. message\<lparr>EnumDescriptorProto_EnumReservedRange.start := Some v\<rparr>))),
     (2, when_tag tag 16 (readf (num32 (r_int32 L)) (\<lambda>v. message\<lparr>EnumDescriptorProto_EnumReservedRange.end' := Some v\<rparr>)))]
    break_out"

definition decode_EnumDescriptorProto_EnumReservedRange :: "('w, 'r) wire \<Rightarrow> 'r input \<Rightarrow> nat option \<Rightarrow> (EnumDescriptorProto_EnumReservedRange \<times> 'r) result" where
  "decode_EnumDescriptorProto_EnumReservedRange L = decode_msg L (EnumDescriptorProto_EnumReservedRange_switch L) createBase_EnumDescriptorProto_EnumReservedRange"

definition fromJSON_EnumDescriptorProto_EnumReservedRange :: "host \<Rightarrow> jsval \<Rightarrow> EnumDescriptorProto_EnumReservedRange result" where
  "fromJSON_EnumDescriptorProto_EnumReservedRange h object =
     bindE (fieldE object ''start'' (numberE h) (Num 0)) (\<lambda>v_start.
     bindE (fieldE object ''end'' (numberE h) (Num 0)) (\<lambda>v_end.
     Inr \<lparr>EnumDescriptorProto_EnumReservedRange.start = Some v_start, EnumDescriptorProto_EnumReservedRange.end' = Some v_end\<rparr>))"

definition toJSON_EnumDescriptorProto_EnumReservedRange :: "host \<Rightarrow> EnumDescriptorProto_EnumReservedRange \<Rightarrow> jsval result" where
  "toJSON_EnumDescriptorProto_EnumReservedRange h message = objE
    [jdefE ''start'' (\<lambda>v. v \<noteq> Num 0) (\<lambda>v. Inr (JNumber (Math_round v))) (EnumDescriptorProto_EnumReservedRange.start message),
     jdefE ''end'' (\<lambda>v. v \<noteq> Num 0) (\<lambda>v. Inr (JNumber (Math_round v))) (EnumDescriptorProto_EnumReservedRange.end' message)]"

record EnumDescriptorProto_EnumReservedRange_Partial =
  start :: "number option"
  end' :: "number option"

definition EnumDescriptorProto_EnumReservedRange_empty :: EnumDescriptorProto_EnumReservedRange_Partial where
  "EnumDescriptorProto_EnumReservedRange_empty = \<lparr>EnumDescriptorProto_EnumReservedRange_Partial.start = None, EnumDescriptorProto_EnumReservedRange_Partial.end' = None\<rparr>"

definition fromPartial_EnumDescriptorProto_EnumReservedRange :: "EnumDescriptorProto_EnumReservedRange_Partial \<Rightarrow> EnumDescriptorProto_EnumReservedRange" where
  "fromPartial_EnumDescriptorProto_EnumReservedRange object = createBase_EnumDescriptorProto_EnumReservedRange\<lparr>EnumDescriptorProto_EnumReservedRange.start := Some (nullish (EnumDescriptorProto_EnumReservedRange_Partial.start object) (Num 0)),
     EnumDescriptorProto_EnumReservedRange.end' := Some (nullish (EnumDescriptorProto_EnumReservedRange_Partial.end' object) (Num 0))\<rparr>"

definition create_EnumDescriptorProto_EnumReservedRange :: "EnumDescriptorProto_EnumReservedRange_Partial option \<Rightarrow> EnumDescriptorProto_EnumReservedRange" where
  "create_EnumDescriptorProto_EnumReservedRange base = fromPartial_EnumDescriptorProto_EnumReservedRange (nullish base EnumDescriptorProto_EnumReservedRange_empty)"

text \<open>A message as a partial message.\<close>

definition partial_of_EnumDescriptorProto_EnumReservedRange :: "EnumDescriptorProto_EnumReservedRange \<Rightarrow> EnumDescriptorProto_EnumReservedRange_Partial" where
  "partial_of_EnumDescriptorProto_EnumReservedRange m =
     \<lparr>EnumDescriptorProto_EnumReservedRange_Partial.start = EnumDescriptorProto_EnumReservedRange.start m,
      EnumDescriptorProto_EnumReservedRange_Partial.end' = EnumDescriptorProto_EnumReservedRange.end' m\<rparr>"

definition wf_EnumDescriptorProto_EnumReservedRange :: "('w, 'r) wire \<Rightarrow> EnumDescriptorProto_EnumReservedRange \<Rightarrow> bool" where
  "wf_EnumDescriptorProto_EnumReservedRange L m \<longleftrightarrow> present int32_num (EnumDescriptorProto_EnumReservedRange.start m)
     \<and> present int32_num (EnumDescriptorProto_EnumReservedRange.end' m)"

definition wfj_EnumDescriptorProto_EnumReservedRange :: "EnumDescriptorProto_EnumReservedRange \<Rightarrow> bool" where
  "wfj_EnumDescriptorProto_EnumReservedRange m \<longleftrightarrow> EnumDescriptorProto_EnumReservedRange.start m \<noteq> None
     \<and> whole (the (EnumDescriptorProto_EnumReservedRange.start m))
     \<and> EnumDescriptorProto_EnumReservedRange.end' m \<noteq> None
     \<and> whole (the (EnumDescriptorProto_EnumReservedRange.end' m))"

subsection \<open>EnumDescriptorProto\<close>

record EnumDescriptorProto =
  name :: "jsstring option"
  value' :: "EnumValueDescriptorProto list"
  options :: "EnumOptions option"
  reservedRange :: "EnumDescriptorProto_EnumReservedRange list"
  reservedName :: "jsstring list"

definition createBase_EnumDescriptorProto :: EnumDescriptorProto where
  "createBase_EnumDescriptorProto = \<lparr>EnumDescriptorProto.name = Some [],
     EnumDescriptorProto.value' = [],
     EnumDescriptorProto.options = None,
     EnumDescriptorProto.reservedRange = [],
     EnumDescriptorProto.reservedName = []\<rparr>"

definition encode_EnumDescriptorProto :: "('w, 'r) wire \<Rightarrow> EnumDescriptorProto \<Rightarrow> 'w \<Rightarrow> 'w result" where
  "encode_EnumDescriptorProto L message = seqE
    [someE (EnumDescriptorProto.name message) (\<lambda>v. whenE (v \<noteq> []) (seqE [w_uint32 L 10, w_string L v])),
     forE (\<lambda>v. seqE [w_uint32 L 18, w_fork L, encode_EnumValueDescriptorProto L v, w_join L]) (EnumDescriptorProto.value' message),
     someE (EnumDescriptorProto.options message) (\<lambda>v. seqE [w_uint32 L 26, w_fork L, encode_EnumOptions L v, w_join L]),
     forE (\<lambda>v. seqE [w_uint32 L 34, w_fork L, encode_EnumDescriptorProto_EnumReservedRange L v, w_join L]) (EnumDescriptorProto.reservedRange message),
     forE (\<lambda>v. seqE [w_uint32 L 42, w_string L v]) (EnumDescriptorProto.reservedName message)]"

definition EnumDescriptorProto_switch :: "('w, 'r) wire \<Rightarrow> u32 \<Rightarrow> EnumDescriptorProto \<Rightarrow> (EnumDescriptorProto, 'r) action" where
  "EnumDescriptorProto_switch L tag message = js_switch (drop_bit 3 tag)
    [(1, when_tag tag 10 (readf (r_string L) (\<lambda>v. message\<lparr>EnumDescriptorProto.name := Some v\<rparr>))),
     (2, when_tag tag 18 (readf (submsg L (decode_EnumValueDescriptorProto L)) (\<lambda>v. message\<lparr>EnumDescriptorProto.value' := EnumDescriptorProto.value' message @ [v]\<rparr>))),
     (3, when_tag tag 26 (readf (submsg L (decode_EnumOptions L)) (\<lambda>v. message\<lparr>EnumDescriptorProto.options := Some v\<rparr>))),
     (4, when_tag tag 34 (readf (submsg L (decode_EnumDescriptorProto_EnumReservedRange L)) (\<lambda>v. message\<lparr>EnumDescriptorProto.reservedRange := EnumDescriptorProto.reservedRange message @ [v]\<rparr>))),
     (5, when_tag tag 42 (readf (r_string L) (\<lambda>v. message\<lparr>EnumDescriptorProto.reservedName := EnumDescriptorProto.reservedName message @ [v]\<rparr>)))]
    break_out"

definition decode_EnumDescriptorProto :: "('w, 'r) wire \<Rightarrow> 'r input \<Rightarrow> nat option \<Rightarrow> (EnumDescriptorProto \<times> 'r) result" where
  "decode_EnumDescriptorProto L = decode_msg L (EnumDescriptorProto_switch L) createBase_EnumDescriptorProto"

definition fromJSON_EnumDescriptorProto :: "host \<Rightarrow> jsval \<Rightarrow> EnumDescriptorProto result" where
  "fromJSON_EnumDescriptorProto h object =
     bindE (fieldE object ''name'' (stringE h) []) (\<lambda>v_name.
     bindE (arrayE object ''value'' (fromJSON_EnumValueDescriptorProto h)) (\<lambda>v_value.
     bindE (optE object ''options'' (fromJSON_EnumOptions h)) (\<lambda>v_options.
     bindE (arrayE object ''reservedRange'' (fromJSON_EnumDescriptorProto_EnumReservedRange h)) (\<lambda>v_reservedRange.
     bindE (arrayE object ''reservedName'' (stringE h)) (\<lambda>v_reservedName.
     Inr \<lparr>EnumDescriptorProto.name = Some v_name, EnumDescriptorProto.value' = v_value, EnumDescriptorProto.options = v_options, EnumDescriptorProto.reservedRange = v_reservedRange, EnumDescriptorProto.reservedName = v_reservedName\<rparr>)))))"

definition toJSON_EnumDescriptorProto :: "host \<Rightarrow> EnumDescriptorProto \<Rightarrow> jsval result" where
  "toJSON_EnumDescriptorProto h message = objE
    [jdefE ''name'' (\<lambda>v. v \<noteq> []) (\<lambda>v. Inr (JString v)) (EnumDescriptorProto.name message),
     jarrayE ''value'' (toJSON_EnumValueDescriptorProto h) (EnumDescriptorProto.value' message),
     joptE ''options'' (toJSON_EnumOptions h) (EnumDescriptorProto.options message),
     jarrayE ''reservedRange'' (toJSON_EnumDescriptorProto_EnumReservedRange h) (EnumDescriptorProto.reservedRange message),
     jarrayE ''reservedName'' (\<lambda>e. Inr (JString e)) (EnumDescriptorProto.reservedName message)]"

record EnumDescriptorProto_Partial =
  name :: "jsstring option"
  value' :: "EnumValueDescriptorProto_Partial list option"
  options :: "EnumOptions_Partial option"
  reservedRange :: "EnumDescriptorProto_EnumReservedRange_Partial list option"
  reservedName :: "jsstring list option"

definition EnumDescriptorProto_empty :: EnumDescriptorProto_Partial where
  "EnumDescriptorProto_empty = \<lparr>EnumDescriptorProto_Partial.name = None, EnumDescriptorProto_Partial.value' = None, EnumDescriptorProto_Partial.options = None, EnumDescriptorProto_Partial.reservedRange = None, EnumDescriptorProto_Partial.reservedName = None\<rparr>"

definition fromPartial_EnumDescriptorProto :: "EnumDescriptorProto_Partial \<Rightarrow> EnumDescriptorProto" where
  "fromPartial_EnumDescriptorProto object = createBase_EnumDescriptorProto\<lparr>EnumDescriptorProto.name := Some (nullish (EnumDescriptorProto_Partial.name object) []),
     EnumDescriptorProto.value' := partial_map fromPartial_EnumValueDescriptorProto (EnumDescriptorProto_Partial.value' object),
     EnumDescriptorProto.options := map_option fromPartial_EnumOptions (EnumDescriptorProto_Partial.options object),
     EnumDescriptorProto.reservedRange := partial_map fromPartial_EnumDescriptorProto_EnumReservedRange (EnumDescriptorProto_Partial.reservedRange object),
     EnumDescriptorProto.reservedName := partial_map (\<lambda>e. e) (EnumDescriptorProto_Partial.reservedName object)\<rparr>"

definition create_EnumDescriptorProto :: "EnumDescriptorProto_Partial option \<Rightarrow> EnumDescriptorProto" where
  "create_EnumDescriptorProto base = fromPartial_EnumDescriptorProto (nullish base EnumDescriptorProto_empty)"

text \<open>A message as a partial message.\<close>

definition partial_of_EnumDescriptorProto :: "EnumDescriptorProto \<Rightarrow> EnumDescriptorProto_Partial" where
  "partial_of_EnumDescriptorProto m =
     \<lparr>EnumDescriptorProto_Partial.name = EnumDescriptorProto.name m,
      EnumDescriptorProto_Partial.value' = Some (map partial_of_EnumValueDescriptorProto (EnumDescriptorProto.value' m)),
      EnumDescriptorProto_Partial.options = map_option partial_of_EnumOptions (EnumDescriptorProto.options m),
      EnumDescriptorProto_Partial.reservedRange = Some (map partial_of_EnumDescriptorProto_EnumReservedRange (EnumDescriptorProto.reservedRange m)),
      EnumDescriptorProto_Partial.reservedName = Some (EnumDescriptorProto.reservedName m)\<rparr>"

definition wf_EnumDescriptorProto :: "('w, 'r) wire \<Rightarrow> EnumDescriptorProto \<Rightarrow> bool" where
  "wf_EnumDescriptorProto L m \<longleftrightarrow> present wire_string (EnumDescriptorProto.name m)
     \<and> list_all (\<lambda>v. wf_EnumValueDescriptorProto L v \<and> fits L (encode_EnumValueDescriptorProto L v)) (EnumDescriptorProto.value' m)
     \<and> pred_option (\<lambda>v. wf_EnumOptions L v \<and> fits L (encode_EnumOptions L v)) (EnumDescriptorProto.options m)
     \<and> list_all (\<lambda>v. wf_EnumDescriptorProto_EnumReservedRange L v \<and> fits L (encode_EnumDescriptorProto_EnumReservedRange L v)) (EnumDescriptorProto.reservedRange m)
     \<and> list_all wire_string (EnumDescriptorProto.reservedName m)"

definition wfj_EnumDescriptorProto :: "EnumDescriptorProto \<Rightarrow> bool" where
  "wfj_EnumDescriptorProto m \<longleftrightarrow> EnumDescriptorProto.name m \<noteq> None
     \<and> list_all wfj_EnumValueDescriptorProto (EnumDescriptorProto.value' m)
     \<and> pred_option wfj_EnumOptions (EnumDescriptorProto.options m)
     \<and> list_all wfj_EnumDescriptorProto_EnumReservedRange (EnumDescriptorProto.reservedRange m)"

subsection \<open>DescriptorProto_ExtensionRange\<close>

record DescriptorProto_ExtensionRange =
  start :: "number option"
  end' :: "number option"
  options :: "ExtensionRangeOptions option"

definition createBase_DescriptorProto_ExtensionRange :: DescriptorProto_ExtensionRange where
  "createBase_DescriptorProto_ExtensionRange = \<lparr>DescriptorProto_ExtensionRange.start = Some (Num 0),
     DescriptorProto_ExtensionRange.end' = Some (Num 0),
     DescriptorProto_ExtensionRange.options = None\<rparr>"

definition encode_DescriptorProto_ExtensionRange :: "('w, 'r) wire \<Rightarrow> DescriptorProto_ExtensionRange \<Rightarrow> 'w \<Rightarrow> 'w result" where
  "encode_DescriptorProto_ExtensionRange L message = seqE
    [someE (DescriptorProto_ExtensionRange.start message) (\<lambda>v. whenE (v \<noteq> Num 0) (seqE [w_uint32 L 8, w_int32 L v])),
     someE (DescriptorProto_ExtensionRange.end' message) (\<lambda>v. whenE (v \<noteq> Num 0) (seqE [w_uint32 L 16, w_int32 L v])),
     someE (DescriptorProto_ExtensionRange.options message) (\<lambda>v. seqE [w_uint32 L 26, w_fork L, encode_ExtensionRangeOptions L v, w_join L])]"

definition DescriptorProto_ExtensionRange_switch :: "('w, 'r) wire \<Rightarrow> u32 \<Rightarrow> DescriptorProto_ExtensionRange \<Rightarrow> (DescriptorProto_ExtensionRange, 'r) action" where
  "DescriptorProto_ExtensionRange_switch L tag message = js_switch (drop_bit 3 tag)
    [(1, when_tag tag 8 (readf (num32 (r_int32 L)) (\<lambda>v. message\<lparr>DescriptorProto_ExtensionRange.start := Some v\<rparr>))),
     (2, when_tag tag 16 (readf (num32 (r_int32 L)) (\<lambda>v. message\<lparr>DescriptorProto_ExtensionRange.end' := Some v\<rparr>))),
     (3, when_tag tag 26 (readf (submsg L (decode_ExtensionRangeOptions L)) (\<lambda>v. message\<lparr>DescriptorProto_ExtensionRange.options := Some v\<rparr>)))]
    break_out"

definition decode_DescriptorProto_ExtensionRange :: "('w, 'r) wire \<Rightarrow> 'r input \<Rightarrow> nat option \<Rightarrow> (DescriptorProto_ExtensionRange \<times> 'r) result" where
  "decode_DescriptorProto_ExtensionRange L = decode_msg L (DescriptorProto_ExtensionRange_switch L) createBase_DescriptorProto_ExtensionRange"

definition fromJSON_DescriptorProto_ExtensionRange :: "host \<Rightarrow> jsval \<Rightarrow> DescriptorProto_ExtensionRange result" where
  "fromJSON_DescriptorProto_ExtensionRange h object =
     bindE (fieldE object ''start'' (numberE h) (Num 0)) (\<lambda>v_start.
     bindE (fieldE object ''end'' (numberE h) (Num 0)) (\<lambda>v_end.
     bindE (optE object ''options'' (fromJSON_ExtensionRangeOptions h)) (\<lambda>v_options.
     Inr \<lparr>DescriptorProto_ExtensionRange.start = Some v_start, DescriptorProto_ExtensionRange.end' = Some v_end, DescriptorProto_ExtensionRange.options = v_options\<rparr>)))"

definition toJSON_DescriptorProto_ExtensionRange :: "host \<Rightarrow> DescriptorProto_ExtensionRange \<Rightarrow> jsval result" where
  "toJSON_DescriptorProto_ExtensionRange h message = objE
    [jdefE ''start'' (\<lambda>v. v \<noteq> Num 0) (\<lambda>v. Inr (JNumber (Math_round v))) (DescriptorProto_ExtensionRange.start message),
     jdefE ''end'' (\<lambda>v. v \<noteq> Num 0) (\<lambda>v. Inr (JNumber (Math_round v))) (DescriptorProto_ExtensionRange.end' message),
     joptE ''options'' (toJSON_ExtensionRangeOptions h) (DescriptorProto_ExtensionRange.options message)]"

record DescriptorProto_ExtensionRange_Partial =
  start :: "number option"
  end' :: "number option"
  options :: "ExtensionRangeOptions_Partial option"

definition DescriptorProto_ExtensionRange_empty :: DescriptorProto_ExtensionRange_Partial where
  "DescriptorProto_ExtensionRange_empty = \<lparr>DescriptorProto_ExtensionRange_Partial.start = None, DescriptorProto_ExtensionRange_Partial.end' = None, DescriptorProto_ExtensionRange_Partial.options = None\<rparr>"

definition fromPartial_DescriptorProto_ExtensionRange :: "DescriptorProto_ExtensionRange_Partial \<Rightarrow> DescriptorProto_ExtensionRange" where
  "fromPartial_DescriptorProto_ExtensionRange object = createBase_DescriptorProto_ExtensionRange\<lparr>DescriptorProto_ExtensionRange.start := Some (nullish (DescriptorProto_ExtensionRange_Partial.start object) (Num 0)),
     DescriptorProto_ExtensionRange.end' := Some (nullish (DescriptorProto_ExtensionRange_Partial.end' object) (Num 0)),
     DescriptorProto_ExtensionRange.options := map_option fromPartial_ExtensionRangeOptions (DescriptorProto_ExtensionRange_Partial.options object)\<rparr>"

definition create_DescriptorProto_ExtensionRange :: "DescriptorProto_ExtensionRange_Partial option \<Rightarrow> DescriptorProto_ExtensionRange" where
  "create_DescriptorProto_ExtensionRange base = fromPartial_DescriptorProto_ExtensionRange (nullish base DescriptorProto_ExtensionRange_empty)"

text \<open>A message as a partial message.\<close>

definition partial_of_DescriptorProto_ExtensionRange :: "DescriptorProto_ExtensionRange \<Rightarrow> DescriptorProto_ExtensionRange_Partial" where
  "partial_of_DescriptorProto_ExtensionRange m =
     \<lparr>DescriptorProto_ExtensionRange_Partial.start = DescriptorProto_ExtensionRange.start m,
      DescriptorProto_ExtensionRange_Partial.end' = DescriptorProto_ExtensionRange.end' m,
      DescriptorProto_ExtensionRange_Partial.options = map_option partial_of_ExtensionRangeOptions (DescriptorProto_ExtensionRange.options m)\<rparr>"

definition wf_DescriptorProto_ExtensionRange :: "('w, 'r) wire \<Rightarrow> DescriptorProto_ExtensionRange \<Rightarrow> bool" where
  "wf_DescriptorProto_ExtensionRange L m \<longleftrightarrow> present int32_num (DescriptorProto_ExtensionRange.start m)
     \<and> present int32_num (DescriptorProto_ExtensionRange.end' m)
     \<and> pred_option (\<lambda>v. wf_ExtensionRangeOptions L v \<and> fits L (encode_ExtensionRangeOptions L v)) (DescriptorProto_ExtensionRange.options m)"

definition wfj_DescriptorProto_ExtensionRange :: "DescriptorProto_ExtensionRange \<Rightarrow> bool" where
  "wfj_DescriptorProto_ExtensionRange m \<longleftrightarrow> DescriptorProto_ExtensionRange.start m \<noteq> None
     \<and> whole (the (DescriptorProto_ExtensionRange.start m))
     \<and> DescriptorProto_ExtensionRange.end' m \<noteq> None
     \<and> whole (the (DescriptorProto_ExtensionRange.end' m))
     \<and> pred_option wfj_ExtensionRangeOptions (DescriptorProto_ExtensionRange.options m)"

subsection \<open>OneofDescriptorProto\<close>

record OneofDescriptorProto =
  name :: "jsstring option"
  options :: "OneofOptions option"

definition createBase_OneofDescriptorProto :: OneofDescriptorProto where
  "createBase_OneofDescriptorProto = \<lparr>OneofDescriptorProto.name = Some [],
     OneofDescriptorProto.options = None\<rparr>"

definition encode_OneofDescriptorProto :: "('w, 'r) wire \<Rightarrow> OneofDescriptorProto \<Rightarrow> 'w \<Rightarrow> 'w result" where
  "encode_OneofDescriptorProto L message = seqE
    [someE (OneofDescriptorProto.name message) (\<lambda>v. whenE (v \<noteq> []) (seqE [w_uint32 L 10, w_string L v])),
     someE (OneofDescriptorProto.options message) (\<lambda>v. seqE [w_uint32 L 18, w_fork L, encode_OneofOptions L v, w_join L])]"

definition OneofDescriptorProto_switch :: "('w, 'r) wire \<Rightarrow> u32 \<Rightarrow> OneofDescriptorProto \<Rightarrow> (OneofDescriptorProto, 'r) action" where
  "OneofDescriptorProto_switch L tag message = js_switch (drop_bit 3 tag)
    [(1, when_tag tag 10 (readf (r_string L) (\<lambda>v. message\<lparr>OneofDescriptorProto.name := Some v\<rparr>))),
     (2, when_tag tag 18 (readf (submsg L (decode_OneofOptions L)) (\<lambda>v. message\<lparr>OneofDescriptorProto.options := Some v\<rparr>)))]
    break_out"

definition decode_OneofDescriptorProto :: "('w, 'r) wire \<Rightarrow> 'r input \<Rightarrow> nat option \<Rightarrow> (OneofDescriptorProto \<times> 'r) result" where
  "decode_OneofDescriptorProto L = decode_msg L (OneofDescriptorProto_switch L) createBase_OneofDescriptorProto"

definition fromJSON_OneofDescriptorProto :: "host \<Rightarrow> jsval \<Rightarrow> OneofDescriptorProto result" where
  "fromJSON_OneofDescriptorProto h object =
     bindE (fieldE object ''name'' (stringE h) []) (\<lambda>v_name.
     bindE (optE object ''options'' (fromJSON_OneofOptions h)) (\<lambda>v_options.
     Inr \<lparr>OneofDescriptorProto.name = Some v_name, OneofDescriptorProto.options = v_options\<rparr>))"

definition toJSON_OneofDescriptorProto :: "host \<Rightarrow> OneofDescriptorProto \<Rightarrow> jsval result" where
  "toJSON_OneofDescriptorProto h message = objE
    [jdefE ''name'' (\<lambda>v. v \<noteq> []) (\<lambda>v. Inr (JString v)) (OneofDescriptorProto.name message),
     joptE ''options'' (toJSON_OneofOptions h) (OneofDescriptorProto.options message)]"

record OneofDescriptorProto_Partial =
  name :: "jsstring option"
  options :: "OneofOptions_Partial option"

definition OneofDescriptorProto_empty :: OneofDescriptorProto_Partial where
  "OneofDescriptorProto_empty = \<lparr>OneofDescriptorProto_Partial.name = None, OneofDescriptorProto_Partial.options = None\<rparr>"

definition fromPartial_OneofDescriptorProto :: "OneofDescriptorProto_Partial \<Rightarrow> OneofDescriptorProto" where
  "fromPartial_OneofDescriptorProto object = createBase_OneofDescriptorProto\<lparr>OneofDescriptorProto.name := Some (nullish (OneofDescriptorProto_Partial.name object) []),
     OneofDescriptorProto.options := map_option fromPartial_OneofOptions (OneofDescriptorProto_Partial.options object)\<rparr>"

definition create_OneofDescriptorProto :: "OneofDescriptorProto_Partial option \<Rightarrow> OneofDescriptorProto" where
  "create_OneofDescriptorProto base = fromPartial_OneofDescriptorProto (nullish base OneofDescriptorProto_empty)"

text \<open>A message as a partial message.\<close>

definition partial_of_OneofDescriptorProto :: "OneofDescriptorProto \<Rightarrow> OneofDescriptorProto_Partial" where
  "partial_of_OneofDescriptorProto m =
     \<lparr>OneofDescriptorProto_Partial.name = OneofDescriptorProto.name m,
      OneofDescriptorProto_Partial.options = map_option partial_of_OneofOptions (OneofDescriptorProto.options m)\<rparr>"

definition wf_OneofDescriptorProto :: "('w, 'r) wire \<Rightarrow> OneofDescriptorProto \<Rightarrow> bool" where
  "wf_OneofDescriptorProto L m \<longleftrightarrow> present wire_string (OneofDescriptorProto.name m)
     \<and> pred_option (\<lambda>v. wf_OneofOptions L v \<and> fits L (encode_OneofOptions L v)) (OneofDescriptorProto.options m)"

definition wfj_OneofDescriptorProto :: "OneofDescriptorProto \<Rightarrow> bool" where
  "wfj_OneofDescriptorProto m \<longleftrightarrow> OneofDescriptorProto.name m \<noteq> None
     \<and> pred_option wfj_OneofOptions (OneofDescriptorProto.options m)"

subsection \<open>DescriptorProto_ReservedRange\<close>

record DescriptorProto_ReservedRange =
  start :: "number option"
  end' :: "number option"

definition createBase_DescriptorProto_ReservedRange :: DescriptorProto_ReservedRange where
  "createBase_DescriptorProto_ReservedRange = \<lparr>DescriptorProto_ReservedRange.start = Some (Num 0),
     DescriptorProto_ReservedRange.end' = Some (Num 0)\<rparr>"

definition encode_DescriptorProto_ReservedRange :: "('w, 'r) wire \<Rightarrow> DescriptorProto_ReservedRange \<Rightarrow> 'w \<Rightarrow> 'w result" where
  "encode_DescriptorProto_ReservedRange L message = seqE
    [someE (DescriptorProto_ReservedRange.start message) (\<lambda>v. whenE (v \<noteq> Num 0) (seqE [w_uint32 L 8, w_int32 L v])),
     someE (DescriptorProto_ReservedRange.end' message) (\<lambda>v. whenE (v \<noteq> Num 0) (seqE [w_uint32 L 16, w_int32 L v]))]"

definition DescriptorProto_ReservedRange_switch :: "('w, 'r) wire \<Rightarrow> u32 \<Rightarrow> DescriptorProto_ReservedRange \<Rightarrow> (DescriptorProto_ReservedRange, 'r) action" where
  "DescriptorProto_ReservedRange_switch L tag message = js_switch (drop_bit 3 tag)
    [(1, when_tag tag 8 (readf (num32 (r_int32 L)) (\<lambda>v. message\<lparr>DescriptorProto_ReservedRange.start := Some v\<rparr>))),
     (2, when_tag tag 16 (readf (num32 (r_int32 L)) (\<lambda>v. message\<lparr>DescriptorProto_ReservedRange.end' := Some v\<rparr>)))]
    break_out"

definition decode_DescriptorProto_ReservedRange :: "('w, 'r) wire \<Rightarrow> 'r input \<Rightarrow> nat option \<Rightarrow> (DescriptorProto_ReservedRange \<times> 'r) result" where
  "decode_DescriptorProto_ReservedRange L = decode_msg L (DescriptorProto_ReservedRange_switch L) createBase_DescriptorProto_ReservedRange"

definition fromJSON_DescriptorProto_ReservedRange :: "host \<Rightarrow> jsval \<Rightarrow> DescriptorProto_ReservedRange result" where
  "fromJSON_DescriptorProto_ReservedRange h object =
     bindE (fieldE object ''start'' (numberE h) (Num 0)) (\<lambda>v_start.
     bindE (fieldE object ''end'' (numberE h) (Num 0)) (\<lambda>v_end.
     Inr \<lparr>DescriptorProto_ReservedRange.start = Some v_start, DescriptorProto_ReservedRange.end' = Some v_end\<rparr>))"

definition toJSON_DescriptorProto_ReservedRange :: "host \<Rightarrow> DescriptorProto_ReservedRange \<Rightarrow> jsval result" where
  "toJSON_DescriptorProto_ReservedRange h message = objE
    [jdefE ''start'' (\<lambda>v. v \<noteq> Num 0) (\<lambda>v. Inr (JNumber (Math_round v))) (DescriptorProto_ReservedRange.start message),
     jdefE ''end'' (\<lambda>v. v \<noteq> Num 0) (\<lambda>v. Inr (JNumber (Math_round v))) (DescriptorProto_ReservedRange.end' message)]"

record DescriptorProto_ReservedRange_Partial =
  start :: "number option"
  end' :: "number option"

definition DescriptorProto_ReservedRange_empty :: DescriptorProto_ReservedRange_Partial where
  "DescriptorProto_ReservedRange_empty = \<lparr>DescriptorProto_ReservedRange_Partial.start = None, DescriptorProto_ReservedRange_Partial.end' = None\<rparr>"

definition fromPartial_DescriptorProto_ReservedRange :: "DescriptorProto_ReservedRange_Partial \<Rightarrow> DescriptorProto_ReservedRange" where
  "fromPartial_DescriptorProto_ReservedRange object = createBase_DescriptorProto_ReservedRange\<lparr>DescriptorProto_ReservedRange.start := Some (nullish (DescriptorProto_ReservedRange_Partial.start object) (Num 0)),
     DescriptorProto_ReservedRange.end' := Some (nullish (DescriptorProto_ReservedRange_Partial.end' object) (Num 0))\<rparr>"

definition create_DescriptorProto_ReservedRange :: "DescriptorProto_ReservedRange_Partial option \<Rightarrow> DescriptorProto_ReservedRange" where
  "create_DescriptorProto_ReservedRange base = fromPartial_DescriptorProto_ReservedRange (nullish base DescriptorProto_ReservedRange_empty)"

text \<open>A message as a partial message.\<close>

definition partial_of_DescriptorProto_ReservedRange :: "DescriptorProto_ReservedRange \<Rightarrow> DescriptorProto_ReservedRange_Partial" where
  "partial_of_DescriptorProto_ReservedRange m =
     \<lparr>DescriptorProto_ReservedRange_Partial.start = DescriptorProto_ReservedRange.start m,
      DescriptorProto_ReservedRange_Partial.end' = DescriptorProto_ReservedRange.end' m\<rparr>"

definition wf_DescriptorProto_ReservedRange :: "('w, 'r) wire \<Rightarrow> DescriptorProto_ReservedRange \<Rightarrow> bool" where
  "wf_DescriptorProto_ReservedRange L m \<longleftrightarrow> present int32_num (DescriptorProto_ReservedRange.start m)
     \<and> present int32_num (DescriptorProto_ReservedRange.end' m)"

definition wfj_DescriptorProto_ReservedRange :: "DescriptorProto_ReservedRange \<Rightarrow> bool" where
  "wfj_DescriptorProto_ReservedRange m \<longleftrightarrow> DescriptorProto_ReservedRange.start m \<noteq> None
     \<and> whole (the (DescriptorProto_ReservedRange.start m))
     \<and> DescriptorProto_ReservedRange.end' m \<noteq> None
     \<and> whole (the (DescriptorProto_ReservedRange.end' m))"

subsection \<open>MethodDescriptorProto\<close>

record MethodDescriptorProto =
  name :: "jsstring option"
  inputType :: "jsstring option"
  outputType :: "jsstring option"
  options :: "MethodOptions option"
  clientStreaming :: "bool option"
  serverStreaming :: "bool option"

definition createBase_MethodDescriptorProto :: MethodDescriptorProto where
  "createBase_MethodDescriptorProto = \<lparr>MethodDescriptorProto.name = Some [],
     MethodDescriptorProto.inputType = Some [],
     MethodDescriptorProto.outputType = Some [],
     MethodDescriptorProto.options = None,
     MethodDescriptorProto.clientStreaming = Some False,
     MethodDescriptorProto.serverStreaming = Some False\<rparr>"

definition encode_MethodDescriptorProto :: "('w, 'r) wire \<Rightarrow> MethodDescriptorProto \<Rightarrow> 'w \<Rightarrow> 'w result" where
  "encode_MethodDescriptorProto L message = seqE
    [someE (MethodDescriptorProto.name message) (\<lambda>v. whenE (v \<noteq> []) (seqE [w_uint32 L 10, w_string L v])),
     someE (MethodDescriptorProto.inputType message) (\<lambda>v. whenE (v \<noteq> []) (seqE [w_uint32 L 18, w_string L v])),
     someE (MethodDescriptorProto.outputType message) (\<lambda>v. whenE (v \<noteq> []) (seqE [w_uint32 L 26, w_string L v])),
     someE (MethodDescriptorProto.options message) (\<lambda>v. seqE [w_uint32 L 34, w_fork L, encode_MethodOptions L v, w_join L]),
     someE (MethodDescriptorProto.clientStreaming message) (\<lambda>v. whenE (v \<noteq> False) (seqE [w_uint32 L 40, w_bool L v])),
     someE (MethodDescriptorProto.serverStreaming message) (\<lambda>v. whenE (v \<noteq> False) (seqE [w_uint32 L 48, w_bool L v]))]"

definition MethodDescriptorProto_switch :: "('w, 'r) wire \<Rightarrow> u32 \<Rightarrow> MethodDescriptorProto \<Rightarrow> (MethodDescriptorProto, 'r) action" where
  "MethodDescriptorProto_switch L tag message = js_switch (drop_bit 3 tag)
    [(1, when_tag tag 10 (readf (r_string L) (\<lambda>v. message\<lparr>MethodDescriptorProto.name := Some v\<rparr>))),
     (2, when_tag tag 18 (readf (r_string L) (\<lambda>v. message\<lparr>MethodDescriptorProto.inputType := Some v\<rparr>))),
     (3, when_tag tag 26 (readf (r_string L) (\<lambda>v. message\<lparr>MethodDescriptorProto.outputType := Some v\<rparr>))),
     (4, when_tag tag 34 (readf (submsg L (decode_MethodOptions L)) (\<lambda>v. message\<lparr>MethodDescriptorProto.options := Some v\<rparr>))),
     (5, when_tag tag 40 (readf (r_bool L) (\<lambda>v. message\<lparr>MethodDescriptorProto.clientStreaming := Some v\<rparr>))),
     (6, when_tag tag 48 (readf (r_bool L) (\<lambda>v. message\<lparr>MethodDescriptorProto.serverStreaming := Some v\<rparr>)))]
    break_out"

definition decode_MethodDescriptorProto :: "('w, 'r) wire \<Rightarrow> 'r input \<Rightarrow> nat option \<Rightarrow> (MethodDescriptorProto \<times> 'r) result" where
  "decode_MethodDescriptorProto L = decode_msg L (MethodDescriptorProto_switch L) createBase_MethodDescriptorProto"

definition fromJSON_MethodDescriptorProto :: "host \<Rightarrow> jsval \<Rightarrow> MethodDescriptorProto result" where
  "fromJSON_MethodDescriptorProto h object =
     bindE (fieldE object ''name'' (stringE h) []) (\<lambda>v_name.
     bindE (fieldE object ''inputType'' (stringE h) []) (\<lambda>v_inputType.
     bindE (fieldE object ''outputType'' (stringE h) []) (\<lambda>v_outputType.
     bindE (optE object ''options'' (fromJSON_MethodOptions h)) (\<lambda>v_options.
     bindE (fieldE object ''clientStreaming'' booleanE False) (\<lambda>v_clientStreaming.
     bindE (fieldE object ''serverStreaming'' booleanE False) (\<lambda>v_serverStreaming.
     Inr \<lparr>MethodDescriptorProto.name = Some v_name, MethodDescriptorProto.inputType = Some v_inputType, MethodDescriptorProto.outputType = Some v_outputType, MethodDescriptorProto.options = v_options, MethodDescriptorProto.clientStreaming = Some v_clientStreaming, MethodDescriptorProto.serverStreaming = Some v_serverStreaming\<rparr>))))))"

definition toJSON_MethodDescriptorProto :: "host \<Rightarrow> MethodDescriptorProto \<Rightarrow> jsval result" where
  "toJSON_MethodDescriptorProto h message = objE
    [jdefE ''name'' (\<lambda>v. v \<noteq> []) (\<lambda>v. Inr (JString v)) (MethodDescriptorProto.name message),
     jdefE ''inputType'' (\<lambda>v. v \<noteq> []) (\<lambda>v. Inr (JString v)) (MethodDescriptorProto.inputType message),
     jdefE ''outputType'' (\<lambda>v. v \<noteq> []) (\<lambda>v. Inr (JString v)) (MethodDescriptorProto.outputType message),
     joptE ''options'' (toJSON_MethodOptions h) (MethodDescriptorProto.options message),
     jdefE ''clientStreaming'' (\<lambda>v. v \<noteq> False) (\<lambda>v. Inr (JBool v)) (MethodDescriptorProto.clientStreaming message),
     jdefE ''serverStreaming'' (\<lambda>v. v \<noteq> False) (\<lambda>v. Inr (JBool v)) (MethodDescriptorProto.serverStreaming message)]"

record MethodDescriptorProto_Partial =
  name :: "jsstring option"
  inputType :: "jsstring option"
  outputType :: "jsstring option"
  options :: "MethodOptions_Partial option"
  clientStreaming :: "bool option"
  serverStreaming :: "bool option"

definition MethodDescriptorProto_empty :: MethodDescriptorProto_Partial where
  "MethodDescriptorProto_empty = \<lparr>MethodDescriptorProto_Partial.name = None, MethodDescriptorProto_Partial.inputType = None, MethodDescriptorProto_Partial.outputType = None, MethodDescriptorProto_Partial.options = None, MethodDescriptorProto_Partial.clientStreaming = None, MethodDescriptorProto_Partial.serverStreaming = None\<rparr>"

definition fromPartial_MethodDescriptorProto :: "MethodDescriptorProto_Partial \<Rightarrow> MethodDescriptorProto" where
  "fromPartial_MethodDescriptorProto object = createBase_MethodDescriptorProto\<lparr>MethodDescriptorProto.name := Some (nullish (MethodDescriptorProto_Partial.name object) []),
     MethodDescriptorProto.inputType := Some (nullish (MethodDescriptorProto_Partial.inputType object) []),
     MethodDescriptorProto.outputType := Some (nullish (MethodDescriptorProto_Partial.outputType object) []),
     MethodDescriptorProto.options := map_option fromPartial_MethodOptions (MethodDescriptorProto_Partial.options object),
     MethodDescriptorProto.clientStreaming := Some (nullish (MethodDescriptorProto_Partial.clientStreaming object) False),
     MethodDescriptorProto.serverStreaming := Some (nullish (MethodDescriptorProto_Partial.serverStreaming object) False)\<rparr>"

definition create_MethodDescriptorProto :: "MethodDescriptorProto_Partial option \<Rightarrow> MethodDescriptorProto" where
  "create_MethodDescriptorProto base = fromPartial_MethodDescriptorProto (nullish base MethodDescriptorProto_empty)"

text \<open>A message as a partial message.\<close>

definition partial_of_MethodDescriptorProto :: "MethodDescriptorProto \<Rightarrow> MethodDescriptorProto_Partial" where
  "partial_of_MethodDescriptorProto m =
     \<lparr>MethodDescriptorProto_Partial.name = MethodDescriptorProto.name m,
      MethodDescriptorProto_Partial.inputType = MethodDescriptorProto.inputType m,
      MethodDescriptorProto_Partial.outputType = MethodDescriptorProto.outputType m,
      MethodDescriptorProto_Partial.options = map_option partial_of_MethodOptions (MethodDescriptorProto.options m),
      MethodDescriptorProto_Partial.clientStreaming = MethodDescriptorProto.clientStreaming m,
      MethodDescriptorProto_Partial.serverStreaming = MethodDescriptorProto.serverStreaming m\<rparr>"

definition wf_MethodDescriptorProto :: "('w, 'r) wire \<Rightarrow> MethodDescriptorProto \<Rightarrow> bool" where
  "wf_MethodDescriptorProto L m \<longleftrightarrow> present wire_string (MethodDescriptorProto.name m)
     \<and> present wire_string (MethodDescriptorProto.inputType m)
     \<and> present wire_string (MethodDescriptorProto.outputType m)
     \<and> pred_option (\<lambda>v. wf_MethodOptions L v \<and> fits L (encode_MethodOptions L v)) (MethodDescriptorProto.options m)
     \<and> present (\<lambda>_. True) (MethodDescriptorProto.clientStreaming m)
     \<and> present (\<lambda>_. True) (MethodDescriptorProto.serverStreaming m)"

definition wfj_MethodDescriptorProto :: "MethodDescriptorProto \<Rightarrow> bool" where
  "wfj_MethodDescriptorProto m \<longleftrightarrow> MethodDescriptorProto.name m \<noteq> None
     \<and> MethodDescriptorProto.inputType m \<noteq> None
     \<and> MethodDescriptorProto.outputType m \<noteq> None
     \<and> pred_option wfj_MethodOptions (MethodDescriptorProto.options m)
     \<and> MethodDescriptorProto.clientStreaming m \<noteq> None
     \<and> MethodDescriptorProto.serverStreaming m \<noteq> None"

subsection \<open>ServiceDescriptorProto\<close>

record ServiceDescriptorProto =
  name :: "jsstring option"
  method' :: "MethodDescriptorProto list"
  options :: "ServiceOptions option"

definition createBase_ServiceDescriptorProto :: ServiceDescriptorProto where
  "createBase_ServiceDescriptorProto = \<lparr>ServiceDescriptorProto.name = Some [],
     ServiceDescriptorProto.method' = [],
     ServiceDescriptorProto.options = None\<rparr>"

definition encode_ServiceDescriptorProto :: "('w, 'r) wire \<Rightarrow> ServiceDescriptorProto \<Rightarrow> 'w \<Rightarrow> 'w result" where
  "encode_ServiceDescriptorProto L message = seqE
    [someE (ServiceDescriptorProto.name message) (\<lambda>v. whenE (v \<noteq> []) (seqE [w_uint32 L 10, w_string L v])),
     forE (\<lambda>v. seqE [w_uint32 L 18, w_fork L, encode_MethodDescriptorProto L v, w_join L]) (ServiceDescriptorProto.method' message),
     someE (ServiceDescriptorProto.options message) (\<lambda>v. seqE [w_uint32 L 26, w_fork L, encode_ServiceOptions L v, w_join L])]"

definition ServiceDescriptorProto_switch :: "('w, 'r) wire \<Rightarrow> u32 \<Rightarrow> ServiceDescriptorProto \<Rightarrow> (ServiceDescriptorProto, 'r) action" where
  "ServiceDescriptorProto_switch L tag message = js_switch (drop_bit 3 tag)
    [(1, when_tag tag 10 (readf (r_string L) (\<lambda>v. message\<lparr>ServiceDescriptorProto.name := Some v\<rparr>))),
     (2, when_tag tag 18 (readf (submsg L (decode_MethodDescriptorProto L)) (\<lambda>v. message\<lparr>ServiceDescriptorProto.method' := ServiceDescriptorProto.method' message @ [v]\<rparr>))),
     (3, when_tag tag 26 (readf (submsg L (decode_ServiceOptions L)) (\<lambda>v. message\<lparr>ServiceDescriptorProto.options := Some v\<rparr>)))]
    break_out"

definition decode_ServiceDescriptorProto :: "('w, 'r) wire \<Rightarrow> 'r input \<Rightarrow> nat option \<Rightarrow> (ServiceDescriptorProto \<times> 'r) result" where
  "decode_ServiceDescriptorProto L = decode_msg L (ServiceDescriptorProto_switch L) createBase_ServiceDescriptorProto"

definition fromJSON_ServiceDescriptorProto :: "host \<Rightarrow> jsval \<Rightarrow> ServiceDescriptorProto result" where
  "fromJSON_ServiceDescriptorProto h object =
     bindE (fieldE object ''name'' (stringE h) []) (\<lambda>v_name.
     bindE (arrayE object ''method'' (fromJSON_MethodDescriptorProto h)) (\<lambda>v_method.
     bindE (optE object ''options'' (fromJSON_ServiceOptions h)) (\<lambda>v_options.
     Inr \<lparr>ServiceDescriptorProto.name = Some v_name, ServiceDescriptorProto.method' = v_method, ServiceDescriptorProto.options = v_options\<rparr>)))"

definition toJSON_ServiceDescriptorProto :: "host \<Rightarrow> ServiceDescriptorProto \<Rightarrow> jsval result" where
  "toJSON_ServiceDescriptorProto h message = objE
    [jdefE ''name'' (\<lambda>v. v \<noteq> []) (\<lambda>v. Inr (JString v)) (ServiceDescriptorProto.name message),
     jarrayE ''method'' (toJSON_MethodDescriptorProto h) (ServiceDescriptorProto.method' message),
     joptE ''options'' (toJSON_ServiceOptions h) (ServiceDescriptorProto.options message)]"

record ServiceDescriptorProto_Partial =
  name :: "jsstring option"
  method' :: "MethodDescriptorProto_Partial list option"
  options :: "ServiceOptions_Partial option"

definition ServiceDescriptorProto_empty :: ServiceDescriptorProto_Partial where
  "ServiceDescriptorProto_empty = \<lparr>ServiceDescriptorProto_Partial.name = None, ServiceDescriptorProto_Partial.method' = None, ServiceDescriptorProto_Partial.options = None\<rparr>"

definition fromPartial_ServiceDescriptorProto :: "ServiceDescriptorProto_Partial \<Rightarrow> ServiceDescriptorProto" where
  "fromPartial_ServiceDescriptorProto object = createBase_ServiceDescriptorProto\<lparr>ServiceDescriptorProto.name := Some (nullish (ServiceDescriptorProto_Partial.name object) []),
     ServiceDescriptorProto.method' := partial_map fromPartial_MethodDescriptorProto (ServiceDescriptorProto_Partial.method' object),
     ServiceDescriptorProto.options := map_option fromPartial_ServiceOptions (ServiceDescriptorProto_Partial.options object)\<rparr>"

definition create_ServiceDescriptorProto :: "ServiceDescriptorProto_Partial option \<Rightarrow> ServiceDescriptorProto" where
  "create_ServiceDescriptorProto base = fromPartial_ServiceDescriptorProto (nullish base ServiceDescriptorProto_empty)"

text \<open>A message as a partial message.\<close>

definition partial_of_ServiceDescriptorProto :: "ServiceDescriptorProto \<Rightarrow> ServiceDescriptorProto_Partial" where
  "partial_of_ServiceDescriptorProto m =
     \<lparr>ServiceDescriptorProto_Partial.name = ServiceDescriptorProto.name m,
      ServiceDescriptorProto_Partial.method' = Some (map partial_of_MethodDescriptorProto (ServiceDescriptorProto.method' m)),
      ServiceDescriptorProto_Partial.options = map_option partial_of_ServiceOptions (ServiceDescriptorProto.options m)\<rparr>"

definition wf_ServiceDescriptorProto :: "('w, 'r) wire \<Rightarrow> ServiceDescriptorProto \<Rightarrow> bool" where
  "wf_ServiceDescriptorProto L m \<longleftrightarrow> present wire_string (ServiceDescriptorProto.name m)
     \<and> list_all (\<lambda>v. wf_MethodDescriptorProto L v \<and> fits L (encode_MethodDescriptorProto L v)) (ServiceDescriptorProto.method' m)
     \<and> pred_option (\<lambda>v. wf_ServiceOptions L v \<and> fits L (encode_ServiceOptions L v)) (ServiceDescriptorProto.options m)"

definition wfj_ServiceDescriptorProto :: "ServiceDescriptorProto \<Rightarrow> bool" where
  "wfj_ServiceDescriptorProto m \<longleftrightarrow> ServiceDescriptorProto.name m \<noteq> None
     \<and> list_all wfj_MethodDescriptorProto (ServiceDescriptorProto.method' m)
     \<and> pred_option wfj_ServiceOptions (ServiceDescriptorProto.options m)"

subsection \<open>SourceCodeInfo_Location\<close>

record SourceCodeInfo_Location =
  path :: "number list"
  span' :: "number list"
  leadingComments :: "jsstring option"
  trailingComments :: "jsstring option"
  leadingDetachedComments :: "jsstring list"

definition createBase_SourceCodeInfo_Location :: SourceCodeInfo_Location where
  "createBase_SourceCodeInfo_Location = \<lparr>SourceCodeInfo_Location.path = [],
     SourceCodeInfo_Location.span' = [],
     SourceCodeInfo_Location.leadingComments = Some [],
     SourceCodeInfo_Location.trailingComments = Some [],
     SourceCodeInfo_Location.leadingDetachedComments = []\<rparr>"

definition encode_SourceCodeInfo_Location :: "('w, 'r) wire \<Rightarrow> SourceCodeInfo_Location \<Rightarrow> 'w \<Rightarrow> 'w result" where
  "encode_SourceCodeInfo_Location L message = seqE
    [seqE [w_uint32 L 10, w_fork L, forE (w_int32 L) (SourceCodeInfo_Location.path message), w_join L],
     seqE [w_uint32 L 18, w_fork L, forE (w_int32 L) (SourceCodeInfo_Location.span' message), w_join L],
     someE (SourceCodeInfo_Location.leadingComments message) (\<lambda>v. whenE (v \<noteq> []) (seqE [w_uint32 L 26, w_string L v])),
     someE (SourceCodeInfo_Location.trailingComments message) (\<lambda>v. whenE (v \<noteq> []) (seqE [w_uint32 L 34, w_string L v])),
     forE (\<lambda>v. seqE [w_uint32 L 50, w_string L v]) (SourceCodeInfo_Location.leadingDetachedComments message)]"

definition SourceCodeInfo_Location_switch :: "('w, 'r) wire \<Rightarrow> u32 \<Rightarrow> SourceCodeInfo_Location \<Rightarrow> (SourceCodeInfo_Location, 'r) action" where
  "SourceCodeInfo_Location_switch L tag message = js_switch (drop_bit 3 tag)
    [(1, if tag = 8 then readf (num32 (r_int32 L)) (\<lambda>v. message\<lparr>SourceCodeInfo_Location.path := SourceCodeInfo_Location.path message @ [v]\<rparr>)
          else if tag = 10 then readf (packed L (num32 (r_int32 L))) (\<lambda>v. message\<lparr>SourceCodeInfo_Location.path := SourceCodeInfo_Location.path message @ v\<rparr>)
          else break_out),
     (2, if tag = 16 then readf (num32 (r_int32 L)) (\<lambda>v. message\<lparr>SourceCodeInfo_Location.span' := SourceCodeInfo_Location.span' message @ [v]\<rparr>)
          else if tag = 18 then readf (packed L (num32 (r_int32 L))) (\<lambda>v. message\<lparr>SourceCodeInfo_Location.span' := SourceCodeInfo_Location.span' message @ v\<rparr>)
          else break_out),
     (3, when_tag tag 26 (readf (r_string L) (\<lambda>v. message\<lparr>SourceCodeInfo_Location.leadingComments := Some v\<rparr>))),
     (4, when_tag tag 34 (readf (r_string L) (\<lambda>v. message\<lparr>SourceCodeInfo_Location.trailingComments := Some v\<rparr>))),
     (6, when_tag tag 50 (readf (r_string L) (\<lambda>v. message\<lparr>SourceCodeInfo_Location.leadingDetachedComments := SourceCodeInfo_Location.leadingDetachedComments message @ [v]\<rparr>)))]
    break_out"

definition decode_SourceCodeInfo_Location :: "('w, 'r) wire \<Rightarrow> 'r input \<Rightarrow> nat option \<Rightarrow> (SourceCodeInfo_Location \<times> 'r) result" where
  "decode_SourceCodeInfo_Location L = decode_msg L (SourceCodeInfo_Location_switch L) createBase_SourceCodeInfo_Location"

definition fromJSON_SourceCodeInfo_Location :: "host \<Rightarrow> jsval \<Rightarrow> SourceCodeInfo_Location result" where
  "fromJSON_SourceCodeInfo_Location h object =
     bindE (arrayE object ''path'' (numberE h)) (\<lambda>v_path.
     bindE (arrayE object ''span'' (numberE h)) (\<lambda>v_span.
     bindE (fieldE object ''leadingComments'' (stringE h) []) (\<lambda>v_leadingComments.
     bindE (fieldE object ''trailingComments'' (stringE h) []) (\<lambda>v_trailingComments.
     bindE (arrayE object ''leadingDetachedComments'' (stringE h)) (\<lambda>v_leadingDetachedComments.
     Inr \<lparr>SourceCodeInfo_Location.path = v_path, SourceCodeInfo_Location.span' = v_span, SourceCodeInfo_Location.leadingComments = Some v_leadingComments, SourceCodeInfo_Location.trailingComments = Some v_trailingComments, SourceCodeInfo_Location.leadingDetachedComments = v_leadingDetachedComments\<rparr>)))))"

definition toJSON_SourceCodeInfo_Location :: "host \<Rightarrow> SourceCodeInfo_Location \<Rightarrow> jsval result" where
  "toJSON_SourceCodeInfo_Location h message = objE
    [jarrayE ''path'' (\<lambda>e. Inr (JNumber (Math_round e))) (SourceCodeInfo_Location.path message),
     jarrayE ''span'' (\<lambda>e. Inr (JNumber (Math_round e))) (SourceCodeInfo_Location.span' message),
     jdefE ''leadingComments'' (\<lambda>v. v \<noteq> []) (\<lambda>v. Inr (JString v)) (SourceCodeInfo_Location.leadingComments message),
     jdefE ''trailingComments'' (\<lambda>v. v \<noteq> []) (\<lambda>v. Inr (JString v)) (SourceCodeInfo_Location.trailingComments message),
     jarrayE ''leadingDetachedComments'' (\<lambda>e. Inr (JString e)) (SourceCodeInfo_Location.leadingDetachedComments message)]"

record SourceCodeInfo_Location_Partial =
  path :: "number list option"
  span' :: "number list option"
  leadingComments :: "jsstring option"
  trailingComments :: "jsstring option"
  leadingDetachedComments :: "jsstring list option"

definition SourceCodeInfo_Location_empty :: SourceCodeInfo_Location_Partial where
  "SourceCodeInfo_Location_empty = \<lparr>SourceCodeInfo_Location_Partial.path = None, SourceCodeInfo_Location_Partial.span' = None, SourceCodeInfo_Location_Partial.leadingComments = None, SourceCodeInfo_Location_Partial.trailingComments = None, SourceCodeInfo_Location_Partial.leadingDetachedComments = None\<rparr>"

definition fromPartial_SourceCodeInfo_Location :: "SourceCodeInfo_Location_Partial \<Rightarrow> SourceCodeInfo_Location" where
  "fromPartial_SourceCodeInfo_Location object = createBase_SourceCodeInfo_Location\<lparr>SourceCodeInfo_Location.path := partial_map (\<lambda>e. e) (SourceCodeInfo_Location_Partial.path object),
     SourceCodeInfo_Location.span' := partial_map (\<lambda>e. e) (SourceCodeInfo_Location_Partial.span' object),
     SourceCodeInfo_Location.leadingComments := Some (nullish (SourceCodeInfo_Location_Partial.leadingComments object) []),
     SourceCodeInfo_Location.trailingComments := Some (nullish (SourceCodeInfo_Location_Partial.trailingComments object) []),
     SourceCodeInfo_Location.leadingDetachedComments := partial_map (\<lambda>e. e) (SourceCodeInfo_Location_Partial.leadingDetachedComments object)\<rparr>"

definition create_SourceCodeInfo_Location :: "SourceCodeInfo_Location_Partial option \<Rightarrow> SourceCodeInfo_Location" where
  "create_SourceCodeInfo_Location base = fromPartial_SourceCodeInfo_Location (nullish base SourceCodeInfo_Location_empty)"

text \<open>A message as a partial message.\<close>

definition partial_of_SourceCodeInfo_Location :: "SourceCodeInfo_Location \<Rightarrow> SourceCodeInfo_Location_Partial" where
  "partial_of_SourceCodeInfo_Location m =
     \<lparr>SourceCodeInfo_Location_Partial.path = Some (SourceCodeInfo_Location.path m),
      SourceCodeInfo_Location_Partial.span' = Some (SourceCodeInfo_Location.span' m),
      SourceCodeInfo_Location_Partial.leadingComments = SourceCodeInfo_Location.leadingComments m,
      SourceCodeInfo_Location_Partial.trailingComments = SourceCodeInfo_Location.trailingComments m,
      SourceCodeInfo_Location_Partial.leadingDetachedComments = Some (SourceCodeInfo_Location.leadingDetachedComments m)\<rparr>"

definition wf_SourceCodeInfo_Location :: "('w, 'r) wire \<Rightarrow> SourceCodeInfo_Location \<Rightarrow> bool" where
  "wf_SourceCodeInfo_Location L m \<longleftrightarrow> (list_all int32_num (SourceCodeInfo_Location.path m) \<and> fits L (forE (w_int32 L) (SourceCodeInfo_Location.path m)))
     \<and> (list_all int32_num (SourceCodeInfo_Location.span' m) \<and> fits L (forE (w_int32 L) (SourceCodeInfo_Location.span' m)))
     \<and> present wire_string (SourceCodeInfo_Location.leadingComments m)
     \<and> present wire_string (SourceCodeInfo_Location.trailingComments m)
     \<and> list_all wire_string (SourceCodeInfo_Location.leadingDetachedComments m)"

definition wfj_SourceCodeInfo_Location :: "SourceCodeInfo_Location \<Rightarrow> bool" where
  "wfj_SourceCodeInfo_Location m \<longleftrightarrow> list_all whole (SourceCodeInfo_Location.path m)
     \<and> list_all whole (SourceCodeInfo_Location.span' m)
     \<and> SourceCodeInfo_Location.leadingComments m \<noteq> None
     \<and> SourceCodeInfo_Location.trailingComments m \<noteq> None"

subsection \<open>SourceCodeInfo\<close>

record SourceCodeInfo =
  location :: "SourceCodeInfo_Location list"

definition createBase_SourceCodeInfo :: SourceCodeInfo where
  "createBase_SourceCodeInfo = \<lparr>SourceCodeInfo.location = []\<rparr>"

definition encode_SourceCodeInfo :: "('w, 'r) wire \<Rightarrow> SourceCodeInfo \<Rightarrow> 'w \<Rightarrow> 'w result" where
  "encode_SourceCodeInfo L message = seqE
    [forE (\<lambda>v. seqE [w_uint32 L 10, w_fork L, encode_SourceCodeInfo_Location L v, w_join L]) (SourceCodeInfo.location message)]"

definition SourceCodeInfo_switch :: "('w, 'r) wire \<Rightarrow> u32 \<Rightarrow> SourceCodeInfo \<Rightarrow> (SourceCodeInfo, 'r) action" where
  "SourceCodeInfo_switch L tag message = js_switch (drop_bit 3 tag)
    [(1, when_tag tag 10 (readf (submsg L (decode_SourceCodeInfo_Location L)) (\<lambda>v. message\<lparr>SourceCodeInfo.location := SourceCodeInfo.location message @ [v]\<rparr>)))]
    break_out"

definition decode_SourceCodeInfo :: "('w, 'r) wire \<Rightarrow> 'r input \<Rightarrow> nat option \<Rightarrow> (SourceCodeInfo \<times> 'r) result" where
  "decode_SourceCodeInfo L = decode_msg L (SourceCodeInfo_switch L) createBase_SourceCodeInfo"

definition fromJSON_SourceCodeInfo :: "host \<Rightarrow> jsval \<Rightarrow> SourceCodeInfo result" where
  "fromJSON_SourceCodeInfo h object =
     bindE (arrayE object ''location'' (fromJSON_SourceCodeInfo_Location h)) (\<lambda>v_location.
     Inr \<lparr>SourceCodeInfo.location = v_location\<rparr>)"

definition toJSON_SourceCodeInfo :: "host \<Rightarrow> SourceCodeInfo \<Rightarrow> jsval result" where
  "toJSON_SourceCodeInfo h message = objE
    [jarrayE ''location'' (toJSON_SourceCodeInfo_Location h) (SourceCodeInfo.location message)]"

record SourceCodeInfo_Partial =
  location :: "SourceCodeInfo_Location_Partial list option"

definition SourceCodeInfo_empty :: SourceCodeInfo_Partial where
  "SourceCodeInfo_empty = \<lparr>SourceCodeInfo_Partial.location = None\<rparr>"

definition fromPartial_SourceCodeInfo :: "SourceCodeInfo_Partial \<Rightarrow> SourceCodeInfo" where
  "fromPartial_SourceCodeInfo object = createBase_SourceCodeInfo\<lparr>SourceCodeInfo.location := partial_map fromPartial_SourceCodeInfo_Location (SourceCodeInfo_Partial.location object)\<rparr>"

definition create_SourceCodeInfo :: "SourceCodeInfo_Partial option \<Rightarrow> SourceCodeInfo" where
  "create_SourceCodeInfo base = fromPartial_SourceCodeInfo (nullish base SourceCodeInfo_empty)"

text \<open>A message as a partial message.\<close>

definition partial_of_SourceCodeInfo :: "SourceCodeInfo \<Rightarrow> SourceCodeInfo_Partial" where
  "partial_of_SourceCodeInfo m =
     \<lparr>SourceCodeInfo_Partial.location = Some (map partial_of_SourceCodeInfo_Location (SourceCodeInfo.location m))\<rparr>"

definition wf_SourceCodeInfo :: "('w, 'r) wire \<Rightarrow> SourceCodeInfo \<Rightarrow> bool" where
  "wf_SourceCodeInfo L m \<longleftrightarrow> list_all (\<lambda>v. wf_SourceCodeInfo_Location L v \<and> fits L (encode_SourceCodeInfo_Location L v)) (SourceCodeInfo.location m)"

definition wfj_SourceCodeInfo :: "SourceCodeInfo \<Rightarrow> bool" where
  "wfj_SourceCodeInfo m \<longleftrightarrow> list_all wfj_SourceCodeInfo_Location (SourceCodeInfo.location m)"

subsection \<open>GeneratedCodeInfo_Annotation\<close>

record GeneratedCodeInfo_Annotation =
  path :: "number list"
  sourceFile :: "jsstring option"
  begin' :: "number option"
  end' :: "number option"
  semantic :: "GeneratedCodeInfo_Annotation_Semantic option"

definition createBase_GeneratedCodeInfo_Annotation :: GeneratedCodeInfo_Annotation where
  "createBase_GeneratedCodeInfo_Annotation = \<lparr>GeneratedCodeInfo_Annotation.path = [],
     GeneratedCodeInfo_Annotation.sourceFile = Some [],
     GeneratedCodeInfo_Annotation.begin' = Some (Num 0),
     GeneratedCodeInfo_Annotation.end' = Some (Num 0),
     GeneratedCodeInfo_Annotation.semantic = Some (Num 0)\<rparr>"

definition encode_GeneratedCodeInfo_Annotation :: "('w, 'r) wire \<Rightarrow> GeneratedCodeInfo_Annotation \<Rightarrow> 'w \<Rightarrow> 'w result" where
  "encode_GeneratedCodeInfo_Annotation L message = seqE
    [seqE [w_uint32 L 10, w_fork L, forE (w_int32 L) (GeneratedCodeInfo_Annotation.path message), w_join L],
     someE (GeneratedCodeInfo_Annotation.sourceFile message) (\<lambda>v. whenE (v \<noteq> []) (seqE [w_uint32 L 18, w_string L v])),
     someE (GeneratedCodeInfo_Annotation.begin' message) (\<lambda>v. whenE (v \<noteq> Num 0) (seqE [w_uint32 L 24, w_int32 L v])),
     someE (GeneratedCodeInfo_Annotation.end' message) (\<lambda>v. whenE (v \<noteq> Num 0) (seqE [w_uint32 L 32, w_int32 L v])),
     someE (GeneratedCodeInfo_Annotation.semantic message) (\<lambda>v. whenE (v \<noteq> Num 0) (seqE [w_uint32 L 40, w_int32 L v]))]"

definition GeneratedCodeInfo_Annotation_switch :: "('w, 'r) wire \<Rightarrow> u32 \<Rightarrow> GeneratedCodeInfo_Annotation \<Rightarrow> (GeneratedCodeInfo_Annotation, 'r) action" where
  "GeneratedCodeInfo_Annotation_switch L tag message = js_switch (drop_bit 3 tag)
    [(1, if tag = 8 then readf (num32 (r_int32 L)) (\<lambda>v. message\<lparr>GeneratedCodeInfo_Annotation.path := GeneratedCodeInfo_Annotation.path message @ [v]\<rparr>)
          else if tag = 10 then readf (packed L (num32 (r_int32 L))) (\<lambda>v. message\<lparr>GeneratedCodeInfo_Annotation.path := GeneratedCodeInfo_Annotation.path message @ v\<rparr>)
          else break_out),
     (2, when_tag tag 18 (readf (r_string L) (\<lambda>v. message\<lparr>GeneratedCodeInfo_Annotation.sourceFile := Some v\<rparr>))),
     (3, when_tag tag 24 (readf (num32 (r_int32 L)) (\<lambda>v. message\<lparr>GeneratedCodeInfo_Annotation.begin' := Some v\<rparr>))),
     (4, when_tag tag 32 (readf (num32 (r_int32 L)) (\<lambda>v. message\<lparr>GeneratedCodeInfo_Annotation.end' := Some v\<rparr>))),
     (5, when_tag tag 40 (readf (num32 (r_int32 L)) (\<lambda>v. message\<lparr>GeneratedCodeInfo_Annotation.semantic := Some v\<rparr>)))]
    break_out"

definition decode_GeneratedCodeInfo_Annotation :: "('w, 'r) wire \<Rightarrow> 'r input \<Rightarrow> nat option \<Rightarrow> (GeneratedCodeInfo_Annotation \<times> 'r) result" where
  "decode_GeneratedCodeInfo_Annotation L = decode_msg L (GeneratedCodeInfo_Annotation_switch L) createBase_GeneratedCodeInfo_Annotation"

definition fromJSON_GeneratedCodeInfo_Annotation :: "host \<Rightarrow> jsval \<Rightarrow> GeneratedCodeInfo_Annotation result" where
  "fromJSON_GeneratedCodeInfo_Annotation h object =
     bindE (arrayE object ''path'' (numberE h)) (\<lambda>v_path.
     bindE (fieldE object ''sourceFile'' (stringE h) []) (\<lambda>v_sourceFile.
     bindE (fieldE object ''begin'' (numberE h) (Num 0)) (\<lambda>v_begin.
     bindE (fieldE object ''end'' (numberE h) (Num 0)) (\<lambda>v_end.
     bindE (fieldE object ''semantic'' (enumE generatedCodeInfo_Annotation_SemanticFromJSON) (Num 0)) (\<lambda>v_semantic.
     Inr \<lparr>GeneratedCodeInfo_Annotation.path = v_path, GeneratedCodeInfo_Annotation.sourceFile = Some v_sourceFile, GeneratedCodeInfo_Annotation.begin' = Some v_begin, GeneratedCodeInfo_Annotation.end' = Some v_end, GeneratedCodeInfo_Annotation.semantic = Some v_semantic\<rparr>)))))"

definition toJSON_GeneratedCodeInfo_Annotation :: "host \<Rightarrow> GeneratedCodeInfo_Annotation \<Rightarrow> jsval result" where
  "toJSON_GeneratedCodeInfo_Annotation h message = objE
    [jarrayE ''path'' (\<lambda>e. Inr (JNumber (Math_round e))) (GeneratedCodeInfo_Annotation.path message),
     jdefE ''sourceFile'' (\<lambda>v. v \<noteq> []) (\<lambda>v. Inr (JString v)) (GeneratedCodeInfo_Annotation.sourceFile message),
     jdefE ''begin'' (\<lambda>v. v \<noteq> Num 0) (\<lambda>v. Inr (JNumber (Math_round v))) (GeneratedCodeInfo_Annotation.begin' message),
     jdefE ''end'' (\<lambda>v. v \<noteq> Num 0) (\<lambda>v. Inr (JNumber (Math_round v))) (GeneratedCodeInfo_Annotation.end' message),
     jdefE ''semantic'' (\<lambda>v. v \<noteq> Num 0) (\<lambda>v. Inr (JString (generatedCodeInfo_Annotation_SemanticToJSON v))) (GeneratedCodeInfo_Annotation.semantic message)]"

record GeneratedCodeInfo_Annotation_Partial =
  path :: "number list option"
  sourceFile :: "jsstring option"
  begin' :: "number option"
  end' :: "number option"
  semantic :: "GeneratedCodeInfo_Annotation_Semantic option"

definition GeneratedCodeInfo_Annotation_empty :: GeneratedCodeInfo_Annotation_Partial where
  "GeneratedCodeInfo_Annotation_empty = \<lparr>GeneratedCodeInfo_Annotation_Partial.path = None, GeneratedCodeInfo_Annotation_Partial.sourceFile = None, GeneratedCodeInfo_Annotation_Partial.begin' = None, GeneratedCodeInfo_Annotation_Partial.end' = None, GeneratedCodeInfo_Annotation_Partial.semantic = None\<rparr>"

definition fromPartial_GeneratedCodeInfo_Annotation :: "GeneratedCodeInfo_Annotation_Partial \<Rightarrow> GeneratedCodeInfo_Annotation" where
  "fromPartial_GeneratedCodeInfo_Annotation object = createBase_GeneratedCodeInfo_Annotation\<lparr>GeneratedCodeInfo_Annotation.path := partial_map (\<lambda>e. e) (GeneratedCodeInfo_Annotation_Partial.path object),
     GeneratedCodeInfo_Annotation.sourceFile := Some (nullish (GeneratedCodeInfo_Annotation_Partial.sourceFile object) []),
     GeneratedCodeInfo_Annotation.begin' := Some (nullish (GeneratedCodeInfo_Annotation_Partial.begin' object) (Num 0)),
     GeneratedCodeInfo_Annotation.end' := Some (nullish (GeneratedCodeInfo_Annotation_Partial.end' object) (Num 0)),
     GeneratedCodeInfo_Annotation.semantic := Some (nullish (GeneratedCodeInfo_Annotation_Partial.semantic object) (Num 0))\<rparr>"

definition create_GeneratedCodeInfo_Annotation :: "GeneratedCodeInfo_Annotation_Partial option \<Rightarrow> GeneratedCodeInfo_Annotation" where
  "create_GeneratedCodeInfo_Annotation base = fromPartial_GeneratedCodeInfo_Annotation (nullish base GeneratedCodeInfo_Annotation_empty)"

text \<open>A message as a partial message.\<close>

definition partial_of_GeneratedCodeInfo_Annotation :: "GeneratedCodeInfo_Annotation \<Rightarrow> GeneratedCodeInfo_Annotation_Partial" where
  "partial_of_GeneratedCodeInfo_Annotation m =
     \<lparr>GeneratedCodeInfo_Annotation_Partial.path = Some (GeneratedCodeInfo_Annotation.path m),
      GeneratedCodeInfo_Annotation_Partial.sourceFile = GeneratedCodeInfo_Annotation.sourceFile m,
      GeneratedCodeInfo_Annotation_Partial.begin' = GeneratedCodeInfo_Annotation.begin' m,
      GeneratedCodeInfo_Annotation_Partial.end' = GeneratedCodeInfo_Annotation.end' m,
      GeneratedCodeInfo_Annotation_Partial.semantic = GeneratedCodeInfo_Annotation.semantic m\<rparr>"

definition wf_GeneratedCodeInfo_Annotation :: "('w, 'r) wire \<Rightarrow> GeneratedCodeInfo_Annotation \<Rightarrow> bool" where
  "wf_GeneratedCodeInfo_Annotation L m \<longleftrightarrow> (list_all int32_num (GeneratedCodeInfo_Annotation.path m) \<and> fits L (forE (w_int32 L) (GeneratedCodeInfo_Annotation.path m)))
     \<and> present wire_string (GeneratedCodeInfo_Annotation.sourceFile m)
     \<and> present int32_num (GeneratedCodeInfo_Annotation.begin' m)
     \<and> present int32_num (GeneratedCodeInfo_Annotation.end' m)
     \<and> present int32_num (GeneratedCodeInfo_Annotation.semantic m)"

definition wfj_GeneratedCodeInfo_Annotation :: "GeneratedCodeInfo_Annotation \<Rightarrow> bool" where
  "wfj_GeneratedCodeInfo_Annotation m \<longleftrightarrow> list_all whole (GeneratedCodeInfo_Annotation.path m)
     \<and> GeneratedCodeInfo_Annotation.sourceFile m \<noteq> None
     \<and> GeneratedCodeInfo_Annotation.begin' m \<noteq> None
     \<and> whole (the (GeneratedCodeInfo_Annotation.begin' m))
     \<and> GeneratedCodeInfo_Annotation.end' m \<noteq> None
     \<and> whole (the (GeneratedCodeInfo_Annotation.end' m))
     \<and> GeneratedCodeInfo_Annotation.semantic m \<noteq> None
     \<and> GeneratedCodeInfo_Annotation_Semantic_known (the (GeneratedCodeInfo_Annotation.semantic m))"

subsection \<open>GeneratedCodeInfo\<close>

record GeneratedCodeInfo =
  annotation :: "GeneratedCodeInfo_Annotation list"

definition createBase_GeneratedCodeInfo :: GeneratedCodeInfo where
  "createBase_GeneratedCodeInfo = \<lparr>GeneratedCodeInfo.annotation = []\<rparr>"

definition encode_GeneratedCodeInfo :: "('w, 'r) wire \<Rightarrow> GeneratedCodeInfo \<Rightarrow> 'w \<Rightarrow> 'w result" where
  "encode_GeneratedCodeInfo L message = seqE
    [forE (\<lambda>v. seqE [w_uint32 L 10, w_fork L, encode_GeneratedCodeInfo_Annotation L v, w_join L]) (GeneratedCodeInfo.annotation message)]"

definition GeneratedCodeInfo_switch :: "('w, 'r) wire \<Rightarrow> u32 \<Rightarrow> GeneratedCodeInfo \<Rightarrow> (GeneratedCodeInfo, 'r) action" where
  "GeneratedCodeInfo_switch L tag message = js_switch (drop_bit 3 tag)
    [(1, when_tag tag 10 (readf (submsg L (decode_GeneratedCodeInfo_Annotation L)) (\<lambda>v. message\<lparr>GeneratedCodeInfo.annotation := GeneratedCodeInfo.annotation message @ [v]\<rparr>)))]
    break_out"

definition decode_GeneratedCodeInfo :: "('w, 'r) wire \<Rightarrow> 'r input \<Rightarrow> nat option \<Rightarrow> (GeneratedCodeInfo \<times> 'r) result" where
  "decode_GeneratedCodeInfo L = decode_msg L (GeneratedCodeInfo_switch L) createBase_GeneratedCodeInfo"

definition fromJSON_GeneratedCodeInfo :: "host \<Rightarrow> jsval \<Rightarrow> GeneratedCodeInfo result" where
  "fromJSON_GeneratedCodeInfo h object =
     bindE (arrayE object ''annotation'' (fromJSON_GeneratedCodeInfo_Annotation h)) (\<lambda>v_annotation.
     Inr \<lparr>GeneratedCodeInfo.annotation = v_annotation\<rparr>)"

definition toJSON_GeneratedCodeInfo :: "host \<Rightarrow> GeneratedCodeInfo \<Rightarrow> jsval result" where
  "toJSON_GeneratedCodeInfo h message = objE
    [jarrayE ''annotation'' (toJSON_GeneratedCodeInfo_Annotation h) (GeneratedCodeInfo.annotation message)]"

record GeneratedCodeInfo_Partial =
  annotation :: "GeneratedCodeInfo_Annotation_Partial list option"

definition GeneratedCodeInfo_empty :: GeneratedCodeInfo_Partial where
  "GeneratedCodeInfo_empty = \<lparr>GeneratedCodeInfo_Partial.annotation = None\<rparr>"

definition fromPartial_GeneratedCodeInfo :: "GeneratedCodeInfo_Partial \<Rightarrow> GeneratedCodeInfo" where
  "fromPartial_GeneratedCodeInfo object = createBase_GeneratedCodeInfo\<lparr>GeneratedCodeInfo.annotation := partial_map fromPartial_GeneratedCodeInfo_Annotation (GeneratedCodeInfo_Partial.annotation object)\<rparr>"

definition create_GeneratedCodeInfo :: "GeneratedCodeInfo_Partial option \<Rightarrow> GeneratedCodeInfo" where
  "create_GeneratedCodeInfo base = fromPartial_GeneratedCodeInfo (nullish base GeneratedCodeInfo_empty)"

text \<open>A message as a partial message.\<close>

definition partial_of_GeneratedCodeInfo :: "GeneratedCodeInfo \<Rightarrow> GeneratedCodeInfo_Partial" where
  "partial_of_GeneratedCodeInfo m =
     \<lparr>GeneratedCodeInfo_Partial.annotation = Some (map partial_of_GeneratedCodeInfo_Annotation (GeneratedCodeInfo.annotation m))\<rparr>"

definition wf_GeneratedCodeInfo :: "('w, 'r) wire \<Rightarrow> GeneratedCodeInfo \<Rightarrow> bool" where
  "wf_GeneratedCodeInfo L m \<longleftrightarrow> list_all (\<lambda>v. wf_GeneratedCodeInfo_Annotation L v \<and> fits L (encode_GeneratedCodeInfo_Annotation L v)) (GeneratedCodeInfo.annotation m)"

definition wfj_GeneratedCodeInfo :: "GeneratedCodeInfo \<Rightarrow> bool" where
  "wfj_GeneratedCodeInfo m \<longleftrightarrow> list_all wfj_GeneratedCodeInfo_Annotation (GeneratedCodeInfo.annotation m)"

subsection \<open>DescriptorProto\<close>

datatype DescriptorProto = DescriptorProto
  (name: "jsstring option")
  (field: "FieldDescriptorProto list")
  (extension: "FieldDescriptorProto list")
  (nestedType: "DescriptorProto list")
  (enumType: "EnumDescriptorProto list")
  (extensionRange: "DescriptorProto_ExtensionRange list")
  (oneofDecl: "OneofDescriptorProto list")
  (options: "MessageOptions option")
  (reservedRange: "DescriptorProto_ReservedRange list")
  (reservedName: "jsstring list")

primrec DescriptorProto_name_update :: "(jsstring option \<Rightarrow> jsstring option) \<Rightarrow> DescriptorProto \<Rightarrow> DescriptorProto" where
  "DescriptorProto_name_update f (DescriptorProto a0 a1 a2 a3 a4 a5 a6 a7 a8 a9) = DescriptorProto (f a0) a1 a2 a3 a4 a5 a6 a7 a8 a9"

primrec DescriptorProto_field_update :: "(FieldDescriptorProto list \<Rightarrow> FieldDescriptorProto list) \<Rightarrow> DescriptorProto \<Rightarrow> DescriptorProto" where
  "DescriptorProto_field_update f (DescriptorProto a0 a1 a2 a3 a4 a5 a6 a7 a8 a9) = DescriptorProto a0 (f a1) a2 a3 a4 a5 a6 a7 a8 a9"

primrec DescriptorProto_extension_update :: "(FieldDescriptorProto list \<Rightarrow> FieldDescriptorProto list) \<Rightarrow> DescriptorProto \<Rightarrow> DescriptorProto" where
  "DescriptorProto_extension_update f (DescriptorProto a0 a1 a2 a3 a4 a5 a6 a7 a8 a9) = DescriptorProto a0 a1 (f a2) a3 a4 a5 a6 a7 a8 a9"

primrec DescriptorProto_nestedType_update :: "(DescriptorProto list \<Rightarrow> DescriptorProto list) \<Rightarrow> DescriptorProto \<Rightarrow> DescriptorProto" where
  "DescriptorProto_nestedType_update f (DescriptorProto a0 a1 a2 a3 a4 a5 a6 a7 a8 a9) = DescriptorProto a0 a1 a2 (f a3) a4 a5 a6 a7 a8 a9"

primrec DescriptorProto_enumType_update :: "(EnumDescriptorProto list \<Rightarrow> EnumDescriptorProto list) \<Rightarrow> DescriptorProto \<Rightarrow> DescriptorProto" where
  "DescriptorProto_enumType_update f (DescriptorProto a0 a1 a2 a3 a4 a5 a6 a7 a8 a9) = DescriptorProto a0 a1 a2 a3 (f a4) a5 a6 a7 a8 a9"

primrec DescriptorProto_extensionRange_update :: "(DescriptorProto_ExtensionRange list \<Rightarrow> DescriptorProto_ExtensionRange list) \<Rightarrow> DescriptorProto \<Rightarrow> DescriptorProto" where
  "DescriptorProto_extensionRange_update f (DescriptorProto a0 a1 a2 a3 a4 a5 a6 a7 a8 a9) = DescriptorProto a0 a1 a2 a3 a4 (f a5) a6 a7 a8 a9"

primrec DescriptorProto_oneofDecl_update :: "(OneofDescriptorProto list \<Rightarrow> OneofDescriptorProto list) \<Rightarrow> DescriptorProto \<Rightarrow> DescriptorProto" where
  "DescriptorProto_oneofDecl_update f (DescriptorProto a0 a1 a2 a3 a4 a5 a6 a7 a8 a9) = DescriptorProto a0 a1 a2 a3 a4 a5 (f a6) a7 a8 a9"

primrec DescriptorProto_options_update :: "(MessageOptions option \<Rightarrow> MessageOptions option) \<Rightarrow> DescriptorProto \<Rightarrow> DescriptorProto" where
  "DescriptorProto_options_update f (DescriptorProto a0 a1 a2 a3 a4 a5 a6 a7 a8 a9) = DescriptorProto a0 a1 a2 a3 a4 a5 a6 (f a7) a8 a9"

primrec DescriptorProto_reservedRange_update :: "(DescriptorProto_ReservedRange list \<Rightarrow> DescriptorProto_ReservedRange list) \<Rightarrow> DescriptorProto \<Rightarrow> DescriptorProto" where
  "DescriptorProto_reservedRange_update f (DescriptorProto a0 a1 a2 a3 a4 a5 a6 a7 a8 a9) = DescriptorProto a0 a1 a2 a3 a4 a5 a6 a7 (f a8) a9"

primrec DescriptorProto_reservedName_update :: "(jsstring list \<Rightarrow> jsstring list) \<Rightarrow> DescriptorProto \<Rightarrow> DescriptorProto" where
  "DescriptorProto_reservedName_update f (DescriptorProto a0 a1 a2 a3 a4 a5 a6 a7 a8 a9) = DescriptorProto a0 a1 a2 a3 a4 a5 a6 a7 a8 (f a9)"

definition createBase_DescriptorProto :: DescriptorProto where
  "createBase_DescriptorProto = DescriptorProto (Some []) [] [] [] [] [] [] None [] []"

primrec encode_DescriptorProto :: "('w, 'r) wire \<Rightarrow> nat \<Rightarrow> DescriptorProto \<Rightarrow> 'w \<Rightarrow> 'w result" where
  "encode_DescriptorProto L 0 message = (\<lambda>_. Inl stack_overflow)"
| "encode_DescriptorProto L (Suc n) message = seqE
    [someE (DescriptorProto.name message) (\<lambda>v. whenE (v \<noteq> []) (seqE [w_uint32 L 10, w_string L v])),
     forE (\<lambda>v. seqE [w_uint32 L 18, w_fork L, encode_FieldDescriptorProto L v, w_join L]) (DescriptorProto.field message),
     forE (\<lambda>v. seqE [w_uint32 L 50, w_fork L, encode_FieldDescriptorProto L v, w_join L]) (DescriptorProto.extension message),
     forE (\<lambda>v. seqE [w_uint32 L 26, w_fork L, encode_DescriptorProto L n v, w_join L]) (DescriptorProto.nestedType message),
     forE (\<lambda>v. seqE [w_uint32 L 34, w_fork L, encode_EnumDescriptorProto L v, w_join L]) (DescriptorProto.enumType message),
     forE (\<lambda>v. seqE [w_uint32 L 42, w_fork L, encode_DescriptorProto_ExtensionRange L v, w_join L]) (DescriptorProto.extensionRange message),
     forE (\<lambda>v. seqE [w_uint32 L 66, w_fork L, encode_OneofDescriptorProto L v, w_join L]) (DescriptorProto.oneofDecl message),
     someE (DescriptorProto.options message) (\<lambda>v. seqE [w_uint32 L 58, w_fork L, encode_MessageOptions L v, w_join L]),
     forE (\<lambda>v. seqE [w_uint32 L 74, w_fork L, encode_DescriptorProto_ReservedRange L v, w_join L]) (DescriptorProto.reservedRange message),
     forE (\<lambda>v. seqE [w_uint32 L 82, w_string L v]) (DescriptorProto.reservedName message)]"

definition DescriptorProto_switch :: "('w, 'r) wire \<Rightarrow> ('r input \<Rightarrow> nat option \<Rightarrow> (DescriptorProto \<times> 'r) result) \<Rightarrow> u32 \<Rightarrow> DescriptorProto \<Rightarrow> (DescriptorProto, 'r) action" where
  "DescriptorProto_switch L dec tag message = js_switch (drop_bit 3 tag)
    [(1, when_tag tag 10 (readf (r_string L) (\<lambda>v. DescriptorProto_name_update (\<lambda>_. Some v) message))),
     (2, when_tag tag 18 (readf (submsg L (decode_FieldDescriptorProto L)) (\<lambda>v. DescriptorProto_field_update (\<lambda>_. DescriptorProto.field message @ [v]) message))),
     (6, when_tag tag 50 (readf (submsg L (decode_FieldDescriptorProto L)) (\<lambda>v. DescriptorProto_extension_update (\<lambda>_. DescriptorProto.extension message @ [v]) message))),
     (3, when_tag tag 26 (readf (submsg L dec) (\<lambda>v. DescriptorProto_nestedType_update (\<lambda>_. DescriptorProto.nestedType message @ [v]) message))),
     (4, when_tag tag 34 (readf (submsg L (decode_EnumDescriptorProto L)) (\<lambda>v. DescriptorProto_enumType_update (\<lambda>_. DescriptorProto.enumType message @ [v]) message))),
     (5, when_tag tag 42 (readf (submsg L (decode_DescriptorProto_ExtensionRange L)) (\<lambda>v. DescriptorProto_extensionRange_update (\<lambda>_. DescriptorProto.extensionRange message @ [v]) message))),
     (8, when_tag tag 66 (readf (submsg L (decode_OneofDescriptorProto L)) (\<lambda>v. DescriptorProto_oneofDecl_update (\<lambda>_. DescriptorProto.oneofDecl message @ [v]) message))),
     (7, when_tag tag 58 (readf (submsg L (decode_MessageOptions L)) (\<lambda>v. DescriptorProto_options_update (\<lambda>_. Some v) message))),
     (9, when_tag tag 74 (readf (submsg L (decode_DescriptorProto_ReservedRange L)) (\<lambda>v. DescriptorProto_reservedRange_update (\<lambda>_. DescriptorProto.reservedRange message @ [v]) message))),
     (10, when_tag tag 82 (readf (r_string L) (\<lambda>v. DescriptorProto_reservedName_update (\<lambda>_. DescriptorProto.reservedName message @ [v]) message)))]
    break_out"

primrec decode_DescriptorProto :: "('w, 'r) wire \<Rightarrow> nat \<Rightarrow> 'r input \<Rightarrow> nat option \<Rightarrow> (DescriptorProto \<times> 'r) result" where
  "decode_DescriptorProto L 0 = (\<lambda>_ _. Inl stack_overflow)"
| "decode_DescriptorProto L (Suc n) = decode_msg L (DescriptorProto_switch L (decode_DescriptorProto L n)) createBase_DescriptorProto"

primrec fromJSON_DescriptorProto :: "host \<Rightarrow> nat \<Rightarrow> jsval \<Rightarrow> DescriptorProto result" where
  "fromJSON_DescriptorProto h 0 object = Inl stack_overflow"
| "fromJSON_DescriptorProto h (Suc n) object = bindE (fieldE object ''name'' (stringE h) []) (\<lambda>v_name.
     bindE (arrayE object ''field'' (fromJSON_FieldDescriptorProto h)) (\<lambda>v_field.
     bindE (arrayE object ''extension'' (fromJSON_FieldDescriptorProto h)) (\<lambda>v_extension.
     bindE (arrayE object ''nestedType'' (fromJSON_DescriptorProto h n)) (\<lambda>v_nestedType.
     bindE (arrayE object ''enumType'' (fromJSON_EnumDescriptorProto h)) (\<lambda>v_enumType.
     bindE (arrayE object ''extensionRange'' (fromJSON_DescriptorProto_ExtensionRange h)) (\<lambda>v_extensionRange.
     bindE (arrayE object ''oneofDecl'' (fromJSON_OneofDescriptorProto h)) (\<lambda>v_oneofDecl.
     bindE (optE object ''options'' (fromJSON_MessageOptions h)) (\<lambda>v_options.
     bindE (arrayE object ''reservedRange'' (fromJSON_DescriptorProto_ReservedRange h)) (\<lambda>v_reservedRange.
     bindE (arrayE object ''reservedName'' (stringE h)) (\<lambda>v_reservedName.
     Inr (DescriptorProto (Some v_name) v_field v_extension v_nestedType v_enumType v_extensionRange v_oneofDecl v_options v_reservedRange v_reservedName)))))))))))"

primrec toJSON_DescriptorProto :: "host \<Rightarrow> nat \<Rightarrow> DescriptorProto \<Rightarrow> jsval result" where
  "toJSON_DescriptorProto h 0 message = Inl stack_overflow"
| "toJSON_DescriptorProto h (Suc n) message = objE
    [jdefE ''name'' (\<lambda>v. v \<noteq> []) (\<lambda>v. Inr (JString v)) (DescriptorProto.name message),
     jarrayE ''field'' (toJSON_FieldDescriptorProto h) (DescriptorProto.field message),
     jarrayE ''extension'' (toJSON_FieldDescriptorProto h) (DescriptorProto.extension message),
     jarrayE ''nestedType'' (toJSON_DescriptorProto h n) (DescriptorProto.nestedType message),
     jarrayE ''enumType'' (toJSON_EnumDescriptorProto h) (DescriptorProto.enumType message),
     jarrayE ''extensionRange'' (toJSON_DescriptorProto_ExtensionRange h) (DescriptorProto.extensionRange message),
     jarrayE ''oneofDecl'' (toJSON_OneofDescriptorProto h) (DescriptorProto.oneofDecl message),
     joptE ''options'' (toJSON_MessageOptions h) (DescriptorProto.options message),
     jarrayE ''reservedRange'' (toJSON_DescriptorProto_ReservedRange h) (DescriptorProto.reservedRange message),
     jarrayE ''reservedName'' (\<lambda>e. Inr (JString e)) (DescriptorProto.reservedName message)]"

datatype DescriptorProto_Partial = DescriptorProto_Partial
  (name: "jsstring option")
  (field: "FieldDescriptorProto_Partial list option")
  (extension: "FieldDescriptorProto_Partial list option")
  (nestedType: "DescriptorProto_Partial list option")
  (enumType: "EnumDescriptorProto_Partial list option")
  (extensionRange: "DescriptorProto_ExtensionRange_Partial list option")
  (oneofDecl: "OneofDescriptorProto_Partial list option")
  (options: "MessageOptions_Partial option")
  (reservedRange: "DescriptorProto_ReservedRange_Partial list option")
  (reservedName: "jsstring list option")

definition DescriptorProto_empty :: DescriptorProto_Partial where
  "DescriptorProto_empty = DescriptorProto_Partial None None None None None None None None None None"

primrec fromPartial_DescriptorProto :: "nat \<Rightarrow> DescriptorProto_Partial \<Rightarrow> DescriptorProto result" where
  "fromPartial_DescriptorProto 0 object = Inl stack_overflow"
| "fromPartial_DescriptorProto (Suc n) object = 
     bindE (partial_mapE (fromPartial_DescriptorProto n) (DescriptorProto_Partial.nestedType object)) (\<lambda>v_nestedType.
     Inr (DescriptorProto
       (Some (nullish (DescriptorProto_Partial.name object) []))
       (partial_map fromPartial_FieldDescriptorProto (DescriptorProto_Partial.field object))
       (partial_map fromPartial_FieldDescriptorProto (DescriptorProto_Partial.extension object))
       v_nestedType
       (partial_map fromPartial_EnumDescriptorProto (DescriptorProto_Partial.enumType object))
       (partial_map fromPartial_DescriptorProto_ExtensionRange (DescriptorProto_Partial.extensionRange object))
       (partial_map fromPartial_OneofDescriptorProto (DescriptorProto_Partial.oneofDecl object))
       (map_option fromPartial_MessageOptions (DescriptorProto_Partial.options object))
       (partial_map fromPartial_DescriptorProto_ReservedRange (DescriptorProto_Partial.reservedRange object))
       (partial_map (\<lambda>e. e) (DescriptorProto_Partial.reservedName object))))"

definition create_DescriptorProto :: "nat \<Rightarrow> DescriptorProto_Partial option \<Rightarrow> DescriptorProto result" where
  "create_DescriptorProto n base = fromPartial_DescriptorProto n (nullish base DescriptorProto_empty)"

primrec wf_DescriptorProto :: "('w, 'r) wire \<Rightarrow> nat \<Rightarrow> DescriptorProto \<Rightarrow> bool" where
  "wf_DescriptorProto L 0 m = False"
| "wf_DescriptorProto L (Suc n) m = (present wire_string (DescriptorProto.name m)
     \<and> list_all (\<lambda>v. wf_FieldDescriptorProto L v \<and> fits L (encode_FieldDescriptorProto L v)) (DescriptorProto.field m)
     \<and> list_all (\<lambda>v. wf_FieldDescriptorProto L v \<and> fits L (encode_FieldDescriptorProto L v)) (DescriptorProto.extension m)
     \<and> list_all (\<lambda>v. wf_DescriptorProto L n v \<and> fits L (encode_DescriptorProto L n v)) (DescriptorProto.nestedType m)
     \<and> list_all (\<lambda>v. wf_EnumDescriptorProto L v \<and> fits L (encode_EnumDescriptorProto L v)) (DescriptorProto.enumType m)
     \<and> list_all (\<lambda>v. wf_DescriptorProto_ExtensionRange L v \<and> fits L (encode_DescriptorProto_ExtensionRange L v)) (DescriptorProto.extensionRange m)
     \<and> list_all (\<lambda>v. wf_OneofDescriptorProto L v \<and> fits L (encode_OneofDescriptorProto L v)) (DescriptorProto.oneofDecl m)
     \<and> pred_option (\<lambda>v. wf_MessageOptions L v \<and> fits L (encode_MessageOptions L v)) (DescriptorProto.options m)
     \<and> list_all (\<lambda>v. wf_DescriptorProto_ReservedRange L v \<and> fits L (encode_DescriptorProto_ReservedRange L v)) (DescriptorProto.reservedRange m)
     \<and> list_all wire_string (DescriptorProto.reservedName m))"

primrec wfj_DescriptorProto :: "nat \<Rightarrow> DescriptorProto \<Rightarrow> bool" where
  "wfj_DescriptorProto 0 m = False"
| "wfj_DescriptorProto (Suc n) m = (DescriptorProto.name m \<noteq> None
     \<and> list_all wfj_FieldDescriptorProto (DescriptorProto.field m)
     \<and> list_all wfj_FieldDescriptorProto (DescriptorProto.extension m)
     \<and> list_all (wfj_DescriptorProto n) (DescriptorProto.nestedType m)
     \<and> list_all wfj_EnumDescriptorProto (DescriptorProto.enumType m)
     \<and> list_all wfj_DescriptorProto_ExtensionRange (DescriptorProto.extensionRange m)
     \<and> list_all wfj_OneofDescriptorProto (DescriptorProto.oneofDecl m)
     \<and> pred_option wfj_MessageOptions (DescriptorProto.options m)
     \<and> list_all wfj_DescriptorProto_ReservedRange (DescriptorProto.reservedRange m))"

subsection \<open>FileDescriptorProto\<close>

record FileDescriptorProto =
  name :: "jsstring option"
  package :: "jsstring option"
  dependency :: "jsstring list"
  publicDependency :: "number list"
  weakDependency :: "number list"
  messageType :: "DescriptorProto list"
  enumType :: "EnumDescriptorProto list"
  service :: "ServiceDescriptorProto list"
  extension :: "FieldDescriptorProto list"
  options :: "FileOptions option"
  sourceCodeInfo :: "SourceCodeInfo option"
  syntax' :: "jsstring option"
  edition :: "Edition option"

definition createBase_FileDescriptorProto :: FileDescriptorProto where
  "createBase_FileDescriptorProto = \<lparr>FileDescriptorProto.name = Some [],
     FileDescriptorProto.package = Some [],
     FileDescriptorProto.dependency = [],
     FileDescriptorProto.publicDependency = [],
     FileDescriptorProto.weakDependency = [],
     FileDescriptorProto.messageType = [],
     FileDescriptorProto.enumType = [],
     FileDescriptorProto.service = [],
     FileDescriptorProto.extension = [],
     FileDescriptorProto.options = None,
     FileDescriptorProto.sourceCodeInfo = None,
     FileDescriptorProto.syntax' = Some [],
     FileDescriptorProto.edition = Some (Num 0)\<rparr>"

definition encode_FileDescriptorProto :: "('w, 'r) wire \<Rightarrow> nat \<Rightarrow> FileDescriptorProto \<Rightarrow> 'w \<Rightarrow> 'w result" where
  "encode_FileDescriptorProto L n message = seqE
    [someE (FileDescriptorProto.name message) (\<lambda>v. whenE (v \<noteq> []) (seqE [w_uint32 L 10, w_string L v])),
     someE (FileDescriptorProto.package message) (\<lambda>v. whenE (v \<noteq> []) (seqE [w_uint32 L 18, w_string L v])),
     forE (\<lambda>v. seqE [w_uint32 L 26, w_string L v]) (FileDescriptorProto.dependency message),
     seqE [w_uint32 L 82, w_fork L, forE (w_int32 L) (FileDescriptorProto.publicDependency message), w_join L],
     seqE [w_uint32 L 90, w_fork L, forE (w_int32 L) (FileDescriptorProto.weakDependency message), w_join L],
     forE (\<lambda>v. seqE [w_uint32 L 34, w_fork L, encode_DescriptorProto L n v, w_join L]) (FileDescriptorProto.messageType message),
     forE (\<lambda>v. seqE [w_uint32 L 42, w_fork L, encode_EnumDescriptorProto L v, w_join L]) (FileDescriptorProto.enumType message),
     forE (\<lambda>v. seqE [w_uint32 L 50, w_fork L, encode_ServiceDescriptorProto L v, w_join L]) (FileDescriptorProto.service message),
     forE (\<lambda>v. seqE [w_uint32 L 58, w_fork L, encode_FieldDescriptorProto L v, w_join L]) (FileDescriptorProto.extension message),
     someE (FileDescriptorProto.options message) (\<lambda>v. seqE [w_uint32 L 66, w_fork L, encode_FileOptions L v, w_join L]),
     someE (FileDescriptorProto.sourceCodeInfo message) (\<lambda>v. seqE [w_uint32 L 74, w_fork L, encode_SourceCodeInfo L v, w_join L]),
     someE (FileDescriptorProto.syntax' message) (\<lambda>v. whenE (v \<noteq> []) (seqE [w_uint32 L 98, w_string L v])),
     someE (FileDescriptorProto.edition message) (\<lambda>v. whenE (v \<noteq> Num 0) (seqE [w_uint32 L 112, w_int32 L v]))]"

definition FileDescriptorProto_switch :: "('w, 'r) wire \<Rightarrow> nat \<Rightarrow> u32 \<Rightarrow> FileDescriptorProto \<Rightarrow> (FileDescriptorProto, 'r) action" where
  "FileDescriptorProto_switch L n tag message = js_switch (drop_bit 3 tag)
    [(1, when_tag tag 10 (readf (r_string L) (\<lambda>v. message\<lparr>FileDescriptorProto.name := Some v\<rparr>))),
     (2, when_tag tag 18 (readf (r_string L) (\<lambda>v. message\<lparr>FileDescriptorProto.package := Some v\<rparr>))),
     (3, when_tag tag 26 (readf (r_string L) (\<lambda>v. message\<lparr>FileDescriptorProto.dependency := FileDescriptorProto.dependency message @ [v]\<rparr>))),
     (10, if tag = 80 then readf (num32 (r_int32 L)) (\<lambda>v. message\<lparr>FileDescriptorProto.publicDependency := FileDescriptorProto.publicDependency message @ [v]\<rparr>)
          else if tag = 82 then readf (packed L (num32 (r_int32 L))) (\<lambda>v. message\<lparr>FileDescriptorProto.publicDependency := FileDescriptorProto.publicDependency message @ v\<rparr>)
          else break_out),
     (11, if tag = 88 then readf (num32 (r_int32 L)) (\<lambda>v. message\<lparr>FileDescriptorProto.weakDependency := FileDescriptorProto.weakDependency message @ [v]\<rparr>)
          else if tag = 90 then readf (packed L (num32 (r_int32 L))) (\<lambda>v. message\<lparr>FileDescriptorProto.weakDependency := FileDescriptorProto.weakDependency message @ v\<rparr>)
          else break_out),
     (4, when_tag tag 34 (readf (submsg L (decode_DescriptorProto L n)) (\<lambda>v. message\<lparr>FileDescriptorProto.messageType := FileDescriptorProto.messageType message @ [v]\<rparr>))),
     (5, when_tag tag 42 (readf (submsg L (decode_EnumDescriptorProto L)) (\<lambda>v. message\<lparr>FileDescriptorProto.enumType := FileDescriptorProto.enumType message @ [v]\<rparr>))),
     (6, when_tag tag 50 (readf (submsg L (decode_ServiceDescriptorProto L)) (\<lambda>v. message\<lparr>FileDescriptorProto.service := FileDescriptorProto.service message @ [v]\<rparr>))),
     (7, when_tag tag 58 (readf (submsg L (decode_FieldDescriptorProto L)) (\<lambda>v. message\<lparr>FileDescriptorProto.extension := FileDescriptorProto.extension message @ [v]\<rparr>))),
     (8, when_tag tag 66 (readf (submsg L (decode_FileOptions L)) (\<lambda>v. message\<lparr>FileDescriptorProto.options := Some v\<rparr>))),
     (9, when_tag tag 74 (readf (submsg L (decode_SourceCodeInfo L)) (\<lambda>v. message\<lparr>FileDescriptorProto.sourceCodeInfo := Some v\<rparr>))),
     (12, when_tag tag 98 (readf (r_string L) (\<lambda>v. message\<lparr>FileDescriptorProto.syntax' := Some v\<rparr>))),
     (14, when_tag tag 112 (readf (num32 (r_int32 L)) (\<lambda>v. message\<lparr>FileDescriptorProto.edition := Some v\<rparr>)))]
    break_out"

definition decode_FileDescriptorProto :: "('w, 'r) wire \<Rightarrow> nat \<Rightarrow> 'r input \<Rightarrow> nat option \<Rightarrow> (FileDescriptorProto \<times> 'r) result" where
  "decode_FileDescriptorProto L n = decode_msg L (FileDescriptorProto_switch L n) createBase_FileDescriptorProto"

definition fromJSON_FileDescriptorProto :: "host \<Rightarrow> nat \<Rightarrow> jsval \<Rightarrow> FileDescriptorProto result" where
  "fromJSON_FileDescriptorProto h n object =
     bindE (fieldE object ''name'' (stringE h) []) (\<lambda>v_name.
     bindE (fieldE object ''package'' (stringE h) []) (\<lambda>v_package.
     bindE (arrayE object ''dependency'' (stringE h)) (\<lambda>v_dependency.
     bindE (arrayE object ''publicDependency'' (numberE h)) (\<lambda>v_publicDependency.
     bindE (arrayE object ''weakDependency'' (numberE h)) (\<lambda>v_weakDependency.
     bindE (arrayE object ''messageType'' (fromJSON_DescriptorProto h n)) (\<lambda>v_messageType.
     bindE (arrayE object ''enumType'' (fromJSON_EnumDescriptorProto h)) (\<lambda>v_enumType.
     bindE (arrayE object ''service'' (fromJSON_ServiceDescriptorProto h)) (\<lambda>v_service.
     bindE (arrayE object ''extension'' (fromJSON_FieldDescriptorProto h)) (\<lambda>v_extension.
     bindE (optE object ''options'' (fromJSON_FileOptions h)) (\<lambda>v_options.
     bindE (optE object ''sourceCodeInfo'' (fromJSON_SourceCodeInfo h)) (\<lambda>v_sourceCodeInfo.
     bindE (fieldE object ''syntax'' (stringE h) []) (\<lambda>v_syntax.
     bindE (fieldE object ''edition'' (enumE editionFromJSON) (Num 0)) (\<lambda>v_edition.
     Inr \<lparr>FileDescriptorProto.name = Some v_name, FileDescriptorProto.package = Some v_package, FileDescriptorProto.dependency = v_dependency, FileDescriptorProto.publicDependency = v_publicDependency, FileDescriptorProto.weakDependency = v_weakDependency, FileDescriptorProto.messageType = v_messageType, FileDescriptorProto.enumType = v_enumType, FileDescriptorProto.service = v_service, FileDescriptorProto.extension = v_extension, FileDescriptorProto.options = v_options, FileDescriptorProto.sourceCodeInfo = v_sourceCodeInfo, FileDescriptorProto.syntax' = Some v_syntax, FileDescriptorProto.edition = Some v_edition\<rparr>)))))))))))))"

definition toJSON_FileDescriptorProto :: "host \<Rightarrow> nat \<Rightarrow> FileDescriptorProto \<Rightarrow> jsval result" where
  "toJSON_FileDescriptorProto h n message = objE
    [jdefE ''name'' (\<lambda>v. v \<noteq> []) (\<lambda>v. Inr (JString v)) (FileDescriptorProto.name message),
     jdefE ''package'' (\<lambda>v. v \<noteq> []) (\<lambda>v. Inr (JString v)) (FileDescriptorProto.package message),
     jarrayE ''dependency'' (\<lambda>e. Inr (JString e)) (FileDescriptorProto.dependency message),
     jarrayE ''publicDependency'' (\<lambda>e. Inr (JNumber (Math_round e))) (FileDescriptorProto.publicDependency message),
     jarrayE ''weakDependency'' (\<lambda>e. Inr (JNumber (Math_round e))) (FileDescriptorProto.weakDependency message),
     jarrayE ''messageType'' (toJSON_DescriptorProto h n) (FileDescriptorProto.messageType message),
     jarrayE ''enumType'' (toJSON_EnumDescriptorProto h) (FileDescriptorProto.enumType message),
     jarrayE ''service'' (toJSON_ServiceDescriptorProto h) (FileDescriptorProto.service message),
     jarrayE ''extension'' (toJSON_FieldDescriptorProto h) (FileDescriptorProto.extension message),
     joptE ''options'' (toJSON_FileOptions h) (FileDescriptorProto.options message),
     joptE ''sourceCodeInfo'' (toJSON_SourceCodeInfo h) (FileDescriptorProto.sourceCodeInfo message),
     jdefE ''syntax'' (\<lambda>v. v \<noteq> []) (\<lambda>v. Inr (JString v)) (FileDescriptorProto.syntax' message),
     jdefE ''edition'' (\<lambda>v. v \<noteq> Num 0) (\<lambda>v. Inr (JString (editionToJSON v))) (FileDescriptorProto.edition message)]"

record FileDescriptorProto_Partial =
  name :: "jsstring option"
  package :: "jsstring option"
  dependency :: "jsstring list option"
  publicDependency :: "number list option"
  weakDependency :: "number list option"
  messageType :: "DescriptorProto_Partial list option"
  enumType :: "EnumDescriptorProto_Partial list option"
  service :: "ServiceDescriptorProto_Partial list option"
  extension :: "FieldDescriptorProto_Partial list option"
  options :: "FileOptions_Partial option"
  sourceCodeInfo :: "SourceCodeInfo_Partial option"
  syntax' :: "jsstring option"
  edition :: "Edition option"

definition FileDescriptorProto_empty :: FileDescriptorProto_Partial where
  "FileDescriptorProto_empty = \<lparr>FileDescriptorProto_Partial.name = None, FileDescriptorProto_Partial.package = None, FileDescriptorProto_Partial.dependency = None, FileDescriptorProto_Partial.publicDependency = None, FileDescriptorProto_Partial.weakDependency = None, FileDescriptorProto_Partial.messageType = None, FileDescriptorProto_Partial.enumType = None, FileDescriptorProto_Partial.service = None, FileDescriptorProto_Partial.extension = None, FileDescriptorProto_Partial.options = None, FileDescriptorProto_Partial.sourceCodeInfo = None, FileDescriptorProto_Partial.syntax' = None, FileDescriptorProto_Partial.edition = None\<rparr>"

definition fromPartial_FileDescriptorProto :: "nat \<Rightarrow> FileDescriptorProto_Partial \<Rightarrow> FileDescriptorProto result" where
  "fromPartial_FileDescriptorProto n object =
     bindE (partial_mapE (fromPartial_DescriptorProto n) (FileDescriptorProto_Partial.messageType object)) (\<lambda>v_messageType.
     Inr (createBase_FileDescriptorProto\<lparr>FileDescriptorProto.name := Some (nullish (FileDescriptorProto_Partial.name object) []),
     FileDescriptorProto.package := Some (nullish (FileDescriptorProto_Partial.package object) []),
     FileDescriptorProto.dependency := partial_map (\<lambda>e. e) (FileDescriptorProto_Partial.dependency object),
     FileDescriptorProto.publicDependency := partial_map (\<lambda>e. e) (FileDescriptorProto_Partial.publicDependency object),
     FileDescriptorProto.weakDependency := partial_map (\<lambda>e. e) (FileDescriptorProto_Partial.weakDependency object),
     FileDescriptorProto.messageType := v_messageType,
     FileDescriptorProto.enumType := partial_map fromPartial_EnumDescriptorProto (FileDescriptorProto_Partial.enumType object),
     FileDescriptorProto.service := partial_map fromPartial_ServiceDescriptorProto (FileDescriptorProto_Partial.service object),
     FileDescriptorProto.extension := partial_map fromPartial_FieldDescriptorProto (FileDescriptorProto_Partial.extension object),
     FileDescriptorProto.options := map_option fromPartial_FileOptions (FileDescriptorProto_Partial.options object),
     FileDescriptorProto.sourceCodeInfo := map_option fromPartial_SourceCodeInfo (FileDescriptorProto_Partial.sourceCodeInfo object),
     FileDescriptorProto.syntax' := Some (nullish (FileDescriptorProto_Partial.syntax' object) []),
     FileDescriptorProto.edition := Some (nullish (FileDescriptorProto_Partial.edition object) (Num 0))\<rparr>))"

definition create_FileDescriptorProto :: "nat \<Rightarrow> FileDescriptorProto_Partial option \<Rightarrow> FileDescriptorProto result" where
  "create_FileDescriptorProto n base = fromPartial_FileDescriptorProto n (nullish base FileDescriptorProto_empty)"

definition wf_FileDescriptorProto :: "('w, 'r) wire \<Rightarrow> nat \<Rightarrow> FileDescriptorProto \<Rightarrow> bool" where
  "wf_FileDescriptorProto L n m \<longleftrightarrow> present wire_string (FileDescriptorProto.name m)
     \<and> present wire_string (FileDescriptorProto.package m)
     \<and> list_all wire_string (FileDescriptorProto.dependency m)
     \<and> (list_all int32_num (FileDescriptorProto.publicDependency m) \<and> fits L (forE (w_int32 L) (FileDescriptorProto.publicDependency m)))
     \<and> (list_all int32_num (FileDescriptorProto.weakDependency m) \<and> fits L (forE (w_int32 L) (FileDescriptorProto.weakDependency m)))
     \<and> list_all (\<lambda>v. wf_DescriptorProto L n v \<and> fits L (encode_DescriptorProto L n v)) (FileDescriptorProto.messageType m)
     \<and> list_all (\<lambda>v. wf_EnumDescriptorProto L v \<and> fits L (encode_EnumDescriptorProto L v)) (FileDescriptorProto.enumType m)
     \<and> list_all (\<lambda>v. wf_ServiceDescriptorProto L v \<and> fits L (encode_ServiceDescriptorProto L v)) (FileDescriptorProto.service m)
     \<and> list_all (\<lambda>v. wf_FieldDescriptorProto L v \<and> fits L (encode_FieldDescriptorProto L v)) (FileDescriptorProto.extension m)
     \<and> pred_option (\<lambda>v. wf_FileOptions L v \<and> fits L (encode_FileOptions L v)) (FileDescriptorProto.options m)
     \<and> pred_option (\<lambda>v. wf_SourceCodeInfo L v \<and> fits L (encode_SourceCodeInfo L v)) (FileDescriptorProto.sourceCodeInfo m)
     \<and> present wire_string (FileDescriptorProto.syntax' m)
     \<and> present int32_num (FileDescriptorProto.edition m)"

definition wfj_FileDescriptorProto :: "nat \<Rightarrow> FileDescriptorProto \<Rightarrow> bool" where
  "wfj_FileDescriptorProto n m \<longleftrightarrow> FileDescriptorProto.name m \<noteq> None
     \<and> FileDescriptorProto.package m \<noteq> None
     \<and> list_all whole (FileDescriptorProto.publicDependency m)
     \<and> list_all whole (FileDescriptorProto.weakDependency m)
     \<and> list_all (wfj_DescriptorProto n) (FileDescriptorProto.messageType m)
     \<and> list_all wfj_EnumDescriptorProto (FileDescriptorProto.enumType m)
     \<and> list_all wfj_ServiceDescriptorProto (FileDescriptorProto.service m)
     \<and> list_all wfj_FieldDescriptorProto (FileDescriptorProto.extension m)
     \<and> pred_option wfj_FileOptions (FileDescriptorProto.options m)
     \<and> pred_option wfj_SourceCodeInfo (FileDescriptorProto.sourceCodeInfo m)
     \<and> FileDescriptorProto.syntax' m \<noteq> None
     \<and> FileDescriptorProto.edition m \<noteq> None
     \<and> Edition_known (the (FileDescriptorProto.edition m))"

subsection \<open>FileDescriptorSet\<close>

record FileDescriptorSet =
  file' :: "FileDescriptorProto list"

definition createBase_FileDescriptorSet :: FileDescriptorSet where
  "createBase_FileDescriptorSet = \<lparr>FileDescriptorSet.file' = []\<rparr>"

definition encode_FileDescriptorSet :: "('w, 'r) wire \<Rightarrow> nat \<Rightarrow> FileDescriptorSet \<Rightarrow> 'w \<Rightarrow> 'w result" where
  "encode_FileDescriptorSet L n message = seqE
    [forE (\<lambda>v. seqE [w_uint32 L 10, w_fork L, encode_FileDescriptorProto L n v, w_join L]) (FileDescriptorSet.file' message)]"

definition FileDescriptorSet_switch :: "('w, 'r) wire \<Rightarrow> nat \<Rightarrow> u32 \<Rightarrow> FileDescriptorSet \<Rightarrow> (FileDescriptorSet, 'r) action" where
  "FileDescriptorSet_switch L n tag message = js_switch (drop_bit 3 tag)
    [(1, when_tag tag 10 (readf (submsg L (decode_FileDescriptorProto L n)) (\<lambda>v. message\<lparr>FileDescriptorSet.file' := FileDescriptorSet.file' message @ [v]\<rparr>)))]
    break_out"

definition decode_FileDescriptorSet :: "('w, 'r) wire \<Rightarrow> nat \<Rightarrow> 'r input \<Rightarrow> nat option \<Rightarrow> (FileDescriptorSet \<times> 'r) result" where
  "decode_FileDescriptorSet L n = decode_msg L (FileDescriptorSet_switch L n) createBase_FileDescriptorSet"

definition fromJSON_FileDescriptorSet :: "host \<Rightarrow> nat \<Rightarrow> jsval \<Rightarrow> FileDescriptorSet result" where
  "fromJSON_FileDescriptorSet h n object =
     bindE (arrayE object ''file'' (fromJSON_FileDescriptorProto h n)) (\<lambda>v_file.
     Inr \<lparr>FileDescriptorSet.file' = v_file\<rparr>)"

definition toJSON_FileDescriptorSet :: "host \<Rightarrow> nat \<Rightarrow> FileDescriptorSet \<Rightarrow> jsval result" where
  "toJSON_FileDescriptorSet h n message = objE
    [jarrayE ''file'' (toJSON_FileDescriptorProto h n) (FileDescriptorSet.file' message)]"

record FileDescriptorSet_Partial =
  file' :: "FileDescriptorProto_Partial list option"

definition FileDescriptorSet_empty :: FileDescriptorSet_Partial where
  "FileDescriptorSet_empty = \<lparr>FileDescriptorSet_Partial.file' = None\<rparr>"

definition fromPartial_FileDescriptorSet :: "nat \<Rightarrow> FileDescriptorSet_Partial \<Rightarrow> FileDescriptorSet result" where
  "fromPartial_FileDescriptorSet n object =
     bindE (partial_mapE (fromPartial_FileDescriptorProto n) (FileDescriptorSet_Partial.file' object)) (\<lambda>v_file.
     Inr (createBase_FileDescriptorSet\<lparr>FileDescriptorSet.file' := v_file\<rparr>))"

definition create_FileDescriptorSet :: "nat \<Rightarrow> FileDescriptorSet_Partial option \<Rightarrow> FileDescriptorSet result" where
  "create_FileDescriptorSet n base = fromPartial_FileDescriptorSet n (nullish base FileDescriptorSet_empty)"

definition wf_FileDescriptorSet :: "('w, 'r) wire \<Rightarrow> nat \<Rightarrow> FileDescriptorSet \<Rightarrow> bool" where
  "wf_FileDescriptorSet L n m \<longleftrightarrow> list_all (\<lambda>v. wf_FileDescriptorProto L n v \<and> fits L (encode_FileDescriptorProto L n v)) (FileDescriptorSet.file' m)"

definition wfj_FileDescriptorSet :: "nat \<Rightarrow> FileDescriptorSet \<Rightarrow> bool" where
  "wfj_FileDescriptorSet n m \<longleftrightarrow> list_all (wfj_FileDescriptorProto n) (FileDescriptorSet.file' m)"


section \<open>Encoding, decoding and JSON of these messages\<close>

lemmas FieldDescriptorProto_Type_defs = FieldDescriptorProto_Type_TYPE_DOUBLE_def FieldDescriptorProto_Type_TYPE_FLOAT_def FieldDescriptorProto_Type_TYPE_INT64_def FieldDescriptorProto_Type_TYPE_UINT64_def FieldDescriptorProto_Type_TYPE_INT32_def FieldDescriptorProto_Type_TYPE_FIXED64_def FieldDescriptorProto_Type_TYPE_FIXED32_def FieldDescriptorProto_Type_TYPE_BOOL_def FieldDescriptorProto_Type_TYPE_STRING_def FieldDescriptorProto_Type_TYPE_GROUP_def FieldDescriptorProto_Type_TYPE_MESSAGE_def FieldDescriptorProto_Type_TYPE_BYTES_def FieldDescriptorProto_Type_TYPE_UINT32_def FieldDescriptorProto_Type_TYPE_ENUM_def FieldDescriptorProto_Type_TYPE_SFIXED32_def FieldDescriptorProto_Type_TYPE_SFIXED64_def FieldDescriptorProto_Type_TYPE_SINT32_def FieldDescriptorProto_Type_TYPE_SINT64_def FieldDescriptorProto_Type_UNRECOGNIZED_def

lemma FieldDescriptorProto_Type_json [json_rules]:
  "FieldDescriptorProto_Type_known n \<Longrightarrow> enumE fieldDescriptorProto_TypeFromJSON (JString (fieldDescriptorProto_TypeToJSON n)) = Inr n"
  unfolding FieldDescriptorProto_Type_known_def
  by (elim insertE emptyE; simp only:; simp add: enumE_def fieldDescriptorProto_TypeFromJSON_def fieldDescriptorProto_TypeToJSON_def FieldDescriptorProto_Type_defs)

lemmas FieldDescriptorProto_Type_json_list [json_rules] = list.pred_mono_strong [of FieldDescriptorProto_Type_known _ "\<lambda>n. enumE fieldDescriptorProto_TypeFromJSON (JString (fieldDescriptorProto_TypeToJSON n)) = Inr n", OF _ FieldDescriptorProto_Type_json]

lemmas FieldDescriptorProto_Label_defs = FieldDescriptorProto_Label_LABEL_OPTIONAL_def FieldDescriptorProto_Label_LABEL_REPEATED_def FieldDescriptorProto_Label_LABEL_REQUIRED_def FieldDescriptorProto_Label_UNRECOGNIZED_def

lemma FieldDescriptorProto_Label_json [json_rules]:
  "FieldDescriptorProto_Label_known n \<Longrightarrow> enumE fieldDescriptorProto_LabelFromJSON (JString (fieldDescriptorProto_LabelToJSON n)) = Inr n"
  unfolding FieldDescriptorProto_Label_known_def
  by (elim insertE emptyE; simp only:; simp add: enumE_def fieldDescriptorProto_LabelFromJSON_def fieldDescriptorProto_LabelToJSON_def FieldDescriptorProto_Label_defs)

lemmas FieldDescriptorProto_Label_json_list [json_rules] = list.pred_mono_strong [of FieldDescriptorProto_Label_known _ "\<lambda>n. enumE fieldDescriptorProto_LabelFromJSON (JString (fieldDescriptorProto_LabelToJSON n)) = Inr n", OF _ FieldDescriptorProto_Label_json]

lemmas GeneratedCodeInfo_Annotation_Semantic_defs = GeneratedCodeInfo_Annotation_Semantic_NONE_def GeneratedCodeInfo_Annotation_Semantic_SET_def GeneratedCodeInfo_Annotation_Semantic_ALIAS_def GeneratedCodeInfo_Annotation_Semantic_UNRECOGNIZED_def

lemma GeneratedCodeInfo_Annotation_Semantic_json [json_rules]:
  "GeneratedCodeInfo_Annotation_Semantic_known n \<Longrightarrow> enumE generatedCodeInfo_Annotation_SemanticFromJSON (JString (generatedCodeInfo_Annotation_SemanticToJSON n)) = Inr n"
  unfolding GeneratedCodeInfo_Annotation_Semantic_known_def
  by (elim insertE emptyE; simp only:; simp add: enumE_def generatedCodeInfo_Annotation_SemanticFromJSON_def generatedCodeInfo_Annotation_SemanticToJSON_def GeneratedCodeInfo_Annotation_Semantic_defs)

lemmas GeneratedCodeInfo_Annotation_Semantic_json_list [json_rules] = list.pred_mono_strong [of GeneratedCodeInfo_Annotation_Semantic_known _ "\<lambda>n. enumE generatedCodeInfo_Annotation_SemanticFromJSON (JString (generatedCodeInfo_Annotation_SemanticToJSON n)) = Inr n", OF _ GeneratedCodeInfo_Annotation_Semantic_json]

lemma FieldDescriptorProto_tags:
  "FieldDescriptorProto_switch L 10 m = readf (r_string L) (\<lambda>v. m\<lparr>FieldDescriptorProto.name := Some v\<rparr>)"
  "FieldDescriptorProto_switch L 24 m = readf (num32 (r_int32 L)) (\<lambda>v. m\<lparr>FieldDescriptorProto.number := Some v\<rparr>)"
  "FieldDescriptorProto_switch L 32 m = readf (num32 (r_int32 L)) (\<lambda>v. m\<lparr>FieldDescriptorProto.label := Some v\<rparr>)"
  "FieldDescriptorProto_switch L 40 m = readf (num32 (r_int32 L)) (\<lambda>v. m\<lparr>FieldDescriptorProto.type' := Some v\<rparr>)"
  "FieldDescriptorProto_switch L 50 m = readf (r_string L) (\<lambda>v. m\<lparr>FieldDescriptorProto.typeName := Some v\<rparr>)"
  "FieldDescriptorProto_switch L 18 m = readf (r_string L) (\<lambda>v. m\<lparr>FieldDescriptorProto.extendee := Some v\<rparr>)"
  "FieldDescriptorProto_switch L 58 m = readf (r_string L) (\<lambda>v. m\<lparr>FieldDescriptorProto.defaultValue := Some v\<rparr>)"
  "FieldDescriptorProto_switch L 72 m = readf (num32 (r_int32 L)) (\<lambda>v. m\<lparr>FieldDescriptorProto.oneofIndex := Some v\<rparr>)"
  "FieldDescriptorProto_switch L 82 m = readf (r_string L) (\<lambda>v. m\<lparr>FieldDescriptorProto.jsonName := Some v\<rparr>)"
  "FieldDescriptorProto_switch L 66 m = readf (submsg L (decode_FieldOptions L)) (\<lambda>v. m\<lparr>FieldDescriptorProto.options := Some v\<rparr>)"
  "FieldDescriptorProto_switch L 136 m = readf (r_bool L) (\<lambda>v. m\<lparr>FieldDescriptorProto.proto3Optional := Some v\<rparr>)"
  by (simp_all add: FieldDescriptorProto_switch_def when_tag_def)

lemma create_FieldDescriptorProto_None: "create_FieldDescriptorProto None = createBase_FieldDescriptorProto"
  by (simp add: create_FieldDescriptorProto_def fromPartial_FieldDescriptorProto_def FieldDescriptorProto_empty_def createBase_FieldDescriptorProto_def partial_map_def)

lemma complete_FieldDescriptorProto [simp]:
  "encode_FieldDescriptorProto L (fromPartial_FieldDescriptorProto (partial_of_FieldDescriptorProto m)) = encode_FieldDescriptorProto L m"
  by (simp add: encode_FieldDescriptorProto_def fromPartial_FieldDescriptorProto_def partial_of_FieldDescriptorProto_def createBase_FieldDescriptorProto_def partial_map_def option.map_comp o_def del: seqE.simps)

context wire_laws
begin

lemma FieldDescriptorProto_codec:
  shows "message_codec L F out inp (encode_FieldDescriptorProto L) (FieldDescriptorProto_switch L) createBase_FieldDescriptorProto (wf_FieldDescriptorProto L)"
proof unfold_locales
  show good: "good_sw (FieldDescriptorProto_switch L)"
    unfolding FieldDescriptorProto_switch_def by (intro good_swI fwd_rules)
  fix m assume "wf_FieldDescriptorProto L m"
  then show "codes (FieldDescriptorProto_switch L) (encode_FieldDescriptorProto L m) createBase_FieldDescriptorProto m"
    unfolding encode_FieldDescriptorProto_def wf_FieldDescriptorProto_def
    by (elim conjE)
      (rule codes_Cons codes_Nil [OF FieldDescriptorProto.equality] codec_rules
        codes_default [where tag = 10 and u = "FieldDescriptorProto.name_update" and op = "r_string L", OF good]
        codes_default [where tag = 24 and u = "FieldDescriptorProto.number_update" and op = "num32 (r_int32 L)", OF good]
        codes_default [where tag = 32 and u = "FieldDescriptorProto.label_update" and op = "num32 (r_int32 L)", OF good]
        codes_default [where tag = 40 and u = "FieldDescriptorProto.type'_update" and op = "num32 (r_int32 L)", OF good]
        codes_default [where tag = 50 and u = "FieldDescriptorProto.typeName_update" and op = "r_string L", OF good]
        codes_default [where tag = 18 and u = "FieldDescriptorProto.extendee_update" and op = "r_string L", OF good]
        codes_default [where tag = 58 and u = "FieldDescriptorProto.defaultValue_update" and op = "r_string L", OF good]
        codes_default [where tag = 72 and u = "FieldDescriptorProto.oneofIndex_update" and op = "num32 (r_int32 L)", OF good]
        codes_default [where tag = 82 and u = "FieldDescriptorProto.jsonName_update" and op = "r_string L", OF good]
        codes_some [where tag = 66 and u = "FieldDescriptorProto.options_update" and op = "submsg L (decode_FieldOptions L)", OF good]
        codes_default [where tag = 136 and u = "FieldDescriptorProto.proto3Optional_update" and op = "r_bool L", OF good]
      | assumption | (simp add: FieldDescriptorProto_tags createBase_FieldDescriptorProto_def; fail))+
qed

lemmas FieldDescriptorProto_carries [codec_rules] =
  message_codec.opt_carries [OF FieldDescriptorProto_codec, folded decode_FieldDescriptorProto_def] message_codec.list_carries [OF FieldDescriptorProto_codec, folded decode_FieldDescriptorProto_def]

lemmas FieldDescriptorProto_good [fwd_rules] = message_codec.op_good [OF FieldDescriptorProto_codec, folded decode_FieldDescriptorProto_def]

lemmas FieldDescriptorProto_roundtrip = message_codec.roundtrip [OF FieldDescriptorProto_codec, folded decode_FieldDescriptorProto_def]

lemmas FieldDescriptorProto_returns = message_codec.decode_returns [OF FieldDescriptorProto_codec, folded decode_FieldDescriptorProto_def]

lemmas FieldDescriptorProto_reads = reads_as_complete [OF FieldDescriptorProto_roundtrip complete_FieldDescriptorProto]

end

interpretation FieldDescriptorProto_json: message_json toJSON_FieldDescriptorProto fromJSON_FieldDescriptorProto wfj_FieldDescriptorProto
proof unfold_locales
  fix h m
  assume "wfj_FieldDescriptorProto m"
  then show "json_rt (toJSON_FieldDescriptorProto h) (fromJSON_FieldDescriptorProto h) m"
    unfolding toJSON_FieldDescriptorProto_def fromJSON_FieldDescriptorProto_def wfj_FieldDescriptorProto_def
    by (elim conjE) (rule json_rtI json_rules | assumption | (simp; fail))+
qed

lemmas FieldDescriptorProto_json_rules [json_rules] = FieldDescriptorProto_json.json_field_rules

lemma EnumValueDescriptorProto_tags:
  "EnumValueDescriptorProto_switch L 10 m = readf (r_string L) (\<lambda>v. m\<lparr>EnumValueDescriptorProto.name := Some v\<rparr>)"
  "EnumValueDescriptorProto_switch L 16 m = readf (num32 (r_int32 L)) (\<lambda>v. m\<lparr>EnumValueDescriptorProto.number := Some v\<rparr>)"
  "EnumValueDescriptorProto_switch L 26 m = readf (submsg L (decode_EnumValueOptions L)) (\<lambda>v. m\<lparr>EnumValueDescriptorProto.options := Some v\<rparr>)"
  by (simp_all add: EnumValueDescriptorProto_switch_def when_tag_def)

lemma create_EnumValueDescriptorProto_None: "create_EnumValueDescriptorProto None = createBase_EnumValueDescriptorProto"
  by (simp add: create_EnumValueDescriptorProto_def fromPartial_EnumValueDescriptorProto_def EnumValueDescriptorProto_empty_def createBase_EnumValueDescriptorProto_def partial_map_def)

lemma complete_EnumValueDescriptorProto [simp]:
  "encode_EnumValueDescriptorProto L (fromPartial_EnumValueDescriptorProto (partial_of_EnumValueDescriptorProto m)) = encode_EnumValueDescriptorProto L m"
  by (simp add: encode_EnumValueDescriptorProto_def fromPartial_EnumValueDescriptorProto_def partial_of_EnumValueDescriptorProto_def createBase_EnumValueDescriptorProto_def partial_map_def option.map_comp o_def del: seqE.simps)

context wire_laws
begin

lemma EnumValueDescriptorProto_codec:
  shows "message_codec L F out inp (encode_EnumValueDescriptorProto L) (EnumValueDescriptorProto_switch L) createBase_EnumValueDescriptorProto (wf_EnumValueDescriptorProto L)"
proof unfold_locales
  show good: "good_sw (EnumValueDescriptorProto_switch L)"
    unfolding EnumValueDescriptorProto_switch_def by (intro good_swI fwd_rules)
  fix m assume "wf_EnumValueDescriptorProto L m"
  then show "codes (EnumValueDescriptorProto_switch L) (encode_EnumValueDescriptorProto L m) createBase_EnumValueDescriptorProto m"
    unfolding encode_EnumValueDescriptorProto_def wf_EnumValueDescriptorProto_def
    by (elim conjE)
      (rule codes_Cons codes_Nil [OF EnumValueDescriptorProto.equality] codec_rules
        codes_default [where tag = 10 and u = "EnumValueDescriptorProto.name_update" and op = "r_string L", OF good]
        codes_default [where tag = 16 and u = "EnumValueDescriptorProto.number_update" and op = "num32 (r_int32 L)", OF good]
        codes_some [where tag = 26 and u = "EnumValueDescriptorProto.options_update" and op = "submsg L (decode_EnumValueOptions L)", OF good]
      | assumption | (simp add: EnumValueDescriptorProto_tags createBase_EnumValueDescriptorProto_def; fail))+
qed

lemmas EnumValueDescriptorProto_carries [codec_rules] =
  message_codec.opt_carries [OF EnumValueDescriptorProto_codec, folded decode_EnumValueDescriptorProto_def] message_codec.list_carries [OF EnumValueDescriptorProto_codec, folded decode_EnumValueDescriptorProto_def]

lemmas EnumValueDescriptorProto_good [fwd_rules] = message_codec.op_good [OF EnumValueDescriptorProto_codec, folded decode_EnumValueDescriptorProto_def]

lemmas EnumValueDescriptorProto_roundtrip = message_codec.roundtrip [OF EnumValueDescriptorProto_codec, folded decode_EnumValueDescriptorProto_def]

lemmas EnumValueDescriptorProto_returns = message_codec.decode_returns [OF EnumValueDescriptorProto_codec, folded decode_EnumValueDescriptorProto_def]

lemmas EnumValueDescriptorProto_reads = reads_as_complete [OF EnumValueDescriptorProto_roundtrip complete_EnumValueDescriptorProto]

end

interpretation EnumValueDescriptorProto_json: message_json toJSON_EnumValueDescriptorProto fromJSON_EnumValueDescriptorProto wfj_EnumValueDescriptorProto
proof unfold_locales
  fix h m
  assume "wfj_EnumValueDescriptorProto m"
  then show "json_rt (toJSON_EnumValueDescriptorProto h) (fromJSON_EnumValueDescriptorProto h) m"
    unfolding toJSON_EnumValueDescriptorProto_def fromJSON_EnumValueDescriptorProto_def wfj_EnumValueDescriptorProto_def
    by (elim conjE) (rule json_rtI json_rules | assumption | (simp; fail))+
qed

lemmas EnumValueDescriptorProto_json_rules [json_rules] = EnumValueDescriptorProto_json.json_field_rules

lemma EnumDescriptorProto_EnumReservedRange_tags:
  "EnumDescriptorProto_EnumReservedRange_switch L 8 m = readf (num32 (r_int32 L)) (\<lambda>v. m\<lparr>EnumDescriptorProto_EnumReservedRange.start := Some v\<rparr>)"
  "EnumDescriptorProto_EnumReservedRange_switch L 16 m = readf (num32 (r_int32 L)) (\<lambda>v. m\<lparr>EnumDescriptorProto_EnumReservedRange.end' := Some v\<rparr>)"
  by (simp_all add: EnumDescriptorProto_EnumReservedRange_switch_def when_tag_def)

lemma create_EnumDescriptorProto_EnumReservedRange_None: "create_EnumDescriptorProto_EnumReservedRange None = createBase_EnumDescriptorProto_EnumReservedRange"
  by (simp add: create_EnumDescriptorProto_EnumReservedRange_def fromPartial_EnumDescriptorProto_EnumReservedRange_def EnumDescriptorProto_EnumReservedRange_empty_def createBase_EnumDescriptorProto_EnumReservedRange_def partial_map_def)

lemma complete_EnumDescriptorProto_EnumReservedRange [simp]:
  "encode_EnumDescriptorProto_EnumReservedRange L (fromPartial_EnumDescriptorProto_EnumReservedRange (partial_of_EnumDescriptorProto_EnumReservedRange m)) = encode_EnumDescriptorProto_EnumReservedRange L m"
  by (simp add: encode_EnumDescriptorProto_EnumReservedRange_def fromPartial_EnumDescriptorProto_EnumReservedRange_def partial_of_EnumDescriptorProto_EnumReservedRange_def createBase_EnumDescriptorProto_EnumReservedRange_def partial_map_def option.map_comp o_def del: seqE.simps)

context wire_laws
begin

lemma EnumDescriptorProto_EnumReservedRange_codec:
  shows "message_codec L F out inp (encode_EnumDescriptorProto_EnumReservedRange L) (EnumDescriptorProto_EnumReservedRange_switch L) createBase_EnumDescriptorProto_EnumReservedRange (wf_EnumDescriptorProto_EnumReservedRange L)"
proof unfold_locales
  show good: "good_sw (EnumDescriptorProto_EnumReservedRange_switch L)"
    unfolding EnumDescriptorProto_EnumReservedRange_switch_def by (intro good_swI fwd_rules)
  fix m assume "wf_EnumDescriptorProto_EnumReservedRange L m"
  then show "codes (EnumDescriptorProto_EnumReservedRange_switch L) (encode_EnumDescriptorProto_EnumReservedRange L m) createBase_EnumDescriptorProto_EnumReservedRange m"
    unfolding encode_EnumDescriptorProto_EnumReservedRange_def wf_EnumDescriptorProto_EnumReservedRange_def
    by (elim conjE)
      (rule codes_Cons codes_Nil [OF EnumDescriptorProto_EnumReservedRange.equality] codec_rules
        codes_default [where tag = 8 and u = "EnumDescriptorProto_EnumReservedRange.start_update" and op = "num32 (r_int32 L)", OF good]
        codes_default [where tag = 16 and u = "EnumDescriptorProto_EnumReservedRange.end'_update" and op = "num32 (r_int32 L)", OF good]
      | assumption | (simp add: EnumDescriptorProto_EnumReservedRange_tags createBase_EnumDescriptorProto_EnumReservedRange_def; fail))+
qed

lemmas EnumDescriptorProto_EnumReservedRange_carries [codec_rules] =
  message_codec.opt_carries [OF EnumDescriptorProto_EnumReservedRange_codec, folded decode_EnumDescriptorProto_EnumReservedRange_def] message_codec.list_carries [OF EnumDescriptorProto_EnumReservedRange_codec, folded decode_EnumDescriptorProto_EnumReservedRange_def]

lemmas EnumDescriptorProto_EnumReservedRange_good [fwd_rules] = message_codec.op_good [OF EnumDescriptorProto_EnumReservedRange_codec, folded decode_EnumDescriptorProto_EnumReservedRange_def]

lemmas EnumDescriptorProto_EnumReservedRange_roundtrip = message_codec.roundtrip [OF EnumDescriptorProto_EnumReservedRange_codec, folded decode_EnumDescriptorProto_EnumReservedRange_def]

lemmas EnumDescriptorProto_EnumReservedRange_returns = message_codec.decode_returns [OF EnumDescriptorProto_EnumReservedRange_codec, folded decode_EnumDescriptorProto_EnumReservedRange_def]

lemmas EnumDescriptorProto_EnumReservedRange_reads = reads_as_complete [OF EnumDescriptorProto_EnumReservedRange_roundtrip complete_EnumDescriptorProto_EnumReservedRange]

end

interpretation EnumDescriptorProto_EnumReservedRange_json: message_json toJSON_EnumDescriptorProto_EnumReservedRange fromJSON_EnumDescriptorProto_EnumReservedRange wfj_EnumDescriptorProto_EnumReservedRange
proof unfold_locales
  fix h m
  assume "wfj_EnumDescriptorProto_EnumReservedRange m"
  then show "json_rt (toJSON_EnumDescriptorProto_EnumReservedRange h) (fromJSON_EnumDescriptorProto_EnumReservedRange h) m"
    unfolding toJSON_EnumDescriptorProto_EnumReservedRange_def fromJSON_EnumDescriptorProto_EnumReservedRange_def wfj_EnumDescriptorProto_EnumReservedRange_def
    by (elim conjE) (rule json_rtI json_rules | assumption | (simp; fail))+
qed

lemmas EnumDescriptorProto_EnumReservedRange_json_rules [json_rules] = EnumDescriptorProto_EnumReservedRange_json.json_field_rules

lemma EnumDescriptorProto_tags:
  "EnumDescriptorProto_switch L 10 m = readf (r_string L) (\<lambda>v. m\<lparr>EnumDescriptorProto.name := Some v\<rparr>)"
  "EnumDescriptorProto_switch L 18 m = readf (submsg L (decode_EnumValueDescriptorProto L)) (\<lambda>v. m\<lparr>EnumDescriptorProto.value' := EnumDescriptorProto.value' m @ [v]\<rparr>)"
  "EnumDescriptorProto_switch L 26 m = readf (submsg L (decode_EnumOptions L)) (\<lambda>v. m\<lparr>EnumDescriptorProto.options := Some v\<rparr>)"
  "EnumDescriptorProto_switch L 34 m = readf (submsg L (decode_EnumDescriptorProto_EnumReservedRange L)) (\<lambda>v. m\<lparr>EnumDescriptorProto.reservedRange := EnumDescriptorProto.reservedRange m @ [v]\<rparr>)"
  "EnumDescriptorProto_switch L 42 m = readf (r_string L) (\<lambda>v. m\<lparr>EnumDescriptorProto.reservedName := EnumDescriptorProto.reservedName m @ [v]\<rparr>)"
  by (simp_all add: EnumDescriptorProto_switch_def when_tag_def)

lemma create_EnumDescriptorProto_None: "create_EnumDescriptorProto None = createBase_EnumDescriptorProto"
  by (simp add: create_EnumDescriptorProto_def fromPartial_EnumDescriptorProto_def EnumDescriptorProto_empty_def createBase_EnumDescriptorProto_def partial_map_def)

lemma complete_EnumDescriptorProto [simp]:
  "encode_EnumDescriptorProto L (fromPartial_EnumDescriptorProto (partial_of_EnumDescriptorProto m)) = encode_EnumDescriptorProto L m"
  by (simp add: encode_EnumDescriptorProto_def fromPartial_EnumDescriptorProto_def partial_of_EnumDescriptorProto_def createBase_EnumDescriptorProto_def partial_map_def option.map_comp o_def del: seqE.simps)

context wire_laws
begin

lemma EnumDescriptorProto_codec:
  shows "message_codec L F out inp (encode_EnumDescriptorProto L) (EnumDescriptorProto_switch L) createBase_EnumDescriptorProto (wf_EnumDescriptorProto L)"
proof unfold_locales
  show good: "good_sw (EnumDescriptorProto_switch L)"
    unfolding EnumDescriptorProto_switch_def by (intro good_swI fwd_rules)
  fix m assume "wf_EnumDescriptorProto L m"
  then show "codes (EnumDescriptorProto_switch L) (encode_EnumDescriptorProto L m) createBase_EnumDescriptorProto m"
    unfolding encode_EnumDescriptorProto_def wf_EnumDescriptorProto_def
    by (elim conjE)
      (rule codes_Cons codes_Nil [OF EnumDescriptorProto.equality] codec_rules
        codes_default [where tag = 10 and u = "EnumDescriptorProto.name_update" and op = "r_string L", OF good]
        codes_for [where tag = 18 and u = "EnumDescriptorProto.value'_update" and op = "submsg L (decode_EnumValueDescriptorProto L)", OF good]
        codes_some [where tag = 26 and u = "EnumDescriptorProto.options_update" and op = "submsg L (decode_EnumOptions L)", OF good]
        codes_for [where tag = 34 and u = "EnumDescriptorProto.reservedRange_update" and op = "submsg L (decode_EnumDescriptorProto_EnumReservedRange L)", OF good]
        codes_for [where tag = 42 and u = "EnumDescriptorProto.reservedName_update" and op = "r_string L", OF good]
      | assumption | (simp add: EnumDescriptorProto_tags createBase_EnumDescriptorProto_def; fail))+
qed

lemmas EnumDescriptorProto_carries [codec_rules] =
  message_codec.opt_carries [OF EnumDescriptorProto_codec, folded decode_EnumDescriptorProto_def] message_codec.list_carries [OF EnumDescriptorProto_codec, folded decode_EnumDescriptorProto_def]

lemmas EnumDescriptorProto_good [fwd_rules] = message_codec.op_good [OF EnumDescriptorProto_codec, folded decode_EnumDescriptorProto_def]

lemmas EnumDescriptorProto_roundtrip = message_codec.roundtrip [OF EnumDescriptorProto_codec, folded decode_EnumDescriptorProto_def]

lemmas EnumDescriptorProto_returns = message_codec.decode_returns [OF EnumDescriptorProto_codec, folded decode_EnumDescriptorProto_def]

lemmas EnumDescriptorProto_reads = reads_as_complete [OF EnumDescriptorProto_roundtrip complete_EnumDescriptorProto]

end

interpretation EnumDescriptorProto_json: message_json toJSON_EnumDescriptorProto fromJSON_EnumDescriptorProto wfj_EnumDescriptorProto
proof unfold_locales
  fix h m
  assume "wfj_EnumDescriptorProto m"
  then show "json_rt (toJSON_EnumDescriptorProto h) (fromJSON_EnumDescriptorProto h) m"
    unfolding toJSON_EnumDescriptorProto_def fromJSON_EnumDescriptorProto_def wfj_EnumDescriptorProto_def
    by (elim conjE) (rule json_rtI json_rules | assumption | (simp; fail))+
qed

lemmas EnumDescriptorProto_json_rules [json_rules] = EnumDescriptorProto_json.json_field_rules

lemma DescriptorProto_ExtensionRange_tags:
  "DescriptorProto_ExtensionRange_switch L 8 m = readf (num32 (r_int32 L)) (\<lambda>v. m\<lparr>DescriptorProto_ExtensionRange.start := Some v\<rparr>)"
  "DescriptorProto_ExtensionRange_switch L 16 m = readf (num32 (r_int32 L)) (\<lambda>v. m\<lparr>DescriptorProto_ExtensionRange.end' := Some v\<rparr>)"
  "DescriptorProto_ExtensionRange_switch L 26 m = readf (submsg L (decode_ExtensionRangeOptions L)) (\<lambda>v. m\<lparr>DescriptorProto_ExtensionRange.options := Some v\<rparr>)"
  by (simp_all add: DescriptorProto_ExtensionRange_switch_def when_tag_def)

lemma create_DescriptorProto_ExtensionRange_None: "create_DescriptorProto_ExtensionRange None = createBase_DescriptorProto_ExtensionRange"
  by (simp add: create_DescriptorProto_ExtensionRange_def fromPartial_DescriptorProto_ExtensionRange_def DescriptorProto_ExtensionRange_empty_def createBase_DescriptorProto_ExtensionRange_def partial_map_def)

lemma complete_DescriptorProto_ExtensionRange [simp]:
  "encode_DescriptorProto_ExtensionRange L (fromPartial_DescriptorProto_ExtensionRange (partial_of_DescriptorProto_ExtensionRange m)) = encode_DescriptorProto_ExtensionRange L m"
  by (simp add: encode_DescriptorProto_ExtensionRange_def fromPartial_DescriptorProto_ExtensionRange_def partial_of_DescriptorProto_ExtensionRange_def createBase_DescriptorProto_ExtensionRange_def partial_map_def option.map_comp o_def del: seqE.simps)

context wire_laws
begin

lemma DescriptorProto_ExtensionRange_codec:
  shows "message_codec L F out inp (encode_DescriptorProto_ExtensionRange L) (DescriptorProto_ExtensionRange_switch L) createBase_DescriptorProto_ExtensionRange (wf_DescriptorProto_ExtensionRange L)"
proof unfold_locales
  show good: "good_sw (DescriptorProto_ExtensionRange_switch L)"
    unfolding DescriptorProto_ExtensionRange_switch_def by (intro good_swI fwd_rules)
  fix m assume "wf_DescriptorProto_ExtensionRange L m"
  then show "codes (DescriptorProto_ExtensionRange_switch L) (encode_DescriptorProto_ExtensionRange L m) createBase_DescriptorProto_ExtensionRange m"
    unfolding encode_DescriptorProto_ExtensionRange_def wf_DescriptorProto_ExtensionRange_def
    by (elim conjE)
      (rule codes_Cons codes_Nil [OF DescriptorProto_ExtensionRange.equality] codec_rules
        codes_default [where tag = 8 and u = "DescriptorProto_ExtensionRange.start_update" and op = "num32 (r_int32 L)", OF good]
        codes_default [where tag = 16 and u = "DescriptorProto_ExtensionRange.end'_update" and op = "num32 (r_int32 L)", OF good]
        codes_some [where tag = 26 and u = "DescriptorProto_ExtensionRange.options_update" and op = "submsg L (decode_ExtensionRangeOptions L)", OF good]
      | assumption | (simp add: DescriptorProto_ExtensionRange_tags createBase_DescriptorProto_ExtensionRange_def; fail))+
qed

lemmas DescriptorProto_ExtensionRange_carries [codec_rules] =
  message_codec.opt_carries [OF DescriptorProto_ExtensionRange_codec, folded decode_DescriptorProto_ExtensionRange_def] message_codec.list_carries [OF DescriptorProto_ExtensionRange_codec, folded decode_DescriptorProto_ExtensionRange_def]

lemmas DescriptorProto_ExtensionRange_good [fwd_rules] = message_codec.op_good [OF DescriptorProto_ExtensionRange_codec, folded decode_DescriptorProto_ExtensionRange_def]

lemmas DescriptorProto_ExtensionRange_roundtrip = message_codec.roundtrip [OF DescriptorProto_ExtensionRange_codec, folded decode_DescriptorProto_ExtensionRange_def]

lemmas DescriptorProto_ExtensionRange_returns = message_codec.decode_returns [OF DescriptorProto_ExtensionRange_codec, folded decode_DescriptorProto_ExtensionRange_def]

lemmas DescriptorProto_ExtensionRange_reads = reads_as_complete [OF DescriptorProto_ExtensionRange_roundtrip complete_DescriptorProto_ExtensionRange]

end

interpretation DescriptorProto_ExtensionRange_json: message_json toJSON_DescriptorProto_ExtensionRange fromJSON_DescriptorProto_ExtensionRange wfj_DescriptorProto_ExtensionRange
proof unfold_locales
  fix h m
  assume "wfj_DescriptorProto_ExtensionRange m"
  then show "json_rt (toJSON_DescriptorProto_ExtensionRange h) (fromJSON_DescriptorProto_ExtensionRange h) m"
    unfolding toJSON_DescriptorProto_ExtensionRange_def fromJSON_DescriptorProto_ExtensionRange_def wfj_DescriptorProto_ExtensionRange_def
    by (elim conjE) (rule json_rtI json_rules | assumption | (simp; fail))+
qed

lemmas DescriptorProto_ExtensionRange_json_rules [json_rules] = DescriptorProto_ExtensionRange_json.json_field_rules

lemma OneofDescriptorProto_tags:
  "OneofDescriptorProto_switch L 10 m = readf (r_string L) (\<lambda>v. m\<lparr>OneofDescriptorProto.name := Some v\<rparr>)"
  "OneofDescriptorProto_switch L 18 m = readf (submsg L (decode_OneofOptions L)) (\<lambda>v. m\<lparr>OneofDescriptorProto.options := Some v\<rparr>)"
  by (simp_all add: OneofDescriptorProto_switch_def when_tag_def)

lemma create_OneofDescriptorProto_None: "create_OneofDescriptorProto None = createBase_OneofDescriptorProto"
  by (simp add: create_OneofDescriptorProto_def fromPartial_OneofDescriptorProto_def OneofDescriptorProto_empty_def createBase_OneofDescriptorProto_def partial_map_def)

lemma complete_OneofDescriptorProto [simp]:
  "encode_OneofDescriptorProto L (fromPartial_OneofDescriptorProto (partial_of_OneofDescriptorProto m)) = encode_OneofDescriptorProto L m"
  by (simp add: encode_OneofDescriptorProto_def fromPartial_OneofDescriptorProto_def partial_of_OneofDescriptorProto_def createBase_OneofDescriptorProto_def partial_map_def option.map_comp o_def del: seqE.simps)

context wire_laws
begin

lemma OneofDescriptorProto_codec:
  shows "message_codec L F out inp (encode_OneofDescriptorProto L) (OneofDescriptorProto_switch L) createBase_OneofDescriptorProto (wf_OneofDescriptorProto L)"
proof unfold_locales
  show good: "good_sw (OneofDescriptorProto_switch L)"
    unfolding OneofDescriptorProto_switch_def by (intro good_swI fwd_rules)
  fix m assume "wf_OneofDescriptorProto L m"
  then show "codes (OneofDescriptorProto_switch L) (encode_OneofDescriptorProto L m) createBase_OneofDescriptorProto m"
    unfolding encode_OneofDescriptorProto_def wf_OneofDescriptorProto_def
    by (elim conjE)
      (rule codes_Cons codes_Nil [OF OneofDescriptorProto.equality] codec_rules
        codes_default [where tag = 10 and u = "OneofDescriptorProto.name_update" and op = "r_string L", OF good]
        codes_some [where tag = 18 and u = "OneofDescriptorProto.options_update" and op = "submsg L (decode_OneofOptions L)", OF good]
      | assumption | (simp add: OneofDescriptorProto_tags createBase_OneofDescriptorProto_def; fail))+
qed

lemmas OneofDescriptorProto_carries [codec_rules] =
  message_codec.opt_carries [OF OneofDescriptorProto_codec, folded decode_OneofDescriptorProto_def] message_codec.list_carries [OF OneofDescriptorProto_codec, folded decode_OneofDescriptorProto_def]

lemmas OneofDescriptorProto_good [fwd_rules] = message_codec.op_good [OF OneofDescriptorProto_codec, folded decode_OneofDescriptorProto_def]

lemmas OneofDescriptorProto_roundtrip = message_codec.roundtrip [OF OneofDescriptorProto_codec, folded decode_OneofDescriptorProto_def]

lemmas OneofDescriptorProto_returns = message_codec.decode_returns [OF OneofDescriptorProto_codec, folded decode_OneofDescriptorProto_def]

lemmas OneofDescriptorProto_reads = reads_as_complete [OF OneofDescriptorProto_roundtrip complete_OneofDescriptorProto]

end

interpretation OneofDescriptorProto_json: message_json toJSON_OneofDescriptorProto fromJSON_OneofDescriptorProto wfj_OneofDescriptorProto
proof unfold_locales
  fix h m
  assume "wfj_OneofDescriptorProto m"
  then show "json_rt (toJSON_OneofDescriptorProto h) (fromJSON_OneofDescriptorProto h) m"
    unfolding toJSON_OneofDescriptorProto_def fromJSON_OneofDescriptorProto_def wfj_OneofDescriptorProto_def
    by (elim conjE) (rule json_rtI json_rules | assumption | (simp; fail))+
qed

lemmas OneofDescriptorProto_json_rules [json_rules] = OneofDescriptorProto_json.json_field_rules

lemma DescriptorProto_ReservedRange_tags:
  "DescriptorProto_ReservedRange_switch L 8 m = readf (num32 (r_int32 L)) (\<lambda>v. m\<lparr>DescriptorProto_ReservedRange.start := Some v\<rparr>)"
  "DescriptorProto_ReservedRange_switch L 16 m = readf (num32 (r_int32 L)) (\<lambda>v. m\<lparr>DescriptorProto_ReservedRange.end' := Some v\<rparr>)"
  by (simp_all add: DescriptorProto_ReservedRange_switch_def when_tag_def)

lemma create_DescriptorProto_ReservedRange_None: "create_DescriptorProto_ReservedRange None = createBase_DescriptorProto_ReservedRange"
  by (simp add: create_DescriptorProto_ReservedRange_def fromPartial_DescriptorProto_ReservedRange_def DescriptorProto_ReservedRange_empty_def createBase_DescriptorProto_ReservedRange_def partial_map_def)

lemma complete_DescriptorProto_ReservedRange [simp]:
  "encode_DescriptorProto_ReservedRange L (fromPartial_DescriptorProto_ReservedRange (partial_of_DescriptorProto_ReservedRange m)) = encode_DescriptorProto_ReservedRange L m"
  by (simp add: encode_DescriptorProto_ReservedRange_def fromPartial_DescriptorProto_ReservedRange_def partial_of_DescriptorProto_ReservedRange_def createBase_DescriptorProto_ReservedRange_def partial_map_def option.map_comp o_def del: seqE.simps)

context wire_laws
begin

lemma DescriptorProto_ReservedRange_codec:
  shows "message_codec L F out inp (encode_DescriptorProto_ReservedRange L) (DescriptorProto_ReservedRange_switch L) createBase_DescriptorProto_ReservedRange (wf_DescriptorProto_ReservedRange L)"
proof unfold_locales
  show good: "good_sw (DescriptorProto_ReservedRange_switch L)"
    unfolding DescriptorProto_ReservedRange_switch_def by (intro good_swI fwd_rules)
  fix m assume "wf_DescriptorProto_ReservedRange L m"
  then show "codes (DescriptorProto_ReservedRange_switch L) (encode_DescriptorProto_ReservedRange L m) createBase_DescriptorProto_ReservedRange m"
    unfolding encode_DescriptorProto_ReservedRange_def wf_DescriptorProto_ReservedRange_def
    by (elim conjE)
      (rule codes_Cons codes_Nil [OF DescriptorProto_ReservedRange.equality] codec_rules
        codes_default [where tag = 8 and u = "DescriptorProto_ReservedRange.start_update" and op = "num32 (r_int32 L)", OF good]
        codes_default [where tag = 16 and u = "DescriptorProto_ReservedRange.end'_update" and op = "num32 (r_int32 L)", OF good]
      | assumption | (simp add: DescriptorProto_ReservedRange_tags createBase_DescriptorProto_ReservedRange_def; fail))+
qed

lemmas DescriptorProto_ReservedRange_carries [codec_rules] =
  message_codec.opt_carries [OF DescriptorProto_ReservedRange_codec, folded decode_DescriptorProto_ReservedRange_def] message_codec.list_carries [OF DescriptorProto_ReservedRange_codec, folded decode_DescriptorProto_ReservedRange_def]

lemmas DescriptorProto_ReservedRange_good [fwd_rules] = message_codec.op_good [OF DescriptorProto_ReservedRange_codec, folded decode_DescriptorProto_ReservedRange_def]

lemmas DescriptorProto_ReservedRange_roundtrip = message_codec.roundtrip [OF DescriptorProto_ReservedRange_codec, folded decode_DescriptorProto_ReservedRange_def]

lemmas DescriptorProto_ReservedRange_returns = message_codec.decode_returns [OF DescriptorProto_ReservedRange_codec, folded decode_DescriptorProto_ReservedRange_def]

lemmas DescriptorProto_ReservedRange_reads = reads_as_complete [OF DescriptorProto_ReservedRange_roundtrip complete_DescriptorProto_ReservedRange]

end

interpretation DescriptorProto_ReservedRange_json: message_json toJSON_DescriptorProto_ReservedRange fromJSON_DescriptorProto_ReservedRange wfj_DescriptorProto_ReservedRange
proof unfold_locales
  fix h m
  assume "wfj_DescriptorProto_ReservedRange m"
  then show "json_rt (toJSON_DescriptorProto_ReservedRange h) (fromJSON_DescriptorProto_ReservedRange h) m"
    unfolding toJSON_DescriptorProto_ReservedRange_def fromJSON_DescriptorProto_ReservedRange_def wfj_DescriptorProto_ReservedRange_def
    by (elim conjE) (rule json_rtI json_rules | assumption | (simp; fail))+
qed

lemmas DescriptorProto_ReservedRange_json_rules [json_rules] = DescriptorProto_ReservedRange_json.json_field_rules

lemma MethodDescriptorProto_tags:
  "MethodDescriptorProto_switch L 10 m = readf (r_string L) (\<lambda>v. m\<lparr>MethodDescriptorProto.name := Some v\<rparr>)"
  "MethodDescriptorProto_switch L 18 m = readf (r_string L) (\<lambda>v. m\<lparr>MethodDescriptorProto.inputType := Some v\<rparr>)"
  "MethodDescriptorProto_switch L 26 m = readf (r_string L) (\<lambda>v. m\<lparr>MethodDescriptorProto.outputType := Some v\<rparr>)"
  "MethodDescriptorProto_switch L 34 m = readf (submsg L (decode_MethodOptions L)) (\<lambda>v. m\<lparr>MethodDescriptorProto.options := Some v\<rparr>)"
  "MethodDescriptorProto_switch L 40 m = readf (r_bool L) (\<lambda>v. m\<lparr>MethodDescriptorProto.clientStreaming := Some v\<rparr>)"
  "MethodDescriptorProto_switch L 48 m = readf (r_bool L) (\<lambda>v. m\<lparr>MethodDescriptorProto.serverStreaming := Some v\<rparr>)"
  by (simp_all add: MethodDescriptorProto_switch_def when_tag_def)

lemma create_MethodDescriptorProto_None: "create_MethodDescriptorProto None = createBase_MethodDescriptorProto"
  by (simp add: create_MethodDescriptorProto_def fromPartial_MethodDescriptorProto_def MethodDescriptorProto_empty_def createBase_MethodDescriptorProto_def partial_map_def)

lemma complete_MethodDescriptorProto [simp]:
  "encode_MethodDescriptorProto L (fromPartial_MethodDescriptorProto (partial_of_MethodDescriptorProto m)) = encode_MethodDescriptorProto L m"
  by (simp add: encode_MethodDescriptorProto_def fromPartial_MethodDescriptorProto_def partial_of_MethodDescriptorProto_def createBase_MethodDescriptorProto_def partial_map_def option.map_comp o_def del: seqE.simps)

context wire_laws
begin

lemma MethodDescriptorProto_codec:
  shows "message_codec L F out inp (encode_MethodDescriptorProto L) (MethodDescriptorProto_switch L) createBase_MethodDescriptorProto (wf_MethodDescriptorProto L)"
proof unfold_locales
  show good: "good_sw (MethodDescriptorProto_switch L)"
    unfolding MethodDescriptorProto_switch_def by (intro good_swI fwd_rules)
  fix m assume "wf_MethodDescriptorProto L m"
  then show "codes (MethodDescriptorProto_switch L) (encode_MethodDescriptorProto L m) createBase_MethodDescriptorProto m"
    unfolding encode_MethodDescriptorProto_def wf_MethodDescriptorProto_def
    by (elim conjE)
      (rule codes_Cons codes_Nil [OF MethodDescriptorProto.equality] codec_rules
        codes_default [where tag = 10 and u = "MethodDescriptorProto.name_update" and op = "r_string L", OF good]
        codes_default [where tag = 18 and u = "MethodDescriptorProto.inputType_update" and op = "r_string L", OF good]
        codes_default [where tag = 26 and u = "MethodDescriptorProto.outputType_update" and op = "r_string L", OF good]
        codes_some [where tag = 34 and u = "MethodDescriptorProto.options_update" and op = "submsg L (decode_MethodOptions L)", OF good]
        codes_default [where tag = 40 and u = "MethodDescriptorProto.clientStreaming_update" and op = "r_bool L", OF good]
        codes_default [where tag = 48 and u = "MethodDescriptorProto.serverStreaming_update" and op = "r_bool L", OF good]
      | assumption | (simp add: MethodDescriptorProto_tags createBase_MethodDescriptorProto_def; fail))+
qed

lemmas MethodDescriptorProto_carries [codec_rules] =
  message_codec.opt_carries [OF MethodDescriptorProto_codec, folded decode_MethodDescriptorProto_def] message_codec.list_carries [OF MethodDescriptorProto_codec, folded decode_MethodDescriptorProto_def]

lemmas MethodDescriptorProto_good [fwd_rules] = message_codec.op_good [OF MethodDescriptorProto_codec, folded decode_MethodDescriptorProto_def]

lemmas MethodDescriptorProto_roundtrip = message_codec.roundtrip [OF MethodDescriptorProto_codec, folded decode_MethodDescriptorProto_def]

lemmas MethodDescriptorProto_returns = message_codec.decode_returns [OF MethodDescriptorProto_codec, folded decode_MethodDescriptorProto_def]

lemmas MethodDescriptorProto_reads = reads_as_complete [OF MethodDescriptorProto_roundtrip complete_MethodDescriptorProto]

end

interpretation MethodDescriptorProto_json: message_json toJSON_MethodDescriptorProto fromJSON_MethodDescriptorProto wfj_MethodDescriptorProto
proof unfold_locales
  fix h m
  assume "wfj_MethodDescriptorProto m"
  then show "json_rt (toJSON_MethodDescriptorProto h) (fromJSON_MethodDescriptorProto h) m"
    unfolding toJSON_MethodDescriptorProto_def fromJSON_MethodDescriptorProto_def wfj_MethodDescriptorProto_def
    by (elim conjE) (rule json_rtI json_rules | assumption | (simp; fail))+
qed

lemmas MethodDescriptorProto_json_rules [json_rules] = MethodDescriptorProto_json.json_field_rules

lemma ServiceDescriptorProto_tags:
  "ServiceDescriptorProto_switch L 10 m = readf (r_string L) (\<lambda>v. m\<lparr>ServiceDescriptorProto.name := Some v\<rparr>)"
  "ServiceDescriptorProto_switch L 18 m = readf (submsg L (decode_MethodDescriptorProto L)) (\<lambda>v. m\<lparr>ServiceDescriptorProto.method' := ServiceDescriptorProto.method' m @ [v]\<rparr>)"
  "ServiceDescriptorProto_switch L 26 m = readf (submsg L (decode_ServiceOptions L)) (\<lambda>v. m\<lparr>ServiceDescriptorProto.options := Some v\<rparr>)"
  by (simp_all add: ServiceDescriptorProto_switch_def when_tag_def)

lemma create_ServiceDescriptorProto_None: "create_ServiceDescriptorProto None = createBase_ServiceDescriptorProto"
  by (simp add: create_ServiceDescriptorProto_def fromPartial_ServiceDescriptorProto_def ServiceDescriptorProto_empty_def createBase_ServiceDescriptorProto_def partial_map_def)

lemma complete_ServiceDescriptorProto [simp]:
  "encode_ServiceDescriptorProto L (fromPartial_ServiceDescriptorProto (partial_of_ServiceDescriptorProto m)) = encode_ServiceDescriptorProto L m"
  by (simp add: encode_ServiceDescriptorProto_def fromPartial_ServiceDescriptorProto_def partial_of_ServiceDescriptorProto_def createBase_ServiceDescriptorProto_def partial_map_def option.map_comp o_def del: seqE.simps)

context wire_laws
begin

lemma ServiceDescriptorProto_codec:
  shows "message_codec L F out inp (encode_ServiceDescriptorProto L) (ServiceDescriptorProto_switch L) createBase_ServiceDescriptorProto (wf_ServiceDescriptorProto L)"
proof unfold_locales
  show good: "good_sw (ServiceDescriptorProto_switch L)"
    unfolding ServiceDescriptorProto_switch_def by (intro good_swI fwd_rules)
  fix m assume "wf_ServiceDescriptorProto L m"
  then show "codes (ServiceDescriptorProto_switch L) (encode_ServiceDescriptorProto L m) createBase_ServiceDescriptorProto m"
    unfolding encode_ServiceDescriptorProto_def wf_ServiceDescriptorProto_def
    by (elim conjE)
      (rule codes_Cons codes_Nil [OF ServiceDescriptorProto.equality] codec_rules
        codes_default [where tag = 10 and u = "ServiceDescriptorProto.name_update" and op = "r_string L", OF good]
        codes_for [where tag = 18 and u = "ServiceDescriptorProto.method'_update" and op = "submsg L (decode_MethodDescriptorProto L)", OF good]
        codes_some [where tag = 26 and u = "ServiceDescriptorProto.options_update" and op = "submsg L (decode_ServiceOptions L)", OF good]
      | assumption | (simp add: ServiceDescriptorProto_tags createBase_ServiceDescriptorProto_def; fail))+
qed

lemmas ServiceDescriptorProto_carries [codec_rules] =
  message_codec.opt_carries [OF ServiceDescriptorProto_codec, folded decode_ServiceDescriptorProto_def] message_codec.list_carries [OF ServiceDescriptorProto_codec, folded decode_ServiceDescriptorProto_def]

lemmas ServiceDescriptorProto_good [fwd_rules] = message_codec.op_good [OF ServiceDescriptorProto_codec, folded decode_ServiceDescriptorProto_def]

lemmas ServiceDescriptorProto_roundtrip = message_codec.roundtrip [OF ServiceDescriptorProto_codec, folded decode_ServiceDescriptorProto_def]

lemmas ServiceDescriptorProto_returns = message_codec.decode_returns [OF ServiceDescriptorProto_codec, folded decode_ServiceDescriptorProto_def]

lemmas ServiceDescriptorProto_reads = reads_as_complete [OF ServiceDescriptorProto_roundtrip complete_ServiceDescriptorProto]

end

interpretation ServiceDescriptorProto_json: message_json toJSON_ServiceDescriptorProto fromJSON_ServiceDescriptorProto wfj_ServiceDescriptorProto
proof unfold_locales
  fix h m
  assume "wfj_ServiceDescriptorProto m"
  then show "json_rt (toJSON_ServiceDescriptorProto h) (fromJSON_ServiceDescriptorProto h) m"
    unfolding toJSON_ServiceDescriptorProto_def fromJSON_ServiceDescriptorProto_def wfj_ServiceDescriptorProto_def
    by (elim conjE) (rule json_rtI json_rules | assumption | (simp; fail))+
qed

lemmas ServiceDescriptorProto_json_rules [json_rules] = ServiceDescriptorProto_json.json_field_rules

lemma SourceCodeInfo_Location_tags:
  "SourceCodeInfo_Location_switch L 10 m = readf (packed L (num32 (r_int32 L))) (\<lambda>v. m\<lparr>SourceCodeInfo_Location.path := SourceCodeInfo_Location.path m @ v\<rparr>)"
  "SourceCodeInfo_Location_switch L 18 m = readf (packed L (num32 (r_int32 L))) (\<lambda>v. m\<lparr>SourceCodeInfo_Location.span' := SourceCodeInfo_Location.span' m @ v\<rparr>)"
  "SourceCodeInfo_Location_switch L 26 m = readf (r_string L) (\<lambda>v. m\<lparr>SourceCodeInfo_Location.leadingComments := Some v\<rparr>)"
  "SourceCodeInfo_Location_switch L 34 m = readf (r_string L) (\<lambda>v. m\<lparr>SourceCodeInfo_Location.trailingComments := Some v\<rparr>)"
  "SourceCodeInfo_Location_switch L 50 m = readf (r_string L) (\<lambda>v. m\<lparr>SourceCodeInfo_Location.leadingDetachedComments := SourceCodeInfo_Location.leadingDetachedComments m @ [v]\<rparr>)"
  by (simp_all add: SourceCodeInfo_Location_switch_def when_tag_def)

lemma create_SourceCodeInfo_Location_None: "create_SourceCodeInfo_Location None = createBase_SourceCodeInfo_Location"
  by (simp add: create_SourceCodeInfo_Location_def fromPartial_SourceCodeInfo_Location_def SourceCodeInfo_Location_empty_def createBase_SourceCodeInfo_Location_def partial_map_def)

lemma complete_SourceCodeInfo_Location [simp]:
  "encode_SourceCodeInfo_Location L (fromPartial_SourceCodeInfo_Location (partial_of_SourceCodeInfo_Location m)) = encode_SourceCodeInfo_Location L m"
  by (simp add: encode_SourceCodeInfo_Location_def fromPartial_SourceCodeInfo_Location_def partial_of_SourceCodeInfo_Location_def createBase_SourceCodeInfo_Location_def partial_map_def option.map_comp o_def del: seqE.simps)

context wire_laws
begin

lemma SourceCodeInfo_Location_codec:
  shows "message_codec L F out inp (encode_SourceCodeInfo_Location L) (SourceCodeInfo_Location_switch L) createBase_SourceCodeInfo_Location (wf_SourceCodeInfo_Location L)"
proof unfold_locales
  show good: "good_sw (SourceCodeInfo_Location_switch L)"
    unfolding SourceCodeInfo_Location_switch_def by (intro good_swI fwd_rules)
  fix m assume "wf_SourceCodeInfo_Location L m"
  then show "codes (SourceCodeInfo_Location_switch L) (encode_SourceCodeInfo_Location L m) createBase_SourceCodeInfo_Location m"
    unfolding encode_SourceCodeInfo_Location_def wf_SourceCodeInfo_Location_def
    by (elim conjE)
      (rule codes_Cons codes_Nil [OF SourceCodeInfo_Location.equality] codec_rules
        codes_always [where tag = 10 and u = "SourceCodeInfo_Location.path_update" and op = "packed L (num32 (r_int32 L))", OF good]
        codes_always [where tag = 18 and u = "SourceCodeInfo_Location.span'_update" and op = "packed L (num32 (r_int32 L))", OF good]
        codes_default [where tag = 26 and u = "SourceCodeInfo_Location.leadingComments_update" and op = "r_string L", OF good]
        codes_default [where tag = 34 and u = "SourceCodeInfo_Location.trailingComments_update" and op = "r_string L", OF good]
        codes_for [where tag = 50 and u = "SourceCodeInfo_Location.leadingDetachedComments_update" and op = "r_string L", OF good]
      | assumption | (simp add: SourceCodeInfo_Location_tags createBase_SourceCodeInfo_Location_def; fail))+
qed

lemmas SourceCodeInfo_Location_carries [codec_rules] =
  message_codec.opt_carries [OF SourceCodeInfo_Location_codec, folded decode_SourceCodeInfo_Location_def] message_codec.list_carries [OF SourceCodeInfo_Location_codec, folded decode_SourceCodeInfo_Location_def]

lemmas SourceCodeInfo_Location_good [fwd_rules] = message_codec.op_good [OF SourceCodeInfo_Location_codec, folded decode_SourceCodeInfo_Location_def]

lemmas SourceCodeInfo_Location_roundtrip = message_codec.roundtrip [OF SourceCodeInfo_Location_codec, folded decode_SourceCodeInfo_Location_def]

lemmas SourceCodeInfo_Location_returns = message_codec.decode_returns [OF SourceCodeInfo_Location_codec, folded decode_SourceCodeInfo_Location_def]

lemmas SourceCodeInfo_Location_reads = reads_as_complete [OF SourceCodeInfo_Location_roundtrip complete_SourceCodeInfo_Location]

end

interpretation SourceCodeInfo_Location_json: message_json toJSON_SourceCodeInfo_Location fromJSON_SourceCodeInfo_Location wfj_SourceCodeInfo_Location
proof unfold_locales
  fix h m
  assume "wfj_SourceCodeInfo_Location m"
  then show "json_rt (toJSON_SourceCodeInfo_Location h) (fromJSON_SourceCodeInfo_Location h) m"
    unfolding toJSON_SourceCodeInfo_Location_def fromJSON_SourceCodeInfo_Location_def wfj_SourceCodeInfo_Location_def
    by (elim conjE) (rule json_rtI json_rules | assumption | (simp; fail))+
qed

lemmas SourceCodeInfo_Location_json_rules [json_rules] = SourceCodeInfo_Location_json.json_field_rules

lemma SourceCodeInfo_tags:
  "SourceCodeInfo_switch L 10 m = readf (submsg L (decode_SourceCodeInfo_Location L)) (\<lambda>v. m\<lparr>SourceCodeInfo.location := SourceCodeInfo.location m @ [v]\<rparr>)"
  by (simp_all add: SourceCodeInfo_switch_def when_tag_def)

lemma create_SourceCodeInfo_None: "create_SourceCodeInfo None = createBase_SourceCodeInfo"
  by (simp add: create_SourceCodeInfo_def fromPartial_SourceCodeInfo_def SourceCodeInfo_empty_def createBase_SourceCodeInfo_def partial_map_def)

lemma complete_SourceCodeInfo [simp]:
  "encode_SourceCodeInfo L (fromPartial_SourceCodeInfo (partial_of_SourceCodeInfo m)) = encode_SourceCodeInfo L m"
  by (simp add: encode_SourceCodeInfo_def fromPartial_SourceCodeInfo_def partial_of_SourceCodeInfo_def createBase_SourceCodeInfo_def partial_map_def option.map_comp o_def del: seqE.simps)

context wire_laws
begin

lemma SourceCodeInfo_codec:
  shows "message_codec L F out inp (encode_SourceCodeInfo L) (SourceCodeInfo_switch L) createBase_SourceCodeInfo (wf_SourceCodeInfo L)"
proof unfold_locales
  show good: "good_sw (SourceCodeInfo_switch L)"
    unfolding SourceCodeInfo_switch_def by (intro good_swI fwd_rules)
  fix m assume "wf_SourceCodeInfo L m"
  then show "codes (SourceCodeInfo_switch L) (encode_SourceCodeInfo L m) createBase_SourceCodeInfo m"
    unfolding encode_SourceCodeInfo_def wf_SourceCodeInfo_def
    by (-)
      (rule codes_Cons codes_Nil [OF SourceCodeInfo.equality] codec_rules
        codes_for [where tag = 10 and u = "SourceCodeInfo.location_update" and op = "submsg L (decode_SourceCodeInfo_Location L)", OF good]
      | assumption | (simp add: SourceCodeInfo_tags createBase_SourceCodeInfo_def; fail))+
qed

lemmas SourceCodeInfo_carries [codec_rules] =
  message_codec.opt_carries [OF SourceCodeInfo_codec, folded decode_SourceCodeInfo_def] message_codec.list_carries [OF SourceCodeInfo_codec, folded decode_SourceCodeInfo_def]

lemmas SourceCodeInfo_good [fwd_rules] = message_codec.op_good [OF SourceCodeInfo_codec, folded decode_SourceCodeInfo_def]

lemmas SourceCodeInfo_roundtrip = message_codec.roundtrip [OF SourceCodeInfo_codec, folded decode_SourceCodeInfo_def]

lemmas SourceCodeInfo_returns = message_codec.decode_returns [OF SourceCodeInfo_codec, folded decode_SourceCodeInfo_def]

end

interpretation SourceCodeInfo_json: message_json toJSON_SourceCodeInfo fromJSON_SourceCodeInfo wfj_SourceCodeInfo
proof unfold_locales
  fix h m
  assume "wfj_SourceCodeInfo m"
  then show "json_rt (toJSON_SourceCodeInfo h) (fromJSON_SourceCodeInfo h) m"
    unfolding toJSON_SourceCodeInfo_def fromJSON_SourceCodeInfo_def wfj_SourceCodeInfo_def
    by (-) (rule json_rtI json_rules | assumption | (simp; fail))+
qed

lemmas SourceCodeInfo_json_rules [json_rules] = SourceCodeInfo_json.json_field_rules

lemma GeneratedCodeInfo_Annotation_tags:
  "GeneratedCodeInfo_Annotation_switch L 10 m = readf (packed L (num32 (r_int32 L))) (\<lambda>v. m\<lparr>GeneratedCodeInfo_Annotation.path := GeneratedCodeInfo_Annotation.path m @ v\<rparr>)"
  "GeneratedCodeInfo_Annotation_switch L 18 m = readf (r_string L) (\<lambda>v. m\<lparr>GeneratedCodeInfo_Annotation.sourceFile := Some v\<rparr>)"
  "GeneratedCodeInfo_Annotation_switch L 24 m = readf (num32 (r_int32 L)) (\<lambda>v. m\<lparr>GeneratedCodeInfo_Annotation.begin' := Some v\<rparr>)"
  "GeneratedCodeInfo_Annotation_switch L 32 m = readf (num32 (r_int32 L)) (\<lambda>v. m\<lparr>GeneratedCodeInfo_Annotation.end' := Some v\<rparr>)"
  "GeneratedCodeInfo_Annotation_switch L 40 m = readf (num32 (r_int32 L)) (\<lambda>v. m\<lparr>GeneratedCodeInfo_Annotation.semantic := Some v\<rparr>)"
  by (simp_all add: GeneratedCodeInfo_Annotation_switch_def when_tag_def)

lemma create_GeneratedCodeInfo_Annotation_None: "create_GeneratedCodeInfo_Annotation None = createBase_GeneratedCodeInfo_Annotation"
  by (simp add: create_GeneratedCodeInfo_Annotation_def fromPartial_GeneratedCodeInfo_Annotation_def GeneratedCodeInfo_Annotation_empty_def createBase_GeneratedCodeInfo_Annotation_def partial_map_def)

lemma complete_GeneratedCodeInfo_Annotation [simp]:
  "encode_GeneratedCodeInfo_Annotation L (fromPartial_GeneratedCodeInfo_Annotation (partial_of_GeneratedCodeInfo_Annotation m)) = encode_GeneratedCodeInfo_Annotation L m"
  by (simp add: encode_GeneratedCodeInfo_Annotation_def fromPartial_GeneratedCodeInfo_Annotation_def partial_of_GeneratedCodeInfo_Annotation_def createBase_GeneratedCodeInfo_Annotation_def partial_map_def option.map_comp o_def del: seqE.simps)

context wire_laws
begin

lemma GeneratedCodeInfo_Annotation_codec:
  shows "message_codec L F out inp (encode_GeneratedCodeInfo_Annotation L) (GeneratedCodeInfo_Annotation_switch L) createBase_GeneratedCodeInfo_Annotation (wf_GeneratedCodeInfo_Annotation L)"
proof unfold_locales
  show good: "good_sw (GeneratedCodeInfo_Annotation_switch L)"
    unfolding GeneratedCodeInfo_Annotation_switch_def by (intro good_swI fwd_rules)
  fix m assume "wf_GeneratedCodeInfo_Annotation L m"
  then show "codes (GeneratedCodeInfo_Annotation_switch L) (encode_GeneratedCodeInfo_Annotation L m) createBase_GeneratedCodeInfo_Annotation m"
    unfolding encode_GeneratedCodeInfo_Annotation_def wf_GeneratedCodeInfo_Annotation_def
    by (elim conjE)
      (rule codes_Cons codes_Nil [OF GeneratedCodeInfo_Annotation.equality] codec_rules
        codes_always [where tag = 10 and u = "GeneratedCodeInfo_Annotation.path_update" and op = "packed L (num32 (r_int32 L))", OF good]
        codes_default [where tag = 18 and u = "GeneratedCodeInfo_Annotation.sourceFile_update" and op = "r_string L", OF good]
        codes_default [where tag = 24 and u = "GeneratedCodeInfo_Annotation.begin'_update" and op = "num32 (r_int32 L)", OF good]
        codes_default [where tag = 32 and u = "GeneratedCodeInfo_Annotation.end'_update" and op = "num32 (r_int32 L)", OF good]
        codes_default [where tag = 40 and u = "GeneratedCodeInfo_Annotation.semantic_update" and op = "num32 (r_int32 L)", OF good]
      | assumption | (simp add: GeneratedCodeInfo_Annotation_tags createBase_GeneratedCodeInfo_Annotation_def; fail))+
qed

lemmas GeneratedCodeInfo_Annotation_carries [codec_rules] =
  message_codec.opt_carries [OF GeneratedCodeInfo_Annotation_codec, folded decode_GeneratedCodeInfo_Annotation_def] message_codec.list_carries [OF GeneratedCodeInfo_Annotation_codec, folded decode_GeneratedCodeInfo_Annotation_def]

lemmas GeneratedCodeInfo_Annotation_good [fwd_rules] = message_codec.op_good [OF GeneratedCodeInfo_Annotation_codec, folded decode_GeneratedCodeInfo_Annotation_def]

lemmas GeneratedCodeInfo_Annotation_roundtrip = message_codec.roundtrip [OF GeneratedCodeInfo_Annotation_codec, folded decode_GeneratedCodeInfo_Annotation_def]

lemmas GeneratedCodeInfo_Annotation_returns = message_codec.decode_returns [OF GeneratedCodeInfo_Annotation_codec, folded decode_GeneratedCodeInfo_Annotation_def]

lemmas GeneratedCodeInfo_Annotation_reads = reads_as_complete [OF GeneratedCodeInfo_Annotation_roundtrip complete_GeneratedCodeInfo_Annotation]

end

interpretation GeneratedCodeInfo_Annotation_json: message_json toJSON_GeneratedCodeInfo_Annotation fromJSON_GeneratedCodeInfo_Annotation wfj_GeneratedCodeInfo_Annotation
proof unfold_locales
  fix h m
  assume "wfj_GeneratedCodeInfo_Annotation m"
  then show "json_rt (toJSON_GeneratedCodeInfo_Annotation h) (fromJSON_GeneratedCodeInfo_Annotation h) m"
    unfolding toJSON_GeneratedCodeInfo_Annotation_def fromJSON_GeneratedCodeInfo_Annotation_def wfj_GeneratedCodeInfo_Annotation_def
    by (elim conjE) (rule json_rtI json_rules | assumption | (simp; fail))+
qed

lemmas GeneratedCodeInfo_Annotation_json_rules [json_rules] = GeneratedCodeInfo_Annotation_json.json_field_rules

lemma GeneratedCodeInfo_tags:
  "GeneratedCodeInfo_switch L 10 m = readf (submsg L (decode_GeneratedCodeInfo_Annotation L)) (\<lambda>v. m\<lparr>GeneratedCodeInfo.annotation := GeneratedCodeInfo.annotation m @ [v]\<rparr>)"
  by (simp_all add: GeneratedCodeInfo_switch_def when_tag_def)

lemma create_GeneratedCodeInfo_None: "create_GeneratedCodeInfo None = createBase_GeneratedCodeInfo"
  by (simp add: create_GeneratedCodeInfo_def fromPartial_GeneratedCodeInfo_def GeneratedCodeInfo_empty_def createBase_GeneratedCodeInfo_def partial_map_def)

lemma complete_GeneratedCodeInfo [simp]:
  "encode_GeneratedCodeInfo L (fromPartial_GeneratedCodeInfo (partial_of_GeneratedCodeInfo m)) = encode_GeneratedCodeInfo L m"
  by (simp add: encode_GeneratedCodeInfo_def fromPartial_GeneratedCodeInfo_def partial_of_GeneratedCodeInfo_def createBase_GeneratedCodeInfo_def partial_map_def option.map_comp o_def del: seqE.simps)

context wire_laws
begin

lemma GeneratedCodeInfo_codec:
  shows "message_codec L F out inp (encode_GeneratedCodeInfo L) (GeneratedCodeInfo_switch L) createBase_GeneratedCodeInfo (wf_GeneratedCodeInfo L)"
proof unfold_locales
  show good: "good_sw (GeneratedCodeInfo_switch L)"
    unfolding GeneratedCodeInfo_switch_def by (intro good_swI fwd_rules)
  fix m assume "wf_GeneratedCodeInfo L m"
  then show "codes (GeneratedCodeInfo_switch L) (encode_GeneratedCodeInfo L m) createBase_GeneratedCodeInfo m"
    unfolding encode_GeneratedCodeInfo_def wf_GeneratedCodeInfo_def
    by (-)
      (rule codes_Cons codes_Nil [OF GeneratedCodeInfo.equality] codec_rules
        codes_for [where tag = 10 and u = "GeneratedCodeInfo.annotation_update" and op = "submsg L (decode_GeneratedCodeInfo_Annotation L)", OF good]
      | assumption | (simp add: GeneratedCodeInfo_tags createBase_GeneratedCodeInfo_def; fail))+
qed

lemmas GeneratedCodeInfo_roundtrip = message_codec.roundtrip [OF GeneratedCodeInfo_codec, folded decode_GeneratedCodeInfo_def]

lemmas GeneratedCodeInfo_returns = message_codec.decode_returns [OF GeneratedCodeInfo_codec, folded decode_GeneratedCodeInfo_def]

end

interpretation GeneratedCodeInfo_json: message_json toJSON_GeneratedCodeInfo fromJSON_GeneratedCodeInfo wfj_GeneratedCodeInfo
proof unfold_locales
  fix h m
  assume "wfj_GeneratedCodeInfo m"
  then show "json_rt (toJSON_GeneratedCodeInfo h) (fromJSON_GeneratedCodeInfo h) m"
    unfolding toJSON_GeneratedCodeInfo_def fromJSON_GeneratedCodeInfo_def wfj_GeneratedCodeInfo_def
    by (-) (rule json_rtI json_rules | assumption | (simp; fail))+
qed

lemma DescriptorProto_tags:
  "DescriptorProto_switch L dec 10 m = readf (r_string L) (\<lambda>v. DescriptorProto_name_update (\<lambda>_. Some v) m)"
  "DescriptorProto_switch L dec 18 m = readf (submsg L (decode_FieldDescriptorProto L)) (\<lambda>v. DescriptorProto_field_update (\<lambda>_. DescriptorProto.field m @ [v]) m)"
  "DescriptorProto_switch L dec 50 m = readf (submsg L (decode_FieldDescriptorProto L)) (\<lambda>v. DescriptorProto_extension_update (\<lambda>_. DescriptorProto.extension m @ [v]) m)"
  "DescriptorProto_switch L dec 26 m = readf (submsg L dec) (\<lambda>v. DescriptorProto_nestedType_update (\<lambda>_. DescriptorProto.nestedType m @ [v]) m)"
  "DescriptorProto_switch L dec 34 m = readf (submsg L (decode_EnumDescriptorProto L)) (\<lambda>v. DescriptorProto_enumType_update (\<lambda>_. DescriptorProto.enumType m @ [v]) m)"
  "DescriptorProto_switch L dec 42 m = readf (submsg L (decode_DescriptorProto_ExtensionRange L)) (\<lambda>v. DescriptorProto_extensionRange_update (\<lambda>_. DescriptorProto.extensionRange m @ [v]) m)"
  "DescriptorProto_switch L dec 66 m = readf (submsg L (decode_OneofDescriptorProto L)) (\<lambda>v. DescriptorProto_oneofDecl_update (\<lambda>_. DescriptorProto.oneofDecl m @ [v]) m)"
  "DescriptorProto_switch L dec 58 m = readf (submsg L (decode_MessageOptions L)) (\<lambda>v. DescriptorProto_options_update (\<lambda>_. Some v) m)"
  "DescriptorProto_switch L dec 74 m = readf (submsg L (decode_DescriptorProto_ReservedRange L)) (\<lambda>v. DescriptorProto_reservedRange_update (\<lambda>_. DescriptorProto.reservedRange m @ [v]) m)"
  "DescriptorProto_switch L dec 82 m = readf (r_string L) (\<lambda>v. DescriptorProto_reservedName_update (\<lambda>_. DescriptorProto.reservedName m @ [v]) m)"
  by (simp_all add: DescriptorProto_switch_def when_tag_def)

lemma DescriptorProto_eqI: "DescriptorProto.name a = DescriptorProto.name b \<Longrightarrow> DescriptorProto.field a = DescriptorProto.field b \<Longrightarrow> DescriptorProto.extension a = DescriptorProto.extension b \<Longrightarrow> DescriptorProto.nestedType a = DescriptorProto.nestedType b \<Longrightarrow> DescriptorProto.enumType a = DescriptorProto.enumType b \<Longrightarrow> DescriptorProto.extensionRange a = DescriptorProto.extensionRange b \<Longrightarrow> DescriptorProto.oneofDecl a = DescriptorProto.oneofDecl b \<Longrightarrow> DescriptorProto.options a = DescriptorProto.options b \<Longrightarrow> DescriptorProto.reservedRange a = DescriptorProto.reservedRange b \<Longrightarrow> DescriptorProto.reservedName a = DescriptorProto.reservedName b \<Longrightarrow> a = b"
  by (cases a; cases b) simp

lemma create_DescriptorProto_None: "create_DescriptorProto (Suc n) None = Inr createBase_DescriptorProto"
  by (simp add: create_DescriptorProto_def DescriptorProto_empty_def createBase_DescriptorProto_def partial_map_def partial_mapE_def)

sublocale wire_laws \<subseteq> DescriptorProto_rec: recursive_decoder L F out inp "decode_DescriptorProto L" "DescriptorProto_switch L" createBase_DescriptorProto 26
    "\<lambda>v. DescriptorProto_nestedType_update (\<lambda>_. DescriptorProto.nestedType createBase_DescriptorProto @ [v]) createBase_DescriptorProto"
proof unfold_locales
  show "good_sw (DescriptorProto_switch L d)" if "good_op (submsg L d)" for d
    unfolding DescriptorProto_switch_def by (intro good_swI fwd_rules that)
  show "DescriptorProto_switch L d t m r = DescriptorProto_switch L d' t m r" if "submsg L d r = submsg L d' r" for d d' t m r
    using that by (simp add: DescriptorProto_switch_def when_tag_def readf_def)
qed (simp_all add: DescriptorProto_tags)

context wire_laws
begin

lemma DescriptorProto_codec_step:
  assumes carr: "\<And>xs. list_all (\<lambda>v. wf_DescriptorProto L n v \<and> fits L (encode_DescriptorProto L n v)) xs \<Longrightarrow>
      list_all (\<lambda>v. carries (seqE [w_fork L, encode_DescriptorProto L n v, w_join L]) (submsg L (decode_DescriptorProto L n)) v) xs"
  shows "message_codec L F out inp (encode_DescriptorProto L (Suc n)) (DescriptorProto_switch L (decode_DescriptorProto L n)) createBase_DescriptorProto (wf_DescriptorProto L (Suc n))"
proof unfold_locales
  show good: "good_sw (DescriptorProto_switch L (decode_DescriptorProto L n))"
    by (rule DescriptorProto_rec.level_good)
  fix m assume "wf_DescriptorProto L (Suc n) m"
  then show "codes (DescriptorProto_switch L (decode_DescriptorProto L n)) (encode_DescriptorProto L (Suc n) m) createBase_DescriptorProto m"
    unfolding encode_DescriptorProto.simps wf_DescriptorProto.simps
    by (elim conjE)
      (rule codes_Cons codes_Nil [OF DescriptorProto_eqI] codec_rules carr
        codes_default [where tag = 10 and u = "DescriptorProto_name_update" and op = "r_string L", OF good]
        codes_for [where tag = 18 and u = "DescriptorProto_field_update" and op = "submsg L (decode_FieldDescriptorProto L)", OF good]
        codes_for [where tag = 50 and u = "DescriptorProto_extension_update" and op = "submsg L (decode_FieldDescriptorProto L)", OF good]
        codes_for [where tag = 26 and u = "DescriptorProto_nestedType_update" and op = "submsg L (decode_DescriptorProto L n)", OF good]
        codes_for [where tag = 34 and u = "DescriptorProto_enumType_update" and op = "submsg L (decode_EnumDescriptorProto L)", OF good]
        codes_for [where tag = 42 and u = "DescriptorProto_extensionRange_update" and op = "submsg L (decode_DescriptorProto_ExtensionRange L)", OF good]
        codes_for [where tag = 66 and u = "DescriptorProto_oneofDecl_update" and op = "submsg L (decode_OneofDescriptorProto L)", OF good]
        codes_some [where tag = 58 and u = "DescriptorProto_options_update" and op = "submsg L (decode_MessageOptions L)", OF good]
        codes_for [where tag = 74 and u = "DescriptorProto_reservedRange_update" and op = "submsg L (decode_DescriptorProto_ReservedRange L)", OF good]
        codes_for [where tag = 82 and u = "DescriptorProto_reservedName_update" and op = "r_string L", OF good]
      | assumption | (simp add: DescriptorProto_tags createBase_DescriptorProto_def; fail))+
qed

lemma DescriptorProto_carries [codec_rules]: "list_all (\<lambda>v. wf_DescriptorProto L n v \<and> fits L (encode_DescriptorProto L n v)) xs \<Longrightarrow>
      list_all (\<lambda>v. carries (seqE [w_fork L, encode_DescriptorProto L n v, w_join L]) (submsg L (decode_DescriptorProto L n)) v) xs"
proof (induction n arbitrary: xs)
  case 0
  then show ?case by (cases xs) simp_all
next
  case (Suc n)
  then show ?case
    using message_codec.list_carries [OF DescriptorProto_codec_step [OF Suc.IH], of xs] by (simp del: wf_DescriptorProto.simps encode_DescriptorProto.simps seqE.simps)
qed

lemmas DescriptorProto_codec = DescriptorProto_codec_step [OF DescriptorProto_carries]

lemmas DescriptorProto_good [fwd_rules] = DescriptorProto_rec.sub_good

lemma DescriptorProto_roundtrip: "wf_DescriptorProto L n m \<Longrightarrow> roundtrips L inp (encode_DescriptorProto L n) (decode_DescriptorProto L n) m"
proof (cases n)
  case (Suc k)
  assume "wf_DescriptorProto L n m"
  then show ?thesis using message_codec.roundtrip [OF DescriptorProto_codec, of k m] by (simp only: Suc decode_DescriptorProto.simps)
qed simp

lemmas DescriptorProto_returns = DescriptorProto_rec.returns

lemma DescriptorProto_stack:
  "length b < n \<Longrightarrow> n \<le> n' \<Longrightarrow> decode_DescriptorProto L n' (ABuffer b) None = decode_DescriptorProto L n (ABuffer b) None"
  "decode_DescriptorProto L n (ABuffer (concat (replicate n (e_uint32 F 26 @ e_uint32 F 1)))) None = Inl stack_overflow"
  using DescriptorProto_rec.enough_stack [of "ABuffer b" n n' None] DescriptorProto_rec.stack_exhausted [of n]
  by (simp_all add: reader_of_def inp_new DescriptorProto_rec.nested_def)

end

lemma DescriptorProto_json_step:
  assumes carr: "\<And>h xs. list_all (wfj_DescriptorProto n) xs \<Longrightarrow> list_all (json_rt (toJSON_DescriptorProto h n) (fromJSON_DescriptorProto h n)) xs"
  shows "message_json (\<lambda>h. toJSON_DescriptorProto h (Suc n)) (\<lambda>h. fromJSON_DescriptorProto h (Suc n)) (wfj_DescriptorProto (Suc n))"
proof unfold_locales
  fix h m
  assume "wfj_DescriptorProto (Suc n) m"
  then show "json_rt (toJSON_DescriptorProto h (Suc n)) (fromJSON_DescriptorProto h (Suc n)) m"
    unfolding wfj_DescriptorProto.simps
    by (elim conjE, intro json_rtI, unfold toJSON_DescriptorProto.simps fromJSON_DescriptorProto.simps)
      (rule json_rules jarrayE_Inr [OF carr] read_array [OF carr] | assumption | (simp; fail))+
qed

lemma DescriptorProto_json_list: "list_all (wfj_DescriptorProto n) xs \<Longrightarrow> list_all (json_rt (toJSON_DescriptorProto h n) (fromJSON_DescriptorProto h n)) xs"
proof (induction n arbitrary: h xs)
  case 0
  then show ?case by (cases xs) simp_all
next
  case (Suc n)
  then show ?case using message_json.json_list [OF DescriptorProto_json_step [OF Suc.IH]] by blast
qed

lemmas DescriptorProto_json = DescriptorProto_json_step [OF DescriptorProto_json_list]

lemma DescriptorProto_json_roundtrip: "wfj_DescriptorProto n m \<Longrightarrow> bindE (toJSON_DescriptorProto h n m) (fromJSON_DescriptorProto h n) = Inr m"
  using DescriptorProto_json_list [of n "[m]" h] by (simp add: json_rt_bind)

lemmas DescriptorProto_json_rules [json_rules] = jarrayE_Inr [OF DescriptorProto_json_list] read_array [OF DescriptorProto_json_list]

lemma FileDescriptorProto_tags:
  "FileDescriptorProto_switch L n 10 m = readf (r_string L) (\<lambda>v. m\<lparr>FileDescriptorProto.name := Some v\<rparr>)"
  "FileDescriptorProto_switch L n 18 m = readf (r_string L) (\<lambda>v. m\<lparr>FileDescriptorProto.package := Some v\<rparr>)"
  "FileDescriptorProto_switch L n 26 m = readf (r_string L) (\<lambda>v. m\<lparr>FileDescriptorProto.dependency := FileDescriptorProto.dependency m @ [v]\<rparr>)"
  "FileDescriptorProto_switch L n 82 m = readf (packed L (num32 (r_int32 L))) (\<lambda>v. m\<lparr>FileDescriptorProto.publicDependency := FileDescriptorProto.publicDependency m @ v\<rparr>)"
  "FileDescriptorProto_switch L n 90 m = readf (packed L (num32 (r_int32 L))) (\<lambda>v. m\<lparr>FileDescriptorProto.weakDependency := FileDescriptorProto.weakDependency m @ v\<rparr>)"
  "FileDescriptorProto_switch L n 34 m = readf (submsg L (decode_DescriptorProto L n)) (\<lambda>v. m\<lparr>FileDescriptorProto.messageType := FileDescriptorProto.messageType m @ [v]\<rparr>)"
  "FileDescriptorProto_switch L n 42 m = readf (submsg L (decode_EnumDescriptorProto L)) (\<lambda>v. m\<lparr>FileDescriptorProto.enumType := FileDescriptorProto.enumType m @ [v]\<rparr>)"
  "FileDescriptorProto_switch L n 50 m = readf (submsg L (decode_ServiceDescriptorProto L)) (\<lambda>v. m\<lparr>FileDescriptorProto.service := FileDescriptorProto.service m @ [v]\<rparr>)"
  "FileDescriptorProto_switch L n 58 m = readf (submsg L (decode_FieldDescriptorProto L)) (\<lambda>v. m\<lparr>FileDescriptorProto.extension := FileDescriptorProto.extension m @ [v]\<rparr>)"
  "FileDescriptorProto_switch L n 66 m = readf (submsg L (decode_FileOptions L)) (\<lambda>v. m\<lparr>FileDescriptorProto.options := Some v\<rparr>)"
  "FileDescriptorProto_switch L n 74 m = readf (submsg L (decode_SourceCodeInfo L)) (\<lambda>v. m\<lparr>FileDescriptorProto.sourceCodeInfo := Some v\<rparr>)"
  "FileDescriptorProto_switch L n 98 m = readf (r_string L) (\<lambda>v. m\<lparr>FileDescriptorProto.syntax' := Some v\<rparr>)"
  "FileDescriptorProto_switch L n 112 m = readf (num32 (r_int32 L)) (\<lambda>v. m\<lparr>FileDescriptorProto.edition := Some v\<rparr>)"
  by (simp_all add: FileDescriptorProto_switch_def when_tag_def)

lemma create_FileDescriptorProto_None: "create_FileDescriptorProto n None = Inr createBase_FileDescriptorProto"
  by (simp add: create_FileDescriptorProto_def fromPartial_FileDescriptorProto_def FileDescriptorProto_empty_def createBase_FileDescriptorProto_def partial_map_def partial_mapE_def)

context wire_laws
begin

lemma FileDescriptorProto_codec:
  shows "message_codec L F out inp (encode_FileDescriptorProto L n) (FileDescriptorProto_switch L n) createBase_FileDescriptorProto (wf_FileDescriptorProto L n)"
proof unfold_locales
  show good: "good_sw (FileDescriptorProto_switch L n)"
    unfolding FileDescriptorProto_switch_def by (intro good_swI fwd_rules)
  fix m assume "wf_FileDescriptorProto L n m"
  then show "codes (FileDescriptorProto_switch L n) (encode_FileDescriptorProto L n m) createBase_FileDescriptorProto m"
    unfolding encode_FileDescriptorProto_def wf_FileDescriptorProto_def
    by (elim conjE)
      (rule codes_Cons codes_Nil [OF FileDescriptorProto.equality] codec_rules
        codes_default [where tag = 10 and u = "FileDescriptorProto.name_update" and op = "r_string L", OF good]
        codes_default [where tag = 18 and u = "FileDescriptorProto.package_update" and op = "r_string L", OF good]
        codes_for [where tag = 26 and u = "FileDescriptorProto.dependency_update" and op = "r_string L", OF good]
        codes_always [where tag = 82 and u = "FileDescriptorProto.publicDependency_update" and op = "packed L (num32 (r_int32 L))", OF good]
        codes_always [where tag = 90 and u = "FileDescriptorProto.weakDependency_update" and op = "packed L (num32 (r_int32 L))", OF good]
        codes_for [where tag = 34 and u = "FileDescriptorProto.messageType_update" and op = "submsg L (decode_DescriptorProto L n)", OF good]
        codes_for [where tag = 42 and u = "FileDescriptorProto.enumType_update" and op = "submsg L (decode_EnumDescriptorProto L)", OF good]
        codes_for [where tag = 50 and u = "FileDescriptorProto.service_update" and op = "submsg L (decode_ServiceDescriptorProto L)", OF good]
        codes_for [where tag = 58 and u = "FileDescriptorProto.extension_update" and op = "submsg L (decode_FieldDescriptorProto L)", OF good]
        codes_some [where tag = 66 and u = "FileDescriptorProto.options_update" and op = "submsg L (decode_FileOptions L)", OF good]
        codes_some [where tag = 74 and u = "FileDescriptorProto.sourceCodeInfo_update" and op = "submsg L (decode_SourceCodeInfo L)", OF good]
        codes_default [where tag = 98 and u = "FileDescriptorProto.syntax'_update" and op = "r_string L", OF good]
        codes_default [where tag = 112 and u = "FileDescriptorProto.edition_update" and op = "num32 (r_int32 L)", OF good]
      | assumption | (simp add: FileDescriptorProto_tags createBase_FileDescriptorProto_def; fail))+
qed

lemmas FileDescriptorProto_carries [codec_rules] =
  message_codec.opt_carries [OF FileDescriptorProto_codec, folded decode_FileDescriptorProto_def] message_codec.list_carries [OF FileDescriptorProto_codec, folded decode_FileDescriptorProto_def]

lemmas FileDescriptorProto_good [fwd_rules] = message_codec.op_good [OF FileDescriptorProto_codec, folded decode_FileDescriptorProto_def]

lemmas FileDescriptorProto_roundtrip = message_codec.roundtrip [OF FileDescriptorProto_codec, folded decode_FileDescriptorProto_def]

lemmas FileDescriptorProto_returns = message_codec.decode_returns [OF FileDescriptorProto_codec, folded decode_FileDescriptorProto_def]

end

lemma FileDescriptorProto_json: "message_json (\<lambda>h. toJSON_FileDescriptorProto h n) (\<lambda>h. fromJSON_FileDescriptorProto h n) (wfj_FileDescriptorProto n)"
proof unfold_locales
  fix h m
  assume "wfj_FileDescriptorProto n m"
  then show "json_rt (toJSON_FileDescriptorProto h n) (fromJSON_FileDescriptorProto h n) m"
    unfolding toJSON_FileDescriptorProto_def fromJSON_FileDescriptorProto_def wfj_FileDescriptorProto_def
    by (elim conjE) (rule json_rtI json_rules | assumption | (simp; fail))+
qed

lemmas FileDescriptorProto_json_roundtrip = message_json.json_roundtrip [OF FileDescriptorProto_json]

lemmas FileDescriptorProto_json_rules [json_rules] = message_json.json_field_rules [OF FileDescriptorProto_json]

lemma FileDescriptorSet_tags:
  "FileDescriptorSet_switch L n 10 m = readf (submsg L (decode_FileDescriptorProto L n)) (\<lambda>v. m\<lparr>FileDescriptorSet.file' := FileDescriptorSet.file' m @ [v]\<rparr>)"
  by (simp_all add: FileDescriptorSet_switch_def when_tag_def)

lemma create_FileDescriptorSet_None: "create_FileDescriptorSet n None = Inr createBase_FileDescriptorSet"
  by (simp add: create_FileDescriptorSet_def fromPartial_FileDescriptorSet_def FileDescriptorSet_empty_def createBase_FileDescriptorSet_def partial_map_def partial_mapE_def)

context wire_laws
begin

lemma FileDescriptorSet_codec:
  shows "message_codec L F out inp (encode_FileDescriptorSet L n) (FileDescriptorSet_switch L n) createBase_FileDescriptorSet (wf_FileDescriptorSet L n)"
proof unfold_locales
  show good: "good_sw (FileDescriptorSet_switch L n)"
    unfolding FileDescriptorSet_switch_def by (intro good_swI fwd_rules)
  fix m assume "wf_FileDescriptorSet L n m"
  then show "codes (FileDescriptorSet_switch L n) (encode_FileDescriptorSet L n m) createBase_FileDescriptorSet m"
    unfolding encode_FileDescriptorSet_def wf_FileDescriptorSet_def
    by (-)
      (rule codes_Cons codes_Nil [OF FileDescriptorSet.equality] codec_rules
        codes_for [where tag = 10 and u = "FileDescriptorSet.file'_update" and op = "submsg L (decode_FileDescriptorProto L n)", OF good]
      | assumption | (simp add: FileDescriptorSet_tags createBase_FileDescriptorSet_def; fail))+
qed

lemmas FileDescriptorSet_roundtrip = message_codec.roundtrip [OF FileDescriptorSet_codec, folded decode_FileDescriptorSet_def]

lemmas FileDescriptorSet_returns = message_codec.decode_returns [OF FileDescriptorSet_codec, folded decode_FileDescriptorSet_def]

end

lemma FileDescriptorSet_json: "message_json (\<lambda>h. toJSON_FileDescriptorSet h n) (\<lambda>h. fromJSON_FileDescriptorSet h n) (wfj_FileDescriptorSet n)"
proof unfold_locales
  fix h m
  assume "wfj_FileDescriptorSet n m"
  then show "json_rt (toJSON_FileDescriptorSet h n) (fromJSON_FileDescriptorSet h n) m"
    unfolding toJSON_FileDescriptorSet_def fromJSON_FileDescriptorSet_def wfj_FileDescriptorSet_def
    by (-) (rule json_rtI json_rules | assumption | (simp; fail))+
qed

lemmas FileDescriptorSet_json_roundtrip = message_json.json_roundtrip [OF FileDescriptorSet_json]

lemmas DescMsgs_jsons =
  FieldDescriptorProto_json.json_roundtrip
  EnumValueDescriptorProto_json.json_roundtrip
  EnumDescriptorProto_EnumReservedRange_json.json_roundtrip
  EnumDescriptorProto_json.json_roundtrip
  DescriptorProto_ExtensionRange_json.json_roundtrip
  OneofDescriptorProto_json.json_roundtrip
  DescriptorProto_ReservedRange_json.json_roundtrip
  MethodDescriptorProto_json.json_roundtrip
  ServiceDescriptorProto_json.json_roundtrip
  SourceCodeInfo_Location_json.json_roundtrip
  SourceCodeInfo_json.json_roundtrip
  GeneratedCodeInfo_Annotation_json.json_roundtrip
  GeneratedCodeInfo_json.json_roundtrip
  DescriptorProto_json_roundtrip
  FileDescriptorProto_json_roundtrip
  FileDescriptorSet_json_roundtrip

context wire_laws
begin

lemmas DescMsgs_roundtrips =
  FieldDescriptorProto_roundtrip
  EnumValueDescriptorProto_roundtrip
  EnumDescriptorProto_EnumReservedRange_roundtrip
  EnumDescriptorProto_roundtrip
  DescriptorProto_ExtensionRange_roundtrip
  OneofDescriptorProto_roundtrip
  DescriptorProto_ReservedRange_roundtrip
  MethodDescriptorProto_roundtrip
  ServiceDescriptorProto_roundtrip
  SourceCodeInfo_Location_roundtrip
  SourceCodeInfo_roundtrip
  GeneratedCodeInfo_Annotation_roundtrip
  GeneratedCodeInfo_roundtrip
  DescriptorProto_roundtrip
  FileDescriptorProto_roundtrip
  FileDescriptorSet_roundtrip

lemmas DescMsgs_reads =
  FieldDescriptorProto_reads
  EnumValueDescriptorProto_reads
  EnumDescriptorProto_EnumReservedRange_reads
  EnumDescriptorProto_reads
  DescriptorProto_ExtensionRange_reads
  OneofDescriptorProto_reads
  DescriptorProto_ReservedRange_reads
  MethodDescriptorProto_reads
  ServiceDescriptorProto_reads
  SourceCodeInfo_Location_reads
  GeneratedCodeInfo_Annotation_reads

end

end
