(* ===== verification/SchemaSamples.thy ===== *)
theory SchemaSamples
  imports Samples HttpMsgs DescMsgs
begin

text \<open>
  Concrete schema messages over the protobuf wire format: an option that was not interpreted, with a
  double in it, a field descriptor, a message type with a nested one, and an HTTP rule with another
  binding.
\<close>

definition sample_UninterpretedOption :: UninterpretedOption where
  "sample_UninterpretedOption =
     \<lparr>UninterpretedOption.name = [\<lparr>UninterpretedOption_NamePart.namePart = js ''limit'', UninterpretedOption_NamePart.isExtension = True\<rparr>],
      UninterpretedOption.identifierValue = Some [],
      UninterpretedOption.positiveIntValue = Some (Num 7),
      UninterpretedOption.negativeIntValue = Some (Num (- 7)),
      UninterpretedOption.doubleValue = Some (Num (3 / 2)),
      UninterpretedOption.stringValue = Some [1, 255],
      UninterpretedOption.aggregateValue = Some (js ''x'')\<rparr>"

lemma round53_sample: "round53 (3 / 2) = 3 / 2"
  by code_simp

lemma sample_double: "is_double (Num (3 / 2))"
  by (simp add: is_double_def to_double_def round53_sample)

lemma sample_NamePart_fits [simp]:
  "fits pb_wire (encode_UninterpretedOption_NamePart pb_wire
     \<lparr>UninterpretedOption_NamePart.namePart = js ''limit'', UninterpretedOption_NamePart.isExtension = True\<rparr>)"
  by (rule fits_small) code_simp

lemma sample_UninterpretedOption_wf [simp]: "wf_UninterpretedOption pb_wire sample_UninterpretedOption"
  by (simp add: wf_UninterpretedOption_def wf_UninterpretedOption_NamePart_def sample_UninterpretedOption_def sample_double
      sample_simps)

text \<open>A field that is a member of no \<open>oneof\<close>: its \<open>oneofIndex\<close> is not set.\<close>

definition sample_FieldDescriptorProto :: FieldDescriptorProto where
  "sample_FieldDescriptorProto = createBase_FieldDescriptorProto
     \<lparr>FieldDescriptorProto.name := Some (js ''height''), FieldDescriptorProto.number := Some (Num 6),
      FieldDescriptorProto.type' := Some FieldDescriptorProto_Type_TYPE_INT64,
      FieldDescriptorProto.oneofIndex := None\<rparr>"

lemma sample_FieldDescriptorProto_wf [simp]:
  "wf_FieldDescriptorProto pb_wire (fromPartial_FieldDescriptorProto (partial_of_FieldDescriptorProto sample_FieldDescriptorProto))"
  by (simp add: wf_FieldDescriptorProto_def sample_FieldDescriptorProto_def fromPartial_FieldDescriptorProto_def
      partial_of_FieldDescriptorProto_def createBase_FieldDescriptorProto_def FieldDescriptorProto_Type_defs sample_simps)

definition sample_DescriptorProto :: DescriptorProto where
  "sample_DescriptorProto =
     DescriptorProto (Some (js ''Outer'')) [] []
       [DescriptorProto_name_update (\<lambda>_. Some (js ''Inner'')) createBase_DescriptorProto] [] [] [] None [] [js ''old'']"

lemma sample_inner_fits [simp]:
  "fits pb_wire (encode_DescriptorProto pb_wire (Suc 0) (DescriptorProto_name_update (\<lambda>_. Some (js ''Inner'')) createBase_DescriptorProto))"
proof (rule fits_small)
  have "encode_DescriptorProto pb_wire (Suc 0) (DescriptorProto_name_update (\<lambda>_. Some (js ''Inner'')) createBase_DescriptorProto) =
      seqE [w_uint32 pb_wire 10, w_string pb_wire (js ''Inner'')]"
    by (rule ext) (simp add: createBase_DescriptorProto_def skip_stmts someE_def whenE_def)
  moreover have "fits_small pb_wire (seqE [w_uint32 pb_wire 10, w_string pb_wire (js ''Inner'')])" by code_simp
  ultimately show "fits_small pb_wire (encode_DescriptorProto pb_wire (Suc 0)
      (DescriptorProto_name_update (\<lambda>_. Some (js ''Inner'')) createBase_DescriptorProto))" by simp
qed

lemma sample_DescriptorProto_wf [simp]: "wf_DescriptorProto pb_wire (Suc (Suc 0)) sample_DescriptorProto"
  unfolding sample_DescriptorProto_def wf_DescriptorProto.simps(2) [of _ "Suc 0"]
  by (simp add: sample_simps del: encode_DescriptorProto.simps)
    (simp add: createBase_DescriptorProto_def sample_simps)

definition sample_HttpRule :: HttpRule where
  "sample_HttpRule =
     HttpRule (js ''arkeo.Query.FetchContract'') (Some (js ''/arkeo/contract'')) None None None None None [] []
       [HttpRule [] None None (Some (js ''/arkeo/contract'')) None None
          (Some \<lparr>CustomHttpPattern.kind = js ''HEAD'', CustomHttpPattern.path = js ''/''\<rparr>) (js ''*'') [] []]"

lemma sample_HttpRule_wfj [simp]: "wfj_HttpRule (Suc (Suc 0)) sample_HttpRule"
  by (simp add: sample_HttpRule_def wfj_CustomHttpPattern_def)

end
