(* ===== verification/ArkeoSpec.thy ===== *)
theory ArkeoSpec
  imports Evolution TcSamples CosmosTx SchemaSamples
begin

text \<open>
  The properties of the arkeo client library, of \<open>ts-client\<close> for the arkeo and claim modules, and of the
  schema descriptors, each with a concrete instance. The properties that involve the codecs of the
  Cosmos modules are in the root theory.
\<close>

text \<open>
  C1. Every transaction of the arkeo module survives encoding: over any wire library that satisfies the laws, \<open>decode(encode(m).finish())\<close> returns the message itself and reads all of the bytes, for every request of \<open>tx.ts\<close> whose strings, numbers and nested messages the wire format can carry.
\<close>

theorem arkeo_tx_roundtrip:
  assumes laws: "wire_laws L F out inp"
  shows "(\<forall>m. wf_MsgBondProvider L m \<longrightarrow> roundtrips L inp (encode_MsgBondProvider L) (decode_MsgBondProvider L) m)
    \<and> (\<forall>m. wf_MsgModProvider L m \<longrightarrow> roundtrips L inp (encode_MsgModProvider L) (decode_MsgModProvider L) m)
    \<and> (\<forall>m. wf_MsgOpenContract L m \<longrightarrow> roundtrips L inp (encode_MsgOpenContract L) (decode_MsgOpenContract L) m)
    \<and> (\<forall>m. wf_MsgCloseContract L m \<longrightarrow> roundtrips L inp (encode_MsgCloseContract L) (decode_MsgCloseContract L) m)
    \<and> (\<forall>m. wf_MsgClaimContractIncome L m \<longrightarrow> roundtrips L inp (encode_MsgClaimContractIncome L) (decode_MsgClaimContractIncome L) m)
    \<and> (\<forall>m. wf_MsgSetVersion L m \<longrightarrow> roundtrips L inp (encode_MsgSetVersion L) (decode_MsgSetVersion L) m)
    \<and> (\<forall>m. wf_MsgRegisterService L m \<longrightarrow> roundtrips L inp (encode_MsgRegisterService L) (decode_MsgRegisterService L) m)
    \<and> (\<forall>m. wf_MsgUpdateService L m \<longrightarrow> roundtrips L inp (encode_MsgUpdateService L) (decode_MsgUpdateService L) m)
    \<and> (\<forall>m. wf_MsgRemoveService L m \<longrightarrow> roundtrips L inp (encode_MsgRemoveService L) (decode_MsgRemoveService L) m)"
  by (intro conjI allI impI;
      rule wire_laws.MsgBondProvider_roundtrip [OF laws]
        wire_laws.MsgModProvider_roundtrip [OF laws]
        wire_laws.MsgOpenContract_roundtrip [OF laws]
        wire_laws.MsgCloseContract_roundtrip [OF laws]
        wire_laws.MsgClaimContractIncome_roundtrip [OF laws]
        wire_laws.MsgSetVersion_roundtrip [OF laws]
        wire_laws.MsgRegisterService_roundtrip [OF laws]
        wire_laws.MsgUpdateService_roundtrip [OF laws]
        wire_laws.MsgRemoveService_roundtrip [OF laws];
      assumption)

theorem arkeo_tx_roundtrip_witness:
  "wire_laws pb_wire pb_format pb_out snd
    \<and> wf_MsgOpenContract pb_wire sample_MsgOpenContract \<and>
      roundtrips pb_wire snd (encode_MsgOpenContract pb_wire) (decode_MsgOpenContract pb_wire) sample_MsgOpenContract
    \<and> wf_MsgModProvider pb_wire sample_MsgModProvider \<and>
      roundtrips pb_wire snd (encode_MsgModProvider pb_wire) (decode_MsgModProvider pb_wire) sample_MsgModProvider"
  using arkeo_tx_roundtrip [OF pb.wire_laws_axioms] pb.wire_laws_axioms by simp

text \<open>
  C2. Every object the chain stores for providers, contracts and services (\<open>keeper.ts\<close>) survives encoding, the packed list of contract ids included.
\<close>

theorem keeper_roundtrip:
  assumes laws: "wire_laws L F out inp"
  shows "(\<forall>m. wf_Provider L m \<longrightarrow> roundtrips L inp (encode_Provider L) (decode_Provider L) m)
    \<and> (\<forall>m. wf_Contract L m \<longrightarrow> roundtrips L inp (encode_Contract L) (decode_Contract L) m)
    \<and> (\<forall>m. wf_ContractSet L m \<longrightarrow> roundtrips L inp (encode_ContractSet L) (decode_ContractSet L) m)
    \<and> (\<forall>m. wf_ContractExpirationSet L m \<longrightarrow> roundtrips L inp (encode_ContractExpirationSet L) (decode_ContractExpirationSet L) m)
    \<and> (\<forall>m. wf_UserContractSet L m \<longrightarrow> roundtrips L inp (encode_UserContractSet L) (decode_UserContractSet L) m)
    \<and> (\<forall>m. wf_Service L m \<longrightarrow> roundtrips L inp (encode_Service L) (decode_Service L) m)"
  by (intro conjI allI impI;
      rule wire_laws.Provider_roundtrip [OF laws]
        wire_laws.Contract_roundtrip [OF laws]
        wire_laws.ContractSet_roundtrip [OF laws]
        wire_laws.ContractExpirationSet_roundtrip [OF laws]
        wire_laws.UserContractSet_roundtrip [OF laws]
        wire_laws.Service_roundtrip [OF laws];
      assumption)

theorem keeper_roundtrip_witness:
  "wire_laws pb_wire pb_format pb_out snd
    \<and> wf_Provider pb_wire sample_Provider \<and>
      roundtrips pb_wire snd (encode_Provider pb_wire) (decode_Provider pb_wire) sample_Provider
    \<and> wf_Contract pb_wire sample_Contract \<and>
      roundtrips pb_wire snd (encode_Contract pb_wire) (decode_Contract pb_wire) sample_Contract
    \<and> wf_ContractSet pb_wire sample_ContractSet \<and>
      roundtrips pb_wire snd (encode_ContractSet pb_wire) (decode_ContractSet pb_wire) sample_ContractSet
    \<and> wf_UserContractSet pb_wire sample_UserContractSet \<and>
      roundtrips pb_wire snd (encode_UserContractSet pb_wire) (decode_UserContractSet pb_wire) sample_UserContractSet"
  using keeper_roundtrip [OF pb.wire_laws_axioms] pb.wire_laws_axioms by simp

text \<open>
  C3. Every request and answer of the query service (\<open>query.ts\<close>) survives encoding, with the nested objects and the pagination.
\<close>

theorem query_roundtrip:
  assumes laws: "wire_laws L F out inp"
  shows "(\<forall>m. wf_QueryAllServicesRequest L m \<longrightarrow> roundtrips L inp (encode_QueryAllServicesRequest L) (decode_QueryAllServicesRequest L) m)
    \<and> (\<forall>m. wf_ServiceEnum L m \<longrightarrow> roundtrips L inp (encode_ServiceEnum L) (decode_ServiceEnum L) m)
    \<and> (\<forall>m. wf_QueryAllServicesResponse L m \<longrightarrow> roundtrips L inp (encode_QueryAllServicesResponse L) (decode_QueryAllServicesResponse L) m)
    \<and> (\<forall>m. wf_QueryServiceRequest L m \<longrightarrow> roundtrips L inp (encode_QueryServiceRequest L) (decode_QueryServiceRequest L) m)
    \<and> (\<forall>m. wf_QueryServiceResponse L m \<longrightarrow> roundtrips L inp (encode_QueryServiceResponse L) (decode_QueryServiceResponse L) m)
    \<and> (\<forall>m. wf_QueryParamsRequest L m \<longrightarrow> roundtrips L inp (encode_QueryParamsRequest L) (decode_QueryParamsRequest L) m)
    \<and> (\<forall>m. wf_QueryParamsResponse L m \<longrightarrow> roundtrips L inp (encode_QueryParamsResponse L) (decode_QueryParamsResponse L) m)
    \<and> (\<forall>m. wf_QueryFetchProviderRequest L m \<longrightarrow> roundtrips L inp (encode_QueryFetchProviderRequest L) (decode_QueryFetchProviderRequest L) m)
    \<and> (\<forall>m. wf_QueryFetchProviderResponse L m \<longrightarrow> roundtrips L inp (encode_QueryFetchProviderResponse L) (decode_QueryFetchProviderResponse L) m)
    \<and> (\<forall>m. wf_QueryAllProviderRequest L m \<longrightarrow> roundtrips L inp (encode_QueryAllProviderRequest L) (decode_QueryAllProviderRequest L) m)
    \<and> (\<forall>m. wf_QueryAllProviderResponse L m \<longrightarrow> roundtrips L inp (encode_QueryAllProviderResponse L) (decode_QueryAllProviderResponse L) m)
    \<and> (\<forall>m. wf_QueryFetchContractRequest L m \<longrightarrow> roundtrips L inp (encode_QueryFetchContractRequest L) (decode_QueryFetchContractRequest L) m)
    \<and> (\<forall>m. wf_QueryFetchContractResponse L m \<longrightarrow> roundtrips L inp (encode_QueryFetchContractResponse L) (decode_QueryFetchContractResponse L) m)
    \<and> (\<forall>m. wf_QueryAllContractRequest L m \<longrightarrow> roundtrips L inp (encode_QueryAllContractRequest L) (decode_QueryAllContractRequest L) m)
    \<and> (\<forall>m. wf_QueryAllContractResponse L m \<longrightarrow> roundtrips L inp (encode_QueryAllContractResponse L) (decode_QueryAllContractResponse L) m)
    \<and> (\<forall>m. wf_QueryActiveContractRequest L m \<longrightarrow> roundtrips L inp (encode_QueryActiveContractRequest L) (decode_QueryActiveContractRequest L) m)
    \<and> (\<forall>m. wf_QueryActiveContractResponse L m \<longrightarrow> roundtrips L inp (encode_QueryActiveContractResponse L) (decode_QueryActiveContractResponse L) m)"
  by (intro conjI allI impI;
      rule wire_laws.QueryAllServicesRequest_roundtrip [OF laws]
        wire_laws.ServiceEnum_roundtrip [OF laws]
        wire_laws.QueryAllServicesResponse_roundtrip [OF laws]
        wire_laws.QueryServiceRequest_roundtrip [OF laws]
        wire_laws.QueryServiceResponse_roundtrip [OF laws]
        wire_laws.QueryParamsRequest_roundtrip [OF laws]
        wire_laws.QueryParamsResponse_roundtrip [OF laws]
        wire_laws.QueryFetchProviderRequest_roundtrip [OF laws]
        wire_laws.QueryFetchProviderResponse_roundtrip [OF laws]
        wire_laws.QueryAllProviderRequest_roundtrip [OF laws]
        wire_laws.QueryAllProviderResponse_roundtrip [OF laws]
        wire_laws.QueryFetchContractRequest_roundtrip [OF laws]
        wire_laws.QueryFetchContractResponse_roundtrip [OF laws]
        wire_laws.QueryAllContractRequest_roundtrip [OF laws]
        wire_laws.QueryAllContractResponse_roundtrip [OF laws]
        wire_laws.QueryActiveContractRequest_roundtrip [OF laws]
        wire_laws.QueryActiveContractResponse_roundtrip [OF laws];
      assumption)

theorem query_roundtrip_witness:
  "wire_laws pb_wire pb_format pb_out snd
    \<and> wf_QueryAllProviderResponse pb_wire sample_QueryAllProviderResponse \<and>
      roundtrips pb_wire snd (encode_QueryAllProviderResponse pb_wire) (decode_QueryAllProviderResponse pb_wire) sample_QueryAllProviderResponse"
  using query_roundtrip [OF pb.wire_laws_axioms] pb.wire_laws_axioms by simp

text \<open>
  C4. The genesis state of the arkeo module, with all the lists it contains, survives encoding, and so do the validator versions and the module parameters; so does the state of the claim module: claim records, the parameters with a start date and two durations, and the genesis state.
\<close>

theorem state_roundtrip:
  assumes laws: "wire_laws L F out inp"
  shows "(\<forall>m. wf_GenesisState L m \<longrightarrow> roundtrips L inp (encode_GenesisState L) (decode_GenesisState L) m)
    \<and> (\<forall>m. wf_ValidatorVersion L m \<longrightarrow> roundtrips L inp (encode_ValidatorVersion L) (decode_ValidatorVersion L) m)
    \<and> (\<forall>m. wf_Params L m \<longrightarrow> roundtrips L inp (encode_Params L) (decode_Params L) m)
    \<and> (\<forall>m. wf_ClaimRecord L m \<longrightarrow> roundtrips L inp (encode_ClaimRecord L) (decode_ClaimRecord L) m)
    \<and> (\<forall>m. wf_claim_Params L m \<longrightarrow> roundtrips L inp (encode_claim_Params L) (decode_claim_Params L) m)
    \<and> (\<forall>m. wf_claim_GenesisState L m \<longrightarrow> roundtrips L inp (encode_claim_GenesisState L) (decode_claim_GenesisState L) m)"
  by (intro conjI allI impI;
      rule wire_laws.GenesisState_roundtrip [OF laws]
        wire_laws.ValidatorVersion_roundtrip [OF laws]
        wire_laws.Params_roundtrip [OF laws]
        wire_laws.ClaimRecord_roundtrip [OF laws]
        wire_laws.claim_Params_roundtrip [OF laws]
        wire_laws.claim_GenesisState_roundtrip [OF laws];
      assumption)

theorem state_roundtrip_witness:
  "wire_laws pb_wire pb_format pb_out snd
    \<and> wf_GenesisState pb_wire sample_GenesisState \<and>
      roundtrips pb_wire snd (encode_GenesisState pb_wire) (decode_GenesisState pb_wire) sample_GenesisState
    \<and> wf_claim_GenesisState pb_wire sample_claim_GenesisState \<and>
      roundtrips pb_wire snd (encode_claim_GenesisState pb_wire) (decode_claim_GenesisState pb_wire) sample_claim_GenesisState
    \<and> wf_ClaimRecord pb_wire sample_ClaimRecord \<and>
      roundtrips pb_wire snd (encode_ClaimRecord pb_wire) (decode_ClaimRecord pb_wire) sample_ClaimRecord"
  using state_roundtrip [OF pb.wire_laws_axioms] pb.wire_laws_axioms by simp

text \<open>
  C5. The client of the \<open>Msg\<close> service refines its interface: over a transport whose remote end implements the interface, each of the nine methods of \<open>MsgClientImpl\<close> has the outcome and the effect of the handler called directly, for requests and answers the wire format can carry.
\<close>

theorem msg_client_refines:
  assumes laws: "wire_laws L F out inp" and served: "Msg_served L this impl"
  shows "(\<forall>q s. wf_MsgBondProvider L q \<longrightarrow> (\<forall>a s'. Msg_service.BondProvider impl q s = (Inr a, s') \<longrightarrow> wf_MsgBondProviderResponse L a) \<longrightarrow>
      MsgClientImpl_BondProvider L this q s = direct (Msg_service.BondProvider impl) q s)
    \<and> (\<forall>q s. wf_MsgModProvider L q \<longrightarrow> (\<forall>a s'. Msg_service.ModProvider impl q s = (Inr a, s') \<longrightarrow> wf_MsgModProviderResponse L a) \<longrightarrow>
      MsgClientImpl_ModProvider L this q s = direct (Msg_service.ModProvider impl) q s)
    \<and> (\<forall>q s. wf_MsgOpenContract L q \<longrightarrow> (\<forall>a s'. Msg_service.OpenContract impl q s = (Inr a, s') \<longrightarrow> wf_MsgOpenContractResponse L a) \<longrightarrow>
      MsgClientImpl_OpenContract L this q s = direct (Msg_service.OpenContract impl) q s)
    \<and> (\<forall>q s. wf_MsgCloseContract L q \<longrightarrow> (\<forall>a s'. Msg_service.CloseContract impl q s = (Inr a, s') \<longrightarrow> wf_MsgCloseContractResponse L a) \<longrightarrow>
      MsgClientImpl_CloseContract L this q s = direct (Msg_service.CloseContract impl) q s)
    \<and> (\<forall>q s. wf_MsgClaimContractIncome L q \<longrightarrow> (\<forall>a s'. Msg_service.ClaimContractIncome impl q s = (Inr a, s') \<longrightarrow> wf_MsgClaimContractIncomeResponse L a) \<longrightarrow>
      MsgClientImpl_ClaimContractIncome L this q s = direct (Msg_service.ClaimContractIncome impl) q s)
    \<and> (\<forall>q s. wf_MsgSetVersion L q \<longrightarrow> (\<forall>a s'. Msg_service.SetVersion impl q s = (Inr a, s') \<longrightarrow> wf_MsgSetVersionResponse L a) \<longrightarrow>
      MsgClientImpl_SetVersion L this q s = direct (Msg_service.SetVersion impl) q s)
    \<and> (\<forall>q s. wf_MsgRegisterService L q \<longrightarrow> (\<forall>a s'. Msg_service.RegisterService impl q s = (Inr a, s') \<longrightarrow> wf_MsgRegisterServiceResponse L a) \<longrightarrow>
      MsgClientImpl_RegisterService L this q s = direct (Msg_service.RegisterService impl) q s)
    \<and> (\<forall>q s. wf_MsgUpdateService L q \<longrightarrow> (\<forall>a s'. Msg_service.UpdateService impl q s = (Inr a, s') \<longrightarrow> wf_MsgUpdateServiceResponse L a) \<longrightarrow>
      MsgClientImpl_UpdateService L this q s = direct (Msg_service.UpdateService impl) q s)
    \<and> (\<forall>q s. wf_MsgRemoveService L q \<longrightarrow> (\<forall>a s'. Msg_service.RemoveService impl q s = (Inr a, s') \<longrightarrow> wf_MsgRemoveServiceResponse L a) \<longrightarrow>
      MsgClientImpl_RemoveService L this q s = direct (Msg_service.RemoveService impl) q s)"
  by (intro conjI allI impI;
      rule wire_laws.Msg_BondProvider_call [OF laws served]
        wire_laws.Msg_ModProvider_call [OF laws served]
        wire_laws.Msg_OpenContract_call [OF laws served]
        wire_laws.Msg_CloseContract_call [OF laws served]
        wire_laws.Msg_ClaimContractIncome_call [OF laws served]
        wire_laws.Msg_SetVersion_call [OF laws served]
        wire_laws.Msg_RegisterService_call [OF laws served]
        wire_laws.Msg_UpdateService_call [OF laws served]
        wire_laws.Msg_RemoveService_call [OF laws served];
      blast)

theorem msg_client_refines_witness:
  "wire_laws pb_wire pb_format pb_out snd \<and> Msg_served pb_wire sample_Msg_client sample_Msg \<and>
    MsgClientImpl_OpenContract pb_wire sample_Msg_client sample_MsgOpenContract [] = (Resolves MsgOpenContractResponse, [sample_MsgOpenContract])"
  using msg_client_refines [OF pb.wire_laws_axioms sample_Msg_served] pb.wire_laws_axioms sample_Msg_served
  by (simp add: direct_def sample_Msg_def wf_MsgOpenContractResponse_def)

text \<open>
  C6. The client of the \<open>Query\<close> service of the arkeo module, for its eight queries, and the clients of the two services of the claim module, for five transactions and three queries, refine their interfaces in the same sense.
\<close>

theorem query_and_claim_clients_refine:
  assumes laws: "wire_laws L F out inp" and msg: "claim_Msg_served L this impl" and query: "claim_Query_served L this' impl'"
    and arkeo: "Query_served L this'' impl''"
  shows "(\<forall>q s. wf_QueryParamsRequest L q \<longrightarrow> (\<forall>a s'. Query_service.Params impl'' q s = (Inr a, s') \<longrightarrow> wf_QueryParamsResponse L a) \<longrightarrow>
      QueryClientImpl_Params L this'' q s = direct (Query_service.Params impl'') q s)
    \<and> (\<forall>q s. wf_QueryFetchProviderRequest L q \<longrightarrow> (\<forall>a s'. Query_service.FetchProvider impl'' q s = (Inr a, s') \<longrightarrow> wf_QueryFetchProviderResponse L a) \<longrightarrow>
      QueryClientImpl_FetchProvider L this'' q s = direct (Query_service.FetchProvider impl'') q s)
    \<and> (\<forall>q s. wf_QueryAllProviderRequest L q \<longrightarrow> (\<forall>a s'. Query_service.ProviderAll impl'' q s = (Inr a, s') \<longrightarrow> wf_QueryAllProviderResponse L a) \<longrightarrow>
      QueryClientImpl_ProviderAll L this'' q s = direct (Query_service.ProviderAll impl'') q s)
    \<and> (\<forall>q s. wf_QueryFetchContractRequest L q \<longrightarrow> (\<forall>a s'. Query_service.FetchContract impl'' q s = (Inr a, s') \<longrightarrow> wf_QueryFetchContractResponse L a) \<longrightarrow>
      QueryClientImpl_FetchContract L this'' q s = direct (Query_service.FetchContract impl'') q s)
    \<and> (\<forall>q s. wf_QueryAllContractRequest L q \<longrightarrow> (\<forall>a s'. Query_service.ContractAll impl'' q s = (Inr a, s') \<longrightarrow> wf_QueryAllContractResponse L a) \<longrightarrow>
      QueryClientImpl_ContractAll L this'' q s = direct (Query_service.ContractAll impl'') q s)
    \<and> (\<forall>q s. wf_QueryActiveContractRequest L q \<longrightarrow> (\<forall>a s'. Query_service.ActiveContract impl'' q s = (Inr a, s') \<longrightarrow> wf_QueryActiveContractResponse L a) \<longrightarrow>
      QueryClientImpl_ActiveContract L this'' q s = direct (Query_service.ActiveContract impl'') q s)
    \<and> (\<forall>q s. wf_QueryAllServicesRequest L q \<longrightarrow> (\<forall>a s'. Query_service.AllServices impl'' q s = (Inr a, s') \<longrightarrow> wf_QueryAllServicesResponse L a) \<longrightarrow>
      QueryClientImpl_AllServices L this'' q s = direct (Query_service.AllServices impl'') q s)
    \<and> (\<forall>q s. wf_QueryServiceRequest L q \<longrightarrow> (\<forall>a s'. Query_service.Service impl'' q s = (Inr a, s') \<longrightarrow> wf_QueryServiceResponse L a) \<longrightarrow>
      QueryClientImpl_Service L this'' q s = direct (Query_service.Service impl'') q s)
    \<and> (\<forall>q s. wf_MsgClaimEth L q \<longrightarrow> (\<forall>a s'. claim_Msg_service.ClaimEth impl q s = (Inr a, s') \<longrightarrow> wf_MsgClaimEthResponse L a) \<longrightarrow>
      claim_MsgClientImpl_ClaimEth L this q s = direct (claim_Msg_service.ClaimEth impl) q s)
    \<and> (\<forall>q s. wf_MsgClaimArkeo L q \<longrightarrow> (\<forall>a s'. claim_Msg_service.ClaimArkeo impl q s = (Inr a, s') \<longrightarrow> wf_MsgClaimArkeoResponse L a) \<longrightarrow>
      claim_MsgClientImpl_ClaimArkeo L this q s = direct (claim_Msg_service.ClaimArkeo impl) q s)
    \<and> (\<forall>q s. wf_MsgTransferClaim L q \<longrightarrow> (\<forall>a s'. claim_Msg_service.TransferClaim impl q s = (Inr a, s') \<longrightarrow> wf_MsgTransferClaimResponse L a) \<longrightarrow>
      claim_MsgClientImpl_TransferClaim L this q s = direct (claim_Msg_service.TransferClaim impl) q s)
    \<and> (\<forall>q s. wf_MsgAddClaim L q \<longrightarrow> (\<forall>a s'. claim_Msg_service.AddClaim impl q s = (Inr a, s') \<longrightarrow> wf_MsgAddClaimResponse L a) \<longrightarrow>
      claim_MsgClientImpl_AddClaim L this q s = direct (claim_Msg_service.AddClaim impl) q s)
    \<and> (\<forall>q s. wf_MsgClaimThorchain L q \<longrightarrow> (\<forall>a s'. claim_Msg_service.ClaimThorchain impl q s = (Inr a, s') \<longrightarrow> wf_MsgClaimThorchainResponse L a) \<longrightarrow>
      claim_MsgClientImpl_ClaimThorchain L this q s = direct (claim_Msg_service.ClaimThorchain impl) q s)
    \<and> (\<forall>q s. wf_claim_QueryParamsRequest L q \<longrightarrow> (\<forall>a s'. claim_Query_service.Params impl' q s = (Inr a, s') \<longrightarrow> wf_claim_QueryParamsResponse L a) \<longrightarrow>
      claim_QueryClientImpl_Params L this' q s = direct (claim_Query_service.Params impl') q s)
    \<and> (\<forall>q s. wf_QueryClaimRecordRequest L q \<longrightarrow> (\<forall>a s'. claim_Query_service.ClaimRecord impl' q s = (Inr a, s') \<longrightarrow> wf_QueryClaimRecordResponse L a) \<longrightarrow>
      claim_QueryClientImpl_ClaimRecord L this' q s = direct (claim_Query_service.ClaimRecord impl') q s)
    \<and> (\<forall>q s. wf_QueryClaimableForActionRequest L q \<longrightarrow> (\<forall>a s'. claim_Query_service.ClaimableForAction impl' q s = (Inr a, s') \<longrightarrow> wf_QueryClaimableForActionResponse L a) \<longrightarrow>
      claim_QueryClientImpl_ClaimableForAction L this' q s = direct (claim_Query_service.ClaimableForAction impl') q s)"
  by (intro conjI allI impI;
      rule wire_laws.Query_Params_call [OF laws arkeo]
        wire_laws.Query_FetchProvider_call [OF laws arkeo]
        wire_laws.Query_ProviderAll_call [OF laws arkeo]
        wire_laws.Query_FetchContract_call [OF laws arkeo]
        wire_laws.Query_ContractAll_call [OF laws arkeo]
        wire_laws.Query_ActiveContract_call [OF laws arkeo]
        wire_laws.Query_AllServices_call [OF laws arkeo]
        wire_laws.Query_Service_call [OF laws arkeo]
        wire_laws.claim_Msg_ClaimEth_call [OF laws msg]
        wire_laws.claim_Msg_ClaimArkeo_call [OF laws msg]
        wire_laws.claim_Msg_TransferClaim_call [OF laws msg]
        wire_laws.claim_Msg_AddClaim_call [OF laws msg]
        wire_laws.claim_Msg_ClaimThorchain_call [OF laws msg]
        wire_laws.claim_Query_Params_call [OF laws query]
        wire_laws.claim_Query_ClaimRecord_call [OF laws query]
        wire_laws.claim_Query_ClaimableForAction_call [OF laws query];
      blast)

theorem query_and_claim_clients_refine_witness:
  "wire_laws pb_wire pb_format pb_out snd \<and> claim_Msg_served pb_wire sample_claim_Msg_client sample_claim_Msg \<and>
    claim_Query_served pb_wire sample_claim_Query_client sample_claim_Query \<and>
    claim_MsgClientImpl_ClaimEth pb_wire sample_claim_Msg_client sample_MsgClaimEth [] = (Resolves sample_MsgClaimEthResponse, [sample_MsgClaimEth]) \<and>
    claim_QueryClientImpl_ClaimRecord pb_wire sample_claim_Query_client sample_QueryClaimRecordRequest 0 = (Resolves sample_QueryClaimRecordResponse, 1) \<and>
    Query_served pb_wire sample_Query_client sample_Query \<and>
    QueryClientImpl_FetchContract pb_wire sample_Query_client sample_QueryFetchContractRequest [] =
      (Resolves sample_QueryFetchContractResponse, [QueryFetchContractRequest.contractId sample_QueryFetchContractRequest])"
  using query_and_claim_clients_refine [OF pb.wire_laws_axioms sample_claim_Msg_served sample_claim_Query_served sample_Query_served]
    pb.wire_laws_axioms sample_claim_Msg_served sample_claim_Query_served sample_Query_served
  by (simp add: direct_def sample_claim_Msg_def sample_claim_Query_def sample_Query_def)

text \<open>
  C8. Whatever bytes arrive, a message that a current decoder of arkeo, claim, \<open>cosmos.base\<close> or of \<open>Timestamp\<close> and \<open>Duration\<close> (not one of \<open>ts-client\<close> or of the schema descriptors) returns holds numbers of the schema only: every 64-bit field is an exact safe integer (not negative where the schema says unsigned), every 32-bit field and enumeration a 32-bit integer, every date a valid date or the invalid date, in nested messages too. This is stated of all 50 messages of these packages that have such fields, directly or in a nested message.
\<close>

theorem decoded_numbers_in_range:
  assumes laws: "wire_laws L F out inp"
  shows "(\<forall>m r. decode_PageRequest L input len = Inr (m, r) \<longrightarrow> ok_PageRequest m)
    \<and> (\<forall>m r. decode_PageResponse L input len = Inr (m, r) \<longrightarrow> ok_PageResponse m)
    \<and> (\<forall>m r. decode_Duration L input len = Inr (m, r) \<longrightarrow> ok_Duration m)
    \<and> (\<forall>m r. decode_Timestamp L input len = Inr (m, r) \<longrightarrow> ok_Timestamp m)
    \<and> (\<forall>m r. decode_ClaimRecord L input len = Inr (m, r) \<longrightarrow> ok_ClaimRecord m)
    \<and> (\<forall>m r. decode_claim_Params L input len = Inr (m, r) \<longrightarrow> ok_claim_Params m)
    \<and> (\<forall>m r. decode_claim_GenesisState L input len = Inr (m, r) \<longrightarrow> ok_claim_GenesisState m)
    \<and> (\<forall>m r. decode_claim_QueryParamsResponse L input len = Inr (m, r) \<longrightarrow> ok_claim_QueryParamsResponse m)
    \<and> (\<forall>m r. decode_QueryClaimRecordRequest L input len = Inr (m, r) \<longrightarrow> ok_QueryClaimRecordRequest m)
    \<and> (\<forall>m r. decode_QueryClaimRecordResponse L input len = Inr (m, r) \<longrightarrow> ok_QueryClaimRecordResponse m)
    \<and> (\<forall>m r. decode_QueryClaimableForActionRequest L input len = Inr (m, r) \<longrightarrow> ok_QueryClaimableForActionRequest m)
    \<and> (\<forall>m r. decode_QueryClaimableForActionResponse L input len = Inr (m, r) \<longrightarrow> ok_QueryClaimableForActionResponse m)
    \<and> (\<forall>m r. decode_MsgClaimEthResponse L input len = Inr (m, r) \<longrightarrow> ok_MsgClaimEthResponse m)
    \<and> (\<forall>m r. decode_MsgClaimArkeoResponse L input len = Inr (m, r) \<longrightarrow> ok_MsgClaimArkeoResponse m)
    \<and> (\<forall>m r. decode_MsgAddClaim L input len = Inr (m, r) \<longrightarrow> ok_MsgAddClaim m)
    \<and> (\<forall>m r. decode_EventModProvider L input len = Inr (m, r) \<longrightarrow> ok_EventModProvider m)
    \<and> (\<forall>m r. decode_EventOpenContract L input len = Inr (m, r) \<longrightarrow> ok_EventOpenContract m)
    \<and> (\<forall>m r. decode_EventSettleContract L input len = Inr (m, r) \<longrightarrow> ok_EventSettleContract m)
    \<and> (\<forall>m r. decode_EventCloseContract L input len = Inr (m, r) \<longrightarrow> ok_EventCloseContract m)
    \<and> (\<forall>m r. decode_ValidatorVersion L input len = Inr (m, r) \<longrightarrow> ok_ValidatorVersion m)
    \<and> (\<forall>m r. decode_GenesisState L input len = Inr (m, r) \<longrightarrow> ok_GenesisState m)
    \<and> (\<forall>m r. decode_Provider L input len = Inr (m, r) \<longrightarrow> ok_Provider m)
    \<and> (\<forall>m r. decode_Contract L input len = Inr (m, r) \<longrightarrow> ok_Contract m)
    \<and> (\<forall>m r. decode_ContractSet L input len = Inr (m, r) \<longrightarrow> ok_ContractSet m)
    \<and> (\<forall>m r. decode_ContractExpirationSet L input len = Inr (m, r) \<longrightarrow> ok_ContractExpirationSet m)
    \<and> (\<forall>m r. decode_UserContractSet L input len = Inr (m, r) \<longrightarrow> ok_UserContractSet m)
    \<and> (\<forall>m r. decode_Service L input len = Inr (m, r) \<longrightarrow> ok_Service m)
    \<and> (\<forall>m r. decode_ProtoInt64 L input len = Inr (m, r) \<longrightarrow> ok_ProtoInt64 m)
    \<and> (\<forall>m r. decode_ProtoUint64 L input len = Inr (m, r) \<longrightarrow> ok_ProtoUint64 m)
    \<and> (\<forall>m r. decode_Params L input len = Inr (m, r) \<longrightarrow> ok_Params m)
    \<and> (\<forall>m r. decode_ServiceEnum L input len = Inr (m, r) \<longrightarrow> ok_ServiceEnum m)
    \<and> (\<forall>m r. decode_QueryAllServicesResponse L input len = Inr (m, r) \<longrightarrow> ok_QueryAllServicesResponse m)
    \<and> (\<forall>m r. decode_QueryServiceRequest L input len = Inr (m, r) \<longrightarrow> ok_QueryServiceRequest m)
    \<and> (\<forall>m r. decode_QueryServiceResponse L input len = Inr (m, r) \<longrightarrow> ok_QueryServiceResponse m)
    \<and> (\<forall>m r. decode_QueryParamsResponse L input len = Inr (m, r) \<longrightarrow> ok_QueryParamsResponse m)
    \<and> (\<forall>m r. decode_QueryFetchProviderResponse L input len = Inr (m, r) \<longrightarrow> ok_QueryFetchProviderResponse m)
    \<and> (\<forall>m r. decode_QueryAllProviderRequest L input len = Inr (m, r) \<longrightarrow> ok_QueryAllProviderRequest m)
    \<and> (\<forall>m r. decode_QueryAllProviderResponse L input len = Inr (m, r) \<longrightarrow> ok_QueryAllProviderResponse m)
    \<and> (\<forall>m r. decode_QueryFetchContractRequest L input len = Inr (m, r) \<longrightarrow> ok_QueryFetchContractRequest m)
    \<and> (\<forall>m r. decode_QueryFetchContractResponse L input len = Inr (m, r) \<longrightarrow> ok_QueryFetchContractResponse m)
    \<and> (\<forall>m r. decode_QueryAllContractRequest L input len = Inr (m, r) \<longrightarrow> ok_QueryAllContractRequest m)
    \<and> (\<forall>m r. decode_QueryAllContractResponse L input len = Inr (m, r) \<longrightarrow> ok_QueryAllContractResponse m)
    \<and> (\<forall>m r. decode_QueryActiveContractResponse L input len = Inr (m, r) \<longrightarrow> ok_QueryActiveContractResponse m)
    \<and> (\<forall>m r. decode_MsgModProvider L input len = Inr (m, r) \<longrightarrow> ok_MsgModProvider m)
    \<and> (\<forall>m r. decode_MsgOpenContract L input len = Inr (m, r) \<longrightarrow> ok_MsgOpenContract m)
    \<and> (\<forall>m r. decode_MsgCloseContract L input len = Inr (m, r) \<longrightarrow> ok_MsgCloseContract m)
    \<and> (\<forall>m r. decode_MsgClaimContractIncome L input len = Inr (m, r) \<longrightarrow> ok_MsgClaimContractIncome m)
    \<and> (\<forall>m r. decode_MsgSetVersion L input len = Inr (m, r) \<longrightarrow> ok_MsgSetVersion m)
    \<and> (\<forall>m r. decode_MsgRegisterService L input len = Inr (m, r) \<longrightarrow> ok_MsgRegisterService m)
    \<and> (\<forall>m r. decode_MsgUpdateService L input len = Inr (m, r) \<longrightarrow> ok_MsgUpdateService m)"
  by (intro conjI allI impI;
      rule wire_laws.PageRequest_decoded [OF laws]
        wire_laws.PageResponse_decoded [OF laws]
        wire_laws.Duration_decoded [OF laws]
        wire_laws.Timestamp_decoded [OF laws]
        wire_laws.ClaimRecord_decoded [OF laws]
        wire_laws.claim_Params_decoded [OF laws]
        wire_laws.claim_GenesisState_decoded [OF laws]
        wire_laws.claim_QueryParamsResponse_decoded [OF laws]
        wire_laws.QueryClaimRecordRequest_decoded [OF laws]
        wire_laws.QueryClaimRecordResponse_decoded [OF laws]
        wire_laws.QueryClaimableForActionRequest_decoded [OF laws]
        wire_laws.QueryClaimableForActionResponse_decoded [OF laws]
        wire_laws.MsgClaimEthResponse_decoded [OF laws]
        wire_laws.MsgClaimArkeoResponse_decoded [OF laws]
        wire_laws.MsgAddClaim_decoded [OF laws]
        wire_laws.EventModProvider_decoded [OF laws]
        wire_laws.EventOpenContract_decoded [OF laws]
        wire_laws.EventSettleContract_decoded [OF laws]
        wire_laws.EventCloseContract_decoded [OF laws]
        wire_laws.ValidatorVersion_decoded [OF laws]
        wire_laws.GenesisState_decoded [OF laws]
        wire_laws.Provider_decoded [OF laws]
        wire_laws.Contract_decoded [OF laws]
        wire_laws.ContractSet_decoded [OF laws]
        wire_laws.ContractExpirationSet_decoded [OF laws]
        wire_laws.UserContractSet_decoded [OF laws]
        wire_laws.Service_decoded [OF laws]
        wire_laws.ProtoInt64_decoded [OF laws]
        wire_laws.ProtoUint64_decoded [OF laws]
        wire_laws.Params_decoded [OF laws]
        wire_laws.ServiceEnum_decoded [OF laws]
        wire_laws.QueryAllServicesResponse_decoded [OF laws]
        wire_laws.QueryServiceRequest_decoded [OF laws]
        wire_laws.QueryServiceResponse_decoded [OF laws]
        wire_laws.QueryParamsResponse_decoded [OF laws]
        wire_laws.QueryFetchProviderResponse_decoded [OF laws]
        wire_laws.QueryAllProviderRequest_decoded [OF laws]
        wire_laws.QueryAllProviderResponse_decoded [OF laws]
        wire_laws.QueryFetchContractRequest_decoded [OF laws]
        wire_laws.QueryFetchContractResponse_decoded [OF laws]
        wire_laws.QueryAllContractRequest_decoded [OF laws]
        wire_laws.QueryAllContractResponse_decoded [OF laws]
        wire_laws.QueryActiveContractResponse_decoded [OF laws]
        wire_laws.MsgModProvider_decoded [OF laws]
        wire_laws.MsgOpenContract_decoded [OF laws]
        wire_laws.MsgCloseContract_decoded [OF laws]
        wire_laws.MsgClaimContractIncome_decoded [OF laws]
        wire_laws.MsgSetVersion_decoded [OF laws]
        wire_laws.MsgRegisterService_decoded [OF laws]
        wire_laws.MsgUpdateService_decoded [OF laws];
      assumption)

theorem decoded_numbers_in_range_witness:
  "wire_laws pb_wire pb_format pb_out snd \<and>
    decode_Contract pb_wire (ABuffer [48, 5]) None = Inr (createBase_Contract\<lparr>Contract.height := Num 5\<rparr>, (2, [])) \<and>
    ok_Contract (createBase_Contract\<lparr>Contract.height := Num 5\<rparr>)"
  proof -
  have d: "decode_Contract pb_wire (ABuffer [48, 5]) None = Inr (createBase_Contract\<lparr>Contract.height := Num 5\<rparr>, (2, []))"
    by code_simp
  show ?thesis
    using d decoded_numbers_in_range [OF pb.wire_laws_axioms, of "ABuffer [48, 5]" None] pb.wire_laws_axioms by simp
qed

text \<open>
  C9. A 64-bit integer becomes the number of the same value when it is a safe integer; beyond the safe range \<open>longToNumber\<close> throws, on either side, so no integer is rounded silently.
\<close>

theorem longToNumber_exact_or_throws:
  "longToNumber i =
    (if MAX_SAFE_INTEGER < i then Inl (Error ''Value is larger than Number.MAX_SAFE_INTEGER'')
     else if i < MIN_SAFE_INTEGER then Inl (Error ''Value is smaller than Number.MIN_SAFE_INTEGER'')
     else Inr (num_of_int i))"
  by (rule longToNumber_eval)

text \<open>
  C10. In every configuration a client can get into, whatever calls, answers and changes of the signer came before and in whatever order, the transaction client of every module has the signer the client has now, and the RPC address and the address prefix of its environment.
\<close>

theorem modules_follow_signer:
  assumes "reachable cls e acts c" and "j < length (heap (config.client c))"
  shows "SDKModule.tx (heap (config.client c) ! j) =
    \<lparr>TxClientOptions.addr = rpcURL e, TxClientOptions.prefix = nullish (Env.prefix e) (js ''cosmos''),
     TxClientOptions.signer = IgniteClient.signer (config.client c)\<rparr>"
  using reachable_client [OF assms(1)] assms(2) by (simp add: client_inv_def synced_def tx_options_def)

theorem modules_follow_signer_witness:
  "reachable (Client (\<lambda>_. [])) sample_env [UseSigner (5::nat)] (\<lparr>client = useSigner 5 (new_IgniteClient (Client (\<lambda>_. [])) sample_env None), tasks = [], keplr_tasks = []\<rparr> :: (nat, unit, nat) config)
    \<and> SDKModule.tx (heap (useSigner 5 (new_IgniteClient (Client (\<lambda>_. [])) sample_env None)) ! 1) =
      \<lparr>TxClientOptions.addr = js ''rpc'', TxClientOptions.prefix = js ''arkeo'', TxClientOptions.signer = Some (5::nat)\<rparr>"
  proof -
  let ?c = "\<lparr>client = useSigner 5 (new_IgniteClient (Client (\<lambda>_. [])) sample_env None), tasks = [], keplr_tasks = []\<rparr> :: (nat, unit, nat) config"
  have r: "reachable (Client (\<lambda>_. [])) sample_env [UseSigner 5] ?c"
    using reachable.more [OF reachable.start [where cls = "Client (\<lambda>_. [])" and e = sample_env and sg = None] step.use [where g = 5]]
    by simp
  have l: "1 < length (heap (config.client ?c))"
    by (simp add: useSigner_def new_IgniteClient_inv Client_def plugin_static_def)
  show ?thesis
    using r modules_follow_signer [OF r l] by (simp add: sample_env_def useSigner_def new_IgniteClient_inv)
qed

text \<open>
  C11. A transaction that a module sends is signed with one signer: the accounts are asked of, and the signing client is connected with, the signer the module had when the method was called, however the signer of the client changes while the method waits.
\<close>

theorem module_send_one_signer:
  assumes "reachable cls e acts c" and "step c (Answer i call) c'" and "fst (tasks c ! i) = ByModule sg"
  shows "(\<forall>g. call = EvAccounts g \<longrightarrow> sg = Some g) \<and> (\<forall>u g reg p. call = EvConnect u g reg p \<longrightarrow> g = sg)"
  proof -
  have i: "i < length (tasks c)" using assms(2) by cases
  have "uses sg (snd (tasks c ! i))"
    using tasks_ok_nth [OF reachable_tasks_ok [OF assms(1)] i] assms(3) by simp
  then show ?thesis using assms(2) by (auto elim!: step_AccountsE step_ConnectE)
qed

theorem module_send_one_signer_witness:
  "\<exists>c c' :: (nat, unit, nat) config. reachable (Client (\<lambda>_. [])) sample_env [Start, UseSigner 8] c
    \<and> fst (tasks c ! 0) = ByModule (Some 7) \<and> step c (Answer 0 (EvAccounts 7)) c' \<and> Some 7 = Some (7::nat)"
  proof -
  let ?cl = "new_IgniteClient (Client (\<lambda>_. [])) sample_env (Some (7 :: nat))"
  let ?t = "sendTx [] [] (\<lambda>_. []) (SDKModule.tx (heap ?cl ! 0)) (Inl (Error [])) None None"
  let ?fin = "\<lparr>client = useSigner 8 ?cl, tasks = [(ByModule (Some 7), ?t)], keplr_tasks = []\<rparr> :: (nat, unit, nat) config"
  have l: "0 < length (heap ?cl)" by (simp add: new_IgniteClient_inv Client_def plugin_static_def)
  have s: "TxClientOptions.signer (SDKModule.tx (heap ?cl ! 0)) = Some 7"
    using new_IgniteClient_inv(1,4) [of "Client (\<lambda>_. [])" sample_env "Some (7 :: nat)"] l by (simp add: synced_def tx_options_def)
  let ?ini = "\<lparr>client = ?cl, tasks = [], keplr_tasks = []\<rparr> :: (nat, unit, nat) config"
  let ?mid = "add_task (ByModule (Some 7)) ?t ?ini"
  have s1: "step ?ini Start ?mid"
    using step.module_call [of 0 ?ini "[]" "[]" "\<lambda>_. []" "Inl (Error [])" None None] l s by simp
  have s2: "step ?mid (UseSigner 8) ?fin" using step.use [of ?mid 8] by (simp add: add_task_def)
  have r: "reachable (Client (\<lambda>_. [])) sample_env [Start, UseSigner 8] ?fin"
    using reachable.more [OF reachable.more [OF reachable.start s1] s2] by simp
  obtain k where "snd (tasks ?fin ! 0) = GetAccounts 7 k" by (auto simp: sendTx_def s)
  then obtain c' where st: "step ?fin (Answer 0 (EvAccounts 7)) c'" using step.accounts [of 0 ?fin 7 k] by auto
  have "Some 7 = Some (7::nat)" using module_send_one_signer [OF r st, of "Some 7"] by simp
  with r st show ?thesis by (intro exI [of _ ?fin] exI [of _ c']) simp
qed

text \<open>
  C12. No transaction method of a module and neither \<open>signAndBroadcast\<close> nor \<open>useKeplr\<close> of the client waits for ever, however they interleave: in any history a transaction has had at most three answers and \<open>useKeplr\<close> at most eight (three imports, three queries, the suggestion of the chain, the permission of the wallet), a method that had that many is over, and until it is over it awaits a call whose answer it takes. (A REST query is one request and not counted here.)
\<close>

theorem calls_end:
  assumes "reachable cls e acts c"
  shows "(\<forall>i < length (tasks c). answers i acts \<le> 3 \<and> (answers i acts = 3 \<longrightarrow> is_done (snd (tasks c ! i)))
      \<and> (\<not> is_done (snd (tasks c ! i)) \<longrightarrow> (\<exists>a c'. step c (Answer i a) c')))
    \<and> (\<forall>i < length (keplr_tasks c). keplr_answers i acts \<le> 8 \<and> (keplr_answers i acts = 8 \<longrightarrow> is_settled (keplr_tasks c ! i))
      \<and> (\<not> is_settled (keplr_tasks c ! i) \<longrightarrow> (\<exists>ev c'. step c (KeplrAnswer i ev) c')))"
  proof (intro conjI allI impI)
  fix i assume i: "i < length (tasks c)"
  have t: "answers i acts \<le> 3" "ends_within (3 - answers i acts) (snd (tasks c ! i))"
    using reachable_counted [OF assms, of i] i by (simp_all add: tx_counted_def)
  show "answers i acts \<le> 3" by (rule t(1))
  show "is_done (snd (tasks c ! i))" if "answers i acts = 3" using t(2) that ends_within_0 by simp
  show "\<exists>a c'. step c (Answer i a) c'" if "\<not> is_done (snd (tasks c ! i))" using i that by (rule answer_possible)
next
  fix i assume i: "i < length (keplr_tasks c)"
  have t: "keplr_answers i acts \<le> 8" "awaits_within (keplr_tasks c ! i) (8 - keplr_answers i acts)" "awaiting (keplr_tasks c ! i)"
    using reachable_counted [OF assms, of i] i by (simp_all add: keplr_counted_def)
  show "keplr_answers i acts \<le> 8" by (rule t(1))
  show "is_settled (keplr_tasks c ! i)" if "keplr_answers i acts = 8" using t(2,3) that awaiting_none_left by simp
  show "\<exists>ev c'. step c (KeplrAnswer i ev) c'" if "\<not> is_settled (keplr_tasks c ! i)"
    using i t(3) that by (rule keplr_answer_possible)
qed

theorem calls_end_witness:
  "\<exists>c :: (nat, unit, nat) config. reachable (Client (\<lambda>_. [])) sample_env [Start, KeplrStart] c \<and> length (tasks c) = 1 \<and> length (keplr_tasks c) = 1
    \<and> answers 0 [Start :: (nat, unit) action, KeplrStart] \<le> 3 \<and> keplr_answers 0 [Start :: (nat, unit) action, KeplrStart] \<le> 8"
  proof -
  let ?cl = "new_IgniteClient (Client (\<lambda>_. [])) sample_env (Some (7 :: nat))"
  let ?c = "\<lparr>client = ?cl, tasks = [(ByClient, signAndBroadcast ?cl [] None [])], keplr_tasks = []\<rparr> :: (nat, unit, nat) config"
  let ?c' = "?c\<lparr>keplr_tasks := [useKeplr (\<lambda>s. s) (\<lambda>i. i) (env ?cl)]\<rparr>"
  have r: "reachable (Client (\<lambda>_. [])) sample_env [Start] ?c"
    using reachable.more [OF reachable.start [where cls = "Client (\<lambda>_. [])" and e = sample_env and sg = "Some 7"]
      step.client_call [where msgs = "[]" and fee = None and memo = "[]"]]
    by (simp add: add_task_def)
  have k: "reachable (Client (\<lambda>_. [])) sample_env [Start, KeplrStart] ?c'"
    using reachable.more [OF r step.keplr_call [of ?c "\<lambda>s. s" "\<lambda>i. i"]] by simp
  show ?thesis using k calls_end [OF k] by (intro exI [of _ ?c']) simp
qed

text \<open>
  C13. The client's own \<open>signAndBroadcast\<close> is not protected in this way: when the signer is changed while it waits for the accounts, it connects with the new signer and broadcasts with the account of the old one. Every client can get there, for any two signers.
\<close>

theorem client_signer_race:
  "\<exists>c :: ('g, 'c, 'd) config. reachable cls e
    [Start, UseSigner B, Answer 0 (EvAccounts A),
     Answer 0 (EvConnect (rpcURL e) (Some B) (concat (map msg_types (plugins cls))) (Env.prefix e)),
     Answer 0 (EvBroadcast sc a msgs (nullish fee defaultFee) (Some memo))] c"
  by (rule signer_race)

text \<open>
  C14. A \<open>sendMsg\<close> method of any module (arkeo, claim, bank, authz, gov and crisis) broadcasts at most one transaction. If it does, it had a signer, asked it for its accounts, connected to the RPC address with the registry of the module, and the transaction has exactly the one message made from the argument, the fee given or the default fee, and the memo.
\<close>

theorem send_broadcasts_once:
  "broadcasts_once C st msgTypes sendMsgBondProvider obj_MsgBondProvider
    \<and> broadcasts_once C st msgTypes sendMsgSetVersion obj_MsgSetVersion
    \<and> broadcasts_once C st msgTypes sendMsgClaimContractIncome obj_MsgClaimContractIncome
    \<and> broadcasts_once C st msgTypes sendMsgModProvider obj_MsgModProvider
    \<and> broadcasts_once C st msgTypes sendMsgOpenContract obj_MsgOpenContract
    \<and> broadcasts_once C st msgTypes sendMsgCloseContract obj_MsgCloseContract
    \<and> broadcasts_once C st claim_msgTypes sendMsgTransferClaim obj_MsgTransferClaim
    \<and> broadcasts_once C st claim_msgTypes sendMsgAddClaim obj_MsgAddClaim
    \<and> broadcasts_once C st claim_msgTypes sendMsgClaimArkeo obj_MsgClaimArkeo
    \<and> broadcasts_once C st claim_msgTypes sendMsgClaimEth obj_MsgClaimEth
    \<and> broadcasts_once C st bank_msgTypes bank_sendMsgMultiSend bank_obj_MsgMultiSend
    \<and> broadcasts_once C st bank_msgTypes bank_sendMsgSend bank_obj_MsgSend
    \<and> broadcasts_once C st authz_msgTypes authz_sendMsgGrant authz_obj_MsgGrant
    \<and> broadcasts_once C st authz_msgTypes authz_sendMsgExec authz_obj_MsgExec
    \<and> broadcasts_once C st authz_msgTypes authz_sendMsgRevoke authz_obj_MsgRevoke
    \<and> broadcasts_once C st gov_msgTypes gov_sendMsgVote gov_obj_MsgVote
    \<and> broadcasts_once C st gov_msgTypes gov_sendMsgVoteWeighted gov_obj_MsgVoteWeighted
    \<and> broadcasts_once C st gov_msgTypes gov_sendMsgDeposit gov_obj_MsgDeposit
    \<and> broadcasts_once C st gov_msgTypes gov_sendMsgSubmitProposal gov_obj_MsgSubmitProposal
    \<and> broadcasts_once C st crisis_msgTypes crisis_sendMsgVerifyInvariant crisis_obj_MsgVerifyInvariant"
  by (intro conjI;
      rule tx_MsgBondProvider.broadcast_once
        tx_MsgSetVersion.broadcast_once
        tx_MsgClaimContractIncome.broadcast_once
        tx_MsgModProvider.broadcast_once
        tx_MsgOpenContract.broadcast_once
        tx_MsgCloseContract.broadcast_once
        tx_MsgTransferClaim.broadcast_once
        tx_MsgAddClaim.broadcast_once
        tx_MsgClaimArkeo.broadcast_once
        tx_MsgClaimEth.broadcast_once
        tx_method.broadcast_once [OF bank_tx_MsgMultiSend]
        tx_method.broadcast_once [OF bank_tx_MsgSend]
        tx_method.broadcast_once [OF authz_tx_MsgGrant]
        tx_method.broadcast_once [OF authz_tx_MsgExec]
        tx_method.broadcast_once [OF authz_tx_MsgRevoke]
        tx_method.broadcast_once [OF gov_tx_MsgVote]
        tx_method.broadcast_once [OF gov_tx_MsgVoteWeighted]
        tx_method.broadcast_once [OF gov_tx_MsgDeposit]
        tx_method.broadcast_once [OF gov_tx_MsgSubmitProposal]
        tx_method.broadcast_once [OF crisis_tx_MsgVerifyInvariant])

theorem send_broadcasts_once_witness:
  "run sample_cosmjs () (sendMsgSetVersion (\<lambda>_. []) sample_opts (Some MsgSetVersion_empty) None None) 4 =
      (Inr 4, send_calls msgTypes sample_opts 7 () (js ''arkeo1'') (obj_MsgSetVersion MsgSetVersion_empty) None None, 5)
    \<and> broadcasts (send_calls msgTypes sample_opts 7 () (js ''arkeo1'') (obj_MsgSetVersion MsgSetVersion_empty) None None) \<noteq> ([] :: (nat, unit) call list)"
  proof -
  have r: "run sample_cosmjs () (sendMsgSetVersion (\<lambda>_. []) sample_opts (Some MsgSetVersion_empty) None None) 4 =
      (Inr 4, send_calls msgTypes sample_opts 7 () (js ''arkeo1'') (obj_MsgSetVersion MsgSetVersion_empty) None None, 5)"
    by (subst tx_MsgSetVersion.resolves_iff [of _ 7]) (simp_all add: sample_opts_def sample_cosmjs_def)
  have "broadcasts_once sample_cosmjs () msgTypes sendMsgSetVersion obj_MsgSetVersion"
    using send_broadcasts_once [of sample_cosmjs "()"] by (elim conjE)
  then show ?thesis using r unfolding broadcasts_once_def by (auto simp: send_calls_def broadcasts_def)
qed

text \<open>
  C15. A \<open>sendMsg\<close> method of any of the six modules (arkeo, claim, bank, authz, gov and crisis), called with a signer, resolves exactly when the argument is there and the three calls it makes succeed one after the other, with the answer of the broadcast. It is rejected exactly when one of its steps fails: the accounts, the first account, the connection, the argument or the broadcast; the error names the method and carries the text of that very failure, and nothing is called after it.
\<close>

theorem send_resolves_iff:
  "settles_with_cause C st ''sendMsgBondProvider'' msgTypes sendMsgBondProvider obj_MsgBondProvider
    \<and> settles_with_cause C st ''sendMsgSetVersion'' msgTypes sendMsgSetVersion obj_MsgSetVersion
    \<and> settles_with_cause C st ''sendMsgClaimContractIncome'' msgTypes sendMsgClaimContractIncome obj_MsgClaimContractIncome
    \<and> settles_with_cause C st ''sendMsgModProvider'' msgTypes sendMsgModProvider obj_MsgModProvider
    \<and> settles_with_cause C st ''sendMsgOpenContract'' msgTypes sendMsgOpenContract obj_MsgOpenContract
    \<and> settles_with_cause C st ''sendMsgCloseContract'' msgTypes sendMsgCloseContract obj_MsgCloseContract
    \<and> settles_with_cause C st ''sendMsgTransferClaim'' claim_msgTypes sendMsgTransferClaim obj_MsgTransferClaim
    \<and> settles_with_cause C st ''sendMsgAddClaim'' claim_msgTypes sendMsgAddClaim obj_MsgAddClaim
    \<and> settles_with_cause C st ''sendMsgClaimArkeo'' claim_msgTypes sendMsgClaimArkeo obj_MsgClaimArkeo
    \<and> settles_with_cause C st ''sendMsgClaimEth'' claim_msgTypes sendMsgClaimEth obj_MsgClaimEth
    \<and> settles_with_cause C st ''sendMsgMultiSend'' bank_msgTypes bank_sendMsgMultiSend bank_obj_MsgMultiSend
    \<and> settles_with_cause C st ''sendMsgSend'' bank_msgTypes bank_sendMsgSend bank_obj_MsgSend
    \<and> settles_with_cause C st ''sendMsgGrant'' authz_msgTypes authz_sendMsgGrant authz_obj_MsgGrant
    \<and> settles_with_cause C st ''sendMsgExec'' authz_msgTypes authz_sendMsgExec authz_obj_MsgExec
    \<and> settles_with_cause C st ''sendMsgRevoke'' authz_msgTypes authz_sendMsgRevoke authz_obj_MsgRevoke
    \<and> settles_with_cause C st ''sendMsgVote'' gov_msgTypes gov_sendMsgVote gov_obj_MsgVote
    \<and> settles_with_cause C st ''sendMsgVoteWeighted'' gov_msgTypes gov_sendMsgVoteWeighted gov_obj_MsgVoteWeighted
    \<and> settles_with_cause C st ''sendMsgDeposit'' gov_msgTypes gov_sendMsgDeposit gov_obj_MsgDeposit
    \<and> settles_with_cause C st ''sendMsgSubmitProposal'' gov_msgTypes gov_sendMsgSubmitProposal gov_obj_MsgSubmitProposal
    \<and> settles_with_cause C st ''sendMsgVerifyInvariant'' crisis_msgTypes crisis_sendMsgVerifyInvariant crisis_obj_MsgVerifyInvariant"
  by (intro conjI;
      rule tx_MsgBondProvider.settles
        tx_MsgSetVersion.settles
        tx_MsgClaimContractIncome.settles
        tx_MsgModProvider.settles
        tx_MsgOpenContract.settles
        tx_MsgCloseContract.settles
        tx_MsgTransferClaim.settles
        tx_MsgAddClaim.settles
        tx_MsgClaimArkeo.settles
        tx_MsgClaimEth.settles
        tx_method.settles [OF bank_tx_MsgMultiSend]
        tx_method.settles [OF bank_tx_MsgSend]
        tx_method.settles [OF authz_tx_MsgGrant]
        tx_method.settles [OF authz_tx_MsgExec]
        tx_method.settles [OF authz_tx_MsgRevoke]
        tx_method.settles [OF gov_tx_MsgVote]
        tx_method.settles [OF gov_tx_MsgVoteWeighted]
        tx_method.settles [OF gov_tx_MsgDeposit]
        tx_method.settles [OF gov_tx_MsgSubmitProposal]
        tx_method.settles [OF crisis_tx_MsgVerifyInvariant])

theorem send_resolves_iff_witness:
  "TxClientOptions.signer sample_opts = Some 7
    \<and> run sample_cosmjs () (sendMsgSetVersion (\<lambda>_. []) sample_opts (Some MsgSetVersion_empty) None None) 4 =
      (Inr 4, send_calls msgTypes sample_opts 7 () (js ''arkeo1'') (obj_MsgSetVersion MsgSetVersion_empty) None None, 5)
    \<and> run (sample_cosmjs\<lparr>cosmjs.getAccounts := \<lambda>g s. (Inl (Error ''locked''), s)\<rparr>) () (sendMsgSetVersion (\<lambda>e. case e of Error m \<Rightarrow> m | _ \<Rightarrow> []) sample_opts None None None) 4 =
      (Inl (Error ''TxClient:sendMsgSetVersion: Could not broadcast Tx: locked''), [EvAccounts 7], 4)"
  proof -
  have s: "TxClientOptions.signer sample_opts = Some 7" by (simp add: sample_opts_def)
  let ?C = "sample_cosmjs\<lparr>cosmjs.getAccounts := \<lambda>g s. (Inl (Error ''locked''), s)\<rparr>"
  have c: "settles_with_cause sample_cosmjs () ''sendMsgSetVersion'' msgTypes sendMsgSetVersion obj_MsgSetVersion"
    using send_resolves_iff [of sample_cosmjs "()"] by (elim conjE)
  have d: "settles_with_cause ?C () ''sendMsgSetVersion'' msgTypes sendMsgSetVersion obj_MsgSetVersion"
    using send_resolves_iff [of ?C "()"] by (elim conjE)
  show ?thesis
    using s c [unfolded settles_with_cause_def, rule_format, OF s, THEN conjunct1]
      d [unfolded settles_with_cause_def, rule_format, OF s, THEN conjunct2]
    by (simp add: sample_cosmjs_def send_fails_def)
qed

text \<open>
  C16. Without a signer a \<open>sendMsg\<close> method of any of the six modules (arkeo, claim, bank, authz, gov and crisis) is rejected with its error at once: nothing is called.
\<close>

theorem send_without_signer:
  assumes "TxClientOptions.signer opts = None"
  shows "(\<forall>v. run C st (sendMsgBondProvider err_msg opts v fee memo) s =
      (Inl (Error ''TxClient:sendMsgBondProvider: Unable to sign Tx. Signer is not present.''), [], s))
    \<and> (\<forall>v. run C st (sendMsgSetVersion err_msg opts v fee memo) s =
      (Inl (Error ''TxClient:sendMsgSetVersion: Unable to sign Tx. Signer is not present.''), [], s))
    \<and> (\<forall>v. run C st (sendMsgClaimContractIncome err_msg opts v fee memo) s =
      (Inl (Error ''TxClient:sendMsgClaimContractIncome: Unable to sign Tx. Signer is not present.''), [], s))
    \<and> (\<forall>v. run C st (sendMsgModProvider err_msg opts v fee memo) s =
      (Inl (Error ''TxClient:sendMsgModProvider: Unable to sign Tx. Signer is not present.''), [], s))
    \<and> (\<forall>v. run C st (sendMsgOpenContract err_msg opts v fee memo) s =
      (Inl (Error ''TxClient:sendMsgOpenContract: Unable to sign Tx. Signer is not present.''), [], s))
    \<and> (\<forall>v. run C st (sendMsgCloseContract err_msg opts v fee memo) s =
      (Inl (Error ''TxClient:sendMsgCloseContract: Unable to sign Tx. Signer is not present.''), [], s))
    \<and> (\<forall>v. run C st (sendMsgTransferClaim err_msg opts v fee memo) s =
      (Inl (Error ''TxClient:sendMsgTransferClaim: Unable to sign Tx. Signer is not present.''), [], s))
    \<and> (\<forall>v. run C st (sendMsgAddClaim err_msg opts v fee memo) s =
      (Inl (Error ''TxClient:sendMsgAddClaim: Unable to sign Tx. Signer is not present.''), [], s))
    \<and> (\<forall>v. run C st (sendMsgClaimArkeo err_msg opts v fee memo) s =
      (Inl (Error ''TxClient:sendMsgClaimArkeo: Unable to sign Tx. Signer is not present.''), [], s))
    \<and> (\<forall>v. run C st (sendMsgClaimEth err_msg opts v fee memo) s =
      (Inl (Error ''TxClient:sendMsgClaimEth: Unable to sign Tx. Signer is not present.''), [], s))
    \<and> (\<forall>v. run C st (bank_sendMsgMultiSend err_msg opts v fee memo) s =
      (Inl (Error ''TxClient:sendMsgMultiSend: Unable to sign Tx. Signer is not present.''), [], s))
    \<and> (\<forall>v. run C st (bank_sendMsgSend err_msg opts v fee memo) s =
      (Inl (Error ''TxClient:sendMsgSend: Unable to sign Tx. Signer is not present.''), [], s))
    \<and> (\<forall>v. run C st (authz_sendMsgGrant err_msg opts v fee memo) s =
      (Inl (Error ''TxClient:sendMsgGrant: Unable to sign Tx. Signer is not present.''), [], s))
    \<and> (\<forall>v. run C st (authz_sendMsgExec err_msg opts v fee memo) s =
      (Inl (Error ''TxClient:sendMsgExec: Unable to sign Tx. Signer is not present.''), [], s))
    \<and> (\<forall>v. run C st (authz_sendMsgRevoke err_msg opts v fee memo) s =
      (Inl (Error ''TxClient:sendMsgRevoke: Unable to sign Tx. Signer is not present.''), [], s))
    \<and> (\<forall>v. run C st (gov_sendMsgVote err_msg opts v fee memo) s =
      (Inl (Error ''TxClient:sendMsgVote: Unable to sign Tx. Signer is not present.''), [], s))
    \<and> (\<forall>v. run C st (gov_sendMsgVoteWeighted err_msg opts v fee memo) s =
      (Inl (Error ''TxClient:sendMsgVoteWeighted: Unable to sign Tx. Signer is not present.''), [], s))
    \<and> (\<forall>v. run C st (gov_sendMsgDeposit err_msg opts v fee memo) s =
      (Inl (Error ''TxClient:sendMsgDeposit: Unable to sign Tx. Signer is not present.''), [], s))
    \<and> (\<forall>v. run C st (gov_sendMsgSubmitProposal err_msg opts v fee memo) s =
      (Inl (Error ''TxClient:sendMsgSubmitProposal: Unable to sign Tx. Signer is not present.''), [], s))
    \<and> (\<forall>v. run C st (crisis_sendMsgVerifyInvariant err_msg opts v fee memo) s =
      (Inl (Error ''TxClient:sendMsgVerifyInvariant: Unable to sign Tx. Signer is not present.''), [], s))"
  by (simp add: tx_MsgBondProvider.no_signer [OF assms]
      tx_MsgSetVersion.no_signer [OF assms]
      tx_MsgClaimContractIncome.no_signer [OF assms]
      tx_MsgModProvider.no_signer [OF assms]
      tx_MsgOpenContract.no_signer [OF assms]
      tx_MsgCloseContract.no_signer [OF assms]
      tx_MsgTransferClaim.no_signer [OF assms]
      tx_MsgAddClaim.no_signer [OF assms]
      tx_MsgClaimArkeo.no_signer [OF assms]
      tx_MsgClaimEth.no_signer [OF assms]
      tx_method.no_signer [OF bank_tx_MsgMultiSend assms]
      tx_method.no_signer [OF bank_tx_MsgSend assms]
      tx_method.no_signer [OF authz_tx_MsgGrant assms]
      tx_method.no_signer [OF authz_tx_MsgExec assms]
      tx_method.no_signer [OF authz_tx_MsgRevoke assms]
      tx_method.no_signer [OF gov_tx_MsgVote assms]
      tx_method.no_signer [OF gov_tx_MsgVoteWeighted assms]
      tx_method.no_signer [OF gov_tx_MsgDeposit assms]
      tx_method.no_signer [OF gov_tx_MsgSubmitProposal assms]
      tx_method.no_signer [OF crisis_tx_MsgVerifyInvariant assms])

theorem send_without_signer_witness:
  "TxClientOptions.signer (sample_opts\<lparr>TxClientOptions.signer := None\<rparr>) = None
    \<and> run sample_cosmjs () (sendMsgClaimEth (\<lambda>_. []) (sample_opts\<lparr>TxClientOptions.signer := None\<rparr>) None None None) 4 =
      (Inl (Error ''TxClient:sendMsgClaimEth: Unable to sign Tx. Signer is not present.''), [], 4)"
  using send_without_signer [where opts = "sample_opts\<lparr>TxClientOptions.signer := None\<rparr>" and C = sample_cosmjs and st = "()"
      and err_msg = "\<lambda>_. []" and fee = None and memo = None and s = 4] by simp

text \<open>
  C17. A client of \<open>index.ts\<close>, with the plugins of all 27 modules, has the registry the file exports, which is made of the message types of all of them, and in which no type URL occurs twice. So it has exactly one entry for the type URL of every message that a \<open>msg\<close> method of arkeo, claim, bank, authz, gov or crisis makes, and the entry is the codec of that message.
\<close>

theorem registry_complete:
  "IgniteClient.registry (new_IgniteClient (Client S) e sg) = index_registry
    \<and> distinct (map fst index_registry)
    \<and> makes_registered index_registry msgBondProvider
    \<and> makes_registered index_registry msgSetVersion
    \<and> makes_registered index_registry msgClaimContractIncome
    \<and> makes_registered index_registry msgModProvider
    \<and> makes_registered index_registry msgOpenContract
    \<and> makes_registered index_registry msgCloseContract
    \<and> makes_registered index_registry msgTransferClaim
    \<and> makes_registered index_registry msgAddClaim
    \<and> makes_registered index_registry msgClaimArkeo
    \<and> makes_registered index_registry msgClaimEth
    \<and> makes_registered index_registry bank_msgMultiSend
    \<and> makes_registered index_registry bank_msgSend
    \<and> makes_registered index_registry authz_msgGrant
    \<and> makes_registered index_registry authz_msgExec
    \<and> makes_registered index_registry authz_msgRevoke
    \<and> makes_registered index_registry gov_msgVote
    \<and> makes_registered index_registry gov_msgVoteWeighted
    \<and> makes_registered index_registry gov_msgDeposit
    \<and> makes_registered index_registry gov_msgSubmitProposal
    \<and> makes_registered index_registry crisis_msgVerifyInvariant"
  proof -
  have r: "IgniteClient.registry (new_IgniteClient (Client S) e sg) = index_registry"
    by (simp add: new_IgniteClient_inv Client_registry)
  note own = index_registry_subsets [THEN index_registers]
  show ?thesis
    unfolding r
    by (intro conjI allI refl index_registry_distinct;
      (rule tx_MsgBondProvider.made_registered [OF own(1)]
          | rule tx_MsgSetVersion.made_registered [OF own(1)]
          | rule tx_MsgClaimContractIncome.made_registered [OF own(1)]
          | rule tx_MsgModProvider.made_registered [OF own(1)]
          | rule tx_MsgOpenContract.made_registered [OF own(1)]
          | rule tx_MsgCloseContract.made_registered [OF own(1)]
          | rule tx_MsgTransferClaim.made_registered [OF own(2)]
          | rule tx_MsgAddClaim.made_registered [OF own(2)]
          | rule tx_MsgClaimArkeo.made_registered [OF own(2)]
          | rule tx_MsgClaimEth.made_registered [OF own(2)]
          | rule tx_method.made_registered [OF bank_tx_MsgMultiSend own(3)]
          | rule tx_method.made_registered [OF bank_tx_MsgSend own(3)]
          | rule tx_method.made_registered [OF authz_tx_MsgGrant own(4)]
          | rule tx_method.made_registered [OF authz_tx_MsgExec own(4)]
          | rule tx_method.made_registered [OF authz_tx_MsgRevoke own(4)]
          | rule tx_method.made_registered [OF gov_tx_MsgVote own(5)]
          | rule tx_method.made_registered [OF gov_tx_MsgVoteWeighted own(5)]
          | rule tx_method.made_registered [OF gov_tx_MsgDeposit own(5)]
          | rule tx_method.made_registered [OF gov_tx_MsgSubmitProposal own(5)]
          | rule tx_method.made_registered [OF crisis_tx_MsgVerifyInvariant own(6)]))
qed

text \<open>
  C18. \<open>useKeplr\<close> on a client in any state, run without other calls in between, resolves exactly when every one of its calls succeeds in turn: the three imports, the queries of the node, of the staking parameters and of the supply at the API address, the suggestion of the chain (made only if the node names one), the permission of the wallet and its signer. Then the client and the transaction clients of all its modules have the signer of the wallet. Otherwise the client is as before, and the error that is thrown blames missing modules whatever the cause was.
\<close>

theorem keplr_all_or_nothing:
  assumes "reachable cls e acts c" and "run_keplr K (useKeplr upper override e) (config.client c) s = (x, cl', l, s')"
  shows "(\<forall>g l2 s2. keplr_succeeds K upper override e s g l2 s2 \<longrightarrow> x = Inr () \<and> l = l2 \<and> s' = s2
        \<and> IgniteClient.signer cl' = Some g \<and> (\<forall>j < length (heap cl'). SDKModule.tx (heap cl' ! j) =
            \<lparr>TxClientOptions.addr = rpcURL e, TxClientOptions.prefix = nullish (Env.prefix e) (js ''cosmos''),
             TxClientOptions.signer = Some g\<rparr>))
    \<and> (x = Inr () \<longrightarrow> (\<exists>g. keplr_succeeds K upper override e s g l s'))
    \<and> (\<forall>err. x = Inl err \<longrightarrow> cl' = config.client c \<and>
        err = Error ''Could not load tendermint, staking and bank modules. Please ensure your client loads them to use useKeplr()'')"
  proof -
  have inv: "listening (config.client c)" "env (config.client c) = e"
    using reachable_client [OF assms(1)] by (simp_all add: client_inv_def)
  have all: "synced (keplr_setSigner g (config.client c))" "tx_options (keplr_setSigner g (config.client c)) =
      \<lparr>TxClientOptions.addr = rpcURL e, TxClientOptions.prefix = nullish (Env.prefix e) (js ''cosmos''), TxClientOptions.signer = Some g\<rparr>"
    "IgniteClient.signer (keplr_setSigner g (config.client c)) = Some g" for g
    using keplr_setSigner_inv [OF inv(1)] inv(2) by (simp_all add: keplr_setSigner_def tx_options_def)
  have ok: "x = Inr () \<and> l = l2 \<and> s' = s2 \<and> cl' = keplr_setSigner g (config.client c)"
    if "keplr_succeeds K upper override e s g l2 s2" for g l2 s2
    using useKeplr_resolves [of K upper override e "config.client c" s "keplr_setSigner g (config.client c)" l2 s2] that assms(2) by auto
  show ?thesis
  proof (intro conjI allI impI)
    fix g l2 s2 assume "keplr_succeeds K upper override e s g l2 s2"
    note k = ok [OF this]
    show "x = Inr ()" "l = l2" "s' = s2" "IgniteClient.signer cl' = Some g" using k all by simp_all
    show "SDKModule.tx (heap cl' ! j) = \<lparr>TxClientOptions.addr = rpcURL e,
        TxClientOptions.prefix = nullish (Env.prefix e) (js ''cosmos''), TxClientOptions.signer = Some g\<rparr>"
      if "j < length (heap cl')" for j
      using k all that by (simp add: synced_def)
  next
    show "\<exists>g. keplr_succeeds K upper override e s g l s'" if "x = Inr ()"
      using useKeplr_resolves [of K upper override e "config.client c" s cl' l s'] assms(2) that by auto
  next
    fix err assume "x = Inl err"
    then have "err = keplr_error \<and> cl' = config.client c" using assms(2) by (intro useKeplr_rejects) simp
    then show "cl' = config.client c"
      "err = Error ''Could not load tendermint, staking and bank modules. Please ensure your client loads them to use useKeplr()''"
      by (simp_all add: keplr_error_def)
  qed
qed

theorem keplr_all_or_nothing_witness:
  "reachable (Client (\<lambda>_. [])) sample_env [] (\<lparr>client = new_IgniteClient (Client (\<lambda>_. [])) sample_env None, tasks = [], keplr_tasks = []\<rparr> :: (nat, unit, nat) config)
    \<and> (\<exists>cl' l. run_keplr (sample_keplr (Inr 9)) (useKeplr (\<lambda>s. s) (\<lambda>i. i) sample_env) (new_IgniteClient (Client (\<lambda>_. [])) sample_env None) 0 =
        (Inr (), cl', l, 1) \<and> (\<exists>g. keplr_succeeds (sample_keplr (Inr 9)) (\<lambda>s. s) (\<lambda>i. i) sample_env 0 g l 1) \<and> IgniteClient.signer cl' = Some 9)
    \<and> (\<exists>l. run_keplr (sample_keplr (Inl (Error ''rejected''))) (useKeplr (\<lambda>s. s) (\<lambda>i. i) sample_env) (new_IgniteClient (Client (\<lambda>_. [])) sample_env None) 0 =
        (Inl (Error ''Could not load tendermint, staking and bank modules. Please ensure your client loads them to use useKeplr()''),
         new_IgniteClient (Client (\<lambda>_. [])) sample_env None, l, 1))"
  proof -
  let ?cl = "new_IgniteClient (Client (\<lambda>_. [])) sample_env None"
  let ?c = "\<lparr>client = ?cl, tasks = [], keplr_tasks = []\<rparr> :: (nat, unit, nat) config"
  have r: "reachable (Client (\<lambda>_. [])) sample_env [] ?c" by (rule reachable.start)
  note ev = useKeplr_def run_catchK awaitK_def sample_keplr_def logged_def js_def Let_def
  obtain l where ok: "run_keplr (sample_keplr (Inr 9)) (useKeplr (\<lambda>s. s) (\<lambda>i. i) sample_env) (config.client ?c) 0 =
      (Inr (), keplr_setSigner 9 ?cl, l, 1)"
    by (simp add: ev)
  obtain cl' l' err where no: "run_keplr (sample_keplr (Inl (Error ''rejected''))) (useKeplr (\<lambda>s. s) (\<lambda>i. i) sample_env) (config.client ?c) 0 =
      (Inl err, cl', l', 1)"
    by (simp add: ev)
  show ?thesis
    using r ok no keplr_all_or_nothing [OF r ok] keplr_all_or_nothing [OF r no] by (auto simp: keplr_setSigner_def)
qed

text \<open>
  C19. Each query of the REST clients, called on the query client of a module of any client without extra request parameters, makes one GET request of its path, with its query parameters and no body, through the axios instance made for the API address of the client. (The query clients are made without a security worker or a format.) The response type is not set: the client asks for \<open>json\<close> in every query, but the format of a request counts only when the client was made with a format of its own.
\<close>

theorem rest_requests:
  assumes "reachable cls e acts c" and "j < length (heap (config.client c))"
  shows "(\<exists>req. queryActiveContract ax fh (queryClient ax (SDKModule.query (heap (config.client c) ! j))) v_provider v_service v_spender no_params s =
        perform ax (axios.create ax [(''baseURL'', JString (apiURL e))]) req s
      \<and> gets req (js ''/arkeo/active-contract/'' @ v_provider @ js ''/'' @ v_service @ js ''/'' @ v_spender) JUndefined)
    \<and> (\<exists>req. queryFetchContract ax fh (queryClient ax (SDKModule.query (heap (config.client c) ! j))) v_contractId no_params s =
        perform ax (axios.create ax [(''baseURL'', JString (apiURL e))]) req s
      \<and> gets req (js ''/arkeo/contract/'' @ v_contractId) JUndefined)
    \<and> (\<exists>req. queryContractAll ax fh (queryClient ax (SDKModule.query (heap (config.client c) ! j))) q no_params s =
        perform ax (axios.create ax [(''baseURL'', JString (apiURL e))]) req s
      \<and> gets req (js ''/arkeo/contracts'') q)
    \<and> (\<exists>req. queryParams ax fh (queryClient ax (SDKModule.query (heap (config.client c) ! j))) no_params s =
        perform ax (axios.create ax [(''baseURL'', JString (apiURL e))]) req s
      \<and> gets req (js ''/arkeo/params'') JUndefined)
    \<and> (\<exists>req. queryFetchProvider ax fh (queryClient ax (SDKModule.query (heap (config.client c) ! j))) v_pubkey v_service no_params s =
        perform ax (axios.create ax [(''baseURL'', JString (apiURL e))]) req s
      \<and> gets req (js ''/arkeo/provider/'' @ v_pubkey @ js ''/'' @ v_service) JUndefined)
    \<and> (\<exists>req. queryProviderAll ax fh (queryClient ax (SDKModule.query (heap (config.client c) ! j))) q no_params s =
        perform ax (axios.create ax [(''baseURL'', JString (apiURL e))]) req s
      \<and> gets req (js ''/arkeo/providers'') q)
    \<and> (\<exists>req. claim_queryClaimRecord ax fh (queryClient ax (SDKModule.query (heap (config.client c) ! j))) v_address q no_params s =
        perform ax (axios.create ax [(''baseURL'', JString (apiURL e))]) req s
      \<and> gets req (js ''/arkeo/claim/claimrecord/'' @ v_address) q)
    \<and> (\<exists>req. claim_queryParams ax fh (queryClient ax (SDKModule.query (heap (config.client c) ! j))) no_params s =
        perform ax (axios.create ax [(''baseURL'', JString (apiURL e))]) req s
      \<and> gets req (js ''/arkeo/claim/params'') JUndefined)"
  proof -
  have "SDKModule.query (heap (config.client c) ! j) = apiURL e"
    using reachable_client [OF assms(1)] assms(2) by (simp add: client_inv_def queries_api_def)
  then show ?thesis
    unfolding queryActiveContract_def queryFetchContract_def queryContractAll_def queryParams_def queryFetchProvider_def queryProviderAll_def claim_queryClaimRecord_def claim_queryParams_def
    by (intro conjI) (simp_all only: queryClient_get)
qed

theorem rest_requests_witness:
  "\<exists>c :: (nat, unit, nat) config. reachable (Client (\<lambda>_. [])) sample_env [] c \<and> 0 < length (heap (config.client c))
    \<and> (\<forall>fh. \<exists>req. queryFetchContract sample_axios fh (queryClient sample_axios (SDKModule.query (heap (config.client c) ! 0))) (js ''12'') no_params 0 =
      perform sample_axios (axios.create sample_axios [(''baseURL'', JString (js ''api''))]) req 0
      \<and> gets req (js ''/arkeo/contract/'' @ js ''12'') JUndefined)"
  proof -
  let ?c = "\<lparr>client = new_IgniteClient (Client (\<lambda>_. [])) sample_env None, tasks = [], keplr_tasks = []\<rparr> :: (nat, unit, nat) config"
  have r: "reachable (Client (\<lambda>_. [])) sample_env [] ?c" by (rule reachable.start)
  have l: "0 < length (heap (config.client ?c))" by (simp add: new_IgniteClient_inv Client_def plugin_static_def)
  have "apiURL sample_env = js ''api''" by (simp add: sample_env_def)
  then show ?thesis
    using r l rest_requests [OF r l, where ax = sample_axios and s = 0] by (intro exI [of _ ?c]) auto
qed

text \<open>
  C20. For the messages that have not changed since \<open>ts-client\<close> was generated, its codec and the current one can be mixed: both encoders do the same, the decoder of \<open>ts-client\<close> reads back what the current encoder writes and the other way round, and \<open>fromJSON\<close> and \<open>fromPartial\<close> are the same functions.
\<close>

theorem codecs_interoperate:
  assumes laws: "long_wire_laws L F out inp G"
  shows "(interoperates L inp (wf_Coin L) (encode_Coin L) (decode_Coin L) (encode_tc_Coin L) (decode_tc_Coin L G)
        \<and> fromJSON_tc_Coin h = fromJSON_Coin h \<and> fromPartial_tc_Coin = fromPartial_Coin)
    \<and> (interoperates L inp (wf_DecCoin L) (encode_DecCoin L) (decode_DecCoin L) (encode_tc_DecCoin L) (decode_tc_DecCoin L G)
        \<and> fromJSON_tc_DecCoin h = fromJSON_DecCoin h \<and> fromPartial_tc_DecCoin = fromPartial_DecCoin)
    \<and> (interoperates L inp (wf_PageRequest L) (encode_PageRequest L) (decode_PageRequest L) (encode_tc_PageRequest L) (decode_tc_PageRequest L G)
        \<and> fromJSON_tc_PageRequest h = fromJSON_PageRequest h \<and> fromPartial_tc_PageRequest = fromPartial_PageRequest)
    \<and> (interoperates L inp (wf_PageResponse L) (encode_PageResponse L) (decode_PageResponse L) (encode_tc_PageResponse L) (decode_tc_PageResponse L G)
        \<and> fromJSON_tc_PageResponse h = fromJSON_PageResponse h \<and> fromPartial_tc_PageResponse = fromPartial_PageResponse)
    \<and> (interoperates L inp (wf_Provider L) (encode_Provider L) (decode_Provider L) (encode_tc_Provider L) (decode_tc_Provider L G)
        \<and> fromJSON_tc_Provider h = fromJSON_Provider h \<and> fromPartial_tc_Provider = fromPartial_Provider)
    \<and> (interoperates L inp (wf_Contract L) (encode_Contract L) (decode_Contract L) (encode_tc_Contract L) (decode_tc_Contract L G)
        \<and> fromJSON_tc_Contract h = fromJSON_Contract h \<and> fromPartial_tc_Contract = fromPartial_Contract)
    \<and> (interoperates L inp (wf_ContractSet L) (encode_ContractSet L) (decode_ContractSet L) (encode_tc_ContractSet L) (decode_tc_ContractSet L G)
        \<and> fromJSON_tc_ContractSet h = fromJSON_ContractSet h \<and> fromPartial_tc_ContractSet = fromPartial_ContractSet)
    \<and> (interoperates L inp (wf_ContractExpirationSet L) (encode_ContractExpirationSet L) (decode_ContractExpirationSet L) (encode_tc_ContractExpirationSet L) (decode_tc_ContractExpirationSet L G)
        \<and> fromJSON_tc_ContractExpirationSet h = fromJSON_ContractExpirationSet h \<and> fromPartial_tc_ContractExpirationSet = fromPartial_ContractExpirationSet)
    \<and> (interoperates L inp (wf_UserContractSet L) (encode_UserContractSet L) (decode_UserContractSet L) (encode_tc_UserContractSet L) (decode_tc_UserContractSet L G)
        \<and> fromJSON_tc_UserContractSet h = fromJSON_UserContractSet h \<and> fromPartial_tc_UserContractSet = fromPartial_UserContractSet)
    \<and> (interoperates L inp (wf_ProtoInt64 L) (encode_ProtoInt64 L) (decode_ProtoInt64 L) (encode_tc_ProtoInt64 L) (decode_tc_ProtoInt64 L G)
        \<and> fromJSON_tc_ProtoInt64 h = fromJSON_ProtoInt64 h \<and> fromPartial_tc_ProtoInt64 = fromPartial_ProtoInt64)
    \<and> (interoperates L inp (wf_ProtoUint64 L) (encode_ProtoUint64 L) (decode_ProtoUint64 L) (encode_tc_ProtoUint64 L) (decode_tc_ProtoUint64 L G)
        \<and> fromJSON_tc_ProtoUint64 h = fromJSON_ProtoUint64 h \<and> fromPartial_tc_ProtoUint64 = fromPartial_ProtoUint64)
    \<and> (interoperates L inp (wf_ProtoAccAddresses L) (encode_ProtoAccAddresses L) (decode_ProtoAccAddresses L) (encode_tc_ProtoAccAddresses L) (decode_tc_ProtoAccAddresses L G)
        \<and> fromJSON_tc_ProtoAccAddresses h = fromJSON_ProtoAccAddresses h \<and> fromPartial_tc_ProtoAccAddresses = fromPartial_ProtoAccAddresses)
    \<and> (interoperates L inp (wf_ProtoStrings L) (encode_ProtoStrings L) (decode_ProtoStrings L) (encode_tc_ProtoStrings L) (decode_tc_ProtoStrings L G)
        \<and> fromJSON_tc_ProtoStrings h = fromJSON_ProtoStrings h \<and> fromPartial_tc_ProtoStrings = fromPartial_ProtoStrings)
    \<and> (interoperates L inp (wf_ProtoBools L) (encode_ProtoBools L) (decode_ProtoBools L) (encode_tc_ProtoBools L) (decode_tc_ProtoBools L G)
        \<and> fromJSON_tc_ProtoBools h = fromJSON_ProtoBools h \<and> fromPartial_tc_ProtoBools = fromPartial_ProtoBools)
    \<and> (interoperates L inp (wf_EventBondProvider L) (encode_EventBondProvider L) (decode_EventBondProvider L) (encode_tc_EventBondProvider L) (decode_tc_EventBondProvider L G)
        \<and> fromJSON_tc_EventBondProvider h = fromJSON_EventBondProvider h \<and> fromPartial_tc_EventBondProvider = fromPartial_EventBondProvider)
    \<and> (interoperates L inp (wf_EventModProvider L) (encode_EventModProvider L) (decode_EventModProvider L) (encode_tc_EventModProvider L) (decode_tc_EventModProvider L G)
        \<and> fromJSON_tc_EventModProvider h = fromJSON_EventModProvider h \<and> fromPartial_tc_EventModProvider = fromPartial_EventModProvider)
    \<and> (interoperates L inp (wf_EventSettleContract L) (encode_EventSettleContract L) (decode_EventSettleContract L) (encode_tc_EventSettleContract L) (decode_tc_EventSettleContract L G)
        \<and> fromJSON_tc_EventSettleContract h = fromJSON_EventSettleContract h \<and> fromPartial_tc_EventSettleContract = fromPartial_EventSettleContract)
    \<and> (interoperates L inp (wf_EventCloseContract L) (encode_EventCloseContract L) (decode_EventCloseContract L) (encode_tc_EventCloseContract L) (decode_tc_EventCloseContract L G)
        \<and> fromJSON_tc_EventCloseContract h = fromJSON_EventCloseContract h \<and> fromPartial_tc_EventCloseContract = fromPartial_EventCloseContract)
    \<and> (interoperates L inp (wf_EventValidatorPayout L) (encode_EventValidatorPayout L) (decode_EventValidatorPayout L) (encode_tc_EventValidatorPayout L) (decode_tc_EventValidatorPayout L G)
        \<and> fromJSON_tc_EventValidatorPayout h = fromJSON_EventValidatorPayout h \<and> fromPartial_tc_EventValidatorPayout = fromPartial_EventValidatorPayout)
    \<and> (interoperates L inp (wf_QueryFetchProviderRequest L) (encode_QueryFetchProviderRequest L) (decode_QueryFetchProviderRequest L) (encode_tc_QueryFetchProviderRequest L) (decode_tc_QueryFetchProviderRequest L G)
        \<and> fromJSON_tc_QueryFetchProviderRequest h = fromJSON_QueryFetchProviderRequest h \<and> fromPartial_tc_QueryFetchProviderRequest = fromPartial_QueryFetchProviderRequest)
    \<and> (interoperates L inp (wf_QueryFetchProviderResponse L) (encode_QueryFetchProviderResponse L) (decode_QueryFetchProviderResponse L) (encode_tc_QueryFetchProviderResponse L) (decode_tc_QueryFetchProviderResponse L G)
        \<and> fromJSON_tc_QueryFetchProviderResponse h = fromJSON_QueryFetchProviderResponse h \<and> fromPartial_tc_QueryFetchProviderResponse = fromPartial_QueryFetchProviderResponse)
    \<and> (interoperates L inp (wf_QueryAllProviderRequest L) (encode_QueryAllProviderRequest L) (decode_QueryAllProviderRequest L) (encode_tc_QueryAllProviderRequest L) (decode_tc_QueryAllProviderRequest L G)
        \<and> fromJSON_tc_QueryAllProviderRequest h = fromJSON_QueryAllProviderRequest h \<and> fromPartial_tc_QueryAllProviderRequest = fromPartial_QueryAllProviderRequest)
    \<and> (interoperates L inp (wf_QueryAllProviderResponse L) (encode_QueryAllProviderResponse L) (decode_QueryAllProviderResponse L) (encode_tc_QueryAllProviderResponse L) (decode_tc_QueryAllProviderResponse L G)
        \<and> fromJSON_tc_QueryAllProviderResponse h = fromJSON_QueryAllProviderResponse h \<and> fromPartial_tc_QueryAllProviderResponse = fromPartial_QueryAllProviderResponse)
    \<and> (interoperates L inp (wf_QueryFetchContractRequest L) (encode_QueryFetchContractRequest L) (decode_QueryFetchContractRequest L) (encode_tc_QueryFetchContractRequest L) (decode_tc_QueryFetchContractRequest L G)
        \<and> fromJSON_tc_QueryFetchContractRequest h = fromJSON_QueryFetchContractRequest h \<and> fromPartial_tc_QueryFetchContractRequest = fromPartial_QueryFetchContractRequest)
    \<and> (interoperates L inp (wf_QueryFetchContractResponse L) (encode_QueryFetchContractResponse L) (decode_QueryFetchContractResponse L) (encode_tc_QueryFetchContractResponse L) (decode_tc_QueryFetchContractResponse L G)
        \<and> fromJSON_tc_QueryFetchContractResponse h = fromJSON_QueryFetchContractResponse h \<and> fromPartial_tc_QueryFetchContractResponse = fromPartial_QueryFetchContractResponse)
    \<and> (interoperates L inp (wf_QueryAllContractRequest L) (encode_QueryAllContractRequest L) (decode_QueryAllContractRequest L) (encode_tc_QueryAllContractRequest L) (decode_tc_QueryAllContractRequest L G)
        \<and> fromJSON_tc_QueryAllContractRequest h = fromJSON_QueryAllContractRequest h \<and> fromPartial_tc_QueryAllContractRequest = fromPartial_QueryAllContractRequest)
    \<and> (interoperates L inp (wf_QueryAllContractResponse L) (encode_QueryAllContractResponse L) (decode_QueryAllContractResponse L) (encode_tc_QueryAllContractResponse L) (decode_tc_QueryAllContractResponse L G)
        \<and> fromJSON_tc_QueryAllContractResponse h = fromJSON_QueryAllContractResponse h \<and> fromPartial_tc_QueryAllContractResponse = fromPartial_QueryAllContractResponse)
    \<and> (interoperates L inp (wf_QueryActiveContractRequest L) (encode_QueryActiveContractRequest L) (decode_QueryActiveContractRequest L) (encode_tc_QueryActiveContractRequest L) (decode_tc_QueryActiveContractRequest L G)
        \<and> fromJSON_tc_QueryActiveContractRequest h = fromJSON_QueryActiveContractRequest h \<and> fromPartial_tc_QueryActiveContractRequest = fromPartial_QueryActiveContractRequest)
    \<and> (interoperates L inp (wf_QueryActiveContractResponse L) (encode_QueryActiveContractResponse L) (decode_QueryActiveContractResponse L) (encode_tc_QueryActiveContractResponse L) (decode_tc_QueryActiveContractResponse L G)
        \<and> fromJSON_tc_QueryActiveContractResponse h = fromJSON_QueryActiveContractResponse h \<and> fromPartial_tc_QueryActiveContractResponse = fromPartial_QueryActiveContractResponse)
    \<and> (interoperates L inp (wf_Duration L) (encode_Duration L) (decode_Duration L) (encode_tc_Duration L) (decode_tc_Duration L G)
        \<and> fromJSON_tc_Duration h = fromJSON_Duration h \<and> fromPartial_tc_Duration = fromPartial_Duration)
    \<and> (interoperates L inp (wf_ClaimRecord L) (encode_ClaimRecord L) (decode_ClaimRecord L) (encode_tc_ClaimRecord L) (decode_tc_ClaimRecord L G)
        \<and> fromJSON_tc_ClaimRecord h = fromJSON_ClaimRecord h \<and> fromPartial_tc_ClaimRecord = fromPartial_ClaimRecord)
    \<and> (interoperates L inp (wf_QueryClaimRecordRequest L) (encode_QueryClaimRecordRequest L) (decode_QueryClaimRecordRequest L) (encode_tc_QueryClaimRecordRequest L) (decode_tc_QueryClaimRecordRequest L G)
        \<and> fromJSON_tc_QueryClaimRecordRequest h = fromJSON_QueryClaimRecordRequest h \<and> fromPartial_tc_QueryClaimRecordRequest = fromPartial_QueryClaimRecordRequest)
    \<and> (interoperates L inp (wf_QueryClaimRecordResponse L) (encode_QueryClaimRecordResponse L) (decode_QueryClaimRecordResponse L) (encode_tc_QueryClaimRecordResponse L) (decode_tc_QueryClaimRecordResponse L G)
        \<and> fromJSON_tc_QueryClaimRecordResponse h = fromJSON_QueryClaimRecordResponse h \<and> fromPartial_tc_QueryClaimRecordResponse = fromPartial_QueryClaimRecordResponse)"
  by (intro conjI;
      rule TcBase_eqs TcState_eqs TcEvents_eqs TcQuery_eqs TcClaim_eqs TcClaimTx_eqs
        long_wire_laws.TcBase_interop [OF laws]
        long_wire_laws.TcState_interop [OF laws]
        long_wire_laws.TcEvents_interop [OF laws]
        long_wire_laws.TcQuery_interop [OF laws]
        long_wire_laws.TcClaim_interop [OF laws]
        long_wire_laws.TcClaimTx_interop [OF laws])

theorem codecs_interoperate_witness:
  "long_wire_laws pb_wire pb_format pb_out snd pb_long \<and> wf_Contract pb_wire sample_Contract
    \<and> roundtrips pb_wire snd (encode_Contract pb_wire) (decode_tc_Contract pb_wire pb_long) sample_Contract
    \<and> roundtrips pb_wire snd (encode_tc_Contract pb_wire) (decode_Contract pb_wire) sample_Contract"
  proof -
  have "interoperates pb_wire snd (wf_Contract pb_wire) (encode_Contract pb_wire) (decode_Contract pb_wire)
      (encode_tc_Contract pb_wire) (decode_tc_Contract pb_wire pb_long)"
    using codecs_interoperate [OF pbl.long_wire_laws_axioms, of sample_host] by (elim conjE)
  then show ?thesis using pbl.long_wire_laws_axioms sample_Contract_wf unfolding interoperates_def by blast
qed

text \<open>
  C21. The messages whose schema has changed since \<open>ts-client\<close> was generated survive the encoding and decoding of \<open>ts-client\<close> itself: the transactions with accounts as bytes, the genesis states, and the parameters of the claim module, whose start date has to be a whole number of seconds.
\<close>

theorem ts_client_roundtrip:
  assumes laws: "long_wire_laws L F out inp G"
  shows "(\<forall>m. wf_tc_IntProto L m \<longrightarrow> roundtrips L inp (encode_tc_IntProto L) (decode_tc_IntProto L G) m)
    \<and> (\<forall>m. wf_tc_DecProto L m \<longrightarrow> roundtrips L inp (encode_tc_DecProto L) (decode_tc_DecProto L G) m)
    \<and> (\<forall>m. wf_tc_MsgBondProvider L m \<longrightarrow> roundtrips L inp (encode_tc_MsgBondProvider L) (decode_tc_MsgBondProvider L G) m)
    \<and> (\<forall>m. wf_tc_MsgModProvider L m \<longrightarrow> roundtrips L inp (encode_tc_MsgModProvider L) (decode_tc_MsgModProvider L G) m)
    \<and> (\<forall>m. wf_tc_MsgOpenContract L m \<longrightarrow> roundtrips L inp (encode_tc_MsgOpenContract L) (decode_tc_MsgOpenContract L G) m)
    \<and> (\<forall>m. wf_tc_MsgCloseContract L m \<longrightarrow> roundtrips L inp (encode_tc_MsgCloseContract L) (decode_tc_MsgCloseContract L G) m)
    \<and> (\<forall>m. wf_tc_MsgClaimContractIncome L m \<longrightarrow> roundtrips L inp (encode_tc_MsgClaimContractIncome L) (decode_tc_MsgClaimContractIncome L G) m)
    \<and> (\<forall>m. wf_tc_MsgSetVersion L m \<longrightarrow> roundtrips L inp (encode_tc_MsgSetVersion L) (decode_tc_MsgSetVersion L G) m)
    \<and> (\<forall>m. wf_tc_EventOpenContract L m \<longrightarrow> roundtrips L inp (encode_tc_EventOpenContract L) (decode_tc_EventOpenContract L G) m)
    \<and> (\<forall>m. wf_tc_GenesisState L m \<longrightarrow> roundtrips L inp (encode_tc_GenesisState L) (decode_tc_GenesisState L G) m)
    \<and> (\<forall>m. wf_tc_QueryParamsResponse L m \<longrightarrow> roundtrips L inp (encode_tc_QueryParamsResponse L) (decode_tc_QueryParamsResponse L G) m)
    \<and> (\<forall>m. wf_tc_claim_Params L m \<longrightarrow> roundtrips L inp (encode_tc_claim_Params L) (decode_tc_claim_Params L G) m)
    \<and> (\<forall>m. wf_tc_claim_GenesisState L m \<longrightarrow> roundtrips L inp (encode_tc_claim_GenesisState L) (decode_tc_claim_GenesisState L G) m)
    \<and> (\<forall>m. wf_tc_claim_QueryParamsResponse L m \<longrightarrow> roundtrips L inp (encode_tc_claim_QueryParamsResponse L) (decode_tc_claim_QueryParamsResponse L G) m)
    \<and> (\<forall>m. wf_tc_MsgClaimEth L m \<longrightarrow> roundtrips L inp (encode_tc_MsgClaimEth L) (decode_tc_MsgClaimEth L G) m)
    \<and> (\<forall>m. wf_tc_MsgClaimArkeo L m \<longrightarrow> roundtrips L inp (encode_tc_MsgClaimArkeo L) (decode_tc_MsgClaimArkeo L G) m)
    \<and> (\<forall>m. wf_tc_MsgTransferClaim L m \<longrightarrow> roundtrips L inp (encode_tc_MsgTransferClaim L) (decode_tc_MsgTransferClaim L G) m)
    \<and> (\<forall>m. wf_tc_MsgAddClaim L m \<longrightarrow> roundtrips L inp (encode_tc_MsgAddClaim L) (decode_tc_MsgAddClaim L G) m)"
  by (intro conjI allI impI;
      rule long_wire_laws.tc_IntProto_roundtrip [OF laws]
        long_wire_laws.tc_DecProto_roundtrip [OF laws]
        long_wire_laws.tc_MsgBondProvider_roundtrip [OF laws]
        long_wire_laws.tc_MsgModProvider_roundtrip [OF laws]
        long_wire_laws.tc_MsgOpenContract_roundtrip [OF laws]
        long_wire_laws.tc_MsgCloseContract_roundtrip [OF laws]
        long_wire_laws.tc_MsgClaimContractIncome_roundtrip [OF laws]
        long_wire_laws.tc_MsgSetVersion_roundtrip [OF laws]
        long_wire_laws.tc_EventOpenContract_roundtrip [OF laws]
        long_wire_laws.tc_GenesisState_roundtrip [OF laws]
        long_wire_laws.tc_QueryParamsResponse_roundtrip [OF laws]
        long_wire_laws.tc_claim_Params_roundtrip [OF laws]
        long_wire_laws.tc_claim_GenesisState_roundtrip [OF laws]
        long_wire_laws.tc_claim_QueryParamsResponse_roundtrip [OF laws]
        long_wire_laws.tc_MsgClaimEth_roundtrip [OF laws]
        long_wire_laws.tc_MsgClaimArkeo_roundtrip [OF laws]
        long_wire_laws.tc_MsgTransferClaim_roundtrip [OF laws]
        long_wire_laws.tc_MsgAddClaim_roundtrip [OF laws];
      assumption)

theorem ts_client_roundtrip_witness:
  "long_wire_laws pb_wire pb_format pb_out snd pb_long \<and> wf_tc_MsgOpenContract pb_wire sample_tc_MsgOpenContract
    \<and> roundtrips pb_wire snd (encode_tc_MsgOpenContract pb_wire) (decode_tc_MsgOpenContract pb_wire pb_long) sample_tc_MsgOpenContract
    \<and> wf_tc_MsgClaimEth pb_wire sample_tc_MsgClaimEth
    \<and> roundtrips pb_wire snd (encode_tc_MsgClaimEth pb_wire) (decode_tc_MsgClaimEth pb_wire pb_long) sample_tc_MsgClaimEth"
  using ts_client_roundtrip [OF pbl.long_wire_laws_axioms] pbl.long_wire_laws_axioms by simp

text \<open>
  C22. The gRPC clients of the arkeo and the claim module in \<open>ts-client\<close> refine their interfaces: over a transport whose remote end implements the interface a call of any of their methods (six transactions and six queries of arkeo, four and two of claim) has the outcome and the effect of the handler, for requests and answers the wire format can carry.
\<close>

theorem ts_clients_refine:
  assumes laws: "long_wire_laws L F out inp G" and msg: "tc_Msg_served L G tr impl" and query: "tc_Query_served L G tr' impl'"
    and cmsg: "tc_claim_Msg_served L G tr'' impl''" and cquery: "tc_claim_Query_served L G tr''' impl'''"
  shows "(\<forall>q s. wf_tc_MsgBondProvider L q \<longrightarrow> (\<forall>a s'. tc_Msg_service.BondProvider impl q s = (Inr a, s') \<longrightarrow> wf_MsgBondProviderResponse L a) \<longrightarrow>
      tc_MsgClientImpl_BondProvider L G tr q s = direct (tc_Msg_service.BondProvider impl) q s)
    \<and> (\<forall>q s. wf_tc_MsgModProvider L q \<longrightarrow> (\<forall>a s'. tc_Msg_service.ModProvider impl q s = (Inr a, s') \<longrightarrow> wf_MsgModProviderResponse L a) \<longrightarrow>
      tc_MsgClientImpl_ModProvider L G tr q s = direct (tc_Msg_service.ModProvider impl) q s)
    \<and> (\<forall>q s. wf_tc_MsgOpenContract L q \<longrightarrow> (\<forall>a s'. tc_Msg_service.OpenContract impl q s = (Inr a, s') \<longrightarrow> wf_MsgOpenContractResponse L a) \<longrightarrow>
      tc_MsgClientImpl_OpenContract L G tr q s = direct (tc_Msg_service.OpenContract impl) q s)
    \<and> (\<forall>q s. wf_tc_MsgCloseContract L q \<longrightarrow> (\<forall>a s'. tc_Msg_service.CloseContract impl q s = (Inr a, s') \<longrightarrow> wf_MsgCloseContractResponse L a) \<longrightarrow>
      tc_MsgClientImpl_CloseContract L G tr q s = direct (tc_Msg_service.CloseContract impl) q s)
    \<and> (\<forall>q s. wf_tc_MsgClaimContractIncome L q \<longrightarrow> (\<forall>a s'. tc_Msg_service.ClaimContractIncome impl q s = (Inr a, s') \<longrightarrow> wf_MsgClaimContractIncomeResponse L a) \<longrightarrow>
      tc_MsgClientImpl_ClaimContractIncome L G tr q s = direct (tc_Msg_service.ClaimContractIncome impl) q s)
    \<and> (\<forall>q s. wf_tc_MsgSetVersion L q \<longrightarrow> (\<forall>a s'. tc_Msg_service.SetVersion impl q s = (Inr a, s') \<longrightarrow> wf_MsgSetVersionResponse L a) \<longrightarrow>
      tc_MsgClientImpl_SetVersion L G tr q s = direct (tc_Msg_service.SetVersion impl) q s)
    \<and> (\<forall>q s. wf_QueryParamsRequest L q \<longrightarrow> (\<forall>a s'. tc_Query_service.Params impl' q s = (Inr a, s') \<longrightarrow> wf_tc_QueryParamsResponse L a) \<longrightarrow>
      tc_QueryClientImpl_Params L G tr' q s = direct (tc_Query_service.Params impl') q s)
    \<and> (\<forall>q s. wf_QueryFetchProviderRequest L q \<longrightarrow> (\<forall>a s'. tc_Query_service.FetchProvider impl' q s = (Inr a, s') \<longrightarrow> wf_QueryFetchProviderResponse L a) \<longrightarrow>
      tc_QueryClientImpl_FetchProvider L G tr' q s = direct (tc_Query_service.FetchProvider impl') q s)
    \<and> (\<forall>q s. wf_QueryAllProviderRequest L q \<longrightarrow> (\<forall>a s'. tc_Query_service.ProviderAll impl' q s = (Inr a, s') \<longrightarrow> wf_QueryAllProviderResponse L a) \<longrightarrow>
      tc_QueryClientImpl_ProviderAll L G tr' q s = direct (tc_Query_service.ProviderAll impl') q s)
    \<and> (\<forall>q s. wf_QueryFetchContractRequest L q \<longrightarrow> (\<forall>a s'. tc_Query_service.FetchContract impl' q s = (Inr a, s') \<longrightarrow> wf_QueryFetchContractResponse L a) \<longrightarrow>
      tc_QueryClientImpl_FetchContract L G tr' q s = direct (tc_Query_service.FetchContract impl') q s)
    \<and> (\<forall>q s. wf_QueryAllContractRequest L q \<longrightarrow> (\<forall>a s'. tc_Query_service.ContractAll impl' q s = (Inr a, s') \<longrightarrow> wf_QueryAllContractResponse L a) \<longrightarrow>
      tc_QueryClientImpl_ContractAll L G tr' q s = direct (tc_Query_service.ContractAll impl') q s)
    \<and> (\<forall>q s. wf_QueryActiveContractRequest L q \<longrightarrow> (\<forall>a s'. tc_Query_service.ActiveContract impl' q s = (Inr a, s') \<longrightarrow> wf_QueryActiveContractResponse L a) \<longrightarrow>
      tc_QueryClientImpl_ActiveContract L G tr' q s = direct (tc_Query_service.ActiveContract impl') q s)
    \<and> (\<forall>q s. wf_tc_MsgClaimEth L q \<longrightarrow> (\<forall>a s'. tc_claim_Msg_service.ClaimEth impl'' q s = (Inr a, s') \<longrightarrow> wf_tc_MsgClaimEthResponse L a) \<longrightarrow>
      tc_claim_MsgClientImpl_ClaimEth L G tr'' q s = direct (tc_claim_Msg_service.ClaimEth impl'') q s)
    \<and> (\<forall>q s. wf_tc_MsgClaimArkeo L q \<longrightarrow> (\<forall>a s'. tc_claim_Msg_service.ClaimArkeo impl'' q s = (Inr a, s') \<longrightarrow> wf_tc_MsgClaimArkeoResponse L a) \<longrightarrow>
      tc_claim_MsgClientImpl_ClaimArkeo L G tr'' q s = direct (tc_claim_Msg_service.ClaimArkeo impl'') q s)
    \<and> (\<forall>q s. wf_tc_MsgTransferClaim L q \<longrightarrow> (\<forall>a s'. tc_claim_Msg_service.TransferClaim impl'' q s = (Inr a, s') \<longrightarrow> wf_MsgTransferClaimResponse L a) \<longrightarrow>
      tc_claim_MsgClientImpl_TransferClaim L G tr'' q s = direct (tc_claim_Msg_service.TransferClaim impl'') q s)
    \<and> (\<forall>q s. wf_tc_MsgAddClaim L q \<longrightarrow> (\<forall>a s'. tc_claim_Msg_service.AddClaim impl'' q s = (Inr a, s') \<longrightarrow> wf_MsgAddClaimResponse L a) \<longrightarrow>
      tc_claim_MsgClientImpl_AddClaim L G tr'' q s = direct (tc_claim_Msg_service.AddClaim impl'') q s)
    \<and> (\<forall>q s. wf_claim_QueryParamsRequest L q \<longrightarrow> (\<forall>a s'. tc_claim_Query_service.Params impl''' q s = (Inr a, s') \<longrightarrow> wf_tc_claim_QueryParamsResponse L a) \<longrightarrow>
      tc_claim_QueryClientImpl_Params L G tr''' q s = direct (tc_claim_Query_service.Params impl''') q s)
    \<and> (\<forall>q s. wf_QueryClaimRecordRequest L q \<longrightarrow> (\<forall>a s'. tc_claim_Query_service.ClaimRecord impl''' q s = (Inr a, s') \<longrightarrow> wf_QueryClaimRecordResponse L a) \<longrightarrow>
      tc_claim_QueryClientImpl_ClaimRecord L G tr''' q s = direct (tc_claim_Query_service.ClaimRecord impl''') q s)"
  by (intro conjI allI impI;
      rule long_wire_laws.tc_Msg_BondProvider_call [OF laws msg]
        long_wire_laws.tc_Msg_ModProvider_call [OF laws msg]
        long_wire_laws.tc_Msg_OpenContract_call [OF laws msg]
        long_wire_laws.tc_Msg_CloseContract_call [OF laws msg]
        long_wire_laws.tc_Msg_ClaimContractIncome_call [OF laws msg]
        long_wire_laws.tc_Msg_SetVersion_call [OF laws msg]
        long_wire_laws.tc_Query_Params_call [OF laws query]
        long_wire_laws.tc_Query_FetchProvider_call [OF laws query]
        long_wire_laws.tc_Query_ProviderAll_call [OF laws query]
        long_wire_laws.tc_Query_FetchContract_call [OF laws query]
        long_wire_laws.tc_Query_ContractAll_call [OF laws query]
        long_wire_laws.tc_Query_ActiveContract_call [OF laws query]
        long_wire_laws.tc_claim_Msg_ClaimEth_call [OF laws cmsg]
        long_wire_laws.tc_claim_Msg_ClaimArkeo_call [OF laws cmsg]
        long_wire_laws.tc_claim_Msg_TransferClaim_call [OF laws cmsg]
        long_wire_laws.tc_claim_Msg_AddClaim_call [OF laws cmsg]
        long_wire_laws.tc_claim_Query_Params_call [OF laws cquery]
        long_wire_laws.tc_claim_Query_ClaimRecord_call [OF laws cquery];
      blast)

theorem ts_clients_refine_witness:
  "long_wire_laws pb_wire pb_format pb_out snd pb_long \<and> tc_QueryClientImpl_FetchContract pb_wire pb_long (tc_Query_dispatch pb_wire pb_long sample_tc_Query) sample_QueryFetchContractRequest 3 =
      (Resolves sample_QueryFetchContractResponse, 4)
    \<and> tc_MsgClientImpl_OpenContract pb_wire pb_long (tc_Msg_dispatch pb_wire pb_long sample_tc_Msg) sample_tc_MsgOpenContract 3 =
      (Resolves MsgOpenContractResponse, 4)
    \<and> tc_claim_QueryClientImpl_ClaimRecord pb_wire pb_long (tc_claim_Query_dispatch pb_wire pb_long sample_tc_claim_Query) sample_QueryClaimRecordRequest 3 =
      (Resolves sample_QueryClaimRecordResponse, 4)"
  using ts_clients_refine [OF pbl.long_wire_laws_axioms tc_Msg_dispatch_served [of _ _ sample_tc_Msg] tc_Query_dispatch_served [of _ _ sample_tc_Query]
      tc_claim_Msg_dispatch_served [of _ _ sample_tc_claim_Msg] tc_claim_Query_dispatch_served [of _ _ sample_tc_claim_Query]] pbl.long_wire_laws_axioms
  by (simp add: direct_def sample_tc_Query_def sample_tc_Msg_def sample_tc_claim_Query_def wf_MsgOpenContractResponse_def)

text \<open>
  C23. The conversion of 64-bit integers in \<open>ts-client\<close> checks the upper bound only: up to the largest safe integer it throws as it should, but an integer below the smallest safe one is rounded silently, so that different integers become one number.
\<close>

theorem ts_longToNumber_rounds:
  assumes "long_laws G"
  shows "longToNumber_long G i =
      (if MAX_SAFE_INTEGER < i then Inl (Error ''Value is larger than Number.MAX_SAFE_INTEGER'')
       else if MIN_SAFE_INTEGER \<le> i then Inr (num_of_int i) else Inr (to_double (of_int i)))
    \<and> longToNumber_long G (- 9007199254740993) = Inr (num_of_int (- 9007199254740992))
    \<and> longToNumber_long G (- 9007199254740992) = Inr (num_of_int (- 9007199254740992))"
  proof -
  have r: "to_double (- 9007199254740993) = Num (- 9007199254740992)"
    unfolding to_double_def round53_example by simp
  have d: "to_double (- 9007199254740992) = Num (- 9007199254740992)"
    using to_double_int [of "- 9007199254740992"] by simp
  have s: "longToNumber_long G j = Inr (to_double (of_int j))" if "j < MIN_SAFE_INTEGER" for j
    using that by (rule long_laws.longToNumber_long_small [OF assms])
  show ?thesis
    using long_laws.longToNumber_long_large [OF assms, of i] long_laws.longToNumber_long_safe [OF assms, of i] s [of i]
      s [of "- 9007199254740993"] s [of "- 9007199254740992"] r d
    by (auto simp: MIN_SAFE_INTEGER_def MAX_SAFE_INTEGER_def)
qed

theorem ts_longToNumber_rounds_witness:
  "long_laws pb_long \<and> longToNumber_long pb_long (- 9007199254740993) = longToNumber_long pb_long (- 9007199254740992)"
  using ts_longToNumber_rounds [OF pbl.long_laws_axioms, of 0, THEN conjunct2] pbl.long_laws_axioms by simp

text \<open>
  C27. The messages that describe schemas survive encoding and JSON: all descriptors and options of \<open>descriptor.ts\<close>, the HTTP rules of \<open>http.ts\<close> and the descriptions of \<open>cosmos.ts\<close>, if every field with a default is set. Message types and HTTP rules nest; the depth \<open>n\<close> of the stack has to be that of the message.
\<close>

theorem schema_roundtrip:
  assumes laws: "wire_laws L F out inp"
  shows "(\<forall>m. wf_FieldOptions_EditionDefault L m \<longrightarrow> roundtrips L inp (encode_FieldOptions_EditionDefault L) (decode_FieldOptions_EditionDefault L) m)
      \<and> (\<forall>m. wfj_FieldOptions_EditionDefault m \<longrightarrow> bindE (toJSON_FieldOptions_EditionDefault h m) (fromJSON_FieldOptions_EditionDefault h) = Inr m)
    \<and> (\<forall>m. wf_FeatureSet L m \<longrightarrow> roundtrips L inp (encode_FeatureSet L) (decode_FeatureSet L) m)
      \<and> (\<forall>m. wfj_FeatureSet m \<longrightarrow> bindE (toJSON_FeatureSet h m) (fromJSON_FeatureSet h) = Inr m)
    \<and> (\<forall>m. wf_FieldOptions_FeatureSupport L m \<longrightarrow> roundtrips L inp (encode_FieldOptions_FeatureSupport L) (decode_FieldOptions_FeatureSupport L) m)
      \<and> (\<forall>m. wfj_FieldOptions_FeatureSupport m \<longrightarrow> bindE (toJSON_FieldOptions_FeatureSupport h m) (fromJSON_FieldOptions_FeatureSupport h) = Inr m)
    \<and> (\<forall>m. wf_UninterpretedOption_NamePart L m \<longrightarrow> roundtrips L inp (encode_UninterpretedOption_NamePart L) (decode_UninterpretedOption_NamePart L) m)
      \<and> (\<forall>m. wfj_UninterpretedOption_NamePart m \<longrightarrow> bindE (toJSON_UninterpretedOption_NamePart h m) (fromJSON_UninterpretedOption_NamePart h) = Inr m)
    \<and> (\<forall>m. wf_UninterpretedOption L m \<longrightarrow> roundtrips L inp (encode_UninterpretedOption L) (decode_UninterpretedOption L) m)
      \<and> (\<forall>m. wfj_UninterpretedOption m \<longrightarrow> bindE (toJSON_UninterpretedOption h m) (fromJSON_UninterpretedOption h) = Inr m)
    \<and> (\<forall>m. wf_FieldOptions L m \<longrightarrow> roundtrips L inp (encode_FieldOptions L) (decode_FieldOptions L) m)
      \<and> (\<forall>m. wfj_FieldOptions m \<longrightarrow> bindE (toJSON_FieldOptions h m) (fromJSON_FieldOptions h) = Inr m)
    \<and> (\<forall>m. wf_FieldDescriptorProto L m \<longrightarrow> roundtrips L inp (encode_FieldDescriptorProto L) (decode_FieldDescriptorProto L) m)
      \<and> (\<forall>m. wfj_FieldDescriptorProto m \<longrightarrow> bindE (toJSON_FieldDescriptorProto h m) (fromJSON_FieldDescriptorProto h) = Inr m)
    \<and> (\<forall>m. wf_EnumValueOptions L m \<longrightarrow> roundtrips L inp (encode_EnumValueOptions L) (decode_EnumValueOptions L) m)
      \<and> (\<forall>m. wfj_EnumValueOptions m \<longrightarrow> bindE (toJSON_EnumValueOptions h m) (fromJSON_EnumValueOptions h) = Inr m)
    \<and> (\<forall>m. wf_EnumValueDescriptorProto L m \<longrightarrow> roundtrips L inp (encode_EnumValueDescriptorProto L) (decode_EnumValueDescriptorProto L) m)
      \<and> (\<forall>m. wfj_EnumValueDescriptorProto m \<longrightarrow> bindE (toJSON_EnumValueDescriptorProto h m) (fromJSON_EnumValueDescriptorProto h) = Inr m)
    \<and> (\<forall>m. wf_EnumOptions L m \<longrightarrow> roundtrips L inp (encode_EnumOptions L) (decode_EnumOptions L) m)
      \<and> (\<forall>m. wfj_EnumOptions m \<longrightarrow> bindE (toJSON_EnumOptions h m) (fromJSON_EnumOptions h) = Inr m)
    \<and> (\<forall>m. wf_EnumDescriptorProto_EnumReservedRange L m \<longrightarrow> roundtrips L inp (encode_EnumDescriptorProto_EnumReservedRange L) (decode_EnumDescriptorProto_EnumReservedRange L) m)
      \<and> (\<forall>m. wfj_EnumDescriptorProto_EnumReservedRange m \<longrightarrow> bindE (toJSON_EnumDescriptorProto_EnumReservedRange h m) (fromJSON_EnumDescriptorProto_EnumReservedRange h) = Inr m)
    \<and> (\<forall>m. wf_EnumDescriptorProto L m \<longrightarrow> roundtrips L inp (encode_EnumDescriptorProto L) (decode_EnumDescriptorProto L) m)
      \<and> (\<forall>m. wfj_EnumDescriptorProto m \<longrightarrow> bindE (toJSON_EnumDescriptorProto h m) (fromJSON_EnumDescriptorProto h) = Inr m)
    \<and> (\<forall>m. wf_ExtensionRangeOptions_Declaration L m \<longrightarrow> roundtrips L inp (encode_ExtensionRangeOptions_Declaration L) (decode_ExtensionRangeOptions_Declaration L) m)
      \<and> (\<forall>m. wfj_ExtensionRangeOptions_Declaration m \<longrightarrow> bindE (toJSON_ExtensionRangeOptions_Declaration h m) (fromJSON_ExtensionRangeOptions_Declaration h) = Inr m)
    \<and> (\<forall>m. wf_ExtensionRangeOptions L m \<longrightarrow> roundtrips L inp (encode_ExtensionRangeOptions L) (decode_ExtensionRangeOptions L) m)
      \<and> (\<forall>m. wfj_ExtensionRangeOptions m \<longrightarrow> bindE (toJSON_ExtensionRangeOptions h m) (fromJSON_ExtensionRangeOptions h) = Inr m)
    \<and> (\<forall>m. wf_DescriptorProto_ExtensionRange L m \<longrightarrow> roundtrips L inp (encode_DescriptorProto_ExtensionRange L) (decode_DescriptorProto_ExtensionRange L) m)
      \<and> (\<forall>m. wfj_DescriptorProto_ExtensionRange m \<longrightarrow> bindE (toJSON_DescriptorProto_ExtensionRange h m) (fromJSON_DescriptorProto_ExtensionRange h) = Inr m)
    \<and> (\<forall>m. wf_OneofOptions L m \<longrightarrow> roundtrips L inp (encode_OneofOptions L) (decode_OneofOptions L) m)
      \<and> (\<forall>m. wfj_OneofOptions m \<longrightarrow> bindE (toJSON_OneofOptions h m) (fromJSON_OneofOptions h) = Inr m)
    \<and> (\<forall>m. wf_OneofDescriptorProto L m \<longrightarrow> roundtrips L inp (encode_OneofDescriptorProto L) (decode_OneofDescriptorProto L) m)
      \<and> (\<forall>m. wfj_OneofDescriptorProto m \<longrightarrow> bindE (toJSON_OneofDescriptorProto h m) (fromJSON_OneofDescriptorProto h) = Inr m)
    \<and> (\<forall>m. wf_MessageOptions L m \<longrightarrow> roundtrips L inp (encode_MessageOptions L) (decode_MessageOptions L) m)
      \<and> (\<forall>m. wfj_MessageOptions m \<longrightarrow> bindE (toJSON_MessageOptions h m) (fromJSON_MessageOptions h) = Inr m)
    \<and> (\<forall>m. wf_DescriptorProto_ReservedRange L m \<longrightarrow> roundtrips L inp (encode_DescriptorProto_ReservedRange L) (decode_DescriptorProto_ReservedRange L) m)
      \<and> (\<forall>m. wfj_DescriptorProto_ReservedRange m \<longrightarrow> bindE (toJSON_DescriptorProto_ReservedRange h m) (fromJSON_DescriptorProto_ReservedRange h) = Inr m)
    \<and> (\<forall>n m. wf_DescriptorProto L n m \<longrightarrow> roundtrips L inp (encode_DescriptorProto L n) (decode_DescriptorProto L n) m)
      \<and> (\<forall>n m. wfj_DescriptorProto n m \<longrightarrow> bindE (toJSON_DescriptorProto h n m) (fromJSON_DescriptorProto h n) = Inr m)
    \<and> (\<forall>m. wf_MethodOptions L m \<longrightarrow> roundtrips L inp (encode_MethodOptions L) (decode_MethodOptions L) m)
      \<and> (\<forall>m. wfj_MethodOptions m \<longrightarrow> bindE (toJSON_MethodOptions h m) (fromJSON_MethodOptions h) = Inr m)
    \<and> (\<forall>m. wf_MethodDescriptorProto L m \<longrightarrow> roundtrips L inp (encode_MethodDescriptorProto L) (decode_MethodDescriptorProto L) m)
      \<and> (\<forall>m. wfj_MethodDescriptorProto m \<longrightarrow> bindE (toJSON_MethodDescriptorProto h m) (fromJSON_MethodDescriptorProto h) = Inr m)
    \<and> (\<forall>m. wf_ServiceOptions L m \<longrightarrow> roundtrips L inp (encode_ServiceOptions L) (decode_ServiceOptions L) m)
      \<and> (\<forall>m. wfj_ServiceOptions m \<longrightarrow> bindE (toJSON_ServiceOptions h m) (fromJSON_ServiceOptions h) = Inr m)
    \<and> (\<forall>m. wf_ServiceDescriptorProto L m \<longrightarrow> roundtrips L inp (encode_ServiceDescriptorProto L) (decode_ServiceDescriptorProto L) m)
      \<and> (\<forall>m. wfj_ServiceDescriptorProto m \<longrightarrow> bindE (toJSON_ServiceDescriptorProto h m) (fromJSON_ServiceDescriptorProto h) = Inr m)
    \<and> (\<forall>m. wf_FileOptions L m \<longrightarrow> roundtrips L inp (encode_FileOptions L) (decode_FileOptions L) m)
      \<and> (\<forall>m. wfj_FileOptions m \<longrightarrow> bindE (toJSON_FileOptions h m) (fromJSON_FileOptions h) = Inr m)
    \<and> (\<forall>m. wf_SourceCodeInfo_Location L m \<longrightarrow> roundtrips L inp (encode_SourceCodeInfo_Location L) (decode_SourceCodeInfo_Location L) m)
      \<and> (\<forall>m. wfj_SourceCodeInfo_Location m \<longrightarrow> bindE (toJSON_SourceCodeInfo_Location h m) (fromJSON_SourceCodeInfo_Location h) = Inr m)
    \<and> (\<forall>m. wf_SourceCodeInfo L m \<longrightarrow> roundtrips L inp (encode_SourceCodeInfo L) (decode_SourceCodeInfo L) m)
      \<and> (\<forall>m. wfj_SourceCodeInfo m \<longrightarrow> bindE (toJSON_SourceCodeInfo h m) (fromJSON_SourceCodeInfo h) = Inr m)
    \<and> (\<forall>n m. wf_FileDescriptorProto L n m \<longrightarrow> roundtrips L inp (encode_FileDescriptorProto L n) (decode_FileDescriptorProto L n) m)
      \<and> (\<forall>n m. wfj_FileDescriptorProto n m \<longrightarrow> bindE (toJSON_FileDescriptorProto h n m) (fromJSON_FileDescriptorProto h n) = Inr m)
    \<and> (\<forall>n m. wf_FileDescriptorSet L n m \<longrightarrow> roundtrips L inp (encode_FileDescriptorSet L n) (decode_FileDescriptorSet L n) m)
      \<and> (\<forall>n m. wfj_FileDescriptorSet n m \<longrightarrow> bindE (toJSON_FileDescriptorSet h n m) (fromJSON_FileDescriptorSet h n) = Inr m)
    \<and> (\<forall>m. wf_FeatureSetDefaults_FeatureSetEditionDefault L m \<longrightarrow> roundtrips L inp (encode_FeatureSetDefaults_FeatureSetEditionDefault L) (decode_FeatureSetDefaults_FeatureSetEditionDefault L) m)
      \<and> (\<forall>m. wfj_FeatureSetDefaults_FeatureSetEditionDefault m \<longrightarrow> bindE (toJSON_FeatureSetDefaults_FeatureSetEditionDefault h m) (fromJSON_FeatureSetDefaults_FeatureSetEditionDefault h) = Inr m)
    \<and> (\<forall>m. wf_FeatureSetDefaults L m \<longrightarrow> roundtrips L inp (encode_FeatureSetDefaults L) (decode_FeatureSetDefaults L) m)
      \<and> (\<forall>m. wfj_FeatureSetDefaults m \<longrightarrow> bindE (toJSON_FeatureSetDefaults h m) (fromJSON_FeatureSetDefaults h) = Inr m)
    \<and> (\<forall>m. wf_GeneratedCodeInfo_Annotation L m \<longrightarrow> roundtrips L inp (encode_GeneratedCodeInfo_Annotation L) (decode_GeneratedCodeInfo_Annotation L) m)
      \<and> (\<forall>m. wfj_GeneratedCodeInfo_Annotation m \<longrightarrow> bindE (toJSON_GeneratedCodeInfo_Annotation h m) (fromJSON_GeneratedCodeInfo_Annotation h) = Inr m)
    \<and> (\<forall>m. wf_GeneratedCodeInfo L m \<longrightarrow> roundtrips L inp (encode_GeneratedCodeInfo L) (decode_GeneratedCodeInfo L) m)
      \<and> (\<forall>m. wfj_GeneratedCodeInfo m \<longrightarrow> bindE (toJSON_GeneratedCodeInfo h m) (fromJSON_GeneratedCodeInfo h) = Inr m)
    \<and> (\<forall>m. wf_CustomHttpPattern L m \<longrightarrow> roundtrips L inp (encode_CustomHttpPattern L) (decode_CustomHttpPattern L) m)
      \<and> (\<forall>m. wfj_CustomHttpPattern m \<longrightarrow> bindE (toJSON_CustomHttpPattern h m) (fromJSON_CustomHttpPattern h) = Inr m)
    \<and> (\<forall>n m. wf_HttpRule L n m \<longrightarrow> roundtrips L inp (encode_HttpRule L n) (decode_HttpRule L n) m)
      \<and> (\<forall>n m. wfj_HttpRule n m \<longrightarrow> bindE (toJSON_HttpRule h n m) (fromJSON_HttpRule h n) = Inr m)
    \<and> (\<forall>n m. wf_Http L n m \<longrightarrow> roundtrips L inp (encode_Http L n) (decode_Http L n) m)
      \<and> (\<forall>n m. wfj_Http n m \<longrightarrow> bindE (toJSON_Http h n m) (fromJSON_Http h n) = Inr m)
    \<and> (\<forall>m. wf_InterfaceDescriptor L m \<longrightarrow> roundtrips L inp (encode_InterfaceDescriptor L) (decode_InterfaceDescriptor L) m)
      \<and> (\<forall>m. wfj_InterfaceDescriptor m \<longrightarrow> bindE (toJSON_InterfaceDescriptor h m) (fromJSON_InterfaceDescriptor h) = Inr m)
    \<and> (\<forall>m. wf_ScalarDescriptor L m \<longrightarrow> roundtrips L inp (encode_ScalarDescriptor L) (decode_ScalarDescriptor L) m)
      \<and> (\<forall>m. wfj_ScalarDescriptor m \<longrightarrow> bindE (toJSON_ScalarDescriptor h m) (fromJSON_ScalarDescriptor h) = Inr m)"
  by (intro conjI allI impI;
      rule DescMsgs_jsons DescOptions_jsons HttpMsgs_jsons
        wire_laws.DescMsgs_roundtrips [OF laws]
        wire_laws.DescOptions_roundtrips [OF laws]
        wire_laws.HttpMsgs_roundtrips [OF laws];
      assumption)

theorem schema_roundtrip_witness:
  "wire_laws pb_wire pb_format pb_out snd
    \<and> wf_DescriptorProto pb_wire (Suc (Suc 0)) sample_DescriptorProto
    \<and> roundtrips pb_wire snd (encode_DescriptorProto pb_wire (Suc (Suc 0))) (decode_DescriptorProto pb_wire (Suc (Suc 0))) sample_DescriptorProto
    \<and> wf_UninterpretedOption pb_wire sample_UninterpretedOption
    \<and> roundtrips pb_wire snd (encode_UninterpretedOption pb_wire) (decode_UninterpretedOption pb_wire) sample_UninterpretedOption
    \<and> wfj_HttpRule (Suc (Suc 0)) sample_HttpRule
    \<and> bindE (toJSON_HttpRule sample_host (Suc (Suc 0)) sample_HttpRule) (fromJSON_HttpRule sample_host (Suc (Suc 0))) = Inr sample_HttpRule"
  proof -
  note all = schema_roundtrip [OF pb.wire_laws_axioms, of sample_host]
  have "\<forall>n m. wf_DescriptorProto pb_wire n m \<longrightarrow>
      roundtrips pb_wire snd (encode_DescriptorProto pb_wire n) (decode_DescriptorProto pb_wire n) m"
    using all by (elim conjE)
  moreover have "\<forall>m. wf_UninterpretedOption pb_wire m \<longrightarrow>
      roundtrips pb_wire snd (encode_UninterpretedOption pb_wire) (decode_UninterpretedOption pb_wire) m"
    using all by (elim conjE)
  moreover have "\<forall>n m. wfj_HttpRule n m \<longrightarrow> bindE (toJSON_HttpRule sample_host n m) (fromJSON_HttpRule sample_host n) = Inr m"
    using all by (elim conjE)
  ultimately show ?thesis
    using pb.wire_laws_axioms sample_DescriptorProto_wf sample_UninterpretedOption_wf sample_HttpRule_wfj by blast
qed

text \<open>
  C28. A field with a default that is \<open>undefined\<close> is read back as the default: what the encoder writes of a message is read as the message \<open>fromPartial\<close> makes of it, in which such fields are set. That a field was not set is lost where it means something: a field that is a member of no \<open>oneof\<close> is written like a member of the first one.
\<close>

theorem undefined_read_as_default:
  assumes laws: "wire_laws L F out inp"
  shows "(\<forall>m. wf_FieldOptions_EditionDefault L (fromPartial_FieldOptions_EditionDefault (partial_of_FieldOptions_EditionDefault m)) \<longrightarrow>
        reads_as L inp (encode_FieldOptions_EditionDefault L) (decode_FieldOptions_EditionDefault L) m (fromPartial_FieldOptions_EditionDefault (partial_of_FieldOptions_EditionDefault m)))
    \<and> (\<forall>m. wf_FeatureSet L (fromPartial_FeatureSet (partial_of_FeatureSet m)) \<longrightarrow>
        reads_as L inp (encode_FeatureSet L) (decode_FeatureSet L) m (fromPartial_FeatureSet (partial_of_FeatureSet m)))
    \<and> (\<forall>m. wf_FieldOptions_FeatureSupport L (fromPartial_FieldOptions_FeatureSupport (partial_of_FieldOptions_FeatureSupport m)) \<longrightarrow>
        reads_as L inp (encode_FieldOptions_FeatureSupport L) (decode_FieldOptions_FeatureSupport L) m (fromPartial_FieldOptions_FeatureSupport (partial_of_FieldOptions_FeatureSupport m)))
    \<and> (\<forall>m. wf_UninterpretedOption L (fromPartial_UninterpretedOption (partial_of_UninterpretedOption m)) \<longrightarrow>
        reads_as L inp (encode_UninterpretedOption L) (decode_UninterpretedOption L) m (fromPartial_UninterpretedOption (partial_of_UninterpretedOption m)))
    \<and> (\<forall>m. wf_FieldOptions L (fromPartial_FieldOptions (partial_of_FieldOptions m)) \<longrightarrow>
        reads_as L inp (encode_FieldOptions L) (decode_FieldOptions L) m (fromPartial_FieldOptions (partial_of_FieldOptions m)))
    \<and> (\<forall>m. wf_FieldDescriptorProto L (fromPartial_FieldDescriptorProto (partial_of_FieldDescriptorProto m)) \<longrightarrow>
        reads_as L inp (encode_FieldDescriptorProto L) (decode_FieldDescriptorProto L) m (fromPartial_FieldDescriptorProto (partial_of_FieldDescriptorProto m)))
    \<and> (\<forall>m. wf_EnumValueOptions L (fromPartial_EnumValueOptions (partial_of_EnumValueOptions m)) \<longrightarrow>
        reads_as L inp (encode_EnumValueOptions L) (decode_EnumValueOptions L) m (fromPartial_EnumValueOptions (partial_of_EnumValueOptions m)))
    \<and> (\<forall>m. wf_EnumValueDescriptorProto L (fromPartial_EnumValueDescriptorProto (partial_of_EnumValueDescriptorProto m)) \<longrightarrow>
        reads_as L inp (encode_EnumValueDescriptorProto L) (decode_EnumValueDescriptorProto L) m (fromPartial_EnumValueDescriptorProto (partial_of_EnumValueDescriptorProto m)))
    \<and> (\<forall>m. wf_EnumOptions L (fromPartial_EnumOptions (partial_of_EnumOptions m)) \<longrightarrow>
        reads_as L inp (encode_EnumOptions L) (decode_EnumOptions L) m (fromPartial_EnumOptions (partial_of_EnumOptions m)))
    \<and> (\<forall>m. wf_EnumDescriptorProto_EnumReservedRange L (fromPartial_EnumDescriptorProto_EnumReservedRange (partial_of_EnumDescriptorProto_EnumReservedRange m)) \<longrightarrow>
        reads_as L inp (encode_EnumDescriptorProto_EnumReservedRange L) (decode_EnumDescriptorProto_EnumReservedRange L) m (fromPartial_EnumDescriptorProto_EnumReservedRange (partial_of_EnumDescriptorProto_EnumReservedRange m)))
    \<and> (\<forall>m. wf_EnumDescriptorProto L (fromPartial_EnumDescriptorProto (partial_of_EnumDescriptorProto m)) \<longrightarrow>
        reads_as L inp (encode_EnumDescriptorProto L) (decode_EnumDescriptorProto L) m (fromPartial_EnumDescriptorProto (partial_of_EnumDescriptorProto m)))
    \<and> (\<forall>m. wf_ExtensionRangeOptions_Declaration L (fromPartial_ExtensionRangeOptions_Declaration (partial_of_ExtensionRangeOptions_Declaration m)) \<longrightarrow>
        reads_as L inp (encode_ExtensionRangeOptions_Declaration L) (decode_ExtensionRangeOptions_Declaration L) m (fromPartial_ExtensionRangeOptions_Declaration (partial_of_ExtensionRangeOptions_Declaration m)))
    \<and> (\<forall>m. wf_ExtensionRangeOptions L (fromPartial_ExtensionRangeOptions (partial_of_ExtensionRangeOptions m)) \<longrightarrow>
        reads_as L inp (encode_ExtensionRangeOptions L) (decode_ExtensionRangeOptions L) m (fromPartial_ExtensionRangeOptions (partial_of_ExtensionRangeOptions m)))
    \<and> (\<forall>m. wf_DescriptorProto_ExtensionRange L (fromPartial_DescriptorProto_ExtensionRange (partial_of_DescriptorProto_ExtensionRange m)) \<longrightarrow>
        reads_as L inp (encode_DescriptorProto_ExtensionRange L) (decode_DescriptorProto_ExtensionRange L) m (fromPartial_DescriptorProto_ExtensionRange (partial_of_DescriptorProto_ExtensionRange m)))
    \<and> (\<forall>m. wf_OneofDescriptorProto L (fromPartial_OneofDescriptorProto (partial_of_OneofDescriptorProto m)) \<longrightarrow>
        reads_as L inp (encode_OneofDescriptorProto L) (decode_OneofDescriptorProto L) m (fromPartial_OneofDescriptorProto (partial_of_OneofDescriptorProto m)))
    \<and> (\<forall>m. wf_MessageOptions L (fromPartial_MessageOptions (partial_of_MessageOptions m)) \<longrightarrow>
        reads_as L inp (encode_MessageOptions L) (decode_MessageOptions L) m (fromPartial_MessageOptions (partial_of_MessageOptions m)))
    \<and> (\<forall>m. wf_DescriptorProto_ReservedRange L (fromPartial_DescriptorProto_ReservedRange (partial_of_DescriptorProto_ReservedRange m)) \<longrightarrow>
        reads_as L inp (encode_DescriptorProto_ReservedRange L) (decode_DescriptorProto_ReservedRange L) m (fromPartial_DescriptorProto_ReservedRange (partial_of_DescriptorProto_ReservedRange m)))
    \<and> (\<forall>m. wf_MethodOptions L (fromPartial_MethodOptions (partial_of_MethodOptions m)) \<longrightarrow>
        reads_as L inp (encode_MethodOptions L) (decode_MethodOptions L) m (fromPartial_MethodOptions (partial_of_MethodOptions m)))
    \<and> (\<forall>m. wf_MethodDescriptorProto L (fromPartial_MethodDescriptorProto (partial_of_MethodDescriptorProto m)) \<longrightarrow>
        reads_as L inp (encode_MethodDescriptorProto L) (decode_MethodDescriptorProto L) m (fromPartial_MethodDescriptorProto (partial_of_MethodDescriptorProto m)))
    \<and> (\<forall>m. wf_ServiceOptions L (fromPartial_ServiceOptions (partial_of_ServiceOptions m)) \<longrightarrow>
        reads_as L inp (encode_ServiceOptions L) (decode_ServiceOptions L) m (fromPartial_ServiceOptions (partial_of_ServiceOptions m)))
    \<and> (\<forall>m. wf_ServiceDescriptorProto L (fromPartial_ServiceDescriptorProto (partial_of_ServiceDescriptorProto m)) \<longrightarrow>
        reads_as L inp (encode_ServiceDescriptorProto L) (decode_ServiceDescriptorProto L) m (fromPartial_ServiceDescriptorProto (partial_of_ServiceDescriptorProto m)))
    \<and> (\<forall>m. wf_FileOptions L (fromPartial_FileOptions (partial_of_FileOptions m)) \<longrightarrow>
        reads_as L inp (encode_FileOptions L) (decode_FileOptions L) m (fromPartial_FileOptions (partial_of_FileOptions m)))
    \<and> (\<forall>m. wf_SourceCodeInfo_Location L (fromPartial_SourceCodeInfo_Location (partial_of_SourceCodeInfo_Location m)) \<longrightarrow>
        reads_as L inp (encode_SourceCodeInfo_Location L) (decode_SourceCodeInfo_Location L) m (fromPartial_SourceCodeInfo_Location (partial_of_SourceCodeInfo_Location m)))
    \<and> (\<forall>m. wf_FeatureSetDefaults_FeatureSetEditionDefault L (fromPartial_FeatureSetDefaults_FeatureSetEditionDefault (partial_of_FeatureSetDefaults_FeatureSetEditionDefault m)) \<longrightarrow>
        reads_as L inp (encode_FeatureSetDefaults_FeatureSetEditionDefault L) (decode_FeatureSetDefaults_FeatureSetEditionDefault L) m (fromPartial_FeatureSetDefaults_FeatureSetEditionDefault (partial_of_FeatureSetDefaults_FeatureSetEditionDefault m)))
    \<and> (\<forall>m. wf_FeatureSetDefaults L (fromPartial_FeatureSetDefaults (partial_of_FeatureSetDefaults m)) \<longrightarrow>
        reads_as L inp (encode_FeatureSetDefaults L) (decode_FeatureSetDefaults L) m (fromPartial_FeatureSetDefaults (partial_of_FeatureSetDefaults m)))
    \<and> (\<forall>m. wf_GeneratedCodeInfo_Annotation L (fromPartial_GeneratedCodeInfo_Annotation (partial_of_GeneratedCodeInfo_Annotation m)) \<longrightarrow>
        reads_as L inp (encode_GeneratedCodeInfo_Annotation L) (decode_GeneratedCodeInfo_Annotation L) m (fromPartial_GeneratedCodeInfo_Annotation (partial_of_GeneratedCodeInfo_Annotation m)))
    \<and> (\<forall>m. encode_FieldDescriptorProto L (m\<lparr>FieldDescriptorProto.oneofIndex := None\<rparr>) =
        encode_FieldDescriptorProto L (m\<lparr>FieldDescriptorProto.oneofIndex := Some (Num 0)\<rparr>))"
  by (intro conjI allI impI;
      ((rule wire_laws.DescMsgs_reads [OF laws]
        wire_laws.DescOptions_reads [OF laws],
        assumption) | (simp add: encode_FieldDescriptorProto_def someE_def [abs_def] whenE_def [abs_def])))

theorem undefined_read_as_default_witness:
  "wire_laws pb_wire pb_format pb_out snd
    \<and> wf_FieldDescriptorProto pb_wire (fromPartial_FieldDescriptorProto (partial_of_FieldDescriptorProto sample_FieldDescriptorProto))
    \<and> FieldDescriptorProto.oneofIndex sample_FieldDescriptorProto = None
    \<and> (\<exists>m. reads_as pb_wire snd (encode_FieldDescriptorProto pb_wire) (decode_FieldDescriptorProto pb_wire) sample_FieldDescriptorProto m
        \<and> FieldDescriptorProto.oneofIndex m = Some (Num 0))"
  proof -
  have "\<forall>m. wf_FieldDescriptorProto pb_wire (fromPartial_FieldDescriptorProto (partial_of_FieldDescriptorProto m)) \<longrightarrow>
      reads_as pb_wire snd (encode_FieldDescriptorProto pb_wire) (decode_FieldDescriptorProto pb_wire) m
        (fromPartial_FieldDescriptorProto (partial_of_FieldDescriptorProto m))"
    using undefined_read_as_default [OF pb.wire_laws_axioms] by (elim conjE)
  moreover have "FieldDescriptorProto.oneofIndex
      (fromPartial_FieldDescriptorProto (partial_of_FieldDescriptorProto sample_FieldDescriptorProto)) = Some (Num 0)"
    "FieldDescriptorProto.oneofIndex sample_FieldDescriptorProto = None"
    by (simp_all add: fromPartial_FieldDescriptorProto_def partial_of_FieldDescriptorProto_def sample_FieldDescriptorProto_def)
  ultimately show ?thesis using pb.wire_laws_axioms sample_FieldDescriptorProto_wf by blast
qed

text \<open>
  C29. The decoders of HTTP rules and message types call themselves. On any input and with any stack they return or throw; a stack with more levels than the input has bytes is as good as an unlimited one; but two bytes per level are enough to exhaust it with a \<open>RangeError\<close>, since the announced lengths are not checked.
\<close>

theorem decoder_stack:
  assumes laws: "wire_laws L F out inp"
  shows "decode_HttpRule L n input len \<noteq> Inl Diverges
    \<and> (length b < n \<longrightarrow> n \<le> n' \<longrightarrow> decode_HttpRule L n' (ABuffer b) None = decode_HttpRule L n (ABuffer b) None)
    \<and> decode_HttpRule L n (ABuffer (concat (replicate n (e_uint32 F 90 @ e_uint32 F 1)))) None = Inl stack_overflow
    \<and> decode_DescriptorProto L n input len \<noteq> Inl Diverges
    \<and> (length b < n \<longrightarrow> n \<le> n' \<longrightarrow> decode_DescriptorProto L n' (ABuffer b) None = decode_DescriptorProto L n (ABuffer b) None)
    \<and> decode_DescriptorProto L n (ABuffer (concat (replicate n (e_uint32 F 26 @ e_uint32 F 1)))) None = Inl stack_overflow"
  by (intro conjI impI;
      rule wire_laws.HttpRule_returns [OF laws] wire_laws.HttpRule_stack [OF laws]
        wire_laws.DescriptorProto_returns [OF laws] wire_laws.DescriptorProto_stack [OF laws];
      assumption?)

theorem decoder_stack_witness:
  "wire_laws pb_wire pb_format pb_out snd \<and> length ([10, 1, 97] :: bytes) < 4
    \<and> decode_HttpRule pb_wire 9 (ABuffer [10, 1, 97]) None = decode_HttpRule pb_wire 4 (ABuffer [10, 1, 97]) None
    \<and> decode_HttpRule pb_wire 3 (ABuffer [90, 1, 90, 1, 90, 1]) None = Inl stack_overflow"
  proof -
  have "decode_HttpRule pb_wire 9 (ABuffer [10, 1, 97]) None = decode_HttpRule pb_wire 4 (ABuffer [10, 1, 97]) None"
    using decoder_stack [OF pb.wire_laws_axioms, where b = "[10, 1, 97]" and n = 4 and n' = 9] by simp
  moreover have "concat (replicate 3 (e_uint32 pb_format 90 @ e_uint32 pb_format 1)) = [90, 1, 90, 1, 90, 1]"
    by code_simp
  then have "decode_HttpRule pb_wire 3 (ABuffer [90, 1, 90, 1, 90, 1]) None = Inl stack_overflow"
    using decoder_stack [OF pb.wire_laws_axioms, where n = 3] by simp
  ultimately show ?thesis using pb.wire_laws_axioms by simp
qed

text \<open>
  C30. A contract whose height is outside the safe integers is refused. Take the encoding of any contract that has a height, with all the fields before it, put a 64-bit integer outside the safe range in the place of the height, and let anything follow: the decoder throws the error of \<open>longToNumber\<close>, on either side of the range.
\<close>

theorem unsafe_height_refused:
  assumes laws: "wire_laws L F out inp" and wf: "wf_Contract L m" and height: "Contract.height m = num_of_int h" "h \<noteq> 0"
  shows "\<exists>x y. encode_bytes L (encode_Contract L m) = Inr (x @ e_uint32 F 48 @ e_int64 F h @ y)
    \<and> (\<forall>i t. MAX_SAFE_INTEGER < i \<longrightarrow> i < 2 ^ 63 \<longrightarrow>
        decode_Contract L (ABuffer (x @ e_uint32 F 48 @ e_int64 F i @ t)) None = Inl (Error ''Value is larger than Number.MAX_SAFE_INTEGER''))
    \<and> (\<forall>i t. i < MIN_SAFE_INTEGER \<longrightarrow> - (2 ^ 63) \<le> i \<longrightarrow>
        decode_Contract L (ABuffer (x @ e_uint32 F 48 @ e_int64 F i @ t)) None = Inl (Error ''Value is smaller than Number.MIN_SAFE_INTEGER''))"
  proof -
  obtain x y where xy: "encode_bytes L (encode_Contract L m) = Inr (x @ e_uint32 F 48 @ e_int64 F h @ y)"
    and dec: "\<And>i e t. - (2 ^ 63) \<le> i \<Longrightarrow> i < 2 ^ 63 \<Longrightarrow> longToNumber i = Inl e \<Longrightarrow>
        decode_Contract L (ABuffer (x @ e_uint32 F 48 @ e_int64 F i @ t)) None = Inl e"
    using wire_laws.Contract_unsafe_height [OF laws wf height] by blast
  show ?thesis
    using xy dec longToNumber_large longToNumber_small
    by (intro exI [of _ x] exI [of _ y]) (auto simp: MAX_SAFE_INTEGER_def MIN_SAFE_INTEGER_def)
qed

theorem unsafe_height_refused_witness:
  "wire_laws pb_wire pb_format pb_out snd \<and> wf_Contract pb_wire sample_Contract \<and> Contract.height sample_Contract \<noteq> Num 0
    \<and> (\<exists>x. decode_Contract pb_wire (ABuffer (x @ e_uint32 pb_format 48 @ e_int64 pb_format 9007199254740992 @ [1])) None =
      Inl (Error ''Value is larger than Number.MAX_SAFE_INTEGER''))"
  proof -
  obtain h where h: "Contract.height sample_Contract = num_of_int h" "h \<noteq> 0"
    using that [of 8] by (simp add: sample_Contract_def)
  obtain x where "\<forall>i t. MAX_SAFE_INTEGER < i \<longrightarrow> i < 2 ^ 63 \<longrightarrow>
      decode_Contract pb_wire (ABuffer (x @ e_uint32 pb_format 48 @ e_int64 pb_format i @ t)) None =
        Inl (Error ''Value is larger than Number.MAX_SAFE_INTEGER'')"
    using unsafe_height_refused [OF pb.wire_laws_axioms sample_Contract_wf h] by blast
  from this [rule_format, of 9007199254740992 "[1]"] show ?thesis
    using pb.wire_laws_axioms sample_Contract_wf h by (auto simp: MAX_SAFE_INTEGER_def)
qed

text \<open>
  C31. A field the decoder of contracts does not expect is skipped: one with an unknown number, or with a known number and another wire type, appended to the encoding of a contract, leaves the decoded contract as it was, for varint and for length-delimited fields.
\<close>

theorem unknown_fields_ignored:
  assumes laws: "wire_laws L F out inp" and wf: "wf_Contract L m" and tag: "tag \<notin> {10, 16, 26, 34, 40, 48, 56, 66, 74, 82, 88, 96, 104, 112, 120, 128}"
  shows "(tag AND 7 = 0 \<longrightarrow> tag \<noteq> 0 \<longrightarrow> 0 \<le> i \<longrightarrow> i < 2 ^ 64 \<longrightarrow>
      (\<exists>bs r. encode_bytes L (encode_Contract L m) = Inr bs \<and>
        decode_Contract L (ABuffer (bs @ e_uint32 F tag @ e_uint64 F i)) None = Inr (m, r)))
    \<and> (tag AND 7 = 2 \<longrightarrow> wire_bytes d \<longrightarrow>
      (\<exists>bs r. encode_bytes L (encode_Contract L m) = Inr bs \<and>
        decode_Contract L (ABuffer (bs @ e_uint32 F tag @ e_bytes F d)) None = Inr (m, r)))"
  using wire_laws.Contract_ignores_varint [OF laws wf tag] wire_laws.Contract_ignores_bytes [OF laws wf tag] by blast

theorem unknown_fields_ignored_witness:
  "wire_laws pb_wire pb_format pb_out snd \<and> wf_Contract pb_wire sample_Contract \<and>
    (\<exists>bs r. encode_bytes pb_wire (encode_Contract pb_wire sample_Contract) = Inr bs \<and>
      decode_Contract pb_wire (ABuffer (bs @ e_uint32 pb_format 8 @ e_uint64 pb_format 77)) None = Inr (sample_Contract, r))"
  using unknown_fields_ignored [OF pb.wire_laws_axioms sample_Contract_wf, of 8 77] pb.wire_laws_axioms by simp

text \<open>
  C32. Two encodings, one after the other, are read as one message. The contract ids of two contract sets are decoded as one set with all the ids in order. Of two expiration sets the second contract set replaces the first and is not merged with it; a height of zero, which is not written, leaves the earlier height.
\<close>

theorem concatenated_encodings:
  assumes laws: "wire_laws L F out inp" and "wf_ContractSet L a" and "wf_ContractSet L b" and "wf_ContractExpirationSet L c" and "wf_ContractExpirationSet L d"
  shows "(\<exists>x y r. encode_bytes L (encode_ContractSet L a) = Inr x \<and> encode_bytes L (encode_ContractSet L b) = Inr y \<and>
      decode_ContractSet L (ABuffer (x @ y)) None =
        Inr (\<lparr>ContractSet.contractIds = ContractSet.contractIds a @ ContractSet.contractIds b\<rparr>, r) \<and> inp r = [])
    \<and> (\<exists>x y r. encode_bytes L (encode_ContractExpirationSet L c) = Inr x \<and>
      encode_bytes L (encode_ContractExpirationSet L d) = Inr y \<and>
      decode_ContractExpirationSet L (ABuffer (x @ y)) None = Inr (overwrite c d, r) \<and> inp r = [])"
  using wire_laws.ContractSet_concat [OF laws assms(2,3)] wire_laws.ContractExpirationSet_concat [OF laws assms(4,5)] by (rule conjI)

theorem concatenated_encodings_witness:
  "wire_laws pb_wire pb_format pb_out snd \<and> wf_ContractSet pb_wire sample_ContractSet \<and> wf_ContractExpirationSet pb_wire sample_ContractExpirationSet
    \<and> (\<exists>x r. encode_bytes pb_wire (encode_ContractSet pb_wire sample_ContractSet) = Inr x \<and>
      decode_ContractSet pb_wire (ABuffer (x @ x)) None =
        Inr (\<lparr>ContractSet.contractIds = [Num 1, Num 20, Num 1, Num 20]\<rparr>, r))
    \<and> (\<exists>x r. encode_bytes pb_wire (encode_ContractExpirationSet pb_wire sample_ContractExpirationSet) = Inr x \<and>
      decode_ContractExpirationSet pb_wire (ABuffer (x @ x)) None = Inr (sample_ContractExpirationSet, r))"
  proof -
  have "ContractSet.contractIds sample_ContractSet = [Num 1, Num 20]" by (simp add: sample_ContractSet_def)
  moreover have "overwrite sample_ContractExpirationSet sample_ContractExpirationSet = sample_ContractExpirationSet"
    by (simp add: overwrite_def sample_ContractExpirationSet_def)
  ultimately show ?thesis
    using concatenated_encodings [OF pb.wire_laws_axioms sample_ContractSet_wf sample_ContractSet_wf
        sample_ContractExpirationSet_wf sample_ContractExpirationSet_wf]
      pb.wire_laws_axioms
    by auto
qed

text \<open>
  C33. The decoder of a sub-message is not confined to its length, over any wire library: whatever length from one byte up to the real one is announced for the contract set of an expiration set, the whole contract set is read, past the announced end, and no error is raised.
\<close>

theorem submessage_overrun_accepted:
  assumes laws: "wire_laws L F out inp" and wf: "wf_ContractSet L cs" and "encode_bytes L (encode_ContractSet L cs) = Inr bs"
    and "0 < unat k" and "unat k \<le> length bs"
  shows "\<exists>r. decode_ContractExpirationSet L (ABuffer (e_uint32 F 18 @ e_uint32 F k @ bs)) None =
      Inr (\<lparr>ContractExpirationSet.height = Num 0, ContractExpirationSet.contractSet = Some cs\<rparr>, r) \<and> inp r = []"
  using wire_laws.ContractExpirationSet_overrun [OF laws assms(2-5)] by (simp add: createBase_ContractExpirationSet_def)

theorem submessage_overrun_accepted_witness:
  "wire_laws pb_wire pb_format pb_out snd \<and> wf_ContractSet pb_wire sample_ContractSet
    \<and> (\<exists>bs r. encode_bytes pb_wire (encode_ContractSet pb_wire sample_ContractSet) = Inr bs \<and> 1 < length bs
      \<and> decode_ContractExpirationSet pb_wire (ABuffer (e_uint32 pb_format 18 @ e_uint32 pb_format 1 @ bs)) None =
        Inr (\<lparr>ContractExpirationSet.height = Num 0, ContractExpirationSet.contractSet = Some sample_ContractSet\<rparr>, r))"
  proof -
  have bs: "encode_bytes pb_wire (encode_ContractSet pb_wire sample_ContractSet) = Inr [10, 2, 1, 20]" by code_simp
  show ?thesis
    using bs submessage_overrun_accepted [OF pb.wire_laws_axioms sample_ContractSet_wf bs, of 1] pb.wire_laws_axioms sample_ContractSet_wf
    by auto
qed

text \<open>
  C34. Default values are left out: the default provider, contract and request to open a contract are encoded as no bytes (the packed list of a contract set is written even when it is empty), and \<open>fromJSON\<close> of an object without the fields gives the default message; of \<open>null\<close> it throws a \<open>TypeError\<close>, except where the message has repeated fields only, which are read with \<open>object?.\<close>
\<close>

theorem default_messages:
  assumes laws: "wire_laws L F out inp"
  shows "encode_bytes L (encode_Provider L createBase_Provider) = Inr []
    \<and> encode_bytes L (encode_Contract L createBase_Contract) = Inr []
    \<and> encode_bytes L (encode_MsgOpenContract L createBase_MsgOpenContract) = Inr []
    \<and> encode_bytes L (encode_ContractSet L createBase_ContractSet) = Inr (e_uint32 F 10 @ e_uint32 F 0)
    \<and> fromJSON_Contract h (JObject []) = Inr createBase_Contract
    \<and> fromJSON_Provider h (JObject []) = Inr createBase_Provider
    \<and> fromJSON_Contract h JNull = Inl (TypeError ''provider'')
    \<and> fromJSON_Provider h JNull = Inl (TypeError ''pubKey'')
    \<and> fromJSON_ContractSet h JNull = Inr createBase_ContractSet"
  using wire_laws.Provider_default [OF laws] wire_laws.Contract_default [OF laws]
    wire_laws.MsgOpenContract_default [OF laws] wire_laws.ContractSet_default [OF laws]
  by (simp add: fromJSON_Contract_def fromJSON_Provider_def fromJSON_ContractSet_def createBase_Contract_def
      createBase_Provider_def createBase_ContractSet_def fieldE_def optE_def arrayE_def get_prop_opt_def)

theorem default_messages_witness:
  "wire_laws pb_wire pb_format pb_out snd \<and> encode_bytes pb_wire (encode_Contract pb_wire createBase_Contract) = Inr []
    \<and> fromJSON_Contract sample_host JNull = Inl (TypeError ''provider'')"
  using default_messages [OF pb.wire_laws_axioms, of sample_host] pb.wire_laws_axioms by simp

text \<open>
  C35. \<open>fromJSON(toJSON(m))\<close> is \<open>m\<close> for every stored object, every transaction of the arkeo module, the genesis states of both modules and the parameters of the claim module, with whole numbers and named enumeration values, on a host with or without \<open>Buffer\<close>: byte arrays go through base64, enumerations through their names, dates through their ISO text, default values through their absence.
\<close>

theorem messages_json_roundtrip:
  "(\<forall>m h. wfj_Provider m \<longrightarrow> bindE (toJSON_Provider h m) (fromJSON_Provider h) = Inr m)
    \<and> (\<forall>m h. wfj_Contract m \<longrightarrow> bindE (toJSON_Contract h m) (fromJSON_Contract h) = Inr m)
    \<and> (\<forall>m h. wfj_ContractSet m \<longrightarrow> bindE (toJSON_ContractSet h m) (fromJSON_ContractSet h) = Inr m)
    \<and> (\<forall>m h. wfj_ContractExpirationSet m \<longrightarrow> bindE (toJSON_ContractExpirationSet h m) (fromJSON_ContractExpirationSet h) = Inr m)
    \<and> (\<forall>m h. wfj_UserContractSet m \<longrightarrow> bindE (toJSON_UserContractSet h m) (fromJSON_UserContractSet h) = Inr m)
    \<and> (\<forall>m h. wfj_Service m \<longrightarrow> bindE (toJSON_Service h m) (fromJSON_Service h) = Inr m)
    \<and> (\<forall>m h. wfj_MsgBondProvider m \<longrightarrow> bindE (toJSON_MsgBondProvider h m) (fromJSON_MsgBondProvider h) = Inr m)
    \<and> (\<forall>m h. wfj_MsgModProvider m \<longrightarrow> bindE (toJSON_MsgModProvider h m) (fromJSON_MsgModProvider h) = Inr m)
    \<and> (\<forall>m h. wfj_MsgOpenContract m \<longrightarrow> bindE (toJSON_MsgOpenContract h m) (fromJSON_MsgOpenContract h) = Inr m)
    \<and> (\<forall>m h. wfj_MsgCloseContract m \<longrightarrow> bindE (toJSON_MsgCloseContract h m) (fromJSON_MsgCloseContract h) = Inr m)
    \<and> (\<forall>m h. wfj_MsgClaimContractIncome m \<longrightarrow> bindE (toJSON_MsgClaimContractIncome h m) (fromJSON_MsgClaimContractIncome h) = Inr m)
    \<and> (\<forall>m h. wfj_MsgSetVersion m \<longrightarrow> bindE (toJSON_MsgSetVersion h m) (fromJSON_MsgSetVersion h) = Inr m)
    \<and> (\<forall>m h. wfj_MsgRegisterService m \<longrightarrow> bindE (toJSON_MsgRegisterService h m) (fromJSON_MsgRegisterService h) = Inr m)
    \<and> (\<forall>m h. wfj_MsgUpdateService m \<longrightarrow> bindE (toJSON_MsgUpdateService h m) (fromJSON_MsgUpdateService h) = Inr m)
    \<and> (\<forall>m h. wfj_MsgRemoveService m \<longrightarrow> bindE (toJSON_MsgRemoveService h m) (fromJSON_MsgRemoveService h) = Inr m)
    \<and> (\<forall>m h. wfj_GenesisState m \<longrightarrow> bindE (toJSON_GenesisState h m) (fromJSON_GenesisState h) = Inr m)
    \<and> (\<forall>m h. wfj_claim_Params m \<longrightarrow> bindE (toJSON_claim_Params h m) (fromJSON_claim_Params h) = Inr m)
    \<and> (\<forall>m h. wfj_claim_GenesisState m \<longrightarrow> bindE (toJSON_claim_GenesisState h m) (fromJSON_claim_GenesisState h) = Inr m)
    \<and> (\<forall>m h. wfj_ClaimRecord m \<longrightarrow> bindE (toJSON_ClaimRecord h m) (fromJSON_ClaimRecord h) = Inr m)"
  by (intro conjI allI impI;
      rule Provider_json.json_roundtrip
        Contract_json.json_roundtrip
        ContractSet_json.json_roundtrip
        ContractExpirationSet_json.json_roundtrip
        UserContractSet_json.json_roundtrip
        Service_json.json_roundtrip
        MsgBondProvider_json.json_roundtrip
        MsgModProvider_json.json_roundtrip
        MsgOpenContract_json.json_roundtrip
        MsgCloseContract_json.json_roundtrip
        MsgClaimContractIncome_json.json_roundtrip
        MsgSetVersion_json.json_roundtrip
        MsgRegisterService_json.json_roundtrip
        MsgUpdateService_json.json_roundtrip
        MsgRemoveService_json.json_roundtrip
        GenesisState_json.json_roundtrip
        claim_Params_json.json_roundtrip
        claim_GenesisState_json.json_roundtrip
        ClaimRecord_json.json_roundtrip;
      assumption)

theorem messages_json_roundtrip_witness:
  "wfj_Provider sample_Provider \<and> bindE (toJSON_Provider sample_host sample_Provider) (fromJSON_Provider sample_host) = Inr sample_Provider
    \<and> wfj_Contract sample_Contract \<and> bindE (toJSON_Contract sample_host sample_Contract) (fromJSON_Contract sample_host) = Inr sample_Contract
    \<and> wfj_MsgOpenContract sample_MsgOpenContract \<and> bindE (toJSON_MsgOpenContract sample_host sample_MsgOpenContract) (fromJSON_MsgOpenContract sample_host) = Inr sample_MsgOpenContract
    \<and> wfj_GenesisState sample_GenesisState \<and> bindE (toJSON_GenesisState sample_host sample_GenesisState) (fromJSON_GenesisState sample_host) = Inr sample_GenesisState
    \<and> wfj_claim_GenesisState sample_claim_GenesisState \<and> bindE (toJSON_claim_GenesisState sample_host sample_claim_GenesisState) (fromJSON_claim_GenesisState sample_host) = Inr sample_claim_GenesisState"
  using messages_json_roundtrip by simp

text \<open>
  C36. Through JSON an enumeration value the schema names is kept and any other number becomes \<open>UNRECOGNIZED\<close>, for the five enumerations of the two modules.
\<close>

theorem enum_json_total:
  "providerStatusFromJSON (JString (providerStatusToJSON n)) = (if ProviderStatus_known n then n else ProviderStatus_UNRECOGNIZED)
    \<and> contractTypeFromJSON (JString (contractTypeToJSON n)) = (if ContractType_known n then n else ContractType_UNRECOGNIZED)
    \<and> contractAuthorizationFromJSON (JString (contractAuthorizationToJSON n)) = (if ContractAuthorization_known n then n else ContractAuthorization_UNRECOGNIZED)
    \<and> actionFromJSON (JString (actionToJSON n)) = (if Action_known n then n else Action_UNRECOGNIZED)
    \<and> chainFromJSON (JString (chainToJSON n)) = (if Chain_known n then n else Chain_UNRECOGNIZED)"
  by (simp add: ProviderStatus_known_def ProviderStatus_defs providerStatusFromJSON_def providerStatusToJSON_def ContractType_known_def ContractType_defs contractTypeFromJSON_def contractTypeToJSON_def ContractAuthorization_known_def ContractAuthorization_defs contractAuthorizationFromJSON_def contractAuthorizationToJSON_def Action_known_def Action_defs actionFromJSON_def actionToJSON_def Chain_known_def Chain_defs chainFromJSON_def chainToJSON_def)

text \<open>
  C37. The two implementations of base64, Node's \<open>Buffer\<close> and the browser's \<open>atob\<close> and \<open>btoa\<close>, agree: what one host writes the other reads back, for every byte array.
\<close>

theorem base64_hosts_agree:
  "base64FromBytes h b = base64FromBytes h' b
    \<and> bindE (base64FromBytes h b) (\<lambda>s. bytesFromBase64 h' (JString s)) = Inr b"
  by (simp add: base64FromBytes_eq bytesFromBase64_encode)

text \<open>
  C38. A valid date survives the conversion to a timestamp and back, in double arithmetic, and the timestamp is one the wire format can carry; it survives its JSON form too: the text that \<open>toISOString\<close> prints is read back by \<open>fromJsonTimestamp\<close> as the same date, for every millisecond of the range of dates. The seconds and nanoseconds of the timestamp add up to the date, and the nanoseconds have its sign: before 1970 those of a fractional second are negative.
\<close>

theorem date_roundtrip:
  assumes "date_valid (num_of_int t)"
  shows "fromTimestamp (toTimestamp (num_of_int t)) = num_of_int t \<and> wf_Timestamp L (toTimestamp (num_of_int t))
    \<and> bindE (dateJSON (num_of_int t)) (fromJsonTimestamp h) = Inr (num_of_int t)
    \<and> (\<exists>k n. toTimestamp (num_of_int t) = \<lparr>Timestamp.seconds = num_of_int k, Timestamp.nanos = num_of_int n\<rparr>
      \<and> 1000000 * t = 1000000000 * k + n \<and> \<bar>n\<bar> < 1000000000 \<and> (t < 0 \<longrightarrow> t mod 1000 \<noteq> 0 \<longrightarrow> n < 0) \<and> (0 \<le> t \<longrightarrow> 0 \<le> n))"
  using assms json_rt_bind [OF date_json_rt [OF assms]] toTimestamp_sign [OF assms]
  by (simp add: fromTimestamp_toTimestamp toTimestamp_wf)

theorem date_roundtrip_witness:
  "date_valid (num_of_int (- 500)) \<and> fromTimestamp (toTimestamp (num_of_int (- 500))) = num_of_int (- 500) \<and>
    wf_Timestamp pb_wire (toTimestamp (num_of_int (- 500))) \<and>
    bindE (dateJSON (num_of_int (- 500))) (fromJsonTimestamp sample_host) = Inr (num_of_int (- 500)) \<and>
    (\<exists>k n. toTimestamp (num_of_int (- 500)) = \<lparr>Timestamp.seconds = num_of_int k, Timestamp.nanos = num_of_int n\<rparr> \<and> n < 0)"
  proof -
  have v: "date_valid (num_of_int (- 500))" by (simp add: date_valid_def max_time_def)
  show ?thesis using v date_roundtrip [OF v, of pb_wire sample_host] by auto
qed

end
