(* ===== verification/CosBankQuery.thy ===== *)
theory CosBankQuery
  imports CosBank
begin

unbundle bit_operations_syntax

text \<open>
  The queries of the bank module in \<open>ts-client/cosmos.bank.v1beta1\<close>.
\<close>


section \<open>ts-client/cosmos.bank.v1beta1/types/cosmos/bank/v1beta1/query.ts\<close>

subsection \<open>QueryBalanceRequest\<close>

record tc_bank_QueryBalanceRequest =
  address' :: jsstring
  denom :: jsstring

definition createBase_tc_bank_QueryBalanceRequest :: tc_bank_QueryBalanceRequest where
  "createBase_tc_bank_QueryBalanceRequest = \<lparr>tc_bank_QueryBalanceRequest.address' = [],
     tc_bank_QueryBalanceRequest.denom = []\<rparr>"

definition encode_tc_bank_QueryBalanceRequest :: "('w, 'r) wire \<Rightarrow> tc_bank_QueryBalanceRequest \<Rightarrow> 'w \<Rightarrow> 'w result" where
  "encode_tc_bank_QueryBalanceRequest L message = seqE
    [whenE (tc_bank_QueryBalanceRequest.address' message \<noteq> []) (seqE [w_uint32 L 10, w_string L (tc_bank_QueryBalanceRequest.address' message)]),
     whenE (tc_bank_QueryBalanceRequest.denom message \<noteq> []) (seqE [w_uint32 L 18, w_string L (tc_bank_QueryBalanceRequest.denom message)])]"

definition tc_bank_QueryBalanceRequest_switch :: "('w, 'r) wire \<Rightarrow> long_lib \<Rightarrow> u32 \<Rightarrow> tc_bank_QueryBalanceRequest \<Rightarrow> (tc_bank_QueryBalanceRequest, 'r) action" where
  "tc_bank_QueryBalanceRequest_switch L G tag message = js_switch (drop_bit 3 tag)
    [(1, readf (r_string L) (\<lambda>v. message\<lparr>tc_bank_QueryBalanceRequest.address' := v\<rparr>)),
     (2, readf (r_string L) (\<lambda>v. message\<lparr>tc_bank_QueryBalanceRequest.denom := v\<rparr>))]
    (skipType L tag message)"

definition decode_tc_bank_QueryBalanceRequest :: "('w, 'r) wire \<Rightarrow> long_lib \<Rightarrow> 'r input \<Rightarrow> nat option \<Rightarrow> (tc_bank_QueryBalanceRequest \<times> 'r) result" where
  "decode_tc_bank_QueryBalanceRequest L G = decode_msg L (tc_bank_QueryBalanceRequest_switch L G) createBase_tc_bank_QueryBalanceRequest"

definition fromJSON_tc_bank_QueryBalanceRequest :: "host \<Rightarrow> jsval \<Rightarrow> tc_bank_QueryBalanceRequest result" where
  "fromJSON_tc_bank_QueryBalanceRequest h object =
     bindE (fieldE object ''address'' (stringE h) []) (\<lambda>v_address.
     bindE (fieldE object ''denom'' (stringE h) []) (\<lambda>v_denom.
     Inr \<lparr>tc_bank_QueryBalanceRequest.address' = v_address, tc_bank_QueryBalanceRequest.denom = v_denom\<rparr>))"

definition toJSON_tc_bank_QueryBalanceRequest :: "host \<Rightarrow> tc_bank_QueryBalanceRequest \<Rightarrow> jsval result" where
  "toJSON_tc_bank_QueryBalanceRequest h message = objE
    [jfieldE True ''address'' (Inr (JString (tc_bank_QueryBalanceRequest.address' message))),
     jfieldE True ''denom'' (Inr (JString (tc_bank_QueryBalanceRequest.denom message)))]"

type_synonym tc_bank_QueryBalanceRequest_Partial = "jsstring option \<times> jsstring option"

definition fromPartial_tc_bank_QueryBalanceRequest :: "tc_bank_QueryBalanceRequest_Partial \<Rightarrow> tc_bank_QueryBalanceRequest" where
  "fromPartial_tc_bank_QueryBalanceRequest object = (case object of (p_address, p_denom) \<Rightarrow>
     createBase_tc_bank_QueryBalanceRequest\<lparr>tc_bank_QueryBalanceRequest.address' := nullish (p_address) [],
       tc_bank_QueryBalanceRequest.denom := nullish (p_denom) []\<rparr>)"

text \<open>A partial message that sets every field.\<close>

definition partial_of_tc_bank_QueryBalanceRequest :: "tc_bank_QueryBalanceRequest \<Rightarrow> tc_bank_QueryBalanceRequest_Partial" where
  "partial_of_tc_bank_QueryBalanceRequest m =
     (Some (tc_bank_QueryBalanceRequest.address' m),
      Some (tc_bank_QueryBalanceRequest.denom m))"

definition wf_tc_bank_QueryBalanceRequest :: "('w, 'r) wire \<Rightarrow> tc_bank_QueryBalanceRequest \<Rightarrow> bool" where
  "wf_tc_bank_QueryBalanceRequest L m \<longleftrightarrow> wire_string (tc_bank_QueryBalanceRequest.address' m)
     \<and> wire_string (tc_bank_QueryBalanceRequest.denom m)"

definition wfj_tc_bank_QueryBalanceRequest :: "tc_bank_QueryBalanceRequest \<Rightarrow> bool" where
  "wfj_tc_bank_QueryBalanceRequest m \<longleftrightarrow> True"

subsection \<open>QueryBalanceResponse\<close>

record tc_bank_QueryBalanceResponse =
  balance :: "Coin option"

definition createBase_tc_bank_QueryBalanceResponse :: tc_bank_QueryBalanceResponse where
  "createBase_tc_bank_QueryBalanceResponse = \<lparr>tc_bank_QueryBalanceResponse.balance = None\<rparr>"

definition encode_tc_bank_QueryBalanceResponse :: "('w, 'r) wire \<Rightarrow> tc_bank_QueryBalanceResponse \<Rightarrow> 'w \<Rightarrow> 'w result" where
  "encode_tc_bank_QueryBalanceResponse L message = seqE
    [someE (tc_bank_QueryBalanceResponse.balance message) (\<lambda>v. seqE [w_uint32 L 10, w_fork L, encode_tc_Coin L v, w_join L])]"

definition tc_bank_QueryBalanceResponse_switch :: "('w, 'r) wire \<Rightarrow> long_lib \<Rightarrow> u32 \<Rightarrow> tc_bank_QueryBalanceResponse \<Rightarrow> (tc_bank_QueryBalanceResponse, 'r) action" where
  "tc_bank_QueryBalanceResponse_switch L G tag message = js_switch (drop_bit 3 tag)
    [(1, readf (submsg L (decode_tc_Coin L G)) (\<lambda>v. message\<lparr>tc_bank_QueryBalanceResponse.balance := Some v\<rparr>))]
    (skipType L tag message)"

definition decode_tc_bank_QueryBalanceResponse :: "('w, 'r) wire \<Rightarrow> long_lib \<Rightarrow> 'r input \<Rightarrow> nat option \<Rightarrow> (tc_bank_QueryBalanceResponse \<times> 'r) result" where
  "decode_tc_bank_QueryBalanceResponse L G = decode_msg L (tc_bank_QueryBalanceResponse_switch L G) createBase_tc_bank_QueryBalanceResponse"

definition fromJSON_tc_bank_QueryBalanceResponse :: "host \<Rightarrow> jsval \<Rightarrow> tc_bank_QueryBalanceResponse result" where
  "fromJSON_tc_bank_QueryBalanceResponse h object =
     bindE (optE object ''balance'' (fromJSON_tc_Coin h)) (\<lambda>v_balance.
     Inr \<lparr>tc_bank_QueryBalanceResponse.balance = v_balance\<rparr>)"

definition toJSON_tc_bank_QueryBalanceResponse :: "host \<Rightarrow> tc_bank_QueryBalanceResponse \<Rightarrow> jsval result" where
  "toJSON_tc_bank_QueryBalanceResponse h message = objE
    [joptE ''balance'' (toJSON_tc_Coin h) (tc_bank_QueryBalanceResponse.balance message)]"

type_synonym tc_bank_QueryBalanceResponse_Partial = "Coin_Partial option"

definition fromPartial_tc_bank_QueryBalanceResponse :: "tc_bank_QueryBalanceResponse_Partial \<Rightarrow> tc_bank_QueryBalanceResponse" where
  "fromPartial_tc_bank_QueryBalanceResponse object = (case object of p_balance \<Rightarrow>
     createBase_tc_bank_QueryBalanceResponse\<lparr>tc_bank_QueryBalanceResponse.balance := map_option fromPartial_tc_Coin (p_balance)\<rparr>)"

text \<open>A partial message that sets every field.\<close>

definition partial_of_tc_bank_QueryBalanceResponse :: "tc_bank_QueryBalanceResponse \<Rightarrow> tc_bank_QueryBalanceResponse_Partial" where
  "partial_of_tc_bank_QueryBalanceResponse m =
     (map_option partial_of_Coin (tc_bank_QueryBalanceResponse.balance m))"

definition wf_tc_bank_QueryBalanceResponse :: "('w, 'r) wire \<Rightarrow> tc_bank_QueryBalanceResponse \<Rightarrow> bool" where
  "wf_tc_bank_QueryBalanceResponse L m \<longleftrightarrow> pred_option (\<lambda>v. wf_Coin L v \<and> fits L (encode_Coin L v)) (tc_bank_QueryBalanceResponse.balance m)"

definition wfj_tc_bank_QueryBalanceResponse :: "tc_bank_QueryBalanceResponse \<Rightarrow> bool" where
  "wfj_tc_bank_QueryBalanceResponse m \<longleftrightarrow> pred_option wfj_Coin (tc_bank_QueryBalanceResponse.balance m)"

subsection \<open>QueryAllBalancesRequest\<close>

record tc_bank_QueryAllBalancesRequest =
  address' :: jsstring
  pagination :: "PageRequest option"

definition createBase_tc_bank_QueryAllBalancesRequest :: tc_bank_QueryAllBalancesRequest where
  "createBase_tc_bank_QueryAllBalancesRequest = \<lparr>tc_bank_QueryAllBalancesRequest.address' = [],
     tc_bank_QueryAllBalancesRequest.pagination = None\<rparr>"

definition encode_tc_bank_QueryAllBalancesRequest :: "('w, 'r) wire \<Rightarrow> tc_bank_QueryAllBalancesRequest \<Rightarrow> 'w \<Rightarrow> 'w result" where
  "encode_tc_bank_QueryAllBalancesRequest L message = seqE
    [whenE (tc_bank_QueryAllBalancesRequest.address' message \<noteq> []) (seqE [w_uint32 L 10, w_string L (tc_bank_QueryAllBalancesRequest.address' message)]),
     someE (tc_bank_QueryAllBalancesRequest.pagination message) (\<lambda>v. seqE [w_uint32 L 18, w_fork L, encode_tc_PageRequest L v, w_join L])]"

definition tc_bank_QueryAllBalancesRequest_switch :: "('w, 'r) wire \<Rightarrow> long_lib \<Rightarrow> u32 \<Rightarrow> tc_bank_QueryAllBalancesRequest \<Rightarrow> (tc_bank_QueryAllBalancesRequest, 'r) action" where
  "tc_bank_QueryAllBalancesRequest_switch L G tag message = js_switch (drop_bit 3 tag)
    [(1, readf (r_string L) (\<lambda>v. message\<lparr>tc_bank_QueryAllBalancesRequest.address' := v\<rparr>)),
     (2, readf (submsg L (decode_tc_PageRequest L G)) (\<lambda>v. message\<lparr>tc_bank_QueryAllBalancesRequest.pagination := Some v\<rparr>))]
    (skipType L tag message)"

definition decode_tc_bank_QueryAllBalancesRequest :: "('w, 'r) wire \<Rightarrow> long_lib \<Rightarrow> 'r input \<Rightarrow> nat option \<Rightarrow> (tc_bank_QueryAllBalancesRequest \<times> 'r) result" where
  "decode_tc_bank_QueryAllBalancesRequest L G = decode_msg L (tc_bank_QueryAllBalancesRequest_switch L G) createBase_tc_bank_QueryAllBalancesRequest"

definition fromJSON_tc_bank_QueryAllBalancesRequest :: "host \<Rightarrow> jsval \<Rightarrow> tc_bank_QueryAllBalancesRequest result" where
  "fromJSON_tc_bank_QueryAllBalancesRequest h object =
     bindE (fieldE object ''address'' (stringE h) []) (\<lambda>v_address.
     bindE (optE object ''pagination'' (fromJSON_tc_PageRequest h)) (\<lambda>v_pagination.
     Inr \<lparr>tc_bank_QueryAllBalancesRequest.address' = v_address, tc_bank_QueryAllBalancesRequest.pagination = v_pagination\<rparr>))"

definition toJSON_tc_bank_QueryAllBalancesRequest :: "host \<Rightarrow> tc_bank_QueryAllBalancesRequest \<Rightarrow> jsval result" where
  "toJSON_tc_bank_QueryAllBalancesRequest h message = objE
    [jfieldE True ''address'' (Inr (JString (tc_bank_QueryAllBalancesRequest.address' message))),
     joptE ''pagination'' (toJSON_tc_PageRequest h) (tc_bank_QueryAllBalancesRequest.pagination message)]"

type_synonym tc_bank_QueryAllBalancesRequest_Partial = "jsstring option \<times> PageRequest_Partial option"

definition fromPartial_tc_bank_QueryAllBalancesRequest :: "tc_bank_QueryAllBalancesRequest_Partial \<Rightarrow> tc_bank_QueryAllBalancesRequest" where
  "fromPartial_tc_bank_QueryAllBalancesRequest object = (case object of (p_address, p_pagination) \<Rightarrow>
     createBase_tc_bank_QueryAllBalancesRequest\<lparr>tc_bank_QueryAllBalancesRequest.address' := nullish (p_address) [],
       tc_bank_QueryAllBalancesRequest.pagination := map_option fromPartial_tc_PageRequest (p_pagination)\<rparr>)"

text \<open>A partial message that sets every field.\<close>

definition partial_of_tc_bank_QueryAllBalancesRequest :: "tc_bank_QueryAllBalancesRequest \<Rightarrow> tc_bank_QueryAllBalancesRequest_Partial" where
  "partial_of_tc_bank_QueryAllBalancesRequest m =
     (Some (tc_bank_QueryAllBalancesRequest.address' m),
      map_option partial_of_PageRequest (tc_bank_QueryAllBalancesRequest.pagination m))"

definition wf_tc_bank_QueryAllBalancesRequest :: "('w, 'r) wire \<Rightarrow> tc_bank_QueryAllBalancesRequest \<Rightarrow> bool" where
  "wf_tc_bank_QueryAllBalancesRequest L m \<longleftrightarrow> wire_string (tc_bank_QueryAllBalancesRequest.address' m)
     \<and> pred_option (\<lambda>v. wf_PageRequest L v \<and> fits L (encode_PageRequest L v)) (tc_bank_QueryAllBalancesRequest.pagination m)"

definition wfj_tc_bank_QueryAllBalancesRequest :: "tc_bank_QueryAllBalancesRequest \<Rightarrow> bool" where
  "wfj_tc_bank_QueryAllBalancesRequest m \<longleftrightarrow> pred_option wfj_PageRequest (tc_bank_QueryAllBalancesRequest.pagination m)"

subsection \<open>QueryAllBalancesResponse\<close>

record tc_bank_QueryAllBalancesResponse =
  balances :: "Coin list"
  pagination :: "PageResponse option"

definition createBase_tc_bank_QueryAllBalancesResponse :: tc_bank_QueryAllBalancesResponse where
  "createBase_tc_bank_QueryAllBalancesResponse = \<lparr>tc_bank_QueryAllBalancesResponse.balances = [],
     tc_bank_QueryAllBalancesResponse.pagination = None\<rparr>"

definition encode_tc_bank_QueryAllBalancesResponse :: "('w, 'r) wire \<Rightarrow> tc_bank_QueryAllBalancesResponse \<Rightarrow> 'w \<Rightarrow> 'w result" where
  "encode_tc_bank_QueryAllBalancesResponse L message = seqE
    [forE (\<lambda>v. seqE [w_uint32 L 10, w_fork L, encode_tc_Coin L v, w_join L]) (tc_bank_QueryAllBalancesResponse.balances message),
     someE (tc_bank_QueryAllBalancesResponse.pagination message) (\<lambda>v. seqE [w_uint32 L 18, w_fork L, encode_tc_PageResponse L v, w_join L])]"

definition tc_bank_QueryAllBalancesResponse_switch :: "('w, 'r) wire \<Rightarrow> long_lib \<Rightarrow> u32 \<Rightarrow> tc_bank_QueryAllBalancesResponse \<Rightarrow> (tc_bank_QueryAllBalancesResponse, 'r) action" where
  "tc_bank_QueryAllBalancesResponse_switch L G tag message = js_switch (drop_bit 3 tag)
    [(1, readf (submsg L (decode_tc_Coin L G)) (\<lambda>v. message\<lparr>tc_bank_QueryAllBalancesResponse.balances := tc_bank_QueryAllBalancesResponse.balances message @ [v]\<rparr>)),
     (2, readf (submsg L (decode_tc_PageResponse L G)) (\<lambda>v. message\<lparr>tc_bank_QueryAllBalancesResponse.pagination := Some v\<rparr>))]
    (skipType L tag message)"

definition decode_tc_bank_QueryAllBalancesResponse :: "('w, 'r) wire \<Rightarrow> long_lib \<Rightarrow> 'r input \<Rightarrow> nat option \<Rightarrow> (tc_bank_QueryAllBalancesResponse \<times> 'r) result" where
  "decode_tc_bank_QueryAllBalancesResponse L G = decode_msg L (tc_bank_QueryAllBalancesResponse_switch L G) createBase_tc_bank_QueryAllBalancesResponse"

definition fromJSON_tc_bank_QueryAllBalancesResponse :: "host \<Rightarrow> jsval \<Rightarrow> tc_bank_QueryAllBalancesResponse result" where
  "fromJSON_tc_bank_QueryAllBalancesResponse h object =
     bindE (arrayE object ''balances'' (fromJSON_tc_Coin h)) (\<lambda>v_balances.
     bindE (optE object ''pagination'' (fromJSON_tc_PageResponse h)) (\<lambda>v_pagination.
     Inr \<lparr>tc_bank_QueryAllBalancesResponse.balances = v_balances, tc_bank_QueryAllBalancesResponse.pagination = v_pagination\<rparr>))"

definition toJSON_tc_bank_QueryAllBalancesResponse :: "host \<Rightarrow> tc_bank_QueryAllBalancesResponse \<Rightarrow> jsval result" where
  "toJSON_tc_bank_QueryAllBalancesResponse h message = objE
    [jlistE ''balances'' (toJSON_tc_Coin h) (tc_bank_QueryAllBalancesResponse.balances message),
     joptE ''pagination'' (toJSON_tc_PageResponse h) (tc_bank_QueryAllBalancesResponse.pagination message)]"

type_synonym tc_bank_QueryAllBalancesResponse_Partial = "Coin_Partial list option \<times> PageResponse_Partial option"

definition fromPartial_tc_bank_QueryAllBalancesResponse :: "tc_bank_QueryAllBalancesResponse_Partial \<Rightarrow> tc_bank_QueryAllBalancesResponse" where
  "fromPartial_tc_bank_QueryAllBalancesResponse object = (case object of (p_balances, p_pagination) \<Rightarrow>
     createBase_tc_bank_QueryAllBalancesResponse\<lparr>tc_bank_QueryAllBalancesResponse.balances := partial_map fromPartial_tc_Coin (p_balances),
       tc_bank_QueryAllBalancesResponse.pagination := map_option fromPartial_tc_PageResponse (p_pagination)\<rparr>)"

text \<open>A partial message that sets every field.\<close>

definition partial_of_tc_bank_QueryAllBalancesResponse :: "tc_bank_QueryAllBalancesResponse \<Rightarrow> tc_bank_QueryAllBalancesResponse_Partial" where
  "partial_of_tc_bank_QueryAllBalancesResponse m =
     (Some (map partial_of_Coin (tc_bank_QueryAllBalancesResponse.balances m)),
      map_option partial_of_PageResponse (tc_bank_QueryAllBalancesResponse.pagination m))"

definition wf_tc_bank_QueryAllBalancesResponse :: "('w, 'r) wire \<Rightarrow> tc_bank_QueryAllBalancesResponse \<Rightarrow> bool" where
  "wf_tc_bank_QueryAllBalancesResponse L m \<longleftrightarrow> list_all (\<lambda>v. wf_Coin L v \<and> fits L (encode_Coin L v)) (tc_bank_QueryAllBalancesResponse.balances m)
     \<and> pred_option (\<lambda>v. wf_PageResponse L v \<and> fits L (encode_PageResponse L v)) (tc_bank_QueryAllBalancesResponse.pagination m)"

definition wfj_tc_bank_QueryAllBalancesResponse :: "tc_bank_QueryAllBalancesResponse \<Rightarrow> bool" where
  "wfj_tc_bank_QueryAllBalancesResponse m \<longleftrightarrow> list_all wfj_Coin (tc_bank_QueryAllBalancesResponse.balances m)
     \<and> pred_option wfj_PageResponse (tc_bank_QueryAllBalancesResponse.pagination m)"

subsection \<open>QuerySpendableBalancesRequest\<close>

record tc_bank_QuerySpendableBalancesRequest =
  address' :: jsstring
  pagination :: "PageRequest option"

definition createBase_tc_bank_QuerySpendableBalancesRequest :: tc_bank_QuerySpendableBalancesRequest where
  "createBase_tc_bank_QuerySpendableBalancesRequest = \<lparr>tc_bank_QuerySpendableBalancesRequest.address' = [],
     tc_bank_QuerySpendableBalancesRequest.pagination = None\<rparr>"

definition encode_tc_bank_QuerySpendableBalancesRequest :: "('w, 'r) wire \<Rightarrow> tc_bank_QuerySpendableBalancesRequest \<Rightarrow> 'w \<Rightarrow> 'w result" where
  "encode_tc_bank_QuerySpendableBalancesRequest L message = seqE
    [whenE (tc_bank_QuerySpendableBalancesRequest.address' message \<noteq> []) (seqE [w_uint32 L 10, w_string L (tc_bank_QuerySpendableBalancesRequest.address' message)]),
     someE (tc_bank_QuerySpendableBalancesRequest.pagination message) (\<lambda>v. seqE [w_uint32 L 18, w_fork L, encode_tc_PageRequest L v, w_join L])]"

definition tc_bank_QuerySpendableBalancesRequest_switch :: "('w, 'r) wire \<Rightarrow> long_lib \<Rightarrow> u32 \<Rightarrow> tc_bank_QuerySpendableBalancesRequest \<Rightarrow> (tc_bank_QuerySpendableBalancesRequest, 'r) action" where
  "tc_bank_QuerySpendableBalancesRequest_switch L G tag message = js_switch (drop_bit 3 tag)
    [(1, readf (r_string L) (\<lambda>v. message\<lparr>tc_bank_QuerySpendableBalancesRequest.address' := v\<rparr>)),
     (2, readf (submsg L (decode_tc_PageRequest L G)) (\<lambda>v. message\<lparr>tc_bank_QuerySpendableBalancesRequest.pagination := Some v\<rparr>))]
    (skipType L tag message)"

definition decode_tc_bank_QuerySpendableBalancesRequest :: "('w, 'r) wire \<Rightarrow> long_lib \<Rightarrow> 'r input \<Rightarrow> nat option \<Rightarrow> (tc_bank_QuerySpendableBalancesRequest \<times> 'r) result" where
  "decode_tc_bank_QuerySpendableBalancesRequest L G = decode_msg L (tc_bank_QuerySpendableBalancesRequest_switch L G) createBase_tc_bank_QuerySpendableBalancesRequest"

definition fromJSON_tc_bank_QuerySpendableBalancesRequest :: "host \<Rightarrow> jsval \<Rightarrow> tc_bank_QuerySpendableBalancesRequest result" where
  "fromJSON_tc_bank_QuerySpendableBalancesRequest h object =
     bindE (fieldE object ''address'' (stringE h) []) (\<lambda>v_address.
     bindE (optE object ''pagination'' (fromJSON_tc_PageRequest h)) (\<lambda>v_pagination.
     Inr \<lparr>tc_bank_QuerySpendableBalancesRequest.address' = v_address, tc_bank_QuerySpendableBalancesRequest.pagination = v_pagination\<rparr>))"

definition toJSON_tc_bank_QuerySpendableBalancesRequest :: "host \<Rightarrow> tc_bank_QuerySpendableBalancesRequest \<Rightarrow> jsval result" where
  "toJSON_tc_bank_QuerySpendableBalancesRequest h message = objE
    [jfieldE True ''address'' (Inr (JString (tc_bank_QuerySpendableBalancesRequest.address' message))),
     joptE ''pagination'' (toJSON_tc_PageRequest h) (tc_bank_QuerySpendableBalancesRequest.pagination message)]"

type_synonym tc_bank_QuerySpendableBalancesRequest_Partial = "jsstring option \<times> PageRequest_Partial option"

definition fromPartial_tc_bank_QuerySpendableBalancesRequest :: "tc_bank_QuerySpendableBalancesRequest_Partial \<Rightarrow> tc_bank_QuerySpendableBalancesRequest" where
  "fromPartial_tc_bank_QuerySpendableBalancesRequest object = (case object of (p_address, p_pagination) \<Rightarrow>
     createBase_tc_bank_QuerySpendableBalancesRequest\<lparr>tc_bank_QuerySpendableBalancesRequest.address' := nullish (p_address) [],
       tc_bank_QuerySpendableBalancesRequest.pagination := map_option fromPartial_tc_PageRequest (p_pagination)\<rparr>)"

text \<open>A partial message that sets every field.\<close>

definition partial_of_tc_bank_QuerySpendableBalancesRequest :: "tc_bank_QuerySpendableBalancesRequest \<Rightarrow> tc_bank_QuerySpendableBalancesRequest_Partial" where
  "partial_of_tc_bank_QuerySpendableBalancesRequest m =
     (Some (tc_bank_QuerySpendableBalancesRequest.address' m),
      map_option partial_of_PageRequest (tc_bank_QuerySpendableBalancesRequest.pagination m))"

definition wf_tc_bank_QuerySpendableBalancesRequest :: "('w, 'r) wire \<Rightarrow> tc_bank_QuerySpendableBalancesRequest \<Rightarrow> bool" where
  "wf_tc_bank_QuerySpendableBalancesRequest L m \<longleftrightarrow> wire_string (tc_bank_QuerySpendableBalancesRequest.address' m)
     \<and> pred_option (\<lambda>v. wf_PageRequest L v \<and> fits L (encode_PageRequest L v)) (tc_bank_QuerySpendableBalancesRequest.pagination m)"

definition wfj_tc_bank_QuerySpendableBalancesRequest :: "tc_bank_QuerySpendableBalancesRequest \<Rightarrow> bool" where
  "wfj_tc_bank_QuerySpendableBalancesRequest m \<longleftrightarrow> pred_option wfj_PageRequest (tc_bank_QuerySpendableBalancesRequest.pagination m)"

subsection \<open>QuerySpendableBalancesResponse\<close>

record tc_bank_QuerySpendableBalancesResponse =
  balances :: "Coin list"
  pagination :: "PageResponse option"

definition createBase_tc_bank_QuerySpendableBalancesResponse :: tc_bank_QuerySpendableBalancesResponse where
  "createBase_tc_bank_QuerySpendableBalancesResponse = \<lparr>tc_bank_QuerySpendableBalancesResponse.balances = [],
     tc_bank_QuerySpendableBalancesResponse.pagination = None\<rparr>"

definition encode_tc_bank_QuerySpendableBalancesResponse :: "('w, 'r) wire \<Rightarrow> tc_bank_QuerySpendableBalancesResponse \<Rightarrow> 'w \<Rightarrow> 'w result" where
  "encode_tc_bank_QuerySpendableBalancesResponse L message = seqE
    [forE (\<lambda>v. seqE [w_uint32 L 10, w_fork L, encode_tc_Coin L v, w_join L]) (tc_bank_QuerySpendableBalancesResponse.balances message),
     someE (tc_bank_QuerySpendableBalancesResponse.pagination message) (\<lambda>v. seqE [w_uint32 L 18, w_fork L, encode_tc_PageResponse L v, w_join L])]"

definition tc_bank_QuerySpendableBalancesResponse_switch :: "('w, 'r) wire \<Rightarrow> long_lib \<Rightarrow> u32 \<Rightarrow> tc_bank_QuerySpendableBalancesResponse \<Rightarrow> (tc_bank_QuerySpendableBalancesResponse, 'r) action" where
  "tc_bank_QuerySpendableBalancesResponse_switch L G tag message = js_switch (drop_bit 3 tag)
    [(1, readf (submsg L (decode_tc_Coin L G)) (\<lambda>v. message\<lparr>tc_bank_QuerySpendableBalancesResponse.balances := tc_bank_QuerySpendableBalancesResponse.balances message @ [v]\<rparr>)),
     (2, readf (submsg L (decode_tc_PageResponse L G)) (\<lambda>v. message\<lparr>tc_bank_QuerySpendableBalancesResponse.pagination := Some v\<rparr>))]
    (skipType L tag message)"

definition decode_tc_bank_QuerySpendableBalancesResponse :: "('w, 'r) wire \<Rightarrow> long_lib \<Rightarrow> 'r input \<Rightarrow> nat option \<Rightarrow> (tc_bank_QuerySpendableBalancesResponse \<times> 'r) result" where
  "decode_tc_bank_QuerySpendableBalancesResponse L G = decode_msg L (tc_bank_QuerySpendableBalancesResponse_switch L G) createBase_tc_bank_QuerySpendableBalancesResponse"

definition fromJSON_tc_bank_QuerySpendableBalancesResponse :: "host \<Rightarrow> jsval \<Rightarrow> tc_bank_QuerySpendableBalancesResponse result" where
  "fromJSON_tc_bank_QuerySpendableBalancesResponse h object =
     bindE (arrayE object ''balances'' (fromJSON_tc_Coin h)) (\<lambda>v_balances.
     bindE (optE object ''pagination'' (fromJSON_tc_PageResponse h)) (\<lambda>v_pagination.
     Inr \<lparr>tc_bank_QuerySpendableBalancesResponse.balances = v_balances, tc_bank_QuerySpendableBalancesResponse.pagination = v_pagination\<rparr>))"

definition toJSON_tc_bank_QuerySpendableBalancesResponse :: "host \<Rightarrow> tc_bank_QuerySpendableBalancesResponse \<Rightarrow> jsval result" where
  "toJSON_tc_bank_QuerySpendableBalancesResponse h message = objE
    [jlistE ''balances'' (toJSON_tc_Coin h) (tc_bank_QuerySpendableBalancesResponse.balances message),
     joptE ''pagination'' (toJSON_tc_PageResponse h) (tc_bank_QuerySpendableBalancesResponse.pagination message)]"

type_synonym tc_bank_QuerySpendableBalancesResponse_Partial = "Coin_Partial list option \<times> PageResponse_Partial option"

definition fromPartial_tc_bank_QuerySpendableBalancesResponse :: "tc_bank_QuerySpendableBalancesResponse_Partial \<Rightarrow> tc_bank_QuerySpendableBalancesResponse" where
  "fromPartial_tc_bank_QuerySpendableBalancesResponse object = (case object of (p_balances, p_pagination) \<Rightarrow>
     createBase_tc_bank_QuerySpendableBalancesResponse\<lparr>tc_bank_QuerySpendableBalancesResponse.balances := partial_map fromPartial_tc_Coin (p_balances),
       tc_bank_QuerySpendableBalancesResponse.pagination := map_option fromPartial_tc_PageResponse (p_pagination)\<rparr>)"

text \<open>A partial message that sets every field.\<close>

definition partial_of_tc_bank_QuerySpendableBalancesResponse :: "tc_bank_QuerySpendableBalancesResponse \<Rightarrow> tc_bank_QuerySpendableBalancesResponse_Partial" where
  "partial_of_tc_bank_QuerySpendableBalancesResponse m =
     (Some (map partial_of_Coin (tc_bank_QuerySpendableBalancesResponse.balances m)),
      map_option partial_of_PageResponse (tc_bank_QuerySpendableBalancesResponse.pagination m))"

definition wf_tc_bank_QuerySpendableBalancesResponse :: "('w, 'r) wire \<Rightarrow> tc_bank_QuerySpendableBalancesResponse \<Rightarrow> bool" where
  "wf_tc_bank_QuerySpendableBalancesResponse L m \<longleftrightarrow> list_all (\<lambda>v. wf_Coin L v \<and> fits L (encode_Coin L v)) (tc_bank_QuerySpendableBalancesResponse.balances m)
     \<and> pred_option (\<lambda>v. wf_PageResponse L v \<and> fits L (encode_PageResponse L v)) (tc_bank_QuerySpendableBalancesResponse.pagination m)"

definition wfj_tc_bank_QuerySpendableBalancesResponse :: "tc_bank_QuerySpendableBalancesResponse \<Rightarrow> bool" where
  "wfj_tc_bank_QuerySpendableBalancesResponse m \<longleftrightarrow> list_all wfj_Coin (tc_bank_QuerySpendableBalancesResponse.balances m)
     \<and> pred_option wfj_PageResponse (tc_bank_QuerySpendableBalancesResponse.pagination m)"

subsection \<open>QueryTotalSupplyRequest\<close>

record tc_bank_QueryTotalSupplyRequest =
  pagination :: "PageRequest option"

definition createBase_tc_bank_QueryTotalSupplyRequest :: tc_bank_QueryTotalSupplyRequest where
  "createBase_tc_bank_QueryTotalSupplyRequest = \<lparr>tc_bank_QueryTotalSupplyRequest.pagination = None\<rparr>"

definition encode_tc_bank_QueryTotalSupplyRequest :: "('w, 'r) wire \<Rightarrow> tc_bank_QueryTotalSupplyRequest \<Rightarrow> 'w \<Rightarrow> 'w result" where
  "encode_tc_bank_QueryTotalSupplyRequest L message = seqE
    [someE (tc_bank_QueryTotalSupplyRequest.pagination message) (\<lambda>v. seqE [w_uint32 L 10, w_fork L, encode_tc_PageRequest L v, w_join L])]"

definition tc_bank_QueryTotalSupplyRequest_switch :: "('w, 'r) wire \<Rightarrow> long_lib \<Rightarrow> u32 \<Rightarrow> tc_bank_QueryTotalSupplyRequest \<Rightarrow> (tc_bank_QueryTotalSupplyRequest, 'r) action" where
  "tc_bank_QueryTotalSupplyRequest_switch L G tag message = js_switch (drop_bit 3 tag)
    [(1, readf (submsg L (decode_tc_PageRequest L G)) (\<lambda>v. message\<lparr>tc_bank_QueryTotalSupplyRequest.pagination := Some v\<rparr>))]
    (skipType L tag message)"

definition decode_tc_bank_QueryTotalSupplyRequest :: "('w, 'r) wire \<Rightarrow> long_lib \<Rightarrow> 'r input \<Rightarrow> nat option \<Rightarrow> (tc_bank_QueryTotalSupplyRequest \<times> 'r) result" where
  "decode_tc_bank_QueryTotalSupplyRequest L G = decode_msg L (tc_bank_QueryTotalSupplyRequest_switch L G) createBase_tc_bank_QueryTotalSupplyRequest"

definition fromJSON_tc_bank_QueryTotalSupplyRequest :: "host \<Rightarrow> jsval \<Rightarrow> tc_bank_QueryTotalSupplyRequest result" where
  "fromJSON_tc_bank_QueryTotalSupplyRequest h object =
     bindE (optE object ''pagination'' (fromJSON_tc_PageRequest h)) (\<lambda>v_pagination.
     Inr \<lparr>tc_bank_QueryTotalSupplyRequest.pagination = v_pagination\<rparr>)"

definition toJSON_tc_bank_QueryTotalSupplyRequest :: "host \<Rightarrow> tc_bank_QueryTotalSupplyRequest \<Rightarrow> jsval result" where
  "toJSON_tc_bank_QueryTotalSupplyRequest h message = objE
    [joptE ''pagination'' (toJSON_tc_PageRequest h) (tc_bank_QueryTotalSupplyRequest.pagination message)]"

type_synonym tc_bank_QueryTotalSupplyRequest_Partial = "PageRequest_Partial option"

definition fromPartial_tc_bank_QueryTotalSupplyRequest :: "tc_bank_QueryTotalSupplyRequest_Partial \<Rightarrow> tc_bank_QueryTotalSupplyRequest" where
  "fromPartial_tc_bank_QueryTotalSupplyRequest object = (case object of p_pagination \<Rightarrow>
     createBase_tc_bank_QueryTotalSupplyRequest\<lparr>tc_bank_QueryTotalSupplyRequest.pagination := map_option fromPartial_tc_PageRequest (p_pagination)\<rparr>)"

text \<open>A partial message that sets every field.\<close>

definition partial_of_tc_bank_QueryTotalSupplyRequest :: "tc_bank_QueryTotalSupplyRequest \<Rightarrow> tc_bank_QueryTotalSupplyRequest_Partial" where
  "partial_of_tc_bank_QueryTotalSupplyRequest m =
     (map_option partial_of_PageRequest (tc_bank_QueryTotalSupplyRequest.pagination m))"

definition wf_tc_bank_QueryTotalSupplyRequest :: "('w, 'r) wire \<Rightarrow> tc_bank_QueryTotalSupplyRequest \<Rightarrow> bool" where
  "wf_tc_bank_QueryTotalSupplyRequest L m \<longleftrightarrow> pred_option (\<lambda>v. wf_PageRequest L v \<and> fits L (encode_PageRequest L v)) (tc_bank_QueryTotalSupplyRequest.pagination m)"

definition wfj_tc_bank_QueryTotalSupplyRequest :: "tc_bank_QueryTotalSupplyRequest \<Rightarrow> bool" where
  "wfj_tc_bank_QueryTotalSupplyRequest m \<longleftrightarrow> pred_option wfj_PageRequest (tc_bank_QueryTotalSupplyRequest.pagination m)"

subsection \<open>QueryTotalSupplyResponse\<close>

record tc_bank_QueryTotalSupplyResponse =
  supply' :: "Coin list"
  pagination :: "PageResponse option"

definition createBase_tc_bank_QueryTotalSupplyResponse :: tc_bank_QueryTotalSupplyResponse where
  "createBase_tc_bank_QueryTotalSupplyResponse = \<lparr>tc_bank_QueryTotalSupplyResponse.supply' = [],
     tc_bank_QueryTotalSupplyResponse.pagination = None\<rparr>"

definition encode_tc_bank_QueryTotalSupplyResponse :: "('w, 'r) wire \<Rightarrow> tc_bank_QueryTotalSupplyResponse \<Rightarrow> 'w \<Rightarrow> 'w result" where
  "encode_tc_bank_QueryTotalSupplyResponse L message = seqE
    [forE (\<lambda>v. seqE [w_uint32 L 10, w_fork L, encode_tc_Coin L v, w_join L]) (tc_bank_QueryTotalSupplyResponse.supply' message),
     someE (tc_bank_QueryTotalSupplyResponse.pagination message) (\<lambda>v. seqE [w_uint32 L 18, w_fork L, encode_tc_PageResponse L v, w_join L])]"

definition tc_bank_QueryTotalSupplyResponse_switch :: "('w, 'r) wire \<Rightarrow> long_lib \<Rightarrow> u32 \<Rightarrow> tc_bank_QueryTotalSupplyResponse \<Rightarrow> (tc_bank_QueryTotalSupplyResponse, 'r) action" where
  "tc_bank_QueryTotalSupplyResponse_switch L G tag message = js_switch (drop_bit 3 tag)
    [(1, readf (submsg L (decode_tc_Coin L G)) (\<lambda>v. message\<lparr>tc_bank_QueryTotalSupplyResponse.supply' := tc_bank_QueryTotalSupplyResponse.supply' message @ [v]\<rparr>)),
     (2, readf (submsg L (decode_tc_PageResponse L G)) (\<lambda>v. message\<lparr>tc_bank_QueryTotalSupplyResponse.pagination := Some v\<rparr>))]
    (skipType L tag message)"

definition decode_tc_bank_QueryTotalSupplyResponse :: "('w, 'r) wire \<Rightarrow> long_lib \<Rightarrow> 'r input \<Rightarrow> nat option \<Rightarrow> (tc_bank_QueryTotalSupplyResponse \<times> 'r) result" where
  "decode_tc_bank_QueryTotalSupplyResponse L G = decode_msg L (tc_bank_QueryTotalSupplyResponse_switch L G) createBase_tc_bank_QueryTotalSupplyResponse"

definition fromJSON_tc_bank_QueryTotalSupplyResponse :: "host \<Rightarrow> jsval \<Rightarrow> tc_bank_QueryTotalSupplyResponse result" where
  "fromJSON_tc_bank_QueryTotalSupplyResponse h object =
     bindE (arrayE object ''supply'' (fromJSON_tc_Coin h)) (\<lambda>v_supply.
     bindE (optE object ''pagination'' (fromJSON_tc_PageResponse h)) (\<lambda>v_pagination.
     Inr \<lparr>tc_bank_QueryTotalSupplyResponse.supply' = v_supply, tc_bank_QueryTotalSupplyResponse.pagination = v_pagination\<rparr>))"

definition toJSON_tc_bank_QueryTotalSupplyResponse :: "host \<Rightarrow> tc_bank_QueryTotalSupplyResponse \<Rightarrow> jsval result" where
  "toJSON_tc_bank_QueryTotalSupplyResponse h message = objE
    [jlistE ''supply'' (toJSON_tc_Coin h) (tc_bank_QueryTotalSupplyResponse.supply' message),
     joptE ''pagination'' (toJSON_tc_PageResponse h) (tc_bank_QueryTotalSupplyResponse.pagination message)]"

type_synonym tc_bank_QueryTotalSupplyResponse_Partial = "Coin_Partial list option \<times> PageResponse_Partial option"

definition fromPartial_tc_bank_QueryTotalSupplyResponse :: "tc_bank_QueryTotalSupplyResponse_Partial \<Rightarrow> tc_bank_QueryTotalSupplyResponse" where
  "fromPartial_tc_bank_QueryTotalSupplyResponse object = (case object of (p_supply, p_pagination) \<Rightarrow>
     createBase_tc_bank_QueryTotalSupplyResponse\<lparr>tc_bank_QueryTotalSupplyResponse.supply' := partial_map fromPartial_tc_Coin (p_supply),
       tc_bank_QueryTotalSupplyResponse.pagination := map_option fromPartial_tc_PageResponse (p_pagination)\<rparr>)"

text \<open>A partial message that sets every field.\<close>

definition partial_of_tc_bank_QueryTotalSupplyResponse :: "tc_bank_QueryTotalSupplyResponse \<Rightarrow> tc_bank_QueryTotalSupplyResponse_Partial" where
  "partial_of_tc_bank_QueryTotalSupplyResponse m =
     (Some (map partial_of_Coin (tc_bank_QueryTotalSupplyResponse.supply' m)),
      map_option partial_of_PageResponse (tc_bank_QueryTotalSupplyResponse.pagination m))"

definition wf_tc_bank_QueryTotalSupplyResponse :: "('w, 'r) wire \<Rightarrow> tc_bank_QueryTotalSupplyResponse \<Rightarrow> bool" where
  "wf_tc_bank_QueryTotalSupplyResponse L m \<longleftrightarrow> list_all (\<lambda>v. wf_Coin L v \<and> fits L (encode_Coin L v)) (tc_bank_QueryTotalSupplyResponse.supply' m)
     \<and> pred_option (\<lambda>v. wf_PageResponse L v \<and> fits L (encode_PageResponse L v)) (tc_bank_QueryTotalSupplyResponse.pagination m)"

definition wfj_tc_bank_QueryTotalSupplyResponse :: "tc_bank_QueryTotalSupplyResponse \<Rightarrow> bool" where
  "wfj_tc_bank_QueryTotalSupplyResponse m \<longleftrightarrow> list_all wfj_Coin (tc_bank_QueryTotalSupplyResponse.supply' m)
     \<and> pred_option wfj_PageResponse (tc_bank_QueryTotalSupplyResponse.pagination m)"

subsection \<open>QuerySupplyOfRequest\<close>

record tc_bank_QuerySupplyOfRequest =
  denom :: jsstring

definition createBase_tc_bank_QuerySupplyOfRequest :: tc_bank_QuerySupplyOfRequest where
  "createBase_tc_bank_QuerySupplyOfRequest = \<lparr>tc_bank_QuerySupplyOfRequest.denom = []\<rparr>"

definition encode_tc_bank_QuerySupplyOfRequest :: "('w, 'r) wire \<Rightarrow> tc_bank_QuerySupplyOfRequest \<Rightarrow> 'w \<Rightarrow> 'w result" where
  "encode_tc_bank_QuerySupplyOfRequest L message = seqE
    [whenE (tc_bank_QuerySupplyOfRequest.denom message \<noteq> []) (seqE [w_uint32 L 10, w_string L (tc_bank_QuerySupplyOfRequest.denom message)])]"

definition tc_bank_QuerySupplyOfRequest_switch :: "('w, 'r) wire \<Rightarrow> long_lib \<Rightarrow> u32 \<Rightarrow> tc_bank_QuerySupplyOfRequest \<Rightarrow> (tc_bank_QuerySupplyOfRequest, 'r) action" where
  "tc_bank_QuerySupplyOfRequest_switch L G tag message = js_switch (drop_bit 3 tag)
    [(1, readf (r_string L) (\<lambda>v. message\<lparr>tc_bank_QuerySupplyOfRequest.denom := v\<rparr>))]
    (skipType L tag message)"

definition decode_tc_bank_QuerySupplyOfRequest :: "('w, 'r) wire \<Rightarrow> long_lib \<Rightarrow> 'r input \<Rightarrow> nat option \<Rightarrow> (tc_bank_QuerySupplyOfRequest \<times> 'r) result" where
  "decode_tc_bank_QuerySupplyOfRequest L G = decode_msg L (tc_bank_QuerySupplyOfRequest_switch L G) createBase_tc_bank_QuerySupplyOfRequest"

definition fromJSON_tc_bank_QuerySupplyOfRequest :: "host \<Rightarrow> jsval \<Rightarrow> tc_bank_QuerySupplyOfRequest result" where
  "fromJSON_tc_bank_QuerySupplyOfRequest h object =
     bindE (fieldE object ''denom'' (stringE h) []) (\<lambda>v_denom.
     Inr \<lparr>tc_bank_QuerySupplyOfRequest.denom = v_denom\<rparr>)"

definition toJSON_tc_bank_QuerySupplyOfRequest :: "host \<Rightarrow> tc_bank_QuerySupplyOfRequest \<Rightarrow> jsval result" where
  "toJSON_tc_bank_QuerySupplyOfRequest h message = objE
    [jfieldE True ''denom'' (Inr (JString (tc_bank_QuerySupplyOfRequest.denom message)))]"

type_synonym tc_bank_QuerySupplyOfRequest_Partial = "jsstring option"

definition fromPartial_tc_bank_QuerySupplyOfRequest :: "tc_bank_QuerySupplyOfRequest_Partial \<Rightarrow> tc_bank_QuerySupplyOfRequest" where
  "fromPartial_tc_bank_QuerySupplyOfRequest object = (case object of p_denom \<Rightarrow>
     createBase_tc_bank_QuerySupplyOfRequest\<lparr>tc_bank_QuerySupplyOfRequest.denom := nullish (p_denom) []\<rparr>)"

text \<open>A partial message that sets every field.\<close>

definition partial_of_tc_bank_QuerySupplyOfRequest :: "tc_bank_QuerySupplyOfRequest \<Rightarrow> tc_bank_QuerySupplyOfRequest_Partial" where
  "partial_of_tc_bank_QuerySupplyOfRequest m =
     (Some (tc_bank_QuerySupplyOfRequest.denom m))"

definition wf_tc_bank_QuerySupplyOfRequest :: "('w, 'r) wire \<Rightarrow> tc_bank_QuerySupplyOfRequest \<Rightarrow> bool" where
  "wf_tc_bank_QuerySupplyOfRequest L m \<longleftrightarrow> wire_string (tc_bank_QuerySupplyOfRequest.denom m)"

definition wfj_tc_bank_QuerySupplyOfRequest :: "tc_bank_QuerySupplyOfRequest \<Rightarrow> bool" where
  "wfj_tc_bank_QuerySupplyOfRequest m \<longleftrightarrow> True"

subsection \<open>QuerySupplyOfResponse\<close>

record tc_bank_QuerySupplyOfResponse =
  amount :: "Coin option"

definition createBase_tc_bank_QuerySupplyOfResponse :: tc_bank_QuerySupplyOfResponse where
  "createBase_tc_bank_QuerySupplyOfResponse = \<lparr>tc_bank_QuerySupplyOfResponse.amount = None\<rparr>"

definition encode_tc_bank_QuerySupplyOfResponse :: "('w, 'r) wire \<Rightarrow> tc_bank_QuerySupplyOfResponse \<Rightarrow> 'w \<Rightarrow> 'w result" where
  "encode_tc_bank_QuerySupplyOfResponse L message = seqE
    [someE (tc_bank_QuerySupplyOfResponse.amount message) (\<lambda>v. seqE [w_uint32 L 10, w_fork L, encode_tc_Coin L v, w_join L])]"

definition tc_bank_QuerySupplyOfResponse_switch :: "('w, 'r) wire \<Rightarrow> long_lib \<Rightarrow> u32 \<Rightarrow> tc_bank_QuerySupplyOfResponse \<Rightarrow> (tc_bank_QuerySupplyOfResponse, 'r) action" where
  "tc_bank_QuerySupplyOfResponse_switch L G tag message = js_switch (drop_bit 3 tag)
    [(1, readf (submsg L (decode_tc_Coin L G)) (\<lambda>v. message\<lparr>tc_bank_QuerySupplyOfResponse.amount := Some v\<rparr>))]
    (skipType L tag message)"

definition decode_tc_bank_QuerySupplyOfResponse :: "('w, 'r) wire \<Rightarrow> long_lib \<Rightarrow> 'r input \<Rightarrow> nat option \<Rightarrow> (tc_bank_QuerySupplyOfResponse \<times> 'r) result" where
  "decode_tc_bank_QuerySupplyOfResponse L G = decode_msg L (tc_bank_QuerySupplyOfResponse_switch L G) createBase_tc_bank_QuerySupplyOfResponse"

definition fromJSON_tc_bank_QuerySupplyOfResponse :: "host \<Rightarrow> jsval \<Rightarrow> tc_bank_QuerySupplyOfResponse result" where
  "fromJSON_tc_bank_QuerySupplyOfResponse h object =
     bindE (optE object ''amount'' (fromJSON_tc_Coin h)) (\<lambda>v_amount.
     Inr \<lparr>tc_bank_QuerySupplyOfResponse.amount = v_amount\<rparr>)"

definition toJSON_tc_bank_QuerySupplyOfResponse :: "host \<Rightarrow> tc_bank_QuerySupplyOfResponse \<Rightarrow> jsval result" where
  "toJSON_tc_bank_QuerySupplyOfResponse h message = objE
    [joptE ''amount'' (toJSON_tc_Coin h) (tc_bank_QuerySupplyOfResponse.amount message)]"

type_synonym tc_bank_QuerySupplyOfResponse_Partial = "Coin_Partial option"

definition fromPartial_tc_bank_QuerySupplyOfResponse :: "tc_bank_QuerySupplyOfResponse_Partial \<Rightarrow> tc_bank_QuerySupplyOfResponse" where
  "fromPartial_tc_bank_QuerySupplyOfResponse object = (case object of p_amount \<Rightarrow>
     createBase_tc_bank_QuerySupplyOfResponse\<lparr>tc_bank_QuerySupplyOfResponse.amount := map_option fromPartial_tc_Coin (p_amount)\<rparr>)"

text \<open>A partial message that sets every field.\<close>

definition partial_of_tc_bank_QuerySupplyOfResponse :: "tc_bank_QuerySupplyOfResponse \<Rightarrow> tc_bank_QuerySupplyOfResponse_Partial" where
  "partial_of_tc_bank_QuerySupplyOfResponse m =
     (map_option partial_of_Coin (tc_bank_QuerySupplyOfResponse.amount m))"

definition wf_tc_bank_QuerySupplyOfResponse :: "('w, 'r) wire \<Rightarrow> tc_bank_QuerySupplyOfResponse \<Rightarrow> bool" where
  "wf_tc_bank_QuerySupplyOfResponse L m \<longleftrightarrow> pred_option (\<lambda>v. wf_Coin L v \<and> fits L (encode_Coin L v)) (tc_bank_QuerySupplyOfResponse.amount m)"

definition wfj_tc_bank_QuerySupplyOfResponse :: "tc_bank_QuerySupplyOfResponse \<Rightarrow> bool" where
  "wfj_tc_bank_QuerySupplyOfResponse m \<longleftrightarrow> pred_option wfj_Coin (tc_bank_QuerySupplyOfResponse.amount m)"

subsection \<open>QueryParamsRequest\<close>

datatype tc_bank_QueryParamsRequest = tc_bank_QueryParamsRequest

definition createBase_tc_bank_QueryParamsRequest :: tc_bank_QueryParamsRequest where
  "createBase_tc_bank_QueryParamsRequest = tc_bank_QueryParamsRequest"

definition encode_tc_bank_QueryParamsRequest :: "('w, 'r) wire \<Rightarrow> tc_bank_QueryParamsRequest \<Rightarrow> 'w \<Rightarrow> 'w result" where
  "encode_tc_bank_QueryParamsRequest L message = seqE
    []"

definition tc_bank_QueryParamsRequest_switch :: "('w, 'r) wire \<Rightarrow> long_lib \<Rightarrow> u32 \<Rightarrow> tc_bank_QueryParamsRequest \<Rightarrow> (tc_bank_QueryParamsRequest, 'r) action" where
  "tc_bank_QueryParamsRequest_switch L G tag message = js_switch (drop_bit 3 tag)
    []
    (skipType L tag message)"

definition decode_tc_bank_QueryParamsRequest :: "('w, 'r) wire \<Rightarrow> long_lib \<Rightarrow> 'r input \<Rightarrow> nat option \<Rightarrow> (tc_bank_QueryParamsRequest \<times> 'r) result" where
  "decode_tc_bank_QueryParamsRequest L G = decode_msg L (tc_bank_QueryParamsRequest_switch L G) createBase_tc_bank_QueryParamsRequest"

definition fromJSON_tc_bank_QueryParamsRequest :: "host \<Rightarrow> jsval \<Rightarrow> tc_bank_QueryParamsRequest result" where
  "fromJSON_tc_bank_QueryParamsRequest h object =
     Inr tc_bank_QueryParamsRequest"

definition toJSON_tc_bank_QueryParamsRequest :: "host \<Rightarrow> tc_bank_QueryParamsRequest \<Rightarrow> jsval result" where
  "toJSON_tc_bank_QueryParamsRequest h message = objE
    []"

definition fromPartial_tc_bank_QueryParamsRequest :: "tc_bank_QueryParamsRequest \<Rightarrow> tc_bank_QueryParamsRequest" where
  "fromPartial_tc_bank_QueryParamsRequest object = createBase_tc_bank_QueryParamsRequest"

definition wf_tc_bank_QueryParamsRequest :: "('w, 'r) wire \<Rightarrow> tc_bank_QueryParamsRequest \<Rightarrow> bool" where
  "wf_tc_bank_QueryParamsRequest L m \<longleftrightarrow> True"

definition wfj_tc_bank_QueryParamsRequest :: "tc_bank_QueryParamsRequest \<Rightarrow> bool" where
  "wfj_tc_bank_QueryParamsRequest m \<longleftrightarrow> True"

subsection \<open>QueryParamsResponse\<close>

record tc_bank_QueryParamsResponse =
  params :: "tc_bank_Params option"

definition createBase_tc_bank_QueryParamsResponse :: tc_bank_QueryParamsResponse where
  "createBase_tc_bank_QueryParamsResponse = \<lparr>tc_bank_QueryParamsResponse.params = None\<rparr>"

definition encode_tc_bank_QueryParamsResponse :: "('w, 'r) wire \<Rightarrow> tc_bank_QueryParamsResponse \<Rightarrow> 'w \<Rightarrow> 'w result" where
  "encode_tc_bank_QueryParamsResponse L message = seqE
    [someE (tc_bank_QueryParamsResponse.params message) (\<lambda>v. seqE [w_uint32 L 10, w_fork L, encode_tc_bank_Params L v, w_join L])]"

definition tc_bank_QueryParamsResponse_switch :: "('w, 'r) wire \<Rightarrow> long_lib \<Rightarrow> u32 \<Rightarrow> tc_bank_QueryParamsResponse \<Rightarrow> (tc_bank_QueryParamsResponse, 'r) action" where
  "tc_bank_QueryParamsResponse_switch L G tag message = js_switch (drop_bit 3 tag)
    [(1, readf (submsg L (decode_tc_bank_Params L G)) (\<lambda>v. message\<lparr>tc_bank_QueryParamsResponse.params := Some v\<rparr>))]
    (skipType L tag message)"

definition decode_tc_bank_QueryParamsResponse :: "('w, 'r) wire \<Rightarrow> long_lib \<Rightarrow> 'r input \<Rightarrow> nat option \<Rightarrow> (tc_bank_QueryParamsResponse \<times> 'r) result" where
  "decode_tc_bank_QueryParamsResponse L G = decode_msg L (tc_bank_QueryParamsResponse_switch L G) createBase_tc_bank_QueryParamsResponse"

definition fromJSON_tc_bank_QueryParamsResponse :: "host \<Rightarrow> jsval \<Rightarrow> tc_bank_QueryParamsResponse result" where
  "fromJSON_tc_bank_QueryParamsResponse h object =
     bindE (optE object ''params'' (fromJSON_tc_bank_Params h)) (\<lambda>v_params.
     Inr \<lparr>tc_bank_QueryParamsResponse.params = v_params\<rparr>)"

definition toJSON_tc_bank_QueryParamsResponse :: "host \<Rightarrow> tc_bank_QueryParamsResponse \<Rightarrow> jsval result" where
  "toJSON_tc_bank_QueryParamsResponse h message = objE
    [joptE ''params'' (toJSON_tc_bank_Params h) (tc_bank_QueryParamsResponse.params message)]"

type_synonym tc_bank_QueryParamsResponse_Partial = "tc_bank_Params_Partial option"

definition fromPartial_tc_bank_QueryParamsResponse :: "tc_bank_QueryParamsResponse_Partial \<Rightarrow> tc_bank_QueryParamsResponse" where
  "fromPartial_tc_bank_QueryParamsResponse object = (case object of p_params \<Rightarrow>
     createBase_tc_bank_QueryParamsResponse\<lparr>tc_bank_QueryParamsResponse.params := map_option fromPartial_tc_bank_Params (p_params)\<rparr>)"

text \<open>A partial message that sets every field.\<close>

definition partial_of_tc_bank_QueryParamsResponse :: "tc_bank_QueryParamsResponse \<Rightarrow> tc_bank_QueryParamsResponse_Partial" where
  "partial_of_tc_bank_QueryParamsResponse m =
     (map_option partial_of_tc_bank_Params (tc_bank_QueryParamsResponse.params m))"

definition wf_tc_bank_QueryParamsResponse :: "('w, 'r) wire \<Rightarrow> tc_bank_QueryParamsResponse \<Rightarrow> bool" where
  "wf_tc_bank_QueryParamsResponse L m \<longleftrightarrow> pred_option (\<lambda>v. wf_tc_bank_Params L v \<and> fits L (encode_tc_bank_Params L v)) (tc_bank_QueryParamsResponse.params m)"

definition wfj_tc_bank_QueryParamsResponse :: "tc_bank_QueryParamsResponse \<Rightarrow> bool" where
  "wfj_tc_bank_QueryParamsResponse m \<longleftrightarrow> pred_option wfj_tc_bank_Params (tc_bank_QueryParamsResponse.params m)"

subsection \<open>QueryDenomsMetadataRequest\<close>

record tc_bank_QueryDenomsMetadataRequest =
  pagination :: "PageRequest option"

definition createBase_tc_bank_QueryDenomsMetadataRequest :: tc_bank_QueryDenomsMetadataRequest where
  "createBase_tc_bank_QueryDenomsMetadataRequest = \<lparr>tc_bank_QueryDenomsMetadataRequest.pagination = None\<rparr>"

definition encode_tc_bank_QueryDenomsMetadataRequest :: "('w, 'r) wire \<Rightarrow> tc_bank_QueryDenomsMetadataRequest \<Rightarrow> 'w \<Rightarrow> 'w result" where
  "encode_tc_bank_QueryDenomsMetadataRequest L message = seqE
    [someE (tc_bank_QueryDenomsMetadataRequest.pagination message) (\<lambda>v. seqE [w_uint32 L 10, w_fork L, encode_tc_PageRequest L v, w_join L])]"

definition tc_bank_QueryDenomsMetadataRequest_switch :: "('w, 'r) wire \<Rightarrow> long_lib \<Rightarrow> u32 \<Rightarrow> tc_bank_QueryDenomsMetadataRequest \<Rightarrow> (tc_bank_QueryDenomsMetadataRequest, 'r) action" where
  "tc_bank_QueryDenomsMetadataRequest_switch L G tag message = js_switch (drop_bit 3 tag)
    [(1, readf (submsg L (decode_tc_PageRequest L G)) (\<lambda>v. message\<lparr>tc_bank_QueryDenomsMetadataRequest.pagination := Some v\<rparr>))]
    (skipType L tag message)"

definition decode_tc_bank_QueryDenomsMetadataRequest :: "('w, 'r) wire \<Rightarrow> long_lib \<Rightarrow> 'r input \<Rightarrow> nat option \<Rightarrow> (tc_bank_QueryDenomsMetadataRequest \<times> 'r) result" where
  "decode_tc_bank_QueryDenomsMetadataRequest L G = decode_msg L (tc_bank_QueryDenomsMetadataRequest_switch L G) createBase_tc_bank_QueryDenomsMetadataRequest"

definition fromJSON_tc_bank_QueryDenomsMetadataRequest :: "host \<Rightarrow> jsval \<Rightarrow> tc_bank_QueryDenomsMetadataRequest result" where
  "fromJSON_tc_bank_QueryDenomsMetadataRequest h object =
     bindE (optE object ''pagination'' (fromJSON_tc_PageRequest h)) (\<lambda>v_pagination.
     Inr \<lparr>tc_bank_QueryDenomsMetadataRequest.pagination = v_pagination\<rparr>)"

definition toJSON_tc_bank_QueryDenomsMetadataRequest :: "host \<Rightarrow> tc_bank_QueryDenomsMetadataRequest \<Rightarrow> jsval result" where
  "toJSON_tc_bank_QueryDenomsMetadataRequest h message = objE
    [joptE ''pagination'' (toJSON_tc_PageRequest h) (tc_bank_QueryDenomsMetadataRequest.pagination message)]"

type_synonym tc_bank_QueryDenomsMetadataRequest_Partial = "PageRequest_Partial option"

definition fromPartial_tc_bank_QueryDenomsMetadataRequest :: "tc_bank_QueryDenomsMetadataRequest_Partial \<Rightarrow> tc_bank_QueryDenomsMetadataRequest" where
  "fromPartial_tc_bank_QueryDenomsMetadataRequest object = (case object of p_pagination \<Rightarrow>
     createBase_tc_bank_QueryDenomsMetadataRequest\<lparr>tc_bank_QueryDenomsMetadataRequest.pagination := map_option fromPartial_tc_PageRequest (p_pagination)\<rparr>)"

text \<open>A partial message that sets every field.\<close>

definition partial_of_tc_bank_QueryDenomsMetadataRequest :: "tc_bank_QueryDenomsMetadataRequest \<Rightarrow> tc_bank_QueryDenomsMetadataRequest_Partial" where
  "partial_of_tc_bank_QueryDenomsMetadataRequest m =
     (map_option partial_of_PageRequest (tc_bank_QueryDenomsMetadataRequest.pagination m))"

definition wf_tc_bank_QueryDenomsMetadataRequest :: "('w, 'r) wire \<Rightarrow> tc_bank_QueryDenomsMetadataRequest \<Rightarrow> bool" where
  "wf_tc_bank_QueryDenomsMetadataRequest L m \<longleftrightarrow> pred_option (\<lambda>v. wf_PageRequest L v \<and> fits L (encode_PageRequest L v)) (tc_bank_QueryDenomsMetadataRequest.pagination m)"

definition wfj_tc_bank_QueryDenomsMetadataRequest :: "tc_bank_QueryDenomsMetadataRequest \<Rightarrow> bool" where
  "wfj_tc_bank_QueryDenomsMetadataRequest m \<longleftrightarrow> pred_option wfj_PageRequest (tc_bank_QueryDenomsMetadataRequest.pagination m)"

subsection \<open>QueryDenomsMetadataResponse\<close>

record tc_bank_QueryDenomsMetadataResponse =
  metadatas :: "tc_bank_Metadata list"
  pagination :: "PageResponse option"

definition createBase_tc_bank_QueryDenomsMetadataResponse :: tc_bank_QueryDenomsMetadataResponse where
  "createBase_tc_bank_QueryDenomsMetadataResponse = \<lparr>tc_bank_QueryDenomsMetadataResponse.metadatas = [],
     tc_bank_QueryDenomsMetadataResponse.pagination = None\<rparr>"

definition encode_tc_bank_QueryDenomsMetadataResponse :: "('w, 'r) wire \<Rightarrow> tc_bank_QueryDenomsMetadataResponse \<Rightarrow> 'w \<Rightarrow> 'w result" where
  "encode_tc_bank_QueryDenomsMetadataResponse L message = seqE
    [forE (\<lambda>v. seqE [w_uint32 L 10, w_fork L, encode_tc_bank_Metadata L v, w_join L]) (tc_bank_QueryDenomsMetadataResponse.metadatas message),
     someE (tc_bank_QueryDenomsMetadataResponse.pagination message) (\<lambda>v. seqE [w_uint32 L 18, w_fork L, encode_tc_PageResponse L v, w_join L])]"

definition tc_bank_QueryDenomsMetadataResponse_switch :: "('w, 'r) wire \<Rightarrow> long_lib \<Rightarrow> u32 \<Rightarrow> tc_bank_QueryDenomsMetadataResponse \<Rightarrow> (tc_bank_QueryDenomsMetadataResponse, 'r) action" where
  "tc_bank_QueryDenomsMetadataResponse_switch L G tag message = js_switch (drop_bit 3 tag)
    [(1, readf (submsg L (decode_tc_bank_Metadata L G)) (\<lambda>v. message\<lparr>tc_bank_QueryDenomsMetadataResponse.metadatas := tc_bank_QueryDenomsMetadataResponse.metadatas message @ [v]\<rparr>)),
     (2, readf (submsg L (decode_tc_PageResponse L G)) (\<lambda>v. message\<lparr>tc_bank_QueryDenomsMetadataResponse.pagination := Some v\<rparr>))]
    (skipType L tag message)"

definition decode_tc_bank_QueryDenomsMetadataResponse :: "('w, 'r) wire \<Rightarrow> long_lib \<Rightarrow> 'r input \<Rightarrow> nat option \<Rightarrow> (tc_bank_QueryDenomsMetadataResponse \<times> 'r) result" where
  "decode_tc_bank_QueryDenomsMetadataResponse L G = decode_msg L (tc_bank_QueryDenomsMetadataResponse_switch L G) createBase_tc_bank_QueryDenomsMetadataResponse"

definition fromJSON_tc_bank_QueryDenomsMetadataResponse :: "host \<Rightarrow> jsval \<Rightarrow> tc_bank_QueryDenomsMetadataResponse result" where
  "fromJSON_tc_bank_QueryDenomsMetadataResponse h object =
     bindE (arrayE object ''metadatas'' (fromJSON_tc_bank_Metadata h)) (\<lambda>v_metadatas.
     bindE (optE object ''pagination'' (fromJSON_tc_PageResponse h)) (\<lambda>v_pagination.
     Inr \<lparr>tc_bank_QueryDenomsMetadataResponse.metadatas = v_metadatas, tc_bank_QueryDenomsMetadataResponse.pagination = v_pagination\<rparr>))"

definition toJSON_tc_bank_QueryDenomsMetadataResponse :: "host \<Rightarrow> tc_bank_QueryDenomsMetadataResponse \<Rightarrow> jsval result" where
  "toJSON_tc_bank_QueryDenomsMetadataResponse h message = objE
    [jlistE ''metadatas'' (toJSON_tc_bank_Metadata h) (tc_bank_QueryDenomsMetadataResponse.metadatas message),
     joptE ''pagination'' (toJSON_tc_PageResponse h) (tc_bank_QueryDenomsMetadataResponse.pagination message)]"

type_synonym tc_bank_QueryDenomsMetadataResponse_Partial = "tc_bank_Metadata_Partial list option \<times> PageResponse_Partial option"

definition fromPartial_tc_bank_QueryDenomsMetadataResponse :: "tc_bank_QueryDenomsMetadataResponse_Partial \<Rightarrow> tc_bank_QueryDenomsMetadataResponse" where
  "fromPartial_tc_bank_QueryDenomsMetadataResponse object = (case object of (p_metadatas, p_pagination) \<Rightarrow>
     createBase_tc_bank_QueryDenomsMetadataResponse\<lparr>tc_bank_QueryDenomsMetadataResponse.metadatas := partial_map fromPartial_tc_bank_Metadata (p_metadatas),
       tc_bank_QueryDenomsMetadataResponse.pagination := map_option fromPartial_tc_PageResponse (p_pagination)\<rparr>)"

text \<open>A partial message that sets every field.\<close>

definition partial_of_tc_bank_QueryDenomsMetadataResponse :: "tc_bank_QueryDenomsMetadataResponse \<Rightarrow> tc_bank_QueryDenomsMetadataResponse_Partial" where
  "partial_of_tc_bank_QueryDenomsMetadataResponse m =
     (Some (map partial_of_tc_bank_Metadata (tc_bank_QueryDenomsMetadataResponse.metadatas m)),
      map_option partial_of_PageResponse (tc_bank_QueryDenomsMetadataResponse.pagination m))"

definition wf_tc_bank_QueryDenomsMetadataResponse :: "('w, 'r) wire \<Rightarrow> tc_bank_QueryDenomsMetadataResponse \<Rightarrow> bool" where
  "wf_tc_bank_QueryDenomsMetadataResponse L m \<longleftrightarrow> list_all (\<lambda>v. wf_tc_bank_Metadata L v \<and> fits L (encode_tc_bank_Metadata L v)) (tc_bank_QueryDenomsMetadataResponse.metadatas m)
     \<and> pred_option (\<lambda>v. wf_PageResponse L v \<and> fits L (encode_PageResponse L v)) (tc_bank_QueryDenomsMetadataResponse.pagination m)"

definition wfj_tc_bank_QueryDenomsMetadataResponse :: "tc_bank_QueryDenomsMetadataResponse \<Rightarrow> bool" where
  "wfj_tc_bank_QueryDenomsMetadataResponse m \<longleftrightarrow> list_all wfj_tc_bank_Metadata (tc_bank_QueryDenomsMetadataResponse.metadatas m)
     \<and> pred_option wfj_PageResponse (tc_bank_QueryDenomsMetadataResponse.pagination m)"

subsection \<open>QueryDenomMetadataRequest\<close>

record tc_bank_QueryDenomMetadataRequest =
  denom :: jsstring

definition createBase_tc_bank_QueryDenomMetadataRequest :: tc_bank_QueryDenomMetadataRequest where
  "createBase_tc_bank_QueryDenomMetadataRequest = \<lparr>tc_bank_QueryDenomMetadataRequest.denom = []\<rparr>"

definition encode_tc_bank_QueryDenomMetadataRequest :: "('w, 'r) wire \<Rightarrow> tc_bank_QueryDenomMetadataRequest \<Rightarrow> 'w \<Rightarrow> 'w result" where
  "encode_tc_bank_QueryDenomMetadataRequest L message = seqE
    [whenE (tc_bank_QueryDenomMetadataRequest.denom message \<noteq> []) (seqE [w_uint32 L 10, w_string L (tc_bank_QueryDenomMetadataRequest.denom message)])]"

definition tc_bank_QueryDenomMetadataRequest_switch :: "('w, 'r) wire \<Rightarrow> long_lib \<Rightarrow> u32 \<Rightarrow> tc_bank_QueryDenomMetadataRequest \<Rightarrow> (tc_bank_QueryDenomMetadataRequest, 'r) action" where
  "tc_bank_QueryDenomMetadataRequest_switch L G tag message = js_switch (drop_bit 3 tag)
    [(1, readf (r_string L) (\<lambda>v. message\<lparr>tc_bank_QueryDenomMetadataRequest.denom := v\<rparr>))]
    (skipType L tag message)"

definition decode_tc_bank_QueryDenomMetadataRequest :: "('w, 'r) wire \<Rightarrow> long_lib \<Rightarrow> 'r input \<Rightarrow> nat option \<Rightarrow> (tc_bank_QueryDenomMetadataRequest \<times> 'r) result" where
  "decode_tc_bank_QueryDenomMetadataRequest L G = decode_msg L (tc_bank_QueryDenomMetadataRequest_switch L G) createBase_tc_bank_QueryDenomMetadataRequest"

definition fromJSON_tc_bank_QueryDenomMetadataRequest :: "host \<Rightarrow> jsval \<Rightarrow> tc_bank_QueryDenomMetadataRequest result" where
  "fromJSON_tc_bank_QueryDenomMetadataRequest h object =
     bindE (fieldE object ''denom'' (stringE h) []) (\<lambda>v_denom.
     Inr \<lparr>tc_bank_QueryDenomMetadataRequest.denom = v_denom\<rparr>)"

definition toJSON_tc_bank_QueryDenomMetadataRequest :: "host \<Rightarrow> tc_bank_QueryDenomMetadataRequest \<Rightarrow> jsval result" where
  "toJSON_tc_bank_QueryDenomMetadataRequest h message = objE
    [jfieldE True ''denom'' (Inr (JString (tc_bank_QueryDenomMetadataRequest.denom message)))]"

type_synonym tc_bank_QueryDenomMetadataRequest_Partial = "jsstring option"

definition fromPartial_tc_bank_QueryDenomMetadataRequest :: "tc_bank_QueryDenomMetadataRequest_Partial \<Rightarrow> tc_bank_QueryDenomMetadataRequest" where
  "fromPartial_tc_bank_QueryDenomMetadataRequest object = (case object of p_denom \<Rightarrow>
     createBase_tc_bank_QueryDenomMetadataRequest\<lparr>tc_bank_QueryDenomMetadataRequest.denom := nullish (p_denom) []\<rparr>)"

text \<open>A partial message that sets every field.\<close>

definition partial_of_tc_bank_QueryDenomMetadataRequest :: "tc_bank_QueryDenomMetadataRequest \<Rightarrow> tc_bank_QueryDenomMetadataRequest_Partial" where
  "partial_of_tc_bank_QueryDenomMetadataRequest m =
     (Some (tc_bank_QueryDenomMetadataRequest.denom m))"

definition wf_tc_bank_QueryDenomMetadataRequest :: "('w, 'r) wire \<Rightarrow> tc_bank_QueryDenomMetadataRequest \<Rightarrow> bool" where
  "wf_tc_bank_QueryDenomMetadataRequest L m \<longleftrightarrow> wire_string (tc_bank_QueryDenomMetadataRequest.denom m)"

definition wfj_tc_bank_QueryDenomMetadataRequest :: "tc_bank_QueryDenomMetadataRequest \<Rightarrow> bool" where
  "wfj_tc_bank_QueryDenomMetadataRequest m \<longleftrightarrow> True"

subsection \<open>QueryDenomMetadataResponse\<close>

record tc_bank_QueryDenomMetadataResponse =
  metadata :: "tc_bank_Metadata option"

definition createBase_tc_bank_QueryDenomMetadataResponse :: tc_bank_QueryDenomMetadataResponse where
  "createBase_tc_bank_QueryDenomMetadataResponse = \<lparr>tc_bank_QueryDenomMetadataResponse.metadata = None\<rparr>"

definition encode_tc_bank_QueryDenomMetadataResponse :: "('w, 'r) wire \<Rightarrow> tc_bank_QueryDenomMetadataResponse \<Rightarrow> 'w \<Rightarrow> 'w result" where
  "encode_tc_bank_QueryDenomMetadataResponse L message = seqE
    [someE (tc_bank_QueryDenomMetadataResponse.metadata message) (\<lambda>v. seqE [w_uint32 L 10, w_fork L, encode_tc_bank_Metadata L v, w_join L])]"

definition tc_bank_QueryDenomMetadataResponse_switch :: "('w, 'r) wire \<Rightarrow> long_lib \<Rightarrow> u32 \<Rightarrow> tc_bank_QueryDenomMetadataResponse \<Rightarrow> (tc_bank_QueryDenomMetadataResponse, 'r) action" where
  "tc_bank_QueryDenomMetadataResponse_switch L G tag message = js_switch (drop_bit 3 tag)
    [(1, readf (submsg L (decode_tc_bank_Metadata L G)) (\<lambda>v. message\<lparr>tc_bank_QueryDenomMetadataResponse.metadata := Some v\<rparr>))]
    (skipType L tag message)"

definition decode_tc_bank_QueryDenomMetadataResponse :: "('w, 'r) wire \<Rightarrow> long_lib \<Rightarrow> 'r input \<Rightarrow> nat option \<Rightarrow> (tc_bank_QueryDenomMetadataResponse \<times> 'r) result" where
  "decode_tc_bank_QueryDenomMetadataResponse L G = decode_msg L (tc_bank_QueryDenomMetadataResponse_switch L G) createBase_tc_bank_QueryDenomMetadataResponse"

definition fromJSON_tc_bank_QueryDenomMetadataResponse :: "host \<Rightarrow> jsval \<Rightarrow> tc_bank_QueryDenomMetadataResponse result" where
  "fromJSON_tc_bank_QueryDenomMetadataResponse h object =
     bindE (optE object ''metadata'' (fromJSON_tc_bank_Metadata h)) (\<lambda>v_metadata.
     Inr \<lparr>tc_bank_QueryDenomMetadataResponse.metadata = v_metadata\<rparr>)"

definition toJSON_tc_bank_QueryDenomMetadataResponse :: "host \<Rightarrow> tc_bank_QueryDenomMetadataResponse \<Rightarrow> jsval result" where
  "toJSON_tc_bank_QueryDenomMetadataResponse h message = objE
    [joptE ''metadata'' (toJSON_tc_bank_Metadata h) (tc_bank_QueryDenomMetadataResponse.metadata message)]"

type_synonym tc_bank_QueryDenomMetadataResponse_Partial = "tc_bank_Metadata_Partial option"

definition fromPartial_tc_bank_QueryDenomMetadataResponse :: "tc_bank_QueryDenomMetadataResponse_Partial \<Rightarrow> tc_bank_QueryDenomMetadataResponse" where
  "fromPartial_tc_bank_QueryDenomMetadataResponse object = (case object of p_metadata \<Rightarrow>
     createBase_tc_bank_QueryDenomMetadataResponse\<lparr>tc_bank_QueryDenomMetadataResponse.metadata := map_option fromPartial_tc_bank_Metadata (p_metadata)\<rparr>)"

text \<open>A partial message that sets every field.\<close>

definition partial_of_tc_bank_QueryDenomMetadataResponse :: "tc_bank_QueryDenomMetadataResponse \<Rightarrow> tc_bank_QueryDenomMetadataResponse_Partial" where
  "partial_of_tc_bank_QueryDenomMetadataResponse m =
     (map_option partial_of_tc_bank_Metadata (tc_bank_QueryDenomMetadataResponse.metadata m))"

definition wf_tc_bank_QueryDenomMetadataResponse :: "('w, 'r) wire \<Rightarrow> tc_bank_QueryDenomMetadataResponse \<Rightarrow> bool" where
  "wf_tc_bank_QueryDenomMetadataResponse L m \<longleftrightarrow> pred_option (\<lambda>v. wf_tc_bank_Metadata L v \<and> fits L (encode_tc_bank_Metadata L v)) (tc_bank_QueryDenomMetadataResponse.metadata m)"

definition wfj_tc_bank_QueryDenomMetadataResponse :: "tc_bank_QueryDenomMetadataResponse \<Rightarrow> bool" where
  "wfj_tc_bank_QueryDenomMetadataResponse m \<longleftrightarrow> pred_option wfj_tc_bank_Metadata (tc_bank_QueryDenomMetadataResponse.metadata m)"

subsection \<open>QueryDenomOwnersRequest\<close>

record tc_bank_QueryDenomOwnersRequest =
  denom :: jsstring
  pagination :: "PageRequest option"

definition createBase_tc_bank_QueryDenomOwnersRequest :: tc_bank_QueryDenomOwnersRequest where
  "createBase_tc_bank_QueryDenomOwnersRequest = \<lparr>tc_bank_QueryDenomOwnersRequest.denom = [],
     tc_bank_QueryDenomOwnersRequest.pagination = None\<rparr>"

definition encode_tc_bank_QueryDenomOwnersRequest :: "('w, 'r) wire \<Rightarrow> tc_bank_QueryDenomOwnersRequest \<Rightarrow> 'w \<Rightarrow> 'w result" where
  "encode_tc_bank_QueryDenomOwnersRequest L message = seqE
    [whenE (tc_bank_QueryDenomOwnersRequest.denom message \<noteq> []) (seqE [w_uint32 L 10, w_string L (tc_bank_QueryDenomOwnersRequest.denom message)]),
     someE (tc_bank_QueryDenomOwnersRequest.pagination message) (\<lambda>v. seqE [w_uint32 L 18, w_fork L, encode_tc_PageRequest L v, w_join L])]"

definition tc_bank_QueryDenomOwnersRequest_switch :: "('w, 'r) wire \<Rightarrow> long_lib \<Rightarrow> u32 \<Rightarrow> tc_bank_QueryDenomOwnersRequest \<Rightarrow> (tc_bank_QueryDenomOwnersRequest, 'r) action" where
  "tc_bank_QueryDenomOwnersRequest_switch L G tag message = js_switch (drop_bit 3 tag)
    [(1, readf (r_string L) (\<lambda>v. message\<lparr>tc_bank_QueryDenomOwnersRequest.denom := v\<rparr>)),
     (2, readf (submsg L (decode_tc_PageRequest L G)) (\<lambda>v. message\<lparr>tc_bank_QueryDenomOwnersRequest.pagination := Some v\<rparr>))]
    (skipType L tag message)"

definition decode_tc_bank_QueryDenomOwnersRequest :: "('w, 'r) wire \<Rightarrow> long_lib \<Rightarrow> 'r input \<Rightarrow> nat option \<Rightarrow> (tc_bank_QueryDenomOwnersRequest \<times> 'r) result" where
  "decode_tc_bank_QueryDenomOwnersRequest L G = decode_msg L (tc_bank_QueryDenomOwnersRequest_switch L G) createBase_tc_bank_QueryDenomOwnersRequest"

definition fromJSON_tc_bank_QueryDenomOwnersRequest :: "host \<Rightarrow> jsval \<Rightarrow> tc_bank_QueryDenomOwnersRequest result" where
  "fromJSON_tc_bank_QueryDenomOwnersRequest h object =
     bindE (fieldE object ''denom'' (stringE h) []) (\<lambda>v_denom.
     bindE (optE object ''pagination'' (fromJSON_tc_PageRequest h)) (\<lambda>v_pagination.
     Inr \<lparr>tc_bank_QueryDenomOwnersRequest.denom = v_denom, tc_bank_QueryDenomOwnersRequest.pagination = v_pagination\<rparr>))"

definition toJSON_tc_bank_QueryDenomOwnersRequest :: "host \<Rightarrow> tc_bank_QueryDenomOwnersRequest \<Rightarrow> jsval result" where
  "toJSON_tc_bank_QueryDenomOwnersRequest h message = objE
    [jfieldE True ''denom'' (Inr (JString (tc_bank_QueryDenomOwnersRequest.denom message))),
     joptE ''pagination'' (toJSON_tc_PageRequest h) (tc_bank_QueryDenomOwnersRequest.pagination message)]"

type_synonym tc_bank_QueryDenomOwnersRequest_Partial = "jsstring option \<times> PageRequest_Partial option"

definition fromPartial_tc_bank_QueryDenomOwnersRequest :: "tc_bank_QueryDenomOwnersRequest_Partial \<Rightarrow> tc_bank_QueryDenomOwnersRequest" where
  "fromPartial_tc_bank_QueryDenomOwnersRequest object = (case object of (p_denom, p_pagination) \<Rightarrow>
     createBase_tc_bank_QueryDenomOwnersRequest\<lparr>tc_bank_QueryDenomOwnersRequest.denom := nullish (p_denom) [],
       tc_bank_QueryDenomOwnersRequest.pagination := map_option fromPartial_tc_PageRequest (p_pagination)\<rparr>)"

text \<open>A partial message that sets every field.\<close>

definition partial_of_tc_bank_QueryDenomOwnersRequest :: "tc_bank_QueryDenomOwnersRequest \<Rightarrow> tc_bank_QueryDenomOwnersRequest_Partial" where
  "partial_of_tc_bank_QueryDenomOwnersRequest m =
     (Some (tc_bank_QueryDenomOwnersRequest.denom m),
      map_option partial_of_PageRequest (tc_bank_QueryDenomOwnersRequest.pagination m))"

definition wf_tc_bank_QueryDenomOwnersRequest :: "('w, 'r) wire \<Rightarrow> tc_bank_QueryDenomOwnersRequest \<Rightarrow> bool" where
  "wf_tc_bank_QueryDenomOwnersRequest L m \<longleftrightarrow> wire_string (tc_bank_QueryDenomOwnersRequest.denom m)
     \<and> pred_option (\<lambda>v. wf_PageRequest L v \<and> fits L (encode_PageRequest L v)) (tc_bank_QueryDenomOwnersRequest.pagination m)"

definition wfj_tc_bank_QueryDenomOwnersRequest :: "tc_bank_QueryDenomOwnersRequest \<Rightarrow> bool" where
  "wfj_tc_bank_QueryDenomOwnersRequest m \<longleftrightarrow> pred_option wfj_PageRequest (tc_bank_QueryDenomOwnersRequest.pagination m)"

subsection \<open>DenomOwner\<close>

record tc_bank_DenomOwner =
  address' :: jsstring
  balance :: "Coin option"

definition createBase_tc_bank_DenomOwner :: tc_bank_DenomOwner where
  "createBase_tc_bank_DenomOwner = \<lparr>tc_bank_DenomOwner.address' = [],
     tc_bank_DenomOwner.balance = None\<rparr>"

definition encode_tc_bank_DenomOwner :: "('w, 'r) wire \<Rightarrow> tc_bank_DenomOwner \<Rightarrow> 'w \<Rightarrow> 'w result" where
  "encode_tc_bank_DenomOwner L message = seqE
    [whenE (tc_bank_DenomOwner.address' message \<noteq> []) (seqE [w_uint32 L 10, w_string L (tc_bank_DenomOwner.address' message)]),
     someE (tc_bank_DenomOwner.balance message) (\<lambda>v. seqE [w_uint32 L 18, w_fork L, encode_tc_Coin L v, w_join L])]"

definition tc_bank_DenomOwner_switch :: "('w, 'r) wire \<Rightarrow> long_lib \<Rightarrow> u32 \<Rightarrow> tc_bank_DenomOwner \<Rightarrow> (tc_bank_DenomOwner, 'r) action" where
  "tc_bank_DenomOwner_switch L G tag message = js_switch (drop_bit 3 tag)
    [(1, readf (r_string L) (\<lambda>v. message\<lparr>tc_bank_DenomOwner.address' := v\<rparr>)),
     (2, readf (submsg L (decode_tc_Coin L G)) (\<lambda>v. message\<lparr>tc_bank_DenomOwner.balance := Some v\<rparr>))]
    (skipType L tag message)"

definition decode_tc_bank_DenomOwner :: "('w, 'r) wire \<Rightarrow> long_lib \<Rightarrow> 'r input \<Rightarrow> nat option \<Rightarrow> (tc_bank_DenomOwner \<times> 'r) result" where
  "decode_tc_bank_DenomOwner L G = decode_msg L (tc_bank_DenomOwner_switch L G) createBase_tc_bank_DenomOwner"

definition fromJSON_tc_bank_DenomOwner :: "host \<Rightarrow> jsval \<Rightarrow> tc_bank_DenomOwner result" where
  "fromJSON_tc_bank_DenomOwner h object =
     bindE (fieldE object ''address'' (stringE h) []) (\<lambda>v_address.
     bindE (optE object ''balance'' (fromJSON_tc_Coin h)) (\<lambda>v_balance.
     Inr \<lparr>tc_bank_DenomOwner.address' = v_address, tc_bank_DenomOwner.balance = v_balance\<rparr>))"

definition toJSON_tc_bank_DenomOwner :: "host \<Rightarrow> tc_bank_DenomOwner \<Rightarrow> jsval result" where
  "toJSON_tc_bank_DenomOwner h message = objE
    [jfieldE True ''address'' (Inr (JString (tc_bank_DenomOwner.address' message))),
     joptE ''balance'' (toJSON_tc_Coin h) (tc_bank_DenomOwner.balance message)]"

type_synonym tc_bank_DenomOwner_Partial = "jsstring option \<times> Coin_Partial option"

definition fromPartial_tc_bank_DenomOwner :: "tc_bank_DenomOwner_Partial \<Rightarrow> tc_bank_DenomOwner" where
  "fromPartial_tc_bank_DenomOwner object = (case object of (p_address, p_balance) \<Rightarrow>
     createBase_tc_bank_DenomOwner\<lparr>tc_bank_DenomOwner.address' := nullish (p_address) [],
       tc_bank_DenomOwner.balance := map_option fromPartial_tc_Coin (p_balance)\<rparr>)"

text \<open>A partial message that sets every field.\<close>

definition partial_of_tc_bank_DenomOwner :: "tc_bank_DenomOwner \<Rightarrow> tc_bank_DenomOwner_Partial" where
  "partial_of_tc_bank_DenomOwner m =
     (Some (tc_bank_DenomOwner.address' m),
      map_option partial_of_Coin (tc_bank_DenomOwner.balance m))"

definition wf_tc_bank_DenomOwner :: "('w, 'r) wire \<Rightarrow> tc_bank_DenomOwner \<Rightarrow> bool" where
  "wf_tc_bank_DenomOwner L m \<longleftrightarrow> wire_string (tc_bank_DenomOwner.address' m)
     \<and> pred_option (\<lambda>v. wf_Coin L v \<and> fits L (encode_Coin L v)) (tc_bank_DenomOwner.balance m)"

definition wfj_tc_bank_DenomOwner :: "tc_bank_DenomOwner \<Rightarrow> bool" where
  "wfj_tc_bank_DenomOwner m \<longleftrightarrow> pred_option wfj_Coin (tc_bank_DenomOwner.balance m)"

subsection \<open>QueryDenomOwnersResponse\<close>

record tc_bank_QueryDenomOwnersResponse =
  denomOwners :: "tc_bank_DenomOwner list"
  pagination :: "PageResponse option"

definition createBase_tc_bank_QueryDenomOwnersResponse :: tc_bank_QueryDenomOwnersResponse where
  "createBase_tc_bank_QueryDenomOwnersResponse = \<lparr>tc_bank_QueryDenomOwnersResponse.denomOwners = [],
     tc_bank_QueryDenomOwnersResponse.pagination = None\<rparr>"

definition encode_tc_bank_QueryDenomOwnersResponse :: "('w, 'r) wire \<Rightarrow> tc_bank_QueryDenomOwnersResponse \<Rightarrow> 'w \<Rightarrow> 'w result" where
  "encode_tc_bank_QueryDenomOwnersResponse L message = seqE
    [forE (\<lambda>v. seqE [w_uint32 L 10, w_fork L, encode_tc_bank_DenomOwner L v, w_join L]) (tc_bank_QueryDenomOwnersResponse.denomOwners message),
     someE (tc_bank_QueryDenomOwnersResponse.pagination message) (\<lambda>v. seqE [w_uint32 L 18, w_fork L, encode_tc_PageResponse L v, w_join L])]"

definition tc_bank_QueryDenomOwnersResponse_switch :: "('w, 'r) wire \<Rightarrow> long_lib \<Rightarrow> u32 \<Rightarrow> tc_bank_QueryDenomOwnersResponse \<Rightarrow> (tc_bank_QueryDenomOwnersResponse, 'r) action" where
  "tc_bank_QueryDenomOwnersResponse_switch L G tag message = js_switch (drop_bit 3 tag)
    [(1, readf (submsg L (decode_tc_bank_DenomOwner L G)) (\<lambda>v. message\<lparr>tc_bank_QueryDenomOwnersResponse.denomOwners := tc_bank_QueryDenomOwnersResponse.denomOwners message @ [v]\<rparr>)),
     (2, readf (submsg L (decode_tc_PageResponse L G)) (\<lambda>v. message\<lparr>tc_bank_QueryDenomOwnersResponse.pagination := Some v\<rparr>))]
    (skipType L tag message)"

definition decode_tc_bank_QueryDenomOwnersResponse :: "('w, 'r) wire \<Rightarrow> long_lib \<Rightarrow> 'r input \<Rightarrow> nat option \<Rightarrow> (tc_bank_QueryDenomOwnersResponse \<times> 'r) result" where
  "decode_tc_bank_QueryDenomOwnersResponse L G = decode_msg L (tc_bank_QueryDenomOwnersResponse_switch L G) createBase_tc_bank_QueryDenomOwnersResponse"

definition fromJSON_tc_bank_QueryDenomOwnersResponse :: "host \<Rightarrow> jsval \<Rightarrow> tc_bank_QueryDenomOwnersResponse result" where
  "fromJSON_tc_bank_QueryDenomOwnersResponse h object =
     bindE (arrayE object ''denomOwners'' (fromJSON_tc_bank_DenomOwner h)) (\<lambda>v_denomOwners.
     bindE (optE object ''pagination'' (fromJSON_tc_PageResponse h)) (\<lambda>v_pagination.
     Inr \<lparr>tc_bank_QueryDenomOwnersResponse.denomOwners = v_denomOwners, tc_bank_QueryDenomOwnersResponse.pagination = v_pagination\<rparr>))"

definition toJSON_tc_bank_QueryDenomOwnersResponse :: "host \<Rightarrow> tc_bank_QueryDenomOwnersResponse \<Rightarrow> jsval result" where
  "toJSON_tc_bank_QueryDenomOwnersResponse h message = objE
    [jlistE ''denomOwners'' (toJSON_tc_bank_DenomOwner h) (tc_bank_QueryDenomOwnersResponse.denomOwners message),
     joptE ''pagination'' (toJSON_tc_PageResponse h) (tc_bank_QueryDenomOwnersResponse.pagination message)]"

type_synonym tc_bank_QueryDenomOwnersResponse_Partial = "tc_bank_DenomOwner_Partial list option \<times> PageResponse_Partial option"

definition fromPartial_tc_bank_QueryDenomOwnersResponse :: "tc_bank_QueryDenomOwnersResponse_Partial \<Rightarrow> tc_bank_QueryDenomOwnersResponse" where
  "fromPartial_tc_bank_QueryDenomOwnersResponse object = (case object of (p_denomOwners, p_pagination) \<Rightarrow>
     createBase_tc_bank_QueryDenomOwnersResponse\<lparr>tc_bank_QueryDenomOwnersResponse.denomOwners := partial_map fromPartial_tc_bank_DenomOwner (p_denomOwners),
       tc_bank_QueryDenomOwnersResponse.pagination := map_option fromPartial_tc_PageResponse (p_pagination)\<rparr>)"

text \<open>A partial message that sets every field.\<close>

definition partial_of_tc_bank_QueryDenomOwnersResponse :: "tc_bank_QueryDenomOwnersResponse \<Rightarrow> tc_bank_QueryDenomOwnersResponse_Partial" where
  "partial_of_tc_bank_QueryDenomOwnersResponse m =
     (Some (map partial_of_tc_bank_DenomOwner (tc_bank_QueryDenomOwnersResponse.denomOwners m)),
      map_option partial_of_PageResponse (tc_bank_QueryDenomOwnersResponse.pagination m))"

definition wf_tc_bank_QueryDenomOwnersResponse :: "('w, 'r) wire \<Rightarrow> tc_bank_QueryDenomOwnersResponse \<Rightarrow> bool" where
  "wf_tc_bank_QueryDenomOwnersResponse L m \<longleftrightarrow> list_all (\<lambda>v. wf_tc_bank_DenomOwner L v \<and> fits L (encode_tc_bank_DenomOwner L v)) (tc_bank_QueryDenomOwnersResponse.denomOwners m)
     \<and> pred_option (\<lambda>v. wf_PageResponse L v \<and> fits L (encode_PageResponse L v)) (tc_bank_QueryDenomOwnersResponse.pagination m)"

definition wfj_tc_bank_QueryDenomOwnersResponse :: "tc_bank_QueryDenomOwnersResponse \<Rightarrow> bool" where
  "wfj_tc_bank_QueryDenomOwnersResponse m \<longleftrightarrow> list_all wfj_tc_bank_DenomOwner (tc_bank_QueryDenomOwnersResponse.denomOwners m)
     \<and> pred_option wfj_PageResponse (tc_bank_QueryDenomOwnersResponse.pagination m)"


subsection \<open>The gRPC client\<close>

definition tc_bank_QueryClientImpl_Balance :: "('w, 'r) wire \<Rightarrow> long_lib \<Rightarrow> 's rpc \<Rightarrow> tc_bank_QueryBalanceRequest \<Rightarrow> 's \<Rightarrow> tc_bank_QueryBalanceResponse outcome \<times> 's" where
  "tc_bank_QueryClientImpl_Balance L G tr = tc_unary L tr (js ''cosmos.bank.v1beta1.Query'') (js ''Balance'') (encode_tc_bank_QueryBalanceRequest L) (decode_tc_bank_QueryBalanceResponse L G)"

definition tc_bank_QueryClientImpl_AllBalances :: "('w, 'r) wire \<Rightarrow> long_lib \<Rightarrow> 's rpc \<Rightarrow> tc_bank_QueryAllBalancesRequest \<Rightarrow> 's \<Rightarrow> tc_bank_QueryAllBalancesResponse outcome \<times> 's" where
  "tc_bank_QueryClientImpl_AllBalances L G tr = tc_unary L tr (js ''cosmos.bank.v1beta1.Query'') (js ''AllBalances'') (encode_tc_bank_QueryAllBalancesRequest L) (decode_tc_bank_QueryAllBalancesResponse L G)"

definition tc_bank_QueryClientImpl_SpendableBalances :: "('w, 'r) wire \<Rightarrow> long_lib \<Rightarrow> 's rpc \<Rightarrow> tc_bank_QuerySpendableBalancesRequest \<Rightarrow> 's \<Rightarrow> tc_bank_QuerySpendableBalancesResponse outcome \<times> 's" where
  "tc_bank_QueryClientImpl_SpendableBalances L G tr = tc_unary L tr (js ''cosmos.bank.v1beta1.Query'') (js ''SpendableBalances'') (encode_tc_bank_QuerySpendableBalancesRequest L) (decode_tc_bank_QuerySpendableBalancesResponse L G)"

definition tc_bank_QueryClientImpl_TotalSupply :: "('w, 'r) wire \<Rightarrow> long_lib \<Rightarrow> 's rpc \<Rightarrow> tc_bank_QueryTotalSupplyRequest \<Rightarrow> 's \<Rightarrow> tc_bank_QueryTotalSupplyResponse outcome \<times> 's" where
  "tc_bank_QueryClientImpl_TotalSupply L G tr = tc_unary L tr (js ''cosmos.bank.v1beta1.Query'') (js ''TotalSupply'') (encode_tc_bank_QueryTotalSupplyRequest L) (decode_tc_bank_QueryTotalSupplyResponse L G)"

definition tc_bank_QueryClientImpl_SupplyOf :: "('w, 'r) wire \<Rightarrow> long_lib \<Rightarrow> 's rpc \<Rightarrow> tc_bank_QuerySupplyOfRequest \<Rightarrow> 's \<Rightarrow> tc_bank_QuerySupplyOfResponse outcome \<times> 's" where
  "tc_bank_QueryClientImpl_SupplyOf L G tr = tc_unary L tr (js ''cosmos.bank.v1beta1.Query'') (js ''SupplyOf'') (encode_tc_bank_QuerySupplyOfRequest L) (decode_tc_bank_QuerySupplyOfResponse L G)"

definition tc_bank_QueryClientImpl_Params :: "('w, 'r) wire \<Rightarrow> long_lib \<Rightarrow> 's rpc \<Rightarrow> tc_bank_QueryParamsRequest \<Rightarrow> 's \<Rightarrow> tc_bank_QueryParamsResponse outcome \<times> 's" where
  "tc_bank_QueryClientImpl_Params L G tr = tc_unary L tr (js ''cosmos.bank.v1beta1.Query'') (js ''Params'') (encode_tc_bank_QueryParamsRequest L) (decode_tc_bank_QueryParamsResponse L G)"

definition tc_bank_QueryClientImpl_DenomMetadata :: "('w, 'r) wire \<Rightarrow> long_lib \<Rightarrow> 's rpc \<Rightarrow> tc_bank_QueryDenomMetadataRequest \<Rightarrow> 's \<Rightarrow> tc_bank_QueryDenomMetadataResponse outcome \<times> 's" where
  "tc_bank_QueryClientImpl_DenomMetadata L G tr = tc_unary L tr (js ''cosmos.bank.v1beta1.Query'') (js ''DenomMetadata'') (encode_tc_bank_QueryDenomMetadataRequest L) (decode_tc_bank_QueryDenomMetadataResponse L G)"

definition tc_bank_QueryClientImpl_DenomsMetadata :: "('w, 'r) wire \<Rightarrow> long_lib \<Rightarrow> 's rpc \<Rightarrow> tc_bank_QueryDenomsMetadataRequest \<Rightarrow> 's \<Rightarrow> tc_bank_QueryDenomsMetadataResponse outcome \<times> 's" where
  "tc_bank_QueryClientImpl_DenomsMetadata L G tr = tc_unary L tr (js ''cosmos.bank.v1beta1.Query'') (js ''DenomsMetadata'') (encode_tc_bank_QueryDenomsMetadataRequest L) (decode_tc_bank_QueryDenomsMetadataResponse L G)"

definition tc_bank_QueryClientImpl_DenomOwners :: "('w, 'r) wire \<Rightarrow> long_lib \<Rightarrow> 's rpc \<Rightarrow> tc_bank_QueryDenomOwnersRequest \<Rightarrow> 's \<Rightarrow> tc_bank_QueryDenomOwnersResponse outcome \<times> 's" where
  "tc_bank_QueryClientImpl_DenomOwners L G tr = tc_unary L tr (js ''cosmos.bank.v1beta1.Query'') (js ''DenomOwners'') (encode_tc_bank_QueryDenomOwnersRequest L) (decode_tc_bank_QueryDenomOwnersResponse L G)"


section \<open>Encoding, decoding and JSON of these messages\<close>

lemma fromPartial_partial_of_tc_bank_QueryBalanceRequest [simp]: "fromPartial_tc_bank_QueryBalanceRequest (partial_of_tc_bank_QueryBalanceRequest m) = m"
  by (simp add: fromPartial_tc_bank_QueryBalanceRequest_def partial_of_tc_bank_QueryBalanceRequest_def createBase_tc_bank_QueryBalanceRequest_def partial_map_def option.map_comp o_def option.map_ident)

lemma tc_bank_QueryBalanceRequest_tags:
  "tc_bank_QueryBalanceRequest_switch L G 10 m = readf (r_string L) (\<lambda>v. m\<lparr>tc_bank_QueryBalanceRequest.address' := v\<rparr>)"
  "tc_bank_QueryBalanceRequest_switch L G 18 m = readf (r_string L) (\<lambda>v. m\<lparr>tc_bank_QueryBalanceRequest.denom := v\<rparr>)"
  by (simp_all add: tc_bank_QueryBalanceRequest_switch_def)

lemma fromPartial_partial_of_tc_bank_QueryBalanceResponse [simp]: "fromPartial_tc_bank_QueryBalanceResponse (partial_of_tc_bank_QueryBalanceResponse m) = m"
  by (simp add: fromPartial_tc_bank_QueryBalanceResponse_def partial_of_tc_bank_QueryBalanceResponse_def createBase_tc_bank_QueryBalanceResponse_def partial_map_def option.map_comp o_def option.map_ident tc_Coin_eqs)

lemma tc_bank_QueryBalanceResponse_tags:
  "tc_bank_QueryBalanceResponse_switch L G 10 m = readf (submsg L (decode_tc_Coin L G)) (\<lambda>v. m\<lparr>tc_bank_QueryBalanceResponse.balance := Some v\<rparr>)"
  by (simp_all add: tc_bank_QueryBalanceResponse_switch_def)

lemma fromPartial_partial_of_tc_bank_QueryAllBalancesRequest [simp]: "fromPartial_tc_bank_QueryAllBalancesRequest (partial_of_tc_bank_QueryAllBalancesRequest m) = m"
  by (simp add: fromPartial_tc_bank_QueryAllBalancesRequest_def partial_of_tc_bank_QueryAllBalancesRequest_def createBase_tc_bank_QueryAllBalancesRequest_def partial_map_def option.map_comp o_def option.map_ident tc_PageRequest_eqs)

lemma tc_bank_QueryAllBalancesRequest_tags:
  "tc_bank_QueryAllBalancesRequest_switch L G 10 m = readf (r_string L) (\<lambda>v. m\<lparr>tc_bank_QueryAllBalancesRequest.address' := v\<rparr>)"
  "tc_bank_QueryAllBalancesRequest_switch L G 18 m = readf (submsg L (decode_tc_PageRequest L G)) (\<lambda>v. m\<lparr>tc_bank_QueryAllBalancesRequest.pagination := Some v\<rparr>)"
  by (simp_all add: tc_bank_QueryAllBalancesRequest_switch_def)

lemma fromPartial_partial_of_tc_bank_QueryAllBalancesResponse [simp]: "fromPartial_tc_bank_QueryAllBalancesResponse (partial_of_tc_bank_QueryAllBalancesResponse m) = m"
  by (simp add: fromPartial_tc_bank_QueryAllBalancesResponse_def partial_of_tc_bank_QueryAllBalancesResponse_def createBase_tc_bank_QueryAllBalancesResponse_def partial_map_def option.map_comp o_def option.map_ident tc_Coin_eqs tc_PageResponse_eqs)

lemma tc_bank_QueryAllBalancesResponse_tags:
  "tc_bank_QueryAllBalancesResponse_switch L G 10 m = readf (submsg L (decode_tc_Coin L G)) (\<lambda>v. m\<lparr>tc_bank_QueryAllBalancesResponse.balances := tc_bank_QueryAllBalancesResponse.balances m @ [v]\<rparr>)"
  "tc_bank_QueryAllBalancesResponse_switch L G 18 m = readf (submsg L (decode_tc_PageResponse L G)) (\<lambda>v. m\<lparr>tc_bank_QueryAllBalancesResponse.pagination := Some v\<rparr>)"
  by (simp_all add: tc_bank_QueryAllBalancesResponse_switch_def)

lemma fromPartial_partial_of_tc_bank_QuerySpendableBalancesRequest [simp]: "fromPartial_tc_bank_QuerySpendableBalancesRequest (partial_of_tc_bank_QuerySpendableBalancesRequest m) = m"
  by (simp add: fromPartial_tc_bank_QuerySpendableBalancesRequest_def partial_of_tc_bank_QuerySpendableBalancesRequest_def createBase_tc_bank_QuerySpendableBalancesRequest_def partial_map_def option.map_comp o_def option.map_ident tc_PageRequest_eqs)

lemma tc_bank_QuerySpendableBalancesRequest_tags:
  "tc_bank_QuerySpendableBalancesRequest_switch L G 10 m = readf (r_string L) (\<lambda>v. m\<lparr>tc_bank_QuerySpendableBalancesRequest.address' := v\<rparr>)"
  "tc_bank_QuerySpendableBalancesRequest_switch L G 18 m = readf (submsg L (decode_tc_PageRequest L G)) (\<lambda>v. m\<lparr>tc_bank_QuerySpendableBalancesRequest.pagination := Some v\<rparr>)"
  by (simp_all add: tc_bank_QuerySpendableBalancesRequest_switch_def)

lemma fromPartial_partial_of_tc_bank_QuerySpendableBalancesResponse [simp]: "fromPartial_tc_bank_QuerySpendableBalancesResponse (partial_of_tc_bank_QuerySpendableBalancesResponse m) = m"
  by (simp add: fromPartial_tc_bank_QuerySpendableBalancesResponse_def partial_of_tc_bank_QuerySpendableBalancesResponse_def createBase_tc_bank_QuerySpendableBalancesResponse_def partial_map_def option.map_comp o_def option.map_ident tc_Coin_eqs tc_PageResponse_eqs)

lemma tc_bank_QuerySpendableBalancesResponse_tags:
  "tc_bank_QuerySpendableBalancesResponse_switch L G 10 m = readf (submsg L (decode_tc_Coin L G)) (\<lambda>v. m\<lparr>tc_bank_QuerySpendableBalancesResponse.balances := tc_bank_QuerySpendableBalancesResponse.balances m @ [v]\<rparr>)"
  "tc_bank_QuerySpendableBalancesResponse_switch L G 18 m = readf (submsg L (decode_tc_PageResponse L G)) (\<lambda>v. m\<lparr>tc_bank_QuerySpendableBalancesResponse.pagination := Some v\<rparr>)"
  by (simp_all add: tc_bank_QuerySpendableBalancesResponse_switch_def)

lemma fromPartial_partial_of_tc_bank_QueryTotalSupplyRequest [simp]: "fromPartial_tc_bank_QueryTotalSupplyRequest (partial_of_tc_bank_QueryTotalSupplyRequest m) = m"
  by (simp add: fromPartial_tc_bank_QueryTotalSupplyRequest_def partial_of_tc_bank_QueryTotalSupplyRequest_def createBase_tc_bank_QueryTotalSupplyRequest_def partial_map_def option.map_comp o_def option.map_ident tc_PageRequest_eqs)

lemma tc_bank_QueryTotalSupplyRequest_tags:
  "tc_bank_QueryTotalSupplyRequest_switch L G 10 m = readf (submsg L (decode_tc_PageRequest L G)) (\<lambda>v. m\<lparr>tc_bank_QueryTotalSupplyRequest.pagination := Some v\<rparr>)"
  by (simp_all add: tc_bank_QueryTotalSupplyRequest_switch_def)

lemma fromPartial_partial_of_tc_bank_QueryTotalSupplyResponse [simp]: "fromPartial_tc_bank_QueryTotalSupplyResponse (partial_of_tc_bank_QueryTotalSupplyResponse m) = m"
  by (simp add: fromPartial_tc_bank_QueryTotalSupplyResponse_def partial_of_tc_bank_QueryTotalSupplyResponse_def createBase_tc_bank_QueryTotalSupplyResponse_def partial_map_def option.map_comp o_def option.map_ident tc_Coin_eqs tc_PageResponse_eqs)

lemma tc_bank_QueryTotalSupplyResponse_tags:
  "tc_bank_QueryTotalSupplyResponse_switch L G 10 m = readf (submsg L (decode_tc_Coin L G)) (\<lambda>v. m\<lparr>tc_bank_QueryTotalSupplyResponse.supply' := tc_bank_QueryTotalSupplyResponse.supply' m @ [v]\<rparr>)"
  "tc_bank_QueryTotalSupplyResponse_switch L G 18 m = readf (submsg L (decode_tc_PageResponse L G)) (\<lambda>v. m\<lparr>tc_bank_QueryTotalSupplyResponse.pagination := Some v\<rparr>)"
  by (simp_all add: tc_bank_QueryTotalSupplyResponse_switch_def)

lemma fromPartial_partial_of_tc_bank_QuerySupplyOfRequest [simp]: "fromPartial_tc_bank_QuerySupplyOfRequest (partial_of_tc_bank_QuerySupplyOfRequest m) = m"
  by (simp add: fromPartial_tc_bank_QuerySupplyOfRequest_def partial_of_tc_bank_QuerySupplyOfRequest_def createBase_tc_bank_QuerySupplyOfRequest_def partial_map_def option.map_comp o_def option.map_ident)

lemma tc_bank_QuerySupplyOfRequest_tags:
  "tc_bank_QuerySupplyOfRequest_switch L G 10 m = readf (r_string L) (\<lambda>v. m\<lparr>tc_bank_QuerySupplyOfRequest.denom := v\<rparr>)"
  by (simp_all add: tc_bank_QuerySupplyOfRequest_switch_def)

lemma fromPartial_partial_of_tc_bank_QuerySupplyOfResponse [simp]: "fromPartial_tc_bank_QuerySupplyOfResponse (partial_of_tc_bank_QuerySupplyOfResponse m) = m"
  by (simp add: fromPartial_tc_bank_QuerySupplyOfResponse_def partial_of_tc_bank_QuerySupplyOfResponse_def createBase_tc_bank_QuerySupplyOfResponse_def partial_map_def option.map_comp o_def option.map_ident tc_Coin_eqs)

lemma tc_bank_QuerySupplyOfResponse_tags:
  "tc_bank_QuerySupplyOfResponse_switch L G 10 m = readf (submsg L (decode_tc_Coin L G)) (\<lambda>v. m\<lparr>tc_bank_QuerySupplyOfResponse.amount := Some v\<rparr>)"
  by (simp_all add: tc_bank_QuerySupplyOfResponse_switch_def)

lemma fromPartial_tc_bank_QueryParamsRequest_id [simp]: "fromPartial_tc_bank_QueryParamsRequest = (\<lambda>m. m)"
  by (rule ext, rename_tac m, case_tac m) (simp add: fromPartial_tc_bank_QueryParamsRequest_def createBase_tc_bank_QueryParamsRequest_def)

lemma fromPartial_partial_of_tc_bank_QueryParamsResponse [simp]: "fromPartial_tc_bank_QueryParamsResponse (partial_of_tc_bank_QueryParamsResponse m) = m"
  by (simp add: fromPartial_tc_bank_QueryParamsResponse_def partial_of_tc_bank_QueryParamsResponse_def createBase_tc_bank_QueryParamsResponse_def partial_map_def option.map_comp o_def option.map_ident)

lemma tc_bank_QueryParamsResponse_tags:
  "tc_bank_QueryParamsResponse_switch L G 10 m = readf (submsg L (decode_tc_bank_Params L G)) (\<lambda>v. m\<lparr>tc_bank_QueryParamsResponse.params := Some v\<rparr>)"
  by (simp_all add: tc_bank_QueryParamsResponse_switch_def)

lemma fromPartial_partial_of_tc_bank_QueryDenomsMetadataRequest [simp]: "fromPartial_tc_bank_QueryDenomsMetadataRequest (partial_of_tc_bank_QueryDenomsMetadataRequest m) = m"
  by (simp add: fromPartial_tc_bank_QueryDenomsMetadataRequest_def partial_of_tc_bank_QueryDenomsMetadataRequest_def createBase_tc_bank_QueryDenomsMetadataRequest_def partial_map_def option.map_comp o_def option.map_ident tc_PageRequest_eqs)

lemma tc_bank_QueryDenomsMetadataRequest_tags:
  "tc_bank_QueryDenomsMetadataRequest_switch L G 10 m = readf (submsg L (decode_tc_PageRequest L G)) (\<lambda>v. m\<lparr>tc_bank_QueryDenomsMetadataRequest.pagination := Some v\<rparr>)"
  by (simp_all add: tc_bank_QueryDenomsMetadataRequest_switch_def)

lemma fromPartial_partial_of_tc_bank_QueryDenomsMetadataResponse [simp]: "fromPartial_tc_bank_QueryDenomsMetadataResponse (partial_of_tc_bank_QueryDenomsMetadataResponse m) = m"
  by (simp add: fromPartial_tc_bank_QueryDenomsMetadataResponse_def partial_of_tc_bank_QueryDenomsMetadataResponse_def createBase_tc_bank_QueryDenomsMetadataResponse_def partial_map_def option.map_comp o_def option.map_ident tc_PageResponse_eqs)

lemma tc_bank_QueryDenomsMetadataResponse_tags:
  "tc_bank_QueryDenomsMetadataResponse_switch L G 10 m = readf (submsg L (decode_tc_bank_Metadata L G)) (\<lambda>v. m\<lparr>tc_bank_QueryDenomsMetadataResponse.metadatas := tc_bank_QueryDenomsMetadataResponse.metadatas m @ [v]\<rparr>)"
  "tc_bank_QueryDenomsMetadataResponse_switch L G 18 m = readf (submsg L (decode_tc_PageResponse L G)) (\<lambda>v. m\<lparr>tc_bank_QueryDenomsMetadataResponse.pagination := Some v\<rparr>)"
  by (simp_all add: tc_bank_QueryDenomsMetadataResponse_switch_def)

lemma fromPartial_partial_of_tc_bank_QueryDenomMetadataRequest [simp]: "fromPartial_tc_bank_QueryDenomMetadataRequest (partial_of_tc_bank_QueryDenomMetadataRequest m) = m"
  by (simp add: fromPartial_tc_bank_QueryDenomMetadataRequest_def partial_of_tc_bank_QueryDenomMetadataRequest_def createBase_tc_bank_QueryDenomMetadataRequest_def partial_map_def option.map_comp o_def option.map_ident)

lemma tc_bank_QueryDenomMetadataRequest_tags:
  "tc_bank_QueryDenomMetadataRequest_switch L G 10 m = readf (r_string L) (\<lambda>v. m\<lparr>tc_bank_QueryDenomMetadataRequest.denom := v\<rparr>)"
  by (simp_all add: tc_bank_QueryDenomMetadataRequest_switch_def)

lemma fromPartial_partial_of_tc_bank_QueryDenomMetadataResponse [simp]: "fromPartial_tc_bank_QueryDenomMetadataResponse (partial_of_tc_bank_QueryDenomMetadataResponse m) = m"
  by (simp add: fromPartial_tc_bank_QueryDenomMetadataResponse_def partial_of_tc_bank_QueryDenomMetadataResponse_def createBase_tc_bank_QueryDenomMetadataResponse_def partial_map_def option.map_comp o_def option.map_ident)

lemma tc_bank_QueryDenomMetadataResponse_tags:
  "tc_bank_QueryDenomMetadataResponse_switch L G 10 m = readf (submsg L (decode_tc_bank_Metadata L G)) (\<lambda>v. m\<lparr>tc_bank_QueryDenomMetadataResponse.metadata := Some v\<rparr>)"
  by (simp_all add: tc_bank_QueryDenomMetadataResponse_switch_def)

lemma fromPartial_partial_of_tc_bank_QueryDenomOwnersRequest [simp]: "fromPartial_tc_bank_QueryDenomOwnersRequest (partial_of_tc_bank_QueryDenomOwnersRequest m) = m"
  by (simp add: fromPartial_tc_bank_QueryDenomOwnersRequest_def partial_of_tc_bank_QueryDenomOwnersRequest_def createBase_tc_bank_QueryDenomOwnersRequest_def partial_map_def option.map_comp o_def option.map_ident tc_PageRequest_eqs)

lemma tc_bank_QueryDenomOwnersRequest_tags:
  "tc_bank_QueryDenomOwnersRequest_switch L G 10 m = readf (r_string L) (\<lambda>v. m\<lparr>tc_bank_QueryDenomOwnersRequest.denom := v\<rparr>)"
  "tc_bank_QueryDenomOwnersRequest_switch L G 18 m = readf (submsg L (decode_tc_PageRequest L G)) (\<lambda>v. m\<lparr>tc_bank_QueryDenomOwnersRequest.pagination := Some v\<rparr>)"
  by (simp_all add: tc_bank_QueryDenomOwnersRequest_switch_def)

lemma fromPartial_partial_of_tc_bank_DenomOwner [simp]: "fromPartial_tc_bank_DenomOwner (partial_of_tc_bank_DenomOwner m) = m"
  by (simp add: fromPartial_tc_bank_DenomOwner_def partial_of_tc_bank_DenomOwner_def createBase_tc_bank_DenomOwner_def partial_map_def option.map_comp o_def option.map_ident tc_Coin_eqs)

lemma tc_bank_DenomOwner_tags:
  "tc_bank_DenomOwner_switch L G 10 m = readf (r_string L) (\<lambda>v. m\<lparr>tc_bank_DenomOwner.address' := v\<rparr>)"
  "tc_bank_DenomOwner_switch L G 18 m = readf (submsg L (decode_tc_Coin L G)) (\<lambda>v. m\<lparr>tc_bank_DenomOwner.balance := Some v\<rparr>)"
  by (simp_all add: tc_bank_DenomOwner_switch_def)

lemma fromPartial_partial_of_tc_bank_QueryDenomOwnersResponse [simp]: "fromPartial_tc_bank_QueryDenomOwnersResponse (partial_of_tc_bank_QueryDenomOwnersResponse m) = m"
  by (simp add: fromPartial_tc_bank_QueryDenomOwnersResponse_def partial_of_tc_bank_QueryDenomOwnersResponse_def createBase_tc_bank_QueryDenomOwnersResponse_def partial_map_def option.map_comp o_def option.map_ident tc_PageResponse_eqs)

lemma tc_bank_QueryDenomOwnersResponse_tags:
  "tc_bank_QueryDenomOwnersResponse_switch L G 10 m = readf (submsg L (decode_tc_bank_DenomOwner L G)) (\<lambda>v. m\<lparr>tc_bank_QueryDenomOwnersResponse.denomOwners := tc_bank_QueryDenomOwnersResponse.denomOwners m @ [v]\<rparr>)"
  "tc_bank_QueryDenomOwnersResponse_switch L G 18 m = readf (submsg L (decode_tc_PageResponse L G)) (\<lambda>v. m\<lparr>tc_bank_QueryDenomOwnersResponse.pagination := Some v\<rparr>)"
  by (simp_all add: tc_bank_QueryDenomOwnersResponse_switch_def)

context long_wire_laws
begin

lemma tc_bank_QueryBalanceRequest_codec: "message_codec L F out inp (encode_tc_bank_QueryBalanceRequest L) (tc_bank_QueryBalanceRequest_switch L G) createBase_tc_bank_QueryBalanceRequest (wf_tc_bank_QueryBalanceRequest L)"
proof unfold_locales
  show good: "good_sw (tc_bank_QueryBalanceRequest_switch L G)"
    unfolding tc_bank_QueryBalanceRequest_switch_def by (intro good_swI fwd_rules)
  fix m assume "wf_tc_bank_QueryBalanceRequest L m"
  then show "codes (tc_bank_QueryBalanceRequest_switch L G) (encode_tc_bank_QueryBalanceRequest L m) createBase_tc_bank_QueryBalanceRequest m"
    unfolding encode_tc_bank_QueryBalanceRequest_def wf_tc_bank_QueryBalanceRequest_def
    by (elim conjE)
      (rule codes_Cons codes_Nil [OF tc_bank_QueryBalanceRequest.equality] codec_rules
        codes_when [where tag = 10 and u = tc_bank_QueryBalanceRequest.address'_update and op = "r_string L", OF good]
        codes_when [where tag = 18 and u = tc_bank_QueryBalanceRequest.denom_update and op = "r_string L", OF good]
      | assumption | (simp add: tc_bank_QueryBalanceRequest_tags createBase_tc_bank_QueryBalanceRequest_def; fail))+
qed

lemmas tc_bank_QueryBalanceRequest_roundtrip = message_codec.roundtrip [OF tc_bank_QueryBalanceRequest_codec, folded decode_tc_bank_QueryBalanceRequest_def]

lemmas tc_bank_QueryBalanceRequest_returns = message_codec.decode_returns [OF tc_bank_QueryBalanceRequest_codec, folded decode_tc_bank_QueryBalanceRequest_def]

lemma tc_bank_QueryBalanceResponse_codec: "message_codec L F out inp (encode_tc_bank_QueryBalanceResponse L) (tc_bank_QueryBalanceResponse_switch L G) createBase_tc_bank_QueryBalanceResponse (wf_tc_bank_QueryBalanceResponse L)"
proof unfold_locales
  show good: "good_sw (tc_bank_QueryBalanceResponse_switch L G)"
    unfolding tc_bank_QueryBalanceResponse_switch_def by (intro good_swI fwd_rules)
  fix m assume "wf_tc_bank_QueryBalanceResponse L m"
  then show "codes (tc_bank_QueryBalanceResponse_switch L G) (encode_tc_bank_QueryBalanceResponse L m) createBase_tc_bank_QueryBalanceResponse m"
    unfolding encode_tc_bank_QueryBalanceResponse_def wf_tc_bank_QueryBalanceResponse_def tc_Coin_eqs(2)
    by (-)
      (rule codes_Cons codes_Nil [OF tc_bank_QueryBalanceResponse.equality] codec_rules
        codes_some [where tag = 10 and u = tc_bank_QueryBalanceResponse.balance_update and op = "submsg L (decode_tc_Coin L G)", OF good]
      | assumption | (simp add: tc_bank_QueryBalanceResponse_tags createBase_tc_bank_QueryBalanceResponse_def; fail))+
qed

lemmas tc_bank_QueryBalanceResponse_roundtrip = message_codec.roundtrip [OF tc_bank_QueryBalanceResponse_codec, folded decode_tc_bank_QueryBalanceResponse_def]

lemmas tc_bank_QueryBalanceResponse_returns = message_codec.decode_returns [OF tc_bank_QueryBalanceResponse_codec, folded decode_tc_bank_QueryBalanceResponse_def]

lemma tc_bank_QueryAllBalancesRequest_codec: "message_codec L F out inp (encode_tc_bank_QueryAllBalancesRequest L) (tc_bank_QueryAllBalancesRequest_switch L G) createBase_tc_bank_QueryAllBalancesRequest (wf_tc_bank_QueryAllBalancesRequest L)"
proof unfold_locales
  show good: "good_sw (tc_bank_QueryAllBalancesRequest_switch L G)"
    unfolding tc_bank_QueryAllBalancesRequest_switch_def by (intro good_swI fwd_rules)
  fix m assume "wf_tc_bank_QueryAllBalancesRequest L m"
  then show "codes (tc_bank_QueryAllBalancesRequest_switch L G) (encode_tc_bank_QueryAllBalancesRequest L m) createBase_tc_bank_QueryAllBalancesRequest m"
    unfolding encode_tc_bank_QueryAllBalancesRequest_def wf_tc_bank_QueryAllBalancesRequest_def tc_PageRequest_eqs(2)
    by (elim conjE)
      (rule codes_Cons codes_Nil [OF tc_bank_QueryAllBalancesRequest.equality] codec_rules
        codes_when [where tag = 10 and u = tc_bank_QueryAllBalancesRequest.address'_update and op = "r_string L", OF good]
        codes_some [where tag = 18 and u = tc_bank_QueryAllBalancesRequest.pagination_update and op = "submsg L (decode_tc_PageRequest L G)", OF good]
      | assumption | (simp add: tc_bank_QueryAllBalancesRequest_tags createBase_tc_bank_QueryAllBalancesRequest_def; fail))+
qed

lemmas tc_bank_QueryAllBalancesRequest_roundtrip = message_codec.roundtrip [OF tc_bank_QueryAllBalancesRequest_codec, folded decode_tc_bank_QueryAllBalancesRequest_def]

lemmas tc_bank_QueryAllBalancesRequest_returns = message_codec.decode_returns [OF tc_bank_QueryAllBalancesRequest_codec, folded decode_tc_bank_QueryAllBalancesRequest_def]

lemma tc_bank_QueryAllBalancesResponse_codec: "message_codec L F out inp (encode_tc_bank_QueryAllBalancesResponse L) (tc_bank_QueryAllBalancesResponse_switch L G) createBase_tc_bank_QueryAllBalancesResponse (wf_tc_bank_QueryAllBalancesResponse L)"
proof unfold_locales
  show good: "good_sw (tc_bank_QueryAllBalancesResponse_switch L G)"
    unfolding tc_bank_QueryAllBalancesResponse_switch_def by (intro good_swI fwd_rules)
  fix m assume "wf_tc_bank_QueryAllBalancesResponse L m"
  then show "codes (tc_bank_QueryAllBalancesResponse_switch L G) (encode_tc_bank_QueryAllBalancesResponse L m) createBase_tc_bank_QueryAllBalancesResponse m"
    unfolding encode_tc_bank_QueryAllBalancesResponse_def wf_tc_bank_QueryAllBalancesResponse_def tc_Coin_eqs(2) tc_PageResponse_eqs(2)
    by (elim conjE)
      (rule codes_Cons codes_Nil [OF tc_bank_QueryAllBalancesResponse.equality] codec_rules
        codes_for [where tag = 10 and u = tc_bank_QueryAllBalancesResponse.balances_update and op = "submsg L (decode_tc_Coin L G)", OF good]
        codes_some [where tag = 18 and u = tc_bank_QueryAllBalancesResponse.pagination_update and op = "submsg L (decode_tc_PageResponse L G)", OF good]
      | assumption | (simp add: tc_bank_QueryAllBalancesResponse_tags createBase_tc_bank_QueryAllBalancesResponse_def; fail))+
qed

lemmas tc_bank_QueryAllBalancesResponse_roundtrip = message_codec.roundtrip [OF tc_bank_QueryAllBalancesResponse_codec, folded decode_tc_bank_QueryAllBalancesResponse_def]

lemmas tc_bank_QueryAllBalancesResponse_returns = message_codec.decode_returns [OF tc_bank_QueryAllBalancesResponse_codec, folded decode_tc_bank_QueryAllBalancesResponse_def]

lemma tc_bank_QuerySpendableBalancesRequest_codec: "message_codec L F out inp (encode_tc_bank_QuerySpendableBalancesRequest L) (tc_bank_QuerySpendableBalancesRequest_switch L G) createBase_tc_bank_QuerySpendableBalancesRequest (wf_tc_bank_QuerySpendableBalancesRequest L)"
proof unfold_locales
  show good: "good_sw (tc_bank_QuerySpendableBalancesRequest_switch L G)"
    unfolding tc_bank_QuerySpendableBalancesRequest_switch_def by (intro good_swI fwd_rules)
  fix m assume "wf_tc_bank_QuerySpendableBalancesRequest L m"
  then show "codes (tc_bank_QuerySpendableBalancesRequest_switch L G) (encode_tc_bank_QuerySpendableBalancesRequest L m) createBase_tc_bank_QuerySpendableBalancesRequest m"
    unfolding encode_tc_bank_QuerySpendableBalancesRequest_def wf_tc_bank_QuerySpendableBalancesRequest_def tc_PageRequest_eqs(2)
    by (elim conjE)
      (rule codes_Cons codes_Nil [OF tc_bank_QuerySpendableBalancesRequest.equality] codec_rules
        codes_when [where tag = 10 and u = tc_bank_QuerySpendableBalancesRequest.address'_update and op = "r_string L", OF good]
        codes_some [where tag = 18 and u = tc_bank_QuerySpendableBalancesRequest.pagination_update and op = "submsg L (decode_tc_PageRequest L G)", OF good]
      | assumption | (simp add: tc_bank_QuerySpendableBalancesRequest_tags createBase_tc_bank_QuerySpendableBalancesRequest_def; fail))+
qed

lemmas tc_bank_QuerySpendableBalancesRequest_roundtrip = message_codec.roundtrip [OF tc_bank_QuerySpendableBalancesRequest_codec, folded decode_tc_bank_QuerySpendableBalancesRequest_def]

lemmas tc_bank_QuerySpendableBalancesRequest_returns = message_codec.decode_returns [OF tc_bank_QuerySpendableBalancesRequest_codec, folded decode_tc_bank_QuerySpendableBalancesRequest_def]

lemma tc_bank_QuerySpendableBalancesResponse_codec: "message_codec L F out inp (encode_tc_bank_QuerySpendableBalancesResponse L) (tc_bank_QuerySpendableBalancesResponse_switch L G) createBase_tc_bank_QuerySpendableBalancesResponse (wf_tc_bank_QuerySpendableBalancesResponse L)"
proof unfold_locales
  show good: "good_sw (tc_bank_QuerySpendableBalancesResponse_switch L G)"
    unfolding tc_bank_QuerySpendableBalancesResponse_switch_def by (intro good_swI fwd_rules)
  fix m assume "wf_tc_bank_QuerySpendableBalancesResponse L m"
  then show "codes (tc_bank_QuerySpendableBalancesResponse_switch L G) (encode_tc_bank_QuerySpendableBalancesResponse L m) createBase_tc_bank_QuerySpendableBalancesResponse m"
    unfolding encode_tc_bank_QuerySpendableBalancesResponse_def wf_tc_bank_QuerySpendableBalancesResponse_def tc_Coin_eqs(2) tc_PageResponse_eqs(2)
    by (elim conjE)
      (rule codes_Cons codes_Nil [OF tc_bank_QuerySpendableBalancesResponse.equality] codec_rules
        codes_for [where tag = 10 and u = tc_bank_QuerySpendableBalancesResponse.balances_update and op = "submsg L (decode_tc_Coin L G)", OF good]
        codes_some [where tag = 18 and u = tc_bank_QuerySpendableBalancesResponse.pagination_update and op = "submsg L (decode_tc_PageResponse L G)", OF good]
      | assumption | (simp add: tc_bank_QuerySpendableBalancesResponse_tags createBase_tc_bank_QuerySpendableBalancesResponse_def; fail))+
qed

lemmas tc_bank_QuerySpendableBalancesResponse_roundtrip = message_codec.roundtrip [OF tc_bank_QuerySpendableBalancesResponse_codec, folded decode_tc_bank_QuerySpendableBalancesResponse_def]

lemmas tc_bank_QuerySpendableBalancesResponse_returns = message_codec.decode_returns [OF tc_bank_QuerySpendableBalancesResponse_codec, folded decode_tc_bank_QuerySpendableBalancesResponse_def]

lemma tc_bank_QueryTotalSupplyRequest_codec: "message_codec L F out inp (encode_tc_bank_QueryTotalSupplyRequest L) (tc_bank_QueryTotalSupplyRequest_switch L G) createBase_tc_bank_QueryTotalSupplyRequest (wf_tc_bank_QueryTotalSupplyRequest L)"
proof unfold_locales
  show good: "good_sw (tc_bank_QueryTotalSupplyRequest_switch L G)"
    unfolding tc_bank_QueryTotalSupplyRequest_switch_def by (intro good_swI fwd_rules)
  fix m assume "wf_tc_bank_QueryTotalSupplyRequest L m"
  then show "codes (tc_bank_QueryTotalSupplyRequest_switch L G) (encode_tc_bank_QueryTotalSupplyRequest L m) createBase_tc_bank_QueryTotalSupplyRequest m"
    unfolding encode_tc_bank_QueryTotalSupplyRequest_def wf_tc_bank_QueryTotalSupplyRequest_def tc_PageRequest_eqs(2)
    by (-)
      (rule codes_Cons codes_Nil [OF tc_bank_QueryTotalSupplyRequest.equality] codec_rules
        codes_some [where tag = 10 and u = tc_bank_QueryTotalSupplyRequest.pagination_update and op = "submsg L (decode_tc_PageRequest L G)", OF good]
      | assumption | (simp add: tc_bank_QueryTotalSupplyRequest_tags createBase_tc_bank_QueryTotalSupplyRequest_def; fail))+
qed

lemmas tc_bank_QueryTotalSupplyRequest_roundtrip = message_codec.roundtrip [OF tc_bank_QueryTotalSupplyRequest_codec, folded decode_tc_bank_QueryTotalSupplyRequest_def]

lemmas tc_bank_QueryTotalSupplyRequest_returns = message_codec.decode_returns [OF tc_bank_QueryTotalSupplyRequest_codec, folded decode_tc_bank_QueryTotalSupplyRequest_def]

lemma tc_bank_QueryTotalSupplyResponse_codec: "message_codec L F out inp (encode_tc_bank_QueryTotalSupplyResponse L) (tc_bank_QueryTotalSupplyResponse_switch L G) createBase_tc_bank_QueryTotalSupplyResponse (wf_tc_bank_QueryTotalSupplyResponse L)"
proof unfold_locales
  show good: "good_sw (tc_bank_QueryTotalSupplyResponse_switch L G)"
    unfolding tc_bank_QueryTotalSupplyResponse_switch_def by (intro good_swI fwd_rules)
  fix m assume "wf_tc_bank_QueryTotalSupplyResponse L m"
  then show "codes (tc_bank_QueryTotalSupplyResponse_switch L G) (encode_tc_bank_QueryTotalSupplyResponse L m) createBase_tc_bank_QueryTotalSupplyResponse m"
    unfolding encode_tc_bank_QueryTotalSupplyResponse_def wf_tc_bank_QueryTotalSupplyResponse_def tc_Coin_eqs(2) tc_PageResponse_eqs(2)
    by (elim conjE)
      (rule codes_Cons codes_Nil [OF tc_bank_QueryTotalSupplyResponse.equality] codec_rules
        codes_for [where tag = 10 and u = tc_bank_QueryTotalSupplyResponse.supply'_update and op = "submsg L (decode_tc_Coin L G)", OF good]
        codes_some [where tag = 18 and u = tc_bank_QueryTotalSupplyResponse.pagination_update and op = "submsg L (decode_tc_PageResponse L G)", OF good]
      | assumption | (simp add: tc_bank_QueryTotalSupplyResponse_tags createBase_tc_bank_QueryTotalSupplyResponse_def; fail))+
qed

lemmas tc_bank_QueryTotalSupplyResponse_roundtrip = message_codec.roundtrip [OF tc_bank_QueryTotalSupplyResponse_codec, folded decode_tc_bank_QueryTotalSupplyResponse_def]

lemmas tc_bank_QueryTotalSupplyResponse_returns = message_codec.decode_returns [OF tc_bank_QueryTotalSupplyResponse_codec, folded decode_tc_bank_QueryTotalSupplyResponse_def]

lemma tc_bank_QuerySupplyOfRequest_codec: "message_codec L F out inp (encode_tc_bank_QuerySupplyOfRequest L) (tc_bank_QuerySupplyOfRequest_switch L G) createBase_tc_bank_QuerySupplyOfRequest (wf_tc_bank_QuerySupplyOfRequest L)"
proof unfold_locales
  show good: "good_sw (tc_bank_QuerySupplyOfRequest_switch L G)"
    unfolding tc_bank_QuerySupplyOfRequest_switch_def by (intro good_swI fwd_rules)
  fix m assume "wf_tc_bank_QuerySupplyOfRequest L m"
  then show "codes (tc_bank_QuerySupplyOfRequest_switch L G) (encode_tc_bank_QuerySupplyOfRequest L m) createBase_tc_bank_QuerySupplyOfRequest m"
    unfolding encode_tc_bank_QuerySupplyOfRequest_def wf_tc_bank_QuerySupplyOfRequest_def
    by (-)
      (rule codes_Cons codes_Nil [OF tc_bank_QuerySupplyOfRequest.equality] codec_rules
        codes_when [where tag = 10 and u = tc_bank_QuerySupplyOfRequest.denom_update and op = "r_string L", OF good]
      | assumption | (simp add: tc_bank_QuerySupplyOfRequest_tags createBase_tc_bank_QuerySupplyOfRequest_def; fail))+
qed

lemmas tc_bank_QuerySupplyOfRequest_roundtrip = message_codec.roundtrip [OF tc_bank_QuerySupplyOfRequest_codec, folded decode_tc_bank_QuerySupplyOfRequest_def]

lemmas tc_bank_QuerySupplyOfRequest_returns = message_codec.decode_returns [OF tc_bank_QuerySupplyOfRequest_codec, folded decode_tc_bank_QuerySupplyOfRequest_def]

lemma tc_bank_QuerySupplyOfResponse_codec: "message_codec L F out inp (encode_tc_bank_QuerySupplyOfResponse L) (tc_bank_QuerySupplyOfResponse_switch L G) createBase_tc_bank_QuerySupplyOfResponse (wf_tc_bank_QuerySupplyOfResponse L)"
proof unfold_locales
  show good: "good_sw (tc_bank_QuerySupplyOfResponse_switch L G)"
    unfolding tc_bank_QuerySupplyOfResponse_switch_def by (intro good_swI fwd_rules)
  fix m assume "wf_tc_bank_QuerySupplyOfResponse L m"
  then show "codes (tc_bank_QuerySupplyOfResponse_switch L G) (encode_tc_bank_QuerySupplyOfResponse L m) createBase_tc_bank_QuerySupplyOfResponse m"
    unfolding encode_tc_bank_QuerySupplyOfResponse_def wf_tc_bank_QuerySupplyOfResponse_def tc_Coin_eqs(2)
    by (-)
      (rule codes_Cons codes_Nil [OF tc_bank_QuerySupplyOfResponse.equality] codec_rules
        codes_some [where tag = 10 and u = tc_bank_QuerySupplyOfResponse.amount_update and op = "submsg L (decode_tc_Coin L G)", OF good]
      | assumption | (simp add: tc_bank_QuerySupplyOfResponse_tags createBase_tc_bank_QuerySupplyOfResponse_def; fail))+
qed

lemmas tc_bank_QuerySupplyOfResponse_roundtrip = message_codec.roundtrip [OF tc_bank_QuerySupplyOfResponse_codec, folded decode_tc_bank_QuerySupplyOfResponse_def]

lemmas tc_bank_QuerySupplyOfResponse_returns = message_codec.decode_returns [OF tc_bank_QuerySupplyOfResponse_codec, folded decode_tc_bank_QuerySupplyOfResponse_def]

lemma tc_bank_QueryParamsRequest_codec: "message_codec L F out inp (encode_tc_bank_QueryParamsRequest L) (tc_bank_QueryParamsRequest_switch L G) createBase_tc_bank_QueryParamsRequest (wf_tc_bank_QueryParamsRequest L)"
proof unfold_locales
  show good: "good_sw (tc_bank_QueryParamsRequest_switch L G)"
    unfolding tc_bank_QueryParamsRequest_switch_def by (intro good_swI fwd_rules)
  fix m assume "wf_tc_bank_QueryParamsRequest L m"
  then show "codes (tc_bank_QueryParamsRequest_switch L G) (encode_tc_bank_QueryParamsRequest L m) createBase_tc_bank_QueryParamsRequest m"
    unfolding encode_tc_bank_QueryParamsRequest_def wf_tc_bank_QueryParamsRequest_def
    by (cases m) (simp add: createBase_tc_bank_QueryParamsRequest_def codes_Nil [simplified])
qed

lemmas tc_bank_QueryParamsRequest_roundtrip = message_codec.roundtrip [OF tc_bank_QueryParamsRequest_codec, folded decode_tc_bank_QueryParamsRequest_def]

lemmas tc_bank_QueryParamsRequest_returns = message_codec.decode_returns [OF tc_bank_QueryParamsRequest_codec, folded decode_tc_bank_QueryParamsRequest_def]

lemma tc_bank_QueryParamsResponse_codec: "message_codec L F out inp (encode_tc_bank_QueryParamsResponse L) (tc_bank_QueryParamsResponse_switch L G) createBase_tc_bank_QueryParamsResponse (wf_tc_bank_QueryParamsResponse L)"
proof unfold_locales
  show good: "good_sw (tc_bank_QueryParamsResponse_switch L G)"
    unfolding tc_bank_QueryParamsResponse_switch_def by (intro good_swI fwd_rules tc_bank_Params_good)
  fix m assume "wf_tc_bank_QueryParamsResponse L m"
  then show "codes (tc_bank_QueryParamsResponse_switch L G) (encode_tc_bank_QueryParamsResponse L m) createBase_tc_bank_QueryParamsResponse m"
    unfolding encode_tc_bank_QueryParamsResponse_def wf_tc_bank_QueryParamsResponse_def
    by (-)
      (rule codes_Cons codes_Nil [OF tc_bank_QueryParamsResponse.equality] codec_rules tc_bank_Params_carries
        codes_some [where tag = 10 and u = tc_bank_QueryParamsResponse.params_update and op = "submsg L (decode_tc_bank_Params L G)", OF good]
      | assumption | (simp add: tc_bank_QueryParamsResponse_tags createBase_tc_bank_QueryParamsResponse_def; fail))+
qed

lemmas tc_bank_QueryParamsResponse_roundtrip = message_codec.roundtrip [OF tc_bank_QueryParamsResponse_codec, folded decode_tc_bank_QueryParamsResponse_def]

lemmas tc_bank_QueryParamsResponse_returns = message_codec.decode_returns [OF tc_bank_QueryParamsResponse_codec, folded decode_tc_bank_QueryParamsResponse_def]

lemma tc_bank_QueryDenomsMetadataRequest_codec: "message_codec L F out inp (encode_tc_bank_QueryDenomsMetadataRequest L) (tc_bank_QueryDenomsMetadataRequest_switch L G) createBase_tc_bank_QueryDenomsMetadataRequest (wf_tc_bank_QueryDenomsMetadataRequest L)"
proof unfold_locales
  show good: "good_sw (tc_bank_QueryDenomsMetadataRequest_switch L G)"
    unfolding tc_bank_QueryDenomsMetadataRequest_switch_def by (intro good_swI fwd_rules)
  fix m assume "wf_tc_bank_QueryDenomsMetadataRequest L m"
  then show "codes (tc_bank_QueryDenomsMetadataRequest_switch L G) (encode_tc_bank_QueryDenomsMetadataRequest L m) createBase_tc_bank_QueryDenomsMetadataRequest m"
    unfolding encode_tc_bank_QueryDenomsMetadataRequest_def wf_tc_bank_QueryDenomsMetadataRequest_def tc_PageRequest_eqs(2)
    by (-)
      (rule codes_Cons codes_Nil [OF tc_bank_QueryDenomsMetadataRequest.equality] codec_rules
        codes_some [where tag = 10 and u = tc_bank_QueryDenomsMetadataRequest.pagination_update and op = "submsg L (decode_tc_PageRequest L G)", OF good]
      | assumption | (simp add: tc_bank_QueryDenomsMetadataRequest_tags createBase_tc_bank_QueryDenomsMetadataRequest_def; fail))+
qed

lemmas tc_bank_QueryDenomsMetadataRequest_roundtrip = message_codec.roundtrip [OF tc_bank_QueryDenomsMetadataRequest_codec, folded decode_tc_bank_QueryDenomsMetadataRequest_def]

lemmas tc_bank_QueryDenomsMetadataRequest_returns = message_codec.decode_returns [OF tc_bank_QueryDenomsMetadataRequest_codec, folded decode_tc_bank_QueryDenomsMetadataRequest_def]

lemma tc_bank_QueryDenomsMetadataResponse_codec: "message_codec L F out inp (encode_tc_bank_QueryDenomsMetadataResponse L) (tc_bank_QueryDenomsMetadataResponse_switch L G) createBase_tc_bank_QueryDenomsMetadataResponse (wf_tc_bank_QueryDenomsMetadataResponse L)"
proof unfold_locales
  show good: "good_sw (tc_bank_QueryDenomsMetadataResponse_switch L G)"
    unfolding tc_bank_QueryDenomsMetadataResponse_switch_def by (intro good_swI fwd_rules tc_bank_Metadata_good)
  fix m assume "wf_tc_bank_QueryDenomsMetadataResponse L m"
  then show "codes (tc_bank_QueryDenomsMetadataResponse_switch L G) (encode_tc_bank_QueryDenomsMetadataResponse L m) createBase_tc_bank_QueryDenomsMetadataResponse m"
    unfolding encode_tc_bank_QueryDenomsMetadataResponse_def wf_tc_bank_QueryDenomsMetadataResponse_def tc_PageResponse_eqs(2)
    by (elim conjE)
      (rule codes_Cons codes_Nil [OF tc_bank_QueryDenomsMetadataResponse.equality] codec_rules tc_bank_Metadata_carries
        codes_for [where tag = 10 and u = tc_bank_QueryDenomsMetadataResponse.metadatas_update and op = "submsg L (decode_tc_bank_Metadata L G)", OF good]
        codes_some [where tag = 18 and u = tc_bank_QueryDenomsMetadataResponse.pagination_update and op = "submsg L (decode_tc_PageResponse L G)", OF good]
      | assumption | (simp add: tc_bank_QueryDenomsMetadataResponse_tags createBase_tc_bank_QueryDenomsMetadataResponse_def; fail))+
qed

lemmas tc_bank_QueryDenomsMetadataResponse_roundtrip = message_codec.roundtrip [OF tc_bank_QueryDenomsMetadataResponse_codec, folded decode_tc_bank_QueryDenomsMetadataResponse_def]

lemmas tc_bank_QueryDenomsMetadataResponse_returns = message_codec.decode_returns [OF tc_bank_QueryDenomsMetadataResponse_codec, folded decode_tc_bank_QueryDenomsMetadataResponse_def]

lemma tc_bank_QueryDenomMetadataRequest_codec: "message_codec L F out inp (encode_tc_bank_QueryDenomMetadataRequest L) (tc_bank_QueryDenomMetadataRequest_switch L G) createBase_tc_bank_QueryDenomMetadataRequest (wf_tc_bank_QueryDenomMetadataRequest L)"
proof unfold_locales
  show good: "good_sw (tc_bank_QueryDenomMetadataRequest_switch L G)"
    unfolding tc_bank_QueryDenomMetadataRequest_switch_def by (intro good_swI fwd_rules)
  fix m assume "wf_tc_bank_QueryDenomMetadataRequest L m"
  then show "codes (tc_bank_QueryDenomMetadataRequest_switch L G) (encode_tc_bank_QueryDenomMetadataRequest L m) createBase_tc_bank_QueryDenomMetadataRequest m"
    unfolding encode_tc_bank_QueryDenomMetadataRequest_def wf_tc_bank_QueryDenomMetadataRequest_def
    by (-)
      (rule codes_Cons codes_Nil [OF tc_bank_QueryDenomMetadataRequest.equality] codec_rules
        codes_when [where tag = 10 and u = tc_bank_QueryDenomMetadataRequest.denom_update and op = "r_string L", OF good]
      | assumption | (simp add: tc_bank_QueryDenomMetadataRequest_tags createBase_tc_bank_QueryDenomMetadataRequest_def; fail))+
qed

lemmas tc_bank_QueryDenomMetadataRequest_roundtrip = message_codec.roundtrip [OF tc_bank_QueryDenomMetadataRequest_codec, folded decode_tc_bank_QueryDenomMetadataRequest_def]

lemmas tc_bank_QueryDenomMetadataRequest_returns = message_codec.decode_returns [OF tc_bank_QueryDenomMetadataRequest_codec, folded decode_tc_bank_QueryDenomMetadataRequest_def]

lemma tc_bank_QueryDenomMetadataResponse_codec: "message_codec L F out inp (encode_tc_bank_QueryDenomMetadataResponse L) (tc_bank_QueryDenomMetadataResponse_switch L G) createBase_tc_bank_QueryDenomMetadataResponse (wf_tc_bank_QueryDenomMetadataResponse L)"
proof unfold_locales
  show good: "good_sw (tc_bank_QueryDenomMetadataResponse_switch L G)"
    unfolding tc_bank_QueryDenomMetadataResponse_switch_def by (intro good_swI fwd_rules tc_bank_Metadata_good)
  fix m assume "wf_tc_bank_QueryDenomMetadataResponse L m"
  then show "codes (tc_bank_QueryDenomMetadataResponse_switch L G) (encode_tc_bank_QueryDenomMetadataResponse L m) createBase_tc_bank_QueryDenomMetadataResponse m"
    unfolding encode_tc_bank_QueryDenomMetadataResponse_def wf_tc_bank_QueryDenomMetadataResponse_def
    by (-)
      (rule codes_Cons codes_Nil [OF tc_bank_QueryDenomMetadataResponse.equality] codec_rules tc_bank_Metadata_carries
        codes_some [where tag = 10 and u = tc_bank_QueryDenomMetadataResponse.metadata_update and op = "submsg L (decode_tc_bank_Metadata L G)", OF good]
      | assumption | (simp add: tc_bank_QueryDenomMetadataResponse_tags createBase_tc_bank_QueryDenomMetadataResponse_def; fail))+
qed

lemmas tc_bank_QueryDenomMetadataResponse_roundtrip = message_codec.roundtrip [OF tc_bank_QueryDenomMetadataResponse_codec, folded decode_tc_bank_QueryDenomMetadataResponse_def]

lemmas tc_bank_QueryDenomMetadataResponse_returns = message_codec.decode_returns [OF tc_bank_QueryDenomMetadataResponse_codec, folded decode_tc_bank_QueryDenomMetadataResponse_def]

lemma tc_bank_QueryDenomOwnersRequest_codec: "message_codec L F out inp (encode_tc_bank_QueryDenomOwnersRequest L) (tc_bank_QueryDenomOwnersRequest_switch L G) createBase_tc_bank_QueryDenomOwnersRequest (wf_tc_bank_QueryDenomOwnersRequest L)"
proof unfold_locales
  show good: "good_sw (tc_bank_QueryDenomOwnersRequest_switch L G)"
    unfolding tc_bank_QueryDenomOwnersRequest_switch_def by (intro good_swI fwd_rules)
  fix m assume "wf_tc_bank_QueryDenomOwnersRequest L m"
  then show "codes (tc_bank_QueryDenomOwnersRequest_switch L G) (encode_tc_bank_QueryDenomOwnersRequest L m) createBase_tc_bank_QueryDenomOwnersRequest m"
    unfolding encode_tc_bank_QueryDenomOwnersRequest_def wf_tc_bank_QueryDenomOwnersRequest_def tc_PageRequest_eqs(2)
    by (elim conjE)
      (rule codes_Cons codes_Nil [OF tc_bank_QueryDenomOwnersRequest.equality] codec_rules
        codes_when [where tag = 10 and u = tc_bank_QueryDenomOwnersRequest.denom_update and op = "r_string L", OF good]
        codes_some [where tag = 18 and u = tc_bank_QueryDenomOwnersRequest.pagination_update and op = "submsg L (decode_tc_PageRequest L G)", OF good]
      | assumption | (simp add: tc_bank_QueryDenomOwnersRequest_tags createBase_tc_bank_QueryDenomOwnersRequest_def; fail))+
qed

lemmas tc_bank_QueryDenomOwnersRequest_roundtrip = message_codec.roundtrip [OF tc_bank_QueryDenomOwnersRequest_codec, folded decode_tc_bank_QueryDenomOwnersRequest_def]

lemmas tc_bank_QueryDenomOwnersRequest_returns = message_codec.decode_returns [OF tc_bank_QueryDenomOwnersRequest_codec, folded decode_tc_bank_QueryDenomOwnersRequest_def]

lemma tc_bank_DenomOwner_codec: "message_codec L F out inp (encode_tc_bank_DenomOwner L) (tc_bank_DenomOwner_switch L G) createBase_tc_bank_DenomOwner (wf_tc_bank_DenomOwner L)"
proof unfold_locales
  show good: "good_sw (tc_bank_DenomOwner_switch L G)"
    unfolding tc_bank_DenomOwner_switch_def by (intro good_swI fwd_rules)
  fix m assume "wf_tc_bank_DenomOwner L m"
  then show "codes (tc_bank_DenomOwner_switch L G) (encode_tc_bank_DenomOwner L m) createBase_tc_bank_DenomOwner m"
    unfolding encode_tc_bank_DenomOwner_def wf_tc_bank_DenomOwner_def tc_Coin_eqs(2)
    by (elim conjE)
      (rule codes_Cons codes_Nil [OF tc_bank_DenomOwner.equality] codec_rules
        codes_when [where tag = 10 and u = tc_bank_DenomOwner.address'_update and op = "r_string L", OF good]
        codes_some [where tag = 18 and u = tc_bank_DenomOwner.balance_update and op = "submsg L (decode_tc_Coin L G)", OF good]
      | assumption | (simp add: tc_bank_DenomOwner_tags createBase_tc_bank_DenomOwner_def; fail))+
qed

lemmas tc_bank_DenomOwner_carries =
  message_codec.opt_carries [OF tc_bank_DenomOwner_codec, folded decode_tc_bank_DenomOwner_def]
  message_codec.list_carries [OF tc_bank_DenomOwner_codec, folded decode_tc_bank_DenomOwner_def]

lemmas tc_bank_DenomOwner_good = message_codec.op_good [OF tc_bank_DenomOwner_codec, folded decode_tc_bank_DenomOwner_def]

lemmas tc_bank_DenomOwner_roundtrip = message_codec.roundtrip [OF tc_bank_DenomOwner_codec, folded decode_tc_bank_DenomOwner_def]

lemmas tc_bank_DenomOwner_returns = message_codec.decode_returns [OF tc_bank_DenomOwner_codec, folded decode_tc_bank_DenomOwner_def]

lemma tc_bank_QueryDenomOwnersResponse_codec: "message_codec L F out inp (encode_tc_bank_QueryDenomOwnersResponse L) (tc_bank_QueryDenomOwnersResponse_switch L G) createBase_tc_bank_QueryDenomOwnersResponse (wf_tc_bank_QueryDenomOwnersResponse L)"
proof unfold_locales
  show good: "good_sw (tc_bank_QueryDenomOwnersResponse_switch L G)"
    unfolding tc_bank_QueryDenomOwnersResponse_switch_def by (intro good_swI fwd_rules tc_bank_DenomOwner_good)
  fix m assume "wf_tc_bank_QueryDenomOwnersResponse L m"
  then show "codes (tc_bank_QueryDenomOwnersResponse_switch L G) (encode_tc_bank_QueryDenomOwnersResponse L m) createBase_tc_bank_QueryDenomOwnersResponse m"
    unfolding encode_tc_bank_QueryDenomOwnersResponse_def wf_tc_bank_QueryDenomOwnersResponse_def tc_PageResponse_eqs(2)
    by (elim conjE)
      (rule codes_Cons codes_Nil [OF tc_bank_QueryDenomOwnersResponse.equality] codec_rules tc_bank_DenomOwner_carries
        codes_for [where tag = 10 and u = tc_bank_QueryDenomOwnersResponse.denomOwners_update and op = "submsg L (decode_tc_bank_DenomOwner L G)", OF good]
        codes_some [where tag = 18 and u = tc_bank_QueryDenomOwnersResponse.pagination_update and op = "submsg L (decode_tc_PageResponse L G)", OF good]
      | assumption | (simp add: tc_bank_QueryDenomOwnersResponse_tags createBase_tc_bank_QueryDenomOwnersResponse_def; fail))+
qed

lemmas tc_bank_QueryDenomOwnersResponse_roundtrip = message_codec.roundtrip [OF tc_bank_QueryDenomOwnersResponse_codec, folded decode_tc_bank_QueryDenomOwnersResponse_def]

lemmas tc_bank_QueryDenomOwnersResponse_returns = message_codec.decode_returns [OF tc_bank_QueryDenomOwnersResponse_codec, folded decode_tc_bank_QueryDenomOwnersResponse_def]

end

lemma tc_bank_QueryBalanceRequest_json: "message_json toJSON_tc_bank_QueryBalanceRequest fromJSON_tc_bank_QueryBalanceRequest wfj_tc_bank_QueryBalanceRequest"
proof unfold_locales
  fix h m
  assume "wfj_tc_bank_QueryBalanceRequest m"
  then show "json_rt (toJSON_tc_bank_QueryBalanceRequest h) (fromJSON_tc_bank_QueryBalanceRequest h) m"
    unfolding toJSON_tc_bank_QueryBalanceRequest_def fromJSON_tc_bank_QueryBalanceRequest_def wfj_tc_bank_QueryBalanceRequest_def
    by (-) (rule json_rtI json_rules | assumption | (simp; fail))+
qed

lemma tc_bank_QueryBalanceResponse_json: "message_json toJSON_tc_bank_QueryBalanceResponse fromJSON_tc_bank_QueryBalanceResponse wfj_tc_bank_QueryBalanceResponse"
proof unfold_locales
  fix h m
  assume "wfj_tc_bank_QueryBalanceResponse m"
  then show "json_rt (toJSON_tc_bank_QueryBalanceResponse h) (fromJSON_tc_bank_QueryBalanceResponse h) m"
    unfolding toJSON_tc_bank_QueryBalanceResponse_def fromJSON_tc_bank_QueryBalanceResponse_def wfj_tc_bank_QueryBalanceResponse_def
    by (-) (rule json_rtI json_rules | assumption | (simp; fail))+
qed

lemma tc_bank_QueryAllBalancesRequest_json: "message_json toJSON_tc_bank_QueryAllBalancesRequest fromJSON_tc_bank_QueryAllBalancesRequest wfj_tc_bank_QueryAllBalancesRequest"
proof unfold_locales
  fix h m
  assume "wfj_tc_bank_QueryAllBalancesRequest m"
  then show "json_rt (toJSON_tc_bank_QueryAllBalancesRequest h) (fromJSON_tc_bank_QueryAllBalancesRequest h) m"
    unfolding toJSON_tc_bank_QueryAllBalancesRequest_def fromJSON_tc_bank_QueryAllBalancesRequest_def wfj_tc_bank_QueryAllBalancesRequest_def
    by (-) (rule json_rtI json_rules | assumption | (simp; fail))+
qed

lemma tc_bank_QueryAllBalancesResponse_json: "message_json toJSON_tc_bank_QueryAllBalancesResponse fromJSON_tc_bank_QueryAllBalancesResponse wfj_tc_bank_QueryAllBalancesResponse"
proof unfold_locales
  fix h m
  assume "wfj_tc_bank_QueryAllBalancesResponse m"
  then show "json_rt (toJSON_tc_bank_QueryAllBalancesResponse h) (fromJSON_tc_bank_QueryAllBalancesResponse h) m"
    unfolding toJSON_tc_bank_QueryAllBalancesResponse_def fromJSON_tc_bank_QueryAllBalancesResponse_def wfj_tc_bank_QueryAllBalancesResponse_def
    by (elim conjE) (rule json_rtI json_rules | assumption | (simp; fail))+
qed

lemma tc_bank_QuerySpendableBalancesRequest_json: "message_json toJSON_tc_bank_QuerySpendableBalancesRequest fromJSON_tc_bank_QuerySpendableBalancesRequest wfj_tc_bank_QuerySpendableBalancesRequest"
proof unfold_locales
  fix h m
  assume "wfj_tc_bank_QuerySpendableBalancesRequest m"
  then show "json_rt (toJSON_tc_bank_QuerySpendableBalancesRequest h) (fromJSON_tc_bank_QuerySpendableBalancesRequest h) m"
    unfolding toJSON_tc_bank_QuerySpendableBalancesRequest_def fromJSON_tc_bank_QuerySpendableBalancesRequest_def wfj_tc_bank_QuerySpendableBalancesRequest_def
    by (-) (rule json_rtI json_rules | assumption | (simp; fail))+
qed

lemma tc_bank_QuerySpendableBalancesResponse_json: "message_json toJSON_tc_bank_QuerySpendableBalancesResponse fromJSON_tc_bank_QuerySpendableBalancesResponse wfj_tc_bank_QuerySpendableBalancesResponse"
proof unfold_locales
  fix h m
  assume "wfj_tc_bank_QuerySpendableBalancesResponse m"
  then show "json_rt (toJSON_tc_bank_QuerySpendableBalancesResponse h) (fromJSON_tc_bank_QuerySpendableBalancesResponse h) m"
    unfolding toJSON_tc_bank_QuerySpendableBalancesResponse_def fromJSON_tc_bank_QuerySpendableBalancesResponse_def wfj_tc_bank_QuerySpendableBalancesResponse_def
    by (elim conjE) (rule json_rtI json_rules | assumption | (simp; fail))+
qed

lemma tc_bank_QueryTotalSupplyRequest_json: "message_json toJSON_tc_bank_QueryTotalSupplyRequest fromJSON_tc_bank_QueryTotalSupplyRequest wfj_tc_bank_QueryTotalSupplyRequest"
proof unfold_locales
  fix h m
  assume "wfj_tc_bank_QueryTotalSupplyRequest m"
  then show "json_rt (toJSON_tc_bank_QueryTotalSupplyRequest h) (fromJSON_tc_bank_QueryTotalSupplyRequest h) m"
    unfolding toJSON_tc_bank_QueryTotalSupplyRequest_def fromJSON_tc_bank_QueryTotalSupplyRequest_def wfj_tc_bank_QueryTotalSupplyRequest_def
    by (-) (rule json_rtI json_rules | assumption | (simp; fail))+
qed

lemma tc_bank_QueryTotalSupplyResponse_json: "message_json toJSON_tc_bank_QueryTotalSupplyResponse fromJSON_tc_bank_QueryTotalSupplyResponse wfj_tc_bank_QueryTotalSupplyResponse"
proof unfold_locales
  fix h m
  assume "wfj_tc_bank_QueryTotalSupplyResponse m"
  then show "json_rt (toJSON_tc_bank_QueryTotalSupplyResponse h) (fromJSON_tc_bank_QueryTotalSupplyResponse h) m"
    unfolding toJSON_tc_bank_QueryTotalSupplyResponse_def fromJSON_tc_bank_QueryTotalSupplyResponse_def wfj_tc_bank_QueryTotalSupplyResponse_def
    by (elim conjE) (rule json_rtI json_rules | assumption | (simp; fail))+
qed

lemma tc_bank_QuerySupplyOfRequest_json: "message_json toJSON_tc_bank_QuerySupplyOfRequest fromJSON_tc_bank_QuerySupplyOfRequest wfj_tc_bank_QuerySupplyOfRequest"
proof unfold_locales
  fix h m
  assume "wfj_tc_bank_QuerySupplyOfRequest m"
  then show "json_rt (toJSON_tc_bank_QuerySupplyOfRequest h) (fromJSON_tc_bank_QuerySupplyOfRequest h) m"
    unfolding toJSON_tc_bank_QuerySupplyOfRequest_def fromJSON_tc_bank_QuerySupplyOfRequest_def wfj_tc_bank_QuerySupplyOfRequest_def
    by (-) (rule json_rtI json_rules | assumption | (simp; fail))+
qed

lemma tc_bank_QuerySupplyOfResponse_json: "message_json toJSON_tc_bank_QuerySupplyOfResponse fromJSON_tc_bank_QuerySupplyOfResponse wfj_tc_bank_QuerySupplyOfResponse"
proof unfold_locales
  fix h m
  assume "wfj_tc_bank_QuerySupplyOfResponse m"
  then show "json_rt (toJSON_tc_bank_QuerySupplyOfResponse h) (fromJSON_tc_bank_QuerySupplyOfResponse h) m"
    unfolding toJSON_tc_bank_QuerySupplyOfResponse_def fromJSON_tc_bank_QuerySupplyOfResponse_def wfj_tc_bank_QuerySupplyOfResponse_def
    by (-) (rule json_rtI json_rules | assumption | (simp; fail))+
qed

lemma tc_bank_QueryParamsRequest_json: "message_json toJSON_tc_bank_QueryParamsRequest fromJSON_tc_bank_QueryParamsRequest wfj_tc_bank_QueryParamsRequest"
proof unfold_locales
  fix h m
  show "json_rt (toJSON_tc_bank_QueryParamsRequest h) (fromJSON_tc_bank_QueryParamsRequest h) m"
    by (cases m) (simp add: json_rt_def toJSON_tc_bank_QueryParamsRequest_def fromJSON_tc_bank_QueryParamsRequest_def objE_rules(1))
qed

lemma tc_bank_QueryParamsResponse_json: "message_json toJSON_tc_bank_QueryParamsResponse fromJSON_tc_bank_QueryParamsResponse wfj_tc_bank_QueryParamsResponse"
proof unfold_locales
  fix h m
  assume "wfj_tc_bank_QueryParamsResponse m"
  then show "json_rt (toJSON_tc_bank_QueryParamsResponse h) (fromJSON_tc_bank_QueryParamsResponse h) m"
    unfolding toJSON_tc_bank_QueryParamsResponse_def fromJSON_tc_bank_QueryParamsResponse_def wfj_tc_bank_QueryParamsResponse_def
    by (-) (rule json_rtI json_rules tc_bank_Params_json_rules | assumption | (simp; fail))+
qed

lemma tc_bank_QueryDenomsMetadataRequest_json: "message_json toJSON_tc_bank_QueryDenomsMetadataRequest fromJSON_tc_bank_QueryDenomsMetadataRequest wfj_tc_bank_QueryDenomsMetadataRequest"
proof unfold_locales
  fix h m
  assume "wfj_tc_bank_QueryDenomsMetadataRequest m"
  then show "json_rt (toJSON_tc_bank_QueryDenomsMetadataRequest h) (fromJSON_tc_bank_QueryDenomsMetadataRequest h) m"
    unfolding toJSON_tc_bank_QueryDenomsMetadataRequest_def fromJSON_tc_bank_QueryDenomsMetadataRequest_def wfj_tc_bank_QueryDenomsMetadataRequest_def
    by (-) (rule json_rtI json_rules | assumption | (simp; fail))+
qed

lemma tc_bank_QueryDenomsMetadataResponse_json: "message_json toJSON_tc_bank_QueryDenomsMetadataResponse fromJSON_tc_bank_QueryDenomsMetadataResponse wfj_tc_bank_QueryDenomsMetadataResponse"
proof unfold_locales
  fix h m
  assume "wfj_tc_bank_QueryDenomsMetadataResponse m"
  then show "json_rt (toJSON_tc_bank_QueryDenomsMetadataResponse h) (fromJSON_tc_bank_QueryDenomsMetadataResponse h) m"
    unfolding toJSON_tc_bank_QueryDenomsMetadataResponse_def fromJSON_tc_bank_QueryDenomsMetadataResponse_def wfj_tc_bank_QueryDenomsMetadataResponse_def
    by (elim conjE) (rule json_rtI json_rules tc_bank_Metadata_json_rules | assumption | (simp; fail))+
qed

lemma tc_bank_QueryDenomMetadataRequest_json: "message_json toJSON_tc_bank_QueryDenomMetadataRequest fromJSON_tc_bank_QueryDenomMetadataRequest wfj_tc_bank_QueryDenomMetadataRequest"
proof unfold_locales
  fix h m
  assume "wfj_tc_bank_QueryDenomMetadataRequest m"
  then show "json_rt (toJSON_tc_bank_QueryDenomMetadataRequest h) (fromJSON_tc_bank_QueryDenomMetadataRequest h) m"
    unfolding toJSON_tc_bank_QueryDenomMetadataRequest_def fromJSON_tc_bank_QueryDenomMetadataRequest_def wfj_tc_bank_QueryDenomMetadataRequest_def
    by (-) (rule json_rtI json_rules | assumption | (simp; fail))+
qed

lemma tc_bank_QueryDenomMetadataResponse_json: "message_json toJSON_tc_bank_QueryDenomMetadataResponse fromJSON_tc_bank_QueryDenomMetadataResponse wfj_tc_bank_QueryDenomMetadataResponse"
proof unfold_locales
  fix h m
  assume "wfj_tc_bank_QueryDenomMetadataResponse m"
  then show "json_rt (toJSON_tc_bank_QueryDenomMetadataResponse h) (fromJSON_tc_bank_QueryDenomMetadataResponse h) m"
    unfolding toJSON_tc_bank_QueryDenomMetadataResponse_def fromJSON_tc_bank_QueryDenomMetadataResponse_def wfj_tc_bank_QueryDenomMetadataResponse_def
    by (-) (rule json_rtI json_rules tc_bank_Metadata_json_rules | assumption | (simp; fail))+
qed

lemma tc_bank_QueryDenomOwnersRequest_json: "message_json toJSON_tc_bank_QueryDenomOwnersRequest fromJSON_tc_bank_QueryDenomOwnersRequest wfj_tc_bank_QueryDenomOwnersRequest"
proof unfold_locales
  fix h m
  assume "wfj_tc_bank_QueryDenomOwnersRequest m"
  then show "json_rt (toJSON_tc_bank_QueryDenomOwnersRequest h) (fromJSON_tc_bank_QueryDenomOwnersRequest h) m"
    unfolding toJSON_tc_bank_QueryDenomOwnersRequest_def fromJSON_tc_bank_QueryDenomOwnersRequest_def wfj_tc_bank_QueryDenomOwnersRequest_def
    by (-) (rule json_rtI json_rules | assumption | (simp; fail))+
qed

lemma tc_bank_DenomOwner_json: "message_json toJSON_tc_bank_DenomOwner fromJSON_tc_bank_DenomOwner wfj_tc_bank_DenomOwner"
proof unfold_locales
  fix h m
  assume "wfj_tc_bank_DenomOwner m"
  then show "json_rt (toJSON_tc_bank_DenomOwner h) (fromJSON_tc_bank_DenomOwner h) m"
    unfolding toJSON_tc_bank_DenomOwner_def fromJSON_tc_bank_DenomOwner_def wfj_tc_bank_DenomOwner_def
    by (-) (rule json_rtI json_rules | assumption | (simp; fail))+
qed

lemmas tc_bank_DenomOwner_json_rules = message_json.json_list_rules [OF tc_bank_DenomOwner_json]

lemma tc_bank_QueryDenomOwnersResponse_json: "message_json toJSON_tc_bank_QueryDenomOwnersResponse fromJSON_tc_bank_QueryDenomOwnersResponse wfj_tc_bank_QueryDenomOwnersResponse"
proof unfold_locales
  fix h m
  assume "wfj_tc_bank_QueryDenomOwnersResponse m"
  then show "json_rt (toJSON_tc_bank_QueryDenomOwnersResponse h) (fromJSON_tc_bank_QueryDenomOwnersResponse h) m"
    unfolding toJSON_tc_bank_QueryDenomOwnersResponse_def fromJSON_tc_bank_QueryDenomOwnersResponse_def wfj_tc_bank_QueryDenomOwnersResponse_def
    by (elim conjE) (rule json_rtI json_rules tc_bank_DenomOwner_json_rules | assumption | (simp; fail))+
qed


section \<open>Calls over a transport that is served\<close>

context long_wire_laws
begin

lemma tc_bank_QueryClientImpl_Balance_refines:
  "refines_handler L (decode_tc_bank_QueryBalanceRequest L G) (encode_tc_bank_QueryBalanceResponse L) (wf_tc_bank_QueryBalanceRequest L) (wf_tc_bank_QueryBalanceResponse L)
     (tc_bank_QueryClientImpl_Balance L G) (js ''cosmos.bank.v1beta1.Query'') (js ''Balance'')"
  unfolding tc_bank_QueryClientImpl_Balance_def [abs_def] decode_tc_bank_QueryBalanceRequest_def decode_tc_bank_QueryBalanceResponse_def
  by (rule refines_unary [OF tc_bank_QueryBalanceRequest_codec tc_bank_QueryBalanceResponse_codec])

lemma tc_bank_QueryClientImpl_AllBalances_refines:
  "refines_handler L (decode_tc_bank_QueryAllBalancesRequest L G) (encode_tc_bank_QueryAllBalancesResponse L) (wf_tc_bank_QueryAllBalancesRequest L) (wf_tc_bank_QueryAllBalancesResponse L)
     (tc_bank_QueryClientImpl_AllBalances L G) (js ''cosmos.bank.v1beta1.Query'') (js ''AllBalances'')"
  unfolding tc_bank_QueryClientImpl_AllBalances_def [abs_def] decode_tc_bank_QueryAllBalancesRequest_def decode_tc_bank_QueryAllBalancesResponse_def
  by (rule refines_unary [OF tc_bank_QueryAllBalancesRequest_codec tc_bank_QueryAllBalancesResponse_codec])

lemma tc_bank_QueryClientImpl_SpendableBalances_refines:
  "refines_handler L (decode_tc_bank_QuerySpendableBalancesRequest L G) (encode_tc_bank_QuerySpendableBalancesResponse L) (wf_tc_bank_QuerySpendableBalancesRequest L) (wf_tc_bank_QuerySpendableBalancesResponse L)
     (tc_bank_QueryClientImpl_SpendableBalances L G) (js ''cosmos.bank.v1beta1.Query'') (js ''SpendableBalances'')"
  unfolding tc_bank_QueryClientImpl_SpendableBalances_def [abs_def] decode_tc_bank_QuerySpendableBalancesRequest_def decode_tc_bank_QuerySpendableBalancesResponse_def
  by (rule refines_unary [OF tc_bank_QuerySpendableBalancesRequest_codec tc_bank_QuerySpendableBalancesResponse_codec])

lemma tc_bank_QueryClientImpl_TotalSupply_refines:
  "refines_handler L (decode_tc_bank_QueryTotalSupplyRequest L G) (encode_tc_bank_QueryTotalSupplyResponse L) (wf_tc_bank_QueryTotalSupplyRequest L) (wf_tc_bank_QueryTotalSupplyResponse L)
     (tc_bank_QueryClientImpl_TotalSupply L G) (js ''cosmos.bank.v1beta1.Query'') (js ''TotalSupply'')"
  unfolding tc_bank_QueryClientImpl_TotalSupply_def [abs_def] decode_tc_bank_QueryTotalSupplyRequest_def decode_tc_bank_QueryTotalSupplyResponse_def
  by (rule refines_unary [OF tc_bank_QueryTotalSupplyRequest_codec tc_bank_QueryTotalSupplyResponse_codec])

lemma tc_bank_QueryClientImpl_SupplyOf_refines:
  "refines_handler L (decode_tc_bank_QuerySupplyOfRequest L G) (encode_tc_bank_QuerySupplyOfResponse L) (wf_tc_bank_QuerySupplyOfRequest L) (wf_tc_bank_QuerySupplyOfResponse L)
     (tc_bank_QueryClientImpl_SupplyOf L G) (js ''cosmos.bank.v1beta1.Query'') (js ''SupplyOf'')"
  unfolding tc_bank_QueryClientImpl_SupplyOf_def [abs_def] decode_tc_bank_QuerySupplyOfRequest_def decode_tc_bank_QuerySupplyOfResponse_def
  by (rule refines_unary [OF tc_bank_QuerySupplyOfRequest_codec tc_bank_QuerySupplyOfResponse_codec])

lemma tc_bank_QueryClientImpl_Params_refines:
  "refines_handler L (decode_tc_bank_QueryParamsRequest L G) (encode_tc_bank_QueryParamsResponse L) (wf_tc_bank_QueryParamsRequest L) (wf_tc_bank_QueryParamsResponse L)
     (tc_bank_QueryClientImpl_Params L G) (js ''cosmos.bank.v1beta1.Query'') (js ''Params'')"
  unfolding tc_bank_QueryClientImpl_Params_def [abs_def] decode_tc_bank_QueryParamsRequest_def decode_tc_bank_QueryParamsResponse_def
  by (rule refines_unary [OF tc_bank_QueryParamsRequest_codec tc_bank_QueryParamsResponse_codec])

lemma tc_bank_QueryClientImpl_DenomMetadata_refines:
  "refines_handler L (decode_tc_bank_QueryDenomMetadataRequest L G) (encode_tc_bank_QueryDenomMetadataResponse L) (wf_tc_bank_QueryDenomMetadataRequest L) (wf_tc_bank_QueryDenomMetadataResponse L)
     (tc_bank_QueryClientImpl_DenomMetadata L G) (js ''cosmos.bank.v1beta1.Query'') (js ''DenomMetadata'')"
  unfolding tc_bank_QueryClientImpl_DenomMetadata_def [abs_def] decode_tc_bank_QueryDenomMetadataRequest_def decode_tc_bank_QueryDenomMetadataResponse_def
  by (rule refines_unary [OF tc_bank_QueryDenomMetadataRequest_codec tc_bank_QueryDenomMetadataResponse_codec])

lemma tc_bank_QueryClientImpl_DenomsMetadata_refines:
  "refines_handler L (decode_tc_bank_QueryDenomsMetadataRequest L G) (encode_tc_bank_QueryDenomsMetadataResponse L) (wf_tc_bank_QueryDenomsMetadataRequest L) (wf_tc_bank_QueryDenomsMetadataResponse L)
     (tc_bank_QueryClientImpl_DenomsMetadata L G) (js ''cosmos.bank.v1beta1.Query'') (js ''DenomsMetadata'')"
  unfolding tc_bank_QueryClientImpl_DenomsMetadata_def [abs_def] decode_tc_bank_QueryDenomsMetadataRequest_def decode_tc_bank_QueryDenomsMetadataResponse_def
  by (rule refines_unary [OF tc_bank_QueryDenomsMetadataRequest_codec tc_bank_QueryDenomsMetadataResponse_codec])

lemma tc_bank_QueryClientImpl_DenomOwners_refines:
  "refines_handler L (decode_tc_bank_QueryDenomOwnersRequest L G) (encode_tc_bank_QueryDenomOwnersResponse L) (wf_tc_bank_QueryDenomOwnersRequest L) (wf_tc_bank_QueryDenomOwnersResponse L)
     (tc_bank_QueryClientImpl_DenomOwners L G) (js ''cosmos.bank.v1beta1.Query'') (js ''DenomOwners'')"
  unfolding tc_bank_QueryClientImpl_DenomOwners_def [abs_def] decode_tc_bank_QueryDenomOwnersRequest_def decode_tc_bank_QueryDenomOwnersResponse_def
  by (rule refines_unary [OF tc_bank_QueryDenomOwnersRequest_codec tc_bank_QueryDenomOwnersResponse_codec])

end

end
