(* ===== verification/CosmosSamples.thy ===== *)
theory CosmosSamples
  imports PbLong Samples CosBankTx CosBankQuery
begin

text \<open>
  Concrete arguments for the properties of the Cosmos modules: a transfer of coins, the unit of a
  denomination, the answer to a query of a balance, and a remote end for the transfers.
\<close>

definition sample_bank_MsgSend :: tc_bank_MsgSend where
  "sample_bank_MsgSend =
     \<lparr>tc_bank_MsgSend.fromAddress = js ''arkeo1'', tc_bank_MsgSend.toAddress = js ''arkeo2'',
      tc_bank_MsgSend.amount = [sample_Coin, sample_Coin]\<rparr>"

lemma sample_bank_MsgSend_wf [simp]: "wf_tc_bank_MsgSend pb_wire sample_bank_MsgSend"
  by (simp add: wf_tc_bank_MsgSend_def sample_bank_MsgSend_def sample_simps)

definition sample_bank_DenomUnit :: tc_bank_DenomUnit where
  "sample_bank_DenomUnit =
     \<lparr>tc_bank_DenomUnit.denom = js ''arkeo'', tc_bank_DenomUnit.exponent = Num 8, tc_bank_DenomUnit.aliases = []\<rparr>"

lemma sample_bank_DenomUnit_wf [simp]: "wf_tc_bank_DenomUnit pb_wire sample_bank_DenomUnit"
  by (simp add: wf_tc_bank_DenomUnit_def sample_bank_DenomUnit_def sample_simps uint32_num_def)

definition sample_bank_QueryBalanceResponse :: tc_bank_QueryBalanceResponse where
  "sample_bank_QueryBalanceResponse = \<lparr>tc_bank_QueryBalanceResponse.balance = Some sample_Coin\<rparr>"

lemma sample_bank_QueryBalanceResponse_wf [simp]:
  "wf_tc_bank_QueryBalanceResponse pb_wire sample_bank_QueryBalanceResponse"
  by (simp add: wf_tc_bank_QueryBalanceResponse_def sample_bank_QueryBalanceResponse_def sample_simps)

text \<open>A bank that counts the transfers it has made.\<close>

definition sample_bank_Send :: "(tc_bank_MsgSend, tc_bank_MsgSendResponse, nat) handler" where
  "sample_bank_Send q s = (Inr tc_bank_MsgSendResponse, Suc s)"

definition sample_bank_rpc :: "nat rpc" where
  "sample_bank_rpc svc method =
     serve pb_wire (decode_tc_bank_MsgSend pb_wire pb_long) (encode_tc_bank_MsgSendResponse pb_wire) sample_bank_Send"

end
