(* ===== verification/CosGovQuery.thy ===== *)
theory CosGovQuery
  imports CosGov
begin

unbundle bit_operations_syntax

text \<open>
  The queries of the governance module in \<open>ts-client/cosmos.gov.v1beta1\<close>.
\<close>


section \<open>ts-client/cosmos.gov.v1beta1/types/cosmos/gov/v1beta1/query.ts\<close>

subsection \<open>QueryProposalRequest\<close>

record tc_gov_QueryProposalRequest =
  proposalId :: number

definition createBase_tc_gov_QueryProposalRequest :: tc_gov_QueryProposalRequest where
  "createBase_tc_gov_QueryProposalRequest = \<lparr>tc_gov_QueryProposalRequest.proposalId = Num 0\<rparr>"

definition encode_tc_gov_QueryProposalRequest :: "('w, 'r) wire \<Rightarrow> tc_gov_QueryProposalRequest \<Rightarrow> 'w \<Rightarrow> 'w result" where
  "encode_tc_gov_QueryProposalRequest L message = seqE
    [whenE (tc_gov_QueryProposalRequest.proposalId message \<noteq> Num 0) (seqE [w_uint32 L 8, w_uint64 L (tc_gov_QueryProposalRequest.proposalId message)])]"

definition tc_gov_QueryProposalRequest_switch :: "('w, 'r) wire \<Rightarrow> long_lib \<Rightarrow> u32 \<Rightarrow> tc_gov_QueryProposalRequest \<Rightarrow> (tc_gov_QueryProposalRequest, 'r) action" where
  "tc_gov_QueryProposalRequest_switch L G tag message = js_switch (drop_bit 3 tag)
    [(1, readf (num64l G (r_uint64 L)) (\<lambda>v. message\<lparr>tc_gov_QueryProposalRequest.proposalId := v\<rparr>))]
    (skipType L tag message)"

definition decode_tc_gov_QueryProposalRequest :: "('w, 'r) wire \<Rightarrow> long_lib \<Rightarrow> 'r input \<Rightarrow> nat option \<Rightarrow> (tc_gov_QueryProposalRequest \<times> 'r) result" where
  "decode_tc_gov_QueryProposalRequest L G = decode_msg L (tc_gov_QueryProposalRequest_switch L G) createBase_tc_gov_QueryProposalRequest"

definition fromJSON_tc_gov_QueryProposalRequest :: "host \<Rightarrow> jsval \<Rightarrow> tc_gov_QueryProposalRequest result" where
  "fromJSON_tc_gov_QueryProposalRequest h object =
     bindE (fieldE object ''proposalId'' (numberE h) (Num 0)) (\<lambda>v_proposalId.
     Inr \<lparr>tc_gov_QueryProposalRequest.proposalId = v_proposalId\<rparr>)"

definition toJSON_tc_gov_QueryProposalRequest :: "host \<Rightarrow> tc_gov_QueryProposalRequest \<Rightarrow> jsval result" where
  "toJSON_tc_gov_QueryProposalRequest h message = objE
    [jfieldE True ''proposalId'' (Inr (JNumber (Math_round (tc_gov_QueryProposalRequest.proposalId message))))]"

type_synonym tc_gov_QueryProposalRequest_Partial = "number option"

definition fromPartial_tc_gov_QueryProposalRequest :: "tc_gov_QueryProposalRequest_Partial \<Rightarrow> tc_gov_QueryProposalRequest" where
  "fromPartial_tc_gov_QueryProposalRequest object = (case object of p_proposalId \<Rightarrow>
     createBase_tc_gov_QueryProposalRequest\<lparr>tc_gov_QueryProposalRequest.proposalId := nullish (p_proposalId) (Num 0)\<rparr>)"

text \<open>A partial message that sets every field.\<close>

definition partial_of_tc_gov_QueryProposalRequest :: "tc_gov_QueryProposalRequest \<Rightarrow> tc_gov_QueryProposalRequest_Partial" where
  "partial_of_tc_gov_QueryProposalRequest m =
     (Some (tc_gov_QueryProposalRequest.proposalId m))"

definition wf_tc_gov_QueryProposalRequest :: "('w, 'r) wire \<Rightarrow> tc_gov_QueryProposalRequest \<Rightarrow> bool" where
  "wf_tc_gov_QueryProposalRequest L m \<longleftrightarrow> safe_uint (tc_gov_QueryProposalRequest.proposalId m)"

definition wfj_tc_gov_QueryProposalRequest :: "tc_gov_QueryProposalRequest \<Rightarrow> bool" where
  "wfj_tc_gov_QueryProposalRequest m \<longleftrightarrow> whole (tc_gov_QueryProposalRequest.proposalId m)"

subsection \<open>QueryProposalResponse\<close>

record tc_gov_QueryProposalResponse =
  proposal :: "tc_gov_Proposal option"

definition createBase_tc_gov_QueryProposalResponse :: tc_gov_QueryProposalResponse where
  "createBase_tc_gov_QueryProposalResponse = \<lparr>tc_gov_QueryProposalResponse.proposal = None\<rparr>"

definition encode_tc_gov_QueryProposalResponse :: "('w, 'r) wire \<Rightarrow> tc_gov_QueryProposalResponse \<Rightarrow> 'w \<Rightarrow> 'w result" where
  "encode_tc_gov_QueryProposalResponse L message = seqE
    [someE (tc_gov_QueryProposalResponse.proposal message) (\<lambda>v. seqE [w_uint32 L 10, w_fork L, encode_tc_gov_Proposal L v, w_join L])]"

definition tc_gov_QueryProposalResponse_switch :: "('w, 'r) wire \<Rightarrow> long_lib \<Rightarrow> u32 \<Rightarrow> tc_gov_QueryProposalResponse \<Rightarrow> (tc_gov_QueryProposalResponse, 'r) action" where
  "tc_gov_QueryProposalResponse_switch L G tag message = js_switch (drop_bit 3 tag)
    [(1, readf (submsg L (decode_tc_gov_Proposal L G)) (\<lambda>v. message\<lparr>tc_gov_QueryProposalResponse.proposal := Some v\<rparr>))]
    (skipType L tag message)"

definition decode_tc_gov_QueryProposalResponse :: "('w, 'r) wire \<Rightarrow> long_lib \<Rightarrow> 'r input \<Rightarrow> nat option \<Rightarrow> (tc_gov_QueryProposalResponse \<times> 'r) result" where
  "decode_tc_gov_QueryProposalResponse L G = decode_msg L (tc_gov_QueryProposalResponse_switch L G) createBase_tc_gov_QueryProposalResponse"

definition fromJSON_tc_gov_QueryProposalResponse :: "host \<Rightarrow> jsval \<Rightarrow> tc_gov_QueryProposalResponse result" where
  "fromJSON_tc_gov_QueryProposalResponse h object =
     bindE (optE object ''proposal'' (fromJSON_tc_gov_Proposal h)) (\<lambda>v_proposal.
     Inr \<lparr>tc_gov_QueryProposalResponse.proposal = v_proposal\<rparr>)"

definition toJSON_tc_gov_QueryProposalResponse :: "host \<Rightarrow> tc_gov_QueryProposalResponse \<Rightarrow> jsval result" where
  "toJSON_tc_gov_QueryProposalResponse h message = objE
    [joptE ''proposal'' (toJSON_tc_gov_Proposal h) (tc_gov_QueryProposalResponse.proposal message)]"

type_synonym tc_gov_QueryProposalResponse_Partial = "tc_gov_Proposal_Partial option"

definition fromPartial_tc_gov_QueryProposalResponse :: "tc_gov_QueryProposalResponse_Partial \<Rightarrow> tc_gov_QueryProposalResponse" where
  "fromPartial_tc_gov_QueryProposalResponse object = (case object of p_proposal \<Rightarrow>
     createBase_tc_gov_QueryProposalResponse\<lparr>tc_gov_QueryProposalResponse.proposal := map_option fromPartial_tc_gov_Proposal (p_proposal)\<rparr>)"

text \<open>A partial message that sets every field.\<close>

definition partial_of_tc_gov_QueryProposalResponse :: "tc_gov_QueryProposalResponse \<Rightarrow> tc_gov_QueryProposalResponse_Partial" where
  "partial_of_tc_gov_QueryProposalResponse m =
     (map_option partial_of_tc_gov_Proposal (tc_gov_QueryProposalResponse.proposal m))"

definition wf_tc_gov_QueryProposalResponse :: "('w, 'r) wire \<Rightarrow> tc_gov_QueryProposalResponse \<Rightarrow> bool" where
  "wf_tc_gov_QueryProposalResponse L m \<longleftrightarrow> pred_option (\<lambda>v. wf_tc_gov_Proposal L v \<and> fits L (encode_tc_gov_Proposal L v)) (tc_gov_QueryProposalResponse.proposal m)"

definition wfj_tc_gov_QueryProposalResponse :: "tc_gov_QueryProposalResponse \<Rightarrow> bool" where
  "wfj_tc_gov_QueryProposalResponse m \<longleftrightarrow> pred_option wfj_tc_gov_Proposal (tc_gov_QueryProposalResponse.proposal m)"

subsection \<open>QueryProposalsRequest\<close>

record tc_gov_QueryProposalsRequest =
  proposalStatus :: number
  voter :: jsstring
  depositor :: jsstring
  pagination :: "PageRequest option"

definition createBase_tc_gov_QueryProposalsRequest :: tc_gov_QueryProposalsRequest where
  "createBase_tc_gov_QueryProposalsRequest = \<lparr>tc_gov_QueryProposalsRequest.proposalStatus = Num 0,
     tc_gov_QueryProposalsRequest.voter = [],
     tc_gov_QueryProposalsRequest.depositor = [],
     tc_gov_QueryProposalsRequest.pagination = None\<rparr>"

definition encode_tc_gov_QueryProposalsRequest :: "('w, 'r) wire \<Rightarrow> tc_gov_QueryProposalsRequest \<Rightarrow> 'w \<Rightarrow> 'w result" where
  "encode_tc_gov_QueryProposalsRequest L message = seqE
    [whenE (tc_gov_QueryProposalsRequest.proposalStatus message \<noteq> Num 0) (seqE [w_uint32 L 8, w_int32 L (tc_gov_QueryProposalsRequest.proposalStatus message)]),
     whenE (tc_gov_QueryProposalsRequest.voter message \<noteq> []) (seqE [w_uint32 L 18, w_string L (tc_gov_QueryProposalsRequest.voter message)]),
     whenE (tc_gov_QueryProposalsRequest.depositor message \<noteq> []) (seqE [w_uint32 L 26, w_string L (tc_gov_QueryProposalsRequest.depositor message)]),
     someE (tc_gov_QueryProposalsRequest.pagination message) (\<lambda>v. seqE [w_uint32 L 34, w_fork L, encode_tc_PageRequest L v, w_join L])]"

definition tc_gov_QueryProposalsRequest_switch :: "('w, 'r) wire \<Rightarrow> long_lib \<Rightarrow> u32 \<Rightarrow> tc_gov_QueryProposalsRequest \<Rightarrow> (tc_gov_QueryProposalsRequest, 'r) action" where
  "tc_gov_QueryProposalsRequest_switch L G tag message = js_switch (drop_bit 3 tag)
    [(1, readf (num32 (r_int32 L)) (\<lambda>v. message\<lparr>tc_gov_QueryProposalsRequest.proposalStatus := v\<rparr>)),
     (2, readf (r_string L) (\<lambda>v. message\<lparr>tc_gov_QueryProposalsRequest.voter := v\<rparr>)),
     (3, readf (r_string L) (\<lambda>v. message\<lparr>tc_gov_QueryProposalsRequest.depositor := v\<rparr>)),
     (4, readf (submsg L (decode_tc_PageRequest L G)) (\<lambda>v. message\<lparr>tc_gov_QueryProposalsRequest.pagination := Some v\<rparr>))]
    (skipType L tag message)"

definition decode_tc_gov_QueryProposalsRequest :: "('w, 'r) wire \<Rightarrow> long_lib \<Rightarrow> 'r input \<Rightarrow> nat option \<Rightarrow> (tc_gov_QueryProposalsRequest \<times> 'r) result" where
  "decode_tc_gov_QueryProposalsRequest L G = decode_msg L (tc_gov_QueryProposalsRequest_switch L G) createBase_tc_gov_QueryProposalsRequest"

definition fromJSON_tc_gov_QueryProposalsRequest :: "host \<Rightarrow> jsval \<Rightarrow> tc_gov_QueryProposalsRequest result" where
  "fromJSON_tc_gov_QueryProposalsRequest h object =
     bindE (fieldE object ''proposalStatus'' (enumE tc_gov_proposalStatusFromJSON) (Num 0)) (\<lambda>v_proposalStatus.
     bindE (fieldE object ''voter'' (stringE h) []) (\<lambda>v_voter.
     bindE (fieldE object ''depositor'' (stringE h) []) (\<lambda>v_depositor.
     bindE (optE object ''pagination'' (fromJSON_tc_PageRequest h)) (\<lambda>v_pagination.
     Inr \<lparr>tc_gov_QueryProposalsRequest.proposalStatus = v_proposalStatus, tc_gov_QueryProposalsRequest.voter = v_voter, tc_gov_QueryProposalsRequest.depositor = v_depositor, tc_gov_QueryProposalsRequest.pagination = v_pagination\<rparr>))))"

definition toJSON_tc_gov_QueryProposalsRequest :: "host \<Rightarrow> tc_gov_QueryProposalsRequest \<Rightarrow> jsval result" where
  "toJSON_tc_gov_QueryProposalsRequest h message = objE
    [jfieldE True ''proposalStatus'' (Inr (JString (tc_gov_proposalStatusToJSON (tc_gov_QueryProposalsRequest.proposalStatus message)))),
     jfieldE True ''voter'' (Inr (JString (tc_gov_QueryProposalsRequest.voter message))),
     jfieldE True ''depositor'' (Inr (JString (tc_gov_QueryProposalsRequest.depositor message))),
     joptE ''pagination'' (toJSON_tc_PageRequest h) (tc_gov_QueryProposalsRequest.pagination message)]"

type_synonym tc_gov_QueryProposalsRequest_Partial = "number option \<times> jsstring option \<times> jsstring option \<times> PageRequest_Partial option"

definition fromPartial_tc_gov_QueryProposalsRequest :: "tc_gov_QueryProposalsRequest_Partial \<Rightarrow> tc_gov_QueryProposalsRequest" where
  "fromPartial_tc_gov_QueryProposalsRequest object = (case object of (p_proposalStatus, p_voter, p_depositor, p_pagination) \<Rightarrow>
     createBase_tc_gov_QueryProposalsRequest\<lparr>tc_gov_QueryProposalsRequest.proposalStatus := nullish (p_proposalStatus) (Num 0),
       tc_gov_QueryProposalsRequest.voter := nullish (p_voter) [],
       tc_gov_QueryProposalsRequest.depositor := nullish (p_depositor) [],
       tc_gov_QueryProposalsRequest.pagination := map_option fromPartial_tc_PageRequest (p_pagination)\<rparr>)"

text \<open>A partial message that sets every field.\<close>

definition partial_of_tc_gov_QueryProposalsRequest :: "tc_gov_QueryProposalsRequest \<Rightarrow> tc_gov_QueryProposalsRequest_Partial" where
  "partial_of_tc_gov_QueryProposalsRequest m =
     (Some (tc_gov_QueryProposalsRequest.proposalStatus m),
      Some (tc_gov_QueryProposalsRequest.voter m),
      Some (tc_gov_QueryProposalsRequest.depositor m),
      map_option partial_of_PageRequest (tc_gov_QueryProposalsRequest.pagination m))"

definition wf_tc_gov_QueryProposalsRequest :: "('w, 'r) wire \<Rightarrow> tc_gov_QueryProposalsRequest \<Rightarrow> bool" where
  "wf_tc_gov_QueryProposalsRequest L m \<longleftrightarrow> int32_num (tc_gov_QueryProposalsRequest.proposalStatus m)
     \<and> wire_string (tc_gov_QueryProposalsRequest.voter m)
     \<and> wire_string (tc_gov_QueryProposalsRequest.depositor m)
     \<and> pred_option (\<lambda>v. wf_PageRequest L v \<and> fits L (encode_PageRequest L v)) (tc_gov_QueryProposalsRequest.pagination m)"

definition wfj_tc_gov_QueryProposalsRequest :: "tc_gov_QueryProposalsRequest \<Rightarrow> bool" where
  "wfj_tc_gov_QueryProposalsRequest m \<longleftrightarrow> tc_gov_ProposalStatus_known (tc_gov_QueryProposalsRequest.proposalStatus m)
     \<and> pred_option wfj_PageRequest (tc_gov_QueryProposalsRequest.pagination m)"

subsection \<open>QueryProposalsResponse\<close>

record tc_gov_QueryProposalsResponse =
  proposals :: "tc_gov_Proposal list"
  pagination :: "PageResponse option"

definition createBase_tc_gov_QueryProposalsResponse :: tc_gov_QueryProposalsResponse where
  "createBase_tc_gov_QueryProposalsResponse = \<lparr>tc_gov_QueryProposalsResponse.proposals = [],
     tc_gov_QueryProposalsResponse.pagination = None\<rparr>"

definition encode_tc_gov_QueryProposalsResponse :: "('w, 'r) wire \<Rightarrow> tc_gov_QueryProposalsResponse \<Rightarrow> 'w \<Rightarrow> 'w result" where
  "encode_tc_gov_QueryProposalsResponse L message = seqE
    [forE (\<lambda>v. seqE [w_uint32 L 10, w_fork L, encode_tc_gov_Proposal L v, w_join L]) (tc_gov_QueryProposalsResponse.proposals message),
     someE (tc_gov_QueryProposalsResponse.pagination message) (\<lambda>v. seqE [w_uint32 L 18, w_fork L, encode_tc_PageResponse L v, w_join L])]"

definition tc_gov_QueryProposalsResponse_switch :: "('w, 'r) wire \<Rightarrow> long_lib \<Rightarrow> u32 \<Rightarrow> tc_gov_QueryProposalsResponse \<Rightarrow> (tc_gov_QueryProposalsResponse, 'r) action" where
  "tc_gov_QueryProposalsResponse_switch L G tag message = js_switch (drop_bit 3 tag)
    [(1, readf (submsg L (decode_tc_gov_Proposal L G)) (\<lambda>v. message\<lparr>tc_gov_QueryProposalsResponse.proposals := tc_gov_QueryProposalsResponse.proposals message @ [v]\<rparr>)),
     (2, readf (submsg L (decode_tc_PageResponse L G)) (\<lambda>v. message\<lparr>tc_gov_QueryProposalsResponse.pagination := Some v\<rparr>))]
    (skipType L tag message)"

definition decode_tc_gov_QueryProposalsResponse :: "('w, 'r) wire \<Rightarrow> long_lib \<Rightarrow> 'r input \<Rightarrow> nat option \<Rightarrow> (tc_gov_QueryProposalsResponse \<times> 'r) result" where
  "decode_tc_gov_QueryProposalsResponse L G = decode_msg L (tc_gov_QueryProposalsResponse_switch L G) createBase_tc_gov_QueryProposalsResponse"

definition fromJSON_tc_gov_QueryProposalsResponse :: "host \<Rightarrow> jsval \<Rightarrow> tc_gov_QueryProposalsResponse result" where
  "fromJSON_tc_gov_QueryProposalsResponse h object =
     bindE (arrayE object ''proposals'' (fromJSON_tc_gov_Proposal h)) (\<lambda>v_proposals.
     bindE (optE object ''pagination'' (fromJSON_tc_PageResponse h)) (\<lambda>v_pagination.
     Inr \<lparr>tc_gov_QueryProposalsResponse.proposals = v_proposals, tc_gov_QueryProposalsResponse.pagination = v_pagination\<rparr>))"

definition toJSON_tc_gov_QueryProposalsResponse :: "host \<Rightarrow> tc_gov_QueryProposalsResponse \<Rightarrow> jsval result" where
  "toJSON_tc_gov_QueryProposalsResponse h message = objE
    [jlistE ''proposals'' (toJSON_tc_gov_Proposal h) (tc_gov_QueryProposalsResponse.proposals message),
     joptE ''pagination'' (toJSON_tc_PageResponse h) (tc_gov_QueryProposalsResponse.pagination message)]"

type_synonym tc_gov_QueryProposalsResponse_Partial = "tc_gov_Proposal_Partial list option \<times> PageResponse_Partial option"

definition fromPartial_tc_gov_QueryProposalsResponse :: "tc_gov_QueryProposalsResponse_Partial \<Rightarrow> tc_gov_QueryProposalsResponse" where
  "fromPartial_tc_gov_QueryProposalsResponse object = (case object of (p_proposals, p_pagination) \<Rightarrow>
     createBase_tc_gov_QueryProposalsResponse\<lparr>tc_gov_QueryProposalsResponse.proposals := partial_map fromPartial_tc_gov_Proposal (p_proposals),
       tc_gov_QueryProposalsResponse.pagination := map_option fromPartial_tc_PageResponse (p_pagination)\<rparr>)"

text \<open>A partial message that sets every field.\<close>

definition partial_of_tc_gov_QueryProposalsResponse :: "tc_gov_QueryProposalsResponse \<Rightarrow> tc_gov_QueryProposalsResponse_Partial" where
  "partial_of_tc_gov_QueryProposalsResponse m =
     (Some (map partial_of_tc_gov_Proposal (tc_gov_QueryProposalsResponse.proposals m)),
      map_option partial_of_PageResponse (tc_gov_QueryProposalsResponse.pagination m))"

definition wf_tc_gov_QueryProposalsResponse :: "('w, 'r) wire \<Rightarrow> tc_gov_QueryProposalsResponse \<Rightarrow> bool" where
  "wf_tc_gov_QueryProposalsResponse L m \<longleftrightarrow> list_all (\<lambda>v. wf_tc_gov_Proposal L v \<and> fits L (encode_tc_gov_Proposal L v)) (tc_gov_QueryProposalsResponse.proposals m)
     \<and> pred_option (\<lambda>v. wf_PageResponse L v \<and> fits L (encode_PageResponse L v)) (tc_gov_QueryProposalsResponse.pagination m)"

definition wfj_tc_gov_QueryProposalsResponse :: "tc_gov_QueryProposalsResponse \<Rightarrow> bool" where
  "wfj_tc_gov_QueryProposalsResponse m \<longleftrightarrow> list_all wfj_tc_gov_Proposal (tc_gov_QueryProposalsResponse.proposals m)
     \<and> pred_option wfj_PageResponse (tc_gov_QueryProposalsResponse.pagination m)"

subsection \<open>QueryVoteRequest\<close>

record tc_gov_QueryVoteRequest =
  proposalId :: number
  voter :: jsstring

definition createBase_tc_gov_QueryVoteRequest :: tc_gov_QueryVoteRequest where
  "createBase_tc_gov_QueryVoteRequest = \<lparr>tc_gov_QueryVoteRequest.proposalId = Num 0,
     tc_gov_QueryVoteRequest.voter = []\<rparr>"

definition encode_tc_gov_QueryVoteRequest :: "('w, 'r) wire \<Rightarrow> tc_gov_QueryVoteRequest \<Rightarrow> 'w \<Rightarrow> 'w result" where
  "encode_tc_gov_QueryVoteRequest L message = seqE
    [whenE (tc_gov_QueryVoteRequest.proposalId message \<noteq> Num 0) (seqE [w_uint32 L 8, w_uint64 L (tc_gov_QueryVoteRequest.proposalId message)]),
     whenE (tc_gov_QueryVoteRequest.voter message \<noteq> []) (seqE [w_uint32 L 18, w_string L (tc_gov_QueryVoteRequest.voter message)])]"

definition tc_gov_QueryVoteRequest_switch :: "('w, 'r) wire \<Rightarrow> long_lib \<Rightarrow> u32 \<Rightarrow> tc_gov_QueryVoteRequest \<Rightarrow> (tc_gov_QueryVoteRequest, 'r) action" where
  "tc_gov_QueryVoteRequest_switch L G tag message = js_switch (drop_bit 3 tag)
    [(1, readf (num64l G (r_uint64 L)) (\<lambda>v. message\<lparr>tc_gov_QueryVoteRequest.proposalId := v\<rparr>)),
     (2, readf (r_string L) (\<lambda>v. message\<lparr>tc_gov_QueryVoteRequest.voter := v\<rparr>))]
    (skipType L tag message)"

definition decode_tc_gov_QueryVoteRequest :: "('w, 'r) wire \<Rightarrow> long_lib \<Rightarrow> 'r input \<Rightarrow> nat option \<Rightarrow> (tc_gov_QueryVoteRequest \<times> 'r) result" where
  "decode_tc_gov_QueryVoteRequest L G = decode_msg L (tc_gov_QueryVoteRequest_switch L G) createBase_tc_gov_QueryVoteRequest"

definition fromJSON_tc_gov_QueryVoteRequest :: "host \<Rightarrow> jsval \<Rightarrow> tc_gov_QueryVoteRequest result" where
  "fromJSON_tc_gov_QueryVoteRequest h object =
     bindE (fieldE object ''proposalId'' (numberE h) (Num 0)) (\<lambda>v_proposalId.
     bindE (fieldE object ''voter'' (stringE h) []) (\<lambda>v_voter.
     Inr \<lparr>tc_gov_QueryVoteRequest.proposalId = v_proposalId, tc_gov_QueryVoteRequest.voter = v_voter\<rparr>))"

definition toJSON_tc_gov_QueryVoteRequest :: "host \<Rightarrow> tc_gov_QueryVoteRequest \<Rightarrow> jsval result" where
  "toJSON_tc_gov_QueryVoteRequest h message = objE
    [jfieldE True ''proposalId'' (Inr (JNumber (Math_round (tc_gov_QueryVoteRequest.proposalId message)))),
     jfieldE True ''voter'' (Inr (JString (tc_gov_QueryVoteRequest.voter message)))]"

type_synonym tc_gov_QueryVoteRequest_Partial = "number option \<times> jsstring option"

definition fromPartial_tc_gov_QueryVoteRequest :: "tc_gov_QueryVoteRequest_Partial \<Rightarrow> tc_gov_QueryVoteRequest" where
  "fromPartial_tc_gov_QueryVoteRequest object = (case object of (p_proposalId, p_voter) \<Rightarrow>
     createBase_tc_gov_QueryVoteRequest\<lparr>tc_gov_QueryVoteRequest.proposalId := nullish (p_proposalId) (Num 0),
       tc_gov_QueryVoteRequest.voter := nullish (p_voter) []\<rparr>)"

text \<open>A partial message that sets every field.\<close>

definition partial_of_tc_gov_QueryVoteRequest :: "tc_gov_QueryVoteRequest \<Rightarrow> tc_gov_QueryVoteRequest_Partial" where
  "partial_of_tc_gov_QueryVoteRequest m =
     (Some (tc_gov_QueryVoteRequest.proposalId m),
      Some (tc_gov_QueryVoteRequest.voter m))"

definition wf_tc_gov_QueryVoteRequest :: "('w, 'r) wire \<Rightarrow> tc_gov_QueryVoteRequest \<Rightarrow> bool" where
  "wf_tc_gov_QueryVoteRequest L m \<longleftrightarrow> safe_uint (tc_gov_QueryVoteRequest.proposalId m)
     \<and> wire_string (tc_gov_QueryVoteRequest.voter m)"

definition wfj_tc_gov_QueryVoteRequest :: "tc_gov_QueryVoteRequest \<Rightarrow> bool" where
  "wfj_tc_gov_QueryVoteRequest m \<longleftrightarrow> whole (tc_gov_QueryVoteRequest.proposalId m)"

subsection \<open>QueryVoteResponse\<close>

record tc_gov_QueryVoteResponse =
  vote :: "tc_gov_Vote option"

definition createBase_tc_gov_QueryVoteResponse :: tc_gov_QueryVoteResponse where
  "createBase_tc_gov_QueryVoteResponse = \<lparr>tc_gov_QueryVoteResponse.vote = None\<rparr>"

definition encode_tc_gov_QueryVoteResponse :: "('w, 'r) wire \<Rightarrow> tc_gov_QueryVoteResponse \<Rightarrow> 'w \<Rightarrow> 'w result" where
  "encode_tc_gov_QueryVoteResponse L message = seqE
    [someE (tc_gov_QueryVoteResponse.vote message) (\<lambda>v. seqE [w_uint32 L 10, w_fork L, encode_tc_gov_Vote L v, w_join L])]"

definition tc_gov_QueryVoteResponse_switch :: "('w, 'r) wire \<Rightarrow> long_lib \<Rightarrow> u32 \<Rightarrow> tc_gov_QueryVoteResponse \<Rightarrow> (tc_gov_QueryVoteResponse, 'r) action" where
  "tc_gov_QueryVoteResponse_switch L G tag message = js_switch (drop_bit 3 tag)
    [(1, readf (submsg L (decode_tc_gov_Vote L G)) (\<lambda>v. message\<lparr>tc_gov_QueryVoteResponse.vote := Some v\<rparr>))]
    (skipType L tag message)"

definition decode_tc_gov_QueryVoteResponse :: "('w, 'r) wire \<Rightarrow> long_lib \<Rightarrow> 'r input \<Rightarrow> nat option \<Rightarrow> (tc_gov_QueryVoteResponse \<times> 'r) result" where
  "decode_tc_gov_QueryVoteResponse L G = decode_msg L (tc_gov_QueryVoteResponse_switch L G) createBase_tc_gov_QueryVoteResponse"

definition fromJSON_tc_gov_QueryVoteResponse :: "host \<Rightarrow> jsval \<Rightarrow> tc_gov_QueryVoteResponse result" where
  "fromJSON_tc_gov_QueryVoteResponse h object =
     bindE (optE object ''vote'' (fromJSON_tc_gov_Vote h)) (\<lambda>v_vote.
     Inr \<lparr>tc_gov_QueryVoteResponse.vote = v_vote\<rparr>)"

definition toJSON_tc_gov_QueryVoteResponse :: "host \<Rightarrow> tc_gov_QueryVoteResponse \<Rightarrow> jsval result" where
  "toJSON_tc_gov_QueryVoteResponse h message = objE
    [joptE ''vote'' (toJSON_tc_gov_Vote h) (tc_gov_QueryVoteResponse.vote message)]"

type_synonym tc_gov_QueryVoteResponse_Partial = "tc_gov_Vote_Partial option"

definition fromPartial_tc_gov_QueryVoteResponse :: "tc_gov_QueryVoteResponse_Partial \<Rightarrow> tc_gov_QueryVoteResponse" where
  "fromPartial_tc_gov_QueryVoteResponse object = (case object of p_vote \<Rightarrow>
     createBase_tc_gov_QueryVoteResponse\<lparr>tc_gov_QueryVoteResponse.vote := map_option fromPartial_tc_gov_Vote (p_vote)\<rparr>)"

text \<open>A partial message that sets every field.\<close>

definition partial_of_tc_gov_QueryVoteResponse :: "tc_gov_QueryVoteResponse \<Rightarrow> tc_gov_QueryVoteResponse_Partial" where
  "partial_of_tc_gov_QueryVoteResponse m =
     (map_option partial_of_tc_gov_Vote (tc_gov_QueryVoteResponse.vote m))"

definition wf_tc_gov_QueryVoteResponse :: "('w, 'r) wire \<Rightarrow> tc_gov_QueryVoteResponse \<Rightarrow> bool" where
  "wf_tc_gov_QueryVoteResponse L m \<longleftrightarrow> pred_option (\<lambda>v. wf_tc_gov_Vote L v \<and> fits L (encode_tc_gov_Vote L v)) (tc_gov_QueryVoteResponse.vote m)"

definition wfj_tc_gov_QueryVoteResponse :: "tc_gov_QueryVoteResponse \<Rightarrow> bool" where
  "wfj_tc_gov_QueryVoteResponse m \<longleftrightarrow> pred_option wfj_tc_gov_Vote (tc_gov_QueryVoteResponse.vote m)"

subsection \<open>QueryVotesRequest\<close>

record tc_gov_QueryVotesRequest =
  proposalId :: number
  pagination :: "PageRequest option"

definition createBase_tc_gov_QueryVotesRequest :: tc_gov_QueryVotesRequest where
  "createBase_tc_gov_QueryVotesRequest = \<lparr>tc_gov_QueryVotesRequest.proposalId = Num 0,
     tc_gov_QueryVotesRequest.pagination = None\<rparr>"

definition encode_tc_gov_QueryVotesRequest :: "('w, 'r) wire \<Rightarrow> tc_gov_QueryVotesRequest \<Rightarrow> 'w \<Rightarrow> 'w result" where
  "encode_tc_gov_QueryVotesRequest L message = seqE
    [whenE (tc_gov_QueryVotesRequest.proposalId message \<noteq> Num 0) (seqE [w_uint32 L 8, w_uint64 L (tc_gov_QueryVotesRequest.proposalId message)]),
     someE (tc_gov_QueryVotesRequest.pagination message) (\<lambda>v. seqE [w_uint32 L 18, w_fork L, encode_tc_PageRequest L v, w_join L])]"

definition tc_gov_QueryVotesRequest_switch :: "('w, 'r) wire \<Rightarrow> long_lib \<Rightarrow> u32 \<Rightarrow> tc_gov_QueryVotesRequest \<Rightarrow> (tc_gov_QueryVotesRequest, 'r) action" where
  "tc_gov_QueryVotesRequest_switch L G tag message = js_switch (drop_bit 3 tag)
    [(1, readf (num64l G (r_uint64 L)) (\<lambda>v. message\<lparr>tc_gov_QueryVotesRequest.proposalId := v\<rparr>)),
     (2, readf (submsg L (decode_tc_PageRequest L G)) (\<lambda>v. message\<lparr>tc_gov_QueryVotesRequest.pagination := Some v\<rparr>))]
    (skipType L tag message)"

definition decode_tc_gov_QueryVotesRequest :: "('w, 'r) wire \<Rightarrow> long_lib \<Rightarrow> 'r input \<Rightarrow> nat option \<Rightarrow> (tc_gov_QueryVotesRequest \<times> 'r) result" where
  "decode_tc_gov_QueryVotesRequest L G = decode_msg L (tc_gov_QueryVotesRequest_switch L G) createBase_tc_gov_QueryVotesRequest"

definition fromJSON_tc_gov_QueryVotesRequest :: "host \<Rightarrow> jsval \<Rightarrow> tc_gov_QueryVotesRequest result" where
  "fromJSON_tc_gov_QueryVotesRequest h object =
     bindE (fieldE object ''proposalId'' (numberE h) (Num 0)) (\<lambda>v_proposalId.
     bindE (optE object ''pagination'' (fromJSON_tc_PageRequest h)) (\<lambda>v_pagination.
     Inr \<lparr>tc_gov_QueryVotesRequest.proposalId = v_proposalId, tc_gov_QueryVotesRequest.pagination = v_pagination\<rparr>))"

definition toJSON_tc_gov_QueryVotesRequest :: "host \<Rightarrow> tc_gov_QueryVotesRequest \<Rightarrow> jsval result" where
  "toJSON_tc_gov_QueryVotesRequest h message = objE
    [jfieldE True ''proposalId'' (Inr (JNumber (Math_round (tc_gov_QueryVotesRequest.proposalId message)))),
     joptE ''pagination'' (toJSON_tc_PageRequest h) (tc_gov_QueryVotesRequest.pagination message)]"

type_synonym tc_gov_QueryVotesRequest_Partial = "number option \<times> PageRequest_Partial option"

definition fromPartial_tc_gov_QueryVotesRequest :: "tc_gov_QueryVotesRequest_Partial \<Rightarrow> tc_gov_QueryVotesRequest" where
  "fromPartial_tc_gov_QueryVotesRequest object = (case object of (p_proposalId, p_pagination) \<Rightarrow>
     createBase_tc_gov_QueryVotesRequest\<lparr>tc_gov_QueryVotesRequest.proposalId := nullish (p_proposalId) (Num 0),
       tc_gov_QueryVotesRequest.pagination := map_option fromPartial_tc_PageRequest (p_pagination)\<rparr>)"

text \<open>A partial message that sets every field.\<close>

definition partial_of_tc_gov_QueryVotesRequest :: "tc_gov_QueryVotesRequest \<Rightarrow> tc_gov_QueryVotesRequest_Partial" where
  "partial_of_tc_gov_QueryVotesRequest m =
     (Some (tc_gov_QueryVotesRequest.proposalId m),
      map_option partial_of_PageRequest (tc_gov_QueryVotesRequest.pagination m))"

definition wf_tc_gov_QueryVotesRequest :: "('w, 'r) wire \<Rightarrow> tc_gov_QueryVotesRequest \<Rightarrow> bool" where
  "wf_tc_gov_QueryVotesRequest L m \<longleftrightarrow> safe_uint (tc_gov_QueryVotesRequest.proposalId m)
     \<and> pred_option (\<lambda>v. wf_PageRequest L v \<and> fits L (encode_PageRequest L v)) (tc_gov_QueryVotesRequest.pagination m)"

definition wfj_tc_gov_QueryVotesRequest :: "tc_gov_QueryVotesRequest \<Rightarrow> bool" where
  "wfj_tc_gov_QueryVotesRequest m \<longleftrightarrow> whole (tc_gov_QueryVotesRequest.proposalId m)
     \<and> pred_option wfj_PageRequest (tc_gov_QueryVotesRequest.pagination m)"

subsection \<open>QueryVotesResponse\<close>

record tc_gov_QueryVotesResponse =
  votes :: "tc_gov_Vote list"
  pagination :: "PageResponse option"

definition createBase_tc_gov_QueryVotesResponse :: tc_gov_QueryVotesResponse where
  "createBase_tc_gov_QueryVotesResponse = \<lparr>tc_gov_QueryVotesResponse.votes = [],
     tc_gov_QueryVotesResponse.pagination = None\<rparr>"

definition encode_tc_gov_QueryVotesResponse :: "('w, 'r) wire \<Rightarrow> tc_gov_QueryVotesResponse \<Rightarrow> 'w \<Rightarrow> 'w result" where
  "encode_tc_gov_QueryVotesResponse L message = seqE
    [forE (\<lambda>v. seqE [w_uint32 L 10, w_fork L, encode_tc_gov_Vote L v, w_join L]) (tc_gov_QueryVotesResponse.votes message),
     someE (tc_gov_QueryVotesResponse.pagination message) (\<lambda>v. seqE [w_uint32 L 18, w_fork L, encode_tc_PageResponse L v, w_join L])]"

definition tc_gov_QueryVotesResponse_switch :: "('w, 'r) wire \<Rightarrow> long_lib \<Rightarrow> u32 \<Rightarrow> tc_gov_QueryVotesResponse \<Rightarrow> (tc_gov_QueryVotesResponse, 'r) action" where
  "tc_gov_QueryVotesResponse_switch L G tag message = js_switch (drop_bit 3 tag)
    [(1, readf (submsg L (decode_tc_gov_Vote L G)) (\<lambda>v. message\<lparr>tc_gov_QueryVotesResponse.votes := tc_gov_QueryVotesResponse.votes message @ [v]\<rparr>)),
     (2, readf (submsg L (decode_tc_PageResponse L G)) (\<lambda>v. message\<lparr>tc_gov_QueryVotesResponse.pagination := Some v\<rparr>))]
    (skipType L tag message)"

definition decode_tc_gov_QueryVotesResponse :: "('w, 'r) wire \<Rightarrow> long_lib \<Rightarrow> 'r input \<Rightarrow> nat option \<Rightarrow> (tc_gov_QueryVotesResponse \<times> 'r) result" where
  "decode_tc_gov_QueryVotesResponse L G = decode_msg L (tc_gov_QueryVotesResponse_switch L G) createBase_tc_gov_QueryVotesResponse"

definition fromJSON_tc_gov_QueryVotesResponse :: "host \<Rightarrow> jsval \<Rightarrow> tc_gov_QueryVotesResponse result" where
  "fromJSON_tc_gov_QueryVotesResponse h object =
     bindE (arrayE object ''votes'' (fromJSON_tc_gov_Vote h)) (\<lambda>v_votes.
     bindE (optE object ''pagination'' (fromJSON_tc_PageResponse h)) (\<lambda>v_pagination.
     Inr \<lparr>tc_gov_QueryVotesResponse.votes = v_votes, tc_gov_QueryVotesResponse.pagination = v_pagination\<rparr>))"

definition toJSON_tc_gov_QueryVotesResponse :: "host \<Rightarrow> tc_gov_QueryVotesResponse \<Rightarrow> jsval result" where
  "toJSON_tc_gov_QueryVotesResponse h message = objE
    [jlistE ''votes'' (toJSON_tc_gov_Vote h) (tc_gov_QueryVotesResponse.votes message),
     joptE ''pagination'' (toJSON_tc_PageResponse h) (tc_gov_QueryVotesResponse.pagination message)]"

type_synonym tc_gov_QueryVotesResponse_Partial = "tc_gov_Vote_Partial list option \<times> PageResponse_Partial option"

definition fromPartial_tc_gov_QueryVotesResponse :: "tc_gov_QueryVotesResponse_Partial \<Rightarrow> tc_gov_QueryVotesResponse" where
  "fromPartial_tc_gov_QueryVotesResponse object = (case object of (p_votes, p_pagination) \<Rightarrow>
     createBase_tc_gov_QueryVotesResponse\<lparr>tc_gov_QueryVotesResponse.votes := partial_map fromPartial_tc_gov_Vote (p_votes),
       tc_gov_QueryVotesResponse.pagination := map_option fromPartial_tc_PageResponse (p_pagination)\<rparr>)"

text \<open>A partial message that sets every field.\<close>

definition partial_of_tc_gov_QueryVotesResponse :: "tc_gov_QueryVotesResponse \<Rightarrow> tc_gov_QueryVotesResponse_Partial" where
  "partial_of_tc_gov_QueryVotesResponse m =
     (Some (map partial_of_tc_gov_Vote (tc_gov_QueryVotesResponse.votes m)),
      map_option partial_of_PageResponse (tc_gov_QueryVotesResponse.pagination m))"

definition wf_tc_gov_QueryVotesResponse :: "('w, 'r) wire \<Rightarrow> tc_gov_QueryVotesResponse \<Rightarrow> bool" where
  "wf_tc_gov_QueryVotesResponse L m \<longleftrightarrow> list_all (\<lambda>v. wf_tc_gov_Vote L v \<and> fits L (encode_tc_gov_Vote L v)) (tc_gov_QueryVotesResponse.votes m)
     \<and> pred_option (\<lambda>v. wf_PageResponse L v \<and> fits L (encode_PageResponse L v)) (tc_gov_QueryVotesResponse.pagination m)"

definition wfj_tc_gov_QueryVotesResponse :: "tc_gov_QueryVotesResponse \<Rightarrow> bool" where
  "wfj_tc_gov_QueryVotesResponse m \<longleftrightarrow> list_all wfj_tc_gov_Vote (tc_gov_QueryVotesResponse.votes m)
     \<and> pred_option wfj_PageResponse (tc_gov_QueryVotesResponse.pagination m)"

subsection \<open>QueryParamsRequest\<close>

record tc_gov_QueryParamsRequest =
  paramsType :: jsstring

definition createBase_tc_gov_QueryParamsRequest :: tc_gov_QueryParamsRequest where
  "createBase_tc_gov_QueryParamsRequest = \<lparr>tc_gov_QueryParamsRequest.paramsType = []\<rparr>"

definition encode_tc_gov_QueryParamsRequest :: "('w, 'r) wire \<Rightarrow> tc_gov_QueryParamsRequest \<Rightarrow> 'w \<Rightarrow> 'w result" where
  "encode_tc_gov_QueryParamsRequest L message = seqE
    [whenE (tc_gov_QueryParamsRequest.paramsType message \<noteq> []) (seqE [w_uint32 L 10, w_string L (tc_gov_QueryParamsRequest.paramsType message)])]"

definition tc_gov_QueryParamsRequest_switch :: "('w, 'r) wire \<Rightarrow> long_lib \<Rightarrow> u32 \<Rightarrow> tc_gov_QueryParamsRequest \<Rightarrow> (tc_gov_QueryParamsRequest, 'r) action" where
  "tc_gov_QueryParamsRequest_switch L G tag message = js_switch (drop_bit 3 tag)
    [(1, readf (r_string L) (\<lambda>v. message\<lparr>tc_gov_QueryParamsRequest.paramsType := v\<rparr>))]
    (skipType L tag message)"

definition decode_tc_gov_QueryParamsRequest :: "('w, 'r) wire \<Rightarrow> long_lib \<Rightarrow> 'r input \<Rightarrow> nat option \<Rightarrow> (tc_gov_QueryParamsRequest \<times> 'r) result" where
  "decode_tc_gov_QueryParamsRequest L G = decode_msg L (tc_gov_QueryParamsRequest_switch L G) createBase_tc_gov_QueryParamsRequest"

definition fromJSON_tc_gov_QueryParamsRequest :: "host \<Rightarrow> jsval \<Rightarrow> tc_gov_QueryParamsRequest result" where
  "fromJSON_tc_gov_QueryParamsRequest h object =
     bindE (fieldE object ''paramsType'' (stringE h) []) (\<lambda>v_paramsType.
     Inr \<lparr>tc_gov_QueryParamsRequest.paramsType = v_paramsType\<rparr>)"

definition toJSON_tc_gov_QueryParamsRequest :: "host \<Rightarrow> tc_gov_QueryParamsRequest \<Rightarrow> jsval result" where
  "toJSON_tc_gov_QueryParamsRequest h message = objE
    [jfieldE True ''paramsType'' (Inr (JString (tc_gov_QueryParamsRequest.paramsType message)))]"

type_synonym tc_gov_QueryParamsRequest_Partial = "jsstring option"

definition fromPartial_tc_gov_QueryParamsRequest :: "tc_gov_QueryParamsRequest_Partial \<Rightarrow> tc_gov_QueryParamsRequest" where
  "fromPartial_tc_gov_QueryParamsRequest object = (case object of p_paramsType \<Rightarrow>
     createBase_tc_gov_QueryParamsRequest\<lparr>tc_gov_QueryParamsRequest.paramsType := nullish (p_paramsType) []\<rparr>)"

text \<open>A partial message that sets every field.\<close>

definition partial_of_tc_gov_QueryParamsRequest :: "tc_gov_QueryParamsRequest \<Rightarrow> tc_gov_QueryParamsRequest_Partial" where
  "partial_of_tc_gov_QueryParamsRequest m =
     (Some (tc_gov_QueryParamsRequest.paramsType m))"

definition wf_tc_gov_QueryParamsRequest :: "('w, 'r) wire \<Rightarrow> tc_gov_QueryParamsRequest \<Rightarrow> bool" where
  "wf_tc_gov_QueryParamsRequest L m \<longleftrightarrow> wire_string (tc_gov_QueryParamsRequest.paramsType m)"

definition wfj_tc_gov_QueryParamsRequest :: "tc_gov_QueryParamsRequest \<Rightarrow> bool" where
  "wfj_tc_gov_QueryParamsRequest m \<longleftrightarrow> True"

subsection \<open>QueryParamsResponse\<close>

record tc_gov_QueryParamsResponse =
  votingParams :: "tc_gov_VotingParams option"
  depositParams :: "tc_gov_DepositParams option"
  tallyParams :: "tc_gov_TallyParams option"

definition createBase_tc_gov_QueryParamsResponse :: tc_gov_QueryParamsResponse where
  "createBase_tc_gov_QueryParamsResponse = \<lparr>tc_gov_QueryParamsResponse.votingParams = None,
     tc_gov_QueryParamsResponse.depositParams = None,
     tc_gov_QueryParamsResponse.tallyParams = None\<rparr>"

definition encode_tc_gov_QueryParamsResponse :: "('w, 'r) wire \<Rightarrow> tc_gov_QueryParamsResponse \<Rightarrow> 'w \<Rightarrow> 'w result" where
  "encode_tc_gov_QueryParamsResponse L message = seqE
    [someE (tc_gov_QueryParamsResponse.votingParams message) (\<lambda>v. seqE [w_uint32 L 10, w_fork L, encode_tc_gov_VotingParams L v, w_join L]),
     someE (tc_gov_QueryParamsResponse.depositParams message) (\<lambda>v. seqE [w_uint32 L 18, w_fork L, encode_tc_gov_DepositParams L v, w_join L]),
     someE (tc_gov_QueryParamsResponse.tallyParams message) (\<lambda>v. seqE [w_uint32 L 26, w_fork L, encode_tc_gov_TallyParams L v, w_join L])]"

definition tc_gov_QueryParamsResponse_switch :: "('w, 'r) wire \<Rightarrow> long_lib \<Rightarrow> u32 \<Rightarrow> tc_gov_QueryParamsResponse \<Rightarrow> (tc_gov_QueryParamsResponse, 'r) action" where
  "tc_gov_QueryParamsResponse_switch L G tag message = js_switch (drop_bit 3 tag)
    [(1, readf (submsg L (decode_tc_gov_VotingParams L G)) (\<lambda>v. message\<lparr>tc_gov_QueryParamsResponse.votingParams := Some v\<rparr>)),
     (2, readf (submsg L (decode_tc_gov_DepositParams L G)) (\<lambda>v. message\<lparr>tc_gov_QueryParamsResponse.depositParams := Some v\<rparr>)),
     (3, readf (submsg L (decode_tc_gov_TallyParams L G)) (\<lambda>v. message\<lparr>tc_gov_QueryParamsResponse.tallyParams := Some v\<rparr>))]
    (skipType L tag message)"

definition decode_tc_gov_QueryParamsResponse :: "('w, 'r) wire \<Rightarrow> long_lib \<Rightarrow> 'r input \<Rightarrow> nat option \<Rightarrow> (tc_gov_QueryParamsResponse \<times> 'r) result" where
  "decode_tc_gov_QueryParamsResponse L G = decode_msg L (tc_gov_QueryParamsResponse_switch L G) createBase_tc_gov_QueryParamsResponse"

definition fromJSON_tc_gov_QueryParamsResponse :: "host \<Rightarrow> jsval \<Rightarrow> tc_gov_QueryParamsResponse result" where
  "fromJSON_tc_gov_QueryParamsResponse h object =
     bindE (optE object ''votingParams'' (fromJSON_tc_gov_VotingParams h)) (\<lambda>v_votingParams.
     bindE (optE object ''depositParams'' (fromJSON_tc_gov_DepositParams h)) (\<lambda>v_depositParams.
     bindE (optE object ''tallyParams'' (fromJSON_tc_gov_TallyParams h)) (\<lambda>v_tallyParams.
     Inr \<lparr>tc_gov_QueryParamsResponse.votingParams = v_votingParams, tc_gov_QueryParamsResponse.depositParams = v_depositParams, tc_gov_QueryParamsResponse.tallyParams = v_tallyParams\<rparr>)))"

definition toJSON_tc_gov_QueryParamsResponse :: "host \<Rightarrow> tc_gov_QueryParamsResponse \<Rightarrow> jsval result" where
  "toJSON_tc_gov_QueryParamsResponse h message = objE
    [joptE ''votingParams'' (toJSON_tc_gov_VotingParams h) (tc_gov_QueryParamsResponse.votingParams message),
     joptE ''depositParams'' (toJSON_tc_gov_DepositParams h) (tc_gov_QueryParamsResponse.depositParams message),
     joptE ''tallyParams'' (toJSON_tc_gov_TallyParams h) (tc_gov_QueryParamsResponse.tallyParams message)]"

type_synonym tc_gov_QueryParamsResponse_Partial = "tc_gov_VotingParams_Partial option \<times> tc_gov_DepositParams_Partial option \<times> tc_gov_TallyParams_Partial option"

definition fromPartial_tc_gov_QueryParamsResponse :: "tc_gov_QueryParamsResponse_Partial \<Rightarrow> tc_gov_QueryParamsResponse" where
  "fromPartial_tc_gov_QueryParamsResponse object = (case object of (p_votingParams, p_depositParams, p_tallyParams) \<Rightarrow>
     createBase_tc_gov_QueryParamsResponse\<lparr>tc_gov_QueryParamsResponse.votingParams := map_option fromPartial_tc_gov_VotingParams (p_votingParams),
       tc_gov_QueryParamsResponse.depositParams := map_option fromPartial_tc_gov_DepositParams (p_depositParams),
       tc_gov_QueryParamsResponse.tallyParams := map_option fromPartial_tc_gov_TallyParams (p_tallyParams)\<rparr>)"

text \<open>A partial message that sets every field.\<close>

definition partial_of_tc_gov_QueryParamsResponse :: "tc_gov_QueryParamsResponse \<Rightarrow> tc_gov_QueryParamsResponse_Partial" where
  "partial_of_tc_gov_QueryParamsResponse m =
     (map_option partial_of_tc_gov_VotingParams (tc_gov_QueryParamsResponse.votingParams m),
      map_option partial_of_tc_gov_DepositParams (tc_gov_QueryParamsResponse.depositParams m),
      map_option partial_of_tc_gov_TallyParams (tc_gov_QueryParamsResponse.tallyParams m))"

definition wf_tc_gov_QueryParamsResponse :: "('w, 'r) wire \<Rightarrow> tc_gov_QueryParamsResponse \<Rightarrow> bool" where
  "wf_tc_gov_QueryParamsResponse L m \<longleftrightarrow> pred_option (\<lambda>v. wf_tc_gov_VotingParams L v \<and> fits L (encode_tc_gov_VotingParams L v)) (tc_gov_QueryParamsResponse.votingParams m)
     \<and> pred_option (\<lambda>v. wf_tc_gov_DepositParams L v \<and> fits L (encode_tc_gov_DepositParams L v)) (tc_gov_QueryParamsResponse.depositParams m)
     \<and> pred_option (\<lambda>v. wf_tc_gov_TallyParams L v \<and> fits L (encode_tc_gov_TallyParams L v)) (tc_gov_QueryParamsResponse.tallyParams m)"

definition wfj_tc_gov_QueryParamsResponse :: "tc_gov_QueryParamsResponse \<Rightarrow> bool" where
  "wfj_tc_gov_QueryParamsResponse m \<longleftrightarrow> pred_option wfj_tc_gov_VotingParams (tc_gov_QueryParamsResponse.votingParams m)
     \<and> pred_option wfj_tc_gov_DepositParams (tc_gov_QueryParamsResponse.depositParams m)
     \<and> pred_option wfj_tc_gov_TallyParams (tc_gov_QueryParamsResponse.tallyParams m)"

subsection \<open>QueryDepositRequest\<close>

record tc_gov_QueryDepositRequest =
  proposalId :: number
  depositor :: jsstring

definition createBase_tc_gov_QueryDepositRequest :: tc_gov_QueryDepositRequest where
  "createBase_tc_gov_QueryDepositRequest = \<lparr>tc_gov_QueryDepositRequest.proposalId = Num 0,
     tc_gov_QueryDepositRequest.depositor = []\<rparr>"

definition encode_tc_gov_QueryDepositRequest :: "('w, 'r) wire \<Rightarrow> tc_gov_QueryDepositRequest \<Rightarrow> 'w \<Rightarrow> 'w result" where
  "encode_tc_gov_QueryDepositRequest L message = seqE
    [whenE (tc_gov_QueryDepositRequest.proposalId message \<noteq> Num 0) (seqE [w_uint32 L 8, w_uint64 L (tc_gov_QueryDepositRequest.proposalId message)]),
     whenE (tc_gov_QueryDepositRequest.depositor message \<noteq> []) (seqE [w_uint32 L 18, w_string L (tc_gov_QueryDepositRequest.depositor message)])]"

definition tc_gov_QueryDepositRequest_switch :: "('w, 'r) wire \<Rightarrow> long_lib \<Rightarrow> u32 \<Rightarrow> tc_gov_QueryDepositRequest \<Rightarrow> (tc_gov_QueryDepositRequest, 'r) action" where
  "tc_gov_QueryDepositRequest_switch L G tag message = js_switch (drop_bit 3 tag)
    [(1, readf (num64l G (r_uint64 L)) (\<lambda>v. message\<lparr>tc_gov_QueryDepositRequest.proposalId := v\<rparr>)),
     (2, readf (r_string L) (\<lambda>v. message\<lparr>tc_gov_QueryDepositRequest.depositor := v\<rparr>))]
    (skipType L tag message)"

definition decode_tc_gov_QueryDepositRequest :: "('w, 'r) wire \<Rightarrow> long_lib \<Rightarrow> 'r input \<Rightarrow> nat option \<Rightarrow> (tc_gov_QueryDepositRequest \<times> 'r) result" where
  "decode_tc_gov_QueryDepositRequest L G = decode_msg L (tc_gov_QueryDepositRequest_switch L G) createBase_tc_gov_QueryDepositRequest"

definition fromJSON_tc_gov_QueryDepositRequest :: "host \<Rightarrow> jsval \<Rightarrow> tc_gov_QueryDepositRequest result" where
  "fromJSON_tc_gov_QueryDepositRequest h object =
     bindE (fieldE object ''proposalId'' (numberE h) (Num 0)) (\<lambda>v_proposalId.
     bindE (fieldE object ''depositor'' (stringE h) []) (\<lambda>v_depositor.
     Inr \<lparr>tc_gov_QueryDepositRequest.proposalId = v_proposalId, tc_gov_QueryDepositRequest.depositor = v_depositor\<rparr>))"

definition toJSON_tc_gov_QueryDepositRequest :: "host \<Rightarrow> tc_gov_QueryDepositRequest \<Rightarrow> jsval result" where
  "toJSON_tc_gov_QueryDepositRequest h message = objE
    [jfieldE True ''proposalId'' (Inr (JNumber (Math_round (tc_gov_QueryDepositRequest.proposalId message)))),
     jfieldE True ''depositor'' (Inr (JString (tc_gov_QueryDepositRequest.depositor message)))]"

type_synonym tc_gov_QueryDepositRequest_Partial = "number option \<times> jsstring option"

definition fromPartial_tc_gov_QueryDepositRequest :: "tc_gov_QueryDepositRequest_Partial \<Rightarrow> tc_gov_QueryDepositRequest" where
  "fromPartial_tc_gov_QueryDepositRequest object = (case object of (p_proposalId, p_depositor) \<Rightarrow>
     createBase_tc_gov_QueryDepositRequest\<lparr>tc_gov_QueryDepositRequest.proposalId := nullish (p_proposalId) (Num 0),
       tc_gov_QueryDepositRequest.depositor := nullish (p_depositor) []\<rparr>)"

text \<open>A partial message that sets every field.\<close>

definition partial_of_tc_gov_QueryDepositRequest :: "tc_gov_QueryDepositRequest \<Rightarrow> tc_gov_QueryDepositRequest_Partial" where
  "partial_of_tc_gov_QueryDepositRequest m =
     (Some (tc_gov_QueryDepositRequest.proposalId m),
      Some (tc_gov_QueryDepositRequest.depositor m))"

definition wf_tc_gov_QueryDepositRequest :: "('w, 'r) wire \<Rightarrow> tc_gov_QueryDepositRequest \<Rightarrow> bool" where
  "wf_tc_gov_QueryDepositRequest L m \<longleftrightarrow> safe_uint (tc_gov_QueryDepositRequest.proposalId m)
     \<and> wire_string (tc_gov_QueryDepositRequest.depositor m)"

definition wfj_tc_gov_QueryDepositRequest :: "tc_gov_QueryDepositRequest \<Rightarrow> bool" where
  "wfj_tc_gov_QueryDepositRequest m \<longleftrightarrow> whole (tc_gov_QueryDepositRequest.proposalId m)"

subsection \<open>QueryDepositResponse\<close>

record tc_gov_QueryDepositResponse =
  deposit :: "tc_gov_Deposit option"

definition createBase_tc_gov_QueryDepositResponse :: tc_gov_QueryDepositResponse where
  "createBase_tc_gov_QueryDepositResponse = \<lparr>tc_gov_QueryDepositResponse.deposit = None\<rparr>"

definition encode_tc_gov_QueryDepositResponse :: "('w, 'r) wire \<Rightarrow> tc_gov_QueryDepositResponse \<Rightarrow> 'w \<Rightarrow> 'w result" where
  "encode_tc_gov_QueryDepositResponse L message = seqE
    [someE (tc_gov_QueryDepositResponse.deposit message) (\<lambda>v. seqE [w_uint32 L 10, w_fork L, encode_tc_gov_Deposit L v, w_join L])]"

definition tc_gov_QueryDepositResponse_switch :: "('w, 'r) wire \<Rightarrow> long_lib \<Rightarrow> u32 \<Rightarrow> tc_gov_QueryDepositResponse \<Rightarrow> (tc_gov_QueryDepositResponse, 'r) action" where
  "tc_gov_QueryDepositResponse_switch L G tag message = js_switch (drop_bit 3 tag)
    [(1, readf (submsg L (decode_tc_gov_Deposit L G)) (\<lambda>v. message\<lparr>tc_gov_QueryDepositResponse.deposit := Some v\<rparr>))]
    (skipType L tag message)"

definition decode_tc_gov_QueryDepositResponse :: "('w, 'r) wire \<Rightarrow> long_lib \<Rightarrow> 'r input \<Rightarrow> nat option \<Rightarrow> (tc_gov_QueryDepositResponse \<times> 'r) result" where
  "decode_tc_gov_QueryDepositResponse L G = decode_msg L (tc_gov_QueryDepositResponse_switch L G) createBase_tc_gov_QueryDepositResponse"

definition fromJSON_tc_gov_QueryDepositResponse :: "host \<Rightarrow> jsval \<Rightarrow> tc_gov_QueryDepositResponse result" where
  "fromJSON_tc_gov_QueryDepositResponse h object =
     bindE (optE object ''deposit'' (fromJSON_tc_gov_Deposit h)) (\<lambda>v_deposit.
     Inr \<lparr>tc_gov_QueryDepositResponse.deposit = v_deposit\<rparr>)"

definition toJSON_tc_gov_QueryDepositResponse :: "host \<Rightarrow> tc_gov_QueryDepositResponse \<Rightarrow> jsval result" where
  "toJSON_tc_gov_QueryDepositResponse h message = objE
    [joptE ''deposit'' (toJSON_tc_gov_Deposit h) (tc_gov_QueryDepositResponse.deposit message)]"

type_synonym tc_gov_QueryDepositResponse_Partial = "tc_gov_Deposit_Partial option"

definition fromPartial_tc_gov_QueryDepositResponse :: "tc_gov_QueryDepositResponse_Partial \<Rightarrow> tc_gov_QueryDepositResponse" where
  "fromPartial_tc_gov_QueryDepositResponse object = (case object of p_deposit \<Rightarrow>
     createBase_tc_gov_QueryDepositResponse\<lparr>tc_gov_QueryDepositResponse.deposit := map_option fromPartial_tc_gov_Deposit (p_deposit)\<rparr>)"

text \<open>A partial message that sets every field.\<close>

definition partial_of_tc_gov_QueryDepositResponse :: "tc_gov_QueryDepositResponse \<Rightarrow> tc_gov_QueryDepositResponse_Partial" where
  "partial_of_tc_gov_QueryDepositResponse m =
     (map_option partial_of_tc_gov_Deposit (tc_gov_QueryDepositResponse.deposit m))"

definition wf_tc_gov_QueryDepositResponse :: "('w, 'r) wire \<Rightarrow> tc_gov_QueryDepositResponse \<Rightarrow> bool" where
  "wf_tc_gov_QueryDepositResponse L m \<longleftrightarrow> pred_option (\<lambda>v. wf_tc_gov_Deposit L v \<and> fits L (encode_tc_gov_Deposit L v)) (tc_gov_QueryDepositResponse.deposit m)"

definition wfj_tc_gov_QueryDepositResponse :: "tc_gov_QueryDepositResponse \<Rightarrow> bool" where
  "wfj_tc_gov_QueryDepositResponse m \<longleftrightarrow> pred_option wfj_tc_gov_Deposit (tc_gov_QueryDepositResponse.deposit m)"

subsection \<open>QueryDepositsRequest\<close>

record tc_gov_QueryDepositsRequest =
  proposalId :: number
  pagination :: "PageRequest option"

definition createBase_tc_gov_QueryDepositsRequest :: tc_gov_QueryDepositsRequest where
  "createBase_tc_gov_QueryDepositsRequest = \<lparr>tc_gov_QueryDepositsRequest.proposalId = Num 0,
     tc_gov_QueryDepositsRequest.pagination = None\<rparr>"

definition encode_tc_gov_QueryDepositsRequest :: "('w, 'r) wire \<Rightarrow> tc_gov_QueryDepositsRequest \<Rightarrow> 'w \<Rightarrow> 'w result" where
  "encode_tc_gov_QueryDepositsRequest L message = seqE
    [whenE (tc_gov_QueryDepositsRequest.proposalId message \<noteq> Num 0) (seqE [w_uint32 L 8, w_uint64 L (tc_gov_QueryDepositsRequest.proposalId message)]),
     someE (tc_gov_QueryDepositsRequest.pagination message) (\<lambda>v. seqE [w_uint32 L 18, w_fork L, encode_tc_PageRequest L v, w_join L])]"

definition tc_gov_QueryDepositsRequest_switch :: "('w, 'r) wire \<Rightarrow> long_lib \<Rightarrow> u32 \<Rightarrow> tc_gov_QueryDepositsRequest \<Rightarrow> (tc_gov_QueryDepositsRequest, 'r) action" where
  "tc_gov_QueryDepositsRequest_switch L G tag message = js_switch (drop_bit 3 tag)
    [(1, readf (num64l G (r_uint64 L)) (\<lambda>v. message\<lparr>tc_gov_QueryDepositsRequest.proposalId := v\<rparr>)),
     (2, readf (submsg L (decode_tc_PageRequest L G)) (\<lambda>v. message\<lparr>tc_gov_QueryDepositsRequest.pagination := Some v\<rparr>))]
    (skipType L tag message)"

definition decode_tc_gov_QueryDepositsRequest :: "('w, 'r) wire \<Rightarrow> long_lib \<Rightarrow> 'r input \<Rightarrow> nat option \<Rightarrow> (tc_gov_QueryDepositsRequest \<times> 'r) result" where
  "decode_tc_gov_QueryDepositsRequest L G = decode_msg L (tc_gov_QueryDepositsRequest_switch L G) createBase_tc_gov_QueryDepositsRequest"

definition fromJSON_tc_gov_QueryDepositsRequest :: "host \<Rightarrow> jsval \<Rightarrow> tc_gov_QueryDepositsRequest result" where
  "fromJSON_tc_gov_QueryDepositsRequest h object =
     bindE (fieldE object ''proposalId'' (numberE h) (Num 0)) (\<lambda>v_proposalId.
     bindE (optE object ''pagination'' (fromJSON_tc_PageRequest h)) (\<lambda>v_pagination.
     Inr \<lparr>tc_gov_QueryDepositsRequest.proposalId = v_proposalId, tc_gov_QueryDepositsRequest.pagination = v_pagination\<rparr>))"

definition toJSON_tc_gov_QueryDepositsRequest :: "host \<Rightarrow> tc_gov_QueryDepositsRequest \<Rightarrow> jsval result" where
  "toJSON_tc_gov_QueryDepositsRequest h message = objE
    [jfieldE True ''proposalId'' (Inr (JNumber (Math_round (tc_gov_QueryDepositsRequest.proposalId message)))),
     joptE ''pagination'' (toJSON_tc_PageRequest h) (tc_gov_QueryDepositsRequest.pagination message)]"

type_synonym tc_gov_QueryDepositsRequest_Partial = "number option \<times> PageRequest_Partial option"

definition fromPartial_tc_gov_QueryDepositsRequest :: "tc_gov_QueryDepositsRequest_Partial \<Rightarrow> tc_gov_QueryDepositsRequest" where
  "fromPartial_tc_gov_QueryDepositsRequest object = (case object of (p_proposalId, p_pagination) \<Rightarrow>
     createBase_tc_gov_QueryDepositsRequest\<lparr>tc_gov_QueryDepositsRequest.proposalId := nullish (p_proposalId) (Num 0),
       tc_gov_QueryDepositsRequest.pagination := map_option fromPartial_tc_PageRequest (p_pagination)\<rparr>)"

text \<open>A partial message that sets every field.\<close>

definition partial_of_tc_gov_QueryDepositsRequest :: "tc_gov_QueryDepositsRequest \<Rightarrow> tc_gov_QueryDepositsRequest_Partial" where
  "partial_of_tc_gov_QueryDepositsRequest m =
     (Some (tc_gov_QueryDepositsRequest.proposalId m),
      map_option partial_of_PageRequest (tc_gov_QueryDepositsRequest.pagination m))"

definition wf_tc_gov_QueryDepositsRequest :: "('w, 'r) wire \<Rightarrow> tc_gov_QueryDepositsRequest \<Rightarrow> bool" where
  "wf_tc_gov_QueryDepositsRequest L m \<longleftrightarrow> safe_uint (tc_gov_QueryDepositsRequest.proposalId m)
     \<and> pred_option (\<lambda>v. wf_PageRequest L v \<and> fits L (encode_PageRequest L v)) (tc_gov_QueryDepositsRequest.pagination m)"

definition wfj_tc_gov_QueryDepositsRequest :: "tc_gov_QueryDepositsRequest \<Rightarrow> bool" where
  "wfj_tc_gov_QueryDepositsRequest m \<longleftrightarrow> whole (tc_gov_QueryDepositsRequest.proposalId m)
     \<and> pred_option wfj_PageRequest (tc_gov_QueryDepositsRequest.pagination m)"

subsection \<open>QueryDepositsResponse\<close>

record tc_gov_QueryDepositsResponse =
  deposits :: "tc_gov_Deposit list"
  pagination :: "PageResponse option"

definition createBase_tc_gov_QueryDepositsResponse :: tc_gov_QueryDepositsResponse where
  "createBase_tc_gov_QueryDepositsResponse = \<lparr>tc_gov_QueryDepositsResponse.deposits = [],
     tc_gov_QueryDepositsResponse.pagination = None\<rparr>"

definition encode_tc_gov_QueryDepositsResponse :: "('w, 'r) wire \<Rightarrow> tc_gov_QueryDepositsResponse \<Rightarrow> 'w \<Rightarrow> 'w result" where
  "encode_tc_gov_QueryDepositsResponse L message = seqE
    [forE (\<lambda>v. seqE [w_uint32 L 10, w_fork L, encode_tc_gov_Deposit L v, w_join L]) (tc_gov_QueryDepositsResponse.deposits message),
     someE (tc_gov_QueryDepositsResponse.pagination message) (\<lambda>v. seqE [w_uint32 L 18, w_fork L, encode_tc_PageResponse L v, w_join L])]"

definition tc_gov_QueryDepositsResponse_switch :: "('w, 'r) wire \<Rightarrow> long_lib \<Rightarrow> u32 \<Rightarrow> tc_gov_QueryDepositsResponse \<Rightarrow> (tc_gov_QueryDepositsResponse, 'r) action" where
  "tc_gov_QueryDepositsResponse_switch L G tag message = js_switch (drop_bit 3 tag)
    [(1, readf (submsg L (decode_tc_gov_Deposit L G)) (\<lambda>v. message\<lparr>tc_gov_QueryDepositsResponse.deposits := tc_gov_QueryDepositsResponse.deposits message @ [v]\<rparr>)),
     (2, readf (submsg L (decode_tc_PageResponse L G)) (\<lambda>v. message\<lparr>tc_gov_QueryDepositsResponse.pagination := Some v\<rparr>))]
    (skipType L tag message)"

definition decode_tc_gov_QueryDepositsResponse :: "('w, 'r) wire \<Rightarrow> long_lib \<Rightarrow> 'r input \<Rightarrow> nat option \<Rightarrow> (tc_gov_QueryDepositsResponse \<times> 'r) result" where
  "decode_tc_gov_QueryDepositsResponse L G = decode_msg L (tc_gov_QueryDepositsResponse_switch L G) createBase_tc_gov_QueryDepositsResponse"

definition fromJSON_tc_gov_QueryDepositsResponse :: "host \<Rightarrow> jsval \<Rightarrow> tc_gov_QueryDepositsResponse result" where
  "fromJSON_tc_gov_QueryDepositsResponse h object =
     bindE (arrayE object ''deposits'' (fromJSON_tc_gov_Deposit h)) (\<lambda>v_deposits.
     bindE (optE object ''pagination'' (fromJSON_tc_PageResponse h)) (\<lambda>v_pagination.
     Inr \<lparr>tc_gov_QueryDepositsResponse.deposits = v_deposits, tc_gov_QueryDepositsResponse.pagination = v_pagination\<rparr>))"

definition toJSON_tc_gov_QueryDepositsResponse :: "host \<Rightarrow> tc_gov_QueryDepositsResponse \<Rightarrow> jsval result" where
  "toJSON_tc_gov_QueryDepositsResponse h message = objE
    [jlistE ''deposits'' (toJSON_tc_gov_Deposit h) (tc_gov_QueryDepositsResponse.deposits message),
     joptE ''pagination'' (toJSON_tc_PageResponse h) (tc_gov_QueryDepositsResponse.pagination message)]"

type_synonym tc_gov_QueryDepositsResponse_Partial = "tc_gov_Deposit_Partial list option \<times> PageResponse_Partial option"

definition fromPartial_tc_gov_QueryDepositsResponse :: "tc_gov_QueryDepositsResponse_Partial \<Rightarrow> tc_gov_QueryDepositsResponse" where
  "fromPartial_tc_gov_QueryDepositsResponse object = (case object of (p_deposits, p_pagination) \<Rightarrow>
     createBase_tc_gov_QueryDepositsResponse\<lparr>tc_gov_QueryDepositsResponse.deposits := partial_map fromPartial_tc_gov_Deposit (p_deposits),
       tc_gov_QueryDepositsResponse.pagination := map_option fromPartial_tc_PageResponse (p_pagination)\<rparr>)"

text \<open>A partial message that sets every field.\<close>

definition partial_of_tc_gov_QueryDepositsResponse :: "tc_gov_QueryDepositsResponse \<Rightarrow> tc_gov_QueryDepositsResponse_Partial" where
  "partial_of_tc_gov_QueryDepositsResponse m =
     (Some (map partial_of_tc_gov_Deposit (tc_gov_QueryDepositsResponse.deposits m)),
      map_option partial_of_PageResponse (tc_gov_QueryDepositsResponse.pagination m))"

definition wf_tc_gov_QueryDepositsResponse :: "('w, 'r) wire \<Rightarrow> tc_gov_QueryDepositsResponse \<Rightarrow> bool" where
  "wf_tc_gov_QueryDepositsResponse L m \<longleftrightarrow> list_all (\<lambda>v. wf_tc_gov_Deposit L v \<and> fits L (encode_tc_gov_Deposit L v)) (tc_gov_QueryDepositsResponse.deposits m)
     \<and> pred_option (\<lambda>v. wf_PageResponse L v \<and> fits L (encode_PageResponse L v)) (tc_gov_QueryDepositsResponse.pagination m)"

definition wfj_tc_gov_QueryDepositsResponse :: "tc_gov_QueryDepositsResponse \<Rightarrow> bool" where
  "wfj_tc_gov_QueryDepositsResponse m \<longleftrightarrow> list_all wfj_tc_gov_Deposit (tc_gov_QueryDepositsResponse.deposits m)
     \<and> pred_option wfj_PageResponse (tc_gov_QueryDepositsResponse.pagination m)"

subsection \<open>QueryTallyResultRequest\<close>

record tc_gov_QueryTallyResultRequest =
  proposalId :: number

definition createBase_tc_gov_QueryTallyResultRequest :: tc_gov_QueryTallyResultRequest where
  "createBase_tc_gov_QueryTallyResultRequest = \<lparr>tc_gov_QueryTallyResultRequest.proposalId = Num 0\<rparr>"

definition encode_tc_gov_QueryTallyResultRequest :: "('w, 'r) wire \<Rightarrow> tc_gov_QueryTallyResultRequest \<Rightarrow> 'w \<Rightarrow> 'w result" where
  "encode_tc_gov_QueryTallyResultRequest L message = seqE
    [whenE (tc_gov_QueryTallyResultRequest.proposalId message \<noteq> Num 0) (seqE [w_uint32 L 8, w_uint64 L (tc_gov_QueryTallyResultRequest.proposalId message)])]"

definition tc_gov_QueryTallyResultRequest_switch :: "('w, 'r) wire \<Rightarrow> long_lib \<Rightarrow> u32 \<Rightarrow> tc_gov_QueryTallyResultRequest \<Rightarrow> (tc_gov_QueryTallyResultRequest, 'r) action" where
  "tc_gov_QueryTallyResultRequest_switch L G tag message = js_switch (drop_bit 3 tag)
    [(1, readf (num64l G (r_uint64 L)) (\<lambda>v. message\<lparr>tc_gov_QueryTallyResultRequest.proposalId := v\<rparr>))]
    (skipType L tag message)"

definition decode_tc_gov_QueryTallyResultRequest :: "('w, 'r) wire \<Rightarrow> long_lib \<Rightarrow> 'r input \<Rightarrow> nat option \<Rightarrow> (tc_gov_QueryTallyResultRequest \<times> 'r) result" where
  "decode_tc_gov_QueryTallyResultRequest L G = decode_msg L (tc_gov_QueryTallyResultRequest_switch L G) createBase_tc_gov_QueryTallyResultRequest"

definition fromJSON_tc_gov_QueryTallyResultRequest :: "host \<Rightarrow> jsval \<Rightarrow> tc_gov_QueryTallyResultRequest result" where
  "fromJSON_tc_gov_QueryTallyResultRequest h object =
     bindE (fieldE object ''proposalId'' (numberE h) (Num 0)) (\<lambda>v_proposalId.
     Inr \<lparr>tc_gov_QueryTallyResultRequest.proposalId = v_proposalId\<rparr>)"

definition toJSON_tc_gov_QueryTallyResultRequest :: "host \<Rightarrow> tc_gov_QueryTallyResultRequest \<Rightarrow> jsval result" where
  "toJSON_tc_gov_QueryTallyResultRequest h message = objE
    [jfieldE True ''proposalId'' (Inr (JNumber (Math_round (tc_gov_QueryTallyResultRequest.proposalId message))))]"

type_synonym tc_gov_QueryTallyResultRequest_Partial = "number option"

definition fromPartial_tc_gov_QueryTallyResultRequest :: "tc_gov_QueryTallyResultRequest_Partial \<Rightarrow> tc_gov_QueryTallyResultRequest" where
  "fromPartial_tc_gov_QueryTallyResultRequest object = (case object of p_proposalId \<Rightarrow>
     createBase_tc_gov_QueryTallyResultRequest\<lparr>tc_gov_QueryTallyResultRequest.proposalId := nullish (p_proposalId) (Num 0)\<rparr>)"

text \<open>A partial message that sets every field.\<close>

definition partial_of_tc_gov_QueryTallyResultRequest :: "tc_gov_QueryTallyResultRequest \<Rightarrow> tc_gov_QueryTallyResultRequest_Partial" where
  "partial_of_tc_gov_QueryTallyResultRequest m =
     (Some (tc_gov_QueryTallyResultRequest.proposalId m))"

definition wf_tc_gov_QueryTallyResultRequest :: "('w, 'r) wire \<Rightarrow> tc_gov_QueryTallyResultRequest \<Rightarrow> bool" where
  "wf_tc_gov_QueryTallyResultRequest L m \<longleftrightarrow> safe_uint (tc_gov_QueryTallyResultRequest.proposalId m)"

definition wfj_tc_gov_QueryTallyResultRequest :: "tc_gov_QueryTallyResultRequest \<Rightarrow> bool" where
  "wfj_tc_gov_QueryTallyResultRequest m \<longleftrightarrow> whole (tc_gov_QueryTallyResultRequest.proposalId m)"

subsection \<open>QueryTallyResultResponse\<close>

record tc_gov_QueryTallyResultResponse =
  tally :: "tc_gov_TallyResult option"

definition createBase_tc_gov_QueryTallyResultResponse :: tc_gov_QueryTallyResultResponse where
  "createBase_tc_gov_QueryTallyResultResponse = \<lparr>tc_gov_QueryTallyResultResponse.tally = None\<rparr>"

definition encode_tc_gov_QueryTallyResultResponse :: "('w, 'r) wire \<Rightarrow> tc_gov_QueryTallyResultResponse \<Rightarrow> 'w \<Rightarrow> 'w result" where
  "encode_tc_gov_QueryTallyResultResponse L message = seqE
    [someE (tc_gov_QueryTallyResultResponse.tally message) (\<lambda>v. seqE [w_uint32 L 10, w_fork L, encode_tc_gov_TallyResult L v, w_join L])]"

definition tc_gov_QueryTallyResultResponse_switch :: "('w, 'r) wire \<Rightarrow> long_lib \<Rightarrow> u32 \<Rightarrow> tc_gov_QueryTallyResultResponse \<Rightarrow> (tc_gov_QueryTallyResultResponse, 'r) action" where
  "tc_gov_QueryTallyResultResponse_switch L G tag message = js_switch (drop_bit 3 tag)
    [(1, readf (submsg L (decode_tc_gov_TallyResult L G)) (\<lambda>v. message\<lparr>tc_gov_QueryTallyResultResponse.tally := Some v\<rparr>))]
    (skipType L tag message)"

definition decode_tc_gov_QueryTallyResultResponse :: "('w, 'r) wire \<Rightarrow> long_lib \<Rightarrow> 'r input \<Rightarrow> nat option \<Rightarrow> (tc_gov_QueryTallyResultResponse \<times> 'r) result" where
  "decode_tc_gov_QueryTallyResultResponse L G = decode_msg L (tc_gov_QueryTallyResultResponse_switch L G) createBase_tc_gov_QueryTallyResultResponse"

definition fromJSON_tc_gov_QueryTallyResultResponse :: "host \<Rightarrow> jsval \<Rightarrow> tc_gov_QueryTallyResultResponse result" where
  "fromJSON_tc_gov_QueryTallyResultResponse h object =
     bindE (optE object ''tally'' (fromJSON_tc_gov_TallyResult h)) (\<lambda>v_tally.
     Inr \<lparr>tc_gov_QueryTallyResultResponse.tally = v_tally\<rparr>)"

definition toJSON_tc_gov_QueryTallyResultResponse :: "host \<Rightarrow> tc_gov_QueryTallyResultResponse \<Rightarrow> jsval result" where
  "toJSON_tc_gov_QueryTallyResultResponse h message = objE
    [joptE ''tally'' (toJSON_tc_gov_TallyResult h) (tc_gov_QueryTallyResultResponse.tally message)]"

type_synonym tc_gov_QueryTallyResultResponse_Partial = "tc_gov_TallyResult_Partial option"

definition fromPartial_tc_gov_QueryTallyResultResponse :: "tc_gov_QueryTallyResultResponse_Partial \<Rightarrow> tc_gov_QueryTallyResultResponse" where
  "fromPartial_tc_gov_QueryTallyResultResponse object = (case object of p_tally \<Rightarrow>
     createBase_tc_gov_QueryTallyResultResponse\<lparr>tc_gov_QueryTallyResultResponse.tally := map_option fromPartial_tc_gov_TallyResult (p_tally)\<rparr>)"

text \<open>A partial message that sets every field.\<close>

definition partial_of_tc_gov_QueryTallyResultResponse :: "tc_gov_QueryTallyResultResponse \<Rightarrow> tc_gov_QueryTallyResultResponse_Partial" where
  "partial_of_tc_gov_QueryTallyResultResponse m =
     (map_option partial_of_tc_gov_TallyResult (tc_gov_QueryTallyResultResponse.tally m))"

definition wf_tc_gov_QueryTallyResultResponse :: "('w, 'r) wire \<Rightarrow> tc_gov_QueryTallyResultResponse \<Rightarrow> bool" where
  "wf_tc_gov_QueryTallyResultResponse L m \<longleftrightarrow> pred_option (\<lambda>v. wf_tc_gov_TallyResult L v \<and> fits L (encode_tc_gov_TallyResult L v)) (tc_gov_QueryTallyResultResponse.tally m)"

definition wfj_tc_gov_QueryTallyResultResponse :: "tc_gov_QueryTallyResultResponse \<Rightarrow> bool" where
  "wfj_tc_gov_QueryTallyResultResponse m \<longleftrightarrow> pred_option wfj_tc_gov_TallyResult (tc_gov_QueryTallyResultResponse.tally m)"


subsection \<open>The gRPC client\<close>

definition tc_gov_QueryClientImpl_Proposal :: "('w, 'r) wire \<Rightarrow> long_lib \<Rightarrow> 's rpc \<Rightarrow> tc_gov_QueryProposalRequest \<Rightarrow> 's \<Rightarrow> tc_gov_QueryProposalResponse outcome \<times> 's" where
  "tc_gov_QueryClientImpl_Proposal L G tr = tc_unary L tr (js ''cosmos.gov.v1beta1.Query'') (js ''Proposal'') (encode_tc_gov_QueryProposalRequest L) (decode_tc_gov_QueryProposalResponse L G)"

definition tc_gov_QueryClientImpl_Proposals :: "('w, 'r) wire \<Rightarrow> long_lib \<Rightarrow> 's rpc \<Rightarrow> tc_gov_QueryProposalsRequest \<Rightarrow> 's \<Rightarrow> tc_gov_QueryProposalsResponse outcome \<times> 's" where
  "tc_gov_QueryClientImpl_Proposals L G tr = tc_unary L tr (js ''cosmos.gov.v1beta1.Query'') (js ''Proposals'') (encode_tc_gov_QueryProposalsRequest L) (decode_tc_gov_QueryProposalsResponse L G)"

definition tc_gov_QueryClientImpl_Vote :: "('w, 'r) wire \<Rightarrow> long_lib \<Rightarrow> 's rpc \<Rightarrow> tc_gov_QueryVoteRequest \<Rightarrow> 's \<Rightarrow> tc_gov_QueryVoteResponse outcome \<times> 's" where
  "tc_gov_QueryClientImpl_Vote L G tr = tc_unary L tr (js ''cosmos.gov.v1beta1.Query'') (js ''Vote'') (encode_tc_gov_QueryVoteRequest L) (decode_tc_gov_QueryVoteResponse L G)"

definition tc_gov_QueryClientImpl_Votes :: "('w, 'r) wire \<Rightarrow> long_lib \<Rightarrow> 's rpc \<Rightarrow> tc_gov_QueryVotesRequest \<Rightarrow> 's \<Rightarrow> tc_gov_QueryVotesResponse outcome \<times> 's" where
  "tc_gov_QueryClientImpl_Votes L G tr = tc_unary L tr (js ''cosmos.gov.v1beta1.Query'') (js ''Votes'') (encode_tc_gov_QueryVotesRequest L) (decode_tc_gov_QueryVotesResponse L G)"

definition tc_gov_QueryClientImpl_Params :: "('w, 'r) wire \<Rightarrow> long_lib \<Rightarrow> 's rpc \<Rightarrow> tc_gov_QueryParamsRequest \<Rightarrow> 's \<Rightarrow> tc_gov_QueryParamsResponse outcome \<times> 's" where
  "tc_gov_QueryClientImpl_Params L G tr = tc_unary L tr (js ''cosmos.gov.v1beta1.Query'') (js ''Params'') (encode_tc_gov_QueryParamsRequest L) (decode_tc_gov_QueryParamsResponse L G)"

definition tc_gov_QueryClientImpl_Deposit :: "('w, 'r) wire \<Rightarrow> long_lib \<Rightarrow> 's rpc \<Rightarrow> tc_gov_QueryDepositRequest \<Rightarrow> 's \<Rightarrow> tc_gov_QueryDepositResponse outcome \<times> 's" where
  "tc_gov_QueryClientImpl_Deposit L G tr = tc_unary L tr (js ''cosmos.gov.v1beta1.Query'') (js ''Deposit'') (encode_tc_gov_QueryDepositRequest L) (decode_tc_gov_QueryDepositResponse L G)"

definition tc_gov_QueryClientImpl_Deposits :: "('w, 'r) wire \<Rightarrow> long_lib \<Rightarrow> 's rpc \<Rightarrow> tc_gov_QueryDepositsRequest \<Rightarrow> 's \<Rightarrow> tc_gov_QueryDepositsResponse outcome \<times> 's" where
  "tc_gov_QueryClientImpl_Deposits L G tr = tc_unary L tr (js ''cosmos.gov.v1beta1.Query'') (js ''Deposits'') (encode_tc_gov_QueryDepositsRequest L) (decode_tc_gov_QueryDepositsResponse L G)"

definition tc_gov_QueryClientImpl_TallyResult :: "('w, 'r) wire \<Rightarrow> long_lib \<Rightarrow> 's rpc \<Rightarrow> tc_gov_QueryTallyResultRequest \<Rightarrow> 's \<Rightarrow> tc_gov_QueryTallyResultResponse outcome \<times> 's" where
  "tc_gov_QueryClientImpl_TallyResult L G tr = tc_unary L tr (js ''cosmos.gov.v1beta1.Query'') (js ''TallyResult'') (encode_tc_gov_QueryTallyResultRequest L) (decode_tc_gov_QueryTallyResultResponse L G)"


section \<open>Encoding, decoding and JSON of these messages\<close>

lemma fromPartial_partial_of_tc_gov_QueryProposalRequest [simp]: "fromPartial_tc_gov_QueryProposalRequest (partial_of_tc_gov_QueryProposalRequest m) = m"
  by (simp add: fromPartial_tc_gov_QueryProposalRequest_def partial_of_tc_gov_QueryProposalRequest_def createBase_tc_gov_QueryProposalRequest_def partial_map_def option.map_comp o_def option.map_ident)

lemma tc_gov_QueryProposalRequest_tags:
  "tc_gov_QueryProposalRequest_switch L G 8 m = readf (num64l G (r_uint64 L)) (\<lambda>v. m\<lparr>tc_gov_QueryProposalRequest.proposalId := v\<rparr>)"
  by (simp_all add: tc_gov_QueryProposalRequest_switch_def)

lemma fromPartial_partial_of_tc_gov_QueryProposalResponse [simp]: "fromPartial_tc_gov_QueryProposalResponse (partial_of_tc_gov_QueryProposalResponse m) = m"
  by (simp add: fromPartial_tc_gov_QueryProposalResponse_def partial_of_tc_gov_QueryProposalResponse_def createBase_tc_gov_QueryProposalResponse_def partial_map_def option.map_comp o_def option.map_ident)

lemma tc_gov_QueryProposalResponse_tags:
  "tc_gov_QueryProposalResponse_switch L G 10 m = readf (submsg L (decode_tc_gov_Proposal L G)) (\<lambda>v. m\<lparr>tc_gov_QueryProposalResponse.proposal := Some v\<rparr>)"
  by (simp_all add: tc_gov_QueryProposalResponse_switch_def)

lemma fromPartial_partial_of_tc_gov_QueryProposalsRequest [simp]: "fromPartial_tc_gov_QueryProposalsRequest (partial_of_tc_gov_QueryProposalsRequest m) = m"
  by (simp add: fromPartial_tc_gov_QueryProposalsRequest_def partial_of_tc_gov_QueryProposalsRequest_def createBase_tc_gov_QueryProposalsRequest_def partial_map_def option.map_comp o_def option.map_ident tc_PageRequest_eqs)

lemma tc_gov_QueryProposalsRequest_tags:
  "tc_gov_QueryProposalsRequest_switch L G 8 m = readf (num32 (r_int32 L)) (\<lambda>v. m\<lparr>tc_gov_QueryProposalsRequest.proposalStatus := v\<rparr>)"
  "tc_gov_QueryProposalsRequest_switch L G 18 m = readf (r_string L) (\<lambda>v. m\<lparr>tc_gov_QueryProposalsRequest.voter := v\<rparr>)"
  "tc_gov_QueryProposalsRequest_switch L G 26 m = readf (r_string L) (\<lambda>v. m\<lparr>tc_gov_QueryProposalsRequest.depositor := v\<rparr>)"
  "tc_gov_QueryProposalsRequest_switch L G 34 m = readf (submsg L (decode_tc_PageRequest L G)) (\<lambda>v. m\<lparr>tc_gov_QueryProposalsRequest.pagination := Some v\<rparr>)"
  by (simp_all add: tc_gov_QueryProposalsRequest_switch_def)

lemma fromPartial_partial_of_tc_gov_QueryProposalsResponse [simp]: "fromPartial_tc_gov_QueryProposalsResponse (partial_of_tc_gov_QueryProposalsResponse m) = m"
  by (simp add: fromPartial_tc_gov_QueryProposalsResponse_def partial_of_tc_gov_QueryProposalsResponse_def createBase_tc_gov_QueryProposalsResponse_def partial_map_def option.map_comp o_def option.map_ident tc_PageResponse_eqs)

lemma tc_gov_QueryProposalsResponse_tags:
  "tc_gov_QueryProposalsResponse_switch L G 10 m = readf (submsg L (decode_tc_gov_Proposal L G)) (\<lambda>v. m\<lparr>tc_gov_QueryProposalsResponse.proposals := tc_gov_QueryProposalsResponse.proposals m @ [v]\<rparr>)"
  "tc_gov_QueryProposalsResponse_switch L G 18 m = readf (submsg L (decode_tc_PageResponse L G)) (\<lambda>v. m\<lparr>tc_gov_QueryProposalsResponse.pagination := Some v\<rparr>)"
  by (simp_all add: tc_gov_QueryProposalsResponse_switch_def)

lemma fromPartial_partial_of_tc_gov_QueryVoteRequest [simp]: "fromPartial_tc_gov_QueryVoteRequest (partial_of_tc_gov_QueryVoteRequest m) = m"
  by (simp add: fromPartial_tc_gov_QueryVoteRequest_def partial_of_tc_gov_QueryVoteRequest_def createBase_tc_gov_QueryVoteRequest_def partial_map_def option.map_comp o_def option.map_ident)

lemma tc_gov_QueryVoteRequest_tags:
  "tc_gov_QueryVoteRequest_switch L G 8 m = readf (num64l G (r_uint64 L)) (\<lambda>v. m\<lparr>tc_gov_QueryVoteRequest.proposalId := v\<rparr>)"
  "tc_gov_QueryVoteRequest_switch L G 18 m = readf (r_string L) (\<lambda>v. m\<lparr>tc_gov_QueryVoteRequest.voter := v\<rparr>)"
  by (simp_all add: tc_gov_QueryVoteRequest_switch_def)

lemma fromPartial_partial_of_tc_gov_QueryVoteResponse [simp]: "fromPartial_tc_gov_QueryVoteResponse (partial_of_tc_gov_QueryVoteResponse m) = m"
  by (simp add: fromPartial_tc_gov_QueryVoteResponse_def partial_of_tc_gov_QueryVoteResponse_def createBase_tc_gov_QueryVoteResponse_def partial_map_def option.map_comp o_def option.map_ident)

lemma tc_gov_QueryVoteResponse_tags:
  "tc_gov_QueryVoteResponse_switch L G 10 m = readf (submsg L (decode_tc_gov_Vote L G)) (\<lambda>v. m\<lparr>tc_gov_QueryVoteResponse.vote := Some v\<rparr>)"
  by (simp_all add: tc_gov_QueryVoteResponse_switch_def)

lemma fromPartial_partial_of_tc_gov_QueryVotesRequest [simp]: "fromPartial_tc_gov_QueryVotesRequest (partial_of_tc_gov_QueryVotesRequest m) = m"
  by (simp add: fromPartial_tc_gov_QueryVotesRequest_def partial_of_tc_gov_QueryVotesRequest_def createBase_tc_gov_QueryVotesRequest_def partial_map_def option.map_comp o_def option.map_ident tc_PageRequest_eqs)

lemma tc_gov_QueryVotesRequest_tags:
  "tc_gov_QueryVotesRequest_switch L G 8 m = readf (num64l G (r_uint64 L)) (\<lambda>v. m\<lparr>tc_gov_QueryVotesRequest.proposalId := v\<rparr>)"
  "tc_gov_QueryVotesRequest_switch L G 18 m = readf (submsg L (decode_tc_PageRequest L G)) (\<lambda>v. m\<lparr>tc_gov_QueryVotesRequest.pagination := Some v\<rparr>)"
  by (simp_all add: tc_gov_QueryVotesRequest_switch_def)

lemma fromPartial_partial_of_tc_gov_QueryVotesResponse [simp]: "fromPartial_tc_gov_QueryVotesResponse (partial_of_tc_gov_QueryVotesResponse m) = m"
  by (simp add: fromPartial_tc_gov_QueryVotesResponse_def partial_of_tc_gov_QueryVotesResponse_def createBase_tc_gov_QueryVotesResponse_def partial_map_def option.map_comp o_def option.map_ident tc_PageResponse_eqs)

lemma tc_gov_QueryVotesResponse_tags:
  "tc_gov_QueryVotesResponse_switch L G 10 m = readf (submsg L (decode_tc_gov_Vote L G)) (\<lambda>v. m\<lparr>tc_gov_QueryVotesResponse.votes := tc_gov_QueryVotesResponse.votes m @ [v]\<rparr>)"
  "tc_gov_QueryVotesResponse_switch L G 18 m = readf (submsg L (decode_tc_PageResponse L G)) (\<lambda>v. m\<lparr>tc_gov_QueryVotesResponse.pagination := Some v\<rparr>)"
  by (simp_all add: tc_gov_QueryVotesResponse_switch_def)

lemma fromPartial_partial_of_tc_gov_QueryParamsRequest [simp]: "fromPartial_tc_gov_QueryParamsRequest (partial_of_tc_gov_QueryParamsRequest m) = m"
  by (simp add: fromPartial_tc_gov_QueryParamsRequest_def partial_of_tc_gov_QueryParamsRequest_def createBase_tc_gov_QueryParamsRequest_def partial_map_def option.map_comp o_def option.map_ident)

lemma tc_gov_QueryParamsRequest_tags:
  "tc_gov_QueryParamsRequest_switch L G 10 m = readf (r_string L) (\<lambda>v. m\<lparr>tc_gov_QueryParamsRequest.paramsType := v\<rparr>)"
  by (simp_all add: tc_gov_QueryParamsRequest_switch_def)

lemma fromPartial_partial_of_tc_gov_QueryParamsResponse [simp]: "fromPartial_tc_gov_QueryParamsResponse (partial_of_tc_gov_QueryParamsResponse m) = m"
  by (simp add: fromPartial_tc_gov_QueryParamsResponse_def partial_of_tc_gov_QueryParamsResponse_def createBase_tc_gov_QueryParamsResponse_def partial_map_def option.map_comp o_def option.map_ident)

lemma tc_gov_QueryParamsResponse_tags:
  "tc_gov_QueryParamsResponse_switch L G 10 m = readf (submsg L (decode_tc_gov_VotingParams L G)) (\<lambda>v. m\<lparr>tc_gov_QueryParamsResponse.votingParams := Some v\<rparr>)"
  "tc_gov_QueryParamsResponse_switch L G 18 m = readf (submsg L (decode_tc_gov_DepositParams L G)) (\<lambda>v. m\<lparr>tc_gov_QueryParamsResponse.depositParams := Some v\<rparr>)"
  "tc_gov_QueryParamsResponse_switch L G 26 m = readf (submsg L (decode_tc_gov_TallyParams L G)) (\<lambda>v. m\<lparr>tc_gov_QueryParamsResponse.tallyParams := Some v\<rparr>)"
  by (simp_all add: tc_gov_QueryParamsResponse_switch_def)

lemma fromPartial_partial_of_tc_gov_QueryDepositRequest [simp]: "fromPartial_tc_gov_QueryDepositRequest (partial_of_tc_gov_QueryDepositRequest m) = m"
  by (simp add: fromPartial_tc_gov_QueryDepositRequest_def partial_of_tc_gov_QueryDepositRequest_def createBase_tc_gov_QueryDepositRequest_def partial_map_def option.map_comp o_def option.map_ident)

lemma tc_gov_QueryDepositRequest_tags:
  "tc_gov_QueryDepositRequest_switch L G 8 m = readf (num64l G (r_uint64 L)) (\<lambda>v. m\<lparr>tc_gov_QueryDepositRequest.proposalId := v\<rparr>)"
  "tc_gov_QueryDepositRequest_switch L G 18 m = readf (r_string L) (\<lambda>v. m\<lparr>tc_gov_QueryDepositRequest.depositor := v\<rparr>)"
  by (simp_all add: tc_gov_QueryDepositRequest_switch_def)

lemma fromPartial_partial_of_tc_gov_QueryDepositResponse [simp]: "fromPartial_tc_gov_QueryDepositResponse (partial_of_tc_gov_QueryDepositResponse m) = m"
  by (simp add: fromPartial_tc_gov_QueryDepositResponse_def partial_of_tc_gov_QueryDepositResponse_def createBase_tc_gov_QueryDepositResponse_def partial_map_def option.map_comp o_def option.map_ident)

lemma tc_gov_QueryDepositResponse_tags:
  "tc_gov_QueryDepositResponse_switch L G 10 m = readf (submsg L (decode_tc_gov_Deposit L G)) (\<lambda>v. m\<lparr>tc_gov_QueryDepositResponse.deposit := Some v\<rparr>)"
  by (simp_all add: tc_gov_QueryDepositResponse_switch_def)

lemma fromPartial_partial_of_tc_gov_QueryDepositsRequest [simp]: "fromPartial_tc_gov_QueryDepositsRequest (partial_of_tc_gov_QueryDepositsRequest m) = m"
  by (simp add: fromPartial_tc_gov_QueryDepositsRequest_def partial_of_tc_gov_QueryDepositsRequest_def createBase_tc_gov_QueryDepositsRequest_def partial_map_def option.map_comp o_def option.map_ident tc_PageRequest_eqs)

lemma tc_gov_QueryDepositsRequest_tags:
  "tc_gov_QueryDepositsRequest_switch L G 8 m = readf (num64l G (r_uint64 L)) (\<lambda>v. m\<lparr>tc_gov_QueryDepositsRequest.proposalId := v\<rparr>)"
  "tc_gov_QueryDepositsRequest_switch L G 18 m = readf (submsg L (decode_tc_PageRequest L G)) (\<lambda>v. m\<lparr>tc_gov_QueryDepositsRequest.pagination := Some v\<rparr>)"
  by (simp_all add: tc_gov_QueryDepositsRequest_switch_def)

lemma fromPartial_partial_of_tc_gov_QueryDepositsResponse [simp]: "fromPartial_tc_gov_QueryDepositsResponse (partial_of_tc_gov_QueryDepositsResponse m) = m"
  by (simp add: fromPartial_tc_gov_QueryDepositsResponse_def partial_of_tc_gov_QueryDepositsResponse_def createBase_tc_gov_QueryDepositsResponse_def partial_map_def option.map_comp o_def option.map_ident tc_PageResponse_eqs)

lemma tc_gov_QueryDepositsResponse_tags:
  "tc_gov_QueryDepositsResponse_switch L G 10 m = readf (submsg L (decode_tc_gov_Deposit L G)) (\<lambda>v. m\<lparr>tc_gov_QueryDepositsResponse.deposits := tc_gov_QueryDepositsResponse.deposits m @ [v]\<rparr>)"
  "tc_gov_QueryDepositsResponse_switch L G 18 m = readf (submsg L (decode_tc_PageResponse L G)) (\<lambda>v. m\<lparr>tc_gov_QueryDepositsResponse.pagination := Some v\<rparr>)"
  by (simp_all add: tc_gov_QueryDepositsResponse_switch_def)

lemma fromPartial_partial_of_tc_gov_QueryTallyResultRequest [simp]: "fromPartial_tc_gov_QueryTallyResultRequest (partial_of_tc_gov_QueryTallyResultRequest m) = m"
  by (simp add: fromPartial_tc_gov_QueryTallyResultRequest_def partial_of_tc_gov_QueryTallyResultRequest_def createBase_tc_gov_QueryTallyResultRequest_def partial_map_def option.map_comp o_def option.map_ident)

lemma tc_gov_QueryTallyResultRequest_tags:
  "tc_gov_QueryTallyResultRequest_switch L G 8 m = readf (num64l G (r_uint64 L)) (\<lambda>v. m\<lparr>tc_gov_QueryTallyResultRequest.proposalId := v\<rparr>)"
  by (simp_all add: tc_gov_QueryTallyResultRequest_switch_def)

lemma fromPartial_partial_of_tc_gov_QueryTallyResultResponse [simp]: "fromPartial_tc_gov_QueryTallyResultResponse (partial_of_tc_gov_QueryTallyResultResponse m) = m"
  by (simp add: fromPartial_tc_gov_QueryTallyResultResponse_def partial_of_tc_gov_QueryTallyResultResponse_def createBase_tc_gov_QueryTallyResultResponse_def partial_map_def option.map_comp o_def option.map_ident)

lemma tc_gov_QueryTallyResultResponse_tags:
  "tc_gov_QueryTallyResultResponse_switch L G 10 m = readf (submsg L (decode_tc_gov_TallyResult L G)) (\<lambda>v. m\<lparr>tc_gov_QueryTallyResultResponse.tally := Some v\<rparr>)"
  by (simp_all add: tc_gov_QueryTallyResultResponse_switch_def)

context long_wire_laws
begin

lemma tc_gov_QueryProposalRequest_codec: "message_codec L F out inp (encode_tc_gov_QueryProposalRequest L) (tc_gov_QueryProposalRequest_switch L G) createBase_tc_gov_QueryProposalRequest (wf_tc_gov_QueryProposalRequest L)"
proof unfold_locales
  show good: "good_sw (tc_gov_QueryProposalRequest_switch L G)"
    unfolding tc_gov_QueryProposalRequest_switch_def by (intro good_swI fwd_rules)
  fix m assume "wf_tc_gov_QueryProposalRequest L m"
  then show "codes (tc_gov_QueryProposalRequest_switch L G) (encode_tc_gov_QueryProposalRequest L m) createBase_tc_gov_QueryProposalRequest m"
    unfolding encode_tc_gov_QueryProposalRequest_def wf_tc_gov_QueryProposalRequest_def
    by (-)
      (rule codes_Cons codes_Nil [OF tc_gov_QueryProposalRequest.equality] codec_rules
        codes_when [where tag = 8 and u = tc_gov_QueryProposalRequest.proposalId_update and op = "num64l G (r_uint64 L)", OF good]
      | assumption | (simp add: tc_gov_QueryProposalRequest_tags createBase_tc_gov_QueryProposalRequest_def; fail))+
qed

lemmas tc_gov_QueryProposalRequest_roundtrip = message_codec.roundtrip [OF tc_gov_QueryProposalRequest_codec, folded decode_tc_gov_QueryProposalRequest_def]

lemmas tc_gov_QueryProposalRequest_returns = message_codec.decode_returns [OF tc_gov_QueryProposalRequest_codec, folded decode_tc_gov_QueryProposalRequest_def]

lemma tc_gov_QueryProposalResponse_codec: "message_codec L F out inp (encode_tc_gov_QueryProposalResponse L) (tc_gov_QueryProposalResponse_switch L G) createBase_tc_gov_QueryProposalResponse (wf_tc_gov_QueryProposalResponse L)"
proof unfold_locales
  show good: "good_sw (tc_gov_QueryProposalResponse_switch L G)"
    unfolding tc_gov_QueryProposalResponse_switch_def by (intro good_swI fwd_rules tc_gov_Proposal_good)
  fix m assume "wf_tc_gov_QueryProposalResponse L m"
  then show "codes (tc_gov_QueryProposalResponse_switch L G) (encode_tc_gov_QueryProposalResponse L m) createBase_tc_gov_QueryProposalResponse m"
    unfolding encode_tc_gov_QueryProposalResponse_def wf_tc_gov_QueryProposalResponse_def
    by (-)
      (rule codes_Cons codes_Nil [OF tc_gov_QueryProposalResponse.equality] codec_rules tc_gov_Proposal_carries
        codes_some [where tag = 10 and u = tc_gov_QueryProposalResponse.proposal_update and op = "submsg L (decode_tc_gov_Proposal L G)", OF good]
      | assumption | (simp add: tc_gov_QueryProposalResponse_tags createBase_tc_gov_QueryProposalResponse_def; fail))+
qed

lemmas tc_gov_QueryProposalResponse_roundtrip = message_codec.roundtrip [OF tc_gov_QueryProposalResponse_codec, folded decode_tc_gov_QueryProposalResponse_def]

lemmas tc_gov_QueryProposalResponse_returns = message_codec.decode_returns [OF tc_gov_QueryProposalResponse_codec, folded decode_tc_gov_QueryProposalResponse_def]

lemma tc_gov_QueryProposalsRequest_codec: "message_codec L F out inp (encode_tc_gov_QueryProposalsRequest L) (tc_gov_QueryProposalsRequest_switch L G) createBase_tc_gov_QueryProposalsRequest (wf_tc_gov_QueryProposalsRequest L)"
proof unfold_locales
  show good: "good_sw (tc_gov_QueryProposalsRequest_switch L G)"
    unfolding tc_gov_QueryProposalsRequest_switch_def by (intro good_swI fwd_rules)
  fix m assume "wf_tc_gov_QueryProposalsRequest L m"
  then show "codes (tc_gov_QueryProposalsRequest_switch L G) (encode_tc_gov_QueryProposalsRequest L m) createBase_tc_gov_QueryProposalsRequest m"
    unfolding encode_tc_gov_QueryProposalsRequest_def wf_tc_gov_QueryProposalsRequest_def tc_PageRequest_eqs(2)
    by (elim conjE)
      (rule codes_Cons codes_Nil [OF tc_gov_QueryProposalsRequest.equality] codec_rules
        codes_when [where tag = 8 and u = tc_gov_QueryProposalsRequest.proposalStatus_update and op = "num32 (r_int32 L)", OF good]
        codes_when [where tag = 18 and u = tc_gov_QueryProposalsRequest.voter_update and op = "r_string L", OF good]
        codes_when [where tag = 26 and u = tc_gov_QueryProposalsRequest.depositor_update and op = "r_string L", OF good]
        codes_some [where tag = 34 and u = tc_gov_QueryProposalsRequest.pagination_update and op = "submsg L (decode_tc_PageRequest L G)", OF good]
      | assumption | (simp add: tc_gov_QueryProposalsRequest_tags createBase_tc_gov_QueryProposalsRequest_def; fail))+
qed

lemmas tc_gov_QueryProposalsRequest_roundtrip = message_codec.roundtrip [OF tc_gov_QueryProposalsRequest_codec, folded decode_tc_gov_QueryProposalsRequest_def]

lemmas tc_gov_QueryProposalsRequest_returns = message_codec.decode_returns [OF tc_gov_QueryProposalsRequest_codec, folded decode_tc_gov_QueryProposalsRequest_def]

lemma tc_gov_QueryProposalsResponse_codec: "message_codec L F out inp (encode_tc_gov_QueryProposalsResponse L) (tc_gov_QueryProposalsResponse_switch L G) createBase_tc_gov_QueryProposalsResponse (wf_tc_gov_QueryProposalsResponse L)"
proof unfold_locales
  show good: "good_sw (tc_gov_QueryProposalsResponse_switch L G)"
    unfolding tc_gov_QueryProposalsResponse_switch_def by (intro good_swI fwd_rules tc_gov_Proposal_good)
  fix m assume "wf_tc_gov_QueryProposalsResponse L m"
  then show "codes (tc_gov_QueryProposalsResponse_switch L G) (encode_tc_gov_QueryProposalsResponse L m) createBase_tc_gov_QueryProposalsResponse m"
    unfolding encode_tc_gov_QueryProposalsResponse_def wf_tc_gov_QueryProposalsResponse_def tc_PageResponse_eqs(2)
    by (elim conjE)
      (rule codes_Cons codes_Nil [OF tc_gov_QueryProposalsResponse.equality] codec_rules tc_gov_Proposal_carries
        codes_for [where tag = 10 and u = tc_gov_QueryProposalsResponse.proposals_update and op = "submsg L (decode_tc_gov_Proposal L G)", OF good]
        codes_some [where tag = 18 and u = tc_gov_QueryProposalsResponse.pagination_update and op = "submsg L (decode_tc_PageResponse L G)", OF good]
      | assumption | (simp add: tc_gov_QueryProposalsResponse_tags createBase_tc_gov_QueryProposalsResponse_def; fail))+
qed

lemmas tc_gov_QueryProposalsResponse_roundtrip = message_codec.roundtrip [OF tc_gov_QueryProposalsResponse_codec, folded decode_tc_gov_QueryProposalsResponse_def]

lemmas tc_gov_QueryProposalsResponse_returns = message_codec.decode_returns [OF tc_gov_QueryProposalsResponse_codec, folded decode_tc_gov_QueryProposalsResponse_def]

lemma tc_gov_QueryVoteRequest_codec: "message_codec L F out inp (encode_tc_gov_QueryVoteRequest L) (tc_gov_QueryVoteRequest_switch L G) createBase_tc_gov_QueryVoteRequest (wf_tc_gov_QueryVoteRequest L)"
proof unfold_locales
  show good: "good_sw (tc_gov_QueryVoteRequest_switch L G)"
    unfolding tc_gov_QueryVoteRequest_switch_def by (intro good_swI fwd_rules)
  fix m assume "wf_tc_gov_QueryVoteRequest L m"
  then show "codes (tc_gov_QueryVoteRequest_switch L G) (encode_tc_gov_QueryVoteRequest L m) createBase_tc_gov_QueryVoteRequest m"
    unfolding encode_tc_gov_QueryVoteRequest_def wf_tc_gov_QueryVoteRequest_def
    by (elim conjE)
      (rule codes_Cons codes_Nil [OF tc_gov_QueryVoteRequest.equality] codec_rules
        codes_when [where tag = 8 and u = tc_gov_QueryVoteRequest.proposalId_update and op = "num64l G (r_uint64 L)", OF good]
        codes_when [where tag = 18 and u = tc_gov_QueryVoteRequest.voter_update and op = "r_string L", OF good]
      | assumption | (simp add: tc_gov_QueryVoteRequest_tags createBase_tc_gov_QueryVoteRequest_def; fail))+
qed

lemmas tc_gov_QueryVoteRequest_roundtrip = message_codec.roundtrip [OF tc_gov_QueryVoteRequest_codec, folded decode_tc_gov_QueryVoteRequest_def]

lemmas tc_gov_QueryVoteRequest_returns = message_codec.decode_returns [OF tc_gov_QueryVoteRequest_codec, folded decode_tc_gov_QueryVoteRequest_def]

lemma tc_gov_QueryVoteResponse_codec: "message_codec L F out inp (encode_tc_gov_QueryVoteResponse L) (tc_gov_QueryVoteResponse_switch L G) createBase_tc_gov_QueryVoteResponse (wf_tc_gov_QueryVoteResponse L)"
proof unfold_locales
  show good: "good_sw (tc_gov_QueryVoteResponse_switch L G)"
    unfolding tc_gov_QueryVoteResponse_switch_def by (intro good_swI fwd_rules tc_gov_Vote_good)
  fix m assume "wf_tc_gov_QueryVoteResponse L m"
  then show "codes (tc_gov_QueryVoteResponse_switch L G) (encode_tc_gov_QueryVoteResponse L m) createBase_tc_gov_QueryVoteResponse m"
    unfolding encode_tc_gov_QueryVoteResponse_def wf_tc_gov_QueryVoteResponse_def
    by (-)
      (rule codes_Cons codes_Nil [OF tc_gov_QueryVoteResponse.equality] codec_rules tc_gov_Vote_carries
        codes_some [where tag = 10 and u = tc_gov_QueryVoteResponse.vote_update and op = "submsg L (decode_tc_gov_Vote L G)", OF good]
      | assumption | (simp add: tc_gov_QueryVoteResponse_tags createBase_tc_gov_QueryVoteResponse_def; fail))+
qed

lemmas tc_gov_QueryVoteResponse_roundtrip = message_codec.roundtrip [OF tc_gov_QueryVoteResponse_codec, folded decode_tc_gov_QueryVoteResponse_def]

lemmas tc_gov_QueryVoteResponse_returns = message_codec.decode_returns [OF tc_gov_QueryVoteResponse_codec, folded decode_tc_gov_QueryVoteResponse_def]

lemma tc_gov_QueryVotesRequest_codec: "message_codec L F out inp (encode_tc_gov_QueryVotesRequest L) (tc_gov_QueryVotesRequest_switch L G) createBase_tc_gov_QueryVotesRequest (wf_tc_gov_QueryVotesRequest L)"
proof unfold_locales
  show good: "good_sw (tc_gov_QueryVotesRequest_switch L G)"
    unfolding tc_gov_QueryVotesRequest_switch_def by (intro good_swI fwd_rules)
  fix m assume "wf_tc_gov_QueryVotesRequest L m"
  then show "codes (tc_gov_QueryVotesRequest_switch L G) (encode_tc_gov_QueryVotesRequest L m) createBase_tc_gov_QueryVotesRequest m"
    unfolding encode_tc_gov_QueryVotesRequest_def wf_tc_gov_QueryVotesRequest_def tc_PageRequest_eqs(2)
    by (elim conjE)
      (rule codes_Cons codes_Nil [OF tc_gov_QueryVotesRequest.equality] codec_rules
        codes_when [where tag = 8 and u = tc_gov_QueryVotesRequest.proposalId_update and op = "num64l G (r_uint64 L)", OF good]
        codes_some [where tag = 18 and u = tc_gov_QueryVotesRequest.pagination_update and op = "submsg L (decode_tc_PageRequest L G)", OF good]
      | assumption | (simp add: tc_gov_QueryVotesRequest_tags createBase_tc_gov_QueryVotesRequest_def; fail))+
qed

lemmas tc_gov_QueryVotesRequest_roundtrip = message_codec.roundtrip [OF tc_gov_QueryVotesRequest_codec, folded decode_tc_gov_QueryVotesRequest_def]

lemmas tc_gov_QueryVotesRequest_returns = message_codec.decode_returns [OF tc_gov_QueryVotesRequest_codec, folded decode_tc_gov_QueryVotesRequest_def]

lemma tc_gov_QueryVotesResponse_codec: "message_codec L F out inp (encode_tc_gov_QueryVotesResponse L) (tc_gov_QueryVotesResponse_switch L G) createBase_tc_gov_QueryVotesResponse (wf_tc_gov_QueryVotesResponse L)"
proof unfold_locales
  show good: "good_sw (tc_gov_QueryVotesResponse_switch L G)"
    unfolding tc_gov_QueryVotesResponse_switch_def by (intro good_swI fwd_rules tc_gov_Vote_good)
  fix m assume "wf_tc_gov_QueryVotesResponse L m"
  then show "codes (tc_gov_QueryVotesResponse_switch L G) (encode_tc_gov_QueryVotesResponse L m) createBase_tc_gov_QueryVotesResponse m"
    unfolding encode_tc_gov_QueryVotesResponse_def wf_tc_gov_QueryVotesResponse_def tc_PageResponse_eqs(2)
    by (elim conjE)
      (rule codes_Cons codes_Nil [OF tc_gov_QueryVotesResponse.equality] codec_rules tc_gov_Vote_carries
        codes_for [where tag = 10 and u = tc_gov_QueryVotesResponse.votes_update and op = "submsg L (decode_tc_gov_Vote L G)", OF good]
        codes_some [where tag = 18 and u = tc_gov_QueryVotesResponse.pagination_update and op = "submsg L (decode_tc_PageResponse L G)", OF good]
      | assumption | (simp add: tc_gov_QueryVotesResponse_tags createBase_tc_gov_QueryVotesResponse_def; fail))+
qed

lemmas tc_gov_QueryVotesResponse_roundtrip = message_codec.roundtrip [OF tc_gov_QueryVotesResponse_codec, folded decode_tc_gov_QueryVotesResponse_def]

lemmas tc_gov_QueryVotesResponse_returns = message_codec.decode_returns [OF tc_gov_QueryVotesResponse_codec, folded decode_tc_gov_QueryVotesResponse_def]

lemma tc_gov_QueryParamsRequest_codec: "message_codec L F out inp (encode_tc_gov_QueryParamsRequest L) (tc_gov_QueryParamsRequest_switch L G) createBase_tc_gov_QueryParamsRequest (wf_tc_gov_QueryParamsRequest L)"
proof unfold_locales
  show good: "good_sw (tc_gov_QueryParamsRequest_switch L G)"
    unfolding tc_gov_QueryParamsRequest_switch_def by (intro good_swI fwd_rules)
  fix m assume "wf_tc_gov_QueryParamsRequest L m"
  then show "codes (tc_gov_QueryParamsRequest_switch L G) (encode_tc_gov_QueryParamsRequest L m) createBase_tc_gov_QueryParamsRequest m"
    unfolding encode_tc_gov_QueryParamsRequest_def wf_tc_gov_QueryParamsRequest_def
    by (-)
      (rule codes_Cons codes_Nil [OF tc_gov_QueryParamsRequest.equality] codec_rules
        codes_when [where tag = 10 and u = tc_gov_QueryParamsRequest.paramsType_update and op = "r_string L", OF good]
      | assumption | (simp add: tc_gov_QueryParamsRequest_tags createBase_tc_gov_QueryParamsRequest_def; fail))+
qed

lemmas tc_gov_QueryParamsRequest_roundtrip = message_codec.roundtrip [OF tc_gov_QueryParamsRequest_codec, folded decode_tc_gov_QueryParamsRequest_def]

lemmas tc_gov_QueryParamsRequest_returns = message_codec.decode_returns [OF tc_gov_QueryParamsRequest_codec, folded decode_tc_gov_QueryParamsRequest_def]

lemma tc_gov_QueryParamsResponse_codec: "message_codec L F out inp (encode_tc_gov_QueryParamsResponse L) (tc_gov_QueryParamsResponse_switch L G) createBase_tc_gov_QueryParamsResponse (wf_tc_gov_QueryParamsResponse L)"
proof unfold_locales
  show good: "good_sw (tc_gov_QueryParamsResponse_switch L G)"
    unfolding tc_gov_QueryParamsResponse_switch_def by (intro good_swI fwd_rules tc_gov_DepositParams_good tc_gov_TallyParams_good tc_gov_VotingParams_good)
  fix m assume "wf_tc_gov_QueryParamsResponse L m"
  then show "codes (tc_gov_QueryParamsResponse_switch L G) (encode_tc_gov_QueryParamsResponse L m) createBase_tc_gov_QueryParamsResponse m"
    unfolding encode_tc_gov_QueryParamsResponse_def wf_tc_gov_QueryParamsResponse_def
    by (elim conjE)
      (rule codes_Cons codes_Nil [OF tc_gov_QueryParamsResponse.equality] codec_rules tc_gov_DepositParams_carries tc_gov_TallyParams_carries tc_gov_VotingParams_carries
        codes_some [where tag = 10 and u = tc_gov_QueryParamsResponse.votingParams_update and op = "submsg L (decode_tc_gov_VotingParams L G)", OF good]
        codes_some [where tag = 18 and u = tc_gov_QueryParamsResponse.depositParams_update and op = "submsg L (decode_tc_gov_DepositParams L G)", OF good]
        codes_some [where tag = 26 and u = tc_gov_QueryParamsResponse.tallyParams_update and op = "submsg L (decode_tc_gov_TallyParams L G)", OF good]
      | assumption | (simp add: tc_gov_QueryParamsResponse_tags createBase_tc_gov_QueryParamsResponse_def; fail))+
qed

lemmas tc_gov_QueryParamsResponse_roundtrip = message_codec.roundtrip [OF tc_gov_QueryParamsResponse_codec, folded decode_tc_gov_QueryParamsResponse_def]

lemmas tc_gov_QueryParamsResponse_returns = message_codec.decode_returns [OF tc_gov_QueryParamsResponse_codec, folded decode_tc_gov_QueryParamsResponse_def]

lemma tc_gov_QueryDepositRequest_codec: "message_codec L F out inp (encode_tc_gov_QueryDepositRequest L) (tc_gov_QueryDepositRequest_switch L G) createBase_tc_gov_QueryDepositRequest (wf_tc_gov_QueryDepositRequest L)"
proof unfold_locales
  show good: "good_sw (tc_gov_QueryDepositRequest_switch L G)"
    unfolding tc_gov_QueryDepositRequest_switch_def by (intro good_swI fwd_rules)
  fix m assume "wf_tc_gov_QueryDepositRequest L m"
  then show "codes (tc_gov_QueryDepositRequest_switch L G) (encode_tc_gov_QueryDepositRequest L m) createBase_tc_gov_QueryDepositRequest m"
    unfolding encode_tc_gov_QueryDepositRequest_def wf_tc_gov_QueryDepositRequest_def
    by (elim conjE)
      (rule codes_Cons codes_Nil [OF tc_gov_QueryDepositRequest.equality] codec_rules
        codes_when [where tag = 8 and u = tc_gov_QueryDepositRequest.proposalId_update and op = "num64l G (r_uint64 L)", OF good]
        codes_when [where tag = 18 and u = tc_gov_QueryDepositRequest.depositor_update and op = "r_string L", OF good]
      | assumption | (simp add: tc_gov_QueryDepositRequest_tags createBase_tc_gov_QueryDepositRequest_def; fail))+
qed

lemmas tc_gov_QueryDepositRequest_roundtrip = message_codec.roundtrip [OF tc_gov_QueryDepositRequest_codec, folded decode_tc_gov_QueryDepositRequest_def]

lemmas tc_gov_QueryDepositRequest_returns = message_codec.decode_returns [OF tc_gov_QueryDepositRequest_codec, folded decode_tc_gov_QueryDepositRequest_def]

lemma tc_gov_QueryDepositResponse_codec: "message_codec L F out inp (encode_tc_gov_QueryDepositResponse L) (tc_gov_QueryDepositResponse_switch L G) createBase_tc_gov_QueryDepositResponse (wf_tc_gov_QueryDepositResponse L)"
proof unfold_locales
  show good: "good_sw (tc_gov_QueryDepositResponse_switch L G)"
    unfolding tc_gov_QueryDepositResponse_switch_def by (intro good_swI fwd_rules tc_gov_Deposit_good)
  fix m assume "wf_tc_gov_QueryDepositResponse L m"
  then show "codes (tc_gov_QueryDepositResponse_switch L G) (encode_tc_gov_QueryDepositResponse L m) createBase_tc_gov_QueryDepositResponse m"
    unfolding encode_tc_gov_QueryDepositResponse_def wf_tc_gov_QueryDepositResponse_def
    by (-)
      (rule codes_Cons codes_Nil [OF tc_gov_QueryDepositResponse.equality] codec_rules tc_gov_Deposit_carries
        codes_some [where tag = 10 and u = tc_gov_QueryDepositResponse.deposit_update and op = "submsg L (decode_tc_gov_Deposit L G)", OF good]
      | assumption | (simp add: tc_gov_QueryDepositResponse_tags createBase_tc_gov_QueryDepositResponse_def; fail))+
qed

lemmas tc_gov_QueryDepositResponse_roundtrip = message_codec.roundtrip [OF tc_gov_QueryDepositResponse_codec, folded decode_tc_gov_QueryDepositResponse_def]

lemmas tc_gov_QueryDepositResponse_returns = message_codec.decode_returns [OF tc_gov_QueryDepositResponse_codec, folded decode_tc_gov_QueryDepositResponse_def]

lemma tc_gov_QueryDepositsRequest_codec: "message_codec L F out inp (encode_tc_gov_QueryDepositsRequest L) (tc_gov_QueryDepositsRequest_switch L G) createBase_tc_gov_QueryDepositsRequest (wf_tc_gov_QueryDepositsRequest L)"
proof unfold_locales
  show good: "good_sw (tc_gov_QueryDepositsRequest_switch L G)"
    unfolding tc_gov_QueryDepositsRequest_switch_def by (intro good_swI fwd_rules)
  fix m assume "wf_tc_gov_QueryDepositsRequest L m"
  then show "codes (tc_gov_QueryDepositsRequest_switch L G) (encode_tc_gov_QueryDepositsRequest L m) createBase_tc_gov_QueryDepositsRequest m"
    unfolding encode_tc_gov_QueryDepositsRequest_def wf_tc_gov_QueryDepositsRequest_def tc_PageRequest_eqs(2)
    by (elim conjE)
      (rule codes_Cons codes_Nil [OF tc_gov_QueryDepositsRequest.equality] codec_rules
        codes_when [where tag = 8 and u = tc_gov_QueryDepositsRequest.proposalId_update and op = "num64l G (r_uint64 L)", OF good]
        codes_some [where tag = 18 and u = tc_gov_QueryDepositsRequest.pagination_update and op = "submsg L (decode_tc_PageRequest L G)", OF good]
      | assumption | (simp add: tc_gov_QueryDepositsRequest_tags createBase_tc_gov_QueryDepositsRequest_def; fail))+
qed

lemmas tc_gov_QueryDepositsRequest_roundtrip = message_codec.roundtrip [OF tc_gov_QueryDepositsRequest_codec, folded decode_tc_gov_QueryDepositsRequest_def]

lemmas tc_gov_QueryDepositsRequest_returns = message_codec.decode_returns [OF tc_gov_QueryDepositsRequest_codec, folded decode_tc_gov_QueryDepositsRequest_def]

lemma tc_gov_QueryDepositsResponse_codec: "message_codec L F out inp (encode_tc_gov_QueryDepositsResponse L) (tc_gov_QueryDepositsResponse_switch L G) createBase_tc_gov_QueryDepositsResponse (wf_tc_gov_QueryDepositsResponse L)"
proof unfold_locales
  show good: "good_sw (tc_gov_QueryDepositsResponse_switch L G)"
    unfolding tc_gov_QueryDepositsResponse_switch_def by (intro good_swI fwd_rules tc_gov_Deposit_good)
  fix m assume "wf_tc_gov_QueryDepositsResponse L m"
  then show "codes (tc_gov_QueryDepositsResponse_switch L G) (encode_tc_gov_QueryDepositsResponse L m) createBase_tc_gov_QueryDepositsResponse m"
    unfolding encode_tc_gov_QueryDepositsResponse_def wf_tc_gov_QueryDepositsResponse_def tc_PageResponse_eqs(2)
    by (elim conjE)
      (rule codes_Cons codes_Nil [OF tc_gov_QueryDepositsResponse.equality] codec_rules tc_gov_Deposit_carries
        codes_for [where tag = 10 and u = tc_gov_QueryDepositsResponse.deposits_update and op = "submsg L (decode_tc_gov_Deposit L G)", OF good]
        codes_some [where tag = 18 and u = tc_gov_QueryDepositsResponse.pagination_update and op = "submsg L (decode_tc_PageResponse L G)", OF good]
      | assumption | (simp add: tc_gov_QueryDepositsResponse_tags createBase_tc_gov_QueryDepositsResponse_def; fail))+
qed

lemmas tc_gov_QueryDepositsResponse_roundtrip = message_codec.roundtrip [OF tc_gov_QueryDepositsResponse_codec, folded decode_tc_gov_QueryDepositsResponse_def]

lemmas tc_gov_QueryDepositsResponse_returns = message_codec.decode_returns [OF tc_gov_QueryDepositsResponse_codec, folded decode_tc_gov_QueryDepositsResponse_def]

lemma tc_gov_QueryTallyResultRequest_codec: "message_codec L F out inp (encode_tc_gov_QueryTallyResultRequest L) (tc_gov_QueryTallyResultRequest_switch L G) createBase_tc_gov_QueryTallyResultRequest (wf_tc_gov_QueryTallyResultRequest L)"
proof unfold_locales
  show good: "good_sw (tc_gov_QueryTallyResultRequest_switch L G)"
    unfolding tc_gov_QueryTallyResultRequest_switch_def by (intro good_swI fwd_rules)
  fix m assume "wf_tc_gov_QueryTallyResultRequest L m"
  then show "codes (tc_gov_QueryTallyResultRequest_switch L G) (encode_tc_gov_QueryTallyResultRequest L m) createBase_tc_gov_QueryTallyResultRequest m"
    unfolding encode_tc_gov_QueryTallyResultRequest_def wf_tc_gov_QueryTallyResultRequest_def
    by (-)
      (rule codes_Cons codes_Nil [OF tc_gov_QueryTallyResultRequest.equality] codec_rules
        codes_when [where tag = 8 and u = tc_gov_QueryTallyResultRequest.proposalId_update and op = "num64l G (r_uint64 L)", OF good]
      | assumption | (simp add: tc_gov_QueryTallyResultRequest_tags createBase_tc_gov_QueryTallyResultRequest_def; fail))+
qed

lemmas tc_gov_QueryTallyResultRequest_roundtrip = message_codec.roundtrip [OF tc_gov_QueryTallyResultRequest_codec, folded decode_tc_gov_QueryTallyResultRequest_def]

lemmas tc_gov_QueryTallyResultRequest_returns = message_codec.decode_returns [OF tc_gov_QueryTallyResultRequest_codec, folded decode_tc_gov_QueryTallyResultRequest_def]

lemma tc_gov_QueryTallyResultResponse_codec: "message_codec L F out inp (encode_tc_gov_QueryTallyResultResponse L) (tc_gov_QueryTallyResultResponse_switch L G) createBase_tc_gov_QueryTallyResultResponse (wf_tc_gov_QueryTallyResultResponse L)"
proof unfold_locales
  show good: "good_sw (tc_gov_QueryTallyResultResponse_switch L G)"
    unfolding tc_gov_QueryTallyResultResponse_switch_def by (intro good_swI fwd_rules tc_gov_TallyResult_good)
  fix m assume "wf_tc_gov_QueryTallyResultResponse L m"
  then show "codes (tc_gov_QueryTallyResultResponse_switch L G) (encode_tc_gov_QueryTallyResultResponse L m) createBase_tc_gov_QueryTallyResultResponse m"
    unfolding encode_tc_gov_QueryTallyResultResponse_def wf_tc_gov_QueryTallyResultResponse_def
    by (-)
      (rule codes_Cons codes_Nil [OF tc_gov_QueryTallyResultResponse.equality] codec_rules tc_gov_TallyResult_carries
        codes_some [where tag = 10 and u = tc_gov_QueryTallyResultResponse.tally_update and op = "submsg L (decode_tc_gov_TallyResult L G)", OF good]
      | assumption | (simp add: tc_gov_QueryTallyResultResponse_tags createBase_tc_gov_QueryTallyResultResponse_def; fail))+
qed

lemmas tc_gov_QueryTallyResultResponse_roundtrip = message_codec.roundtrip [OF tc_gov_QueryTallyResultResponse_codec, folded decode_tc_gov_QueryTallyResultResponse_def]

lemmas tc_gov_QueryTallyResultResponse_returns = message_codec.decode_returns [OF tc_gov_QueryTallyResultResponse_codec, folded decode_tc_gov_QueryTallyResultResponse_def]

end

lemma tc_gov_QueryProposalRequest_json: "message_json toJSON_tc_gov_QueryProposalRequest fromJSON_tc_gov_QueryProposalRequest wfj_tc_gov_QueryProposalRequest"
proof unfold_locales
  fix h m
  assume "wfj_tc_gov_QueryProposalRequest m"
  then show "json_rt (toJSON_tc_gov_QueryProposalRequest h) (fromJSON_tc_gov_QueryProposalRequest h) m"
    unfolding toJSON_tc_gov_QueryProposalRequest_def fromJSON_tc_gov_QueryProposalRequest_def wfj_tc_gov_QueryProposalRequest_def
    by (-) (rule json_rtI json_rules | assumption | (simp; fail))+
qed

lemma tc_gov_QueryProposalResponse_json: "message_json toJSON_tc_gov_QueryProposalResponse fromJSON_tc_gov_QueryProposalResponse wfj_tc_gov_QueryProposalResponse"
proof unfold_locales
  fix h m
  assume "wfj_tc_gov_QueryProposalResponse m"
  then show "json_rt (toJSON_tc_gov_QueryProposalResponse h) (fromJSON_tc_gov_QueryProposalResponse h) m"
    unfolding toJSON_tc_gov_QueryProposalResponse_def fromJSON_tc_gov_QueryProposalResponse_def wfj_tc_gov_QueryProposalResponse_def
    by (-) (rule json_rtI json_rules tc_gov_Proposal_json_rules | assumption | (simp; fail))+
qed

lemma tc_gov_QueryProposalsRequest_json: "message_json toJSON_tc_gov_QueryProposalsRequest fromJSON_tc_gov_QueryProposalsRequest wfj_tc_gov_QueryProposalsRequest"
proof unfold_locales
  fix h m
  assume "wfj_tc_gov_QueryProposalsRequest m"
  then show "json_rt (toJSON_tc_gov_QueryProposalsRequest h) (fromJSON_tc_gov_QueryProposalsRequest h) m"
    unfolding toJSON_tc_gov_QueryProposalsRequest_def fromJSON_tc_gov_QueryProposalsRequest_def wfj_tc_gov_QueryProposalsRequest_def
    by (elim conjE) (rule json_rtI json_rules | assumption | (simp; fail))+
qed

lemma tc_gov_QueryProposalsResponse_json: "message_json toJSON_tc_gov_QueryProposalsResponse fromJSON_tc_gov_QueryProposalsResponse wfj_tc_gov_QueryProposalsResponse"
proof unfold_locales
  fix h m
  assume "wfj_tc_gov_QueryProposalsResponse m"
  then show "json_rt (toJSON_tc_gov_QueryProposalsResponse h) (fromJSON_tc_gov_QueryProposalsResponse h) m"
    unfolding toJSON_tc_gov_QueryProposalsResponse_def fromJSON_tc_gov_QueryProposalsResponse_def wfj_tc_gov_QueryProposalsResponse_def
    by (elim conjE) (rule json_rtI json_rules tc_gov_Proposal_json_rules | assumption | (simp; fail))+
qed

lemma tc_gov_QueryVoteRequest_json: "message_json toJSON_tc_gov_QueryVoteRequest fromJSON_tc_gov_QueryVoteRequest wfj_tc_gov_QueryVoteRequest"
proof unfold_locales
  fix h m
  assume "wfj_tc_gov_QueryVoteRequest m"
  then show "json_rt (toJSON_tc_gov_QueryVoteRequest h) (fromJSON_tc_gov_QueryVoteRequest h) m"
    unfolding toJSON_tc_gov_QueryVoteRequest_def fromJSON_tc_gov_QueryVoteRequest_def wfj_tc_gov_QueryVoteRequest_def
    by (-) (rule json_rtI json_rules | assumption | (simp; fail))+
qed

lemma tc_gov_QueryVoteResponse_json: "message_json toJSON_tc_gov_QueryVoteResponse fromJSON_tc_gov_QueryVoteResponse wfj_tc_gov_QueryVoteResponse"
proof unfold_locales
  fix h m
  assume "wfj_tc_gov_QueryVoteResponse m"
  then show "json_rt (toJSON_tc_gov_QueryVoteResponse h) (fromJSON_tc_gov_QueryVoteResponse h) m"
    unfolding toJSON_tc_gov_QueryVoteResponse_def fromJSON_tc_gov_QueryVoteResponse_def wfj_tc_gov_QueryVoteResponse_def
    by (-) (rule json_rtI json_rules tc_gov_Vote_json_rules | assumption | (simp; fail))+
qed

lemma tc_gov_QueryVotesRequest_json: "message_json toJSON_tc_gov_QueryVotesRequest fromJSON_tc_gov_QueryVotesRequest wfj_tc_gov_QueryVotesRequest"
proof unfold_locales
  fix h m
  assume "wfj_tc_gov_QueryVotesRequest m"
  then show "json_rt (toJSON_tc_gov_QueryVotesRequest h) (fromJSON_tc_gov_QueryVotesRequest h) m"
    unfolding toJSON_tc_gov_QueryVotesRequest_def fromJSON_tc_gov_QueryVotesRequest_def wfj_tc_gov_QueryVotesRequest_def
    by (elim conjE) (rule json_rtI json_rules | assumption | (simp; fail))+
qed

lemma tc_gov_QueryVotesResponse_json: "message_json toJSON_tc_gov_QueryVotesResponse fromJSON_tc_gov_QueryVotesResponse wfj_tc_gov_QueryVotesResponse"
proof unfold_locales
  fix h m
  assume "wfj_tc_gov_QueryVotesResponse m"
  then show "json_rt (toJSON_tc_gov_QueryVotesResponse h) (fromJSON_tc_gov_QueryVotesResponse h) m"
    unfolding toJSON_tc_gov_QueryVotesResponse_def fromJSON_tc_gov_QueryVotesResponse_def wfj_tc_gov_QueryVotesResponse_def
    by (elim conjE) (rule json_rtI json_rules tc_gov_Vote_json_rules | assumption | (simp; fail))+
qed

lemma tc_gov_QueryParamsRequest_json: "message_json toJSON_tc_gov_QueryParamsRequest fromJSON_tc_gov_QueryParamsRequest wfj_tc_gov_QueryParamsRequest"
proof unfold_locales
  fix h m
  assume "wfj_tc_gov_QueryParamsRequest m"
  then show "json_rt (toJSON_tc_gov_QueryParamsRequest h) (fromJSON_tc_gov_QueryParamsRequest h) m"
    unfolding toJSON_tc_gov_QueryParamsRequest_def fromJSON_tc_gov_QueryParamsRequest_def wfj_tc_gov_QueryParamsRequest_def
    by (-) (rule json_rtI json_rules | assumption | (simp; fail))+
qed

lemma tc_gov_QueryParamsResponse_json: "message_json toJSON_tc_gov_QueryParamsResponse fromJSON_tc_gov_QueryParamsResponse wfj_tc_gov_QueryParamsResponse"
proof unfold_locales
  fix h m
  assume "wfj_tc_gov_QueryParamsResponse m"
  then show "json_rt (toJSON_tc_gov_QueryParamsResponse h) (fromJSON_tc_gov_QueryParamsResponse h) m"
    unfolding toJSON_tc_gov_QueryParamsResponse_def fromJSON_tc_gov_QueryParamsResponse_def wfj_tc_gov_QueryParamsResponse_def
    by (elim conjE) (rule json_rtI json_rules tc_gov_DepositParams_json_rules tc_gov_TallyParams_json_rules tc_gov_VotingParams_json_rules | assumption | (simp; fail))+
qed

lemma tc_gov_QueryDepositRequest_json: "message_json toJSON_tc_gov_QueryDepositRequest fromJSON_tc_gov_QueryDepositRequest wfj_tc_gov_QueryDepositRequest"
proof unfold_locales
  fix h m
  assume "wfj_tc_gov_QueryDepositRequest m"
  then show "json_rt (toJSON_tc_gov_QueryDepositRequest h) (fromJSON_tc_gov_QueryDepositRequest h) m"
    unfolding toJSON_tc_gov_QueryDepositRequest_def fromJSON_tc_gov_QueryDepositRequest_def wfj_tc_gov_QueryDepositRequest_def
    by (-) (rule json_rtI json_rules | assumption | (simp; fail))+
qed

lemma tc_gov_QueryDepositResponse_json: "message_json toJSON_tc_gov_QueryDepositResponse fromJSON_tc_gov_QueryDepositResponse wfj_tc_gov_QueryDepositResponse"
proof unfold_locales
  fix h m
  assume "wfj_tc_gov_QueryDepositResponse m"
  then show "json_rt (toJSON_tc_gov_QueryDepositResponse h) (fromJSON_tc_gov_QueryDepositResponse h) m"
    unfolding toJSON_tc_gov_QueryDepositResponse_def fromJSON_tc_gov_QueryDepositResponse_def wfj_tc_gov_QueryDepositResponse_def
    by (-) (rule json_rtI json_rules tc_gov_Deposit_json_rules | assumption | (simp; fail))+
qed

lemma tc_gov_QueryDepositsRequest_json: "message_json toJSON_tc_gov_QueryDepositsRequest fromJSON_tc_gov_QueryDepositsRequest wfj_tc_gov_QueryDepositsRequest"
proof unfold_locales
  fix h m
  assume "wfj_tc_gov_QueryDepositsRequest m"
  then show "json_rt (toJSON_tc_gov_QueryDepositsRequest h) (fromJSON_tc_gov_QueryDepositsRequest h) m"
    unfolding toJSON_tc_gov_QueryDepositsRequest_def fromJSON_tc_gov_QueryDepositsRequest_def wfj_tc_gov_QueryDepositsRequest_def
    by (elim conjE) (rule json_rtI json_rules | assumption | (simp; fail))+
qed

lemma tc_gov_QueryDepositsResponse_json: "message_json toJSON_tc_gov_QueryDepositsResponse fromJSON_tc_gov_QueryDepositsResponse wfj_tc_gov_QueryDepositsResponse"
proof unfold_locales
  fix h m
  assume "wfj_tc_gov_QueryDepositsResponse m"
  then show "json_rt (toJSON_tc_gov_QueryDepositsResponse h) (fromJSON_tc_gov_QueryDepositsResponse h) m"
    unfolding toJSON_tc_gov_QueryDepositsResponse_def fromJSON_tc_gov_QueryDepositsResponse_def wfj_tc_gov_QueryDepositsResponse_def
    by (elim conjE) (rule json_rtI json_rules tc_gov_Deposit_json_rules | assumption | (simp; fail))+
qed

lemma tc_gov_QueryTallyResultRequest_json: "message_json toJSON_tc_gov_QueryTallyResultRequest fromJSON_tc_gov_QueryTallyResultRequest wfj_tc_gov_QueryTallyResultRequest"
proof unfold_locales
  fix h m
  assume "wfj_tc_gov_QueryTallyResultRequest m"
  then show "json_rt (toJSON_tc_gov_QueryTallyResultRequest h) (fromJSON_tc_gov_QueryTallyResultRequest h) m"
    unfolding toJSON_tc_gov_QueryTallyResultRequest_def fromJSON_tc_gov_QueryTallyResultRequest_def wfj_tc_gov_QueryTallyResultRequest_def
    by (-) (rule json_rtI json_rules | assumption | (simp; fail))+
qed

lemma tc_gov_QueryTallyResultResponse_json: "message_json toJSON_tc_gov_QueryTallyResultResponse fromJSON_tc_gov_QueryTallyResultResponse wfj_tc_gov_QueryTallyResultResponse"
proof unfold_locales
  fix h m
  assume "wfj_tc_gov_QueryTallyResultResponse m"
  then show "json_rt (toJSON_tc_gov_QueryTallyResultResponse h) (fromJSON_tc_gov_QueryTallyResultResponse h) m"
    unfolding toJSON_tc_gov_QueryTallyResultResponse_def fromJSON_tc_gov_QueryTallyResultResponse_def wfj_tc_gov_QueryTallyResultResponse_def
    by (-) (rule json_rtI json_rules tc_gov_TallyResult_json_rules | assumption | (simp; fail))+
qed


section \<open>Calls over a transport that is served\<close>

context long_wire_laws
begin

lemma tc_gov_QueryClientImpl_Proposal_refines:
  "refines_handler L (decode_tc_gov_QueryProposalRequest L G) (encode_tc_gov_QueryProposalResponse L) (wf_tc_gov_QueryProposalRequest L) (wf_tc_gov_QueryProposalResponse L)
     (tc_gov_QueryClientImpl_Proposal L G) (js ''cosmos.gov.v1beta1.Query'') (js ''Proposal'')"
  unfolding tc_gov_QueryClientImpl_Proposal_def [abs_def] decode_tc_gov_QueryProposalRequest_def decode_tc_gov_QueryProposalResponse_def
  by (rule refines_unary [OF tc_gov_QueryProposalRequest_codec tc_gov_QueryProposalResponse_codec])

lemma tc_gov_QueryClientImpl_Proposals_refines:
  "refines_handler L (decode_tc_gov_QueryProposalsRequest L G) (encode_tc_gov_QueryProposalsResponse L) (wf_tc_gov_QueryProposalsRequest L) (wf_tc_gov_QueryProposalsResponse L)
     (tc_gov_QueryClientImpl_Proposals L G) (js ''cosmos.gov.v1beta1.Query'') (js ''Proposals'')"
  unfolding tc_gov_QueryClientImpl_Proposals_def [abs_def] decode_tc_gov_QueryProposalsRequest_def decode_tc_gov_QueryProposalsResponse_def
  by (rule refines_unary [OF tc_gov_QueryProposalsRequest_codec tc_gov_QueryProposalsResponse_codec])

lemma tc_gov_QueryClientImpl_Vote_refines:
  "refines_handler L (decode_tc_gov_QueryVoteRequest L G) (encode_tc_gov_QueryVoteResponse L) (wf_tc_gov_QueryVoteRequest L) (wf_tc_gov_QueryVoteResponse L)
     (tc_gov_QueryClientImpl_Vote L G) (js ''cosmos.gov.v1beta1.Query'') (js ''Vote'')"
  unfolding tc_gov_QueryClientImpl_Vote_def [abs_def] decode_tc_gov_QueryVoteRequest_def decode_tc_gov_QueryVoteResponse_def
  by (rule refines_unary [OF tc_gov_QueryVoteRequest_codec tc_gov_QueryVoteResponse_codec])

lemma tc_gov_QueryClientImpl_Votes_refines:
  "refines_handler L (decode_tc_gov_QueryVotesRequest L G) (encode_tc_gov_QueryVotesResponse L) (wf_tc_gov_QueryVotesRequest L) (wf_tc_gov_QueryVotesResponse L)
     (tc_gov_QueryClientImpl_Votes L G) (js ''cosmos.gov.v1beta1.Query'') (js ''Votes'')"
  unfolding tc_gov_QueryClientImpl_Votes_def [abs_def] decode_tc_gov_QueryVotesRequest_def decode_tc_gov_QueryVotesResponse_def
  by (rule refines_unary [OF tc_gov_QueryVotesRequest_codec tc_gov_QueryVotesResponse_codec])

lemma tc_gov_QueryClientImpl_Params_refines:
  "refines_handler L (decode_tc_gov_QueryParamsRequest L G) (encode_tc_gov_QueryParamsResponse L) (wf_tc_gov_QueryParamsRequest L) (wf_tc_gov_QueryParamsResponse L)
     (tc_gov_QueryClientImpl_Params L G) (js ''cosmos.gov.v1beta1.Query'') (js ''Params'')"
  unfolding tc_gov_QueryClientImpl_Params_def [abs_def] decode_tc_gov_QueryParamsRequest_def decode_tc_gov_QueryParamsResponse_def
  by (rule refines_unary [OF tc_gov_QueryParamsRequest_codec tc_gov_QueryParamsResponse_codec])

lemma tc_gov_QueryClientImpl_Deposit_refines:
  "refines_handler L (decode_tc_gov_QueryDepositRequest L G) (encode_tc_gov_QueryDepositResponse L) (wf_tc_gov_QueryDepositRequest L) (wf_tc_gov_QueryDepositResponse L)
     (tc_gov_QueryClientImpl_Deposit L G) (js ''cosmos.gov.v1beta1.Query'') (js ''Deposit'')"
  unfolding tc_gov_QueryClientImpl_Deposit_def [abs_def] decode_tc_gov_QueryDepositRequest_def decode_tc_gov_QueryDepositResponse_def
  by (rule refines_unary [OF tc_gov_QueryDepositRequest_codec tc_gov_QueryDepositResponse_codec])

lemma tc_gov_QueryClientImpl_Deposits_refines:
  "refines_handler L (decode_tc_gov_QueryDepositsRequest L G) (encode_tc_gov_QueryDepositsResponse L) (wf_tc_gov_QueryDepositsRequest L) (wf_tc_gov_QueryDepositsResponse L)
     (tc_gov_QueryClientImpl_Deposits L G) (js ''cosmos.gov.v1beta1.Query'') (js ''Deposits'')"
  unfolding tc_gov_QueryClientImpl_Deposits_def [abs_def] decode_tc_gov_QueryDepositsRequest_def decode_tc_gov_QueryDepositsResponse_def
  by (rule refines_unary [OF tc_gov_QueryDepositsRequest_codec tc_gov_QueryDepositsResponse_codec])

lemma tc_gov_QueryClientImpl_TallyResult_refines:
  "refines_handler L (decode_tc_gov_QueryTallyResultRequest L G) (encode_tc_gov_QueryTallyResultResponse L) (wf_tc_gov_QueryTallyResultRequest L) (wf_tc_gov_QueryTallyResultResponse L)
     (tc_gov_QueryClientImpl_TallyResult L G) (js ''cosmos.gov.v1beta1.Query'') (js ''TallyResult'')"
  unfolding tc_gov_QueryClientImpl_TallyResult_def [abs_def] decode_tc_gov_QueryTallyResultRequest_def decode_tc_gov_QueryTallyResultResponse_def
  by (rule refines_unary [OF tc_gov_QueryTallyResultRequest_codec tc_gov_QueryTallyResultResponse_codec])

end

end
