(* ===== verification/Spec2Isabelle.thy ===== *)
theory Spec2Isabelle
  imports ArkeoSpec CosmosSamples
    CosGovQuery
begin

text \<open>
  The TypeScript client library of the Arkeo chain: the message codecs and gRPC clients that
  \<open>protoc-gen-ts_proto\<close> generated for the modules \<open>arkeo.arkeo\<close> and \<open>arkeo.claim\<close>,
  and the client \<open>ts-client\<close> that Ignite generated around an older copy of them.

  \<^bold>\<open>The program.\<close> Arkeo is a Cosmos chain on which data providers bond, publish the services they
  offer and sell access through contracts; a second module hands out an airdrop. A client talks to
  the chain with protobuf messages. Each file \<open>arkeo/<module>/<file>.ts\<close> declares, for every message,
  an interface and an object with \<open>encode\<close>, \<open>decode\<close>, \<open>fromJSON\<close>, \<open>toJSON\<close>, \<open>create\<close> and \<open>fromPartial\<close>;
  \<open>tx.ts\<close> and \<open>query.ts\<close> also declare the services \<open>Msg\<close> and \<open>Query\<close> and a client of each over a
  transport. The messages of \<open>cosmos/base\<close> and \<open>google/protobuf\<close> they contain are generated alike, and so are
  the messages that describe schemas (\<open>descriptor.ts\<close>, \<open>http.ts\<close>, \<open>cosmos_proto/cosmos.ts\<close>).

  The directory \<open>ts-client\<close> is a client for applications: \<open>types\<close> of each module has the codecs as an
  earlier generator made them, over \<open>protobufjs\<close> and \<open>long\<close>; \<open>module.ts\<close> makes and sends transactions with
  \<open>cosmjs\<close>; \<open>rest.ts\<close> queries the REST interface with \<open>axios\<close>; \<open>client.ts\<close> holds the signer, the registry
  and the modules, which learn of a new signer through the event \<open>signer-changed\<close>.

  \<^bold>\<open>Theories.\<close>
  \<^item> \<open>Prelude\<close>: bytes, thrown errors as values, the error monad and the statement forms of the source.
  \<^item> \<open>JsNumber\<close>: numbers as doubles (exact rationals with rounding to 53 bits), strings as UTF-16
    code units, the text of an integer and \<open>Number\<close> of a text. Zero has one sign: no code
    distinguishes \<open>-0\<close>.
  \<^item> \<open>JsValue\<close>: JavaScript values, \<open>String\<close>, \<open>Number\<close>, \<open>Boolean\<close>, property access, \<open>isSet\<close>,
    \<open>longToNumber\<close>; the expression forms of \<open>fromJSON\<close>, \<open>toJSON\<close>, \<open>fromPartial\<close>; rules to read back
    what was written. The record \<open>host\<close> holds what the language leaves open.
  \<^item> \<open>Base64\<close>: \<open>bytesFromBase64\<close> and \<open>base64FromBytes\<close> over \<open>Buffer\<close> and over \<open>atob\<close> and \<open>btoa\<close>.
  \<^item> \<open>JsDate\<close>, \<open>Timestamps\<close>: dates, their ISO text (proleptic Gregorian calendar), and the conversions
    of \<open>claim/params.ts\<close> between dates and timestamps, in double arithmetic.
  \<^item> \<open>Wire\<close>: the interface of the package \<^verbatim>\<open>@bufbuild/protobuf/wire\<close>, a parameter \<open>L\<close> of every codec, with
    its documented behaviour as the locale \<open>wire_laws\<close>.
  \<^item> \<open>Codec\<close>: the decoding loop all decoders share, and the contracts of a message type:
    \<open>message_codec\<close> (encoding and decoding), \<open>message_range\<close> (what a decoder can return),
    \<open>message_json\<close> (JSON).
  \<^item> \<open>BaseMsgs\<close> (\<open>coin.ts\<close>, \<open>pagination.ts\<close>, \<open>duration.ts\<close>, \<open>timestamp.ts\<close>), \<open>KeeperMsgs\<close> (\<open>arkeo/keeper.ts\<close>),
    \<open>MiscMsgs\<close> (\<open>arkeo/misc.ts\<close>, \<open>arkeo/params.ts\<close>), \<open>TxMsgs\<close> (\<open>arkeo/tx.ts\<close>), \<open>EventMsgs\<close> (\<open>arkeo/events.ts\<close>),
    \<open>GenesisMsgs\<close> (\<open>arkeo/genesis.ts\<close>), \<open>QueryMsgs\<close> (\<open>arkeo/query.ts\<close>), \<open>ClaimMsgs\<close>
    (\<open>claim/claim_record.ts\<close>, \<open>claim/params.ts\<close>, \<open>claim/genesis.ts\<close>), \<open>ClaimTx\<close> (\<open>claim/tx.ts\<close>), \<open>ClaimQuery\<close>
    (\<open>claim/query.ts\<close>): the messages. For a message \<open>X\<close>: the record \<open>X\<close> is its interface,
    \<open>createBase_X\<close>, \<open>encode_X\<close>, \<open>decode_X\<close> (with its switch \<open>X_switch\<close>), \<open>fromJSON_X\<close>, \<open>toJSON_X\<close>,
    \<open>create_X\<close> and \<open>fromPartial_X\<close> are the functions of the same name, \<open>X_Partial\<close> is
    \<open>DeepPartial<X>\<close>; \<open>wf_X\<close> says which messages the wire format can carry, \<open>wfj_X\<close> which have whole
    numbers and named enumeration values, \<open>ok_X\<close> which numbers a decoder can produce. Each message
    instantiates the three contracts. A field that may be \<open>undefined\<close> is an option. Names that both
    modules use carry the prefix \<open>claim_\<close> for the second.
  \<^item> \<open>RpcClient\<close>: \<open>MsgClientImpl\<close> and \<open>QueryClientImpl\<close> of both modules over a transport with effects;
    the contract \<open>rpc_method\<close> of one method.
  \<^item> \<open>Evolution\<close>: input of other schema versions, concatenated encodings, default messages.
  \<^item> \<open>LongCodec\<close>: what the codecs of \<open>ts-client\<close> do otherwise: \<open>longToNumber\<close> over the package \<open>long\<close> (a
    parameter \<open>G\<close> with the laws \<open>long_laws\<close>), \<open>skipType\<close>, dates. Its reader and writer have the interface
    of \<open>Wire\<close>.
  \<^item> \<open>TcBase\<close>, \<open>TcTx\<close>, \<open>TcState\<close>, \<open>TcEvents\<close>, \<open>TcQuery\<close>, \<open>TcClaim\<close>, \<open>TcClaimTx\<close>: the codecs of \<open>ts-client\<close>,
    named \<open>encode_tc_X\<close> and so on. A message whose interface is the current one shares its record, and
    \<open>tc_X_eqs\<close> says which functions are the same; the others have a record \<open>tc_X\<close>.
  \<^item> \<open>TcRpc\<close>: the gRPC clients of \<open>ts-client\<close>.
  \<^item> \<open>TxClient\<close>: \<open>txClient\<close> of \<open>module.ts\<close> and the registries. An \<open>async\<close> method is a tree of the calls it
    awaits, each continued with the answer and with the state of the caller at that moment; \<open>run\<close> runs it
    against a \<open>cosmjs\<close>. The contract \<open>tx_method\<close> of one \<open>sendMsg\<close> method is instantiated for all twenty.
  \<^item> \<open>Registries\<close>: \<open>registry.ts\<close> of the other modules of \<open>ts-client\<close>.
  \<^item> \<open>TsClient\<close>: \<open>client.ts\<close>, \<open>index.ts\<close>, \<open>env.ts\<close>, \<open>modules.ts\<close> and \<open>SDKModule\<close> of \<open>module.ts\<close>. \<open>step\<close> interleaves
    calls, answers and changes of the signer, as the event loop does between two \<open>await\<close>s; \<open>reachable\<close> are
    the configurations that result. \<open>useKeplr\<close> is a tree of its awaits too, which \<open>run_keplr\<close> runs against a wallet.
  \<^item> \<open>RestClient\<close>: \<open>queryClient\<close> of \<open>module.ts\<close>, \<open>HttpClient\<close> and the queries of \<open>rest.ts\<close>.
  \<^item> \<open>OptionalFields\<close>: fields that may be \<open>undefined\<close> and have a default. \<open>Recursion\<close>: decoders that call
    themselves, with the depth of the stack as a parameter, and their contract \<open>recursive_decoder\<close>.
  \<^item> \<open>DescOptions\<close>, \<open>DescMsgs\<close> (\<open>google/protobuf/descriptor.ts\<close>), \<open>HttpMsgs\<close> (\<open>google/api/http.ts\<close>,
    \<open>cosmos_proto/cosmos.ts\<close>): the messages that describe schemas, with definitions named as above. The
    functions of a message that nests take the depth \<open>n\<close> of the stack.
  \<^item> \<open>CosmosCodec\<close>: 32-bit unsigned fields and members of a \<open>oneof\<close>. \<open>CosmosRpc\<close>: \<open>refines_handler\<close>, what a
    method of a gRPC client promises. \<open>CosmosAny\<close>, \<open>CosBank\<close>, \<open>CosBankTx\<close>, \<open>CosBankQuery\<close>,
    \<open>CosAuthz\<close>, \<open>CosGov\<close>, \<open>CosGovTx\<close>, \<open>CosGovQuery\<close>, \<open>CosCrisis\<close>: the
    codecs and gRPC clients of the modules bank, authz, gov and crisis of the Cosmos SDK in \<open>ts-client\<close>,
    named \<open>tc_<module>_X\<close>. A partial message is the tuple of its properties in the order of the interface.
    \<open>CosmosValue\<close>: the transactions of these modules as one type. \<open>CosmosTx\<close>: their \<open>module.ts\<close> and
    \<open>registry.ts\<close>, each \<open>sendMsg\<close> method an instance of \<open>tx_method\<close>.
  \<^item> \<open>Ieee\<close>, \<open>PbWire\<close>, \<open>PbLong\<close>, \<open>Samples\<close>, \<open>TcSamples\<close>, \<open>SchemaSamples\<close>, \<open>CosmosSamples\<close>: the bits of a double, the protobuf wire format as
    an instance of \<open>wire_laws\<close>, 64-bit integers as an instance of \<open>long_laws\<close>, concrete messages, servers,
    wallets and transports.

  \<^item> \<open>ArkeoSpec\<close>: the properties, except those that involve the codecs of the Cosmos modules, which are below.

  \<^bold>\<open>What is shown.\<close> Over every lawful wire library each message survives encoding and decoding (C1 to
  C4), also through the clients and a remote end that implements the service (C5, C6); the decoders
  end on every input (C7) and return numbers of the schema only (C8), since \<open>longToNumber\<close> is exact or
  throws (C9, C30). For \<open>ts-client\<close>, over every \<open>cosmjs\<close>, wallet and \<open>axios\<close>: the modules always have the signer
  of the client (C10) and send each transaction with one signer (C11), every transaction and \<open>useKeplr\<close> end (C12), a
  \<open>sendMsg\<close> method broadcasts the one message it is given or rejects with the cause (C14 to C16), the registry
  has one codec for every message (C17), \<open>useKeplr\<close> changes all or nothing (C18), the queries ask the API address for the right paths
  (C19); its codecs agree with the current ones where the schema does (C20 to C22). C13 and C23 show
  where it is weaker: the client's own \<open>signAndBroadcast\<close> can mix two signers, and small
  integers are rounded. The messages and the gRPC clients of the Cosmos modules keep the same promises
  (C24 to C26). The messages that describe schemas survive encoding and JSON too (C27), but
  an \<open>undefined\<close> field becomes its default (C28); their recursive decoders need a level of stack for at most
  every byte, and an input can use up any stack (C29). Unknown fields are skipped and encodings may be
  concatenated, the length announced for a sub-message is not enforced (C31 to C33). Default messages, JSON,
  base64 and dates: C34 to C38.

  \<^bold>\<open>Fuel.\<close> \<open>decode_loop\<close> and \<open>packed_loop\<close> recurse on one unit of fuel per byte up to their end position;
  \<open>run_enough_fuel\<close> and \<open>packed_loop_good\<close> show that this is enough, since each iteration of a lawful
  reader consumes a byte; running out is the error \<open>Diverges\<close>, which C7 excludes. The recursion of
  the schema messages is on the stack, whose end is an exception of the program.

  \<^bold>\<open>Not modelled.\<close> The packages behind \<open>L\<close>, \<open>G\<close>, \<open>cosmjs\<close>, \<open>axios\<close>, the wallet and the transport are
  parameters; \<open>request\<close> of a transport returns a promise, as its interface says, and does not throw itself.
  Types that only the compiler sees (\<open>Exact\<close>, \<open>KeysOfUnion\<close>, \<open>UnionToIntersection\<close>) have no
  run-time meaning. \<open>gogoproto/gogo.ts\<close>, \<open>amino/amino.ts\<close> and \<open>google/api/annotations.ts\<close> declare a package
  name and nothing else; the copies of the schema messages in \<open>ts-client\<close> are not used there. Of the
  directories of \<open>ts-client\<close> for the Cosmos SDK four are modelled, without their \<open>rest.ts\<close>, which repeats that
  of arkeo; the structures of their types are a parameter of the client. The remaining Cosmos
  modules (auth, base.tendermint, distribution, evidence, feegrant, gov.v1, group, mint, nft, params, slashing,
  staking, tx, upgrade, vesting) and those of IBC are generated alike from schemas of other projects and, except
  for their message types, left out: a context with all of their messages at once is too large
  to check in reasonable time. The Go sources of the chain are listed in the manifest and not part of these
  theories.
\<close>

text \<open>
  C7. Every decoder returns or throws, on any input: no sequence of bytes, whatever reader and length it is called with, keeps the decoding loops running. Each iteration reads at least the byte of a tag, or of an element of a packed field. This is stated of all 273 decoders of the development: the current ones of arkeo, claim, \<open>cosmos.base\<close>, \<open>google.protobuf\<close> and the schema messages (where \<open>n\<close> is the depth of the stack), and those of \<open>ts-client\<close> for arkeo, claim, bank, authz, gov and crisis.
\<close>

theorem decode_returns_or_throws:
  assumes laws: "long_wire_laws L F out inp G"
  shows "decode_Contract L input len \<noteq> Inl Diverges
    \<and> decode_Coin L input len \<noteq> Inl Diverges
    \<and> decode_DecCoin L input len \<noteq> Inl Diverges
    \<and> decode_PageRequest L input len \<noteq> Inl Diverges
    \<and> decode_PageResponse L input len \<noteq> Inl Diverges
    \<and> decode_Duration L input len \<noteq> Inl Diverges
    \<and> decode_Timestamp L input len \<noteq> Inl Diverges
    \<and> decode_ClaimRecord L input len \<noteq> Inl Diverges
    \<and> decode_claim_Params L input len \<noteq> Inl Diverges
    \<and> decode_claim_GenesisState L input len \<noteq> Inl Diverges
    \<and> decode_claim_QueryParamsRequest L input len \<noteq> Inl Diverges
    \<and> decode_claim_QueryParamsResponse L input len \<noteq> Inl Diverges
    \<and> decode_QueryClaimRecordRequest L input len \<noteq> Inl Diverges
    \<and> decode_QueryClaimRecordResponse L input len \<noteq> Inl Diverges
    \<and> decode_QueryClaimableForActionRequest L input len \<noteq> Inl Diverges
    \<and> decode_QueryClaimableForActionResponse L input len \<noteq> Inl Diverges
    \<and> decode_MsgClaimEth L input len \<noteq> Inl Diverges
    \<and> decode_MsgClaimEthResponse L input len \<noteq> Inl Diverges
    \<and> decode_MsgClaimArkeo L input len \<noteq> Inl Diverges
    \<and> decode_MsgClaimArkeoResponse L input len \<noteq> Inl Diverges
    \<and> decode_MsgTransferClaim L input len \<noteq> Inl Diverges
    \<and> decode_MsgTransferClaimResponse L input len \<noteq> Inl Diverges
    \<and> decode_MsgAddClaim L input len \<noteq> Inl Diverges
    \<and> decode_MsgAddClaimResponse L input len \<noteq> Inl Diverges
    \<and> decode_MsgClaimThorchain L input len \<noteq> Inl Diverges
    \<and> decode_MsgClaimThorchainResponse L input len \<noteq> Inl Diverges
    \<and> decode_tc_authz_GenericAuthorization L G input len \<noteq> Inl Diverges
    \<and> decode_tc_authz_Grant L G input len \<noteq> Inl Diverges
    \<and> decode_tc_authz_GrantAuthorization L G input len \<noteq> Inl Diverges
    \<and> decode_tc_authz_GrantQueueItem L G input len \<noteq> Inl Diverges
    \<and> decode_tc_authz_EventGrant L G input len \<noteq> Inl Diverges
    \<and> decode_tc_authz_EventRevoke L G input len \<noteq> Inl Diverges
    \<and> decode_tc_authz_GenesisState L G input len \<noteq> Inl Diverges
    \<and> decode_tc_authz_MsgGrant L G input len \<noteq> Inl Diverges
    \<and> decode_tc_authz_MsgExecResponse L G input len \<noteq> Inl Diverges
    \<and> decode_tc_authz_MsgExec L G input len \<noteq> Inl Diverges
    \<and> decode_tc_authz_MsgGrantResponse L G input len \<noteq> Inl Diverges
    \<and> decode_tc_authz_MsgRevoke L G input len \<noteq> Inl Diverges
    \<and> decode_tc_authz_MsgRevokeResponse L G input len \<noteq> Inl Diverges
    \<and> decode_tc_authz_QueryGrantsRequest L G input len \<noteq> Inl Diverges
    \<and> decode_tc_authz_QueryGrantsResponse L G input len \<noteq> Inl Diverges
    \<and> decode_tc_authz_QueryGranterGrantsRequest L G input len \<noteq> Inl Diverges
    \<and> decode_tc_authz_QueryGranterGrantsResponse L G input len \<noteq> Inl Diverges
    \<and> decode_tc_authz_QueryGranteeGrantsRequest L G input len \<noteq> Inl Diverges
    \<and> decode_tc_authz_QueryGranteeGrantsResponse L G input len \<noteq> Inl Diverges
    \<and> decode_tc_bank_SendEnabled L G input len \<noteq> Inl Diverges
    \<and> decode_tc_bank_Params L G input len \<noteq> Inl Diverges
    \<and> decode_tc_bank_Input L G input len \<noteq> Inl Diverges
    \<and> decode_tc_bank_Output L G input len \<noteq> Inl Diverges
    \<and> decode_tc_bank_Supply L G input len \<noteq> Inl Diverges
    \<and> decode_tc_bank_DenomUnit L G input len \<noteq> Inl Diverges
    \<and> decode_tc_bank_Metadata L G input len \<noteq> Inl Diverges
    \<and> decode_tc_bank_SendAuthorization L G input len \<noteq> Inl Diverges
    \<and> decode_tc_bank_Balance L G input len \<noteq> Inl Diverges
    \<and> decode_tc_bank_GenesisState L G input len \<noteq> Inl Diverges
    \<and> decode_tc_bank_QueryBalanceRequest L G input len \<noteq> Inl Diverges
    \<and> decode_tc_bank_QueryBalanceResponse L G input len \<noteq> Inl Diverges
    \<and> decode_tc_bank_QueryAllBalancesRequest L G input len \<noteq> Inl Diverges
    \<and> decode_tc_bank_QueryAllBalancesResponse L G input len \<noteq> Inl Diverges
    \<and> decode_tc_bank_QuerySpendableBalancesRequest L G input len \<noteq> Inl Diverges
    \<and> decode_tc_bank_QuerySpendableBalancesResponse L G input len \<noteq> Inl Diverges
    \<and> decode_tc_bank_QueryTotalSupplyRequest L G input len \<noteq> Inl Diverges
    \<and> decode_tc_bank_QueryTotalSupplyResponse L G input len \<noteq> Inl Diverges
    \<and> decode_tc_bank_QuerySupplyOfRequest L G input len \<noteq> Inl Diverges
    \<and> decode_tc_bank_QuerySupplyOfResponse L G input len \<noteq> Inl Diverges
    \<and> decode_tc_bank_QueryParamsRequest L G input len \<noteq> Inl Diverges
    \<and> decode_tc_bank_QueryParamsResponse L G input len \<noteq> Inl Diverges
    \<and> decode_tc_bank_QueryDenomsMetadataRequest L G input len \<noteq> Inl Diverges
    \<and> decode_tc_bank_QueryDenomsMetadataResponse L G input len \<noteq> Inl Diverges
    \<and> decode_tc_bank_QueryDenomMetadataRequest L G input len \<noteq> Inl Diverges
    \<and> decode_tc_bank_QueryDenomMetadataResponse L G input len \<noteq> Inl Diverges
    \<and> decode_tc_bank_QueryDenomOwnersRequest L G input len \<noteq> Inl Diverges
    \<and> decode_tc_bank_DenomOwner L G input len \<noteq> Inl Diverges
    \<and> decode_tc_bank_QueryDenomOwnersResponse L G input len \<noteq> Inl Diverges
    \<and> decode_tc_bank_MsgSend L G input len \<noteq> Inl Diverges
    \<and> decode_tc_bank_MsgSendResponse L G input len \<noteq> Inl Diverges
    \<and> decode_tc_bank_MsgMultiSend L G input len \<noteq> Inl Diverges
    \<and> decode_tc_bank_MsgMultiSendResponse L G input len \<noteq> Inl Diverges
    \<and> decode_tc_crisis_GenesisState L G input len \<noteq> Inl Diverges
    \<and> decode_tc_crisis_MsgVerifyInvariant L G input len \<noteq> Inl Diverges
    \<and> decode_tc_crisis_MsgVerifyInvariantResponse L G input len \<noteq> Inl Diverges
    \<and> decode_tc_gov_WeightedVoteOption L G input len \<noteq> Inl Diverges
    \<and> decode_tc_gov_TextProposal L G input len \<noteq> Inl Diverges
    \<and> decode_tc_gov_Deposit L G input len \<noteq> Inl Diverges
    \<and> decode_tc_gov_TallyResult L G input len \<noteq> Inl Diverges
    \<and> decode_tc_gov_Proposal L G input len \<noteq> Inl Diverges
    \<and> decode_tc_gov_Vote L G input len \<noteq> Inl Diverges
    \<and> decode_tc_gov_DepositParams L G input len \<noteq> Inl Diverges
    \<and> decode_tc_gov_VotingParams L G input len \<noteq> Inl Diverges
    \<and> decode_tc_gov_TallyParams L G input len \<noteq> Inl Diverges
    \<and> decode_tc_gov_GenesisState L G input len \<noteq> Inl Diverges
    \<and> decode_tc_gov_QueryProposalRequest L G input len \<noteq> Inl Diverges
    \<and> decode_tc_gov_QueryProposalResponse L G input len \<noteq> Inl Diverges
    \<and> decode_tc_gov_QueryProposalsRequest L G input len \<noteq> Inl Diverges
    \<and> decode_tc_gov_QueryProposalsResponse L G input len \<noteq> Inl Diverges
    \<and> decode_tc_gov_QueryVoteRequest L G input len \<noteq> Inl Diverges
    \<and> decode_tc_gov_QueryVoteResponse L G input len \<noteq> Inl Diverges
    \<and> decode_tc_gov_QueryVotesRequest L G input len \<noteq> Inl Diverges
    \<and> decode_tc_gov_QueryVotesResponse L G input len \<noteq> Inl Diverges
    \<and> decode_tc_gov_QueryParamsRequest L G input len \<noteq> Inl Diverges
    \<and> decode_tc_gov_QueryParamsResponse L G input len \<noteq> Inl Diverges
    \<and> decode_tc_gov_QueryDepositRequest L G input len \<noteq> Inl Diverges
    \<and> decode_tc_gov_QueryDepositResponse L G input len \<noteq> Inl Diverges
    \<and> decode_tc_gov_QueryDepositsRequest L G input len \<noteq> Inl Diverges
    \<and> decode_tc_gov_QueryDepositsResponse L G input len \<noteq> Inl Diverges
    \<and> decode_tc_gov_QueryTallyResultRequest L G input len \<noteq> Inl Diverges
    \<and> decode_tc_gov_QueryTallyResultResponse L G input len \<noteq> Inl Diverges
    \<and> decode_tc_gov_MsgSubmitProposal L G input len \<noteq> Inl Diverges
    \<and> decode_tc_gov_MsgSubmitProposalResponse L G input len \<noteq> Inl Diverges
    \<and> decode_tc_gov_MsgVote L G input len \<noteq> Inl Diverges
    \<and> decode_tc_gov_MsgVoteResponse L G input len \<noteq> Inl Diverges
    \<and> decode_tc_gov_MsgVoteWeighted L G input len \<noteq> Inl Diverges
    \<and> decode_tc_gov_MsgVoteWeightedResponse L G input len \<noteq> Inl Diverges
    \<and> decode_tc_gov_MsgDeposit L G input len \<noteq> Inl Diverges
    \<and> decode_tc_gov_MsgDepositResponse L G input len \<noteq> Inl Diverges
    \<and> decode_tc_Any L G input len \<noteq> Inl Diverges
    \<and> decode_FieldDescriptorProto L input len \<noteq> Inl Diverges
    \<and> decode_EnumValueDescriptorProto L input len \<noteq> Inl Diverges
    \<and> decode_EnumDescriptorProto_EnumReservedRange L input len \<noteq> Inl Diverges
    \<and> decode_EnumDescriptorProto L input len \<noteq> Inl Diverges
    \<and> decode_DescriptorProto_ExtensionRange L input len \<noteq> Inl Diverges
    \<and> decode_OneofDescriptorProto L input len \<noteq> Inl Diverges
    \<and> decode_DescriptorProto_ReservedRange L input len \<noteq> Inl Diverges
    \<and> decode_MethodDescriptorProto L input len \<noteq> Inl Diverges
    \<and> decode_ServiceDescriptorProto L input len \<noteq> Inl Diverges
    \<and> decode_SourceCodeInfo_Location L input len \<noteq> Inl Diverges
    \<and> decode_SourceCodeInfo L input len \<noteq> Inl Diverges
    \<and> decode_GeneratedCodeInfo_Annotation L input len \<noteq> Inl Diverges
    \<and> decode_GeneratedCodeInfo L input len \<noteq> Inl Diverges
    \<and> decode_DescriptorProto L n input len \<noteq> Inl Diverges
    \<and> decode_FileDescriptorProto L n input len \<noteq> Inl Diverges
    \<and> decode_FileDescriptorSet L n input len \<noteq> Inl Diverges
    \<and> decode_FieldOptions_EditionDefault L input len \<noteq> Inl Diverges
    \<and> decode_FeatureSet L input len \<noteq> Inl Diverges
    \<and> decode_FieldOptions_FeatureSupport L input len \<noteq> Inl Diverges
    \<and> decode_UninterpretedOption_NamePart L input len \<noteq> Inl Diverges
    \<and> decode_UninterpretedOption L input len \<noteq> Inl Diverges
    \<and> decode_FieldOptions L input len \<noteq> Inl Diverges
    \<and> decode_EnumValueOptions L input len \<noteq> Inl Diverges
    \<and> decode_EnumOptions L input len \<noteq> Inl Diverges
    \<and> decode_ExtensionRangeOptions_Declaration L input len \<noteq> Inl Diverges
    \<and> decode_ExtensionRangeOptions L input len \<noteq> Inl Diverges
    \<and> decode_OneofOptions L input len \<noteq> Inl Diverges
    \<and> decode_MessageOptions L input len \<noteq> Inl Diverges
    \<and> decode_MethodOptions L input len \<noteq> Inl Diverges
    \<and> decode_ServiceOptions L input len \<noteq> Inl Diverges
    \<and> decode_FileOptions L input len \<noteq> Inl Diverges
    \<and> decode_FeatureSetDefaults_FeatureSetEditionDefault L input len \<noteq> Inl Diverges
    \<and> decode_FeatureSetDefaults L input len \<noteq> Inl Diverges
    \<and> decode_EventBondProvider L input len \<noteq> Inl Diverges
    \<and> decode_EventModProvider L input len \<noteq> Inl Diverges
    \<and> decode_EventOpenContract L input len \<noteq> Inl Diverges
    \<and> decode_EventSettleContract L input len \<noteq> Inl Diverges
    \<and> decode_EventCloseContract L input len \<noteq> Inl Diverges
    \<and> decode_EventValidatorPayout L input len \<noteq> Inl Diverges
    \<and> decode_ValidatorVersion L input len \<noteq> Inl Diverges
    \<and> decode_GenesisState L input len \<noteq> Inl Diverges
    \<and> decode_CustomHttpPattern L input len \<noteq> Inl Diverges
    \<and> decode_HttpRule L n input len \<noteq> Inl Diverges
    \<and> decode_Http L n input len \<noteq> Inl Diverges
    \<and> decode_InterfaceDescriptor L input len \<noteq> Inl Diverges
    \<and> decode_ScalarDescriptor L input len \<noteq> Inl Diverges
    \<and> decode_Provider L input len \<noteq> Inl Diverges
    \<and> decode_ContractSet L input len \<noteq> Inl Diverges
    \<and> decode_ContractExpirationSet L input len \<noteq> Inl Diverges
    \<and> decode_UserContractSet L input len \<noteq> Inl Diverges
    \<and> decode_Service L input len \<noteq> Inl Diverges
    \<and> decode_ProtoInt64 L input len \<noteq> Inl Diverges
    \<and> decode_ProtoUint64 L input len \<noteq> Inl Diverges
    \<and> decode_ProtoAccAddresses L input len \<noteq> Inl Diverges
    \<and> decode_ProtoStrings L input len \<noteq> Inl Diverges
    \<and> decode_ProtoBools L input len \<noteq> Inl Diverges
    \<and> decode_Params L input len \<noteq> Inl Diverges
    \<and> decode_QueryAllServicesRequest L input len \<noteq> Inl Diverges
    \<and> decode_ServiceEnum L input len \<noteq> Inl Diverges
    \<and> decode_QueryAllServicesResponse L input len \<noteq> Inl Diverges
    \<and> decode_QueryServiceRequest L input len \<noteq> Inl Diverges
    \<and> decode_QueryServiceResponse L input len \<noteq> Inl Diverges
    \<and> decode_QueryParamsRequest L input len \<noteq> Inl Diverges
    \<and> decode_QueryParamsResponse L input len \<noteq> Inl Diverges
    \<and> decode_QueryFetchProviderRequest L input len \<noteq> Inl Diverges
    \<and> decode_QueryFetchProviderResponse L input len \<noteq> Inl Diverges
    \<and> decode_QueryAllProviderRequest L input len \<noteq> Inl Diverges
    \<and> decode_QueryAllProviderResponse L input len \<noteq> Inl Diverges
    \<and> decode_QueryFetchContractRequest L input len \<noteq> Inl Diverges
    \<and> decode_QueryFetchContractResponse L input len \<noteq> Inl Diverges
    \<and> decode_QueryAllContractRequest L input len \<noteq> Inl Diverges
    \<and> decode_QueryAllContractResponse L input len \<noteq> Inl Diverges
    \<and> decode_QueryActiveContractRequest L input len \<noteq> Inl Diverges
    \<and> decode_QueryActiveContractResponse L input len \<noteq> Inl Diverges
    \<and> decode_tc_Coin L G input len \<noteq> Inl Diverges
    \<and> decode_tc_DecCoin L G input len \<noteq> Inl Diverges
    \<and> decode_tc_IntProto L G input len \<noteq> Inl Diverges
    \<and> decode_tc_DecProto L G input len \<noteq> Inl Diverges
    \<and> decode_tc_PageRequest L G input len \<noteq> Inl Diverges
    \<and> decode_tc_PageResponse L G input len \<noteq> Inl Diverges
    \<and> decode_tc_Provider L G input len \<noteq> Inl Diverges
    \<and> decode_tc_Contract L G input len \<noteq> Inl Diverges
    \<and> decode_tc_ContractSet L G input len \<noteq> Inl Diverges
    \<and> decode_tc_ContractExpirationSet L G input len \<noteq> Inl Diverges
    \<and> decode_tc_UserContractSet L G input len \<noteq> Inl Diverges
    \<and> decode_tc_Duration L G input len \<noteq> Inl Diverges
    \<and> decode_tc_Timestamp L G input len \<noteq> Inl Diverges
    \<and> decode_tc_ClaimRecord L G input len \<noteq> Inl Diverges
    \<and> decode_tc_claim_Params L G input len \<noteq> Inl Diverges
    \<and> decode_tc_claim_GenesisState L G input len \<noteq> Inl Diverges
    \<and> decode_tc_MsgClaimEth L G input len \<noteq> Inl Diverges
    \<and> decode_tc_MsgClaimEthResponse L G input len \<noteq> Inl Diverges
    \<and> decode_tc_MsgClaimArkeo L G input len \<noteq> Inl Diverges
    \<and> decode_tc_MsgClaimArkeoResponse L G input len \<noteq> Inl Diverges
    \<and> decode_tc_MsgTransferClaim L G input len \<noteq> Inl Diverges
    \<and> decode_tc_MsgTransferClaimResponse L G input len \<noteq> Inl Diverges
    \<and> decode_tc_MsgAddClaim L G input len \<noteq> Inl Diverges
    \<and> decode_tc_MsgAddClaimResponse L G input len \<noteq> Inl Diverges
    \<and> decode_tc_claim_QueryParamsRequest L G input len \<noteq> Inl Diverges
    \<and> decode_tc_claim_QueryParamsResponse L G input len \<noteq> Inl Diverges
    \<and> decode_tc_QueryClaimRecordRequest L G input len \<noteq> Inl Diverges
    \<and> decode_tc_QueryClaimRecordResponse L G input len \<noteq> Inl Diverges
    \<and> decode_tc_EventBondProvider L G input len \<noteq> Inl Diverges
    \<and> decode_tc_EventModProvider L G input len \<noteq> Inl Diverges
    \<and> decode_tc_EventOpenContract L G input len \<noteq> Inl Diverges
    \<and> decode_tc_EventSettleContract L G input len \<noteq> Inl Diverges
    \<and> decode_tc_EventCloseContract L G input len \<noteq> Inl Diverges
    \<and> decode_tc_EventValidatorPayout L G input len \<noteq> Inl Diverges
    \<and> decode_tc_QueryParamsRequest L G input len \<noteq> Inl Diverges
    \<and> decode_tc_QueryParamsResponse L G input len \<noteq> Inl Diverges
    \<and> decode_tc_QueryFetchProviderRequest L G input len \<noteq> Inl Diverges
    \<and> decode_tc_QueryFetchProviderResponse L G input len \<noteq> Inl Diverges
    \<and> decode_tc_QueryAllProviderRequest L G input len \<noteq> Inl Diverges
    \<and> decode_tc_QueryAllProviderResponse L G input len \<noteq> Inl Diverges
    \<and> decode_tc_QueryFetchContractRequest L G input len \<noteq> Inl Diverges
    \<and> decode_tc_QueryFetchContractResponse L G input len \<noteq> Inl Diverges
    \<and> decode_tc_QueryAllContractRequest L G input len \<noteq> Inl Diverges
    \<and> decode_tc_QueryAllContractResponse L G input len \<noteq> Inl Diverges
    \<and> decode_tc_QueryActiveContractRequest L G input len \<noteq> Inl Diverges
    \<and> decode_tc_QueryActiveContractResponse L G input len \<noteq> Inl Diverges
    \<and> decode_tc_ProtoInt64 L G input len \<noteq> Inl Diverges
    \<and> decode_tc_ProtoUint64 L G input len \<noteq> Inl Diverges
    \<and> decode_tc_ProtoAccAddresses L G input len \<noteq> Inl Diverges
    \<and> decode_tc_ProtoStrings L G input len \<noteq> Inl Diverges
    \<and> decode_tc_ProtoBools L G input len \<noteq> Inl Diverges
    \<and> decode_tc_Params L G input len \<noteq> Inl Diverges
    \<and> decode_tc_GenesisState L G input len \<noteq> Inl Diverges
    \<and> decode_tc_MsgBondProvider L G input len \<noteq> Inl Diverges
    \<and> decode_tc_MsgBondProviderResponse L G input len \<noteq> Inl Diverges
    \<and> decode_tc_MsgModProvider L G input len \<noteq> Inl Diverges
    \<and> decode_tc_MsgModProviderResponse L G input len \<noteq> Inl Diverges
    \<and> decode_tc_MsgOpenContract L G input len \<noteq> Inl Diverges
    \<and> decode_tc_MsgOpenContractResponse L G input len \<noteq> Inl Diverges
    \<and> decode_tc_MsgCloseContract L G input len \<noteq> Inl Diverges
    \<and> decode_tc_MsgCloseContractResponse L G input len \<noteq> Inl Diverges
    \<and> decode_tc_MsgClaimContractIncome L G input len \<noteq> Inl Diverges
    \<and> decode_tc_MsgClaimContractIncomeResponse L G input len \<noteq> Inl Diverges
    \<and> decode_tc_MsgSetVersion L G input len \<noteq> Inl Diverges
    \<and> decode_tc_MsgSetVersionResponse L G input len \<noteq> Inl Diverges
    \<and> decode_MsgBondProvider L input len \<noteq> Inl Diverges
    \<and> decode_MsgBondProviderResponse L input len \<noteq> Inl Diverges
    \<and> decode_MsgModProvider L input len \<noteq> Inl Diverges
    \<and> decode_MsgModProviderResponse L input len \<noteq> Inl Diverges
    \<and> decode_MsgOpenContract L input len \<noteq> Inl Diverges
    \<and> decode_MsgOpenContractResponse L input len \<noteq> Inl Diverges
    \<and> decode_MsgCloseContract L input len \<noteq> Inl Diverges
    \<and> decode_MsgCloseContractResponse L input len \<noteq> Inl Diverges
    \<and> decode_MsgClaimContractIncome L input len \<noteq> Inl Diverges
    \<and> decode_MsgClaimContractIncomeResponse L input len \<noteq> Inl Diverges
    \<and> decode_MsgSetVersion L input len \<noteq> Inl Diverges
    \<and> decode_MsgSetVersionResponse L input len \<noteq> Inl Diverges
    \<and> decode_MsgRegisterService L input len \<noteq> Inl Diverges
    \<and> decode_MsgRegisterServiceResponse L input len \<noteq> Inl Diverges
    \<and> decode_MsgUpdateService L input len \<noteq> Inl Diverges
    \<and> decode_MsgUpdateServiceResponse L input len \<noteq> Inl Diverges
    \<and> decode_MsgRemoveService L input len \<noteq> Inl Diverges
    \<and> decode_MsgRemoveServiceResponse L input len \<noteq> Inl Diverges"
  proof -
  note w = long_wire_laws.axioms(1) [OF laws]
  show ?thesis
    by (simp only: simp_thms
      wire_laws.Contract_returns [OF w]
      wire_laws.Coin_returns [OF w]
      wire_laws.DecCoin_returns [OF w]
      wire_laws.PageRequest_returns [OF w]
      wire_laws.PageResponse_returns [OF w]
      wire_laws.Duration_returns [OF w]
      wire_laws.Timestamp_returns [OF w]
      wire_laws.ClaimRecord_returns [OF w]
      wire_laws.claim_Params_returns [OF w]
      wire_laws.claim_GenesisState_returns [OF w]
      wire_laws.claim_QueryParamsRequest_returns [OF w]
      wire_laws.claim_QueryParamsResponse_returns [OF w]
      wire_laws.QueryClaimRecordRequest_returns [OF w]
      wire_laws.QueryClaimRecordResponse_returns [OF w]
      wire_laws.QueryClaimableForActionRequest_returns [OF w]
      wire_laws.QueryClaimableForActionResponse_returns [OF w]
      wire_laws.MsgClaimEth_returns [OF w]
      wire_laws.MsgClaimEthResponse_returns [OF w]
      wire_laws.MsgClaimArkeo_returns [OF w]
      wire_laws.MsgClaimArkeoResponse_returns [OF w]
      wire_laws.MsgTransferClaim_returns [OF w]
      wire_laws.MsgTransferClaimResponse_returns [OF w]
      wire_laws.MsgAddClaim_returns [OF w]
      wire_laws.MsgAddClaimResponse_returns [OF w]
      wire_laws.MsgClaimThorchain_returns [OF w]
      wire_laws.MsgClaimThorchainResponse_returns [OF w]
      long_wire_laws.tc_authz_GenericAuthorization_returns [OF laws]
      long_wire_laws.tc_authz_Grant_returns [OF laws]
      long_wire_laws.tc_authz_GrantAuthorization_returns [OF laws]
      long_wire_laws.tc_authz_GrantQueueItem_returns [OF laws]
      long_wire_laws.tc_authz_EventGrant_returns [OF laws]
      long_wire_laws.tc_authz_EventRevoke_returns [OF laws]
      long_wire_laws.tc_authz_GenesisState_returns [OF laws]
      long_wire_laws.tc_authz_MsgGrant_returns [OF laws]
      long_wire_laws.tc_authz_MsgExecResponse_returns [OF laws]
      long_wire_laws.tc_authz_MsgExec_returns [OF laws]
      long_wire_laws.tc_authz_MsgGrantResponse_returns [OF laws]
      long_wire_laws.tc_authz_MsgRevoke_returns [OF laws]
      long_wire_laws.tc_authz_MsgRevokeResponse_returns [OF laws]
      long_wire_laws.tc_authz_QueryGrantsRequest_returns [OF laws]
      long_wire_laws.tc_authz_QueryGrantsResponse_returns [OF laws]
      long_wire_laws.tc_authz_QueryGranterGrantsRequest_returns [OF laws]
      long_wire_laws.tc_authz_QueryGranterGrantsResponse_returns [OF laws]
      long_wire_laws.tc_authz_QueryGranteeGrantsRequest_returns [OF laws]
      long_wire_laws.tc_authz_QueryGranteeGrantsResponse_returns [OF laws]
      long_wire_laws.tc_bank_SendEnabled_returns [OF laws]
      long_wire_laws.tc_bank_Params_returns [OF laws]
      long_wire_laws.tc_bank_Input_returns [OF laws]
      long_wire_laws.tc_bank_Output_returns [OF laws]
      long_wire_laws.tc_bank_Supply_returns [OF laws]
      long_wire_laws.tc_bank_DenomUnit_returns [OF laws]
      long_wire_laws.tc_bank_Metadata_returns [OF laws]
      long_wire_laws.tc_bank_SendAuthorization_returns [OF laws]
      long_wire_laws.tc_bank_Balance_returns [OF laws]
      long_wire_laws.tc_bank_GenesisState_returns [OF laws]
      long_wire_laws.tc_bank_QueryBalanceRequest_returns [OF laws]
      long_wire_laws.tc_bank_QueryBalanceResponse_returns [OF laws]
      long_wire_laws.tc_bank_QueryAllBalancesRequest_returns [OF laws]
      long_wire_laws.tc_bank_QueryAllBalancesResponse_returns [OF laws]
      long_wire_laws.tc_bank_QuerySpendableBalancesRequest_returns [OF laws]
      long_wire_laws.tc_bank_QuerySpendableBalancesResponse_returns [OF laws]
      long_wire_laws.tc_bank_QueryTotalSupplyRequest_returns [OF laws]
      long_wire_laws.tc_bank_QueryTotalSupplyResponse_returns [OF laws]
      long_wire_laws.tc_bank_QuerySupplyOfRequest_returns [OF laws]
      long_wire_laws.tc_bank_QuerySupplyOfResponse_returns [OF laws]
      long_wire_laws.tc_bank_QueryParamsRequest_returns [OF laws]
      long_wire_laws.tc_bank_QueryParamsResponse_returns [OF laws]
      long_wire_laws.tc_bank_QueryDenomsMetadataRequest_returns [OF laws]
      long_wire_laws.tc_bank_QueryDenomsMetadataResponse_returns [OF laws]
      long_wire_laws.tc_bank_QueryDenomMetadataRequest_returns [OF laws]
      long_wire_laws.tc_bank_QueryDenomMetadataResponse_returns [OF laws]
      long_wire_laws.tc_bank_QueryDenomOwnersRequest_returns [OF laws]
      long_wire_laws.tc_bank_DenomOwner_returns [OF laws]
      long_wire_laws.tc_bank_QueryDenomOwnersResponse_returns [OF laws]
      long_wire_laws.tc_bank_MsgSend_returns [OF laws]
      long_wire_laws.tc_bank_MsgSendResponse_returns [OF laws]
      long_wire_laws.tc_bank_MsgMultiSend_returns [OF laws]
      long_wire_laws.tc_bank_MsgMultiSendResponse_returns [OF laws]
      long_wire_laws.tc_crisis_GenesisState_returns [OF laws]
      long_wire_laws.tc_crisis_MsgVerifyInvariant_returns [OF laws]
      long_wire_laws.tc_crisis_MsgVerifyInvariantResponse_returns [OF laws]
      long_wire_laws.tc_gov_WeightedVoteOption_returns [OF laws]
      long_wire_laws.tc_gov_TextProposal_returns [OF laws]
      long_wire_laws.tc_gov_Deposit_returns [OF laws]
      long_wire_laws.tc_gov_TallyResult_returns [OF laws]
      long_wire_laws.tc_gov_Proposal_returns [OF laws]
      long_wire_laws.tc_gov_Vote_returns [OF laws]
      long_wire_laws.tc_gov_DepositParams_returns [OF laws]
      long_wire_laws.tc_gov_VotingParams_returns [OF laws]
      long_wire_laws.tc_gov_TallyParams_returns [OF laws]
      long_wire_laws.tc_gov_GenesisState_returns [OF laws]
      long_wire_laws.tc_gov_QueryProposalRequest_returns [OF laws]
      long_wire_laws.tc_gov_QueryProposalResponse_returns [OF laws]
      long_wire_laws.tc_gov_QueryProposalsRequest_returns [OF laws]
      long_wire_laws.tc_gov_QueryProposalsResponse_returns [OF laws]
      long_wire_laws.tc_gov_QueryVoteRequest_returns [OF laws]
      long_wire_laws.tc_gov_QueryVoteResponse_returns [OF laws]
      long_wire_laws.tc_gov_QueryVotesRequest_returns [OF laws]
      long_wire_laws.tc_gov_QueryVotesResponse_returns [OF laws]
      long_wire_laws.tc_gov_QueryParamsRequest_returns [OF laws]
      long_wire_laws.tc_gov_QueryParamsResponse_returns [OF laws]
      long_wire_laws.tc_gov_QueryDepositRequest_returns [OF laws]
      long_wire_laws.tc_gov_QueryDepositResponse_returns [OF laws]
      long_wire_laws.tc_gov_QueryDepositsRequest_returns [OF laws]
      long_wire_laws.tc_gov_QueryDepositsResponse_returns [OF laws]
      long_wire_laws.tc_gov_QueryTallyResultRequest_returns [OF laws]
      long_wire_laws.tc_gov_QueryTallyResultResponse_returns [OF laws]
      long_wire_laws.tc_gov_MsgSubmitProposal_returns [OF laws]
      long_wire_laws.tc_gov_MsgSubmitProposalResponse_returns [OF laws]
      long_wire_laws.tc_gov_MsgVote_returns [OF laws]
      long_wire_laws.tc_gov_MsgVoteResponse_returns [OF laws]
      long_wire_laws.tc_gov_MsgVoteWeighted_returns [OF laws]
      long_wire_laws.tc_gov_MsgVoteWeightedResponse_returns [OF laws]
      long_wire_laws.tc_gov_MsgDeposit_returns [OF laws]
      long_wire_laws.tc_gov_MsgDepositResponse_returns [OF laws]
      long_wire_laws.tc_Any_returns [OF laws]
      wire_laws.FieldDescriptorProto_returns [OF w]
      wire_laws.EnumValueDescriptorProto_returns [OF w]
      wire_laws.EnumDescriptorProto_EnumReservedRange_returns [OF w]
      wire_laws.EnumDescriptorProto_returns [OF w]
      wire_laws.DescriptorProto_ExtensionRange_returns [OF w]
      wire_laws.OneofDescriptorProto_returns [OF w]
      wire_laws.DescriptorProto_ReservedRange_returns [OF w]
      wire_laws.MethodDescriptorProto_returns [OF w]
      wire_laws.ServiceDescriptorProto_returns [OF w]
      wire_laws.SourceCodeInfo_Location_returns [OF w]
      wire_laws.SourceCodeInfo_returns [OF w]
      wire_laws.GeneratedCodeInfo_Annotation_returns [OF w]
      wire_laws.GeneratedCodeInfo_returns [OF w]
      wire_laws.DescriptorProto_returns [OF w]
      wire_laws.FileDescriptorProto_returns [OF w]
      wire_laws.FileDescriptorSet_returns [OF w]
      wire_laws.FieldOptions_EditionDefault_returns [OF w]
      wire_laws.FeatureSet_returns [OF w]
      wire_laws.FieldOptions_FeatureSupport_returns [OF w]
      wire_laws.UninterpretedOption_NamePart_returns [OF w]
      wire_laws.UninterpretedOption_returns [OF w]
      wire_laws.FieldOptions_returns [OF w]
      wire_laws.EnumValueOptions_returns [OF w]
      wire_laws.EnumOptions_returns [OF w]
      wire_laws.ExtensionRangeOptions_Declaration_returns [OF w]
      wire_laws.ExtensionRangeOptions_returns [OF w]
      wire_laws.OneofOptions_returns [OF w]
      wire_laws.MessageOptions_returns [OF w]
      wire_laws.MethodOptions_returns [OF w]
      wire_laws.ServiceOptions_returns [OF w]
      wire_laws.FileOptions_returns [OF w]
      wire_laws.FeatureSetDefaults_FeatureSetEditionDefault_returns [OF w]
      wire_laws.FeatureSetDefaults_returns [OF w]
      wire_laws.EventBondProvider_returns [OF w]
      wire_laws.EventModProvider_returns [OF w]
      wire_laws.EventOpenContract_returns [OF w]
      wire_laws.EventSettleContract_returns [OF w]
      wire_laws.EventCloseContract_returns [OF w]
      wire_laws.EventValidatorPayout_returns [OF w]
      wire_laws.ValidatorVersion_returns [OF w]
      wire_laws.GenesisState_returns [OF w]
      wire_laws.CustomHttpPattern_returns [OF w]
      wire_laws.HttpRule_returns [OF w]
      wire_laws.Http_returns [OF w]
      wire_laws.InterfaceDescriptor_returns [OF w]
      wire_laws.ScalarDescriptor_returns [OF w]
      wire_laws.Provider_returns [OF w]
      wire_laws.ContractSet_returns [OF w]
      wire_laws.ContractExpirationSet_returns [OF w]
      wire_laws.UserContractSet_returns [OF w]
      wire_laws.Service_returns [OF w]
      wire_laws.ProtoInt64_returns [OF w]
      wire_laws.ProtoUint64_returns [OF w]
      wire_laws.ProtoAccAddresses_returns [OF w]
      wire_laws.ProtoStrings_returns [OF w]
      wire_laws.ProtoBools_returns [OF w]
      wire_laws.Params_returns [OF w]
      wire_laws.QueryAllServicesRequest_returns [OF w]
      wire_laws.ServiceEnum_returns [OF w]
      wire_laws.QueryAllServicesResponse_returns [OF w]
      wire_laws.QueryServiceRequest_returns [OF w]
      wire_laws.QueryServiceResponse_returns [OF w]
      wire_laws.QueryParamsRequest_returns [OF w]
      wire_laws.QueryParamsResponse_returns [OF w]
      wire_laws.QueryFetchProviderRequest_returns [OF w]
      wire_laws.QueryFetchProviderResponse_returns [OF w]
      wire_laws.QueryAllProviderRequest_returns [OF w]
      wire_laws.QueryAllProviderResponse_returns [OF w]
      wire_laws.QueryFetchContractRequest_returns [OF w]
      wire_laws.QueryFetchContractResponse_returns [OF w]
      wire_laws.QueryAllContractRequest_returns [OF w]
      wire_laws.QueryAllContractResponse_returns [OF w]
      wire_laws.QueryActiveContractRequest_returns [OF w]
      wire_laws.QueryActiveContractResponse_returns [OF w]
      long_wire_laws.tc_Coin_returns [OF laws]
      long_wire_laws.tc_DecCoin_returns [OF laws]
      long_wire_laws.tc_IntProto_returns [OF laws]
      long_wire_laws.tc_DecProto_returns [OF laws]
      long_wire_laws.tc_PageRequest_returns [OF laws]
      long_wire_laws.tc_PageResponse_returns [OF laws]
      long_wire_laws.tc_Provider_returns [OF laws]
      long_wire_laws.tc_Contract_returns [OF laws]
      long_wire_laws.tc_ContractSet_returns [OF laws]
      long_wire_laws.tc_ContractExpirationSet_returns [OF laws]
      long_wire_laws.tc_UserContractSet_returns [OF laws]
      long_wire_laws.tc_Duration_returns [OF laws]
      long_wire_laws.tc_Timestamp_returns [OF laws]
      long_wire_laws.tc_ClaimRecord_returns [OF laws]
      long_wire_laws.tc_claim_Params_returns [OF laws]
      long_wire_laws.tc_claim_GenesisState_returns [OF laws]
      long_wire_laws.tc_MsgClaimEth_returns [OF laws]
      long_wire_laws.tc_MsgClaimEthResponse_returns [OF laws]
      long_wire_laws.tc_MsgClaimArkeo_returns [OF laws]
      long_wire_laws.tc_MsgClaimArkeoResponse_returns [OF laws]
      long_wire_laws.tc_MsgTransferClaim_returns [OF laws]
      long_wire_laws.tc_MsgTransferClaimResponse_returns [OF laws]
      long_wire_laws.tc_MsgAddClaim_returns [OF laws]
      long_wire_laws.tc_MsgAddClaimResponse_returns [OF laws]
      long_wire_laws.tc_claim_QueryParamsRequest_returns [OF laws]
      long_wire_laws.tc_claim_QueryParamsResponse_returns [OF laws]
      long_wire_laws.tc_QueryClaimRecordRequest_returns [OF laws]
      long_wire_laws.tc_QueryClaimRecordResponse_returns [OF laws]
      long_wire_laws.tc_EventBondProvider_returns [OF laws]
      long_wire_laws.tc_EventModProvider_returns [OF laws]
      long_wire_laws.tc_EventOpenContract_returns [OF laws]
      long_wire_laws.tc_EventSettleContract_returns [OF laws]
      long_wire_laws.tc_EventCloseContract_returns [OF laws]
      long_wire_laws.tc_EventValidatorPayout_returns [OF laws]
      long_wire_laws.tc_QueryParamsRequest_returns [OF laws]
      long_wire_laws.tc_QueryParamsResponse_returns [OF laws]
      long_wire_laws.tc_QueryFetchProviderRequest_returns [OF laws]
      long_wire_laws.tc_QueryFetchProviderResponse_returns [OF laws]
      long_wire_laws.tc_QueryAllProviderRequest_returns [OF laws]
      long_wire_laws.tc_QueryAllProviderResponse_returns [OF laws]
      long_wire_laws.tc_QueryFetchContractRequest_returns [OF laws]
      long_wire_laws.tc_QueryFetchContractResponse_returns [OF laws]
      long_wire_laws.tc_QueryAllContractRequest_returns [OF laws]
      long_wire_laws.tc_QueryAllContractResponse_returns [OF laws]
      long_wire_laws.tc_QueryActiveContractRequest_returns [OF laws]
      long_wire_laws.tc_QueryActiveContractResponse_returns [OF laws]
      long_wire_laws.tc_ProtoInt64_returns [OF laws]
      long_wire_laws.tc_ProtoUint64_returns [OF laws]
      long_wire_laws.tc_ProtoAccAddresses_returns [OF laws]
      long_wire_laws.tc_ProtoStrings_returns [OF laws]
      long_wire_laws.tc_ProtoBools_returns [OF laws]
      long_wire_laws.tc_Params_returns [OF laws]
      long_wire_laws.tc_GenesisState_returns [OF laws]
      long_wire_laws.tc_MsgBondProvider_returns [OF laws]
      long_wire_laws.tc_MsgBondProviderResponse_returns [OF laws]
      long_wire_laws.tc_MsgModProvider_returns [OF laws]
      long_wire_laws.tc_MsgModProviderResponse_returns [OF laws]
      long_wire_laws.tc_MsgOpenContract_returns [OF laws]
      long_wire_laws.tc_MsgOpenContractResponse_returns [OF laws]
      long_wire_laws.tc_MsgCloseContract_returns [OF laws]
      long_wire_laws.tc_MsgCloseContractResponse_returns [OF laws]
      long_wire_laws.tc_MsgClaimContractIncome_returns [OF laws]
      long_wire_laws.tc_MsgClaimContractIncomeResponse_returns [OF laws]
      long_wire_laws.tc_MsgSetVersion_returns [OF laws]
      long_wire_laws.tc_MsgSetVersionResponse_returns [OF laws]
      wire_laws.MsgBondProvider_returns [OF w]
      wire_laws.MsgBondProviderResponse_returns [OF w]
      wire_laws.MsgModProvider_returns [OF w]
      wire_laws.MsgModProviderResponse_returns [OF w]
      wire_laws.MsgOpenContract_returns [OF w]
      wire_laws.MsgOpenContractResponse_returns [OF w]
      wire_laws.MsgCloseContract_returns [OF w]
      wire_laws.MsgCloseContractResponse_returns [OF w]
      wire_laws.MsgClaimContractIncome_returns [OF w]
      wire_laws.MsgClaimContractIncomeResponse_returns [OF w]
      wire_laws.MsgSetVersion_returns [OF w]
      wire_laws.MsgSetVersionResponse_returns [OF w]
      wire_laws.MsgRegisterService_returns [OF w]
      wire_laws.MsgRegisterServiceResponse_returns [OF w]
      wire_laws.MsgUpdateService_returns [OF w]
      wire_laws.MsgUpdateServiceResponse_returns [OF w]
      wire_laws.MsgRemoveService_returns [OF w]
      wire_laws.MsgRemoveServiceResponse_returns [OF w])
qed

theorem decode_returns_or_throws_witness:
  "long_wire_laws pb_wire pb_format pb_out snd pb_long \<and>
    decode_Contract pb_wire (ABuffer [10, 255, 255, 1]) None \<noteq> Inl Diverges"
  using decode_returns_or_throws [OF pbl.long_wire_laws_axioms, where input = "ABuffer [10, 255, 255, 1]" and len = None, THEN conjunct1]
    pbl.long_wire_laws_axioms by simp

text \<open>
  C24. Every transaction of the Cosmos modules of \<open>ts-client\<close> that are modelled, and every answer to one that has fields, survives encoding and decoding: transfers, proposals, deposits and votes, grants, revocations and executions of authorizations, and invariants to verify, with dates in whole seconds and safe integers.
\<close>

theorem cosmos_tx_roundtrip:
  assumes laws: "long_wire_laws L F out inp G"
  shows "(\<forall>m. wf_tc_bank_MsgSend L m \<longrightarrow> roundtrips L inp (encode_tc_bank_MsgSend L) (decode_tc_bank_MsgSend L G) m)
    \<and> (\<forall>m. wf_tc_bank_MsgMultiSend L m \<longrightarrow> roundtrips L inp (encode_tc_bank_MsgMultiSend L) (decode_tc_bank_MsgMultiSend L G) m)
    \<and> (\<forall>m. wf_tc_authz_MsgGrant L m \<longrightarrow> roundtrips L inp (encode_tc_authz_MsgGrant L) (decode_tc_authz_MsgGrant L G) m)
    \<and> (\<forall>m. wf_tc_authz_MsgExec L m \<longrightarrow> roundtrips L inp (encode_tc_authz_MsgExec L) (decode_tc_authz_MsgExec L G) m)
    \<and> (\<forall>m. wf_tc_authz_MsgExecResponse L m \<longrightarrow> roundtrips L inp (encode_tc_authz_MsgExecResponse L) (decode_tc_authz_MsgExecResponse L G) m)
    \<and> (\<forall>m. wf_tc_authz_MsgRevoke L m \<longrightarrow> roundtrips L inp (encode_tc_authz_MsgRevoke L) (decode_tc_authz_MsgRevoke L G) m)
    \<and> (\<forall>m. wf_tc_gov_MsgSubmitProposal L m \<longrightarrow> roundtrips L inp (encode_tc_gov_MsgSubmitProposal L) (decode_tc_gov_MsgSubmitProposal L G) m)
    \<and> (\<forall>m. wf_tc_gov_MsgSubmitProposalResponse L m \<longrightarrow> roundtrips L inp (encode_tc_gov_MsgSubmitProposalResponse L) (decode_tc_gov_MsgSubmitProposalResponse L G) m)
    \<and> (\<forall>m. wf_tc_gov_MsgVote L m \<longrightarrow> roundtrips L inp (encode_tc_gov_MsgVote L) (decode_tc_gov_MsgVote L G) m)
    \<and> (\<forall>m. wf_tc_gov_MsgVoteWeighted L m \<longrightarrow> roundtrips L inp (encode_tc_gov_MsgVoteWeighted L) (decode_tc_gov_MsgVoteWeighted L G) m)
    \<and> (\<forall>m. wf_tc_gov_MsgDeposit L m \<longrightarrow> roundtrips L inp (encode_tc_gov_MsgDeposit L) (decode_tc_gov_MsgDeposit L G) m)
    \<and> (\<forall>m. wf_tc_crisis_MsgVerifyInvariant L m \<longrightarrow> roundtrips L inp (encode_tc_crisis_MsgVerifyInvariant L) (decode_tc_crisis_MsgVerifyInvariant L G) m)"
  by (intro conjI allI impI;
      rule long_wire_laws.tc_bank_MsgSend_roundtrip [OF laws]
        long_wire_laws.tc_bank_MsgMultiSend_roundtrip [OF laws]
        long_wire_laws.tc_authz_MsgGrant_roundtrip [OF laws]
        long_wire_laws.tc_authz_MsgExec_roundtrip [OF laws]
        long_wire_laws.tc_authz_MsgExecResponse_roundtrip [OF laws]
        long_wire_laws.tc_authz_MsgRevoke_roundtrip [OF laws]
        long_wire_laws.tc_gov_MsgSubmitProposal_roundtrip [OF laws]
        long_wire_laws.tc_gov_MsgSubmitProposalResponse_roundtrip [OF laws]
        long_wire_laws.tc_gov_MsgVote_roundtrip [OF laws]
        long_wire_laws.tc_gov_MsgVoteWeighted_roundtrip [OF laws]
        long_wire_laws.tc_gov_MsgDeposit_roundtrip [OF laws]
        long_wire_laws.tc_crisis_MsgVerifyInvariant_roundtrip [OF laws];
      assumption)

theorem cosmos_tx_roundtrip_witness:
  "long_wire_laws pb_wire pb_format pb_out snd pb_long \<and> wf_tc_bank_MsgSend pb_wire sample_bank_MsgSend
    \<and> roundtrips pb_wire snd (encode_tc_bank_MsgSend pb_wire) (decode_tc_bank_MsgSend pb_wire pb_long) sample_bank_MsgSend"
  using cosmos_tx_roundtrip [OF pbl.long_wire_laws_axioms, THEN conjunct1] pbl.long_wire_laws_axioms by simp

text \<open>
  C25. The answers to the queries of the Cosmos modules of \<open>ts-client\<close> survive encoding and decoding, with the stored objects they contain, dates in whole seconds and 32-bit fields below \<open>2 ^ 32\<close>.
\<close>

theorem cosmos_query_roundtrip:
  assumes laws: "long_wire_laws L F out inp G"
  shows "(\<forall>m. wf_tc_bank_QueryBalanceResponse L m \<longrightarrow> roundtrips L inp (encode_tc_bank_QueryBalanceResponse L) (decode_tc_bank_QueryBalanceResponse L G) m)
    \<and> (\<forall>m. wf_tc_bank_QueryAllBalancesResponse L m \<longrightarrow> roundtrips L inp (encode_tc_bank_QueryAllBalancesResponse L) (decode_tc_bank_QueryAllBalancesResponse L G) m)
    \<and> (\<forall>m. wf_tc_bank_QuerySpendableBalancesResponse L m \<longrightarrow> roundtrips L inp (encode_tc_bank_QuerySpendableBalancesResponse L) (decode_tc_bank_QuerySpendableBalancesResponse L G) m)
    \<and> (\<forall>m. wf_tc_bank_QueryTotalSupplyResponse L m \<longrightarrow> roundtrips L inp (encode_tc_bank_QueryTotalSupplyResponse L) (decode_tc_bank_QueryTotalSupplyResponse L G) m)
    \<and> (\<forall>m. wf_tc_bank_QuerySupplyOfResponse L m \<longrightarrow> roundtrips L inp (encode_tc_bank_QuerySupplyOfResponse L) (decode_tc_bank_QuerySupplyOfResponse L G) m)
    \<and> (\<forall>m. wf_tc_bank_QueryParamsResponse L m \<longrightarrow> roundtrips L inp (encode_tc_bank_QueryParamsResponse L) (decode_tc_bank_QueryParamsResponse L G) m)
    \<and> (\<forall>m. wf_tc_bank_QueryDenomMetadataResponse L m \<longrightarrow> roundtrips L inp (encode_tc_bank_QueryDenomMetadataResponse L) (decode_tc_bank_QueryDenomMetadataResponse L G) m)
    \<and> (\<forall>m. wf_tc_bank_QueryDenomsMetadataResponse L m \<longrightarrow> roundtrips L inp (encode_tc_bank_QueryDenomsMetadataResponse L) (decode_tc_bank_QueryDenomsMetadataResponse L G) m)
    \<and> (\<forall>m. wf_tc_bank_QueryDenomOwnersResponse L m \<longrightarrow> roundtrips L inp (encode_tc_bank_QueryDenomOwnersResponse L) (decode_tc_bank_QueryDenomOwnersResponse L G) m)
    \<and> (\<forall>m. wf_tc_authz_QueryGrantsResponse L m \<longrightarrow> roundtrips L inp (encode_tc_authz_QueryGrantsResponse L) (decode_tc_authz_QueryGrantsResponse L G) m)
    \<and> (\<forall>m. wf_tc_authz_QueryGranterGrantsResponse L m \<longrightarrow> roundtrips L inp (encode_tc_authz_QueryGranterGrantsResponse L) (decode_tc_authz_QueryGranterGrantsResponse L G) m)
    \<and> (\<forall>m. wf_tc_authz_QueryGranteeGrantsResponse L m \<longrightarrow> roundtrips L inp (encode_tc_authz_QueryGranteeGrantsResponse L) (decode_tc_authz_QueryGranteeGrantsResponse L G) m)
    \<and> (\<forall>m. wf_tc_gov_QueryProposalResponse L m \<longrightarrow> roundtrips L inp (encode_tc_gov_QueryProposalResponse L) (decode_tc_gov_QueryProposalResponse L G) m)
    \<and> (\<forall>m. wf_tc_gov_QueryProposalsResponse L m \<longrightarrow> roundtrips L inp (encode_tc_gov_QueryProposalsResponse L) (decode_tc_gov_QueryProposalsResponse L G) m)
    \<and> (\<forall>m. wf_tc_gov_QueryVoteResponse L m \<longrightarrow> roundtrips L inp (encode_tc_gov_QueryVoteResponse L) (decode_tc_gov_QueryVoteResponse L G) m)
    \<and> (\<forall>m. wf_tc_gov_QueryVotesResponse L m \<longrightarrow> roundtrips L inp (encode_tc_gov_QueryVotesResponse L) (decode_tc_gov_QueryVotesResponse L G) m)
    \<and> (\<forall>m. wf_tc_gov_QueryParamsResponse L m \<longrightarrow> roundtrips L inp (encode_tc_gov_QueryParamsResponse L) (decode_tc_gov_QueryParamsResponse L G) m)
    \<and> (\<forall>m. wf_tc_gov_QueryDepositResponse L m \<longrightarrow> roundtrips L inp (encode_tc_gov_QueryDepositResponse L) (decode_tc_gov_QueryDepositResponse L G) m)
    \<and> (\<forall>m. wf_tc_gov_QueryDepositsResponse L m \<longrightarrow> roundtrips L inp (encode_tc_gov_QueryDepositsResponse L) (decode_tc_gov_QueryDepositsResponse L G) m)
    \<and> (\<forall>m. wf_tc_gov_QueryTallyResultResponse L m \<longrightarrow> roundtrips L inp (encode_tc_gov_QueryTallyResultResponse L) (decode_tc_gov_QueryTallyResultResponse L G) m)"
  by (intro conjI allI impI;
      rule long_wire_laws.tc_bank_QueryBalanceResponse_roundtrip [OF laws]
        long_wire_laws.tc_bank_QueryAllBalancesResponse_roundtrip [OF laws]
        long_wire_laws.tc_bank_QuerySpendableBalancesResponse_roundtrip [OF laws]
        long_wire_laws.tc_bank_QueryTotalSupplyResponse_roundtrip [OF laws]
        long_wire_laws.tc_bank_QuerySupplyOfResponse_roundtrip [OF laws]
        long_wire_laws.tc_bank_QueryParamsResponse_roundtrip [OF laws]
        long_wire_laws.tc_bank_QueryDenomMetadataResponse_roundtrip [OF laws]
        long_wire_laws.tc_bank_QueryDenomsMetadataResponse_roundtrip [OF laws]
        long_wire_laws.tc_bank_QueryDenomOwnersResponse_roundtrip [OF laws]
        long_wire_laws.tc_authz_QueryGrantsResponse_roundtrip [OF laws]
        long_wire_laws.tc_authz_QueryGranterGrantsResponse_roundtrip [OF laws]
        long_wire_laws.tc_authz_QueryGranteeGrantsResponse_roundtrip [OF laws]
        long_wire_laws.tc_gov_QueryProposalResponse_roundtrip [OF laws]
        long_wire_laws.tc_gov_QueryProposalsResponse_roundtrip [OF laws]
        long_wire_laws.tc_gov_QueryVoteResponse_roundtrip [OF laws]
        long_wire_laws.tc_gov_QueryVotesResponse_roundtrip [OF laws]
        long_wire_laws.tc_gov_QueryParamsResponse_roundtrip [OF laws]
        long_wire_laws.tc_gov_QueryDepositResponse_roundtrip [OF laws]
        long_wire_laws.tc_gov_QueryDepositsResponse_roundtrip [OF laws]
        long_wire_laws.tc_gov_QueryTallyResultResponse_roundtrip [OF laws];
      assumption)

theorem cosmos_query_roundtrip_witness:
  "long_wire_laws pb_wire pb_format pb_out snd pb_long \<and> wf_tc_bank_QueryBalanceResponse pb_wire sample_bank_QueryBalanceResponse
    \<and> roundtrips pb_wire snd (encode_tc_bank_QueryBalanceResponse pb_wire) (decode_tc_bank_QueryBalanceResponse pb_wire pb_long) sample_bank_QueryBalanceResponse"
  using cosmos_query_roundtrip [OF pbl.long_wire_laws_axioms, THEN conjunct1] pbl.long_wire_laws_axioms by simp

text \<open>
  C26. Every method of the gRPC clients of the Cosmos modules refines its handler: over any transport whose remote end runs a handler behind the codecs of the method, under the name of the service and of the method, a call has the outcome and the effect of the handler, for requests and answers the wire format can carry. No two methods are mixed up.
\<close>

theorem cosmos_clients_refine:
  assumes laws: "long_wire_laws L F out inp G"
  shows "(refines_handler L (decode_tc_bank_MsgSend L G) (encode_tc_bank_MsgSendResponse L) (wf_tc_bank_MsgSend L) (wf_tc_bank_MsgSendResponse L)
     (tc_bank_MsgClientImpl_Send L G) (js ''cosmos.bank.v1beta1.Msg'') (js ''Send''))
    \<and> (refines_handler L (decode_tc_bank_MsgMultiSend L G) (encode_tc_bank_MsgMultiSendResponse L) (wf_tc_bank_MsgMultiSend L) (wf_tc_bank_MsgMultiSendResponse L)
     (tc_bank_MsgClientImpl_MultiSend L G) (js ''cosmos.bank.v1beta1.Msg'') (js ''MultiSend''))
    \<and> (refines_handler L (decode_tc_bank_QueryBalanceRequest L G) (encode_tc_bank_QueryBalanceResponse L) (wf_tc_bank_QueryBalanceRequest L) (wf_tc_bank_QueryBalanceResponse L)
     (tc_bank_QueryClientImpl_Balance L G) (js ''cosmos.bank.v1beta1.Query'') (js ''Balance''))
    \<and> (refines_handler L (decode_tc_bank_QueryAllBalancesRequest L G) (encode_tc_bank_QueryAllBalancesResponse L) (wf_tc_bank_QueryAllBalancesRequest L) (wf_tc_bank_QueryAllBalancesResponse L)
     (tc_bank_QueryClientImpl_AllBalances L G) (js ''cosmos.bank.v1beta1.Query'') (js ''AllBalances''))
    \<and> (refines_handler L (decode_tc_bank_QuerySpendableBalancesRequest L G) (encode_tc_bank_QuerySpendableBalancesResponse L) (wf_tc_bank_QuerySpendableBalancesRequest L) (wf_tc_bank_QuerySpendableBalancesResponse L)
     (tc_bank_QueryClientImpl_SpendableBalances L G) (js ''cosmos.bank.v1beta1.Query'') (js ''SpendableBalances''))
    \<and> (refines_handler L (decode_tc_bank_QueryTotalSupplyRequest L G) (encode_tc_bank_QueryTotalSupplyResponse L) (wf_tc_bank_QueryTotalSupplyRequest L) (wf_tc_bank_QueryTotalSupplyResponse L)
     (tc_bank_QueryClientImpl_TotalSupply L G) (js ''cosmos.bank.v1beta1.Query'') (js ''TotalSupply''))
    \<and> (refines_handler L (decode_tc_bank_QuerySupplyOfRequest L G) (encode_tc_bank_QuerySupplyOfResponse L) (wf_tc_bank_QuerySupplyOfRequest L) (wf_tc_bank_QuerySupplyOfResponse L)
     (tc_bank_QueryClientImpl_SupplyOf L G) (js ''cosmos.bank.v1beta1.Query'') (js ''SupplyOf''))
    \<and> (refines_handler L (decode_tc_bank_QueryParamsRequest L G) (encode_tc_bank_QueryParamsResponse L) (wf_tc_bank_QueryParamsRequest L) (wf_tc_bank_QueryParamsResponse L)
     (tc_bank_QueryClientImpl_Params L G) (js ''cosmos.bank.v1beta1.Query'') (js ''Params''))
    \<and> (refines_handler L (decode_tc_bank_QueryDenomMetadataRequest L G) (encode_tc_bank_QueryDenomMetadataResponse L) (wf_tc_bank_QueryDenomMetadataRequest L) (wf_tc_bank_QueryDenomMetadataResponse L)
     (tc_bank_QueryClientImpl_DenomMetadata L G) (js ''cosmos.bank.v1beta1.Query'') (js ''DenomMetadata''))
    \<and> (refines_handler L (decode_tc_bank_QueryDenomsMetadataRequest L G) (encode_tc_bank_QueryDenomsMetadataResponse L) (wf_tc_bank_QueryDenomsMetadataRequest L) (wf_tc_bank_QueryDenomsMetadataResponse L)
     (tc_bank_QueryClientImpl_DenomsMetadata L G) (js ''cosmos.bank.v1beta1.Query'') (js ''DenomsMetadata''))
    \<and> (refines_handler L (decode_tc_bank_QueryDenomOwnersRequest L G) (encode_tc_bank_QueryDenomOwnersResponse L) (wf_tc_bank_QueryDenomOwnersRequest L) (wf_tc_bank_QueryDenomOwnersResponse L)
     (tc_bank_QueryClientImpl_DenomOwners L G) (js ''cosmos.bank.v1beta1.Query'') (js ''DenomOwners''))
    \<and> (refines_handler L (decode_tc_authz_MsgGrant L G) (encode_tc_authz_MsgGrantResponse L) (wf_tc_authz_MsgGrant L) (wf_tc_authz_MsgGrantResponse L)
     (tc_authz_MsgClientImpl_Grant L G) (js ''cosmos.authz.v1beta1.Msg'') (js ''Grant''))
    \<and> (refines_handler L (decode_tc_authz_MsgExec L G) (encode_tc_authz_MsgExecResponse L) (wf_tc_authz_MsgExec L) (wf_tc_authz_MsgExecResponse L)
     (tc_authz_MsgClientImpl_Exec L G) (js ''cosmos.authz.v1beta1.Msg'') (js ''Exec''))
    \<and> (refines_handler L (decode_tc_authz_MsgRevoke L G) (encode_tc_authz_MsgRevokeResponse L) (wf_tc_authz_MsgRevoke L) (wf_tc_authz_MsgRevokeResponse L)
     (tc_authz_MsgClientImpl_Revoke L G) (js ''cosmos.authz.v1beta1.Msg'') (js ''Revoke''))
    \<and> (refines_handler L (decode_tc_authz_QueryGrantsRequest L G) (encode_tc_authz_QueryGrantsResponse L) (wf_tc_authz_QueryGrantsRequest L) (wf_tc_authz_QueryGrantsResponse L)
     (tc_authz_QueryClientImpl_Grants L G) (js ''cosmos.authz.v1beta1.Query'') (js ''Grants''))
    \<and> (refines_handler L (decode_tc_authz_QueryGranterGrantsRequest L G) (encode_tc_authz_QueryGranterGrantsResponse L) (wf_tc_authz_QueryGranterGrantsRequest L) (wf_tc_authz_QueryGranterGrantsResponse L)
     (tc_authz_QueryClientImpl_GranterGrants L G) (js ''cosmos.authz.v1beta1.Query'') (js ''GranterGrants''))
    \<and> (refines_handler L (decode_tc_authz_QueryGranteeGrantsRequest L G) (encode_tc_authz_QueryGranteeGrantsResponse L) (wf_tc_authz_QueryGranteeGrantsRequest L) (wf_tc_authz_QueryGranteeGrantsResponse L)
     (tc_authz_QueryClientImpl_GranteeGrants L G) (js ''cosmos.authz.v1beta1.Query'') (js ''GranteeGrants''))
    \<and> (refines_handler L (decode_tc_gov_MsgSubmitProposal L G) (encode_tc_gov_MsgSubmitProposalResponse L) (wf_tc_gov_MsgSubmitProposal L) (wf_tc_gov_MsgSubmitProposalResponse L)
     (tc_gov_MsgClientImpl_SubmitProposal L G) (js ''cosmos.gov.v1beta1.Msg'') (js ''SubmitProposal''))
    \<and> (refines_handler L (decode_tc_gov_MsgVote L G) (encode_tc_gov_MsgVoteResponse L) (wf_tc_gov_MsgVote L) (wf_tc_gov_MsgVoteResponse L)
     (tc_gov_MsgClientImpl_Vote L G) (js ''cosmos.gov.v1beta1.Msg'') (js ''Vote''))
    \<and> (refines_handler L (decode_tc_gov_MsgVoteWeighted L G) (encode_tc_gov_MsgVoteWeightedResponse L) (wf_tc_gov_MsgVoteWeighted L) (wf_tc_gov_MsgVoteWeightedResponse L)
     (tc_gov_MsgClientImpl_VoteWeighted L G) (js ''cosmos.gov.v1beta1.Msg'') (js ''VoteWeighted''))
    \<and> (refines_handler L (decode_tc_gov_MsgDeposit L G) (encode_tc_gov_MsgDepositResponse L) (wf_tc_gov_MsgDeposit L) (wf_tc_gov_MsgDepositResponse L)
     (tc_gov_MsgClientImpl_Deposit L G) (js ''cosmos.gov.v1beta1.Msg'') (js ''Deposit''))
    \<and> (refines_handler L (decode_tc_gov_QueryProposalRequest L G) (encode_tc_gov_QueryProposalResponse L) (wf_tc_gov_QueryProposalRequest L) (wf_tc_gov_QueryProposalResponse L)
     (tc_gov_QueryClientImpl_Proposal L G) (js ''cosmos.gov.v1beta1.Query'') (js ''Proposal''))
    \<and> (refines_handler L (decode_tc_gov_QueryProposalsRequest L G) (encode_tc_gov_QueryProposalsResponse L) (wf_tc_gov_QueryProposalsRequest L) (wf_tc_gov_QueryProposalsResponse L)
     (tc_gov_QueryClientImpl_Proposals L G) (js ''cosmos.gov.v1beta1.Query'') (js ''Proposals''))
    \<and> (refines_handler L (decode_tc_gov_QueryVoteRequest L G) (encode_tc_gov_QueryVoteResponse L) (wf_tc_gov_QueryVoteRequest L) (wf_tc_gov_QueryVoteResponse L)
     (tc_gov_QueryClientImpl_Vote L G) (js ''cosmos.gov.v1beta1.Query'') (js ''Vote''))
    \<and> (refines_handler L (decode_tc_gov_QueryVotesRequest L G) (encode_tc_gov_QueryVotesResponse L) (wf_tc_gov_QueryVotesRequest L) (wf_tc_gov_QueryVotesResponse L)
     (tc_gov_QueryClientImpl_Votes L G) (js ''cosmos.gov.v1beta1.Query'') (js ''Votes''))
    \<and> (refines_handler L (decode_tc_gov_QueryParamsRequest L G) (encode_tc_gov_QueryParamsResponse L) (wf_tc_gov_QueryParamsRequest L) (wf_tc_gov_QueryParamsResponse L)
     (tc_gov_QueryClientImpl_Params L G) (js ''cosmos.gov.v1beta1.Query'') (js ''Params''))
    \<and> (refines_handler L (decode_tc_gov_QueryDepositRequest L G) (encode_tc_gov_QueryDepositResponse L) (wf_tc_gov_QueryDepositRequest L) (wf_tc_gov_QueryDepositResponse L)
     (tc_gov_QueryClientImpl_Deposit L G) (js ''cosmos.gov.v1beta1.Query'') (js ''Deposit''))
    \<and> (refines_handler L (decode_tc_gov_QueryDepositsRequest L G) (encode_tc_gov_QueryDepositsResponse L) (wf_tc_gov_QueryDepositsRequest L) (wf_tc_gov_QueryDepositsResponse L)
     (tc_gov_QueryClientImpl_Deposits L G) (js ''cosmos.gov.v1beta1.Query'') (js ''Deposits''))
    \<and> (refines_handler L (decode_tc_gov_QueryTallyResultRequest L G) (encode_tc_gov_QueryTallyResultResponse L) (wf_tc_gov_QueryTallyResultRequest L) (wf_tc_gov_QueryTallyResultResponse L)
     (tc_gov_QueryClientImpl_TallyResult L G) (js ''cosmos.gov.v1beta1.Query'') (js ''TallyResult''))
    \<and> (refines_handler L (decode_tc_crisis_MsgVerifyInvariant L G) (encode_tc_crisis_MsgVerifyInvariantResponse L) (wf_tc_crisis_MsgVerifyInvariant L) (wf_tc_crisis_MsgVerifyInvariantResponse L)
     (tc_crisis_MsgClientImpl_VerifyInvariant L G) (js ''cosmos.crisis.v1beta1.Msg'') (js ''VerifyInvariant''))"
  by (intro conjI;
      rule long_wire_laws.tc_bank_MsgClientImpl_Send_refines [OF laws]
        long_wire_laws.tc_bank_MsgClientImpl_MultiSend_refines [OF laws]
        long_wire_laws.tc_bank_QueryClientImpl_Balance_refines [OF laws]
        long_wire_laws.tc_bank_QueryClientImpl_AllBalances_refines [OF laws]
        long_wire_laws.tc_bank_QueryClientImpl_SpendableBalances_refines [OF laws]
        long_wire_laws.tc_bank_QueryClientImpl_TotalSupply_refines [OF laws]
        long_wire_laws.tc_bank_QueryClientImpl_SupplyOf_refines [OF laws]
        long_wire_laws.tc_bank_QueryClientImpl_Params_refines [OF laws]
        long_wire_laws.tc_bank_QueryClientImpl_DenomMetadata_refines [OF laws]
        long_wire_laws.tc_bank_QueryClientImpl_DenomsMetadata_refines [OF laws]
        long_wire_laws.tc_bank_QueryClientImpl_DenomOwners_refines [OF laws]
        long_wire_laws.tc_authz_MsgClientImpl_Grant_refines [OF laws]
        long_wire_laws.tc_authz_MsgClientImpl_Exec_refines [OF laws]
        long_wire_laws.tc_authz_MsgClientImpl_Revoke_refines [OF laws]
        long_wire_laws.tc_authz_QueryClientImpl_Grants_refines [OF laws]
        long_wire_laws.tc_authz_QueryClientImpl_GranterGrants_refines [OF laws]
        long_wire_laws.tc_authz_QueryClientImpl_GranteeGrants_refines [OF laws]
        long_wire_laws.tc_gov_MsgClientImpl_SubmitProposal_refines [OF laws]
        long_wire_laws.tc_gov_MsgClientImpl_Vote_refines [OF laws]
        long_wire_laws.tc_gov_MsgClientImpl_VoteWeighted_refines [OF laws]
        long_wire_laws.tc_gov_MsgClientImpl_Deposit_refines [OF laws]
        long_wire_laws.tc_gov_QueryClientImpl_Proposal_refines [OF laws]
        long_wire_laws.tc_gov_QueryClientImpl_Proposals_refines [OF laws]
        long_wire_laws.tc_gov_QueryClientImpl_Vote_refines [OF laws]
        long_wire_laws.tc_gov_QueryClientImpl_Votes_refines [OF laws]
        long_wire_laws.tc_gov_QueryClientImpl_Params_refines [OF laws]
        long_wire_laws.tc_gov_QueryClientImpl_Deposit_refines [OF laws]
        long_wire_laws.tc_gov_QueryClientImpl_Deposits_refines [OF laws]
        long_wire_laws.tc_gov_QueryClientImpl_TallyResult_refines [OF laws]
        long_wire_laws.tc_crisis_MsgClientImpl_VerifyInvariant_refines [OF laws])

theorem cosmos_clients_refine_witness:
  "long_wire_laws pb_wire pb_format pb_out snd pb_long \<and> tc_bank_MsgClientImpl_Send pb_wire pb_long sample_bank_rpc sample_bank_MsgSend 3 = (Resolves tc_bank_MsgSendResponse, 4)"
  proof -
  have "refines_handler pb_wire (decode_tc_bank_MsgSend pb_wire pb_long) (encode_tc_bank_MsgSendResponse pb_wire) (wf_tc_bank_MsgSend pb_wire) (wf_tc_bank_MsgSendResponse pb_wire)
     (tc_bank_MsgClientImpl_Send pb_wire pb_long) (js ''cosmos.bank.v1beta1.Msg'') (js ''Send'')"
    by (rule cosmos_clients_refine [OF pbl.long_wire_laws_axioms, THEN conjunct1])
  from refines_handlerD [OF this, of sample_bank_rpc sample_bank_Send sample_bank_MsgSend 3] show ?thesis
    using pbl.long_wire_laws_axioms
    by (simp add: sample_bank_rpc_def sample_bank_Send_def direct_def wf_tc_bank_MsgSendResponse_def)
qed

end
